(* ===== verification/Prelude.thy ===== *)
theory Prelude
  imports Main "HOL-Library.Word" "HOL-Library.Sublist"
begin

text \<open>
  What the components share: sequencing of fallible computations (an error value of
  type \<open>'e\<close> on the left, a result on the right), a loop over a list that stops at the
  first error, and the collections the component proofs pass to \<open>simp\<close> and \<open>auto\<close>.
\<close>

section \<open>Collections\<close>

named_theorems codec_defs \<open>definitions of the wire codecs of the generated Go structs\<close>
named_theorems service_defs \<open>definitions of the generated Go client, server and helpers\<close>
named_theorems engine_defs \<open>definitions of the Ruby workflow engine that proofs unfold\<close>

section \<open>Fallible computations\<close>

text \<open>Run \<open>f\<close> on the result of \<open>r\<close>, unless \<open>r\<close> is an error.\<close>

fun and_then :: "'e + 'a \<Rightarrow> ('a \<Rightarrow> 'e + 'b) \<Rightarrow> 'e + 'b" where
  "and_then (Inl e) f = Inl e"
| "and_then (Inr x) f = f x"

lemma and_then_Inr_iff: "and_then r f = Inr y \<longleftrightarrow> (\<exists>x. r = Inr x \<and> f x = Inr y)"
  by (cases r) auto

lemma and_then_Inl_iff:
  "and_then r f = Inl e \<longleftrightarrow> r = Inl e \<or> (\<exists>x. r = Inr x \<and> f x = Inl e)"
  by (cases r) auto

lemma and_then_assoc: "and_then (and_then r f) g = and_then r (\<lambda>x. and_then (f x) g)"
  by (cases r) auto

lemma and_then_Inr_right [simp]: "and_then r Inr = r"
  by (cases r) auto

lemma and_then_cong [fundef_cong]:
  "r = r' \<Longrightarrow> (\<And>x. r' = Inr x \<Longrightarrow> f x = g x) \<Longrightarrow> and_then r f = and_then r' g"
  by (cases r') auto

text \<open>A loop over a list that threads a state and stops at the first error.\<close>

fun foldM :: "('s \<Rightarrow> 'a \<Rightarrow> 'e + 's) \<Rightarrow> 'a list \<Rightarrow> 's \<Rightarrow> 'e + 's" where
  "foldM f [] s = Inr s"
| "foldM f (x # xs) s = and_then (f s x) (foldM f xs)"

lemma foldM_Nil [simp]: "foldM f [] = Inr"
  by (simp add: fun_eq_iff)

lemma foldM_single [simp]: "foldM f [x] = (\<lambda>s. f s x)"
  by (simp add: fun_eq_iff)

lemma foldM_append: "foldM f (xs @ ys) s = and_then (foldM f xs s) (foldM f ys)"
  by (induction xs arbitrary: s) (auto simp: and_then_assoc cong: and_then_cong)

text \<open>An invariant that every step keeps holds when the loop ends.\<close>

lemma foldM_invariant:
  assumes "foldM f xs s = Inr t" and "P s"
    and "\<And>x s s'. x \<in> set xs \<Longrightarrow> P s \<Longrightarrow> f s x = Inr s' \<Longrightarrow> P s'"
  shows "P t"
  using assms
proof (induction xs arbitrary: s)
  case Nil
  then show ?case by simp
next
  case (Cons x xs)
  then obtain s' where s': "f s x = Inr s'" "foldM f xs s' = Inr t"
    by (auto simp: and_then_Inr_iff)
  with Cons.prems have "P s'" by (meson list.set_intros(1))
  with Cons.IH s' Cons.prems(3) show ?case by (meson list.set_intros(2))
qed

text \<open>When the loop ends without an error, so did every step of it.\<close>

lemma foldM_each: "foldM f xs s = Inr t \<Longrightarrow> x \<in> set xs \<Longrightarrow> \<exists>s s'. f s x = Inr s'"
  by (induction xs arbitrary: s) (auto simp: and_then_Inr_iff)

section \<open>Options\<close>

lemma option_rel_eq_cases:
  "(case x of None \<Rightarrow> a | Some y \<Rightarrow> a) = a"
  by (cases x) auto

text \<open>Ruby's and Go's "first that is set".\<close>

fun or_else :: "'a option \<Rightarrow> 'a option \<Rightarrow> 'a option" where
  "or_else (Some x) y = Some x"
| "or_else None y = y"

lemma or_else_None [simp]: "or_else x None = x"
  by (cases x) auto

lemma or_else_assoc: "or_else (or_else x y) z = or_else x (or_else y z)"
  by (cases x) auto

end
