(* ===== verification/GoErrorValues.thy ===== *)
theory GoErrorValues
  imports Prelude
begin

text \<open>
  The values that Go errors are made of: the exception structs of
  proxy/gen/shared/shared.go and the interface type \<open>error\<close>.
  A field that is a pointer or a byte slice is an option (\<open>None\<close> for \<open>nil\<close>); a
  required string is a plain string. A \<open>float64\<close> is given by its 64 bits.
\<close>

section \<open>Basic types\<close>

type_synonym bytes = "8 word list"

type_synonym float64 = "64 word"

section \<open>The exceptions\<close>

record BadRequestError =
  Message :: "string"

record InternalServiceError =
  Message :: "string"

record EntityNotExistsError =
  Message :: "string"

record ServiceBusyError =
  Message :: "string"

record ClientVersionNotSupportedError =
  FeatureVersion :: "string"
  ClientImpl :: "string"
  SupportedVersions :: "string"

record DomainNotActiveError =
  Message :: "string"
  DomainName :: "string"
  CurrentCluster :: "string"
  ActiveCluster :: "string"

record LimitExceededError =
  Message :: "string"

record WorkflowExecutionAlreadyStartedError =
  Message :: "string option"
  StartRequestId :: "string option"
  RunId :: "string option"

record CancellationAlreadyRequestedError =
  Message :: "string"

record DomainAlreadyExistsError =
  Message :: "string"

record QueryFailedError =
  Message :: "string"

text \<open>
  A value of Go's interface type \<open>error\<close>, other than \<open>nil\<close>: a pointer to an exception
  struct (which may itself be \<open>nil\<close>, a non-nil error holding a nil pointer), an error
  made by \<open>errors.New\<close> or by \<open>fmt.Errorf\<close> with one number or with strings, or an error of
  any other dynamic type, such as the transport's.
\<close>

datatype go_error =
    E_BadRequestError "BadRequestError option"
  | E_InternalServiceError "InternalServiceError option"
  | E_EntityNotExistsError "EntityNotExistsError option"
  | E_ServiceBusyError "ServiceBusyError option"
  | E_ClientVersionNotSupportedError "ClientVersionNotSupportedError option"
  | E_DomainNotActiveError "DomainNotActiveError option"
  | E_LimitExceededError "LimitExceededError option"
  | E_WorkflowExecutionAlreadyStartedError "WorkflowExecutionAlreadyStartedError option"
  | E_CancellationAlreadyRequestedError "CancellationAlreadyRequestedError option"
  | E_DomainAlreadyExistsError "DomainAlreadyExistsError option"
  | E_QueryFailedError "QueryFailedError option"
  | E_New string
  | E_Errorf string nat
  | E_Errorf_s string "string list"
  | E_Other string

end
