(* ===== verification/GoWire.thy ===== *)
theory GoWire
  imports GoErrorValues "HOL-Library.Finite_Map" "HOL-Library.List_Lexorder" "HOL-Library.Char_ord"
begin

text \<open>
  The interface of the Thrift library the generated Go code is written against
  (go.uber.org/thriftrw/wire), and the pieces every generated method is made of.
  The library is not part of the repository: it is the parameter \<open>W\<close> of every
  definition that uses it, and \<open>wire_laws W\<close> states the documented behaviour the code
  relies on (what a constructor stores, the matching getter returns, \<open>Type\<close> tells
  the kind, and a value can be written out when the lists and maps inside it deliver all
  their elements). A Go pointer, slice or map is an option: \<open>None\<close> is \<open>nil\<close>. A Go string
  is a byte sequence (\<open>string\<close>), an \<open>int32\<close> a 32-bit word, a map with string keys a
  finite map.
\<close>

section \<open>The library, as a parameter\<close>

text \<open>The kinds the code compares with (\<open>wire.TBinary\<close>, ...), pairwise distinct.\<close>

datatype wire_type = TBool | TI32 | TI64 | TDouble | TBinary | TStruct | TMap | TList

type_synonym 'v wire_field = "int \<times> 'v"

text \<open>
  A list or a map is handed to the library as an object whose \<open>ForEach\<close> calls back with
  one element after the other, until the first error. \<open>ForEach\<close> is here the sequence of
  what the loop meets: an element, or the error that ends it.
\<close>

record 'v ValueList =
  ForEach :: "(go_error + 'v) list"
  Size :: nat
  ValueType :: wire_type

record 'v MapItemList =
  ForEach :: "(go_error + 'v \<times> 'v) list"
  Size :: nat
  KeyType :: wire_type
  ValueType :: wire_type

text \<open>
  \<open>Writable\<close> holds of the values the library's protocol can encode to bytes.
  \<open>MapRange\<close> is not the library's: it is the order in which Go's \<open>range\<close> visits the keys
  of a map, which the language leaves open.
\<close>

record 'v wire_api =
  NewValueBool :: "bool \<Rightarrow> 'v"
  NewValueI32 :: "32 word \<Rightarrow> 'v"
  NewValueI64 :: "64 word \<Rightarrow> 'v"
  NewValueDouble :: "float64 \<Rightarrow> 'v"
  NewValueString :: "string \<Rightarrow> 'v"
  NewValueBinary :: "bytes \<Rightarrow> 'v"
  NewValueStruct :: "'v wire_field list \<Rightarrow> 'v"
  NewValueMap :: "'v MapItemList \<Rightarrow> 'v"
  NewValueList :: "'v ValueList \<Rightarrow> 'v"
  GetBool :: "'v \<Rightarrow> bool"
  GetI32 :: "'v \<Rightarrow> 32 word"
  GetI64 :: "'v \<Rightarrow> 64 word"
  GetDouble :: "'v \<Rightarrow> float64"
  GetString :: "'v \<Rightarrow> string"
  GetBinary :: "'v \<Rightarrow> bytes"
  GetStruct :: "'v \<Rightarrow> 'v wire_field list"
  GetMap :: "'v \<Rightarrow> 'v MapItemList"
  GetList :: "'v \<Rightarrow> 'v ValueList"
  Type :: "'v \<Rightarrow> wire_type"
  Writable :: "'v \<Rightarrow> bool"
  MapRange :: "string fset \<Rightarrow> string list"

text \<open>An element that the loop meets and that satisfies \<open>P\<close>.\<close>

fun delivered :: "('a \<Rightarrow> bool) \<Rightarrow> go_error + 'a \<Rightarrow> bool" where
  "delivered P (Inl e) = False"
| "delivered P (Inr x) = P x"

definition wire_laws :: "'v wire_api \<Rightarrow> bool" where
  "wire_laws W \<longleftrightarrow>
     (\<forall>b. GetBool W (NewValueBool W b) = b \<and> Type W (NewValueBool W b) = TBool \<and>
          Writable W (NewValueBool W b)) \<and>
     (\<forall>i. GetI32 W (NewValueI32 W i) = i \<and> Type W (NewValueI32 W i) = TI32 \<and>
          Writable W (NewValueI32 W i)) \<and>
     (\<forall>i. GetI64 W (NewValueI64 W i) = i \<and> Type W (NewValueI64 W i) = TI64 \<and>
          Writable W (NewValueI64 W i)) \<and>
     (\<forall>x. GetDouble W (NewValueDouble W x) = x \<and> Type W (NewValueDouble W x) = TDouble \<and>
          Writable W (NewValueDouble W x)) \<and>
     (\<forall>s. GetString W (NewValueString W s) = s \<and> Type W (NewValueString W s) = TBinary \<and>
          Writable W (NewValueString W s)) \<and>
     (\<forall>b. GetBinary W (NewValueBinary W b) = b \<and> Type W (NewValueBinary W b) = TBinary \<and>
          Writable W (NewValueBinary W b)) \<and>
     (\<forall>fs. GetStruct W (NewValueStruct W fs) = fs \<and> Type W (NewValueStruct W fs) = TStruct \<and>
          (Writable W (NewValueStruct W fs) \<longleftrightarrow> list_all (\<lambda>(fid, w). Writable W w) fs)) \<and>
     (\<forall>m. GetMap W (NewValueMap W m) = m \<and> Type W (NewValueMap W m) = TMap \<and>
          (Writable W (NewValueMap W m) \<longleftrightarrow>
             list_all (delivered (\<lambda>(k, w). Writable W k \<and> Writable W w)) (MapItemList.ForEach m))) \<and>
     (\<forall>l. GetList W (NewValueList W l) = l \<and> Type W (NewValueList W l) = TList \<and>
          (Writable W (NewValueList W l) \<longleftrightarrow>
             list_all (delivered (Writable W)) (ValueList.ForEach l))) \<and>
     (\<forall>K. set (MapRange W K) = fset K \<and> distinct (MapRange W K))"

lemma wire_laws_parts:
  assumes "wire_laws W"
  shows "\<forall>b. GetBool W (NewValueBool W b) = b \<and> Type W (NewValueBool W b) = TBool \<and>
          Writable W (NewValueBool W b)"
    and "\<forall>i. GetI32 W (NewValueI32 W i) = i \<and> Type W (NewValueI32 W i) = TI32 \<and>
          Writable W (NewValueI32 W i)"
    and "\<forall>i. GetI64 W (NewValueI64 W i) = i \<and> Type W (NewValueI64 W i) = TI64 \<and>
          Writable W (NewValueI64 W i)"
    and "\<forall>x. GetDouble W (NewValueDouble W x) = x \<and> Type W (NewValueDouble W x) = TDouble \<and>
          Writable W (NewValueDouble W x)"
    and "\<forall>s. GetString W (NewValueString W s) = s \<and> Type W (NewValueString W s) = TBinary \<and>
          Writable W (NewValueString W s)"
    and "\<forall>b. GetBinary W (NewValueBinary W b) = b \<and> Type W (NewValueBinary W b) = TBinary \<and>
          Writable W (NewValueBinary W b)"
    and "\<forall>fs. GetStruct W (NewValueStruct W fs) = fs \<and> Type W (NewValueStruct W fs) = TStruct \<and>
          (Writable W (NewValueStruct W fs) \<longleftrightarrow> list_all (\<lambda>(fid, w). Writable W w) fs)"
    and "\<forall>m. GetMap W (NewValueMap W m) = m \<and> Type W (NewValueMap W m) = TMap \<and>
          (Writable W (NewValueMap W m) \<longleftrightarrow>
             list_all (delivered (\<lambda>(k, w). Writable W k \<and> Writable W w)) (MapItemList.ForEach m))"
    and "\<forall>l. GetList W (NewValueList W l) = l \<and> Type W (NewValueList W l) = TList \<and>
          (Writable W (NewValueList W l) \<longleftrightarrow>
             list_all (delivered (Writable W)) (ValueList.ForEach l))"
    and "\<forall>K. set (MapRange W K) = fset K \<and> distinct (MapRange W K)"
  using assms unfolding wire_laws_def by - ((elim conjE)?, assumption)+

lemma wire_lawsD [simp]:
  assumes "wire_laws W"
  shows "GetBool W (NewValueBool W b) = b" "Type W (NewValueBool W b) = TBool"
    and "GetI32 W (NewValueI32 W i) = i" "Type W (NewValueI32 W i) = TI32"
    and "GetI64 W (NewValueI64 W j) = j" "Type W (NewValueI64 W j) = TI64"
    and "GetDouble W (NewValueDouble W x) = x" "Type W (NewValueDouble W x) = TDouble"
    and "GetString W (NewValueString W s) = s" "Type W (NewValueString W s) = TBinary"
    and "GetBinary W (NewValueBinary W d) = d" "Type W (NewValueBinary W d) = TBinary"
    and "GetStruct W (NewValueStruct W fs) = fs" "Type W (NewValueStruct W fs) = TStruct"
    and "GetMap W (NewValueMap W m) = m" "Type W (NewValueMap W m) = TMap"
    and "GetList W (NewValueList W l) = l" "Type W (NewValueList W l) = TList"
    and "set (MapRange W K) = fset K" "distinct (MapRange W K)"
  by (simp_all add: wire_laws_parts [OF assms])

lemma writable [simp]:
  assumes "wire_laws W"
  shows "Writable W (NewValueBool W b)" "Writable W (NewValueI32 W i)" "Writable W (NewValueI64 W j)"
    and "Writable W (NewValueDouble W x)" "Writable W (NewValueString W s)" "Writable W (NewValueBinary W d)"
    and "Writable W (NewValueStruct W fs) \<longleftrightarrow> list_all (\<lambda>(fid, w). Writable W w) fs"
    and "Writable W (NewValueMap W m) \<longleftrightarrow>
      list_all (delivered (\<lambda>(k, w). Writable W k \<and> Writable W w)) (MapItemList.ForEach m)"
    and "Writable W (NewValueList W l) \<longleftrightarrow> list_all (delivered (Writable W)) (ValueList.ForEach l)"
  by (simp_all add: wire_laws_parts [OF assms])

text \<open>A library with the documented behaviour, at which the witnesses are evaluated.\<close>

datatype wire_tree =
    VBool bool | VI32 "32 word" | VI64 "64 word" | VDouble float64 | VString string | VBinary bytes
  | VStruct "(int \<times> wire_tree) list"
  | VMap "(go_error + wire_tree \<times> wire_tree) list" nat wire_type wire_type
  | VList "(go_error + wire_tree) list" nat wire_type

primrec tree_writable :: "wire_tree \<Rightarrow> bool" where
  "tree_writable (VBool b) = True"
| "tree_writable (VI32 i) = True"
| "tree_writable (VI64 i) = True"
| "tree_writable (VDouble x) = True"
| "tree_writable (VString s) = True"
| "tree_writable (VBinary b) = True"
| "tree_writable (VStruct fs) = list_all snd (map (map_prod id tree_writable) fs)"
| "tree_writable (VMap xs n kt vt) =
     list_all (delivered (\<lambda>(k, w). k \<and> w)) (map (map_sum id (map_prod tree_writable tree_writable)) xs)"
| "tree_writable (VList xs n vt) = list_all (delivered id) (map (map_sum id tree_writable) xs)"

definition wire_tree_api :: "wire_tree wire_api" where
  "wire_tree_api = \<lparr>
     NewValueBool = VBool, NewValueI32 = VI32, NewValueI64 = VI64, NewValueDouble = VDouble,
     NewValueString = VString, NewValueBinary = VBinary, NewValueStruct = VStruct,
     NewValueMap = (\<lambda>m. VMap (MapItemList.ForEach m) (MapItemList.Size m) (KeyType m) (MapItemList.ValueType m)),
     NewValueList = (\<lambda>l. VList (ValueList.ForEach l) (ValueList.Size l) (ValueList.ValueType l)),
     GetBool = (\<lambda>v. case v of VBool b \<Rightarrow> b | _ \<Rightarrow> False),
     GetI32 = (\<lambda>v. case v of VI32 i \<Rightarrow> i | _ \<Rightarrow> 0),
     GetI64 = (\<lambda>v. case v of VI64 i \<Rightarrow> i | _ \<Rightarrow> 0),
     GetDouble = (\<lambda>v. case v of VDouble x \<Rightarrow> x | _ \<Rightarrow> 0),
     GetString = (\<lambda>v. case v of VString s \<Rightarrow> s | VBinary b \<Rightarrow> map (\<lambda>x. char_of (unat x)) b | _ \<Rightarrow> []),
     GetBinary = (\<lambda>v. case v of VBinary b \<Rightarrow> b | VString s \<Rightarrow> map of_char s | _ \<Rightarrow> []),
     GetStruct = (\<lambda>v. case v of VStruct fs \<Rightarrow> fs | _ \<Rightarrow> []),
     GetMap = (\<lambda>v. case v of
         VMap xs n kt vt \<Rightarrow> \<lparr>MapItemList.ForEach = xs, Size = n, KeyType = kt, ValueType = vt\<rparr>
       | _ \<Rightarrow> \<lparr>MapItemList.ForEach = [], Size = 0, KeyType = TBool, ValueType = TBool\<rparr>),
     GetList = (\<lambda>v. case v of
         VList xs n vt \<Rightarrow> \<lparr>ValueList.ForEach = xs, Size = n, ValueType = vt\<rparr>
       | _ \<Rightarrow> \<lparr>ValueList.ForEach = [], Size = 0, ValueType = TBool\<rparr>),
     Type = (\<lambda>v. case v of VBool _ \<Rightarrow> TBool | VI32 _ \<Rightarrow> TI32 | VI64 _ \<Rightarrow> TI64 | VDouble _ \<Rightarrow> TDouble
         | VString _ \<Rightarrow> TBinary | VBinary _ \<Rightarrow> TBinary | VStruct _ \<Rightarrow> TStruct
         | VMap _ _ _ _ \<Rightarrow> TMap | VList _ _ _ \<Rightarrow> TList),
     Writable = tree_writable,
     MapRange = sorted_list_of_fset\<rparr>"

lemma delivered_map_sum: "delivered P (map_sum id f r) \<longleftrightarrow> delivered (\<lambda>x. P (f x)) r"
  by (cases r) simp_all

lemma delivered_id: "delivered id (map_sum id f r) \<longleftrightarrow> delivered f r"
  by (cases r) simp_all

lemma wire_tree_laws: "wire_laws wire_tree_api"
  by (simp add: wire_laws_def wire_tree_api_def list.pred_map comp_def delivered_map_sum delivered_id
      split_def sorted_list_of_fset.rep_eq)

text \<open>
  A struct's codec is faithful: every value is encoded, what can be written are the
  \<open>complete\<close> values, and those are read back unchanged.
\<close>

definition wire_faithful ::
  "'v wire_api \<Rightarrow> ('a \<Rightarrow> go_error + 'v) \<Rightarrow> ('v \<Rightarrow> 'a \<Rightarrow> go_error + 'a) \<Rightarrow> 'a \<Rightarrow> ('a \<Rightarrow> bool) \<Rightarrow> bool"
where
  "wire_faithful W to_wire from_wire zero complete \<longleftrightarrow>
     (\<forall>x. \<exists>w. to_wire x = Inr w \<and> Type W w = TStruct \<and> (Writable W w \<longleftrightarrow> complete x) \<and>
        (complete x \<longrightarrow> from_wire w zero = Inr x))"

section \<open>Lists and maps\<close>

text \<open>
  The loop \<open>l.ForEach(func(x) error {...})\<close> over what a list or map delivers: the callback
  updates the state it closes over, and an error ends the loop.
\<close>

definition for_each :: "(go_error + 'x) list \<Rightarrow> ('s \<Rightarrow> 'x \<Rightarrow> go_error + 's) \<Rightarrow> 's \<Rightarrow> go_error + 's" where
  "for_each xs f s = foldM (\<lambda>s r. and_then r (f s)) xs s"

text \<open>The elements of a slice of pointers, of a slice of values, and of a map.\<close>

definition ptr_values :: "('a \<Rightarrow> go_error + 'v) \<Rightarrow> 'a option list \<Rightarrow> (go_error + 'v) list" where
  "ptr_values enc xs =
     map (\<lambda>(i, x). case x of None \<Rightarrow> Inl (E_Errorf ''invalid [%v]: value is nil'' i) | Some y \<Rightarrow> enc y)
       (enumerate 0 xs)"

definition map_items ::
  "'v wire_api \<Rightarrow> (string \<Rightarrow> 'a \<Rightarrow> go_error + 'v) \<Rightarrow> (string, 'a) fmap \<Rightarrow> (go_error + 'v \<times> 'v) list" where
  "map_items W enc m =
     map (\<lambda>k. and_then (enc k (the (fmlookup m k))) (\<lambda>vw. Inr (NewValueString W k, vw)))
       (MapRange W (fmdom m))"

text \<open>The value of a map that is a pointer or a slice: \<open>nil\<close> is refused.\<close>

definition ptr_item :: "('a \<Rightarrow> go_error + 'v) \<Rightarrow> string \<Rightarrow> 'a option \<Rightarrow> go_error + 'v" where
  "ptr_item enc k x =
     (case x of None \<Rightarrow> Inl (E_Errorf_s ''invalid [%v]: value is nil'' [k]) | Some y \<Rightarrow> enc y)"

text \<open>A pointer that is set, to a value with \<open>P\<close>; a field that has \<open>P\<close> if it is set.\<close>

fun present :: "('a \<Rightarrow> bool) \<Rightarrow> 'a option \<Rightarrow> bool" where
  "present P None = False"
| "present P (Some x) = P x"

lemma present_top [simp]: "present (\<lambda>_. True) x \<longleftrightarrow> x \<noteq> None"
  by (cases x) simp_all

definition if_set :: "('a \<Rightarrow> bool) \<Rightarrow> 'a option \<Rightarrow> bool" where
  "if_set P x \<longleftrightarrow> (\<forall>y. x = Some y \<longrightarrow> P y)"

lemma if_set_simps [simp]: "if_set P None" "if_set P (Some y) \<longleftrightarrow> P y"
  by (simp_all add: if_set_def)

lemma fmpred_top [simp]: "fmpred (\<lambda>k x. True) m"
  by (simp add: fmpred_iff)

definition map_all :: "('a \<Rightarrow> bool) \<Rightarrow> (string, 'a) fmap \<Rightarrow> bool" where
  "map_all P m \<longleftrightarrow> fmpred (\<lambda>k x. P x) m"

lemma delivered_ptr_item:
  "delivered P (ptr_item (\<lambda>y. Inr (e y)) k x) \<longleftrightarrow> present (\<lambda>y. P (e y)) x"
  by (cases x) (simp_all add: ptr_item_def)

lemma for_each_map:
  assumes "\<And>x. x \<in> set xs \<Longrightarrow> g x = Inr (h x)"
  shows "for_each (map g xs) f s = foldM (\<lambda>s x. f s (h x)) xs s"
  using assms
proof (induction xs arbitrary: s)
  case Nil
  then show ?case by (simp add: for_each_def)
next
  case (Cons x xs)
  from Cons.prems have "g x = Inr (h x)" by simp
  moreover from Cons have "foldM (\<lambda>s r. and_then r (f s)) (map g xs) = foldM (\<lambda>s x. f s (h x)) xs"
    by (simp add: for_each_def fun_eq_iff)
  ultimately show ?case by (simp add: for_each_def)
qed

lemma foldM_collect: "foldM (\<lambda>out x. Inr (out @ [g x])) xs acc = Inr (acc @ map g xs)"
  by (induction xs arbitrary: acc) simp_all

lemma value_list_read:
  "(\<And>x. x \<in> set xs \<Longrightarrow> rd (e x) = x) \<Longrightarrow>
    for_each (map (\<lambda>x. Inr (e x)) xs) (\<lambda>out w. Inr (out @ [rd w])) [] = Inr xs"
  by (simp add: for_each_map [where h = e] foldM_collect map_idI)

lemma foldM_cong:
  "(\<And>s x. x \<in> set xs \<Longrightarrow> f s x = g s x) \<Longrightarrow> foldM f xs s = foldM g xs s"
  by (induction xs arbitrary: s) (auto intro!: and_then_cong)

lemma foldM_fmupd:
  "foldM (\<lambda>out k. Inr (fmupd k (f k) out)) ks acc = Inr (fold (\<lambda>k. fmupd k (f k)) ks acc)"
  by (induction ks arbitrary: acc) simp_all

lemma fold_fmupd_lookup:
  "fmlookup (fold (\<lambda>k. fmupd k (f k)) ks acc) x = (if x \<in> set ks then Some (f x) else fmlookup acc x)"
  by (induction ks arbitrary: acc) auto

text \<open>Reading back the items of a map rebuilds it, whatever the order of the keys.\<close>

lemma map_items_read:
  assumes laws: "wire_laws W"
    and dec: "\<And>k x. fmlookup m k = Some x \<Longrightarrow> \<exists>w. enc k x = Inr w \<and> rd w = Inr x"
  shows "for_each (map_items W enc m)
      (\<lambda>out (k, w). and_then (rd w) (\<lambda>v. Inr (fmupd (GetString W k) v out))) fmempty = Inr m"
proof -
  let ?val = "\<lambda>k. the (fmlookup m k)" and ?ks = "MapRange W (fmdom m)"
  let ?h = "\<lambda>k. (NewValueString W k, projr (enc k (?val k)))"
  have item: "enc k (?val k) = Inr (projr (enc k (?val k)))" "rd (projr (enc k (?val k))) = Inr (?val k)"
    if "k \<in> set ?ks" for k
  proof -
    from that laws obtain x where "fmlookup m k = Some x" by (auto simp: fmlookup_dom_iff)
    with dec [OF this] show "enc k (?val k) = Inr (projr (enc k (?val k)))"
      "rd (projr (enc k (?val k))) = Inr (?val k)" by auto
  qed
  have "for_each (map_items W enc m) (\<lambda>out (k, w). and_then (rd w) (\<lambda>v. Inr (fmupd (GetString W k) v out))) fmempty
      = foldM (\<lambda>s k. (\<lambda>out (k, w). and_then (rd w) (\<lambda>v. Inr (fmupd (GetString W k) v out))) s (?h k)) ?ks fmempty"
    unfolding map_items_def by (rule for_each_map) (subst item(1), auto)
  also have "\<dots> = foldM (\<lambda>s k. Inr (fmupd k (?val k) s)) ?ks fmempty"
    by (rule foldM_cong) (use laws item(2) in auto)
  also have "\<dots> = Inr m"
  proof -
    have "fold (\<lambda>k. fmupd k (?val k)) ?ks fmempty = m"
      by (rule fmap_ext) (use laws in \<open>auto simp: fold_fmupd_lookup fmlookup_dom_iff\<close>)
    then show ?thesis by (simp add: foldM_fmupd)
  qed
  finally show ?thesis .
qed

lemma map_items_writable:
  assumes "wire_laws W"
  shows "list_all (delivered (\<lambda>(k, w). Writable W k \<and> Writable W w)) (map_items W enc m) \<longleftrightarrow>
    fmpred (\<lambda>k x. delivered (Writable W) (enc k x)) m"
proof -
  have "delivered (\<lambda>(k, w). Writable W k \<and> Writable W w) (and_then r (\<lambda>vw. Inr (NewValueString W k, vw)))
      = delivered (Writable W) r" for r k
    using assms by (cases r) simp_all
  then show ?thesis
    using assms by (auto simp: map_items_def list_all_iff fmpred_iff fmlookup_dom_iff)
      (metis fmlookup_dom_iff option.sel)
qed

section \<open>The pieces of the generated methods\<close>

text \<open>
  One block of a generated \<open>ToWire\<close>: an optional field that is set is encoded, and
  appended to \<open>fields[:i]\<close> under its identifier; an error of the encoding is returned.
\<close>

definition put_opt ::
  "int \<Rightarrow> ('a \<Rightarrow> 'e + 'v) \<Rightarrow> 'a option \<Rightarrow> 'v wire_field list \<Rightarrow> 'e + 'v wire_field list" where
  "put_opt fid enc x fs =
     (case x of None \<Rightarrow> Inr fs
      | Some y \<Rightarrow> and_then (enc y) (\<lambda>w. Inr (fs @ [(fid, w)])))"

text \<open>The block of a required field: no test for \<open>nil\<close>.\<close>

definition put_req ::
  "int \<Rightarrow> ('a \<Rightarrow> 'e + 'v) \<Rightarrow> 'a \<Rightarrow> 'v wire_field list \<Rightarrow> 'e + 'v wire_field list" where
  "put_req fid enc y fs = and_then (enc y) (\<lambda>w. Inr (fs @ [(fid, w)]))"

text \<open>An optional field as it is written, and how a loop over fields passes it.\<close>

definition opt_field :: "int \<Rightarrow> ('a \<Rightarrow> 'v) \<Rightarrow> 'a option \<Rightarrow> 'v wire_field list" where
  "opt_field fid enc x = (case x of None \<Rightarrow> [] | Some y \<Rightarrow> [(fid, enc y)])"

lemma put_opt_field: "put_opt fid (\<lambda>y. Inr (enc y)) x fs = Inr (fs @ opt_field fid enc x)"
  by (simp add: put_opt_def opt_field_def split: option.splits)

lemma put_req_field: "put_req fid (\<lambda>y. Inr (enc y)) y fs = Inr (fs @ [(fid, enc y)])"
  by (simp add: put_req_def)

lemma foldM_opt_field:
  "foldM f (opt_field fid enc x) s = (case x of None \<Rightarrow> Inr s | Some y \<Rightarrow> f s (fid, enc y))"
  by (simp add: opt_field_def split: option.splits)

lemma list_all_opt_field: "list_all P (opt_field fid enc x) \<longleftrightarrow> if_set (\<lambda>y. P (fid, enc y)) x"
  by (cases x) (simp_all add: opt_field_def)

lemma length_opt_field: "length (opt_field fid enc x) = (if x \<noteq> None then 1 else 0)"
  by (cases x) (simp_all add: opt_field_def)

lemma case_option_id: "(case x of None \<Rightarrow> None | Some y \<Rightarrow> Some y) = x"
  by (cases x) simp_all

lemma if_set_True [simp]: "if_set (\<lambda>y. True) x"
  by (simp add: if_set_def)

lemmas codec_rules =
  put_opt_field put_req_field foldM_append foldM_opt_field list_all_opt_field length_opt_field
  case_option_id option_rel_eq_cases

text \<open>The final check of a validated \<open>ToWire\<close>.\<close>

lemma if_Inl_Inr_iff: "(if c then Inl e else r) = Inr y \<longleftrightarrow> \<not> c \<and> r = Inr y"
  by simp

section \<open>The contract of a generated struct\<close>

text \<open>
  What the users of a generated struct rely on: a value that is \<open>valid\<close> is encoded to a
  struct that can be written, and reading that struct into the zero value, as every
  \<open>_Read\<close> function does, gives the value back; any other value is refused, by \<open>ToWire\<close> or,
  for the lists and maps inside it, when it is written.
\<close>

locale thrift_struct =
  fixes W :: "'v wire_api"
    and ToWire :: "'a \<Rightarrow> go_error + 'v"
    and FromWire :: "'v \<Rightarrow> 'a \<Rightarrow> go_error + 'a"
    and zero :: 'a
    and valid :: "'a \<Rightarrow> bool"
  assumes encodes: "wire_laws W \<Longrightarrow> valid x \<Longrightarrow>
      \<exists>w. ToWire x = Inr w \<and> Type W w = TStruct \<and> Writable W w \<and> FromWire w zero = Inr x"
    and refuses: "wire_laws W \<Longrightarrow> ToWire x = Inr w \<Longrightarrow> Writable W w \<Longrightarrow> valid x"
begin

lemma roundtrip:
  assumes "wire_laws W" and "ToWire x = Inr w" and "Writable W w"
  shows "FromWire w zero = Inr x" and "Type W w = TStruct"
  using encodes [OF assms(1) refuses [OF assms]] assms(2) by auto

lemma encoding_injective:
  assumes "wire_laws W" and "ToWire x = Inr w" and "ToWire y = Inr w" and "Writable W w"
  shows "x = y"
  using roundtrip(1) [OF assms(1,2,4)] roundtrip(1) [OF assms(1,3,4)] by simp

lemma encodes_iff_valid: "wire_laws W \<Longrightarrow> (\<exists>w. ToWire x = Inr w \<and> Writable W w) \<longleftrightarrow> valid x"
  using encodes refuses by blast

end

text \<open>
  A struct without a check of its own is always encoded: what cannot be written is a list
  or a map inside it. Another struct, or a list or map, can hold such structs.
\<close>

locale thrift_message = thrift_struct +
  assumes total: "wire_laws W \<Longrightarrow> \<exists>w. ToWire x = Inr w \<and> Type W w = TStruct"
begin

lemma encoder:
  assumes "wire_laws W"
  obtains enc where "ToWire = (\<lambda>x. Inr (enc x))" and "\<And>x. Type W (enc x) = TStruct"
    and "\<And>x. Writable W (enc x) \<longleftrightarrow> valid x"
    and "\<And>x. valid x \<Longrightarrow> FromWire (enc x) zero = Inr x"
proof (rule that)
  have total': "ToWire x = Inr (projr (ToWire x))" "Type W (projr (ToWire x)) = TStruct" for x
    using total [OF assms, of x] by auto
  show "ToWire = (\<lambda>x. Inr (projr (ToWire x)))" using total' by auto
  show "Type W (projr (ToWire x)) = TStruct" for x by (rule total')
  show "Writable W (projr (ToWire x)) \<longleftrightarrow> valid x" for x
    using encodes [OF assms, of x] refuses [OF assms total'(1)] by auto
  show "FromWire (projr (ToWire x)) zero = Inr x" if "valid x" for x
    using encodes [OF assms that] by auto
qed

lemma faithful:
  assumes "wire_laws W"
  shows "wire_faithful W ToWire FromWire zero valid"
proof (rule encoder [OF assms])
  fix enc
  assume "ToWire = (\<lambda>x. Inr (enc x))" "\<And>x. Type W (enc x) = TStruct"
    "\<And>x. Writable W (enc x) \<longleftrightarrow> valid x" "\<And>x. valid x \<Longrightarrow> FromWire (enc x) zero = Inr x"
  then show ?thesis by (simp add: wire_faithful_def)
qed

lemma ptr_values_writable:
  assumes "wire_laws W"
  shows "list_all (delivered (Writable W)) (ptr_values ToWire xs) \<longleftrightarrow> list_all (present valid) xs"
proof -
  obtain enc where enc: "ToWire = (\<lambda>x. Inr (enc x))" "\<And>x. Writable W (enc x) \<longleftrightarrow> valid x"
    using encoder [OF assms] by metis
  have "list_all (delivered (Writable W))
      (map (\<lambda>(i, x). case x of None \<Rightarrow> Inl (f i) | Some y \<Rightarrow> ToWire y) (enumerate n xs)) \<longleftrightarrow>
      list_all (present valid) xs" for f n
    by (induction xs arbitrary: n) (auto simp: enc split: option.splits)
  then show ?thesis by (simp add: ptr_values_def)
qed

lemma ptr_values_read:
  assumes "wire_laws W" and "list_all (present valid) xs"
  shows "for_each (ptr_values ToWire xs)
      (\<lambda>out w. and_then (FromWire w zero) (\<lambda>i. Inr (out @ [Some i]))) [] = Inr xs"
proof -
  obtain enc where enc: "ToWire = (\<lambda>x. Inr (enc x))" "\<And>x. valid x \<Longrightarrow> FromWire (enc x) zero = Inr x"
    using encoder [OF assms(1)] by metis
  have "for_each (map (\<lambda>(i, x). case x of None \<Rightarrow> Inl (f i) | Some y \<Rightarrow> ToWire y) (enumerate n xs))
      (\<lambda>out w. and_then (FromWire w zero) (\<lambda>i. Inr (out @ [Some i]))) acc = Inr (acc @ xs)" for f n acc
    using assms(2)
    by (induction xs arbitrary: n acc) (auto simp: for_each_def enc elim!: present.elims)
  then show ?thesis by (simp add: ptr_values_def)
qed

lemma ptr_items_writable:
  assumes "wire_laws W"
  shows "list_all (delivered (\<lambda>(k, w). Writable W k \<and> Writable W w)) (map_items W (ptr_item ToWire) m)
      \<longleftrightarrow> map_all (present valid) m"
proof -
  obtain enc where enc: "ToWire = (\<lambda>x. Inr (enc x))" "\<And>x. Writable W (enc x) \<longleftrightarrow> valid x"
    using encoder [OF assms] by metis
  have "delivered (Writable W) (ptr_item ToWire k x) \<longleftrightarrow> present valid x" for k x
    by (cases x) (simp_all add: ptr_item_def enc)
  then show ?thesis by (simp add: map_items_writable [OF assms] map_all_def)
qed

lemma ptr_items_read:
  assumes "wire_laws W" and "map_all (present valid) m"
  shows "for_each (map_items W (ptr_item ToWire) m) (\<lambda>out (k, w).
      and_then (and_then (FromWire w zero) (\<lambda>v. Inr (Some v))) (\<lambda>v. Inr (fmupd (GetString W k) v out)))
      fmempty = Inr m"
proof (rule map_items_read [OF assms(1)])
  obtain enc where enc: "ToWire = (\<lambda>x. Inr (enc x))" "\<And>x. valid x \<Longrightarrow> FromWire (enc x) zero = Inr x"
    using encoder [OF assms(1)] by metis
  fix k x assume "fmlookup m k = Some x"
  with assms(2) obtain y where "x = Some y" "valid y"
    by (auto simp: map_all_def fmpred_iff elim!: present.elims)
  then show "\<exists>w. ptr_item ToWire k x = Inr w \<and> and_then (FromWire w zero) (\<lambda>v. Inr (Some v)) = Inr x"
    by (simp add: ptr_item_def enc)
qed

end

lemma thrift_messageI:
  assumes "\<And>x. wire_laws W \<Longrightarrow> \<exists>w. ToWire x = Inr w \<and> Type W w = TStruct \<and>
      (Writable W w \<longleftrightarrow> valid x) \<and> (valid x \<longrightarrow> FromWire w zero = Inr x)"
  shows "thrift_message W ToWire FromWire zero valid"
proof
  show "\<exists>w. ToWire x = Inr w \<and> Type W w = TStruct \<and> Writable W w \<and> FromWire w zero = Inr x"
    if "wire_laws W" and "valid x" for x
    using assms [OF that(1), of x] that(2) by blast
  show "valid x" if "wire_laws W" and "ToWire x = Inr w" and "Writable W w" for x w
    using assms [OF that(1), of x] that(2,3) by auto
  show "\<exists>w. ToWire x = Inr w \<and> Type W w = TStruct" if "wire_laws W" for x
    using assms [OF that, of x] by blast
qed

lemma thrift_structI:
  assumes "\<And>x. wire_laws W \<Longrightarrow> \<exists>w. ToWire x = Inr w \<and> Type W w = TStruct \<and>
      (Writable W w \<longleftrightarrow> valid x) \<and> (valid x \<longrightarrow> FromWire w zero = Inr x)"
  shows "thrift_struct W ToWire FromWire zero valid"
  using thrift_messageI [of W ToWire valid FromWire zero, OF assms] by (simp add: thrift_message_def)

text \<open>A struct with a check of its own, and structs inside it.\<close>

lemma thrift_checkedI:
  assumes "\<And>x. wire_laws W \<Longrightarrow>
      if ok x then \<exists>w. ToWire x = Inr w \<and> Type W w = TStruct \<and>
        (Writable W w \<longleftrightarrow> inner x) \<and> (inner x \<longrightarrow> FromWire w zero = Inr x)
      else \<exists>e. ToWire x = Inl e"
  shows "thrift_struct W ToWire FromWire zero (\<lambda>x. ok x \<and> inner x)"
proof
  show "\<exists>w. ToWire x = Inr w \<and> Type W w = TStruct \<and> Writable W w \<and> FromWire w zero = Inr x"
    if "wire_laws W" and "ok x \<and> inner x" for x
    using assms [OF that(1), of x] that(2) by (auto split: if_splits)
  show "ok x \<and> inner x" if "wire_laws W" and "ToWire x = Inr w" and "Writable W w" for x w
    using assms [OF that(1), of x] that(2,3) by (auto split: if_splits)
qed

lemma thrift_checked_plainI:
  assumes "\<And>x. wire_laws W \<Longrightarrow>
      if ok x then \<exists>w. ToWire x = Inr w \<and> Type W w = TStruct \<and> Writable W w \<and> FromWire w zero = Inr x
      else \<exists>e. ToWire x = Inl e"
  shows "thrift_struct W ToWire FromWire zero ok"
  using thrift_checkedI [of W ok ToWire "\<lambda>_. True" FromWire zero] assms by simp

section \<open>Comparison\<close>

text \<open>
  The comparison of two slices (\<open>_List_X_Equals\<close>) and of two maps (\<open>_Map_String_X_Equals\<close>),
  and the test the generated code writes out for two fields that may be \<open>nil\<close>.
\<close>

definition list_equals :: "('a \<Rightarrow> 'a \<Rightarrow> bool) \<Rightarrow> 'a list \<Rightarrow> 'a list \<Rightarrow> bool" where
  "list_equals eq lhs rhs \<longleftrightarrow>
     (if length lhs \<noteq> length rhs then False else list_all (\<lambda>(lv, rv). eq lv rv) (zip lhs rhs))"

definition map_equals :: "('a \<Rightarrow> 'a \<Rightarrow> bool) \<Rightarrow> (string, 'a) fmap \<Rightarrow> (string, 'a) fmap \<Rightarrow> bool" where
  "map_equals eq lhs rhs \<longleftrightarrow>
     (if fcard (fmdom lhs) \<noteq> fcard (fmdom rhs) then False
      else fmpred (\<lambda>lk lv. case fmlookup rhs lk of None \<Rightarrow> False | Some rv \<Rightarrow> eq lv rv) lhs)"

definition both_set_and :: "('a \<Rightarrow> 'a \<Rightarrow> bool) \<Rightarrow> 'a option \<Rightarrow> 'a option \<Rightarrow> bool" where
  "both_set_and eq x y \<longleftrightarrow>
     (x = None \<and> y = None) \<or> (x \<noteq> None \<and> y \<noteq> None \<and> eq (the x) (the y))"

lemma if_not_False: "(if \<not> c then False else r) \<longleftrightarrow> c \<and> r"
  by simp

lemma both_set_and_simps [simp]:
  "both_set_and eq None None" "\<not> both_set_and eq (Some a) None" "\<not> both_set_and eq None (Some b)"
  "both_set_and eq (Some a) (Some b) \<longleftrightarrow> eq a b"
  by (simp_all add: both_set_and_def)

lemma both_set_and_iff:
  assumes "\<And>a b. P a \<Longrightarrow> P b \<Longrightarrow> eq a b \<longleftrightarrow> a = b" and "if_set P x" and "if_set P y"
  shows "both_set_and eq x y \<longleftrightarrow> x = y"
  using assms by (cases x; cases y) auto

lemma list_equals_iff:
  assumes "\<And>a b. P a \<Longrightarrow> P b \<Longrightarrow> eq a b \<longleftrightarrow> a = b" and "list_all P xs" and "list_all P ys"
  shows "list_equals eq xs ys \<longleftrightarrow> xs = ys"
proof (cases "length xs = length ys")
  case True
  then show ?thesis
    using assms(2,3)
    by (induction xs ys rule: list_induct2) (auto simp: list_equals_def assms(1))
next
  case False
  then show ?thesis by (auto simp: list_equals_def)
qed

lemma map_equals_iff:
  assumes "\<And>a b. P a \<Longrightarrow> P b \<Longrightarrow> eq a b \<longleftrightarrow> a = b" and "map_all P m" and "map_all P n"
  shows "map_equals eq m n \<longleftrightarrow> m = n"
proof
  assume eq: "map_equals eq m n"
  then have card: "fcard (fmdom m) = fcard (fmdom n)"
    and each: "\<And>k x. fmlookup m k = Some x \<Longrightarrow> \<exists>y. fmlookup n k = Some y \<and> eq x y"
    by (auto simp: map_equals_def fmpred_iff split: if_splits) (metis option.case_eq_if option.collapse)
  have same: "fmlookup n k = Some x" if "fmlookup m k = Some x" for k x
    using each [OF that] that assms by (auto simp: map_all_def fmpred_iff)
  then have "fmdom m |\<subseteq>| fmdom n" by (auto simp: fmlookup_dom_iff)
  with card have "fmdom m = fmdom n" by (metis fcard_seteq order_refl)
  then show "m = n"
    by (intro fmap_ext) (metis fmdom_notD fmlookup_dom_iff same)
next
  assume "m = n"
  with assms show "map_equals eq m n"
    by (auto simp: map_equals_def map_all_def fmpred_iff)
qed

lemma if_set_top: "if_set (\<lambda>_. True) x" "list_all (\<lambda>_. True) xs" "map_all (\<lambda>_. True) m"
  by (simp_all add: map_all_def list_all_iff fmpred_iff)

end
