(* ===== verification/GoRpc.thy ===== *)
theory GoRpc
  imports GoWire
begin

text \<open>
  One remote call as the generated client and server make it, over the RPC library
  (go.uber.org/yarpc), which is not part of the repository: a client's \<open>Call\<close> is a
  parameter, and \<open>thrift_delivers\<close> states the documented behaviour of the library
  between a client and the server's procedures. The locale \<open>rpc_method\<close> is the contract
  of one generated method, and proves once that a call through it answers as the
  implementation behind the server does.
\<close>

section \<open>The RPC library, as a parameter\<close>

datatype envelope_type = Call | Reply

text \<open>What the library uses of an \<open>envelope.Enveloper\<close>: its three methods' results.\<close>

record 'v enveloper =
  MethodName :: string
  EnvelopeType :: envelope_type
  EnvelopeToWire :: "go_error + 'v"

text \<open>\<open>thrift.Response\<close>, and its zero value (a nil \<open>Body\<close>).\<close>

record 'v thrift_Response =
  Body :: "'v enveloper option"
  IsApplicationError :: bool

definition no_response :: "'v thrift_Response" where
  "no_response = \<lparr>Body = None, IsApplicationError = False\<rparr>"

type_synonym ('ctx, 'v) thrift_client = "'ctx \<Rightarrow> 'v enveloper \<Rightarrow> go_error + 'v"

type_synonym ('ctx, 'v) unary_handler = "'ctx \<Rightarrow> 'v \<Rightarrow> 'v thrift_Response \<times> go_error option"

text \<open>
  A client's call reaches the procedure registered under the envelope's method name with
  the value the envelope encodes to, and returns the value the response's body encodes
  to. It returns an error when the envelope does not encode or its value cannot be
  written, when no procedure has that name, and when the procedure returns an error or a
  body that does not encode or cannot be written.
\<close>

definition sent :: "'v wire_api \<Rightarrow> 'v enveloper \<Rightarrow> 'v option" where
  "sent W env =
     (case EnvelopeToWire env of Inl e \<Rightarrow> None | Inr w \<Rightarrow> if Writable W w then Some w else None)"

definition reply_of :: "'v wire_api \<Rightarrow> 'v thrift_Response \<times> go_error option \<Rightarrow> 'v option" where
  "reply_of W r = (case r of
       (resp, Some err) \<Rightarrow> None
     | (resp, None) \<Rightarrow> (case Body resp of None \<Rightarrow> None | Some body \<Rightarrow> sent W body))"

definition thrift_delivers ::
  "'v wire_api \<Rightarrow> ('ctx, 'v) thrift_client \<Rightarrow> (string \<rightharpoonup> ('ctx, 'v) unary_handler) \<Rightarrow> bool" where
  "thrift_delivers W call procedures \<longleftrightarrow>
     (\<forall>ctx env. case sent W env of
         None \<Rightarrow> (\<exists>e. call ctx env = Inl e)
       | Some w \<Rightarrow> (case procedures (MethodName env) of
             None \<Rightarrow> (\<exists>e. call ctx env = Inl e)
           | Some h \<Rightarrow> (case reply_of W (h ctx w) of
                 None \<Rightarrow> (\<exists>e. call ctx env = Inl e)
               | Some w' \<Rightarrow> call ctx env = Inr w')))"

text \<open>A library with this behaviour, at which the witnesses are evaluated.\<close>

definition direct_call ::
  "'v wire_api \<Rightarrow> (string \<rightharpoonup> ('ctx, 'v) unary_handler) \<Rightarrow> ('ctx, 'v) thrift_client" where
  "direct_call W procedures ctx env =
     (case sent W env of
         None \<Rightarrow> Inl (E_Other ''bad request'')
       | Some w \<Rightarrow> (case procedures (MethodName env) of
             None \<Rightarrow> Inl (E_Other ''unimplemented'')
           | Some h \<Rightarrow> (case reply_of W (h ctx w) of
                 None \<Rightarrow> Inl (E_Other ''internal'')
               | Some w' \<Rightarrow> Inr w')))"

lemma direct_call_delivers: "thrift_delivers W (direct_call W procedures) procedures"
  by (auto simp: thrift_delivers_def direct_call_def split: option.splits)

lemma delivers_reply:
  assumes "thrift_delivers W call procedures" and "sent W env = Some w"
    and "procedures (MethodName env) = Some h"
  shows "reply_of W (h ctx w) = Some w' \<Longrightarrow> call ctx env = Inr w'"
    and "reply_of W (h ctx w) = None \<Longrightarrow> \<exists>e. call ctx env = Inl e"
  using assms by (auto simp: thrift_delivers_def dest!: spec [of _ ctx] spec [of _ env])

lemma delivers_unsent:
  "thrift_delivers W call procedures \<Longrightarrow> sent W env = None \<Longrightarrow> \<exists>e. call ctx env = Inl e"
  by (auto simp: thrift_delivers_def dest!: spec [of _ ctx] spec [of _ env])

section \<open>Outcomes\<close>

text \<open>
  A method with a result returns a pair (result, error), a void method an error alone.
  The outcomes a result struct can carry: a non-nil result that is \<open>valid\<close> without an
  error, or one of the exceptions the method declares, given by a non-nil pointer.
\<close>

definition declared_nonnil :: "(go_error \<Rightarrow> bool) \<Rightarrow> go_error \<Rightarrow> bool" where
  "declared_nonnil is_exception e \<longleftrightarrow> is_exception e \<and> (case e of
       E_BadRequestError p \<Rightarrow> p \<noteq> None | E_InternalServiceError p \<Rightarrow> p \<noteq> None
     | E_EntityNotExistsError p \<Rightarrow> p \<noteq> None | E_ServiceBusyError p \<Rightarrow> p \<noteq> None
     | E_ClientVersionNotSupportedError p \<Rightarrow> p \<noteq> None | E_DomainNotActiveError p \<Rightarrow> p \<noteq> None
     | E_LimitExceededError p \<Rightarrow> p \<noteq> None | E_WorkflowExecutionAlreadyStartedError p \<Rightarrow> p \<noteq> None
     | E_CancellationAlreadyRequestedError p \<Rightarrow> p \<noteq> None | E_DomainAlreadyExistsError p \<Rightarrow> p \<noteq> None
     | E_QueryFailedError p \<Rightarrow> p \<noteq> None | _ \<Rightarrow> False)"

fun carried_void :: "(go_error \<Rightarrow> bool) \<Rightarrow> go_error option \<Rightarrow> bool" where
  "carried_void is_exception None = True"
| "carried_void is_exception (Some e) = declared_nonnil is_exception e"

fun carried ::
  "('r \<Rightarrow> bool) \<Rightarrow> (go_error \<Rightarrow> bool) \<Rightarrow> 'r option \<times> go_error option \<Rightarrow> bool" where
  "carried valid is_exception (success, None) \<longleftrightarrow> present valid success"
| "carried valid is_exception (success, Some e) \<longleftrightarrow> declared_nonnil is_exception e"

text \<open>What the caller of a method with a result sees: no result beside an error.\<close>

fun error_first :: "'r option \<times> go_error option \<Rightarrow> 'r option \<times> go_error option" where
  "error_first (success, None) = (success, None)"
| "error_first (success, Some e) = (None, Some e)"

lemma carried_error_first [simp]: "carried v ex (error_first out) \<longleftrightarrow> carried v ex out"
  by (cases out rule: error_first.cases) auto

lemma error_first_idem [simp]: "error_first (error_first out) = error_first out"
  by (cases out rule: error_first.cases) auto

section \<open>The contract of a generated method\<close>

text \<open>
  \<open>outcome\<close> is what an implementation returns: \<open>carries\<close> the outcomes the result struct
  can hold, \<open>seen\<close> what a caller sees of them, \<open>failing e\<close> the outcome of a call that
  failed with \<open>e\<close>. \<open>handler\<close> and \<open>client\<close> are the generated server and client.
\<close>

locale rpc_method =
  args: thrift_struct W args_ToWire args_FromWire args_zero args_valid +
  result: thrift_struct W result_ToWire result_FromWire result_zero result_valid
  for W :: "'v wire_api"
    and args_ToWire :: "'args \<Rightarrow> go_error + 'v"
    and args_FromWire :: "'v \<Rightarrow> 'args \<Rightarrow> go_error + 'args"
    and args_zero :: 'args
    and args_valid :: "'args \<Rightarrow> bool"
    and result_ToWire :: "'result \<Rightarrow> go_error + 'v"
    and result_FromWire :: "'v \<Rightarrow> 'result \<Rightarrow> go_error + 'result"
    and result_zero :: 'result
    and result_valid :: "'result \<Rightarrow> bool" +
  fixes name :: string
    and mk_args :: "'req \<Rightarrow> 'args"
    and request :: "'args \<Rightarrow> 'req"
    and wrap :: "'outcome \<Rightarrow> go_error + 'result"
    and unwrap :: "'result \<Rightarrow> 'outcome"
    and had_error :: "'outcome \<Rightarrow> bool"
    and carries :: "'outcome \<Rightarrow> bool"
    and seen :: "'outcome \<Rightarrow> 'outcome"
    and failing :: "go_error \<Rightarrow> 'outcome"
    and handler :: "('ctx \<Rightarrow> 'req \<Rightarrow> 'outcome) \<Rightarrow> ('ctx, 'v) unary_handler"
    and client :: "('ctx, 'v) thrift_client \<Rightarrow> 'ctx \<Rightarrow> 'req \<Rightarrow> 'outcome"
  assumes request_mk_args: "request (mk_args r) = r"
    and wrap_carried: "carries out \<Longrightarrow>
      (case wrap out of Inl e \<Rightarrow> False | Inr res \<Rightarrow> result_valid res \<and> unwrap res = seen out)"
    and wrap_not_carried: "\<not> carries out \<Longrightarrow>
      (case wrap out of Inl e \<Rightarrow> True | Inr res \<Rightarrow> \<not> result_valid res)"
    and handler_eq: "handler impl ctx body =
      (case args_FromWire body args_zero of
         Inl e \<Rightarrow> (no_response, Some e)
       | Inr a \<Rightarrow> (let out = impl ctx (request a) in
           case wrap out of
             Inl e \<Rightarrow> (no_response, Some e)
           | Inr res \<Rightarrow> (\<lparr>Body = Some \<lparr>MethodName = name, EnvelopeType = Reply, EnvelopeToWire = result_ToWire res\<rparr>,
                         IsApplicationError = had_error out\<rparr>, None)))"
    and client_eq: "client call ctx r =
      (case call ctx \<lparr>MethodName = name, EnvelopeType = Call, EnvelopeToWire = args_ToWire (mk_args r)\<rparr> of
         Inl e \<Rightarrow> failing e
       | Inr body \<Rightarrow> (case result_FromWire body result_zero of
             Inl e \<Rightarrow> failing e
           | Inr res \<Rightarrow> unwrap res))"
    and carries_seen: "carries (seen out) \<longleftrightarrow> carries out"
    and seen_seen: "seen (seen out) = seen out"
    and seen_failing: "seen (failing e) = failing e"
begin

text \<open>The implementation is called once, with the request the caller passed.\<close>

lemma handler_encoded_args:
  assumes "wire_laws W" and "args_ToWire (mk_args r) = Inr w" and "Writable W w"
  shows "handler impl ctx w =
    (case wrap (impl ctx r) of
       Inl e \<Rightarrow> (no_response, Some e)
     | Inr res \<Rightarrow> (\<lparr>Body = Some \<lparr>MethodName = name, EnvelopeType = Reply, EnvelopeToWire = result_ToWire res\<rparr>,
                   IsApplicationError = had_error (impl ctx r)\<rparr>, None))"
  using args.roundtrip(1) [OF assms] by (simp add: handler_eq request_mk_args Let_def)

text \<open>A request that cannot be written is refused before it reaches the server.\<close>

theorem call_unsendable:
  assumes "wire_laws W" and "thrift_delivers W call procedures" and "\<not> args_valid (mk_args r)"
  shows "\<exists>e. client call ctx r = failing e"
proof -
  let ?env = "\<lparr>MethodName = name, EnvelopeType = Call, EnvelopeToWire = args_ToWire (mk_args r)\<rparr>"
  have "sent W ?env = None"
    using args.refuses [OF assms(1)] assms(3) by (auto simp: sent_def split: sum.splits)
  with delivers_unsent [OF assms(2)] obtain e where "call ctx ?env = Inl e" by blast
  then show ?thesis by (auto simp: client_eq)
qed

theorem call_carried:
  assumes laws: "wire_laws W" and link: "thrift_delivers W call procedures"
    and proc: "procedures name = Some (handler impl)"
    and req: "args_valid (mk_args r)" and out: "carries (impl ctx r)"
  shows "client call ctx r = seen (impl ctx r)"
proof -
  obtain w where w: "args_ToWire (mk_args r) = Inr w" "Writable W w"
    using args.encodes [OF laws req] by blast
  obtain res where res: "wrap (impl ctx r) = Inr res" "result_valid res" "unwrap res = seen (impl ctx r)"
    using wrap_carried [OF out] by (auto split: sum.splits)
  obtain rw where rw: "result_ToWire res = Inr rw" "Writable W rw" "result_FromWire rw result_zero = Inr res"
    using result.encodes [OF laws res(2)] by blast
  let ?env = "\<lparr>MethodName = name, EnvelopeType = Call, EnvelopeToWire = args_ToWire (mk_args r)\<rparr>"
  have "reply_of W (handler impl ctx w) = Some rw"
    by (simp add: handler_encoded_args [OF laws w] res reply_of_def sent_def rw)
  then have "call ctx ?env = Inr rw"
    using delivers_reply(1) [OF link, of ?env w] w proc by (simp add: sent_def)
  then show ?thesis by (simp add: client_eq rw res)
qed

theorem call_not_carried:
  assumes laws: "wire_laws W" and link: "thrift_delivers W call procedures"
    and proc: "procedures name = Some (handler impl)" and out: "\<not> carries (impl ctx r)"
  shows "\<exists>e. client call ctx r = failing e"
proof (cases "args_valid (mk_args r)")
  case True
  obtain w where w: "args_ToWire (mk_args r) = Inr w" "Writable W w"
    using args.encodes [OF laws True] by blast
  let ?env = "\<lparr>MethodName = name, EnvelopeType = Call, EnvelopeToWire = args_ToWire (mk_args r)\<rparr>"
  have "reply_of W (handler impl ctx w) = None"
  proof (cases "wrap (impl ctx r)")
    case (Inl e)
    then show ?thesis by (simp add: handler_encoded_args [OF laws w] reply_of_def)
  next
    case (Inr res)
    then have "\<not> result_valid res" using wrap_not_carried [OF out] by simp
    then have "sent W \<lparr>MethodName = name, EnvelopeType = Reply, EnvelopeToWire = result_ToWire res\<rparr> = None"
      using result.refuses [OF laws] by (auto simp: sent_def split: sum.splits)
    with Inr show ?thesis by (simp add: handler_encoded_args [OF laws w] reply_of_def)
  qed
  then obtain e where "call ctx ?env = Inl e"
    using delivers_reply(2) [OF link, of ?env w] w proc by (auto simp: sent_def)
  then show ?thesis by (auto simp: client_eq)
next
  case False
  then show ?thesis by (rule call_unsendable [OF laws link])
qed

text \<open>
  A server whose implementation is the client of another server: the outcome is carried
  twice, and the two calls together behave as one.
\<close>

theorem through_proxy:
  assumes laws: "wire_laws W"
    and inner: "thrift_delivers W call procedures" "procedures name = Some (handler impl)"
    and outer: "thrift_delivers W call' procedures'" "procedures' name = Some (handler (client call))"
  shows "args_valid (mk_args r) \<Longrightarrow> carries (impl ctx r) \<Longrightarrow> client call' ctx r = seen (impl ctx r)"
    and "\<not> (args_valid (mk_args r) \<and> carries (impl ctx r)) \<Longrightarrow> \<exists>e. client call' ctx r = failing e"
proof -
  assume req: "args_valid (mk_args r)" and out: "carries (impl ctx r)"
  have "client call ctx r = seen (impl ctx r)" by (rule call_carried [OF laws inner req out])
  then show "client call' ctx r = seen (impl ctx r)"
    using call_carried [OF laws outer req, of ctx] out by (simp add: carries_seen seen_seen)
next
  assume no: "\<not> (args_valid (mk_args r) \<and> carries (impl ctx r))"
  show "\<exists>e. client call' ctx r = failing e"
  proof (cases "args_valid (mk_args r)")
    case True
    with no call_not_carried [OF laws inner] obtain e where e: "client call ctx r = failing e" by blast
    then show ?thesis
      using call_carried [OF laws outer True, of ctx] call_not_carried [OF laws outer, of ctx r]
      by (cases "carries (client call ctx r)") (auto simp: seen_failing)
  next
    case False
    then show ?thesis by (rule call_unsendable [OF laws outer(1)])
  qed
qed

end

end
