(* ===== verification/GoErrors.thy ===== *)
theory GoErrors
  imports GoWire
begin

text \<open>
  Codecs and comparisons of the exception structs of proxy/gen/shared/shared.go. Each struct has
  its codec (\<open>ToWire\<close>, \<open>FromWire\<close>, \<open>_Read\<close>) and \<open>Equals\<close>, statement by statement; the round trip
  of the codec is an interpretation of \<open>thrift_message\<close>, and \<open>Equals\<close> is shown to be equality.
\<close>

section \<open>Comparison of fields\<close>

text \<open>\<open>_String_EqualsPtr\<close> and its siblings compare two pointers by what they point to.\<close>

definition String_EqualsPtr :: "string option \<Rightarrow> string option \<Rightarrow> bool" where
  "String_EqualsPtr lhs rhs =
     (case lhs of Some x \<Rightarrow> (case rhs of Some y \<Rightarrow> x = y | None \<Rightarrow> lhs = None \<and> rhs = None)
      | None \<Rightarrow> lhs = None \<and> rhs = None)"

lemma String_EqualsPtr_iff [simp]: "String_EqualsPtr x y \<longleftrightarrow> x = y"
  by (auto simp: String_EqualsPtr_def split: option.splits)

definition I32_EqualsPtr :: "32 word option \<Rightarrow> 32 word option \<Rightarrow> bool" where
  "I32_EqualsPtr lhs rhs =
     (case lhs of Some x \<Rightarrow> (case rhs of Some y \<Rightarrow> x = y | None \<Rightarrow> lhs = None \<and> rhs = None)
      | None \<Rightarrow> lhs = None \<and> rhs = None)"

lemma I32_EqualsPtr_iff [simp]: "I32_EqualsPtr x y \<longleftrightarrow> x = y"
  by (auto simp: I32_EqualsPtr_def split: option.splits)

definition I64_EqualsPtr :: "64 word option \<Rightarrow> 64 word option \<Rightarrow> bool" where
  "I64_EqualsPtr lhs rhs =
     (case lhs of Some x \<Rightarrow> (case rhs of Some y \<Rightarrow> x = y | None \<Rightarrow> lhs = None \<and> rhs = None)
      | None \<Rightarrow> lhs = None \<and> rhs = None)"

lemma I64_EqualsPtr_iff [simp]: "I64_EqualsPtr x y \<longleftrightarrow> x = y"
  by (auto simp: I64_EqualsPtr_def split: option.splits)

definition Bool_EqualsPtr :: "bool option \<Rightarrow> bool option \<Rightarrow> bool" where
  "Bool_EqualsPtr lhs rhs =
     (case lhs of Some x \<Rightarrow> (case rhs of Some y \<Rightarrow> x = y | None \<Rightarrow> lhs = None \<and> rhs = None)
      | None \<Rightarrow> lhs = None \<and> rhs = None)"

lemma Bool_EqualsPtr_iff [simp]: "Bool_EqualsPtr x y \<longleftrightarrow> x = y"
  by (auto simp: Bool_EqualsPtr_def split: option.splits)

text \<open>
  Go's \<open>==\<close> on a \<open>float64\<close>, on its bits (IEEE 754): a NaN has an exponent of ones and a fraction
  that is not zero, and equals nothing; the two zeros are equal.
\<close>

definition float64_nan :: "float64 \<Rightarrow> bool" where
  "float64_nan x \<longleftrightarrow> take_bit 11 (drop_bit 52 x) = 2047 \<and> take_bit 52 x \<noteq> 0"

definition float64_zero :: "float64 \<Rightarrow> bool" where
  "float64_zero x \<longleftrightarrow> x = 0 \<or> x = 0x8000000000000000"

definition float64_eq :: "float64 \<Rightarrow> float64 \<Rightarrow> bool" where
  "float64_eq x y \<longleftrightarrow>
     \<not> float64_nan x \<and> \<not> float64_nan y \<and> (x = y \<or> (float64_zero x \<and> float64_zero y))"

text \<open>A number that is not NaN and not the negative zero.\<close>

definition float64_ordinary :: "float64 \<Rightarrow> bool" where
  "float64_ordinary x \<longleftrightarrow> \<not> float64_nan x \<and> x \<noteq> 0x8000000000000000"

lemma float64_eq_iff: "float64_ordinary x \<Longrightarrow> float64_ordinary y \<Longrightarrow> float64_eq x y \<longleftrightarrow> x = y"
  by (auto simp: float64_ordinary_def float64_eq_def float64_zero_def)

definition Double_EqualsPtr :: "float64 option \<Rightarrow> float64 option \<Rightarrow> bool" where
  "Double_EqualsPtr lhs rhs =
     (case lhs of Some x \<Rightarrow> (case rhs of Some y \<Rightarrow> float64_eq x y | None \<Rightarrow> lhs = None \<and> rhs = None)
      | None \<Rightarrow> lhs = None \<and> rhs = None)"

lemma Double_EqualsPtr_iff [simp]:
  "if_set float64_ordinary x \<Longrightarrow> if_set float64_ordinary y \<Longrightarrow> Double_EqualsPtr x y \<longleftrightarrow> x = y"
  by (auto simp: Double_EqualsPtr_def if_set_def float64_eq_iff split: option.splits)

lemma both_set_and_eq [simp]: "both_set_and (=) x y \<longleftrightarrow> x = y"
  by (cases x; cases y) simp_all

text \<open>\<open>bytes.Equal\<close>: a \<open>nil\<close> slice is an empty one.\<close>

definition bytes_Equal :: "bytes option \<Rightarrow> bytes option \<Rightarrow> bool" where
  "bytes_Equal a b \<longleftrightarrow>
     (case a of None \<Rightarrow> [] | Some x \<Rightarrow> x) = (case b of None \<Rightarrow> [] | Some y \<Rightarrow> y)"

lemma both_set_and_equality [simp]:
  "(\<And>a b. eq a b \<longleftrightarrow> a = b) \<Longrightarrow> both_set_and eq x y \<longleftrightarrow> x = y"
  by (cases x; cases y) auto

section \<open>Codecs of the exceptions\<close>

definition BadRequestError_zero :: BadRequestError where
  "BadRequestError_zero = \<lparr>BadRequestError.Message = []\<rparr>"

definition BadRequestError_ToWire ::
  "'v wire_api \<Rightarrow> BadRequestError \<Rightarrow> go_error + 'v" where
  "BadRequestError_ToWire W v =
     and_then (put_req 1 (\<lambda>x. Inr (NewValueString W x)) (BadRequestError.Message v) [])
       (\<lambda>fields.
     Inr (NewValueStruct W fields))"

definition BadRequestError_FromWire ::
  "'v wire_api \<Rightarrow> 'v \<Rightarrow> BadRequestError \<Rightarrow> go_error + BadRequestError" where
  "BadRequestError_FromWire W w v =
     and_then (foldM (\<lambda>(v, message_isSet) (fid, fval).
       if fid = 1 then
         if wire_api.Type W fval = TBinary
         then Inr (v\<lparr>BadRequestError.Message := GetString W fval\<rparr>, True)
         else Inr (v, message_isSet)
       else Inr (v, message_isSet)) (GetStruct W w) (v, False)) (\<lambda>(v, message_isSet).
     if \<not> message_isSet then Inl (E_New ''field Message of BadRequestError is required'')
     else Inr v)"

definition BadRequestError_Read :: "'v wire_api \<Rightarrow> 'v \<Rightarrow> go_error + BadRequestError" where
  "BadRequestError_Read W w = BadRequestError_FromWire W w BadRequestError_zero"

interpretation BadRequestError: thrift_message W
  "BadRequestError_ToWire W" "BadRequestError_FromWire W" BadRequestError_zero "\<lambda>_. True" for W
proof (rule thrift_messageI)
  fix x :: BadRequestError
  assume laws: "wire_laws W"
  show "\<exists>w. BadRequestError_ToWire W x = Inr w \<and> wire_api.Type W w = TStruct \<and>
      (Writable W w \<longleftrightarrow> (\<lambda>_. True) x) \<and> ((\<lambda>_. True) x \<longrightarrow> BadRequestError_FromWire W w
          BadRequestError_zero = Inr x)"
    by (cases x) (auto simp: codec_rules BadRequestError_ToWire_def BadRequestError_FromWire_def
        BadRequestError_zero_def laws split: option.splits)
qed

definition BadRequestError_Equals ::
  "BadRequestError option \<Rightarrow> BadRequestError option \<Rightarrow> bool" where
  "BadRequestError_Equals v rhs =
     (case v of None \<Rightarrow> rhs = None
      | Some v \<Rightarrow> (case rhs of None \<Rightarrow> False
        | Some rhs \<Rightarrow>
          if \<not> (BadRequestError.Message v = BadRequestError.Message rhs) then False else
          True))"

lemma BadRequestError_Equals_iff [simp]: "BadRequestError_Equals x y \<longleftrightarrow> x = y"
  by (cases x; cases y) (auto simp: BadRequestError_Equals_def)

definition InternalServiceError_zero :: InternalServiceError where
  "InternalServiceError_zero = \<lparr>InternalServiceError.Message = []\<rparr>"

definition InternalServiceError_ToWire ::
  "'v wire_api \<Rightarrow> InternalServiceError \<Rightarrow> go_error + 'v" where
  "InternalServiceError_ToWire W v =
     and_then (put_req 1 (\<lambda>x. Inr (NewValueString W x)) (InternalServiceError.Message v) [])
       (\<lambda>fields.
     Inr (NewValueStruct W fields))"

definition InternalServiceError_FromWire ::
  "'v wire_api \<Rightarrow> 'v \<Rightarrow> InternalServiceError \<Rightarrow> go_error + InternalServiceError" where
  "InternalServiceError_FromWire W w v =
     and_then (foldM (\<lambda>(v, message_isSet) (fid, fval).
       if fid = 1 then
         if wire_api.Type W fval = TBinary
         then Inr (v\<lparr>InternalServiceError.Message := GetString W fval\<rparr>, True)
         else Inr (v, message_isSet)
       else Inr (v, message_isSet)) (GetStruct W w) (v, False)) (\<lambda>(v, message_isSet).
     if \<not> message_isSet then Inl (E_New ''field Message of InternalServiceError is required'')
     else Inr v)"

definition InternalServiceError_Read :: "'v wire_api \<Rightarrow> 'v \<Rightarrow> go_error + InternalServiceError" where
  "InternalServiceError_Read W w = InternalServiceError_FromWire W w InternalServiceError_zero"

interpretation InternalServiceError: thrift_message W
  "InternalServiceError_ToWire W" "InternalServiceError_FromWire W" InternalServiceError_zero "\<lambda>_.
      True" for W
proof (rule thrift_messageI)
  fix x :: InternalServiceError
  assume laws: "wire_laws W"
  show "\<exists>w. InternalServiceError_ToWire W x = Inr w \<and> wire_api.Type W w = TStruct \<and>
      (Writable W w \<longleftrightarrow> (\<lambda>_. True) x) \<and> ((\<lambda>_. True) x \<longrightarrow> InternalServiceError_FromWire W w
          InternalServiceError_zero = Inr x)"
    by (cases x) (auto simp: codec_rules InternalServiceError_ToWire_def
        InternalServiceError_FromWire_def InternalServiceError_zero_def laws split: option.splits)
qed

definition InternalServiceError_Equals ::
  "InternalServiceError option \<Rightarrow> InternalServiceError option \<Rightarrow> bool" where
  "InternalServiceError_Equals v rhs =
     (case v of None \<Rightarrow> rhs = None
      | Some v \<Rightarrow> (case rhs of None \<Rightarrow> False
        | Some rhs \<Rightarrow>
          if \<not> (InternalServiceError.Message v = InternalServiceError.Message rhs) then False else
          True))"

lemma InternalServiceError_Equals_iff [simp]: "InternalServiceError_Equals x y \<longleftrightarrow> x = y"
  by (cases x; cases y) (auto simp: InternalServiceError_Equals_def)

definition EntityNotExistsError_zero :: EntityNotExistsError where
  "EntityNotExistsError_zero = \<lparr>EntityNotExistsError.Message = []\<rparr>"

definition EntityNotExistsError_ToWire ::
  "'v wire_api \<Rightarrow> EntityNotExistsError \<Rightarrow> go_error + 'v" where
  "EntityNotExistsError_ToWire W v =
     and_then (put_req 1 (\<lambda>x. Inr (NewValueString W x)) (EntityNotExistsError.Message v) [])
       (\<lambda>fields.
     Inr (NewValueStruct W fields))"

definition EntityNotExistsError_FromWire ::
  "'v wire_api \<Rightarrow> 'v \<Rightarrow> EntityNotExistsError \<Rightarrow> go_error + EntityNotExistsError" where
  "EntityNotExistsError_FromWire W w v =
     and_then (foldM (\<lambda>(v, message_isSet) (fid, fval).
       if fid = 1 then
         if wire_api.Type W fval = TBinary
         then Inr (v\<lparr>EntityNotExistsError.Message := GetString W fval\<rparr>, True)
         else Inr (v, message_isSet)
       else Inr (v, message_isSet)) (GetStruct W w) (v, False)) (\<lambda>(v, message_isSet).
     if \<not> message_isSet then Inl (E_New ''field Message of EntityNotExistsError is required'')
     else Inr v)"

definition EntityNotExistsError_Read :: "'v wire_api \<Rightarrow> 'v \<Rightarrow> go_error + EntityNotExistsError" where
  "EntityNotExistsError_Read W w = EntityNotExistsError_FromWire W w EntityNotExistsError_zero"

interpretation EntityNotExistsError: thrift_message W
  "EntityNotExistsError_ToWire W" "EntityNotExistsError_FromWire W" EntityNotExistsError_zero "\<lambda>_.
      True" for W
proof (rule thrift_messageI)
  fix x :: EntityNotExistsError
  assume laws: "wire_laws W"
  show "\<exists>w. EntityNotExistsError_ToWire W x = Inr w \<and> wire_api.Type W w = TStruct \<and>
      (Writable W w \<longleftrightarrow> (\<lambda>_. True) x) \<and> ((\<lambda>_. True) x \<longrightarrow> EntityNotExistsError_FromWire W w
          EntityNotExistsError_zero = Inr x)"
    by (cases x) (auto simp: codec_rules EntityNotExistsError_ToWire_def
        EntityNotExistsError_FromWire_def EntityNotExistsError_zero_def laws split: option.splits)
qed

definition EntityNotExistsError_Equals ::
  "EntityNotExistsError option \<Rightarrow> EntityNotExistsError option \<Rightarrow> bool" where
  "EntityNotExistsError_Equals v rhs =
     (case v of None \<Rightarrow> rhs = None
      | Some v \<Rightarrow> (case rhs of None \<Rightarrow> False
        | Some rhs \<Rightarrow>
          if \<not> (EntityNotExistsError.Message v = EntityNotExistsError.Message rhs) then False else
          True))"

lemma EntityNotExistsError_Equals_iff [simp]: "EntityNotExistsError_Equals x y \<longleftrightarrow> x = y"
  by (cases x; cases y) (auto simp: EntityNotExistsError_Equals_def)

definition ServiceBusyError_zero :: ServiceBusyError where
  "ServiceBusyError_zero = \<lparr>ServiceBusyError.Message = []\<rparr>"

definition ServiceBusyError_ToWire ::
  "'v wire_api \<Rightarrow> ServiceBusyError \<Rightarrow> go_error + 'v" where
  "ServiceBusyError_ToWire W v =
     and_then (put_req 1 (\<lambda>x. Inr (NewValueString W x)) (ServiceBusyError.Message v) [])
       (\<lambda>fields.
     Inr (NewValueStruct W fields))"

definition ServiceBusyError_FromWire ::
  "'v wire_api \<Rightarrow> 'v \<Rightarrow> ServiceBusyError \<Rightarrow> go_error + ServiceBusyError" where
  "ServiceBusyError_FromWire W w v =
     and_then (foldM (\<lambda>(v, message_isSet) (fid, fval).
       if fid = 1 then
         if wire_api.Type W fval = TBinary
         then Inr (v\<lparr>ServiceBusyError.Message := GetString W fval\<rparr>, True)
         else Inr (v, message_isSet)
       else Inr (v, message_isSet)) (GetStruct W w) (v, False)) (\<lambda>(v, message_isSet).
     if \<not> message_isSet then Inl (E_New ''field Message of ServiceBusyError is required'')
     else Inr v)"

definition ServiceBusyError_Read :: "'v wire_api \<Rightarrow> 'v \<Rightarrow> go_error + ServiceBusyError" where
  "ServiceBusyError_Read W w = ServiceBusyError_FromWire W w ServiceBusyError_zero"

interpretation ServiceBusyError: thrift_message W
  "ServiceBusyError_ToWire W" "ServiceBusyError_FromWire W" ServiceBusyError_zero "\<lambda>_. True" for W
proof (rule thrift_messageI)
  fix x :: ServiceBusyError
  assume laws: "wire_laws W"
  show "\<exists>w. ServiceBusyError_ToWire W x = Inr w \<and> wire_api.Type W w = TStruct \<and>
      (Writable W w \<longleftrightarrow> (\<lambda>_. True) x) \<and> ((\<lambda>_. True) x \<longrightarrow> ServiceBusyError_FromWire W w
          ServiceBusyError_zero = Inr x)"
    by (cases x) (auto simp: codec_rules ServiceBusyError_ToWire_def ServiceBusyError_FromWire_def
        ServiceBusyError_zero_def laws split: option.splits)
qed

definition ServiceBusyError_Equals ::
  "ServiceBusyError option \<Rightarrow> ServiceBusyError option \<Rightarrow> bool" where
  "ServiceBusyError_Equals v rhs =
     (case v of None \<Rightarrow> rhs = None
      | Some v \<Rightarrow> (case rhs of None \<Rightarrow> False
        | Some rhs \<Rightarrow>
          if \<not> (ServiceBusyError.Message v = ServiceBusyError.Message rhs) then False else
          True))"

lemma ServiceBusyError_Equals_iff [simp]: "ServiceBusyError_Equals x y \<longleftrightarrow> x = y"
  by (cases x; cases y) (auto simp: ServiceBusyError_Equals_def)

definition ClientVersionNotSupportedError_zero :: ClientVersionNotSupportedError where
  "ClientVersionNotSupportedError_zero = \<lparr>ClientVersionNotSupportedError.FeatureVersion = [],
      ClientVersionNotSupportedError.ClientImpl = [],
      ClientVersionNotSupportedError.SupportedVersions = []\<rparr>"

definition ClientVersionNotSupportedError_ToWire ::
  "'v wire_api \<Rightarrow> ClientVersionNotSupportedError \<Rightarrow> go_error + 'v" where
  "ClientVersionNotSupportedError_ToWire W v =
     and_then (put_req 1 (\<lambda>x. Inr (NewValueString W x))
         (ClientVersionNotSupportedError.FeatureVersion v) [])
       (\<lambda>fields.
     and_then (put_req 2 (\<lambda>x. Inr (NewValueString W x)) (ClientVersionNotSupportedError.ClientImpl
         v) fields)
       (\<lambda>fields.
     and_then (put_req 3 (\<lambda>x. Inr (NewValueString W x))
         (ClientVersionNotSupportedError.SupportedVersions v) fields)
       (\<lambda>fields.
     Inr (NewValueStruct W fields))))"

definition ClientVersionNotSupportedError_FromWire ::
  "'v wire_api \<Rightarrow> 'v \<Rightarrow> ClientVersionNotSupportedError \<Rightarrow> go_error + ClientVersionNotSupportedError"
      where
  "ClientVersionNotSupportedError_FromWire W w v =
     and_then (foldM (\<lambda>(v, featureVersion_isSet, clientImpl_isSet, supportedVersions_isSet) (fid,
         fval).
       if fid = 1 then
         if wire_api.Type W fval = TBinary
         then Inr (v\<lparr>ClientVersionNotSupportedError.FeatureVersion := GetString W fval\<rparr>, True,
             clientImpl_isSet, supportedVersions_isSet)
         else Inr (v, featureVersion_isSet, clientImpl_isSet, supportedVersions_isSet)
       else if fid = 2 then
         if wire_api.Type W fval = TBinary
         then Inr (v\<lparr>ClientVersionNotSupportedError.ClientImpl := GetString W fval\<rparr>,
             featureVersion_isSet, True, supportedVersions_isSet)
         else Inr (v, featureVersion_isSet, clientImpl_isSet, supportedVersions_isSet)
       else if fid = 3 then
         if wire_api.Type W fval = TBinary
         then Inr (v\<lparr>ClientVersionNotSupportedError.SupportedVersions := GetString W fval\<rparr>,
             featureVersion_isSet, clientImpl_isSet, True)
         else Inr (v, featureVersion_isSet, clientImpl_isSet, supportedVersions_isSet)
       else Inr (v, featureVersion_isSet, clientImpl_isSet, supportedVersions_isSet)) (GetStruct W
           w) (v, False, False, False)) (\<lambda>(v, featureVersion_isSet, clientImpl_isSet,
           supportedVersions_isSet).
     if \<not> featureVersion_isSet then Inl (E_New
         ''field FeatureVersion of ClientVersionNotSupportedError is required'')
     else     if \<not> clientImpl_isSet then Inl (E_New
         ''field ClientImpl of ClientVersionNotSupportedError is required'')
     else     if \<not> supportedVersions_isSet then Inl (E_New
         ''field SupportedVersions of ClientVersionNotSupportedError is required'')
     else Inr v)"

definition ClientVersionNotSupportedError_Read :: "'v wire_api \<Rightarrow> 'v \<Rightarrow> go_error +
    ClientVersionNotSupportedError" where
  "ClientVersionNotSupportedError_Read W w = ClientVersionNotSupportedError_FromWire W w
      ClientVersionNotSupportedError_zero"

interpretation ClientVersionNotSupportedError: thrift_message W
  "ClientVersionNotSupportedError_ToWire W" "ClientVersionNotSupportedError_FromWire W"
      ClientVersionNotSupportedError_zero "\<lambda>_. True" for W
proof (rule thrift_messageI)
  fix x :: ClientVersionNotSupportedError
  assume laws: "wire_laws W"
  show "\<exists>w. ClientVersionNotSupportedError_ToWire W x = Inr w \<and> wire_api.Type W w = TStruct \<and>
      (Writable W w \<longleftrightarrow> (\<lambda>_. True) x) \<and> ((\<lambda>_. True) x \<longrightarrow> ClientVersionNotSupportedError_FromWire W w
          ClientVersionNotSupportedError_zero = Inr x)"
    by (cases x) (auto simp: codec_rules ClientVersionNotSupportedError_ToWire_def
        ClientVersionNotSupportedError_FromWire_def ClientVersionNotSupportedError_zero_def laws
        split: option.splits)
qed

definition ClientVersionNotSupportedError_Equals ::
  "ClientVersionNotSupportedError option \<Rightarrow> ClientVersionNotSupportedError option \<Rightarrow> bool" where
  "ClientVersionNotSupportedError_Equals v rhs =
     (case v of None \<Rightarrow> rhs = None
      | Some v \<Rightarrow> (case rhs of None \<Rightarrow> False
        | Some rhs \<Rightarrow>
          if \<not> (ClientVersionNotSupportedError.FeatureVersion v =
              ClientVersionNotSupportedError.FeatureVersion rhs) then False else
          if \<not> (ClientVersionNotSupportedError.ClientImpl v =
              ClientVersionNotSupportedError.ClientImpl rhs) then False else
          if \<not> (ClientVersionNotSupportedError.SupportedVersions v =
              ClientVersionNotSupportedError.SupportedVersions rhs) then False else
          True))"

lemma ClientVersionNotSupportedError_Equals_iff [simp]: "ClientVersionNotSupportedError_Equals x y \<longleftrightarrow>
    x = y"
  by (cases x; cases y) (auto simp: ClientVersionNotSupportedError_Equals_def)

definition DomainNotActiveError_zero :: DomainNotActiveError where
  "DomainNotActiveError_zero = \<lparr>DomainNotActiveError.Message = [], DomainNotActiveError.DomainName =
      [], DomainNotActiveError.CurrentCluster = [], DomainNotActiveError.ActiveCluster = []\<rparr>"

definition DomainNotActiveError_ToWire ::
  "'v wire_api \<Rightarrow> DomainNotActiveError \<Rightarrow> go_error + 'v" where
  "DomainNotActiveError_ToWire W v =
     and_then (put_req 1 (\<lambda>x. Inr (NewValueString W x)) (DomainNotActiveError.Message v) [])
       (\<lambda>fields.
     and_then (put_req 2 (\<lambda>x. Inr (NewValueString W x)) (DomainNotActiveError.DomainName v) fields)
       (\<lambda>fields.
     and_then (put_req 3 (\<lambda>x. Inr (NewValueString W x)) (DomainNotActiveError.CurrentCluster v)
         fields)
       (\<lambda>fields.
     and_then (put_req 4 (\<lambda>x. Inr (NewValueString W x)) (DomainNotActiveError.ActiveCluster v)
         fields)
       (\<lambda>fields.
     Inr (NewValueStruct W fields)))))"

definition DomainNotActiveError_FromWire ::
  "'v wire_api \<Rightarrow> 'v \<Rightarrow> DomainNotActiveError \<Rightarrow> go_error + DomainNotActiveError" where
  "DomainNotActiveError_FromWire W w v =
     and_then (foldM (\<lambda>(v, message_isSet, domainName_isSet, currentCluster_isSet,
         activeCluster_isSet) (fid, fval).
       if fid = 1 then
         if wire_api.Type W fval = TBinary
         then Inr (v\<lparr>DomainNotActiveError.Message := GetString W fval\<rparr>, True, domainName_isSet,
             currentCluster_isSet, activeCluster_isSet)
         else Inr (v, message_isSet, domainName_isSet, currentCluster_isSet, activeCluster_isSet)
       else if fid = 2 then
         if wire_api.Type W fval = TBinary
         then Inr (v\<lparr>DomainNotActiveError.DomainName := GetString W fval\<rparr>, message_isSet, True,
             currentCluster_isSet, activeCluster_isSet)
         else Inr (v, message_isSet, domainName_isSet, currentCluster_isSet, activeCluster_isSet)
       else if fid = 3 then
         if wire_api.Type W fval = TBinary
         then Inr (v\<lparr>DomainNotActiveError.CurrentCluster := GetString W fval\<rparr>, message_isSet,
             domainName_isSet, True, activeCluster_isSet)
         else Inr (v, message_isSet, domainName_isSet, currentCluster_isSet, activeCluster_isSet)
       else if fid = 4 then
         if wire_api.Type W fval = TBinary
         then Inr (v\<lparr>DomainNotActiveError.ActiveCluster := GetString W fval\<rparr>, message_isSet,
             domainName_isSet, currentCluster_isSet, True)
         else Inr (v, message_isSet, domainName_isSet, currentCluster_isSet, activeCluster_isSet)
       else Inr (v, message_isSet, domainName_isSet, currentCluster_isSet, activeCluster_isSet))
           (GetStruct W w) (v, False, False, False, False)) (\<lambda>(v, message_isSet, domainName_isSet,
           currentCluster_isSet, activeCluster_isSet).
     if \<not> message_isSet then Inl (E_New ''field Message of DomainNotActiveError is required'')
     else     if \<not> domainName_isSet then Inl (E_New
         ''field DomainName of DomainNotActiveError is required'')
     else     if \<not> currentCluster_isSet then Inl (E_New
         ''field CurrentCluster of DomainNotActiveError is required'')
     else     if \<not> activeCluster_isSet then Inl (E_New
         ''field ActiveCluster of DomainNotActiveError is required'')
     else Inr v)"

definition DomainNotActiveError_Read :: "'v wire_api \<Rightarrow> 'v \<Rightarrow> go_error + DomainNotActiveError" where
  "DomainNotActiveError_Read W w = DomainNotActiveError_FromWire W w DomainNotActiveError_zero"

interpretation DomainNotActiveError: thrift_message W
  "DomainNotActiveError_ToWire W" "DomainNotActiveError_FromWire W" DomainNotActiveError_zero "\<lambda>_.
      True" for W
proof (rule thrift_messageI)
  fix x :: DomainNotActiveError
  assume laws: "wire_laws W"
  show "\<exists>w. DomainNotActiveError_ToWire W x = Inr w \<and> wire_api.Type W w = TStruct \<and>
      (Writable W w \<longleftrightarrow> (\<lambda>_. True) x) \<and> ((\<lambda>_. True) x \<longrightarrow> DomainNotActiveError_FromWire W w
          DomainNotActiveError_zero = Inr x)"
    by (cases x) (auto simp: codec_rules DomainNotActiveError_ToWire_def
        DomainNotActiveError_FromWire_def DomainNotActiveError_zero_def laws split: option.splits)
qed

definition DomainNotActiveError_Equals ::
  "DomainNotActiveError option \<Rightarrow> DomainNotActiveError option \<Rightarrow> bool" where
  "DomainNotActiveError_Equals v rhs =
     (case v of None \<Rightarrow> rhs = None
      | Some v \<Rightarrow> (case rhs of None \<Rightarrow> False
        | Some rhs \<Rightarrow>
          if \<not> (DomainNotActiveError.Message v = DomainNotActiveError.Message rhs) then False else
          if \<not> (DomainNotActiveError.DomainName v = DomainNotActiveError.DomainName rhs) then False
              else
          if \<not> (DomainNotActiveError.CurrentCluster v = DomainNotActiveError.CurrentCluster rhs)
              then False else
          if \<not> (DomainNotActiveError.ActiveCluster v = DomainNotActiveError.ActiveCluster rhs) then
              False else
          True))"

lemma DomainNotActiveError_Equals_iff [simp]: "DomainNotActiveError_Equals x y \<longleftrightarrow> x = y"
  by (cases x; cases y) (auto simp: DomainNotActiveError_Equals_def)

definition LimitExceededError_zero :: LimitExceededError where
  "LimitExceededError_zero = \<lparr>LimitExceededError.Message = []\<rparr>"

definition LimitExceededError_ToWire ::
  "'v wire_api \<Rightarrow> LimitExceededError \<Rightarrow> go_error + 'v" where
  "LimitExceededError_ToWire W v =
     and_then (put_req 1 (\<lambda>x. Inr (NewValueString W x)) (LimitExceededError.Message v) [])
       (\<lambda>fields.
     Inr (NewValueStruct W fields))"

definition LimitExceededError_FromWire ::
  "'v wire_api \<Rightarrow> 'v \<Rightarrow> LimitExceededError \<Rightarrow> go_error + LimitExceededError" where
  "LimitExceededError_FromWire W w v =
     and_then (foldM (\<lambda>(v, message_isSet) (fid, fval).
       if fid = 1 then
         if wire_api.Type W fval = TBinary
         then Inr (v\<lparr>LimitExceededError.Message := GetString W fval\<rparr>, True)
         else Inr (v, message_isSet)
       else Inr (v, message_isSet)) (GetStruct W w) (v, False)) (\<lambda>(v, message_isSet).
     if \<not> message_isSet then Inl (E_New ''field Message of LimitExceededError is required'')
     else Inr v)"

definition LimitExceededError_Read :: "'v wire_api \<Rightarrow> 'v \<Rightarrow> go_error + LimitExceededError" where
  "LimitExceededError_Read W w = LimitExceededError_FromWire W w LimitExceededError_zero"

interpretation LimitExceededError: thrift_message W
  "LimitExceededError_ToWire W" "LimitExceededError_FromWire W" LimitExceededError_zero "\<lambda>_. True"
      for W
proof (rule thrift_messageI)
  fix x :: LimitExceededError
  assume laws: "wire_laws W"
  show "\<exists>w. LimitExceededError_ToWire W x = Inr w \<and> wire_api.Type W w = TStruct \<and>
      (Writable W w \<longleftrightarrow> (\<lambda>_. True) x) \<and> ((\<lambda>_. True) x \<longrightarrow> LimitExceededError_FromWire W w
          LimitExceededError_zero = Inr x)"
    by (cases x) (auto simp: codec_rules LimitExceededError_ToWire_def
        LimitExceededError_FromWire_def LimitExceededError_zero_def laws split: option.splits)
qed

definition LimitExceededError_Equals ::
  "LimitExceededError option \<Rightarrow> LimitExceededError option \<Rightarrow> bool" where
  "LimitExceededError_Equals v rhs =
     (case v of None \<Rightarrow> rhs = None
      | Some v \<Rightarrow> (case rhs of None \<Rightarrow> False
        | Some rhs \<Rightarrow>
          if \<not> (LimitExceededError.Message v = LimitExceededError.Message rhs) then False else
          True))"

lemma LimitExceededError_Equals_iff [simp]: "LimitExceededError_Equals x y \<longleftrightarrow> x = y"
  by (cases x; cases y) (auto simp: LimitExceededError_Equals_def)

definition WorkflowExecutionAlreadyStartedError_zero :: WorkflowExecutionAlreadyStartedError where
  "WorkflowExecutionAlreadyStartedError_zero = \<lparr>WorkflowExecutionAlreadyStartedError.Message = None,
      WorkflowExecutionAlreadyStartedError.StartRequestId = None,
      WorkflowExecutionAlreadyStartedError.RunId = None\<rparr>"

definition WorkflowExecutionAlreadyStartedError_ToWire ::
  "'v wire_api \<Rightarrow> WorkflowExecutionAlreadyStartedError \<Rightarrow> go_error + 'v" where
  "WorkflowExecutionAlreadyStartedError_ToWire W v =
     and_then (put_opt 10 (\<lambda>x. Inr (NewValueString W x))
         (WorkflowExecutionAlreadyStartedError.Message v) [])
       (\<lambda>fields.
     and_then (put_opt 20 (\<lambda>x. Inr (NewValueString W x))
         (WorkflowExecutionAlreadyStartedError.StartRequestId v) fields)
       (\<lambda>fields.
     and_then (put_opt 30 (\<lambda>x. Inr (NewValueString W x)) (WorkflowExecutionAlreadyStartedError.RunId
         v) fields)
       (\<lambda>fields.
     Inr (NewValueStruct W fields))))"

definition WorkflowExecutionAlreadyStartedError_FromWire ::
  "'v wire_api \<Rightarrow> 'v \<Rightarrow> WorkflowExecutionAlreadyStartedError \<Rightarrow> go_error +
      WorkflowExecutionAlreadyStartedError" where
  "WorkflowExecutionAlreadyStartedError_FromWire W w v =
     foldM (\<lambda>v (fid, fval).
       if fid = 10 then
         if wire_api.Type W fval = TBinary
         then Inr (v\<lparr>WorkflowExecutionAlreadyStartedError.Message := Some (GetString W fval)\<rparr>)
         else Inr v
       else if fid = 20 then
         if wire_api.Type W fval = TBinary
         then Inr (v\<lparr>WorkflowExecutionAlreadyStartedError.StartRequestId := Some (GetString W
             fval)\<rparr>)
         else Inr v
       else if fid = 30 then
         if wire_api.Type W fval = TBinary
         then Inr (v\<lparr>WorkflowExecutionAlreadyStartedError.RunId := Some (GetString W fval)\<rparr>)
         else Inr v
       else Inr v) (GetStruct W w) v"

definition WorkflowExecutionAlreadyStartedError_Read :: "'v wire_api \<Rightarrow> 'v \<Rightarrow> go_error +
    WorkflowExecutionAlreadyStartedError" where
  "WorkflowExecutionAlreadyStartedError_Read W w = WorkflowExecutionAlreadyStartedError_FromWire W w
      WorkflowExecutionAlreadyStartedError_zero"

lemma WorkflowExecutionAlreadyStartedError_merge:
  "(case x of None \<Rightarrow> Inr \<lparr>WorkflowExecutionAlreadyStartedError.Message = a0,
      WorkflowExecutionAlreadyStartedError.StartRequestId = a1,
      WorkflowExecutionAlreadyStartedError.RunId = a2\<rparr> | Some y \<Rightarrow> Inr
      \<lparr>WorkflowExecutionAlreadyStartedError.Message = b0 y,
      WorkflowExecutionAlreadyStartedError.StartRequestId = b1 y,
      WorkflowExecutionAlreadyStartedError.RunId = b2 y\<rparr>) =
   Inr \<lparr>WorkflowExecutionAlreadyStartedError.Message = (case x of None \<Rightarrow> a0 | Some y \<Rightarrow> b0 y),
       WorkflowExecutionAlreadyStartedError.StartRequestId = (case x of None \<Rightarrow> a1 | Some y \<Rightarrow> b1 y),
       WorkflowExecutionAlreadyStartedError.RunId = (case x of None \<Rightarrow> a2 | Some y \<Rightarrow> b2 y)\<rparr>"
  by (cases x) simp_all

interpretation WorkflowExecutionAlreadyStartedError: thrift_message W
  "WorkflowExecutionAlreadyStartedError_ToWire W" "WorkflowExecutionAlreadyStartedError_FromWire W"
      WorkflowExecutionAlreadyStartedError_zero "\<lambda>_. True" for W
proof (rule thrift_messageI)
  fix x :: WorkflowExecutionAlreadyStartedError
  assume laws: "wire_laws W"
  show "\<exists>w. WorkflowExecutionAlreadyStartedError_ToWire W x = Inr w \<and> wire_api.Type W w = TStruct \<and>
      (Writable W w \<longleftrightarrow> (\<lambda>_. True) x) \<and> ((\<lambda>_. True) x \<longrightarrow> WorkflowExecutionAlreadyStartedError_FromWire
          W w WorkflowExecutionAlreadyStartedError_zero = Inr x)"
    by (cases x) (simp cong: option.case_cong add: codec_rules
        WorkflowExecutionAlreadyStartedError_merge WorkflowExecutionAlreadyStartedError_ToWire_def
        WorkflowExecutionAlreadyStartedError_FromWire_def
        WorkflowExecutionAlreadyStartedError_zero_def laws)
qed

definition WorkflowExecutionAlreadyStartedError_Equals ::
  "WorkflowExecutionAlreadyStartedError option \<Rightarrow> WorkflowExecutionAlreadyStartedError option \<Rightarrow> bool"
      where
  "WorkflowExecutionAlreadyStartedError_Equals v rhs =
     (case v of None \<Rightarrow> rhs = None
      | Some v \<Rightarrow> (case rhs of None \<Rightarrow> False
        | Some rhs \<Rightarrow>
          if \<not> String_EqualsPtr (WorkflowExecutionAlreadyStartedError.Message v)
              (WorkflowExecutionAlreadyStartedError.Message rhs) then False else
          if \<not> String_EqualsPtr (WorkflowExecutionAlreadyStartedError.StartRequestId v)
              (WorkflowExecutionAlreadyStartedError.StartRequestId rhs) then False else
          if \<not> String_EqualsPtr (WorkflowExecutionAlreadyStartedError.RunId v)
              (WorkflowExecutionAlreadyStartedError.RunId rhs) then False else
          True))"

lemma WorkflowExecutionAlreadyStartedError_Equals_iff [simp]:
    "WorkflowExecutionAlreadyStartedError_Equals x y \<longleftrightarrow> x = y"
  by (cases x; cases y) (auto simp: WorkflowExecutionAlreadyStartedError_Equals_def)

definition CancellationAlreadyRequestedError_zero :: CancellationAlreadyRequestedError where
  "CancellationAlreadyRequestedError_zero = \<lparr>CancellationAlreadyRequestedError.Message = []\<rparr>"

definition CancellationAlreadyRequestedError_ToWire ::
  "'v wire_api \<Rightarrow> CancellationAlreadyRequestedError \<Rightarrow> go_error + 'v" where
  "CancellationAlreadyRequestedError_ToWire W v =
     and_then (put_req 1 (\<lambda>x. Inr (NewValueString W x)) (CancellationAlreadyRequestedError.Message
         v) [])
       (\<lambda>fields.
     Inr (NewValueStruct W fields))"

definition CancellationAlreadyRequestedError_FromWire ::
  "'v wire_api \<Rightarrow> 'v \<Rightarrow> CancellationAlreadyRequestedError \<Rightarrow> go_error +
      CancellationAlreadyRequestedError" where
  "CancellationAlreadyRequestedError_FromWire W w v =
     and_then (foldM (\<lambda>(v, message_isSet) (fid, fval).
       if fid = 1 then
         if wire_api.Type W fval = TBinary
         then Inr (v\<lparr>CancellationAlreadyRequestedError.Message := GetString W fval\<rparr>, True)
         else Inr (v, message_isSet)
       else Inr (v, message_isSet)) (GetStruct W w) (v, False)) (\<lambda>(v, message_isSet).
     if \<not> message_isSet then Inl (E_New
         ''field Message of CancellationAlreadyRequestedError is required'')
     else Inr v)"

definition CancellationAlreadyRequestedError_Read :: "'v wire_api \<Rightarrow> 'v \<Rightarrow> go_error +
    CancellationAlreadyRequestedError" where
  "CancellationAlreadyRequestedError_Read W w = CancellationAlreadyRequestedError_FromWire W w
      CancellationAlreadyRequestedError_zero"

interpretation CancellationAlreadyRequestedError: thrift_message W
  "CancellationAlreadyRequestedError_ToWire W" "CancellationAlreadyRequestedError_FromWire W"
      CancellationAlreadyRequestedError_zero "\<lambda>_. True" for W
proof (rule thrift_messageI)
  fix x :: CancellationAlreadyRequestedError
  assume laws: "wire_laws W"
  show "\<exists>w. CancellationAlreadyRequestedError_ToWire W x = Inr w \<and> wire_api.Type W w = TStruct \<and>
      (Writable W w \<longleftrightarrow> (\<lambda>_. True) x) \<and> ((\<lambda>_. True) x \<longrightarrow> CancellationAlreadyRequestedError_FromWire W w
          CancellationAlreadyRequestedError_zero = Inr x)"
    by (cases x) (auto simp: codec_rules CancellationAlreadyRequestedError_ToWire_def
        CancellationAlreadyRequestedError_FromWire_def CancellationAlreadyRequestedError_zero_def
        laws split: option.splits)
qed

definition CancellationAlreadyRequestedError_Equals ::
  "CancellationAlreadyRequestedError option \<Rightarrow> CancellationAlreadyRequestedError option \<Rightarrow> bool" where
  "CancellationAlreadyRequestedError_Equals v rhs =
     (case v of None \<Rightarrow> rhs = None
      | Some v \<Rightarrow> (case rhs of None \<Rightarrow> False
        | Some rhs \<Rightarrow>
          if \<not> (CancellationAlreadyRequestedError.Message v =
              CancellationAlreadyRequestedError.Message rhs) then False else
          True))"

lemma CancellationAlreadyRequestedError_Equals_iff [simp]: "CancellationAlreadyRequestedError_Equals
    x y \<longleftrightarrow> x = y"
  by (cases x; cases y) (auto simp: CancellationAlreadyRequestedError_Equals_def)

definition DomainAlreadyExistsError_zero :: DomainAlreadyExistsError where
  "DomainAlreadyExistsError_zero = \<lparr>DomainAlreadyExistsError.Message = []\<rparr>"

definition DomainAlreadyExistsError_ToWire ::
  "'v wire_api \<Rightarrow> DomainAlreadyExistsError \<Rightarrow> go_error + 'v" where
  "DomainAlreadyExistsError_ToWire W v =
     and_then (put_req 1 (\<lambda>x. Inr (NewValueString W x)) (DomainAlreadyExistsError.Message v) [])
       (\<lambda>fields.
     Inr (NewValueStruct W fields))"

definition DomainAlreadyExistsError_FromWire ::
  "'v wire_api \<Rightarrow> 'v \<Rightarrow> DomainAlreadyExistsError \<Rightarrow> go_error + DomainAlreadyExistsError" where
  "DomainAlreadyExistsError_FromWire W w v =
     and_then (foldM (\<lambda>(v, message_isSet) (fid, fval).
       if fid = 1 then
         if wire_api.Type W fval = TBinary
         then Inr (v\<lparr>DomainAlreadyExistsError.Message := GetString W fval\<rparr>, True)
         else Inr (v, message_isSet)
       else Inr (v, message_isSet)) (GetStruct W w) (v, False)) (\<lambda>(v, message_isSet).
     if \<not> message_isSet then Inl (E_New ''field Message of DomainAlreadyExistsError is required'')
     else Inr v)"

definition DomainAlreadyExistsError_Read :: "'v wire_api \<Rightarrow> 'v \<Rightarrow> go_error + DomainAlreadyExistsError"
    where
  "DomainAlreadyExistsError_Read W w = DomainAlreadyExistsError_FromWire W w
      DomainAlreadyExistsError_zero"

interpretation DomainAlreadyExistsError: thrift_message W
  "DomainAlreadyExistsError_ToWire W" "DomainAlreadyExistsError_FromWire W"
      DomainAlreadyExistsError_zero "\<lambda>_. True" for W
proof (rule thrift_messageI)
  fix x :: DomainAlreadyExistsError
  assume laws: "wire_laws W"
  show "\<exists>w. DomainAlreadyExistsError_ToWire W x = Inr w \<and> wire_api.Type W w = TStruct \<and>
      (Writable W w \<longleftrightarrow> (\<lambda>_. True) x) \<and> ((\<lambda>_. True) x \<longrightarrow> DomainAlreadyExistsError_FromWire W w
          DomainAlreadyExistsError_zero = Inr x)"
    by (cases x) (auto simp: codec_rules DomainAlreadyExistsError_ToWire_def
        DomainAlreadyExistsError_FromWire_def DomainAlreadyExistsError_zero_def laws split:
        option.splits)
qed

definition DomainAlreadyExistsError_Equals ::
  "DomainAlreadyExistsError option \<Rightarrow> DomainAlreadyExistsError option \<Rightarrow> bool" where
  "DomainAlreadyExistsError_Equals v rhs =
     (case v of None \<Rightarrow> rhs = None
      | Some v \<Rightarrow> (case rhs of None \<Rightarrow> False
        | Some rhs \<Rightarrow>
          if \<not> (DomainAlreadyExistsError.Message v = DomainAlreadyExistsError.Message rhs) then
              False else
          True))"

lemma DomainAlreadyExistsError_Equals_iff [simp]: "DomainAlreadyExistsError_Equals x y \<longleftrightarrow> x = y"
  by (cases x; cases y) (auto simp: DomainAlreadyExistsError_Equals_def)

definition QueryFailedError_zero :: QueryFailedError where
  "QueryFailedError_zero = \<lparr>QueryFailedError.Message = []\<rparr>"

definition QueryFailedError_ToWire ::
  "'v wire_api \<Rightarrow> QueryFailedError \<Rightarrow> go_error + 'v" where
  "QueryFailedError_ToWire W v =
     and_then (put_req 1 (\<lambda>x. Inr (NewValueString W x)) (QueryFailedError.Message v) [])
       (\<lambda>fields.
     Inr (NewValueStruct W fields))"

definition QueryFailedError_FromWire ::
  "'v wire_api \<Rightarrow> 'v \<Rightarrow> QueryFailedError \<Rightarrow> go_error + QueryFailedError" where
  "QueryFailedError_FromWire W w v =
     and_then (foldM (\<lambda>(v, message_isSet) (fid, fval).
       if fid = 1 then
         if wire_api.Type W fval = TBinary
         then Inr (v\<lparr>QueryFailedError.Message := GetString W fval\<rparr>, True)
         else Inr (v, message_isSet)
       else Inr (v, message_isSet)) (GetStruct W w) (v, False)) (\<lambda>(v, message_isSet).
     if \<not> message_isSet then Inl (E_New ''field Message of QueryFailedError is required'')
     else Inr v)"

definition QueryFailedError_Read :: "'v wire_api \<Rightarrow> 'v \<Rightarrow> go_error + QueryFailedError" where
  "QueryFailedError_Read W w = QueryFailedError_FromWire W w QueryFailedError_zero"

interpretation QueryFailedError: thrift_message W
  "QueryFailedError_ToWire W" "QueryFailedError_FromWire W" QueryFailedError_zero "\<lambda>_. True" for W
proof (rule thrift_messageI)
  fix x :: QueryFailedError
  assume laws: "wire_laws W"
  show "\<exists>w. QueryFailedError_ToWire W x = Inr w \<and> wire_api.Type W w = TStruct \<and>
      (Writable W w \<longleftrightarrow> (\<lambda>_. True) x) \<and> ((\<lambda>_. True) x \<longrightarrow> QueryFailedError_FromWire W w
          QueryFailedError_zero = Inr x)"
    by (cases x) (auto simp: codec_rules QueryFailedError_ToWire_def QueryFailedError_FromWire_def
        QueryFailedError_zero_def laws split: option.splits)
qed

definition QueryFailedError_Equals ::
  "QueryFailedError option \<Rightarrow> QueryFailedError option \<Rightarrow> bool" where
  "QueryFailedError_Equals v rhs =
     (case v of None \<Rightarrow> rhs = None
      | Some v \<Rightarrow> (case rhs of None \<Rightarrow> False
        | Some rhs \<Rightarrow>
          if \<not> (QueryFailedError.Message v = QueryFailedError.Message rhs) then False else
          True))"

lemma QueryFailedError_Equals_iff [simp]: "QueryFailedError_Equals x y \<longleftrightarrow> x = y"
  by (cases x; cases y) (auto simp: QueryFailedError_Equals_def)

end
