(* ===== verification/GoText.thy ===== *)
theory GoText
  imports GoErrorValues Decimal
begin

text \<open>
  Numbers and names as text: the parts of Go's strconv that the generated enumerations use,
  and the contract of a generated enumeration. An enumeration is an \<open>int32\<close>; every 32-bit value
  is a value of the type, whether it has a name or not.
\<close>

section \<open>Integers\<close>

text \<open>\<open>strconv.FormatInt(i, 10)\<close>.\<close>

definition FormatInt :: "int \<Rightarrow> string" where
  "FormatInt i = (if i < 0 then CHR ''-'' # nat_digits (nat (- i)) else nat_digits (nat i))"

text \<open>
  \<open>strconv.ParseInt(s, 10, bits)\<close>: an optional sign and at least one digit, nothing else, and a
  number that fits \<open>bits\<close> bits with a sign.
\<close>

definition dec_value :: "string \<Rightarrow> nat" where
  "dec_value s = foldl (\<lambda>a c. 10 * a + digit_val c) 0 s"

definition ParseInt :: "nat \<Rightarrow> string \<Rightarrow> string + int" where
  "ParseInt bits s =
     (let signed = (case s of [] \<Rightarrow> False | c # cs \<Rightarrow> c = CHR ''-'' \<or> c = CHR ''+'');
          neg = (case s of [] \<Rightarrow> False | c # cs \<Rightarrow> c = CHR ''-'');
          digits = (if signed then tl s else s);
          un = dec_value digits
      in if digits = [] \<or> \<not> list_all is_digit digits then Inl ''invalid syntax''
         else if \<not> neg \<and> 2 ^ (bits - 1) \<le> un then Inl ''value out of range''
         else if neg \<and> 2 ^ (bits - 1) < un then Inl ''value out of range''
         else Inr (if neg then - int un else int un))"

lemma not_digit_signs [simp]: "\<not> is_digit (CHR ''-'')" "\<not> is_digit (CHR ''+'')"
  by (simp_all add: is_digit_def)

lemma dec_value_digits [simp]: "dec_value (nat_digits n) = n"
  by (simp add: dec_value_def foldl_nat_digits)

lemma all_digits [simp]: "list_all is_digit (nat_digits n)"
  by (simp add: list_all_iff nat_digits_all_digits)

lemma first_digit: "is_digit (hd (nat_digits n))"
  by (rule nat_digits_all_digits [of _ n]) simp

lemma unsigned_digits:
  "(case nat_digits n of [] \<Rightarrow> False | c # cs \<Rightarrow> c = CHR ''-'' \<or> c = CHR ''+'') \<longleftrightarrow> False"
  "(case nat_digits n of [] \<Rightarrow> False | c # cs \<Rightarrow> c = CHR ''-'') \<longleftrightarrow> False"
  using first_digit [of n] by (auto split: list.split)

lemma ParseInt_FormatInt:
  assumes "- (2 ^ (bits - 1)) \<le> i" and "i < 2 ^ (bits - 1)"
  shows "ParseInt bits (FormatInt i) = Inr i"
proof (cases "i < 0")
  case True
  then have "nat (- i) \<le> 2 ^ (bits - 1)" using assms(1) by (simp add: nat_le_iff)
  with True show ?thesis by (simp add: ParseInt_def FormatInt_def Let_def not_less)
next
  case False
  then have "nat i < 2 ^ (bits - 1)" using assms(2) by (simp add: nat_less_iff)
  with False show ?thesis
    by (simp add: ParseInt_def FormatInt_def Let_def unsigned_digits not_le)
qed

lemma ParseInt_word: "ParseInt 32 (FormatInt (sint (v :: 32 word))) = Inr (sint v)"
  "ParseInt 64 (FormatInt (sint (v :: 32 word))) = Inr (sint v)"
  using sint_ge [of v] sint_lt [of v] by (auto intro!: ParseInt_FormatInt)

lemma FormatInt_first: "is_digit (hd (FormatInt i)) \<or> hd (FormatInt i) = CHR ''-''"
  by (simp add: FormatInt_def first_digit)

section \<open>Enumerations\<close>

text \<open>Go's \<open>switch\<close> on a value, with its default.\<close>

definition switch :: "'a \<Rightarrow> ('a \<times> 'b) list \<Rightarrow> 'b \<Rightarrow> 'b" where
  "switch x cases otherwise = (case map_of cases x of None \<Rightarrow> otherwise | Some y \<Rightarrow> y)"

text \<open>A token that a JSON decoder reads: a number, as its text, a string, or something else.\<close>

datatype json_token = JSON_Number string | JSON_String string | JSON_Other string

text \<open>The text of a token. The strings that are written here need no escapes.\<close>

fun token_text :: "json_token \<Rightarrow> string" where
  "token_text (JSON_Number s) = s"
| "token_text (JSON_String s) = CHR 0x22 # s @ [CHR 0x22]"
| "token_text (JSON_Other s) = s"

text \<open>A number for each name, to compare numbers instead of strings.\<close>

primrec name_weight :: "int \<Rightarrow> string \<Rightarrow> int" where
  "name_weight k [] = 0"
| "name_weight k (c # cs) = k * of_char c + name_weight (k + 1) cs"

definition name_code :: "string \<Rightarrow> int" where
  "name_code s = name_weight 1 s"

lemma distinct_names: "distinct (map name_code names) \<Longrightarrow> distinct names"
  by (simp add: distinct_map)

text \<open>A name does not start like a number.\<close>

definition is_name :: "string \<Rightarrow> bool" where
  "is_name s \<longleftrightarrow> (case s of [] \<Rightarrow> False | c # cs \<Rightarrow> \<not> is_digit c \<and> c \<noteq> CHR ''-'')"

lemma is_nameD: "is_name s \<Longrightarrow> \<not> is_digit (hd s) \<and> hd s \<noteq> CHR ''-''"
  by (cases s) (simp_all add: is_name_def)

text \<open>
  The contract of a generated enumeration over its table of \<open>names\<close>: its methods are the
  switches below, and they agree with each other.
\<close>

locale enumeration =
  fixes names :: "(32 word \<times> string) list"
    and label :: string
    and Values :: "32 word list"
    and UnmarshalText :: "string \<Rightarrow> go_error + 32 word"
    and MarshalText :: "32 word \<Rightarrow> string"
    and String :: "32 word \<Rightarrow> string"
    and MarshalJSON :: "32 word \<Rightarrow> string"
    and UnmarshalJSON :: "string \<Rightarrow> go_error + json_token \<Rightarrow> go_error + 32 word"
  assumes numbers_distinct: "distinct (map fst names)"
    and names_distinct: "distinct (map snd names)"
    and names_named: "list_all is_name (map snd names)"
    and Values_eq: "Values = map fst names"
    and UnmarshalText_eq: "UnmarshalText s = switch s (map (\<lambda>(v, s). (s, Inr v)) names)
      (case ParseInt 32 s of
         Inl err \<Rightarrow> Inl (E_Errorf_s ''unknown enum value %q for %q: %v'' [s, label, err])
       | Inr val \<Rightarrow> Inr (word_of_int val))"
    and MarshalText_eq: "MarshalText v = switch v names (FormatInt (sint v))"
    and String_eq: "String v = switch v names (label @ CHR ''('' # FormatInt (sint v) @ '')'')"
    and MarshalJSON_eq: "MarshalJSON v =
      switch v (map (\<lambda>(v, s). (v, CHR 0x22 # s @ [CHR 0x22])) names) (FormatInt (sint v))"
    and UnmarshalJSON_number: "UnmarshalJSON text (Inr (JSON_Number s)) =
      (case ParseInt 64 s of
         Inl err \<Rightarrow> Inl (E_Errorf_s ''strconv.ParseInt: parsing %q: %v'' [s, err])
       | Inr x \<Rightarrow> if 2147483647 < x then Inl (E_Errorf_s ''enum overflow from JSON %q for %q'' [text, label])
           else if x < -2147483648 then Inl (E_Errorf_s ''enum underflow from JSON %q for %q'' [text, label])
           else Inr (word_of_int x))"
    and UnmarshalJSON_string: "UnmarshalJSON text (Inr (JSON_String s)) = UnmarshalText s"
begin

lemma switch_name:
  assumes "(v, s) \<in> set names"
  shows "switch v names d = s" and "switch s (map (\<lambda>(v, s). (s, Inr v)) names) d' = (Inr v :: go_error + 32 word)"
    and "switch v (map (\<lambda>(v, s). (v, f s)) names) d'' = f s"
proof -
  show "switch v names d = s"
    using assms numbers_distinct by (simp add: switch_def map_of_is_SomeI)
  have "map_of (map (\<lambda>(v, s). (s, Inr v)) names) s = Some (Inr v :: go_error + 32 word)"
    using assms names_distinct by (intro map_of_is_SomeI)
      (auto simp: comp_def split_def intro: rev_image_eqI)
  then show "switch s (map (\<lambda>(v, s). (s, Inr v)) names) d' = Inr v" by (simp add: switch_def)
  have "map_of (map (\<lambda>(v, s). (v, f s)) names) v = Some (f s)"
    using assms numbers_distinct by (intro map_of_is_SomeI)
      (auto simp: comp_def split_def intro: rev_image_eqI)
  then show "switch v (map (\<lambda>(v, s). (v, f s)) names) d'' = f s" by (simp add: switch_def)
qed

lemma switch_other:
  assumes "v \<notin> set Values"
  shows "switch v names d = d" and "switch v (map (\<lambda>(v, s). (v, f s)) names) d'' = d''"
proof -
  from assms have "map_of names v = None"
    by (simp add: Values_eq map_of_eq_None_iff)
  moreover from assms have "map_of (map (\<lambda>(v, s). (v, f s)) names) v = None"
    by (auto simp: Values_eq map_of_eq_None_iff image_iff)
  ultimately show "switch v names d = d" "switch v (map (\<lambda>(v, s). (v, f s)) names) d'' = d''"
    by (simp_all add: switch_def)
qed

lemma no_number: "switch (FormatInt i) (map (\<lambda>(v, s). (s, Inr v)) names) d = (d :: go_error + 32 word)"
proof -
  have "FormatInt i \<noteq> s" if "(v, s) \<in> set names" for v s
  proof -
    from names_named that have "is_name s" by (auto simp: list_all_iff)
    then show ?thesis using FormatInt_first [of i] is_nameD by auto
  qed
  then have "map_of (map (\<lambda>(v, s). (s, Inr v)) names) (FormatInt i) = (None :: (go_error + 32 word) option)"
    by (fastforce simp: map_of_eq_None_iff image_iff)
  then show ?thesis by (simp add: switch_def)
qed

text \<open>Every value survives its text, whether it has a name or not.\<close>

lemma text_roundtrip: "UnmarshalText (MarshalText v) = Inr v"
proof (cases "v \<in> set Values")
  case True
  then obtain s where "(v, s) \<in> set names" by (auto simp: Values_eq)
  then show ?thesis by (simp add: MarshalText_eq UnmarshalText_eq switch_name)
next
  case False
  then show ?thesis
    by (simp add: MarshalText_eq UnmarshalText_eq switch_other no_number ParseInt_word)
qed

text \<open>And its JSON: a string for a named value, a number for any other.\<close>

lemma json_roundtrip:
  "\<exists>t. MarshalJSON v = token_text t \<and> UnmarshalJSON text (Inr t) = Inr v \<and>
     ((\<exists>s. t = JSON_String s) \<longleftrightarrow> v \<in> set Values)"
proof (cases "v \<in> set Values")
  case True
  then obtain s where s: "(v, s) \<in> set names" by (auto simp: Values_eq)
  then have "MarshalJSON v = token_text (JSON_String s)" "UnmarshalJSON text (Inr (JSON_String s)) = Inr v"
    by (simp_all add: MarshalJSON_eq UnmarshalJSON_string UnmarshalText_eq switch_name
        switch_name(3) [where f = "\<lambda>s. CHR 0x22 # s @ [CHR 0x22]"])
  with True show ?thesis by blast
next
  case False
  have "sint v \<le> 2147483647" "-2147483648 \<le> sint v"
    using sint_ge [of v] sint_lt [of v] by simp_all
  then have "MarshalJSON v = token_text (JSON_Number (FormatInt (sint v)))"
    "UnmarshalJSON text (Inr (JSON_Number (FormatInt (sint v)))) = Inr v"
    by (simp_all add: MarshalJSON_eq UnmarshalJSON_number ParseInt_word
        switch_other(2) [OF False, where f = "\<lambda>s. CHR 0x22 # s @ [CHR 0x22]"])
  with False show ?thesis by blast
qed

text \<open>A string that is a number is taken for that number, not refused as an unknown name.\<close>

lemma numeric_string: "UnmarshalJSON text (Inr (JSON_String (FormatInt (sint v)))) = Inr v"
  by (simp add: UnmarshalJSON_string UnmarshalText_eq no_number ParseInt_word)

end

end
