(* ===== verification/GoEnums.thy ===== *)
theory GoEnums
  imports GoErrors GoText
begin

text \<open>
  The enumerations of proxy/gen/shared/shared.go. A Go enumeration is an \<open>int32\<close>: every 32-bit
  value is a value of the type. Each enumeration has its codec, its comparison, and its text and
      JSON
  forms, which interpret \<open>enumeration\<close>.
\<close>

type_synonym ArchivalStatus = "32 word"

definition ArchivalStatus_ToWire :: "'v wire_api \<Rightarrow> ArchivalStatus \<Rightarrow> go_error + 'v" where
  "ArchivalStatus_ToWire W v = Inr (NewValueI32 W v)"

definition ArchivalStatus_FromWire ::
  "'v wire_api \<Rightarrow> 'v \<Rightarrow> ArchivalStatus \<Rightarrow> go_error + ArchivalStatus" where
  "ArchivalStatus_FromWire W w v = Inr (GetI32 W w)"

definition ArchivalStatus_Read :: "'v wire_api \<Rightarrow> 'v \<Rightarrow> go_error + ArchivalStatus" where
  "ArchivalStatus_Read W w = ArchivalStatus_FromWire W w 0"

definition ArchivalStatus_Equals :: "ArchivalStatus \<Rightarrow> ArchivalStatus \<Rightarrow> bool" where
  "ArchivalStatus_Equals v rhs \<longleftrightarrow> v = rhs"

definition ArchivalStatus_EqualsPtr :: "ArchivalStatus option \<Rightarrow> ArchivalStatus option \<Rightarrow> bool" where
  "ArchivalStatus_EqualsPtr lhs rhs =
     (case lhs of
        Some x \<Rightarrow> (case rhs of Some y \<Rightarrow> ArchivalStatus_Equals x y | None \<Rightarrow> lhs = None \<and> rhs = None)
      | None \<Rightarrow> lhs = None \<and> rhs = None)"

lemma ArchivalStatus_codec [simp]:
  "ArchivalStatus_EqualsPtr c d \<longleftrightarrow> c = d"
  "ArchivalStatus_ToWire W i = Inr (NewValueI32 W i)"
  "wire_laws W \<Longrightarrow> ArchivalStatus_Read W (NewValueI32 W i) = Inr i"
  by (auto simp: ArchivalStatus_EqualsPtr_def ArchivalStatus_Equals_def ArchivalStatus_ToWire_def
      ArchivalStatus_FromWire_def
      ArchivalStatus_Read_def split: option.splits)

lemma ArchivalStatus_enc: "ArchivalStatus_ToWire W = (\<lambda>i. Inr (NewValueI32 W i))"
  by auto

text \<open>The constants of \<open>ArchivalStatus\<close>, and its text and JSON forms.\<close>

definition ArchivalStatus_constants :: "(string \<times> ArchivalStatus) list" where
  "ArchivalStatus_constants =
     [(''ArchivalStatusDisabled'', 0),
      (''ArchivalStatusEnabled'', 1)]"

definition ArchivalStatus_Values :: "ArchivalStatus list" where
  "ArchivalStatus_Values =
     [0,
      1]"

definition ArchivalStatus_UnmarshalText :: "string \<Rightarrow> go_error + ArchivalStatus" where
  "ArchivalStatus_UnmarshalText s = switch s
     [(''DISABLED'', Inr 0),
      (''ENABLED'', Inr 1)]
     (case ParseInt 32 s of
        Inl err \<Rightarrow> Inl (E_Errorf_s ''unknown enum value %q for %q: %v'' [s, ''ArchivalStatus'', err])
      | Inr val \<Rightarrow> Inr (word_of_int val))"

definition ArchivalStatus_MarshalText :: "ArchivalStatus \<Rightarrow> string" where
  "ArchivalStatus_MarshalText v = switch v
     [(0, ''DISABLED''),
      (1, ''ENABLED'')]
     (FormatInt (sint v))"

definition ArchivalStatus_String :: "ArchivalStatus \<Rightarrow> string" where
  "ArchivalStatus_String v = switch v
     [(0, ''DISABLED''),
      (1, ''ENABLED'')]
     (''ArchivalStatus'' @ CHR ''('' # FormatInt (sint v) @ '')'')"

definition ArchivalStatus_MarshalJSON :: "ArchivalStatus \<Rightarrow> string" where
  "ArchivalStatus_MarshalJSON v = switch v
     [(0, CHR 0x22 # ''DISABLED'' @ [CHR 0x22]),
      (1, CHR 0x22 # ''ENABLED'' @ [CHR 0x22])]
     (FormatInt (sint v))"

definition ArchivalStatus_UnmarshalJSON :: "string \<Rightarrow> go_error + json_token \<Rightarrow> go_error +
    ArchivalStatus" where
  "ArchivalStatus_UnmarshalJSON text t =
     (case t of
        Inl err \<Rightarrow> Inl err
      | Inr (JSON_Number w) \<Rightarrow>
          (case ParseInt 64 w of
             Inl err \<Rightarrow> Inl (E_Errorf_s ''strconv.ParseInt: parsing %q: %v'' [w, err])
           | Inr x \<Rightarrow>
               if 2147483647 < x
               then Inl (E_Errorf_s ''enum overflow from JSON %q for %q'' [text,
                   ''ArchivalStatus''])
               else if x < -2147483648
               then Inl (E_Errorf_s ''enum underflow from JSON %q for %q'' [text,
                   ''ArchivalStatus''])
               else Inr (word_of_int x))
      | Inr (JSON_String w) \<Rightarrow> ArchivalStatus_UnmarshalText w
      | Inr (JSON_Other w) \<Rightarrow>
          Inl (E_Errorf_s ''invalid JSON value %q (%T) to unmarshal into %q'' [w,
              ''ArchivalStatus'']))"

interpretation ArchivalStatus: enumeration
  "[(0, ''DISABLED''),
      (1, ''ENABLED'')]"
  "''ArchivalStatus''" ArchivalStatus_Values ArchivalStatus_UnmarshalText ArchivalStatus_MarshalText
      ArchivalStatus_String
  ArchivalStatus_MarshalJSON ArchivalStatus_UnmarshalJSON
proof (rule enumeration.intro, goal_cases)
  case 2
  show ?case by (rule distinct_names) (simp add: name_code_def)
qed (simp_all add: ArchivalStatus_Values_def ArchivalStatus_UnmarshalText_def
    ArchivalStatus_MarshalText_def ArchivalStatus_String_def
    ArchivalStatus_MarshalJSON_def ArchivalStatus_UnmarshalJSON_def is_name_def is_digit_def)

lemma ArchivalStatus_Values_constants: "ArchivalStatus_Values = map snd ArchivalStatus_constants"
  by (simp add: ArchivalStatus_Values_def ArchivalStatus_constants_def)

type_synonym CancelExternalWorkflowExecutionFailedCause = "32 word"

definition CancelExternalWorkflowExecutionFailedCause_ToWire :: "'v wire_api \<Rightarrow>
    CancelExternalWorkflowExecutionFailedCause \<Rightarrow> go_error + 'v" where
  "CancelExternalWorkflowExecutionFailedCause_ToWire W v = Inr (NewValueI32 W v)"

definition CancelExternalWorkflowExecutionFailedCause_FromWire ::
  "'v wire_api \<Rightarrow> 'v \<Rightarrow> CancelExternalWorkflowExecutionFailedCause \<Rightarrow> go_error +
      CancelExternalWorkflowExecutionFailedCause" where
  "CancelExternalWorkflowExecutionFailedCause_FromWire W w v = Inr (GetI32 W w)"

definition CancelExternalWorkflowExecutionFailedCause_Read :: "'v wire_api \<Rightarrow> 'v \<Rightarrow> go_error +
    CancelExternalWorkflowExecutionFailedCause" where
  "CancelExternalWorkflowExecutionFailedCause_Read W w =
      CancelExternalWorkflowExecutionFailedCause_FromWire W w 0"

definition CancelExternalWorkflowExecutionFailedCause_Equals ::
    "CancelExternalWorkflowExecutionFailedCause \<Rightarrow> CancelExternalWorkflowExecutionFailedCause \<Rightarrow> bool"
    where
  "CancelExternalWorkflowExecutionFailedCause_Equals v rhs \<longleftrightarrow> v = rhs"

definition CancelExternalWorkflowExecutionFailedCause_EqualsPtr ::
    "CancelExternalWorkflowExecutionFailedCause option \<Rightarrow> CancelExternalWorkflowExecutionFailedCause
    option \<Rightarrow> bool" where
  "CancelExternalWorkflowExecutionFailedCause_EqualsPtr lhs rhs =
     (case lhs of
        Some x \<Rightarrow> (case rhs of Some y \<Rightarrow> CancelExternalWorkflowExecutionFailedCause_Equals x y | None
            \<Rightarrow> lhs = None \<and> rhs = None)
      | None \<Rightarrow> lhs = None \<and> rhs = None)"

lemma CancelExternalWorkflowExecutionFailedCause_codec [simp]:
  "CancelExternalWorkflowExecutionFailedCause_EqualsPtr c d \<longleftrightarrow> c = d"
  "CancelExternalWorkflowExecutionFailedCause_ToWire W i = Inr (NewValueI32 W i)"
  "wire_laws W \<Longrightarrow> CancelExternalWorkflowExecutionFailedCause_Read W (NewValueI32 W i) = Inr i"
  by (auto simp: CancelExternalWorkflowExecutionFailedCause_EqualsPtr_def
      CancelExternalWorkflowExecutionFailedCause_Equals_def
      CancelExternalWorkflowExecutionFailedCause_ToWire_def
      CancelExternalWorkflowExecutionFailedCause_FromWire_def
      CancelExternalWorkflowExecutionFailedCause_Read_def split: option.splits)

lemma CancelExternalWorkflowExecutionFailedCause_enc:
    "CancelExternalWorkflowExecutionFailedCause_ToWire W = (\<lambda>i. Inr (NewValueI32 W i))"
  by auto

text \<open>The constants of \<open>CancelExternalWorkflowExecutionFailedCause\<close>, and its text and JSON forms.\<close>

definition CancelExternalWorkflowExecutionFailedCause_constants :: "(string \<times>
    CancelExternalWorkflowExecutionFailedCause) list" where
  "CancelExternalWorkflowExecutionFailedCause_constants =
     [(''CancelExternalWorkflowExecutionFailedCauseUnknownExternalWorkflowExecution'', 0)]"

definition CancelExternalWorkflowExecutionFailedCause_Values ::
    "CancelExternalWorkflowExecutionFailedCause list" where
  "CancelExternalWorkflowExecutionFailedCause_Values =
     [0]"

definition CancelExternalWorkflowExecutionFailedCause_UnmarshalText :: "string \<Rightarrow> go_error +
    CancelExternalWorkflowExecutionFailedCause" where
  "CancelExternalWorkflowExecutionFailedCause_UnmarshalText s = switch s
     [(''UNKNOWN_EXTERNAL_WORKFLOW_EXECUTION'', Inr 0)]
     (case ParseInt 32 s of
        Inl err \<Rightarrow> Inl (E_Errorf_s ''unknown enum value %q for %q: %v'' [s,
            ''CancelExternalWorkflowExecutionFailedCause'', err])
      | Inr val \<Rightarrow> Inr (word_of_int val))"

definition CancelExternalWorkflowExecutionFailedCause_MarshalText ::
    "CancelExternalWorkflowExecutionFailedCause \<Rightarrow> string" where
  "CancelExternalWorkflowExecutionFailedCause_MarshalText v = switch v
     [(0, ''UNKNOWN_EXTERNAL_WORKFLOW_EXECUTION'')]
     (FormatInt (sint v))"

definition CancelExternalWorkflowExecutionFailedCause_String ::
    "CancelExternalWorkflowExecutionFailedCause \<Rightarrow> string" where
  "CancelExternalWorkflowExecutionFailedCause_String v = switch v
     [(0, ''UNKNOWN_EXTERNAL_WORKFLOW_EXECUTION'')]
     (''CancelExternalWorkflowExecutionFailedCause'' @ CHR ''('' # FormatInt (sint v) @ '')'')"

definition CancelExternalWorkflowExecutionFailedCause_MarshalJSON ::
    "CancelExternalWorkflowExecutionFailedCause \<Rightarrow> string" where
  "CancelExternalWorkflowExecutionFailedCause_MarshalJSON v = switch v
     [(0, CHR 0x22 # ''UNKNOWN_EXTERNAL_WORKFLOW_EXECUTION'' @ [CHR 0x22])]
     (FormatInt (sint v))"

definition CancelExternalWorkflowExecutionFailedCause_UnmarshalJSON :: "string \<Rightarrow> go_error +
    json_token \<Rightarrow> go_error + CancelExternalWorkflowExecutionFailedCause" where
  "CancelExternalWorkflowExecutionFailedCause_UnmarshalJSON text t =
     (case t of
        Inl err \<Rightarrow> Inl err
      | Inr (JSON_Number w) \<Rightarrow>
          (case ParseInt 64 w of
             Inl err \<Rightarrow> Inl (E_Errorf_s ''strconv.ParseInt: parsing %q: %v'' [w, err])
           | Inr x \<Rightarrow>
               if 2147483647 < x
               then Inl (E_Errorf_s ''enum overflow from JSON %q for %q'' [text,
                   ''CancelExternalWorkflowExecutionFailedCause''])
               else if x < -2147483648
               then Inl (E_Errorf_s ''enum underflow from JSON %q for %q'' [text,
                   ''CancelExternalWorkflowExecutionFailedCause''])
               else Inr (word_of_int x))
      | Inr (JSON_String w) \<Rightarrow> CancelExternalWorkflowExecutionFailedCause_UnmarshalText w
      | Inr (JSON_Other w) \<Rightarrow>
          Inl (E_Errorf_s ''invalid JSON value %q (%T) to unmarshal into %q'' [w,
              ''CancelExternalWorkflowExecutionFailedCause'']))"

interpretation CancelExternalWorkflowExecutionFailedCause: enumeration
  "[(0, ''UNKNOWN_EXTERNAL_WORKFLOW_EXECUTION'')]"
  "''CancelExternalWorkflowExecutionFailedCause''" CancelExternalWorkflowExecutionFailedCause_Values
      CancelExternalWorkflowExecutionFailedCause_UnmarshalText
      CancelExternalWorkflowExecutionFailedCause_MarshalText
      CancelExternalWorkflowExecutionFailedCause_String
  CancelExternalWorkflowExecutionFailedCause_MarshalJSON
      CancelExternalWorkflowExecutionFailedCause_UnmarshalJSON
proof (rule enumeration.intro, goal_cases)
  case 2
  show ?case by (rule distinct_names) (simp add: name_code_def)
qed (simp_all add: CancelExternalWorkflowExecutionFailedCause_Values_def
    CancelExternalWorkflowExecutionFailedCause_UnmarshalText_def
    CancelExternalWorkflowExecutionFailedCause_MarshalText_def
    CancelExternalWorkflowExecutionFailedCause_String_def
    CancelExternalWorkflowExecutionFailedCause_MarshalJSON_def
        CancelExternalWorkflowExecutionFailedCause_UnmarshalJSON_def is_name_def is_digit_def)

lemma CancelExternalWorkflowExecutionFailedCause_Values_constants:
    "CancelExternalWorkflowExecutionFailedCause_Values = map snd
    CancelExternalWorkflowExecutionFailedCause_constants"
  by (simp add: CancelExternalWorkflowExecutionFailedCause_Values_def
      CancelExternalWorkflowExecutionFailedCause_constants_def)

type_synonym ChildWorkflowExecutionFailedCause = "32 word"

definition ChildWorkflowExecutionFailedCause_ToWire :: "'v wire_api \<Rightarrow>
    ChildWorkflowExecutionFailedCause \<Rightarrow> go_error + 'v" where
  "ChildWorkflowExecutionFailedCause_ToWire W v = Inr (NewValueI32 W v)"

definition ChildWorkflowExecutionFailedCause_FromWire ::
  "'v wire_api \<Rightarrow> 'v \<Rightarrow> ChildWorkflowExecutionFailedCause \<Rightarrow> go_error +
      ChildWorkflowExecutionFailedCause" where
  "ChildWorkflowExecutionFailedCause_FromWire W w v = Inr (GetI32 W w)"

definition ChildWorkflowExecutionFailedCause_Read :: "'v wire_api \<Rightarrow> 'v \<Rightarrow> go_error +
    ChildWorkflowExecutionFailedCause" where
  "ChildWorkflowExecutionFailedCause_Read W w = ChildWorkflowExecutionFailedCause_FromWire W w 0"

definition ChildWorkflowExecutionFailedCause_Equals :: "ChildWorkflowExecutionFailedCause \<Rightarrow>
    ChildWorkflowExecutionFailedCause \<Rightarrow> bool" where
  "ChildWorkflowExecutionFailedCause_Equals v rhs \<longleftrightarrow> v = rhs"

definition ChildWorkflowExecutionFailedCause_EqualsPtr :: "ChildWorkflowExecutionFailedCause option
    \<Rightarrow> ChildWorkflowExecutionFailedCause option \<Rightarrow> bool" where
  "ChildWorkflowExecutionFailedCause_EqualsPtr lhs rhs =
     (case lhs of
        Some x \<Rightarrow> (case rhs of Some y \<Rightarrow> ChildWorkflowExecutionFailedCause_Equals x y | None \<Rightarrow> lhs =
            None \<and> rhs = None)
      | None \<Rightarrow> lhs = None \<and> rhs = None)"

lemma ChildWorkflowExecutionFailedCause_codec [simp]:
  "ChildWorkflowExecutionFailedCause_EqualsPtr c d \<longleftrightarrow> c = d"
  "ChildWorkflowExecutionFailedCause_ToWire W i = Inr (NewValueI32 W i)"
  "wire_laws W \<Longrightarrow> ChildWorkflowExecutionFailedCause_Read W (NewValueI32 W i) = Inr i"
  by (auto simp: ChildWorkflowExecutionFailedCause_EqualsPtr_def
      ChildWorkflowExecutionFailedCause_Equals_def ChildWorkflowExecutionFailedCause_ToWire_def
      ChildWorkflowExecutionFailedCause_FromWire_def
      ChildWorkflowExecutionFailedCause_Read_def split: option.splits)

lemma ChildWorkflowExecutionFailedCause_enc: "ChildWorkflowExecutionFailedCause_ToWire W = (\<lambda>i. Inr
    (NewValueI32 W i))"
  by auto

text \<open>The constants of \<open>ChildWorkflowExecutionFailedCause\<close>, and its text and JSON forms.\<close>

definition ChildWorkflowExecutionFailedCause_constants :: "(string \<times>
    ChildWorkflowExecutionFailedCause) list" where
  "ChildWorkflowExecutionFailedCause_constants =
     [(''ChildWorkflowExecutionFailedCauseWorkflowAlreadyRunning'', 0)]"

definition ChildWorkflowExecutionFailedCause_Values :: "ChildWorkflowExecutionFailedCause list"
    where
  "ChildWorkflowExecutionFailedCause_Values =
     [0]"

definition ChildWorkflowExecutionFailedCause_UnmarshalText :: "string \<Rightarrow> go_error +
    ChildWorkflowExecutionFailedCause" where
  "ChildWorkflowExecutionFailedCause_UnmarshalText s = switch s
     [(''WORKFLOW_ALREADY_RUNNING'', Inr 0)]
     (case ParseInt 32 s of
        Inl err \<Rightarrow> Inl (E_Errorf_s ''unknown enum value %q for %q: %v'' [s,
            ''ChildWorkflowExecutionFailedCause'', err])
      | Inr val \<Rightarrow> Inr (word_of_int val))"

definition ChildWorkflowExecutionFailedCause_MarshalText :: "ChildWorkflowExecutionFailedCause \<Rightarrow>
    string" where
  "ChildWorkflowExecutionFailedCause_MarshalText v = switch v
     [(0, ''WORKFLOW_ALREADY_RUNNING'')]
     (FormatInt (sint v))"

definition ChildWorkflowExecutionFailedCause_String :: "ChildWorkflowExecutionFailedCause \<Rightarrow> string"
    where
  "ChildWorkflowExecutionFailedCause_String v = switch v
     [(0, ''WORKFLOW_ALREADY_RUNNING'')]
     (''ChildWorkflowExecutionFailedCause'' @ CHR ''('' # FormatInt (sint v) @ '')'')"

definition ChildWorkflowExecutionFailedCause_MarshalJSON :: "ChildWorkflowExecutionFailedCause \<Rightarrow>
    string" where
  "ChildWorkflowExecutionFailedCause_MarshalJSON v = switch v
     [(0, CHR 0x22 # ''WORKFLOW_ALREADY_RUNNING'' @ [CHR 0x22])]
     (FormatInt (sint v))"

definition ChildWorkflowExecutionFailedCause_UnmarshalJSON :: "string \<Rightarrow> go_error + json_token \<Rightarrow>
    go_error + ChildWorkflowExecutionFailedCause" where
  "ChildWorkflowExecutionFailedCause_UnmarshalJSON text t =
     (case t of
        Inl err \<Rightarrow> Inl err
      | Inr (JSON_Number w) \<Rightarrow>
          (case ParseInt 64 w of
             Inl err \<Rightarrow> Inl (E_Errorf_s ''strconv.ParseInt: parsing %q: %v'' [w, err])
           | Inr x \<Rightarrow>
               if 2147483647 < x
               then Inl (E_Errorf_s ''enum overflow from JSON %q for %q'' [text,
                   ''ChildWorkflowExecutionFailedCause''])
               else if x < -2147483648
               then Inl (E_Errorf_s ''enum underflow from JSON %q for %q'' [text,
                   ''ChildWorkflowExecutionFailedCause''])
               else Inr (word_of_int x))
      | Inr (JSON_String w) \<Rightarrow> ChildWorkflowExecutionFailedCause_UnmarshalText w
      | Inr (JSON_Other w) \<Rightarrow>
          Inl (E_Errorf_s ''invalid JSON value %q (%T) to unmarshal into %q'' [w,
              ''ChildWorkflowExecutionFailedCause'']))"

interpretation ChildWorkflowExecutionFailedCause: enumeration
  "[(0, ''WORKFLOW_ALREADY_RUNNING'')]"
  "''ChildWorkflowExecutionFailedCause''" ChildWorkflowExecutionFailedCause_Values
      ChildWorkflowExecutionFailedCause_UnmarshalText ChildWorkflowExecutionFailedCause_MarshalText
      ChildWorkflowExecutionFailedCause_String
  ChildWorkflowExecutionFailedCause_MarshalJSON ChildWorkflowExecutionFailedCause_UnmarshalJSON
proof (rule enumeration.intro, goal_cases)
  case 2
  show ?case by (rule distinct_names) (simp add: name_code_def)
qed (simp_all add: ChildWorkflowExecutionFailedCause_Values_def
    ChildWorkflowExecutionFailedCause_UnmarshalText_def
    ChildWorkflowExecutionFailedCause_MarshalText_def ChildWorkflowExecutionFailedCause_String_def
    ChildWorkflowExecutionFailedCause_MarshalJSON_def
        ChildWorkflowExecutionFailedCause_UnmarshalJSON_def is_name_def is_digit_def)

lemma ChildWorkflowExecutionFailedCause_Values_constants: "ChildWorkflowExecutionFailedCause_Values
    = map snd ChildWorkflowExecutionFailedCause_constants"
  by (simp add: ChildWorkflowExecutionFailedCause_Values_def
      ChildWorkflowExecutionFailedCause_constants_def)

type_synonym ContinueAsNewInitiator = "32 word"

definition ContinueAsNewInitiator_ToWire :: "'v wire_api \<Rightarrow> ContinueAsNewInitiator \<Rightarrow> go_error + 'v"
    where
  "ContinueAsNewInitiator_ToWire W v = Inr (NewValueI32 W v)"

definition ContinueAsNewInitiator_FromWire ::
  "'v wire_api \<Rightarrow> 'v \<Rightarrow> ContinueAsNewInitiator \<Rightarrow> go_error + ContinueAsNewInitiator" where
  "ContinueAsNewInitiator_FromWire W w v = Inr (GetI32 W w)"

definition ContinueAsNewInitiator_Read :: "'v wire_api \<Rightarrow> 'v \<Rightarrow> go_error + ContinueAsNewInitiator"
    where
  "ContinueAsNewInitiator_Read W w = ContinueAsNewInitiator_FromWire W w 0"

definition ContinueAsNewInitiator_Equals :: "ContinueAsNewInitiator \<Rightarrow> ContinueAsNewInitiator \<Rightarrow> bool"
    where
  "ContinueAsNewInitiator_Equals v rhs \<longleftrightarrow> v = rhs"

definition ContinueAsNewInitiator_EqualsPtr :: "ContinueAsNewInitiator option \<Rightarrow>
    ContinueAsNewInitiator option \<Rightarrow> bool" where
  "ContinueAsNewInitiator_EqualsPtr lhs rhs =
     (case lhs of
        Some x \<Rightarrow> (case rhs of Some y \<Rightarrow> ContinueAsNewInitiator_Equals x y | None \<Rightarrow> lhs = None \<and> rhs =
            None)
      | None \<Rightarrow> lhs = None \<and> rhs = None)"

lemma ContinueAsNewInitiator_codec [simp]:
  "ContinueAsNewInitiator_EqualsPtr c d \<longleftrightarrow> c = d"
  "ContinueAsNewInitiator_ToWire W i = Inr (NewValueI32 W i)"
  "wire_laws W \<Longrightarrow> ContinueAsNewInitiator_Read W (NewValueI32 W i) = Inr i"
  by (auto simp: ContinueAsNewInitiator_EqualsPtr_def ContinueAsNewInitiator_Equals_def
      ContinueAsNewInitiator_ToWire_def ContinueAsNewInitiator_FromWire_def
      ContinueAsNewInitiator_Read_def split: option.splits)

lemma ContinueAsNewInitiator_enc: "ContinueAsNewInitiator_ToWire W = (\<lambda>i. Inr (NewValueI32 W i))"
  by auto

text \<open>The constants of \<open>ContinueAsNewInitiator\<close>, and its text and JSON forms.\<close>

definition ContinueAsNewInitiator_constants :: "(string \<times> ContinueAsNewInitiator) list" where
  "ContinueAsNewInitiator_constants =
     [(''ContinueAsNewInitiatorDecider'', 0),
      (''ContinueAsNewInitiatorRetryPolicy'', 1),
      (''ContinueAsNewInitiatorCronSchedule'', 2)]"

definition ContinueAsNewInitiator_Values :: "ContinueAsNewInitiator list" where
  "ContinueAsNewInitiator_Values =
     [0,
      1,
      2]"

definition ContinueAsNewInitiator_UnmarshalText :: "string \<Rightarrow> go_error + ContinueAsNewInitiator"
    where
  "ContinueAsNewInitiator_UnmarshalText s = switch s
     [(''Decider'', Inr 0),
      (''RetryPolicy'', Inr 1),
      (''CronSchedule'', Inr 2)]
     (case ParseInt 32 s of
        Inl err \<Rightarrow> Inl (E_Errorf_s ''unknown enum value %q for %q: %v'' [s,
            ''ContinueAsNewInitiator'', err])
      | Inr val \<Rightarrow> Inr (word_of_int val))"

definition ContinueAsNewInitiator_MarshalText :: "ContinueAsNewInitiator \<Rightarrow> string" where
  "ContinueAsNewInitiator_MarshalText v = switch v
     [(0, ''Decider''),
      (1, ''RetryPolicy''),
      (2, ''CronSchedule'')]
     (FormatInt (sint v))"

definition ContinueAsNewInitiator_String :: "ContinueAsNewInitiator \<Rightarrow> string" where
  "ContinueAsNewInitiator_String v = switch v
     [(0, ''Decider''),
      (1, ''RetryPolicy''),
      (2, ''CronSchedule'')]
     (''ContinueAsNewInitiator'' @ CHR ''('' # FormatInt (sint v) @ '')'')"

definition ContinueAsNewInitiator_MarshalJSON :: "ContinueAsNewInitiator \<Rightarrow> string" where
  "ContinueAsNewInitiator_MarshalJSON v = switch v
     [(0, CHR 0x22 # ''Decider'' @ [CHR 0x22]),
      (1, CHR 0x22 # ''RetryPolicy'' @ [CHR 0x22]),
      (2, CHR 0x22 # ''CronSchedule'' @ [CHR 0x22])]
     (FormatInt (sint v))"

definition ContinueAsNewInitiator_UnmarshalJSON :: "string \<Rightarrow> go_error + json_token \<Rightarrow> go_error +
    ContinueAsNewInitiator" where
  "ContinueAsNewInitiator_UnmarshalJSON text t =
     (case t of
        Inl err \<Rightarrow> Inl err
      | Inr (JSON_Number w) \<Rightarrow>
          (case ParseInt 64 w of
             Inl err \<Rightarrow> Inl (E_Errorf_s ''strconv.ParseInt: parsing %q: %v'' [w, err])
           | Inr x \<Rightarrow>
               if 2147483647 < x
               then Inl (E_Errorf_s ''enum overflow from JSON %q for %q'' [text,
                   ''ContinueAsNewInitiator''])
               else if x < -2147483648
               then Inl (E_Errorf_s ''enum underflow from JSON %q for %q'' [text,
                   ''ContinueAsNewInitiator''])
               else Inr (word_of_int x))
      | Inr (JSON_String w) \<Rightarrow> ContinueAsNewInitiator_UnmarshalText w
      | Inr (JSON_Other w) \<Rightarrow>
          Inl (E_Errorf_s ''invalid JSON value %q (%T) to unmarshal into %q'' [w,
              ''ContinueAsNewInitiator'']))"

interpretation ContinueAsNewInitiator: enumeration
  "[(0, ''Decider''),
      (1, ''RetryPolicy''),
      (2, ''CronSchedule'')]"
  "''ContinueAsNewInitiator''" ContinueAsNewInitiator_Values ContinueAsNewInitiator_UnmarshalText
      ContinueAsNewInitiator_MarshalText ContinueAsNewInitiator_String
  ContinueAsNewInitiator_MarshalJSON ContinueAsNewInitiator_UnmarshalJSON
proof (rule enumeration.intro, goal_cases)
  case 2
  show ?case by (rule distinct_names) (simp add: name_code_def)
qed (simp_all add: ContinueAsNewInitiator_Values_def ContinueAsNewInitiator_UnmarshalText_def
    ContinueAsNewInitiator_MarshalText_def ContinueAsNewInitiator_String_def
    ContinueAsNewInitiator_MarshalJSON_def ContinueAsNewInitiator_UnmarshalJSON_def is_name_def
        is_digit_def)

lemma ContinueAsNewInitiator_Values_constants: "ContinueAsNewInitiator_Values = map snd
    ContinueAsNewInitiator_constants"
  by (simp add: ContinueAsNewInitiator_Values_def ContinueAsNewInitiator_constants_def)

type_synonym DecisionTaskFailedCause = "32 word"

definition DecisionTaskFailedCause_ToWire :: "'v wire_api \<Rightarrow> DecisionTaskFailedCause \<Rightarrow> go_error + 'v"
    where
  "DecisionTaskFailedCause_ToWire W v = Inr (NewValueI32 W v)"

definition DecisionTaskFailedCause_FromWire ::
  "'v wire_api \<Rightarrow> 'v \<Rightarrow> DecisionTaskFailedCause \<Rightarrow> go_error + DecisionTaskFailedCause" where
  "DecisionTaskFailedCause_FromWire W w v = Inr (GetI32 W w)"

definition DecisionTaskFailedCause_Read :: "'v wire_api \<Rightarrow> 'v \<Rightarrow> go_error + DecisionTaskFailedCause"
    where
  "DecisionTaskFailedCause_Read W w = DecisionTaskFailedCause_FromWire W w 0"

definition DecisionTaskFailedCause_Equals :: "DecisionTaskFailedCause \<Rightarrow> DecisionTaskFailedCause \<Rightarrow>
    bool" where
  "DecisionTaskFailedCause_Equals v rhs \<longleftrightarrow> v = rhs"

definition DecisionTaskFailedCause_EqualsPtr :: "DecisionTaskFailedCause option \<Rightarrow>
    DecisionTaskFailedCause option \<Rightarrow> bool" where
  "DecisionTaskFailedCause_EqualsPtr lhs rhs =
     (case lhs of
        Some x \<Rightarrow> (case rhs of Some y \<Rightarrow> DecisionTaskFailedCause_Equals x y | None \<Rightarrow> lhs = None \<and> rhs
            = None)
      | None \<Rightarrow> lhs = None \<and> rhs = None)"

lemma DecisionTaskFailedCause_codec [simp]:
  "DecisionTaskFailedCause_EqualsPtr c d \<longleftrightarrow> c = d"
  "DecisionTaskFailedCause_ToWire W i = Inr (NewValueI32 W i)"
  "wire_laws W \<Longrightarrow> DecisionTaskFailedCause_Read W (NewValueI32 W i) = Inr i"
  by (auto simp: DecisionTaskFailedCause_EqualsPtr_def DecisionTaskFailedCause_Equals_def
      DecisionTaskFailedCause_ToWire_def DecisionTaskFailedCause_FromWire_def
      DecisionTaskFailedCause_Read_def split: option.splits)

lemma DecisionTaskFailedCause_enc: "DecisionTaskFailedCause_ToWire W = (\<lambda>i. Inr (NewValueI32 W i))"
  by auto

text \<open>The constants of \<open>DecisionTaskFailedCause\<close>, and its text and JSON forms.\<close>

definition DecisionTaskFailedCause_constants :: "(string \<times> DecisionTaskFailedCause) list" where
  "DecisionTaskFailedCause_constants =
     [(''DecisionTaskFailedCauseUnhandledDecision'', 0),
      (''DecisionTaskFailedCauseBadScheduleActivityAttributes'', 1),
      (''DecisionTaskFailedCauseBadRequestCancelActivityAttributes'', 2),
      (''DecisionTaskFailedCauseBadStartTimerAttributes'', 3),
      (''DecisionTaskFailedCauseBadCancelTimerAttributes'', 4),
      (''DecisionTaskFailedCauseBadRecordMarkerAttributes'', 5),
      (''DecisionTaskFailedCauseBadCompleteWorkflowExecutionAttributes'', 6),
      (''DecisionTaskFailedCauseBadFailWorkflowExecutionAttributes'', 7),
      (''DecisionTaskFailedCauseBadCancelWorkflowExecutionAttributes'', 8),
      (''DecisionTaskFailedCauseBadRequestCancelExternalWorkflowExecutionAttributes'', 9),
      (''DecisionTaskFailedCauseBadContinueAsNewAttributes'', 10),
      (''DecisionTaskFailedCauseStartTimerDuplicateID'', 11),
      (''DecisionTaskFailedCauseResetStickyTasklist'', 12),
      (''DecisionTaskFailedCauseWorkflowWorkerUnhandledFailure'', 13),
      (''DecisionTaskFailedCauseBadSignalWorkflowExecutionAttributes'', 14),
      (''DecisionTaskFailedCauseBadStartChildExecutionAttributes'', 15),
      (''DecisionTaskFailedCauseForceCloseDecision'', 16),
      (''DecisionTaskFailedCauseFailoverCloseDecision'', 17),
      (''DecisionTaskFailedCauseBadSignalInputSize'', 18),
      (''DecisionTaskFailedCauseResetWorkflow'', 19),
      (''DecisionTaskFailedCauseBadBinary'', 20),
      (''DecisionTaskFailedCauseScheduleActivityDuplicateID'', 21),
      (''DecisionTaskFailedCauseBadSearchAttributes'', 22)]"

definition DecisionTaskFailedCause_Values :: "DecisionTaskFailedCause list" where
  "DecisionTaskFailedCause_Values =
     [0,
      1,
      2,
      3,
      4,
      5,
      6,
      7,
      8,
      9,
      10,
      11,
      12,
      13,
      14,
      15,
      16,
      17,
      18,
      19,
      20,
      21,
      22]"

definition DecisionTaskFailedCause_UnmarshalText :: "string \<Rightarrow> go_error + DecisionTaskFailedCause"
    where
  "DecisionTaskFailedCause_UnmarshalText s = switch s
     [(''UNHANDLED_DECISION'', Inr 0),
      (''BAD_SCHEDULE_ACTIVITY_ATTRIBUTES'', Inr 1),
      (''BAD_REQUEST_CANCEL_ACTIVITY_ATTRIBUTES'', Inr 2),
      (''BAD_START_TIMER_ATTRIBUTES'', Inr 3),
      (''BAD_CANCEL_TIMER_ATTRIBUTES'', Inr 4),
      (''BAD_RECORD_MARKER_ATTRIBUTES'', Inr 5),
      (''BAD_COMPLETE_WORKFLOW_EXECUTION_ATTRIBUTES'', Inr 6),
      (''BAD_FAIL_WORKFLOW_EXECUTION_ATTRIBUTES'', Inr 7),
      (''BAD_CANCEL_WORKFLOW_EXECUTION_ATTRIBUTES'', Inr 8),
      (''BAD_REQUEST_CANCEL_EXTERNAL_WORKFLOW_EXECUTION_ATTRIBUTES'', Inr 9),
      (''BAD_CONTINUE_AS_NEW_ATTRIBUTES'', Inr 10),
      (''START_TIMER_DUPLICATE_ID'', Inr 11),
      (''RESET_STICKY_TASKLIST'', Inr 12),
      (''WORKFLOW_WORKER_UNHANDLED_FAILURE'', Inr 13),
      (''BAD_SIGNAL_WORKFLOW_EXECUTION_ATTRIBUTES'', Inr 14),
      (''BAD_START_CHILD_EXECUTION_ATTRIBUTES'', Inr 15),
      (''FORCE_CLOSE_DECISION'', Inr 16),
      (''FAILOVER_CLOSE_DECISION'', Inr 17),
      (''BAD_SIGNAL_INPUT_SIZE'', Inr 18),
      (''RESET_WORKFLOW'', Inr 19),
      (''BAD_BINARY'', Inr 20),
      (''SCHEDULE_ACTIVITY_DUPLICATE_ID'', Inr 21),
      (''BAD_SEARCH_ATTRIBUTES'', Inr 22)]
     (case ParseInt 32 s of
        Inl err \<Rightarrow> Inl (E_Errorf_s ''unknown enum value %q for %q: %v'' [s,
            ''DecisionTaskFailedCause'', err])
      | Inr val \<Rightarrow> Inr (word_of_int val))"

definition DecisionTaskFailedCause_MarshalText :: "DecisionTaskFailedCause \<Rightarrow> string" where
  "DecisionTaskFailedCause_MarshalText v = switch v
     [(0, ''UNHANDLED_DECISION''),
      (1, ''BAD_SCHEDULE_ACTIVITY_ATTRIBUTES''),
      (2, ''BAD_REQUEST_CANCEL_ACTIVITY_ATTRIBUTES''),
      (3, ''BAD_START_TIMER_ATTRIBUTES''),
      (4, ''BAD_CANCEL_TIMER_ATTRIBUTES''),
      (5, ''BAD_RECORD_MARKER_ATTRIBUTES''),
      (6, ''BAD_COMPLETE_WORKFLOW_EXECUTION_ATTRIBUTES''),
      (7, ''BAD_FAIL_WORKFLOW_EXECUTION_ATTRIBUTES''),
      (8, ''BAD_CANCEL_WORKFLOW_EXECUTION_ATTRIBUTES''),
      (9, ''BAD_REQUEST_CANCEL_EXTERNAL_WORKFLOW_EXECUTION_ATTRIBUTES''),
      (10, ''BAD_CONTINUE_AS_NEW_ATTRIBUTES''),
      (11, ''START_TIMER_DUPLICATE_ID''),
      (12, ''RESET_STICKY_TASKLIST''),
      (13, ''WORKFLOW_WORKER_UNHANDLED_FAILURE''),
      (14, ''BAD_SIGNAL_WORKFLOW_EXECUTION_ATTRIBUTES''),
      (15, ''BAD_START_CHILD_EXECUTION_ATTRIBUTES''),
      (16, ''FORCE_CLOSE_DECISION''),
      (17, ''FAILOVER_CLOSE_DECISION''),
      (18, ''BAD_SIGNAL_INPUT_SIZE''),
      (19, ''RESET_WORKFLOW''),
      (20, ''BAD_BINARY''),
      (21, ''SCHEDULE_ACTIVITY_DUPLICATE_ID''),
      (22, ''BAD_SEARCH_ATTRIBUTES'')]
     (FormatInt (sint v))"

definition DecisionTaskFailedCause_String :: "DecisionTaskFailedCause \<Rightarrow> string" where
  "DecisionTaskFailedCause_String v = switch v
     [(0, ''UNHANDLED_DECISION''),
      (1, ''BAD_SCHEDULE_ACTIVITY_ATTRIBUTES''),
      (2, ''BAD_REQUEST_CANCEL_ACTIVITY_ATTRIBUTES''),
      (3, ''BAD_START_TIMER_ATTRIBUTES''),
      (4, ''BAD_CANCEL_TIMER_ATTRIBUTES''),
      (5, ''BAD_RECORD_MARKER_ATTRIBUTES''),
      (6, ''BAD_COMPLETE_WORKFLOW_EXECUTION_ATTRIBUTES''),
      (7, ''BAD_FAIL_WORKFLOW_EXECUTION_ATTRIBUTES''),
      (8, ''BAD_CANCEL_WORKFLOW_EXECUTION_ATTRIBUTES''),
      (9, ''BAD_REQUEST_CANCEL_EXTERNAL_WORKFLOW_EXECUTION_ATTRIBUTES''),
      (10, ''BAD_CONTINUE_AS_NEW_ATTRIBUTES''),
      (11, ''START_TIMER_DUPLICATE_ID''),
      (12, ''RESET_STICKY_TASKLIST''),
      (13, ''WORKFLOW_WORKER_UNHANDLED_FAILURE''),
      (14, ''BAD_SIGNAL_WORKFLOW_EXECUTION_ATTRIBUTES''),
      (15, ''BAD_START_CHILD_EXECUTION_ATTRIBUTES''),
      (16, ''FORCE_CLOSE_DECISION''),
      (17, ''FAILOVER_CLOSE_DECISION''),
      (18, ''BAD_SIGNAL_INPUT_SIZE''),
      (19, ''RESET_WORKFLOW''),
      (20, ''BAD_BINARY''),
      (21, ''SCHEDULE_ACTIVITY_DUPLICATE_ID''),
      (22, ''BAD_SEARCH_ATTRIBUTES'')]
     (''DecisionTaskFailedCause'' @ CHR ''('' # FormatInt (sint v) @ '')'')"

definition DecisionTaskFailedCause_MarshalJSON :: "DecisionTaskFailedCause \<Rightarrow> string" where
  "DecisionTaskFailedCause_MarshalJSON v = switch v
     [(0, CHR 0x22 # ''UNHANDLED_DECISION'' @ [CHR 0x22]),
      (1, CHR 0x22 # ''BAD_SCHEDULE_ACTIVITY_ATTRIBUTES'' @ [CHR 0x22]),
      (2, CHR 0x22 # ''BAD_REQUEST_CANCEL_ACTIVITY_ATTRIBUTES'' @ [CHR 0x22]),
      (3, CHR 0x22 # ''BAD_START_TIMER_ATTRIBUTES'' @ [CHR 0x22]),
      (4, CHR 0x22 # ''BAD_CANCEL_TIMER_ATTRIBUTES'' @ [CHR 0x22]),
      (5, CHR 0x22 # ''BAD_RECORD_MARKER_ATTRIBUTES'' @ [CHR 0x22]),
      (6, CHR 0x22 # ''BAD_COMPLETE_WORKFLOW_EXECUTION_ATTRIBUTES'' @ [CHR 0x22]),
      (7, CHR 0x22 # ''BAD_FAIL_WORKFLOW_EXECUTION_ATTRIBUTES'' @ [CHR 0x22]),
      (8, CHR 0x22 # ''BAD_CANCEL_WORKFLOW_EXECUTION_ATTRIBUTES'' @ [CHR 0x22]),
      (9, CHR 0x22 # ''BAD_REQUEST_CANCEL_EXTERNAL_WORKFLOW_EXECUTION_ATTRIBUTES'' @ [CHR 0x22]),
      (10, CHR 0x22 # ''BAD_CONTINUE_AS_NEW_ATTRIBUTES'' @ [CHR 0x22]),
      (11, CHR 0x22 # ''START_TIMER_DUPLICATE_ID'' @ [CHR 0x22]),
      (12, CHR 0x22 # ''RESET_STICKY_TASKLIST'' @ [CHR 0x22]),
      (13, CHR 0x22 # ''WORKFLOW_WORKER_UNHANDLED_FAILURE'' @ [CHR 0x22]),
      (14, CHR 0x22 # ''BAD_SIGNAL_WORKFLOW_EXECUTION_ATTRIBUTES'' @ [CHR 0x22]),
      (15, CHR 0x22 # ''BAD_START_CHILD_EXECUTION_ATTRIBUTES'' @ [CHR 0x22]),
      (16, CHR 0x22 # ''FORCE_CLOSE_DECISION'' @ [CHR 0x22]),
      (17, CHR 0x22 # ''FAILOVER_CLOSE_DECISION'' @ [CHR 0x22]),
      (18, CHR 0x22 # ''BAD_SIGNAL_INPUT_SIZE'' @ [CHR 0x22]),
      (19, CHR 0x22 # ''RESET_WORKFLOW'' @ [CHR 0x22]),
      (20, CHR 0x22 # ''BAD_BINARY'' @ [CHR 0x22]),
      (21, CHR 0x22 # ''SCHEDULE_ACTIVITY_DUPLICATE_ID'' @ [CHR 0x22]),
      (22, CHR 0x22 # ''BAD_SEARCH_ATTRIBUTES'' @ [CHR 0x22])]
     (FormatInt (sint v))"

definition DecisionTaskFailedCause_UnmarshalJSON :: "string \<Rightarrow> go_error + json_token \<Rightarrow> go_error +
    DecisionTaskFailedCause" where
  "DecisionTaskFailedCause_UnmarshalJSON text t =
     (case t of
        Inl err \<Rightarrow> Inl err
      | Inr (JSON_Number w) \<Rightarrow>
          (case ParseInt 64 w of
             Inl err \<Rightarrow> Inl (E_Errorf_s ''strconv.ParseInt: parsing %q: %v'' [w, err])
           | Inr x \<Rightarrow>
               if 2147483647 < x
               then Inl (E_Errorf_s ''enum overflow from JSON %q for %q'' [text,
                   ''DecisionTaskFailedCause''])
               else if x < -2147483648
               then Inl (E_Errorf_s ''enum underflow from JSON %q for %q'' [text,
                   ''DecisionTaskFailedCause''])
               else Inr (word_of_int x))
      | Inr (JSON_String w) \<Rightarrow> DecisionTaskFailedCause_UnmarshalText w
      | Inr (JSON_Other w) \<Rightarrow>
          Inl (E_Errorf_s ''invalid JSON value %q (%T) to unmarshal into %q'' [w,
              ''DecisionTaskFailedCause'']))"

interpretation DecisionTaskFailedCause: enumeration
  "[(0, ''UNHANDLED_DECISION''),
      (1, ''BAD_SCHEDULE_ACTIVITY_ATTRIBUTES''),
      (2, ''BAD_REQUEST_CANCEL_ACTIVITY_ATTRIBUTES''),
      (3, ''BAD_START_TIMER_ATTRIBUTES''),
      (4, ''BAD_CANCEL_TIMER_ATTRIBUTES''),
      (5, ''BAD_RECORD_MARKER_ATTRIBUTES''),
      (6, ''BAD_COMPLETE_WORKFLOW_EXECUTION_ATTRIBUTES''),
      (7, ''BAD_FAIL_WORKFLOW_EXECUTION_ATTRIBUTES''),
      (8, ''BAD_CANCEL_WORKFLOW_EXECUTION_ATTRIBUTES''),
      (9, ''BAD_REQUEST_CANCEL_EXTERNAL_WORKFLOW_EXECUTION_ATTRIBUTES''),
      (10, ''BAD_CONTINUE_AS_NEW_ATTRIBUTES''),
      (11, ''START_TIMER_DUPLICATE_ID''),
      (12, ''RESET_STICKY_TASKLIST''),
      (13, ''WORKFLOW_WORKER_UNHANDLED_FAILURE''),
      (14, ''BAD_SIGNAL_WORKFLOW_EXECUTION_ATTRIBUTES''),
      (15, ''BAD_START_CHILD_EXECUTION_ATTRIBUTES''),
      (16, ''FORCE_CLOSE_DECISION''),
      (17, ''FAILOVER_CLOSE_DECISION''),
      (18, ''BAD_SIGNAL_INPUT_SIZE''),
      (19, ''RESET_WORKFLOW''),
      (20, ''BAD_BINARY''),
      (21, ''SCHEDULE_ACTIVITY_DUPLICATE_ID''),
      (22, ''BAD_SEARCH_ATTRIBUTES'')]"
  "''DecisionTaskFailedCause''" DecisionTaskFailedCause_Values DecisionTaskFailedCause_UnmarshalText
      DecisionTaskFailedCause_MarshalText DecisionTaskFailedCause_String
  DecisionTaskFailedCause_MarshalJSON DecisionTaskFailedCause_UnmarshalJSON
proof (rule enumeration.intro, goal_cases)
  case 2
  show ?case by (rule distinct_names) (simp add: name_code_def)
qed (simp_all add: DecisionTaskFailedCause_Values_def DecisionTaskFailedCause_UnmarshalText_def
    DecisionTaskFailedCause_MarshalText_def DecisionTaskFailedCause_String_def
    DecisionTaskFailedCause_MarshalJSON_def DecisionTaskFailedCause_UnmarshalJSON_def is_name_def
        is_digit_def)

lemma DecisionTaskFailedCause_Values_constants: "DecisionTaskFailedCause_Values = map snd
    DecisionTaskFailedCause_constants"
  by (simp add: DecisionTaskFailedCause_Values_def DecisionTaskFailedCause_constants_def)

type_synonym DecisionType = "32 word"

definition DecisionType_ToWire :: "'v wire_api \<Rightarrow> DecisionType \<Rightarrow> go_error + 'v" where
  "DecisionType_ToWire W v = Inr (NewValueI32 W v)"

definition DecisionType_FromWire ::
  "'v wire_api \<Rightarrow> 'v \<Rightarrow> DecisionType \<Rightarrow> go_error + DecisionType" where
  "DecisionType_FromWire W w v = Inr (GetI32 W w)"

definition DecisionType_Read :: "'v wire_api \<Rightarrow> 'v \<Rightarrow> go_error + DecisionType" where
  "DecisionType_Read W w = DecisionType_FromWire W w 0"

definition DecisionType_Equals :: "DecisionType \<Rightarrow> DecisionType \<Rightarrow> bool" where
  "DecisionType_Equals v rhs \<longleftrightarrow> v = rhs"

definition DecisionType_EqualsPtr :: "DecisionType option \<Rightarrow> DecisionType option \<Rightarrow> bool" where
  "DecisionType_EqualsPtr lhs rhs =
     (case lhs of
        Some x \<Rightarrow> (case rhs of Some y \<Rightarrow> DecisionType_Equals x y | None \<Rightarrow> lhs = None \<and> rhs = None)
      | None \<Rightarrow> lhs = None \<and> rhs = None)"

lemma DecisionType_codec [simp]:
  "DecisionType_EqualsPtr c d \<longleftrightarrow> c = d"
  "DecisionType_ToWire W i = Inr (NewValueI32 W i)"
  "wire_laws W \<Longrightarrow> DecisionType_Read W (NewValueI32 W i) = Inr i"
  by (auto simp: DecisionType_EqualsPtr_def DecisionType_Equals_def DecisionType_ToWire_def
      DecisionType_FromWire_def
      DecisionType_Read_def split: option.splits)

lemma DecisionType_enc: "DecisionType_ToWire W = (\<lambda>i. Inr (NewValueI32 W i))"
  by auto

text \<open>The constants of \<open>DecisionType\<close>, and its text and JSON forms.\<close>

definition DecisionType_constants :: "(string \<times> DecisionType) list" where
  "DecisionType_constants =
     [(''DecisionTypeScheduleActivityTask'', 0),
      (''DecisionTypeRequestCancelActivityTask'', 1),
      (''DecisionTypeStartTimer'', 2),
      (''DecisionTypeCompleteWorkflowExecution'', 3),
      (''DecisionTypeFailWorkflowExecution'', 4),
      (''DecisionTypeCancelTimer'', 5),
      (''DecisionTypeCancelWorkflowExecution'', 6),
      (''DecisionTypeRequestCancelExternalWorkflowExecution'', 7),
      (''DecisionTypeRecordMarker'', 8),
      (''DecisionTypeContinueAsNewWorkflowExecution'', 9),
      (''DecisionTypeStartChildWorkflowExecution'', 10),
      (''DecisionTypeSignalExternalWorkflowExecution'', 11),
      (''DecisionTypeUpsertWorkflowSearchAttributes'', 12)]"

definition DecisionType_Values :: "DecisionType list" where
  "DecisionType_Values =
     [0,
      1,
      2,
      3,
      4,
      5,
      6,
      7,
      8,
      9,
      10,
      11,
      12]"

definition DecisionType_UnmarshalText :: "string \<Rightarrow> go_error + DecisionType" where
  "DecisionType_UnmarshalText s = switch s
     [(''ScheduleActivityTask'', Inr 0),
      (''RequestCancelActivityTask'', Inr 1),
      (''StartTimer'', Inr 2),
      (''CompleteWorkflowExecution'', Inr 3),
      (''FailWorkflowExecution'', Inr 4),
      (''CancelTimer'', Inr 5),
      (''CancelWorkflowExecution'', Inr 6),
      (''RequestCancelExternalWorkflowExecution'', Inr 7),
      (''RecordMarker'', Inr 8),
      (''ContinueAsNewWorkflowExecution'', Inr 9),
      (''StartChildWorkflowExecution'', Inr 10),
      (''SignalExternalWorkflowExecution'', Inr 11),
      (''UpsertWorkflowSearchAttributes'', Inr 12)]
     (case ParseInt 32 s of
        Inl err \<Rightarrow> Inl (E_Errorf_s ''unknown enum value %q for %q: %v'' [s, ''DecisionType'', err])
      | Inr val \<Rightarrow> Inr (word_of_int val))"

definition DecisionType_MarshalText :: "DecisionType \<Rightarrow> string" where
  "DecisionType_MarshalText v = switch v
     [(0, ''ScheduleActivityTask''),
      (1, ''RequestCancelActivityTask''),
      (2, ''StartTimer''),
      (3, ''CompleteWorkflowExecution''),
      (4, ''FailWorkflowExecution''),
      (5, ''CancelTimer''),
      (6, ''CancelWorkflowExecution''),
      (7, ''RequestCancelExternalWorkflowExecution''),
      (8, ''RecordMarker''),
      (9, ''ContinueAsNewWorkflowExecution''),
      (10, ''StartChildWorkflowExecution''),
      (11, ''SignalExternalWorkflowExecution''),
      (12, ''UpsertWorkflowSearchAttributes'')]
     (FormatInt (sint v))"

definition DecisionType_String :: "DecisionType \<Rightarrow> string" where
  "DecisionType_String v = switch v
     [(0, ''ScheduleActivityTask''),
      (1, ''RequestCancelActivityTask''),
      (2, ''StartTimer''),
      (3, ''CompleteWorkflowExecution''),
      (4, ''FailWorkflowExecution''),
      (5, ''CancelTimer''),
      (6, ''CancelWorkflowExecution''),
      (7, ''RequestCancelExternalWorkflowExecution''),
      (8, ''RecordMarker''),
      (9, ''ContinueAsNewWorkflowExecution''),
      (10, ''StartChildWorkflowExecution''),
      (11, ''SignalExternalWorkflowExecution''),
      (12, ''UpsertWorkflowSearchAttributes'')]
     (''DecisionType'' @ CHR ''('' # FormatInt (sint v) @ '')'')"

definition DecisionType_MarshalJSON :: "DecisionType \<Rightarrow> string" where
  "DecisionType_MarshalJSON v = switch v
     [(0, CHR 0x22 # ''ScheduleActivityTask'' @ [CHR 0x22]),
      (1, CHR 0x22 # ''RequestCancelActivityTask'' @ [CHR 0x22]),
      (2, CHR 0x22 # ''StartTimer'' @ [CHR 0x22]),
      (3, CHR 0x22 # ''CompleteWorkflowExecution'' @ [CHR 0x22]),
      (4, CHR 0x22 # ''FailWorkflowExecution'' @ [CHR 0x22]),
      (5, CHR 0x22 # ''CancelTimer'' @ [CHR 0x22]),
      (6, CHR 0x22 # ''CancelWorkflowExecution'' @ [CHR 0x22]),
      (7, CHR 0x22 # ''RequestCancelExternalWorkflowExecution'' @ [CHR 0x22]),
      (8, CHR 0x22 # ''RecordMarker'' @ [CHR 0x22]),
      (9, CHR 0x22 # ''ContinueAsNewWorkflowExecution'' @ [CHR 0x22]),
      (10, CHR 0x22 # ''StartChildWorkflowExecution'' @ [CHR 0x22]),
      (11, CHR 0x22 # ''SignalExternalWorkflowExecution'' @ [CHR 0x22]),
      (12, CHR 0x22 # ''UpsertWorkflowSearchAttributes'' @ [CHR 0x22])]
     (FormatInt (sint v))"

definition DecisionType_UnmarshalJSON :: "string \<Rightarrow> go_error + json_token \<Rightarrow> go_error + DecisionType"
    where
  "DecisionType_UnmarshalJSON text t =
     (case t of
        Inl err \<Rightarrow> Inl err
      | Inr (JSON_Number w) \<Rightarrow>
          (case ParseInt 64 w of
             Inl err \<Rightarrow> Inl (E_Errorf_s ''strconv.ParseInt: parsing %q: %v'' [w, err])
           | Inr x \<Rightarrow>
               if 2147483647 < x
               then Inl (E_Errorf_s ''enum overflow from JSON %q for %q'' [text, ''DecisionType''])
               else if x < -2147483648
               then Inl (E_Errorf_s ''enum underflow from JSON %q for %q'' [text, ''DecisionType''])
               else Inr (word_of_int x))
      | Inr (JSON_String w) \<Rightarrow> DecisionType_UnmarshalText w
      | Inr (JSON_Other w) \<Rightarrow>
          Inl (E_Errorf_s ''invalid JSON value %q (%T) to unmarshal into %q'' [w,
              ''DecisionType'']))"

interpretation DecisionType: enumeration
  "[(0, ''ScheduleActivityTask''),
      (1, ''RequestCancelActivityTask''),
      (2, ''StartTimer''),
      (3, ''CompleteWorkflowExecution''),
      (4, ''FailWorkflowExecution''),
      (5, ''CancelTimer''),
      (6, ''CancelWorkflowExecution''),
      (7, ''RequestCancelExternalWorkflowExecution''),
      (8, ''RecordMarker''),
      (9, ''ContinueAsNewWorkflowExecution''),
      (10, ''StartChildWorkflowExecution''),
      (11, ''SignalExternalWorkflowExecution''),
      (12, ''UpsertWorkflowSearchAttributes'')]"
  "''DecisionType''" DecisionType_Values DecisionType_UnmarshalText DecisionType_MarshalText
      DecisionType_String
  DecisionType_MarshalJSON DecisionType_UnmarshalJSON
proof (rule enumeration.intro, goal_cases)
  case 2
  show ?case by (rule distinct_names) (simp add: name_code_def)
qed (simp_all add: DecisionType_Values_def DecisionType_UnmarshalText_def
    DecisionType_MarshalText_def DecisionType_String_def
    DecisionType_MarshalJSON_def DecisionType_UnmarshalJSON_def is_name_def is_digit_def)

lemma DecisionType_Values_constants: "DecisionType_Values = map snd DecisionType_constants"
  by (simp add: DecisionType_Values_def DecisionType_constants_def)

type_synonym DomainStatus = "32 word"

definition DomainStatus_ToWire :: "'v wire_api \<Rightarrow> DomainStatus \<Rightarrow> go_error + 'v" where
  "DomainStatus_ToWire W v = Inr (NewValueI32 W v)"

definition DomainStatus_FromWire ::
  "'v wire_api \<Rightarrow> 'v \<Rightarrow> DomainStatus \<Rightarrow> go_error + DomainStatus" where
  "DomainStatus_FromWire W w v = Inr (GetI32 W w)"

definition DomainStatus_Read :: "'v wire_api \<Rightarrow> 'v \<Rightarrow> go_error + DomainStatus" where
  "DomainStatus_Read W w = DomainStatus_FromWire W w 0"

definition DomainStatus_Equals :: "DomainStatus \<Rightarrow> DomainStatus \<Rightarrow> bool" where
  "DomainStatus_Equals v rhs \<longleftrightarrow> v = rhs"

definition DomainStatus_EqualsPtr :: "DomainStatus option \<Rightarrow> DomainStatus option \<Rightarrow> bool" where
  "DomainStatus_EqualsPtr lhs rhs =
     (case lhs of
        Some x \<Rightarrow> (case rhs of Some y \<Rightarrow> DomainStatus_Equals x y | None \<Rightarrow> lhs = None \<and> rhs = None)
      | None \<Rightarrow> lhs = None \<and> rhs = None)"

lemma DomainStatus_codec [simp]:
  "DomainStatus_EqualsPtr c d \<longleftrightarrow> c = d"
  "DomainStatus_ToWire W i = Inr (NewValueI32 W i)"
  "wire_laws W \<Longrightarrow> DomainStatus_Read W (NewValueI32 W i) = Inr i"
  by (auto simp: DomainStatus_EqualsPtr_def DomainStatus_Equals_def DomainStatus_ToWire_def
      DomainStatus_FromWire_def
      DomainStatus_Read_def split: option.splits)

lemma DomainStatus_enc: "DomainStatus_ToWire W = (\<lambda>i. Inr (NewValueI32 W i))"
  by auto

text \<open>The constants of \<open>DomainStatus\<close>, and its text and JSON forms.\<close>

definition DomainStatus_constants :: "(string \<times> DomainStatus) list" where
  "DomainStatus_constants =
     [(''DomainStatusRegistered'', 0),
      (''DomainStatusDeprecated'', 1),
      (''DomainStatusDeleted'', 2)]"

definition DomainStatus_Values :: "DomainStatus list" where
  "DomainStatus_Values =
     [0,
      1,
      2]"

definition DomainStatus_UnmarshalText :: "string \<Rightarrow> go_error + DomainStatus" where
  "DomainStatus_UnmarshalText s = switch s
     [(''REGISTERED'', Inr 0),
      (''DEPRECATED'', Inr 1),
      (''DELETED'', Inr 2)]
     (case ParseInt 32 s of
        Inl err \<Rightarrow> Inl (E_Errorf_s ''unknown enum value %q for %q: %v'' [s, ''DomainStatus'', err])
      | Inr val \<Rightarrow> Inr (word_of_int val))"

definition DomainStatus_MarshalText :: "DomainStatus \<Rightarrow> string" where
  "DomainStatus_MarshalText v = switch v
     [(0, ''REGISTERED''),
      (1, ''DEPRECATED''),
      (2, ''DELETED'')]
     (FormatInt (sint v))"

definition DomainStatus_String :: "DomainStatus \<Rightarrow> string" where
  "DomainStatus_String v = switch v
     [(0, ''REGISTERED''),
      (1, ''DEPRECATED''),
      (2, ''DELETED'')]
     (''DomainStatus'' @ CHR ''('' # FormatInt (sint v) @ '')'')"

definition DomainStatus_MarshalJSON :: "DomainStatus \<Rightarrow> string" where
  "DomainStatus_MarshalJSON v = switch v
     [(0, CHR 0x22 # ''REGISTERED'' @ [CHR 0x22]),
      (1, CHR 0x22 # ''DEPRECATED'' @ [CHR 0x22]),
      (2, CHR 0x22 # ''DELETED'' @ [CHR 0x22])]
     (FormatInt (sint v))"

definition DomainStatus_UnmarshalJSON :: "string \<Rightarrow> go_error + json_token \<Rightarrow> go_error + DomainStatus"
    where
  "DomainStatus_UnmarshalJSON text t =
     (case t of
        Inl err \<Rightarrow> Inl err
      | Inr (JSON_Number w) \<Rightarrow>
          (case ParseInt 64 w of
             Inl err \<Rightarrow> Inl (E_Errorf_s ''strconv.ParseInt: parsing %q: %v'' [w, err])
           | Inr x \<Rightarrow>
               if 2147483647 < x
               then Inl (E_Errorf_s ''enum overflow from JSON %q for %q'' [text, ''DomainStatus''])
               else if x < -2147483648
               then Inl (E_Errorf_s ''enum underflow from JSON %q for %q'' [text, ''DomainStatus''])
               else Inr (word_of_int x))
      | Inr (JSON_String w) \<Rightarrow> DomainStatus_UnmarshalText w
      | Inr (JSON_Other w) \<Rightarrow>
          Inl (E_Errorf_s ''invalid JSON value %q (%T) to unmarshal into %q'' [w,
              ''DomainStatus'']))"

interpretation DomainStatus: enumeration
  "[(0, ''REGISTERED''),
      (1, ''DEPRECATED''),
      (2, ''DELETED'')]"
  "''DomainStatus''" DomainStatus_Values DomainStatus_UnmarshalText DomainStatus_MarshalText
      DomainStatus_String
  DomainStatus_MarshalJSON DomainStatus_UnmarshalJSON
proof (rule enumeration.intro, goal_cases)
  case 2
  show ?case by (rule distinct_names) (simp add: name_code_def)
qed (simp_all add: DomainStatus_Values_def DomainStatus_UnmarshalText_def
    DomainStatus_MarshalText_def DomainStatus_String_def
    DomainStatus_MarshalJSON_def DomainStatus_UnmarshalJSON_def is_name_def is_digit_def)

lemma DomainStatus_Values_constants: "DomainStatus_Values = map snd DomainStatus_constants"
  by (simp add: DomainStatus_Values_def DomainStatus_constants_def)

type_synonym EncodingType = "32 word"

definition EncodingType_ToWire :: "'v wire_api \<Rightarrow> EncodingType \<Rightarrow> go_error + 'v" where
  "EncodingType_ToWire W v = Inr (NewValueI32 W v)"

definition EncodingType_FromWire ::
  "'v wire_api \<Rightarrow> 'v \<Rightarrow> EncodingType \<Rightarrow> go_error + EncodingType" where
  "EncodingType_FromWire W w v = Inr (GetI32 W w)"

definition EncodingType_Read :: "'v wire_api \<Rightarrow> 'v \<Rightarrow> go_error + EncodingType" where
  "EncodingType_Read W w = EncodingType_FromWire W w 0"

definition EncodingType_Equals :: "EncodingType \<Rightarrow> EncodingType \<Rightarrow> bool" where
  "EncodingType_Equals v rhs \<longleftrightarrow> v = rhs"

definition EncodingType_EqualsPtr :: "EncodingType option \<Rightarrow> EncodingType option \<Rightarrow> bool" where
  "EncodingType_EqualsPtr lhs rhs =
     (case lhs of
        Some x \<Rightarrow> (case rhs of Some y \<Rightarrow> EncodingType_Equals x y | None \<Rightarrow> lhs = None \<and> rhs = None)
      | None \<Rightarrow> lhs = None \<and> rhs = None)"

lemma EncodingType_codec [simp]:
  "EncodingType_EqualsPtr c d \<longleftrightarrow> c = d"
  "EncodingType_ToWire W i = Inr (NewValueI32 W i)"
  "wire_laws W \<Longrightarrow> EncodingType_Read W (NewValueI32 W i) = Inr i"
  by (auto simp: EncodingType_EqualsPtr_def EncodingType_Equals_def EncodingType_ToWire_def
      EncodingType_FromWire_def
      EncodingType_Read_def split: option.splits)

lemma EncodingType_enc: "EncodingType_ToWire W = (\<lambda>i. Inr (NewValueI32 W i))"
  by auto

text \<open>The constants of \<open>EncodingType\<close>, and its text and JSON forms.\<close>

definition EncodingType_constants :: "(string \<times> EncodingType) list" where
  "EncodingType_constants =
     [(''EncodingTypeThriftRW'', 0)]"

definition EncodingType_Values :: "EncodingType list" where
  "EncodingType_Values =
     [0]"

definition EncodingType_UnmarshalText :: "string \<Rightarrow> go_error + EncodingType" where
  "EncodingType_UnmarshalText s = switch s
     [(''ThriftRW'', Inr 0)]
     (case ParseInt 32 s of
        Inl err \<Rightarrow> Inl (E_Errorf_s ''unknown enum value %q for %q: %v'' [s, ''EncodingType'', err])
      | Inr val \<Rightarrow> Inr (word_of_int val))"

definition EncodingType_MarshalText :: "EncodingType \<Rightarrow> string" where
  "EncodingType_MarshalText v = switch v
     [(0, ''ThriftRW'')]
     (FormatInt (sint v))"

definition EncodingType_String :: "EncodingType \<Rightarrow> string" where
  "EncodingType_String v = switch v
     [(0, ''ThriftRW'')]
     (''EncodingType'' @ CHR ''('' # FormatInt (sint v) @ '')'')"

definition EncodingType_MarshalJSON :: "EncodingType \<Rightarrow> string" where
  "EncodingType_MarshalJSON v = switch v
     [(0, CHR 0x22 # ''ThriftRW'' @ [CHR 0x22])]
     (FormatInt (sint v))"

definition EncodingType_UnmarshalJSON :: "string \<Rightarrow> go_error + json_token \<Rightarrow> go_error + EncodingType"
    where
  "EncodingType_UnmarshalJSON text t =
     (case t of
        Inl err \<Rightarrow> Inl err
      | Inr (JSON_Number w) \<Rightarrow>
          (case ParseInt 64 w of
             Inl err \<Rightarrow> Inl (E_Errorf_s ''strconv.ParseInt: parsing %q: %v'' [w, err])
           | Inr x \<Rightarrow>
               if 2147483647 < x
               then Inl (E_Errorf_s ''enum overflow from JSON %q for %q'' [text, ''EncodingType''])
               else if x < -2147483648
               then Inl (E_Errorf_s ''enum underflow from JSON %q for %q'' [text, ''EncodingType''])
               else Inr (word_of_int x))
      | Inr (JSON_String w) \<Rightarrow> EncodingType_UnmarshalText w
      | Inr (JSON_Other w) \<Rightarrow>
          Inl (E_Errorf_s ''invalid JSON value %q (%T) to unmarshal into %q'' [w,
              ''EncodingType'']))"

interpretation EncodingType: enumeration
  "[(0, ''ThriftRW'')]"
  "''EncodingType''" EncodingType_Values EncodingType_UnmarshalText EncodingType_MarshalText
      EncodingType_String
  EncodingType_MarshalJSON EncodingType_UnmarshalJSON
proof (rule enumeration.intro, goal_cases)
  case 2
  show ?case by (rule distinct_names) (simp add: name_code_def)
qed (simp_all add: EncodingType_Values_def EncodingType_UnmarshalText_def
    EncodingType_MarshalText_def EncodingType_String_def
    EncodingType_MarshalJSON_def EncodingType_UnmarshalJSON_def is_name_def is_digit_def)

lemma EncodingType_Values_constants: "EncodingType_Values = map snd EncodingType_constants"
  by (simp add: EncodingType_Values_def EncodingType_constants_def)

type_synonym EventType = "32 word"

definition EventType_ToWire :: "'v wire_api \<Rightarrow> EventType \<Rightarrow> go_error + 'v" where
  "EventType_ToWire W v = Inr (NewValueI32 W v)"

definition EventType_FromWire ::
  "'v wire_api \<Rightarrow> 'v \<Rightarrow> EventType \<Rightarrow> go_error + EventType" where
  "EventType_FromWire W w v = Inr (GetI32 W w)"

definition EventType_Read :: "'v wire_api \<Rightarrow> 'v \<Rightarrow> go_error + EventType" where
  "EventType_Read W w = EventType_FromWire W w 0"

definition EventType_Equals :: "EventType \<Rightarrow> EventType \<Rightarrow> bool" where
  "EventType_Equals v rhs \<longleftrightarrow> v = rhs"

definition EventType_EqualsPtr :: "EventType option \<Rightarrow> EventType option \<Rightarrow> bool" where
  "EventType_EqualsPtr lhs rhs =
     (case lhs of
        Some x \<Rightarrow> (case rhs of Some y \<Rightarrow> EventType_Equals x y | None \<Rightarrow> lhs = None \<and> rhs = None)
      | None \<Rightarrow> lhs = None \<and> rhs = None)"

lemma EventType_codec [simp]:
  "EventType_EqualsPtr c d \<longleftrightarrow> c = d"
  "EventType_ToWire W i = Inr (NewValueI32 W i)"
  "wire_laws W \<Longrightarrow> EventType_Read W (NewValueI32 W i) = Inr i"
  by (auto simp: EventType_EqualsPtr_def EventType_Equals_def EventType_ToWire_def
      EventType_FromWire_def
      EventType_Read_def split: option.splits)

lemma EventType_enc: "EventType_ToWire W = (\<lambda>i. Inr (NewValueI32 W i))"
  by auto

text \<open>The constants of \<open>EventType\<close>, and its text and JSON forms.\<close>

definition EventType_constants :: "(string \<times> EventType) list" where
  "EventType_constants =
     [(''EventTypeWorkflowExecutionStarted'', 0),
      (''EventTypeWorkflowExecutionCompleted'', 1),
      (''EventTypeWorkflowExecutionFailed'', 2),
      (''EventTypeWorkflowExecutionTimedOut'', 3),
      (''EventTypeDecisionTaskScheduled'', 4),
      (''EventTypeDecisionTaskStarted'', 5),
      (''EventTypeDecisionTaskCompleted'', 6),
      (''EventTypeDecisionTaskTimedOut'', 7),
      (''EventTypeDecisionTaskFailed'', 8),
      (''EventTypeActivityTaskScheduled'', 9),
      (''EventTypeActivityTaskStarted'', 10),
      (''EventTypeActivityTaskCompleted'', 11),
      (''EventTypeActivityTaskFailed'', 12),
      (''EventTypeActivityTaskTimedOut'', 13),
      (''EventTypeActivityTaskCancelRequested'', 14),
      (''EventTypeRequestCancelActivityTaskFailed'', 15),
      (''EventTypeActivityTaskCanceled'', 16),
      (''EventTypeTimerStarted'', 17),
      (''EventTypeTimerFired'', 18),
      (''EventTypeCancelTimerFailed'', 19),
      (''EventTypeTimerCanceled'', 20),
      (''EventTypeWorkflowExecutionCancelRequested'', 21),
      (''EventTypeWorkflowExecutionCanceled'', 22),
      (''EventTypeRequestCancelExternalWorkflowExecutionInitiated'', 23),
      (''EventTypeRequestCancelExternalWorkflowExecutionFailed'', 24),
      (''EventTypeExternalWorkflowExecutionCancelRequested'', 25),
      (''EventTypeMarkerRecorded'', 26),
      (''EventTypeWorkflowExecutionSignaled'', 27),
      (''EventTypeWorkflowExecutionTerminated'', 28),
      (''EventTypeWorkflowExecutionContinuedAsNew'', 29),
      (''EventTypeStartChildWorkflowExecutionInitiated'', 30),
      (''EventTypeStartChildWorkflowExecutionFailed'', 31),
      (''EventTypeChildWorkflowExecutionStarted'', 32),
      (''EventTypeChildWorkflowExecutionCompleted'', 33),
      (''EventTypeChildWorkflowExecutionFailed'', 34),
      (''EventTypeChildWorkflowExecutionCanceled'', 35),
      (''EventTypeChildWorkflowExecutionTimedOut'', 36),
      (''EventTypeChildWorkflowExecutionTerminated'', 37),
      (''EventTypeSignalExternalWorkflowExecutionInitiated'', 38),
      (''EventTypeSignalExternalWorkflowExecutionFailed'', 39),
      (''EventTypeExternalWorkflowExecutionSignaled'', 40),
      (''EventTypeUpsertWorkflowSearchAttributes'', 41)]"

definition EventType_Values :: "EventType list" where
  "EventType_Values =
     [0,
      1,
      2,
      3,
      4,
      5,
      6,
      7,
      8,
      9,
      10,
      11,
      12,
      13,
      14,
      15,
      16,
      17,
      18,
      19,
      20,
      21,
      22,
      23,
      24,
      25,
      26,
      27,
      28,
      29,
      30,
      31,
      32,
      33,
      34,
      35,
      36,
      37,
      38,
      39,
      40,
      41]"

definition EventType_UnmarshalText :: "string \<Rightarrow> go_error + EventType" where
  "EventType_UnmarshalText s = switch s
     [(''WorkflowExecutionStarted'', Inr 0),
      (''WorkflowExecutionCompleted'', Inr 1),
      (''WorkflowExecutionFailed'', Inr 2),
      (''WorkflowExecutionTimedOut'', Inr 3),
      (''DecisionTaskScheduled'', Inr 4),
      (''DecisionTaskStarted'', Inr 5),
      (''DecisionTaskCompleted'', Inr 6),
      (''DecisionTaskTimedOut'', Inr 7),
      (''DecisionTaskFailed'', Inr 8),
      (''ActivityTaskScheduled'', Inr 9),
      (''ActivityTaskStarted'', Inr 10),
      (''ActivityTaskCompleted'', Inr 11),
      (''ActivityTaskFailed'', Inr 12),
      (''ActivityTaskTimedOut'', Inr 13),
      (''ActivityTaskCancelRequested'', Inr 14),
      (''RequestCancelActivityTaskFailed'', Inr 15),
      (''ActivityTaskCanceled'', Inr 16),
      (''TimerStarted'', Inr 17),
      (''TimerFired'', Inr 18),
      (''CancelTimerFailed'', Inr 19),
      (''TimerCanceled'', Inr 20),
      (''WorkflowExecutionCancelRequested'', Inr 21),
      (''WorkflowExecutionCanceled'', Inr 22),
      (''RequestCancelExternalWorkflowExecutionInitiated'', Inr 23),
      (''RequestCancelExternalWorkflowExecutionFailed'', Inr 24),
      (''ExternalWorkflowExecutionCancelRequested'', Inr 25),
      (''MarkerRecorded'', Inr 26),
      (''WorkflowExecutionSignaled'', Inr 27),
      (''WorkflowExecutionTerminated'', Inr 28),
      (''WorkflowExecutionContinuedAsNew'', Inr 29),
      (''StartChildWorkflowExecutionInitiated'', Inr 30),
      (''StartChildWorkflowExecutionFailed'', Inr 31),
      (''ChildWorkflowExecutionStarted'', Inr 32),
      (''ChildWorkflowExecutionCompleted'', Inr 33),
      (''ChildWorkflowExecutionFailed'', Inr 34),
      (''ChildWorkflowExecutionCanceled'', Inr 35),
      (''ChildWorkflowExecutionTimedOut'', Inr 36),
      (''ChildWorkflowExecutionTerminated'', Inr 37),
      (''SignalExternalWorkflowExecutionInitiated'', Inr 38),
      (''SignalExternalWorkflowExecutionFailed'', Inr 39),
      (''ExternalWorkflowExecutionSignaled'', Inr 40),
      (''UpsertWorkflowSearchAttributes'', Inr 41)]
     (case ParseInt 32 s of
        Inl err \<Rightarrow> Inl (E_Errorf_s ''unknown enum value %q for %q: %v'' [s, ''EventType'', err])
      | Inr val \<Rightarrow> Inr (word_of_int val))"

definition EventType_MarshalText :: "EventType \<Rightarrow> string" where
  "EventType_MarshalText v = switch v
     [(0, ''WorkflowExecutionStarted''),
      (1, ''WorkflowExecutionCompleted''),
      (2, ''WorkflowExecutionFailed''),
      (3, ''WorkflowExecutionTimedOut''),
      (4, ''DecisionTaskScheduled''),
      (5, ''DecisionTaskStarted''),
      (6, ''DecisionTaskCompleted''),
      (7, ''DecisionTaskTimedOut''),
      (8, ''DecisionTaskFailed''),
      (9, ''ActivityTaskScheduled''),
      (10, ''ActivityTaskStarted''),
      (11, ''ActivityTaskCompleted''),
      (12, ''ActivityTaskFailed''),
      (13, ''ActivityTaskTimedOut''),
      (14, ''ActivityTaskCancelRequested''),
      (15, ''RequestCancelActivityTaskFailed''),
      (16, ''ActivityTaskCanceled''),
      (17, ''TimerStarted''),
      (18, ''TimerFired''),
      (19, ''CancelTimerFailed''),
      (20, ''TimerCanceled''),
      (21, ''WorkflowExecutionCancelRequested''),
      (22, ''WorkflowExecutionCanceled''),
      (23, ''RequestCancelExternalWorkflowExecutionInitiated''),
      (24, ''RequestCancelExternalWorkflowExecutionFailed''),
      (25, ''ExternalWorkflowExecutionCancelRequested''),
      (26, ''MarkerRecorded''),
      (27, ''WorkflowExecutionSignaled''),
      (28, ''WorkflowExecutionTerminated''),
      (29, ''WorkflowExecutionContinuedAsNew''),
      (30, ''StartChildWorkflowExecutionInitiated''),
      (31, ''StartChildWorkflowExecutionFailed''),
      (32, ''ChildWorkflowExecutionStarted''),
      (33, ''ChildWorkflowExecutionCompleted''),
      (34, ''ChildWorkflowExecutionFailed''),
      (35, ''ChildWorkflowExecutionCanceled''),
      (36, ''ChildWorkflowExecutionTimedOut''),
      (37, ''ChildWorkflowExecutionTerminated''),
      (38, ''SignalExternalWorkflowExecutionInitiated''),
      (39, ''SignalExternalWorkflowExecutionFailed''),
      (40, ''ExternalWorkflowExecutionSignaled''),
      (41, ''UpsertWorkflowSearchAttributes'')]
     (FormatInt (sint v))"

definition EventType_String :: "EventType \<Rightarrow> string" where
  "EventType_String v = switch v
     [(0, ''WorkflowExecutionStarted''),
      (1, ''WorkflowExecutionCompleted''),
      (2, ''WorkflowExecutionFailed''),
      (3, ''WorkflowExecutionTimedOut''),
      (4, ''DecisionTaskScheduled''),
      (5, ''DecisionTaskStarted''),
      (6, ''DecisionTaskCompleted''),
      (7, ''DecisionTaskTimedOut''),
      (8, ''DecisionTaskFailed''),
      (9, ''ActivityTaskScheduled''),
      (10, ''ActivityTaskStarted''),
      (11, ''ActivityTaskCompleted''),
      (12, ''ActivityTaskFailed''),
      (13, ''ActivityTaskTimedOut''),
      (14, ''ActivityTaskCancelRequested''),
      (15, ''RequestCancelActivityTaskFailed''),
      (16, ''ActivityTaskCanceled''),
      (17, ''TimerStarted''),
      (18, ''TimerFired''),
      (19, ''CancelTimerFailed''),
      (20, ''TimerCanceled''),
      (21, ''WorkflowExecutionCancelRequested''),
      (22, ''WorkflowExecutionCanceled''),
      (23, ''RequestCancelExternalWorkflowExecutionInitiated''),
      (24, ''RequestCancelExternalWorkflowExecutionFailed''),
      (25, ''ExternalWorkflowExecutionCancelRequested''),
      (26, ''MarkerRecorded''),
      (27, ''WorkflowExecutionSignaled''),
      (28, ''WorkflowExecutionTerminated''),
      (29, ''WorkflowExecutionContinuedAsNew''),
      (30, ''StartChildWorkflowExecutionInitiated''),
      (31, ''StartChildWorkflowExecutionFailed''),
      (32, ''ChildWorkflowExecutionStarted''),
      (33, ''ChildWorkflowExecutionCompleted''),
      (34, ''ChildWorkflowExecutionFailed''),
      (35, ''ChildWorkflowExecutionCanceled''),
      (36, ''ChildWorkflowExecutionTimedOut''),
      (37, ''ChildWorkflowExecutionTerminated''),
      (38, ''SignalExternalWorkflowExecutionInitiated''),
      (39, ''SignalExternalWorkflowExecutionFailed''),
      (40, ''ExternalWorkflowExecutionSignaled''),
      (41, ''UpsertWorkflowSearchAttributes'')]
     (''EventType'' @ CHR ''('' # FormatInt (sint v) @ '')'')"

definition EventType_MarshalJSON :: "EventType \<Rightarrow> string" where
  "EventType_MarshalJSON v = switch v
     [(0, CHR 0x22 # ''WorkflowExecutionStarted'' @ [CHR 0x22]),
      (1, CHR 0x22 # ''WorkflowExecutionCompleted'' @ [CHR 0x22]),
      (2, CHR 0x22 # ''WorkflowExecutionFailed'' @ [CHR 0x22]),
      (3, CHR 0x22 # ''WorkflowExecutionTimedOut'' @ [CHR 0x22]),
      (4, CHR 0x22 # ''DecisionTaskScheduled'' @ [CHR 0x22]),
      (5, CHR 0x22 # ''DecisionTaskStarted'' @ [CHR 0x22]),
      (6, CHR 0x22 # ''DecisionTaskCompleted'' @ [CHR 0x22]),
      (7, CHR 0x22 # ''DecisionTaskTimedOut'' @ [CHR 0x22]),
      (8, CHR 0x22 # ''DecisionTaskFailed'' @ [CHR 0x22]),
      (9, CHR 0x22 # ''ActivityTaskScheduled'' @ [CHR 0x22]),
      (10, CHR 0x22 # ''ActivityTaskStarted'' @ [CHR 0x22]),
      (11, CHR 0x22 # ''ActivityTaskCompleted'' @ [CHR 0x22]),
      (12, CHR 0x22 # ''ActivityTaskFailed'' @ [CHR 0x22]),
      (13, CHR 0x22 # ''ActivityTaskTimedOut'' @ [CHR 0x22]),
      (14, CHR 0x22 # ''ActivityTaskCancelRequested'' @ [CHR 0x22]),
      (15, CHR 0x22 # ''RequestCancelActivityTaskFailed'' @ [CHR 0x22]),
      (16, CHR 0x22 # ''ActivityTaskCanceled'' @ [CHR 0x22]),
      (17, CHR 0x22 # ''TimerStarted'' @ [CHR 0x22]),
      (18, CHR 0x22 # ''TimerFired'' @ [CHR 0x22]),
      (19, CHR 0x22 # ''CancelTimerFailed'' @ [CHR 0x22]),
      (20, CHR 0x22 # ''TimerCanceled'' @ [CHR 0x22]),
      (21, CHR 0x22 # ''WorkflowExecutionCancelRequested'' @ [CHR 0x22]),
      (22, CHR 0x22 # ''WorkflowExecutionCanceled'' @ [CHR 0x22]),
      (23, CHR 0x22 # ''RequestCancelExternalWorkflowExecutionInitiated'' @ [CHR 0x22]),
      (24, CHR 0x22 # ''RequestCancelExternalWorkflowExecutionFailed'' @ [CHR 0x22]),
      (25, CHR 0x22 # ''ExternalWorkflowExecutionCancelRequested'' @ [CHR 0x22]),
      (26, CHR 0x22 # ''MarkerRecorded'' @ [CHR 0x22]),
      (27, CHR 0x22 # ''WorkflowExecutionSignaled'' @ [CHR 0x22]),
      (28, CHR 0x22 # ''WorkflowExecutionTerminated'' @ [CHR 0x22]),
      (29, CHR 0x22 # ''WorkflowExecutionContinuedAsNew'' @ [CHR 0x22]),
      (30, CHR 0x22 # ''StartChildWorkflowExecutionInitiated'' @ [CHR 0x22]),
      (31, CHR 0x22 # ''StartChildWorkflowExecutionFailed'' @ [CHR 0x22]),
      (32, CHR 0x22 # ''ChildWorkflowExecutionStarted'' @ [CHR 0x22]),
      (33, CHR 0x22 # ''ChildWorkflowExecutionCompleted'' @ [CHR 0x22]),
      (34, CHR 0x22 # ''ChildWorkflowExecutionFailed'' @ [CHR 0x22]),
      (35, CHR 0x22 # ''ChildWorkflowExecutionCanceled'' @ [CHR 0x22]),
      (36, CHR 0x22 # ''ChildWorkflowExecutionTimedOut'' @ [CHR 0x22]),
      (37, CHR 0x22 # ''ChildWorkflowExecutionTerminated'' @ [CHR 0x22]),
      (38, CHR 0x22 # ''SignalExternalWorkflowExecutionInitiated'' @ [CHR 0x22]),
      (39, CHR 0x22 # ''SignalExternalWorkflowExecutionFailed'' @ [CHR 0x22]),
      (40, CHR 0x22 # ''ExternalWorkflowExecutionSignaled'' @ [CHR 0x22]),
      (41, CHR 0x22 # ''UpsertWorkflowSearchAttributes'' @ [CHR 0x22])]
     (FormatInt (sint v))"

definition EventType_UnmarshalJSON :: "string \<Rightarrow> go_error + json_token \<Rightarrow> go_error + EventType" where
  "EventType_UnmarshalJSON text t =
     (case t of
        Inl err \<Rightarrow> Inl err
      | Inr (JSON_Number w) \<Rightarrow>
          (case ParseInt 64 w of
             Inl err \<Rightarrow> Inl (E_Errorf_s ''strconv.ParseInt: parsing %q: %v'' [w, err])
           | Inr x \<Rightarrow>
               if 2147483647 < x
               then Inl (E_Errorf_s ''enum overflow from JSON %q for %q'' [text, ''EventType''])
               else if x < -2147483648
               then Inl (E_Errorf_s ''enum underflow from JSON %q for %q'' [text, ''EventType''])
               else Inr (word_of_int x))
      | Inr (JSON_String w) \<Rightarrow> EventType_UnmarshalText w
      | Inr (JSON_Other w) \<Rightarrow>
          Inl (E_Errorf_s ''invalid JSON value %q (%T) to unmarshal into %q'' [w, ''EventType'']))"

interpretation EventType: enumeration
  "[(0, ''WorkflowExecutionStarted''),
      (1, ''WorkflowExecutionCompleted''),
      (2, ''WorkflowExecutionFailed''),
      (3, ''WorkflowExecutionTimedOut''),
      (4, ''DecisionTaskScheduled''),
      (5, ''DecisionTaskStarted''),
      (6, ''DecisionTaskCompleted''),
      (7, ''DecisionTaskTimedOut''),
      (8, ''DecisionTaskFailed''),
      (9, ''ActivityTaskScheduled''),
      (10, ''ActivityTaskStarted''),
      (11, ''ActivityTaskCompleted''),
      (12, ''ActivityTaskFailed''),
      (13, ''ActivityTaskTimedOut''),
      (14, ''ActivityTaskCancelRequested''),
      (15, ''RequestCancelActivityTaskFailed''),
      (16, ''ActivityTaskCanceled''),
      (17, ''TimerStarted''),
      (18, ''TimerFired''),
      (19, ''CancelTimerFailed''),
      (20, ''TimerCanceled''),
      (21, ''WorkflowExecutionCancelRequested''),
      (22, ''WorkflowExecutionCanceled''),
      (23, ''RequestCancelExternalWorkflowExecutionInitiated''),
      (24, ''RequestCancelExternalWorkflowExecutionFailed''),
      (25, ''ExternalWorkflowExecutionCancelRequested''),
      (26, ''MarkerRecorded''),
      (27, ''WorkflowExecutionSignaled''),
      (28, ''WorkflowExecutionTerminated''),
      (29, ''WorkflowExecutionContinuedAsNew''),
      (30, ''StartChildWorkflowExecutionInitiated''),
      (31, ''StartChildWorkflowExecutionFailed''),
      (32, ''ChildWorkflowExecutionStarted''),
      (33, ''ChildWorkflowExecutionCompleted''),
      (34, ''ChildWorkflowExecutionFailed''),
      (35, ''ChildWorkflowExecutionCanceled''),
      (36, ''ChildWorkflowExecutionTimedOut''),
      (37, ''ChildWorkflowExecutionTerminated''),
      (38, ''SignalExternalWorkflowExecutionInitiated''),
      (39, ''SignalExternalWorkflowExecutionFailed''),
      (40, ''ExternalWorkflowExecutionSignaled''),
      (41, ''UpsertWorkflowSearchAttributes'')]"
  "''EventType''" EventType_Values EventType_UnmarshalText EventType_MarshalText EventType_String
  EventType_MarshalJSON EventType_UnmarshalJSON
proof (rule enumeration.intro, goal_cases)
  case 2
  show ?case by (rule distinct_names) (simp add: name_code_def)
qed (simp_all add: EventType_Values_def EventType_UnmarshalText_def EventType_MarshalText_def
    EventType_String_def
    EventType_MarshalJSON_def EventType_UnmarshalJSON_def is_name_def is_digit_def)

lemma EventType_Values_constants: "EventType_Values = map snd EventType_constants"
  by (simp add: EventType_Values_def EventType_constants_def)

type_synonym HistoryEventFilterType = "32 word"

definition HistoryEventFilterType_ToWire :: "'v wire_api \<Rightarrow> HistoryEventFilterType \<Rightarrow> go_error + 'v"
    where
  "HistoryEventFilterType_ToWire W v = Inr (NewValueI32 W v)"

definition HistoryEventFilterType_FromWire ::
  "'v wire_api \<Rightarrow> 'v \<Rightarrow> HistoryEventFilterType \<Rightarrow> go_error + HistoryEventFilterType" where
  "HistoryEventFilterType_FromWire W w v = Inr (GetI32 W w)"

definition HistoryEventFilterType_Read :: "'v wire_api \<Rightarrow> 'v \<Rightarrow> go_error + HistoryEventFilterType"
    where
  "HistoryEventFilterType_Read W w = HistoryEventFilterType_FromWire W w 0"

definition HistoryEventFilterType_Equals :: "HistoryEventFilterType \<Rightarrow> HistoryEventFilterType \<Rightarrow> bool"
    where
  "HistoryEventFilterType_Equals v rhs \<longleftrightarrow> v = rhs"

definition HistoryEventFilterType_EqualsPtr :: "HistoryEventFilterType option \<Rightarrow>
    HistoryEventFilterType option \<Rightarrow> bool" where
  "HistoryEventFilterType_EqualsPtr lhs rhs =
     (case lhs of
        Some x \<Rightarrow> (case rhs of Some y \<Rightarrow> HistoryEventFilterType_Equals x y | None \<Rightarrow> lhs = None \<and> rhs =
            None)
      | None \<Rightarrow> lhs = None \<and> rhs = None)"

lemma HistoryEventFilterType_codec [simp]:
  "HistoryEventFilterType_EqualsPtr c d \<longleftrightarrow> c = d"
  "HistoryEventFilterType_ToWire W i = Inr (NewValueI32 W i)"
  "wire_laws W \<Longrightarrow> HistoryEventFilterType_Read W (NewValueI32 W i) = Inr i"
  by (auto simp: HistoryEventFilterType_EqualsPtr_def HistoryEventFilterType_Equals_def
      HistoryEventFilterType_ToWire_def HistoryEventFilterType_FromWire_def
      HistoryEventFilterType_Read_def split: option.splits)

lemma HistoryEventFilterType_enc: "HistoryEventFilterType_ToWire W = (\<lambda>i. Inr (NewValueI32 W i))"
  by auto

text \<open>The constants of \<open>HistoryEventFilterType\<close>, and its text and JSON forms.\<close>

definition HistoryEventFilterType_constants :: "(string \<times> HistoryEventFilterType) list" where
  "HistoryEventFilterType_constants =
     [(''HistoryEventFilterTypeAllEvent'', 0),
      (''HistoryEventFilterTypeCloseEvent'', 1)]"

definition HistoryEventFilterType_Values :: "HistoryEventFilterType list" where
  "HistoryEventFilterType_Values =
     [0,
      1]"

definition HistoryEventFilterType_UnmarshalText :: "string \<Rightarrow> go_error + HistoryEventFilterType"
    where
  "HistoryEventFilterType_UnmarshalText s = switch s
     [(''ALL_EVENT'', Inr 0),
      (''CLOSE_EVENT'', Inr 1)]
     (case ParseInt 32 s of
        Inl err \<Rightarrow> Inl (E_Errorf_s ''unknown enum value %q for %q: %v'' [s,
            ''HistoryEventFilterType'', err])
      | Inr val \<Rightarrow> Inr (word_of_int val))"

definition HistoryEventFilterType_MarshalText :: "HistoryEventFilterType \<Rightarrow> string" where
  "HistoryEventFilterType_MarshalText v = switch v
     [(0, ''ALL_EVENT''),
      (1, ''CLOSE_EVENT'')]
     (FormatInt (sint v))"

definition HistoryEventFilterType_String :: "HistoryEventFilterType \<Rightarrow> string" where
  "HistoryEventFilterType_String v = switch v
     [(0, ''ALL_EVENT''),
      (1, ''CLOSE_EVENT'')]
     (''HistoryEventFilterType'' @ CHR ''('' # FormatInt (sint v) @ '')'')"

definition HistoryEventFilterType_MarshalJSON :: "HistoryEventFilterType \<Rightarrow> string" where
  "HistoryEventFilterType_MarshalJSON v = switch v
     [(0, CHR 0x22 # ''ALL_EVENT'' @ [CHR 0x22]),
      (1, CHR 0x22 # ''CLOSE_EVENT'' @ [CHR 0x22])]
     (FormatInt (sint v))"

definition HistoryEventFilterType_UnmarshalJSON :: "string \<Rightarrow> go_error + json_token \<Rightarrow> go_error +
    HistoryEventFilterType" where
  "HistoryEventFilterType_UnmarshalJSON text t =
     (case t of
        Inl err \<Rightarrow> Inl err
      | Inr (JSON_Number w) \<Rightarrow>
          (case ParseInt 64 w of
             Inl err \<Rightarrow> Inl (E_Errorf_s ''strconv.ParseInt: parsing %q: %v'' [w, err])
           | Inr x \<Rightarrow>
               if 2147483647 < x
               then Inl (E_Errorf_s ''enum overflow from JSON %q for %q'' [text,
                   ''HistoryEventFilterType''])
               else if x < -2147483648
               then Inl (E_Errorf_s ''enum underflow from JSON %q for %q'' [text,
                   ''HistoryEventFilterType''])
               else Inr (word_of_int x))
      | Inr (JSON_String w) \<Rightarrow> HistoryEventFilterType_UnmarshalText w
      | Inr (JSON_Other w) \<Rightarrow>
          Inl (E_Errorf_s ''invalid JSON value %q (%T) to unmarshal into %q'' [w,
              ''HistoryEventFilterType'']))"

interpretation HistoryEventFilterType: enumeration
  "[(0, ''ALL_EVENT''),
      (1, ''CLOSE_EVENT'')]"
  "''HistoryEventFilterType''" HistoryEventFilterType_Values HistoryEventFilterType_UnmarshalText
      HistoryEventFilterType_MarshalText HistoryEventFilterType_String
  HistoryEventFilterType_MarshalJSON HistoryEventFilterType_UnmarshalJSON
proof (rule enumeration.intro, goal_cases)
  case 2
  show ?case by (rule distinct_names) (simp add: name_code_def)
qed (simp_all add: HistoryEventFilterType_Values_def HistoryEventFilterType_UnmarshalText_def
    HistoryEventFilterType_MarshalText_def HistoryEventFilterType_String_def
    HistoryEventFilterType_MarshalJSON_def HistoryEventFilterType_UnmarshalJSON_def is_name_def
        is_digit_def)

lemma HistoryEventFilterType_Values_constants: "HistoryEventFilterType_Values = map snd
    HistoryEventFilterType_constants"
  by (simp add: HistoryEventFilterType_Values_def HistoryEventFilterType_constants_def)

type_synonym IndexedValueType = "32 word"

definition IndexedValueType_ToWire :: "'v wire_api \<Rightarrow> IndexedValueType \<Rightarrow> go_error + 'v" where
  "IndexedValueType_ToWire W v = Inr (NewValueI32 W v)"

definition IndexedValueType_FromWire ::
  "'v wire_api \<Rightarrow> 'v \<Rightarrow> IndexedValueType \<Rightarrow> go_error + IndexedValueType" where
  "IndexedValueType_FromWire W w v = Inr (GetI32 W w)"

definition IndexedValueType_Read :: "'v wire_api \<Rightarrow> 'v \<Rightarrow> go_error + IndexedValueType" where
  "IndexedValueType_Read W w = IndexedValueType_FromWire W w 0"

definition IndexedValueType_Equals :: "IndexedValueType \<Rightarrow> IndexedValueType \<Rightarrow> bool" where
  "IndexedValueType_Equals v rhs \<longleftrightarrow> v = rhs"

lemma IndexedValueType_codec [simp]:
  "IndexedValueType_ToWire W i = Inr (NewValueI32 W i)"
  "wire_laws W \<Longrightarrow> IndexedValueType_Read W (NewValueI32 W i) = Inr i"
  by (auto simp: IndexedValueType_Equals_def IndexedValueType_ToWire_def
      IndexedValueType_FromWire_def
      IndexedValueType_Read_def split: option.splits)

lemma IndexedValueType_enc: "IndexedValueType_ToWire W = (\<lambda>i. Inr (NewValueI32 W i))"
  by auto

text \<open>The constants of \<open>IndexedValueType\<close>, and its text and JSON forms.\<close>

definition IndexedValueType_constants :: "(string \<times> IndexedValueType) list" where
  "IndexedValueType_constants =
     [(''IndexedValueTypeString'', 0),
      (''IndexedValueTypeKeyword'', 1),
      (''IndexedValueTypeInt'', 2),
      (''IndexedValueTypeDouble'', 3),
      (''IndexedValueTypeBool'', 4),
      (''IndexedValueTypeDatetime'', 5)]"

definition IndexedValueType_Values :: "IndexedValueType list" where
  "IndexedValueType_Values =
     [0,
      1,
      2,
      3,
      4,
      5]"

definition IndexedValueType_UnmarshalText :: "string \<Rightarrow> go_error + IndexedValueType" where
  "IndexedValueType_UnmarshalText s = switch s
     [(''STRING'', Inr 0),
      (''KEYWORD'', Inr 1),
      (''INT'', Inr 2),
      (''DOUBLE'', Inr 3),
      (''BOOL'', Inr 4),
      (''DATETIME'', Inr 5)]
     (case ParseInt 32 s of
        Inl err \<Rightarrow> Inl (E_Errorf_s ''unknown enum value %q for %q: %v'' [s, ''IndexedValueType'',
            err])
      | Inr val \<Rightarrow> Inr (word_of_int val))"

definition IndexedValueType_MarshalText :: "IndexedValueType \<Rightarrow> string" where
  "IndexedValueType_MarshalText v = switch v
     [(0, ''STRING''),
      (1, ''KEYWORD''),
      (2, ''INT''),
      (3, ''DOUBLE''),
      (4, ''BOOL''),
      (5, ''DATETIME'')]
     (FormatInt (sint v))"

definition IndexedValueType_String :: "IndexedValueType \<Rightarrow> string" where
  "IndexedValueType_String v = switch v
     [(0, ''STRING''),
      (1, ''KEYWORD''),
      (2, ''INT''),
      (3, ''DOUBLE''),
      (4, ''BOOL''),
      (5, ''DATETIME'')]
     (''IndexedValueType'' @ CHR ''('' # FormatInt (sint v) @ '')'')"

definition IndexedValueType_MarshalJSON :: "IndexedValueType \<Rightarrow> string" where
  "IndexedValueType_MarshalJSON v = switch v
     [(0, CHR 0x22 # ''STRING'' @ [CHR 0x22]),
      (1, CHR 0x22 # ''KEYWORD'' @ [CHR 0x22]),
      (2, CHR 0x22 # ''INT'' @ [CHR 0x22]),
      (3, CHR 0x22 # ''DOUBLE'' @ [CHR 0x22]),
      (4, CHR 0x22 # ''BOOL'' @ [CHR 0x22]),
      (5, CHR 0x22 # ''DATETIME'' @ [CHR 0x22])]
     (FormatInt (sint v))"

definition IndexedValueType_UnmarshalJSON :: "string \<Rightarrow> go_error + json_token \<Rightarrow> go_error +
    IndexedValueType" where
  "IndexedValueType_UnmarshalJSON text t =
     (case t of
        Inl err \<Rightarrow> Inl err
      | Inr (JSON_Number w) \<Rightarrow>
          (case ParseInt 64 w of
             Inl err \<Rightarrow> Inl (E_Errorf_s ''strconv.ParseInt: parsing %q: %v'' [w, err])
           | Inr x \<Rightarrow>
               if 2147483647 < x
               then Inl (E_Errorf_s ''enum overflow from JSON %q for %q'' [text,
                   ''IndexedValueType''])
               else if x < -2147483648
               then Inl (E_Errorf_s ''enum underflow from JSON %q for %q'' [text,
                   ''IndexedValueType''])
               else Inr (word_of_int x))
      | Inr (JSON_String w) \<Rightarrow> IndexedValueType_UnmarshalText w
      | Inr (JSON_Other w) \<Rightarrow>
          Inl (E_Errorf_s ''invalid JSON value %q (%T) to unmarshal into %q'' [w,
              ''IndexedValueType'']))"

interpretation IndexedValueType: enumeration
  "[(0, ''STRING''),
      (1, ''KEYWORD''),
      (2, ''INT''),
      (3, ''DOUBLE''),
      (4, ''BOOL''),
      (5, ''DATETIME'')]"
  "''IndexedValueType''" IndexedValueType_Values IndexedValueType_UnmarshalText
      IndexedValueType_MarshalText IndexedValueType_String
  IndexedValueType_MarshalJSON IndexedValueType_UnmarshalJSON
proof (rule enumeration.intro, goal_cases)
  case 2
  show ?case by (rule distinct_names) (simp add: name_code_def)
qed (simp_all add: IndexedValueType_Values_def IndexedValueType_UnmarshalText_def
    IndexedValueType_MarshalText_def IndexedValueType_String_def
    IndexedValueType_MarshalJSON_def IndexedValueType_UnmarshalJSON_def is_name_def is_digit_def)

lemma IndexedValueType_Values_constants: "IndexedValueType_Values = map snd
    IndexedValueType_constants"
  by (simp add: IndexedValueType_Values_def IndexedValueType_constants_def)

type_synonym ParentClosePolicy = "32 word"

definition ParentClosePolicy_ToWire :: "'v wire_api \<Rightarrow> ParentClosePolicy \<Rightarrow> go_error + 'v" where
  "ParentClosePolicy_ToWire W v = Inr (NewValueI32 W v)"

definition ParentClosePolicy_FromWire ::
  "'v wire_api \<Rightarrow> 'v \<Rightarrow> ParentClosePolicy \<Rightarrow> go_error + ParentClosePolicy" where
  "ParentClosePolicy_FromWire W w v = Inr (GetI32 W w)"

definition ParentClosePolicy_Read :: "'v wire_api \<Rightarrow> 'v \<Rightarrow> go_error + ParentClosePolicy" where
  "ParentClosePolicy_Read W w = ParentClosePolicy_FromWire W w 0"

definition ParentClosePolicy_Equals :: "ParentClosePolicy \<Rightarrow> ParentClosePolicy \<Rightarrow> bool" where
  "ParentClosePolicy_Equals v rhs \<longleftrightarrow> v = rhs"

definition ParentClosePolicy_EqualsPtr :: "ParentClosePolicy option \<Rightarrow> ParentClosePolicy option \<Rightarrow>
    bool" where
  "ParentClosePolicy_EqualsPtr lhs rhs =
     (case lhs of
        Some x \<Rightarrow> (case rhs of Some y \<Rightarrow> ParentClosePolicy_Equals x y | None \<Rightarrow> lhs = None \<and> rhs =
            None)
      | None \<Rightarrow> lhs = None \<and> rhs = None)"

lemma ParentClosePolicy_codec [simp]:
  "ParentClosePolicy_EqualsPtr c d \<longleftrightarrow> c = d"
  "ParentClosePolicy_ToWire W i = Inr (NewValueI32 W i)"
  "wire_laws W \<Longrightarrow> ParentClosePolicy_Read W (NewValueI32 W i) = Inr i"
  by (auto simp: ParentClosePolicy_EqualsPtr_def ParentClosePolicy_Equals_def
      ParentClosePolicy_ToWire_def ParentClosePolicy_FromWire_def
      ParentClosePolicy_Read_def split: option.splits)

lemma ParentClosePolicy_enc: "ParentClosePolicy_ToWire W = (\<lambda>i. Inr (NewValueI32 W i))"
  by auto

text \<open>The constants of \<open>ParentClosePolicy\<close>, and its text and JSON forms.\<close>

definition ParentClosePolicy_constants :: "(string \<times> ParentClosePolicy) list" where
  "ParentClosePolicy_constants =
     [(''ParentClosePolicyAbandon'', 0),
      (''ParentClosePolicyRequestCancel'', 1),
      (''ParentClosePolicyTerminate'', 2)]"

definition ParentClosePolicy_Values :: "ParentClosePolicy list" where
  "ParentClosePolicy_Values =
     [0,
      1,
      2]"

definition ParentClosePolicy_UnmarshalText :: "string \<Rightarrow> go_error + ParentClosePolicy" where
  "ParentClosePolicy_UnmarshalText s = switch s
     [(''ABANDON'', Inr 0),
      (''REQUEST_CANCEL'', Inr 1),
      (''TERMINATE'', Inr 2)]
     (case ParseInt 32 s of
        Inl err \<Rightarrow> Inl (E_Errorf_s ''unknown enum value %q for %q: %v'' [s, ''ParentClosePolicy'',
            err])
      | Inr val \<Rightarrow> Inr (word_of_int val))"

definition ParentClosePolicy_MarshalText :: "ParentClosePolicy \<Rightarrow> string" where
  "ParentClosePolicy_MarshalText v = switch v
     [(0, ''ABANDON''),
      (1, ''REQUEST_CANCEL''),
      (2, ''TERMINATE'')]
     (FormatInt (sint v))"

definition ParentClosePolicy_String :: "ParentClosePolicy \<Rightarrow> string" where
  "ParentClosePolicy_String v = switch v
     [(0, ''ABANDON''),
      (1, ''REQUEST_CANCEL''),
      (2, ''TERMINATE'')]
     (''ParentClosePolicy'' @ CHR ''('' # FormatInt (sint v) @ '')'')"

definition ParentClosePolicy_MarshalJSON :: "ParentClosePolicy \<Rightarrow> string" where
  "ParentClosePolicy_MarshalJSON v = switch v
     [(0, CHR 0x22 # ''ABANDON'' @ [CHR 0x22]),
      (1, CHR 0x22 # ''REQUEST_CANCEL'' @ [CHR 0x22]),
      (2, CHR 0x22 # ''TERMINATE'' @ [CHR 0x22])]
     (FormatInt (sint v))"

definition ParentClosePolicy_UnmarshalJSON :: "string \<Rightarrow> go_error + json_token \<Rightarrow> go_error +
    ParentClosePolicy" where
  "ParentClosePolicy_UnmarshalJSON text t =
     (case t of
        Inl err \<Rightarrow> Inl err
      | Inr (JSON_Number w) \<Rightarrow>
          (case ParseInt 64 w of
             Inl err \<Rightarrow> Inl (E_Errorf_s ''strconv.ParseInt: parsing %q: %v'' [w, err])
           | Inr x \<Rightarrow>
               if 2147483647 < x
               then Inl (E_Errorf_s ''enum overflow from JSON %q for %q'' [text,
                   ''ParentClosePolicy''])
               else if x < -2147483648
               then Inl (E_Errorf_s ''enum underflow from JSON %q for %q'' [text,
                   ''ParentClosePolicy''])
               else Inr (word_of_int x))
      | Inr (JSON_String w) \<Rightarrow> ParentClosePolicy_UnmarshalText w
      | Inr (JSON_Other w) \<Rightarrow>
          Inl (E_Errorf_s ''invalid JSON value %q (%T) to unmarshal into %q'' [w,
              ''ParentClosePolicy'']))"

interpretation ParentClosePolicy: enumeration
  "[(0, ''ABANDON''),
      (1, ''REQUEST_CANCEL''),
      (2, ''TERMINATE'')]"
  "''ParentClosePolicy''" ParentClosePolicy_Values ParentClosePolicy_UnmarshalText
      ParentClosePolicy_MarshalText ParentClosePolicy_String
  ParentClosePolicy_MarshalJSON ParentClosePolicy_UnmarshalJSON
proof (rule enumeration.intro, goal_cases)
  case 2
  show ?case by (rule distinct_names) (simp add: name_code_def)
qed (simp_all add: ParentClosePolicy_Values_def ParentClosePolicy_UnmarshalText_def
    ParentClosePolicy_MarshalText_def ParentClosePolicy_String_def
    ParentClosePolicy_MarshalJSON_def ParentClosePolicy_UnmarshalJSON_def is_name_def is_digit_def)

lemma ParentClosePolicy_Values_constants: "ParentClosePolicy_Values = map snd
    ParentClosePolicy_constants"
  by (simp add: ParentClosePolicy_Values_def ParentClosePolicy_constants_def)

type_synonym PendingActivityState = "32 word"

definition PendingActivityState_ToWire :: "'v wire_api \<Rightarrow> PendingActivityState \<Rightarrow> go_error + 'v" where
  "PendingActivityState_ToWire W v = Inr (NewValueI32 W v)"

definition PendingActivityState_FromWire ::
  "'v wire_api \<Rightarrow> 'v \<Rightarrow> PendingActivityState \<Rightarrow> go_error + PendingActivityState" where
  "PendingActivityState_FromWire W w v = Inr (GetI32 W w)"

definition PendingActivityState_Read :: "'v wire_api \<Rightarrow> 'v \<Rightarrow> go_error + PendingActivityState" where
  "PendingActivityState_Read W w = PendingActivityState_FromWire W w 0"

definition PendingActivityState_Equals :: "PendingActivityState \<Rightarrow> PendingActivityState \<Rightarrow> bool" where
  "PendingActivityState_Equals v rhs \<longleftrightarrow> v = rhs"

definition PendingActivityState_EqualsPtr :: "PendingActivityState option \<Rightarrow> PendingActivityState
    option \<Rightarrow> bool" where
  "PendingActivityState_EqualsPtr lhs rhs =
     (case lhs of
        Some x \<Rightarrow> (case rhs of Some y \<Rightarrow> PendingActivityState_Equals x y | None \<Rightarrow> lhs = None \<and> rhs =
            None)
      | None \<Rightarrow> lhs = None \<and> rhs = None)"

lemma PendingActivityState_codec [simp]:
  "PendingActivityState_EqualsPtr c d \<longleftrightarrow> c = d"
  "PendingActivityState_ToWire W i = Inr (NewValueI32 W i)"
  "wire_laws W \<Longrightarrow> PendingActivityState_Read W (NewValueI32 W i) = Inr i"
  by (auto simp: PendingActivityState_EqualsPtr_def PendingActivityState_Equals_def
      PendingActivityState_ToWire_def PendingActivityState_FromWire_def
      PendingActivityState_Read_def split: option.splits)

lemma PendingActivityState_enc: "PendingActivityState_ToWire W = (\<lambda>i. Inr (NewValueI32 W i))"
  by auto

text \<open>The constants of \<open>PendingActivityState\<close>, and its text and JSON forms.\<close>

definition PendingActivityState_constants :: "(string \<times> PendingActivityState) list" where
  "PendingActivityState_constants =
     [(''PendingActivityStateScheduled'', 0),
      (''PendingActivityStateStarted'', 1),
      (''PendingActivityStateCancelRequested'', 2)]"

definition PendingActivityState_Values :: "PendingActivityState list" where
  "PendingActivityState_Values =
     [0,
      1,
      2]"

definition PendingActivityState_UnmarshalText :: "string \<Rightarrow> go_error + PendingActivityState" where
  "PendingActivityState_UnmarshalText s = switch s
     [(''SCHEDULED'', Inr 0),
      (''STARTED'', Inr 1),
      (''CANCEL_REQUESTED'', Inr 2)]
     (case ParseInt 32 s of
        Inl err \<Rightarrow> Inl (E_Errorf_s ''unknown enum value %q for %q: %v'' [s, ''PendingActivityState'',
            err])
      | Inr val \<Rightarrow> Inr (word_of_int val))"

definition PendingActivityState_MarshalText :: "PendingActivityState \<Rightarrow> string" where
  "PendingActivityState_MarshalText v = switch v
     [(0, ''SCHEDULED''),
      (1, ''STARTED''),
      (2, ''CANCEL_REQUESTED'')]
     (FormatInt (sint v))"

definition PendingActivityState_String :: "PendingActivityState \<Rightarrow> string" where
  "PendingActivityState_String v = switch v
     [(0, ''SCHEDULED''),
      (1, ''STARTED''),
      (2, ''CANCEL_REQUESTED'')]
     (''PendingActivityState'' @ CHR ''('' # FormatInt (sint v) @ '')'')"

definition PendingActivityState_MarshalJSON :: "PendingActivityState \<Rightarrow> string" where
  "PendingActivityState_MarshalJSON v = switch v
     [(0, CHR 0x22 # ''SCHEDULED'' @ [CHR 0x22]),
      (1, CHR 0x22 # ''STARTED'' @ [CHR 0x22]),
      (2, CHR 0x22 # ''CANCEL_REQUESTED'' @ [CHR 0x22])]
     (FormatInt (sint v))"

definition PendingActivityState_UnmarshalJSON :: "string \<Rightarrow> go_error + json_token \<Rightarrow> go_error +
    PendingActivityState" where
  "PendingActivityState_UnmarshalJSON text t =
     (case t of
        Inl err \<Rightarrow> Inl err
      | Inr (JSON_Number w) \<Rightarrow>
          (case ParseInt 64 w of
             Inl err \<Rightarrow> Inl (E_Errorf_s ''strconv.ParseInt: parsing %q: %v'' [w, err])
           | Inr x \<Rightarrow>
               if 2147483647 < x
               then Inl (E_Errorf_s ''enum overflow from JSON %q for %q'' [text,
                   ''PendingActivityState''])
               else if x < -2147483648
               then Inl (E_Errorf_s ''enum underflow from JSON %q for %q'' [text,
                   ''PendingActivityState''])
               else Inr (word_of_int x))
      | Inr (JSON_String w) \<Rightarrow> PendingActivityState_UnmarshalText w
      | Inr (JSON_Other w) \<Rightarrow>
          Inl (E_Errorf_s ''invalid JSON value %q (%T) to unmarshal into %q'' [w,
              ''PendingActivityState'']))"

interpretation PendingActivityState: enumeration
  "[(0, ''SCHEDULED''),
      (1, ''STARTED''),
      (2, ''CANCEL_REQUESTED'')]"
  "''PendingActivityState''" PendingActivityState_Values PendingActivityState_UnmarshalText
      PendingActivityState_MarshalText PendingActivityState_String
  PendingActivityState_MarshalJSON PendingActivityState_UnmarshalJSON
proof (rule enumeration.intro, goal_cases)
  case 2
  show ?case by (rule distinct_names) (simp add: name_code_def)
qed (simp_all add: PendingActivityState_Values_def PendingActivityState_UnmarshalText_def
    PendingActivityState_MarshalText_def PendingActivityState_String_def
    PendingActivityState_MarshalJSON_def PendingActivityState_UnmarshalJSON_def is_name_def
        is_digit_def)

lemma PendingActivityState_Values_constants: "PendingActivityState_Values = map snd
    PendingActivityState_constants"
  by (simp add: PendingActivityState_Values_def PendingActivityState_constants_def)

type_synonym QueryRejectCondition = "32 word"

definition QueryRejectCondition_ToWire :: "'v wire_api \<Rightarrow> QueryRejectCondition \<Rightarrow> go_error + 'v" where
  "QueryRejectCondition_ToWire W v = Inr (NewValueI32 W v)"

definition QueryRejectCondition_FromWire ::
  "'v wire_api \<Rightarrow> 'v \<Rightarrow> QueryRejectCondition \<Rightarrow> go_error + QueryRejectCondition" where
  "QueryRejectCondition_FromWire W w v = Inr (GetI32 W w)"

definition QueryRejectCondition_Read :: "'v wire_api \<Rightarrow> 'v \<Rightarrow> go_error + QueryRejectCondition" where
  "QueryRejectCondition_Read W w = QueryRejectCondition_FromWire W w 0"

definition QueryRejectCondition_Equals :: "QueryRejectCondition \<Rightarrow> QueryRejectCondition \<Rightarrow> bool" where
  "QueryRejectCondition_Equals v rhs \<longleftrightarrow> v = rhs"

definition QueryRejectCondition_EqualsPtr :: "QueryRejectCondition option \<Rightarrow> QueryRejectCondition
    option \<Rightarrow> bool" where
  "QueryRejectCondition_EqualsPtr lhs rhs =
     (case lhs of
        Some x \<Rightarrow> (case rhs of Some y \<Rightarrow> QueryRejectCondition_Equals x y | None \<Rightarrow> lhs = None \<and> rhs =
            None)
      | None \<Rightarrow> lhs = None \<and> rhs = None)"

lemma QueryRejectCondition_codec [simp]:
  "QueryRejectCondition_EqualsPtr c d \<longleftrightarrow> c = d"
  "QueryRejectCondition_ToWire W i = Inr (NewValueI32 W i)"
  "wire_laws W \<Longrightarrow> QueryRejectCondition_Read W (NewValueI32 W i) = Inr i"
  by (auto simp: QueryRejectCondition_EqualsPtr_def QueryRejectCondition_Equals_def
      QueryRejectCondition_ToWire_def QueryRejectCondition_FromWire_def
      QueryRejectCondition_Read_def split: option.splits)

lemma QueryRejectCondition_enc: "QueryRejectCondition_ToWire W = (\<lambda>i. Inr (NewValueI32 W i))"
  by auto

text \<open>The constants of \<open>QueryRejectCondition\<close>, and its text and JSON forms.\<close>

definition QueryRejectCondition_constants :: "(string \<times> QueryRejectCondition) list" where
  "QueryRejectCondition_constants =
     [(''QueryRejectConditionNotOpen'', 0),
      (''QueryRejectConditionNotCompletedCleanly'', 1)]"

definition QueryRejectCondition_Values :: "QueryRejectCondition list" where
  "QueryRejectCondition_Values =
     [0,
      1]"

definition QueryRejectCondition_UnmarshalText :: "string \<Rightarrow> go_error + QueryRejectCondition" where
  "QueryRejectCondition_UnmarshalText s = switch s
     [(''NOT_OPEN'', Inr 0),
      (''NOT_COMPLETED_CLEANLY'', Inr 1)]
     (case ParseInt 32 s of
        Inl err \<Rightarrow> Inl (E_Errorf_s ''unknown enum value %q for %q: %v'' [s, ''QueryRejectCondition'',
            err])
      | Inr val \<Rightarrow> Inr (word_of_int val))"

definition QueryRejectCondition_MarshalText :: "QueryRejectCondition \<Rightarrow> string" where
  "QueryRejectCondition_MarshalText v = switch v
     [(0, ''NOT_OPEN''),
      (1, ''NOT_COMPLETED_CLEANLY'')]
     (FormatInt (sint v))"

definition QueryRejectCondition_String :: "QueryRejectCondition \<Rightarrow> string" where
  "QueryRejectCondition_String v = switch v
     [(0, ''NOT_OPEN''),
      (1, ''NOT_COMPLETED_CLEANLY'')]
     (''QueryRejectCondition'' @ CHR ''('' # FormatInt (sint v) @ '')'')"

definition QueryRejectCondition_MarshalJSON :: "QueryRejectCondition \<Rightarrow> string" where
  "QueryRejectCondition_MarshalJSON v = switch v
     [(0, CHR 0x22 # ''NOT_OPEN'' @ [CHR 0x22]),
      (1, CHR 0x22 # ''NOT_COMPLETED_CLEANLY'' @ [CHR 0x22])]
     (FormatInt (sint v))"

definition QueryRejectCondition_UnmarshalJSON :: "string \<Rightarrow> go_error + json_token \<Rightarrow> go_error +
    QueryRejectCondition" where
  "QueryRejectCondition_UnmarshalJSON text t =
     (case t of
        Inl err \<Rightarrow> Inl err
      | Inr (JSON_Number w) \<Rightarrow>
          (case ParseInt 64 w of
             Inl err \<Rightarrow> Inl (E_Errorf_s ''strconv.ParseInt: parsing %q: %v'' [w, err])
           | Inr x \<Rightarrow>
               if 2147483647 < x
               then Inl (E_Errorf_s ''enum overflow from JSON %q for %q'' [text,
                   ''QueryRejectCondition''])
               else if x < -2147483648
               then Inl (E_Errorf_s ''enum underflow from JSON %q for %q'' [text,
                   ''QueryRejectCondition''])
               else Inr (word_of_int x))
      | Inr (JSON_String w) \<Rightarrow> QueryRejectCondition_UnmarshalText w
      | Inr (JSON_Other w) \<Rightarrow>
          Inl (E_Errorf_s ''invalid JSON value %q (%T) to unmarshal into %q'' [w,
              ''QueryRejectCondition'']))"

interpretation QueryRejectCondition: enumeration
  "[(0, ''NOT_OPEN''),
      (1, ''NOT_COMPLETED_CLEANLY'')]"
  "''QueryRejectCondition''" QueryRejectCondition_Values QueryRejectCondition_UnmarshalText
      QueryRejectCondition_MarshalText QueryRejectCondition_String
  QueryRejectCondition_MarshalJSON QueryRejectCondition_UnmarshalJSON
proof (rule enumeration.intro, goal_cases)
  case 2
  show ?case by (rule distinct_names) (simp add: name_code_def)
qed (simp_all add: QueryRejectCondition_Values_def QueryRejectCondition_UnmarshalText_def
    QueryRejectCondition_MarshalText_def QueryRejectCondition_String_def
    QueryRejectCondition_MarshalJSON_def QueryRejectCondition_UnmarshalJSON_def is_name_def
        is_digit_def)

lemma QueryRejectCondition_Values_constants: "QueryRejectCondition_Values = map snd
    QueryRejectCondition_constants"
  by (simp add: QueryRejectCondition_Values_def QueryRejectCondition_constants_def)

type_synonym QueryResultType = "32 word"

definition QueryResultType_ToWire :: "'v wire_api \<Rightarrow> QueryResultType \<Rightarrow> go_error + 'v" where
  "QueryResultType_ToWire W v = Inr (NewValueI32 W v)"

definition QueryResultType_FromWire ::
  "'v wire_api \<Rightarrow> 'v \<Rightarrow> QueryResultType \<Rightarrow> go_error + QueryResultType" where
  "QueryResultType_FromWire W w v = Inr (GetI32 W w)"

definition QueryResultType_Read :: "'v wire_api \<Rightarrow> 'v \<Rightarrow> go_error + QueryResultType" where
  "QueryResultType_Read W w = QueryResultType_FromWire W w 0"

definition QueryResultType_Equals :: "QueryResultType \<Rightarrow> QueryResultType \<Rightarrow> bool" where
  "QueryResultType_Equals v rhs \<longleftrightarrow> v = rhs"

definition QueryResultType_EqualsPtr :: "QueryResultType option \<Rightarrow> QueryResultType option \<Rightarrow> bool"
    where
  "QueryResultType_EqualsPtr lhs rhs =
     (case lhs of
        Some x \<Rightarrow> (case rhs of Some y \<Rightarrow> QueryResultType_Equals x y | None \<Rightarrow> lhs = None \<and> rhs = None)
      | None \<Rightarrow> lhs = None \<and> rhs = None)"

lemma QueryResultType_codec [simp]:
  "QueryResultType_EqualsPtr c d \<longleftrightarrow> c = d"
  "QueryResultType_ToWire W i = Inr (NewValueI32 W i)"
  "wire_laws W \<Longrightarrow> QueryResultType_Read W (NewValueI32 W i) = Inr i"
  by (auto simp: QueryResultType_EqualsPtr_def QueryResultType_Equals_def QueryResultType_ToWire_def
      QueryResultType_FromWire_def
      QueryResultType_Read_def split: option.splits)

lemma QueryResultType_enc: "QueryResultType_ToWire W = (\<lambda>i. Inr (NewValueI32 W i))"
  by auto

text \<open>The constants of \<open>QueryResultType\<close>, and its text and JSON forms.\<close>

definition QueryResultType_constants :: "(string \<times> QueryResultType) list" where
  "QueryResultType_constants =
     [(''QueryResultTypeAnswered'', 0),
      (''QueryResultTypeFailed'', 1)]"

definition QueryResultType_Values :: "QueryResultType list" where
  "QueryResultType_Values =
     [0,
      1]"

definition QueryResultType_UnmarshalText :: "string \<Rightarrow> go_error + QueryResultType" where
  "QueryResultType_UnmarshalText s = switch s
     [(''ANSWERED'', Inr 0),
      (''FAILED'', Inr 1)]
     (case ParseInt 32 s of
        Inl err \<Rightarrow> Inl (E_Errorf_s ''unknown enum value %q for %q: %v'' [s, ''QueryResultType'',
            err])
      | Inr val \<Rightarrow> Inr (word_of_int val))"

definition QueryResultType_MarshalText :: "QueryResultType \<Rightarrow> string" where
  "QueryResultType_MarshalText v = switch v
     [(0, ''ANSWERED''),
      (1, ''FAILED'')]
     (FormatInt (sint v))"

definition QueryResultType_String :: "QueryResultType \<Rightarrow> string" where
  "QueryResultType_String v = switch v
     [(0, ''ANSWERED''),
      (1, ''FAILED'')]
     (''QueryResultType'' @ CHR ''('' # FormatInt (sint v) @ '')'')"

definition QueryResultType_MarshalJSON :: "QueryResultType \<Rightarrow> string" where
  "QueryResultType_MarshalJSON v = switch v
     [(0, CHR 0x22 # ''ANSWERED'' @ [CHR 0x22]),
      (1, CHR 0x22 # ''FAILED'' @ [CHR 0x22])]
     (FormatInt (sint v))"

definition QueryResultType_UnmarshalJSON :: "string \<Rightarrow> go_error + json_token \<Rightarrow> go_error +
    QueryResultType" where
  "QueryResultType_UnmarshalJSON text t =
     (case t of
        Inl err \<Rightarrow> Inl err
      | Inr (JSON_Number w) \<Rightarrow>
          (case ParseInt 64 w of
             Inl err \<Rightarrow> Inl (E_Errorf_s ''strconv.ParseInt: parsing %q: %v'' [w, err])
           | Inr x \<Rightarrow>
               if 2147483647 < x
               then Inl (E_Errorf_s ''enum overflow from JSON %q for %q'' [text,
                   ''QueryResultType''])
               else if x < -2147483648
               then Inl (E_Errorf_s ''enum underflow from JSON %q for %q'' [text,
                   ''QueryResultType''])
               else Inr (word_of_int x))
      | Inr (JSON_String w) \<Rightarrow> QueryResultType_UnmarshalText w
      | Inr (JSON_Other w) \<Rightarrow>
          Inl (E_Errorf_s ''invalid JSON value %q (%T) to unmarshal into %q'' [w,
              ''QueryResultType'']))"

interpretation QueryResultType: enumeration
  "[(0, ''ANSWERED''),
      (1, ''FAILED'')]"
  "''QueryResultType''" QueryResultType_Values QueryResultType_UnmarshalText
      QueryResultType_MarshalText QueryResultType_String
  QueryResultType_MarshalJSON QueryResultType_UnmarshalJSON
proof (rule enumeration.intro, goal_cases)
  case 2
  show ?case by (rule distinct_names) (simp add: name_code_def)
qed (simp_all add: QueryResultType_Values_def QueryResultType_UnmarshalText_def
    QueryResultType_MarshalText_def QueryResultType_String_def
    QueryResultType_MarshalJSON_def QueryResultType_UnmarshalJSON_def is_name_def is_digit_def)

lemma QueryResultType_Values_constants: "QueryResultType_Values = map snd QueryResultType_constants"
  by (simp add: QueryResultType_Values_def QueryResultType_constants_def)

type_synonym QueryTaskCompletedType = "32 word"

definition QueryTaskCompletedType_ToWire :: "'v wire_api \<Rightarrow> QueryTaskCompletedType \<Rightarrow> go_error + 'v"
    where
  "QueryTaskCompletedType_ToWire W v = Inr (NewValueI32 W v)"

definition QueryTaskCompletedType_FromWire ::
  "'v wire_api \<Rightarrow> 'v \<Rightarrow> QueryTaskCompletedType \<Rightarrow> go_error + QueryTaskCompletedType" where
  "QueryTaskCompletedType_FromWire W w v = Inr (GetI32 W w)"

definition QueryTaskCompletedType_Read :: "'v wire_api \<Rightarrow> 'v \<Rightarrow> go_error + QueryTaskCompletedType"
    where
  "QueryTaskCompletedType_Read W w = QueryTaskCompletedType_FromWire W w 0"

definition QueryTaskCompletedType_Equals :: "QueryTaskCompletedType \<Rightarrow> QueryTaskCompletedType \<Rightarrow> bool"
    where
  "QueryTaskCompletedType_Equals v rhs \<longleftrightarrow> v = rhs"

definition QueryTaskCompletedType_EqualsPtr :: "QueryTaskCompletedType option \<Rightarrow>
    QueryTaskCompletedType option \<Rightarrow> bool" where
  "QueryTaskCompletedType_EqualsPtr lhs rhs =
     (case lhs of
        Some x \<Rightarrow> (case rhs of Some y \<Rightarrow> QueryTaskCompletedType_Equals x y | None \<Rightarrow> lhs = None \<and> rhs =
            None)
      | None \<Rightarrow> lhs = None \<and> rhs = None)"

lemma QueryTaskCompletedType_codec [simp]:
  "QueryTaskCompletedType_EqualsPtr c d \<longleftrightarrow> c = d"
  "QueryTaskCompletedType_ToWire W i = Inr (NewValueI32 W i)"
  "wire_laws W \<Longrightarrow> QueryTaskCompletedType_Read W (NewValueI32 W i) = Inr i"
  by (auto simp: QueryTaskCompletedType_EqualsPtr_def QueryTaskCompletedType_Equals_def
      QueryTaskCompletedType_ToWire_def QueryTaskCompletedType_FromWire_def
      QueryTaskCompletedType_Read_def split: option.splits)

lemma QueryTaskCompletedType_enc: "QueryTaskCompletedType_ToWire W = (\<lambda>i. Inr (NewValueI32 W i))"
  by auto

text \<open>The constants of \<open>QueryTaskCompletedType\<close>, and its text and JSON forms.\<close>

definition QueryTaskCompletedType_constants :: "(string \<times> QueryTaskCompletedType) list" where
  "QueryTaskCompletedType_constants =
     [(''QueryTaskCompletedTypeCompleted'', 0),
      (''QueryTaskCompletedTypeFailed'', 1)]"

definition QueryTaskCompletedType_Values :: "QueryTaskCompletedType list" where
  "QueryTaskCompletedType_Values =
     [0,
      1]"

definition QueryTaskCompletedType_UnmarshalText :: "string \<Rightarrow> go_error + QueryTaskCompletedType"
    where
  "QueryTaskCompletedType_UnmarshalText s = switch s
     [(''COMPLETED'', Inr 0),
      (''FAILED'', Inr 1)]
     (case ParseInt 32 s of
        Inl err \<Rightarrow> Inl (E_Errorf_s ''unknown enum value %q for %q: %v'' [s,
            ''QueryTaskCompletedType'', err])
      | Inr val \<Rightarrow> Inr (word_of_int val))"

definition QueryTaskCompletedType_MarshalText :: "QueryTaskCompletedType \<Rightarrow> string" where
  "QueryTaskCompletedType_MarshalText v = switch v
     [(0, ''COMPLETED''),
      (1, ''FAILED'')]
     (FormatInt (sint v))"

definition QueryTaskCompletedType_String :: "QueryTaskCompletedType \<Rightarrow> string" where
  "QueryTaskCompletedType_String v = switch v
     [(0, ''COMPLETED''),
      (1, ''FAILED'')]
     (''QueryTaskCompletedType'' @ CHR ''('' # FormatInt (sint v) @ '')'')"

definition QueryTaskCompletedType_MarshalJSON :: "QueryTaskCompletedType \<Rightarrow> string" where
  "QueryTaskCompletedType_MarshalJSON v = switch v
     [(0, CHR 0x22 # ''COMPLETED'' @ [CHR 0x22]),
      (1, CHR 0x22 # ''FAILED'' @ [CHR 0x22])]
     (FormatInt (sint v))"

definition QueryTaskCompletedType_UnmarshalJSON :: "string \<Rightarrow> go_error + json_token \<Rightarrow> go_error +
    QueryTaskCompletedType" where
  "QueryTaskCompletedType_UnmarshalJSON text t =
     (case t of
        Inl err \<Rightarrow> Inl err
      | Inr (JSON_Number w) \<Rightarrow>
          (case ParseInt 64 w of
             Inl err \<Rightarrow> Inl (E_Errorf_s ''strconv.ParseInt: parsing %q: %v'' [w, err])
           | Inr x \<Rightarrow>
               if 2147483647 < x
               then Inl (E_Errorf_s ''enum overflow from JSON %q for %q'' [text,
                   ''QueryTaskCompletedType''])
               else if x < -2147483648
               then Inl (E_Errorf_s ''enum underflow from JSON %q for %q'' [text,
                   ''QueryTaskCompletedType''])
               else Inr (word_of_int x))
      | Inr (JSON_String w) \<Rightarrow> QueryTaskCompletedType_UnmarshalText w
      | Inr (JSON_Other w) \<Rightarrow>
          Inl (E_Errorf_s ''invalid JSON value %q (%T) to unmarshal into %q'' [w,
              ''QueryTaskCompletedType'']))"

interpretation QueryTaskCompletedType: enumeration
  "[(0, ''COMPLETED''),
      (1, ''FAILED'')]"
  "''QueryTaskCompletedType''" QueryTaskCompletedType_Values QueryTaskCompletedType_UnmarshalText
      QueryTaskCompletedType_MarshalText QueryTaskCompletedType_String
  QueryTaskCompletedType_MarshalJSON QueryTaskCompletedType_UnmarshalJSON
proof (rule enumeration.intro, goal_cases)
  case 2
  show ?case by (rule distinct_names) (simp add: name_code_def)
qed (simp_all add: QueryTaskCompletedType_Values_def QueryTaskCompletedType_UnmarshalText_def
    QueryTaskCompletedType_MarshalText_def QueryTaskCompletedType_String_def
    QueryTaskCompletedType_MarshalJSON_def QueryTaskCompletedType_UnmarshalJSON_def is_name_def
        is_digit_def)

lemma QueryTaskCompletedType_Values_constants: "QueryTaskCompletedType_Values = map snd
    QueryTaskCompletedType_constants"
  by (simp add: QueryTaskCompletedType_Values_def QueryTaskCompletedType_constants_def)

type_synonym SignalExternalWorkflowExecutionFailedCause = "32 word"

definition SignalExternalWorkflowExecutionFailedCause_ToWire :: "'v wire_api \<Rightarrow>
    SignalExternalWorkflowExecutionFailedCause \<Rightarrow> go_error + 'v" where
  "SignalExternalWorkflowExecutionFailedCause_ToWire W v = Inr (NewValueI32 W v)"

definition SignalExternalWorkflowExecutionFailedCause_FromWire ::
  "'v wire_api \<Rightarrow> 'v \<Rightarrow> SignalExternalWorkflowExecutionFailedCause \<Rightarrow> go_error +
      SignalExternalWorkflowExecutionFailedCause" where
  "SignalExternalWorkflowExecutionFailedCause_FromWire W w v = Inr (GetI32 W w)"

definition SignalExternalWorkflowExecutionFailedCause_Read :: "'v wire_api \<Rightarrow> 'v \<Rightarrow> go_error +
    SignalExternalWorkflowExecutionFailedCause" where
  "SignalExternalWorkflowExecutionFailedCause_Read W w =
      SignalExternalWorkflowExecutionFailedCause_FromWire W w 0"

definition SignalExternalWorkflowExecutionFailedCause_Equals ::
    "SignalExternalWorkflowExecutionFailedCause \<Rightarrow> SignalExternalWorkflowExecutionFailedCause \<Rightarrow> bool"
    where
  "SignalExternalWorkflowExecutionFailedCause_Equals v rhs \<longleftrightarrow> v = rhs"

definition SignalExternalWorkflowExecutionFailedCause_EqualsPtr ::
    "SignalExternalWorkflowExecutionFailedCause option \<Rightarrow> SignalExternalWorkflowExecutionFailedCause
    option \<Rightarrow> bool" where
  "SignalExternalWorkflowExecutionFailedCause_EqualsPtr lhs rhs =
     (case lhs of
        Some x \<Rightarrow> (case rhs of Some y \<Rightarrow> SignalExternalWorkflowExecutionFailedCause_Equals x y | None
            \<Rightarrow> lhs = None \<and> rhs = None)
      | None \<Rightarrow> lhs = None \<and> rhs = None)"

lemma SignalExternalWorkflowExecutionFailedCause_codec [simp]:
  "SignalExternalWorkflowExecutionFailedCause_EqualsPtr c d \<longleftrightarrow> c = d"
  "SignalExternalWorkflowExecutionFailedCause_ToWire W i = Inr (NewValueI32 W i)"
  "wire_laws W \<Longrightarrow> SignalExternalWorkflowExecutionFailedCause_Read W (NewValueI32 W i) = Inr i"
  by (auto simp: SignalExternalWorkflowExecutionFailedCause_EqualsPtr_def
      SignalExternalWorkflowExecutionFailedCause_Equals_def
      SignalExternalWorkflowExecutionFailedCause_ToWire_def
      SignalExternalWorkflowExecutionFailedCause_FromWire_def
      SignalExternalWorkflowExecutionFailedCause_Read_def split: option.splits)

lemma SignalExternalWorkflowExecutionFailedCause_enc:
    "SignalExternalWorkflowExecutionFailedCause_ToWire W = (\<lambda>i. Inr (NewValueI32 W i))"
  by auto

text \<open>The constants of \<open>SignalExternalWorkflowExecutionFailedCause\<close>, and its text and JSON forms.\<close>

definition SignalExternalWorkflowExecutionFailedCause_constants :: "(string \<times>
    SignalExternalWorkflowExecutionFailedCause) list" where
  "SignalExternalWorkflowExecutionFailedCause_constants =
     [(''SignalExternalWorkflowExecutionFailedCauseUnknownExternalWorkflowExecution'', 0)]"

definition SignalExternalWorkflowExecutionFailedCause_Values ::
    "SignalExternalWorkflowExecutionFailedCause list" where
  "SignalExternalWorkflowExecutionFailedCause_Values =
     [0]"

definition SignalExternalWorkflowExecutionFailedCause_UnmarshalText :: "string \<Rightarrow> go_error +
    SignalExternalWorkflowExecutionFailedCause" where
  "SignalExternalWorkflowExecutionFailedCause_UnmarshalText s = switch s
     [(''UNKNOWN_EXTERNAL_WORKFLOW_EXECUTION'', Inr 0)]
     (case ParseInt 32 s of
        Inl err \<Rightarrow> Inl (E_Errorf_s ''unknown enum value %q for %q: %v'' [s,
            ''SignalExternalWorkflowExecutionFailedCause'', err])
      | Inr val \<Rightarrow> Inr (word_of_int val))"

definition SignalExternalWorkflowExecutionFailedCause_MarshalText ::
    "SignalExternalWorkflowExecutionFailedCause \<Rightarrow> string" where
  "SignalExternalWorkflowExecutionFailedCause_MarshalText v = switch v
     [(0, ''UNKNOWN_EXTERNAL_WORKFLOW_EXECUTION'')]
     (FormatInt (sint v))"

definition SignalExternalWorkflowExecutionFailedCause_String ::
    "SignalExternalWorkflowExecutionFailedCause \<Rightarrow> string" where
  "SignalExternalWorkflowExecutionFailedCause_String v = switch v
     [(0, ''UNKNOWN_EXTERNAL_WORKFLOW_EXECUTION'')]
     (''SignalExternalWorkflowExecutionFailedCause'' @ CHR ''('' # FormatInt (sint v) @ '')'')"

definition SignalExternalWorkflowExecutionFailedCause_MarshalJSON ::
    "SignalExternalWorkflowExecutionFailedCause \<Rightarrow> string" where
  "SignalExternalWorkflowExecutionFailedCause_MarshalJSON v = switch v
     [(0, CHR 0x22 # ''UNKNOWN_EXTERNAL_WORKFLOW_EXECUTION'' @ [CHR 0x22])]
     (FormatInt (sint v))"

definition SignalExternalWorkflowExecutionFailedCause_UnmarshalJSON :: "string \<Rightarrow> go_error +
    json_token \<Rightarrow> go_error + SignalExternalWorkflowExecutionFailedCause" where
  "SignalExternalWorkflowExecutionFailedCause_UnmarshalJSON text t =
     (case t of
        Inl err \<Rightarrow> Inl err
      | Inr (JSON_Number w) \<Rightarrow>
          (case ParseInt 64 w of
             Inl err \<Rightarrow> Inl (E_Errorf_s ''strconv.ParseInt: parsing %q: %v'' [w, err])
           | Inr x \<Rightarrow>
               if 2147483647 < x
               then Inl (E_Errorf_s ''enum overflow from JSON %q for %q'' [text,
                   ''SignalExternalWorkflowExecutionFailedCause''])
               else if x < -2147483648
               then Inl (E_Errorf_s ''enum underflow from JSON %q for %q'' [text,
                   ''SignalExternalWorkflowExecutionFailedCause''])
               else Inr (word_of_int x))
      | Inr (JSON_String w) \<Rightarrow> SignalExternalWorkflowExecutionFailedCause_UnmarshalText w
      | Inr (JSON_Other w) \<Rightarrow>
          Inl (E_Errorf_s ''invalid JSON value %q (%T) to unmarshal into %q'' [w,
              ''SignalExternalWorkflowExecutionFailedCause'']))"

interpretation SignalExternalWorkflowExecutionFailedCause: enumeration
  "[(0, ''UNKNOWN_EXTERNAL_WORKFLOW_EXECUTION'')]"
  "''SignalExternalWorkflowExecutionFailedCause''" SignalExternalWorkflowExecutionFailedCause_Values
      SignalExternalWorkflowExecutionFailedCause_UnmarshalText
      SignalExternalWorkflowExecutionFailedCause_MarshalText
      SignalExternalWorkflowExecutionFailedCause_String
  SignalExternalWorkflowExecutionFailedCause_MarshalJSON
      SignalExternalWorkflowExecutionFailedCause_UnmarshalJSON
proof (rule enumeration.intro, goal_cases)
  case 2
  show ?case by (rule distinct_names) (simp add: name_code_def)
qed (simp_all add: SignalExternalWorkflowExecutionFailedCause_Values_def
    SignalExternalWorkflowExecutionFailedCause_UnmarshalText_def
    SignalExternalWorkflowExecutionFailedCause_MarshalText_def
    SignalExternalWorkflowExecutionFailedCause_String_def
    SignalExternalWorkflowExecutionFailedCause_MarshalJSON_def
        SignalExternalWorkflowExecutionFailedCause_UnmarshalJSON_def is_name_def is_digit_def)

lemma SignalExternalWorkflowExecutionFailedCause_Values_constants:
    "SignalExternalWorkflowExecutionFailedCause_Values = map snd
    SignalExternalWorkflowExecutionFailedCause_constants"
  by (simp add: SignalExternalWorkflowExecutionFailedCause_Values_def
      SignalExternalWorkflowExecutionFailedCause_constants_def)

type_synonym TaskListKind = "32 word"

definition TaskListKind_ToWire :: "'v wire_api \<Rightarrow> TaskListKind \<Rightarrow> go_error + 'v" where
  "TaskListKind_ToWire W v = Inr (NewValueI32 W v)"

definition TaskListKind_FromWire ::
  "'v wire_api \<Rightarrow> 'v \<Rightarrow> TaskListKind \<Rightarrow> go_error + TaskListKind" where
  "TaskListKind_FromWire W w v = Inr (GetI32 W w)"

definition TaskListKind_Read :: "'v wire_api \<Rightarrow> 'v \<Rightarrow> go_error + TaskListKind" where
  "TaskListKind_Read W w = TaskListKind_FromWire W w 0"

definition TaskListKind_Equals :: "TaskListKind \<Rightarrow> TaskListKind \<Rightarrow> bool" where
  "TaskListKind_Equals v rhs \<longleftrightarrow> v = rhs"

definition TaskListKind_EqualsPtr :: "TaskListKind option \<Rightarrow> TaskListKind option \<Rightarrow> bool" where
  "TaskListKind_EqualsPtr lhs rhs =
     (case lhs of
        Some x \<Rightarrow> (case rhs of Some y \<Rightarrow> TaskListKind_Equals x y | None \<Rightarrow> lhs = None \<and> rhs = None)
      | None \<Rightarrow> lhs = None \<and> rhs = None)"

lemma TaskListKind_codec [simp]:
  "TaskListKind_EqualsPtr c d \<longleftrightarrow> c = d"
  "TaskListKind_ToWire W i = Inr (NewValueI32 W i)"
  "wire_laws W \<Longrightarrow> TaskListKind_Read W (NewValueI32 W i) = Inr i"
  by (auto simp: TaskListKind_EqualsPtr_def TaskListKind_Equals_def TaskListKind_ToWire_def
      TaskListKind_FromWire_def
      TaskListKind_Read_def split: option.splits)

lemma TaskListKind_enc: "TaskListKind_ToWire W = (\<lambda>i. Inr (NewValueI32 W i))"
  by auto

text \<open>The constants of \<open>TaskListKind\<close>, and its text and JSON forms.\<close>

definition TaskListKind_constants :: "(string \<times> TaskListKind) list" where
  "TaskListKind_constants =
     [(''TaskListKindNormal'', 0),
      (''TaskListKindSticky'', 1)]"

definition TaskListKind_Values :: "TaskListKind list" where
  "TaskListKind_Values =
     [0,
      1]"

definition TaskListKind_UnmarshalText :: "string \<Rightarrow> go_error + TaskListKind" where
  "TaskListKind_UnmarshalText s = switch s
     [(''NORMAL'', Inr 0),
      (''STICKY'', Inr 1)]
     (case ParseInt 32 s of
        Inl err \<Rightarrow> Inl (E_Errorf_s ''unknown enum value %q for %q: %v'' [s, ''TaskListKind'', err])
      | Inr val \<Rightarrow> Inr (word_of_int val))"

definition TaskListKind_MarshalText :: "TaskListKind \<Rightarrow> string" where
  "TaskListKind_MarshalText v = switch v
     [(0, ''NORMAL''),
      (1, ''STICKY'')]
     (FormatInt (sint v))"

definition TaskListKind_String :: "TaskListKind \<Rightarrow> string" where
  "TaskListKind_String v = switch v
     [(0, ''NORMAL''),
      (1, ''STICKY'')]
     (''TaskListKind'' @ CHR ''('' # FormatInt (sint v) @ '')'')"

definition TaskListKind_MarshalJSON :: "TaskListKind \<Rightarrow> string" where
  "TaskListKind_MarshalJSON v = switch v
     [(0, CHR 0x22 # ''NORMAL'' @ [CHR 0x22]),
      (1, CHR 0x22 # ''STICKY'' @ [CHR 0x22])]
     (FormatInt (sint v))"

definition TaskListKind_UnmarshalJSON :: "string \<Rightarrow> go_error + json_token \<Rightarrow> go_error + TaskListKind"
    where
  "TaskListKind_UnmarshalJSON text t =
     (case t of
        Inl err \<Rightarrow> Inl err
      | Inr (JSON_Number w) \<Rightarrow>
          (case ParseInt 64 w of
             Inl err \<Rightarrow> Inl (E_Errorf_s ''strconv.ParseInt: parsing %q: %v'' [w, err])
           | Inr x \<Rightarrow>
               if 2147483647 < x
               then Inl (E_Errorf_s ''enum overflow from JSON %q for %q'' [text, ''TaskListKind''])
               else if x < -2147483648
               then Inl (E_Errorf_s ''enum underflow from JSON %q for %q'' [text, ''TaskListKind''])
               else Inr (word_of_int x))
      | Inr (JSON_String w) \<Rightarrow> TaskListKind_UnmarshalText w
      | Inr (JSON_Other w) \<Rightarrow>
          Inl (E_Errorf_s ''invalid JSON value %q (%T) to unmarshal into %q'' [w,
              ''TaskListKind'']))"

interpretation TaskListKind: enumeration
  "[(0, ''NORMAL''),
      (1, ''STICKY'')]"
  "''TaskListKind''" TaskListKind_Values TaskListKind_UnmarshalText TaskListKind_MarshalText
      TaskListKind_String
  TaskListKind_MarshalJSON TaskListKind_UnmarshalJSON
proof (rule enumeration.intro, goal_cases)
  case 2
  show ?case by (rule distinct_names) (simp add: name_code_def)
qed (simp_all add: TaskListKind_Values_def TaskListKind_UnmarshalText_def
    TaskListKind_MarshalText_def TaskListKind_String_def
    TaskListKind_MarshalJSON_def TaskListKind_UnmarshalJSON_def is_name_def is_digit_def)

lemma TaskListKind_Values_constants: "TaskListKind_Values = map snd TaskListKind_constants"
  by (simp add: TaskListKind_Values_def TaskListKind_constants_def)

type_synonym TaskListType = "32 word"

definition TaskListType_ToWire :: "'v wire_api \<Rightarrow> TaskListType \<Rightarrow> go_error + 'v" where
  "TaskListType_ToWire W v = Inr (NewValueI32 W v)"

definition TaskListType_FromWire ::
  "'v wire_api \<Rightarrow> 'v \<Rightarrow> TaskListType \<Rightarrow> go_error + TaskListType" where
  "TaskListType_FromWire W w v = Inr (GetI32 W w)"

definition TaskListType_Read :: "'v wire_api \<Rightarrow> 'v \<Rightarrow> go_error + TaskListType" where
  "TaskListType_Read W w = TaskListType_FromWire W w 0"

definition TaskListType_Equals :: "TaskListType \<Rightarrow> TaskListType \<Rightarrow> bool" where
  "TaskListType_Equals v rhs \<longleftrightarrow> v = rhs"

definition TaskListType_EqualsPtr :: "TaskListType option \<Rightarrow> TaskListType option \<Rightarrow> bool" where
  "TaskListType_EqualsPtr lhs rhs =
     (case lhs of
        Some x \<Rightarrow> (case rhs of Some y \<Rightarrow> TaskListType_Equals x y | None \<Rightarrow> lhs = None \<and> rhs = None)
      | None \<Rightarrow> lhs = None \<and> rhs = None)"

lemma TaskListType_codec [simp]:
  "TaskListType_EqualsPtr c d \<longleftrightarrow> c = d"
  "TaskListType_ToWire W i = Inr (NewValueI32 W i)"
  "wire_laws W \<Longrightarrow> TaskListType_Read W (NewValueI32 W i) = Inr i"
  by (auto simp: TaskListType_EqualsPtr_def TaskListType_Equals_def TaskListType_ToWire_def
      TaskListType_FromWire_def
      TaskListType_Read_def split: option.splits)

lemma TaskListType_enc: "TaskListType_ToWire W = (\<lambda>i. Inr (NewValueI32 W i))"
  by auto

text \<open>The constants of \<open>TaskListType\<close>, and its text and JSON forms.\<close>

definition TaskListType_constants :: "(string \<times> TaskListType) list" where
  "TaskListType_constants =
     [(''TaskListTypeDecision'', 0),
      (''TaskListTypeActivity'', 1)]"

definition TaskListType_Values :: "TaskListType list" where
  "TaskListType_Values =
     [0,
      1]"

definition TaskListType_UnmarshalText :: "string \<Rightarrow> go_error + TaskListType" where
  "TaskListType_UnmarshalText s = switch s
     [(''Decision'', Inr 0),
      (''Activity'', Inr 1)]
     (case ParseInt 32 s of
        Inl err \<Rightarrow> Inl (E_Errorf_s ''unknown enum value %q for %q: %v'' [s, ''TaskListType'', err])
      | Inr val \<Rightarrow> Inr (word_of_int val))"

definition TaskListType_MarshalText :: "TaskListType \<Rightarrow> string" where
  "TaskListType_MarshalText v = switch v
     [(0, ''Decision''),
      (1, ''Activity'')]
     (FormatInt (sint v))"

definition TaskListType_String :: "TaskListType \<Rightarrow> string" where
  "TaskListType_String v = switch v
     [(0, ''Decision''),
      (1, ''Activity'')]
     (''TaskListType'' @ CHR ''('' # FormatInt (sint v) @ '')'')"

definition TaskListType_MarshalJSON :: "TaskListType \<Rightarrow> string" where
  "TaskListType_MarshalJSON v = switch v
     [(0, CHR 0x22 # ''Decision'' @ [CHR 0x22]),
      (1, CHR 0x22 # ''Activity'' @ [CHR 0x22])]
     (FormatInt (sint v))"

definition TaskListType_UnmarshalJSON :: "string \<Rightarrow> go_error + json_token \<Rightarrow> go_error + TaskListType"
    where
  "TaskListType_UnmarshalJSON text t =
     (case t of
        Inl err \<Rightarrow> Inl err
      | Inr (JSON_Number w) \<Rightarrow>
          (case ParseInt 64 w of
             Inl err \<Rightarrow> Inl (E_Errorf_s ''strconv.ParseInt: parsing %q: %v'' [w, err])
           | Inr x \<Rightarrow>
               if 2147483647 < x
               then Inl (E_Errorf_s ''enum overflow from JSON %q for %q'' [text, ''TaskListType''])
               else if x < -2147483648
               then Inl (E_Errorf_s ''enum underflow from JSON %q for %q'' [text, ''TaskListType''])
               else Inr (word_of_int x))
      | Inr (JSON_String w) \<Rightarrow> TaskListType_UnmarshalText w
      | Inr (JSON_Other w) \<Rightarrow>
          Inl (E_Errorf_s ''invalid JSON value %q (%T) to unmarshal into %q'' [w,
              ''TaskListType'']))"

interpretation TaskListType: enumeration
  "[(0, ''Decision''),
      (1, ''Activity'')]"
  "''TaskListType''" TaskListType_Values TaskListType_UnmarshalText TaskListType_MarshalText
      TaskListType_String
  TaskListType_MarshalJSON TaskListType_UnmarshalJSON
proof (rule enumeration.intro, goal_cases)
  case 2
  show ?case by (rule distinct_names) (simp add: name_code_def)
qed (simp_all add: TaskListType_Values_def TaskListType_UnmarshalText_def
    TaskListType_MarshalText_def TaskListType_String_def
    TaskListType_MarshalJSON_def TaskListType_UnmarshalJSON_def is_name_def is_digit_def)

lemma TaskListType_Values_constants: "TaskListType_Values = map snd TaskListType_constants"
  by (simp add: TaskListType_Values_def TaskListType_constants_def)

type_synonym TimeoutType = "32 word"

definition TimeoutType_ToWire :: "'v wire_api \<Rightarrow> TimeoutType \<Rightarrow> go_error + 'v" where
  "TimeoutType_ToWire W v = Inr (NewValueI32 W v)"

definition TimeoutType_FromWire ::
  "'v wire_api \<Rightarrow> 'v \<Rightarrow> TimeoutType \<Rightarrow> go_error + TimeoutType" where
  "TimeoutType_FromWire W w v = Inr (GetI32 W w)"

definition TimeoutType_Read :: "'v wire_api \<Rightarrow> 'v \<Rightarrow> go_error + TimeoutType" where
  "TimeoutType_Read W w = TimeoutType_FromWire W w 0"

definition TimeoutType_Equals :: "TimeoutType \<Rightarrow> TimeoutType \<Rightarrow> bool" where
  "TimeoutType_Equals v rhs \<longleftrightarrow> v = rhs"

definition TimeoutType_EqualsPtr :: "TimeoutType option \<Rightarrow> TimeoutType option \<Rightarrow> bool" where
  "TimeoutType_EqualsPtr lhs rhs =
     (case lhs of
        Some x \<Rightarrow> (case rhs of Some y \<Rightarrow> TimeoutType_Equals x y | None \<Rightarrow> lhs = None \<and> rhs = None)
      | None \<Rightarrow> lhs = None \<and> rhs = None)"

lemma TimeoutType_codec [simp]:
  "TimeoutType_EqualsPtr c d \<longleftrightarrow> c = d"
  "TimeoutType_ToWire W i = Inr (NewValueI32 W i)"
  "wire_laws W \<Longrightarrow> TimeoutType_Read W (NewValueI32 W i) = Inr i"
  by (auto simp: TimeoutType_EqualsPtr_def TimeoutType_Equals_def TimeoutType_ToWire_def
      TimeoutType_FromWire_def
      TimeoutType_Read_def split: option.splits)

lemma TimeoutType_enc: "TimeoutType_ToWire W = (\<lambda>i. Inr (NewValueI32 W i))"
  by auto

text \<open>The constants of \<open>TimeoutType\<close>, and its text and JSON forms.\<close>

definition TimeoutType_constants :: "(string \<times> TimeoutType) list" where
  "TimeoutType_constants =
     [(''TimeoutTypeStartToClose'', 0),
      (''TimeoutTypeScheduleToStart'', 1),
      (''TimeoutTypeScheduleToClose'', 2),
      (''TimeoutTypeHeartbeat'', 3)]"

definition TimeoutType_Values :: "TimeoutType list" where
  "TimeoutType_Values =
     [0,
      1,
      2,
      3]"

definition TimeoutType_UnmarshalText :: "string \<Rightarrow> go_error + TimeoutType" where
  "TimeoutType_UnmarshalText s = switch s
     [(''START_TO_CLOSE'', Inr 0),
      (''SCHEDULE_TO_START'', Inr 1),
      (''SCHEDULE_TO_CLOSE'', Inr 2),
      (''HEARTBEAT'', Inr 3)]
     (case ParseInt 32 s of
        Inl err \<Rightarrow> Inl (E_Errorf_s ''unknown enum value %q for %q: %v'' [s, ''TimeoutType'', err])
      | Inr val \<Rightarrow> Inr (word_of_int val))"

definition TimeoutType_MarshalText :: "TimeoutType \<Rightarrow> string" where
  "TimeoutType_MarshalText v = switch v
     [(0, ''START_TO_CLOSE''),
      (1, ''SCHEDULE_TO_START''),
      (2, ''SCHEDULE_TO_CLOSE''),
      (3, ''HEARTBEAT'')]
     (FormatInt (sint v))"

definition TimeoutType_String :: "TimeoutType \<Rightarrow> string" where
  "TimeoutType_String v = switch v
     [(0, ''START_TO_CLOSE''),
      (1, ''SCHEDULE_TO_START''),
      (2, ''SCHEDULE_TO_CLOSE''),
      (3, ''HEARTBEAT'')]
     (''TimeoutType'' @ CHR ''('' # FormatInt (sint v) @ '')'')"

definition TimeoutType_MarshalJSON :: "TimeoutType \<Rightarrow> string" where
  "TimeoutType_MarshalJSON v = switch v
     [(0, CHR 0x22 # ''START_TO_CLOSE'' @ [CHR 0x22]),
      (1, CHR 0x22 # ''SCHEDULE_TO_START'' @ [CHR 0x22]),
      (2, CHR 0x22 # ''SCHEDULE_TO_CLOSE'' @ [CHR 0x22]),
      (3, CHR 0x22 # ''HEARTBEAT'' @ [CHR 0x22])]
     (FormatInt (sint v))"

definition TimeoutType_UnmarshalJSON :: "string \<Rightarrow> go_error + json_token \<Rightarrow> go_error + TimeoutType"
    where
  "TimeoutType_UnmarshalJSON text t =
     (case t of
        Inl err \<Rightarrow> Inl err
      | Inr (JSON_Number w) \<Rightarrow>
          (case ParseInt 64 w of
             Inl err \<Rightarrow> Inl (E_Errorf_s ''strconv.ParseInt: parsing %q: %v'' [w, err])
           | Inr x \<Rightarrow>
               if 2147483647 < x
               then Inl (E_Errorf_s ''enum overflow from JSON %q for %q'' [text, ''TimeoutType''])
               else if x < -2147483648
               then Inl (E_Errorf_s ''enum underflow from JSON %q for %q'' [text, ''TimeoutType''])
               else Inr (word_of_int x))
      | Inr (JSON_String w) \<Rightarrow> TimeoutType_UnmarshalText w
      | Inr (JSON_Other w) \<Rightarrow>
          Inl (E_Errorf_s ''invalid JSON value %q (%T) to unmarshal into %q'' [w,
              ''TimeoutType'']))"

interpretation TimeoutType: enumeration
  "[(0, ''START_TO_CLOSE''),
      (1, ''SCHEDULE_TO_START''),
      (2, ''SCHEDULE_TO_CLOSE''),
      (3, ''HEARTBEAT'')]"
  "''TimeoutType''" TimeoutType_Values TimeoutType_UnmarshalText TimeoutType_MarshalText
      TimeoutType_String
  TimeoutType_MarshalJSON TimeoutType_UnmarshalJSON
proof (rule enumeration.intro, goal_cases)
  case 2
  show ?case by (rule distinct_names) (simp add: name_code_def)
qed (simp_all add: TimeoutType_Values_def TimeoutType_UnmarshalText_def TimeoutType_MarshalText_def
    TimeoutType_String_def
    TimeoutType_MarshalJSON_def TimeoutType_UnmarshalJSON_def is_name_def is_digit_def)

lemma TimeoutType_Values_constants: "TimeoutType_Values = map snd TimeoutType_constants"
  by (simp add: TimeoutType_Values_def TimeoutType_constants_def)

type_synonym WorkflowExecutionCloseStatus = "32 word"

definition WorkflowExecutionCloseStatus_ToWire :: "'v wire_api \<Rightarrow> WorkflowExecutionCloseStatus \<Rightarrow>
    go_error + 'v" where
  "WorkflowExecutionCloseStatus_ToWire W v = Inr (NewValueI32 W v)"

definition WorkflowExecutionCloseStatus_FromWire ::
  "'v wire_api \<Rightarrow> 'v \<Rightarrow> WorkflowExecutionCloseStatus \<Rightarrow> go_error + WorkflowExecutionCloseStatus" where
  "WorkflowExecutionCloseStatus_FromWire W w v = Inr (GetI32 W w)"

definition WorkflowExecutionCloseStatus_Read :: "'v wire_api \<Rightarrow> 'v \<Rightarrow> go_error +
    WorkflowExecutionCloseStatus" where
  "WorkflowExecutionCloseStatus_Read W w = WorkflowExecutionCloseStatus_FromWire W w 0"

definition WorkflowExecutionCloseStatus_Equals :: "WorkflowExecutionCloseStatus \<Rightarrow>
    WorkflowExecutionCloseStatus \<Rightarrow> bool" where
  "WorkflowExecutionCloseStatus_Equals v rhs \<longleftrightarrow> v = rhs"

definition WorkflowExecutionCloseStatus_EqualsPtr :: "WorkflowExecutionCloseStatus option \<Rightarrow>
    WorkflowExecutionCloseStatus option \<Rightarrow> bool" where
  "WorkflowExecutionCloseStatus_EqualsPtr lhs rhs =
     (case lhs of
        Some x \<Rightarrow> (case rhs of Some y \<Rightarrow> WorkflowExecutionCloseStatus_Equals x y | None \<Rightarrow> lhs = None \<and>
            rhs = None)
      | None \<Rightarrow> lhs = None \<and> rhs = None)"

lemma WorkflowExecutionCloseStatus_codec [simp]:
  "WorkflowExecutionCloseStatus_EqualsPtr c d \<longleftrightarrow> c = d"
  "WorkflowExecutionCloseStatus_ToWire W i = Inr (NewValueI32 W i)"
  "wire_laws W \<Longrightarrow> WorkflowExecutionCloseStatus_Read W (NewValueI32 W i) = Inr i"
  by (auto simp: WorkflowExecutionCloseStatus_EqualsPtr_def WorkflowExecutionCloseStatus_Equals_def
      WorkflowExecutionCloseStatus_ToWire_def WorkflowExecutionCloseStatus_FromWire_def
      WorkflowExecutionCloseStatus_Read_def split: option.splits)

lemma WorkflowExecutionCloseStatus_enc: "WorkflowExecutionCloseStatus_ToWire W = (\<lambda>i. Inr
    (NewValueI32 W i))"
  by auto

text \<open>The constants of \<open>WorkflowExecutionCloseStatus\<close>, and its text and JSON forms.\<close>

definition WorkflowExecutionCloseStatus_constants :: "(string \<times> WorkflowExecutionCloseStatus) list"
    where
  "WorkflowExecutionCloseStatus_constants =
     [(''WorkflowExecutionCloseStatusCompleted'', 0),
      (''WorkflowExecutionCloseStatusFailed'', 1),
      (''WorkflowExecutionCloseStatusCanceled'', 2),
      (''WorkflowExecutionCloseStatusTerminated'', 3),
      (''WorkflowExecutionCloseStatusContinuedAsNew'', 4),
      (''WorkflowExecutionCloseStatusTimedOut'', 5)]"

definition WorkflowExecutionCloseStatus_Values :: "WorkflowExecutionCloseStatus list" where
  "WorkflowExecutionCloseStatus_Values =
     [0,
      1,
      2,
      3,
      4,
      5]"

definition WorkflowExecutionCloseStatus_UnmarshalText :: "string \<Rightarrow> go_error +
    WorkflowExecutionCloseStatus" where
  "WorkflowExecutionCloseStatus_UnmarshalText s = switch s
     [(''COMPLETED'', Inr 0),
      (''FAILED'', Inr 1),
      (''CANCELED'', Inr 2),
      (''TERMINATED'', Inr 3),
      (''CONTINUED_AS_NEW'', Inr 4),
      (''TIMED_OUT'', Inr 5)]
     (case ParseInt 32 s of
        Inl err \<Rightarrow> Inl (E_Errorf_s ''unknown enum value %q for %q: %v'' [s,
            ''WorkflowExecutionCloseStatus'', err])
      | Inr val \<Rightarrow> Inr (word_of_int val))"

definition WorkflowExecutionCloseStatus_MarshalText :: "WorkflowExecutionCloseStatus \<Rightarrow> string" where
  "WorkflowExecutionCloseStatus_MarshalText v = switch v
     [(0, ''COMPLETED''),
      (1, ''FAILED''),
      (2, ''CANCELED''),
      (3, ''TERMINATED''),
      (4, ''CONTINUED_AS_NEW''),
      (5, ''TIMED_OUT'')]
     (FormatInt (sint v))"

definition WorkflowExecutionCloseStatus_String :: "WorkflowExecutionCloseStatus \<Rightarrow> string" where
  "WorkflowExecutionCloseStatus_String v = switch v
     [(0, ''COMPLETED''),
      (1, ''FAILED''),
      (2, ''CANCELED''),
      (3, ''TERMINATED''),
      (4, ''CONTINUED_AS_NEW''),
      (5, ''TIMED_OUT'')]
     (''WorkflowExecutionCloseStatus'' @ CHR ''('' # FormatInt (sint v) @ '')'')"

definition WorkflowExecutionCloseStatus_MarshalJSON :: "WorkflowExecutionCloseStatus \<Rightarrow> string" where
  "WorkflowExecutionCloseStatus_MarshalJSON v = switch v
     [(0, CHR 0x22 # ''COMPLETED'' @ [CHR 0x22]),
      (1, CHR 0x22 # ''FAILED'' @ [CHR 0x22]),
      (2, CHR 0x22 # ''CANCELED'' @ [CHR 0x22]),
      (3, CHR 0x22 # ''TERMINATED'' @ [CHR 0x22]),
      (4, CHR 0x22 # ''CONTINUED_AS_NEW'' @ [CHR 0x22]),
      (5, CHR 0x22 # ''TIMED_OUT'' @ [CHR 0x22])]
     (FormatInt (sint v))"

definition WorkflowExecutionCloseStatus_UnmarshalJSON :: "string \<Rightarrow> go_error + json_token \<Rightarrow> go_error
    + WorkflowExecutionCloseStatus" where
  "WorkflowExecutionCloseStatus_UnmarshalJSON text t =
     (case t of
        Inl err \<Rightarrow> Inl err
      | Inr (JSON_Number w) \<Rightarrow>
          (case ParseInt 64 w of
             Inl err \<Rightarrow> Inl (E_Errorf_s ''strconv.ParseInt: parsing %q: %v'' [w, err])
           | Inr x \<Rightarrow>
               if 2147483647 < x
               then Inl (E_Errorf_s ''enum overflow from JSON %q for %q'' [text,
                   ''WorkflowExecutionCloseStatus''])
               else if x < -2147483648
               then Inl (E_Errorf_s ''enum underflow from JSON %q for %q'' [text,
                   ''WorkflowExecutionCloseStatus''])
               else Inr (word_of_int x))
      | Inr (JSON_String w) \<Rightarrow> WorkflowExecutionCloseStatus_UnmarshalText w
      | Inr (JSON_Other w) \<Rightarrow>
          Inl (E_Errorf_s ''invalid JSON value %q (%T) to unmarshal into %q'' [w,
              ''WorkflowExecutionCloseStatus'']))"

interpretation WorkflowExecutionCloseStatus: enumeration
  "[(0, ''COMPLETED''),
      (1, ''FAILED''),
      (2, ''CANCELED''),
      (3, ''TERMINATED''),
      (4, ''CONTINUED_AS_NEW''),
      (5, ''TIMED_OUT'')]"
  "''WorkflowExecutionCloseStatus''" WorkflowExecutionCloseStatus_Values
      WorkflowExecutionCloseStatus_UnmarshalText WorkflowExecutionCloseStatus_MarshalText
      WorkflowExecutionCloseStatus_String
  WorkflowExecutionCloseStatus_MarshalJSON WorkflowExecutionCloseStatus_UnmarshalJSON
proof (rule enumeration.intro, goal_cases)
  case 2
  show ?case by (rule distinct_names) (simp add: name_code_def)
qed (simp_all add: WorkflowExecutionCloseStatus_Values_def
    WorkflowExecutionCloseStatus_UnmarshalText_def WorkflowExecutionCloseStatus_MarshalText_def
    WorkflowExecutionCloseStatus_String_def
    WorkflowExecutionCloseStatus_MarshalJSON_def WorkflowExecutionCloseStatus_UnmarshalJSON_def
        is_name_def is_digit_def)

lemma WorkflowExecutionCloseStatus_Values_constants: "WorkflowExecutionCloseStatus_Values = map snd
    WorkflowExecutionCloseStatus_constants"
  by (simp add: WorkflowExecutionCloseStatus_Values_def WorkflowExecutionCloseStatus_constants_def)

type_synonym WorkflowIdReusePolicy = "32 word"

definition WorkflowIdReusePolicy_ToWire :: "'v wire_api \<Rightarrow> WorkflowIdReusePolicy \<Rightarrow> go_error + 'v"
    where
  "WorkflowIdReusePolicy_ToWire W v = Inr (NewValueI32 W v)"

definition WorkflowIdReusePolicy_FromWire ::
  "'v wire_api \<Rightarrow> 'v \<Rightarrow> WorkflowIdReusePolicy \<Rightarrow> go_error + WorkflowIdReusePolicy" where
  "WorkflowIdReusePolicy_FromWire W w v = Inr (GetI32 W w)"

definition WorkflowIdReusePolicy_Read :: "'v wire_api \<Rightarrow> 'v \<Rightarrow> go_error + WorkflowIdReusePolicy" where
  "WorkflowIdReusePolicy_Read W w = WorkflowIdReusePolicy_FromWire W w 0"

definition WorkflowIdReusePolicy_Equals :: "WorkflowIdReusePolicy \<Rightarrow> WorkflowIdReusePolicy \<Rightarrow> bool"
    where
  "WorkflowIdReusePolicy_Equals v rhs \<longleftrightarrow> v = rhs"

definition WorkflowIdReusePolicy_EqualsPtr :: "WorkflowIdReusePolicy option \<Rightarrow> WorkflowIdReusePolicy
    option \<Rightarrow> bool" where
  "WorkflowIdReusePolicy_EqualsPtr lhs rhs =
     (case lhs of
        Some x \<Rightarrow> (case rhs of Some y \<Rightarrow> WorkflowIdReusePolicy_Equals x y | None \<Rightarrow> lhs = None \<and> rhs =
            None)
      | None \<Rightarrow> lhs = None \<and> rhs = None)"

lemma WorkflowIdReusePolicy_codec [simp]:
  "WorkflowIdReusePolicy_EqualsPtr c d \<longleftrightarrow> c = d"
  "WorkflowIdReusePolicy_ToWire W i = Inr (NewValueI32 W i)"
  "wire_laws W \<Longrightarrow> WorkflowIdReusePolicy_Read W (NewValueI32 W i) = Inr i"
  by (auto simp: WorkflowIdReusePolicy_EqualsPtr_def WorkflowIdReusePolicy_Equals_def
      WorkflowIdReusePolicy_ToWire_def WorkflowIdReusePolicy_FromWire_def
      WorkflowIdReusePolicy_Read_def split: option.splits)

lemma WorkflowIdReusePolicy_enc: "WorkflowIdReusePolicy_ToWire W = (\<lambda>i. Inr (NewValueI32 W i))"
  by auto

text \<open>The constants of \<open>WorkflowIdReusePolicy\<close>, and its text and JSON forms.\<close>

definition WorkflowIdReusePolicy_constants :: "(string \<times> WorkflowIdReusePolicy) list" where
  "WorkflowIdReusePolicy_constants =
     [(''WorkflowIdReusePolicyAllowDuplicateFailedOnly'', 0),
      (''WorkflowIdReusePolicyAllowDuplicate'', 1),
      (''WorkflowIdReusePolicyRejectDuplicate'', 2)]"

definition WorkflowIdReusePolicy_Values :: "WorkflowIdReusePolicy list" where
  "WorkflowIdReusePolicy_Values =
     [0,
      1,
      2]"

definition WorkflowIdReusePolicy_UnmarshalText :: "string \<Rightarrow> go_error + WorkflowIdReusePolicy" where
  "WorkflowIdReusePolicy_UnmarshalText s = switch s
     [(''AllowDuplicateFailedOnly'', Inr 0),
      (''AllowDuplicate'', Inr 1),
      (''RejectDuplicate'', Inr 2)]
     (case ParseInt 32 s of
        Inl err \<Rightarrow> Inl (E_Errorf_s ''unknown enum value %q for %q: %v'' [s,
            ''WorkflowIdReusePolicy'', err])
      | Inr val \<Rightarrow> Inr (word_of_int val))"

definition WorkflowIdReusePolicy_MarshalText :: "WorkflowIdReusePolicy \<Rightarrow> string" where
  "WorkflowIdReusePolicy_MarshalText v = switch v
     [(0, ''AllowDuplicateFailedOnly''),
      (1, ''AllowDuplicate''),
      (2, ''RejectDuplicate'')]
     (FormatInt (sint v))"

definition WorkflowIdReusePolicy_String :: "WorkflowIdReusePolicy \<Rightarrow> string" where
  "WorkflowIdReusePolicy_String v = switch v
     [(0, ''AllowDuplicateFailedOnly''),
      (1, ''AllowDuplicate''),
      (2, ''RejectDuplicate'')]
     (''WorkflowIdReusePolicy'' @ CHR ''('' # FormatInt (sint v) @ '')'')"

definition WorkflowIdReusePolicy_MarshalJSON :: "WorkflowIdReusePolicy \<Rightarrow> string" where
  "WorkflowIdReusePolicy_MarshalJSON v = switch v
     [(0, CHR 0x22 # ''AllowDuplicateFailedOnly'' @ [CHR 0x22]),
      (1, CHR 0x22 # ''AllowDuplicate'' @ [CHR 0x22]),
      (2, CHR 0x22 # ''RejectDuplicate'' @ [CHR 0x22])]
     (FormatInt (sint v))"

definition WorkflowIdReusePolicy_UnmarshalJSON :: "string \<Rightarrow> go_error + json_token \<Rightarrow> go_error +
    WorkflowIdReusePolicy" where
  "WorkflowIdReusePolicy_UnmarshalJSON text t =
     (case t of
        Inl err \<Rightarrow> Inl err
      | Inr (JSON_Number w) \<Rightarrow>
          (case ParseInt 64 w of
             Inl err \<Rightarrow> Inl (E_Errorf_s ''strconv.ParseInt: parsing %q: %v'' [w, err])
           | Inr x \<Rightarrow>
               if 2147483647 < x
               then Inl (E_Errorf_s ''enum overflow from JSON %q for %q'' [text,
                   ''WorkflowIdReusePolicy''])
               else if x < -2147483648
               then Inl (E_Errorf_s ''enum underflow from JSON %q for %q'' [text,
                   ''WorkflowIdReusePolicy''])
               else Inr (word_of_int x))
      | Inr (JSON_String w) \<Rightarrow> WorkflowIdReusePolicy_UnmarshalText w
      | Inr (JSON_Other w) \<Rightarrow>
          Inl (E_Errorf_s ''invalid JSON value %q (%T) to unmarshal into %q'' [w,
              ''WorkflowIdReusePolicy'']))"

interpretation WorkflowIdReusePolicy: enumeration
  "[(0, ''AllowDuplicateFailedOnly''),
      (1, ''AllowDuplicate''),
      (2, ''RejectDuplicate'')]"
  "''WorkflowIdReusePolicy''" WorkflowIdReusePolicy_Values WorkflowIdReusePolicy_UnmarshalText
      WorkflowIdReusePolicy_MarshalText WorkflowIdReusePolicy_String
  WorkflowIdReusePolicy_MarshalJSON WorkflowIdReusePolicy_UnmarshalJSON
proof (rule enumeration.intro, goal_cases)
  case 2
  show ?case by (rule distinct_names) (simp add: name_code_def)
qed (simp_all add: WorkflowIdReusePolicy_Values_def WorkflowIdReusePolicy_UnmarshalText_def
    WorkflowIdReusePolicy_MarshalText_def WorkflowIdReusePolicy_String_def
    WorkflowIdReusePolicy_MarshalJSON_def WorkflowIdReusePolicy_UnmarshalJSON_def is_name_def
        is_digit_def)

lemma WorkflowIdReusePolicy_Values_constants: "WorkflowIdReusePolicy_Values = map snd
    WorkflowIdReusePolicy_constants"
  by (simp add: WorkflowIdReusePolicy_Values_def WorkflowIdReusePolicy_constants_def)

end
