(* ===== verification/GoTypes.thy ===== *)
theory GoTypes
  imports GoEnums
begin

text \<open>
  The structs of proxy/gen/shared/shared.go that events, decisions and activity messages hold, with
  their codecs, and the lists and maps of such values. \<open>X_complete\<close> holds of the values that can be
  written: no \<open>nil\<close> in a list of pointers or in a map. \<open>X_comparable\<close> holds of the values on which
  \<open>Equals\<close> is equality: it is not where a number is not equal to itself (NaN), where zero has a sign,
  and where a \<open>nil\<close> slice in a map equals an empty one.
\<close>

section \<open>Lists and maps of basic values\<close>

definition List_I32_ValueList :: "'v wire_api \<Rightarrow> 32 word list \<Rightarrow> 'v ValueList" where
  "List_I32_ValueList W v =
     \<lparr>ValueList.ForEach = map (\<lambda>x. Inr (NewValueI32 W x)) v, Size = length v, ValueType = TI32\<rparr>"

definition List_I32_Read :: "'v wire_api \<Rightarrow> 'v ValueList \<Rightarrow> go_error + 32 word list option" where
  "List_I32_Read W l =
     (if ValueList.ValueType l \<noteq> TI32 then Inr None
      else and_then (for_each (ValueList.ForEach l)
        (\<lambda>out x. Inr (out @ [GetI32 W x])) []) (\<lambda>out. Inr (Some out)))"

definition List_I32_Equals :: "32 word list \<Rightarrow> 32 word list \<Rightarrow> bool" where
  "List_I32_Equals lhs rhs = list_equals (=) lhs rhs"

lemma List_I32_codec:
  assumes "wire_laws W"
  shows "list_all (delivered (Writable W)) (ValueList.ForEach (List_I32_ValueList W xs))"
    and "List_I32_Read W (List_I32_ValueList W xs) = Inr (Some xs)"
  using assms
  by (simp_all add: List_I32_ValueList_def List_I32_Read_def value_list_read list.pred_map comp_def
      list.pred_True)

lemma List_I32_Equals_iff [simp]: "List_I32_Equals xs ys \<longleftrightarrow> xs = ys"
  unfolding List_I32_Equals_def by (rule list_equals_iff [where P = "\<lambda>_. True"]) (simp_all add:
      list.pred_True)

definition Map_String_String_MapItemList :: "'v wire_api \<Rightarrow> (string, string) fmap \<Rightarrow> 'v MapItemList"
    where
  "Map_String_String_MapItemList W m =
     \<lparr>MapItemList.ForEach = map_items W (\<lambda>k x. Inr (NewValueString W x)) m, Size = fcard (fmdom m),
      KeyType = TBinary, ValueType = TBinary\<rparr>"

definition Map_String_String_Read :: "'v wire_api \<Rightarrow> 'v MapItemList \<Rightarrow> go_error + (string, string)
    fmap option" where
  "Map_String_String_Read W m =
     (if KeyType m \<noteq> TBinary then Inr None
      else if MapItemList.ValueType m \<noteq> TBinary then Inr None
      else and_then (for_each (MapItemList.ForEach m) (\<lambda>out (k, w).
        and_then (Inr (GetString W w)) (\<lambda>v. Inr (fmupd (GetString W k) v out))) fmempty) (\<lambda>out. Inr
            (Some out)))"

definition Map_String_String_Equals :: "(string, string) fmap \<Rightarrow> (string, string) fmap \<Rightarrow> bool" where
  "Map_String_String_Equals lhs rhs = map_equals (=) lhs rhs"

lemma Map_String_String_codec:
  assumes laws: "wire_laws W"
  shows "list_all (delivered (\<lambda>(k, w). Writable W k \<and> Writable W w))
      (MapItemList.ForEach (Map_String_String_MapItemList W m))"
    and "Map_String_String_Read W (Map_String_String_MapItemList W m) = Inr (Some m)"
proof -
  show "list_all (delivered (\<lambda>(k, w). Writable W k \<and> Writable W w))
      (MapItemList.ForEach (Map_String_String_MapItemList W m))"
    by (simp add: Map_String_String_MapItemList_def map_items_writable [OF laws] map_all_def laws)
next
  have "for_each (map_items W (\<lambda>k x. Inr (NewValueString W x)) m) (\<lambda>out (k, w).
      and_then (Inr (GetString W w)) (\<lambda>v. Inr (fmupd (GetString W k) v out))) fmempty = Inr m"
    by (intro map_items_read [OF laws, where rd = "\<lambda>w. Inr (GetString W w)"]) (fastforce simp: laws
        ptr_item_def map_all_def fmpred_iff)
  then show "Map_String_String_Read W (Map_String_String_MapItemList W m) = Inr (Some m)"
    by (simp add: Map_String_String_MapItemList_def Map_String_String_Read_def)
qed

lemma Map_String_String_Equals_iff [simp]: "Map_String_String_Equals m n \<longleftrightarrow> m = n"
  unfolding Map_String_String_Equals_def by (rule map_equals_iff [where P = "\<lambda>_. True"])
    (simp_all add: if_set_top)

definition Map_String_IndexedValueType_MapItemList :: "'v wire_api \<Rightarrow> (string, IndexedValueType) fmap
    \<Rightarrow> 'v MapItemList" where
  "Map_String_IndexedValueType_MapItemList W m =
     \<lparr>MapItemList.ForEach = map_items W (\<lambda>k x. IndexedValueType_ToWire W x) m, Size = fcard (fmdom
         m),
      KeyType = TBinary, ValueType = TI32\<rparr>"

definition Map_String_IndexedValueType_Read :: "'v wire_api \<Rightarrow> 'v MapItemList \<Rightarrow> go_error + (string,
    IndexedValueType) fmap option" where
  "Map_String_IndexedValueType_Read W m =
     (if KeyType m \<noteq> TBinary then Inr None
      else if MapItemList.ValueType m \<noteq> TI32 then Inr None
      else and_then (for_each (MapItemList.ForEach m) (\<lambda>out (k, w).
        and_then (IndexedValueType_Read W w) (\<lambda>v. Inr (fmupd (GetString W k) v out))) fmempty)
            (\<lambda>out. Inr (Some out)))"

definition Map_String_IndexedValueType_Equals :: "(string, IndexedValueType) fmap \<Rightarrow> (string,
    IndexedValueType) fmap \<Rightarrow> bool" where
  "Map_String_IndexedValueType_Equals lhs rhs = map_equals IndexedValueType_Equals lhs rhs"

lemma Map_String_IndexedValueType_codec:
  assumes laws: "wire_laws W"
  shows "list_all (delivered (\<lambda>(k, w). Writable W k \<and> Writable W w))
      (MapItemList.ForEach (Map_String_IndexedValueType_MapItemList W m))"
    and "Map_String_IndexedValueType_Read W (Map_String_IndexedValueType_MapItemList W m) = Inr
        (Some m)"
proof -
  show "list_all (delivered (\<lambda>(k, w). Writable W k \<and> Writable W w))
      (MapItemList.ForEach (Map_String_IndexedValueType_MapItemList W m))"
    by (simp add: Map_String_IndexedValueType_MapItemList_def map_items_writable [OF laws]
        map_all_def laws)
next
  have "for_each (map_items W (\<lambda>k x. IndexedValueType_ToWire W x) m) (\<lambda>out (k, w).
      and_then (IndexedValueType_Read W w) (\<lambda>v. Inr (fmupd (GetString W k) v out))) fmempty = Inr m"
    by (intro map_items_read [OF laws]) (fastforce simp: laws ptr_item_def map_all_def fmpred_iff)
  then show "Map_String_IndexedValueType_Read W (Map_String_IndexedValueType_MapItemList W m) = Inr
      (Some m)"
    by (simp add: Map_String_IndexedValueType_MapItemList_def Map_String_IndexedValueType_Read_def)
qed

lemma Map_String_IndexedValueType_Equals_iff [simp]: "Map_String_IndexedValueType_Equals m n \<longleftrightarrow> m =
    n"
  unfolding Map_String_IndexedValueType_Equals_def by (rule map_equals_iff [where P = "\<lambda>_. True"])
    (simp_all add: if_set_top IndexedValueType_Equals_def)

definition Map_String_Binary_MapItemList :: "'v wire_api \<Rightarrow> (string, bytes option) fmap \<Rightarrow> 'v
    MapItemList" where
  "Map_String_Binary_MapItemList W m =
     \<lparr>MapItemList.ForEach = map_items W (ptr_item (\<lambda>x. Inr (NewValueBinary W x))) m, Size = fcard
         (fmdom m),
      KeyType = TBinary, ValueType = TBinary\<rparr>"

definition Map_String_Binary_Read :: "'v wire_api \<Rightarrow> 'v MapItemList \<Rightarrow> go_error + (string, bytes
    option) fmap option" where
  "Map_String_Binary_Read W m =
     (if KeyType m \<noteq> TBinary then Inr None
      else if MapItemList.ValueType m \<noteq> TBinary then Inr None
      else and_then (for_each (MapItemList.ForEach m) (\<lambda>out (k, w).
        and_then (Inr (Some (GetBinary W w))) (\<lambda>v. Inr (fmupd (GetString W k) v out))) fmempty)
            (\<lambda>out. Inr (Some out)))"

definition Map_String_Binary_Equals :: "(string, bytes option) fmap \<Rightarrow> (string, bytes option) fmap \<Rightarrow>
    bool" where
  "Map_String_Binary_Equals lhs rhs = map_equals bytes_Equal lhs rhs"

lemma Map_String_Binary_codec:
  assumes laws: "wire_laws W"
  shows "list_all (delivered (\<lambda>(k, w). Writable W k \<and> Writable W w))
      (MapItemList.ForEach (Map_String_Binary_MapItemList W m)) \<longleftrightarrow> map_all (present (\<lambda>_. True)) m"
    and "map_all (present (\<lambda>_. True)) m \<Longrightarrow> Map_String_Binary_Read W (Map_String_Binary_MapItemList W
        m) = Inr (Some m)"
proof -
  show "list_all (delivered (\<lambda>(k, w). Writable W k \<and> Writable W w))
      (MapItemList.ForEach (Map_String_Binary_MapItemList W m)) \<longleftrightarrow> map_all (present (\<lambda>_. True)) m"
    by (simp add: Map_String_Binary_MapItemList_def map_items_writable [OF laws] map_all_def laws
        delivered_ptr_item)
next
  assume "map_all (present (\<lambda>_. True)) m"
  then have "for_each (map_items W (ptr_item (\<lambda>x. Inr (NewValueBinary W x))) m) (\<lambda>out (k, w).
      and_then (Inr (Some (GetBinary W w))) (\<lambda>v. Inr (fmupd (GetString W k) v out))) fmempty = Inr
          m"
    by (intro map_items_read [OF laws, where rd = "\<lambda>w. Inr (Some (GetBinary W w))"]) (fastforce
        simp: laws ptr_item_def map_all_def fmpred_iff)
  then show "Map_String_Binary_Read W (Map_String_Binary_MapItemList W m) = Inr (Some m)"
    by (simp add: Map_String_Binary_MapItemList_def Map_String_Binary_Read_def)
qed

lemma Map_String_Binary_Equals_iff:
  "map_all (present (\<lambda>_. True)) m \<Longrightarrow> map_all (present (\<lambda>_. True)) n \<Longrightarrow> Map_String_Binary_Equals m n \<longleftrightarrow>
      m = n"
  unfolding Map_String_Binary_Equals_def by (rule map_equals_iff [where P = "present (\<lambda>_. True)"])
    (auto simp: bytes_Equal_def elim!: present.elims)

lemma Map_String_Binary_fields_equal [simp]:
  "if_set (map_all (present (\<lambda>_. True))) x \<Longrightarrow> if_set (map_all (present (\<lambda>_. True))) y \<Longrightarrow>
    both_set_and Map_String_Binary_Equals x y \<longleftrightarrow> x = y"
  by (rule both_set_and_iff [where P = "map_all (present (\<lambda>_. True))"]) (simp_all add:
      Map_String_Binary_Equals_iff)

definition List_String_ValueList :: "'v wire_api \<Rightarrow> string list \<Rightarrow> 'v ValueList" where
  "List_String_ValueList W v =
     \<lparr>ValueList.ForEach = map (\<lambda>x. Inr (NewValueString W x)) v, Size = length v, ValueType =
         TBinary\<rparr>"

definition List_String_Read :: "'v wire_api \<Rightarrow> 'v ValueList \<Rightarrow> go_error + string list option" where
  "List_String_Read W l =
     (if ValueList.ValueType l \<noteq> TBinary then Inr None
      else and_then (for_each (ValueList.ForEach l)
        (\<lambda>out x. Inr (out @ [GetString W x])) []) (\<lambda>out. Inr (Some out)))"

definition List_String_Equals :: "string list \<Rightarrow> string list \<Rightarrow> bool" where
  "List_String_Equals lhs rhs = list_equals (=) lhs rhs"

lemma List_String_codec:
  assumes "wire_laws W"
  shows "list_all (delivered (Writable W)) (ValueList.ForEach (List_String_ValueList W xs))"
    and "List_String_Read W (List_String_ValueList W xs) = Inr (Some xs)"
  using assms
  by (simp_all add: List_String_ValueList_def List_String_Read_def value_list_read list.pred_map
      comp_def list.pred_True)

lemma List_String_Equals_iff [simp]: "List_String_Equals xs ys \<longleftrightarrow> xs = ys"
  unfolding List_String_Equals_def by (rule list_equals_iff [where P = "\<lambda>_. True"]) (simp_all add:
      list.pred_True)

section \<open>Structs\<close>

record ActivityType =
  Name :: "string option"

definition ActivityType_zero :: ActivityType where
  "ActivityType_zero = \<lparr>ActivityType.Name = None\<rparr>"

definition ActivityType_ToWire ::
  "'v wire_api \<Rightarrow> ActivityType \<Rightarrow> go_error + 'v" where
  "ActivityType_ToWire W v =
     and_then (put_opt 10 (\<lambda>x. Inr (NewValueString W x)) (ActivityType.Name v) [])
       (\<lambda>fields.
     Inr (NewValueStruct W fields))"

definition ActivityType_FromWire ::
  "'v wire_api \<Rightarrow> 'v \<Rightarrow> ActivityType \<Rightarrow> go_error + ActivityType" where
  "ActivityType_FromWire W w v =
     foldM (\<lambda>v (fid, fval).
       if fid = 10 then
         if wire_api.Type W fval = TBinary
         then Inr (v\<lparr>ActivityType.Name := Some (GetString W fval)\<rparr>)
         else Inr v
       else Inr v) (GetStruct W w) v"

definition ActivityType_Read :: "'v wire_api \<Rightarrow> 'v \<Rightarrow> go_error + ActivityType" where
  "ActivityType_Read W w = ActivityType_FromWire W w ActivityType_zero"

lemma ActivityType_merge:
  "(case x of None \<Rightarrow> Inr \<lparr>ActivityType.Name = a0\<rparr> | Some y \<Rightarrow> Inr \<lparr>ActivityType.Name = b0 y\<rparr>) =
   Inr \<lparr>ActivityType.Name = (case x of None \<Rightarrow> a0 | Some y \<Rightarrow> b0 y)\<rparr>"
  by (cases x) simp_all

interpretation ActivityType: thrift_message W
  "ActivityType_ToWire W" "ActivityType_FromWire W" ActivityType_zero "\<lambda>_. True" for W
proof (rule thrift_messageI)
  fix x :: ActivityType
  assume laws: "wire_laws W"
  show "\<exists>w. ActivityType_ToWire W x = Inr w \<and> wire_api.Type W w = TStruct \<and>
      (Writable W w \<longleftrightarrow> (\<lambda>_. True) x) \<and> ((\<lambda>_. True) x \<longrightarrow> ActivityType_FromWire W w ActivityType_zero =
          Inr x)"
    by (cases x) (simp cong: option.case_cong add: codec_rules ActivityType_merge
        ActivityType_ToWire_def ActivityType_FromWire_def ActivityType_zero_def laws)
qed

definition ActivityType_Equals ::
  "ActivityType option \<Rightarrow> ActivityType option \<Rightarrow> bool" where
  "ActivityType_Equals v rhs =
     (case v of None \<Rightarrow> rhs = None
      | Some v \<Rightarrow> (case rhs of None \<Rightarrow> False
        | Some rhs \<Rightarrow>
          if \<not> String_EqualsPtr (ActivityType.Name v) (ActivityType.Name rhs) then False else
          True))"

lemma ActivityType_Equals_iff [simp]: "ActivityType_Equals x y \<longleftrightarrow> x = y"
  by (cases x; cases y) (auto simp: ActivityType_Equals_def)

record Header =
  Fields :: "(string, bytes option) fmap option"

definition Header_zero :: Header where
  "Header_zero = \<lparr>Header.Fields = None\<rparr>"

definition Header_ToWire ::
  "'v wire_api \<Rightarrow> Header \<Rightarrow> go_error + 'v" where
  "Header_ToWire W v =
     and_then (put_opt 10 (\<lambda>x. Inr (NewValueMap W (Map_String_Binary_MapItemList W x)))
         (Header.Fields v) [])
       (\<lambda>fields.
     Inr (NewValueStruct W fields))"

definition Header_FromWire ::
  "'v wire_api \<Rightarrow> 'v \<Rightarrow> Header \<Rightarrow> go_error + Header" where
  "Header_FromWire W w v =
     foldM (\<lambda>v (fid, fval).
       if fid = 10 then
         if wire_api.Type W fval = TMap
         then and_then (Map_String_Binary_Read W (GetMap W fval)) (\<lambda>x. Inr (v\<lparr>Header.Fields := x\<rparr>))
         else Inr v
       else Inr v) (GetStruct W w) v"

definition Header_Read :: "'v wire_api \<Rightarrow> 'v \<Rightarrow> go_error + Header" where
  "Header_Read W w = Header_FromWire W w Header_zero"

definition Header_complete :: "Header \<Rightarrow> bool" where
  "Header_complete v \<longleftrightarrow>
     if_set (map_all (present (\<lambda>_. True))) (Header.Fields v)"

lemma Header_merge:
  "(case x of None \<Rightarrow> Inr \<lparr>Header.Fields = a0\<rparr> | Some y \<Rightarrow> Inr \<lparr>Header.Fields = b0 y\<rparr>) =
   Inr \<lparr>Header.Fields = (case x of None \<Rightarrow> a0 | Some y \<Rightarrow> b0 y)\<rparr>"
  by (cases x) simp_all

interpretation Header: thrift_message W
  "Header_ToWire W" "Header_FromWire W" Header_zero "Header_complete" for W
proof (rule thrift_messageI)
  fix x :: Header
  assume laws: "wire_laws W"
  show "\<exists>w. Header_ToWire W x = Inr w \<and> wire_api.Type W w = TStruct \<and>
      (Writable W w \<longleftrightarrow> Header_complete x) \<and> (Header_complete x \<longrightarrow> Header_FromWire W w Header_zero =
          Inr x)"
    by (cases x) (simp cong: option.case_cong add: codec_rules Header_merge Header_ToWire_def
        Header_FromWire_def Header_zero_def Header_complete_def if_set_def Map_String_Binary_codec
        [OF laws] laws)
qed

definition Header_Equals ::
  "Header option \<Rightarrow> Header option \<Rightarrow> bool" where
  "Header_Equals v rhs =
     (case v of None \<Rightarrow> rhs = None
      | Some v \<Rightarrow> (case rhs of None \<Rightarrow> False
        | Some rhs \<Rightarrow>
          if \<not> both_set_and Map_String_Binary_Equals (Header.Fields v) (Header.Fields rhs) then
              False else
          True))"

definition Header_comparable :: "Header \<Rightarrow> bool" where
  "Header_comparable v \<longleftrightarrow>
     if_set (map_all (present (\<lambda>_. True))) (Header.Fields v)"

lemma Header_Equals_iff:
  "if_set Header_comparable x \<Longrightarrow> if_set Header_comparable y \<Longrightarrow> Header_Equals x y \<longleftrightarrow> x = y"
  by (cases x; cases y) (simp_all add: Header_Equals_def Header_comparable_def if_not_False,
    fastforce intro: Header.equality)

lemma Header_fields_equal [simp]:
  "if_set Header_comparable x \<Longrightarrow> if_set Header_comparable y \<Longrightarrow>
    both_set_and (\<lambda>x y. Header_Equals (Some x) (Some y)) x y \<longleftrightarrow> x = y"
  by (rule both_set_and_iff [where P = Header_comparable]) (simp_all add: Header_Equals_iff)

record Memo =
  Fields :: "(string, bytes option) fmap option"

definition Memo_zero :: Memo where
  "Memo_zero = \<lparr>Memo.Fields = None\<rparr>"

definition Memo_ToWire ::
  "'v wire_api \<Rightarrow> Memo \<Rightarrow> go_error + 'v" where
  "Memo_ToWire W v =
     and_then (put_opt 10 (\<lambda>x. Inr (NewValueMap W (Map_String_Binary_MapItemList W x))) (Memo.Fields
         v) [])
       (\<lambda>fields.
     Inr (NewValueStruct W fields))"

definition Memo_FromWire ::
  "'v wire_api \<Rightarrow> 'v \<Rightarrow> Memo \<Rightarrow> go_error + Memo" where
  "Memo_FromWire W w v =
     foldM (\<lambda>v (fid, fval).
       if fid = 10 then
         if wire_api.Type W fval = TMap
         then and_then (Map_String_Binary_Read W (GetMap W fval)) (\<lambda>x. Inr (v\<lparr>Memo.Fields := x\<rparr>))
         else Inr v
       else Inr v) (GetStruct W w) v"

definition Memo_Read :: "'v wire_api \<Rightarrow> 'v \<Rightarrow> go_error + Memo" where
  "Memo_Read W w = Memo_FromWire W w Memo_zero"

definition Memo_complete :: "Memo \<Rightarrow> bool" where
  "Memo_complete v \<longleftrightarrow>
     if_set (map_all (present (\<lambda>_. True))) (Memo.Fields v)"

lemma Memo_merge:
  "(case x of None \<Rightarrow> Inr \<lparr>Memo.Fields = a0\<rparr> | Some y \<Rightarrow> Inr \<lparr>Memo.Fields = b0 y\<rparr>) =
   Inr \<lparr>Memo.Fields = (case x of None \<Rightarrow> a0 | Some y \<Rightarrow> b0 y)\<rparr>"
  by (cases x) simp_all

interpretation Memo: thrift_message W
  "Memo_ToWire W" "Memo_FromWire W" Memo_zero "Memo_complete" for W
proof (rule thrift_messageI)
  fix x :: Memo
  assume laws: "wire_laws W"
  show "\<exists>w. Memo_ToWire W x = Inr w \<and> wire_api.Type W w = TStruct \<and>
      (Writable W w \<longleftrightarrow> Memo_complete x) \<and> (Memo_complete x \<longrightarrow> Memo_FromWire W w Memo_zero = Inr x)"
    by (cases x) (simp cong: option.case_cong add: codec_rules Memo_merge Memo_ToWire_def
        Memo_FromWire_def Memo_zero_def Memo_complete_def if_set_def Map_String_Binary_codec [OF
        laws] laws)
qed

definition Memo_Equals ::
  "Memo option \<Rightarrow> Memo option \<Rightarrow> bool" where
  "Memo_Equals v rhs =
     (case v of None \<Rightarrow> rhs = None
      | Some v \<Rightarrow> (case rhs of None \<Rightarrow> False
        | Some rhs \<Rightarrow>
          if \<not> both_set_and Map_String_Binary_Equals (Memo.Fields v) (Memo.Fields rhs) then False
              else
          True))"

definition Memo_comparable :: "Memo \<Rightarrow> bool" where
  "Memo_comparable v \<longleftrightarrow>
     if_set (map_all (present (\<lambda>_. True))) (Memo.Fields v)"

lemma Memo_Equals_iff:
  "if_set Memo_comparable x \<Longrightarrow> if_set Memo_comparable y \<Longrightarrow> Memo_Equals x y \<longleftrightarrow> x = y"
  by (cases x; cases y) (simp_all add: Memo_Equals_def Memo_comparable_def if_not_False,
    fastforce intro: Memo.equality)

lemma Memo_fields_equal [simp]:
  "if_set Memo_comparable x \<Longrightarrow> if_set Memo_comparable y \<Longrightarrow>
    both_set_and (\<lambda>x y. Memo_Equals (Some x) (Some y)) x y \<longleftrightarrow> x = y"
  by (rule both_set_and_iff [where P = Memo_comparable]) (simp_all add: Memo_Equals_iff)

record ResetPointInfo =
  BinaryChecksum :: "string option"
  RunId :: "string option"
  FirstDecisionCompletedId :: "64 word option"
  CreatedTimeNano :: "64 word option"
  ExpiringTimeNano :: "64 word option"
  Resettable :: "bool option"

definition ResetPointInfo_zero :: ResetPointInfo where
  "ResetPointInfo_zero = \<lparr>ResetPointInfo.BinaryChecksum = None, ResetPointInfo.RunId = None,
      ResetPointInfo.FirstDecisionCompletedId = None, ResetPointInfo.CreatedTimeNano = None,
      ResetPointInfo.ExpiringTimeNano = None, ResetPointInfo.Resettable = None\<rparr>"

definition ResetPointInfo_ToWire ::
  "'v wire_api \<Rightarrow> ResetPointInfo \<Rightarrow> go_error + 'v" where
  "ResetPointInfo_ToWire W v =
     and_then (put_opt 10 (\<lambda>x. Inr (NewValueString W x)) (ResetPointInfo.BinaryChecksum v) [])
       (\<lambda>fields.
     and_then (put_opt 20 (\<lambda>x. Inr (NewValueString W x)) (ResetPointInfo.RunId v) fields)
       (\<lambda>fields.
     and_then (put_opt 30 (\<lambda>x. Inr (NewValueI64 W x)) (ResetPointInfo.FirstDecisionCompletedId v)
         fields)
       (\<lambda>fields.
     and_then (put_opt 40 (\<lambda>x. Inr (NewValueI64 W x)) (ResetPointInfo.CreatedTimeNano v) fields)
       (\<lambda>fields.
     and_then (put_opt 50 (\<lambda>x. Inr (NewValueI64 W x)) (ResetPointInfo.ExpiringTimeNano v) fields)
       (\<lambda>fields.
     and_then (put_opt 60 (\<lambda>x. Inr (NewValueBool W x)) (ResetPointInfo.Resettable v) fields)
       (\<lambda>fields.
     Inr (NewValueStruct W fields)))))))"

definition ResetPointInfo_FromWire ::
  "'v wire_api \<Rightarrow> 'v \<Rightarrow> ResetPointInfo \<Rightarrow> go_error + ResetPointInfo" where
  "ResetPointInfo_FromWire W w v =
     foldM (\<lambda>v (fid, fval).
       if fid = 10 then
         if wire_api.Type W fval = TBinary
         then Inr (v\<lparr>ResetPointInfo.BinaryChecksum := Some (GetString W fval)\<rparr>)
         else Inr v
       else if fid = 20 then
         if wire_api.Type W fval = TBinary
         then Inr (v\<lparr>ResetPointInfo.RunId := Some (GetString W fval)\<rparr>)
         else Inr v
       else if fid = 30 then
         if wire_api.Type W fval = TI64
         then Inr (v\<lparr>ResetPointInfo.FirstDecisionCompletedId := Some (GetI64 W fval)\<rparr>)
         else Inr v
       else if fid = 40 then
         if wire_api.Type W fval = TI64
         then Inr (v\<lparr>ResetPointInfo.CreatedTimeNano := Some (GetI64 W fval)\<rparr>)
         else Inr v
       else if fid = 50 then
         if wire_api.Type W fval = TI64
         then Inr (v\<lparr>ResetPointInfo.ExpiringTimeNano := Some (GetI64 W fval)\<rparr>)
         else Inr v
       else if fid = 60 then
         if wire_api.Type W fval = TBool
         then Inr (v\<lparr>ResetPointInfo.Resettable := Some (GetBool W fval)\<rparr>)
         else Inr v
       else Inr v) (GetStruct W w) v"

definition ResetPointInfo_Read :: "'v wire_api \<Rightarrow> 'v \<Rightarrow> go_error + ResetPointInfo" where
  "ResetPointInfo_Read W w = ResetPointInfo_FromWire W w ResetPointInfo_zero"

lemma ResetPointInfo_merge:
  "(case x of None \<Rightarrow> Inr \<lparr>ResetPointInfo.BinaryChecksum = a0, ResetPointInfo.RunId = a1,
      ResetPointInfo.FirstDecisionCompletedId = a2, ResetPointInfo.CreatedTimeNano = a3,
      ResetPointInfo.ExpiringTimeNano = a4, ResetPointInfo.Resettable = a5\<rparr> | Some y \<Rightarrow> Inr
      \<lparr>ResetPointInfo.BinaryChecksum = b0 y, ResetPointInfo.RunId = b1 y,
      ResetPointInfo.FirstDecisionCompletedId = b2 y, ResetPointInfo.CreatedTimeNano = b3 y,
      ResetPointInfo.ExpiringTimeNano = b4 y, ResetPointInfo.Resettable = b5 y\<rparr>) =
   Inr \<lparr>ResetPointInfo.BinaryChecksum = (case x of None \<Rightarrow> a0 | Some y \<Rightarrow> b0 y), ResetPointInfo.RunId
       = (case x of None \<Rightarrow> a1 | Some y \<Rightarrow> b1 y), ResetPointInfo.FirstDecisionCompletedId = (case x of
       None \<Rightarrow> a2 | Some y \<Rightarrow> b2 y), ResetPointInfo.CreatedTimeNano = (case x of None \<Rightarrow> a3 | Some y \<Rightarrow>
       b3 y), ResetPointInfo.ExpiringTimeNano = (case x of None \<Rightarrow> a4 | Some y \<Rightarrow> b4 y),
       ResetPointInfo.Resettable = (case x of None \<Rightarrow> a5 | Some y \<Rightarrow> b5 y)\<rparr>"
  by (cases x) simp_all

interpretation ResetPointInfo: thrift_message W
  "ResetPointInfo_ToWire W" "ResetPointInfo_FromWire W" ResetPointInfo_zero "\<lambda>_. True" for W
proof (rule thrift_messageI)
  fix x :: ResetPointInfo
  assume laws: "wire_laws W"
  show "\<exists>w. ResetPointInfo_ToWire W x = Inr w \<and> wire_api.Type W w = TStruct \<and>
      (Writable W w \<longleftrightarrow> (\<lambda>_. True) x) \<and> ((\<lambda>_. True) x \<longrightarrow> ResetPointInfo_FromWire W w
          ResetPointInfo_zero = Inr x)"
    by (cases x) (simp cong: option.case_cong add: codec_rules ResetPointInfo_merge
        ResetPointInfo_ToWire_def ResetPointInfo_FromWire_def ResetPointInfo_zero_def laws)
qed

definition ResetPointInfo_Equals ::
  "ResetPointInfo option \<Rightarrow> ResetPointInfo option \<Rightarrow> bool" where
  "ResetPointInfo_Equals v rhs =
     (case v of None \<Rightarrow> rhs = None
      | Some v \<Rightarrow> (case rhs of None \<Rightarrow> False
        | Some rhs \<Rightarrow>
          if \<not> String_EqualsPtr (ResetPointInfo.BinaryChecksum v) (ResetPointInfo.BinaryChecksum
              rhs) then False else
          if \<not> String_EqualsPtr (ResetPointInfo.RunId v) (ResetPointInfo.RunId rhs) then False else
          if \<not> I64_EqualsPtr (ResetPointInfo.FirstDecisionCompletedId v)
              (ResetPointInfo.FirstDecisionCompletedId rhs) then False else
          if \<not> I64_EqualsPtr (ResetPointInfo.CreatedTimeNano v) (ResetPointInfo.CreatedTimeNano rhs)
              then False else
          if \<not> I64_EqualsPtr (ResetPointInfo.ExpiringTimeNano v) (ResetPointInfo.ExpiringTimeNano
              rhs) then False else
          if \<not> Bool_EqualsPtr (ResetPointInfo.Resettable v) (ResetPointInfo.Resettable rhs) then
              False else
          True))"

lemma ResetPointInfo_Equals_iff [simp]: "ResetPointInfo_Equals x y \<longleftrightarrow> x = y"
  by (cases x; cases y) (simp_all add: ResetPointInfo_Equals_def if_not_False, fastforce intro:
      ResetPointInfo.equality)

definition List_ResetPointInfo_ValueList :: "'v wire_api \<Rightarrow> ResetPointInfo option list \<Rightarrow> 'v
    ValueList" where
  "List_ResetPointInfo_ValueList W v =
     \<lparr>ValueList.ForEach = ptr_values (ResetPointInfo_ToWire W) v, Size = length v, ValueType =
         TStruct\<rparr>"

definition List_ResetPointInfo_Read :: "'v wire_api \<Rightarrow> 'v ValueList \<Rightarrow> go_error + ResetPointInfo
    option list option" where
  "List_ResetPointInfo_Read W l =
     (if ValueList.ValueType l \<noteq> TStruct then Inr None
      else and_then (for_each (ValueList.ForEach l)
        (\<lambda>out x. and_then (ResetPointInfo_Read W x) (\<lambda>i. Inr (out @ [Some i]))) []) (\<lambda>out. Inr (Some
            out)))"

definition List_ResetPointInfo_Equals :: "ResetPointInfo option list \<Rightarrow> ResetPointInfo option list \<Rightarrow>
    bool" where
  "List_ResetPointInfo_Equals lhs rhs = list_equals ResetPointInfo_Equals lhs rhs"

lemma List_ResetPointInfo_codec:
  assumes "wire_laws W"
  shows "list_all (delivered (Writable W)) (ValueList.ForEach (List_ResetPointInfo_ValueList W xs))
      \<longleftrightarrow> list_all (present (\<lambda>_. True)) xs"
    and "list_all (present (\<lambda>_. True)) xs \<Longrightarrow> List_ResetPointInfo_Read W
        (List_ResetPointInfo_ValueList W xs) = Inr (Some xs)"
  using ResetPointInfo.ptr_values_writable [OF assms] ResetPointInfo.ptr_values_read [OF assms]
  by (simp_all add: List_ResetPointInfo_ValueList_def List_ResetPointInfo_Read_def
      ResetPointInfo_Read_def)

lemma List_ResetPointInfo_Equals_iff [simp]: "List_ResetPointInfo_Equals xs ys \<longleftrightarrow> xs = ys"
  unfolding List_ResetPointInfo_Equals_def by (rule list_equals_iff [where P = "\<lambda>_. True"])
      (simp_all add: list.pred_True)

record ResetPoints =
  Points :: "ResetPointInfo option list option"

definition ResetPoints_zero :: ResetPoints where
  "ResetPoints_zero = \<lparr>ResetPoints.Points = None\<rparr>"

definition ResetPoints_ToWire ::
  "'v wire_api \<Rightarrow> ResetPoints \<Rightarrow> go_error + 'v" where
  "ResetPoints_ToWire W v =
     and_then (put_opt 10 (\<lambda>x. Inr (NewValueList W (List_ResetPointInfo_ValueList W x)))
         (ResetPoints.Points v) [])
       (\<lambda>fields.
     Inr (NewValueStruct W fields))"

definition ResetPoints_FromWire ::
  "'v wire_api \<Rightarrow> 'v \<Rightarrow> ResetPoints \<Rightarrow> go_error + ResetPoints" where
  "ResetPoints_FromWire W w v =
     foldM (\<lambda>v (fid, fval).
       if fid = 10 then
         if wire_api.Type W fval = TList
         then and_then (List_ResetPointInfo_Read W (GetList W fval)) (\<lambda>x. Inr (v\<lparr>ResetPoints.Points
             := x\<rparr>))
         else Inr v
       else Inr v) (GetStruct W w) v"

definition ResetPoints_Read :: "'v wire_api \<Rightarrow> 'v \<Rightarrow> go_error + ResetPoints" where
  "ResetPoints_Read W w = ResetPoints_FromWire W w ResetPoints_zero"

definition ResetPoints_complete :: "ResetPoints \<Rightarrow> bool" where
  "ResetPoints_complete v \<longleftrightarrow>
     if_set (list_all (present (\<lambda>_. True))) (ResetPoints.Points v)"

lemma ResetPoints_merge:
  "(case x of None \<Rightarrow> Inr \<lparr>ResetPoints.Points = a0\<rparr> | Some y \<Rightarrow> Inr \<lparr>ResetPoints.Points = b0 y\<rparr>) =
   Inr \<lparr>ResetPoints.Points = (case x of None \<Rightarrow> a0 | Some y \<Rightarrow> b0 y)\<rparr>"
  by (cases x) simp_all

interpretation ResetPoints: thrift_message W
  "ResetPoints_ToWire W" "ResetPoints_FromWire W" ResetPoints_zero "ResetPoints_complete" for W
proof (rule thrift_messageI)
  fix x :: ResetPoints
  assume laws: "wire_laws W"
  show "\<exists>w. ResetPoints_ToWire W x = Inr w \<and> wire_api.Type W w = TStruct \<and>
      (Writable W w \<longleftrightarrow> ResetPoints_complete x) \<and> (ResetPoints_complete x \<longrightarrow> ResetPoints_FromWire W w
          ResetPoints_zero = Inr x)"
    by (cases x) (simp cong: option.case_cong add: codec_rules ResetPoints_merge
        ResetPoints_ToWire_def ResetPoints_FromWire_def ResetPoints_zero_def
        ResetPoints_complete_def if_set_def List_ResetPointInfo_codec [OF laws] laws)
qed

definition ResetPoints_Equals ::
  "ResetPoints option \<Rightarrow> ResetPoints option \<Rightarrow> bool" where
  "ResetPoints_Equals v rhs =
     (case v of None \<Rightarrow> rhs = None
      | Some v \<Rightarrow> (case rhs of None \<Rightarrow> False
        | Some rhs \<Rightarrow>
          if \<not> both_set_and List_ResetPointInfo_Equals (ResetPoints.Points v) (ResetPoints.Points
              rhs) then False else
          True))"

lemma ResetPoints_Equals_iff [simp]: "ResetPoints_Equals x y \<longleftrightarrow> x = y"
  by (cases x; cases y) (auto simp: ResetPoints_Equals_def)

record RetryPolicy =
  InitialIntervalInSeconds :: "32 word option"
  BackoffCoefficient :: "float64 option"
  MaximumIntervalInSeconds :: "32 word option"
  MaximumAttempts :: "32 word option"
  NonRetriableErrorReasons :: "string list option"
  ExpirationIntervalInSeconds :: "32 word option"

definition RetryPolicy_zero :: RetryPolicy where
  "RetryPolicy_zero = \<lparr>RetryPolicy.InitialIntervalInSeconds = None, RetryPolicy.BackoffCoefficient =
      None, RetryPolicy.MaximumIntervalInSeconds = None, RetryPolicy.MaximumAttempts = None,
      RetryPolicy.NonRetriableErrorReasons = None, RetryPolicy.ExpirationIntervalInSeconds = None\<rparr>"

definition RetryPolicy_ToWire ::
  "'v wire_api \<Rightarrow> RetryPolicy \<Rightarrow> go_error + 'v" where
  "RetryPolicy_ToWire W v =
     and_then (put_opt 10 (\<lambda>x. Inr (NewValueI32 W x)) (RetryPolicy.InitialIntervalInSeconds v) [])
       (\<lambda>fields.
     and_then (put_opt 20 (\<lambda>x. Inr (NewValueDouble W x)) (RetryPolicy.BackoffCoefficient v) fields)
       (\<lambda>fields.
     and_then (put_opt 30 (\<lambda>x. Inr (NewValueI32 W x)) (RetryPolicy.MaximumIntervalInSeconds v)
         fields)
       (\<lambda>fields.
     and_then (put_opt 40 (\<lambda>x. Inr (NewValueI32 W x)) (RetryPolicy.MaximumAttempts v) fields)
       (\<lambda>fields.
     and_then (put_opt 50 (\<lambda>x. Inr (NewValueList W (List_String_ValueList W x)))
         (RetryPolicy.NonRetriableErrorReasons v) fields)
       (\<lambda>fields.
     and_then (put_opt 60 (\<lambda>x. Inr (NewValueI32 W x)) (RetryPolicy.ExpirationIntervalInSeconds v)
         fields)
       (\<lambda>fields.
     Inr (NewValueStruct W fields)))))))"

definition RetryPolicy_FromWire ::
  "'v wire_api \<Rightarrow> 'v \<Rightarrow> RetryPolicy \<Rightarrow> go_error + RetryPolicy" where
  "RetryPolicy_FromWire W w v =
     foldM (\<lambda>v (fid, fval).
       if fid = 10 then
         if wire_api.Type W fval = TI32
         then Inr (v\<lparr>RetryPolicy.InitialIntervalInSeconds := Some (GetI32 W fval)\<rparr>)
         else Inr v
       else if fid = 20 then
         if wire_api.Type W fval = TDouble
         then Inr (v\<lparr>RetryPolicy.BackoffCoefficient := Some (GetDouble W fval)\<rparr>)
         else Inr v
       else if fid = 30 then
         if wire_api.Type W fval = TI32
         then Inr (v\<lparr>RetryPolicy.MaximumIntervalInSeconds := Some (GetI32 W fval)\<rparr>)
         else Inr v
       else if fid = 40 then
         if wire_api.Type W fval = TI32
         then Inr (v\<lparr>RetryPolicy.MaximumAttempts := Some (GetI32 W fval)\<rparr>)
         else Inr v
       else if fid = 50 then
         if wire_api.Type W fval = TList
         then and_then (List_String_Read W (GetList W fval)) (\<lambda>x. Inr
             (v\<lparr>RetryPolicy.NonRetriableErrorReasons := x\<rparr>))
         else Inr v
       else if fid = 60 then
         if wire_api.Type W fval = TI32
         then Inr (v\<lparr>RetryPolicy.ExpirationIntervalInSeconds := Some (GetI32 W fval)\<rparr>)
         else Inr v
       else Inr v) (GetStruct W w) v"

definition RetryPolicy_Read :: "'v wire_api \<Rightarrow> 'v \<Rightarrow> go_error + RetryPolicy" where
  "RetryPolicy_Read W w = RetryPolicy_FromWire W w RetryPolicy_zero"

lemma RetryPolicy_merge:
  "(case x of None \<Rightarrow> Inr \<lparr>RetryPolicy.InitialIntervalInSeconds = a0, RetryPolicy.BackoffCoefficient
      = a1, RetryPolicy.MaximumIntervalInSeconds = a2, RetryPolicy.MaximumAttempts = a3,
      RetryPolicy.NonRetriableErrorReasons = a4, RetryPolicy.ExpirationIntervalInSeconds = a5\<rparr> |
      Some y \<Rightarrow> Inr \<lparr>RetryPolicy.InitialIntervalInSeconds = b0 y, RetryPolicy.BackoffCoefficient = b1
      y, RetryPolicy.MaximumIntervalInSeconds = b2 y, RetryPolicy.MaximumAttempts = b3 y,
      RetryPolicy.NonRetriableErrorReasons = b4 y, RetryPolicy.ExpirationIntervalInSeconds = b5 y\<rparr>)
      =
   Inr \<lparr>RetryPolicy.InitialIntervalInSeconds = (case x of None \<Rightarrow> a0 | Some y \<Rightarrow> b0 y),
       RetryPolicy.BackoffCoefficient = (case x of None \<Rightarrow> a1 | Some y \<Rightarrow> b1 y),
       RetryPolicy.MaximumIntervalInSeconds = (case x of None \<Rightarrow> a2 | Some y \<Rightarrow> b2 y),
       RetryPolicy.MaximumAttempts = (case x of None \<Rightarrow> a3 | Some y \<Rightarrow> b3 y),
       RetryPolicy.NonRetriableErrorReasons = (case x of None \<Rightarrow> a4 | Some y \<Rightarrow> b4 y),
       RetryPolicy.ExpirationIntervalInSeconds = (case x of None \<Rightarrow> a5 | Some y \<Rightarrow> b5 y)\<rparr>"
  by (cases x) simp_all

interpretation RetryPolicy: thrift_message W
  "RetryPolicy_ToWire W" "RetryPolicy_FromWire W" RetryPolicy_zero "\<lambda>_. True" for W
proof (rule thrift_messageI)
  fix x :: RetryPolicy
  assume laws: "wire_laws W"
  show "\<exists>w. RetryPolicy_ToWire W x = Inr w \<and> wire_api.Type W w = TStruct \<and>
      (Writable W w \<longleftrightarrow> (\<lambda>_. True) x) \<and> ((\<lambda>_. True) x \<longrightarrow> RetryPolicy_FromWire W w RetryPolicy_zero =
          Inr x)"
    by (cases x) (simp cong: option.case_cong add: codec_rules RetryPolicy_merge
        RetryPolicy_ToWire_def RetryPolicy_FromWire_def RetryPolicy_zero_def List_String_codec [OF
        laws] laws)
qed

definition RetryPolicy_Equals ::
  "RetryPolicy option \<Rightarrow> RetryPolicy option \<Rightarrow> bool" where
  "RetryPolicy_Equals v rhs =
     (case v of None \<Rightarrow> rhs = None
      | Some v \<Rightarrow> (case rhs of None \<Rightarrow> False
        | Some rhs \<Rightarrow>
          if \<not> I32_EqualsPtr (RetryPolicy.InitialIntervalInSeconds v)
              (RetryPolicy.InitialIntervalInSeconds rhs) then False else
          if \<not> Double_EqualsPtr (RetryPolicy.BackoffCoefficient v) (RetryPolicy.BackoffCoefficient
              rhs) then False else
          if \<not> I32_EqualsPtr (RetryPolicy.MaximumIntervalInSeconds v)
              (RetryPolicy.MaximumIntervalInSeconds rhs) then False else
          if \<not> I32_EqualsPtr (RetryPolicy.MaximumAttempts v) (RetryPolicy.MaximumAttempts rhs) then
              False else
          if \<not> both_set_and List_String_Equals (RetryPolicy.NonRetriableErrorReasons v)
              (RetryPolicy.NonRetriableErrorReasons rhs) then False else
          if \<not> I32_EqualsPtr (RetryPolicy.ExpirationIntervalInSeconds v)
              (RetryPolicy.ExpirationIntervalInSeconds rhs) then False else
          True))"

definition RetryPolicy_comparable :: "RetryPolicy \<Rightarrow> bool" where
  "RetryPolicy_comparable v \<longleftrightarrow>
     if_set float64_ordinary (RetryPolicy.BackoffCoefficient v)"

lemma RetryPolicy_Equals_iff:
  "if_set RetryPolicy_comparable x \<Longrightarrow> if_set RetryPolicy_comparable y \<Longrightarrow> RetryPolicy_Equals x y \<longleftrightarrow> x =
      y"
  by (cases x; cases y) (simp_all add: RetryPolicy_Equals_def RetryPolicy_comparable_def
      if_not_False,
    fastforce intro: RetryPolicy.equality)

lemma RetryPolicy_fields_equal [simp]:
  "if_set RetryPolicy_comparable x \<Longrightarrow> if_set RetryPolicy_comparable y \<Longrightarrow>
    both_set_and (\<lambda>x y. RetryPolicy_Equals (Some x) (Some y)) x y \<longleftrightarrow> x = y"
  by (rule both_set_and_iff [where P = RetryPolicy_comparable]) (simp_all add:
      RetryPolicy_Equals_iff)

record SearchAttributes =
  IndexedFields :: "(string, bytes option) fmap option"

definition SearchAttributes_zero :: SearchAttributes where
  "SearchAttributes_zero = \<lparr>SearchAttributes.IndexedFields = None\<rparr>"

definition SearchAttributes_ToWire ::
  "'v wire_api \<Rightarrow> SearchAttributes \<Rightarrow> go_error + 'v" where
  "SearchAttributes_ToWire W v =
     and_then (put_opt 10 (\<lambda>x. Inr (NewValueMap W (Map_String_Binary_MapItemList W x)))
         (SearchAttributes.IndexedFields v) [])
       (\<lambda>fields.
     Inr (NewValueStruct W fields))"

definition SearchAttributes_FromWire ::
  "'v wire_api \<Rightarrow> 'v \<Rightarrow> SearchAttributes \<Rightarrow> go_error + SearchAttributes" where
  "SearchAttributes_FromWire W w v =
     foldM (\<lambda>v (fid, fval).
       if fid = 10 then
         if wire_api.Type W fval = TMap
         then and_then (Map_String_Binary_Read W (GetMap W fval)) (\<lambda>x. Inr
             (v\<lparr>SearchAttributes.IndexedFields := x\<rparr>))
         else Inr v
       else Inr v) (GetStruct W w) v"

definition SearchAttributes_Read :: "'v wire_api \<Rightarrow> 'v \<Rightarrow> go_error + SearchAttributes" where
  "SearchAttributes_Read W w = SearchAttributes_FromWire W w SearchAttributes_zero"

definition SearchAttributes_complete :: "SearchAttributes \<Rightarrow> bool" where
  "SearchAttributes_complete v \<longleftrightarrow>
     if_set (map_all (present (\<lambda>_. True))) (SearchAttributes.IndexedFields v)"

lemma SearchAttributes_merge:
  "(case x of None \<Rightarrow> Inr \<lparr>SearchAttributes.IndexedFields = a0\<rparr> | Some y \<Rightarrow> Inr
      \<lparr>SearchAttributes.IndexedFields = b0 y\<rparr>) =
   Inr \<lparr>SearchAttributes.IndexedFields = (case x of None \<Rightarrow> a0 | Some y \<Rightarrow> b0 y)\<rparr>"
  by (cases x) simp_all

interpretation SearchAttributes: thrift_message W
  "SearchAttributes_ToWire W" "SearchAttributes_FromWire W" SearchAttributes_zero
      "SearchAttributes_complete" for W
proof (rule thrift_messageI)
  fix x :: SearchAttributes
  assume laws: "wire_laws W"
  show "\<exists>w. SearchAttributes_ToWire W x = Inr w \<and> wire_api.Type W w = TStruct \<and>
      (Writable W w \<longleftrightarrow> SearchAttributes_complete x) \<and> (SearchAttributes_complete x \<longrightarrow>
          SearchAttributes_FromWire W w SearchAttributes_zero = Inr x)"
    by (cases x) (simp cong: option.case_cong add: codec_rules SearchAttributes_merge
        SearchAttributes_ToWire_def SearchAttributes_FromWire_def SearchAttributes_zero_def
        SearchAttributes_complete_def if_set_def Map_String_Binary_codec [OF laws] laws)
qed

definition SearchAttributes_Equals ::
  "SearchAttributes option \<Rightarrow> SearchAttributes option \<Rightarrow> bool" where
  "SearchAttributes_Equals v rhs =
     (case v of None \<Rightarrow> rhs = None
      | Some v \<Rightarrow> (case rhs of None \<Rightarrow> False
        | Some rhs \<Rightarrow>
          if \<not> both_set_and Map_String_Binary_Equals (SearchAttributes.IndexedFields v)
              (SearchAttributes.IndexedFields rhs) then False else
          True))"

definition SearchAttributes_comparable :: "SearchAttributes \<Rightarrow> bool" where
  "SearchAttributes_comparable v \<longleftrightarrow>
     if_set (map_all (present (\<lambda>_. True))) (SearchAttributes.IndexedFields v)"

lemma SearchAttributes_Equals_iff:
  "if_set SearchAttributes_comparable x \<Longrightarrow> if_set SearchAttributes_comparable y \<Longrightarrow>
      SearchAttributes_Equals x y \<longleftrightarrow> x = y"
  by (cases x; cases y) (simp_all add: SearchAttributes_Equals_def SearchAttributes_comparable_def
      if_not_False,
    fastforce intro: SearchAttributes.equality)

lemma SearchAttributes_fields_equal [simp]:
  "if_set SearchAttributes_comparable x \<Longrightarrow> if_set SearchAttributes_comparable y \<Longrightarrow>
    both_set_and (\<lambda>x y. SearchAttributes_Equals (Some x) (Some y)) x y \<longleftrightarrow> x = y"
  by (rule both_set_and_iff [where P = SearchAttributes_comparable]) (simp_all add:
      SearchAttributes_Equals_iff)

record TaskList =
  Name :: "string option"
  Kind :: "TaskListKind option"

definition TaskList_zero :: TaskList where
  "TaskList_zero = \<lparr>TaskList.Name = None, TaskList.Kind = None\<rparr>"

definition TaskList_ToWire ::
  "'v wire_api \<Rightarrow> TaskList \<Rightarrow> go_error + 'v" where
  "TaskList_ToWire W v =
     and_then (put_opt 10 (\<lambda>x. Inr (NewValueString W x)) (TaskList.Name v) [])
       (\<lambda>fields.
     and_then (put_opt 20 (TaskListKind_ToWire W) (TaskList.Kind v) fields)
       (\<lambda>fields.
     Inr (NewValueStruct W fields)))"

definition TaskList_FromWire ::
  "'v wire_api \<Rightarrow> 'v \<Rightarrow> TaskList \<Rightarrow> go_error + TaskList" where
  "TaskList_FromWire W w v =
     foldM (\<lambda>v (fid, fval).
       if fid = 10 then
         if wire_api.Type W fval = TBinary
         then Inr (v\<lparr>TaskList.Name := Some (GetString W fval)\<rparr>)
         else Inr v
       else if fid = 20 then
         if wire_api.Type W fval = TI32
         then and_then (TaskListKind_Read W fval) (\<lambda>x. Inr (v\<lparr>TaskList.Kind := Some x\<rparr>))
         else Inr v
       else Inr v) (GetStruct W w) v"

definition TaskList_Read :: "'v wire_api \<Rightarrow> 'v \<Rightarrow> go_error + TaskList" where
  "TaskList_Read W w = TaskList_FromWire W w TaskList_zero"

lemma TaskList_merge:
  "(case x of None \<Rightarrow> Inr \<lparr>TaskList.Name = a0, TaskList.Kind = a1\<rparr> | Some y \<Rightarrow> Inr \<lparr>TaskList.Name = b0
      y, TaskList.Kind = b1 y\<rparr>) =
   Inr \<lparr>TaskList.Name = (case x of None \<Rightarrow> a0 | Some y \<Rightarrow> b0 y), TaskList.Kind = (case x of None \<Rightarrow> a1
       | Some y \<Rightarrow> b1 y)\<rparr>"
  by (cases x) simp_all

interpretation TaskList: thrift_message W
  "TaskList_ToWire W" "TaskList_FromWire W" TaskList_zero "\<lambda>_. True" for W
proof (rule thrift_messageI)
  fix x :: TaskList
  assume laws: "wire_laws W"
  show "\<exists>w. TaskList_ToWire W x = Inr w \<and> wire_api.Type W w = TStruct \<and>
      (Writable W w \<longleftrightarrow> (\<lambda>_. True) x) \<and> ((\<lambda>_. True) x \<longrightarrow> TaskList_FromWire W w TaskList_zero = Inr x)"
    by (cases x) (simp cong: option.case_cong add: codec_rules TaskList_merge TaskList_ToWire_def
        TaskList_FromWire_def TaskList_zero_def TaskListKind_enc TaskListKind_Read_def
        TaskListKind_FromWire_def laws)
qed

definition TaskList_Equals ::
  "TaskList option \<Rightarrow> TaskList option \<Rightarrow> bool" where
  "TaskList_Equals v rhs =
     (case v of None \<Rightarrow> rhs = None
      | Some v \<Rightarrow> (case rhs of None \<Rightarrow> False
        | Some rhs \<Rightarrow>
          if \<not> String_EqualsPtr (TaskList.Name v) (TaskList.Name rhs) then False else
          if \<not> TaskListKind_EqualsPtr (TaskList.Kind v) (TaskList.Kind rhs) then False else
          True))"

lemma TaskList_Equals_iff [simp]: "TaskList_Equals x y \<longleftrightarrow> x = y"
  by (cases x; cases y) (auto simp: TaskList_Equals_def)

record TaskListMetadata =
  MaxTasksPerSecond :: "float64 option"

definition TaskListMetadata_zero :: TaskListMetadata where
  "TaskListMetadata_zero = \<lparr>TaskListMetadata.MaxTasksPerSecond = None\<rparr>"

definition TaskListMetadata_ToWire ::
  "'v wire_api \<Rightarrow> TaskListMetadata \<Rightarrow> go_error + 'v" where
  "TaskListMetadata_ToWire W v =
     and_then (put_opt 10 (\<lambda>x. Inr (NewValueDouble W x)) (TaskListMetadata.MaxTasksPerSecond v) [])
       (\<lambda>fields.
     Inr (NewValueStruct W fields))"

definition TaskListMetadata_FromWire ::
  "'v wire_api \<Rightarrow> 'v \<Rightarrow> TaskListMetadata \<Rightarrow> go_error + TaskListMetadata" where
  "TaskListMetadata_FromWire W w v =
     foldM (\<lambda>v (fid, fval).
       if fid = 10 then
         if wire_api.Type W fval = TDouble
         then Inr (v\<lparr>TaskListMetadata.MaxTasksPerSecond := Some (GetDouble W fval)\<rparr>)
         else Inr v
       else Inr v) (GetStruct W w) v"

definition TaskListMetadata_Read :: "'v wire_api \<Rightarrow> 'v \<Rightarrow> go_error + TaskListMetadata" where
  "TaskListMetadata_Read W w = TaskListMetadata_FromWire W w TaskListMetadata_zero"

lemma TaskListMetadata_merge:
  "(case x of None \<Rightarrow> Inr \<lparr>TaskListMetadata.MaxTasksPerSecond = a0\<rparr> | Some y \<Rightarrow> Inr
      \<lparr>TaskListMetadata.MaxTasksPerSecond = b0 y\<rparr>) =
   Inr \<lparr>TaskListMetadata.MaxTasksPerSecond = (case x of None \<Rightarrow> a0 | Some y \<Rightarrow> b0 y)\<rparr>"
  by (cases x) simp_all

interpretation TaskListMetadata: thrift_message W
  "TaskListMetadata_ToWire W" "TaskListMetadata_FromWire W" TaskListMetadata_zero "\<lambda>_. True" for W
proof (rule thrift_messageI)
  fix x :: TaskListMetadata
  assume laws: "wire_laws W"
  show "\<exists>w. TaskListMetadata_ToWire W x = Inr w \<and> wire_api.Type W w = TStruct \<and>
      (Writable W w \<longleftrightarrow> (\<lambda>_. True) x) \<and> ((\<lambda>_. True) x \<longrightarrow> TaskListMetadata_FromWire W w
          TaskListMetadata_zero = Inr x)"
    by (cases x) (simp cong: option.case_cong add: codec_rules TaskListMetadata_merge
        TaskListMetadata_ToWire_def TaskListMetadata_FromWire_def TaskListMetadata_zero_def laws)
qed

definition TaskListMetadata_Equals ::
  "TaskListMetadata option \<Rightarrow> TaskListMetadata option \<Rightarrow> bool" where
  "TaskListMetadata_Equals v rhs =
     (case v of None \<Rightarrow> rhs = None
      | Some v \<Rightarrow> (case rhs of None \<Rightarrow> False
        | Some rhs \<Rightarrow>
          if \<not> Double_EqualsPtr (TaskListMetadata.MaxTasksPerSecond v)
              (TaskListMetadata.MaxTasksPerSecond rhs) then False else
          True))"

definition TaskListMetadata_comparable :: "TaskListMetadata \<Rightarrow> bool" where
  "TaskListMetadata_comparable v \<longleftrightarrow>
     if_set float64_ordinary (TaskListMetadata.MaxTasksPerSecond v)"

lemma TaskListMetadata_Equals_iff:
  "if_set TaskListMetadata_comparable x \<Longrightarrow> if_set TaskListMetadata_comparable y \<Longrightarrow>
      TaskListMetadata_Equals x y \<longleftrightarrow> x = y"
  by (cases x; cases y) (simp_all add: TaskListMetadata_Equals_def TaskListMetadata_comparable_def
      if_not_False,
    fastforce intro: TaskListMetadata.equality)

lemma TaskListMetadata_fields_equal [simp]:
  "if_set TaskListMetadata_comparable x \<Longrightarrow> if_set TaskListMetadata_comparable y \<Longrightarrow>
    both_set_and (\<lambda>x y. TaskListMetadata_Equals (Some x) (Some y)) x y \<longleftrightarrow> x = y"
  by (rule both_set_and_iff [where P = TaskListMetadata_comparable]) (simp_all add:
      TaskListMetadata_Equals_iff)

record WorkflowExecution =
  WorkflowId :: "string option"
  RunId :: "string option"

definition WorkflowExecution_zero :: WorkflowExecution where
  "WorkflowExecution_zero = \<lparr>WorkflowExecution.WorkflowId = None, WorkflowExecution.RunId = None\<rparr>"

definition WorkflowExecution_ToWire ::
  "'v wire_api \<Rightarrow> WorkflowExecution \<Rightarrow> go_error + 'v" where
  "WorkflowExecution_ToWire W v =
     and_then (put_opt 10 (\<lambda>x. Inr (NewValueString W x)) (WorkflowExecution.WorkflowId v) [])
       (\<lambda>fields.
     and_then (put_opt 20 (\<lambda>x. Inr (NewValueString W x)) (WorkflowExecution.RunId v) fields)
       (\<lambda>fields.
     Inr (NewValueStruct W fields)))"

definition WorkflowExecution_FromWire ::
  "'v wire_api \<Rightarrow> 'v \<Rightarrow> WorkflowExecution \<Rightarrow> go_error + WorkflowExecution" where
  "WorkflowExecution_FromWire W w v =
     foldM (\<lambda>v (fid, fval).
       if fid = 10 then
         if wire_api.Type W fval = TBinary
         then Inr (v\<lparr>WorkflowExecution.WorkflowId := Some (GetString W fval)\<rparr>)
         else Inr v
       else if fid = 20 then
         if wire_api.Type W fval = TBinary
         then Inr (v\<lparr>WorkflowExecution.RunId := Some (GetString W fval)\<rparr>)
         else Inr v
       else Inr v) (GetStruct W w) v"

definition WorkflowExecution_Read :: "'v wire_api \<Rightarrow> 'v \<Rightarrow> go_error + WorkflowExecution" where
  "WorkflowExecution_Read W w = WorkflowExecution_FromWire W w WorkflowExecution_zero"

lemma WorkflowExecution_merge:
  "(case x of None \<Rightarrow> Inr \<lparr>WorkflowExecution.WorkflowId = a0, WorkflowExecution.RunId = a1\<rparr> | Some y
      \<Rightarrow> Inr \<lparr>WorkflowExecution.WorkflowId = b0 y, WorkflowExecution.RunId = b1 y\<rparr>) =
   Inr \<lparr>WorkflowExecution.WorkflowId = (case x of None \<Rightarrow> a0 | Some y \<Rightarrow> b0 y),
       WorkflowExecution.RunId = (case x of None \<Rightarrow> a1 | Some y \<Rightarrow> b1 y)\<rparr>"
  by (cases x) simp_all

interpretation WorkflowExecution: thrift_message W
  "WorkflowExecution_ToWire W" "WorkflowExecution_FromWire W" WorkflowExecution_zero "\<lambda>_. True" for
      W
proof (rule thrift_messageI)
  fix x :: WorkflowExecution
  assume laws: "wire_laws W"
  show "\<exists>w. WorkflowExecution_ToWire W x = Inr w \<and> wire_api.Type W w = TStruct \<and>
      (Writable W w \<longleftrightarrow> (\<lambda>_. True) x) \<and> ((\<lambda>_. True) x \<longrightarrow> WorkflowExecution_FromWire W w
          WorkflowExecution_zero = Inr x)"
    by (cases x) (simp cong: option.case_cong add: codec_rules WorkflowExecution_merge
        WorkflowExecution_ToWire_def WorkflowExecution_FromWire_def WorkflowExecution_zero_def laws)
qed

definition WorkflowExecution_Equals ::
  "WorkflowExecution option \<Rightarrow> WorkflowExecution option \<Rightarrow> bool" where
  "WorkflowExecution_Equals v rhs =
     (case v of None \<Rightarrow> rhs = None
      | Some v \<Rightarrow> (case rhs of None \<Rightarrow> False
        | Some rhs \<Rightarrow>
          if \<not> String_EqualsPtr (WorkflowExecution.WorkflowId v) (WorkflowExecution.WorkflowId rhs)
              then False else
          if \<not> String_EqualsPtr (WorkflowExecution.RunId v) (WorkflowExecution.RunId rhs) then False
              else
          True))"

lemma WorkflowExecution_Equals_iff [simp]: "WorkflowExecution_Equals x y \<longleftrightarrow> x = y"
  by (cases x; cases y) (auto simp: WorkflowExecution_Equals_def)

record WorkflowType =
  Name :: "string option"

definition WorkflowType_zero :: WorkflowType where
  "WorkflowType_zero = \<lparr>WorkflowType.Name = None\<rparr>"

definition WorkflowType_ToWire ::
  "'v wire_api \<Rightarrow> WorkflowType \<Rightarrow> go_error + 'v" where
  "WorkflowType_ToWire W v =
     and_then (put_opt 10 (\<lambda>x. Inr (NewValueString W x)) (WorkflowType.Name v) [])
       (\<lambda>fields.
     Inr (NewValueStruct W fields))"

definition WorkflowType_FromWire ::
  "'v wire_api \<Rightarrow> 'v \<Rightarrow> WorkflowType \<Rightarrow> go_error + WorkflowType" where
  "WorkflowType_FromWire W w v =
     foldM (\<lambda>v (fid, fval).
       if fid = 10 then
         if wire_api.Type W fval = TBinary
         then Inr (v\<lparr>WorkflowType.Name := Some (GetString W fval)\<rparr>)
         else Inr v
       else Inr v) (GetStruct W w) v"

definition WorkflowType_Read :: "'v wire_api \<Rightarrow> 'v \<Rightarrow> go_error + WorkflowType" where
  "WorkflowType_Read W w = WorkflowType_FromWire W w WorkflowType_zero"

lemma WorkflowType_merge:
  "(case x of None \<Rightarrow> Inr \<lparr>WorkflowType.Name = a0\<rparr> | Some y \<Rightarrow> Inr \<lparr>WorkflowType.Name = b0 y\<rparr>) =
   Inr \<lparr>WorkflowType.Name = (case x of None \<Rightarrow> a0 | Some y \<Rightarrow> b0 y)\<rparr>"
  by (cases x) simp_all

interpretation WorkflowType: thrift_message W
  "WorkflowType_ToWire W" "WorkflowType_FromWire W" WorkflowType_zero "\<lambda>_. True" for W
proof (rule thrift_messageI)
  fix x :: WorkflowType
  assume laws: "wire_laws W"
  show "\<exists>w. WorkflowType_ToWire W x = Inr w \<and> wire_api.Type W w = TStruct \<and>
      (Writable W w \<longleftrightarrow> (\<lambda>_. True) x) \<and> ((\<lambda>_. True) x \<longrightarrow> WorkflowType_FromWire W w WorkflowType_zero =
          Inr x)"
    by (cases x) (simp cong: option.case_cong add: codec_rules WorkflowType_merge
        WorkflowType_ToWire_def WorkflowType_FromWire_def WorkflowType_zero_def laws)
qed

definition WorkflowType_Equals ::
  "WorkflowType option \<Rightarrow> WorkflowType option \<Rightarrow> bool" where
  "WorkflowType_Equals v rhs =
     (case v of None \<Rightarrow> rhs = None
      | Some v \<Rightarrow> (case rhs of None \<Rightarrow> False
        | Some rhs \<Rightarrow>
          if \<not> String_EqualsPtr (WorkflowType.Name v) (WorkflowType.Name rhs) then False else
          True))"

lemma WorkflowType_Equals_iff [simp]: "WorkflowType_Equals x y \<longleftrightarrow> x = y"
  by (cases x; cases y) (auto simp: WorkflowType_Equals_def)

end
