(* ===== verification/GoMessages.thy ===== *)
theory GoMessages
  imports GoTypes
begin

text \<open>
  The requests and responses of the activity task calls (proxy/gen/shared/shared.go), with their
  codecs and comparisons.
\<close>

record RecordActivityTaskHeartbeatRequest =
  TaskToken :: "bytes option"
  Details :: "bytes option"
  Identity :: "string option"

definition RecordActivityTaskHeartbeatRequest_zero :: RecordActivityTaskHeartbeatRequest where
  "RecordActivityTaskHeartbeatRequest_zero = \<lparr>RecordActivityTaskHeartbeatRequest.TaskToken = None,
      RecordActivityTaskHeartbeatRequest.Details = None, RecordActivityTaskHeartbeatRequest.Identity
      = None\<rparr>"

definition RecordActivityTaskHeartbeatRequest_ToWire ::
  "'v wire_api \<Rightarrow> RecordActivityTaskHeartbeatRequest \<Rightarrow> go_error + 'v" where
  "RecordActivityTaskHeartbeatRequest_ToWire W v =
     and_then (put_opt 10 (\<lambda>x. Inr (NewValueBinary W x))
         (RecordActivityTaskHeartbeatRequest.TaskToken v) [])
       (\<lambda>fields.
     and_then (put_opt 20 (\<lambda>x. Inr (NewValueBinary W x)) (RecordActivityTaskHeartbeatRequest.Details
         v) fields)
       (\<lambda>fields.
     and_then (put_opt 30 (\<lambda>x. Inr (NewValueString W x))
         (RecordActivityTaskHeartbeatRequest.Identity v) fields)
       (\<lambda>fields.
     Inr (NewValueStruct W fields))))"

definition RecordActivityTaskHeartbeatRequest_FromWire ::
  "'v wire_api \<Rightarrow> 'v \<Rightarrow> RecordActivityTaskHeartbeatRequest \<Rightarrow> go_error +
      RecordActivityTaskHeartbeatRequest" where
  "RecordActivityTaskHeartbeatRequest_FromWire W w v =
     foldM (\<lambda>v (fid, fval).
       if fid = 10 then
         if wire_api.Type W fval = TBinary
         then Inr (v\<lparr>RecordActivityTaskHeartbeatRequest.TaskToken := Some (GetBinary W fval)\<rparr>)
         else Inr v
       else if fid = 20 then
         if wire_api.Type W fval = TBinary
         then Inr (v\<lparr>RecordActivityTaskHeartbeatRequest.Details := Some (GetBinary W fval)\<rparr>)
         else Inr v
       else if fid = 30 then
         if wire_api.Type W fval = TBinary
         then Inr (v\<lparr>RecordActivityTaskHeartbeatRequest.Identity := Some (GetString W fval)\<rparr>)
         else Inr v
       else Inr v) (GetStruct W w) v"

definition RecordActivityTaskHeartbeatRequest_Read :: "'v wire_api \<Rightarrow> 'v \<Rightarrow> go_error +
    RecordActivityTaskHeartbeatRequest" where
  "RecordActivityTaskHeartbeatRequest_Read W w = RecordActivityTaskHeartbeatRequest_FromWire W w
      RecordActivityTaskHeartbeatRequest_zero"

lemma RecordActivityTaskHeartbeatRequest_merge:
  "(case x of None \<Rightarrow> Inr \<lparr>RecordActivityTaskHeartbeatRequest.TaskToken = a0,
      RecordActivityTaskHeartbeatRequest.Details = a1, RecordActivityTaskHeartbeatRequest.Identity =
      a2\<rparr> | Some y \<Rightarrow> Inr \<lparr>RecordActivityTaskHeartbeatRequest.TaskToken = b0 y,
      RecordActivityTaskHeartbeatRequest.Details = b1 y, RecordActivityTaskHeartbeatRequest.Identity
      = b2 y\<rparr>) =
   Inr \<lparr>RecordActivityTaskHeartbeatRequest.TaskToken = (case x of None \<Rightarrow> a0 | Some y \<Rightarrow> b0 y),
       RecordActivityTaskHeartbeatRequest.Details = (case x of None \<Rightarrow> a1 | Some y \<Rightarrow> b1 y),
       RecordActivityTaskHeartbeatRequest.Identity = (case x of None \<Rightarrow> a2 | Some y \<Rightarrow> b2 y)\<rparr>"
  by (cases x) simp_all

interpretation RecordActivityTaskHeartbeatRequest: thrift_message W
  "RecordActivityTaskHeartbeatRequest_ToWire W" "RecordActivityTaskHeartbeatRequest_FromWire W"
      RecordActivityTaskHeartbeatRequest_zero "\<lambda>_. True" for W
proof (rule thrift_messageI)
  fix x :: RecordActivityTaskHeartbeatRequest
  assume laws: "wire_laws W"
  show "\<exists>w. RecordActivityTaskHeartbeatRequest_ToWire W x = Inr w \<and> wire_api.Type W w = TStruct \<and>
      (Writable W w \<longleftrightarrow> (\<lambda>_. True) x) \<and> ((\<lambda>_. True) x \<longrightarrow> RecordActivityTaskHeartbeatRequest_FromWire W
          w RecordActivityTaskHeartbeatRequest_zero = Inr x)"
    by (cases x) (simp cong: option.case_cong add: codec_rules
        RecordActivityTaskHeartbeatRequest_merge RecordActivityTaskHeartbeatRequest_ToWire_def
        RecordActivityTaskHeartbeatRequest_FromWire_def RecordActivityTaskHeartbeatRequest_zero_def
        laws)
qed

definition RecordActivityTaskHeartbeatRequest_Equals ::
  "RecordActivityTaskHeartbeatRequest option \<Rightarrow> RecordActivityTaskHeartbeatRequest option \<Rightarrow> bool"
      where
  "RecordActivityTaskHeartbeatRequest_Equals v rhs =
     (case v of None \<Rightarrow> rhs = None
      | Some v \<Rightarrow> (case rhs of None \<Rightarrow> False
        | Some rhs \<Rightarrow>
          if \<not> both_set_and (=) (RecordActivityTaskHeartbeatRequest.TaskToken v)
              (RecordActivityTaskHeartbeatRequest.TaskToken rhs) then False else
          if \<not> both_set_and (=) (RecordActivityTaskHeartbeatRequest.Details v)
              (RecordActivityTaskHeartbeatRequest.Details rhs) then False else
          if \<not> String_EqualsPtr (RecordActivityTaskHeartbeatRequest.Identity v)
              (RecordActivityTaskHeartbeatRequest.Identity rhs) then False else
          True))"

lemma RecordActivityTaskHeartbeatRequest_Equals_iff [simp]:
    "RecordActivityTaskHeartbeatRequest_Equals x y \<longleftrightarrow> x = y"
  by (cases x; cases y) (auto simp: RecordActivityTaskHeartbeatRequest_Equals_def)

record RespondActivityTaskCompletedRequest =
  TaskToken :: "bytes option"
  Result :: "bytes option"
  Identity :: "string option"

definition RespondActivityTaskCompletedRequest_zero :: RespondActivityTaskCompletedRequest where
  "RespondActivityTaskCompletedRequest_zero = \<lparr>RespondActivityTaskCompletedRequest.TaskToken = None,
      RespondActivityTaskCompletedRequest.Result = None,
      RespondActivityTaskCompletedRequest.Identity = None\<rparr>"

definition RespondActivityTaskCompletedRequest_ToWire ::
  "'v wire_api \<Rightarrow> RespondActivityTaskCompletedRequest \<Rightarrow> go_error + 'v" where
  "RespondActivityTaskCompletedRequest_ToWire W v =
     and_then (put_opt 10 (\<lambda>x. Inr (NewValueBinary W x))
         (RespondActivityTaskCompletedRequest.TaskToken v) [])
       (\<lambda>fields.
     and_then (put_opt 20 (\<lambda>x. Inr (NewValueBinary W x)) (RespondActivityTaskCompletedRequest.Result
         v) fields)
       (\<lambda>fields.
     and_then (put_opt 30 (\<lambda>x. Inr (NewValueString W x))
         (RespondActivityTaskCompletedRequest.Identity v) fields)
       (\<lambda>fields.
     Inr (NewValueStruct W fields))))"

definition RespondActivityTaskCompletedRequest_FromWire ::
  "'v wire_api \<Rightarrow> 'v \<Rightarrow> RespondActivityTaskCompletedRequest \<Rightarrow> go_error +
      RespondActivityTaskCompletedRequest" where
  "RespondActivityTaskCompletedRequest_FromWire W w v =
     foldM (\<lambda>v (fid, fval).
       if fid = 10 then
         if wire_api.Type W fval = TBinary
         then Inr (v\<lparr>RespondActivityTaskCompletedRequest.TaskToken := Some (GetBinary W fval)\<rparr>)
         else Inr v
       else if fid = 20 then
         if wire_api.Type W fval = TBinary
         then Inr (v\<lparr>RespondActivityTaskCompletedRequest.Result := Some (GetBinary W fval)\<rparr>)
         else Inr v
       else if fid = 30 then
         if wire_api.Type W fval = TBinary
         then Inr (v\<lparr>RespondActivityTaskCompletedRequest.Identity := Some (GetString W fval)\<rparr>)
         else Inr v
       else Inr v) (GetStruct W w) v"

definition RespondActivityTaskCompletedRequest_Read :: "'v wire_api \<Rightarrow> 'v \<Rightarrow> go_error +
    RespondActivityTaskCompletedRequest" where
  "RespondActivityTaskCompletedRequest_Read W w = RespondActivityTaskCompletedRequest_FromWire W w
      RespondActivityTaskCompletedRequest_zero"

lemma RespondActivityTaskCompletedRequest_merge:
  "(case x of None \<Rightarrow> Inr \<lparr>RespondActivityTaskCompletedRequest.TaskToken = a0,
      RespondActivityTaskCompletedRequest.Result = a1, RespondActivityTaskCompletedRequest.Identity
      = a2\<rparr> | Some y \<Rightarrow> Inr \<lparr>RespondActivityTaskCompletedRequest.TaskToken = b0 y,
      RespondActivityTaskCompletedRequest.Result = b1 y,
      RespondActivityTaskCompletedRequest.Identity = b2 y\<rparr>) =
   Inr \<lparr>RespondActivityTaskCompletedRequest.TaskToken = (case x of None \<Rightarrow> a0 | Some y \<Rightarrow> b0 y),
       RespondActivityTaskCompletedRequest.Result = (case x of None \<Rightarrow> a1 | Some y \<Rightarrow> b1 y),
       RespondActivityTaskCompletedRequest.Identity = (case x of None \<Rightarrow> a2 | Some y \<Rightarrow> b2 y)\<rparr>"
  by (cases x) simp_all

interpretation RespondActivityTaskCompletedRequest: thrift_message W
  "RespondActivityTaskCompletedRequest_ToWire W" "RespondActivityTaskCompletedRequest_FromWire W"
      RespondActivityTaskCompletedRequest_zero "\<lambda>_. True" for W
proof (rule thrift_messageI)
  fix x :: RespondActivityTaskCompletedRequest
  assume laws: "wire_laws W"
  show "\<exists>w. RespondActivityTaskCompletedRequest_ToWire W x = Inr w \<and> wire_api.Type W w = TStruct \<and>
      (Writable W w \<longleftrightarrow> (\<lambda>_. True) x) \<and> ((\<lambda>_. True) x \<longrightarrow> RespondActivityTaskCompletedRequest_FromWire W
          w RespondActivityTaskCompletedRequest_zero = Inr x)"
    by (cases x) (simp cong: option.case_cong add: codec_rules
        RespondActivityTaskCompletedRequest_merge RespondActivityTaskCompletedRequest_ToWire_def
        RespondActivityTaskCompletedRequest_FromWire_def
        RespondActivityTaskCompletedRequest_zero_def laws)
qed

definition RespondActivityTaskCompletedRequest_Equals ::
  "RespondActivityTaskCompletedRequest option \<Rightarrow> RespondActivityTaskCompletedRequest option \<Rightarrow> bool"
      where
  "RespondActivityTaskCompletedRequest_Equals v rhs =
     (case v of None \<Rightarrow> rhs = None
      | Some v \<Rightarrow> (case rhs of None \<Rightarrow> False
        | Some rhs \<Rightarrow>
          if \<not> both_set_and (=) (RespondActivityTaskCompletedRequest.TaskToken v)
              (RespondActivityTaskCompletedRequest.TaskToken rhs) then False else
          if \<not> both_set_and (=) (RespondActivityTaskCompletedRequest.Result v)
              (RespondActivityTaskCompletedRequest.Result rhs) then False else
          if \<not> String_EqualsPtr (RespondActivityTaskCompletedRequest.Identity v)
              (RespondActivityTaskCompletedRequest.Identity rhs) then False else
          True))"

lemma RespondActivityTaskCompletedRequest_Equals_iff [simp]:
    "RespondActivityTaskCompletedRequest_Equals x y \<longleftrightarrow> x = y"
  by (cases x; cases y) (auto simp: RespondActivityTaskCompletedRequest_Equals_def)

record RespondActivityTaskFailedRequest =
  TaskToken :: "bytes option"
  Reason :: "string option"
  Details :: "bytes option"
  Identity :: "string option"

definition RespondActivityTaskFailedRequest_zero :: RespondActivityTaskFailedRequest where
  "RespondActivityTaskFailedRequest_zero = \<lparr>RespondActivityTaskFailedRequest.TaskToken = None,
      RespondActivityTaskFailedRequest.Reason = None, RespondActivityTaskFailedRequest.Details =
      None, RespondActivityTaskFailedRequest.Identity = None\<rparr>"

definition RespondActivityTaskFailedRequest_ToWire ::
  "'v wire_api \<Rightarrow> RespondActivityTaskFailedRequest \<Rightarrow> go_error + 'v" where
  "RespondActivityTaskFailedRequest_ToWire W v =
     and_then (put_opt 10 (\<lambda>x. Inr (NewValueBinary W x)) (RespondActivityTaskFailedRequest.TaskToken
         v) [])
       (\<lambda>fields.
     and_then (put_opt 20 (\<lambda>x. Inr (NewValueString W x)) (RespondActivityTaskFailedRequest.Reason v)
         fields)
       (\<lambda>fields.
     and_then (put_opt 30 (\<lambda>x. Inr (NewValueBinary W x)) (RespondActivityTaskFailedRequest.Details
         v) fields)
       (\<lambda>fields.
     and_then (put_opt 40 (\<lambda>x. Inr (NewValueString W x)) (RespondActivityTaskFailedRequest.Identity
         v) fields)
       (\<lambda>fields.
     Inr (NewValueStruct W fields)))))"

definition RespondActivityTaskFailedRequest_FromWire ::
  "'v wire_api \<Rightarrow> 'v \<Rightarrow> RespondActivityTaskFailedRequest \<Rightarrow> go_error +
      RespondActivityTaskFailedRequest" where
  "RespondActivityTaskFailedRequest_FromWire W w v =
     foldM (\<lambda>v (fid, fval).
       if fid = 10 then
         if wire_api.Type W fval = TBinary
         then Inr (v\<lparr>RespondActivityTaskFailedRequest.TaskToken := Some (GetBinary W fval)\<rparr>)
         else Inr v
       else if fid = 20 then
         if wire_api.Type W fval = TBinary
         then Inr (v\<lparr>RespondActivityTaskFailedRequest.Reason := Some (GetString W fval)\<rparr>)
         else Inr v
       else if fid = 30 then
         if wire_api.Type W fval = TBinary
         then Inr (v\<lparr>RespondActivityTaskFailedRequest.Details := Some (GetBinary W fval)\<rparr>)
         else Inr v
       else if fid = 40 then
         if wire_api.Type W fval = TBinary
         then Inr (v\<lparr>RespondActivityTaskFailedRequest.Identity := Some (GetString W fval)\<rparr>)
         else Inr v
       else Inr v) (GetStruct W w) v"

definition RespondActivityTaskFailedRequest_Read :: "'v wire_api \<Rightarrow> 'v \<Rightarrow> go_error +
    RespondActivityTaskFailedRequest" where
  "RespondActivityTaskFailedRequest_Read W w = RespondActivityTaskFailedRequest_FromWire W w
      RespondActivityTaskFailedRequest_zero"

lemma RespondActivityTaskFailedRequest_merge:
  "(case x of None \<Rightarrow> Inr \<lparr>RespondActivityTaskFailedRequest.TaskToken = a0,
      RespondActivityTaskFailedRequest.Reason = a1, RespondActivityTaskFailedRequest.Details = a2,
      RespondActivityTaskFailedRequest.Identity = a3\<rparr> | Some y \<Rightarrow> Inr
      \<lparr>RespondActivityTaskFailedRequest.TaskToken = b0 y, RespondActivityTaskFailedRequest.Reason =
      b1 y, RespondActivityTaskFailedRequest.Details = b2 y,
      RespondActivityTaskFailedRequest.Identity = b3 y\<rparr>) =
   Inr \<lparr>RespondActivityTaskFailedRequest.TaskToken = (case x of None \<Rightarrow> a0 | Some y \<Rightarrow> b0 y),
       RespondActivityTaskFailedRequest.Reason = (case x of None \<Rightarrow> a1 | Some y \<Rightarrow> b1 y),
       RespondActivityTaskFailedRequest.Details = (case x of None \<Rightarrow> a2 | Some y \<Rightarrow> b2 y),
       RespondActivityTaskFailedRequest.Identity = (case x of None \<Rightarrow> a3 | Some y \<Rightarrow> b3 y)\<rparr>"
  by (cases x) simp_all

interpretation RespondActivityTaskFailedRequest: thrift_message W
  "RespondActivityTaskFailedRequest_ToWire W" "RespondActivityTaskFailedRequest_FromWire W"
      RespondActivityTaskFailedRequest_zero "\<lambda>_. True" for W
proof (rule thrift_messageI)
  fix x :: RespondActivityTaskFailedRequest
  assume laws: "wire_laws W"
  show "\<exists>w. RespondActivityTaskFailedRequest_ToWire W x = Inr w \<and> wire_api.Type W w = TStruct \<and>
      (Writable W w \<longleftrightarrow> (\<lambda>_. True) x) \<and> ((\<lambda>_. True) x \<longrightarrow> RespondActivityTaskFailedRequest_FromWire W w
          RespondActivityTaskFailedRequest_zero = Inr x)"
    by (cases x) (simp cong: option.case_cong add: codec_rules
        RespondActivityTaskFailedRequest_merge RespondActivityTaskFailedRequest_ToWire_def
        RespondActivityTaskFailedRequest_FromWire_def RespondActivityTaskFailedRequest_zero_def
        laws)
qed

definition RespondActivityTaskFailedRequest_Equals ::
  "RespondActivityTaskFailedRequest option \<Rightarrow> RespondActivityTaskFailedRequest option \<Rightarrow> bool" where
  "RespondActivityTaskFailedRequest_Equals v rhs =
     (case v of None \<Rightarrow> rhs = None
      | Some v \<Rightarrow> (case rhs of None \<Rightarrow> False
        | Some rhs \<Rightarrow>
          if \<not> both_set_and (=) (RespondActivityTaskFailedRequest.TaskToken v)
              (RespondActivityTaskFailedRequest.TaskToken rhs) then False else
          if \<not> String_EqualsPtr (RespondActivityTaskFailedRequest.Reason v)
              (RespondActivityTaskFailedRequest.Reason rhs) then False else
          if \<not> both_set_and (=) (RespondActivityTaskFailedRequest.Details v)
              (RespondActivityTaskFailedRequest.Details rhs) then False else
          if \<not> String_EqualsPtr (RespondActivityTaskFailedRequest.Identity v)
              (RespondActivityTaskFailedRequest.Identity rhs) then False else
          True))"

lemma RespondActivityTaskFailedRequest_Equals_iff [simp]: "RespondActivityTaskFailedRequest_Equals x
    y \<longleftrightarrow> x = y"
  by (cases x; cases y) (auto simp: RespondActivityTaskFailedRequest_Equals_def)

record RespondActivityTaskCanceledRequest =
  TaskToken :: "bytes option"
  Details :: "bytes option"
  Identity :: "string option"

definition RespondActivityTaskCanceledRequest_zero :: RespondActivityTaskCanceledRequest where
  "RespondActivityTaskCanceledRequest_zero = \<lparr>RespondActivityTaskCanceledRequest.TaskToken = None,
      RespondActivityTaskCanceledRequest.Details = None, RespondActivityTaskCanceledRequest.Identity
      = None\<rparr>"

definition RespondActivityTaskCanceledRequest_ToWire ::
  "'v wire_api \<Rightarrow> RespondActivityTaskCanceledRequest \<Rightarrow> go_error + 'v" where
  "RespondActivityTaskCanceledRequest_ToWire W v =
     and_then (put_opt 10 (\<lambda>x. Inr (NewValueBinary W x))
         (RespondActivityTaskCanceledRequest.TaskToken v) [])
       (\<lambda>fields.
     and_then (put_opt 20 (\<lambda>x. Inr (NewValueBinary W x)) (RespondActivityTaskCanceledRequest.Details
         v) fields)
       (\<lambda>fields.
     and_then (put_opt 30 (\<lambda>x. Inr (NewValueString W x))
         (RespondActivityTaskCanceledRequest.Identity v) fields)
       (\<lambda>fields.
     Inr (NewValueStruct W fields))))"

definition RespondActivityTaskCanceledRequest_FromWire ::
  "'v wire_api \<Rightarrow> 'v \<Rightarrow> RespondActivityTaskCanceledRequest \<Rightarrow> go_error +
      RespondActivityTaskCanceledRequest" where
  "RespondActivityTaskCanceledRequest_FromWire W w v =
     foldM (\<lambda>v (fid, fval).
       if fid = 10 then
         if wire_api.Type W fval = TBinary
         then Inr (v\<lparr>RespondActivityTaskCanceledRequest.TaskToken := Some (GetBinary W fval)\<rparr>)
         else Inr v
       else if fid = 20 then
         if wire_api.Type W fval = TBinary
         then Inr (v\<lparr>RespondActivityTaskCanceledRequest.Details := Some (GetBinary W fval)\<rparr>)
         else Inr v
       else if fid = 30 then
         if wire_api.Type W fval = TBinary
         then Inr (v\<lparr>RespondActivityTaskCanceledRequest.Identity := Some (GetString W fval)\<rparr>)
         else Inr v
       else Inr v) (GetStruct W w) v"

definition RespondActivityTaskCanceledRequest_Read :: "'v wire_api \<Rightarrow> 'v \<Rightarrow> go_error +
    RespondActivityTaskCanceledRequest" where
  "RespondActivityTaskCanceledRequest_Read W w = RespondActivityTaskCanceledRequest_FromWire W w
      RespondActivityTaskCanceledRequest_zero"

lemma RespondActivityTaskCanceledRequest_merge:
  "(case x of None \<Rightarrow> Inr \<lparr>RespondActivityTaskCanceledRequest.TaskToken = a0,
      RespondActivityTaskCanceledRequest.Details = a1, RespondActivityTaskCanceledRequest.Identity =
      a2\<rparr> | Some y \<Rightarrow> Inr \<lparr>RespondActivityTaskCanceledRequest.TaskToken = b0 y,
      RespondActivityTaskCanceledRequest.Details = b1 y, RespondActivityTaskCanceledRequest.Identity
      = b2 y\<rparr>) =
   Inr \<lparr>RespondActivityTaskCanceledRequest.TaskToken = (case x of None \<Rightarrow> a0 | Some y \<Rightarrow> b0 y),
       RespondActivityTaskCanceledRequest.Details = (case x of None \<Rightarrow> a1 | Some y \<Rightarrow> b1 y),
       RespondActivityTaskCanceledRequest.Identity = (case x of None \<Rightarrow> a2 | Some y \<Rightarrow> b2 y)\<rparr>"
  by (cases x) simp_all

interpretation RespondActivityTaskCanceledRequest: thrift_message W
  "RespondActivityTaskCanceledRequest_ToWire W" "RespondActivityTaskCanceledRequest_FromWire W"
      RespondActivityTaskCanceledRequest_zero "\<lambda>_. True" for W
proof (rule thrift_messageI)
  fix x :: RespondActivityTaskCanceledRequest
  assume laws: "wire_laws W"
  show "\<exists>w. RespondActivityTaskCanceledRequest_ToWire W x = Inr w \<and> wire_api.Type W w = TStruct \<and>
      (Writable W w \<longleftrightarrow> (\<lambda>_. True) x) \<and> ((\<lambda>_. True) x \<longrightarrow> RespondActivityTaskCanceledRequest_FromWire W
          w RespondActivityTaskCanceledRequest_zero = Inr x)"
    by (cases x) (simp cong: option.case_cong add: codec_rules
        RespondActivityTaskCanceledRequest_merge RespondActivityTaskCanceledRequest_ToWire_def
        RespondActivityTaskCanceledRequest_FromWire_def RespondActivityTaskCanceledRequest_zero_def
        laws)
qed

definition RespondActivityTaskCanceledRequest_Equals ::
  "RespondActivityTaskCanceledRequest option \<Rightarrow> RespondActivityTaskCanceledRequest option \<Rightarrow> bool"
      where
  "RespondActivityTaskCanceledRequest_Equals v rhs =
     (case v of None \<Rightarrow> rhs = None
      | Some v \<Rightarrow> (case rhs of None \<Rightarrow> False
        | Some rhs \<Rightarrow>
          if \<not> both_set_and (=) (RespondActivityTaskCanceledRequest.TaskToken v)
              (RespondActivityTaskCanceledRequest.TaskToken rhs) then False else
          if \<not> both_set_and (=) (RespondActivityTaskCanceledRequest.Details v)
              (RespondActivityTaskCanceledRequest.Details rhs) then False else
          if \<not> String_EqualsPtr (RespondActivityTaskCanceledRequest.Identity v)
              (RespondActivityTaskCanceledRequest.Identity rhs) then False else
          True))"

lemma RespondActivityTaskCanceledRequest_Equals_iff [simp]:
    "RespondActivityTaskCanceledRequest_Equals x y \<longleftrightarrow> x = y"
  by (cases x; cases y) (auto simp: RespondActivityTaskCanceledRequest_Equals_def)

record RecordActivityTaskHeartbeatResponse =
  CancelRequested :: "bool option"

definition RecordActivityTaskHeartbeatResponse_zero :: RecordActivityTaskHeartbeatResponse where
  "RecordActivityTaskHeartbeatResponse_zero = \<lparr>RecordActivityTaskHeartbeatResponse.CancelRequested =
      None\<rparr>"

definition RecordActivityTaskHeartbeatResponse_ToWire ::
  "'v wire_api \<Rightarrow> RecordActivityTaskHeartbeatResponse \<Rightarrow> go_error + 'v" where
  "RecordActivityTaskHeartbeatResponse_ToWire W v =
     and_then (put_opt 10 (\<lambda>x. Inr (NewValueBool W x))
         (RecordActivityTaskHeartbeatResponse.CancelRequested v) [])
       (\<lambda>fields.
     Inr (NewValueStruct W fields))"

definition RecordActivityTaskHeartbeatResponse_FromWire ::
  "'v wire_api \<Rightarrow> 'v \<Rightarrow> RecordActivityTaskHeartbeatResponse \<Rightarrow> go_error +
      RecordActivityTaskHeartbeatResponse" where
  "RecordActivityTaskHeartbeatResponse_FromWire W w v =
     foldM (\<lambda>v (fid, fval).
       if fid = 10 then
         if wire_api.Type W fval = TBool
         then Inr (v\<lparr>RecordActivityTaskHeartbeatResponse.CancelRequested := Some (GetBool W fval)\<rparr>)
         else Inr v
       else Inr v) (GetStruct W w) v"

definition RecordActivityTaskHeartbeatResponse_Read :: "'v wire_api \<Rightarrow> 'v \<Rightarrow> go_error +
    RecordActivityTaskHeartbeatResponse" where
  "RecordActivityTaskHeartbeatResponse_Read W w = RecordActivityTaskHeartbeatResponse_FromWire W w
      RecordActivityTaskHeartbeatResponse_zero"

lemma RecordActivityTaskHeartbeatResponse_merge:
  "(case x of None \<Rightarrow> Inr \<lparr>RecordActivityTaskHeartbeatResponse.CancelRequested = a0\<rparr> | Some y \<Rightarrow> Inr
      \<lparr>RecordActivityTaskHeartbeatResponse.CancelRequested = b0 y\<rparr>) =
   Inr \<lparr>RecordActivityTaskHeartbeatResponse.CancelRequested = (case x of None \<Rightarrow> a0 | Some y \<Rightarrow> b0
       y)\<rparr>"
  by (cases x) simp_all

interpretation RecordActivityTaskHeartbeatResponse: thrift_message W
  "RecordActivityTaskHeartbeatResponse_ToWire W" "RecordActivityTaskHeartbeatResponse_FromWire W"
      RecordActivityTaskHeartbeatResponse_zero "\<lambda>_. True" for W
proof (rule thrift_messageI)
  fix x :: RecordActivityTaskHeartbeatResponse
  assume laws: "wire_laws W"
  show "\<exists>w. RecordActivityTaskHeartbeatResponse_ToWire W x = Inr w \<and> wire_api.Type W w = TStruct \<and>
      (Writable W w \<longleftrightarrow> (\<lambda>_. True) x) \<and> ((\<lambda>_. True) x \<longrightarrow> RecordActivityTaskHeartbeatResponse_FromWire W
          w RecordActivityTaskHeartbeatResponse_zero = Inr x)"
    by (cases x) (simp cong: option.case_cong add: codec_rules
        RecordActivityTaskHeartbeatResponse_merge RecordActivityTaskHeartbeatResponse_ToWire_def
        RecordActivityTaskHeartbeatResponse_FromWire_def
        RecordActivityTaskHeartbeatResponse_zero_def laws)
qed

definition RecordActivityTaskHeartbeatResponse_Equals ::
  "RecordActivityTaskHeartbeatResponse option \<Rightarrow> RecordActivityTaskHeartbeatResponse option \<Rightarrow> bool"
      where
  "RecordActivityTaskHeartbeatResponse_Equals v rhs =
     (case v of None \<Rightarrow> rhs = None
      | Some v \<Rightarrow> (case rhs of None \<Rightarrow> False
        | Some rhs \<Rightarrow>
          if \<not> Bool_EqualsPtr (RecordActivityTaskHeartbeatResponse.CancelRequested v)
              (RecordActivityTaskHeartbeatResponse.CancelRequested rhs) then False else
          True))"

lemma RecordActivityTaskHeartbeatResponse_Equals_iff [simp]:
    "RecordActivityTaskHeartbeatResponse_Equals x y \<longleftrightarrow> x = y"
  by (cases x; cases y) (auto simp: RecordActivityTaskHeartbeatResponse_Equals_def)

record PollForActivityTaskRequest =
  Domain :: "string option"
  TaskList :: "TaskList option"
  Identity :: "string option"
  TaskListMetadata :: "TaskListMetadata option"

definition PollForActivityTaskRequest_zero :: PollForActivityTaskRequest where
  "PollForActivityTaskRequest_zero = \<lparr>PollForActivityTaskRequest.Domain = None,
      PollForActivityTaskRequest.TaskList = None, PollForActivityTaskRequest.Identity = None,
      PollForActivityTaskRequest.TaskListMetadata = None\<rparr>"

definition PollForActivityTaskRequest_ToWire ::
  "'v wire_api \<Rightarrow> PollForActivityTaskRequest \<Rightarrow> go_error + 'v" where
  "PollForActivityTaskRequest_ToWire W v =
     and_then (put_opt 10 (\<lambda>x. Inr (NewValueString W x)) (PollForActivityTaskRequest.Domain v) [])
       (\<lambda>fields.
     and_then (put_opt 20 (TaskList_ToWire W) (PollForActivityTaskRequest.TaskList v) fields)
       (\<lambda>fields.
     and_then (put_opt 30 (\<lambda>x. Inr (NewValueString W x)) (PollForActivityTaskRequest.Identity v)
         fields)
       (\<lambda>fields.
     and_then (put_opt 40 (TaskListMetadata_ToWire W) (PollForActivityTaskRequest.TaskListMetadata
         v) fields)
       (\<lambda>fields.
     Inr (NewValueStruct W fields)))))"

definition PollForActivityTaskRequest_FromWire ::
  "'v wire_api \<Rightarrow> 'v \<Rightarrow> PollForActivityTaskRequest \<Rightarrow> go_error + PollForActivityTaskRequest" where
  "PollForActivityTaskRequest_FromWire W w v =
     foldM (\<lambda>v (fid, fval).
       if fid = 10 then
         if wire_api.Type W fval = TBinary
         then Inr (v\<lparr>PollForActivityTaskRequest.Domain := Some (GetString W fval)\<rparr>)
         else Inr v
       else if fid = 20 then
         if wire_api.Type W fval = TStruct
         then and_then (TaskList_Read W fval) (\<lambda>x. Inr (v\<lparr>PollForActivityTaskRequest.TaskList :=
             Some x\<rparr>))
         else Inr v
       else if fid = 30 then
         if wire_api.Type W fval = TBinary
         then Inr (v\<lparr>PollForActivityTaskRequest.Identity := Some (GetString W fval)\<rparr>)
         else Inr v
       else if fid = 40 then
         if wire_api.Type W fval = TStruct
         then and_then (TaskListMetadata_Read W fval) (\<lambda>x. Inr
             (v\<lparr>PollForActivityTaskRequest.TaskListMetadata := Some x\<rparr>))
         else Inr v
       else Inr v) (GetStruct W w) v"

definition PollForActivityTaskRequest_Read :: "'v wire_api \<Rightarrow> 'v \<Rightarrow> go_error +
    PollForActivityTaskRequest" where
  "PollForActivityTaskRequest_Read W w = PollForActivityTaskRequest_FromWire W w
      PollForActivityTaskRequest_zero"

lemma PollForActivityTaskRequest_merge:
  "(case x of None \<Rightarrow> Inr \<lparr>PollForActivityTaskRequest.Domain = a0,
      PollForActivityTaskRequest.TaskList = a1, PollForActivityTaskRequest.Identity = a2,
      PollForActivityTaskRequest.TaskListMetadata = a3\<rparr> | Some y \<Rightarrow> Inr
      \<lparr>PollForActivityTaskRequest.Domain = b0 y, PollForActivityTaskRequest.TaskList = b1 y,
      PollForActivityTaskRequest.Identity = b2 y, PollForActivityTaskRequest.TaskListMetadata = b3
      y\<rparr>) =
   Inr \<lparr>PollForActivityTaskRequest.Domain = (case x of None \<Rightarrow> a0 | Some y \<Rightarrow> b0 y),
       PollForActivityTaskRequest.TaskList = (case x of None \<Rightarrow> a1 | Some y \<Rightarrow> b1 y),
       PollForActivityTaskRequest.Identity = (case x of None \<Rightarrow> a2 | Some y \<Rightarrow> b2 y),
       PollForActivityTaskRequest.TaskListMetadata = (case x of None \<Rightarrow> a3 | Some y \<Rightarrow> b3 y)\<rparr>"
  by (cases x) simp_all

interpretation PollForActivityTaskRequest: thrift_message W
  "PollForActivityTaskRequest_ToWire W" "PollForActivityTaskRequest_FromWire W"
      PollForActivityTaskRequest_zero "\<lambda>_. True" for W
proof (rule thrift_messageI)
  fix x :: PollForActivityTaskRequest
  assume laws: "wire_laws W"
  obtain enc0 where e0: "TaskList_ToWire W = (\<lambda>x. Inr (enc0 x))"
      "\<And>x. wire_api.Type W (enc0 x) = TStruct"
      "\<And>x. Writable W (enc0 x) \<longleftrightarrow> (\<lambda>_. True) x"
      "\<And>x. (\<lambda>_. True) x \<Longrightarrow> TaskList_FromWire W (enc0 x) TaskList_zero = Inr x"
    by (rule TaskList.encoder [OF laws]) (rule that)
  obtain enc1 where e1: "TaskListMetadata_ToWire W = (\<lambda>x. Inr (enc1 x))"
      "\<And>x. wire_api.Type W (enc1 x) = TStruct"
      "\<And>x. Writable W (enc1 x) \<longleftrightarrow> (\<lambda>_. True) x"
      "\<And>x. (\<lambda>_. True) x \<Longrightarrow> TaskListMetadata_FromWire W (enc1 x) TaskListMetadata_zero = Inr x"
    by (rule TaskListMetadata.encoder [OF laws]) (rule that)
  show "\<exists>w. PollForActivityTaskRequest_ToWire W x = Inr w \<and> wire_api.Type W w = TStruct \<and>
      (Writable W w \<longleftrightarrow> (\<lambda>_. True) x) \<and> ((\<lambda>_. True) x \<longrightarrow> PollForActivityTaskRequest_FromWire W w
          PollForActivityTaskRequest_zero = Inr x)"
    by (cases x) (simp cong: option.case_cong add: codec_rules PollForActivityTaskRequest_merge
        PollForActivityTaskRequest_ToWire_def PollForActivityTaskRequest_FromWire_def
        PollForActivityTaskRequest_zero_def TaskList_Read_def TaskListMetadata_Read_def laws e0 e1)
qed

definition PollForActivityTaskRequest_Equals ::
  "PollForActivityTaskRequest option \<Rightarrow> PollForActivityTaskRequest option \<Rightarrow> bool" where
  "PollForActivityTaskRequest_Equals v rhs =
     (case v of None \<Rightarrow> rhs = None
      | Some v \<Rightarrow> (case rhs of None \<Rightarrow> False
        | Some rhs \<Rightarrow>
          if \<not> String_EqualsPtr (PollForActivityTaskRequest.Domain v)
              (PollForActivityTaskRequest.Domain rhs) then False else
          if \<not> both_set_and (\<lambda>x y. TaskList_Equals (Some x) (Some y))
              (PollForActivityTaskRequest.TaskList v) (PollForActivityTaskRequest.TaskList rhs) then
              False else
          if \<not> String_EqualsPtr (PollForActivityTaskRequest.Identity v)
              (PollForActivityTaskRequest.Identity rhs) then False else
          if \<not> both_set_and (\<lambda>x y. TaskListMetadata_Equals (Some x) (Some y))
              (PollForActivityTaskRequest.TaskListMetadata v)
              (PollForActivityTaskRequest.TaskListMetadata rhs) then False else
          True))"

definition PollForActivityTaskRequest_comparable :: "PollForActivityTaskRequest \<Rightarrow> bool" where
  "PollForActivityTaskRequest_comparable v \<longleftrightarrow>
     if_set TaskListMetadata_comparable (PollForActivityTaskRequest.TaskListMetadata v)"

lemma PollForActivityTaskRequest_Equals_iff:
  "if_set PollForActivityTaskRequest_comparable x \<Longrightarrow> if_set PollForActivityTaskRequest_comparable y \<Longrightarrow>
      PollForActivityTaskRequest_Equals x y \<longleftrightarrow> x = y"
  by (cases x; cases y) (simp_all add: PollForActivityTaskRequest_Equals_def
      PollForActivityTaskRequest_comparable_def if_not_False,
    fastforce intro: PollForActivityTaskRequest.equality)

lemma PollForActivityTaskRequest_fields_equal [simp]:
  "if_set PollForActivityTaskRequest_comparable x \<Longrightarrow> if_set PollForActivityTaskRequest_comparable y \<Longrightarrow>
    both_set_and (\<lambda>x y. PollForActivityTaskRequest_Equals (Some x) (Some y)) x y \<longleftrightarrow> x = y"
  by (rule both_set_and_iff [where P = PollForActivityTaskRequest_comparable]) (simp_all add:
      PollForActivityTaskRequest_Equals_iff)

record PollForActivityTaskResponse =
  TaskToken :: "bytes option"
  WorkflowExecution :: "WorkflowExecution option"
  ActivityId :: "string option"
  ActivityType :: "ActivityType option"
  Input :: "bytes option"
  ScheduledTimestamp :: "64 word option"
  ScheduleToCloseTimeoutSeconds :: "32 word option"
  StartedTimestamp :: "64 word option"
  StartToCloseTimeoutSeconds :: "32 word option"
  HeartbeatTimeoutSeconds :: "32 word option"
  Attempt :: "32 word option"
  ScheduledTimestampOfThisAttempt :: "64 word option"
  HeartbeatDetails :: "bytes option"
  WorkflowType :: "WorkflowType option"
  WorkflowDomain :: "string option"
  Header :: "Header option"

definition PollForActivityTaskResponse_zero :: PollForActivityTaskResponse where
  "PollForActivityTaskResponse_zero = \<lparr>PollForActivityTaskResponse.TaskToken = None,
      PollForActivityTaskResponse.WorkflowExecution = None, PollForActivityTaskResponse.ActivityId =
      None, PollForActivityTaskResponse.ActivityType = None, PollForActivityTaskResponse.Input =
      None, PollForActivityTaskResponse.ScheduledTimestamp = None,
      PollForActivityTaskResponse.ScheduleToCloseTimeoutSeconds = None,
      PollForActivityTaskResponse.StartedTimestamp = None,
      PollForActivityTaskResponse.StartToCloseTimeoutSeconds = None,
      PollForActivityTaskResponse.HeartbeatTimeoutSeconds = None,
      PollForActivityTaskResponse.Attempt = None,
      PollForActivityTaskResponse.ScheduledTimestampOfThisAttempt = None,
      PollForActivityTaskResponse.HeartbeatDetails = None, PollForActivityTaskResponse.WorkflowType
      = None, PollForActivityTaskResponse.WorkflowDomain = None, PollForActivityTaskResponse.Header
      = None\<rparr>"

definition PollForActivityTaskResponse_ToWire ::
  "'v wire_api \<Rightarrow> PollForActivityTaskResponse \<Rightarrow> go_error + 'v" where
  "PollForActivityTaskResponse_ToWire W v =
     and_then (put_opt 10 (\<lambda>x. Inr (NewValueBinary W x)) (PollForActivityTaskResponse.TaskToken v)
         [])
       (\<lambda>fields.
     and_then (put_opt 20 (WorkflowExecution_ToWire W)
         (PollForActivityTaskResponse.WorkflowExecution v) fields)
       (\<lambda>fields.
     and_then (put_opt 30 (\<lambda>x. Inr (NewValueString W x)) (PollForActivityTaskResponse.ActivityId v)
         fields)
       (\<lambda>fields.
     and_then (put_opt 40 (ActivityType_ToWire W) (PollForActivityTaskResponse.ActivityType v)
         fields)
       (\<lambda>fields.
     and_then (put_opt 50 (\<lambda>x. Inr (NewValueBinary W x)) (PollForActivityTaskResponse.Input v)
         fields)
       (\<lambda>fields.
     and_then (put_opt 70 (\<lambda>x. Inr (NewValueI64 W x))
         (PollForActivityTaskResponse.ScheduledTimestamp v) fields)
       (\<lambda>fields.
     and_then (put_opt 80 (\<lambda>x. Inr (NewValueI32 W x))
         (PollForActivityTaskResponse.ScheduleToCloseTimeoutSeconds v) fields)
       (\<lambda>fields.
     and_then (put_opt 90 (\<lambda>x. Inr (NewValueI64 W x)) (PollForActivityTaskResponse.StartedTimestamp
         v) fields)
       (\<lambda>fields.
     and_then (put_opt 100 (\<lambda>x. Inr (NewValueI32 W x))
         (PollForActivityTaskResponse.StartToCloseTimeoutSeconds v) fields)
       (\<lambda>fields.
     and_then (put_opt 110 (\<lambda>x. Inr (NewValueI32 W x))
         (PollForActivityTaskResponse.HeartbeatTimeoutSeconds v) fields)
       (\<lambda>fields.
     and_then (put_opt 120 (\<lambda>x. Inr (NewValueI32 W x)) (PollForActivityTaskResponse.Attempt v)
         fields)
       (\<lambda>fields.
     and_then (put_opt 130 (\<lambda>x. Inr (NewValueI64 W x))
         (PollForActivityTaskResponse.ScheduledTimestampOfThisAttempt v) fields)
       (\<lambda>fields.
     and_then (put_opt 140 (\<lambda>x. Inr (NewValueBinary W x))
         (PollForActivityTaskResponse.HeartbeatDetails v) fields)
       (\<lambda>fields.
     and_then (put_opt 150 (WorkflowType_ToWire W) (PollForActivityTaskResponse.WorkflowType v)
         fields)
       (\<lambda>fields.
     and_then (put_opt 160 (\<lambda>x. Inr (NewValueString W x))
         (PollForActivityTaskResponse.WorkflowDomain v) fields)
       (\<lambda>fields.
     and_then (put_opt 170 (Header_ToWire W) (PollForActivityTaskResponse.Header v) fields)
       (\<lambda>fields.
     Inr (NewValueStruct W fields)))))))))))))))))"

definition PollForActivityTaskResponse_FromWire ::
  "'v wire_api \<Rightarrow> 'v \<Rightarrow> PollForActivityTaskResponse \<Rightarrow> go_error + PollForActivityTaskResponse" where
  "PollForActivityTaskResponse_FromWire W w v =
     foldM (\<lambda>v (fid, fval).
       if fid = 10 then
         if wire_api.Type W fval = TBinary
         then Inr (v\<lparr>PollForActivityTaskResponse.TaskToken := Some (GetBinary W fval)\<rparr>)
         else Inr v
       else if fid = 20 then
         if wire_api.Type W fval = TStruct
         then and_then (WorkflowExecution_Read W fval) (\<lambda>x. Inr
             (v\<lparr>PollForActivityTaskResponse.WorkflowExecution := Some x\<rparr>))
         else Inr v
       else if fid = 30 then
         if wire_api.Type W fval = TBinary
         then Inr (v\<lparr>PollForActivityTaskResponse.ActivityId := Some (GetString W fval)\<rparr>)
         else Inr v
       else if fid = 40 then
         if wire_api.Type W fval = TStruct
         then and_then (ActivityType_Read W fval) (\<lambda>x. Inr
             (v\<lparr>PollForActivityTaskResponse.ActivityType := Some x\<rparr>))
         else Inr v
       else if fid = 50 then
         if wire_api.Type W fval = TBinary
         then Inr (v\<lparr>PollForActivityTaskResponse.Input := Some (GetBinary W fval)\<rparr>)
         else Inr v
       else if fid = 70 then
         if wire_api.Type W fval = TI64
         then Inr (v\<lparr>PollForActivityTaskResponse.ScheduledTimestamp := Some (GetI64 W fval)\<rparr>)
         else Inr v
       else if fid = 80 then
         if wire_api.Type W fval = TI32
         then Inr (v\<lparr>PollForActivityTaskResponse.ScheduleToCloseTimeoutSeconds := Some (GetI32 W
             fval)\<rparr>)
         else Inr v
       else if fid = 90 then
         if wire_api.Type W fval = TI64
         then Inr (v\<lparr>PollForActivityTaskResponse.StartedTimestamp := Some (GetI64 W fval)\<rparr>)
         else Inr v
       else if fid = 100 then
         if wire_api.Type W fval = TI32
         then Inr (v\<lparr>PollForActivityTaskResponse.StartToCloseTimeoutSeconds := Some (GetI32 W
             fval)\<rparr>)
         else Inr v
       else if fid = 110 then
         if wire_api.Type W fval = TI32
         then Inr (v\<lparr>PollForActivityTaskResponse.HeartbeatTimeoutSeconds := Some (GetI32 W fval)\<rparr>)
         else Inr v
       else if fid = 120 then
         if wire_api.Type W fval = TI32
         then Inr (v\<lparr>PollForActivityTaskResponse.Attempt := Some (GetI32 W fval)\<rparr>)
         else Inr v
       else if fid = 130 then
         if wire_api.Type W fval = TI64
         then Inr (v\<lparr>PollForActivityTaskResponse.ScheduledTimestampOfThisAttempt := Some (GetI64 W
             fval)\<rparr>)
         else Inr v
       else if fid = 140 then
         if wire_api.Type W fval = TBinary
         then Inr (v\<lparr>PollForActivityTaskResponse.HeartbeatDetails := Some (GetBinary W fval)\<rparr>)
         else Inr v
       else if fid = 150 then
         if wire_api.Type W fval = TStruct
         then and_then (WorkflowType_Read W fval) (\<lambda>x. Inr
             (v\<lparr>PollForActivityTaskResponse.WorkflowType := Some x\<rparr>))
         else Inr v
       else if fid = 160 then
         if wire_api.Type W fval = TBinary
         then Inr (v\<lparr>PollForActivityTaskResponse.WorkflowDomain := Some (GetString W fval)\<rparr>)
         else Inr v
       else if fid = 170 then
         if wire_api.Type W fval = TStruct
         then and_then (Header_Read W fval) (\<lambda>x. Inr (v\<lparr>PollForActivityTaskResponse.Header := Some
             x\<rparr>))
         else Inr v
       else Inr v) (GetStruct W w) v"

definition PollForActivityTaskResponse_Read :: "'v wire_api \<Rightarrow> 'v \<Rightarrow> go_error +
    PollForActivityTaskResponse" where
  "PollForActivityTaskResponse_Read W w = PollForActivityTaskResponse_FromWire W w
      PollForActivityTaskResponse_zero"

definition PollForActivityTaskResponse_complete :: "PollForActivityTaskResponse \<Rightarrow> bool" where
  "PollForActivityTaskResponse_complete v \<longleftrightarrow>
     if_set Header_complete (PollForActivityTaskResponse.Header v)"

lemma PollForActivityTaskResponse_merge:
  "(case x of None \<Rightarrow> Inr \<lparr>PollForActivityTaskResponse.TaskToken = a0,
      PollForActivityTaskResponse.WorkflowExecution = a1, PollForActivityTaskResponse.ActivityId =
      a2, PollForActivityTaskResponse.ActivityType = a3, PollForActivityTaskResponse.Input = a4,
      PollForActivityTaskResponse.ScheduledTimestamp = a5,
      PollForActivityTaskResponse.ScheduleToCloseTimeoutSeconds = a6,
      PollForActivityTaskResponse.StartedTimestamp = a7,
      PollForActivityTaskResponse.StartToCloseTimeoutSeconds = a8,
      PollForActivityTaskResponse.HeartbeatTimeoutSeconds = a9, PollForActivityTaskResponse.Attempt
      = a10, PollForActivityTaskResponse.ScheduledTimestampOfThisAttempt = a11,
      PollForActivityTaskResponse.HeartbeatDetails = a12, PollForActivityTaskResponse.WorkflowType =
      a13, PollForActivityTaskResponse.WorkflowDomain = a14, PollForActivityTaskResponse.Header =
      a15\<rparr> | Some y \<Rightarrow> Inr \<lparr>PollForActivityTaskResponse.TaskToken = b0 y,
      PollForActivityTaskResponse.WorkflowExecution = b1 y, PollForActivityTaskResponse.ActivityId =
      b2 y, PollForActivityTaskResponse.ActivityType = b3 y, PollForActivityTaskResponse.Input = b4
      y, PollForActivityTaskResponse.ScheduledTimestamp = b5 y,
      PollForActivityTaskResponse.ScheduleToCloseTimeoutSeconds = b6 y,
      PollForActivityTaskResponse.StartedTimestamp = b7 y,
      PollForActivityTaskResponse.StartToCloseTimeoutSeconds = b8 y,
      PollForActivityTaskResponse.HeartbeatTimeoutSeconds = b9 y,
      PollForActivityTaskResponse.Attempt = b10 y,
      PollForActivityTaskResponse.ScheduledTimestampOfThisAttempt = b11 y,
      PollForActivityTaskResponse.HeartbeatDetails = b12 y, PollForActivityTaskResponse.WorkflowType
      = b13 y, PollForActivityTaskResponse.WorkflowDomain = b14 y,
      PollForActivityTaskResponse.Header = b15 y\<rparr>) =
   Inr \<lparr>PollForActivityTaskResponse.TaskToken = (case x of None \<Rightarrow> a0 | Some y \<Rightarrow> b0 y),
       PollForActivityTaskResponse.WorkflowExecution = (case x of None \<Rightarrow> a1 | Some y \<Rightarrow> b1 y),
       PollForActivityTaskResponse.ActivityId = (case x of None \<Rightarrow> a2 | Some y \<Rightarrow> b2 y),
       PollForActivityTaskResponse.ActivityType = (case x of None \<Rightarrow> a3 | Some y \<Rightarrow> b3 y),
       PollForActivityTaskResponse.Input = (case x of None \<Rightarrow> a4 | Some y \<Rightarrow> b4 y),
       PollForActivityTaskResponse.ScheduledTimestamp = (case x of None \<Rightarrow> a5 | Some y \<Rightarrow> b5 y),
       PollForActivityTaskResponse.ScheduleToCloseTimeoutSeconds = (case x of None \<Rightarrow> a6 | Some y \<Rightarrow>
       b6 y), PollForActivityTaskResponse.StartedTimestamp = (case x of None \<Rightarrow> a7 | Some y \<Rightarrow> b7 y),
       PollForActivityTaskResponse.StartToCloseTimeoutSeconds = (case x of None \<Rightarrow> a8 | Some y \<Rightarrow> b8
       y), PollForActivityTaskResponse.HeartbeatTimeoutSeconds = (case x of None \<Rightarrow> a9 | Some y \<Rightarrow> b9
       y), PollForActivityTaskResponse.Attempt = (case x of None \<Rightarrow> a10 | Some y \<Rightarrow> b10 y),
       PollForActivityTaskResponse.ScheduledTimestampOfThisAttempt = (case x of None \<Rightarrow> a11 | Some y
       \<Rightarrow> b11 y), PollForActivityTaskResponse.HeartbeatDetails = (case x of None \<Rightarrow> a12 | Some y \<Rightarrow> b12
       y), PollForActivityTaskResponse.WorkflowType = (case x of None \<Rightarrow> a13 | Some y \<Rightarrow> b13 y),
       PollForActivityTaskResponse.WorkflowDomain = (case x of None \<Rightarrow> a14 | Some y \<Rightarrow> b14 y),
       PollForActivityTaskResponse.Header = (case x of None \<Rightarrow> a15 | Some y \<Rightarrow> b15 y)\<rparr>"
  by (cases x) simp_all

interpretation PollForActivityTaskResponse: thrift_message W
  "PollForActivityTaskResponse_ToWire W" "PollForActivityTaskResponse_FromWire W"
      PollForActivityTaskResponse_zero "PollForActivityTaskResponse_complete" for W
proof (rule thrift_messageI)
  fix x :: PollForActivityTaskResponse
  assume laws: "wire_laws W"
  obtain enc0 where e0: "ActivityType_ToWire W = (\<lambda>x. Inr (enc0 x))"
      "\<And>x. wire_api.Type W (enc0 x) = TStruct"
      "\<And>x. Writable W (enc0 x) \<longleftrightarrow> (\<lambda>_. True) x"
      "\<And>x. (\<lambda>_. True) x \<Longrightarrow> ActivityType_FromWire W (enc0 x) ActivityType_zero = Inr x"
    by (rule ActivityType.encoder [OF laws]) (rule that)
  obtain enc1 where e1: "Header_ToWire W = (\<lambda>x. Inr (enc1 x))"
      "\<And>x. wire_api.Type W (enc1 x) = TStruct"
      "\<And>x. Writable W (enc1 x) \<longleftrightarrow> Header_complete x"
      "\<And>x. Header_complete x \<Longrightarrow> Header_FromWire W (enc1 x) Header_zero = Inr x"
    by (rule Header.encoder [OF laws]) (rule that)
  obtain enc2 where e2: "WorkflowExecution_ToWire W = (\<lambda>x. Inr (enc2 x))"
      "\<And>x. wire_api.Type W (enc2 x) = TStruct"
      "\<And>x. Writable W (enc2 x) \<longleftrightarrow> (\<lambda>_. True) x"
      "\<And>x. (\<lambda>_. True) x \<Longrightarrow> WorkflowExecution_FromWire W (enc2 x) WorkflowExecution_zero = Inr x"
    by (rule WorkflowExecution.encoder [OF laws]) (rule that)
  obtain enc3 where e3: "WorkflowType_ToWire W = (\<lambda>x. Inr (enc3 x))"
      "\<And>x. wire_api.Type W (enc3 x) = TStruct"
      "\<And>x. Writable W (enc3 x) \<longleftrightarrow> (\<lambda>_. True) x"
      "\<And>x. (\<lambda>_. True) x \<Longrightarrow> WorkflowType_FromWire W (enc3 x) WorkflowType_zero = Inr x"
    by (rule WorkflowType.encoder [OF laws]) (rule that)
  show "\<exists>w. PollForActivityTaskResponse_ToWire W x = Inr w \<and> wire_api.Type W w = TStruct \<and>
      (Writable W w \<longleftrightarrow> PollForActivityTaskResponse_complete x) \<and>
          (PollForActivityTaskResponse_complete x \<longrightarrow> PollForActivityTaskResponse_FromWire W w
          PollForActivityTaskResponse_zero = Inr x)"
    by (cases x) (simp cong: option.case_cong add: codec_rules PollForActivityTaskResponse_merge
        PollForActivityTaskResponse_ToWire_def PollForActivityTaskResponse_FromWire_def
        PollForActivityTaskResponse_zero_def PollForActivityTaskResponse_complete_def if_set_def
        ActivityType_Read_def Header_Read_def WorkflowExecution_Read_def WorkflowType_Read_def laws
        e0 e1 e2 e3)
qed

definition PollForActivityTaskResponse_Equals ::
  "PollForActivityTaskResponse option \<Rightarrow> PollForActivityTaskResponse option \<Rightarrow> bool" where
  "PollForActivityTaskResponse_Equals v rhs =
     (case v of None \<Rightarrow> rhs = None
      | Some v \<Rightarrow> (case rhs of None \<Rightarrow> False
        | Some rhs \<Rightarrow>
          if \<not> both_set_and (=) (PollForActivityTaskResponse.TaskToken v)
              (PollForActivityTaskResponse.TaskToken rhs) then False else
          if \<not> both_set_and (\<lambda>x y. WorkflowExecution_Equals (Some x) (Some y))
              (PollForActivityTaskResponse.WorkflowExecution v)
              (PollForActivityTaskResponse.WorkflowExecution rhs) then False else
          if \<not> String_EqualsPtr (PollForActivityTaskResponse.ActivityId v)
              (PollForActivityTaskResponse.ActivityId rhs) then False else
          if \<not> both_set_and (\<lambda>x y. ActivityType_Equals (Some x) (Some y))
              (PollForActivityTaskResponse.ActivityType v) (PollForActivityTaskResponse.ActivityType
              rhs) then False else
          if \<not> both_set_and (=) (PollForActivityTaskResponse.Input v)
              (PollForActivityTaskResponse.Input rhs) then False else
          if \<not> I64_EqualsPtr (PollForActivityTaskResponse.ScheduledTimestamp v)
              (PollForActivityTaskResponse.ScheduledTimestamp rhs) then False else
          if \<not> I32_EqualsPtr (PollForActivityTaskResponse.ScheduleToCloseTimeoutSeconds v)
              (PollForActivityTaskResponse.ScheduleToCloseTimeoutSeconds rhs) then False else
          if \<not> I64_EqualsPtr (PollForActivityTaskResponse.StartedTimestamp v)
              (PollForActivityTaskResponse.StartedTimestamp rhs) then False else
          if \<not> I32_EqualsPtr (PollForActivityTaskResponse.StartToCloseTimeoutSeconds v)
              (PollForActivityTaskResponse.StartToCloseTimeoutSeconds rhs) then False else
          if \<not> I32_EqualsPtr (PollForActivityTaskResponse.HeartbeatTimeoutSeconds v)
              (PollForActivityTaskResponse.HeartbeatTimeoutSeconds rhs) then False else
          if \<not> I32_EqualsPtr (PollForActivityTaskResponse.Attempt v)
              (PollForActivityTaskResponse.Attempt rhs) then False else
          if \<not> I64_EqualsPtr (PollForActivityTaskResponse.ScheduledTimestampOfThisAttempt v)
              (PollForActivityTaskResponse.ScheduledTimestampOfThisAttempt rhs) then False else
          if \<not> both_set_and (=) (PollForActivityTaskResponse.HeartbeatDetails v)
              (PollForActivityTaskResponse.HeartbeatDetails rhs) then False else
          if \<not> both_set_and (\<lambda>x y. WorkflowType_Equals (Some x) (Some y))
              (PollForActivityTaskResponse.WorkflowType v) (PollForActivityTaskResponse.WorkflowType
              rhs) then False else
          if \<not> String_EqualsPtr (PollForActivityTaskResponse.WorkflowDomain v)
              (PollForActivityTaskResponse.WorkflowDomain rhs) then False else
          if \<not> both_set_and (\<lambda>x y. Header_Equals (Some x) (Some y))
              (PollForActivityTaskResponse.Header v) (PollForActivityTaskResponse.Header rhs) then
              False else
          True))"

definition PollForActivityTaskResponse_comparable :: "PollForActivityTaskResponse \<Rightarrow> bool" where
  "PollForActivityTaskResponse_comparable v \<longleftrightarrow>
     if_set Header_comparable (PollForActivityTaskResponse.Header v)"

lemma PollForActivityTaskResponse_Equals_iff:
  "if_set PollForActivityTaskResponse_comparable x \<Longrightarrow> if_set PollForActivityTaskResponse_comparable y
      \<Longrightarrow> PollForActivityTaskResponse_Equals x y \<longleftrightarrow> x = y"
  by (cases x; cases y) (simp_all add: PollForActivityTaskResponse_Equals_def
      PollForActivityTaskResponse_comparable_def if_not_False,
    fastforce intro: PollForActivityTaskResponse.equality)

lemma PollForActivityTaskResponse_fields_equal [simp]:
  "if_set PollForActivityTaskResponse_comparable x \<Longrightarrow> if_set PollForActivityTaskResponse_comparable y
      \<Longrightarrow>
    both_set_and (\<lambda>x y. PollForActivityTaskResponse_Equals (Some x) (Some y)) x y \<longleftrightarrow> x = y"
  by (rule both_set_and_iff [where P = PollForActivityTaskResponse_comparable]) (simp_all add:
      PollForActivityTaskResponse_Equals_iff)

record RecordActivityTaskHeartbeatByIDRequest =
  Domain :: "string option"
  WorkflowID :: "string option"
  RunID :: "string option"
  ActivityID :: "string option"
  Details :: "bytes option"
  Identity :: "string option"

definition RecordActivityTaskHeartbeatByIDRequest_zero :: RecordActivityTaskHeartbeatByIDRequest
    where
  "RecordActivityTaskHeartbeatByIDRequest_zero = \<lparr>RecordActivityTaskHeartbeatByIDRequest.Domain =
      None, RecordActivityTaskHeartbeatByIDRequest.WorkflowID = None,
      RecordActivityTaskHeartbeatByIDRequest.RunID = None,
      RecordActivityTaskHeartbeatByIDRequest.ActivityID = None,
      RecordActivityTaskHeartbeatByIDRequest.Details = None,
      RecordActivityTaskHeartbeatByIDRequest.Identity = None\<rparr>"

definition RecordActivityTaskHeartbeatByIDRequest_ToWire ::
  "'v wire_api \<Rightarrow> RecordActivityTaskHeartbeatByIDRequest \<Rightarrow> go_error + 'v" where
  "RecordActivityTaskHeartbeatByIDRequest_ToWire W v =
     and_then (put_opt 10 (\<lambda>x. Inr (NewValueString W x))
         (RecordActivityTaskHeartbeatByIDRequest.Domain v) [])
       (\<lambda>fields.
     and_then (put_opt 20 (\<lambda>x. Inr (NewValueString W x))
         (RecordActivityTaskHeartbeatByIDRequest.WorkflowID v) fields)
       (\<lambda>fields.
     and_then (put_opt 30 (\<lambda>x. Inr (NewValueString W x))
         (RecordActivityTaskHeartbeatByIDRequest.RunID v) fields)
       (\<lambda>fields.
     and_then (put_opt 40 (\<lambda>x. Inr (NewValueString W x))
         (RecordActivityTaskHeartbeatByIDRequest.ActivityID v) fields)
       (\<lambda>fields.
     and_then (put_opt 50 (\<lambda>x. Inr (NewValueBinary W x))
         (RecordActivityTaskHeartbeatByIDRequest.Details v) fields)
       (\<lambda>fields.
     and_then (put_opt 60 (\<lambda>x. Inr (NewValueString W x))
         (RecordActivityTaskHeartbeatByIDRequest.Identity v) fields)
       (\<lambda>fields.
     Inr (NewValueStruct W fields)))))))"

definition RecordActivityTaskHeartbeatByIDRequest_FromWire ::
  "'v wire_api \<Rightarrow> 'v \<Rightarrow> RecordActivityTaskHeartbeatByIDRequest \<Rightarrow> go_error +
      RecordActivityTaskHeartbeatByIDRequest" where
  "RecordActivityTaskHeartbeatByIDRequest_FromWire W w v =
     foldM (\<lambda>v (fid, fval).
       if fid = 10 then
         if wire_api.Type W fval = TBinary
         then Inr (v\<lparr>RecordActivityTaskHeartbeatByIDRequest.Domain := Some (GetString W fval)\<rparr>)
         else Inr v
       else if fid = 20 then
         if wire_api.Type W fval = TBinary
         then Inr (v\<lparr>RecordActivityTaskHeartbeatByIDRequest.WorkflowID := Some (GetString W fval)\<rparr>)
         else Inr v
       else if fid = 30 then
         if wire_api.Type W fval = TBinary
         then Inr (v\<lparr>RecordActivityTaskHeartbeatByIDRequest.RunID := Some (GetString W fval)\<rparr>)
         else Inr v
       else if fid = 40 then
         if wire_api.Type W fval = TBinary
         then Inr (v\<lparr>RecordActivityTaskHeartbeatByIDRequest.ActivityID := Some (GetString W fval)\<rparr>)
         else Inr v
       else if fid = 50 then
         if wire_api.Type W fval = TBinary
         then Inr (v\<lparr>RecordActivityTaskHeartbeatByIDRequest.Details := Some (GetBinary W fval)\<rparr>)
         else Inr v
       else if fid = 60 then
         if wire_api.Type W fval = TBinary
         then Inr (v\<lparr>RecordActivityTaskHeartbeatByIDRequest.Identity := Some (GetString W fval)\<rparr>)
         else Inr v
       else Inr v) (GetStruct W w) v"

definition RecordActivityTaskHeartbeatByIDRequest_Read :: "'v wire_api \<Rightarrow> 'v \<Rightarrow> go_error +
    RecordActivityTaskHeartbeatByIDRequest" where
  "RecordActivityTaskHeartbeatByIDRequest_Read W w = RecordActivityTaskHeartbeatByIDRequest_FromWire
      W w RecordActivityTaskHeartbeatByIDRequest_zero"

lemma RecordActivityTaskHeartbeatByIDRequest_merge:
  "(case x of None \<Rightarrow> Inr \<lparr>RecordActivityTaskHeartbeatByIDRequest.Domain = a0,
      RecordActivityTaskHeartbeatByIDRequest.WorkflowID = a1,
      RecordActivityTaskHeartbeatByIDRequest.RunID = a2,
      RecordActivityTaskHeartbeatByIDRequest.ActivityID = a3,
      RecordActivityTaskHeartbeatByIDRequest.Details = a4,
      RecordActivityTaskHeartbeatByIDRequest.Identity = a5\<rparr> | Some y \<Rightarrow> Inr
      \<lparr>RecordActivityTaskHeartbeatByIDRequest.Domain = b0 y,
      RecordActivityTaskHeartbeatByIDRequest.WorkflowID = b1 y,
      RecordActivityTaskHeartbeatByIDRequest.RunID = b2 y,
      RecordActivityTaskHeartbeatByIDRequest.ActivityID = b3 y,
      RecordActivityTaskHeartbeatByIDRequest.Details = b4 y,
      RecordActivityTaskHeartbeatByIDRequest.Identity = b5 y\<rparr>) =
   Inr \<lparr>RecordActivityTaskHeartbeatByIDRequest.Domain = (case x of None \<Rightarrow> a0 | Some y \<Rightarrow> b0 y),
       RecordActivityTaskHeartbeatByIDRequest.WorkflowID = (case x of None \<Rightarrow> a1 | Some y \<Rightarrow> b1 y),
       RecordActivityTaskHeartbeatByIDRequest.RunID = (case x of None \<Rightarrow> a2 | Some y \<Rightarrow> b2 y),
       RecordActivityTaskHeartbeatByIDRequest.ActivityID = (case x of None \<Rightarrow> a3 | Some y \<Rightarrow> b3 y),
       RecordActivityTaskHeartbeatByIDRequest.Details = (case x of None \<Rightarrow> a4 | Some y \<Rightarrow> b4 y),
       RecordActivityTaskHeartbeatByIDRequest.Identity = (case x of None \<Rightarrow> a5 | Some y \<Rightarrow> b5 y)\<rparr>"
  by (cases x) simp_all

interpretation RecordActivityTaskHeartbeatByIDRequest: thrift_message W
  "RecordActivityTaskHeartbeatByIDRequest_ToWire W" "RecordActivityTaskHeartbeatByIDRequest_FromWire
      W" RecordActivityTaskHeartbeatByIDRequest_zero "\<lambda>_. True" for W
proof (rule thrift_messageI)
  fix x :: RecordActivityTaskHeartbeatByIDRequest
  assume laws: "wire_laws W"
  show "\<exists>w. RecordActivityTaskHeartbeatByIDRequest_ToWire W x = Inr w \<and> wire_api.Type W w = TStruct
      \<and>
      (Writable W w \<longleftrightarrow> (\<lambda>_. True) x) \<and> ((\<lambda>_. True) x \<longrightarrow>
          RecordActivityTaskHeartbeatByIDRequest_FromWire W w
          RecordActivityTaskHeartbeatByIDRequest_zero = Inr x)"
    by (cases x) (simp cong: option.case_cong add: codec_rules
        RecordActivityTaskHeartbeatByIDRequest_merge
        RecordActivityTaskHeartbeatByIDRequest_ToWire_def
        RecordActivityTaskHeartbeatByIDRequest_FromWire_def
        RecordActivityTaskHeartbeatByIDRequest_zero_def laws)
qed

definition RecordActivityTaskHeartbeatByIDRequest_Equals ::
  "RecordActivityTaskHeartbeatByIDRequest option \<Rightarrow> RecordActivityTaskHeartbeatByIDRequest option \<Rightarrow>
      bool" where
  "RecordActivityTaskHeartbeatByIDRequest_Equals v rhs =
     (case v of None \<Rightarrow> rhs = None
      | Some v \<Rightarrow> (case rhs of None \<Rightarrow> False
        | Some rhs \<Rightarrow>
          if \<not> String_EqualsPtr (RecordActivityTaskHeartbeatByIDRequest.Domain v)
              (RecordActivityTaskHeartbeatByIDRequest.Domain rhs) then False else
          if \<not> String_EqualsPtr (RecordActivityTaskHeartbeatByIDRequest.WorkflowID v)
              (RecordActivityTaskHeartbeatByIDRequest.WorkflowID rhs) then False else
          if \<not> String_EqualsPtr (RecordActivityTaskHeartbeatByIDRequest.RunID v)
              (RecordActivityTaskHeartbeatByIDRequest.RunID rhs) then False else
          if \<not> String_EqualsPtr (RecordActivityTaskHeartbeatByIDRequest.ActivityID v)
              (RecordActivityTaskHeartbeatByIDRequest.ActivityID rhs) then False else
          if \<not> both_set_and (=) (RecordActivityTaskHeartbeatByIDRequest.Details v)
              (RecordActivityTaskHeartbeatByIDRequest.Details rhs) then False else
          if \<not> String_EqualsPtr (RecordActivityTaskHeartbeatByIDRequest.Identity v)
              (RecordActivityTaskHeartbeatByIDRequest.Identity rhs) then False else
          True))"

lemma RecordActivityTaskHeartbeatByIDRequest_Equals_iff [simp]:
    "RecordActivityTaskHeartbeatByIDRequest_Equals x y \<longleftrightarrow> x = y"
  by (cases x; cases y) (simp_all add: RecordActivityTaskHeartbeatByIDRequest_Equals_def
      if_not_False, fastforce intro: RecordActivityTaskHeartbeatByIDRequest.equality)

record RespondActivityTaskCanceledByIDRequest =
  Domain :: "string option"
  WorkflowID :: "string option"
  RunID :: "string option"
  ActivityID :: "string option"
  Details :: "bytes option"
  Identity :: "string option"

definition RespondActivityTaskCanceledByIDRequest_zero :: RespondActivityTaskCanceledByIDRequest
    where
  "RespondActivityTaskCanceledByIDRequest_zero = \<lparr>RespondActivityTaskCanceledByIDRequest.Domain =
      None, RespondActivityTaskCanceledByIDRequest.WorkflowID = None,
      RespondActivityTaskCanceledByIDRequest.RunID = None,
      RespondActivityTaskCanceledByIDRequest.ActivityID = None,
      RespondActivityTaskCanceledByIDRequest.Details = None,
      RespondActivityTaskCanceledByIDRequest.Identity = None\<rparr>"

definition RespondActivityTaskCanceledByIDRequest_ToWire ::
  "'v wire_api \<Rightarrow> RespondActivityTaskCanceledByIDRequest \<Rightarrow> go_error + 'v" where
  "RespondActivityTaskCanceledByIDRequest_ToWire W v =
     and_then (put_opt 10 (\<lambda>x. Inr (NewValueString W x))
         (RespondActivityTaskCanceledByIDRequest.Domain v) [])
       (\<lambda>fields.
     and_then (put_opt 20 (\<lambda>x. Inr (NewValueString W x))
         (RespondActivityTaskCanceledByIDRequest.WorkflowID v) fields)
       (\<lambda>fields.
     and_then (put_opt 30 (\<lambda>x. Inr (NewValueString W x))
         (RespondActivityTaskCanceledByIDRequest.RunID v) fields)
       (\<lambda>fields.
     and_then (put_opt 40 (\<lambda>x. Inr (NewValueString W x))
         (RespondActivityTaskCanceledByIDRequest.ActivityID v) fields)
       (\<lambda>fields.
     and_then (put_opt 50 (\<lambda>x. Inr (NewValueBinary W x))
         (RespondActivityTaskCanceledByIDRequest.Details v) fields)
       (\<lambda>fields.
     and_then (put_opt 60 (\<lambda>x. Inr (NewValueString W x))
         (RespondActivityTaskCanceledByIDRequest.Identity v) fields)
       (\<lambda>fields.
     Inr (NewValueStruct W fields)))))))"

definition RespondActivityTaskCanceledByIDRequest_FromWire ::
  "'v wire_api \<Rightarrow> 'v \<Rightarrow> RespondActivityTaskCanceledByIDRequest \<Rightarrow> go_error +
      RespondActivityTaskCanceledByIDRequest" where
  "RespondActivityTaskCanceledByIDRequest_FromWire W w v =
     foldM (\<lambda>v (fid, fval).
       if fid = 10 then
         if wire_api.Type W fval = TBinary
         then Inr (v\<lparr>RespondActivityTaskCanceledByIDRequest.Domain := Some (GetString W fval)\<rparr>)
         else Inr v
       else if fid = 20 then
         if wire_api.Type W fval = TBinary
         then Inr (v\<lparr>RespondActivityTaskCanceledByIDRequest.WorkflowID := Some (GetString W fval)\<rparr>)
         else Inr v
       else if fid = 30 then
         if wire_api.Type W fval = TBinary
         then Inr (v\<lparr>RespondActivityTaskCanceledByIDRequest.RunID := Some (GetString W fval)\<rparr>)
         else Inr v
       else if fid = 40 then
         if wire_api.Type W fval = TBinary
         then Inr (v\<lparr>RespondActivityTaskCanceledByIDRequest.ActivityID := Some (GetString W fval)\<rparr>)
         else Inr v
       else if fid = 50 then
         if wire_api.Type W fval = TBinary
         then Inr (v\<lparr>RespondActivityTaskCanceledByIDRequest.Details := Some (GetBinary W fval)\<rparr>)
         else Inr v
       else if fid = 60 then
         if wire_api.Type W fval = TBinary
         then Inr (v\<lparr>RespondActivityTaskCanceledByIDRequest.Identity := Some (GetString W fval)\<rparr>)
         else Inr v
       else Inr v) (GetStruct W w) v"

definition RespondActivityTaskCanceledByIDRequest_Read :: "'v wire_api \<Rightarrow> 'v \<Rightarrow> go_error +
    RespondActivityTaskCanceledByIDRequest" where
  "RespondActivityTaskCanceledByIDRequest_Read W w = RespondActivityTaskCanceledByIDRequest_FromWire
      W w RespondActivityTaskCanceledByIDRequest_zero"

lemma RespondActivityTaskCanceledByIDRequest_merge:
  "(case x of None \<Rightarrow> Inr \<lparr>RespondActivityTaskCanceledByIDRequest.Domain = a0,
      RespondActivityTaskCanceledByIDRequest.WorkflowID = a1,
      RespondActivityTaskCanceledByIDRequest.RunID = a2,
      RespondActivityTaskCanceledByIDRequest.ActivityID = a3,
      RespondActivityTaskCanceledByIDRequest.Details = a4,
      RespondActivityTaskCanceledByIDRequest.Identity = a5\<rparr> | Some y \<Rightarrow> Inr
      \<lparr>RespondActivityTaskCanceledByIDRequest.Domain = b0 y,
      RespondActivityTaskCanceledByIDRequest.WorkflowID = b1 y,
      RespondActivityTaskCanceledByIDRequest.RunID = b2 y,
      RespondActivityTaskCanceledByIDRequest.ActivityID = b3 y,
      RespondActivityTaskCanceledByIDRequest.Details = b4 y,
      RespondActivityTaskCanceledByIDRequest.Identity = b5 y\<rparr>) =
   Inr \<lparr>RespondActivityTaskCanceledByIDRequest.Domain = (case x of None \<Rightarrow> a0 | Some y \<Rightarrow> b0 y),
       RespondActivityTaskCanceledByIDRequest.WorkflowID = (case x of None \<Rightarrow> a1 | Some y \<Rightarrow> b1 y),
       RespondActivityTaskCanceledByIDRequest.RunID = (case x of None \<Rightarrow> a2 | Some y \<Rightarrow> b2 y),
       RespondActivityTaskCanceledByIDRequest.ActivityID = (case x of None \<Rightarrow> a3 | Some y \<Rightarrow> b3 y),
       RespondActivityTaskCanceledByIDRequest.Details = (case x of None \<Rightarrow> a4 | Some y \<Rightarrow> b4 y),
       RespondActivityTaskCanceledByIDRequest.Identity = (case x of None \<Rightarrow> a5 | Some y \<Rightarrow> b5 y)\<rparr>"
  by (cases x) simp_all

interpretation RespondActivityTaskCanceledByIDRequest: thrift_message W
  "RespondActivityTaskCanceledByIDRequest_ToWire W" "RespondActivityTaskCanceledByIDRequest_FromWire
      W" RespondActivityTaskCanceledByIDRequest_zero "\<lambda>_. True" for W
proof (rule thrift_messageI)
  fix x :: RespondActivityTaskCanceledByIDRequest
  assume laws: "wire_laws W"
  show "\<exists>w. RespondActivityTaskCanceledByIDRequest_ToWire W x = Inr w \<and> wire_api.Type W w = TStruct
      \<and>
      (Writable W w \<longleftrightarrow> (\<lambda>_. True) x) \<and> ((\<lambda>_. True) x \<longrightarrow>
          RespondActivityTaskCanceledByIDRequest_FromWire W w
          RespondActivityTaskCanceledByIDRequest_zero = Inr x)"
    by (cases x) (simp cong: option.case_cong add: codec_rules
        RespondActivityTaskCanceledByIDRequest_merge
        RespondActivityTaskCanceledByIDRequest_ToWire_def
        RespondActivityTaskCanceledByIDRequest_FromWire_def
        RespondActivityTaskCanceledByIDRequest_zero_def laws)
qed

definition RespondActivityTaskCanceledByIDRequest_Equals ::
  "RespondActivityTaskCanceledByIDRequest option \<Rightarrow> RespondActivityTaskCanceledByIDRequest option \<Rightarrow>
      bool" where
  "RespondActivityTaskCanceledByIDRequest_Equals v rhs =
     (case v of None \<Rightarrow> rhs = None
      | Some v \<Rightarrow> (case rhs of None \<Rightarrow> False
        | Some rhs \<Rightarrow>
          if \<not> String_EqualsPtr (RespondActivityTaskCanceledByIDRequest.Domain v)
              (RespondActivityTaskCanceledByIDRequest.Domain rhs) then False else
          if \<not> String_EqualsPtr (RespondActivityTaskCanceledByIDRequest.WorkflowID v)
              (RespondActivityTaskCanceledByIDRequest.WorkflowID rhs) then False else
          if \<not> String_EqualsPtr (RespondActivityTaskCanceledByIDRequest.RunID v)
              (RespondActivityTaskCanceledByIDRequest.RunID rhs) then False else
          if \<not> String_EqualsPtr (RespondActivityTaskCanceledByIDRequest.ActivityID v)
              (RespondActivityTaskCanceledByIDRequest.ActivityID rhs) then False else
          if \<not> both_set_and (=) (RespondActivityTaskCanceledByIDRequest.Details v)
              (RespondActivityTaskCanceledByIDRequest.Details rhs) then False else
          if \<not> String_EqualsPtr (RespondActivityTaskCanceledByIDRequest.Identity v)
              (RespondActivityTaskCanceledByIDRequest.Identity rhs) then False else
          True))"

lemma RespondActivityTaskCanceledByIDRequest_Equals_iff [simp]:
    "RespondActivityTaskCanceledByIDRequest_Equals x y \<longleftrightarrow> x = y"
  by (cases x; cases y) (simp_all add: RespondActivityTaskCanceledByIDRequest_Equals_def
      if_not_False, fastforce intro: RespondActivityTaskCanceledByIDRequest.equality)

record RespondActivityTaskCompletedByIDRequest =
  Domain :: "string option"
  WorkflowID :: "string option"
  RunID :: "string option"
  ActivityID :: "string option"
  Result :: "bytes option"
  Identity :: "string option"

definition RespondActivityTaskCompletedByIDRequest_zero :: RespondActivityTaskCompletedByIDRequest
    where
  "RespondActivityTaskCompletedByIDRequest_zero = \<lparr>RespondActivityTaskCompletedByIDRequest.Domain =
      None, RespondActivityTaskCompletedByIDRequest.WorkflowID = None,
      RespondActivityTaskCompletedByIDRequest.RunID = None,
      RespondActivityTaskCompletedByIDRequest.ActivityID = None,
      RespondActivityTaskCompletedByIDRequest.Result = None,
      RespondActivityTaskCompletedByIDRequest.Identity = None\<rparr>"

definition RespondActivityTaskCompletedByIDRequest_ToWire ::
  "'v wire_api \<Rightarrow> RespondActivityTaskCompletedByIDRequest \<Rightarrow> go_error + 'v" where
  "RespondActivityTaskCompletedByIDRequest_ToWire W v =
     and_then (put_opt 10 (\<lambda>x. Inr (NewValueString W x))
         (RespondActivityTaskCompletedByIDRequest.Domain v) [])
       (\<lambda>fields.
     and_then (put_opt 20 (\<lambda>x. Inr (NewValueString W x))
         (RespondActivityTaskCompletedByIDRequest.WorkflowID v) fields)
       (\<lambda>fields.
     and_then (put_opt 30 (\<lambda>x. Inr (NewValueString W x))
         (RespondActivityTaskCompletedByIDRequest.RunID v) fields)
       (\<lambda>fields.
     and_then (put_opt 40 (\<lambda>x. Inr (NewValueString W x))
         (RespondActivityTaskCompletedByIDRequest.ActivityID v) fields)
       (\<lambda>fields.
     and_then (put_opt 50 (\<lambda>x. Inr (NewValueBinary W x))
         (RespondActivityTaskCompletedByIDRequest.Result v) fields)
       (\<lambda>fields.
     and_then (put_opt 60 (\<lambda>x. Inr (NewValueString W x))
         (RespondActivityTaskCompletedByIDRequest.Identity v) fields)
       (\<lambda>fields.
     Inr (NewValueStruct W fields)))))))"

definition RespondActivityTaskCompletedByIDRequest_FromWire ::
  "'v wire_api \<Rightarrow> 'v \<Rightarrow> RespondActivityTaskCompletedByIDRequest \<Rightarrow> go_error +
      RespondActivityTaskCompletedByIDRequest" where
  "RespondActivityTaskCompletedByIDRequest_FromWire W w v =
     foldM (\<lambda>v (fid, fval).
       if fid = 10 then
         if wire_api.Type W fval = TBinary
         then Inr (v\<lparr>RespondActivityTaskCompletedByIDRequest.Domain := Some (GetString W fval)\<rparr>)
         else Inr v
       else if fid = 20 then
         if wire_api.Type W fval = TBinary
         then Inr (v\<lparr>RespondActivityTaskCompletedByIDRequest.WorkflowID := Some (GetString W fval)\<rparr>)
         else Inr v
       else if fid = 30 then
         if wire_api.Type W fval = TBinary
         then Inr (v\<lparr>RespondActivityTaskCompletedByIDRequest.RunID := Some (GetString W fval)\<rparr>)
         else Inr v
       else if fid = 40 then
         if wire_api.Type W fval = TBinary
         then Inr (v\<lparr>RespondActivityTaskCompletedByIDRequest.ActivityID := Some (GetString W fval)\<rparr>)
         else Inr v
       else if fid = 50 then
         if wire_api.Type W fval = TBinary
         then Inr (v\<lparr>RespondActivityTaskCompletedByIDRequest.Result := Some (GetBinary W fval)\<rparr>)
         else Inr v
       else if fid = 60 then
         if wire_api.Type W fval = TBinary
         then Inr (v\<lparr>RespondActivityTaskCompletedByIDRequest.Identity := Some (GetString W fval)\<rparr>)
         else Inr v
       else Inr v) (GetStruct W w) v"

definition RespondActivityTaskCompletedByIDRequest_Read :: "'v wire_api \<Rightarrow> 'v \<Rightarrow> go_error +
    RespondActivityTaskCompletedByIDRequest" where
  "RespondActivityTaskCompletedByIDRequest_Read W w =
      RespondActivityTaskCompletedByIDRequest_FromWire W w
      RespondActivityTaskCompletedByIDRequest_zero"

lemma RespondActivityTaskCompletedByIDRequest_merge:
  "(case x of None \<Rightarrow> Inr \<lparr>RespondActivityTaskCompletedByIDRequest.Domain = a0,
      RespondActivityTaskCompletedByIDRequest.WorkflowID = a1,
      RespondActivityTaskCompletedByIDRequest.RunID = a2,
      RespondActivityTaskCompletedByIDRequest.ActivityID = a3,
      RespondActivityTaskCompletedByIDRequest.Result = a4,
      RespondActivityTaskCompletedByIDRequest.Identity = a5\<rparr> | Some y \<Rightarrow> Inr
      \<lparr>RespondActivityTaskCompletedByIDRequest.Domain = b0 y,
      RespondActivityTaskCompletedByIDRequest.WorkflowID = b1 y,
      RespondActivityTaskCompletedByIDRequest.RunID = b2 y,
      RespondActivityTaskCompletedByIDRequest.ActivityID = b3 y,
      RespondActivityTaskCompletedByIDRequest.Result = b4 y,
      RespondActivityTaskCompletedByIDRequest.Identity = b5 y\<rparr>) =
   Inr \<lparr>RespondActivityTaskCompletedByIDRequest.Domain = (case x of None \<Rightarrow> a0 | Some y \<Rightarrow> b0 y),
       RespondActivityTaskCompletedByIDRequest.WorkflowID = (case x of None \<Rightarrow> a1 | Some y \<Rightarrow> b1 y),
       RespondActivityTaskCompletedByIDRequest.RunID = (case x of None \<Rightarrow> a2 | Some y \<Rightarrow> b2 y),
       RespondActivityTaskCompletedByIDRequest.ActivityID = (case x of None \<Rightarrow> a3 | Some y \<Rightarrow> b3 y),
       RespondActivityTaskCompletedByIDRequest.Result = (case x of None \<Rightarrow> a4 | Some y \<Rightarrow> b4 y),
       RespondActivityTaskCompletedByIDRequest.Identity = (case x of None \<Rightarrow> a5 | Some y \<Rightarrow> b5 y)\<rparr>"
  by (cases x) simp_all

interpretation RespondActivityTaskCompletedByIDRequest: thrift_message W
  "RespondActivityTaskCompletedByIDRequest_ToWire W"
      "RespondActivityTaskCompletedByIDRequest_FromWire W"
      RespondActivityTaskCompletedByIDRequest_zero "\<lambda>_. True" for W
proof (rule thrift_messageI)
  fix x :: RespondActivityTaskCompletedByIDRequest
  assume laws: "wire_laws W"
  show "\<exists>w. RespondActivityTaskCompletedByIDRequest_ToWire W x = Inr w \<and> wire_api.Type W w = TStruct
      \<and>
      (Writable W w \<longleftrightarrow> (\<lambda>_. True) x) \<and> ((\<lambda>_. True) x \<longrightarrow>
          RespondActivityTaskCompletedByIDRequest_FromWire W w
          RespondActivityTaskCompletedByIDRequest_zero = Inr x)"
    by (cases x) (simp cong: option.case_cong add: codec_rules
        RespondActivityTaskCompletedByIDRequest_merge
        RespondActivityTaskCompletedByIDRequest_ToWire_def
        RespondActivityTaskCompletedByIDRequest_FromWire_def
        RespondActivityTaskCompletedByIDRequest_zero_def laws)
qed

definition RespondActivityTaskCompletedByIDRequest_Equals ::
  "RespondActivityTaskCompletedByIDRequest option \<Rightarrow> RespondActivityTaskCompletedByIDRequest option \<Rightarrow>
      bool" where
  "RespondActivityTaskCompletedByIDRequest_Equals v rhs =
     (case v of None \<Rightarrow> rhs = None
      | Some v \<Rightarrow> (case rhs of None \<Rightarrow> False
        | Some rhs \<Rightarrow>
          if \<not> String_EqualsPtr (RespondActivityTaskCompletedByIDRequest.Domain v)
              (RespondActivityTaskCompletedByIDRequest.Domain rhs) then False else
          if \<not> String_EqualsPtr (RespondActivityTaskCompletedByIDRequest.WorkflowID v)
              (RespondActivityTaskCompletedByIDRequest.WorkflowID rhs) then False else
          if \<not> String_EqualsPtr (RespondActivityTaskCompletedByIDRequest.RunID v)
              (RespondActivityTaskCompletedByIDRequest.RunID rhs) then False else
          if \<not> String_EqualsPtr (RespondActivityTaskCompletedByIDRequest.ActivityID v)
              (RespondActivityTaskCompletedByIDRequest.ActivityID rhs) then False else
          if \<not> both_set_and (=) (RespondActivityTaskCompletedByIDRequest.Result v)
              (RespondActivityTaskCompletedByIDRequest.Result rhs) then False else
          if \<not> String_EqualsPtr (RespondActivityTaskCompletedByIDRequest.Identity v)
              (RespondActivityTaskCompletedByIDRequest.Identity rhs) then False else
          True))"

lemma RespondActivityTaskCompletedByIDRequest_Equals_iff [simp]:
    "RespondActivityTaskCompletedByIDRequest_Equals x y \<longleftrightarrow> x = y"
  by (cases x; cases y) (simp_all add: RespondActivityTaskCompletedByIDRequest_Equals_def
      if_not_False, fastforce intro: RespondActivityTaskCompletedByIDRequest.equality)

record RespondActivityTaskFailedByIDRequest =
  Domain :: "string option"
  WorkflowID :: "string option"
  RunID :: "string option"
  ActivityID :: "string option"
  Reason :: "string option"
  Details :: "bytes option"
  Identity :: "string option"

definition RespondActivityTaskFailedByIDRequest_zero :: RespondActivityTaskFailedByIDRequest where
  "RespondActivityTaskFailedByIDRequest_zero = \<lparr>RespondActivityTaskFailedByIDRequest.Domain = None,
      RespondActivityTaskFailedByIDRequest.WorkflowID = None,
      RespondActivityTaskFailedByIDRequest.RunID = None,
      RespondActivityTaskFailedByIDRequest.ActivityID = None,
      RespondActivityTaskFailedByIDRequest.Reason = None,
      RespondActivityTaskFailedByIDRequest.Details = None,
      RespondActivityTaskFailedByIDRequest.Identity = None\<rparr>"

definition RespondActivityTaskFailedByIDRequest_ToWire ::
  "'v wire_api \<Rightarrow> RespondActivityTaskFailedByIDRequest \<Rightarrow> go_error + 'v" where
  "RespondActivityTaskFailedByIDRequest_ToWire W v =
     and_then (put_opt 10 (\<lambda>x. Inr (NewValueString W x))
         (RespondActivityTaskFailedByIDRequest.Domain v) [])
       (\<lambda>fields.
     and_then (put_opt 20 (\<lambda>x. Inr (NewValueString W x))
         (RespondActivityTaskFailedByIDRequest.WorkflowID v) fields)
       (\<lambda>fields.
     and_then (put_opt 30 (\<lambda>x. Inr (NewValueString W x)) (RespondActivityTaskFailedByIDRequest.RunID
         v) fields)
       (\<lambda>fields.
     and_then (put_opt 40 (\<lambda>x. Inr (NewValueString W x))
         (RespondActivityTaskFailedByIDRequest.ActivityID v) fields)
       (\<lambda>fields.
     and_then (put_opt 50 (\<lambda>x. Inr (NewValueString W x))
         (RespondActivityTaskFailedByIDRequest.Reason v) fields)
       (\<lambda>fields.
     and_then (put_opt 60 (\<lambda>x. Inr (NewValueBinary W x))
         (RespondActivityTaskFailedByIDRequest.Details v) fields)
       (\<lambda>fields.
     and_then (put_opt 70 (\<lambda>x. Inr (NewValueString W x))
         (RespondActivityTaskFailedByIDRequest.Identity v) fields)
       (\<lambda>fields.
     Inr (NewValueStruct W fields))))))))"

definition RespondActivityTaskFailedByIDRequest_FromWire ::
  "'v wire_api \<Rightarrow> 'v \<Rightarrow> RespondActivityTaskFailedByIDRequest \<Rightarrow> go_error +
      RespondActivityTaskFailedByIDRequest" where
  "RespondActivityTaskFailedByIDRequest_FromWire W w v =
     foldM (\<lambda>v (fid, fval).
       if fid = 10 then
         if wire_api.Type W fval = TBinary
         then Inr (v\<lparr>RespondActivityTaskFailedByIDRequest.Domain := Some (GetString W fval)\<rparr>)
         else Inr v
       else if fid = 20 then
         if wire_api.Type W fval = TBinary
         then Inr (v\<lparr>RespondActivityTaskFailedByIDRequest.WorkflowID := Some (GetString W fval)\<rparr>)
         else Inr v
       else if fid = 30 then
         if wire_api.Type W fval = TBinary
         then Inr (v\<lparr>RespondActivityTaskFailedByIDRequest.RunID := Some (GetString W fval)\<rparr>)
         else Inr v
       else if fid = 40 then
         if wire_api.Type W fval = TBinary
         then Inr (v\<lparr>RespondActivityTaskFailedByIDRequest.ActivityID := Some (GetString W fval)\<rparr>)
         else Inr v
       else if fid = 50 then
         if wire_api.Type W fval = TBinary
         then Inr (v\<lparr>RespondActivityTaskFailedByIDRequest.Reason := Some (GetString W fval)\<rparr>)
         else Inr v
       else if fid = 60 then
         if wire_api.Type W fval = TBinary
         then Inr (v\<lparr>RespondActivityTaskFailedByIDRequest.Details := Some (GetBinary W fval)\<rparr>)
         else Inr v
       else if fid = 70 then
         if wire_api.Type W fval = TBinary
         then Inr (v\<lparr>RespondActivityTaskFailedByIDRequest.Identity := Some (GetString W fval)\<rparr>)
         else Inr v
       else Inr v) (GetStruct W w) v"

definition RespondActivityTaskFailedByIDRequest_Read :: "'v wire_api \<Rightarrow> 'v \<Rightarrow> go_error +
    RespondActivityTaskFailedByIDRequest" where
  "RespondActivityTaskFailedByIDRequest_Read W w = RespondActivityTaskFailedByIDRequest_FromWire W w
      RespondActivityTaskFailedByIDRequest_zero"

lemma RespondActivityTaskFailedByIDRequest_merge:
  "(case x of None \<Rightarrow> Inr \<lparr>RespondActivityTaskFailedByIDRequest.Domain = a0,
      RespondActivityTaskFailedByIDRequest.WorkflowID = a1,
      RespondActivityTaskFailedByIDRequest.RunID = a2,
      RespondActivityTaskFailedByIDRequest.ActivityID = a3,
      RespondActivityTaskFailedByIDRequest.Reason = a4, RespondActivityTaskFailedByIDRequest.Details
      = a5, RespondActivityTaskFailedByIDRequest.Identity = a6\<rparr> | Some y \<Rightarrow> Inr
      \<lparr>RespondActivityTaskFailedByIDRequest.Domain = b0 y,
      RespondActivityTaskFailedByIDRequest.WorkflowID = b1 y,
      RespondActivityTaskFailedByIDRequest.RunID = b2 y,
      RespondActivityTaskFailedByIDRequest.ActivityID = b3 y,
      RespondActivityTaskFailedByIDRequest.Reason = b4 y,
      RespondActivityTaskFailedByIDRequest.Details = b5 y,
      RespondActivityTaskFailedByIDRequest.Identity = b6 y\<rparr>) =
   Inr \<lparr>RespondActivityTaskFailedByIDRequest.Domain = (case x of None \<Rightarrow> a0 | Some y \<Rightarrow> b0 y),
       RespondActivityTaskFailedByIDRequest.WorkflowID = (case x of None \<Rightarrow> a1 | Some y \<Rightarrow> b1 y),
       RespondActivityTaskFailedByIDRequest.RunID = (case x of None \<Rightarrow> a2 | Some y \<Rightarrow> b2 y),
       RespondActivityTaskFailedByIDRequest.ActivityID = (case x of None \<Rightarrow> a3 | Some y \<Rightarrow> b3 y),
       RespondActivityTaskFailedByIDRequest.Reason = (case x of None \<Rightarrow> a4 | Some y \<Rightarrow> b4 y),
       RespondActivityTaskFailedByIDRequest.Details = (case x of None \<Rightarrow> a5 | Some y \<Rightarrow> b5 y),
       RespondActivityTaskFailedByIDRequest.Identity = (case x of None \<Rightarrow> a6 | Some y \<Rightarrow> b6 y)\<rparr>"
  by (cases x) simp_all

interpretation RespondActivityTaskFailedByIDRequest: thrift_message W
  "RespondActivityTaskFailedByIDRequest_ToWire W" "RespondActivityTaskFailedByIDRequest_FromWire W"
      RespondActivityTaskFailedByIDRequest_zero "\<lambda>_. True" for W
proof (rule thrift_messageI)
  fix x :: RespondActivityTaskFailedByIDRequest
  assume laws: "wire_laws W"
  show "\<exists>w. RespondActivityTaskFailedByIDRequest_ToWire W x = Inr w \<and> wire_api.Type W w = TStruct \<and>
      (Writable W w \<longleftrightarrow> (\<lambda>_. True) x) \<and> ((\<lambda>_. True) x \<longrightarrow> RespondActivityTaskFailedByIDRequest_FromWire
          W w RespondActivityTaskFailedByIDRequest_zero = Inr x)"
    by (cases x) (simp cong: option.case_cong add: codec_rules
        RespondActivityTaskFailedByIDRequest_merge RespondActivityTaskFailedByIDRequest_ToWire_def
        RespondActivityTaskFailedByIDRequest_FromWire_def
        RespondActivityTaskFailedByIDRequest_zero_def laws)
qed

definition RespondActivityTaskFailedByIDRequest_Equals ::
  "RespondActivityTaskFailedByIDRequest option \<Rightarrow> RespondActivityTaskFailedByIDRequest option \<Rightarrow> bool"
      where
  "RespondActivityTaskFailedByIDRequest_Equals v rhs =
     (case v of None \<Rightarrow> rhs = None
      | Some v \<Rightarrow> (case rhs of None \<Rightarrow> False
        | Some rhs \<Rightarrow>
          if \<not> String_EqualsPtr (RespondActivityTaskFailedByIDRequest.Domain v)
              (RespondActivityTaskFailedByIDRequest.Domain rhs) then False else
          if \<not> String_EqualsPtr (RespondActivityTaskFailedByIDRequest.WorkflowID v)
              (RespondActivityTaskFailedByIDRequest.WorkflowID rhs) then False else
          if \<not> String_EqualsPtr (RespondActivityTaskFailedByIDRequest.RunID v)
              (RespondActivityTaskFailedByIDRequest.RunID rhs) then False else
          if \<not> String_EqualsPtr (RespondActivityTaskFailedByIDRequest.ActivityID v)
              (RespondActivityTaskFailedByIDRequest.ActivityID rhs) then False else
          if \<not> String_EqualsPtr (RespondActivityTaskFailedByIDRequest.Reason v)
              (RespondActivityTaskFailedByIDRequest.Reason rhs) then False else
          if \<not> both_set_and (=) (RespondActivityTaskFailedByIDRequest.Details v)
              (RespondActivityTaskFailedByIDRequest.Details rhs) then False else
          if \<not> String_EqualsPtr (RespondActivityTaskFailedByIDRequest.Identity v)
              (RespondActivityTaskFailedByIDRequest.Identity rhs) then False else
          True))"

lemma RespondActivityTaskFailedByIDRequest_Equals_iff [simp]:
    "RespondActivityTaskFailedByIDRequest_Equals x y \<longleftrightarrow> x = y"
  by (cases x; cases y) (simp_all add: RespondActivityTaskFailedByIDRequest_Equals_def if_not_False,
      fastforce intro: RespondActivityTaskFailedByIDRequest.equality)

end
