(* ===== verification/GoActivityService.thy ===== *)
theory GoActivityService
  imports GoRpc GoMessages
begin

text \<open>
  The generated code of the activity task calls:
  PollForActivityTask,
  RecordActivityTaskHeartbeat,
  RecordActivityTaskHeartbeatByID,
  RespondActivityTaskCompleted,
  RespondActivityTaskCompletedByID,
  RespondActivityTaskFailed,
  RespondActivityTaskFailedByID,
  RespondActivityTaskCanceled,
  RespondActivityTaskCanceledByID.
  For each method: its argument and result structs with their codecs and its helper
  (proxy/gen/cadence/cadence.go), its server handler (workflowserviceserver/server.go) and
  its client method (workflowserviceclient/client.go); then the interpretations that show
  the two codecs round trip and that the method keeps the contract \<open>rpc_method\<close>.
\<close>

section \<open>PollForActivityTask\<close>

record WorkflowService_PollForActivityTask_Args =
  PollRequest :: "PollForActivityTaskRequest option"

definition WorkflowService_PollForActivityTask_Args_zero :: WorkflowService_PollForActivityTask_Args
    where
  "WorkflowService_PollForActivityTask_Args_zero =
      \<lparr>WorkflowService_PollForActivityTask_Args.PollRequest = None\<rparr>"

definition WorkflowService_PollForActivityTask_Args_ToWire ::
  "'v wire_api \<Rightarrow> WorkflowService_PollForActivityTask_Args \<Rightarrow> go_error + 'v" where
  "WorkflowService_PollForActivityTask_Args_ToWire W v =
     and_then (put_opt 1 (PollForActivityTaskRequest_ToWire W)
         (WorkflowService_PollForActivityTask_Args.PollRequest v) [])
       (\<lambda>fields.
     Inr (NewValueStruct W fields))"

definition WorkflowService_PollForActivityTask_Args_FromWire ::
  "'v wire_api \<Rightarrow> 'v \<Rightarrow> WorkflowService_PollForActivityTask_Args \<Rightarrow> go_error +
      WorkflowService_PollForActivityTask_Args" where
  "WorkflowService_PollForActivityTask_Args_FromWire W w v =
     foldM (\<lambda>v (fid, fval).
       if fid = 1 then
         if wire_api.Type W fval = TStruct
         then and_then (PollForActivityTaskRequest_Read W fval) (\<lambda>x. Inr
             (v\<lparr>WorkflowService_PollForActivityTask_Args.PollRequest := Some x\<rparr>))
         else Inr v
       else Inr v) (GetStruct W w) v"

definition WorkflowService_PollForActivityTask_Args_enveloper ::
  "'v wire_api \<Rightarrow> WorkflowService_PollForActivityTask_Args \<Rightarrow> 'v enveloper" where
  "WorkflowService_PollForActivityTask_Args_enveloper W v =
     \<lparr>MethodName = ''PollForActivityTask'', EnvelopeType = Call, EnvelopeToWire =
         WorkflowService_PollForActivityTask_Args_ToWire W v\<rparr>"

definition WorkflowService_PollForActivityTask_Args_Equals ::
  "WorkflowService_PollForActivityTask_Args option \<Rightarrow> WorkflowService_PollForActivityTask_Args option
      \<Rightarrow> bool" where
  "WorkflowService_PollForActivityTask_Args_Equals v rhs =
     (case v of None \<Rightarrow> rhs = None
      | Some v \<Rightarrow> (case rhs of None \<Rightarrow> False
        | Some rhs \<Rightarrow>
          if \<not> both_set_and (\<lambda>x y. PollForActivityTaskRequest_Equals (Some x) (Some y))
              (WorkflowService_PollForActivityTask_Args.PollRequest v)
              (WorkflowService_PollForActivityTask_Args.PollRequest rhs) then False else
          True))"

definition WorkflowService_PollForActivityTask_Args_comparable ::
    "WorkflowService_PollForActivityTask_Args \<Rightarrow> bool" where
  "WorkflowService_PollForActivityTask_Args_comparable v \<longleftrightarrow>
     if_set PollForActivityTaskRequest_comparable
         (WorkflowService_PollForActivityTask_Args.PollRequest v)"

lemma WorkflowService_PollForActivityTask_Args_Equals_iff:
  "if_set WorkflowService_PollForActivityTask_Args_comparable x \<Longrightarrow> if_set
      WorkflowService_PollForActivityTask_Args_comparable y \<Longrightarrow>
      WorkflowService_PollForActivityTask_Args_Equals x y \<longleftrightarrow> x = y"
  by (cases x; cases y) (simp_all add: WorkflowService_PollForActivityTask_Args_Equals_def
      WorkflowService_PollForActivityTask_Args_comparable_def if_not_False,
    fastforce intro: WorkflowService_PollForActivityTask_Args.equality)

lemma WorkflowService_PollForActivityTask_Args_fields_equal [simp]:
  "if_set WorkflowService_PollForActivityTask_Args_comparable x \<Longrightarrow> if_set
      WorkflowService_PollForActivityTask_Args_comparable y \<Longrightarrow>
    both_set_and (\<lambda>x y. WorkflowService_PollForActivityTask_Args_Equals (Some x) (Some y)) x y \<longleftrightarrow> x =
        y"
  by (rule both_set_and_iff [where P = WorkflowService_PollForActivityTask_Args_comparable])
      (simp_all add: WorkflowService_PollForActivityTask_Args_Equals_iff)

record WorkflowService_PollForActivityTask_Result =
  Success :: "PollForActivityTaskResponse option"
  BadRequestError :: "BadRequestError option"
  InternalServiceError :: "InternalServiceError option"
  ServiceBusyError :: "ServiceBusyError option"
  LimitExceededError :: "LimitExceededError option"
  EntityNotExistError :: "EntityNotExistsError option"
  DomainNotActiveError :: "DomainNotActiveError option"
  ClientVersionNotSupportedError :: "ClientVersionNotSupportedError option"

definition WorkflowService_PollForActivityTask_Result_count ::
    "WorkflowService_PollForActivityTask_Result \<Rightarrow> nat" where
  "WorkflowService_PollForActivityTask_Result_count v =
     (if WorkflowService_PollForActivityTask_Result.Success v \<noteq> None then 1 else 0) +
     (if WorkflowService_PollForActivityTask_Result.BadRequestError v \<noteq> None then 1 else 0) +
     (if WorkflowService_PollForActivityTask_Result.InternalServiceError v \<noteq> None then 1 else 0) +
     (if WorkflowService_PollForActivityTask_Result.ServiceBusyError v \<noteq> None then 1 else 0) +
     (if WorkflowService_PollForActivityTask_Result.LimitExceededError v \<noteq> None then 1 else 0) +
     (if WorkflowService_PollForActivityTask_Result.EntityNotExistError v \<noteq> None then 1 else 0) +
     (if WorkflowService_PollForActivityTask_Result.DomainNotActiveError v \<noteq> None then 1 else 0) +
     (if WorkflowService_PollForActivityTask_Result.ClientVersionNotSupportedError v \<noteq> None then 1
         else 0)"

definition WorkflowService_PollForActivityTask_Result_zero ::
    WorkflowService_PollForActivityTask_Result where
  "WorkflowService_PollForActivityTask_Result_zero =
      \<lparr>WorkflowService_PollForActivityTask_Result.Success = None,
      WorkflowService_PollForActivityTask_Result.BadRequestError = None,
      WorkflowService_PollForActivityTask_Result.InternalServiceError = None,
      WorkflowService_PollForActivityTask_Result.ServiceBusyError = None,
      WorkflowService_PollForActivityTask_Result.LimitExceededError = None,
      WorkflowService_PollForActivityTask_Result.EntityNotExistError = None,
      WorkflowService_PollForActivityTask_Result.DomainNotActiveError = None,
      WorkflowService_PollForActivityTask_Result.ClientVersionNotSupportedError = None\<rparr>"

definition WorkflowService_PollForActivityTask_Result_ToWire ::
  "'v wire_api \<Rightarrow> WorkflowService_PollForActivityTask_Result \<Rightarrow> go_error + 'v" where
  "WorkflowService_PollForActivityTask_Result_ToWire W v =
     and_then (put_opt 0 (PollForActivityTaskResponse_ToWire W)
         (WorkflowService_PollForActivityTask_Result.Success v) [])
       (\<lambda>fields.
     and_then (put_opt 1 (BadRequestError_ToWire W)
         (WorkflowService_PollForActivityTask_Result.BadRequestError v) fields)
       (\<lambda>fields.
     and_then (put_opt 2 (InternalServiceError_ToWire W)
         (WorkflowService_PollForActivityTask_Result.InternalServiceError v) fields)
       (\<lambda>fields.
     and_then (put_opt 3 (ServiceBusyError_ToWire W)
         (WorkflowService_PollForActivityTask_Result.ServiceBusyError v) fields)
       (\<lambda>fields.
     and_then (put_opt 4 (LimitExceededError_ToWire W)
         (WorkflowService_PollForActivityTask_Result.LimitExceededError v) fields)
       (\<lambda>fields.
     and_then (put_opt 5 (EntityNotExistsError_ToWire W)
         (WorkflowService_PollForActivityTask_Result.EntityNotExistError v) fields)
       (\<lambda>fields.
     and_then (put_opt 6 (DomainNotActiveError_ToWire W)
         (WorkflowService_PollForActivityTask_Result.DomainNotActiveError v) fields)
       (\<lambda>fields.
     and_then (put_opt 7 (ClientVersionNotSupportedError_ToWire W)
         (WorkflowService_PollForActivityTask_Result.ClientVersionNotSupportedError v) fields)
       (\<lambda>fields.
     if length fields \<noteq> 1
     then Inl (E_Errorf
         ''WorkflowService_PollForActivityTask_Result should have exactly one field: got %v fields''
         (length fields))
     else Inr (NewValueStruct W fields)))))))))"

definition WorkflowService_PollForActivityTask_Result_FromWire ::
  "'v wire_api \<Rightarrow> 'v \<Rightarrow> WorkflowService_PollForActivityTask_Result \<Rightarrow> go_error +
      WorkflowService_PollForActivityTask_Result" where
  "WorkflowService_PollForActivityTask_Result_FromWire W w v =
     and_then (foldM (\<lambda>v (fid, fval).
       if fid = 0 then
         if wire_api.Type W fval = TStruct
         then and_then (PollForActivityTaskResponse_Read W fval) (\<lambda>x. Inr
             (v\<lparr>WorkflowService_PollForActivityTask_Result.Success := Some x\<rparr>))
         else Inr v
       else if fid = 1 then
         if wire_api.Type W fval = TStruct
         then and_then (BadRequestError_Read W fval) (\<lambda>x. Inr
             (v\<lparr>WorkflowService_PollForActivityTask_Result.BadRequestError := Some x\<rparr>))
         else Inr v
       else if fid = 2 then
         if wire_api.Type W fval = TStruct
         then and_then (InternalServiceError_Read W fval) (\<lambda>x. Inr
             (v\<lparr>WorkflowService_PollForActivityTask_Result.InternalServiceError := Some x\<rparr>))
         else Inr v
       else if fid = 3 then
         if wire_api.Type W fval = TStruct
         then and_then (ServiceBusyError_Read W fval) (\<lambda>x. Inr
             (v\<lparr>WorkflowService_PollForActivityTask_Result.ServiceBusyError := Some x\<rparr>))
         else Inr v
       else if fid = 4 then
         if wire_api.Type W fval = TStruct
         then and_then (LimitExceededError_Read W fval) (\<lambda>x. Inr
             (v\<lparr>WorkflowService_PollForActivityTask_Result.LimitExceededError := Some x\<rparr>))
         else Inr v
       else if fid = 5 then
         if wire_api.Type W fval = TStruct
         then and_then (EntityNotExistsError_Read W fval) (\<lambda>x. Inr
             (v\<lparr>WorkflowService_PollForActivityTask_Result.EntityNotExistError := Some x\<rparr>))
         else Inr v
       else if fid = 6 then
         if wire_api.Type W fval = TStruct
         then and_then (DomainNotActiveError_Read W fval) (\<lambda>x. Inr
             (v\<lparr>WorkflowService_PollForActivityTask_Result.DomainNotActiveError := Some x\<rparr>))
         else Inr v
       else if fid = 7 then
         if wire_api.Type W fval = TStruct
         then and_then (ClientVersionNotSupportedError_Read W fval) (\<lambda>x. Inr
             (v\<lparr>WorkflowService_PollForActivityTask_Result.ClientVersionNotSupportedError := Some
             x\<rparr>))
         else Inr v
       else Inr v) (GetStruct W w) v) (\<lambda>v.
     let count = WorkflowService_PollForActivityTask_Result_count v in
     if count \<noteq> 1
     then Inl (E_Errorf
         ''WorkflowService_PollForActivityTask_Result should have exactly one field: got %v fields''
         count)
     else Inr v)"

definition WorkflowService_PollForActivityTask_Result_enveloper ::
  "'v wire_api \<Rightarrow> WorkflowService_PollForActivityTask_Result \<Rightarrow> 'v enveloper" where
  "WorkflowService_PollForActivityTask_Result_enveloper W v =
     \<lparr>MethodName = ''PollForActivityTask'', EnvelopeType = Reply, EnvelopeToWire =
         WorkflowService_PollForActivityTask_Result_ToWire W v\<rparr>"

definition WorkflowService_PollForActivityTask_Result_Equals ::
  "WorkflowService_PollForActivityTask_Result option \<Rightarrow> WorkflowService_PollForActivityTask_Result
      option \<Rightarrow> bool" where
  "WorkflowService_PollForActivityTask_Result_Equals v rhs =
     (case v of None \<Rightarrow> rhs = None
      | Some v \<Rightarrow> (case rhs of None \<Rightarrow> False
        | Some rhs \<Rightarrow>
          if \<not> both_set_and (\<lambda>x y. PollForActivityTaskResponse_Equals (Some x) (Some y))
              (WorkflowService_PollForActivityTask_Result.Success v)
              (WorkflowService_PollForActivityTask_Result.Success rhs) then False else
          if \<not> both_set_and (\<lambda>x y. BadRequestError_Equals (Some x) (Some y))
              (WorkflowService_PollForActivityTask_Result.BadRequestError v)
              (WorkflowService_PollForActivityTask_Result.BadRequestError rhs) then False else
          if \<not> both_set_and (\<lambda>x y. InternalServiceError_Equals (Some x) (Some y))
              (WorkflowService_PollForActivityTask_Result.InternalServiceError v)
              (WorkflowService_PollForActivityTask_Result.InternalServiceError rhs) then False else
          if \<not> both_set_and (\<lambda>x y. ServiceBusyError_Equals (Some x) (Some y))
              (WorkflowService_PollForActivityTask_Result.ServiceBusyError v)
              (WorkflowService_PollForActivityTask_Result.ServiceBusyError rhs) then False else
          if \<not> both_set_and (\<lambda>x y. LimitExceededError_Equals (Some x) (Some y))
              (WorkflowService_PollForActivityTask_Result.LimitExceededError v)
              (WorkflowService_PollForActivityTask_Result.LimitExceededError rhs) then False else
          if \<not> both_set_and (\<lambda>x y. EntityNotExistsError_Equals (Some x) (Some y))
              (WorkflowService_PollForActivityTask_Result.EntityNotExistError v)
              (WorkflowService_PollForActivityTask_Result.EntityNotExistError rhs) then False else
          if \<not> both_set_and (\<lambda>x y. DomainNotActiveError_Equals (Some x) (Some y))
              (WorkflowService_PollForActivityTask_Result.DomainNotActiveError v)
              (WorkflowService_PollForActivityTask_Result.DomainNotActiveError rhs) then False else
          if \<not> both_set_and (\<lambda>x y. ClientVersionNotSupportedError_Equals (Some x) (Some y))
              (WorkflowService_PollForActivityTask_Result.ClientVersionNotSupportedError v)
              (WorkflowService_PollForActivityTask_Result.ClientVersionNotSupportedError rhs) then
              False else
          True))"

definition WorkflowService_PollForActivityTask_Result_comparable ::
    "WorkflowService_PollForActivityTask_Result \<Rightarrow> bool" where
  "WorkflowService_PollForActivityTask_Result_comparable v \<longleftrightarrow>
     if_set PollForActivityTaskResponse_comparable
         (WorkflowService_PollForActivityTask_Result.Success v)"

lemma WorkflowService_PollForActivityTask_Result_Equals_iff:
  "if_set WorkflowService_PollForActivityTask_Result_comparable x \<Longrightarrow> if_set
      WorkflowService_PollForActivityTask_Result_comparable y \<Longrightarrow>
      WorkflowService_PollForActivityTask_Result_Equals x y \<longleftrightarrow> x = y"
  by (cases x; cases y) (simp_all add: WorkflowService_PollForActivityTask_Result_Equals_def
      WorkflowService_PollForActivityTask_Result_comparable_def if_not_False,
    fastforce intro: WorkflowService_PollForActivityTask_Result.equality)

lemma WorkflowService_PollForActivityTask_Result_fields_equal [simp]:
  "if_set WorkflowService_PollForActivityTask_Result_comparable x \<Longrightarrow> if_set
      WorkflowService_PollForActivityTask_Result_comparable y \<Longrightarrow>
    both_set_and (\<lambda>x y. WorkflowService_PollForActivityTask_Result_Equals (Some x) (Some y)) x y \<longleftrightarrow> x
        = y"
  by (rule both_set_and_iff [where P = WorkflowService_PollForActivityTask_Result_comparable])
      (simp_all add: WorkflowService_PollForActivityTask_Result_Equals_iff)

definition WorkflowService_PollForActivityTask_Helper_Args :: "PollForActivityTaskRequest option \<Rightarrow>
    WorkflowService_PollForActivityTask_Args" where
  "WorkflowService_PollForActivityTask_Helper_Args r =
      \<lparr>WorkflowService_PollForActivityTask_Args.PollRequest = r\<rparr>"

definition WorkflowService_PollForActivityTask_Helper_IsException :: "go_error \<Rightarrow> bool" where
  "WorkflowService_PollForActivityTask_Helper_IsException err =
     (case err of
        E_BadRequestError _ \<Rightarrow> True
      | E_InternalServiceError _ \<Rightarrow> True
      | E_ServiceBusyError _ \<Rightarrow> True
      | E_LimitExceededError _ \<Rightarrow> True
      | E_EntityNotExistsError _ \<Rightarrow> True
      | E_DomainNotActiveError _ \<Rightarrow> True
      | E_ClientVersionNotSupportedError _ \<Rightarrow> True
      | _ \<Rightarrow> False)"

definition WorkflowService_PollForActivityTask_Helper_WrapResponse ::
  "PollForActivityTaskResponse option \<Rightarrow> go_error option \<Rightarrow> go_error +
      WorkflowService_PollForActivityTask_Result" where
  "WorkflowService_PollForActivityTask_Helper_WrapResponse success err =
     (case err of None \<Rightarrow> Inr
         (WorkflowService_PollForActivityTask_Result_zero\<lparr>WorkflowService_PollForActivityTask_Result.Success := success\<rparr>)
      | Some err \<Rightarrow> (case err of
          E_BadRequestError e \<Rightarrow> (case e of
              None \<Rightarrow> Inl (E_New
                  ''WrapResponse received non-nil error type with nil value for WorkflowService_PollForActivityTask_Result.BadRequestError'')
            | Some e \<Rightarrow> Inr
                (WorkflowService_PollForActivityTask_Result_zero\<lparr>WorkflowService_PollForActivityTask_Result.BadRequestError := Some e\<rparr>))
        | E_InternalServiceError e \<Rightarrow> (case e of
              None \<Rightarrow> Inl (E_New
                  ''WrapResponse received non-nil error type with nil value for WorkflowService_PollForActivityTask_Result.InternalServiceError'')
            | Some e \<Rightarrow> Inr
                (WorkflowService_PollForActivityTask_Result_zero\<lparr>WorkflowService_PollForActivityTask_Result.InternalServiceError := Some e\<rparr>))
        | E_ServiceBusyError e \<Rightarrow> (case e of
              None \<Rightarrow> Inl (E_New
                  ''WrapResponse received non-nil error type with nil value for WorkflowService_PollForActivityTask_Result.ServiceBusyError'')
            | Some e \<Rightarrow> Inr
                (WorkflowService_PollForActivityTask_Result_zero\<lparr>WorkflowService_PollForActivityTask_Result.ServiceBusyError := Some e\<rparr>))
        | E_LimitExceededError e \<Rightarrow> (case e of
              None \<Rightarrow> Inl (E_New
                  ''WrapResponse received non-nil error type with nil value for WorkflowService_PollForActivityTask_Result.LimitExceededError'')
            | Some e \<Rightarrow> Inr
                (WorkflowService_PollForActivityTask_Result_zero\<lparr>WorkflowService_PollForActivityTask_Result.LimitExceededError := Some e\<rparr>))
        | E_EntityNotExistsError e \<Rightarrow> (case e of
              None \<Rightarrow> Inl (E_New
                  ''WrapResponse received non-nil error type with nil value for WorkflowService_PollForActivityTask_Result.EntityNotExistError'')
            | Some e \<Rightarrow> Inr
                (WorkflowService_PollForActivityTask_Result_zero\<lparr>WorkflowService_PollForActivityTask_Result.EntityNotExistError := Some e\<rparr>))
        | E_DomainNotActiveError e \<Rightarrow> (case e of
              None \<Rightarrow> Inl (E_New
                  ''WrapResponse received non-nil error type with nil value for WorkflowService_PollForActivityTask_Result.DomainNotActiveError'')
            | Some e \<Rightarrow> Inr
                (WorkflowService_PollForActivityTask_Result_zero\<lparr>WorkflowService_PollForActivityTask_Result.DomainNotActiveError := Some e\<rparr>))
        | E_ClientVersionNotSupportedError e \<Rightarrow> (case e of
              None \<Rightarrow> Inl (E_New
                  ''WrapResponse received non-nil error type with nil value for WorkflowService_PollForActivityTask_Result.ClientVersionNotSupportedError'')
            | Some e \<Rightarrow> Inr
                (WorkflowService_PollForActivityTask_Result_zero\<lparr>WorkflowService_PollForActivityTask_Result.ClientVersionNotSupportedError := Some e\<rparr>))
        | _ \<Rightarrow> Inl err))"

definition WorkflowService_PollForActivityTask_Helper_UnwrapResponse ::
  "WorkflowService_PollForActivityTask_Result \<Rightarrow> PollForActivityTaskResponse option \<times> go_error
      option" where
  "WorkflowService_PollForActivityTask_Helper_UnwrapResponse result =
    (if WorkflowService_PollForActivityTask_Result.BadRequestError result \<noteq> None then (None, Some
        (E_BadRequestError (WorkflowService_PollForActivityTask_Result.BadRequestError result)))
        else
     if WorkflowService_PollForActivityTask_Result.InternalServiceError result \<noteq> None then (None,
         Some (E_InternalServiceError
         (WorkflowService_PollForActivityTask_Result.InternalServiceError result))) else
     if WorkflowService_PollForActivityTask_Result.ServiceBusyError result \<noteq> None then (None, Some
         (E_ServiceBusyError (WorkflowService_PollForActivityTask_Result.ServiceBusyError result)))
         else
     if WorkflowService_PollForActivityTask_Result.LimitExceededError result \<noteq> None then (None, Some
         (E_LimitExceededError (WorkflowService_PollForActivityTask_Result.LimitExceededError
         result))) else
     if WorkflowService_PollForActivityTask_Result.EntityNotExistError result \<noteq> None then (None,
         Some (E_EntityNotExistsError
         (WorkflowService_PollForActivityTask_Result.EntityNotExistError result))) else
     if WorkflowService_PollForActivityTask_Result.DomainNotActiveError result \<noteq> None then (None,
         Some (E_DomainNotActiveError
         (WorkflowService_PollForActivityTask_Result.DomainNotActiveError result))) else
     if WorkflowService_PollForActivityTask_Result.ClientVersionNotSupportedError result \<noteq> None then
         (None, Some (E_ClientVersionNotSupportedError
         (WorkflowService_PollForActivityTask_Result.ClientVersionNotSupportedError result))) else
     if WorkflowService_PollForActivityTask_Result.Success result \<noteq> None then
         (WorkflowService_PollForActivityTask_Result.Success result, None) else
     (None, Some (E_New ''expected a non-void result'')))"

definition handler_PollForActivityTask ::
  "'v wire_api \<Rightarrow> ('ctx \<Rightarrow> PollForActivityTaskRequest option \<Rightarrow> PollForActivityTaskResponse option \<times>
      go_error option) \<Rightarrow>
   ('ctx, 'v) unary_handler" where
  "handler_PollForActivityTask W impl ctx body =
     (case WorkflowService_PollForActivityTask_Args_FromWire W body
         WorkflowService_PollForActivityTask_Args_zero of
      Inl err \<Rightarrow> (no_response, Some err)
    | Inr args \<Rightarrow>
      let (success, err) = impl ctx (WorkflowService_PollForActivityTask_Args.PollRequest args);
          hadError = (err \<noteq> None)
      in case WorkflowService_PollForActivityTask_Helper_WrapResponse success err of
           Inl err \<Rightarrow> (no_response, Some err)
         | Inr result \<Rightarrow>
             (\<lparr>Body = Some (WorkflowService_PollForActivityTask_Result_enveloper W result),
               IsApplicationError = hadError\<rparr>, None))"

definition client_PollForActivityTask ::
  "'v wire_api \<Rightarrow> ('ctx, 'v) thrift_client \<Rightarrow> 'ctx \<Rightarrow> PollForActivityTaskRequest option \<Rightarrow>
   PollForActivityTaskResponse option \<times> go_error option" where
  "client_PollForActivityTask W call ctx r =
     (let args = WorkflowService_PollForActivityTask_Helper_Args r in
      case call ctx (WorkflowService_PollForActivityTask_Args_enveloper W args) of
        Inl e \<Rightarrow> (None, Some e)
      | Inr body \<Rightarrow>
          (case WorkflowService_PollForActivityTask_Result_FromWire W body
              WorkflowService_PollForActivityTask_Result_zero of
             Inl e \<Rightarrow> (None, Some e)
           | Inr result \<Rightarrow> WorkflowService_PollForActivityTask_Helper_UnwrapResponse result))"

lemma WorkflowService_PollForActivityTask_Args_merge:
  "(case x of None \<Rightarrow> Inr \<lparr>WorkflowService_PollForActivityTask_Args.PollRequest = a0\<rparr> | Some y \<Rightarrow> Inr
      \<lparr>WorkflowService_PollForActivityTask_Args.PollRequest = b0 y\<rparr>) =
   Inr \<lparr>WorkflowService_PollForActivityTask_Args.PollRequest = (case x of None \<Rightarrow> a0 | Some y \<Rightarrow> b0
       y)\<rparr>"
  by (cases x) simp_all

interpretation WorkflowService_PollForActivityTask_Args: thrift_struct W
  "WorkflowService_PollForActivityTask_Args_ToWire W"
      "WorkflowService_PollForActivityTask_Args_FromWire W"
  WorkflowService_PollForActivityTask_Args_zero "\<lambda>x. True" for W
proof (rule thrift_structI)
  fix x :: WorkflowService_PollForActivityTask_Args
  assume laws: "wire_laws W"
  obtain enc0 where e0: "PollForActivityTaskRequest_ToWire W = (\<lambda>x. Inr (enc0 x))"
      "\<And>x. wire_api.Type W (enc0 x) = TStruct"
      "\<And>x. Writable W (enc0 x) \<longleftrightarrow> (\<lambda>_. True) x"
      "\<And>x. (\<lambda>_. True) x \<Longrightarrow> PollForActivityTaskRequest_FromWire W (enc0 x)
          PollForActivityTaskRequest_zero = Inr x"
    by (rule PollForActivityTaskRequest.encoder [OF laws]) (rule that)
  show "\<exists>w. WorkflowService_PollForActivityTask_Args_ToWire W x = Inr w \<and> wire_api.Type W w =
      TStruct \<and>
      (Writable W w \<longleftrightarrow> True) \<and> (True \<longrightarrow> WorkflowService_PollForActivityTask_Args_FromWire W w
          WorkflowService_PollForActivityTask_Args_zero = Inr x)"
    by (cases x) (simp cong: option.case_cong add: codec_rules
        WorkflowService_PollForActivityTask_Args_merge
        WorkflowService_PollForActivityTask_Args_ToWire_def
        WorkflowService_PollForActivityTask_Args_FromWire_def
      WorkflowService_PollForActivityTask_Args_zero_def PollForActivityTaskRequest_Read_def
          if_set_def laws e0)
qed

lemma WorkflowService_PollForActivityTask_Result_merge:
  "(case x of None \<Rightarrow> Inr \<lparr>WorkflowService_PollForActivityTask_Result.Success = a0,
      WorkflowService_PollForActivityTask_Result.BadRequestError = a1,
      WorkflowService_PollForActivityTask_Result.InternalServiceError = a2,
      WorkflowService_PollForActivityTask_Result.ServiceBusyError = a3,
      WorkflowService_PollForActivityTask_Result.LimitExceededError = a4,
      WorkflowService_PollForActivityTask_Result.EntityNotExistError = a5,
      WorkflowService_PollForActivityTask_Result.DomainNotActiveError = a6,
      WorkflowService_PollForActivityTask_Result.ClientVersionNotSupportedError = a7\<rparr> | Some y \<Rightarrow> Inr
      \<lparr>WorkflowService_PollForActivityTask_Result.Success = b0 y,
      WorkflowService_PollForActivityTask_Result.BadRequestError = b1 y,
      WorkflowService_PollForActivityTask_Result.InternalServiceError = b2 y,
      WorkflowService_PollForActivityTask_Result.ServiceBusyError = b3 y,
      WorkflowService_PollForActivityTask_Result.LimitExceededError = b4 y,
      WorkflowService_PollForActivityTask_Result.EntityNotExistError = b5 y,
      WorkflowService_PollForActivityTask_Result.DomainNotActiveError = b6 y,
      WorkflowService_PollForActivityTask_Result.ClientVersionNotSupportedError = b7 y\<rparr>) =
   Inr \<lparr>WorkflowService_PollForActivityTask_Result.Success = (case x of None \<Rightarrow> a0 | Some y \<Rightarrow> b0 y),
       WorkflowService_PollForActivityTask_Result.BadRequestError = (case x of None \<Rightarrow> a1 | Some y \<Rightarrow>
       b1 y), WorkflowService_PollForActivityTask_Result.InternalServiceError = (case x of None \<Rightarrow> a2
       | Some y \<Rightarrow> b2 y), WorkflowService_PollForActivityTask_Result.ServiceBusyError = (case x of
       None \<Rightarrow> a3 | Some y \<Rightarrow> b3 y), WorkflowService_PollForActivityTask_Result.LimitExceededError =
       (case x of None \<Rightarrow> a4 | Some y \<Rightarrow> b4 y),
       WorkflowService_PollForActivityTask_Result.EntityNotExistError = (case x of None \<Rightarrow> a5 | Some
       y \<Rightarrow> b5 y), WorkflowService_PollForActivityTask_Result.DomainNotActiveError = (case x of None
       \<Rightarrow> a6 | Some y \<Rightarrow> b6 y),
       WorkflowService_PollForActivityTask_Result.ClientVersionNotSupportedError = (case x of None \<Rightarrow>
       a7 | Some y \<Rightarrow> b7 y)\<rparr>"
  by (cases x) simp_all

interpretation WorkflowService_PollForActivityTask_Result: thrift_struct W
  "WorkflowService_PollForActivityTask_Result_ToWire W"
      "WorkflowService_PollForActivityTask_Result_FromWire W"
  WorkflowService_PollForActivityTask_Result_zero "\<lambda>r.
      WorkflowService_PollForActivityTask_Result_count r = 1 \<and> if_set
      PollForActivityTaskResponse_complete (WorkflowService_PollForActivityTask_Result.Success r)"
      for W
proof (rule thrift_checkedI)
  fix x :: WorkflowService_PollForActivityTask_Result
  assume laws: "wire_laws W"
  obtain enc0 where e0: "PollForActivityTaskResponse_ToWire W = (\<lambda>x. Inr (enc0 x))"
      "\<And>x. wire_api.Type W (enc0 x) = TStruct"
      "\<And>x. Writable W (enc0 x) \<longleftrightarrow> PollForActivityTaskResponse_complete x"
      "\<And>x. PollForActivityTaskResponse_complete x \<Longrightarrow> PollForActivityTaskResponse_FromWire W (enc0 x)
          PollForActivityTaskResponse_zero = Inr x"
    by (rule PollForActivityTaskResponse.encoder [OF laws]) (rule that)
  obtain enc1 where e1: "BadRequestError_ToWire W = (\<lambda>x. Inr (enc1 x))"
      "\<And>x. wire_api.Type W (enc1 x) = TStruct"
      "\<And>x. Writable W (enc1 x) \<longleftrightarrow> (\<lambda>_. True) x"
      "\<And>x. (\<lambda>_. True) x \<Longrightarrow> BadRequestError_FromWire W (enc1 x) BadRequestError_zero = Inr x"
    by (rule BadRequestError.encoder [OF laws]) (rule that)
  obtain enc2 where e2: "InternalServiceError_ToWire W = (\<lambda>x. Inr (enc2 x))"
      "\<And>x. wire_api.Type W (enc2 x) = TStruct"
      "\<And>x. Writable W (enc2 x) \<longleftrightarrow> (\<lambda>_. True) x"
      "\<And>x. (\<lambda>_. True) x \<Longrightarrow> InternalServiceError_FromWire W (enc2 x) InternalServiceError_zero = Inr
          x"
    by (rule InternalServiceError.encoder [OF laws]) (rule that)
  obtain enc3 where e3: "ServiceBusyError_ToWire W = (\<lambda>x. Inr (enc3 x))"
      "\<And>x. wire_api.Type W (enc3 x) = TStruct"
      "\<And>x. Writable W (enc3 x) \<longleftrightarrow> (\<lambda>_. True) x"
      "\<And>x. (\<lambda>_. True) x \<Longrightarrow> ServiceBusyError_FromWire W (enc3 x) ServiceBusyError_zero = Inr x"
    by (rule ServiceBusyError.encoder [OF laws]) (rule that)
  obtain enc4 where e4: "LimitExceededError_ToWire W = (\<lambda>x. Inr (enc4 x))"
      "\<And>x. wire_api.Type W (enc4 x) = TStruct"
      "\<And>x. Writable W (enc4 x) \<longleftrightarrow> (\<lambda>_. True) x"
      "\<And>x. (\<lambda>_. True) x \<Longrightarrow> LimitExceededError_FromWire W (enc4 x) LimitExceededError_zero = Inr x"
    by (rule LimitExceededError.encoder [OF laws]) (rule that)
  obtain enc5 where e5: "EntityNotExistsError_ToWire W = (\<lambda>x. Inr (enc5 x))"
      "\<And>x. wire_api.Type W (enc5 x) = TStruct"
      "\<And>x. Writable W (enc5 x) \<longleftrightarrow> (\<lambda>_. True) x"
      "\<And>x. (\<lambda>_. True) x \<Longrightarrow> EntityNotExistsError_FromWire W (enc5 x) EntityNotExistsError_zero = Inr
          x"
    by (rule EntityNotExistsError.encoder [OF laws]) (rule that)
  obtain enc6 where e6: "DomainNotActiveError_ToWire W = (\<lambda>x. Inr (enc6 x))"
      "\<And>x. wire_api.Type W (enc6 x) = TStruct"
      "\<And>x. Writable W (enc6 x) \<longleftrightarrow> (\<lambda>_. True) x"
      "\<And>x. (\<lambda>_. True) x \<Longrightarrow> DomainNotActiveError_FromWire W (enc6 x) DomainNotActiveError_zero = Inr
          x"
    by (rule DomainNotActiveError.encoder [OF laws]) (rule that)
  obtain enc7 where e7: "ClientVersionNotSupportedError_ToWire W = (\<lambda>x. Inr (enc7 x))"
      "\<And>x. wire_api.Type W (enc7 x) = TStruct"
      "\<And>x. Writable W (enc7 x) \<longleftrightarrow> (\<lambda>_. True) x"
      "\<And>x. (\<lambda>_. True) x \<Longrightarrow> ClientVersionNotSupportedError_FromWire W (enc7 x)
          ClientVersionNotSupportedError_zero = Inr x"
    by (rule ClientVersionNotSupportedError.encoder [OF laws]) (rule that)
  let ?fs = "((((((opt_field 0 enc0 (WorkflowService_PollForActivityTask_Result.Success x) @
      opt_field 1 enc1 (WorkflowService_PollForActivityTask_Result.BadRequestError x)) @
      opt_field 2 enc2 (WorkflowService_PollForActivityTask_Result.InternalServiceError x)) @
      opt_field 3 enc3 (WorkflowService_PollForActivityTask_Result.ServiceBusyError x)) @
      opt_field 4 enc4 (WorkflowService_PollForActivityTask_Result.LimitExceededError x)) @
      opt_field 5 enc5 (WorkflowService_PollForActivityTask_Result.EntityNotExistError x)) @
      opt_field 6 enc6 (WorkflowService_PollForActivityTask_Result.DomainNotActiveError x)) @
      opt_field 7 enc7 (WorkflowService_PollForActivityTask_Result.ClientVersionNotSupportedError
          x)"
  let ?check = "\<lambda>r. if WorkflowService_PollForActivityTask_Result_count x \<noteq> 1 then Inl (E_Errorf
      ''WorkflowService_PollForActivityTask_Result should have exactly one field: got %v fields''
          (WorkflowService_PollForActivityTask_Result_count x)) else Inr r"
  have "length ?fs = WorkflowService_PollForActivityTask_Result_count x"
    by (simp add: WorkflowService_PollForActivityTask_Result_count_def length_opt_field split del:
        if_split)
  then have "WorkflowService_PollForActivityTask_Result_ToWire W x = ?check (NewValueStruct W ?fs)"
    by (simp only: WorkflowService_PollForActivityTask_Result_ToWire_def put_opt_field
        and_then.simps append_Nil e0(1) e1(1) e2(1) e3(1) e4(1) e5(1) e6(1) e7(1))
  moreover have "WorkflowService_PollForActivityTask_Result_FromWire W (NewValueStruct W ?fs)
      WorkflowService_PollForActivityTask_Result_zero = ?check x"
    if "if_set PollForActivityTaskResponse_complete
        (WorkflowService_PollForActivityTask_Result.Success x)"
    by (cases x, hypsubst) (simp cong: option.case_cong split del: if_split add: codec_rules Let_def
        WorkflowService_PollForActivityTask_Result_merge
      WorkflowService_PollForActivityTask_Result_FromWire_def
          WorkflowService_PollForActivityTask_Result_zero_def laws if_set_def that [unfolded
          if_set_def]
      BadRequestError_Read_def
      ClientVersionNotSupportedError_Read_def
      DomainNotActiveError_Read_def
      EntityNotExistsError_Read_def
      InternalServiceError_Read_def
      LimitExceededError_Read_def
      PollForActivityTaskResponse_Read_def
      ServiceBusyError_Read_def
      e0 e1 e2 e3 e4 e5 e6 e7)
  ultimately show "if WorkflowService_PollForActivityTask_Result_count x = 1
      then \<exists>w. WorkflowService_PollForActivityTask_Result_ToWire W x = Inr w \<and> wire_api.Type W w =
          TStruct \<and>
        (Writable W w \<longleftrightarrow> if_set PollForActivityTaskResponse_complete
            (WorkflowService_PollForActivityTask_Result.Success x)) \<and> (if_set
            PollForActivityTaskResponse_complete (WorkflowService_PollForActivityTask_Result.Success
            x) \<longrightarrow> WorkflowService_PollForActivityTask_Result_FromWire W w
            WorkflowService_PollForActivityTask_Result_zero = Inr x)
      else \<exists>e. WorkflowService_PollForActivityTask_Result_ToWire W x = Inl e"
    by (simp add: laws codec_rules e0 e1 e2 e3 e4 e5 e6 e7)
qed

interpretation PollForActivityTask: rpc_method W
  "WorkflowService_PollForActivityTask_Args_ToWire W"
      "WorkflowService_PollForActivityTask_Args_FromWire W"
      WorkflowService_PollForActivityTask_Args_zero "\<lambda>x. True"
  "WorkflowService_PollForActivityTask_Result_ToWire W"
      "WorkflowService_PollForActivityTask_Result_FromWire W"
      WorkflowService_PollForActivityTask_Result_zero
  "\<lambda>r. WorkflowService_PollForActivityTask_Result_count r = 1 \<and> if_set
      PollForActivityTaskResponse_complete (WorkflowService_PollForActivityTask_Result.Success r)"
      "''PollForActivityTask''"
  WorkflowService_PollForActivityTask_Helper_Args
      "WorkflowService_PollForActivityTask_Args.PollRequest"
  "\<lambda>(success, err). WorkflowService_PollForActivityTask_Helper_WrapResponse success err"
      WorkflowService_PollForActivityTask_Helper_UnwrapResponse
  "\<lambda>out. snd out \<noteq> None" "carried PollForActivityTaskResponse_complete
      WorkflowService_PollForActivityTask_Helper_IsException" error_first "\<lambda>e. (None, Some e)"
  "handler_PollForActivityTask W" "client_PollForActivityTask W" for W
proof
  fix out :: "PollForActivityTaskResponse option \<times> go_error option"
  assume "carried PollForActivityTaskResponse_complete
      WorkflowService_PollForActivityTask_Helper_IsException out"
  then show "case (\<lambda>(success, err). WorkflowService_PollForActivityTask_Helper_WrapResponse success
      err) out of Inl e \<Rightarrow> False
      | Inr res \<Rightarrow> (WorkflowService_PollForActivityTask_Result_count res = 1 \<and> if_set
          PollForActivityTaskResponse_complete (WorkflowService_PollForActivityTask_Result.Success
          res)) \<and>
          WorkflowService_PollForActivityTask_Helper_UnwrapResponse res = error_first out"
    by (cases out; cases "snd out"; cases "the (snd out)")
      (auto simp: WorkflowService_PollForActivityTask_Helper_IsException_def
          WorkflowService_PollForActivityTask_Helper_WrapResponse_def
          WorkflowService_PollForActivityTask_Helper_UnwrapResponse_def
        declared_nonnil_def WorkflowService_PollForActivityTask_Result_zero_def
            WorkflowService_PollForActivityTask_Result_count_def elim!: present.elims)
next
  fix out :: "PollForActivityTaskResponse option \<times> go_error option"
  assume "\<not> carried PollForActivityTaskResponse_complete
      WorkflowService_PollForActivityTask_Helper_IsException out"
  then show "case (\<lambda>(success, err). WorkflowService_PollForActivityTask_Helper_WrapResponse success
      err) out of Inl e \<Rightarrow> True
      | Inr res \<Rightarrow> \<not> (WorkflowService_PollForActivityTask_Result_count res = 1 \<and> if_set
          PollForActivityTaskResponse_complete (WorkflowService_PollForActivityTask_Result.Success
          res))"
    by (cases out; cases "snd out"; cases "the (snd out)")
      (auto simp: WorkflowService_PollForActivityTask_Helper_IsException_def
          WorkflowService_PollForActivityTask_Helper_WrapResponse_def declared_nonnil_def
        WorkflowService_PollForActivityTask_Result_count_def
            WorkflowService_PollForActivityTask_Result_zero_def split: option.splits)
qed (auto simp: WorkflowService_PollForActivityTask_Helper_Args_def handler_PollForActivityTask_def
    client_PollForActivityTask_def
      WorkflowService_PollForActivityTask_Args_enveloper_def
          WorkflowService_PollForActivityTask_Result_enveloper_def
      Let_def split: sum.splits prod.splits)

section \<open>RecordActivityTaskHeartbeat\<close>

record WorkflowService_RecordActivityTaskHeartbeat_Args =
  HeartbeatRequest :: "RecordActivityTaskHeartbeatRequest option"

definition WorkflowService_RecordActivityTaskHeartbeat_Args_zero ::
    WorkflowService_RecordActivityTaskHeartbeat_Args where
  "WorkflowService_RecordActivityTaskHeartbeat_Args_zero =
      \<lparr>WorkflowService_RecordActivityTaskHeartbeat_Args.HeartbeatRequest = None\<rparr>"

definition WorkflowService_RecordActivityTaskHeartbeat_Args_ToWire ::
  "'v wire_api \<Rightarrow> WorkflowService_RecordActivityTaskHeartbeat_Args \<Rightarrow> go_error + 'v" where
  "WorkflowService_RecordActivityTaskHeartbeat_Args_ToWire W v =
     and_then (put_opt 1 (RecordActivityTaskHeartbeatRequest_ToWire W)
         (WorkflowService_RecordActivityTaskHeartbeat_Args.HeartbeatRequest v) [])
       (\<lambda>fields.
     Inr (NewValueStruct W fields))"

definition WorkflowService_RecordActivityTaskHeartbeat_Args_FromWire ::
  "'v wire_api \<Rightarrow> 'v \<Rightarrow> WorkflowService_RecordActivityTaskHeartbeat_Args \<Rightarrow> go_error +
      WorkflowService_RecordActivityTaskHeartbeat_Args" where
  "WorkflowService_RecordActivityTaskHeartbeat_Args_FromWire W w v =
     foldM (\<lambda>v (fid, fval).
       if fid = 1 then
         if wire_api.Type W fval = TStruct
         then and_then (RecordActivityTaskHeartbeatRequest_Read W fval) (\<lambda>x. Inr
             (v\<lparr>WorkflowService_RecordActivityTaskHeartbeat_Args.HeartbeatRequest := Some x\<rparr>))
         else Inr v
       else Inr v) (GetStruct W w) v"

definition WorkflowService_RecordActivityTaskHeartbeat_Args_enveloper ::
  "'v wire_api \<Rightarrow> WorkflowService_RecordActivityTaskHeartbeat_Args \<Rightarrow> 'v enveloper" where
  "WorkflowService_RecordActivityTaskHeartbeat_Args_enveloper W v =
     \<lparr>MethodName = ''RecordActivityTaskHeartbeat'', EnvelopeType = Call, EnvelopeToWire =
         WorkflowService_RecordActivityTaskHeartbeat_Args_ToWire W v\<rparr>"

definition WorkflowService_RecordActivityTaskHeartbeat_Args_Equals ::
  "WorkflowService_RecordActivityTaskHeartbeat_Args option \<Rightarrow>
      WorkflowService_RecordActivityTaskHeartbeat_Args option \<Rightarrow> bool" where
  "WorkflowService_RecordActivityTaskHeartbeat_Args_Equals v rhs =
     (case v of None \<Rightarrow> rhs = None
      | Some v \<Rightarrow> (case rhs of None \<Rightarrow> False
        | Some rhs \<Rightarrow>
          if \<not> both_set_and (\<lambda>x y. RecordActivityTaskHeartbeatRequest_Equals (Some x) (Some y))
              (WorkflowService_RecordActivityTaskHeartbeat_Args.HeartbeatRequest v)
              (WorkflowService_RecordActivityTaskHeartbeat_Args.HeartbeatRequest rhs) then False
              else
          True))"

lemma WorkflowService_RecordActivityTaskHeartbeat_Args_Equals_iff [simp]:
    "WorkflowService_RecordActivityTaskHeartbeat_Args_Equals x y \<longleftrightarrow> x = y"
  by (cases x; cases y) (auto simp: WorkflowService_RecordActivityTaskHeartbeat_Args_Equals_def)

record WorkflowService_RecordActivityTaskHeartbeat_Result =
  Success :: "RecordActivityTaskHeartbeatResponse option"
  BadRequestError :: "BadRequestError option"
  InternalServiceError :: "InternalServiceError option"
  EntityNotExistError :: "EntityNotExistsError option"
  DomainNotActiveError :: "DomainNotActiveError option"
  LimitExceededError :: "LimitExceededError option"
  ServiceBusyError :: "ServiceBusyError option"
  ClientVersionNotSupportedError :: "ClientVersionNotSupportedError option"

definition WorkflowService_RecordActivityTaskHeartbeat_Result_count ::
    "WorkflowService_RecordActivityTaskHeartbeat_Result \<Rightarrow> nat" where
  "WorkflowService_RecordActivityTaskHeartbeat_Result_count v =
     (if WorkflowService_RecordActivityTaskHeartbeat_Result.Success v \<noteq> None then 1 else 0) +
     (if WorkflowService_RecordActivityTaskHeartbeat_Result.BadRequestError v \<noteq> None then 1 else 0)
         +
     (if WorkflowService_RecordActivityTaskHeartbeat_Result.InternalServiceError v \<noteq> None then 1
         else 0) +
     (if WorkflowService_RecordActivityTaskHeartbeat_Result.EntityNotExistError v \<noteq> None then 1 else
         0) +
     (if WorkflowService_RecordActivityTaskHeartbeat_Result.DomainNotActiveError v \<noteq> None then 1
         else 0) +
     (if WorkflowService_RecordActivityTaskHeartbeat_Result.LimitExceededError v \<noteq> None then 1 else
         0) +
     (if WorkflowService_RecordActivityTaskHeartbeat_Result.ServiceBusyError v \<noteq> None then 1 else 0)
         +
     (if WorkflowService_RecordActivityTaskHeartbeat_Result.ClientVersionNotSupportedError v \<noteq> None
         then 1 else 0)"

definition WorkflowService_RecordActivityTaskHeartbeat_Result_zero ::
    WorkflowService_RecordActivityTaskHeartbeat_Result where
  "WorkflowService_RecordActivityTaskHeartbeat_Result_zero =
      \<lparr>WorkflowService_RecordActivityTaskHeartbeat_Result.Success = None,
      WorkflowService_RecordActivityTaskHeartbeat_Result.BadRequestError = None,
      WorkflowService_RecordActivityTaskHeartbeat_Result.InternalServiceError = None,
      WorkflowService_RecordActivityTaskHeartbeat_Result.EntityNotExistError = None,
      WorkflowService_RecordActivityTaskHeartbeat_Result.DomainNotActiveError = None,
      WorkflowService_RecordActivityTaskHeartbeat_Result.LimitExceededError = None,
      WorkflowService_RecordActivityTaskHeartbeat_Result.ServiceBusyError = None,
      WorkflowService_RecordActivityTaskHeartbeat_Result.ClientVersionNotSupportedError = None\<rparr>"

definition WorkflowService_RecordActivityTaskHeartbeat_Result_ToWire ::
  "'v wire_api \<Rightarrow> WorkflowService_RecordActivityTaskHeartbeat_Result \<Rightarrow> go_error + 'v" where
  "WorkflowService_RecordActivityTaskHeartbeat_Result_ToWire W v =
     and_then (put_opt 0 (RecordActivityTaskHeartbeatResponse_ToWire W)
         (WorkflowService_RecordActivityTaskHeartbeat_Result.Success v) [])
       (\<lambda>fields.
     and_then (put_opt 1 (BadRequestError_ToWire W)
         (WorkflowService_RecordActivityTaskHeartbeat_Result.BadRequestError v) fields)
       (\<lambda>fields.
     and_then (put_opt 2 (InternalServiceError_ToWire W)
         (WorkflowService_RecordActivityTaskHeartbeat_Result.InternalServiceError v) fields)
       (\<lambda>fields.
     and_then (put_opt 3 (EntityNotExistsError_ToWire W)
         (WorkflowService_RecordActivityTaskHeartbeat_Result.EntityNotExistError v) fields)
       (\<lambda>fields.
     and_then (put_opt 4 (DomainNotActiveError_ToWire W)
         (WorkflowService_RecordActivityTaskHeartbeat_Result.DomainNotActiveError v) fields)
       (\<lambda>fields.
     and_then (put_opt 5 (LimitExceededError_ToWire W)
         (WorkflowService_RecordActivityTaskHeartbeat_Result.LimitExceededError v) fields)
       (\<lambda>fields.
     and_then (put_opt 6 (ServiceBusyError_ToWire W)
         (WorkflowService_RecordActivityTaskHeartbeat_Result.ServiceBusyError v) fields)
       (\<lambda>fields.
     and_then (put_opt 7 (ClientVersionNotSupportedError_ToWire W)
         (WorkflowService_RecordActivityTaskHeartbeat_Result.ClientVersionNotSupportedError v)
         fields)
       (\<lambda>fields.
     if length fields \<noteq> 1
     then Inl (E_Errorf
         ''WorkflowService_RecordActivityTaskHeartbeat_Result should have exactly one field: got %v fields'' (length fields))
     else Inr (NewValueStruct W fields)))))))))"

definition WorkflowService_RecordActivityTaskHeartbeat_Result_FromWire ::
  "'v wire_api \<Rightarrow> 'v \<Rightarrow> WorkflowService_RecordActivityTaskHeartbeat_Result \<Rightarrow> go_error +
      WorkflowService_RecordActivityTaskHeartbeat_Result" where
  "WorkflowService_RecordActivityTaskHeartbeat_Result_FromWire W w v =
     and_then (foldM (\<lambda>v (fid, fval).
       if fid = 0 then
         if wire_api.Type W fval = TStruct
         then and_then (RecordActivityTaskHeartbeatResponse_Read W fval) (\<lambda>x. Inr
             (v\<lparr>WorkflowService_RecordActivityTaskHeartbeat_Result.Success := Some x\<rparr>))
         else Inr v
       else if fid = 1 then
         if wire_api.Type W fval = TStruct
         then and_then (BadRequestError_Read W fval) (\<lambda>x. Inr
             (v\<lparr>WorkflowService_RecordActivityTaskHeartbeat_Result.BadRequestError := Some x\<rparr>))
         else Inr v
       else if fid = 2 then
         if wire_api.Type W fval = TStruct
         then and_then (InternalServiceError_Read W fval) (\<lambda>x. Inr
             (v\<lparr>WorkflowService_RecordActivityTaskHeartbeat_Result.InternalServiceError := Some x\<rparr>))
         else Inr v
       else if fid = 3 then
         if wire_api.Type W fval = TStruct
         then and_then (EntityNotExistsError_Read W fval) (\<lambda>x. Inr
             (v\<lparr>WorkflowService_RecordActivityTaskHeartbeat_Result.EntityNotExistError := Some x\<rparr>))
         else Inr v
       else if fid = 4 then
         if wire_api.Type W fval = TStruct
         then and_then (DomainNotActiveError_Read W fval) (\<lambda>x. Inr
             (v\<lparr>WorkflowService_RecordActivityTaskHeartbeat_Result.DomainNotActiveError := Some x\<rparr>))
         else Inr v
       else if fid = 5 then
         if wire_api.Type W fval = TStruct
         then and_then (LimitExceededError_Read W fval) (\<lambda>x. Inr
             (v\<lparr>WorkflowService_RecordActivityTaskHeartbeat_Result.LimitExceededError := Some x\<rparr>))
         else Inr v
       else if fid = 6 then
         if wire_api.Type W fval = TStruct
         then and_then (ServiceBusyError_Read W fval) (\<lambda>x. Inr
             (v\<lparr>WorkflowService_RecordActivityTaskHeartbeat_Result.ServiceBusyError := Some x\<rparr>))
         else Inr v
       else if fid = 7 then
         if wire_api.Type W fval = TStruct
         then and_then (ClientVersionNotSupportedError_Read W fval) (\<lambda>x. Inr
             (v\<lparr>WorkflowService_RecordActivityTaskHeartbeat_Result.ClientVersionNotSupportedError :=
             Some x\<rparr>))
         else Inr v
       else Inr v) (GetStruct W w) v) (\<lambda>v.
     let count = WorkflowService_RecordActivityTaskHeartbeat_Result_count v in
     if count \<noteq> 1
     then Inl (E_Errorf
         ''WorkflowService_RecordActivityTaskHeartbeat_Result should have exactly one field: got %v fields'' count)
     else Inr v)"

definition WorkflowService_RecordActivityTaskHeartbeat_Result_enveloper ::
  "'v wire_api \<Rightarrow> WorkflowService_RecordActivityTaskHeartbeat_Result \<Rightarrow> 'v enveloper" where
  "WorkflowService_RecordActivityTaskHeartbeat_Result_enveloper W v =
     \<lparr>MethodName = ''RecordActivityTaskHeartbeat'', EnvelopeType = Reply, EnvelopeToWire =
         WorkflowService_RecordActivityTaskHeartbeat_Result_ToWire W v\<rparr>"

definition WorkflowService_RecordActivityTaskHeartbeat_Result_Equals ::
  "WorkflowService_RecordActivityTaskHeartbeat_Result option \<Rightarrow>
      WorkflowService_RecordActivityTaskHeartbeat_Result option \<Rightarrow> bool" where
  "WorkflowService_RecordActivityTaskHeartbeat_Result_Equals v rhs =
     (case v of None \<Rightarrow> rhs = None
      | Some v \<Rightarrow> (case rhs of None \<Rightarrow> False
        | Some rhs \<Rightarrow>
          if \<not> both_set_and (\<lambda>x y. RecordActivityTaskHeartbeatResponse_Equals (Some x) (Some y))
              (WorkflowService_RecordActivityTaskHeartbeat_Result.Success v)
              (WorkflowService_RecordActivityTaskHeartbeat_Result.Success rhs) then False else
          if \<not> both_set_and (\<lambda>x y. BadRequestError_Equals (Some x) (Some y))
              (WorkflowService_RecordActivityTaskHeartbeat_Result.BadRequestError v)
              (WorkflowService_RecordActivityTaskHeartbeat_Result.BadRequestError rhs) then False
              else
          if \<not> both_set_and (\<lambda>x y. InternalServiceError_Equals (Some x) (Some y))
              (WorkflowService_RecordActivityTaskHeartbeat_Result.InternalServiceError v)
              (WorkflowService_RecordActivityTaskHeartbeat_Result.InternalServiceError rhs) then
              False else
          if \<not> both_set_and (\<lambda>x y. EntityNotExistsError_Equals (Some x) (Some y))
              (WorkflowService_RecordActivityTaskHeartbeat_Result.EntityNotExistError v)
              (WorkflowService_RecordActivityTaskHeartbeat_Result.EntityNotExistError rhs) then
              False else
          if \<not> both_set_and (\<lambda>x y. DomainNotActiveError_Equals (Some x) (Some y))
              (WorkflowService_RecordActivityTaskHeartbeat_Result.DomainNotActiveError v)
              (WorkflowService_RecordActivityTaskHeartbeat_Result.DomainNotActiveError rhs) then
              False else
          if \<not> both_set_and (\<lambda>x y. LimitExceededError_Equals (Some x) (Some y))
              (WorkflowService_RecordActivityTaskHeartbeat_Result.LimitExceededError v)
              (WorkflowService_RecordActivityTaskHeartbeat_Result.LimitExceededError rhs) then False
              else
          if \<not> both_set_and (\<lambda>x y. ServiceBusyError_Equals (Some x) (Some y))
              (WorkflowService_RecordActivityTaskHeartbeat_Result.ServiceBusyError v)
              (WorkflowService_RecordActivityTaskHeartbeat_Result.ServiceBusyError rhs) then False
              else
          if \<not> both_set_and (\<lambda>x y. ClientVersionNotSupportedError_Equals (Some x) (Some y))
              (WorkflowService_RecordActivityTaskHeartbeat_Result.ClientVersionNotSupportedError v)
              (WorkflowService_RecordActivityTaskHeartbeat_Result.ClientVersionNotSupportedError
              rhs) then False else
          True))"

lemma WorkflowService_RecordActivityTaskHeartbeat_Result_Equals_iff [simp]:
    "WorkflowService_RecordActivityTaskHeartbeat_Result_Equals x y \<longleftrightarrow> x = y"
  by (cases x; cases y) (simp_all add: WorkflowService_RecordActivityTaskHeartbeat_Result_Equals_def
      if_not_False, fastforce intro: WorkflowService_RecordActivityTaskHeartbeat_Result.equality)

definition WorkflowService_RecordActivityTaskHeartbeat_Helper_Args ::
    "RecordActivityTaskHeartbeatRequest option \<Rightarrow> WorkflowService_RecordActivityTaskHeartbeat_Args"
    where
  "WorkflowService_RecordActivityTaskHeartbeat_Helper_Args r =
      \<lparr>WorkflowService_RecordActivityTaskHeartbeat_Args.HeartbeatRequest = r\<rparr>"

definition WorkflowService_RecordActivityTaskHeartbeat_Helper_IsException :: "go_error \<Rightarrow> bool" where
  "WorkflowService_RecordActivityTaskHeartbeat_Helper_IsException err =
     (case err of
        E_BadRequestError _ \<Rightarrow> True
      | E_InternalServiceError _ \<Rightarrow> True
      | E_EntityNotExistsError _ \<Rightarrow> True
      | E_DomainNotActiveError _ \<Rightarrow> True
      | E_LimitExceededError _ \<Rightarrow> True
      | E_ServiceBusyError _ \<Rightarrow> True
      | E_ClientVersionNotSupportedError _ \<Rightarrow> True
      | _ \<Rightarrow> False)"

definition WorkflowService_RecordActivityTaskHeartbeat_Helper_WrapResponse ::
  "RecordActivityTaskHeartbeatResponse option \<Rightarrow> go_error option \<Rightarrow> go_error +
      WorkflowService_RecordActivityTaskHeartbeat_Result" where
  "WorkflowService_RecordActivityTaskHeartbeat_Helper_WrapResponse success err =
     (case err of None \<Rightarrow> Inr
         (WorkflowService_RecordActivityTaskHeartbeat_Result_zero\<lparr>WorkflowService_RecordActivityTaskHeartbeat_Result.Success := success\<rparr>)
      | Some err \<Rightarrow> (case err of
          E_BadRequestError e \<Rightarrow> (case e of
              None \<Rightarrow> Inl (E_New
                  ''WrapResponse received non-nil error type with nil value for WorkflowService_RecordActivityTaskHeartbeat_Result.BadRequestError'')
            | Some e \<Rightarrow> Inr
                (WorkflowService_RecordActivityTaskHeartbeat_Result_zero\<lparr>WorkflowService_RecordActivityTaskHeartbeat_Result.BadRequestError := Some e\<rparr>))
        | E_InternalServiceError e \<Rightarrow> (case e of
              None \<Rightarrow> Inl (E_New
                  ''WrapResponse received non-nil error type with nil value for WorkflowService_RecordActivityTaskHeartbeat_Result.InternalServiceError'')
            | Some e \<Rightarrow> Inr
                (WorkflowService_RecordActivityTaskHeartbeat_Result_zero\<lparr>WorkflowService_RecordActivityTaskHeartbeat_Result.InternalServiceError := Some e\<rparr>))
        | E_EntityNotExistsError e \<Rightarrow> (case e of
              None \<Rightarrow> Inl (E_New
                  ''WrapResponse received non-nil error type with nil value for WorkflowService_RecordActivityTaskHeartbeat_Result.EntityNotExistError'')
            | Some e \<Rightarrow> Inr
                (WorkflowService_RecordActivityTaskHeartbeat_Result_zero\<lparr>WorkflowService_RecordActivityTaskHeartbeat_Result.EntityNotExistError := Some e\<rparr>))
        | E_DomainNotActiveError e \<Rightarrow> (case e of
              None \<Rightarrow> Inl (E_New
                  ''WrapResponse received non-nil error type with nil value for WorkflowService_RecordActivityTaskHeartbeat_Result.DomainNotActiveError'')
            | Some e \<Rightarrow> Inr
                (WorkflowService_RecordActivityTaskHeartbeat_Result_zero\<lparr>WorkflowService_RecordActivityTaskHeartbeat_Result.DomainNotActiveError := Some e\<rparr>))
        | E_LimitExceededError e \<Rightarrow> (case e of
              None \<Rightarrow> Inl (E_New
                  ''WrapResponse received non-nil error type with nil value for WorkflowService_RecordActivityTaskHeartbeat_Result.LimitExceededError'')
            | Some e \<Rightarrow> Inr
                (WorkflowService_RecordActivityTaskHeartbeat_Result_zero\<lparr>WorkflowService_RecordActivityTaskHeartbeat_Result.LimitExceededError := Some e\<rparr>))
        | E_ServiceBusyError e \<Rightarrow> (case e of
              None \<Rightarrow> Inl (E_New
                  ''WrapResponse received non-nil error type with nil value for WorkflowService_RecordActivityTaskHeartbeat_Result.ServiceBusyError'')
            | Some e \<Rightarrow> Inr
                (WorkflowService_RecordActivityTaskHeartbeat_Result_zero\<lparr>WorkflowService_RecordActivityTaskHeartbeat_Result.ServiceBusyError := Some e\<rparr>))
        | E_ClientVersionNotSupportedError e \<Rightarrow> (case e of
              None \<Rightarrow> Inl (E_New
                  ''WrapResponse received non-nil error type with nil value for WorkflowService_RecordActivityTaskHeartbeat_Result.ClientVersionNotSupportedError'')
            | Some e \<Rightarrow> Inr
                (WorkflowService_RecordActivityTaskHeartbeat_Result_zero\<lparr>WorkflowService_RecordActivityTaskHeartbeat_Result.ClientVersionNotSupportedError := Some e\<rparr>))
        | _ \<Rightarrow> Inl err))"

definition WorkflowService_RecordActivityTaskHeartbeat_Helper_UnwrapResponse ::
  "WorkflowService_RecordActivityTaskHeartbeat_Result \<Rightarrow> RecordActivityTaskHeartbeatResponse option \<times>
      go_error option" where
  "WorkflowService_RecordActivityTaskHeartbeat_Helper_UnwrapResponse result =
    (if WorkflowService_RecordActivityTaskHeartbeat_Result.BadRequestError result \<noteq> None then (None,
        Some (E_BadRequestError (WorkflowService_RecordActivityTaskHeartbeat_Result.BadRequestError
        result))) else
     if WorkflowService_RecordActivityTaskHeartbeat_Result.InternalServiceError result \<noteq> None then
         (None, Some (E_InternalServiceError
         (WorkflowService_RecordActivityTaskHeartbeat_Result.InternalServiceError result))) else
     if WorkflowService_RecordActivityTaskHeartbeat_Result.EntityNotExistError result \<noteq> None then
         (None, Some (E_EntityNotExistsError
         (WorkflowService_RecordActivityTaskHeartbeat_Result.EntityNotExistError result))) else
     if WorkflowService_RecordActivityTaskHeartbeat_Result.DomainNotActiveError result \<noteq> None then
         (None, Some (E_DomainNotActiveError
         (WorkflowService_RecordActivityTaskHeartbeat_Result.DomainNotActiveError result))) else
     if WorkflowService_RecordActivityTaskHeartbeat_Result.LimitExceededError result \<noteq> None then
         (None, Some (E_LimitExceededError
         (WorkflowService_RecordActivityTaskHeartbeat_Result.LimitExceededError result))) else
     if WorkflowService_RecordActivityTaskHeartbeat_Result.ServiceBusyError result \<noteq> None then
         (None, Some (E_ServiceBusyError
         (WorkflowService_RecordActivityTaskHeartbeat_Result.ServiceBusyError result))) else
     if WorkflowService_RecordActivityTaskHeartbeat_Result.ClientVersionNotSupportedError result \<noteq>
         None then (None, Some (E_ClientVersionNotSupportedError
         (WorkflowService_RecordActivityTaskHeartbeat_Result.ClientVersionNotSupportedError
         result))) else
     if WorkflowService_RecordActivityTaskHeartbeat_Result.Success result \<noteq> None then
         (WorkflowService_RecordActivityTaskHeartbeat_Result.Success result, None) else
     (None, Some (E_New ''expected a non-void result'')))"

definition handler_RecordActivityTaskHeartbeat ::
  "'v wire_api \<Rightarrow> ('ctx \<Rightarrow> RecordActivityTaskHeartbeatRequest option \<Rightarrow>
      RecordActivityTaskHeartbeatResponse option \<times> go_error option) \<Rightarrow>
   ('ctx, 'v) unary_handler" where
  "handler_RecordActivityTaskHeartbeat W impl ctx body =
     (case WorkflowService_RecordActivityTaskHeartbeat_Args_FromWire W body
         WorkflowService_RecordActivityTaskHeartbeat_Args_zero of
      Inl err \<Rightarrow> (no_response, Some err)
    | Inr args \<Rightarrow>
      let (success, err) = impl ctx
          (WorkflowService_RecordActivityTaskHeartbeat_Args.HeartbeatRequest args);
          hadError = (err \<noteq> None)
      in case WorkflowService_RecordActivityTaskHeartbeat_Helper_WrapResponse success err of
           Inl err \<Rightarrow> (no_response, Some err)
         | Inr result \<Rightarrow>
             (\<lparr>Body = Some (WorkflowService_RecordActivityTaskHeartbeat_Result_enveloper W result),
               IsApplicationError = hadError\<rparr>, None))"

definition client_RecordActivityTaskHeartbeat ::
  "'v wire_api \<Rightarrow> ('ctx, 'v) thrift_client \<Rightarrow> 'ctx \<Rightarrow> RecordActivityTaskHeartbeatRequest option \<Rightarrow>
   RecordActivityTaskHeartbeatResponse option \<times> go_error option" where
  "client_RecordActivityTaskHeartbeat W call ctx r =
     (let args = WorkflowService_RecordActivityTaskHeartbeat_Helper_Args r in
      case call ctx (WorkflowService_RecordActivityTaskHeartbeat_Args_enveloper W args) of
        Inl e \<Rightarrow> (None, Some e)
      | Inr body \<Rightarrow>
          (case WorkflowService_RecordActivityTaskHeartbeat_Result_FromWire W body
              WorkflowService_RecordActivityTaskHeartbeat_Result_zero of
             Inl e \<Rightarrow> (None, Some e)
           | Inr result \<Rightarrow> WorkflowService_RecordActivityTaskHeartbeat_Helper_UnwrapResponse
               result))"

lemma WorkflowService_RecordActivityTaskHeartbeat_Args_merge:
  "(case x of None \<Rightarrow> Inr \<lparr>WorkflowService_RecordActivityTaskHeartbeat_Args.HeartbeatRequest = a0\<rparr> |
      Some y \<Rightarrow> Inr \<lparr>WorkflowService_RecordActivityTaskHeartbeat_Args.HeartbeatRequest = b0 y\<rparr>) =
   Inr \<lparr>WorkflowService_RecordActivityTaskHeartbeat_Args.HeartbeatRequest = (case x of None \<Rightarrow> a0 |
       Some y \<Rightarrow> b0 y)\<rparr>"
  by (cases x) simp_all

interpretation WorkflowService_RecordActivityTaskHeartbeat_Args: thrift_struct W
  "WorkflowService_RecordActivityTaskHeartbeat_Args_ToWire W"
      "WorkflowService_RecordActivityTaskHeartbeat_Args_FromWire W"
  WorkflowService_RecordActivityTaskHeartbeat_Args_zero "\<lambda>x. True" for W
proof (rule thrift_structI)
  fix x :: WorkflowService_RecordActivityTaskHeartbeat_Args
  assume laws: "wire_laws W"
  obtain enc0 where e0: "RecordActivityTaskHeartbeatRequest_ToWire W = (\<lambda>x. Inr (enc0 x))"
      "\<And>x. wire_api.Type W (enc0 x) = TStruct"
      "\<And>x. Writable W (enc0 x) \<longleftrightarrow> (\<lambda>_. True) x"
      "\<And>x. (\<lambda>_. True) x \<Longrightarrow> RecordActivityTaskHeartbeatRequest_FromWire W (enc0 x)
          RecordActivityTaskHeartbeatRequest_zero = Inr x"
    by (rule RecordActivityTaskHeartbeatRequest.encoder [OF laws]) (rule that)
  show "\<exists>w. WorkflowService_RecordActivityTaskHeartbeat_Args_ToWire W x = Inr w \<and> wire_api.Type W w
      = TStruct \<and>
      (Writable W w \<longleftrightarrow> True) \<and> (True \<longrightarrow> WorkflowService_RecordActivityTaskHeartbeat_Args_FromWire W w
          WorkflowService_RecordActivityTaskHeartbeat_Args_zero = Inr x)"
    by (cases x) (simp cong: option.case_cong add: codec_rules
        WorkflowService_RecordActivityTaskHeartbeat_Args_merge
        WorkflowService_RecordActivityTaskHeartbeat_Args_ToWire_def
        WorkflowService_RecordActivityTaskHeartbeat_Args_FromWire_def
      WorkflowService_RecordActivityTaskHeartbeat_Args_zero_def
          RecordActivityTaskHeartbeatRequest_Read_def if_set_def laws e0)
qed

lemma WorkflowService_RecordActivityTaskHeartbeat_Result_merge:
  "(case x of None \<Rightarrow> Inr \<lparr>WorkflowService_RecordActivityTaskHeartbeat_Result.Success = a0,
      WorkflowService_RecordActivityTaskHeartbeat_Result.BadRequestError = a1,
      WorkflowService_RecordActivityTaskHeartbeat_Result.InternalServiceError = a2,
      WorkflowService_RecordActivityTaskHeartbeat_Result.EntityNotExistError = a3,
      WorkflowService_RecordActivityTaskHeartbeat_Result.DomainNotActiveError = a4,
      WorkflowService_RecordActivityTaskHeartbeat_Result.LimitExceededError = a5,
      WorkflowService_RecordActivityTaskHeartbeat_Result.ServiceBusyError = a6,
      WorkflowService_RecordActivityTaskHeartbeat_Result.ClientVersionNotSupportedError = a7\<rparr> | Some
      y \<Rightarrow> Inr \<lparr>WorkflowService_RecordActivityTaskHeartbeat_Result.Success = b0 y,
      WorkflowService_RecordActivityTaskHeartbeat_Result.BadRequestError = b1 y,
      WorkflowService_RecordActivityTaskHeartbeat_Result.InternalServiceError = b2 y,
      WorkflowService_RecordActivityTaskHeartbeat_Result.EntityNotExistError = b3 y,
      WorkflowService_RecordActivityTaskHeartbeat_Result.DomainNotActiveError = b4 y,
      WorkflowService_RecordActivityTaskHeartbeat_Result.LimitExceededError = b5 y,
      WorkflowService_RecordActivityTaskHeartbeat_Result.ServiceBusyError = b6 y,
      WorkflowService_RecordActivityTaskHeartbeat_Result.ClientVersionNotSupportedError = b7 y\<rparr>) =
   Inr \<lparr>WorkflowService_RecordActivityTaskHeartbeat_Result.Success = (case x of None \<Rightarrow> a0 | Some y \<Rightarrow>
       b0 y), WorkflowService_RecordActivityTaskHeartbeat_Result.BadRequestError = (case x of None \<Rightarrow>
       a1 | Some y \<Rightarrow> b1 y), WorkflowService_RecordActivityTaskHeartbeat_Result.InternalServiceError
       = (case x of None \<Rightarrow> a2 | Some y \<Rightarrow> b2 y),
       WorkflowService_RecordActivityTaskHeartbeat_Result.EntityNotExistError = (case x of None \<Rightarrow> a3
       | Some y \<Rightarrow> b3 y), WorkflowService_RecordActivityTaskHeartbeat_Result.DomainNotActiveError =
       (case x of None \<Rightarrow> a4 | Some y \<Rightarrow> b4 y),
       WorkflowService_RecordActivityTaskHeartbeat_Result.LimitExceededError = (case x of None \<Rightarrow> a5
       | Some y \<Rightarrow> b5 y), WorkflowService_RecordActivityTaskHeartbeat_Result.ServiceBusyError = (case
       x of None \<Rightarrow> a6 | Some y \<Rightarrow> b6 y),
       WorkflowService_RecordActivityTaskHeartbeat_Result.ClientVersionNotSupportedError = (case x
       of None \<Rightarrow> a7 | Some y \<Rightarrow> b7 y)\<rparr>"
  by (cases x) simp_all

interpretation WorkflowService_RecordActivityTaskHeartbeat_Result: thrift_struct W
  "WorkflowService_RecordActivityTaskHeartbeat_Result_ToWire W"
      "WorkflowService_RecordActivityTaskHeartbeat_Result_FromWire W"
  WorkflowService_RecordActivityTaskHeartbeat_Result_zero "\<lambda>r.
      WorkflowService_RecordActivityTaskHeartbeat_Result_count r = 1" for W
proof (rule thrift_checked_plainI)
  fix x :: WorkflowService_RecordActivityTaskHeartbeat_Result
  assume laws: "wire_laws W"
  obtain enc0 where e0: "RecordActivityTaskHeartbeatResponse_ToWire W = (\<lambda>x. Inr (enc0 x))"
      "\<And>x. wire_api.Type W (enc0 x) = TStruct"
      "\<And>x. Writable W (enc0 x) \<longleftrightarrow> (\<lambda>_. True) x"
      "\<And>x. (\<lambda>_. True) x \<Longrightarrow> RecordActivityTaskHeartbeatResponse_FromWire W (enc0 x)
          RecordActivityTaskHeartbeatResponse_zero = Inr x"
    by (rule RecordActivityTaskHeartbeatResponse.encoder [OF laws]) (rule that)
  obtain enc1 where e1: "BadRequestError_ToWire W = (\<lambda>x. Inr (enc1 x))"
      "\<And>x. wire_api.Type W (enc1 x) = TStruct"
      "\<And>x. Writable W (enc1 x) \<longleftrightarrow> (\<lambda>_. True) x"
      "\<And>x. (\<lambda>_. True) x \<Longrightarrow> BadRequestError_FromWire W (enc1 x) BadRequestError_zero = Inr x"
    by (rule BadRequestError.encoder [OF laws]) (rule that)
  obtain enc2 where e2: "InternalServiceError_ToWire W = (\<lambda>x. Inr (enc2 x))"
      "\<And>x. wire_api.Type W (enc2 x) = TStruct"
      "\<And>x. Writable W (enc2 x) \<longleftrightarrow> (\<lambda>_. True) x"
      "\<And>x. (\<lambda>_. True) x \<Longrightarrow> InternalServiceError_FromWire W (enc2 x) InternalServiceError_zero = Inr
          x"
    by (rule InternalServiceError.encoder [OF laws]) (rule that)
  obtain enc3 where e3: "EntityNotExistsError_ToWire W = (\<lambda>x. Inr (enc3 x))"
      "\<And>x. wire_api.Type W (enc3 x) = TStruct"
      "\<And>x. Writable W (enc3 x) \<longleftrightarrow> (\<lambda>_. True) x"
      "\<And>x. (\<lambda>_. True) x \<Longrightarrow> EntityNotExistsError_FromWire W (enc3 x) EntityNotExistsError_zero = Inr
          x"
    by (rule EntityNotExistsError.encoder [OF laws]) (rule that)
  obtain enc4 where e4: "DomainNotActiveError_ToWire W = (\<lambda>x. Inr (enc4 x))"
      "\<And>x. wire_api.Type W (enc4 x) = TStruct"
      "\<And>x. Writable W (enc4 x) \<longleftrightarrow> (\<lambda>_. True) x"
      "\<And>x. (\<lambda>_. True) x \<Longrightarrow> DomainNotActiveError_FromWire W (enc4 x) DomainNotActiveError_zero = Inr
          x"
    by (rule DomainNotActiveError.encoder [OF laws]) (rule that)
  obtain enc5 where e5: "LimitExceededError_ToWire W = (\<lambda>x. Inr (enc5 x))"
      "\<And>x. wire_api.Type W (enc5 x) = TStruct"
      "\<And>x. Writable W (enc5 x) \<longleftrightarrow> (\<lambda>_. True) x"
      "\<And>x. (\<lambda>_. True) x \<Longrightarrow> LimitExceededError_FromWire W (enc5 x) LimitExceededError_zero = Inr x"
    by (rule LimitExceededError.encoder [OF laws]) (rule that)
  obtain enc6 where e6: "ServiceBusyError_ToWire W = (\<lambda>x. Inr (enc6 x))"
      "\<And>x. wire_api.Type W (enc6 x) = TStruct"
      "\<And>x. Writable W (enc6 x) \<longleftrightarrow> (\<lambda>_. True) x"
      "\<And>x. (\<lambda>_. True) x \<Longrightarrow> ServiceBusyError_FromWire W (enc6 x) ServiceBusyError_zero = Inr x"
    by (rule ServiceBusyError.encoder [OF laws]) (rule that)
  obtain enc7 where e7: "ClientVersionNotSupportedError_ToWire W = (\<lambda>x. Inr (enc7 x))"
      "\<And>x. wire_api.Type W (enc7 x) = TStruct"
      "\<And>x. Writable W (enc7 x) \<longleftrightarrow> (\<lambda>_. True) x"
      "\<And>x. (\<lambda>_. True) x \<Longrightarrow> ClientVersionNotSupportedError_FromWire W (enc7 x)
          ClientVersionNotSupportedError_zero = Inr x"
    by (rule ClientVersionNotSupportedError.encoder [OF laws]) (rule that)
  let ?fs = "((((((opt_field 0 enc0 (WorkflowService_RecordActivityTaskHeartbeat_Result.Success x) @
      opt_field 1 enc1 (WorkflowService_RecordActivityTaskHeartbeat_Result.BadRequestError x)) @
      opt_field 2 enc2 (WorkflowService_RecordActivityTaskHeartbeat_Result.InternalServiceError x))
          @
      opt_field 3 enc3 (WorkflowService_RecordActivityTaskHeartbeat_Result.EntityNotExistError x)) @
      opt_field 4 enc4 (WorkflowService_RecordActivityTaskHeartbeat_Result.DomainNotActiveError x))
          @
      opt_field 5 enc5 (WorkflowService_RecordActivityTaskHeartbeat_Result.LimitExceededError x)) @
      opt_field 6 enc6 (WorkflowService_RecordActivityTaskHeartbeat_Result.ServiceBusyError x)) @
      opt_field 7 enc7
          (WorkflowService_RecordActivityTaskHeartbeat_Result.ClientVersionNotSupportedError x)"
  let ?check = "\<lambda>r. if WorkflowService_RecordActivityTaskHeartbeat_Result_count x \<noteq> 1 then Inl
      (E_Errorf
      ''WorkflowService_RecordActivityTaskHeartbeat_Result should have exactly one field: got %v fields'' (WorkflowService_RecordActivityTaskHeartbeat_Result_count x)) else Inr r"
  have "length ?fs = WorkflowService_RecordActivityTaskHeartbeat_Result_count x"
    by (simp add: WorkflowService_RecordActivityTaskHeartbeat_Result_count_def length_opt_field
        split del: if_split)
  then have "WorkflowService_RecordActivityTaskHeartbeat_Result_ToWire W x = ?check (NewValueStruct
      W ?fs)"
    by (simp only: WorkflowService_RecordActivityTaskHeartbeat_Result_ToWire_def put_opt_field
        and_then.simps append_Nil e0(1) e1(1) e2(1) e3(1) e4(1) e5(1) e6(1) e7(1))
  moreover have "WorkflowService_RecordActivityTaskHeartbeat_Result_FromWire W (NewValueStruct W
      ?fs) WorkflowService_RecordActivityTaskHeartbeat_Result_zero = ?check x"
    by (cases x, hypsubst) (simp cong: option.case_cong split del: if_split add: codec_rules Let_def
        WorkflowService_RecordActivityTaskHeartbeat_Result_merge
      WorkflowService_RecordActivityTaskHeartbeat_Result_FromWire_def
          WorkflowService_RecordActivityTaskHeartbeat_Result_zero_def laws
      BadRequestError_Read_def
      ClientVersionNotSupportedError_Read_def
      DomainNotActiveError_Read_def
      EntityNotExistsError_Read_def
      InternalServiceError_Read_def
      LimitExceededError_Read_def
      RecordActivityTaskHeartbeatResponse_Read_def
      ServiceBusyError_Read_def
      e0 e1 e2 e3 e4 e5 e6 e7)
  ultimately show "if WorkflowService_RecordActivityTaskHeartbeat_Result_count x = 1
      then \<exists>w. WorkflowService_RecordActivityTaskHeartbeat_Result_ToWire W x = Inr w \<and> wire_api.Type
          W w = TStruct \<and>
        Writable W w \<and> WorkflowService_RecordActivityTaskHeartbeat_Result_FromWire W w
            WorkflowService_RecordActivityTaskHeartbeat_Result_zero = Inr x
      else \<exists>e. WorkflowService_RecordActivityTaskHeartbeat_Result_ToWire W x = Inl e"
    by (simp add: laws codec_rules e0 e1 e2 e3 e4 e5 e6 e7)
qed

interpretation RecordActivityTaskHeartbeat: rpc_method W
  "WorkflowService_RecordActivityTaskHeartbeat_Args_ToWire W"
      "WorkflowService_RecordActivityTaskHeartbeat_Args_FromWire W"
      WorkflowService_RecordActivityTaskHeartbeat_Args_zero "\<lambda>x. True"
  "WorkflowService_RecordActivityTaskHeartbeat_Result_ToWire W"
      "WorkflowService_RecordActivityTaskHeartbeat_Result_FromWire W"
      WorkflowService_RecordActivityTaskHeartbeat_Result_zero
  "\<lambda>r. WorkflowService_RecordActivityTaskHeartbeat_Result_count r = 1"
      "''RecordActivityTaskHeartbeat''"
  WorkflowService_RecordActivityTaskHeartbeat_Helper_Args
      "WorkflowService_RecordActivityTaskHeartbeat_Args.HeartbeatRequest"
  "\<lambda>(success, err). WorkflowService_RecordActivityTaskHeartbeat_Helper_WrapResponse success err"
      WorkflowService_RecordActivityTaskHeartbeat_Helper_UnwrapResponse
  "\<lambda>out. snd out \<noteq> None" "carried (\<lambda>_. True)
      WorkflowService_RecordActivityTaskHeartbeat_Helper_IsException" error_first "\<lambda>e. (None, Some
      e)"
  "handler_RecordActivityTaskHeartbeat W" "client_RecordActivityTaskHeartbeat W" for W
proof
  fix out :: "RecordActivityTaskHeartbeatResponse option \<times> go_error option"
  assume "carried (\<lambda>_. True) WorkflowService_RecordActivityTaskHeartbeat_Helper_IsException out"
  then show "case (\<lambda>(success, err). WorkflowService_RecordActivityTaskHeartbeat_Helper_WrapResponse
      success err) out of Inl e \<Rightarrow> False
      | Inr res \<Rightarrow> (WorkflowService_RecordActivityTaskHeartbeat_Result_count res = 1) \<and>
          WorkflowService_RecordActivityTaskHeartbeat_Helper_UnwrapResponse res = error_first out"
    by (cases out; cases "snd out"; cases "the (snd out)")
      (auto simp: WorkflowService_RecordActivityTaskHeartbeat_Helper_IsException_def
          WorkflowService_RecordActivityTaskHeartbeat_Helper_WrapResponse_def
          WorkflowService_RecordActivityTaskHeartbeat_Helper_UnwrapResponse_def
        declared_nonnil_def WorkflowService_RecordActivityTaskHeartbeat_Result_zero_def
            WorkflowService_RecordActivityTaskHeartbeat_Result_count_def elim!: present.elims)
next
  fix out :: "RecordActivityTaskHeartbeatResponse option \<times> go_error option"
  assume "\<not> carried (\<lambda>_. True) WorkflowService_RecordActivityTaskHeartbeat_Helper_IsException out"
  then show "case (\<lambda>(success, err). WorkflowService_RecordActivityTaskHeartbeat_Helper_WrapResponse
      success err) out of Inl e \<Rightarrow> True
      | Inr res \<Rightarrow> \<not> (WorkflowService_RecordActivityTaskHeartbeat_Result_count res = 1)"
    by (cases out; cases "snd out"; cases "the (snd out)")
      (auto simp: WorkflowService_RecordActivityTaskHeartbeat_Helper_IsException_def
          WorkflowService_RecordActivityTaskHeartbeat_Helper_WrapResponse_def declared_nonnil_def
        WorkflowService_RecordActivityTaskHeartbeat_Result_count_def
            WorkflowService_RecordActivityTaskHeartbeat_Result_zero_def split: option.splits)
qed (auto simp: WorkflowService_RecordActivityTaskHeartbeat_Helper_Args_def
    handler_RecordActivityTaskHeartbeat_def client_RecordActivityTaskHeartbeat_def
      WorkflowService_RecordActivityTaskHeartbeat_Args_enveloper_def
          WorkflowService_RecordActivityTaskHeartbeat_Result_enveloper_def
      Let_def split: sum.splits prod.splits)

section \<open>RecordActivityTaskHeartbeatByID\<close>

record WorkflowService_RecordActivityTaskHeartbeatByID_Args =
  HeartbeatRequest :: "RecordActivityTaskHeartbeatByIDRequest option"

definition WorkflowService_RecordActivityTaskHeartbeatByID_Args_zero ::
    WorkflowService_RecordActivityTaskHeartbeatByID_Args where
  "WorkflowService_RecordActivityTaskHeartbeatByID_Args_zero =
      \<lparr>WorkflowService_RecordActivityTaskHeartbeatByID_Args.HeartbeatRequest = None\<rparr>"

definition WorkflowService_RecordActivityTaskHeartbeatByID_Args_ToWire ::
  "'v wire_api \<Rightarrow> WorkflowService_RecordActivityTaskHeartbeatByID_Args \<Rightarrow> go_error + 'v" where
  "WorkflowService_RecordActivityTaskHeartbeatByID_Args_ToWire W v =
     and_then (put_opt 1 (RecordActivityTaskHeartbeatByIDRequest_ToWire W)
         (WorkflowService_RecordActivityTaskHeartbeatByID_Args.HeartbeatRequest v) [])
       (\<lambda>fields.
     Inr (NewValueStruct W fields))"

definition WorkflowService_RecordActivityTaskHeartbeatByID_Args_FromWire ::
  "'v wire_api \<Rightarrow> 'v \<Rightarrow> WorkflowService_RecordActivityTaskHeartbeatByID_Args \<Rightarrow> go_error +
      WorkflowService_RecordActivityTaskHeartbeatByID_Args" where
  "WorkflowService_RecordActivityTaskHeartbeatByID_Args_FromWire W w v =
     foldM (\<lambda>v (fid, fval).
       if fid = 1 then
         if wire_api.Type W fval = TStruct
         then and_then (RecordActivityTaskHeartbeatByIDRequest_Read W fval) (\<lambda>x. Inr
             (v\<lparr>WorkflowService_RecordActivityTaskHeartbeatByID_Args.HeartbeatRequest := Some x\<rparr>))
         else Inr v
       else Inr v) (GetStruct W w) v"

definition WorkflowService_RecordActivityTaskHeartbeatByID_Args_enveloper ::
  "'v wire_api \<Rightarrow> WorkflowService_RecordActivityTaskHeartbeatByID_Args \<Rightarrow> 'v enveloper" where
  "WorkflowService_RecordActivityTaskHeartbeatByID_Args_enveloper W v =
     \<lparr>MethodName = ''RecordActivityTaskHeartbeatByID'', EnvelopeType = Call, EnvelopeToWire =
         WorkflowService_RecordActivityTaskHeartbeatByID_Args_ToWire W v\<rparr>"

definition WorkflowService_RecordActivityTaskHeartbeatByID_Args_Equals ::
  "WorkflowService_RecordActivityTaskHeartbeatByID_Args option \<Rightarrow>
      WorkflowService_RecordActivityTaskHeartbeatByID_Args option \<Rightarrow> bool" where
  "WorkflowService_RecordActivityTaskHeartbeatByID_Args_Equals v rhs =
     (case v of None \<Rightarrow> rhs = None
      | Some v \<Rightarrow> (case rhs of None \<Rightarrow> False
        | Some rhs \<Rightarrow>
          if \<not> both_set_and (\<lambda>x y. RecordActivityTaskHeartbeatByIDRequest_Equals (Some x) (Some y))
              (WorkflowService_RecordActivityTaskHeartbeatByID_Args.HeartbeatRequest v)
              (WorkflowService_RecordActivityTaskHeartbeatByID_Args.HeartbeatRequest rhs) then False
              else
          True))"

lemma WorkflowService_RecordActivityTaskHeartbeatByID_Args_Equals_iff [simp]:
    "WorkflowService_RecordActivityTaskHeartbeatByID_Args_Equals x y \<longleftrightarrow> x = y"
  by (cases x; cases y) (auto simp: WorkflowService_RecordActivityTaskHeartbeatByID_Args_Equals_def)

record WorkflowService_RecordActivityTaskHeartbeatByID_Result =
  Success :: "RecordActivityTaskHeartbeatResponse option"
  BadRequestError :: "BadRequestError option"
  InternalServiceError :: "InternalServiceError option"
  EntityNotExistError :: "EntityNotExistsError option"
  DomainNotActiveError :: "DomainNotActiveError option"
  LimitExceededError :: "LimitExceededError option"
  ServiceBusyError :: "ServiceBusyError option"
  ClientVersionNotSupportedError :: "ClientVersionNotSupportedError option"

definition WorkflowService_RecordActivityTaskHeartbeatByID_Result_count ::
    "WorkflowService_RecordActivityTaskHeartbeatByID_Result \<Rightarrow> nat" where
  "WorkflowService_RecordActivityTaskHeartbeatByID_Result_count v =
     (if WorkflowService_RecordActivityTaskHeartbeatByID_Result.Success v \<noteq> None then 1 else 0) +
     (if WorkflowService_RecordActivityTaskHeartbeatByID_Result.BadRequestError v \<noteq> None then 1 else
         0) +
     (if WorkflowService_RecordActivityTaskHeartbeatByID_Result.InternalServiceError v \<noteq> None then 1
         else 0) +
     (if WorkflowService_RecordActivityTaskHeartbeatByID_Result.EntityNotExistError v \<noteq> None then 1
         else 0) +
     (if WorkflowService_RecordActivityTaskHeartbeatByID_Result.DomainNotActiveError v \<noteq> None then 1
         else 0) +
     (if WorkflowService_RecordActivityTaskHeartbeatByID_Result.LimitExceededError v \<noteq> None then 1
         else 0) +
     (if WorkflowService_RecordActivityTaskHeartbeatByID_Result.ServiceBusyError v \<noteq> None then 1
         else 0) +
     (if WorkflowService_RecordActivityTaskHeartbeatByID_Result.ClientVersionNotSupportedError v \<noteq>
         None then 1 else 0)"

definition WorkflowService_RecordActivityTaskHeartbeatByID_Result_zero ::
    WorkflowService_RecordActivityTaskHeartbeatByID_Result where
  "WorkflowService_RecordActivityTaskHeartbeatByID_Result_zero =
      \<lparr>WorkflowService_RecordActivityTaskHeartbeatByID_Result.Success = None,
      WorkflowService_RecordActivityTaskHeartbeatByID_Result.BadRequestError = None,
      WorkflowService_RecordActivityTaskHeartbeatByID_Result.InternalServiceError = None,
      WorkflowService_RecordActivityTaskHeartbeatByID_Result.EntityNotExistError = None,
      WorkflowService_RecordActivityTaskHeartbeatByID_Result.DomainNotActiveError = None,
      WorkflowService_RecordActivityTaskHeartbeatByID_Result.LimitExceededError = None,
      WorkflowService_RecordActivityTaskHeartbeatByID_Result.ServiceBusyError = None,
      WorkflowService_RecordActivityTaskHeartbeatByID_Result.ClientVersionNotSupportedError = None\<rparr>"

definition WorkflowService_RecordActivityTaskHeartbeatByID_Result_ToWire ::
  "'v wire_api \<Rightarrow> WorkflowService_RecordActivityTaskHeartbeatByID_Result \<Rightarrow> go_error + 'v" where
  "WorkflowService_RecordActivityTaskHeartbeatByID_Result_ToWire W v =
     and_then (put_opt 0 (RecordActivityTaskHeartbeatResponse_ToWire W)
         (WorkflowService_RecordActivityTaskHeartbeatByID_Result.Success v) [])
       (\<lambda>fields.
     and_then (put_opt 1 (BadRequestError_ToWire W)
         (WorkflowService_RecordActivityTaskHeartbeatByID_Result.BadRequestError v) fields)
       (\<lambda>fields.
     and_then (put_opt 2 (InternalServiceError_ToWire W)
         (WorkflowService_RecordActivityTaskHeartbeatByID_Result.InternalServiceError v) fields)
       (\<lambda>fields.
     and_then (put_opt 3 (EntityNotExistsError_ToWire W)
         (WorkflowService_RecordActivityTaskHeartbeatByID_Result.EntityNotExistError v) fields)
       (\<lambda>fields.
     and_then (put_opt 4 (DomainNotActiveError_ToWire W)
         (WorkflowService_RecordActivityTaskHeartbeatByID_Result.DomainNotActiveError v) fields)
       (\<lambda>fields.
     and_then (put_opt 5 (LimitExceededError_ToWire W)
         (WorkflowService_RecordActivityTaskHeartbeatByID_Result.LimitExceededError v) fields)
       (\<lambda>fields.
     and_then (put_opt 6 (ServiceBusyError_ToWire W)
         (WorkflowService_RecordActivityTaskHeartbeatByID_Result.ServiceBusyError v) fields)
       (\<lambda>fields.
     and_then (put_opt 7 (ClientVersionNotSupportedError_ToWire W)
         (WorkflowService_RecordActivityTaskHeartbeatByID_Result.ClientVersionNotSupportedError v)
         fields)
       (\<lambda>fields.
     if length fields \<noteq> 1
     then Inl (E_Errorf
         ''WorkflowService_RecordActivityTaskHeartbeatByID_Result should have exactly one field: got %v fields'' (length fields))
     else Inr (NewValueStruct W fields)))))))))"

definition WorkflowService_RecordActivityTaskHeartbeatByID_Result_FromWire ::
  "'v wire_api \<Rightarrow> 'v \<Rightarrow> WorkflowService_RecordActivityTaskHeartbeatByID_Result \<Rightarrow> go_error +
      WorkflowService_RecordActivityTaskHeartbeatByID_Result" where
  "WorkflowService_RecordActivityTaskHeartbeatByID_Result_FromWire W w v =
     and_then (foldM (\<lambda>v (fid, fval).
       if fid = 0 then
         if wire_api.Type W fval = TStruct
         then and_then (RecordActivityTaskHeartbeatResponse_Read W fval) (\<lambda>x. Inr
             (v\<lparr>WorkflowService_RecordActivityTaskHeartbeatByID_Result.Success := Some x\<rparr>))
         else Inr v
       else if fid = 1 then
         if wire_api.Type W fval = TStruct
         then and_then (BadRequestError_Read W fval) (\<lambda>x. Inr
             (v\<lparr>WorkflowService_RecordActivityTaskHeartbeatByID_Result.BadRequestError := Some x\<rparr>))
         else Inr v
       else if fid = 2 then
         if wire_api.Type W fval = TStruct
         then and_then (InternalServiceError_Read W fval) (\<lambda>x. Inr
             (v\<lparr>WorkflowService_RecordActivityTaskHeartbeatByID_Result.InternalServiceError := Some
             x\<rparr>))
         else Inr v
       else if fid = 3 then
         if wire_api.Type W fval = TStruct
         then and_then (EntityNotExistsError_Read W fval) (\<lambda>x. Inr
             (v\<lparr>WorkflowService_RecordActivityTaskHeartbeatByID_Result.EntityNotExistError := Some
             x\<rparr>))
         else Inr v
       else if fid = 4 then
         if wire_api.Type W fval = TStruct
         then and_then (DomainNotActiveError_Read W fval) (\<lambda>x. Inr
             (v\<lparr>WorkflowService_RecordActivityTaskHeartbeatByID_Result.DomainNotActiveError := Some
             x\<rparr>))
         else Inr v
       else if fid = 5 then
         if wire_api.Type W fval = TStruct
         then and_then (LimitExceededError_Read W fval) (\<lambda>x. Inr
             (v\<lparr>WorkflowService_RecordActivityTaskHeartbeatByID_Result.LimitExceededError := Some
             x\<rparr>))
         else Inr v
       else if fid = 6 then
         if wire_api.Type W fval = TStruct
         then and_then (ServiceBusyError_Read W fval) (\<lambda>x. Inr
             (v\<lparr>WorkflowService_RecordActivityTaskHeartbeatByID_Result.ServiceBusyError := Some x\<rparr>))
         else Inr v
       else if fid = 7 then
         if wire_api.Type W fval = TStruct
         then and_then (ClientVersionNotSupportedError_Read W fval) (\<lambda>x. Inr
             (v\<lparr>WorkflowService_RecordActivityTaskHeartbeatByID_Result.ClientVersionNotSupportedError := Some x\<rparr>))
         else Inr v
       else Inr v) (GetStruct W w) v) (\<lambda>v.
     let count = WorkflowService_RecordActivityTaskHeartbeatByID_Result_count v in
     if count \<noteq> 1
     then Inl (E_Errorf
         ''WorkflowService_RecordActivityTaskHeartbeatByID_Result should have exactly one field: got %v fields'' count)
     else Inr v)"

definition WorkflowService_RecordActivityTaskHeartbeatByID_Result_enveloper ::
  "'v wire_api \<Rightarrow> WorkflowService_RecordActivityTaskHeartbeatByID_Result \<Rightarrow> 'v enveloper" where
  "WorkflowService_RecordActivityTaskHeartbeatByID_Result_enveloper W v =
     \<lparr>MethodName = ''RecordActivityTaskHeartbeatByID'', EnvelopeType = Reply, EnvelopeToWire =
         WorkflowService_RecordActivityTaskHeartbeatByID_Result_ToWire W v\<rparr>"

definition WorkflowService_RecordActivityTaskHeartbeatByID_Result_Equals ::
  "WorkflowService_RecordActivityTaskHeartbeatByID_Result option \<Rightarrow>
      WorkflowService_RecordActivityTaskHeartbeatByID_Result option \<Rightarrow> bool" where
  "WorkflowService_RecordActivityTaskHeartbeatByID_Result_Equals v rhs =
     (case v of None \<Rightarrow> rhs = None
      | Some v \<Rightarrow> (case rhs of None \<Rightarrow> False
        | Some rhs \<Rightarrow>
          if \<not> both_set_and (\<lambda>x y. RecordActivityTaskHeartbeatResponse_Equals (Some x) (Some y))
              (WorkflowService_RecordActivityTaskHeartbeatByID_Result.Success v)
              (WorkflowService_RecordActivityTaskHeartbeatByID_Result.Success rhs) then False else
          if \<not> both_set_and (\<lambda>x y. BadRequestError_Equals (Some x) (Some y))
              (WorkflowService_RecordActivityTaskHeartbeatByID_Result.BadRequestError v)
              (WorkflowService_RecordActivityTaskHeartbeatByID_Result.BadRequestError rhs) then
              False else
          if \<not> both_set_and (\<lambda>x y. InternalServiceError_Equals (Some x) (Some y))
              (WorkflowService_RecordActivityTaskHeartbeatByID_Result.InternalServiceError v)
              (WorkflowService_RecordActivityTaskHeartbeatByID_Result.InternalServiceError rhs) then
              False else
          if \<not> both_set_and (\<lambda>x y. EntityNotExistsError_Equals (Some x) (Some y))
              (WorkflowService_RecordActivityTaskHeartbeatByID_Result.EntityNotExistError v)
              (WorkflowService_RecordActivityTaskHeartbeatByID_Result.EntityNotExistError rhs) then
              False else
          if \<not> both_set_and (\<lambda>x y. DomainNotActiveError_Equals (Some x) (Some y))
              (WorkflowService_RecordActivityTaskHeartbeatByID_Result.DomainNotActiveError v)
              (WorkflowService_RecordActivityTaskHeartbeatByID_Result.DomainNotActiveError rhs) then
              False else
          if \<not> both_set_and (\<lambda>x y. LimitExceededError_Equals (Some x) (Some y))
              (WorkflowService_RecordActivityTaskHeartbeatByID_Result.LimitExceededError v)
              (WorkflowService_RecordActivityTaskHeartbeatByID_Result.LimitExceededError rhs) then
              False else
          if \<not> both_set_and (\<lambda>x y. ServiceBusyError_Equals (Some x) (Some y))
              (WorkflowService_RecordActivityTaskHeartbeatByID_Result.ServiceBusyError v)
              (WorkflowService_RecordActivityTaskHeartbeatByID_Result.ServiceBusyError rhs) then
              False else
          if \<not> both_set_and (\<lambda>x y. ClientVersionNotSupportedError_Equals (Some x) (Some y))
              (WorkflowService_RecordActivityTaskHeartbeatByID_Result.ClientVersionNotSupportedError
              v)
              (WorkflowService_RecordActivityTaskHeartbeatByID_Result.ClientVersionNotSupportedError
              rhs) then False else
          True))"

lemma WorkflowService_RecordActivityTaskHeartbeatByID_Result_Equals_iff [simp]:
    "WorkflowService_RecordActivityTaskHeartbeatByID_Result_Equals x y \<longleftrightarrow> x = y"
  by (cases x; cases y) (simp_all add:
      WorkflowService_RecordActivityTaskHeartbeatByID_Result_Equals_def if_not_False, fastforce
      intro: WorkflowService_RecordActivityTaskHeartbeatByID_Result.equality)

definition WorkflowService_RecordActivityTaskHeartbeatByID_Helper_Args ::
    "RecordActivityTaskHeartbeatByIDRequest option \<Rightarrow>
    WorkflowService_RecordActivityTaskHeartbeatByID_Args" where
  "WorkflowService_RecordActivityTaskHeartbeatByID_Helper_Args r =
      \<lparr>WorkflowService_RecordActivityTaskHeartbeatByID_Args.HeartbeatRequest = r\<rparr>"

definition WorkflowService_RecordActivityTaskHeartbeatByID_Helper_IsException :: "go_error \<Rightarrow> bool"
    where
  "WorkflowService_RecordActivityTaskHeartbeatByID_Helper_IsException err =
     (case err of
        E_BadRequestError _ \<Rightarrow> True
      | E_InternalServiceError _ \<Rightarrow> True
      | E_EntityNotExistsError _ \<Rightarrow> True
      | E_DomainNotActiveError _ \<Rightarrow> True
      | E_LimitExceededError _ \<Rightarrow> True
      | E_ServiceBusyError _ \<Rightarrow> True
      | E_ClientVersionNotSupportedError _ \<Rightarrow> True
      | _ \<Rightarrow> False)"

definition WorkflowService_RecordActivityTaskHeartbeatByID_Helper_WrapResponse ::
  "RecordActivityTaskHeartbeatResponse option \<Rightarrow> go_error option \<Rightarrow> go_error +
      WorkflowService_RecordActivityTaskHeartbeatByID_Result" where
  "WorkflowService_RecordActivityTaskHeartbeatByID_Helper_WrapResponse success err =
     (case err of None \<Rightarrow> Inr
         (WorkflowService_RecordActivityTaskHeartbeatByID_Result_zero\<lparr>WorkflowService_RecordActivityTaskHeartbeatByID_Result.Success := success\<rparr>)
      | Some err \<Rightarrow> (case err of
          E_BadRequestError e \<Rightarrow> (case e of
              None \<Rightarrow> Inl (E_New
                  ''WrapResponse received non-nil error type with nil value for WorkflowService_RecordActivityTaskHeartbeatByID_Result.BadRequestError'')
            | Some e \<Rightarrow> Inr
                (WorkflowService_RecordActivityTaskHeartbeatByID_Result_zero\<lparr>WorkflowService_RecordActivityTaskHeartbeatByID_Result.BadRequestError := Some e\<rparr>))
        | E_InternalServiceError e \<Rightarrow> (case e of
              None \<Rightarrow> Inl (E_New
                  ''WrapResponse received non-nil error type with nil value for WorkflowService_RecordActivityTaskHeartbeatByID_Result.InternalServiceError'')
            | Some e \<Rightarrow> Inr
                (WorkflowService_RecordActivityTaskHeartbeatByID_Result_zero\<lparr>WorkflowService_RecordActivityTaskHeartbeatByID_Result.InternalServiceError := Some e\<rparr>))
        | E_EntityNotExistsError e \<Rightarrow> (case e of
              None \<Rightarrow> Inl (E_New
                  ''WrapResponse received non-nil error type with nil value for WorkflowService_RecordActivityTaskHeartbeatByID_Result.EntityNotExistError'')
            | Some e \<Rightarrow> Inr
                (WorkflowService_RecordActivityTaskHeartbeatByID_Result_zero\<lparr>WorkflowService_RecordActivityTaskHeartbeatByID_Result.EntityNotExistError := Some e\<rparr>))
        | E_DomainNotActiveError e \<Rightarrow> (case e of
              None \<Rightarrow> Inl (E_New
                  ''WrapResponse received non-nil error type with nil value for WorkflowService_RecordActivityTaskHeartbeatByID_Result.DomainNotActiveError'')
            | Some e \<Rightarrow> Inr
                (WorkflowService_RecordActivityTaskHeartbeatByID_Result_zero\<lparr>WorkflowService_RecordActivityTaskHeartbeatByID_Result.DomainNotActiveError := Some e\<rparr>))
        | E_LimitExceededError e \<Rightarrow> (case e of
              None \<Rightarrow> Inl (E_New
                  ''WrapResponse received non-nil error type with nil value for WorkflowService_RecordActivityTaskHeartbeatByID_Result.LimitExceededError'')
            | Some e \<Rightarrow> Inr
                (WorkflowService_RecordActivityTaskHeartbeatByID_Result_zero\<lparr>WorkflowService_RecordActivityTaskHeartbeatByID_Result.LimitExceededError := Some e\<rparr>))
        | E_ServiceBusyError e \<Rightarrow> (case e of
              None \<Rightarrow> Inl (E_New
                  ''WrapResponse received non-nil error type with nil value for WorkflowService_RecordActivityTaskHeartbeatByID_Result.ServiceBusyError'')
            | Some e \<Rightarrow> Inr
                (WorkflowService_RecordActivityTaskHeartbeatByID_Result_zero\<lparr>WorkflowService_RecordActivityTaskHeartbeatByID_Result.ServiceBusyError := Some e\<rparr>))
        | E_ClientVersionNotSupportedError e \<Rightarrow> (case e of
              None \<Rightarrow> Inl (E_New
                  ''WrapResponse received non-nil error type with nil value for WorkflowService_RecordActivityTaskHeartbeatByID_Result.ClientVersionNotSupportedError'')
            | Some e \<Rightarrow> Inr
                (WorkflowService_RecordActivityTaskHeartbeatByID_Result_zero\<lparr>WorkflowService_RecordActivityTaskHeartbeatByID_Result.ClientVersionNotSupportedError := Some e\<rparr>))
        | _ \<Rightarrow> Inl err))"

definition WorkflowService_RecordActivityTaskHeartbeatByID_Helper_UnwrapResponse ::
  "WorkflowService_RecordActivityTaskHeartbeatByID_Result \<Rightarrow> RecordActivityTaskHeartbeatResponse
      option \<times> go_error option" where
  "WorkflowService_RecordActivityTaskHeartbeatByID_Helper_UnwrapResponse result =
    (if WorkflowService_RecordActivityTaskHeartbeatByID_Result.BadRequestError result \<noteq> None then
        (None, Some (E_BadRequestError
        (WorkflowService_RecordActivityTaskHeartbeatByID_Result.BadRequestError result))) else
     if WorkflowService_RecordActivityTaskHeartbeatByID_Result.InternalServiceError result \<noteq> None
         then (None, Some (E_InternalServiceError
         (WorkflowService_RecordActivityTaskHeartbeatByID_Result.InternalServiceError result))) else
     if WorkflowService_RecordActivityTaskHeartbeatByID_Result.EntityNotExistError result \<noteq> None
         then (None, Some (E_EntityNotExistsError
         (WorkflowService_RecordActivityTaskHeartbeatByID_Result.EntityNotExistError result))) else
     if WorkflowService_RecordActivityTaskHeartbeatByID_Result.DomainNotActiveError result \<noteq> None
         then (None, Some (E_DomainNotActiveError
         (WorkflowService_RecordActivityTaskHeartbeatByID_Result.DomainNotActiveError result))) else
     if WorkflowService_RecordActivityTaskHeartbeatByID_Result.LimitExceededError result \<noteq> None then
         (None, Some (E_LimitExceededError
         (WorkflowService_RecordActivityTaskHeartbeatByID_Result.LimitExceededError result))) else
     if WorkflowService_RecordActivityTaskHeartbeatByID_Result.ServiceBusyError result \<noteq> None then
         (None, Some (E_ServiceBusyError
         (WorkflowService_RecordActivityTaskHeartbeatByID_Result.ServiceBusyError result))) else
     if WorkflowService_RecordActivityTaskHeartbeatByID_Result.ClientVersionNotSupportedError result
         \<noteq> None then (None, Some (E_ClientVersionNotSupportedError
         (WorkflowService_RecordActivityTaskHeartbeatByID_Result.ClientVersionNotSupportedError
         result))) else
     if WorkflowService_RecordActivityTaskHeartbeatByID_Result.Success result \<noteq> None then
         (WorkflowService_RecordActivityTaskHeartbeatByID_Result.Success result, None) else
     (None, Some (E_New ''expected a non-void result'')))"

definition handler_RecordActivityTaskHeartbeatByID ::
  "'v wire_api \<Rightarrow> ('ctx \<Rightarrow> RecordActivityTaskHeartbeatByIDRequest option \<Rightarrow>
      RecordActivityTaskHeartbeatResponse option \<times> go_error option) \<Rightarrow>
   ('ctx, 'v) unary_handler" where
  "handler_RecordActivityTaskHeartbeatByID W impl ctx body =
     (case WorkflowService_RecordActivityTaskHeartbeatByID_Args_FromWire W body
         WorkflowService_RecordActivityTaskHeartbeatByID_Args_zero of
      Inl err \<Rightarrow> (no_response, Some err)
    | Inr args \<Rightarrow>
      let (success, err) = impl ctx
          (WorkflowService_RecordActivityTaskHeartbeatByID_Args.HeartbeatRequest args);
          hadError = (err \<noteq> None)
      in case WorkflowService_RecordActivityTaskHeartbeatByID_Helper_WrapResponse success err of
           Inl err \<Rightarrow> (no_response, Some err)
         | Inr result \<Rightarrow>
             (\<lparr>Body = Some (WorkflowService_RecordActivityTaskHeartbeatByID_Result_enveloper W
                 result),
               IsApplicationError = hadError\<rparr>, None))"

definition client_RecordActivityTaskHeartbeatByID ::
  "'v wire_api \<Rightarrow> ('ctx, 'v) thrift_client \<Rightarrow> 'ctx \<Rightarrow> RecordActivityTaskHeartbeatByIDRequest option \<Rightarrow>
   RecordActivityTaskHeartbeatResponse option \<times> go_error option" where
  "client_RecordActivityTaskHeartbeatByID W call ctx r =
     (let args = WorkflowService_RecordActivityTaskHeartbeatByID_Helper_Args r in
      case call ctx (WorkflowService_RecordActivityTaskHeartbeatByID_Args_enveloper W args) of
        Inl e \<Rightarrow> (None, Some e)
      | Inr body \<Rightarrow>
          (case WorkflowService_RecordActivityTaskHeartbeatByID_Result_FromWire W body
              WorkflowService_RecordActivityTaskHeartbeatByID_Result_zero of
             Inl e \<Rightarrow> (None, Some e)
           | Inr result \<Rightarrow> WorkflowService_RecordActivityTaskHeartbeatByID_Helper_UnwrapResponse
               result))"

lemma WorkflowService_RecordActivityTaskHeartbeatByID_Args_merge:
  "(case x of None \<Rightarrow> Inr \<lparr>WorkflowService_RecordActivityTaskHeartbeatByID_Args.HeartbeatRequest =
      a0\<rparr> | Some y \<Rightarrow> Inr \<lparr>WorkflowService_RecordActivityTaskHeartbeatByID_Args.HeartbeatRequest = b0
      y\<rparr>) =
   Inr \<lparr>WorkflowService_RecordActivityTaskHeartbeatByID_Args.HeartbeatRequest = (case x of None \<Rightarrow> a0
       | Some y \<Rightarrow> b0 y)\<rparr>"
  by (cases x) simp_all

interpretation WorkflowService_RecordActivityTaskHeartbeatByID_Args: thrift_struct W
  "WorkflowService_RecordActivityTaskHeartbeatByID_Args_ToWire W"
      "WorkflowService_RecordActivityTaskHeartbeatByID_Args_FromWire W"
  WorkflowService_RecordActivityTaskHeartbeatByID_Args_zero "\<lambda>x. True" for W
proof (rule thrift_structI)
  fix x :: WorkflowService_RecordActivityTaskHeartbeatByID_Args
  assume laws: "wire_laws W"
  obtain enc0 where e0: "RecordActivityTaskHeartbeatByIDRequest_ToWire W = (\<lambda>x. Inr (enc0 x))"
      "\<And>x. wire_api.Type W (enc0 x) = TStruct"
      "\<And>x. Writable W (enc0 x) \<longleftrightarrow> (\<lambda>_. True) x"
      "\<And>x. (\<lambda>_. True) x \<Longrightarrow> RecordActivityTaskHeartbeatByIDRequest_FromWire W (enc0 x)
          RecordActivityTaskHeartbeatByIDRequest_zero = Inr x"
    by (rule RecordActivityTaskHeartbeatByIDRequest.encoder [OF laws]) (rule that)
  show "\<exists>w. WorkflowService_RecordActivityTaskHeartbeatByID_Args_ToWire W x = Inr w \<and> wire_api.Type
      W w = TStruct \<and>
      (Writable W w \<longleftrightarrow> True) \<and> (True \<longrightarrow> WorkflowService_RecordActivityTaskHeartbeatByID_Args_FromWire
          W w WorkflowService_RecordActivityTaskHeartbeatByID_Args_zero = Inr x)"
    by (cases x) (simp cong: option.case_cong add: codec_rules
        WorkflowService_RecordActivityTaskHeartbeatByID_Args_merge
        WorkflowService_RecordActivityTaskHeartbeatByID_Args_ToWire_def
        WorkflowService_RecordActivityTaskHeartbeatByID_Args_FromWire_def
      WorkflowService_RecordActivityTaskHeartbeatByID_Args_zero_def
          RecordActivityTaskHeartbeatByIDRequest_Read_def if_set_def laws e0)
qed

lemma WorkflowService_RecordActivityTaskHeartbeatByID_Result_merge:
  "(case x of None \<Rightarrow> Inr \<lparr>WorkflowService_RecordActivityTaskHeartbeatByID_Result.Success = a0,
      WorkflowService_RecordActivityTaskHeartbeatByID_Result.BadRequestError = a1,
      WorkflowService_RecordActivityTaskHeartbeatByID_Result.InternalServiceError = a2,
      WorkflowService_RecordActivityTaskHeartbeatByID_Result.EntityNotExistError = a3,
      WorkflowService_RecordActivityTaskHeartbeatByID_Result.DomainNotActiveError = a4,
      WorkflowService_RecordActivityTaskHeartbeatByID_Result.LimitExceededError = a5,
      WorkflowService_RecordActivityTaskHeartbeatByID_Result.ServiceBusyError = a6,
      WorkflowService_RecordActivityTaskHeartbeatByID_Result.ClientVersionNotSupportedError = a7\<rparr> |
      Some y \<Rightarrow> Inr \<lparr>WorkflowService_RecordActivityTaskHeartbeatByID_Result.Success = b0 y,
      WorkflowService_RecordActivityTaskHeartbeatByID_Result.BadRequestError = b1 y,
      WorkflowService_RecordActivityTaskHeartbeatByID_Result.InternalServiceError = b2 y,
      WorkflowService_RecordActivityTaskHeartbeatByID_Result.EntityNotExistError = b3 y,
      WorkflowService_RecordActivityTaskHeartbeatByID_Result.DomainNotActiveError = b4 y,
      WorkflowService_RecordActivityTaskHeartbeatByID_Result.LimitExceededError = b5 y,
      WorkflowService_RecordActivityTaskHeartbeatByID_Result.ServiceBusyError = b6 y,
      WorkflowService_RecordActivityTaskHeartbeatByID_Result.ClientVersionNotSupportedError = b7 y\<rparr>)
      =
   Inr \<lparr>WorkflowService_RecordActivityTaskHeartbeatByID_Result.Success = (case x of None \<Rightarrow> a0 | Some
       y \<Rightarrow> b0 y), WorkflowService_RecordActivityTaskHeartbeatByID_Result.BadRequestError = (case x
       of None \<Rightarrow> a1 | Some y \<Rightarrow> b1 y),
       WorkflowService_RecordActivityTaskHeartbeatByID_Result.InternalServiceError = (case x of None
       \<Rightarrow> a2 | Some y \<Rightarrow> b2 y),
       WorkflowService_RecordActivityTaskHeartbeatByID_Result.EntityNotExistError = (case x of None
       \<Rightarrow> a3 | Some y \<Rightarrow> b3 y),
       WorkflowService_RecordActivityTaskHeartbeatByID_Result.DomainNotActiveError = (case x of None
       \<Rightarrow> a4 | Some y \<Rightarrow> b4 y),
       WorkflowService_RecordActivityTaskHeartbeatByID_Result.LimitExceededError = (case x of None \<Rightarrow>
       a5 | Some y \<Rightarrow> b5 y), WorkflowService_RecordActivityTaskHeartbeatByID_Result.ServiceBusyError
       = (case x of None \<Rightarrow> a6 | Some y \<Rightarrow> b6 y),
       WorkflowService_RecordActivityTaskHeartbeatByID_Result.ClientVersionNotSupportedError = (case
       x of None \<Rightarrow> a7 | Some y \<Rightarrow> b7 y)\<rparr>"
  by (cases x) simp_all

interpretation WorkflowService_RecordActivityTaskHeartbeatByID_Result: thrift_struct W
  "WorkflowService_RecordActivityTaskHeartbeatByID_Result_ToWire W"
      "WorkflowService_RecordActivityTaskHeartbeatByID_Result_FromWire W"
  WorkflowService_RecordActivityTaskHeartbeatByID_Result_zero "\<lambda>r.
      WorkflowService_RecordActivityTaskHeartbeatByID_Result_count r = 1" for W
proof (rule thrift_checked_plainI)
  fix x :: WorkflowService_RecordActivityTaskHeartbeatByID_Result
  assume laws: "wire_laws W"
  obtain enc0 where e0: "RecordActivityTaskHeartbeatResponse_ToWire W = (\<lambda>x. Inr (enc0 x))"
      "\<And>x. wire_api.Type W (enc0 x) = TStruct"
      "\<And>x. Writable W (enc0 x) \<longleftrightarrow> (\<lambda>_. True) x"
      "\<And>x. (\<lambda>_. True) x \<Longrightarrow> RecordActivityTaskHeartbeatResponse_FromWire W (enc0 x)
          RecordActivityTaskHeartbeatResponse_zero = Inr x"
    by (rule RecordActivityTaskHeartbeatResponse.encoder [OF laws]) (rule that)
  obtain enc1 where e1: "BadRequestError_ToWire W = (\<lambda>x. Inr (enc1 x))"
      "\<And>x. wire_api.Type W (enc1 x) = TStruct"
      "\<And>x. Writable W (enc1 x) \<longleftrightarrow> (\<lambda>_. True) x"
      "\<And>x. (\<lambda>_. True) x \<Longrightarrow> BadRequestError_FromWire W (enc1 x) BadRequestError_zero = Inr x"
    by (rule BadRequestError.encoder [OF laws]) (rule that)
  obtain enc2 where e2: "InternalServiceError_ToWire W = (\<lambda>x. Inr (enc2 x))"
      "\<And>x. wire_api.Type W (enc2 x) = TStruct"
      "\<And>x. Writable W (enc2 x) \<longleftrightarrow> (\<lambda>_. True) x"
      "\<And>x. (\<lambda>_. True) x \<Longrightarrow> InternalServiceError_FromWire W (enc2 x) InternalServiceError_zero = Inr
          x"
    by (rule InternalServiceError.encoder [OF laws]) (rule that)
  obtain enc3 where e3: "EntityNotExistsError_ToWire W = (\<lambda>x. Inr (enc3 x))"
      "\<And>x. wire_api.Type W (enc3 x) = TStruct"
      "\<And>x. Writable W (enc3 x) \<longleftrightarrow> (\<lambda>_. True) x"
      "\<And>x. (\<lambda>_. True) x \<Longrightarrow> EntityNotExistsError_FromWire W (enc3 x) EntityNotExistsError_zero = Inr
          x"
    by (rule EntityNotExistsError.encoder [OF laws]) (rule that)
  obtain enc4 where e4: "DomainNotActiveError_ToWire W = (\<lambda>x. Inr (enc4 x))"
      "\<And>x. wire_api.Type W (enc4 x) = TStruct"
      "\<And>x. Writable W (enc4 x) \<longleftrightarrow> (\<lambda>_. True) x"
      "\<And>x. (\<lambda>_. True) x \<Longrightarrow> DomainNotActiveError_FromWire W (enc4 x) DomainNotActiveError_zero = Inr
          x"
    by (rule DomainNotActiveError.encoder [OF laws]) (rule that)
  obtain enc5 where e5: "LimitExceededError_ToWire W = (\<lambda>x. Inr (enc5 x))"
      "\<And>x. wire_api.Type W (enc5 x) = TStruct"
      "\<And>x. Writable W (enc5 x) \<longleftrightarrow> (\<lambda>_. True) x"
      "\<And>x. (\<lambda>_. True) x \<Longrightarrow> LimitExceededError_FromWire W (enc5 x) LimitExceededError_zero = Inr x"
    by (rule LimitExceededError.encoder [OF laws]) (rule that)
  obtain enc6 where e6: "ServiceBusyError_ToWire W = (\<lambda>x. Inr (enc6 x))"
      "\<And>x. wire_api.Type W (enc6 x) = TStruct"
      "\<And>x. Writable W (enc6 x) \<longleftrightarrow> (\<lambda>_. True) x"
      "\<And>x. (\<lambda>_. True) x \<Longrightarrow> ServiceBusyError_FromWire W (enc6 x) ServiceBusyError_zero = Inr x"
    by (rule ServiceBusyError.encoder [OF laws]) (rule that)
  obtain enc7 where e7: "ClientVersionNotSupportedError_ToWire W = (\<lambda>x. Inr (enc7 x))"
      "\<And>x. wire_api.Type W (enc7 x) = TStruct"
      "\<And>x. Writable W (enc7 x) \<longleftrightarrow> (\<lambda>_. True) x"
      "\<And>x. (\<lambda>_. True) x \<Longrightarrow> ClientVersionNotSupportedError_FromWire W (enc7 x)
          ClientVersionNotSupportedError_zero = Inr x"
    by (rule ClientVersionNotSupportedError.encoder [OF laws]) (rule that)
  let ?fs = "((((((opt_field 0 enc0 (WorkflowService_RecordActivityTaskHeartbeatByID_Result.Success
      x) @
      opt_field 1 enc1 (WorkflowService_RecordActivityTaskHeartbeatByID_Result.BadRequestError x)) @
      opt_field 2 enc2 (WorkflowService_RecordActivityTaskHeartbeatByID_Result.InternalServiceError
          x)) @
      opt_field 3 enc3 (WorkflowService_RecordActivityTaskHeartbeatByID_Result.EntityNotExistError
          x)) @
      opt_field 4 enc4 (WorkflowService_RecordActivityTaskHeartbeatByID_Result.DomainNotActiveError
          x)) @
      opt_field 5 enc5 (WorkflowService_RecordActivityTaskHeartbeatByID_Result.LimitExceededError
          x)) @
      opt_field 6 enc6 (WorkflowService_RecordActivityTaskHeartbeatByID_Result.ServiceBusyError x))
          @
      opt_field 7 enc7
          (WorkflowService_RecordActivityTaskHeartbeatByID_Result.ClientVersionNotSupportedError x)"
  let ?check = "\<lambda>r. if WorkflowService_RecordActivityTaskHeartbeatByID_Result_count x \<noteq> 1 then Inl
      (E_Errorf
      ''WorkflowService_RecordActivityTaskHeartbeatByID_Result should have exactly one field: got %v fields'' (WorkflowService_RecordActivityTaskHeartbeatByID_Result_count x)) else Inr r"
  have "length ?fs = WorkflowService_RecordActivityTaskHeartbeatByID_Result_count x"
    by (simp add: WorkflowService_RecordActivityTaskHeartbeatByID_Result_count_def length_opt_field
        split del: if_split)
  then have "WorkflowService_RecordActivityTaskHeartbeatByID_Result_ToWire W x = ?check
      (NewValueStruct W ?fs)"
    by (simp only: WorkflowService_RecordActivityTaskHeartbeatByID_Result_ToWire_def put_opt_field
        and_then.simps append_Nil e0(1) e1(1) e2(1) e3(1) e4(1) e5(1) e6(1) e7(1))
  moreover have "WorkflowService_RecordActivityTaskHeartbeatByID_Result_FromWire W (NewValueStruct W
      ?fs) WorkflowService_RecordActivityTaskHeartbeatByID_Result_zero = ?check x"
    by (cases x, hypsubst) (simp cong: option.case_cong split del: if_split add: codec_rules Let_def
        WorkflowService_RecordActivityTaskHeartbeatByID_Result_merge
      WorkflowService_RecordActivityTaskHeartbeatByID_Result_FromWire_def
          WorkflowService_RecordActivityTaskHeartbeatByID_Result_zero_def laws
      BadRequestError_Read_def
      ClientVersionNotSupportedError_Read_def
      DomainNotActiveError_Read_def
      EntityNotExistsError_Read_def
      InternalServiceError_Read_def
      LimitExceededError_Read_def
      RecordActivityTaskHeartbeatResponse_Read_def
      ServiceBusyError_Read_def
      e0 e1 e2 e3 e4 e5 e6 e7)
  ultimately show "if WorkflowService_RecordActivityTaskHeartbeatByID_Result_count x = 1
      then \<exists>w. WorkflowService_RecordActivityTaskHeartbeatByID_Result_ToWire W x = Inr w \<and>
          wire_api.Type W w = TStruct \<and>
        Writable W w \<and> WorkflowService_RecordActivityTaskHeartbeatByID_Result_FromWire W w
            WorkflowService_RecordActivityTaskHeartbeatByID_Result_zero = Inr x
      else \<exists>e. WorkflowService_RecordActivityTaskHeartbeatByID_Result_ToWire W x = Inl e"
    by (simp add: laws codec_rules e0 e1 e2 e3 e4 e5 e6 e7)
qed

interpretation RecordActivityTaskHeartbeatByID: rpc_method W
  "WorkflowService_RecordActivityTaskHeartbeatByID_Args_ToWire W"
      "WorkflowService_RecordActivityTaskHeartbeatByID_Args_FromWire W"
      WorkflowService_RecordActivityTaskHeartbeatByID_Args_zero "\<lambda>x. True"
  "WorkflowService_RecordActivityTaskHeartbeatByID_Result_ToWire W"
      "WorkflowService_RecordActivityTaskHeartbeatByID_Result_FromWire W"
      WorkflowService_RecordActivityTaskHeartbeatByID_Result_zero
  "\<lambda>r. WorkflowService_RecordActivityTaskHeartbeatByID_Result_count r = 1"
      "''RecordActivityTaskHeartbeatByID''"
  WorkflowService_RecordActivityTaskHeartbeatByID_Helper_Args
      "WorkflowService_RecordActivityTaskHeartbeatByID_Args.HeartbeatRequest"
  "\<lambda>(success, err). WorkflowService_RecordActivityTaskHeartbeatByID_Helper_WrapResponse success err"
      WorkflowService_RecordActivityTaskHeartbeatByID_Helper_UnwrapResponse
  "\<lambda>out. snd out \<noteq> None" "carried (\<lambda>_. True)
      WorkflowService_RecordActivityTaskHeartbeatByID_Helper_IsException" error_first "\<lambda>e. (None,
      Some e)"
  "handler_RecordActivityTaskHeartbeatByID W" "client_RecordActivityTaskHeartbeatByID W" for W
proof
  fix out :: "RecordActivityTaskHeartbeatResponse option \<times> go_error option"
  assume "carried (\<lambda>_. True) WorkflowService_RecordActivityTaskHeartbeatByID_Helper_IsException out"
  then show "case (\<lambda>(success, err).
      WorkflowService_RecordActivityTaskHeartbeatByID_Helper_WrapResponse success err) out of Inl e
      \<Rightarrow> False
      | Inr res \<Rightarrow> (WorkflowService_RecordActivityTaskHeartbeatByID_Result_count res = 1) \<and>
          WorkflowService_RecordActivityTaskHeartbeatByID_Helper_UnwrapResponse res = error_first
              out"
    by (cases out; cases "snd out"; cases "the (snd out)")
      (auto simp: WorkflowService_RecordActivityTaskHeartbeatByID_Helper_IsException_def
          WorkflowService_RecordActivityTaskHeartbeatByID_Helper_WrapResponse_def
          WorkflowService_RecordActivityTaskHeartbeatByID_Helper_UnwrapResponse_def
        declared_nonnil_def WorkflowService_RecordActivityTaskHeartbeatByID_Result_zero_def
            WorkflowService_RecordActivityTaskHeartbeatByID_Result_count_def elim!: present.elims)
next
  fix out :: "RecordActivityTaskHeartbeatResponse option \<times> go_error option"
  assume "\<not> carried (\<lambda>_. True) WorkflowService_RecordActivityTaskHeartbeatByID_Helper_IsException
      out"
  then show "case (\<lambda>(success, err).
      WorkflowService_RecordActivityTaskHeartbeatByID_Helper_WrapResponse success err) out of Inl e
      \<Rightarrow> True
      | Inr res \<Rightarrow> \<not> (WorkflowService_RecordActivityTaskHeartbeatByID_Result_count res = 1)"
    by (cases out; cases "snd out"; cases "the (snd out)")
      (auto simp: WorkflowService_RecordActivityTaskHeartbeatByID_Helper_IsException_def
          WorkflowService_RecordActivityTaskHeartbeatByID_Helper_WrapResponse_def
          declared_nonnil_def
        WorkflowService_RecordActivityTaskHeartbeatByID_Result_count_def
            WorkflowService_RecordActivityTaskHeartbeatByID_Result_zero_def split: option.splits)
qed (auto simp: WorkflowService_RecordActivityTaskHeartbeatByID_Helper_Args_def
    handler_RecordActivityTaskHeartbeatByID_def client_RecordActivityTaskHeartbeatByID_def
      WorkflowService_RecordActivityTaskHeartbeatByID_Args_enveloper_def
          WorkflowService_RecordActivityTaskHeartbeatByID_Result_enveloper_def
      Let_def split: sum.splits prod.splits)

section \<open>RespondActivityTaskCompleted\<close>

record WorkflowService_RespondActivityTaskCompleted_Args =
  CompleteRequest :: "RespondActivityTaskCompletedRequest option"

definition WorkflowService_RespondActivityTaskCompleted_Args_zero ::
    WorkflowService_RespondActivityTaskCompleted_Args where
  "WorkflowService_RespondActivityTaskCompleted_Args_zero =
      \<lparr>WorkflowService_RespondActivityTaskCompleted_Args.CompleteRequest = None\<rparr>"

definition WorkflowService_RespondActivityTaskCompleted_Args_ToWire ::
  "'v wire_api \<Rightarrow> WorkflowService_RespondActivityTaskCompleted_Args \<Rightarrow> go_error + 'v" where
  "WorkflowService_RespondActivityTaskCompleted_Args_ToWire W v =
     and_then (put_opt 1 (RespondActivityTaskCompletedRequest_ToWire W)
         (WorkflowService_RespondActivityTaskCompleted_Args.CompleteRequest v) [])
       (\<lambda>fields.
     Inr (NewValueStruct W fields))"

definition WorkflowService_RespondActivityTaskCompleted_Args_FromWire ::
  "'v wire_api \<Rightarrow> 'v \<Rightarrow> WorkflowService_RespondActivityTaskCompleted_Args \<Rightarrow> go_error +
      WorkflowService_RespondActivityTaskCompleted_Args" where
  "WorkflowService_RespondActivityTaskCompleted_Args_FromWire W w v =
     foldM (\<lambda>v (fid, fval).
       if fid = 1 then
         if wire_api.Type W fval = TStruct
         then and_then (RespondActivityTaskCompletedRequest_Read W fval) (\<lambda>x. Inr
             (v\<lparr>WorkflowService_RespondActivityTaskCompleted_Args.CompleteRequest := Some x\<rparr>))
         else Inr v
       else Inr v) (GetStruct W w) v"

definition WorkflowService_RespondActivityTaskCompleted_Args_enveloper ::
  "'v wire_api \<Rightarrow> WorkflowService_RespondActivityTaskCompleted_Args \<Rightarrow> 'v enveloper" where
  "WorkflowService_RespondActivityTaskCompleted_Args_enveloper W v =
     \<lparr>MethodName = ''RespondActivityTaskCompleted'', EnvelopeType = Call, EnvelopeToWire =
         WorkflowService_RespondActivityTaskCompleted_Args_ToWire W v\<rparr>"

definition WorkflowService_RespondActivityTaskCompleted_Args_Equals ::
  "WorkflowService_RespondActivityTaskCompleted_Args option \<Rightarrow>
      WorkflowService_RespondActivityTaskCompleted_Args option \<Rightarrow> bool" where
  "WorkflowService_RespondActivityTaskCompleted_Args_Equals v rhs =
     (case v of None \<Rightarrow> rhs = None
      | Some v \<Rightarrow> (case rhs of None \<Rightarrow> False
        | Some rhs \<Rightarrow>
          if \<not> both_set_and (\<lambda>x y. RespondActivityTaskCompletedRequest_Equals (Some x) (Some y))
              (WorkflowService_RespondActivityTaskCompleted_Args.CompleteRequest v)
              (WorkflowService_RespondActivityTaskCompleted_Args.CompleteRequest rhs) then False
              else
          True))"

lemma WorkflowService_RespondActivityTaskCompleted_Args_Equals_iff [simp]:
    "WorkflowService_RespondActivityTaskCompleted_Args_Equals x y \<longleftrightarrow> x = y"
  by (cases x; cases y) (auto simp: WorkflowService_RespondActivityTaskCompleted_Args_Equals_def)

record WorkflowService_RespondActivityTaskCompleted_Result =
  BadRequestError :: "BadRequestError option"
  InternalServiceError :: "InternalServiceError option"
  EntityNotExistError :: "EntityNotExistsError option"
  DomainNotActiveError :: "DomainNotActiveError option"
  LimitExceededError :: "LimitExceededError option"
  ServiceBusyError :: "ServiceBusyError option"
  ClientVersionNotSupportedError :: "ClientVersionNotSupportedError option"

definition WorkflowService_RespondActivityTaskCompleted_Result_count ::
    "WorkflowService_RespondActivityTaskCompleted_Result \<Rightarrow> nat" where
  "WorkflowService_RespondActivityTaskCompleted_Result_count v =
     (if WorkflowService_RespondActivityTaskCompleted_Result.BadRequestError v \<noteq> None then 1 else 0)
         +
     (if WorkflowService_RespondActivityTaskCompleted_Result.InternalServiceError v \<noteq> None then 1
         else 0) +
     (if WorkflowService_RespondActivityTaskCompleted_Result.EntityNotExistError v \<noteq> None then 1
         else 0) +
     (if WorkflowService_RespondActivityTaskCompleted_Result.DomainNotActiveError v \<noteq> None then 1
         else 0) +
     (if WorkflowService_RespondActivityTaskCompleted_Result.LimitExceededError v \<noteq> None then 1 else
         0) +
     (if WorkflowService_RespondActivityTaskCompleted_Result.ServiceBusyError v \<noteq> None then 1 else
         0) +
     (if WorkflowService_RespondActivityTaskCompleted_Result.ClientVersionNotSupportedError v \<noteq> None
         then 1 else 0)"

definition WorkflowService_RespondActivityTaskCompleted_Result_zero ::
    WorkflowService_RespondActivityTaskCompleted_Result where
  "WorkflowService_RespondActivityTaskCompleted_Result_zero =
      \<lparr>WorkflowService_RespondActivityTaskCompleted_Result.BadRequestError = None,
      WorkflowService_RespondActivityTaskCompleted_Result.InternalServiceError = None,
      WorkflowService_RespondActivityTaskCompleted_Result.EntityNotExistError = None,
      WorkflowService_RespondActivityTaskCompleted_Result.DomainNotActiveError = None,
      WorkflowService_RespondActivityTaskCompleted_Result.LimitExceededError = None,
      WorkflowService_RespondActivityTaskCompleted_Result.ServiceBusyError = None,
      WorkflowService_RespondActivityTaskCompleted_Result.ClientVersionNotSupportedError = None\<rparr>"

definition WorkflowService_RespondActivityTaskCompleted_Result_ToWire ::
  "'v wire_api \<Rightarrow> WorkflowService_RespondActivityTaskCompleted_Result \<Rightarrow> go_error + 'v" where
  "WorkflowService_RespondActivityTaskCompleted_Result_ToWire W v =
     and_then (put_opt 1 (BadRequestError_ToWire W)
         (WorkflowService_RespondActivityTaskCompleted_Result.BadRequestError v) [])
       (\<lambda>fields.
     and_then (put_opt 2 (InternalServiceError_ToWire W)
         (WorkflowService_RespondActivityTaskCompleted_Result.InternalServiceError v) fields)
       (\<lambda>fields.
     and_then (put_opt 3 (EntityNotExistsError_ToWire W)
         (WorkflowService_RespondActivityTaskCompleted_Result.EntityNotExistError v) fields)
       (\<lambda>fields.
     and_then (put_opt 4 (DomainNotActiveError_ToWire W)
         (WorkflowService_RespondActivityTaskCompleted_Result.DomainNotActiveError v) fields)
       (\<lambda>fields.
     and_then (put_opt 5 (LimitExceededError_ToWire W)
         (WorkflowService_RespondActivityTaskCompleted_Result.LimitExceededError v) fields)
       (\<lambda>fields.
     and_then (put_opt 6 (ServiceBusyError_ToWire W)
         (WorkflowService_RespondActivityTaskCompleted_Result.ServiceBusyError v) fields)
       (\<lambda>fields.
     and_then (put_opt 7 (ClientVersionNotSupportedError_ToWire W)
         (WorkflowService_RespondActivityTaskCompleted_Result.ClientVersionNotSupportedError v)
         fields)
       (\<lambda>fields.
     if 1 < length fields
     then Inl (E_Errorf
         ''WorkflowService_RespondActivityTaskCompleted_Result should have at most one field: got %v fields'' (length fields))
     else Inr (NewValueStruct W fields))))))))"

definition WorkflowService_RespondActivityTaskCompleted_Result_FromWire ::
  "'v wire_api \<Rightarrow> 'v \<Rightarrow> WorkflowService_RespondActivityTaskCompleted_Result \<Rightarrow> go_error +
      WorkflowService_RespondActivityTaskCompleted_Result" where
  "WorkflowService_RespondActivityTaskCompleted_Result_FromWire W w v =
     and_then (foldM (\<lambda>v (fid, fval).
       if fid = 1 then
         if wire_api.Type W fval = TStruct
         then and_then (BadRequestError_Read W fval) (\<lambda>x. Inr
             (v\<lparr>WorkflowService_RespondActivityTaskCompleted_Result.BadRequestError := Some x\<rparr>))
         else Inr v
       else if fid = 2 then
         if wire_api.Type W fval = TStruct
         then and_then (InternalServiceError_Read W fval) (\<lambda>x. Inr
             (v\<lparr>WorkflowService_RespondActivityTaskCompleted_Result.InternalServiceError := Some
             x\<rparr>))
         else Inr v
       else if fid = 3 then
         if wire_api.Type W fval = TStruct
         then and_then (EntityNotExistsError_Read W fval) (\<lambda>x. Inr
             (v\<lparr>WorkflowService_RespondActivityTaskCompleted_Result.EntityNotExistError := Some x\<rparr>))
         else Inr v
       else if fid = 4 then
         if wire_api.Type W fval = TStruct
         then and_then (DomainNotActiveError_Read W fval) (\<lambda>x. Inr
             (v\<lparr>WorkflowService_RespondActivityTaskCompleted_Result.DomainNotActiveError := Some
             x\<rparr>))
         else Inr v
       else if fid = 5 then
         if wire_api.Type W fval = TStruct
         then and_then (LimitExceededError_Read W fval) (\<lambda>x. Inr
             (v\<lparr>WorkflowService_RespondActivityTaskCompleted_Result.LimitExceededError := Some x\<rparr>))
         else Inr v
       else if fid = 6 then
         if wire_api.Type W fval = TStruct
         then and_then (ServiceBusyError_Read W fval) (\<lambda>x. Inr
             (v\<lparr>WorkflowService_RespondActivityTaskCompleted_Result.ServiceBusyError := Some x\<rparr>))
         else Inr v
       else if fid = 7 then
         if wire_api.Type W fval = TStruct
         then and_then (ClientVersionNotSupportedError_Read W fval) (\<lambda>x. Inr
             (v\<lparr>WorkflowService_RespondActivityTaskCompleted_Result.ClientVersionNotSupportedError
             := Some x\<rparr>))
         else Inr v
       else Inr v) (GetStruct W w) v) (\<lambda>v.
     let count = WorkflowService_RespondActivityTaskCompleted_Result_count v in
     if 1 < count
     then Inl (E_Errorf
         ''WorkflowService_RespondActivityTaskCompleted_Result should have at most one field: got %v fields'' count)
     else Inr v)"

definition WorkflowService_RespondActivityTaskCompleted_Result_enveloper ::
  "'v wire_api \<Rightarrow> WorkflowService_RespondActivityTaskCompleted_Result \<Rightarrow> 'v enveloper" where
  "WorkflowService_RespondActivityTaskCompleted_Result_enveloper W v =
     \<lparr>MethodName = ''RespondActivityTaskCompleted'', EnvelopeType = Reply, EnvelopeToWire =
         WorkflowService_RespondActivityTaskCompleted_Result_ToWire W v\<rparr>"

definition WorkflowService_RespondActivityTaskCompleted_Result_Equals ::
  "WorkflowService_RespondActivityTaskCompleted_Result option \<Rightarrow>
      WorkflowService_RespondActivityTaskCompleted_Result option \<Rightarrow> bool" where
  "WorkflowService_RespondActivityTaskCompleted_Result_Equals v rhs =
     (case v of None \<Rightarrow> rhs = None
      | Some v \<Rightarrow> (case rhs of None \<Rightarrow> False
        | Some rhs \<Rightarrow>
          if \<not> both_set_and (\<lambda>x y. BadRequestError_Equals (Some x) (Some y))
              (WorkflowService_RespondActivityTaskCompleted_Result.BadRequestError v)
              (WorkflowService_RespondActivityTaskCompleted_Result.BadRequestError rhs) then False
              else
          if \<not> both_set_and (\<lambda>x y. InternalServiceError_Equals (Some x) (Some y))
              (WorkflowService_RespondActivityTaskCompleted_Result.InternalServiceError v)
              (WorkflowService_RespondActivityTaskCompleted_Result.InternalServiceError rhs) then
              False else
          if \<not> both_set_and (\<lambda>x y. EntityNotExistsError_Equals (Some x) (Some y))
              (WorkflowService_RespondActivityTaskCompleted_Result.EntityNotExistError v)
              (WorkflowService_RespondActivityTaskCompleted_Result.EntityNotExistError rhs) then
              False else
          if \<not> both_set_and (\<lambda>x y. DomainNotActiveError_Equals (Some x) (Some y))
              (WorkflowService_RespondActivityTaskCompleted_Result.DomainNotActiveError v)
              (WorkflowService_RespondActivityTaskCompleted_Result.DomainNotActiveError rhs) then
              False else
          if \<not> both_set_and (\<lambda>x y. LimitExceededError_Equals (Some x) (Some y))
              (WorkflowService_RespondActivityTaskCompleted_Result.LimitExceededError v)
              (WorkflowService_RespondActivityTaskCompleted_Result.LimitExceededError rhs) then
              False else
          if \<not> both_set_and (\<lambda>x y. ServiceBusyError_Equals (Some x) (Some y))
              (WorkflowService_RespondActivityTaskCompleted_Result.ServiceBusyError v)
              (WorkflowService_RespondActivityTaskCompleted_Result.ServiceBusyError rhs) then False
              else
          if \<not> both_set_and (\<lambda>x y. ClientVersionNotSupportedError_Equals (Some x) (Some y))
              (WorkflowService_RespondActivityTaskCompleted_Result.ClientVersionNotSupportedError v)
              (WorkflowService_RespondActivityTaskCompleted_Result.ClientVersionNotSupportedError
              rhs) then False else
          True))"

lemma WorkflowService_RespondActivityTaskCompleted_Result_Equals_iff [simp]:
    "WorkflowService_RespondActivityTaskCompleted_Result_Equals x y \<longleftrightarrow> x = y"
  by (cases x; cases y) (simp_all add:
      WorkflowService_RespondActivityTaskCompleted_Result_Equals_def if_not_False, fastforce intro:
      WorkflowService_RespondActivityTaskCompleted_Result.equality)

definition WorkflowService_RespondActivityTaskCompleted_Helper_Args ::
    "RespondActivityTaskCompletedRequest option \<Rightarrow> WorkflowService_RespondActivityTaskCompleted_Args"
    where
  "WorkflowService_RespondActivityTaskCompleted_Helper_Args r =
      \<lparr>WorkflowService_RespondActivityTaskCompleted_Args.CompleteRequest = r\<rparr>"

definition WorkflowService_RespondActivityTaskCompleted_Helper_IsException :: "go_error \<Rightarrow> bool"
    where
  "WorkflowService_RespondActivityTaskCompleted_Helper_IsException err =
     (case err of
        E_BadRequestError _ \<Rightarrow> True
      | E_InternalServiceError _ \<Rightarrow> True
      | E_EntityNotExistsError _ \<Rightarrow> True
      | E_DomainNotActiveError _ \<Rightarrow> True
      | E_LimitExceededError _ \<Rightarrow> True
      | E_ServiceBusyError _ \<Rightarrow> True
      | E_ClientVersionNotSupportedError _ \<Rightarrow> True
      | _ \<Rightarrow> False)"

definition WorkflowService_RespondActivityTaskCompleted_Helper_WrapResponse ::
  "go_error option \<Rightarrow> go_error + WorkflowService_RespondActivityTaskCompleted_Result" where
  "WorkflowService_RespondActivityTaskCompleted_Helper_WrapResponse err =
     (case err of None \<Rightarrow> Inr WorkflowService_RespondActivityTaskCompleted_Result_zero
      | Some err \<Rightarrow> (case err of
          E_BadRequestError e \<Rightarrow> (case e of
              None \<Rightarrow> Inl (E_New
                  ''WrapResponse received non-nil error type with nil value for WorkflowService_RespondActivityTaskCompleted_Result.BadRequestError'')
            | Some e \<Rightarrow> Inr
                (WorkflowService_RespondActivityTaskCompleted_Result_zero\<lparr>WorkflowService_RespondActivityTaskCompleted_Result.BadRequestError := Some e\<rparr>))
        | E_InternalServiceError e \<Rightarrow> (case e of
              None \<Rightarrow> Inl (E_New
                  ''WrapResponse received non-nil error type with nil value for WorkflowService_RespondActivityTaskCompleted_Result.InternalServiceError'')
            | Some e \<Rightarrow> Inr
                (WorkflowService_RespondActivityTaskCompleted_Result_zero\<lparr>WorkflowService_RespondActivityTaskCompleted_Result.InternalServiceError := Some e\<rparr>))
        | E_EntityNotExistsError e \<Rightarrow> (case e of
              None \<Rightarrow> Inl (E_New
                  ''WrapResponse received non-nil error type with nil value for WorkflowService_RespondActivityTaskCompleted_Result.EntityNotExistError'')
            | Some e \<Rightarrow> Inr
                (WorkflowService_RespondActivityTaskCompleted_Result_zero\<lparr>WorkflowService_RespondActivityTaskCompleted_Result.EntityNotExistError := Some e\<rparr>))
        | E_DomainNotActiveError e \<Rightarrow> (case e of
              None \<Rightarrow> Inl (E_New
                  ''WrapResponse received non-nil error type with nil value for WorkflowService_RespondActivityTaskCompleted_Result.DomainNotActiveError'')
            | Some e \<Rightarrow> Inr
                (WorkflowService_RespondActivityTaskCompleted_Result_zero\<lparr>WorkflowService_RespondActivityTaskCompleted_Result.DomainNotActiveError := Some e\<rparr>))
        | E_LimitExceededError e \<Rightarrow> (case e of
              None \<Rightarrow> Inl (E_New
                  ''WrapResponse received non-nil error type with nil value for WorkflowService_RespondActivityTaskCompleted_Result.LimitExceededError'')
            | Some e \<Rightarrow> Inr
                (WorkflowService_RespondActivityTaskCompleted_Result_zero\<lparr>WorkflowService_RespondActivityTaskCompleted_Result.LimitExceededError := Some e\<rparr>))
        | E_ServiceBusyError e \<Rightarrow> (case e of
              None \<Rightarrow> Inl (E_New
                  ''WrapResponse received non-nil error type with nil value for WorkflowService_RespondActivityTaskCompleted_Result.ServiceBusyError'')
            | Some e \<Rightarrow> Inr
                (WorkflowService_RespondActivityTaskCompleted_Result_zero\<lparr>WorkflowService_RespondActivityTaskCompleted_Result.ServiceBusyError := Some e\<rparr>))
        | E_ClientVersionNotSupportedError e \<Rightarrow> (case e of
              None \<Rightarrow> Inl (E_New
                  ''WrapResponse received non-nil error type with nil value for WorkflowService_RespondActivityTaskCompleted_Result.ClientVersionNotSupportedError'')
            | Some e \<Rightarrow> Inr
                (WorkflowService_RespondActivityTaskCompleted_Result_zero\<lparr>WorkflowService_RespondActivityTaskCompleted_Result.ClientVersionNotSupportedError := Some e\<rparr>))
        | _ \<Rightarrow> Inl err))"

definition WorkflowService_RespondActivityTaskCompleted_Helper_UnwrapResponse ::
  "WorkflowService_RespondActivityTaskCompleted_Result \<Rightarrow> go_error option" where
  "WorkflowService_RespondActivityTaskCompleted_Helper_UnwrapResponse result =
    (if WorkflowService_RespondActivityTaskCompleted_Result.BadRequestError result \<noteq> None then Some
        (E_BadRequestError (WorkflowService_RespondActivityTaskCompleted_Result.BadRequestError
        result)) else
     if WorkflowService_RespondActivityTaskCompleted_Result.InternalServiceError result \<noteq> None then
         Some (E_InternalServiceError
         (WorkflowService_RespondActivityTaskCompleted_Result.InternalServiceError result)) else
     if WorkflowService_RespondActivityTaskCompleted_Result.EntityNotExistError result \<noteq> None then
         Some (E_EntityNotExistsError
         (WorkflowService_RespondActivityTaskCompleted_Result.EntityNotExistError result)) else
     if WorkflowService_RespondActivityTaskCompleted_Result.DomainNotActiveError result \<noteq> None then
         Some (E_DomainNotActiveError
         (WorkflowService_RespondActivityTaskCompleted_Result.DomainNotActiveError result)) else
     if WorkflowService_RespondActivityTaskCompleted_Result.LimitExceededError result \<noteq> None then
         Some (E_LimitExceededError
         (WorkflowService_RespondActivityTaskCompleted_Result.LimitExceededError result)) else
     if WorkflowService_RespondActivityTaskCompleted_Result.ServiceBusyError result \<noteq> None then Some
         (E_ServiceBusyError (WorkflowService_RespondActivityTaskCompleted_Result.ServiceBusyError
         result)) else
     if WorkflowService_RespondActivityTaskCompleted_Result.ClientVersionNotSupportedError result \<noteq>
         None then Some (E_ClientVersionNotSupportedError
         (WorkflowService_RespondActivityTaskCompleted_Result.ClientVersionNotSupportedError
         result)) else
     None)"

definition handler_RespondActivityTaskCompleted ::
  "'v wire_api \<Rightarrow> ('ctx \<Rightarrow> RespondActivityTaskCompletedRequest option \<Rightarrow> go_error option) \<Rightarrow>
   ('ctx, 'v) unary_handler" where
  "handler_RespondActivityTaskCompleted W impl ctx body =
     (case WorkflowService_RespondActivityTaskCompleted_Args_FromWire W body
         WorkflowService_RespondActivityTaskCompleted_Args_zero of
      Inl err \<Rightarrow> (no_response, Some err)
    | Inr args \<Rightarrow>
      let err = impl ctx (WorkflowService_RespondActivityTaskCompleted_Args.CompleteRequest args);
          hadError = (err \<noteq> None)
      in case WorkflowService_RespondActivityTaskCompleted_Helper_WrapResponse err of
           Inl err \<Rightarrow> (no_response, Some err)
         | Inr result \<Rightarrow>
             (\<lparr>Body = Some (WorkflowService_RespondActivityTaskCompleted_Result_enveloper W result),
               IsApplicationError = hadError\<rparr>, None))"

definition client_RespondActivityTaskCompleted ::
  "'v wire_api \<Rightarrow> ('ctx, 'v) thrift_client \<Rightarrow> 'ctx \<Rightarrow> RespondActivityTaskCompletedRequest option \<Rightarrow>
   go_error option" where
  "client_RespondActivityTaskCompleted W call ctx r =
     (let args = WorkflowService_RespondActivityTaskCompleted_Helper_Args r in
      case call ctx (WorkflowService_RespondActivityTaskCompleted_Args_enveloper W args) of
        Inl e \<Rightarrow> Some e
      | Inr body \<Rightarrow>
          (case WorkflowService_RespondActivityTaskCompleted_Result_FromWire W body
              WorkflowService_RespondActivityTaskCompleted_Result_zero of
             Inl e \<Rightarrow> Some e
           | Inr result \<Rightarrow> WorkflowService_RespondActivityTaskCompleted_Helper_UnwrapResponse
               result))"

lemma WorkflowService_RespondActivityTaskCompleted_Args_merge:
  "(case x of None \<Rightarrow> Inr \<lparr>WorkflowService_RespondActivityTaskCompleted_Args.CompleteRequest = a0\<rparr> |
      Some y \<Rightarrow> Inr \<lparr>WorkflowService_RespondActivityTaskCompleted_Args.CompleteRequest = b0 y\<rparr>) =
   Inr \<lparr>WorkflowService_RespondActivityTaskCompleted_Args.CompleteRequest = (case x of None \<Rightarrow> a0 |
       Some y \<Rightarrow> b0 y)\<rparr>"
  by (cases x) simp_all

interpretation WorkflowService_RespondActivityTaskCompleted_Args: thrift_struct W
  "WorkflowService_RespondActivityTaskCompleted_Args_ToWire W"
      "WorkflowService_RespondActivityTaskCompleted_Args_FromWire W"
  WorkflowService_RespondActivityTaskCompleted_Args_zero "\<lambda>x. True" for W
proof (rule thrift_structI)
  fix x :: WorkflowService_RespondActivityTaskCompleted_Args
  assume laws: "wire_laws W"
  obtain enc0 where e0: "RespondActivityTaskCompletedRequest_ToWire W = (\<lambda>x. Inr (enc0 x))"
      "\<And>x. wire_api.Type W (enc0 x) = TStruct"
      "\<And>x. Writable W (enc0 x) \<longleftrightarrow> (\<lambda>_. True) x"
      "\<And>x. (\<lambda>_. True) x \<Longrightarrow> RespondActivityTaskCompletedRequest_FromWire W (enc0 x)
          RespondActivityTaskCompletedRequest_zero = Inr x"
    by (rule RespondActivityTaskCompletedRequest.encoder [OF laws]) (rule that)
  show "\<exists>w. WorkflowService_RespondActivityTaskCompleted_Args_ToWire W x = Inr w \<and> wire_api.Type W w
      = TStruct \<and>
      (Writable W w \<longleftrightarrow> True) \<and> (True \<longrightarrow> WorkflowService_RespondActivityTaskCompleted_Args_FromWire W w
          WorkflowService_RespondActivityTaskCompleted_Args_zero = Inr x)"
    by (cases x) (simp cong: option.case_cong add: codec_rules
        WorkflowService_RespondActivityTaskCompleted_Args_merge
        WorkflowService_RespondActivityTaskCompleted_Args_ToWire_def
        WorkflowService_RespondActivityTaskCompleted_Args_FromWire_def
      WorkflowService_RespondActivityTaskCompleted_Args_zero_def
          RespondActivityTaskCompletedRequest_Read_def if_set_def laws e0)
qed

lemma WorkflowService_RespondActivityTaskCompleted_Result_merge:
  "(case x of None \<Rightarrow> Inr \<lparr>WorkflowService_RespondActivityTaskCompleted_Result.BadRequestError = a0,
      WorkflowService_RespondActivityTaskCompleted_Result.InternalServiceError = a1,
      WorkflowService_RespondActivityTaskCompleted_Result.EntityNotExistError = a2,
      WorkflowService_RespondActivityTaskCompleted_Result.DomainNotActiveError = a3,
      WorkflowService_RespondActivityTaskCompleted_Result.LimitExceededError = a4,
      WorkflowService_RespondActivityTaskCompleted_Result.ServiceBusyError = a5,
      WorkflowService_RespondActivityTaskCompleted_Result.ClientVersionNotSupportedError = a6\<rparr> |
      Some y \<Rightarrow> Inr \<lparr>WorkflowService_RespondActivityTaskCompleted_Result.BadRequestError = b0 y,
      WorkflowService_RespondActivityTaskCompleted_Result.InternalServiceError = b1 y,
      WorkflowService_RespondActivityTaskCompleted_Result.EntityNotExistError = b2 y,
      WorkflowService_RespondActivityTaskCompleted_Result.DomainNotActiveError = b3 y,
      WorkflowService_RespondActivityTaskCompleted_Result.LimitExceededError = b4 y,
      WorkflowService_RespondActivityTaskCompleted_Result.ServiceBusyError = b5 y,
      WorkflowService_RespondActivityTaskCompleted_Result.ClientVersionNotSupportedError = b6 y\<rparr>) =
   Inr \<lparr>WorkflowService_RespondActivityTaskCompleted_Result.BadRequestError = (case x of None \<Rightarrow> a0 |
       Some y \<Rightarrow> b0 y), WorkflowService_RespondActivityTaskCompleted_Result.InternalServiceError =
       (case x of None \<Rightarrow> a1 | Some y \<Rightarrow> b1 y),
       WorkflowService_RespondActivityTaskCompleted_Result.EntityNotExistError = (case x of None \<Rightarrow>
       a2 | Some y \<Rightarrow> b2 y), WorkflowService_RespondActivityTaskCompleted_Result.DomainNotActiveError
       = (case x of None \<Rightarrow> a3 | Some y \<Rightarrow> b3 y),
       WorkflowService_RespondActivityTaskCompleted_Result.LimitExceededError = (case x of None \<Rightarrow> a4
       | Some y \<Rightarrow> b4 y), WorkflowService_RespondActivityTaskCompleted_Result.ServiceBusyError =
       (case x of None \<Rightarrow> a5 | Some y \<Rightarrow> b5 y),
       WorkflowService_RespondActivityTaskCompleted_Result.ClientVersionNotSupportedError = (case x
       of None \<Rightarrow> a6 | Some y \<Rightarrow> b6 y)\<rparr>"
  by (cases x) simp_all

interpretation WorkflowService_RespondActivityTaskCompleted_Result: thrift_struct W
  "WorkflowService_RespondActivityTaskCompleted_Result_ToWire W"
      "WorkflowService_RespondActivityTaskCompleted_Result_FromWire W"
  WorkflowService_RespondActivityTaskCompleted_Result_zero "\<lambda>r.
      WorkflowService_RespondActivityTaskCompleted_Result_count r \<le> 1" for W
proof (rule thrift_checked_plainI)
  fix x :: WorkflowService_RespondActivityTaskCompleted_Result
  assume laws: "wire_laws W"
  obtain enc0 where e0: "BadRequestError_ToWire W = (\<lambda>x. Inr (enc0 x))"
      "\<And>x. wire_api.Type W (enc0 x) = TStruct"
      "\<And>x. Writable W (enc0 x) \<longleftrightarrow> (\<lambda>_. True) x"
      "\<And>x. (\<lambda>_. True) x \<Longrightarrow> BadRequestError_FromWire W (enc0 x) BadRequestError_zero = Inr x"
    by (rule BadRequestError.encoder [OF laws]) (rule that)
  obtain enc1 where e1: "InternalServiceError_ToWire W = (\<lambda>x. Inr (enc1 x))"
      "\<And>x. wire_api.Type W (enc1 x) = TStruct"
      "\<And>x. Writable W (enc1 x) \<longleftrightarrow> (\<lambda>_. True) x"
      "\<And>x. (\<lambda>_. True) x \<Longrightarrow> InternalServiceError_FromWire W (enc1 x) InternalServiceError_zero = Inr
          x"
    by (rule InternalServiceError.encoder [OF laws]) (rule that)
  obtain enc2 where e2: "EntityNotExistsError_ToWire W = (\<lambda>x. Inr (enc2 x))"
      "\<And>x. wire_api.Type W (enc2 x) = TStruct"
      "\<And>x. Writable W (enc2 x) \<longleftrightarrow> (\<lambda>_. True) x"
      "\<And>x. (\<lambda>_. True) x \<Longrightarrow> EntityNotExistsError_FromWire W (enc2 x) EntityNotExistsError_zero = Inr
          x"
    by (rule EntityNotExistsError.encoder [OF laws]) (rule that)
  obtain enc3 where e3: "DomainNotActiveError_ToWire W = (\<lambda>x. Inr (enc3 x))"
      "\<And>x. wire_api.Type W (enc3 x) = TStruct"
      "\<And>x. Writable W (enc3 x) \<longleftrightarrow> (\<lambda>_. True) x"
      "\<And>x. (\<lambda>_. True) x \<Longrightarrow> DomainNotActiveError_FromWire W (enc3 x) DomainNotActiveError_zero = Inr
          x"
    by (rule DomainNotActiveError.encoder [OF laws]) (rule that)
  obtain enc4 where e4: "LimitExceededError_ToWire W = (\<lambda>x. Inr (enc4 x))"
      "\<And>x. wire_api.Type W (enc4 x) = TStruct"
      "\<And>x. Writable W (enc4 x) \<longleftrightarrow> (\<lambda>_. True) x"
      "\<And>x. (\<lambda>_. True) x \<Longrightarrow> LimitExceededError_FromWire W (enc4 x) LimitExceededError_zero = Inr x"
    by (rule LimitExceededError.encoder [OF laws]) (rule that)
  obtain enc5 where e5: "ServiceBusyError_ToWire W = (\<lambda>x. Inr (enc5 x))"
      "\<And>x. wire_api.Type W (enc5 x) = TStruct"
      "\<And>x. Writable W (enc5 x) \<longleftrightarrow> (\<lambda>_. True) x"
      "\<And>x. (\<lambda>_. True) x \<Longrightarrow> ServiceBusyError_FromWire W (enc5 x) ServiceBusyError_zero = Inr x"
    by (rule ServiceBusyError.encoder [OF laws]) (rule that)
  obtain enc6 where e6: "ClientVersionNotSupportedError_ToWire W = (\<lambda>x. Inr (enc6 x))"
      "\<And>x. wire_api.Type W (enc6 x) = TStruct"
      "\<And>x. Writable W (enc6 x) \<longleftrightarrow> (\<lambda>_. True) x"
      "\<And>x. (\<lambda>_. True) x \<Longrightarrow> ClientVersionNotSupportedError_FromWire W (enc6 x)
          ClientVersionNotSupportedError_zero = Inr x"
    by (rule ClientVersionNotSupportedError.encoder [OF laws]) (rule that)
  let ?fs = "(((((opt_field 1 enc0
      (WorkflowService_RespondActivityTaskCompleted_Result.BadRequestError x) @
      opt_field 2 enc1 (WorkflowService_RespondActivityTaskCompleted_Result.InternalServiceError x))
          @
      opt_field 3 enc2 (WorkflowService_RespondActivityTaskCompleted_Result.EntityNotExistError x))
          @
      opt_field 4 enc3 (WorkflowService_RespondActivityTaskCompleted_Result.DomainNotActiveError x))
          @
      opt_field 5 enc4 (WorkflowService_RespondActivityTaskCompleted_Result.LimitExceededError x)) @
      opt_field 6 enc5 (WorkflowService_RespondActivityTaskCompleted_Result.ServiceBusyError x)) @
      opt_field 7 enc6
          (WorkflowService_RespondActivityTaskCompleted_Result.ClientVersionNotSupportedError x)"
  let ?check = "\<lambda>r. if 1 < WorkflowService_RespondActivityTaskCompleted_Result_count x then Inl
      (E_Errorf
      ''WorkflowService_RespondActivityTaskCompleted_Result should have at most one field: got %v fields'' (WorkflowService_RespondActivityTaskCompleted_Result_count x)) else Inr r"
  have "length ?fs = WorkflowService_RespondActivityTaskCompleted_Result_count x"
    by (simp add: WorkflowService_RespondActivityTaskCompleted_Result_count_def length_opt_field
        split del: if_split)
  then have "WorkflowService_RespondActivityTaskCompleted_Result_ToWire W x = ?check (NewValueStruct
      W ?fs)"
    by (simp only: WorkflowService_RespondActivityTaskCompleted_Result_ToWire_def put_opt_field
        and_then.simps append_Nil e0(1) e1(1) e2(1) e3(1) e4(1) e5(1) e6(1))
  moreover have "WorkflowService_RespondActivityTaskCompleted_Result_FromWire W (NewValueStruct W
      ?fs) WorkflowService_RespondActivityTaskCompleted_Result_zero = ?check x"
    by (cases x, hypsubst) (simp cong: option.case_cong split del: if_split add: codec_rules Let_def
        WorkflowService_RespondActivityTaskCompleted_Result_merge
      WorkflowService_RespondActivityTaskCompleted_Result_FromWire_def
          WorkflowService_RespondActivityTaskCompleted_Result_zero_def laws
      BadRequestError_Read_def
      ClientVersionNotSupportedError_Read_def
      DomainNotActiveError_Read_def
      EntityNotExistsError_Read_def
      InternalServiceError_Read_def
      LimitExceededError_Read_def
      ServiceBusyError_Read_def
      e0 e1 e2 e3 e4 e5 e6)
  ultimately show "if WorkflowService_RespondActivityTaskCompleted_Result_count x \<le> 1
      then \<exists>w. WorkflowService_RespondActivityTaskCompleted_Result_ToWire W x = Inr w \<and>
          wire_api.Type W w = TStruct \<and>
        Writable W w \<and> WorkflowService_RespondActivityTaskCompleted_Result_FromWire W w
            WorkflowService_RespondActivityTaskCompleted_Result_zero = Inr x
      else \<exists>e. WorkflowService_RespondActivityTaskCompleted_Result_ToWire W x = Inl e"
    by (simp add: laws codec_rules e0 e1 e2 e3 e4 e5 e6)
qed

interpretation RespondActivityTaskCompleted: rpc_method W
  "WorkflowService_RespondActivityTaskCompleted_Args_ToWire W"
      "WorkflowService_RespondActivityTaskCompleted_Args_FromWire W"
      WorkflowService_RespondActivityTaskCompleted_Args_zero "\<lambda>x. True"
  "WorkflowService_RespondActivityTaskCompleted_Result_ToWire W"
      "WorkflowService_RespondActivityTaskCompleted_Result_FromWire W"
      WorkflowService_RespondActivityTaskCompleted_Result_zero
  "\<lambda>r. WorkflowService_RespondActivityTaskCompleted_Result_count r \<le> 1"
      "''RespondActivityTaskCompleted''"
  WorkflowService_RespondActivityTaskCompleted_Helper_Args
      "WorkflowService_RespondActivityTaskCompleted_Args.CompleteRequest"
  "WorkflowService_RespondActivityTaskCompleted_Helper_WrapResponse"
      WorkflowService_RespondActivityTaskCompleted_Helper_UnwrapResponse
  "\<lambda>out. out \<noteq> None" "carried_void WorkflowService_RespondActivityTaskCompleted_Helper_IsException"
      id "\<lambda>e. Some e"
  "handler_RespondActivityTaskCompleted W" "client_RespondActivityTaskCompleted W" for W
proof
  fix out :: "go_error option"
  assume "carried_void WorkflowService_RespondActivityTaskCompleted_Helper_IsException out"
  then show "case (WorkflowService_RespondActivityTaskCompleted_Helper_WrapResponse) out of Inl e \<Rightarrow>
      False
      | Inr res \<Rightarrow> (WorkflowService_RespondActivityTaskCompleted_Result_count res \<le> 1) \<and>
          WorkflowService_RespondActivityTaskCompleted_Helper_UnwrapResponse res = id out"
    by (cases out; cases "the out")
      (auto simp: WorkflowService_RespondActivityTaskCompleted_Helper_IsException_def
          WorkflowService_RespondActivityTaskCompleted_Helper_WrapResponse_def
          WorkflowService_RespondActivityTaskCompleted_Helper_UnwrapResponse_def
        declared_nonnil_def WorkflowService_RespondActivityTaskCompleted_Result_zero_def
            WorkflowService_RespondActivityTaskCompleted_Result_count_def elim!: present.elims)
next
  fix out :: "go_error option"
  assume "\<not> carried_void WorkflowService_RespondActivityTaskCompleted_Helper_IsException out"
  then show "case (WorkflowService_RespondActivityTaskCompleted_Helper_WrapResponse) out of Inl e \<Rightarrow>
      True
      | Inr res \<Rightarrow> \<not> (WorkflowService_RespondActivityTaskCompleted_Result_count res \<le> 1)"
    by (cases out; cases "the out")
      (auto simp: WorkflowService_RespondActivityTaskCompleted_Helper_IsException_def
          WorkflowService_RespondActivityTaskCompleted_Helper_WrapResponse_def declared_nonnil_def
        WorkflowService_RespondActivityTaskCompleted_Result_count_def
            WorkflowService_RespondActivityTaskCompleted_Result_zero_def split: option.splits)
qed (auto simp: WorkflowService_RespondActivityTaskCompleted_Helper_Args_def
    handler_RespondActivityTaskCompleted_def client_RespondActivityTaskCompleted_def
      WorkflowService_RespondActivityTaskCompleted_Args_enveloper_def
          WorkflowService_RespondActivityTaskCompleted_Result_enveloper_def
      Let_def split: sum.splits prod.splits)

section \<open>RespondActivityTaskCompletedByID\<close>

record WorkflowService_RespondActivityTaskCompletedByID_Args =
  CompleteRequest :: "RespondActivityTaskCompletedByIDRequest option"

definition WorkflowService_RespondActivityTaskCompletedByID_Args_zero ::
    WorkflowService_RespondActivityTaskCompletedByID_Args where
  "WorkflowService_RespondActivityTaskCompletedByID_Args_zero =
      \<lparr>WorkflowService_RespondActivityTaskCompletedByID_Args.CompleteRequest = None\<rparr>"

definition WorkflowService_RespondActivityTaskCompletedByID_Args_ToWire ::
  "'v wire_api \<Rightarrow> WorkflowService_RespondActivityTaskCompletedByID_Args \<Rightarrow> go_error + 'v" where
  "WorkflowService_RespondActivityTaskCompletedByID_Args_ToWire W v =
     and_then (put_opt 1 (RespondActivityTaskCompletedByIDRequest_ToWire W)
         (WorkflowService_RespondActivityTaskCompletedByID_Args.CompleteRequest v) [])
       (\<lambda>fields.
     Inr (NewValueStruct W fields))"

definition WorkflowService_RespondActivityTaskCompletedByID_Args_FromWire ::
  "'v wire_api \<Rightarrow> 'v \<Rightarrow> WorkflowService_RespondActivityTaskCompletedByID_Args \<Rightarrow> go_error +
      WorkflowService_RespondActivityTaskCompletedByID_Args" where
  "WorkflowService_RespondActivityTaskCompletedByID_Args_FromWire W w v =
     foldM (\<lambda>v (fid, fval).
       if fid = 1 then
         if wire_api.Type W fval = TStruct
         then and_then (RespondActivityTaskCompletedByIDRequest_Read W fval) (\<lambda>x. Inr
             (v\<lparr>WorkflowService_RespondActivityTaskCompletedByID_Args.CompleteRequest := Some x\<rparr>))
         else Inr v
       else Inr v) (GetStruct W w) v"

definition WorkflowService_RespondActivityTaskCompletedByID_Args_enveloper ::
  "'v wire_api \<Rightarrow> WorkflowService_RespondActivityTaskCompletedByID_Args \<Rightarrow> 'v enveloper" where
  "WorkflowService_RespondActivityTaskCompletedByID_Args_enveloper W v =
     \<lparr>MethodName = ''RespondActivityTaskCompletedByID'', EnvelopeType = Call, EnvelopeToWire =
         WorkflowService_RespondActivityTaskCompletedByID_Args_ToWire W v\<rparr>"

definition WorkflowService_RespondActivityTaskCompletedByID_Args_Equals ::
  "WorkflowService_RespondActivityTaskCompletedByID_Args option \<Rightarrow>
      WorkflowService_RespondActivityTaskCompletedByID_Args option \<Rightarrow> bool" where
  "WorkflowService_RespondActivityTaskCompletedByID_Args_Equals v rhs =
     (case v of None \<Rightarrow> rhs = None
      | Some v \<Rightarrow> (case rhs of None \<Rightarrow> False
        | Some rhs \<Rightarrow>
          if \<not> both_set_and (\<lambda>x y. RespondActivityTaskCompletedByIDRequest_Equals (Some x) (Some y))
              (WorkflowService_RespondActivityTaskCompletedByID_Args.CompleteRequest v)
              (WorkflowService_RespondActivityTaskCompletedByID_Args.CompleteRequest rhs) then False
              else
          True))"

lemma WorkflowService_RespondActivityTaskCompletedByID_Args_Equals_iff [simp]:
    "WorkflowService_RespondActivityTaskCompletedByID_Args_Equals x y \<longleftrightarrow> x = y"
  by (cases x; cases y) (auto simp:
      WorkflowService_RespondActivityTaskCompletedByID_Args_Equals_def)

record WorkflowService_RespondActivityTaskCompletedByID_Result =
  BadRequestError :: "BadRequestError option"
  InternalServiceError :: "InternalServiceError option"
  EntityNotExistError :: "EntityNotExistsError option"
  DomainNotActiveError :: "DomainNotActiveError option"
  LimitExceededError :: "LimitExceededError option"
  ServiceBusyError :: "ServiceBusyError option"
  ClientVersionNotSupportedError :: "ClientVersionNotSupportedError option"

definition WorkflowService_RespondActivityTaskCompletedByID_Result_count ::
    "WorkflowService_RespondActivityTaskCompletedByID_Result \<Rightarrow> nat" where
  "WorkflowService_RespondActivityTaskCompletedByID_Result_count v =
     (if WorkflowService_RespondActivityTaskCompletedByID_Result.BadRequestError v \<noteq> None then 1
         else 0) +
     (if WorkflowService_RespondActivityTaskCompletedByID_Result.InternalServiceError v \<noteq> None then
         1 else 0) +
     (if WorkflowService_RespondActivityTaskCompletedByID_Result.EntityNotExistError v \<noteq> None then 1
         else 0) +
     (if WorkflowService_RespondActivityTaskCompletedByID_Result.DomainNotActiveError v \<noteq> None then
         1 else 0) +
     (if WorkflowService_RespondActivityTaskCompletedByID_Result.LimitExceededError v \<noteq> None then 1
         else 0) +
     (if WorkflowService_RespondActivityTaskCompletedByID_Result.ServiceBusyError v \<noteq> None then 1
         else 0) +
     (if WorkflowService_RespondActivityTaskCompletedByID_Result.ClientVersionNotSupportedError v \<noteq>
         None then 1 else 0)"

definition WorkflowService_RespondActivityTaskCompletedByID_Result_zero ::
    WorkflowService_RespondActivityTaskCompletedByID_Result where
  "WorkflowService_RespondActivityTaskCompletedByID_Result_zero =
      \<lparr>WorkflowService_RespondActivityTaskCompletedByID_Result.BadRequestError = None,
      WorkflowService_RespondActivityTaskCompletedByID_Result.InternalServiceError = None,
      WorkflowService_RespondActivityTaskCompletedByID_Result.EntityNotExistError = None,
      WorkflowService_RespondActivityTaskCompletedByID_Result.DomainNotActiveError = None,
      WorkflowService_RespondActivityTaskCompletedByID_Result.LimitExceededError = None,
      WorkflowService_RespondActivityTaskCompletedByID_Result.ServiceBusyError = None,
      WorkflowService_RespondActivityTaskCompletedByID_Result.ClientVersionNotSupportedError =
      None\<rparr>"

definition WorkflowService_RespondActivityTaskCompletedByID_Result_ToWire ::
  "'v wire_api \<Rightarrow> WorkflowService_RespondActivityTaskCompletedByID_Result \<Rightarrow> go_error + 'v" where
  "WorkflowService_RespondActivityTaskCompletedByID_Result_ToWire W v =
     and_then (put_opt 1 (BadRequestError_ToWire W)
         (WorkflowService_RespondActivityTaskCompletedByID_Result.BadRequestError v) [])
       (\<lambda>fields.
     and_then (put_opt 2 (InternalServiceError_ToWire W)
         (WorkflowService_RespondActivityTaskCompletedByID_Result.InternalServiceError v) fields)
       (\<lambda>fields.
     and_then (put_opt 3 (EntityNotExistsError_ToWire W)
         (WorkflowService_RespondActivityTaskCompletedByID_Result.EntityNotExistError v) fields)
       (\<lambda>fields.
     and_then (put_opt 4 (DomainNotActiveError_ToWire W)
         (WorkflowService_RespondActivityTaskCompletedByID_Result.DomainNotActiveError v) fields)
       (\<lambda>fields.
     and_then (put_opt 5 (LimitExceededError_ToWire W)
         (WorkflowService_RespondActivityTaskCompletedByID_Result.LimitExceededError v) fields)
       (\<lambda>fields.
     and_then (put_opt 6 (ServiceBusyError_ToWire W)
         (WorkflowService_RespondActivityTaskCompletedByID_Result.ServiceBusyError v) fields)
       (\<lambda>fields.
     and_then (put_opt 7 (ClientVersionNotSupportedError_ToWire W)
         (WorkflowService_RespondActivityTaskCompletedByID_Result.ClientVersionNotSupportedError v)
         fields)
       (\<lambda>fields.
     if 1 < length fields
     then Inl (E_Errorf
         ''WorkflowService_RespondActivityTaskCompletedByID_Result should have at most one field: got %v fields'' (length fields))
     else Inr (NewValueStruct W fields))))))))"

definition WorkflowService_RespondActivityTaskCompletedByID_Result_FromWire ::
  "'v wire_api \<Rightarrow> 'v \<Rightarrow> WorkflowService_RespondActivityTaskCompletedByID_Result \<Rightarrow> go_error +
      WorkflowService_RespondActivityTaskCompletedByID_Result" where
  "WorkflowService_RespondActivityTaskCompletedByID_Result_FromWire W w v =
     and_then (foldM (\<lambda>v (fid, fval).
       if fid = 1 then
         if wire_api.Type W fval = TStruct
         then and_then (BadRequestError_Read W fval) (\<lambda>x. Inr
             (v\<lparr>WorkflowService_RespondActivityTaskCompletedByID_Result.BadRequestError := Some x\<rparr>))
         else Inr v
       else if fid = 2 then
         if wire_api.Type W fval = TStruct
         then and_then (InternalServiceError_Read W fval) (\<lambda>x. Inr
             (v\<lparr>WorkflowService_RespondActivityTaskCompletedByID_Result.InternalServiceError := Some
             x\<rparr>))
         else Inr v
       else if fid = 3 then
         if wire_api.Type W fval = TStruct
         then and_then (EntityNotExistsError_Read W fval) (\<lambda>x. Inr
             (v\<lparr>WorkflowService_RespondActivityTaskCompletedByID_Result.EntityNotExistError := Some
             x\<rparr>))
         else Inr v
       else if fid = 4 then
         if wire_api.Type W fval = TStruct
         then and_then (DomainNotActiveError_Read W fval) (\<lambda>x. Inr
             (v\<lparr>WorkflowService_RespondActivityTaskCompletedByID_Result.DomainNotActiveError := Some
             x\<rparr>))
         else Inr v
       else if fid = 5 then
         if wire_api.Type W fval = TStruct
         then and_then (LimitExceededError_Read W fval) (\<lambda>x. Inr
             (v\<lparr>WorkflowService_RespondActivityTaskCompletedByID_Result.LimitExceededError := Some
             x\<rparr>))
         else Inr v
       else if fid = 6 then
         if wire_api.Type W fval = TStruct
         then and_then (ServiceBusyError_Read W fval) (\<lambda>x. Inr
             (v\<lparr>WorkflowService_RespondActivityTaskCompletedByID_Result.ServiceBusyError := Some
             x\<rparr>))
         else Inr v
       else if fid = 7 then
         if wire_api.Type W fval = TStruct
         then and_then (ClientVersionNotSupportedError_Read W fval) (\<lambda>x. Inr
             (v\<lparr>WorkflowService_RespondActivityTaskCompletedByID_Result.ClientVersionNotSupportedError := Some x\<rparr>))
         else Inr v
       else Inr v) (GetStruct W w) v) (\<lambda>v.
     let count = WorkflowService_RespondActivityTaskCompletedByID_Result_count v in
     if 1 < count
     then Inl (E_Errorf
         ''WorkflowService_RespondActivityTaskCompletedByID_Result should have at most one field: got %v fields'' count)
     else Inr v)"

definition WorkflowService_RespondActivityTaskCompletedByID_Result_enveloper ::
  "'v wire_api \<Rightarrow> WorkflowService_RespondActivityTaskCompletedByID_Result \<Rightarrow> 'v enveloper" where
  "WorkflowService_RespondActivityTaskCompletedByID_Result_enveloper W v =
     \<lparr>MethodName = ''RespondActivityTaskCompletedByID'', EnvelopeType = Reply, EnvelopeToWire =
         WorkflowService_RespondActivityTaskCompletedByID_Result_ToWire W v\<rparr>"

definition WorkflowService_RespondActivityTaskCompletedByID_Result_Equals ::
  "WorkflowService_RespondActivityTaskCompletedByID_Result option \<Rightarrow>
      WorkflowService_RespondActivityTaskCompletedByID_Result option \<Rightarrow> bool" where
  "WorkflowService_RespondActivityTaskCompletedByID_Result_Equals v rhs =
     (case v of None \<Rightarrow> rhs = None
      | Some v \<Rightarrow> (case rhs of None \<Rightarrow> False
        | Some rhs \<Rightarrow>
          if \<not> both_set_and (\<lambda>x y. BadRequestError_Equals (Some x) (Some y))
              (WorkflowService_RespondActivityTaskCompletedByID_Result.BadRequestError v)
              (WorkflowService_RespondActivityTaskCompletedByID_Result.BadRequestError rhs) then
              False else
          if \<not> both_set_and (\<lambda>x y. InternalServiceError_Equals (Some x) (Some y))
              (WorkflowService_RespondActivityTaskCompletedByID_Result.InternalServiceError v)
              (WorkflowService_RespondActivityTaskCompletedByID_Result.InternalServiceError rhs)
              then False else
          if \<not> both_set_and (\<lambda>x y. EntityNotExistsError_Equals (Some x) (Some y))
              (WorkflowService_RespondActivityTaskCompletedByID_Result.EntityNotExistError v)
              (WorkflowService_RespondActivityTaskCompletedByID_Result.EntityNotExistError rhs) then
              False else
          if \<not> both_set_and (\<lambda>x y. DomainNotActiveError_Equals (Some x) (Some y))
              (WorkflowService_RespondActivityTaskCompletedByID_Result.DomainNotActiveError v)
              (WorkflowService_RespondActivityTaskCompletedByID_Result.DomainNotActiveError rhs)
              then False else
          if \<not> both_set_and (\<lambda>x y. LimitExceededError_Equals (Some x) (Some y))
              (WorkflowService_RespondActivityTaskCompletedByID_Result.LimitExceededError v)
              (WorkflowService_RespondActivityTaskCompletedByID_Result.LimitExceededError rhs) then
              False else
          if \<not> both_set_and (\<lambda>x y. ServiceBusyError_Equals (Some x) (Some y))
              (WorkflowService_RespondActivityTaskCompletedByID_Result.ServiceBusyError v)
              (WorkflowService_RespondActivityTaskCompletedByID_Result.ServiceBusyError rhs) then
              False else
          if \<not> both_set_and (\<lambda>x y. ClientVersionNotSupportedError_Equals (Some x) (Some y))
              (WorkflowService_RespondActivityTaskCompletedByID_Result.ClientVersionNotSupportedError v) (WorkflowService_RespondActivityTaskCompletedByID_Result.ClientVersionNotSupportedError rhs) then False else
          True))"

lemma WorkflowService_RespondActivityTaskCompletedByID_Result_Equals_iff [simp]:
    "WorkflowService_RespondActivityTaskCompletedByID_Result_Equals x y \<longleftrightarrow> x = y"
  by (cases x; cases y) (simp_all add:
      WorkflowService_RespondActivityTaskCompletedByID_Result_Equals_def if_not_False, fastforce
      intro: WorkflowService_RespondActivityTaskCompletedByID_Result.equality)

definition WorkflowService_RespondActivityTaskCompletedByID_Helper_Args ::
    "RespondActivityTaskCompletedByIDRequest option \<Rightarrow>
    WorkflowService_RespondActivityTaskCompletedByID_Args" where
  "WorkflowService_RespondActivityTaskCompletedByID_Helper_Args r =
      \<lparr>WorkflowService_RespondActivityTaskCompletedByID_Args.CompleteRequest = r\<rparr>"

definition WorkflowService_RespondActivityTaskCompletedByID_Helper_IsException :: "go_error \<Rightarrow> bool"
    where
  "WorkflowService_RespondActivityTaskCompletedByID_Helper_IsException err =
     (case err of
        E_BadRequestError _ \<Rightarrow> True
      | E_InternalServiceError _ \<Rightarrow> True
      | E_EntityNotExistsError _ \<Rightarrow> True
      | E_DomainNotActiveError _ \<Rightarrow> True
      | E_LimitExceededError _ \<Rightarrow> True
      | E_ServiceBusyError _ \<Rightarrow> True
      | E_ClientVersionNotSupportedError _ \<Rightarrow> True
      | _ \<Rightarrow> False)"

definition WorkflowService_RespondActivityTaskCompletedByID_Helper_WrapResponse ::
  "go_error option \<Rightarrow> go_error + WorkflowService_RespondActivityTaskCompletedByID_Result" where
  "WorkflowService_RespondActivityTaskCompletedByID_Helper_WrapResponse err =
     (case err of None \<Rightarrow> Inr WorkflowService_RespondActivityTaskCompletedByID_Result_zero
      | Some err \<Rightarrow> (case err of
          E_BadRequestError e \<Rightarrow> (case e of
              None \<Rightarrow> Inl (E_New
                  ''WrapResponse received non-nil error type with nil value for WorkflowService_RespondActivityTaskCompletedByID_Result.BadRequestError'')
            | Some e \<Rightarrow> Inr
                (WorkflowService_RespondActivityTaskCompletedByID_Result_zero\<lparr>WorkflowService_RespondActivityTaskCompletedByID_Result.BadRequestError := Some e\<rparr>))
        | E_InternalServiceError e \<Rightarrow> (case e of
              None \<Rightarrow> Inl (E_New
                  ''WrapResponse received non-nil error type with nil value for WorkflowService_RespondActivityTaskCompletedByID_Result.InternalServiceError'')
            | Some e \<Rightarrow> Inr
                (WorkflowService_RespondActivityTaskCompletedByID_Result_zero\<lparr>WorkflowService_RespondActivityTaskCompletedByID_Result.InternalServiceError := Some e\<rparr>))
        | E_EntityNotExistsError e \<Rightarrow> (case e of
              None \<Rightarrow> Inl (E_New
                  ''WrapResponse received non-nil error type with nil value for WorkflowService_RespondActivityTaskCompletedByID_Result.EntityNotExistError'')
            | Some e \<Rightarrow> Inr
                (WorkflowService_RespondActivityTaskCompletedByID_Result_zero\<lparr>WorkflowService_RespondActivityTaskCompletedByID_Result.EntityNotExistError := Some e\<rparr>))
        | E_DomainNotActiveError e \<Rightarrow> (case e of
              None \<Rightarrow> Inl (E_New
                  ''WrapResponse received non-nil error type with nil value for WorkflowService_RespondActivityTaskCompletedByID_Result.DomainNotActiveError'')
            | Some e \<Rightarrow> Inr
                (WorkflowService_RespondActivityTaskCompletedByID_Result_zero\<lparr>WorkflowService_RespondActivityTaskCompletedByID_Result.DomainNotActiveError := Some e\<rparr>))
        | E_LimitExceededError e \<Rightarrow> (case e of
              None \<Rightarrow> Inl (E_New
                  ''WrapResponse received non-nil error type with nil value for WorkflowService_RespondActivityTaskCompletedByID_Result.LimitExceededError'')
            | Some e \<Rightarrow> Inr
                (WorkflowService_RespondActivityTaskCompletedByID_Result_zero\<lparr>WorkflowService_RespondActivityTaskCompletedByID_Result.LimitExceededError := Some e\<rparr>))
        | E_ServiceBusyError e \<Rightarrow> (case e of
              None \<Rightarrow> Inl (E_New
                  ''WrapResponse received non-nil error type with nil value for WorkflowService_RespondActivityTaskCompletedByID_Result.ServiceBusyError'')
            | Some e \<Rightarrow> Inr
                (WorkflowService_RespondActivityTaskCompletedByID_Result_zero\<lparr>WorkflowService_RespondActivityTaskCompletedByID_Result.ServiceBusyError := Some e\<rparr>))
        | E_ClientVersionNotSupportedError e \<Rightarrow> (case e of
              None \<Rightarrow> Inl (E_New
                  ''WrapResponse received non-nil error type with nil value for WorkflowService_RespondActivityTaskCompletedByID_Result.ClientVersionNotSupportedError'')
            | Some e \<Rightarrow> Inr
                (WorkflowService_RespondActivityTaskCompletedByID_Result_zero\<lparr>WorkflowService_RespondActivityTaskCompletedByID_Result.ClientVersionNotSupportedError := Some e\<rparr>))
        | _ \<Rightarrow> Inl err))"

definition WorkflowService_RespondActivityTaskCompletedByID_Helper_UnwrapResponse ::
  "WorkflowService_RespondActivityTaskCompletedByID_Result \<Rightarrow> go_error option" where
  "WorkflowService_RespondActivityTaskCompletedByID_Helper_UnwrapResponse result =
    (if WorkflowService_RespondActivityTaskCompletedByID_Result.BadRequestError result \<noteq> None then
        Some (E_BadRequestError
        (WorkflowService_RespondActivityTaskCompletedByID_Result.BadRequestError result)) else
     if WorkflowService_RespondActivityTaskCompletedByID_Result.InternalServiceError result \<noteq> None
         then Some (E_InternalServiceError
         (WorkflowService_RespondActivityTaskCompletedByID_Result.InternalServiceError result)) else
     if WorkflowService_RespondActivityTaskCompletedByID_Result.EntityNotExistError result \<noteq> None
         then Some (E_EntityNotExistsError
         (WorkflowService_RespondActivityTaskCompletedByID_Result.EntityNotExistError result)) else
     if WorkflowService_RespondActivityTaskCompletedByID_Result.DomainNotActiveError result \<noteq> None
         then Some (E_DomainNotActiveError
         (WorkflowService_RespondActivityTaskCompletedByID_Result.DomainNotActiveError result)) else
     if WorkflowService_RespondActivityTaskCompletedByID_Result.LimitExceededError result \<noteq> None
         then Some (E_LimitExceededError
         (WorkflowService_RespondActivityTaskCompletedByID_Result.LimitExceededError result)) else
     if WorkflowService_RespondActivityTaskCompletedByID_Result.ServiceBusyError result \<noteq> None then
         Some (E_ServiceBusyError
         (WorkflowService_RespondActivityTaskCompletedByID_Result.ServiceBusyError result)) else
     if WorkflowService_RespondActivityTaskCompletedByID_Result.ClientVersionNotSupportedError
         result \<noteq> None then Some (E_ClientVersionNotSupportedError
         (WorkflowService_RespondActivityTaskCompletedByID_Result.ClientVersionNotSupportedError
         result)) else
     None)"

definition handler_RespondActivityTaskCompletedByID ::
  "'v wire_api \<Rightarrow> ('ctx \<Rightarrow> RespondActivityTaskCompletedByIDRequest option \<Rightarrow> go_error option) \<Rightarrow>
   ('ctx, 'v) unary_handler" where
  "handler_RespondActivityTaskCompletedByID W impl ctx body =
     (case WorkflowService_RespondActivityTaskCompletedByID_Args_FromWire W body
         WorkflowService_RespondActivityTaskCompletedByID_Args_zero of
      Inl err \<Rightarrow> (no_response, Some err)
    | Inr args \<Rightarrow>
      let err = impl ctx (WorkflowService_RespondActivityTaskCompletedByID_Args.CompleteRequest
          args);
          hadError = (err \<noteq> None)
      in case WorkflowService_RespondActivityTaskCompletedByID_Helper_WrapResponse err of
           Inl err \<Rightarrow> (no_response, Some err)
         | Inr result \<Rightarrow>
             (\<lparr>Body = Some (WorkflowService_RespondActivityTaskCompletedByID_Result_enveloper W
                 result),
               IsApplicationError = hadError\<rparr>, None))"

definition client_RespondActivityTaskCompletedByID ::
  "'v wire_api \<Rightarrow> ('ctx, 'v) thrift_client \<Rightarrow> 'ctx \<Rightarrow> RespondActivityTaskCompletedByIDRequest option \<Rightarrow>
   go_error option" where
  "client_RespondActivityTaskCompletedByID W call ctx r =
     (let args = WorkflowService_RespondActivityTaskCompletedByID_Helper_Args r in
      case call ctx (WorkflowService_RespondActivityTaskCompletedByID_Args_enveloper W args) of
        Inl e \<Rightarrow> Some e
      | Inr body \<Rightarrow>
          (case WorkflowService_RespondActivityTaskCompletedByID_Result_FromWire W body
              WorkflowService_RespondActivityTaskCompletedByID_Result_zero of
             Inl e \<Rightarrow> Some e
           | Inr result \<Rightarrow> WorkflowService_RespondActivityTaskCompletedByID_Helper_UnwrapResponse
               result))"

lemma WorkflowService_RespondActivityTaskCompletedByID_Args_merge:
  "(case x of None \<Rightarrow> Inr \<lparr>WorkflowService_RespondActivityTaskCompletedByID_Args.CompleteRequest =
      a0\<rparr> | Some y \<Rightarrow> Inr \<lparr>WorkflowService_RespondActivityTaskCompletedByID_Args.CompleteRequest = b0
      y\<rparr>) =
   Inr \<lparr>WorkflowService_RespondActivityTaskCompletedByID_Args.CompleteRequest = (case x of None \<Rightarrow> a0
       | Some y \<Rightarrow> b0 y)\<rparr>"
  by (cases x) simp_all

interpretation WorkflowService_RespondActivityTaskCompletedByID_Args: thrift_struct W
  "WorkflowService_RespondActivityTaskCompletedByID_Args_ToWire W"
      "WorkflowService_RespondActivityTaskCompletedByID_Args_FromWire W"
  WorkflowService_RespondActivityTaskCompletedByID_Args_zero "\<lambda>x. True" for W
proof (rule thrift_structI)
  fix x :: WorkflowService_RespondActivityTaskCompletedByID_Args
  assume laws: "wire_laws W"
  obtain enc0 where e0: "RespondActivityTaskCompletedByIDRequest_ToWire W = (\<lambda>x. Inr (enc0 x))"
      "\<And>x. wire_api.Type W (enc0 x) = TStruct"
      "\<And>x. Writable W (enc0 x) \<longleftrightarrow> (\<lambda>_. True) x"
      "\<And>x. (\<lambda>_. True) x \<Longrightarrow> RespondActivityTaskCompletedByIDRequest_FromWire W (enc0 x)
          RespondActivityTaskCompletedByIDRequest_zero = Inr x"
    by (rule RespondActivityTaskCompletedByIDRequest.encoder [OF laws]) (rule that)
  show "\<exists>w. WorkflowService_RespondActivityTaskCompletedByID_Args_ToWire W x = Inr w \<and> wire_api.Type
      W w = TStruct \<and>
      (Writable W w \<longleftrightarrow> True) \<and> (True \<longrightarrow> WorkflowService_RespondActivityTaskCompletedByID_Args_FromWire
          W w WorkflowService_RespondActivityTaskCompletedByID_Args_zero = Inr x)"
    by (cases x) (simp cong: option.case_cong add: codec_rules
        WorkflowService_RespondActivityTaskCompletedByID_Args_merge
        WorkflowService_RespondActivityTaskCompletedByID_Args_ToWire_def
        WorkflowService_RespondActivityTaskCompletedByID_Args_FromWire_def
      WorkflowService_RespondActivityTaskCompletedByID_Args_zero_def
          RespondActivityTaskCompletedByIDRequest_Read_def if_set_def laws e0)
qed

lemma WorkflowService_RespondActivityTaskCompletedByID_Result_merge:
  "(case x of None \<Rightarrow> Inr \<lparr>WorkflowService_RespondActivityTaskCompletedByID_Result.BadRequestError =
      a0, WorkflowService_RespondActivityTaskCompletedByID_Result.InternalServiceError = a1,
      WorkflowService_RespondActivityTaskCompletedByID_Result.EntityNotExistError = a2,
      WorkflowService_RespondActivityTaskCompletedByID_Result.DomainNotActiveError = a3,
      WorkflowService_RespondActivityTaskCompletedByID_Result.LimitExceededError = a4,
      WorkflowService_RespondActivityTaskCompletedByID_Result.ServiceBusyError = a5,
      WorkflowService_RespondActivityTaskCompletedByID_Result.ClientVersionNotSupportedError = a6\<rparr> |
      Some y \<Rightarrow> Inr \<lparr>WorkflowService_RespondActivityTaskCompletedByID_Result.BadRequestError = b0 y,
      WorkflowService_RespondActivityTaskCompletedByID_Result.InternalServiceError = b1 y,
      WorkflowService_RespondActivityTaskCompletedByID_Result.EntityNotExistError = b2 y,
      WorkflowService_RespondActivityTaskCompletedByID_Result.DomainNotActiveError = b3 y,
      WorkflowService_RespondActivityTaskCompletedByID_Result.LimitExceededError = b4 y,
      WorkflowService_RespondActivityTaskCompletedByID_Result.ServiceBusyError = b5 y,
      WorkflowService_RespondActivityTaskCompletedByID_Result.ClientVersionNotSupportedError = b6
      y\<rparr>) =
   Inr \<lparr>WorkflowService_RespondActivityTaskCompletedByID_Result.BadRequestError = (case x of None \<Rightarrow>
       a0 | Some y \<Rightarrow> b0 y),
       WorkflowService_RespondActivityTaskCompletedByID_Result.InternalServiceError = (case x of
       None \<Rightarrow> a1 | Some y \<Rightarrow> b1 y),
       WorkflowService_RespondActivityTaskCompletedByID_Result.EntityNotExistError = (case x of None
       \<Rightarrow> a2 | Some y \<Rightarrow> b2 y),
       WorkflowService_RespondActivityTaskCompletedByID_Result.DomainNotActiveError = (case x of
       None \<Rightarrow> a3 | Some y \<Rightarrow> b3 y),
       WorkflowService_RespondActivityTaskCompletedByID_Result.LimitExceededError = (case x of None
       \<Rightarrow> a4 | Some y \<Rightarrow> b4 y),
       WorkflowService_RespondActivityTaskCompletedByID_Result.ServiceBusyError = (case x of None \<Rightarrow>
       a5 | Some y \<Rightarrow> b5 y),
       WorkflowService_RespondActivityTaskCompletedByID_Result.ClientVersionNotSupportedError =
       (case x of None \<Rightarrow> a6 | Some y \<Rightarrow> b6 y)\<rparr>"
  by (cases x) simp_all

interpretation WorkflowService_RespondActivityTaskCompletedByID_Result: thrift_struct W
  "WorkflowService_RespondActivityTaskCompletedByID_Result_ToWire W"
      "WorkflowService_RespondActivityTaskCompletedByID_Result_FromWire W"
  WorkflowService_RespondActivityTaskCompletedByID_Result_zero "\<lambda>r.
      WorkflowService_RespondActivityTaskCompletedByID_Result_count r \<le> 1" for W
proof (rule thrift_checked_plainI)
  fix x :: WorkflowService_RespondActivityTaskCompletedByID_Result
  assume laws: "wire_laws W"
  obtain enc0 where e0: "BadRequestError_ToWire W = (\<lambda>x. Inr (enc0 x))"
      "\<And>x. wire_api.Type W (enc0 x) = TStruct"
      "\<And>x. Writable W (enc0 x) \<longleftrightarrow> (\<lambda>_. True) x"
      "\<And>x. (\<lambda>_. True) x \<Longrightarrow> BadRequestError_FromWire W (enc0 x) BadRequestError_zero = Inr x"
    by (rule BadRequestError.encoder [OF laws]) (rule that)
  obtain enc1 where e1: "InternalServiceError_ToWire W = (\<lambda>x. Inr (enc1 x))"
      "\<And>x. wire_api.Type W (enc1 x) = TStruct"
      "\<And>x. Writable W (enc1 x) \<longleftrightarrow> (\<lambda>_. True) x"
      "\<And>x. (\<lambda>_. True) x \<Longrightarrow> InternalServiceError_FromWire W (enc1 x) InternalServiceError_zero = Inr
          x"
    by (rule InternalServiceError.encoder [OF laws]) (rule that)
  obtain enc2 where e2: "EntityNotExistsError_ToWire W = (\<lambda>x. Inr (enc2 x))"
      "\<And>x. wire_api.Type W (enc2 x) = TStruct"
      "\<And>x. Writable W (enc2 x) \<longleftrightarrow> (\<lambda>_. True) x"
      "\<And>x. (\<lambda>_. True) x \<Longrightarrow> EntityNotExistsError_FromWire W (enc2 x) EntityNotExistsError_zero = Inr
          x"
    by (rule EntityNotExistsError.encoder [OF laws]) (rule that)
  obtain enc3 where e3: "DomainNotActiveError_ToWire W = (\<lambda>x. Inr (enc3 x))"
      "\<And>x. wire_api.Type W (enc3 x) = TStruct"
      "\<And>x. Writable W (enc3 x) \<longleftrightarrow> (\<lambda>_. True) x"
      "\<And>x. (\<lambda>_. True) x \<Longrightarrow> DomainNotActiveError_FromWire W (enc3 x) DomainNotActiveError_zero = Inr
          x"
    by (rule DomainNotActiveError.encoder [OF laws]) (rule that)
  obtain enc4 where e4: "LimitExceededError_ToWire W = (\<lambda>x. Inr (enc4 x))"
      "\<And>x. wire_api.Type W (enc4 x) = TStruct"
      "\<And>x. Writable W (enc4 x) \<longleftrightarrow> (\<lambda>_. True) x"
      "\<And>x. (\<lambda>_. True) x \<Longrightarrow> LimitExceededError_FromWire W (enc4 x) LimitExceededError_zero = Inr x"
    by (rule LimitExceededError.encoder [OF laws]) (rule that)
  obtain enc5 where e5: "ServiceBusyError_ToWire W = (\<lambda>x. Inr (enc5 x))"
      "\<And>x. wire_api.Type W (enc5 x) = TStruct"
      "\<And>x. Writable W (enc5 x) \<longleftrightarrow> (\<lambda>_. True) x"
      "\<And>x. (\<lambda>_. True) x \<Longrightarrow> ServiceBusyError_FromWire W (enc5 x) ServiceBusyError_zero = Inr x"
    by (rule ServiceBusyError.encoder [OF laws]) (rule that)
  obtain enc6 where e6: "ClientVersionNotSupportedError_ToWire W = (\<lambda>x. Inr (enc6 x))"
      "\<And>x. wire_api.Type W (enc6 x) = TStruct"
      "\<And>x. Writable W (enc6 x) \<longleftrightarrow> (\<lambda>_. True) x"
      "\<And>x. (\<lambda>_. True) x \<Longrightarrow> ClientVersionNotSupportedError_FromWire W (enc6 x)
          ClientVersionNotSupportedError_zero = Inr x"
    by (rule ClientVersionNotSupportedError.encoder [OF laws]) (rule that)
  let ?fs = "(((((opt_field 1 enc0
      (WorkflowService_RespondActivityTaskCompletedByID_Result.BadRequestError x) @
      opt_field 2 enc1 (WorkflowService_RespondActivityTaskCompletedByID_Result.InternalServiceError
          x)) @
      opt_field 3 enc2 (WorkflowService_RespondActivityTaskCompletedByID_Result.EntityNotExistError
          x)) @
      opt_field 4 enc3 (WorkflowService_RespondActivityTaskCompletedByID_Result.DomainNotActiveError
          x)) @
      opt_field 5 enc4 (WorkflowService_RespondActivityTaskCompletedByID_Result.LimitExceededError
          x)) @
      opt_field 6 enc5 (WorkflowService_RespondActivityTaskCompletedByID_Result.ServiceBusyError x))
          @
      opt_field 7 enc6
          (WorkflowService_RespondActivityTaskCompletedByID_Result.ClientVersionNotSupportedError
          x)"
  let ?check = "\<lambda>r. if 1 < WorkflowService_RespondActivityTaskCompletedByID_Result_count x then Inl
      (E_Errorf
      ''WorkflowService_RespondActivityTaskCompletedByID_Result should have at most one field: got %v fields'' (WorkflowService_RespondActivityTaskCompletedByID_Result_count x)) else Inr r"
  have "length ?fs = WorkflowService_RespondActivityTaskCompletedByID_Result_count x"
    by (simp add: WorkflowService_RespondActivityTaskCompletedByID_Result_count_def length_opt_field
        split del: if_split)
  then have "WorkflowService_RespondActivityTaskCompletedByID_Result_ToWire W x = ?check
      (NewValueStruct W ?fs)"
    by (simp only: WorkflowService_RespondActivityTaskCompletedByID_Result_ToWire_def put_opt_field
        and_then.simps append_Nil e0(1) e1(1) e2(1) e3(1) e4(1) e5(1) e6(1))
  moreover have "WorkflowService_RespondActivityTaskCompletedByID_Result_FromWire W (NewValueStruct
      W ?fs) WorkflowService_RespondActivityTaskCompletedByID_Result_zero = ?check x"
    by (cases x, hypsubst) (simp cong: option.case_cong split del: if_split add: codec_rules Let_def
        WorkflowService_RespondActivityTaskCompletedByID_Result_merge
      WorkflowService_RespondActivityTaskCompletedByID_Result_FromWire_def
          WorkflowService_RespondActivityTaskCompletedByID_Result_zero_def laws
      BadRequestError_Read_def
      ClientVersionNotSupportedError_Read_def
      DomainNotActiveError_Read_def
      EntityNotExistsError_Read_def
      InternalServiceError_Read_def
      LimitExceededError_Read_def
      ServiceBusyError_Read_def
      e0 e1 e2 e3 e4 e5 e6)
  ultimately show "if WorkflowService_RespondActivityTaskCompletedByID_Result_count x \<le> 1
      then \<exists>w. WorkflowService_RespondActivityTaskCompletedByID_Result_ToWire W x = Inr w \<and>
          wire_api.Type W w = TStruct \<and>
        Writable W w \<and> WorkflowService_RespondActivityTaskCompletedByID_Result_FromWire W w
            WorkflowService_RespondActivityTaskCompletedByID_Result_zero = Inr x
      else \<exists>e. WorkflowService_RespondActivityTaskCompletedByID_Result_ToWire W x = Inl e"
    by (simp add: laws codec_rules e0 e1 e2 e3 e4 e5 e6)
qed

interpretation RespondActivityTaskCompletedByID: rpc_method W
  "WorkflowService_RespondActivityTaskCompletedByID_Args_ToWire W"
      "WorkflowService_RespondActivityTaskCompletedByID_Args_FromWire W"
      WorkflowService_RespondActivityTaskCompletedByID_Args_zero "\<lambda>x. True"
  "WorkflowService_RespondActivityTaskCompletedByID_Result_ToWire W"
      "WorkflowService_RespondActivityTaskCompletedByID_Result_FromWire W"
      WorkflowService_RespondActivityTaskCompletedByID_Result_zero
  "\<lambda>r. WorkflowService_RespondActivityTaskCompletedByID_Result_count r \<le> 1"
      "''RespondActivityTaskCompletedByID''"
  WorkflowService_RespondActivityTaskCompletedByID_Helper_Args
      "WorkflowService_RespondActivityTaskCompletedByID_Args.CompleteRequest"
  "WorkflowService_RespondActivityTaskCompletedByID_Helper_WrapResponse"
      WorkflowService_RespondActivityTaskCompletedByID_Helper_UnwrapResponse
  "\<lambda>out. out \<noteq> None" "carried_void
      WorkflowService_RespondActivityTaskCompletedByID_Helper_IsException" id "\<lambda>e. Some e"
  "handler_RespondActivityTaskCompletedByID W" "client_RespondActivityTaskCompletedByID W" for W
proof
  fix out :: "go_error option"
  assume "carried_void WorkflowService_RespondActivityTaskCompletedByID_Helper_IsException out"
  then show "case (WorkflowService_RespondActivityTaskCompletedByID_Helper_WrapResponse) out of Inl
      e \<Rightarrow> False
      | Inr res \<Rightarrow> (WorkflowService_RespondActivityTaskCompletedByID_Result_count res \<le> 1) \<and>
          WorkflowService_RespondActivityTaskCompletedByID_Helper_UnwrapResponse res = id out"
    by (cases out; cases "the out")
      (auto simp: WorkflowService_RespondActivityTaskCompletedByID_Helper_IsException_def
          WorkflowService_RespondActivityTaskCompletedByID_Helper_WrapResponse_def
          WorkflowService_RespondActivityTaskCompletedByID_Helper_UnwrapResponse_def
        declared_nonnil_def WorkflowService_RespondActivityTaskCompletedByID_Result_zero_def
            WorkflowService_RespondActivityTaskCompletedByID_Result_count_def elim!: present.elims)
next
  fix out :: "go_error option"
  assume "\<not> carried_void WorkflowService_RespondActivityTaskCompletedByID_Helper_IsException out"
  then show "case (WorkflowService_RespondActivityTaskCompletedByID_Helper_WrapResponse) out of Inl
      e \<Rightarrow> True
      | Inr res \<Rightarrow> \<not> (WorkflowService_RespondActivityTaskCompletedByID_Result_count res \<le> 1)"
    by (cases out; cases "the out")
      (auto simp: WorkflowService_RespondActivityTaskCompletedByID_Helper_IsException_def
          WorkflowService_RespondActivityTaskCompletedByID_Helper_WrapResponse_def
          declared_nonnil_def
        WorkflowService_RespondActivityTaskCompletedByID_Result_count_def
            WorkflowService_RespondActivityTaskCompletedByID_Result_zero_def split: option.splits)
qed (auto simp: WorkflowService_RespondActivityTaskCompletedByID_Helper_Args_def
    handler_RespondActivityTaskCompletedByID_def client_RespondActivityTaskCompletedByID_def
      WorkflowService_RespondActivityTaskCompletedByID_Args_enveloper_def
          WorkflowService_RespondActivityTaskCompletedByID_Result_enveloper_def
      Let_def split: sum.splits prod.splits)

section \<open>RespondActivityTaskFailed\<close>

record WorkflowService_RespondActivityTaskFailed_Args =
  FailRequest :: "RespondActivityTaskFailedRequest option"

definition WorkflowService_RespondActivityTaskFailed_Args_zero ::
    WorkflowService_RespondActivityTaskFailed_Args where
  "WorkflowService_RespondActivityTaskFailed_Args_zero =
      \<lparr>WorkflowService_RespondActivityTaskFailed_Args.FailRequest = None\<rparr>"

definition WorkflowService_RespondActivityTaskFailed_Args_ToWire ::
  "'v wire_api \<Rightarrow> WorkflowService_RespondActivityTaskFailed_Args \<Rightarrow> go_error + 'v" where
  "WorkflowService_RespondActivityTaskFailed_Args_ToWire W v =
     and_then (put_opt 1 (RespondActivityTaskFailedRequest_ToWire W)
         (WorkflowService_RespondActivityTaskFailed_Args.FailRequest v) [])
       (\<lambda>fields.
     Inr (NewValueStruct W fields))"

definition WorkflowService_RespondActivityTaskFailed_Args_FromWire ::
  "'v wire_api \<Rightarrow> 'v \<Rightarrow> WorkflowService_RespondActivityTaskFailed_Args \<Rightarrow> go_error +
      WorkflowService_RespondActivityTaskFailed_Args" where
  "WorkflowService_RespondActivityTaskFailed_Args_FromWire W w v =
     foldM (\<lambda>v (fid, fval).
       if fid = 1 then
         if wire_api.Type W fval = TStruct
         then and_then (RespondActivityTaskFailedRequest_Read W fval) (\<lambda>x. Inr
             (v\<lparr>WorkflowService_RespondActivityTaskFailed_Args.FailRequest := Some x\<rparr>))
         else Inr v
       else Inr v) (GetStruct W w) v"

definition WorkflowService_RespondActivityTaskFailed_Args_enveloper ::
  "'v wire_api \<Rightarrow> WorkflowService_RespondActivityTaskFailed_Args \<Rightarrow> 'v enveloper" where
  "WorkflowService_RespondActivityTaskFailed_Args_enveloper W v =
     \<lparr>MethodName = ''RespondActivityTaskFailed'', EnvelopeType = Call, EnvelopeToWire =
         WorkflowService_RespondActivityTaskFailed_Args_ToWire W v\<rparr>"

definition WorkflowService_RespondActivityTaskFailed_Args_Equals ::
  "WorkflowService_RespondActivityTaskFailed_Args option \<Rightarrow>
      WorkflowService_RespondActivityTaskFailed_Args option \<Rightarrow> bool" where
  "WorkflowService_RespondActivityTaskFailed_Args_Equals v rhs =
     (case v of None \<Rightarrow> rhs = None
      | Some v \<Rightarrow> (case rhs of None \<Rightarrow> False
        | Some rhs \<Rightarrow>
          if \<not> both_set_and (\<lambda>x y. RespondActivityTaskFailedRequest_Equals (Some x) (Some y))
              (WorkflowService_RespondActivityTaskFailed_Args.FailRequest v)
              (WorkflowService_RespondActivityTaskFailed_Args.FailRequest rhs) then False else
          True))"

lemma WorkflowService_RespondActivityTaskFailed_Args_Equals_iff [simp]:
    "WorkflowService_RespondActivityTaskFailed_Args_Equals x y \<longleftrightarrow> x = y"
  by (cases x; cases y) (auto simp: WorkflowService_RespondActivityTaskFailed_Args_Equals_def)

record WorkflowService_RespondActivityTaskFailed_Result =
  BadRequestError :: "BadRequestError option"
  InternalServiceError :: "InternalServiceError option"
  EntityNotExistError :: "EntityNotExistsError option"
  DomainNotActiveError :: "DomainNotActiveError option"
  LimitExceededError :: "LimitExceededError option"
  ServiceBusyError :: "ServiceBusyError option"
  ClientVersionNotSupportedError :: "ClientVersionNotSupportedError option"

definition WorkflowService_RespondActivityTaskFailed_Result_count ::
    "WorkflowService_RespondActivityTaskFailed_Result \<Rightarrow> nat" where
  "WorkflowService_RespondActivityTaskFailed_Result_count v =
     (if WorkflowService_RespondActivityTaskFailed_Result.BadRequestError v \<noteq> None then 1 else 0) +
     (if WorkflowService_RespondActivityTaskFailed_Result.InternalServiceError v \<noteq> None then 1 else
         0) +
     (if WorkflowService_RespondActivityTaskFailed_Result.EntityNotExistError v \<noteq> None then 1 else
         0) +
     (if WorkflowService_RespondActivityTaskFailed_Result.DomainNotActiveError v \<noteq> None then 1 else
         0) +
     (if WorkflowService_RespondActivityTaskFailed_Result.LimitExceededError v \<noteq> None then 1 else 0)
         +
     (if WorkflowService_RespondActivityTaskFailed_Result.ServiceBusyError v \<noteq> None then 1 else 0) +
     (if WorkflowService_RespondActivityTaskFailed_Result.ClientVersionNotSupportedError v \<noteq> None
         then 1 else 0)"

definition WorkflowService_RespondActivityTaskFailed_Result_zero ::
    WorkflowService_RespondActivityTaskFailed_Result where
  "WorkflowService_RespondActivityTaskFailed_Result_zero =
      \<lparr>WorkflowService_RespondActivityTaskFailed_Result.BadRequestError = None,
      WorkflowService_RespondActivityTaskFailed_Result.InternalServiceError = None,
      WorkflowService_RespondActivityTaskFailed_Result.EntityNotExistError = None,
      WorkflowService_RespondActivityTaskFailed_Result.DomainNotActiveError = None,
      WorkflowService_RespondActivityTaskFailed_Result.LimitExceededError = None,
      WorkflowService_RespondActivityTaskFailed_Result.ServiceBusyError = None,
      WorkflowService_RespondActivityTaskFailed_Result.ClientVersionNotSupportedError = None\<rparr>"

definition WorkflowService_RespondActivityTaskFailed_Result_ToWire ::
  "'v wire_api \<Rightarrow> WorkflowService_RespondActivityTaskFailed_Result \<Rightarrow> go_error + 'v" where
  "WorkflowService_RespondActivityTaskFailed_Result_ToWire W v =
     and_then (put_opt 1 (BadRequestError_ToWire W)
         (WorkflowService_RespondActivityTaskFailed_Result.BadRequestError v) [])
       (\<lambda>fields.
     and_then (put_opt 2 (InternalServiceError_ToWire W)
         (WorkflowService_RespondActivityTaskFailed_Result.InternalServiceError v) fields)
       (\<lambda>fields.
     and_then (put_opt 3 (EntityNotExistsError_ToWire W)
         (WorkflowService_RespondActivityTaskFailed_Result.EntityNotExistError v) fields)
       (\<lambda>fields.
     and_then (put_opt 4 (DomainNotActiveError_ToWire W)
         (WorkflowService_RespondActivityTaskFailed_Result.DomainNotActiveError v) fields)
       (\<lambda>fields.
     and_then (put_opt 5 (LimitExceededError_ToWire W)
         (WorkflowService_RespondActivityTaskFailed_Result.LimitExceededError v) fields)
       (\<lambda>fields.
     and_then (put_opt 6 (ServiceBusyError_ToWire W)
         (WorkflowService_RespondActivityTaskFailed_Result.ServiceBusyError v) fields)
       (\<lambda>fields.
     and_then (put_opt 7 (ClientVersionNotSupportedError_ToWire W)
         (WorkflowService_RespondActivityTaskFailed_Result.ClientVersionNotSupportedError v) fields)
       (\<lambda>fields.
     if 1 < length fields
     then Inl (E_Errorf
         ''WorkflowService_RespondActivityTaskFailed_Result should have at most one field: got %v fields'' (length fields))
     else Inr (NewValueStruct W fields))))))))"

definition WorkflowService_RespondActivityTaskFailed_Result_FromWire ::
  "'v wire_api \<Rightarrow> 'v \<Rightarrow> WorkflowService_RespondActivityTaskFailed_Result \<Rightarrow> go_error +
      WorkflowService_RespondActivityTaskFailed_Result" where
  "WorkflowService_RespondActivityTaskFailed_Result_FromWire W w v =
     and_then (foldM (\<lambda>v (fid, fval).
       if fid = 1 then
         if wire_api.Type W fval = TStruct
         then and_then (BadRequestError_Read W fval) (\<lambda>x. Inr
             (v\<lparr>WorkflowService_RespondActivityTaskFailed_Result.BadRequestError := Some x\<rparr>))
         else Inr v
       else if fid = 2 then
         if wire_api.Type W fval = TStruct
         then and_then (InternalServiceError_Read W fval) (\<lambda>x. Inr
             (v\<lparr>WorkflowService_RespondActivityTaskFailed_Result.InternalServiceError := Some x\<rparr>))
         else Inr v
       else if fid = 3 then
         if wire_api.Type W fval = TStruct
         then and_then (EntityNotExistsError_Read W fval) (\<lambda>x. Inr
             (v\<lparr>WorkflowService_RespondActivityTaskFailed_Result.EntityNotExistError := Some x\<rparr>))
         else Inr v
       else if fid = 4 then
         if wire_api.Type W fval = TStruct
         then and_then (DomainNotActiveError_Read W fval) (\<lambda>x. Inr
             (v\<lparr>WorkflowService_RespondActivityTaskFailed_Result.DomainNotActiveError := Some x\<rparr>))
         else Inr v
       else if fid = 5 then
         if wire_api.Type W fval = TStruct
         then and_then (LimitExceededError_Read W fval) (\<lambda>x. Inr
             (v\<lparr>WorkflowService_RespondActivityTaskFailed_Result.LimitExceededError := Some x\<rparr>))
         else Inr v
       else if fid = 6 then
         if wire_api.Type W fval = TStruct
         then and_then (ServiceBusyError_Read W fval) (\<lambda>x. Inr
             (v\<lparr>WorkflowService_RespondActivityTaskFailed_Result.ServiceBusyError := Some x\<rparr>))
         else Inr v
       else if fid = 7 then
         if wire_api.Type W fval = TStruct
         then and_then (ClientVersionNotSupportedError_Read W fval) (\<lambda>x. Inr
             (v\<lparr>WorkflowService_RespondActivityTaskFailed_Result.ClientVersionNotSupportedError :=
             Some x\<rparr>))
         else Inr v
       else Inr v) (GetStruct W w) v) (\<lambda>v.
     let count = WorkflowService_RespondActivityTaskFailed_Result_count v in
     if 1 < count
     then Inl (E_Errorf
         ''WorkflowService_RespondActivityTaskFailed_Result should have at most one field: got %v fields'' count)
     else Inr v)"

definition WorkflowService_RespondActivityTaskFailed_Result_enveloper ::
  "'v wire_api \<Rightarrow> WorkflowService_RespondActivityTaskFailed_Result \<Rightarrow> 'v enveloper" where
  "WorkflowService_RespondActivityTaskFailed_Result_enveloper W v =
     \<lparr>MethodName = ''RespondActivityTaskFailed'', EnvelopeType = Reply, EnvelopeToWire =
         WorkflowService_RespondActivityTaskFailed_Result_ToWire W v\<rparr>"

definition WorkflowService_RespondActivityTaskFailed_Result_Equals ::
  "WorkflowService_RespondActivityTaskFailed_Result option \<Rightarrow>
      WorkflowService_RespondActivityTaskFailed_Result option \<Rightarrow> bool" where
  "WorkflowService_RespondActivityTaskFailed_Result_Equals v rhs =
     (case v of None \<Rightarrow> rhs = None
      | Some v \<Rightarrow> (case rhs of None \<Rightarrow> False
        | Some rhs \<Rightarrow>
          if \<not> both_set_and (\<lambda>x y. BadRequestError_Equals (Some x) (Some y))
              (WorkflowService_RespondActivityTaskFailed_Result.BadRequestError v)
              (WorkflowService_RespondActivityTaskFailed_Result.BadRequestError rhs) then False else
          if \<not> both_set_and (\<lambda>x y. InternalServiceError_Equals (Some x) (Some y))
              (WorkflowService_RespondActivityTaskFailed_Result.InternalServiceError v)
              (WorkflowService_RespondActivityTaskFailed_Result.InternalServiceError rhs) then False
              else
          if \<not> both_set_and (\<lambda>x y. EntityNotExistsError_Equals (Some x) (Some y))
              (WorkflowService_RespondActivityTaskFailed_Result.EntityNotExistError v)
              (WorkflowService_RespondActivityTaskFailed_Result.EntityNotExistError rhs) then False
              else
          if \<not> both_set_and (\<lambda>x y. DomainNotActiveError_Equals (Some x) (Some y))
              (WorkflowService_RespondActivityTaskFailed_Result.DomainNotActiveError v)
              (WorkflowService_RespondActivityTaskFailed_Result.DomainNotActiveError rhs) then False
              else
          if \<not> both_set_and (\<lambda>x y. LimitExceededError_Equals (Some x) (Some y))
              (WorkflowService_RespondActivityTaskFailed_Result.LimitExceededError v)
              (WorkflowService_RespondActivityTaskFailed_Result.LimitExceededError rhs) then False
              else
          if \<not> both_set_and (\<lambda>x y. ServiceBusyError_Equals (Some x) (Some y))
              (WorkflowService_RespondActivityTaskFailed_Result.ServiceBusyError v)
              (WorkflowService_RespondActivityTaskFailed_Result.ServiceBusyError rhs) then False
              else
          if \<not> both_set_and (\<lambda>x y. ClientVersionNotSupportedError_Equals (Some x) (Some y))
              (WorkflowService_RespondActivityTaskFailed_Result.ClientVersionNotSupportedError v)
              (WorkflowService_RespondActivityTaskFailed_Result.ClientVersionNotSupportedError rhs)
              then False else
          True))"

lemma WorkflowService_RespondActivityTaskFailed_Result_Equals_iff [simp]:
    "WorkflowService_RespondActivityTaskFailed_Result_Equals x y \<longleftrightarrow> x = y"
  by (cases x; cases y) (simp_all add: WorkflowService_RespondActivityTaskFailed_Result_Equals_def
      if_not_False, fastforce intro: WorkflowService_RespondActivityTaskFailed_Result.equality)

definition WorkflowService_RespondActivityTaskFailed_Helper_Args ::
    "RespondActivityTaskFailedRequest option \<Rightarrow> WorkflowService_RespondActivityTaskFailed_Args" where
  "WorkflowService_RespondActivityTaskFailed_Helper_Args r =
      \<lparr>WorkflowService_RespondActivityTaskFailed_Args.FailRequest = r\<rparr>"

definition WorkflowService_RespondActivityTaskFailed_Helper_IsException :: "go_error \<Rightarrow> bool" where
  "WorkflowService_RespondActivityTaskFailed_Helper_IsException err =
     (case err of
        E_BadRequestError _ \<Rightarrow> True
      | E_InternalServiceError _ \<Rightarrow> True
      | E_EntityNotExistsError _ \<Rightarrow> True
      | E_DomainNotActiveError _ \<Rightarrow> True
      | E_LimitExceededError _ \<Rightarrow> True
      | E_ServiceBusyError _ \<Rightarrow> True
      | E_ClientVersionNotSupportedError _ \<Rightarrow> True
      | _ \<Rightarrow> False)"

definition WorkflowService_RespondActivityTaskFailed_Helper_WrapResponse ::
  "go_error option \<Rightarrow> go_error + WorkflowService_RespondActivityTaskFailed_Result" where
  "WorkflowService_RespondActivityTaskFailed_Helper_WrapResponse err =
     (case err of None \<Rightarrow> Inr WorkflowService_RespondActivityTaskFailed_Result_zero
      | Some err \<Rightarrow> (case err of
          E_BadRequestError e \<Rightarrow> (case e of
              None \<Rightarrow> Inl (E_New
                  ''WrapResponse received non-nil error type with nil value for WorkflowService_RespondActivityTaskFailed_Result.BadRequestError'')
            | Some e \<Rightarrow> Inr
                (WorkflowService_RespondActivityTaskFailed_Result_zero\<lparr>WorkflowService_RespondActivityTaskFailed_Result.BadRequestError := Some e\<rparr>))
        | E_InternalServiceError e \<Rightarrow> (case e of
              None \<Rightarrow> Inl (E_New
                  ''WrapResponse received non-nil error type with nil value for WorkflowService_RespondActivityTaskFailed_Result.InternalServiceError'')
            | Some e \<Rightarrow> Inr
                (WorkflowService_RespondActivityTaskFailed_Result_zero\<lparr>WorkflowService_RespondActivityTaskFailed_Result.InternalServiceError := Some e\<rparr>))
        | E_EntityNotExistsError e \<Rightarrow> (case e of
              None \<Rightarrow> Inl (E_New
                  ''WrapResponse received non-nil error type with nil value for WorkflowService_RespondActivityTaskFailed_Result.EntityNotExistError'')
            | Some e \<Rightarrow> Inr
                (WorkflowService_RespondActivityTaskFailed_Result_zero\<lparr>WorkflowService_RespondActivityTaskFailed_Result.EntityNotExistError := Some e\<rparr>))
        | E_DomainNotActiveError e \<Rightarrow> (case e of
              None \<Rightarrow> Inl (E_New
                  ''WrapResponse received non-nil error type with nil value for WorkflowService_RespondActivityTaskFailed_Result.DomainNotActiveError'')
            | Some e \<Rightarrow> Inr
                (WorkflowService_RespondActivityTaskFailed_Result_zero\<lparr>WorkflowService_RespondActivityTaskFailed_Result.DomainNotActiveError := Some e\<rparr>))
        | E_LimitExceededError e \<Rightarrow> (case e of
              None \<Rightarrow> Inl (E_New
                  ''WrapResponse received non-nil error type with nil value for WorkflowService_RespondActivityTaskFailed_Result.LimitExceededError'')
            | Some e \<Rightarrow> Inr
                (WorkflowService_RespondActivityTaskFailed_Result_zero\<lparr>WorkflowService_RespondActivityTaskFailed_Result.LimitExceededError := Some e\<rparr>))
        | E_ServiceBusyError e \<Rightarrow> (case e of
              None \<Rightarrow> Inl (E_New
                  ''WrapResponse received non-nil error type with nil value for WorkflowService_RespondActivityTaskFailed_Result.ServiceBusyError'')
            | Some e \<Rightarrow> Inr
                (WorkflowService_RespondActivityTaskFailed_Result_zero\<lparr>WorkflowService_RespondActivityTaskFailed_Result.ServiceBusyError := Some e\<rparr>))
        | E_ClientVersionNotSupportedError e \<Rightarrow> (case e of
              None \<Rightarrow> Inl (E_New
                  ''WrapResponse received non-nil error type with nil value for WorkflowService_RespondActivityTaskFailed_Result.ClientVersionNotSupportedError'')
            | Some e \<Rightarrow> Inr
                (WorkflowService_RespondActivityTaskFailed_Result_zero\<lparr>WorkflowService_RespondActivityTaskFailed_Result.ClientVersionNotSupportedError := Some e\<rparr>))
        | _ \<Rightarrow> Inl err))"

definition WorkflowService_RespondActivityTaskFailed_Helper_UnwrapResponse ::
  "WorkflowService_RespondActivityTaskFailed_Result \<Rightarrow> go_error option" where
  "WorkflowService_RespondActivityTaskFailed_Helper_UnwrapResponse result =
    (if WorkflowService_RespondActivityTaskFailed_Result.BadRequestError result \<noteq> None then Some
        (E_BadRequestError (WorkflowService_RespondActivityTaskFailed_Result.BadRequestError
        result)) else
     if WorkflowService_RespondActivityTaskFailed_Result.InternalServiceError result \<noteq> None then
         Some (E_InternalServiceError
         (WorkflowService_RespondActivityTaskFailed_Result.InternalServiceError result)) else
     if WorkflowService_RespondActivityTaskFailed_Result.EntityNotExistError result \<noteq> None then Some
         (E_EntityNotExistsError
         (WorkflowService_RespondActivityTaskFailed_Result.EntityNotExistError result)) else
     if WorkflowService_RespondActivityTaskFailed_Result.DomainNotActiveError result \<noteq> None then
         Some (E_DomainNotActiveError
         (WorkflowService_RespondActivityTaskFailed_Result.DomainNotActiveError result)) else
     if WorkflowService_RespondActivityTaskFailed_Result.LimitExceededError result \<noteq> None then Some
         (E_LimitExceededError (WorkflowService_RespondActivityTaskFailed_Result.LimitExceededError
         result)) else
     if WorkflowService_RespondActivityTaskFailed_Result.ServiceBusyError result \<noteq> None then Some
         (E_ServiceBusyError (WorkflowService_RespondActivityTaskFailed_Result.ServiceBusyError
         result)) else
     if WorkflowService_RespondActivityTaskFailed_Result.ClientVersionNotSupportedError result \<noteq>
         None then Some (E_ClientVersionNotSupportedError
         (WorkflowService_RespondActivityTaskFailed_Result.ClientVersionNotSupportedError result))
         else
     None)"

definition handler_RespondActivityTaskFailed ::
  "'v wire_api \<Rightarrow> ('ctx \<Rightarrow> RespondActivityTaskFailedRequest option \<Rightarrow> go_error option) \<Rightarrow>
   ('ctx, 'v) unary_handler" where
  "handler_RespondActivityTaskFailed W impl ctx body =
     (case WorkflowService_RespondActivityTaskFailed_Args_FromWire W body
         WorkflowService_RespondActivityTaskFailed_Args_zero of
      Inl err \<Rightarrow> (no_response, Some err)
    | Inr args \<Rightarrow>
      let err = impl ctx (WorkflowService_RespondActivityTaskFailed_Args.FailRequest args);
          hadError = (err \<noteq> None)
      in case WorkflowService_RespondActivityTaskFailed_Helper_WrapResponse err of
           Inl err \<Rightarrow> (no_response, Some err)
         | Inr result \<Rightarrow>
             (\<lparr>Body = Some (WorkflowService_RespondActivityTaskFailed_Result_enveloper W result),
               IsApplicationError = hadError\<rparr>, None))"

definition client_RespondActivityTaskFailed ::
  "'v wire_api \<Rightarrow> ('ctx, 'v) thrift_client \<Rightarrow> 'ctx \<Rightarrow> RespondActivityTaskFailedRequest option \<Rightarrow>
   go_error option" where
  "client_RespondActivityTaskFailed W call ctx r =
     (let args = WorkflowService_RespondActivityTaskFailed_Helper_Args r in
      case call ctx (WorkflowService_RespondActivityTaskFailed_Args_enveloper W args) of
        Inl e \<Rightarrow> Some e
      | Inr body \<Rightarrow>
          (case WorkflowService_RespondActivityTaskFailed_Result_FromWire W body
              WorkflowService_RespondActivityTaskFailed_Result_zero of
             Inl e \<Rightarrow> Some e
           | Inr result \<Rightarrow> WorkflowService_RespondActivityTaskFailed_Helper_UnwrapResponse result))"

lemma WorkflowService_RespondActivityTaskFailed_Args_merge:
  "(case x of None \<Rightarrow> Inr \<lparr>WorkflowService_RespondActivityTaskFailed_Args.FailRequest = a0\<rparr> | Some y
      \<Rightarrow> Inr \<lparr>WorkflowService_RespondActivityTaskFailed_Args.FailRequest = b0 y\<rparr>) =
   Inr \<lparr>WorkflowService_RespondActivityTaskFailed_Args.FailRequest = (case x of None \<Rightarrow> a0 | Some y \<Rightarrow>
       b0 y)\<rparr>"
  by (cases x) simp_all

interpretation WorkflowService_RespondActivityTaskFailed_Args: thrift_struct W
  "WorkflowService_RespondActivityTaskFailed_Args_ToWire W"
      "WorkflowService_RespondActivityTaskFailed_Args_FromWire W"
  WorkflowService_RespondActivityTaskFailed_Args_zero "\<lambda>x. True" for W
proof (rule thrift_structI)
  fix x :: WorkflowService_RespondActivityTaskFailed_Args
  assume laws: "wire_laws W"
  obtain enc0 where e0: "RespondActivityTaskFailedRequest_ToWire W = (\<lambda>x. Inr (enc0 x))"
      "\<And>x. wire_api.Type W (enc0 x) = TStruct"
      "\<And>x. Writable W (enc0 x) \<longleftrightarrow> (\<lambda>_. True) x"
      "\<And>x. (\<lambda>_. True) x \<Longrightarrow> RespondActivityTaskFailedRequest_FromWire W (enc0 x)
          RespondActivityTaskFailedRequest_zero = Inr x"
    by (rule RespondActivityTaskFailedRequest.encoder [OF laws]) (rule that)
  show "\<exists>w. WorkflowService_RespondActivityTaskFailed_Args_ToWire W x = Inr w \<and> wire_api.Type W w =
      TStruct \<and>
      (Writable W w \<longleftrightarrow> True) \<and> (True \<longrightarrow> WorkflowService_RespondActivityTaskFailed_Args_FromWire W w
          WorkflowService_RespondActivityTaskFailed_Args_zero = Inr x)"
    by (cases x) (simp cong: option.case_cong add: codec_rules
        WorkflowService_RespondActivityTaskFailed_Args_merge
        WorkflowService_RespondActivityTaskFailed_Args_ToWire_def
        WorkflowService_RespondActivityTaskFailed_Args_FromWire_def
      WorkflowService_RespondActivityTaskFailed_Args_zero_def
          RespondActivityTaskFailedRequest_Read_def if_set_def laws e0)
qed

lemma WorkflowService_RespondActivityTaskFailed_Result_merge:
  "(case x of None \<Rightarrow> Inr \<lparr>WorkflowService_RespondActivityTaskFailed_Result.BadRequestError = a0,
      WorkflowService_RespondActivityTaskFailed_Result.InternalServiceError = a1,
      WorkflowService_RespondActivityTaskFailed_Result.EntityNotExistError = a2,
      WorkflowService_RespondActivityTaskFailed_Result.DomainNotActiveError = a3,
      WorkflowService_RespondActivityTaskFailed_Result.LimitExceededError = a4,
      WorkflowService_RespondActivityTaskFailed_Result.ServiceBusyError = a5,
      WorkflowService_RespondActivityTaskFailed_Result.ClientVersionNotSupportedError = a6\<rparr> | Some y
      \<Rightarrow> Inr \<lparr>WorkflowService_RespondActivityTaskFailed_Result.BadRequestError = b0 y,
      WorkflowService_RespondActivityTaskFailed_Result.InternalServiceError = b1 y,
      WorkflowService_RespondActivityTaskFailed_Result.EntityNotExistError = b2 y,
      WorkflowService_RespondActivityTaskFailed_Result.DomainNotActiveError = b3 y,
      WorkflowService_RespondActivityTaskFailed_Result.LimitExceededError = b4 y,
      WorkflowService_RespondActivityTaskFailed_Result.ServiceBusyError = b5 y,
      WorkflowService_RespondActivityTaskFailed_Result.ClientVersionNotSupportedError = b6 y\<rparr>) =
   Inr \<lparr>WorkflowService_RespondActivityTaskFailed_Result.BadRequestError = (case x of None \<Rightarrow> a0 |
       Some y \<Rightarrow> b0 y), WorkflowService_RespondActivityTaskFailed_Result.InternalServiceError = (case
       x of None \<Rightarrow> a1 | Some y \<Rightarrow> b1 y),
       WorkflowService_RespondActivityTaskFailed_Result.EntityNotExistError = (case x of None \<Rightarrow> a2 |
       Some y \<Rightarrow> b2 y), WorkflowService_RespondActivityTaskFailed_Result.DomainNotActiveError = (case
       x of None \<Rightarrow> a3 | Some y \<Rightarrow> b3 y),
       WorkflowService_RespondActivityTaskFailed_Result.LimitExceededError = (case x of None \<Rightarrow> a4 |
       Some y \<Rightarrow> b4 y), WorkflowService_RespondActivityTaskFailed_Result.ServiceBusyError = (case x
       of None \<Rightarrow> a5 | Some y \<Rightarrow> b5 y),
       WorkflowService_RespondActivityTaskFailed_Result.ClientVersionNotSupportedError = (case x of
       None \<Rightarrow> a6 | Some y \<Rightarrow> b6 y)\<rparr>"
  by (cases x) simp_all

interpretation WorkflowService_RespondActivityTaskFailed_Result: thrift_struct W
  "WorkflowService_RespondActivityTaskFailed_Result_ToWire W"
      "WorkflowService_RespondActivityTaskFailed_Result_FromWire W"
  WorkflowService_RespondActivityTaskFailed_Result_zero "\<lambda>r.
      WorkflowService_RespondActivityTaskFailed_Result_count r \<le> 1" for W
proof (rule thrift_checked_plainI)
  fix x :: WorkflowService_RespondActivityTaskFailed_Result
  assume laws: "wire_laws W"
  obtain enc0 where e0: "BadRequestError_ToWire W = (\<lambda>x. Inr (enc0 x))"
      "\<And>x. wire_api.Type W (enc0 x) = TStruct"
      "\<And>x. Writable W (enc0 x) \<longleftrightarrow> (\<lambda>_. True) x"
      "\<And>x. (\<lambda>_. True) x \<Longrightarrow> BadRequestError_FromWire W (enc0 x) BadRequestError_zero = Inr x"
    by (rule BadRequestError.encoder [OF laws]) (rule that)
  obtain enc1 where e1: "InternalServiceError_ToWire W = (\<lambda>x. Inr (enc1 x))"
      "\<And>x. wire_api.Type W (enc1 x) = TStruct"
      "\<And>x. Writable W (enc1 x) \<longleftrightarrow> (\<lambda>_. True) x"
      "\<And>x. (\<lambda>_. True) x \<Longrightarrow> InternalServiceError_FromWire W (enc1 x) InternalServiceError_zero = Inr
          x"
    by (rule InternalServiceError.encoder [OF laws]) (rule that)
  obtain enc2 where e2: "EntityNotExistsError_ToWire W = (\<lambda>x. Inr (enc2 x))"
      "\<And>x. wire_api.Type W (enc2 x) = TStruct"
      "\<And>x. Writable W (enc2 x) \<longleftrightarrow> (\<lambda>_. True) x"
      "\<And>x. (\<lambda>_. True) x \<Longrightarrow> EntityNotExistsError_FromWire W (enc2 x) EntityNotExistsError_zero = Inr
          x"
    by (rule EntityNotExistsError.encoder [OF laws]) (rule that)
  obtain enc3 where e3: "DomainNotActiveError_ToWire W = (\<lambda>x. Inr (enc3 x))"
      "\<And>x. wire_api.Type W (enc3 x) = TStruct"
      "\<And>x. Writable W (enc3 x) \<longleftrightarrow> (\<lambda>_. True) x"
      "\<And>x. (\<lambda>_. True) x \<Longrightarrow> DomainNotActiveError_FromWire W (enc3 x) DomainNotActiveError_zero = Inr
          x"
    by (rule DomainNotActiveError.encoder [OF laws]) (rule that)
  obtain enc4 where e4: "LimitExceededError_ToWire W = (\<lambda>x. Inr (enc4 x))"
      "\<And>x. wire_api.Type W (enc4 x) = TStruct"
      "\<And>x. Writable W (enc4 x) \<longleftrightarrow> (\<lambda>_. True) x"
      "\<And>x. (\<lambda>_. True) x \<Longrightarrow> LimitExceededError_FromWire W (enc4 x) LimitExceededError_zero = Inr x"
    by (rule LimitExceededError.encoder [OF laws]) (rule that)
  obtain enc5 where e5: "ServiceBusyError_ToWire W = (\<lambda>x. Inr (enc5 x))"
      "\<And>x. wire_api.Type W (enc5 x) = TStruct"
      "\<And>x. Writable W (enc5 x) \<longleftrightarrow> (\<lambda>_. True) x"
      "\<And>x. (\<lambda>_. True) x \<Longrightarrow> ServiceBusyError_FromWire W (enc5 x) ServiceBusyError_zero = Inr x"
    by (rule ServiceBusyError.encoder [OF laws]) (rule that)
  obtain enc6 where e6: "ClientVersionNotSupportedError_ToWire W = (\<lambda>x. Inr (enc6 x))"
      "\<And>x. wire_api.Type W (enc6 x) = TStruct"
      "\<And>x. Writable W (enc6 x) \<longleftrightarrow> (\<lambda>_. True) x"
      "\<And>x. (\<lambda>_. True) x \<Longrightarrow> ClientVersionNotSupportedError_FromWire W (enc6 x)
          ClientVersionNotSupportedError_zero = Inr x"
    by (rule ClientVersionNotSupportedError.encoder [OF laws]) (rule that)
  let ?fs = "(((((opt_field 1 enc0 (WorkflowService_RespondActivityTaskFailed_Result.BadRequestError
      x) @
      opt_field 2 enc1 (WorkflowService_RespondActivityTaskFailed_Result.InternalServiceError x)) @
      opt_field 3 enc2 (WorkflowService_RespondActivityTaskFailed_Result.EntityNotExistError x)) @
      opt_field 4 enc3 (WorkflowService_RespondActivityTaskFailed_Result.DomainNotActiveError x)) @
      opt_field 5 enc4 (WorkflowService_RespondActivityTaskFailed_Result.LimitExceededError x)) @
      opt_field 6 enc5 (WorkflowService_RespondActivityTaskFailed_Result.ServiceBusyError x)) @
      opt_field 7 enc6
          (WorkflowService_RespondActivityTaskFailed_Result.ClientVersionNotSupportedError x)"
  let ?check = "\<lambda>r. if 1 < WorkflowService_RespondActivityTaskFailed_Result_count x then Inl
      (E_Errorf
      ''WorkflowService_RespondActivityTaskFailed_Result should have at most one field: got %v fields'' (WorkflowService_RespondActivityTaskFailed_Result_count x)) else Inr r"
  have "length ?fs = WorkflowService_RespondActivityTaskFailed_Result_count x"
    by (simp add: WorkflowService_RespondActivityTaskFailed_Result_count_def length_opt_field split
        del: if_split)
  then have "WorkflowService_RespondActivityTaskFailed_Result_ToWire W x = ?check (NewValueStruct W
      ?fs)"
    by (simp only: WorkflowService_RespondActivityTaskFailed_Result_ToWire_def put_opt_field
        and_then.simps append_Nil e0(1) e1(1) e2(1) e3(1) e4(1) e5(1) e6(1))
  moreover have "WorkflowService_RespondActivityTaskFailed_Result_FromWire W (NewValueStruct W ?fs)
      WorkflowService_RespondActivityTaskFailed_Result_zero = ?check x"
    by (cases x, hypsubst) (simp cong: option.case_cong split del: if_split add: codec_rules Let_def
        WorkflowService_RespondActivityTaskFailed_Result_merge
      WorkflowService_RespondActivityTaskFailed_Result_FromWire_def
          WorkflowService_RespondActivityTaskFailed_Result_zero_def laws
      BadRequestError_Read_def
      ClientVersionNotSupportedError_Read_def
      DomainNotActiveError_Read_def
      EntityNotExistsError_Read_def
      InternalServiceError_Read_def
      LimitExceededError_Read_def
      ServiceBusyError_Read_def
      e0 e1 e2 e3 e4 e5 e6)
  ultimately show "if WorkflowService_RespondActivityTaskFailed_Result_count x \<le> 1
      then \<exists>w. WorkflowService_RespondActivityTaskFailed_Result_ToWire W x = Inr w \<and> wire_api.Type W
          w = TStruct \<and>
        Writable W w \<and> WorkflowService_RespondActivityTaskFailed_Result_FromWire W w
            WorkflowService_RespondActivityTaskFailed_Result_zero = Inr x
      else \<exists>e. WorkflowService_RespondActivityTaskFailed_Result_ToWire W x = Inl e"
    by (simp add: laws codec_rules e0 e1 e2 e3 e4 e5 e6)
qed

interpretation RespondActivityTaskFailed: rpc_method W
  "WorkflowService_RespondActivityTaskFailed_Args_ToWire W"
      "WorkflowService_RespondActivityTaskFailed_Args_FromWire W"
      WorkflowService_RespondActivityTaskFailed_Args_zero "\<lambda>x. True"
  "WorkflowService_RespondActivityTaskFailed_Result_ToWire W"
      "WorkflowService_RespondActivityTaskFailed_Result_FromWire W"
      WorkflowService_RespondActivityTaskFailed_Result_zero
  "\<lambda>r. WorkflowService_RespondActivityTaskFailed_Result_count r \<le> 1" "''RespondActivityTaskFailed''"
  WorkflowService_RespondActivityTaskFailed_Helper_Args
      "WorkflowService_RespondActivityTaskFailed_Args.FailRequest"
  "WorkflowService_RespondActivityTaskFailed_Helper_WrapResponse"
      WorkflowService_RespondActivityTaskFailed_Helper_UnwrapResponse
  "\<lambda>out. out \<noteq> None" "carried_void WorkflowService_RespondActivityTaskFailed_Helper_IsException" id
      "\<lambda>e. Some e"
  "handler_RespondActivityTaskFailed W" "client_RespondActivityTaskFailed W" for W
proof
  fix out :: "go_error option"
  assume "carried_void WorkflowService_RespondActivityTaskFailed_Helper_IsException out"
  then show "case (WorkflowService_RespondActivityTaskFailed_Helper_WrapResponse) out of Inl e \<Rightarrow>
      False
      | Inr res \<Rightarrow> (WorkflowService_RespondActivityTaskFailed_Result_count res \<le> 1) \<and>
          WorkflowService_RespondActivityTaskFailed_Helper_UnwrapResponse res = id out"
    by (cases out; cases "the out")
      (auto simp: WorkflowService_RespondActivityTaskFailed_Helper_IsException_def
          WorkflowService_RespondActivityTaskFailed_Helper_WrapResponse_def
          WorkflowService_RespondActivityTaskFailed_Helper_UnwrapResponse_def
        declared_nonnil_def WorkflowService_RespondActivityTaskFailed_Result_zero_def
            WorkflowService_RespondActivityTaskFailed_Result_count_def elim!: present.elims)
next
  fix out :: "go_error option"
  assume "\<not> carried_void WorkflowService_RespondActivityTaskFailed_Helper_IsException out"
  then show "case (WorkflowService_RespondActivityTaskFailed_Helper_WrapResponse) out of Inl e \<Rightarrow>
      True
      | Inr res \<Rightarrow> \<not> (WorkflowService_RespondActivityTaskFailed_Result_count res \<le> 1)"
    by (cases out; cases "the out")
      (auto simp: WorkflowService_RespondActivityTaskFailed_Helper_IsException_def
          WorkflowService_RespondActivityTaskFailed_Helper_WrapResponse_def declared_nonnil_def
        WorkflowService_RespondActivityTaskFailed_Result_count_def
            WorkflowService_RespondActivityTaskFailed_Result_zero_def split: option.splits)
qed (auto simp: WorkflowService_RespondActivityTaskFailed_Helper_Args_def
    handler_RespondActivityTaskFailed_def client_RespondActivityTaskFailed_def
      WorkflowService_RespondActivityTaskFailed_Args_enveloper_def
          WorkflowService_RespondActivityTaskFailed_Result_enveloper_def
      Let_def split: sum.splits prod.splits)

section \<open>RespondActivityTaskFailedByID\<close>

record WorkflowService_RespondActivityTaskFailedByID_Args =
  FailRequest :: "RespondActivityTaskFailedByIDRequest option"

definition WorkflowService_RespondActivityTaskFailedByID_Args_zero ::
    WorkflowService_RespondActivityTaskFailedByID_Args where
  "WorkflowService_RespondActivityTaskFailedByID_Args_zero =
      \<lparr>WorkflowService_RespondActivityTaskFailedByID_Args.FailRequest = None\<rparr>"

definition WorkflowService_RespondActivityTaskFailedByID_Args_ToWire ::
  "'v wire_api \<Rightarrow> WorkflowService_RespondActivityTaskFailedByID_Args \<Rightarrow> go_error + 'v" where
  "WorkflowService_RespondActivityTaskFailedByID_Args_ToWire W v =
     and_then (put_opt 1 (RespondActivityTaskFailedByIDRequest_ToWire W)
         (WorkflowService_RespondActivityTaskFailedByID_Args.FailRequest v) [])
       (\<lambda>fields.
     Inr (NewValueStruct W fields))"

definition WorkflowService_RespondActivityTaskFailedByID_Args_FromWire ::
  "'v wire_api \<Rightarrow> 'v \<Rightarrow> WorkflowService_RespondActivityTaskFailedByID_Args \<Rightarrow> go_error +
      WorkflowService_RespondActivityTaskFailedByID_Args" where
  "WorkflowService_RespondActivityTaskFailedByID_Args_FromWire W w v =
     foldM (\<lambda>v (fid, fval).
       if fid = 1 then
         if wire_api.Type W fval = TStruct
         then and_then (RespondActivityTaskFailedByIDRequest_Read W fval) (\<lambda>x. Inr
             (v\<lparr>WorkflowService_RespondActivityTaskFailedByID_Args.FailRequest := Some x\<rparr>))
         else Inr v
       else Inr v) (GetStruct W w) v"

definition WorkflowService_RespondActivityTaskFailedByID_Args_enveloper ::
  "'v wire_api \<Rightarrow> WorkflowService_RespondActivityTaskFailedByID_Args \<Rightarrow> 'v enveloper" where
  "WorkflowService_RespondActivityTaskFailedByID_Args_enveloper W v =
     \<lparr>MethodName = ''RespondActivityTaskFailedByID'', EnvelopeType = Call, EnvelopeToWire =
         WorkflowService_RespondActivityTaskFailedByID_Args_ToWire W v\<rparr>"

definition WorkflowService_RespondActivityTaskFailedByID_Args_Equals ::
  "WorkflowService_RespondActivityTaskFailedByID_Args option \<Rightarrow>
      WorkflowService_RespondActivityTaskFailedByID_Args option \<Rightarrow> bool" where
  "WorkflowService_RespondActivityTaskFailedByID_Args_Equals v rhs =
     (case v of None \<Rightarrow> rhs = None
      | Some v \<Rightarrow> (case rhs of None \<Rightarrow> False
        | Some rhs \<Rightarrow>
          if \<not> both_set_and (\<lambda>x y. RespondActivityTaskFailedByIDRequest_Equals (Some x) (Some y))
              (WorkflowService_RespondActivityTaskFailedByID_Args.FailRequest v)
              (WorkflowService_RespondActivityTaskFailedByID_Args.FailRequest rhs) then False else
          True))"

lemma WorkflowService_RespondActivityTaskFailedByID_Args_Equals_iff [simp]:
    "WorkflowService_RespondActivityTaskFailedByID_Args_Equals x y \<longleftrightarrow> x = y"
  by (cases x; cases y) (auto simp: WorkflowService_RespondActivityTaskFailedByID_Args_Equals_def)

record WorkflowService_RespondActivityTaskFailedByID_Result =
  BadRequestError :: "BadRequestError option"
  InternalServiceError :: "InternalServiceError option"
  EntityNotExistError :: "EntityNotExistsError option"
  DomainNotActiveError :: "DomainNotActiveError option"
  LimitExceededError :: "LimitExceededError option"
  ServiceBusyError :: "ServiceBusyError option"
  ClientVersionNotSupportedError :: "ClientVersionNotSupportedError option"

definition WorkflowService_RespondActivityTaskFailedByID_Result_count ::
    "WorkflowService_RespondActivityTaskFailedByID_Result \<Rightarrow> nat" where
  "WorkflowService_RespondActivityTaskFailedByID_Result_count v =
     (if WorkflowService_RespondActivityTaskFailedByID_Result.BadRequestError v \<noteq> None then 1 else
         0) +
     (if WorkflowService_RespondActivityTaskFailedByID_Result.InternalServiceError v \<noteq> None then 1
         else 0) +
     (if WorkflowService_RespondActivityTaskFailedByID_Result.EntityNotExistError v \<noteq> None then 1
         else 0) +
     (if WorkflowService_RespondActivityTaskFailedByID_Result.DomainNotActiveError v \<noteq> None then 1
         else 0) +
     (if WorkflowService_RespondActivityTaskFailedByID_Result.LimitExceededError v \<noteq> None then 1
         else 0) +
     (if WorkflowService_RespondActivityTaskFailedByID_Result.ServiceBusyError v \<noteq> None then 1 else
         0) +
     (if WorkflowService_RespondActivityTaskFailedByID_Result.ClientVersionNotSupportedError v \<noteq>
         None then 1 else 0)"

definition WorkflowService_RespondActivityTaskFailedByID_Result_zero ::
    WorkflowService_RespondActivityTaskFailedByID_Result where
  "WorkflowService_RespondActivityTaskFailedByID_Result_zero =
      \<lparr>WorkflowService_RespondActivityTaskFailedByID_Result.BadRequestError = None,
      WorkflowService_RespondActivityTaskFailedByID_Result.InternalServiceError = None,
      WorkflowService_RespondActivityTaskFailedByID_Result.EntityNotExistError = None,
      WorkflowService_RespondActivityTaskFailedByID_Result.DomainNotActiveError = None,
      WorkflowService_RespondActivityTaskFailedByID_Result.LimitExceededError = None,
      WorkflowService_RespondActivityTaskFailedByID_Result.ServiceBusyError = None,
      WorkflowService_RespondActivityTaskFailedByID_Result.ClientVersionNotSupportedError = None\<rparr>"

definition WorkflowService_RespondActivityTaskFailedByID_Result_ToWire ::
  "'v wire_api \<Rightarrow> WorkflowService_RespondActivityTaskFailedByID_Result \<Rightarrow> go_error + 'v" where
  "WorkflowService_RespondActivityTaskFailedByID_Result_ToWire W v =
     and_then (put_opt 1 (BadRequestError_ToWire W)
         (WorkflowService_RespondActivityTaskFailedByID_Result.BadRequestError v) [])
       (\<lambda>fields.
     and_then (put_opt 2 (InternalServiceError_ToWire W)
         (WorkflowService_RespondActivityTaskFailedByID_Result.InternalServiceError v) fields)
       (\<lambda>fields.
     and_then (put_opt 3 (EntityNotExistsError_ToWire W)
         (WorkflowService_RespondActivityTaskFailedByID_Result.EntityNotExistError v) fields)
       (\<lambda>fields.
     and_then (put_opt 4 (DomainNotActiveError_ToWire W)
         (WorkflowService_RespondActivityTaskFailedByID_Result.DomainNotActiveError v) fields)
       (\<lambda>fields.
     and_then (put_opt 5 (LimitExceededError_ToWire W)
         (WorkflowService_RespondActivityTaskFailedByID_Result.LimitExceededError v) fields)
       (\<lambda>fields.
     and_then (put_opt 6 (ServiceBusyError_ToWire W)
         (WorkflowService_RespondActivityTaskFailedByID_Result.ServiceBusyError v) fields)
       (\<lambda>fields.
     and_then (put_opt 7 (ClientVersionNotSupportedError_ToWire W)
         (WorkflowService_RespondActivityTaskFailedByID_Result.ClientVersionNotSupportedError v)
         fields)
       (\<lambda>fields.
     if 1 < length fields
     then Inl (E_Errorf
         ''WorkflowService_RespondActivityTaskFailedByID_Result should have at most one field: got %v fields'' (length fields))
     else Inr (NewValueStruct W fields))))))))"

definition WorkflowService_RespondActivityTaskFailedByID_Result_FromWire ::
  "'v wire_api \<Rightarrow> 'v \<Rightarrow> WorkflowService_RespondActivityTaskFailedByID_Result \<Rightarrow> go_error +
      WorkflowService_RespondActivityTaskFailedByID_Result" where
  "WorkflowService_RespondActivityTaskFailedByID_Result_FromWire W w v =
     and_then (foldM (\<lambda>v (fid, fval).
       if fid = 1 then
         if wire_api.Type W fval = TStruct
         then and_then (BadRequestError_Read W fval) (\<lambda>x. Inr
             (v\<lparr>WorkflowService_RespondActivityTaskFailedByID_Result.BadRequestError := Some x\<rparr>))
         else Inr v
       else if fid = 2 then
         if wire_api.Type W fval = TStruct
         then and_then (InternalServiceError_Read W fval) (\<lambda>x. Inr
             (v\<lparr>WorkflowService_RespondActivityTaskFailedByID_Result.InternalServiceError := Some
             x\<rparr>))
         else Inr v
       else if fid = 3 then
         if wire_api.Type W fval = TStruct
         then and_then (EntityNotExistsError_Read W fval) (\<lambda>x. Inr
             (v\<lparr>WorkflowService_RespondActivityTaskFailedByID_Result.EntityNotExistError := Some
             x\<rparr>))
         else Inr v
       else if fid = 4 then
         if wire_api.Type W fval = TStruct
         then and_then (DomainNotActiveError_Read W fval) (\<lambda>x. Inr
             (v\<lparr>WorkflowService_RespondActivityTaskFailedByID_Result.DomainNotActiveError := Some
             x\<rparr>))
         else Inr v
       else if fid = 5 then
         if wire_api.Type W fval = TStruct
         then and_then (LimitExceededError_Read W fval) (\<lambda>x. Inr
             (v\<lparr>WorkflowService_RespondActivityTaskFailedByID_Result.LimitExceededError := Some x\<rparr>))
         else Inr v
       else if fid = 6 then
         if wire_api.Type W fval = TStruct
         then and_then (ServiceBusyError_Read W fval) (\<lambda>x. Inr
             (v\<lparr>WorkflowService_RespondActivityTaskFailedByID_Result.ServiceBusyError := Some x\<rparr>))
         else Inr v
       else if fid = 7 then
         if wire_api.Type W fval = TStruct
         then and_then (ClientVersionNotSupportedError_Read W fval) (\<lambda>x. Inr
             (v\<lparr>WorkflowService_RespondActivityTaskFailedByID_Result.ClientVersionNotSupportedError
             := Some x\<rparr>))
         else Inr v
       else Inr v) (GetStruct W w) v) (\<lambda>v.
     let count = WorkflowService_RespondActivityTaskFailedByID_Result_count v in
     if 1 < count
     then Inl (E_Errorf
         ''WorkflowService_RespondActivityTaskFailedByID_Result should have at most one field: got %v fields'' count)
     else Inr v)"

definition WorkflowService_RespondActivityTaskFailedByID_Result_enveloper ::
  "'v wire_api \<Rightarrow> WorkflowService_RespondActivityTaskFailedByID_Result \<Rightarrow> 'v enveloper" where
  "WorkflowService_RespondActivityTaskFailedByID_Result_enveloper W v =
     \<lparr>MethodName = ''RespondActivityTaskFailedByID'', EnvelopeType = Reply, EnvelopeToWire =
         WorkflowService_RespondActivityTaskFailedByID_Result_ToWire W v\<rparr>"

definition WorkflowService_RespondActivityTaskFailedByID_Result_Equals ::
  "WorkflowService_RespondActivityTaskFailedByID_Result option \<Rightarrow>
      WorkflowService_RespondActivityTaskFailedByID_Result option \<Rightarrow> bool" where
  "WorkflowService_RespondActivityTaskFailedByID_Result_Equals v rhs =
     (case v of None \<Rightarrow> rhs = None
      | Some v \<Rightarrow> (case rhs of None \<Rightarrow> False
        | Some rhs \<Rightarrow>
          if \<not> both_set_and (\<lambda>x y. BadRequestError_Equals (Some x) (Some y))
              (WorkflowService_RespondActivityTaskFailedByID_Result.BadRequestError v)
              (WorkflowService_RespondActivityTaskFailedByID_Result.BadRequestError rhs) then False
              else
          if \<not> both_set_and (\<lambda>x y. InternalServiceError_Equals (Some x) (Some y))
              (WorkflowService_RespondActivityTaskFailedByID_Result.InternalServiceError v)
              (WorkflowService_RespondActivityTaskFailedByID_Result.InternalServiceError rhs) then
              False else
          if \<not> both_set_and (\<lambda>x y. EntityNotExistsError_Equals (Some x) (Some y))
              (WorkflowService_RespondActivityTaskFailedByID_Result.EntityNotExistError v)
              (WorkflowService_RespondActivityTaskFailedByID_Result.EntityNotExistError rhs) then
              False else
          if \<not> both_set_and (\<lambda>x y. DomainNotActiveError_Equals (Some x) (Some y))
              (WorkflowService_RespondActivityTaskFailedByID_Result.DomainNotActiveError v)
              (WorkflowService_RespondActivityTaskFailedByID_Result.DomainNotActiveError rhs) then
              False else
          if \<not> both_set_and (\<lambda>x y. LimitExceededError_Equals (Some x) (Some y))
              (WorkflowService_RespondActivityTaskFailedByID_Result.LimitExceededError v)
              (WorkflowService_RespondActivityTaskFailedByID_Result.LimitExceededError rhs) then
              False else
          if \<not> both_set_and (\<lambda>x y. ServiceBusyError_Equals (Some x) (Some y))
              (WorkflowService_RespondActivityTaskFailedByID_Result.ServiceBusyError v)
              (WorkflowService_RespondActivityTaskFailedByID_Result.ServiceBusyError rhs) then False
              else
          if \<not> both_set_and (\<lambda>x y. ClientVersionNotSupportedError_Equals (Some x) (Some y))
              (WorkflowService_RespondActivityTaskFailedByID_Result.ClientVersionNotSupportedError
              v)
              (WorkflowService_RespondActivityTaskFailedByID_Result.ClientVersionNotSupportedError
              rhs) then False else
          True))"

lemma WorkflowService_RespondActivityTaskFailedByID_Result_Equals_iff [simp]:
    "WorkflowService_RespondActivityTaskFailedByID_Result_Equals x y \<longleftrightarrow> x = y"
  by (cases x; cases y) (simp_all add:
      WorkflowService_RespondActivityTaskFailedByID_Result_Equals_def if_not_False, fastforce intro:
      WorkflowService_RespondActivityTaskFailedByID_Result.equality)

definition WorkflowService_RespondActivityTaskFailedByID_Helper_Args ::
    "RespondActivityTaskFailedByIDRequest option \<Rightarrow>
    WorkflowService_RespondActivityTaskFailedByID_Args" where
  "WorkflowService_RespondActivityTaskFailedByID_Helper_Args r =
      \<lparr>WorkflowService_RespondActivityTaskFailedByID_Args.FailRequest = r\<rparr>"

definition WorkflowService_RespondActivityTaskFailedByID_Helper_IsException :: "go_error \<Rightarrow> bool"
    where
  "WorkflowService_RespondActivityTaskFailedByID_Helper_IsException err =
     (case err of
        E_BadRequestError _ \<Rightarrow> True
      | E_InternalServiceError _ \<Rightarrow> True
      | E_EntityNotExistsError _ \<Rightarrow> True
      | E_DomainNotActiveError _ \<Rightarrow> True
      | E_LimitExceededError _ \<Rightarrow> True
      | E_ServiceBusyError _ \<Rightarrow> True
      | E_ClientVersionNotSupportedError _ \<Rightarrow> True
      | _ \<Rightarrow> False)"

definition WorkflowService_RespondActivityTaskFailedByID_Helper_WrapResponse ::
  "go_error option \<Rightarrow> go_error + WorkflowService_RespondActivityTaskFailedByID_Result" where
  "WorkflowService_RespondActivityTaskFailedByID_Helper_WrapResponse err =
     (case err of None \<Rightarrow> Inr WorkflowService_RespondActivityTaskFailedByID_Result_zero
      | Some err \<Rightarrow> (case err of
          E_BadRequestError e \<Rightarrow> (case e of
              None \<Rightarrow> Inl (E_New
                  ''WrapResponse received non-nil error type with nil value for WorkflowService_RespondActivityTaskFailedByID_Result.BadRequestError'')
            | Some e \<Rightarrow> Inr
                (WorkflowService_RespondActivityTaskFailedByID_Result_zero\<lparr>WorkflowService_RespondActivityTaskFailedByID_Result.BadRequestError := Some e\<rparr>))
        | E_InternalServiceError e \<Rightarrow> (case e of
              None \<Rightarrow> Inl (E_New
                  ''WrapResponse received non-nil error type with nil value for WorkflowService_RespondActivityTaskFailedByID_Result.InternalServiceError'')
            | Some e \<Rightarrow> Inr
                (WorkflowService_RespondActivityTaskFailedByID_Result_zero\<lparr>WorkflowService_RespondActivityTaskFailedByID_Result.InternalServiceError := Some e\<rparr>))
        | E_EntityNotExistsError e \<Rightarrow> (case e of
              None \<Rightarrow> Inl (E_New
                  ''WrapResponse received non-nil error type with nil value for WorkflowService_RespondActivityTaskFailedByID_Result.EntityNotExistError'')
            | Some e \<Rightarrow> Inr
                (WorkflowService_RespondActivityTaskFailedByID_Result_zero\<lparr>WorkflowService_RespondActivityTaskFailedByID_Result.EntityNotExistError := Some e\<rparr>))
        | E_DomainNotActiveError e \<Rightarrow> (case e of
              None \<Rightarrow> Inl (E_New
                  ''WrapResponse received non-nil error type with nil value for WorkflowService_RespondActivityTaskFailedByID_Result.DomainNotActiveError'')
            | Some e \<Rightarrow> Inr
                (WorkflowService_RespondActivityTaskFailedByID_Result_zero\<lparr>WorkflowService_RespondActivityTaskFailedByID_Result.DomainNotActiveError := Some e\<rparr>))
        | E_LimitExceededError e \<Rightarrow> (case e of
              None \<Rightarrow> Inl (E_New
                  ''WrapResponse received non-nil error type with nil value for WorkflowService_RespondActivityTaskFailedByID_Result.LimitExceededError'')
            | Some e \<Rightarrow> Inr
                (WorkflowService_RespondActivityTaskFailedByID_Result_zero\<lparr>WorkflowService_RespondActivityTaskFailedByID_Result.LimitExceededError := Some e\<rparr>))
        | E_ServiceBusyError e \<Rightarrow> (case e of
              None \<Rightarrow> Inl (E_New
                  ''WrapResponse received non-nil error type with nil value for WorkflowService_RespondActivityTaskFailedByID_Result.ServiceBusyError'')
            | Some e \<Rightarrow> Inr
                (WorkflowService_RespondActivityTaskFailedByID_Result_zero\<lparr>WorkflowService_RespondActivityTaskFailedByID_Result.ServiceBusyError := Some e\<rparr>))
        | E_ClientVersionNotSupportedError e \<Rightarrow> (case e of
              None \<Rightarrow> Inl (E_New
                  ''WrapResponse received non-nil error type with nil value for WorkflowService_RespondActivityTaskFailedByID_Result.ClientVersionNotSupportedError'')
            | Some e \<Rightarrow> Inr
                (WorkflowService_RespondActivityTaskFailedByID_Result_zero\<lparr>WorkflowService_RespondActivityTaskFailedByID_Result.ClientVersionNotSupportedError := Some e\<rparr>))
        | _ \<Rightarrow> Inl err))"

definition WorkflowService_RespondActivityTaskFailedByID_Helper_UnwrapResponse ::
  "WorkflowService_RespondActivityTaskFailedByID_Result \<Rightarrow> go_error option" where
  "WorkflowService_RespondActivityTaskFailedByID_Helper_UnwrapResponse result =
    (if WorkflowService_RespondActivityTaskFailedByID_Result.BadRequestError result \<noteq> None then Some
        (E_BadRequestError (WorkflowService_RespondActivityTaskFailedByID_Result.BadRequestError
        result)) else
     if WorkflowService_RespondActivityTaskFailedByID_Result.InternalServiceError result \<noteq> None then
         Some (E_InternalServiceError
         (WorkflowService_RespondActivityTaskFailedByID_Result.InternalServiceError result)) else
     if WorkflowService_RespondActivityTaskFailedByID_Result.EntityNotExistError result \<noteq> None then
         Some (E_EntityNotExistsError
         (WorkflowService_RespondActivityTaskFailedByID_Result.EntityNotExistError result)) else
     if WorkflowService_RespondActivityTaskFailedByID_Result.DomainNotActiveError result \<noteq> None then
         Some (E_DomainNotActiveError
         (WorkflowService_RespondActivityTaskFailedByID_Result.DomainNotActiveError result)) else
     if WorkflowService_RespondActivityTaskFailedByID_Result.LimitExceededError result \<noteq> None then
         Some (E_LimitExceededError
         (WorkflowService_RespondActivityTaskFailedByID_Result.LimitExceededError result)) else
     if WorkflowService_RespondActivityTaskFailedByID_Result.ServiceBusyError result \<noteq> None then
         Some (E_ServiceBusyError
         (WorkflowService_RespondActivityTaskFailedByID_Result.ServiceBusyError result)) else
     if WorkflowService_RespondActivityTaskFailedByID_Result.ClientVersionNotSupportedError result \<noteq>
         None then Some (E_ClientVersionNotSupportedError
         (WorkflowService_RespondActivityTaskFailedByID_Result.ClientVersionNotSupportedError
         result)) else
     None)"

definition handler_RespondActivityTaskFailedByID ::
  "'v wire_api \<Rightarrow> ('ctx \<Rightarrow> RespondActivityTaskFailedByIDRequest option \<Rightarrow> go_error option) \<Rightarrow>
   ('ctx, 'v) unary_handler" where
  "handler_RespondActivityTaskFailedByID W impl ctx body =
     (case WorkflowService_RespondActivityTaskFailedByID_Args_FromWire W body
         WorkflowService_RespondActivityTaskFailedByID_Args_zero of
      Inl err \<Rightarrow> (no_response, Some err)
    | Inr args \<Rightarrow>
      let err = impl ctx (WorkflowService_RespondActivityTaskFailedByID_Args.FailRequest args);
          hadError = (err \<noteq> None)
      in case WorkflowService_RespondActivityTaskFailedByID_Helper_WrapResponse err of
           Inl err \<Rightarrow> (no_response, Some err)
         | Inr result \<Rightarrow>
             (\<lparr>Body = Some (WorkflowService_RespondActivityTaskFailedByID_Result_enveloper W
                 result),
               IsApplicationError = hadError\<rparr>, None))"

definition client_RespondActivityTaskFailedByID ::
  "'v wire_api \<Rightarrow> ('ctx, 'v) thrift_client \<Rightarrow> 'ctx \<Rightarrow> RespondActivityTaskFailedByIDRequest option \<Rightarrow>
   go_error option" where
  "client_RespondActivityTaskFailedByID W call ctx r =
     (let args = WorkflowService_RespondActivityTaskFailedByID_Helper_Args r in
      case call ctx (WorkflowService_RespondActivityTaskFailedByID_Args_enveloper W args) of
        Inl e \<Rightarrow> Some e
      | Inr body \<Rightarrow>
          (case WorkflowService_RespondActivityTaskFailedByID_Result_FromWire W body
              WorkflowService_RespondActivityTaskFailedByID_Result_zero of
             Inl e \<Rightarrow> Some e
           | Inr result \<Rightarrow> WorkflowService_RespondActivityTaskFailedByID_Helper_UnwrapResponse
               result))"

lemma WorkflowService_RespondActivityTaskFailedByID_Args_merge:
  "(case x of None \<Rightarrow> Inr \<lparr>WorkflowService_RespondActivityTaskFailedByID_Args.FailRequest = a0\<rparr> |
      Some y \<Rightarrow> Inr \<lparr>WorkflowService_RespondActivityTaskFailedByID_Args.FailRequest = b0 y\<rparr>) =
   Inr \<lparr>WorkflowService_RespondActivityTaskFailedByID_Args.FailRequest = (case x of None \<Rightarrow> a0 | Some
       y \<Rightarrow> b0 y)\<rparr>"
  by (cases x) simp_all

interpretation WorkflowService_RespondActivityTaskFailedByID_Args: thrift_struct W
  "WorkflowService_RespondActivityTaskFailedByID_Args_ToWire W"
      "WorkflowService_RespondActivityTaskFailedByID_Args_FromWire W"
  WorkflowService_RespondActivityTaskFailedByID_Args_zero "\<lambda>x. True" for W
proof (rule thrift_structI)
  fix x :: WorkflowService_RespondActivityTaskFailedByID_Args
  assume laws: "wire_laws W"
  obtain enc0 where e0: "RespondActivityTaskFailedByIDRequest_ToWire W = (\<lambda>x. Inr (enc0 x))"
      "\<And>x. wire_api.Type W (enc0 x) = TStruct"
      "\<And>x. Writable W (enc0 x) \<longleftrightarrow> (\<lambda>_. True) x"
      "\<And>x. (\<lambda>_. True) x \<Longrightarrow> RespondActivityTaskFailedByIDRequest_FromWire W (enc0 x)
          RespondActivityTaskFailedByIDRequest_zero = Inr x"
    by (rule RespondActivityTaskFailedByIDRequest.encoder [OF laws]) (rule that)
  show "\<exists>w. WorkflowService_RespondActivityTaskFailedByID_Args_ToWire W x = Inr w \<and> wire_api.Type W
      w = TStruct \<and>
      (Writable W w \<longleftrightarrow> True) \<and> (True \<longrightarrow> WorkflowService_RespondActivityTaskFailedByID_Args_FromWire W
          w WorkflowService_RespondActivityTaskFailedByID_Args_zero = Inr x)"
    by (cases x) (simp cong: option.case_cong add: codec_rules
        WorkflowService_RespondActivityTaskFailedByID_Args_merge
        WorkflowService_RespondActivityTaskFailedByID_Args_ToWire_def
        WorkflowService_RespondActivityTaskFailedByID_Args_FromWire_def
      WorkflowService_RespondActivityTaskFailedByID_Args_zero_def
          RespondActivityTaskFailedByIDRequest_Read_def if_set_def laws e0)
qed

lemma WorkflowService_RespondActivityTaskFailedByID_Result_merge:
  "(case x of None \<Rightarrow> Inr \<lparr>WorkflowService_RespondActivityTaskFailedByID_Result.BadRequestError = a0,
      WorkflowService_RespondActivityTaskFailedByID_Result.InternalServiceError = a1,
      WorkflowService_RespondActivityTaskFailedByID_Result.EntityNotExistError = a2,
      WorkflowService_RespondActivityTaskFailedByID_Result.DomainNotActiveError = a3,
      WorkflowService_RespondActivityTaskFailedByID_Result.LimitExceededError = a4,
      WorkflowService_RespondActivityTaskFailedByID_Result.ServiceBusyError = a5,
      WorkflowService_RespondActivityTaskFailedByID_Result.ClientVersionNotSupportedError = a6\<rparr> |
      Some y \<Rightarrow> Inr \<lparr>WorkflowService_RespondActivityTaskFailedByID_Result.BadRequestError = b0 y,
      WorkflowService_RespondActivityTaskFailedByID_Result.InternalServiceError = b1 y,
      WorkflowService_RespondActivityTaskFailedByID_Result.EntityNotExistError = b2 y,
      WorkflowService_RespondActivityTaskFailedByID_Result.DomainNotActiveError = b3 y,
      WorkflowService_RespondActivityTaskFailedByID_Result.LimitExceededError = b4 y,
      WorkflowService_RespondActivityTaskFailedByID_Result.ServiceBusyError = b5 y,
      WorkflowService_RespondActivityTaskFailedByID_Result.ClientVersionNotSupportedError = b6 y\<rparr>) =
   Inr \<lparr>WorkflowService_RespondActivityTaskFailedByID_Result.BadRequestError = (case x of None \<Rightarrow> a0
       | Some y \<Rightarrow> b0 y), WorkflowService_RespondActivityTaskFailedByID_Result.InternalServiceError =
       (case x of None \<Rightarrow> a1 | Some y \<Rightarrow> b1 y),
       WorkflowService_RespondActivityTaskFailedByID_Result.EntityNotExistError = (case x of None \<Rightarrow>
       a2 | Some y \<Rightarrow> b2 y),
       WorkflowService_RespondActivityTaskFailedByID_Result.DomainNotActiveError = (case x of None \<Rightarrow>
       a3 | Some y \<Rightarrow> b3 y), WorkflowService_RespondActivityTaskFailedByID_Result.LimitExceededError
       = (case x of None \<Rightarrow> a4 | Some y \<Rightarrow> b4 y),
       WorkflowService_RespondActivityTaskFailedByID_Result.ServiceBusyError = (case x of None \<Rightarrow> a5
       | Some y \<Rightarrow> b5 y),
       WorkflowService_RespondActivityTaskFailedByID_Result.ClientVersionNotSupportedError = (case x
       of None \<Rightarrow> a6 | Some y \<Rightarrow> b6 y)\<rparr>"
  by (cases x) simp_all

interpretation WorkflowService_RespondActivityTaskFailedByID_Result: thrift_struct W
  "WorkflowService_RespondActivityTaskFailedByID_Result_ToWire W"
      "WorkflowService_RespondActivityTaskFailedByID_Result_FromWire W"
  WorkflowService_RespondActivityTaskFailedByID_Result_zero "\<lambda>r.
      WorkflowService_RespondActivityTaskFailedByID_Result_count r \<le> 1" for W
proof (rule thrift_checked_plainI)
  fix x :: WorkflowService_RespondActivityTaskFailedByID_Result
  assume laws: "wire_laws W"
  obtain enc0 where e0: "BadRequestError_ToWire W = (\<lambda>x. Inr (enc0 x))"
      "\<And>x. wire_api.Type W (enc0 x) = TStruct"
      "\<And>x. Writable W (enc0 x) \<longleftrightarrow> (\<lambda>_. True) x"
      "\<And>x. (\<lambda>_. True) x \<Longrightarrow> BadRequestError_FromWire W (enc0 x) BadRequestError_zero = Inr x"
    by (rule BadRequestError.encoder [OF laws]) (rule that)
  obtain enc1 where e1: "InternalServiceError_ToWire W = (\<lambda>x. Inr (enc1 x))"
      "\<And>x. wire_api.Type W (enc1 x) = TStruct"
      "\<And>x. Writable W (enc1 x) \<longleftrightarrow> (\<lambda>_. True) x"
      "\<And>x. (\<lambda>_. True) x \<Longrightarrow> InternalServiceError_FromWire W (enc1 x) InternalServiceError_zero = Inr
          x"
    by (rule InternalServiceError.encoder [OF laws]) (rule that)
  obtain enc2 where e2: "EntityNotExistsError_ToWire W = (\<lambda>x. Inr (enc2 x))"
      "\<And>x. wire_api.Type W (enc2 x) = TStruct"
      "\<And>x. Writable W (enc2 x) \<longleftrightarrow> (\<lambda>_. True) x"
      "\<And>x. (\<lambda>_. True) x \<Longrightarrow> EntityNotExistsError_FromWire W (enc2 x) EntityNotExistsError_zero = Inr
          x"
    by (rule EntityNotExistsError.encoder [OF laws]) (rule that)
  obtain enc3 where e3: "DomainNotActiveError_ToWire W = (\<lambda>x. Inr (enc3 x))"
      "\<And>x. wire_api.Type W (enc3 x) = TStruct"
      "\<And>x. Writable W (enc3 x) \<longleftrightarrow> (\<lambda>_. True) x"
      "\<And>x. (\<lambda>_. True) x \<Longrightarrow> DomainNotActiveError_FromWire W (enc3 x) DomainNotActiveError_zero = Inr
          x"
    by (rule DomainNotActiveError.encoder [OF laws]) (rule that)
  obtain enc4 where e4: "LimitExceededError_ToWire W = (\<lambda>x. Inr (enc4 x))"
      "\<And>x. wire_api.Type W (enc4 x) = TStruct"
      "\<And>x. Writable W (enc4 x) \<longleftrightarrow> (\<lambda>_. True) x"
      "\<And>x. (\<lambda>_. True) x \<Longrightarrow> LimitExceededError_FromWire W (enc4 x) LimitExceededError_zero = Inr x"
    by (rule LimitExceededError.encoder [OF laws]) (rule that)
  obtain enc5 where e5: "ServiceBusyError_ToWire W = (\<lambda>x. Inr (enc5 x))"
      "\<And>x. wire_api.Type W (enc5 x) = TStruct"
      "\<And>x. Writable W (enc5 x) \<longleftrightarrow> (\<lambda>_. True) x"
      "\<And>x. (\<lambda>_. True) x \<Longrightarrow> ServiceBusyError_FromWire W (enc5 x) ServiceBusyError_zero = Inr x"
    by (rule ServiceBusyError.encoder [OF laws]) (rule that)
  obtain enc6 where e6: "ClientVersionNotSupportedError_ToWire W = (\<lambda>x. Inr (enc6 x))"
      "\<And>x. wire_api.Type W (enc6 x) = TStruct"
      "\<And>x. Writable W (enc6 x) \<longleftrightarrow> (\<lambda>_. True) x"
      "\<And>x. (\<lambda>_. True) x \<Longrightarrow> ClientVersionNotSupportedError_FromWire W (enc6 x)
          ClientVersionNotSupportedError_zero = Inr x"
    by (rule ClientVersionNotSupportedError.encoder [OF laws]) (rule that)
  let ?fs = "(((((opt_field 1 enc0
      (WorkflowService_RespondActivityTaskFailedByID_Result.BadRequestError x) @
      opt_field 2 enc1 (WorkflowService_RespondActivityTaskFailedByID_Result.InternalServiceError
          x)) @
      opt_field 3 enc2 (WorkflowService_RespondActivityTaskFailedByID_Result.EntityNotExistError x))
          @
      opt_field 4 enc3 (WorkflowService_RespondActivityTaskFailedByID_Result.DomainNotActiveError
          x)) @
      opt_field 5 enc4 (WorkflowService_RespondActivityTaskFailedByID_Result.LimitExceededError x))
          @
      opt_field 6 enc5 (WorkflowService_RespondActivityTaskFailedByID_Result.ServiceBusyError x)) @
      opt_field 7 enc6
          (WorkflowService_RespondActivityTaskFailedByID_Result.ClientVersionNotSupportedError x)"
  let ?check = "\<lambda>r. if 1 < WorkflowService_RespondActivityTaskFailedByID_Result_count x then Inl
      (E_Errorf
      ''WorkflowService_RespondActivityTaskFailedByID_Result should have at most one field: got %v fields'' (WorkflowService_RespondActivityTaskFailedByID_Result_count x)) else Inr r"
  have "length ?fs = WorkflowService_RespondActivityTaskFailedByID_Result_count x"
    by (simp add: WorkflowService_RespondActivityTaskFailedByID_Result_count_def length_opt_field
        split del: if_split)
  then have "WorkflowService_RespondActivityTaskFailedByID_Result_ToWire W x = ?check
      (NewValueStruct W ?fs)"
    by (simp only: WorkflowService_RespondActivityTaskFailedByID_Result_ToWire_def put_opt_field
        and_then.simps append_Nil e0(1) e1(1) e2(1) e3(1) e4(1) e5(1) e6(1))
  moreover have "WorkflowService_RespondActivityTaskFailedByID_Result_FromWire W (NewValueStruct W
      ?fs) WorkflowService_RespondActivityTaskFailedByID_Result_zero = ?check x"
    by (cases x, hypsubst) (simp cong: option.case_cong split del: if_split add: codec_rules Let_def
        WorkflowService_RespondActivityTaskFailedByID_Result_merge
      WorkflowService_RespondActivityTaskFailedByID_Result_FromWire_def
          WorkflowService_RespondActivityTaskFailedByID_Result_zero_def laws
      BadRequestError_Read_def
      ClientVersionNotSupportedError_Read_def
      DomainNotActiveError_Read_def
      EntityNotExistsError_Read_def
      InternalServiceError_Read_def
      LimitExceededError_Read_def
      ServiceBusyError_Read_def
      e0 e1 e2 e3 e4 e5 e6)
  ultimately show "if WorkflowService_RespondActivityTaskFailedByID_Result_count x \<le> 1
      then \<exists>w. WorkflowService_RespondActivityTaskFailedByID_Result_ToWire W x = Inr w \<and>
          wire_api.Type W w = TStruct \<and>
        Writable W w \<and> WorkflowService_RespondActivityTaskFailedByID_Result_FromWire W w
            WorkflowService_RespondActivityTaskFailedByID_Result_zero = Inr x
      else \<exists>e. WorkflowService_RespondActivityTaskFailedByID_Result_ToWire W x = Inl e"
    by (simp add: laws codec_rules e0 e1 e2 e3 e4 e5 e6)
qed

interpretation RespondActivityTaskFailedByID: rpc_method W
  "WorkflowService_RespondActivityTaskFailedByID_Args_ToWire W"
      "WorkflowService_RespondActivityTaskFailedByID_Args_FromWire W"
      WorkflowService_RespondActivityTaskFailedByID_Args_zero "\<lambda>x. True"
  "WorkflowService_RespondActivityTaskFailedByID_Result_ToWire W"
      "WorkflowService_RespondActivityTaskFailedByID_Result_FromWire W"
      WorkflowService_RespondActivityTaskFailedByID_Result_zero
  "\<lambda>r. WorkflowService_RespondActivityTaskFailedByID_Result_count r \<le> 1"
      "''RespondActivityTaskFailedByID''"
  WorkflowService_RespondActivityTaskFailedByID_Helper_Args
      "WorkflowService_RespondActivityTaskFailedByID_Args.FailRequest"
  "WorkflowService_RespondActivityTaskFailedByID_Helper_WrapResponse"
      WorkflowService_RespondActivityTaskFailedByID_Helper_UnwrapResponse
  "\<lambda>out. out \<noteq> None" "carried_void WorkflowService_RespondActivityTaskFailedByID_Helper_IsException"
      id "\<lambda>e. Some e"
  "handler_RespondActivityTaskFailedByID W" "client_RespondActivityTaskFailedByID W" for W
proof
  fix out :: "go_error option"
  assume "carried_void WorkflowService_RespondActivityTaskFailedByID_Helper_IsException out"
  then show "case (WorkflowService_RespondActivityTaskFailedByID_Helper_WrapResponse) out of Inl e \<Rightarrow>
      False
      | Inr res \<Rightarrow> (WorkflowService_RespondActivityTaskFailedByID_Result_count res \<le> 1) \<and>
          WorkflowService_RespondActivityTaskFailedByID_Helper_UnwrapResponse res = id out"
    by (cases out; cases "the out")
      (auto simp: WorkflowService_RespondActivityTaskFailedByID_Helper_IsException_def
          WorkflowService_RespondActivityTaskFailedByID_Helper_WrapResponse_def
          WorkflowService_RespondActivityTaskFailedByID_Helper_UnwrapResponse_def
        declared_nonnil_def WorkflowService_RespondActivityTaskFailedByID_Result_zero_def
            WorkflowService_RespondActivityTaskFailedByID_Result_count_def elim!: present.elims)
next
  fix out :: "go_error option"
  assume "\<not> carried_void WorkflowService_RespondActivityTaskFailedByID_Helper_IsException out"
  then show "case (WorkflowService_RespondActivityTaskFailedByID_Helper_WrapResponse) out of Inl e \<Rightarrow>
      True
      | Inr res \<Rightarrow> \<not> (WorkflowService_RespondActivityTaskFailedByID_Result_count res \<le> 1)"
    by (cases out; cases "the out")
      (auto simp: WorkflowService_RespondActivityTaskFailedByID_Helper_IsException_def
          WorkflowService_RespondActivityTaskFailedByID_Helper_WrapResponse_def declared_nonnil_def
        WorkflowService_RespondActivityTaskFailedByID_Result_count_def
            WorkflowService_RespondActivityTaskFailedByID_Result_zero_def split: option.splits)
qed (auto simp: WorkflowService_RespondActivityTaskFailedByID_Helper_Args_def
    handler_RespondActivityTaskFailedByID_def client_RespondActivityTaskFailedByID_def
      WorkflowService_RespondActivityTaskFailedByID_Args_enveloper_def
          WorkflowService_RespondActivityTaskFailedByID_Result_enveloper_def
      Let_def split: sum.splits prod.splits)

section \<open>RespondActivityTaskCanceled\<close>

record WorkflowService_RespondActivityTaskCanceled_Args =
  CanceledRequest :: "RespondActivityTaskCanceledRequest option"

definition WorkflowService_RespondActivityTaskCanceled_Args_zero ::
    WorkflowService_RespondActivityTaskCanceled_Args where
  "WorkflowService_RespondActivityTaskCanceled_Args_zero =
      \<lparr>WorkflowService_RespondActivityTaskCanceled_Args.CanceledRequest = None\<rparr>"

definition WorkflowService_RespondActivityTaskCanceled_Args_ToWire ::
  "'v wire_api \<Rightarrow> WorkflowService_RespondActivityTaskCanceled_Args \<Rightarrow> go_error + 'v" where
  "WorkflowService_RespondActivityTaskCanceled_Args_ToWire W v =
     and_then (put_opt 1 (RespondActivityTaskCanceledRequest_ToWire W)
         (WorkflowService_RespondActivityTaskCanceled_Args.CanceledRequest v) [])
       (\<lambda>fields.
     Inr (NewValueStruct W fields))"

definition WorkflowService_RespondActivityTaskCanceled_Args_FromWire ::
  "'v wire_api \<Rightarrow> 'v \<Rightarrow> WorkflowService_RespondActivityTaskCanceled_Args \<Rightarrow> go_error +
      WorkflowService_RespondActivityTaskCanceled_Args" where
  "WorkflowService_RespondActivityTaskCanceled_Args_FromWire W w v =
     foldM (\<lambda>v (fid, fval).
       if fid = 1 then
         if wire_api.Type W fval = TStruct
         then and_then (RespondActivityTaskCanceledRequest_Read W fval) (\<lambda>x. Inr
             (v\<lparr>WorkflowService_RespondActivityTaskCanceled_Args.CanceledRequest := Some x\<rparr>))
         else Inr v
       else Inr v) (GetStruct W w) v"

definition WorkflowService_RespondActivityTaskCanceled_Args_enveloper ::
  "'v wire_api \<Rightarrow> WorkflowService_RespondActivityTaskCanceled_Args \<Rightarrow> 'v enveloper" where
  "WorkflowService_RespondActivityTaskCanceled_Args_enveloper W v =
     \<lparr>MethodName = ''RespondActivityTaskCanceled'', EnvelopeType = Call, EnvelopeToWire =
         WorkflowService_RespondActivityTaskCanceled_Args_ToWire W v\<rparr>"

definition WorkflowService_RespondActivityTaskCanceled_Args_Equals ::
  "WorkflowService_RespondActivityTaskCanceled_Args option \<Rightarrow>
      WorkflowService_RespondActivityTaskCanceled_Args option \<Rightarrow> bool" where
  "WorkflowService_RespondActivityTaskCanceled_Args_Equals v rhs =
     (case v of None \<Rightarrow> rhs = None
      | Some v \<Rightarrow> (case rhs of None \<Rightarrow> False
        | Some rhs \<Rightarrow>
          if \<not> both_set_and (\<lambda>x y. RespondActivityTaskCanceledRequest_Equals (Some x) (Some y))
              (WorkflowService_RespondActivityTaskCanceled_Args.CanceledRequest v)
              (WorkflowService_RespondActivityTaskCanceled_Args.CanceledRequest rhs) then False else
          True))"

lemma WorkflowService_RespondActivityTaskCanceled_Args_Equals_iff [simp]:
    "WorkflowService_RespondActivityTaskCanceled_Args_Equals x y \<longleftrightarrow> x = y"
  by (cases x; cases y) (auto simp: WorkflowService_RespondActivityTaskCanceled_Args_Equals_def)

record WorkflowService_RespondActivityTaskCanceled_Result =
  BadRequestError :: "BadRequestError option"
  InternalServiceError :: "InternalServiceError option"
  EntityNotExistError :: "EntityNotExistsError option"
  DomainNotActiveError :: "DomainNotActiveError option"
  LimitExceededError :: "LimitExceededError option"
  ServiceBusyError :: "ServiceBusyError option"
  ClientVersionNotSupportedError :: "ClientVersionNotSupportedError option"

definition WorkflowService_RespondActivityTaskCanceled_Result_count ::
    "WorkflowService_RespondActivityTaskCanceled_Result \<Rightarrow> nat" where
  "WorkflowService_RespondActivityTaskCanceled_Result_count v =
     (if WorkflowService_RespondActivityTaskCanceled_Result.BadRequestError v \<noteq> None then 1 else 0)
         +
     (if WorkflowService_RespondActivityTaskCanceled_Result.InternalServiceError v \<noteq> None then 1
         else 0) +
     (if WorkflowService_RespondActivityTaskCanceled_Result.EntityNotExistError v \<noteq> None then 1 else
         0) +
     (if WorkflowService_RespondActivityTaskCanceled_Result.DomainNotActiveError v \<noteq> None then 1
         else 0) +
     (if WorkflowService_RespondActivityTaskCanceled_Result.LimitExceededError v \<noteq> None then 1 else
         0) +
     (if WorkflowService_RespondActivityTaskCanceled_Result.ServiceBusyError v \<noteq> None then 1 else 0)
         +
     (if WorkflowService_RespondActivityTaskCanceled_Result.ClientVersionNotSupportedError v \<noteq> None
         then 1 else 0)"

definition WorkflowService_RespondActivityTaskCanceled_Result_zero ::
    WorkflowService_RespondActivityTaskCanceled_Result where
  "WorkflowService_RespondActivityTaskCanceled_Result_zero =
      \<lparr>WorkflowService_RespondActivityTaskCanceled_Result.BadRequestError = None,
      WorkflowService_RespondActivityTaskCanceled_Result.InternalServiceError = None,
      WorkflowService_RespondActivityTaskCanceled_Result.EntityNotExistError = None,
      WorkflowService_RespondActivityTaskCanceled_Result.DomainNotActiveError = None,
      WorkflowService_RespondActivityTaskCanceled_Result.LimitExceededError = None,
      WorkflowService_RespondActivityTaskCanceled_Result.ServiceBusyError = None,
      WorkflowService_RespondActivityTaskCanceled_Result.ClientVersionNotSupportedError = None\<rparr>"

definition WorkflowService_RespondActivityTaskCanceled_Result_ToWire ::
  "'v wire_api \<Rightarrow> WorkflowService_RespondActivityTaskCanceled_Result \<Rightarrow> go_error + 'v" where
  "WorkflowService_RespondActivityTaskCanceled_Result_ToWire W v =
     and_then (put_opt 1 (BadRequestError_ToWire W)
         (WorkflowService_RespondActivityTaskCanceled_Result.BadRequestError v) [])
       (\<lambda>fields.
     and_then (put_opt 2 (InternalServiceError_ToWire W)
         (WorkflowService_RespondActivityTaskCanceled_Result.InternalServiceError v) fields)
       (\<lambda>fields.
     and_then (put_opt 3 (EntityNotExistsError_ToWire W)
         (WorkflowService_RespondActivityTaskCanceled_Result.EntityNotExistError v) fields)
       (\<lambda>fields.
     and_then (put_opt 4 (DomainNotActiveError_ToWire W)
         (WorkflowService_RespondActivityTaskCanceled_Result.DomainNotActiveError v) fields)
       (\<lambda>fields.
     and_then (put_opt 5 (LimitExceededError_ToWire W)
         (WorkflowService_RespondActivityTaskCanceled_Result.LimitExceededError v) fields)
       (\<lambda>fields.
     and_then (put_opt 6 (ServiceBusyError_ToWire W)
         (WorkflowService_RespondActivityTaskCanceled_Result.ServiceBusyError v) fields)
       (\<lambda>fields.
     and_then (put_opt 7 (ClientVersionNotSupportedError_ToWire W)
         (WorkflowService_RespondActivityTaskCanceled_Result.ClientVersionNotSupportedError v)
         fields)
       (\<lambda>fields.
     if 1 < length fields
     then Inl (E_Errorf
         ''WorkflowService_RespondActivityTaskCanceled_Result should have at most one field: got %v fields'' (length fields))
     else Inr (NewValueStruct W fields))))))))"

definition WorkflowService_RespondActivityTaskCanceled_Result_FromWire ::
  "'v wire_api \<Rightarrow> 'v \<Rightarrow> WorkflowService_RespondActivityTaskCanceled_Result \<Rightarrow> go_error +
      WorkflowService_RespondActivityTaskCanceled_Result" where
  "WorkflowService_RespondActivityTaskCanceled_Result_FromWire W w v =
     and_then (foldM (\<lambda>v (fid, fval).
       if fid = 1 then
         if wire_api.Type W fval = TStruct
         then and_then (BadRequestError_Read W fval) (\<lambda>x. Inr
             (v\<lparr>WorkflowService_RespondActivityTaskCanceled_Result.BadRequestError := Some x\<rparr>))
         else Inr v
       else if fid = 2 then
         if wire_api.Type W fval = TStruct
         then and_then (InternalServiceError_Read W fval) (\<lambda>x. Inr
             (v\<lparr>WorkflowService_RespondActivityTaskCanceled_Result.InternalServiceError := Some x\<rparr>))
         else Inr v
       else if fid = 3 then
         if wire_api.Type W fval = TStruct
         then and_then (EntityNotExistsError_Read W fval) (\<lambda>x. Inr
             (v\<lparr>WorkflowService_RespondActivityTaskCanceled_Result.EntityNotExistError := Some x\<rparr>))
         else Inr v
       else if fid = 4 then
         if wire_api.Type W fval = TStruct
         then and_then (DomainNotActiveError_Read W fval) (\<lambda>x. Inr
             (v\<lparr>WorkflowService_RespondActivityTaskCanceled_Result.DomainNotActiveError := Some x\<rparr>))
         else Inr v
       else if fid = 5 then
         if wire_api.Type W fval = TStruct
         then and_then (LimitExceededError_Read W fval) (\<lambda>x. Inr
             (v\<lparr>WorkflowService_RespondActivityTaskCanceled_Result.LimitExceededError := Some x\<rparr>))
         else Inr v
       else if fid = 6 then
         if wire_api.Type W fval = TStruct
         then and_then (ServiceBusyError_Read W fval) (\<lambda>x. Inr
             (v\<lparr>WorkflowService_RespondActivityTaskCanceled_Result.ServiceBusyError := Some x\<rparr>))
         else Inr v
       else if fid = 7 then
         if wire_api.Type W fval = TStruct
         then and_then (ClientVersionNotSupportedError_Read W fval) (\<lambda>x. Inr
             (v\<lparr>WorkflowService_RespondActivityTaskCanceled_Result.ClientVersionNotSupportedError :=
             Some x\<rparr>))
         else Inr v
       else Inr v) (GetStruct W w) v) (\<lambda>v.
     let count = WorkflowService_RespondActivityTaskCanceled_Result_count v in
     if 1 < count
     then Inl (E_Errorf
         ''WorkflowService_RespondActivityTaskCanceled_Result should have at most one field: got %v fields'' count)
     else Inr v)"

definition WorkflowService_RespondActivityTaskCanceled_Result_enveloper ::
  "'v wire_api \<Rightarrow> WorkflowService_RespondActivityTaskCanceled_Result \<Rightarrow> 'v enveloper" where
  "WorkflowService_RespondActivityTaskCanceled_Result_enveloper W v =
     \<lparr>MethodName = ''RespondActivityTaskCanceled'', EnvelopeType = Reply, EnvelopeToWire =
         WorkflowService_RespondActivityTaskCanceled_Result_ToWire W v\<rparr>"

definition WorkflowService_RespondActivityTaskCanceled_Result_Equals ::
  "WorkflowService_RespondActivityTaskCanceled_Result option \<Rightarrow>
      WorkflowService_RespondActivityTaskCanceled_Result option \<Rightarrow> bool" where
  "WorkflowService_RespondActivityTaskCanceled_Result_Equals v rhs =
     (case v of None \<Rightarrow> rhs = None
      | Some v \<Rightarrow> (case rhs of None \<Rightarrow> False
        | Some rhs \<Rightarrow>
          if \<not> both_set_and (\<lambda>x y. BadRequestError_Equals (Some x) (Some y))
              (WorkflowService_RespondActivityTaskCanceled_Result.BadRequestError v)
              (WorkflowService_RespondActivityTaskCanceled_Result.BadRequestError rhs) then False
              else
          if \<not> both_set_and (\<lambda>x y. InternalServiceError_Equals (Some x) (Some y))
              (WorkflowService_RespondActivityTaskCanceled_Result.InternalServiceError v)
              (WorkflowService_RespondActivityTaskCanceled_Result.InternalServiceError rhs) then
              False else
          if \<not> both_set_and (\<lambda>x y. EntityNotExistsError_Equals (Some x) (Some y))
              (WorkflowService_RespondActivityTaskCanceled_Result.EntityNotExistError v)
              (WorkflowService_RespondActivityTaskCanceled_Result.EntityNotExistError rhs) then
              False else
          if \<not> both_set_and (\<lambda>x y. DomainNotActiveError_Equals (Some x) (Some y))
              (WorkflowService_RespondActivityTaskCanceled_Result.DomainNotActiveError v)
              (WorkflowService_RespondActivityTaskCanceled_Result.DomainNotActiveError rhs) then
              False else
          if \<not> both_set_and (\<lambda>x y. LimitExceededError_Equals (Some x) (Some y))
              (WorkflowService_RespondActivityTaskCanceled_Result.LimitExceededError v)
              (WorkflowService_RespondActivityTaskCanceled_Result.LimitExceededError rhs) then False
              else
          if \<not> both_set_and (\<lambda>x y. ServiceBusyError_Equals (Some x) (Some y))
              (WorkflowService_RespondActivityTaskCanceled_Result.ServiceBusyError v)
              (WorkflowService_RespondActivityTaskCanceled_Result.ServiceBusyError rhs) then False
              else
          if \<not> both_set_and (\<lambda>x y. ClientVersionNotSupportedError_Equals (Some x) (Some y))
              (WorkflowService_RespondActivityTaskCanceled_Result.ClientVersionNotSupportedError v)
              (WorkflowService_RespondActivityTaskCanceled_Result.ClientVersionNotSupportedError
              rhs) then False else
          True))"

lemma WorkflowService_RespondActivityTaskCanceled_Result_Equals_iff [simp]:
    "WorkflowService_RespondActivityTaskCanceled_Result_Equals x y \<longleftrightarrow> x = y"
  by (cases x; cases y) (simp_all add: WorkflowService_RespondActivityTaskCanceled_Result_Equals_def
      if_not_False, fastforce intro: WorkflowService_RespondActivityTaskCanceled_Result.equality)

definition WorkflowService_RespondActivityTaskCanceled_Helper_Args ::
    "RespondActivityTaskCanceledRequest option \<Rightarrow> WorkflowService_RespondActivityTaskCanceled_Args"
    where
  "WorkflowService_RespondActivityTaskCanceled_Helper_Args r =
      \<lparr>WorkflowService_RespondActivityTaskCanceled_Args.CanceledRequest = r\<rparr>"

definition WorkflowService_RespondActivityTaskCanceled_Helper_IsException :: "go_error \<Rightarrow> bool" where
  "WorkflowService_RespondActivityTaskCanceled_Helper_IsException err =
     (case err of
        E_BadRequestError _ \<Rightarrow> True
      | E_InternalServiceError _ \<Rightarrow> True
      | E_EntityNotExistsError _ \<Rightarrow> True
      | E_DomainNotActiveError _ \<Rightarrow> True
      | E_LimitExceededError _ \<Rightarrow> True
      | E_ServiceBusyError _ \<Rightarrow> True
      | E_ClientVersionNotSupportedError _ \<Rightarrow> True
      | _ \<Rightarrow> False)"

definition WorkflowService_RespondActivityTaskCanceled_Helper_WrapResponse ::
  "go_error option \<Rightarrow> go_error + WorkflowService_RespondActivityTaskCanceled_Result" where
  "WorkflowService_RespondActivityTaskCanceled_Helper_WrapResponse err =
     (case err of None \<Rightarrow> Inr WorkflowService_RespondActivityTaskCanceled_Result_zero
      | Some err \<Rightarrow> (case err of
          E_BadRequestError e \<Rightarrow> (case e of
              None \<Rightarrow> Inl (E_New
                  ''WrapResponse received non-nil error type with nil value for WorkflowService_RespondActivityTaskCanceled_Result.BadRequestError'')
            | Some e \<Rightarrow> Inr
                (WorkflowService_RespondActivityTaskCanceled_Result_zero\<lparr>WorkflowService_RespondActivityTaskCanceled_Result.BadRequestError := Some e\<rparr>))
        | E_InternalServiceError e \<Rightarrow> (case e of
              None \<Rightarrow> Inl (E_New
                  ''WrapResponse received non-nil error type with nil value for WorkflowService_RespondActivityTaskCanceled_Result.InternalServiceError'')
            | Some e \<Rightarrow> Inr
                (WorkflowService_RespondActivityTaskCanceled_Result_zero\<lparr>WorkflowService_RespondActivityTaskCanceled_Result.InternalServiceError := Some e\<rparr>))
        | E_EntityNotExistsError e \<Rightarrow> (case e of
              None \<Rightarrow> Inl (E_New
                  ''WrapResponse received non-nil error type with nil value for WorkflowService_RespondActivityTaskCanceled_Result.EntityNotExistError'')
            | Some e \<Rightarrow> Inr
                (WorkflowService_RespondActivityTaskCanceled_Result_zero\<lparr>WorkflowService_RespondActivityTaskCanceled_Result.EntityNotExistError := Some e\<rparr>))
        | E_DomainNotActiveError e \<Rightarrow> (case e of
              None \<Rightarrow> Inl (E_New
                  ''WrapResponse received non-nil error type with nil value for WorkflowService_RespondActivityTaskCanceled_Result.DomainNotActiveError'')
            | Some e \<Rightarrow> Inr
                (WorkflowService_RespondActivityTaskCanceled_Result_zero\<lparr>WorkflowService_RespondActivityTaskCanceled_Result.DomainNotActiveError := Some e\<rparr>))
        | E_LimitExceededError e \<Rightarrow> (case e of
              None \<Rightarrow> Inl (E_New
                  ''WrapResponse received non-nil error type with nil value for WorkflowService_RespondActivityTaskCanceled_Result.LimitExceededError'')
            | Some e \<Rightarrow> Inr
                (WorkflowService_RespondActivityTaskCanceled_Result_zero\<lparr>WorkflowService_RespondActivityTaskCanceled_Result.LimitExceededError := Some e\<rparr>))
        | E_ServiceBusyError e \<Rightarrow> (case e of
              None \<Rightarrow> Inl (E_New
                  ''WrapResponse received non-nil error type with nil value for WorkflowService_RespondActivityTaskCanceled_Result.ServiceBusyError'')
            | Some e \<Rightarrow> Inr
                (WorkflowService_RespondActivityTaskCanceled_Result_zero\<lparr>WorkflowService_RespondActivityTaskCanceled_Result.ServiceBusyError := Some e\<rparr>))
        | E_ClientVersionNotSupportedError e \<Rightarrow> (case e of
              None \<Rightarrow> Inl (E_New
                  ''WrapResponse received non-nil error type with nil value for WorkflowService_RespondActivityTaskCanceled_Result.ClientVersionNotSupportedError'')
            | Some e \<Rightarrow> Inr
                (WorkflowService_RespondActivityTaskCanceled_Result_zero\<lparr>WorkflowService_RespondActivityTaskCanceled_Result.ClientVersionNotSupportedError := Some e\<rparr>))
        | _ \<Rightarrow> Inl err))"

definition WorkflowService_RespondActivityTaskCanceled_Helper_UnwrapResponse ::
  "WorkflowService_RespondActivityTaskCanceled_Result \<Rightarrow> go_error option" where
  "WorkflowService_RespondActivityTaskCanceled_Helper_UnwrapResponse result =
    (if WorkflowService_RespondActivityTaskCanceled_Result.BadRequestError result \<noteq> None then Some
        (E_BadRequestError (WorkflowService_RespondActivityTaskCanceled_Result.BadRequestError
        result)) else
     if WorkflowService_RespondActivityTaskCanceled_Result.InternalServiceError result \<noteq> None then
         Some (E_InternalServiceError
         (WorkflowService_RespondActivityTaskCanceled_Result.InternalServiceError result)) else
     if WorkflowService_RespondActivityTaskCanceled_Result.EntityNotExistError result \<noteq> None then
         Some (E_EntityNotExistsError
         (WorkflowService_RespondActivityTaskCanceled_Result.EntityNotExistError result)) else
     if WorkflowService_RespondActivityTaskCanceled_Result.DomainNotActiveError result \<noteq> None then
         Some (E_DomainNotActiveError
         (WorkflowService_RespondActivityTaskCanceled_Result.DomainNotActiveError result)) else
     if WorkflowService_RespondActivityTaskCanceled_Result.LimitExceededError result \<noteq> None then
         Some (E_LimitExceededError
         (WorkflowService_RespondActivityTaskCanceled_Result.LimitExceededError result)) else
     if WorkflowService_RespondActivityTaskCanceled_Result.ServiceBusyError result \<noteq> None then Some
         (E_ServiceBusyError (WorkflowService_RespondActivityTaskCanceled_Result.ServiceBusyError
         result)) else
     if WorkflowService_RespondActivityTaskCanceled_Result.ClientVersionNotSupportedError result \<noteq>
         None then Some (E_ClientVersionNotSupportedError
         (WorkflowService_RespondActivityTaskCanceled_Result.ClientVersionNotSupportedError result))
         else
     None)"

definition handler_RespondActivityTaskCanceled ::
  "'v wire_api \<Rightarrow> ('ctx \<Rightarrow> RespondActivityTaskCanceledRequest option \<Rightarrow> go_error option) \<Rightarrow>
   ('ctx, 'v) unary_handler" where
  "handler_RespondActivityTaskCanceled W impl ctx body =
     (case WorkflowService_RespondActivityTaskCanceled_Args_FromWire W body
         WorkflowService_RespondActivityTaskCanceled_Args_zero of
      Inl err \<Rightarrow> (no_response, Some err)
    | Inr args \<Rightarrow>
      let err = impl ctx (WorkflowService_RespondActivityTaskCanceled_Args.CanceledRequest args);
          hadError = (err \<noteq> None)
      in case WorkflowService_RespondActivityTaskCanceled_Helper_WrapResponse err of
           Inl err \<Rightarrow> (no_response, Some err)
         | Inr result \<Rightarrow>
             (\<lparr>Body = Some (WorkflowService_RespondActivityTaskCanceled_Result_enveloper W result),
               IsApplicationError = hadError\<rparr>, None))"

definition client_RespondActivityTaskCanceled ::
  "'v wire_api \<Rightarrow> ('ctx, 'v) thrift_client \<Rightarrow> 'ctx \<Rightarrow> RespondActivityTaskCanceledRequest option \<Rightarrow>
   go_error option" where
  "client_RespondActivityTaskCanceled W call ctx r =
     (let args = WorkflowService_RespondActivityTaskCanceled_Helper_Args r in
      case call ctx (WorkflowService_RespondActivityTaskCanceled_Args_enveloper W args) of
        Inl e \<Rightarrow> Some e
      | Inr body \<Rightarrow>
          (case WorkflowService_RespondActivityTaskCanceled_Result_FromWire W body
              WorkflowService_RespondActivityTaskCanceled_Result_zero of
             Inl e \<Rightarrow> Some e
           | Inr result \<Rightarrow> WorkflowService_RespondActivityTaskCanceled_Helper_UnwrapResponse
               result))"

lemma WorkflowService_RespondActivityTaskCanceled_Args_merge:
  "(case x of None \<Rightarrow> Inr \<lparr>WorkflowService_RespondActivityTaskCanceled_Args.CanceledRequest = a0\<rparr> |
      Some y \<Rightarrow> Inr \<lparr>WorkflowService_RespondActivityTaskCanceled_Args.CanceledRequest = b0 y\<rparr>) =
   Inr \<lparr>WorkflowService_RespondActivityTaskCanceled_Args.CanceledRequest = (case x of None \<Rightarrow> a0 |
       Some y \<Rightarrow> b0 y)\<rparr>"
  by (cases x) simp_all

interpretation WorkflowService_RespondActivityTaskCanceled_Args: thrift_struct W
  "WorkflowService_RespondActivityTaskCanceled_Args_ToWire W"
      "WorkflowService_RespondActivityTaskCanceled_Args_FromWire W"
  WorkflowService_RespondActivityTaskCanceled_Args_zero "\<lambda>x. True" for W
proof (rule thrift_structI)
  fix x :: WorkflowService_RespondActivityTaskCanceled_Args
  assume laws: "wire_laws W"
  obtain enc0 where e0: "RespondActivityTaskCanceledRequest_ToWire W = (\<lambda>x. Inr (enc0 x))"
      "\<And>x. wire_api.Type W (enc0 x) = TStruct"
      "\<And>x. Writable W (enc0 x) \<longleftrightarrow> (\<lambda>_. True) x"
      "\<And>x. (\<lambda>_. True) x \<Longrightarrow> RespondActivityTaskCanceledRequest_FromWire W (enc0 x)
          RespondActivityTaskCanceledRequest_zero = Inr x"
    by (rule RespondActivityTaskCanceledRequest.encoder [OF laws]) (rule that)
  show "\<exists>w. WorkflowService_RespondActivityTaskCanceled_Args_ToWire W x = Inr w \<and> wire_api.Type W w
      = TStruct \<and>
      (Writable W w \<longleftrightarrow> True) \<and> (True \<longrightarrow> WorkflowService_RespondActivityTaskCanceled_Args_FromWire W w
          WorkflowService_RespondActivityTaskCanceled_Args_zero = Inr x)"
    by (cases x) (simp cong: option.case_cong add: codec_rules
        WorkflowService_RespondActivityTaskCanceled_Args_merge
        WorkflowService_RespondActivityTaskCanceled_Args_ToWire_def
        WorkflowService_RespondActivityTaskCanceled_Args_FromWire_def
      WorkflowService_RespondActivityTaskCanceled_Args_zero_def
          RespondActivityTaskCanceledRequest_Read_def if_set_def laws e0)
qed

lemma WorkflowService_RespondActivityTaskCanceled_Result_merge:
  "(case x of None \<Rightarrow> Inr \<lparr>WorkflowService_RespondActivityTaskCanceled_Result.BadRequestError = a0,
      WorkflowService_RespondActivityTaskCanceled_Result.InternalServiceError = a1,
      WorkflowService_RespondActivityTaskCanceled_Result.EntityNotExistError = a2,
      WorkflowService_RespondActivityTaskCanceled_Result.DomainNotActiveError = a3,
      WorkflowService_RespondActivityTaskCanceled_Result.LimitExceededError = a4,
      WorkflowService_RespondActivityTaskCanceled_Result.ServiceBusyError = a5,
      WorkflowService_RespondActivityTaskCanceled_Result.ClientVersionNotSupportedError = a6\<rparr> | Some
      y \<Rightarrow> Inr \<lparr>WorkflowService_RespondActivityTaskCanceled_Result.BadRequestError = b0 y,
      WorkflowService_RespondActivityTaskCanceled_Result.InternalServiceError = b1 y,
      WorkflowService_RespondActivityTaskCanceled_Result.EntityNotExistError = b2 y,
      WorkflowService_RespondActivityTaskCanceled_Result.DomainNotActiveError = b3 y,
      WorkflowService_RespondActivityTaskCanceled_Result.LimitExceededError = b4 y,
      WorkflowService_RespondActivityTaskCanceled_Result.ServiceBusyError = b5 y,
      WorkflowService_RespondActivityTaskCanceled_Result.ClientVersionNotSupportedError = b6 y\<rparr>) =
   Inr \<lparr>WorkflowService_RespondActivityTaskCanceled_Result.BadRequestError = (case x of None \<Rightarrow> a0 |
       Some y \<Rightarrow> b0 y), WorkflowService_RespondActivityTaskCanceled_Result.InternalServiceError =
       (case x of None \<Rightarrow> a1 | Some y \<Rightarrow> b1 y),
       WorkflowService_RespondActivityTaskCanceled_Result.EntityNotExistError = (case x of None \<Rightarrow> a2
       | Some y \<Rightarrow> b2 y), WorkflowService_RespondActivityTaskCanceled_Result.DomainNotActiveError =
       (case x of None \<Rightarrow> a3 | Some y \<Rightarrow> b3 y),
       WorkflowService_RespondActivityTaskCanceled_Result.LimitExceededError = (case x of None \<Rightarrow> a4
       | Some y \<Rightarrow> b4 y), WorkflowService_RespondActivityTaskCanceled_Result.ServiceBusyError = (case
       x of None \<Rightarrow> a5 | Some y \<Rightarrow> b5 y),
       WorkflowService_RespondActivityTaskCanceled_Result.ClientVersionNotSupportedError = (case x
       of None \<Rightarrow> a6 | Some y \<Rightarrow> b6 y)\<rparr>"
  by (cases x) simp_all

interpretation WorkflowService_RespondActivityTaskCanceled_Result: thrift_struct W
  "WorkflowService_RespondActivityTaskCanceled_Result_ToWire W"
      "WorkflowService_RespondActivityTaskCanceled_Result_FromWire W"
  WorkflowService_RespondActivityTaskCanceled_Result_zero "\<lambda>r.
      WorkflowService_RespondActivityTaskCanceled_Result_count r \<le> 1" for W
proof (rule thrift_checked_plainI)
  fix x :: WorkflowService_RespondActivityTaskCanceled_Result
  assume laws: "wire_laws W"
  obtain enc0 where e0: "BadRequestError_ToWire W = (\<lambda>x. Inr (enc0 x))"
      "\<And>x. wire_api.Type W (enc0 x) = TStruct"
      "\<And>x. Writable W (enc0 x) \<longleftrightarrow> (\<lambda>_. True) x"
      "\<And>x. (\<lambda>_. True) x \<Longrightarrow> BadRequestError_FromWire W (enc0 x) BadRequestError_zero = Inr x"
    by (rule BadRequestError.encoder [OF laws]) (rule that)
  obtain enc1 where e1: "InternalServiceError_ToWire W = (\<lambda>x. Inr (enc1 x))"
      "\<And>x. wire_api.Type W (enc1 x) = TStruct"
      "\<And>x. Writable W (enc1 x) \<longleftrightarrow> (\<lambda>_. True) x"
      "\<And>x. (\<lambda>_. True) x \<Longrightarrow> InternalServiceError_FromWire W (enc1 x) InternalServiceError_zero = Inr
          x"
    by (rule InternalServiceError.encoder [OF laws]) (rule that)
  obtain enc2 where e2: "EntityNotExistsError_ToWire W = (\<lambda>x. Inr (enc2 x))"
      "\<And>x. wire_api.Type W (enc2 x) = TStruct"
      "\<And>x. Writable W (enc2 x) \<longleftrightarrow> (\<lambda>_. True) x"
      "\<And>x. (\<lambda>_. True) x \<Longrightarrow> EntityNotExistsError_FromWire W (enc2 x) EntityNotExistsError_zero = Inr
          x"
    by (rule EntityNotExistsError.encoder [OF laws]) (rule that)
  obtain enc3 where e3: "DomainNotActiveError_ToWire W = (\<lambda>x. Inr (enc3 x))"
      "\<And>x. wire_api.Type W (enc3 x) = TStruct"
      "\<And>x. Writable W (enc3 x) \<longleftrightarrow> (\<lambda>_. True) x"
      "\<And>x. (\<lambda>_. True) x \<Longrightarrow> DomainNotActiveError_FromWire W (enc3 x) DomainNotActiveError_zero = Inr
          x"
    by (rule DomainNotActiveError.encoder [OF laws]) (rule that)
  obtain enc4 where e4: "LimitExceededError_ToWire W = (\<lambda>x. Inr (enc4 x))"
      "\<And>x. wire_api.Type W (enc4 x) = TStruct"
      "\<And>x. Writable W (enc4 x) \<longleftrightarrow> (\<lambda>_. True) x"
      "\<And>x. (\<lambda>_. True) x \<Longrightarrow> LimitExceededError_FromWire W (enc4 x) LimitExceededError_zero = Inr x"
    by (rule LimitExceededError.encoder [OF laws]) (rule that)
  obtain enc5 where e5: "ServiceBusyError_ToWire W = (\<lambda>x. Inr (enc5 x))"
      "\<And>x. wire_api.Type W (enc5 x) = TStruct"
      "\<And>x. Writable W (enc5 x) \<longleftrightarrow> (\<lambda>_. True) x"
      "\<And>x. (\<lambda>_. True) x \<Longrightarrow> ServiceBusyError_FromWire W (enc5 x) ServiceBusyError_zero = Inr x"
    by (rule ServiceBusyError.encoder [OF laws]) (rule that)
  obtain enc6 where e6: "ClientVersionNotSupportedError_ToWire W = (\<lambda>x. Inr (enc6 x))"
      "\<And>x. wire_api.Type W (enc6 x) = TStruct"
      "\<And>x. Writable W (enc6 x) \<longleftrightarrow> (\<lambda>_. True) x"
      "\<And>x. (\<lambda>_. True) x \<Longrightarrow> ClientVersionNotSupportedError_FromWire W (enc6 x)
          ClientVersionNotSupportedError_zero = Inr x"
    by (rule ClientVersionNotSupportedError.encoder [OF laws]) (rule that)
  let ?fs = "(((((opt_field 1 enc0
      (WorkflowService_RespondActivityTaskCanceled_Result.BadRequestError x) @
      opt_field 2 enc1 (WorkflowService_RespondActivityTaskCanceled_Result.InternalServiceError x))
          @
      opt_field 3 enc2 (WorkflowService_RespondActivityTaskCanceled_Result.EntityNotExistError x)) @
      opt_field 4 enc3 (WorkflowService_RespondActivityTaskCanceled_Result.DomainNotActiveError x))
          @
      opt_field 5 enc4 (WorkflowService_RespondActivityTaskCanceled_Result.LimitExceededError x)) @
      opt_field 6 enc5 (WorkflowService_RespondActivityTaskCanceled_Result.ServiceBusyError x)) @
      opt_field 7 enc6
          (WorkflowService_RespondActivityTaskCanceled_Result.ClientVersionNotSupportedError x)"
  let ?check = "\<lambda>r. if 1 < WorkflowService_RespondActivityTaskCanceled_Result_count x then Inl
      (E_Errorf
      ''WorkflowService_RespondActivityTaskCanceled_Result should have at most one field: got %v fields'' (WorkflowService_RespondActivityTaskCanceled_Result_count x)) else Inr r"
  have "length ?fs = WorkflowService_RespondActivityTaskCanceled_Result_count x"
    by (simp add: WorkflowService_RespondActivityTaskCanceled_Result_count_def length_opt_field
        split del: if_split)
  then have "WorkflowService_RespondActivityTaskCanceled_Result_ToWire W x = ?check (NewValueStruct
      W ?fs)"
    by (simp only: WorkflowService_RespondActivityTaskCanceled_Result_ToWire_def put_opt_field
        and_then.simps append_Nil e0(1) e1(1) e2(1) e3(1) e4(1) e5(1) e6(1))
  moreover have "WorkflowService_RespondActivityTaskCanceled_Result_FromWire W (NewValueStruct W
      ?fs) WorkflowService_RespondActivityTaskCanceled_Result_zero = ?check x"
    by (cases x, hypsubst) (simp cong: option.case_cong split del: if_split add: codec_rules Let_def
        WorkflowService_RespondActivityTaskCanceled_Result_merge
      WorkflowService_RespondActivityTaskCanceled_Result_FromWire_def
          WorkflowService_RespondActivityTaskCanceled_Result_zero_def laws
      BadRequestError_Read_def
      ClientVersionNotSupportedError_Read_def
      DomainNotActiveError_Read_def
      EntityNotExistsError_Read_def
      InternalServiceError_Read_def
      LimitExceededError_Read_def
      ServiceBusyError_Read_def
      e0 e1 e2 e3 e4 e5 e6)
  ultimately show "if WorkflowService_RespondActivityTaskCanceled_Result_count x \<le> 1
      then \<exists>w. WorkflowService_RespondActivityTaskCanceled_Result_ToWire W x = Inr w \<and> wire_api.Type
          W w = TStruct \<and>
        Writable W w \<and> WorkflowService_RespondActivityTaskCanceled_Result_FromWire W w
            WorkflowService_RespondActivityTaskCanceled_Result_zero = Inr x
      else \<exists>e. WorkflowService_RespondActivityTaskCanceled_Result_ToWire W x = Inl e"
    by (simp add: laws codec_rules e0 e1 e2 e3 e4 e5 e6)
qed

interpretation RespondActivityTaskCanceled: rpc_method W
  "WorkflowService_RespondActivityTaskCanceled_Args_ToWire W"
      "WorkflowService_RespondActivityTaskCanceled_Args_FromWire W"
      WorkflowService_RespondActivityTaskCanceled_Args_zero "\<lambda>x. True"
  "WorkflowService_RespondActivityTaskCanceled_Result_ToWire W"
      "WorkflowService_RespondActivityTaskCanceled_Result_FromWire W"
      WorkflowService_RespondActivityTaskCanceled_Result_zero
  "\<lambda>r. WorkflowService_RespondActivityTaskCanceled_Result_count r \<le> 1"
      "''RespondActivityTaskCanceled''"
  WorkflowService_RespondActivityTaskCanceled_Helper_Args
      "WorkflowService_RespondActivityTaskCanceled_Args.CanceledRequest"
  "WorkflowService_RespondActivityTaskCanceled_Helper_WrapResponse"
      WorkflowService_RespondActivityTaskCanceled_Helper_UnwrapResponse
  "\<lambda>out. out \<noteq> None" "carried_void WorkflowService_RespondActivityTaskCanceled_Helper_IsException"
      id "\<lambda>e. Some e"
  "handler_RespondActivityTaskCanceled W" "client_RespondActivityTaskCanceled W" for W
proof
  fix out :: "go_error option"
  assume "carried_void WorkflowService_RespondActivityTaskCanceled_Helper_IsException out"
  then show "case (WorkflowService_RespondActivityTaskCanceled_Helper_WrapResponse) out of Inl e \<Rightarrow>
      False
      | Inr res \<Rightarrow> (WorkflowService_RespondActivityTaskCanceled_Result_count res \<le> 1) \<and>
          WorkflowService_RespondActivityTaskCanceled_Helper_UnwrapResponse res = id out"
    by (cases out; cases "the out")
      (auto simp: WorkflowService_RespondActivityTaskCanceled_Helper_IsException_def
          WorkflowService_RespondActivityTaskCanceled_Helper_WrapResponse_def
          WorkflowService_RespondActivityTaskCanceled_Helper_UnwrapResponse_def
        declared_nonnil_def WorkflowService_RespondActivityTaskCanceled_Result_zero_def
            WorkflowService_RespondActivityTaskCanceled_Result_count_def elim!: present.elims)
next
  fix out :: "go_error option"
  assume "\<not> carried_void WorkflowService_RespondActivityTaskCanceled_Helper_IsException out"
  then show "case (WorkflowService_RespondActivityTaskCanceled_Helper_WrapResponse) out of Inl e \<Rightarrow>
      True
      | Inr res \<Rightarrow> \<not> (WorkflowService_RespondActivityTaskCanceled_Result_count res \<le> 1)"
    by (cases out; cases "the out")
      (auto simp: WorkflowService_RespondActivityTaskCanceled_Helper_IsException_def
          WorkflowService_RespondActivityTaskCanceled_Helper_WrapResponse_def declared_nonnil_def
        WorkflowService_RespondActivityTaskCanceled_Result_count_def
            WorkflowService_RespondActivityTaskCanceled_Result_zero_def split: option.splits)
qed (auto simp: WorkflowService_RespondActivityTaskCanceled_Helper_Args_def
    handler_RespondActivityTaskCanceled_def client_RespondActivityTaskCanceled_def
      WorkflowService_RespondActivityTaskCanceled_Args_enveloper_def
          WorkflowService_RespondActivityTaskCanceled_Result_enveloper_def
      Let_def split: sum.splits prod.splits)

section \<open>RespondActivityTaskCanceledByID\<close>

record WorkflowService_RespondActivityTaskCanceledByID_Args =
  CanceledRequest :: "RespondActivityTaskCanceledByIDRequest option"

definition WorkflowService_RespondActivityTaskCanceledByID_Args_zero ::
    WorkflowService_RespondActivityTaskCanceledByID_Args where
  "WorkflowService_RespondActivityTaskCanceledByID_Args_zero =
      \<lparr>WorkflowService_RespondActivityTaskCanceledByID_Args.CanceledRequest = None\<rparr>"

definition WorkflowService_RespondActivityTaskCanceledByID_Args_ToWire ::
  "'v wire_api \<Rightarrow> WorkflowService_RespondActivityTaskCanceledByID_Args \<Rightarrow> go_error + 'v" where
  "WorkflowService_RespondActivityTaskCanceledByID_Args_ToWire W v =
     and_then (put_opt 1 (RespondActivityTaskCanceledByIDRequest_ToWire W)
         (WorkflowService_RespondActivityTaskCanceledByID_Args.CanceledRequest v) [])
       (\<lambda>fields.
     Inr (NewValueStruct W fields))"

definition WorkflowService_RespondActivityTaskCanceledByID_Args_FromWire ::
  "'v wire_api \<Rightarrow> 'v \<Rightarrow> WorkflowService_RespondActivityTaskCanceledByID_Args \<Rightarrow> go_error +
      WorkflowService_RespondActivityTaskCanceledByID_Args" where
  "WorkflowService_RespondActivityTaskCanceledByID_Args_FromWire W w v =
     foldM (\<lambda>v (fid, fval).
       if fid = 1 then
         if wire_api.Type W fval = TStruct
         then and_then (RespondActivityTaskCanceledByIDRequest_Read W fval) (\<lambda>x. Inr
             (v\<lparr>WorkflowService_RespondActivityTaskCanceledByID_Args.CanceledRequest := Some x\<rparr>))
         else Inr v
       else Inr v) (GetStruct W w) v"

definition WorkflowService_RespondActivityTaskCanceledByID_Args_enveloper ::
  "'v wire_api \<Rightarrow> WorkflowService_RespondActivityTaskCanceledByID_Args \<Rightarrow> 'v enveloper" where
  "WorkflowService_RespondActivityTaskCanceledByID_Args_enveloper W v =
     \<lparr>MethodName = ''RespondActivityTaskCanceledByID'', EnvelopeType = Call, EnvelopeToWire =
         WorkflowService_RespondActivityTaskCanceledByID_Args_ToWire W v\<rparr>"

definition WorkflowService_RespondActivityTaskCanceledByID_Args_Equals ::
  "WorkflowService_RespondActivityTaskCanceledByID_Args option \<Rightarrow>
      WorkflowService_RespondActivityTaskCanceledByID_Args option \<Rightarrow> bool" where
  "WorkflowService_RespondActivityTaskCanceledByID_Args_Equals v rhs =
     (case v of None \<Rightarrow> rhs = None
      | Some v \<Rightarrow> (case rhs of None \<Rightarrow> False
        | Some rhs \<Rightarrow>
          if \<not> both_set_and (\<lambda>x y. RespondActivityTaskCanceledByIDRequest_Equals (Some x) (Some y))
              (WorkflowService_RespondActivityTaskCanceledByID_Args.CanceledRequest v)
              (WorkflowService_RespondActivityTaskCanceledByID_Args.CanceledRequest rhs) then False
              else
          True))"

lemma WorkflowService_RespondActivityTaskCanceledByID_Args_Equals_iff [simp]:
    "WorkflowService_RespondActivityTaskCanceledByID_Args_Equals x y \<longleftrightarrow> x = y"
  by (cases x; cases y) (auto simp: WorkflowService_RespondActivityTaskCanceledByID_Args_Equals_def)

record WorkflowService_RespondActivityTaskCanceledByID_Result =
  BadRequestError :: "BadRequestError option"
  InternalServiceError :: "InternalServiceError option"
  EntityNotExistError :: "EntityNotExistsError option"
  DomainNotActiveError :: "DomainNotActiveError option"
  LimitExceededError :: "LimitExceededError option"
  ServiceBusyError :: "ServiceBusyError option"
  ClientVersionNotSupportedError :: "ClientVersionNotSupportedError option"

definition WorkflowService_RespondActivityTaskCanceledByID_Result_count ::
    "WorkflowService_RespondActivityTaskCanceledByID_Result \<Rightarrow> nat" where
  "WorkflowService_RespondActivityTaskCanceledByID_Result_count v =
     (if WorkflowService_RespondActivityTaskCanceledByID_Result.BadRequestError v \<noteq> None then 1 else
         0) +
     (if WorkflowService_RespondActivityTaskCanceledByID_Result.InternalServiceError v \<noteq> None then 1
         else 0) +
     (if WorkflowService_RespondActivityTaskCanceledByID_Result.EntityNotExistError v \<noteq> None then 1
         else 0) +
     (if WorkflowService_RespondActivityTaskCanceledByID_Result.DomainNotActiveError v \<noteq> None then 1
         else 0) +
     (if WorkflowService_RespondActivityTaskCanceledByID_Result.LimitExceededError v \<noteq> None then 1
         else 0) +
     (if WorkflowService_RespondActivityTaskCanceledByID_Result.ServiceBusyError v \<noteq> None then 1
         else 0) +
     (if WorkflowService_RespondActivityTaskCanceledByID_Result.ClientVersionNotSupportedError v \<noteq>
         None then 1 else 0)"

definition WorkflowService_RespondActivityTaskCanceledByID_Result_zero ::
    WorkflowService_RespondActivityTaskCanceledByID_Result where
  "WorkflowService_RespondActivityTaskCanceledByID_Result_zero =
      \<lparr>WorkflowService_RespondActivityTaskCanceledByID_Result.BadRequestError = None,
      WorkflowService_RespondActivityTaskCanceledByID_Result.InternalServiceError = None,
      WorkflowService_RespondActivityTaskCanceledByID_Result.EntityNotExistError = None,
      WorkflowService_RespondActivityTaskCanceledByID_Result.DomainNotActiveError = None,
      WorkflowService_RespondActivityTaskCanceledByID_Result.LimitExceededError = None,
      WorkflowService_RespondActivityTaskCanceledByID_Result.ServiceBusyError = None,
      WorkflowService_RespondActivityTaskCanceledByID_Result.ClientVersionNotSupportedError = None\<rparr>"

definition WorkflowService_RespondActivityTaskCanceledByID_Result_ToWire ::
  "'v wire_api \<Rightarrow> WorkflowService_RespondActivityTaskCanceledByID_Result \<Rightarrow> go_error + 'v" where
  "WorkflowService_RespondActivityTaskCanceledByID_Result_ToWire W v =
     and_then (put_opt 1 (BadRequestError_ToWire W)
         (WorkflowService_RespondActivityTaskCanceledByID_Result.BadRequestError v) [])
       (\<lambda>fields.
     and_then (put_opt 2 (InternalServiceError_ToWire W)
         (WorkflowService_RespondActivityTaskCanceledByID_Result.InternalServiceError v) fields)
       (\<lambda>fields.
     and_then (put_opt 3 (EntityNotExistsError_ToWire W)
         (WorkflowService_RespondActivityTaskCanceledByID_Result.EntityNotExistError v) fields)
       (\<lambda>fields.
     and_then (put_opt 4 (DomainNotActiveError_ToWire W)
         (WorkflowService_RespondActivityTaskCanceledByID_Result.DomainNotActiveError v) fields)
       (\<lambda>fields.
     and_then (put_opt 5 (LimitExceededError_ToWire W)
         (WorkflowService_RespondActivityTaskCanceledByID_Result.LimitExceededError v) fields)
       (\<lambda>fields.
     and_then (put_opt 6 (ServiceBusyError_ToWire W)
         (WorkflowService_RespondActivityTaskCanceledByID_Result.ServiceBusyError v) fields)
       (\<lambda>fields.
     and_then (put_opt 7 (ClientVersionNotSupportedError_ToWire W)
         (WorkflowService_RespondActivityTaskCanceledByID_Result.ClientVersionNotSupportedError v)
         fields)
       (\<lambda>fields.
     if 1 < length fields
     then Inl (E_Errorf
         ''WorkflowService_RespondActivityTaskCanceledByID_Result should have at most one field: got %v fields'' (length fields))
     else Inr (NewValueStruct W fields))))))))"

definition WorkflowService_RespondActivityTaskCanceledByID_Result_FromWire ::
  "'v wire_api \<Rightarrow> 'v \<Rightarrow> WorkflowService_RespondActivityTaskCanceledByID_Result \<Rightarrow> go_error +
      WorkflowService_RespondActivityTaskCanceledByID_Result" where
  "WorkflowService_RespondActivityTaskCanceledByID_Result_FromWire W w v =
     and_then (foldM (\<lambda>v (fid, fval).
       if fid = 1 then
         if wire_api.Type W fval = TStruct
         then and_then (BadRequestError_Read W fval) (\<lambda>x. Inr
             (v\<lparr>WorkflowService_RespondActivityTaskCanceledByID_Result.BadRequestError := Some x\<rparr>))
         else Inr v
       else if fid = 2 then
         if wire_api.Type W fval = TStruct
         then and_then (InternalServiceError_Read W fval) (\<lambda>x. Inr
             (v\<lparr>WorkflowService_RespondActivityTaskCanceledByID_Result.InternalServiceError := Some
             x\<rparr>))
         else Inr v
       else if fid = 3 then
         if wire_api.Type W fval = TStruct
         then and_then (EntityNotExistsError_Read W fval) (\<lambda>x. Inr
             (v\<lparr>WorkflowService_RespondActivityTaskCanceledByID_Result.EntityNotExistError := Some
             x\<rparr>))
         else Inr v
       else if fid = 4 then
         if wire_api.Type W fval = TStruct
         then and_then (DomainNotActiveError_Read W fval) (\<lambda>x. Inr
             (v\<lparr>WorkflowService_RespondActivityTaskCanceledByID_Result.DomainNotActiveError := Some
             x\<rparr>))
         else Inr v
       else if fid = 5 then
         if wire_api.Type W fval = TStruct
         then and_then (LimitExceededError_Read W fval) (\<lambda>x. Inr
             (v\<lparr>WorkflowService_RespondActivityTaskCanceledByID_Result.LimitExceededError := Some
             x\<rparr>))
         else Inr v
       else if fid = 6 then
         if wire_api.Type W fval = TStruct
         then and_then (ServiceBusyError_Read W fval) (\<lambda>x. Inr
             (v\<lparr>WorkflowService_RespondActivityTaskCanceledByID_Result.ServiceBusyError := Some x\<rparr>))
         else Inr v
       else if fid = 7 then
         if wire_api.Type W fval = TStruct
         then and_then (ClientVersionNotSupportedError_Read W fval) (\<lambda>x. Inr
             (v\<lparr>WorkflowService_RespondActivityTaskCanceledByID_Result.ClientVersionNotSupportedError := Some x\<rparr>))
         else Inr v
       else Inr v) (GetStruct W w) v) (\<lambda>v.
     let count = WorkflowService_RespondActivityTaskCanceledByID_Result_count v in
     if 1 < count
     then Inl (E_Errorf
         ''WorkflowService_RespondActivityTaskCanceledByID_Result should have at most one field: got %v fields'' count)
     else Inr v)"

definition WorkflowService_RespondActivityTaskCanceledByID_Result_enveloper ::
  "'v wire_api \<Rightarrow> WorkflowService_RespondActivityTaskCanceledByID_Result \<Rightarrow> 'v enveloper" where
  "WorkflowService_RespondActivityTaskCanceledByID_Result_enveloper W v =
     \<lparr>MethodName = ''RespondActivityTaskCanceledByID'', EnvelopeType = Reply, EnvelopeToWire =
         WorkflowService_RespondActivityTaskCanceledByID_Result_ToWire W v\<rparr>"

definition WorkflowService_RespondActivityTaskCanceledByID_Result_Equals ::
  "WorkflowService_RespondActivityTaskCanceledByID_Result option \<Rightarrow>
      WorkflowService_RespondActivityTaskCanceledByID_Result option \<Rightarrow> bool" where
  "WorkflowService_RespondActivityTaskCanceledByID_Result_Equals v rhs =
     (case v of None \<Rightarrow> rhs = None
      | Some v \<Rightarrow> (case rhs of None \<Rightarrow> False
        | Some rhs \<Rightarrow>
          if \<not> both_set_and (\<lambda>x y. BadRequestError_Equals (Some x) (Some y))
              (WorkflowService_RespondActivityTaskCanceledByID_Result.BadRequestError v)
              (WorkflowService_RespondActivityTaskCanceledByID_Result.BadRequestError rhs) then
              False else
          if \<not> both_set_and (\<lambda>x y. InternalServiceError_Equals (Some x) (Some y))
              (WorkflowService_RespondActivityTaskCanceledByID_Result.InternalServiceError v)
              (WorkflowService_RespondActivityTaskCanceledByID_Result.InternalServiceError rhs) then
              False else
          if \<not> both_set_and (\<lambda>x y. EntityNotExistsError_Equals (Some x) (Some y))
              (WorkflowService_RespondActivityTaskCanceledByID_Result.EntityNotExistError v)
              (WorkflowService_RespondActivityTaskCanceledByID_Result.EntityNotExistError rhs) then
              False else
          if \<not> both_set_and (\<lambda>x y. DomainNotActiveError_Equals (Some x) (Some y))
              (WorkflowService_RespondActivityTaskCanceledByID_Result.DomainNotActiveError v)
              (WorkflowService_RespondActivityTaskCanceledByID_Result.DomainNotActiveError rhs) then
              False else
          if \<not> both_set_and (\<lambda>x y. LimitExceededError_Equals (Some x) (Some y))
              (WorkflowService_RespondActivityTaskCanceledByID_Result.LimitExceededError v)
              (WorkflowService_RespondActivityTaskCanceledByID_Result.LimitExceededError rhs) then
              False else
          if \<not> both_set_and (\<lambda>x y. ServiceBusyError_Equals (Some x) (Some y))
              (WorkflowService_RespondActivityTaskCanceledByID_Result.ServiceBusyError v)
              (WorkflowService_RespondActivityTaskCanceledByID_Result.ServiceBusyError rhs) then
              False else
          if \<not> both_set_and (\<lambda>x y. ClientVersionNotSupportedError_Equals (Some x) (Some y))
              (WorkflowService_RespondActivityTaskCanceledByID_Result.ClientVersionNotSupportedError
              v)
              (WorkflowService_RespondActivityTaskCanceledByID_Result.ClientVersionNotSupportedError
              rhs) then False else
          True))"

lemma WorkflowService_RespondActivityTaskCanceledByID_Result_Equals_iff [simp]:
    "WorkflowService_RespondActivityTaskCanceledByID_Result_Equals x y \<longleftrightarrow> x = y"
  by (cases x; cases y) (simp_all add:
      WorkflowService_RespondActivityTaskCanceledByID_Result_Equals_def if_not_False, fastforce
      intro: WorkflowService_RespondActivityTaskCanceledByID_Result.equality)

definition WorkflowService_RespondActivityTaskCanceledByID_Helper_Args ::
    "RespondActivityTaskCanceledByIDRequest option \<Rightarrow>
    WorkflowService_RespondActivityTaskCanceledByID_Args" where
  "WorkflowService_RespondActivityTaskCanceledByID_Helper_Args r =
      \<lparr>WorkflowService_RespondActivityTaskCanceledByID_Args.CanceledRequest = r\<rparr>"

definition WorkflowService_RespondActivityTaskCanceledByID_Helper_IsException :: "go_error \<Rightarrow> bool"
    where
  "WorkflowService_RespondActivityTaskCanceledByID_Helper_IsException err =
     (case err of
        E_BadRequestError _ \<Rightarrow> True
      | E_InternalServiceError _ \<Rightarrow> True
      | E_EntityNotExistsError _ \<Rightarrow> True
      | E_DomainNotActiveError _ \<Rightarrow> True
      | E_LimitExceededError _ \<Rightarrow> True
      | E_ServiceBusyError _ \<Rightarrow> True
      | E_ClientVersionNotSupportedError _ \<Rightarrow> True
      | _ \<Rightarrow> False)"

definition WorkflowService_RespondActivityTaskCanceledByID_Helper_WrapResponse ::
  "go_error option \<Rightarrow> go_error + WorkflowService_RespondActivityTaskCanceledByID_Result" where
  "WorkflowService_RespondActivityTaskCanceledByID_Helper_WrapResponse err =
     (case err of None \<Rightarrow> Inr WorkflowService_RespondActivityTaskCanceledByID_Result_zero
      | Some err \<Rightarrow> (case err of
          E_BadRequestError e \<Rightarrow> (case e of
              None \<Rightarrow> Inl (E_New
                  ''WrapResponse received non-nil error type with nil value for WorkflowService_RespondActivityTaskCanceledByID_Result.BadRequestError'')
            | Some e \<Rightarrow> Inr
                (WorkflowService_RespondActivityTaskCanceledByID_Result_zero\<lparr>WorkflowService_RespondActivityTaskCanceledByID_Result.BadRequestError := Some e\<rparr>))
        | E_InternalServiceError e \<Rightarrow> (case e of
              None \<Rightarrow> Inl (E_New
                  ''WrapResponse received non-nil error type with nil value for WorkflowService_RespondActivityTaskCanceledByID_Result.InternalServiceError'')
            | Some e \<Rightarrow> Inr
                (WorkflowService_RespondActivityTaskCanceledByID_Result_zero\<lparr>WorkflowService_RespondActivityTaskCanceledByID_Result.InternalServiceError := Some e\<rparr>))
        | E_EntityNotExistsError e \<Rightarrow> (case e of
              None \<Rightarrow> Inl (E_New
                  ''WrapResponse received non-nil error type with nil value for WorkflowService_RespondActivityTaskCanceledByID_Result.EntityNotExistError'')
            | Some e \<Rightarrow> Inr
                (WorkflowService_RespondActivityTaskCanceledByID_Result_zero\<lparr>WorkflowService_RespondActivityTaskCanceledByID_Result.EntityNotExistError := Some e\<rparr>))
        | E_DomainNotActiveError e \<Rightarrow> (case e of
              None \<Rightarrow> Inl (E_New
                  ''WrapResponse received non-nil error type with nil value for WorkflowService_RespondActivityTaskCanceledByID_Result.DomainNotActiveError'')
            | Some e \<Rightarrow> Inr
                (WorkflowService_RespondActivityTaskCanceledByID_Result_zero\<lparr>WorkflowService_RespondActivityTaskCanceledByID_Result.DomainNotActiveError := Some e\<rparr>))
        | E_LimitExceededError e \<Rightarrow> (case e of
              None \<Rightarrow> Inl (E_New
                  ''WrapResponse received non-nil error type with nil value for WorkflowService_RespondActivityTaskCanceledByID_Result.LimitExceededError'')
            | Some e \<Rightarrow> Inr
                (WorkflowService_RespondActivityTaskCanceledByID_Result_zero\<lparr>WorkflowService_RespondActivityTaskCanceledByID_Result.LimitExceededError := Some e\<rparr>))
        | E_ServiceBusyError e \<Rightarrow> (case e of
              None \<Rightarrow> Inl (E_New
                  ''WrapResponse received non-nil error type with nil value for WorkflowService_RespondActivityTaskCanceledByID_Result.ServiceBusyError'')
            | Some e \<Rightarrow> Inr
                (WorkflowService_RespondActivityTaskCanceledByID_Result_zero\<lparr>WorkflowService_RespondActivityTaskCanceledByID_Result.ServiceBusyError := Some e\<rparr>))
        | E_ClientVersionNotSupportedError e \<Rightarrow> (case e of
              None \<Rightarrow> Inl (E_New
                  ''WrapResponse received non-nil error type with nil value for WorkflowService_RespondActivityTaskCanceledByID_Result.ClientVersionNotSupportedError'')
            | Some e \<Rightarrow> Inr
                (WorkflowService_RespondActivityTaskCanceledByID_Result_zero\<lparr>WorkflowService_RespondActivityTaskCanceledByID_Result.ClientVersionNotSupportedError := Some e\<rparr>))
        | _ \<Rightarrow> Inl err))"

definition WorkflowService_RespondActivityTaskCanceledByID_Helper_UnwrapResponse ::
  "WorkflowService_RespondActivityTaskCanceledByID_Result \<Rightarrow> go_error option" where
  "WorkflowService_RespondActivityTaskCanceledByID_Helper_UnwrapResponse result =
    (if WorkflowService_RespondActivityTaskCanceledByID_Result.BadRequestError result \<noteq> None then
        Some (E_BadRequestError
        (WorkflowService_RespondActivityTaskCanceledByID_Result.BadRequestError result)) else
     if WorkflowService_RespondActivityTaskCanceledByID_Result.InternalServiceError result \<noteq> None
         then Some (E_InternalServiceError
         (WorkflowService_RespondActivityTaskCanceledByID_Result.InternalServiceError result)) else
     if WorkflowService_RespondActivityTaskCanceledByID_Result.EntityNotExistError result \<noteq> None
         then Some (E_EntityNotExistsError
         (WorkflowService_RespondActivityTaskCanceledByID_Result.EntityNotExistError result)) else
     if WorkflowService_RespondActivityTaskCanceledByID_Result.DomainNotActiveError result \<noteq> None
         then Some (E_DomainNotActiveError
         (WorkflowService_RespondActivityTaskCanceledByID_Result.DomainNotActiveError result)) else
     if WorkflowService_RespondActivityTaskCanceledByID_Result.LimitExceededError result \<noteq> None then
         Some (E_LimitExceededError
         (WorkflowService_RespondActivityTaskCanceledByID_Result.LimitExceededError result)) else
     if WorkflowService_RespondActivityTaskCanceledByID_Result.ServiceBusyError result \<noteq> None then
         Some (E_ServiceBusyError
         (WorkflowService_RespondActivityTaskCanceledByID_Result.ServiceBusyError result)) else
     if WorkflowService_RespondActivityTaskCanceledByID_Result.ClientVersionNotSupportedError result
         \<noteq> None then Some (E_ClientVersionNotSupportedError
         (WorkflowService_RespondActivityTaskCanceledByID_Result.ClientVersionNotSupportedError
         result)) else
     None)"

definition handler_RespondActivityTaskCanceledByID ::
  "'v wire_api \<Rightarrow> ('ctx \<Rightarrow> RespondActivityTaskCanceledByIDRequest option \<Rightarrow> go_error option) \<Rightarrow>
   ('ctx, 'v) unary_handler" where
  "handler_RespondActivityTaskCanceledByID W impl ctx body =
     (case WorkflowService_RespondActivityTaskCanceledByID_Args_FromWire W body
         WorkflowService_RespondActivityTaskCanceledByID_Args_zero of
      Inl err \<Rightarrow> (no_response, Some err)
    | Inr args \<Rightarrow>
      let err = impl ctx (WorkflowService_RespondActivityTaskCanceledByID_Args.CanceledRequest
          args);
          hadError = (err \<noteq> None)
      in case WorkflowService_RespondActivityTaskCanceledByID_Helper_WrapResponse err of
           Inl err \<Rightarrow> (no_response, Some err)
         | Inr result \<Rightarrow>
             (\<lparr>Body = Some (WorkflowService_RespondActivityTaskCanceledByID_Result_enveloper W
                 result),
               IsApplicationError = hadError\<rparr>, None))"

definition client_RespondActivityTaskCanceledByID ::
  "'v wire_api \<Rightarrow> ('ctx, 'v) thrift_client \<Rightarrow> 'ctx \<Rightarrow> RespondActivityTaskCanceledByIDRequest option \<Rightarrow>
   go_error option" where
  "client_RespondActivityTaskCanceledByID W call ctx r =
     (let args = WorkflowService_RespondActivityTaskCanceledByID_Helper_Args r in
      case call ctx (WorkflowService_RespondActivityTaskCanceledByID_Args_enveloper W args) of
        Inl e \<Rightarrow> Some e
      | Inr body \<Rightarrow>
          (case WorkflowService_RespondActivityTaskCanceledByID_Result_FromWire W body
              WorkflowService_RespondActivityTaskCanceledByID_Result_zero of
             Inl e \<Rightarrow> Some e
           | Inr result \<Rightarrow> WorkflowService_RespondActivityTaskCanceledByID_Helper_UnwrapResponse
               result))"

lemma WorkflowService_RespondActivityTaskCanceledByID_Args_merge:
  "(case x of None \<Rightarrow> Inr \<lparr>WorkflowService_RespondActivityTaskCanceledByID_Args.CanceledRequest = a0\<rparr>
      | Some y \<Rightarrow> Inr \<lparr>WorkflowService_RespondActivityTaskCanceledByID_Args.CanceledRequest = b0 y\<rparr>)
      =
   Inr \<lparr>WorkflowService_RespondActivityTaskCanceledByID_Args.CanceledRequest = (case x of None \<Rightarrow> a0
       | Some y \<Rightarrow> b0 y)\<rparr>"
  by (cases x) simp_all

interpretation WorkflowService_RespondActivityTaskCanceledByID_Args: thrift_struct W
  "WorkflowService_RespondActivityTaskCanceledByID_Args_ToWire W"
      "WorkflowService_RespondActivityTaskCanceledByID_Args_FromWire W"
  WorkflowService_RespondActivityTaskCanceledByID_Args_zero "\<lambda>x. True" for W
proof (rule thrift_structI)
  fix x :: WorkflowService_RespondActivityTaskCanceledByID_Args
  assume laws: "wire_laws W"
  obtain enc0 where e0: "RespondActivityTaskCanceledByIDRequest_ToWire W = (\<lambda>x. Inr (enc0 x))"
      "\<And>x. wire_api.Type W (enc0 x) = TStruct"
      "\<And>x. Writable W (enc0 x) \<longleftrightarrow> (\<lambda>_. True) x"
      "\<And>x. (\<lambda>_. True) x \<Longrightarrow> RespondActivityTaskCanceledByIDRequest_FromWire W (enc0 x)
          RespondActivityTaskCanceledByIDRequest_zero = Inr x"
    by (rule RespondActivityTaskCanceledByIDRequest.encoder [OF laws]) (rule that)
  show "\<exists>w. WorkflowService_RespondActivityTaskCanceledByID_Args_ToWire W x = Inr w \<and> wire_api.Type
      W w = TStruct \<and>
      (Writable W w \<longleftrightarrow> True) \<and> (True \<longrightarrow> WorkflowService_RespondActivityTaskCanceledByID_Args_FromWire
          W w WorkflowService_RespondActivityTaskCanceledByID_Args_zero = Inr x)"
    by (cases x) (simp cong: option.case_cong add: codec_rules
        WorkflowService_RespondActivityTaskCanceledByID_Args_merge
        WorkflowService_RespondActivityTaskCanceledByID_Args_ToWire_def
        WorkflowService_RespondActivityTaskCanceledByID_Args_FromWire_def
      WorkflowService_RespondActivityTaskCanceledByID_Args_zero_def
          RespondActivityTaskCanceledByIDRequest_Read_def if_set_def laws e0)
qed

lemma WorkflowService_RespondActivityTaskCanceledByID_Result_merge:
  "(case x of None \<Rightarrow> Inr \<lparr>WorkflowService_RespondActivityTaskCanceledByID_Result.BadRequestError =
      a0, WorkflowService_RespondActivityTaskCanceledByID_Result.InternalServiceError = a1,
      WorkflowService_RespondActivityTaskCanceledByID_Result.EntityNotExistError = a2,
      WorkflowService_RespondActivityTaskCanceledByID_Result.DomainNotActiveError = a3,
      WorkflowService_RespondActivityTaskCanceledByID_Result.LimitExceededError = a4,
      WorkflowService_RespondActivityTaskCanceledByID_Result.ServiceBusyError = a5,
      WorkflowService_RespondActivityTaskCanceledByID_Result.ClientVersionNotSupportedError = a6\<rparr> |
      Some y \<Rightarrow> Inr \<lparr>WorkflowService_RespondActivityTaskCanceledByID_Result.BadRequestError = b0 y,
      WorkflowService_RespondActivityTaskCanceledByID_Result.InternalServiceError = b1 y,
      WorkflowService_RespondActivityTaskCanceledByID_Result.EntityNotExistError = b2 y,
      WorkflowService_RespondActivityTaskCanceledByID_Result.DomainNotActiveError = b3 y,
      WorkflowService_RespondActivityTaskCanceledByID_Result.LimitExceededError = b4 y,
      WorkflowService_RespondActivityTaskCanceledByID_Result.ServiceBusyError = b5 y,
      WorkflowService_RespondActivityTaskCanceledByID_Result.ClientVersionNotSupportedError = b6 y\<rparr>)
      =
   Inr \<lparr>WorkflowService_RespondActivityTaskCanceledByID_Result.BadRequestError = (case x of None \<Rightarrow>
       a0 | Some y \<Rightarrow> b0 y),
       WorkflowService_RespondActivityTaskCanceledByID_Result.InternalServiceError = (case x of None
       \<Rightarrow> a1 | Some y \<Rightarrow> b1 y),
       WorkflowService_RespondActivityTaskCanceledByID_Result.EntityNotExistError = (case x of None
       \<Rightarrow> a2 | Some y \<Rightarrow> b2 y),
       WorkflowService_RespondActivityTaskCanceledByID_Result.DomainNotActiveError = (case x of None
       \<Rightarrow> a3 | Some y \<Rightarrow> b3 y),
       WorkflowService_RespondActivityTaskCanceledByID_Result.LimitExceededError = (case x of None \<Rightarrow>
       a4 | Some y \<Rightarrow> b4 y), WorkflowService_RespondActivityTaskCanceledByID_Result.ServiceBusyError
       = (case x of None \<Rightarrow> a5 | Some y \<Rightarrow> b5 y),
       WorkflowService_RespondActivityTaskCanceledByID_Result.ClientVersionNotSupportedError = (case
       x of None \<Rightarrow> a6 | Some y \<Rightarrow> b6 y)\<rparr>"
  by (cases x) simp_all

interpretation WorkflowService_RespondActivityTaskCanceledByID_Result: thrift_struct W
  "WorkflowService_RespondActivityTaskCanceledByID_Result_ToWire W"
      "WorkflowService_RespondActivityTaskCanceledByID_Result_FromWire W"
  WorkflowService_RespondActivityTaskCanceledByID_Result_zero "\<lambda>r.
      WorkflowService_RespondActivityTaskCanceledByID_Result_count r \<le> 1" for W
proof (rule thrift_checked_plainI)
  fix x :: WorkflowService_RespondActivityTaskCanceledByID_Result
  assume laws: "wire_laws W"
  obtain enc0 where e0: "BadRequestError_ToWire W = (\<lambda>x. Inr (enc0 x))"
      "\<And>x. wire_api.Type W (enc0 x) = TStruct"
      "\<And>x. Writable W (enc0 x) \<longleftrightarrow> (\<lambda>_. True) x"
      "\<And>x. (\<lambda>_. True) x \<Longrightarrow> BadRequestError_FromWire W (enc0 x) BadRequestError_zero = Inr x"
    by (rule BadRequestError.encoder [OF laws]) (rule that)
  obtain enc1 where e1: "InternalServiceError_ToWire W = (\<lambda>x. Inr (enc1 x))"
      "\<And>x. wire_api.Type W (enc1 x) = TStruct"
      "\<And>x. Writable W (enc1 x) \<longleftrightarrow> (\<lambda>_. True) x"
      "\<And>x. (\<lambda>_. True) x \<Longrightarrow> InternalServiceError_FromWire W (enc1 x) InternalServiceError_zero = Inr
          x"
    by (rule InternalServiceError.encoder [OF laws]) (rule that)
  obtain enc2 where e2: "EntityNotExistsError_ToWire W = (\<lambda>x. Inr (enc2 x))"
      "\<And>x. wire_api.Type W (enc2 x) = TStruct"
      "\<And>x. Writable W (enc2 x) \<longleftrightarrow> (\<lambda>_. True) x"
      "\<And>x. (\<lambda>_. True) x \<Longrightarrow> EntityNotExistsError_FromWire W (enc2 x) EntityNotExistsError_zero = Inr
          x"
    by (rule EntityNotExistsError.encoder [OF laws]) (rule that)
  obtain enc3 where e3: "DomainNotActiveError_ToWire W = (\<lambda>x. Inr (enc3 x))"
      "\<And>x. wire_api.Type W (enc3 x) = TStruct"
      "\<And>x. Writable W (enc3 x) \<longleftrightarrow> (\<lambda>_. True) x"
      "\<And>x. (\<lambda>_. True) x \<Longrightarrow> DomainNotActiveError_FromWire W (enc3 x) DomainNotActiveError_zero = Inr
          x"
    by (rule DomainNotActiveError.encoder [OF laws]) (rule that)
  obtain enc4 where e4: "LimitExceededError_ToWire W = (\<lambda>x. Inr (enc4 x))"
      "\<And>x. wire_api.Type W (enc4 x) = TStruct"
      "\<And>x. Writable W (enc4 x) \<longleftrightarrow> (\<lambda>_. True) x"
      "\<And>x. (\<lambda>_. True) x \<Longrightarrow> LimitExceededError_FromWire W (enc4 x) LimitExceededError_zero = Inr x"
    by (rule LimitExceededError.encoder [OF laws]) (rule that)
  obtain enc5 where e5: "ServiceBusyError_ToWire W = (\<lambda>x. Inr (enc5 x))"
      "\<And>x. wire_api.Type W (enc5 x) = TStruct"
      "\<And>x. Writable W (enc5 x) \<longleftrightarrow> (\<lambda>_. True) x"
      "\<And>x. (\<lambda>_. True) x \<Longrightarrow> ServiceBusyError_FromWire W (enc5 x) ServiceBusyError_zero = Inr x"
    by (rule ServiceBusyError.encoder [OF laws]) (rule that)
  obtain enc6 where e6: "ClientVersionNotSupportedError_ToWire W = (\<lambda>x. Inr (enc6 x))"
      "\<And>x. wire_api.Type W (enc6 x) = TStruct"
      "\<And>x. Writable W (enc6 x) \<longleftrightarrow> (\<lambda>_. True) x"
      "\<And>x. (\<lambda>_. True) x \<Longrightarrow> ClientVersionNotSupportedError_FromWire W (enc6 x)
          ClientVersionNotSupportedError_zero = Inr x"
    by (rule ClientVersionNotSupportedError.encoder [OF laws]) (rule that)
  let ?fs = "(((((opt_field 1 enc0
      (WorkflowService_RespondActivityTaskCanceledByID_Result.BadRequestError x) @
      opt_field 2 enc1 (WorkflowService_RespondActivityTaskCanceledByID_Result.InternalServiceError
          x)) @
      opt_field 3 enc2 (WorkflowService_RespondActivityTaskCanceledByID_Result.EntityNotExistError
          x)) @
      opt_field 4 enc3 (WorkflowService_RespondActivityTaskCanceledByID_Result.DomainNotActiveError
          x)) @
      opt_field 5 enc4 (WorkflowService_RespondActivityTaskCanceledByID_Result.LimitExceededError
          x)) @
      opt_field 6 enc5 (WorkflowService_RespondActivityTaskCanceledByID_Result.ServiceBusyError x))
          @
      opt_field 7 enc6
          (WorkflowService_RespondActivityTaskCanceledByID_Result.ClientVersionNotSupportedError x)"
  let ?check = "\<lambda>r. if 1 < WorkflowService_RespondActivityTaskCanceledByID_Result_count x then Inl
      (E_Errorf
      ''WorkflowService_RespondActivityTaskCanceledByID_Result should have at most one field: got %v fields'' (WorkflowService_RespondActivityTaskCanceledByID_Result_count x)) else Inr r"
  have "length ?fs = WorkflowService_RespondActivityTaskCanceledByID_Result_count x"
    by (simp add: WorkflowService_RespondActivityTaskCanceledByID_Result_count_def length_opt_field
        split del: if_split)
  then have "WorkflowService_RespondActivityTaskCanceledByID_Result_ToWire W x = ?check
      (NewValueStruct W ?fs)"
    by (simp only: WorkflowService_RespondActivityTaskCanceledByID_Result_ToWire_def put_opt_field
        and_then.simps append_Nil e0(1) e1(1) e2(1) e3(1) e4(1) e5(1) e6(1))
  moreover have "WorkflowService_RespondActivityTaskCanceledByID_Result_FromWire W (NewValueStruct W
      ?fs) WorkflowService_RespondActivityTaskCanceledByID_Result_zero = ?check x"
    by (cases x, hypsubst) (simp cong: option.case_cong split del: if_split add: codec_rules Let_def
        WorkflowService_RespondActivityTaskCanceledByID_Result_merge
      WorkflowService_RespondActivityTaskCanceledByID_Result_FromWire_def
          WorkflowService_RespondActivityTaskCanceledByID_Result_zero_def laws
      BadRequestError_Read_def
      ClientVersionNotSupportedError_Read_def
      DomainNotActiveError_Read_def
      EntityNotExistsError_Read_def
      InternalServiceError_Read_def
      LimitExceededError_Read_def
      ServiceBusyError_Read_def
      e0 e1 e2 e3 e4 e5 e6)
  ultimately show "if WorkflowService_RespondActivityTaskCanceledByID_Result_count x \<le> 1
      then \<exists>w. WorkflowService_RespondActivityTaskCanceledByID_Result_ToWire W x = Inr w \<and>
          wire_api.Type W w = TStruct \<and>
        Writable W w \<and> WorkflowService_RespondActivityTaskCanceledByID_Result_FromWire W w
            WorkflowService_RespondActivityTaskCanceledByID_Result_zero = Inr x
      else \<exists>e. WorkflowService_RespondActivityTaskCanceledByID_Result_ToWire W x = Inl e"
    by (simp add: laws codec_rules e0 e1 e2 e3 e4 e5 e6)
qed

interpretation RespondActivityTaskCanceledByID: rpc_method W
  "WorkflowService_RespondActivityTaskCanceledByID_Args_ToWire W"
      "WorkflowService_RespondActivityTaskCanceledByID_Args_FromWire W"
      WorkflowService_RespondActivityTaskCanceledByID_Args_zero "\<lambda>x. True"
  "WorkflowService_RespondActivityTaskCanceledByID_Result_ToWire W"
      "WorkflowService_RespondActivityTaskCanceledByID_Result_FromWire W"
      WorkflowService_RespondActivityTaskCanceledByID_Result_zero
  "\<lambda>r. WorkflowService_RespondActivityTaskCanceledByID_Result_count r \<le> 1"
      "''RespondActivityTaskCanceledByID''"
  WorkflowService_RespondActivityTaskCanceledByID_Helper_Args
      "WorkflowService_RespondActivityTaskCanceledByID_Args.CanceledRequest"
  "WorkflowService_RespondActivityTaskCanceledByID_Helper_WrapResponse"
      WorkflowService_RespondActivityTaskCanceledByID_Helper_UnwrapResponse
  "\<lambda>out. out \<noteq> None" "carried_void
      WorkflowService_RespondActivityTaskCanceledByID_Helper_IsException" id "\<lambda>e. Some e"
  "handler_RespondActivityTaskCanceledByID W" "client_RespondActivityTaskCanceledByID W" for W
proof
  fix out :: "go_error option"
  assume "carried_void WorkflowService_RespondActivityTaskCanceledByID_Helper_IsException out"
  then show "case (WorkflowService_RespondActivityTaskCanceledByID_Helper_WrapResponse) out of Inl e
      \<Rightarrow> False
      | Inr res \<Rightarrow> (WorkflowService_RespondActivityTaskCanceledByID_Result_count res \<le> 1) \<and>
          WorkflowService_RespondActivityTaskCanceledByID_Helper_UnwrapResponse res = id out"
    by (cases out; cases "the out")
      (auto simp: WorkflowService_RespondActivityTaskCanceledByID_Helper_IsException_def
          WorkflowService_RespondActivityTaskCanceledByID_Helper_WrapResponse_def
          WorkflowService_RespondActivityTaskCanceledByID_Helper_UnwrapResponse_def
        declared_nonnil_def WorkflowService_RespondActivityTaskCanceledByID_Result_zero_def
            WorkflowService_RespondActivityTaskCanceledByID_Result_count_def elim!: present.elims)
next
  fix out :: "go_error option"
  assume "\<not> carried_void WorkflowService_RespondActivityTaskCanceledByID_Helper_IsException out"
  then show "case (WorkflowService_RespondActivityTaskCanceledByID_Helper_WrapResponse) out of Inl e
      \<Rightarrow> True
      | Inr res \<Rightarrow> \<not> (WorkflowService_RespondActivityTaskCanceledByID_Result_count res \<le> 1)"
    by (cases out; cases "the out")
      (auto simp: WorkflowService_RespondActivityTaskCanceledByID_Helper_IsException_def
          WorkflowService_RespondActivityTaskCanceledByID_Helper_WrapResponse_def
          declared_nonnil_def
        WorkflowService_RespondActivityTaskCanceledByID_Result_count_def
            WorkflowService_RespondActivityTaskCanceledByID_Result_zero_def split: option.splits)
qed (auto simp: WorkflowService_RespondActivityTaskCanceledByID_Helper_Args_def
    handler_RespondActivityTaskCanceledByID_def client_RespondActivityTaskCanceledByID_def
      WorkflowService_RespondActivityTaskCanceledByID_Args_enveloper_def
          WorkflowService_RespondActivityTaskCanceledByID_Result_enveloper_def
      Let_def split: sum.splits prod.splits)

end
