(* ===== verification/GoTaskEvents.thy ===== *)
theory GoTaskEvents
  imports GoTypes
begin

text \<open>
  The attributes of the events about activities, decision tasks and timers
  (proxy/gen/shared/shared.go), with their codecs and comparisons.
\<close>

record ActivityTaskCancelRequestedEventAttributes =
  ActivityId :: "string option"
  DecisionTaskCompletedEventId :: "64 word option"

definition ActivityTaskCancelRequestedEventAttributes_zero ::
    ActivityTaskCancelRequestedEventAttributes where
  "ActivityTaskCancelRequestedEventAttributes_zero =
      \<lparr>ActivityTaskCancelRequestedEventAttributes.ActivityId = None,
      ActivityTaskCancelRequestedEventAttributes.DecisionTaskCompletedEventId = None\<rparr>"

definition ActivityTaskCancelRequestedEventAttributes_ToWire ::
  "'v wire_api \<Rightarrow> ActivityTaskCancelRequestedEventAttributes \<Rightarrow> go_error + 'v" where
  "ActivityTaskCancelRequestedEventAttributes_ToWire W v =
     and_then (put_opt 10 (\<lambda>x. Inr (NewValueString W x))
         (ActivityTaskCancelRequestedEventAttributes.ActivityId v) [])
       (\<lambda>fields.
     and_then (put_opt 20 (\<lambda>x. Inr (NewValueI64 W x))
         (ActivityTaskCancelRequestedEventAttributes.DecisionTaskCompletedEventId v) fields)
       (\<lambda>fields.
     Inr (NewValueStruct W fields)))"

definition ActivityTaskCancelRequestedEventAttributes_FromWire ::
  "'v wire_api \<Rightarrow> 'v \<Rightarrow> ActivityTaskCancelRequestedEventAttributes \<Rightarrow> go_error +
      ActivityTaskCancelRequestedEventAttributes" where
  "ActivityTaskCancelRequestedEventAttributes_FromWire W w v =
     foldM (\<lambda>v (fid, fval).
       if fid = 10 then
         if wire_api.Type W fval = TBinary
         then Inr (v\<lparr>ActivityTaskCancelRequestedEventAttributes.ActivityId := Some (GetString W
             fval)\<rparr>)
         else Inr v
       else if fid = 20 then
         if wire_api.Type W fval = TI64
         then Inr (v\<lparr>ActivityTaskCancelRequestedEventAttributes.DecisionTaskCompletedEventId := Some
             (GetI64 W fval)\<rparr>)
         else Inr v
       else Inr v) (GetStruct W w) v"

definition ActivityTaskCancelRequestedEventAttributes_Read :: "'v wire_api \<Rightarrow> 'v \<Rightarrow> go_error +
    ActivityTaskCancelRequestedEventAttributes" where
  "ActivityTaskCancelRequestedEventAttributes_Read W w =
      ActivityTaskCancelRequestedEventAttributes_FromWire W w
      ActivityTaskCancelRequestedEventAttributes_zero"

lemma ActivityTaskCancelRequestedEventAttributes_merge:
  "(case x of None \<Rightarrow> Inr \<lparr>ActivityTaskCancelRequestedEventAttributes.ActivityId = a0,
      ActivityTaskCancelRequestedEventAttributes.DecisionTaskCompletedEventId = a1\<rparr> | Some y \<Rightarrow> Inr
      \<lparr>ActivityTaskCancelRequestedEventAttributes.ActivityId = b0 y,
      ActivityTaskCancelRequestedEventAttributes.DecisionTaskCompletedEventId = b1 y\<rparr>) =
   Inr \<lparr>ActivityTaskCancelRequestedEventAttributes.ActivityId = (case x of None \<Rightarrow> a0 | Some y \<Rightarrow> b0
       y), ActivityTaskCancelRequestedEventAttributes.DecisionTaskCompletedEventId = (case x of None
       \<Rightarrow> a1 | Some y \<Rightarrow> b1 y)\<rparr>"
  by (cases x) simp_all

interpretation ActivityTaskCancelRequestedEventAttributes: thrift_message W
  "ActivityTaskCancelRequestedEventAttributes_ToWire W"
      "ActivityTaskCancelRequestedEventAttributes_FromWire W"
      ActivityTaskCancelRequestedEventAttributes_zero "\<lambda>_. True" for W
proof (rule thrift_messageI)
  fix x :: ActivityTaskCancelRequestedEventAttributes
  assume laws: "wire_laws W"
  show "\<exists>w. ActivityTaskCancelRequestedEventAttributes_ToWire W x = Inr w \<and> wire_api.Type W w =
      TStruct \<and>
      (Writable W w \<longleftrightarrow> (\<lambda>_. True) x) \<and> ((\<lambda>_. True) x \<longrightarrow>
          ActivityTaskCancelRequestedEventAttributes_FromWire W w
          ActivityTaskCancelRequestedEventAttributes_zero = Inr x)"
    by (cases x) (simp cong: option.case_cong add: codec_rules
        ActivityTaskCancelRequestedEventAttributes_merge
        ActivityTaskCancelRequestedEventAttributes_ToWire_def
        ActivityTaskCancelRequestedEventAttributes_FromWire_def
        ActivityTaskCancelRequestedEventAttributes_zero_def laws)
qed

definition ActivityTaskCancelRequestedEventAttributes_Equals ::
  "ActivityTaskCancelRequestedEventAttributes option \<Rightarrow> ActivityTaskCancelRequestedEventAttributes
      option \<Rightarrow> bool" where
  "ActivityTaskCancelRequestedEventAttributes_Equals v rhs =
     (case v of None \<Rightarrow> rhs = None
      | Some v \<Rightarrow> (case rhs of None \<Rightarrow> False
        | Some rhs \<Rightarrow>
          if \<not> String_EqualsPtr (ActivityTaskCancelRequestedEventAttributes.ActivityId v)
              (ActivityTaskCancelRequestedEventAttributes.ActivityId rhs) then False else
          if \<not> I64_EqualsPtr
              (ActivityTaskCancelRequestedEventAttributes.DecisionTaskCompletedEventId v)
              (ActivityTaskCancelRequestedEventAttributes.DecisionTaskCompletedEventId rhs) then
              False else
          True))"

lemma ActivityTaskCancelRequestedEventAttributes_Equals_iff [simp]:
    "ActivityTaskCancelRequestedEventAttributes_Equals x y \<longleftrightarrow> x = y"
  by (cases x; cases y) (auto simp: ActivityTaskCancelRequestedEventAttributes_Equals_def)

record ActivityTaskCanceledEventAttributes =
  Details :: "bytes option"
  LatestCancelRequestedEventId :: "64 word option"
  ScheduledEventId :: "64 word option"
  StartedEventId :: "64 word option"
  Identity :: "string option"

definition ActivityTaskCanceledEventAttributes_zero :: ActivityTaskCanceledEventAttributes where
  "ActivityTaskCanceledEventAttributes_zero = \<lparr>ActivityTaskCanceledEventAttributes.Details = None,
      ActivityTaskCanceledEventAttributes.LatestCancelRequestedEventId = None,
      ActivityTaskCanceledEventAttributes.ScheduledEventId = None,
      ActivityTaskCanceledEventAttributes.StartedEventId = None,
      ActivityTaskCanceledEventAttributes.Identity = None\<rparr>"

definition ActivityTaskCanceledEventAttributes_ToWire ::
  "'v wire_api \<Rightarrow> ActivityTaskCanceledEventAttributes \<Rightarrow> go_error + 'v" where
  "ActivityTaskCanceledEventAttributes_ToWire W v =
     and_then (put_opt 10 (\<lambda>x. Inr (NewValueBinary W x))
         (ActivityTaskCanceledEventAttributes.Details v) [])
       (\<lambda>fields.
     and_then (put_opt 20 (\<lambda>x. Inr (NewValueI64 W x))
         (ActivityTaskCanceledEventAttributes.LatestCancelRequestedEventId v) fields)
       (\<lambda>fields.
     and_then (put_opt 30 (\<lambda>x. Inr (NewValueI64 W x))
         (ActivityTaskCanceledEventAttributes.ScheduledEventId v) fields)
       (\<lambda>fields.
     and_then (put_opt 40 (\<lambda>x. Inr (NewValueI64 W x))
         (ActivityTaskCanceledEventAttributes.StartedEventId v) fields)
       (\<lambda>fields.
     and_then (put_opt 50 (\<lambda>x. Inr (NewValueString W x))
         (ActivityTaskCanceledEventAttributes.Identity v) fields)
       (\<lambda>fields.
     Inr (NewValueStruct W fields))))))"

definition ActivityTaskCanceledEventAttributes_FromWire ::
  "'v wire_api \<Rightarrow> 'v \<Rightarrow> ActivityTaskCanceledEventAttributes \<Rightarrow> go_error +
      ActivityTaskCanceledEventAttributes" where
  "ActivityTaskCanceledEventAttributes_FromWire W w v =
     foldM (\<lambda>v (fid, fval).
       if fid = 10 then
         if wire_api.Type W fval = TBinary
         then Inr (v\<lparr>ActivityTaskCanceledEventAttributes.Details := Some (GetBinary W fval)\<rparr>)
         else Inr v
       else if fid = 20 then
         if wire_api.Type W fval = TI64
         then Inr (v\<lparr>ActivityTaskCanceledEventAttributes.LatestCancelRequestedEventId := Some
             (GetI64 W fval)\<rparr>)
         else Inr v
       else if fid = 30 then
         if wire_api.Type W fval = TI64
         then Inr (v\<lparr>ActivityTaskCanceledEventAttributes.ScheduledEventId := Some (GetI64 W fval)\<rparr>)
         else Inr v
       else if fid = 40 then
         if wire_api.Type W fval = TI64
         then Inr (v\<lparr>ActivityTaskCanceledEventAttributes.StartedEventId := Some (GetI64 W fval)\<rparr>)
         else Inr v
       else if fid = 50 then
         if wire_api.Type W fval = TBinary
         then Inr (v\<lparr>ActivityTaskCanceledEventAttributes.Identity := Some (GetString W fval)\<rparr>)
         else Inr v
       else Inr v) (GetStruct W w) v"

definition ActivityTaskCanceledEventAttributes_Read :: "'v wire_api \<Rightarrow> 'v \<Rightarrow> go_error +
    ActivityTaskCanceledEventAttributes" where
  "ActivityTaskCanceledEventAttributes_Read W w = ActivityTaskCanceledEventAttributes_FromWire W w
      ActivityTaskCanceledEventAttributes_zero"

lemma ActivityTaskCanceledEventAttributes_merge:
  "(case x of None \<Rightarrow> Inr \<lparr>ActivityTaskCanceledEventAttributes.Details = a0,
      ActivityTaskCanceledEventAttributes.LatestCancelRequestedEventId = a1,
      ActivityTaskCanceledEventAttributes.ScheduledEventId = a2,
      ActivityTaskCanceledEventAttributes.StartedEventId = a3,
      ActivityTaskCanceledEventAttributes.Identity = a4\<rparr> | Some y \<Rightarrow> Inr
      \<lparr>ActivityTaskCanceledEventAttributes.Details = b0 y,
      ActivityTaskCanceledEventAttributes.LatestCancelRequestedEventId = b1 y,
      ActivityTaskCanceledEventAttributes.ScheduledEventId = b2 y,
      ActivityTaskCanceledEventAttributes.StartedEventId = b3 y,
      ActivityTaskCanceledEventAttributes.Identity = b4 y\<rparr>) =
   Inr \<lparr>ActivityTaskCanceledEventAttributes.Details = (case x of None \<Rightarrow> a0 | Some y \<Rightarrow> b0 y),
       ActivityTaskCanceledEventAttributes.LatestCancelRequestedEventId = (case x of None \<Rightarrow> a1 |
       Some y \<Rightarrow> b1 y), ActivityTaskCanceledEventAttributes.ScheduledEventId = (case x of None \<Rightarrow> a2 |
       Some y \<Rightarrow> b2 y), ActivityTaskCanceledEventAttributes.StartedEventId = (case x of None \<Rightarrow> a3 |
       Some y \<Rightarrow> b3 y), ActivityTaskCanceledEventAttributes.Identity = (case x of None \<Rightarrow> a4 | Some y
       \<Rightarrow> b4 y)\<rparr>"
  by (cases x) simp_all

interpretation ActivityTaskCanceledEventAttributes: thrift_message W
  "ActivityTaskCanceledEventAttributes_ToWire W" "ActivityTaskCanceledEventAttributes_FromWire W"
      ActivityTaskCanceledEventAttributes_zero "\<lambda>_. True" for W
proof (rule thrift_messageI)
  fix x :: ActivityTaskCanceledEventAttributes
  assume laws: "wire_laws W"
  show "\<exists>w. ActivityTaskCanceledEventAttributes_ToWire W x = Inr w \<and> wire_api.Type W w = TStruct \<and>
      (Writable W w \<longleftrightarrow> (\<lambda>_. True) x) \<and> ((\<lambda>_. True) x \<longrightarrow> ActivityTaskCanceledEventAttributes_FromWire W
          w ActivityTaskCanceledEventAttributes_zero = Inr x)"
    by (cases x) (simp cong: option.case_cong add: codec_rules
        ActivityTaskCanceledEventAttributes_merge ActivityTaskCanceledEventAttributes_ToWire_def
        ActivityTaskCanceledEventAttributes_FromWire_def
        ActivityTaskCanceledEventAttributes_zero_def laws)
qed

definition ActivityTaskCanceledEventAttributes_Equals ::
  "ActivityTaskCanceledEventAttributes option \<Rightarrow> ActivityTaskCanceledEventAttributes option \<Rightarrow> bool"
      where
  "ActivityTaskCanceledEventAttributes_Equals v rhs =
     (case v of None \<Rightarrow> rhs = None
      | Some v \<Rightarrow> (case rhs of None \<Rightarrow> False
        | Some rhs \<Rightarrow>
          if \<not> both_set_and (=) (ActivityTaskCanceledEventAttributes.Details v)
              (ActivityTaskCanceledEventAttributes.Details rhs) then False else
          if \<not> I64_EqualsPtr (ActivityTaskCanceledEventAttributes.LatestCancelRequestedEventId v)
              (ActivityTaskCanceledEventAttributes.LatestCancelRequestedEventId rhs) then False else
          if \<not> I64_EqualsPtr (ActivityTaskCanceledEventAttributes.ScheduledEventId v)
              (ActivityTaskCanceledEventAttributes.ScheduledEventId rhs) then False else
          if \<not> I64_EqualsPtr (ActivityTaskCanceledEventAttributes.StartedEventId v)
              (ActivityTaskCanceledEventAttributes.StartedEventId rhs) then False else
          if \<not> String_EqualsPtr (ActivityTaskCanceledEventAttributes.Identity v)
              (ActivityTaskCanceledEventAttributes.Identity rhs) then False else
          True))"

lemma ActivityTaskCanceledEventAttributes_Equals_iff [simp]:
    "ActivityTaskCanceledEventAttributes_Equals x y \<longleftrightarrow> x = y"
  by (cases x; cases y) (simp_all add: ActivityTaskCanceledEventAttributes_Equals_def if_not_False,
      fastforce intro: ActivityTaskCanceledEventAttributes.equality)

record ActivityTaskCompletedEventAttributes =
  Result :: "bytes option"
  ScheduledEventId :: "64 word option"
  StartedEventId :: "64 word option"
  Identity :: "string option"

definition ActivityTaskCompletedEventAttributes_zero :: ActivityTaskCompletedEventAttributes where
  "ActivityTaskCompletedEventAttributes_zero = \<lparr>ActivityTaskCompletedEventAttributes.Result = None,
      ActivityTaskCompletedEventAttributes.ScheduledEventId = None,
      ActivityTaskCompletedEventAttributes.StartedEventId = None,
      ActivityTaskCompletedEventAttributes.Identity = None\<rparr>"

definition ActivityTaskCompletedEventAttributes_ToWire ::
  "'v wire_api \<Rightarrow> ActivityTaskCompletedEventAttributes \<Rightarrow> go_error + 'v" where
  "ActivityTaskCompletedEventAttributes_ToWire W v =
     and_then (put_opt 10 (\<lambda>x. Inr (NewValueBinary W x))
         (ActivityTaskCompletedEventAttributes.Result v) [])
       (\<lambda>fields.
     and_then (put_opt 20 (\<lambda>x. Inr (NewValueI64 W x))
         (ActivityTaskCompletedEventAttributes.ScheduledEventId v) fields)
       (\<lambda>fields.
     and_then (put_opt 30 (\<lambda>x. Inr (NewValueI64 W x))
         (ActivityTaskCompletedEventAttributes.StartedEventId v) fields)
       (\<lambda>fields.
     and_then (put_opt 40 (\<lambda>x. Inr (NewValueString W x))
         (ActivityTaskCompletedEventAttributes.Identity v) fields)
       (\<lambda>fields.
     Inr (NewValueStruct W fields)))))"

definition ActivityTaskCompletedEventAttributes_FromWire ::
  "'v wire_api \<Rightarrow> 'v \<Rightarrow> ActivityTaskCompletedEventAttributes \<Rightarrow> go_error +
      ActivityTaskCompletedEventAttributes" where
  "ActivityTaskCompletedEventAttributes_FromWire W w v =
     foldM (\<lambda>v (fid, fval).
       if fid = 10 then
         if wire_api.Type W fval = TBinary
         then Inr (v\<lparr>ActivityTaskCompletedEventAttributes.Result := Some (GetBinary W fval)\<rparr>)
         else Inr v
       else if fid = 20 then
         if wire_api.Type W fval = TI64
         then Inr (v\<lparr>ActivityTaskCompletedEventAttributes.ScheduledEventId := Some (GetI64 W fval)\<rparr>)
         else Inr v
       else if fid = 30 then
         if wire_api.Type W fval = TI64
         then Inr (v\<lparr>ActivityTaskCompletedEventAttributes.StartedEventId := Some (GetI64 W fval)\<rparr>)
         else Inr v
       else if fid = 40 then
         if wire_api.Type W fval = TBinary
         then Inr (v\<lparr>ActivityTaskCompletedEventAttributes.Identity := Some (GetString W fval)\<rparr>)
         else Inr v
       else Inr v) (GetStruct W w) v"

definition ActivityTaskCompletedEventAttributes_Read :: "'v wire_api \<Rightarrow> 'v \<Rightarrow> go_error +
    ActivityTaskCompletedEventAttributes" where
  "ActivityTaskCompletedEventAttributes_Read W w = ActivityTaskCompletedEventAttributes_FromWire W w
      ActivityTaskCompletedEventAttributes_zero"

lemma ActivityTaskCompletedEventAttributes_merge:
  "(case x of None \<Rightarrow> Inr \<lparr>ActivityTaskCompletedEventAttributes.Result = a0,
      ActivityTaskCompletedEventAttributes.ScheduledEventId = a1,
      ActivityTaskCompletedEventAttributes.StartedEventId = a2,
      ActivityTaskCompletedEventAttributes.Identity = a3\<rparr> | Some y \<Rightarrow> Inr
      \<lparr>ActivityTaskCompletedEventAttributes.Result = b0 y,
      ActivityTaskCompletedEventAttributes.ScheduledEventId = b1 y,
      ActivityTaskCompletedEventAttributes.StartedEventId = b2 y,
      ActivityTaskCompletedEventAttributes.Identity = b3 y\<rparr>) =
   Inr \<lparr>ActivityTaskCompletedEventAttributes.Result = (case x of None \<Rightarrow> a0 | Some y \<Rightarrow> b0 y),
       ActivityTaskCompletedEventAttributes.ScheduledEventId = (case x of None \<Rightarrow> a1 | Some y \<Rightarrow> b1
       y), ActivityTaskCompletedEventAttributes.StartedEventId = (case x of None \<Rightarrow> a2 | Some y \<Rightarrow> b2
       y), ActivityTaskCompletedEventAttributes.Identity = (case x of None \<Rightarrow> a3 | Some y \<Rightarrow> b3 y)\<rparr>"
  by (cases x) simp_all

interpretation ActivityTaskCompletedEventAttributes: thrift_message W
  "ActivityTaskCompletedEventAttributes_ToWire W" "ActivityTaskCompletedEventAttributes_FromWire W"
      ActivityTaskCompletedEventAttributes_zero "\<lambda>_. True" for W
proof (rule thrift_messageI)
  fix x :: ActivityTaskCompletedEventAttributes
  assume laws: "wire_laws W"
  show "\<exists>w. ActivityTaskCompletedEventAttributes_ToWire W x = Inr w \<and> wire_api.Type W w = TStruct \<and>
      (Writable W w \<longleftrightarrow> (\<lambda>_. True) x) \<and> ((\<lambda>_. True) x \<longrightarrow> ActivityTaskCompletedEventAttributes_FromWire
          W w ActivityTaskCompletedEventAttributes_zero = Inr x)"
    by (cases x) (simp cong: option.case_cong add: codec_rules
        ActivityTaskCompletedEventAttributes_merge ActivityTaskCompletedEventAttributes_ToWire_def
        ActivityTaskCompletedEventAttributes_FromWire_def
        ActivityTaskCompletedEventAttributes_zero_def laws)
qed

definition ActivityTaskCompletedEventAttributes_Equals ::
  "ActivityTaskCompletedEventAttributes option \<Rightarrow> ActivityTaskCompletedEventAttributes option \<Rightarrow> bool"
      where
  "ActivityTaskCompletedEventAttributes_Equals v rhs =
     (case v of None \<Rightarrow> rhs = None
      | Some v \<Rightarrow> (case rhs of None \<Rightarrow> False
        | Some rhs \<Rightarrow>
          if \<not> both_set_and (=) (ActivityTaskCompletedEventAttributes.Result v)
              (ActivityTaskCompletedEventAttributes.Result rhs) then False else
          if \<not> I64_EqualsPtr (ActivityTaskCompletedEventAttributes.ScheduledEventId v)
              (ActivityTaskCompletedEventAttributes.ScheduledEventId rhs) then False else
          if \<not> I64_EqualsPtr (ActivityTaskCompletedEventAttributes.StartedEventId v)
              (ActivityTaskCompletedEventAttributes.StartedEventId rhs) then False else
          if \<not> String_EqualsPtr (ActivityTaskCompletedEventAttributes.Identity v)
              (ActivityTaskCompletedEventAttributes.Identity rhs) then False else
          True))"

lemma ActivityTaskCompletedEventAttributes_Equals_iff [simp]:
    "ActivityTaskCompletedEventAttributes_Equals x y \<longleftrightarrow> x = y"
  by (cases x; cases y) (auto simp: ActivityTaskCompletedEventAttributes_Equals_def)

record ActivityTaskFailedEventAttributes =
  Reason :: "string option"
  Details :: "bytes option"
  ScheduledEventId :: "64 word option"
  StartedEventId :: "64 word option"
  Identity :: "string option"

definition ActivityTaskFailedEventAttributes_zero :: ActivityTaskFailedEventAttributes where
  "ActivityTaskFailedEventAttributes_zero = \<lparr>ActivityTaskFailedEventAttributes.Reason = None,
      ActivityTaskFailedEventAttributes.Details = None,
      ActivityTaskFailedEventAttributes.ScheduledEventId = None,
      ActivityTaskFailedEventAttributes.StartedEventId = None,
      ActivityTaskFailedEventAttributes.Identity = None\<rparr>"

definition ActivityTaskFailedEventAttributes_ToWire ::
  "'v wire_api \<Rightarrow> ActivityTaskFailedEventAttributes \<Rightarrow> go_error + 'v" where
  "ActivityTaskFailedEventAttributes_ToWire W v =
     and_then (put_opt 10 (\<lambda>x. Inr (NewValueString W x)) (ActivityTaskFailedEventAttributes.Reason
         v) [])
       (\<lambda>fields.
     and_then (put_opt 20 (\<lambda>x. Inr (NewValueBinary W x)) (ActivityTaskFailedEventAttributes.Details
         v) fields)
       (\<lambda>fields.
     and_then (put_opt 30 (\<lambda>x. Inr (NewValueI64 W x))
         (ActivityTaskFailedEventAttributes.ScheduledEventId v) fields)
       (\<lambda>fields.
     and_then (put_opt 40 (\<lambda>x. Inr (NewValueI64 W x))
         (ActivityTaskFailedEventAttributes.StartedEventId v) fields)
       (\<lambda>fields.
     and_then (put_opt 50 (\<lambda>x. Inr (NewValueString W x)) (ActivityTaskFailedEventAttributes.Identity
         v) fields)
       (\<lambda>fields.
     Inr (NewValueStruct W fields))))))"

definition ActivityTaskFailedEventAttributes_FromWire ::
  "'v wire_api \<Rightarrow> 'v \<Rightarrow> ActivityTaskFailedEventAttributes \<Rightarrow> go_error +
      ActivityTaskFailedEventAttributes" where
  "ActivityTaskFailedEventAttributes_FromWire W w v =
     foldM (\<lambda>v (fid, fval).
       if fid = 10 then
         if wire_api.Type W fval = TBinary
         then Inr (v\<lparr>ActivityTaskFailedEventAttributes.Reason := Some (GetString W fval)\<rparr>)
         else Inr v
       else if fid = 20 then
         if wire_api.Type W fval = TBinary
         then Inr (v\<lparr>ActivityTaskFailedEventAttributes.Details := Some (GetBinary W fval)\<rparr>)
         else Inr v
       else if fid = 30 then
         if wire_api.Type W fval = TI64
         then Inr (v\<lparr>ActivityTaskFailedEventAttributes.ScheduledEventId := Some (GetI64 W fval)\<rparr>)
         else Inr v
       else if fid = 40 then
         if wire_api.Type W fval = TI64
         then Inr (v\<lparr>ActivityTaskFailedEventAttributes.StartedEventId := Some (GetI64 W fval)\<rparr>)
         else Inr v
       else if fid = 50 then
         if wire_api.Type W fval = TBinary
         then Inr (v\<lparr>ActivityTaskFailedEventAttributes.Identity := Some (GetString W fval)\<rparr>)
         else Inr v
       else Inr v) (GetStruct W w) v"

definition ActivityTaskFailedEventAttributes_Read :: "'v wire_api \<Rightarrow> 'v \<Rightarrow> go_error +
    ActivityTaskFailedEventAttributes" where
  "ActivityTaskFailedEventAttributes_Read W w = ActivityTaskFailedEventAttributes_FromWire W w
      ActivityTaskFailedEventAttributes_zero"

lemma ActivityTaskFailedEventAttributes_merge:
  "(case x of None \<Rightarrow> Inr \<lparr>ActivityTaskFailedEventAttributes.Reason = a0,
      ActivityTaskFailedEventAttributes.Details = a1,
      ActivityTaskFailedEventAttributes.ScheduledEventId = a2,
      ActivityTaskFailedEventAttributes.StartedEventId = a3,
      ActivityTaskFailedEventAttributes.Identity = a4\<rparr> | Some y \<Rightarrow> Inr
      \<lparr>ActivityTaskFailedEventAttributes.Reason = b0 y, ActivityTaskFailedEventAttributes.Details =
      b1 y, ActivityTaskFailedEventAttributes.ScheduledEventId = b2 y,
      ActivityTaskFailedEventAttributes.StartedEventId = b3 y,
      ActivityTaskFailedEventAttributes.Identity = b4 y\<rparr>) =
   Inr \<lparr>ActivityTaskFailedEventAttributes.Reason = (case x of None \<Rightarrow> a0 | Some y \<Rightarrow> b0 y),
       ActivityTaskFailedEventAttributes.Details = (case x of None \<Rightarrow> a1 | Some y \<Rightarrow> b1 y),
       ActivityTaskFailedEventAttributes.ScheduledEventId = (case x of None \<Rightarrow> a2 | Some y \<Rightarrow> b2 y),
       ActivityTaskFailedEventAttributes.StartedEventId = (case x of None \<Rightarrow> a3 | Some y \<Rightarrow> b3 y),
       ActivityTaskFailedEventAttributes.Identity = (case x of None \<Rightarrow> a4 | Some y \<Rightarrow> b4 y)\<rparr>"
  by (cases x) simp_all

interpretation ActivityTaskFailedEventAttributes: thrift_message W
  "ActivityTaskFailedEventAttributes_ToWire W" "ActivityTaskFailedEventAttributes_FromWire W"
      ActivityTaskFailedEventAttributes_zero "\<lambda>_. True" for W
proof (rule thrift_messageI)
  fix x :: ActivityTaskFailedEventAttributes
  assume laws: "wire_laws W"
  show "\<exists>w. ActivityTaskFailedEventAttributes_ToWire W x = Inr w \<and> wire_api.Type W w = TStruct \<and>
      (Writable W w \<longleftrightarrow> (\<lambda>_. True) x) \<and> ((\<lambda>_. True) x \<longrightarrow> ActivityTaskFailedEventAttributes_FromWire W w
          ActivityTaskFailedEventAttributes_zero = Inr x)"
    by (cases x) (simp cong: option.case_cong add: codec_rules
        ActivityTaskFailedEventAttributes_merge ActivityTaskFailedEventAttributes_ToWire_def
        ActivityTaskFailedEventAttributes_FromWire_def ActivityTaskFailedEventAttributes_zero_def
        laws)
qed

definition ActivityTaskFailedEventAttributes_Equals ::
  "ActivityTaskFailedEventAttributes option \<Rightarrow> ActivityTaskFailedEventAttributes option \<Rightarrow> bool" where
  "ActivityTaskFailedEventAttributes_Equals v rhs =
     (case v of None \<Rightarrow> rhs = None
      | Some v \<Rightarrow> (case rhs of None \<Rightarrow> False
        | Some rhs \<Rightarrow>
          if \<not> String_EqualsPtr (ActivityTaskFailedEventAttributes.Reason v)
              (ActivityTaskFailedEventAttributes.Reason rhs) then False else
          if \<not> both_set_and (=) (ActivityTaskFailedEventAttributes.Details v)
              (ActivityTaskFailedEventAttributes.Details rhs) then False else
          if \<not> I64_EqualsPtr (ActivityTaskFailedEventAttributes.ScheduledEventId v)
              (ActivityTaskFailedEventAttributes.ScheduledEventId rhs) then False else
          if \<not> I64_EqualsPtr (ActivityTaskFailedEventAttributes.StartedEventId v)
              (ActivityTaskFailedEventAttributes.StartedEventId rhs) then False else
          if \<not> String_EqualsPtr (ActivityTaskFailedEventAttributes.Identity v)
              (ActivityTaskFailedEventAttributes.Identity rhs) then False else
          True))"

lemma ActivityTaskFailedEventAttributes_Equals_iff [simp]: "ActivityTaskFailedEventAttributes_Equals
    x y \<longleftrightarrow> x = y"
  by (cases x; cases y) (simp_all add: ActivityTaskFailedEventAttributes_Equals_def if_not_False,
      fastforce intro: ActivityTaskFailedEventAttributes.equality)

record ActivityTaskScheduledEventAttributes =
  ActivityId :: "string option"
  ActivityType :: "ActivityType option"
  Domain :: "string option"
  TaskList :: "TaskList option"
  Input :: "bytes option"
  ScheduleToCloseTimeoutSeconds :: "32 word option"
  ScheduleToStartTimeoutSeconds :: "32 word option"
  StartToCloseTimeoutSeconds :: "32 word option"
  HeartbeatTimeoutSeconds :: "32 word option"
  DecisionTaskCompletedEventId :: "64 word option"
  RetryPolicy :: "RetryPolicy option"
  Header :: "Header option"

definition ActivityTaskScheduledEventAttributes_zero :: ActivityTaskScheduledEventAttributes where
  "ActivityTaskScheduledEventAttributes_zero = \<lparr>ActivityTaskScheduledEventAttributes.ActivityId =
      None, ActivityTaskScheduledEventAttributes.ActivityType = None,
      ActivityTaskScheduledEventAttributes.Domain = None,
      ActivityTaskScheduledEventAttributes.TaskList = None,
      ActivityTaskScheduledEventAttributes.Input = None,
      ActivityTaskScheduledEventAttributes.ScheduleToCloseTimeoutSeconds = None,
      ActivityTaskScheduledEventAttributes.ScheduleToStartTimeoutSeconds = None,
      ActivityTaskScheduledEventAttributes.StartToCloseTimeoutSeconds = None,
      ActivityTaskScheduledEventAttributes.HeartbeatTimeoutSeconds = None,
      ActivityTaskScheduledEventAttributes.DecisionTaskCompletedEventId = None,
      ActivityTaskScheduledEventAttributes.RetryPolicy = None,
      ActivityTaskScheduledEventAttributes.Header = None\<rparr>"

definition ActivityTaskScheduledEventAttributes_ToWire ::
  "'v wire_api \<Rightarrow> ActivityTaskScheduledEventAttributes \<Rightarrow> go_error + 'v" where
  "ActivityTaskScheduledEventAttributes_ToWire W v =
     and_then (put_opt 10 (\<lambda>x. Inr (NewValueString W x))
         (ActivityTaskScheduledEventAttributes.ActivityId v) [])
       (\<lambda>fields.
     and_then (put_opt 20 (ActivityType_ToWire W) (ActivityTaskScheduledEventAttributes.ActivityType
         v) fields)
       (\<lambda>fields.
     and_then (put_opt 25 (\<lambda>x. Inr (NewValueString W x))
         (ActivityTaskScheduledEventAttributes.Domain v) fields)
       (\<lambda>fields.
     and_then (put_opt 30 (TaskList_ToWire W) (ActivityTaskScheduledEventAttributes.TaskList v)
         fields)
       (\<lambda>fields.
     and_then (put_opt 40 (\<lambda>x. Inr (NewValueBinary W x)) (ActivityTaskScheduledEventAttributes.Input
         v) fields)
       (\<lambda>fields.
     and_then (put_opt 45 (\<lambda>x. Inr (NewValueI32 W x))
         (ActivityTaskScheduledEventAttributes.ScheduleToCloseTimeoutSeconds v) fields)
       (\<lambda>fields.
     and_then (put_opt 50 (\<lambda>x. Inr (NewValueI32 W x))
         (ActivityTaskScheduledEventAttributes.ScheduleToStartTimeoutSeconds v) fields)
       (\<lambda>fields.
     and_then (put_opt 55 (\<lambda>x. Inr (NewValueI32 W x))
         (ActivityTaskScheduledEventAttributes.StartToCloseTimeoutSeconds v) fields)
       (\<lambda>fields.
     and_then (put_opt 60 (\<lambda>x. Inr (NewValueI32 W x))
         (ActivityTaskScheduledEventAttributes.HeartbeatTimeoutSeconds v) fields)
       (\<lambda>fields.
     and_then (put_opt 90 (\<lambda>x. Inr (NewValueI64 W x))
         (ActivityTaskScheduledEventAttributes.DecisionTaskCompletedEventId v) fields)
       (\<lambda>fields.
     and_then (put_opt 110 (RetryPolicy_ToWire W) (ActivityTaskScheduledEventAttributes.RetryPolicy
         v) fields)
       (\<lambda>fields.
     and_then (put_opt 120 (Header_ToWire W) (ActivityTaskScheduledEventAttributes.Header v) fields)
       (\<lambda>fields.
     Inr (NewValueStruct W fields)))))))))))))"

definition ActivityTaskScheduledEventAttributes_FromWire ::
  "'v wire_api \<Rightarrow> 'v \<Rightarrow> ActivityTaskScheduledEventAttributes \<Rightarrow> go_error +
      ActivityTaskScheduledEventAttributes" where
  "ActivityTaskScheduledEventAttributes_FromWire W w v =
     foldM (\<lambda>v (fid, fval).
       if fid = 10 then
         if wire_api.Type W fval = TBinary
         then Inr (v\<lparr>ActivityTaskScheduledEventAttributes.ActivityId := Some (GetString W fval)\<rparr>)
         else Inr v
       else if fid = 20 then
         if wire_api.Type W fval = TStruct
         then and_then (ActivityType_Read W fval) (\<lambda>x. Inr
             (v\<lparr>ActivityTaskScheduledEventAttributes.ActivityType := Some x\<rparr>))
         else Inr v
       else if fid = 25 then
         if wire_api.Type W fval = TBinary
         then Inr (v\<lparr>ActivityTaskScheduledEventAttributes.Domain := Some (GetString W fval)\<rparr>)
         else Inr v
       else if fid = 30 then
         if wire_api.Type W fval = TStruct
         then and_then (TaskList_Read W fval) (\<lambda>x. Inr
             (v\<lparr>ActivityTaskScheduledEventAttributes.TaskList := Some x\<rparr>))
         else Inr v
       else if fid = 40 then
         if wire_api.Type W fval = TBinary
         then Inr (v\<lparr>ActivityTaskScheduledEventAttributes.Input := Some (GetBinary W fval)\<rparr>)
         else Inr v
       else if fid = 45 then
         if wire_api.Type W fval = TI32
         then Inr (v\<lparr>ActivityTaskScheduledEventAttributes.ScheduleToCloseTimeoutSeconds := Some
             (GetI32 W fval)\<rparr>)
         else Inr v
       else if fid = 50 then
         if wire_api.Type W fval = TI32
         then Inr (v\<lparr>ActivityTaskScheduledEventAttributes.ScheduleToStartTimeoutSeconds := Some
             (GetI32 W fval)\<rparr>)
         else Inr v
       else if fid = 55 then
         if wire_api.Type W fval = TI32
         then Inr (v\<lparr>ActivityTaskScheduledEventAttributes.StartToCloseTimeoutSeconds := Some (GetI32
             W fval)\<rparr>)
         else Inr v
       else if fid = 60 then
         if wire_api.Type W fval = TI32
         then Inr (v\<lparr>ActivityTaskScheduledEventAttributes.HeartbeatTimeoutSeconds := Some (GetI32 W
             fval)\<rparr>)
         else Inr v
       else if fid = 90 then
         if wire_api.Type W fval = TI64
         then Inr (v\<lparr>ActivityTaskScheduledEventAttributes.DecisionTaskCompletedEventId := Some
             (GetI64 W fval)\<rparr>)
         else Inr v
       else if fid = 110 then
         if wire_api.Type W fval = TStruct
         then and_then (RetryPolicy_Read W fval) (\<lambda>x. Inr
             (v\<lparr>ActivityTaskScheduledEventAttributes.RetryPolicy := Some x\<rparr>))
         else Inr v
       else if fid = 120 then
         if wire_api.Type W fval = TStruct
         then and_then (Header_Read W fval) (\<lambda>x. Inr (v\<lparr>ActivityTaskScheduledEventAttributes.Header
             := Some x\<rparr>))
         else Inr v
       else Inr v) (GetStruct W w) v"

definition ActivityTaskScheduledEventAttributes_Read :: "'v wire_api \<Rightarrow> 'v \<Rightarrow> go_error +
    ActivityTaskScheduledEventAttributes" where
  "ActivityTaskScheduledEventAttributes_Read W w = ActivityTaskScheduledEventAttributes_FromWire W w
      ActivityTaskScheduledEventAttributes_zero"

definition ActivityTaskScheduledEventAttributes_complete :: "ActivityTaskScheduledEventAttributes \<Rightarrow>
    bool" where
  "ActivityTaskScheduledEventAttributes_complete v \<longleftrightarrow>
     if_set Header_complete (ActivityTaskScheduledEventAttributes.Header v)"

lemma ActivityTaskScheduledEventAttributes_merge:
  "(case x of None \<Rightarrow> Inr \<lparr>ActivityTaskScheduledEventAttributes.ActivityId = a0,
      ActivityTaskScheduledEventAttributes.ActivityType = a1,
      ActivityTaskScheduledEventAttributes.Domain = a2,
      ActivityTaskScheduledEventAttributes.TaskList = a3, ActivityTaskScheduledEventAttributes.Input
      = a4, ActivityTaskScheduledEventAttributes.ScheduleToCloseTimeoutSeconds = a5,
      ActivityTaskScheduledEventAttributes.ScheduleToStartTimeoutSeconds = a6,
      ActivityTaskScheduledEventAttributes.StartToCloseTimeoutSeconds = a7,
      ActivityTaskScheduledEventAttributes.HeartbeatTimeoutSeconds = a8,
      ActivityTaskScheduledEventAttributes.DecisionTaskCompletedEventId = a9,
      ActivityTaskScheduledEventAttributes.RetryPolicy = a10,
      ActivityTaskScheduledEventAttributes.Header = a11\<rparr> | Some y \<Rightarrow> Inr
      \<lparr>ActivityTaskScheduledEventAttributes.ActivityId = b0 y,
      ActivityTaskScheduledEventAttributes.ActivityType = b1 y,
      ActivityTaskScheduledEventAttributes.Domain = b2 y,
      ActivityTaskScheduledEventAttributes.TaskList = b3 y,
      ActivityTaskScheduledEventAttributes.Input = b4 y,
      ActivityTaskScheduledEventAttributes.ScheduleToCloseTimeoutSeconds = b5 y,
      ActivityTaskScheduledEventAttributes.ScheduleToStartTimeoutSeconds = b6 y,
      ActivityTaskScheduledEventAttributes.StartToCloseTimeoutSeconds = b7 y,
      ActivityTaskScheduledEventAttributes.HeartbeatTimeoutSeconds = b8 y,
      ActivityTaskScheduledEventAttributes.DecisionTaskCompletedEventId = b9 y,
      ActivityTaskScheduledEventAttributes.RetryPolicy = b10 y,
      ActivityTaskScheduledEventAttributes.Header = b11 y\<rparr>) =
   Inr \<lparr>ActivityTaskScheduledEventAttributes.ActivityId = (case x of None \<Rightarrow> a0 | Some y \<Rightarrow> b0 y),
       ActivityTaskScheduledEventAttributes.ActivityType = (case x of None \<Rightarrow> a1 | Some y \<Rightarrow> b1 y),
       ActivityTaskScheduledEventAttributes.Domain = (case x of None \<Rightarrow> a2 | Some y \<Rightarrow> b2 y),
       ActivityTaskScheduledEventAttributes.TaskList = (case x of None \<Rightarrow> a3 | Some y \<Rightarrow> b3 y),
       ActivityTaskScheduledEventAttributes.Input = (case x of None \<Rightarrow> a4 | Some y \<Rightarrow> b4 y),
       ActivityTaskScheduledEventAttributes.ScheduleToCloseTimeoutSeconds = (case x of None \<Rightarrow> a5 |
       Some y \<Rightarrow> b5 y), ActivityTaskScheduledEventAttributes.ScheduleToStartTimeoutSeconds = (case x
       of None \<Rightarrow> a6 | Some y \<Rightarrow> b6 y),
       ActivityTaskScheduledEventAttributes.StartToCloseTimeoutSeconds = (case x of None \<Rightarrow> a7 | Some
       y \<Rightarrow> b7 y), ActivityTaskScheduledEventAttributes.HeartbeatTimeoutSeconds = (case x of None \<Rightarrow>
       a8 | Some y \<Rightarrow> b8 y), ActivityTaskScheduledEventAttributes.DecisionTaskCompletedEventId =
       (case x of None \<Rightarrow> a9 | Some y \<Rightarrow> b9 y), ActivityTaskScheduledEventAttributes.RetryPolicy =
       (case x of None \<Rightarrow> a10 | Some y \<Rightarrow> b10 y), ActivityTaskScheduledEventAttributes.Header = (case
       x of None \<Rightarrow> a11 | Some y \<Rightarrow> b11 y)\<rparr>"
  by (cases x) simp_all

interpretation ActivityTaskScheduledEventAttributes: thrift_message W
  "ActivityTaskScheduledEventAttributes_ToWire W" "ActivityTaskScheduledEventAttributes_FromWire W"
      ActivityTaskScheduledEventAttributes_zero "ActivityTaskScheduledEventAttributes_complete" for
      W
proof (rule thrift_messageI)
  fix x :: ActivityTaskScheduledEventAttributes
  assume laws: "wire_laws W"
  obtain enc0 where e0: "ActivityType_ToWire W = (\<lambda>x. Inr (enc0 x))"
      "\<And>x. wire_api.Type W (enc0 x) = TStruct"
      "\<And>x. Writable W (enc0 x) \<longleftrightarrow> (\<lambda>_. True) x"
      "\<And>x. (\<lambda>_. True) x \<Longrightarrow> ActivityType_FromWire W (enc0 x) ActivityType_zero = Inr x"
    by (rule ActivityType.encoder [OF laws]) (rule that)
  obtain enc1 where e1: "Header_ToWire W = (\<lambda>x. Inr (enc1 x))"
      "\<And>x. wire_api.Type W (enc1 x) = TStruct"
      "\<And>x. Writable W (enc1 x) \<longleftrightarrow> Header_complete x"
      "\<And>x. Header_complete x \<Longrightarrow> Header_FromWire W (enc1 x) Header_zero = Inr x"
    by (rule Header.encoder [OF laws]) (rule that)
  obtain enc2 where e2: "RetryPolicy_ToWire W = (\<lambda>x. Inr (enc2 x))"
      "\<And>x. wire_api.Type W (enc2 x) = TStruct"
      "\<And>x. Writable W (enc2 x) \<longleftrightarrow> (\<lambda>_. True) x"
      "\<And>x. (\<lambda>_. True) x \<Longrightarrow> RetryPolicy_FromWire W (enc2 x) RetryPolicy_zero = Inr x"
    by (rule RetryPolicy.encoder [OF laws]) (rule that)
  obtain enc3 where e3: "TaskList_ToWire W = (\<lambda>x. Inr (enc3 x))"
      "\<And>x. wire_api.Type W (enc3 x) = TStruct"
      "\<And>x. Writable W (enc3 x) \<longleftrightarrow> (\<lambda>_. True) x"
      "\<And>x. (\<lambda>_. True) x \<Longrightarrow> TaskList_FromWire W (enc3 x) TaskList_zero = Inr x"
    by (rule TaskList.encoder [OF laws]) (rule that)
  show "\<exists>w. ActivityTaskScheduledEventAttributes_ToWire W x = Inr w \<and> wire_api.Type W w = TStruct \<and>
      (Writable W w \<longleftrightarrow> ActivityTaskScheduledEventAttributes_complete x) \<and>
          (ActivityTaskScheduledEventAttributes_complete x \<longrightarrow>
          ActivityTaskScheduledEventAttributes_FromWire W w
          ActivityTaskScheduledEventAttributes_zero = Inr x)"
    by (cases x) (simp cong: option.case_cong add: codec_rules
        ActivityTaskScheduledEventAttributes_merge ActivityTaskScheduledEventAttributes_ToWire_def
        ActivityTaskScheduledEventAttributes_FromWire_def
        ActivityTaskScheduledEventAttributes_zero_def
        ActivityTaskScheduledEventAttributes_complete_def if_set_def ActivityType_Read_def
        Header_Read_def RetryPolicy_Read_def TaskList_Read_def laws e0 e1 e2 e3)
qed

definition ActivityTaskScheduledEventAttributes_Equals ::
  "ActivityTaskScheduledEventAttributes option \<Rightarrow> ActivityTaskScheduledEventAttributes option \<Rightarrow> bool"
      where
  "ActivityTaskScheduledEventAttributes_Equals v rhs =
     (case v of None \<Rightarrow> rhs = None
      | Some v \<Rightarrow> (case rhs of None \<Rightarrow> False
        | Some rhs \<Rightarrow>
          if \<not> String_EqualsPtr (ActivityTaskScheduledEventAttributes.ActivityId v)
              (ActivityTaskScheduledEventAttributes.ActivityId rhs) then False else
          if \<not> both_set_and (\<lambda>x y. ActivityType_Equals (Some x) (Some y))
              (ActivityTaskScheduledEventAttributes.ActivityType v)
              (ActivityTaskScheduledEventAttributes.ActivityType rhs) then False else
          if \<not> String_EqualsPtr (ActivityTaskScheduledEventAttributes.Domain v)
              (ActivityTaskScheduledEventAttributes.Domain rhs) then False else
          if \<not> both_set_and (\<lambda>x y. TaskList_Equals (Some x) (Some y))
              (ActivityTaskScheduledEventAttributes.TaskList v)
              (ActivityTaskScheduledEventAttributes.TaskList rhs) then False else
          if \<not> both_set_and (=) (ActivityTaskScheduledEventAttributes.Input v)
              (ActivityTaskScheduledEventAttributes.Input rhs) then False else
          if \<not> I32_EqualsPtr (ActivityTaskScheduledEventAttributes.ScheduleToCloseTimeoutSeconds v)
              (ActivityTaskScheduledEventAttributes.ScheduleToCloseTimeoutSeconds rhs) then False
              else
          if \<not> I32_EqualsPtr (ActivityTaskScheduledEventAttributes.ScheduleToStartTimeoutSeconds v)
              (ActivityTaskScheduledEventAttributes.ScheduleToStartTimeoutSeconds rhs) then False
              else
          if \<not> I32_EqualsPtr (ActivityTaskScheduledEventAttributes.StartToCloseTimeoutSeconds v)
              (ActivityTaskScheduledEventAttributes.StartToCloseTimeoutSeconds rhs) then False else
          if \<not> I32_EqualsPtr (ActivityTaskScheduledEventAttributes.HeartbeatTimeoutSeconds v)
              (ActivityTaskScheduledEventAttributes.HeartbeatTimeoutSeconds rhs) then False else
          if \<not> I64_EqualsPtr (ActivityTaskScheduledEventAttributes.DecisionTaskCompletedEventId v)
              (ActivityTaskScheduledEventAttributes.DecisionTaskCompletedEventId rhs) then False
              else
          if \<not> both_set_and (\<lambda>x y. RetryPolicy_Equals (Some x) (Some y))
              (ActivityTaskScheduledEventAttributes.RetryPolicy v)
              (ActivityTaskScheduledEventAttributes.RetryPolicy rhs) then False else
          if \<not> both_set_and (\<lambda>x y. Header_Equals (Some x) (Some y))
              (ActivityTaskScheduledEventAttributes.Header v)
              (ActivityTaskScheduledEventAttributes.Header rhs) then False else
          True))"

definition ActivityTaskScheduledEventAttributes_comparable :: "ActivityTaskScheduledEventAttributes
    \<Rightarrow> bool" where
  "ActivityTaskScheduledEventAttributes_comparable v \<longleftrightarrow>
     if_set RetryPolicy_comparable (ActivityTaskScheduledEventAttributes.RetryPolicy v) \<and>
     if_set Header_comparable (ActivityTaskScheduledEventAttributes.Header v)"

lemma ActivityTaskScheduledEventAttributes_Equals_iff:
  "if_set ActivityTaskScheduledEventAttributes_comparable x \<Longrightarrow> if_set
      ActivityTaskScheduledEventAttributes_comparable y \<Longrightarrow>
      ActivityTaskScheduledEventAttributes_Equals x y \<longleftrightarrow> x = y"
  by (cases x; cases y) (simp_all add: ActivityTaskScheduledEventAttributes_Equals_def
      ActivityTaskScheduledEventAttributes_comparable_def if_not_False,
    fastforce intro: ActivityTaskScheduledEventAttributes.equality)

lemma ActivityTaskScheduledEventAttributes_fields_equal [simp]:
  "if_set ActivityTaskScheduledEventAttributes_comparable x \<Longrightarrow> if_set
      ActivityTaskScheduledEventAttributes_comparable y \<Longrightarrow>
    both_set_and (\<lambda>x y. ActivityTaskScheduledEventAttributes_Equals (Some x) (Some y)) x y \<longleftrightarrow> x = y"
  by (rule both_set_and_iff [where P = ActivityTaskScheduledEventAttributes_comparable]) (simp_all
      add: ActivityTaskScheduledEventAttributes_Equals_iff)

record ActivityTaskStartedEventAttributes =
  ScheduledEventId :: "64 word option"
  Identity :: "string option"
  RequestId :: "string option"
  Attempt :: "32 word option"

definition ActivityTaskStartedEventAttributes_zero :: ActivityTaskStartedEventAttributes where
  "ActivityTaskStartedEventAttributes_zero = \<lparr>ActivityTaskStartedEventAttributes.ScheduledEventId =
      None, ActivityTaskStartedEventAttributes.Identity = None,
      ActivityTaskStartedEventAttributes.RequestId = None,
      ActivityTaskStartedEventAttributes.Attempt = None\<rparr>"

definition ActivityTaskStartedEventAttributes_ToWire ::
  "'v wire_api \<Rightarrow> ActivityTaskStartedEventAttributes \<Rightarrow> go_error + 'v" where
  "ActivityTaskStartedEventAttributes_ToWire W v =
     and_then (put_opt 10 (\<lambda>x. Inr (NewValueI64 W x))
         (ActivityTaskStartedEventAttributes.ScheduledEventId v) [])
       (\<lambda>fields.
     and_then (put_opt 20 (\<lambda>x. Inr (NewValueString W x))
         (ActivityTaskStartedEventAttributes.Identity v) fields)
       (\<lambda>fields.
     and_then (put_opt 30 (\<lambda>x. Inr (NewValueString W x))
         (ActivityTaskStartedEventAttributes.RequestId v) fields)
       (\<lambda>fields.
     and_then (put_opt 40 (\<lambda>x. Inr (NewValueI32 W x)) (ActivityTaskStartedEventAttributes.Attempt v)
         fields)
       (\<lambda>fields.
     Inr (NewValueStruct W fields)))))"

definition ActivityTaskStartedEventAttributes_FromWire ::
  "'v wire_api \<Rightarrow> 'v \<Rightarrow> ActivityTaskStartedEventAttributes \<Rightarrow> go_error +
      ActivityTaskStartedEventAttributes" where
  "ActivityTaskStartedEventAttributes_FromWire W w v =
     foldM (\<lambda>v (fid, fval).
       if fid = 10 then
         if wire_api.Type W fval = TI64
         then Inr (v\<lparr>ActivityTaskStartedEventAttributes.ScheduledEventId := Some (GetI64 W fval)\<rparr>)
         else Inr v
       else if fid = 20 then
         if wire_api.Type W fval = TBinary
         then Inr (v\<lparr>ActivityTaskStartedEventAttributes.Identity := Some (GetString W fval)\<rparr>)
         else Inr v
       else if fid = 30 then
         if wire_api.Type W fval = TBinary
         then Inr (v\<lparr>ActivityTaskStartedEventAttributes.RequestId := Some (GetString W fval)\<rparr>)
         else Inr v
       else if fid = 40 then
         if wire_api.Type W fval = TI32
         then Inr (v\<lparr>ActivityTaskStartedEventAttributes.Attempt := Some (GetI32 W fval)\<rparr>)
         else Inr v
       else Inr v) (GetStruct W w) v"

definition ActivityTaskStartedEventAttributes_Read :: "'v wire_api \<Rightarrow> 'v \<Rightarrow> go_error +
    ActivityTaskStartedEventAttributes" where
  "ActivityTaskStartedEventAttributes_Read W w = ActivityTaskStartedEventAttributes_FromWire W w
      ActivityTaskStartedEventAttributes_zero"

lemma ActivityTaskStartedEventAttributes_merge:
  "(case x of None \<Rightarrow> Inr \<lparr>ActivityTaskStartedEventAttributes.ScheduledEventId = a0,
      ActivityTaskStartedEventAttributes.Identity = a1, ActivityTaskStartedEventAttributes.RequestId
      = a2, ActivityTaskStartedEventAttributes.Attempt = a3\<rparr> | Some y \<Rightarrow> Inr
      \<lparr>ActivityTaskStartedEventAttributes.ScheduledEventId = b0 y,
      ActivityTaskStartedEventAttributes.Identity = b1 y,
      ActivityTaskStartedEventAttributes.RequestId = b2 y,
      ActivityTaskStartedEventAttributes.Attempt = b3 y\<rparr>) =
   Inr \<lparr>ActivityTaskStartedEventAttributes.ScheduledEventId = (case x of None \<Rightarrow> a0 | Some y \<Rightarrow> b0 y),
       ActivityTaskStartedEventAttributes.Identity = (case x of None \<Rightarrow> a1 | Some y \<Rightarrow> b1 y),
       ActivityTaskStartedEventAttributes.RequestId = (case x of None \<Rightarrow> a2 | Some y \<Rightarrow> b2 y),
       ActivityTaskStartedEventAttributes.Attempt = (case x of None \<Rightarrow> a3 | Some y \<Rightarrow> b3 y)\<rparr>"
  by (cases x) simp_all

interpretation ActivityTaskStartedEventAttributes: thrift_message W
  "ActivityTaskStartedEventAttributes_ToWire W" "ActivityTaskStartedEventAttributes_FromWire W"
      ActivityTaskStartedEventAttributes_zero "\<lambda>_. True" for W
proof (rule thrift_messageI)
  fix x :: ActivityTaskStartedEventAttributes
  assume laws: "wire_laws W"
  show "\<exists>w. ActivityTaskStartedEventAttributes_ToWire W x = Inr w \<and> wire_api.Type W w = TStruct \<and>
      (Writable W w \<longleftrightarrow> (\<lambda>_. True) x) \<and> ((\<lambda>_. True) x \<longrightarrow> ActivityTaskStartedEventAttributes_FromWire W
          w ActivityTaskStartedEventAttributes_zero = Inr x)"
    by (cases x) (simp cong: option.case_cong add: codec_rules
        ActivityTaskStartedEventAttributes_merge ActivityTaskStartedEventAttributes_ToWire_def
        ActivityTaskStartedEventAttributes_FromWire_def ActivityTaskStartedEventAttributes_zero_def
        laws)
qed

definition ActivityTaskStartedEventAttributes_Equals ::
  "ActivityTaskStartedEventAttributes option \<Rightarrow> ActivityTaskStartedEventAttributes option \<Rightarrow> bool"
      where
  "ActivityTaskStartedEventAttributes_Equals v rhs =
     (case v of None \<Rightarrow> rhs = None
      | Some v \<Rightarrow> (case rhs of None \<Rightarrow> False
        | Some rhs \<Rightarrow>
          if \<not> I64_EqualsPtr (ActivityTaskStartedEventAttributes.ScheduledEventId v)
              (ActivityTaskStartedEventAttributes.ScheduledEventId rhs) then False else
          if \<not> String_EqualsPtr (ActivityTaskStartedEventAttributes.Identity v)
              (ActivityTaskStartedEventAttributes.Identity rhs) then False else
          if \<not> String_EqualsPtr (ActivityTaskStartedEventAttributes.RequestId v)
              (ActivityTaskStartedEventAttributes.RequestId rhs) then False else
          if \<not> I32_EqualsPtr (ActivityTaskStartedEventAttributes.Attempt v)
              (ActivityTaskStartedEventAttributes.Attempt rhs) then False else
          True))"

lemma ActivityTaskStartedEventAttributes_Equals_iff [simp]:
    "ActivityTaskStartedEventAttributes_Equals x y \<longleftrightarrow> x = y"
  by (cases x; cases y) (auto simp: ActivityTaskStartedEventAttributes_Equals_def)

record ActivityTaskTimedOutEventAttributes =
  Details :: "bytes option"
  ScheduledEventId :: "64 word option"
  StartedEventId :: "64 word option"
  TimeoutType :: "TimeoutType option"

definition ActivityTaskTimedOutEventAttributes_zero :: ActivityTaskTimedOutEventAttributes where
  "ActivityTaskTimedOutEventAttributes_zero = \<lparr>ActivityTaskTimedOutEventAttributes.Details = None,
      ActivityTaskTimedOutEventAttributes.ScheduledEventId = None,
      ActivityTaskTimedOutEventAttributes.StartedEventId = None,
      ActivityTaskTimedOutEventAttributes.TimeoutType = None\<rparr>"

definition ActivityTaskTimedOutEventAttributes_ToWire ::
  "'v wire_api \<Rightarrow> ActivityTaskTimedOutEventAttributes \<Rightarrow> go_error + 'v" where
  "ActivityTaskTimedOutEventAttributes_ToWire W v =
     and_then (put_opt 5 (\<lambda>x. Inr (NewValueBinary W x)) (ActivityTaskTimedOutEventAttributes.Details
         v) [])
       (\<lambda>fields.
     and_then (put_opt 10 (\<lambda>x. Inr (NewValueI64 W x))
         (ActivityTaskTimedOutEventAttributes.ScheduledEventId v) fields)
       (\<lambda>fields.
     and_then (put_opt 20 (\<lambda>x. Inr (NewValueI64 W x))
         (ActivityTaskTimedOutEventAttributes.StartedEventId v) fields)
       (\<lambda>fields.
     and_then (put_opt 30 (TimeoutType_ToWire W) (ActivityTaskTimedOutEventAttributes.TimeoutType v)
         fields)
       (\<lambda>fields.
     Inr (NewValueStruct W fields)))))"

definition ActivityTaskTimedOutEventAttributes_FromWire ::
  "'v wire_api \<Rightarrow> 'v \<Rightarrow> ActivityTaskTimedOutEventAttributes \<Rightarrow> go_error +
      ActivityTaskTimedOutEventAttributes" where
  "ActivityTaskTimedOutEventAttributes_FromWire W w v =
     foldM (\<lambda>v (fid, fval).
       if fid = 5 then
         if wire_api.Type W fval = TBinary
         then Inr (v\<lparr>ActivityTaskTimedOutEventAttributes.Details := Some (GetBinary W fval)\<rparr>)
         else Inr v
       else if fid = 10 then
         if wire_api.Type W fval = TI64
         then Inr (v\<lparr>ActivityTaskTimedOutEventAttributes.ScheduledEventId := Some (GetI64 W fval)\<rparr>)
         else Inr v
       else if fid = 20 then
         if wire_api.Type W fval = TI64
         then Inr (v\<lparr>ActivityTaskTimedOutEventAttributes.StartedEventId := Some (GetI64 W fval)\<rparr>)
         else Inr v
       else if fid = 30 then
         if wire_api.Type W fval = TI32
         then and_then (TimeoutType_Read W fval) (\<lambda>x. Inr
             (v\<lparr>ActivityTaskTimedOutEventAttributes.TimeoutType := Some x\<rparr>))
         else Inr v
       else Inr v) (GetStruct W w) v"

definition ActivityTaskTimedOutEventAttributes_Read :: "'v wire_api \<Rightarrow> 'v \<Rightarrow> go_error +
    ActivityTaskTimedOutEventAttributes" where
  "ActivityTaskTimedOutEventAttributes_Read W w = ActivityTaskTimedOutEventAttributes_FromWire W w
      ActivityTaskTimedOutEventAttributes_zero"

lemma ActivityTaskTimedOutEventAttributes_merge:
  "(case x of None \<Rightarrow> Inr \<lparr>ActivityTaskTimedOutEventAttributes.Details = a0,
      ActivityTaskTimedOutEventAttributes.ScheduledEventId = a1,
      ActivityTaskTimedOutEventAttributes.StartedEventId = a2,
      ActivityTaskTimedOutEventAttributes.TimeoutType = a3\<rparr> | Some y \<Rightarrow> Inr
      \<lparr>ActivityTaskTimedOutEventAttributes.Details = b0 y,
      ActivityTaskTimedOutEventAttributes.ScheduledEventId = b1 y,
      ActivityTaskTimedOutEventAttributes.StartedEventId = b2 y,
      ActivityTaskTimedOutEventAttributes.TimeoutType = b3 y\<rparr>) =
   Inr \<lparr>ActivityTaskTimedOutEventAttributes.Details = (case x of None \<Rightarrow> a0 | Some y \<Rightarrow> b0 y),
       ActivityTaskTimedOutEventAttributes.ScheduledEventId = (case x of None \<Rightarrow> a1 | Some y \<Rightarrow> b1 y),
       ActivityTaskTimedOutEventAttributes.StartedEventId = (case x of None \<Rightarrow> a2 | Some y \<Rightarrow> b2 y),
       ActivityTaskTimedOutEventAttributes.TimeoutType = (case x of None \<Rightarrow> a3 | Some y \<Rightarrow> b3 y)\<rparr>"
  by (cases x) simp_all

interpretation ActivityTaskTimedOutEventAttributes: thrift_message W
  "ActivityTaskTimedOutEventAttributes_ToWire W" "ActivityTaskTimedOutEventAttributes_FromWire W"
      ActivityTaskTimedOutEventAttributes_zero "\<lambda>_. True" for W
proof (rule thrift_messageI)
  fix x :: ActivityTaskTimedOutEventAttributes
  assume laws: "wire_laws W"
  show "\<exists>w. ActivityTaskTimedOutEventAttributes_ToWire W x = Inr w \<and> wire_api.Type W w = TStruct \<and>
      (Writable W w \<longleftrightarrow> (\<lambda>_. True) x) \<and> ((\<lambda>_. True) x \<longrightarrow> ActivityTaskTimedOutEventAttributes_FromWire W
          w ActivityTaskTimedOutEventAttributes_zero = Inr x)"
    by (cases x) (simp cong: option.case_cong add: codec_rules
        ActivityTaskTimedOutEventAttributes_merge ActivityTaskTimedOutEventAttributes_ToWire_def
        ActivityTaskTimedOutEventAttributes_FromWire_def
        ActivityTaskTimedOutEventAttributes_zero_def TimeoutType_enc TimeoutType_Read_def
        TimeoutType_FromWire_def laws)
qed

definition ActivityTaskTimedOutEventAttributes_Equals ::
  "ActivityTaskTimedOutEventAttributes option \<Rightarrow> ActivityTaskTimedOutEventAttributes option \<Rightarrow> bool"
      where
  "ActivityTaskTimedOutEventAttributes_Equals v rhs =
     (case v of None \<Rightarrow> rhs = None
      | Some v \<Rightarrow> (case rhs of None \<Rightarrow> False
        | Some rhs \<Rightarrow>
          if \<not> both_set_and (=) (ActivityTaskTimedOutEventAttributes.Details v)
              (ActivityTaskTimedOutEventAttributes.Details rhs) then False else
          if \<not> I64_EqualsPtr (ActivityTaskTimedOutEventAttributes.ScheduledEventId v)
              (ActivityTaskTimedOutEventAttributes.ScheduledEventId rhs) then False else
          if \<not> I64_EqualsPtr (ActivityTaskTimedOutEventAttributes.StartedEventId v)
              (ActivityTaskTimedOutEventAttributes.StartedEventId rhs) then False else
          if \<not> TimeoutType_EqualsPtr (ActivityTaskTimedOutEventAttributes.TimeoutType v)
              (ActivityTaskTimedOutEventAttributes.TimeoutType rhs) then False else
          True))"

lemma ActivityTaskTimedOutEventAttributes_Equals_iff [simp]:
    "ActivityTaskTimedOutEventAttributes_Equals x y \<longleftrightarrow> x = y"
  by (cases x; cases y) (auto simp: ActivityTaskTimedOutEventAttributes_Equals_def)

record CancelTimerFailedEventAttributes =
  TimerId :: "string option"
  Cause :: "string option"
  DecisionTaskCompletedEventId :: "64 word option"
  Identity :: "string option"

definition CancelTimerFailedEventAttributes_zero :: CancelTimerFailedEventAttributes where
  "CancelTimerFailedEventAttributes_zero = \<lparr>CancelTimerFailedEventAttributes.TimerId = None,
      CancelTimerFailedEventAttributes.Cause = None,
      CancelTimerFailedEventAttributes.DecisionTaskCompletedEventId = None,
      CancelTimerFailedEventAttributes.Identity = None\<rparr>"

definition CancelTimerFailedEventAttributes_ToWire ::
  "'v wire_api \<Rightarrow> CancelTimerFailedEventAttributes \<Rightarrow> go_error + 'v" where
  "CancelTimerFailedEventAttributes_ToWire W v =
     and_then (put_opt 10 (\<lambda>x. Inr (NewValueString W x)) (CancelTimerFailedEventAttributes.TimerId
         v) [])
       (\<lambda>fields.
     and_then (put_opt 20 (\<lambda>x. Inr (NewValueString W x)) (CancelTimerFailedEventAttributes.Cause v)
         fields)
       (\<lambda>fields.
     and_then (put_opt 30 (\<lambda>x. Inr (NewValueI64 W x))
         (CancelTimerFailedEventAttributes.DecisionTaskCompletedEventId v) fields)
       (\<lambda>fields.
     and_then (put_opt 40 (\<lambda>x. Inr (NewValueString W x)) (CancelTimerFailedEventAttributes.Identity
         v) fields)
       (\<lambda>fields.
     Inr (NewValueStruct W fields)))))"

definition CancelTimerFailedEventAttributes_FromWire ::
  "'v wire_api \<Rightarrow> 'v \<Rightarrow> CancelTimerFailedEventAttributes \<Rightarrow> go_error +
      CancelTimerFailedEventAttributes" where
  "CancelTimerFailedEventAttributes_FromWire W w v =
     foldM (\<lambda>v (fid, fval).
       if fid = 10 then
         if wire_api.Type W fval = TBinary
         then Inr (v\<lparr>CancelTimerFailedEventAttributes.TimerId := Some (GetString W fval)\<rparr>)
         else Inr v
       else if fid = 20 then
         if wire_api.Type W fval = TBinary
         then Inr (v\<lparr>CancelTimerFailedEventAttributes.Cause := Some (GetString W fval)\<rparr>)
         else Inr v
       else if fid = 30 then
         if wire_api.Type W fval = TI64
         then Inr (v\<lparr>CancelTimerFailedEventAttributes.DecisionTaskCompletedEventId := Some (GetI64 W
             fval)\<rparr>)
         else Inr v
       else if fid = 40 then
         if wire_api.Type W fval = TBinary
         then Inr (v\<lparr>CancelTimerFailedEventAttributes.Identity := Some (GetString W fval)\<rparr>)
         else Inr v
       else Inr v) (GetStruct W w) v"

definition CancelTimerFailedEventAttributes_Read :: "'v wire_api \<Rightarrow> 'v \<Rightarrow> go_error +
    CancelTimerFailedEventAttributes" where
  "CancelTimerFailedEventAttributes_Read W w = CancelTimerFailedEventAttributes_FromWire W w
      CancelTimerFailedEventAttributes_zero"

lemma CancelTimerFailedEventAttributes_merge:
  "(case x of None \<Rightarrow> Inr \<lparr>CancelTimerFailedEventAttributes.TimerId = a0,
      CancelTimerFailedEventAttributes.Cause = a1,
      CancelTimerFailedEventAttributes.DecisionTaskCompletedEventId = a2,
      CancelTimerFailedEventAttributes.Identity = a3\<rparr> | Some y \<Rightarrow> Inr
      \<lparr>CancelTimerFailedEventAttributes.TimerId = b0 y, CancelTimerFailedEventAttributes.Cause = b1
      y, CancelTimerFailedEventAttributes.DecisionTaskCompletedEventId = b2 y,
      CancelTimerFailedEventAttributes.Identity = b3 y\<rparr>) =
   Inr \<lparr>CancelTimerFailedEventAttributes.TimerId = (case x of None \<Rightarrow> a0 | Some y \<Rightarrow> b0 y),
       CancelTimerFailedEventAttributes.Cause = (case x of None \<Rightarrow> a1 | Some y \<Rightarrow> b1 y),
       CancelTimerFailedEventAttributes.DecisionTaskCompletedEventId = (case x of None \<Rightarrow> a2 | Some y
       \<Rightarrow> b2 y), CancelTimerFailedEventAttributes.Identity = (case x of None \<Rightarrow> a3 | Some y \<Rightarrow> b3 y)\<rparr>"
  by (cases x) simp_all

interpretation CancelTimerFailedEventAttributes: thrift_message W
  "CancelTimerFailedEventAttributes_ToWire W" "CancelTimerFailedEventAttributes_FromWire W"
      CancelTimerFailedEventAttributes_zero "\<lambda>_. True" for W
proof (rule thrift_messageI)
  fix x :: CancelTimerFailedEventAttributes
  assume laws: "wire_laws W"
  show "\<exists>w. CancelTimerFailedEventAttributes_ToWire W x = Inr w \<and> wire_api.Type W w = TStruct \<and>
      (Writable W w \<longleftrightarrow> (\<lambda>_. True) x) \<and> ((\<lambda>_. True) x \<longrightarrow> CancelTimerFailedEventAttributes_FromWire W w
          CancelTimerFailedEventAttributes_zero = Inr x)"
    by (cases x) (simp cong: option.case_cong add: codec_rules
        CancelTimerFailedEventAttributes_merge CancelTimerFailedEventAttributes_ToWire_def
        CancelTimerFailedEventAttributes_FromWire_def CancelTimerFailedEventAttributes_zero_def
        laws)
qed

definition CancelTimerFailedEventAttributes_Equals ::
  "CancelTimerFailedEventAttributes option \<Rightarrow> CancelTimerFailedEventAttributes option \<Rightarrow> bool" where
  "CancelTimerFailedEventAttributes_Equals v rhs =
     (case v of None \<Rightarrow> rhs = None
      | Some v \<Rightarrow> (case rhs of None \<Rightarrow> False
        | Some rhs \<Rightarrow>
          if \<not> String_EqualsPtr (CancelTimerFailedEventAttributes.TimerId v)
              (CancelTimerFailedEventAttributes.TimerId rhs) then False else
          if \<not> String_EqualsPtr (CancelTimerFailedEventAttributes.Cause v)
              (CancelTimerFailedEventAttributes.Cause rhs) then False else
          if \<not> I64_EqualsPtr (CancelTimerFailedEventAttributes.DecisionTaskCompletedEventId v)
              (CancelTimerFailedEventAttributes.DecisionTaskCompletedEventId rhs) then False else
          if \<not> String_EqualsPtr (CancelTimerFailedEventAttributes.Identity v)
              (CancelTimerFailedEventAttributes.Identity rhs) then False else
          True))"

lemma CancelTimerFailedEventAttributes_Equals_iff [simp]: "CancelTimerFailedEventAttributes_Equals x
    y \<longleftrightarrow> x = y"
  by (cases x; cases y) (auto simp: CancelTimerFailedEventAttributes_Equals_def)

record DecisionTaskCompletedEventAttributes =
  ExecutionContext :: "bytes option"
  ScheduledEventId :: "64 word option"
  StartedEventId :: "64 word option"
  Identity :: "string option"
  BinaryChecksum :: "string option"

definition DecisionTaskCompletedEventAttributes_zero :: DecisionTaskCompletedEventAttributes where
  "DecisionTaskCompletedEventAttributes_zero =
      \<lparr>DecisionTaskCompletedEventAttributes.ExecutionContext = None,
      DecisionTaskCompletedEventAttributes.ScheduledEventId = None,
      DecisionTaskCompletedEventAttributes.StartedEventId = None,
      DecisionTaskCompletedEventAttributes.Identity = None,
      DecisionTaskCompletedEventAttributes.BinaryChecksum = None\<rparr>"

definition DecisionTaskCompletedEventAttributes_ToWire ::
  "'v wire_api \<Rightarrow> DecisionTaskCompletedEventAttributes \<Rightarrow> go_error + 'v" where
  "DecisionTaskCompletedEventAttributes_ToWire W v =
     and_then (put_opt 10 (\<lambda>x. Inr (NewValueBinary W x))
         (DecisionTaskCompletedEventAttributes.ExecutionContext v) [])
       (\<lambda>fields.
     and_then (put_opt 20 (\<lambda>x. Inr (NewValueI64 W x))
         (DecisionTaskCompletedEventAttributes.ScheduledEventId v) fields)
       (\<lambda>fields.
     and_then (put_opt 30 (\<lambda>x. Inr (NewValueI64 W x))
         (DecisionTaskCompletedEventAttributes.StartedEventId v) fields)
       (\<lambda>fields.
     and_then (put_opt 40 (\<lambda>x. Inr (NewValueString W x))
         (DecisionTaskCompletedEventAttributes.Identity v) fields)
       (\<lambda>fields.
     and_then (put_opt 50 (\<lambda>x. Inr (NewValueString W x))
         (DecisionTaskCompletedEventAttributes.BinaryChecksum v) fields)
       (\<lambda>fields.
     Inr (NewValueStruct W fields))))))"

definition DecisionTaskCompletedEventAttributes_FromWire ::
  "'v wire_api \<Rightarrow> 'v \<Rightarrow> DecisionTaskCompletedEventAttributes \<Rightarrow> go_error +
      DecisionTaskCompletedEventAttributes" where
  "DecisionTaskCompletedEventAttributes_FromWire W w v =
     foldM (\<lambda>v (fid, fval).
       if fid = 10 then
         if wire_api.Type W fval = TBinary
         then Inr (v\<lparr>DecisionTaskCompletedEventAttributes.ExecutionContext := Some (GetBinary W
             fval)\<rparr>)
         else Inr v
       else if fid = 20 then
         if wire_api.Type W fval = TI64
         then Inr (v\<lparr>DecisionTaskCompletedEventAttributes.ScheduledEventId := Some (GetI64 W fval)\<rparr>)
         else Inr v
       else if fid = 30 then
         if wire_api.Type W fval = TI64
         then Inr (v\<lparr>DecisionTaskCompletedEventAttributes.StartedEventId := Some (GetI64 W fval)\<rparr>)
         else Inr v
       else if fid = 40 then
         if wire_api.Type W fval = TBinary
         then Inr (v\<lparr>DecisionTaskCompletedEventAttributes.Identity := Some (GetString W fval)\<rparr>)
         else Inr v
       else if fid = 50 then
         if wire_api.Type W fval = TBinary
         then Inr (v\<lparr>DecisionTaskCompletedEventAttributes.BinaryChecksum := Some (GetString W
             fval)\<rparr>)
         else Inr v
       else Inr v) (GetStruct W w) v"

definition DecisionTaskCompletedEventAttributes_Read :: "'v wire_api \<Rightarrow> 'v \<Rightarrow> go_error +
    DecisionTaskCompletedEventAttributes" where
  "DecisionTaskCompletedEventAttributes_Read W w = DecisionTaskCompletedEventAttributes_FromWire W w
      DecisionTaskCompletedEventAttributes_zero"

lemma DecisionTaskCompletedEventAttributes_merge:
  "(case x of None \<Rightarrow> Inr \<lparr>DecisionTaskCompletedEventAttributes.ExecutionContext = a0,
      DecisionTaskCompletedEventAttributes.ScheduledEventId = a1,
      DecisionTaskCompletedEventAttributes.StartedEventId = a2,
      DecisionTaskCompletedEventAttributes.Identity = a3,
      DecisionTaskCompletedEventAttributes.BinaryChecksum = a4\<rparr> | Some y \<Rightarrow> Inr
      \<lparr>DecisionTaskCompletedEventAttributes.ExecutionContext = b0 y,
      DecisionTaskCompletedEventAttributes.ScheduledEventId = b1 y,
      DecisionTaskCompletedEventAttributes.StartedEventId = b2 y,
      DecisionTaskCompletedEventAttributes.Identity = b3 y,
      DecisionTaskCompletedEventAttributes.BinaryChecksum = b4 y\<rparr>) =
   Inr \<lparr>DecisionTaskCompletedEventAttributes.ExecutionContext = (case x of None \<Rightarrow> a0 | Some y \<Rightarrow> b0
       y), DecisionTaskCompletedEventAttributes.ScheduledEventId = (case x of None \<Rightarrow> a1 | Some y \<Rightarrow>
       b1 y), DecisionTaskCompletedEventAttributes.StartedEventId = (case x of None \<Rightarrow> a2 | Some y \<Rightarrow>
       b2 y), DecisionTaskCompletedEventAttributes.Identity = (case x of None \<Rightarrow> a3 | Some y \<Rightarrow> b3 y),
       DecisionTaskCompletedEventAttributes.BinaryChecksum = (case x of None \<Rightarrow> a4 | Some y \<Rightarrow> b4 y)\<rparr>"
  by (cases x) simp_all

interpretation DecisionTaskCompletedEventAttributes: thrift_message W
  "DecisionTaskCompletedEventAttributes_ToWire W" "DecisionTaskCompletedEventAttributes_FromWire W"
      DecisionTaskCompletedEventAttributes_zero "\<lambda>_. True" for W
proof (rule thrift_messageI)
  fix x :: DecisionTaskCompletedEventAttributes
  assume laws: "wire_laws W"
  show "\<exists>w. DecisionTaskCompletedEventAttributes_ToWire W x = Inr w \<and> wire_api.Type W w = TStruct \<and>
      (Writable W w \<longleftrightarrow> (\<lambda>_. True) x) \<and> ((\<lambda>_. True) x \<longrightarrow> DecisionTaskCompletedEventAttributes_FromWire
          W w DecisionTaskCompletedEventAttributes_zero = Inr x)"
    by (cases x) (simp cong: option.case_cong add: codec_rules
        DecisionTaskCompletedEventAttributes_merge DecisionTaskCompletedEventAttributes_ToWire_def
        DecisionTaskCompletedEventAttributes_FromWire_def
        DecisionTaskCompletedEventAttributes_zero_def laws)
qed

definition DecisionTaskCompletedEventAttributes_Equals ::
  "DecisionTaskCompletedEventAttributes option \<Rightarrow> DecisionTaskCompletedEventAttributes option \<Rightarrow> bool"
      where
  "DecisionTaskCompletedEventAttributes_Equals v rhs =
     (case v of None \<Rightarrow> rhs = None
      | Some v \<Rightarrow> (case rhs of None \<Rightarrow> False
        | Some rhs \<Rightarrow>
          if \<not> both_set_and (=) (DecisionTaskCompletedEventAttributes.ExecutionContext v)
              (DecisionTaskCompletedEventAttributes.ExecutionContext rhs) then False else
          if \<not> I64_EqualsPtr (DecisionTaskCompletedEventAttributes.ScheduledEventId v)
              (DecisionTaskCompletedEventAttributes.ScheduledEventId rhs) then False else
          if \<not> I64_EqualsPtr (DecisionTaskCompletedEventAttributes.StartedEventId v)
              (DecisionTaskCompletedEventAttributes.StartedEventId rhs) then False else
          if \<not> String_EqualsPtr (DecisionTaskCompletedEventAttributes.Identity v)
              (DecisionTaskCompletedEventAttributes.Identity rhs) then False else
          if \<not> String_EqualsPtr (DecisionTaskCompletedEventAttributes.BinaryChecksum v)
              (DecisionTaskCompletedEventAttributes.BinaryChecksum rhs) then False else
          True))"

lemma DecisionTaskCompletedEventAttributes_Equals_iff [simp]:
    "DecisionTaskCompletedEventAttributes_Equals x y \<longleftrightarrow> x = y"
  by (cases x; cases y) (simp_all add: DecisionTaskCompletedEventAttributes_Equals_def if_not_False,
      fastforce intro: DecisionTaskCompletedEventAttributes.equality)

record DecisionTaskFailedEventAttributes =
  ScheduledEventId :: "64 word option"
  StartedEventId :: "64 word option"
  Cause :: "DecisionTaskFailedCause option"
  Details :: "bytes option"
  Identity :: "string option"
  Reason :: "string option"
  BaseRunId :: "string option"
  NewRunId :: "string option"
  ForkEventVersion :: "64 word option"

definition DecisionTaskFailedEventAttributes_zero :: DecisionTaskFailedEventAttributes where
  "DecisionTaskFailedEventAttributes_zero = \<lparr>DecisionTaskFailedEventAttributes.ScheduledEventId =
      None, DecisionTaskFailedEventAttributes.StartedEventId = None,
      DecisionTaskFailedEventAttributes.Cause = None, DecisionTaskFailedEventAttributes.Details =
      None, DecisionTaskFailedEventAttributes.Identity = None,
      DecisionTaskFailedEventAttributes.Reason = None, DecisionTaskFailedEventAttributes.BaseRunId =
      None, DecisionTaskFailedEventAttributes.NewRunId = None,
      DecisionTaskFailedEventAttributes.ForkEventVersion = None\<rparr>"

definition DecisionTaskFailedEventAttributes_ToWire ::
  "'v wire_api \<Rightarrow> DecisionTaskFailedEventAttributes \<Rightarrow> go_error + 'v" where
  "DecisionTaskFailedEventAttributes_ToWire W v =
     and_then (put_opt 10 (\<lambda>x. Inr (NewValueI64 W x))
         (DecisionTaskFailedEventAttributes.ScheduledEventId v) [])
       (\<lambda>fields.
     and_then (put_opt 20 (\<lambda>x. Inr (NewValueI64 W x))
         (DecisionTaskFailedEventAttributes.StartedEventId v) fields)
       (\<lambda>fields.
     and_then (put_opt 30 (DecisionTaskFailedCause_ToWire W)
         (DecisionTaskFailedEventAttributes.Cause v) fields)
       (\<lambda>fields.
     and_then (put_opt 35 (\<lambda>x. Inr (NewValueBinary W x)) (DecisionTaskFailedEventAttributes.Details
         v) fields)
       (\<lambda>fields.
     and_then (put_opt 40 (\<lambda>x. Inr (NewValueString W x)) (DecisionTaskFailedEventAttributes.Identity
         v) fields)
       (\<lambda>fields.
     and_then (put_opt 50 (\<lambda>x. Inr (NewValueString W x)) (DecisionTaskFailedEventAttributes.Reason
         v) fields)
       (\<lambda>fields.
     and_then (put_opt 60 (\<lambda>x. Inr (NewValueString W x))
         (DecisionTaskFailedEventAttributes.BaseRunId v) fields)
       (\<lambda>fields.
     and_then (put_opt 70 (\<lambda>x. Inr (NewValueString W x)) (DecisionTaskFailedEventAttributes.NewRunId
         v) fields)
       (\<lambda>fields.
     and_then (put_opt 80 (\<lambda>x. Inr (NewValueI64 W x))
         (DecisionTaskFailedEventAttributes.ForkEventVersion v) fields)
       (\<lambda>fields.
     Inr (NewValueStruct W fields))))))))))"

definition DecisionTaskFailedEventAttributes_FromWire ::
  "'v wire_api \<Rightarrow> 'v \<Rightarrow> DecisionTaskFailedEventAttributes \<Rightarrow> go_error +
      DecisionTaskFailedEventAttributes" where
  "DecisionTaskFailedEventAttributes_FromWire W w v =
     foldM (\<lambda>v (fid, fval).
       if fid = 10 then
         if wire_api.Type W fval = TI64
         then Inr (v\<lparr>DecisionTaskFailedEventAttributes.ScheduledEventId := Some (GetI64 W fval)\<rparr>)
         else Inr v
       else if fid = 20 then
         if wire_api.Type W fval = TI64
         then Inr (v\<lparr>DecisionTaskFailedEventAttributes.StartedEventId := Some (GetI64 W fval)\<rparr>)
         else Inr v
       else if fid = 30 then
         if wire_api.Type W fval = TI32
         then and_then (DecisionTaskFailedCause_Read W fval) (\<lambda>x. Inr
             (v\<lparr>DecisionTaskFailedEventAttributes.Cause := Some x\<rparr>))
         else Inr v
       else if fid = 35 then
         if wire_api.Type W fval = TBinary
         then Inr (v\<lparr>DecisionTaskFailedEventAttributes.Details := Some (GetBinary W fval)\<rparr>)
         else Inr v
       else if fid = 40 then
         if wire_api.Type W fval = TBinary
         then Inr (v\<lparr>DecisionTaskFailedEventAttributes.Identity := Some (GetString W fval)\<rparr>)
         else Inr v
       else if fid = 50 then
         if wire_api.Type W fval = TBinary
         then Inr (v\<lparr>DecisionTaskFailedEventAttributes.Reason := Some (GetString W fval)\<rparr>)
         else Inr v
       else if fid = 60 then
         if wire_api.Type W fval = TBinary
         then Inr (v\<lparr>DecisionTaskFailedEventAttributes.BaseRunId := Some (GetString W fval)\<rparr>)
         else Inr v
       else if fid = 70 then
         if wire_api.Type W fval = TBinary
         then Inr (v\<lparr>DecisionTaskFailedEventAttributes.NewRunId := Some (GetString W fval)\<rparr>)
         else Inr v
       else if fid = 80 then
         if wire_api.Type W fval = TI64
         then Inr (v\<lparr>DecisionTaskFailedEventAttributes.ForkEventVersion := Some (GetI64 W fval)\<rparr>)
         else Inr v
       else Inr v) (GetStruct W w) v"

definition DecisionTaskFailedEventAttributes_Read :: "'v wire_api \<Rightarrow> 'v \<Rightarrow> go_error +
    DecisionTaskFailedEventAttributes" where
  "DecisionTaskFailedEventAttributes_Read W w = DecisionTaskFailedEventAttributes_FromWire W w
      DecisionTaskFailedEventAttributes_zero"

lemma DecisionTaskFailedEventAttributes_merge:
  "(case x of None \<Rightarrow> Inr \<lparr>DecisionTaskFailedEventAttributes.ScheduledEventId = a0,
      DecisionTaskFailedEventAttributes.StartedEventId = a1, DecisionTaskFailedEventAttributes.Cause
      = a2, DecisionTaskFailedEventAttributes.Details = a3,
      DecisionTaskFailedEventAttributes.Identity = a4, DecisionTaskFailedEventAttributes.Reason =
      a5, DecisionTaskFailedEventAttributes.BaseRunId = a6,
      DecisionTaskFailedEventAttributes.NewRunId = a7,
      DecisionTaskFailedEventAttributes.ForkEventVersion = a8\<rparr> | Some y \<Rightarrow> Inr
      \<lparr>DecisionTaskFailedEventAttributes.ScheduledEventId = b0 y,
      DecisionTaskFailedEventAttributes.StartedEventId = b1 y,
      DecisionTaskFailedEventAttributes.Cause = b2 y, DecisionTaskFailedEventAttributes.Details = b3
      y, DecisionTaskFailedEventAttributes.Identity = b4 y, DecisionTaskFailedEventAttributes.Reason
      = b5 y, DecisionTaskFailedEventAttributes.BaseRunId = b6 y,
      DecisionTaskFailedEventAttributes.NewRunId = b7 y,
      DecisionTaskFailedEventAttributes.ForkEventVersion = b8 y\<rparr>) =
   Inr \<lparr>DecisionTaskFailedEventAttributes.ScheduledEventId = (case x of None \<Rightarrow> a0 | Some y \<Rightarrow> b0 y),
       DecisionTaskFailedEventAttributes.StartedEventId = (case x of None \<Rightarrow> a1 | Some y \<Rightarrow> b1 y),
       DecisionTaskFailedEventAttributes.Cause = (case x of None \<Rightarrow> a2 | Some y \<Rightarrow> b2 y),
       DecisionTaskFailedEventAttributes.Details = (case x of None \<Rightarrow> a3 | Some y \<Rightarrow> b3 y),
       DecisionTaskFailedEventAttributes.Identity = (case x of None \<Rightarrow> a4 | Some y \<Rightarrow> b4 y),
       DecisionTaskFailedEventAttributes.Reason = (case x of None \<Rightarrow> a5 | Some y \<Rightarrow> b5 y),
       DecisionTaskFailedEventAttributes.BaseRunId = (case x of None \<Rightarrow> a6 | Some y \<Rightarrow> b6 y),
       DecisionTaskFailedEventAttributes.NewRunId = (case x of None \<Rightarrow> a7 | Some y \<Rightarrow> b7 y),
       DecisionTaskFailedEventAttributes.ForkEventVersion = (case x of None \<Rightarrow> a8 | Some y \<Rightarrow> b8 y)\<rparr>"
  by (cases x) simp_all

interpretation DecisionTaskFailedEventAttributes: thrift_message W
  "DecisionTaskFailedEventAttributes_ToWire W" "DecisionTaskFailedEventAttributes_FromWire W"
      DecisionTaskFailedEventAttributes_zero "\<lambda>_. True" for W
proof (rule thrift_messageI)
  fix x :: DecisionTaskFailedEventAttributes
  assume laws: "wire_laws W"
  show "\<exists>w. DecisionTaskFailedEventAttributes_ToWire W x = Inr w \<and> wire_api.Type W w = TStruct \<and>
      (Writable W w \<longleftrightarrow> (\<lambda>_. True) x) \<and> ((\<lambda>_. True) x \<longrightarrow> DecisionTaskFailedEventAttributes_FromWire W w
          DecisionTaskFailedEventAttributes_zero = Inr x)"
    by (cases x) (simp cong: option.case_cong add: codec_rules
        DecisionTaskFailedEventAttributes_merge DecisionTaskFailedEventAttributes_ToWire_def
        DecisionTaskFailedEventAttributes_FromWire_def DecisionTaskFailedEventAttributes_zero_def
        DecisionTaskFailedCause_enc DecisionTaskFailedCause_Read_def
        DecisionTaskFailedCause_FromWire_def laws)
qed

definition DecisionTaskFailedEventAttributes_Equals ::
  "DecisionTaskFailedEventAttributes option \<Rightarrow> DecisionTaskFailedEventAttributes option \<Rightarrow> bool" where
  "DecisionTaskFailedEventAttributes_Equals v rhs =
     (case v of None \<Rightarrow> rhs = None
      | Some v \<Rightarrow> (case rhs of None \<Rightarrow> False
        | Some rhs \<Rightarrow>
          if \<not> I64_EqualsPtr (DecisionTaskFailedEventAttributes.ScheduledEventId v)
              (DecisionTaskFailedEventAttributes.ScheduledEventId rhs) then False else
          if \<not> I64_EqualsPtr (DecisionTaskFailedEventAttributes.StartedEventId v)
              (DecisionTaskFailedEventAttributes.StartedEventId rhs) then False else
          if \<not> DecisionTaskFailedCause_EqualsPtr (DecisionTaskFailedEventAttributes.Cause v)
              (DecisionTaskFailedEventAttributes.Cause rhs) then False else
          if \<not> both_set_and (=) (DecisionTaskFailedEventAttributes.Details v)
              (DecisionTaskFailedEventAttributes.Details rhs) then False else
          if \<not> String_EqualsPtr (DecisionTaskFailedEventAttributes.Identity v)
              (DecisionTaskFailedEventAttributes.Identity rhs) then False else
          if \<not> String_EqualsPtr (DecisionTaskFailedEventAttributes.Reason v)
              (DecisionTaskFailedEventAttributes.Reason rhs) then False else
          if \<not> String_EqualsPtr (DecisionTaskFailedEventAttributes.BaseRunId v)
              (DecisionTaskFailedEventAttributes.BaseRunId rhs) then False else
          if \<not> String_EqualsPtr (DecisionTaskFailedEventAttributes.NewRunId v)
              (DecisionTaskFailedEventAttributes.NewRunId rhs) then False else
          if \<not> I64_EqualsPtr (DecisionTaskFailedEventAttributes.ForkEventVersion v)
              (DecisionTaskFailedEventAttributes.ForkEventVersion rhs) then False else
          True))"

lemma DecisionTaskFailedEventAttributes_Equals_iff [simp]: "DecisionTaskFailedEventAttributes_Equals
    x y \<longleftrightarrow> x = y"
  by (cases x; cases y) (simp_all add: DecisionTaskFailedEventAttributes_Equals_def if_not_False,
      fastforce intro: DecisionTaskFailedEventAttributes.equality)

record DecisionTaskScheduledEventAttributes =
  TaskList :: "TaskList option"
  StartToCloseTimeoutSeconds :: "32 word option"
  Attempt :: "64 word option"

definition DecisionTaskScheduledEventAttributes_zero :: DecisionTaskScheduledEventAttributes where
  "DecisionTaskScheduledEventAttributes_zero = \<lparr>DecisionTaskScheduledEventAttributes.TaskList =
      None, DecisionTaskScheduledEventAttributes.StartToCloseTimeoutSeconds = None,
      DecisionTaskScheduledEventAttributes.Attempt = None\<rparr>"

definition DecisionTaskScheduledEventAttributes_ToWire ::
  "'v wire_api \<Rightarrow> DecisionTaskScheduledEventAttributes \<Rightarrow> go_error + 'v" where
  "DecisionTaskScheduledEventAttributes_ToWire W v =
     and_then (put_opt 10 (TaskList_ToWire W) (DecisionTaskScheduledEventAttributes.TaskList v) [])
       (\<lambda>fields.
     and_then (put_opt 20 (\<lambda>x. Inr (NewValueI32 W x))
         (DecisionTaskScheduledEventAttributes.StartToCloseTimeoutSeconds v) fields)
       (\<lambda>fields.
     and_then (put_opt 30 (\<lambda>x. Inr (NewValueI64 W x)) (DecisionTaskScheduledEventAttributes.Attempt
         v) fields)
       (\<lambda>fields.
     Inr (NewValueStruct W fields))))"

definition DecisionTaskScheduledEventAttributes_FromWire ::
  "'v wire_api \<Rightarrow> 'v \<Rightarrow> DecisionTaskScheduledEventAttributes \<Rightarrow> go_error +
      DecisionTaskScheduledEventAttributes" where
  "DecisionTaskScheduledEventAttributes_FromWire W w v =
     foldM (\<lambda>v (fid, fval).
       if fid = 10 then
         if wire_api.Type W fval = TStruct
         then and_then (TaskList_Read W fval) (\<lambda>x. Inr
             (v\<lparr>DecisionTaskScheduledEventAttributes.TaskList := Some x\<rparr>))
         else Inr v
       else if fid = 20 then
         if wire_api.Type W fval = TI32
         then Inr (v\<lparr>DecisionTaskScheduledEventAttributes.StartToCloseTimeoutSeconds := Some (GetI32
             W fval)\<rparr>)
         else Inr v
       else if fid = 30 then
         if wire_api.Type W fval = TI64
         then Inr (v\<lparr>DecisionTaskScheduledEventAttributes.Attempt := Some (GetI64 W fval)\<rparr>)
         else Inr v
       else Inr v) (GetStruct W w) v"

definition DecisionTaskScheduledEventAttributes_Read :: "'v wire_api \<Rightarrow> 'v \<Rightarrow> go_error +
    DecisionTaskScheduledEventAttributes" where
  "DecisionTaskScheduledEventAttributes_Read W w = DecisionTaskScheduledEventAttributes_FromWire W w
      DecisionTaskScheduledEventAttributes_zero"

lemma DecisionTaskScheduledEventAttributes_merge:
  "(case x of None \<Rightarrow> Inr \<lparr>DecisionTaskScheduledEventAttributes.TaskList = a0,
      DecisionTaskScheduledEventAttributes.StartToCloseTimeoutSeconds = a1,
      DecisionTaskScheduledEventAttributes.Attempt = a2\<rparr> | Some y \<Rightarrow> Inr
      \<lparr>DecisionTaskScheduledEventAttributes.TaskList = b0 y,
      DecisionTaskScheduledEventAttributes.StartToCloseTimeoutSeconds = b1 y,
      DecisionTaskScheduledEventAttributes.Attempt = b2 y\<rparr>) =
   Inr \<lparr>DecisionTaskScheduledEventAttributes.TaskList = (case x of None \<Rightarrow> a0 | Some y \<Rightarrow> b0 y),
       DecisionTaskScheduledEventAttributes.StartToCloseTimeoutSeconds = (case x of None \<Rightarrow> a1 | Some
       y \<Rightarrow> b1 y), DecisionTaskScheduledEventAttributes.Attempt = (case x of None \<Rightarrow> a2 | Some y \<Rightarrow> b2
       y)\<rparr>"
  by (cases x) simp_all

interpretation DecisionTaskScheduledEventAttributes: thrift_message W
  "DecisionTaskScheduledEventAttributes_ToWire W" "DecisionTaskScheduledEventAttributes_FromWire W"
      DecisionTaskScheduledEventAttributes_zero "\<lambda>_. True" for W
proof (rule thrift_messageI)
  fix x :: DecisionTaskScheduledEventAttributes
  assume laws: "wire_laws W"
  obtain enc0 where e0: "TaskList_ToWire W = (\<lambda>x. Inr (enc0 x))"
      "\<And>x. wire_api.Type W (enc0 x) = TStruct"
      "\<And>x. Writable W (enc0 x) \<longleftrightarrow> (\<lambda>_. True) x"
      "\<And>x. (\<lambda>_. True) x \<Longrightarrow> TaskList_FromWire W (enc0 x) TaskList_zero = Inr x"
    by (rule TaskList.encoder [OF laws]) (rule that)
  show "\<exists>w. DecisionTaskScheduledEventAttributes_ToWire W x = Inr w \<and> wire_api.Type W w = TStruct \<and>
      (Writable W w \<longleftrightarrow> (\<lambda>_. True) x) \<and> ((\<lambda>_. True) x \<longrightarrow> DecisionTaskScheduledEventAttributes_FromWire
          W w DecisionTaskScheduledEventAttributes_zero = Inr x)"
    by (cases x) (simp cong: option.case_cong add: codec_rules
        DecisionTaskScheduledEventAttributes_merge DecisionTaskScheduledEventAttributes_ToWire_def
        DecisionTaskScheduledEventAttributes_FromWire_def
        DecisionTaskScheduledEventAttributes_zero_def TaskList_Read_def laws e0)
qed

definition DecisionTaskScheduledEventAttributes_Equals ::
  "DecisionTaskScheduledEventAttributes option \<Rightarrow> DecisionTaskScheduledEventAttributes option \<Rightarrow> bool"
      where
  "DecisionTaskScheduledEventAttributes_Equals v rhs =
     (case v of None \<Rightarrow> rhs = None
      | Some v \<Rightarrow> (case rhs of None \<Rightarrow> False
        | Some rhs \<Rightarrow>
          if \<not> both_set_and (\<lambda>x y. TaskList_Equals (Some x) (Some y))
              (DecisionTaskScheduledEventAttributes.TaskList v)
              (DecisionTaskScheduledEventAttributes.TaskList rhs) then False else
          if \<not> I32_EqualsPtr (DecisionTaskScheduledEventAttributes.StartToCloseTimeoutSeconds v)
              (DecisionTaskScheduledEventAttributes.StartToCloseTimeoutSeconds rhs) then False else
          if \<not> I64_EqualsPtr (DecisionTaskScheduledEventAttributes.Attempt v)
              (DecisionTaskScheduledEventAttributes.Attempt rhs) then False else
          True))"

lemma DecisionTaskScheduledEventAttributes_Equals_iff [simp]:
    "DecisionTaskScheduledEventAttributes_Equals x y \<longleftrightarrow> x = y"
  by (cases x; cases y) (auto simp: DecisionTaskScheduledEventAttributes_Equals_def)

record DecisionTaskStartedEventAttributes =
  ScheduledEventId :: "64 word option"
  Identity :: "string option"
  RequestId :: "string option"

definition DecisionTaskStartedEventAttributes_zero :: DecisionTaskStartedEventAttributes where
  "DecisionTaskStartedEventAttributes_zero = \<lparr>DecisionTaskStartedEventAttributes.ScheduledEventId =
      None, DecisionTaskStartedEventAttributes.Identity = None,
      DecisionTaskStartedEventAttributes.RequestId = None\<rparr>"

definition DecisionTaskStartedEventAttributes_ToWire ::
  "'v wire_api \<Rightarrow> DecisionTaskStartedEventAttributes \<Rightarrow> go_error + 'v" where
  "DecisionTaskStartedEventAttributes_ToWire W v =
     and_then (put_opt 10 (\<lambda>x. Inr (NewValueI64 W x))
         (DecisionTaskStartedEventAttributes.ScheduledEventId v) [])
       (\<lambda>fields.
     and_then (put_opt 20 (\<lambda>x. Inr (NewValueString W x))
         (DecisionTaskStartedEventAttributes.Identity v) fields)
       (\<lambda>fields.
     and_then (put_opt 30 (\<lambda>x. Inr (NewValueString W x))
         (DecisionTaskStartedEventAttributes.RequestId v) fields)
       (\<lambda>fields.
     Inr (NewValueStruct W fields))))"

definition DecisionTaskStartedEventAttributes_FromWire ::
  "'v wire_api \<Rightarrow> 'v \<Rightarrow> DecisionTaskStartedEventAttributes \<Rightarrow> go_error +
      DecisionTaskStartedEventAttributes" where
  "DecisionTaskStartedEventAttributes_FromWire W w v =
     foldM (\<lambda>v (fid, fval).
       if fid = 10 then
         if wire_api.Type W fval = TI64
         then Inr (v\<lparr>DecisionTaskStartedEventAttributes.ScheduledEventId := Some (GetI64 W fval)\<rparr>)
         else Inr v
       else if fid = 20 then
         if wire_api.Type W fval = TBinary
         then Inr (v\<lparr>DecisionTaskStartedEventAttributes.Identity := Some (GetString W fval)\<rparr>)
         else Inr v
       else if fid = 30 then
         if wire_api.Type W fval = TBinary
         then Inr (v\<lparr>DecisionTaskStartedEventAttributes.RequestId := Some (GetString W fval)\<rparr>)
         else Inr v
       else Inr v) (GetStruct W w) v"

definition DecisionTaskStartedEventAttributes_Read :: "'v wire_api \<Rightarrow> 'v \<Rightarrow> go_error +
    DecisionTaskStartedEventAttributes" where
  "DecisionTaskStartedEventAttributes_Read W w = DecisionTaskStartedEventAttributes_FromWire W w
      DecisionTaskStartedEventAttributes_zero"

lemma DecisionTaskStartedEventAttributes_merge:
  "(case x of None \<Rightarrow> Inr \<lparr>DecisionTaskStartedEventAttributes.ScheduledEventId = a0,
      DecisionTaskStartedEventAttributes.Identity = a1, DecisionTaskStartedEventAttributes.RequestId
      = a2\<rparr> | Some y \<Rightarrow> Inr \<lparr>DecisionTaskStartedEventAttributes.ScheduledEventId = b0 y,
      DecisionTaskStartedEventAttributes.Identity = b1 y,
      DecisionTaskStartedEventAttributes.RequestId = b2 y\<rparr>) =
   Inr \<lparr>DecisionTaskStartedEventAttributes.ScheduledEventId = (case x of None \<Rightarrow> a0 | Some y \<Rightarrow> b0 y),
       DecisionTaskStartedEventAttributes.Identity = (case x of None \<Rightarrow> a1 | Some y \<Rightarrow> b1 y),
       DecisionTaskStartedEventAttributes.RequestId = (case x of None \<Rightarrow> a2 | Some y \<Rightarrow> b2 y)\<rparr>"
  by (cases x) simp_all

interpretation DecisionTaskStartedEventAttributes: thrift_message W
  "DecisionTaskStartedEventAttributes_ToWire W" "DecisionTaskStartedEventAttributes_FromWire W"
      DecisionTaskStartedEventAttributes_zero "\<lambda>_. True" for W
proof (rule thrift_messageI)
  fix x :: DecisionTaskStartedEventAttributes
  assume laws: "wire_laws W"
  show "\<exists>w. DecisionTaskStartedEventAttributes_ToWire W x = Inr w \<and> wire_api.Type W w = TStruct \<and>
      (Writable W w \<longleftrightarrow> (\<lambda>_. True) x) \<and> ((\<lambda>_. True) x \<longrightarrow> DecisionTaskStartedEventAttributes_FromWire W
          w DecisionTaskStartedEventAttributes_zero = Inr x)"
    by (cases x) (simp cong: option.case_cong add: codec_rules
        DecisionTaskStartedEventAttributes_merge DecisionTaskStartedEventAttributes_ToWire_def
        DecisionTaskStartedEventAttributes_FromWire_def DecisionTaskStartedEventAttributes_zero_def
        laws)
qed

definition DecisionTaskStartedEventAttributes_Equals ::
  "DecisionTaskStartedEventAttributes option \<Rightarrow> DecisionTaskStartedEventAttributes option \<Rightarrow> bool"
      where
  "DecisionTaskStartedEventAttributes_Equals v rhs =
     (case v of None \<Rightarrow> rhs = None
      | Some v \<Rightarrow> (case rhs of None \<Rightarrow> False
        | Some rhs \<Rightarrow>
          if \<not> I64_EqualsPtr (DecisionTaskStartedEventAttributes.ScheduledEventId v)
              (DecisionTaskStartedEventAttributes.ScheduledEventId rhs) then False else
          if \<not> String_EqualsPtr (DecisionTaskStartedEventAttributes.Identity v)
              (DecisionTaskStartedEventAttributes.Identity rhs) then False else
          if \<not> String_EqualsPtr (DecisionTaskStartedEventAttributes.RequestId v)
              (DecisionTaskStartedEventAttributes.RequestId rhs) then False else
          True))"

lemma DecisionTaskStartedEventAttributes_Equals_iff [simp]:
    "DecisionTaskStartedEventAttributes_Equals x y \<longleftrightarrow> x = y"
  by (cases x; cases y) (auto simp: DecisionTaskStartedEventAttributes_Equals_def)

record DecisionTaskTimedOutEventAttributes =
  ScheduledEventId :: "64 word option"
  StartedEventId :: "64 word option"
  TimeoutType :: "TimeoutType option"

definition DecisionTaskTimedOutEventAttributes_zero :: DecisionTaskTimedOutEventAttributes where
  "DecisionTaskTimedOutEventAttributes_zero = \<lparr>DecisionTaskTimedOutEventAttributes.ScheduledEventId
      = None, DecisionTaskTimedOutEventAttributes.StartedEventId = None,
      DecisionTaskTimedOutEventAttributes.TimeoutType = None\<rparr>"

definition DecisionTaskTimedOutEventAttributes_ToWire ::
  "'v wire_api \<Rightarrow> DecisionTaskTimedOutEventAttributes \<Rightarrow> go_error + 'v" where
  "DecisionTaskTimedOutEventAttributes_ToWire W v =
     and_then (put_opt 10 (\<lambda>x. Inr (NewValueI64 W x))
         (DecisionTaskTimedOutEventAttributes.ScheduledEventId v) [])
       (\<lambda>fields.
     and_then (put_opt 20 (\<lambda>x. Inr (NewValueI64 W x))
         (DecisionTaskTimedOutEventAttributes.StartedEventId v) fields)
       (\<lambda>fields.
     and_then (put_opt 30 (TimeoutType_ToWire W) (DecisionTaskTimedOutEventAttributes.TimeoutType v)
         fields)
       (\<lambda>fields.
     Inr (NewValueStruct W fields))))"

definition DecisionTaskTimedOutEventAttributes_FromWire ::
  "'v wire_api \<Rightarrow> 'v \<Rightarrow> DecisionTaskTimedOutEventAttributes \<Rightarrow> go_error +
      DecisionTaskTimedOutEventAttributes" where
  "DecisionTaskTimedOutEventAttributes_FromWire W w v =
     foldM (\<lambda>v (fid, fval).
       if fid = 10 then
         if wire_api.Type W fval = TI64
         then Inr (v\<lparr>DecisionTaskTimedOutEventAttributes.ScheduledEventId := Some (GetI64 W fval)\<rparr>)
         else Inr v
       else if fid = 20 then
         if wire_api.Type W fval = TI64
         then Inr (v\<lparr>DecisionTaskTimedOutEventAttributes.StartedEventId := Some (GetI64 W fval)\<rparr>)
         else Inr v
       else if fid = 30 then
         if wire_api.Type W fval = TI32
         then and_then (TimeoutType_Read W fval) (\<lambda>x. Inr
             (v\<lparr>DecisionTaskTimedOutEventAttributes.TimeoutType := Some x\<rparr>))
         else Inr v
       else Inr v) (GetStruct W w) v"

definition DecisionTaskTimedOutEventAttributes_Read :: "'v wire_api \<Rightarrow> 'v \<Rightarrow> go_error +
    DecisionTaskTimedOutEventAttributes" where
  "DecisionTaskTimedOutEventAttributes_Read W w = DecisionTaskTimedOutEventAttributes_FromWire W w
      DecisionTaskTimedOutEventAttributes_zero"

lemma DecisionTaskTimedOutEventAttributes_merge:
  "(case x of None \<Rightarrow> Inr \<lparr>DecisionTaskTimedOutEventAttributes.ScheduledEventId = a0,
      DecisionTaskTimedOutEventAttributes.StartedEventId = a1,
      DecisionTaskTimedOutEventAttributes.TimeoutType = a2\<rparr> | Some y \<Rightarrow> Inr
      \<lparr>DecisionTaskTimedOutEventAttributes.ScheduledEventId = b0 y,
      DecisionTaskTimedOutEventAttributes.StartedEventId = b1 y,
      DecisionTaskTimedOutEventAttributes.TimeoutType = b2 y\<rparr>) =
   Inr \<lparr>DecisionTaskTimedOutEventAttributes.ScheduledEventId = (case x of None \<Rightarrow> a0 | Some y \<Rightarrow> b0
       y), DecisionTaskTimedOutEventAttributes.StartedEventId = (case x of None \<Rightarrow> a1 | Some y \<Rightarrow> b1
       y), DecisionTaskTimedOutEventAttributes.TimeoutType = (case x of None \<Rightarrow> a2 | Some y \<Rightarrow> b2 y)\<rparr>"
  by (cases x) simp_all

interpretation DecisionTaskTimedOutEventAttributes: thrift_message W
  "DecisionTaskTimedOutEventAttributes_ToWire W" "DecisionTaskTimedOutEventAttributes_FromWire W"
      DecisionTaskTimedOutEventAttributes_zero "\<lambda>_. True" for W
proof (rule thrift_messageI)
  fix x :: DecisionTaskTimedOutEventAttributes
  assume laws: "wire_laws W"
  show "\<exists>w. DecisionTaskTimedOutEventAttributes_ToWire W x = Inr w \<and> wire_api.Type W w = TStruct \<and>
      (Writable W w \<longleftrightarrow> (\<lambda>_. True) x) \<and> ((\<lambda>_. True) x \<longrightarrow> DecisionTaskTimedOutEventAttributes_FromWire W
          w DecisionTaskTimedOutEventAttributes_zero = Inr x)"
    by (cases x) (simp cong: option.case_cong add: codec_rules
        DecisionTaskTimedOutEventAttributes_merge DecisionTaskTimedOutEventAttributes_ToWire_def
        DecisionTaskTimedOutEventAttributes_FromWire_def
        DecisionTaskTimedOutEventAttributes_zero_def TimeoutType_enc TimeoutType_Read_def
        TimeoutType_FromWire_def laws)
qed

definition DecisionTaskTimedOutEventAttributes_Equals ::
  "DecisionTaskTimedOutEventAttributes option \<Rightarrow> DecisionTaskTimedOutEventAttributes option \<Rightarrow> bool"
      where
  "DecisionTaskTimedOutEventAttributes_Equals v rhs =
     (case v of None \<Rightarrow> rhs = None
      | Some v \<Rightarrow> (case rhs of None \<Rightarrow> False
        | Some rhs \<Rightarrow>
          if \<not> I64_EqualsPtr (DecisionTaskTimedOutEventAttributes.ScheduledEventId v)
              (DecisionTaskTimedOutEventAttributes.ScheduledEventId rhs) then False else
          if \<not> I64_EqualsPtr (DecisionTaskTimedOutEventAttributes.StartedEventId v)
              (DecisionTaskTimedOutEventAttributes.StartedEventId rhs) then False else
          if \<not> TimeoutType_EqualsPtr (DecisionTaskTimedOutEventAttributes.TimeoutType v)
              (DecisionTaskTimedOutEventAttributes.TimeoutType rhs) then False else
          True))"

lemma DecisionTaskTimedOutEventAttributes_Equals_iff [simp]:
    "DecisionTaskTimedOutEventAttributes_Equals x y \<longleftrightarrow> x = y"
  by (cases x; cases y) (auto simp: DecisionTaskTimedOutEventAttributes_Equals_def)

record RequestCancelActivityTaskFailedEventAttributes =
  ActivityId :: "string option"
  Cause :: "string option"
  DecisionTaskCompletedEventId :: "64 word option"

definition RequestCancelActivityTaskFailedEventAttributes_zero ::
    RequestCancelActivityTaskFailedEventAttributes where
  "RequestCancelActivityTaskFailedEventAttributes_zero =
      \<lparr>RequestCancelActivityTaskFailedEventAttributes.ActivityId = None,
      RequestCancelActivityTaskFailedEventAttributes.Cause = None,
      RequestCancelActivityTaskFailedEventAttributes.DecisionTaskCompletedEventId = None\<rparr>"

definition RequestCancelActivityTaskFailedEventAttributes_ToWire ::
  "'v wire_api \<Rightarrow> RequestCancelActivityTaskFailedEventAttributes \<Rightarrow> go_error + 'v" where
  "RequestCancelActivityTaskFailedEventAttributes_ToWire W v =
     and_then (put_opt 10 (\<lambda>x. Inr (NewValueString W x))
         (RequestCancelActivityTaskFailedEventAttributes.ActivityId v) [])
       (\<lambda>fields.
     and_then (put_opt 20 (\<lambda>x. Inr (NewValueString W x))
         (RequestCancelActivityTaskFailedEventAttributes.Cause v) fields)
       (\<lambda>fields.
     and_then (put_opt 30 (\<lambda>x. Inr (NewValueI64 W x))
         (RequestCancelActivityTaskFailedEventAttributes.DecisionTaskCompletedEventId v) fields)
       (\<lambda>fields.
     Inr (NewValueStruct W fields))))"

definition RequestCancelActivityTaskFailedEventAttributes_FromWire ::
  "'v wire_api \<Rightarrow> 'v \<Rightarrow> RequestCancelActivityTaskFailedEventAttributes \<Rightarrow> go_error +
      RequestCancelActivityTaskFailedEventAttributes" where
  "RequestCancelActivityTaskFailedEventAttributes_FromWire W w v =
     foldM (\<lambda>v (fid, fval).
       if fid = 10 then
         if wire_api.Type W fval = TBinary
         then Inr (v\<lparr>RequestCancelActivityTaskFailedEventAttributes.ActivityId := Some (GetString W
             fval)\<rparr>)
         else Inr v
       else if fid = 20 then
         if wire_api.Type W fval = TBinary
         then Inr (v\<lparr>RequestCancelActivityTaskFailedEventAttributes.Cause := Some (GetString W
             fval)\<rparr>)
         else Inr v
       else if fid = 30 then
         if wire_api.Type W fval = TI64
         then Inr (v\<lparr>RequestCancelActivityTaskFailedEventAttributes.DecisionTaskCompletedEventId :=
             Some (GetI64 W fval)\<rparr>)
         else Inr v
       else Inr v) (GetStruct W w) v"

definition RequestCancelActivityTaskFailedEventAttributes_Read :: "'v wire_api \<Rightarrow> 'v \<Rightarrow> go_error +
    RequestCancelActivityTaskFailedEventAttributes" where
  "RequestCancelActivityTaskFailedEventAttributes_Read W w =
      RequestCancelActivityTaskFailedEventAttributes_FromWire W w
      RequestCancelActivityTaskFailedEventAttributes_zero"

lemma RequestCancelActivityTaskFailedEventAttributes_merge:
  "(case x of None \<Rightarrow> Inr \<lparr>RequestCancelActivityTaskFailedEventAttributes.ActivityId = a0,
      RequestCancelActivityTaskFailedEventAttributes.Cause = a1,
      RequestCancelActivityTaskFailedEventAttributes.DecisionTaskCompletedEventId = a2\<rparr> | Some y \<Rightarrow>
      Inr \<lparr>RequestCancelActivityTaskFailedEventAttributes.ActivityId = b0 y,
      RequestCancelActivityTaskFailedEventAttributes.Cause = b1 y,
      RequestCancelActivityTaskFailedEventAttributes.DecisionTaskCompletedEventId = b2 y\<rparr>) =
   Inr \<lparr>RequestCancelActivityTaskFailedEventAttributes.ActivityId = (case x of None \<Rightarrow> a0 | Some y \<Rightarrow>
       b0 y), RequestCancelActivityTaskFailedEventAttributes.Cause = (case x of None \<Rightarrow> a1 | Some y \<Rightarrow>
       b1 y), RequestCancelActivityTaskFailedEventAttributes.DecisionTaskCompletedEventId = (case x
       of None \<Rightarrow> a2 | Some y \<Rightarrow> b2 y)\<rparr>"
  by (cases x) simp_all

interpretation RequestCancelActivityTaskFailedEventAttributes: thrift_message W
  "RequestCancelActivityTaskFailedEventAttributes_ToWire W"
      "RequestCancelActivityTaskFailedEventAttributes_FromWire W"
      RequestCancelActivityTaskFailedEventAttributes_zero "\<lambda>_. True" for W
proof (rule thrift_messageI)
  fix x :: RequestCancelActivityTaskFailedEventAttributes
  assume laws: "wire_laws W"
  show "\<exists>w. RequestCancelActivityTaskFailedEventAttributes_ToWire W x = Inr w \<and> wire_api.Type W w =
      TStruct \<and>
      (Writable W w \<longleftrightarrow> (\<lambda>_. True) x) \<and> ((\<lambda>_. True) x \<longrightarrow>
          RequestCancelActivityTaskFailedEventAttributes_FromWire W w
          RequestCancelActivityTaskFailedEventAttributes_zero = Inr x)"
    by (cases x) (simp cong: option.case_cong add: codec_rules
        RequestCancelActivityTaskFailedEventAttributes_merge
        RequestCancelActivityTaskFailedEventAttributes_ToWire_def
        RequestCancelActivityTaskFailedEventAttributes_FromWire_def
        RequestCancelActivityTaskFailedEventAttributes_zero_def laws)
qed

definition RequestCancelActivityTaskFailedEventAttributes_Equals ::
  "RequestCancelActivityTaskFailedEventAttributes option \<Rightarrow>
      RequestCancelActivityTaskFailedEventAttributes option \<Rightarrow> bool" where
  "RequestCancelActivityTaskFailedEventAttributes_Equals v rhs =
     (case v of None \<Rightarrow> rhs = None
      | Some v \<Rightarrow> (case rhs of None \<Rightarrow> False
        | Some rhs \<Rightarrow>
          if \<not> String_EqualsPtr (RequestCancelActivityTaskFailedEventAttributes.ActivityId v)
              (RequestCancelActivityTaskFailedEventAttributes.ActivityId rhs) then False else
          if \<not> String_EqualsPtr (RequestCancelActivityTaskFailedEventAttributes.Cause v)
              (RequestCancelActivityTaskFailedEventAttributes.Cause rhs) then False else
          if \<not> I64_EqualsPtr
              (RequestCancelActivityTaskFailedEventAttributes.DecisionTaskCompletedEventId v)
              (RequestCancelActivityTaskFailedEventAttributes.DecisionTaskCompletedEventId rhs) then
              False else
          True))"

lemma RequestCancelActivityTaskFailedEventAttributes_Equals_iff [simp]:
    "RequestCancelActivityTaskFailedEventAttributes_Equals x y \<longleftrightarrow> x = y"
  by (cases x; cases y) (auto simp: RequestCancelActivityTaskFailedEventAttributes_Equals_def)

record TimerCanceledEventAttributes =
  TimerId :: "string option"
  StartedEventId :: "64 word option"
  DecisionTaskCompletedEventId :: "64 word option"
  Identity :: "string option"

definition TimerCanceledEventAttributes_zero :: TimerCanceledEventAttributes where
  "TimerCanceledEventAttributes_zero = \<lparr>TimerCanceledEventAttributes.TimerId = None,
      TimerCanceledEventAttributes.StartedEventId = None,
      TimerCanceledEventAttributes.DecisionTaskCompletedEventId = None,
      TimerCanceledEventAttributes.Identity = None\<rparr>"

definition TimerCanceledEventAttributes_ToWire ::
  "'v wire_api \<Rightarrow> TimerCanceledEventAttributes \<Rightarrow> go_error + 'v" where
  "TimerCanceledEventAttributes_ToWire W v =
     and_then (put_opt 10 (\<lambda>x. Inr (NewValueString W x)) (TimerCanceledEventAttributes.TimerId v)
         [])
       (\<lambda>fields.
     and_then (put_opt 20 (\<lambda>x. Inr (NewValueI64 W x)) (TimerCanceledEventAttributes.StartedEventId
         v) fields)
       (\<lambda>fields.
     and_then (put_opt 30 (\<lambda>x. Inr (NewValueI64 W x))
         (TimerCanceledEventAttributes.DecisionTaskCompletedEventId v) fields)
       (\<lambda>fields.
     and_then (put_opt 40 (\<lambda>x. Inr (NewValueString W x)) (TimerCanceledEventAttributes.Identity v)
         fields)
       (\<lambda>fields.
     Inr (NewValueStruct W fields)))))"

definition TimerCanceledEventAttributes_FromWire ::
  "'v wire_api \<Rightarrow> 'v \<Rightarrow> TimerCanceledEventAttributes \<Rightarrow> go_error + TimerCanceledEventAttributes" where
  "TimerCanceledEventAttributes_FromWire W w v =
     foldM (\<lambda>v (fid, fval).
       if fid = 10 then
         if wire_api.Type W fval = TBinary
         then Inr (v\<lparr>TimerCanceledEventAttributes.TimerId := Some (GetString W fval)\<rparr>)
         else Inr v
       else if fid = 20 then
         if wire_api.Type W fval = TI64
         then Inr (v\<lparr>TimerCanceledEventAttributes.StartedEventId := Some (GetI64 W fval)\<rparr>)
         else Inr v
       else if fid = 30 then
         if wire_api.Type W fval = TI64
         then Inr (v\<lparr>TimerCanceledEventAttributes.DecisionTaskCompletedEventId := Some (GetI64 W
             fval)\<rparr>)
         else Inr v
       else if fid = 40 then
         if wire_api.Type W fval = TBinary
         then Inr (v\<lparr>TimerCanceledEventAttributes.Identity := Some (GetString W fval)\<rparr>)
         else Inr v
       else Inr v) (GetStruct W w) v"

definition TimerCanceledEventAttributes_Read :: "'v wire_api \<Rightarrow> 'v \<Rightarrow> go_error +
    TimerCanceledEventAttributes" where
  "TimerCanceledEventAttributes_Read W w = TimerCanceledEventAttributes_FromWire W w
      TimerCanceledEventAttributes_zero"

lemma TimerCanceledEventAttributes_merge:
  "(case x of None \<Rightarrow> Inr \<lparr>TimerCanceledEventAttributes.TimerId = a0,
      TimerCanceledEventAttributes.StartedEventId = a1,
      TimerCanceledEventAttributes.DecisionTaskCompletedEventId = a2,
      TimerCanceledEventAttributes.Identity = a3\<rparr> | Some y \<Rightarrow> Inr
      \<lparr>TimerCanceledEventAttributes.TimerId = b0 y, TimerCanceledEventAttributes.StartedEventId = b1
      y, TimerCanceledEventAttributes.DecisionTaskCompletedEventId = b2 y,
      TimerCanceledEventAttributes.Identity = b3 y\<rparr>) =
   Inr \<lparr>TimerCanceledEventAttributes.TimerId = (case x of None \<Rightarrow> a0 | Some y \<Rightarrow> b0 y),
       TimerCanceledEventAttributes.StartedEventId = (case x of None \<Rightarrow> a1 | Some y \<Rightarrow> b1 y),
       TimerCanceledEventAttributes.DecisionTaskCompletedEventId = (case x of None \<Rightarrow> a2 | Some y \<Rightarrow>
       b2 y), TimerCanceledEventAttributes.Identity = (case x of None \<Rightarrow> a3 | Some y \<Rightarrow> b3 y)\<rparr>"
  by (cases x) simp_all

interpretation TimerCanceledEventAttributes: thrift_message W
  "TimerCanceledEventAttributes_ToWire W" "TimerCanceledEventAttributes_FromWire W"
      TimerCanceledEventAttributes_zero "\<lambda>_. True" for W
proof (rule thrift_messageI)
  fix x :: TimerCanceledEventAttributes
  assume laws: "wire_laws W"
  show "\<exists>w. TimerCanceledEventAttributes_ToWire W x = Inr w \<and> wire_api.Type W w = TStruct \<and>
      (Writable W w \<longleftrightarrow> (\<lambda>_. True) x) \<and> ((\<lambda>_. True) x \<longrightarrow> TimerCanceledEventAttributes_FromWire W w
          TimerCanceledEventAttributes_zero = Inr x)"
    by (cases x) (simp cong: option.case_cong add: codec_rules TimerCanceledEventAttributes_merge
        TimerCanceledEventAttributes_ToWire_def TimerCanceledEventAttributes_FromWire_def
        TimerCanceledEventAttributes_zero_def laws)
qed

definition TimerCanceledEventAttributes_Equals ::
  "TimerCanceledEventAttributes option \<Rightarrow> TimerCanceledEventAttributes option \<Rightarrow> bool" where
  "TimerCanceledEventAttributes_Equals v rhs =
     (case v of None \<Rightarrow> rhs = None
      | Some v \<Rightarrow> (case rhs of None \<Rightarrow> False
        | Some rhs \<Rightarrow>
          if \<not> String_EqualsPtr (TimerCanceledEventAttributes.TimerId v)
              (TimerCanceledEventAttributes.TimerId rhs) then False else
          if \<not> I64_EqualsPtr (TimerCanceledEventAttributes.StartedEventId v)
              (TimerCanceledEventAttributes.StartedEventId rhs) then False else
          if \<not> I64_EqualsPtr (TimerCanceledEventAttributes.DecisionTaskCompletedEventId v)
              (TimerCanceledEventAttributes.DecisionTaskCompletedEventId rhs) then False else
          if \<not> String_EqualsPtr (TimerCanceledEventAttributes.Identity v)
              (TimerCanceledEventAttributes.Identity rhs) then False else
          True))"

lemma TimerCanceledEventAttributes_Equals_iff [simp]: "TimerCanceledEventAttributes_Equals x y \<longleftrightarrow> x =
    y"
  by (cases x; cases y) (auto simp: TimerCanceledEventAttributes_Equals_def)

record TimerFiredEventAttributes =
  TimerId :: "string option"
  StartedEventId :: "64 word option"

definition TimerFiredEventAttributes_zero :: TimerFiredEventAttributes where
  "TimerFiredEventAttributes_zero = \<lparr>TimerFiredEventAttributes.TimerId = None,
      TimerFiredEventAttributes.StartedEventId = None\<rparr>"

definition TimerFiredEventAttributes_ToWire ::
  "'v wire_api \<Rightarrow> TimerFiredEventAttributes \<Rightarrow> go_error + 'v" where
  "TimerFiredEventAttributes_ToWire W v =
     and_then (put_opt 10 (\<lambda>x. Inr (NewValueString W x)) (TimerFiredEventAttributes.TimerId v) [])
       (\<lambda>fields.
     and_then (put_opt 20 (\<lambda>x. Inr (NewValueI64 W x)) (TimerFiredEventAttributes.StartedEventId v)
         fields)
       (\<lambda>fields.
     Inr (NewValueStruct W fields)))"

definition TimerFiredEventAttributes_FromWire ::
  "'v wire_api \<Rightarrow> 'v \<Rightarrow> TimerFiredEventAttributes \<Rightarrow> go_error + TimerFiredEventAttributes" where
  "TimerFiredEventAttributes_FromWire W w v =
     foldM (\<lambda>v (fid, fval).
       if fid = 10 then
         if wire_api.Type W fval = TBinary
         then Inr (v\<lparr>TimerFiredEventAttributes.TimerId := Some (GetString W fval)\<rparr>)
         else Inr v
       else if fid = 20 then
         if wire_api.Type W fval = TI64
         then Inr (v\<lparr>TimerFiredEventAttributes.StartedEventId := Some (GetI64 W fval)\<rparr>)
         else Inr v
       else Inr v) (GetStruct W w) v"

definition TimerFiredEventAttributes_Read :: "'v wire_api \<Rightarrow> 'v \<Rightarrow> go_error +
    TimerFiredEventAttributes" where
  "TimerFiredEventAttributes_Read W w = TimerFiredEventAttributes_FromWire W w
      TimerFiredEventAttributes_zero"

lemma TimerFiredEventAttributes_merge:
  "(case x of None \<Rightarrow> Inr \<lparr>TimerFiredEventAttributes.TimerId = a0,
      TimerFiredEventAttributes.StartedEventId = a1\<rparr> | Some y \<Rightarrow> Inr
      \<lparr>TimerFiredEventAttributes.TimerId = b0 y, TimerFiredEventAttributes.StartedEventId = b1 y\<rparr>) =
   Inr \<lparr>TimerFiredEventAttributes.TimerId = (case x of None \<Rightarrow> a0 | Some y \<Rightarrow> b0 y),
       TimerFiredEventAttributes.StartedEventId = (case x of None \<Rightarrow> a1 | Some y \<Rightarrow> b1 y)\<rparr>"
  by (cases x) simp_all

interpretation TimerFiredEventAttributes: thrift_message W
  "TimerFiredEventAttributes_ToWire W" "TimerFiredEventAttributes_FromWire W"
      TimerFiredEventAttributes_zero "\<lambda>_. True" for W
proof (rule thrift_messageI)
  fix x :: TimerFiredEventAttributes
  assume laws: "wire_laws W"
  show "\<exists>w. TimerFiredEventAttributes_ToWire W x = Inr w \<and> wire_api.Type W w = TStruct \<and>
      (Writable W w \<longleftrightarrow> (\<lambda>_. True) x) \<and> ((\<lambda>_. True) x \<longrightarrow> TimerFiredEventAttributes_FromWire W w
          TimerFiredEventAttributes_zero = Inr x)"
    by (cases x) (simp cong: option.case_cong add: codec_rules TimerFiredEventAttributes_merge
        TimerFiredEventAttributes_ToWire_def TimerFiredEventAttributes_FromWire_def
        TimerFiredEventAttributes_zero_def laws)
qed

definition TimerFiredEventAttributes_Equals ::
  "TimerFiredEventAttributes option \<Rightarrow> TimerFiredEventAttributes option \<Rightarrow> bool" where
  "TimerFiredEventAttributes_Equals v rhs =
     (case v of None \<Rightarrow> rhs = None
      | Some v \<Rightarrow> (case rhs of None \<Rightarrow> False
        | Some rhs \<Rightarrow>
          if \<not> String_EqualsPtr (TimerFiredEventAttributes.TimerId v)
              (TimerFiredEventAttributes.TimerId rhs) then False else
          if \<not> I64_EqualsPtr (TimerFiredEventAttributes.StartedEventId v)
              (TimerFiredEventAttributes.StartedEventId rhs) then False else
          True))"

lemma TimerFiredEventAttributes_Equals_iff [simp]: "TimerFiredEventAttributes_Equals x y \<longleftrightarrow> x = y"
  by (cases x; cases y) (auto simp: TimerFiredEventAttributes_Equals_def)

record TimerStartedEventAttributes =
  TimerId :: "string option"
  StartToFireTimeoutSeconds :: "64 word option"
  DecisionTaskCompletedEventId :: "64 word option"

definition TimerStartedEventAttributes_zero :: TimerStartedEventAttributes where
  "TimerStartedEventAttributes_zero = \<lparr>TimerStartedEventAttributes.TimerId = None,
      TimerStartedEventAttributes.StartToFireTimeoutSeconds = None,
      TimerStartedEventAttributes.DecisionTaskCompletedEventId = None\<rparr>"

definition TimerStartedEventAttributes_ToWire ::
  "'v wire_api \<Rightarrow> TimerStartedEventAttributes \<Rightarrow> go_error + 'v" where
  "TimerStartedEventAttributes_ToWire W v =
     and_then (put_opt 10 (\<lambda>x. Inr (NewValueString W x)) (TimerStartedEventAttributes.TimerId v) [])
       (\<lambda>fields.
     and_then (put_opt 20 (\<lambda>x. Inr (NewValueI64 W x))
         (TimerStartedEventAttributes.StartToFireTimeoutSeconds v) fields)
       (\<lambda>fields.
     and_then (put_opt 30 (\<lambda>x. Inr (NewValueI64 W x))
         (TimerStartedEventAttributes.DecisionTaskCompletedEventId v) fields)
       (\<lambda>fields.
     Inr (NewValueStruct W fields))))"

definition TimerStartedEventAttributes_FromWire ::
  "'v wire_api \<Rightarrow> 'v \<Rightarrow> TimerStartedEventAttributes \<Rightarrow> go_error + TimerStartedEventAttributes" where
  "TimerStartedEventAttributes_FromWire W w v =
     foldM (\<lambda>v (fid, fval).
       if fid = 10 then
         if wire_api.Type W fval = TBinary
         then Inr (v\<lparr>TimerStartedEventAttributes.TimerId := Some (GetString W fval)\<rparr>)
         else Inr v
       else if fid = 20 then
         if wire_api.Type W fval = TI64
         then Inr (v\<lparr>TimerStartedEventAttributes.StartToFireTimeoutSeconds := Some (GetI64 W fval)\<rparr>)
         else Inr v
       else if fid = 30 then
         if wire_api.Type W fval = TI64
         then Inr (v\<lparr>TimerStartedEventAttributes.DecisionTaskCompletedEventId := Some (GetI64 W
             fval)\<rparr>)
         else Inr v
       else Inr v) (GetStruct W w) v"

definition TimerStartedEventAttributes_Read :: "'v wire_api \<Rightarrow> 'v \<Rightarrow> go_error +
    TimerStartedEventAttributes" where
  "TimerStartedEventAttributes_Read W w = TimerStartedEventAttributes_FromWire W w
      TimerStartedEventAttributes_zero"

lemma TimerStartedEventAttributes_merge:
  "(case x of None \<Rightarrow> Inr \<lparr>TimerStartedEventAttributes.TimerId = a0,
      TimerStartedEventAttributes.StartToFireTimeoutSeconds = a1,
      TimerStartedEventAttributes.DecisionTaskCompletedEventId = a2\<rparr> | Some y \<Rightarrow> Inr
      \<lparr>TimerStartedEventAttributes.TimerId = b0 y,
      TimerStartedEventAttributes.StartToFireTimeoutSeconds = b1 y,
      TimerStartedEventAttributes.DecisionTaskCompletedEventId = b2 y\<rparr>) =
   Inr \<lparr>TimerStartedEventAttributes.TimerId = (case x of None \<Rightarrow> a0 | Some y \<Rightarrow> b0 y),
       TimerStartedEventAttributes.StartToFireTimeoutSeconds = (case x of None \<Rightarrow> a1 | Some y \<Rightarrow> b1
       y), TimerStartedEventAttributes.DecisionTaskCompletedEventId = (case x of None \<Rightarrow> a2 | Some y
       \<Rightarrow> b2 y)\<rparr>"
  by (cases x) simp_all

interpretation TimerStartedEventAttributes: thrift_message W
  "TimerStartedEventAttributes_ToWire W" "TimerStartedEventAttributes_FromWire W"
      TimerStartedEventAttributes_zero "\<lambda>_. True" for W
proof (rule thrift_messageI)
  fix x :: TimerStartedEventAttributes
  assume laws: "wire_laws W"
  show "\<exists>w. TimerStartedEventAttributes_ToWire W x = Inr w \<and> wire_api.Type W w = TStruct \<and>
      (Writable W w \<longleftrightarrow> (\<lambda>_. True) x) \<and> ((\<lambda>_. True) x \<longrightarrow> TimerStartedEventAttributes_FromWire W w
          TimerStartedEventAttributes_zero = Inr x)"
    by (cases x) (simp cong: option.case_cong add: codec_rules TimerStartedEventAttributes_merge
        TimerStartedEventAttributes_ToWire_def TimerStartedEventAttributes_FromWire_def
        TimerStartedEventAttributes_zero_def laws)
qed

definition TimerStartedEventAttributes_Equals ::
  "TimerStartedEventAttributes option \<Rightarrow> TimerStartedEventAttributes option \<Rightarrow> bool" where
  "TimerStartedEventAttributes_Equals v rhs =
     (case v of None \<Rightarrow> rhs = None
      | Some v \<Rightarrow> (case rhs of None \<Rightarrow> False
        | Some rhs \<Rightarrow>
          if \<not> String_EqualsPtr (TimerStartedEventAttributes.TimerId v)
              (TimerStartedEventAttributes.TimerId rhs) then False else
          if \<not> I64_EqualsPtr (TimerStartedEventAttributes.StartToFireTimeoutSeconds v)
              (TimerStartedEventAttributes.StartToFireTimeoutSeconds rhs) then False else
          if \<not> I64_EqualsPtr (TimerStartedEventAttributes.DecisionTaskCompletedEventId v)
              (TimerStartedEventAttributes.DecisionTaskCompletedEventId rhs) then False else
          True))"

lemma TimerStartedEventAttributes_Equals_iff [simp]: "TimerStartedEventAttributes_Equals x y \<longleftrightarrow> x =
    y"
  by (cases x; cases y) (auto simp: TimerStartedEventAttributes_Equals_def)

end
