(* ===== verification/GoEvents.thy ===== *)
theory GoEvents
  imports GoTypes
begin

text \<open>
  The attributes of the events about workflows, child workflows and external workflows
  (proxy/gen/shared/shared.go), with their codecs and comparisons.
\<close>

record ChildWorkflowExecutionCanceledEventAttributes =
  Details :: "bytes option"
  Domain :: "string option"
  WorkflowExecution :: "WorkflowExecution option"
  WorkflowType :: "WorkflowType option"
  InitiatedEventId :: "64 word option"
  StartedEventId :: "64 word option"

definition ChildWorkflowExecutionCanceledEventAttributes_zero ::
    ChildWorkflowExecutionCanceledEventAttributes where
  "ChildWorkflowExecutionCanceledEventAttributes_zero =
      \<lparr>ChildWorkflowExecutionCanceledEventAttributes.Details = None,
      ChildWorkflowExecutionCanceledEventAttributes.Domain = None,
      ChildWorkflowExecutionCanceledEventAttributes.WorkflowExecution = None,
      ChildWorkflowExecutionCanceledEventAttributes.WorkflowType = None,
      ChildWorkflowExecutionCanceledEventAttributes.InitiatedEventId = None,
      ChildWorkflowExecutionCanceledEventAttributes.StartedEventId = None\<rparr>"

definition ChildWorkflowExecutionCanceledEventAttributes_ToWire ::
  "'v wire_api \<Rightarrow> ChildWorkflowExecutionCanceledEventAttributes \<Rightarrow> go_error + 'v" where
  "ChildWorkflowExecutionCanceledEventAttributes_ToWire W v =
     and_then (put_opt 10 (\<lambda>x. Inr (NewValueBinary W x))
         (ChildWorkflowExecutionCanceledEventAttributes.Details v) [])
       (\<lambda>fields.
     and_then (put_opt 20 (\<lambda>x. Inr (NewValueString W x))
         (ChildWorkflowExecutionCanceledEventAttributes.Domain v) fields)
       (\<lambda>fields.
     and_then (put_opt 30 (WorkflowExecution_ToWire W)
         (ChildWorkflowExecutionCanceledEventAttributes.WorkflowExecution v) fields)
       (\<lambda>fields.
     and_then (put_opt 40 (WorkflowType_ToWire W)
         (ChildWorkflowExecutionCanceledEventAttributes.WorkflowType v) fields)
       (\<lambda>fields.
     and_then (put_opt 50 (\<lambda>x. Inr (NewValueI64 W x))
         (ChildWorkflowExecutionCanceledEventAttributes.InitiatedEventId v) fields)
       (\<lambda>fields.
     and_then (put_opt 60 (\<lambda>x. Inr (NewValueI64 W x))
         (ChildWorkflowExecutionCanceledEventAttributes.StartedEventId v) fields)
       (\<lambda>fields.
     Inr (NewValueStruct W fields)))))))"

definition ChildWorkflowExecutionCanceledEventAttributes_FromWire ::
  "'v wire_api \<Rightarrow> 'v \<Rightarrow> ChildWorkflowExecutionCanceledEventAttributes \<Rightarrow> go_error +
      ChildWorkflowExecutionCanceledEventAttributes" where
  "ChildWorkflowExecutionCanceledEventAttributes_FromWire W w v =
     foldM (\<lambda>v (fid, fval).
       if fid = 10 then
         if wire_api.Type W fval = TBinary
         then Inr (v\<lparr>ChildWorkflowExecutionCanceledEventAttributes.Details := Some (GetBinary W
             fval)\<rparr>)
         else Inr v
       else if fid = 20 then
         if wire_api.Type W fval = TBinary
         then Inr (v\<lparr>ChildWorkflowExecutionCanceledEventAttributes.Domain := Some (GetString W
             fval)\<rparr>)
         else Inr v
       else if fid = 30 then
         if wire_api.Type W fval = TStruct
         then and_then (WorkflowExecution_Read W fval) (\<lambda>x. Inr
             (v\<lparr>ChildWorkflowExecutionCanceledEventAttributes.WorkflowExecution := Some x\<rparr>))
         else Inr v
       else if fid = 40 then
         if wire_api.Type W fval = TStruct
         then and_then (WorkflowType_Read W fval) (\<lambda>x. Inr
             (v\<lparr>ChildWorkflowExecutionCanceledEventAttributes.WorkflowType := Some x\<rparr>))
         else Inr v
       else if fid = 50 then
         if wire_api.Type W fval = TI64
         then Inr (v\<lparr>ChildWorkflowExecutionCanceledEventAttributes.InitiatedEventId := Some (GetI64
             W fval)\<rparr>)
         else Inr v
       else if fid = 60 then
         if wire_api.Type W fval = TI64
         then Inr (v\<lparr>ChildWorkflowExecutionCanceledEventAttributes.StartedEventId := Some (GetI64 W
             fval)\<rparr>)
         else Inr v
       else Inr v) (GetStruct W w) v"

definition ChildWorkflowExecutionCanceledEventAttributes_Read :: "'v wire_api \<Rightarrow> 'v \<Rightarrow> go_error +
    ChildWorkflowExecutionCanceledEventAttributes" where
  "ChildWorkflowExecutionCanceledEventAttributes_Read W w =
      ChildWorkflowExecutionCanceledEventAttributes_FromWire W w
      ChildWorkflowExecutionCanceledEventAttributes_zero"

lemma ChildWorkflowExecutionCanceledEventAttributes_merge:
  "(case x of None \<Rightarrow> Inr \<lparr>ChildWorkflowExecutionCanceledEventAttributes.Details = a0,
      ChildWorkflowExecutionCanceledEventAttributes.Domain = a1,
      ChildWorkflowExecutionCanceledEventAttributes.WorkflowExecution = a2,
      ChildWorkflowExecutionCanceledEventAttributes.WorkflowType = a3,
      ChildWorkflowExecutionCanceledEventAttributes.InitiatedEventId = a4,
      ChildWorkflowExecutionCanceledEventAttributes.StartedEventId = a5\<rparr> | Some y \<Rightarrow> Inr
      \<lparr>ChildWorkflowExecutionCanceledEventAttributes.Details = b0 y,
      ChildWorkflowExecutionCanceledEventAttributes.Domain = b1 y,
      ChildWorkflowExecutionCanceledEventAttributes.WorkflowExecution = b2 y,
      ChildWorkflowExecutionCanceledEventAttributes.WorkflowType = b3 y,
      ChildWorkflowExecutionCanceledEventAttributes.InitiatedEventId = b4 y,
      ChildWorkflowExecutionCanceledEventAttributes.StartedEventId = b5 y\<rparr>) =
   Inr \<lparr>ChildWorkflowExecutionCanceledEventAttributes.Details = (case x of None \<Rightarrow> a0 | Some y \<Rightarrow> b0
       y), ChildWorkflowExecutionCanceledEventAttributes.Domain = (case x of None \<Rightarrow> a1 | Some y \<Rightarrow> b1
       y), ChildWorkflowExecutionCanceledEventAttributes.WorkflowExecution = (case x of None \<Rightarrow> a2 |
       Some y \<Rightarrow> b2 y), ChildWorkflowExecutionCanceledEventAttributes.WorkflowType = (case x of None
       \<Rightarrow> a3 | Some y \<Rightarrow> b3 y), ChildWorkflowExecutionCanceledEventAttributes.InitiatedEventId = (case
       x of None \<Rightarrow> a4 | Some y \<Rightarrow> b4 y), ChildWorkflowExecutionCanceledEventAttributes.StartedEventId
       = (case x of None \<Rightarrow> a5 | Some y \<Rightarrow> b5 y)\<rparr>"
  by (cases x) simp_all

interpretation ChildWorkflowExecutionCanceledEventAttributes: thrift_message W
  "ChildWorkflowExecutionCanceledEventAttributes_ToWire W"
      "ChildWorkflowExecutionCanceledEventAttributes_FromWire W"
      ChildWorkflowExecutionCanceledEventAttributes_zero "\<lambda>_. True" for W
proof (rule thrift_messageI)
  fix x :: ChildWorkflowExecutionCanceledEventAttributes
  assume laws: "wire_laws W"
  obtain enc0 where e0: "WorkflowExecution_ToWire W = (\<lambda>x. Inr (enc0 x))"
      "\<And>x. wire_api.Type W (enc0 x) = TStruct"
      "\<And>x. Writable W (enc0 x) \<longleftrightarrow> (\<lambda>_. True) x"
      "\<And>x. (\<lambda>_. True) x \<Longrightarrow> WorkflowExecution_FromWire W (enc0 x) WorkflowExecution_zero = Inr x"
    by (rule WorkflowExecution.encoder [OF laws]) (rule that)
  obtain enc1 where e1: "WorkflowType_ToWire W = (\<lambda>x. Inr (enc1 x))"
      "\<And>x. wire_api.Type W (enc1 x) = TStruct"
      "\<And>x. Writable W (enc1 x) \<longleftrightarrow> (\<lambda>_. True) x"
      "\<And>x. (\<lambda>_. True) x \<Longrightarrow> WorkflowType_FromWire W (enc1 x) WorkflowType_zero = Inr x"
    by (rule WorkflowType.encoder [OF laws]) (rule that)
  show "\<exists>w. ChildWorkflowExecutionCanceledEventAttributes_ToWire W x = Inr w \<and> wire_api.Type W w =
      TStruct \<and>
      (Writable W w \<longleftrightarrow> (\<lambda>_. True) x) \<and> ((\<lambda>_. True) x \<longrightarrow>
          ChildWorkflowExecutionCanceledEventAttributes_FromWire W w
          ChildWorkflowExecutionCanceledEventAttributes_zero = Inr x)"
    by (cases x) (simp cong: option.case_cong add: codec_rules
        ChildWorkflowExecutionCanceledEventAttributes_merge
        ChildWorkflowExecutionCanceledEventAttributes_ToWire_def
        ChildWorkflowExecutionCanceledEventAttributes_FromWire_def
        ChildWorkflowExecutionCanceledEventAttributes_zero_def WorkflowExecution_Read_def
        WorkflowType_Read_def laws e0 e1)
qed

definition ChildWorkflowExecutionCanceledEventAttributes_Equals ::
  "ChildWorkflowExecutionCanceledEventAttributes option \<Rightarrow>
      ChildWorkflowExecutionCanceledEventAttributes option \<Rightarrow> bool" where
  "ChildWorkflowExecutionCanceledEventAttributes_Equals v rhs =
     (case v of None \<Rightarrow> rhs = None
      | Some v \<Rightarrow> (case rhs of None \<Rightarrow> False
        | Some rhs \<Rightarrow>
          if \<not> both_set_and (=) (ChildWorkflowExecutionCanceledEventAttributes.Details v)
              (ChildWorkflowExecutionCanceledEventAttributes.Details rhs) then False else
          if \<not> String_EqualsPtr (ChildWorkflowExecutionCanceledEventAttributes.Domain v)
              (ChildWorkflowExecutionCanceledEventAttributes.Domain rhs) then False else
          if \<not> both_set_and (\<lambda>x y. WorkflowExecution_Equals (Some x) (Some y))
              (ChildWorkflowExecutionCanceledEventAttributes.WorkflowExecution v)
              (ChildWorkflowExecutionCanceledEventAttributes.WorkflowExecution rhs) then False else
          if \<not> both_set_and (\<lambda>x y. WorkflowType_Equals (Some x) (Some y))
              (ChildWorkflowExecutionCanceledEventAttributes.WorkflowType v)
              (ChildWorkflowExecutionCanceledEventAttributes.WorkflowType rhs) then False else
          if \<not> I64_EqualsPtr (ChildWorkflowExecutionCanceledEventAttributes.InitiatedEventId v)
              (ChildWorkflowExecutionCanceledEventAttributes.InitiatedEventId rhs) then False else
          if \<not> I64_EqualsPtr (ChildWorkflowExecutionCanceledEventAttributes.StartedEventId v)
              (ChildWorkflowExecutionCanceledEventAttributes.StartedEventId rhs) then False else
          True))"

lemma ChildWorkflowExecutionCanceledEventAttributes_Equals_iff [simp]:
    "ChildWorkflowExecutionCanceledEventAttributes_Equals x y \<longleftrightarrow> x = y"
  by (cases x; cases y) (simp_all add: ChildWorkflowExecutionCanceledEventAttributes_Equals_def
      if_not_False, fastforce intro: ChildWorkflowExecutionCanceledEventAttributes.equality)

record ChildWorkflowExecutionCompletedEventAttributes =
  Result :: "bytes option"
  Domain :: "string option"
  WorkflowExecution :: "WorkflowExecution option"
  WorkflowType :: "WorkflowType option"
  InitiatedEventId :: "64 word option"
  StartedEventId :: "64 word option"

definition ChildWorkflowExecutionCompletedEventAttributes_zero ::
    ChildWorkflowExecutionCompletedEventAttributes where
  "ChildWorkflowExecutionCompletedEventAttributes_zero =
      \<lparr>ChildWorkflowExecutionCompletedEventAttributes.Result = None,
      ChildWorkflowExecutionCompletedEventAttributes.Domain = None,
      ChildWorkflowExecutionCompletedEventAttributes.WorkflowExecution = None,
      ChildWorkflowExecutionCompletedEventAttributes.WorkflowType = None,
      ChildWorkflowExecutionCompletedEventAttributes.InitiatedEventId = None,
      ChildWorkflowExecutionCompletedEventAttributes.StartedEventId = None\<rparr>"

definition ChildWorkflowExecutionCompletedEventAttributes_ToWire ::
  "'v wire_api \<Rightarrow> ChildWorkflowExecutionCompletedEventAttributes \<Rightarrow> go_error + 'v" where
  "ChildWorkflowExecutionCompletedEventAttributes_ToWire W v =
     and_then (put_opt 10 (\<lambda>x. Inr (NewValueBinary W x))
         (ChildWorkflowExecutionCompletedEventAttributes.Result v) [])
       (\<lambda>fields.
     and_then (put_opt 20 (\<lambda>x. Inr (NewValueString W x))
         (ChildWorkflowExecutionCompletedEventAttributes.Domain v) fields)
       (\<lambda>fields.
     and_then (put_opt 30 (WorkflowExecution_ToWire W)
         (ChildWorkflowExecutionCompletedEventAttributes.WorkflowExecution v) fields)
       (\<lambda>fields.
     and_then (put_opt 40 (WorkflowType_ToWire W)
         (ChildWorkflowExecutionCompletedEventAttributes.WorkflowType v) fields)
       (\<lambda>fields.
     and_then (put_opt 50 (\<lambda>x. Inr (NewValueI64 W x))
         (ChildWorkflowExecutionCompletedEventAttributes.InitiatedEventId v) fields)
       (\<lambda>fields.
     and_then (put_opt 60 (\<lambda>x. Inr (NewValueI64 W x))
         (ChildWorkflowExecutionCompletedEventAttributes.StartedEventId v) fields)
       (\<lambda>fields.
     Inr (NewValueStruct W fields)))))))"

definition ChildWorkflowExecutionCompletedEventAttributes_FromWire ::
  "'v wire_api \<Rightarrow> 'v \<Rightarrow> ChildWorkflowExecutionCompletedEventAttributes \<Rightarrow> go_error +
      ChildWorkflowExecutionCompletedEventAttributes" where
  "ChildWorkflowExecutionCompletedEventAttributes_FromWire W w v =
     foldM (\<lambda>v (fid, fval).
       if fid = 10 then
         if wire_api.Type W fval = TBinary
         then Inr (v\<lparr>ChildWorkflowExecutionCompletedEventAttributes.Result := Some (GetBinary W
             fval)\<rparr>)
         else Inr v
       else if fid = 20 then
         if wire_api.Type W fval = TBinary
         then Inr (v\<lparr>ChildWorkflowExecutionCompletedEventAttributes.Domain := Some (GetString W
             fval)\<rparr>)
         else Inr v
       else if fid = 30 then
         if wire_api.Type W fval = TStruct
         then and_then (WorkflowExecution_Read W fval) (\<lambda>x. Inr
             (v\<lparr>ChildWorkflowExecutionCompletedEventAttributes.WorkflowExecution := Some x\<rparr>))
         else Inr v
       else if fid = 40 then
         if wire_api.Type W fval = TStruct
         then and_then (WorkflowType_Read W fval) (\<lambda>x. Inr
             (v\<lparr>ChildWorkflowExecutionCompletedEventAttributes.WorkflowType := Some x\<rparr>))
         else Inr v
       else if fid = 50 then
         if wire_api.Type W fval = TI64
         then Inr (v\<lparr>ChildWorkflowExecutionCompletedEventAttributes.InitiatedEventId := Some (GetI64
             W fval)\<rparr>)
         else Inr v
       else if fid = 60 then
         if wire_api.Type W fval = TI64
         then Inr (v\<lparr>ChildWorkflowExecutionCompletedEventAttributes.StartedEventId := Some (GetI64 W
             fval)\<rparr>)
         else Inr v
       else Inr v) (GetStruct W w) v"

definition ChildWorkflowExecutionCompletedEventAttributes_Read :: "'v wire_api \<Rightarrow> 'v \<Rightarrow> go_error +
    ChildWorkflowExecutionCompletedEventAttributes" where
  "ChildWorkflowExecutionCompletedEventAttributes_Read W w =
      ChildWorkflowExecutionCompletedEventAttributes_FromWire W w
      ChildWorkflowExecutionCompletedEventAttributes_zero"

lemma ChildWorkflowExecutionCompletedEventAttributes_merge:
  "(case x of None \<Rightarrow> Inr \<lparr>ChildWorkflowExecutionCompletedEventAttributes.Result = a0,
      ChildWorkflowExecutionCompletedEventAttributes.Domain = a1,
      ChildWorkflowExecutionCompletedEventAttributes.WorkflowExecution = a2,
      ChildWorkflowExecutionCompletedEventAttributes.WorkflowType = a3,
      ChildWorkflowExecutionCompletedEventAttributes.InitiatedEventId = a4,
      ChildWorkflowExecutionCompletedEventAttributes.StartedEventId = a5\<rparr> | Some y \<Rightarrow> Inr
      \<lparr>ChildWorkflowExecutionCompletedEventAttributes.Result = b0 y,
      ChildWorkflowExecutionCompletedEventAttributes.Domain = b1 y,
      ChildWorkflowExecutionCompletedEventAttributes.WorkflowExecution = b2 y,
      ChildWorkflowExecutionCompletedEventAttributes.WorkflowType = b3 y,
      ChildWorkflowExecutionCompletedEventAttributes.InitiatedEventId = b4 y,
      ChildWorkflowExecutionCompletedEventAttributes.StartedEventId = b5 y\<rparr>) =
   Inr \<lparr>ChildWorkflowExecutionCompletedEventAttributes.Result = (case x of None \<Rightarrow> a0 | Some y \<Rightarrow> b0
       y), ChildWorkflowExecutionCompletedEventAttributes.Domain = (case x of None \<Rightarrow> a1 | Some y \<Rightarrow>
       b1 y), ChildWorkflowExecutionCompletedEventAttributes.WorkflowExecution = (case x of None \<Rightarrow>
       a2 | Some y \<Rightarrow> b2 y), ChildWorkflowExecutionCompletedEventAttributes.WorkflowType = (case x of
       None \<Rightarrow> a3 | Some y \<Rightarrow> b3 y), ChildWorkflowExecutionCompletedEventAttributes.InitiatedEventId =
       (case x of None \<Rightarrow> a4 | Some y \<Rightarrow> b4 y),
       ChildWorkflowExecutionCompletedEventAttributes.StartedEventId = (case x of None \<Rightarrow> a5 | Some y
       \<Rightarrow> b5 y)\<rparr>"
  by (cases x) simp_all

interpretation ChildWorkflowExecutionCompletedEventAttributes: thrift_message W
  "ChildWorkflowExecutionCompletedEventAttributes_ToWire W"
      "ChildWorkflowExecutionCompletedEventAttributes_FromWire W"
      ChildWorkflowExecutionCompletedEventAttributes_zero "\<lambda>_. True" for W
proof (rule thrift_messageI)
  fix x :: ChildWorkflowExecutionCompletedEventAttributes
  assume laws: "wire_laws W"
  obtain enc0 where e0: "WorkflowExecution_ToWire W = (\<lambda>x. Inr (enc0 x))"
      "\<And>x. wire_api.Type W (enc0 x) = TStruct"
      "\<And>x. Writable W (enc0 x) \<longleftrightarrow> (\<lambda>_. True) x"
      "\<And>x. (\<lambda>_. True) x \<Longrightarrow> WorkflowExecution_FromWire W (enc0 x) WorkflowExecution_zero = Inr x"
    by (rule WorkflowExecution.encoder [OF laws]) (rule that)
  obtain enc1 where e1: "WorkflowType_ToWire W = (\<lambda>x. Inr (enc1 x))"
      "\<And>x. wire_api.Type W (enc1 x) = TStruct"
      "\<And>x. Writable W (enc1 x) \<longleftrightarrow> (\<lambda>_. True) x"
      "\<And>x. (\<lambda>_. True) x \<Longrightarrow> WorkflowType_FromWire W (enc1 x) WorkflowType_zero = Inr x"
    by (rule WorkflowType.encoder [OF laws]) (rule that)
  show "\<exists>w. ChildWorkflowExecutionCompletedEventAttributes_ToWire W x = Inr w \<and> wire_api.Type W w =
      TStruct \<and>
      (Writable W w \<longleftrightarrow> (\<lambda>_. True) x) \<and> ((\<lambda>_. True) x \<longrightarrow>
          ChildWorkflowExecutionCompletedEventAttributes_FromWire W w
          ChildWorkflowExecutionCompletedEventAttributes_zero = Inr x)"
    by (cases x) (simp cong: option.case_cong add: codec_rules
        ChildWorkflowExecutionCompletedEventAttributes_merge
        ChildWorkflowExecutionCompletedEventAttributes_ToWire_def
        ChildWorkflowExecutionCompletedEventAttributes_FromWire_def
        ChildWorkflowExecutionCompletedEventAttributes_zero_def WorkflowExecution_Read_def
        WorkflowType_Read_def laws e0 e1)
qed

definition ChildWorkflowExecutionCompletedEventAttributes_Equals ::
  "ChildWorkflowExecutionCompletedEventAttributes option \<Rightarrow>
      ChildWorkflowExecutionCompletedEventAttributes option \<Rightarrow> bool" where
  "ChildWorkflowExecutionCompletedEventAttributes_Equals v rhs =
     (case v of None \<Rightarrow> rhs = None
      | Some v \<Rightarrow> (case rhs of None \<Rightarrow> False
        | Some rhs \<Rightarrow>
          if \<not> both_set_and (=) (ChildWorkflowExecutionCompletedEventAttributes.Result v)
              (ChildWorkflowExecutionCompletedEventAttributes.Result rhs) then False else
          if \<not> String_EqualsPtr (ChildWorkflowExecutionCompletedEventAttributes.Domain v)
              (ChildWorkflowExecutionCompletedEventAttributes.Domain rhs) then False else
          if \<not> both_set_and (\<lambda>x y. WorkflowExecution_Equals (Some x) (Some y))
              (ChildWorkflowExecutionCompletedEventAttributes.WorkflowExecution v)
              (ChildWorkflowExecutionCompletedEventAttributes.WorkflowExecution rhs) then False else
          if \<not> both_set_and (\<lambda>x y. WorkflowType_Equals (Some x) (Some y))
              (ChildWorkflowExecutionCompletedEventAttributes.WorkflowType v)
              (ChildWorkflowExecutionCompletedEventAttributes.WorkflowType rhs) then False else
          if \<not> I64_EqualsPtr (ChildWorkflowExecutionCompletedEventAttributes.InitiatedEventId v)
              (ChildWorkflowExecutionCompletedEventAttributes.InitiatedEventId rhs) then False else
          if \<not> I64_EqualsPtr (ChildWorkflowExecutionCompletedEventAttributes.StartedEventId v)
              (ChildWorkflowExecutionCompletedEventAttributes.StartedEventId rhs) then False else
          True))"

lemma ChildWorkflowExecutionCompletedEventAttributes_Equals_iff [simp]:
    "ChildWorkflowExecutionCompletedEventAttributes_Equals x y \<longleftrightarrow> x = y"
  by (cases x; cases y) (simp_all add: ChildWorkflowExecutionCompletedEventAttributes_Equals_def
      if_not_False, fastforce intro: ChildWorkflowExecutionCompletedEventAttributes.equality)

record ChildWorkflowExecutionFailedEventAttributes =
  Reason :: "string option"
  Details :: "bytes option"
  Domain :: "string option"
  WorkflowExecution :: "WorkflowExecution option"
  WorkflowType :: "WorkflowType option"
  InitiatedEventId :: "64 word option"
  StartedEventId :: "64 word option"

definition ChildWorkflowExecutionFailedEventAttributes_zero ::
    ChildWorkflowExecutionFailedEventAttributes where
  "ChildWorkflowExecutionFailedEventAttributes_zero =
      \<lparr>ChildWorkflowExecutionFailedEventAttributes.Reason = None,
      ChildWorkflowExecutionFailedEventAttributes.Details = None,
      ChildWorkflowExecutionFailedEventAttributes.Domain = None,
      ChildWorkflowExecutionFailedEventAttributes.WorkflowExecution = None,
      ChildWorkflowExecutionFailedEventAttributes.WorkflowType = None,
      ChildWorkflowExecutionFailedEventAttributes.InitiatedEventId = None,
      ChildWorkflowExecutionFailedEventAttributes.StartedEventId = None\<rparr>"

definition ChildWorkflowExecutionFailedEventAttributes_ToWire ::
  "'v wire_api \<Rightarrow> ChildWorkflowExecutionFailedEventAttributes \<Rightarrow> go_error + 'v" where
  "ChildWorkflowExecutionFailedEventAttributes_ToWire W v =
     and_then (put_opt 10 (\<lambda>x. Inr (NewValueString W x))
         (ChildWorkflowExecutionFailedEventAttributes.Reason v) [])
       (\<lambda>fields.
     and_then (put_opt 20 (\<lambda>x. Inr (NewValueBinary W x))
         (ChildWorkflowExecutionFailedEventAttributes.Details v) fields)
       (\<lambda>fields.
     and_then (put_opt 30 (\<lambda>x. Inr (NewValueString W x))
         (ChildWorkflowExecutionFailedEventAttributes.Domain v) fields)
       (\<lambda>fields.
     and_then (put_opt 40 (WorkflowExecution_ToWire W)
         (ChildWorkflowExecutionFailedEventAttributes.WorkflowExecution v) fields)
       (\<lambda>fields.
     and_then (put_opt 50 (WorkflowType_ToWire W)
         (ChildWorkflowExecutionFailedEventAttributes.WorkflowType v) fields)
       (\<lambda>fields.
     and_then (put_opt 60 (\<lambda>x. Inr (NewValueI64 W x))
         (ChildWorkflowExecutionFailedEventAttributes.InitiatedEventId v) fields)
       (\<lambda>fields.
     and_then (put_opt 70 (\<lambda>x. Inr (NewValueI64 W x))
         (ChildWorkflowExecutionFailedEventAttributes.StartedEventId v) fields)
       (\<lambda>fields.
     Inr (NewValueStruct W fields))))))))"

definition ChildWorkflowExecutionFailedEventAttributes_FromWire ::
  "'v wire_api \<Rightarrow> 'v \<Rightarrow> ChildWorkflowExecutionFailedEventAttributes \<Rightarrow> go_error +
      ChildWorkflowExecutionFailedEventAttributes" where
  "ChildWorkflowExecutionFailedEventAttributes_FromWire W w v =
     foldM (\<lambda>v (fid, fval).
       if fid = 10 then
         if wire_api.Type W fval = TBinary
         then Inr (v\<lparr>ChildWorkflowExecutionFailedEventAttributes.Reason := Some (GetString W fval)\<rparr>)
         else Inr v
       else if fid = 20 then
         if wire_api.Type W fval = TBinary
         then Inr (v\<lparr>ChildWorkflowExecutionFailedEventAttributes.Details := Some (GetBinary W
             fval)\<rparr>)
         else Inr v
       else if fid = 30 then
         if wire_api.Type W fval = TBinary
         then Inr (v\<lparr>ChildWorkflowExecutionFailedEventAttributes.Domain := Some (GetString W fval)\<rparr>)
         else Inr v
       else if fid = 40 then
         if wire_api.Type W fval = TStruct
         then and_then (WorkflowExecution_Read W fval) (\<lambda>x. Inr
             (v\<lparr>ChildWorkflowExecutionFailedEventAttributes.WorkflowExecution := Some x\<rparr>))
         else Inr v
       else if fid = 50 then
         if wire_api.Type W fval = TStruct
         then and_then (WorkflowType_Read W fval) (\<lambda>x. Inr
             (v\<lparr>ChildWorkflowExecutionFailedEventAttributes.WorkflowType := Some x\<rparr>))
         else Inr v
       else if fid = 60 then
         if wire_api.Type W fval = TI64
         then Inr (v\<lparr>ChildWorkflowExecutionFailedEventAttributes.InitiatedEventId := Some (GetI64 W
             fval)\<rparr>)
         else Inr v
       else if fid = 70 then
         if wire_api.Type W fval = TI64
         then Inr (v\<lparr>ChildWorkflowExecutionFailedEventAttributes.StartedEventId := Some (GetI64 W
             fval)\<rparr>)
         else Inr v
       else Inr v) (GetStruct W w) v"

definition ChildWorkflowExecutionFailedEventAttributes_Read :: "'v wire_api \<Rightarrow> 'v \<Rightarrow> go_error +
    ChildWorkflowExecutionFailedEventAttributes" where
  "ChildWorkflowExecutionFailedEventAttributes_Read W w =
      ChildWorkflowExecutionFailedEventAttributes_FromWire W w
      ChildWorkflowExecutionFailedEventAttributes_zero"

lemma ChildWorkflowExecutionFailedEventAttributes_merge:
  "(case x of None \<Rightarrow> Inr \<lparr>ChildWorkflowExecutionFailedEventAttributes.Reason = a0,
      ChildWorkflowExecutionFailedEventAttributes.Details = a1,
      ChildWorkflowExecutionFailedEventAttributes.Domain = a2,
      ChildWorkflowExecutionFailedEventAttributes.WorkflowExecution = a3,
      ChildWorkflowExecutionFailedEventAttributes.WorkflowType = a4,
      ChildWorkflowExecutionFailedEventAttributes.InitiatedEventId = a5,
      ChildWorkflowExecutionFailedEventAttributes.StartedEventId = a6\<rparr> | Some y \<Rightarrow> Inr
      \<lparr>ChildWorkflowExecutionFailedEventAttributes.Reason = b0 y,
      ChildWorkflowExecutionFailedEventAttributes.Details = b1 y,
      ChildWorkflowExecutionFailedEventAttributes.Domain = b2 y,
      ChildWorkflowExecutionFailedEventAttributes.WorkflowExecution = b3 y,
      ChildWorkflowExecutionFailedEventAttributes.WorkflowType = b4 y,
      ChildWorkflowExecutionFailedEventAttributes.InitiatedEventId = b5 y,
      ChildWorkflowExecutionFailedEventAttributes.StartedEventId = b6 y\<rparr>) =
   Inr \<lparr>ChildWorkflowExecutionFailedEventAttributes.Reason = (case x of None \<Rightarrow> a0 | Some y \<Rightarrow> b0 y),
       ChildWorkflowExecutionFailedEventAttributes.Details = (case x of None \<Rightarrow> a1 | Some y \<Rightarrow> b1 y),
       ChildWorkflowExecutionFailedEventAttributes.Domain = (case x of None \<Rightarrow> a2 | Some y \<Rightarrow> b2 y),
       ChildWorkflowExecutionFailedEventAttributes.WorkflowExecution = (case x of None \<Rightarrow> a3 | Some y
       \<Rightarrow> b3 y), ChildWorkflowExecutionFailedEventAttributes.WorkflowType = (case x of None \<Rightarrow> a4 |
       Some y \<Rightarrow> b4 y), ChildWorkflowExecutionFailedEventAttributes.InitiatedEventId = (case x of
       None \<Rightarrow> a5 | Some y \<Rightarrow> b5 y), ChildWorkflowExecutionFailedEventAttributes.StartedEventId =
       (case x of None \<Rightarrow> a6 | Some y \<Rightarrow> b6 y)\<rparr>"
  by (cases x) simp_all

interpretation ChildWorkflowExecutionFailedEventAttributes: thrift_message W
  "ChildWorkflowExecutionFailedEventAttributes_ToWire W"
      "ChildWorkflowExecutionFailedEventAttributes_FromWire W"
      ChildWorkflowExecutionFailedEventAttributes_zero "\<lambda>_. True" for W
proof (rule thrift_messageI)
  fix x :: ChildWorkflowExecutionFailedEventAttributes
  assume laws: "wire_laws W"
  obtain enc0 where e0: "WorkflowExecution_ToWire W = (\<lambda>x. Inr (enc0 x))"
      "\<And>x. wire_api.Type W (enc0 x) = TStruct"
      "\<And>x. Writable W (enc0 x) \<longleftrightarrow> (\<lambda>_. True) x"
      "\<And>x. (\<lambda>_. True) x \<Longrightarrow> WorkflowExecution_FromWire W (enc0 x) WorkflowExecution_zero = Inr x"
    by (rule WorkflowExecution.encoder [OF laws]) (rule that)
  obtain enc1 where e1: "WorkflowType_ToWire W = (\<lambda>x. Inr (enc1 x))"
      "\<And>x. wire_api.Type W (enc1 x) = TStruct"
      "\<And>x. Writable W (enc1 x) \<longleftrightarrow> (\<lambda>_. True) x"
      "\<And>x. (\<lambda>_. True) x \<Longrightarrow> WorkflowType_FromWire W (enc1 x) WorkflowType_zero = Inr x"
    by (rule WorkflowType.encoder [OF laws]) (rule that)
  show "\<exists>w. ChildWorkflowExecutionFailedEventAttributes_ToWire W x = Inr w \<and> wire_api.Type W w =
      TStruct \<and>
      (Writable W w \<longleftrightarrow> (\<lambda>_. True) x) \<and> ((\<lambda>_. True) x \<longrightarrow>
          ChildWorkflowExecutionFailedEventAttributes_FromWire W w
          ChildWorkflowExecutionFailedEventAttributes_zero = Inr x)"
    by (cases x) (simp cong: option.case_cong add: codec_rules
        ChildWorkflowExecutionFailedEventAttributes_merge
        ChildWorkflowExecutionFailedEventAttributes_ToWire_def
        ChildWorkflowExecutionFailedEventAttributes_FromWire_def
        ChildWorkflowExecutionFailedEventAttributes_zero_def WorkflowExecution_Read_def
        WorkflowType_Read_def laws e0 e1)
qed

definition ChildWorkflowExecutionFailedEventAttributes_Equals ::
  "ChildWorkflowExecutionFailedEventAttributes option \<Rightarrow> ChildWorkflowExecutionFailedEventAttributes
      option \<Rightarrow> bool" where
  "ChildWorkflowExecutionFailedEventAttributes_Equals v rhs =
     (case v of None \<Rightarrow> rhs = None
      | Some v \<Rightarrow> (case rhs of None \<Rightarrow> False
        | Some rhs \<Rightarrow>
          if \<not> String_EqualsPtr (ChildWorkflowExecutionFailedEventAttributes.Reason v)
              (ChildWorkflowExecutionFailedEventAttributes.Reason rhs) then False else
          if \<not> both_set_and (=) (ChildWorkflowExecutionFailedEventAttributes.Details v)
              (ChildWorkflowExecutionFailedEventAttributes.Details rhs) then False else
          if \<not> String_EqualsPtr (ChildWorkflowExecutionFailedEventAttributes.Domain v)
              (ChildWorkflowExecutionFailedEventAttributes.Domain rhs) then False else
          if \<not> both_set_and (\<lambda>x y. WorkflowExecution_Equals (Some x) (Some y))
              (ChildWorkflowExecutionFailedEventAttributes.WorkflowExecution v)
              (ChildWorkflowExecutionFailedEventAttributes.WorkflowExecution rhs) then False else
          if \<not> both_set_and (\<lambda>x y. WorkflowType_Equals (Some x) (Some y))
              (ChildWorkflowExecutionFailedEventAttributes.WorkflowType v)
              (ChildWorkflowExecutionFailedEventAttributes.WorkflowType rhs) then False else
          if \<not> I64_EqualsPtr (ChildWorkflowExecutionFailedEventAttributes.InitiatedEventId v)
              (ChildWorkflowExecutionFailedEventAttributes.InitiatedEventId rhs) then False else
          if \<not> I64_EqualsPtr (ChildWorkflowExecutionFailedEventAttributes.StartedEventId v)
              (ChildWorkflowExecutionFailedEventAttributes.StartedEventId rhs) then False else
          True))"

lemma ChildWorkflowExecutionFailedEventAttributes_Equals_iff [simp]:
    "ChildWorkflowExecutionFailedEventAttributes_Equals x y \<longleftrightarrow> x = y"
  by (cases x; cases y) (simp_all add: ChildWorkflowExecutionFailedEventAttributes_Equals_def
      if_not_False, fastforce intro: ChildWorkflowExecutionFailedEventAttributes.equality)

record ChildWorkflowExecutionStartedEventAttributes =
  Domain :: "string option"
  InitiatedEventId :: "64 word option"
  WorkflowExecution :: "WorkflowExecution option"
  WorkflowType :: "WorkflowType option"
  Header :: "Header option"

definition ChildWorkflowExecutionStartedEventAttributes_zero ::
    ChildWorkflowExecutionStartedEventAttributes where
  "ChildWorkflowExecutionStartedEventAttributes_zero =
      \<lparr>ChildWorkflowExecutionStartedEventAttributes.Domain = None,
      ChildWorkflowExecutionStartedEventAttributes.InitiatedEventId = None,
      ChildWorkflowExecutionStartedEventAttributes.WorkflowExecution = None,
      ChildWorkflowExecutionStartedEventAttributes.WorkflowType = None,
      ChildWorkflowExecutionStartedEventAttributes.Header = None\<rparr>"

definition ChildWorkflowExecutionStartedEventAttributes_ToWire ::
  "'v wire_api \<Rightarrow> ChildWorkflowExecutionStartedEventAttributes \<Rightarrow> go_error + 'v" where
  "ChildWorkflowExecutionStartedEventAttributes_ToWire W v =
     and_then (put_opt 10 (\<lambda>x. Inr (NewValueString W x))
         (ChildWorkflowExecutionStartedEventAttributes.Domain v) [])
       (\<lambda>fields.
     and_then (put_opt 20 (\<lambda>x. Inr (NewValueI64 W x))
         (ChildWorkflowExecutionStartedEventAttributes.InitiatedEventId v) fields)
       (\<lambda>fields.
     and_then (put_opt 30 (WorkflowExecution_ToWire W)
         (ChildWorkflowExecutionStartedEventAttributes.WorkflowExecution v) fields)
       (\<lambda>fields.
     and_then (put_opt 40 (WorkflowType_ToWire W)
         (ChildWorkflowExecutionStartedEventAttributes.WorkflowType v) fields)
       (\<lambda>fields.
     and_then (put_opt 50 (Header_ToWire W) (ChildWorkflowExecutionStartedEventAttributes.Header v)
         fields)
       (\<lambda>fields.
     Inr (NewValueStruct W fields))))))"

definition ChildWorkflowExecutionStartedEventAttributes_FromWire ::
  "'v wire_api \<Rightarrow> 'v \<Rightarrow> ChildWorkflowExecutionStartedEventAttributes \<Rightarrow> go_error +
      ChildWorkflowExecutionStartedEventAttributes" where
  "ChildWorkflowExecutionStartedEventAttributes_FromWire W w v =
     foldM (\<lambda>v (fid, fval).
       if fid = 10 then
         if wire_api.Type W fval = TBinary
         then Inr (v\<lparr>ChildWorkflowExecutionStartedEventAttributes.Domain := Some (GetString W
             fval)\<rparr>)
         else Inr v
       else if fid = 20 then
         if wire_api.Type W fval = TI64
         then Inr (v\<lparr>ChildWorkflowExecutionStartedEventAttributes.InitiatedEventId := Some (GetI64 W
             fval)\<rparr>)
         else Inr v
       else if fid = 30 then
         if wire_api.Type W fval = TStruct
         then and_then (WorkflowExecution_Read W fval) (\<lambda>x. Inr
             (v\<lparr>ChildWorkflowExecutionStartedEventAttributes.WorkflowExecution := Some x\<rparr>))
         else Inr v
       else if fid = 40 then
         if wire_api.Type W fval = TStruct
         then and_then (WorkflowType_Read W fval) (\<lambda>x. Inr
             (v\<lparr>ChildWorkflowExecutionStartedEventAttributes.WorkflowType := Some x\<rparr>))
         else Inr v
       else if fid = 50 then
         if wire_api.Type W fval = TStruct
         then and_then (Header_Read W fval) (\<lambda>x. Inr
             (v\<lparr>ChildWorkflowExecutionStartedEventAttributes.Header := Some x\<rparr>))
         else Inr v
       else Inr v) (GetStruct W w) v"

definition ChildWorkflowExecutionStartedEventAttributes_Read :: "'v wire_api \<Rightarrow> 'v \<Rightarrow> go_error +
    ChildWorkflowExecutionStartedEventAttributes" where
  "ChildWorkflowExecutionStartedEventAttributes_Read W w =
      ChildWorkflowExecutionStartedEventAttributes_FromWire W w
      ChildWorkflowExecutionStartedEventAttributes_zero"

definition ChildWorkflowExecutionStartedEventAttributes_complete ::
    "ChildWorkflowExecutionStartedEventAttributes \<Rightarrow> bool" where
  "ChildWorkflowExecutionStartedEventAttributes_complete v \<longleftrightarrow>
     if_set Header_complete (ChildWorkflowExecutionStartedEventAttributes.Header v)"

lemma ChildWorkflowExecutionStartedEventAttributes_merge:
  "(case x of None \<Rightarrow> Inr \<lparr>ChildWorkflowExecutionStartedEventAttributes.Domain = a0,
      ChildWorkflowExecutionStartedEventAttributes.InitiatedEventId = a1,
      ChildWorkflowExecutionStartedEventAttributes.WorkflowExecution = a2,
      ChildWorkflowExecutionStartedEventAttributes.WorkflowType = a3,
      ChildWorkflowExecutionStartedEventAttributes.Header = a4\<rparr> | Some y \<Rightarrow> Inr
      \<lparr>ChildWorkflowExecutionStartedEventAttributes.Domain = b0 y,
      ChildWorkflowExecutionStartedEventAttributes.InitiatedEventId = b1 y,
      ChildWorkflowExecutionStartedEventAttributes.WorkflowExecution = b2 y,
      ChildWorkflowExecutionStartedEventAttributes.WorkflowType = b3 y,
      ChildWorkflowExecutionStartedEventAttributes.Header = b4 y\<rparr>) =
   Inr \<lparr>ChildWorkflowExecutionStartedEventAttributes.Domain = (case x of None \<Rightarrow> a0 | Some y \<Rightarrow> b0 y),
       ChildWorkflowExecutionStartedEventAttributes.InitiatedEventId = (case x of None \<Rightarrow> a1 | Some y
       \<Rightarrow> b1 y), ChildWorkflowExecutionStartedEventAttributes.WorkflowExecution = (case x of None \<Rightarrow>
       a2 | Some y \<Rightarrow> b2 y), ChildWorkflowExecutionStartedEventAttributes.WorkflowType = (case x of
       None \<Rightarrow> a3 | Some y \<Rightarrow> b3 y), ChildWorkflowExecutionStartedEventAttributes.Header = (case x of
       None \<Rightarrow> a4 | Some y \<Rightarrow> b4 y)\<rparr>"
  by (cases x) simp_all

interpretation ChildWorkflowExecutionStartedEventAttributes: thrift_message W
  "ChildWorkflowExecutionStartedEventAttributes_ToWire W"
      "ChildWorkflowExecutionStartedEventAttributes_FromWire W"
      ChildWorkflowExecutionStartedEventAttributes_zero
      "ChildWorkflowExecutionStartedEventAttributes_complete" for W
proof (rule thrift_messageI)
  fix x :: ChildWorkflowExecutionStartedEventAttributes
  assume laws: "wire_laws W"
  obtain enc0 where e0: "Header_ToWire W = (\<lambda>x. Inr (enc0 x))"
      "\<And>x. wire_api.Type W (enc0 x) = TStruct"
      "\<And>x. Writable W (enc0 x) \<longleftrightarrow> Header_complete x"
      "\<And>x. Header_complete x \<Longrightarrow> Header_FromWire W (enc0 x) Header_zero = Inr x"
    by (rule Header.encoder [OF laws]) (rule that)
  obtain enc1 where e1: "WorkflowExecution_ToWire W = (\<lambda>x. Inr (enc1 x))"
      "\<And>x. wire_api.Type W (enc1 x) = TStruct"
      "\<And>x. Writable W (enc1 x) \<longleftrightarrow> (\<lambda>_. True) x"
      "\<And>x. (\<lambda>_. True) x \<Longrightarrow> WorkflowExecution_FromWire W (enc1 x) WorkflowExecution_zero = Inr x"
    by (rule WorkflowExecution.encoder [OF laws]) (rule that)
  obtain enc2 where e2: "WorkflowType_ToWire W = (\<lambda>x. Inr (enc2 x))"
      "\<And>x. wire_api.Type W (enc2 x) = TStruct"
      "\<And>x. Writable W (enc2 x) \<longleftrightarrow> (\<lambda>_. True) x"
      "\<And>x. (\<lambda>_. True) x \<Longrightarrow> WorkflowType_FromWire W (enc2 x) WorkflowType_zero = Inr x"
    by (rule WorkflowType.encoder [OF laws]) (rule that)
  show "\<exists>w. ChildWorkflowExecutionStartedEventAttributes_ToWire W x = Inr w \<and> wire_api.Type W w =
      TStruct \<and>
      (Writable W w \<longleftrightarrow> ChildWorkflowExecutionStartedEventAttributes_complete x) \<and>
          (ChildWorkflowExecutionStartedEventAttributes_complete x \<longrightarrow>
          ChildWorkflowExecutionStartedEventAttributes_FromWire W w
          ChildWorkflowExecutionStartedEventAttributes_zero = Inr x)"
    by (cases x) (simp cong: option.case_cong add: codec_rules
        ChildWorkflowExecutionStartedEventAttributes_merge
        ChildWorkflowExecutionStartedEventAttributes_ToWire_def
        ChildWorkflowExecutionStartedEventAttributes_FromWire_def
        ChildWorkflowExecutionStartedEventAttributes_zero_def
        ChildWorkflowExecutionStartedEventAttributes_complete_def if_set_def Header_Read_def
        WorkflowExecution_Read_def WorkflowType_Read_def laws e0 e1 e2)
qed

definition ChildWorkflowExecutionStartedEventAttributes_Equals ::
  "ChildWorkflowExecutionStartedEventAttributes option \<Rightarrow>
      ChildWorkflowExecutionStartedEventAttributes option \<Rightarrow> bool" where
  "ChildWorkflowExecutionStartedEventAttributes_Equals v rhs =
     (case v of None \<Rightarrow> rhs = None
      | Some v \<Rightarrow> (case rhs of None \<Rightarrow> False
        | Some rhs \<Rightarrow>
          if \<not> String_EqualsPtr (ChildWorkflowExecutionStartedEventAttributes.Domain v)
              (ChildWorkflowExecutionStartedEventAttributes.Domain rhs) then False else
          if \<not> I64_EqualsPtr (ChildWorkflowExecutionStartedEventAttributes.InitiatedEventId v)
              (ChildWorkflowExecutionStartedEventAttributes.InitiatedEventId rhs) then False else
          if \<not> both_set_and (\<lambda>x y. WorkflowExecution_Equals (Some x) (Some y))
              (ChildWorkflowExecutionStartedEventAttributes.WorkflowExecution v)
              (ChildWorkflowExecutionStartedEventAttributes.WorkflowExecution rhs) then False else
          if \<not> both_set_and (\<lambda>x y. WorkflowType_Equals (Some x) (Some y))
              (ChildWorkflowExecutionStartedEventAttributes.WorkflowType v)
              (ChildWorkflowExecutionStartedEventAttributes.WorkflowType rhs) then False else
          if \<not> both_set_and (\<lambda>x y. Header_Equals (Some x) (Some y))
              (ChildWorkflowExecutionStartedEventAttributes.Header v)
              (ChildWorkflowExecutionStartedEventAttributes.Header rhs) then False else
          True))"

definition ChildWorkflowExecutionStartedEventAttributes_comparable ::
    "ChildWorkflowExecutionStartedEventAttributes \<Rightarrow> bool" where
  "ChildWorkflowExecutionStartedEventAttributes_comparable v \<longleftrightarrow>
     if_set Header_comparable (ChildWorkflowExecutionStartedEventAttributes.Header v)"

lemma ChildWorkflowExecutionStartedEventAttributes_Equals_iff:
  "if_set ChildWorkflowExecutionStartedEventAttributes_comparable x \<Longrightarrow> if_set
      ChildWorkflowExecutionStartedEventAttributes_comparable y \<Longrightarrow>
      ChildWorkflowExecutionStartedEventAttributes_Equals x y \<longleftrightarrow> x = y"
  by (cases x; cases y) (simp_all add: ChildWorkflowExecutionStartedEventAttributes_Equals_def
      ChildWorkflowExecutionStartedEventAttributes_comparable_def if_not_False,
    fastforce intro: ChildWorkflowExecutionStartedEventAttributes.equality)

lemma ChildWorkflowExecutionStartedEventAttributes_fields_equal [simp]:
  "if_set ChildWorkflowExecutionStartedEventAttributes_comparable x \<Longrightarrow> if_set
      ChildWorkflowExecutionStartedEventAttributes_comparable y \<Longrightarrow>
    both_set_and (\<lambda>x y. ChildWorkflowExecutionStartedEventAttributes_Equals (Some x) (Some y)) x y \<longleftrightarrow>
        x = y"
  by (rule both_set_and_iff [where P = ChildWorkflowExecutionStartedEventAttributes_comparable])
      (simp_all add: ChildWorkflowExecutionStartedEventAttributes_Equals_iff)

record ChildWorkflowExecutionTerminatedEventAttributes =
  Domain :: "string option"
  WorkflowExecution :: "WorkflowExecution option"
  WorkflowType :: "WorkflowType option"
  InitiatedEventId :: "64 word option"
  StartedEventId :: "64 word option"

definition ChildWorkflowExecutionTerminatedEventAttributes_zero ::
    ChildWorkflowExecutionTerminatedEventAttributes where
  "ChildWorkflowExecutionTerminatedEventAttributes_zero =
      \<lparr>ChildWorkflowExecutionTerminatedEventAttributes.Domain = None,
      ChildWorkflowExecutionTerminatedEventAttributes.WorkflowExecution = None,
      ChildWorkflowExecutionTerminatedEventAttributes.WorkflowType = None,
      ChildWorkflowExecutionTerminatedEventAttributes.InitiatedEventId = None,
      ChildWorkflowExecutionTerminatedEventAttributes.StartedEventId = None\<rparr>"

definition ChildWorkflowExecutionTerminatedEventAttributes_ToWire ::
  "'v wire_api \<Rightarrow> ChildWorkflowExecutionTerminatedEventAttributes \<Rightarrow> go_error + 'v" where
  "ChildWorkflowExecutionTerminatedEventAttributes_ToWire W v =
     and_then (put_opt 10 (\<lambda>x. Inr (NewValueString W x))
         (ChildWorkflowExecutionTerminatedEventAttributes.Domain v) [])
       (\<lambda>fields.
     and_then (put_opt 20 (WorkflowExecution_ToWire W)
         (ChildWorkflowExecutionTerminatedEventAttributes.WorkflowExecution v) fields)
       (\<lambda>fields.
     and_then (put_opt 30 (WorkflowType_ToWire W)
         (ChildWorkflowExecutionTerminatedEventAttributes.WorkflowType v) fields)
       (\<lambda>fields.
     and_then (put_opt 40 (\<lambda>x. Inr (NewValueI64 W x))
         (ChildWorkflowExecutionTerminatedEventAttributes.InitiatedEventId v) fields)
       (\<lambda>fields.
     and_then (put_opt 50 (\<lambda>x. Inr (NewValueI64 W x))
         (ChildWorkflowExecutionTerminatedEventAttributes.StartedEventId v) fields)
       (\<lambda>fields.
     Inr (NewValueStruct W fields))))))"

definition ChildWorkflowExecutionTerminatedEventAttributes_FromWire ::
  "'v wire_api \<Rightarrow> 'v \<Rightarrow> ChildWorkflowExecutionTerminatedEventAttributes \<Rightarrow> go_error +
      ChildWorkflowExecutionTerminatedEventAttributes" where
  "ChildWorkflowExecutionTerminatedEventAttributes_FromWire W w v =
     foldM (\<lambda>v (fid, fval).
       if fid = 10 then
         if wire_api.Type W fval = TBinary
         then Inr (v\<lparr>ChildWorkflowExecutionTerminatedEventAttributes.Domain := Some (GetString W
             fval)\<rparr>)
         else Inr v
       else if fid = 20 then
         if wire_api.Type W fval = TStruct
         then and_then (WorkflowExecution_Read W fval) (\<lambda>x. Inr
             (v\<lparr>ChildWorkflowExecutionTerminatedEventAttributes.WorkflowExecution := Some x\<rparr>))
         else Inr v
       else if fid = 30 then
         if wire_api.Type W fval = TStruct
         then and_then (WorkflowType_Read W fval) (\<lambda>x. Inr
             (v\<lparr>ChildWorkflowExecutionTerminatedEventAttributes.WorkflowType := Some x\<rparr>))
         else Inr v
       else if fid = 40 then
         if wire_api.Type W fval = TI64
         then Inr (v\<lparr>ChildWorkflowExecutionTerminatedEventAttributes.InitiatedEventId := Some
             (GetI64 W fval)\<rparr>)
         else Inr v
       else if fid = 50 then
         if wire_api.Type W fval = TI64
         then Inr (v\<lparr>ChildWorkflowExecutionTerminatedEventAttributes.StartedEventId := Some (GetI64
             W fval)\<rparr>)
         else Inr v
       else Inr v) (GetStruct W w) v"

definition ChildWorkflowExecutionTerminatedEventAttributes_Read :: "'v wire_api \<Rightarrow> 'v \<Rightarrow> go_error +
    ChildWorkflowExecutionTerminatedEventAttributes" where
  "ChildWorkflowExecutionTerminatedEventAttributes_Read W w =
      ChildWorkflowExecutionTerminatedEventAttributes_FromWire W w
      ChildWorkflowExecutionTerminatedEventAttributes_zero"

lemma ChildWorkflowExecutionTerminatedEventAttributes_merge:
  "(case x of None \<Rightarrow> Inr \<lparr>ChildWorkflowExecutionTerminatedEventAttributes.Domain = a0,
      ChildWorkflowExecutionTerminatedEventAttributes.WorkflowExecution = a1,
      ChildWorkflowExecutionTerminatedEventAttributes.WorkflowType = a2,
      ChildWorkflowExecutionTerminatedEventAttributes.InitiatedEventId = a3,
      ChildWorkflowExecutionTerminatedEventAttributes.StartedEventId = a4\<rparr> | Some y \<Rightarrow> Inr
      \<lparr>ChildWorkflowExecutionTerminatedEventAttributes.Domain = b0 y,
      ChildWorkflowExecutionTerminatedEventAttributes.WorkflowExecution = b1 y,
      ChildWorkflowExecutionTerminatedEventAttributes.WorkflowType = b2 y,
      ChildWorkflowExecutionTerminatedEventAttributes.InitiatedEventId = b3 y,
      ChildWorkflowExecutionTerminatedEventAttributes.StartedEventId = b4 y\<rparr>) =
   Inr \<lparr>ChildWorkflowExecutionTerminatedEventAttributes.Domain = (case x of None \<Rightarrow> a0 | Some y \<Rightarrow> b0
       y), ChildWorkflowExecutionTerminatedEventAttributes.WorkflowExecution = (case x of None \<Rightarrow> a1
       | Some y \<Rightarrow> b1 y), ChildWorkflowExecutionTerminatedEventAttributes.WorkflowType = (case x of
       None \<Rightarrow> a2 | Some y \<Rightarrow> b2 y), ChildWorkflowExecutionTerminatedEventAttributes.InitiatedEventId
       = (case x of None \<Rightarrow> a3 | Some y \<Rightarrow> b3 y),
       ChildWorkflowExecutionTerminatedEventAttributes.StartedEventId = (case x of None \<Rightarrow> a4 | Some
       y \<Rightarrow> b4 y)\<rparr>"
  by (cases x) simp_all

interpretation ChildWorkflowExecutionTerminatedEventAttributes: thrift_message W
  "ChildWorkflowExecutionTerminatedEventAttributes_ToWire W"
      "ChildWorkflowExecutionTerminatedEventAttributes_FromWire W"
      ChildWorkflowExecutionTerminatedEventAttributes_zero "\<lambda>_. True" for W
proof (rule thrift_messageI)
  fix x :: ChildWorkflowExecutionTerminatedEventAttributes
  assume laws: "wire_laws W"
  obtain enc0 where e0: "WorkflowExecution_ToWire W = (\<lambda>x. Inr (enc0 x))"
      "\<And>x. wire_api.Type W (enc0 x) = TStruct"
      "\<And>x. Writable W (enc0 x) \<longleftrightarrow> (\<lambda>_. True) x"
      "\<And>x. (\<lambda>_. True) x \<Longrightarrow> WorkflowExecution_FromWire W (enc0 x) WorkflowExecution_zero = Inr x"
    by (rule WorkflowExecution.encoder [OF laws]) (rule that)
  obtain enc1 where e1: "WorkflowType_ToWire W = (\<lambda>x. Inr (enc1 x))"
      "\<And>x. wire_api.Type W (enc1 x) = TStruct"
      "\<And>x. Writable W (enc1 x) \<longleftrightarrow> (\<lambda>_. True) x"
      "\<And>x. (\<lambda>_. True) x \<Longrightarrow> WorkflowType_FromWire W (enc1 x) WorkflowType_zero = Inr x"
    by (rule WorkflowType.encoder [OF laws]) (rule that)
  show "\<exists>w. ChildWorkflowExecutionTerminatedEventAttributes_ToWire W x = Inr w \<and> wire_api.Type W w =
      TStruct \<and>
      (Writable W w \<longleftrightarrow> (\<lambda>_. True) x) \<and> ((\<lambda>_. True) x \<longrightarrow>
          ChildWorkflowExecutionTerminatedEventAttributes_FromWire W w
          ChildWorkflowExecutionTerminatedEventAttributes_zero = Inr x)"
    by (cases x) (simp cong: option.case_cong add: codec_rules
        ChildWorkflowExecutionTerminatedEventAttributes_merge
        ChildWorkflowExecutionTerminatedEventAttributes_ToWire_def
        ChildWorkflowExecutionTerminatedEventAttributes_FromWire_def
        ChildWorkflowExecutionTerminatedEventAttributes_zero_def WorkflowExecution_Read_def
        WorkflowType_Read_def laws e0 e1)
qed

definition ChildWorkflowExecutionTerminatedEventAttributes_Equals ::
  "ChildWorkflowExecutionTerminatedEventAttributes option \<Rightarrow>
      ChildWorkflowExecutionTerminatedEventAttributes option \<Rightarrow> bool" where
  "ChildWorkflowExecutionTerminatedEventAttributes_Equals v rhs =
     (case v of None \<Rightarrow> rhs = None
      | Some v \<Rightarrow> (case rhs of None \<Rightarrow> False
        | Some rhs \<Rightarrow>
          if \<not> String_EqualsPtr (ChildWorkflowExecutionTerminatedEventAttributes.Domain v)
              (ChildWorkflowExecutionTerminatedEventAttributes.Domain rhs) then False else
          if \<not> both_set_and (\<lambda>x y. WorkflowExecution_Equals (Some x) (Some y))
              (ChildWorkflowExecutionTerminatedEventAttributes.WorkflowExecution v)
              (ChildWorkflowExecutionTerminatedEventAttributes.WorkflowExecution rhs) then False
              else
          if \<not> both_set_and (\<lambda>x y. WorkflowType_Equals (Some x) (Some y))
              (ChildWorkflowExecutionTerminatedEventAttributes.WorkflowType v)
              (ChildWorkflowExecutionTerminatedEventAttributes.WorkflowType rhs) then False else
          if \<not> I64_EqualsPtr (ChildWorkflowExecutionTerminatedEventAttributes.InitiatedEventId v)
              (ChildWorkflowExecutionTerminatedEventAttributes.InitiatedEventId rhs) then False else
          if \<not> I64_EqualsPtr (ChildWorkflowExecutionTerminatedEventAttributes.StartedEventId v)
              (ChildWorkflowExecutionTerminatedEventAttributes.StartedEventId rhs) then False else
          True))"

lemma ChildWorkflowExecutionTerminatedEventAttributes_Equals_iff [simp]:
    "ChildWorkflowExecutionTerminatedEventAttributes_Equals x y \<longleftrightarrow> x = y"
  by (cases x; cases y) (simp_all add: ChildWorkflowExecutionTerminatedEventAttributes_Equals_def
      if_not_False, fastforce intro: ChildWorkflowExecutionTerminatedEventAttributes.equality)

record ChildWorkflowExecutionTimedOutEventAttributes =
  TimeoutType :: "TimeoutType option"
  Domain :: "string option"
  WorkflowExecution :: "WorkflowExecution option"
  WorkflowType :: "WorkflowType option"
  InitiatedEventId :: "64 word option"
  StartedEventId :: "64 word option"

definition ChildWorkflowExecutionTimedOutEventAttributes_zero ::
    ChildWorkflowExecutionTimedOutEventAttributes where
  "ChildWorkflowExecutionTimedOutEventAttributes_zero =
      \<lparr>ChildWorkflowExecutionTimedOutEventAttributes.TimeoutType = None,
      ChildWorkflowExecutionTimedOutEventAttributes.Domain = None,
      ChildWorkflowExecutionTimedOutEventAttributes.WorkflowExecution = None,
      ChildWorkflowExecutionTimedOutEventAttributes.WorkflowType = None,
      ChildWorkflowExecutionTimedOutEventAttributes.InitiatedEventId = None,
      ChildWorkflowExecutionTimedOutEventAttributes.StartedEventId = None\<rparr>"

definition ChildWorkflowExecutionTimedOutEventAttributes_ToWire ::
  "'v wire_api \<Rightarrow> ChildWorkflowExecutionTimedOutEventAttributes \<Rightarrow> go_error + 'v" where
  "ChildWorkflowExecutionTimedOutEventAttributes_ToWire W v =
     and_then (put_opt 10 (TimeoutType_ToWire W)
         (ChildWorkflowExecutionTimedOutEventAttributes.TimeoutType v) [])
       (\<lambda>fields.
     and_then (put_opt 20 (\<lambda>x. Inr (NewValueString W x))
         (ChildWorkflowExecutionTimedOutEventAttributes.Domain v) fields)
       (\<lambda>fields.
     and_then (put_opt 30 (WorkflowExecution_ToWire W)
         (ChildWorkflowExecutionTimedOutEventAttributes.WorkflowExecution v) fields)
       (\<lambda>fields.
     and_then (put_opt 40 (WorkflowType_ToWire W)
         (ChildWorkflowExecutionTimedOutEventAttributes.WorkflowType v) fields)
       (\<lambda>fields.
     and_then (put_opt 50 (\<lambda>x. Inr (NewValueI64 W x))
         (ChildWorkflowExecutionTimedOutEventAttributes.InitiatedEventId v) fields)
       (\<lambda>fields.
     and_then (put_opt 60 (\<lambda>x. Inr (NewValueI64 W x))
         (ChildWorkflowExecutionTimedOutEventAttributes.StartedEventId v) fields)
       (\<lambda>fields.
     Inr (NewValueStruct W fields)))))))"

definition ChildWorkflowExecutionTimedOutEventAttributes_FromWire ::
  "'v wire_api \<Rightarrow> 'v \<Rightarrow> ChildWorkflowExecutionTimedOutEventAttributes \<Rightarrow> go_error +
      ChildWorkflowExecutionTimedOutEventAttributes" where
  "ChildWorkflowExecutionTimedOutEventAttributes_FromWire W w v =
     foldM (\<lambda>v (fid, fval).
       if fid = 10 then
         if wire_api.Type W fval = TI32
         then and_then (TimeoutType_Read W fval) (\<lambda>x. Inr
             (v\<lparr>ChildWorkflowExecutionTimedOutEventAttributes.TimeoutType := Some x\<rparr>))
         else Inr v
       else if fid = 20 then
         if wire_api.Type W fval = TBinary
         then Inr (v\<lparr>ChildWorkflowExecutionTimedOutEventAttributes.Domain := Some (GetString W
             fval)\<rparr>)
         else Inr v
       else if fid = 30 then
         if wire_api.Type W fval = TStruct
         then and_then (WorkflowExecution_Read W fval) (\<lambda>x. Inr
             (v\<lparr>ChildWorkflowExecutionTimedOutEventAttributes.WorkflowExecution := Some x\<rparr>))
         else Inr v
       else if fid = 40 then
         if wire_api.Type W fval = TStruct
         then and_then (WorkflowType_Read W fval) (\<lambda>x. Inr
             (v\<lparr>ChildWorkflowExecutionTimedOutEventAttributes.WorkflowType := Some x\<rparr>))
         else Inr v
       else if fid = 50 then
         if wire_api.Type W fval = TI64
         then Inr (v\<lparr>ChildWorkflowExecutionTimedOutEventAttributes.InitiatedEventId := Some (GetI64
             W fval)\<rparr>)
         else Inr v
       else if fid = 60 then
         if wire_api.Type W fval = TI64
         then Inr (v\<lparr>ChildWorkflowExecutionTimedOutEventAttributes.StartedEventId := Some (GetI64 W
             fval)\<rparr>)
         else Inr v
       else Inr v) (GetStruct W w) v"

definition ChildWorkflowExecutionTimedOutEventAttributes_Read :: "'v wire_api \<Rightarrow> 'v \<Rightarrow> go_error +
    ChildWorkflowExecutionTimedOutEventAttributes" where
  "ChildWorkflowExecutionTimedOutEventAttributes_Read W w =
      ChildWorkflowExecutionTimedOutEventAttributes_FromWire W w
      ChildWorkflowExecutionTimedOutEventAttributes_zero"

lemma ChildWorkflowExecutionTimedOutEventAttributes_merge:
  "(case x of None \<Rightarrow> Inr \<lparr>ChildWorkflowExecutionTimedOutEventAttributes.TimeoutType = a0,
      ChildWorkflowExecutionTimedOutEventAttributes.Domain = a1,
      ChildWorkflowExecutionTimedOutEventAttributes.WorkflowExecution = a2,
      ChildWorkflowExecutionTimedOutEventAttributes.WorkflowType = a3,
      ChildWorkflowExecutionTimedOutEventAttributes.InitiatedEventId = a4,
      ChildWorkflowExecutionTimedOutEventAttributes.StartedEventId = a5\<rparr> | Some y \<Rightarrow> Inr
      \<lparr>ChildWorkflowExecutionTimedOutEventAttributes.TimeoutType = b0 y,
      ChildWorkflowExecutionTimedOutEventAttributes.Domain = b1 y,
      ChildWorkflowExecutionTimedOutEventAttributes.WorkflowExecution = b2 y,
      ChildWorkflowExecutionTimedOutEventAttributes.WorkflowType = b3 y,
      ChildWorkflowExecutionTimedOutEventAttributes.InitiatedEventId = b4 y,
      ChildWorkflowExecutionTimedOutEventAttributes.StartedEventId = b5 y\<rparr>) =
   Inr \<lparr>ChildWorkflowExecutionTimedOutEventAttributes.TimeoutType = (case x of None \<Rightarrow> a0 | Some y \<Rightarrow>
       b0 y), ChildWorkflowExecutionTimedOutEventAttributes.Domain = (case x of None \<Rightarrow> a1 | Some y \<Rightarrow>
       b1 y), ChildWorkflowExecutionTimedOutEventAttributes.WorkflowExecution = (case x of None \<Rightarrow> a2
       | Some y \<Rightarrow> b2 y), ChildWorkflowExecutionTimedOutEventAttributes.WorkflowType = (case x of
       None \<Rightarrow> a3 | Some y \<Rightarrow> b3 y), ChildWorkflowExecutionTimedOutEventAttributes.InitiatedEventId =
       (case x of None \<Rightarrow> a4 | Some y \<Rightarrow> b4 y),
       ChildWorkflowExecutionTimedOutEventAttributes.StartedEventId = (case x of None \<Rightarrow> a5 | Some y
       \<Rightarrow> b5 y)\<rparr>"
  by (cases x) simp_all

interpretation ChildWorkflowExecutionTimedOutEventAttributes: thrift_message W
  "ChildWorkflowExecutionTimedOutEventAttributes_ToWire W"
      "ChildWorkflowExecutionTimedOutEventAttributes_FromWire W"
      ChildWorkflowExecutionTimedOutEventAttributes_zero "\<lambda>_. True" for W
proof (rule thrift_messageI)
  fix x :: ChildWorkflowExecutionTimedOutEventAttributes
  assume laws: "wire_laws W"
  obtain enc0 where e0: "WorkflowExecution_ToWire W = (\<lambda>x. Inr (enc0 x))"
      "\<And>x. wire_api.Type W (enc0 x) = TStruct"
      "\<And>x. Writable W (enc0 x) \<longleftrightarrow> (\<lambda>_. True) x"
      "\<And>x. (\<lambda>_. True) x \<Longrightarrow> WorkflowExecution_FromWire W (enc0 x) WorkflowExecution_zero = Inr x"
    by (rule WorkflowExecution.encoder [OF laws]) (rule that)
  obtain enc1 where e1: "WorkflowType_ToWire W = (\<lambda>x. Inr (enc1 x))"
      "\<And>x. wire_api.Type W (enc1 x) = TStruct"
      "\<And>x. Writable W (enc1 x) \<longleftrightarrow> (\<lambda>_. True) x"
      "\<And>x. (\<lambda>_. True) x \<Longrightarrow> WorkflowType_FromWire W (enc1 x) WorkflowType_zero = Inr x"
    by (rule WorkflowType.encoder [OF laws]) (rule that)
  show "\<exists>w. ChildWorkflowExecutionTimedOutEventAttributes_ToWire W x = Inr w \<and> wire_api.Type W w =
      TStruct \<and>
      (Writable W w \<longleftrightarrow> (\<lambda>_. True) x) \<and> ((\<lambda>_. True) x \<longrightarrow>
          ChildWorkflowExecutionTimedOutEventAttributes_FromWire W w
          ChildWorkflowExecutionTimedOutEventAttributes_zero = Inr x)"
    by (cases x) (simp cong: option.case_cong add: codec_rules
        ChildWorkflowExecutionTimedOutEventAttributes_merge
        ChildWorkflowExecutionTimedOutEventAttributes_ToWire_def
        ChildWorkflowExecutionTimedOutEventAttributes_FromWire_def
        ChildWorkflowExecutionTimedOutEventAttributes_zero_def TimeoutType_enc TimeoutType_Read_def
        TimeoutType_FromWire_def WorkflowExecution_Read_def WorkflowType_Read_def laws e0 e1)
qed

definition ChildWorkflowExecutionTimedOutEventAttributes_Equals ::
  "ChildWorkflowExecutionTimedOutEventAttributes option \<Rightarrow>
      ChildWorkflowExecutionTimedOutEventAttributes option \<Rightarrow> bool" where
  "ChildWorkflowExecutionTimedOutEventAttributes_Equals v rhs =
     (case v of None \<Rightarrow> rhs = None
      | Some v \<Rightarrow> (case rhs of None \<Rightarrow> False
        | Some rhs \<Rightarrow>
          if \<not> TimeoutType_EqualsPtr (ChildWorkflowExecutionTimedOutEventAttributes.TimeoutType v)
              (ChildWorkflowExecutionTimedOutEventAttributes.TimeoutType rhs) then False else
          if \<not> String_EqualsPtr (ChildWorkflowExecutionTimedOutEventAttributes.Domain v)
              (ChildWorkflowExecutionTimedOutEventAttributes.Domain rhs) then False else
          if \<not> both_set_and (\<lambda>x y. WorkflowExecution_Equals (Some x) (Some y))
              (ChildWorkflowExecutionTimedOutEventAttributes.WorkflowExecution v)
              (ChildWorkflowExecutionTimedOutEventAttributes.WorkflowExecution rhs) then False else
          if \<not> both_set_and (\<lambda>x y. WorkflowType_Equals (Some x) (Some y))
              (ChildWorkflowExecutionTimedOutEventAttributes.WorkflowType v)
              (ChildWorkflowExecutionTimedOutEventAttributes.WorkflowType rhs) then False else
          if \<not> I64_EqualsPtr (ChildWorkflowExecutionTimedOutEventAttributes.InitiatedEventId v)
              (ChildWorkflowExecutionTimedOutEventAttributes.InitiatedEventId rhs) then False else
          if \<not> I64_EqualsPtr (ChildWorkflowExecutionTimedOutEventAttributes.StartedEventId v)
              (ChildWorkflowExecutionTimedOutEventAttributes.StartedEventId rhs) then False else
          True))"

lemma ChildWorkflowExecutionTimedOutEventAttributes_Equals_iff [simp]:
    "ChildWorkflowExecutionTimedOutEventAttributes_Equals x y \<longleftrightarrow> x = y"
  by (cases x; cases y) (simp_all add: ChildWorkflowExecutionTimedOutEventAttributes_Equals_def
      if_not_False, fastforce intro: ChildWorkflowExecutionTimedOutEventAttributes.equality)

record ExternalWorkflowExecutionCancelRequestedEventAttributes =
  InitiatedEventId :: "64 word option"
  Domain :: "string option"
  WorkflowExecution :: "WorkflowExecution option"

definition ExternalWorkflowExecutionCancelRequestedEventAttributes_zero ::
    ExternalWorkflowExecutionCancelRequestedEventAttributes where
  "ExternalWorkflowExecutionCancelRequestedEventAttributes_zero =
      \<lparr>ExternalWorkflowExecutionCancelRequestedEventAttributes.InitiatedEventId = None,
      ExternalWorkflowExecutionCancelRequestedEventAttributes.Domain = None,
      ExternalWorkflowExecutionCancelRequestedEventAttributes.WorkflowExecution = None\<rparr>"

definition ExternalWorkflowExecutionCancelRequestedEventAttributes_ToWire ::
  "'v wire_api \<Rightarrow> ExternalWorkflowExecutionCancelRequestedEventAttributes \<Rightarrow> go_error + 'v" where
  "ExternalWorkflowExecutionCancelRequestedEventAttributes_ToWire W v =
     and_then (put_opt 10 (\<lambda>x. Inr (NewValueI64 W x))
         (ExternalWorkflowExecutionCancelRequestedEventAttributes.InitiatedEventId v) [])
       (\<lambda>fields.
     and_then (put_opt 20 (\<lambda>x. Inr (NewValueString W x))
         (ExternalWorkflowExecutionCancelRequestedEventAttributes.Domain v) fields)
       (\<lambda>fields.
     and_then (put_opt 30 (WorkflowExecution_ToWire W)
         (ExternalWorkflowExecutionCancelRequestedEventAttributes.WorkflowExecution v) fields)
       (\<lambda>fields.
     Inr (NewValueStruct W fields))))"

definition ExternalWorkflowExecutionCancelRequestedEventAttributes_FromWire ::
  "'v wire_api \<Rightarrow> 'v \<Rightarrow> ExternalWorkflowExecutionCancelRequestedEventAttributes \<Rightarrow> go_error +
      ExternalWorkflowExecutionCancelRequestedEventAttributes" where
  "ExternalWorkflowExecutionCancelRequestedEventAttributes_FromWire W w v =
     foldM (\<lambda>v (fid, fval).
       if fid = 10 then
         if wire_api.Type W fval = TI64
         then Inr (v\<lparr>ExternalWorkflowExecutionCancelRequestedEventAttributes.InitiatedEventId :=
             Some (GetI64 W fval)\<rparr>)
         else Inr v
       else if fid = 20 then
         if wire_api.Type W fval = TBinary
         then Inr (v\<lparr>ExternalWorkflowExecutionCancelRequestedEventAttributes.Domain := Some
             (GetString W fval)\<rparr>)
         else Inr v
       else if fid = 30 then
         if wire_api.Type W fval = TStruct
         then and_then (WorkflowExecution_Read W fval) (\<lambda>x. Inr
             (v\<lparr>ExternalWorkflowExecutionCancelRequestedEventAttributes.WorkflowExecution := Some
             x\<rparr>))
         else Inr v
       else Inr v) (GetStruct W w) v"

definition ExternalWorkflowExecutionCancelRequestedEventAttributes_Read :: "'v wire_api \<Rightarrow> 'v \<Rightarrow>
    go_error + ExternalWorkflowExecutionCancelRequestedEventAttributes" where
  "ExternalWorkflowExecutionCancelRequestedEventAttributes_Read W w =
      ExternalWorkflowExecutionCancelRequestedEventAttributes_FromWire W w
      ExternalWorkflowExecutionCancelRequestedEventAttributes_zero"

lemma ExternalWorkflowExecutionCancelRequestedEventAttributes_merge:
  "(case x of None \<Rightarrow> Inr \<lparr>ExternalWorkflowExecutionCancelRequestedEventAttributes.InitiatedEventId =
      a0, ExternalWorkflowExecutionCancelRequestedEventAttributes.Domain = a1,
      ExternalWorkflowExecutionCancelRequestedEventAttributes.WorkflowExecution = a2\<rparr> | Some y \<Rightarrow> Inr
      \<lparr>ExternalWorkflowExecutionCancelRequestedEventAttributes.InitiatedEventId = b0 y,
      ExternalWorkflowExecutionCancelRequestedEventAttributes.Domain = b1 y,
      ExternalWorkflowExecutionCancelRequestedEventAttributes.WorkflowExecution = b2 y\<rparr>) =
   Inr \<lparr>ExternalWorkflowExecutionCancelRequestedEventAttributes.InitiatedEventId = (case x of None \<Rightarrow>
       a0 | Some y \<Rightarrow> b0 y), ExternalWorkflowExecutionCancelRequestedEventAttributes.Domain = (case x
       of None \<Rightarrow> a1 | Some y \<Rightarrow> b1 y),
       ExternalWorkflowExecutionCancelRequestedEventAttributes.WorkflowExecution = (case x of None \<Rightarrow>
       a2 | Some y \<Rightarrow> b2 y)\<rparr>"
  by (cases x) simp_all

interpretation ExternalWorkflowExecutionCancelRequestedEventAttributes: thrift_message W
  "ExternalWorkflowExecutionCancelRequestedEventAttributes_ToWire W"
      "ExternalWorkflowExecutionCancelRequestedEventAttributes_FromWire W"
      ExternalWorkflowExecutionCancelRequestedEventAttributes_zero "\<lambda>_. True" for W
proof (rule thrift_messageI)
  fix x :: ExternalWorkflowExecutionCancelRequestedEventAttributes
  assume laws: "wire_laws W"
  obtain enc0 where e0: "WorkflowExecution_ToWire W = (\<lambda>x. Inr (enc0 x))"
      "\<And>x. wire_api.Type W (enc0 x) = TStruct"
      "\<And>x. Writable W (enc0 x) \<longleftrightarrow> (\<lambda>_. True) x"
      "\<And>x. (\<lambda>_. True) x \<Longrightarrow> WorkflowExecution_FromWire W (enc0 x) WorkflowExecution_zero = Inr x"
    by (rule WorkflowExecution.encoder [OF laws]) (rule that)
  show "\<exists>w. ExternalWorkflowExecutionCancelRequestedEventAttributes_ToWire W x = Inr w \<and>
      wire_api.Type W w = TStruct \<and>
      (Writable W w \<longleftrightarrow> (\<lambda>_. True) x) \<and> ((\<lambda>_. True) x \<longrightarrow>
          ExternalWorkflowExecutionCancelRequestedEventAttributes_FromWire W w
          ExternalWorkflowExecutionCancelRequestedEventAttributes_zero = Inr x)"
    by (cases x) (simp cong: option.case_cong add: codec_rules
        ExternalWorkflowExecutionCancelRequestedEventAttributes_merge
        ExternalWorkflowExecutionCancelRequestedEventAttributes_ToWire_def
        ExternalWorkflowExecutionCancelRequestedEventAttributes_FromWire_def
        ExternalWorkflowExecutionCancelRequestedEventAttributes_zero_def WorkflowExecution_Read_def
        laws e0)
qed

definition ExternalWorkflowExecutionCancelRequestedEventAttributes_Equals ::
  "ExternalWorkflowExecutionCancelRequestedEventAttributes option \<Rightarrow>
      ExternalWorkflowExecutionCancelRequestedEventAttributes option \<Rightarrow> bool" where
  "ExternalWorkflowExecutionCancelRequestedEventAttributes_Equals v rhs =
     (case v of None \<Rightarrow> rhs = None
      | Some v \<Rightarrow> (case rhs of None \<Rightarrow> False
        | Some rhs \<Rightarrow>
          if \<not> I64_EqualsPtr
              (ExternalWorkflowExecutionCancelRequestedEventAttributes.InitiatedEventId v)
              (ExternalWorkflowExecutionCancelRequestedEventAttributes.InitiatedEventId rhs) then
              False else
          if \<not> String_EqualsPtr (ExternalWorkflowExecutionCancelRequestedEventAttributes.Domain v)
              (ExternalWorkflowExecutionCancelRequestedEventAttributes.Domain rhs) then False else
          if \<not> both_set_and (\<lambda>x y. WorkflowExecution_Equals (Some x) (Some y))
              (ExternalWorkflowExecutionCancelRequestedEventAttributes.WorkflowExecution v)
              (ExternalWorkflowExecutionCancelRequestedEventAttributes.WorkflowExecution rhs) then
              False else
          True))"

lemma ExternalWorkflowExecutionCancelRequestedEventAttributes_Equals_iff [simp]:
    "ExternalWorkflowExecutionCancelRequestedEventAttributes_Equals x y \<longleftrightarrow> x = y"
  by (cases x; cases y) (auto simp:
      ExternalWorkflowExecutionCancelRequestedEventAttributes_Equals_def)

record ExternalWorkflowExecutionSignaledEventAttributes =
  InitiatedEventId :: "64 word option"
  Domain :: "string option"
  WorkflowExecution :: "WorkflowExecution option"
  Control :: "bytes option"

definition ExternalWorkflowExecutionSignaledEventAttributes_zero ::
    ExternalWorkflowExecutionSignaledEventAttributes where
  "ExternalWorkflowExecutionSignaledEventAttributes_zero =
      \<lparr>ExternalWorkflowExecutionSignaledEventAttributes.InitiatedEventId = None,
      ExternalWorkflowExecutionSignaledEventAttributes.Domain = None,
      ExternalWorkflowExecutionSignaledEventAttributes.WorkflowExecution = None,
      ExternalWorkflowExecutionSignaledEventAttributes.Control = None\<rparr>"

definition ExternalWorkflowExecutionSignaledEventAttributes_ToWire ::
  "'v wire_api \<Rightarrow> ExternalWorkflowExecutionSignaledEventAttributes \<Rightarrow> go_error + 'v" where
  "ExternalWorkflowExecutionSignaledEventAttributes_ToWire W v =
     and_then (put_opt 10 (\<lambda>x. Inr (NewValueI64 W x))
         (ExternalWorkflowExecutionSignaledEventAttributes.InitiatedEventId v) [])
       (\<lambda>fields.
     and_then (put_opt 20 (\<lambda>x. Inr (NewValueString W x))
         (ExternalWorkflowExecutionSignaledEventAttributes.Domain v) fields)
       (\<lambda>fields.
     and_then (put_opt 30 (WorkflowExecution_ToWire W)
         (ExternalWorkflowExecutionSignaledEventAttributes.WorkflowExecution v) fields)
       (\<lambda>fields.
     and_then (put_opt 40 (\<lambda>x. Inr (NewValueBinary W x))
         (ExternalWorkflowExecutionSignaledEventAttributes.Control v) fields)
       (\<lambda>fields.
     Inr (NewValueStruct W fields)))))"

definition ExternalWorkflowExecutionSignaledEventAttributes_FromWire ::
  "'v wire_api \<Rightarrow> 'v \<Rightarrow> ExternalWorkflowExecutionSignaledEventAttributes \<Rightarrow> go_error +
      ExternalWorkflowExecutionSignaledEventAttributes" where
  "ExternalWorkflowExecutionSignaledEventAttributes_FromWire W w v =
     foldM (\<lambda>v (fid, fval).
       if fid = 10 then
         if wire_api.Type W fval = TI64
         then Inr (v\<lparr>ExternalWorkflowExecutionSignaledEventAttributes.InitiatedEventId := Some
             (GetI64 W fval)\<rparr>)
         else Inr v
       else if fid = 20 then
         if wire_api.Type W fval = TBinary
         then Inr (v\<lparr>ExternalWorkflowExecutionSignaledEventAttributes.Domain := Some (GetString W
             fval)\<rparr>)
         else Inr v
       else if fid = 30 then
         if wire_api.Type W fval = TStruct
         then and_then (WorkflowExecution_Read W fval) (\<lambda>x. Inr
             (v\<lparr>ExternalWorkflowExecutionSignaledEventAttributes.WorkflowExecution := Some x\<rparr>))
         else Inr v
       else if fid = 40 then
         if wire_api.Type W fval = TBinary
         then Inr (v\<lparr>ExternalWorkflowExecutionSignaledEventAttributes.Control := Some (GetBinary W
             fval)\<rparr>)
         else Inr v
       else Inr v) (GetStruct W w) v"

definition ExternalWorkflowExecutionSignaledEventAttributes_Read :: "'v wire_api \<Rightarrow> 'v \<Rightarrow> go_error +
    ExternalWorkflowExecutionSignaledEventAttributes" where
  "ExternalWorkflowExecutionSignaledEventAttributes_Read W w =
      ExternalWorkflowExecutionSignaledEventAttributes_FromWire W w
      ExternalWorkflowExecutionSignaledEventAttributes_zero"

lemma ExternalWorkflowExecutionSignaledEventAttributes_merge:
  "(case x of None \<Rightarrow> Inr \<lparr>ExternalWorkflowExecutionSignaledEventAttributes.InitiatedEventId = a0,
      ExternalWorkflowExecutionSignaledEventAttributes.Domain = a1,
      ExternalWorkflowExecutionSignaledEventAttributes.WorkflowExecution = a2,
      ExternalWorkflowExecutionSignaledEventAttributes.Control = a3\<rparr> | Some y \<Rightarrow> Inr
      \<lparr>ExternalWorkflowExecutionSignaledEventAttributes.InitiatedEventId = b0 y,
      ExternalWorkflowExecutionSignaledEventAttributes.Domain = b1 y,
      ExternalWorkflowExecutionSignaledEventAttributes.WorkflowExecution = b2 y,
      ExternalWorkflowExecutionSignaledEventAttributes.Control = b3 y\<rparr>) =
   Inr \<lparr>ExternalWorkflowExecutionSignaledEventAttributes.InitiatedEventId = (case x of None \<Rightarrow> a0 |
       Some y \<Rightarrow> b0 y), ExternalWorkflowExecutionSignaledEventAttributes.Domain = (case x of None \<Rightarrow>
       a1 | Some y \<Rightarrow> b1 y), ExternalWorkflowExecutionSignaledEventAttributes.WorkflowExecution =
       (case x of None \<Rightarrow> a2 | Some y \<Rightarrow> b2 y),
       ExternalWorkflowExecutionSignaledEventAttributes.Control = (case x of None \<Rightarrow> a3 | Some y \<Rightarrow> b3
       y)\<rparr>"
  by (cases x) simp_all

interpretation ExternalWorkflowExecutionSignaledEventAttributes: thrift_message W
  "ExternalWorkflowExecutionSignaledEventAttributes_ToWire W"
      "ExternalWorkflowExecutionSignaledEventAttributes_FromWire W"
      ExternalWorkflowExecutionSignaledEventAttributes_zero "\<lambda>_. True" for W
proof (rule thrift_messageI)
  fix x :: ExternalWorkflowExecutionSignaledEventAttributes
  assume laws: "wire_laws W"
  obtain enc0 where e0: "WorkflowExecution_ToWire W = (\<lambda>x. Inr (enc0 x))"
      "\<And>x. wire_api.Type W (enc0 x) = TStruct"
      "\<And>x. Writable W (enc0 x) \<longleftrightarrow> (\<lambda>_. True) x"
      "\<And>x. (\<lambda>_. True) x \<Longrightarrow> WorkflowExecution_FromWire W (enc0 x) WorkflowExecution_zero = Inr x"
    by (rule WorkflowExecution.encoder [OF laws]) (rule that)
  show "\<exists>w. ExternalWorkflowExecutionSignaledEventAttributes_ToWire W x = Inr w \<and> wire_api.Type W w
      = TStruct \<and>
      (Writable W w \<longleftrightarrow> (\<lambda>_. True) x) \<and> ((\<lambda>_. True) x \<longrightarrow>
          ExternalWorkflowExecutionSignaledEventAttributes_FromWire W w
          ExternalWorkflowExecutionSignaledEventAttributes_zero = Inr x)"
    by (cases x) (simp cong: option.case_cong add: codec_rules
        ExternalWorkflowExecutionSignaledEventAttributes_merge
        ExternalWorkflowExecutionSignaledEventAttributes_ToWire_def
        ExternalWorkflowExecutionSignaledEventAttributes_FromWire_def
        ExternalWorkflowExecutionSignaledEventAttributes_zero_def WorkflowExecution_Read_def laws
        e0)
qed

definition ExternalWorkflowExecutionSignaledEventAttributes_Equals ::
  "ExternalWorkflowExecutionSignaledEventAttributes option \<Rightarrow>
      ExternalWorkflowExecutionSignaledEventAttributes option \<Rightarrow> bool" where
  "ExternalWorkflowExecutionSignaledEventAttributes_Equals v rhs =
     (case v of None \<Rightarrow> rhs = None
      | Some v \<Rightarrow> (case rhs of None \<Rightarrow> False
        | Some rhs \<Rightarrow>
          if \<not> I64_EqualsPtr (ExternalWorkflowExecutionSignaledEventAttributes.InitiatedEventId v)
              (ExternalWorkflowExecutionSignaledEventAttributes.InitiatedEventId rhs) then False
              else
          if \<not> String_EqualsPtr (ExternalWorkflowExecutionSignaledEventAttributes.Domain v)
              (ExternalWorkflowExecutionSignaledEventAttributes.Domain rhs) then False else
          if \<not> both_set_and (\<lambda>x y. WorkflowExecution_Equals (Some x) (Some y))
              (ExternalWorkflowExecutionSignaledEventAttributes.WorkflowExecution v)
              (ExternalWorkflowExecutionSignaledEventAttributes.WorkflowExecution rhs) then False
              else
          if \<not> both_set_and (=) (ExternalWorkflowExecutionSignaledEventAttributes.Control v)
              (ExternalWorkflowExecutionSignaledEventAttributes.Control rhs) then False else
          True))"

lemma ExternalWorkflowExecutionSignaledEventAttributes_Equals_iff [simp]:
    "ExternalWorkflowExecutionSignaledEventAttributes_Equals x y \<longleftrightarrow> x = y"
  by (cases x; cases y) (auto simp: ExternalWorkflowExecutionSignaledEventAttributes_Equals_def)

record MarkerRecordedEventAttributes =
  MarkerName :: "string option"
  Details :: "bytes option"
  DecisionTaskCompletedEventId :: "64 word option"
  Header :: "Header option"

definition MarkerRecordedEventAttributes_zero :: MarkerRecordedEventAttributes where
  "MarkerRecordedEventAttributes_zero = \<lparr>MarkerRecordedEventAttributes.MarkerName = None,
      MarkerRecordedEventAttributes.Details = None,
      MarkerRecordedEventAttributes.DecisionTaskCompletedEventId = None,
      MarkerRecordedEventAttributes.Header = None\<rparr>"

definition MarkerRecordedEventAttributes_ToWire ::
  "'v wire_api \<Rightarrow> MarkerRecordedEventAttributes \<Rightarrow> go_error + 'v" where
  "MarkerRecordedEventAttributes_ToWire W v =
     and_then (put_opt 10 (\<lambda>x. Inr (NewValueString W x)) (MarkerRecordedEventAttributes.MarkerName
         v) [])
       (\<lambda>fields.
     and_then (put_opt 20 (\<lambda>x. Inr (NewValueBinary W x)) (MarkerRecordedEventAttributes.Details v)
         fields)
       (\<lambda>fields.
     and_then (put_opt 30 (\<lambda>x. Inr (NewValueI64 W x))
         (MarkerRecordedEventAttributes.DecisionTaskCompletedEventId v) fields)
       (\<lambda>fields.
     and_then (put_opt 40 (Header_ToWire W) (MarkerRecordedEventAttributes.Header v) fields)
       (\<lambda>fields.
     Inr (NewValueStruct W fields)))))"

definition MarkerRecordedEventAttributes_FromWire ::
  "'v wire_api \<Rightarrow> 'v \<Rightarrow> MarkerRecordedEventAttributes \<Rightarrow> go_error + MarkerRecordedEventAttributes"
      where
  "MarkerRecordedEventAttributes_FromWire W w v =
     foldM (\<lambda>v (fid, fval).
       if fid = 10 then
         if wire_api.Type W fval = TBinary
         then Inr (v\<lparr>MarkerRecordedEventAttributes.MarkerName := Some (GetString W fval)\<rparr>)
         else Inr v
       else if fid = 20 then
         if wire_api.Type W fval = TBinary
         then Inr (v\<lparr>MarkerRecordedEventAttributes.Details := Some (GetBinary W fval)\<rparr>)
         else Inr v
       else if fid = 30 then
         if wire_api.Type W fval = TI64
         then Inr (v\<lparr>MarkerRecordedEventAttributes.DecisionTaskCompletedEventId := Some (GetI64 W
             fval)\<rparr>)
         else Inr v
       else if fid = 40 then
         if wire_api.Type W fval = TStruct
         then and_then (Header_Read W fval) (\<lambda>x. Inr (v\<lparr>MarkerRecordedEventAttributes.Header := Some
             x\<rparr>))
         else Inr v
       else Inr v) (GetStruct W w) v"

definition MarkerRecordedEventAttributes_Read :: "'v wire_api \<Rightarrow> 'v \<Rightarrow> go_error +
    MarkerRecordedEventAttributes" where
  "MarkerRecordedEventAttributes_Read W w = MarkerRecordedEventAttributes_FromWire W w
      MarkerRecordedEventAttributes_zero"

definition MarkerRecordedEventAttributes_complete :: "MarkerRecordedEventAttributes \<Rightarrow> bool" where
  "MarkerRecordedEventAttributes_complete v \<longleftrightarrow>
     if_set Header_complete (MarkerRecordedEventAttributes.Header v)"

lemma MarkerRecordedEventAttributes_merge:
  "(case x of None \<Rightarrow> Inr \<lparr>MarkerRecordedEventAttributes.MarkerName = a0,
      MarkerRecordedEventAttributes.Details = a1,
      MarkerRecordedEventAttributes.DecisionTaskCompletedEventId = a2,
      MarkerRecordedEventAttributes.Header = a3\<rparr> | Some y \<Rightarrow> Inr
      \<lparr>MarkerRecordedEventAttributes.MarkerName = b0 y, MarkerRecordedEventAttributes.Details = b1
      y, MarkerRecordedEventAttributes.DecisionTaskCompletedEventId = b2 y,
      MarkerRecordedEventAttributes.Header = b3 y\<rparr>) =
   Inr \<lparr>MarkerRecordedEventAttributes.MarkerName = (case x of None \<Rightarrow> a0 | Some y \<Rightarrow> b0 y),
       MarkerRecordedEventAttributes.Details = (case x of None \<Rightarrow> a1 | Some y \<Rightarrow> b1 y),
       MarkerRecordedEventAttributes.DecisionTaskCompletedEventId = (case x of None \<Rightarrow> a2 | Some y \<Rightarrow>
       b2 y), MarkerRecordedEventAttributes.Header = (case x of None \<Rightarrow> a3 | Some y \<Rightarrow> b3 y)\<rparr>"
  by (cases x) simp_all

interpretation MarkerRecordedEventAttributes: thrift_message W
  "MarkerRecordedEventAttributes_ToWire W" "MarkerRecordedEventAttributes_FromWire W"
      MarkerRecordedEventAttributes_zero "MarkerRecordedEventAttributes_complete" for W
proof (rule thrift_messageI)
  fix x :: MarkerRecordedEventAttributes
  assume laws: "wire_laws W"
  obtain enc0 where e0: "Header_ToWire W = (\<lambda>x. Inr (enc0 x))"
      "\<And>x. wire_api.Type W (enc0 x) = TStruct"
      "\<And>x. Writable W (enc0 x) \<longleftrightarrow> Header_complete x"
      "\<And>x. Header_complete x \<Longrightarrow> Header_FromWire W (enc0 x) Header_zero = Inr x"
    by (rule Header.encoder [OF laws]) (rule that)
  show "\<exists>w. MarkerRecordedEventAttributes_ToWire W x = Inr w \<and> wire_api.Type W w = TStruct \<and>
      (Writable W w \<longleftrightarrow> MarkerRecordedEventAttributes_complete x) \<and>
          (MarkerRecordedEventAttributes_complete x \<longrightarrow> MarkerRecordedEventAttributes_FromWire W w
          MarkerRecordedEventAttributes_zero = Inr x)"
    by (cases x) (simp cong: option.case_cong add: codec_rules MarkerRecordedEventAttributes_merge
        MarkerRecordedEventAttributes_ToWire_def MarkerRecordedEventAttributes_FromWire_def
        MarkerRecordedEventAttributes_zero_def MarkerRecordedEventAttributes_complete_def if_set_def
        Header_Read_def laws e0)
qed

definition MarkerRecordedEventAttributes_Equals ::
  "MarkerRecordedEventAttributes option \<Rightarrow> MarkerRecordedEventAttributes option \<Rightarrow> bool" where
  "MarkerRecordedEventAttributes_Equals v rhs =
     (case v of None \<Rightarrow> rhs = None
      | Some v \<Rightarrow> (case rhs of None \<Rightarrow> False
        | Some rhs \<Rightarrow>
          if \<not> String_EqualsPtr (MarkerRecordedEventAttributes.MarkerName v)
              (MarkerRecordedEventAttributes.MarkerName rhs) then False else
          if \<not> both_set_and (=) (MarkerRecordedEventAttributes.Details v)
              (MarkerRecordedEventAttributes.Details rhs) then False else
          if \<not> I64_EqualsPtr (MarkerRecordedEventAttributes.DecisionTaskCompletedEventId v)
              (MarkerRecordedEventAttributes.DecisionTaskCompletedEventId rhs) then False else
          if \<not> both_set_and (\<lambda>x y. Header_Equals (Some x) (Some y))
              (MarkerRecordedEventAttributes.Header v) (MarkerRecordedEventAttributes.Header rhs)
              then False else
          True))"

definition MarkerRecordedEventAttributes_comparable :: "MarkerRecordedEventAttributes \<Rightarrow> bool" where
  "MarkerRecordedEventAttributes_comparable v \<longleftrightarrow>
     if_set Header_comparable (MarkerRecordedEventAttributes.Header v)"

lemma MarkerRecordedEventAttributes_Equals_iff:
  "if_set MarkerRecordedEventAttributes_comparable x \<Longrightarrow> if_set
      MarkerRecordedEventAttributes_comparable y \<Longrightarrow> MarkerRecordedEventAttributes_Equals x y \<longleftrightarrow> x = y"
  by (cases x; cases y) (simp_all add: MarkerRecordedEventAttributes_Equals_def
      MarkerRecordedEventAttributes_comparable_def if_not_False,
    fastforce intro: MarkerRecordedEventAttributes.equality)

lemma MarkerRecordedEventAttributes_fields_equal [simp]:
  "if_set MarkerRecordedEventAttributes_comparable x \<Longrightarrow> if_set
      MarkerRecordedEventAttributes_comparable y \<Longrightarrow>
    both_set_and (\<lambda>x y. MarkerRecordedEventAttributes_Equals (Some x) (Some y)) x y \<longleftrightarrow> x = y"
  by (rule both_set_and_iff [where P = MarkerRecordedEventAttributes_comparable]) (simp_all add:
      MarkerRecordedEventAttributes_Equals_iff)

record RequestCancelExternalWorkflowExecutionFailedEventAttributes =
  Cause :: "CancelExternalWorkflowExecutionFailedCause option"
  DecisionTaskCompletedEventId :: "64 word option"
  Domain :: "string option"
  WorkflowExecution :: "WorkflowExecution option"
  InitiatedEventId :: "64 word option"
  Control :: "bytes option"

definition RequestCancelExternalWorkflowExecutionFailedEventAttributes_zero ::
    RequestCancelExternalWorkflowExecutionFailedEventAttributes where
  "RequestCancelExternalWorkflowExecutionFailedEventAttributes_zero =
      \<lparr>RequestCancelExternalWorkflowExecutionFailedEventAttributes.Cause = None,
      RequestCancelExternalWorkflowExecutionFailedEventAttributes.DecisionTaskCompletedEventId =
      None, RequestCancelExternalWorkflowExecutionFailedEventAttributes.Domain = None,
      RequestCancelExternalWorkflowExecutionFailedEventAttributes.WorkflowExecution = None,
      RequestCancelExternalWorkflowExecutionFailedEventAttributes.InitiatedEventId = None,
      RequestCancelExternalWorkflowExecutionFailedEventAttributes.Control = None\<rparr>"

definition RequestCancelExternalWorkflowExecutionFailedEventAttributes_ToWire ::
  "'v wire_api \<Rightarrow> RequestCancelExternalWorkflowExecutionFailedEventAttributes \<Rightarrow> go_error + 'v" where
  "RequestCancelExternalWorkflowExecutionFailedEventAttributes_ToWire W v =
     and_then (put_opt 10 (CancelExternalWorkflowExecutionFailedCause_ToWire W)
         (RequestCancelExternalWorkflowExecutionFailedEventAttributes.Cause v) [])
       (\<lambda>fields.
     and_then (put_opt 20 (\<lambda>x. Inr (NewValueI64 W x))
         (RequestCancelExternalWorkflowExecutionFailedEventAttributes.DecisionTaskCompletedEventId
         v) fields)
       (\<lambda>fields.
     and_then (put_opt 30 (\<lambda>x. Inr (NewValueString W x))
         (RequestCancelExternalWorkflowExecutionFailedEventAttributes.Domain v) fields)
       (\<lambda>fields.
     and_then (put_opt 40 (WorkflowExecution_ToWire W)
         (RequestCancelExternalWorkflowExecutionFailedEventAttributes.WorkflowExecution v) fields)
       (\<lambda>fields.
     and_then (put_opt 50 (\<lambda>x. Inr (NewValueI64 W x))
         (RequestCancelExternalWorkflowExecutionFailedEventAttributes.InitiatedEventId v) fields)
       (\<lambda>fields.
     and_then (put_opt 60 (\<lambda>x. Inr (NewValueBinary W x))
         (RequestCancelExternalWorkflowExecutionFailedEventAttributes.Control v) fields)
       (\<lambda>fields.
     Inr (NewValueStruct W fields)))))))"

definition RequestCancelExternalWorkflowExecutionFailedEventAttributes_FromWire ::
  "'v wire_api \<Rightarrow> 'v \<Rightarrow> RequestCancelExternalWorkflowExecutionFailedEventAttributes \<Rightarrow> go_error +
      RequestCancelExternalWorkflowExecutionFailedEventAttributes" where
  "RequestCancelExternalWorkflowExecutionFailedEventAttributes_FromWire W w v =
     foldM (\<lambda>v (fid, fval).
       if fid = 10 then
         if wire_api.Type W fval = TI32
         then and_then (CancelExternalWorkflowExecutionFailedCause_Read W fval) (\<lambda>x. Inr
             (v\<lparr>RequestCancelExternalWorkflowExecutionFailedEventAttributes.Cause := Some x\<rparr>))
         else Inr v
       else if fid = 20 then
         if wire_api.Type W fval = TI64
         then Inr
             (v\<lparr>RequestCancelExternalWorkflowExecutionFailedEventAttributes.DecisionTaskCompletedEventId := Some (GetI64 W fval)\<rparr>)
         else Inr v
       else if fid = 30 then
         if wire_api.Type W fval = TBinary
         then Inr (v\<lparr>RequestCancelExternalWorkflowExecutionFailedEventAttributes.Domain := Some
             (GetString W fval)\<rparr>)
         else Inr v
       else if fid = 40 then
         if wire_api.Type W fval = TStruct
         then and_then (WorkflowExecution_Read W fval) (\<lambda>x. Inr
             (v\<lparr>RequestCancelExternalWorkflowExecutionFailedEventAttributes.WorkflowExecution :=
             Some x\<rparr>))
         else Inr v
       else if fid = 50 then
         if wire_api.Type W fval = TI64
         then Inr (v\<lparr>RequestCancelExternalWorkflowExecutionFailedEventAttributes.InitiatedEventId :=
             Some (GetI64 W fval)\<rparr>)
         else Inr v
       else if fid = 60 then
         if wire_api.Type W fval = TBinary
         then Inr (v\<lparr>RequestCancelExternalWorkflowExecutionFailedEventAttributes.Control := Some
             (GetBinary W fval)\<rparr>)
         else Inr v
       else Inr v) (GetStruct W w) v"

definition RequestCancelExternalWorkflowExecutionFailedEventAttributes_Read :: "'v wire_api \<Rightarrow> 'v \<Rightarrow>
    go_error + RequestCancelExternalWorkflowExecutionFailedEventAttributes" where
  "RequestCancelExternalWorkflowExecutionFailedEventAttributes_Read W w =
      RequestCancelExternalWorkflowExecutionFailedEventAttributes_FromWire W w
      RequestCancelExternalWorkflowExecutionFailedEventAttributes_zero"

lemma RequestCancelExternalWorkflowExecutionFailedEventAttributes_merge:
  "(case x of None \<Rightarrow> Inr \<lparr>RequestCancelExternalWorkflowExecutionFailedEventAttributes.Cause = a0,
      RequestCancelExternalWorkflowExecutionFailedEventAttributes.DecisionTaskCompletedEventId = a1,
      RequestCancelExternalWorkflowExecutionFailedEventAttributes.Domain = a2,
      RequestCancelExternalWorkflowExecutionFailedEventAttributes.WorkflowExecution = a3,
      RequestCancelExternalWorkflowExecutionFailedEventAttributes.InitiatedEventId = a4,
      RequestCancelExternalWorkflowExecutionFailedEventAttributes.Control = a5\<rparr> | Some y \<Rightarrow> Inr
      \<lparr>RequestCancelExternalWorkflowExecutionFailedEventAttributes.Cause = b0 y,
      RequestCancelExternalWorkflowExecutionFailedEventAttributes.DecisionTaskCompletedEventId = b1
      y, RequestCancelExternalWorkflowExecutionFailedEventAttributes.Domain = b2 y,
      RequestCancelExternalWorkflowExecutionFailedEventAttributes.WorkflowExecution = b3 y,
      RequestCancelExternalWorkflowExecutionFailedEventAttributes.InitiatedEventId = b4 y,
      RequestCancelExternalWorkflowExecutionFailedEventAttributes.Control = b5 y\<rparr>) =
   Inr \<lparr>RequestCancelExternalWorkflowExecutionFailedEventAttributes.Cause = (case x of None \<Rightarrow> a0 |
       Some y \<Rightarrow> b0 y),
       RequestCancelExternalWorkflowExecutionFailedEventAttributes.DecisionTaskCompletedEventId =
       (case x of None \<Rightarrow> a1 | Some y \<Rightarrow> b1 y),
       RequestCancelExternalWorkflowExecutionFailedEventAttributes.Domain = (case x of None \<Rightarrow> a2 |
       Some y \<Rightarrow> b2 y), RequestCancelExternalWorkflowExecutionFailedEventAttributes.WorkflowExecution
       = (case x of None \<Rightarrow> a3 | Some y \<Rightarrow> b3 y),
       RequestCancelExternalWorkflowExecutionFailedEventAttributes.InitiatedEventId = (case x of
       None \<Rightarrow> a4 | Some y \<Rightarrow> b4 y),
       RequestCancelExternalWorkflowExecutionFailedEventAttributes.Control = (case x of None \<Rightarrow> a5 |
       Some y \<Rightarrow> b5 y)\<rparr>"
  by (cases x) simp_all

interpretation RequestCancelExternalWorkflowExecutionFailedEventAttributes: thrift_message W
  "RequestCancelExternalWorkflowExecutionFailedEventAttributes_ToWire W"
      "RequestCancelExternalWorkflowExecutionFailedEventAttributes_FromWire W"
      RequestCancelExternalWorkflowExecutionFailedEventAttributes_zero "\<lambda>_. True" for W
proof (rule thrift_messageI)
  fix x :: RequestCancelExternalWorkflowExecutionFailedEventAttributes
  assume laws: "wire_laws W"
  obtain enc0 where e0: "WorkflowExecution_ToWire W = (\<lambda>x. Inr (enc0 x))"
      "\<And>x. wire_api.Type W (enc0 x) = TStruct"
      "\<And>x. Writable W (enc0 x) \<longleftrightarrow> (\<lambda>_. True) x"
      "\<And>x. (\<lambda>_. True) x \<Longrightarrow> WorkflowExecution_FromWire W (enc0 x) WorkflowExecution_zero = Inr x"
    by (rule WorkflowExecution.encoder [OF laws]) (rule that)
  show "\<exists>w. RequestCancelExternalWorkflowExecutionFailedEventAttributes_ToWire W x = Inr w \<and>
      wire_api.Type W w = TStruct \<and>
      (Writable W w \<longleftrightarrow> (\<lambda>_. True) x) \<and> ((\<lambda>_. True) x \<longrightarrow>
          RequestCancelExternalWorkflowExecutionFailedEventAttributes_FromWire W w
          RequestCancelExternalWorkflowExecutionFailedEventAttributes_zero = Inr x)"
    by (cases x) (simp cong: option.case_cong add: codec_rules
        RequestCancelExternalWorkflowExecutionFailedEventAttributes_merge
        RequestCancelExternalWorkflowExecutionFailedEventAttributes_ToWire_def
        RequestCancelExternalWorkflowExecutionFailedEventAttributes_FromWire_def
        RequestCancelExternalWorkflowExecutionFailedEventAttributes_zero_def
        CancelExternalWorkflowExecutionFailedCause_enc
        CancelExternalWorkflowExecutionFailedCause_Read_def
        CancelExternalWorkflowExecutionFailedCause_FromWire_def WorkflowExecution_Read_def laws e0)
qed

definition RequestCancelExternalWorkflowExecutionFailedEventAttributes_Equals ::
  "RequestCancelExternalWorkflowExecutionFailedEventAttributes option \<Rightarrow>
      RequestCancelExternalWorkflowExecutionFailedEventAttributes option \<Rightarrow> bool" where
  "RequestCancelExternalWorkflowExecutionFailedEventAttributes_Equals v rhs =
     (case v of None \<Rightarrow> rhs = None
      | Some v \<Rightarrow> (case rhs of None \<Rightarrow> False
        | Some rhs \<Rightarrow>
          if \<not> CancelExternalWorkflowExecutionFailedCause_EqualsPtr
              (RequestCancelExternalWorkflowExecutionFailedEventAttributes.Cause v)
              (RequestCancelExternalWorkflowExecutionFailedEventAttributes.Cause rhs) then False
              else
          if \<not> I64_EqualsPtr
              (RequestCancelExternalWorkflowExecutionFailedEventAttributes.DecisionTaskCompletedEventId v) (RequestCancelExternalWorkflowExecutionFailedEventAttributes.DecisionTaskCompletedEventId rhs) then False else
          if \<not> String_EqualsPtr (RequestCancelExternalWorkflowExecutionFailedEventAttributes.Domain
              v) (RequestCancelExternalWorkflowExecutionFailedEventAttributes.Domain rhs) then False
              else
          if \<not> both_set_and (\<lambda>x y. WorkflowExecution_Equals (Some x) (Some y))
              (RequestCancelExternalWorkflowExecutionFailedEventAttributes.WorkflowExecution v)
              (RequestCancelExternalWorkflowExecutionFailedEventAttributes.WorkflowExecution rhs)
              then False else
          if \<not> I64_EqualsPtr
              (RequestCancelExternalWorkflowExecutionFailedEventAttributes.InitiatedEventId v)
              (RequestCancelExternalWorkflowExecutionFailedEventAttributes.InitiatedEventId rhs)
              then False else
          if \<not> both_set_and (=) (RequestCancelExternalWorkflowExecutionFailedEventAttributes.Control
              v) (RequestCancelExternalWorkflowExecutionFailedEventAttributes.Control rhs) then
              False else
          True))"

lemma RequestCancelExternalWorkflowExecutionFailedEventAttributes_Equals_iff [simp]:
    "RequestCancelExternalWorkflowExecutionFailedEventAttributes_Equals x y \<longleftrightarrow> x = y"
  by (cases x; cases y) (simp_all add:
      RequestCancelExternalWorkflowExecutionFailedEventAttributes_Equals_def if_not_False, fastforce
      intro: RequestCancelExternalWorkflowExecutionFailedEventAttributes.equality)

record RequestCancelExternalWorkflowExecutionInitiatedEventAttributes =
  DecisionTaskCompletedEventId :: "64 word option"
  Domain :: "string option"
  WorkflowExecution :: "WorkflowExecution option"
  Control :: "bytes option"
  ChildWorkflowOnly :: "bool option"

definition RequestCancelExternalWorkflowExecutionInitiatedEventAttributes_zero ::
    RequestCancelExternalWorkflowExecutionInitiatedEventAttributes where
  "RequestCancelExternalWorkflowExecutionInitiatedEventAttributes_zero =
      \<lparr>RequestCancelExternalWorkflowExecutionInitiatedEventAttributes.DecisionTaskCompletedEventId =
      None, RequestCancelExternalWorkflowExecutionInitiatedEventAttributes.Domain = None,
      RequestCancelExternalWorkflowExecutionInitiatedEventAttributes.WorkflowExecution = None,
      RequestCancelExternalWorkflowExecutionInitiatedEventAttributes.Control = None,
      RequestCancelExternalWorkflowExecutionInitiatedEventAttributes.ChildWorkflowOnly = None\<rparr>"

definition RequestCancelExternalWorkflowExecutionInitiatedEventAttributes_ToWire ::
  "'v wire_api \<Rightarrow> RequestCancelExternalWorkflowExecutionInitiatedEventAttributes \<Rightarrow> go_error + 'v"
      where
  "RequestCancelExternalWorkflowExecutionInitiatedEventAttributes_ToWire W v =
     and_then (put_opt 10 (\<lambda>x. Inr (NewValueI64 W x))
         (RequestCancelExternalWorkflowExecutionInitiatedEventAttributes.DecisionTaskCompletedEventId v) [])
       (\<lambda>fields.
     and_then (put_opt 20 (\<lambda>x. Inr (NewValueString W x))
         (RequestCancelExternalWorkflowExecutionInitiatedEventAttributes.Domain v) fields)
       (\<lambda>fields.
     and_then (put_opt 30 (WorkflowExecution_ToWire W)
         (RequestCancelExternalWorkflowExecutionInitiatedEventAttributes.WorkflowExecution v)
         fields)
       (\<lambda>fields.
     and_then (put_opt 40 (\<lambda>x. Inr (NewValueBinary W x))
         (RequestCancelExternalWorkflowExecutionInitiatedEventAttributes.Control v) fields)
       (\<lambda>fields.
     and_then (put_opt 50 (\<lambda>x. Inr (NewValueBool W x))
         (RequestCancelExternalWorkflowExecutionInitiatedEventAttributes.ChildWorkflowOnly v)
         fields)
       (\<lambda>fields.
     Inr (NewValueStruct W fields))))))"

definition RequestCancelExternalWorkflowExecutionInitiatedEventAttributes_FromWire ::
  "'v wire_api \<Rightarrow> 'v \<Rightarrow> RequestCancelExternalWorkflowExecutionInitiatedEventAttributes \<Rightarrow> go_error +
      RequestCancelExternalWorkflowExecutionInitiatedEventAttributes" where
  "RequestCancelExternalWorkflowExecutionInitiatedEventAttributes_FromWire W w v =
     foldM (\<lambda>v (fid, fval).
       if fid = 10 then
         if wire_api.Type W fval = TI64
         then Inr
             (v\<lparr>RequestCancelExternalWorkflowExecutionInitiatedEventAttributes.DecisionTaskCompletedEventId := Some (GetI64 W fval)\<rparr>)
         else Inr v
       else if fid = 20 then
         if wire_api.Type W fval = TBinary
         then Inr (v\<lparr>RequestCancelExternalWorkflowExecutionInitiatedEventAttributes.Domain := Some
             (GetString W fval)\<rparr>)
         else Inr v
       else if fid = 30 then
         if wire_api.Type W fval = TStruct
         then and_then (WorkflowExecution_Read W fval) (\<lambda>x. Inr
             (v\<lparr>RequestCancelExternalWorkflowExecutionInitiatedEventAttributes.WorkflowExecution :=
             Some x\<rparr>))
         else Inr v
       else if fid = 40 then
         if wire_api.Type W fval = TBinary
         then Inr (v\<lparr>RequestCancelExternalWorkflowExecutionInitiatedEventAttributes.Control := Some
             (GetBinary W fval)\<rparr>)
         else Inr v
       else if fid = 50 then
         if wire_api.Type W fval = TBool
         then Inr
             (v\<lparr>RequestCancelExternalWorkflowExecutionInitiatedEventAttributes.ChildWorkflowOnly :=
             Some (GetBool W fval)\<rparr>)
         else Inr v
       else Inr v) (GetStruct W w) v"

definition RequestCancelExternalWorkflowExecutionInitiatedEventAttributes_Read :: "'v wire_api \<Rightarrow> 'v
    \<Rightarrow> go_error + RequestCancelExternalWorkflowExecutionInitiatedEventAttributes" where
  "RequestCancelExternalWorkflowExecutionInitiatedEventAttributes_Read W w =
      RequestCancelExternalWorkflowExecutionInitiatedEventAttributes_FromWire W w
      RequestCancelExternalWorkflowExecutionInitiatedEventAttributes_zero"

lemma RequestCancelExternalWorkflowExecutionInitiatedEventAttributes_merge:
  "(case x of None \<Rightarrow> Inr
      \<lparr>RequestCancelExternalWorkflowExecutionInitiatedEventAttributes.DecisionTaskCompletedEventId =
      a0, RequestCancelExternalWorkflowExecutionInitiatedEventAttributes.Domain = a1,
      RequestCancelExternalWorkflowExecutionInitiatedEventAttributes.WorkflowExecution = a2,
      RequestCancelExternalWorkflowExecutionInitiatedEventAttributes.Control = a3,
      RequestCancelExternalWorkflowExecutionInitiatedEventAttributes.ChildWorkflowOnly = a4\<rparr> | Some
      y \<Rightarrow> Inr
      \<lparr>RequestCancelExternalWorkflowExecutionInitiatedEventAttributes.DecisionTaskCompletedEventId =
      b0 y, RequestCancelExternalWorkflowExecutionInitiatedEventAttributes.Domain = b1 y,
      RequestCancelExternalWorkflowExecutionInitiatedEventAttributes.WorkflowExecution = b2 y,
      RequestCancelExternalWorkflowExecutionInitiatedEventAttributes.Control = b3 y,
      RequestCancelExternalWorkflowExecutionInitiatedEventAttributes.ChildWorkflowOnly = b4 y\<rparr>) =
   Inr \<lparr>RequestCancelExternalWorkflowExecutionInitiatedEventAttributes.DecisionTaskCompletedEventId
       = (case x of None \<Rightarrow> a0 | Some y \<Rightarrow> b0 y),
       RequestCancelExternalWorkflowExecutionInitiatedEventAttributes.Domain = (case x of None \<Rightarrow> a1
       | Some y \<Rightarrow> b1 y),
       RequestCancelExternalWorkflowExecutionInitiatedEventAttributes.WorkflowExecution = (case x of
       None \<Rightarrow> a2 | Some y \<Rightarrow> b2 y),
       RequestCancelExternalWorkflowExecutionInitiatedEventAttributes.Control = (case x of None \<Rightarrow> a3
       | Some y \<Rightarrow> b3 y),
       RequestCancelExternalWorkflowExecutionInitiatedEventAttributes.ChildWorkflowOnly = (case x of
       None \<Rightarrow> a4 | Some y \<Rightarrow> b4 y)\<rparr>"
  by (cases x) simp_all

interpretation RequestCancelExternalWorkflowExecutionInitiatedEventAttributes: thrift_message W
  "RequestCancelExternalWorkflowExecutionInitiatedEventAttributes_ToWire W"
      "RequestCancelExternalWorkflowExecutionInitiatedEventAttributes_FromWire W"
      RequestCancelExternalWorkflowExecutionInitiatedEventAttributes_zero "\<lambda>_. True" for W
proof (rule thrift_messageI)
  fix x :: RequestCancelExternalWorkflowExecutionInitiatedEventAttributes
  assume laws: "wire_laws W"
  obtain enc0 where e0: "WorkflowExecution_ToWire W = (\<lambda>x. Inr (enc0 x))"
      "\<And>x. wire_api.Type W (enc0 x) = TStruct"
      "\<And>x. Writable W (enc0 x) \<longleftrightarrow> (\<lambda>_. True) x"
      "\<And>x. (\<lambda>_. True) x \<Longrightarrow> WorkflowExecution_FromWire W (enc0 x) WorkflowExecution_zero = Inr x"
    by (rule WorkflowExecution.encoder [OF laws]) (rule that)
  show "\<exists>w. RequestCancelExternalWorkflowExecutionInitiatedEventAttributes_ToWire W x = Inr w \<and>
      wire_api.Type W w = TStruct \<and>
      (Writable W w \<longleftrightarrow> (\<lambda>_. True) x) \<and> ((\<lambda>_. True) x \<longrightarrow>
          RequestCancelExternalWorkflowExecutionInitiatedEventAttributes_FromWire W w
          RequestCancelExternalWorkflowExecutionInitiatedEventAttributes_zero = Inr x)"
    by (cases x) (simp cong: option.case_cong add: codec_rules
        RequestCancelExternalWorkflowExecutionInitiatedEventAttributes_merge
        RequestCancelExternalWorkflowExecutionInitiatedEventAttributes_ToWire_def
        RequestCancelExternalWorkflowExecutionInitiatedEventAttributes_FromWire_def
        RequestCancelExternalWorkflowExecutionInitiatedEventAttributes_zero_def
        WorkflowExecution_Read_def laws e0)
qed

definition RequestCancelExternalWorkflowExecutionInitiatedEventAttributes_Equals ::
  "RequestCancelExternalWorkflowExecutionInitiatedEventAttributes option \<Rightarrow>
      RequestCancelExternalWorkflowExecutionInitiatedEventAttributes option \<Rightarrow> bool" where
  "RequestCancelExternalWorkflowExecutionInitiatedEventAttributes_Equals v rhs =
     (case v of None \<Rightarrow> rhs = None
      | Some v \<Rightarrow> (case rhs of None \<Rightarrow> False
        | Some rhs \<Rightarrow>
          if \<not> I64_EqualsPtr
              (RequestCancelExternalWorkflowExecutionInitiatedEventAttributes.DecisionTaskCompletedEventId v) (RequestCancelExternalWorkflowExecutionInitiatedEventAttributes.DecisionTaskCompletedEventId rhs) then False else
          if \<not> String_EqualsPtr
              (RequestCancelExternalWorkflowExecutionInitiatedEventAttributes.Domain v)
              (RequestCancelExternalWorkflowExecutionInitiatedEventAttributes.Domain rhs) then False
              else
          if \<not> both_set_and (\<lambda>x y. WorkflowExecution_Equals (Some x) (Some y))
              (RequestCancelExternalWorkflowExecutionInitiatedEventAttributes.WorkflowExecution v)
              (RequestCancelExternalWorkflowExecutionInitiatedEventAttributes.WorkflowExecution rhs)
              then False else
          if \<not> both_set_and (=)
              (RequestCancelExternalWorkflowExecutionInitiatedEventAttributes.Control v)
              (RequestCancelExternalWorkflowExecutionInitiatedEventAttributes.Control rhs) then
              False else
          if \<not> Bool_EqualsPtr
              (RequestCancelExternalWorkflowExecutionInitiatedEventAttributes.ChildWorkflowOnly v)
              (RequestCancelExternalWorkflowExecutionInitiatedEventAttributes.ChildWorkflowOnly rhs)
              then False else
          True))"

lemma RequestCancelExternalWorkflowExecutionInitiatedEventAttributes_Equals_iff [simp]:
    "RequestCancelExternalWorkflowExecutionInitiatedEventAttributes_Equals x y \<longleftrightarrow> x = y"
  by (cases x; cases y) (simp_all add:
      RequestCancelExternalWorkflowExecutionInitiatedEventAttributes_Equals_def if_not_False,
      fastforce intro: RequestCancelExternalWorkflowExecutionInitiatedEventAttributes.equality)

record SignalExternalWorkflowExecutionFailedEventAttributes =
  Cause :: "SignalExternalWorkflowExecutionFailedCause option"
  DecisionTaskCompletedEventId :: "64 word option"
  Domain :: "string option"
  WorkflowExecution :: "WorkflowExecution option"
  InitiatedEventId :: "64 word option"
  Control :: "bytes option"

definition SignalExternalWorkflowExecutionFailedEventAttributes_zero ::
    SignalExternalWorkflowExecutionFailedEventAttributes where
  "SignalExternalWorkflowExecutionFailedEventAttributes_zero =
      \<lparr>SignalExternalWorkflowExecutionFailedEventAttributes.Cause = None,
      SignalExternalWorkflowExecutionFailedEventAttributes.DecisionTaskCompletedEventId = None,
      SignalExternalWorkflowExecutionFailedEventAttributes.Domain = None,
      SignalExternalWorkflowExecutionFailedEventAttributes.WorkflowExecution = None,
      SignalExternalWorkflowExecutionFailedEventAttributes.InitiatedEventId = None,
      SignalExternalWorkflowExecutionFailedEventAttributes.Control = None\<rparr>"

definition SignalExternalWorkflowExecutionFailedEventAttributes_ToWire ::
  "'v wire_api \<Rightarrow> SignalExternalWorkflowExecutionFailedEventAttributes \<Rightarrow> go_error + 'v" where
  "SignalExternalWorkflowExecutionFailedEventAttributes_ToWire W v =
     and_then (put_opt 10 (SignalExternalWorkflowExecutionFailedCause_ToWire W)
         (SignalExternalWorkflowExecutionFailedEventAttributes.Cause v) [])
       (\<lambda>fields.
     and_then (put_opt 20 (\<lambda>x. Inr (NewValueI64 W x))
         (SignalExternalWorkflowExecutionFailedEventAttributes.DecisionTaskCompletedEventId v)
         fields)
       (\<lambda>fields.
     and_then (put_opt 30 (\<lambda>x. Inr (NewValueString W x))
         (SignalExternalWorkflowExecutionFailedEventAttributes.Domain v) fields)
       (\<lambda>fields.
     and_then (put_opt 40 (WorkflowExecution_ToWire W)
         (SignalExternalWorkflowExecutionFailedEventAttributes.WorkflowExecution v) fields)
       (\<lambda>fields.
     and_then (put_opt 50 (\<lambda>x. Inr (NewValueI64 W x))
         (SignalExternalWorkflowExecutionFailedEventAttributes.InitiatedEventId v) fields)
       (\<lambda>fields.
     and_then (put_opt 60 (\<lambda>x. Inr (NewValueBinary W x))
         (SignalExternalWorkflowExecutionFailedEventAttributes.Control v) fields)
       (\<lambda>fields.
     Inr (NewValueStruct W fields)))))))"

definition SignalExternalWorkflowExecutionFailedEventAttributes_FromWire ::
  "'v wire_api \<Rightarrow> 'v \<Rightarrow> SignalExternalWorkflowExecutionFailedEventAttributes \<Rightarrow> go_error +
      SignalExternalWorkflowExecutionFailedEventAttributes" where
  "SignalExternalWorkflowExecutionFailedEventAttributes_FromWire W w v =
     foldM (\<lambda>v (fid, fval).
       if fid = 10 then
         if wire_api.Type W fval = TI32
         then and_then (SignalExternalWorkflowExecutionFailedCause_Read W fval) (\<lambda>x. Inr
             (v\<lparr>SignalExternalWorkflowExecutionFailedEventAttributes.Cause := Some x\<rparr>))
         else Inr v
       else if fid = 20 then
         if wire_api.Type W fval = TI64
         then Inr
             (v\<lparr>SignalExternalWorkflowExecutionFailedEventAttributes.DecisionTaskCompletedEventId :=
             Some (GetI64 W fval)\<rparr>)
         else Inr v
       else if fid = 30 then
         if wire_api.Type W fval = TBinary
         then Inr (v\<lparr>SignalExternalWorkflowExecutionFailedEventAttributes.Domain := Some (GetString
             W fval)\<rparr>)
         else Inr v
       else if fid = 40 then
         if wire_api.Type W fval = TStruct
         then and_then (WorkflowExecution_Read W fval) (\<lambda>x. Inr
             (v\<lparr>SignalExternalWorkflowExecutionFailedEventAttributes.WorkflowExecution := Some x\<rparr>))
         else Inr v
       else if fid = 50 then
         if wire_api.Type W fval = TI64
         then Inr (v\<lparr>SignalExternalWorkflowExecutionFailedEventAttributes.InitiatedEventId := Some
             (GetI64 W fval)\<rparr>)
         else Inr v
       else if fid = 60 then
         if wire_api.Type W fval = TBinary
         then Inr (v\<lparr>SignalExternalWorkflowExecutionFailedEventAttributes.Control := Some (GetBinary
             W fval)\<rparr>)
         else Inr v
       else Inr v) (GetStruct W w) v"

definition SignalExternalWorkflowExecutionFailedEventAttributes_Read :: "'v wire_api \<Rightarrow> 'v \<Rightarrow> go_error
    + SignalExternalWorkflowExecutionFailedEventAttributes" where
  "SignalExternalWorkflowExecutionFailedEventAttributes_Read W w =
      SignalExternalWorkflowExecutionFailedEventAttributes_FromWire W w
      SignalExternalWorkflowExecutionFailedEventAttributes_zero"

lemma SignalExternalWorkflowExecutionFailedEventAttributes_merge:
  "(case x of None \<Rightarrow> Inr \<lparr>SignalExternalWorkflowExecutionFailedEventAttributes.Cause = a0,
      SignalExternalWorkflowExecutionFailedEventAttributes.DecisionTaskCompletedEventId = a1,
      SignalExternalWorkflowExecutionFailedEventAttributes.Domain = a2,
      SignalExternalWorkflowExecutionFailedEventAttributes.WorkflowExecution = a3,
      SignalExternalWorkflowExecutionFailedEventAttributes.InitiatedEventId = a4,
      SignalExternalWorkflowExecutionFailedEventAttributes.Control = a5\<rparr> | Some y \<Rightarrow> Inr
      \<lparr>SignalExternalWorkflowExecutionFailedEventAttributes.Cause = b0 y,
      SignalExternalWorkflowExecutionFailedEventAttributes.DecisionTaskCompletedEventId = b1 y,
      SignalExternalWorkflowExecutionFailedEventAttributes.Domain = b2 y,
      SignalExternalWorkflowExecutionFailedEventAttributes.WorkflowExecution = b3 y,
      SignalExternalWorkflowExecutionFailedEventAttributes.InitiatedEventId = b4 y,
      SignalExternalWorkflowExecutionFailedEventAttributes.Control = b5 y\<rparr>) =
   Inr \<lparr>SignalExternalWorkflowExecutionFailedEventAttributes.Cause = (case x of None \<Rightarrow> a0 | Some y \<Rightarrow>
       b0 y), SignalExternalWorkflowExecutionFailedEventAttributes.DecisionTaskCompletedEventId =
       (case x of None \<Rightarrow> a1 | Some y \<Rightarrow> b1 y),
       SignalExternalWorkflowExecutionFailedEventAttributes.Domain = (case x of None \<Rightarrow> a2 | Some y \<Rightarrow>
       b2 y), SignalExternalWorkflowExecutionFailedEventAttributes.WorkflowExecution = (case x of
       None \<Rightarrow> a3 | Some y \<Rightarrow> b3 y),
       SignalExternalWorkflowExecutionFailedEventAttributes.InitiatedEventId = (case x of None \<Rightarrow> a4
       | Some y \<Rightarrow> b4 y), SignalExternalWorkflowExecutionFailedEventAttributes.Control = (case x of
       None \<Rightarrow> a5 | Some y \<Rightarrow> b5 y)\<rparr>"
  by (cases x) simp_all

interpretation SignalExternalWorkflowExecutionFailedEventAttributes: thrift_message W
  "SignalExternalWorkflowExecutionFailedEventAttributes_ToWire W"
      "SignalExternalWorkflowExecutionFailedEventAttributes_FromWire W"
      SignalExternalWorkflowExecutionFailedEventAttributes_zero "\<lambda>_. True" for W
proof (rule thrift_messageI)
  fix x :: SignalExternalWorkflowExecutionFailedEventAttributes
  assume laws: "wire_laws W"
  obtain enc0 where e0: "WorkflowExecution_ToWire W = (\<lambda>x. Inr (enc0 x))"
      "\<And>x. wire_api.Type W (enc0 x) = TStruct"
      "\<And>x. Writable W (enc0 x) \<longleftrightarrow> (\<lambda>_. True) x"
      "\<And>x. (\<lambda>_. True) x \<Longrightarrow> WorkflowExecution_FromWire W (enc0 x) WorkflowExecution_zero = Inr x"
    by (rule WorkflowExecution.encoder [OF laws]) (rule that)
  show "\<exists>w. SignalExternalWorkflowExecutionFailedEventAttributes_ToWire W x = Inr w \<and> wire_api.Type
      W w = TStruct \<and>
      (Writable W w \<longleftrightarrow> (\<lambda>_. True) x) \<and> ((\<lambda>_. True) x \<longrightarrow>
          SignalExternalWorkflowExecutionFailedEventAttributes_FromWire W w
          SignalExternalWorkflowExecutionFailedEventAttributes_zero = Inr x)"
    by (cases x) (simp cong: option.case_cong add: codec_rules
        SignalExternalWorkflowExecutionFailedEventAttributes_merge
        SignalExternalWorkflowExecutionFailedEventAttributes_ToWire_def
        SignalExternalWorkflowExecutionFailedEventAttributes_FromWire_def
        SignalExternalWorkflowExecutionFailedEventAttributes_zero_def
        SignalExternalWorkflowExecutionFailedCause_enc
        SignalExternalWorkflowExecutionFailedCause_Read_def
        SignalExternalWorkflowExecutionFailedCause_FromWire_def WorkflowExecution_Read_def laws e0)
qed

definition SignalExternalWorkflowExecutionFailedEventAttributes_Equals ::
  "SignalExternalWorkflowExecutionFailedEventAttributes option \<Rightarrow>
      SignalExternalWorkflowExecutionFailedEventAttributes option \<Rightarrow> bool" where
  "SignalExternalWorkflowExecutionFailedEventAttributes_Equals v rhs =
     (case v of None \<Rightarrow> rhs = None
      | Some v \<Rightarrow> (case rhs of None \<Rightarrow> False
        | Some rhs \<Rightarrow>
          if \<not> SignalExternalWorkflowExecutionFailedCause_EqualsPtr
              (SignalExternalWorkflowExecutionFailedEventAttributes.Cause v)
              (SignalExternalWorkflowExecutionFailedEventAttributes.Cause rhs) then False else
          if \<not> I64_EqualsPtr
              (SignalExternalWorkflowExecutionFailedEventAttributes.DecisionTaskCompletedEventId v)
              (SignalExternalWorkflowExecutionFailedEventAttributes.DecisionTaskCompletedEventId
              rhs) then False else
          if \<not> String_EqualsPtr (SignalExternalWorkflowExecutionFailedEventAttributes.Domain v)
              (SignalExternalWorkflowExecutionFailedEventAttributes.Domain rhs) then False else
          if \<not> both_set_and (\<lambda>x y. WorkflowExecution_Equals (Some x) (Some y))
              (SignalExternalWorkflowExecutionFailedEventAttributes.WorkflowExecution v)
              (SignalExternalWorkflowExecutionFailedEventAttributes.WorkflowExecution rhs) then
              False else
          if \<not> I64_EqualsPtr (SignalExternalWorkflowExecutionFailedEventAttributes.InitiatedEventId
              v) (SignalExternalWorkflowExecutionFailedEventAttributes.InitiatedEventId rhs) then
              False else
          if \<not> both_set_and (=) (SignalExternalWorkflowExecutionFailedEventAttributes.Control v)
              (SignalExternalWorkflowExecutionFailedEventAttributes.Control rhs) then False else
          True))"

lemma SignalExternalWorkflowExecutionFailedEventAttributes_Equals_iff [simp]:
    "SignalExternalWorkflowExecutionFailedEventAttributes_Equals x y \<longleftrightarrow> x = y"
  by (cases x; cases y) (simp_all add:
      SignalExternalWorkflowExecutionFailedEventAttributes_Equals_def if_not_False, fastforce intro:
      SignalExternalWorkflowExecutionFailedEventAttributes.equality)

record SignalExternalWorkflowExecutionInitiatedEventAttributes =
  DecisionTaskCompletedEventId :: "64 word option"
  Domain :: "string option"
  WorkflowExecution :: "WorkflowExecution option"
  SignalName :: "string option"
  Input :: "bytes option"
  Control :: "bytes option"
  ChildWorkflowOnly :: "bool option"

definition SignalExternalWorkflowExecutionInitiatedEventAttributes_zero ::
    SignalExternalWorkflowExecutionInitiatedEventAttributes where
  "SignalExternalWorkflowExecutionInitiatedEventAttributes_zero =
      \<lparr>SignalExternalWorkflowExecutionInitiatedEventAttributes.DecisionTaskCompletedEventId = None,
      SignalExternalWorkflowExecutionInitiatedEventAttributes.Domain = None,
      SignalExternalWorkflowExecutionInitiatedEventAttributes.WorkflowExecution = None,
      SignalExternalWorkflowExecutionInitiatedEventAttributes.SignalName = None,
      SignalExternalWorkflowExecutionInitiatedEventAttributes.Input = None,
      SignalExternalWorkflowExecutionInitiatedEventAttributes.Control = None,
      SignalExternalWorkflowExecutionInitiatedEventAttributes.ChildWorkflowOnly = None\<rparr>"

definition SignalExternalWorkflowExecutionInitiatedEventAttributes_ToWire ::
  "'v wire_api \<Rightarrow> SignalExternalWorkflowExecutionInitiatedEventAttributes \<Rightarrow> go_error + 'v" where
  "SignalExternalWorkflowExecutionInitiatedEventAttributes_ToWire W v =
     and_then (put_opt 10 (\<lambda>x. Inr (NewValueI64 W x))
         (SignalExternalWorkflowExecutionInitiatedEventAttributes.DecisionTaskCompletedEventId v)
         [])
       (\<lambda>fields.
     and_then (put_opt 20 (\<lambda>x. Inr (NewValueString W x))
         (SignalExternalWorkflowExecutionInitiatedEventAttributes.Domain v) fields)
       (\<lambda>fields.
     and_then (put_opt 30 (WorkflowExecution_ToWire W)
         (SignalExternalWorkflowExecutionInitiatedEventAttributes.WorkflowExecution v) fields)
       (\<lambda>fields.
     and_then (put_opt 40 (\<lambda>x. Inr (NewValueString W x))
         (SignalExternalWorkflowExecutionInitiatedEventAttributes.SignalName v) fields)
       (\<lambda>fields.
     and_then (put_opt 50 (\<lambda>x. Inr (NewValueBinary W x))
         (SignalExternalWorkflowExecutionInitiatedEventAttributes.Input v) fields)
       (\<lambda>fields.
     and_then (put_opt 60 (\<lambda>x. Inr (NewValueBinary W x))
         (SignalExternalWorkflowExecutionInitiatedEventAttributes.Control v) fields)
       (\<lambda>fields.
     and_then (put_opt 70 (\<lambda>x. Inr (NewValueBool W x))
         (SignalExternalWorkflowExecutionInitiatedEventAttributes.ChildWorkflowOnly v) fields)
       (\<lambda>fields.
     Inr (NewValueStruct W fields))))))))"

definition SignalExternalWorkflowExecutionInitiatedEventAttributes_FromWire ::
  "'v wire_api \<Rightarrow> 'v \<Rightarrow> SignalExternalWorkflowExecutionInitiatedEventAttributes \<Rightarrow> go_error +
      SignalExternalWorkflowExecutionInitiatedEventAttributes" where
  "SignalExternalWorkflowExecutionInitiatedEventAttributes_FromWire W w v =
     foldM (\<lambda>v (fid, fval).
       if fid = 10 then
         if wire_api.Type W fval = TI64
         then Inr
             (v\<lparr>SignalExternalWorkflowExecutionInitiatedEventAttributes.DecisionTaskCompletedEventId
             := Some (GetI64 W fval)\<rparr>)
         else Inr v
       else if fid = 20 then
         if wire_api.Type W fval = TBinary
         then Inr (v\<lparr>SignalExternalWorkflowExecutionInitiatedEventAttributes.Domain := Some
             (GetString W fval)\<rparr>)
         else Inr v
       else if fid = 30 then
         if wire_api.Type W fval = TStruct
         then and_then (WorkflowExecution_Read W fval) (\<lambda>x. Inr
             (v\<lparr>SignalExternalWorkflowExecutionInitiatedEventAttributes.WorkflowExecution := Some
             x\<rparr>))
         else Inr v
       else if fid = 40 then
         if wire_api.Type W fval = TBinary
         then Inr (v\<lparr>SignalExternalWorkflowExecutionInitiatedEventAttributes.SignalName := Some
             (GetString W fval)\<rparr>)
         else Inr v
       else if fid = 50 then
         if wire_api.Type W fval = TBinary
         then Inr (v\<lparr>SignalExternalWorkflowExecutionInitiatedEventAttributes.Input := Some
             (GetBinary W fval)\<rparr>)
         else Inr v
       else if fid = 60 then
         if wire_api.Type W fval = TBinary
         then Inr (v\<lparr>SignalExternalWorkflowExecutionInitiatedEventAttributes.Control := Some
             (GetBinary W fval)\<rparr>)
         else Inr v
       else if fid = 70 then
         if wire_api.Type W fval = TBool
         then Inr (v\<lparr>SignalExternalWorkflowExecutionInitiatedEventAttributes.ChildWorkflowOnly :=
             Some (GetBool W fval)\<rparr>)
         else Inr v
       else Inr v) (GetStruct W w) v"

definition SignalExternalWorkflowExecutionInitiatedEventAttributes_Read :: "'v wire_api \<Rightarrow> 'v \<Rightarrow>
    go_error + SignalExternalWorkflowExecutionInitiatedEventAttributes" where
  "SignalExternalWorkflowExecutionInitiatedEventAttributes_Read W w =
      SignalExternalWorkflowExecutionInitiatedEventAttributes_FromWire W w
      SignalExternalWorkflowExecutionInitiatedEventAttributes_zero"

lemma SignalExternalWorkflowExecutionInitiatedEventAttributes_merge:
  "(case x of None \<Rightarrow> Inr
      \<lparr>SignalExternalWorkflowExecutionInitiatedEventAttributes.DecisionTaskCompletedEventId = a0,
      SignalExternalWorkflowExecutionInitiatedEventAttributes.Domain = a1,
      SignalExternalWorkflowExecutionInitiatedEventAttributes.WorkflowExecution = a2,
      SignalExternalWorkflowExecutionInitiatedEventAttributes.SignalName = a3,
      SignalExternalWorkflowExecutionInitiatedEventAttributes.Input = a4,
      SignalExternalWorkflowExecutionInitiatedEventAttributes.Control = a5,
      SignalExternalWorkflowExecutionInitiatedEventAttributes.ChildWorkflowOnly = a6\<rparr> | Some y \<Rightarrow> Inr
      \<lparr>SignalExternalWorkflowExecutionInitiatedEventAttributes.DecisionTaskCompletedEventId = b0 y,
      SignalExternalWorkflowExecutionInitiatedEventAttributes.Domain = b1 y,
      SignalExternalWorkflowExecutionInitiatedEventAttributes.WorkflowExecution = b2 y,
      SignalExternalWorkflowExecutionInitiatedEventAttributes.SignalName = b3 y,
      SignalExternalWorkflowExecutionInitiatedEventAttributes.Input = b4 y,
      SignalExternalWorkflowExecutionInitiatedEventAttributes.Control = b5 y,
      SignalExternalWorkflowExecutionInitiatedEventAttributes.ChildWorkflowOnly = b6 y\<rparr>) =
   Inr \<lparr>SignalExternalWorkflowExecutionInitiatedEventAttributes.DecisionTaskCompletedEventId = (case
       x of None \<Rightarrow> a0 | Some y \<Rightarrow> b0 y),
       SignalExternalWorkflowExecutionInitiatedEventAttributes.Domain = (case x of None \<Rightarrow> a1 | Some
       y \<Rightarrow> b1 y), SignalExternalWorkflowExecutionInitiatedEventAttributes.WorkflowExecution = (case
       x of None \<Rightarrow> a2 | Some y \<Rightarrow> b2 y),
       SignalExternalWorkflowExecutionInitiatedEventAttributes.SignalName = (case x of None \<Rightarrow> a3 |
       Some y \<Rightarrow> b3 y), SignalExternalWorkflowExecutionInitiatedEventAttributes.Input = (case x of
       None \<Rightarrow> a4 | Some y \<Rightarrow> b4 y), SignalExternalWorkflowExecutionInitiatedEventAttributes.Control =
       (case x of None \<Rightarrow> a5 | Some y \<Rightarrow> b5 y),
       SignalExternalWorkflowExecutionInitiatedEventAttributes.ChildWorkflowOnly = (case x of None \<Rightarrow>
       a6 | Some y \<Rightarrow> b6 y)\<rparr>"
  by (cases x) simp_all

interpretation SignalExternalWorkflowExecutionInitiatedEventAttributes: thrift_message W
  "SignalExternalWorkflowExecutionInitiatedEventAttributes_ToWire W"
      "SignalExternalWorkflowExecutionInitiatedEventAttributes_FromWire W"
      SignalExternalWorkflowExecutionInitiatedEventAttributes_zero "\<lambda>_. True" for W
proof (rule thrift_messageI)
  fix x :: SignalExternalWorkflowExecutionInitiatedEventAttributes
  assume laws: "wire_laws W"
  obtain enc0 where e0: "WorkflowExecution_ToWire W = (\<lambda>x. Inr (enc0 x))"
      "\<And>x. wire_api.Type W (enc0 x) = TStruct"
      "\<And>x. Writable W (enc0 x) \<longleftrightarrow> (\<lambda>_. True) x"
      "\<And>x. (\<lambda>_. True) x \<Longrightarrow> WorkflowExecution_FromWire W (enc0 x) WorkflowExecution_zero = Inr x"
    by (rule WorkflowExecution.encoder [OF laws]) (rule that)
  show "\<exists>w. SignalExternalWorkflowExecutionInitiatedEventAttributes_ToWire W x = Inr w \<and>
      wire_api.Type W w = TStruct \<and>
      (Writable W w \<longleftrightarrow> (\<lambda>_. True) x) \<and> ((\<lambda>_. True) x \<longrightarrow>
          SignalExternalWorkflowExecutionInitiatedEventAttributes_FromWire W w
          SignalExternalWorkflowExecutionInitiatedEventAttributes_zero = Inr x)"
    by (cases x) (simp cong: option.case_cong add: codec_rules
        SignalExternalWorkflowExecutionInitiatedEventAttributes_merge
        SignalExternalWorkflowExecutionInitiatedEventAttributes_ToWire_def
        SignalExternalWorkflowExecutionInitiatedEventAttributes_FromWire_def
        SignalExternalWorkflowExecutionInitiatedEventAttributes_zero_def WorkflowExecution_Read_def
        laws e0)
qed

definition SignalExternalWorkflowExecutionInitiatedEventAttributes_Equals ::
  "SignalExternalWorkflowExecutionInitiatedEventAttributes option \<Rightarrow>
      SignalExternalWorkflowExecutionInitiatedEventAttributes option \<Rightarrow> bool" where
  "SignalExternalWorkflowExecutionInitiatedEventAttributes_Equals v rhs =
     (case v of None \<Rightarrow> rhs = None
      | Some v \<Rightarrow> (case rhs of None \<Rightarrow> False
        | Some rhs \<Rightarrow>
          if \<not> I64_EqualsPtr
              (SignalExternalWorkflowExecutionInitiatedEventAttributes.DecisionTaskCompletedEventId
              v)
              (SignalExternalWorkflowExecutionInitiatedEventAttributes.DecisionTaskCompletedEventId
              rhs) then False else
          if \<not> String_EqualsPtr (SignalExternalWorkflowExecutionInitiatedEventAttributes.Domain v)
              (SignalExternalWorkflowExecutionInitiatedEventAttributes.Domain rhs) then False else
          if \<not> both_set_and (\<lambda>x y. WorkflowExecution_Equals (Some x) (Some y))
              (SignalExternalWorkflowExecutionInitiatedEventAttributes.WorkflowExecution v)
              (SignalExternalWorkflowExecutionInitiatedEventAttributes.WorkflowExecution rhs) then
              False else
          if \<not> String_EqualsPtr (SignalExternalWorkflowExecutionInitiatedEventAttributes.SignalName
              v) (SignalExternalWorkflowExecutionInitiatedEventAttributes.SignalName rhs) then False
              else
          if \<not> both_set_and (=) (SignalExternalWorkflowExecutionInitiatedEventAttributes.Input v)
              (SignalExternalWorkflowExecutionInitiatedEventAttributes.Input rhs) then False else
          if \<not> both_set_and (=) (SignalExternalWorkflowExecutionInitiatedEventAttributes.Control v)
              (SignalExternalWorkflowExecutionInitiatedEventAttributes.Control rhs) then False else
          if \<not> Bool_EqualsPtr
              (SignalExternalWorkflowExecutionInitiatedEventAttributes.ChildWorkflowOnly v)
              (SignalExternalWorkflowExecutionInitiatedEventAttributes.ChildWorkflowOnly rhs) then
              False else
          True))"

lemma SignalExternalWorkflowExecutionInitiatedEventAttributes_Equals_iff [simp]:
    "SignalExternalWorkflowExecutionInitiatedEventAttributes_Equals x y \<longleftrightarrow> x = y"
  by (cases x; cases y) (simp_all add:
      SignalExternalWorkflowExecutionInitiatedEventAttributes_Equals_def if_not_False, fastforce
      intro: SignalExternalWorkflowExecutionInitiatedEventAttributes.equality)

record StartChildWorkflowExecutionFailedEventAttributes =
  Domain :: "string option"
  WorkflowId :: "string option"
  WorkflowType :: "WorkflowType option"
  Cause :: "ChildWorkflowExecutionFailedCause option"
  Control :: "bytes option"
  InitiatedEventId :: "64 word option"
  DecisionTaskCompletedEventId :: "64 word option"

definition StartChildWorkflowExecutionFailedEventAttributes_zero ::
    StartChildWorkflowExecutionFailedEventAttributes where
  "StartChildWorkflowExecutionFailedEventAttributes_zero =
      \<lparr>StartChildWorkflowExecutionFailedEventAttributes.Domain = None,
      StartChildWorkflowExecutionFailedEventAttributes.WorkflowId = None,
      StartChildWorkflowExecutionFailedEventAttributes.WorkflowType = None,
      StartChildWorkflowExecutionFailedEventAttributes.Cause = None,
      StartChildWorkflowExecutionFailedEventAttributes.Control = None,
      StartChildWorkflowExecutionFailedEventAttributes.InitiatedEventId = None,
      StartChildWorkflowExecutionFailedEventAttributes.DecisionTaskCompletedEventId = None\<rparr>"

definition StartChildWorkflowExecutionFailedEventAttributes_ToWire ::
  "'v wire_api \<Rightarrow> StartChildWorkflowExecutionFailedEventAttributes \<Rightarrow> go_error + 'v" where
  "StartChildWorkflowExecutionFailedEventAttributes_ToWire W v =
     and_then (put_opt 10 (\<lambda>x. Inr (NewValueString W x))
         (StartChildWorkflowExecutionFailedEventAttributes.Domain v) [])
       (\<lambda>fields.
     and_then (put_opt 20 (\<lambda>x. Inr (NewValueString W x))
         (StartChildWorkflowExecutionFailedEventAttributes.WorkflowId v) fields)
       (\<lambda>fields.
     and_then (put_opt 30 (WorkflowType_ToWire W)
         (StartChildWorkflowExecutionFailedEventAttributes.WorkflowType v) fields)
       (\<lambda>fields.
     and_then (put_opt 40 (ChildWorkflowExecutionFailedCause_ToWire W)
         (StartChildWorkflowExecutionFailedEventAttributes.Cause v) fields)
       (\<lambda>fields.
     and_then (put_opt 50 (\<lambda>x. Inr (NewValueBinary W x))
         (StartChildWorkflowExecutionFailedEventAttributes.Control v) fields)
       (\<lambda>fields.
     and_then (put_opt 60 (\<lambda>x. Inr (NewValueI64 W x))
         (StartChildWorkflowExecutionFailedEventAttributes.InitiatedEventId v) fields)
       (\<lambda>fields.
     and_then (put_opt 70 (\<lambda>x. Inr (NewValueI64 W x))
         (StartChildWorkflowExecutionFailedEventAttributes.DecisionTaskCompletedEventId v) fields)
       (\<lambda>fields.
     Inr (NewValueStruct W fields))))))))"

definition StartChildWorkflowExecutionFailedEventAttributes_FromWire ::
  "'v wire_api \<Rightarrow> 'v \<Rightarrow> StartChildWorkflowExecutionFailedEventAttributes \<Rightarrow> go_error +
      StartChildWorkflowExecutionFailedEventAttributes" where
  "StartChildWorkflowExecutionFailedEventAttributes_FromWire W w v =
     foldM (\<lambda>v (fid, fval).
       if fid = 10 then
         if wire_api.Type W fval = TBinary
         then Inr (v\<lparr>StartChildWorkflowExecutionFailedEventAttributes.Domain := Some (GetString W
             fval)\<rparr>)
         else Inr v
       else if fid = 20 then
         if wire_api.Type W fval = TBinary
         then Inr (v\<lparr>StartChildWorkflowExecutionFailedEventAttributes.WorkflowId := Some (GetString
             W fval)\<rparr>)
         else Inr v
       else if fid = 30 then
         if wire_api.Type W fval = TStruct
         then and_then (WorkflowType_Read W fval) (\<lambda>x. Inr
             (v\<lparr>StartChildWorkflowExecutionFailedEventAttributes.WorkflowType := Some x\<rparr>))
         else Inr v
       else if fid = 40 then
         if wire_api.Type W fval = TI32
         then and_then (ChildWorkflowExecutionFailedCause_Read W fval) (\<lambda>x. Inr
             (v\<lparr>StartChildWorkflowExecutionFailedEventAttributes.Cause := Some x\<rparr>))
         else Inr v
       else if fid = 50 then
         if wire_api.Type W fval = TBinary
         then Inr (v\<lparr>StartChildWorkflowExecutionFailedEventAttributes.Control := Some (GetBinary W
             fval)\<rparr>)
         else Inr v
       else if fid = 60 then
         if wire_api.Type W fval = TI64
         then Inr (v\<lparr>StartChildWorkflowExecutionFailedEventAttributes.InitiatedEventId := Some
             (GetI64 W fval)\<rparr>)
         else Inr v
       else if fid = 70 then
         if wire_api.Type W fval = TI64
         then Inr (v\<lparr>StartChildWorkflowExecutionFailedEventAttributes.DecisionTaskCompletedEventId
             := Some (GetI64 W fval)\<rparr>)
         else Inr v
       else Inr v) (GetStruct W w) v"

definition StartChildWorkflowExecutionFailedEventAttributes_Read :: "'v wire_api \<Rightarrow> 'v \<Rightarrow> go_error +
    StartChildWorkflowExecutionFailedEventAttributes" where
  "StartChildWorkflowExecutionFailedEventAttributes_Read W w =
      StartChildWorkflowExecutionFailedEventAttributes_FromWire W w
      StartChildWorkflowExecutionFailedEventAttributes_zero"

lemma StartChildWorkflowExecutionFailedEventAttributes_merge:
  "(case x of None \<Rightarrow> Inr \<lparr>StartChildWorkflowExecutionFailedEventAttributes.Domain = a0,
      StartChildWorkflowExecutionFailedEventAttributes.WorkflowId = a1,
      StartChildWorkflowExecutionFailedEventAttributes.WorkflowType = a2,
      StartChildWorkflowExecutionFailedEventAttributes.Cause = a3,
      StartChildWorkflowExecutionFailedEventAttributes.Control = a4,
      StartChildWorkflowExecutionFailedEventAttributes.InitiatedEventId = a5,
      StartChildWorkflowExecutionFailedEventAttributes.DecisionTaskCompletedEventId = a6\<rparr> | Some y \<Rightarrow>
      Inr \<lparr>StartChildWorkflowExecutionFailedEventAttributes.Domain = b0 y,
      StartChildWorkflowExecutionFailedEventAttributes.WorkflowId = b1 y,
      StartChildWorkflowExecutionFailedEventAttributes.WorkflowType = b2 y,
      StartChildWorkflowExecutionFailedEventAttributes.Cause = b3 y,
      StartChildWorkflowExecutionFailedEventAttributes.Control = b4 y,
      StartChildWorkflowExecutionFailedEventAttributes.InitiatedEventId = b5 y,
      StartChildWorkflowExecutionFailedEventAttributes.DecisionTaskCompletedEventId = b6 y\<rparr>) =
   Inr \<lparr>StartChildWorkflowExecutionFailedEventAttributes.Domain = (case x of None \<Rightarrow> a0 | Some y \<Rightarrow> b0
       y), StartChildWorkflowExecutionFailedEventAttributes.WorkflowId = (case x of None \<Rightarrow> a1 | Some
       y \<Rightarrow> b1 y), StartChildWorkflowExecutionFailedEventAttributes.WorkflowType = (case x of None \<Rightarrow>
       a2 | Some y \<Rightarrow> b2 y), StartChildWorkflowExecutionFailedEventAttributes.Cause = (case x of None
       \<Rightarrow> a3 | Some y \<Rightarrow> b3 y), StartChildWorkflowExecutionFailedEventAttributes.Control = (case x of
       None \<Rightarrow> a4 | Some y \<Rightarrow> b4 y), StartChildWorkflowExecutionFailedEventAttributes.InitiatedEventId
       = (case x of None \<Rightarrow> a5 | Some y \<Rightarrow> b5 y),
       StartChildWorkflowExecutionFailedEventAttributes.DecisionTaskCompletedEventId = (case x of
       None \<Rightarrow> a6 | Some y \<Rightarrow> b6 y)\<rparr>"
  by (cases x) simp_all

interpretation StartChildWorkflowExecutionFailedEventAttributes: thrift_message W
  "StartChildWorkflowExecutionFailedEventAttributes_ToWire W"
      "StartChildWorkflowExecutionFailedEventAttributes_FromWire W"
      StartChildWorkflowExecutionFailedEventAttributes_zero "\<lambda>_. True" for W
proof (rule thrift_messageI)
  fix x :: StartChildWorkflowExecutionFailedEventAttributes
  assume laws: "wire_laws W"
  obtain enc0 where e0: "WorkflowType_ToWire W = (\<lambda>x. Inr (enc0 x))"
      "\<And>x. wire_api.Type W (enc0 x) = TStruct"
      "\<And>x. Writable W (enc0 x) \<longleftrightarrow> (\<lambda>_. True) x"
      "\<And>x. (\<lambda>_. True) x \<Longrightarrow> WorkflowType_FromWire W (enc0 x) WorkflowType_zero = Inr x"
    by (rule WorkflowType.encoder [OF laws]) (rule that)
  show "\<exists>w. StartChildWorkflowExecutionFailedEventAttributes_ToWire W x = Inr w \<and> wire_api.Type W w
      = TStruct \<and>
      (Writable W w \<longleftrightarrow> (\<lambda>_. True) x) \<and> ((\<lambda>_. True) x \<longrightarrow>
          StartChildWorkflowExecutionFailedEventAttributes_FromWire W w
          StartChildWorkflowExecutionFailedEventAttributes_zero = Inr x)"
    by (cases x) (simp cong: option.case_cong add: codec_rules
        StartChildWorkflowExecutionFailedEventAttributes_merge
        StartChildWorkflowExecutionFailedEventAttributes_ToWire_def
        StartChildWorkflowExecutionFailedEventAttributes_FromWire_def
        StartChildWorkflowExecutionFailedEventAttributes_zero_def
        ChildWorkflowExecutionFailedCause_enc ChildWorkflowExecutionFailedCause_Read_def
        ChildWorkflowExecutionFailedCause_FromWire_def WorkflowType_Read_def laws e0)
qed

definition StartChildWorkflowExecutionFailedEventAttributes_Equals ::
  "StartChildWorkflowExecutionFailedEventAttributes option \<Rightarrow>
      StartChildWorkflowExecutionFailedEventAttributes option \<Rightarrow> bool" where
  "StartChildWorkflowExecutionFailedEventAttributes_Equals v rhs =
     (case v of None \<Rightarrow> rhs = None
      | Some v \<Rightarrow> (case rhs of None \<Rightarrow> False
        | Some rhs \<Rightarrow>
          if \<not> String_EqualsPtr (StartChildWorkflowExecutionFailedEventAttributes.Domain v)
              (StartChildWorkflowExecutionFailedEventAttributes.Domain rhs) then False else
          if \<not> String_EqualsPtr (StartChildWorkflowExecutionFailedEventAttributes.WorkflowId v)
              (StartChildWorkflowExecutionFailedEventAttributes.WorkflowId rhs) then False else
          if \<not> both_set_and (\<lambda>x y. WorkflowType_Equals (Some x) (Some y))
              (StartChildWorkflowExecutionFailedEventAttributes.WorkflowType v)
              (StartChildWorkflowExecutionFailedEventAttributes.WorkflowType rhs) then False else
          if \<not> ChildWorkflowExecutionFailedCause_EqualsPtr
              (StartChildWorkflowExecutionFailedEventAttributes.Cause v)
              (StartChildWorkflowExecutionFailedEventAttributes.Cause rhs) then False else
          if \<not> both_set_and (=) (StartChildWorkflowExecutionFailedEventAttributes.Control v)
              (StartChildWorkflowExecutionFailedEventAttributes.Control rhs) then False else
          if \<not> I64_EqualsPtr (StartChildWorkflowExecutionFailedEventAttributes.InitiatedEventId v)
              (StartChildWorkflowExecutionFailedEventAttributes.InitiatedEventId rhs) then False
              else
          if \<not> I64_EqualsPtr
              (StartChildWorkflowExecutionFailedEventAttributes.DecisionTaskCompletedEventId v)
              (StartChildWorkflowExecutionFailedEventAttributes.DecisionTaskCompletedEventId rhs)
              then False else
          True))"

lemma StartChildWorkflowExecutionFailedEventAttributes_Equals_iff [simp]:
    "StartChildWorkflowExecutionFailedEventAttributes_Equals x y \<longleftrightarrow> x = y"
  by (cases x; cases y) (simp_all add: StartChildWorkflowExecutionFailedEventAttributes_Equals_def
      if_not_False, fastforce intro: StartChildWorkflowExecutionFailedEventAttributes.equality)

record StartChildWorkflowExecutionInitiatedEventAttributes =
  Domain :: "string option"
  WorkflowId :: "string option"
  WorkflowType :: "WorkflowType option"
  TaskList :: "TaskList option"
  Input :: "bytes option"
  ExecutionStartToCloseTimeoutSeconds :: "32 word option"
  TaskStartToCloseTimeoutSeconds :: "32 word option"
  ParentClosePolicy :: "ParentClosePolicy option"
  Control :: "bytes option"
  DecisionTaskCompletedEventId :: "64 word option"
  WorkflowIdReusePolicy :: "WorkflowIdReusePolicy option"
  RetryPolicy :: "RetryPolicy option"
  CronSchedule :: "string option"
  Header :: "Header option"
  Memo :: "Memo option"
  SearchAttributes :: "SearchAttributes option"

definition StartChildWorkflowExecutionInitiatedEventAttributes_zero ::
    StartChildWorkflowExecutionInitiatedEventAttributes where
  "StartChildWorkflowExecutionInitiatedEventAttributes_zero =
      \<lparr>StartChildWorkflowExecutionInitiatedEventAttributes.Domain = None,
      StartChildWorkflowExecutionInitiatedEventAttributes.WorkflowId = None,
      StartChildWorkflowExecutionInitiatedEventAttributes.WorkflowType = None,
      StartChildWorkflowExecutionInitiatedEventAttributes.TaskList = None,
      StartChildWorkflowExecutionInitiatedEventAttributes.Input = None,
      StartChildWorkflowExecutionInitiatedEventAttributes.ExecutionStartToCloseTimeoutSeconds =
      None, StartChildWorkflowExecutionInitiatedEventAttributes.TaskStartToCloseTimeoutSeconds =
      None, StartChildWorkflowExecutionInitiatedEventAttributes.ParentClosePolicy = None,
      StartChildWorkflowExecutionInitiatedEventAttributes.Control = None,
      StartChildWorkflowExecutionInitiatedEventAttributes.DecisionTaskCompletedEventId = None,
      StartChildWorkflowExecutionInitiatedEventAttributes.WorkflowIdReusePolicy = None,
      StartChildWorkflowExecutionInitiatedEventAttributes.RetryPolicy = None,
      StartChildWorkflowExecutionInitiatedEventAttributes.CronSchedule = None,
      StartChildWorkflowExecutionInitiatedEventAttributes.Header = None,
      StartChildWorkflowExecutionInitiatedEventAttributes.Memo = None,
      StartChildWorkflowExecutionInitiatedEventAttributes.SearchAttributes = None\<rparr>"

definition StartChildWorkflowExecutionInitiatedEventAttributes_ToWire ::
  "'v wire_api \<Rightarrow> StartChildWorkflowExecutionInitiatedEventAttributes \<Rightarrow> go_error + 'v" where
  "StartChildWorkflowExecutionInitiatedEventAttributes_ToWire W v =
     and_then (put_opt 10 (\<lambda>x. Inr (NewValueString W x))
         (StartChildWorkflowExecutionInitiatedEventAttributes.Domain v) [])
       (\<lambda>fields.
     and_then (put_opt 20 (\<lambda>x. Inr (NewValueString W x))
         (StartChildWorkflowExecutionInitiatedEventAttributes.WorkflowId v) fields)
       (\<lambda>fields.
     and_then (put_opt 30 (WorkflowType_ToWire W)
         (StartChildWorkflowExecutionInitiatedEventAttributes.WorkflowType v) fields)
       (\<lambda>fields.
     and_then (put_opt 40 (TaskList_ToWire W)
         (StartChildWorkflowExecutionInitiatedEventAttributes.TaskList v) fields)
       (\<lambda>fields.
     and_then (put_opt 50 (\<lambda>x. Inr (NewValueBinary W x))
         (StartChildWorkflowExecutionInitiatedEventAttributes.Input v) fields)
       (\<lambda>fields.
     and_then (put_opt 60 (\<lambda>x. Inr (NewValueI32 W x))
         (StartChildWorkflowExecutionInitiatedEventAttributes.ExecutionStartToCloseTimeoutSeconds v)
         fields)
       (\<lambda>fields.
     and_then (put_opt 70 (\<lambda>x. Inr (NewValueI32 W x))
         (StartChildWorkflowExecutionInitiatedEventAttributes.TaskStartToCloseTimeoutSeconds v)
         fields)
       (\<lambda>fields.
     and_then (put_opt 81 (ParentClosePolicy_ToWire W)
         (StartChildWorkflowExecutionInitiatedEventAttributes.ParentClosePolicy v) fields)
       (\<lambda>fields.
     and_then (put_opt 90 (\<lambda>x. Inr (NewValueBinary W x))
         (StartChildWorkflowExecutionInitiatedEventAttributes.Control v) fields)
       (\<lambda>fields.
     and_then (put_opt 100 (\<lambda>x. Inr (NewValueI64 W x))
         (StartChildWorkflowExecutionInitiatedEventAttributes.DecisionTaskCompletedEventId v)
         fields)
       (\<lambda>fields.
     and_then (put_opt 110 (WorkflowIdReusePolicy_ToWire W)
         (StartChildWorkflowExecutionInitiatedEventAttributes.WorkflowIdReusePolicy v) fields)
       (\<lambda>fields.
     and_then (put_opt 120 (RetryPolicy_ToWire W)
         (StartChildWorkflowExecutionInitiatedEventAttributes.RetryPolicy v) fields)
       (\<lambda>fields.
     and_then (put_opt 130 (\<lambda>x. Inr (NewValueString W x))
         (StartChildWorkflowExecutionInitiatedEventAttributes.CronSchedule v) fields)
       (\<lambda>fields.
     and_then (put_opt 140 (Header_ToWire W)
         (StartChildWorkflowExecutionInitiatedEventAttributes.Header v) fields)
       (\<lambda>fields.
     and_then (put_opt 150 (Memo_ToWire W) (StartChildWorkflowExecutionInitiatedEventAttributes.Memo
         v) fields)
       (\<lambda>fields.
     and_then (put_opt 160 (SearchAttributes_ToWire W)
         (StartChildWorkflowExecutionInitiatedEventAttributes.SearchAttributes v) fields)
       (\<lambda>fields.
     Inr (NewValueStruct W fields)))))))))))))))))"

definition StartChildWorkflowExecutionInitiatedEventAttributes_FromWire ::
  "'v wire_api \<Rightarrow> 'v \<Rightarrow> StartChildWorkflowExecutionInitiatedEventAttributes \<Rightarrow> go_error +
      StartChildWorkflowExecutionInitiatedEventAttributes" where
  "StartChildWorkflowExecutionInitiatedEventAttributes_FromWire W w v =
     foldM (\<lambda>v (fid, fval).
       if fid = 10 then
         if wire_api.Type W fval = TBinary
         then Inr (v\<lparr>StartChildWorkflowExecutionInitiatedEventAttributes.Domain := Some (GetString W
             fval)\<rparr>)
         else Inr v
       else if fid = 20 then
         if wire_api.Type W fval = TBinary
         then Inr (v\<lparr>StartChildWorkflowExecutionInitiatedEventAttributes.WorkflowId := Some
             (GetString W fval)\<rparr>)
         else Inr v
       else if fid = 30 then
         if wire_api.Type W fval = TStruct
         then and_then (WorkflowType_Read W fval) (\<lambda>x. Inr
             (v\<lparr>StartChildWorkflowExecutionInitiatedEventAttributes.WorkflowType := Some x\<rparr>))
         else Inr v
       else if fid = 40 then
         if wire_api.Type W fval = TStruct
         then and_then (TaskList_Read W fval) (\<lambda>x. Inr
             (v\<lparr>StartChildWorkflowExecutionInitiatedEventAttributes.TaskList := Some x\<rparr>))
         else Inr v
       else if fid = 50 then
         if wire_api.Type W fval = TBinary
         then Inr (v\<lparr>StartChildWorkflowExecutionInitiatedEventAttributes.Input := Some (GetBinary W
             fval)\<rparr>)
         else Inr v
       else if fid = 60 then
         if wire_api.Type W fval = TI32
         then Inr
             (v\<lparr>StartChildWorkflowExecutionInitiatedEventAttributes.ExecutionStartToCloseTimeoutSeconds := Some (GetI32 W fval)\<rparr>)
         else Inr v
       else if fid = 70 then
         if wire_api.Type W fval = TI32
         then Inr
             (v\<lparr>StartChildWorkflowExecutionInitiatedEventAttributes.TaskStartToCloseTimeoutSeconds
             := Some (GetI32 W fval)\<rparr>)
         else Inr v
       else if fid = 81 then
         if wire_api.Type W fval = TI32
         then and_then (ParentClosePolicy_Read W fval) (\<lambda>x. Inr
             (v\<lparr>StartChildWorkflowExecutionInitiatedEventAttributes.ParentClosePolicy := Some x\<rparr>))
         else Inr v
       else if fid = 90 then
         if wire_api.Type W fval = TBinary
         then Inr (v\<lparr>StartChildWorkflowExecutionInitiatedEventAttributes.Control := Some (GetBinary
             W fval)\<rparr>)
         else Inr v
       else if fid = 100 then
         if wire_api.Type W fval = TI64
         then Inr
             (v\<lparr>StartChildWorkflowExecutionInitiatedEventAttributes.DecisionTaskCompletedEventId :=
             Some (GetI64 W fval)\<rparr>)
         else Inr v
       else if fid = 110 then
         if wire_api.Type W fval = TI32
         then and_then (WorkflowIdReusePolicy_Read W fval) (\<lambda>x. Inr
             (v\<lparr>StartChildWorkflowExecutionInitiatedEventAttributes.WorkflowIdReusePolicy := Some
             x\<rparr>))
         else Inr v
       else if fid = 120 then
         if wire_api.Type W fval = TStruct
         then and_then (RetryPolicy_Read W fval) (\<lambda>x. Inr
             (v\<lparr>StartChildWorkflowExecutionInitiatedEventAttributes.RetryPolicy := Some x\<rparr>))
         else Inr v
       else if fid = 130 then
         if wire_api.Type W fval = TBinary
         then Inr (v\<lparr>StartChildWorkflowExecutionInitiatedEventAttributes.CronSchedule := Some
             (GetString W fval)\<rparr>)
         else Inr v
       else if fid = 140 then
         if wire_api.Type W fval = TStruct
         then and_then (Header_Read W fval) (\<lambda>x. Inr
             (v\<lparr>StartChildWorkflowExecutionInitiatedEventAttributes.Header := Some x\<rparr>))
         else Inr v
       else if fid = 150 then
         if wire_api.Type W fval = TStruct
         then and_then (Memo_Read W fval) (\<lambda>x. Inr
             (v\<lparr>StartChildWorkflowExecutionInitiatedEventAttributes.Memo := Some x\<rparr>))
         else Inr v
       else if fid = 160 then
         if wire_api.Type W fval = TStruct
         then and_then (SearchAttributes_Read W fval) (\<lambda>x. Inr
             (v\<lparr>StartChildWorkflowExecutionInitiatedEventAttributes.SearchAttributes := Some x\<rparr>))
         else Inr v
       else Inr v) (GetStruct W w) v"

definition StartChildWorkflowExecutionInitiatedEventAttributes_Read :: "'v wire_api \<Rightarrow> 'v \<Rightarrow> go_error
    + StartChildWorkflowExecutionInitiatedEventAttributes" where
  "StartChildWorkflowExecutionInitiatedEventAttributes_Read W w =
      StartChildWorkflowExecutionInitiatedEventAttributes_FromWire W w
      StartChildWorkflowExecutionInitiatedEventAttributes_zero"

definition StartChildWorkflowExecutionInitiatedEventAttributes_complete ::
    "StartChildWorkflowExecutionInitiatedEventAttributes \<Rightarrow> bool" where
  "StartChildWorkflowExecutionInitiatedEventAttributes_complete v \<longleftrightarrow>
     if_set Header_complete (StartChildWorkflowExecutionInitiatedEventAttributes.Header v) \<and>
     if_set Memo_complete (StartChildWorkflowExecutionInitiatedEventAttributes.Memo v) \<and>
     if_set SearchAttributes_complete
         (StartChildWorkflowExecutionInitiatedEventAttributes.SearchAttributes v)"

lemma StartChildWorkflowExecutionInitiatedEventAttributes_merge:
  "(case x of None \<Rightarrow> Inr \<lparr>StartChildWorkflowExecutionInitiatedEventAttributes.Domain = a0,
      StartChildWorkflowExecutionInitiatedEventAttributes.WorkflowId = a1,
      StartChildWorkflowExecutionInitiatedEventAttributes.WorkflowType = a2,
      StartChildWorkflowExecutionInitiatedEventAttributes.TaskList = a3,
      StartChildWorkflowExecutionInitiatedEventAttributes.Input = a4,
      StartChildWorkflowExecutionInitiatedEventAttributes.ExecutionStartToCloseTimeoutSeconds = a5,
      StartChildWorkflowExecutionInitiatedEventAttributes.TaskStartToCloseTimeoutSeconds = a6,
      StartChildWorkflowExecutionInitiatedEventAttributes.ParentClosePolicy = a7,
      StartChildWorkflowExecutionInitiatedEventAttributes.Control = a8,
      StartChildWorkflowExecutionInitiatedEventAttributes.DecisionTaskCompletedEventId = a9,
      StartChildWorkflowExecutionInitiatedEventAttributes.WorkflowIdReusePolicy = a10,
      StartChildWorkflowExecutionInitiatedEventAttributes.RetryPolicy = a11,
      StartChildWorkflowExecutionInitiatedEventAttributes.CronSchedule = a12,
      StartChildWorkflowExecutionInitiatedEventAttributes.Header = a13,
      StartChildWorkflowExecutionInitiatedEventAttributes.Memo = a14,
      StartChildWorkflowExecutionInitiatedEventAttributes.SearchAttributes = a15\<rparr> | Some y \<Rightarrow> Inr
      \<lparr>StartChildWorkflowExecutionInitiatedEventAttributes.Domain = b0 y,
      StartChildWorkflowExecutionInitiatedEventAttributes.WorkflowId = b1 y,
      StartChildWorkflowExecutionInitiatedEventAttributes.WorkflowType = b2 y,
      StartChildWorkflowExecutionInitiatedEventAttributes.TaskList = b3 y,
      StartChildWorkflowExecutionInitiatedEventAttributes.Input = b4 y,
      StartChildWorkflowExecutionInitiatedEventAttributes.ExecutionStartToCloseTimeoutSeconds = b5
      y, StartChildWorkflowExecutionInitiatedEventAttributes.TaskStartToCloseTimeoutSeconds = b6 y,
      StartChildWorkflowExecutionInitiatedEventAttributes.ParentClosePolicy = b7 y,
      StartChildWorkflowExecutionInitiatedEventAttributes.Control = b8 y,
      StartChildWorkflowExecutionInitiatedEventAttributes.DecisionTaskCompletedEventId = b9 y,
      StartChildWorkflowExecutionInitiatedEventAttributes.WorkflowIdReusePolicy = b10 y,
      StartChildWorkflowExecutionInitiatedEventAttributes.RetryPolicy = b11 y,
      StartChildWorkflowExecutionInitiatedEventAttributes.CronSchedule = b12 y,
      StartChildWorkflowExecutionInitiatedEventAttributes.Header = b13 y,
      StartChildWorkflowExecutionInitiatedEventAttributes.Memo = b14 y,
      StartChildWorkflowExecutionInitiatedEventAttributes.SearchAttributes = b15 y\<rparr>) =
   Inr \<lparr>StartChildWorkflowExecutionInitiatedEventAttributes.Domain = (case x of None \<Rightarrow> a0 | Some y \<Rightarrow>
       b0 y), StartChildWorkflowExecutionInitiatedEventAttributes.WorkflowId = (case x of None \<Rightarrow> a1
       | Some y \<Rightarrow> b1 y), StartChildWorkflowExecutionInitiatedEventAttributes.WorkflowType = (case x
       of None \<Rightarrow> a2 | Some y \<Rightarrow> b2 y), StartChildWorkflowExecutionInitiatedEventAttributes.TaskList =
       (case x of None \<Rightarrow> a3 | Some y \<Rightarrow> b3 y),
       StartChildWorkflowExecutionInitiatedEventAttributes.Input = (case x of None \<Rightarrow> a4 | Some y \<Rightarrow>
       b4 y),
       StartChildWorkflowExecutionInitiatedEventAttributes.ExecutionStartToCloseTimeoutSeconds =
       (case x of None \<Rightarrow> a5 | Some y \<Rightarrow> b5 y),
       StartChildWorkflowExecutionInitiatedEventAttributes.TaskStartToCloseTimeoutSeconds = (case x
       of None \<Rightarrow> a6 | Some y \<Rightarrow> b6 y),
       StartChildWorkflowExecutionInitiatedEventAttributes.ParentClosePolicy = (case x of None \<Rightarrow> a7
       | Some y \<Rightarrow> b7 y), StartChildWorkflowExecutionInitiatedEventAttributes.Control = (case x of
       None \<Rightarrow> a8 | Some y \<Rightarrow> b8 y),
       StartChildWorkflowExecutionInitiatedEventAttributes.DecisionTaskCompletedEventId = (case x of
       None \<Rightarrow> a9 | Some y \<Rightarrow> b9 y),
       StartChildWorkflowExecutionInitiatedEventAttributes.WorkflowIdReusePolicy = (case x of None \<Rightarrow>
       a10 | Some y \<Rightarrow> b10 y), StartChildWorkflowExecutionInitiatedEventAttributes.RetryPolicy =
       (case x of None \<Rightarrow> a11 | Some y \<Rightarrow> b11 y),
       StartChildWorkflowExecutionInitiatedEventAttributes.CronSchedule = (case x of None \<Rightarrow> a12 |
       Some y \<Rightarrow> b12 y), StartChildWorkflowExecutionInitiatedEventAttributes.Header = (case x of None
       \<Rightarrow> a13 | Some y \<Rightarrow> b13 y), StartChildWorkflowExecutionInitiatedEventAttributes.Memo = (case x
       of None \<Rightarrow> a14 | Some y \<Rightarrow> b14 y),
       StartChildWorkflowExecutionInitiatedEventAttributes.SearchAttributes = (case x of None \<Rightarrow> a15
       | Some y \<Rightarrow> b15 y)\<rparr>"
  by (cases x) simp_all

interpretation StartChildWorkflowExecutionInitiatedEventAttributes: thrift_message W
  "StartChildWorkflowExecutionInitiatedEventAttributes_ToWire W"
      "StartChildWorkflowExecutionInitiatedEventAttributes_FromWire W"
      StartChildWorkflowExecutionInitiatedEventAttributes_zero
      "StartChildWorkflowExecutionInitiatedEventAttributes_complete" for W
proof (rule thrift_messageI)
  fix x :: StartChildWorkflowExecutionInitiatedEventAttributes
  assume laws: "wire_laws W"
  obtain enc0 where e0: "Header_ToWire W = (\<lambda>x. Inr (enc0 x))"
      "\<And>x. wire_api.Type W (enc0 x) = TStruct"
      "\<And>x. Writable W (enc0 x) \<longleftrightarrow> Header_complete x"
      "\<And>x. Header_complete x \<Longrightarrow> Header_FromWire W (enc0 x) Header_zero = Inr x"
    by (rule Header.encoder [OF laws]) (rule that)
  obtain enc1 where e1: "Memo_ToWire W = (\<lambda>x. Inr (enc1 x))"
      "\<And>x. wire_api.Type W (enc1 x) = TStruct"
      "\<And>x. Writable W (enc1 x) \<longleftrightarrow> Memo_complete x"
      "\<And>x. Memo_complete x \<Longrightarrow> Memo_FromWire W (enc1 x) Memo_zero = Inr x"
    by (rule Memo.encoder [OF laws]) (rule that)
  obtain enc2 where e2: "RetryPolicy_ToWire W = (\<lambda>x. Inr (enc2 x))"
      "\<And>x. wire_api.Type W (enc2 x) = TStruct"
      "\<And>x. Writable W (enc2 x) \<longleftrightarrow> (\<lambda>_. True) x"
      "\<And>x. (\<lambda>_. True) x \<Longrightarrow> RetryPolicy_FromWire W (enc2 x) RetryPolicy_zero = Inr x"
    by (rule RetryPolicy.encoder [OF laws]) (rule that)
  obtain enc3 where e3: "SearchAttributes_ToWire W = (\<lambda>x. Inr (enc3 x))"
      "\<And>x. wire_api.Type W (enc3 x) = TStruct"
      "\<And>x. Writable W (enc3 x) \<longleftrightarrow> SearchAttributes_complete x"
      "\<And>x. SearchAttributes_complete x \<Longrightarrow> SearchAttributes_FromWire W (enc3 x) SearchAttributes_zero
          = Inr x"
    by (rule SearchAttributes.encoder [OF laws]) (rule that)
  obtain enc4 where e4: "TaskList_ToWire W = (\<lambda>x. Inr (enc4 x))"
      "\<And>x. wire_api.Type W (enc4 x) = TStruct"
      "\<And>x. Writable W (enc4 x) \<longleftrightarrow> (\<lambda>_. True) x"
      "\<And>x. (\<lambda>_. True) x \<Longrightarrow> TaskList_FromWire W (enc4 x) TaskList_zero = Inr x"
    by (rule TaskList.encoder [OF laws]) (rule that)
  obtain enc5 where e5: "WorkflowType_ToWire W = (\<lambda>x. Inr (enc5 x))"
      "\<And>x. wire_api.Type W (enc5 x) = TStruct"
      "\<And>x. Writable W (enc5 x) \<longleftrightarrow> (\<lambda>_. True) x"
      "\<And>x. (\<lambda>_. True) x \<Longrightarrow> WorkflowType_FromWire W (enc5 x) WorkflowType_zero = Inr x"
    by (rule WorkflowType.encoder [OF laws]) (rule that)
  show "\<exists>w. StartChildWorkflowExecutionInitiatedEventAttributes_ToWire W x = Inr w \<and> wire_api.Type W
      w = TStruct \<and>
      (Writable W w \<longleftrightarrow> StartChildWorkflowExecutionInitiatedEventAttributes_complete x) \<and>
          (StartChildWorkflowExecutionInitiatedEventAttributes_complete x \<longrightarrow>
          StartChildWorkflowExecutionInitiatedEventAttributes_FromWire W w
          StartChildWorkflowExecutionInitiatedEventAttributes_zero = Inr x)"
    by (cases x) (simp cong: option.case_cong add: codec_rules
        StartChildWorkflowExecutionInitiatedEventAttributes_merge
        StartChildWorkflowExecutionInitiatedEventAttributes_ToWire_def
        StartChildWorkflowExecutionInitiatedEventAttributes_FromWire_def
        StartChildWorkflowExecutionInitiatedEventAttributes_zero_def
        StartChildWorkflowExecutionInitiatedEventAttributes_complete_def if_set_def
        ParentClosePolicy_enc ParentClosePolicy_Read_def ParentClosePolicy_FromWire_def
        WorkflowIdReusePolicy_enc WorkflowIdReusePolicy_Read_def WorkflowIdReusePolicy_FromWire_def
        Header_Read_def Memo_Read_def RetryPolicy_Read_def SearchAttributes_Read_def
        TaskList_Read_def WorkflowType_Read_def laws e0 e1 e2 e3 e4 e5)
qed

definition StartChildWorkflowExecutionInitiatedEventAttributes_Equals ::
  "StartChildWorkflowExecutionInitiatedEventAttributes option \<Rightarrow>
      StartChildWorkflowExecutionInitiatedEventAttributes option \<Rightarrow> bool" where
  "StartChildWorkflowExecutionInitiatedEventAttributes_Equals v rhs =
     (case v of None \<Rightarrow> rhs = None
      | Some v \<Rightarrow> (case rhs of None \<Rightarrow> False
        | Some rhs \<Rightarrow>
          if \<not> String_EqualsPtr (StartChildWorkflowExecutionInitiatedEventAttributes.Domain v)
              (StartChildWorkflowExecutionInitiatedEventAttributes.Domain rhs) then False else
          if \<not> String_EqualsPtr (StartChildWorkflowExecutionInitiatedEventAttributes.WorkflowId v)
              (StartChildWorkflowExecutionInitiatedEventAttributes.WorkflowId rhs) then False else
          if \<not> both_set_and (\<lambda>x y. WorkflowType_Equals (Some x) (Some y))
              (StartChildWorkflowExecutionInitiatedEventAttributes.WorkflowType v)
              (StartChildWorkflowExecutionInitiatedEventAttributes.WorkflowType rhs) then False else
          if \<not> both_set_and (\<lambda>x y. TaskList_Equals (Some x) (Some y))
              (StartChildWorkflowExecutionInitiatedEventAttributes.TaskList v)
              (StartChildWorkflowExecutionInitiatedEventAttributes.TaskList rhs) then False else
          if \<not> both_set_and (=) (StartChildWorkflowExecutionInitiatedEventAttributes.Input v)
              (StartChildWorkflowExecutionInitiatedEventAttributes.Input rhs) then False else
          if \<not> I32_EqualsPtr
              (StartChildWorkflowExecutionInitiatedEventAttributes.ExecutionStartToCloseTimeoutSeconds v) (StartChildWorkflowExecutionInitiatedEventAttributes.ExecutionStartToCloseTimeoutSeconds rhs) then False else
          if \<not> I32_EqualsPtr
              (StartChildWorkflowExecutionInitiatedEventAttributes.TaskStartToCloseTimeoutSeconds v)
              (StartChildWorkflowExecutionInitiatedEventAttributes.TaskStartToCloseTimeoutSeconds
              rhs) then False else
          if \<not> ParentClosePolicy_EqualsPtr
              (StartChildWorkflowExecutionInitiatedEventAttributes.ParentClosePolicy v)
              (StartChildWorkflowExecutionInitiatedEventAttributes.ParentClosePolicy rhs) then False
              else
          if \<not> both_set_and (=) (StartChildWorkflowExecutionInitiatedEventAttributes.Control v)
              (StartChildWorkflowExecutionInitiatedEventAttributes.Control rhs) then False else
          if \<not> I64_EqualsPtr
              (StartChildWorkflowExecutionInitiatedEventAttributes.DecisionTaskCompletedEventId v)
              (StartChildWorkflowExecutionInitiatedEventAttributes.DecisionTaskCompletedEventId rhs)
              then False else
          if \<not> WorkflowIdReusePolicy_EqualsPtr
              (StartChildWorkflowExecutionInitiatedEventAttributes.WorkflowIdReusePolicy v)
              (StartChildWorkflowExecutionInitiatedEventAttributes.WorkflowIdReusePolicy rhs) then
              False else
          if \<not> both_set_and (\<lambda>x y. RetryPolicy_Equals (Some x) (Some y))
              (StartChildWorkflowExecutionInitiatedEventAttributes.RetryPolicy v)
              (StartChildWorkflowExecutionInitiatedEventAttributes.RetryPolicy rhs) then False else
          if \<not> String_EqualsPtr (StartChildWorkflowExecutionInitiatedEventAttributes.CronSchedule v)
              (StartChildWorkflowExecutionInitiatedEventAttributes.CronSchedule rhs) then False else
          if \<not> both_set_and (\<lambda>x y. Header_Equals (Some x) (Some y))
              (StartChildWorkflowExecutionInitiatedEventAttributes.Header v)
              (StartChildWorkflowExecutionInitiatedEventAttributes.Header rhs) then False else
          if \<not> both_set_and (\<lambda>x y. Memo_Equals (Some x) (Some y))
              (StartChildWorkflowExecutionInitiatedEventAttributes.Memo v)
              (StartChildWorkflowExecutionInitiatedEventAttributes.Memo rhs) then False else
          if \<not> both_set_and (\<lambda>x y. SearchAttributes_Equals (Some x) (Some y))
              (StartChildWorkflowExecutionInitiatedEventAttributes.SearchAttributes v)
              (StartChildWorkflowExecutionInitiatedEventAttributes.SearchAttributes rhs) then False
              else
          True))"

definition StartChildWorkflowExecutionInitiatedEventAttributes_comparable ::
    "StartChildWorkflowExecutionInitiatedEventAttributes \<Rightarrow> bool" where
  "StartChildWorkflowExecutionInitiatedEventAttributes_comparable v \<longleftrightarrow>
     if_set RetryPolicy_comparable (StartChildWorkflowExecutionInitiatedEventAttributes.RetryPolicy
         v) \<and>
     if_set Header_comparable (StartChildWorkflowExecutionInitiatedEventAttributes.Header v) \<and>
     if_set Memo_comparable (StartChildWorkflowExecutionInitiatedEventAttributes.Memo v) \<and>
     if_set SearchAttributes_comparable
         (StartChildWorkflowExecutionInitiatedEventAttributes.SearchAttributes v)"

lemma StartChildWorkflowExecutionInitiatedEventAttributes_Equals_iff:
  "if_set StartChildWorkflowExecutionInitiatedEventAttributes_comparable x \<Longrightarrow> if_set
      StartChildWorkflowExecutionInitiatedEventAttributes_comparable y \<Longrightarrow>
      StartChildWorkflowExecutionInitiatedEventAttributes_Equals x y \<longleftrightarrow> x = y"
  by (cases x; cases y) (simp_all add:
      StartChildWorkflowExecutionInitiatedEventAttributes_Equals_def
      StartChildWorkflowExecutionInitiatedEventAttributes_comparable_def if_not_False,
    fastforce intro: StartChildWorkflowExecutionInitiatedEventAttributes.equality)

lemma StartChildWorkflowExecutionInitiatedEventAttributes_fields_equal [simp]:
  "if_set StartChildWorkflowExecutionInitiatedEventAttributes_comparable x \<Longrightarrow> if_set
      StartChildWorkflowExecutionInitiatedEventAttributes_comparable y \<Longrightarrow>
    both_set_and (\<lambda>x y. StartChildWorkflowExecutionInitiatedEventAttributes_Equals (Some x) (Some
        y)) x y \<longleftrightarrow> x = y"
  by (rule both_set_and_iff [where P =
      StartChildWorkflowExecutionInitiatedEventAttributes_comparable]) (simp_all add:
      StartChildWorkflowExecutionInitiatedEventAttributes_Equals_iff)

record UpsertWorkflowSearchAttributesEventAttributes =
  DecisionTaskCompletedEventId :: "64 word option"
  SearchAttributes :: "SearchAttributes option"

definition UpsertWorkflowSearchAttributesEventAttributes_zero ::
    UpsertWorkflowSearchAttributesEventAttributes where
  "UpsertWorkflowSearchAttributesEventAttributes_zero =
      \<lparr>UpsertWorkflowSearchAttributesEventAttributes.DecisionTaskCompletedEventId = None,
      UpsertWorkflowSearchAttributesEventAttributes.SearchAttributes = None\<rparr>"

definition UpsertWorkflowSearchAttributesEventAttributes_ToWire ::
  "'v wire_api \<Rightarrow> UpsertWorkflowSearchAttributesEventAttributes \<Rightarrow> go_error + 'v" where
  "UpsertWorkflowSearchAttributesEventAttributes_ToWire W v =
     and_then (put_opt 10 (\<lambda>x. Inr (NewValueI64 W x))
         (UpsertWorkflowSearchAttributesEventAttributes.DecisionTaskCompletedEventId v) [])
       (\<lambda>fields.
     and_then (put_opt 20 (SearchAttributes_ToWire W)
         (UpsertWorkflowSearchAttributesEventAttributes.SearchAttributes v) fields)
       (\<lambda>fields.
     Inr (NewValueStruct W fields)))"

definition UpsertWorkflowSearchAttributesEventAttributes_FromWire ::
  "'v wire_api \<Rightarrow> 'v \<Rightarrow> UpsertWorkflowSearchAttributesEventAttributes \<Rightarrow> go_error +
      UpsertWorkflowSearchAttributesEventAttributes" where
  "UpsertWorkflowSearchAttributesEventAttributes_FromWire W w v =
     foldM (\<lambda>v (fid, fval).
       if fid = 10 then
         if wire_api.Type W fval = TI64
         then Inr (v\<lparr>UpsertWorkflowSearchAttributesEventAttributes.DecisionTaskCompletedEventId :=
             Some (GetI64 W fval)\<rparr>)
         else Inr v
       else if fid = 20 then
         if wire_api.Type W fval = TStruct
         then and_then (SearchAttributes_Read W fval) (\<lambda>x. Inr
             (v\<lparr>UpsertWorkflowSearchAttributesEventAttributes.SearchAttributes := Some x\<rparr>))
         else Inr v
       else Inr v) (GetStruct W w) v"

definition UpsertWorkflowSearchAttributesEventAttributes_Read :: "'v wire_api \<Rightarrow> 'v \<Rightarrow> go_error +
    UpsertWorkflowSearchAttributesEventAttributes" where
  "UpsertWorkflowSearchAttributesEventAttributes_Read W w =
      UpsertWorkflowSearchAttributesEventAttributes_FromWire W w
      UpsertWorkflowSearchAttributesEventAttributes_zero"

definition UpsertWorkflowSearchAttributesEventAttributes_complete ::
    "UpsertWorkflowSearchAttributesEventAttributes \<Rightarrow> bool" where
  "UpsertWorkflowSearchAttributesEventAttributes_complete v \<longleftrightarrow>
     if_set SearchAttributes_complete
         (UpsertWorkflowSearchAttributesEventAttributes.SearchAttributes v)"

lemma UpsertWorkflowSearchAttributesEventAttributes_merge:
  "(case x of None \<Rightarrow> Inr \<lparr>UpsertWorkflowSearchAttributesEventAttributes.DecisionTaskCompletedEventId
      = a0, UpsertWorkflowSearchAttributesEventAttributes.SearchAttributes = a1\<rparr> | Some y \<Rightarrow> Inr
      \<lparr>UpsertWorkflowSearchAttributesEventAttributes.DecisionTaskCompletedEventId = b0 y,
      UpsertWorkflowSearchAttributesEventAttributes.SearchAttributes = b1 y\<rparr>) =
   Inr \<lparr>UpsertWorkflowSearchAttributesEventAttributes.DecisionTaskCompletedEventId = (case x of None
       \<Rightarrow> a0 | Some y \<Rightarrow> b0 y), UpsertWorkflowSearchAttributesEventAttributes.SearchAttributes = (case
       x of None \<Rightarrow> a1 | Some y \<Rightarrow> b1 y)\<rparr>"
  by (cases x) simp_all

interpretation UpsertWorkflowSearchAttributesEventAttributes: thrift_message W
  "UpsertWorkflowSearchAttributesEventAttributes_ToWire W"
      "UpsertWorkflowSearchAttributesEventAttributes_FromWire W"
      UpsertWorkflowSearchAttributesEventAttributes_zero
      "UpsertWorkflowSearchAttributesEventAttributes_complete" for W
proof (rule thrift_messageI)
  fix x :: UpsertWorkflowSearchAttributesEventAttributes
  assume laws: "wire_laws W"
  obtain enc0 where e0: "SearchAttributes_ToWire W = (\<lambda>x. Inr (enc0 x))"
      "\<And>x. wire_api.Type W (enc0 x) = TStruct"
      "\<And>x. Writable W (enc0 x) \<longleftrightarrow> SearchAttributes_complete x"
      "\<And>x. SearchAttributes_complete x \<Longrightarrow> SearchAttributes_FromWire W (enc0 x) SearchAttributes_zero
          = Inr x"
    by (rule SearchAttributes.encoder [OF laws]) (rule that)
  show "\<exists>w. UpsertWorkflowSearchAttributesEventAttributes_ToWire W x = Inr w \<and> wire_api.Type W w =
      TStruct \<and>
      (Writable W w \<longleftrightarrow> UpsertWorkflowSearchAttributesEventAttributes_complete x) \<and>
          (UpsertWorkflowSearchAttributesEventAttributes_complete x \<longrightarrow>
          UpsertWorkflowSearchAttributesEventAttributes_FromWire W w
          UpsertWorkflowSearchAttributesEventAttributes_zero = Inr x)"
    by (cases x) (simp cong: option.case_cong add: codec_rules
        UpsertWorkflowSearchAttributesEventAttributes_merge
        UpsertWorkflowSearchAttributesEventAttributes_ToWire_def
        UpsertWorkflowSearchAttributesEventAttributes_FromWire_def
        UpsertWorkflowSearchAttributesEventAttributes_zero_def
        UpsertWorkflowSearchAttributesEventAttributes_complete_def if_set_def
        SearchAttributes_Read_def laws e0)
qed

definition UpsertWorkflowSearchAttributesEventAttributes_Equals ::
  "UpsertWorkflowSearchAttributesEventAttributes option \<Rightarrow>
      UpsertWorkflowSearchAttributesEventAttributes option \<Rightarrow> bool" where
  "UpsertWorkflowSearchAttributesEventAttributes_Equals v rhs =
     (case v of None \<Rightarrow> rhs = None
      | Some v \<Rightarrow> (case rhs of None \<Rightarrow> False
        | Some rhs \<Rightarrow>
          if \<not> I64_EqualsPtr
              (UpsertWorkflowSearchAttributesEventAttributes.DecisionTaskCompletedEventId v)
              (UpsertWorkflowSearchAttributesEventAttributes.DecisionTaskCompletedEventId rhs) then
              False else
          if \<not> both_set_and (\<lambda>x y. SearchAttributes_Equals (Some x) (Some y))
              (UpsertWorkflowSearchAttributesEventAttributes.SearchAttributes v)
              (UpsertWorkflowSearchAttributesEventAttributes.SearchAttributes rhs) then False else
          True))"

definition UpsertWorkflowSearchAttributesEventAttributes_comparable ::
    "UpsertWorkflowSearchAttributesEventAttributes \<Rightarrow> bool" where
  "UpsertWorkflowSearchAttributesEventAttributes_comparable v \<longleftrightarrow>
     if_set SearchAttributes_comparable
         (UpsertWorkflowSearchAttributesEventAttributes.SearchAttributes v)"

lemma UpsertWorkflowSearchAttributesEventAttributes_Equals_iff:
  "if_set UpsertWorkflowSearchAttributesEventAttributes_comparable x \<Longrightarrow> if_set
      UpsertWorkflowSearchAttributesEventAttributes_comparable y \<Longrightarrow>
      UpsertWorkflowSearchAttributesEventAttributes_Equals x y \<longleftrightarrow> x = y"
  by (cases x; cases y) (simp_all add: UpsertWorkflowSearchAttributesEventAttributes_Equals_def
      UpsertWorkflowSearchAttributesEventAttributes_comparable_def if_not_False,
    fastforce intro: UpsertWorkflowSearchAttributesEventAttributes.equality)

lemma UpsertWorkflowSearchAttributesEventAttributes_fields_equal [simp]:
  "if_set UpsertWorkflowSearchAttributesEventAttributes_comparable x \<Longrightarrow> if_set
      UpsertWorkflowSearchAttributesEventAttributes_comparable y \<Longrightarrow>
    both_set_and (\<lambda>x y. UpsertWorkflowSearchAttributesEventAttributes_Equals (Some x) (Some y)) x y
        \<longleftrightarrow> x = y"
  by (rule both_set_and_iff [where P = UpsertWorkflowSearchAttributesEventAttributes_comparable])
      (simp_all add: UpsertWorkflowSearchAttributesEventAttributes_Equals_iff)

record WorkflowExecutionCancelRequestedEventAttributes =
  Cause :: "string option"
  ExternalInitiatedEventId :: "64 word option"
  ExternalWorkflowExecution :: "WorkflowExecution option"
  Identity :: "string option"

definition WorkflowExecutionCancelRequestedEventAttributes_zero ::
    WorkflowExecutionCancelRequestedEventAttributes where
  "WorkflowExecutionCancelRequestedEventAttributes_zero =
      \<lparr>WorkflowExecutionCancelRequestedEventAttributes.Cause = None,
      WorkflowExecutionCancelRequestedEventAttributes.ExternalInitiatedEventId = None,
      WorkflowExecutionCancelRequestedEventAttributes.ExternalWorkflowExecution = None,
      WorkflowExecutionCancelRequestedEventAttributes.Identity = None\<rparr>"

definition WorkflowExecutionCancelRequestedEventAttributes_ToWire ::
  "'v wire_api \<Rightarrow> WorkflowExecutionCancelRequestedEventAttributes \<Rightarrow> go_error + 'v" where
  "WorkflowExecutionCancelRequestedEventAttributes_ToWire W v =
     and_then (put_opt 10 (\<lambda>x. Inr (NewValueString W x))
         (WorkflowExecutionCancelRequestedEventAttributes.Cause v) [])
       (\<lambda>fields.
     and_then (put_opt 20 (\<lambda>x. Inr (NewValueI64 W x))
         (WorkflowExecutionCancelRequestedEventAttributes.ExternalInitiatedEventId v) fields)
       (\<lambda>fields.
     and_then (put_opt 30 (WorkflowExecution_ToWire W)
         (WorkflowExecutionCancelRequestedEventAttributes.ExternalWorkflowExecution v) fields)
       (\<lambda>fields.
     and_then (put_opt 40 (\<lambda>x. Inr (NewValueString W x))
         (WorkflowExecutionCancelRequestedEventAttributes.Identity v) fields)
       (\<lambda>fields.
     Inr (NewValueStruct W fields)))))"

definition WorkflowExecutionCancelRequestedEventAttributes_FromWire ::
  "'v wire_api \<Rightarrow> 'v \<Rightarrow> WorkflowExecutionCancelRequestedEventAttributes \<Rightarrow> go_error +
      WorkflowExecutionCancelRequestedEventAttributes" where
  "WorkflowExecutionCancelRequestedEventAttributes_FromWire W w v =
     foldM (\<lambda>v (fid, fval).
       if fid = 10 then
         if wire_api.Type W fval = TBinary
         then Inr (v\<lparr>WorkflowExecutionCancelRequestedEventAttributes.Cause := Some (GetString W
             fval)\<rparr>)
         else Inr v
       else if fid = 20 then
         if wire_api.Type W fval = TI64
         then Inr (v\<lparr>WorkflowExecutionCancelRequestedEventAttributes.ExternalInitiatedEventId :=
             Some (GetI64 W fval)\<rparr>)
         else Inr v
       else if fid = 30 then
         if wire_api.Type W fval = TStruct
         then and_then (WorkflowExecution_Read W fval) (\<lambda>x. Inr
             (v\<lparr>WorkflowExecutionCancelRequestedEventAttributes.ExternalWorkflowExecution := Some
             x\<rparr>))
         else Inr v
       else if fid = 40 then
         if wire_api.Type W fval = TBinary
         then Inr (v\<lparr>WorkflowExecutionCancelRequestedEventAttributes.Identity := Some (GetString W
             fval)\<rparr>)
         else Inr v
       else Inr v) (GetStruct W w) v"

definition WorkflowExecutionCancelRequestedEventAttributes_Read :: "'v wire_api \<Rightarrow> 'v \<Rightarrow> go_error +
    WorkflowExecutionCancelRequestedEventAttributes" where
  "WorkflowExecutionCancelRequestedEventAttributes_Read W w =
      WorkflowExecutionCancelRequestedEventAttributes_FromWire W w
      WorkflowExecutionCancelRequestedEventAttributes_zero"

lemma WorkflowExecutionCancelRequestedEventAttributes_merge:
  "(case x of None \<Rightarrow> Inr \<lparr>WorkflowExecutionCancelRequestedEventAttributes.Cause = a0,
      WorkflowExecutionCancelRequestedEventAttributes.ExternalInitiatedEventId = a1,
      WorkflowExecutionCancelRequestedEventAttributes.ExternalWorkflowExecution = a2,
      WorkflowExecutionCancelRequestedEventAttributes.Identity = a3\<rparr> | Some y \<Rightarrow> Inr
      \<lparr>WorkflowExecutionCancelRequestedEventAttributes.Cause = b0 y,
      WorkflowExecutionCancelRequestedEventAttributes.ExternalInitiatedEventId = b1 y,
      WorkflowExecutionCancelRequestedEventAttributes.ExternalWorkflowExecution = b2 y,
      WorkflowExecutionCancelRequestedEventAttributes.Identity = b3 y\<rparr>) =
   Inr \<lparr>WorkflowExecutionCancelRequestedEventAttributes.Cause = (case x of None \<Rightarrow> a0 | Some y \<Rightarrow> b0
       y), WorkflowExecutionCancelRequestedEventAttributes.ExternalInitiatedEventId = (case x of
       None \<Rightarrow> a1 | Some y \<Rightarrow> b1 y),
       WorkflowExecutionCancelRequestedEventAttributes.ExternalWorkflowExecution = (case x of None \<Rightarrow>
       a2 | Some y \<Rightarrow> b2 y), WorkflowExecutionCancelRequestedEventAttributes.Identity = (case x of
       None \<Rightarrow> a3 | Some y \<Rightarrow> b3 y)\<rparr>"
  by (cases x) simp_all

interpretation WorkflowExecutionCancelRequestedEventAttributes: thrift_message W
  "WorkflowExecutionCancelRequestedEventAttributes_ToWire W"
      "WorkflowExecutionCancelRequestedEventAttributes_FromWire W"
      WorkflowExecutionCancelRequestedEventAttributes_zero "\<lambda>_. True" for W
proof (rule thrift_messageI)
  fix x :: WorkflowExecutionCancelRequestedEventAttributes
  assume laws: "wire_laws W"
  obtain enc0 where e0: "WorkflowExecution_ToWire W = (\<lambda>x. Inr (enc0 x))"
      "\<And>x. wire_api.Type W (enc0 x) = TStruct"
      "\<And>x. Writable W (enc0 x) \<longleftrightarrow> (\<lambda>_. True) x"
      "\<And>x. (\<lambda>_. True) x \<Longrightarrow> WorkflowExecution_FromWire W (enc0 x) WorkflowExecution_zero = Inr x"
    by (rule WorkflowExecution.encoder [OF laws]) (rule that)
  show "\<exists>w. WorkflowExecutionCancelRequestedEventAttributes_ToWire W x = Inr w \<and> wire_api.Type W w =
      TStruct \<and>
      (Writable W w \<longleftrightarrow> (\<lambda>_. True) x) \<and> ((\<lambda>_. True) x \<longrightarrow>
          WorkflowExecutionCancelRequestedEventAttributes_FromWire W w
          WorkflowExecutionCancelRequestedEventAttributes_zero = Inr x)"
    by (cases x) (simp cong: option.case_cong add: codec_rules
        WorkflowExecutionCancelRequestedEventAttributes_merge
        WorkflowExecutionCancelRequestedEventAttributes_ToWire_def
        WorkflowExecutionCancelRequestedEventAttributes_FromWire_def
        WorkflowExecutionCancelRequestedEventAttributes_zero_def WorkflowExecution_Read_def laws e0)
qed

definition WorkflowExecutionCancelRequestedEventAttributes_Equals ::
  "WorkflowExecutionCancelRequestedEventAttributes option \<Rightarrow>
      WorkflowExecutionCancelRequestedEventAttributes option \<Rightarrow> bool" where
  "WorkflowExecutionCancelRequestedEventAttributes_Equals v rhs =
     (case v of None \<Rightarrow> rhs = None
      | Some v \<Rightarrow> (case rhs of None \<Rightarrow> False
        | Some rhs \<Rightarrow>
          if \<not> String_EqualsPtr (WorkflowExecutionCancelRequestedEventAttributes.Cause v)
              (WorkflowExecutionCancelRequestedEventAttributes.Cause rhs) then False else
          if \<not> I64_EqualsPtr
              (WorkflowExecutionCancelRequestedEventAttributes.ExternalInitiatedEventId v)
              (WorkflowExecutionCancelRequestedEventAttributes.ExternalInitiatedEventId rhs) then
              False else
          if \<not> both_set_and (\<lambda>x y. WorkflowExecution_Equals (Some x) (Some y))
              (WorkflowExecutionCancelRequestedEventAttributes.ExternalWorkflowExecution v)
              (WorkflowExecutionCancelRequestedEventAttributes.ExternalWorkflowExecution rhs) then
              False else
          if \<not> String_EqualsPtr (WorkflowExecutionCancelRequestedEventAttributes.Identity v)
              (WorkflowExecutionCancelRequestedEventAttributes.Identity rhs) then False else
          True))"

lemma WorkflowExecutionCancelRequestedEventAttributes_Equals_iff [simp]:
    "WorkflowExecutionCancelRequestedEventAttributes_Equals x y \<longleftrightarrow> x = y"
  by (cases x; cases y) (auto simp: WorkflowExecutionCancelRequestedEventAttributes_Equals_def)

record WorkflowExecutionCanceledEventAttributes =
  DecisionTaskCompletedEventId :: "64 word option"
  Details :: "bytes option"

definition WorkflowExecutionCanceledEventAttributes_zero :: WorkflowExecutionCanceledEventAttributes
    where
  "WorkflowExecutionCanceledEventAttributes_zero =
      \<lparr>WorkflowExecutionCanceledEventAttributes.DecisionTaskCompletedEventId = None,
      WorkflowExecutionCanceledEventAttributes.Details = None\<rparr>"

definition WorkflowExecutionCanceledEventAttributes_ToWire ::
  "'v wire_api \<Rightarrow> WorkflowExecutionCanceledEventAttributes \<Rightarrow> go_error + 'v" where
  "WorkflowExecutionCanceledEventAttributes_ToWire W v =
     and_then (put_opt 10 (\<lambda>x. Inr (NewValueI64 W x))
         (WorkflowExecutionCanceledEventAttributes.DecisionTaskCompletedEventId v) [])
       (\<lambda>fields.
     and_then (put_opt 20 (\<lambda>x. Inr (NewValueBinary W x))
         (WorkflowExecutionCanceledEventAttributes.Details v) fields)
       (\<lambda>fields.
     Inr (NewValueStruct W fields)))"

definition WorkflowExecutionCanceledEventAttributes_FromWire ::
  "'v wire_api \<Rightarrow> 'v \<Rightarrow> WorkflowExecutionCanceledEventAttributes \<Rightarrow> go_error +
      WorkflowExecutionCanceledEventAttributes" where
  "WorkflowExecutionCanceledEventAttributes_FromWire W w v =
     foldM (\<lambda>v (fid, fval).
       if fid = 10 then
         if wire_api.Type W fval = TI64
         then Inr (v\<lparr>WorkflowExecutionCanceledEventAttributes.DecisionTaskCompletedEventId := Some
             (GetI64 W fval)\<rparr>)
         else Inr v
       else if fid = 20 then
         if wire_api.Type W fval = TBinary
         then Inr (v\<lparr>WorkflowExecutionCanceledEventAttributes.Details := Some (GetBinary W fval)\<rparr>)
         else Inr v
       else Inr v) (GetStruct W w) v"

definition WorkflowExecutionCanceledEventAttributes_Read :: "'v wire_api \<Rightarrow> 'v \<Rightarrow> go_error +
    WorkflowExecutionCanceledEventAttributes" where
  "WorkflowExecutionCanceledEventAttributes_Read W w =
      WorkflowExecutionCanceledEventAttributes_FromWire W w
      WorkflowExecutionCanceledEventAttributes_zero"

lemma WorkflowExecutionCanceledEventAttributes_merge:
  "(case x of None \<Rightarrow> Inr \<lparr>WorkflowExecutionCanceledEventAttributes.DecisionTaskCompletedEventId =
      a0, WorkflowExecutionCanceledEventAttributes.Details = a1\<rparr> | Some y \<Rightarrow> Inr
      \<lparr>WorkflowExecutionCanceledEventAttributes.DecisionTaskCompletedEventId = b0 y,
      WorkflowExecutionCanceledEventAttributes.Details = b1 y\<rparr>) =
   Inr \<lparr>WorkflowExecutionCanceledEventAttributes.DecisionTaskCompletedEventId = (case x of None \<Rightarrow> a0
       | Some y \<Rightarrow> b0 y), WorkflowExecutionCanceledEventAttributes.Details = (case x of None \<Rightarrow> a1 |
       Some y \<Rightarrow> b1 y)\<rparr>"
  by (cases x) simp_all

interpretation WorkflowExecutionCanceledEventAttributes: thrift_message W
  "WorkflowExecutionCanceledEventAttributes_ToWire W"
      "WorkflowExecutionCanceledEventAttributes_FromWire W"
      WorkflowExecutionCanceledEventAttributes_zero "\<lambda>_. True" for W
proof (rule thrift_messageI)
  fix x :: WorkflowExecutionCanceledEventAttributes
  assume laws: "wire_laws W"
  show "\<exists>w. WorkflowExecutionCanceledEventAttributes_ToWire W x = Inr w \<and> wire_api.Type W w =
      TStruct \<and>
      (Writable W w \<longleftrightarrow> (\<lambda>_. True) x) \<and> ((\<lambda>_. True) x \<longrightarrow>
          WorkflowExecutionCanceledEventAttributes_FromWire W w
          WorkflowExecutionCanceledEventAttributes_zero = Inr x)"
    by (cases x) (simp cong: option.case_cong add: codec_rules
        WorkflowExecutionCanceledEventAttributes_merge
        WorkflowExecutionCanceledEventAttributes_ToWire_def
        WorkflowExecutionCanceledEventAttributes_FromWire_def
        WorkflowExecutionCanceledEventAttributes_zero_def laws)
qed

definition WorkflowExecutionCanceledEventAttributes_Equals ::
  "WorkflowExecutionCanceledEventAttributes option \<Rightarrow> WorkflowExecutionCanceledEventAttributes option
      \<Rightarrow> bool" where
  "WorkflowExecutionCanceledEventAttributes_Equals v rhs =
     (case v of None \<Rightarrow> rhs = None
      | Some v \<Rightarrow> (case rhs of None \<Rightarrow> False
        | Some rhs \<Rightarrow>
          if \<not> I64_EqualsPtr (WorkflowExecutionCanceledEventAttributes.DecisionTaskCompletedEventId
              v) (WorkflowExecutionCanceledEventAttributes.DecisionTaskCompletedEventId rhs) then
              False else
          if \<not> both_set_and (=) (WorkflowExecutionCanceledEventAttributes.Details v)
              (WorkflowExecutionCanceledEventAttributes.Details rhs) then False else
          True))"

lemma WorkflowExecutionCanceledEventAttributes_Equals_iff [simp]:
    "WorkflowExecutionCanceledEventAttributes_Equals x y \<longleftrightarrow> x = y"
  by (cases x; cases y) (auto simp: WorkflowExecutionCanceledEventAttributes_Equals_def)

record WorkflowExecutionCompletedEventAttributes =
  Result :: "bytes option"
  DecisionTaskCompletedEventId :: "64 word option"

definition WorkflowExecutionCompletedEventAttributes_zero ::
    WorkflowExecutionCompletedEventAttributes where
  "WorkflowExecutionCompletedEventAttributes_zero =
      \<lparr>WorkflowExecutionCompletedEventAttributes.Result = None,
      WorkflowExecutionCompletedEventAttributes.DecisionTaskCompletedEventId = None\<rparr>"

definition WorkflowExecutionCompletedEventAttributes_ToWire ::
  "'v wire_api \<Rightarrow> WorkflowExecutionCompletedEventAttributes \<Rightarrow> go_error + 'v" where
  "WorkflowExecutionCompletedEventAttributes_ToWire W v =
     and_then (put_opt 10 (\<lambda>x. Inr (NewValueBinary W x))
         (WorkflowExecutionCompletedEventAttributes.Result v) [])
       (\<lambda>fields.
     and_then (put_opt 20 (\<lambda>x. Inr (NewValueI64 W x))
         (WorkflowExecutionCompletedEventAttributes.DecisionTaskCompletedEventId v) fields)
       (\<lambda>fields.
     Inr (NewValueStruct W fields)))"

definition WorkflowExecutionCompletedEventAttributes_FromWire ::
  "'v wire_api \<Rightarrow> 'v \<Rightarrow> WorkflowExecutionCompletedEventAttributes \<Rightarrow> go_error +
      WorkflowExecutionCompletedEventAttributes" where
  "WorkflowExecutionCompletedEventAttributes_FromWire W w v =
     foldM (\<lambda>v (fid, fval).
       if fid = 10 then
         if wire_api.Type W fval = TBinary
         then Inr (v\<lparr>WorkflowExecutionCompletedEventAttributes.Result := Some (GetBinary W fval)\<rparr>)
         else Inr v
       else if fid = 20 then
         if wire_api.Type W fval = TI64
         then Inr (v\<lparr>WorkflowExecutionCompletedEventAttributes.DecisionTaskCompletedEventId := Some
             (GetI64 W fval)\<rparr>)
         else Inr v
       else Inr v) (GetStruct W w) v"

definition WorkflowExecutionCompletedEventAttributes_Read :: "'v wire_api \<Rightarrow> 'v \<Rightarrow> go_error +
    WorkflowExecutionCompletedEventAttributes" where
  "WorkflowExecutionCompletedEventAttributes_Read W w =
      WorkflowExecutionCompletedEventAttributes_FromWire W w
      WorkflowExecutionCompletedEventAttributes_zero"

lemma WorkflowExecutionCompletedEventAttributes_merge:
  "(case x of None \<Rightarrow> Inr \<lparr>WorkflowExecutionCompletedEventAttributes.Result = a0,
      WorkflowExecutionCompletedEventAttributes.DecisionTaskCompletedEventId = a1\<rparr> | Some y \<Rightarrow> Inr
      \<lparr>WorkflowExecutionCompletedEventAttributes.Result = b0 y,
      WorkflowExecutionCompletedEventAttributes.DecisionTaskCompletedEventId = b1 y\<rparr>) =
   Inr \<lparr>WorkflowExecutionCompletedEventAttributes.Result = (case x of None \<Rightarrow> a0 | Some y \<Rightarrow> b0 y),
       WorkflowExecutionCompletedEventAttributes.DecisionTaskCompletedEventId = (case x of None \<Rightarrow> a1
       | Some y \<Rightarrow> b1 y)\<rparr>"
  by (cases x) simp_all

interpretation WorkflowExecutionCompletedEventAttributes: thrift_message W
  "WorkflowExecutionCompletedEventAttributes_ToWire W"
      "WorkflowExecutionCompletedEventAttributes_FromWire W"
      WorkflowExecutionCompletedEventAttributes_zero "\<lambda>_. True" for W
proof (rule thrift_messageI)
  fix x :: WorkflowExecutionCompletedEventAttributes
  assume laws: "wire_laws W"
  show "\<exists>w. WorkflowExecutionCompletedEventAttributes_ToWire W x = Inr w \<and> wire_api.Type W w =
      TStruct \<and>
      (Writable W w \<longleftrightarrow> (\<lambda>_. True) x) \<and> ((\<lambda>_. True) x \<longrightarrow>
          WorkflowExecutionCompletedEventAttributes_FromWire W w
          WorkflowExecutionCompletedEventAttributes_zero = Inr x)"
    by (cases x) (simp cong: option.case_cong add: codec_rules
        WorkflowExecutionCompletedEventAttributes_merge
        WorkflowExecutionCompletedEventAttributes_ToWire_def
        WorkflowExecutionCompletedEventAttributes_FromWire_def
        WorkflowExecutionCompletedEventAttributes_zero_def laws)
qed

definition WorkflowExecutionCompletedEventAttributes_Equals ::
  "WorkflowExecutionCompletedEventAttributes option \<Rightarrow> WorkflowExecutionCompletedEventAttributes
      option \<Rightarrow> bool" where
  "WorkflowExecutionCompletedEventAttributes_Equals v rhs =
     (case v of None \<Rightarrow> rhs = None
      | Some v \<Rightarrow> (case rhs of None \<Rightarrow> False
        | Some rhs \<Rightarrow>
          if \<not> both_set_and (=) (WorkflowExecutionCompletedEventAttributes.Result v)
              (WorkflowExecutionCompletedEventAttributes.Result rhs) then False else
          if \<not> I64_EqualsPtr (WorkflowExecutionCompletedEventAttributes.DecisionTaskCompletedEventId
              v) (WorkflowExecutionCompletedEventAttributes.DecisionTaskCompletedEventId rhs) then
              False else
          True))"

lemma WorkflowExecutionCompletedEventAttributes_Equals_iff [simp]:
    "WorkflowExecutionCompletedEventAttributes_Equals x y \<longleftrightarrow> x = y"
  by (cases x; cases y) (auto simp: WorkflowExecutionCompletedEventAttributes_Equals_def)

record WorkflowExecutionContinuedAsNewEventAttributes =
  NewExecutionRunId :: "string option"
  WorkflowType :: "WorkflowType option"
  TaskList :: "TaskList option"
  Input :: "bytes option"
  ExecutionStartToCloseTimeoutSeconds :: "32 word option"
  TaskStartToCloseTimeoutSeconds :: "32 word option"
  DecisionTaskCompletedEventId :: "64 word option"
  BackoffStartIntervalInSeconds :: "32 word option"
  Initiator :: "ContinueAsNewInitiator option"
  FailureReason :: "string option"
  FailureDetails :: "bytes option"
  LastCompletionResult :: "bytes option"
  Header :: "Header option"
  Memo :: "Memo option"
  SearchAttributes :: "SearchAttributes option"

definition WorkflowExecutionContinuedAsNewEventAttributes_zero ::
    WorkflowExecutionContinuedAsNewEventAttributes where
  "WorkflowExecutionContinuedAsNewEventAttributes_zero =
      \<lparr>WorkflowExecutionContinuedAsNewEventAttributes.NewExecutionRunId = None,
      WorkflowExecutionContinuedAsNewEventAttributes.WorkflowType = None,
      WorkflowExecutionContinuedAsNewEventAttributes.TaskList = None,
      WorkflowExecutionContinuedAsNewEventAttributes.Input = None,
      WorkflowExecutionContinuedAsNewEventAttributes.ExecutionStartToCloseTimeoutSeconds = None,
      WorkflowExecutionContinuedAsNewEventAttributes.TaskStartToCloseTimeoutSeconds = None,
      WorkflowExecutionContinuedAsNewEventAttributes.DecisionTaskCompletedEventId = None,
      WorkflowExecutionContinuedAsNewEventAttributes.BackoffStartIntervalInSeconds = None,
      WorkflowExecutionContinuedAsNewEventAttributes.Initiator = None,
      WorkflowExecutionContinuedAsNewEventAttributes.FailureReason = None,
      WorkflowExecutionContinuedAsNewEventAttributes.FailureDetails = None,
      WorkflowExecutionContinuedAsNewEventAttributes.LastCompletionResult = None,
      WorkflowExecutionContinuedAsNewEventAttributes.Header = None,
      WorkflowExecutionContinuedAsNewEventAttributes.Memo = None,
      WorkflowExecutionContinuedAsNewEventAttributes.SearchAttributes = None\<rparr>"

definition WorkflowExecutionContinuedAsNewEventAttributes_ToWire ::
  "'v wire_api \<Rightarrow> WorkflowExecutionContinuedAsNewEventAttributes \<Rightarrow> go_error + 'v" where
  "WorkflowExecutionContinuedAsNewEventAttributes_ToWire W v =
     and_then (put_opt 10 (\<lambda>x. Inr (NewValueString W x))
         (WorkflowExecutionContinuedAsNewEventAttributes.NewExecutionRunId v) [])
       (\<lambda>fields.
     and_then (put_opt 20 (WorkflowType_ToWire W)
         (WorkflowExecutionContinuedAsNewEventAttributes.WorkflowType v) fields)
       (\<lambda>fields.
     and_then (put_opt 30 (TaskList_ToWire W)
         (WorkflowExecutionContinuedAsNewEventAttributes.TaskList v) fields)
       (\<lambda>fields.
     and_then (put_opt 40 (\<lambda>x. Inr (NewValueBinary W x))
         (WorkflowExecutionContinuedAsNewEventAttributes.Input v) fields)
       (\<lambda>fields.
     and_then (put_opt 50 (\<lambda>x. Inr (NewValueI32 W x))
         (WorkflowExecutionContinuedAsNewEventAttributes.ExecutionStartToCloseTimeoutSeconds v)
         fields)
       (\<lambda>fields.
     and_then (put_opt 60 (\<lambda>x. Inr (NewValueI32 W x))
         (WorkflowExecutionContinuedAsNewEventAttributes.TaskStartToCloseTimeoutSeconds v) fields)
       (\<lambda>fields.
     and_then (put_opt 70 (\<lambda>x. Inr (NewValueI64 W x))
         (WorkflowExecutionContinuedAsNewEventAttributes.DecisionTaskCompletedEventId v) fields)
       (\<lambda>fields.
     and_then (put_opt 80 (\<lambda>x. Inr (NewValueI32 W x))
         (WorkflowExecutionContinuedAsNewEventAttributes.BackoffStartIntervalInSeconds v) fields)
       (\<lambda>fields.
     and_then (put_opt 90 (ContinueAsNewInitiator_ToWire W)
         (WorkflowExecutionContinuedAsNewEventAttributes.Initiator v) fields)
       (\<lambda>fields.
     and_then (put_opt 100 (\<lambda>x. Inr (NewValueString W x))
         (WorkflowExecutionContinuedAsNewEventAttributes.FailureReason v) fields)
       (\<lambda>fields.
     and_then (put_opt 110 (\<lambda>x. Inr (NewValueBinary W x))
         (WorkflowExecutionContinuedAsNewEventAttributes.FailureDetails v) fields)
       (\<lambda>fields.
     and_then (put_opt 120 (\<lambda>x. Inr (NewValueBinary W x))
         (WorkflowExecutionContinuedAsNewEventAttributes.LastCompletionResult v) fields)
       (\<lambda>fields.
     and_then (put_opt 130 (Header_ToWire W) (WorkflowExecutionContinuedAsNewEventAttributes.Header
         v) fields)
       (\<lambda>fields.
     and_then (put_opt 140 (Memo_ToWire W) (WorkflowExecutionContinuedAsNewEventAttributes.Memo v)
         fields)
       (\<lambda>fields.
     and_then (put_opt 150 (SearchAttributes_ToWire W)
         (WorkflowExecutionContinuedAsNewEventAttributes.SearchAttributes v) fields)
       (\<lambda>fields.
     Inr (NewValueStruct W fields))))))))))))))))"

definition WorkflowExecutionContinuedAsNewEventAttributes_FromWire ::
  "'v wire_api \<Rightarrow> 'v \<Rightarrow> WorkflowExecutionContinuedAsNewEventAttributes \<Rightarrow> go_error +
      WorkflowExecutionContinuedAsNewEventAttributes" where
  "WorkflowExecutionContinuedAsNewEventAttributes_FromWire W w v =
     foldM (\<lambda>v (fid, fval).
       if fid = 10 then
         if wire_api.Type W fval = TBinary
         then Inr (v\<lparr>WorkflowExecutionContinuedAsNewEventAttributes.NewExecutionRunId := Some
             (GetString W fval)\<rparr>)
         else Inr v
       else if fid = 20 then
         if wire_api.Type W fval = TStruct
         then and_then (WorkflowType_Read W fval) (\<lambda>x. Inr
             (v\<lparr>WorkflowExecutionContinuedAsNewEventAttributes.WorkflowType := Some x\<rparr>))
         else Inr v
       else if fid = 30 then
         if wire_api.Type W fval = TStruct
         then and_then (TaskList_Read W fval) (\<lambda>x. Inr
             (v\<lparr>WorkflowExecutionContinuedAsNewEventAttributes.TaskList := Some x\<rparr>))
         else Inr v
       else if fid = 40 then
         if wire_api.Type W fval = TBinary
         then Inr (v\<lparr>WorkflowExecutionContinuedAsNewEventAttributes.Input := Some (GetBinary W
             fval)\<rparr>)
         else Inr v
       else if fid = 50 then
         if wire_api.Type W fval = TI32
         then Inr
             (v\<lparr>WorkflowExecutionContinuedAsNewEventAttributes.ExecutionStartToCloseTimeoutSeconds
             := Some (GetI32 W fval)\<rparr>)
         else Inr v
       else if fid = 60 then
         if wire_api.Type W fval = TI32
         then Inr (v\<lparr>WorkflowExecutionContinuedAsNewEventAttributes.TaskStartToCloseTimeoutSeconds
             := Some (GetI32 W fval)\<rparr>)
         else Inr v
       else if fid = 70 then
         if wire_api.Type W fval = TI64
         then Inr (v\<lparr>WorkflowExecutionContinuedAsNewEventAttributes.DecisionTaskCompletedEventId :=
             Some (GetI64 W fval)\<rparr>)
         else Inr v
       else if fid = 80 then
         if wire_api.Type W fval = TI32
         then Inr (v\<lparr>WorkflowExecutionContinuedAsNewEventAttributes.BackoffStartIntervalInSeconds :=
             Some (GetI32 W fval)\<rparr>)
         else Inr v
       else if fid = 90 then
         if wire_api.Type W fval = TI32
         then and_then (ContinueAsNewInitiator_Read W fval) (\<lambda>x. Inr
             (v\<lparr>WorkflowExecutionContinuedAsNewEventAttributes.Initiator := Some x\<rparr>))
         else Inr v
       else if fid = 100 then
         if wire_api.Type W fval = TBinary
         then Inr (v\<lparr>WorkflowExecutionContinuedAsNewEventAttributes.FailureReason := Some (GetString
             W fval)\<rparr>)
         else Inr v
       else if fid = 110 then
         if wire_api.Type W fval = TBinary
         then Inr (v\<lparr>WorkflowExecutionContinuedAsNewEventAttributes.FailureDetails := Some
             (GetBinary W fval)\<rparr>)
         else Inr v
       else if fid = 120 then
         if wire_api.Type W fval = TBinary
         then Inr (v\<lparr>WorkflowExecutionContinuedAsNewEventAttributes.LastCompletionResult := Some
             (GetBinary W fval)\<rparr>)
         else Inr v
       else if fid = 130 then
         if wire_api.Type W fval = TStruct
         then and_then (Header_Read W fval) (\<lambda>x. Inr
             (v\<lparr>WorkflowExecutionContinuedAsNewEventAttributes.Header := Some x\<rparr>))
         else Inr v
       else if fid = 140 then
         if wire_api.Type W fval = TStruct
         then and_then (Memo_Read W fval) (\<lambda>x. Inr
             (v\<lparr>WorkflowExecutionContinuedAsNewEventAttributes.Memo := Some x\<rparr>))
         else Inr v
       else if fid = 150 then
         if wire_api.Type W fval = TStruct
         then and_then (SearchAttributes_Read W fval) (\<lambda>x. Inr
             (v\<lparr>WorkflowExecutionContinuedAsNewEventAttributes.SearchAttributes := Some x\<rparr>))
         else Inr v
       else Inr v) (GetStruct W w) v"

definition WorkflowExecutionContinuedAsNewEventAttributes_Read :: "'v wire_api \<Rightarrow> 'v \<Rightarrow> go_error +
    WorkflowExecutionContinuedAsNewEventAttributes" where
  "WorkflowExecutionContinuedAsNewEventAttributes_Read W w =
      WorkflowExecutionContinuedAsNewEventAttributes_FromWire W w
      WorkflowExecutionContinuedAsNewEventAttributes_zero"

definition WorkflowExecutionContinuedAsNewEventAttributes_complete ::
    "WorkflowExecutionContinuedAsNewEventAttributes \<Rightarrow> bool" where
  "WorkflowExecutionContinuedAsNewEventAttributes_complete v \<longleftrightarrow>
     if_set Header_complete (WorkflowExecutionContinuedAsNewEventAttributes.Header v) \<and>
     if_set Memo_complete (WorkflowExecutionContinuedAsNewEventAttributes.Memo v) \<and>
     if_set SearchAttributes_complete
         (WorkflowExecutionContinuedAsNewEventAttributes.SearchAttributes v)"

lemma WorkflowExecutionContinuedAsNewEventAttributes_merge:
  "(case x of None \<Rightarrow> Inr \<lparr>WorkflowExecutionContinuedAsNewEventAttributes.NewExecutionRunId = a0,
      WorkflowExecutionContinuedAsNewEventAttributes.WorkflowType = a1,
      WorkflowExecutionContinuedAsNewEventAttributes.TaskList = a2,
      WorkflowExecutionContinuedAsNewEventAttributes.Input = a3,
      WorkflowExecutionContinuedAsNewEventAttributes.ExecutionStartToCloseTimeoutSeconds = a4,
      WorkflowExecutionContinuedAsNewEventAttributes.TaskStartToCloseTimeoutSeconds = a5,
      WorkflowExecutionContinuedAsNewEventAttributes.DecisionTaskCompletedEventId = a6,
      WorkflowExecutionContinuedAsNewEventAttributes.BackoffStartIntervalInSeconds = a7,
      WorkflowExecutionContinuedAsNewEventAttributes.Initiator = a8,
      WorkflowExecutionContinuedAsNewEventAttributes.FailureReason = a9,
      WorkflowExecutionContinuedAsNewEventAttributes.FailureDetails = a10,
      WorkflowExecutionContinuedAsNewEventAttributes.LastCompletionResult = a11,
      WorkflowExecutionContinuedAsNewEventAttributes.Header = a12,
      WorkflowExecutionContinuedAsNewEventAttributes.Memo = a13,
      WorkflowExecutionContinuedAsNewEventAttributes.SearchAttributes = a14\<rparr> | Some y \<Rightarrow> Inr
      \<lparr>WorkflowExecutionContinuedAsNewEventAttributes.NewExecutionRunId = b0 y,
      WorkflowExecutionContinuedAsNewEventAttributes.WorkflowType = b1 y,
      WorkflowExecutionContinuedAsNewEventAttributes.TaskList = b2 y,
      WorkflowExecutionContinuedAsNewEventAttributes.Input = b3 y,
      WorkflowExecutionContinuedAsNewEventAttributes.ExecutionStartToCloseTimeoutSeconds = b4 y,
      WorkflowExecutionContinuedAsNewEventAttributes.TaskStartToCloseTimeoutSeconds = b5 y,
      WorkflowExecutionContinuedAsNewEventAttributes.DecisionTaskCompletedEventId = b6 y,
      WorkflowExecutionContinuedAsNewEventAttributes.BackoffStartIntervalInSeconds = b7 y,
      WorkflowExecutionContinuedAsNewEventAttributes.Initiator = b8 y,
      WorkflowExecutionContinuedAsNewEventAttributes.FailureReason = b9 y,
      WorkflowExecutionContinuedAsNewEventAttributes.FailureDetails = b10 y,
      WorkflowExecutionContinuedAsNewEventAttributes.LastCompletionResult = b11 y,
      WorkflowExecutionContinuedAsNewEventAttributes.Header = b12 y,
      WorkflowExecutionContinuedAsNewEventAttributes.Memo = b13 y,
      WorkflowExecutionContinuedAsNewEventAttributes.SearchAttributes = b14 y\<rparr>) =
   Inr \<lparr>WorkflowExecutionContinuedAsNewEventAttributes.NewExecutionRunId = (case x of None \<Rightarrow> a0 |
       Some y \<Rightarrow> b0 y), WorkflowExecutionContinuedAsNewEventAttributes.WorkflowType = (case x of None
       \<Rightarrow> a1 | Some y \<Rightarrow> b1 y), WorkflowExecutionContinuedAsNewEventAttributes.TaskList = (case x of
       None \<Rightarrow> a2 | Some y \<Rightarrow> b2 y), WorkflowExecutionContinuedAsNewEventAttributes.Input = (case x of
       None \<Rightarrow> a3 | Some y \<Rightarrow> b3 y),
       WorkflowExecutionContinuedAsNewEventAttributes.ExecutionStartToCloseTimeoutSeconds = (case x
       of None \<Rightarrow> a4 | Some y \<Rightarrow> b4 y),
       WorkflowExecutionContinuedAsNewEventAttributes.TaskStartToCloseTimeoutSeconds = (case x of
       None \<Rightarrow> a5 | Some y \<Rightarrow> b5 y),
       WorkflowExecutionContinuedAsNewEventAttributes.DecisionTaskCompletedEventId = (case x of None
       \<Rightarrow> a6 | Some y \<Rightarrow> b6 y),
       WorkflowExecutionContinuedAsNewEventAttributes.BackoffStartIntervalInSeconds = (case x of
       None \<Rightarrow> a7 | Some y \<Rightarrow> b7 y), WorkflowExecutionContinuedAsNewEventAttributes.Initiator = (case
       x of None \<Rightarrow> a8 | Some y \<Rightarrow> b8 y), WorkflowExecutionContinuedAsNewEventAttributes.FailureReason
       = (case x of None \<Rightarrow> a9 | Some y \<Rightarrow> b9 y),
       WorkflowExecutionContinuedAsNewEventAttributes.FailureDetails = (case x of None \<Rightarrow> a10 | Some
       y \<Rightarrow> b10 y), WorkflowExecutionContinuedAsNewEventAttributes.LastCompletionResult = (case x of
       None \<Rightarrow> a11 | Some y \<Rightarrow> b11 y), WorkflowExecutionContinuedAsNewEventAttributes.Header = (case x
       of None \<Rightarrow> a12 | Some y \<Rightarrow> b12 y), WorkflowExecutionContinuedAsNewEventAttributes.Memo = (case
       x of None \<Rightarrow> a13 | Some y \<Rightarrow> b13 y),
       WorkflowExecutionContinuedAsNewEventAttributes.SearchAttributes = (case x of None \<Rightarrow> a14 |
       Some y \<Rightarrow> b14 y)\<rparr>"
  by (cases x) simp_all

interpretation WorkflowExecutionContinuedAsNewEventAttributes: thrift_message W
  "WorkflowExecutionContinuedAsNewEventAttributes_ToWire W"
      "WorkflowExecutionContinuedAsNewEventAttributes_FromWire W"
      WorkflowExecutionContinuedAsNewEventAttributes_zero
      "WorkflowExecutionContinuedAsNewEventAttributes_complete" for W
proof (rule thrift_messageI)
  fix x :: WorkflowExecutionContinuedAsNewEventAttributes
  assume laws: "wire_laws W"
  obtain enc0 where e0: "Header_ToWire W = (\<lambda>x. Inr (enc0 x))"
      "\<And>x. wire_api.Type W (enc0 x) = TStruct"
      "\<And>x. Writable W (enc0 x) \<longleftrightarrow> Header_complete x"
      "\<And>x. Header_complete x \<Longrightarrow> Header_FromWire W (enc0 x) Header_zero = Inr x"
    by (rule Header.encoder [OF laws]) (rule that)
  obtain enc1 where e1: "Memo_ToWire W = (\<lambda>x. Inr (enc1 x))"
      "\<And>x. wire_api.Type W (enc1 x) = TStruct"
      "\<And>x. Writable W (enc1 x) \<longleftrightarrow> Memo_complete x"
      "\<And>x. Memo_complete x \<Longrightarrow> Memo_FromWire W (enc1 x) Memo_zero = Inr x"
    by (rule Memo.encoder [OF laws]) (rule that)
  obtain enc2 where e2: "SearchAttributes_ToWire W = (\<lambda>x. Inr (enc2 x))"
      "\<And>x. wire_api.Type W (enc2 x) = TStruct"
      "\<And>x. Writable W (enc2 x) \<longleftrightarrow> SearchAttributes_complete x"
      "\<And>x. SearchAttributes_complete x \<Longrightarrow> SearchAttributes_FromWire W (enc2 x) SearchAttributes_zero
          = Inr x"
    by (rule SearchAttributes.encoder [OF laws]) (rule that)
  obtain enc3 where e3: "TaskList_ToWire W = (\<lambda>x. Inr (enc3 x))"
      "\<And>x. wire_api.Type W (enc3 x) = TStruct"
      "\<And>x. Writable W (enc3 x) \<longleftrightarrow> (\<lambda>_. True) x"
      "\<And>x. (\<lambda>_. True) x \<Longrightarrow> TaskList_FromWire W (enc3 x) TaskList_zero = Inr x"
    by (rule TaskList.encoder [OF laws]) (rule that)
  obtain enc4 where e4: "WorkflowType_ToWire W = (\<lambda>x. Inr (enc4 x))"
      "\<And>x. wire_api.Type W (enc4 x) = TStruct"
      "\<And>x. Writable W (enc4 x) \<longleftrightarrow> (\<lambda>_. True) x"
      "\<And>x. (\<lambda>_. True) x \<Longrightarrow> WorkflowType_FromWire W (enc4 x) WorkflowType_zero = Inr x"
    by (rule WorkflowType.encoder [OF laws]) (rule that)
  show "\<exists>w. WorkflowExecutionContinuedAsNewEventAttributes_ToWire W x = Inr w \<and> wire_api.Type W w =
      TStruct \<and>
      (Writable W w \<longleftrightarrow> WorkflowExecutionContinuedAsNewEventAttributes_complete x) \<and>
          (WorkflowExecutionContinuedAsNewEventAttributes_complete x \<longrightarrow>
          WorkflowExecutionContinuedAsNewEventAttributes_FromWire W w
          WorkflowExecutionContinuedAsNewEventAttributes_zero = Inr x)"
    by (cases x) (simp cong: option.case_cong add: codec_rules
        WorkflowExecutionContinuedAsNewEventAttributes_merge
        WorkflowExecutionContinuedAsNewEventAttributes_ToWire_def
        WorkflowExecutionContinuedAsNewEventAttributes_FromWire_def
        WorkflowExecutionContinuedAsNewEventAttributes_zero_def
        WorkflowExecutionContinuedAsNewEventAttributes_complete_def if_set_def
        ContinueAsNewInitiator_enc ContinueAsNewInitiator_Read_def
        ContinueAsNewInitiator_FromWire_def Header_Read_def Memo_Read_def SearchAttributes_Read_def
        TaskList_Read_def WorkflowType_Read_def laws e0 e1 e2 e3 e4)
qed

definition WorkflowExecutionContinuedAsNewEventAttributes_Equals ::
  "WorkflowExecutionContinuedAsNewEventAttributes option \<Rightarrow>
      WorkflowExecutionContinuedAsNewEventAttributes option \<Rightarrow> bool" where
  "WorkflowExecutionContinuedAsNewEventAttributes_Equals v rhs =
     (case v of None \<Rightarrow> rhs = None
      | Some v \<Rightarrow> (case rhs of None \<Rightarrow> False
        | Some rhs \<Rightarrow>
          if \<not> String_EqualsPtr (WorkflowExecutionContinuedAsNewEventAttributes.NewExecutionRunId v)
              (WorkflowExecutionContinuedAsNewEventAttributes.NewExecutionRunId rhs) then False else
          if \<not> both_set_and (\<lambda>x y. WorkflowType_Equals (Some x) (Some y))
              (WorkflowExecutionContinuedAsNewEventAttributes.WorkflowType v)
              (WorkflowExecutionContinuedAsNewEventAttributes.WorkflowType rhs) then False else
          if \<not> both_set_and (\<lambda>x y. TaskList_Equals (Some x) (Some y))
              (WorkflowExecutionContinuedAsNewEventAttributes.TaskList v)
              (WorkflowExecutionContinuedAsNewEventAttributes.TaskList rhs) then False else
          if \<not> both_set_and (=) (WorkflowExecutionContinuedAsNewEventAttributes.Input v)
              (WorkflowExecutionContinuedAsNewEventAttributes.Input rhs) then False else
          if \<not> I32_EqualsPtr
              (WorkflowExecutionContinuedAsNewEventAttributes.ExecutionStartToCloseTimeoutSeconds v)
              (WorkflowExecutionContinuedAsNewEventAttributes.ExecutionStartToCloseTimeoutSeconds
              rhs) then False else
          if \<not> I32_EqualsPtr
              (WorkflowExecutionContinuedAsNewEventAttributes.TaskStartToCloseTimeoutSeconds v)
              (WorkflowExecutionContinuedAsNewEventAttributes.TaskStartToCloseTimeoutSeconds rhs)
              then False else
          if \<not> I64_EqualsPtr
              (WorkflowExecutionContinuedAsNewEventAttributes.DecisionTaskCompletedEventId v)
              (WorkflowExecutionContinuedAsNewEventAttributes.DecisionTaskCompletedEventId rhs) then
              False else
          if \<not> I32_EqualsPtr
              (WorkflowExecutionContinuedAsNewEventAttributes.BackoffStartIntervalInSeconds v)
              (WorkflowExecutionContinuedAsNewEventAttributes.BackoffStartIntervalInSeconds rhs)
              then False else
          if \<not> ContinueAsNewInitiator_EqualsPtr
              (WorkflowExecutionContinuedAsNewEventAttributes.Initiator v)
              (WorkflowExecutionContinuedAsNewEventAttributes.Initiator rhs) then False else
          if \<not> String_EqualsPtr (WorkflowExecutionContinuedAsNewEventAttributes.FailureReason v)
              (WorkflowExecutionContinuedAsNewEventAttributes.FailureReason rhs) then False else
          if \<not> both_set_and (=) (WorkflowExecutionContinuedAsNewEventAttributes.FailureDetails v)
              (WorkflowExecutionContinuedAsNewEventAttributes.FailureDetails rhs) then False else
          if \<not> both_set_and (=) (WorkflowExecutionContinuedAsNewEventAttributes.LastCompletionResult
              v) (WorkflowExecutionContinuedAsNewEventAttributes.LastCompletionResult rhs) then
              False else
          if \<not> both_set_and (\<lambda>x y. Header_Equals (Some x) (Some y))
              (WorkflowExecutionContinuedAsNewEventAttributes.Header v)
              (WorkflowExecutionContinuedAsNewEventAttributes.Header rhs) then False else
          if \<not> both_set_and (\<lambda>x y. Memo_Equals (Some x) (Some y))
              (WorkflowExecutionContinuedAsNewEventAttributes.Memo v)
              (WorkflowExecutionContinuedAsNewEventAttributes.Memo rhs) then False else
          if \<not> both_set_and (\<lambda>x y. SearchAttributes_Equals (Some x) (Some y))
              (WorkflowExecutionContinuedAsNewEventAttributes.SearchAttributes v)
              (WorkflowExecutionContinuedAsNewEventAttributes.SearchAttributes rhs) then False else
          True))"

definition WorkflowExecutionContinuedAsNewEventAttributes_comparable ::
    "WorkflowExecutionContinuedAsNewEventAttributes \<Rightarrow> bool" where
  "WorkflowExecutionContinuedAsNewEventAttributes_comparable v \<longleftrightarrow>
     if_set Header_comparable (WorkflowExecutionContinuedAsNewEventAttributes.Header v) \<and>
     if_set Memo_comparable (WorkflowExecutionContinuedAsNewEventAttributes.Memo v) \<and>
     if_set SearchAttributes_comparable
         (WorkflowExecutionContinuedAsNewEventAttributes.SearchAttributes v)"

lemma WorkflowExecutionContinuedAsNewEventAttributes_Equals_iff:
  "if_set WorkflowExecutionContinuedAsNewEventAttributes_comparable x \<Longrightarrow> if_set
      WorkflowExecutionContinuedAsNewEventAttributes_comparable y \<Longrightarrow>
      WorkflowExecutionContinuedAsNewEventAttributes_Equals x y \<longleftrightarrow> x = y"
  by (cases x; cases y) (simp_all add: WorkflowExecutionContinuedAsNewEventAttributes_Equals_def
      WorkflowExecutionContinuedAsNewEventAttributes_comparable_def if_not_False,
    fastforce intro: WorkflowExecutionContinuedAsNewEventAttributes.equality)

lemma WorkflowExecutionContinuedAsNewEventAttributes_fields_equal [simp]:
  "if_set WorkflowExecutionContinuedAsNewEventAttributes_comparable x \<Longrightarrow> if_set
      WorkflowExecutionContinuedAsNewEventAttributes_comparable y \<Longrightarrow>
    both_set_and (\<lambda>x y. WorkflowExecutionContinuedAsNewEventAttributes_Equals (Some x) (Some y)) x y
        \<longleftrightarrow> x = y"
  by (rule both_set_and_iff [where P = WorkflowExecutionContinuedAsNewEventAttributes_comparable])
      (simp_all add: WorkflowExecutionContinuedAsNewEventAttributes_Equals_iff)

record WorkflowExecutionFailedEventAttributes =
  Reason :: "string option"
  Details :: "bytes option"
  DecisionTaskCompletedEventId :: "64 word option"

definition WorkflowExecutionFailedEventAttributes_zero :: WorkflowExecutionFailedEventAttributes
    where
  "WorkflowExecutionFailedEventAttributes_zero = \<lparr>WorkflowExecutionFailedEventAttributes.Reason =
      None, WorkflowExecutionFailedEventAttributes.Details = None,
      WorkflowExecutionFailedEventAttributes.DecisionTaskCompletedEventId = None\<rparr>"

definition WorkflowExecutionFailedEventAttributes_ToWire ::
  "'v wire_api \<Rightarrow> WorkflowExecutionFailedEventAttributes \<Rightarrow> go_error + 'v" where
  "WorkflowExecutionFailedEventAttributes_ToWire W v =
     and_then (put_opt 10 (\<lambda>x. Inr (NewValueString W x))
         (WorkflowExecutionFailedEventAttributes.Reason v) [])
       (\<lambda>fields.
     and_then (put_opt 20 (\<lambda>x. Inr (NewValueBinary W x))
         (WorkflowExecutionFailedEventAttributes.Details v) fields)
       (\<lambda>fields.
     and_then (put_opt 30 (\<lambda>x. Inr (NewValueI64 W x))
         (WorkflowExecutionFailedEventAttributes.DecisionTaskCompletedEventId v) fields)
       (\<lambda>fields.
     Inr (NewValueStruct W fields))))"

definition WorkflowExecutionFailedEventAttributes_FromWire ::
  "'v wire_api \<Rightarrow> 'v \<Rightarrow> WorkflowExecutionFailedEventAttributes \<Rightarrow> go_error +
      WorkflowExecutionFailedEventAttributes" where
  "WorkflowExecutionFailedEventAttributes_FromWire W w v =
     foldM (\<lambda>v (fid, fval).
       if fid = 10 then
         if wire_api.Type W fval = TBinary
         then Inr (v\<lparr>WorkflowExecutionFailedEventAttributes.Reason := Some (GetString W fval)\<rparr>)
         else Inr v
       else if fid = 20 then
         if wire_api.Type W fval = TBinary
         then Inr (v\<lparr>WorkflowExecutionFailedEventAttributes.Details := Some (GetBinary W fval)\<rparr>)
         else Inr v
       else if fid = 30 then
         if wire_api.Type W fval = TI64
         then Inr (v\<lparr>WorkflowExecutionFailedEventAttributes.DecisionTaskCompletedEventId := Some
             (GetI64 W fval)\<rparr>)
         else Inr v
       else Inr v) (GetStruct W w) v"

definition WorkflowExecutionFailedEventAttributes_Read :: "'v wire_api \<Rightarrow> 'v \<Rightarrow> go_error +
    WorkflowExecutionFailedEventAttributes" where
  "WorkflowExecutionFailedEventAttributes_Read W w = WorkflowExecutionFailedEventAttributes_FromWire
      W w WorkflowExecutionFailedEventAttributes_zero"

lemma WorkflowExecutionFailedEventAttributes_merge:
  "(case x of None \<Rightarrow> Inr \<lparr>WorkflowExecutionFailedEventAttributes.Reason = a0,
      WorkflowExecutionFailedEventAttributes.Details = a1,
      WorkflowExecutionFailedEventAttributes.DecisionTaskCompletedEventId = a2\<rparr> | Some y \<Rightarrow> Inr
      \<lparr>WorkflowExecutionFailedEventAttributes.Reason = b0 y,
      WorkflowExecutionFailedEventAttributes.Details = b1 y,
      WorkflowExecutionFailedEventAttributes.DecisionTaskCompletedEventId = b2 y\<rparr>) =
   Inr \<lparr>WorkflowExecutionFailedEventAttributes.Reason = (case x of None \<Rightarrow> a0 | Some y \<Rightarrow> b0 y),
       WorkflowExecutionFailedEventAttributes.Details = (case x of None \<Rightarrow> a1 | Some y \<Rightarrow> b1 y),
       WorkflowExecutionFailedEventAttributes.DecisionTaskCompletedEventId = (case x of None \<Rightarrow> a2 |
       Some y \<Rightarrow> b2 y)\<rparr>"
  by (cases x) simp_all

interpretation WorkflowExecutionFailedEventAttributes: thrift_message W
  "WorkflowExecutionFailedEventAttributes_ToWire W" "WorkflowExecutionFailedEventAttributes_FromWire
      W" WorkflowExecutionFailedEventAttributes_zero "\<lambda>_. True" for W
proof (rule thrift_messageI)
  fix x :: WorkflowExecutionFailedEventAttributes
  assume laws: "wire_laws W"
  show "\<exists>w. WorkflowExecutionFailedEventAttributes_ToWire W x = Inr w \<and> wire_api.Type W w = TStruct
      \<and>
      (Writable W w \<longleftrightarrow> (\<lambda>_. True) x) \<and> ((\<lambda>_. True) x \<longrightarrow>
          WorkflowExecutionFailedEventAttributes_FromWire W w
          WorkflowExecutionFailedEventAttributes_zero = Inr x)"
    by (cases x) (simp cong: option.case_cong add: codec_rules
        WorkflowExecutionFailedEventAttributes_merge
        WorkflowExecutionFailedEventAttributes_ToWire_def
        WorkflowExecutionFailedEventAttributes_FromWire_def
        WorkflowExecutionFailedEventAttributes_zero_def laws)
qed

definition WorkflowExecutionFailedEventAttributes_Equals ::
  "WorkflowExecutionFailedEventAttributes option \<Rightarrow> WorkflowExecutionFailedEventAttributes option \<Rightarrow>
      bool" where
  "WorkflowExecutionFailedEventAttributes_Equals v rhs =
     (case v of None \<Rightarrow> rhs = None
      | Some v \<Rightarrow> (case rhs of None \<Rightarrow> False
        | Some rhs \<Rightarrow>
          if \<not> String_EqualsPtr (WorkflowExecutionFailedEventAttributes.Reason v)
              (WorkflowExecutionFailedEventAttributes.Reason rhs) then False else
          if \<not> both_set_and (=) (WorkflowExecutionFailedEventAttributes.Details v)
              (WorkflowExecutionFailedEventAttributes.Details rhs) then False else
          if \<not> I64_EqualsPtr (WorkflowExecutionFailedEventAttributes.DecisionTaskCompletedEventId v)
              (WorkflowExecutionFailedEventAttributes.DecisionTaskCompletedEventId rhs) then False
              else
          True))"

lemma WorkflowExecutionFailedEventAttributes_Equals_iff [simp]:
    "WorkflowExecutionFailedEventAttributes_Equals x y \<longleftrightarrow> x = y"
  by (cases x; cases y) (auto simp: WorkflowExecutionFailedEventAttributes_Equals_def)

record WorkflowExecutionSignaledEventAttributes =
  SignalName :: "string option"
  Input :: "bytes option"
  Identity :: "string option"

definition WorkflowExecutionSignaledEventAttributes_zero :: WorkflowExecutionSignaledEventAttributes
    where
  "WorkflowExecutionSignaledEventAttributes_zero =
      \<lparr>WorkflowExecutionSignaledEventAttributes.SignalName = None,
      WorkflowExecutionSignaledEventAttributes.Input = None,
      WorkflowExecutionSignaledEventAttributes.Identity = None\<rparr>"

definition WorkflowExecutionSignaledEventAttributes_ToWire ::
  "'v wire_api \<Rightarrow> WorkflowExecutionSignaledEventAttributes \<Rightarrow> go_error + 'v" where
  "WorkflowExecutionSignaledEventAttributes_ToWire W v =
     and_then (put_opt 10 (\<lambda>x. Inr (NewValueString W x))
         (WorkflowExecutionSignaledEventAttributes.SignalName v) [])
       (\<lambda>fields.
     and_then (put_opt 20 (\<lambda>x. Inr (NewValueBinary W x))
         (WorkflowExecutionSignaledEventAttributes.Input v) fields)
       (\<lambda>fields.
     and_then (put_opt 30 (\<lambda>x. Inr (NewValueString W x))
         (WorkflowExecutionSignaledEventAttributes.Identity v) fields)
       (\<lambda>fields.
     Inr (NewValueStruct W fields))))"

definition WorkflowExecutionSignaledEventAttributes_FromWire ::
  "'v wire_api \<Rightarrow> 'v \<Rightarrow> WorkflowExecutionSignaledEventAttributes \<Rightarrow> go_error +
      WorkflowExecutionSignaledEventAttributes" where
  "WorkflowExecutionSignaledEventAttributes_FromWire W w v =
     foldM (\<lambda>v (fid, fval).
       if fid = 10 then
         if wire_api.Type W fval = TBinary
         then Inr (v\<lparr>WorkflowExecutionSignaledEventAttributes.SignalName := Some (GetString W
             fval)\<rparr>)
         else Inr v
       else if fid = 20 then
         if wire_api.Type W fval = TBinary
         then Inr (v\<lparr>WorkflowExecutionSignaledEventAttributes.Input := Some (GetBinary W fval)\<rparr>)
         else Inr v
       else if fid = 30 then
         if wire_api.Type W fval = TBinary
         then Inr (v\<lparr>WorkflowExecutionSignaledEventAttributes.Identity := Some (GetString W fval)\<rparr>)
         else Inr v
       else Inr v) (GetStruct W w) v"

definition WorkflowExecutionSignaledEventAttributes_Read :: "'v wire_api \<Rightarrow> 'v \<Rightarrow> go_error +
    WorkflowExecutionSignaledEventAttributes" where
  "WorkflowExecutionSignaledEventAttributes_Read W w =
      WorkflowExecutionSignaledEventAttributes_FromWire W w
      WorkflowExecutionSignaledEventAttributes_zero"

lemma WorkflowExecutionSignaledEventAttributes_merge:
  "(case x of None \<Rightarrow> Inr \<lparr>WorkflowExecutionSignaledEventAttributes.SignalName = a0,
      WorkflowExecutionSignaledEventAttributes.Input = a1,
      WorkflowExecutionSignaledEventAttributes.Identity = a2\<rparr> | Some y \<Rightarrow> Inr
      \<lparr>WorkflowExecutionSignaledEventAttributes.SignalName = b0 y,
      WorkflowExecutionSignaledEventAttributes.Input = b1 y,
      WorkflowExecutionSignaledEventAttributes.Identity = b2 y\<rparr>) =
   Inr \<lparr>WorkflowExecutionSignaledEventAttributes.SignalName = (case x of None \<Rightarrow> a0 | Some y \<Rightarrow> b0 y),
       WorkflowExecutionSignaledEventAttributes.Input = (case x of None \<Rightarrow> a1 | Some y \<Rightarrow> b1 y),
       WorkflowExecutionSignaledEventAttributes.Identity = (case x of None \<Rightarrow> a2 | Some y \<Rightarrow> b2 y)\<rparr>"
  by (cases x) simp_all

interpretation WorkflowExecutionSignaledEventAttributes: thrift_message W
  "WorkflowExecutionSignaledEventAttributes_ToWire W"
      "WorkflowExecutionSignaledEventAttributes_FromWire W"
      WorkflowExecutionSignaledEventAttributes_zero "\<lambda>_. True" for W
proof (rule thrift_messageI)
  fix x :: WorkflowExecutionSignaledEventAttributes
  assume laws: "wire_laws W"
  show "\<exists>w. WorkflowExecutionSignaledEventAttributes_ToWire W x = Inr w \<and> wire_api.Type W w =
      TStruct \<and>
      (Writable W w \<longleftrightarrow> (\<lambda>_. True) x) \<and> ((\<lambda>_. True) x \<longrightarrow>
          WorkflowExecutionSignaledEventAttributes_FromWire W w
          WorkflowExecutionSignaledEventAttributes_zero = Inr x)"
    by (cases x) (simp cong: option.case_cong add: codec_rules
        WorkflowExecutionSignaledEventAttributes_merge
        WorkflowExecutionSignaledEventAttributes_ToWire_def
        WorkflowExecutionSignaledEventAttributes_FromWire_def
        WorkflowExecutionSignaledEventAttributes_zero_def laws)
qed

definition WorkflowExecutionSignaledEventAttributes_Equals ::
  "WorkflowExecutionSignaledEventAttributes option \<Rightarrow> WorkflowExecutionSignaledEventAttributes option
      \<Rightarrow> bool" where
  "WorkflowExecutionSignaledEventAttributes_Equals v rhs =
     (case v of None \<Rightarrow> rhs = None
      | Some v \<Rightarrow> (case rhs of None \<Rightarrow> False
        | Some rhs \<Rightarrow>
          if \<not> String_EqualsPtr (WorkflowExecutionSignaledEventAttributes.SignalName v)
              (WorkflowExecutionSignaledEventAttributes.SignalName rhs) then False else
          if \<not> both_set_and (=) (WorkflowExecutionSignaledEventAttributes.Input v)
              (WorkflowExecutionSignaledEventAttributes.Input rhs) then False else
          if \<not> String_EqualsPtr (WorkflowExecutionSignaledEventAttributes.Identity v)
              (WorkflowExecutionSignaledEventAttributes.Identity rhs) then False else
          True))"

lemma WorkflowExecutionSignaledEventAttributes_Equals_iff [simp]:
    "WorkflowExecutionSignaledEventAttributes_Equals x y \<longleftrightarrow> x = y"
  by (cases x; cases y) (auto simp: WorkflowExecutionSignaledEventAttributes_Equals_def)

record WorkflowExecutionStartedEventAttributes =
  WorkflowType :: "WorkflowType option"
  ParentWorkflowDomain :: "string option"
  ParentWorkflowExecution :: "WorkflowExecution option"
  ParentInitiatedEventId :: "64 word option"
  TaskList :: "TaskList option"
  Input :: "bytes option"
  ExecutionStartToCloseTimeoutSeconds :: "32 word option"
  TaskStartToCloseTimeoutSeconds :: "32 word option"
  ContinuedExecutionRunId :: "string option"
  Initiator :: "ContinueAsNewInitiator option"
  ContinuedFailureReason :: "string option"
  ContinuedFailureDetails :: "bytes option"
  LastCompletionResult :: "bytes option"
  OriginalExecutionRunId :: "string option"
  Identity :: "string option"
  FirstExecutionRunId :: "string option"
  RetryPolicy :: "RetryPolicy option"
  Attempt :: "32 word option"
  ExpirationTimestamp :: "64 word option"
  CronSchedule :: "string option"
  FirstDecisionTaskBackoffSeconds :: "32 word option"
  Memo :: "Memo option"
  SearchAttributes :: "SearchAttributes option"
  PrevAutoResetPoints :: "ResetPoints option"
  Header :: "Header option"

definition WorkflowExecutionStartedEventAttributes_zero :: WorkflowExecutionStartedEventAttributes
    where
  "WorkflowExecutionStartedEventAttributes_zero =
      \<lparr>WorkflowExecutionStartedEventAttributes.WorkflowType = None,
      WorkflowExecutionStartedEventAttributes.ParentWorkflowDomain = None,
      WorkflowExecutionStartedEventAttributes.ParentWorkflowExecution = None,
      WorkflowExecutionStartedEventAttributes.ParentInitiatedEventId = None,
      WorkflowExecutionStartedEventAttributes.TaskList = None,
      WorkflowExecutionStartedEventAttributes.Input = None,
      WorkflowExecutionStartedEventAttributes.ExecutionStartToCloseTimeoutSeconds = None,
      WorkflowExecutionStartedEventAttributes.TaskStartToCloseTimeoutSeconds = None,
      WorkflowExecutionStartedEventAttributes.ContinuedExecutionRunId = None,
      WorkflowExecutionStartedEventAttributes.Initiator = None,
      WorkflowExecutionStartedEventAttributes.ContinuedFailureReason = None,
      WorkflowExecutionStartedEventAttributes.ContinuedFailureDetails = None,
      WorkflowExecutionStartedEventAttributes.LastCompletionResult = None,
      WorkflowExecutionStartedEventAttributes.OriginalExecutionRunId = None,
      WorkflowExecutionStartedEventAttributes.Identity = None,
      WorkflowExecutionStartedEventAttributes.FirstExecutionRunId = None,
      WorkflowExecutionStartedEventAttributes.RetryPolicy = None,
      WorkflowExecutionStartedEventAttributes.Attempt = None,
      WorkflowExecutionStartedEventAttributes.ExpirationTimestamp = None,
      WorkflowExecutionStartedEventAttributes.CronSchedule = None,
      WorkflowExecutionStartedEventAttributes.FirstDecisionTaskBackoffSeconds = None,
      WorkflowExecutionStartedEventAttributes.Memo = None,
      WorkflowExecutionStartedEventAttributes.SearchAttributes = None,
      WorkflowExecutionStartedEventAttributes.PrevAutoResetPoints = None,
      WorkflowExecutionStartedEventAttributes.Header = None\<rparr>"

definition WorkflowExecutionStartedEventAttributes_ToWire ::
  "'v wire_api \<Rightarrow> WorkflowExecutionStartedEventAttributes \<Rightarrow> go_error + 'v" where
  "WorkflowExecutionStartedEventAttributes_ToWire W v =
     and_then (put_opt 10 (WorkflowType_ToWire W)
         (WorkflowExecutionStartedEventAttributes.WorkflowType v) [])
       (\<lambda>fields.
     and_then (put_opt 12 (\<lambda>x. Inr (NewValueString W x))
         (WorkflowExecutionStartedEventAttributes.ParentWorkflowDomain v) fields)
       (\<lambda>fields.
     and_then (put_opt 14 (WorkflowExecution_ToWire W)
         (WorkflowExecutionStartedEventAttributes.ParentWorkflowExecution v) fields)
       (\<lambda>fields.
     and_then (put_opt 16 (\<lambda>x. Inr (NewValueI64 W x))
         (WorkflowExecutionStartedEventAttributes.ParentInitiatedEventId v) fields)
       (\<lambda>fields.
     and_then (put_opt 20 (TaskList_ToWire W) (WorkflowExecutionStartedEventAttributes.TaskList v)
         fields)
       (\<lambda>fields.
     and_then (put_opt 30 (\<lambda>x. Inr (NewValueBinary W x))
         (WorkflowExecutionStartedEventAttributes.Input v) fields)
       (\<lambda>fields.
     and_then (put_opt 40 (\<lambda>x. Inr (NewValueI32 W x))
         (WorkflowExecutionStartedEventAttributes.ExecutionStartToCloseTimeoutSeconds v) fields)
       (\<lambda>fields.
     and_then (put_opt 50 (\<lambda>x. Inr (NewValueI32 W x))
         (WorkflowExecutionStartedEventAttributes.TaskStartToCloseTimeoutSeconds v) fields)
       (\<lambda>fields.
     and_then (put_opt 54 (\<lambda>x. Inr (NewValueString W x))
         (WorkflowExecutionStartedEventAttributes.ContinuedExecutionRunId v) fields)
       (\<lambda>fields.
     and_then (put_opt 55 (ContinueAsNewInitiator_ToWire W)
         (WorkflowExecutionStartedEventAttributes.Initiator v) fields)
       (\<lambda>fields.
     and_then (put_opt 56 (\<lambda>x. Inr (NewValueString W x))
         (WorkflowExecutionStartedEventAttributes.ContinuedFailureReason v) fields)
       (\<lambda>fields.
     and_then (put_opt 57 (\<lambda>x. Inr (NewValueBinary W x))
         (WorkflowExecutionStartedEventAttributes.ContinuedFailureDetails v) fields)
       (\<lambda>fields.
     and_then (put_opt 58 (\<lambda>x. Inr (NewValueBinary W x))
         (WorkflowExecutionStartedEventAttributes.LastCompletionResult v) fields)
       (\<lambda>fields.
     and_then (put_opt 59 (\<lambda>x. Inr (NewValueString W x))
         (WorkflowExecutionStartedEventAttributes.OriginalExecutionRunId v) fields)
       (\<lambda>fields.
     and_then (put_opt 60 (\<lambda>x. Inr (NewValueString W x))
         (WorkflowExecutionStartedEventAttributes.Identity v) fields)
       (\<lambda>fields.
     and_then (put_opt 61 (\<lambda>x. Inr (NewValueString W x))
         (WorkflowExecutionStartedEventAttributes.FirstExecutionRunId v) fields)
       (\<lambda>fields.
     and_then (put_opt 70 (RetryPolicy_ToWire W)
         (WorkflowExecutionStartedEventAttributes.RetryPolicy v) fields)
       (\<lambda>fields.
     and_then (put_opt 80 (\<lambda>x. Inr (NewValueI32 W x))
         (WorkflowExecutionStartedEventAttributes.Attempt v) fields)
       (\<lambda>fields.
     and_then (put_opt 90 (\<lambda>x. Inr (NewValueI64 W x))
         (WorkflowExecutionStartedEventAttributes.ExpirationTimestamp v) fields)
       (\<lambda>fields.
     and_then (put_opt 100 (\<lambda>x. Inr (NewValueString W x))
         (WorkflowExecutionStartedEventAttributes.CronSchedule v) fields)
       (\<lambda>fields.
     and_then (put_opt 110 (\<lambda>x. Inr (NewValueI32 W x))
         (WorkflowExecutionStartedEventAttributes.FirstDecisionTaskBackoffSeconds v) fields)
       (\<lambda>fields.
     and_then (put_opt 120 (Memo_ToWire W) (WorkflowExecutionStartedEventAttributes.Memo v) fields)
       (\<lambda>fields.
     and_then (put_opt 121 (SearchAttributes_ToWire W)
         (WorkflowExecutionStartedEventAttributes.SearchAttributes v) fields)
       (\<lambda>fields.
     and_then (put_opt 130 (ResetPoints_ToWire W)
         (WorkflowExecutionStartedEventAttributes.PrevAutoResetPoints v) fields)
       (\<lambda>fields.
     and_then (put_opt 140 (Header_ToWire W) (WorkflowExecutionStartedEventAttributes.Header v)
         fields)
       (\<lambda>fields.
     Inr (NewValueStruct W fields))))))))))))))))))))))))))"

definition WorkflowExecutionStartedEventAttributes_FromWire ::
  "'v wire_api \<Rightarrow> 'v \<Rightarrow> WorkflowExecutionStartedEventAttributes \<Rightarrow> go_error +
      WorkflowExecutionStartedEventAttributes" where
  "WorkflowExecutionStartedEventAttributes_FromWire W w v =
     foldM (\<lambda>v (fid, fval).
       if fid = 10 then
         if wire_api.Type W fval = TStruct
         then and_then (WorkflowType_Read W fval) (\<lambda>x. Inr
             (v\<lparr>WorkflowExecutionStartedEventAttributes.WorkflowType := Some x\<rparr>))
         else Inr v
       else if fid = 12 then
         if wire_api.Type W fval = TBinary
         then Inr (v\<lparr>WorkflowExecutionStartedEventAttributes.ParentWorkflowDomain := Some (GetString
             W fval)\<rparr>)
         else Inr v
       else if fid = 14 then
         if wire_api.Type W fval = TStruct
         then and_then (WorkflowExecution_Read W fval) (\<lambda>x. Inr
             (v\<lparr>WorkflowExecutionStartedEventAttributes.ParentWorkflowExecution := Some x\<rparr>))
         else Inr v
       else if fid = 16 then
         if wire_api.Type W fval = TI64
         then Inr (v\<lparr>WorkflowExecutionStartedEventAttributes.ParentInitiatedEventId := Some (GetI64
             W fval)\<rparr>)
         else Inr v
       else if fid = 20 then
         if wire_api.Type W fval = TStruct
         then and_then (TaskList_Read W fval) (\<lambda>x. Inr
             (v\<lparr>WorkflowExecutionStartedEventAttributes.TaskList := Some x\<rparr>))
         else Inr v
       else if fid = 30 then
         if wire_api.Type W fval = TBinary
         then Inr (v\<lparr>WorkflowExecutionStartedEventAttributes.Input := Some (GetBinary W fval)\<rparr>)
         else Inr v
       else if fid = 40 then
         if wire_api.Type W fval = TI32
         then Inr (v\<lparr>WorkflowExecutionStartedEventAttributes.ExecutionStartToCloseTimeoutSeconds :=
             Some (GetI32 W fval)\<rparr>)
         else Inr v
       else if fid = 50 then
         if wire_api.Type W fval = TI32
         then Inr (v\<lparr>WorkflowExecutionStartedEventAttributes.TaskStartToCloseTimeoutSeconds := Some
             (GetI32 W fval)\<rparr>)
         else Inr v
       else if fid = 54 then
         if wire_api.Type W fval = TBinary
         then Inr (v\<lparr>WorkflowExecutionStartedEventAttributes.ContinuedExecutionRunId := Some
             (GetString W fval)\<rparr>)
         else Inr v
       else if fid = 55 then
         if wire_api.Type W fval = TI32
         then and_then (ContinueAsNewInitiator_Read W fval) (\<lambda>x. Inr
             (v\<lparr>WorkflowExecutionStartedEventAttributes.Initiator := Some x\<rparr>))
         else Inr v
       else if fid = 56 then
         if wire_api.Type W fval = TBinary
         then Inr (v\<lparr>WorkflowExecutionStartedEventAttributes.ContinuedFailureReason := Some
             (GetString W fval)\<rparr>)
         else Inr v
       else if fid = 57 then
         if wire_api.Type W fval = TBinary
         then Inr (v\<lparr>WorkflowExecutionStartedEventAttributes.ContinuedFailureDetails := Some
             (GetBinary W fval)\<rparr>)
         else Inr v
       else if fid = 58 then
         if wire_api.Type W fval = TBinary
         then Inr (v\<lparr>WorkflowExecutionStartedEventAttributes.LastCompletionResult := Some (GetBinary
             W fval)\<rparr>)
         else Inr v
       else if fid = 59 then
         if wire_api.Type W fval = TBinary
         then Inr (v\<lparr>WorkflowExecutionStartedEventAttributes.OriginalExecutionRunId := Some
             (GetString W fval)\<rparr>)
         else Inr v
       else if fid = 60 then
         if wire_api.Type W fval = TBinary
         then Inr (v\<lparr>WorkflowExecutionStartedEventAttributes.Identity := Some (GetString W fval)\<rparr>)
         else Inr v
       else if fid = 61 then
         if wire_api.Type W fval = TBinary
         then Inr (v\<lparr>WorkflowExecutionStartedEventAttributes.FirstExecutionRunId := Some (GetString
             W fval)\<rparr>)
         else Inr v
       else if fid = 70 then
         if wire_api.Type W fval = TStruct
         then and_then (RetryPolicy_Read W fval) (\<lambda>x. Inr
             (v\<lparr>WorkflowExecutionStartedEventAttributes.RetryPolicy := Some x\<rparr>))
         else Inr v
       else if fid = 80 then
         if wire_api.Type W fval = TI32
         then Inr (v\<lparr>WorkflowExecutionStartedEventAttributes.Attempt := Some (GetI32 W fval)\<rparr>)
         else Inr v
       else if fid = 90 then
         if wire_api.Type W fval = TI64
         then Inr (v\<lparr>WorkflowExecutionStartedEventAttributes.ExpirationTimestamp := Some (GetI64 W
             fval)\<rparr>)
         else Inr v
       else if fid = 100 then
         if wire_api.Type W fval = TBinary
         then Inr (v\<lparr>WorkflowExecutionStartedEventAttributes.CronSchedule := Some (GetString W
             fval)\<rparr>)
         else Inr v
       else if fid = 110 then
         if wire_api.Type W fval = TI32
         then Inr (v\<lparr>WorkflowExecutionStartedEventAttributes.FirstDecisionTaskBackoffSeconds := Some
             (GetI32 W fval)\<rparr>)
         else Inr v
       else if fid = 120 then
         if wire_api.Type W fval = TStruct
         then and_then (Memo_Read W fval) (\<lambda>x. Inr (v\<lparr>WorkflowExecutionStartedEventAttributes.Memo
             := Some x\<rparr>))
         else Inr v
       else if fid = 121 then
         if wire_api.Type W fval = TStruct
         then and_then (SearchAttributes_Read W fval) (\<lambda>x. Inr
             (v\<lparr>WorkflowExecutionStartedEventAttributes.SearchAttributes := Some x\<rparr>))
         else Inr v
       else if fid = 130 then
         if wire_api.Type W fval = TStruct
         then and_then (ResetPoints_Read W fval) (\<lambda>x. Inr
             (v\<lparr>WorkflowExecutionStartedEventAttributes.PrevAutoResetPoints := Some x\<rparr>))
         else Inr v
       else if fid = 140 then
         if wire_api.Type W fval = TStruct
         then and_then (Header_Read W fval) (\<lambda>x. Inr
             (v\<lparr>WorkflowExecutionStartedEventAttributes.Header := Some x\<rparr>))
         else Inr v
       else Inr v) (GetStruct W w) v"

definition WorkflowExecutionStartedEventAttributes_Read :: "'v wire_api \<Rightarrow> 'v \<Rightarrow> go_error +
    WorkflowExecutionStartedEventAttributes" where
  "WorkflowExecutionStartedEventAttributes_Read W w =
      WorkflowExecutionStartedEventAttributes_FromWire W w
      WorkflowExecutionStartedEventAttributes_zero"

definition WorkflowExecutionStartedEventAttributes_complete ::
    "WorkflowExecutionStartedEventAttributes \<Rightarrow> bool" where
  "WorkflowExecutionStartedEventAttributes_complete v \<longleftrightarrow>
     if_set Memo_complete (WorkflowExecutionStartedEventAttributes.Memo v) \<and>
     if_set SearchAttributes_complete (WorkflowExecutionStartedEventAttributes.SearchAttributes v) \<and>
     if_set ResetPoints_complete (WorkflowExecutionStartedEventAttributes.PrevAutoResetPoints v) \<and>
     if_set Header_complete (WorkflowExecutionStartedEventAttributes.Header v)"

lemma WorkflowExecutionStartedEventAttributes_merge:
  "(case x of None \<Rightarrow> Inr \<lparr>WorkflowExecutionStartedEventAttributes.WorkflowType = a0,
      WorkflowExecutionStartedEventAttributes.ParentWorkflowDomain = a1,
      WorkflowExecutionStartedEventAttributes.ParentWorkflowExecution = a2,
      WorkflowExecutionStartedEventAttributes.ParentInitiatedEventId = a3,
      WorkflowExecutionStartedEventAttributes.TaskList = a4,
      WorkflowExecutionStartedEventAttributes.Input = a5,
      WorkflowExecutionStartedEventAttributes.ExecutionStartToCloseTimeoutSeconds = a6,
      WorkflowExecutionStartedEventAttributes.TaskStartToCloseTimeoutSeconds = a7,
      WorkflowExecutionStartedEventAttributes.ContinuedExecutionRunId = a8,
      WorkflowExecutionStartedEventAttributes.Initiator = a9,
      WorkflowExecutionStartedEventAttributes.ContinuedFailureReason = a10,
      WorkflowExecutionStartedEventAttributes.ContinuedFailureDetails = a11,
      WorkflowExecutionStartedEventAttributes.LastCompletionResult = a12,
      WorkflowExecutionStartedEventAttributes.OriginalExecutionRunId = a13,
      WorkflowExecutionStartedEventAttributes.Identity = a14,
      WorkflowExecutionStartedEventAttributes.FirstExecutionRunId = a15,
      WorkflowExecutionStartedEventAttributes.RetryPolicy = a16,
      WorkflowExecutionStartedEventAttributes.Attempt = a17,
      WorkflowExecutionStartedEventAttributes.ExpirationTimestamp = a18,
      WorkflowExecutionStartedEventAttributes.CronSchedule = a19,
      WorkflowExecutionStartedEventAttributes.FirstDecisionTaskBackoffSeconds = a20,
      WorkflowExecutionStartedEventAttributes.Memo = a21,
      WorkflowExecutionStartedEventAttributes.SearchAttributes = a22,
      WorkflowExecutionStartedEventAttributes.PrevAutoResetPoints = a23,
      WorkflowExecutionStartedEventAttributes.Header = a24\<rparr> | Some y \<Rightarrow> Inr
      \<lparr>WorkflowExecutionStartedEventAttributes.WorkflowType = b0 y,
      WorkflowExecutionStartedEventAttributes.ParentWorkflowDomain = b1 y,
      WorkflowExecutionStartedEventAttributes.ParentWorkflowExecution = b2 y,
      WorkflowExecutionStartedEventAttributes.ParentInitiatedEventId = b3 y,
      WorkflowExecutionStartedEventAttributes.TaskList = b4 y,
      WorkflowExecutionStartedEventAttributes.Input = b5 y,
      WorkflowExecutionStartedEventAttributes.ExecutionStartToCloseTimeoutSeconds = b6 y,
      WorkflowExecutionStartedEventAttributes.TaskStartToCloseTimeoutSeconds = b7 y,
      WorkflowExecutionStartedEventAttributes.ContinuedExecutionRunId = b8 y,
      WorkflowExecutionStartedEventAttributes.Initiator = b9 y,
      WorkflowExecutionStartedEventAttributes.ContinuedFailureReason = b10 y,
      WorkflowExecutionStartedEventAttributes.ContinuedFailureDetails = b11 y,
      WorkflowExecutionStartedEventAttributes.LastCompletionResult = b12 y,
      WorkflowExecutionStartedEventAttributes.OriginalExecutionRunId = b13 y,
      WorkflowExecutionStartedEventAttributes.Identity = b14 y,
      WorkflowExecutionStartedEventAttributes.FirstExecutionRunId = b15 y,
      WorkflowExecutionStartedEventAttributes.RetryPolicy = b16 y,
      WorkflowExecutionStartedEventAttributes.Attempt = b17 y,
      WorkflowExecutionStartedEventAttributes.ExpirationTimestamp = b18 y,
      WorkflowExecutionStartedEventAttributes.CronSchedule = b19 y,
      WorkflowExecutionStartedEventAttributes.FirstDecisionTaskBackoffSeconds = b20 y,
      WorkflowExecutionStartedEventAttributes.Memo = b21 y,
      WorkflowExecutionStartedEventAttributes.SearchAttributes = b22 y,
      WorkflowExecutionStartedEventAttributes.PrevAutoResetPoints = b23 y,
      WorkflowExecutionStartedEventAttributes.Header = b24 y\<rparr>) =
   Inr \<lparr>WorkflowExecutionStartedEventAttributes.WorkflowType = (case x of None \<Rightarrow> a0 | Some y \<Rightarrow> b0
       y), WorkflowExecutionStartedEventAttributes.ParentWorkflowDomain = (case x of None \<Rightarrow> a1 |
       Some y \<Rightarrow> b1 y), WorkflowExecutionStartedEventAttributes.ParentWorkflowExecution = (case x of
       None \<Rightarrow> a2 | Some y \<Rightarrow> b2 y), WorkflowExecutionStartedEventAttributes.ParentInitiatedEventId =
       (case x of None \<Rightarrow> a3 | Some y \<Rightarrow> b3 y), WorkflowExecutionStartedEventAttributes.TaskList =
       (case x of None \<Rightarrow> a4 | Some y \<Rightarrow> b4 y), WorkflowExecutionStartedEventAttributes.Input = (case
       x of None \<Rightarrow> a5 | Some y \<Rightarrow> b5 y),
       WorkflowExecutionStartedEventAttributes.ExecutionStartToCloseTimeoutSeconds = (case x of None
       \<Rightarrow> a6 | Some y \<Rightarrow> b6 y), WorkflowExecutionStartedEventAttributes.TaskStartToCloseTimeoutSeconds
       = (case x of None \<Rightarrow> a7 | Some y \<Rightarrow> b7 y),
       WorkflowExecutionStartedEventAttributes.ContinuedExecutionRunId = (case x of None \<Rightarrow> a8 | Some
       y \<Rightarrow> b8 y), WorkflowExecutionStartedEventAttributes.Initiator = (case x of None \<Rightarrow> a9 | Some y
       \<Rightarrow> b9 y), WorkflowExecutionStartedEventAttributes.ContinuedFailureReason = (case x of None \<Rightarrow>
       a10 | Some y \<Rightarrow> b10 y), WorkflowExecutionStartedEventAttributes.ContinuedFailureDetails =
       (case x of None \<Rightarrow> a11 | Some y \<Rightarrow> b11 y),
       WorkflowExecutionStartedEventAttributes.LastCompletionResult = (case x of None \<Rightarrow> a12 | Some y
       \<Rightarrow> b12 y), WorkflowExecutionStartedEventAttributes.OriginalExecutionRunId = (case x of None \<Rightarrow>
       a13 | Some y \<Rightarrow> b13 y), WorkflowExecutionStartedEventAttributes.Identity = (case x of None \<Rightarrow>
       a14 | Some y \<Rightarrow> b14 y), WorkflowExecutionStartedEventAttributes.FirstExecutionRunId = (case x
       of None \<Rightarrow> a15 | Some y \<Rightarrow> b15 y), WorkflowExecutionStartedEventAttributes.RetryPolicy = (case
       x of None \<Rightarrow> a16 | Some y \<Rightarrow> b16 y), WorkflowExecutionStartedEventAttributes.Attempt = (case x
       of None \<Rightarrow> a17 | Some y \<Rightarrow> b17 y), WorkflowExecutionStartedEventAttributes.ExpirationTimestamp
       = (case x of None \<Rightarrow> a18 | Some y \<Rightarrow> b18 y),
       WorkflowExecutionStartedEventAttributes.CronSchedule = (case x of None \<Rightarrow> a19 | Some y \<Rightarrow> b19
       y), WorkflowExecutionStartedEventAttributes.FirstDecisionTaskBackoffSeconds = (case x of None
       \<Rightarrow> a20 | Some y \<Rightarrow> b20 y), WorkflowExecutionStartedEventAttributes.Memo = (case x of None \<Rightarrow> a21
       | Some y \<Rightarrow> b21 y), WorkflowExecutionStartedEventAttributes.SearchAttributes = (case x of None
       \<Rightarrow> a22 | Some y \<Rightarrow> b22 y), WorkflowExecutionStartedEventAttributes.PrevAutoResetPoints = (case
       x of None \<Rightarrow> a23 | Some y \<Rightarrow> b23 y), WorkflowExecutionStartedEventAttributes.Header = (case x
       of None \<Rightarrow> a24 | Some y \<Rightarrow> b24 y)\<rparr>"
  by (cases x) simp_all

interpretation WorkflowExecutionStartedEventAttributes: thrift_message W
  "WorkflowExecutionStartedEventAttributes_ToWire W"
      "WorkflowExecutionStartedEventAttributes_FromWire W"
      WorkflowExecutionStartedEventAttributes_zero
      "WorkflowExecutionStartedEventAttributes_complete" for W
proof (rule thrift_messageI)
  fix x :: WorkflowExecutionStartedEventAttributes
  assume laws: "wire_laws W"
  obtain enc0 where e0: "Header_ToWire W = (\<lambda>x. Inr (enc0 x))"
      "\<And>x. wire_api.Type W (enc0 x) = TStruct"
      "\<And>x. Writable W (enc0 x) \<longleftrightarrow> Header_complete x"
      "\<And>x. Header_complete x \<Longrightarrow> Header_FromWire W (enc0 x) Header_zero = Inr x"
    by (rule Header.encoder [OF laws]) (rule that)
  obtain enc1 where e1: "Memo_ToWire W = (\<lambda>x. Inr (enc1 x))"
      "\<And>x. wire_api.Type W (enc1 x) = TStruct"
      "\<And>x. Writable W (enc1 x) \<longleftrightarrow> Memo_complete x"
      "\<And>x. Memo_complete x \<Longrightarrow> Memo_FromWire W (enc1 x) Memo_zero = Inr x"
    by (rule Memo.encoder [OF laws]) (rule that)
  obtain enc2 where e2: "ResetPoints_ToWire W = (\<lambda>x. Inr (enc2 x))"
      "\<And>x. wire_api.Type W (enc2 x) = TStruct"
      "\<And>x. Writable W (enc2 x) \<longleftrightarrow> ResetPoints_complete x"
      "\<And>x. ResetPoints_complete x \<Longrightarrow> ResetPoints_FromWire W (enc2 x) ResetPoints_zero = Inr x"
    by (rule ResetPoints.encoder [OF laws]) (rule that)
  obtain enc3 where e3: "RetryPolicy_ToWire W = (\<lambda>x. Inr (enc3 x))"
      "\<And>x. wire_api.Type W (enc3 x) = TStruct"
      "\<And>x. Writable W (enc3 x) \<longleftrightarrow> (\<lambda>_. True) x"
      "\<And>x. (\<lambda>_. True) x \<Longrightarrow> RetryPolicy_FromWire W (enc3 x) RetryPolicy_zero = Inr x"
    by (rule RetryPolicy.encoder [OF laws]) (rule that)
  obtain enc4 where e4: "SearchAttributes_ToWire W = (\<lambda>x. Inr (enc4 x))"
      "\<And>x. wire_api.Type W (enc4 x) = TStruct"
      "\<And>x. Writable W (enc4 x) \<longleftrightarrow> SearchAttributes_complete x"
      "\<And>x. SearchAttributes_complete x \<Longrightarrow> SearchAttributes_FromWire W (enc4 x) SearchAttributes_zero
          = Inr x"
    by (rule SearchAttributes.encoder [OF laws]) (rule that)
  obtain enc5 where e5: "TaskList_ToWire W = (\<lambda>x. Inr (enc5 x))"
      "\<And>x. wire_api.Type W (enc5 x) = TStruct"
      "\<And>x. Writable W (enc5 x) \<longleftrightarrow> (\<lambda>_. True) x"
      "\<And>x. (\<lambda>_. True) x \<Longrightarrow> TaskList_FromWire W (enc5 x) TaskList_zero = Inr x"
    by (rule TaskList.encoder [OF laws]) (rule that)
  obtain enc6 where e6: "WorkflowExecution_ToWire W = (\<lambda>x. Inr (enc6 x))"
      "\<And>x. wire_api.Type W (enc6 x) = TStruct"
      "\<And>x. Writable W (enc6 x) \<longleftrightarrow> (\<lambda>_. True) x"
      "\<And>x. (\<lambda>_. True) x \<Longrightarrow> WorkflowExecution_FromWire W (enc6 x) WorkflowExecution_zero = Inr x"
    by (rule WorkflowExecution.encoder [OF laws]) (rule that)
  obtain enc7 where e7: "WorkflowType_ToWire W = (\<lambda>x. Inr (enc7 x))"
      "\<And>x. wire_api.Type W (enc7 x) = TStruct"
      "\<And>x. Writable W (enc7 x) \<longleftrightarrow> (\<lambda>_. True) x"
      "\<And>x. (\<lambda>_. True) x \<Longrightarrow> WorkflowType_FromWire W (enc7 x) WorkflowType_zero = Inr x"
    by (rule WorkflowType.encoder [OF laws]) (rule that)
  show "\<exists>w. WorkflowExecutionStartedEventAttributes_ToWire W x = Inr w \<and> wire_api.Type W w = TStruct
      \<and>
      (Writable W w \<longleftrightarrow> WorkflowExecutionStartedEventAttributes_complete x) \<and>
          (WorkflowExecutionStartedEventAttributes_complete x \<longrightarrow>
          WorkflowExecutionStartedEventAttributes_FromWire W w
          WorkflowExecutionStartedEventAttributes_zero = Inr x)"
    by (cases x) (simp cong: option.case_cong add: codec_rules
        WorkflowExecutionStartedEventAttributes_merge
        WorkflowExecutionStartedEventAttributes_ToWire_def
        WorkflowExecutionStartedEventAttributes_FromWire_def
        WorkflowExecutionStartedEventAttributes_zero_def
        WorkflowExecutionStartedEventAttributes_complete_def if_set_def ContinueAsNewInitiator_enc
        ContinueAsNewInitiator_Read_def ContinueAsNewInitiator_FromWire_def Header_Read_def
        Memo_Read_def ResetPoints_Read_def RetryPolicy_Read_def SearchAttributes_Read_def
        TaskList_Read_def WorkflowExecution_Read_def WorkflowType_Read_def laws e0 e1 e2 e3 e4 e5 e6
        e7)
qed

definition WorkflowExecutionStartedEventAttributes_Equals ::
  "WorkflowExecutionStartedEventAttributes option \<Rightarrow> WorkflowExecutionStartedEventAttributes option \<Rightarrow>
      bool" where
  "WorkflowExecutionStartedEventAttributes_Equals v rhs =
     (case v of None \<Rightarrow> rhs = None
      | Some v \<Rightarrow> (case rhs of None \<Rightarrow> False
        | Some rhs \<Rightarrow>
          if \<not> both_set_and (\<lambda>x y. WorkflowType_Equals (Some x) (Some y))
              (WorkflowExecutionStartedEventAttributes.WorkflowType v)
              (WorkflowExecutionStartedEventAttributes.WorkflowType rhs) then False else
          if \<not> String_EqualsPtr (WorkflowExecutionStartedEventAttributes.ParentWorkflowDomain v)
              (WorkflowExecutionStartedEventAttributes.ParentWorkflowDomain rhs) then False else
          if \<not> both_set_and (\<lambda>x y. WorkflowExecution_Equals (Some x) (Some y))
              (WorkflowExecutionStartedEventAttributes.ParentWorkflowExecution v)
              (WorkflowExecutionStartedEventAttributes.ParentWorkflowExecution rhs) then False else
          if \<not> I64_EqualsPtr (WorkflowExecutionStartedEventAttributes.ParentInitiatedEventId v)
              (WorkflowExecutionStartedEventAttributes.ParentInitiatedEventId rhs) then False else
          if \<not> both_set_and (\<lambda>x y. TaskList_Equals (Some x) (Some y))
              (WorkflowExecutionStartedEventAttributes.TaskList v)
              (WorkflowExecutionStartedEventAttributes.TaskList rhs) then False else
          if \<not> both_set_and (=) (WorkflowExecutionStartedEventAttributes.Input v)
              (WorkflowExecutionStartedEventAttributes.Input rhs) then False else
          if \<not> I32_EqualsPtr
              (WorkflowExecutionStartedEventAttributes.ExecutionStartToCloseTimeoutSeconds v)
              (WorkflowExecutionStartedEventAttributes.ExecutionStartToCloseTimeoutSeconds rhs) then
              False else
          if \<not> I32_EqualsPtr (WorkflowExecutionStartedEventAttributes.TaskStartToCloseTimeoutSeconds
              v) (WorkflowExecutionStartedEventAttributes.TaskStartToCloseTimeoutSeconds rhs) then
              False else
          if \<not> String_EqualsPtr (WorkflowExecutionStartedEventAttributes.ContinuedExecutionRunId v)
              (WorkflowExecutionStartedEventAttributes.ContinuedExecutionRunId rhs) then False else
          if \<not> ContinueAsNewInitiator_EqualsPtr (WorkflowExecutionStartedEventAttributes.Initiator
              v) (WorkflowExecutionStartedEventAttributes.Initiator rhs) then False else
          if \<not> String_EqualsPtr (WorkflowExecutionStartedEventAttributes.ContinuedFailureReason v)
              (WorkflowExecutionStartedEventAttributes.ContinuedFailureReason rhs) then False else
          if \<not> both_set_and (=) (WorkflowExecutionStartedEventAttributes.ContinuedFailureDetails v)
              (WorkflowExecutionStartedEventAttributes.ContinuedFailureDetails rhs) then False else
          if \<not> both_set_and (=) (WorkflowExecutionStartedEventAttributes.LastCompletionResult v)
              (WorkflowExecutionStartedEventAttributes.LastCompletionResult rhs) then False else
          if \<not> String_EqualsPtr (WorkflowExecutionStartedEventAttributes.OriginalExecutionRunId v)
              (WorkflowExecutionStartedEventAttributes.OriginalExecutionRunId rhs) then False else
          if \<not> String_EqualsPtr (WorkflowExecutionStartedEventAttributes.Identity v)
              (WorkflowExecutionStartedEventAttributes.Identity rhs) then False else
          if \<not> String_EqualsPtr (WorkflowExecutionStartedEventAttributes.FirstExecutionRunId v)
              (WorkflowExecutionStartedEventAttributes.FirstExecutionRunId rhs) then False else
          if \<not> both_set_and (\<lambda>x y. RetryPolicy_Equals (Some x) (Some y))
              (WorkflowExecutionStartedEventAttributes.RetryPolicy v)
              (WorkflowExecutionStartedEventAttributes.RetryPolicy rhs) then False else
          if \<not> I32_EqualsPtr (WorkflowExecutionStartedEventAttributes.Attempt v)
              (WorkflowExecutionStartedEventAttributes.Attempt rhs) then False else
          if \<not> I64_EqualsPtr (WorkflowExecutionStartedEventAttributes.ExpirationTimestamp v)
              (WorkflowExecutionStartedEventAttributes.ExpirationTimestamp rhs) then False else
          if \<not> String_EqualsPtr (WorkflowExecutionStartedEventAttributes.CronSchedule v)
              (WorkflowExecutionStartedEventAttributes.CronSchedule rhs) then False else
          if \<not> I32_EqualsPtr
              (WorkflowExecutionStartedEventAttributes.FirstDecisionTaskBackoffSeconds v)
              (WorkflowExecutionStartedEventAttributes.FirstDecisionTaskBackoffSeconds rhs) then
              False else
          if \<not> both_set_and (\<lambda>x y. Memo_Equals (Some x) (Some y))
              (WorkflowExecutionStartedEventAttributes.Memo v)
              (WorkflowExecutionStartedEventAttributes.Memo rhs) then False else
          if \<not> both_set_and (\<lambda>x y. SearchAttributes_Equals (Some x) (Some y))
              (WorkflowExecutionStartedEventAttributes.SearchAttributes v)
              (WorkflowExecutionStartedEventAttributes.SearchAttributes rhs) then False else
          if \<not> both_set_and (\<lambda>x y. ResetPoints_Equals (Some x) (Some y))
              (WorkflowExecutionStartedEventAttributes.PrevAutoResetPoints v)
              (WorkflowExecutionStartedEventAttributes.PrevAutoResetPoints rhs) then False else
          if \<not> both_set_and (\<lambda>x y. Header_Equals (Some x) (Some y))
              (WorkflowExecutionStartedEventAttributes.Header v)
              (WorkflowExecutionStartedEventAttributes.Header rhs) then False else
          True))"

definition WorkflowExecutionStartedEventAttributes_comparable ::
    "WorkflowExecutionStartedEventAttributes \<Rightarrow> bool" where
  "WorkflowExecutionStartedEventAttributes_comparable v \<longleftrightarrow>
     if_set RetryPolicy_comparable (WorkflowExecutionStartedEventAttributes.RetryPolicy v) \<and>
     if_set Memo_comparable (WorkflowExecutionStartedEventAttributes.Memo v) \<and>
     if_set SearchAttributes_comparable (WorkflowExecutionStartedEventAttributes.SearchAttributes v)
         \<and>
     if_set Header_comparable (WorkflowExecutionStartedEventAttributes.Header v)"

lemma WorkflowExecutionStartedEventAttributes_Equals_iff:
  "if_set WorkflowExecutionStartedEventAttributes_comparable x \<Longrightarrow> if_set
      WorkflowExecutionStartedEventAttributes_comparable y \<Longrightarrow>
      WorkflowExecutionStartedEventAttributes_Equals x y \<longleftrightarrow> x = y"
  by (cases x; cases y) (simp_all add: WorkflowExecutionStartedEventAttributes_Equals_def
      WorkflowExecutionStartedEventAttributes_comparable_def if_not_False,
    fastforce intro: WorkflowExecutionStartedEventAttributes.equality)

lemma WorkflowExecutionStartedEventAttributes_fields_equal [simp]:
  "if_set WorkflowExecutionStartedEventAttributes_comparable x \<Longrightarrow> if_set
      WorkflowExecutionStartedEventAttributes_comparable y \<Longrightarrow>
    both_set_and (\<lambda>x y. WorkflowExecutionStartedEventAttributes_Equals (Some x) (Some y)) x y \<longleftrightarrow> x =
        y"
  by (rule both_set_and_iff [where P = WorkflowExecutionStartedEventAttributes_comparable])
      (simp_all add: WorkflowExecutionStartedEventAttributes_Equals_iff)

record WorkflowExecutionTerminatedEventAttributes =
  Reason :: "string option"
  Details :: "bytes option"
  Identity :: "string option"

definition WorkflowExecutionTerminatedEventAttributes_zero ::
    WorkflowExecutionTerminatedEventAttributes where
  "WorkflowExecutionTerminatedEventAttributes_zero =
      \<lparr>WorkflowExecutionTerminatedEventAttributes.Reason = None,
      WorkflowExecutionTerminatedEventAttributes.Details = None,
      WorkflowExecutionTerminatedEventAttributes.Identity = None\<rparr>"

definition WorkflowExecutionTerminatedEventAttributes_ToWire ::
  "'v wire_api \<Rightarrow> WorkflowExecutionTerminatedEventAttributes \<Rightarrow> go_error + 'v" where
  "WorkflowExecutionTerminatedEventAttributes_ToWire W v =
     and_then (put_opt 10 (\<lambda>x. Inr (NewValueString W x))
         (WorkflowExecutionTerminatedEventAttributes.Reason v) [])
       (\<lambda>fields.
     and_then (put_opt 20 (\<lambda>x. Inr (NewValueBinary W x))
         (WorkflowExecutionTerminatedEventAttributes.Details v) fields)
       (\<lambda>fields.
     and_then (put_opt 30 (\<lambda>x. Inr (NewValueString W x))
         (WorkflowExecutionTerminatedEventAttributes.Identity v) fields)
       (\<lambda>fields.
     Inr (NewValueStruct W fields))))"

definition WorkflowExecutionTerminatedEventAttributes_FromWire ::
  "'v wire_api \<Rightarrow> 'v \<Rightarrow> WorkflowExecutionTerminatedEventAttributes \<Rightarrow> go_error +
      WorkflowExecutionTerminatedEventAttributes" where
  "WorkflowExecutionTerminatedEventAttributes_FromWire W w v =
     foldM (\<lambda>v (fid, fval).
       if fid = 10 then
         if wire_api.Type W fval = TBinary
         then Inr (v\<lparr>WorkflowExecutionTerminatedEventAttributes.Reason := Some (GetString W fval)\<rparr>)
         else Inr v
       else if fid = 20 then
         if wire_api.Type W fval = TBinary
         then Inr (v\<lparr>WorkflowExecutionTerminatedEventAttributes.Details := Some (GetBinary W fval)\<rparr>)
         else Inr v
       else if fid = 30 then
         if wire_api.Type W fval = TBinary
         then Inr (v\<lparr>WorkflowExecutionTerminatedEventAttributes.Identity := Some (GetString W
             fval)\<rparr>)
         else Inr v
       else Inr v) (GetStruct W w) v"

definition WorkflowExecutionTerminatedEventAttributes_Read :: "'v wire_api \<Rightarrow> 'v \<Rightarrow> go_error +
    WorkflowExecutionTerminatedEventAttributes" where
  "WorkflowExecutionTerminatedEventAttributes_Read W w =
      WorkflowExecutionTerminatedEventAttributes_FromWire W w
      WorkflowExecutionTerminatedEventAttributes_zero"

lemma WorkflowExecutionTerminatedEventAttributes_merge:
  "(case x of None \<Rightarrow> Inr \<lparr>WorkflowExecutionTerminatedEventAttributes.Reason = a0,
      WorkflowExecutionTerminatedEventAttributes.Details = a1,
      WorkflowExecutionTerminatedEventAttributes.Identity = a2\<rparr> | Some y \<Rightarrow> Inr
      \<lparr>WorkflowExecutionTerminatedEventAttributes.Reason = b0 y,
      WorkflowExecutionTerminatedEventAttributes.Details = b1 y,
      WorkflowExecutionTerminatedEventAttributes.Identity = b2 y\<rparr>) =
   Inr \<lparr>WorkflowExecutionTerminatedEventAttributes.Reason = (case x of None \<Rightarrow> a0 | Some y \<Rightarrow> b0 y),
       WorkflowExecutionTerminatedEventAttributes.Details = (case x of None \<Rightarrow> a1 | Some y \<Rightarrow> b1 y),
       WorkflowExecutionTerminatedEventAttributes.Identity = (case x of None \<Rightarrow> a2 | Some y \<Rightarrow> b2 y)\<rparr>"
  by (cases x) simp_all

interpretation WorkflowExecutionTerminatedEventAttributes: thrift_message W
  "WorkflowExecutionTerminatedEventAttributes_ToWire W"
      "WorkflowExecutionTerminatedEventAttributes_FromWire W"
      WorkflowExecutionTerminatedEventAttributes_zero "\<lambda>_. True" for W
proof (rule thrift_messageI)
  fix x :: WorkflowExecutionTerminatedEventAttributes
  assume laws: "wire_laws W"
  show "\<exists>w. WorkflowExecutionTerminatedEventAttributes_ToWire W x = Inr w \<and> wire_api.Type W w =
      TStruct \<and>
      (Writable W w \<longleftrightarrow> (\<lambda>_. True) x) \<and> ((\<lambda>_. True) x \<longrightarrow>
          WorkflowExecutionTerminatedEventAttributes_FromWire W w
          WorkflowExecutionTerminatedEventAttributes_zero = Inr x)"
    by (cases x) (simp cong: option.case_cong add: codec_rules
        WorkflowExecutionTerminatedEventAttributes_merge
        WorkflowExecutionTerminatedEventAttributes_ToWire_def
        WorkflowExecutionTerminatedEventAttributes_FromWire_def
        WorkflowExecutionTerminatedEventAttributes_zero_def laws)
qed

definition WorkflowExecutionTerminatedEventAttributes_Equals ::
  "WorkflowExecutionTerminatedEventAttributes option \<Rightarrow> WorkflowExecutionTerminatedEventAttributes
      option \<Rightarrow> bool" where
  "WorkflowExecutionTerminatedEventAttributes_Equals v rhs =
     (case v of None \<Rightarrow> rhs = None
      | Some v \<Rightarrow> (case rhs of None \<Rightarrow> False
        | Some rhs \<Rightarrow>
          if \<not> String_EqualsPtr (WorkflowExecutionTerminatedEventAttributes.Reason v)
              (WorkflowExecutionTerminatedEventAttributes.Reason rhs) then False else
          if \<not> both_set_and (=) (WorkflowExecutionTerminatedEventAttributes.Details v)
              (WorkflowExecutionTerminatedEventAttributes.Details rhs) then False else
          if \<not> String_EqualsPtr (WorkflowExecutionTerminatedEventAttributes.Identity v)
              (WorkflowExecutionTerminatedEventAttributes.Identity rhs) then False else
          True))"

lemma WorkflowExecutionTerminatedEventAttributes_Equals_iff [simp]:
    "WorkflowExecutionTerminatedEventAttributes_Equals x y \<longleftrightarrow> x = y"
  by (cases x; cases y) (auto simp: WorkflowExecutionTerminatedEventAttributes_Equals_def)

record WorkflowExecutionTimedOutEventAttributes =
  TimeoutType :: "TimeoutType option"

definition WorkflowExecutionTimedOutEventAttributes_zero :: WorkflowExecutionTimedOutEventAttributes
    where
  "WorkflowExecutionTimedOutEventAttributes_zero =
      \<lparr>WorkflowExecutionTimedOutEventAttributes.TimeoutType = None\<rparr>"

definition WorkflowExecutionTimedOutEventAttributes_ToWire ::
  "'v wire_api \<Rightarrow> WorkflowExecutionTimedOutEventAttributes \<Rightarrow> go_error + 'v" where
  "WorkflowExecutionTimedOutEventAttributes_ToWire W v =
     and_then (put_opt 10 (TimeoutType_ToWire W)
         (WorkflowExecutionTimedOutEventAttributes.TimeoutType v) [])
       (\<lambda>fields.
     Inr (NewValueStruct W fields))"

definition WorkflowExecutionTimedOutEventAttributes_FromWire ::
  "'v wire_api \<Rightarrow> 'v \<Rightarrow> WorkflowExecutionTimedOutEventAttributes \<Rightarrow> go_error +
      WorkflowExecutionTimedOutEventAttributes" where
  "WorkflowExecutionTimedOutEventAttributes_FromWire W w v =
     foldM (\<lambda>v (fid, fval).
       if fid = 10 then
         if wire_api.Type W fval = TI32
         then and_then (TimeoutType_Read W fval) (\<lambda>x. Inr
             (v\<lparr>WorkflowExecutionTimedOutEventAttributes.TimeoutType := Some x\<rparr>))
         else Inr v
       else Inr v) (GetStruct W w) v"

definition WorkflowExecutionTimedOutEventAttributes_Read :: "'v wire_api \<Rightarrow> 'v \<Rightarrow> go_error +
    WorkflowExecutionTimedOutEventAttributes" where
  "WorkflowExecutionTimedOutEventAttributes_Read W w =
      WorkflowExecutionTimedOutEventAttributes_FromWire W w
      WorkflowExecutionTimedOutEventAttributes_zero"

lemma WorkflowExecutionTimedOutEventAttributes_merge:
  "(case x of None \<Rightarrow> Inr \<lparr>WorkflowExecutionTimedOutEventAttributes.TimeoutType = a0\<rparr> | Some y \<Rightarrow> Inr
      \<lparr>WorkflowExecutionTimedOutEventAttributes.TimeoutType = b0 y\<rparr>) =
   Inr \<lparr>WorkflowExecutionTimedOutEventAttributes.TimeoutType = (case x of None \<Rightarrow> a0 | Some y \<Rightarrow> b0
       y)\<rparr>"
  by (cases x) simp_all

interpretation WorkflowExecutionTimedOutEventAttributes: thrift_message W
  "WorkflowExecutionTimedOutEventAttributes_ToWire W"
      "WorkflowExecutionTimedOutEventAttributes_FromWire W"
      WorkflowExecutionTimedOutEventAttributes_zero "\<lambda>_. True" for W
proof (rule thrift_messageI)
  fix x :: WorkflowExecutionTimedOutEventAttributes
  assume laws: "wire_laws W"
  show "\<exists>w. WorkflowExecutionTimedOutEventAttributes_ToWire W x = Inr w \<and> wire_api.Type W w =
      TStruct \<and>
      (Writable W w \<longleftrightarrow> (\<lambda>_. True) x) \<and> ((\<lambda>_. True) x \<longrightarrow>
          WorkflowExecutionTimedOutEventAttributes_FromWire W w
          WorkflowExecutionTimedOutEventAttributes_zero = Inr x)"
    by (cases x) (simp cong: option.case_cong add: codec_rules
        WorkflowExecutionTimedOutEventAttributes_merge
        WorkflowExecutionTimedOutEventAttributes_ToWire_def
        WorkflowExecutionTimedOutEventAttributes_FromWire_def
        WorkflowExecutionTimedOutEventAttributes_zero_def TimeoutType_enc TimeoutType_Read_def
        TimeoutType_FromWire_def laws)
qed

definition WorkflowExecutionTimedOutEventAttributes_Equals ::
  "WorkflowExecutionTimedOutEventAttributes option \<Rightarrow> WorkflowExecutionTimedOutEventAttributes option
      \<Rightarrow> bool" where
  "WorkflowExecutionTimedOutEventAttributes_Equals v rhs =
     (case v of None \<Rightarrow> rhs = None
      | Some v \<Rightarrow> (case rhs of None \<Rightarrow> False
        | Some rhs \<Rightarrow>
          if \<not> TimeoutType_EqualsPtr (WorkflowExecutionTimedOutEventAttributes.TimeoutType v)
              (WorkflowExecutionTimedOutEventAttributes.TimeoutType rhs) then False else
          True))"

lemma WorkflowExecutionTimedOutEventAttributes_Equals_iff [simp]:
    "WorkflowExecutionTimedOutEventAttributes_Equals x y \<longleftrightarrow> x = y"
  by (cases x; cases y) (auto simp: WorkflowExecutionTimedOutEventAttributes_Equals_def)

end
