(* ===== verification/GoDecisions.thy ===== *)
theory GoDecisions
  imports GoTypes
begin

text \<open>
  The attributes of decisions (proxy/gen/shared/shared.go), with their codecs and comparisons.
\<close>

record CancelTimerDecisionAttributes =
  TimerId :: "string option"

definition CancelTimerDecisionAttributes_zero :: CancelTimerDecisionAttributes where
  "CancelTimerDecisionAttributes_zero = \<lparr>CancelTimerDecisionAttributes.TimerId = None\<rparr>"

definition CancelTimerDecisionAttributes_ToWire ::
  "'v wire_api \<Rightarrow> CancelTimerDecisionAttributes \<Rightarrow> go_error + 'v" where
  "CancelTimerDecisionAttributes_ToWire W v =
     and_then (put_opt 10 (\<lambda>x. Inr (NewValueString W x)) (CancelTimerDecisionAttributes.TimerId v)
         [])
       (\<lambda>fields.
     Inr (NewValueStruct W fields))"

definition CancelTimerDecisionAttributes_FromWire ::
  "'v wire_api \<Rightarrow> 'v \<Rightarrow> CancelTimerDecisionAttributes \<Rightarrow> go_error + CancelTimerDecisionAttributes"
      where
  "CancelTimerDecisionAttributes_FromWire W w v =
     foldM (\<lambda>v (fid, fval).
       if fid = 10 then
         if wire_api.Type W fval = TBinary
         then Inr (v\<lparr>CancelTimerDecisionAttributes.TimerId := Some (GetString W fval)\<rparr>)
         else Inr v
       else Inr v) (GetStruct W w) v"

definition CancelTimerDecisionAttributes_Read :: "'v wire_api \<Rightarrow> 'v \<Rightarrow> go_error +
    CancelTimerDecisionAttributes" where
  "CancelTimerDecisionAttributes_Read W w = CancelTimerDecisionAttributes_FromWire W w
      CancelTimerDecisionAttributes_zero"

lemma CancelTimerDecisionAttributes_merge:
  "(case x of None \<Rightarrow> Inr \<lparr>CancelTimerDecisionAttributes.TimerId = a0\<rparr> | Some y \<Rightarrow> Inr
      \<lparr>CancelTimerDecisionAttributes.TimerId = b0 y\<rparr>) =
   Inr \<lparr>CancelTimerDecisionAttributes.TimerId = (case x of None \<Rightarrow> a0 | Some y \<Rightarrow> b0 y)\<rparr>"
  by (cases x) simp_all

interpretation CancelTimerDecisionAttributes: thrift_message W
  "CancelTimerDecisionAttributes_ToWire W" "CancelTimerDecisionAttributes_FromWire W"
      CancelTimerDecisionAttributes_zero "\<lambda>_. True" for W
proof (rule thrift_messageI)
  fix x :: CancelTimerDecisionAttributes
  assume laws: "wire_laws W"
  show "\<exists>w. CancelTimerDecisionAttributes_ToWire W x = Inr w \<and> wire_api.Type W w = TStruct \<and>
      (Writable W w \<longleftrightarrow> (\<lambda>_. True) x) \<and> ((\<lambda>_. True) x \<longrightarrow> CancelTimerDecisionAttributes_FromWire W w
          CancelTimerDecisionAttributes_zero = Inr x)"
    by (cases x) (simp cong: option.case_cong add: codec_rules CancelTimerDecisionAttributes_merge
        CancelTimerDecisionAttributes_ToWire_def CancelTimerDecisionAttributes_FromWire_def
        CancelTimerDecisionAttributes_zero_def laws)
qed

definition CancelTimerDecisionAttributes_Equals ::
  "CancelTimerDecisionAttributes option \<Rightarrow> CancelTimerDecisionAttributes option \<Rightarrow> bool" where
  "CancelTimerDecisionAttributes_Equals v rhs =
     (case v of None \<Rightarrow> rhs = None
      | Some v \<Rightarrow> (case rhs of None \<Rightarrow> False
        | Some rhs \<Rightarrow>
          if \<not> String_EqualsPtr (CancelTimerDecisionAttributes.TimerId v)
              (CancelTimerDecisionAttributes.TimerId rhs) then False else
          True))"

lemma CancelTimerDecisionAttributes_Equals_iff [simp]: "CancelTimerDecisionAttributes_Equals x y \<longleftrightarrow> x
    = y"
  by (cases x; cases y) (auto simp: CancelTimerDecisionAttributes_Equals_def)

record CancelWorkflowExecutionDecisionAttributes =
  Details :: "bytes option"

definition CancelWorkflowExecutionDecisionAttributes_zero ::
    CancelWorkflowExecutionDecisionAttributes where
  "CancelWorkflowExecutionDecisionAttributes_zero =
      \<lparr>CancelWorkflowExecutionDecisionAttributes.Details = None\<rparr>"

definition CancelWorkflowExecutionDecisionAttributes_ToWire ::
  "'v wire_api \<Rightarrow> CancelWorkflowExecutionDecisionAttributes \<Rightarrow> go_error + 'v" where
  "CancelWorkflowExecutionDecisionAttributes_ToWire W v =
     and_then (put_opt 10 (\<lambda>x. Inr (NewValueBinary W x))
         (CancelWorkflowExecutionDecisionAttributes.Details v) [])
       (\<lambda>fields.
     Inr (NewValueStruct W fields))"

definition CancelWorkflowExecutionDecisionAttributes_FromWire ::
  "'v wire_api \<Rightarrow> 'v \<Rightarrow> CancelWorkflowExecutionDecisionAttributes \<Rightarrow> go_error +
      CancelWorkflowExecutionDecisionAttributes" where
  "CancelWorkflowExecutionDecisionAttributes_FromWire W w v =
     foldM (\<lambda>v (fid, fval).
       if fid = 10 then
         if wire_api.Type W fval = TBinary
         then Inr (v\<lparr>CancelWorkflowExecutionDecisionAttributes.Details := Some (GetBinary W fval)\<rparr>)
         else Inr v
       else Inr v) (GetStruct W w) v"

definition CancelWorkflowExecutionDecisionAttributes_Read :: "'v wire_api \<Rightarrow> 'v \<Rightarrow> go_error +
    CancelWorkflowExecutionDecisionAttributes" where
  "CancelWorkflowExecutionDecisionAttributes_Read W w =
      CancelWorkflowExecutionDecisionAttributes_FromWire W w
      CancelWorkflowExecutionDecisionAttributes_zero"

lemma CancelWorkflowExecutionDecisionAttributes_merge:
  "(case x of None \<Rightarrow> Inr \<lparr>CancelWorkflowExecutionDecisionAttributes.Details = a0\<rparr> | Some y \<Rightarrow> Inr
      \<lparr>CancelWorkflowExecutionDecisionAttributes.Details = b0 y\<rparr>) =
   Inr \<lparr>CancelWorkflowExecutionDecisionAttributes.Details = (case x of None \<Rightarrow> a0 | Some y \<Rightarrow> b0 y)\<rparr>"
  by (cases x) simp_all

interpretation CancelWorkflowExecutionDecisionAttributes: thrift_message W
  "CancelWorkflowExecutionDecisionAttributes_ToWire W"
      "CancelWorkflowExecutionDecisionAttributes_FromWire W"
      CancelWorkflowExecutionDecisionAttributes_zero "\<lambda>_. True" for W
proof (rule thrift_messageI)
  fix x :: CancelWorkflowExecutionDecisionAttributes
  assume laws: "wire_laws W"
  show "\<exists>w. CancelWorkflowExecutionDecisionAttributes_ToWire W x = Inr w \<and> wire_api.Type W w =
      TStruct \<and>
      (Writable W w \<longleftrightarrow> (\<lambda>_. True) x) \<and> ((\<lambda>_. True) x \<longrightarrow>
          CancelWorkflowExecutionDecisionAttributes_FromWire W w
          CancelWorkflowExecutionDecisionAttributes_zero = Inr x)"
    by (cases x) (simp cong: option.case_cong add: codec_rules
        CancelWorkflowExecutionDecisionAttributes_merge
        CancelWorkflowExecutionDecisionAttributes_ToWire_def
        CancelWorkflowExecutionDecisionAttributes_FromWire_def
        CancelWorkflowExecutionDecisionAttributes_zero_def laws)
qed

definition CancelWorkflowExecutionDecisionAttributes_Equals ::
  "CancelWorkflowExecutionDecisionAttributes option \<Rightarrow> CancelWorkflowExecutionDecisionAttributes
      option \<Rightarrow> bool" where
  "CancelWorkflowExecutionDecisionAttributes_Equals v rhs =
     (case v of None \<Rightarrow> rhs = None
      | Some v \<Rightarrow> (case rhs of None \<Rightarrow> False
        | Some rhs \<Rightarrow>
          if \<not> both_set_and (=) (CancelWorkflowExecutionDecisionAttributes.Details v)
              (CancelWorkflowExecutionDecisionAttributes.Details rhs) then False else
          True))"

lemma CancelWorkflowExecutionDecisionAttributes_Equals_iff [simp]:
    "CancelWorkflowExecutionDecisionAttributes_Equals x y \<longleftrightarrow> x = y"
  by (cases x; cases y) (auto simp: CancelWorkflowExecutionDecisionAttributes_Equals_def)

record CompleteWorkflowExecutionDecisionAttributes =
  Result :: "bytes option"

definition CompleteWorkflowExecutionDecisionAttributes_zero ::
    CompleteWorkflowExecutionDecisionAttributes where
  "CompleteWorkflowExecutionDecisionAttributes_zero =
      \<lparr>CompleteWorkflowExecutionDecisionAttributes.Result = None\<rparr>"

definition CompleteWorkflowExecutionDecisionAttributes_ToWire ::
  "'v wire_api \<Rightarrow> CompleteWorkflowExecutionDecisionAttributes \<Rightarrow> go_error + 'v" where
  "CompleteWorkflowExecutionDecisionAttributes_ToWire W v =
     and_then (put_opt 10 (\<lambda>x. Inr (NewValueBinary W x))
         (CompleteWorkflowExecutionDecisionAttributes.Result v) [])
       (\<lambda>fields.
     Inr (NewValueStruct W fields))"

definition CompleteWorkflowExecutionDecisionAttributes_FromWire ::
  "'v wire_api \<Rightarrow> 'v \<Rightarrow> CompleteWorkflowExecutionDecisionAttributes \<Rightarrow> go_error +
      CompleteWorkflowExecutionDecisionAttributes" where
  "CompleteWorkflowExecutionDecisionAttributes_FromWire W w v =
     foldM (\<lambda>v (fid, fval).
       if fid = 10 then
         if wire_api.Type W fval = TBinary
         then Inr (v\<lparr>CompleteWorkflowExecutionDecisionAttributes.Result := Some (GetBinary W fval)\<rparr>)
         else Inr v
       else Inr v) (GetStruct W w) v"

definition CompleteWorkflowExecutionDecisionAttributes_Read :: "'v wire_api \<Rightarrow> 'v \<Rightarrow> go_error +
    CompleteWorkflowExecutionDecisionAttributes" where
  "CompleteWorkflowExecutionDecisionAttributes_Read W w =
      CompleteWorkflowExecutionDecisionAttributes_FromWire W w
      CompleteWorkflowExecutionDecisionAttributes_zero"

lemma CompleteWorkflowExecutionDecisionAttributes_merge:
  "(case x of None \<Rightarrow> Inr \<lparr>CompleteWorkflowExecutionDecisionAttributes.Result = a0\<rparr> | Some y \<Rightarrow> Inr
      \<lparr>CompleteWorkflowExecutionDecisionAttributes.Result = b0 y\<rparr>) =
   Inr \<lparr>CompleteWorkflowExecutionDecisionAttributes.Result = (case x of None \<Rightarrow> a0 | Some y \<Rightarrow> b0 y)\<rparr>"
  by (cases x) simp_all

interpretation CompleteWorkflowExecutionDecisionAttributes: thrift_message W
  "CompleteWorkflowExecutionDecisionAttributes_ToWire W"
      "CompleteWorkflowExecutionDecisionAttributes_FromWire W"
      CompleteWorkflowExecutionDecisionAttributes_zero "\<lambda>_. True" for W
proof (rule thrift_messageI)
  fix x :: CompleteWorkflowExecutionDecisionAttributes
  assume laws: "wire_laws W"
  show "\<exists>w. CompleteWorkflowExecutionDecisionAttributes_ToWire W x = Inr w \<and> wire_api.Type W w =
      TStruct \<and>
      (Writable W w \<longleftrightarrow> (\<lambda>_. True) x) \<and> ((\<lambda>_. True) x \<longrightarrow>
          CompleteWorkflowExecutionDecisionAttributes_FromWire W w
          CompleteWorkflowExecutionDecisionAttributes_zero = Inr x)"
    by (cases x) (simp cong: option.case_cong add: codec_rules
        CompleteWorkflowExecutionDecisionAttributes_merge
        CompleteWorkflowExecutionDecisionAttributes_ToWire_def
        CompleteWorkflowExecutionDecisionAttributes_FromWire_def
        CompleteWorkflowExecutionDecisionAttributes_zero_def laws)
qed

definition CompleteWorkflowExecutionDecisionAttributes_Equals ::
  "CompleteWorkflowExecutionDecisionAttributes option \<Rightarrow> CompleteWorkflowExecutionDecisionAttributes
      option \<Rightarrow> bool" where
  "CompleteWorkflowExecutionDecisionAttributes_Equals v rhs =
     (case v of None \<Rightarrow> rhs = None
      | Some v \<Rightarrow> (case rhs of None \<Rightarrow> False
        | Some rhs \<Rightarrow>
          if \<not> both_set_and (=) (CompleteWorkflowExecutionDecisionAttributes.Result v)
              (CompleteWorkflowExecutionDecisionAttributes.Result rhs) then False else
          True))"

lemma CompleteWorkflowExecutionDecisionAttributes_Equals_iff [simp]:
    "CompleteWorkflowExecutionDecisionAttributes_Equals x y \<longleftrightarrow> x = y"
  by (cases x; cases y) (auto simp: CompleteWorkflowExecutionDecisionAttributes_Equals_def)

record ContinueAsNewWorkflowExecutionDecisionAttributes =
  WorkflowType :: "WorkflowType option"
  TaskList :: "TaskList option"
  Input :: "bytes option"
  ExecutionStartToCloseTimeoutSeconds :: "32 word option"
  TaskStartToCloseTimeoutSeconds :: "32 word option"
  BackoffStartIntervalInSeconds :: "32 word option"
  RetryPolicy :: "RetryPolicy option"
  Initiator :: "ContinueAsNewInitiator option"
  FailureReason :: "string option"
  FailureDetails :: "bytes option"
  LastCompletionResult :: "bytes option"
  CronSchedule :: "string option"
  Header :: "Header option"
  Memo :: "Memo option"
  SearchAttributes :: "SearchAttributes option"

definition ContinueAsNewWorkflowExecutionDecisionAttributes_zero ::
    ContinueAsNewWorkflowExecutionDecisionAttributes where
  "ContinueAsNewWorkflowExecutionDecisionAttributes_zero =
      \<lparr>ContinueAsNewWorkflowExecutionDecisionAttributes.WorkflowType = None,
      ContinueAsNewWorkflowExecutionDecisionAttributes.TaskList = None,
      ContinueAsNewWorkflowExecutionDecisionAttributes.Input = None,
      ContinueAsNewWorkflowExecutionDecisionAttributes.ExecutionStartToCloseTimeoutSeconds = None,
      ContinueAsNewWorkflowExecutionDecisionAttributes.TaskStartToCloseTimeoutSeconds = None,
      ContinueAsNewWorkflowExecutionDecisionAttributes.BackoffStartIntervalInSeconds = None,
      ContinueAsNewWorkflowExecutionDecisionAttributes.RetryPolicy = None,
      ContinueAsNewWorkflowExecutionDecisionAttributes.Initiator = None,
      ContinueAsNewWorkflowExecutionDecisionAttributes.FailureReason = None,
      ContinueAsNewWorkflowExecutionDecisionAttributes.FailureDetails = None,
      ContinueAsNewWorkflowExecutionDecisionAttributes.LastCompletionResult = None,
      ContinueAsNewWorkflowExecutionDecisionAttributes.CronSchedule = None,
      ContinueAsNewWorkflowExecutionDecisionAttributes.Header = None,
      ContinueAsNewWorkflowExecutionDecisionAttributes.Memo = None,
      ContinueAsNewWorkflowExecutionDecisionAttributes.SearchAttributes = None\<rparr>"

definition ContinueAsNewWorkflowExecutionDecisionAttributes_ToWire ::
  "'v wire_api \<Rightarrow> ContinueAsNewWorkflowExecutionDecisionAttributes \<Rightarrow> go_error + 'v" where
  "ContinueAsNewWorkflowExecutionDecisionAttributes_ToWire W v =
     and_then (put_opt 10 (WorkflowType_ToWire W)
         (ContinueAsNewWorkflowExecutionDecisionAttributes.WorkflowType v) [])
       (\<lambda>fields.
     and_then (put_opt 20 (TaskList_ToWire W)
         (ContinueAsNewWorkflowExecutionDecisionAttributes.TaskList v) fields)
       (\<lambda>fields.
     and_then (put_opt 30 (\<lambda>x. Inr (NewValueBinary W x))
         (ContinueAsNewWorkflowExecutionDecisionAttributes.Input v) fields)
       (\<lambda>fields.
     and_then (put_opt 40 (\<lambda>x. Inr (NewValueI32 W x))
         (ContinueAsNewWorkflowExecutionDecisionAttributes.ExecutionStartToCloseTimeoutSeconds v)
         fields)
       (\<lambda>fields.
     and_then (put_opt 50 (\<lambda>x. Inr (NewValueI32 W x))
         (ContinueAsNewWorkflowExecutionDecisionAttributes.TaskStartToCloseTimeoutSeconds v) fields)
       (\<lambda>fields.
     and_then (put_opt 60 (\<lambda>x. Inr (NewValueI32 W x))
         (ContinueAsNewWorkflowExecutionDecisionAttributes.BackoffStartIntervalInSeconds v) fields)
       (\<lambda>fields.
     and_then (put_opt 70 (RetryPolicy_ToWire W)
         (ContinueAsNewWorkflowExecutionDecisionAttributes.RetryPolicy v) fields)
       (\<lambda>fields.
     and_then (put_opt 80 (ContinueAsNewInitiator_ToWire W)
         (ContinueAsNewWorkflowExecutionDecisionAttributes.Initiator v) fields)
       (\<lambda>fields.
     and_then (put_opt 90 (\<lambda>x. Inr (NewValueString W x))
         (ContinueAsNewWorkflowExecutionDecisionAttributes.FailureReason v) fields)
       (\<lambda>fields.
     and_then (put_opt 100 (\<lambda>x. Inr (NewValueBinary W x))
         (ContinueAsNewWorkflowExecutionDecisionAttributes.FailureDetails v) fields)
       (\<lambda>fields.
     and_then (put_opt 110 (\<lambda>x. Inr (NewValueBinary W x))
         (ContinueAsNewWorkflowExecutionDecisionAttributes.LastCompletionResult v) fields)
       (\<lambda>fields.
     and_then (put_opt 120 (\<lambda>x. Inr (NewValueString W x))
         (ContinueAsNewWorkflowExecutionDecisionAttributes.CronSchedule v) fields)
       (\<lambda>fields.
     and_then (put_opt 130 (Header_ToWire W)
         (ContinueAsNewWorkflowExecutionDecisionAttributes.Header v) fields)
       (\<lambda>fields.
     and_then (put_opt 140 (Memo_ToWire W) (ContinueAsNewWorkflowExecutionDecisionAttributes.Memo v)
         fields)
       (\<lambda>fields.
     and_then (put_opt 150 (SearchAttributes_ToWire W)
         (ContinueAsNewWorkflowExecutionDecisionAttributes.SearchAttributes v) fields)
       (\<lambda>fields.
     Inr (NewValueStruct W fields))))))))))))))))"

definition ContinueAsNewWorkflowExecutionDecisionAttributes_FromWire ::
  "'v wire_api \<Rightarrow> 'v \<Rightarrow> ContinueAsNewWorkflowExecutionDecisionAttributes \<Rightarrow> go_error +
      ContinueAsNewWorkflowExecutionDecisionAttributes" where
  "ContinueAsNewWorkflowExecutionDecisionAttributes_FromWire W w v =
     foldM (\<lambda>v (fid, fval).
       if fid = 10 then
         if wire_api.Type W fval = TStruct
         then and_then (WorkflowType_Read W fval) (\<lambda>x. Inr
             (v\<lparr>ContinueAsNewWorkflowExecutionDecisionAttributes.WorkflowType := Some x\<rparr>))
         else Inr v
       else if fid = 20 then
         if wire_api.Type W fval = TStruct
         then and_then (TaskList_Read W fval) (\<lambda>x. Inr
             (v\<lparr>ContinueAsNewWorkflowExecutionDecisionAttributes.TaskList := Some x\<rparr>))
         else Inr v
       else if fid = 30 then
         if wire_api.Type W fval = TBinary
         then Inr (v\<lparr>ContinueAsNewWorkflowExecutionDecisionAttributes.Input := Some (GetBinary W
             fval)\<rparr>)
         else Inr v
       else if fid = 40 then
         if wire_api.Type W fval = TI32
         then Inr
             (v\<lparr>ContinueAsNewWorkflowExecutionDecisionAttributes.ExecutionStartToCloseTimeoutSeconds
             := Some (GetI32 W fval)\<rparr>)
         else Inr v
       else if fid = 50 then
         if wire_api.Type W fval = TI32
         then Inr (v\<lparr>ContinueAsNewWorkflowExecutionDecisionAttributes.TaskStartToCloseTimeoutSeconds
             := Some (GetI32 W fval)\<rparr>)
         else Inr v
       else if fid = 60 then
         if wire_api.Type W fval = TI32
         then Inr (v\<lparr>ContinueAsNewWorkflowExecutionDecisionAttributes.BackoffStartIntervalInSeconds
             := Some (GetI32 W fval)\<rparr>)
         else Inr v
       else if fid = 70 then
         if wire_api.Type W fval = TStruct
         then and_then (RetryPolicy_Read W fval) (\<lambda>x. Inr
             (v\<lparr>ContinueAsNewWorkflowExecutionDecisionAttributes.RetryPolicy := Some x\<rparr>))
         else Inr v
       else if fid = 80 then
         if wire_api.Type W fval = TI32
         then and_then (ContinueAsNewInitiator_Read W fval) (\<lambda>x. Inr
             (v\<lparr>ContinueAsNewWorkflowExecutionDecisionAttributes.Initiator := Some x\<rparr>))
         else Inr v
       else if fid = 90 then
         if wire_api.Type W fval = TBinary
         then Inr (v\<lparr>ContinueAsNewWorkflowExecutionDecisionAttributes.FailureReason := Some
             (GetString W fval)\<rparr>)
         else Inr v
       else if fid = 100 then
         if wire_api.Type W fval = TBinary
         then Inr (v\<lparr>ContinueAsNewWorkflowExecutionDecisionAttributes.FailureDetails := Some
             (GetBinary W fval)\<rparr>)
         else Inr v
       else if fid = 110 then
         if wire_api.Type W fval = TBinary
         then Inr (v\<lparr>ContinueAsNewWorkflowExecutionDecisionAttributes.LastCompletionResult := Some
             (GetBinary W fval)\<rparr>)
         else Inr v
       else if fid = 120 then
         if wire_api.Type W fval = TBinary
         then Inr (v\<lparr>ContinueAsNewWorkflowExecutionDecisionAttributes.CronSchedule := Some
             (GetString W fval)\<rparr>)
         else Inr v
       else if fid = 130 then
         if wire_api.Type W fval = TStruct
         then and_then (Header_Read W fval) (\<lambda>x. Inr
             (v\<lparr>ContinueAsNewWorkflowExecutionDecisionAttributes.Header := Some x\<rparr>))
         else Inr v
       else if fid = 140 then
         if wire_api.Type W fval = TStruct
         then and_then (Memo_Read W fval) (\<lambda>x. Inr
             (v\<lparr>ContinueAsNewWorkflowExecutionDecisionAttributes.Memo := Some x\<rparr>))
         else Inr v
       else if fid = 150 then
         if wire_api.Type W fval = TStruct
         then and_then (SearchAttributes_Read W fval) (\<lambda>x. Inr
             (v\<lparr>ContinueAsNewWorkflowExecutionDecisionAttributes.SearchAttributes := Some x\<rparr>))
         else Inr v
       else Inr v) (GetStruct W w) v"

definition ContinueAsNewWorkflowExecutionDecisionAttributes_Read :: "'v wire_api \<Rightarrow> 'v \<Rightarrow> go_error +
    ContinueAsNewWorkflowExecutionDecisionAttributes" where
  "ContinueAsNewWorkflowExecutionDecisionAttributes_Read W w =
      ContinueAsNewWorkflowExecutionDecisionAttributes_FromWire W w
      ContinueAsNewWorkflowExecutionDecisionAttributes_zero"

definition ContinueAsNewWorkflowExecutionDecisionAttributes_complete ::
    "ContinueAsNewWorkflowExecutionDecisionAttributes \<Rightarrow> bool" where
  "ContinueAsNewWorkflowExecutionDecisionAttributes_complete v \<longleftrightarrow>
     if_set Header_complete (ContinueAsNewWorkflowExecutionDecisionAttributes.Header v) \<and>
     if_set Memo_complete (ContinueAsNewWorkflowExecutionDecisionAttributes.Memo v) \<and>
     if_set SearchAttributes_complete
         (ContinueAsNewWorkflowExecutionDecisionAttributes.SearchAttributes v)"

lemma ContinueAsNewWorkflowExecutionDecisionAttributes_merge:
  "(case x of None \<Rightarrow> Inr \<lparr>ContinueAsNewWorkflowExecutionDecisionAttributes.WorkflowType = a0,
      ContinueAsNewWorkflowExecutionDecisionAttributes.TaskList = a1,
      ContinueAsNewWorkflowExecutionDecisionAttributes.Input = a2,
      ContinueAsNewWorkflowExecutionDecisionAttributes.ExecutionStartToCloseTimeoutSeconds = a3,
      ContinueAsNewWorkflowExecutionDecisionAttributes.TaskStartToCloseTimeoutSeconds = a4,
      ContinueAsNewWorkflowExecutionDecisionAttributes.BackoffStartIntervalInSeconds = a5,
      ContinueAsNewWorkflowExecutionDecisionAttributes.RetryPolicy = a6,
      ContinueAsNewWorkflowExecutionDecisionAttributes.Initiator = a7,
      ContinueAsNewWorkflowExecutionDecisionAttributes.FailureReason = a8,
      ContinueAsNewWorkflowExecutionDecisionAttributes.FailureDetails = a9,
      ContinueAsNewWorkflowExecutionDecisionAttributes.LastCompletionResult = a10,
      ContinueAsNewWorkflowExecutionDecisionAttributes.CronSchedule = a11,
      ContinueAsNewWorkflowExecutionDecisionAttributes.Header = a12,
      ContinueAsNewWorkflowExecutionDecisionAttributes.Memo = a13,
      ContinueAsNewWorkflowExecutionDecisionAttributes.SearchAttributes = a14\<rparr> | Some y \<Rightarrow> Inr
      \<lparr>ContinueAsNewWorkflowExecutionDecisionAttributes.WorkflowType = b0 y,
      ContinueAsNewWorkflowExecutionDecisionAttributes.TaskList = b1 y,
      ContinueAsNewWorkflowExecutionDecisionAttributes.Input = b2 y,
      ContinueAsNewWorkflowExecutionDecisionAttributes.ExecutionStartToCloseTimeoutSeconds = b3 y,
      ContinueAsNewWorkflowExecutionDecisionAttributes.TaskStartToCloseTimeoutSeconds = b4 y,
      ContinueAsNewWorkflowExecutionDecisionAttributes.BackoffStartIntervalInSeconds = b5 y,
      ContinueAsNewWorkflowExecutionDecisionAttributes.RetryPolicy = b6 y,
      ContinueAsNewWorkflowExecutionDecisionAttributes.Initiator = b7 y,
      ContinueAsNewWorkflowExecutionDecisionAttributes.FailureReason = b8 y,
      ContinueAsNewWorkflowExecutionDecisionAttributes.FailureDetails = b9 y,
      ContinueAsNewWorkflowExecutionDecisionAttributes.LastCompletionResult = b10 y,
      ContinueAsNewWorkflowExecutionDecisionAttributes.CronSchedule = b11 y,
      ContinueAsNewWorkflowExecutionDecisionAttributes.Header = b12 y,
      ContinueAsNewWorkflowExecutionDecisionAttributes.Memo = b13 y,
      ContinueAsNewWorkflowExecutionDecisionAttributes.SearchAttributes = b14 y\<rparr>) =
   Inr \<lparr>ContinueAsNewWorkflowExecutionDecisionAttributes.WorkflowType = (case x of None \<Rightarrow> a0 | Some
       y \<Rightarrow> b0 y), ContinueAsNewWorkflowExecutionDecisionAttributes.TaskList = (case x of None \<Rightarrow> a1 |
       Some y \<Rightarrow> b1 y), ContinueAsNewWorkflowExecutionDecisionAttributes.Input = (case x of None \<Rightarrow> a2
       | Some y \<Rightarrow> b2 y),
       ContinueAsNewWorkflowExecutionDecisionAttributes.ExecutionStartToCloseTimeoutSeconds = (case
       x of None \<Rightarrow> a3 | Some y \<Rightarrow> b3 y),
       ContinueAsNewWorkflowExecutionDecisionAttributes.TaskStartToCloseTimeoutSeconds = (case x of
       None \<Rightarrow> a4 | Some y \<Rightarrow> b4 y),
       ContinueAsNewWorkflowExecutionDecisionAttributes.BackoffStartIntervalInSeconds = (case x of
       None \<Rightarrow> a5 | Some y \<Rightarrow> b5 y), ContinueAsNewWorkflowExecutionDecisionAttributes.RetryPolicy =
       (case x of None \<Rightarrow> a6 | Some y \<Rightarrow> b6 y),
       ContinueAsNewWorkflowExecutionDecisionAttributes.Initiator = (case x of None \<Rightarrow> a7 | Some y \<Rightarrow>
       b7 y), ContinueAsNewWorkflowExecutionDecisionAttributes.FailureReason = (case x of None \<Rightarrow> a8
       | Some y \<Rightarrow> b8 y), ContinueAsNewWorkflowExecutionDecisionAttributes.FailureDetails = (case x
       of None \<Rightarrow> a9 | Some y \<Rightarrow> b9 y),
       ContinueAsNewWorkflowExecutionDecisionAttributes.LastCompletionResult = (case x of None \<Rightarrow> a10
       | Some y \<Rightarrow> b10 y), ContinueAsNewWorkflowExecutionDecisionAttributes.CronSchedule = (case x of
       None \<Rightarrow> a11 | Some y \<Rightarrow> b11 y), ContinueAsNewWorkflowExecutionDecisionAttributes.Header = (case
       x of None \<Rightarrow> a12 | Some y \<Rightarrow> b12 y), ContinueAsNewWorkflowExecutionDecisionAttributes.Memo =
       (case x of None \<Rightarrow> a13 | Some y \<Rightarrow> b13 y),
       ContinueAsNewWorkflowExecutionDecisionAttributes.SearchAttributes = (case x of None \<Rightarrow> a14 |
       Some y \<Rightarrow> b14 y)\<rparr>"
  by (cases x) simp_all

interpretation ContinueAsNewWorkflowExecutionDecisionAttributes: thrift_message W
  "ContinueAsNewWorkflowExecutionDecisionAttributes_ToWire W"
      "ContinueAsNewWorkflowExecutionDecisionAttributes_FromWire W"
      ContinueAsNewWorkflowExecutionDecisionAttributes_zero
      "ContinueAsNewWorkflowExecutionDecisionAttributes_complete" for W
proof (rule thrift_messageI)
  fix x :: ContinueAsNewWorkflowExecutionDecisionAttributes
  assume laws: "wire_laws W"
  obtain enc0 where e0: "Header_ToWire W = (\<lambda>x. Inr (enc0 x))"
      "\<And>x. wire_api.Type W (enc0 x) = TStruct"
      "\<And>x. Writable W (enc0 x) \<longleftrightarrow> Header_complete x"
      "\<And>x. Header_complete x \<Longrightarrow> Header_FromWire W (enc0 x) Header_zero = Inr x"
    by (rule Header.encoder [OF laws]) (rule that)
  obtain enc1 where e1: "Memo_ToWire W = (\<lambda>x. Inr (enc1 x))"
      "\<And>x. wire_api.Type W (enc1 x) = TStruct"
      "\<And>x. Writable W (enc1 x) \<longleftrightarrow> Memo_complete x"
      "\<And>x. Memo_complete x \<Longrightarrow> Memo_FromWire W (enc1 x) Memo_zero = Inr x"
    by (rule Memo.encoder [OF laws]) (rule that)
  obtain enc2 where e2: "RetryPolicy_ToWire W = (\<lambda>x. Inr (enc2 x))"
      "\<And>x. wire_api.Type W (enc2 x) = TStruct"
      "\<And>x. Writable W (enc2 x) \<longleftrightarrow> (\<lambda>_. True) x"
      "\<And>x. (\<lambda>_. True) x \<Longrightarrow> RetryPolicy_FromWire W (enc2 x) RetryPolicy_zero = Inr x"
    by (rule RetryPolicy.encoder [OF laws]) (rule that)
  obtain enc3 where e3: "SearchAttributes_ToWire W = (\<lambda>x. Inr (enc3 x))"
      "\<And>x. wire_api.Type W (enc3 x) = TStruct"
      "\<And>x. Writable W (enc3 x) \<longleftrightarrow> SearchAttributes_complete x"
      "\<And>x. SearchAttributes_complete x \<Longrightarrow> SearchAttributes_FromWire W (enc3 x) SearchAttributes_zero
          = Inr x"
    by (rule SearchAttributes.encoder [OF laws]) (rule that)
  obtain enc4 where e4: "TaskList_ToWire W = (\<lambda>x. Inr (enc4 x))"
      "\<And>x. wire_api.Type W (enc4 x) = TStruct"
      "\<And>x. Writable W (enc4 x) \<longleftrightarrow> (\<lambda>_. True) x"
      "\<And>x. (\<lambda>_. True) x \<Longrightarrow> TaskList_FromWire W (enc4 x) TaskList_zero = Inr x"
    by (rule TaskList.encoder [OF laws]) (rule that)
  obtain enc5 where e5: "WorkflowType_ToWire W = (\<lambda>x. Inr (enc5 x))"
      "\<And>x. wire_api.Type W (enc5 x) = TStruct"
      "\<And>x. Writable W (enc5 x) \<longleftrightarrow> (\<lambda>_. True) x"
      "\<And>x. (\<lambda>_. True) x \<Longrightarrow> WorkflowType_FromWire W (enc5 x) WorkflowType_zero = Inr x"
    by (rule WorkflowType.encoder [OF laws]) (rule that)
  show "\<exists>w. ContinueAsNewWorkflowExecutionDecisionAttributes_ToWire W x = Inr w \<and> wire_api.Type W w
      = TStruct \<and>
      (Writable W w \<longleftrightarrow> ContinueAsNewWorkflowExecutionDecisionAttributes_complete x) \<and>
          (ContinueAsNewWorkflowExecutionDecisionAttributes_complete x \<longrightarrow>
          ContinueAsNewWorkflowExecutionDecisionAttributes_FromWire W w
          ContinueAsNewWorkflowExecutionDecisionAttributes_zero = Inr x)"
    by (cases x) (simp cong: option.case_cong add: codec_rules
        ContinueAsNewWorkflowExecutionDecisionAttributes_merge
        ContinueAsNewWorkflowExecutionDecisionAttributes_ToWire_def
        ContinueAsNewWorkflowExecutionDecisionAttributes_FromWire_def
        ContinueAsNewWorkflowExecutionDecisionAttributes_zero_def
        ContinueAsNewWorkflowExecutionDecisionAttributes_complete_def if_set_def
        ContinueAsNewInitiator_enc ContinueAsNewInitiator_Read_def
        ContinueAsNewInitiator_FromWire_def Header_Read_def Memo_Read_def RetryPolicy_Read_def
        SearchAttributes_Read_def TaskList_Read_def WorkflowType_Read_def laws e0 e1 e2 e3 e4 e5)
qed

definition ContinueAsNewWorkflowExecutionDecisionAttributes_Equals ::
  "ContinueAsNewWorkflowExecutionDecisionAttributes option \<Rightarrow>
      ContinueAsNewWorkflowExecutionDecisionAttributes option \<Rightarrow> bool" where
  "ContinueAsNewWorkflowExecutionDecisionAttributes_Equals v rhs =
     (case v of None \<Rightarrow> rhs = None
      | Some v \<Rightarrow> (case rhs of None \<Rightarrow> False
        | Some rhs \<Rightarrow>
          if \<not> both_set_and (\<lambda>x y. WorkflowType_Equals (Some x) (Some y))
              (ContinueAsNewWorkflowExecutionDecisionAttributes.WorkflowType v)
              (ContinueAsNewWorkflowExecutionDecisionAttributes.WorkflowType rhs) then False else
          if \<not> both_set_and (\<lambda>x y. TaskList_Equals (Some x) (Some y))
              (ContinueAsNewWorkflowExecutionDecisionAttributes.TaskList v)
              (ContinueAsNewWorkflowExecutionDecisionAttributes.TaskList rhs) then False else
          if \<not> both_set_and (=) (ContinueAsNewWorkflowExecutionDecisionAttributes.Input v)
              (ContinueAsNewWorkflowExecutionDecisionAttributes.Input rhs) then False else
          if \<not> I32_EqualsPtr
              (ContinueAsNewWorkflowExecutionDecisionAttributes.ExecutionStartToCloseTimeoutSeconds
              v)
              (ContinueAsNewWorkflowExecutionDecisionAttributes.ExecutionStartToCloseTimeoutSeconds
              rhs) then False else
          if \<not> I32_EqualsPtr
              (ContinueAsNewWorkflowExecutionDecisionAttributes.TaskStartToCloseTimeoutSeconds v)
              (ContinueAsNewWorkflowExecutionDecisionAttributes.TaskStartToCloseTimeoutSeconds rhs)
              then False else
          if \<not> I32_EqualsPtr
              (ContinueAsNewWorkflowExecutionDecisionAttributes.BackoffStartIntervalInSeconds v)
              (ContinueAsNewWorkflowExecutionDecisionAttributes.BackoffStartIntervalInSeconds rhs)
              then False else
          if \<not> both_set_and (\<lambda>x y. RetryPolicy_Equals (Some x) (Some y))
              (ContinueAsNewWorkflowExecutionDecisionAttributes.RetryPolicy v)
              (ContinueAsNewWorkflowExecutionDecisionAttributes.RetryPolicy rhs) then False else
          if \<not> ContinueAsNewInitiator_EqualsPtr
              (ContinueAsNewWorkflowExecutionDecisionAttributes.Initiator v)
              (ContinueAsNewWorkflowExecutionDecisionAttributes.Initiator rhs) then False else
          if \<not> String_EqualsPtr (ContinueAsNewWorkflowExecutionDecisionAttributes.FailureReason v)
              (ContinueAsNewWorkflowExecutionDecisionAttributes.FailureReason rhs) then False else
          if \<not> both_set_and (=) (ContinueAsNewWorkflowExecutionDecisionAttributes.FailureDetails v)
              (ContinueAsNewWorkflowExecutionDecisionAttributes.FailureDetails rhs) then False else
          if \<not> both_set_and (=)
              (ContinueAsNewWorkflowExecutionDecisionAttributes.LastCompletionResult v)
              (ContinueAsNewWorkflowExecutionDecisionAttributes.LastCompletionResult rhs) then False
              else
          if \<not> String_EqualsPtr (ContinueAsNewWorkflowExecutionDecisionAttributes.CronSchedule v)
              (ContinueAsNewWorkflowExecutionDecisionAttributes.CronSchedule rhs) then False else
          if \<not> both_set_and (\<lambda>x y. Header_Equals (Some x) (Some y))
              (ContinueAsNewWorkflowExecutionDecisionAttributes.Header v)
              (ContinueAsNewWorkflowExecutionDecisionAttributes.Header rhs) then False else
          if \<not> both_set_and (\<lambda>x y. Memo_Equals (Some x) (Some y))
              (ContinueAsNewWorkflowExecutionDecisionAttributes.Memo v)
              (ContinueAsNewWorkflowExecutionDecisionAttributes.Memo rhs) then False else
          if \<not> both_set_and (\<lambda>x y. SearchAttributes_Equals (Some x) (Some y))
              (ContinueAsNewWorkflowExecutionDecisionAttributes.SearchAttributes v)
              (ContinueAsNewWorkflowExecutionDecisionAttributes.SearchAttributes rhs) then False
              else
          True))"

definition ContinueAsNewWorkflowExecutionDecisionAttributes_comparable ::
    "ContinueAsNewWorkflowExecutionDecisionAttributes \<Rightarrow> bool" where
  "ContinueAsNewWorkflowExecutionDecisionAttributes_comparable v \<longleftrightarrow>
     if_set RetryPolicy_comparable (ContinueAsNewWorkflowExecutionDecisionAttributes.RetryPolicy v)
         \<and>
     if_set Header_comparable (ContinueAsNewWorkflowExecutionDecisionAttributes.Header v) \<and>
     if_set Memo_comparable (ContinueAsNewWorkflowExecutionDecisionAttributes.Memo v) \<and>
     if_set SearchAttributes_comparable
         (ContinueAsNewWorkflowExecutionDecisionAttributes.SearchAttributes v)"

lemma ContinueAsNewWorkflowExecutionDecisionAttributes_Equals_iff:
  "if_set ContinueAsNewWorkflowExecutionDecisionAttributes_comparable x \<Longrightarrow> if_set
      ContinueAsNewWorkflowExecutionDecisionAttributes_comparable y \<Longrightarrow>
      ContinueAsNewWorkflowExecutionDecisionAttributes_Equals x y \<longleftrightarrow> x = y"
  by (cases x; cases y) (simp_all add: ContinueAsNewWorkflowExecutionDecisionAttributes_Equals_def
      ContinueAsNewWorkflowExecutionDecisionAttributes_comparable_def if_not_False,
    fastforce intro: ContinueAsNewWorkflowExecutionDecisionAttributes.equality)

lemma ContinueAsNewWorkflowExecutionDecisionAttributes_fields_equal [simp]:
  "if_set ContinueAsNewWorkflowExecutionDecisionAttributes_comparable x \<Longrightarrow> if_set
      ContinueAsNewWorkflowExecutionDecisionAttributes_comparable y \<Longrightarrow>
    both_set_and (\<lambda>x y. ContinueAsNewWorkflowExecutionDecisionAttributes_Equals (Some x) (Some y)) x
        y \<longleftrightarrow> x = y"
  by (rule both_set_and_iff [where P = ContinueAsNewWorkflowExecutionDecisionAttributes_comparable])
      (simp_all add: ContinueAsNewWorkflowExecutionDecisionAttributes_Equals_iff)

record FailWorkflowExecutionDecisionAttributes =
  Reason :: "string option"
  Details :: "bytes option"

definition FailWorkflowExecutionDecisionAttributes_zero :: FailWorkflowExecutionDecisionAttributes
    where
  "FailWorkflowExecutionDecisionAttributes_zero = \<lparr>FailWorkflowExecutionDecisionAttributes.Reason =
      None, FailWorkflowExecutionDecisionAttributes.Details = None\<rparr>"

definition FailWorkflowExecutionDecisionAttributes_ToWire ::
  "'v wire_api \<Rightarrow> FailWorkflowExecutionDecisionAttributes \<Rightarrow> go_error + 'v" where
  "FailWorkflowExecutionDecisionAttributes_ToWire W v =
     and_then (put_opt 10 (\<lambda>x. Inr (NewValueString W x))
         (FailWorkflowExecutionDecisionAttributes.Reason v) [])
       (\<lambda>fields.
     and_then (put_opt 20 (\<lambda>x. Inr (NewValueBinary W x))
         (FailWorkflowExecutionDecisionAttributes.Details v) fields)
       (\<lambda>fields.
     Inr (NewValueStruct W fields)))"

definition FailWorkflowExecutionDecisionAttributes_FromWire ::
  "'v wire_api \<Rightarrow> 'v \<Rightarrow> FailWorkflowExecutionDecisionAttributes \<Rightarrow> go_error +
      FailWorkflowExecutionDecisionAttributes" where
  "FailWorkflowExecutionDecisionAttributes_FromWire W w v =
     foldM (\<lambda>v (fid, fval).
       if fid = 10 then
         if wire_api.Type W fval = TBinary
         then Inr (v\<lparr>FailWorkflowExecutionDecisionAttributes.Reason := Some (GetString W fval)\<rparr>)
         else Inr v
       else if fid = 20 then
         if wire_api.Type W fval = TBinary
         then Inr (v\<lparr>FailWorkflowExecutionDecisionAttributes.Details := Some (GetBinary W fval)\<rparr>)
         else Inr v
       else Inr v) (GetStruct W w) v"

definition FailWorkflowExecutionDecisionAttributes_Read :: "'v wire_api \<Rightarrow> 'v \<Rightarrow> go_error +
    FailWorkflowExecutionDecisionAttributes" where
  "FailWorkflowExecutionDecisionAttributes_Read W w =
      FailWorkflowExecutionDecisionAttributes_FromWire W w
      FailWorkflowExecutionDecisionAttributes_zero"

lemma FailWorkflowExecutionDecisionAttributes_merge:
  "(case x of None \<Rightarrow> Inr \<lparr>FailWorkflowExecutionDecisionAttributes.Reason = a0,
      FailWorkflowExecutionDecisionAttributes.Details = a1\<rparr> | Some y \<Rightarrow> Inr
      \<lparr>FailWorkflowExecutionDecisionAttributes.Reason = b0 y,
      FailWorkflowExecutionDecisionAttributes.Details = b1 y\<rparr>) =
   Inr \<lparr>FailWorkflowExecutionDecisionAttributes.Reason = (case x of None \<Rightarrow> a0 | Some y \<Rightarrow> b0 y),
       FailWorkflowExecutionDecisionAttributes.Details = (case x of None \<Rightarrow> a1 | Some y \<Rightarrow> b1 y)\<rparr>"
  by (cases x) simp_all

interpretation FailWorkflowExecutionDecisionAttributes: thrift_message W
  "FailWorkflowExecutionDecisionAttributes_ToWire W"
      "FailWorkflowExecutionDecisionAttributes_FromWire W"
      FailWorkflowExecutionDecisionAttributes_zero "\<lambda>_. True" for W
proof (rule thrift_messageI)
  fix x :: FailWorkflowExecutionDecisionAttributes
  assume laws: "wire_laws W"
  show "\<exists>w. FailWorkflowExecutionDecisionAttributes_ToWire W x = Inr w \<and> wire_api.Type W w = TStruct
      \<and>
      (Writable W w \<longleftrightarrow> (\<lambda>_. True) x) \<and> ((\<lambda>_. True) x \<longrightarrow>
          FailWorkflowExecutionDecisionAttributes_FromWire W w
          FailWorkflowExecutionDecisionAttributes_zero = Inr x)"
    by (cases x) (simp cong: option.case_cong add: codec_rules
        FailWorkflowExecutionDecisionAttributes_merge
        FailWorkflowExecutionDecisionAttributes_ToWire_def
        FailWorkflowExecutionDecisionAttributes_FromWire_def
        FailWorkflowExecutionDecisionAttributes_zero_def laws)
qed

definition FailWorkflowExecutionDecisionAttributes_Equals ::
  "FailWorkflowExecutionDecisionAttributes option \<Rightarrow> FailWorkflowExecutionDecisionAttributes option \<Rightarrow>
      bool" where
  "FailWorkflowExecutionDecisionAttributes_Equals v rhs =
     (case v of None \<Rightarrow> rhs = None
      | Some v \<Rightarrow> (case rhs of None \<Rightarrow> False
        | Some rhs \<Rightarrow>
          if \<not> String_EqualsPtr (FailWorkflowExecutionDecisionAttributes.Reason v)
              (FailWorkflowExecutionDecisionAttributes.Reason rhs) then False else
          if \<not> both_set_and (=) (FailWorkflowExecutionDecisionAttributes.Details v)
              (FailWorkflowExecutionDecisionAttributes.Details rhs) then False else
          True))"

lemma FailWorkflowExecutionDecisionAttributes_Equals_iff [simp]:
    "FailWorkflowExecutionDecisionAttributes_Equals x y \<longleftrightarrow> x = y"
  by (cases x; cases y) (auto simp: FailWorkflowExecutionDecisionAttributes_Equals_def)

record RecordMarkerDecisionAttributes =
  MarkerName :: "string option"
  Details :: "bytes option"
  Header :: "Header option"

definition RecordMarkerDecisionAttributes_zero :: RecordMarkerDecisionAttributes where
  "RecordMarkerDecisionAttributes_zero = \<lparr>RecordMarkerDecisionAttributes.MarkerName = None,
      RecordMarkerDecisionAttributes.Details = None, RecordMarkerDecisionAttributes.Header = None\<rparr>"

definition RecordMarkerDecisionAttributes_ToWire ::
  "'v wire_api \<Rightarrow> RecordMarkerDecisionAttributes \<Rightarrow> go_error + 'v" where
  "RecordMarkerDecisionAttributes_ToWire W v =
     and_then (put_opt 10 (\<lambda>x. Inr (NewValueString W x)) (RecordMarkerDecisionAttributes.MarkerName
         v) [])
       (\<lambda>fields.
     and_then (put_opt 20 (\<lambda>x. Inr (NewValueBinary W x)) (RecordMarkerDecisionAttributes.Details v)
         fields)
       (\<lambda>fields.
     and_then (put_opt 30 (Header_ToWire W) (RecordMarkerDecisionAttributes.Header v) fields)
       (\<lambda>fields.
     Inr (NewValueStruct W fields))))"

definition RecordMarkerDecisionAttributes_FromWire ::
  "'v wire_api \<Rightarrow> 'v \<Rightarrow> RecordMarkerDecisionAttributes \<Rightarrow> go_error + RecordMarkerDecisionAttributes"
      where
  "RecordMarkerDecisionAttributes_FromWire W w v =
     foldM (\<lambda>v (fid, fval).
       if fid = 10 then
         if wire_api.Type W fval = TBinary
         then Inr (v\<lparr>RecordMarkerDecisionAttributes.MarkerName := Some (GetString W fval)\<rparr>)
         else Inr v
       else if fid = 20 then
         if wire_api.Type W fval = TBinary
         then Inr (v\<lparr>RecordMarkerDecisionAttributes.Details := Some (GetBinary W fval)\<rparr>)
         else Inr v
       else if fid = 30 then
         if wire_api.Type W fval = TStruct
         then and_then (Header_Read W fval) (\<lambda>x. Inr (v\<lparr>RecordMarkerDecisionAttributes.Header :=
             Some x\<rparr>))
         else Inr v
       else Inr v) (GetStruct W w) v"

definition RecordMarkerDecisionAttributes_Read :: "'v wire_api \<Rightarrow> 'v \<Rightarrow> go_error +
    RecordMarkerDecisionAttributes" where
  "RecordMarkerDecisionAttributes_Read W w = RecordMarkerDecisionAttributes_FromWire W w
      RecordMarkerDecisionAttributes_zero"

definition RecordMarkerDecisionAttributes_complete :: "RecordMarkerDecisionAttributes \<Rightarrow> bool" where
  "RecordMarkerDecisionAttributes_complete v \<longleftrightarrow>
     if_set Header_complete (RecordMarkerDecisionAttributes.Header v)"

lemma RecordMarkerDecisionAttributes_merge:
  "(case x of None \<Rightarrow> Inr \<lparr>RecordMarkerDecisionAttributes.MarkerName = a0,
      RecordMarkerDecisionAttributes.Details = a1, RecordMarkerDecisionAttributes.Header = a2\<rparr> |
      Some y \<Rightarrow> Inr \<lparr>RecordMarkerDecisionAttributes.MarkerName = b0 y,
      RecordMarkerDecisionAttributes.Details = b1 y, RecordMarkerDecisionAttributes.Header = b2 y\<rparr>)
      =
   Inr \<lparr>RecordMarkerDecisionAttributes.MarkerName = (case x of None \<Rightarrow> a0 | Some y \<Rightarrow> b0 y),
       RecordMarkerDecisionAttributes.Details = (case x of None \<Rightarrow> a1 | Some y \<Rightarrow> b1 y),
       RecordMarkerDecisionAttributes.Header = (case x of None \<Rightarrow> a2 | Some y \<Rightarrow> b2 y)\<rparr>"
  by (cases x) simp_all

interpretation RecordMarkerDecisionAttributes: thrift_message W
  "RecordMarkerDecisionAttributes_ToWire W" "RecordMarkerDecisionAttributes_FromWire W"
      RecordMarkerDecisionAttributes_zero "RecordMarkerDecisionAttributes_complete" for W
proof (rule thrift_messageI)
  fix x :: RecordMarkerDecisionAttributes
  assume laws: "wire_laws W"
  obtain enc0 where e0: "Header_ToWire W = (\<lambda>x. Inr (enc0 x))"
      "\<And>x. wire_api.Type W (enc0 x) = TStruct"
      "\<And>x. Writable W (enc0 x) \<longleftrightarrow> Header_complete x"
      "\<And>x. Header_complete x \<Longrightarrow> Header_FromWire W (enc0 x) Header_zero = Inr x"
    by (rule Header.encoder [OF laws]) (rule that)
  show "\<exists>w. RecordMarkerDecisionAttributes_ToWire W x = Inr w \<and> wire_api.Type W w = TStruct \<and>
      (Writable W w \<longleftrightarrow> RecordMarkerDecisionAttributes_complete x) \<and>
          (RecordMarkerDecisionAttributes_complete x \<longrightarrow> RecordMarkerDecisionAttributes_FromWire W w
          RecordMarkerDecisionAttributes_zero = Inr x)"
    by (cases x) (simp cong: option.case_cong add: codec_rules RecordMarkerDecisionAttributes_merge
        RecordMarkerDecisionAttributes_ToWire_def RecordMarkerDecisionAttributes_FromWire_def
        RecordMarkerDecisionAttributes_zero_def RecordMarkerDecisionAttributes_complete_def
        if_set_def Header_Read_def laws e0)
qed

definition RecordMarkerDecisionAttributes_Equals ::
  "RecordMarkerDecisionAttributes option \<Rightarrow> RecordMarkerDecisionAttributes option \<Rightarrow> bool" where
  "RecordMarkerDecisionAttributes_Equals v rhs =
     (case v of None \<Rightarrow> rhs = None
      | Some v \<Rightarrow> (case rhs of None \<Rightarrow> False
        | Some rhs \<Rightarrow>
          if \<not> String_EqualsPtr (RecordMarkerDecisionAttributes.MarkerName v)
              (RecordMarkerDecisionAttributes.MarkerName rhs) then False else
          if \<not> both_set_and (=) (RecordMarkerDecisionAttributes.Details v)
              (RecordMarkerDecisionAttributes.Details rhs) then False else
          if \<not> both_set_and (\<lambda>x y. Header_Equals (Some x) (Some y))
              (RecordMarkerDecisionAttributes.Header v) (RecordMarkerDecisionAttributes.Header rhs)
              then False else
          True))"

definition RecordMarkerDecisionAttributes_comparable :: "RecordMarkerDecisionAttributes \<Rightarrow> bool"
    where
  "RecordMarkerDecisionAttributes_comparable v \<longleftrightarrow>
     if_set Header_comparable (RecordMarkerDecisionAttributes.Header v)"

lemma RecordMarkerDecisionAttributes_Equals_iff:
  "if_set RecordMarkerDecisionAttributes_comparable x \<Longrightarrow> if_set
      RecordMarkerDecisionAttributes_comparable y \<Longrightarrow> RecordMarkerDecisionAttributes_Equals x y \<longleftrightarrow> x =
      y"
  by (cases x; cases y) (simp_all add: RecordMarkerDecisionAttributes_Equals_def
      RecordMarkerDecisionAttributes_comparable_def if_not_False,
    fastforce intro: RecordMarkerDecisionAttributes.equality)

lemma RecordMarkerDecisionAttributes_fields_equal [simp]:
  "if_set RecordMarkerDecisionAttributes_comparable x \<Longrightarrow> if_set
      RecordMarkerDecisionAttributes_comparable y \<Longrightarrow>
    both_set_and (\<lambda>x y. RecordMarkerDecisionAttributes_Equals (Some x) (Some y)) x y \<longleftrightarrow> x = y"
  by (rule both_set_and_iff [where P = RecordMarkerDecisionAttributes_comparable]) (simp_all add:
      RecordMarkerDecisionAttributes_Equals_iff)

record RequestCancelActivityTaskDecisionAttributes =
  ActivityId :: "string option"

definition RequestCancelActivityTaskDecisionAttributes_zero ::
    RequestCancelActivityTaskDecisionAttributes where
  "RequestCancelActivityTaskDecisionAttributes_zero =
      \<lparr>RequestCancelActivityTaskDecisionAttributes.ActivityId = None\<rparr>"

definition RequestCancelActivityTaskDecisionAttributes_ToWire ::
  "'v wire_api \<Rightarrow> RequestCancelActivityTaskDecisionAttributes \<Rightarrow> go_error + 'v" where
  "RequestCancelActivityTaskDecisionAttributes_ToWire W v =
     and_then (put_opt 10 (\<lambda>x. Inr (NewValueString W x))
         (RequestCancelActivityTaskDecisionAttributes.ActivityId v) [])
       (\<lambda>fields.
     Inr (NewValueStruct W fields))"

definition RequestCancelActivityTaskDecisionAttributes_FromWire ::
  "'v wire_api \<Rightarrow> 'v \<Rightarrow> RequestCancelActivityTaskDecisionAttributes \<Rightarrow> go_error +
      RequestCancelActivityTaskDecisionAttributes" where
  "RequestCancelActivityTaskDecisionAttributes_FromWire W w v =
     foldM (\<lambda>v (fid, fval).
       if fid = 10 then
         if wire_api.Type W fval = TBinary
         then Inr (v\<lparr>RequestCancelActivityTaskDecisionAttributes.ActivityId := Some (GetString W
             fval)\<rparr>)
         else Inr v
       else Inr v) (GetStruct W w) v"

definition RequestCancelActivityTaskDecisionAttributes_Read :: "'v wire_api \<Rightarrow> 'v \<Rightarrow> go_error +
    RequestCancelActivityTaskDecisionAttributes" where
  "RequestCancelActivityTaskDecisionAttributes_Read W w =
      RequestCancelActivityTaskDecisionAttributes_FromWire W w
      RequestCancelActivityTaskDecisionAttributes_zero"

lemma RequestCancelActivityTaskDecisionAttributes_merge:
  "(case x of None \<Rightarrow> Inr \<lparr>RequestCancelActivityTaskDecisionAttributes.ActivityId = a0\<rparr> | Some y \<Rightarrow>
      Inr \<lparr>RequestCancelActivityTaskDecisionAttributes.ActivityId = b0 y\<rparr>) =
   Inr \<lparr>RequestCancelActivityTaskDecisionAttributes.ActivityId = (case x of None \<Rightarrow> a0 | Some y \<Rightarrow> b0
       y)\<rparr>"
  by (cases x) simp_all

interpretation RequestCancelActivityTaskDecisionAttributes: thrift_message W
  "RequestCancelActivityTaskDecisionAttributes_ToWire W"
      "RequestCancelActivityTaskDecisionAttributes_FromWire W"
      RequestCancelActivityTaskDecisionAttributes_zero "\<lambda>_. True" for W
proof (rule thrift_messageI)
  fix x :: RequestCancelActivityTaskDecisionAttributes
  assume laws: "wire_laws W"
  show "\<exists>w. RequestCancelActivityTaskDecisionAttributes_ToWire W x = Inr w \<and> wire_api.Type W w =
      TStruct \<and>
      (Writable W w \<longleftrightarrow> (\<lambda>_. True) x) \<and> ((\<lambda>_. True) x \<longrightarrow>
          RequestCancelActivityTaskDecisionAttributes_FromWire W w
          RequestCancelActivityTaskDecisionAttributes_zero = Inr x)"
    by (cases x) (simp cong: option.case_cong add: codec_rules
        RequestCancelActivityTaskDecisionAttributes_merge
        RequestCancelActivityTaskDecisionAttributes_ToWire_def
        RequestCancelActivityTaskDecisionAttributes_FromWire_def
        RequestCancelActivityTaskDecisionAttributes_zero_def laws)
qed

definition RequestCancelActivityTaskDecisionAttributes_Equals ::
  "RequestCancelActivityTaskDecisionAttributes option \<Rightarrow> RequestCancelActivityTaskDecisionAttributes
      option \<Rightarrow> bool" where
  "RequestCancelActivityTaskDecisionAttributes_Equals v rhs =
     (case v of None \<Rightarrow> rhs = None
      | Some v \<Rightarrow> (case rhs of None \<Rightarrow> False
        | Some rhs \<Rightarrow>
          if \<not> String_EqualsPtr (RequestCancelActivityTaskDecisionAttributes.ActivityId v)
              (RequestCancelActivityTaskDecisionAttributes.ActivityId rhs) then False else
          True))"

lemma RequestCancelActivityTaskDecisionAttributes_Equals_iff [simp]:
    "RequestCancelActivityTaskDecisionAttributes_Equals x y \<longleftrightarrow> x = y"
  by (cases x; cases y) (auto simp: RequestCancelActivityTaskDecisionAttributes_Equals_def)

record RequestCancelExternalWorkflowExecutionDecisionAttributes =
  Domain :: "string option"
  WorkflowId :: "string option"
  RunId :: "string option"
  Control :: "bytes option"
  ChildWorkflowOnly :: "bool option"

definition RequestCancelExternalWorkflowExecutionDecisionAttributes_zero ::
    RequestCancelExternalWorkflowExecutionDecisionAttributes where
  "RequestCancelExternalWorkflowExecutionDecisionAttributes_zero =
      \<lparr>RequestCancelExternalWorkflowExecutionDecisionAttributes.Domain = None,
      RequestCancelExternalWorkflowExecutionDecisionAttributes.WorkflowId = None,
      RequestCancelExternalWorkflowExecutionDecisionAttributes.RunId = None,
      RequestCancelExternalWorkflowExecutionDecisionAttributes.Control = None,
      RequestCancelExternalWorkflowExecutionDecisionAttributes.ChildWorkflowOnly = None\<rparr>"

definition RequestCancelExternalWorkflowExecutionDecisionAttributes_ToWire ::
  "'v wire_api \<Rightarrow> RequestCancelExternalWorkflowExecutionDecisionAttributes \<Rightarrow> go_error + 'v" where
  "RequestCancelExternalWorkflowExecutionDecisionAttributes_ToWire W v =
     and_then (put_opt 10 (\<lambda>x. Inr (NewValueString W x))
         (RequestCancelExternalWorkflowExecutionDecisionAttributes.Domain v) [])
       (\<lambda>fields.
     and_then (put_opt 20 (\<lambda>x. Inr (NewValueString W x))
         (RequestCancelExternalWorkflowExecutionDecisionAttributes.WorkflowId v) fields)
       (\<lambda>fields.
     and_then (put_opt 30 (\<lambda>x. Inr (NewValueString W x))
         (RequestCancelExternalWorkflowExecutionDecisionAttributes.RunId v) fields)
       (\<lambda>fields.
     and_then (put_opt 40 (\<lambda>x. Inr (NewValueBinary W x))
         (RequestCancelExternalWorkflowExecutionDecisionAttributes.Control v) fields)
       (\<lambda>fields.
     and_then (put_opt 50 (\<lambda>x. Inr (NewValueBool W x))
         (RequestCancelExternalWorkflowExecutionDecisionAttributes.ChildWorkflowOnly v) fields)
       (\<lambda>fields.
     Inr (NewValueStruct W fields))))))"

definition RequestCancelExternalWorkflowExecutionDecisionAttributes_FromWire ::
  "'v wire_api \<Rightarrow> 'v \<Rightarrow> RequestCancelExternalWorkflowExecutionDecisionAttributes \<Rightarrow> go_error +
      RequestCancelExternalWorkflowExecutionDecisionAttributes" where
  "RequestCancelExternalWorkflowExecutionDecisionAttributes_FromWire W w v =
     foldM (\<lambda>v (fid, fval).
       if fid = 10 then
         if wire_api.Type W fval = TBinary
         then Inr (v\<lparr>RequestCancelExternalWorkflowExecutionDecisionAttributes.Domain := Some
             (GetString W fval)\<rparr>)
         else Inr v
       else if fid = 20 then
         if wire_api.Type W fval = TBinary
         then Inr (v\<lparr>RequestCancelExternalWorkflowExecutionDecisionAttributes.WorkflowId := Some
             (GetString W fval)\<rparr>)
         else Inr v
       else if fid = 30 then
         if wire_api.Type W fval = TBinary
         then Inr (v\<lparr>RequestCancelExternalWorkflowExecutionDecisionAttributes.RunId := Some
             (GetString W fval)\<rparr>)
         else Inr v
       else if fid = 40 then
         if wire_api.Type W fval = TBinary
         then Inr (v\<lparr>RequestCancelExternalWorkflowExecutionDecisionAttributes.Control := Some
             (GetBinary W fval)\<rparr>)
         else Inr v
       else if fid = 50 then
         if wire_api.Type W fval = TBool
         then Inr (v\<lparr>RequestCancelExternalWorkflowExecutionDecisionAttributes.ChildWorkflowOnly :=
             Some (GetBool W fval)\<rparr>)
         else Inr v
       else Inr v) (GetStruct W w) v"

definition RequestCancelExternalWorkflowExecutionDecisionAttributes_Read :: "'v wire_api \<Rightarrow> 'v \<Rightarrow>
    go_error + RequestCancelExternalWorkflowExecutionDecisionAttributes" where
  "RequestCancelExternalWorkflowExecutionDecisionAttributes_Read W w =
      RequestCancelExternalWorkflowExecutionDecisionAttributes_FromWire W w
      RequestCancelExternalWorkflowExecutionDecisionAttributes_zero"

lemma RequestCancelExternalWorkflowExecutionDecisionAttributes_merge:
  "(case x of None \<Rightarrow> Inr \<lparr>RequestCancelExternalWorkflowExecutionDecisionAttributes.Domain = a0,
      RequestCancelExternalWorkflowExecutionDecisionAttributes.WorkflowId = a1,
      RequestCancelExternalWorkflowExecutionDecisionAttributes.RunId = a2,
      RequestCancelExternalWorkflowExecutionDecisionAttributes.Control = a3,
      RequestCancelExternalWorkflowExecutionDecisionAttributes.ChildWorkflowOnly = a4\<rparr> | Some y \<Rightarrow>
      Inr \<lparr>RequestCancelExternalWorkflowExecutionDecisionAttributes.Domain = b0 y,
      RequestCancelExternalWorkflowExecutionDecisionAttributes.WorkflowId = b1 y,
      RequestCancelExternalWorkflowExecutionDecisionAttributes.RunId = b2 y,
      RequestCancelExternalWorkflowExecutionDecisionAttributes.Control = b3 y,
      RequestCancelExternalWorkflowExecutionDecisionAttributes.ChildWorkflowOnly = b4 y\<rparr>) =
   Inr \<lparr>RequestCancelExternalWorkflowExecutionDecisionAttributes.Domain = (case x of None \<Rightarrow> a0 |
       Some y \<Rightarrow> b0 y), RequestCancelExternalWorkflowExecutionDecisionAttributes.WorkflowId = (case x
       of None \<Rightarrow> a1 | Some y \<Rightarrow> b1 y), RequestCancelExternalWorkflowExecutionDecisionAttributes.RunId
       = (case x of None \<Rightarrow> a2 | Some y \<Rightarrow> b2 y),
       RequestCancelExternalWorkflowExecutionDecisionAttributes.Control = (case x of None \<Rightarrow> a3 |
       Some y \<Rightarrow> b3 y), RequestCancelExternalWorkflowExecutionDecisionAttributes.ChildWorkflowOnly =
       (case x of None \<Rightarrow> a4 | Some y \<Rightarrow> b4 y)\<rparr>"
  by (cases x) simp_all

interpretation RequestCancelExternalWorkflowExecutionDecisionAttributes: thrift_message W
  "RequestCancelExternalWorkflowExecutionDecisionAttributes_ToWire W"
      "RequestCancelExternalWorkflowExecutionDecisionAttributes_FromWire W"
      RequestCancelExternalWorkflowExecutionDecisionAttributes_zero "\<lambda>_. True" for W
proof (rule thrift_messageI)
  fix x :: RequestCancelExternalWorkflowExecutionDecisionAttributes
  assume laws: "wire_laws W"
  show "\<exists>w. RequestCancelExternalWorkflowExecutionDecisionAttributes_ToWire W x = Inr w \<and>
      wire_api.Type W w = TStruct \<and>
      (Writable W w \<longleftrightarrow> (\<lambda>_. True) x) \<and> ((\<lambda>_. True) x \<longrightarrow>
          RequestCancelExternalWorkflowExecutionDecisionAttributes_FromWire W w
          RequestCancelExternalWorkflowExecutionDecisionAttributes_zero = Inr x)"
    by (cases x) (simp cong: option.case_cong add: codec_rules
        RequestCancelExternalWorkflowExecutionDecisionAttributes_merge
        RequestCancelExternalWorkflowExecutionDecisionAttributes_ToWire_def
        RequestCancelExternalWorkflowExecutionDecisionAttributes_FromWire_def
        RequestCancelExternalWorkflowExecutionDecisionAttributes_zero_def laws)
qed

definition RequestCancelExternalWorkflowExecutionDecisionAttributes_Equals ::
  "RequestCancelExternalWorkflowExecutionDecisionAttributes option \<Rightarrow>
      RequestCancelExternalWorkflowExecutionDecisionAttributes option \<Rightarrow> bool" where
  "RequestCancelExternalWorkflowExecutionDecisionAttributes_Equals v rhs =
     (case v of None \<Rightarrow> rhs = None
      | Some v \<Rightarrow> (case rhs of None \<Rightarrow> False
        | Some rhs \<Rightarrow>
          if \<not> String_EqualsPtr (RequestCancelExternalWorkflowExecutionDecisionAttributes.Domain v)
              (RequestCancelExternalWorkflowExecutionDecisionAttributes.Domain rhs) then False else
          if \<not> String_EqualsPtr (RequestCancelExternalWorkflowExecutionDecisionAttributes.WorkflowId
              v) (RequestCancelExternalWorkflowExecutionDecisionAttributes.WorkflowId rhs) then
              False else
          if \<not> String_EqualsPtr (RequestCancelExternalWorkflowExecutionDecisionAttributes.RunId v)
              (RequestCancelExternalWorkflowExecutionDecisionAttributes.RunId rhs) then False else
          if \<not> both_set_and (=) (RequestCancelExternalWorkflowExecutionDecisionAttributes.Control v)
              (RequestCancelExternalWorkflowExecutionDecisionAttributes.Control rhs) then False else
          if \<not> Bool_EqualsPtr
              (RequestCancelExternalWorkflowExecutionDecisionAttributes.ChildWorkflowOnly v)
              (RequestCancelExternalWorkflowExecutionDecisionAttributes.ChildWorkflowOnly rhs) then
              False else
          True))"

lemma RequestCancelExternalWorkflowExecutionDecisionAttributes_Equals_iff [simp]:
    "RequestCancelExternalWorkflowExecutionDecisionAttributes_Equals x y \<longleftrightarrow> x = y"
  by (cases x; cases y) (simp_all add:
      RequestCancelExternalWorkflowExecutionDecisionAttributes_Equals_def if_not_False, fastforce
      intro: RequestCancelExternalWorkflowExecutionDecisionAttributes.equality)

record ScheduleActivityTaskDecisionAttributes =
  ActivityId :: "string option"
  ActivityType :: "ActivityType option"
  Domain :: "string option"
  TaskList :: "TaskList option"
  Input :: "bytes option"
  ScheduleToCloseTimeoutSeconds :: "32 word option"
  ScheduleToStartTimeoutSeconds :: "32 word option"
  StartToCloseTimeoutSeconds :: "32 word option"
  HeartbeatTimeoutSeconds :: "32 word option"
  RetryPolicy :: "RetryPolicy option"
  Header :: "Header option"

definition ScheduleActivityTaskDecisionAttributes_zero :: ScheduleActivityTaskDecisionAttributes
    where
  "ScheduleActivityTaskDecisionAttributes_zero = \<lparr>ScheduleActivityTaskDecisionAttributes.ActivityId
      = None, ScheduleActivityTaskDecisionAttributes.ActivityType = None,
      ScheduleActivityTaskDecisionAttributes.Domain = None,
      ScheduleActivityTaskDecisionAttributes.TaskList = None,
      ScheduleActivityTaskDecisionAttributes.Input = None,
      ScheduleActivityTaskDecisionAttributes.ScheduleToCloseTimeoutSeconds = None,
      ScheduleActivityTaskDecisionAttributes.ScheduleToStartTimeoutSeconds = None,
      ScheduleActivityTaskDecisionAttributes.StartToCloseTimeoutSeconds = None,
      ScheduleActivityTaskDecisionAttributes.HeartbeatTimeoutSeconds = None,
      ScheduleActivityTaskDecisionAttributes.RetryPolicy = None,
      ScheduleActivityTaskDecisionAttributes.Header = None\<rparr>"

definition ScheduleActivityTaskDecisionAttributes_ToWire ::
  "'v wire_api \<Rightarrow> ScheduleActivityTaskDecisionAttributes \<Rightarrow> go_error + 'v" where
  "ScheduleActivityTaskDecisionAttributes_ToWire W v =
     and_then (put_opt 10 (\<lambda>x. Inr (NewValueString W x))
         (ScheduleActivityTaskDecisionAttributes.ActivityId v) [])
       (\<lambda>fields.
     and_then (put_opt 20 (ActivityType_ToWire W)
         (ScheduleActivityTaskDecisionAttributes.ActivityType v) fields)
       (\<lambda>fields.
     and_then (put_opt 25 (\<lambda>x. Inr (NewValueString W x))
         (ScheduleActivityTaskDecisionAttributes.Domain v) fields)
       (\<lambda>fields.
     and_then (put_opt 30 (TaskList_ToWire W) (ScheduleActivityTaskDecisionAttributes.TaskList v)
         fields)
       (\<lambda>fields.
     and_then (put_opt 40 (\<lambda>x. Inr (NewValueBinary W x))
         (ScheduleActivityTaskDecisionAttributes.Input v) fields)
       (\<lambda>fields.
     and_then (put_opt 45 (\<lambda>x. Inr (NewValueI32 W x))
         (ScheduleActivityTaskDecisionAttributes.ScheduleToCloseTimeoutSeconds v) fields)
       (\<lambda>fields.
     and_then (put_opt 50 (\<lambda>x. Inr (NewValueI32 W x))
         (ScheduleActivityTaskDecisionAttributes.ScheduleToStartTimeoutSeconds v) fields)
       (\<lambda>fields.
     and_then (put_opt 55 (\<lambda>x. Inr (NewValueI32 W x))
         (ScheduleActivityTaskDecisionAttributes.StartToCloseTimeoutSeconds v) fields)
       (\<lambda>fields.
     and_then (put_opt 60 (\<lambda>x. Inr (NewValueI32 W x))
         (ScheduleActivityTaskDecisionAttributes.HeartbeatTimeoutSeconds v) fields)
       (\<lambda>fields.
     and_then (put_opt 70 (RetryPolicy_ToWire W) (ScheduleActivityTaskDecisionAttributes.RetryPolicy
         v) fields)
       (\<lambda>fields.
     and_then (put_opt 80 (Header_ToWire W) (ScheduleActivityTaskDecisionAttributes.Header v)
         fields)
       (\<lambda>fields.
     Inr (NewValueStruct W fields))))))))))))"

definition ScheduleActivityTaskDecisionAttributes_FromWire ::
  "'v wire_api \<Rightarrow> 'v \<Rightarrow> ScheduleActivityTaskDecisionAttributes \<Rightarrow> go_error +
      ScheduleActivityTaskDecisionAttributes" where
  "ScheduleActivityTaskDecisionAttributes_FromWire W w v =
     foldM (\<lambda>v (fid, fval).
       if fid = 10 then
         if wire_api.Type W fval = TBinary
         then Inr (v\<lparr>ScheduleActivityTaskDecisionAttributes.ActivityId := Some (GetString W fval)\<rparr>)
         else Inr v
       else if fid = 20 then
         if wire_api.Type W fval = TStruct
         then and_then (ActivityType_Read W fval) (\<lambda>x. Inr
             (v\<lparr>ScheduleActivityTaskDecisionAttributes.ActivityType := Some x\<rparr>))
         else Inr v
       else if fid = 25 then
         if wire_api.Type W fval = TBinary
         then Inr (v\<lparr>ScheduleActivityTaskDecisionAttributes.Domain := Some (GetString W fval)\<rparr>)
         else Inr v
       else if fid = 30 then
         if wire_api.Type W fval = TStruct
         then and_then (TaskList_Read W fval) (\<lambda>x. Inr
             (v\<lparr>ScheduleActivityTaskDecisionAttributes.TaskList := Some x\<rparr>))
         else Inr v
       else if fid = 40 then
         if wire_api.Type W fval = TBinary
         then Inr (v\<lparr>ScheduleActivityTaskDecisionAttributes.Input := Some (GetBinary W fval)\<rparr>)
         else Inr v
       else if fid = 45 then
         if wire_api.Type W fval = TI32
         then Inr (v\<lparr>ScheduleActivityTaskDecisionAttributes.ScheduleToCloseTimeoutSeconds := Some
             (GetI32 W fval)\<rparr>)
         else Inr v
       else if fid = 50 then
         if wire_api.Type W fval = TI32
         then Inr (v\<lparr>ScheduleActivityTaskDecisionAttributes.ScheduleToStartTimeoutSeconds := Some
             (GetI32 W fval)\<rparr>)
         else Inr v
       else if fid = 55 then
         if wire_api.Type W fval = TI32
         then Inr (v\<lparr>ScheduleActivityTaskDecisionAttributes.StartToCloseTimeoutSeconds := Some
             (GetI32 W fval)\<rparr>)
         else Inr v
       else if fid = 60 then
         if wire_api.Type W fval = TI32
         then Inr (v\<lparr>ScheduleActivityTaskDecisionAttributes.HeartbeatTimeoutSeconds := Some (GetI32
             W fval)\<rparr>)
         else Inr v
       else if fid = 70 then
         if wire_api.Type W fval = TStruct
         then and_then (RetryPolicy_Read W fval) (\<lambda>x. Inr
             (v\<lparr>ScheduleActivityTaskDecisionAttributes.RetryPolicy := Some x\<rparr>))
         else Inr v
       else if fid = 80 then
         if wire_api.Type W fval = TStruct
         then and_then (Header_Read W fval) (\<lambda>x. Inr
             (v\<lparr>ScheduleActivityTaskDecisionAttributes.Header := Some x\<rparr>))
         else Inr v
       else Inr v) (GetStruct W w) v"

definition ScheduleActivityTaskDecisionAttributes_Read :: "'v wire_api \<Rightarrow> 'v \<Rightarrow> go_error +
    ScheduleActivityTaskDecisionAttributes" where
  "ScheduleActivityTaskDecisionAttributes_Read W w = ScheduleActivityTaskDecisionAttributes_FromWire
      W w ScheduleActivityTaskDecisionAttributes_zero"

definition ScheduleActivityTaskDecisionAttributes_complete ::
    "ScheduleActivityTaskDecisionAttributes \<Rightarrow> bool" where
  "ScheduleActivityTaskDecisionAttributes_complete v \<longleftrightarrow>
     if_set Header_complete (ScheduleActivityTaskDecisionAttributes.Header v)"

lemma ScheduleActivityTaskDecisionAttributes_merge:
  "(case x of None \<Rightarrow> Inr \<lparr>ScheduleActivityTaskDecisionAttributes.ActivityId = a0,
      ScheduleActivityTaskDecisionAttributes.ActivityType = a1,
      ScheduleActivityTaskDecisionAttributes.Domain = a2,
      ScheduleActivityTaskDecisionAttributes.TaskList = a3,
      ScheduleActivityTaskDecisionAttributes.Input = a4,
      ScheduleActivityTaskDecisionAttributes.ScheduleToCloseTimeoutSeconds = a5,
      ScheduleActivityTaskDecisionAttributes.ScheduleToStartTimeoutSeconds = a6,
      ScheduleActivityTaskDecisionAttributes.StartToCloseTimeoutSeconds = a7,
      ScheduleActivityTaskDecisionAttributes.HeartbeatTimeoutSeconds = a8,
      ScheduleActivityTaskDecisionAttributes.RetryPolicy = a9,
      ScheduleActivityTaskDecisionAttributes.Header = a10\<rparr> | Some y \<Rightarrow> Inr
      \<lparr>ScheduleActivityTaskDecisionAttributes.ActivityId = b0 y,
      ScheduleActivityTaskDecisionAttributes.ActivityType = b1 y,
      ScheduleActivityTaskDecisionAttributes.Domain = b2 y,
      ScheduleActivityTaskDecisionAttributes.TaskList = b3 y,
      ScheduleActivityTaskDecisionAttributes.Input = b4 y,
      ScheduleActivityTaskDecisionAttributes.ScheduleToCloseTimeoutSeconds = b5 y,
      ScheduleActivityTaskDecisionAttributes.ScheduleToStartTimeoutSeconds = b6 y,
      ScheduleActivityTaskDecisionAttributes.StartToCloseTimeoutSeconds = b7 y,
      ScheduleActivityTaskDecisionAttributes.HeartbeatTimeoutSeconds = b8 y,
      ScheduleActivityTaskDecisionAttributes.RetryPolicy = b9 y,
      ScheduleActivityTaskDecisionAttributes.Header = b10 y\<rparr>) =
   Inr \<lparr>ScheduleActivityTaskDecisionAttributes.ActivityId = (case x of None \<Rightarrow> a0 | Some y \<Rightarrow> b0 y),
       ScheduleActivityTaskDecisionAttributes.ActivityType = (case x of None \<Rightarrow> a1 | Some y \<Rightarrow> b1 y),
       ScheduleActivityTaskDecisionAttributes.Domain = (case x of None \<Rightarrow> a2 | Some y \<Rightarrow> b2 y),
       ScheduleActivityTaskDecisionAttributes.TaskList = (case x of None \<Rightarrow> a3 | Some y \<Rightarrow> b3 y),
       ScheduleActivityTaskDecisionAttributes.Input = (case x of None \<Rightarrow> a4 | Some y \<Rightarrow> b4 y),
       ScheduleActivityTaskDecisionAttributes.ScheduleToCloseTimeoutSeconds = (case x of None \<Rightarrow> a5 |
       Some y \<Rightarrow> b5 y), ScheduleActivityTaskDecisionAttributes.ScheduleToStartTimeoutSeconds = (case
       x of None \<Rightarrow> a6 | Some y \<Rightarrow> b6 y),
       ScheduleActivityTaskDecisionAttributes.StartToCloseTimeoutSeconds = (case x of None \<Rightarrow> a7 |
       Some y \<Rightarrow> b7 y), ScheduleActivityTaskDecisionAttributes.HeartbeatTimeoutSeconds = (case x of
       None \<Rightarrow> a8 | Some y \<Rightarrow> b8 y), ScheduleActivityTaskDecisionAttributes.RetryPolicy = (case x of
       None \<Rightarrow> a9 | Some y \<Rightarrow> b9 y), ScheduleActivityTaskDecisionAttributes.Header = (case x of None \<Rightarrow>
       a10 | Some y \<Rightarrow> b10 y)\<rparr>"
  by (cases x) simp_all

interpretation ScheduleActivityTaskDecisionAttributes: thrift_message W
  "ScheduleActivityTaskDecisionAttributes_ToWire W" "ScheduleActivityTaskDecisionAttributes_FromWire
      W" ScheduleActivityTaskDecisionAttributes_zero
      "ScheduleActivityTaskDecisionAttributes_complete" for W
proof (rule thrift_messageI)
  fix x :: ScheduleActivityTaskDecisionAttributes
  assume laws: "wire_laws W"
  obtain enc0 where e0: "ActivityType_ToWire W = (\<lambda>x. Inr (enc0 x))"
      "\<And>x. wire_api.Type W (enc0 x) = TStruct"
      "\<And>x. Writable W (enc0 x) \<longleftrightarrow> (\<lambda>_. True) x"
      "\<And>x. (\<lambda>_. True) x \<Longrightarrow> ActivityType_FromWire W (enc0 x) ActivityType_zero = Inr x"
    by (rule ActivityType.encoder [OF laws]) (rule that)
  obtain enc1 where e1: "Header_ToWire W = (\<lambda>x. Inr (enc1 x))"
      "\<And>x. wire_api.Type W (enc1 x) = TStruct"
      "\<And>x. Writable W (enc1 x) \<longleftrightarrow> Header_complete x"
      "\<And>x. Header_complete x \<Longrightarrow> Header_FromWire W (enc1 x) Header_zero = Inr x"
    by (rule Header.encoder [OF laws]) (rule that)
  obtain enc2 where e2: "RetryPolicy_ToWire W = (\<lambda>x. Inr (enc2 x))"
      "\<And>x. wire_api.Type W (enc2 x) = TStruct"
      "\<And>x. Writable W (enc2 x) \<longleftrightarrow> (\<lambda>_. True) x"
      "\<And>x. (\<lambda>_. True) x \<Longrightarrow> RetryPolicy_FromWire W (enc2 x) RetryPolicy_zero = Inr x"
    by (rule RetryPolicy.encoder [OF laws]) (rule that)
  obtain enc3 where e3: "TaskList_ToWire W = (\<lambda>x. Inr (enc3 x))"
      "\<And>x. wire_api.Type W (enc3 x) = TStruct"
      "\<And>x. Writable W (enc3 x) \<longleftrightarrow> (\<lambda>_. True) x"
      "\<And>x. (\<lambda>_. True) x \<Longrightarrow> TaskList_FromWire W (enc3 x) TaskList_zero = Inr x"
    by (rule TaskList.encoder [OF laws]) (rule that)
  show "\<exists>w. ScheduleActivityTaskDecisionAttributes_ToWire W x = Inr w \<and> wire_api.Type W w = TStruct
      \<and>
      (Writable W w \<longleftrightarrow> ScheduleActivityTaskDecisionAttributes_complete x) \<and>
          (ScheduleActivityTaskDecisionAttributes_complete x \<longrightarrow>
          ScheduleActivityTaskDecisionAttributes_FromWire W w
          ScheduleActivityTaskDecisionAttributes_zero = Inr x)"
    by (cases x) (simp cong: option.case_cong add: codec_rules
        ScheduleActivityTaskDecisionAttributes_merge
        ScheduleActivityTaskDecisionAttributes_ToWire_def
        ScheduleActivityTaskDecisionAttributes_FromWire_def
        ScheduleActivityTaskDecisionAttributes_zero_def
        ScheduleActivityTaskDecisionAttributes_complete_def if_set_def ActivityType_Read_def
        Header_Read_def RetryPolicy_Read_def TaskList_Read_def laws e0 e1 e2 e3)
qed

definition ScheduleActivityTaskDecisionAttributes_Equals ::
  "ScheduleActivityTaskDecisionAttributes option \<Rightarrow> ScheduleActivityTaskDecisionAttributes option \<Rightarrow>
      bool" where
  "ScheduleActivityTaskDecisionAttributes_Equals v rhs =
     (case v of None \<Rightarrow> rhs = None
      | Some v \<Rightarrow> (case rhs of None \<Rightarrow> False
        | Some rhs \<Rightarrow>
          if \<not> String_EqualsPtr (ScheduleActivityTaskDecisionAttributes.ActivityId v)
              (ScheduleActivityTaskDecisionAttributes.ActivityId rhs) then False else
          if \<not> both_set_and (\<lambda>x y. ActivityType_Equals (Some x) (Some y))
              (ScheduleActivityTaskDecisionAttributes.ActivityType v)
              (ScheduleActivityTaskDecisionAttributes.ActivityType rhs) then False else
          if \<not> String_EqualsPtr (ScheduleActivityTaskDecisionAttributes.Domain v)
              (ScheduleActivityTaskDecisionAttributes.Domain rhs) then False else
          if \<not> both_set_and (\<lambda>x y. TaskList_Equals (Some x) (Some y))
              (ScheduleActivityTaskDecisionAttributes.TaskList v)
              (ScheduleActivityTaskDecisionAttributes.TaskList rhs) then False else
          if \<not> both_set_and (=) (ScheduleActivityTaskDecisionAttributes.Input v)
              (ScheduleActivityTaskDecisionAttributes.Input rhs) then False else
          if \<not> I32_EqualsPtr (ScheduleActivityTaskDecisionAttributes.ScheduleToCloseTimeoutSeconds
              v) (ScheduleActivityTaskDecisionAttributes.ScheduleToCloseTimeoutSeconds rhs) then
              False else
          if \<not> I32_EqualsPtr (ScheduleActivityTaskDecisionAttributes.ScheduleToStartTimeoutSeconds
              v) (ScheduleActivityTaskDecisionAttributes.ScheduleToStartTimeoutSeconds rhs) then
              False else
          if \<not> I32_EqualsPtr (ScheduleActivityTaskDecisionAttributes.StartToCloseTimeoutSeconds v)
              (ScheduleActivityTaskDecisionAttributes.StartToCloseTimeoutSeconds rhs) then False
              else
          if \<not> I32_EqualsPtr (ScheduleActivityTaskDecisionAttributes.HeartbeatTimeoutSeconds v)
              (ScheduleActivityTaskDecisionAttributes.HeartbeatTimeoutSeconds rhs) then False else
          if \<not> both_set_and (\<lambda>x y. RetryPolicy_Equals (Some x) (Some y))
              (ScheduleActivityTaskDecisionAttributes.RetryPolicy v)
              (ScheduleActivityTaskDecisionAttributes.RetryPolicy rhs) then False else
          if \<not> both_set_and (\<lambda>x y. Header_Equals (Some x) (Some y))
              (ScheduleActivityTaskDecisionAttributes.Header v)
              (ScheduleActivityTaskDecisionAttributes.Header rhs) then False else
          True))"

definition ScheduleActivityTaskDecisionAttributes_comparable ::
    "ScheduleActivityTaskDecisionAttributes \<Rightarrow> bool" where
  "ScheduleActivityTaskDecisionAttributes_comparable v \<longleftrightarrow>
     if_set RetryPolicy_comparable (ScheduleActivityTaskDecisionAttributes.RetryPolicy v) \<and>
     if_set Header_comparable (ScheduleActivityTaskDecisionAttributes.Header v)"

lemma ScheduleActivityTaskDecisionAttributes_Equals_iff:
  "if_set ScheduleActivityTaskDecisionAttributes_comparable x \<Longrightarrow> if_set
      ScheduleActivityTaskDecisionAttributes_comparable y \<Longrightarrow>
      ScheduleActivityTaskDecisionAttributes_Equals x y \<longleftrightarrow> x = y"
  by (cases x; cases y) (simp_all add: ScheduleActivityTaskDecisionAttributes_Equals_def
      ScheduleActivityTaskDecisionAttributes_comparable_def if_not_False,
    fastforce intro: ScheduleActivityTaskDecisionAttributes.equality)

lemma ScheduleActivityTaskDecisionAttributes_fields_equal [simp]:
  "if_set ScheduleActivityTaskDecisionAttributes_comparable x \<Longrightarrow> if_set
      ScheduleActivityTaskDecisionAttributes_comparable y \<Longrightarrow>
    both_set_and (\<lambda>x y. ScheduleActivityTaskDecisionAttributes_Equals (Some x) (Some y)) x y \<longleftrightarrow> x =
        y"
  by (rule both_set_and_iff [where P = ScheduleActivityTaskDecisionAttributes_comparable]) (simp_all
      add: ScheduleActivityTaskDecisionAttributes_Equals_iff)

record SignalExternalWorkflowExecutionDecisionAttributes =
  Domain :: "string option"
  Execution :: "WorkflowExecution option"
  SignalName :: "string option"
  Input :: "bytes option"
  Control :: "bytes option"
  ChildWorkflowOnly :: "bool option"

definition SignalExternalWorkflowExecutionDecisionAttributes_zero ::
    SignalExternalWorkflowExecutionDecisionAttributes where
  "SignalExternalWorkflowExecutionDecisionAttributes_zero =
      \<lparr>SignalExternalWorkflowExecutionDecisionAttributes.Domain = None,
      SignalExternalWorkflowExecutionDecisionAttributes.Execution = None,
      SignalExternalWorkflowExecutionDecisionAttributes.SignalName = None,
      SignalExternalWorkflowExecutionDecisionAttributes.Input = None,
      SignalExternalWorkflowExecutionDecisionAttributes.Control = None,
      SignalExternalWorkflowExecutionDecisionAttributes.ChildWorkflowOnly = None\<rparr>"

definition SignalExternalWorkflowExecutionDecisionAttributes_ToWire ::
  "'v wire_api \<Rightarrow> SignalExternalWorkflowExecutionDecisionAttributes \<Rightarrow> go_error + 'v" where
  "SignalExternalWorkflowExecutionDecisionAttributes_ToWire W v =
     and_then (put_opt 10 (\<lambda>x. Inr (NewValueString W x))
         (SignalExternalWorkflowExecutionDecisionAttributes.Domain v) [])
       (\<lambda>fields.
     and_then (put_opt 20 (WorkflowExecution_ToWire W)
         (SignalExternalWorkflowExecutionDecisionAttributes.Execution v) fields)
       (\<lambda>fields.
     and_then (put_opt 30 (\<lambda>x. Inr (NewValueString W x))
         (SignalExternalWorkflowExecutionDecisionAttributes.SignalName v) fields)
       (\<lambda>fields.
     and_then (put_opt 40 (\<lambda>x. Inr (NewValueBinary W x))
         (SignalExternalWorkflowExecutionDecisionAttributes.Input v) fields)
       (\<lambda>fields.
     and_then (put_opt 50 (\<lambda>x. Inr (NewValueBinary W x))
         (SignalExternalWorkflowExecutionDecisionAttributes.Control v) fields)
       (\<lambda>fields.
     and_then (put_opt 60 (\<lambda>x. Inr (NewValueBool W x))
         (SignalExternalWorkflowExecutionDecisionAttributes.ChildWorkflowOnly v) fields)
       (\<lambda>fields.
     Inr (NewValueStruct W fields)))))))"

definition SignalExternalWorkflowExecutionDecisionAttributes_FromWire ::
  "'v wire_api \<Rightarrow> 'v \<Rightarrow> SignalExternalWorkflowExecutionDecisionAttributes \<Rightarrow> go_error +
      SignalExternalWorkflowExecutionDecisionAttributes" where
  "SignalExternalWorkflowExecutionDecisionAttributes_FromWire W w v =
     foldM (\<lambda>v (fid, fval).
       if fid = 10 then
         if wire_api.Type W fval = TBinary
         then Inr (v\<lparr>SignalExternalWorkflowExecutionDecisionAttributes.Domain := Some (GetString W
             fval)\<rparr>)
         else Inr v
       else if fid = 20 then
         if wire_api.Type W fval = TStruct
         then and_then (WorkflowExecution_Read W fval) (\<lambda>x. Inr
             (v\<lparr>SignalExternalWorkflowExecutionDecisionAttributes.Execution := Some x\<rparr>))
         else Inr v
       else if fid = 30 then
         if wire_api.Type W fval = TBinary
         then Inr (v\<lparr>SignalExternalWorkflowExecutionDecisionAttributes.SignalName := Some (GetString
             W fval)\<rparr>)
         else Inr v
       else if fid = 40 then
         if wire_api.Type W fval = TBinary
         then Inr (v\<lparr>SignalExternalWorkflowExecutionDecisionAttributes.Input := Some (GetBinary W
             fval)\<rparr>)
         else Inr v
       else if fid = 50 then
         if wire_api.Type W fval = TBinary
         then Inr (v\<lparr>SignalExternalWorkflowExecutionDecisionAttributes.Control := Some (GetBinary W
             fval)\<rparr>)
         else Inr v
       else if fid = 60 then
         if wire_api.Type W fval = TBool
         then Inr (v\<lparr>SignalExternalWorkflowExecutionDecisionAttributes.ChildWorkflowOnly := Some
             (GetBool W fval)\<rparr>)
         else Inr v
       else Inr v) (GetStruct W w) v"

definition SignalExternalWorkflowExecutionDecisionAttributes_Read :: "'v wire_api \<Rightarrow> 'v \<Rightarrow> go_error +
    SignalExternalWorkflowExecutionDecisionAttributes" where
  "SignalExternalWorkflowExecutionDecisionAttributes_Read W w =
      SignalExternalWorkflowExecutionDecisionAttributes_FromWire W w
      SignalExternalWorkflowExecutionDecisionAttributes_zero"

lemma SignalExternalWorkflowExecutionDecisionAttributes_merge:
  "(case x of None \<Rightarrow> Inr \<lparr>SignalExternalWorkflowExecutionDecisionAttributes.Domain = a0,
      SignalExternalWorkflowExecutionDecisionAttributes.Execution = a1,
      SignalExternalWorkflowExecutionDecisionAttributes.SignalName = a2,
      SignalExternalWorkflowExecutionDecisionAttributes.Input = a3,
      SignalExternalWorkflowExecutionDecisionAttributes.Control = a4,
      SignalExternalWorkflowExecutionDecisionAttributes.ChildWorkflowOnly = a5\<rparr> | Some y \<Rightarrow> Inr
      \<lparr>SignalExternalWorkflowExecutionDecisionAttributes.Domain = b0 y,
      SignalExternalWorkflowExecutionDecisionAttributes.Execution = b1 y,
      SignalExternalWorkflowExecutionDecisionAttributes.SignalName = b2 y,
      SignalExternalWorkflowExecutionDecisionAttributes.Input = b3 y,
      SignalExternalWorkflowExecutionDecisionAttributes.Control = b4 y,
      SignalExternalWorkflowExecutionDecisionAttributes.ChildWorkflowOnly = b5 y\<rparr>) =
   Inr \<lparr>SignalExternalWorkflowExecutionDecisionAttributes.Domain = (case x of None \<Rightarrow> a0 | Some y \<Rightarrow>
       b0 y), SignalExternalWorkflowExecutionDecisionAttributes.Execution = (case x of None \<Rightarrow> a1 |
       Some y \<Rightarrow> b1 y), SignalExternalWorkflowExecutionDecisionAttributes.SignalName = (case x of
       None \<Rightarrow> a2 | Some y \<Rightarrow> b2 y), SignalExternalWorkflowExecutionDecisionAttributes.Input = (case x
       of None \<Rightarrow> a3 | Some y \<Rightarrow> b3 y), SignalExternalWorkflowExecutionDecisionAttributes.Control =
       (case x of None \<Rightarrow> a4 | Some y \<Rightarrow> b4 y),
       SignalExternalWorkflowExecutionDecisionAttributes.ChildWorkflowOnly = (case x of None \<Rightarrow> a5 |
       Some y \<Rightarrow> b5 y)\<rparr>"
  by (cases x) simp_all

interpretation SignalExternalWorkflowExecutionDecisionAttributes: thrift_message W
  "SignalExternalWorkflowExecutionDecisionAttributes_ToWire W"
      "SignalExternalWorkflowExecutionDecisionAttributes_FromWire W"
      SignalExternalWorkflowExecutionDecisionAttributes_zero "\<lambda>_. True" for W
proof (rule thrift_messageI)
  fix x :: SignalExternalWorkflowExecutionDecisionAttributes
  assume laws: "wire_laws W"
  obtain enc0 where e0: "WorkflowExecution_ToWire W = (\<lambda>x. Inr (enc0 x))"
      "\<And>x. wire_api.Type W (enc0 x) = TStruct"
      "\<And>x. Writable W (enc0 x) \<longleftrightarrow> (\<lambda>_. True) x"
      "\<And>x. (\<lambda>_. True) x \<Longrightarrow> WorkflowExecution_FromWire W (enc0 x) WorkflowExecution_zero = Inr x"
    by (rule WorkflowExecution.encoder [OF laws]) (rule that)
  show "\<exists>w. SignalExternalWorkflowExecutionDecisionAttributes_ToWire W x = Inr w \<and> wire_api.Type W w
      = TStruct \<and>
      (Writable W w \<longleftrightarrow> (\<lambda>_. True) x) \<and> ((\<lambda>_. True) x \<longrightarrow>
          SignalExternalWorkflowExecutionDecisionAttributes_FromWire W w
          SignalExternalWorkflowExecutionDecisionAttributes_zero = Inr x)"
    by (cases x) (simp cong: option.case_cong add: codec_rules
        SignalExternalWorkflowExecutionDecisionAttributes_merge
        SignalExternalWorkflowExecutionDecisionAttributes_ToWire_def
        SignalExternalWorkflowExecutionDecisionAttributes_FromWire_def
        SignalExternalWorkflowExecutionDecisionAttributes_zero_def WorkflowExecution_Read_def laws
        e0)
qed

definition SignalExternalWorkflowExecutionDecisionAttributes_Equals ::
  "SignalExternalWorkflowExecutionDecisionAttributes option \<Rightarrow>
      SignalExternalWorkflowExecutionDecisionAttributes option \<Rightarrow> bool" where
  "SignalExternalWorkflowExecutionDecisionAttributes_Equals v rhs =
     (case v of None \<Rightarrow> rhs = None
      | Some v \<Rightarrow> (case rhs of None \<Rightarrow> False
        | Some rhs \<Rightarrow>
          if \<not> String_EqualsPtr (SignalExternalWorkflowExecutionDecisionAttributes.Domain v)
              (SignalExternalWorkflowExecutionDecisionAttributes.Domain rhs) then False else
          if \<not> both_set_and (\<lambda>x y. WorkflowExecution_Equals (Some x) (Some y))
              (SignalExternalWorkflowExecutionDecisionAttributes.Execution v)
              (SignalExternalWorkflowExecutionDecisionAttributes.Execution rhs) then False else
          if \<not> String_EqualsPtr (SignalExternalWorkflowExecutionDecisionAttributes.SignalName v)
              (SignalExternalWorkflowExecutionDecisionAttributes.SignalName rhs) then False else
          if \<not> both_set_and (=) (SignalExternalWorkflowExecutionDecisionAttributes.Input v)
              (SignalExternalWorkflowExecutionDecisionAttributes.Input rhs) then False else
          if \<not> both_set_and (=) (SignalExternalWorkflowExecutionDecisionAttributes.Control v)
              (SignalExternalWorkflowExecutionDecisionAttributes.Control rhs) then False else
          if \<not> Bool_EqualsPtr (SignalExternalWorkflowExecutionDecisionAttributes.ChildWorkflowOnly
              v) (SignalExternalWorkflowExecutionDecisionAttributes.ChildWorkflowOnly rhs) then
              False else
          True))"

lemma SignalExternalWorkflowExecutionDecisionAttributes_Equals_iff [simp]:
    "SignalExternalWorkflowExecutionDecisionAttributes_Equals x y \<longleftrightarrow> x = y"
  by (cases x; cases y) (simp_all add: SignalExternalWorkflowExecutionDecisionAttributes_Equals_def
      if_not_False, fastforce intro: SignalExternalWorkflowExecutionDecisionAttributes.equality)

record StartChildWorkflowExecutionDecisionAttributes =
  Domain :: "string option"
  WorkflowId :: "string option"
  WorkflowType :: "WorkflowType option"
  TaskList :: "TaskList option"
  Input :: "bytes option"
  ExecutionStartToCloseTimeoutSeconds :: "32 word option"
  TaskStartToCloseTimeoutSeconds :: "32 word option"
  ParentClosePolicy :: "ParentClosePolicy option"
  Control :: "bytes option"
  WorkflowIdReusePolicy :: "WorkflowIdReusePolicy option"
  RetryPolicy :: "RetryPolicy option"
  CronSchedule :: "string option"
  Header :: "Header option"
  Memo :: "Memo option"
  SearchAttributes :: "SearchAttributes option"

definition StartChildWorkflowExecutionDecisionAttributes_zero ::
    StartChildWorkflowExecutionDecisionAttributes where
  "StartChildWorkflowExecutionDecisionAttributes_zero =
      \<lparr>StartChildWorkflowExecutionDecisionAttributes.Domain = None,
      StartChildWorkflowExecutionDecisionAttributes.WorkflowId = None,
      StartChildWorkflowExecutionDecisionAttributes.WorkflowType = None,
      StartChildWorkflowExecutionDecisionAttributes.TaskList = None,
      StartChildWorkflowExecutionDecisionAttributes.Input = None,
      StartChildWorkflowExecutionDecisionAttributes.ExecutionStartToCloseTimeoutSeconds = None,
      StartChildWorkflowExecutionDecisionAttributes.TaskStartToCloseTimeoutSeconds = None,
      StartChildWorkflowExecutionDecisionAttributes.ParentClosePolicy = None,
      StartChildWorkflowExecutionDecisionAttributes.Control = None,
      StartChildWorkflowExecutionDecisionAttributes.WorkflowIdReusePolicy = None,
      StartChildWorkflowExecutionDecisionAttributes.RetryPolicy = None,
      StartChildWorkflowExecutionDecisionAttributes.CronSchedule = None,
      StartChildWorkflowExecutionDecisionAttributes.Header = None,
      StartChildWorkflowExecutionDecisionAttributes.Memo = None,
      StartChildWorkflowExecutionDecisionAttributes.SearchAttributes = None\<rparr>"

definition StartChildWorkflowExecutionDecisionAttributes_ToWire ::
  "'v wire_api \<Rightarrow> StartChildWorkflowExecutionDecisionAttributes \<Rightarrow> go_error + 'v" where
  "StartChildWorkflowExecutionDecisionAttributes_ToWire W v =
     and_then (put_opt 10 (\<lambda>x. Inr (NewValueString W x))
         (StartChildWorkflowExecutionDecisionAttributes.Domain v) [])
       (\<lambda>fields.
     and_then (put_opt 20 (\<lambda>x. Inr (NewValueString W x))
         (StartChildWorkflowExecutionDecisionAttributes.WorkflowId v) fields)
       (\<lambda>fields.
     and_then (put_opt 30 (WorkflowType_ToWire W)
         (StartChildWorkflowExecutionDecisionAttributes.WorkflowType v) fields)
       (\<lambda>fields.
     and_then (put_opt 40 (TaskList_ToWire W)
         (StartChildWorkflowExecutionDecisionAttributes.TaskList v) fields)
       (\<lambda>fields.
     and_then (put_opt 50 (\<lambda>x. Inr (NewValueBinary W x))
         (StartChildWorkflowExecutionDecisionAttributes.Input v) fields)
       (\<lambda>fields.
     and_then (put_opt 60 (\<lambda>x. Inr (NewValueI32 W x))
         (StartChildWorkflowExecutionDecisionAttributes.ExecutionStartToCloseTimeoutSeconds v)
         fields)
       (\<lambda>fields.
     and_then (put_opt 70 (\<lambda>x. Inr (NewValueI32 W x))
         (StartChildWorkflowExecutionDecisionAttributes.TaskStartToCloseTimeoutSeconds v) fields)
       (\<lambda>fields.
     and_then (put_opt 81 (ParentClosePolicy_ToWire W)
         (StartChildWorkflowExecutionDecisionAttributes.ParentClosePolicy v) fields)
       (\<lambda>fields.
     and_then (put_opt 90 (\<lambda>x. Inr (NewValueBinary W x))
         (StartChildWorkflowExecutionDecisionAttributes.Control v) fields)
       (\<lambda>fields.
     and_then (put_opt 100 (WorkflowIdReusePolicy_ToWire W)
         (StartChildWorkflowExecutionDecisionAttributes.WorkflowIdReusePolicy v) fields)
       (\<lambda>fields.
     and_then (put_opt 110 (RetryPolicy_ToWire W)
         (StartChildWorkflowExecutionDecisionAttributes.RetryPolicy v) fields)
       (\<lambda>fields.
     and_then (put_opt 120 (\<lambda>x. Inr (NewValueString W x))
         (StartChildWorkflowExecutionDecisionAttributes.CronSchedule v) fields)
       (\<lambda>fields.
     and_then (put_opt 130 (Header_ToWire W) (StartChildWorkflowExecutionDecisionAttributes.Header
         v) fields)
       (\<lambda>fields.
     and_then (put_opt 140 (Memo_ToWire W) (StartChildWorkflowExecutionDecisionAttributes.Memo v)
         fields)
       (\<lambda>fields.
     and_then (put_opt 150 (SearchAttributes_ToWire W)
         (StartChildWorkflowExecutionDecisionAttributes.SearchAttributes v) fields)
       (\<lambda>fields.
     Inr (NewValueStruct W fields))))))))))))))))"

definition StartChildWorkflowExecutionDecisionAttributes_FromWire ::
  "'v wire_api \<Rightarrow> 'v \<Rightarrow> StartChildWorkflowExecutionDecisionAttributes \<Rightarrow> go_error +
      StartChildWorkflowExecutionDecisionAttributes" where
  "StartChildWorkflowExecutionDecisionAttributes_FromWire W w v =
     foldM (\<lambda>v (fid, fval).
       if fid = 10 then
         if wire_api.Type W fval = TBinary
         then Inr (v\<lparr>StartChildWorkflowExecutionDecisionAttributes.Domain := Some (GetString W
             fval)\<rparr>)
         else Inr v
       else if fid = 20 then
         if wire_api.Type W fval = TBinary
         then Inr (v\<lparr>StartChildWorkflowExecutionDecisionAttributes.WorkflowId := Some (GetString W
             fval)\<rparr>)
         else Inr v
       else if fid = 30 then
         if wire_api.Type W fval = TStruct
         then and_then (WorkflowType_Read W fval) (\<lambda>x. Inr
             (v\<lparr>StartChildWorkflowExecutionDecisionAttributes.WorkflowType := Some x\<rparr>))
         else Inr v
       else if fid = 40 then
         if wire_api.Type W fval = TStruct
         then and_then (TaskList_Read W fval) (\<lambda>x. Inr
             (v\<lparr>StartChildWorkflowExecutionDecisionAttributes.TaskList := Some x\<rparr>))
         else Inr v
       else if fid = 50 then
         if wire_api.Type W fval = TBinary
         then Inr (v\<lparr>StartChildWorkflowExecutionDecisionAttributes.Input := Some (GetBinary W
             fval)\<rparr>)
         else Inr v
       else if fid = 60 then
         if wire_api.Type W fval = TI32
         then Inr
             (v\<lparr>StartChildWorkflowExecutionDecisionAttributes.ExecutionStartToCloseTimeoutSeconds :=
             Some (GetI32 W fval)\<rparr>)
         else Inr v
       else if fid = 70 then
         if wire_api.Type W fval = TI32
         then Inr (v\<lparr>StartChildWorkflowExecutionDecisionAttributes.TaskStartToCloseTimeoutSeconds :=
             Some (GetI32 W fval)\<rparr>)
         else Inr v
       else if fid = 81 then
         if wire_api.Type W fval = TI32
         then and_then (ParentClosePolicy_Read W fval) (\<lambda>x. Inr
             (v\<lparr>StartChildWorkflowExecutionDecisionAttributes.ParentClosePolicy := Some x\<rparr>))
         else Inr v
       else if fid = 90 then
         if wire_api.Type W fval = TBinary
         then Inr (v\<lparr>StartChildWorkflowExecutionDecisionAttributes.Control := Some (GetBinary W
             fval)\<rparr>)
         else Inr v
       else if fid = 100 then
         if wire_api.Type W fval = TI32
         then and_then (WorkflowIdReusePolicy_Read W fval) (\<lambda>x. Inr
             (v\<lparr>StartChildWorkflowExecutionDecisionAttributes.WorkflowIdReusePolicy := Some x\<rparr>))
         else Inr v
       else if fid = 110 then
         if wire_api.Type W fval = TStruct
         then and_then (RetryPolicy_Read W fval) (\<lambda>x. Inr
             (v\<lparr>StartChildWorkflowExecutionDecisionAttributes.RetryPolicy := Some x\<rparr>))
         else Inr v
       else if fid = 120 then
         if wire_api.Type W fval = TBinary
         then Inr (v\<lparr>StartChildWorkflowExecutionDecisionAttributes.CronSchedule := Some (GetString W
             fval)\<rparr>)
         else Inr v
       else if fid = 130 then
         if wire_api.Type W fval = TStruct
         then and_then (Header_Read W fval) (\<lambda>x. Inr
             (v\<lparr>StartChildWorkflowExecutionDecisionAttributes.Header := Some x\<rparr>))
         else Inr v
       else if fid = 140 then
         if wire_api.Type W fval = TStruct
         then and_then (Memo_Read W fval) (\<lambda>x. Inr
             (v\<lparr>StartChildWorkflowExecutionDecisionAttributes.Memo := Some x\<rparr>))
         else Inr v
       else if fid = 150 then
         if wire_api.Type W fval = TStruct
         then and_then (SearchAttributes_Read W fval) (\<lambda>x. Inr
             (v\<lparr>StartChildWorkflowExecutionDecisionAttributes.SearchAttributes := Some x\<rparr>))
         else Inr v
       else Inr v) (GetStruct W w) v"

definition StartChildWorkflowExecutionDecisionAttributes_Read :: "'v wire_api \<Rightarrow> 'v \<Rightarrow> go_error +
    StartChildWorkflowExecutionDecisionAttributes" where
  "StartChildWorkflowExecutionDecisionAttributes_Read W w =
      StartChildWorkflowExecutionDecisionAttributes_FromWire W w
      StartChildWorkflowExecutionDecisionAttributes_zero"

definition StartChildWorkflowExecutionDecisionAttributes_complete ::
    "StartChildWorkflowExecutionDecisionAttributes \<Rightarrow> bool" where
  "StartChildWorkflowExecutionDecisionAttributes_complete v \<longleftrightarrow>
     if_set Header_complete (StartChildWorkflowExecutionDecisionAttributes.Header v) \<and>
     if_set Memo_complete (StartChildWorkflowExecutionDecisionAttributes.Memo v) \<and>
     if_set SearchAttributes_complete
         (StartChildWorkflowExecutionDecisionAttributes.SearchAttributes v)"

lemma StartChildWorkflowExecutionDecisionAttributes_merge:
  "(case x of None \<Rightarrow> Inr \<lparr>StartChildWorkflowExecutionDecisionAttributes.Domain = a0,
      StartChildWorkflowExecutionDecisionAttributes.WorkflowId = a1,
      StartChildWorkflowExecutionDecisionAttributes.WorkflowType = a2,
      StartChildWorkflowExecutionDecisionAttributes.TaskList = a3,
      StartChildWorkflowExecutionDecisionAttributes.Input = a4,
      StartChildWorkflowExecutionDecisionAttributes.ExecutionStartToCloseTimeoutSeconds = a5,
      StartChildWorkflowExecutionDecisionAttributes.TaskStartToCloseTimeoutSeconds = a6,
      StartChildWorkflowExecutionDecisionAttributes.ParentClosePolicy = a7,
      StartChildWorkflowExecutionDecisionAttributes.Control = a8,
      StartChildWorkflowExecutionDecisionAttributes.WorkflowIdReusePolicy = a9,
      StartChildWorkflowExecutionDecisionAttributes.RetryPolicy = a10,
      StartChildWorkflowExecutionDecisionAttributes.CronSchedule = a11,
      StartChildWorkflowExecutionDecisionAttributes.Header = a12,
      StartChildWorkflowExecutionDecisionAttributes.Memo = a13,
      StartChildWorkflowExecutionDecisionAttributes.SearchAttributes = a14\<rparr> | Some y \<Rightarrow> Inr
      \<lparr>StartChildWorkflowExecutionDecisionAttributes.Domain = b0 y,
      StartChildWorkflowExecutionDecisionAttributes.WorkflowId = b1 y,
      StartChildWorkflowExecutionDecisionAttributes.WorkflowType = b2 y,
      StartChildWorkflowExecutionDecisionAttributes.TaskList = b3 y,
      StartChildWorkflowExecutionDecisionAttributes.Input = b4 y,
      StartChildWorkflowExecutionDecisionAttributes.ExecutionStartToCloseTimeoutSeconds = b5 y,
      StartChildWorkflowExecutionDecisionAttributes.TaskStartToCloseTimeoutSeconds = b6 y,
      StartChildWorkflowExecutionDecisionAttributes.ParentClosePolicy = b7 y,
      StartChildWorkflowExecutionDecisionAttributes.Control = b8 y,
      StartChildWorkflowExecutionDecisionAttributes.WorkflowIdReusePolicy = b9 y,
      StartChildWorkflowExecutionDecisionAttributes.RetryPolicy = b10 y,
      StartChildWorkflowExecutionDecisionAttributes.CronSchedule = b11 y,
      StartChildWorkflowExecutionDecisionAttributes.Header = b12 y,
      StartChildWorkflowExecutionDecisionAttributes.Memo = b13 y,
      StartChildWorkflowExecutionDecisionAttributes.SearchAttributes = b14 y\<rparr>) =
   Inr \<lparr>StartChildWorkflowExecutionDecisionAttributes.Domain = (case x of None \<Rightarrow> a0 | Some y \<Rightarrow> b0
       y), StartChildWorkflowExecutionDecisionAttributes.WorkflowId = (case x of None \<Rightarrow> a1 | Some y
       \<Rightarrow> b1 y), StartChildWorkflowExecutionDecisionAttributes.WorkflowType = (case x of None \<Rightarrow> a2 |
       Some y \<Rightarrow> b2 y), StartChildWorkflowExecutionDecisionAttributes.TaskList = (case x of None \<Rightarrow> a3
       | Some y \<Rightarrow> b3 y), StartChildWorkflowExecutionDecisionAttributes.Input = (case x of None \<Rightarrow> a4
       | Some y \<Rightarrow> b4 y),
       StartChildWorkflowExecutionDecisionAttributes.ExecutionStartToCloseTimeoutSeconds = (case x
       of None \<Rightarrow> a5 | Some y \<Rightarrow> b5 y),
       StartChildWorkflowExecutionDecisionAttributes.TaskStartToCloseTimeoutSeconds = (case x of
       None \<Rightarrow> a6 | Some y \<Rightarrow> b6 y), StartChildWorkflowExecutionDecisionAttributes.ParentClosePolicy =
       (case x of None \<Rightarrow> a7 | Some y \<Rightarrow> b7 y), StartChildWorkflowExecutionDecisionAttributes.Control
       = (case x of None \<Rightarrow> a8 | Some y \<Rightarrow> b8 y),
       StartChildWorkflowExecutionDecisionAttributes.WorkflowIdReusePolicy = (case x of None \<Rightarrow> a9 |
       Some y \<Rightarrow> b9 y), StartChildWorkflowExecutionDecisionAttributes.RetryPolicy = (case x of None \<Rightarrow>
       a10 | Some y \<Rightarrow> b10 y), StartChildWorkflowExecutionDecisionAttributes.CronSchedule = (case x
       of None \<Rightarrow> a11 | Some y \<Rightarrow> b11 y), StartChildWorkflowExecutionDecisionAttributes.Header = (case
       x of None \<Rightarrow> a12 | Some y \<Rightarrow> b12 y), StartChildWorkflowExecutionDecisionAttributes.Memo = (case
       x of None \<Rightarrow> a13 | Some y \<Rightarrow> b13 y),
       StartChildWorkflowExecutionDecisionAttributes.SearchAttributes = (case x of None \<Rightarrow> a14 | Some
       y \<Rightarrow> b14 y)\<rparr>"
  by (cases x) simp_all

interpretation StartChildWorkflowExecutionDecisionAttributes: thrift_message W
  "StartChildWorkflowExecutionDecisionAttributes_ToWire W"
      "StartChildWorkflowExecutionDecisionAttributes_FromWire W"
      StartChildWorkflowExecutionDecisionAttributes_zero
      "StartChildWorkflowExecutionDecisionAttributes_complete" for W
proof (rule thrift_messageI)
  fix x :: StartChildWorkflowExecutionDecisionAttributes
  assume laws: "wire_laws W"
  obtain enc0 where e0: "Header_ToWire W = (\<lambda>x. Inr (enc0 x))"
      "\<And>x. wire_api.Type W (enc0 x) = TStruct"
      "\<And>x. Writable W (enc0 x) \<longleftrightarrow> Header_complete x"
      "\<And>x. Header_complete x \<Longrightarrow> Header_FromWire W (enc0 x) Header_zero = Inr x"
    by (rule Header.encoder [OF laws]) (rule that)
  obtain enc1 where e1: "Memo_ToWire W = (\<lambda>x. Inr (enc1 x))"
      "\<And>x. wire_api.Type W (enc1 x) = TStruct"
      "\<And>x. Writable W (enc1 x) \<longleftrightarrow> Memo_complete x"
      "\<And>x. Memo_complete x \<Longrightarrow> Memo_FromWire W (enc1 x) Memo_zero = Inr x"
    by (rule Memo.encoder [OF laws]) (rule that)
  obtain enc2 where e2: "RetryPolicy_ToWire W = (\<lambda>x. Inr (enc2 x))"
      "\<And>x. wire_api.Type W (enc2 x) = TStruct"
      "\<And>x. Writable W (enc2 x) \<longleftrightarrow> (\<lambda>_. True) x"
      "\<And>x. (\<lambda>_. True) x \<Longrightarrow> RetryPolicy_FromWire W (enc2 x) RetryPolicy_zero = Inr x"
    by (rule RetryPolicy.encoder [OF laws]) (rule that)
  obtain enc3 where e3: "SearchAttributes_ToWire W = (\<lambda>x. Inr (enc3 x))"
      "\<And>x. wire_api.Type W (enc3 x) = TStruct"
      "\<And>x. Writable W (enc3 x) \<longleftrightarrow> SearchAttributes_complete x"
      "\<And>x. SearchAttributes_complete x \<Longrightarrow> SearchAttributes_FromWire W (enc3 x) SearchAttributes_zero
          = Inr x"
    by (rule SearchAttributes.encoder [OF laws]) (rule that)
  obtain enc4 where e4: "TaskList_ToWire W = (\<lambda>x. Inr (enc4 x))"
      "\<And>x. wire_api.Type W (enc4 x) = TStruct"
      "\<And>x. Writable W (enc4 x) \<longleftrightarrow> (\<lambda>_. True) x"
      "\<And>x. (\<lambda>_. True) x \<Longrightarrow> TaskList_FromWire W (enc4 x) TaskList_zero = Inr x"
    by (rule TaskList.encoder [OF laws]) (rule that)
  obtain enc5 where e5: "WorkflowType_ToWire W = (\<lambda>x. Inr (enc5 x))"
      "\<And>x. wire_api.Type W (enc5 x) = TStruct"
      "\<And>x. Writable W (enc5 x) \<longleftrightarrow> (\<lambda>_. True) x"
      "\<And>x. (\<lambda>_. True) x \<Longrightarrow> WorkflowType_FromWire W (enc5 x) WorkflowType_zero = Inr x"
    by (rule WorkflowType.encoder [OF laws]) (rule that)
  show "\<exists>w. StartChildWorkflowExecutionDecisionAttributes_ToWire W x = Inr w \<and> wire_api.Type W w =
      TStruct \<and>
      (Writable W w \<longleftrightarrow> StartChildWorkflowExecutionDecisionAttributes_complete x) \<and>
          (StartChildWorkflowExecutionDecisionAttributes_complete x \<longrightarrow>
          StartChildWorkflowExecutionDecisionAttributes_FromWire W w
          StartChildWorkflowExecutionDecisionAttributes_zero = Inr x)"
    by (cases x) (simp cong: option.case_cong add: codec_rules
        StartChildWorkflowExecutionDecisionAttributes_merge
        StartChildWorkflowExecutionDecisionAttributes_ToWire_def
        StartChildWorkflowExecutionDecisionAttributes_FromWire_def
        StartChildWorkflowExecutionDecisionAttributes_zero_def
        StartChildWorkflowExecutionDecisionAttributes_complete_def if_set_def ParentClosePolicy_enc
        ParentClosePolicy_Read_def ParentClosePolicy_FromWire_def WorkflowIdReusePolicy_enc
        WorkflowIdReusePolicy_Read_def WorkflowIdReusePolicy_FromWire_def Header_Read_def
        Memo_Read_def RetryPolicy_Read_def SearchAttributes_Read_def TaskList_Read_def
        WorkflowType_Read_def laws e0 e1 e2 e3 e4 e5)
qed

definition StartChildWorkflowExecutionDecisionAttributes_Equals ::
  "StartChildWorkflowExecutionDecisionAttributes option \<Rightarrow>
      StartChildWorkflowExecutionDecisionAttributes option \<Rightarrow> bool" where
  "StartChildWorkflowExecutionDecisionAttributes_Equals v rhs =
     (case v of None \<Rightarrow> rhs = None
      | Some v \<Rightarrow> (case rhs of None \<Rightarrow> False
        | Some rhs \<Rightarrow>
          if \<not> String_EqualsPtr (StartChildWorkflowExecutionDecisionAttributes.Domain v)
              (StartChildWorkflowExecutionDecisionAttributes.Domain rhs) then False else
          if \<not> String_EqualsPtr (StartChildWorkflowExecutionDecisionAttributes.WorkflowId v)
              (StartChildWorkflowExecutionDecisionAttributes.WorkflowId rhs) then False else
          if \<not> both_set_and (\<lambda>x y. WorkflowType_Equals (Some x) (Some y))
              (StartChildWorkflowExecutionDecisionAttributes.WorkflowType v)
              (StartChildWorkflowExecutionDecisionAttributes.WorkflowType rhs) then False else
          if \<not> both_set_and (\<lambda>x y. TaskList_Equals (Some x) (Some y))
              (StartChildWorkflowExecutionDecisionAttributes.TaskList v)
              (StartChildWorkflowExecutionDecisionAttributes.TaskList rhs) then False else
          if \<not> both_set_and (=) (StartChildWorkflowExecutionDecisionAttributes.Input v)
              (StartChildWorkflowExecutionDecisionAttributes.Input rhs) then False else
          if \<not> I32_EqualsPtr
              (StartChildWorkflowExecutionDecisionAttributes.ExecutionStartToCloseTimeoutSeconds v)
              (StartChildWorkflowExecutionDecisionAttributes.ExecutionStartToCloseTimeoutSeconds
              rhs) then False else
          if \<not> I32_EqualsPtr
              (StartChildWorkflowExecutionDecisionAttributes.TaskStartToCloseTimeoutSeconds v)
              (StartChildWorkflowExecutionDecisionAttributes.TaskStartToCloseTimeoutSeconds rhs)
              then False else
          if \<not> ParentClosePolicy_EqualsPtr
              (StartChildWorkflowExecutionDecisionAttributes.ParentClosePolicy v)
              (StartChildWorkflowExecutionDecisionAttributes.ParentClosePolicy rhs) then False else
          if \<not> both_set_and (=) (StartChildWorkflowExecutionDecisionAttributes.Control v)
              (StartChildWorkflowExecutionDecisionAttributes.Control rhs) then False else
          if \<not> WorkflowIdReusePolicy_EqualsPtr
              (StartChildWorkflowExecutionDecisionAttributes.WorkflowIdReusePolicy v)
              (StartChildWorkflowExecutionDecisionAttributes.WorkflowIdReusePolicy rhs) then False
              else
          if \<not> both_set_and (\<lambda>x y. RetryPolicy_Equals (Some x) (Some y))
              (StartChildWorkflowExecutionDecisionAttributes.RetryPolicy v)
              (StartChildWorkflowExecutionDecisionAttributes.RetryPolicy rhs) then False else
          if \<not> String_EqualsPtr (StartChildWorkflowExecutionDecisionAttributes.CronSchedule v)
              (StartChildWorkflowExecutionDecisionAttributes.CronSchedule rhs) then False else
          if \<not> both_set_and (\<lambda>x y. Header_Equals (Some x) (Some y))
              (StartChildWorkflowExecutionDecisionAttributes.Header v)
              (StartChildWorkflowExecutionDecisionAttributes.Header rhs) then False else
          if \<not> both_set_and (\<lambda>x y. Memo_Equals (Some x) (Some y))
              (StartChildWorkflowExecutionDecisionAttributes.Memo v)
              (StartChildWorkflowExecutionDecisionAttributes.Memo rhs) then False else
          if \<not> both_set_and (\<lambda>x y. SearchAttributes_Equals (Some x) (Some y))
              (StartChildWorkflowExecutionDecisionAttributes.SearchAttributes v)
              (StartChildWorkflowExecutionDecisionAttributes.SearchAttributes rhs) then False else
          True))"

definition StartChildWorkflowExecutionDecisionAttributes_comparable ::
    "StartChildWorkflowExecutionDecisionAttributes \<Rightarrow> bool" where
  "StartChildWorkflowExecutionDecisionAttributes_comparable v \<longleftrightarrow>
     if_set RetryPolicy_comparable (StartChildWorkflowExecutionDecisionAttributes.RetryPolicy v) \<and>
     if_set Header_comparable (StartChildWorkflowExecutionDecisionAttributes.Header v) \<and>
     if_set Memo_comparable (StartChildWorkflowExecutionDecisionAttributes.Memo v) \<and>
     if_set SearchAttributes_comparable
         (StartChildWorkflowExecutionDecisionAttributes.SearchAttributes v)"

lemma StartChildWorkflowExecutionDecisionAttributes_Equals_iff:
  "if_set StartChildWorkflowExecutionDecisionAttributes_comparable x \<Longrightarrow> if_set
      StartChildWorkflowExecutionDecisionAttributes_comparable y \<Longrightarrow>
      StartChildWorkflowExecutionDecisionAttributes_Equals x y \<longleftrightarrow> x = y"
  by (cases x; cases y) (simp_all add: StartChildWorkflowExecutionDecisionAttributes_Equals_def
      StartChildWorkflowExecutionDecisionAttributes_comparable_def if_not_False,
    fastforce intro: StartChildWorkflowExecutionDecisionAttributes.equality)

lemma StartChildWorkflowExecutionDecisionAttributes_fields_equal [simp]:
  "if_set StartChildWorkflowExecutionDecisionAttributes_comparable x \<Longrightarrow> if_set
      StartChildWorkflowExecutionDecisionAttributes_comparable y \<Longrightarrow>
    both_set_and (\<lambda>x y. StartChildWorkflowExecutionDecisionAttributes_Equals (Some x) (Some y)) x y
        \<longleftrightarrow> x = y"
  by (rule both_set_and_iff [where P = StartChildWorkflowExecutionDecisionAttributes_comparable])
      (simp_all add: StartChildWorkflowExecutionDecisionAttributes_Equals_iff)

record StartTimerDecisionAttributes =
  TimerId :: "string option"
  StartToFireTimeoutSeconds :: "64 word option"

definition StartTimerDecisionAttributes_zero :: StartTimerDecisionAttributes where
  "StartTimerDecisionAttributes_zero = \<lparr>StartTimerDecisionAttributes.TimerId = None,
      StartTimerDecisionAttributes.StartToFireTimeoutSeconds = None\<rparr>"

definition StartTimerDecisionAttributes_ToWire ::
  "'v wire_api \<Rightarrow> StartTimerDecisionAttributes \<Rightarrow> go_error + 'v" where
  "StartTimerDecisionAttributes_ToWire W v =
     and_then (put_opt 10 (\<lambda>x. Inr (NewValueString W x)) (StartTimerDecisionAttributes.TimerId v)
         [])
       (\<lambda>fields.
     and_then (put_opt 20 (\<lambda>x. Inr (NewValueI64 W x))
         (StartTimerDecisionAttributes.StartToFireTimeoutSeconds v) fields)
       (\<lambda>fields.
     Inr (NewValueStruct W fields)))"

definition StartTimerDecisionAttributes_FromWire ::
  "'v wire_api \<Rightarrow> 'v \<Rightarrow> StartTimerDecisionAttributes \<Rightarrow> go_error + StartTimerDecisionAttributes" where
  "StartTimerDecisionAttributes_FromWire W w v =
     foldM (\<lambda>v (fid, fval).
       if fid = 10 then
         if wire_api.Type W fval = TBinary
         then Inr (v\<lparr>StartTimerDecisionAttributes.TimerId := Some (GetString W fval)\<rparr>)
         else Inr v
       else if fid = 20 then
         if wire_api.Type W fval = TI64
         then Inr (v\<lparr>StartTimerDecisionAttributes.StartToFireTimeoutSeconds := Some (GetI64 W
             fval)\<rparr>)
         else Inr v
       else Inr v) (GetStruct W w) v"

definition StartTimerDecisionAttributes_Read :: "'v wire_api \<Rightarrow> 'v \<Rightarrow> go_error +
    StartTimerDecisionAttributes" where
  "StartTimerDecisionAttributes_Read W w = StartTimerDecisionAttributes_FromWire W w
      StartTimerDecisionAttributes_zero"

lemma StartTimerDecisionAttributes_merge:
  "(case x of None \<Rightarrow> Inr \<lparr>StartTimerDecisionAttributes.TimerId = a0,
      StartTimerDecisionAttributes.StartToFireTimeoutSeconds = a1\<rparr> | Some y \<Rightarrow> Inr
      \<lparr>StartTimerDecisionAttributes.TimerId = b0 y,
      StartTimerDecisionAttributes.StartToFireTimeoutSeconds = b1 y\<rparr>) =
   Inr \<lparr>StartTimerDecisionAttributes.TimerId = (case x of None \<Rightarrow> a0 | Some y \<Rightarrow> b0 y),
       StartTimerDecisionAttributes.StartToFireTimeoutSeconds = (case x of None \<Rightarrow> a1 | Some y \<Rightarrow> b1
       y)\<rparr>"
  by (cases x) simp_all

interpretation StartTimerDecisionAttributes: thrift_message W
  "StartTimerDecisionAttributes_ToWire W" "StartTimerDecisionAttributes_FromWire W"
      StartTimerDecisionAttributes_zero "\<lambda>_. True" for W
proof (rule thrift_messageI)
  fix x :: StartTimerDecisionAttributes
  assume laws: "wire_laws W"
  show "\<exists>w. StartTimerDecisionAttributes_ToWire W x = Inr w \<and> wire_api.Type W w = TStruct \<and>
      (Writable W w \<longleftrightarrow> (\<lambda>_. True) x) \<and> ((\<lambda>_. True) x \<longrightarrow> StartTimerDecisionAttributes_FromWire W w
          StartTimerDecisionAttributes_zero = Inr x)"
    by (cases x) (simp cong: option.case_cong add: codec_rules StartTimerDecisionAttributes_merge
        StartTimerDecisionAttributes_ToWire_def StartTimerDecisionAttributes_FromWire_def
        StartTimerDecisionAttributes_zero_def laws)
qed

definition StartTimerDecisionAttributes_Equals ::
  "StartTimerDecisionAttributes option \<Rightarrow> StartTimerDecisionAttributes option \<Rightarrow> bool" where
  "StartTimerDecisionAttributes_Equals v rhs =
     (case v of None \<Rightarrow> rhs = None
      | Some v \<Rightarrow> (case rhs of None \<Rightarrow> False
        | Some rhs \<Rightarrow>
          if \<not> String_EqualsPtr (StartTimerDecisionAttributes.TimerId v)
              (StartTimerDecisionAttributes.TimerId rhs) then False else
          if \<not> I64_EqualsPtr (StartTimerDecisionAttributes.StartToFireTimeoutSeconds v)
              (StartTimerDecisionAttributes.StartToFireTimeoutSeconds rhs) then False else
          True))"

lemma StartTimerDecisionAttributes_Equals_iff [simp]: "StartTimerDecisionAttributes_Equals x y \<longleftrightarrow> x =
    y"
  by (cases x; cases y) (auto simp: StartTimerDecisionAttributes_Equals_def)

record UpsertWorkflowSearchAttributesDecisionAttributes =
  SearchAttributes :: "SearchAttributes option"

definition UpsertWorkflowSearchAttributesDecisionAttributes_zero ::
    UpsertWorkflowSearchAttributesDecisionAttributes where
  "UpsertWorkflowSearchAttributesDecisionAttributes_zero =
      \<lparr>UpsertWorkflowSearchAttributesDecisionAttributes.SearchAttributes = None\<rparr>"

definition UpsertWorkflowSearchAttributesDecisionAttributes_ToWire ::
  "'v wire_api \<Rightarrow> UpsertWorkflowSearchAttributesDecisionAttributes \<Rightarrow> go_error + 'v" where
  "UpsertWorkflowSearchAttributesDecisionAttributes_ToWire W v =
     and_then (put_opt 10 (SearchAttributes_ToWire W)
         (UpsertWorkflowSearchAttributesDecisionAttributes.SearchAttributes v) [])
       (\<lambda>fields.
     Inr (NewValueStruct W fields))"

definition UpsertWorkflowSearchAttributesDecisionAttributes_FromWire ::
  "'v wire_api \<Rightarrow> 'v \<Rightarrow> UpsertWorkflowSearchAttributesDecisionAttributes \<Rightarrow> go_error +
      UpsertWorkflowSearchAttributesDecisionAttributes" where
  "UpsertWorkflowSearchAttributesDecisionAttributes_FromWire W w v =
     foldM (\<lambda>v (fid, fval).
       if fid = 10 then
         if wire_api.Type W fval = TStruct
         then and_then (SearchAttributes_Read W fval) (\<lambda>x. Inr
             (v\<lparr>UpsertWorkflowSearchAttributesDecisionAttributes.SearchAttributes := Some x\<rparr>))
         else Inr v
       else Inr v) (GetStruct W w) v"

definition UpsertWorkflowSearchAttributesDecisionAttributes_Read :: "'v wire_api \<Rightarrow> 'v \<Rightarrow> go_error +
    UpsertWorkflowSearchAttributesDecisionAttributes" where
  "UpsertWorkflowSearchAttributesDecisionAttributes_Read W w =
      UpsertWorkflowSearchAttributesDecisionAttributes_FromWire W w
      UpsertWorkflowSearchAttributesDecisionAttributes_zero"

definition UpsertWorkflowSearchAttributesDecisionAttributes_complete ::
    "UpsertWorkflowSearchAttributesDecisionAttributes \<Rightarrow> bool" where
  "UpsertWorkflowSearchAttributesDecisionAttributes_complete v \<longleftrightarrow>
     if_set SearchAttributes_complete
         (UpsertWorkflowSearchAttributesDecisionAttributes.SearchAttributes v)"

lemma UpsertWorkflowSearchAttributesDecisionAttributes_merge:
  "(case x of None \<Rightarrow> Inr \<lparr>UpsertWorkflowSearchAttributesDecisionAttributes.SearchAttributes = a0\<rparr> |
      Some y \<Rightarrow> Inr \<lparr>UpsertWorkflowSearchAttributesDecisionAttributes.SearchAttributes = b0 y\<rparr>) =
   Inr \<lparr>UpsertWorkflowSearchAttributesDecisionAttributes.SearchAttributes = (case x of None \<Rightarrow> a0 |
       Some y \<Rightarrow> b0 y)\<rparr>"
  by (cases x) simp_all

interpretation UpsertWorkflowSearchAttributesDecisionAttributes: thrift_message W
  "UpsertWorkflowSearchAttributesDecisionAttributes_ToWire W"
      "UpsertWorkflowSearchAttributesDecisionAttributes_FromWire W"
      UpsertWorkflowSearchAttributesDecisionAttributes_zero
      "UpsertWorkflowSearchAttributesDecisionAttributes_complete" for W
proof (rule thrift_messageI)
  fix x :: UpsertWorkflowSearchAttributesDecisionAttributes
  assume laws: "wire_laws W"
  obtain enc0 where e0: "SearchAttributes_ToWire W = (\<lambda>x. Inr (enc0 x))"
      "\<And>x. wire_api.Type W (enc0 x) = TStruct"
      "\<And>x. Writable W (enc0 x) \<longleftrightarrow> SearchAttributes_complete x"
      "\<And>x. SearchAttributes_complete x \<Longrightarrow> SearchAttributes_FromWire W (enc0 x) SearchAttributes_zero
          = Inr x"
    by (rule SearchAttributes.encoder [OF laws]) (rule that)
  show "\<exists>w. UpsertWorkflowSearchAttributesDecisionAttributes_ToWire W x = Inr w \<and> wire_api.Type W w
      = TStruct \<and>
      (Writable W w \<longleftrightarrow> UpsertWorkflowSearchAttributesDecisionAttributes_complete x) \<and>
          (UpsertWorkflowSearchAttributesDecisionAttributes_complete x \<longrightarrow>
          UpsertWorkflowSearchAttributesDecisionAttributes_FromWire W w
          UpsertWorkflowSearchAttributesDecisionAttributes_zero = Inr x)"
    by (cases x) (simp cong: option.case_cong add: codec_rules
        UpsertWorkflowSearchAttributesDecisionAttributes_merge
        UpsertWorkflowSearchAttributesDecisionAttributes_ToWire_def
        UpsertWorkflowSearchAttributesDecisionAttributes_FromWire_def
        UpsertWorkflowSearchAttributesDecisionAttributes_zero_def
        UpsertWorkflowSearchAttributesDecisionAttributes_complete_def if_set_def
        SearchAttributes_Read_def laws e0)
qed

definition UpsertWorkflowSearchAttributesDecisionAttributes_Equals ::
  "UpsertWorkflowSearchAttributesDecisionAttributes option \<Rightarrow>
      UpsertWorkflowSearchAttributesDecisionAttributes option \<Rightarrow> bool" where
  "UpsertWorkflowSearchAttributesDecisionAttributes_Equals v rhs =
     (case v of None \<Rightarrow> rhs = None
      | Some v \<Rightarrow> (case rhs of None \<Rightarrow> False
        | Some rhs \<Rightarrow>
          if \<not> both_set_and (\<lambda>x y. SearchAttributes_Equals (Some x) (Some y))
              (UpsertWorkflowSearchAttributesDecisionAttributes.SearchAttributes v)
              (UpsertWorkflowSearchAttributesDecisionAttributes.SearchAttributes rhs) then False
              else
          True))"

definition UpsertWorkflowSearchAttributesDecisionAttributes_comparable ::
    "UpsertWorkflowSearchAttributesDecisionAttributes \<Rightarrow> bool" where
  "UpsertWorkflowSearchAttributesDecisionAttributes_comparable v \<longleftrightarrow>
     if_set SearchAttributes_comparable
         (UpsertWorkflowSearchAttributesDecisionAttributes.SearchAttributes v)"

lemma UpsertWorkflowSearchAttributesDecisionAttributes_Equals_iff:
  "if_set UpsertWorkflowSearchAttributesDecisionAttributes_comparable x \<Longrightarrow> if_set
      UpsertWorkflowSearchAttributesDecisionAttributes_comparable y \<Longrightarrow>
      UpsertWorkflowSearchAttributesDecisionAttributes_Equals x y \<longleftrightarrow> x = y"
  by (cases x; cases y) (simp_all add: UpsertWorkflowSearchAttributesDecisionAttributes_Equals_def
      UpsertWorkflowSearchAttributesDecisionAttributes_comparable_def if_not_False,
    fastforce intro: UpsertWorkflowSearchAttributesDecisionAttributes.equality)

lemma UpsertWorkflowSearchAttributesDecisionAttributes_fields_equal [simp]:
  "if_set UpsertWorkflowSearchAttributesDecisionAttributes_comparable x \<Longrightarrow> if_set
      UpsertWorkflowSearchAttributesDecisionAttributes_comparable y \<Longrightarrow>
    both_set_and (\<lambda>x y. UpsertWorkflowSearchAttributesDecisionAttributes_Equals (Some x) (Some y)) x
        y \<longleftrightarrow> x = y"
  by (rule both_set_and_iff [where P = UpsertWorkflowSearchAttributesDecisionAttributes_comparable])
      (simp_all add: UpsertWorkflowSearchAttributesDecisionAttributes_Equals_iff)

end
