(* ===== verification/GoHistory.thy ===== *)
theory GoHistory
  imports GoTaskEvents GoEvents GoDecisions
begin

text \<open>
  History events, histories and decisions (proxy/gen/shared/shared.go): the structs that hold one
  set of attributes for each type, and the lists of them, with their codecs and comparisons.
\<close>

record HistoryEvent =
  EventId :: "64 word option"
  Timestamp :: "64 word option"
  EventType :: "EventType option"
  Version :: "64 word option"
  TaskId :: "64 word option"
  WorkflowExecutionStartedEventAttributes :: "WorkflowExecutionStartedEventAttributes option"
  WorkflowExecutionCompletedEventAttributes :: "WorkflowExecutionCompletedEventAttributes option"
  WorkflowExecutionFailedEventAttributes :: "WorkflowExecutionFailedEventAttributes option"
  WorkflowExecutionTimedOutEventAttributes :: "WorkflowExecutionTimedOutEventAttributes option"
  DecisionTaskScheduledEventAttributes :: "DecisionTaskScheduledEventAttributes option"
  DecisionTaskStartedEventAttributes :: "DecisionTaskStartedEventAttributes option"
  DecisionTaskCompletedEventAttributes :: "DecisionTaskCompletedEventAttributes option"
  DecisionTaskTimedOutEventAttributes :: "DecisionTaskTimedOutEventAttributes option"
  DecisionTaskFailedEventAttributes :: "DecisionTaskFailedEventAttributes option"
  ActivityTaskScheduledEventAttributes :: "ActivityTaskScheduledEventAttributes option"
  ActivityTaskStartedEventAttributes :: "ActivityTaskStartedEventAttributes option"
  ActivityTaskCompletedEventAttributes :: "ActivityTaskCompletedEventAttributes option"
  ActivityTaskFailedEventAttributes :: "ActivityTaskFailedEventAttributes option"
  ActivityTaskTimedOutEventAttributes :: "ActivityTaskTimedOutEventAttributes option"
  TimerStartedEventAttributes :: "TimerStartedEventAttributes option"
  TimerFiredEventAttributes :: "TimerFiredEventAttributes option"
  ActivityTaskCancelRequestedEventAttributes :: "ActivityTaskCancelRequestedEventAttributes option"
  RequestCancelActivityTaskFailedEventAttributes :: "RequestCancelActivityTaskFailedEventAttributes
      option"
  ActivityTaskCanceledEventAttributes :: "ActivityTaskCanceledEventAttributes option"
  TimerCanceledEventAttributes :: "TimerCanceledEventAttributes option"
  CancelTimerFailedEventAttributes :: "CancelTimerFailedEventAttributes option"
  MarkerRecordedEventAttributes :: "MarkerRecordedEventAttributes option"
  WorkflowExecutionSignaledEventAttributes :: "WorkflowExecutionSignaledEventAttributes option"
  WorkflowExecutionTerminatedEventAttributes :: "WorkflowExecutionTerminatedEventAttributes option"
  WorkflowExecutionCancelRequestedEventAttributes ::
      "WorkflowExecutionCancelRequestedEventAttributes option"
  WorkflowExecutionCanceledEventAttributes :: "WorkflowExecutionCanceledEventAttributes option"
  RequestCancelExternalWorkflowExecutionInitiatedEventAttributes ::
      "RequestCancelExternalWorkflowExecutionInitiatedEventAttributes option"
  RequestCancelExternalWorkflowExecutionFailedEventAttributes ::
      "RequestCancelExternalWorkflowExecutionFailedEventAttributes option"
  ExternalWorkflowExecutionCancelRequestedEventAttributes ::
      "ExternalWorkflowExecutionCancelRequestedEventAttributes option"
  WorkflowExecutionContinuedAsNewEventAttributes :: "WorkflowExecutionContinuedAsNewEventAttributes
      option"
  StartChildWorkflowExecutionInitiatedEventAttributes ::
      "StartChildWorkflowExecutionInitiatedEventAttributes option"
  StartChildWorkflowExecutionFailedEventAttributes ::
      "StartChildWorkflowExecutionFailedEventAttributes option"
  ChildWorkflowExecutionStartedEventAttributes :: "ChildWorkflowExecutionStartedEventAttributes
      option"
  ChildWorkflowExecutionCompletedEventAttributes :: "ChildWorkflowExecutionCompletedEventAttributes
      option"
  ChildWorkflowExecutionFailedEventAttributes :: "ChildWorkflowExecutionFailedEventAttributes
      option"
  ChildWorkflowExecutionCanceledEventAttributes :: "ChildWorkflowExecutionCanceledEventAttributes
      option"
  ChildWorkflowExecutionTimedOutEventAttributes :: "ChildWorkflowExecutionTimedOutEventAttributes
      option"
  ChildWorkflowExecutionTerminatedEventAttributes ::
      "ChildWorkflowExecutionTerminatedEventAttributes option"
  SignalExternalWorkflowExecutionInitiatedEventAttributes ::
      "SignalExternalWorkflowExecutionInitiatedEventAttributes option"
  SignalExternalWorkflowExecutionFailedEventAttributes ::
      "SignalExternalWorkflowExecutionFailedEventAttributes option"
  ExternalWorkflowExecutionSignaledEventAttributes ::
      "ExternalWorkflowExecutionSignaledEventAttributes option"
  UpsertWorkflowSearchAttributesEventAttributes :: "UpsertWorkflowSearchAttributesEventAttributes
      option"

definition HistoryEvent_zero :: HistoryEvent where
  "HistoryEvent_zero = \<lparr>HistoryEvent.EventId = None, HistoryEvent.Timestamp = None,
      HistoryEvent.EventType = None, HistoryEvent.Version = None, HistoryEvent.TaskId = None,
      HistoryEvent.WorkflowExecutionStartedEventAttributes = None,
      HistoryEvent.WorkflowExecutionCompletedEventAttributes = None,
      HistoryEvent.WorkflowExecutionFailedEventAttributes = None,
      HistoryEvent.WorkflowExecutionTimedOutEventAttributes = None,
      HistoryEvent.DecisionTaskScheduledEventAttributes = None,
      HistoryEvent.DecisionTaskStartedEventAttributes = None,
      HistoryEvent.DecisionTaskCompletedEventAttributes = None,
      HistoryEvent.DecisionTaskTimedOutEventAttributes = None,
      HistoryEvent.DecisionTaskFailedEventAttributes = None,
      HistoryEvent.ActivityTaskScheduledEventAttributes = None,
      HistoryEvent.ActivityTaskStartedEventAttributes = None,
      HistoryEvent.ActivityTaskCompletedEventAttributes = None,
      HistoryEvent.ActivityTaskFailedEventAttributes = None,
      HistoryEvent.ActivityTaskTimedOutEventAttributes = None,
      HistoryEvent.TimerStartedEventAttributes = None, HistoryEvent.TimerFiredEventAttributes =
      None, HistoryEvent.ActivityTaskCancelRequestedEventAttributes = None,
      HistoryEvent.RequestCancelActivityTaskFailedEventAttributes = None,
      HistoryEvent.ActivityTaskCanceledEventAttributes = None,
      HistoryEvent.TimerCanceledEventAttributes = None,
      HistoryEvent.CancelTimerFailedEventAttributes = None,
      HistoryEvent.MarkerRecordedEventAttributes = None,
      HistoryEvent.WorkflowExecutionSignaledEventAttributes = None,
      HistoryEvent.WorkflowExecutionTerminatedEventAttributes = None,
      HistoryEvent.WorkflowExecutionCancelRequestedEventAttributes = None,
      HistoryEvent.WorkflowExecutionCanceledEventAttributes = None,
      HistoryEvent.RequestCancelExternalWorkflowExecutionInitiatedEventAttributes = None,
      HistoryEvent.RequestCancelExternalWorkflowExecutionFailedEventAttributes = None,
      HistoryEvent.ExternalWorkflowExecutionCancelRequestedEventAttributes = None,
      HistoryEvent.WorkflowExecutionContinuedAsNewEventAttributes = None,
      HistoryEvent.StartChildWorkflowExecutionInitiatedEventAttributes = None,
      HistoryEvent.StartChildWorkflowExecutionFailedEventAttributes = None,
      HistoryEvent.ChildWorkflowExecutionStartedEventAttributes = None,
      HistoryEvent.ChildWorkflowExecutionCompletedEventAttributes = None,
      HistoryEvent.ChildWorkflowExecutionFailedEventAttributes = None,
      HistoryEvent.ChildWorkflowExecutionCanceledEventAttributes = None,
      HistoryEvent.ChildWorkflowExecutionTimedOutEventAttributes = None,
      HistoryEvent.ChildWorkflowExecutionTerminatedEventAttributes = None,
      HistoryEvent.SignalExternalWorkflowExecutionInitiatedEventAttributes = None,
      HistoryEvent.SignalExternalWorkflowExecutionFailedEventAttributes = None,
      HistoryEvent.ExternalWorkflowExecutionSignaledEventAttributes = None,
      HistoryEvent.UpsertWorkflowSearchAttributesEventAttributes = None\<rparr>"

definition HistoryEvent_ToWire ::
  "'v wire_api \<Rightarrow> HistoryEvent \<Rightarrow> go_error + 'v" where
  "HistoryEvent_ToWire W v =
     and_then (put_opt 10 (\<lambda>x. Inr (NewValueI64 W x)) (HistoryEvent.EventId v) [])
       (\<lambda>fields.
     and_then (put_opt 20 (\<lambda>x. Inr (NewValueI64 W x)) (HistoryEvent.Timestamp v) fields)
       (\<lambda>fields.
     and_then (put_opt 30 (EventType_ToWire W) (HistoryEvent.EventType v) fields)
       (\<lambda>fields.
     and_then (put_opt 35 (\<lambda>x. Inr (NewValueI64 W x)) (HistoryEvent.Version v) fields)
       (\<lambda>fields.
     and_then (put_opt 36 (\<lambda>x. Inr (NewValueI64 W x)) (HistoryEvent.TaskId v) fields)
       (\<lambda>fields.
     and_then (put_opt 40 (WorkflowExecutionStartedEventAttributes_ToWire W)
         (HistoryEvent.WorkflowExecutionStartedEventAttributes v) fields)
       (\<lambda>fields.
     and_then (put_opt 50 (WorkflowExecutionCompletedEventAttributes_ToWire W)
         (HistoryEvent.WorkflowExecutionCompletedEventAttributes v) fields)
       (\<lambda>fields.
     and_then (put_opt 60 (WorkflowExecutionFailedEventAttributes_ToWire W)
         (HistoryEvent.WorkflowExecutionFailedEventAttributes v) fields)
       (\<lambda>fields.
     and_then (put_opt 70 (WorkflowExecutionTimedOutEventAttributes_ToWire W)
         (HistoryEvent.WorkflowExecutionTimedOutEventAttributes v) fields)
       (\<lambda>fields.
     and_then (put_opt 80 (DecisionTaskScheduledEventAttributes_ToWire W)
         (HistoryEvent.DecisionTaskScheduledEventAttributes v) fields)
       (\<lambda>fields.
     and_then (put_opt 90 (DecisionTaskStartedEventAttributes_ToWire W)
         (HistoryEvent.DecisionTaskStartedEventAttributes v) fields)
       (\<lambda>fields.
     and_then (put_opt 100 (DecisionTaskCompletedEventAttributes_ToWire W)
         (HistoryEvent.DecisionTaskCompletedEventAttributes v) fields)
       (\<lambda>fields.
     and_then (put_opt 110 (DecisionTaskTimedOutEventAttributes_ToWire W)
         (HistoryEvent.DecisionTaskTimedOutEventAttributes v) fields)
       (\<lambda>fields.
     and_then (put_opt 120 (DecisionTaskFailedEventAttributes_ToWire W)
         (HistoryEvent.DecisionTaskFailedEventAttributes v) fields)
       (\<lambda>fields.
     and_then (put_opt 130 (ActivityTaskScheduledEventAttributes_ToWire W)
         (HistoryEvent.ActivityTaskScheduledEventAttributes v) fields)
       (\<lambda>fields.
     and_then (put_opt 140 (ActivityTaskStartedEventAttributes_ToWire W)
         (HistoryEvent.ActivityTaskStartedEventAttributes v) fields)
       (\<lambda>fields.
     and_then (put_opt 150 (ActivityTaskCompletedEventAttributes_ToWire W)
         (HistoryEvent.ActivityTaskCompletedEventAttributes v) fields)
       (\<lambda>fields.
     and_then (put_opt 160 (ActivityTaskFailedEventAttributes_ToWire W)
         (HistoryEvent.ActivityTaskFailedEventAttributes v) fields)
       (\<lambda>fields.
     and_then (put_opt 170 (ActivityTaskTimedOutEventAttributes_ToWire W)
         (HistoryEvent.ActivityTaskTimedOutEventAttributes v) fields)
       (\<lambda>fields.
     and_then (put_opt 180 (TimerStartedEventAttributes_ToWire W)
         (HistoryEvent.TimerStartedEventAttributes v) fields)
       (\<lambda>fields.
     and_then (put_opt 190 (TimerFiredEventAttributes_ToWire W)
         (HistoryEvent.TimerFiredEventAttributes v) fields)
       (\<lambda>fields.
     and_then (put_opt 200 (ActivityTaskCancelRequestedEventAttributes_ToWire W)
         (HistoryEvent.ActivityTaskCancelRequestedEventAttributes v) fields)
       (\<lambda>fields.
     and_then (put_opt 210 (RequestCancelActivityTaskFailedEventAttributes_ToWire W)
         (HistoryEvent.RequestCancelActivityTaskFailedEventAttributes v) fields)
       (\<lambda>fields.
     and_then (put_opt 220 (ActivityTaskCanceledEventAttributes_ToWire W)
         (HistoryEvent.ActivityTaskCanceledEventAttributes v) fields)
       (\<lambda>fields.
     and_then (put_opt 230 (TimerCanceledEventAttributes_ToWire W)
         (HistoryEvent.TimerCanceledEventAttributes v) fields)
       (\<lambda>fields.
     and_then (put_opt 240 (CancelTimerFailedEventAttributes_ToWire W)
         (HistoryEvent.CancelTimerFailedEventAttributes v) fields)
       (\<lambda>fields.
     and_then (put_opt 250 (MarkerRecordedEventAttributes_ToWire W)
         (HistoryEvent.MarkerRecordedEventAttributes v) fields)
       (\<lambda>fields.
     and_then (put_opt 260 (WorkflowExecutionSignaledEventAttributes_ToWire W)
         (HistoryEvent.WorkflowExecutionSignaledEventAttributes v) fields)
       (\<lambda>fields.
     and_then (put_opt 270 (WorkflowExecutionTerminatedEventAttributes_ToWire W)
         (HistoryEvent.WorkflowExecutionTerminatedEventAttributes v) fields)
       (\<lambda>fields.
     and_then (put_opt 280 (WorkflowExecutionCancelRequestedEventAttributes_ToWire W)
         (HistoryEvent.WorkflowExecutionCancelRequestedEventAttributes v) fields)
       (\<lambda>fields.
     and_then (put_opt 290 (WorkflowExecutionCanceledEventAttributes_ToWire W)
         (HistoryEvent.WorkflowExecutionCanceledEventAttributes v) fields)
       (\<lambda>fields.
     and_then (put_opt 300 (RequestCancelExternalWorkflowExecutionInitiatedEventAttributes_ToWire W)
         (HistoryEvent.RequestCancelExternalWorkflowExecutionInitiatedEventAttributes v) fields)
       (\<lambda>fields.
     and_then (put_opt 310 (RequestCancelExternalWorkflowExecutionFailedEventAttributes_ToWire W)
         (HistoryEvent.RequestCancelExternalWorkflowExecutionFailedEventAttributes v) fields)
       (\<lambda>fields.
     and_then (put_opt 320 (ExternalWorkflowExecutionCancelRequestedEventAttributes_ToWire W)
         (HistoryEvent.ExternalWorkflowExecutionCancelRequestedEventAttributes v) fields)
       (\<lambda>fields.
     and_then (put_opt 330 (WorkflowExecutionContinuedAsNewEventAttributes_ToWire W)
         (HistoryEvent.WorkflowExecutionContinuedAsNewEventAttributes v) fields)
       (\<lambda>fields.
     and_then (put_opt 340 (StartChildWorkflowExecutionInitiatedEventAttributes_ToWire W)
         (HistoryEvent.StartChildWorkflowExecutionInitiatedEventAttributes v) fields)
       (\<lambda>fields.
     and_then (put_opt 350 (StartChildWorkflowExecutionFailedEventAttributes_ToWire W)
         (HistoryEvent.StartChildWorkflowExecutionFailedEventAttributes v) fields)
       (\<lambda>fields.
     and_then (put_opt 360 (ChildWorkflowExecutionStartedEventAttributes_ToWire W)
         (HistoryEvent.ChildWorkflowExecutionStartedEventAttributes v) fields)
       (\<lambda>fields.
     and_then (put_opt 370 (ChildWorkflowExecutionCompletedEventAttributes_ToWire W)
         (HistoryEvent.ChildWorkflowExecutionCompletedEventAttributes v) fields)
       (\<lambda>fields.
     and_then (put_opt 380 (ChildWorkflowExecutionFailedEventAttributes_ToWire W)
         (HistoryEvent.ChildWorkflowExecutionFailedEventAttributes v) fields)
       (\<lambda>fields.
     and_then (put_opt 390 (ChildWorkflowExecutionCanceledEventAttributes_ToWire W)
         (HistoryEvent.ChildWorkflowExecutionCanceledEventAttributes v) fields)
       (\<lambda>fields.
     and_then (put_opt 400 (ChildWorkflowExecutionTimedOutEventAttributes_ToWire W)
         (HistoryEvent.ChildWorkflowExecutionTimedOutEventAttributes v) fields)
       (\<lambda>fields.
     and_then (put_opt 410 (ChildWorkflowExecutionTerminatedEventAttributes_ToWire W)
         (HistoryEvent.ChildWorkflowExecutionTerminatedEventAttributes v) fields)
       (\<lambda>fields.
     and_then (put_opt 420 (SignalExternalWorkflowExecutionInitiatedEventAttributes_ToWire W)
         (HistoryEvent.SignalExternalWorkflowExecutionInitiatedEventAttributes v) fields)
       (\<lambda>fields.
     and_then (put_opt 430 (SignalExternalWorkflowExecutionFailedEventAttributes_ToWire W)
         (HistoryEvent.SignalExternalWorkflowExecutionFailedEventAttributes v) fields)
       (\<lambda>fields.
     and_then (put_opt 440 (ExternalWorkflowExecutionSignaledEventAttributes_ToWire W)
         (HistoryEvent.ExternalWorkflowExecutionSignaledEventAttributes v) fields)
       (\<lambda>fields.
     and_then (put_opt 450 (UpsertWorkflowSearchAttributesEventAttributes_ToWire W)
         (HistoryEvent.UpsertWorkflowSearchAttributesEventAttributes v) fields)
       (\<lambda>fields.
     Inr (NewValueStruct W fields))))))))))))))))))))))))))))))))))))))))))))))))"

definition HistoryEvent_FromWire ::
  "'v wire_api \<Rightarrow> 'v \<Rightarrow> HistoryEvent \<Rightarrow> go_error + HistoryEvent" where
  "HistoryEvent_FromWire W w v =
     foldM (\<lambda>v (fid, fval).
       if fid = 10 then
         if wire_api.Type W fval = TI64
         then Inr (v\<lparr>HistoryEvent.EventId := Some (GetI64 W fval)\<rparr>)
         else Inr v
       else if fid = 20 then
         if wire_api.Type W fval = TI64
         then Inr (v\<lparr>HistoryEvent.Timestamp := Some (GetI64 W fval)\<rparr>)
         else Inr v
       else if fid = 30 then
         if wire_api.Type W fval = TI32
         then and_then (EventType_Read W fval) (\<lambda>x. Inr (v\<lparr>HistoryEvent.EventType := Some x\<rparr>))
         else Inr v
       else if fid = 35 then
         if wire_api.Type W fval = TI64
         then Inr (v\<lparr>HistoryEvent.Version := Some (GetI64 W fval)\<rparr>)
         else Inr v
       else if fid = 36 then
         if wire_api.Type W fval = TI64
         then Inr (v\<lparr>HistoryEvent.TaskId := Some (GetI64 W fval)\<rparr>)
         else Inr v
       else if fid = 40 then
         if wire_api.Type W fval = TStruct
         then and_then (WorkflowExecutionStartedEventAttributes_Read W fval) (\<lambda>x. Inr
             (v\<lparr>HistoryEvent.WorkflowExecutionStartedEventAttributes := Some x\<rparr>))
         else Inr v
       else if fid = 50 then
         if wire_api.Type W fval = TStruct
         then and_then (WorkflowExecutionCompletedEventAttributes_Read W fval) (\<lambda>x. Inr
             (v\<lparr>HistoryEvent.WorkflowExecutionCompletedEventAttributes := Some x\<rparr>))
         else Inr v
       else if fid = 60 then
         if wire_api.Type W fval = TStruct
         then and_then (WorkflowExecutionFailedEventAttributes_Read W fval) (\<lambda>x. Inr
             (v\<lparr>HistoryEvent.WorkflowExecutionFailedEventAttributes := Some x\<rparr>))
         else Inr v
       else if fid = 70 then
         if wire_api.Type W fval = TStruct
         then and_then (WorkflowExecutionTimedOutEventAttributes_Read W fval) (\<lambda>x. Inr
             (v\<lparr>HistoryEvent.WorkflowExecutionTimedOutEventAttributes := Some x\<rparr>))
         else Inr v
       else if fid = 80 then
         if wire_api.Type W fval = TStruct
         then and_then (DecisionTaskScheduledEventAttributes_Read W fval) (\<lambda>x. Inr
             (v\<lparr>HistoryEvent.DecisionTaskScheduledEventAttributes := Some x\<rparr>))
         else Inr v
       else if fid = 90 then
         if wire_api.Type W fval = TStruct
         then and_then (DecisionTaskStartedEventAttributes_Read W fval) (\<lambda>x. Inr
             (v\<lparr>HistoryEvent.DecisionTaskStartedEventAttributes := Some x\<rparr>))
         else Inr v
       else if fid = 100 then
         if wire_api.Type W fval = TStruct
         then and_then (DecisionTaskCompletedEventAttributes_Read W fval) (\<lambda>x. Inr
             (v\<lparr>HistoryEvent.DecisionTaskCompletedEventAttributes := Some x\<rparr>))
         else Inr v
       else if fid = 110 then
         if wire_api.Type W fval = TStruct
         then and_then (DecisionTaskTimedOutEventAttributes_Read W fval) (\<lambda>x. Inr
             (v\<lparr>HistoryEvent.DecisionTaskTimedOutEventAttributes := Some x\<rparr>))
         else Inr v
       else if fid = 120 then
         if wire_api.Type W fval = TStruct
         then and_then (DecisionTaskFailedEventAttributes_Read W fval) (\<lambda>x. Inr
             (v\<lparr>HistoryEvent.DecisionTaskFailedEventAttributes := Some x\<rparr>))
         else Inr v
       else if fid = 130 then
         if wire_api.Type W fval = TStruct
         then and_then (ActivityTaskScheduledEventAttributes_Read W fval) (\<lambda>x. Inr
             (v\<lparr>HistoryEvent.ActivityTaskScheduledEventAttributes := Some x\<rparr>))
         else Inr v
       else if fid = 140 then
         if wire_api.Type W fval = TStruct
         then and_then (ActivityTaskStartedEventAttributes_Read W fval) (\<lambda>x. Inr
             (v\<lparr>HistoryEvent.ActivityTaskStartedEventAttributes := Some x\<rparr>))
         else Inr v
       else if fid = 150 then
         if wire_api.Type W fval = TStruct
         then and_then (ActivityTaskCompletedEventAttributes_Read W fval) (\<lambda>x. Inr
             (v\<lparr>HistoryEvent.ActivityTaskCompletedEventAttributes := Some x\<rparr>))
         else Inr v
       else if fid = 160 then
         if wire_api.Type W fval = TStruct
         then and_then (ActivityTaskFailedEventAttributes_Read W fval) (\<lambda>x. Inr
             (v\<lparr>HistoryEvent.ActivityTaskFailedEventAttributes := Some x\<rparr>))
         else Inr v
       else if fid = 170 then
         if wire_api.Type W fval = TStruct
         then and_then (ActivityTaskTimedOutEventAttributes_Read W fval) (\<lambda>x. Inr
             (v\<lparr>HistoryEvent.ActivityTaskTimedOutEventAttributes := Some x\<rparr>))
         else Inr v
       else if fid = 180 then
         if wire_api.Type W fval = TStruct
         then and_then (TimerStartedEventAttributes_Read W fval) (\<lambda>x. Inr
             (v\<lparr>HistoryEvent.TimerStartedEventAttributes := Some x\<rparr>))
         else Inr v
       else if fid = 190 then
         if wire_api.Type W fval = TStruct
         then and_then (TimerFiredEventAttributes_Read W fval) (\<lambda>x. Inr
             (v\<lparr>HistoryEvent.TimerFiredEventAttributes := Some x\<rparr>))
         else Inr v
       else if fid = 200 then
         if wire_api.Type W fval = TStruct
         then and_then (ActivityTaskCancelRequestedEventAttributes_Read W fval) (\<lambda>x. Inr
             (v\<lparr>HistoryEvent.ActivityTaskCancelRequestedEventAttributes := Some x\<rparr>))
         else Inr v
       else if fid = 210 then
         if wire_api.Type W fval = TStruct
         then and_then (RequestCancelActivityTaskFailedEventAttributes_Read W fval) (\<lambda>x. Inr
             (v\<lparr>HistoryEvent.RequestCancelActivityTaskFailedEventAttributes := Some x\<rparr>))
         else Inr v
       else if fid = 220 then
         if wire_api.Type W fval = TStruct
         then and_then (ActivityTaskCanceledEventAttributes_Read W fval) (\<lambda>x. Inr
             (v\<lparr>HistoryEvent.ActivityTaskCanceledEventAttributes := Some x\<rparr>))
         else Inr v
       else if fid = 230 then
         if wire_api.Type W fval = TStruct
         then and_then (TimerCanceledEventAttributes_Read W fval) (\<lambda>x. Inr
             (v\<lparr>HistoryEvent.TimerCanceledEventAttributes := Some x\<rparr>))
         else Inr v
       else if fid = 240 then
         if wire_api.Type W fval = TStruct
         then and_then (CancelTimerFailedEventAttributes_Read W fval) (\<lambda>x. Inr
             (v\<lparr>HistoryEvent.CancelTimerFailedEventAttributes := Some x\<rparr>))
         else Inr v
       else if fid = 250 then
         if wire_api.Type W fval = TStruct
         then and_then (MarkerRecordedEventAttributes_Read W fval) (\<lambda>x. Inr
             (v\<lparr>HistoryEvent.MarkerRecordedEventAttributes := Some x\<rparr>))
         else Inr v
       else if fid = 260 then
         if wire_api.Type W fval = TStruct
         then and_then (WorkflowExecutionSignaledEventAttributes_Read W fval) (\<lambda>x. Inr
             (v\<lparr>HistoryEvent.WorkflowExecutionSignaledEventAttributes := Some x\<rparr>))
         else Inr v
       else if fid = 270 then
         if wire_api.Type W fval = TStruct
         then and_then (WorkflowExecutionTerminatedEventAttributes_Read W fval) (\<lambda>x. Inr
             (v\<lparr>HistoryEvent.WorkflowExecutionTerminatedEventAttributes := Some x\<rparr>))
         else Inr v
       else if fid = 280 then
         if wire_api.Type W fval = TStruct
         then and_then (WorkflowExecutionCancelRequestedEventAttributes_Read W fval) (\<lambda>x. Inr
             (v\<lparr>HistoryEvent.WorkflowExecutionCancelRequestedEventAttributes := Some x\<rparr>))
         else Inr v
       else if fid = 290 then
         if wire_api.Type W fval = TStruct
         then and_then (WorkflowExecutionCanceledEventAttributes_Read W fval) (\<lambda>x. Inr
             (v\<lparr>HistoryEvent.WorkflowExecutionCanceledEventAttributes := Some x\<rparr>))
         else Inr v
       else if fid = 300 then
         if wire_api.Type W fval = TStruct
         then and_then (RequestCancelExternalWorkflowExecutionInitiatedEventAttributes_Read W fval)
             (\<lambda>x. Inr (v\<lparr>HistoryEvent.RequestCancelExternalWorkflowExecutionInitiatedEventAttributes
             := Some x\<rparr>))
         else Inr v
       else if fid = 310 then
         if wire_api.Type W fval = TStruct
         then and_then (RequestCancelExternalWorkflowExecutionFailedEventAttributes_Read W fval)
             (\<lambda>x. Inr (v\<lparr>HistoryEvent.RequestCancelExternalWorkflowExecutionFailedEventAttributes :=
             Some x\<rparr>))
         else Inr v
       else if fid = 320 then
         if wire_api.Type W fval = TStruct
         then and_then (ExternalWorkflowExecutionCancelRequestedEventAttributes_Read W fval) (\<lambda>x.
             Inr (v\<lparr>HistoryEvent.ExternalWorkflowExecutionCancelRequestedEventAttributes := Some
             x\<rparr>))
         else Inr v
       else if fid = 330 then
         if wire_api.Type W fval = TStruct
         then and_then (WorkflowExecutionContinuedAsNewEventAttributes_Read W fval) (\<lambda>x. Inr
             (v\<lparr>HistoryEvent.WorkflowExecutionContinuedAsNewEventAttributes := Some x\<rparr>))
         else Inr v
       else if fid = 340 then
         if wire_api.Type W fval = TStruct
         then and_then (StartChildWorkflowExecutionInitiatedEventAttributes_Read W fval) (\<lambda>x. Inr
             (v\<lparr>HistoryEvent.StartChildWorkflowExecutionInitiatedEventAttributes := Some x\<rparr>))
         else Inr v
       else if fid = 350 then
         if wire_api.Type W fval = TStruct
         then and_then (StartChildWorkflowExecutionFailedEventAttributes_Read W fval) (\<lambda>x. Inr
             (v\<lparr>HistoryEvent.StartChildWorkflowExecutionFailedEventAttributes := Some x\<rparr>))
         else Inr v
       else if fid = 360 then
         if wire_api.Type W fval = TStruct
         then and_then (ChildWorkflowExecutionStartedEventAttributes_Read W fval) (\<lambda>x. Inr
             (v\<lparr>HistoryEvent.ChildWorkflowExecutionStartedEventAttributes := Some x\<rparr>))
         else Inr v
       else if fid = 370 then
         if wire_api.Type W fval = TStruct
         then and_then (ChildWorkflowExecutionCompletedEventAttributes_Read W fval) (\<lambda>x. Inr
             (v\<lparr>HistoryEvent.ChildWorkflowExecutionCompletedEventAttributes := Some x\<rparr>))
         else Inr v
       else if fid = 380 then
         if wire_api.Type W fval = TStruct
         then and_then (ChildWorkflowExecutionFailedEventAttributes_Read W fval) (\<lambda>x. Inr
             (v\<lparr>HistoryEvent.ChildWorkflowExecutionFailedEventAttributes := Some x\<rparr>))
         else Inr v
       else if fid = 390 then
         if wire_api.Type W fval = TStruct
         then and_then (ChildWorkflowExecutionCanceledEventAttributes_Read W fval) (\<lambda>x. Inr
             (v\<lparr>HistoryEvent.ChildWorkflowExecutionCanceledEventAttributes := Some x\<rparr>))
         else Inr v
       else if fid = 400 then
         if wire_api.Type W fval = TStruct
         then and_then (ChildWorkflowExecutionTimedOutEventAttributes_Read W fval) (\<lambda>x. Inr
             (v\<lparr>HistoryEvent.ChildWorkflowExecutionTimedOutEventAttributes := Some x\<rparr>))
         else Inr v
       else if fid = 410 then
         if wire_api.Type W fval = TStruct
         then and_then (ChildWorkflowExecutionTerminatedEventAttributes_Read W fval) (\<lambda>x. Inr
             (v\<lparr>HistoryEvent.ChildWorkflowExecutionTerminatedEventAttributes := Some x\<rparr>))
         else Inr v
       else if fid = 420 then
         if wire_api.Type W fval = TStruct
         then and_then (SignalExternalWorkflowExecutionInitiatedEventAttributes_Read W fval) (\<lambda>x.
             Inr (v\<lparr>HistoryEvent.SignalExternalWorkflowExecutionInitiatedEventAttributes := Some
             x\<rparr>))
         else Inr v
       else if fid = 430 then
         if wire_api.Type W fval = TStruct
         then and_then (SignalExternalWorkflowExecutionFailedEventAttributes_Read W fval) (\<lambda>x. Inr
             (v\<lparr>HistoryEvent.SignalExternalWorkflowExecutionFailedEventAttributes := Some x\<rparr>))
         else Inr v
       else if fid = 440 then
         if wire_api.Type W fval = TStruct
         then and_then (ExternalWorkflowExecutionSignaledEventAttributes_Read W fval) (\<lambda>x. Inr
             (v\<lparr>HistoryEvent.ExternalWorkflowExecutionSignaledEventAttributes := Some x\<rparr>))
         else Inr v
       else if fid = 450 then
         if wire_api.Type W fval = TStruct
         then and_then (UpsertWorkflowSearchAttributesEventAttributes_Read W fval) (\<lambda>x. Inr
             (v\<lparr>HistoryEvent.UpsertWorkflowSearchAttributesEventAttributes := Some x\<rparr>))
         else Inr v
       else Inr v) (GetStruct W w) v"

definition HistoryEvent_Read :: "'v wire_api \<Rightarrow> 'v \<Rightarrow> go_error + HistoryEvent" where
  "HistoryEvent_Read W w = HistoryEvent_FromWire W w HistoryEvent_zero"

definition HistoryEvent_complete :: "HistoryEvent \<Rightarrow> bool" where
  "HistoryEvent_complete v \<longleftrightarrow>
     if_set WorkflowExecutionStartedEventAttributes_complete
         (HistoryEvent.WorkflowExecutionStartedEventAttributes v) \<and>
     if_set ActivityTaskScheduledEventAttributes_complete
         (HistoryEvent.ActivityTaskScheduledEventAttributes v) \<and>
     if_set MarkerRecordedEventAttributes_complete (HistoryEvent.MarkerRecordedEventAttributes v) \<and>
     if_set WorkflowExecutionContinuedAsNewEventAttributes_complete
         (HistoryEvent.WorkflowExecutionContinuedAsNewEventAttributes v) \<and>
     if_set StartChildWorkflowExecutionInitiatedEventAttributes_complete
         (HistoryEvent.StartChildWorkflowExecutionInitiatedEventAttributes v) \<and>
     if_set ChildWorkflowExecutionStartedEventAttributes_complete
         (HistoryEvent.ChildWorkflowExecutionStartedEventAttributes v) \<and>
     if_set UpsertWorkflowSearchAttributesEventAttributes_complete
         (HistoryEvent.UpsertWorkflowSearchAttributesEventAttributes v)"

lemma HistoryEvent_merge:
  "(case x of None \<Rightarrow> Inr \<lparr>HistoryEvent.EventId = a0, HistoryEvent.Timestamp = a1,
      HistoryEvent.EventType = a2, HistoryEvent.Version = a3, HistoryEvent.TaskId = a4,
      HistoryEvent.WorkflowExecutionStartedEventAttributes = a5,
      HistoryEvent.WorkflowExecutionCompletedEventAttributes = a6,
      HistoryEvent.WorkflowExecutionFailedEventAttributes = a7,
      HistoryEvent.WorkflowExecutionTimedOutEventAttributes = a8,
      HistoryEvent.DecisionTaskScheduledEventAttributes = a9,
      HistoryEvent.DecisionTaskStartedEventAttributes = a10,
      HistoryEvent.DecisionTaskCompletedEventAttributes = a11,
      HistoryEvent.DecisionTaskTimedOutEventAttributes = a12,
      HistoryEvent.DecisionTaskFailedEventAttributes = a13,
      HistoryEvent.ActivityTaskScheduledEventAttributes = a14,
      HistoryEvent.ActivityTaskStartedEventAttributes = a15,
      HistoryEvent.ActivityTaskCompletedEventAttributes = a16,
      HistoryEvent.ActivityTaskFailedEventAttributes = a17,
      HistoryEvent.ActivityTaskTimedOutEventAttributes = a18,
      HistoryEvent.TimerStartedEventAttributes = a19, HistoryEvent.TimerFiredEventAttributes = a20,
      HistoryEvent.ActivityTaskCancelRequestedEventAttributes = a21,
      HistoryEvent.RequestCancelActivityTaskFailedEventAttributes = a22,
      HistoryEvent.ActivityTaskCanceledEventAttributes = a23,
      HistoryEvent.TimerCanceledEventAttributes = a24, HistoryEvent.CancelTimerFailedEventAttributes
      = a25, HistoryEvent.MarkerRecordedEventAttributes = a26,
      HistoryEvent.WorkflowExecutionSignaledEventAttributes = a27,
      HistoryEvent.WorkflowExecutionTerminatedEventAttributes = a28,
      HistoryEvent.WorkflowExecutionCancelRequestedEventAttributes = a29,
      HistoryEvent.WorkflowExecutionCanceledEventAttributes = a30,
      HistoryEvent.RequestCancelExternalWorkflowExecutionInitiatedEventAttributes = a31,
      HistoryEvent.RequestCancelExternalWorkflowExecutionFailedEventAttributes = a32,
      HistoryEvent.ExternalWorkflowExecutionCancelRequestedEventAttributes = a33,
      HistoryEvent.WorkflowExecutionContinuedAsNewEventAttributes = a34,
      HistoryEvent.StartChildWorkflowExecutionInitiatedEventAttributes = a35,
      HistoryEvent.StartChildWorkflowExecutionFailedEventAttributes = a36,
      HistoryEvent.ChildWorkflowExecutionStartedEventAttributes = a37,
      HistoryEvent.ChildWorkflowExecutionCompletedEventAttributes = a38,
      HistoryEvent.ChildWorkflowExecutionFailedEventAttributes = a39,
      HistoryEvent.ChildWorkflowExecutionCanceledEventAttributes = a40,
      HistoryEvent.ChildWorkflowExecutionTimedOutEventAttributes = a41,
      HistoryEvent.ChildWorkflowExecutionTerminatedEventAttributes = a42,
      HistoryEvent.SignalExternalWorkflowExecutionInitiatedEventAttributes = a43,
      HistoryEvent.SignalExternalWorkflowExecutionFailedEventAttributes = a44,
      HistoryEvent.ExternalWorkflowExecutionSignaledEventAttributes = a45,
      HistoryEvent.UpsertWorkflowSearchAttributesEventAttributes = a46\<rparr> | Some y \<Rightarrow> Inr
      \<lparr>HistoryEvent.EventId = b0 y, HistoryEvent.Timestamp = b1 y, HistoryEvent.EventType = b2 y,
      HistoryEvent.Version = b3 y, HistoryEvent.TaskId = b4 y,
      HistoryEvent.WorkflowExecutionStartedEventAttributes = b5 y,
      HistoryEvent.WorkflowExecutionCompletedEventAttributes = b6 y,
      HistoryEvent.WorkflowExecutionFailedEventAttributes = b7 y,
      HistoryEvent.WorkflowExecutionTimedOutEventAttributes = b8 y,
      HistoryEvent.DecisionTaskScheduledEventAttributes = b9 y,
      HistoryEvent.DecisionTaskStartedEventAttributes = b10 y,
      HistoryEvent.DecisionTaskCompletedEventAttributes = b11 y,
      HistoryEvent.DecisionTaskTimedOutEventAttributes = b12 y,
      HistoryEvent.DecisionTaskFailedEventAttributes = b13 y,
      HistoryEvent.ActivityTaskScheduledEventAttributes = b14 y,
      HistoryEvent.ActivityTaskStartedEventAttributes = b15 y,
      HistoryEvent.ActivityTaskCompletedEventAttributes = b16 y,
      HistoryEvent.ActivityTaskFailedEventAttributes = b17 y,
      HistoryEvent.ActivityTaskTimedOutEventAttributes = b18 y,
      HistoryEvent.TimerStartedEventAttributes = b19 y, HistoryEvent.TimerFiredEventAttributes = b20
      y, HistoryEvent.ActivityTaskCancelRequestedEventAttributes = b21 y,
      HistoryEvent.RequestCancelActivityTaskFailedEventAttributes = b22 y,
      HistoryEvent.ActivityTaskCanceledEventAttributes = b23 y,
      HistoryEvent.TimerCanceledEventAttributes = b24 y,
      HistoryEvent.CancelTimerFailedEventAttributes = b25 y,
      HistoryEvent.MarkerRecordedEventAttributes = b26 y,
      HistoryEvent.WorkflowExecutionSignaledEventAttributes = b27 y,
      HistoryEvent.WorkflowExecutionTerminatedEventAttributes = b28 y,
      HistoryEvent.WorkflowExecutionCancelRequestedEventAttributes = b29 y,
      HistoryEvent.WorkflowExecutionCanceledEventAttributes = b30 y,
      HistoryEvent.RequestCancelExternalWorkflowExecutionInitiatedEventAttributes = b31 y,
      HistoryEvent.RequestCancelExternalWorkflowExecutionFailedEventAttributes = b32 y,
      HistoryEvent.ExternalWorkflowExecutionCancelRequestedEventAttributes = b33 y,
      HistoryEvent.WorkflowExecutionContinuedAsNewEventAttributes = b34 y,
      HistoryEvent.StartChildWorkflowExecutionInitiatedEventAttributes = b35 y,
      HistoryEvent.StartChildWorkflowExecutionFailedEventAttributes = b36 y,
      HistoryEvent.ChildWorkflowExecutionStartedEventAttributes = b37 y,
      HistoryEvent.ChildWorkflowExecutionCompletedEventAttributes = b38 y,
      HistoryEvent.ChildWorkflowExecutionFailedEventAttributes = b39 y,
      HistoryEvent.ChildWorkflowExecutionCanceledEventAttributes = b40 y,
      HistoryEvent.ChildWorkflowExecutionTimedOutEventAttributes = b41 y,
      HistoryEvent.ChildWorkflowExecutionTerminatedEventAttributes = b42 y,
      HistoryEvent.SignalExternalWorkflowExecutionInitiatedEventAttributes = b43 y,
      HistoryEvent.SignalExternalWorkflowExecutionFailedEventAttributes = b44 y,
      HistoryEvent.ExternalWorkflowExecutionSignaledEventAttributes = b45 y,
      HistoryEvent.UpsertWorkflowSearchAttributesEventAttributes = b46 y\<rparr>) =
   Inr \<lparr>HistoryEvent.EventId = (case x of None \<Rightarrow> a0 | Some y \<Rightarrow> b0 y), HistoryEvent.Timestamp = (case
       x of None \<Rightarrow> a1 | Some y \<Rightarrow> b1 y), HistoryEvent.EventType = (case x of None \<Rightarrow> a2 | Some y \<Rightarrow> b2
       y), HistoryEvent.Version = (case x of None \<Rightarrow> a3 | Some y \<Rightarrow> b3 y), HistoryEvent.TaskId = (case
       x of None \<Rightarrow> a4 | Some y \<Rightarrow> b4 y), HistoryEvent.WorkflowExecutionStartedEventAttributes = (case
       x of None \<Rightarrow> a5 | Some y \<Rightarrow> b5 y), HistoryEvent.WorkflowExecutionCompletedEventAttributes =
       (case x of None \<Rightarrow> a6 | Some y \<Rightarrow> b6 y), HistoryEvent.WorkflowExecutionFailedEventAttributes =
       (case x of None \<Rightarrow> a7 | Some y \<Rightarrow> b7 y), HistoryEvent.WorkflowExecutionTimedOutEventAttributes
       = (case x of None \<Rightarrow> a8 | Some y \<Rightarrow> b8 y), HistoryEvent.DecisionTaskScheduledEventAttributes =
       (case x of None \<Rightarrow> a9 | Some y \<Rightarrow> b9 y), HistoryEvent.DecisionTaskStartedEventAttributes =
       (case x of None \<Rightarrow> a10 | Some y \<Rightarrow> b10 y), HistoryEvent.DecisionTaskCompletedEventAttributes =
       (case x of None \<Rightarrow> a11 | Some y \<Rightarrow> b11 y), HistoryEvent.DecisionTaskTimedOutEventAttributes =
       (case x of None \<Rightarrow> a12 | Some y \<Rightarrow> b12 y), HistoryEvent.DecisionTaskFailedEventAttributes =
       (case x of None \<Rightarrow> a13 | Some y \<Rightarrow> b13 y), HistoryEvent.ActivityTaskScheduledEventAttributes =
       (case x of None \<Rightarrow> a14 | Some y \<Rightarrow> b14 y), HistoryEvent.ActivityTaskStartedEventAttributes =
       (case x of None \<Rightarrow> a15 | Some y \<Rightarrow> b15 y), HistoryEvent.ActivityTaskCompletedEventAttributes =
       (case x of None \<Rightarrow> a16 | Some y \<Rightarrow> b16 y), HistoryEvent.ActivityTaskFailedEventAttributes =
       (case x of None \<Rightarrow> a17 | Some y \<Rightarrow> b17 y), HistoryEvent.ActivityTaskTimedOutEventAttributes =
       (case x of None \<Rightarrow> a18 | Some y \<Rightarrow> b18 y), HistoryEvent.TimerStartedEventAttributes = (case x
       of None \<Rightarrow> a19 | Some y \<Rightarrow> b19 y), HistoryEvent.TimerFiredEventAttributes = (case x of None \<Rightarrow>
       a20 | Some y \<Rightarrow> b20 y), HistoryEvent.ActivityTaskCancelRequestedEventAttributes = (case x of
       None \<Rightarrow> a21 | Some y \<Rightarrow> b21 y), HistoryEvent.RequestCancelActivityTaskFailedEventAttributes =
       (case x of None \<Rightarrow> a22 | Some y \<Rightarrow> b22 y), HistoryEvent.ActivityTaskCanceledEventAttributes =
       (case x of None \<Rightarrow> a23 | Some y \<Rightarrow> b23 y), HistoryEvent.TimerCanceledEventAttributes = (case x
       of None \<Rightarrow> a24 | Some y \<Rightarrow> b24 y), HistoryEvent.CancelTimerFailedEventAttributes = (case x of
       None \<Rightarrow> a25 | Some y \<Rightarrow> b25 y), HistoryEvent.MarkerRecordedEventAttributes = (case x of None \<Rightarrow>
       a26 | Some y \<Rightarrow> b26 y), HistoryEvent.WorkflowExecutionSignaledEventAttributes = (case x of
       None \<Rightarrow> a27 | Some y \<Rightarrow> b27 y), HistoryEvent.WorkflowExecutionTerminatedEventAttributes = (case
       x of None \<Rightarrow> a28 | Some y \<Rightarrow> b28 y),
       HistoryEvent.WorkflowExecutionCancelRequestedEventAttributes = (case x of None \<Rightarrow> a29 | Some y
       \<Rightarrow> b29 y), HistoryEvent.WorkflowExecutionCanceledEventAttributes = (case x of None \<Rightarrow> a30 |
       Some y \<Rightarrow> b30 y), HistoryEvent.RequestCancelExternalWorkflowExecutionInitiatedEventAttributes
       = (case x of None \<Rightarrow> a31 | Some y \<Rightarrow> b31 y),
       HistoryEvent.RequestCancelExternalWorkflowExecutionFailedEventAttributes = (case x of None \<Rightarrow>
       a32 | Some y \<Rightarrow> b32 y), HistoryEvent.ExternalWorkflowExecutionCancelRequestedEventAttributes =
       (case x of None \<Rightarrow> a33 | Some y \<Rightarrow> b33 y),
       HistoryEvent.WorkflowExecutionContinuedAsNewEventAttributes = (case x of None \<Rightarrow> a34 | Some y
       \<Rightarrow> b34 y), HistoryEvent.StartChildWorkflowExecutionInitiatedEventAttributes = (case x of None
       \<Rightarrow> a35 | Some y \<Rightarrow> b35 y), HistoryEvent.StartChildWorkflowExecutionFailedEventAttributes =
       (case x of None \<Rightarrow> a36 | Some y \<Rightarrow> b36 y),
       HistoryEvent.ChildWorkflowExecutionStartedEventAttributes = (case x of None \<Rightarrow> a37 | Some y \<Rightarrow>
       b37 y), HistoryEvent.ChildWorkflowExecutionCompletedEventAttributes = (case x of None \<Rightarrow> a38 |
       Some y \<Rightarrow> b38 y), HistoryEvent.ChildWorkflowExecutionFailedEventAttributes = (case x of None \<Rightarrow>
       a39 | Some y \<Rightarrow> b39 y), HistoryEvent.ChildWorkflowExecutionCanceledEventAttributes = (case x
       of None \<Rightarrow> a40 | Some y \<Rightarrow> b40 y), HistoryEvent.ChildWorkflowExecutionTimedOutEventAttributes =
       (case x of None \<Rightarrow> a41 | Some y \<Rightarrow> b41 y),
       HistoryEvent.ChildWorkflowExecutionTerminatedEventAttributes = (case x of None \<Rightarrow> a42 | Some y
       \<Rightarrow> b42 y), HistoryEvent.SignalExternalWorkflowExecutionInitiatedEventAttributes = (case x of
       None \<Rightarrow> a43 | Some y \<Rightarrow> b43 y),
       HistoryEvent.SignalExternalWorkflowExecutionFailedEventAttributes = (case x of None \<Rightarrow> a44 |
       Some y \<Rightarrow> b44 y), HistoryEvent.ExternalWorkflowExecutionSignaledEventAttributes = (case x of
       None \<Rightarrow> a45 | Some y \<Rightarrow> b45 y), HistoryEvent.UpsertWorkflowSearchAttributesEventAttributes =
       (case x of None \<Rightarrow> a46 | Some y \<Rightarrow> b46 y)\<rparr>"
  by (cases x) simp_all

interpretation HistoryEvent: thrift_message W
  "HistoryEvent_ToWire W" "HistoryEvent_FromWire W" HistoryEvent_zero "HistoryEvent_complete" for W
proof (rule thrift_messageI)
  fix x :: HistoryEvent
  assume laws: "wire_laws W"
  obtain enc0 where e0: "ActivityTaskCancelRequestedEventAttributes_ToWire W = (\<lambda>x. Inr (enc0 x))"
      "\<And>x. wire_api.Type W (enc0 x) = TStruct"
      "\<And>x. Writable W (enc0 x) \<longleftrightarrow> (\<lambda>_. True) x"
      "\<And>x. (\<lambda>_. True) x \<Longrightarrow> ActivityTaskCancelRequestedEventAttributes_FromWire W (enc0 x)
          ActivityTaskCancelRequestedEventAttributes_zero = Inr x"
    by (rule ActivityTaskCancelRequestedEventAttributes.encoder [OF laws]) (rule that)
  obtain enc1 where e1: "ActivityTaskCanceledEventAttributes_ToWire W = (\<lambda>x. Inr (enc1 x))"
      "\<And>x. wire_api.Type W (enc1 x) = TStruct"
      "\<And>x. Writable W (enc1 x) \<longleftrightarrow> (\<lambda>_. True) x"
      "\<And>x. (\<lambda>_. True) x \<Longrightarrow> ActivityTaskCanceledEventAttributes_FromWire W (enc1 x)
          ActivityTaskCanceledEventAttributes_zero = Inr x"
    by (rule ActivityTaskCanceledEventAttributes.encoder [OF laws]) (rule that)
  obtain enc2 where e2: "ActivityTaskCompletedEventAttributes_ToWire W = (\<lambda>x. Inr (enc2 x))"
      "\<And>x. wire_api.Type W (enc2 x) = TStruct"
      "\<And>x. Writable W (enc2 x) \<longleftrightarrow> (\<lambda>_. True) x"
      "\<And>x. (\<lambda>_. True) x \<Longrightarrow> ActivityTaskCompletedEventAttributes_FromWire W (enc2 x)
          ActivityTaskCompletedEventAttributes_zero = Inr x"
    by (rule ActivityTaskCompletedEventAttributes.encoder [OF laws]) (rule that)
  obtain enc3 where e3: "ActivityTaskFailedEventAttributes_ToWire W = (\<lambda>x. Inr (enc3 x))"
      "\<And>x. wire_api.Type W (enc3 x) = TStruct"
      "\<And>x. Writable W (enc3 x) \<longleftrightarrow> (\<lambda>_. True) x"
      "\<And>x. (\<lambda>_. True) x \<Longrightarrow> ActivityTaskFailedEventAttributes_FromWire W (enc3 x)
          ActivityTaskFailedEventAttributes_zero = Inr x"
    by (rule ActivityTaskFailedEventAttributes.encoder [OF laws]) (rule that)
  obtain enc4 where e4: "ActivityTaskScheduledEventAttributes_ToWire W = (\<lambda>x. Inr (enc4 x))"
      "\<And>x. wire_api.Type W (enc4 x) = TStruct"
      "\<And>x. Writable W (enc4 x) \<longleftrightarrow> ActivityTaskScheduledEventAttributes_complete x"
      "\<And>x. ActivityTaskScheduledEventAttributes_complete x \<Longrightarrow>
          ActivityTaskScheduledEventAttributes_FromWire W (enc4 x)
          ActivityTaskScheduledEventAttributes_zero = Inr x"
    by (rule ActivityTaskScheduledEventAttributes.encoder [OF laws]) (rule that)
  obtain enc5 where e5: "ActivityTaskStartedEventAttributes_ToWire W = (\<lambda>x. Inr (enc5 x))"
      "\<And>x. wire_api.Type W (enc5 x) = TStruct"
      "\<And>x. Writable W (enc5 x) \<longleftrightarrow> (\<lambda>_. True) x"
      "\<And>x. (\<lambda>_. True) x \<Longrightarrow> ActivityTaskStartedEventAttributes_FromWire W (enc5 x)
          ActivityTaskStartedEventAttributes_zero = Inr x"
    by (rule ActivityTaskStartedEventAttributes.encoder [OF laws]) (rule that)
  obtain enc6 where e6: "ActivityTaskTimedOutEventAttributes_ToWire W = (\<lambda>x. Inr (enc6 x))"
      "\<And>x. wire_api.Type W (enc6 x) = TStruct"
      "\<And>x. Writable W (enc6 x) \<longleftrightarrow> (\<lambda>_. True) x"
      "\<And>x. (\<lambda>_. True) x \<Longrightarrow> ActivityTaskTimedOutEventAttributes_FromWire W (enc6 x)
          ActivityTaskTimedOutEventAttributes_zero = Inr x"
    by (rule ActivityTaskTimedOutEventAttributes.encoder [OF laws]) (rule that)
  obtain enc7 where e7: "CancelTimerFailedEventAttributes_ToWire W = (\<lambda>x. Inr (enc7 x))"
      "\<And>x. wire_api.Type W (enc7 x) = TStruct"
      "\<And>x. Writable W (enc7 x) \<longleftrightarrow> (\<lambda>_. True) x"
      "\<And>x. (\<lambda>_. True) x \<Longrightarrow> CancelTimerFailedEventAttributes_FromWire W (enc7 x)
          CancelTimerFailedEventAttributes_zero = Inr x"
    by (rule CancelTimerFailedEventAttributes.encoder [OF laws]) (rule that)
  obtain enc8 where e8: "ChildWorkflowExecutionCanceledEventAttributes_ToWire W = (\<lambda>x. Inr (enc8
      x))"
      "\<And>x. wire_api.Type W (enc8 x) = TStruct"
      "\<And>x. Writable W (enc8 x) \<longleftrightarrow> (\<lambda>_. True) x"
      "\<And>x. (\<lambda>_. True) x \<Longrightarrow> ChildWorkflowExecutionCanceledEventAttributes_FromWire W (enc8 x)
          ChildWorkflowExecutionCanceledEventAttributes_zero = Inr x"
    by (rule ChildWorkflowExecutionCanceledEventAttributes.encoder [OF laws]) (rule that)
  obtain enc9 where e9: "ChildWorkflowExecutionCompletedEventAttributes_ToWire W = (\<lambda>x. Inr (enc9
      x))"
      "\<And>x. wire_api.Type W (enc9 x) = TStruct"
      "\<And>x. Writable W (enc9 x) \<longleftrightarrow> (\<lambda>_. True) x"
      "\<And>x. (\<lambda>_. True) x \<Longrightarrow> ChildWorkflowExecutionCompletedEventAttributes_FromWire W (enc9 x)
          ChildWorkflowExecutionCompletedEventAttributes_zero = Inr x"
    by (rule ChildWorkflowExecutionCompletedEventAttributes.encoder [OF laws]) (rule that)
  obtain enc10 where e10: "ChildWorkflowExecutionFailedEventAttributes_ToWire W = (\<lambda>x. Inr (enc10
      x))"
      "\<And>x. wire_api.Type W (enc10 x) = TStruct"
      "\<And>x. Writable W (enc10 x) \<longleftrightarrow> (\<lambda>_. True) x"
      "\<And>x. (\<lambda>_. True) x \<Longrightarrow> ChildWorkflowExecutionFailedEventAttributes_FromWire W (enc10 x)
          ChildWorkflowExecutionFailedEventAttributes_zero = Inr x"
    by (rule ChildWorkflowExecutionFailedEventAttributes.encoder [OF laws]) (rule that)
  obtain enc11 where e11: "ChildWorkflowExecutionStartedEventAttributes_ToWire W = (\<lambda>x. Inr (enc11
      x))"
      "\<And>x. wire_api.Type W (enc11 x) = TStruct"
      "\<And>x. Writable W (enc11 x) \<longleftrightarrow> ChildWorkflowExecutionStartedEventAttributes_complete x"
      "\<And>x. ChildWorkflowExecutionStartedEventAttributes_complete x \<Longrightarrow>
          ChildWorkflowExecutionStartedEventAttributes_FromWire W (enc11 x)
          ChildWorkflowExecutionStartedEventAttributes_zero = Inr x"
    by (rule ChildWorkflowExecutionStartedEventAttributes.encoder [OF laws]) (rule that)
  obtain enc12 where e12: "ChildWorkflowExecutionTerminatedEventAttributes_ToWire W = (\<lambda>x. Inr
      (enc12 x))"
      "\<And>x. wire_api.Type W (enc12 x) = TStruct"
      "\<And>x. Writable W (enc12 x) \<longleftrightarrow> (\<lambda>_. True) x"
      "\<And>x. (\<lambda>_. True) x \<Longrightarrow> ChildWorkflowExecutionTerminatedEventAttributes_FromWire W (enc12 x)
          ChildWorkflowExecutionTerminatedEventAttributes_zero = Inr x"
    by (rule ChildWorkflowExecutionTerminatedEventAttributes.encoder [OF laws]) (rule that)
  obtain enc13 where e13: "ChildWorkflowExecutionTimedOutEventAttributes_ToWire W = (\<lambda>x. Inr (enc13
      x))"
      "\<And>x. wire_api.Type W (enc13 x) = TStruct"
      "\<And>x. Writable W (enc13 x) \<longleftrightarrow> (\<lambda>_. True) x"
      "\<And>x. (\<lambda>_. True) x \<Longrightarrow> ChildWorkflowExecutionTimedOutEventAttributes_FromWire W (enc13 x)
          ChildWorkflowExecutionTimedOutEventAttributes_zero = Inr x"
    by (rule ChildWorkflowExecutionTimedOutEventAttributes.encoder [OF laws]) (rule that)
  obtain enc14 where e14: "DecisionTaskCompletedEventAttributes_ToWire W = (\<lambda>x. Inr (enc14 x))"
      "\<And>x. wire_api.Type W (enc14 x) = TStruct"
      "\<And>x. Writable W (enc14 x) \<longleftrightarrow> (\<lambda>_. True) x"
      "\<And>x. (\<lambda>_. True) x \<Longrightarrow> DecisionTaskCompletedEventAttributes_FromWire W (enc14 x)
          DecisionTaskCompletedEventAttributes_zero = Inr x"
    by (rule DecisionTaskCompletedEventAttributes.encoder [OF laws]) (rule that)
  obtain enc15 where e15: "DecisionTaskFailedEventAttributes_ToWire W = (\<lambda>x. Inr (enc15 x))"
      "\<And>x. wire_api.Type W (enc15 x) = TStruct"
      "\<And>x. Writable W (enc15 x) \<longleftrightarrow> (\<lambda>_. True) x"
      "\<And>x. (\<lambda>_. True) x \<Longrightarrow> DecisionTaskFailedEventAttributes_FromWire W (enc15 x)
          DecisionTaskFailedEventAttributes_zero = Inr x"
    by (rule DecisionTaskFailedEventAttributes.encoder [OF laws]) (rule that)
  obtain enc16 where e16: "DecisionTaskScheduledEventAttributes_ToWire W = (\<lambda>x. Inr (enc16 x))"
      "\<And>x. wire_api.Type W (enc16 x) = TStruct"
      "\<And>x. Writable W (enc16 x) \<longleftrightarrow> (\<lambda>_. True) x"
      "\<And>x. (\<lambda>_. True) x \<Longrightarrow> DecisionTaskScheduledEventAttributes_FromWire W (enc16 x)
          DecisionTaskScheduledEventAttributes_zero = Inr x"
    by (rule DecisionTaskScheduledEventAttributes.encoder [OF laws]) (rule that)
  obtain enc17 where e17: "DecisionTaskStartedEventAttributes_ToWire W = (\<lambda>x. Inr (enc17 x))"
      "\<And>x. wire_api.Type W (enc17 x) = TStruct"
      "\<And>x. Writable W (enc17 x) \<longleftrightarrow> (\<lambda>_. True) x"
      "\<And>x. (\<lambda>_. True) x \<Longrightarrow> DecisionTaskStartedEventAttributes_FromWire W (enc17 x)
          DecisionTaskStartedEventAttributes_zero = Inr x"
    by (rule DecisionTaskStartedEventAttributes.encoder [OF laws]) (rule that)
  obtain enc18 where e18: "DecisionTaskTimedOutEventAttributes_ToWire W = (\<lambda>x. Inr (enc18 x))"
      "\<And>x. wire_api.Type W (enc18 x) = TStruct"
      "\<And>x. Writable W (enc18 x) \<longleftrightarrow> (\<lambda>_. True) x"
      "\<And>x. (\<lambda>_. True) x \<Longrightarrow> DecisionTaskTimedOutEventAttributes_FromWire W (enc18 x)
          DecisionTaskTimedOutEventAttributes_zero = Inr x"
    by (rule DecisionTaskTimedOutEventAttributes.encoder [OF laws]) (rule that)
  obtain enc19 where e19: "ExternalWorkflowExecutionCancelRequestedEventAttributes_ToWire W = (\<lambda>x.
      Inr (enc19 x))"
      "\<And>x. wire_api.Type W (enc19 x) = TStruct"
      "\<And>x. Writable W (enc19 x) \<longleftrightarrow> (\<lambda>_. True) x"
      "\<And>x. (\<lambda>_. True) x \<Longrightarrow> ExternalWorkflowExecutionCancelRequestedEventAttributes_FromWire W (enc19
          x) ExternalWorkflowExecutionCancelRequestedEventAttributes_zero = Inr x"
    by (rule ExternalWorkflowExecutionCancelRequestedEventAttributes.encoder [OF laws]) (rule that)
  obtain enc20 where e20: "ExternalWorkflowExecutionSignaledEventAttributes_ToWire W = (\<lambda>x. Inr
      (enc20 x))"
      "\<And>x. wire_api.Type W (enc20 x) = TStruct"
      "\<And>x. Writable W (enc20 x) \<longleftrightarrow> (\<lambda>_. True) x"
      "\<And>x. (\<lambda>_. True) x \<Longrightarrow> ExternalWorkflowExecutionSignaledEventAttributes_FromWire W (enc20 x)
          ExternalWorkflowExecutionSignaledEventAttributes_zero = Inr x"
    by (rule ExternalWorkflowExecutionSignaledEventAttributes.encoder [OF laws]) (rule that)
  obtain enc21 where e21: "MarkerRecordedEventAttributes_ToWire W = (\<lambda>x. Inr (enc21 x))"
      "\<And>x. wire_api.Type W (enc21 x) = TStruct"
      "\<And>x. Writable W (enc21 x) \<longleftrightarrow> MarkerRecordedEventAttributes_complete x"
      "\<And>x. MarkerRecordedEventAttributes_complete x \<Longrightarrow> MarkerRecordedEventAttributes_FromWire W
          (enc21 x) MarkerRecordedEventAttributes_zero = Inr x"
    by (rule MarkerRecordedEventAttributes.encoder [OF laws]) (rule that)
  obtain enc22 where e22: "RequestCancelActivityTaskFailedEventAttributes_ToWire W = (\<lambda>x. Inr (enc22
      x))"
      "\<And>x. wire_api.Type W (enc22 x) = TStruct"
      "\<And>x. Writable W (enc22 x) \<longleftrightarrow> (\<lambda>_. True) x"
      "\<And>x. (\<lambda>_. True) x \<Longrightarrow> RequestCancelActivityTaskFailedEventAttributes_FromWire W (enc22 x)
          RequestCancelActivityTaskFailedEventAttributes_zero = Inr x"
    by (rule RequestCancelActivityTaskFailedEventAttributes.encoder [OF laws]) (rule that)
  obtain enc23 where e23: "RequestCancelExternalWorkflowExecutionFailedEventAttributes_ToWire W =
      (\<lambda>x. Inr (enc23 x))"
      "\<And>x. wire_api.Type W (enc23 x) = TStruct"
      "\<And>x. Writable W (enc23 x) \<longleftrightarrow> (\<lambda>_. True) x"
      "\<And>x. (\<lambda>_. True) x \<Longrightarrow> RequestCancelExternalWorkflowExecutionFailedEventAttributes_FromWire W
          (enc23 x) RequestCancelExternalWorkflowExecutionFailedEventAttributes_zero = Inr x"
    by (rule RequestCancelExternalWorkflowExecutionFailedEventAttributes.encoder [OF laws]) (rule
        that)
  obtain enc24 where e24: "RequestCancelExternalWorkflowExecutionInitiatedEventAttributes_ToWire W =
      (\<lambda>x. Inr (enc24 x))"
      "\<And>x. wire_api.Type W (enc24 x) = TStruct"
      "\<And>x. Writable W (enc24 x) \<longleftrightarrow> (\<lambda>_. True) x"
      "\<And>x. (\<lambda>_. True) x \<Longrightarrow> RequestCancelExternalWorkflowExecutionInitiatedEventAttributes_FromWire W
          (enc24 x) RequestCancelExternalWorkflowExecutionInitiatedEventAttributes_zero = Inr x"
    by (rule RequestCancelExternalWorkflowExecutionInitiatedEventAttributes.encoder [OF laws]) (rule
        that)
  obtain enc25 where e25: "SignalExternalWorkflowExecutionFailedEventAttributes_ToWire W = (\<lambda>x. Inr
      (enc25 x))"
      "\<And>x. wire_api.Type W (enc25 x) = TStruct"
      "\<And>x. Writable W (enc25 x) \<longleftrightarrow> (\<lambda>_. True) x"
      "\<And>x. (\<lambda>_. True) x \<Longrightarrow> SignalExternalWorkflowExecutionFailedEventAttributes_FromWire W (enc25 x)
          SignalExternalWorkflowExecutionFailedEventAttributes_zero = Inr x"
    by (rule SignalExternalWorkflowExecutionFailedEventAttributes.encoder [OF laws]) (rule that)
  obtain enc26 where e26: "SignalExternalWorkflowExecutionInitiatedEventAttributes_ToWire W = (\<lambda>x.
      Inr (enc26 x))"
      "\<And>x. wire_api.Type W (enc26 x) = TStruct"
      "\<And>x. Writable W (enc26 x) \<longleftrightarrow> (\<lambda>_. True) x"
      "\<And>x. (\<lambda>_. True) x \<Longrightarrow> SignalExternalWorkflowExecutionInitiatedEventAttributes_FromWire W (enc26
          x) SignalExternalWorkflowExecutionInitiatedEventAttributes_zero = Inr x"
    by (rule SignalExternalWorkflowExecutionInitiatedEventAttributes.encoder [OF laws]) (rule that)
  obtain enc27 where e27: "StartChildWorkflowExecutionFailedEventAttributes_ToWire W = (\<lambda>x. Inr
      (enc27 x))"
      "\<And>x. wire_api.Type W (enc27 x) = TStruct"
      "\<And>x. Writable W (enc27 x) \<longleftrightarrow> (\<lambda>_. True) x"
      "\<And>x. (\<lambda>_. True) x \<Longrightarrow> StartChildWorkflowExecutionFailedEventAttributes_FromWire W (enc27 x)
          StartChildWorkflowExecutionFailedEventAttributes_zero = Inr x"
    by (rule StartChildWorkflowExecutionFailedEventAttributes.encoder [OF laws]) (rule that)
  obtain enc28 where e28: "StartChildWorkflowExecutionInitiatedEventAttributes_ToWire W = (\<lambda>x. Inr
      (enc28 x))"
      "\<And>x. wire_api.Type W (enc28 x) = TStruct"
      "\<And>x. Writable W (enc28 x) \<longleftrightarrow> StartChildWorkflowExecutionInitiatedEventAttributes_complete x"
      "\<And>x. StartChildWorkflowExecutionInitiatedEventAttributes_complete x \<Longrightarrow>
          StartChildWorkflowExecutionInitiatedEventAttributes_FromWire W (enc28 x)
          StartChildWorkflowExecutionInitiatedEventAttributes_zero = Inr x"
    by (rule StartChildWorkflowExecutionInitiatedEventAttributes.encoder [OF laws]) (rule that)
  obtain enc29 where e29: "TimerCanceledEventAttributes_ToWire W = (\<lambda>x. Inr (enc29 x))"
      "\<And>x. wire_api.Type W (enc29 x) = TStruct"
      "\<And>x. Writable W (enc29 x) \<longleftrightarrow> (\<lambda>_. True) x"
      "\<And>x. (\<lambda>_. True) x \<Longrightarrow> TimerCanceledEventAttributes_FromWire W (enc29 x)
          TimerCanceledEventAttributes_zero = Inr x"
    by (rule TimerCanceledEventAttributes.encoder [OF laws]) (rule that)
  obtain enc30 where e30: "TimerFiredEventAttributes_ToWire W = (\<lambda>x. Inr (enc30 x))"
      "\<And>x. wire_api.Type W (enc30 x) = TStruct"
      "\<And>x. Writable W (enc30 x) \<longleftrightarrow> (\<lambda>_. True) x"
      "\<And>x. (\<lambda>_. True) x \<Longrightarrow> TimerFiredEventAttributes_FromWire W (enc30 x)
          TimerFiredEventAttributes_zero = Inr x"
    by (rule TimerFiredEventAttributes.encoder [OF laws]) (rule that)
  obtain enc31 where e31: "TimerStartedEventAttributes_ToWire W = (\<lambda>x. Inr (enc31 x))"
      "\<And>x. wire_api.Type W (enc31 x) = TStruct"
      "\<And>x. Writable W (enc31 x) \<longleftrightarrow> (\<lambda>_. True) x"
      "\<And>x. (\<lambda>_. True) x \<Longrightarrow> TimerStartedEventAttributes_FromWire W (enc31 x)
          TimerStartedEventAttributes_zero = Inr x"
    by (rule TimerStartedEventAttributes.encoder [OF laws]) (rule that)
  obtain enc32 where e32: "UpsertWorkflowSearchAttributesEventAttributes_ToWire W = (\<lambda>x. Inr (enc32
      x))"
      "\<And>x. wire_api.Type W (enc32 x) = TStruct"
      "\<And>x. Writable W (enc32 x) \<longleftrightarrow> UpsertWorkflowSearchAttributesEventAttributes_complete x"
      "\<And>x. UpsertWorkflowSearchAttributesEventAttributes_complete x \<Longrightarrow>
          UpsertWorkflowSearchAttributesEventAttributes_FromWire W (enc32 x)
          UpsertWorkflowSearchAttributesEventAttributes_zero = Inr x"
    by (rule UpsertWorkflowSearchAttributesEventAttributes.encoder [OF laws]) (rule that)
  obtain enc33 where e33: "WorkflowExecutionCancelRequestedEventAttributes_ToWire W = (\<lambda>x. Inr
      (enc33 x))"
      "\<And>x. wire_api.Type W (enc33 x) = TStruct"
      "\<And>x. Writable W (enc33 x) \<longleftrightarrow> (\<lambda>_. True) x"
      "\<And>x. (\<lambda>_. True) x \<Longrightarrow> WorkflowExecutionCancelRequestedEventAttributes_FromWire W (enc33 x)
          WorkflowExecutionCancelRequestedEventAttributes_zero = Inr x"
    by (rule WorkflowExecutionCancelRequestedEventAttributes.encoder [OF laws]) (rule that)
  obtain enc34 where e34: "WorkflowExecutionCanceledEventAttributes_ToWire W = (\<lambda>x. Inr (enc34 x))"
      "\<And>x. wire_api.Type W (enc34 x) = TStruct"
      "\<And>x. Writable W (enc34 x) \<longleftrightarrow> (\<lambda>_. True) x"
      "\<And>x. (\<lambda>_. True) x \<Longrightarrow> WorkflowExecutionCanceledEventAttributes_FromWire W (enc34 x)
          WorkflowExecutionCanceledEventAttributes_zero = Inr x"
    by (rule WorkflowExecutionCanceledEventAttributes.encoder [OF laws]) (rule that)
  obtain enc35 where e35: "WorkflowExecutionCompletedEventAttributes_ToWire W = (\<lambda>x. Inr (enc35 x))"
      "\<And>x. wire_api.Type W (enc35 x) = TStruct"
      "\<And>x. Writable W (enc35 x) \<longleftrightarrow> (\<lambda>_. True) x"
      "\<And>x. (\<lambda>_. True) x \<Longrightarrow> WorkflowExecutionCompletedEventAttributes_FromWire W (enc35 x)
          WorkflowExecutionCompletedEventAttributes_zero = Inr x"
    by (rule WorkflowExecutionCompletedEventAttributes.encoder [OF laws]) (rule that)
  obtain enc36 where e36: "WorkflowExecutionContinuedAsNewEventAttributes_ToWire W = (\<lambda>x. Inr (enc36
      x))"
      "\<And>x. wire_api.Type W (enc36 x) = TStruct"
      "\<And>x. Writable W (enc36 x) \<longleftrightarrow> WorkflowExecutionContinuedAsNewEventAttributes_complete x"
      "\<And>x. WorkflowExecutionContinuedAsNewEventAttributes_complete x \<Longrightarrow>
          WorkflowExecutionContinuedAsNewEventAttributes_FromWire W (enc36 x)
          WorkflowExecutionContinuedAsNewEventAttributes_zero = Inr x"
    by (rule WorkflowExecutionContinuedAsNewEventAttributes.encoder [OF laws]) (rule that)
  obtain enc37 where e37: "WorkflowExecutionFailedEventAttributes_ToWire W = (\<lambda>x. Inr (enc37 x))"
      "\<And>x. wire_api.Type W (enc37 x) = TStruct"
      "\<And>x. Writable W (enc37 x) \<longleftrightarrow> (\<lambda>_. True) x"
      "\<And>x. (\<lambda>_. True) x \<Longrightarrow> WorkflowExecutionFailedEventAttributes_FromWire W (enc37 x)
          WorkflowExecutionFailedEventAttributes_zero = Inr x"
    by (rule WorkflowExecutionFailedEventAttributes.encoder [OF laws]) (rule that)
  obtain enc38 where e38: "WorkflowExecutionSignaledEventAttributes_ToWire W = (\<lambda>x. Inr (enc38 x))"
      "\<And>x. wire_api.Type W (enc38 x) = TStruct"
      "\<And>x. Writable W (enc38 x) \<longleftrightarrow> (\<lambda>_. True) x"
      "\<And>x. (\<lambda>_. True) x \<Longrightarrow> WorkflowExecutionSignaledEventAttributes_FromWire W (enc38 x)
          WorkflowExecutionSignaledEventAttributes_zero = Inr x"
    by (rule WorkflowExecutionSignaledEventAttributes.encoder [OF laws]) (rule that)
  obtain enc39 where e39: "WorkflowExecutionStartedEventAttributes_ToWire W = (\<lambda>x. Inr (enc39 x))"
      "\<And>x. wire_api.Type W (enc39 x) = TStruct"
      "\<And>x. Writable W (enc39 x) \<longleftrightarrow> WorkflowExecutionStartedEventAttributes_complete x"
      "\<And>x. WorkflowExecutionStartedEventAttributes_complete x \<Longrightarrow>
          WorkflowExecutionStartedEventAttributes_FromWire W (enc39 x)
          WorkflowExecutionStartedEventAttributes_zero = Inr x"
    by (rule WorkflowExecutionStartedEventAttributes.encoder [OF laws]) (rule that)
  obtain enc40 where e40: "WorkflowExecutionTerminatedEventAttributes_ToWire W = (\<lambda>x. Inr (enc40
      x))"
      "\<And>x. wire_api.Type W (enc40 x) = TStruct"
      "\<And>x. Writable W (enc40 x) \<longleftrightarrow> (\<lambda>_. True) x"
      "\<And>x. (\<lambda>_. True) x \<Longrightarrow> WorkflowExecutionTerminatedEventAttributes_FromWire W (enc40 x)
          WorkflowExecutionTerminatedEventAttributes_zero = Inr x"
    by (rule WorkflowExecutionTerminatedEventAttributes.encoder [OF laws]) (rule that)
  obtain enc41 where e41: "WorkflowExecutionTimedOutEventAttributes_ToWire W = (\<lambda>x. Inr (enc41 x))"
      "\<And>x. wire_api.Type W (enc41 x) = TStruct"
      "\<And>x. Writable W (enc41 x) \<longleftrightarrow> (\<lambda>_. True) x"
      "\<And>x. (\<lambda>_. True) x \<Longrightarrow> WorkflowExecutionTimedOutEventAttributes_FromWire W (enc41 x)
          WorkflowExecutionTimedOutEventAttributes_zero = Inr x"
    by (rule WorkflowExecutionTimedOutEventAttributes.encoder [OF laws]) (rule that)
  show "\<exists>w. HistoryEvent_ToWire W x = Inr w \<and> wire_api.Type W w = TStruct \<and>
      (Writable W w \<longleftrightarrow> HistoryEvent_complete x) \<and> (HistoryEvent_complete x \<longrightarrow> HistoryEvent_FromWire W
          w HistoryEvent_zero = Inr x)"
    by (cases x) (simp cong: option.case_cong add: codec_rules HistoryEvent_merge
        HistoryEvent_ToWire_def HistoryEvent_FromWire_def HistoryEvent_zero_def
        HistoryEvent_complete_def if_set_def EventType_enc EventType_Read_def EventType_FromWire_def
        ActivityTaskCancelRequestedEventAttributes_Read_def
        ActivityTaskCanceledEventAttributes_Read_def ActivityTaskCompletedEventAttributes_Read_def
        ActivityTaskFailedEventAttributes_Read_def ActivityTaskScheduledEventAttributes_Read_def
        ActivityTaskStartedEventAttributes_Read_def ActivityTaskTimedOutEventAttributes_Read_def
        CancelTimerFailedEventAttributes_Read_def
        ChildWorkflowExecutionCanceledEventAttributes_Read_def
        ChildWorkflowExecutionCompletedEventAttributes_Read_def
        ChildWorkflowExecutionFailedEventAttributes_Read_def
        ChildWorkflowExecutionStartedEventAttributes_Read_def
        ChildWorkflowExecutionTerminatedEventAttributes_Read_def
        ChildWorkflowExecutionTimedOutEventAttributes_Read_def
        DecisionTaskCompletedEventAttributes_Read_def DecisionTaskFailedEventAttributes_Read_def
        DecisionTaskScheduledEventAttributes_Read_def DecisionTaskStartedEventAttributes_Read_def
        DecisionTaskTimedOutEventAttributes_Read_def
        ExternalWorkflowExecutionCancelRequestedEventAttributes_Read_def
        ExternalWorkflowExecutionSignaledEventAttributes_Read_def
        MarkerRecordedEventAttributes_Read_def
        RequestCancelActivityTaskFailedEventAttributes_Read_def
        RequestCancelExternalWorkflowExecutionFailedEventAttributes_Read_def
        RequestCancelExternalWorkflowExecutionInitiatedEventAttributes_Read_def
        SignalExternalWorkflowExecutionFailedEventAttributes_Read_def
        SignalExternalWorkflowExecutionInitiatedEventAttributes_Read_def
        StartChildWorkflowExecutionFailedEventAttributes_Read_def
        StartChildWorkflowExecutionInitiatedEventAttributes_Read_def
        TimerCanceledEventAttributes_Read_def TimerFiredEventAttributes_Read_def
        TimerStartedEventAttributes_Read_def UpsertWorkflowSearchAttributesEventAttributes_Read_def
        WorkflowExecutionCancelRequestedEventAttributes_Read_def
        WorkflowExecutionCanceledEventAttributes_Read_def
        WorkflowExecutionCompletedEventAttributes_Read_def
        WorkflowExecutionContinuedAsNewEventAttributes_Read_def
        WorkflowExecutionFailedEventAttributes_Read_def
        WorkflowExecutionSignaledEventAttributes_Read_def
        WorkflowExecutionStartedEventAttributes_Read_def
        WorkflowExecutionTerminatedEventAttributes_Read_def
        WorkflowExecutionTimedOutEventAttributes_Read_def laws e0 e1 e2 e3 e4 e5 e6 e7 e8 e9 e10 e11
        e12 e13 e14 e15 e16 e17 e18 e19 e20 e21 e22 e23 e24 e25 e26 e27 e28 e29 e30 e31 e32 e33 e34
        e35 e36 e37 e38 e39 e40 e41)
qed

definition HistoryEvent_Equals ::
  "HistoryEvent option \<Rightarrow> HistoryEvent option \<Rightarrow> bool" where
  "HistoryEvent_Equals v rhs =
     (case v of None \<Rightarrow> rhs = None
      | Some v \<Rightarrow> (case rhs of None \<Rightarrow> False
        | Some rhs \<Rightarrow>
          if \<not> I64_EqualsPtr (HistoryEvent.EventId v) (HistoryEvent.EventId rhs) then False else
          if \<not> I64_EqualsPtr (HistoryEvent.Timestamp v) (HistoryEvent.Timestamp rhs) then False else
          if \<not> EventType_EqualsPtr (HistoryEvent.EventType v) (HistoryEvent.EventType rhs) then
              False else
          if \<not> I64_EqualsPtr (HistoryEvent.Version v) (HistoryEvent.Version rhs) then False else
          if \<not> I64_EqualsPtr (HistoryEvent.TaskId v) (HistoryEvent.TaskId rhs) then False else
          if \<not> both_set_and (\<lambda>x y. WorkflowExecutionStartedEventAttributes_Equals (Some x) (Some y))
              (HistoryEvent.WorkflowExecutionStartedEventAttributes v)
              (HistoryEvent.WorkflowExecutionStartedEventAttributes rhs) then False else
          if \<not> both_set_and (\<lambda>x y. WorkflowExecutionCompletedEventAttributes_Equals (Some x) (Some
              y)) (HistoryEvent.WorkflowExecutionCompletedEventAttributes v)
              (HistoryEvent.WorkflowExecutionCompletedEventAttributes rhs) then False else
          if \<not> both_set_and (\<lambda>x y. WorkflowExecutionFailedEventAttributes_Equals (Some x) (Some y))
              (HistoryEvent.WorkflowExecutionFailedEventAttributes v)
              (HistoryEvent.WorkflowExecutionFailedEventAttributes rhs) then False else
          if \<not> both_set_and (\<lambda>x y. WorkflowExecutionTimedOutEventAttributes_Equals (Some x) (Some
              y)) (HistoryEvent.WorkflowExecutionTimedOutEventAttributes v)
              (HistoryEvent.WorkflowExecutionTimedOutEventAttributes rhs) then False else
          if \<not> both_set_and (\<lambda>x y. DecisionTaskScheduledEventAttributes_Equals (Some x) (Some y))
              (HistoryEvent.DecisionTaskScheduledEventAttributes v)
              (HistoryEvent.DecisionTaskScheduledEventAttributes rhs) then False else
          if \<not> both_set_and (\<lambda>x y. DecisionTaskStartedEventAttributes_Equals (Some x) (Some y))
              (HistoryEvent.DecisionTaskStartedEventAttributes v)
              (HistoryEvent.DecisionTaskStartedEventAttributes rhs) then False else
          if \<not> both_set_and (\<lambda>x y. DecisionTaskCompletedEventAttributes_Equals (Some x) (Some y))
              (HistoryEvent.DecisionTaskCompletedEventAttributes v)
              (HistoryEvent.DecisionTaskCompletedEventAttributes rhs) then False else
          if \<not> both_set_and (\<lambda>x y. DecisionTaskTimedOutEventAttributes_Equals (Some x) (Some y))
              (HistoryEvent.DecisionTaskTimedOutEventAttributes v)
              (HistoryEvent.DecisionTaskTimedOutEventAttributes rhs) then False else
          if \<not> both_set_and (\<lambda>x y. DecisionTaskFailedEventAttributes_Equals (Some x) (Some y))
              (HistoryEvent.DecisionTaskFailedEventAttributes v)
              (HistoryEvent.DecisionTaskFailedEventAttributes rhs) then False else
          if \<not> both_set_and (\<lambda>x y. ActivityTaskScheduledEventAttributes_Equals (Some x) (Some y))
              (HistoryEvent.ActivityTaskScheduledEventAttributes v)
              (HistoryEvent.ActivityTaskScheduledEventAttributes rhs) then False else
          if \<not> both_set_and (\<lambda>x y. ActivityTaskStartedEventAttributes_Equals (Some x) (Some y))
              (HistoryEvent.ActivityTaskStartedEventAttributes v)
              (HistoryEvent.ActivityTaskStartedEventAttributes rhs) then False else
          if \<not> both_set_and (\<lambda>x y. ActivityTaskCompletedEventAttributes_Equals (Some x) (Some y))
              (HistoryEvent.ActivityTaskCompletedEventAttributes v)
              (HistoryEvent.ActivityTaskCompletedEventAttributes rhs) then False else
          if \<not> both_set_and (\<lambda>x y. ActivityTaskFailedEventAttributes_Equals (Some x) (Some y))
              (HistoryEvent.ActivityTaskFailedEventAttributes v)
              (HistoryEvent.ActivityTaskFailedEventAttributes rhs) then False else
          if \<not> both_set_and (\<lambda>x y. ActivityTaskTimedOutEventAttributes_Equals (Some x) (Some y))
              (HistoryEvent.ActivityTaskTimedOutEventAttributes v)
              (HistoryEvent.ActivityTaskTimedOutEventAttributes rhs) then False else
          if \<not> both_set_and (\<lambda>x y. TimerStartedEventAttributes_Equals (Some x) (Some y))
              (HistoryEvent.TimerStartedEventAttributes v) (HistoryEvent.TimerStartedEventAttributes
              rhs) then False else
          if \<not> both_set_and (\<lambda>x y. TimerFiredEventAttributes_Equals (Some x) (Some y))
              (HistoryEvent.TimerFiredEventAttributes v) (HistoryEvent.TimerFiredEventAttributes
              rhs) then False else
          if \<not> both_set_and (\<lambda>x y. ActivityTaskCancelRequestedEventAttributes_Equals (Some x) (Some
              y)) (HistoryEvent.ActivityTaskCancelRequestedEventAttributes v)
              (HistoryEvent.ActivityTaskCancelRequestedEventAttributes rhs) then False else
          if \<not> both_set_and (\<lambda>x y. RequestCancelActivityTaskFailedEventAttributes_Equals (Some x)
              (Some y)) (HistoryEvent.RequestCancelActivityTaskFailedEventAttributes v)
              (HistoryEvent.RequestCancelActivityTaskFailedEventAttributes rhs) then False else
          if \<not> both_set_and (\<lambda>x y. ActivityTaskCanceledEventAttributes_Equals (Some x) (Some y))
              (HistoryEvent.ActivityTaskCanceledEventAttributes v)
              (HistoryEvent.ActivityTaskCanceledEventAttributes rhs) then False else
          if \<not> both_set_and (\<lambda>x y. TimerCanceledEventAttributes_Equals (Some x) (Some y))
              (HistoryEvent.TimerCanceledEventAttributes v)
              (HistoryEvent.TimerCanceledEventAttributes rhs) then False else
          if \<not> both_set_and (\<lambda>x y. CancelTimerFailedEventAttributes_Equals (Some x) (Some y))
              (HistoryEvent.CancelTimerFailedEventAttributes v)
              (HistoryEvent.CancelTimerFailedEventAttributes rhs) then False else
          if \<not> both_set_and (\<lambda>x y. MarkerRecordedEventAttributes_Equals (Some x) (Some y))
              (HistoryEvent.MarkerRecordedEventAttributes v)
              (HistoryEvent.MarkerRecordedEventAttributes rhs) then False else
          if \<not> both_set_and (\<lambda>x y. WorkflowExecutionSignaledEventAttributes_Equals (Some x) (Some
              y)) (HistoryEvent.WorkflowExecutionSignaledEventAttributes v)
              (HistoryEvent.WorkflowExecutionSignaledEventAttributes rhs) then False else
          if \<not> both_set_and (\<lambda>x y. WorkflowExecutionTerminatedEventAttributes_Equals (Some x) (Some
              y)) (HistoryEvent.WorkflowExecutionTerminatedEventAttributes v)
              (HistoryEvent.WorkflowExecutionTerminatedEventAttributes rhs) then False else
          if \<not> both_set_and (\<lambda>x y. WorkflowExecutionCancelRequestedEventAttributes_Equals (Some x)
              (Some y)) (HistoryEvent.WorkflowExecutionCancelRequestedEventAttributes v)
              (HistoryEvent.WorkflowExecutionCancelRequestedEventAttributes rhs) then False else
          if \<not> both_set_and (\<lambda>x y. WorkflowExecutionCanceledEventAttributes_Equals (Some x) (Some
              y)) (HistoryEvent.WorkflowExecutionCanceledEventAttributes v)
              (HistoryEvent.WorkflowExecutionCanceledEventAttributes rhs) then False else
          if \<not> both_set_and (\<lambda>x y.
              RequestCancelExternalWorkflowExecutionInitiatedEventAttributes_Equals (Some x) (Some
              y)) (HistoryEvent.RequestCancelExternalWorkflowExecutionInitiatedEventAttributes v)
              (HistoryEvent.RequestCancelExternalWorkflowExecutionInitiatedEventAttributes rhs) then
              False else
          if \<not> both_set_and (\<lambda>x y.
              RequestCancelExternalWorkflowExecutionFailedEventAttributes_Equals (Some x) (Some y))
              (HistoryEvent.RequestCancelExternalWorkflowExecutionFailedEventAttributes v)
              (HistoryEvent.RequestCancelExternalWorkflowExecutionFailedEventAttributes rhs) then
              False else
          if \<not> both_set_and (\<lambda>x y. ExternalWorkflowExecutionCancelRequestedEventAttributes_Equals
              (Some x) (Some y))
              (HistoryEvent.ExternalWorkflowExecutionCancelRequestedEventAttributes v)
              (HistoryEvent.ExternalWorkflowExecutionCancelRequestedEventAttributes rhs) then False
              else
          if \<not> both_set_and (\<lambda>x y. WorkflowExecutionContinuedAsNewEventAttributes_Equals (Some x)
              (Some y)) (HistoryEvent.WorkflowExecutionContinuedAsNewEventAttributes v)
              (HistoryEvent.WorkflowExecutionContinuedAsNewEventAttributes rhs) then False else
          if \<not> both_set_and (\<lambda>x y. StartChildWorkflowExecutionInitiatedEventAttributes_Equals (Some
              x) (Some y)) (HistoryEvent.StartChildWorkflowExecutionInitiatedEventAttributes v)
              (HistoryEvent.StartChildWorkflowExecutionInitiatedEventAttributes rhs) then False else
          if \<not> both_set_and (\<lambda>x y. StartChildWorkflowExecutionFailedEventAttributes_Equals (Some x)
              (Some y)) (HistoryEvent.StartChildWorkflowExecutionFailedEventAttributes v)
              (HistoryEvent.StartChildWorkflowExecutionFailedEventAttributes rhs) then False else
          if \<not> both_set_and (\<lambda>x y. ChildWorkflowExecutionStartedEventAttributes_Equals (Some x)
              (Some y)) (HistoryEvent.ChildWorkflowExecutionStartedEventAttributes v)
              (HistoryEvent.ChildWorkflowExecutionStartedEventAttributes rhs) then False else
          if \<not> both_set_and (\<lambda>x y. ChildWorkflowExecutionCompletedEventAttributes_Equals (Some x)
              (Some y)) (HistoryEvent.ChildWorkflowExecutionCompletedEventAttributes v)
              (HistoryEvent.ChildWorkflowExecutionCompletedEventAttributes rhs) then False else
          if \<not> both_set_and (\<lambda>x y. ChildWorkflowExecutionFailedEventAttributes_Equals (Some x) (Some
              y)) (HistoryEvent.ChildWorkflowExecutionFailedEventAttributes v)
              (HistoryEvent.ChildWorkflowExecutionFailedEventAttributes rhs) then False else
          if \<not> both_set_and (\<lambda>x y. ChildWorkflowExecutionCanceledEventAttributes_Equals (Some x)
              (Some y)) (HistoryEvent.ChildWorkflowExecutionCanceledEventAttributes v)
              (HistoryEvent.ChildWorkflowExecutionCanceledEventAttributes rhs) then False else
          if \<not> both_set_and (\<lambda>x y. ChildWorkflowExecutionTimedOutEventAttributes_Equals (Some x)
              (Some y)) (HistoryEvent.ChildWorkflowExecutionTimedOutEventAttributes v)
              (HistoryEvent.ChildWorkflowExecutionTimedOutEventAttributes rhs) then False else
          if \<not> both_set_and (\<lambda>x y. ChildWorkflowExecutionTerminatedEventAttributes_Equals (Some x)
              (Some y)) (HistoryEvent.ChildWorkflowExecutionTerminatedEventAttributes v)
              (HistoryEvent.ChildWorkflowExecutionTerminatedEventAttributes rhs) then False else
          if \<not> both_set_and (\<lambda>x y. SignalExternalWorkflowExecutionInitiatedEventAttributes_Equals
              (Some x) (Some y))
              (HistoryEvent.SignalExternalWorkflowExecutionInitiatedEventAttributes v)
              (HistoryEvent.SignalExternalWorkflowExecutionInitiatedEventAttributes rhs) then False
              else
          if \<not> both_set_and (\<lambda>x y. SignalExternalWorkflowExecutionFailedEventAttributes_Equals (Some
              x) (Some y)) (HistoryEvent.SignalExternalWorkflowExecutionFailedEventAttributes v)
              (HistoryEvent.SignalExternalWorkflowExecutionFailedEventAttributes rhs) then False
              else
          if \<not> both_set_and (\<lambda>x y. ExternalWorkflowExecutionSignaledEventAttributes_Equals (Some x)
              (Some y)) (HistoryEvent.ExternalWorkflowExecutionSignaledEventAttributes v)
              (HistoryEvent.ExternalWorkflowExecutionSignaledEventAttributes rhs) then False else
          if \<not> both_set_and (\<lambda>x y. UpsertWorkflowSearchAttributesEventAttributes_Equals (Some x)
              (Some y)) (HistoryEvent.UpsertWorkflowSearchAttributesEventAttributes v)
              (HistoryEvent.UpsertWorkflowSearchAttributesEventAttributes rhs) then False else
          True))"

definition HistoryEvent_comparable :: "HistoryEvent \<Rightarrow> bool" where
  "HistoryEvent_comparable v \<longleftrightarrow>
     if_set WorkflowExecutionStartedEventAttributes_comparable
         (HistoryEvent.WorkflowExecutionStartedEventAttributes v) \<and>
     if_set ActivityTaskScheduledEventAttributes_comparable
         (HistoryEvent.ActivityTaskScheduledEventAttributes v) \<and>
     if_set MarkerRecordedEventAttributes_comparable (HistoryEvent.MarkerRecordedEventAttributes v)
         \<and>
     if_set WorkflowExecutionContinuedAsNewEventAttributes_comparable
         (HistoryEvent.WorkflowExecutionContinuedAsNewEventAttributes v) \<and>
     if_set StartChildWorkflowExecutionInitiatedEventAttributes_comparable
         (HistoryEvent.StartChildWorkflowExecutionInitiatedEventAttributes v) \<and>
     if_set ChildWorkflowExecutionStartedEventAttributes_comparable
         (HistoryEvent.ChildWorkflowExecutionStartedEventAttributes v) \<and>
     if_set UpsertWorkflowSearchAttributesEventAttributes_comparable
         (HistoryEvent.UpsertWorkflowSearchAttributesEventAttributes v)"

lemma HistoryEvent_Equals_iff:
  "if_set HistoryEvent_comparable x \<Longrightarrow> if_set HistoryEvent_comparable y \<Longrightarrow> HistoryEvent_Equals x y \<longleftrightarrow> x
      = y"
  by (cases x; cases y) (simp_all add: HistoryEvent_Equals_def HistoryEvent_comparable_def
      if_not_False,
    fastforce intro: HistoryEvent.equality)

lemma HistoryEvent_fields_equal [simp]:
  "if_set HistoryEvent_comparable x \<Longrightarrow> if_set HistoryEvent_comparable y \<Longrightarrow>
    both_set_and (\<lambda>x y. HistoryEvent_Equals (Some x) (Some y)) x y \<longleftrightarrow> x = y"
  by (rule both_set_and_iff [where P = HistoryEvent_comparable]) (simp_all add:
      HistoryEvent_Equals_iff)

definition List_HistoryEvent_ValueList :: "'v wire_api \<Rightarrow> HistoryEvent option list \<Rightarrow> 'v ValueList"
    where
  "List_HistoryEvent_ValueList W v =
     \<lparr>ValueList.ForEach = ptr_values (HistoryEvent_ToWire W) v, Size = length v, ValueType =
         TStruct\<rparr>"

definition List_HistoryEvent_Read :: "'v wire_api \<Rightarrow> 'v ValueList \<Rightarrow> go_error + HistoryEvent option
    list option" where
  "List_HistoryEvent_Read W l =
     (if ValueList.ValueType l \<noteq> TStruct then Inr None
      else and_then (for_each (ValueList.ForEach l)
        (\<lambda>out x. and_then (HistoryEvent_Read W x) (\<lambda>i. Inr (out @ [Some i]))) []) (\<lambda>out. Inr (Some
            out)))"

definition List_HistoryEvent_Equals :: "HistoryEvent option list \<Rightarrow> HistoryEvent option list \<Rightarrow> bool"
    where
  "List_HistoryEvent_Equals lhs rhs = list_equals HistoryEvent_Equals lhs rhs"

lemma List_HistoryEvent_codec:
  assumes "wire_laws W"
  shows "list_all (delivered (Writable W)) (ValueList.ForEach (List_HistoryEvent_ValueList W xs)) \<longleftrightarrow>
      list_all (present HistoryEvent_complete) xs"
    and "list_all (present HistoryEvent_complete) xs \<Longrightarrow> List_HistoryEvent_Read W
        (List_HistoryEvent_ValueList W xs) = Inr (Some xs)"
  using HistoryEvent.ptr_values_writable [OF assms] HistoryEvent.ptr_values_read [OF assms]
  by (simp_all add: List_HistoryEvent_ValueList_def List_HistoryEvent_Read_def
      HistoryEvent_Read_def)

lemma List_HistoryEvent_Equals_iff:
  "list_all (if_set HistoryEvent_comparable) xs \<Longrightarrow> list_all (if_set HistoryEvent_comparable) ys \<Longrightarrow>
      List_HistoryEvent_Equals xs ys \<longleftrightarrow> xs = ys"
  unfolding List_HistoryEvent_Equals_def by (rule list_equals_iff [where P = "if_set
      HistoryEvent_comparable"]) (simp_all add: HistoryEvent_Equals_iff)

lemma List_HistoryEvent_fields_equal [simp]:
  "if_set (list_all (if_set HistoryEvent_comparable)) x \<Longrightarrow> if_set (list_all (if_set
      HistoryEvent_comparable)) y \<Longrightarrow>
    both_set_and List_HistoryEvent_Equals x y \<longleftrightarrow> x = y"
  by (rule both_set_and_iff [where P = "list_all (if_set HistoryEvent_comparable)"]) (simp_all add:
      List_HistoryEvent_Equals_iff)

record History =
  Events :: "HistoryEvent option list option"

definition History_zero :: History where
  "History_zero = \<lparr>History.Events = None\<rparr>"

definition History_ToWire ::
  "'v wire_api \<Rightarrow> History \<Rightarrow> go_error + 'v" where
  "History_ToWire W v =
     and_then (put_opt 10 (\<lambda>x. Inr (NewValueList W (List_HistoryEvent_ValueList W x)))
         (History.Events v) [])
       (\<lambda>fields.
     Inr (NewValueStruct W fields))"

definition History_FromWire ::
  "'v wire_api \<Rightarrow> 'v \<Rightarrow> History \<Rightarrow> go_error + History" where
  "History_FromWire W w v =
     foldM (\<lambda>v (fid, fval).
       if fid = 10 then
         if wire_api.Type W fval = TList
         then and_then (List_HistoryEvent_Read W (GetList W fval)) (\<lambda>x. Inr (v\<lparr>History.Events :=
             x\<rparr>))
         else Inr v
       else Inr v) (GetStruct W w) v"

definition History_Read :: "'v wire_api \<Rightarrow> 'v \<Rightarrow> go_error + History" where
  "History_Read W w = History_FromWire W w History_zero"

definition History_complete :: "History \<Rightarrow> bool" where
  "History_complete v \<longleftrightarrow>
     if_set (list_all (present HistoryEvent_complete)) (History.Events v)"

lemma History_merge:
  "(case x of None \<Rightarrow> Inr \<lparr>History.Events = a0\<rparr> | Some y \<Rightarrow> Inr \<lparr>History.Events = b0 y\<rparr>) =
   Inr \<lparr>History.Events = (case x of None \<Rightarrow> a0 | Some y \<Rightarrow> b0 y)\<rparr>"
  by (cases x) simp_all

interpretation HistoryStruct: thrift_message W
  "History_ToWire W" "History_FromWire W" History_zero "History_complete" for W
proof (rule thrift_messageI)
  fix x :: History
  assume laws: "wire_laws W"
  show "\<exists>w. History_ToWire W x = Inr w \<and> wire_api.Type W w = TStruct \<and>
      (Writable W w \<longleftrightarrow> History_complete x) \<and> (History_complete x \<longrightarrow> History_FromWire W w History_zero
          = Inr x)"
    by (cases x) (simp cong: option.case_cong add: codec_rules History_merge History_ToWire_def
        History_FromWire_def History_zero_def History_complete_def if_set_def
        List_HistoryEvent_codec [OF laws] laws)
qed

definition History_Equals ::
  "History option \<Rightarrow> History option \<Rightarrow> bool" where
  "History_Equals v rhs =
     (case v of None \<Rightarrow> rhs = None
      | Some v \<Rightarrow> (case rhs of None \<Rightarrow> False
        | Some rhs \<Rightarrow>
          if \<not> both_set_and List_HistoryEvent_Equals (History.Events v) (History.Events rhs) then
              False else
          True))"

definition History_comparable :: "History \<Rightarrow> bool" where
  "History_comparable v \<longleftrightarrow>
     if_set (list_all (if_set HistoryEvent_comparable)) (History.Events v)"

lemma History_Equals_iff:
  "if_set History_comparable x \<Longrightarrow> if_set History_comparable y \<Longrightarrow> History_Equals x y \<longleftrightarrow> x = y"
  by (cases x; cases y) (simp_all add: History_Equals_def History_comparable_def if_not_False,
    fastforce intro: History.equality)

lemma History_fields_equal [simp]:
  "if_set History_comparable x \<Longrightarrow> if_set History_comparable y \<Longrightarrow>
    both_set_and (\<lambda>x y. History_Equals (Some x) (Some y)) x y \<longleftrightarrow> x = y"
  by (rule both_set_and_iff [where P = History_comparable]) (simp_all add: History_Equals_iff)

record Decision =
  DecisionType :: "DecisionType option"
  ScheduleActivityTaskDecisionAttributes :: "ScheduleActivityTaskDecisionAttributes option"
  StartTimerDecisionAttributes :: "StartTimerDecisionAttributes option"
  CompleteWorkflowExecutionDecisionAttributes :: "CompleteWorkflowExecutionDecisionAttributes
      option"
  FailWorkflowExecutionDecisionAttributes :: "FailWorkflowExecutionDecisionAttributes option"
  RequestCancelActivityTaskDecisionAttributes :: "RequestCancelActivityTaskDecisionAttributes
      option"
  CancelTimerDecisionAttributes :: "CancelTimerDecisionAttributes option"
  CancelWorkflowExecutionDecisionAttributes :: "CancelWorkflowExecutionDecisionAttributes option"
  RequestCancelExternalWorkflowExecutionDecisionAttributes ::
      "RequestCancelExternalWorkflowExecutionDecisionAttributes option"
  RecordMarkerDecisionAttributes :: "RecordMarkerDecisionAttributes option"
  ContinueAsNewWorkflowExecutionDecisionAttributes ::
      "ContinueAsNewWorkflowExecutionDecisionAttributes option"
  StartChildWorkflowExecutionDecisionAttributes :: "StartChildWorkflowExecutionDecisionAttributes
      option"
  SignalExternalWorkflowExecutionDecisionAttributes ::
      "SignalExternalWorkflowExecutionDecisionAttributes option"
  UpsertWorkflowSearchAttributesDecisionAttributes ::
      "UpsertWorkflowSearchAttributesDecisionAttributes option"

definition Decision_zero :: Decision where
  "Decision_zero = \<lparr>Decision.DecisionType = None, Decision.ScheduleActivityTaskDecisionAttributes =
      None, Decision.StartTimerDecisionAttributes = None,
      Decision.CompleteWorkflowExecutionDecisionAttributes = None,
      Decision.FailWorkflowExecutionDecisionAttributes = None,
      Decision.RequestCancelActivityTaskDecisionAttributes = None,
      Decision.CancelTimerDecisionAttributes = None,
      Decision.CancelWorkflowExecutionDecisionAttributes = None,
      Decision.RequestCancelExternalWorkflowExecutionDecisionAttributes = None,
      Decision.RecordMarkerDecisionAttributes = None,
      Decision.ContinueAsNewWorkflowExecutionDecisionAttributes = None,
      Decision.StartChildWorkflowExecutionDecisionAttributes = None,
      Decision.SignalExternalWorkflowExecutionDecisionAttributes = None,
      Decision.UpsertWorkflowSearchAttributesDecisionAttributes = None\<rparr>"

definition Decision_ToWire ::
  "'v wire_api \<Rightarrow> Decision \<Rightarrow> go_error + 'v" where
  "Decision_ToWire W v =
     and_then (put_opt 10 (DecisionType_ToWire W) (Decision.DecisionType v) [])
       (\<lambda>fields.
     and_then (put_opt 20 (ScheduleActivityTaskDecisionAttributes_ToWire W)
         (Decision.ScheduleActivityTaskDecisionAttributes v) fields)
       (\<lambda>fields.
     and_then (put_opt 25 (StartTimerDecisionAttributes_ToWire W)
         (Decision.StartTimerDecisionAttributes v) fields)
       (\<lambda>fields.
     and_then (put_opt 30 (CompleteWorkflowExecutionDecisionAttributes_ToWire W)
         (Decision.CompleteWorkflowExecutionDecisionAttributes v) fields)
       (\<lambda>fields.
     and_then (put_opt 35 (FailWorkflowExecutionDecisionAttributes_ToWire W)
         (Decision.FailWorkflowExecutionDecisionAttributes v) fields)
       (\<lambda>fields.
     and_then (put_opt 40 (RequestCancelActivityTaskDecisionAttributes_ToWire W)
         (Decision.RequestCancelActivityTaskDecisionAttributes v) fields)
       (\<lambda>fields.
     and_then (put_opt 50 (CancelTimerDecisionAttributes_ToWire W)
         (Decision.CancelTimerDecisionAttributes v) fields)
       (\<lambda>fields.
     and_then (put_opt 60 (CancelWorkflowExecutionDecisionAttributes_ToWire W)
         (Decision.CancelWorkflowExecutionDecisionAttributes v) fields)
       (\<lambda>fields.
     and_then (put_opt 70 (RequestCancelExternalWorkflowExecutionDecisionAttributes_ToWire W)
         (Decision.RequestCancelExternalWorkflowExecutionDecisionAttributes v) fields)
       (\<lambda>fields.
     and_then (put_opt 80 (RecordMarkerDecisionAttributes_ToWire W)
         (Decision.RecordMarkerDecisionAttributes v) fields)
       (\<lambda>fields.
     and_then (put_opt 90 (ContinueAsNewWorkflowExecutionDecisionAttributes_ToWire W)
         (Decision.ContinueAsNewWorkflowExecutionDecisionAttributes v) fields)
       (\<lambda>fields.
     and_then (put_opt 100 (StartChildWorkflowExecutionDecisionAttributes_ToWire W)
         (Decision.StartChildWorkflowExecutionDecisionAttributes v) fields)
       (\<lambda>fields.
     and_then (put_opt 110 (SignalExternalWorkflowExecutionDecisionAttributes_ToWire W)
         (Decision.SignalExternalWorkflowExecutionDecisionAttributes v) fields)
       (\<lambda>fields.
     and_then (put_opt 120 (UpsertWorkflowSearchAttributesDecisionAttributes_ToWire W)
         (Decision.UpsertWorkflowSearchAttributesDecisionAttributes v) fields)
       (\<lambda>fields.
     Inr (NewValueStruct W fields)))))))))))))))"

definition Decision_FromWire ::
  "'v wire_api \<Rightarrow> 'v \<Rightarrow> Decision \<Rightarrow> go_error + Decision" where
  "Decision_FromWire W w v =
     foldM (\<lambda>v (fid, fval).
       if fid = 10 then
         if wire_api.Type W fval = TI32
         then and_then (DecisionType_Read W fval) (\<lambda>x. Inr (v\<lparr>Decision.DecisionType := Some x\<rparr>))
         else Inr v
       else if fid = 20 then
         if wire_api.Type W fval = TStruct
         then and_then (ScheduleActivityTaskDecisionAttributes_Read W fval) (\<lambda>x. Inr
             (v\<lparr>Decision.ScheduleActivityTaskDecisionAttributes := Some x\<rparr>))
         else Inr v
       else if fid = 25 then
         if wire_api.Type W fval = TStruct
         then and_then (StartTimerDecisionAttributes_Read W fval) (\<lambda>x. Inr
             (v\<lparr>Decision.StartTimerDecisionAttributes := Some x\<rparr>))
         else Inr v
       else if fid = 30 then
         if wire_api.Type W fval = TStruct
         then and_then (CompleteWorkflowExecutionDecisionAttributes_Read W fval) (\<lambda>x. Inr
             (v\<lparr>Decision.CompleteWorkflowExecutionDecisionAttributes := Some x\<rparr>))
         else Inr v
       else if fid = 35 then
         if wire_api.Type W fval = TStruct
         then and_then (FailWorkflowExecutionDecisionAttributes_Read W fval) (\<lambda>x. Inr
             (v\<lparr>Decision.FailWorkflowExecutionDecisionAttributes := Some x\<rparr>))
         else Inr v
       else if fid = 40 then
         if wire_api.Type W fval = TStruct
         then and_then (RequestCancelActivityTaskDecisionAttributes_Read W fval) (\<lambda>x. Inr
             (v\<lparr>Decision.RequestCancelActivityTaskDecisionAttributes := Some x\<rparr>))
         else Inr v
       else if fid = 50 then
         if wire_api.Type W fval = TStruct
         then and_then (CancelTimerDecisionAttributes_Read W fval) (\<lambda>x. Inr
             (v\<lparr>Decision.CancelTimerDecisionAttributes := Some x\<rparr>))
         else Inr v
       else if fid = 60 then
         if wire_api.Type W fval = TStruct
         then and_then (CancelWorkflowExecutionDecisionAttributes_Read W fval) (\<lambda>x. Inr
             (v\<lparr>Decision.CancelWorkflowExecutionDecisionAttributes := Some x\<rparr>))
         else Inr v
       else if fid = 70 then
         if wire_api.Type W fval = TStruct
         then and_then (RequestCancelExternalWorkflowExecutionDecisionAttributes_Read W fval) (\<lambda>x.
             Inr (v\<lparr>Decision.RequestCancelExternalWorkflowExecutionDecisionAttributes := Some x\<rparr>))
         else Inr v
       else if fid = 80 then
         if wire_api.Type W fval = TStruct
         then and_then (RecordMarkerDecisionAttributes_Read W fval) (\<lambda>x. Inr
             (v\<lparr>Decision.RecordMarkerDecisionAttributes := Some x\<rparr>))
         else Inr v
       else if fid = 90 then
         if wire_api.Type W fval = TStruct
         then and_then (ContinueAsNewWorkflowExecutionDecisionAttributes_Read W fval) (\<lambda>x. Inr
             (v\<lparr>Decision.ContinueAsNewWorkflowExecutionDecisionAttributes := Some x\<rparr>))
         else Inr v
       else if fid = 100 then
         if wire_api.Type W fval = TStruct
         then and_then (StartChildWorkflowExecutionDecisionAttributes_Read W fval) (\<lambda>x. Inr
             (v\<lparr>Decision.StartChildWorkflowExecutionDecisionAttributes := Some x\<rparr>))
         else Inr v
       else if fid = 110 then
         if wire_api.Type W fval = TStruct
         then and_then (SignalExternalWorkflowExecutionDecisionAttributes_Read W fval) (\<lambda>x. Inr
             (v\<lparr>Decision.SignalExternalWorkflowExecutionDecisionAttributes := Some x\<rparr>))
         else Inr v
       else if fid = 120 then
         if wire_api.Type W fval = TStruct
         then and_then (UpsertWorkflowSearchAttributesDecisionAttributes_Read W fval) (\<lambda>x. Inr
             (v\<lparr>Decision.UpsertWorkflowSearchAttributesDecisionAttributes := Some x\<rparr>))
         else Inr v
       else Inr v) (GetStruct W w) v"

definition Decision_Read :: "'v wire_api \<Rightarrow> 'v \<Rightarrow> go_error + Decision" where
  "Decision_Read W w = Decision_FromWire W w Decision_zero"

definition Decision_complete :: "Decision \<Rightarrow> bool" where
  "Decision_complete v \<longleftrightarrow>
     if_set ScheduleActivityTaskDecisionAttributes_complete
         (Decision.ScheduleActivityTaskDecisionAttributes v) \<and>
     if_set RecordMarkerDecisionAttributes_complete (Decision.RecordMarkerDecisionAttributes v) \<and>
     if_set ContinueAsNewWorkflowExecutionDecisionAttributes_complete
         (Decision.ContinueAsNewWorkflowExecutionDecisionAttributes v) \<and>
     if_set StartChildWorkflowExecutionDecisionAttributes_complete
         (Decision.StartChildWorkflowExecutionDecisionAttributes v) \<and>
     if_set UpsertWorkflowSearchAttributesDecisionAttributes_complete
         (Decision.UpsertWorkflowSearchAttributesDecisionAttributes v)"

lemma Decision_merge:
  "(case x of None \<Rightarrow> Inr \<lparr>Decision.DecisionType = a0,
      Decision.ScheduleActivityTaskDecisionAttributes = a1, Decision.StartTimerDecisionAttributes =
      a2, Decision.CompleteWorkflowExecutionDecisionAttributes = a3,
      Decision.FailWorkflowExecutionDecisionAttributes = a4,
      Decision.RequestCancelActivityTaskDecisionAttributes = a5,
      Decision.CancelTimerDecisionAttributes = a6,
      Decision.CancelWorkflowExecutionDecisionAttributes = a7,
      Decision.RequestCancelExternalWorkflowExecutionDecisionAttributes = a8,
      Decision.RecordMarkerDecisionAttributes = a9,
      Decision.ContinueAsNewWorkflowExecutionDecisionAttributes = a10,
      Decision.StartChildWorkflowExecutionDecisionAttributes = a11,
      Decision.SignalExternalWorkflowExecutionDecisionAttributes = a12,
      Decision.UpsertWorkflowSearchAttributesDecisionAttributes = a13\<rparr> | Some y \<Rightarrow> Inr
      \<lparr>Decision.DecisionType = b0 y, Decision.ScheduleActivityTaskDecisionAttributes = b1 y,
      Decision.StartTimerDecisionAttributes = b2 y,
      Decision.CompleteWorkflowExecutionDecisionAttributes = b3 y,
      Decision.FailWorkflowExecutionDecisionAttributes = b4 y,
      Decision.RequestCancelActivityTaskDecisionAttributes = b5 y,
      Decision.CancelTimerDecisionAttributes = b6 y,
      Decision.CancelWorkflowExecutionDecisionAttributes = b7 y,
      Decision.RequestCancelExternalWorkflowExecutionDecisionAttributes = b8 y,
      Decision.RecordMarkerDecisionAttributes = b9 y,
      Decision.ContinueAsNewWorkflowExecutionDecisionAttributes = b10 y,
      Decision.StartChildWorkflowExecutionDecisionAttributes = b11 y,
      Decision.SignalExternalWorkflowExecutionDecisionAttributes = b12 y,
      Decision.UpsertWorkflowSearchAttributesDecisionAttributes = b13 y\<rparr>) =
   Inr \<lparr>Decision.DecisionType = (case x of None \<Rightarrow> a0 | Some y \<Rightarrow> b0 y),
       Decision.ScheduleActivityTaskDecisionAttributes = (case x of None \<Rightarrow> a1 | Some y \<Rightarrow> b1 y),
       Decision.StartTimerDecisionAttributes = (case x of None \<Rightarrow> a2 | Some y \<Rightarrow> b2 y),
       Decision.CompleteWorkflowExecutionDecisionAttributes = (case x of None \<Rightarrow> a3 | Some y \<Rightarrow> b3 y),
       Decision.FailWorkflowExecutionDecisionAttributes = (case x of None \<Rightarrow> a4 | Some y \<Rightarrow> b4 y),
       Decision.RequestCancelActivityTaskDecisionAttributes = (case x of None \<Rightarrow> a5 | Some y \<Rightarrow> b5 y),
       Decision.CancelTimerDecisionAttributes = (case x of None \<Rightarrow> a6 | Some y \<Rightarrow> b6 y),
       Decision.CancelWorkflowExecutionDecisionAttributes = (case x of None \<Rightarrow> a7 | Some y \<Rightarrow> b7 y),
       Decision.RequestCancelExternalWorkflowExecutionDecisionAttributes = (case x of None \<Rightarrow> a8 |
       Some y \<Rightarrow> b8 y), Decision.RecordMarkerDecisionAttributes = (case x of None \<Rightarrow> a9 | Some y \<Rightarrow> b9
       y), Decision.ContinueAsNewWorkflowExecutionDecisionAttributes = (case x of None \<Rightarrow> a10 | Some
       y \<Rightarrow> b10 y), Decision.StartChildWorkflowExecutionDecisionAttributes = (case x of None \<Rightarrow> a11 |
       Some y \<Rightarrow> b11 y), Decision.SignalExternalWorkflowExecutionDecisionAttributes = (case x of None
       \<Rightarrow> a12 | Some y \<Rightarrow> b12 y), Decision.UpsertWorkflowSearchAttributesDecisionAttributes = (case x
       of None \<Rightarrow> a13 | Some y \<Rightarrow> b13 y)\<rparr>"
  by (cases x) simp_all

interpretation Decision: thrift_message W
  "Decision_ToWire W" "Decision_FromWire W" Decision_zero "Decision_complete" for W
proof (rule thrift_messageI)
  fix x :: Decision
  assume laws: "wire_laws W"
  obtain enc0 where e0: "CancelTimerDecisionAttributes_ToWire W = (\<lambda>x. Inr (enc0 x))"
      "\<And>x. wire_api.Type W (enc0 x) = TStruct"
      "\<And>x. Writable W (enc0 x) \<longleftrightarrow> (\<lambda>_. True) x"
      "\<And>x. (\<lambda>_. True) x \<Longrightarrow> CancelTimerDecisionAttributes_FromWire W (enc0 x)
          CancelTimerDecisionAttributes_zero = Inr x"
    by (rule CancelTimerDecisionAttributes.encoder [OF laws]) (rule that)
  obtain enc1 where e1: "CancelWorkflowExecutionDecisionAttributes_ToWire W = (\<lambda>x. Inr (enc1 x))"
      "\<And>x. wire_api.Type W (enc1 x) = TStruct"
      "\<And>x. Writable W (enc1 x) \<longleftrightarrow> (\<lambda>_. True) x"
      "\<And>x. (\<lambda>_. True) x \<Longrightarrow> CancelWorkflowExecutionDecisionAttributes_FromWire W (enc1 x)
          CancelWorkflowExecutionDecisionAttributes_zero = Inr x"
    by (rule CancelWorkflowExecutionDecisionAttributes.encoder [OF laws]) (rule that)
  obtain enc2 where e2: "CompleteWorkflowExecutionDecisionAttributes_ToWire W = (\<lambda>x. Inr (enc2 x))"
      "\<And>x. wire_api.Type W (enc2 x) = TStruct"
      "\<And>x. Writable W (enc2 x) \<longleftrightarrow> (\<lambda>_. True) x"
      "\<And>x. (\<lambda>_. True) x \<Longrightarrow> CompleteWorkflowExecutionDecisionAttributes_FromWire W (enc2 x)
          CompleteWorkflowExecutionDecisionAttributes_zero = Inr x"
    by (rule CompleteWorkflowExecutionDecisionAttributes.encoder [OF laws]) (rule that)
  obtain enc3 where e3: "ContinueAsNewWorkflowExecutionDecisionAttributes_ToWire W = (\<lambda>x. Inr (enc3
      x))"
      "\<And>x. wire_api.Type W (enc3 x) = TStruct"
      "\<And>x. Writable W (enc3 x) \<longleftrightarrow> ContinueAsNewWorkflowExecutionDecisionAttributes_complete x"
      "\<And>x. ContinueAsNewWorkflowExecutionDecisionAttributes_complete x \<Longrightarrow>
          ContinueAsNewWorkflowExecutionDecisionAttributes_FromWire W (enc3 x)
          ContinueAsNewWorkflowExecutionDecisionAttributes_zero = Inr x"
    by (rule ContinueAsNewWorkflowExecutionDecisionAttributes.encoder [OF laws]) (rule that)
  obtain enc4 where e4: "FailWorkflowExecutionDecisionAttributes_ToWire W = (\<lambda>x. Inr (enc4 x))"
      "\<And>x. wire_api.Type W (enc4 x) = TStruct"
      "\<And>x. Writable W (enc4 x) \<longleftrightarrow> (\<lambda>_. True) x"
      "\<And>x. (\<lambda>_. True) x \<Longrightarrow> FailWorkflowExecutionDecisionAttributes_FromWire W (enc4 x)
          FailWorkflowExecutionDecisionAttributes_zero = Inr x"
    by (rule FailWorkflowExecutionDecisionAttributes.encoder [OF laws]) (rule that)
  obtain enc5 where e5: "RecordMarkerDecisionAttributes_ToWire W = (\<lambda>x. Inr (enc5 x))"
      "\<And>x. wire_api.Type W (enc5 x) = TStruct"
      "\<And>x. Writable W (enc5 x) \<longleftrightarrow> RecordMarkerDecisionAttributes_complete x"
      "\<And>x. RecordMarkerDecisionAttributes_complete x \<Longrightarrow> RecordMarkerDecisionAttributes_FromWire W
          (enc5 x) RecordMarkerDecisionAttributes_zero = Inr x"
    by (rule RecordMarkerDecisionAttributes.encoder [OF laws]) (rule that)
  obtain enc6 where e6: "RequestCancelActivityTaskDecisionAttributes_ToWire W = (\<lambda>x. Inr (enc6 x))"
      "\<And>x. wire_api.Type W (enc6 x) = TStruct"
      "\<And>x. Writable W (enc6 x) \<longleftrightarrow> (\<lambda>_. True) x"
      "\<And>x. (\<lambda>_. True) x \<Longrightarrow> RequestCancelActivityTaskDecisionAttributes_FromWire W (enc6 x)
          RequestCancelActivityTaskDecisionAttributes_zero = Inr x"
    by (rule RequestCancelActivityTaskDecisionAttributes.encoder [OF laws]) (rule that)
  obtain enc7 where e7: "RequestCancelExternalWorkflowExecutionDecisionAttributes_ToWire W = (\<lambda>x.
      Inr (enc7 x))"
      "\<And>x. wire_api.Type W (enc7 x) = TStruct"
      "\<And>x. Writable W (enc7 x) \<longleftrightarrow> (\<lambda>_. True) x"
      "\<And>x. (\<lambda>_. True) x \<Longrightarrow> RequestCancelExternalWorkflowExecutionDecisionAttributes_FromWire W (enc7
          x) RequestCancelExternalWorkflowExecutionDecisionAttributes_zero = Inr x"
    by (rule RequestCancelExternalWorkflowExecutionDecisionAttributes.encoder [OF laws]) (rule that)
  obtain enc8 where e8: "ScheduleActivityTaskDecisionAttributes_ToWire W = (\<lambda>x. Inr (enc8 x))"
      "\<And>x. wire_api.Type W (enc8 x) = TStruct"
      "\<And>x. Writable W (enc8 x) \<longleftrightarrow> ScheduleActivityTaskDecisionAttributes_complete x"
      "\<And>x. ScheduleActivityTaskDecisionAttributes_complete x \<Longrightarrow>
          ScheduleActivityTaskDecisionAttributes_FromWire W (enc8 x)
          ScheduleActivityTaskDecisionAttributes_zero = Inr x"
    by (rule ScheduleActivityTaskDecisionAttributes.encoder [OF laws]) (rule that)
  obtain enc9 where e9: "SignalExternalWorkflowExecutionDecisionAttributes_ToWire W = (\<lambda>x. Inr (enc9
      x))"
      "\<And>x. wire_api.Type W (enc9 x) = TStruct"
      "\<And>x. Writable W (enc9 x) \<longleftrightarrow> (\<lambda>_. True) x"
      "\<And>x. (\<lambda>_. True) x \<Longrightarrow> SignalExternalWorkflowExecutionDecisionAttributes_FromWire W (enc9 x)
          SignalExternalWorkflowExecutionDecisionAttributes_zero = Inr x"
    by (rule SignalExternalWorkflowExecutionDecisionAttributes.encoder [OF laws]) (rule that)
  obtain enc10 where e10: "StartChildWorkflowExecutionDecisionAttributes_ToWire W = (\<lambda>x. Inr (enc10
      x))"
      "\<And>x. wire_api.Type W (enc10 x) = TStruct"
      "\<And>x. Writable W (enc10 x) \<longleftrightarrow> StartChildWorkflowExecutionDecisionAttributes_complete x"
      "\<And>x. StartChildWorkflowExecutionDecisionAttributes_complete x \<Longrightarrow>
          StartChildWorkflowExecutionDecisionAttributes_FromWire W (enc10 x)
          StartChildWorkflowExecutionDecisionAttributes_zero = Inr x"
    by (rule StartChildWorkflowExecutionDecisionAttributes.encoder [OF laws]) (rule that)
  obtain enc11 where e11: "StartTimerDecisionAttributes_ToWire W = (\<lambda>x. Inr (enc11 x))"
      "\<And>x. wire_api.Type W (enc11 x) = TStruct"
      "\<And>x. Writable W (enc11 x) \<longleftrightarrow> (\<lambda>_. True) x"
      "\<And>x. (\<lambda>_. True) x \<Longrightarrow> StartTimerDecisionAttributes_FromWire W (enc11 x)
          StartTimerDecisionAttributes_zero = Inr x"
    by (rule StartTimerDecisionAttributes.encoder [OF laws]) (rule that)
  obtain enc12 where e12: "UpsertWorkflowSearchAttributesDecisionAttributes_ToWire W = (\<lambda>x. Inr
      (enc12 x))"
      "\<And>x. wire_api.Type W (enc12 x) = TStruct"
      "\<And>x. Writable W (enc12 x) \<longleftrightarrow> UpsertWorkflowSearchAttributesDecisionAttributes_complete x"
      "\<And>x. UpsertWorkflowSearchAttributesDecisionAttributes_complete x \<Longrightarrow>
          UpsertWorkflowSearchAttributesDecisionAttributes_FromWire W (enc12 x)
          UpsertWorkflowSearchAttributesDecisionAttributes_zero = Inr x"
    by (rule UpsertWorkflowSearchAttributesDecisionAttributes.encoder [OF laws]) (rule that)
  show "\<exists>w. Decision_ToWire W x = Inr w \<and> wire_api.Type W w = TStruct \<and>
      (Writable W w \<longleftrightarrow> Decision_complete x) \<and> (Decision_complete x \<longrightarrow> Decision_FromWire W w
          Decision_zero = Inr x)"
    by (cases x) (simp cong: option.case_cong add: codec_rules Decision_merge Decision_ToWire_def
        Decision_FromWire_def Decision_zero_def Decision_complete_def if_set_def DecisionType_enc
        DecisionType_Read_def DecisionType_FromWire_def CancelTimerDecisionAttributes_Read_def
        CancelWorkflowExecutionDecisionAttributes_Read_def
        CompleteWorkflowExecutionDecisionAttributes_Read_def
        ContinueAsNewWorkflowExecutionDecisionAttributes_Read_def
        FailWorkflowExecutionDecisionAttributes_Read_def RecordMarkerDecisionAttributes_Read_def
        RequestCancelActivityTaskDecisionAttributes_Read_def
        RequestCancelExternalWorkflowExecutionDecisionAttributes_Read_def
        ScheduleActivityTaskDecisionAttributes_Read_def
        SignalExternalWorkflowExecutionDecisionAttributes_Read_def
        StartChildWorkflowExecutionDecisionAttributes_Read_def StartTimerDecisionAttributes_Read_def
        UpsertWorkflowSearchAttributesDecisionAttributes_Read_def laws e0 e1 e2 e3 e4 e5 e6 e7 e8 e9
        e10 e11 e12)
qed

definition Decision_Equals ::
  "Decision option \<Rightarrow> Decision option \<Rightarrow> bool" where
  "Decision_Equals v rhs =
     (case v of None \<Rightarrow> rhs = None
      | Some v \<Rightarrow> (case rhs of None \<Rightarrow> False
        | Some rhs \<Rightarrow>
          if \<not> DecisionType_EqualsPtr (Decision.DecisionType v) (Decision.DecisionType rhs) then
              False else
          if \<not> both_set_and (\<lambda>x y. ScheduleActivityTaskDecisionAttributes_Equals (Some x) (Some y))
              (Decision.ScheduleActivityTaskDecisionAttributes v)
              (Decision.ScheduleActivityTaskDecisionAttributes rhs) then False else
          if \<not> both_set_and (\<lambda>x y. StartTimerDecisionAttributes_Equals (Some x) (Some y))
              (Decision.StartTimerDecisionAttributes v) (Decision.StartTimerDecisionAttributes rhs)
              then False else
          if \<not> both_set_and (\<lambda>x y. CompleteWorkflowExecutionDecisionAttributes_Equals (Some x) (Some
              y)) (Decision.CompleteWorkflowExecutionDecisionAttributes v)
              (Decision.CompleteWorkflowExecutionDecisionAttributes rhs) then False else
          if \<not> both_set_and (\<lambda>x y. FailWorkflowExecutionDecisionAttributes_Equals (Some x) (Some y))
              (Decision.FailWorkflowExecutionDecisionAttributes v)
              (Decision.FailWorkflowExecutionDecisionAttributes rhs) then False else
          if \<not> both_set_and (\<lambda>x y. RequestCancelActivityTaskDecisionAttributes_Equals (Some x) (Some
              y)) (Decision.RequestCancelActivityTaskDecisionAttributes v)
              (Decision.RequestCancelActivityTaskDecisionAttributes rhs) then False else
          if \<not> both_set_and (\<lambda>x y. CancelTimerDecisionAttributes_Equals (Some x) (Some y))
              (Decision.CancelTimerDecisionAttributes v) (Decision.CancelTimerDecisionAttributes
              rhs) then False else
          if \<not> both_set_and (\<lambda>x y. CancelWorkflowExecutionDecisionAttributes_Equals (Some x) (Some
              y)) (Decision.CancelWorkflowExecutionDecisionAttributes v)
              (Decision.CancelWorkflowExecutionDecisionAttributes rhs) then False else
          if \<not> both_set_and (\<lambda>x y. RequestCancelExternalWorkflowExecutionDecisionAttributes_Equals
              (Some x) (Some y)) (Decision.RequestCancelExternalWorkflowExecutionDecisionAttributes
              v) (Decision.RequestCancelExternalWorkflowExecutionDecisionAttributes rhs) then False
              else
          if \<not> both_set_and (\<lambda>x y. RecordMarkerDecisionAttributes_Equals (Some x) (Some y))
              (Decision.RecordMarkerDecisionAttributes v) (Decision.RecordMarkerDecisionAttributes
              rhs) then False else
          if \<not> both_set_and (\<lambda>x y. ContinueAsNewWorkflowExecutionDecisionAttributes_Equals (Some x)
              (Some y)) (Decision.ContinueAsNewWorkflowExecutionDecisionAttributes v)
              (Decision.ContinueAsNewWorkflowExecutionDecisionAttributes rhs) then False else
          if \<not> both_set_and (\<lambda>x y. StartChildWorkflowExecutionDecisionAttributes_Equals (Some x)
              (Some y)) (Decision.StartChildWorkflowExecutionDecisionAttributes v)
              (Decision.StartChildWorkflowExecutionDecisionAttributes rhs) then False else
          if \<not> both_set_and (\<lambda>x y. SignalExternalWorkflowExecutionDecisionAttributes_Equals (Some x)
              (Some y)) (Decision.SignalExternalWorkflowExecutionDecisionAttributes v)
              (Decision.SignalExternalWorkflowExecutionDecisionAttributes rhs) then False else
          if \<not> both_set_and (\<lambda>x y. UpsertWorkflowSearchAttributesDecisionAttributes_Equals (Some x)
              (Some y)) (Decision.UpsertWorkflowSearchAttributesDecisionAttributes v)
              (Decision.UpsertWorkflowSearchAttributesDecisionAttributes rhs) then False else
          True))"

definition Decision_comparable :: "Decision \<Rightarrow> bool" where
  "Decision_comparable v \<longleftrightarrow>
     if_set ScheduleActivityTaskDecisionAttributes_comparable
         (Decision.ScheduleActivityTaskDecisionAttributes v) \<and>
     if_set RecordMarkerDecisionAttributes_comparable (Decision.RecordMarkerDecisionAttributes v) \<and>
     if_set ContinueAsNewWorkflowExecutionDecisionAttributes_comparable
         (Decision.ContinueAsNewWorkflowExecutionDecisionAttributes v) \<and>
     if_set StartChildWorkflowExecutionDecisionAttributes_comparable
         (Decision.StartChildWorkflowExecutionDecisionAttributes v) \<and>
     if_set UpsertWorkflowSearchAttributesDecisionAttributes_comparable
         (Decision.UpsertWorkflowSearchAttributesDecisionAttributes v)"

lemma Decision_Equals_iff:
  "if_set Decision_comparable x \<Longrightarrow> if_set Decision_comparable y \<Longrightarrow> Decision_Equals x y \<longleftrightarrow> x = y"
  by (cases x; cases y) (simp_all add: Decision_Equals_def Decision_comparable_def if_not_False,
    fastforce intro: Decision.equality)

lemma Decision_fields_equal [simp]:
  "if_set Decision_comparable x \<Longrightarrow> if_set Decision_comparable y \<Longrightarrow>
    both_set_and (\<lambda>x y. Decision_Equals (Some x) (Some y)) x y \<longleftrightarrow> x = y"
  by (rule both_set_and_iff [where P = Decision_comparable]) (simp_all add: Decision_Equals_iff)

definition List_Decision_ValueList :: "'v wire_api \<Rightarrow> Decision option list \<Rightarrow> 'v ValueList" where
  "List_Decision_ValueList W v =
     \<lparr>ValueList.ForEach = ptr_values (Decision_ToWire W) v, Size = length v, ValueType = TStruct\<rparr>"

definition List_Decision_Read :: "'v wire_api \<Rightarrow> 'v ValueList \<Rightarrow> go_error + Decision option list
    option" where
  "List_Decision_Read W l =
     (if ValueList.ValueType l \<noteq> TStruct then Inr None
      else and_then (for_each (ValueList.ForEach l)
        (\<lambda>out x. and_then (Decision_Read W x) (\<lambda>i. Inr (out @ [Some i]))) []) (\<lambda>out. Inr (Some
            out)))"

definition List_Decision_Equals :: "Decision option list \<Rightarrow> Decision option list \<Rightarrow> bool" where
  "List_Decision_Equals lhs rhs = list_equals Decision_Equals lhs rhs"

lemma List_Decision_codec:
  assumes "wire_laws W"
  shows "list_all (delivered (Writable W)) (ValueList.ForEach (List_Decision_ValueList W xs)) \<longleftrightarrow>
      list_all (present Decision_complete) xs"
    and "list_all (present Decision_complete) xs \<Longrightarrow> List_Decision_Read W (List_Decision_ValueList W
        xs) = Inr (Some xs)"
  using Decision.ptr_values_writable [OF assms] Decision.ptr_values_read [OF assms]
  by (simp_all add: List_Decision_ValueList_def List_Decision_Read_def Decision_Read_def)

lemma List_Decision_Equals_iff:
  "list_all (if_set Decision_comparable) xs \<Longrightarrow> list_all (if_set Decision_comparable) ys \<Longrightarrow>
      List_Decision_Equals xs ys \<longleftrightarrow> xs = ys"
  unfolding List_Decision_Equals_def by (rule list_equals_iff [where P = "if_set
      Decision_comparable"]) (simp_all add: Decision_Equals_iff)

lemma List_Decision_fields_equal [simp]:
  "if_set (list_all (if_set Decision_comparable)) x \<Longrightarrow> if_set (list_all (if_set Decision_comparable))
      y \<Longrightarrow>
    both_set_and List_Decision_Equals x y \<longleftrightarrow> x = y"
  by (rule both_set_and_iff [where P = "list_all (if_set Decision_comparable)"]) (simp_all add:
      List_Decision_Equals_iff)

end
