(* ===== verification/GoDomains.thy ===== *)
theory GoDomains
  imports GoTypes
begin

text \<open>
  Domains, their configuration and replication, and the requests about them
  (proxy/gen/shared/shared.go), with their codecs and comparisons.
\<close>

record BadBinaryInfo =
  Reason :: "string option"
  Operator :: "string option"
  CreatedTimeNano :: "64 word option"

definition BadBinaryInfo_zero :: BadBinaryInfo where
  "BadBinaryInfo_zero = \<lparr>BadBinaryInfo.Reason = None, BadBinaryInfo.Operator = None,
      BadBinaryInfo.CreatedTimeNano = None\<rparr>"

definition BadBinaryInfo_ToWire ::
  "'v wire_api \<Rightarrow> BadBinaryInfo \<Rightarrow> go_error + 'v" where
  "BadBinaryInfo_ToWire W v =
     and_then (put_opt 10 (\<lambda>x. Inr (NewValueString W x)) (BadBinaryInfo.Reason v) [])
       (\<lambda>fields.
     and_then (put_opt 20 (\<lambda>x. Inr (NewValueString W x)) (BadBinaryInfo.Operator v) fields)
       (\<lambda>fields.
     and_then (put_opt 30 (\<lambda>x. Inr (NewValueI64 W x)) (BadBinaryInfo.CreatedTimeNano v) fields)
       (\<lambda>fields.
     Inr (NewValueStruct W fields))))"

definition BadBinaryInfo_FromWire ::
  "'v wire_api \<Rightarrow> 'v \<Rightarrow> BadBinaryInfo \<Rightarrow> go_error + BadBinaryInfo" where
  "BadBinaryInfo_FromWire W w v =
     foldM (\<lambda>v (fid, fval).
       if fid = 10 then
         if wire_api.Type W fval = TBinary
         then Inr (v\<lparr>BadBinaryInfo.Reason := Some (GetString W fval)\<rparr>)
         else Inr v
       else if fid = 20 then
         if wire_api.Type W fval = TBinary
         then Inr (v\<lparr>BadBinaryInfo.Operator := Some (GetString W fval)\<rparr>)
         else Inr v
       else if fid = 30 then
         if wire_api.Type W fval = TI64
         then Inr (v\<lparr>BadBinaryInfo.CreatedTimeNano := Some (GetI64 W fval)\<rparr>)
         else Inr v
       else Inr v) (GetStruct W w) v"

definition BadBinaryInfo_Read :: "'v wire_api \<Rightarrow> 'v \<Rightarrow> go_error + BadBinaryInfo" where
  "BadBinaryInfo_Read W w = BadBinaryInfo_FromWire W w BadBinaryInfo_zero"

lemma BadBinaryInfo_merge:
  "(case x of None \<Rightarrow> Inr \<lparr>BadBinaryInfo.Reason = a0, BadBinaryInfo.Operator = a1,
      BadBinaryInfo.CreatedTimeNano = a2\<rparr> | Some y \<Rightarrow> Inr \<lparr>BadBinaryInfo.Reason = b0 y,
      BadBinaryInfo.Operator = b1 y, BadBinaryInfo.CreatedTimeNano = b2 y\<rparr>) =
   Inr \<lparr>BadBinaryInfo.Reason = (case x of None \<Rightarrow> a0 | Some y \<Rightarrow> b0 y), BadBinaryInfo.Operator = (case
       x of None \<Rightarrow> a1 | Some y \<Rightarrow> b1 y), BadBinaryInfo.CreatedTimeNano = (case x of None \<Rightarrow> a2 | Some
       y \<Rightarrow> b2 y)\<rparr>"
  by (cases x) simp_all

interpretation BadBinaryInfo: thrift_message W
  "BadBinaryInfo_ToWire W" "BadBinaryInfo_FromWire W" BadBinaryInfo_zero "\<lambda>_. True" for W
proof (rule thrift_messageI)
  fix x :: BadBinaryInfo
  assume laws: "wire_laws W"
  show "\<exists>w. BadBinaryInfo_ToWire W x = Inr w \<and> wire_api.Type W w = TStruct \<and>
      (Writable W w \<longleftrightarrow> (\<lambda>_. True) x) \<and> ((\<lambda>_. True) x \<longrightarrow> BadBinaryInfo_FromWire W w BadBinaryInfo_zero
          = Inr x)"
    by (cases x) (simp cong: option.case_cong add: codec_rules BadBinaryInfo_merge
        BadBinaryInfo_ToWire_def BadBinaryInfo_FromWire_def BadBinaryInfo_zero_def laws)
qed

definition BadBinaryInfo_Equals ::
  "BadBinaryInfo option \<Rightarrow> BadBinaryInfo option \<Rightarrow> bool" where
  "BadBinaryInfo_Equals v rhs =
     (case v of None \<Rightarrow> rhs = None
      | Some v \<Rightarrow> (case rhs of None \<Rightarrow> False
        | Some rhs \<Rightarrow>
          if \<not> String_EqualsPtr (BadBinaryInfo.Reason v) (BadBinaryInfo.Reason rhs) then False else
          if \<not> String_EqualsPtr (BadBinaryInfo.Operator v) (BadBinaryInfo.Operator rhs) then False
              else
          if \<not> I64_EqualsPtr (BadBinaryInfo.CreatedTimeNano v) (BadBinaryInfo.CreatedTimeNano rhs)
              then False else
          True))"

lemma BadBinaryInfo_Equals_iff [simp]: "BadBinaryInfo_Equals x y \<longleftrightarrow> x = y"
  by (cases x; cases y) (auto simp: BadBinaryInfo_Equals_def)

definition Map_String_BadBinaryInfo_MapItemList :: "'v wire_api \<Rightarrow> (string, BadBinaryInfo option)
    fmap \<Rightarrow> 'v MapItemList" where
  "Map_String_BadBinaryInfo_MapItemList W m =
     \<lparr>MapItemList.ForEach = map_items W (ptr_item (BadBinaryInfo_ToWire W)) m, Size = fcard (fmdom
         m),
      KeyType = TBinary, ValueType = TStruct\<rparr>"

definition Map_String_BadBinaryInfo_Read :: "'v wire_api \<Rightarrow> 'v MapItemList \<Rightarrow> go_error + (string,
    BadBinaryInfo option) fmap option" where
  "Map_String_BadBinaryInfo_Read W m =
     (if KeyType m \<noteq> TBinary then Inr None
      else if MapItemList.ValueType m \<noteq> TStruct then Inr None
      else and_then (for_each (MapItemList.ForEach m) (\<lambda>out (k, w).
        and_then (and_then (BadBinaryInfo_Read W w) (\<lambda>v. Inr (Some v))) (\<lambda>v. Inr (fmupd (GetString W
            k) v out))) fmempty) (\<lambda>out. Inr (Some out)))"

definition Map_String_BadBinaryInfo_Equals :: "(string, BadBinaryInfo option) fmap \<Rightarrow> (string,
    BadBinaryInfo option) fmap \<Rightarrow> bool" where
  "Map_String_BadBinaryInfo_Equals lhs rhs = map_equals BadBinaryInfo_Equals lhs rhs"

lemma Map_String_BadBinaryInfo_codec:
  assumes "wire_laws W"
  shows "list_all (delivered (\<lambda>(k, w). Writable W k \<and> Writable W w))
      (MapItemList.ForEach (Map_String_BadBinaryInfo_MapItemList W m)) \<longleftrightarrow> map_all (present (\<lambda>_.
          True)) m"
    and "map_all (present (\<lambda>_. True)) m \<Longrightarrow> Map_String_BadBinaryInfo_Read W
        (Map_String_BadBinaryInfo_MapItemList W m) = Inr (Some m)"
  using BadBinaryInfo.ptr_items_writable [OF assms] BadBinaryInfo.ptr_items_read [OF assms]
  by (simp_all add: Map_String_BadBinaryInfo_MapItemList_def Map_String_BadBinaryInfo_Read_def
      BadBinaryInfo_Read_def)

lemma Map_String_BadBinaryInfo_Equals_iff [simp]: "Map_String_BadBinaryInfo_Equals m n \<longleftrightarrow> m = n"
  unfolding Map_String_BadBinaryInfo_Equals_def by (rule map_equals_iff [where P = "\<lambda>_. True"])
    (simp_all add: if_set_top)

record BadBinaries =
  Binaries :: "(string, BadBinaryInfo option) fmap option"

definition BadBinaries_zero :: BadBinaries where
  "BadBinaries_zero = \<lparr>BadBinaries.Binaries = None\<rparr>"

definition BadBinaries_ToWire ::
  "'v wire_api \<Rightarrow> BadBinaries \<Rightarrow> go_error + 'v" where
  "BadBinaries_ToWire W v =
     and_then (put_opt 10 (\<lambda>x. Inr (NewValueMap W (Map_String_BadBinaryInfo_MapItemList W x)))
         (BadBinaries.Binaries v) [])
       (\<lambda>fields.
     Inr (NewValueStruct W fields))"

definition BadBinaries_FromWire ::
  "'v wire_api \<Rightarrow> 'v \<Rightarrow> BadBinaries \<Rightarrow> go_error + BadBinaries" where
  "BadBinaries_FromWire W w v =
     foldM (\<lambda>v (fid, fval).
       if fid = 10 then
         if wire_api.Type W fval = TMap
         then and_then (Map_String_BadBinaryInfo_Read W (GetMap W fval)) (\<lambda>x. Inr
             (v\<lparr>BadBinaries.Binaries := x\<rparr>))
         else Inr v
       else Inr v) (GetStruct W w) v"

definition BadBinaries_Read :: "'v wire_api \<Rightarrow> 'v \<Rightarrow> go_error + BadBinaries" where
  "BadBinaries_Read W w = BadBinaries_FromWire W w BadBinaries_zero"

definition BadBinaries_complete :: "BadBinaries \<Rightarrow> bool" where
  "BadBinaries_complete v \<longleftrightarrow>
     if_set (map_all (present (\<lambda>_. True))) (BadBinaries.Binaries v)"

lemma BadBinaries_merge:
  "(case x of None \<Rightarrow> Inr \<lparr>BadBinaries.Binaries = a0\<rparr> | Some y \<Rightarrow> Inr \<lparr>BadBinaries.Binaries = b0 y\<rparr>) =
   Inr \<lparr>BadBinaries.Binaries = (case x of None \<Rightarrow> a0 | Some y \<Rightarrow> b0 y)\<rparr>"
  by (cases x) simp_all

interpretation BadBinaries: thrift_message W
  "BadBinaries_ToWire W" "BadBinaries_FromWire W" BadBinaries_zero "BadBinaries_complete" for W
proof (rule thrift_messageI)
  fix x :: BadBinaries
  assume laws: "wire_laws W"
  show "\<exists>w. BadBinaries_ToWire W x = Inr w \<and> wire_api.Type W w = TStruct \<and>
      (Writable W w \<longleftrightarrow> BadBinaries_complete x) \<and> (BadBinaries_complete x \<longrightarrow> BadBinaries_FromWire W w
          BadBinaries_zero = Inr x)"
    by (cases x) (simp cong: option.case_cong add: codec_rules BadBinaries_merge
        BadBinaries_ToWire_def BadBinaries_FromWire_def BadBinaries_zero_def
        BadBinaries_complete_def if_set_def Map_String_BadBinaryInfo_codec [OF laws] laws)
qed

definition BadBinaries_Equals ::
  "BadBinaries option \<Rightarrow> BadBinaries option \<Rightarrow> bool" where
  "BadBinaries_Equals v rhs =
     (case v of None \<Rightarrow> rhs = None
      | Some v \<Rightarrow> (case rhs of None \<Rightarrow> False
        | Some rhs \<Rightarrow>
          if \<not> both_set_and Map_String_BadBinaryInfo_Equals (BadBinaries.Binaries v)
              (BadBinaries.Binaries rhs) then False else
          True))"

lemma BadBinaries_Equals_iff [simp]: "BadBinaries_Equals x y \<longleftrightarrow> x = y"
  by (cases x; cases y) (auto simp: BadBinaries_Equals_def)

record ClusterReplicationConfiguration =
  ClusterName :: "string option"

definition ClusterReplicationConfiguration_zero :: ClusterReplicationConfiguration where
  "ClusterReplicationConfiguration_zero = \<lparr>ClusterReplicationConfiguration.ClusterName = None\<rparr>"

definition ClusterReplicationConfiguration_ToWire ::
  "'v wire_api \<Rightarrow> ClusterReplicationConfiguration \<Rightarrow> go_error + 'v" where
  "ClusterReplicationConfiguration_ToWire W v =
     and_then (put_opt 10 (\<lambda>x. Inr (NewValueString W x))
         (ClusterReplicationConfiguration.ClusterName v) [])
       (\<lambda>fields.
     Inr (NewValueStruct W fields))"

definition ClusterReplicationConfiguration_FromWire ::
  "'v wire_api \<Rightarrow> 'v \<Rightarrow> ClusterReplicationConfiguration \<Rightarrow> go_error + ClusterReplicationConfiguration"
      where
  "ClusterReplicationConfiguration_FromWire W w v =
     foldM (\<lambda>v (fid, fval).
       if fid = 10 then
         if wire_api.Type W fval = TBinary
         then Inr (v\<lparr>ClusterReplicationConfiguration.ClusterName := Some (GetString W fval)\<rparr>)
         else Inr v
       else Inr v) (GetStruct W w) v"

definition ClusterReplicationConfiguration_Read :: "'v wire_api \<Rightarrow> 'v \<Rightarrow> go_error +
    ClusterReplicationConfiguration" where
  "ClusterReplicationConfiguration_Read W w = ClusterReplicationConfiguration_FromWire W w
      ClusterReplicationConfiguration_zero"

lemma ClusterReplicationConfiguration_merge:
  "(case x of None \<Rightarrow> Inr \<lparr>ClusterReplicationConfiguration.ClusterName = a0\<rparr> | Some y \<Rightarrow> Inr
      \<lparr>ClusterReplicationConfiguration.ClusterName = b0 y\<rparr>) =
   Inr \<lparr>ClusterReplicationConfiguration.ClusterName = (case x of None \<Rightarrow> a0 | Some y \<Rightarrow> b0 y)\<rparr>"
  by (cases x) simp_all

interpretation ClusterReplicationConfiguration: thrift_message W
  "ClusterReplicationConfiguration_ToWire W" "ClusterReplicationConfiguration_FromWire W"
      ClusterReplicationConfiguration_zero "\<lambda>_. True" for W
proof (rule thrift_messageI)
  fix x :: ClusterReplicationConfiguration
  assume laws: "wire_laws W"
  show "\<exists>w. ClusterReplicationConfiguration_ToWire W x = Inr w \<and> wire_api.Type W w = TStruct \<and>
      (Writable W w \<longleftrightarrow> (\<lambda>_. True) x) \<and> ((\<lambda>_. True) x \<longrightarrow> ClusterReplicationConfiguration_FromWire W w
          ClusterReplicationConfiguration_zero = Inr x)"
    by (cases x) (simp cong: option.case_cong add: codec_rules ClusterReplicationConfiguration_merge
        ClusterReplicationConfiguration_ToWire_def ClusterReplicationConfiguration_FromWire_def
        ClusterReplicationConfiguration_zero_def laws)
qed

definition ClusterReplicationConfiguration_Equals ::
  "ClusterReplicationConfiguration option \<Rightarrow> ClusterReplicationConfiguration option \<Rightarrow> bool" where
  "ClusterReplicationConfiguration_Equals v rhs =
     (case v of None \<Rightarrow> rhs = None
      | Some v \<Rightarrow> (case rhs of None \<Rightarrow> False
        | Some rhs \<Rightarrow>
          if \<not> String_EqualsPtr (ClusterReplicationConfiguration.ClusterName v)
              (ClusterReplicationConfiguration.ClusterName rhs) then False else
          True))"

lemma ClusterReplicationConfiguration_Equals_iff [simp]: "ClusterReplicationConfiguration_Equals x y
    \<longleftrightarrow> x = y"
  by (cases x; cases y) (auto simp: ClusterReplicationConfiguration_Equals_def)

definition List_ClusterReplicationConfiguration_ValueList :: "'v wire_api \<Rightarrow>
    ClusterReplicationConfiguration option list \<Rightarrow> 'v ValueList" where
  "List_ClusterReplicationConfiguration_ValueList W v =
     \<lparr>ValueList.ForEach = ptr_values (ClusterReplicationConfiguration_ToWire W) v, Size = length v,
         ValueType = TStruct\<rparr>"

definition List_ClusterReplicationConfiguration_Read :: "'v wire_api \<Rightarrow> 'v ValueList \<Rightarrow> go_error +
    ClusterReplicationConfiguration option list option" where
  "List_ClusterReplicationConfiguration_Read W l =
     (if ValueList.ValueType l \<noteq> TStruct then Inr None
      else and_then (for_each (ValueList.ForEach l)
        (\<lambda>out x. and_then (ClusterReplicationConfiguration_Read W x) (\<lambda>i. Inr (out @ [Some i]))) [])
            (\<lambda>out. Inr (Some out)))"

definition List_ClusterReplicationConfiguration_Equals :: "ClusterReplicationConfiguration option
    list \<Rightarrow> ClusterReplicationConfiguration option list \<Rightarrow> bool" where
  "List_ClusterReplicationConfiguration_Equals lhs rhs = list_equals
      ClusterReplicationConfiguration_Equals lhs rhs"

lemma List_ClusterReplicationConfiguration_codec:
  assumes "wire_laws W"
  shows "list_all (delivered (Writable W)) (ValueList.ForEach
      (List_ClusterReplicationConfiguration_ValueList W xs)) \<longleftrightarrow> list_all (present (\<lambda>_. True)) xs"
    and "list_all (present (\<lambda>_. True)) xs \<Longrightarrow> List_ClusterReplicationConfiguration_Read W
        (List_ClusterReplicationConfiguration_ValueList W xs) = Inr (Some xs)"
  using ClusterReplicationConfiguration.ptr_values_writable [OF assms]
      ClusterReplicationConfiguration.ptr_values_read [OF assms]
  by (simp_all add: List_ClusterReplicationConfiguration_ValueList_def
      List_ClusterReplicationConfiguration_Read_def ClusterReplicationConfiguration_Read_def)

lemma List_ClusterReplicationConfiguration_Equals_iff [simp]:
    "List_ClusterReplicationConfiguration_Equals xs ys \<longleftrightarrow> xs = ys"
  unfolding List_ClusterReplicationConfiguration_Equals_def by (rule list_equals_iff [where P = "\<lambda>_.
      True"]) (simp_all add: list.pred_True)

record DeprecateDomainRequest =
  Name :: "string option"
  SecurityToken :: "string option"

definition DeprecateDomainRequest_zero :: DeprecateDomainRequest where
  "DeprecateDomainRequest_zero = \<lparr>DeprecateDomainRequest.Name = None,
      DeprecateDomainRequest.SecurityToken = None\<rparr>"

definition DeprecateDomainRequest_ToWire ::
  "'v wire_api \<Rightarrow> DeprecateDomainRequest \<Rightarrow> go_error + 'v" where
  "DeprecateDomainRequest_ToWire W v =
     and_then (put_opt 10 (\<lambda>x. Inr (NewValueString W x)) (DeprecateDomainRequest.Name v) [])
       (\<lambda>fields.
     and_then (put_opt 20 (\<lambda>x. Inr (NewValueString W x)) (DeprecateDomainRequest.SecurityToken v)
         fields)
       (\<lambda>fields.
     Inr (NewValueStruct W fields)))"

definition DeprecateDomainRequest_FromWire ::
  "'v wire_api \<Rightarrow> 'v \<Rightarrow> DeprecateDomainRequest \<Rightarrow> go_error + DeprecateDomainRequest" where
  "DeprecateDomainRequest_FromWire W w v =
     foldM (\<lambda>v (fid, fval).
       if fid = 10 then
         if wire_api.Type W fval = TBinary
         then Inr (v\<lparr>DeprecateDomainRequest.Name := Some (GetString W fval)\<rparr>)
         else Inr v
       else if fid = 20 then
         if wire_api.Type W fval = TBinary
         then Inr (v\<lparr>DeprecateDomainRequest.SecurityToken := Some (GetString W fval)\<rparr>)
         else Inr v
       else Inr v) (GetStruct W w) v"

definition DeprecateDomainRequest_Read :: "'v wire_api \<Rightarrow> 'v \<Rightarrow> go_error + DeprecateDomainRequest"
    where
  "DeprecateDomainRequest_Read W w = DeprecateDomainRequest_FromWire W w
      DeprecateDomainRequest_zero"

lemma DeprecateDomainRequest_merge:
  "(case x of None \<Rightarrow> Inr \<lparr>DeprecateDomainRequest.Name = a0, DeprecateDomainRequest.SecurityToken =
      a1\<rparr> | Some y \<Rightarrow> Inr \<lparr>DeprecateDomainRequest.Name = b0 y, DeprecateDomainRequest.SecurityToken =
      b1 y\<rparr>) =
   Inr \<lparr>DeprecateDomainRequest.Name = (case x of None \<Rightarrow> a0 | Some y \<Rightarrow> b0 y),
       DeprecateDomainRequest.SecurityToken = (case x of None \<Rightarrow> a1 | Some y \<Rightarrow> b1 y)\<rparr>"
  by (cases x) simp_all

interpretation DeprecateDomainRequest: thrift_message W
  "DeprecateDomainRequest_ToWire W" "DeprecateDomainRequest_FromWire W" DeprecateDomainRequest_zero
      "\<lambda>_. True" for W
proof (rule thrift_messageI)
  fix x :: DeprecateDomainRequest
  assume laws: "wire_laws W"
  show "\<exists>w. DeprecateDomainRequest_ToWire W x = Inr w \<and> wire_api.Type W w = TStruct \<and>
      (Writable W w \<longleftrightarrow> (\<lambda>_. True) x) \<and> ((\<lambda>_. True) x \<longrightarrow> DeprecateDomainRequest_FromWire W w
          DeprecateDomainRequest_zero = Inr x)"
    by (cases x) (simp cong: option.case_cong add: codec_rules DeprecateDomainRequest_merge
        DeprecateDomainRequest_ToWire_def DeprecateDomainRequest_FromWire_def
        DeprecateDomainRequest_zero_def laws)
qed

definition DeprecateDomainRequest_Equals ::
  "DeprecateDomainRequest option \<Rightarrow> DeprecateDomainRequest option \<Rightarrow> bool" where
  "DeprecateDomainRequest_Equals v rhs =
     (case v of None \<Rightarrow> rhs = None
      | Some v \<Rightarrow> (case rhs of None \<Rightarrow> False
        | Some rhs \<Rightarrow>
          if \<not> String_EqualsPtr (DeprecateDomainRequest.Name v) (DeprecateDomainRequest.Name rhs)
              then False else
          if \<not> String_EqualsPtr (DeprecateDomainRequest.SecurityToken v)
              (DeprecateDomainRequest.SecurityToken rhs) then False else
          True))"

lemma DeprecateDomainRequest_Equals_iff [simp]: "DeprecateDomainRequest_Equals x y \<longleftrightarrow> x = y"
  by (cases x; cases y) (auto simp: DeprecateDomainRequest_Equals_def)

record DescribeDomainRequest =
  Name :: "string option"
  UUID :: "string option"

definition DescribeDomainRequest_zero :: DescribeDomainRequest where
  "DescribeDomainRequest_zero = \<lparr>DescribeDomainRequest.Name = None, DescribeDomainRequest.UUID =
      None\<rparr>"

definition DescribeDomainRequest_ToWire ::
  "'v wire_api \<Rightarrow> DescribeDomainRequest \<Rightarrow> go_error + 'v" where
  "DescribeDomainRequest_ToWire W v =
     and_then (put_opt 10 (\<lambda>x. Inr (NewValueString W x)) (DescribeDomainRequest.Name v) [])
       (\<lambda>fields.
     and_then (put_opt 20 (\<lambda>x. Inr (NewValueString W x)) (DescribeDomainRequest.UUID v) fields)
       (\<lambda>fields.
     Inr (NewValueStruct W fields)))"

definition DescribeDomainRequest_FromWire ::
  "'v wire_api \<Rightarrow> 'v \<Rightarrow> DescribeDomainRequest \<Rightarrow> go_error + DescribeDomainRequest" where
  "DescribeDomainRequest_FromWire W w v =
     foldM (\<lambda>v (fid, fval).
       if fid = 10 then
         if wire_api.Type W fval = TBinary
         then Inr (v\<lparr>DescribeDomainRequest.Name := Some (GetString W fval)\<rparr>)
         else Inr v
       else if fid = 20 then
         if wire_api.Type W fval = TBinary
         then Inr (v\<lparr>DescribeDomainRequest.UUID := Some (GetString W fval)\<rparr>)
         else Inr v
       else Inr v) (GetStruct W w) v"

definition DescribeDomainRequest_Read :: "'v wire_api \<Rightarrow> 'v \<Rightarrow> go_error + DescribeDomainRequest" where
  "DescribeDomainRequest_Read W w = DescribeDomainRequest_FromWire W w DescribeDomainRequest_zero"

lemma DescribeDomainRequest_merge:
  "(case x of None \<Rightarrow> Inr \<lparr>DescribeDomainRequest.Name = a0, DescribeDomainRequest.UUID = a1\<rparr> | Some y
      \<Rightarrow> Inr \<lparr>DescribeDomainRequest.Name = b0 y, DescribeDomainRequest.UUID = b1 y\<rparr>) =
   Inr \<lparr>DescribeDomainRequest.Name = (case x of None \<Rightarrow> a0 | Some y \<Rightarrow> b0 y),
       DescribeDomainRequest.UUID = (case x of None \<Rightarrow> a1 | Some y \<Rightarrow> b1 y)\<rparr>"
  by (cases x) simp_all

interpretation DescribeDomainRequest: thrift_message W
  "DescribeDomainRequest_ToWire W" "DescribeDomainRequest_FromWire W" DescribeDomainRequest_zero
      "\<lambda>_. True" for W
proof (rule thrift_messageI)
  fix x :: DescribeDomainRequest
  assume laws: "wire_laws W"
  show "\<exists>w. DescribeDomainRequest_ToWire W x = Inr w \<and> wire_api.Type W w = TStruct \<and>
      (Writable W w \<longleftrightarrow> (\<lambda>_. True) x) \<and> ((\<lambda>_. True) x \<longrightarrow> DescribeDomainRequest_FromWire W w
          DescribeDomainRequest_zero = Inr x)"
    by (cases x) (simp cong: option.case_cong add: codec_rules DescribeDomainRequest_merge
        DescribeDomainRequest_ToWire_def DescribeDomainRequest_FromWire_def
        DescribeDomainRequest_zero_def laws)
qed

definition DescribeDomainRequest_Equals ::
  "DescribeDomainRequest option \<Rightarrow> DescribeDomainRequest option \<Rightarrow> bool" where
  "DescribeDomainRequest_Equals v rhs =
     (case v of None \<Rightarrow> rhs = None
      | Some v \<Rightarrow> (case rhs of None \<Rightarrow> False
        | Some rhs \<Rightarrow>
          if \<not> String_EqualsPtr (DescribeDomainRequest.Name v) (DescribeDomainRequest.Name rhs) then
              False else
          if \<not> String_EqualsPtr (DescribeDomainRequest.UUID v) (DescribeDomainRequest.UUID rhs) then
              False else
          True))"

lemma DescribeDomainRequest_Equals_iff [simp]: "DescribeDomainRequest_Equals x y \<longleftrightarrow> x = y"
  by (cases x; cases y) (auto simp: DescribeDomainRequest_Equals_def)

record DomainInfo =
  Name :: "string option"
  Status :: "DomainStatus option"
  Description :: "string option"
  OwnerEmail :: "string option"
  Data :: "(string, string) fmap option"
  UUID :: "string option"

definition DomainInfo_zero :: DomainInfo where
  "DomainInfo_zero = \<lparr>DomainInfo.Name = None, DomainInfo.Status = None, DomainInfo.Description =
      None, DomainInfo.OwnerEmail = None, DomainInfo.Data = None, DomainInfo.UUID = None\<rparr>"

definition DomainInfo_ToWire ::
  "'v wire_api \<Rightarrow> DomainInfo \<Rightarrow> go_error + 'v" where
  "DomainInfo_ToWire W v =
     and_then (put_opt 10 (\<lambda>x. Inr (NewValueString W x)) (DomainInfo.Name v) [])
       (\<lambda>fields.
     and_then (put_opt 20 (DomainStatus_ToWire W) (DomainInfo.Status v) fields)
       (\<lambda>fields.
     and_then (put_opt 30 (\<lambda>x. Inr (NewValueString W x)) (DomainInfo.Description v) fields)
       (\<lambda>fields.
     and_then (put_opt 40 (\<lambda>x. Inr (NewValueString W x)) (DomainInfo.OwnerEmail v) fields)
       (\<lambda>fields.
     and_then (put_opt 50 (\<lambda>x. Inr (NewValueMap W (Map_String_String_MapItemList W x)))
         (DomainInfo.Data v) fields)
       (\<lambda>fields.
     and_then (put_opt 60 (\<lambda>x. Inr (NewValueString W x)) (DomainInfo.UUID v) fields)
       (\<lambda>fields.
     Inr (NewValueStruct W fields)))))))"

definition DomainInfo_FromWire ::
  "'v wire_api \<Rightarrow> 'v \<Rightarrow> DomainInfo \<Rightarrow> go_error + DomainInfo" where
  "DomainInfo_FromWire W w v =
     foldM (\<lambda>v (fid, fval).
       if fid = 10 then
         if wire_api.Type W fval = TBinary
         then Inr (v\<lparr>DomainInfo.Name := Some (GetString W fval)\<rparr>)
         else Inr v
       else if fid = 20 then
         if wire_api.Type W fval = TI32
         then and_then (DomainStatus_Read W fval) (\<lambda>x. Inr (v\<lparr>DomainInfo.Status := Some x\<rparr>))
         else Inr v
       else if fid = 30 then
         if wire_api.Type W fval = TBinary
         then Inr (v\<lparr>DomainInfo.Description := Some (GetString W fval)\<rparr>)
         else Inr v
       else if fid = 40 then
         if wire_api.Type W fval = TBinary
         then Inr (v\<lparr>DomainInfo.OwnerEmail := Some (GetString W fval)\<rparr>)
         else Inr v
       else if fid = 50 then
         if wire_api.Type W fval = TMap
         then and_then (Map_String_String_Read W (GetMap W fval)) (\<lambda>x. Inr (v\<lparr>DomainInfo.Data :=
             x\<rparr>))
         else Inr v
       else if fid = 60 then
         if wire_api.Type W fval = TBinary
         then Inr (v\<lparr>DomainInfo.UUID := Some (GetString W fval)\<rparr>)
         else Inr v
       else Inr v) (GetStruct W w) v"

definition DomainInfo_Read :: "'v wire_api \<Rightarrow> 'v \<Rightarrow> go_error + DomainInfo" where
  "DomainInfo_Read W w = DomainInfo_FromWire W w DomainInfo_zero"

lemma DomainInfo_merge:
  "(case x of None \<Rightarrow> Inr \<lparr>DomainInfo.Name = a0, DomainInfo.Status = a1, DomainInfo.Description = a2,
      DomainInfo.OwnerEmail = a3, DomainInfo.Data = a4, DomainInfo.UUID = a5\<rparr> | Some y \<Rightarrow> Inr
      \<lparr>DomainInfo.Name = b0 y, DomainInfo.Status = b1 y, DomainInfo.Description = b2 y,
      DomainInfo.OwnerEmail = b3 y, DomainInfo.Data = b4 y, DomainInfo.UUID = b5 y\<rparr>) =
   Inr \<lparr>DomainInfo.Name = (case x of None \<Rightarrow> a0 | Some y \<Rightarrow> b0 y), DomainInfo.Status = (case x of None
       \<Rightarrow> a1 | Some y \<Rightarrow> b1 y), DomainInfo.Description = (case x of None \<Rightarrow> a2 | Some y \<Rightarrow> b2 y),
       DomainInfo.OwnerEmail = (case x of None \<Rightarrow> a3 | Some y \<Rightarrow> b3 y), DomainInfo.Data = (case x of
       None \<Rightarrow> a4 | Some y \<Rightarrow> b4 y), DomainInfo.UUID = (case x of None \<Rightarrow> a5 | Some y \<Rightarrow> b5 y)\<rparr>"
  by (cases x) simp_all

interpretation DomainInfo: thrift_message W
  "DomainInfo_ToWire W" "DomainInfo_FromWire W" DomainInfo_zero "\<lambda>_. True" for W
proof (rule thrift_messageI)
  fix x :: DomainInfo
  assume laws: "wire_laws W"
  show "\<exists>w. DomainInfo_ToWire W x = Inr w \<and> wire_api.Type W w = TStruct \<and>
      (Writable W w \<longleftrightarrow> (\<lambda>_. True) x) \<and> ((\<lambda>_. True) x \<longrightarrow> DomainInfo_FromWire W w DomainInfo_zero = Inr
          x)"
    by (cases x) (simp cong: option.case_cong add: codec_rules DomainInfo_merge
        DomainInfo_ToWire_def DomainInfo_FromWire_def DomainInfo_zero_def DomainStatus_enc
        DomainStatus_Read_def DomainStatus_FromWire_def Map_String_String_codec [OF laws] laws)
qed

definition DomainInfo_Equals ::
  "DomainInfo option \<Rightarrow> DomainInfo option \<Rightarrow> bool" where
  "DomainInfo_Equals v rhs =
     (case v of None \<Rightarrow> rhs = None
      | Some v \<Rightarrow> (case rhs of None \<Rightarrow> False
        | Some rhs \<Rightarrow>
          if \<not> String_EqualsPtr (DomainInfo.Name v) (DomainInfo.Name rhs) then False else
          if \<not> DomainStatus_EqualsPtr (DomainInfo.Status v) (DomainInfo.Status rhs) then False else
          if \<not> String_EqualsPtr (DomainInfo.Description v) (DomainInfo.Description rhs) then False
              else
          if \<not> String_EqualsPtr (DomainInfo.OwnerEmail v) (DomainInfo.OwnerEmail rhs) then False
              else
          if \<not> both_set_and Map_String_String_Equals (DomainInfo.Data v) (DomainInfo.Data rhs) then
              False else
          if \<not> String_EqualsPtr (DomainInfo.UUID v) (DomainInfo.UUID rhs) then False else
          True))"

lemma DomainInfo_Equals_iff [simp]: "DomainInfo_Equals x y \<longleftrightarrow> x = y"
  by (cases x; cases y) (simp_all add: DomainInfo_Equals_def if_not_False, fastforce intro:
      DomainInfo.equality)

record DomainConfiguration =
  WorkflowExecutionRetentionPeriodInDays :: "32 word option"
  EmitMetric :: "bool option"
  BadBinaries :: "BadBinaries option"
  HistoryArchivalStatus :: "ArchivalStatus option"
  HistoryArchivalURI :: "string option"
  VisibilityArchivalStatus :: "ArchivalStatus option"
  VisibilityArchivalURI :: "string option"

definition DomainConfiguration_zero :: DomainConfiguration where
  "DomainConfiguration_zero = \<lparr>DomainConfiguration.WorkflowExecutionRetentionPeriodInDays = None,
      DomainConfiguration.EmitMetric = None, DomainConfiguration.BadBinaries = None,
      DomainConfiguration.HistoryArchivalStatus = None, DomainConfiguration.HistoryArchivalURI =
      None, DomainConfiguration.VisibilityArchivalStatus = None,
      DomainConfiguration.VisibilityArchivalURI = None\<rparr>"

definition DomainConfiguration_ToWire ::
  "'v wire_api \<Rightarrow> DomainConfiguration \<Rightarrow> go_error + 'v" where
  "DomainConfiguration_ToWire W v =
     and_then (put_opt 10 (\<lambda>x. Inr (NewValueI32 W x))
         (DomainConfiguration.WorkflowExecutionRetentionPeriodInDays v) [])
       (\<lambda>fields.
     and_then (put_opt 20 (\<lambda>x. Inr (NewValueBool W x)) (DomainConfiguration.EmitMetric v) fields)
       (\<lambda>fields.
     and_then (put_opt 70 (BadBinaries_ToWire W) (DomainConfiguration.BadBinaries v) fields)
       (\<lambda>fields.
     and_then (put_opt 80 (ArchivalStatus_ToWire W) (DomainConfiguration.HistoryArchivalStatus v)
         fields)
       (\<lambda>fields.
     and_then (put_opt 90 (\<lambda>x. Inr (NewValueString W x)) (DomainConfiguration.HistoryArchivalURI v)
         fields)
       (\<lambda>fields.
     and_then (put_opt 100 (ArchivalStatus_ToWire W) (DomainConfiguration.VisibilityArchivalStatus
         v) fields)
       (\<lambda>fields.
     and_then (put_opt 110 (\<lambda>x. Inr (NewValueString W x)) (DomainConfiguration.VisibilityArchivalURI
         v) fields)
       (\<lambda>fields.
     Inr (NewValueStruct W fields))))))))"

definition DomainConfiguration_FromWire ::
  "'v wire_api \<Rightarrow> 'v \<Rightarrow> DomainConfiguration \<Rightarrow> go_error + DomainConfiguration" where
  "DomainConfiguration_FromWire W w v =
     foldM (\<lambda>v (fid, fval).
       if fid = 10 then
         if wire_api.Type W fval = TI32
         then Inr (v\<lparr>DomainConfiguration.WorkflowExecutionRetentionPeriodInDays := Some (GetI32 W
             fval)\<rparr>)
         else Inr v
       else if fid = 20 then
         if wire_api.Type W fval = TBool
         then Inr (v\<lparr>DomainConfiguration.EmitMetric := Some (GetBool W fval)\<rparr>)
         else Inr v
       else if fid = 70 then
         if wire_api.Type W fval = TStruct
         then and_then (BadBinaries_Read W fval) (\<lambda>x. Inr (v\<lparr>DomainConfiguration.BadBinaries := Some
             x\<rparr>))
         else Inr v
       else if fid = 80 then
         if wire_api.Type W fval = TI32
         then and_then (ArchivalStatus_Read W fval) (\<lambda>x. Inr
             (v\<lparr>DomainConfiguration.HistoryArchivalStatus := Some x\<rparr>))
         else Inr v
       else if fid = 90 then
         if wire_api.Type W fval = TBinary
         then Inr (v\<lparr>DomainConfiguration.HistoryArchivalURI := Some (GetString W fval)\<rparr>)
         else Inr v
       else if fid = 100 then
         if wire_api.Type W fval = TI32
         then and_then (ArchivalStatus_Read W fval) (\<lambda>x. Inr
             (v\<lparr>DomainConfiguration.VisibilityArchivalStatus := Some x\<rparr>))
         else Inr v
       else if fid = 110 then
         if wire_api.Type W fval = TBinary
         then Inr (v\<lparr>DomainConfiguration.VisibilityArchivalURI := Some (GetString W fval)\<rparr>)
         else Inr v
       else Inr v) (GetStruct W w) v"

definition DomainConfiguration_Read :: "'v wire_api \<Rightarrow> 'v \<Rightarrow> go_error + DomainConfiguration" where
  "DomainConfiguration_Read W w = DomainConfiguration_FromWire W w DomainConfiguration_zero"

definition DomainConfiguration_complete :: "DomainConfiguration \<Rightarrow> bool" where
  "DomainConfiguration_complete v \<longleftrightarrow>
     if_set BadBinaries_complete (DomainConfiguration.BadBinaries v)"

lemma DomainConfiguration_merge:
  "(case x of None \<Rightarrow> Inr \<lparr>DomainConfiguration.WorkflowExecutionRetentionPeriodInDays = a0,
      DomainConfiguration.EmitMetric = a1, DomainConfiguration.BadBinaries = a2,
      DomainConfiguration.HistoryArchivalStatus = a3, DomainConfiguration.HistoryArchivalURI = a4,
      DomainConfiguration.VisibilityArchivalStatus = a5, DomainConfiguration.VisibilityArchivalURI =
      a6\<rparr> | Some y \<Rightarrow> Inr \<lparr>DomainConfiguration.WorkflowExecutionRetentionPeriodInDays = b0 y,
      DomainConfiguration.EmitMetric = b1 y, DomainConfiguration.BadBinaries = b2 y,
      DomainConfiguration.HistoryArchivalStatus = b3 y, DomainConfiguration.HistoryArchivalURI = b4
      y, DomainConfiguration.VisibilityArchivalStatus = b5 y,
      DomainConfiguration.VisibilityArchivalURI = b6 y\<rparr>) =
   Inr \<lparr>DomainConfiguration.WorkflowExecutionRetentionPeriodInDays = (case x of None \<Rightarrow> a0 | Some y \<Rightarrow>
       b0 y), DomainConfiguration.EmitMetric = (case x of None \<Rightarrow> a1 | Some y \<Rightarrow> b1 y),
       DomainConfiguration.BadBinaries = (case x of None \<Rightarrow> a2 | Some y \<Rightarrow> b2 y),
       DomainConfiguration.HistoryArchivalStatus = (case x of None \<Rightarrow> a3 | Some y \<Rightarrow> b3 y),
       DomainConfiguration.HistoryArchivalURI = (case x of None \<Rightarrow> a4 | Some y \<Rightarrow> b4 y),
       DomainConfiguration.VisibilityArchivalStatus = (case x of None \<Rightarrow> a5 | Some y \<Rightarrow> b5 y),
       DomainConfiguration.VisibilityArchivalURI = (case x of None \<Rightarrow> a6 | Some y \<Rightarrow> b6 y)\<rparr>"
  by (cases x) simp_all

interpretation DomainConfiguration: thrift_message W
  "DomainConfiguration_ToWire W" "DomainConfiguration_FromWire W" DomainConfiguration_zero
      "DomainConfiguration_complete" for W
proof (rule thrift_messageI)
  fix x :: DomainConfiguration
  assume laws: "wire_laws W"
  obtain enc0 where e0: "BadBinaries_ToWire W = (\<lambda>x. Inr (enc0 x))"
      "\<And>x. wire_api.Type W (enc0 x) = TStruct"
      "\<And>x. Writable W (enc0 x) \<longleftrightarrow> BadBinaries_complete x"
      "\<And>x. BadBinaries_complete x \<Longrightarrow> BadBinaries_FromWire W (enc0 x) BadBinaries_zero = Inr x"
    by (rule BadBinaries.encoder [OF laws]) (rule that)
  show "\<exists>w. DomainConfiguration_ToWire W x = Inr w \<and> wire_api.Type W w = TStruct \<and>
      (Writable W w \<longleftrightarrow> DomainConfiguration_complete x) \<and> (DomainConfiguration_complete x \<longrightarrow>
          DomainConfiguration_FromWire W w DomainConfiguration_zero = Inr x)"
    by (cases x) (simp cong: option.case_cong add: codec_rules DomainConfiguration_merge
        DomainConfiguration_ToWire_def DomainConfiguration_FromWire_def DomainConfiguration_zero_def
        DomainConfiguration_complete_def if_set_def ArchivalStatus_enc ArchivalStatus_Read_def
        ArchivalStatus_FromWire_def BadBinaries_Read_def laws e0)
qed

definition DomainConfiguration_Equals ::
  "DomainConfiguration option \<Rightarrow> DomainConfiguration option \<Rightarrow> bool" where
  "DomainConfiguration_Equals v rhs =
     (case v of None \<Rightarrow> rhs = None
      | Some v \<Rightarrow> (case rhs of None \<Rightarrow> False
        | Some rhs \<Rightarrow>
          if \<not> I32_EqualsPtr (DomainConfiguration.WorkflowExecutionRetentionPeriodInDays v)
              (DomainConfiguration.WorkflowExecutionRetentionPeriodInDays rhs) then False else
          if \<not> Bool_EqualsPtr (DomainConfiguration.EmitMetric v) (DomainConfiguration.EmitMetric
              rhs) then False else
          if \<not> both_set_and (\<lambda>x y. BadBinaries_Equals (Some x) (Some y))
              (DomainConfiguration.BadBinaries v) (DomainConfiguration.BadBinaries rhs) then False
              else
          if \<not> ArchivalStatus_EqualsPtr (DomainConfiguration.HistoryArchivalStatus v)
              (DomainConfiguration.HistoryArchivalStatus rhs) then False else
          if \<not> String_EqualsPtr (DomainConfiguration.HistoryArchivalURI v)
              (DomainConfiguration.HistoryArchivalURI rhs) then False else
          if \<not> ArchivalStatus_EqualsPtr (DomainConfiguration.VisibilityArchivalStatus v)
              (DomainConfiguration.VisibilityArchivalStatus rhs) then False else
          if \<not> String_EqualsPtr (DomainConfiguration.VisibilityArchivalURI v)
              (DomainConfiguration.VisibilityArchivalURI rhs) then False else
          True))"

lemma DomainConfiguration_Equals_iff [simp]: "DomainConfiguration_Equals x y \<longleftrightarrow> x = y"
  by (cases x; cases y) (simp_all add: DomainConfiguration_Equals_def if_not_False, fastforce intro:
      DomainConfiguration.equality)

record DomainReplicationConfiguration =
  ActiveClusterName :: "string option"
  Clusters :: "ClusterReplicationConfiguration option list option"

definition DomainReplicationConfiguration_zero :: DomainReplicationConfiguration where
  "DomainReplicationConfiguration_zero = \<lparr>DomainReplicationConfiguration.ActiveClusterName = None,
      DomainReplicationConfiguration.Clusters = None\<rparr>"

definition DomainReplicationConfiguration_ToWire ::
  "'v wire_api \<Rightarrow> DomainReplicationConfiguration \<Rightarrow> go_error + 'v" where
  "DomainReplicationConfiguration_ToWire W v =
     and_then (put_opt 10 (\<lambda>x. Inr (NewValueString W x))
         (DomainReplicationConfiguration.ActiveClusterName v) [])
       (\<lambda>fields.
     and_then (put_opt 20 (\<lambda>x. Inr (NewValueList W (List_ClusterReplicationConfiguration_ValueList W
         x))) (DomainReplicationConfiguration.Clusters v) fields)
       (\<lambda>fields.
     Inr (NewValueStruct W fields)))"

definition DomainReplicationConfiguration_FromWire ::
  "'v wire_api \<Rightarrow> 'v \<Rightarrow> DomainReplicationConfiguration \<Rightarrow> go_error + DomainReplicationConfiguration"
      where
  "DomainReplicationConfiguration_FromWire W w v =
     foldM (\<lambda>v (fid, fval).
       if fid = 10 then
         if wire_api.Type W fval = TBinary
         then Inr (v\<lparr>DomainReplicationConfiguration.ActiveClusterName := Some (GetString W fval)\<rparr>)
         else Inr v
       else if fid = 20 then
         if wire_api.Type W fval = TList
         then and_then (List_ClusterReplicationConfiguration_Read W (GetList W fval)) (\<lambda>x. Inr
             (v\<lparr>DomainReplicationConfiguration.Clusters := x\<rparr>))
         else Inr v
       else Inr v) (GetStruct W w) v"

definition DomainReplicationConfiguration_Read :: "'v wire_api \<Rightarrow> 'v \<Rightarrow> go_error +
    DomainReplicationConfiguration" where
  "DomainReplicationConfiguration_Read W w = DomainReplicationConfiguration_FromWire W w
      DomainReplicationConfiguration_zero"

definition DomainReplicationConfiguration_complete :: "DomainReplicationConfiguration \<Rightarrow> bool" where
  "DomainReplicationConfiguration_complete v \<longleftrightarrow>
     if_set (list_all (present (\<lambda>_. True))) (DomainReplicationConfiguration.Clusters v)"

lemma DomainReplicationConfiguration_merge:
  "(case x of None \<Rightarrow> Inr \<lparr>DomainReplicationConfiguration.ActiveClusterName = a0,
      DomainReplicationConfiguration.Clusters = a1\<rparr> | Some y \<Rightarrow> Inr
      \<lparr>DomainReplicationConfiguration.ActiveClusterName = b0 y,
      DomainReplicationConfiguration.Clusters = b1 y\<rparr>) =
   Inr \<lparr>DomainReplicationConfiguration.ActiveClusterName = (case x of None \<Rightarrow> a0 | Some y \<Rightarrow> b0 y),
       DomainReplicationConfiguration.Clusters = (case x of None \<Rightarrow> a1 | Some y \<Rightarrow> b1 y)\<rparr>"
  by (cases x) simp_all

interpretation DomainReplicationConfiguration: thrift_message W
  "DomainReplicationConfiguration_ToWire W" "DomainReplicationConfiguration_FromWire W"
      DomainReplicationConfiguration_zero "DomainReplicationConfiguration_complete" for W
proof (rule thrift_messageI)
  fix x :: DomainReplicationConfiguration
  assume laws: "wire_laws W"
  show "\<exists>w. DomainReplicationConfiguration_ToWire W x = Inr w \<and> wire_api.Type W w = TStruct \<and>
      (Writable W w \<longleftrightarrow> DomainReplicationConfiguration_complete x) \<and>
          (DomainReplicationConfiguration_complete x \<longrightarrow> DomainReplicationConfiguration_FromWire W w
          DomainReplicationConfiguration_zero = Inr x)"
    by (cases x) (simp cong: option.case_cong add: codec_rules DomainReplicationConfiguration_merge
        DomainReplicationConfiguration_ToWire_def DomainReplicationConfiguration_FromWire_def
        DomainReplicationConfiguration_zero_def DomainReplicationConfiguration_complete_def
        if_set_def List_ClusterReplicationConfiguration_codec [OF laws] laws)
qed

definition DomainReplicationConfiguration_Equals ::
  "DomainReplicationConfiguration option \<Rightarrow> DomainReplicationConfiguration option \<Rightarrow> bool" where
  "DomainReplicationConfiguration_Equals v rhs =
     (case v of None \<Rightarrow> rhs = None
      | Some v \<Rightarrow> (case rhs of None \<Rightarrow> False
        | Some rhs \<Rightarrow>
          if \<not> String_EqualsPtr (DomainReplicationConfiguration.ActiveClusterName v)
              (DomainReplicationConfiguration.ActiveClusterName rhs) then False else
          if \<not> both_set_and List_ClusterReplicationConfiguration_Equals
              (DomainReplicationConfiguration.Clusters v) (DomainReplicationConfiguration.Clusters
              rhs) then False else
          True))"

lemma DomainReplicationConfiguration_Equals_iff [simp]: "DomainReplicationConfiguration_Equals x y \<longleftrightarrow>
    x = y"
  by (cases x; cases y) (auto simp: DomainReplicationConfiguration_Equals_def)

record DescribeDomainResponse =
  DomainInfo :: "DomainInfo option"
  Configuration :: "DomainConfiguration option"
  ReplicationConfiguration :: "DomainReplicationConfiguration option"
  FailoverVersion :: "64 word option"
  IsGlobalDomain :: "bool option"

definition DescribeDomainResponse_zero :: DescribeDomainResponse where
  "DescribeDomainResponse_zero = \<lparr>DescribeDomainResponse.DomainInfo = None,
      DescribeDomainResponse.Configuration = None, DescribeDomainResponse.ReplicationConfiguration =
      None, DescribeDomainResponse.FailoverVersion = None, DescribeDomainResponse.IsGlobalDomain =
      None\<rparr>"

definition DescribeDomainResponse_ToWire ::
  "'v wire_api \<Rightarrow> DescribeDomainResponse \<Rightarrow> go_error + 'v" where
  "DescribeDomainResponse_ToWire W v =
     and_then (put_opt 10 (DomainInfo_ToWire W) (DescribeDomainResponse.DomainInfo v) [])
       (\<lambda>fields.
     and_then (put_opt 20 (DomainConfiguration_ToWire W) (DescribeDomainResponse.Configuration v)
         fields)
       (\<lambda>fields.
     and_then (put_opt 30 (DomainReplicationConfiguration_ToWire W)
         (DescribeDomainResponse.ReplicationConfiguration v) fields)
       (\<lambda>fields.
     and_then (put_opt 40 (\<lambda>x. Inr (NewValueI64 W x)) (DescribeDomainResponse.FailoverVersion v)
         fields)
       (\<lambda>fields.
     and_then (put_opt 50 (\<lambda>x. Inr (NewValueBool W x)) (DescribeDomainResponse.IsGlobalDomain v)
         fields)
       (\<lambda>fields.
     Inr (NewValueStruct W fields))))))"

definition DescribeDomainResponse_FromWire ::
  "'v wire_api \<Rightarrow> 'v \<Rightarrow> DescribeDomainResponse \<Rightarrow> go_error + DescribeDomainResponse" where
  "DescribeDomainResponse_FromWire W w v =
     foldM (\<lambda>v (fid, fval).
       if fid = 10 then
         if wire_api.Type W fval = TStruct
         then and_then (DomainInfo_Read W fval) (\<lambda>x. Inr (v\<lparr>DescribeDomainResponse.DomainInfo :=
             Some x\<rparr>))
         else Inr v
       else if fid = 20 then
         if wire_api.Type W fval = TStruct
         then and_then (DomainConfiguration_Read W fval) (\<lambda>x. Inr
             (v\<lparr>DescribeDomainResponse.Configuration := Some x\<rparr>))
         else Inr v
       else if fid = 30 then
         if wire_api.Type W fval = TStruct
         then and_then (DomainReplicationConfiguration_Read W fval) (\<lambda>x. Inr
             (v\<lparr>DescribeDomainResponse.ReplicationConfiguration := Some x\<rparr>))
         else Inr v
       else if fid = 40 then
         if wire_api.Type W fval = TI64
         then Inr (v\<lparr>DescribeDomainResponse.FailoverVersion := Some (GetI64 W fval)\<rparr>)
         else Inr v
       else if fid = 50 then
         if wire_api.Type W fval = TBool
         then Inr (v\<lparr>DescribeDomainResponse.IsGlobalDomain := Some (GetBool W fval)\<rparr>)
         else Inr v
       else Inr v) (GetStruct W w) v"

definition DescribeDomainResponse_Read :: "'v wire_api \<Rightarrow> 'v \<Rightarrow> go_error + DescribeDomainResponse"
    where
  "DescribeDomainResponse_Read W w = DescribeDomainResponse_FromWire W w
      DescribeDomainResponse_zero"

definition DescribeDomainResponse_complete :: "DescribeDomainResponse \<Rightarrow> bool" where
  "DescribeDomainResponse_complete v \<longleftrightarrow>
     if_set DomainConfiguration_complete (DescribeDomainResponse.Configuration v) \<and>
     if_set DomainReplicationConfiguration_complete (DescribeDomainResponse.ReplicationConfiguration
         v)"

lemma DescribeDomainResponse_merge:
  "(case x of None \<Rightarrow> Inr \<lparr>DescribeDomainResponse.DomainInfo = a0,
      DescribeDomainResponse.Configuration = a1, DescribeDomainResponse.ReplicationConfiguration =
      a2, DescribeDomainResponse.FailoverVersion = a3, DescribeDomainResponse.IsGlobalDomain = a4\<rparr> |
      Some y \<Rightarrow> Inr \<lparr>DescribeDomainResponse.DomainInfo = b0 y, DescribeDomainResponse.Configuration =
      b1 y, DescribeDomainResponse.ReplicationConfiguration = b2 y,
      DescribeDomainResponse.FailoverVersion = b3 y, DescribeDomainResponse.IsGlobalDomain = b4 y\<rparr>)
      =
   Inr \<lparr>DescribeDomainResponse.DomainInfo = (case x of None \<Rightarrow> a0 | Some y \<Rightarrow> b0 y),
       DescribeDomainResponse.Configuration = (case x of None \<Rightarrow> a1 | Some y \<Rightarrow> b1 y),
       DescribeDomainResponse.ReplicationConfiguration = (case x of None \<Rightarrow> a2 | Some y \<Rightarrow> b2 y),
       DescribeDomainResponse.FailoverVersion = (case x of None \<Rightarrow> a3 | Some y \<Rightarrow> b3 y),
       DescribeDomainResponse.IsGlobalDomain = (case x of None \<Rightarrow> a4 | Some y \<Rightarrow> b4 y)\<rparr>"
  by (cases x) simp_all

interpretation DescribeDomainResponse: thrift_message W
  "DescribeDomainResponse_ToWire W" "DescribeDomainResponse_FromWire W" DescribeDomainResponse_zero
      "DescribeDomainResponse_complete" for W
proof (rule thrift_messageI)
  fix x :: DescribeDomainResponse
  assume laws: "wire_laws W"
  obtain enc0 where e0: "DomainConfiguration_ToWire W = (\<lambda>x. Inr (enc0 x))"
      "\<And>x. wire_api.Type W (enc0 x) = TStruct"
      "\<And>x. Writable W (enc0 x) \<longleftrightarrow> DomainConfiguration_complete x"
      "\<And>x. DomainConfiguration_complete x \<Longrightarrow> DomainConfiguration_FromWire W (enc0 x)
          DomainConfiguration_zero = Inr x"
    by (rule DomainConfiguration.encoder [OF laws]) (rule that)
  obtain enc1 where e1: "DomainInfo_ToWire W = (\<lambda>x. Inr (enc1 x))"
      "\<And>x. wire_api.Type W (enc1 x) = TStruct"
      "\<And>x. Writable W (enc1 x) \<longleftrightarrow> (\<lambda>_. True) x"
      "\<And>x. (\<lambda>_. True) x \<Longrightarrow> DomainInfo_FromWire W (enc1 x) DomainInfo_zero = Inr x"
    by (rule DomainInfo.encoder [OF laws]) (rule that)
  obtain enc2 where e2: "DomainReplicationConfiguration_ToWire W = (\<lambda>x. Inr (enc2 x))"
      "\<And>x. wire_api.Type W (enc2 x) = TStruct"
      "\<And>x. Writable W (enc2 x) \<longleftrightarrow> DomainReplicationConfiguration_complete x"
      "\<And>x. DomainReplicationConfiguration_complete x \<Longrightarrow> DomainReplicationConfiguration_FromWire W
          (enc2 x) DomainReplicationConfiguration_zero = Inr x"
    by (rule DomainReplicationConfiguration.encoder [OF laws]) (rule that)
  show "\<exists>w. DescribeDomainResponse_ToWire W x = Inr w \<and> wire_api.Type W w = TStruct \<and>
      (Writable W w \<longleftrightarrow> DescribeDomainResponse_complete x) \<and> (DescribeDomainResponse_complete x \<longrightarrow>
          DescribeDomainResponse_FromWire W w DescribeDomainResponse_zero = Inr x)"
    by (cases x) (simp cong: option.case_cong add: codec_rules DescribeDomainResponse_merge
        DescribeDomainResponse_ToWire_def DescribeDomainResponse_FromWire_def
        DescribeDomainResponse_zero_def DescribeDomainResponse_complete_def if_set_def
        DomainConfiguration_Read_def DomainInfo_Read_def DomainReplicationConfiguration_Read_def
        laws e0 e1 e2)
qed

definition DescribeDomainResponse_Equals ::
  "DescribeDomainResponse option \<Rightarrow> DescribeDomainResponse option \<Rightarrow> bool" where
  "DescribeDomainResponse_Equals v rhs =
     (case v of None \<Rightarrow> rhs = None
      | Some v \<Rightarrow> (case rhs of None \<Rightarrow> False
        | Some rhs \<Rightarrow>
          if \<not> both_set_and (\<lambda>x y. DomainInfo_Equals (Some x) (Some y))
              (DescribeDomainResponse.DomainInfo v) (DescribeDomainResponse.DomainInfo rhs) then
              False else
          if \<not> both_set_and (\<lambda>x y. DomainConfiguration_Equals (Some x) (Some y))
              (DescribeDomainResponse.Configuration v) (DescribeDomainResponse.Configuration rhs)
              then False else
          if \<not> both_set_and (\<lambda>x y. DomainReplicationConfiguration_Equals (Some x) (Some y))
              (DescribeDomainResponse.ReplicationConfiguration v)
              (DescribeDomainResponse.ReplicationConfiguration rhs) then False else
          if \<not> I64_EqualsPtr (DescribeDomainResponse.FailoverVersion v)
              (DescribeDomainResponse.FailoverVersion rhs) then False else
          if \<not> Bool_EqualsPtr (DescribeDomainResponse.IsGlobalDomain v)
              (DescribeDomainResponse.IsGlobalDomain rhs) then False else
          True))"

lemma DescribeDomainResponse_Equals_iff [simp]: "DescribeDomainResponse_Equals x y \<longleftrightarrow> x = y"
  by (cases x; cases y) (simp_all add: DescribeDomainResponse_Equals_def if_not_False, fastforce
      intro: DescribeDomainResponse.equality)

definition List_DescribeDomainResponse_ValueList :: "'v wire_api \<Rightarrow> DescribeDomainResponse option
    list \<Rightarrow> 'v ValueList" where
  "List_DescribeDomainResponse_ValueList W v =
     \<lparr>ValueList.ForEach = ptr_values (DescribeDomainResponse_ToWire W) v, Size = length v, ValueType
         = TStruct\<rparr>"

definition List_DescribeDomainResponse_Read :: "'v wire_api \<Rightarrow> 'v ValueList \<Rightarrow> go_error +
    DescribeDomainResponse option list option" where
  "List_DescribeDomainResponse_Read W l =
     (if ValueList.ValueType l \<noteq> TStruct then Inr None
      else and_then (for_each (ValueList.ForEach l)
        (\<lambda>out x. and_then (DescribeDomainResponse_Read W x) (\<lambda>i. Inr (out @ [Some i]))) []) (\<lambda>out.
            Inr (Some out)))"

definition List_DescribeDomainResponse_Equals :: "DescribeDomainResponse option list \<Rightarrow>
    DescribeDomainResponse option list \<Rightarrow> bool" where
  "List_DescribeDomainResponse_Equals lhs rhs = list_equals DescribeDomainResponse_Equals lhs rhs"

lemma List_DescribeDomainResponse_codec:
  assumes "wire_laws W"
  shows "list_all (delivered (Writable W)) (ValueList.ForEach (List_DescribeDomainResponse_ValueList
      W xs)) \<longleftrightarrow> list_all (present DescribeDomainResponse_complete) xs"
    and "list_all (present DescribeDomainResponse_complete) xs \<Longrightarrow> List_DescribeDomainResponse_Read W
        (List_DescribeDomainResponse_ValueList W xs) = Inr (Some xs)"
  using DescribeDomainResponse.ptr_values_writable [OF assms] DescribeDomainResponse.ptr_values_read
      [OF assms]
  by (simp_all add: List_DescribeDomainResponse_ValueList_def List_DescribeDomainResponse_Read_def
      DescribeDomainResponse_Read_def)

lemma List_DescribeDomainResponse_Equals_iff [simp]: "List_DescribeDomainResponse_Equals xs ys \<longleftrightarrow> xs
    = ys"
  unfolding List_DescribeDomainResponse_Equals_def by (rule list_equals_iff [where P = "\<lambda>_. True"])
      (simp_all add: list.pred_True)

record DomainCacheInfo =
  NumOfItemsInCacheByID :: "64 word option"
  NumOfItemsInCacheByName :: "64 word option"

definition DomainCacheInfo_zero :: DomainCacheInfo where
  "DomainCacheInfo_zero = \<lparr>DomainCacheInfo.NumOfItemsInCacheByID = None,
      DomainCacheInfo.NumOfItemsInCacheByName = None\<rparr>"

definition DomainCacheInfo_ToWire ::
  "'v wire_api \<Rightarrow> DomainCacheInfo \<Rightarrow> go_error + 'v" where
  "DomainCacheInfo_ToWire W v =
     and_then (put_opt 10 (\<lambda>x. Inr (NewValueI64 W x)) (DomainCacheInfo.NumOfItemsInCacheByID v) [])
       (\<lambda>fields.
     and_then (put_opt 20 (\<lambda>x. Inr (NewValueI64 W x)) (DomainCacheInfo.NumOfItemsInCacheByName v)
         fields)
       (\<lambda>fields.
     Inr (NewValueStruct W fields)))"

definition DomainCacheInfo_FromWire ::
  "'v wire_api \<Rightarrow> 'v \<Rightarrow> DomainCacheInfo \<Rightarrow> go_error + DomainCacheInfo" where
  "DomainCacheInfo_FromWire W w v =
     foldM (\<lambda>v (fid, fval).
       if fid = 10 then
         if wire_api.Type W fval = TI64
         then Inr (v\<lparr>DomainCacheInfo.NumOfItemsInCacheByID := Some (GetI64 W fval)\<rparr>)
         else Inr v
       else if fid = 20 then
         if wire_api.Type W fval = TI64
         then Inr (v\<lparr>DomainCacheInfo.NumOfItemsInCacheByName := Some (GetI64 W fval)\<rparr>)
         else Inr v
       else Inr v) (GetStruct W w) v"

definition DomainCacheInfo_Read :: "'v wire_api \<Rightarrow> 'v \<Rightarrow> go_error + DomainCacheInfo" where
  "DomainCacheInfo_Read W w = DomainCacheInfo_FromWire W w DomainCacheInfo_zero"

lemma DomainCacheInfo_merge:
  "(case x of None \<Rightarrow> Inr \<lparr>DomainCacheInfo.NumOfItemsInCacheByID = a0,
      DomainCacheInfo.NumOfItemsInCacheByName = a1\<rparr> | Some y \<Rightarrow> Inr
      \<lparr>DomainCacheInfo.NumOfItemsInCacheByID = b0 y, DomainCacheInfo.NumOfItemsInCacheByName = b1
      y\<rparr>) =
   Inr \<lparr>DomainCacheInfo.NumOfItemsInCacheByID = (case x of None \<Rightarrow> a0 | Some y \<Rightarrow> b0 y),
       DomainCacheInfo.NumOfItemsInCacheByName = (case x of None \<Rightarrow> a1 | Some y \<Rightarrow> b1 y)\<rparr>"
  by (cases x) simp_all

interpretation DomainCacheInfo: thrift_message W
  "DomainCacheInfo_ToWire W" "DomainCacheInfo_FromWire W" DomainCacheInfo_zero "\<lambda>_. True" for W
proof (rule thrift_messageI)
  fix x :: DomainCacheInfo
  assume laws: "wire_laws W"
  show "\<exists>w. DomainCacheInfo_ToWire W x = Inr w \<and> wire_api.Type W w = TStruct \<and>
      (Writable W w \<longleftrightarrow> (\<lambda>_. True) x) \<and> ((\<lambda>_. True) x \<longrightarrow> DomainCacheInfo_FromWire W w
          DomainCacheInfo_zero = Inr x)"
    by (cases x) (simp cong: option.case_cong add: codec_rules DomainCacheInfo_merge
        DomainCacheInfo_ToWire_def DomainCacheInfo_FromWire_def DomainCacheInfo_zero_def laws)
qed

definition DomainCacheInfo_Equals ::
  "DomainCacheInfo option \<Rightarrow> DomainCacheInfo option \<Rightarrow> bool" where
  "DomainCacheInfo_Equals v rhs =
     (case v of None \<Rightarrow> rhs = None
      | Some v \<Rightarrow> (case rhs of None \<Rightarrow> False
        | Some rhs \<Rightarrow>
          if \<not> I64_EqualsPtr (DomainCacheInfo.NumOfItemsInCacheByID v)
              (DomainCacheInfo.NumOfItemsInCacheByID rhs) then False else
          if \<not> I64_EqualsPtr (DomainCacheInfo.NumOfItemsInCacheByName v)
              (DomainCacheInfo.NumOfItemsInCacheByName rhs) then False else
          True))"

lemma DomainCacheInfo_Equals_iff [simp]: "DomainCacheInfo_Equals x y \<longleftrightarrow> x = y"
  by (cases x; cases y) (auto simp: DomainCacheInfo_Equals_def)

record ListDomainsRequest =
  PageSize :: "32 word option"
  NextPageToken :: "bytes option"

definition ListDomainsRequest_zero :: ListDomainsRequest where
  "ListDomainsRequest_zero = \<lparr>ListDomainsRequest.PageSize = None, ListDomainsRequest.NextPageToken =
      None\<rparr>"

definition ListDomainsRequest_ToWire ::
  "'v wire_api \<Rightarrow> ListDomainsRequest \<Rightarrow> go_error + 'v" where
  "ListDomainsRequest_ToWire W v =
     and_then (put_opt 10 (\<lambda>x. Inr (NewValueI32 W x)) (ListDomainsRequest.PageSize v) [])
       (\<lambda>fields.
     and_then (put_opt 20 (\<lambda>x. Inr (NewValueBinary W x)) (ListDomainsRequest.NextPageToken v)
         fields)
       (\<lambda>fields.
     Inr (NewValueStruct W fields)))"

definition ListDomainsRequest_FromWire ::
  "'v wire_api \<Rightarrow> 'v \<Rightarrow> ListDomainsRequest \<Rightarrow> go_error + ListDomainsRequest" where
  "ListDomainsRequest_FromWire W w v =
     foldM (\<lambda>v (fid, fval).
       if fid = 10 then
         if wire_api.Type W fval = TI32
         then Inr (v\<lparr>ListDomainsRequest.PageSize := Some (GetI32 W fval)\<rparr>)
         else Inr v
       else if fid = 20 then
         if wire_api.Type W fval = TBinary
         then Inr (v\<lparr>ListDomainsRequest.NextPageToken := Some (GetBinary W fval)\<rparr>)
         else Inr v
       else Inr v) (GetStruct W w) v"

definition ListDomainsRequest_Read :: "'v wire_api \<Rightarrow> 'v \<Rightarrow> go_error + ListDomainsRequest" where
  "ListDomainsRequest_Read W w = ListDomainsRequest_FromWire W w ListDomainsRequest_zero"

lemma ListDomainsRequest_merge:
  "(case x of None \<Rightarrow> Inr \<lparr>ListDomainsRequest.PageSize = a0, ListDomainsRequest.NextPageToken = a1\<rparr> |
      Some y \<Rightarrow> Inr \<lparr>ListDomainsRequest.PageSize = b0 y, ListDomainsRequest.NextPageToken = b1 y\<rparr>) =
   Inr \<lparr>ListDomainsRequest.PageSize = (case x of None \<Rightarrow> a0 | Some y \<Rightarrow> b0 y),
       ListDomainsRequest.NextPageToken = (case x of None \<Rightarrow> a1 | Some y \<Rightarrow> b1 y)\<rparr>"
  by (cases x) simp_all

interpretation ListDomainsRequest: thrift_message W
  "ListDomainsRequest_ToWire W" "ListDomainsRequest_FromWire W" ListDomainsRequest_zero "\<lambda>_. True"
      for W
proof (rule thrift_messageI)
  fix x :: ListDomainsRequest
  assume laws: "wire_laws W"
  show "\<exists>w. ListDomainsRequest_ToWire W x = Inr w \<and> wire_api.Type W w = TStruct \<and>
      (Writable W w \<longleftrightarrow> (\<lambda>_. True) x) \<and> ((\<lambda>_. True) x \<longrightarrow> ListDomainsRequest_FromWire W w
          ListDomainsRequest_zero = Inr x)"
    by (cases x) (simp cong: option.case_cong add: codec_rules ListDomainsRequest_merge
        ListDomainsRequest_ToWire_def ListDomainsRequest_FromWire_def ListDomainsRequest_zero_def
        laws)
qed

definition ListDomainsRequest_Equals ::
  "ListDomainsRequest option \<Rightarrow> ListDomainsRequest option \<Rightarrow> bool" where
  "ListDomainsRequest_Equals v rhs =
     (case v of None \<Rightarrow> rhs = None
      | Some v \<Rightarrow> (case rhs of None \<Rightarrow> False
        | Some rhs \<Rightarrow>
          if \<not> I32_EqualsPtr (ListDomainsRequest.PageSize v) (ListDomainsRequest.PageSize rhs) then
              False else
          if \<not> both_set_and (=) (ListDomainsRequest.NextPageToken v)
              (ListDomainsRequest.NextPageToken rhs) then False else
          True))"

lemma ListDomainsRequest_Equals_iff [simp]: "ListDomainsRequest_Equals x y \<longleftrightarrow> x = y"
  by (cases x; cases y) (auto simp: ListDomainsRequest_Equals_def)

record ListDomainsResponse =
  Domains :: "DescribeDomainResponse option list option"
  NextPageToken :: "bytes option"

definition ListDomainsResponse_zero :: ListDomainsResponse where
  "ListDomainsResponse_zero = \<lparr>ListDomainsResponse.Domains = None, ListDomainsResponse.NextPageToken
      = None\<rparr>"

definition ListDomainsResponse_ToWire ::
  "'v wire_api \<Rightarrow> ListDomainsResponse \<Rightarrow> go_error + 'v" where
  "ListDomainsResponse_ToWire W v =
     and_then (put_opt 10 (\<lambda>x. Inr (NewValueList W (List_DescribeDomainResponse_ValueList W x)))
         (ListDomainsResponse.Domains v) [])
       (\<lambda>fields.
     and_then (put_opt 20 (\<lambda>x. Inr (NewValueBinary W x)) (ListDomainsResponse.NextPageToken v)
         fields)
       (\<lambda>fields.
     Inr (NewValueStruct W fields)))"

definition ListDomainsResponse_FromWire ::
  "'v wire_api \<Rightarrow> 'v \<Rightarrow> ListDomainsResponse \<Rightarrow> go_error + ListDomainsResponse" where
  "ListDomainsResponse_FromWire W w v =
     foldM (\<lambda>v (fid, fval).
       if fid = 10 then
         if wire_api.Type W fval = TList
         then and_then (List_DescribeDomainResponse_Read W (GetList W fval)) (\<lambda>x. Inr
             (v\<lparr>ListDomainsResponse.Domains := x\<rparr>))
         else Inr v
       else if fid = 20 then
         if wire_api.Type W fval = TBinary
         then Inr (v\<lparr>ListDomainsResponse.NextPageToken := Some (GetBinary W fval)\<rparr>)
         else Inr v
       else Inr v) (GetStruct W w) v"

definition ListDomainsResponse_Read :: "'v wire_api \<Rightarrow> 'v \<Rightarrow> go_error + ListDomainsResponse" where
  "ListDomainsResponse_Read W w = ListDomainsResponse_FromWire W w ListDomainsResponse_zero"

definition ListDomainsResponse_complete :: "ListDomainsResponse \<Rightarrow> bool" where
  "ListDomainsResponse_complete v \<longleftrightarrow>
     if_set (list_all (present DescribeDomainResponse_complete)) (ListDomainsResponse.Domains v)"

lemma ListDomainsResponse_merge:
  "(case x of None \<Rightarrow> Inr \<lparr>ListDomainsResponse.Domains = a0, ListDomainsResponse.NextPageToken = a1\<rparr>
      | Some y \<Rightarrow> Inr \<lparr>ListDomainsResponse.Domains = b0 y, ListDomainsResponse.NextPageToken = b1 y\<rparr>)
      =
   Inr \<lparr>ListDomainsResponse.Domains = (case x of None \<Rightarrow> a0 | Some y \<Rightarrow> b0 y),
       ListDomainsResponse.NextPageToken = (case x of None \<Rightarrow> a1 | Some y \<Rightarrow> b1 y)\<rparr>"
  by (cases x) simp_all

interpretation ListDomainsResponse: thrift_message W
  "ListDomainsResponse_ToWire W" "ListDomainsResponse_FromWire W" ListDomainsResponse_zero
      "ListDomainsResponse_complete" for W
proof (rule thrift_messageI)
  fix x :: ListDomainsResponse
  assume laws: "wire_laws W"
  show "\<exists>w. ListDomainsResponse_ToWire W x = Inr w \<and> wire_api.Type W w = TStruct \<and>
      (Writable W w \<longleftrightarrow> ListDomainsResponse_complete x) \<and> (ListDomainsResponse_complete x \<longrightarrow>
          ListDomainsResponse_FromWire W w ListDomainsResponse_zero = Inr x)"
    by (cases x) (simp cong: option.case_cong add: codec_rules ListDomainsResponse_merge
        ListDomainsResponse_ToWire_def ListDomainsResponse_FromWire_def ListDomainsResponse_zero_def
        ListDomainsResponse_complete_def if_set_def List_DescribeDomainResponse_codec [OF laws]
        laws)
qed

definition ListDomainsResponse_Equals ::
  "ListDomainsResponse option \<Rightarrow> ListDomainsResponse option \<Rightarrow> bool" where
  "ListDomainsResponse_Equals v rhs =
     (case v of None \<Rightarrow> rhs = None
      | Some v \<Rightarrow> (case rhs of None \<Rightarrow> False
        | Some rhs \<Rightarrow>
          if \<not> both_set_and List_DescribeDomainResponse_Equals (ListDomainsResponse.Domains v)
              (ListDomainsResponse.Domains rhs) then False else
          if \<not> both_set_and (=) (ListDomainsResponse.NextPageToken v)
              (ListDomainsResponse.NextPageToken rhs) then False else
          True))"

lemma ListDomainsResponse_Equals_iff [simp]: "ListDomainsResponse_Equals x y \<longleftrightarrow> x = y"
  by (cases x; cases y) (auto simp: ListDomainsResponse_Equals_def)

record RegisterDomainRequest =
  Name :: "string option"
  Description :: "string option"
  OwnerEmail :: "string option"
  WorkflowExecutionRetentionPeriodInDays :: "32 word option"
  EmitMetric :: "bool option"
  Clusters :: "ClusterReplicationConfiguration option list option"
  ActiveClusterName :: "string option"
  Data :: "(string, string) fmap option"
  SecurityToken :: "string option"
  IsGlobalDomain :: "bool option"
  HistoryArchivalStatus :: "ArchivalStatus option"
  HistoryArchivalURI :: "string option"
  VisibilityArchivalStatus :: "ArchivalStatus option"
  VisibilityArchivalURI :: "string option"

definition RegisterDomainRequest_zero :: RegisterDomainRequest where
  "RegisterDomainRequest_zero = \<lparr>RegisterDomainRequest.Name = None,
      RegisterDomainRequest.Description = None, RegisterDomainRequest.OwnerEmail = None,
      RegisterDomainRequest.WorkflowExecutionRetentionPeriodInDays = None,
      RegisterDomainRequest.EmitMetric = None, RegisterDomainRequest.Clusters = None,
      RegisterDomainRequest.ActiveClusterName = None, RegisterDomainRequest.Data = None,
      RegisterDomainRequest.SecurityToken = None, RegisterDomainRequest.IsGlobalDomain = None,
      RegisterDomainRequest.HistoryArchivalStatus = None, RegisterDomainRequest.HistoryArchivalURI =
      None, RegisterDomainRequest.VisibilityArchivalStatus = None,
      RegisterDomainRequest.VisibilityArchivalURI = None\<rparr>"

definition RegisterDomainRequest_ToWire ::
  "'v wire_api \<Rightarrow> RegisterDomainRequest \<Rightarrow> go_error + 'v" where
  "RegisterDomainRequest_ToWire W v =
     and_then (put_opt 10 (\<lambda>x. Inr (NewValueString W x)) (RegisterDomainRequest.Name v) [])
       (\<lambda>fields.
     and_then (put_opt 20 (\<lambda>x. Inr (NewValueString W x)) (RegisterDomainRequest.Description v)
         fields)
       (\<lambda>fields.
     and_then (put_opt 30 (\<lambda>x. Inr (NewValueString W x)) (RegisterDomainRequest.OwnerEmail v)
         fields)
       (\<lambda>fields.
     and_then (put_opt 40 (\<lambda>x. Inr (NewValueI32 W x))
         (RegisterDomainRequest.WorkflowExecutionRetentionPeriodInDays v) fields)
       (\<lambda>fields.
     and_then (put_opt 50 (\<lambda>x. Inr (NewValueBool W x)) (RegisterDomainRequest.EmitMetric v) fields)
       (\<lambda>fields.
     and_then (put_opt 60 (\<lambda>x. Inr (NewValueList W (List_ClusterReplicationConfiguration_ValueList W
         x))) (RegisterDomainRequest.Clusters v) fields)
       (\<lambda>fields.
     and_then (put_opt 70 (\<lambda>x. Inr (NewValueString W x)) (RegisterDomainRequest.ActiveClusterName v)
         fields)
       (\<lambda>fields.
     and_then (put_opt 80 (\<lambda>x. Inr (NewValueMap W (Map_String_String_MapItemList W x)))
         (RegisterDomainRequest.Data v) fields)
       (\<lambda>fields.
     and_then (put_opt 90 (\<lambda>x. Inr (NewValueString W x)) (RegisterDomainRequest.SecurityToken v)
         fields)
       (\<lambda>fields.
     and_then (put_opt 120 (\<lambda>x. Inr (NewValueBool W x)) (RegisterDomainRequest.IsGlobalDomain v)
         fields)
       (\<lambda>fields.
     and_then (put_opt 130 (ArchivalStatus_ToWire W) (RegisterDomainRequest.HistoryArchivalStatus v)
         fields)
       (\<lambda>fields.
     and_then (put_opt 140 (\<lambda>x. Inr (NewValueString W x)) (RegisterDomainRequest.HistoryArchivalURI
         v) fields)
       (\<lambda>fields.
     and_then (put_opt 150 (ArchivalStatus_ToWire W) (RegisterDomainRequest.VisibilityArchivalStatus
         v) fields)
       (\<lambda>fields.
     and_then (put_opt 160 (\<lambda>x. Inr (NewValueString W x))
         (RegisterDomainRequest.VisibilityArchivalURI v) fields)
       (\<lambda>fields.
     Inr (NewValueStruct W fields)))))))))))))))"

definition RegisterDomainRequest_FromWire ::
  "'v wire_api \<Rightarrow> 'v \<Rightarrow> RegisterDomainRequest \<Rightarrow> go_error + RegisterDomainRequest" where
  "RegisterDomainRequest_FromWire W w v =
     foldM (\<lambda>v (fid, fval).
       if fid = 10 then
         if wire_api.Type W fval = TBinary
         then Inr (v\<lparr>RegisterDomainRequest.Name := Some (GetString W fval)\<rparr>)
         else Inr v
       else if fid = 20 then
         if wire_api.Type W fval = TBinary
         then Inr (v\<lparr>RegisterDomainRequest.Description := Some (GetString W fval)\<rparr>)
         else Inr v
       else if fid = 30 then
         if wire_api.Type W fval = TBinary
         then Inr (v\<lparr>RegisterDomainRequest.OwnerEmail := Some (GetString W fval)\<rparr>)
         else Inr v
       else if fid = 40 then
         if wire_api.Type W fval = TI32
         then Inr (v\<lparr>RegisterDomainRequest.WorkflowExecutionRetentionPeriodInDays := Some (GetI32 W
             fval)\<rparr>)
         else Inr v
       else if fid = 50 then
         if wire_api.Type W fval = TBool
         then Inr (v\<lparr>RegisterDomainRequest.EmitMetric := Some (GetBool W fval)\<rparr>)
         else Inr v
       else if fid = 60 then
         if wire_api.Type W fval = TList
         then and_then (List_ClusterReplicationConfiguration_Read W (GetList W fval)) (\<lambda>x. Inr
             (v\<lparr>RegisterDomainRequest.Clusters := x\<rparr>))
         else Inr v
       else if fid = 70 then
         if wire_api.Type W fval = TBinary
         then Inr (v\<lparr>RegisterDomainRequest.ActiveClusterName := Some (GetString W fval)\<rparr>)
         else Inr v
       else if fid = 80 then
         if wire_api.Type W fval = TMap
         then and_then (Map_String_String_Read W (GetMap W fval)) (\<lambda>x. Inr
             (v\<lparr>RegisterDomainRequest.Data := x\<rparr>))
         else Inr v
       else if fid = 90 then
         if wire_api.Type W fval = TBinary
         then Inr (v\<lparr>RegisterDomainRequest.SecurityToken := Some (GetString W fval)\<rparr>)
         else Inr v
       else if fid = 120 then
         if wire_api.Type W fval = TBool
         then Inr (v\<lparr>RegisterDomainRequest.IsGlobalDomain := Some (GetBool W fval)\<rparr>)
         else Inr v
       else if fid = 130 then
         if wire_api.Type W fval = TI32
         then and_then (ArchivalStatus_Read W fval) (\<lambda>x. Inr
             (v\<lparr>RegisterDomainRequest.HistoryArchivalStatus := Some x\<rparr>))
         else Inr v
       else if fid = 140 then
         if wire_api.Type W fval = TBinary
         then Inr (v\<lparr>RegisterDomainRequest.HistoryArchivalURI := Some (GetString W fval)\<rparr>)
         else Inr v
       else if fid = 150 then
         if wire_api.Type W fval = TI32
         then and_then (ArchivalStatus_Read W fval) (\<lambda>x. Inr
             (v\<lparr>RegisterDomainRequest.VisibilityArchivalStatus := Some x\<rparr>))
         else Inr v
       else if fid = 160 then
         if wire_api.Type W fval = TBinary
         then Inr (v\<lparr>RegisterDomainRequest.VisibilityArchivalURI := Some (GetString W fval)\<rparr>)
         else Inr v
       else Inr v) (GetStruct W w) v"

definition RegisterDomainRequest_Read :: "'v wire_api \<Rightarrow> 'v \<Rightarrow> go_error + RegisterDomainRequest" where
  "RegisterDomainRequest_Read W w = RegisterDomainRequest_FromWire W w RegisterDomainRequest_zero"

definition RegisterDomainRequest_complete :: "RegisterDomainRequest \<Rightarrow> bool" where
  "RegisterDomainRequest_complete v \<longleftrightarrow>
     if_set (list_all (present (\<lambda>_. True))) (RegisterDomainRequest.Clusters v)"

lemma RegisterDomainRequest_merge:
  "(case x of None \<Rightarrow> Inr \<lparr>RegisterDomainRequest.Name = a0, RegisterDomainRequest.Description = a1,
      RegisterDomainRequest.OwnerEmail = a2,
      RegisterDomainRequest.WorkflowExecutionRetentionPeriodInDays = a3,
      RegisterDomainRequest.EmitMetric = a4, RegisterDomainRequest.Clusters = a5,
      RegisterDomainRequest.ActiveClusterName = a6, RegisterDomainRequest.Data = a7,
      RegisterDomainRequest.SecurityToken = a8, RegisterDomainRequest.IsGlobalDomain = a9,
      RegisterDomainRequest.HistoryArchivalStatus = a10, RegisterDomainRequest.HistoryArchivalURI =
      a11, RegisterDomainRequest.VisibilityArchivalStatus = a12,
      RegisterDomainRequest.VisibilityArchivalURI = a13\<rparr> | Some y \<Rightarrow> Inr \<lparr>RegisterDomainRequest.Name
      = b0 y, RegisterDomainRequest.Description = b1 y, RegisterDomainRequest.OwnerEmail = b2 y,
      RegisterDomainRequest.WorkflowExecutionRetentionPeriodInDays = b3 y,
      RegisterDomainRequest.EmitMetric = b4 y, RegisterDomainRequest.Clusters = b5 y,
      RegisterDomainRequest.ActiveClusterName = b6 y, RegisterDomainRequest.Data = b7 y,
      RegisterDomainRequest.SecurityToken = b8 y, RegisterDomainRequest.IsGlobalDomain = b9 y,
      RegisterDomainRequest.HistoryArchivalStatus = b10 y, RegisterDomainRequest.HistoryArchivalURI
      = b11 y, RegisterDomainRequest.VisibilityArchivalStatus = b12 y,
      RegisterDomainRequest.VisibilityArchivalURI = b13 y\<rparr>) =
   Inr \<lparr>RegisterDomainRequest.Name = (case x of None \<Rightarrow> a0 | Some y \<Rightarrow> b0 y),
       RegisterDomainRequest.Description = (case x of None \<Rightarrow> a1 | Some y \<Rightarrow> b1 y),
       RegisterDomainRequest.OwnerEmail = (case x of None \<Rightarrow> a2 | Some y \<Rightarrow> b2 y),
       RegisterDomainRequest.WorkflowExecutionRetentionPeriodInDays = (case x of None \<Rightarrow> a3 | Some y
       \<Rightarrow> b3 y), RegisterDomainRequest.EmitMetric = (case x of None \<Rightarrow> a4 | Some y \<Rightarrow> b4 y),
       RegisterDomainRequest.Clusters = (case x of None \<Rightarrow> a5 | Some y \<Rightarrow> b5 y),
       RegisterDomainRequest.ActiveClusterName = (case x of None \<Rightarrow> a6 | Some y \<Rightarrow> b6 y),
       RegisterDomainRequest.Data = (case x of None \<Rightarrow> a7 | Some y \<Rightarrow> b7 y),
       RegisterDomainRequest.SecurityToken = (case x of None \<Rightarrow> a8 | Some y \<Rightarrow> b8 y),
       RegisterDomainRequest.IsGlobalDomain = (case x of None \<Rightarrow> a9 | Some y \<Rightarrow> b9 y),
       RegisterDomainRequest.HistoryArchivalStatus = (case x of None \<Rightarrow> a10 | Some y \<Rightarrow> b10 y),
       RegisterDomainRequest.HistoryArchivalURI = (case x of None \<Rightarrow> a11 | Some y \<Rightarrow> b11 y),
       RegisterDomainRequest.VisibilityArchivalStatus = (case x of None \<Rightarrow> a12 | Some y \<Rightarrow> b12 y),
       RegisterDomainRequest.VisibilityArchivalURI = (case x of None \<Rightarrow> a13 | Some y \<Rightarrow> b13 y)\<rparr>"
  by (cases x) simp_all

interpretation RegisterDomainRequest: thrift_message W
  "RegisterDomainRequest_ToWire W" "RegisterDomainRequest_FromWire W" RegisterDomainRequest_zero
      "RegisterDomainRequest_complete" for W
proof (rule thrift_messageI)
  fix x :: RegisterDomainRequest
  assume laws: "wire_laws W"
  show "\<exists>w. RegisterDomainRequest_ToWire W x = Inr w \<and> wire_api.Type W w = TStruct \<and>
      (Writable W w \<longleftrightarrow> RegisterDomainRequest_complete x) \<and> (RegisterDomainRequest_complete x \<longrightarrow>
          RegisterDomainRequest_FromWire W w RegisterDomainRequest_zero = Inr x)"
    by (cases x) (simp cong: option.case_cong add: codec_rules RegisterDomainRequest_merge
        RegisterDomainRequest_ToWire_def RegisterDomainRequest_FromWire_def
        RegisterDomainRequest_zero_def RegisterDomainRequest_complete_def if_set_def
        ArchivalStatus_enc ArchivalStatus_Read_def ArchivalStatus_FromWire_def
        List_ClusterReplicationConfiguration_codec [OF laws] Map_String_String_codec [OF laws] laws)
qed

definition RegisterDomainRequest_Equals ::
  "RegisterDomainRequest option \<Rightarrow> RegisterDomainRequest option \<Rightarrow> bool" where
  "RegisterDomainRequest_Equals v rhs =
     (case v of None \<Rightarrow> rhs = None
      | Some v \<Rightarrow> (case rhs of None \<Rightarrow> False
        | Some rhs \<Rightarrow>
          if \<not> String_EqualsPtr (RegisterDomainRequest.Name v) (RegisterDomainRequest.Name rhs) then
              False else
          if \<not> String_EqualsPtr (RegisterDomainRequest.Description v)
              (RegisterDomainRequest.Description rhs) then False else
          if \<not> String_EqualsPtr (RegisterDomainRequest.OwnerEmail v)
              (RegisterDomainRequest.OwnerEmail rhs) then False else
          if \<not> I32_EqualsPtr (RegisterDomainRequest.WorkflowExecutionRetentionPeriodInDays v)
              (RegisterDomainRequest.WorkflowExecutionRetentionPeriodInDays rhs) then False else
          if \<not> Bool_EqualsPtr (RegisterDomainRequest.EmitMetric v) (RegisterDomainRequest.EmitMetric
              rhs) then False else
          if \<not> both_set_and List_ClusterReplicationConfiguration_Equals
              (RegisterDomainRequest.Clusters v) (RegisterDomainRequest.Clusters rhs) then False
              else
          if \<not> String_EqualsPtr (RegisterDomainRequest.ActiveClusterName v)
              (RegisterDomainRequest.ActiveClusterName rhs) then False else
          if \<not> both_set_and Map_String_String_Equals (RegisterDomainRequest.Data v)
              (RegisterDomainRequest.Data rhs) then False else
          if \<not> String_EqualsPtr (RegisterDomainRequest.SecurityToken v)
              (RegisterDomainRequest.SecurityToken rhs) then False else
          if \<not> Bool_EqualsPtr (RegisterDomainRequest.IsGlobalDomain v)
              (RegisterDomainRequest.IsGlobalDomain rhs) then False else
          if \<not> ArchivalStatus_EqualsPtr (RegisterDomainRequest.HistoryArchivalStatus v)
              (RegisterDomainRequest.HistoryArchivalStatus rhs) then False else
          if \<not> String_EqualsPtr (RegisterDomainRequest.HistoryArchivalURI v)
              (RegisterDomainRequest.HistoryArchivalURI rhs) then False else
          if \<not> ArchivalStatus_EqualsPtr (RegisterDomainRequest.VisibilityArchivalStatus v)
              (RegisterDomainRequest.VisibilityArchivalStatus rhs) then False else
          if \<not> String_EqualsPtr (RegisterDomainRequest.VisibilityArchivalURI v)
              (RegisterDomainRequest.VisibilityArchivalURI rhs) then False else
          True))"

lemma RegisterDomainRequest_Equals_iff [simp]: "RegisterDomainRequest_Equals x y \<longleftrightarrow> x = y"
  by (cases x; cases y) (simp_all add: RegisterDomainRequest_Equals_def if_not_False, fastforce
      intro: RegisterDomainRequest.equality)

record UpdateDomainInfo =
  Description :: "string option"
  OwnerEmail :: "string option"
  Data :: "(string, string) fmap option"

definition UpdateDomainInfo_zero :: UpdateDomainInfo where
  "UpdateDomainInfo_zero = \<lparr>UpdateDomainInfo.Description = None, UpdateDomainInfo.OwnerEmail = None,
      UpdateDomainInfo.Data = None\<rparr>"

definition UpdateDomainInfo_ToWire ::
  "'v wire_api \<Rightarrow> UpdateDomainInfo \<Rightarrow> go_error + 'v" where
  "UpdateDomainInfo_ToWire W v =
     and_then (put_opt 10 (\<lambda>x. Inr (NewValueString W x)) (UpdateDomainInfo.Description v) [])
       (\<lambda>fields.
     and_then (put_opt 20 (\<lambda>x. Inr (NewValueString W x)) (UpdateDomainInfo.OwnerEmail v) fields)
       (\<lambda>fields.
     and_then (put_opt 30 (\<lambda>x. Inr (NewValueMap W (Map_String_String_MapItemList W x)))
         (UpdateDomainInfo.Data v) fields)
       (\<lambda>fields.
     Inr (NewValueStruct W fields))))"

definition UpdateDomainInfo_FromWire ::
  "'v wire_api \<Rightarrow> 'v \<Rightarrow> UpdateDomainInfo \<Rightarrow> go_error + UpdateDomainInfo" where
  "UpdateDomainInfo_FromWire W w v =
     foldM (\<lambda>v (fid, fval).
       if fid = 10 then
         if wire_api.Type W fval = TBinary
         then Inr (v\<lparr>UpdateDomainInfo.Description := Some (GetString W fval)\<rparr>)
         else Inr v
       else if fid = 20 then
         if wire_api.Type W fval = TBinary
         then Inr (v\<lparr>UpdateDomainInfo.OwnerEmail := Some (GetString W fval)\<rparr>)
         else Inr v
       else if fid = 30 then
         if wire_api.Type W fval = TMap
         then and_then (Map_String_String_Read W (GetMap W fval)) (\<lambda>x. Inr (v\<lparr>UpdateDomainInfo.Data
             := x\<rparr>))
         else Inr v
       else Inr v) (GetStruct W w) v"

definition UpdateDomainInfo_Read :: "'v wire_api \<Rightarrow> 'v \<Rightarrow> go_error + UpdateDomainInfo" where
  "UpdateDomainInfo_Read W w = UpdateDomainInfo_FromWire W w UpdateDomainInfo_zero"

lemma UpdateDomainInfo_merge:
  "(case x of None \<Rightarrow> Inr \<lparr>UpdateDomainInfo.Description = a0, UpdateDomainInfo.OwnerEmail = a1,
      UpdateDomainInfo.Data = a2\<rparr> | Some y \<Rightarrow> Inr \<lparr>UpdateDomainInfo.Description = b0 y,
      UpdateDomainInfo.OwnerEmail = b1 y, UpdateDomainInfo.Data = b2 y\<rparr>) =
   Inr \<lparr>UpdateDomainInfo.Description = (case x of None \<Rightarrow> a0 | Some y \<Rightarrow> b0 y),
       UpdateDomainInfo.OwnerEmail = (case x of None \<Rightarrow> a1 | Some y \<Rightarrow> b1 y), UpdateDomainInfo.Data =
       (case x of None \<Rightarrow> a2 | Some y \<Rightarrow> b2 y)\<rparr>"
  by (cases x) simp_all

interpretation UpdateDomainInfo: thrift_message W
  "UpdateDomainInfo_ToWire W" "UpdateDomainInfo_FromWire W" UpdateDomainInfo_zero "\<lambda>_. True" for W
proof (rule thrift_messageI)
  fix x :: UpdateDomainInfo
  assume laws: "wire_laws W"
  show "\<exists>w. UpdateDomainInfo_ToWire W x = Inr w \<and> wire_api.Type W w = TStruct \<and>
      (Writable W w \<longleftrightarrow> (\<lambda>_. True) x) \<and> ((\<lambda>_. True) x \<longrightarrow> UpdateDomainInfo_FromWire W w
          UpdateDomainInfo_zero = Inr x)"
    by (cases x) (simp cong: option.case_cong add: codec_rules UpdateDomainInfo_merge
        UpdateDomainInfo_ToWire_def UpdateDomainInfo_FromWire_def UpdateDomainInfo_zero_def
        Map_String_String_codec [OF laws] laws)
qed

definition UpdateDomainInfo_Equals ::
  "UpdateDomainInfo option \<Rightarrow> UpdateDomainInfo option \<Rightarrow> bool" where
  "UpdateDomainInfo_Equals v rhs =
     (case v of None \<Rightarrow> rhs = None
      | Some v \<Rightarrow> (case rhs of None \<Rightarrow> False
        | Some rhs \<Rightarrow>
          if \<not> String_EqualsPtr (UpdateDomainInfo.Description v) (UpdateDomainInfo.Description rhs)
              then False else
          if \<not> String_EqualsPtr (UpdateDomainInfo.OwnerEmail v) (UpdateDomainInfo.OwnerEmail rhs)
              then False else
          if \<not> both_set_and Map_String_String_Equals (UpdateDomainInfo.Data v)
              (UpdateDomainInfo.Data rhs) then False else
          True))"

lemma UpdateDomainInfo_Equals_iff [simp]: "UpdateDomainInfo_Equals x y \<longleftrightarrow> x = y"
  by (cases x; cases y) (auto simp: UpdateDomainInfo_Equals_def)

record UpdateDomainRequest =
  Name :: "string option"
  UpdatedInfo :: "UpdateDomainInfo option"
  Configuration :: "DomainConfiguration option"
  ReplicationConfiguration :: "DomainReplicationConfiguration option"
  SecurityToken :: "string option"
  DeleteBadBinary :: "string option"

definition UpdateDomainRequest_zero :: UpdateDomainRequest where
  "UpdateDomainRequest_zero = \<lparr>UpdateDomainRequest.Name = None, UpdateDomainRequest.UpdatedInfo =
      None, UpdateDomainRequest.Configuration = None, UpdateDomainRequest.ReplicationConfiguration =
      None, UpdateDomainRequest.SecurityToken = None, UpdateDomainRequest.DeleteBadBinary = None\<rparr>"

definition UpdateDomainRequest_ToWire ::
  "'v wire_api \<Rightarrow> UpdateDomainRequest \<Rightarrow> go_error + 'v" where
  "UpdateDomainRequest_ToWire W v =
     and_then (put_opt 10 (\<lambda>x. Inr (NewValueString W x)) (UpdateDomainRequest.Name v) [])
       (\<lambda>fields.
     and_then (put_opt 20 (UpdateDomainInfo_ToWire W) (UpdateDomainRequest.UpdatedInfo v) fields)
       (\<lambda>fields.
     and_then (put_opt 30 (DomainConfiguration_ToWire W) (UpdateDomainRequest.Configuration v)
         fields)
       (\<lambda>fields.
     and_then (put_opt 40 (DomainReplicationConfiguration_ToWire W)
         (UpdateDomainRequest.ReplicationConfiguration v) fields)
       (\<lambda>fields.
     and_then (put_opt 50 (\<lambda>x. Inr (NewValueString W x)) (UpdateDomainRequest.SecurityToken v)
         fields)
       (\<lambda>fields.
     and_then (put_opt 60 (\<lambda>x. Inr (NewValueString W x)) (UpdateDomainRequest.DeleteBadBinary v)
         fields)
       (\<lambda>fields.
     Inr (NewValueStruct W fields)))))))"

definition UpdateDomainRequest_FromWire ::
  "'v wire_api \<Rightarrow> 'v \<Rightarrow> UpdateDomainRequest \<Rightarrow> go_error + UpdateDomainRequest" where
  "UpdateDomainRequest_FromWire W w v =
     foldM (\<lambda>v (fid, fval).
       if fid = 10 then
         if wire_api.Type W fval = TBinary
         then Inr (v\<lparr>UpdateDomainRequest.Name := Some (GetString W fval)\<rparr>)
         else Inr v
       else if fid = 20 then
         if wire_api.Type W fval = TStruct
         then and_then (UpdateDomainInfo_Read W fval) (\<lambda>x. Inr (v\<lparr>UpdateDomainRequest.UpdatedInfo :=
             Some x\<rparr>))
         else Inr v
       else if fid = 30 then
         if wire_api.Type W fval = TStruct
         then and_then (DomainConfiguration_Read W fval) (\<lambda>x. Inr
             (v\<lparr>UpdateDomainRequest.Configuration := Some x\<rparr>))
         else Inr v
       else if fid = 40 then
         if wire_api.Type W fval = TStruct
         then and_then (DomainReplicationConfiguration_Read W fval) (\<lambda>x. Inr
             (v\<lparr>UpdateDomainRequest.ReplicationConfiguration := Some x\<rparr>))
         else Inr v
       else if fid = 50 then
         if wire_api.Type W fval = TBinary
         then Inr (v\<lparr>UpdateDomainRequest.SecurityToken := Some (GetString W fval)\<rparr>)
         else Inr v
       else if fid = 60 then
         if wire_api.Type W fval = TBinary
         then Inr (v\<lparr>UpdateDomainRequest.DeleteBadBinary := Some (GetString W fval)\<rparr>)
         else Inr v
       else Inr v) (GetStruct W w) v"

definition UpdateDomainRequest_Read :: "'v wire_api \<Rightarrow> 'v \<Rightarrow> go_error + UpdateDomainRequest" where
  "UpdateDomainRequest_Read W w = UpdateDomainRequest_FromWire W w UpdateDomainRequest_zero"

definition UpdateDomainRequest_complete :: "UpdateDomainRequest \<Rightarrow> bool" where
  "UpdateDomainRequest_complete v \<longleftrightarrow>
     if_set DomainConfiguration_complete (UpdateDomainRequest.Configuration v) \<and>
     if_set DomainReplicationConfiguration_complete (UpdateDomainRequest.ReplicationConfiguration
         v)"

lemma UpdateDomainRequest_merge:
  "(case x of None \<Rightarrow> Inr \<lparr>UpdateDomainRequest.Name = a0, UpdateDomainRequest.UpdatedInfo = a1,
      UpdateDomainRequest.Configuration = a2, UpdateDomainRequest.ReplicationConfiguration = a3,
      UpdateDomainRequest.SecurityToken = a4, UpdateDomainRequest.DeleteBadBinary = a5\<rparr> | Some y \<Rightarrow>
      Inr \<lparr>UpdateDomainRequest.Name = b0 y, UpdateDomainRequest.UpdatedInfo = b1 y,
      UpdateDomainRequest.Configuration = b2 y, UpdateDomainRequest.ReplicationConfiguration = b3 y,
      UpdateDomainRequest.SecurityToken = b4 y, UpdateDomainRequest.DeleteBadBinary = b5 y\<rparr>) =
   Inr \<lparr>UpdateDomainRequest.Name = (case x of None \<Rightarrow> a0 | Some y \<Rightarrow> b0 y),
       UpdateDomainRequest.UpdatedInfo = (case x of None \<Rightarrow> a1 | Some y \<Rightarrow> b1 y),
       UpdateDomainRequest.Configuration = (case x of None \<Rightarrow> a2 | Some y \<Rightarrow> b2 y),
       UpdateDomainRequest.ReplicationConfiguration = (case x of None \<Rightarrow> a3 | Some y \<Rightarrow> b3 y),
       UpdateDomainRequest.SecurityToken = (case x of None \<Rightarrow> a4 | Some y \<Rightarrow> b4 y),
       UpdateDomainRequest.DeleteBadBinary = (case x of None \<Rightarrow> a5 | Some y \<Rightarrow> b5 y)\<rparr>"
  by (cases x) simp_all

interpretation UpdateDomainRequest: thrift_message W
  "UpdateDomainRequest_ToWire W" "UpdateDomainRequest_FromWire W" UpdateDomainRequest_zero
      "UpdateDomainRequest_complete" for W
proof (rule thrift_messageI)
  fix x :: UpdateDomainRequest
  assume laws: "wire_laws W"
  obtain enc0 where e0: "DomainConfiguration_ToWire W = (\<lambda>x. Inr (enc0 x))"
      "\<And>x. wire_api.Type W (enc0 x) = TStruct"
      "\<And>x. Writable W (enc0 x) \<longleftrightarrow> DomainConfiguration_complete x"
      "\<And>x. DomainConfiguration_complete x \<Longrightarrow> DomainConfiguration_FromWire W (enc0 x)
          DomainConfiguration_zero = Inr x"
    by (rule DomainConfiguration.encoder [OF laws]) (rule that)
  obtain enc1 where e1: "DomainReplicationConfiguration_ToWire W = (\<lambda>x. Inr (enc1 x))"
      "\<And>x. wire_api.Type W (enc1 x) = TStruct"
      "\<And>x. Writable W (enc1 x) \<longleftrightarrow> DomainReplicationConfiguration_complete x"
      "\<And>x. DomainReplicationConfiguration_complete x \<Longrightarrow> DomainReplicationConfiguration_FromWire W
          (enc1 x) DomainReplicationConfiguration_zero = Inr x"
    by (rule DomainReplicationConfiguration.encoder [OF laws]) (rule that)
  obtain enc2 where e2: "UpdateDomainInfo_ToWire W = (\<lambda>x. Inr (enc2 x))"
      "\<And>x. wire_api.Type W (enc2 x) = TStruct"
      "\<And>x. Writable W (enc2 x) \<longleftrightarrow> (\<lambda>_. True) x"
      "\<And>x. (\<lambda>_. True) x \<Longrightarrow> UpdateDomainInfo_FromWire W (enc2 x) UpdateDomainInfo_zero = Inr x"
    by (rule UpdateDomainInfo.encoder [OF laws]) (rule that)
  show "\<exists>w. UpdateDomainRequest_ToWire W x = Inr w \<and> wire_api.Type W w = TStruct \<and>
      (Writable W w \<longleftrightarrow> UpdateDomainRequest_complete x) \<and> (UpdateDomainRequest_complete x \<longrightarrow>
          UpdateDomainRequest_FromWire W w UpdateDomainRequest_zero = Inr x)"
    by (cases x) (simp cong: option.case_cong add: codec_rules UpdateDomainRequest_merge
        UpdateDomainRequest_ToWire_def UpdateDomainRequest_FromWire_def UpdateDomainRequest_zero_def
        UpdateDomainRequest_complete_def if_set_def DomainConfiguration_Read_def
        DomainReplicationConfiguration_Read_def UpdateDomainInfo_Read_def laws e0 e1 e2)
qed

definition UpdateDomainRequest_Equals ::
  "UpdateDomainRequest option \<Rightarrow> UpdateDomainRequest option \<Rightarrow> bool" where
  "UpdateDomainRequest_Equals v rhs =
     (case v of None \<Rightarrow> rhs = None
      | Some v \<Rightarrow> (case rhs of None \<Rightarrow> False
        | Some rhs \<Rightarrow>
          if \<not> String_EqualsPtr (UpdateDomainRequest.Name v) (UpdateDomainRequest.Name rhs) then
              False else
          if \<not> both_set_and (\<lambda>x y. UpdateDomainInfo_Equals (Some x) (Some y))
              (UpdateDomainRequest.UpdatedInfo v) (UpdateDomainRequest.UpdatedInfo rhs) then False
              else
          if \<not> both_set_and (\<lambda>x y. DomainConfiguration_Equals (Some x) (Some y))
              (UpdateDomainRequest.Configuration v) (UpdateDomainRequest.Configuration rhs) then
              False else
          if \<not> both_set_and (\<lambda>x y. DomainReplicationConfiguration_Equals (Some x) (Some y))
              (UpdateDomainRequest.ReplicationConfiguration v)
              (UpdateDomainRequest.ReplicationConfiguration rhs) then False else
          if \<not> String_EqualsPtr (UpdateDomainRequest.SecurityToken v)
              (UpdateDomainRequest.SecurityToken rhs) then False else
          if \<not> String_EqualsPtr (UpdateDomainRequest.DeleteBadBinary v)
              (UpdateDomainRequest.DeleteBadBinary rhs) then False else
          True))"

lemma UpdateDomainRequest_Equals_iff [simp]: "UpdateDomainRequest_Equals x y \<longleftrightarrow> x = y"
  by (cases x; cases y) (simp_all add: UpdateDomainRequest_Equals_def if_not_False, fastforce intro:
      UpdateDomainRequest.equality)

record UpdateDomainResponse =
  DomainInfo :: "DomainInfo option"
  Configuration :: "DomainConfiguration option"
  ReplicationConfiguration :: "DomainReplicationConfiguration option"
  FailoverVersion :: "64 word option"
  IsGlobalDomain :: "bool option"

definition UpdateDomainResponse_zero :: UpdateDomainResponse where
  "UpdateDomainResponse_zero = \<lparr>UpdateDomainResponse.DomainInfo = None,
      UpdateDomainResponse.Configuration = None, UpdateDomainResponse.ReplicationConfiguration =
      None, UpdateDomainResponse.FailoverVersion = None, UpdateDomainResponse.IsGlobalDomain =
      None\<rparr>"

definition UpdateDomainResponse_ToWire ::
  "'v wire_api \<Rightarrow> UpdateDomainResponse \<Rightarrow> go_error + 'v" where
  "UpdateDomainResponse_ToWire W v =
     and_then (put_opt 10 (DomainInfo_ToWire W) (UpdateDomainResponse.DomainInfo v) [])
       (\<lambda>fields.
     and_then (put_opt 20 (DomainConfiguration_ToWire W) (UpdateDomainResponse.Configuration v)
         fields)
       (\<lambda>fields.
     and_then (put_opt 30 (DomainReplicationConfiguration_ToWire W)
         (UpdateDomainResponse.ReplicationConfiguration v) fields)
       (\<lambda>fields.
     and_then (put_opt 40 (\<lambda>x. Inr (NewValueI64 W x)) (UpdateDomainResponse.FailoverVersion v)
         fields)
       (\<lambda>fields.
     and_then (put_opt 50 (\<lambda>x. Inr (NewValueBool W x)) (UpdateDomainResponse.IsGlobalDomain v)
         fields)
       (\<lambda>fields.
     Inr (NewValueStruct W fields))))))"

definition UpdateDomainResponse_FromWire ::
  "'v wire_api \<Rightarrow> 'v \<Rightarrow> UpdateDomainResponse \<Rightarrow> go_error + UpdateDomainResponse" where
  "UpdateDomainResponse_FromWire W w v =
     foldM (\<lambda>v (fid, fval).
       if fid = 10 then
         if wire_api.Type W fval = TStruct
         then and_then (DomainInfo_Read W fval) (\<lambda>x. Inr (v\<lparr>UpdateDomainResponse.DomainInfo := Some
             x\<rparr>))
         else Inr v
       else if fid = 20 then
         if wire_api.Type W fval = TStruct
         then and_then (DomainConfiguration_Read W fval) (\<lambda>x. Inr
             (v\<lparr>UpdateDomainResponse.Configuration := Some x\<rparr>))
         else Inr v
       else if fid = 30 then
         if wire_api.Type W fval = TStruct
         then and_then (DomainReplicationConfiguration_Read W fval) (\<lambda>x. Inr
             (v\<lparr>UpdateDomainResponse.ReplicationConfiguration := Some x\<rparr>))
         else Inr v
       else if fid = 40 then
         if wire_api.Type W fval = TI64
         then Inr (v\<lparr>UpdateDomainResponse.FailoverVersion := Some (GetI64 W fval)\<rparr>)
         else Inr v
       else if fid = 50 then
         if wire_api.Type W fval = TBool
         then Inr (v\<lparr>UpdateDomainResponse.IsGlobalDomain := Some (GetBool W fval)\<rparr>)
         else Inr v
       else Inr v) (GetStruct W w) v"

definition UpdateDomainResponse_Read :: "'v wire_api \<Rightarrow> 'v \<Rightarrow> go_error + UpdateDomainResponse" where
  "UpdateDomainResponse_Read W w = UpdateDomainResponse_FromWire W w UpdateDomainResponse_zero"

definition UpdateDomainResponse_complete :: "UpdateDomainResponse \<Rightarrow> bool" where
  "UpdateDomainResponse_complete v \<longleftrightarrow>
     if_set DomainConfiguration_complete (UpdateDomainResponse.Configuration v) \<and>
     if_set DomainReplicationConfiguration_complete (UpdateDomainResponse.ReplicationConfiguration
         v)"

lemma UpdateDomainResponse_merge:
  "(case x of None \<Rightarrow> Inr \<lparr>UpdateDomainResponse.DomainInfo = a0, UpdateDomainResponse.Configuration =
      a1, UpdateDomainResponse.ReplicationConfiguration = a2, UpdateDomainResponse.FailoverVersion =
      a3, UpdateDomainResponse.IsGlobalDomain = a4\<rparr> | Some y \<Rightarrow> Inr \<lparr>UpdateDomainResponse.DomainInfo
      = b0 y, UpdateDomainResponse.Configuration = b1 y,
      UpdateDomainResponse.ReplicationConfiguration = b2 y, UpdateDomainResponse.FailoverVersion =
      b3 y, UpdateDomainResponse.IsGlobalDomain = b4 y\<rparr>) =
   Inr \<lparr>UpdateDomainResponse.DomainInfo = (case x of None \<Rightarrow> a0 | Some y \<Rightarrow> b0 y),
       UpdateDomainResponse.Configuration = (case x of None \<Rightarrow> a1 | Some y \<Rightarrow> b1 y),
       UpdateDomainResponse.ReplicationConfiguration = (case x of None \<Rightarrow> a2 | Some y \<Rightarrow> b2 y),
       UpdateDomainResponse.FailoverVersion = (case x of None \<Rightarrow> a3 | Some y \<Rightarrow> b3 y),
       UpdateDomainResponse.IsGlobalDomain = (case x of None \<Rightarrow> a4 | Some y \<Rightarrow> b4 y)\<rparr>"
  by (cases x) simp_all

interpretation UpdateDomainResponse: thrift_message W
  "UpdateDomainResponse_ToWire W" "UpdateDomainResponse_FromWire W" UpdateDomainResponse_zero
      "UpdateDomainResponse_complete" for W
proof (rule thrift_messageI)
  fix x :: UpdateDomainResponse
  assume laws: "wire_laws W"
  obtain enc0 where e0: "DomainConfiguration_ToWire W = (\<lambda>x. Inr (enc0 x))"
      "\<And>x. wire_api.Type W (enc0 x) = TStruct"
      "\<And>x. Writable W (enc0 x) \<longleftrightarrow> DomainConfiguration_complete x"
      "\<And>x. DomainConfiguration_complete x \<Longrightarrow> DomainConfiguration_FromWire W (enc0 x)
          DomainConfiguration_zero = Inr x"
    by (rule DomainConfiguration.encoder [OF laws]) (rule that)
  obtain enc1 where e1: "DomainInfo_ToWire W = (\<lambda>x. Inr (enc1 x))"
      "\<And>x. wire_api.Type W (enc1 x) = TStruct"
      "\<And>x. Writable W (enc1 x) \<longleftrightarrow> (\<lambda>_. True) x"
      "\<And>x. (\<lambda>_. True) x \<Longrightarrow> DomainInfo_FromWire W (enc1 x) DomainInfo_zero = Inr x"
    by (rule DomainInfo.encoder [OF laws]) (rule that)
  obtain enc2 where e2: "DomainReplicationConfiguration_ToWire W = (\<lambda>x. Inr (enc2 x))"
      "\<And>x. wire_api.Type W (enc2 x) = TStruct"
      "\<And>x. Writable W (enc2 x) \<longleftrightarrow> DomainReplicationConfiguration_complete x"
      "\<And>x. DomainReplicationConfiguration_complete x \<Longrightarrow> DomainReplicationConfiguration_FromWire W
          (enc2 x) DomainReplicationConfiguration_zero = Inr x"
    by (rule DomainReplicationConfiguration.encoder [OF laws]) (rule that)
  show "\<exists>w. UpdateDomainResponse_ToWire W x = Inr w \<and> wire_api.Type W w = TStruct \<and>
      (Writable W w \<longleftrightarrow> UpdateDomainResponse_complete x) \<and> (UpdateDomainResponse_complete x \<longrightarrow>
          UpdateDomainResponse_FromWire W w UpdateDomainResponse_zero = Inr x)"
    by (cases x) (simp cong: option.case_cong add: codec_rules UpdateDomainResponse_merge
        UpdateDomainResponse_ToWire_def UpdateDomainResponse_FromWire_def
        UpdateDomainResponse_zero_def UpdateDomainResponse_complete_def if_set_def
        DomainConfiguration_Read_def DomainInfo_Read_def DomainReplicationConfiguration_Read_def
        laws e0 e1 e2)
qed

definition UpdateDomainResponse_Equals ::
  "UpdateDomainResponse option \<Rightarrow> UpdateDomainResponse option \<Rightarrow> bool" where
  "UpdateDomainResponse_Equals v rhs =
     (case v of None \<Rightarrow> rhs = None
      | Some v \<Rightarrow> (case rhs of None \<Rightarrow> False
        | Some rhs \<Rightarrow>
          if \<not> both_set_and (\<lambda>x y. DomainInfo_Equals (Some x) (Some y))
              (UpdateDomainResponse.DomainInfo v) (UpdateDomainResponse.DomainInfo rhs) then False
              else
          if \<not> both_set_and (\<lambda>x y. DomainConfiguration_Equals (Some x) (Some y))
              (UpdateDomainResponse.Configuration v) (UpdateDomainResponse.Configuration rhs) then
              False else
          if \<not> both_set_and (\<lambda>x y. DomainReplicationConfiguration_Equals (Some x) (Some y))
              (UpdateDomainResponse.ReplicationConfiguration v)
              (UpdateDomainResponse.ReplicationConfiguration rhs) then False else
          if \<not> I64_EqualsPtr (UpdateDomainResponse.FailoverVersion v)
              (UpdateDomainResponse.FailoverVersion rhs) then False else
          if \<not> Bool_EqualsPtr (UpdateDomainResponse.IsGlobalDomain v)
              (UpdateDomainResponse.IsGlobalDomain rhs) then False else
          True))"

lemma UpdateDomainResponse_Equals_iff [simp]: "UpdateDomainResponse_Equals x y \<longleftrightarrow> x = y"
  by (cases x; cases y) (simp_all add: UpdateDomainResponse_Equals_def if_not_False, fastforce
      intro: UpdateDomainResponse.equality)

end
