(* ===== verification/GoInfos.thy ===== *)
theory GoInfos
  imports GoHistory GoDomains
begin

text \<open>
  The structs that describe executions, task lists and pollers (proxy/gen/shared/shared.go) inside
  the responses of GoRequests, with their codecs and comparisons.
\<close>

record HistoryBranchRange =
  BranchID :: "string option"
  BeginNodeID :: "64 word option"
  EndNodeID :: "64 word option"

definition HistoryBranchRange_zero :: HistoryBranchRange where
  "HistoryBranchRange_zero = \<lparr>HistoryBranchRange.BranchID = None, HistoryBranchRange.BeginNodeID =
      None, HistoryBranchRange.EndNodeID = None\<rparr>"

definition HistoryBranchRange_ToWire ::
  "'v wire_api \<Rightarrow> HistoryBranchRange \<Rightarrow> go_error + 'v" where
  "HistoryBranchRange_ToWire W v =
     and_then (put_opt 10 (\<lambda>x. Inr (NewValueString W x)) (HistoryBranchRange.BranchID v) [])
       (\<lambda>fields.
     and_then (put_opt 20 (\<lambda>x. Inr (NewValueI64 W x)) (HistoryBranchRange.BeginNodeID v) fields)
       (\<lambda>fields.
     and_then (put_opt 30 (\<lambda>x. Inr (NewValueI64 W x)) (HistoryBranchRange.EndNodeID v) fields)
       (\<lambda>fields.
     Inr (NewValueStruct W fields))))"

definition HistoryBranchRange_FromWire ::
  "'v wire_api \<Rightarrow> 'v \<Rightarrow> HistoryBranchRange \<Rightarrow> go_error + HistoryBranchRange" where
  "HistoryBranchRange_FromWire W w v =
     foldM (\<lambda>v (fid, fval).
       if fid = 10 then
         if wire_api.Type W fval = TBinary
         then Inr (v\<lparr>HistoryBranchRange.BranchID := Some (GetString W fval)\<rparr>)
         else Inr v
       else if fid = 20 then
         if wire_api.Type W fval = TI64
         then Inr (v\<lparr>HistoryBranchRange.BeginNodeID := Some (GetI64 W fval)\<rparr>)
         else Inr v
       else if fid = 30 then
         if wire_api.Type W fval = TI64
         then Inr (v\<lparr>HistoryBranchRange.EndNodeID := Some (GetI64 W fval)\<rparr>)
         else Inr v
       else Inr v) (GetStruct W w) v"

definition HistoryBranchRange_Read :: "'v wire_api \<Rightarrow> 'v \<Rightarrow> go_error + HistoryBranchRange" where
  "HistoryBranchRange_Read W w = HistoryBranchRange_FromWire W w HistoryBranchRange_zero"

lemma HistoryBranchRange_merge:
  "(case x of None \<Rightarrow> Inr \<lparr>HistoryBranchRange.BranchID = a0, HistoryBranchRange.BeginNodeID = a1,
      HistoryBranchRange.EndNodeID = a2\<rparr> | Some y \<Rightarrow> Inr \<lparr>HistoryBranchRange.BranchID = b0 y,
      HistoryBranchRange.BeginNodeID = b1 y, HistoryBranchRange.EndNodeID = b2 y\<rparr>) =
   Inr \<lparr>HistoryBranchRange.BranchID = (case x of None \<Rightarrow> a0 | Some y \<Rightarrow> b0 y),
       HistoryBranchRange.BeginNodeID = (case x of None \<Rightarrow> a1 | Some y \<Rightarrow> b1 y),
       HistoryBranchRange.EndNodeID = (case x of None \<Rightarrow> a2 | Some y \<Rightarrow> b2 y)\<rparr>"
  by (cases x) simp_all

interpretation HistoryBranchRange: thrift_message W
  "HistoryBranchRange_ToWire W" "HistoryBranchRange_FromWire W" HistoryBranchRange_zero "\<lambda>_. True"
      for W
proof (rule thrift_messageI)
  fix x :: HistoryBranchRange
  assume laws: "wire_laws W"
  show "\<exists>w. HistoryBranchRange_ToWire W x = Inr w \<and> wire_api.Type W w = TStruct \<and>
      (Writable W w \<longleftrightarrow> (\<lambda>_. True) x) \<and> ((\<lambda>_. True) x \<longrightarrow> HistoryBranchRange_FromWire W w
          HistoryBranchRange_zero = Inr x)"
    by (cases x) (simp cong: option.case_cong add: codec_rules HistoryBranchRange_merge
        HistoryBranchRange_ToWire_def HistoryBranchRange_FromWire_def HistoryBranchRange_zero_def
        laws)
qed

definition HistoryBranchRange_Equals ::
  "HistoryBranchRange option \<Rightarrow> HistoryBranchRange option \<Rightarrow> bool" where
  "HistoryBranchRange_Equals v rhs =
     (case v of None \<Rightarrow> rhs = None
      | Some v \<Rightarrow> (case rhs of None \<Rightarrow> False
        | Some rhs \<Rightarrow>
          if \<not> String_EqualsPtr (HistoryBranchRange.BranchID v) (HistoryBranchRange.BranchID rhs)
              then False else
          if \<not> I64_EqualsPtr (HistoryBranchRange.BeginNodeID v) (HistoryBranchRange.BeginNodeID rhs)
              then False else
          if \<not> I64_EqualsPtr (HistoryBranchRange.EndNodeID v) (HistoryBranchRange.EndNodeID rhs)
              then False else
          True))"

lemma HistoryBranchRange_Equals_iff [simp]: "HistoryBranchRange_Equals x y \<longleftrightarrow> x = y"
  by (cases x; cases y) (auto simp: HistoryBranchRange_Equals_def)

definition List_HistoryBranchRange_ValueList :: "'v wire_api \<Rightarrow> HistoryBranchRange option list \<Rightarrow> 'v
    ValueList" where
  "List_HistoryBranchRange_ValueList W v =
     \<lparr>ValueList.ForEach = ptr_values (HistoryBranchRange_ToWire W) v, Size = length v, ValueType =
         TStruct\<rparr>"

definition List_HistoryBranchRange_Read :: "'v wire_api \<Rightarrow> 'v ValueList \<Rightarrow> go_error +
    HistoryBranchRange option list option" where
  "List_HistoryBranchRange_Read W l =
     (if ValueList.ValueType l \<noteq> TStruct then Inr None
      else and_then (for_each (ValueList.ForEach l)
        (\<lambda>out x. and_then (HistoryBranchRange_Read W x) (\<lambda>i. Inr (out @ [Some i]))) []) (\<lambda>out. Inr
            (Some out)))"

definition List_HistoryBranchRange_Equals :: "HistoryBranchRange option list \<Rightarrow> HistoryBranchRange
    option list \<Rightarrow> bool" where
  "List_HistoryBranchRange_Equals lhs rhs = list_equals HistoryBranchRange_Equals lhs rhs"

lemma List_HistoryBranchRange_codec:
  assumes "wire_laws W"
  shows "list_all (delivered (Writable W)) (ValueList.ForEach (List_HistoryBranchRange_ValueList W
      xs)) \<longleftrightarrow> list_all (present (\<lambda>_. True)) xs"
    and "list_all (present (\<lambda>_. True)) xs \<Longrightarrow> List_HistoryBranchRange_Read W
        (List_HistoryBranchRange_ValueList W xs) = Inr (Some xs)"
  using HistoryBranchRange.ptr_values_writable [OF assms] HistoryBranchRange.ptr_values_read [OF
      assms]
  by (simp_all add: List_HistoryBranchRange_ValueList_def List_HistoryBranchRange_Read_def
      HistoryBranchRange_Read_def)

lemma List_HistoryBranchRange_Equals_iff [simp]: "List_HistoryBranchRange_Equals xs ys \<longleftrightarrow> xs = ys"
  unfolding List_HistoryBranchRange_Equals_def by (rule list_equals_iff [where P = "\<lambda>_. True"])
      (simp_all add: list.pred_True)

record PendingActivityInfo =
  ActivityID :: "string option"
  ActivityType :: "ActivityType option"
  State :: "PendingActivityState option"
  HeartbeatDetails :: "bytes option"
  LastHeartbeatTimestamp :: "64 word option"
  LastStartedTimestamp :: "64 word option"
  Attempt :: "32 word option"
  MaximumAttempts :: "32 word option"
  ScheduledTimestamp :: "64 word option"
  ExpirationTimestamp :: "64 word option"
  LastFailureReason :: "string option"
  LastWorkerIdentity :: "string option"
  LastFailureDetails :: "bytes option"

definition PendingActivityInfo_zero :: PendingActivityInfo where
  "PendingActivityInfo_zero = \<lparr>PendingActivityInfo.ActivityID = None,
      PendingActivityInfo.ActivityType = None, PendingActivityInfo.State = None,
      PendingActivityInfo.HeartbeatDetails = None, PendingActivityInfo.LastHeartbeatTimestamp =
      None, PendingActivityInfo.LastStartedTimestamp = None, PendingActivityInfo.Attempt = None,
      PendingActivityInfo.MaximumAttempts = None, PendingActivityInfo.ScheduledTimestamp = None,
      PendingActivityInfo.ExpirationTimestamp = None, PendingActivityInfo.LastFailureReason = None,
      PendingActivityInfo.LastWorkerIdentity = None, PendingActivityInfo.LastFailureDetails = None\<rparr>"

definition PendingActivityInfo_ToWire ::
  "'v wire_api \<Rightarrow> PendingActivityInfo \<Rightarrow> go_error + 'v" where
  "PendingActivityInfo_ToWire W v =
     and_then (put_opt 10 (\<lambda>x. Inr (NewValueString W x)) (PendingActivityInfo.ActivityID v) [])
       (\<lambda>fields.
     and_then (put_opt 20 (ActivityType_ToWire W) (PendingActivityInfo.ActivityType v) fields)
       (\<lambda>fields.
     and_then (put_opt 30 (PendingActivityState_ToWire W) (PendingActivityInfo.State v) fields)
       (\<lambda>fields.
     and_then (put_opt 40 (\<lambda>x. Inr (NewValueBinary W x)) (PendingActivityInfo.HeartbeatDetails v)
         fields)
       (\<lambda>fields.
     and_then (put_opt 50 (\<lambda>x. Inr (NewValueI64 W x)) (PendingActivityInfo.LastHeartbeatTimestamp v)
         fields)
       (\<lambda>fields.
     and_then (put_opt 60 (\<lambda>x. Inr (NewValueI64 W x)) (PendingActivityInfo.LastStartedTimestamp v)
         fields)
       (\<lambda>fields.
     and_then (put_opt 70 (\<lambda>x. Inr (NewValueI32 W x)) (PendingActivityInfo.Attempt v) fields)
       (\<lambda>fields.
     and_then (put_opt 80 (\<lambda>x. Inr (NewValueI32 W x)) (PendingActivityInfo.MaximumAttempts v)
         fields)
       (\<lambda>fields.
     and_then (put_opt 90 (\<lambda>x. Inr (NewValueI64 W x)) (PendingActivityInfo.ScheduledTimestamp v)
         fields)
       (\<lambda>fields.
     and_then (put_opt 100 (\<lambda>x. Inr (NewValueI64 W x)) (PendingActivityInfo.ExpirationTimestamp v)
         fields)
       (\<lambda>fields.
     and_then (put_opt 110 (\<lambda>x. Inr (NewValueString W x)) (PendingActivityInfo.LastFailureReason v)
         fields)
       (\<lambda>fields.
     and_then (put_opt 120 (\<lambda>x. Inr (NewValueString W x)) (PendingActivityInfo.LastWorkerIdentity v)
         fields)
       (\<lambda>fields.
     and_then (put_opt 130 (\<lambda>x. Inr (NewValueBinary W x)) (PendingActivityInfo.LastFailureDetails v)
         fields)
       (\<lambda>fields.
     Inr (NewValueStruct W fields))))))))))))))"

definition PendingActivityInfo_FromWire ::
  "'v wire_api \<Rightarrow> 'v \<Rightarrow> PendingActivityInfo \<Rightarrow> go_error + PendingActivityInfo" where
  "PendingActivityInfo_FromWire W w v =
     foldM (\<lambda>v (fid, fval).
       if fid = 10 then
         if wire_api.Type W fval = TBinary
         then Inr (v\<lparr>PendingActivityInfo.ActivityID := Some (GetString W fval)\<rparr>)
         else Inr v
       else if fid = 20 then
         if wire_api.Type W fval = TStruct
         then and_then (ActivityType_Read W fval) (\<lambda>x. Inr (v\<lparr>PendingActivityInfo.ActivityType :=
             Some x\<rparr>))
         else Inr v
       else if fid = 30 then
         if wire_api.Type W fval = TI32
         then and_then (PendingActivityState_Read W fval) (\<lambda>x. Inr (v\<lparr>PendingActivityInfo.State :=
             Some x\<rparr>))
         else Inr v
       else if fid = 40 then
         if wire_api.Type W fval = TBinary
         then Inr (v\<lparr>PendingActivityInfo.HeartbeatDetails := Some (GetBinary W fval)\<rparr>)
         else Inr v
       else if fid = 50 then
         if wire_api.Type W fval = TI64
         then Inr (v\<lparr>PendingActivityInfo.LastHeartbeatTimestamp := Some (GetI64 W fval)\<rparr>)
         else Inr v
       else if fid = 60 then
         if wire_api.Type W fval = TI64
         then Inr (v\<lparr>PendingActivityInfo.LastStartedTimestamp := Some (GetI64 W fval)\<rparr>)
         else Inr v
       else if fid = 70 then
         if wire_api.Type W fval = TI32
         then Inr (v\<lparr>PendingActivityInfo.Attempt := Some (GetI32 W fval)\<rparr>)
         else Inr v
       else if fid = 80 then
         if wire_api.Type W fval = TI32
         then Inr (v\<lparr>PendingActivityInfo.MaximumAttempts := Some (GetI32 W fval)\<rparr>)
         else Inr v
       else if fid = 90 then
         if wire_api.Type W fval = TI64
         then Inr (v\<lparr>PendingActivityInfo.ScheduledTimestamp := Some (GetI64 W fval)\<rparr>)
         else Inr v
       else if fid = 100 then
         if wire_api.Type W fval = TI64
         then Inr (v\<lparr>PendingActivityInfo.ExpirationTimestamp := Some (GetI64 W fval)\<rparr>)
         else Inr v
       else if fid = 110 then
         if wire_api.Type W fval = TBinary
         then Inr (v\<lparr>PendingActivityInfo.LastFailureReason := Some (GetString W fval)\<rparr>)
         else Inr v
       else if fid = 120 then
         if wire_api.Type W fval = TBinary
         then Inr (v\<lparr>PendingActivityInfo.LastWorkerIdentity := Some (GetString W fval)\<rparr>)
         else Inr v
       else if fid = 130 then
         if wire_api.Type W fval = TBinary
         then Inr (v\<lparr>PendingActivityInfo.LastFailureDetails := Some (GetBinary W fval)\<rparr>)
         else Inr v
       else Inr v) (GetStruct W w) v"

definition PendingActivityInfo_Read :: "'v wire_api \<Rightarrow> 'v \<Rightarrow> go_error + PendingActivityInfo" where
  "PendingActivityInfo_Read W w = PendingActivityInfo_FromWire W w PendingActivityInfo_zero"

lemma PendingActivityInfo_merge:
  "(case x of None \<Rightarrow> Inr \<lparr>PendingActivityInfo.ActivityID = a0, PendingActivityInfo.ActivityType =
      a1, PendingActivityInfo.State = a2, PendingActivityInfo.HeartbeatDetails = a3,
      PendingActivityInfo.LastHeartbeatTimestamp = a4, PendingActivityInfo.LastStartedTimestamp =
      a5, PendingActivityInfo.Attempt = a6, PendingActivityInfo.MaximumAttempts = a7,
      PendingActivityInfo.ScheduledTimestamp = a8, PendingActivityInfo.ExpirationTimestamp = a9,
      PendingActivityInfo.LastFailureReason = a10, PendingActivityInfo.LastWorkerIdentity = a11,
      PendingActivityInfo.LastFailureDetails = a12\<rparr> | Some y \<Rightarrow> Inr \<lparr>PendingActivityInfo.ActivityID =
      b0 y, PendingActivityInfo.ActivityType = b1 y, PendingActivityInfo.State = b2 y,
      PendingActivityInfo.HeartbeatDetails = b3 y, PendingActivityInfo.LastHeartbeatTimestamp = b4
      y, PendingActivityInfo.LastStartedTimestamp = b5 y, PendingActivityInfo.Attempt = b6 y,
      PendingActivityInfo.MaximumAttempts = b7 y, PendingActivityInfo.ScheduledTimestamp = b8 y,
      PendingActivityInfo.ExpirationTimestamp = b9 y, PendingActivityInfo.LastFailureReason = b10 y,
      PendingActivityInfo.LastWorkerIdentity = b11 y, PendingActivityInfo.LastFailureDetails = b12
      y\<rparr>) =
   Inr \<lparr>PendingActivityInfo.ActivityID = (case x of None \<Rightarrow> a0 | Some y \<Rightarrow> b0 y),
       PendingActivityInfo.ActivityType = (case x of None \<Rightarrow> a1 | Some y \<Rightarrow> b1 y),
       PendingActivityInfo.State = (case x of None \<Rightarrow> a2 | Some y \<Rightarrow> b2 y),
       PendingActivityInfo.HeartbeatDetails = (case x of None \<Rightarrow> a3 | Some y \<Rightarrow> b3 y),
       PendingActivityInfo.LastHeartbeatTimestamp = (case x of None \<Rightarrow> a4 | Some y \<Rightarrow> b4 y),
       PendingActivityInfo.LastStartedTimestamp = (case x of None \<Rightarrow> a5 | Some y \<Rightarrow> b5 y),
       PendingActivityInfo.Attempt = (case x of None \<Rightarrow> a6 | Some y \<Rightarrow> b6 y),
       PendingActivityInfo.MaximumAttempts = (case x of None \<Rightarrow> a7 | Some y \<Rightarrow> b7 y),
       PendingActivityInfo.ScheduledTimestamp = (case x of None \<Rightarrow> a8 | Some y \<Rightarrow> b8 y),
       PendingActivityInfo.ExpirationTimestamp = (case x of None \<Rightarrow> a9 | Some y \<Rightarrow> b9 y),
       PendingActivityInfo.LastFailureReason = (case x of None \<Rightarrow> a10 | Some y \<Rightarrow> b10 y),
       PendingActivityInfo.LastWorkerIdentity = (case x of None \<Rightarrow> a11 | Some y \<Rightarrow> b11 y),
       PendingActivityInfo.LastFailureDetails = (case x of None \<Rightarrow> a12 | Some y \<Rightarrow> b12 y)\<rparr>"
  by (cases x) simp_all

interpretation PendingActivityInfo: thrift_message W
  "PendingActivityInfo_ToWire W" "PendingActivityInfo_FromWire W" PendingActivityInfo_zero "\<lambda>_.
      True" for W
proof (rule thrift_messageI)
  fix x :: PendingActivityInfo
  assume laws: "wire_laws W"
  obtain enc0 where e0: "ActivityType_ToWire W = (\<lambda>x. Inr (enc0 x))"
      "\<And>x. wire_api.Type W (enc0 x) = TStruct"
      "\<And>x. Writable W (enc0 x) \<longleftrightarrow> (\<lambda>_. True) x"
      "\<And>x. (\<lambda>_. True) x \<Longrightarrow> ActivityType_FromWire W (enc0 x) ActivityType_zero = Inr x"
    by (rule ActivityType.encoder [OF laws]) (rule that)
  show "\<exists>w. PendingActivityInfo_ToWire W x = Inr w \<and> wire_api.Type W w = TStruct \<and>
      (Writable W w \<longleftrightarrow> (\<lambda>_. True) x) \<and> ((\<lambda>_. True) x \<longrightarrow> PendingActivityInfo_FromWire W w
          PendingActivityInfo_zero = Inr x)"
    by (cases x) (simp cong: option.case_cong add: codec_rules PendingActivityInfo_merge
        PendingActivityInfo_ToWire_def PendingActivityInfo_FromWire_def PendingActivityInfo_zero_def
        PendingActivityState_enc PendingActivityState_Read_def PendingActivityState_FromWire_def
        ActivityType_Read_def laws e0)
qed

definition PendingActivityInfo_Equals ::
  "PendingActivityInfo option \<Rightarrow> PendingActivityInfo option \<Rightarrow> bool" where
  "PendingActivityInfo_Equals v rhs =
     (case v of None \<Rightarrow> rhs = None
      | Some v \<Rightarrow> (case rhs of None \<Rightarrow> False
        | Some rhs \<Rightarrow>
          if \<not> String_EqualsPtr (PendingActivityInfo.ActivityID v) (PendingActivityInfo.ActivityID
              rhs) then False else
          if \<not> both_set_and (\<lambda>x y. ActivityType_Equals (Some x) (Some y))
              (PendingActivityInfo.ActivityType v) (PendingActivityInfo.ActivityType rhs) then False
              else
          if \<not> PendingActivityState_EqualsPtr (PendingActivityInfo.State v)
              (PendingActivityInfo.State rhs) then False else
          if \<not> both_set_and (=) (PendingActivityInfo.HeartbeatDetails v)
              (PendingActivityInfo.HeartbeatDetails rhs) then False else
          if \<not> I64_EqualsPtr (PendingActivityInfo.LastHeartbeatTimestamp v)
              (PendingActivityInfo.LastHeartbeatTimestamp rhs) then False else
          if \<not> I64_EqualsPtr (PendingActivityInfo.LastStartedTimestamp v)
              (PendingActivityInfo.LastStartedTimestamp rhs) then False else
          if \<not> I32_EqualsPtr (PendingActivityInfo.Attempt v) (PendingActivityInfo.Attempt rhs) then
              False else
          if \<not> I32_EqualsPtr (PendingActivityInfo.MaximumAttempts v)
              (PendingActivityInfo.MaximumAttempts rhs) then False else
          if \<not> I64_EqualsPtr (PendingActivityInfo.ScheduledTimestamp v)
              (PendingActivityInfo.ScheduledTimestamp rhs) then False else
          if \<not> I64_EqualsPtr (PendingActivityInfo.ExpirationTimestamp v)
              (PendingActivityInfo.ExpirationTimestamp rhs) then False else
          if \<not> String_EqualsPtr (PendingActivityInfo.LastFailureReason v)
              (PendingActivityInfo.LastFailureReason rhs) then False else
          if \<not> String_EqualsPtr (PendingActivityInfo.LastWorkerIdentity v)
              (PendingActivityInfo.LastWorkerIdentity rhs) then False else
          if \<not> both_set_and (=) (PendingActivityInfo.LastFailureDetails v)
              (PendingActivityInfo.LastFailureDetails rhs) then False else
          True))"

lemma PendingActivityInfo_Equals_iff [simp]: "PendingActivityInfo_Equals x y \<longleftrightarrow> x = y"
  by (cases x; cases y) (simp_all add: PendingActivityInfo_Equals_def if_not_False, fastforce intro:
      PendingActivityInfo.equality)

definition List_PendingActivityInfo_ValueList :: "'v wire_api \<Rightarrow> PendingActivityInfo option list \<Rightarrow> 'v
    ValueList" where
  "List_PendingActivityInfo_ValueList W v =
     \<lparr>ValueList.ForEach = ptr_values (PendingActivityInfo_ToWire W) v, Size = length v, ValueType =
         TStruct\<rparr>"

definition List_PendingActivityInfo_Read :: "'v wire_api \<Rightarrow> 'v ValueList \<Rightarrow> go_error +
    PendingActivityInfo option list option" where
  "List_PendingActivityInfo_Read W l =
     (if ValueList.ValueType l \<noteq> TStruct then Inr None
      else and_then (for_each (ValueList.ForEach l)
        (\<lambda>out x. and_then (PendingActivityInfo_Read W x) (\<lambda>i. Inr (out @ [Some i]))) []) (\<lambda>out. Inr
            (Some out)))"

definition List_PendingActivityInfo_Equals :: "PendingActivityInfo option list \<Rightarrow> PendingActivityInfo
    option list \<Rightarrow> bool" where
  "List_PendingActivityInfo_Equals lhs rhs = list_equals PendingActivityInfo_Equals lhs rhs"

lemma List_PendingActivityInfo_codec:
  assumes "wire_laws W"
  shows "list_all (delivered (Writable W)) (ValueList.ForEach (List_PendingActivityInfo_ValueList W
      xs)) \<longleftrightarrow> list_all (present (\<lambda>_. True)) xs"
    and "list_all (present (\<lambda>_. True)) xs \<Longrightarrow> List_PendingActivityInfo_Read W
        (List_PendingActivityInfo_ValueList W xs) = Inr (Some xs)"
  using PendingActivityInfo.ptr_values_writable [OF assms] PendingActivityInfo.ptr_values_read [OF
      assms]
  by (simp_all add: List_PendingActivityInfo_ValueList_def List_PendingActivityInfo_Read_def
      PendingActivityInfo_Read_def)

lemma List_PendingActivityInfo_Equals_iff [simp]: "List_PendingActivityInfo_Equals xs ys \<longleftrightarrow> xs = ys"
  unfolding List_PendingActivityInfo_Equals_def by (rule list_equals_iff [where P = "\<lambda>_. True"])
      (simp_all add: list.pred_True)

record PendingChildExecutionInfo =
  WorkflowID :: "string option"
  RunID :: "string option"
  WorkflowTypName :: "string option"
  InitiatedID :: "64 word option"
  ParentClosePolicy :: "ParentClosePolicy option"

definition PendingChildExecutionInfo_zero :: PendingChildExecutionInfo where
  "PendingChildExecutionInfo_zero = \<lparr>PendingChildExecutionInfo.WorkflowID = None,
      PendingChildExecutionInfo.RunID = None, PendingChildExecutionInfo.WorkflowTypName = None,
      PendingChildExecutionInfo.InitiatedID = None, PendingChildExecutionInfo.ParentClosePolicy =
      None\<rparr>"

definition PendingChildExecutionInfo_ToWire ::
  "'v wire_api \<Rightarrow> PendingChildExecutionInfo \<Rightarrow> go_error + 'v" where
  "PendingChildExecutionInfo_ToWire W v =
     and_then (put_opt 10 (\<lambda>x. Inr (NewValueString W x)) (PendingChildExecutionInfo.WorkflowID v)
         [])
       (\<lambda>fields.
     and_then (put_opt 20 (\<lambda>x. Inr (NewValueString W x)) (PendingChildExecutionInfo.RunID v) fields)
       (\<lambda>fields.
     and_then (put_opt 30 (\<lambda>x. Inr (NewValueString W x)) (PendingChildExecutionInfo.WorkflowTypName
         v) fields)
       (\<lambda>fields.
     and_then (put_opt 40 (\<lambda>x. Inr (NewValueI64 W x)) (PendingChildExecutionInfo.InitiatedID v)
         fields)
       (\<lambda>fields.
     and_then (put_opt 50 (ParentClosePolicy_ToWire W) (PendingChildExecutionInfo.ParentClosePolicy
         v) fields)
       (\<lambda>fields.
     Inr (NewValueStruct W fields))))))"

definition PendingChildExecutionInfo_FromWire ::
  "'v wire_api \<Rightarrow> 'v \<Rightarrow> PendingChildExecutionInfo \<Rightarrow> go_error + PendingChildExecutionInfo" where
  "PendingChildExecutionInfo_FromWire W w v =
     foldM (\<lambda>v (fid, fval).
       if fid = 10 then
         if wire_api.Type W fval = TBinary
         then Inr (v\<lparr>PendingChildExecutionInfo.WorkflowID := Some (GetString W fval)\<rparr>)
         else Inr v
       else if fid = 20 then
         if wire_api.Type W fval = TBinary
         then Inr (v\<lparr>PendingChildExecutionInfo.RunID := Some (GetString W fval)\<rparr>)
         else Inr v
       else if fid = 30 then
         if wire_api.Type W fval = TBinary
         then Inr (v\<lparr>PendingChildExecutionInfo.WorkflowTypName := Some (GetString W fval)\<rparr>)
         else Inr v
       else if fid = 40 then
         if wire_api.Type W fval = TI64
         then Inr (v\<lparr>PendingChildExecutionInfo.InitiatedID := Some (GetI64 W fval)\<rparr>)
         else Inr v
       else if fid = 50 then
         if wire_api.Type W fval = TI32
         then and_then (ParentClosePolicy_Read W fval) (\<lambda>x. Inr
             (v\<lparr>PendingChildExecutionInfo.ParentClosePolicy := Some x\<rparr>))
         else Inr v
       else Inr v) (GetStruct W w) v"

definition PendingChildExecutionInfo_Read :: "'v wire_api \<Rightarrow> 'v \<Rightarrow> go_error +
    PendingChildExecutionInfo" where
  "PendingChildExecutionInfo_Read W w = PendingChildExecutionInfo_FromWire W w
      PendingChildExecutionInfo_zero"

lemma PendingChildExecutionInfo_merge:
  "(case x of None \<Rightarrow> Inr \<lparr>PendingChildExecutionInfo.WorkflowID = a0, PendingChildExecutionInfo.RunID
      = a1, PendingChildExecutionInfo.WorkflowTypName = a2, PendingChildExecutionInfo.InitiatedID =
      a3, PendingChildExecutionInfo.ParentClosePolicy = a4\<rparr> | Some y \<Rightarrow> Inr
      \<lparr>PendingChildExecutionInfo.WorkflowID = b0 y, PendingChildExecutionInfo.RunID = b1 y,
      PendingChildExecutionInfo.WorkflowTypName = b2 y, PendingChildExecutionInfo.InitiatedID = b3
      y, PendingChildExecutionInfo.ParentClosePolicy = b4 y\<rparr>) =
   Inr \<lparr>PendingChildExecutionInfo.WorkflowID = (case x of None \<Rightarrow> a0 | Some y \<Rightarrow> b0 y),
       PendingChildExecutionInfo.RunID = (case x of None \<Rightarrow> a1 | Some y \<Rightarrow> b1 y),
       PendingChildExecutionInfo.WorkflowTypName = (case x of None \<Rightarrow> a2 | Some y \<Rightarrow> b2 y),
       PendingChildExecutionInfo.InitiatedID = (case x of None \<Rightarrow> a3 | Some y \<Rightarrow> b3 y),
       PendingChildExecutionInfo.ParentClosePolicy = (case x of None \<Rightarrow> a4 | Some y \<Rightarrow> b4 y)\<rparr>"
  by (cases x) simp_all

interpretation PendingChildExecutionInfo: thrift_message W
  "PendingChildExecutionInfo_ToWire W" "PendingChildExecutionInfo_FromWire W"
      PendingChildExecutionInfo_zero "\<lambda>_. True" for W
proof (rule thrift_messageI)
  fix x :: PendingChildExecutionInfo
  assume laws: "wire_laws W"
  show "\<exists>w. PendingChildExecutionInfo_ToWire W x = Inr w \<and> wire_api.Type W w = TStruct \<and>
      (Writable W w \<longleftrightarrow> (\<lambda>_. True) x) \<and> ((\<lambda>_. True) x \<longrightarrow> PendingChildExecutionInfo_FromWire W w
          PendingChildExecutionInfo_zero = Inr x)"
    by (cases x) (simp cong: option.case_cong add: codec_rules PendingChildExecutionInfo_merge
        PendingChildExecutionInfo_ToWire_def PendingChildExecutionInfo_FromWire_def
        PendingChildExecutionInfo_zero_def ParentClosePolicy_enc ParentClosePolicy_Read_def
        ParentClosePolicy_FromWire_def laws)
qed

definition PendingChildExecutionInfo_Equals ::
  "PendingChildExecutionInfo option \<Rightarrow> PendingChildExecutionInfo option \<Rightarrow> bool" where
  "PendingChildExecutionInfo_Equals v rhs =
     (case v of None \<Rightarrow> rhs = None
      | Some v \<Rightarrow> (case rhs of None \<Rightarrow> False
        | Some rhs \<Rightarrow>
          if \<not> String_EqualsPtr (PendingChildExecutionInfo.WorkflowID v)
              (PendingChildExecutionInfo.WorkflowID rhs) then False else
          if \<not> String_EqualsPtr (PendingChildExecutionInfo.RunID v) (PendingChildExecutionInfo.RunID
              rhs) then False else
          if \<not> String_EqualsPtr (PendingChildExecutionInfo.WorkflowTypName v)
              (PendingChildExecutionInfo.WorkflowTypName rhs) then False else
          if \<not> I64_EqualsPtr (PendingChildExecutionInfo.InitiatedID v)
              (PendingChildExecutionInfo.InitiatedID rhs) then False else
          if \<not> ParentClosePolicy_EqualsPtr (PendingChildExecutionInfo.ParentClosePolicy v)
              (PendingChildExecutionInfo.ParentClosePolicy rhs) then False else
          True))"

lemma PendingChildExecutionInfo_Equals_iff [simp]: "PendingChildExecutionInfo_Equals x y \<longleftrightarrow> x = y"
  by (cases x; cases y) (simp_all add: PendingChildExecutionInfo_Equals_def if_not_False, fastforce
      intro: PendingChildExecutionInfo.equality)

definition List_PendingChildExecutionInfo_ValueList :: "'v wire_api \<Rightarrow> PendingChildExecutionInfo
    option list \<Rightarrow> 'v ValueList" where
  "List_PendingChildExecutionInfo_ValueList W v =
     \<lparr>ValueList.ForEach = ptr_values (PendingChildExecutionInfo_ToWire W) v, Size = length v,
         ValueType = TStruct\<rparr>"

definition List_PendingChildExecutionInfo_Read :: "'v wire_api \<Rightarrow> 'v ValueList \<Rightarrow> go_error +
    PendingChildExecutionInfo option list option" where
  "List_PendingChildExecutionInfo_Read W l =
     (if ValueList.ValueType l \<noteq> TStruct then Inr None
      else and_then (for_each (ValueList.ForEach l)
        (\<lambda>out x. and_then (PendingChildExecutionInfo_Read W x) (\<lambda>i. Inr (out @ [Some i]))) [])
            (\<lambda>out. Inr (Some out)))"

definition List_PendingChildExecutionInfo_Equals :: "PendingChildExecutionInfo option list \<Rightarrow>
    PendingChildExecutionInfo option list \<Rightarrow> bool" where
  "List_PendingChildExecutionInfo_Equals lhs rhs = list_equals PendingChildExecutionInfo_Equals lhs
      rhs"

lemma List_PendingChildExecutionInfo_codec:
  assumes "wire_laws W"
  shows "list_all (delivered (Writable W)) (ValueList.ForEach
      (List_PendingChildExecutionInfo_ValueList W xs)) \<longleftrightarrow> list_all (present (\<lambda>_. True)) xs"
    and "list_all (present (\<lambda>_. True)) xs \<Longrightarrow> List_PendingChildExecutionInfo_Read W
        (List_PendingChildExecutionInfo_ValueList W xs) = Inr (Some xs)"
  using PendingChildExecutionInfo.ptr_values_writable [OF assms]
      PendingChildExecutionInfo.ptr_values_read [OF assms]
  by (simp_all add: List_PendingChildExecutionInfo_ValueList_def
      List_PendingChildExecutionInfo_Read_def PendingChildExecutionInfo_Read_def)

lemma List_PendingChildExecutionInfo_Equals_iff [simp]: "List_PendingChildExecutionInfo_Equals xs ys
    \<longleftrightarrow> xs = ys"
  unfolding List_PendingChildExecutionInfo_Equals_def by (rule list_equals_iff [where P = "\<lambda>_.
      True"]) (simp_all add: list.pred_True)

record PollerInfo =
  LastAccessTime :: "64 word option"
  Identity :: "string option"
  RatePerSecond :: "float64 option"

definition PollerInfo_zero :: PollerInfo where
  "PollerInfo_zero = \<lparr>PollerInfo.LastAccessTime = None, PollerInfo.Identity = None,
      PollerInfo.RatePerSecond = None\<rparr>"

definition PollerInfo_ToWire ::
  "'v wire_api \<Rightarrow> PollerInfo \<Rightarrow> go_error + 'v" where
  "PollerInfo_ToWire W v =
     and_then (put_opt 10 (\<lambda>x. Inr (NewValueI64 W x)) (PollerInfo.LastAccessTime v) [])
       (\<lambda>fields.
     and_then (put_opt 20 (\<lambda>x. Inr (NewValueString W x)) (PollerInfo.Identity v) fields)
       (\<lambda>fields.
     and_then (put_opt 30 (\<lambda>x. Inr (NewValueDouble W x)) (PollerInfo.RatePerSecond v) fields)
       (\<lambda>fields.
     Inr (NewValueStruct W fields))))"

definition PollerInfo_FromWire ::
  "'v wire_api \<Rightarrow> 'v \<Rightarrow> PollerInfo \<Rightarrow> go_error + PollerInfo" where
  "PollerInfo_FromWire W w v =
     foldM (\<lambda>v (fid, fval).
       if fid = 10 then
         if wire_api.Type W fval = TI64
         then Inr (v\<lparr>PollerInfo.LastAccessTime := Some (GetI64 W fval)\<rparr>)
         else Inr v
       else if fid = 20 then
         if wire_api.Type W fval = TBinary
         then Inr (v\<lparr>PollerInfo.Identity := Some (GetString W fval)\<rparr>)
         else Inr v
       else if fid = 30 then
         if wire_api.Type W fval = TDouble
         then Inr (v\<lparr>PollerInfo.RatePerSecond := Some (GetDouble W fval)\<rparr>)
         else Inr v
       else Inr v) (GetStruct W w) v"

definition PollerInfo_Read :: "'v wire_api \<Rightarrow> 'v \<Rightarrow> go_error + PollerInfo" where
  "PollerInfo_Read W w = PollerInfo_FromWire W w PollerInfo_zero"

lemma PollerInfo_merge:
  "(case x of None \<Rightarrow> Inr \<lparr>PollerInfo.LastAccessTime = a0, PollerInfo.Identity = a1,
      PollerInfo.RatePerSecond = a2\<rparr> | Some y \<Rightarrow> Inr \<lparr>PollerInfo.LastAccessTime = b0 y,
      PollerInfo.Identity = b1 y, PollerInfo.RatePerSecond = b2 y\<rparr>) =
   Inr \<lparr>PollerInfo.LastAccessTime = (case x of None \<Rightarrow> a0 | Some y \<Rightarrow> b0 y), PollerInfo.Identity =
       (case x of None \<Rightarrow> a1 | Some y \<Rightarrow> b1 y), PollerInfo.RatePerSecond = (case x of None \<Rightarrow> a2 | Some
       y \<Rightarrow> b2 y)\<rparr>"
  by (cases x) simp_all

interpretation PollerInfo: thrift_message W
  "PollerInfo_ToWire W" "PollerInfo_FromWire W" PollerInfo_zero "\<lambda>_. True" for W
proof (rule thrift_messageI)
  fix x :: PollerInfo
  assume laws: "wire_laws W"
  show "\<exists>w. PollerInfo_ToWire W x = Inr w \<and> wire_api.Type W w = TStruct \<and>
      (Writable W w \<longleftrightarrow> (\<lambda>_. True) x) \<and> ((\<lambda>_. True) x \<longrightarrow> PollerInfo_FromWire W w PollerInfo_zero = Inr
          x)"
    by (cases x) (simp cong: option.case_cong add: codec_rules PollerInfo_merge
        PollerInfo_ToWire_def PollerInfo_FromWire_def PollerInfo_zero_def laws)
qed

definition PollerInfo_Equals ::
  "PollerInfo option \<Rightarrow> PollerInfo option \<Rightarrow> bool" where
  "PollerInfo_Equals v rhs =
     (case v of None \<Rightarrow> rhs = None
      | Some v \<Rightarrow> (case rhs of None \<Rightarrow> False
        | Some rhs \<Rightarrow>
          if \<not> I64_EqualsPtr (PollerInfo.LastAccessTime v) (PollerInfo.LastAccessTime rhs) then
              False else
          if \<not> String_EqualsPtr (PollerInfo.Identity v) (PollerInfo.Identity rhs) then False else
          if \<not> Double_EqualsPtr (PollerInfo.RatePerSecond v) (PollerInfo.RatePerSecond rhs) then
              False else
          True))"

definition PollerInfo_comparable :: "PollerInfo \<Rightarrow> bool" where
  "PollerInfo_comparable v \<longleftrightarrow>
     if_set float64_ordinary (PollerInfo.RatePerSecond v)"

lemma PollerInfo_Equals_iff:
  "if_set PollerInfo_comparable x \<Longrightarrow> if_set PollerInfo_comparable y \<Longrightarrow> PollerInfo_Equals x y \<longleftrightarrow> x = y"
  by (cases x; cases y) (simp_all add: PollerInfo_Equals_def PollerInfo_comparable_def if_not_False,
    fastforce intro: PollerInfo.equality)

lemma PollerInfo_fields_equal [simp]:
  "if_set PollerInfo_comparable x \<Longrightarrow> if_set PollerInfo_comparable y \<Longrightarrow>
    both_set_and (\<lambda>x y. PollerInfo_Equals (Some x) (Some y)) x y \<longleftrightarrow> x = y"
  by (rule both_set_and_iff [where P = PollerInfo_comparable]) (simp_all add: PollerInfo_Equals_iff)

definition List_PollerInfo_ValueList :: "'v wire_api \<Rightarrow> PollerInfo option list \<Rightarrow> 'v ValueList" where
  "List_PollerInfo_ValueList W v =
     \<lparr>ValueList.ForEach = ptr_values (PollerInfo_ToWire W) v, Size = length v, ValueType = TStruct\<rparr>"

definition List_PollerInfo_Read :: "'v wire_api \<Rightarrow> 'v ValueList \<Rightarrow> go_error + PollerInfo option list
    option" where
  "List_PollerInfo_Read W l =
     (if ValueList.ValueType l \<noteq> TStruct then Inr None
      else and_then (for_each (ValueList.ForEach l)
        (\<lambda>out x. and_then (PollerInfo_Read W x) (\<lambda>i. Inr (out @ [Some i]))) []) (\<lambda>out. Inr (Some
            out)))"

definition List_PollerInfo_Equals :: "PollerInfo option list \<Rightarrow> PollerInfo option list \<Rightarrow> bool" where
  "List_PollerInfo_Equals lhs rhs = list_equals PollerInfo_Equals lhs rhs"

lemma List_PollerInfo_codec:
  assumes "wire_laws W"
  shows "list_all (delivered (Writable W)) (ValueList.ForEach (List_PollerInfo_ValueList W xs)) \<longleftrightarrow>
      list_all (present (\<lambda>_. True)) xs"
    and "list_all (present (\<lambda>_. True)) xs \<Longrightarrow> List_PollerInfo_Read W (List_PollerInfo_ValueList W xs)
        = Inr (Some xs)"
  using PollerInfo.ptr_values_writable [OF assms] PollerInfo.ptr_values_read [OF assms]
  by (simp_all add: List_PollerInfo_ValueList_def List_PollerInfo_Read_def PollerInfo_Read_def)

lemma List_PollerInfo_Equals_iff:
  "list_all (if_set PollerInfo_comparable) xs \<Longrightarrow> list_all (if_set PollerInfo_comparable) ys \<Longrightarrow>
      List_PollerInfo_Equals xs ys \<longleftrightarrow> xs = ys"
  unfolding List_PollerInfo_Equals_def by (rule list_equals_iff [where P = "if_set
      PollerInfo_comparable"]) (simp_all add: PollerInfo_Equals_iff)

lemma List_PollerInfo_fields_equal [simp]:
  "if_set (list_all (if_set PollerInfo_comparable)) x \<Longrightarrow> if_set (list_all (if_set
      PollerInfo_comparable)) y \<Longrightarrow>
    both_set_and List_PollerInfo_Equals x y \<longleftrightarrow> x = y"
  by (rule both_set_and_iff [where P = "list_all (if_set PollerInfo_comparable)"]) (simp_all add:
      List_PollerInfo_Equals_iff)

record QueryRejected =
  CloseStatus :: "WorkflowExecutionCloseStatus option"

definition QueryRejected_zero :: QueryRejected where
  "QueryRejected_zero = \<lparr>QueryRejected.CloseStatus = None\<rparr>"

definition QueryRejected_ToWire ::
  "'v wire_api \<Rightarrow> QueryRejected \<Rightarrow> go_error + 'v" where
  "QueryRejected_ToWire W v =
     and_then (put_opt 10 (WorkflowExecutionCloseStatus_ToWire W) (QueryRejected.CloseStatus v) [])
       (\<lambda>fields.
     Inr (NewValueStruct W fields))"

definition QueryRejected_FromWire ::
  "'v wire_api \<Rightarrow> 'v \<Rightarrow> QueryRejected \<Rightarrow> go_error + QueryRejected" where
  "QueryRejected_FromWire W w v =
     foldM (\<lambda>v (fid, fval).
       if fid = 10 then
         if wire_api.Type W fval = TI32
         then and_then (WorkflowExecutionCloseStatus_Read W fval) (\<lambda>x. Inr
             (v\<lparr>QueryRejected.CloseStatus := Some x\<rparr>))
         else Inr v
       else Inr v) (GetStruct W w) v"

definition QueryRejected_Read :: "'v wire_api \<Rightarrow> 'v \<Rightarrow> go_error + QueryRejected" where
  "QueryRejected_Read W w = QueryRejected_FromWire W w QueryRejected_zero"

lemma QueryRejected_merge:
  "(case x of None \<Rightarrow> Inr \<lparr>QueryRejected.CloseStatus = a0\<rparr> | Some y \<Rightarrow> Inr \<lparr>QueryRejected.CloseStatus
      = b0 y\<rparr>) =
   Inr \<lparr>QueryRejected.CloseStatus = (case x of None \<Rightarrow> a0 | Some y \<Rightarrow> b0 y)\<rparr>"
  by (cases x) simp_all

interpretation QueryRejected: thrift_message W
  "QueryRejected_ToWire W" "QueryRejected_FromWire W" QueryRejected_zero "\<lambda>_. True" for W
proof (rule thrift_messageI)
  fix x :: QueryRejected
  assume laws: "wire_laws W"
  show "\<exists>w. QueryRejected_ToWire W x = Inr w \<and> wire_api.Type W w = TStruct \<and>
      (Writable W w \<longleftrightarrow> (\<lambda>_. True) x) \<and> ((\<lambda>_. True) x \<longrightarrow> QueryRejected_FromWire W w QueryRejected_zero
          = Inr x)"
    by (cases x) (simp cong: option.case_cong add: codec_rules QueryRejected_merge
        QueryRejected_ToWire_def QueryRejected_FromWire_def QueryRejected_zero_def
        WorkflowExecutionCloseStatus_enc WorkflowExecutionCloseStatus_Read_def
        WorkflowExecutionCloseStatus_FromWire_def laws)
qed

definition QueryRejected_Equals ::
  "QueryRejected option \<Rightarrow> QueryRejected option \<Rightarrow> bool" where
  "QueryRejected_Equals v rhs =
     (case v of None \<Rightarrow> rhs = None
      | Some v \<Rightarrow> (case rhs of None \<Rightarrow> False
        | Some rhs \<Rightarrow>
          if \<not> WorkflowExecutionCloseStatus_EqualsPtr (QueryRejected.CloseStatus v)
              (QueryRejected.CloseStatus rhs) then False else
          True))"

lemma QueryRejected_Equals_iff [simp]: "QueryRejected_Equals x y \<longleftrightarrow> x = y"
  by (cases x; cases y) (auto simp: QueryRejected_Equals_def)

record StartTimeFilter =
  EarliestTime :: "64 word option"
  LatestTime :: "64 word option"

definition StartTimeFilter_zero :: StartTimeFilter where
  "StartTimeFilter_zero = \<lparr>StartTimeFilter.EarliestTime = None, StartTimeFilter.LatestTime = None\<rparr>"

definition StartTimeFilter_ToWire ::
  "'v wire_api \<Rightarrow> StartTimeFilter \<Rightarrow> go_error + 'v" where
  "StartTimeFilter_ToWire W v =
     and_then (put_opt 10 (\<lambda>x. Inr (NewValueI64 W x)) (StartTimeFilter.EarliestTime v) [])
       (\<lambda>fields.
     and_then (put_opt 20 (\<lambda>x. Inr (NewValueI64 W x)) (StartTimeFilter.LatestTime v) fields)
       (\<lambda>fields.
     Inr (NewValueStruct W fields)))"

definition StartTimeFilter_FromWire ::
  "'v wire_api \<Rightarrow> 'v \<Rightarrow> StartTimeFilter \<Rightarrow> go_error + StartTimeFilter" where
  "StartTimeFilter_FromWire W w v =
     foldM (\<lambda>v (fid, fval).
       if fid = 10 then
         if wire_api.Type W fval = TI64
         then Inr (v\<lparr>StartTimeFilter.EarliestTime := Some (GetI64 W fval)\<rparr>)
         else Inr v
       else if fid = 20 then
         if wire_api.Type W fval = TI64
         then Inr (v\<lparr>StartTimeFilter.LatestTime := Some (GetI64 W fval)\<rparr>)
         else Inr v
       else Inr v) (GetStruct W w) v"

definition StartTimeFilter_Read :: "'v wire_api \<Rightarrow> 'v \<Rightarrow> go_error + StartTimeFilter" where
  "StartTimeFilter_Read W w = StartTimeFilter_FromWire W w StartTimeFilter_zero"

lemma StartTimeFilter_merge:
  "(case x of None \<Rightarrow> Inr \<lparr>StartTimeFilter.EarliestTime = a0, StartTimeFilter.LatestTime = a1\<rparr> | Some
      y \<Rightarrow> Inr \<lparr>StartTimeFilter.EarliestTime = b0 y, StartTimeFilter.LatestTime = b1 y\<rparr>) =
   Inr \<lparr>StartTimeFilter.EarliestTime = (case x of None \<Rightarrow> a0 | Some y \<Rightarrow> b0 y),
       StartTimeFilter.LatestTime = (case x of None \<Rightarrow> a1 | Some y \<Rightarrow> b1 y)\<rparr>"
  by (cases x) simp_all

interpretation StartTimeFilter: thrift_message W
  "StartTimeFilter_ToWire W" "StartTimeFilter_FromWire W" StartTimeFilter_zero "\<lambda>_. True" for W
proof (rule thrift_messageI)
  fix x :: StartTimeFilter
  assume laws: "wire_laws W"
  show "\<exists>w. StartTimeFilter_ToWire W x = Inr w \<and> wire_api.Type W w = TStruct \<and>
      (Writable W w \<longleftrightarrow> (\<lambda>_. True) x) \<and> ((\<lambda>_. True) x \<longrightarrow> StartTimeFilter_FromWire W w
          StartTimeFilter_zero = Inr x)"
    by (cases x) (simp cong: option.case_cong add: codec_rules StartTimeFilter_merge
        StartTimeFilter_ToWire_def StartTimeFilter_FromWire_def StartTimeFilter_zero_def laws)
qed

definition StartTimeFilter_Equals ::
  "StartTimeFilter option \<Rightarrow> StartTimeFilter option \<Rightarrow> bool" where
  "StartTimeFilter_Equals v rhs =
     (case v of None \<Rightarrow> rhs = None
      | Some v \<Rightarrow> (case rhs of None \<Rightarrow> False
        | Some rhs \<Rightarrow>
          if \<not> I64_EqualsPtr (StartTimeFilter.EarliestTime v) (StartTimeFilter.EarliestTime rhs)
              then False else
          if \<not> I64_EqualsPtr (StartTimeFilter.LatestTime v) (StartTimeFilter.LatestTime rhs) then
              False else
          True))"

lemma StartTimeFilter_Equals_iff [simp]: "StartTimeFilter_Equals x y \<longleftrightarrow> x = y"
  by (cases x; cases y) (auto simp: StartTimeFilter_Equals_def)

record StickyExecutionAttributes =
  WorkerTaskList :: "TaskList option"
  ScheduleToStartTimeoutSeconds :: "32 word option"

definition StickyExecutionAttributes_zero :: StickyExecutionAttributes where
  "StickyExecutionAttributes_zero = \<lparr>StickyExecutionAttributes.WorkerTaskList = None,
      StickyExecutionAttributes.ScheduleToStartTimeoutSeconds = None\<rparr>"

definition StickyExecutionAttributes_ToWire ::
  "'v wire_api \<Rightarrow> StickyExecutionAttributes \<Rightarrow> go_error + 'v" where
  "StickyExecutionAttributes_ToWire W v =
     and_then (put_opt 10 (TaskList_ToWire W) (StickyExecutionAttributes.WorkerTaskList v) [])
       (\<lambda>fields.
     and_then (put_opt 20 (\<lambda>x. Inr (NewValueI32 W x))
         (StickyExecutionAttributes.ScheduleToStartTimeoutSeconds v) fields)
       (\<lambda>fields.
     Inr (NewValueStruct W fields)))"

definition StickyExecutionAttributes_FromWire ::
  "'v wire_api \<Rightarrow> 'v \<Rightarrow> StickyExecutionAttributes \<Rightarrow> go_error + StickyExecutionAttributes" where
  "StickyExecutionAttributes_FromWire W w v =
     foldM (\<lambda>v (fid, fval).
       if fid = 10 then
         if wire_api.Type W fval = TStruct
         then and_then (TaskList_Read W fval) (\<lambda>x. Inr (v\<lparr>StickyExecutionAttributes.WorkerTaskList
             := Some x\<rparr>))
         else Inr v
       else if fid = 20 then
         if wire_api.Type W fval = TI32
         then Inr (v\<lparr>StickyExecutionAttributes.ScheduleToStartTimeoutSeconds := Some (GetI32 W
             fval)\<rparr>)
         else Inr v
       else Inr v) (GetStruct W w) v"

definition StickyExecutionAttributes_Read :: "'v wire_api \<Rightarrow> 'v \<Rightarrow> go_error +
    StickyExecutionAttributes" where
  "StickyExecutionAttributes_Read W w = StickyExecutionAttributes_FromWire W w
      StickyExecutionAttributes_zero"

lemma StickyExecutionAttributes_merge:
  "(case x of None \<Rightarrow> Inr \<lparr>StickyExecutionAttributes.WorkerTaskList = a0,
      StickyExecutionAttributes.ScheduleToStartTimeoutSeconds = a1\<rparr> | Some y \<Rightarrow> Inr
      \<lparr>StickyExecutionAttributes.WorkerTaskList = b0 y,
      StickyExecutionAttributes.ScheduleToStartTimeoutSeconds = b1 y\<rparr>) =
   Inr \<lparr>StickyExecutionAttributes.WorkerTaskList = (case x of None \<Rightarrow> a0 | Some y \<Rightarrow> b0 y),
       StickyExecutionAttributes.ScheduleToStartTimeoutSeconds = (case x of None \<Rightarrow> a1 | Some y \<Rightarrow> b1
       y)\<rparr>"
  by (cases x) simp_all

interpretation StickyExecutionAttributes: thrift_message W
  "StickyExecutionAttributes_ToWire W" "StickyExecutionAttributes_FromWire W"
      StickyExecutionAttributes_zero "\<lambda>_. True" for W
proof (rule thrift_messageI)
  fix x :: StickyExecutionAttributes
  assume laws: "wire_laws W"
  obtain enc0 where e0: "TaskList_ToWire W = (\<lambda>x. Inr (enc0 x))"
      "\<And>x. wire_api.Type W (enc0 x) = TStruct"
      "\<And>x. Writable W (enc0 x) \<longleftrightarrow> (\<lambda>_. True) x"
      "\<And>x. (\<lambda>_. True) x \<Longrightarrow> TaskList_FromWire W (enc0 x) TaskList_zero = Inr x"
    by (rule TaskList.encoder [OF laws]) (rule that)
  show "\<exists>w. StickyExecutionAttributes_ToWire W x = Inr w \<and> wire_api.Type W w = TStruct \<and>
      (Writable W w \<longleftrightarrow> (\<lambda>_. True) x) \<and> ((\<lambda>_. True) x \<longrightarrow> StickyExecutionAttributes_FromWire W w
          StickyExecutionAttributes_zero = Inr x)"
    by (cases x) (simp cong: option.case_cong add: codec_rules StickyExecutionAttributes_merge
        StickyExecutionAttributes_ToWire_def StickyExecutionAttributes_FromWire_def
        StickyExecutionAttributes_zero_def TaskList_Read_def laws e0)
qed

definition StickyExecutionAttributes_Equals ::
  "StickyExecutionAttributes option \<Rightarrow> StickyExecutionAttributes option \<Rightarrow> bool" where
  "StickyExecutionAttributes_Equals v rhs =
     (case v of None \<Rightarrow> rhs = None
      | Some v \<Rightarrow> (case rhs of None \<Rightarrow> False
        | Some rhs \<Rightarrow>
          if \<not> both_set_and (\<lambda>x y. TaskList_Equals (Some x) (Some y))
              (StickyExecutionAttributes.WorkerTaskList v) (StickyExecutionAttributes.WorkerTaskList
              rhs) then False else
          if \<not> I32_EqualsPtr (StickyExecutionAttributes.ScheduleToStartTimeoutSeconds v)
              (StickyExecutionAttributes.ScheduleToStartTimeoutSeconds rhs) then False else
          True))"

lemma StickyExecutionAttributes_Equals_iff [simp]: "StickyExecutionAttributes_Equals x y \<longleftrightarrow> x = y"
  by (cases x; cases y) (auto simp: StickyExecutionAttributes_Equals_def)

record TaskIDBlock =
  StartID :: "64 word option"
  EndID :: "64 word option"

definition TaskIDBlock_zero :: TaskIDBlock where
  "TaskIDBlock_zero = \<lparr>TaskIDBlock.StartID = None, TaskIDBlock.EndID = None\<rparr>"

definition TaskIDBlock_ToWire ::
  "'v wire_api \<Rightarrow> TaskIDBlock \<Rightarrow> go_error + 'v" where
  "TaskIDBlock_ToWire W v =
     and_then (put_opt 10 (\<lambda>x. Inr (NewValueI64 W x)) (TaskIDBlock.StartID v) [])
       (\<lambda>fields.
     and_then (put_opt 20 (\<lambda>x. Inr (NewValueI64 W x)) (TaskIDBlock.EndID v) fields)
       (\<lambda>fields.
     Inr (NewValueStruct W fields)))"

definition TaskIDBlock_FromWire ::
  "'v wire_api \<Rightarrow> 'v \<Rightarrow> TaskIDBlock \<Rightarrow> go_error + TaskIDBlock" where
  "TaskIDBlock_FromWire W w v =
     foldM (\<lambda>v (fid, fval).
       if fid = 10 then
         if wire_api.Type W fval = TI64
         then Inr (v\<lparr>TaskIDBlock.StartID := Some (GetI64 W fval)\<rparr>)
         else Inr v
       else if fid = 20 then
         if wire_api.Type W fval = TI64
         then Inr (v\<lparr>TaskIDBlock.EndID := Some (GetI64 W fval)\<rparr>)
         else Inr v
       else Inr v) (GetStruct W w) v"

definition TaskIDBlock_Read :: "'v wire_api \<Rightarrow> 'v \<Rightarrow> go_error + TaskIDBlock" where
  "TaskIDBlock_Read W w = TaskIDBlock_FromWire W w TaskIDBlock_zero"

lemma TaskIDBlock_merge:
  "(case x of None \<Rightarrow> Inr \<lparr>TaskIDBlock.StartID = a0, TaskIDBlock.EndID = a1\<rparr> | Some y \<Rightarrow> Inr
      \<lparr>TaskIDBlock.StartID = b0 y, TaskIDBlock.EndID = b1 y\<rparr>) =
   Inr \<lparr>TaskIDBlock.StartID = (case x of None \<Rightarrow> a0 | Some y \<Rightarrow> b0 y), TaskIDBlock.EndID = (case x of
       None \<Rightarrow> a1 | Some y \<Rightarrow> b1 y)\<rparr>"
  by (cases x) simp_all

interpretation TaskIDBlock: thrift_message W
  "TaskIDBlock_ToWire W" "TaskIDBlock_FromWire W" TaskIDBlock_zero "\<lambda>_. True" for W
proof (rule thrift_messageI)
  fix x :: TaskIDBlock
  assume laws: "wire_laws W"
  show "\<exists>w. TaskIDBlock_ToWire W x = Inr w \<and> wire_api.Type W w = TStruct \<and>
      (Writable W w \<longleftrightarrow> (\<lambda>_. True) x) \<and> ((\<lambda>_. True) x \<longrightarrow> TaskIDBlock_FromWire W w TaskIDBlock_zero =
          Inr x)"
    by (cases x) (simp cong: option.case_cong add: codec_rules TaskIDBlock_merge
        TaskIDBlock_ToWire_def TaskIDBlock_FromWire_def TaskIDBlock_zero_def laws)
qed

definition TaskIDBlock_Equals ::
  "TaskIDBlock option \<Rightarrow> TaskIDBlock option \<Rightarrow> bool" where
  "TaskIDBlock_Equals v rhs =
     (case v of None \<Rightarrow> rhs = None
      | Some v \<Rightarrow> (case rhs of None \<Rightarrow> False
        | Some rhs \<Rightarrow>
          if \<not> I64_EqualsPtr (TaskIDBlock.StartID v) (TaskIDBlock.StartID rhs) then False else
          if \<not> I64_EqualsPtr (TaskIDBlock.EndID v) (TaskIDBlock.EndID rhs) then False else
          True))"

lemma TaskIDBlock_Equals_iff [simp]: "TaskIDBlock_Equals x y \<longleftrightarrow> x = y"
  by (cases x; cases y) (auto simp: TaskIDBlock_Equals_def)

record TaskListStatus =
  BacklogCountHint :: "64 word option"
  ReadLevel :: "64 word option"
  AckLevel :: "64 word option"
  RatePerSecond :: "float64 option"
  TaskIDBlock :: "TaskIDBlock option"

definition TaskListStatus_zero :: TaskListStatus where
  "TaskListStatus_zero = \<lparr>TaskListStatus.BacklogCountHint = None, TaskListStatus.ReadLevel = None,
      TaskListStatus.AckLevel = None, TaskListStatus.RatePerSecond = None,
      TaskListStatus.TaskIDBlock = None\<rparr>"

definition TaskListStatus_ToWire ::
  "'v wire_api \<Rightarrow> TaskListStatus \<Rightarrow> go_error + 'v" where
  "TaskListStatus_ToWire W v =
     and_then (put_opt 10 (\<lambda>x. Inr (NewValueI64 W x)) (TaskListStatus.BacklogCountHint v) [])
       (\<lambda>fields.
     and_then (put_opt 20 (\<lambda>x. Inr (NewValueI64 W x)) (TaskListStatus.ReadLevel v) fields)
       (\<lambda>fields.
     and_then (put_opt 30 (\<lambda>x. Inr (NewValueI64 W x)) (TaskListStatus.AckLevel v) fields)
       (\<lambda>fields.
     and_then (put_opt 35 (\<lambda>x. Inr (NewValueDouble W x)) (TaskListStatus.RatePerSecond v) fields)
       (\<lambda>fields.
     and_then (put_opt 40 (TaskIDBlock_ToWire W) (TaskListStatus.TaskIDBlock v) fields)
       (\<lambda>fields.
     Inr (NewValueStruct W fields))))))"

definition TaskListStatus_FromWire ::
  "'v wire_api \<Rightarrow> 'v \<Rightarrow> TaskListStatus \<Rightarrow> go_error + TaskListStatus" where
  "TaskListStatus_FromWire W w v =
     foldM (\<lambda>v (fid, fval).
       if fid = 10 then
         if wire_api.Type W fval = TI64
         then Inr (v\<lparr>TaskListStatus.BacklogCountHint := Some (GetI64 W fval)\<rparr>)
         else Inr v
       else if fid = 20 then
         if wire_api.Type W fval = TI64
         then Inr (v\<lparr>TaskListStatus.ReadLevel := Some (GetI64 W fval)\<rparr>)
         else Inr v
       else if fid = 30 then
         if wire_api.Type W fval = TI64
         then Inr (v\<lparr>TaskListStatus.AckLevel := Some (GetI64 W fval)\<rparr>)
         else Inr v
       else if fid = 35 then
         if wire_api.Type W fval = TDouble
         then Inr (v\<lparr>TaskListStatus.RatePerSecond := Some (GetDouble W fval)\<rparr>)
         else Inr v
       else if fid = 40 then
         if wire_api.Type W fval = TStruct
         then and_then (TaskIDBlock_Read W fval) (\<lambda>x. Inr (v\<lparr>TaskListStatus.TaskIDBlock := Some x\<rparr>))
         else Inr v
       else Inr v) (GetStruct W w) v"

definition TaskListStatus_Read :: "'v wire_api \<Rightarrow> 'v \<Rightarrow> go_error + TaskListStatus" where
  "TaskListStatus_Read W w = TaskListStatus_FromWire W w TaskListStatus_zero"

lemma TaskListStatus_merge:
  "(case x of None \<Rightarrow> Inr \<lparr>TaskListStatus.BacklogCountHint = a0, TaskListStatus.ReadLevel = a1,
      TaskListStatus.AckLevel = a2, TaskListStatus.RatePerSecond = a3, TaskListStatus.TaskIDBlock =
      a4\<rparr> | Some y \<Rightarrow> Inr \<lparr>TaskListStatus.BacklogCountHint = b0 y, TaskListStatus.ReadLevel = b1 y,
      TaskListStatus.AckLevel = b2 y, TaskListStatus.RatePerSecond = b3 y,
      TaskListStatus.TaskIDBlock = b4 y\<rparr>) =
   Inr \<lparr>TaskListStatus.BacklogCountHint = (case x of None \<Rightarrow> a0 | Some y \<Rightarrow> b0 y),
       TaskListStatus.ReadLevel = (case x of None \<Rightarrow> a1 | Some y \<Rightarrow> b1 y), TaskListStatus.AckLevel =
       (case x of None \<Rightarrow> a2 | Some y \<Rightarrow> b2 y), TaskListStatus.RatePerSecond = (case x of None \<Rightarrow> a3 |
       Some y \<Rightarrow> b3 y), TaskListStatus.TaskIDBlock = (case x of None \<Rightarrow> a4 | Some y \<Rightarrow> b4 y)\<rparr>"
  by (cases x) simp_all

interpretation TaskListStatus: thrift_message W
  "TaskListStatus_ToWire W" "TaskListStatus_FromWire W" TaskListStatus_zero "\<lambda>_. True" for W
proof (rule thrift_messageI)
  fix x :: TaskListStatus
  assume laws: "wire_laws W"
  obtain enc0 where e0: "TaskIDBlock_ToWire W = (\<lambda>x. Inr (enc0 x))"
      "\<And>x. wire_api.Type W (enc0 x) = TStruct"
      "\<And>x. Writable W (enc0 x) \<longleftrightarrow> (\<lambda>_. True) x"
      "\<And>x. (\<lambda>_. True) x \<Longrightarrow> TaskIDBlock_FromWire W (enc0 x) TaskIDBlock_zero = Inr x"
    by (rule TaskIDBlock.encoder [OF laws]) (rule that)
  show "\<exists>w. TaskListStatus_ToWire W x = Inr w \<and> wire_api.Type W w = TStruct \<and>
      (Writable W w \<longleftrightarrow> (\<lambda>_. True) x) \<and> ((\<lambda>_. True) x \<longrightarrow> TaskListStatus_FromWire W w
          TaskListStatus_zero = Inr x)"
    by (cases x) (simp cong: option.case_cong add: codec_rules TaskListStatus_merge
        TaskListStatus_ToWire_def TaskListStatus_FromWire_def TaskListStatus_zero_def
        TaskIDBlock_Read_def laws e0)
qed

definition TaskListStatus_Equals ::
  "TaskListStatus option \<Rightarrow> TaskListStatus option \<Rightarrow> bool" where
  "TaskListStatus_Equals v rhs =
     (case v of None \<Rightarrow> rhs = None
      | Some v \<Rightarrow> (case rhs of None \<Rightarrow> False
        | Some rhs \<Rightarrow>
          if \<not> I64_EqualsPtr (TaskListStatus.BacklogCountHint v) (TaskListStatus.BacklogCountHint
              rhs) then False else
          if \<not> I64_EqualsPtr (TaskListStatus.ReadLevel v) (TaskListStatus.ReadLevel rhs) then False
              else
          if \<not> I64_EqualsPtr (TaskListStatus.AckLevel v) (TaskListStatus.AckLevel rhs) then False
              else
          if \<not> Double_EqualsPtr (TaskListStatus.RatePerSecond v) (TaskListStatus.RatePerSecond rhs)
              then False else
          if \<not> both_set_and (\<lambda>x y. TaskIDBlock_Equals (Some x) (Some y)) (TaskListStatus.TaskIDBlock
              v) (TaskListStatus.TaskIDBlock rhs) then False else
          True))"

definition TaskListStatus_comparable :: "TaskListStatus \<Rightarrow> bool" where
  "TaskListStatus_comparable v \<longleftrightarrow>
     if_set float64_ordinary (TaskListStatus.RatePerSecond v)"

lemma TaskListStatus_Equals_iff:
  "if_set TaskListStatus_comparable x \<Longrightarrow> if_set TaskListStatus_comparable y \<Longrightarrow> TaskListStatus_Equals x
      y \<longleftrightarrow> x = y"
  by (cases x; cases y) (simp_all add: TaskListStatus_Equals_def TaskListStatus_comparable_def
      if_not_False,
    fastforce intro: TaskListStatus.equality)

lemma TaskListStatus_fields_equal [simp]:
  "if_set TaskListStatus_comparable x \<Longrightarrow> if_set TaskListStatus_comparable y \<Longrightarrow>
    both_set_and (\<lambda>x y. TaskListStatus_Equals (Some x) (Some y)) x y \<longleftrightarrow> x = y"
  by (rule both_set_and_iff [where P = TaskListStatus_comparable]) (simp_all add:
      TaskListStatus_Equals_iff)

record WorkflowExecutionConfiguration =
  TaskList :: "TaskList option"
  ExecutionStartToCloseTimeoutSeconds :: "32 word option"
  TaskStartToCloseTimeoutSeconds :: "32 word option"

definition WorkflowExecutionConfiguration_zero :: WorkflowExecutionConfiguration where
  "WorkflowExecutionConfiguration_zero = \<lparr>WorkflowExecutionConfiguration.TaskList = None,
      WorkflowExecutionConfiguration.ExecutionStartToCloseTimeoutSeconds = None,
      WorkflowExecutionConfiguration.TaskStartToCloseTimeoutSeconds = None\<rparr>"

definition WorkflowExecutionConfiguration_ToWire ::
  "'v wire_api \<Rightarrow> WorkflowExecutionConfiguration \<Rightarrow> go_error + 'v" where
  "WorkflowExecutionConfiguration_ToWire W v =
     and_then (put_opt 10 (TaskList_ToWire W) (WorkflowExecutionConfiguration.TaskList v) [])
       (\<lambda>fields.
     and_then (put_opt 20 (\<lambda>x. Inr (NewValueI32 W x))
         (WorkflowExecutionConfiguration.ExecutionStartToCloseTimeoutSeconds v) fields)
       (\<lambda>fields.
     and_then (put_opt 30 (\<lambda>x. Inr (NewValueI32 W x))
         (WorkflowExecutionConfiguration.TaskStartToCloseTimeoutSeconds v) fields)
       (\<lambda>fields.
     Inr (NewValueStruct W fields))))"

definition WorkflowExecutionConfiguration_FromWire ::
  "'v wire_api \<Rightarrow> 'v \<Rightarrow> WorkflowExecutionConfiguration \<Rightarrow> go_error + WorkflowExecutionConfiguration"
      where
  "WorkflowExecutionConfiguration_FromWire W w v =
     foldM (\<lambda>v (fid, fval).
       if fid = 10 then
         if wire_api.Type W fval = TStruct
         then and_then (TaskList_Read W fval) (\<lambda>x. Inr (v\<lparr>WorkflowExecutionConfiguration.TaskList :=
             Some x\<rparr>))
         else Inr v
       else if fid = 20 then
         if wire_api.Type W fval = TI32
         then Inr (v\<lparr>WorkflowExecutionConfiguration.ExecutionStartToCloseTimeoutSeconds := Some
             (GetI32 W fval)\<rparr>)
         else Inr v
       else if fid = 30 then
         if wire_api.Type W fval = TI32
         then Inr (v\<lparr>WorkflowExecutionConfiguration.TaskStartToCloseTimeoutSeconds := Some (GetI32 W
             fval)\<rparr>)
         else Inr v
       else Inr v) (GetStruct W w) v"

definition WorkflowExecutionConfiguration_Read :: "'v wire_api \<Rightarrow> 'v \<Rightarrow> go_error +
    WorkflowExecutionConfiguration" where
  "WorkflowExecutionConfiguration_Read W w = WorkflowExecutionConfiguration_FromWire W w
      WorkflowExecutionConfiguration_zero"

lemma WorkflowExecutionConfiguration_merge:
  "(case x of None \<Rightarrow> Inr \<lparr>WorkflowExecutionConfiguration.TaskList = a0,
      WorkflowExecutionConfiguration.ExecutionStartToCloseTimeoutSeconds = a1,
      WorkflowExecutionConfiguration.TaskStartToCloseTimeoutSeconds = a2\<rparr> | Some y \<Rightarrow> Inr
      \<lparr>WorkflowExecutionConfiguration.TaskList = b0 y,
      WorkflowExecutionConfiguration.ExecutionStartToCloseTimeoutSeconds = b1 y,
      WorkflowExecutionConfiguration.TaskStartToCloseTimeoutSeconds = b2 y\<rparr>) =
   Inr \<lparr>WorkflowExecutionConfiguration.TaskList = (case x of None \<Rightarrow> a0 | Some y \<Rightarrow> b0 y),
       WorkflowExecutionConfiguration.ExecutionStartToCloseTimeoutSeconds = (case x of None \<Rightarrow> a1 |
       Some y \<Rightarrow> b1 y), WorkflowExecutionConfiguration.TaskStartToCloseTimeoutSeconds = (case x of
       None \<Rightarrow> a2 | Some y \<Rightarrow> b2 y)\<rparr>"
  by (cases x) simp_all

interpretation WorkflowExecutionConfiguration: thrift_message W
  "WorkflowExecutionConfiguration_ToWire W" "WorkflowExecutionConfiguration_FromWire W"
      WorkflowExecutionConfiguration_zero "\<lambda>_. True" for W
proof (rule thrift_messageI)
  fix x :: WorkflowExecutionConfiguration
  assume laws: "wire_laws W"
  obtain enc0 where e0: "TaskList_ToWire W = (\<lambda>x. Inr (enc0 x))"
      "\<And>x. wire_api.Type W (enc0 x) = TStruct"
      "\<And>x. Writable W (enc0 x) \<longleftrightarrow> (\<lambda>_. True) x"
      "\<And>x. (\<lambda>_. True) x \<Longrightarrow> TaskList_FromWire W (enc0 x) TaskList_zero = Inr x"
    by (rule TaskList.encoder [OF laws]) (rule that)
  show "\<exists>w. WorkflowExecutionConfiguration_ToWire W x = Inr w \<and> wire_api.Type W w = TStruct \<and>
      (Writable W w \<longleftrightarrow> (\<lambda>_. True) x) \<and> ((\<lambda>_. True) x \<longrightarrow> WorkflowExecutionConfiguration_FromWire W w
          WorkflowExecutionConfiguration_zero = Inr x)"
    by (cases x) (simp cong: option.case_cong add: codec_rules WorkflowExecutionConfiguration_merge
        WorkflowExecutionConfiguration_ToWire_def WorkflowExecutionConfiguration_FromWire_def
        WorkflowExecutionConfiguration_zero_def TaskList_Read_def laws e0)
qed

definition WorkflowExecutionConfiguration_Equals ::
  "WorkflowExecutionConfiguration option \<Rightarrow> WorkflowExecutionConfiguration option \<Rightarrow> bool" where
  "WorkflowExecutionConfiguration_Equals v rhs =
     (case v of None \<Rightarrow> rhs = None
      | Some v \<Rightarrow> (case rhs of None \<Rightarrow> False
        | Some rhs \<Rightarrow>
          if \<not> both_set_and (\<lambda>x y. TaskList_Equals (Some x) (Some y))
              (WorkflowExecutionConfiguration.TaskList v) (WorkflowExecutionConfiguration.TaskList
              rhs) then False else
          if \<not> I32_EqualsPtr (WorkflowExecutionConfiguration.ExecutionStartToCloseTimeoutSeconds v)
              (WorkflowExecutionConfiguration.ExecutionStartToCloseTimeoutSeconds rhs) then False
              else
          if \<not> I32_EqualsPtr (WorkflowExecutionConfiguration.TaskStartToCloseTimeoutSeconds v)
              (WorkflowExecutionConfiguration.TaskStartToCloseTimeoutSeconds rhs) then False else
          True))"

lemma WorkflowExecutionConfiguration_Equals_iff [simp]: "WorkflowExecutionConfiguration_Equals x y \<longleftrightarrow>
    x = y"
  by (cases x; cases y) (auto simp: WorkflowExecutionConfiguration_Equals_def)

record WorkflowExecutionFilter =
  WorkflowId :: "string option"
  RunId :: "string option"

definition WorkflowExecutionFilter_zero :: WorkflowExecutionFilter where
  "WorkflowExecutionFilter_zero = \<lparr>WorkflowExecutionFilter.WorkflowId = None,
      WorkflowExecutionFilter.RunId = None\<rparr>"

definition WorkflowExecutionFilter_ToWire ::
  "'v wire_api \<Rightarrow> WorkflowExecutionFilter \<Rightarrow> go_error + 'v" where
  "WorkflowExecutionFilter_ToWire W v =
     and_then (put_opt 10 (\<lambda>x. Inr (NewValueString W x)) (WorkflowExecutionFilter.WorkflowId v) [])
       (\<lambda>fields.
     and_then (put_opt 20 (\<lambda>x. Inr (NewValueString W x)) (WorkflowExecutionFilter.RunId v) fields)
       (\<lambda>fields.
     Inr (NewValueStruct W fields)))"

definition WorkflowExecutionFilter_FromWire ::
  "'v wire_api \<Rightarrow> 'v \<Rightarrow> WorkflowExecutionFilter \<Rightarrow> go_error + WorkflowExecutionFilter" where
  "WorkflowExecutionFilter_FromWire W w v =
     foldM (\<lambda>v (fid, fval).
       if fid = 10 then
         if wire_api.Type W fval = TBinary
         then Inr (v\<lparr>WorkflowExecutionFilter.WorkflowId := Some (GetString W fval)\<rparr>)
         else Inr v
       else if fid = 20 then
         if wire_api.Type W fval = TBinary
         then Inr (v\<lparr>WorkflowExecutionFilter.RunId := Some (GetString W fval)\<rparr>)
         else Inr v
       else Inr v) (GetStruct W w) v"

definition WorkflowExecutionFilter_Read :: "'v wire_api \<Rightarrow> 'v \<Rightarrow> go_error + WorkflowExecutionFilter"
    where
  "WorkflowExecutionFilter_Read W w = WorkflowExecutionFilter_FromWire W w
      WorkflowExecutionFilter_zero"

lemma WorkflowExecutionFilter_merge:
  "(case x of None \<Rightarrow> Inr \<lparr>WorkflowExecutionFilter.WorkflowId = a0, WorkflowExecutionFilter.RunId =
      a1\<rparr> | Some y \<Rightarrow> Inr \<lparr>WorkflowExecutionFilter.WorkflowId = b0 y, WorkflowExecutionFilter.RunId =
      b1 y\<rparr>) =
   Inr \<lparr>WorkflowExecutionFilter.WorkflowId = (case x of None \<Rightarrow> a0 | Some y \<Rightarrow> b0 y),
       WorkflowExecutionFilter.RunId = (case x of None \<Rightarrow> a1 | Some y \<Rightarrow> b1 y)\<rparr>"
  by (cases x) simp_all

interpretation WorkflowExecutionFilter: thrift_message W
  "WorkflowExecutionFilter_ToWire W" "WorkflowExecutionFilter_FromWire W"
      WorkflowExecutionFilter_zero "\<lambda>_. True" for W
proof (rule thrift_messageI)
  fix x :: WorkflowExecutionFilter
  assume laws: "wire_laws W"
  show "\<exists>w. WorkflowExecutionFilter_ToWire W x = Inr w \<and> wire_api.Type W w = TStruct \<and>
      (Writable W w \<longleftrightarrow> (\<lambda>_. True) x) \<and> ((\<lambda>_. True) x \<longrightarrow> WorkflowExecutionFilter_FromWire W w
          WorkflowExecutionFilter_zero = Inr x)"
    by (cases x) (simp cong: option.case_cong add: codec_rules WorkflowExecutionFilter_merge
        WorkflowExecutionFilter_ToWire_def WorkflowExecutionFilter_FromWire_def
        WorkflowExecutionFilter_zero_def laws)
qed

definition WorkflowExecutionFilter_Equals ::
  "WorkflowExecutionFilter option \<Rightarrow> WorkflowExecutionFilter option \<Rightarrow> bool" where
  "WorkflowExecutionFilter_Equals v rhs =
     (case v of None \<Rightarrow> rhs = None
      | Some v \<Rightarrow> (case rhs of None \<Rightarrow> False
        | Some rhs \<Rightarrow>
          if \<not> String_EqualsPtr (WorkflowExecutionFilter.WorkflowId v)
              (WorkflowExecutionFilter.WorkflowId rhs) then False else
          if \<not> String_EqualsPtr (WorkflowExecutionFilter.RunId v) (WorkflowExecutionFilter.RunId
              rhs) then False else
          True))"

lemma WorkflowExecutionFilter_Equals_iff [simp]: "WorkflowExecutionFilter_Equals x y \<longleftrightarrow> x = y"
  by (cases x; cases y) (auto simp: WorkflowExecutionFilter_Equals_def)

record WorkflowExecutionInfo =
  Execution :: "WorkflowExecution option"
  Type :: "WorkflowType option"
  StartTime :: "64 word option"
  CloseTime :: "64 word option"
  CloseStatus :: "WorkflowExecutionCloseStatus option"
  HistoryLength :: "64 word option"
  ParentDomainId :: "string option"
  ParentExecution :: "WorkflowExecution option"
  ExecutionTime :: "64 word option"
  Memo :: "Memo option"
  SearchAttributes :: "SearchAttributes option"
  AutoResetPoints :: "ResetPoints option"

definition WorkflowExecutionInfo_zero :: WorkflowExecutionInfo where
  "WorkflowExecutionInfo_zero = \<lparr>WorkflowExecutionInfo.Execution = None, WorkflowExecutionInfo.Type
      = None, WorkflowExecutionInfo.StartTime = None, WorkflowExecutionInfo.CloseTime = None,
      WorkflowExecutionInfo.CloseStatus = None, WorkflowExecutionInfo.HistoryLength = None,
      WorkflowExecutionInfo.ParentDomainId = None, WorkflowExecutionInfo.ParentExecution = None,
      WorkflowExecutionInfo.ExecutionTime = None, WorkflowExecutionInfo.Memo = None,
      WorkflowExecutionInfo.SearchAttributes = None, WorkflowExecutionInfo.AutoResetPoints = None\<rparr>"

definition WorkflowExecutionInfo_ToWire ::
  "'v wire_api \<Rightarrow> WorkflowExecutionInfo \<Rightarrow> go_error + 'v" where
  "WorkflowExecutionInfo_ToWire W v =
     and_then (put_opt 10 (WorkflowExecution_ToWire W) (WorkflowExecutionInfo.Execution v) [])
       (\<lambda>fields.
     and_then (put_opt 20 (WorkflowType_ToWire W) (WorkflowExecutionInfo.Type v) fields)
       (\<lambda>fields.
     and_then (put_opt 30 (\<lambda>x. Inr (NewValueI64 W x)) (WorkflowExecutionInfo.StartTime v) fields)
       (\<lambda>fields.
     and_then (put_opt 40 (\<lambda>x. Inr (NewValueI64 W x)) (WorkflowExecutionInfo.CloseTime v) fields)
       (\<lambda>fields.
     and_then (put_opt 50 (WorkflowExecutionCloseStatus_ToWire W) (WorkflowExecutionInfo.CloseStatus
         v) fields)
       (\<lambda>fields.
     and_then (put_opt 60 (\<lambda>x. Inr (NewValueI64 W x)) (WorkflowExecutionInfo.HistoryLength v)
         fields)
       (\<lambda>fields.
     and_then (put_opt 70 (\<lambda>x. Inr (NewValueString W x)) (WorkflowExecutionInfo.ParentDomainId v)
         fields)
       (\<lambda>fields.
     and_then (put_opt 80 (WorkflowExecution_ToWire W) (WorkflowExecutionInfo.ParentExecution v)
         fields)
       (\<lambda>fields.
     and_then (put_opt 90 (\<lambda>x. Inr (NewValueI64 W x)) (WorkflowExecutionInfo.ExecutionTime v)
         fields)
       (\<lambda>fields.
     and_then (put_opt 100 (Memo_ToWire W) (WorkflowExecutionInfo.Memo v) fields)
       (\<lambda>fields.
     and_then (put_opt 101 (SearchAttributes_ToWire W) (WorkflowExecutionInfo.SearchAttributes v)
         fields)
       (\<lambda>fields.
     and_then (put_opt 110 (ResetPoints_ToWire W) (WorkflowExecutionInfo.AutoResetPoints v) fields)
       (\<lambda>fields.
     Inr (NewValueStruct W fields)))))))))))))"

definition WorkflowExecutionInfo_FromWire ::
  "'v wire_api \<Rightarrow> 'v \<Rightarrow> WorkflowExecutionInfo \<Rightarrow> go_error + WorkflowExecutionInfo" where
  "WorkflowExecutionInfo_FromWire W w v =
     foldM (\<lambda>v (fid, fval).
       if fid = 10 then
         if wire_api.Type W fval = TStruct
         then and_then (WorkflowExecution_Read W fval) (\<lambda>x. Inr (v\<lparr>WorkflowExecutionInfo.Execution
             := Some x\<rparr>))
         else Inr v
       else if fid = 20 then
         if wire_api.Type W fval = TStruct
         then and_then (WorkflowType_Read W fval) (\<lambda>x. Inr (v\<lparr>WorkflowExecutionInfo.Type := Some
             x\<rparr>))
         else Inr v
       else if fid = 30 then
         if wire_api.Type W fval = TI64
         then Inr (v\<lparr>WorkflowExecutionInfo.StartTime := Some (GetI64 W fval)\<rparr>)
         else Inr v
       else if fid = 40 then
         if wire_api.Type W fval = TI64
         then Inr (v\<lparr>WorkflowExecutionInfo.CloseTime := Some (GetI64 W fval)\<rparr>)
         else Inr v
       else if fid = 50 then
         if wire_api.Type W fval = TI32
         then and_then (WorkflowExecutionCloseStatus_Read W fval) (\<lambda>x. Inr
             (v\<lparr>WorkflowExecutionInfo.CloseStatus := Some x\<rparr>))
         else Inr v
       else if fid = 60 then
         if wire_api.Type W fval = TI64
         then Inr (v\<lparr>WorkflowExecutionInfo.HistoryLength := Some (GetI64 W fval)\<rparr>)
         else Inr v
       else if fid = 70 then
         if wire_api.Type W fval = TBinary
         then Inr (v\<lparr>WorkflowExecutionInfo.ParentDomainId := Some (GetString W fval)\<rparr>)
         else Inr v
       else if fid = 80 then
         if wire_api.Type W fval = TStruct
         then and_then (WorkflowExecution_Read W fval) (\<lambda>x. Inr
             (v\<lparr>WorkflowExecutionInfo.ParentExecution := Some x\<rparr>))
         else Inr v
       else if fid = 90 then
         if wire_api.Type W fval = TI64
         then Inr (v\<lparr>WorkflowExecutionInfo.ExecutionTime := Some (GetI64 W fval)\<rparr>)
         else Inr v
       else if fid = 100 then
         if wire_api.Type W fval = TStruct
         then and_then (Memo_Read W fval) (\<lambda>x. Inr (v\<lparr>WorkflowExecutionInfo.Memo := Some x\<rparr>))
         else Inr v
       else if fid = 101 then
         if wire_api.Type W fval = TStruct
         then and_then (SearchAttributes_Read W fval) (\<lambda>x. Inr
             (v\<lparr>WorkflowExecutionInfo.SearchAttributes := Some x\<rparr>))
         else Inr v
       else if fid = 110 then
         if wire_api.Type W fval = TStruct
         then and_then (ResetPoints_Read W fval) (\<lambda>x. Inr (v\<lparr>WorkflowExecutionInfo.AutoResetPoints
             := Some x\<rparr>))
         else Inr v
       else Inr v) (GetStruct W w) v"

definition WorkflowExecutionInfo_Read :: "'v wire_api \<Rightarrow> 'v \<Rightarrow> go_error + WorkflowExecutionInfo" where
  "WorkflowExecutionInfo_Read W w = WorkflowExecutionInfo_FromWire W w WorkflowExecutionInfo_zero"

definition WorkflowExecutionInfo_complete :: "WorkflowExecutionInfo \<Rightarrow> bool" where
  "WorkflowExecutionInfo_complete v \<longleftrightarrow>
     if_set Memo_complete (WorkflowExecutionInfo.Memo v) \<and>
     if_set SearchAttributes_complete (WorkflowExecutionInfo.SearchAttributes v) \<and>
     if_set ResetPoints_complete (WorkflowExecutionInfo.AutoResetPoints v)"

lemma WorkflowExecutionInfo_merge:
  "(case x of None \<Rightarrow> Inr \<lparr>WorkflowExecutionInfo.Execution = a0, WorkflowExecutionInfo.Type = a1,
      WorkflowExecutionInfo.StartTime = a2, WorkflowExecutionInfo.CloseTime = a3,
      WorkflowExecutionInfo.CloseStatus = a4, WorkflowExecutionInfo.HistoryLength = a5,
      WorkflowExecutionInfo.ParentDomainId = a6, WorkflowExecutionInfo.ParentExecution = a7,
      WorkflowExecutionInfo.ExecutionTime = a8, WorkflowExecutionInfo.Memo = a9,
      WorkflowExecutionInfo.SearchAttributes = a10, WorkflowExecutionInfo.AutoResetPoints = a11\<rparr> |
      Some y \<Rightarrow> Inr \<lparr>WorkflowExecutionInfo.Execution = b0 y, WorkflowExecutionInfo.Type = b1 y,
      WorkflowExecutionInfo.StartTime = b2 y, WorkflowExecutionInfo.CloseTime = b3 y,
      WorkflowExecutionInfo.CloseStatus = b4 y, WorkflowExecutionInfo.HistoryLength = b5 y,
      WorkflowExecutionInfo.ParentDomainId = b6 y, WorkflowExecutionInfo.ParentExecution = b7 y,
      WorkflowExecutionInfo.ExecutionTime = b8 y, WorkflowExecutionInfo.Memo = b9 y,
      WorkflowExecutionInfo.SearchAttributes = b10 y, WorkflowExecutionInfo.AutoResetPoints = b11
      y\<rparr>) =
   Inr \<lparr>WorkflowExecutionInfo.Execution = (case x of None \<Rightarrow> a0 | Some y \<Rightarrow> b0 y),
       WorkflowExecutionInfo.Type = (case x of None \<Rightarrow> a1 | Some y \<Rightarrow> b1 y),
       WorkflowExecutionInfo.StartTime = (case x of None \<Rightarrow> a2 | Some y \<Rightarrow> b2 y),
       WorkflowExecutionInfo.CloseTime = (case x of None \<Rightarrow> a3 | Some y \<Rightarrow> b3 y),
       WorkflowExecutionInfo.CloseStatus = (case x of None \<Rightarrow> a4 | Some y \<Rightarrow> b4 y),
       WorkflowExecutionInfo.HistoryLength = (case x of None \<Rightarrow> a5 | Some y \<Rightarrow> b5 y),
       WorkflowExecutionInfo.ParentDomainId = (case x of None \<Rightarrow> a6 | Some y \<Rightarrow> b6 y),
       WorkflowExecutionInfo.ParentExecution = (case x of None \<Rightarrow> a7 | Some y \<Rightarrow> b7 y),
       WorkflowExecutionInfo.ExecutionTime = (case x of None \<Rightarrow> a8 | Some y \<Rightarrow> b8 y),
       WorkflowExecutionInfo.Memo = (case x of None \<Rightarrow> a9 | Some y \<Rightarrow> b9 y),
       WorkflowExecutionInfo.SearchAttributes = (case x of None \<Rightarrow> a10 | Some y \<Rightarrow> b10 y),
       WorkflowExecutionInfo.AutoResetPoints = (case x of None \<Rightarrow> a11 | Some y \<Rightarrow> b11 y)\<rparr>"
  by (cases x) simp_all

interpretation WorkflowExecutionInfo: thrift_message W
  "WorkflowExecutionInfo_ToWire W" "WorkflowExecutionInfo_FromWire W" WorkflowExecutionInfo_zero
      "WorkflowExecutionInfo_complete" for W
proof (rule thrift_messageI)
  fix x :: WorkflowExecutionInfo
  assume laws: "wire_laws W"
  obtain enc0 where e0: "Memo_ToWire W = (\<lambda>x. Inr (enc0 x))"
      "\<And>x. wire_api.Type W (enc0 x) = TStruct"
      "\<And>x. Writable W (enc0 x) \<longleftrightarrow> Memo_complete x"
      "\<And>x. Memo_complete x \<Longrightarrow> Memo_FromWire W (enc0 x) Memo_zero = Inr x"
    by (rule Memo.encoder [OF laws]) (rule that)
  obtain enc1 where e1: "ResetPoints_ToWire W = (\<lambda>x. Inr (enc1 x))"
      "\<And>x. wire_api.Type W (enc1 x) = TStruct"
      "\<And>x. Writable W (enc1 x) \<longleftrightarrow> ResetPoints_complete x"
      "\<And>x. ResetPoints_complete x \<Longrightarrow> ResetPoints_FromWire W (enc1 x) ResetPoints_zero = Inr x"
    by (rule ResetPoints.encoder [OF laws]) (rule that)
  obtain enc2 where e2: "SearchAttributes_ToWire W = (\<lambda>x. Inr (enc2 x))"
      "\<And>x. wire_api.Type W (enc2 x) = TStruct"
      "\<And>x. Writable W (enc2 x) \<longleftrightarrow> SearchAttributes_complete x"
      "\<And>x. SearchAttributes_complete x \<Longrightarrow> SearchAttributes_FromWire W (enc2 x) SearchAttributes_zero
          = Inr x"
    by (rule SearchAttributes.encoder [OF laws]) (rule that)
  obtain enc3 where e3: "WorkflowExecution_ToWire W = (\<lambda>x. Inr (enc3 x))"
      "\<And>x. wire_api.Type W (enc3 x) = TStruct"
      "\<And>x. Writable W (enc3 x) \<longleftrightarrow> (\<lambda>_. True) x"
      "\<And>x. (\<lambda>_. True) x \<Longrightarrow> WorkflowExecution_FromWire W (enc3 x) WorkflowExecution_zero = Inr x"
    by (rule WorkflowExecution.encoder [OF laws]) (rule that)
  obtain enc4 where e4: "WorkflowType_ToWire W = (\<lambda>x. Inr (enc4 x))"
      "\<And>x. wire_api.Type W (enc4 x) = TStruct"
      "\<And>x. Writable W (enc4 x) \<longleftrightarrow> (\<lambda>_. True) x"
      "\<And>x. (\<lambda>_. True) x \<Longrightarrow> WorkflowType_FromWire W (enc4 x) WorkflowType_zero = Inr x"
    by (rule WorkflowType.encoder [OF laws]) (rule that)
  show "\<exists>w. WorkflowExecutionInfo_ToWire W x = Inr w \<and> wire_api.Type W w = TStruct \<and>
      (Writable W w \<longleftrightarrow> WorkflowExecutionInfo_complete x) \<and> (WorkflowExecutionInfo_complete x \<longrightarrow>
          WorkflowExecutionInfo_FromWire W w WorkflowExecutionInfo_zero = Inr x)"
    by (cases x) (simp cong: option.case_cong add: codec_rules WorkflowExecutionInfo_merge
        WorkflowExecutionInfo_ToWire_def WorkflowExecutionInfo_FromWire_def
        WorkflowExecutionInfo_zero_def WorkflowExecutionInfo_complete_def if_set_def
        WorkflowExecutionCloseStatus_enc WorkflowExecutionCloseStatus_Read_def
        WorkflowExecutionCloseStatus_FromWire_def Memo_Read_def ResetPoints_Read_def
        SearchAttributes_Read_def WorkflowExecution_Read_def WorkflowType_Read_def laws e0 e1 e2 e3
        e4)
qed

definition WorkflowExecutionInfo_Equals ::
  "WorkflowExecutionInfo option \<Rightarrow> WorkflowExecutionInfo option \<Rightarrow> bool" where
  "WorkflowExecutionInfo_Equals v rhs =
     (case v of None \<Rightarrow> rhs = None
      | Some v \<Rightarrow> (case rhs of None \<Rightarrow> False
        | Some rhs \<Rightarrow>
          if \<not> both_set_and (\<lambda>x y. WorkflowExecution_Equals (Some x) (Some y))
              (WorkflowExecutionInfo.Execution v) (WorkflowExecutionInfo.Execution rhs) then False
              else
          if \<not> both_set_and (\<lambda>x y. WorkflowType_Equals (Some x) (Some y))
              (WorkflowExecutionInfo.Type v) (WorkflowExecutionInfo.Type rhs) then False else
          if \<not> I64_EqualsPtr (WorkflowExecutionInfo.StartTime v) (WorkflowExecutionInfo.StartTime
              rhs) then False else
          if \<not> I64_EqualsPtr (WorkflowExecutionInfo.CloseTime v) (WorkflowExecutionInfo.CloseTime
              rhs) then False else
          if \<not> WorkflowExecutionCloseStatus_EqualsPtr (WorkflowExecutionInfo.CloseStatus v)
              (WorkflowExecutionInfo.CloseStatus rhs) then False else
          if \<not> I64_EqualsPtr (WorkflowExecutionInfo.HistoryLength v)
              (WorkflowExecutionInfo.HistoryLength rhs) then False else
          if \<not> String_EqualsPtr (WorkflowExecutionInfo.ParentDomainId v)
              (WorkflowExecutionInfo.ParentDomainId rhs) then False else
          if \<not> both_set_and (\<lambda>x y. WorkflowExecution_Equals (Some x) (Some y))
              (WorkflowExecutionInfo.ParentExecution v) (WorkflowExecutionInfo.ParentExecution rhs)
              then False else
          if \<not> I64_EqualsPtr (WorkflowExecutionInfo.ExecutionTime v)
              (WorkflowExecutionInfo.ExecutionTime rhs) then False else
          if \<not> both_set_and (\<lambda>x y. Memo_Equals (Some x) (Some y)) (WorkflowExecutionInfo.Memo v)
              (WorkflowExecutionInfo.Memo rhs) then False else
          if \<not> both_set_and (\<lambda>x y. SearchAttributes_Equals (Some x) (Some y))
              (WorkflowExecutionInfo.SearchAttributes v) (WorkflowExecutionInfo.SearchAttributes
              rhs) then False else
          if \<not> both_set_and (\<lambda>x y. ResetPoints_Equals (Some x) (Some y))
              (WorkflowExecutionInfo.AutoResetPoints v) (WorkflowExecutionInfo.AutoResetPoints rhs)
              then False else
          True))"

definition WorkflowExecutionInfo_comparable :: "WorkflowExecutionInfo \<Rightarrow> bool" where
  "WorkflowExecutionInfo_comparable v \<longleftrightarrow>
     if_set Memo_comparable (WorkflowExecutionInfo.Memo v) \<and>
     if_set SearchAttributes_comparable (WorkflowExecutionInfo.SearchAttributes v)"

lemma WorkflowExecutionInfo_Equals_iff:
  "if_set WorkflowExecutionInfo_comparable x \<Longrightarrow> if_set WorkflowExecutionInfo_comparable y \<Longrightarrow>
      WorkflowExecutionInfo_Equals x y \<longleftrightarrow> x = y"
  by (cases x; cases y) (simp_all add: WorkflowExecutionInfo_Equals_def
      WorkflowExecutionInfo_comparable_def if_not_False,
    fastforce intro: WorkflowExecutionInfo.equality)

lemma WorkflowExecutionInfo_fields_equal [simp]:
  "if_set WorkflowExecutionInfo_comparable x \<Longrightarrow> if_set WorkflowExecutionInfo_comparable y \<Longrightarrow>
    both_set_and (\<lambda>x y. WorkflowExecutionInfo_Equals (Some x) (Some y)) x y \<longleftrightarrow> x = y"
  by (rule both_set_and_iff [where P = WorkflowExecutionInfo_comparable]) (simp_all add:
      WorkflowExecutionInfo_Equals_iff)

definition List_WorkflowExecutionInfo_ValueList :: "'v wire_api \<Rightarrow> WorkflowExecutionInfo option list
    \<Rightarrow> 'v ValueList" where
  "List_WorkflowExecutionInfo_ValueList W v =
     \<lparr>ValueList.ForEach = ptr_values (WorkflowExecutionInfo_ToWire W) v, Size = length v, ValueType
         = TStruct\<rparr>"

definition List_WorkflowExecutionInfo_Read :: "'v wire_api \<Rightarrow> 'v ValueList \<Rightarrow> go_error +
    WorkflowExecutionInfo option list option" where
  "List_WorkflowExecutionInfo_Read W l =
     (if ValueList.ValueType l \<noteq> TStruct then Inr None
      else and_then (for_each (ValueList.ForEach l)
        (\<lambda>out x. and_then (WorkflowExecutionInfo_Read W x) (\<lambda>i. Inr (out @ [Some i]))) []) (\<lambda>out.
            Inr (Some out)))"

definition List_WorkflowExecutionInfo_Equals :: "WorkflowExecutionInfo option list \<Rightarrow>
    WorkflowExecutionInfo option list \<Rightarrow> bool" where
  "List_WorkflowExecutionInfo_Equals lhs rhs = list_equals WorkflowExecutionInfo_Equals lhs rhs"

lemma List_WorkflowExecutionInfo_codec:
  assumes "wire_laws W"
  shows "list_all (delivered (Writable W)) (ValueList.ForEach (List_WorkflowExecutionInfo_ValueList
      W xs)) \<longleftrightarrow> list_all (present WorkflowExecutionInfo_complete) xs"
    and "list_all (present WorkflowExecutionInfo_complete) xs \<Longrightarrow> List_WorkflowExecutionInfo_Read W
        (List_WorkflowExecutionInfo_ValueList W xs) = Inr (Some xs)"
  using WorkflowExecutionInfo.ptr_values_writable [OF assms] WorkflowExecutionInfo.ptr_values_read
      [OF assms]
  by (simp_all add: List_WorkflowExecutionInfo_ValueList_def List_WorkflowExecutionInfo_Read_def
      WorkflowExecutionInfo_Read_def)

lemma List_WorkflowExecutionInfo_Equals_iff:
  "list_all (if_set WorkflowExecutionInfo_comparable) xs \<Longrightarrow> list_all (if_set
      WorkflowExecutionInfo_comparable) ys \<Longrightarrow> List_WorkflowExecutionInfo_Equals xs ys \<longleftrightarrow> xs = ys"
  unfolding List_WorkflowExecutionInfo_Equals_def by (rule list_equals_iff [where P = "if_set
      WorkflowExecutionInfo_comparable"]) (simp_all add: WorkflowExecutionInfo_Equals_iff)

lemma List_WorkflowExecutionInfo_fields_equal [simp]:
  "if_set (list_all (if_set WorkflowExecutionInfo_comparable)) x \<Longrightarrow> if_set (list_all (if_set
      WorkflowExecutionInfo_comparable)) y \<Longrightarrow>
    both_set_and List_WorkflowExecutionInfo_Equals x y \<longleftrightarrow> x = y"
  by (rule both_set_and_iff [where P = "list_all (if_set WorkflowExecutionInfo_comparable)"])
      (simp_all add: List_WorkflowExecutionInfo_Equals_iff)

record WorkflowQuery =
  QueryType :: "string option"
  QueryArgs :: "bytes option"

definition WorkflowQuery_zero :: WorkflowQuery where
  "WorkflowQuery_zero = \<lparr>WorkflowQuery.QueryType = None, WorkflowQuery.QueryArgs = None\<rparr>"

definition WorkflowQuery_ToWire ::
  "'v wire_api \<Rightarrow> WorkflowQuery \<Rightarrow> go_error + 'v" where
  "WorkflowQuery_ToWire W v =
     and_then (put_opt 10 (\<lambda>x. Inr (NewValueString W x)) (WorkflowQuery.QueryType v) [])
       (\<lambda>fields.
     and_then (put_opt 20 (\<lambda>x. Inr (NewValueBinary W x)) (WorkflowQuery.QueryArgs v) fields)
       (\<lambda>fields.
     Inr (NewValueStruct W fields)))"

definition WorkflowQuery_FromWire ::
  "'v wire_api \<Rightarrow> 'v \<Rightarrow> WorkflowQuery \<Rightarrow> go_error + WorkflowQuery" where
  "WorkflowQuery_FromWire W w v =
     foldM (\<lambda>v (fid, fval).
       if fid = 10 then
         if wire_api.Type W fval = TBinary
         then Inr (v\<lparr>WorkflowQuery.QueryType := Some (GetString W fval)\<rparr>)
         else Inr v
       else if fid = 20 then
         if wire_api.Type W fval = TBinary
         then Inr (v\<lparr>WorkflowQuery.QueryArgs := Some (GetBinary W fval)\<rparr>)
         else Inr v
       else Inr v) (GetStruct W w) v"

definition WorkflowQuery_Read :: "'v wire_api \<Rightarrow> 'v \<Rightarrow> go_error + WorkflowQuery" where
  "WorkflowQuery_Read W w = WorkflowQuery_FromWire W w WorkflowQuery_zero"

lemma WorkflowQuery_merge:
  "(case x of None \<Rightarrow> Inr \<lparr>WorkflowQuery.QueryType = a0, WorkflowQuery.QueryArgs = a1\<rparr> | Some y \<Rightarrow> Inr
      \<lparr>WorkflowQuery.QueryType = b0 y, WorkflowQuery.QueryArgs = b1 y\<rparr>) =
   Inr \<lparr>WorkflowQuery.QueryType = (case x of None \<Rightarrow> a0 | Some y \<Rightarrow> b0 y), WorkflowQuery.QueryArgs =
       (case x of None \<Rightarrow> a1 | Some y \<Rightarrow> b1 y)\<rparr>"
  by (cases x) simp_all

interpretation WorkflowQuery: thrift_message W
  "WorkflowQuery_ToWire W" "WorkflowQuery_FromWire W" WorkflowQuery_zero "\<lambda>_. True" for W
proof (rule thrift_messageI)
  fix x :: WorkflowQuery
  assume laws: "wire_laws W"
  show "\<exists>w. WorkflowQuery_ToWire W x = Inr w \<and> wire_api.Type W w = TStruct \<and>
      (Writable W w \<longleftrightarrow> (\<lambda>_. True) x) \<and> ((\<lambda>_. True) x \<longrightarrow> WorkflowQuery_FromWire W w WorkflowQuery_zero
          = Inr x)"
    by (cases x) (simp cong: option.case_cong add: codec_rules WorkflowQuery_merge
        WorkflowQuery_ToWire_def WorkflowQuery_FromWire_def WorkflowQuery_zero_def laws)
qed

definition WorkflowQuery_Equals ::
  "WorkflowQuery option \<Rightarrow> WorkflowQuery option \<Rightarrow> bool" where
  "WorkflowQuery_Equals v rhs =
     (case v of None \<Rightarrow> rhs = None
      | Some v \<Rightarrow> (case rhs of None \<Rightarrow> False
        | Some rhs \<Rightarrow>
          if \<not> String_EqualsPtr (WorkflowQuery.QueryType v) (WorkflowQuery.QueryType rhs) then False
              else
          if \<not> both_set_and (=) (WorkflowQuery.QueryArgs v) (WorkflowQuery.QueryArgs rhs) then False
              else
          True))"

lemma WorkflowQuery_Equals_iff [simp]: "WorkflowQuery_Equals x y \<longleftrightarrow> x = y"
  by (cases x; cases y) (auto simp: WorkflowQuery_Equals_def)

definition List_WorkflowQuery_ValueList :: "'v wire_api \<Rightarrow> WorkflowQuery option list \<Rightarrow> 'v ValueList"
    where
  "List_WorkflowQuery_ValueList W v =
     \<lparr>ValueList.ForEach = ptr_values (WorkflowQuery_ToWire W) v, Size = length v, ValueType =
         TStruct\<rparr>"

definition List_WorkflowQuery_Read :: "'v wire_api \<Rightarrow> 'v ValueList \<Rightarrow> go_error + WorkflowQuery option
    list option" where
  "List_WorkflowQuery_Read W l =
     (if ValueList.ValueType l \<noteq> TStruct then Inr None
      else and_then (for_each (ValueList.ForEach l)
        (\<lambda>out x. and_then (WorkflowQuery_Read W x) (\<lambda>i. Inr (out @ [Some i]))) []) (\<lambda>out. Inr (Some
            out)))"

definition List_WorkflowQuery_Equals :: "WorkflowQuery option list \<Rightarrow> WorkflowQuery option list \<Rightarrow>
    bool" where
  "List_WorkflowQuery_Equals lhs rhs = list_equals WorkflowQuery_Equals lhs rhs"

lemma List_WorkflowQuery_codec:
  assumes "wire_laws W"
  shows "list_all (delivered (Writable W)) (ValueList.ForEach (List_WorkflowQuery_ValueList W xs)) \<longleftrightarrow>
      list_all (present (\<lambda>_. True)) xs"
    and "list_all (present (\<lambda>_. True)) xs \<Longrightarrow> List_WorkflowQuery_Read W (List_WorkflowQuery_ValueList
        W xs) = Inr (Some xs)"
  using WorkflowQuery.ptr_values_writable [OF assms] WorkflowQuery.ptr_values_read [OF assms]
  by (simp_all add: List_WorkflowQuery_ValueList_def List_WorkflowQuery_Read_def
      WorkflowQuery_Read_def)

lemma List_WorkflowQuery_Equals_iff [simp]: "List_WorkflowQuery_Equals xs ys \<longleftrightarrow> xs = ys"
  unfolding List_WorkflowQuery_Equals_def by (rule list_equals_iff [where P = "\<lambda>_. True"]) (simp_all
      add: list.pred_True)

record WorkflowQueryResult =
  ResultType :: "QueryResultType option"
  Answer :: "bytes option"
  ErrorReason :: "string option"
  ErrorDetails :: "bytes option"

definition WorkflowQueryResult_zero :: WorkflowQueryResult where
  "WorkflowQueryResult_zero = \<lparr>WorkflowQueryResult.ResultType = None, WorkflowQueryResult.Answer =
      None, WorkflowQueryResult.ErrorReason = None, WorkflowQueryResult.ErrorDetails = None\<rparr>"

definition WorkflowQueryResult_ToWire ::
  "'v wire_api \<Rightarrow> WorkflowQueryResult \<Rightarrow> go_error + 'v" where
  "WorkflowQueryResult_ToWire W v =
     and_then (put_opt 10 (QueryResultType_ToWire W) (WorkflowQueryResult.ResultType v) [])
       (\<lambda>fields.
     and_then (put_opt 20 (\<lambda>x. Inr (NewValueBinary W x)) (WorkflowQueryResult.Answer v) fields)
       (\<lambda>fields.
     and_then (put_opt 30 (\<lambda>x. Inr (NewValueString W x)) (WorkflowQueryResult.ErrorReason v) fields)
       (\<lambda>fields.
     and_then (put_opt 40 (\<lambda>x. Inr (NewValueBinary W x)) (WorkflowQueryResult.ErrorDetails v)
         fields)
       (\<lambda>fields.
     Inr (NewValueStruct W fields)))))"

definition WorkflowQueryResult_FromWire ::
  "'v wire_api \<Rightarrow> 'v \<Rightarrow> WorkflowQueryResult \<Rightarrow> go_error + WorkflowQueryResult" where
  "WorkflowQueryResult_FromWire W w v =
     foldM (\<lambda>v (fid, fval).
       if fid = 10 then
         if wire_api.Type W fval = TI32
         then and_then (QueryResultType_Read W fval) (\<lambda>x. Inr (v\<lparr>WorkflowQueryResult.ResultType :=
             Some x\<rparr>))
         else Inr v
       else if fid = 20 then
         if wire_api.Type W fval = TBinary
         then Inr (v\<lparr>WorkflowQueryResult.Answer := Some (GetBinary W fval)\<rparr>)
         else Inr v
       else if fid = 30 then
         if wire_api.Type W fval = TBinary
         then Inr (v\<lparr>WorkflowQueryResult.ErrorReason := Some (GetString W fval)\<rparr>)
         else Inr v
       else if fid = 40 then
         if wire_api.Type W fval = TBinary
         then Inr (v\<lparr>WorkflowQueryResult.ErrorDetails := Some (GetBinary W fval)\<rparr>)
         else Inr v
       else Inr v) (GetStruct W w) v"

definition WorkflowQueryResult_Read :: "'v wire_api \<Rightarrow> 'v \<Rightarrow> go_error + WorkflowQueryResult" where
  "WorkflowQueryResult_Read W w = WorkflowQueryResult_FromWire W w WorkflowQueryResult_zero"

lemma WorkflowQueryResult_merge:
  "(case x of None \<Rightarrow> Inr \<lparr>WorkflowQueryResult.ResultType = a0, WorkflowQueryResult.Answer = a1,
      WorkflowQueryResult.ErrorReason = a2, WorkflowQueryResult.ErrorDetails = a3\<rparr> | Some y \<Rightarrow> Inr
      \<lparr>WorkflowQueryResult.ResultType = b0 y, WorkflowQueryResult.Answer = b1 y,
      WorkflowQueryResult.ErrorReason = b2 y, WorkflowQueryResult.ErrorDetails = b3 y\<rparr>) =
   Inr \<lparr>WorkflowQueryResult.ResultType = (case x of None \<Rightarrow> a0 | Some y \<Rightarrow> b0 y),
       WorkflowQueryResult.Answer = (case x of None \<Rightarrow> a1 | Some y \<Rightarrow> b1 y),
       WorkflowQueryResult.ErrorReason = (case x of None \<Rightarrow> a2 | Some y \<Rightarrow> b2 y),
       WorkflowQueryResult.ErrorDetails = (case x of None \<Rightarrow> a3 | Some y \<Rightarrow> b3 y)\<rparr>"
  by (cases x) simp_all

interpretation WorkflowQueryResult: thrift_message W
  "WorkflowQueryResult_ToWire W" "WorkflowQueryResult_FromWire W" WorkflowQueryResult_zero "\<lambda>_.
      True" for W
proof (rule thrift_messageI)
  fix x :: WorkflowQueryResult
  assume laws: "wire_laws W"
  show "\<exists>w. WorkflowQueryResult_ToWire W x = Inr w \<and> wire_api.Type W w = TStruct \<and>
      (Writable W w \<longleftrightarrow> (\<lambda>_. True) x) \<and> ((\<lambda>_. True) x \<longrightarrow> WorkflowQueryResult_FromWire W w
          WorkflowQueryResult_zero = Inr x)"
    by (cases x) (simp cong: option.case_cong add: codec_rules WorkflowQueryResult_merge
        WorkflowQueryResult_ToWire_def WorkflowQueryResult_FromWire_def WorkflowQueryResult_zero_def
        QueryResultType_enc QueryResultType_Read_def QueryResultType_FromWire_def laws)
qed

definition WorkflowQueryResult_Equals ::
  "WorkflowQueryResult option \<Rightarrow> WorkflowQueryResult option \<Rightarrow> bool" where
  "WorkflowQueryResult_Equals v rhs =
     (case v of None \<Rightarrow> rhs = None
      | Some v \<Rightarrow> (case rhs of None \<Rightarrow> False
        | Some rhs \<Rightarrow>
          if \<not> QueryResultType_EqualsPtr (WorkflowQueryResult.ResultType v)
              (WorkflowQueryResult.ResultType rhs) then False else
          if \<not> both_set_and (=) (WorkflowQueryResult.Answer v) (WorkflowQueryResult.Answer rhs) then
              False else
          if \<not> String_EqualsPtr (WorkflowQueryResult.ErrorReason v) (WorkflowQueryResult.ErrorReason
              rhs) then False else
          if \<not> both_set_and (=) (WorkflowQueryResult.ErrorDetails v)
              (WorkflowQueryResult.ErrorDetails rhs) then False else
          True))"

lemma WorkflowQueryResult_Equals_iff [simp]: "WorkflowQueryResult_Equals x y \<longleftrightarrow> x = y"
  by (cases x; cases y) (auto simp: WorkflowQueryResult_Equals_def)

definition List_WorkflowQueryResult_ValueList :: "'v wire_api \<Rightarrow> WorkflowQueryResult option list \<Rightarrow> 'v
    ValueList" where
  "List_WorkflowQueryResult_ValueList W v =
     \<lparr>ValueList.ForEach = ptr_values (WorkflowQueryResult_ToWire W) v, Size = length v, ValueType =
         TStruct\<rparr>"

definition List_WorkflowQueryResult_Read :: "'v wire_api \<Rightarrow> 'v ValueList \<Rightarrow> go_error +
    WorkflowQueryResult option list option" where
  "List_WorkflowQueryResult_Read W l =
     (if ValueList.ValueType l \<noteq> TStruct then Inr None
      else and_then (for_each (ValueList.ForEach l)
        (\<lambda>out x. and_then (WorkflowQueryResult_Read W x) (\<lambda>i. Inr (out @ [Some i]))) []) (\<lambda>out. Inr
            (Some out)))"

definition List_WorkflowQueryResult_Equals :: "WorkflowQueryResult option list \<Rightarrow> WorkflowQueryResult
    option list \<Rightarrow> bool" where
  "List_WorkflowQueryResult_Equals lhs rhs = list_equals WorkflowQueryResult_Equals lhs rhs"

lemma List_WorkflowQueryResult_codec:
  assumes "wire_laws W"
  shows "list_all (delivered (Writable W)) (ValueList.ForEach (List_WorkflowQueryResult_ValueList W
      xs)) \<longleftrightarrow> list_all (present (\<lambda>_. True)) xs"
    and "list_all (present (\<lambda>_. True)) xs \<Longrightarrow> List_WorkflowQueryResult_Read W
        (List_WorkflowQueryResult_ValueList W xs) = Inr (Some xs)"
  using WorkflowQueryResult.ptr_values_writable [OF assms] WorkflowQueryResult.ptr_values_read [OF
      assms]
  by (simp_all add: List_WorkflowQueryResult_ValueList_def List_WorkflowQueryResult_Read_def
      WorkflowQueryResult_Read_def)

lemma List_WorkflowQueryResult_Equals_iff [simp]: "List_WorkflowQueryResult_Equals xs ys \<longleftrightarrow> xs = ys"
  unfolding List_WorkflowQueryResult_Equals_def by (rule list_equals_iff [where P = "\<lambda>_. True"])
      (simp_all add: list.pred_True)

record WorkflowTypeFilter =
  Name :: "string option"

definition WorkflowTypeFilter_zero :: WorkflowTypeFilter where
  "WorkflowTypeFilter_zero = \<lparr>WorkflowTypeFilter.Name = None\<rparr>"

definition WorkflowTypeFilter_ToWire ::
  "'v wire_api \<Rightarrow> WorkflowTypeFilter \<Rightarrow> go_error + 'v" where
  "WorkflowTypeFilter_ToWire W v =
     and_then (put_opt 10 (\<lambda>x. Inr (NewValueString W x)) (WorkflowTypeFilter.Name v) [])
       (\<lambda>fields.
     Inr (NewValueStruct W fields))"

definition WorkflowTypeFilter_FromWire ::
  "'v wire_api \<Rightarrow> 'v \<Rightarrow> WorkflowTypeFilter \<Rightarrow> go_error + WorkflowTypeFilter" where
  "WorkflowTypeFilter_FromWire W w v =
     foldM (\<lambda>v (fid, fval).
       if fid = 10 then
         if wire_api.Type W fval = TBinary
         then Inr (v\<lparr>WorkflowTypeFilter.Name := Some (GetString W fval)\<rparr>)
         else Inr v
       else Inr v) (GetStruct W w) v"

definition WorkflowTypeFilter_Read :: "'v wire_api \<Rightarrow> 'v \<Rightarrow> go_error + WorkflowTypeFilter" where
  "WorkflowTypeFilter_Read W w = WorkflowTypeFilter_FromWire W w WorkflowTypeFilter_zero"

lemma WorkflowTypeFilter_merge:
  "(case x of None \<Rightarrow> Inr \<lparr>WorkflowTypeFilter.Name = a0\<rparr> | Some y \<Rightarrow> Inr \<lparr>WorkflowTypeFilter.Name = b0
      y\<rparr>) =
   Inr \<lparr>WorkflowTypeFilter.Name = (case x of None \<Rightarrow> a0 | Some y \<Rightarrow> b0 y)\<rparr>"
  by (cases x) simp_all

interpretation WorkflowTypeFilter: thrift_message W
  "WorkflowTypeFilter_ToWire W" "WorkflowTypeFilter_FromWire W" WorkflowTypeFilter_zero "\<lambda>_. True"
      for W
proof (rule thrift_messageI)
  fix x :: WorkflowTypeFilter
  assume laws: "wire_laws W"
  show "\<exists>w. WorkflowTypeFilter_ToWire W x = Inr w \<and> wire_api.Type W w = TStruct \<and>
      (Writable W w \<longleftrightarrow> (\<lambda>_. True) x) \<and> ((\<lambda>_. True) x \<longrightarrow> WorkflowTypeFilter_FromWire W w
          WorkflowTypeFilter_zero = Inr x)"
    by (cases x) (simp cong: option.case_cong add: codec_rules WorkflowTypeFilter_merge
        WorkflowTypeFilter_ToWire_def WorkflowTypeFilter_FromWire_def WorkflowTypeFilter_zero_def
        laws)
qed

definition WorkflowTypeFilter_Equals ::
  "WorkflowTypeFilter option \<Rightarrow> WorkflowTypeFilter option \<Rightarrow> bool" where
  "WorkflowTypeFilter_Equals v rhs =
     (case v of None \<Rightarrow> rhs = None
      | Some v \<Rightarrow> (case rhs of None \<Rightarrow> False
        | Some rhs \<Rightarrow>
          if \<not> String_EqualsPtr (WorkflowTypeFilter.Name v) (WorkflowTypeFilter.Name rhs) then False
              else
          True))"

lemma WorkflowTypeFilter_Equals_iff [simp]: "WorkflowTypeFilter_Equals x y \<longleftrightarrow> x = y"
  by (cases x; cases y) (auto simp: WorkflowTypeFilter_Equals_def)

end
