(* ===== verification/GoRequests.thy ===== *)
theory GoRequests
  imports GoInfos
begin

text \<open>
  The other requests and responses of the service (proxy/gen/shared/shared.go), with their codecs
  and comparisons.
\<close>

record CloseShardRequest =
  ShardID :: "32 word option"

definition CloseShardRequest_zero :: CloseShardRequest where
  "CloseShardRequest_zero = \<lparr>CloseShardRequest.ShardID = None\<rparr>"

definition CloseShardRequest_ToWire ::
  "'v wire_api \<Rightarrow> CloseShardRequest \<Rightarrow> go_error + 'v" where
  "CloseShardRequest_ToWire W v =
     and_then (put_opt 10 (\<lambda>x. Inr (NewValueI32 W x)) (CloseShardRequest.ShardID v) [])
       (\<lambda>fields.
     Inr (NewValueStruct W fields))"

definition CloseShardRequest_FromWire ::
  "'v wire_api \<Rightarrow> 'v \<Rightarrow> CloseShardRequest \<Rightarrow> go_error + CloseShardRequest" where
  "CloseShardRequest_FromWire W w v =
     foldM (\<lambda>v (fid, fval).
       if fid = 10 then
         if wire_api.Type W fval = TI32
         then Inr (v\<lparr>CloseShardRequest.ShardID := Some (GetI32 W fval)\<rparr>)
         else Inr v
       else Inr v) (GetStruct W w) v"

lemma CloseShardRequest_merge:
  "(case x of None \<Rightarrow> Inr \<lparr>CloseShardRequest.ShardID = a0\<rparr> | Some y \<Rightarrow> Inr \<lparr>CloseShardRequest.ShardID
      = b0 y\<rparr>) =
   Inr \<lparr>CloseShardRequest.ShardID = (case x of None \<Rightarrow> a0 | Some y \<Rightarrow> b0 y)\<rparr>"
  by (cases x) simp_all

interpretation CloseShardRequest: thrift_message W
  "CloseShardRequest_ToWire W" "CloseShardRequest_FromWire W" CloseShardRequest_zero "\<lambda>_. True" for
      W
proof (rule thrift_messageI)
  fix x :: CloseShardRequest
  assume laws: "wire_laws W"
  show "\<exists>w. CloseShardRequest_ToWire W x = Inr w \<and> wire_api.Type W w = TStruct \<and>
      (Writable W w \<longleftrightarrow> (\<lambda>_. True) x) \<and> ((\<lambda>_. True) x \<longrightarrow> CloseShardRequest_FromWire W w
          CloseShardRequest_zero = Inr x)"
    by (cases x) (simp cong: option.case_cong add: codec_rules CloseShardRequest_merge
        CloseShardRequest_ToWire_def CloseShardRequest_FromWire_def CloseShardRequest_zero_def laws)
qed

definition CloseShardRequest_Equals ::
  "CloseShardRequest option \<Rightarrow> CloseShardRequest option \<Rightarrow> bool" where
  "CloseShardRequest_Equals v rhs =
     (case v of None \<Rightarrow> rhs = None
      | Some v \<Rightarrow> (case rhs of None \<Rightarrow> False
        | Some rhs \<Rightarrow>
          if \<not> I32_EqualsPtr (CloseShardRequest.ShardID v) (CloseShardRequest.ShardID rhs) then
              False else
          True))"

lemma CloseShardRequest_Equals_iff [simp]: "CloseShardRequest_Equals x y \<longleftrightarrow> x = y"
  by (cases x; cases y) (auto simp: CloseShardRequest_Equals_def)

record CountWorkflowExecutionsRequest =
  Domain :: "string option"
  Query :: "string option"

definition CountWorkflowExecutionsRequest_zero :: CountWorkflowExecutionsRequest where
  "CountWorkflowExecutionsRequest_zero = \<lparr>CountWorkflowExecutionsRequest.Domain = None,
      CountWorkflowExecutionsRequest.Query = None\<rparr>"

definition CountWorkflowExecutionsRequest_ToWire ::
  "'v wire_api \<Rightarrow> CountWorkflowExecutionsRequest \<Rightarrow> go_error + 'v" where
  "CountWorkflowExecutionsRequest_ToWire W v =
     and_then (put_opt 10 (\<lambda>x. Inr (NewValueString W x)) (CountWorkflowExecutionsRequest.Domain v)
         [])
       (\<lambda>fields.
     and_then (put_opt 20 (\<lambda>x. Inr (NewValueString W x)) (CountWorkflowExecutionsRequest.Query v)
         fields)
       (\<lambda>fields.
     Inr (NewValueStruct W fields)))"

definition CountWorkflowExecutionsRequest_FromWire ::
  "'v wire_api \<Rightarrow> 'v \<Rightarrow> CountWorkflowExecutionsRequest \<Rightarrow> go_error + CountWorkflowExecutionsRequest"
      where
  "CountWorkflowExecutionsRequest_FromWire W w v =
     foldM (\<lambda>v (fid, fval).
       if fid = 10 then
         if wire_api.Type W fval = TBinary
         then Inr (v\<lparr>CountWorkflowExecutionsRequest.Domain := Some (GetString W fval)\<rparr>)
         else Inr v
       else if fid = 20 then
         if wire_api.Type W fval = TBinary
         then Inr (v\<lparr>CountWorkflowExecutionsRequest.Query := Some (GetString W fval)\<rparr>)
         else Inr v
       else Inr v) (GetStruct W w) v"

definition CountWorkflowExecutionsRequest_Read :: "'v wire_api \<Rightarrow> 'v \<Rightarrow> go_error +
    CountWorkflowExecutionsRequest" where
  "CountWorkflowExecutionsRequest_Read W w = CountWorkflowExecutionsRequest_FromWire W w
      CountWorkflowExecutionsRequest_zero"

lemma CountWorkflowExecutionsRequest_merge:
  "(case x of None \<Rightarrow> Inr \<lparr>CountWorkflowExecutionsRequest.Domain = a0,
      CountWorkflowExecutionsRequest.Query = a1\<rparr> | Some y \<Rightarrow> Inr
      \<lparr>CountWorkflowExecutionsRequest.Domain = b0 y, CountWorkflowExecutionsRequest.Query = b1 y\<rparr>) =
   Inr \<lparr>CountWorkflowExecutionsRequest.Domain = (case x of None \<Rightarrow> a0 | Some y \<Rightarrow> b0 y),
       CountWorkflowExecutionsRequest.Query = (case x of None \<Rightarrow> a1 | Some y \<Rightarrow> b1 y)\<rparr>"
  by (cases x) simp_all

interpretation CountWorkflowExecutionsRequest: thrift_message W
  "CountWorkflowExecutionsRequest_ToWire W" "CountWorkflowExecutionsRequest_FromWire W"
      CountWorkflowExecutionsRequest_zero "\<lambda>_. True" for W
proof (rule thrift_messageI)
  fix x :: CountWorkflowExecutionsRequest
  assume laws: "wire_laws W"
  show "\<exists>w. CountWorkflowExecutionsRequest_ToWire W x = Inr w \<and> wire_api.Type W w = TStruct \<and>
      (Writable W w \<longleftrightarrow> (\<lambda>_. True) x) \<and> ((\<lambda>_. True) x \<longrightarrow> CountWorkflowExecutionsRequest_FromWire W w
          CountWorkflowExecutionsRequest_zero = Inr x)"
    by (cases x) (simp cong: option.case_cong add: codec_rules CountWorkflowExecutionsRequest_merge
        CountWorkflowExecutionsRequest_ToWire_def CountWorkflowExecutionsRequest_FromWire_def
        CountWorkflowExecutionsRequest_zero_def laws)
qed

definition CountWorkflowExecutionsRequest_Equals ::
  "CountWorkflowExecutionsRequest option \<Rightarrow> CountWorkflowExecutionsRequest option \<Rightarrow> bool" where
  "CountWorkflowExecutionsRequest_Equals v rhs =
     (case v of None \<Rightarrow> rhs = None
      | Some v \<Rightarrow> (case rhs of None \<Rightarrow> False
        | Some rhs \<Rightarrow>
          if \<not> String_EqualsPtr (CountWorkflowExecutionsRequest.Domain v)
              (CountWorkflowExecutionsRequest.Domain rhs) then False else
          if \<not> String_EqualsPtr (CountWorkflowExecutionsRequest.Query v)
              (CountWorkflowExecutionsRequest.Query rhs) then False else
          True))"

lemma CountWorkflowExecutionsRequest_Equals_iff [simp]: "CountWorkflowExecutionsRequest_Equals x y \<longleftrightarrow>
    x = y"
  by (cases x; cases y) (auto simp: CountWorkflowExecutionsRequest_Equals_def)

record CountWorkflowExecutionsResponse =
  Count :: "64 word option"

definition CountWorkflowExecutionsResponse_zero :: CountWorkflowExecutionsResponse where
  "CountWorkflowExecutionsResponse_zero = \<lparr>CountWorkflowExecutionsResponse.Count = None\<rparr>"

definition CountWorkflowExecutionsResponse_ToWire ::
  "'v wire_api \<Rightarrow> CountWorkflowExecutionsResponse \<Rightarrow> go_error + 'v" where
  "CountWorkflowExecutionsResponse_ToWire W v =
     and_then (put_opt 10 (\<lambda>x. Inr (NewValueI64 W x)) (CountWorkflowExecutionsResponse.Count v) [])
       (\<lambda>fields.
     Inr (NewValueStruct W fields))"

definition CountWorkflowExecutionsResponse_FromWire ::
  "'v wire_api \<Rightarrow> 'v \<Rightarrow> CountWorkflowExecutionsResponse \<Rightarrow> go_error + CountWorkflowExecutionsResponse"
      where
  "CountWorkflowExecutionsResponse_FromWire W w v =
     foldM (\<lambda>v (fid, fval).
       if fid = 10 then
         if wire_api.Type W fval = TI64
         then Inr (v\<lparr>CountWorkflowExecutionsResponse.Count := Some (GetI64 W fval)\<rparr>)
         else Inr v
       else Inr v) (GetStruct W w) v"

definition CountWorkflowExecutionsResponse_Read :: "'v wire_api \<Rightarrow> 'v \<Rightarrow> go_error +
    CountWorkflowExecutionsResponse" where
  "CountWorkflowExecutionsResponse_Read W w = CountWorkflowExecutionsResponse_FromWire W w
      CountWorkflowExecutionsResponse_zero"

lemma CountWorkflowExecutionsResponse_merge:
  "(case x of None \<Rightarrow> Inr \<lparr>CountWorkflowExecutionsResponse.Count = a0\<rparr> | Some y \<Rightarrow> Inr
      \<lparr>CountWorkflowExecutionsResponse.Count = b0 y\<rparr>) =
   Inr \<lparr>CountWorkflowExecutionsResponse.Count = (case x of None \<Rightarrow> a0 | Some y \<Rightarrow> b0 y)\<rparr>"
  by (cases x) simp_all

interpretation CountWorkflowExecutionsResponse: thrift_message W
  "CountWorkflowExecutionsResponse_ToWire W" "CountWorkflowExecutionsResponse_FromWire W"
      CountWorkflowExecutionsResponse_zero "\<lambda>_. True" for W
proof (rule thrift_messageI)
  fix x :: CountWorkflowExecutionsResponse
  assume laws: "wire_laws W"
  show "\<exists>w. CountWorkflowExecutionsResponse_ToWire W x = Inr w \<and> wire_api.Type W w = TStruct \<and>
      (Writable W w \<longleftrightarrow> (\<lambda>_. True) x) \<and> ((\<lambda>_. True) x \<longrightarrow> CountWorkflowExecutionsResponse_FromWire W w
          CountWorkflowExecutionsResponse_zero = Inr x)"
    by (cases x) (simp cong: option.case_cong add: codec_rules CountWorkflowExecutionsResponse_merge
        CountWorkflowExecutionsResponse_ToWire_def CountWorkflowExecutionsResponse_FromWire_def
        CountWorkflowExecutionsResponse_zero_def laws)
qed

definition CountWorkflowExecutionsResponse_Equals ::
  "CountWorkflowExecutionsResponse option \<Rightarrow> CountWorkflowExecutionsResponse option \<Rightarrow> bool" where
  "CountWorkflowExecutionsResponse_Equals v rhs =
     (case v of None \<Rightarrow> rhs = None
      | Some v \<Rightarrow> (case rhs of None \<Rightarrow> False
        | Some rhs \<Rightarrow>
          if \<not> I64_EqualsPtr (CountWorkflowExecutionsResponse.Count v)
              (CountWorkflowExecutionsResponse.Count rhs) then False else
          True))"

lemma CountWorkflowExecutionsResponse_Equals_iff [simp]: "CountWorkflowExecutionsResponse_Equals x y
    \<longleftrightarrow> x = y"
  by (cases x; cases y) (auto simp: CountWorkflowExecutionsResponse_Equals_def)

record DescribeHistoryHostRequest =
  HostAddress :: "string option"
  ShardIdForHost :: "32 word option"
  ExecutionForHost :: "WorkflowExecution option"

definition DescribeHistoryHostRequest_zero :: DescribeHistoryHostRequest where
  "DescribeHistoryHostRequest_zero = \<lparr>DescribeHistoryHostRequest.HostAddress = None,
      DescribeHistoryHostRequest.ShardIdForHost = None, DescribeHistoryHostRequest.ExecutionForHost
      = None\<rparr>"

definition DescribeHistoryHostRequest_ToWire ::
  "'v wire_api \<Rightarrow> DescribeHistoryHostRequest \<Rightarrow> go_error + 'v" where
  "DescribeHistoryHostRequest_ToWire W v =
     and_then (put_opt 10 (\<lambda>x. Inr (NewValueString W x)) (DescribeHistoryHostRequest.HostAddress v)
         [])
       (\<lambda>fields.
     and_then (put_opt 20 (\<lambda>x. Inr (NewValueI32 W x)) (DescribeHistoryHostRequest.ShardIdForHost v)
         fields)
       (\<lambda>fields.
     and_then (put_opt 30 (WorkflowExecution_ToWire W) (DescribeHistoryHostRequest.ExecutionForHost
         v) fields)
       (\<lambda>fields.
     Inr (NewValueStruct W fields))))"

definition DescribeHistoryHostRequest_FromWire ::
  "'v wire_api \<Rightarrow> 'v \<Rightarrow> DescribeHistoryHostRequest \<Rightarrow> go_error + DescribeHistoryHostRequest" where
  "DescribeHistoryHostRequest_FromWire W w v =
     foldM (\<lambda>v (fid, fval).
       if fid = 10 then
         if wire_api.Type W fval = TBinary
         then Inr (v\<lparr>DescribeHistoryHostRequest.HostAddress := Some (GetString W fval)\<rparr>)
         else Inr v
       else if fid = 20 then
         if wire_api.Type W fval = TI32
         then Inr (v\<lparr>DescribeHistoryHostRequest.ShardIdForHost := Some (GetI32 W fval)\<rparr>)
         else Inr v
       else if fid = 30 then
         if wire_api.Type W fval = TStruct
         then and_then (WorkflowExecution_Read W fval) (\<lambda>x. Inr
             (v\<lparr>DescribeHistoryHostRequest.ExecutionForHost := Some x\<rparr>))
         else Inr v
       else Inr v) (GetStruct W w) v"

lemma DescribeHistoryHostRequest_merge:
  "(case x of None \<Rightarrow> Inr \<lparr>DescribeHistoryHostRequest.HostAddress = a0,
      DescribeHistoryHostRequest.ShardIdForHost = a1, DescribeHistoryHostRequest.ExecutionForHost =
      a2\<rparr> | Some y \<Rightarrow> Inr \<lparr>DescribeHistoryHostRequest.HostAddress = b0 y,
      DescribeHistoryHostRequest.ShardIdForHost = b1 y, DescribeHistoryHostRequest.ExecutionForHost
      = b2 y\<rparr>) =
   Inr \<lparr>DescribeHistoryHostRequest.HostAddress = (case x of None \<Rightarrow> a0 | Some y \<Rightarrow> b0 y),
       DescribeHistoryHostRequest.ShardIdForHost = (case x of None \<Rightarrow> a1 | Some y \<Rightarrow> b1 y),
       DescribeHistoryHostRequest.ExecutionForHost = (case x of None \<Rightarrow> a2 | Some y \<Rightarrow> b2 y)\<rparr>"
  by (cases x) simp_all

interpretation DescribeHistoryHostRequest: thrift_message W
  "DescribeHistoryHostRequest_ToWire W" "DescribeHistoryHostRequest_FromWire W"
      DescribeHistoryHostRequest_zero "\<lambda>_. True" for W
proof (rule thrift_messageI)
  fix x :: DescribeHistoryHostRequest
  assume laws: "wire_laws W"
  obtain enc0 where e0: "WorkflowExecution_ToWire W = (\<lambda>x. Inr (enc0 x))"
      "\<And>x. wire_api.Type W (enc0 x) = TStruct"
      "\<And>x. Writable W (enc0 x) \<longleftrightarrow> (\<lambda>_. True) x"
      "\<And>x. (\<lambda>_. True) x \<Longrightarrow> WorkflowExecution_FromWire W (enc0 x) WorkflowExecution_zero = Inr x"
    by (rule WorkflowExecution.encoder [OF laws]) (rule that)
  show "\<exists>w. DescribeHistoryHostRequest_ToWire W x = Inr w \<and> wire_api.Type W w = TStruct \<and>
      (Writable W w \<longleftrightarrow> (\<lambda>_. True) x) \<and> ((\<lambda>_. True) x \<longrightarrow> DescribeHistoryHostRequest_FromWire W w
          DescribeHistoryHostRequest_zero = Inr x)"
    by (cases x) (simp cong: option.case_cong add: codec_rules DescribeHistoryHostRequest_merge
        DescribeHistoryHostRequest_ToWire_def DescribeHistoryHostRequest_FromWire_def
        DescribeHistoryHostRequest_zero_def WorkflowExecution_Read_def laws e0)
qed

definition DescribeHistoryHostRequest_Equals ::
  "DescribeHistoryHostRequest option \<Rightarrow> DescribeHistoryHostRequest option \<Rightarrow> bool" where
  "DescribeHistoryHostRequest_Equals v rhs =
     (case v of None \<Rightarrow> rhs = None
      | Some v \<Rightarrow> (case rhs of None \<Rightarrow> False
        | Some rhs \<Rightarrow>
          if \<not> String_EqualsPtr (DescribeHistoryHostRequest.HostAddress v)
              (DescribeHistoryHostRequest.HostAddress rhs) then False else
          if \<not> I32_EqualsPtr (DescribeHistoryHostRequest.ShardIdForHost v)
              (DescribeHistoryHostRequest.ShardIdForHost rhs) then False else
          if \<not> both_set_and (\<lambda>x y. WorkflowExecution_Equals (Some x) (Some y))
              (DescribeHistoryHostRequest.ExecutionForHost v)
              (DescribeHistoryHostRequest.ExecutionForHost rhs) then False else
          True))"

lemma DescribeHistoryHostRequest_Equals_iff [simp]: "DescribeHistoryHostRequest_Equals x y \<longleftrightarrow> x = y"
  by (cases x; cases y) (auto simp: DescribeHistoryHostRequest_Equals_def)

record DescribeHistoryHostResponse =
  NumberOfShards :: "32 word option"
  ShardIDs :: "32 word list option"
  DomainCache :: "DomainCacheInfo option"
  ShardControllerStatus :: "string option"
  Address :: "string option"

definition DescribeHistoryHostResponse_zero :: DescribeHistoryHostResponse where
  "DescribeHistoryHostResponse_zero = \<lparr>DescribeHistoryHostResponse.NumberOfShards = None,
      DescribeHistoryHostResponse.ShardIDs = None, DescribeHistoryHostResponse.DomainCache = None,
      DescribeHistoryHostResponse.ShardControllerStatus = None, DescribeHistoryHostResponse.Address
      = None\<rparr>"

definition DescribeHistoryHostResponse_ToWire ::
  "'v wire_api \<Rightarrow> DescribeHistoryHostResponse \<Rightarrow> go_error + 'v" where
  "DescribeHistoryHostResponse_ToWire W v =
     and_then (put_opt 10 (\<lambda>x. Inr (NewValueI32 W x)) (DescribeHistoryHostResponse.NumberOfShards v)
         [])
       (\<lambda>fields.
     and_then (put_opt 20 (\<lambda>x. Inr (NewValueList W (List_I32_ValueList W x)))
         (DescribeHistoryHostResponse.ShardIDs v) fields)
       (\<lambda>fields.
     and_then (put_opt 30 (DomainCacheInfo_ToWire W) (DescribeHistoryHostResponse.DomainCache v)
         fields)
       (\<lambda>fields.
     and_then (put_opt 40 (\<lambda>x. Inr (NewValueString W x))
         (DescribeHistoryHostResponse.ShardControllerStatus v) fields)
       (\<lambda>fields.
     and_then (put_opt 50 (\<lambda>x. Inr (NewValueString W x)) (DescribeHistoryHostResponse.Address v)
         fields)
       (\<lambda>fields.
     Inr (NewValueStruct W fields))))))"

definition DescribeHistoryHostResponse_FromWire ::
  "'v wire_api \<Rightarrow> 'v \<Rightarrow> DescribeHistoryHostResponse \<Rightarrow> go_error + DescribeHistoryHostResponse" where
  "DescribeHistoryHostResponse_FromWire W w v =
     foldM (\<lambda>v (fid, fval).
       if fid = 10 then
         if wire_api.Type W fval = TI32
         then Inr (v\<lparr>DescribeHistoryHostResponse.NumberOfShards := Some (GetI32 W fval)\<rparr>)
         else Inr v
       else if fid = 20 then
         if wire_api.Type W fval = TList
         then and_then (List_I32_Read W (GetList W fval)) (\<lambda>x. Inr
             (v\<lparr>DescribeHistoryHostResponse.ShardIDs := x\<rparr>))
         else Inr v
       else if fid = 30 then
         if wire_api.Type W fval = TStruct
         then and_then (DomainCacheInfo_Read W fval) (\<lambda>x. Inr
             (v\<lparr>DescribeHistoryHostResponse.DomainCache := Some x\<rparr>))
         else Inr v
       else if fid = 40 then
         if wire_api.Type W fval = TBinary
         then Inr (v\<lparr>DescribeHistoryHostResponse.ShardControllerStatus := Some (GetString W fval)\<rparr>)
         else Inr v
       else if fid = 50 then
         if wire_api.Type W fval = TBinary
         then Inr (v\<lparr>DescribeHistoryHostResponse.Address := Some (GetString W fval)\<rparr>)
         else Inr v
       else Inr v) (GetStruct W w) v"

lemma DescribeHistoryHostResponse_merge:
  "(case x of None \<Rightarrow> Inr \<lparr>DescribeHistoryHostResponse.NumberOfShards = a0,
      DescribeHistoryHostResponse.ShardIDs = a1, DescribeHistoryHostResponse.DomainCache = a2,
      DescribeHistoryHostResponse.ShardControllerStatus = a3, DescribeHistoryHostResponse.Address =
      a4\<rparr> | Some y \<Rightarrow> Inr \<lparr>DescribeHistoryHostResponse.NumberOfShards = b0 y,
      DescribeHistoryHostResponse.ShardIDs = b1 y, DescribeHistoryHostResponse.DomainCache = b2 y,
      DescribeHistoryHostResponse.ShardControllerStatus = b3 y, DescribeHistoryHostResponse.Address
      = b4 y\<rparr>) =
   Inr \<lparr>DescribeHistoryHostResponse.NumberOfShards = (case x of None \<Rightarrow> a0 | Some y \<Rightarrow> b0 y),
       DescribeHistoryHostResponse.ShardIDs = (case x of None \<Rightarrow> a1 | Some y \<Rightarrow> b1 y),
       DescribeHistoryHostResponse.DomainCache = (case x of None \<Rightarrow> a2 | Some y \<Rightarrow> b2 y),
       DescribeHistoryHostResponse.ShardControllerStatus = (case x of None \<Rightarrow> a3 | Some y \<Rightarrow> b3 y),
       DescribeHistoryHostResponse.Address = (case x of None \<Rightarrow> a4 | Some y \<Rightarrow> b4 y)\<rparr>"
  by (cases x) simp_all

interpretation DescribeHistoryHostResponse: thrift_message W
  "DescribeHistoryHostResponse_ToWire W" "DescribeHistoryHostResponse_FromWire W"
      DescribeHistoryHostResponse_zero "\<lambda>_. True" for W
proof (rule thrift_messageI)
  fix x :: DescribeHistoryHostResponse
  assume laws: "wire_laws W"
  obtain enc0 where e0: "DomainCacheInfo_ToWire W = (\<lambda>x. Inr (enc0 x))"
      "\<And>x. wire_api.Type W (enc0 x) = TStruct"
      "\<And>x. Writable W (enc0 x) \<longleftrightarrow> (\<lambda>_. True) x"
      "\<And>x. (\<lambda>_. True) x \<Longrightarrow> DomainCacheInfo_FromWire W (enc0 x) DomainCacheInfo_zero = Inr x"
    by (rule DomainCacheInfo.encoder [OF laws]) (rule that)
  show "\<exists>w. DescribeHistoryHostResponse_ToWire W x = Inr w \<and> wire_api.Type W w = TStruct \<and>
      (Writable W w \<longleftrightarrow> (\<lambda>_. True) x) \<and> ((\<lambda>_. True) x \<longrightarrow> DescribeHistoryHostResponse_FromWire W w
          DescribeHistoryHostResponse_zero = Inr x)"
    by (cases x) (simp cong: option.case_cong add: codec_rules DescribeHistoryHostResponse_merge
        DescribeHistoryHostResponse_ToWire_def DescribeHistoryHostResponse_FromWire_def
        DescribeHistoryHostResponse_zero_def DomainCacheInfo_Read_def List_I32_codec [OF laws] laws
        e0)
qed

definition DescribeHistoryHostResponse_Equals ::
  "DescribeHistoryHostResponse option \<Rightarrow> DescribeHistoryHostResponse option \<Rightarrow> bool" where
  "DescribeHistoryHostResponse_Equals v rhs =
     (case v of None \<Rightarrow> rhs = None
      | Some v \<Rightarrow> (case rhs of None \<Rightarrow> False
        | Some rhs \<Rightarrow>
          if \<not> I32_EqualsPtr (DescribeHistoryHostResponse.NumberOfShards v)
              (DescribeHistoryHostResponse.NumberOfShards rhs) then False else
          if \<not> both_set_and List_I32_Equals (DescribeHistoryHostResponse.ShardIDs v)
              (DescribeHistoryHostResponse.ShardIDs rhs) then False else
          if \<not> both_set_and (\<lambda>x y. DomainCacheInfo_Equals (Some x) (Some y))
              (DescribeHistoryHostResponse.DomainCache v) (DescribeHistoryHostResponse.DomainCache
              rhs) then False else
          if \<not> String_EqualsPtr (DescribeHistoryHostResponse.ShardControllerStatus v)
              (DescribeHistoryHostResponse.ShardControllerStatus rhs) then False else
          if \<not> String_EqualsPtr (DescribeHistoryHostResponse.Address v)
              (DescribeHistoryHostResponse.Address rhs) then False else
          True))"

lemma DescribeHistoryHostResponse_Equals_iff [simp]: "DescribeHistoryHostResponse_Equals x y \<longleftrightarrow> x =
    y"
  by (cases x; cases y) (simp_all add: DescribeHistoryHostResponse_Equals_def if_not_False,
      fastforce intro: DescribeHistoryHostResponse.equality)

record DescribeTaskListRequest =
  Domain :: "string option"
  TaskList :: "TaskList option"
  TaskListType :: "TaskListType option"
  IncludeTaskListStatus :: "bool option"

definition DescribeTaskListRequest_zero :: DescribeTaskListRequest where
  "DescribeTaskListRequest_zero = \<lparr>DescribeTaskListRequest.Domain = None,
      DescribeTaskListRequest.TaskList = None, DescribeTaskListRequest.TaskListType = None,
      DescribeTaskListRequest.IncludeTaskListStatus = None\<rparr>"

definition DescribeTaskListRequest_ToWire ::
  "'v wire_api \<Rightarrow> DescribeTaskListRequest \<Rightarrow> go_error + 'v" where
  "DescribeTaskListRequest_ToWire W v =
     and_then (put_opt 10 (\<lambda>x. Inr (NewValueString W x)) (DescribeTaskListRequest.Domain v) [])
       (\<lambda>fields.
     and_then (put_opt 20 (TaskList_ToWire W) (DescribeTaskListRequest.TaskList v) fields)
       (\<lambda>fields.
     and_then (put_opt 30 (TaskListType_ToWire W) (DescribeTaskListRequest.TaskListType v) fields)
       (\<lambda>fields.
     and_then (put_opt 40 (\<lambda>x. Inr (NewValueBool W x))
         (DescribeTaskListRequest.IncludeTaskListStatus v) fields)
       (\<lambda>fields.
     Inr (NewValueStruct W fields)))))"

definition DescribeTaskListRequest_FromWire ::
  "'v wire_api \<Rightarrow> 'v \<Rightarrow> DescribeTaskListRequest \<Rightarrow> go_error + DescribeTaskListRequest" where
  "DescribeTaskListRequest_FromWire W w v =
     foldM (\<lambda>v (fid, fval).
       if fid = 10 then
         if wire_api.Type W fval = TBinary
         then Inr (v\<lparr>DescribeTaskListRequest.Domain := Some (GetString W fval)\<rparr>)
         else Inr v
       else if fid = 20 then
         if wire_api.Type W fval = TStruct
         then and_then (TaskList_Read W fval) (\<lambda>x. Inr (v\<lparr>DescribeTaskListRequest.TaskList := Some
             x\<rparr>))
         else Inr v
       else if fid = 30 then
         if wire_api.Type W fval = TI32
         then and_then (TaskListType_Read W fval) (\<lambda>x. Inr (v\<lparr>DescribeTaskListRequest.TaskListType
             := Some x\<rparr>))
         else Inr v
       else if fid = 40 then
         if wire_api.Type W fval = TBool
         then Inr (v\<lparr>DescribeTaskListRequest.IncludeTaskListStatus := Some (GetBool W fval)\<rparr>)
         else Inr v
       else Inr v) (GetStruct W w) v"

definition DescribeTaskListRequest_Read :: "'v wire_api \<Rightarrow> 'v \<Rightarrow> go_error + DescribeTaskListRequest"
    where
  "DescribeTaskListRequest_Read W w = DescribeTaskListRequest_FromWire W w
      DescribeTaskListRequest_zero"

lemma DescribeTaskListRequest_merge:
  "(case x of None \<Rightarrow> Inr \<lparr>DescribeTaskListRequest.Domain = a0, DescribeTaskListRequest.TaskList =
      a1, DescribeTaskListRequest.TaskListType = a2, DescribeTaskListRequest.IncludeTaskListStatus =
      a3\<rparr> | Some y \<Rightarrow> Inr \<lparr>DescribeTaskListRequest.Domain = b0 y, DescribeTaskListRequest.TaskList =
      b1 y, DescribeTaskListRequest.TaskListType = b2 y,
      DescribeTaskListRequest.IncludeTaskListStatus = b3 y\<rparr>) =
   Inr \<lparr>DescribeTaskListRequest.Domain = (case x of None \<Rightarrow> a0 | Some y \<Rightarrow> b0 y),
       DescribeTaskListRequest.TaskList = (case x of None \<Rightarrow> a1 | Some y \<Rightarrow> b1 y),
       DescribeTaskListRequest.TaskListType = (case x of None \<Rightarrow> a2 | Some y \<Rightarrow> b2 y),
       DescribeTaskListRequest.IncludeTaskListStatus = (case x of None \<Rightarrow> a3 | Some y \<Rightarrow> b3 y)\<rparr>"
  by (cases x) simp_all

interpretation DescribeTaskListRequest: thrift_message W
  "DescribeTaskListRequest_ToWire W" "DescribeTaskListRequest_FromWire W"
      DescribeTaskListRequest_zero "\<lambda>_. True" for W
proof (rule thrift_messageI)
  fix x :: DescribeTaskListRequest
  assume laws: "wire_laws W"
  obtain enc0 where e0: "TaskList_ToWire W = (\<lambda>x. Inr (enc0 x))"
      "\<And>x. wire_api.Type W (enc0 x) = TStruct"
      "\<And>x. Writable W (enc0 x) \<longleftrightarrow> (\<lambda>_. True) x"
      "\<And>x. (\<lambda>_. True) x \<Longrightarrow> TaskList_FromWire W (enc0 x) TaskList_zero = Inr x"
    by (rule TaskList.encoder [OF laws]) (rule that)
  show "\<exists>w. DescribeTaskListRequest_ToWire W x = Inr w \<and> wire_api.Type W w = TStruct \<and>
      (Writable W w \<longleftrightarrow> (\<lambda>_. True) x) \<and> ((\<lambda>_. True) x \<longrightarrow> DescribeTaskListRequest_FromWire W w
          DescribeTaskListRequest_zero = Inr x)"
    by (cases x) (simp cong: option.case_cong add: codec_rules DescribeTaskListRequest_merge
        DescribeTaskListRequest_ToWire_def DescribeTaskListRequest_FromWire_def
        DescribeTaskListRequest_zero_def TaskListType_enc TaskListType_Read_def
        TaskListType_FromWire_def TaskList_Read_def laws e0)
qed

definition DescribeTaskListRequest_Equals ::
  "DescribeTaskListRequest option \<Rightarrow> DescribeTaskListRequest option \<Rightarrow> bool" where
  "DescribeTaskListRequest_Equals v rhs =
     (case v of None \<Rightarrow> rhs = None
      | Some v \<Rightarrow> (case rhs of None \<Rightarrow> False
        | Some rhs \<Rightarrow>
          if \<not> String_EqualsPtr (DescribeTaskListRequest.Domain v) (DescribeTaskListRequest.Domain
              rhs) then False else
          if \<not> both_set_and (\<lambda>x y. TaskList_Equals (Some x) (Some y))
              (DescribeTaskListRequest.TaskList v) (DescribeTaskListRequest.TaskList rhs) then False
              else
          if \<not> TaskListType_EqualsPtr (DescribeTaskListRequest.TaskListType v)
              (DescribeTaskListRequest.TaskListType rhs) then False else
          if \<not> Bool_EqualsPtr (DescribeTaskListRequest.IncludeTaskListStatus v)
              (DescribeTaskListRequest.IncludeTaskListStatus rhs) then False else
          True))"

lemma DescribeTaskListRequest_Equals_iff [simp]: "DescribeTaskListRequest_Equals x y \<longleftrightarrow> x = y"
  by (cases x; cases y) (auto simp: DescribeTaskListRequest_Equals_def)

record DescribeTaskListResponse =
  Pollers :: "PollerInfo option list option"
  TaskListStatus :: "TaskListStatus option"

definition DescribeTaskListResponse_zero :: DescribeTaskListResponse where
  "DescribeTaskListResponse_zero = \<lparr>DescribeTaskListResponse.Pollers = None,
      DescribeTaskListResponse.TaskListStatus = None\<rparr>"

definition DescribeTaskListResponse_ToWire ::
  "'v wire_api \<Rightarrow> DescribeTaskListResponse \<Rightarrow> go_error + 'v" where
  "DescribeTaskListResponse_ToWire W v =
     and_then (put_opt 10 (\<lambda>x. Inr (NewValueList W (List_PollerInfo_ValueList W x)))
         (DescribeTaskListResponse.Pollers v) [])
       (\<lambda>fields.
     and_then (put_opt 20 (TaskListStatus_ToWire W) (DescribeTaskListResponse.TaskListStatus v)
         fields)
       (\<lambda>fields.
     Inr (NewValueStruct W fields)))"

definition DescribeTaskListResponse_FromWire ::
  "'v wire_api \<Rightarrow> 'v \<Rightarrow> DescribeTaskListResponse \<Rightarrow> go_error + DescribeTaskListResponse" where
  "DescribeTaskListResponse_FromWire W w v =
     foldM (\<lambda>v (fid, fval).
       if fid = 10 then
         if wire_api.Type W fval = TList
         then and_then (List_PollerInfo_Read W (GetList W fval)) (\<lambda>x. Inr
             (v\<lparr>DescribeTaskListResponse.Pollers := x\<rparr>))
         else Inr v
       else if fid = 20 then
         if wire_api.Type W fval = TStruct
         then and_then (TaskListStatus_Read W fval) (\<lambda>x. Inr
             (v\<lparr>DescribeTaskListResponse.TaskListStatus := Some x\<rparr>))
         else Inr v
       else Inr v) (GetStruct W w) v"

definition DescribeTaskListResponse_Read :: "'v wire_api \<Rightarrow> 'v \<Rightarrow> go_error + DescribeTaskListResponse"
    where
  "DescribeTaskListResponse_Read W w = DescribeTaskListResponse_FromWire W w
      DescribeTaskListResponse_zero"

definition DescribeTaskListResponse_complete :: "DescribeTaskListResponse \<Rightarrow> bool" where
  "DescribeTaskListResponse_complete v \<longleftrightarrow>
     if_set (list_all (present (\<lambda>_. True))) (DescribeTaskListResponse.Pollers v)"

lemma DescribeTaskListResponse_merge:
  "(case x of None \<Rightarrow> Inr \<lparr>DescribeTaskListResponse.Pollers = a0,
      DescribeTaskListResponse.TaskListStatus = a1\<rparr> | Some y \<Rightarrow> Inr \<lparr>DescribeTaskListResponse.Pollers
      = b0 y, DescribeTaskListResponse.TaskListStatus = b1 y\<rparr>) =
   Inr \<lparr>DescribeTaskListResponse.Pollers = (case x of None \<Rightarrow> a0 | Some y \<Rightarrow> b0 y),
       DescribeTaskListResponse.TaskListStatus = (case x of None \<Rightarrow> a1 | Some y \<Rightarrow> b1 y)\<rparr>"
  by (cases x) simp_all

interpretation DescribeTaskListResponse: thrift_message W
  "DescribeTaskListResponse_ToWire W" "DescribeTaskListResponse_FromWire W"
      DescribeTaskListResponse_zero "DescribeTaskListResponse_complete" for W
proof (rule thrift_messageI)
  fix x :: DescribeTaskListResponse
  assume laws: "wire_laws W"
  obtain enc0 where e0: "TaskListStatus_ToWire W = (\<lambda>x. Inr (enc0 x))"
      "\<And>x. wire_api.Type W (enc0 x) = TStruct"
      "\<And>x. Writable W (enc0 x) \<longleftrightarrow> (\<lambda>_. True) x"
      "\<And>x. (\<lambda>_. True) x \<Longrightarrow> TaskListStatus_FromWire W (enc0 x) TaskListStatus_zero = Inr x"
    by (rule TaskListStatus.encoder [OF laws]) (rule that)
  show "\<exists>w. DescribeTaskListResponse_ToWire W x = Inr w \<and> wire_api.Type W w = TStruct \<and>
      (Writable W w \<longleftrightarrow> DescribeTaskListResponse_complete x) \<and> (DescribeTaskListResponse_complete x \<longrightarrow>
          DescribeTaskListResponse_FromWire W w DescribeTaskListResponse_zero = Inr x)"
    by (cases x) (simp cong: option.case_cong add: codec_rules DescribeTaskListResponse_merge
        DescribeTaskListResponse_ToWire_def DescribeTaskListResponse_FromWire_def
        DescribeTaskListResponse_zero_def DescribeTaskListResponse_complete_def if_set_def
        TaskListStatus_Read_def List_PollerInfo_codec [OF laws] laws e0)
qed

definition DescribeTaskListResponse_Equals ::
  "DescribeTaskListResponse option \<Rightarrow> DescribeTaskListResponse option \<Rightarrow> bool" where
  "DescribeTaskListResponse_Equals v rhs =
     (case v of None \<Rightarrow> rhs = None
      | Some v \<Rightarrow> (case rhs of None \<Rightarrow> False
        | Some rhs \<Rightarrow>
          if \<not> both_set_and List_PollerInfo_Equals (DescribeTaskListResponse.Pollers v)
              (DescribeTaskListResponse.Pollers rhs) then False else
          if \<not> both_set_and (\<lambda>x y. TaskListStatus_Equals (Some x) (Some y))
              (DescribeTaskListResponse.TaskListStatus v) (DescribeTaskListResponse.TaskListStatus
              rhs) then False else
          True))"

definition DescribeTaskListResponse_comparable :: "DescribeTaskListResponse \<Rightarrow> bool" where
  "DescribeTaskListResponse_comparable v \<longleftrightarrow>
     if_set (list_all (if_set PollerInfo_comparable)) (DescribeTaskListResponse.Pollers v) \<and>
     if_set TaskListStatus_comparable (DescribeTaskListResponse.TaskListStatus v)"

lemma DescribeTaskListResponse_Equals_iff:
  "if_set DescribeTaskListResponse_comparable x \<Longrightarrow> if_set DescribeTaskListResponse_comparable y \<Longrightarrow>
      DescribeTaskListResponse_Equals x y \<longleftrightarrow> x = y"
  by (cases x; cases y) (simp_all add: DescribeTaskListResponse_Equals_def
      DescribeTaskListResponse_comparable_def if_not_False,
    fastforce intro: DescribeTaskListResponse.equality)

lemma DescribeTaskListResponse_fields_equal [simp]:
  "if_set DescribeTaskListResponse_comparable x \<Longrightarrow> if_set DescribeTaskListResponse_comparable y \<Longrightarrow>
    both_set_and (\<lambda>x y. DescribeTaskListResponse_Equals (Some x) (Some y)) x y \<longleftrightarrow> x = y"
  by (rule both_set_and_iff [where P = DescribeTaskListResponse_comparable]) (simp_all add:
      DescribeTaskListResponse_Equals_iff)

record DescribeWorkflowExecutionRequest =
  Domain :: "string option"
  Execution :: "WorkflowExecution option"

definition DescribeWorkflowExecutionRequest_zero :: DescribeWorkflowExecutionRequest where
  "DescribeWorkflowExecutionRequest_zero = \<lparr>DescribeWorkflowExecutionRequest.Domain = None,
      DescribeWorkflowExecutionRequest.Execution = None\<rparr>"

definition DescribeWorkflowExecutionRequest_ToWire ::
  "'v wire_api \<Rightarrow> DescribeWorkflowExecutionRequest \<Rightarrow> go_error + 'v" where
  "DescribeWorkflowExecutionRequest_ToWire W v =
     and_then (put_opt 10 (\<lambda>x. Inr (NewValueString W x)) (DescribeWorkflowExecutionRequest.Domain v)
         [])
       (\<lambda>fields.
     and_then (put_opt 20 (WorkflowExecution_ToWire W) (DescribeWorkflowExecutionRequest.Execution
         v) fields)
       (\<lambda>fields.
     Inr (NewValueStruct W fields)))"

definition DescribeWorkflowExecutionRequest_FromWire ::
  "'v wire_api \<Rightarrow> 'v \<Rightarrow> DescribeWorkflowExecutionRequest \<Rightarrow> go_error +
      DescribeWorkflowExecutionRequest" where
  "DescribeWorkflowExecutionRequest_FromWire W w v =
     foldM (\<lambda>v (fid, fval).
       if fid = 10 then
         if wire_api.Type W fval = TBinary
         then Inr (v\<lparr>DescribeWorkflowExecutionRequest.Domain := Some (GetString W fval)\<rparr>)
         else Inr v
       else if fid = 20 then
         if wire_api.Type W fval = TStruct
         then and_then (WorkflowExecution_Read W fval) (\<lambda>x. Inr
             (v\<lparr>DescribeWorkflowExecutionRequest.Execution := Some x\<rparr>))
         else Inr v
       else Inr v) (GetStruct W w) v"

definition DescribeWorkflowExecutionRequest_Read :: "'v wire_api \<Rightarrow> 'v \<Rightarrow> go_error +
    DescribeWorkflowExecutionRequest" where
  "DescribeWorkflowExecutionRequest_Read W w = DescribeWorkflowExecutionRequest_FromWire W w
      DescribeWorkflowExecutionRequest_zero"

lemma DescribeWorkflowExecutionRequest_merge:
  "(case x of None \<Rightarrow> Inr \<lparr>DescribeWorkflowExecutionRequest.Domain = a0,
      DescribeWorkflowExecutionRequest.Execution = a1\<rparr> | Some y \<Rightarrow> Inr
      \<lparr>DescribeWorkflowExecutionRequest.Domain = b0 y, DescribeWorkflowExecutionRequest.Execution =
      b1 y\<rparr>) =
   Inr \<lparr>DescribeWorkflowExecutionRequest.Domain = (case x of None \<Rightarrow> a0 | Some y \<Rightarrow> b0 y),
       DescribeWorkflowExecutionRequest.Execution = (case x of None \<Rightarrow> a1 | Some y \<Rightarrow> b1 y)\<rparr>"
  by (cases x) simp_all

interpretation DescribeWorkflowExecutionRequest: thrift_message W
  "DescribeWorkflowExecutionRequest_ToWire W" "DescribeWorkflowExecutionRequest_FromWire W"
      DescribeWorkflowExecutionRequest_zero "\<lambda>_. True" for W
proof (rule thrift_messageI)
  fix x :: DescribeWorkflowExecutionRequest
  assume laws: "wire_laws W"
  obtain enc0 where e0: "WorkflowExecution_ToWire W = (\<lambda>x. Inr (enc0 x))"
      "\<And>x. wire_api.Type W (enc0 x) = TStruct"
      "\<And>x. Writable W (enc0 x) \<longleftrightarrow> (\<lambda>_. True) x"
      "\<And>x. (\<lambda>_. True) x \<Longrightarrow> WorkflowExecution_FromWire W (enc0 x) WorkflowExecution_zero = Inr x"
    by (rule WorkflowExecution.encoder [OF laws]) (rule that)
  show "\<exists>w. DescribeWorkflowExecutionRequest_ToWire W x = Inr w \<and> wire_api.Type W w = TStruct \<and>
      (Writable W w \<longleftrightarrow> (\<lambda>_. True) x) \<and> ((\<lambda>_. True) x \<longrightarrow> DescribeWorkflowExecutionRequest_FromWire W w
          DescribeWorkflowExecutionRequest_zero = Inr x)"
    by (cases x) (simp cong: option.case_cong add: codec_rules
        DescribeWorkflowExecutionRequest_merge DescribeWorkflowExecutionRequest_ToWire_def
        DescribeWorkflowExecutionRequest_FromWire_def DescribeWorkflowExecutionRequest_zero_def
        WorkflowExecution_Read_def laws e0)
qed

definition DescribeWorkflowExecutionRequest_Equals ::
  "DescribeWorkflowExecutionRequest option \<Rightarrow> DescribeWorkflowExecutionRequest option \<Rightarrow> bool" where
  "DescribeWorkflowExecutionRequest_Equals v rhs =
     (case v of None \<Rightarrow> rhs = None
      | Some v \<Rightarrow> (case rhs of None \<Rightarrow> False
        | Some rhs \<Rightarrow>
          if \<not> String_EqualsPtr (DescribeWorkflowExecutionRequest.Domain v)
              (DescribeWorkflowExecutionRequest.Domain rhs) then False else
          if \<not> both_set_and (\<lambda>x y. WorkflowExecution_Equals (Some x) (Some y))
              (DescribeWorkflowExecutionRequest.Execution v)
              (DescribeWorkflowExecutionRequest.Execution rhs) then False else
          True))"

lemma DescribeWorkflowExecutionRequest_Equals_iff [simp]: "DescribeWorkflowExecutionRequest_Equals x
    y \<longleftrightarrow> x = y"
  by (cases x; cases y) (auto simp: DescribeWorkflowExecutionRequest_Equals_def)

record DescribeWorkflowExecutionResponse =
  ExecutionConfiguration :: "WorkflowExecutionConfiguration option"
  WorkflowExecutionInfo :: "WorkflowExecutionInfo option"
  PendingActivities :: "PendingActivityInfo option list option"
  PendingChildren :: "PendingChildExecutionInfo option list option"

definition DescribeWorkflowExecutionResponse_zero :: DescribeWorkflowExecutionResponse where
  "DescribeWorkflowExecutionResponse_zero =
      \<lparr>DescribeWorkflowExecutionResponse.ExecutionConfiguration = None,
      DescribeWorkflowExecutionResponse.WorkflowExecutionInfo = None,
      DescribeWorkflowExecutionResponse.PendingActivities = None,
      DescribeWorkflowExecutionResponse.PendingChildren = None\<rparr>"

definition DescribeWorkflowExecutionResponse_ToWire ::
  "'v wire_api \<Rightarrow> DescribeWorkflowExecutionResponse \<Rightarrow> go_error + 'v" where
  "DescribeWorkflowExecutionResponse_ToWire W v =
     and_then (put_opt 10 (WorkflowExecutionConfiguration_ToWire W)
         (DescribeWorkflowExecutionResponse.ExecutionConfiguration v) [])
       (\<lambda>fields.
     and_then (put_opt 20 (WorkflowExecutionInfo_ToWire W)
         (DescribeWorkflowExecutionResponse.WorkflowExecutionInfo v) fields)
       (\<lambda>fields.
     and_then (put_opt 30 (\<lambda>x. Inr (NewValueList W (List_PendingActivityInfo_ValueList W x)))
         (DescribeWorkflowExecutionResponse.PendingActivities v) fields)
       (\<lambda>fields.
     and_then (put_opt 40 (\<lambda>x. Inr (NewValueList W (List_PendingChildExecutionInfo_ValueList W x)))
         (DescribeWorkflowExecutionResponse.PendingChildren v) fields)
       (\<lambda>fields.
     Inr (NewValueStruct W fields)))))"

definition DescribeWorkflowExecutionResponse_FromWire ::
  "'v wire_api \<Rightarrow> 'v \<Rightarrow> DescribeWorkflowExecutionResponse \<Rightarrow> go_error +
      DescribeWorkflowExecutionResponse" where
  "DescribeWorkflowExecutionResponse_FromWire W w v =
     foldM (\<lambda>v (fid, fval).
       if fid = 10 then
         if wire_api.Type W fval = TStruct
         then and_then (WorkflowExecutionConfiguration_Read W fval) (\<lambda>x. Inr
             (v\<lparr>DescribeWorkflowExecutionResponse.ExecutionConfiguration := Some x\<rparr>))
         else Inr v
       else if fid = 20 then
         if wire_api.Type W fval = TStruct
         then and_then (WorkflowExecutionInfo_Read W fval) (\<lambda>x. Inr
             (v\<lparr>DescribeWorkflowExecutionResponse.WorkflowExecutionInfo := Some x\<rparr>))
         else Inr v
       else if fid = 30 then
         if wire_api.Type W fval = TList
         then and_then (List_PendingActivityInfo_Read W (GetList W fval)) (\<lambda>x. Inr
             (v\<lparr>DescribeWorkflowExecutionResponse.PendingActivities := x\<rparr>))
         else Inr v
       else if fid = 40 then
         if wire_api.Type W fval = TList
         then and_then (List_PendingChildExecutionInfo_Read W (GetList W fval)) (\<lambda>x. Inr
             (v\<lparr>DescribeWorkflowExecutionResponse.PendingChildren := x\<rparr>))
         else Inr v
       else Inr v) (GetStruct W w) v"

definition DescribeWorkflowExecutionResponse_Read :: "'v wire_api \<Rightarrow> 'v \<Rightarrow> go_error +
    DescribeWorkflowExecutionResponse" where
  "DescribeWorkflowExecutionResponse_Read W w = DescribeWorkflowExecutionResponse_FromWire W w
      DescribeWorkflowExecutionResponse_zero"

definition DescribeWorkflowExecutionResponse_complete :: "DescribeWorkflowExecutionResponse \<Rightarrow> bool"
    where
  "DescribeWorkflowExecutionResponse_complete v \<longleftrightarrow>
     if_set WorkflowExecutionInfo_complete (DescribeWorkflowExecutionResponse.WorkflowExecutionInfo
         v) \<and>
     if_set (list_all (present (\<lambda>_. True))) (DescribeWorkflowExecutionResponse.PendingActivities v)
         \<and>
     if_set (list_all (present (\<lambda>_. True))) (DescribeWorkflowExecutionResponse.PendingChildren v)"

lemma DescribeWorkflowExecutionResponse_merge:
  "(case x of None \<Rightarrow> Inr \<lparr>DescribeWorkflowExecutionResponse.ExecutionConfiguration = a0,
      DescribeWorkflowExecutionResponse.WorkflowExecutionInfo = a1,
      DescribeWorkflowExecutionResponse.PendingActivities = a2,
      DescribeWorkflowExecutionResponse.PendingChildren = a3\<rparr> | Some y \<Rightarrow> Inr
      \<lparr>DescribeWorkflowExecutionResponse.ExecutionConfiguration = b0 y,
      DescribeWorkflowExecutionResponse.WorkflowExecutionInfo = b1 y,
      DescribeWorkflowExecutionResponse.PendingActivities = b2 y,
      DescribeWorkflowExecutionResponse.PendingChildren = b3 y\<rparr>) =
   Inr \<lparr>DescribeWorkflowExecutionResponse.ExecutionConfiguration = (case x of None \<Rightarrow> a0 | Some y \<Rightarrow>
       b0 y), DescribeWorkflowExecutionResponse.WorkflowExecutionInfo = (case x of None \<Rightarrow> a1 | Some
       y \<Rightarrow> b1 y), DescribeWorkflowExecutionResponse.PendingActivities = (case x of None \<Rightarrow> a2 | Some
       y \<Rightarrow> b2 y), DescribeWorkflowExecutionResponse.PendingChildren = (case x of None \<Rightarrow> a3 | Some y
       \<Rightarrow> b3 y)\<rparr>"
  by (cases x) simp_all

interpretation DescribeWorkflowExecutionResponse: thrift_message W
  "DescribeWorkflowExecutionResponse_ToWire W" "DescribeWorkflowExecutionResponse_FromWire W"
      DescribeWorkflowExecutionResponse_zero "DescribeWorkflowExecutionResponse_complete" for W
proof (rule thrift_messageI)
  fix x :: DescribeWorkflowExecutionResponse
  assume laws: "wire_laws W"
  obtain enc0 where e0: "WorkflowExecutionConfiguration_ToWire W = (\<lambda>x. Inr (enc0 x))"
      "\<And>x. wire_api.Type W (enc0 x) = TStruct"
      "\<And>x. Writable W (enc0 x) \<longleftrightarrow> (\<lambda>_. True) x"
      "\<And>x. (\<lambda>_. True) x \<Longrightarrow> WorkflowExecutionConfiguration_FromWire W (enc0 x)
          WorkflowExecutionConfiguration_zero = Inr x"
    by (rule WorkflowExecutionConfiguration.encoder [OF laws]) (rule that)
  obtain enc1 where e1: "WorkflowExecutionInfo_ToWire W = (\<lambda>x. Inr (enc1 x))"
      "\<And>x. wire_api.Type W (enc1 x) = TStruct"
      "\<And>x. Writable W (enc1 x) \<longleftrightarrow> WorkflowExecutionInfo_complete x"
      "\<And>x. WorkflowExecutionInfo_complete x \<Longrightarrow> WorkflowExecutionInfo_FromWire W (enc1 x)
          WorkflowExecutionInfo_zero = Inr x"
    by (rule WorkflowExecutionInfo.encoder [OF laws]) (rule that)
  show "\<exists>w. DescribeWorkflowExecutionResponse_ToWire W x = Inr w \<and> wire_api.Type W w = TStruct \<and>
      (Writable W w \<longleftrightarrow> DescribeWorkflowExecutionResponse_complete x) \<and>
          (DescribeWorkflowExecutionResponse_complete x \<longrightarrow> DescribeWorkflowExecutionResponse_FromWire
          W w DescribeWorkflowExecutionResponse_zero = Inr x)"
    by (cases x) (simp cong: option.case_cong add: codec_rules
        DescribeWorkflowExecutionResponse_merge DescribeWorkflowExecutionResponse_ToWire_def
        DescribeWorkflowExecutionResponse_FromWire_def DescribeWorkflowExecutionResponse_zero_def
        DescribeWorkflowExecutionResponse_complete_def if_set_def
        WorkflowExecutionConfiguration_Read_def WorkflowExecutionInfo_Read_def
        List_PendingActivityInfo_codec [OF laws] List_PendingChildExecutionInfo_codec [OF laws] laws
        e0 e1)
qed

definition DescribeWorkflowExecutionResponse_Equals ::
  "DescribeWorkflowExecutionResponse option \<Rightarrow> DescribeWorkflowExecutionResponse option \<Rightarrow> bool" where
  "DescribeWorkflowExecutionResponse_Equals v rhs =
     (case v of None \<Rightarrow> rhs = None
      | Some v \<Rightarrow> (case rhs of None \<Rightarrow> False
        | Some rhs \<Rightarrow>
          if \<not> both_set_and (\<lambda>x y. WorkflowExecutionConfiguration_Equals (Some x) (Some y))
              (DescribeWorkflowExecutionResponse.ExecutionConfiguration v)
              (DescribeWorkflowExecutionResponse.ExecutionConfiguration rhs) then False else
          if \<not> both_set_and (\<lambda>x y. WorkflowExecutionInfo_Equals (Some x) (Some y))
              (DescribeWorkflowExecutionResponse.WorkflowExecutionInfo v)
              (DescribeWorkflowExecutionResponse.WorkflowExecutionInfo rhs) then False else
          if \<not> both_set_and List_PendingActivityInfo_Equals
              (DescribeWorkflowExecutionResponse.PendingActivities v)
              (DescribeWorkflowExecutionResponse.PendingActivities rhs) then False else
          if \<not> both_set_and List_PendingChildExecutionInfo_Equals
              (DescribeWorkflowExecutionResponse.PendingChildren v)
              (DescribeWorkflowExecutionResponse.PendingChildren rhs) then False else
          True))"

definition DescribeWorkflowExecutionResponse_comparable :: "DescribeWorkflowExecutionResponse \<Rightarrow>
    bool" where
  "DescribeWorkflowExecutionResponse_comparable v \<longleftrightarrow>
     if_set WorkflowExecutionInfo_comparable
         (DescribeWorkflowExecutionResponse.WorkflowExecutionInfo v)"

lemma DescribeWorkflowExecutionResponse_Equals_iff:
  "if_set DescribeWorkflowExecutionResponse_comparable x \<Longrightarrow> if_set
      DescribeWorkflowExecutionResponse_comparable y \<Longrightarrow> DescribeWorkflowExecutionResponse_Equals x y
      \<longleftrightarrow> x = y"
  by (cases x; cases y) (simp_all add: DescribeWorkflowExecutionResponse_Equals_def
      DescribeWorkflowExecutionResponse_comparable_def if_not_False,
    fastforce intro: DescribeWorkflowExecutionResponse.equality)

lemma DescribeWorkflowExecutionResponse_fields_equal [simp]:
  "if_set DescribeWorkflowExecutionResponse_comparable x \<Longrightarrow> if_set
      DescribeWorkflowExecutionResponse_comparable y \<Longrightarrow>
    both_set_and (\<lambda>x y. DescribeWorkflowExecutionResponse_Equals (Some x) (Some y)) x y \<longleftrightarrow> x = y"
  by (rule both_set_and_iff [where P = DescribeWorkflowExecutionResponse_comparable]) (simp_all add:
      DescribeWorkflowExecutionResponse_Equals_iff)

record GetSearchAttributesResponse =
  Keys :: "(string, IndexedValueType) fmap option"

definition GetSearchAttributesResponse_zero :: GetSearchAttributesResponse where
  "GetSearchAttributesResponse_zero = \<lparr>GetSearchAttributesResponse.Keys = None\<rparr>"

definition GetSearchAttributesResponse_ToWire ::
  "'v wire_api \<Rightarrow> GetSearchAttributesResponse \<Rightarrow> go_error + 'v" where
  "GetSearchAttributesResponse_ToWire W v =
     and_then (put_opt 10 (\<lambda>x. Inr (NewValueMap W (Map_String_IndexedValueType_MapItemList W x)))
         (GetSearchAttributesResponse.Keys v) [])
       (\<lambda>fields.
     Inr (NewValueStruct W fields))"

definition GetSearchAttributesResponse_FromWire ::
  "'v wire_api \<Rightarrow> 'v \<Rightarrow> GetSearchAttributesResponse \<Rightarrow> go_error + GetSearchAttributesResponse" where
  "GetSearchAttributesResponse_FromWire W w v =
     foldM (\<lambda>v (fid, fval).
       if fid = 10 then
         if wire_api.Type W fval = TMap
         then and_then (Map_String_IndexedValueType_Read W (GetMap W fval)) (\<lambda>x. Inr
             (v\<lparr>GetSearchAttributesResponse.Keys := x\<rparr>))
         else Inr v
       else Inr v) (GetStruct W w) v"

definition GetSearchAttributesResponse_Read :: "'v wire_api \<Rightarrow> 'v \<Rightarrow> go_error +
    GetSearchAttributesResponse" where
  "GetSearchAttributesResponse_Read W w = GetSearchAttributesResponse_FromWire W w
      GetSearchAttributesResponse_zero"

lemma GetSearchAttributesResponse_merge:
  "(case x of None \<Rightarrow> Inr \<lparr>GetSearchAttributesResponse.Keys = a0\<rparr> | Some y \<Rightarrow> Inr
      \<lparr>GetSearchAttributesResponse.Keys = b0 y\<rparr>) =
   Inr \<lparr>GetSearchAttributesResponse.Keys = (case x of None \<Rightarrow> a0 | Some y \<Rightarrow> b0 y)\<rparr>"
  by (cases x) simp_all

interpretation GetSearchAttributesResponse: thrift_message W
  "GetSearchAttributesResponse_ToWire W" "GetSearchAttributesResponse_FromWire W"
      GetSearchAttributesResponse_zero "\<lambda>_. True" for W
proof (rule thrift_messageI)
  fix x :: GetSearchAttributesResponse
  assume laws: "wire_laws W"
  show "\<exists>w. GetSearchAttributesResponse_ToWire W x = Inr w \<and> wire_api.Type W w = TStruct \<and>
      (Writable W w \<longleftrightarrow> (\<lambda>_. True) x) \<and> ((\<lambda>_. True) x \<longrightarrow> GetSearchAttributesResponse_FromWire W w
          GetSearchAttributesResponse_zero = Inr x)"
    by (cases x) (simp cong: option.case_cong add: codec_rules GetSearchAttributesResponse_merge
        GetSearchAttributesResponse_ToWire_def GetSearchAttributesResponse_FromWire_def
        GetSearchAttributesResponse_zero_def Map_String_IndexedValueType_codec [OF laws] laws)
qed

definition GetSearchAttributesResponse_Equals ::
  "GetSearchAttributesResponse option \<Rightarrow> GetSearchAttributesResponse option \<Rightarrow> bool" where
  "GetSearchAttributesResponse_Equals v rhs =
     (case v of None \<Rightarrow> rhs = None
      | Some v \<Rightarrow> (case rhs of None \<Rightarrow> False
        | Some rhs \<Rightarrow>
          if \<not> both_set_and Map_String_IndexedValueType_Equals (GetSearchAttributesResponse.Keys v)
              (GetSearchAttributesResponse.Keys rhs) then False else
          True))"

lemma GetSearchAttributesResponse_Equals_iff [simp]: "GetSearchAttributesResponse_Equals x y \<longleftrightarrow> x =
    y"
  by (cases x; cases y) (auto simp: GetSearchAttributesResponse_Equals_def)

record GetWorkflowExecutionHistoryRequest =
  Domain :: "string option"
  Execution :: "WorkflowExecution option"
  MaximumPageSize :: "32 word option"
  NextPageToken :: "bytes option"
  WaitForNewEvent :: "bool option"
  HistoryEventFilterType :: "HistoryEventFilterType option"

definition GetWorkflowExecutionHistoryRequest_zero :: GetWorkflowExecutionHistoryRequest where
  "GetWorkflowExecutionHistoryRequest_zero = \<lparr>GetWorkflowExecutionHistoryRequest.Domain = None,
      GetWorkflowExecutionHistoryRequest.Execution = None,
      GetWorkflowExecutionHistoryRequest.MaximumPageSize = None,
      GetWorkflowExecutionHistoryRequest.NextPageToken = None,
      GetWorkflowExecutionHistoryRequest.WaitForNewEvent = None,
      GetWorkflowExecutionHistoryRequest.HistoryEventFilterType = None\<rparr>"

definition GetWorkflowExecutionHistoryRequest_ToWire ::
  "'v wire_api \<Rightarrow> GetWorkflowExecutionHistoryRequest \<Rightarrow> go_error + 'v" where
  "GetWorkflowExecutionHistoryRequest_ToWire W v =
     and_then (put_opt 10 (\<lambda>x. Inr (NewValueString W x)) (GetWorkflowExecutionHistoryRequest.Domain
         v) [])
       (\<lambda>fields.
     and_then (put_opt 20 (WorkflowExecution_ToWire W) (GetWorkflowExecutionHistoryRequest.Execution
         v) fields)
       (\<lambda>fields.
     and_then (put_opt 30 (\<lambda>x. Inr (NewValueI32 W x))
         (GetWorkflowExecutionHistoryRequest.MaximumPageSize v) fields)
       (\<lambda>fields.
     and_then (put_opt 40 (\<lambda>x. Inr (NewValueBinary W x))
         (GetWorkflowExecutionHistoryRequest.NextPageToken v) fields)
       (\<lambda>fields.
     and_then (put_opt 50 (\<lambda>x. Inr (NewValueBool W x))
         (GetWorkflowExecutionHistoryRequest.WaitForNewEvent v) fields)
       (\<lambda>fields.
     and_then (put_opt 60 (HistoryEventFilterType_ToWire W)
         (GetWorkflowExecutionHistoryRequest.HistoryEventFilterType v) fields)
       (\<lambda>fields.
     Inr (NewValueStruct W fields)))))))"

definition GetWorkflowExecutionHistoryRequest_FromWire ::
  "'v wire_api \<Rightarrow> 'v \<Rightarrow> GetWorkflowExecutionHistoryRequest \<Rightarrow> go_error +
      GetWorkflowExecutionHistoryRequest" where
  "GetWorkflowExecutionHistoryRequest_FromWire W w v =
     foldM (\<lambda>v (fid, fval).
       if fid = 10 then
         if wire_api.Type W fval = TBinary
         then Inr (v\<lparr>GetWorkflowExecutionHistoryRequest.Domain := Some (GetString W fval)\<rparr>)
         else Inr v
       else if fid = 20 then
         if wire_api.Type W fval = TStruct
         then and_then (WorkflowExecution_Read W fval) (\<lambda>x. Inr
             (v\<lparr>GetWorkflowExecutionHistoryRequest.Execution := Some x\<rparr>))
         else Inr v
       else if fid = 30 then
         if wire_api.Type W fval = TI32
         then Inr (v\<lparr>GetWorkflowExecutionHistoryRequest.MaximumPageSize := Some (GetI32 W fval)\<rparr>)
         else Inr v
       else if fid = 40 then
         if wire_api.Type W fval = TBinary
         then Inr (v\<lparr>GetWorkflowExecutionHistoryRequest.NextPageToken := Some (GetBinary W fval)\<rparr>)
         else Inr v
       else if fid = 50 then
         if wire_api.Type W fval = TBool
         then Inr (v\<lparr>GetWorkflowExecutionHistoryRequest.WaitForNewEvent := Some (GetBool W fval)\<rparr>)
         else Inr v
       else if fid = 60 then
         if wire_api.Type W fval = TI32
         then and_then (HistoryEventFilterType_Read W fval) (\<lambda>x. Inr
             (v\<lparr>GetWorkflowExecutionHistoryRequest.HistoryEventFilterType := Some x\<rparr>))
         else Inr v
       else Inr v) (GetStruct W w) v"

definition GetWorkflowExecutionHistoryRequest_Read :: "'v wire_api \<Rightarrow> 'v \<Rightarrow> go_error +
    GetWorkflowExecutionHistoryRequest" where
  "GetWorkflowExecutionHistoryRequest_Read W w = GetWorkflowExecutionHistoryRequest_FromWire W w
      GetWorkflowExecutionHistoryRequest_zero"

lemma GetWorkflowExecutionHistoryRequest_merge:
  "(case x of None \<Rightarrow> Inr \<lparr>GetWorkflowExecutionHistoryRequest.Domain = a0,
      GetWorkflowExecutionHistoryRequest.Execution = a1,
      GetWorkflowExecutionHistoryRequest.MaximumPageSize = a2,
      GetWorkflowExecutionHistoryRequest.NextPageToken = a3,
      GetWorkflowExecutionHistoryRequest.WaitForNewEvent = a4,
      GetWorkflowExecutionHistoryRequest.HistoryEventFilterType = a5\<rparr> | Some y \<Rightarrow> Inr
      \<lparr>GetWorkflowExecutionHistoryRequest.Domain = b0 y,
      GetWorkflowExecutionHistoryRequest.Execution = b1 y,
      GetWorkflowExecutionHistoryRequest.MaximumPageSize = b2 y,
      GetWorkflowExecutionHistoryRequest.NextPageToken = b3 y,
      GetWorkflowExecutionHistoryRequest.WaitForNewEvent = b4 y,
      GetWorkflowExecutionHistoryRequest.HistoryEventFilterType = b5 y\<rparr>) =
   Inr \<lparr>GetWorkflowExecutionHistoryRequest.Domain = (case x of None \<Rightarrow> a0 | Some y \<Rightarrow> b0 y),
       GetWorkflowExecutionHistoryRequest.Execution = (case x of None \<Rightarrow> a1 | Some y \<Rightarrow> b1 y),
       GetWorkflowExecutionHistoryRequest.MaximumPageSize = (case x of None \<Rightarrow> a2 | Some y \<Rightarrow> b2 y),
       GetWorkflowExecutionHistoryRequest.NextPageToken = (case x of None \<Rightarrow> a3 | Some y \<Rightarrow> b3 y),
       GetWorkflowExecutionHistoryRequest.WaitForNewEvent = (case x of None \<Rightarrow> a4 | Some y \<Rightarrow> b4 y),
       GetWorkflowExecutionHistoryRequest.HistoryEventFilterType = (case x of None \<Rightarrow> a5 | Some y \<Rightarrow>
       b5 y)\<rparr>"
  by (cases x) simp_all

interpretation GetWorkflowExecutionHistoryRequest: thrift_message W
  "GetWorkflowExecutionHistoryRequest_ToWire W" "GetWorkflowExecutionHistoryRequest_FromWire W"
      GetWorkflowExecutionHistoryRequest_zero "\<lambda>_. True" for W
proof (rule thrift_messageI)
  fix x :: GetWorkflowExecutionHistoryRequest
  assume laws: "wire_laws W"
  obtain enc0 where e0: "WorkflowExecution_ToWire W = (\<lambda>x. Inr (enc0 x))"
      "\<And>x. wire_api.Type W (enc0 x) = TStruct"
      "\<And>x. Writable W (enc0 x) \<longleftrightarrow> (\<lambda>_. True) x"
      "\<And>x. (\<lambda>_. True) x \<Longrightarrow> WorkflowExecution_FromWire W (enc0 x) WorkflowExecution_zero = Inr x"
    by (rule WorkflowExecution.encoder [OF laws]) (rule that)
  show "\<exists>w. GetWorkflowExecutionHistoryRequest_ToWire W x = Inr w \<and> wire_api.Type W w = TStruct \<and>
      (Writable W w \<longleftrightarrow> (\<lambda>_. True) x) \<and> ((\<lambda>_. True) x \<longrightarrow> GetWorkflowExecutionHistoryRequest_FromWire W
          w GetWorkflowExecutionHistoryRequest_zero = Inr x)"
    by (cases x) (simp cong: option.case_cong add: codec_rules
        GetWorkflowExecutionHistoryRequest_merge GetWorkflowExecutionHistoryRequest_ToWire_def
        GetWorkflowExecutionHistoryRequest_FromWire_def GetWorkflowExecutionHistoryRequest_zero_def
        HistoryEventFilterType_enc HistoryEventFilterType_Read_def
        HistoryEventFilterType_FromWire_def WorkflowExecution_Read_def laws e0)
qed

definition GetWorkflowExecutionHistoryRequest_Equals ::
  "GetWorkflowExecutionHistoryRequest option \<Rightarrow> GetWorkflowExecutionHistoryRequest option \<Rightarrow> bool"
      where
  "GetWorkflowExecutionHistoryRequest_Equals v rhs =
     (case v of None \<Rightarrow> rhs = None
      | Some v \<Rightarrow> (case rhs of None \<Rightarrow> False
        | Some rhs \<Rightarrow>
          if \<not> String_EqualsPtr (GetWorkflowExecutionHistoryRequest.Domain v)
              (GetWorkflowExecutionHistoryRequest.Domain rhs) then False else
          if \<not> both_set_and (\<lambda>x y. WorkflowExecution_Equals (Some x) (Some y))
              (GetWorkflowExecutionHistoryRequest.Execution v)
              (GetWorkflowExecutionHistoryRequest.Execution rhs) then False else
          if \<not> I32_EqualsPtr (GetWorkflowExecutionHistoryRequest.MaximumPageSize v)
              (GetWorkflowExecutionHistoryRequest.MaximumPageSize rhs) then False else
          if \<not> both_set_and (=) (GetWorkflowExecutionHistoryRequest.NextPageToken v)
              (GetWorkflowExecutionHistoryRequest.NextPageToken rhs) then False else
          if \<not> Bool_EqualsPtr (GetWorkflowExecutionHistoryRequest.WaitForNewEvent v)
              (GetWorkflowExecutionHistoryRequest.WaitForNewEvent rhs) then False else
          if \<not> HistoryEventFilterType_EqualsPtr
              (GetWorkflowExecutionHistoryRequest.HistoryEventFilterType v)
              (GetWorkflowExecutionHistoryRequest.HistoryEventFilterType rhs) then False else
          True))"

lemma GetWorkflowExecutionHistoryRequest_Equals_iff [simp]:
    "GetWorkflowExecutionHistoryRequest_Equals x y \<longleftrightarrow> x = y"
  by (cases x; cases y) (simp_all add: GetWorkflowExecutionHistoryRequest_Equals_def if_not_False,
      fastforce intro: GetWorkflowExecutionHistoryRequest.equality)

record GetWorkflowExecutionHistoryResponse =
  History :: "History option"
  NextPageToken :: "bytes option"
  Archived :: "bool option"

definition GetWorkflowExecutionHistoryResponse_zero :: GetWorkflowExecutionHistoryResponse where
  "GetWorkflowExecutionHistoryResponse_zero = \<lparr>GetWorkflowExecutionHistoryResponse.History = None,
      GetWorkflowExecutionHistoryResponse.NextPageToken = None,
      GetWorkflowExecutionHistoryResponse.Archived = None\<rparr>"

definition GetWorkflowExecutionHistoryResponse_ToWire ::
  "'v wire_api \<Rightarrow> GetWorkflowExecutionHistoryResponse \<Rightarrow> go_error + 'v" where
  "GetWorkflowExecutionHistoryResponse_ToWire W v =
     and_then (put_opt 10 (History_ToWire W) (GetWorkflowExecutionHistoryResponse.History v) [])
       (\<lambda>fields.
     and_then (put_opt 20 (\<lambda>x. Inr (NewValueBinary W x))
         (GetWorkflowExecutionHistoryResponse.NextPageToken v) fields)
       (\<lambda>fields.
     and_then (put_opt 30 (\<lambda>x. Inr (NewValueBool W x)) (GetWorkflowExecutionHistoryResponse.Archived
         v) fields)
       (\<lambda>fields.
     Inr (NewValueStruct W fields))))"

definition GetWorkflowExecutionHistoryResponse_FromWire ::
  "'v wire_api \<Rightarrow> 'v \<Rightarrow> GetWorkflowExecutionHistoryResponse \<Rightarrow> go_error +
      GetWorkflowExecutionHistoryResponse" where
  "GetWorkflowExecutionHistoryResponse_FromWire W w v =
     foldM (\<lambda>v (fid, fval).
       if fid = 10 then
         if wire_api.Type W fval = TStruct
         then and_then (History_Read W fval) (\<lambda>x. Inr (v\<lparr>GetWorkflowExecutionHistoryResponse.History
             := Some x\<rparr>))
         else Inr v
       else if fid = 20 then
         if wire_api.Type W fval = TBinary
         then Inr (v\<lparr>GetWorkflowExecutionHistoryResponse.NextPageToken := Some (GetBinary W fval)\<rparr>)
         else Inr v
       else if fid = 30 then
         if wire_api.Type W fval = TBool
         then Inr (v\<lparr>GetWorkflowExecutionHistoryResponse.Archived := Some (GetBool W fval)\<rparr>)
         else Inr v
       else Inr v) (GetStruct W w) v"

definition GetWorkflowExecutionHistoryResponse_Read :: "'v wire_api \<Rightarrow> 'v \<Rightarrow> go_error +
    GetWorkflowExecutionHistoryResponse" where
  "GetWorkflowExecutionHistoryResponse_Read W w = GetWorkflowExecutionHistoryResponse_FromWire W w
      GetWorkflowExecutionHistoryResponse_zero"

definition GetWorkflowExecutionHistoryResponse_complete :: "GetWorkflowExecutionHistoryResponse \<Rightarrow>
    bool" where
  "GetWorkflowExecutionHistoryResponse_complete v \<longleftrightarrow>
     if_set History_complete (GetWorkflowExecutionHistoryResponse.History v)"

lemma GetWorkflowExecutionHistoryResponse_merge:
  "(case x of None \<Rightarrow> Inr \<lparr>GetWorkflowExecutionHistoryResponse.History = a0,
      GetWorkflowExecutionHistoryResponse.NextPageToken = a1,
      GetWorkflowExecutionHistoryResponse.Archived = a2\<rparr> | Some y \<Rightarrow> Inr
      \<lparr>GetWorkflowExecutionHistoryResponse.History = b0 y,
      GetWorkflowExecutionHistoryResponse.NextPageToken = b1 y,
      GetWorkflowExecutionHistoryResponse.Archived = b2 y\<rparr>) =
   Inr \<lparr>GetWorkflowExecutionHistoryResponse.History = (case x of None \<Rightarrow> a0 | Some y \<Rightarrow> b0 y),
       GetWorkflowExecutionHistoryResponse.NextPageToken = (case x of None \<Rightarrow> a1 | Some y \<Rightarrow> b1 y),
       GetWorkflowExecutionHistoryResponse.Archived = (case x of None \<Rightarrow> a2 | Some y \<Rightarrow> b2 y)\<rparr>"
  by (cases x) simp_all

interpretation GetWorkflowExecutionHistoryResponse: thrift_message W
  "GetWorkflowExecutionHistoryResponse_ToWire W" "GetWorkflowExecutionHistoryResponse_FromWire W"
      GetWorkflowExecutionHistoryResponse_zero "GetWorkflowExecutionHistoryResponse_complete" for W
proof (rule thrift_messageI)
  fix x :: GetWorkflowExecutionHistoryResponse
  assume laws: "wire_laws W"
  obtain enc0 where e0: "History_ToWire W = (\<lambda>x. Inr (enc0 x))"
      "\<And>x. wire_api.Type W (enc0 x) = TStruct"
      "\<And>x. Writable W (enc0 x) \<longleftrightarrow> History_complete x"
      "\<And>x. History_complete x \<Longrightarrow> History_FromWire W (enc0 x) History_zero = Inr x"
    by (rule HistoryStruct.encoder [OF laws]) (rule that)
  show "\<exists>w. GetWorkflowExecutionHistoryResponse_ToWire W x = Inr w \<and> wire_api.Type W w = TStruct \<and>
      (Writable W w \<longleftrightarrow> GetWorkflowExecutionHistoryResponse_complete x) \<and>
          (GetWorkflowExecutionHistoryResponse_complete x \<longrightarrow>
          GetWorkflowExecutionHistoryResponse_FromWire W w GetWorkflowExecutionHistoryResponse_zero
          = Inr x)"
    by (cases x) (simp cong: option.case_cong add: codec_rules
        GetWorkflowExecutionHistoryResponse_merge GetWorkflowExecutionHistoryResponse_ToWire_def
        GetWorkflowExecutionHistoryResponse_FromWire_def
        GetWorkflowExecutionHistoryResponse_zero_def
        GetWorkflowExecutionHistoryResponse_complete_def if_set_def History_Read_def laws e0)
qed

definition GetWorkflowExecutionHistoryResponse_Equals ::
  "GetWorkflowExecutionHistoryResponse option \<Rightarrow> GetWorkflowExecutionHistoryResponse option \<Rightarrow> bool"
      where
  "GetWorkflowExecutionHistoryResponse_Equals v rhs =
     (case v of None \<Rightarrow> rhs = None
      | Some v \<Rightarrow> (case rhs of None \<Rightarrow> False
        | Some rhs \<Rightarrow>
          if \<not> both_set_and (\<lambda>x y. History_Equals (Some x) (Some y))
              (GetWorkflowExecutionHistoryResponse.History v)
              (GetWorkflowExecutionHistoryResponse.History rhs) then False else
          if \<not> both_set_and (=) (GetWorkflowExecutionHistoryResponse.NextPageToken v)
              (GetWorkflowExecutionHistoryResponse.NextPageToken rhs) then False else
          if \<not> Bool_EqualsPtr (GetWorkflowExecutionHistoryResponse.Archived v)
              (GetWorkflowExecutionHistoryResponse.Archived rhs) then False else
          True))"

definition GetWorkflowExecutionHistoryResponse_comparable :: "GetWorkflowExecutionHistoryResponse \<Rightarrow>
    bool" where
  "GetWorkflowExecutionHistoryResponse_comparable v \<longleftrightarrow>
     if_set History_comparable (GetWorkflowExecutionHistoryResponse.History v)"

lemma GetWorkflowExecutionHistoryResponse_Equals_iff:
  "if_set GetWorkflowExecutionHistoryResponse_comparable x \<Longrightarrow> if_set
      GetWorkflowExecutionHistoryResponse_comparable y \<Longrightarrow> GetWorkflowExecutionHistoryResponse_Equals
      x y \<longleftrightarrow> x = y"
  by (cases x; cases y) (simp_all add: GetWorkflowExecutionHistoryResponse_Equals_def
      GetWorkflowExecutionHistoryResponse_comparable_def if_not_False,
    fastforce intro: GetWorkflowExecutionHistoryResponse.equality)

lemma GetWorkflowExecutionHistoryResponse_fields_equal [simp]:
  "if_set GetWorkflowExecutionHistoryResponse_comparable x \<Longrightarrow> if_set
      GetWorkflowExecutionHistoryResponse_comparable y \<Longrightarrow>
    both_set_and (\<lambda>x y. GetWorkflowExecutionHistoryResponse_Equals (Some x) (Some y)) x y \<longleftrightarrow> x = y"
  by (rule both_set_and_iff [where P = GetWorkflowExecutionHistoryResponse_comparable]) (simp_all
      add: GetWorkflowExecutionHistoryResponse_Equals_iff)

record ListArchivedWorkflowExecutionsRequest =
  Domain :: "string option"
  PageSize :: "32 word option"
  NextPageToken :: "bytes option"
  Query :: "string option"

definition ListArchivedWorkflowExecutionsRequest_zero :: ListArchivedWorkflowExecutionsRequest where
  "ListArchivedWorkflowExecutionsRequest_zero = \<lparr>ListArchivedWorkflowExecutionsRequest.Domain =
      None, ListArchivedWorkflowExecutionsRequest.PageSize = None,
      ListArchivedWorkflowExecutionsRequest.NextPageToken = None,
      ListArchivedWorkflowExecutionsRequest.Query = None\<rparr>"

definition ListArchivedWorkflowExecutionsRequest_ToWire ::
  "'v wire_api \<Rightarrow> ListArchivedWorkflowExecutionsRequest \<Rightarrow> go_error + 'v" where
  "ListArchivedWorkflowExecutionsRequest_ToWire W v =
     and_then (put_opt 10 (\<lambda>x. Inr (NewValueString W x))
         (ListArchivedWorkflowExecutionsRequest.Domain v) [])
       (\<lambda>fields.
     and_then (put_opt 20 (\<lambda>x. Inr (NewValueI32 W x))
         (ListArchivedWorkflowExecutionsRequest.PageSize v) fields)
       (\<lambda>fields.
     and_then (put_opt 30 (\<lambda>x. Inr (NewValueBinary W x))
         (ListArchivedWorkflowExecutionsRequest.NextPageToken v) fields)
       (\<lambda>fields.
     and_then (put_opt 40 (\<lambda>x. Inr (NewValueString W x))
         (ListArchivedWorkflowExecutionsRequest.Query v) fields)
       (\<lambda>fields.
     Inr (NewValueStruct W fields)))))"

definition ListArchivedWorkflowExecutionsRequest_FromWire ::
  "'v wire_api \<Rightarrow> 'v \<Rightarrow> ListArchivedWorkflowExecutionsRequest \<Rightarrow> go_error +
      ListArchivedWorkflowExecutionsRequest" where
  "ListArchivedWorkflowExecutionsRequest_FromWire W w v =
     foldM (\<lambda>v (fid, fval).
       if fid = 10 then
         if wire_api.Type W fval = TBinary
         then Inr (v\<lparr>ListArchivedWorkflowExecutionsRequest.Domain := Some (GetString W fval)\<rparr>)
         else Inr v
       else if fid = 20 then
         if wire_api.Type W fval = TI32
         then Inr (v\<lparr>ListArchivedWorkflowExecutionsRequest.PageSize := Some (GetI32 W fval)\<rparr>)
         else Inr v
       else if fid = 30 then
         if wire_api.Type W fval = TBinary
         then Inr (v\<lparr>ListArchivedWorkflowExecutionsRequest.NextPageToken := Some (GetBinary W
             fval)\<rparr>)
         else Inr v
       else if fid = 40 then
         if wire_api.Type W fval = TBinary
         then Inr (v\<lparr>ListArchivedWorkflowExecutionsRequest.Query := Some (GetString W fval)\<rparr>)
         else Inr v
       else Inr v) (GetStruct W w) v"

definition ListArchivedWorkflowExecutionsRequest_Read :: "'v wire_api \<Rightarrow> 'v \<Rightarrow> go_error +
    ListArchivedWorkflowExecutionsRequest" where
  "ListArchivedWorkflowExecutionsRequest_Read W w = ListArchivedWorkflowExecutionsRequest_FromWire W
      w ListArchivedWorkflowExecutionsRequest_zero"

lemma ListArchivedWorkflowExecutionsRequest_merge:
  "(case x of None \<Rightarrow> Inr \<lparr>ListArchivedWorkflowExecutionsRequest.Domain = a0,
      ListArchivedWorkflowExecutionsRequest.PageSize = a1,
      ListArchivedWorkflowExecutionsRequest.NextPageToken = a2,
      ListArchivedWorkflowExecutionsRequest.Query = a3\<rparr> | Some y \<Rightarrow> Inr
      \<lparr>ListArchivedWorkflowExecutionsRequest.Domain = b0 y,
      ListArchivedWorkflowExecutionsRequest.PageSize = b1 y,
      ListArchivedWorkflowExecutionsRequest.NextPageToken = b2 y,
      ListArchivedWorkflowExecutionsRequest.Query = b3 y\<rparr>) =
   Inr \<lparr>ListArchivedWorkflowExecutionsRequest.Domain = (case x of None \<Rightarrow> a0 | Some y \<Rightarrow> b0 y),
       ListArchivedWorkflowExecutionsRequest.PageSize = (case x of None \<Rightarrow> a1 | Some y \<Rightarrow> b1 y),
       ListArchivedWorkflowExecutionsRequest.NextPageToken = (case x of None \<Rightarrow> a2 | Some y \<Rightarrow> b2 y),
       ListArchivedWorkflowExecutionsRequest.Query = (case x of None \<Rightarrow> a3 | Some y \<Rightarrow> b3 y)\<rparr>"
  by (cases x) simp_all

interpretation ListArchivedWorkflowExecutionsRequest: thrift_message W
  "ListArchivedWorkflowExecutionsRequest_ToWire W" "ListArchivedWorkflowExecutionsRequest_FromWire
      W" ListArchivedWorkflowExecutionsRequest_zero "\<lambda>_. True" for W
proof (rule thrift_messageI)
  fix x :: ListArchivedWorkflowExecutionsRequest
  assume laws: "wire_laws W"
  show "\<exists>w. ListArchivedWorkflowExecutionsRequest_ToWire W x = Inr w \<and> wire_api.Type W w = TStruct \<and>
      (Writable W w \<longleftrightarrow> (\<lambda>_. True) x) \<and> ((\<lambda>_. True) x \<longrightarrow> ListArchivedWorkflowExecutionsRequest_FromWire
          W w ListArchivedWorkflowExecutionsRequest_zero = Inr x)"
    by (cases x) (simp cong: option.case_cong add: codec_rules
        ListArchivedWorkflowExecutionsRequest_merge ListArchivedWorkflowExecutionsRequest_ToWire_def
        ListArchivedWorkflowExecutionsRequest_FromWire_def
        ListArchivedWorkflowExecutionsRequest_zero_def laws)
qed

definition ListArchivedWorkflowExecutionsRequest_Equals ::
  "ListArchivedWorkflowExecutionsRequest option \<Rightarrow> ListArchivedWorkflowExecutionsRequest option \<Rightarrow>
      bool" where
  "ListArchivedWorkflowExecutionsRequest_Equals v rhs =
     (case v of None \<Rightarrow> rhs = None
      | Some v \<Rightarrow> (case rhs of None \<Rightarrow> False
        | Some rhs \<Rightarrow>
          if \<not> String_EqualsPtr (ListArchivedWorkflowExecutionsRequest.Domain v)
              (ListArchivedWorkflowExecutionsRequest.Domain rhs) then False else
          if \<not> I32_EqualsPtr (ListArchivedWorkflowExecutionsRequest.PageSize v)
              (ListArchivedWorkflowExecutionsRequest.PageSize rhs) then False else
          if \<not> both_set_and (=) (ListArchivedWorkflowExecutionsRequest.NextPageToken v)
              (ListArchivedWorkflowExecutionsRequest.NextPageToken rhs) then False else
          if \<not> String_EqualsPtr (ListArchivedWorkflowExecutionsRequest.Query v)
              (ListArchivedWorkflowExecutionsRequest.Query rhs) then False else
          True))"

lemma ListArchivedWorkflowExecutionsRequest_Equals_iff [simp]:
    "ListArchivedWorkflowExecutionsRequest_Equals x y \<longleftrightarrow> x = y"
  by (cases x; cases y) (auto simp: ListArchivedWorkflowExecutionsRequest_Equals_def)

record ListArchivedWorkflowExecutionsResponse =
  Executions :: "WorkflowExecutionInfo option list option"
  NextPageToken :: "bytes option"

definition ListArchivedWorkflowExecutionsResponse_zero :: ListArchivedWorkflowExecutionsResponse
    where
  "ListArchivedWorkflowExecutionsResponse_zero = \<lparr>ListArchivedWorkflowExecutionsResponse.Executions
      = None, ListArchivedWorkflowExecutionsResponse.NextPageToken = None\<rparr>"

definition ListArchivedWorkflowExecutionsResponse_ToWire ::
  "'v wire_api \<Rightarrow> ListArchivedWorkflowExecutionsResponse \<Rightarrow> go_error + 'v" where
  "ListArchivedWorkflowExecutionsResponse_ToWire W v =
     and_then (put_opt 10 (\<lambda>x. Inr (NewValueList W (List_WorkflowExecutionInfo_ValueList W x)))
         (ListArchivedWorkflowExecutionsResponse.Executions v) [])
       (\<lambda>fields.
     and_then (put_opt 20 (\<lambda>x. Inr (NewValueBinary W x))
         (ListArchivedWorkflowExecutionsResponse.NextPageToken v) fields)
       (\<lambda>fields.
     Inr (NewValueStruct W fields)))"

definition ListArchivedWorkflowExecutionsResponse_FromWire ::
  "'v wire_api \<Rightarrow> 'v \<Rightarrow> ListArchivedWorkflowExecutionsResponse \<Rightarrow> go_error +
      ListArchivedWorkflowExecutionsResponse" where
  "ListArchivedWorkflowExecutionsResponse_FromWire W w v =
     foldM (\<lambda>v (fid, fval).
       if fid = 10 then
         if wire_api.Type W fval = TList
         then and_then (List_WorkflowExecutionInfo_Read W (GetList W fval)) (\<lambda>x. Inr
             (v\<lparr>ListArchivedWorkflowExecutionsResponse.Executions := x\<rparr>))
         else Inr v
       else if fid = 20 then
         if wire_api.Type W fval = TBinary
         then Inr (v\<lparr>ListArchivedWorkflowExecutionsResponse.NextPageToken := Some (GetBinary W
             fval)\<rparr>)
         else Inr v
       else Inr v) (GetStruct W w) v"

definition ListArchivedWorkflowExecutionsResponse_Read :: "'v wire_api \<Rightarrow> 'v \<Rightarrow> go_error +
    ListArchivedWorkflowExecutionsResponse" where
  "ListArchivedWorkflowExecutionsResponse_Read W w = ListArchivedWorkflowExecutionsResponse_FromWire
      W w ListArchivedWorkflowExecutionsResponse_zero"

definition ListArchivedWorkflowExecutionsResponse_complete ::
    "ListArchivedWorkflowExecutionsResponse \<Rightarrow> bool" where
  "ListArchivedWorkflowExecutionsResponse_complete v \<longleftrightarrow>
     if_set (list_all (present WorkflowExecutionInfo_complete))
         (ListArchivedWorkflowExecutionsResponse.Executions v)"

lemma ListArchivedWorkflowExecutionsResponse_merge:
  "(case x of None \<Rightarrow> Inr \<lparr>ListArchivedWorkflowExecutionsResponse.Executions = a0,
      ListArchivedWorkflowExecutionsResponse.NextPageToken = a1\<rparr> | Some y \<Rightarrow> Inr
      \<lparr>ListArchivedWorkflowExecutionsResponse.Executions = b0 y,
      ListArchivedWorkflowExecutionsResponse.NextPageToken = b1 y\<rparr>) =
   Inr \<lparr>ListArchivedWorkflowExecutionsResponse.Executions = (case x of None \<Rightarrow> a0 | Some y \<Rightarrow> b0 y),
       ListArchivedWorkflowExecutionsResponse.NextPageToken = (case x of None \<Rightarrow> a1 | Some y \<Rightarrow> b1
       y)\<rparr>"
  by (cases x) simp_all

interpretation ListArchivedWorkflowExecutionsResponse: thrift_message W
  "ListArchivedWorkflowExecutionsResponse_ToWire W" "ListArchivedWorkflowExecutionsResponse_FromWire
      W" ListArchivedWorkflowExecutionsResponse_zero
      "ListArchivedWorkflowExecutionsResponse_complete" for W
proof (rule thrift_messageI)
  fix x :: ListArchivedWorkflowExecutionsResponse
  assume laws: "wire_laws W"
  show "\<exists>w. ListArchivedWorkflowExecutionsResponse_ToWire W x = Inr w \<and> wire_api.Type W w = TStruct
      \<and>
      (Writable W w \<longleftrightarrow> ListArchivedWorkflowExecutionsResponse_complete x) \<and>
          (ListArchivedWorkflowExecutionsResponse_complete x \<longrightarrow>
          ListArchivedWorkflowExecutionsResponse_FromWire W w
          ListArchivedWorkflowExecutionsResponse_zero = Inr x)"
    by (cases x) (simp cong: option.case_cong add: codec_rules
        ListArchivedWorkflowExecutionsResponse_merge
        ListArchivedWorkflowExecutionsResponse_ToWire_def
        ListArchivedWorkflowExecutionsResponse_FromWire_def
        ListArchivedWorkflowExecutionsResponse_zero_def
        ListArchivedWorkflowExecutionsResponse_complete_def if_set_def
        List_WorkflowExecutionInfo_codec [OF laws] laws)
qed

definition ListArchivedWorkflowExecutionsResponse_Equals ::
  "ListArchivedWorkflowExecutionsResponse option \<Rightarrow> ListArchivedWorkflowExecutionsResponse option \<Rightarrow>
      bool" where
  "ListArchivedWorkflowExecutionsResponse_Equals v rhs =
     (case v of None \<Rightarrow> rhs = None
      | Some v \<Rightarrow> (case rhs of None \<Rightarrow> False
        | Some rhs \<Rightarrow>
          if \<not> both_set_and List_WorkflowExecutionInfo_Equals
              (ListArchivedWorkflowExecutionsResponse.Executions v)
              (ListArchivedWorkflowExecutionsResponse.Executions rhs) then False else
          if \<not> both_set_and (=) (ListArchivedWorkflowExecutionsResponse.NextPageToken v)
              (ListArchivedWorkflowExecutionsResponse.NextPageToken rhs) then False else
          True))"

definition ListArchivedWorkflowExecutionsResponse_comparable ::
    "ListArchivedWorkflowExecutionsResponse \<Rightarrow> bool" where
  "ListArchivedWorkflowExecutionsResponse_comparable v \<longleftrightarrow>
     if_set (list_all (if_set WorkflowExecutionInfo_comparable))
         (ListArchivedWorkflowExecutionsResponse.Executions v)"

lemma ListArchivedWorkflowExecutionsResponse_Equals_iff:
  "if_set ListArchivedWorkflowExecutionsResponse_comparable x \<Longrightarrow> if_set
      ListArchivedWorkflowExecutionsResponse_comparable y \<Longrightarrow>
      ListArchivedWorkflowExecutionsResponse_Equals x y \<longleftrightarrow> x = y"
  by (cases x; cases y) (simp_all add: ListArchivedWorkflowExecutionsResponse_Equals_def
      ListArchivedWorkflowExecutionsResponse_comparable_def if_not_False,
    fastforce intro: ListArchivedWorkflowExecutionsResponse.equality)

lemma ListArchivedWorkflowExecutionsResponse_fields_equal [simp]:
  "if_set ListArchivedWorkflowExecutionsResponse_comparable x \<Longrightarrow> if_set
      ListArchivedWorkflowExecutionsResponse_comparable y \<Longrightarrow>
    both_set_and (\<lambda>x y. ListArchivedWorkflowExecutionsResponse_Equals (Some x) (Some y)) x y \<longleftrightarrow> x =
        y"
  by (rule both_set_and_iff [where P = ListArchivedWorkflowExecutionsResponse_comparable]) (simp_all
      add: ListArchivedWorkflowExecutionsResponse_Equals_iff)

record ListClosedWorkflowExecutionsRequest =
  Domain :: "string option"
  MaximumPageSize :: "32 word option"
  NextPageToken :: "bytes option"
  StartTimeFilter :: "StartTimeFilter option"
  ExecutionFilter :: "WorkflowExecutionFilter option"
  TypeFilter :: "WorkflowTypeFilter option"
  StatusFilter :: "WorkflowExecutionCloseStatus option"

definition ListClosedWorkflowExecutionsRequest_zero :: ListClosedWorkflowExecutionsRequest where
  "ListClosedWorkflowExecutionsRequest_zero = \<lparr>ListClosedWorkflowExecutionsRequest.Domain = None,
      ListClosedWorkflowExecutionsRequest.MaximumPageSize = None,
      ListClosedWorkflowExecutionsRequest.NextPageToken = None,
      ListClosedWorkflowExecutionsRequest.StartTimeFilter = None,
      ListClosedWorkflowExecutionsRequest.ExecutionFilter = None,
      ListClosedWorkflowExecutionsRequest.TypeFilter = None,
      ListClosedWorkflowExecutionsRequest.StatusFilter = None\<rparr>"

definition ListClosedWorkflowExecutionsRequest_ToWire ::
  "'v wire_api \<Rightarrow> ListClosedWorkflowExecutionsRequest \<Rightarrow> go_error + 'v" where
  "ListClosedWorkflowExecutionsRequest_ToWire W v =
     and_then (put_opt 10 (\<lambda>x. Inr (NewValueString W x)) (ListClosedWorkflowExecutionsRequest.Domain
         v) [])
       (\<lambda>fields.
     and_then (put_opt 20 (\<lambda>x. Inr (NewValueI32 W x))
         (ListClosedWorkflowExecutionsRequest.MaximumPageSize v) fields)
       (\<lambda>fields.
     and_then (put_opt 30 (\<lambda>x. Inr (NewValueBinary W x))
         (ListClosedWorkflowExecutionsRequest.NextPageToken v) fields)
       (\<lambda>fields.
     and_then (put_opt 40 (StartTimeFilter_ToWire W)
         (ListClosedWorkflowExecutionsRequest.StartTimeFilter v) fields)
       (\<lambda>fields.
     and_then (put_opt 50 (WorkflowExecutionFilter_ToWire W)
         (ListClosedWorkflowExecutionsRequest.ExecutionFilter v) fields)
       (\<lambda>fields.
     and_then (put_opt 60 (WorkflowTypeFilter_ToWire W)
         (ListClosedWorkflowExecutionsRequest.TypeFilter v) fields)
       (\<lambda>fields.
     and_then (put_opt 70 (WorkflowExecutionCloseStatus_ToWire W)
         (ListClosedWorkflowExecutionsRequest.StatusFilter v) fields)
       (\<lambda>fields.
     Inr (NewValueStruct W fields))))))))"

definition ListClosedWorkflowExecutionsRequest_FromWire ::
  "'v wire_api \<Rightarrow> 'v \<Rightarrow> ListClosedWorkflowExecutionsRequest \<Rightarrow> go_error +
      ListClosedWorkflowExecutionsRequest" where
  "ListClosedWorkflowExecutionsRequest_FromWire W w v =
     foldM (\<lambda>v (fid, fval).
       if fid = 10 then
         if wire_api.Type W fval = TBinary
         then Inr (v\<lparr>ListClosedWorkflowExecutionsRequest.Domain := Some (GetString W fval)\<rparr>)
         else Inr v
       else if fid = 20 then
         if wire_api.Type W fval = TI32
         then Inr (v\<lparr>ListClosedWorkflowExecutionsRequest.MaximumPageSize := Some (GetI32 W fval)\<rparr>)
         else Inr v
       else if fid = 30 then
         if wire_api.Type W fval = TBinary
         then Inr (v\<lparr>ListClosedWorkflowExecutionsRequest.NextPageToken := Some (GetBinary W fval)\<rparr>)
         else Inr v
       else if fid = 40 then
         if wire_api.Type W fval = TStruct
         then and_then (StartTimeFilter_Read W fval) (\<lambda>x. Inr
             (v\<lparr>ListClosedWorkflowExecutionsRequest.StartTimeFilter := Some x\<rparr>))
         else Inr v
       else if fid = 50 then
         if wire_api.Type W fval = TStruct
         then and_then (WorkflowExecutionFilter_Read W fval) (\<lambda>x. Inr
             (v\<lparr>ListClosedWorkflowExecutionsRequest.ExecutionFilter := Some x\<rparr>))
         else Inr v
       else if fid = 60 then
         if wire_api.Type W fval = TStruct
         then and_then (WorkflowTypeFilter_Read W fval) (\<lambda>x. Inr
             (v\<lparr>ListClosedWorkflowExecutionsRequest.TypeFilter := Some x\<rparr>))
         else Inr v
       else if fid = 70 then
         if wire_api.Type W fval = TI32
         then and_then (WorkflowExecutionCloseStatus_Read W fval) (\<lambda>x. Inr
             (v\<lparr>ListClosedWorkflowExecutionsRequest.StatusFilter := Some x\<rparr>))
         else Inr v
       else Inr v) (GetStruct W w) v"

definition ListClosedWorkflowExecutionsRequest_Read :: "'v wire_api \<Rightarrow> 'v \<Rightarrow> go_error +
    ListClosedWorkflowExecutionsRequest" where
  "ListClosedWorkflowExecutionsRequest_Read W w = ListClosedWorkflowExecutionsRequest_FromWire W w
      ListClosedWorkflowExecutionsRequest_zero"

lemma ListClosedWorkflowExecutionsRequest_merge:
  "(case x of None \<Rightarrow> Inr \<lparr>ListClosedWorkflowExecutionsRequest.Domain = a0,
      ListClosedWorkflowExecutionsRequest.MaximumPageSize = a1,
      ListClosedWorkflowExecutionsRequest.NextPageToken = a2,
      ListClosedWorkflowExecutionsRequest.StartTimeFilter = a3,
      ListClosedWorkflowExecutionsRequest.ExecutionFilter = a4,
      ListClosedWorkflowExecutionsRequest.TypeFilter = a5,
      ListClosedWorkflowExecutionsRequest.StatusFilter = a6\<rparr> | Some y \<Rightarrow> Inr
      \<lparr>ListClosedWorkflowExecutionsRequest.Domain = b0 y,
      ListClosedWorkflowExecutionsRequest.MaximumPageSize = b1 y,
      ListClosedWorkflowExecutionsRequest.NextPageToken = b2 y,
      ListClosedWorkflowExecutionsRequest.StartTimeFilter = b3 y,
      ListClosedWorkflowExecutionsRequest.ExecutionFilter = b4 y,
      ListClosedWorkflowExecutionsRequest.TypeFilter = b5 y,
      ListClosedWorkflowExecutionsRequest.StatusFilter = b6 y\<rparr>) =
   Inr \<lparr>ListClosedWorkflowExecutionsRequest.Domain = (case x of None \<Rightarrow> a0 | Some y \<Rightarrow> b0 y),
       ListClosedWorkflowExecutionsRequest.MaximumPageSize = (case x of None \<Rightarrow> a1 | Some y \<Rightarrow> b1 y),
       ListClosedWorkflowExecutionsRequest.NextPageToken = (case x of None \<Rightarrow> a2 | Some y \<Rightarrow> b2 y),
       ListClosedWorkflowExecutionsRequest.StartTimeFilter = (case x of None \<Rightarrow> a3 | Some y \<Rightarrow> b3 y),
       ListClosedWorkflowExecutionsRequest.ExecutionFilter = (case x of None \<Rightarrow> a4 | Some y \<Rightarrow> b4 y),
       ListClosedWorkflowExecutionsRequest.TypeFilter = (case x of None \<Rightarrow> a5 | Some y \<Rightarrow> b5 y),
       ListClosedWorkflowExecutionsRequest.StatusFilter = (case x of None \<Rightarrow> a6 | Some y \<Rightarrow> b6 y)\<rparr>"
  by (cases x) simp_all

interpretation ListClosedWorkflowExecutionsRequest: thrift_message W
  "ListClosedWorkflowExecutionsRequest_ToWire W" "ListClosedWorkflowExecutionsRequest_FromWire W"
      ListClosedWorkflowExecutionsRequest_zero "\<lambda>_. True" for W
proof (rule thrift_messageI)
  fix x :: ListClosedWorkflowExecutionsRequest
  assume laws: "wire_laws W"
  obtain enc0 where e0: "StartTimeFilter_ToWire W = (\<lambda>x. Inr (enc0 x))"
      "\<And>x. wire_api.Type W (enc0 x) = TStruct"
      "\<And>x. Writable W (enc0 x) \<longleftrightarrow> (\<lambda>_. True) x"
      "\<And>x. (\<lambda>_. True) x \<Longrightarrow> StartTimeFilter_FromWire W (enc0 x) StartTimeFilter_zero = Inr x"
    by (rule StartTimeFilter.encoder [OF laws]) (rule that)
  obtain enc1 where e1: "WorkflowExecutionFilter_ToWire W = (\<lambda>x. Inr (enc1 x))"
      "\<And>x. wire_api.Type W (enc1 x) = TStruct"
      "\<And>x. Writable W (enc1 x) \<longleftrightarrow> (\<lambda>_. True) x"
      "\<And>x. (\<lambda>_. True) x \<Longrightarrow> WorkflowExecutionFilter_FromWire W (enc1 x) WorkflowExecutionFilter_zero =
          Inr x"
    by (rule WorkflowExecutionFilter.encoder [OF laws]) (rule that)
  obtain enc2 where e2: "WorkflowTypeFilter_ToWire W = (\<lambda>x. Inr (enc2 x))"
      "\<And>x. wire_api.Type W (enc2 x) = TStruct"
      "\<And>x. Writable W (enc2 x) \<longleftrightarrow> (\<lambda>_. True) x"
      "\<And>x. (\<lambda>_. True) x \<Longrightarrow> WorkflowTypeFilter_FromWire W (enc2 x) WorkflowTypeFilter_zero = Inr x"
    by (rule WorkflowTypeFilter.encoder [OF laws]) (rule that)
  show "\<exists>w. ListClosedWorkflowExecutionsRequest_ToWire W x = Inr w \<and> wire_api.Type W w = TStruct \<and>
      (Writable W w \<longleftrightarrow> (\<lambda>_. True) x) \<and> ((\<lambda>_. True) x \<longrightarrow> ListClosedWorkflowExecutionsRequest_FromWire W
          w ListClosedWorkflowExecutionsRequest_zero = Inr x)"
    by (cases x) (simp cong: option.case_cong add: codec_rules
        ListClosedWorkflowExecutionsRequest_merge ListClosedWorkflowExecutionsRequest_ToWire_def
        ListClosedWorkflowExecutionsRequest_FromWire_def
        ListClosedWorkflowExecutionsRequest_zero_def WorkflowExecutionCloseStatus_enc
        WorkflowExecutionCloseStatus_Read_def WorkflowExecutionCloseStatus_FromWire_def
        StartTimeFilter_Read_def WorkflowExecutionFilter_Read_def WorkflowTypeFilter_Read_def laws
        e0 e1 e2)
qed

definition ListClosedWorkflowExecutionsRequest_Equals ::
  "ListClosedWorkflowExecutionsRequest option \<Rightarrow> ListClosedWorkflowExecutionsRequest option \<Rightarrow> bool"
      where
  "ListClosedWorkflowExecutionsRequest_Equals v rhs =
     (case v of None \<Rightarrow> rhs = None
      | Some v \<Rightarrow> (case rhs of None \<Rightarrow> False
        | Some rhs \<Rightarrow>
          if \<not> String_EqualsPtr (ListClosedWorkflowExecutionsRequest.Domain v)
              (ListClosedWorkflowExecutionsRequest.Domain rhs) then False else
          if \<not> I32_EqualsPtr (ListClosedWorkflowExecutionsRequest.MaximumPageSize v)
              (ListClosedWorkflowExecutionsRequest.MaximumPageSize rhs) then False else
          if \<not> both_set_and (=) (ListClosedWorkflowExecutionsRequest.NextPageToken v)
              (ListClosedWorkflowExecutionsRequest.NextPageToken rhs) then False else
          if \<not> both_set_and (\<lambda>x y. StartTimeFilter_Equals (Some x) (Some y))
              (ListClosedWorkflowExecutionsRequest.StartTimeFilter v)
              (ListClosedWorkflowExecutionsRequest.StartTimeFilter rhs) then False else
          if \<not> both_set_and (\<lambda>x y. WorkflowExecutionFilter_Equals (Some x) (Some y))
              (ListClosedWorkflowExecutionsRequest.ExecutionFilter v)
              (ListClosedWorkflowExecutionsRequest.ExecutionFilter rhs) then False else
          if \<not> both_set_and (\<lambda>x y. WorkflowTypeFilter_Equals (Some x) (Some y))
              (ListClosedWorkflowExecutionsRequest.TypeFilter v)
              (ListClosedWorkflowExecutionsRequest.TypeFilter rhs) then False else
          if \<not> WorkflowExecutionCloseStatus_EqualsPtr
              (ListClosedWorkflowExecutionsRequest.StatusFilter v)
              (ListClosedWorkflowExecutionsRequest.StatusFilter rhs) then False else
          True))"

lemma ListClosedWorkflowExecutionsRequest_Equals_iff [simp]:
    "ListClosedWorkflowExecutionsRequest_Equals x y \<longleftrightarrow> x = y"
  by (cases x; cases y) (simp_all add: ListClosedWorkflowExecutionsRequest_Equals_def if_not_False,
      fastforce intro: ListClosedWorkflowExecutionsRequest.equality)

record ListClosedWorkflowExecutionsResponse =
  Executions :: "WorkflowExecutionInfo option list option"
  NextPageToken :: "bytes option"

definition ListClosedWorkflowExecutionsResponse_zero :: ListClosedWorkflowExecutionsResponse where
  "ListClosedWorkflowExecutionsResponse_zero = \<lparr>ListClosedWorkflowExecutionsResponse.Executions =
      None, ListClosedWorkflowExecutionsResponse.NextPageToken = None\<rparr>"

definition ListClosedWorkflowExecutionsResponse_ToWire ::
  "'v wire_api \<Rightarrow> ListClosedWorkflowExecutionsResponse \<Rightarrow> go_error + 'v" where
  "ListClosedWorkflowExecutionsResponse_ToWire W v =
     and_then (put_opt 10 (\<lambda>x. Inr (NewValueList W (List_WorkflowExecutionInfo_ValueList W x)))
         (ListClosedWorkflowExecutionsResponse.Executions v) [])
       (\<lambda>fields.
     and_then (put_opt 20 (\<lambda>x. Inr (NewValueBinary W x))
         (ListClosedWorkflowExecutionsResponse.NextPageToken v) fields)
       (\<lambda>fields.
     Inr (NewValueStruct W fields)))"

definition ListClosedWorkflowExecutionsResponse_FromWire ::
  "'v wire_api \<Rightarrow> 'v \<Rightarrow> ListClosedWorkflowExecutionsResponse \<Rightarrow> go_error +
      ListClosedWorkflowExecutionsResponse" where
  "ListClosedWorkflowExecutionsResponse_FromWire W w v =
     foldM (\<lambda>v (fid, fval).
       if fid = 10 then
         if wire_api.Type W fval = TList
         then and_then (List_WorkflowExecutionInfo_Read W (GetList W fval)) (\<lambda>x. Inr
             (v\<lparr>ListClosedWorkflowExecutionsResponse.Executions := x\<rparr>))
         else Inr v
       else if fid = 20 then
         if wire_api.Type W fval = TBinary
         then Inr (v\<lparr>ListClosedWorkflowExecutionsResponse.NextPageToken := Some (GetBinary W fval)\<rparr>)
         else Inr v
       else Inr v) (GetStruct W w) v"

definition ListClosedWorkflowExecutionsResponse_Read :: "'v wire_api \<Rightarrow> 'v \<Rightarrow> go_error +
    ListClosedWorkflowExecutionsResponse" where
  "ListClosedWorkflowExecutionsResponse_Read W w = ListClosedWorkflowExecutionsResponse_FromWire W w
      ListClosedWorkflowExecutionsResponse_zero"

definition ListClosedWorkflowExecutionsResponse_complete :: "ListClosedWorkflowExecutionsResponse \<Rightarrow>
    bool" where
  "ListClosedWorkflowExecutionsResponse_complete v \<longleftrightarrow>
     if_set (list_all (present WorkflowExecutionInfo_complete))
         (ListClosedWorkflowExecutionsResponse.Executions v)"

lemma ListClosedWorkflowExecutionsResponse_merge:
  "(case x of None \<Rightarrow> Inr \<lparr>ListClosedWorkflowExecutionsResponse.Executions = a0,
      ListClosedWorkflowExecutionsResponse.NextPageToken = a1\<rparr> | Some y \<Rightarrow> Inr
      \<lparr>ListClosedWorkflowExecutionsResponse.Executions = b0 y,
      ListClosedWorkflowExecutionsResponse.NextPageToken = b1 y\<rparr>) =
   Inr \<lparr>ListClosedWorkflowExecutionsResponse.Executions = (case x of None \<Rightarrow> a0 | Some y \<Rightarrow> b0 y),
       ListClosedWorkflowExecutionsResponse.NextPageToken = (case x of None \<Rightarrow> a1 | Some y \<Rightarrow> b1 y)\<rparr>"
  by (cases x) simp_all

interpretation ListClosedWorkflowExecutionsResponse: thrift_message W
  "ListClosedWorkflowExecutionsResponse_ToWire W" "ListClosedWorkflowExecutionsResponse_FromWire W"
      ListClosedWorkflowExecutionsResponse_zero "ListClosedWorkflowExecutionsResponse_complete" for
      W
proof (rule thrift_messageI)
  fix x :: ListClosedWorkflowExecutionsResponse
  assume laws: "wire_laws W"
  show "\<exists>w. ListClosedWorkflowExecutionsResponse_ToWire W x = Inr w \<and> wire_api.Type W w = TStruct \<and>
      (Writable W w \<longleftrightarrow> ListClosedWorkflowExecutionsResponse_complete x) \<and>
          (ListClosedWorkflowExecutionsResponse_complete x \<longrightarrow>
          ListClosedWorkflowExecutionsResponse_FromWire W w
          ListClosedWorkflowExecutionsResponse_zero = Inr x)"
    by (cases x) (simp cong: option.case_cong add: codec_rules
        ListClosedWorkflowExecutionsResponse_merge ListClosedWorkflowExecutionsResponse_ToWire_def
        ListClosedWorkflowExecutionsResponse_FromWire_def
        ListClosedWorkflowExecutionsResponse_zero_def
        ListClosedWorkflowExecutionsResponse_complete_def if_set_def
        List_WorkflowExecutionInfo_codec [OF laws] laws)
qed

definition ListClosedWorkflowExecutionsResponse_Equals ::
  "ListClosedWorkflowExecutionsResponse option \<Rightarrow> ListClosedWorkflowExecutionsResponse option \<Rightarrow> bool"
      where
  "ListClosedWorkflowExecutionsResponse_Equals v rhs =
     (case v of None \<Rightarrow> rhs = None
      | Some v \<Rightarrow> (case rhs of None \<Rightarrow> False
        | Some rhs \<Rightarrow>
          if \<not> both_set_and List_WorkflowExecutionInfo_Equals
              (ListClosedWorkflowExecutionsResponse.Executions v)
              (ListClosedWorkflowExecutionsResponse.Executions rhs) then False else
          if \<not> both_set_and (=) (ListClosedWorkflowExecutionsResponse.NextPageToken v)
              (ListClosedWorkflowExecutionsResponse.NextPageToken rhs) then False else
          True))"

definition ListClosedWorkflowExecutionsResponse_comparable :: "ListClosedWorkflowExecutionsResponse
    \<Rightarrow> bool" where
  "ListClosedWorkflowExecutionsResponse_comparable v \<longleftrightarrow>
     if_set (list_all (if_set WorkflowExecutionInfo_comparable))
         (ListClosedWorkflowExecutionsResponse.Executions v)"

lemma ListClosedWorkflowExecutionsResponse_Equals_iff:
  "if_set ListClosedWorkflowExecutionsResponse_comparable x \<Longrightarrow> if_set
      ListClosedWorkflowExecutionsResponse_comparable y \<Longrightarrow>
      ListClosedWorkflowExecutionsResponse_Equals x y \<longleftrightarrow> x = y"
  by (cases x; cases y) (simp_all add: ListClosedWorkflowExecutionsResponse_Equals_def
      ListClosedWorkflowExecutionsResponse_comparable_def if_not_False,
    fastforce intro: ListClosedWorkflowExecutionsResponse.equality)

lemma ListClosedWorkflowExecutionsResponse_fields_equal [simp]:
  "if_set ListClosedWorkflowExecutionsResponse_comparable x \<Longrightarrow> if_set
      ListClosedWorkflowExecutionsResponse_comparable y \<Longrightarrow>
    both_set_and (\<lambda>x y. ListClosedWorkflowExecutionsResponse_Equals (Some x) (Some y)) x y \<longleftrightarrow> x = y"
  by (rule both_set_and_iff [where P = ListClosedWorkflowExecutionsResponse_comparable]) (simp_all
      add: ListClosedWorkflowExecutionsResponse_Equals_iff)

record ListOpenWorkflowExecutionsRequest =
  Domain :: "string option"
  MaximumPageSize :: "32 word option"
  NextPageToken :: "bytes option"
  StartTimeFilter :: "StartTimeFilter option"
  ExecutionFilter :: "WorkflowExecutionFilter option"
  TypeFilter :: "WorkflowTypeFilter option"

definition ListOpenWorkflowExecutionsRequest_zero :: ListOpenWorkflowExecutionsRequest where
  "ListOpenWorkflowExecutionsRequest_zero = \<lparr>ListOpenWorkflowExecutionsRequest.Domain = None,
      ListOpenWorkflowExecutionsRequest.MaximumPageSize = None,
      ListOpenWorkflowExecutionsRequest.NextPageToken = None,
      ListOpenWorkflowExecutionsRequest.StartTimeFilter = None,
      ListOpenWorkflowExecutionsRequest.ExecutionFilter = None,
      ListOpenWorkflowExecutionsRequest.TypeFilter = None\<rparr>"

definition ListOpenWorkflowExecutionsRequest_ToWire ::
  "'v wire_api \<Rightarrow> ListOpenWorkflowExecutionsRequest \<Rightarrow> go_error + 'v" where
  "ListOpenWorkflowExecutionsRequest_ToWire W v =
     and_then (put_opt 10 (\<lambda>x. Inr (NewValueString W x)) (ListOpenWorkflowExecutionsRequest.Domain
         v) [])
       (\<lambda>fields.
     and_then (put_opt 20 (\<lambda>x. Inr (NewValueI32 W x))
         (ListOpenWorkflowExecutionsRequest.MaximumPageSize v) fields)
       (\<lambda>fields.
     and_then (put_opt 30 (\<lambda>x. Inr (NewValueBinary W x))
         (ListOpenWorkflowExecutionsRequest.NextPageToken v) fields)
       (\<lambda>fields.
     and_then (put_opt 40 (StartTimeFilter_ToWire W)
         (ListOpenWorkflowExecutionsRequest.StartTimeFilter v) fields)
       (\<lambda>fields.
     and_then (put_opt 50 (WorkflowExecutionFilter_ToWire W)
         (ListOpenWorkflowExecutionsRequest.ExecutionFilter v) fields)
       (\<lambda>fields.
     and_then (put_opt 60 (WorkflowTypeFilter_ToWire W)
         (ListOpenWorkflowExecutionsRequest.TypeFilter v) fields)
       (\<lambda>fields.
     Inr (NewValueStruct W fields)))))))"

definition ListOpenWorkflowExecutionsRequest_FromWire ::
  "'v wire_api \<Rightarrow> 'v \<Rightarrow> ListOpenWorkflowExecutionsRequest \<Rightarrow> go_error +
      ListOpenWorkflowExecutionsRequest" where
  "ListOpenWorkflowExecutionsRequest_FromWire W w v =
     foldM (\<lambda>v (fid, fval).
       if fid = 10 then
         if wire_api.Type W fval = TBinary
         then Inr (v\<lparr>ListOpenWorkflowExecutionsRequest.Domain := Some (GetString W fval)\<rparr>)
         else Inr v
       else if fid = 20 then
         if wire_api.Type W fval = TI32
         then Inr (v\<lparr>ListOpenWorkflowExecutionsRequest.MaximumPageSize := Some (GetI32 W fval)\<rparr>)
         else Inr v
       else if fid = 30 then
         if wire_api.Type W fval = TBinary
         then Inr (v\<lparr>ListOpenWorkflowExecutionsRequest.NextPageToken := Some (GetBinary W fval)\<rparr>)
         else Inr v
       else if fid = 40 then
         if wire_api.Type W fval = TStruct
         then and_then (StartTimeFilter_Read W fval) (\<lambda>x. Inr
             (v\<lparr>ListOpenWorkflowExecutionsRequest.StartTimeFilter := Some x\<rparr>))
         else Inr v
       else if fid = 50 then
         if wire_api.Type W fval = TStruct
         then and_then (WorkflowExecutionFilter_Read W fval) (\<lambda>x. Inr
             (v\<lparr>ListOpenWorkflowExecutionsRequest.ExecutionFilter := Some x\<rparr>))
         else Inr v
       else if fid = 60 then
         if wire_api.Type W fval = TStruct
         then and_then (WorkflowTypeFilter_Read W fval) (\<lambda>x. Inr
             (v\<lparr>ListOpenWorkflowExecutionsRequest.TypeFilter := Some x\<rparr>))
         else Inr v
       else Inr v) (GetStruct W w) v"

definition ListOpenWorkflowExecutionsRequest_Read :: "'v wire_api \<Rightarrow> 'v \<Rightarrow> go_error +
    ListOpenWorkflowExecutionsRequest" where
  "ListOpenWorkflowExecutionsRequest_Read W w = ListOpenWorkflowExecutionsRequest_FromWire W w
      ListOpenWorkflowExecutionsRequest_zero"

lemma ListOpenWorkflowExecutionsRequest_merge:
  "(case x of None \<Rightarrow> Inr \<lparr>ListOpenWorkflowExecutionsRequest.Domain = a0,
      ListOpenWorkflowExecutionsRequest.MaximumPageSize = a1,
      ListOpenWorkflowExecutionsRequest.NextPageToken = a2,
      ListOpenWorkflowExecutionsRequest.StartTimeFilter = a3,
      ListOpenWorkflowExecutionsRequest.ExecutionFilter = a4,
      ListOpenWorkflowExecutionsRequest.TypeFilter = a5\<rparr> | Some y \<Rightarrow> Inr
      \<lparr>ListOpenWorkflowExecutionsRequest.Domain = b0 y,
      ListOpenWorkflowExecutionsRequest.MaximumPageSize = b1 y,
      ListOpenWorkflowExecutionsRequest.NextPageToken = b2 y,
      ListOpenWorkflowExecutionsRequest.StartTimeFilter = b3 y,
      ListOpenWorkflowExecutionsRequest.ExecutionFilter = b4 y,
      ListOpenWorkflowExecutionsRequest.TypeFilter = b5 y\<rparr>) =
   Inr \<lparr>ListOpenWorkflowExecutionsRequest.Domain = (case x of None \<Rightarrow> a0 | Some y \<Rightarrow> b0 y),
       ListOpenWorkflowExecutionsRequest.MaximumPageSize = (case x of None \<Rightarrow> a1 | Some y \<Rightarrow> b1 y),
       ListOpenWorkflowExecutionsRequest.NextPageToken = (case x of None \<Rightarrow> a2 | Some y \<Rightarrow> b2 y),
       ListOpenWorkflowExecutionsRequest.StartTimeFilter = (case x of None \<Rightarrow> a3 | Some y \<Rightarrow> b3 y),
       ListOpenWorkflowExecutionsRequest.ExecutionFilter = (case x of None \<Rightarrow> a4 | Some y \<Rightarrow> b4 y),
       ListOpenWorkflowExecutionsRequest.TypeFilter = (case x of None \<Rightarrow> a5 | Some y \<Rightarrow> b5 y)\<rparr>"
  by (cases x) simp_all

interpretation ListOpenWorkflowExecutionsRequest: thrift_message W
  "ListOpenWorkflowExecutionsRequest_ToWire W" "ListOpenWorkflowExecutionsRequest_FromWire W"
      ListOpenWorkflowExecutionsRequest_zero "\<lambda>_. True" for W
proof (rule thrift_messageI)
  fix x :: ListOpenWorkflowExecutionsRequest
  assume laws: "wire_laws W"
  obtain enc0 where e0: "StartTimeFilter_ToWire W = (\<lambda>x. Inr (enc0 x))"
      "\<And>x. wire_api.Type W (enc0 x) = TStruct"
      "\<And>x. Writable W (enc0 x) \<longleftrightarrow> (\<lambda>_. True) x"
      "\<And>x. (\<lambda>_. True) x \<Longrightarrow> StartTimeFilter_FromWire W (enc0 x) StartTimeFilter_zero = Inr x"
    by (rule StartTimeFilter.encoder [OF laws]) (rule that)
  obtain enc1 where e1: "WorkflowExecutionFilter_ToWire W = (\<lambda>x. Inr (enc1 x))"
      "\<And>x. wire_api.Type W (enc1 x) = TStruct"
      "\<And>x. Writable W (enc1 x) \<longleftrightarrow> (\<lambda>_. True) x"
      "\<And>x. (\<lambda>_. True) x \<Longrightarrow> WorkflowExecutionFilter_FromWire W (enc1 x) WorkflowExecutionFilter_zero =
          Inr x"
    by (rule WorkflowExecutionFilter.encoder [OF laws]) (rule that)
  obtain enc2 where e2: "WorkflowTypeFilter_ToWire W = (\<lambda>x. Inr (enc2 x))"
      "\<And>x. wire_api.Type W (enc2 x) = TStruct"
      "\<And>x. Writable W (enc2 x) \<longleftrightarrow> (\<lambda>_. True) x"
      "\<And>x. (\<lambda>_. True) x \<Longrightarrow> WorkflowTypeFilter_FromWire W (enc2 x) WorkflowTypeFilter_zero = Inr x"
    by (rule WorkflowTypeFilter.encoder [OF laws]) (rule that)
  show "\<exists>w. ListOpenWorkflowExecutionsRequest_ToWire W x = Inr w \<and> wire_api.Type W w = TStruct \<and>
      (Writable W w \<longleftrightarrow> (\<lambda>_. True) x) \<and> ((\<lambda>_. True) x \<longrightarrow> ListOpenWorkflowExecutionsRequest_FromWire W w
          ListOpenWorkflowExecutionsRequest_zero = Inr x)"
    by (cases x) (simp cong: option.case_cong add: codec_rules
        ListOpenWorkflowExecutionsRequest_merge ListOpenWorkflowExecutionsRequest_ToWire_def
        ListOpenWorkflowExecutionsRequest_FromWire_def ListOpenWorkflowExecutionsRequest_zero_def
        StartTimeFilter_Read_def WorkflowExecutionFilter_Read_def WorkflowTypeFilter_Read_def laws
        e0 e1 e2)
qed

definition ListOpenWorkflowExecutionsRequest_Equals ::
  "ListOpenWorkflowExecutionsRequest option \<Rightarrow> ListOpenWorkflowExecutionsRequest option \<Rightarrow> bool" where
  "ListOpenWorkflowExecutionsRequest_Equals v rhs =
     (case v of None \<Rightarrow> rhs = None
      | Some v \<Rightarrow> (case rhs of None \<Rightarrow> False
        | Some rhs \<Rightarrow>
          if \<not> String_EqualsPtr (ListOpenWorkflowExecutionsRequest.Domain v)
              (ListOpenWorkflowExecutionsRequest.Domain rhs) then False else
          if \<not> I32_EqualsPtr (ListOpenWorkflowExecutionsRequest.MaximumPageSize v)
              (ListOpenWorkflowExecutionsRequest.MaximumPageSize rhs) then False else
          if \<not> both_set_and (=) (ListOpenWorkflowExecutionsRequest.NextPageToken v)
              (ListOpenWorkflowExecutionsRequest.NextPageToken rhs) then False else
          if \<not> both_set_and (\<lambda>x y. StartTimeFilter_Equals (Some x) (Some y))
              (ListOpenWorkflowExecutionsRequest.StartTimeFilter v)
              (ListOpenWorkflowExecutionsRequest.StartTimeFilter rhs) then False else
          if \<not> both_set_and (\<lambda>x y. WorkflowExecutionFilter_Equals (Some x) (Some y))
              (ListOpenWorkflowExecutionsRequest.ExecutionFilter v)
              (ListOpenWorkflowExecutionsRequest.ExecutionFilter rhs) then False else
          if \<not> both_set_and (\<lambda>x y. WorkflowTypeFilter_Equals (Some x) (Some y))
              (ListOpenWorkflowExecutionsRequest.TypeFilter v)
              (ListOpenWorkflowExecutionsRequest.TypeFilter rhs) then False else
          True))"

lemma ListOpenWorkflowExecutionsRequest_Equals_iff [simp]: "ListOpenWorkflowExecutionsRequest_Equals
    x y \<longleftrightarrow> x = y"
  by (cases x; cases y) (simp_all add: ListOpenWorkflowExecutionsRequest_Equals_def if_not_False,
      fastforce intro: ListOpenWorkflowExecutionsRequest.equality)

record ListOpenWorkflowExecutionsResponse =
  Executions :: "WorkflowExecutionInfo option list option"
  NextPageToken :: "bytes option"

definition ListOpenWorkflowExecutionsResponse_zero :: ListOpenWorkflowExecutionsResponse where
  "ListOpenWorkflowExecutionsResponse_zero = \<lparr>ListOpenWorkflowExecutionsResponse.Executions = None,
      ListOpenWorkflowExecutionsResponse.NextPageToken = None\<rparr>"

definition ListOpenWorkflowExecutionsResponse_ToWire ::
  "'v wire_api \<Rightarrow> ListOpenWorkflowExecutionsResponse \<Rightarrow> go_error + 'v" where
  "ListOpenWorkflowExecutionsResponse_ToWire W v =
     and_then (put_opt 10 (\<lambda>x. Inr (NewValueList W (List_WorkflowExecutionInfo_ValueList W x)))
         (ListOpenWorkflowExecutionsResponse.Executions v) [])
       (\<lambda>fields.
     and_then (put_opt 20 (\<lambda>x. Inr (NewValueBinary W x))
         (ListOpenWorkflowExecutionsResponse.NextPageToken v) fields)
       (\<lambda>fields.
     Inr (NewValueStruct W fields)))"

definition ListOpenWorkflowExecutionsResponse_FromWire ::
  "'v wire_api \<Rightarrow> 'v \<Rightarrow> ListOpenWorkflowExecutionsResponse \<Rightarrow> go_error +
      ListOpenWorkflowExecutionsResponse" where
  "ListOpenWorkflowExecutionsResponse_FromWire W w v =
     foldM (\<lambda>v (fid, fval).
       if fid = 10 then
         if wire_api.Type W fval = TList
         then and_then (List_WorkflowExecutionInfo_Read W (GetList W fval)) (\<lambda>x. Inr
             (v\<lparr>ListOpenWorkflowExecutionsResponse.Executions := x\<rparr>))
         else Inr v
       else if fid = 20 then
         if wire_api.Type W fval = TBinary
         then Inr (v\<lparr>ListOpenWorkflowExecutionsResponse.NextPageToken := Some (GetBinary W fval)\<rparr>)
         else Inr v
       else Inr v) (GetStruct W w) v"

definition ListOpenWorkflowExecutionsResponse_Read :: "'v wire_api \<Rightarrow> 'v \<Rightarrow> go_error +
    ListOpenWorkflowExecutionsResponse" where
  "ListOpenWorkflowExecutionsResponse_Read W w = ListOpenWorkflowExecutionsResponse_FromWire W w
      ListOpenWorkflowExecutionsResponse_zero"

definition ListOpenWorkflowExecutionsResponse_complete :: "ListOpenWorkflowExecutionsResponse \<Rightarrow>
    bool" where
  "ListOpenWorkflowExecutionsResponse_complete v \<longleftrightarrow>
     if_set (list_all (present WorkflowExecutionInfo_complete))
         (ListOpenWorkflowExecutionsResponse.Executions v)"

lemma ListOpenWorkflowExecutionsResponse_merge:
  "(case x of None \<Rightarrow> Inr \<lparr>ListOpenWorkflowExecutionsResponse.Executions = a0,
      ListOpenWorkflowExecutionsResponse.NextPageToken = a1\<rparr> | Some y \<Rightarrow> Inr
      \<lparr>ListOpenWorkflowExecutionsResponse.Executions = b0 y,
      ListOpenWorkflowExecutionsResponse.NextPageToken = b1 y\<rparr>) =
   Inr \<lparr>ListOpenWorkflowExecutionsResponse.Executions = (case x of None \<Rightarrow> a0 | Some y \<Rightarrow> b0 y),
       ListOpenWorkflowExecutionsResponse.NextPageToken = (case x of None \<Rightarrow> a1 | Some y \<Rightarrow> b1 y)\<rparr>"
  by (cases x) simp_all

interpretation ListOpenWorkflowExecutionsResponse: thrift_message W
  "ListOpenWorkflowExecutionsResponse_ToWire W" "ListOpenWorkflowExecutionsResponse_FromWire W"
      ListOpenWorkflowExecutionsResponse_zero "ListOpenWorkflowExecutionsResponse_complete" for W
proof (rule thrift_messageI)
  fix x :: ListOpenWorkflowExecutionsResponse
  assume laws: "wire_laws W"
  show "\<exists>w. ListOpenWorkflowExecutionsResponse_ToWire W x = Inr w \<and> wire_api.Type W w = TStruct \<and>
      (Writable W w \<longleftrightarrow> ListOpenWorkflowExecutionsResponse_complete x) \<and>
          (ListOpenWorkflowExecutionsResponse_complete x \<longrightarrow>
          ListOpenWorkflowExecutionsResponse_FromWire W w ListOpenWorkflowExecutionsResponse_zero =
          Inr x)"
    by (cases x) (simp cong: option.case_cong add: codec_rules
        ListOpenWorkflowExecutionsResponse_merge ListOpenWorkflowExecutionsResponse_ToWire_def
        ListOpenWorkflowExecutionsResponse_FromWire_def ListOpenWorkflowExecutionsResponse_zero_def
        ListOpenWorkflowExecutionsResponse_complete_def if_set_def List_WorkflowExecutionInfo_codec
        [OF laws] laws)
qed

definition ListOpenWorkflowExecutionsResponse_Equals ::
  "ListOpenWorkflowExecutionsResponse option \<Rightarrow> ListOpenWorkflowExecutionsResponse option \<Rightarrow> bool"
      where
  "ListOpenWorkflowExecutionsResponse_Equals v rhs =
     (case v of None \<Rightarrow> rhs = None
      | Some v \<Rightarrow> (case rhs of None \<Rightarrow> False
        | Some rhs \<Rightarrow>
          if \<not> both_set_and List_WorkflowExecutionInfo_Equals
              (ListOpenWorkflowExecutionsResponse.Executions v)
              (ListOpenWorkflowExecutionsResponse.Executions rhs) then False else
          if \<not> both_set_and (=) (ListOpenWorkflowExecutionsResponse.NextPageToken v)
              (ListOpenWorkflowExecutionsResponse.NextPageToken rhs) then False else
          True))"

definition ListOpenWorkflowExecutionsResponse_comparable :: "ListOpenWorkflowExecutionsResponse \<Rightarrow>
    bool" where
  "ListOpenWorkflowExecutionsResponse_comparable v \<longleftrightarrow>
     if_set (list_all (if_set WorkflowExecutionInfo_comparable))
         (ListOpenWorkflowExecutionsResponse.Executions v)"

lemma ListOpenWorkflowExecutionsResponse_Equals_iff:
  "if_set ListOpenWorkflowExecutionsResponse_comparable x \<Longrightarrow> if_set
      ListOpenWorkflowExecutionsResponse_comparable y \<Longrightarrow> ListOpenWorkflowExecutionsResponse_Equals x
      y \<longleftrightarrow> x = y"
  by (cases x; cases y) (simp_all add: ListOpenWorkflowExecutionsResponse_Equals_def
      ListOpenWorkflowExecutionsResponse_comparable_def if_not_False,
    fastforce intro: ListOpenWorkflowExecutionsResponse.equality)

lemma ListOpenWorkflowExecutionsResponse_fields_equal [simp]:
  "if_set ListOpenWorkflowExecutionsResponse_comparable x \<Longrightarrow> if_set
      ListOpenWorkflowExecutionsResponse_comparable y \<Longrightarrow>
    both_set_and (\<lambda>x y. ListOpenWorkflowExecutionsResponse_Equals (Some x) (Some y)) x y \<longleftrightarrow> x = y"
  by (rule both_set_and_iff [where P = ListOpenWorkflowExecutionsResponse_comparable]) (simp_all
      add: ListOpenWorkflowExecutionsResponse_Equals_iff)

record ListWorkflowExecutionsRequest =
  Domain :: "string option"
  PageSize :: "32 word option"
  NextPageToken :: "bytes option"
  Query :: "string option"

definition ListWorkflowExecutionsRequest_zero :: ListWorkflowExecutionsRequest where
  "ListWorkflowExecutionsRequest_zero = \<lparr>ListWorkflowExecutionsRequest.Domain = None,
      ListWorkflowExecutionsRequest.PageSize = None, ListWorkflowExecutionsRequest.NextPageToken =
      None, ListWorkflowExecutionsRequest.Query = None\<rparr>"

definition ListWorkflowExecutionsRequest_ToWire ::
  "'v wire_api \<Rightarrow> ListWorkflowExecutionsRequest \<Rightarrow> go_error + 'v" where
  "ListWorkflowExecutionsRequest_ToWire W v =
     and_then (put_opt 10 (\<lambda>x. Inr (NewValueString W x)) (ListWorkflowExecutionsRequest.Domain v)
         [])
       (\<lambda>fields.
     and_then (put_opt 20 (\<lambda>x. Inr (NewValueI32 W x)) (ListWorkflowExecutionsRequest.PageSize v)
         fields)
       (\<lambda>fields.
     and_then (put_opt 30 (\<lambda>x. Inr (NewValueBinary W x))
         (ListWorkflowExecutionsRequest.NextPageToken v) fields)
       (\<lambda>fields.
     and_then (put_opt 40 (\<lambda>x. Inr (NewValueString W x)) (ListWorkflowExecutionsRequest.Query v)
         fields)
       (\<lambda>fields.
     Inr (NewValueStruct W fields)))))"

definition ListWorkflowExecutionsRequest_FromWire ::
  "'v wire_api \<Rightarrow> 'v \<Rightarrow> ListWorkflowExecutionsRequest \<Rightarrow> go_error + ListWorkflowExecutionsRequest"
      where
  "ListWorkflowExecutionsRequest_FromWire W w v =
     foldM (\<lambda>v (fid, fval).
       if fid = 10 then
         if wire_api.Type W fval = TBinary
         then Inr (v\<lparr>ListWorkflowExecutionsRequest.Domain := Some (GetString W fval)\<rparr>)
         else Inr v
       else if fid = 20 then
         if wire_api.Type W fval = TI32
         then Inr (v\<lparr>ListWorkflowExecutionsRequest.PageSize := Some (GetI32 W fval)\<rparr>)
         else Inr v
       else if fid = 30 then
         if wire_api.Type W fval = TBinary
         then Inr (v\<lparr>ListWorkflowExecutionsRequest.NextPageToken := Some (GetBinary W fval)\<rparr>)
         else Inr v
       else if fid = 40 then
         if wire_api.Type W fval = TBinary
         then Inr (v\<lparr>ListWorkflowExecutionsRequest.Query := Some (GetString W fval)\<rparr>)
         else Inr v
       else Inr v) (GetStruct W w) v"

definition ListWorkflowExecutionsRequest_Read :: "'v wire_api \<Rightarrow> 'v \<Rightarrow> go_error +
    ListWorkflowExecutionsRequest" where
  "ListWorkflowExecutionsRequest_Read W w = ListWorkflowExecutionsRequest_FromWire W w
      ListWorkflowExecutionsRequest_zero"

lemma ListWorkflowExecutionsRequest_merge:
  "(case x of None \<Rightarrow> Inr \<lparr>ListWorkflowExecutionsRequest.Domain = a0,
      ListWorkflowExecutionsRequest.PageSize = a1, ListWorkflowExecutionsRequest.NextPageToken = a2,
      ListWorkflowExecutionsRequest.Query = a3\<rparr> | Some y \<Rightarrow> Inr \<lparr>ListWorkflowExecutionsRequest.Domain
      = b0 y, ListWorkflowExecutionsRequest.PageSize = b1 y,
      ListWorkflowExecutionsRequest.NextPageToken = b2 y, ListWorkflowExecutionsRequest.Query = b3
      y\<rparr>) =
   Inr \<lparr>ListWorkflowExecutionsRequest.Domain = (case x of None \<Rightarrow> a0 | Some y \<Rightarrow> b0 y),
       ListWorkflowExecutionsRequest.PageSize = (case x of None \<Rightarrow> a1 | Some y \<Rightarrow> b1 y),
       ListWorkflowExecutionsRequest.NextPageToken = (case x of None \<Rightarrow> a2 | Some y \<Rightarrow> b2 y),
       ListWorkflowExecutionsRequest.Query = (case x of None \<Rightarrow> a3 | Some y \<Rightarrow> b3 y)\<rparr>"
  by (cases x) simp_all

interpretation ListWorkflowExecutionsRequest: thrift_message W
  "ListWorkflowExecutionsRequest_ToWire W" "ListWorkflowExecutionsRequest_FromWire W"
      ListWorkflowExecutionsRequest_zero "\<lambda>_. True" for W
proof (rule thrift_messageI)
  fix x :: ListWorkflowExecutionsRequest
  assume laws: "wire_laws W"
  show "\<exists>w. ListWorkflowExecutionsRequest_ToWire W x = Inr w \<and> wire_api.Type W w = TStruct \<and>
      (Writable W w \<longleftrightarrow> (\<lambda>_. True) x) \<and> ((\<lambda>_. True) x \<longrightarrow> ListWorkflowExecutionsRequest_FromWire W w
          ListWorkflowExecutionsRequest_zero = Inr x)"
    by (cases x) (simp cong: option.case_cong add: codec_rules ListWorkflowExecutionsRequest_merge
        ListWorkflowExecutionsRequest_ToWire_def ListWorkflowExecutionsRequest_FromWire_def
        ListWorkflowExecutionsRequest_zero_def laws)
qed

definition ListWorkflowExecutionsRequest_Equals ::
  "ListWorkflowExecutionsRequest option \<Rightarrow> ListWorkflowExecutionsRequest option \<Rightarrow> bool" where
  "ListWorkflowExecutionsRequest_Equals v rhs =
     (case v of None \<Rightarrow> rhs = None
      | Some v \<Rightarrow> (case rhs of None \<Rightarrow> False
        | Some rhs \<Rightarrow>
          if \<not> String_EqualsPtr (ListWorkflowExecutionsRequest.Domain v)
              (ListWorkflowExecutionsRequest.Domain rhs) then False else
          if \<not> I32_EqualsPtr (ListWorkflowExecutionsRequest.PageSize v)
              (ListWorkflowExecutionsRequest.PageSize rhs) then False else
          if \<not> both_set_and (=) (ListWorkflowExecutionsRequest.NextPageToken v)
              (ListWorkflowExecutionsRequest.NextPageToken rhs) then False else
          if \<not> String_EqualsPtr (ListWorkflowExecutionsRequest.Query v)
              (ListWorkflowExecutionsRequest.Query rhs) then False else
          True))"

lemma ListWorkflowExecutionsRequest_Equals_iff [simp]: "ListWorkflowExecutionsRequest_Equals x y \<longleftrightarrow> x
    = y"
  by (cases x; cases y) (auto simp: ListWorkflowExecutionsRequest_Equals_def)

record ListWorkflowExecutionsResponse =
  Executions :: "WorkflowExecutionInfo option list option"
  NextPageToken :: "bytes option"

definition ListWorkflowExecutionsResponse_zero :: ListWorkflowExecutionsResponse where
  "ListWorkflowExecutionsResponse_zero = \<lparr>ListWorkflowExecutionsResponse.Executions = None,
      ListWorkflowExecutionsResponse.NextPageToken = None\<rparr>"

definition ListWorkflowExecutionsResponse_ToWire ::
  "'v wire_api \<Rightarrow> ListWorkflowExecutionsResponse \<Rightarrow> go_error + 'v" where
  "ListWorkflowExecutionsResponse_ToWire W v =
     and_then (put_opt 10 (\<lambda>x. Inr (NewValueList W (List_WorkflowExecutionInfo_ValueList W x)))
         (ListWorkflowExecutionsResponse.Executions v) [])
       (\<lambda>fields.
     and_then (put_opt 20 (\<lambda>x. Inr (NewValueBinary W x))
         (ListWorkflowExecutionsResponse.NextPageToken v) fields)
       (\<lambda>fields.
     Inr (NewValueStruct W fields)))"

definition ListWorkflowExecutionsResponse_FromWire ::
  "'v wire_api \<Rightarrow> 'v \<Rightarrow> ListWorkflowExecutionsResponse \<Rightarrow> go_error + ListWorkflowExecutionsResponse"
      where
  "ListWorkflowExecutionsResponse_FromWire W w v =
     foldM (\<lambda>v (fid, fval).
       if fid = 10 then
         if wire_api.Type W fval = TList
         then and_then (List_WorkflowExecutionInfo_Read W (GetList W fval)) (\<lambda>x. Inr
             (v\<lparr>ListWorkflowExecutionsResponse.Executions := x\<rparr>))
         else Inr v
       else if fid = 20 then
         if wire_api.Type W fval = TBinary
         then Inr (v\<lparr>ListWorkflowExecutionsResponse.NextPageToken := Some (GetBinary W fval)\<rparr>)
         else Inr v
       else Inr v) (GetStruct W w) v"

definition ListWorkflowExecutionsResponse_Read :: "'v wire_api \<Rightarrow> 'v \<Rightarrow> go_error +
    ListWorkflowExecutionsResponse" where
  "ListWorkflowExecutionsResponse_Read W w = ListWorkflowExecutionsResponse_FromWire W w
      ListWorkflowExecutionsResponse_zero"

definition ListWorkflowExecutionsResponse_complete :: "ListWorkflowExecutionsResponse \<Rightarrow> bool" where
  "ListWorkflowExecutionsResponse_complete v \<longleftrightarrow>
     if_set (list_all (present WorkflowExecutionInfo_complete))
         (ListWorkflowExecutionsResponse.Executions v)"

lemma ListWorkflowExecutionsResponse_merge:
  "(case x of None \<Rightarrow> Inr \<lparr>ListWorkflowExecutionsResponse.Executions = a0,
      ListWorkflowExecutionsResponse.NextPageToken = a1\<rparr> | Some y \<Rightarrow> Inr
      \<lparr>ListWorkflowExecutionsResponse.Executions = b0 y,
      ListWorkflowExecutionsResponse.NextPageToken = b1 y\<rparr>) =
   Inr \<lparr>ListWorkflowExecutionsResponse.Executions = (case x of None \<Rightarrow> a0 | Some y \<Rightarrow> b0 y),
       ListWorkflowExecutionsResponse.NextPageToken = (case x of None \<Rightarrow> a1 | Some y \<Rightarrow> b1 y)\<rparr>"
  by (cases x) simp_all

interpretation ListWorkflowExecutionsResponse: thrift_message W
  "ListWorkflowExecutionsResponse_ToWire W" "ListWorkflowExecutionsResponse_FromWire W"
      ListWorkflowExecutionsResponse_zero "ListWorkflowExecutionsResponse_complete" for W
proof (rule thrift_messageI)
  fix x :: ListWorkflowExecutionsResponse
  assume laws: "wire_laws W"
  show "\<exists>w. ListWorkflowExecutionsResponse_ToWire W x = Inr w \<and> wire_api.Type W w = TStruct \<and>
      (Writable W w \<longleftrightarrow> ListWorkflowExecutionsResponse_complete x) \<and>
          (ListWorkflowExecutionsResponse_complete x \<longrightarrow> ListWorkflowExecutionsResponse_FromWire W w
          ListWorkflowExecutionsResponse_zero = Inr x)"
    by (cases x) (simp cong: option.case_cong add: codec_rules ListWorkflowExecutionsResponse_merge
        ListWorkflowExecutionsResponse_ToWire_def ListWorkflowExecutionsResponse_FromWire_def
        ListWorkflowExecutionsResponse_zero_def ListWorkflowExecutionsResponse_complete_def
        if_set_def List_WorkflowExecutionInfo_codec [OF laws] laws)
qed

definition ListWorkflowExecutionsResponse_Equals ::
  "ListWorkflowExecutionsResponse option \<Rightarrow> ListWorkflowExecutionsResponse option \<Rightarrow> bool" where
  "ListWorkflowExecutionsResponse_Equals v rhs =
     (case v of None \<Rightarrow> rhs = None
      | Some v \<Rightarrow> (case rhs of None \<Rightarrow> False
        | Some rhs \<Rightarrow>
          if \<not> both_set_and List_WorkflowExecutionInfo_Equals
              (ListWorkflowExecutionsResponse.Executions v)
              (ListWorkflowExecutionsResponse.Executions rhs) then False else
          if \<not> both_set_and (=) (ListWorkflowExecutionsResponse.NextPageToken v)
              (ListWorkflowExecutionsResponse.NextPageToken rhs) then False else
          True))"

definition ListWorkflowExecutionsResponse_comparable :: "ListWorkflowExecutionsResponse \<Rightarrow> bool"
    where
  "ListWorkflowExecutionsResponse_comparable v \<longleftrightarrow>
     if_set (list_all (if_set WorkflowExecutionInfo_comparable))
         (ListWorkflowExecutionsResponse.Executions v)"

lemma ListWorkflowExecutionsResponse_Equals_iff:
  "if_set ListWorkflowExecutionsResponse_comparable x \<Longrightarrow> if_set
      ListWorkflowExecutionsResponse_comparable y \<Longrightarrow> ListWorkflowExecutionsResponse_Equals x y \<longleftrightarrow> x =
      y"
  by (cases x; cases y) (simp_all add: ListWorkflowExecutionsResponse_Equals_def
      ListWorkflowExecutionsResponse_comparable_def if_not_False,
    fastforce intro: ListWorkflowExecutionsResponse.equality)

lemma ListWorkflowExecutionsResponse_fields_equal [simp]:
  "if_set ListWorkflowExecutionsResponse_comparable x \<Longrightarrow> if_set
      ListWorkflowExecutionsResponse_comparable y \<Longrightarrow>
    both_set_and (\<lambda>x y. ListWorkflowExecutionsResponse_Equals (Some x) (Some y)) x y \<longleftrightarrow> x = y"
  by (rule both_set_and_iff [where P = ListWorkflowExecutionsResponse_comparable]) (simp_all add:
      ListWorkflowExecutionsResponse_Equals_iff)

record PollForDecisionTaskRequest =
  Domain :: "string option"
  TaskList :: "TaskList option"
  Identity :: "string option"
  BinaryChecksum :: "string option"

definition PollForDecisionTaskRequest_zero :: PollForDecisionTaskRequest where
  "PollForDecisionTaskRequest_zero = \<lparr>PollForDecisionTaskRequest.Domain = None,
      PollForDecisionTaskRequest.TaskList = None, PollForDecisionTaskRequest.Identity = None,
      PollForDecisionTaskRequest.BinaryChecksum = None\<rparr>"

definition PollForDecisionTaskRequest_ToWire ::
  "'v wire_api \<Rightarrow> PollForDecisionTaskRequest \<Rightarrow> go_error + 'v" where
  "PollForDecisionTaskRequest_ToWire W v =
     and_then (put_opt 10 (\<lambda>x. Inr (NewValueString W x)) (PollForDecisionTaskRequest.Domain v) [])
       (\<lambda>fields.
     and_then (put_opt 20 (TaskList_ToWire W) (PollForDecisionTaskRequest.TaskList v) fields)
       (\<lambda>fields.
     and_then (put_opt 30 (\<lambda>x. Inr (NewValueString W x)) (PollForDecisionTaskRequest.Identity v)
         fields)
       (\<lambda>fields.
     and_then (put_opt 40 (\<lambda>x. Inr (NewValueString W x)) (PollForDecisionTaskRequest.BinaryChecksum
         v) fields)
       (\<lambda>fields.
     Inr (NewValueStruct W fields)))))"

definition PollForDecisionTaskRequest_FromWire ::
  "'v wire_api \<Rightarrow> 'v \<Rightarrow> PollForDecisionTaskRequest \<Rightarrow> go_error + PollForDecisionTaskRequest" where
  "PollForDecisionTaskRequest_FromWire W w v =
     foldM (\<lambda>v (fid, fval).
       if fid = 10 then
         if wire_api.Type W fval = TBinary
         then Inr (v\<lparr>PollForDecisionTaskRequest.Domain := Some (GetString W fval)\<rparr>)
         else Inr v
       else if fid = 20 then
         if wire_api.Type W fval = TStruct
         then and_then (TaskList_Read W fval) (\<lambda>x. Inr (v\<lparr>PollForDecisionTaskRequest.TaskList :=
             Some x\<rparr>))
         else Inr v
       else if fid = 30 then
         if wire_api.Type W fval = TBinary
         then Inr (v\<lparr>PollForDecisionTaskRequest.Identity := Some (GetString W fval)\<rparr>)
         else Inr v
       else if fid = 40 then
         if wire_api.Type W fval = TBinary
         then Inr (v\<lparr>PollForDecisionTaskRequest.BinaryChecksum := Some (GetString W fval)\<rparr>)
         else Inr v
       else Inr v) (GetStruct W w) v"

definition PollForDecisionTaskRequest_Read :: "'v wire_api \<Rightarrow> 'v \<Rightarrow> go_error +
    PollForDecisionTaskRequest" where
  "PollForDecisionTaskRequest_Read W w = PollForDecisionTaskRequest_FromWire W w
      PollForDecisionTaskRequest_zero"

lemma PollForDecisionTaskRequest_merge:
  "(case x of None \<Rightarrow> Inr \<lparr>PollForDecisionTaskRequest.Domain = a0,
      PollForDecisionTaskRequest.TaskList = a1, PollForDecisionTaskRequest.Identity = a2,
      PollForDecisionTaskRequest.BinaryChecksum = a3\<rparr> | Some y \<Rightarrow> Inr
      \<lparr>PollForDecisionTaskRequest.Domain = b0 y, PollForDecisionTaskRequest.TaskList = b1 y,
      PollForDecisionTaskRequest.Identity = b2 y, PollForDecisionTaskRequest.BinaryChecksum = b3 y\<rparr>)
      =
   Inr \<lparr>PollForDecisionTaskRequest.Domain = (case x of None \<Rightarrow> a0 | Some y \<Rightarrow> b0 y),
       PollForDecisionTaskRequest.TaskList = (case x of None \<Rightarrow> a1 | Some y \<Rightarrow> b1 y),
       PollForDecisionTaskRequest.Identity = (case x of None \<Rightarrow> a2 | Some y \<Rightarrow> b2 y),
       PollForDecisionTaskRequest.BinaryChecksum = (case x of None \<Rightarrow> a3 | Some y \<Rightarrow> b3 y)\<rparr>"
  by (cases x) simp_all

interpretation PollForDecisionTaskRequest: thrift_message W
  "PollForDecisionTaskRequest_ToWire W" "PollForDecisionTaskRequest_FromWire W"
      PollForDecisionTaskRequest_zero "\<lambda>_. True" for W
proof (rule thrift_messageI)
  fix x :: PollForDecisionTaskRequest
  assume laws: "wire_laws W"
  obtain enc0 where e0: "TaskList_ToWire W = (\<lambda>x. Inr (enc0 x))"
      "\<And>x. wire_api.Type W (enc0 x) = TStruct"
      "\<And>x. Writable W (enc0 x) \<longleftrightarrow> (\<lambda>_. True) x"
      "\<And>x. (\<lambda>_. True) x \<Longrightarrow> TaskList_FromWire W (enc0 x) TaskList_zero = Inr x"
    by (rule TaskList.encoder [OF laws]) (rule that)
  show "\<exists>w. PollForDecisionTaskRequest_ToWire W x = Inr w \<and> wire_api.Type W w = TStruct \<and>
      (Writable W w \<longleftrightarrow> (\<lambda>_. True) x) \<and> ((\<lambda>_. True) x \<longrightarrow> PollForDecisionTaskRequest_FromWire W w
          PollForDecisionTaskRequest_zero = Inr x)"
    by (cases x) (simp cong: option.case_cong add: codec_rules PollForDecisionTaskRequest_merge
        PollForDecisionTaskRequest_ToWire_def PollForDecisionTaskRequest_FromWire_def
        PollForDecisionTaskRequest_zero_def TaskList_Read_def laws e0)
qed

definition PollForDecisionTaskRequest_Equals ::
  "PollForDecisionTaskRequest option \<Rightarrow> PollForDecisionTaskRequest option \<Rightarrow> bool" where
  "PollForDecisionTaskRequest_Equals v rhs =
     (case v of None \<Rightarrow> rhs = None
      | Some v \<Rightarrow> (case rhs of None \<Rightarrow> False
        | Some rhs \<Rightarrow>
          if \<not> String_EqualsPtr (PollForDecisionTaskRequest.Domain v)
              (PollForDecisionTaskRequest.Domain rhs) then False else
          if \<not> both_set_and (\<lambda>x y. TaskList_Equals (Some x) (Some y))
              (PollForDecisionTaskRequest.TaskList v) (PollForDecisionTaskRequest.TaskList rhs) then
              False else
          if \<not> String_EqualsPtr (PollForDecisionTaskRequest.Identity v)
              (PollForDecisionTaskRequest.Identity rhs) then False else
          if \<not> String_EqualsPtr (PollForDecisionTaskRequest.BinaryChecksum v)
              (PollForDecisionTaskRequest.BinaryChecksum rhs) then False else
          True))"

lemma PollForDecisionTaskRequest_Equals_iff [simp]: "PollForDecisionTaskRequest_Equals x y \<longleftrightarrow> x = y"
  by (cases x; cases y) (auto simp: PollForDecisionTaskRequest_Equals_def)

record PollForDecisionTaskResponse =
  TaskToken :: "bytes option"
  WorkflowExecution :: "WorkflowExecution option"
  WorkflowType :: "WorkflowType option"
  PreviousStartedEventId :: "64 word option"
  StartedEventId :: "64 word option"
  Attempt :: "64 word option"
  BacklogCountHint :: "64 word option"
  History :: "History option"
  NextPageToken :: "bytes option"
  Query :: "WorkflowQuery option"
  WorkflowExecutionTaskList :: "TaskList option"
  ScheduledTimestamp :: "64 word option"
  StartedTimestamp :: "64 word option"
  Queries :: "WorkflowQuery option list option"

definition PollForDecisionTaskResponse_zero :: PollForDecisionTaskResponse where
  "PollForDecisionTaskResponse_zero = \<lparr>PollForDecisionTaskResponse.TaskToken = None,
      PollForDecisionTaskResponse.WorkflowExecution = None, PollForDecisionTaskResponse.WorkflowType
      = None, PollForDecisionTaskResponse.PreviousStartedEventId = None,
      PollForDecisionTaskResponse.StartedEventId = None, PollForDecisionTaskResponse.Attempt = None,
      PollForDecisionTaskResponse.BacklogCountHint = None, PollForDecisionTaskResponse.History =
      None, PollForDecisionTaskResponse.NextPageToken = None, PollForDecisionTaskResponse.Query =
      None, PollForDecisionTaskResponse.WorkflowExecutionTaskList = None,
      PollForDecisionTaskResponse.ScheduledTimestamp = None,
      PollForDecisionTaskResponse.StartedTimestamp = None, PollForDecisionTaskResponse.Queries =
      None\<rparr>"

definition PollForDecisionTaskResponse_ToWire ::
  "'v wire_api \<Rightarrow> PollForDecisionTaskResponse \<Rightarrow> go_error + 'v" where
  "PollForDecisionTaskResponse_ToWire W v =
     and_then (put_opt 10 (\<lambda>x. Inr (NewValueBinary W x)) (PollForDecisionTaskResponse.TaskToken v)
         [])
       (\<lambda>fields.
     and_then (put_opt 20 (WorkflowExecution_ToWire W)
         (PollForDecisionTaskResponse.WorkflowExecution v) fields)
       (\<lambda>fields.
     and_then (put_opt 30 (WorkflowType_ToWire W) (PollForDecisionTaskResponse.WorkflowType v)
         fields)
       (\<lambda>fields.
     and_then (put_opt 40 (\<lambda>x. Inr (NewValueI64 W x))
         (PollForDecisionTaskResponse.PreviousStartedEventId v) fields)
       (\<lambda>fields.
     and_then (put_opt 50 (\<lambda>x. Inr (NewValueI64 W x)) (PollForDecisionTaskResponse.StartedEventId v)
         fields)
       (\<lambda>fields.
     and_then (put_opt 51 (\<lambda>x. Inr (NewValueI64 W x)) (PollForDecisionTaskResponse.Attempt v)
         fields)
       (\<lambda>fields.
     and_then (put_opt 54 (\<lambda>x. Inr (NewValueI64 W x)) (PollForDecisionTaskResponse.BacklogCountHint
         v) fields)
       (\<lambda>fields.
     and_then (put_opt 60 (History_ToWire W) (PollForDecisionTaskResponse.History v) fields)
       (\<lambda>fields.
     and_then (put_opt 70 (\<lambda>x. Inr (NewValueBinary W x)) (PollForDecisionTaskResponse.NextPageToken
         v) fields)
       (\<lambda>fields.
     and_then (put_opt 80 (WorkflowQuery_ToWire W) (PollForDecisionTaskResponse.Query v) fields)
       (\<lambda>fields.
     and_then (put_opt 90 (TaskList_ToWire W) (PollForDecisionTaskResponse.WorkflowExecutionTaskList
         v) fields)
       (\<lambda>fields.
     and_then (put_opt 100 (\<lambda>x. Inr (NewValueI64 W x))
         (PollForDecisionTaskResponse.ScheduledTimestamp v) fields)
       (\<lambda>fields.
     and_then (put_opt 110 (\<lambda>x. Inr (NewValueI64 W x)) (PollForDecisionTaskResponse.StartedTimestamp
         v) fields)
       (\<lambda>fields.
     and_then (put_opt 120 (\<lambda>x. Inr (NewValueList W (List_WorkflowQuery_ValueList W x)))
         (PollForDecisionTaskResponse.Queries v) fields)
       (\<lambda>fields.
     Inr (NewValueStruct W fields)))))))))))))))"

definition PollForDecisionTaskResponse_FromWire ::
  "'v wire_api \<Rightarrow> 'v \<Rightarrow> PollForDecisionTaskResponse \<Rightarrow> go_error + PollForDecisionTaskResponse" where
  "PollForDecisionTaskResponse_FromWire W w v =
     foldM (\<lambda>v (fid, fval).
       if fid = 10 then
         if wire_api.Type W fval = TBinary
         then Inr (v\<lparr>PollForDecisionTaskResponse.TaskToken := Some (GetBinary W fval)\<rparr>)
         else Inr v
       else if fid = 20 then
         if wire_api.Type W fval = TStruct
         then and_then (WorkflowExecution_Read W fval) (\<lambda>x. Inr
             (v\<lparr>PollForDecisionTaskResponse.WorkflowExecution := Some x\<rparr>))
         else Inr v
       else if fid = 30 then
         if wire_api.Type W fval = TStruct
         then and_then (WorkflowType_Read W fval) (\<lambda>x. Inr
             (v\<lparr>PollForDecisionTaskResponse.WorkflowType := Some x\<rparr>))
         else Inr v
       else if fid = 40 then
         if wire_api.Type W fval = TI64
         then Inr (v\<lparr>PollForDecisionTaskResponse.PreviousStartedEventId := Some (GetI64 W fval)\<rparr>)
         else Inr v
       else if fid = 50 then
         if wire_api.Type W fval = TI64
         then Inr (v\<lparr>PollForDecisionTaskResponse.StartedEventId := Some (GetI64 W fval)\<rparr>)
         else Inr v
       else if fid = 51 then
         if wire_api.Type W fval = TI64
         then Inr (v\<lparr>PollForDecisionTaskResponse.Attempt := Some (GetI64 W fval)\<rparr>)
         else Inr v
       else if fid = 54 then
         if wire_api.Type W fval = TI64
         then Inr (v\<lparr>PollForDecisionTaskResponse.BacklogCountHint := Some (GetI64 W fval)\<rparr>)
         else Inr v
       else if fid = 60 then
         if wire_api.Type W fval = TStruct
         then and_then (History_Read W fval) (\<lambda>x. Inr (v\<lparr>PollForDecisionTaskResponse.History := Some
             x\<rparr>))
         else Inr v
       else if fid = 70 then
         if wire_api.Type W fval = TBinary
         then Inr (v\<lparr>PollForDecisionTaskResponse.NextPageToken := Some (GetBinary W fval)\<rparr>)
         else Inr v
       else if fid = 80 then
         if wire_api.Type W fval = TStruct
         then and_then (WorkflowQuery_Read W fval) (\<lambda>x. Inr (v\<lparr>PollForDecisionTaskResponse.Query :=
             Some x\<rparr>))
         else Inr v
       else if fid = 90 then
         if wire_api.Type W fval = TStruct
         then and_then (TaskList_Read W fval) (\<lambda>x. Inr
             (v\<lparr>PollForDecisionTaskResponse.WorkflowExecutionTaskList := Some x\<rparr>))
         else Inr v
       else if fid = 100 then
         if wire_api.Type W fval = TI64
         then Inr (v\<lparr>PollForDecisionTaskResponse.ScheduledTimestamp := Some (GetI64 W fval)\<rparr>)
         else Inr v
       else if fid = 110 then
         if wire_api.Type W fval = TI64
         then Inr (v\<lparr>PollForDecisionTaskResponse.StartedTimestamp := Some (GetI64 W fval)\<rparr>)
         else Inr v
       else if fid = 120 then
         if wire_api.Type W fval = TList
         then and_then (List_WorkflowQuery_Read W (GetList W fval)) (\<lambda>x. Inr
             (v\<lparr>PollForDecisionTaskResponse.Queries := x\<rparr>))
         else Inr v
       else Inr v) (GetStruct W w) v"

definition PollForDecisionTaskResponse_Read :: "'v wire_api \<Rightarrow> 'v \<Rightarrow> go_error +
    PollForDecisionTaskResponse" where
  "PollForDecisionTaskResponse_Read W w = PollForDecisionTaskResponse_FromWire W w
      PollForDecisionTaskResponse_zero"

definition PollForDecisionTaskResponse_complete :: "PollForDecisionTaskResponse \<Rightarrow> bool" where
  "PollForDecisionTaskResponse_complete v \<longleftrightarrow>
     if_set History_complete (PollForDecisionTaskResponse.History v) \<and>
     if_set (list_all (present (\<lambda>_. True))) (PollForDecisionTaskResponse.Queries v)"

lemma PollForDecisionTaskResponse_merge:
  "(case x of None \<Rightarrow> Inr \<lparr>PollForDecisionTaskResponse.TaskToken = a0,
      PollForDecisionTaskResponse.WorkflowExecution = a1, PollForDecisionTaskResponse.WorkflowType =
      a2, PollForDecisionTaskResponse.PreviousStartedEventId = a3,
      PollForDecisionTaskResponse.StartedEventId = a4, PollForDecisionTaskResponse.Attempt = a5,
      PollForDecisionTaskResponse.BacklogCountHint = a6, PollForDecisionTaskResponse.History = a7,
      PollForDecisionTaskResponse.NextPageToken = a8, PollForDecisionTaskResponse.Query = a9,
      PollForDecisionTaskResponse.WorkflowExecutionTaskList = a10,
      PollForDecisionTaskResponse.ScheduledTimestamp = a11,
      PollForDecisionTaskResponse.StartedTimestamp = a12, PollForDecisionTaskResponse.Queries = a13\<rparr>
      | Some y \<Rightarrow> Inr \<lparr>PollForDecisionTaskResponse.TaskToken = b0 y,
      PollForDecisionTaskResponse.WorkflowExecution = b1 y, PollForDecisionTaskResponse.WorkflowType
      = b2 y, PollForDecisionTaskResponse.PreviousStartedEventId = b3 y,
      PollForDecisionTaskResponse.StartedEventId = b4 y, PollForDecisionTaskResponse.Attempt = b5 y,
      PollForDecisionTaskResponse.BacklogCountHint = b6 y, PollForDecisionTaskResponse.History = b7
      y, PollForDecisionTaskResponse.NextPageToken = b8 y, PollForDecisionTaskResponse.Query = b9 y,
      PollForDecisionTaskResponse.WorkflowExecutionTaskList = b10 y,
      PollForDecisionTaskResponse.ScheduledTimestamp = b11 y,
      PollForDecisionTaskResponse.StartedTimestamp = b12 y, PollForDecisionTaskResponse.Queries =
      b13 y\<rparr>) =
   Inr \<lparr>PollForDecisionTaskResponse.TaskToken = (case x of None \<Rightarrow> a0 | Some y \<Rightarrow> b0 y),
       PollForDecisionTaskResponse.WorkflowExecution = (case x of None \<Rightarrow> a1 | Some y \<Rightarrow> b1 y),
       PollForDecisionTaskResponse.WorkflowType = (case x of None \<Rightarrow> a2 | Some y \<Rightarrow> b2 y),
       PollForDecisionTaskResponse.PreviousStartedEventId = (case x of None \<Rightarrow> a3 | Some y \<Rightarrow> b3 y),
       PollForDecisionTaskResponse.StartedEventId = (case x of None \<Rightarrow> a4 | Some y \<Rightarrow> b4 y),
       PollForDecisionTaskResponse.Attempt = (case x of None \<Rightarrow> a5 | Some y \<Rightarrow> b5 y),
       PollForDecisionTaskResponse.BacklogCountHint = (case x of None \<Rightarrow> a6 | Some y \<Rightarrow> b6 y),
       PollForDecisionTaskResponse.History = (case x of None \<Rightarrow> a7 | Some y \<Rightarrow> b7 y),
       PollForDecisionTaskResponse.NextPageToken = (case x of None \<Rightarrow> a8 | Some y \<Rightarrow> b8 y),
       PollForDecisionTaskResponse.Query = (case x of None \<Rightarrow> a9 | Some y \<Rightarrow> b9 y),
       PollForDecisionTaskResponse.WorkflowExecutionTaskList = (case x of None \<Rightarrow> a10 | Some y \<Rightarrow> b10
       y), PollForDecisionTaskResponse.ScheduledTimestamp = (case x of None \<Rightarrow> a11 | Some y \<Rightarrow> b11 y),
       PollForDecisionTaskResponse.StartedTimestamp = (case x of None \<Rightarrow> a12 | Some y \<Rightarrow> b12 y),
       PollForDecisionTaskResponse.Queries = (case x of None \<Rightarrow> a13 | Some y \<Rightarrow> b13 y)\<rparr>"
  by (cases x) simp_all

interpretation PollForDecisionTaskResponse: thrift_message W
  "PollForDecisionTaskResponse_ToWire W" "PollForDecisionTaskResponse_FromWire W"
      PollForDecisionTaskResponse_zero "PollForDecisionTaskResponse_complete" for W
proof (rule thrift_messageI)
  fix x :: PollForDecisionTaskResponse
  assume laws: "wire_laws W"
  obtain enc0 where e0: "History_ToWire W = (\<lambda>x. Inr (enc0 x))"
      "\<And>x. wire_api.Type W (enc0 x) = TStruct"
      "\<And>x. Writable W (enc0 x) \<longleftrightarrow> History_complete x"
      "\<And>x. History_complete x \<Longrightarrow> History_FromWire W (enc0 x) History_zero = Inr x"
    by (rule HistoryStruct.encoder [OF laws]) (rule that)
  obtain enc1 where e1: "TaskList_ToWire W = (\<lambda>x. Inr (enc1 x))"
      "\<And>x. wire_api.Type W (enc1 x) = TStruct"
      "\<And>x. Writable W (enc1 x) \<longleftrightarrow> (\<lambda>_. True) x"
      "\<And>x. (\<lambda>_. True) x \<Longrightarrow> TaskList_FromWire W (enc1 x) TaskList_zero = Inr x"
    by (rule TaskList.encoder [OF laws]) (rule that)
  obtain enc2 where e2: "WorkflowExecution_ToWire W = (\<lambda>x. Inr (enc2 x))"
      "\<And>x. wire_api.Type W (enc2 x) = TStruct"
      "\<And>x. Writable W (enc2 x) \<longleftrightarrow> (\<lambda>_. True) x"
      "\<And>x. (\<lambda>_. True) x \<Longrightarrow> WorkflowExecution_FromWire W (enc2 x) WorkflowExecution_zero = Inr x"
    by (rule WorkflowExecution.encoder [OF laws]) (rule that)
  obtain enc3 where e3: "WorkflowQuery_ToWire W = (\<lambda>x. Inr (enc3 x))"
      "\<And>x. wire_api.Type W (enc3 x) = TStruct"
      "\<And>x. Writable W (enc3 x) \<longleftrightarrow> (\<lambda>_. True) x"
      "\<And>x. (\<lambda>_. True) x \<Longrightarrow> WorkflowQuery_FromWire W (enc3 x) WorkflowQuery_zero = Inr x"
    by (rule WorkflowQuery.encoder [OF laws]) (rule that)
  obtain enc4 where e4: "WorkflowType_ToWire W = (\<lambda>x. Inr (enc4 x))"
      "\<And>x. wire_api.Type W (enc4 x) = TStruct"
      "\<And>x. Writable W (enc4 x) \<longleftrightarrow> (\<lambda>_. True) x"
      "\<And>x. (\<lambda>_. True) x \<Longrightarrow> WorkflowType_FromWire W (enc4 x) WorkflowType_zero = Inr x"
    by (rule WorkflowType.encoder [OF laws]) (rule that)
  show "\<exists>w. PollForDecisionTaskResponse_ToWire W x = Inr w \<and> wire_api.Type W w = TStruct \<and>
      (Writable W w \<longleftrightarrow> PollForDecisionTaskResponse_complete x) \<and>
          (PollForDecisionTaskResponse_complete x \<longrightarrow> PollForDecisionTaskResponse_FromWire W w
          PollForDecisionTaskResponse_zero = Inr x)"
    by (cases x) (simp cong: option.case_cong add: codec_rules PollForDecisionTaskResponse_merge
        PollForDecisionTaskResponse_ToWire_def PollForDecisionTaskResponse_FromWire_def
        PollForDecisionTaskResponse_zero_def PollForDecisionTaskResponse_complete_def if_set_def
        History_Read_def TaskList_Read_def WorkflowExecution_Read_def WorkflowQuery_Read_def
        WorkflowType_Read_def List_WorkflowQuery_codec [OF laws] laws e0 e1 e2 e3 e4)
qed

definition PollForDecisionTaskResponse_Equals ::
  "PollForDecisionTaskResponse option \<Rightarrow> PollForDecisionTaskResponse option \<Rightarrow> bool" where
  "PollForDecisionTaskResponse_Equals v rhs =
     (case v of None \<Rightarrow> rhs = None
      | Some v \<Rightarrow> (case rhs of None \<Rightarrow> False
        | Some rhs \<Rightarrow>
          if \<not> both_set_and (=) (PollForDecisionTaskResponse.TaskToken v)
              (PollForDecisionTaskResponse.TaskToken rhs) then False else
          if \<not> both_set_and (\<lambda>x y. WorkflowExecution_Equals (Some x) (Some y))
              (PollForDecisionTaskResponse.WorkflowExecution v)
              (PollForDecisionTaskResponse.WorkflowExecution rhs) then False else
          if \<not> both_set_and (\<lambda>x y. WorkflowType_Equals (Some x) (Some y))
              (PollForDecisionTaskResponse.WorkflowType v) (PollForDecisionTaskResponse.WorkflowType
              rhs) then False else
          if \<not> I64_EqualsPtr (PollForDecisionTaskResponse.PreviousStartedEventId v)
              (PollForDecisionTaskResponse.PreviousStartedEventId rhs) then False else
          if \<not> I64_EqualsPtr (PollForDecisionTaskResponse.StartedEventId v)
              (PollForDecisionTaskResponse.StartedEventId rhs) then False else
          if \<not> I64_EqualsPtr (PollForDecisionTaskResponse.Attempt v)
              (PollForDecisionTaskResponse.Attempt rhs) then False else
          if \<not> I64_EqualsPtr (PollForDecisionTaskResponse.BacklogCountHint v)
              (PollForDecisionTaskResponse.BacklogCountHint rhs) then False else
          if \<not> both_set_and (\<lambda>x y. History_Equals (Some x) (Some y))
              (PollForDecisionTaskResponse.History v) (PollForDecisionTaskResponse.History rhs) then
              False else
          if \<not> both_set_and (=) (PollForDecisionTaskResponse.NextPageToken v)
              (PollForDecisionTaskResponse.NextPageToken rhs) then False else
          if \<not> both_set_and (\<lambda>x y. WorkflowQuery_Equals (Some x) (Some y))
              (PollForDecisionTaskResponse.Query v) (PollForDecisionTaskResponse.Query rhs) then
              False else
          if \<not> both_set_and (\<lambda>x y. TaskList_Equals (Some x) (Some y))
              (PollForDecisionTaskResponse.WorkflowExecutionTaskList v)
              (PollForDecisionTaskResponse.WorkflowExecutionTaskList rhs) then False else
          if \<not> I64_EqualsPtr (PollForDecisionTaskResponse.ScheduledTimestamp v)
              (PollForDecisionTaskResponse.ScheduledTimestamp rhs) then False else
          if \<not> I64_EqualsPtr (PollForDecisionTaskResponse.StartedTimestamp v)
              (PollForDecisionTaskResponse.StartedTimestamp rhs) then False else
          if \<not> both_set_and List_WorkflowQuery_Equals (PollForDecisionTaskResponse.Queries v)
              (PollForDecisionTaskResponse.Queries rhs) then False else
          True))"

definition PollForDecisionTaskResponse_comparable :: "PollForDecisionTaskResponse \<Rightarrow> bool" where
  "PollForDecisionTaskResponse_comparable v \<longleftrightarrow>
     if_set History_comparable (PollForDecisionTaskResponse.History v)"

lemma PollForDecisionTaskResponse_Equals_iff:
  "if_set PollForDecisionTaskResponse_comparable x \<Longrightarrow> if_set PollForDecisionTaskResponse_comparable y
      \<Longrightarrow> PollForDecisionTaskResponse_Equals x y \<longleftrightarrow> x = y"
  by (cases x; cases y) (simp_all add: PollForDecisionTaskResponse_Equals_def
      PollForDecisionTaskResponse_comparable_def if_not_False,
    fastforce intro: PollForDecisionTaskResponse.equality)

lemma PollForDecisionTaskResponse_fields_equal [simp]:
  "if_set PollForDecisionTaskResponse_comparable x \<Longrightarrow> if_set PollForDecisionTaskResponse_comparable y
      \<Longrightarrow>
    both_set_and (\<lambda>x y. PollForDecisionTaskResponse_Equals (Some x) (Some y)) x y \<longleftrightarrow> x = y"
  by (rule both_set_and_iff [where P = PollForDecisionTaskResponse_comparable]) (simp_all add:
      PollForDecisionTaskResponse_Equals_iff)

record QueryWorkflowRequest =
  Domain :: "string option"
  Execution :: "WorkflowExecution option"
  Query :: "WorkflowQuery option"
  QueryRejectCondition :: "QueryRejectCondition option"

definition QueryWorkflowRequest_zero :: QueryWorkflowRequest where
  "QueryWorkflowRequest_zero = \<lparr>QueryWorkflowRequest.Domain = None, QueryWorkflowRequest.Execution =
      None, QueryWorkflowRequest.Query = None, QueryWorkflowRequest.QueryRejectCondition = None\<rparr>"

definition QueryWorkflowRequest_ToWire ::
  "'v wire_api \<Rightarrow> QueryWorkflowRequest \<Rightarrow> go_error + 'v" where
  "QueryWorkflowRequest_ToWire W v =
     and_then (put_opt 10 (\<lambda>x. Inr (NewValueString W x)) (QueryWorkflowRequest.Domain v) [])
       (\<lambda>fields.
     and_then (put_opt 20 (WorkflowExecution_ToWire W) (QueryWorkflowRequest.Execution v) fields)
       (\<lambda>fields.
     and_then (put_opt 30 (WorkflowQuery_ToWire W) (QueryWorkflowRequest.Query v) fields)
       (\<lambda>fields.
     and_then (put_opt 40 (QueryRejectCondition_ToWire W) (QueryWorkflowRequest.QueryRejectCondition
         v) fields)
       (\<lambda>fields.
     Inr (NewValueStruct W fields)))))"

definition QueryWorkflowRequest_FromWire ::
  "'v wire_api \<Rightarrow> 'v \<Rightarrow> QueryWorkflowRequest \<Rightarrow> go_error + QueryWorkflowRequest" where
  "QueryWorkflowRequest_FromWire W w v =
     foldM (\<lambda>v (fid, fval).
       if fid = 10 then
         if wire_api.Type W fval = TBinary
         then Inr (v\<lparr>QueryWorkflowRequest.Domain := Some (GetString W fval)\<rparr>)
         else Inr v
       else if fid = 20 then
         if wire_api.Type W fval = TStruct
         then and_then (WorkflowExecution_Read W fval) (\<lambda>x. Inr (v\<lparr>QueryWorkflowRequest.Execution :=
             Some x\<rparr>))
         else Inr v
       else if fid = 30 then
         if wire_api.Type W fval = TStruct
         then and_then (WorkflowQuery_Read W fval) (\<lambda>x. Inr (v\<lparr>QueryWorkflowRequest.Query := Some
             x\<rparr>))
         else Inr v
       else if fid = 40 then
         if wire_api.Type W fval = TI32
         then and_then (QueryRejectCondition_Read W fval) (\<lambda>x. Inr
             (v\<lparr>QueryWorkflowRequest.QueryRejectCondition := Some x\<rparr>))
         else Inr v
       else Inr v) (GetStruct W w) v"

definition QueryWorkflowRequest_Read :: "'v wire_api \<Rightarrow> 'v \<Rightarrow> go_error + QueryWorkflowRequest" where
  "QueryWorkflowRequest_Read W w = QueryWorkflowRequest_FromWire W w QueryWorkflowRequest_zero"

lemma QueryWorkflowRequest_merge:
  "(case x of None \<Rightarrow> Inr \<lparr>QueryWorkflowRequest.Domain = a0, QueryWorkflowRequest.Execution = a1,
      QueryWorkflowRequest.Query = a2, QueryWorkflowRequest.QueryRejectCondition = a3\<rparr> | Some y \<Rightarrow>
      Inr \<lparr>QueryWorkflowRequest.Domain = b0 y, QueryWorkflowRequest.Execution = b1 y,
      QueryWorkflowRequest.Query = b2 y, QueryWorkflowRequest.QueryRejectCondition = b3 y\<rparr>) =
   Inr \<lparr>QueryWorkflowRequest.Domain = (case x of None \<Rightarrow> a0 | Some y \<Rightarrow> b0 y),
       QueryWorkflowRequest.Execution = (case x of None \<Rightarrow> a1 | Some y \<Rightarrow> b1 y),
       QueryWorkflowRequest.Query = (case x of None \<Rightarrow> a2 | Some y \<Rightarrow> b2 y),
       QueryWorkflowRequest.QueryRejectCondition = (case x of None \<Rightarrow> a3 | Some y \<Rightarrow> b3 y)\<rparr>"
  by (cases x) simp_all

interpretation QueryWorkflowRequest: thrift_message W
  "QueryWorkflowRequest_ToWire W" "QueryWorkflowRequest_FromWire W" QueryWorkflowRequest_zero "\<lambda>_.
      True" for W
proof (rule thrift_messageI)
  fix x :: QueryWorkflowRequest
  assume laws: "wire_laws W"
  obtain enc0 where e0: "WorkflowExecution_ToWire W = (\<lambda>x. Inr (enc0 x))"
      "\<And>x. wire_api.Type W (enc0 x) = TStruct"
      "\<And>x. Writable W (enc0 x) \<longleftrightarrow> (\<lambda>_. True) x"
      "\<And>x. (\<lambda>_. True) x \<Longrightarrow> WorkflowExecution_FromWire W (enc0 x) WorkflowExecution_zero = Inr x"
    by (rule WorkflowExecution.encoder [OF laws]) (rule that)
  obtain enc1 where e1: "WorkflowQuery_ToWire W = (\<lambda>x. Inr (enc1 x))"
      "\<And>x. wire_api.Type W (enc1 x) = TStruct"
      "\<And>x. Writable W (enc1 x) \<longleftrightarrow> (\<lambda>_. True) x"
      "\<And>x. (\<lambda>_. True) x \<Longrightarrow> WorkflowQuery_FromWire W (enc1 x) WorkflowQuery_zero = Inr x"
    by (rule WorkflowQuery.encoder [OF laws]) (rule that)
  show "\<exists>w. QueryWorkflowRequest_ToWire W x = Inr w \<and> wire_api.Type W w = TStruct \<and>
      (Writable W w \<longleftrightarrow> (\<lambda>_. True) x) \<and> ((\<lambda>_. True) x \<longrightarrow> QueryWorkflowRequest_FromWire W w
          QueryWorkflowRequest_zero = Inr x)"
    by (cases x) (simp cong: option.case_cong add: codec_rules QueryWorkflowRequest_merge
        QueryWorkflowRequest_ToWire_def QueryWorkflowRequest_FromWire_def
        QueryWorkflowRequest_zero_def QueryRejectCondition_enc QueryRejectCondition_Read_def
        QueryRejectCondition_FromWire_def WorkflowExecution_Read_def WorkflowQuery_Read_def laws e0
        e1)
qed

definition QueryWorkflowRequest_Equals ::
  "QueryWorkflowRequest option \<Rightarrow> QueryWorkflowRequest option \<Rightarrow> bool" where
  "QueryWorkflowRequest_Equals v rhs =
     (case v of None \<Rightarrow> rhs = None
      | Some v \<Rightarrow> (case rhs of None \<Rightarrow> False
        | Some rhs \<Rightarrow>
          if \<not> String_EqualsPtr (QueryWorkflowRequest.Domain v) (QueryWorkflowRequest.Domain rhs)
              then False else
          if \<not> both_set_and (\<lambda>x y. WorkflowExecution_Equals (Some x) (Some y))
              (QueryWorkflowRequest.Execution v) (QueryWorkflowRequest.Execution rhs) then False
              else
          if \<not> both_set_and (\<lambda>x y. WorkflowQuery_Equals (Some x) (Some y))
              (QueryWorkflowRequest.Query v) (QueryWorkflowRequest.Query rhs) then False else
          if \<not> QueryRejectCondition_EqualsPtr (QueryWorkflowRequest.QueryRejectCondition v)
              (QueryWorkflowRequest.QueryRejectCondition rhs) then False else
          True))"

lemma QueryWorkflowRequest_Equals_iff [simp]: "QueryWorkflowRequest_Equals x y \<longleftrightarrow> x = y"
  by (cases x; cases y) (auto simp: QueryWorkflowRequest_Equals_def)

record QueryWorkflowResponse =
  QueryResult :: "bytes option"
  QueryRejected :: "QueryRejected option"

definition QueryWorkflowResponse_zero :: QueryWorkflowResponse where
  "QueryWorkflowResponse_zero = \<lparr>QueryWorkflowResponse.QueryResult = None,
      QueryWorkflowResponse.QueryRejected = None\<rparr>"

definition QueryWorkflowResponse_ToWire ::
  "'v wire_api \<Rightarrow> QueryWorkflowResponse \<Rightarrow> go_error + 'v" where
  "QueryWorkflowResponse_ToWire W v =
     and_then (put_opt 10 (\<lambda>x. Inr (NewValueBinary W x)) (QueryWorkflowResponse.QueryResult v) [])
       (\<lambda>fields.
     and_then (put_opt 20 (QueryRejected_ToWire W) (QueryWorkflowResponse.QueryRejected v) fields)
       (\<lambda>fields.
     Inr (NewValueStruct W fields)))"

definition QueryWorkflowResponse_FromWire ::
  "'v wire_api \<Rightarrow> 'v \<Rightarrow> QueryWorkflowResponse \<Rightarrow> go_error + QueryWorkflowResponse" where
  "QueryWorkflowResponse_FromWire W w v =
     foldM (\<lambda>v (fid, fval).
       if fid = 10 then
         if wire_api.Type W fval = TBinary
         then Inr (v\<lparr>QueryWorkflowResponse.QueryResult := Some (GetBinary W fval)\<rparr>)
         else Inr v
       else if fid = 20 then
         if wire_api.Type W fval = TStruct
         then and_then (QueryRejected_Read W fval) (\<lambda>x. Inr (v\<lparr>QueryWorkflowResponse.QueryRejected
             := Some x\<rparr>))
         else Inr v
       else Inr v) (GetStruct W w) v"

definition QueryWorkflowResponse_Read :: "'v wire_api \<Rightarrow> 'v \<Rightarrow> go_error + QueryWorkflowResponse" where
  "QueryWorkflowResponse_Read W w = QueryWorkflowResponse_FromWire W w QueryWorkflowResponse_zero"

lemma QueryWorkflowResponse_merge:
  "(case x of None \<Rightarrow> Inr \<lparr>QueryWorkflowResponse.QueryResult = a0,
      QueryWorkflowResponse.QueryRejected = a1\<rparr> | Some y \<Rightarrow> Inr \<lparr>QueryWorkflowResponse.QueryResult =
      b0 y, QueryWorkflowResponse.QueryRejected = b1 y\<rparr>) =
   Inr \<lparr>QueryWorkflowResponse.QueryResult = (case x of None \<Rightarrow> a0 | Some y \<Rightarrow> b0 y),
       QueryWorkflowResponse.QueryRejected = (case x of None \<Rightarrow> a1 | Some y \<Rightarrow> b1 y)\<rparr>"
  by (cases x) simp_all

interpretation QueryWorkflowResponse: thrift_message W
  "QueryWorkflowResponse_ToWire W" "QueryWorkflowResponse_FromWire W" QueryWorkflowResponse_zero
      "\<lambda>_. True" for W
proof (rule thrift_messageI)
  fix x :: QueryWorkflowResponse
  assume laws: "wire_laws W"
  obtain enc0 where e0: "QueryRejected_ToWire W = (\<lambda>x. Inr (enc0 x))"
      "\<And>x. wire_api.Type W (enc0 x) = TStruct"
      "\<And>x. Writable W (enc0 x) \<longleftrightarrow> (\<lambda>_. True) x"
      "\<And>x. (\<lambda>_. True) x \<Longrightarrow> QueryRejected_FromWire W (enc0 x) QueryRejected_zero = Inr x"
    by (rule QueryRejected.encoder [OF laws]) (rule that)
  show "\<exists>w. QueryWorkflowResponse_ToWire W x = Inr w \<and> wire_api.Type W w = TStruct \<and>
      (Writable W w \<longleftrightarrow> (\<lambda>_. True) x) \<and> ((\<lambda>_. True) x \<longrightarrow> QueryWorkflowResponse_FromWire W w
          QueryWorkflowResponse_zero = Inr x)"
    by (cases x) (simp cong: option.case_cong add: codec_rules QueryWorkflowResponse_merge
        QueryWorkflowResponse_ToWire_def QueryWorkflowResponse_FromWire_def
        QueryWorkflowResponse_zero_def QueryRejected_Read_def laws e0)
qed

definition QueryWorkflowResponse_Equals ::
  "QueryWorkflowResponse option \<Rightarrow> QueryWorkflowResponse option \<Rightarrow> bool" where
  "QueryWorkflowResponse_Equals v rhs =
     (case v of None \<Rightarrow> rhs = None
      | Some v \<Rightarrow> (case rhs of None \<Rightarrow> False
        | Some rhs \<Rightarrow>
          if \<not> both_set_and (=) (QueryWorkflowResponse.QueryResult v)
              (QueryWorkflowResponse.QueryResult rhs) then False else
          if \<not> both_set_and (\<lambda>x y. QueryRejected_Equals (Some x) (Some y))
              (QueryWorkflowResponse.QueryRejected v) (QueryWorkflowResponse.QueryRejected rhs) then
              False else
          True))"

lemma QueryWorkflowResponse_Equals_iff [simp]: "QueryWorkflowResponse_Equals x y \<longleftrightarrow> x = y"
  by (cases x; cases y) (auto simp: QueryWorkflowResponse_Equals_def)

record RemoveTaskRequest =
  ShardID :: "32 word option"
  Type :: "32 word option"
  TaskID :: "64 word option"

definition RemoveTaskRequest_zero :: RemoveTaskRequest where
  "RemoveTaskRequest_zero = \<lparr>RemoveTaskRequest.ShardID = None, RemoveTaskRequest.Type = None,
      RemoveTaskRequest.TaskID = None\<rparr>"

definition RemoveTaskRequest_ToWire ::
  "'v wire_api \<Rightarrow> RemoveTaskRequest \<Rightarrow> go_error + 'v" where
  "RemoveTaskRequest_ToWire W v =
     and_then (put_opt 10 (\<lambda>x. Inr (NewValueI32 W x)) (RemoveTaskRequest.ShardID v) [])
       (\<lambda>fields.
     and_then (put_opt 20 (\<lambda>x. Inr (NewValueI32 W x)) (RemoveTaskRequest.Type v) fields)
       (\<lambda>fields.
     and_then (put_opt 30 (\<lambda>x. Inr (NewValueI64 W x)) (RemoveTaskRequest.TaskID v) fields)
       (\<lambda>fields.
     Inr (NewValueStruct W fields))))"

definition RemoveTaskRequest_FromWire ::
  "'v wire_api \<Rightarrow> 'v \<Rightarrow> RemoveTaskRequest \<Rightarrow> go_error + RemoveTaskRequest" where
  "RemoveTaskRequest_FromWire W w v =
     foldM (\<lambda>v (fid, fval).
       if fid = 10 then
         if wire_api.Type W fval = TI32
         then Inr (v\<lparr>RemoveTaskRequest.ShardID := Some (GetI32 W fval)\<rparr>)
         else Inr v
       else if fid = 20 then
         if wire_api.Type W fval = TI32
         then Inr (v\<lparr>RemoveTaskRequest.Type := Some (GetI32 W fval)\<rparr>)
         else Inr v
       else if fid = 30 then
         if wire_api.Type W fval = TI64
         then Inr (v\<lparr>RemoveTaskRequest.TaskID := Some (GetI64 W fval)\<rparr>)
         else Inr v
       else Inr v) (GetStruct W w) v"

lemma RemoveTaskRequest_merge:
  "(case x of None \<Rightarrow> Inr \<lparr>RemoveTaskRequest.ShardID = a0, RemoveTaskRequest.Type = a1,
      RemoveTaskRequest.TaskID = a2\<rparr> | Some y \<Rightarrow> Inr \<lparr>RemoveTaskRequest.ShardID = b0 y,
      RemoveTaskRequest.Type = b1 y, RemoveTaskRequest.TaskID = b2 y\<rparr>) =
   Inr \<lparr>RemoveTaskRequest.ShardID = (case x of None \<Rightarrow> a0 | Some y \<Rightarrow> b0 y), RemoveTaskRequest.Type =
       (case x of None \<Rightarrow> a1 | Some y \<Rightarrow> b1 y), RemoveTaskRequest.TaskID = (case x of None \<Rightarrow> a2 | Some
       y \<Rightarrow> b2 y)\<rparr>"
  by (cases x) simp_all

interpretation RemoveTaskRequest: thrift_message W
  "RemoveTaskRequest_ToWire W" "RemoveTaskRequest_FromWire W" RemoveTaskRequest_zero "\<lambda>_. True" for
      W
proof (rule thrift_messageI)
  fix x :: RemoveTaskRequest
  assume laws: "wire_laws W"
  show "\<exists>w. RemoveTaskRequest_ToWire W x = Inr w \<and> wire_api.Type W w = TStruct \<and>
      (Writable W w \<longleftrightarrow> (\<lambda>_. True) x) \<and> ((\<lambda>_. True) x \<longrightarrow> RemoveTaskRequest_FromWire W w
          RemoveTaskRequest_zero = Inr x)"
    by (cases x) (simp cong: option.case_cong add: codec_rules RemoveTaskRequest_merge
        RemoveTaskRequest_ToWire_def RemoveTaskRequest_FromWire_def RemoveTaskRequest_zero_def laws)
qed

definition RemoveTaskRequest_Equals ::
  "RemoveTaskRequest option \<Rightarrow> RemoveTaskRequest option \<Rightarrow> bool" where
  "RemoveTaskRequest_Equals v rhs =
     (case v of None \<Rightarrow> rhs = None
      | Some v \<Rightarrow> (case rhs of None \<Rightarrow> False
        | Some rhs \<Rightarrow>
          if \<not> I32_EqualsPtr (RemoveTaskRequest.ShardID v) (RemoveTaskRequest.ShardID rhs) then
              False else
          if \<not> I32_EqualsPtr (RemoveTaskRequest.Type v) (RemoveTaskRequest.Type rhs) then False else
          if \<not> I64_EqualsPtr (RemoveTaskRequest.TaskID v) (RemoveTaskRequest.TaskID rhs) then False
              else
          True))"

lemma RemoveTaskRequest_Equals_iff [simp]: "RemoveTaskRequest_Equals x y \<longleftrightarrow> x = y"
  by (cases x; cases y) (auto simp: RemoveTaskRequest_Equals_def)

record RequestCancelWorkflowExecutionRequest =
  Domain :: "string option"
  WorkflowExecution :: "WorkflowExecution option"
  Identity :: "string option"
  RequestId :: "string option"

definition RequestCancelWorkflowExecutionRequest_zero :: RequestCancelWorkflowExecutionRequest where
  "RequestCancelWorkflowExecutionRequest_zero = \<lparr>RequestCancelWorkflowExecutionRequest.Domain =
      None, RequestCancelWorkflowExecutionRequest.WorkflowExecution = None,
      RequestCancelWorkflowExecutionRequest.Identity = None,
      RequestCancelWorkflowExecutionRequest.RequestId = None\<rparr>"

definition RequestCancelWorkflowExecutionRequest_ToWire ::
  "'v wire_api \<Rightarrow> RequestCancelWorkflowExecutionRequest \<Rightarrow> go_error + 'v" where
  "RequestCancelWorkflowExecutionRequest_ToWire W v =
     and_then (put_opt 10 (\<lambda>x. Inr (NewValueString W x))
         (RequestCancelWorkflowExecutionRequest.Domain v) [])
       (\<lambda>fields.
     and_then (put_opt 20 (WorkflowExecution_ToWire W)
         (RequestCancelWorkflowExecutionRequest.WorkflowExecution v) fields)
       (\<lambda>fields.
     and_then (put_opt 30 (\<lambda>x. Inr (NewValueString W x))
         (RequestCancelWorkflowExecutionRequest.Identity v) fields)
       (\<lambda>fields.
     and_then (put_opt 40 (\<lambda>x. Inr (NewValueString W x))
         (RequestCancelWorkflowExecutionRequest.RequestId v) fields)
       (\<lambda>fields.
     Inr (NewValueStruct W fields)))))"

definition RequestCancelWorkflowExecutionRequest_FromWire ::
  "'v wire_api \<Rightarrow> 'v \<Rightarrow> RequestCancelWorkflowExecutionRequest \<Rightarrow> go_error +
      RequestCancelWorkflowExecutionRequest" where
  "RequestCancelWorkflowExecutionRequest_FromWire W w v =
     foldM (\<lambda>v (fid, fval).
       if fid = 10 then
         if wire_api.Type W fval = TBinary
         then Inr (v\<lparr>RequestCancelWorkflowExecutionRequest.Domain := Some (GetString W fval)\<rparr>)
         else Inr v
       else if fid = 20 then
         if wire_api.Type W fval = TStruct
         then and_then (WorkflowExecution_Read W fval) (\<lambda>x. Inr
             (v\<lparr>RequestCancelWorkflowExecutionRequest.WorkflowExecution := Some x\<rparr>))
         else Inr v
       else if fid = 30 then
         if wire_api.Type W fval = TBinary
         then Inr (v\<lparr>RequestCancelWorkflowExecutionRequest.Identity := Some (GetString W fval)\<rparr>)
         else Inr v
       else if fid = 40 then
         if wire_api.Type W fval = TBinary
         then Inr (v\<lparr>RequestCancelWorkflowExecutionRequest.RequestId := Some (GetString W fval)\<rparr>)
         else Inr v
       else Inr v) (GetStruct W w) v"

definition RequestCancelWorkflowExecutionRequest_Read :: "'v wire_api \<Rightarrow> 'v \<Rightarrow> go_error +
    RequestCancelWorkflowExecutionRequest" where
  "RequestCancelWorkflowExecutionRequest_Read W w = RequestCancelWorkflowExecutionRequest_FromWire W
      w RequestCancelWorkflowExecutionRequest_zero"

lemma RequestCancelWorkflowExecutionRequest_merge:
  "(case x of None \<Rightarrow> Inr \<lparr>RequestCancelWorkflowExecutionRequest.Domain = a0,
      RequestCancelWorkflowExecutionRequest.WorkflowExecution = a1,
      RequestCancelWorkflowExecutionRequest.Identity = a2,
      RequestCancelWorkflowExecutionRequest.RequestId = a3\<rparr> | Some y \<Rightarrow> Inr
      \<lparr>RequestCancelWorkflowExecutionRequest.Domain = b0 y,
      RequestCancelWorkflowExecutionRequest.WorkflowExecution = b1 y,
      RequestCancelWorkflowExecutionRequest.Identity = b2 y,
      RequestCancelWorkflowExecutionRequest.RequestId = b3 y\<rparr>) =
   Inr \<lparr>RequestCancelWorkflowExecutionRequest.Domain = (case x of None \<Rightarrow> a0 | Some y \<Rightarrow> b0 y),
       RequestCancelWorkflowExecutionRequest.WorkflowExecution = (case x of None \<Rightarrow> a1 | Some y \<Rightarrow> b1
       y), RequestCancelWorkflowExecutionRequest.Identity = (case x of None \<Rightarrow> a2 | Some y \<Rightarrow> b2 y),
       RequestCancelWorkflowExecutionRequest.RequestId = (case x of None \<Rightarrow> a3 | Some y \<Rightarrow> b3 y)\<rparr>"
  by (cases x) simp_all

interpretation RequestCancelWorkflowExecutionRequest: thrift_message W
  "RequestCancelWorkflowExecutionRequest_ToWire W" "RequestCancelWorkflowExecutionRequest_FromWire
      W" RequestCancelWorkflowExecutionRequest_zero "\<lambda>_. True" for W
proof (rule thrift_messageI)
  fix x :: RequestCancelWorkflowExecutionRequest
  assume laws: "wire_laws W"
  obtain enc0 where e0: "WorkflowExecution_ToWire W = (\<lambda>x. Inr (enc0 x))"
      "\<And>x. wire_api.Type W (enc0 x) = TStruct"
      "\<And>x. Writable W (enc0 x) \<longleftrightarrow> (\<lambda>_. True) x"
      "\<And>x. (\<lambda>_. True) x \<Longrightarrow> WorkflowExecution_FromWire W (enc0 x) WorkflowExecution_zero = Inr x"
    by (rule WorkflowExecution.encoder [OF laws]) (rule that)
  show "\<exists>w. RequestCancelWorkflowExecutionRequest_ToWire W x = Inr w \<and> wire_api.Type W w = TStruct \<and>
      (Writable W w \<longleftrightarrow> (\<lambda>_. True) x) \<and> ((\<lambda>_. True) x \<longrightarrow> RequestCancelWorkflowExecutionRequest_FromWire
          W w RequestCancelWorkflowExecutionRequest_zero = Inr x)"
    by (cases x) (simp cong: option.case_cong add: codec_rules
        RequestCancelWorkflowExecutionRequest_merge RequestCancelWorkflowExecutionRequest_ToWire_def
        RequestCancelWorkflowExecutionRequest_FromWire_def
        RequestCancelWorkflowExecutionRequest_zero_def WorkflowExecution_Read_def laws e0)
qed

definition RequestCancelWorkflowExecutionRequest_Equals ::
  "RequestCancelWorkflowExecutionRequest option \<Rightarrow> RequestCancelWorkflowExecutionRequest option \<Rightarrow>
      bool" where
  "RequestCancelWorkflowExecutionRequest_Equals v rhs =
     (case v of None \<Rightarrow> rhs = None
      | Some v \<Rightarrow> (case rhs of None \<Rightarrow> False
        | Some rhs \<Rightarrow>
          if \<not> String_EqualsPtr (RequestCancelWorkflowExecutionRequest.Domain v)
              (RequestCancelWorkflowExecutionRequest.Domain rhs) then False else
          if \<not> both_set_and (\<lambda>x y. WorkflowExecution_Equals (Some x) (Some y))
              (RequestCancelWorkflowExecutionRequest.WorkflowExecution v)
              (RequestCancelWorkflowExecutionRequest.WorkflowExecution rhs) then False else
          if \<not> String_EqualsPtr (RequestCancelWorkflowExecutionRequest.Identity v)
              (RequestCancelWorkflowExecutionRequest.Identity rhs) then False else
          if \<not> String_EqualsPtr (RequestCancelWorkflowExecutionRequest.RequestId v)
              (RequestCancelWorkflowExecutionRequest.RequestId rhs) then False else
          True))"

lemma RequestCancelWorkflowExecutionRequest_Equals_iff [simp]:
    "RequestCancelWorkflowExecutionRequest_Equals x y \<longleftrightarrow> x = y"
  by (cases x; cases y) (auto simp: RequestCancelWorkflowExecutionRequest_Equals_def)

record ResetStickyTaskListRequest =
  Domain :: "string option"
  Execution :: "WorkflowExecution option"

definition ResetStickyTaskListRequest_zero :: ResetStickyTaskListRequest where
  "ResetStickyTaskListRequest_zero = \<lparr>ResetStickyTaskListRequest.Domain = None,
      ResetStickyTaskListRequest.Execution = None\<rparr>"

definition ResetStickyTaskListRequest_ToWire ::
  "'v wire_api \<Rightarrow> ResetStickyTaskListRequest \<Rightarrow> go_error + 'v" where
  "ResetStickyTaskListRequest_ToWire W v =
     and_then (put_opt 10 (\<lambda>x. Inr (NewValueString W x)) (ResetStickyTaskListRequest.Domain v) [])
       (\<lambda>fields.
     and_then (put_opt 20 (WorkflowExecution_ToWire W) (ResetStickyTaskListRequest.Execution v)
         fields)
       (\<lambda>fields.
     Inr (NewValueStruct W fields)))"

definition ResetStickyTaskListRequest_FromWire ::
  "'v wire_api \<Rightarrow> 'v \<Rightarrow> ResetStickyTaskListRequest \<Rightarrow> go_error + ResetStickyTaskListRequest" where
  "ResetStickyTaskListRequest_FromWire W w v =
     foldM (\<lambda>v (fid, fval).
       if fid = 10 then
         if wire_api.Type W fval = TBinary
         then Inr (v\<lparr>ResetStickyTaskListRequest.Domain := Some (GetString W fval)\<rparr>)
         else Inr v
       else if fid = 20 then
         if wire_api.Type W fval = TStruct
         then and_then (WorkflowExecution_Read W fval) (\<lambda>x. Inr
             (v\<lparr>ResetStickyTaskListRequest.Execution := Some x\<rparr>))
         else Inr v
       else Inr v) (GetStruct W w) v"

definition ResetStickyTaskListRequest_Read :: "'v wire_api \<Rightarrow> 'v \<Rightarrow> go_error +
    ResetStickyTaskListRequest" where
  "ResetStickyTaskListRequest_Read W w = ResetStickyTaskListRequest_FromWire W w
      ResetStickyTaskListRequest_zero"

lemma ResetStickyTaskListRequest_merge:
  "(case x of None \<Rightarrow> Inr \<lparr>ResetStickyTaskListRequest.Domain = a0,
      ResetStickyTaskListRequest.Execution = a1\<rparr> | Some y \<Rightarrow> Inr \<lparr>ResetStickyTaskListRequest.Domain =
      b0 y, ResetStickyTaskListRequest.Execution = b1 y\<rparr>) =
   Inr \<lparr>ResetStickyTaskListRequest.Domain = (case x of None \<Rightarrow> a0 | Some y \<Rightarrow> b0 y),
       ResetStickyTaskListRequest.Execution = (case x of None \<Rightarrow> a1 | Some y \<Rightarrow> b1 y)\<rparr>"
  by (cases x) simp_all

interpretation ResetStickyTaskListRequest: thrift_message W
  "ResetStickyTaskListRequest_ToWire W" "ResetStickyTaskListRequest_FromWire W"
      ResetStickyTaskListRequest_zero "\<lambda>_. True" for W
proof (rule thrift_messageI)
  fix x :: ResetStickyTaskListRequest
  assume laws: "wire_laws W"
  obtain enc0 where e0: "WorkflowExecution_ToWire W = (\<lambda>x. Inr (enc0 x))"
      "\<And>x. wire_api.Type W (enc0 x) = TStruct"
      "\<And>x. Writable W (enc0 x) \<longleftrightarrow> (\<lambda>_. True) x"
      "\<And>x. (\<lambda>_. True) x \<Longrightarrow> WorkflowExecution_FromWire W (enc0 x) WorkflowExecution_zero = Inr x"
    by (rule WorkflowExecution.encoder [OF laws]) (rule that)
  show "\<exists>w. ResetStickyTaskListRequest_ToWire W x = Inr w \<and> wire_api.Type W w = TStruct \<and>
      (Writable W w \<longleftrightarrow> (\<lambda>_. True) x) \<and> ((\<lambda>_. True) x \<longrightarrow> ResetStickyTaskListRequest_FromWire W w
          ResetStickyTaskListRequest_zero = Inr x)"
    by (cases x) (simp cong: option.case_cong add: codec_rules ResetStickyTaskListRequest_merge
        ResetStickyTaskListRequest_ToWire_def ResetStickyTaskListRequest_FromWire_def
        ResetStickyTaskListRequest_zero_def WorkflowExecution_Read_def laws e0)
qed

definition ResetStickyTaskListRequest_Equals ::
  "ResetStickyTaskListRequest option \<Rightarrow> ResetStickyTaskListRequest option \<Rightarrow> bool" where
  "ResetStickyTaskListRequest_Equals v rhs =
     (case v of None \<Rightarrow> rhs = None
      | Some v \<Rightarrow> (case rhs of None \<Rightarrow> False
        | Some rhs \<Rightarrow>
          if \<not> String_EqualsPtr (ResetStickyTaskListRequest.Domain v)
              (ResetStickyTaskListRequest.Domain rhs) then False else
          if \<not> both_set_and (\<lambda>x y. WorkflowExecution_Equals (Some x) (Some y))
              (ResetStickyTaskListRequest.Execution v) (ResetStickyTaskListRequest.Execution rhs)
              then False else
          True))"

lemma ResetStickyTaskListRequest_Equals_iff [simp]: "ResetStickyTaskListRequest_Equals x y \<longleftrightarrow> x = y"
  by (cases x; cases y) (auto simp: ResetStickyTaskListRequest_Equals_def)

datatype ResetStickyTaskListResponse = ResetStickyTaskListResponse

definition ResetStickyTaskListResponse_zero :: ResetStickyTaskListResponse where
  "ResetStickyTaskListResponse_zero = ResetStickyTaskListResponse"

definition ResetStickyTaskListResponse_ToWire ::
  "'v wire_api \<Rightarrow> ResetStickyTaskListResponse \<Rightarrow> go_error + 'v" where
  "ResetStickyTaskListResponse_ToWire W v = Inr (NewValueStruct W [])"

definition ResetStickyTaskListResponse_FromWire ::
  "'v wire_api \<Rightarrow> 'v \<Rightarrow> ResetStickyTaskListResponse \<Rightarrow> go_error + ResetStickyTaskListResponse" where
  "ResetStickyTaskListResponse_FromWire W w v = foldM (\<lambda>v (fid, fval). Inr v) (GetStruct W w) v"

definition ResetStickyTaskListResponse_Read :: "'v wire_api \<Rightarrow> 'v \<Rightarrow> go_error +
    ResetStickyTaskListResponse" where
  "ResetStickyTaskListResponse_Read W w = ResetStickyTaskListResponse_FromWire W w
      ResetStickyTaskListResponse_zero"

interpretation ResetStickyTaskListResponse: thrift_message W
  "ResetStickyTaskListResponse_ToWire W" "ResetStickyTaskListResponse_FromWire W"
      ResetStickyTaskListResponse_zero "\<lambda>_. True" for W
proof (rule thrift_messageI)
  fix x :: ResetStickyTaskListResponse
  assume laws: "wire_laws W"
  show "\<exists>w. ResetStickyTaskListResponse_ToWire W x = Inr w \<and> wire_api.Type W w = TStruct \<and>
      (Writable W w \<longleftrightarrow> (\<lambda>_. True) x) \<and> ((\<lambda>_. True) x \<longrightarrow> ResetStickyTaskListResponse_FromWire W w
          ResetStickyTaskListResponse_zero = Inr x)"
    by (cases x) (simp add: ResetStickyTaskListResponse_ToWire_def
        ResetStickyTaskListResponse_FromWire_def ResetStickyTaskListResponse_zero_def laws)
qed

definition ResetStickyTaskListResponse_Equals ::
  "ResetStickyTaskListResponse option \<Rightarrow> ResetStickyTaskListResponse option \<Rightarrow> bool" where
  "ResetStickyTaskListResponse_Equals v rhs =
     (case v of None \<Rightarrow> rhs = None
      | Some v \<Rightarrow> (case rhs of None \<Rightarrow> False
        | Some rhs \<Rightarrow>
          True))"

lemma ResetStickyTaskListResponse_Equals_iff [simp]: "ResetStickyTaskListResponse_Equals x y \<longleftrightarrow> x =
    y"
  by (cases x; cases y) (simp_all add: ResetStickyTaskListResponse_Equals_def, metis
      ResetStickyTaskListResponse.exhaust)

record ResetWorkflowExecutionRequest =
  Domain :: "string option"
  WorkflowExecution :: "WorkflowExecution option"
  Reason :: "string option"
  DecisionFinishEventId :: "64 word option"
  RequestId :: "string option"

definition ResetWorkflowExecutionRequest_zero :: ResetWorkflowExecutionRequest where
  "ResetWorkflowExecutionRequest_zero = \<lparr>ResetWorkflowExecutionRequest.Domain = None,
      ResetWorkflowExecutionRequest.WorkflowExecution = None, ResetWorkflowExecutionRequest.Reason =
      None, ResetWorkflowExecutionRequest.DecisionFinishEventId = None,
      ResetWorkflowExecutionRequest.RequestId = None\<rparr>"

definition ResetWorkflowExecutionRequest_ToWire ::
  "'v wire_api \<Rightarrow> ResetWorkflowExecutionRequest \<Rightarrow> go_error + 'v" where
  "ResetWorkflowExecutionRequest_ToWire W v =
     and_then (put_opt 10 (\<lambda>x. Inr (NewValueString W x)) (ResetWorkflowExecutionRequest.Domain v)
         [])
       (\<lambda>fields.
     and_then (put_opt 20 (WorkflowExecution_ToWire W)
         (ResetWorkflowExecutionRequest.WorkflowExecution v) fields)
       (\<lambda>fields.
     and_then (put_opt 30 (\<lambda>x. Inr (NewValueString W x)) (ResetWorkflowExecutionRequest.Reason v)
         fields)
       (\<lambda>fields.
     and_then (put_opt 40 (\<lambda>x. Inr (NewValueI64 W x))
         (ResetWorkflowExecutionRequest.DecisionFinishEventId v) fields)
       (\<lambda>fields.
     and_then (put_opt 50 (\<lambda>x. Inr (NewValueString W x)) (ResetWorkflowExecutionRequest.RequestId v)
         fields)
       (\<lambda>fields.
     Inr (NewValueStruct W fields))))))"

definition ResetWorkflowExecutionRequest_FromWire ::
  "'v wire_api \<Rightarrow> 'v \<Rightarrow> ResetWorkflowExecutionRequest \<Rightarrow> go_error + ResetWorkflowExecutionRequest"
      where
  "ResetWorkflowExecutionRequest_FromWire W w v =
     foldM (\<lambda>v (fid, fval).
       if fid = 10 then
         if wire_api.Type W fval = TBinary
         then Inr (v\<lparr>ResetWorkflowExecutionRequest.Domain := Some (GetString W fval)\<rparr>)
         else Inr v
       else if fid = 20 then
         if wire_api.Type W fval = TStruct
         then and_then (WorkflowExecution_Read W fval) (\<lambda>x. Inr
             (v\<lparr>ResetWorkflowExecutionRequest.WorkflowExecution := Some x\<rparr>))
         else Inr v
       else if fid = 30 then
         if wire_api.Type W fval = TBinary
         then Inr (v\<lparr>ResetWorkflowExecutionRequest.Reason := Some (GetString W fval)\<rparr>)
         else Inr v
       else if fid = 40 then
         if wire_api.Type W fval = TI64
         then Inr (v\<lparr>ResetWorkflowExecutionRequest.DecisionFinishEventId := Some (GetI64 W fval)\<rparr>)
         else Inr v
       else if fid = 50 then
         if wire_api.Type W fval = TBinary
         then Inr (v\<lparr>ResetWorkflowExecutionRequest.RequestId := Some (GetString W fval)\<rparr>)
         else Inr v
       else Inr v) (GetStruct W w) v"

definition ResetWorkflowExecutionRequest_Read :: "'v wire_api \<Rightarrow> 'v \<Rightarrow> go_error +
    ResetWorkflowExecutionRequest" where
  "ResetWorkflowExecutionRequest_Read W w = ResetWorkflowExecutionRequest_FromWire W w
      ResetWorkflowExecutionRequest_zero"

lemma ResetWorkflowExecutionRequest_merge:
  "(case x of None \<Rightarrow> Inr \<lparr>ResetWorkflowExecutionRequest.Domain = a0,
      ResetWorkflowExecutionRequest.WorkflowExecution = a1, ResetWorkflowExecutionRequest.Reason =
      a2, ResetWorkflowExecutionRequest.DecisionFinishEventId = a3,
      ResetWorkflowExecutionRequest.RequestId = a4\<rparr> | Some y \<Rightarrow> Inr
      \<lparr>ResetWorkflowExecutionRequest.Domain = b0 y, ResetWorkflowExecutionRequest.WorkflowExecution
      = b1 y, ResetWorkflowExecutionRequest.Reason = b2 y,
      ResetWorkflowExecutionRequest.DecisionFinishEventId = b3 y,
      ResetWorkflowExecutionRequest.RequestId = b4 y\<rparr>) =
   Inr \<lparr>ResetWorkflowExecutionRequest.Domain = (case x of None \<Rightarrow> a0 | Some y \<Rightarrow> b0 y),
       ResetWorkflowExecutionRequest.WorkflowExecution = (case x of None \<Rightarrow> a1 | Some y \<Rightarrow> b1 y),
       ResetWorkflowExecutionRequest.Reason = (case x of None \<Rightarrow> a2 | Some y \<Rightarrow> b2 y),
       ResetWorkflowExecutionRequest.DecisionFinishEventId = (case x of None \<Rightarrow> a3 | Some y \<Rightarrow> b3 y),
       ResetWorkflowExecutionRequest.RequestId = (case x of None \<Rightarrow> a4 | Some y \<Rightarrow> b4 y)\<rparr>"
  by (cases x) simp_all

interpretation ResetWorkflowExecutionRequest: thrift_message W
  "ResetWorkflowExecutionRequest_ToWire W" "ResetWorkflowExecutionRequest_FromWire W"
      ResetWorkflowExecutionRequest_zero "\<lambda>_. True" for W
proof (rule thrift_messageI)
  fix x :: ResetWorkflowExecutionRequest
  assume laws: "wire_laws W"
  obtain enc0 where e0: "WorkflowExecution_ToWire W = (\<lambda>x. Inr (enc0 x))"
      "\<And>x. wire_api.Type W (enc0 x) = TStruct"
      "\<And>x. Writable W (enc0 x) \<longleftrightarrow> (\<lambda>_. True) x"
      "\<And>x. (\<lambda>_. True) x \<Longrightarrow> WorkflowExecution_FromWire W (enc0 x) WorkflowExecution_zero = Inr x"
    by (rule WorkflowExecution.encoder [OF laws]) (rule that)
  show "\<exists>w. ResetWorkflowExecutionRequest_ToWire W x = Inr w \<and> wire_api.Type W w = TStruct \<and>
      (Writable W w \<longleftrightarrow> (\<lambda>_. True) x) \<and> ((\<lambda>_. True) x \<longrightarrow> ResetWorkflowExecutionRequest_FromWire W w
          ResetWorkflowExecutionRequest_zero = Inr x)"
    by (cases x) (simp cong: option.case_cong add: codec_rules ResetWorkflowExecutionRequest_merge
        ResetWorkflowExecutionRequest_ToWire_def ResetWorkflowExecutionRequest_FromWire_def
        ResetWorkflowExecutionRequest_zero_def WorkflowExecution_Read_def laws e0)
qed

definition ResetWorkflowExecutionRequest_Equals ::
  "ResetWorkflowExecutionRequest option \<Rightarrow> ResetWorkflowExecutionRequest option \<Rightarrow> bool" where
  "ResetWorkflowExecutionRequest_Equals v rhs =
     (case v of None \<Rightarrow> rhs = None
      | Some v \<Rightarrow> (case rhs of None \<Rightarrow> False
        | Some rhs \<Rightarrow>
          if \<not> String_EqualsPtr (ResetWorkflowExecutionRequest.Domain v)
              (ResetWorkflowExecutionRequest.Domain rhs) then False else
          if \<not> both_set_and (\<lambda>x y. WorkflowExecution_Equals (Some x) (Some y))
              (ResetWorkflowExecutionRequest.WorkflowExecution v)
              (ResetWorkflowExecutionRequest.WorkflowExecution rhs) then False else
          if \<not> String_EqualsPtr (ResetWorkflowExecutionRequest.Reason v)
              (ResetWorkflowExecutionRequest.Reason rhs) then False else
          if \<not> I64_EqualsPtr (ResetWorkflowExecutionRequest.DecisionFinishEventId v)
              (ResetWorkflowExecutionRequest.DecisionFinishEventId rhs) then False else
          if \<not> String_EqualsPtr (ResetWorkflowExecutionRequest.RequestId v)
              (ResetWorkflowExecutionRequest.RequestId rhs) then False else
          True))"

lemma ResetWorkflowExecutionRequest_Equals_iff [simp]: "ResetWorkflowExecutionRequest_Equals x y \<longleftrightarrow> x
    = y"
  by (cases x; cases y) (simp_all add: ResetWorkflowExecutionRequest_Equals_def if_not_False,
      fastforce intro: ResetWorkflowExecutionRequest.equality)

record ResetWorkflowExecutionResponse =
  RunId :: "string option"

definition ResetWorkflowExecutionResponse_zero :: ResetWorkflowExecutionResponse where
  "ResetWorkflowExecutionResponse_zero = \<lparr>ResetWorkflowExecutionResponse.RunId = None\<rparr>"

definition ResetWorkflowExecutionResponse_ToWire ::
  "'v wire_api \<Rightarrow> ResetWorkflowExecutionResponse \<Rightarrow> go_error + 'v" where
  "ResetWorkflowExecutionResponse_ToWire W v =
     and_then (put_opt 10 (\<lambda>x. Inr (NewValueString W x)) (ResetWorkflowExecutionResponse.RunId v)
         [])
       (\<lambda>fields.
     Inr (NewValueStruct W fields))"

definition ResetWorkflowExecutionResponse_FromWire ::
  "'v wire_api \<Rightarrow> 'v \<Rightarrow> ResetWorkflowExecutionResponse \<Rightarrow> go_error + ResetWorkflowExecutionResponse"
      where
  "ResetWorkflowExecutionResponse_FromWire W w v =
     foldM (\<lambda>v (fid, fval).
       if fid = 10 then
         if wire_api.Type W fval = TBinary
         then Inr (v\<lparr>ResetWorkflowExecutionResponse.RunId := Some (GetString W fval)\<rparr>)
         else Inr v
       else Inr v) (GetStruct W w) v"

definition ResetWorkflowExecutionResponse_Read :: "'v wire_api \<Rightarrow> 'v \<Rightarrow> go_error +
    ResetWorkflowExecutionResponse" where
  "ResetWorkflowExecutionResponse_Read W w = ResetWorkflowExecutionResponse_FromWire W w
      ResetWorkflowExecutionResponse_zero"

lemma ResetWorkflowExecutionResponse_merge:
  "(case x of None \<Rightarrow> Inr \<lparr>ResetWorkflowExecutionResponse.RunId = a0\<rparr> | Some y \<Rightarrow> Inr
      \<lparr>ResetWorkflowExecutionResponse.RunId = b0 y\<rparr>) =
   Inr \<lparr>ResetWorkflowExecutionResponse.RunId = (case x of None \<Rightarrow> a0 | Some y \<Rightarrow> b0 y)\<rparr>"
  by (cases x) simp_all

interpretation ResetWorkflowExecutionResponse: thrift_message W
  "ResetWorkflowExecutionResponse_ToWire W" "ResetWorkflowExecutionResponse_FromWire W"
      ResetWorkflowExecutionResponse_zero "\<lambda>_. True" for W
proof (rule thrift_messageI)
  fix x :: ResetWorkflowExecutionResponse
  assume laws: "wire_laws W"
  show "\<exists>w. ResetWorkflowExecutionResponse_ToWire W x = Inr w \<and> wire_api.Type W w = TStruct \<and>
      (Writable W w \<longleftrightarrow> (\<lambda>_. True) x) \<and> ((\<lambda>_. True) x \<longrightarrow> ResetWorkflowExecutionResponse_FromWire W w
          ResetWorkflowExecutionResponse_zero = Inr x)"
    by (cases x) (simp cong: option.case_cong add: codec_rules ResetWorkflowExecutionResponse_merge
        ResetWorkflowExecutionResponse_ToWire_def ResetWorkflowExecutionResponse_FromWire_def
        ResetWorkflowExecutionResponse_zero_def laws)
qed

definition ResetWorkflowExecutionResponse_Equals ::
  "ResetWorkflowExecutionResponse option \<Rightarrow> ResetWorkflowExecutionResponse option \<Rightarrow> bool" where
  "ResetWorkflowExecutionResponse_Equals v rhs =
     (case v of None \<Rightarrow> rhs = None
      | Some v \<Rightarrow> (case rhs of None \<Rightarrow> False
        | Some rhs \<Rightarrow>
          if \<not> String_EqualsPtr (ResetWorkflowExecutionResponse.RunId v)
              (ResetWorkflowExecutionResponse.RunId rhs) then False else
          True))"

lemma ResetWorkflowExecutionResponse_Equals_iff [simp]: "ResetWorkflowExecutionResponse_Equals x y \<longleftrightarrow>
    x = y"
  by (cases x; cases y) (auto simp: ResetWorkflowExecutionResponse_Equals_def)

record RespondDecisionTaskCompletedRequest =
  TaskToken :: "bytes option"
  Decisions :: "Decision option list option"
  ExecutionContext :: "bytes option"
  Identity :: "string option"
  StickyAttributes :: "StickyExecutionAttributes option"
  ReturnNewDecisionTask :: "bool option"
  ForceCreateNewDecisionTask :: "bool option"
  BinaryChecksum :: "string option"
  QueryResults :: "WorkflowQueryResult option list option"

definition RespondDecisionTaskCompletedRequest_zero :: RespondDecisionTaskCompletedRequest where
  "RespondDecisionTaskCompletedRequest_zero = \<lparr>RespondDecisionTaskCompletedRequest.TaskToken = None,
      RespondDecisionTaskCompletedRequest.Decisions = None,
      RespondDecisionTaskCompletedRequest.ExecutionContext = None,
      RespondDecisionTaskCompletedRequest.Identity = None,
      RespondDecisionTaskCompletedRequest.StickyAttributes = None,
      RespondDecisionTaskCompletedRequest.ReturnNewDecisionTask = None,
      RespondDecisionTaskCompletedRequest.ForceCreateNewDecisionTask = None,
      RespondDecisionTaskCompletedRequest.BinaryChecksum = None,
      RespondDecisionTaskCompletedRequest.QueryResults = None\<rparr>"

definition RespondDecisionTaskCompletedRequest_ToWire ::
  "'v wire_api \<Rightarrow> RespondDecisionTaskCompletedRequest \<Rightarrow> go_error + 'v" where
  "RespondDecisionTaskCompletedRequest_ToWire W v =
     and_then (put_opt 10 (\<lambda>x. Inr (NewValueBinary W x))
         (RespondDecisionTaskCompletedRequest.TaskToken v) [])
       (\<lambda>fields.
     and_then (put_opt 20 (\<lambda>x. Inr (NewValueList W (List_Decision_ValueList W x)))
         (RespondDecisionTaskCompletedRequest.Decisions v) fields)
       (\<lambda>fields.
     and_then (put_opt 30 (\<lambda>x. Inr (NewValueBinary W x))
         (RespondDecisionTaskCompletedRequest.ExecutionContext v) fields)
       (\<lambda>fields.
     and_then (put_opt 40 (\<lambda>x. Inr (NewValueString W x))
         (RespondDecisionTaskCompletedRequest.Identity v) fields)
       (\<lambda>fields.
     and_then (put_opt 50 (StickyExecutionAttributes_ToWire W)
         (RespondDecisionTaskCompletedRequest.StickyAttributes v) fields)
       (\<lambda>fields.
     and_then (put_opt 60 (\<lambda>x. Inr (NewValueBool W x))
         (RespondDecisionTaskCompletedRequest.ReturnNewDecisionTask v) fields)
       (\<lambda>fields.
     and_then (put_opt 70 (\<lambda>x. Inr (NewValueBool W x))
         (RespondDecisionTaskCompletedRequest.ForceCreateNewDecisionTask v) fields)
       (\<lambda>fields.
     and_then (put_opt 80 (\<lambda>x. Inr (NewValueString W x))
         (RespondDecisionTaskCompletedRequest.BinaryChecksum v) fields)
       (\<lambda>fields.
     and_then (put_opt 90 (\<lambda>x. Inr (NewValueList W (List_WorkflowQueryResult_ValueList W x)))
         (RespondDecisionTaskCompletedRequest.QueryResults v) fields)
       (\<lambda>fields.
     Inr (NewValueStruct W fields))))))))))"

definition RespondDecisionTaskCompletedRequest_FromWire ::
  "'v wire_api \<Rightarrow> 'v \<Rightarrow> RespondDecisionTaskCompletedRequest \<Rightarrow> go_error +
      RespondDecisionTaskCompletedRequest" where
  "RespondDecisionTaskCompletedRequest_FromWire W w v =
     foldM (\<lambda>v (fid, fval).
       if fid = 10 then
         if wire_api.Type W fval = TBinary
         then Inr (v\<lparr>RespondDecisionTaskCompletedRequest.TaskToken := Some (GetBinary W fval)\<rparr>)
         else Inr v
       else if fid = 20 then
         if wire_api.Type W fval = TList
         then and_then (List_Decision_Read W (GetList W fval)) (\<lambda>x. Inr
             (v\<lparr>RespondDecisionTaskCompletedRequest.Decisions := x\<rparr>))
         else Inr v
       else if fid = 30 then
         if wire_api.Type W fval = TBinary
         then Inr (v\<lparr>RespondDecisionTaskCompletedRequest.ExecutionContext := Some (GetBinary W
             fval)\<rparr>)
         else Inr v
       else if fid = 40 then
         if wire_api.Type W fval = TBinary
         then Inr (v\<lparr>RespondDecisionTaskCompletedRequest.Identity := Some (GetString W fval)\<rparr>)
         else Inr v
       else if fid = 50 then
         if wire_api.Type W fval = TStruct
         then and_then (StickyExecutionAttributes_Read W fval) (\<lambda>x. Inr
             (v\<lparr>RespondDecisionTaskCompletedRequest.StickyAttributes := Some x\<rparr>))
         else Inr v
       else if fid = 60 then
         if wire_api.Type W fval = TBool
         then Inr (v\<lparr>RespondDecisionTaskCompletedRequest.ReturnNewDecisionTask := Some (GetBool W
             fval)\<rparr>)
         else Inr v
       else if fid = 70 then
         if wire_api.Type W fval = TBool
         then Inr (v\<lparr>RespondDecisionTaskCompletedRequest.ForceCreateNewDecisionTask := Some (GetBool
             W fval)\<rparr>)
         else Inr v
       else if fid = 80 then
         if wire_api.Type W fval = TBinary
         then Inr (v\<lparr>RespondDecisionTaskCompletedRequest.BinaryChecksum := Some (GetString W fval)\<rparr>)
         else Inr v
       else if fid = 90 then
         if wire_api.Type W fval = TList
         then and_then (List_WorkflowQueryResult_Read W (GetList W fval)) (\<lambda>x. Inr
             (v\<lparr>RespondDecisionTaskCompletedRequest.QueryResults := x\<rparr>))
         else Inr v
       else Inr v) (GetStruct W w) v"

definition RespondDecisionTaskCompletedRequest_Read :: "'v wire_api \<Rightarrow> 'v \<Rightarrow> go_error +
    RespondDecisionTaskCompletedRequest" where
  "RespondDecisionTaskCompletedRequest_Read W w = RespondDecisionTaskCompletedRequest_FromWire W w
      RespondDecisionTaskCompletedRequest_zero"

definition RespondDecisionTaskCompletedRequest_complete :: "RespondDecisionTaskCompletedRequest \<Rightarrow>
    bool" where
  "RespondDecisionTaskCompletedRequest_complete v \<longleftrightarrow>
     if_set (list_all (present Decision_complete)) (RespondDecisionTaskCompletedRequest.Decisions v)
         \<and>
     if_set (list_all (present (\<lambda>_. True))) (RespondDecisionTaskCompletedRequest.QueryResults v)"

lemma RespondDecisionTaskCompletedRequest_merge:
  "(case x of None \<Rightarrow> Inr \<lparr>RespondDecisionTaskCompletedRequest.TaskToken = a0,
      RespondDecisionTaskCompletedRequest.Decisions = a1,
      RespondDecisionTaskCompletedRequest.ExecutionContext = a2,
      RespondDecisionTaskCompletedRequest.Identity = a3,
      RespondDecisionTaskCompletedRequest.StickyAttributes = a4,
      RespondDecisionTaskCompletedRequest.ReturnNewDecisionTask = a5,
      RespondDecisionTaskCompletedRequest.ForceCreateNewDecisionTask = a6,
      RespondDecisionTaskCompletedRequest.BinaryChecksum = a7,
      RespondDecisionTaskCompletedRequest.QueryResults = a8\<rparr> | Some y \<Rightarrow> Inr
      \<lparr>RespondDecisionTaskCompletedRequest.TaskToken = b0 y,
      RespondDecisionTaskCompletedRequest.Decisions = b1 y,
      RespondDecisionTaskCompletedRequest.ExecutionContext = b2 y,
      RespondDecisionTaskCompletedRequest.Identity = b3 y,
      RespondDecisionTaskCompletedRequest.StickyAttributes = b4 y,
      RespondDecisionTaskCompletedRequest.ReturnNewDecisionTask = b5 y,
      RespondDecisionTaskCompletedRequest.ForceCreateNewDecisionTask = b6 y,
      RespondDecisionTaskCompletedRequest.BinaryChecksum = b7 y,
      RespondDecisionTaskCompletedRequest.QueryResults = b8 y\<rparr>) =
   Inr \<lparr>RespondDecisionTaskCompletedRequest.TaskToken = (case x of None \<Rightarrow> a0 | Some y \<Rightarrow> b0 y),
       RespondDecisionTaskCompletedRequest.Decisions = (case x of None \<Rightarrow> a1 | Some y \<Rightarrow> b1 y),
       RespondDecisionTaskCompletedRequest.ExecutionContext = (case x of None \<Rightarrow> a2 | Some y \<Rightarrow> b2 y),
       RespondDecisionTaskCompletedRequest.Identity = (case x of None \<Rightarrow> a3 | Some y \<Rightarrow> b3 y),
       RespondDecisionTaskCompletedRequest.StickyAttributes = (case x of None \<Rightarrow> a4 | Some y \<Rightarrow> b4 y),
       RespondDecisionTaskCompletedRequest.ReturnNewDecisionTask = (case x of None \<Rightarrow> a5 | Some y \<Rightarrow>
       b5 y), RespondDecisionTaskCompletedRequest.ForceCreateNewDecisionTask = (case x of None \<Rightarrow> a6
       | Some y \<Rightarrow> b6 y), RespondDecisionTaskCompletedRequest.BinaryChecksum = (case x of None \<Rightarrow> a7 |
       Some y \<Rightarrow> b7 y), RespondDecisionTaskCompletedRequest.QueryResults = (case x of None \<Rightarrow> a8 |
       Some y \<Rightarrow> b8 y)\<rparr>"
  by (cases x) simp_all

interpretation RespondDecisionTaskCompletedRequest: thrift_message W
  "RespondDecisionTaskCompletedRequest_ToWire W" "RespondDecisionTaskCompletedRequest_FromWire W"
      RespondDecisionTaskCompletedRequest_zero "RespondDecisionTaskCompletedRequest_complete" for W
proof (rule thrift_messageI)
  fix x :: RespondDecisionTaskCompletedRequest
  assume laws: "wire_laws W"
  obtain enc0 where e0: "StickyExecutionAttributes_ToWire W = (\<lambda>x. Inr (enc0 x))"
      "\<And>x. wire_api.Type W (enc0 x) = TStruct"
      "\<And>x. Writable W (enc0 x) \<longleftrightarrow> (\<lambda>_. True) x"
      "\<And>x. (\<lambda>_. True) x \<Longrightarrow> StickyExecutionAttributes_FromWire W (enc0 x)
          StickyExecutionAttributes_zero = Inr x"
    by (rule StickyExecutionAttributes.encoder [OF laws]) (rule that)
  show "\<exists>w. RespondDecisionTaskCompletedRequest_ToWire W x = Inr w \<and> wire_api.Type W w = TStruct \<and>
      (Writable W w \<longleftrightarrow> RespondDecisionTaskCompletedRequest_complete x) \<and>
          (RespondDecisionTaskCompletedRequest_complete x \<longrightarrow>
          RespondDecisionTaskCompletedRequest_FromWire W w RespondDecisionTaskCompletedRequest_zero
          = Inr x)"
    by (cases x) (simp cong: option.case_cong add: codec_rules
        RespondDecisionTaskCompletedRequest_merge RespondDecisionTaskCompletedRequest_ToWire_def
        RespondDecisionTaskCompletedRequest_FromWire_def
        RespondDecisionTaskCompletedRequest_zero_def
        RespondDecisionTaskCompletedRequest_complete_def if_set_def
        StickyExecutionAttributes_Read_def List_Decision_codec [OF laws]
        List_WorkflowQueryResult_codec [OF laws] laws e0)
qed

definition RespondDecisionTaskCompletedRequest_Equals ::
  "RespondDecisionTaskCompletedRequest option \<Rightarrow> RespondDecisionTaskCompletedRequest option \<Rightarrow> bool"
      where
  "RespondDecisionTaskCompletedRequest_Equals v rhs =
     (case v of None \<Rightarrow> rhs = None
      | Some v \<Rightarrow> (case rhs of None \<Rightarrow> False
        | Some rhs \<Rightarrow>
          if \<not> both_set_and (=) (RespondDecisionTaskCompletedRequest.TaskToken v)
              (RespondDecisionTaskCompletedRequest.TaskToken rhs) then False else
          if \<not> both_set_and List_Decision_Equals (RespondDecisionTaskCompletedRequest.Decisions v)
              (RespondDecisionTaskCompletedRequest.Decisions rhs) then False else
          if \<not> both_set_and (=) (RespondDecisionTaskCompletedRequest.ExecutionContext v)
              (RespondDecisionTaskCompletedRequest.ExecutionContext rhs) then False else
          if \<not> String_EqualsPtr (RespondDecisionTaskCompletedRequest.Identity v)
              (RespondDecisionTaskCompletedRequest.Identity rhs) then False else
          if \<not> both_set_and (\<lambda>x y. StickyExecutionAttributes_Equals (Some x) (Some y))
              (RespondDecisionTaskCompletedRequest.StickyAttributes v)
              (RespondDecisionTaskCompletedRequest.StickyAttributes rhs) then False else
          if \<not> Bool_EqualsPtr (RespondDecisionTaskCompletedRequest.ReturnNewDecisionTask v)
              (RespondDecisionTaskCompletedRequest.ReturnNewDecisionTask rhs) then False else
          if \<not> Bool_EqualsPtr (RespondDecisionTaskCompletedRequest.ForceCreateNewDecisionTask v)
              (RespondDecisionTaskCompletedRequest.ForceCreateNewDecisionTask rhs) then False else
          if \<not> String_EqualsPtr (RespondDecisionTaskCompletedRequest.BinaryChecksum v)
              (RespondDecisionTaskCompletedRequest.BinaryChecksum rhs) then False else
          if \<not> both_set_and List_WorkflowQueryResult_Equals
              (RespondDecisionTaskCompletedRequest.QueryResults v)
              (RespondDecisionTaskCompletedRequest.QueryResults rhs) then False else
          True))"

definition RespondDecisionTaskCompletedRequest_comparable :: "RespondDecisionTaskCompletedRequest \<Rightarrow>
    bool" where
  "RespondDecisionTaskCompletedRequest_comparable v \<longleftrightarrow>
     if_set (list_all (if_set Decision_comparable)) (RespondDecisionTaskCompletedRequest.Decisions
         v)"

lemma RespondDecisionTaskCompletedRequest_Equals_iff:
  "if_set RespondDecisionTaskCompletedRequest_comparable x \<Longrightarrow> if_set
      RespondDecisionTaskCompletedRequest_comparable y \<Longrightarrow> RespondDecisionTaskCompletedRequest_Equals
      x y \<longleftrightarrow> x = y"
  by (cases x; cases y) (simp_all add: RespondDecisionTaskCompletedRequest_Equals_def
      RespondDecisionTaskCompletedRequest_comparable_def if_not_False,
    fastforce intro: RespondDecisionTaskCompletedRequest.equality)

lemma RespondDecisionTaskCompletedRequest_fields_equal [simp]:
  "if_set RespondDecisionTaskCompletedRequest_comparable x \<Longrightarrow> if_set
      RespondDecisionTaskCompletedRequest_comparable y \<Longrightarrow>
    both_set_and (\<lambda>x y. RespondDecisionTaskCompletedRequest_Equals (Some x) (Some y)) x y \<longleftrightarrow> x = y"
  by (rule both_set_and_iff [where P = RespondDecisionTaskCompletedRequest_comparable]) (simp_all
      add: RespondDecisionTaskCompletedRequest_Equals_iff)

record RespondDecisionTaskCompletedResponse =
  DecisionTask :: "PollForDecisionTaskResponse option"

definition RespondDecisionTaskCompletedResponse_zero :: RespondDecisionTaskCompletedResponse where
  "RespondDecisionTaskCompletedResponse_zero = \<lparr>RespondDecisionTaskCompletedResponse.DecisionTask =
      None\<rparr>"

definition RespondDecisionTaskCompletedResponse_ToWire ::
  "'v wire_api \<Rightarrow> RespondDecisionTaskCompletedResponse \<Rightarrow> go_error + 'v" where
  "RespondDecisionTaskCompletedResponse_ToWire W v =
     and_then (put_opt 10 (PollForDecisionTaskResponse_ToWire W)
         (RespondDecisionTaskCompletedResponse.DecisionTask v) [])
       (\<lambda>fields.
     Inr (NewValueStruct W fields))"

definition RespondDecisionTaskCompletedResponse_FromWire ::
  "'v wire_api \<Rightarrow> 'v \<Rightarrow> RespondDecisionTaskCompletedResponse \<Rightarrow> go_error +
      RespondDecisionTaskCompletedResponse" where
  "RespondDecisionTaskCompletedResponse_FromWire W w v =
     foldM (\<lambda>v (fid, fval).
       if fid = 10 then
         if wire_api.Type W fval = TStruct
         then and_then (PollForDecisionTaskResponse_Read W fval) (\<lambda>x. Inr
             (v\<lparr>RespondDecisionTaskCompletedResponse.DecisionTask := Some x\<rparr>))
         else Inr v
       else Inr v) (GetStruct W w) v"

definition RespondDecisionTaskCompletedResponse_Read :: "'v wire_api \<Rightarrow> 'v \<Rightarrow> go_error +
    RespondDecisionTaskCompletedResponse" where
  "RespondDecisionTaskCompletedResponse_Read W w = RespondDecisionTaskCompletedResponse_FromWire W w
      RespondDecisionTaskCompletedResponse_zero"

definition RespondDecisionTaskCompletedResponse_complete :: "RespondDecisionTaskCompletedResponse \<Rightarrow>
    bool" where
  "RespondDecisionTaskCompletedResponse_complete v \<longleftrightarrow>
     if_set PollForDecisionTaskResponse_complete (RespondDecisionTaskCompletedResponse.DecisionTask
         v)"

lemma RespondDecisionTaskCompletedResponse_merge:
  "(case x of None \<Rightarrow> Inr \<lparr>RespondDecisionTaskCompletedResponse.DecisionTask = a0\<rparr> | Some y \<Rightarrow> Inr
      \<lparr>RespondDecisionTaskCompletedResponse.DecisionTask = b0 y\<rparr>) =
   Inr \<lparr>RespondDecisionTaskCompletedResponse.DecisionTask = (case x of None \<Rightarrow> a0 | Some y \<Rightarrow> b0 y)\<rparr>"
  by (cases x) simp_all

interpretation RespondDecisionTaskCompletedResponse: thrift_message W
  "RespondDecisionTaskCompletedResponse_ToWire W" "RespondDecisionTaskCompletedResponse_FromWire W"
      RespondDecisionTaskCompletedResponse_zero "RespondDecisionTaskCompletedResponse_complete" for
      W
proof (rule thrift_messageI)
  fix x :: RespondDecisionTaskCompletedResponse
  assume laws: "wire_laws W"
  obtain enc0 where e0: "PollForDecisionTaskResponse_ToWire W = (\<lambda>x. Inr (enc0 x))"
      "\<And>x. wire_api.Type W (enc0 x) = TStruct"
      "\<And>x. Writable W (enc0 x) \<longleftrightarrow> PollForDecisionTaskResponse_complete x"
      "\<And>x. PollForDecisionTaskResponse_complete x \<Longrightarrow> PollForDecisionTaskResponse_FromWire W (enc0 x)
          PollForDecisionTaskResponse_zero = Inr x"
    by (rule PollForDecisionTaskResponse.encoder [OF laws]) (rule that)
  show "\<exists>w. RespondDecisionTaskCompletedResponse_ToWire W x = Inr w \<and> wire_api.Type W w = TStruct \<and>
      (Writable W w \<longleftrightarrow> RespondDecisionTaskCompletedResponse_complete x) \<and>
          (RespondDecisionTaskCompletedResponse_complete x \<longrightarrow>
          RespondDecisionTaskCompletedResponse_FromWire W w
          RespondDecisionTaskCompletedResponse_zero = Inr x)"
    by (cases x) (simp cong: option.case_cong add: codec_rules
        RespondDecisionTaskCompletedResponse_merge RespondDecisionTaskCompletedResponse_ToWire_def
        RespondDecisionTaskCompletedResponse_FromWire_def
        RespondDecisionTaskCompletedResponse_zero_def
        RespondDecisionTaskCompletedResponse_complete_def if_set_def
        PollForDecisionTaskResponse_Read_def laws e0)
qed

definition RespondDecisionTaskCompletedResponse_Equals ::
  "RespondDecisionTaskCompletedResponse option \<Rightarrow> RespondDecisionTaskCompletedResponse option \<Rightarrow> bool"
      where
  "RespondDecisionTaskCompletedResponse_Equals v rhs =
     (case v of None \<Rightarrow> rhs = None
      | Some v \<Rightarrow> (case rhs of None \<Rightarrow> False
        | Some rhs \<Rightarrow>
          if \<not> both_set_and (\<lambda>x y. PollForDecisionTaskResponse_Equals (Some x) (Some y))
              (RespondDecisionTaskCompletedResponse.DecisionTask v)
              (RespondDecisionTaskCompletedResponse.DecisionTask rhs) then False else
          True))"

definition RespondDecisionTaskCompletedResponse_comparable :: "RespondDecisionTaskCompletedResponse
    \<Rightarrow> bool" where
  "RespondDecisionTaskCompletedResponse_comparable v \<longleftrightarrow>
     if_set PollForDecisionTaskResponse_comparable
         (RespondDecisionTaskCompletedResponse.DecisionTask v)"

lemma RespondDecisionTaskCompletedResponse_Equals_iff:
  "if_set RespondDecisionTaskCompletedResponse_comparable x \<Longrightarrow> if_set
      RespondDecisionTaskCompletedResponse_comparable y \<Longrightarrow>
      RespondDecisionTaskCompletedResponse_Equals x y \<longleftrightarrow> x = y"
  by (cases x; cases y) (simp_all add: RespondDecisionTaskCompletedResponse_Equals_def
      RespondDecisionTaskCompletedResponse_comparable_def if_not_False,
    fastforce intro: RespondDecisionTaskCompletedResponse.equality)

lemma RespondDecisionTaskCompletedResponse_fields_equal [simp]:
  "if_set RespondDecisionTaskCompletedResponse_comparable x \<Longrightarrow> if_set
      RespondDecisionTaskCompletedResponse_comparable y \<Longrightarrow>
    both_set_and (\<lambda>x y. RespondDecisionTaskCompletedResponse_Equals (Some x) (Some y)) x y \<longleftrightarrow> x = y"
  by (rule both_set_and_iff [where P = RespondDecisionTaskCompletedResponse_comparable]) (simp_all
      add: RespondDecisionTaskCompletedResponse_Equals_iff)

record RespondDecisionTaskFailedRequest =
  TaskToken :: "bytes option"
  Cause :: "DecisionTaskFailedCause option"
  Details :: "bytes option"
  Identity :: "string option"

definition RespondDecisionTaskFailedRequest_zero :: RespondDecisionTaskFailedRequest where
  "RespondDecisionTaskFailedRequest_zero = \<lparr>RespondDecisionTaskFailedRequest.TaskToken = None,
      RespondDecisionTaskFailedRequest.Cause = None, RespondDecisionTaskFailedRequest.Details =
      None, RespondDecisionTaskFailedRequest.Identity = None\<rparr>"

definition RespondDecisionTaskFailedRequest_ToWire ::
  "'v wire_api \<Rightarrow> RespondDecisionTaskFailedRequest \<Rightarrow> go_error + 'v" where
  "RespondDecisionTaskFailedRequest_ToWire W v =
     and_then (put_opt 10 (\<lambda>x. Inr (NewValueBinary W x)) (RespondDecisionTaskFailedRequest.TaskToken
         v) [])
       (\<lambda>fields.
     and_then (put_opt 20 (DecisionTaskFailedCause_ToWire W) (RespondDecisionTaskFailedRequest.Cause
         v) fields)
       (\<lambda>fields.
     and_then (put_opt 30 (\<lambda>x. Inr (NewValueBinary W x)) (RespondDecisionTaskFailedRequest.Details
         v) fields)
       (\<lambda>fields.
     and_then (put_opt 40 (\<lambda>x. Inr (NewValueString W x)) (RespondDecisionTaskFailedRequest.Identity
         v) fields)
       (\<lambda>fields.
     Inr (NewValueStruct W fields)))))"

definition RespondDecisionTaskFailedRequest_FromWire ::
  "'v wire_api \<Rightarrow> 'v \<Rightarrow> RespondDecisionTaskFailedRequest \<Rightarrow> go_error +
      RespondDecisionTaskFailedRequest" where
  "RespondDecisionTaskFailedRequest_FromWire W w v =
     foldM (\<lambda>v (fid, fval).
       if fid = 10 then
         if wire_api.Type W fval = TBinary
         then Inr (v\<lparr>RespondDecisionTaskFailedRequest.TaskToken := Some (GetBinary W fval)\<rparr>)
         else Inr v
       else if fid = 20 then
         if wire_api.Type W fval = TI32
         then and_then (DecisionTaskFailedCause_Read W fval) (\<lambda>x. Inr
             (v\<lparr>RespondDecisionTaskFailedRequest.Cause := Some x\<rparr>))
         else Inr v
       else if fid = 30 then
         if wire_api.Type W fval = TBinary
         then Inr (v\<lparr>RespondDecisionTaskFailedRequest.Details := Some (GetBinary W fval)\<rparr>)
         else Inr v
       else if fid = 40 then
         if wire_api.Type W fval = TBinary
         then Inr (v\<lparr>RespondDecisionTaskFailedRequest.Identity := Some (GetString W fval)\<rparr>)
         else Inr v
       else Inr v) (GetStruct W w) v"

definition RespondDecisionTaskFailedRequest_Read :: "'v wire_api \<Rightarrow> 'v \<Rightarrow> go_error +
    RespondDecisionTaskFailedRequest" where
  "RespondDecisionTaskFailedRequest_Read W w = RespondDecisionTaskFailedRequest_FromWire W w
      RespondDecisionTaskFailedRequest_zero"

lemma RespondDecisionTaskFailedRequest_merge:
  "(case x of None \<Rightarrow> Inr \<lparr>RespondDecisionTaskFailedRequest.TaskToken = a0,
      RespondDecisionTaskFailedRequest.Cause = a1, RespondDecisionTaskFailedRequest.Details = a2,
      RespondDecisionTaskFailedRequest.Identity = a3\<rparr> | Some y \<Rightarrow> Inr
      \<lparr>RespondDecisionTaskFailedRequest.TaskToken = b0 y, RespondDecisionTaskFailedRequest.Cause =
      b1 y, RespondDecisionTaskFailedRequest.Details = b2 y,
      RespondDecisionTaskFailedRequest.Identity = b3 y\<rparr>) =
   Inr \<lparr>RespondDecisionTaskFailedRequest.TaskToken = (case x of None \<Rightarrow> a0 | Some y \<Rightarrow> b0 y),
       RespondDecisionTaskFailedRequest.Cause = (case x of None \<Rightarrow> a1 | Some y \<Rightarrow> b1 y),
       RespondDecisionTaskFailedRequest.Details = (case x of None \<Rightarrow> a2 | Some y \<Rightarrow> b2 y),
       RespondDecisionTaskFailedRequest.Identity = (case x of None \<Rightarrow> a3 | Some y \<Rightarrow> b3 y)\<rparr>"
  by (cases x) simp_all

interpretation RespondDecisionTaskFailedRequest: thrift_message W
  "RespondDecisionTaskFailedRequest_ToWire W" "RespondDecisionTaskFailedRequest_FromWire W"
      RespondDecisionTaskFailedRequest_zero "\<lambda>_. True" for W
proof (rule thrift_messageI)
  fix x :: RespondDecisionTaskFailedRequest
  assume laws: "wire_laws W"
  show "\<exists>w. RespondDecisionTaskFailedRequest_ToWire W x = Inr w \<and> wire_api.Type W w = TStruct \<and>
      (Writable W w \<longleftrightarrow> (\<lambda>_. True) x) \<and> ((\<lambda>_. True) x \<longrightarrow> RespondDecisionTaskFailedRequest_FromWire W w
          RespondDecisionTaskFailedRequest_zero = Inr x)"
    by (cases x) (simp cong: option.case_cong add: codec_rules
        RespondDecisionTaskFailedRequest_merge RespondDecisionTaskFailedRequest_ToWire_def
        RespondDecisionTaskFailedRequest_FromWire_def RespondDecisionTaskFailedRequest_zero_def
        DecisionTaskFailedCause_enc DecisionTaskFailedCause_Read_def
        DecisionTaskFailedCause_FromWire_def laws)
qed

definition RespondDecisionTaskFailedRequest_Equals ::
  "RespondDecisionTaskFailedRequest option \<Rightarrow> RespondDecisionTaskFailedRequest option \<Rightarrow> bool" where
  "RespondDecisionTaskFailedRequest_Equals v rhs =
     (case v of None \<Rightarrow> rhs = None
      | Some v \<Rightarrow> (case rhs of None \<Rightarrow> False
        | Some rhs \<Rightarrow>
          if \<not> both_set_and (=) (RespondDecisionTaskFailedRequest.TaskToken v)
              (RespondDecisionTaskFailedRequest.TaskToken rhs) then False else
          if \<not> DecisionTaskFailedCause_EqualsPtr (RespondDecisionTaskFailedRequest.Cause v)
              (RespondDecisionTaskFailedRequest.Cause rhs) then False else
          if \<not> both_set_and (=) (RespondDecisionTaskFailedRequest.Details v)
              (RespondDecisionTaskFailedRequest.Details rhs) then False else
          if \<not> String_EqualsPtr (RespondDecisionTaskFailedRequest.Identity v)
              (RespondDecisionTaskFailedRequest.Identity rhs) then False else
          True))"

lemma RespondDecisionTaskFailedRequest_Equals_iff [simp]: "RespondDecisionTaskFailedRequest_Equals x
    y \<longleftrightarrow> x = y"
  by (cases x; cases y) (auto simp: RespondDecisionTaskFailedRequest_Equals_def)

record RespondQueryTaskCompletedRequest =
  TaskToken :: "bytes option"
  CompletedType :: "QueryTaskCompletedType option"
  QueryResult :: "bytes option"
  ErrorMessage :: "string option"

definition RespondQueryTaskCompletedRequest_zero :: RespondQueryTaskCompletedRequest where
  "RespondQueryTaskCompletedRequest_zero = \<lparr>RespondQueryTaskCompletedRequest.TaskToken = None,
      RespondQueryTaskCompletedRequest.CompletedType = None,
      RespondQueryTaskCompletedRequest.QueryResult = None,
      RespondQueryTaskCompletedRequest.ErrorMessage = None\<rparr>"

definition RespondQueryTaskCompletedRequest_ToWire ::
  "'v wire_api \<Rightarrow> RespondQueryTaskCompletedRequest \<Rightarrow> go_error + 'v" where
  "RespondQueryTaskCompletedRequest_ToWire W v =
     and_then (put_opt 10 (\<lambda>x. Inr (NewValueBinary W x)) (RespondQueryTaskCompletedRequest.TaskToken
         v) [])
       (\<lambda>fields.
     and_then (put_opt 20 (QueryTaskCompletedType_ToWire W)
         (RespondQueryTaskCompletedRequest.CompletedType v) fields)
       (\<lambda>fields.
     and_then (put_opt 30 (\<lambda>x. Inr (NewValueBinary W x))
         (RespondQueryTaskCompletedRequest.QueryResult v) fields)
       (\<lambda>fields.
     and_then (put_opt 40 (\<lambda>x. Inr (NewValueString W x))
         (RespondQueryTaskCompletedRequest.ErrorMessage v) fields)
       (\<lambda>fields.
     Inr (NewValueStruct W fields)))))"

definition RespondQueryTaskCompletedRequest_FromWire ::
  "'v wire_api \<Rightarrow> 'v \<Rightarrow> RespondQueryTaskCompletedRequest \<Rightarrow> go_error +
      RespondQueryTaskCompletedRequest" where
  "RespondQueryTaskCompletedRequest_FromWire W w v =
     foldM (\<lambda>v (fid, fval).
       if fid = 10 then
         if wire_api.Type W fval = TBinary
         then Inr (v\<lparr>RespondQueryTaskCompletedRequest.TaskToken := Some (GetBinary W fval)\<rparr>)
         else Inr v
       else if fid = 20 then
         if wire_api.Type W fval = TI32
         then and_then (QueryTaskCompletedType_Read W fval) (\<lambda>x. Inr
             (v\<lparr>RespondQueryTaskCompletedRequest.CompletedType := Some x\<rparr>))
         else Inr v
       else if fid = 30 then
         if wire_api.Type W fval = TBinary
         then Inr (v\<lparr>RespondQueryTaskCompletedRequest.QueryResult := Some (GetBinary W fval)\<rparr>)
         else Inr v
       else if fid = 40 then
         if wire_api.Type W fval = TBinary
         then Inr (v\<lparr>RespondQueryTaskCompletedRequest.ErrorMessage := Some (GetString W fval)\<rparr>)
         else Inr v
       else Inr v) (GetStruct W w) v"

definition RespondQueryTaskCompletedRequest_Read :: "'v wire_api \<Rightarrow> 'v \<Rightarrow> go_error +
    RespondQueryTaskCompletedRequest" where
  "RespondQueryTaskCompletedRequest_Read W w = RespondQueryTaskCompletedRequest_FromWire W w
      RespondQueryTaskCompletedRequest_zero"

lemma RespondQueryTaskCompletedRequest_merge:
  "(case x of None \<Rightarrow> Inr \<lparr>RespondQueryTaskCompletedRequest.TaskToken = a0,
      RespondQueryTaskCompletedRequest.CompletedType = a1,
      RespondQueryTaskCompletedRequest.QueryResult = a2,
      RespondQueryTaskCompletedRequest.ErrorMessage = a3\<rparr> | Some y \<Rightarrow> Inr
      \<lparr>RespondQueryTaskCompletedRequest.TaskToken = b0 y,
      RespondQueryTaskCompletedRequest.CompletedType = b1 y,
      RespondQueryTaskCompletedRequest.QueryResult = b2 y,
      RespondQueryTaskCompletedRequest.ErrorMessage = b3 y\<rparr>) =
   Inr \<lparr>RespondQueryTaskCompletedRequest.TaskToken = (case x of None \<Rightarrow> a0 | Some y \<Rightarrow> b0 y),
       RespondQueryTaskCompletedRequest.CompletedType = (case x of None \<Rightarrow> a1 | Some y \<Rightarrow> b1 y),
       RespondQueryTaskCompletedRequest.QueryResult = (case x of None \<Rightarrow> a2 | Some y \<Rightarrow> b2 y),
       RespondQueryTaskCompletedRequest.ErrorMessage = (case x of None \<Rightarrow> a3 | Some y \<Rightarrow> b3 y)\<rparr>"
  by (cases x) simp_all

interpretation RespondQueryTaskCompletedRequest: thrift_message W
  "RespondQueryTaskCompletedRequest_ToWire W" "RespondQueryTaskCompletedRequest_FromWire W"
      RespondQueryTaskCompletedRequest_zero "\<lambda>_. True" for W
proof (rule thrift_messageI)
  fix x :: RespondQueryTaskCompletedRequest
  assume laws: "wire_laws W"
  show "\<exists>w. RespondQueryTaskCompletedRequest_ToWire W x = Inr w \<and> wire_api.Type W w = TStruct \<and>
      (Writable W w \<longleftrightarrow> (\<lambda>_. True) x) \<and> ((\<lambda>_. True) x \<longrightarrow> RespondQueryTaskCompletedRequest_FromWire W w
          RespondQueryTaskCompletedRequest_zero = Inr x)"
    by (cases x) (simp cong: option.case_cong add: codec_rules
        RespondQueryTaskCompletedRequest_merge RespondQueryTaskCompletedRequest_ToWire_def
        RespondQueryTaskCompletedRequest_FromWire_def RespondQueryTaskCompletedRequest_zero_def
        QueryTaskCompletedType_enc QueryTaskCompletedType_Read_def
        QueryTaskCompletedType_FromWire_def laws)
qed

definition RespondQueryTaskCompletedRequest_Equals ::
  "RespondQueryTaskCompletedRequest option \<Rightarrow> RespondQueryTaskCompletedRequest option \<Rightarrow> bool" where
  "RespondQueryTaskCompletedRequest_Equals v rhs =
     (case v of None \<Rightarrow> rhs = None
      | Some v \<Rightarrow> (case rhs of None \<Rightarrow> False
        | Some rhs \<Rightarrow>
          if \<not> both_set_and (=) (RespondQueryTaskCompletedRequest.TaskToken v)
              (RespondQueryTaskCompletedRequest.TaskToken rhs) then False else
          if \<not> QueryTaskCompletedType_EqualsPtr (RespondQueryTaskCompletedRequest.CompletedType v)
              (RespondQueryTaskCompletedRequest.CompletedType rhs) then False else
          if \<not> both_set_and (=) (RespondQueryTaskCompletedRequest.QueryResult v)
              (RespondQueryTaskCompletedRequest.QueryResult rhs) then False else
          if \<not> String_EqualsPtr (RespondQueryTaskCompletedRequest.ErrorMessage v)
              (RespondQueryTaskCompletedRequest.ErrorMessage rhs) then False else
          True))"

lemma RespondQueryTaskCompletedRequest_Equals_iff [simp]: "RespondQueryTaskCompletedRequest_Equals x
    y \<longleftrightarrow> x = y"
  by (cases x; cases y) (auto simp: RespondQueryTaskCompletedRequest_Equals_def)

record SignalWithStartWorkflowExecutionRequest =
  Domain :: "string option"
  WorkflowId :: "string option"
  WorkflowType :: "WorkflowType option"
  TaskList :: "TaskList option"
  Input :: "bytes option"
  ExecutionStartToCloseTimeoutSeconds :: "32 word option"
  TaskStartToCloseTimeoutSeconds :: "32 word option"
  Identity :: "string option"
  RequestId :: "string option"
  WorkflowIdReusePolicy :: "WorkflowIdReusePolicy option"
  SignalName :: "string option"
  SignalInput :: "bytes option"
  Control :: "bytes option"
  RetryPolicy :: "RetryPolicy option"
  CronSchedule :: "string option"
  Memo :: "Memo option"
  SearchAttributes :: "SearchAttributes option"
  Header :: "Header option"

definition SignalWithStartWorkflowExecutionRequest_zero :: SignalWithStartWorkflowExecutionRequest
    where
  "SignalWithStartWorkflowExecutionRequest_zero = \<lparr>SignalWithStartWorkflowExecutionRequest.Domain =
      None, SignalWithStartWorkflowExecutionRequest.WorkflowId = None,
      SignalWithStartWorkflowExecutionRequest.WorkflowType = None,
      SignalWithStartWorkflowExecutionRequest.TaskList = None,
      SignalWithStartWorkflowExecutionRequest.Input = None,
      SignalWithStartWorkflowExecutionRequest.ExecutionStartToCloseTimeoutSeconds = None,
      SignalWithStartWorkflowExecutionRequest.TaskStartToCloseTimeoutSeconds = None,
      SignalWithStartWorkflowExecutionRequest.Identity = None,
      SignalWithStartWorkflowExecutionRequest.RequestId = None,
      SignalWithStartWorkflowExecutionRequest.WorkflowIdReusePolicy = None,
      SignalWithStartWorkflowExecutionRequest.SignalName = None,
      SignalWithStartWorkflowExecutionRequest.SignalInput = None,
      SignalWithStartWorkflowExecutionRequest.Control = None,
      SignalWithStartWorkflowExecutionRequest.RetryPolicy = None,
      SignalWithStartWorkflowExecutionRequest.CronSchedule = None,
      SignalWithStartWorkflowExecutionRequest.Memo = None,
      SignalWithStartWorkflowExecutionRequest.SearchAttributes = None,
      SignalWithStartWorkflowExecutionRequest.Header = None\<rparr>"

definition SignalWithStartWorkflowExecutionRequest_ToWire ::
  "'v wire_api \<Rightarrow> SignalWithStartWorkflowExecutionRequest \<Rightarrow> go_error + 'v" where
  "SignalWithStartWorkflowExecutionRequest_ToWire W v =
     and_then (put_opt 10 (\<lambda>x. Inr (NewValueString W x))
         (SignalWithStartWorkflowExecutionRequest.Domain v) [])
       (\<lambda>fields.
     and_then (put_opt 20 (\<lambda>x. Inr (NewValueString W x))
         (SignalWithStartWorkflowExecutionRequest.WorkflowId v) fields)
       (\<lambda>fields.
     and_then (put_opt 30 (WorkflowType_ToWire W)
         (SignalWithStartWorkflowExecutionRequest.WorkflowType v) fields)
       (\<lambda>fields.
     and_then (put_opt 40 (TaskList_ToWire W) (SignalWithStartWorkflowExecutionRequest.TaskList v)
         fields)
       (\<lambda>fields.
     and_then (put_opt 50 (\<lambda>x. Inr (NewValueBinary W x))
         (SignalWithStartWorkflowExecutionRequest.Input v) fields)
       (\<lambda>fields.
     and_then (put_opt 60 (\<lambda>x. Inr (NewValueI32 W x))
         (SignalWithStartWorkflowExecutionRequest.ExecutionStartToCloseTimeoutSeconds v) fields)
       (\<lambda>fields.
     and_then (put_opt 70 (\<lambda>x. Inr (NewValueI32 W x))
         (SignalWithStartWorkflowExecutionRequest.TaskStartToCloseTimeoutSeconds v) fields)
       (\<lambda>fields.
     and_then (put_opt 80 (\<lambda>x. Inr (NewValueString W x))
         (SignalWithStartWorkflowExecutionRequest.Identity v) fields)
       (\<lambda>fields.
     and_then (put_opt 90 (\<lambda>x. Inr (NewValueString W x))
         (SignalWithStartWorkflowExecutionRequest.RequestId v) fields)
       (\<lambda>fields.
     and_then (put_opt 100 (WorkflowIdReusePolicy_ToWire W)
         (SignalWithStartWorkflowExecutionRequest.WorkflowIdReusePolicy v) fields)
       (\<lambda>fields.
     and_then (put_opt 110 (\<lambda>x. Inr (NewValueString W x))
         (SignalWithStartWorkflowExecutionRequest.SignalName v) fields)
       (\<lambda>fields.
     and_then (put_opt 120 (\<lambda>x. Inr (NewValueBinary W x))
         (SignalWithStartWorkflowExecutionRequest.SignalInput v) fields)
       (\<lambda>fields.
     and_then (put_opt 130 (\<lambda>x. Inr (NewValueBinary W x))
         (SignalWithStartWorkflowExecutionRequest.Control v) fields)
       (\<lambda>fields.
     and_then (put_opt 140 (RetryPolicy_ToWire W)
         (SignalWithStartWorkflowExecutionRequest.RetryPolicy v) fields)
       (\<lambda>fields.
     and_then (put_opt 150 (\<lambda>x. Inr (NewValueString W x))
         (SignalWithStartWorkflowExecutionRequest.CronSchedule v) fields)
       (\<lambda>fields.
     and_then (put_opt 160 (Memo_ToWire W) (SignalWithStartWorkflowExecutionRequest.Memo v) fields)
       (\<lambda>fields.
     and_then (put_opt 161 (SearchAttributes_ToWire W)
         (SignalWithStartWorkflowExecutionRequest.SearchAttributes v) fields)
       (\<lambda>fields.
     and_then (put_opt 170 (Header_ToWire W) (SignalWithStartWorkflowExecutionRequest.Header v)
         fields)
       (\<lambda>fields.
     Inr (NewValueStruct W fields)))))))))))))))))))"

definition SignalWithStartWorkflowExecutionRequest_FromWire ::
  "'v wire_api \<Rightarrow> 'v \<Rightarrow> SignalWithStartWorkflowExecutionRequest \<Rightarrow> go_error +
      SignalWithStartWorkflowExecutionRequest" where
  "SignalWithStartWorkflowExecutionRequest_FromWire W w v =
     foldM (\<lambda>v (fid, fval).
       if fid = 10 then
         if wire_api.Type W fval = TBinary
         then Inr (v\<lparr>SignalWithStartWorkflowExecutionRequest.Domain := Some (GetString W fval)\<rparr>)
         else Inr v
       else if fid = 20 then
         if wire_api.Type W fval = TBinary
         then Inr (v\<lparr>SignalWithStartWorkflowExecutionRequest.WorkflowId := Some (GetString W fval)\<rparr>)
         else Inr v
       else if fid = 30 then
         if wire_api.Type W fval = TStruct
         then and_then (WorkflowType_Read W fval) (\<lambda>x. Inr
             (v\<lparr>SignalWithStartWorkflowExecutionRequest.WorkflowType := Some x\<rparr>))
         else Inr v
       else if fid = 40 then
         if wire_api.Type W fval = TStruct
         then and_then (TaskList_Read W fval) (\<lambda>x. Inr
             (v\<lparr>SignalWithStartWorkflowExecutionRequest.TaskList := Some x\<rparr>))
         else Inr v
       else if fid = 50 then
         if wire_api.Type W fval = TBinary
         then Inr (v\<lparr>SignalWithStartWorkflowExecutionRequest.Input := Some (GetBinary W fval)\<rparr>)
         else Inr v
       else if fid = 60 then
         if wire_api.Type W fval = TI32
         then Inr (v\<lparr>SignalWithStartWorkflowExecutionRequest.ExecutionStartToCloseTimeoutSeconds :=
             Some (GetI32 W fval)\<rparr>)
         else Inr v
       else if fid = 70 then
         if wire_api.Type W fval = TI32
         then Inr (v\<lparr>SignalWithStartWorkflowExecutionRequest.TaskStartToCloseTimeoutSeconds := Some
             (GetI32 W fval)\<rparr>)
         else Inr v
       else if fid = 80 then
         if wire_api.Type W fval = TBinary
         then Inr (v\<lparr>SignalWithStartWorkflowExecutionRequest.Identity := Some (GetString W fval)\<rparr>)
         else Inr v
       else if fid = 90 then
         if wire_api.Type W fval = TBinary
         then Inr (v\<lparr>SignalWithStartWorkflowExecutionRequest.RequestId := Some (GetString W fval)\<rparr>)
         else Inr v
       else if fid = 100 then
         if wire_api.Type W fval = TI32
         then and_then (WorkflowIdReusePolicy_Read W fval) (\<lambda>x. Inr
             (v\<lparr>SignalWithStartWorkflowExecutionRequest.WorkflowIdReusePolicy := Some x\<rparr>))
         else Inr v
       else if fid = 110 then
         if wire_api.Type W fval = TBinary
         then Inr (v\<lparr>SignalWithStartWorkflowExecutionRequest.SignalName := Some (GetString W fval)\<rparr>)
         else Inr v
       else if fid = 120 then
         if wire_api.Type W fval = TBinary
         then Inr (v\<lparr>SignalWithStartWorkflowExecutionRequest.SignalInput := Some (GetBinary W
             fval)\<rparr>)
         else Inr v
       else if fid = 130 then
         if wire_api.Type W fval = TBinary
         then Inr (v\<lparr>SignalWithStartWorkflowExecutionRequest.Control := Some (GetBinary W fval)\<rparr>)
         else Inr v
       else if fid = 140 then
         if wire_api.Type W fval = TStruct
         then and_then (RetryPolicy_Read W fval) (\<lambda>x. Inr
             (v\<lparr>SignalWithStartWorkflowExecutionRequest.RetryPolicy := Some x\<rparr>))
         else Inr v
       else if fid = 150 then
         if wire_api.Type W fval = TBinary
         then Inr (v\<lparr>SignalWithStartWorkflowExecutionRequest.CronSchedule := Some (GetString W
             fval)\<rparr>)
         else Inr v
       else if fid = 160 then
         if wire_api.Type W fval = TStruct
         then and_then (Memo_Read W fval) (\<lambda>x. Inr (v\<lparr>SignalWithStartWorkflowExecutionRequest.Memo
             := Some x\<rparr>))
         else Inr v
       else if fid = 161 then
         if wire_api.Type W fval = TStruct
         then and_then (SearchAttributes_Read W fval) (\<lambda>x. Inr
             (v\<lparr>SignalWithStartWorkflowExecutionRequest.SearchAttributes := Some x\<rparr>))
         else Inr v
       else if fid = 170 then
         if wire_api.Type W fval = TStruct
         then and_then (Header_Read W fval) (\<lambda>x. Inr
             (v\<lparr>SignalWithStartWorkflowExecutionRequest.Header := Some x\<rparr>))
         else Inr v
       else Inr v) (GetStruct W w) v"

definition SignalWithStartWorkflowExecutionRequest_Read :: "'v wire_api \<Rightarrow> 'v \<Rightarrow> go_error +
    SignalWithStartWorkflowExecutionRequest" where
  "SignalWithStartWorkflowExecutionRequest_Read W w =
      SignalWithStartWorkflowExecutionRequest_FromWire W w
      SignalWithStartWorkflowExecutionRequest_zero"

definition SignalWithStartWorkflowExecutionRequest_complete ::
    "SignalWithStartWorkflowExecutionRequest \<Rightarrow> bool" where
  "SignalWithStartWorkflowExecutionRequest_complete v \<longleftrightarrow>
     if_set Memo_complete (SignalWithStartWorkflowExecutionRequest.Memo v) \<and>
     if_set SearchAttributes_complete (SignalWithStartWorkflowExecutionRequest.SearchAttributes v) \<and>
     if_set Header_complete (SignalWithStartWorkflowExecutionRequest.Header v)"

lemma SignalWithStartWorkflowExecutionRequest_merge:
  "(case x of None \<Rightarrow> Inr \<lparr>SignalWithStartWorkflowExecutionRequest.Domain = a0,
      SignalWithStartWorkflowExecutionRequest.WorkflowId = a1,
      SignalWithStartWorkflowExecutionRequest.WorkflowType = a2,
      SignalWithStartWorkflowExecutionRequest.TaskList = a3,
      SignalWithStartWorkflowExecutionRequest.Input = a4,
      SignalWithStartWorkflowExecutionRequest.ExecutionStartToCloseTimeoutSeconds = a5,
      SignalWithStartWorkflowExecutionRequest.TaskStartToCloseTimeoutSeconds = a6,
      SignalWithStartWorkflowExecutionRequest.Identity = a7,
      SignalWithStartWorkflowExecutionRequest.RequestId = a8,
      SignalWithStartWorkflowExecutionRequest.WorkflowIdReusePolicy = a9,
      SignalWithStartWorkflowExecutionRequest.SignalName = a10,
      SignalWithStartWorkflowExecutionRequest.SignalInput = a11,
      SignalWithStartWorkflowExecutionRequest.Control = a12,
      SignalWithStartWorkflowExecutionRequest.RetryPolicy = a13,
      SignalWithStartWorkflowExecutionRequest.CronSchedule = a14,
      SignalWithStartWorkflowExecutionRequest.Memo = a15,
      SignalWithStartWorkflowExecutionRequest.SearchAttributes = a16,
      SignalWithStartWorkflowExecutionRequest.Header = a17\<rparr> | Some y \<Rightarrow> Inr
      \<lparr>SignalWithStartWorkflowExecutionRequest.Domain = b0 y,
      SignalWithStartWorkflowExecutionRequest.WorkflowId = b1 y,
      SignalWithStartWorkflowExecutionRequest.WorkflowType = b2 y,
      SignalWithStartWorkflowExecutionRequest.TaskList = b3 y,
      SignalWithStartWorkflowExecutionRequest.Input = b4 y,
      SignalWithStartWorkflowExecutionRequest.ExecutionStartToCloseTimeoutSeconds = b5 y,
      SignalWithStartWorkflowExecutionRequest.TaskStartToCloseTimeoutSeconds = b6 y,
      SignalWithStartWorkflowExecutionRequest.Identity = b7 y,
      SignalWithStartWorkflowExecutionRequest.RequestId = b8 y,
      SignalWithStartWorkflowExecutionRequest.WorkflowIdReusePolicy = b9 y,
      SignalWithStartWorkflowExecutionRequest.SignalName = b10 y,
      SignalWithStartWorkflowExecutionRequest.SignalInput = b11 y,
      SignalWithStartWorkflowExecutionRequest.Control = b12 y,
      SignalWithStartWorkflowExecutionRequest.RetryPolicy = b13 y,
      SignalWithStartWorkflowExecutionRequest.CronSchedule = b14 y,
      SignalWithStartWorkflowExecutionRequest.Memo = b15 y,
      SignalWithStartWorkflowExecutionRequest.SearchAttributes = b16 y,
      SignalWithStartWorkflowExecutionRequest.Header = b17 y\<rparr>) =
   Inr \<lparr>SignalWithStartWorkflowExecutionRequest.Domain = (case x of None \<Rightarrow> a0 | Some y \<Rightarrow> b0 y),
       SignalWithStartWorkflowExecutionRequest.WorkflowId = (case x of None \<Rightarrow> a1 | Some y \<Rightarrow> b1 y),
       SignalWithStartWorkflowExecutionRequest.WorkflowType = (case x of None \<Rightarrow> a2 | Some y \<Rightarrow> b2 y),
       SignalWithStartWorkflowExecutionRequest.TaskList = (case x of None \<Rightarrow> a3 | Some y \<Rightarrow> b3 y),
       SignalWithStartWorkflowExecutionRequest.Input = (case x of None \<Rightarrow> a4 | Some y \<Rightarrow> b4 y),
       SignalWithStartWorkflowExecutionRequest.ExecutionStartToCloseTimeoutSeconds = (case x of None
       \<Rightarrow> a5 | Some y \<Rightarrow> b5 y), SignalWithStartWorkflowExecutionRequest.TaskStartToCloseTimeoutSeconds
       = (case x of None \<Rightarrow> a6 | Some y \<Rightarrow> b6 y), SignalWithStartWorkflowExecutionRequest.Identity =
       (case x of None \<Rightarrow> a7 | Some y \<Rightarrow> b7 y), SignalWithStartWorkflowExecutionRequest.RequestId =
       (case x of None \<Rightarrow> a8 | Some y \<Rightarrow> b8 y),
       SignalWithStartWorkflowExecutionRequest.WorkflowIdReusePolicy = (case x of None \<Rightarrow> a9 | Some y
       \<Rightarrow> b9 y), SignalWithStartWorkflowExecutionRequest.SignalName = (case x of None \<Rightarrow> a10 | Some y
       \<Rightarrow> b10 y), SignalWithStartWorkflowExecutionRequest.SignalInput = (case x of None \<Rightarrow> a11 | Some
       y \<Rightarrow> b11 y), SignalWithStartWorkflowExecutionRequest.Control = (case x of None \<Rightarrow> a12 | Some y
       \<Rightarrow> b12 y), SignalWithStartWorkflowExecutionRequest.RetryPolicy = (case x of None \<Rightarrow> a13 | Some
       y \<Rightarrow> b13 y), SignalWithStartWorkflowExecutionRequest.CronSchedule = (case x of None \<Rightarrow> a14 |
       Some y \<Rightarrow> b14 y), SignalWithStartWorkflowExecutionRequest.Memo = (case x of None \<Rightarrow> a15 | Some
       y \<Rightarrow> b15 y), SignalWithStartWorkflowExecutionRequest.SearchAttributes = (case x of None \<Rightarrow> a16
       | Some y \<Rightarrow> b16 y), SignalWithStartWorkflowExecutionRequest.Header = (case x of None \<Rightarrow> a17 |
       Some y \<Rightarrow> b17 y)\<rparr>"
  by (cases x) simp_all

interpretation SignalWithStartWorkflowExecutionRequest: thrift_message W
  "SignalWithStartWorkflowExecutionRequest_ToWire W"
      "SignalWithStartWorkflowExecutionRequest_FromWire W"
      SignalWithStartWorkflowExecutionRequest_zero
      "SignalWithStartWorkflowExecutionRequest_complete" for W
proof (rule thrift_messageI)
  fix x :: SignalWithStartWorkflowExecutionRequest
  assume laws: "wire_laws W"
  obtain enc0 where e0: "Header_ToWire W = (\<lambda>x. Inr (enc0 x))"
      "\<And>x. wire_api.Type W (enc0 x) = TStruct"
      "\<And>x. Writable W (enc0 x) \<longleftrightarrow> Header_complete x"
      "\<And>x. Header_complete x \<Longrightarrow> Header_FromWire W (enc0 x) Header_zero = Inr x"
    by (rule Header.encoder [OF laws]) (rule that)
  obtain enc1 where e1: "Memo_ToWire W = (\<lambda>x. Inr (enc1 x))"
      "\<And>x. wire_api.Type W (enc1 x) = TStruct"
      "\<And>x. Writable W (enc1 x) \<longleftrightarrow> Memo_complete x"
      "\<And>x. Memo_complete x \<Longrightarrow> Memo_FromWire W (enc1 x) Memo_zero = Inr x"
    by (rule Memo.encoder [OF laws]) (rule that)
  obtain enc2 where e2: "RetryPolicy_ToWire W = (\<lambda>x. Inr (enc2 x))"
      "\<And>x. wire_api.Type W (enc2 x) = TStruct"
      "\<And>x. Writable W (enc2 x) \<longleftrightarrow> (\<lambda>_. True) x"
      "\<And>x. (\<lambda>_. True) x \<Longrightarrow> RetryPolicy_FromWire W (enc2 x) RetryPolicy_zero = Inr x"
    by (rule RetryPolicy.encoder [OF laws]) (rule that)
  obtain enc3 where e3: "SearchAttributes_ToWire W = (\<lambda>x. Inr (enc3 x))"
      "\<And>x. wire_api.Type W (enc3 x) = TStruct"
      "\<And>x. Writable W (enc3 x) \<longleftrightarrow> SearchAttributes_complete x"
      "\<And>x. SearchAttributes_complete x \<Longrightarrow> SearchAttributes_FromWire W (enc3 x) SearchAttributes_zero
          = Inr x"
    by (rule SearchAttributes.encoder [OF laws]) (rule that)
  obtain enc4 where e4: "TaskList_ToWire W = (\<lambda>x. Inr (enc4 x))"
      "\<And>x. wire_api.Type W (enc4 x) = TStruct"
      "\<And>x. Writable W (enc4 x) \<longleftrightarrow> (\<lambda>_. True) x"
      "\<And>x. (\<lambda>_. True) x \<Longrightarrow> TaskList_FromWire W (enc4 x) TaskList_zero = Inr x"
    by (rule TaskList.encoder [OF laws]) (rule that)
  obtain enc5 where e5: "WorkflowType_ToWire W = (\<lambda>x. Inr (enc5 x))"
      "\<And>x. wire_api.Type W (enc5 x) = TStruct"
      "\<And>x. Writable W (enc5 x) \<longleftrightarrow> (\<lambda>_. True) x"
      "\<And>x. (\<lambda>_. True) x \<Longrightarrow> WorkflowType_FromWire W (enc5 x) WorkflowType_zero = Inr x"
    by (rule WorkflowType.encoder [OF laws]) (rule that)
  show "\<exists>w. SignalWithStartWorkflowExecutionRequest_ToWire W x = Inr w \<and> wire_api.Type W w = TStruct
      \<and>
      (Writable W w \<longleftrightarrow> SignalWithStartWorkflowExecutionRequest_complete x) \<and>
          (SignalWithStartWorkflowExecutionRequest_complete x \<longrightarrow>
          SignalWithStartWorkflowExecutionRequest_FromWire W w
          SignalWithStartWorkflowExecutionRequest_zero = Inr x)"
    by (cases x) (simp cong: option.case_cong add: codec_rules
        SignalWithStartWorkflowExecutionRequest_merge
        SignalWithStartWorkflowExecutionRequest_ToWire_def
        SignalWithStartWorkflowExecutionRequest_FromWire_def
        SignalWithStartWorkflowExecutionRequest_zero_def
        SignalWithStartWorkflowExecutionRequest_complete_def if_set_def WorkflowIdReusePolicy_enc
        WorkflowIdReusePolicy_Read_def WorkflowIdReusePolicy_FromWire_def Header_Read_def
        Memo_Read_def RetryPolicy_Read_def SearchAttributes_Read_def TaskList_Read_def
        WorkflowType_Read_def laws e0 e1 e2 e3 e4 e5)
qed

definition SignalWithStartWorkflowExecutionRequest_Equals ::
  "SignalWithStartWorkflowExecutionRequest option \<Rightarrow> SignalWithStartWorkflowExecutionRequest option \<Rightarrow>
      bool" where
  "SignalWithStartWorkflowExecutionRequest_Equals v rhs =
     (case v of None \<Rightarrow> rhs = None
      | Some v \<Rightarrow> (case rhs of None \<Rightarrow> False
        | Some rhs \<Rightarrow>
          if \<not> String_EqualsPtr (SignalWithStartWorkflowExecutionRequest.Domain v)
              (SignalWithStartWorkflowExecutionRequest.Domain rhs) then False else
          if \<not> String_EqualsPtr (SignalWithStartWorkflowExecutionRequest.WorkflowId v)
              (SignalWithStartWorkflowExecutionRequest.WorkflowId rhs) then False else
          if \<not> both_set_and (\<lambda>x y. WorkflowType_Equals (Some x) (Some y))
              (SignalWithStartWorkflowExecutionRequest.WorkflowType v)
              (SignalWithStartWorkflowExecutionRequest.WorkflowType rhs) then False else
          if \<not> both_set_and (\<lambda>x y. TaskList_Equals (Some x) (Some y))
              (SignalWithStartWorkflowExecutionRequest.TaskList v)
              (SignalWithStartWorkflowExecutionRequest.TaskList rhs) then False else
          if \<not> both_set_and (=) (SignalWithStartWorkflowExecutionRequest.Input v)
              (SignalWithStartWorkflowExecutionRequest.Input rhs) then False else
          if \<not> I32_EqualsPtr
              (SignalWithStartWorkflowExecutionRequest.ExecutionStartToCloseTimeoutSeconds v)
              (SignalWithStartWorkflowExecutionRequest.ExecutionStartToCloseTimeoutSeconds rhs) then
              False else
          if \<not> I32_EqualsPtr (SignalWithStartWorkflowExecutionRequest.TaskStartToCloseTimeoutSeconds
              v) (SignalWithStartWorkflowExecutionRequest.TaskStartToCloseTimeoutSeconds rhs) then
              False else
          if \<not> String_EqualsPtr (SignalWithStartWorkflowExecutionRequest.Identity v)
              (SignalWithStartWorkflowExecutionRequest.Identity rhs) then False else
          if \<not> String_EqualsPtr (SignalWithStartWorkflowExecutionRequest.RequestId v)
              (SignalWithStartWorkflowExecutionRequest.RequestId rhs) then False else
          if \<not> WorkflowIdReusePolicy_EqualsPtr
              (SignalWithStartWorkflowExecutionRequest.WorkflowIdReusePolicy v)
              (SignalWithStartWorkflowExecutionRequest.WorkflowIdReusePolicy rhs) then False else
          if \<not> String_EqualsPtr (SignalWithStartWorkflowExecutionRequest.SignalName v)
              (SignalWithStartWorkflowExecutionRequest.SignalName rhs) then False else
          if \<not> both_set_and (=) (SignalWithStartWorkflowExecutionRequest.SignalInput v)
              (SignalWithStartWorkflowExecutionRequest.SignalInput rhs) then False else
          if \<not> both_set_and (=) (SignalWithStartWorkflowExecutionRequest.Control v)
              (SignalWithStartWorkflowExecutionRequest.Control rhs) then False else
          if \<not> both_set_and (\<lambda>x y. RetryPolicy_Equals (Some x) (Some y))
              (SignalWithStartWorkflowExecutionRequest.RetryPolicy v)
              (SignalWithStartWorkflowExecutionRequest.RetryPolicy rhs) then False else
          if \<not> String_EqualsPtr (SignalWithStartWorkflowExecutionRequest.CronSchedule v)
              (SignalWithStartWorkflowExecutionRequest.CronSchedule rhs) then False else
          if \<not> both_set_and (\<lambda>x y. Memo_Equals (Some x) (Some y))
              (SignalWithStartWorkflowExecutionRequest.Memo v)
              (SignalWithStartWorkflowExecutionRequest.Memo rhs) then False else
          if \<not> both_set_and (\<lambda>x y. SearchAttributes_Equals (Some x) (Some y))
              (SignalWithStartWorkflowExecutionRequest.SearchAttributes v)
              (SignalWithStartWorkflowExecutionRequest.SearchAttributes rhs) then False else
          if \<not> both_set_and (\<lambda>x y. Header_Equals (Some x) (Some y))
              (SignalWithStartWorkflowExecutionRequest.Header v)
              (SignalWithStartWorkflowExecutionRequest.Header rhs) then False else
          True))"

definition SignalWithStartWorkflowExecutionRequest_comparable ::
    "SignalWithStartWorkflowExecutionRequest \<Rightarrow> bool" where
  "SignalWithStartWorkflowExecutionRequest_comparable v \<longleftrightarrow>
     if_set RetryPolicy_comparable (SignalWithStartWorkflowExecutionRequest.RetryPolicy v) \<and>
     if_set Memo_comparable (SignalWithStartWorkflowExecutionRequest.Memo v) \<and>
     if_set SearchAttributes_comparable (SignalWithStartWorkflowExecutionRequest.SearchAttributes v)
         \<and>
     if_set Header_comparable (SignalWithStartWorkflowExecutionRequest.Header v)"

lemma SignalWithStartWorkflowExecutionRequest_Equals_iff:
  "if_set SignalWithStartWorkflowExecutionRequest_comparable x \<Longrightarrow> if_set
      SignalWithStartWorkflowExecutionRequest_comparable y \<Longrightarrow>
      SignalWithStartWorkflowExecutionRequest_Equals x y \<longleftrightarrow> x = y"
  by (cases x; cases y) (simp_all add: SignalWithStartWorkflowExecutionRequest_Equals_def
      SignalWithStartWorkflowExecutionRequest_comparable_def if_not_False,
    fastforce intro: SignalWithStartWorkflowExecutionRequest.equality)

lemma SignalWithStartWorkflowExecutionRequest_fields_equal [simp]:
  "if_set SignalWithStartWorkflowExecutionRequest_comparable x \<Longrightarrow> if_set
      SignalWithStartWorkflowExecutionRequest_comparable y \<Longrightarrow>
    both_set_and (\<lambda>x y. SignalWithStartWorkflowExecutionRequest_Equals (Some x) (Some y)) x y \<longleftrightarrow> x =
        y"
  by (rule both_set_and_iff [where P = SignalWithStartWorkflowExecutionRequest_comparable])
      (simp_all add: SignalWithStartWorkflowExecutionRequest_Equals_iff)

record SignalWorkflowExecutionRequest =
  Domain :: "string option"
  WorkflowExecution :: "WorkflowExecution option"
  SignalName :: "string option"
  Input :: "bytes option"
  Identity :: "string option"
  RequestId :: "string option"
  Control :: "bytes option"

definition SignalWorkflowExecutionRequest_zero :: SignalWorkflowExecutionRequest where
  "SignalWorkflowExecutionRequest_zero = \<lparr>SignalWorkflowExecutionRequest.Domain = None,
      SignalWorkflowExecutionRequest.WorkflowExecution = None,
      SignalWorkflowExecutionRequest.SignalName = None, SignalWorkflowExecutionRequest.Input = None,
      SignalWorkflowExecutionRequest.Identity = None, SignalWorkflowExecutionRequest.RequestId =
      None, SignalWorkflowExecutionRequest.Control = None\<rparr>"

definition SignalWorkflowExecutionRequest_ToWire ::
  "'v wire_api \<Rightarrow> SignalWorkflowExecutionRequest \<Rightarrow> go_error + 'v" where
  "SignalWorkflowExecutionRequest_ToWire W v =
     and_then (put_opt 10 (\<lambda>x. Inr (NewValueString W x)) (SignalWorkflowExecutionRequest.Domain v)
         [])
       (\<lambda>fields.
     and_then (put_opt 20 (WorkflowExecution_ToWire W)
         (SignalWorkflowExecutionRequest.WorkflowExecution v) fields)
       (\<lambda>fields.
     and_then (put_opt 30 (\<lambda>x. Inr (NewValueString W x)) (SignalWorkflowExecutionRequest.SignalName
         v) fields)
       (\<lambda>fields.
     and_then (put_opt 40 (\<lambda>x. Inr (NewValueBinary W x)) (SignalWorkflowExecutionRequest.Input v)
         fields)
       (\<lambda>fields.
     and_then (put_opt 50 (\<lambda>x. Inr (NewValueString W x)) (SignalWorkflowExecutionRequest.Identity v)
         fields)
       (\<lambda>fields.
     and_then (put_opt 60 (\<lambda>x. Inr (NewValueString W x)) (SignalWorkflowExecutionRequest.RequestId
         v) fields)
       (\<lambda>fields.
     and_then (put_opt 70 (\<lambda>x. Inr (NewValueBinary W x)) (SignalWorkflowExecutionRequest.Control v)
         fields)
       (\<lambda>fields.
     Inr (NewValueStruct W fields))))))))"

definition SignalWorkflowExecutionRequest_FromWire ::
  "'v wire_api \<Rightarrow> 'v \<Rightarrow> SignalWorkflowExecutionRequest \<Rightarrow> go_error + SignalWorkflowExecutionRequest"
      where
  "SignalWorkflowExecutionRequest_FromWire W w v =
     foldM (\<lambda>v (fid, fval).
       if fid = 10 then
         if wire_api.Type W fval = TBinary
         then Inr (v\<lparr>SignalWorkflowExecutionRequest.Domain := Some (GetString W fval)\<rparr>)
         else Inr v
       else if fid = 20 then
         if wire_api.Type W fval = TStruct
         then and_then (WorkflowExecution_Read W fval) (\<lambda>x. Inr
             (v\<lparr>SignalWorkflowExecutionRequest.WorkflowExecution := Some x\<rparr>))
         else Inr v
       else if fid = 30 then
         if wire_api.Type W fval = TBinary
         then Inr (v\<lparr>SignalWorkflowExecutionRequest.SignalName := Some (GetString W fval)\<rparr>)
         else Inr v
       else if fid = 40 then
         if wire_api.Type W fval = TBinary
         then Inr (v\<lparr>SignalWorkflowExecutionRequest.Input := Some (GetBinary W fval)\<rparr>)
         else Inr v
       else if fid = 50 then
         if wire_api.Type W fval = TBinary
         then Inr (v\<lparr>SignalWorkflowExecutionRequest.Identity := Some (GetString W fval)\<rparr>)
         else Inr v
       else if fid = 60 then
         if wire_api.Type W fval = TBinary
         then Inr (v\<lparr>SignalWorkflowExecutionRequest.RequestId := Some (GetString W fval)\<rparr>)
         else Inr v
       else if fid = 70 then
         if wire_api.Type W fval = TBinary
         then Inr (v\<lparr>SignalWorkflowExecutionRequest.Control := Some (GetBinary W fval)\<rparr>)
         else Inr v
       else Inr v) (GetStruct W w) v"

definition SignalWorkflowExecutionRequest_Read :: "'v wire_api \<Rightarrow> 'v \<Rightarrow> go_error +
    SignalWorkflowExecutionRequest" where
  "SignalWorkflowExecutionRequest_Read W w = SignalWorkflowExecutionRequest_FromWire W w
      SignalWorkflowExecutionRequest_zero"

lemma SignalWorkflowExecutionRequest_merge:
  "(case x of None \<Rightarrow> Inr \<lparr>SignalWorkflowExecutionRequest.Domain = a0,
      SignalWorkflowExecutionRequest.WorkflowExecution = a1,
      SignalWorkflowExecutionRequest.SignalName = a2, SignalWorkflowExecutionRequest.Input = a3,
      SignalWorkflowExecutionRequest.Identity = a4, SignalWorkflowExecutionRequest.RequestId = a5,
      SignalWorkflowExecutionRequest.Control = a6\<rparr> | Some y \<Rightarrow> Inr
      \<lparr>SignalWorkflowExecutionRequest.Domain = b0 y,
      SignalWorkflowExecutionRequest.WorkflowExecution = b1 y,
      SignalWorkflowExecutionRequest.SignalName = b2 y, SignalWorkflowExecutionRequest.Input = b3 y,
      SignalWorkflowExecutionRequest.Identity = b4 y, SignalWorkflowExecutionRequest.RequestId = b5
      y, SignalWorkflowExecutionRequest.Control = b6 y\<rparr>) =
   Inr \<lparr>SignalWorkflowExecutionRequest.Domain = (case x of None \<Rightarrow> a0 | Some y \<Rightarrow> b0 y),
       SignalWorkflowExecutionRequest.WorkflowExecution = (case x of None \<Rightarrow> a1 | Some y \<Rightarrow> b1 y),
       SignalWorkflowExecutionRequest.SignalName = (case x of None \<Rightarrow> a2 | Some y \<Rightarrow> b2 y),
       SignalWorkflowExecutionRequest.Input = (case x of None \<Rightarrow> a3 | Some y \<Rightarrow> b3 y),
       SignalWorkflowExecutionRequest.Identity = (case x of None \<Rightarrow> a4 | Some y \<Rightarrow> b4 y),
       SignalWorkflowExecutionRequest.RequestId = (case x of None \<Rightarrow> a5 | Some y \<Rightarrow> b5 y),
       SignalWorkflowExecutionRequest.Control = (case x of None \<Rightarrow> a6 | Some y \<Rightarrow> b6 y)\<rparr>"
  by (cases x) simp_all

interpretation SignalWorkflowExecutionRequest: thrift_message W
  "SignalWorkflowExecutionRequest_ToWire W" "SignalWorkflowExecutionRequest_FromWire W"
      SignalWorkflowExecutionRequest_zero "\<lambda>_. True" for W
proof (rule thrift_messageI)
  fix x :: SignalWorkflowExecutionRequest
  assume laws: "wire_laws W"
  obtain enc0 where e0: "WorkflowExecution_ToWire W = (\<lambda>x. Inr (enc0 x))"
      "\<And>x. wire_api.Type W (enc0 x) = TStruct"
      "\<And>x. Writable W (enc0 x) \<longleftrightarrow> (\<lambda>_. True) x"
      "\<And>x. (\<lambda>_. True) x \<Longrightarrow> WorkflowExecution_FromWire W (enc0 x) WorkflowExecution_zero = Inr x"
    by (rule WorkflowExecution.encoder [OF laws]) (rule that)
  show "\<exists>w. SignalWorkflowExecutionRequest_ToWire W x = Inr w \<and> wire_api.Type W w = TStruct \<and>
      (Writable W w \<longleftrightarrow> (\<lambda>_. True) x) \<and> ((\<lambda>_. True) x \<longrightarrow> SignalWorkflowExecutionRequest_FromWire W w
          SignalWorkflowExecutionRequest_zero = Inr x)"
    by (cases x) (simp cong: option.case_cong add: codec_rules SignalWorkflowExecutionRequest_merge
        SignalWorkflowExecutionRequest_ToWire_def SignalWorkflowExecutionRequest_FromWire_def
        SignalWorkflowExecutionRequest_zero_def WorkflowExecution_Read_def laws e0)
qed

definition SignalWorkflowExecutionRequest_Equals ::
  "SignalWorkflowExecutionRequest option \<Rightarrow> SignalWorkflowExecutionRequest option \<Rightarrow> bool" where
  "SignalWorkflowExecutionRequest_Equals v rhs =
     (case v of None \<Rightarrow> rhs = None
      | Some v \<Rightarrow> (case rhs of None \<Rightarrow> False
        | Some rhs \<Rightarrow>
          if \<not> String_EqualsPtr (SignalWorkflowExecutionRequest.Domain v)
              (SignalWorkflowExecutionRequest.Domain rhs) then False else
          if \<not> both_set_and (\<lambda>x y. WorkflowExecution_Equals (Some x) (Some y))
              (SignalWorkflowExecutionRequest.WorkflowExecution v)
              (SignalWorkflowExecutionRequest.WorkflowExecution rhs) then False else
          if \<not> String_EqualsPtr (SignalWorkflowExecutionRequest.SignalName v)
              (SignalWorkflowExecutionRequest.SignalName rhs) then False else
          if \<not> both_set_and (=) (SignalWorkflowExecutionRequest.Input v)
              (SignalWorkflowExecutionRequest.Input rhs) then False else
          if \<not> String_EqualsPtr (SignalWorkflowExecutionRequest.Identity v)
              (SignalWorkflowExecutionRequest.Identity rhs) then False else
          if \<not> String_EqualsPtr (SignalWorkflowExecutionRequest.RequestId v)
              (SignalWorkflowExecutionRequest.RequestId rhs) then False else
          if \<not> both_set_and (=) (SignalWorkflowExecutionRequest.Control v)
              (SignalWorkflowExecutionRequest.Control rhs) then False else
          True))"

lemma SignalWorkflowExecutionRequest_Equals_iff [simp]: "SignalWorkflowExecutionRequest_Equals x y \<longleftrightarrow>
    x = y"
  by (cases x; cases y) (simp_all add: SignalWorkflowExecutionRequest_Equals_def if_not_False,
      fastforce intro: SignalWorkflowExecutionRequest.equality)

record StartWorkflowExecutionRequest =
  Domain :: "string option"
  WorkflowId :: "string option"
  WorkflowType :: "WorkflowType option"
  TaskList :: "TaskList option"
  Input :: "bytes option"
  ExecutionStartToCloseTimeoutSeconds :: "32 word option"
  TaskStartToCloseTimeoutSeconds :: "32 word option"
  Identity :: "string option"
  RequestId :: "string option"
  WorkflowIdReusePolicy :: "WorkflowIdReusePolicy option"
  RetryPolicy :: "RetryPolicy option"
  CronSchedule :: "string option"
  Memo :: "Memo option"
  SearchAttributes :: "SearchAttributes option"
  Header :: "Header option"

definition StartWorkflowExecutionRequest_zero :: StartWorkflowExecutionRequest where
  "StartWorkflowExecutionRequest_zero = \<lparr>StartWorkflowExecutionRequest.Domain = None,
      StartWorkflowExecutionRequest.WorkflowId = None, StartWorkflowExecutionRequest.WorkflowType =
      None, StartWorkflowExecutionRequest.TaskList = None, StartWorkflowExecutionRequest.Input =
      None, StartWorkflowExecutionRequest.ExecutionStartToCloseTimeoutSeconds = None,
      StartWorkflowExecutionRequest.TaskStartToCloseTimeoutSeconds = None,
      StartWorkflowExecutionRequest.Identity = None, StartWorkflowExecutionRequest.RequestId = None,
      StartWorkflowExecutionRequest.WorkflowIdReusePolicy = None,
      StartWorkflowExecutionRequest.RetryPolicy = None, StartWorkflowExecutionRequest.CronSchedule =
      None, StartWorkflowExecutionRequest.Memo = None,
      StartWorkflowExecutionRequest.SearchAttributes = None, StartWorkflowExecutionRequest.Header =
      None\<rparr>"

definition StartWorkflowExecutionRequest_ToWire ::
  "'v wire_api \<Rightarrow> StartWorkflowExecutionRequest \<Rightarrow> go_error + 'v" where
  "StartWorkflowExecutionRequest_ToWire W v =
     and_then (put_opt 10 (\<lambda>x. Inr (NewValueString W x)) (StartWorkflowExecutionRequest.Domain v)
         [])
       (\<lambda>fields.
     and_then (put_opt 20 (\<lambda>x. Inr (NewValueString W x)) (StartWorkflowExecutionRequest.WorkflowId
         v) fields)
       (\<lambda>fields.
     and_then (put_opt 30 (WorkflowType_ToWire W) (StartWorkflowExecutionRequest.WorkflowType v)
         fields)
       (\<lambda>fields.
     and_then (put_opt 40 (TaskList_ToWire W) (StartWorkflowExecutionRequest.TaskList v) fields)
       (\<lambda>fields.
     and_then (put_opt 50 (\<lambda>x. Inr (NewValueBinary W x)) (StartWorkflowExecutionRequest.Input v)
         fields)
       (\<lambda>fields.
     and_then (put_opt 60 (\<lambda>x. Inr (NewValueI32 W x))
         (StartWorkflowExecutionRequest.ExecutionStartToCloseTimeoutSeconds v) fields)
       (\<lambda>fields.
     and_then (put_opt 70 (\<lambda>x. Inr (NewValueI32 W x))
         (StartWorkflowExecutionRequest.TaskStartToCloseTimeoutSeconds v) fields)
       (\<lambda>fields.
     and_then (put_opt 80 (\<lambda>x. Inr (NewValueString W x)) (StartWorkflowExecutionRequest.Identity v)
         fields)
       (\<lambda>fields.
     and_then (put_opt 90 (\<lambda>x. Inr (NewValueString W x)) (StartWorkflowExecutionRequest.RequestId v)
         fields)
       (\<lambda>fields.
     and_then (put_opt 100 (WorkflowIdReusePolicy_ToWire W)
         (StartWorkflowExecutionRequest.WorkflowIdReusePolicy v) fields)
       (\<lambda>fields.
     and_then (put_opt 120 (RetryPolicy_ToWire W) (StartWorkflowExecutionRequest.RetryPolicy v)
         fields)
       (\<lambda>fields.
     and_then (put_opt 130 (\<lambda>x. Inr (NewValueString W x))
         (StartWorkflowExecutionRequest.CronSchedule v) fields)
       (\<lambda>fields.
     and_then (put_opt 140 (Memo_ToWire W) (StartWorkflowExecutionRequest.Memo v) fields)
       (\<lambda>fields.
     and_then (put_opt 141 (SearchAttributes_ToWire W)
         (StartWorkflowExecutionRequest.SearchAttributes v) fields)
       (\<lambda>fields.
     and_then (put_opt 150 (Header_ToWire W) (StartWorkflowExecutionRequest.Header v) fields)
       (\<lambda>fields.
     Inr (NewValueStruct W fields))))))))))))))))"

definition StartWorkflowExecutionRequest_FromWire ::
  "'v wire_api \<Rightarrow> 'v \<Rightarrow> StartWorkflowExecutionRequest \<Rightarrow> go_error + StartWorkflowExecutionRequest"
      where
  "StartWorkflowExecutionRequest_FromWire W w v =
     foldM (\<lambda>v (fid, fval).
       if fid = 10 then
         if wire_api.Type W fval = TBinary
         then Inr (v\<lparr>StartWorkflowExecutionRequest.Domain := Some (GetString W fval)\<rparr>)
         else Inr v
       else if fid = 20 then
         if wire_api.Type W fval = TBinary
         then Inr (v\<lparr>StartWorkflowExecutionRequest.WorkflowId := Some (GetString W fval)\<rparr>)
         else Inr v
       else if fid = 30 then
         if wire_api.Type W fval = TStruct
         then and_then (WorkflowType_Read W fval) (\<lambda>x. Inr
             (v\<lparr>StartWorkflowExecutionRequest.WorkflowType := Some x\<rparr>))
         else Inr v
       else if fid = 40 then
         if wire_api.Type W fval = TStruct
         then and_then (TaskList_Read W fval) (\<lambda>x. Inr (v\<lparr>StartWorkflowExecutionRequest.TaskList :=
             Some x\<rparr>))
         else Inr v
       else if fid = 50 then
         if wire_api.Type W fval = TBinary
         then Inr (v\<lparr>StartWorkflowExecutionRequest.Input := Some (GetBinary W fval)\<rparr>)
         else Inr v
       else if fid = 60 then
         if wire_api.Type W fval = TI32
         then Inr (v\<lparr>StartWorkflowExecutionRequest.ExecutionStartToCloseTimeoutSeconds := Some
             (GetI32 W fval)\<rparr>)
         else Inr v
       else if fid = 70 then
         if wire_api.Type W fval = TI32
         then Inr (v\<lparr>StartWorkflowExecutionRequest.TaskStartToCloseTimeoutSeconds := Some (GetI32 W
             fval)\<rparr>)
         else Inr v
       else if fid = 80 then
         if wire_api.Type W fval = TBinary
         then Inr (v\<lparr>StartWorkflowExecutionRequest.Identity := Some (GetString W fval)\<rparr>)
         else Inr v
       else if fid = 90 then
         if wire_api.Type W fval = TBinary
         then Inr (v\<lparr>StartWorkflowExecutionRequest.RequestId := Some (GetString W fval)\<rparr>)
         else Inr v
       else if fid = 100 then
         if wire_api.Type W fval = TI32
         then and_then (WorkflowIdReusePolicy_Read W fval) (\<lambda>x. Inr
             (v\<lparr>StartWorkflowExecutionRequest.WorkflowIdReusePolicy := Some x\<rparr>))
         else Inr v
       else if fid = 120 then
         if wire_api.Type W fval = TStruct
         then and_then (RetryPolicy_Read W fval) (\<lambda>x. Inr
             (v\<lparr>StartWorkflowExecutionRequest.RetryPolicy := Some x\<rparr>))
         else Inr v
       else if fid = 130 then
         if wire_api.Type W fval = TBinary
         then Inr (v\<lparr>StartWorkflowExecutionRequest.CronSchedule := Some (GetString W fval)\<rparr>)
         else Inr v
       else if fid = 140 then
         if wire_api.Type W fval = TStruct
         then and_then (Memo_Read W fval) (\<lambda>x. Inr (v\<lparr>StartWorkflowExecutionRequest.Memo := Some
             x\<rparr>))
         else Inr v
       else if fid = 141 then
         if wire_api.Type W fval = TStruct
         then and_then (SearchAttributes_Read W fval) (\<lambda>x. Inr
             (v\<lparr>StartWorkflowExecutionRequest.SearchAttributes := Some x\<rparr>))
         else Inr v
       else if fid = 150 then
         if wire_api.Type W fval = TStruct
         then and_then (Header_Read W fval) (\<lambda>x. Inr (v\<lparr>StartWorkflowExecutionRequest.Header := Some
             x\<rparr>))
         else Inr v
       else Inr v) (GetStruct W w) v"

definition StartWorkflowExecutionRequest_Read :: "'v wire_api \<Rightarrow> 'v \<Rightarrow> go_error +
    StartWorkflowExecutionRequest" where
  "StartWorkflowExecutionRequest_Read W w = StartWorkflowExecutionRequest_FromWire W w
      StartWorkflowExecutionRequest_zero"

definition StartWorkflowExecutionRequest_complete :: "StartWorkflowExecutionRequest \<Rightarrow> bool" where
  "StartWorkflowExecutionRequest_complete v \<longleftrightarrow>
     if_set Memo_complete (StartWorkflowExecutionRequest.Memo v) \<and>
     if_set SearchAttributes_complete (StartWorkflowExecutionRequest.SearchAttributes v) \<and>
     if_set Header_complete (StartWorkflowExecutionRequest.Header v)"

lemma StartWorkflowExecutionRequest_merge:
  "(case x of None \<Rightarrow> Inr \<lparr>StartWorkflowExecutionRequest.Domain = a0,
      StartWorkflowExecutionRequest.WorkflowId = a1, StartWorkflowExecutionRequest.WorkflowType =
      a2, StartWorkflowExecutionRequest.TaskList = a3, StartWorkflowExecutionRequest.Input = a4,
      StartWorkflowExecutionRequest.ExecutionStartToCloseTimeoutSeconds = a5,
      StartWorkflowExecutionRequest.TaskStartToCloseTimeoutSeconds = a6,
      StartWorkflowExecutionRequest.Identity = a7, StartWorkflowExecutionRequest.RequestId = a8,
      StartWorkflowExecutionRequest.WorkflowIdReusePolicy = a9,
      StartWorkflowExecutionRequest.RetryPolicy = a10, StartWorkflowExecutionRequest.CronSchedule =
      a11, StartWorkflowExecutionRequest.Memo = a12, StartWorkflowExecutionRequest.SearchAttributes
      = a13, StartWorkflowExecutionRequest.Header = a14\<rparr> | Some y \<Rightarrow> Inr
      \<lparr>StartWorkflowExecutionRequest.Domain = b0 y, StartWorkflowExecutionRequest.WorkflowId = b1 y,
      StartWorkflowExecutionRequest.WorkflowType = b2 y, StartWorkflowExecutionRequest.TaskList = b3
      y, StartWorkflowExecutionRequest.Input = b4 y,
      StartWorkflowExecutionRequest.ExecutionStartToCloseTimeoutSeconds = b5 y,
      StartWorkflowExecutionRequest.TaskStartToCloseTimeoutSeconds = b6 y,
      StartWorkflowExecutionRequest.Identity = b7 y, StartWorkflowExecutionRequest.RequestId = b8 y,
      StartWorkflowExecutionRequest.WorkflowIdReusePolicy = b9 y,
      StartWorkflowExecutionRequest.RetryPolicy = b10 y, StartWorkflowExecutionRequest.CronSchedule
      = b11 y, StartWorkflowExecutionRequest.Memo = b12 y,
      StartWorkflowExecutionRequest.SearchAttributes = b13 y, StartWorkflowExecutionRequest.Header =
      b14 y\<rparr>) =
   Inr \<lparr>StartWorkflowExecutionRequest.Domain = (case x of None \<Rightarrow> a0 | Some y \<Rightarrow> b0 y),
       StartWorkflowExecutionRequest.WorkflowId = (case x of None \<Rightarrow> a1 | Some y \<Rightarrow> b1 y),
       StartWorkflowExecutionRequest.WorkflowType = (case x of None \<Rightarrow> a2 | Some y \<Rightarrow> b2 y),
       StartWorkflowExecutionRequest.TaskList = (case x of None \<Rightarrow> a3 | Some y \<Rightarrow> b3 y),
       StartWorkflowExecutionRequest.Input = (case x of None \<Rightarrow> a4 | Some y \<Rightarrow> b4 y),
       StartWorkflowExecutionRequest.ExecutionStartToCloseTimeoutSeconds = (case x of None \<Rightarrow> a5 |
       Some y \<Rightarrow> b5 y), StartWorkflowExecutionRequest.TaskStartToCloseTimeoutSeconds = (case x of
       None \<Rightarrow> a6 | Some y \<Rightarrow> b6 y), StartWorkflowExecutionRequest.Identity = (case x of None \<Rightarrow> a7 |
       Some y \<Rightarrow> b7 y), StartWorkflowExecutionRequest.RequestId = (case x of None \<Rightarrow> a8 | Some y \<Rightarrow> b8
       y), StartWorkflowExecutionRequest.WorkflowIdReusePolicy = (case x of None \<Rightarrow> a9 | Some y \<Rightarrow> b9
       y), StartWorkflowExecutionRequest.RetryPolicy = (case x of None \<Rightarrow> a10 | Some y \<Rightarrow> b10 y),
       StartWorkflowExecutionRequest.CronSchedule = (case x of None \<Rightarrow> a11 | Some y \<Rightarrow> b11 y),
       StartWorkflowExecutionRequest.Memo = (case x of None \<Rightarrow> a12 | Some y \<Rightarrow> b12 y),
       StartWorkflowExecutionRequest.SearchAttributes = (case x of None \<Rightarrow> a13 | Some y \<Rightarrow> b13 y),
       StartWorkflowExecutionRequest.Header = (case x of None \<Rightarrow> a14 | Some y \<Rightarrow> b14 y)\<rparr>"
  by (cases x) simp_all

interpretation StartWorkflowExecutionRequest: thrift_message W
  "StartWorkflowExecutionRequest_ToWire W" "StartWorkflowExecutionRequest_FromWire W"
      StartWorkflowExecutionRequest_zero "StartWorkflowExecutionRequest_complete" for W
proof (rule thrift_messageI)
  fix x :: StartWorkflowExecutionRequest
  assume laws: "wire_laws W"
  obtain enc0 where e0: "Header_ToWire W = (\<lambda>x. Inr (enc0 x))"
      "\<And>x. wire_api.Type W (enc0 x) = TStruct"
      "\<And>x. Writable W (enc0 x) \<longleftrightarrow> Header_complete x"
      "\<And>x. Header_complete x \<Longrightarrow> Header_FromWire W (enc0 x) Header_zero = Inr x"
    by (rule Header.encoder [OF laws]) (rule that)
  obtain enc1 where e1: "Memo_ToWire W = (\<lambda>x. Inr (enc1 x))"
      "\<And>x. wire_api.Type W (enc1 x) = TStruct"
      "\<And>x. Writable W (enc1 x) \<longleftrightarrow> Memo_complete x"
      "\<And>x. Memo_complete x \<Longrightarrow> Memo_FromWire W (enc1 x) Memo_zero = Inr x"
    by (rule Memo.encoder [OF laws]) (rule that)
  obtain enc2 where e2: "RetryPolicy_ToWire W = (\<lambda>x. Inr (enc2 x))"
      "\<And>x. wire_api.Type W (enc2 x) = TStruct"
      "\<And>x. Writable W (enc2 x) \<longleftrightarrow> (\<lambda>_. True) x"
      "\<And>x. (\<lambda>_. True) x \<Longrightarrow> RetryPolicy_FromWire W (enc2 x) RetryPolicy_zero = Inr x"
    by (rule RetryPolicy.encoder [OF laws]) (rule that)
  obtain enc3 where e3: "SearchAttributes_ToWire W = (\<lambda>x. Inr (enc3 x))"
      "\<And>x. wire_api.Type W (enc3 x) = TStruct"
      "\<And>x. Writable W (enc3 x) \<longleftrightarrow> SearchAttributes_complete x"
      "\<And>x. SearchAttributes_complete x \<Longrightarrow> SearchAttributes_FromWire W (enc3 x) SearchAttributes_zero
          = Inr x"
    by (rule SearchAttributes.encoder [OF laws]) (rule that)
  obtain enc4 where e4: "TaskList_ToWire W = (\<lambda>x. Inr (enc4 x))"
      "\<And>x. wire_api.Type W (enc4 x) = TStruct"
      "\<And>x. Writable W (enc4 x) \<longleftrightarrow> (\<lambda>_. True) x"
      "\<And>x. (\<lambda>_. True) x \<Longrightarrow> TaskList_FromWire W (enc4 x) TaskList_zero = Inr x"
    by (rule TaskList.encoder [OF laws]) (rule that)
  obtain enc5 where e5: "WorkflowType_ToWire W = (\<lambda>x. Inr (enc5 x))"
      "\<And>x. wire_api.Type W (enc5 x) = TStruct"
      "\<And>x. Writable W (enc5 x) \<longleftrightarrow> (\<lambda>_. True) x"
      "\<And>x. (\<lambda>_. True) x \<Longrightarrow> WorkflowType_FromWire W (enc5 x) WorkflowType_zero = Inr x"
    by (rule WorkflowType.encoder [OF laws]) (rule that)
  show "\<exists>w. StartWorkflowExecutionRequest_ToWire W x = Inr w \<and> wire_api.Type W w = TStruct \<and>
      (Writable W w \<longleftrightarrow> StartWorkflowExecutionRequest_complete x) \<and>
          (StartWorkflowExecutionRequest_complete x \<longrightarrow> StartWorkflowExecutionRequest_FromWire W w
          StartWorkflowExecutionRequest_zero = Inr x)"
    by (cases x) (simp cong: option.case_cong add: codec_rules StartWorkflowExecutionRequest_merge
        StartWorkflowExecutionRequest_ToWire_def StartWorkflowExecutionRequest_FromWire_def
        StartWorkflowExecutionRequest_zero_def StartWorkflowExecutionRequest_complete_def if_set_def
        WorkflowIdReusePolicy_enc WorkflowIdReusePolicy_Read_def WorkflowIdReusePolicy_FromWire_def
        Header_Read_def Memo_Read_def RetryPolicy_Read_def SearchAttributes_Read_def
        TaskList_Read_def WorkflowType_Read_def laws e0 e1 e2 e3 e4 e5)
qed

definition StartWorkflowExecutionRequest_Equals ::
  "StartWorkflowExecutionRequest option \<Rightarrow> StartWorkflowExecutionRequest option \<Rightarrow> bool" where
  "StartWorkflowExecutionRequest_Equals v rhs =
     (case v of None \<Rightarrow> rhs = None
      | Some v \<Rightarrow> (case rhs of None \<Rightarrow> False
        | Some rhs \<Rightarrow>
          if \<not> String_EqualsPtr (StartWorkflowExecutionRequest.Domain v)
              (StartWorkflowExecutionRequest.Domain rhs) then False else
          if \<not> String_EqualsPtr (StartWorkflowExecutionRequest.WorkflowId v)
              (StartWorkflowExecutionRequest.WorkflowId rhs) then False else
          if \<not> both_set_and (\<lambda>x y. WorkflowType_Equals (Some x) (Some y))
              (StartWorkflowExecutionRequest.WorkflowType v)
              (StartWorkflowExecutionRequest.WorkflowType rhs) then False else
          if \<not> both_set_and (\<lambda>x y. TaskList_Equals (Some x) (Some y))
              (StartWorkflowExecutionRequest.TaskList v) (StartWorkflowExecutionRequest.TaskList
              rhs) then False else
          if \<not> both_set_and (=) (StartWorkflowExecutionRequest.Input v)
              (StartWorkflowExecutionRequest.Input rhs) then False else
          if \<not> I32_EqualsPtr (StartWorkflowExecutionRequest.ExecutionStartToCloseTimeoutSeconds v)
              (StartWorkflowExecutionRequest.ExecutionStartToCloseTimeoutSeconds rhs) then False
              else
          if \<not> I32_EqualsPtr (StartWorkflowExecutionRequest.TaskStartToCloseTimeoutSeconds v)
              (StartWorkflowExecutionRequest.TaskStartToCloseTimeoutSeconds rhs) then False else
          if \<not> String_EqualsPtr (StartWorkflowExecutionRequest.Identity v)
              (StartWorkflowExecutionRequest.Identity rhs) then False else
          if \<not> String_EqualsPtr (StartWorkflowExecutionRequest.RequestId v)
              (StartWorkflowExecutionRequest.RequestId rhs) then False else
          if \<not> WorkflowIdReusePolicy_EqualsPtr (StartWorkflowExecutionRequest.WorkflowIdReusePolicy
              v) (StartWorkflowExecutionRequest.WorkflowIdReusePolicy rhs) then False else
          if \<not> both_set_and (\<lambda>x y. RetryPolicy_Equals (Some x) (Some y))
              (StartWorkflowExecutionRequest.RetryPolicy v)
              (StartWorkflowExecutionRequest.RetryPolicy rhs) then False else
          if \<not> String_EqualsPtr (StartWorkflowExecutionRequest.CronSchedule v)
              (StartWorkflowExecutionRequest.CronSchedule rhs) then False else
          if \<not> both_set_and (\<lambda>x y. Memo_Equals (Some x) (Some y))
              (StartWorkflowExecutionRequest.Memo v) (StartWorkflowExecutionRequest.Memo rhs) then
              False else
          if \<not> both_set_and (\<lambda>x y. SearchAttributes_Equals (Some x) (Some y))
              (StartWorkflowExecutionRequest.SearchAttributes v)
              (StartWorkflowExecutionRequest.SearchAttributes rhs) then False else
          if \<not> both_set_and (\<lambda>x y. Header_Equals (Some x) (Some y))
              (StartWorkflowExecutionRequest.Header v) (StartWorkflowExecutionRequest.Header rhs)
              then False else
          True))"

definition StartWorkflowExecutionRequest_comparable :: "StartWorkflowExecutionRequest \<Rightarrow> bool" where
  "StartWorkflowExecutionRequest_comparable v \<longleftrightarrow>
     if_set RetryPolicy_comparable (StartWorkflowExecutionRequest.RetryPolicy v) \<and>
     if_set Memo_comparable (StartWorkflowExecutionRequest.Memo v) \<and>
     if_set SearchAttributes_comparable (StartWorkflowExecutionRequest.SearchAttributes v) \<and>
     if_set Header_comparable (StartWorkflowExecutionRequest.Header v)"

lemma StartWorkflowExecutionRequest_Equals_iff:
  "if_set StartWorkflowExecutionRequest_comparable x \<Longrightarrow> if_set
      StartWorkflowExecutionRequest_comparable y \<Longrightarrow> StartWorkflowExecutionRequest_Equals x y \<longleftrightarrow> x = y"
  by (cases x; cases y) (simp_all add: StartWorkflowExecutionRequest_Equals_def
      StartWorkflowExecutionRequest_comparable_def if_not_False,
    fastforce intro: StartWorkflowExecutionRequest.equality)

lemma StartWorkflowExecutionRequest_fields_equal [simp]:
  "if_set StartWorkflowExecutionRequest_comparable x \<Longrightarrow> if_set
      StartWorkflowExecutionRequest_comparable y \<Longrightarrow>
    both_set_and (\<lambda>x y. StartWorkflowExecutionRequest_Equals (Some x) (Some y)) x y \<longleftrightarrow> x = y"
  by (rule both_set_and_iff [where P = StartWorkflowExecutionRequest_comparable]) (simp_all add:
      StartWorkflowExecutionRequest_Equals_iff)

record StartWorkflowExecutionResponse =
  RunId :: "string option"

definition StartWorkflowExecutionResponse_zero :: StartWorkflowExecutionResponse where
  "StartWorkflowExecutionResponse_zero = \<lparr>StartWorkflowExecutionResponse.RunId = None\<rparr>"

definition StartWorkflowExecutionResponse_ToWire ::
  "'v wire_api \<Rightarrow> StartWorkflowExecutionResponse \<Rightarrow> go_error + 'v" where
  "StartWorkflowExecutionResponse_ToWire W v =
     and_then (put_opt 10 (\<lambda>x. Inr (NewValueString W x)) (StartWorkflowExecutionResponse.RunId v)
         [])
       (\<lambda>fields.
     Inr (NewValueStruct W fields))"

definition StartWorkflowExecutionResponse_FromWire ::
  "'v wire_api \<Rightarrow> 'v \<Rightarrow> StartWorkflowExecutionResponse \<Rightarrow> go_error + StartWorkflowExecutionResponse"
      where
  "StartWorkflowExecutionResponse_FromWire W w v =
     foldM (\<lambda>v (fid, fval).
       if fid = 10 then
         if wire_api.Type W fval = TBinary
         then Inr (v\<lparr>StartWorkflowExecutionResponse.RunId := Some (GetString W fval)\<rparr>)
         else Inr v
       else Inr v) (GetStruct W w) v"

definition StartWorkflowExecutionResponse_Read :: "'v wire_api \<Rightarrow> 'v \<Rightarrow> go_error +
    StartWorkflowExecutionResponse" where
  "StartWorkflowExecutionResponse_Read W w = StartWorkflowExecutionResponse_FromWire W w
      StartWorkflowExecutionResponse_zero"

lemma StartWorkflowExecutionResponse_merge:
  "(case x of None \<Rightarrow> Inr \<lparr>StartWorkflowExecutionResponse.RunId = a0\<rparr> | Some y \<Rightarrow> Inr
      \<lparr>StartWorkflowExecutionResponse.RunId = b0 y\<rparr>) =
   Inr \<lparr>StartWorkflowExecutionResponse.RunId = (case x of None \<Rightarrow> a0 | Some y \<Rightarrow> b0 y)\<rparr>"
  by (cases x) simp_all

interpretation StartWorkflowExecutionResponse: thrift_message W
  "StartWorkflowExecutionResponse_ToWire W" "StartWorkflowExecutionResponse_FromWire W"
      StartWorkflowExecutionResponse_zero "\<lambda>_. True" for W
proof (rule thrift_messageI)
  fix x :: StartWorkflowExecutionResponse
  assume laws: "wire_laws W"
  show "\<exists>w. StartWorkflowExecutionResponse_ToWire W x = Inr w \<and> wire_api.Type W w = TStruct \<and>
      (Writable W w \<longleftrightarrow> (\<lambda>_. True) x) \<and> ((\<lambda>_. True) x \<longrightarrow> StartWorkflowExecutionResponse_FromWire W w
          StartWorkflowExecutionResponse_zero = Inr x)"
    by (cases x) (simp cong: option.case_cong add: codec_rules StartWorkflowExecutionResponse_merge
        StartWorkflowExecutionResponse_ToWire_def StartWorkflowExecutionResponse_FromWire_def
        StartWorkflowExecutionResponse_zero_def laws)
qed

definition StartWorkflowExecutionResponse_Equals ::
  "StartWorkflowExecutionResponse option \<Rightarrow> StartWorkflowExecutionResponse option \<Rightarrow> bool" where
  "StartWorkflowExecutionResponse_Equals v rhs =
     (case v of None \<Rightarrow> rhs = None
      | Some v \<Rightarrow> (case rhs of None \<Rightarrow> False
        | Some rhs \<Rightarrow>
          if \<not> String_EqualsPtr (StartWorkflowExecutionResponse.RunId v)
              (StartWorkflowExecutionResponse.RunId rhs) then False else
          True))"

lemma StartWorkflowExecutionResponse_Equals_iff [simp]: "StartWorkflowExecutionResponse_Equals x y \<longleftrightarrow>
    x = y"
  by (cases x; cases y) (auto simp: StartWorkflowExecutionResponse_Equals_def)

record TerminateWorkflowExecutionRequest =
  Domain :: "string option"
  WorkflowExecution :: "WorkflowExecution option"
  Reason :: "string option"
  Details :: "bytes option"
  Identity :: "string option"

definition TerminateWorkflowExecutionRequest_zero :: TerminateWorkflowExecutionRequest where
  "TerminateWorkflowExecutionRequest_zero = \<lparr>TerminateWorkflowExecutionRequest.Domain = None,
      TerminateWorkflowExecutionRequest.WorkflowExecution = None,
      TerminateWorkflowExecutionRequest.Reason = None, TerminateWorkflowExecutionRequest.Details =
      None, TerminateWorkflowExecutionRequest.Identity = None\<rparr>"

definition TerminateWorkflowExecutionRequest_ToWire ::
  "'v wire_api \<Rightarrow> TerminateWorkflowExecutionRequest \<Rightarrow> go_error + 'v" where
  "TerminateWorkflowExecutionRequest_ToWire W v =
     and_then (put_opt 10 (\<lambda>x. Inr (NewValueString W x)) (TerminateWorkflowExecutionRequest.Domain
         v) [])
       (\<lambda>fields.
     and_then (put_opt 20 (WorkflowExecution_ToWire W)
         (TerminateWorkflowExecutionRequest.WorkflowExecution v) fields)
       (\<lambda>fields.
     and_then (put_opt 30 (\<lambda>x. Inr (NewValueString W x)) (TerminateWorkflowExecutionRequest.Reason
         v) fields)
       (\<lambda>fields.
     and_then (put_opt 40 (\<lambda>x. Inr (NewValueBinary W x)) (TerminateWorkflowExecutionRequest.Details
         v) fields)
       (\<lambda>fields.
     and_then (put_opt 50 (\<lambda>x. Inr (NewValueString W x)) (TerminateWorkflowExecutionRequest.Identity
         v) fields)
       (\<lambda>fields.
     Inr (NewValueStruct W fields))))))"

definition TerminateWorkflowExecutionRequest_FromWire ::
  "'v wire_api \<Rightarrow> 'v \<Rightarrow> TerminateWorkflowExecutionRequest \<Rightarrow> go_error +
      TerminateWorkflowExecutionRequest" where
  "TerminateWorkflowExecutionRequest_FromWire W w v =
     foldM (\<lambda>v (fid, fval).
       if fid = 10 then
         if wire_api.Type W fval = TBinary
         then Inr (v\<lparr>TerminateWorkflowExecutionRequest.Domain := Some (GetString W fval)\<rparr>)
         else Inr v
       else if fid = 20 then
         if wire_api.Type W fval = TStruct
         then and_then (WorkflowExecution_Read W fval) (\<lambda>x. Inr
             (v\<lparr>TerminateWorkflowExecutionRequest.WorkflowExecution := Some x\<rparr>))
         else Inr v
       else if fid = 30 then
         if wire_api.Type W fval = TBinary
         then Inr (v\<lparr>TerminateWorkflowExecutionRequest.Reason := Some (GetString W fval)\<rparr>)
         else Inr v
       else if fid = 40 then
         if wire_api.Type W fval = TBinary
         then Inr (v\<lparr>TerminateWorkflowExecutionRequest.Details := Some (GetBinary W fval)\<rparr>)
         else Inr v
       else if fid = 50 then
         if wire_api.Type W fval = TBinary
         then Inr (v\<lparr>TerminateWorkflowExecutionRequest.Identity := Some (GetString W fval)\<rparr>)
         else Inr v
       else Inr v) (GetStruct W w) v"

definition TerminateWorkflowExecutionRequest_Read :: "'v wire_api \<Rightarrow> 'v \<Rightarrow> go_error +
    TerminateWorkflowExecutionRequest" where
  "TerminateWorkflowExecutionRequest_Read W w = TerminateWorkflowExecutionRequest_FromWire W w
      TerminateWorkflowExecutionRequest_zero"

lemma TerminateWorkflowExecutionRequest_merge:
  "(case x of None \<Rightarrow> Inr \<lparr>TerminateWorkflowExecutionRequest.Domain = a0,
      TerminateWorkflowExecutionRequest.WorkflowExecution = a1,
      TerminateWorkflowExecutionRequest.Reason = a2, TerminateWorkflowExecutionRequest.Details = a3,
      TerminateWorkflowExecutionRequest.Identity = a4\<rparr> | Some y \<Rightarrow> Inr
      \<lparr>TerminateWorkflowExecutionRequest.Domain = b0 y,
      TerminateWorkflowExecutionRequest.WorkflowExecution = b1 y,
      TerminateWorkflowExecutionRequest.Reason = b2 y, TerminateWorkflowExecutionRequest.Details =
      b3 y, TerminateWorkflowExecutionRequest.Identity = b4 y\<rparr>) =
   Inr \<lparr>TerminateWorkflowExecutionRequest.Domain = (case x of None \<Rightarrow> a0 | Some y \<Rightarrow> b0 y),
       TerminateWorkflowExecutionRequest.WorkflowExecution = (case x of None \<Rightarrow> a1 | Some y \<Rightarrow> b1 y),
       TerminateWorkflowExecutionRequest.Reason = (case x of None \<Rightarrow> a2 | Some y \<Rightarrow> b2 y),
       TerminateWorkflowExecutionRequest.Details = (case x of None \<Rightarrow> a3 | Some y \<Rightarrow> b3 y),
       TerminateWorkflowExecutionRequest.Identity = (case x of None \<Rightarrow> a4 | Some y \<Rightarrow> b4 y)\<rparr>"
  by (cases x) simp_all

interpretation TerminateWorkflowExecutionRequest: thrift_message W
  "TerminateWorkflowExecutionRequest_ToWire W" "TerminateWorkflowExecutionRequest_FromWire W"
      TerminateWorkflowExecutionRequest_zero "\<lambda>_. True" for W
proof (rule thrift_messageI)
  fix x :: TerminateWorkflowExecutionRequest
  assume laws: "wire_laws W"
  obtain enc0 where e0: "WorkflowExecution_ToWire W = (\<lambda>x. Inr (enc0 x))"
      "\<And>x. wire_api.Type W (enc0 x) = TStruct"
      "\<And>x. Writable W (enc0 x) \<longleftrightarrow> (\<lambda>_. True) x"
      "\<And>x. (\<lambda>_. True) x \<Longrightarrow> WorkflowExecution_FromWire W (enc0 x) WorkflowExecution_zero = Inr x"
    by (rule WorkflowExecution.encoder [OF laws]) (rule that)
  show "\<exists>w. TerminateWorkflowExecutionRequest_ToWire W x = Inr w \<and> wire_api.Type W w = TStruct \<and>
      (Writable W w \<longleftrightarrow> (\<lambda>_. True) x) \<and> ((\<lambda>_. True) x \<longrightarrow> TerminateWorkflowExecutionRequest_FromWire W w
          TerminateWorkflowExecutionRequest_zero = Inr x)"
    by (cases x) (simp cong: option.case_cong add: codec_rules
        TerminateWorkflowExecutionRequest_merge TerminateWorkflowExecutionRequest_ToWire_def
        TerminateWorkflowExecutionRequest_FromWire_def TerminateWorkflowExecutionRequest_zero_def
        WorkflowExecution_Read_def laws e0)
qed

definition TerminateWorkflowExecutionRequest_Equals ::
  "TerminateWorkflowExecutionRequest option \<Rightarrow> TerminateWorkflowExecutionRequest option \<Rightarrow> bool" where
  "TerminateWorkflowExecutionRequest_Equals v rhs =
     (case v of None \<Rightarrow> rhs = None
      | Some v \<Rightarrow> (case rhs of None \<Rightarrow> False
        | Some rhs \<Rightarrow>
          if \<not> String_EqualsPtr (TerminateWorkflowExecutionRequest.Domain v)
              (TerminateWorkflowExecutionRequest.Domain rhs) then False else
          if \<not> both_set_and (\<lambda>x y. WorkflowExecution_Equals (Some x) (Some y))
              (TerminateWorkflowExecutionRequest.WorkflowExecution v)
              (TerminateWorkflowExecutionRequest.WorkflowExecution rhs) then False else
          if \<not> String_EqualsPtr (TerminateWorkflowExecutionRequest.Reason v)
              (TerminateWorkflowExecutionRequest.Reason rhs) then False else
          if \<not> both_set_and (=) (TerminateWorkflowExecutionRequest.Details v)
              (TerminateWorkflowExecutionRequest.Details rhs) then False else
          if \<not> String_EqualsPtr (TerminateWorkflowExecutionRequest.Identity v)
              (TerminateWorkflowExecutionRequest.Identity rhs) then False else
          True))"

lemma TerminateWorkflowExecutionRequest_Equals_iff [simp]: "TerminateWorkflowExecutionRequest_Equals
    x y \<longleftrightarrow> x = y"
  by (cases x; cases y) (simp_all add: TerminateWorkflowExecutionRequest_Equals_def if_not_False,
      fastforce intro: TerminateWorkflowExecutionRequest.equality)

end
