(* ===== verification/GoDecisionService.thy ===== *)
theory GoDecisionService
  imports GoRpc GoRequests
begin

text \<open>
  The generated code of the calls of decision and query tasks:
  PollForDecisionTask,
  RespondDecisionTaskCompleted,
  RespondDecisionTaskFailed,
  RespondQueryTaskCompleted,
  QueryWorkflow,
  ResetStickyTaskList.
  For each method: its argument and result structs with their codecs and its helper
  (proxy/gen/cadence/cadence.go), its server handler (workflowserviceserver/server.go) and
  its client method (workflowserviceclient/client.go); then the interpretations that show
  the two codecs round trip and that the method keeps the contract \<open>rpc_method\<close>.
\<close>

section \<open>PollForDecisionTask\<close>

record WorkflowService_PollForDecisionTask_Args =
  PollRequest :: "PollForDecisionTaskRequest option"

definition WorkflowService_PollForDecisionTask_Args_zero :: WorkflowService_PollForDecisionTask_Args
    where
  "WorkflowService_PollForDecisionTask_Args_zero =
      \<lparr>WorkflowService_PollForDecisionTask_Args.PollRequest = None\<rparr>"

definition WorkflowService_PollForDecisionTask_Args_ToWire ::
  "'v wire_api \<Rightarrow> WorkflowService_PollForDecisionTask_Args \<Rightarrow> go_error + 'v" where
  "WorkflowService_PollForDecisionTask_Args_ToWire W v =
     and_then (put_opt 1 (PollForDecisionTaskRequest_ToWire W)
         (WorkflowService_PollForDecisionTask_Args.PollRequest v) [])
       (\<lambda>fields.
     Inr (NewValueStruct W fields))"

definition WorkflowService_PollForDecisionTask_Args_FromWire ::
  "'v wire_api \<Rightarrow> 'v \<Rightarrow> WorkflowService_PollForDecisionTask_Args \<Rightarrow> go_error +
      WorkflowService_PollForDecisionTask_Args" where
  "WorkflowService_PollForDecisionTask_Args_FromWire W w v =
     foldM (\<lambda>v (fid, fval).
       if fid = 1 then
         if wire_api.Type W fval = TStruct
         then and_then (PollForDecisionTaskRequest_Read W fval) (\<lambda>x. Inr
             (v\<lparr>WorkflowService_PollForDecisionTask_Args.PollRequest := Some x\<rparr>))
         else Inr v
       else Inr v) (GetStruct W w) v"

definition WorkflowService_PollForDecisionTask_Args_enveloper ::
  "'v wire_api \<Rightarrow> WorkflowService_PollForDecisionTask_Args \<Rightarrow> 'v enveloper" where
  "WorkflowService_PollForDecisionTask_Args_enveloper W v =
     \<lparr>MethodName = ''PollForDecisionTask'', EnvelopeType = Call, EnvelopeToWire =
         WorkflowService_PollForDecisionTask_Args_ToWire W v\<rparr>"

definition WorkflowService_PollForDecisionTask_Args_Equals ::
  "WorkflowService_PollForDecisionTask_Args option \<Rightarrow> WorkflowService_PollForDecisionTask_Args option
      \<Rightarrow> bool" where
  "WorkflowService_PollForDecisionTask_Args_Equals v rhs =
     (case v of None \<Rightarrow> rhs = None
      | Some v \<Rightarrow> (case rhs of None \<Rightarrow> False
        | Some rhs \<Rightarrow>
          if \<not> both_set_and (\<lambda>x y. PollForDecisionTaskRequest_Equals (Some x) (Some y))
              (WorkflowService_PollForDecisionTask_Args.PollRequest v)
              (WorkflowService_PollForDecisionTask_Args.PollRequest rhs) then False else
          True))"

lemma WorkflowService_PollForDecisionTask_Args_Equals_iff [simp]:
    "WorkflowService_PollForDecisionTask_Args_Equals x y \<longleftrightarrow> x = y"
  by (cases x; cases y) (auto simp: WorkflowService_PollForDecisionTask_Args_Equals_def)

record WorkflowService_PollForDecisionTask_Result =
  Success :: "PollForDecisionTaskResponse option"
  BadRequestError :: "BadRequestError option"
  InternalServiceError :: "InternalServiceError option"
  ServiceBusyError :: "ServiceBusyError option"
  LimitExceededError :: "LimitExceededError option"
  EntityNotExistError :: "EntityNotExistsError option"
  DomainNotActiveError :: "DomainNotActiveError option"
  ClientVersionNotSupportedError :: "ClientVersionNotSupportedError option"

definition WorkflowService_PollForDecisionTask_Result_count ::
    "WorkflowService_PollForDecisionTask_Result \<Rightarrow> nat" where
  "WorkflowService_PollForDecisionTask_Result_count v =
     (if WorkflowService_PollForDecisionTask_Result.Success v \<noteq> None then 1 else 0) +
     (if WorkflowService_PollForDecisionTask_Result.BadRequestError v \<noteq> None then 1 else 0) +
     (if WorkflowService_PollForDecisionTask_Result.InternalServiceError v \<noteq> None then 1 else 0) +
     (if WorkflowService_PollForDecisionTask_Result.ServiceBusyError v \<noteq> None then 1 else 0) +
     (if WorkflowService_PollForDecisionTask_Result.LimitExceededError v \<noteq> None then 1 else 0) +
     (if WorkflowService_PollForDecisionTask_Result.EntityNotExistError v \<noteq> None then 1 else 0) +
     (if WorkflowService_PollForDecisionTask_Result.DomainNotActiveError v \<noteq> None then 1 else 0) +
     (if WorkflowService_PollForDecisionTask_Result.ClientVersionNotSupportedError v \<noteq> None then 1
         else 0)"

definition WorkflowService_PollForDecisionTask_Result_zero ::
    WorkflowService_PollForDecisionTask_Result where
  "WorkflowService_PollForDecisionTask_Result_zero =
      \<lparr>WorkflowService_PollForDecisionTask_Result.Success = None,
      WorkflowService_PollForDecisionTask_Result.BadRequestError = None,
      WorkflowService_PollForDecisionTask_Result.InternalServiceError = None,
      WorkflowService_PollForDecisionTask_Result.ServiceBusyError = None,
      WorkflowService_PollForDecisionTask_Result.LimitExceededError = None,
      WorkflowService_PollForDecisionTask_Result.EntityNotExistError = None,
      WorkflowService_PollForDecisionTask_Result.DomainNotActiveError = None,
      WorkflowService_PollForDecisionTask_Result.ClientVersionNotSupportedError = None\<rparr>"

definition WorkflowService_PollForDecisionTask_Result_ToWire ::
  "'v wire_api \<Rightarrow> WorkflowService_PollForDecisionTask_Result \<Rightarrow> go_error + 'v" where
  "WorkflowService_PollForDecisionTask_Result_ToWire W v =
     and_then (put_opt 0 (PollForDecisionTaskResponse_ToWire W)
         (WorkflowService_PollForDecisionTask_Result.Success v) [])
       (\<lambda>fields.
     and_then (put_opt 1 (BadRequestError_ToWire W)
         (WorkflowService_PollForDecisionTask_Result.BadRequestError v) fields)
       (\<lambda>fields.
     and_then (put_opt 2 (InternalServiceError_ToWire W)
         (WorkflowService_PollForDecisionTask_Result.InternalServiceError v) fields)
       (\<lambda>fields.
     and_then (put_opt 3 (ServiceBusyError_ToWire W)
         (WorkflowService_PollForDecisionTask_Result.ServiceBusyError v) fields)
       (\<lambda>fields.
     and_then (put_opt 4 (LimitExceededError_ToWire W)
         (WorkflowService_PollForDecisionTask_Result.LimitExceededError v) fields)
       (\<lambda>fields.
     and_then (put_opt 5 (EntityNotExistsError_ToWire W)
         (WorkflowService_PollForDecisionTask_Result.EntityNotExistError v) fields)
       (\<lambda>fields.
     and_then (put_opt 6 (DomainNotActiveError_ToWire W)
         (WorkflowService_PollForDecisionTask_Result.DomainNotActiveError v) fields)
       (\<lambda>fields.
     and_then (put_opt 7 (ClientVersionNotSupportedError_ToWire W)
         (WorkflowService_PollForDecisionTask_Result.ClientVersionNotSupportedError v) fields)
       (\<lambda>fields.
     if length fields \<noteq> 1
     then Inl (E_Errorf
         ''WorkflowService_PollForDecisionTask_Result should have exactly one field: got %v fields''
         (length fields))
     else Inr (NewValueStruct W fields)))))))))"

definition WorkflowService_PollForDecisionTask_Result_FromWire ::
  "'v wire_api \<Rightarrow> 'v \<Rightarrow> WorkflowService_PollForDecisionTask_Result \<Rightarrow> go_error +
      WorkflowService_PollForDecisionTask_Result" where
  "WorkflowService_PollForDecisionTask_Result_FromWire W w v =
     and_then (foldM (\<lambda>v (fid, fval).
       if fid = 0 then
         if wire_api.Type W fval = TStruct
         then and_then (PollForDecisionTaskResponse_Read W fval) (\<lambda>x. Inr
             (v\<lparr>WorkflowService_PollForDecisionTask_Result.Success := Some x\<rparr>))
         else Inr v
       else if fid = 1 then
         if wire_api.Type W fval = TStruct
         then and_then (BadRequestError_Read W fval) (\<lambda>x. Inr
             (v\<lparr>WorkflowService_PollForDecisionTask_Result.BadRequestError := Some x\<rparr>))
         else Inr v
       else if fid = 2 then
         if wire_api.Type W fval = TStruct
         then and_then (InternalServiceError_Read W fval) (\<lambda>x. Inr
             (v\<lparr>WorkflowService_PollForDecisionTask_Result.InternalServiceError := Some x\<rparr>))
         else Inr v
       else if fid = 3 then
         if wire_api.Type W fval = TStruct
         then and_then (ServiceBusyError_Read W fval) (\<lambda>x. Inr
             (v\<lparr>WorkflowService_PollForDecisionTask_Result.ServiceBusyError := Some x\<rparr>))
         else Inr v
       else if fid = 4 then
         if wire_api.Type W fval = TStruct
         then and_then (LimitExceededError_Read W fval) (\<lambda>x. Inr
             (v\<lparr>WorkflowService_PollForDecisionTask_Result.LimitExceededError := Some x\<rparr>))
         else Inr v
       else if fid = 5 then
         if wire_api.Type W fval = TStruct
         then and_then (EntityNotExistsError_Read W fval) (\<lambda>x. Inr
             (v\<lparr>WorkflowService_PollForDecisionTask_Result.EntityNotExistError := Some x\<rparr>))
         else Inr v
       else if fid = 6 then
         if wire_api.Type W fval = TStruct
         then and_then (DomainNotActiveError_Read W fval) (\<lambda>x. Inr
             (v\<lparr>WorkflowService_PollForDecisionTask_Result.DomainNotActiveError := Some x\<rparr>))
         else Inr v
       else if fid = 7 then
         if wire_api.Type W fval = TStruct
         then and_then (ClientVersionNotSupportedError_Read W fval) (\<lambda>x. Inr
             (v\<lparr>WorkflowService_PollForDecisionTask_Result.ClientVersionNotSupportedError := Some
             x\<rparr>))
         else Inr v
       else Inr v) (GetStruct W w) v) (\<lambda>v.
     let count = WorkflowService_PollForDecisionTask_Result_count v in
     if count \<noteq> 1
     then Inl (E_Errorf
         ''WorkflowService_PollForDecisionTask_Result should have exactly one field: got %v fields''
         count)
     else Inr v)"

definition WorkflowService_PollForDecisionTask_Result_enveloper ::
  "'v wire_api \<Rightarrow> WorkflowService_PollForDecisionTask_Result \<Rightarrow> 'v enveloper" where
  "WorkflowService_PollForDecisionTask_Result_enveloper W v =
     \<lparr>MethodName = ''PollForDecisionTask'', EnvelopeType = Reply, EnvelopeToWire =
         WorkflowService_PollForDecisionTask_Result_ToWire W v\<rparr>"

definition WorkflowService_PollForDecisionTask_Result_Equals ::
  "WorkflowService_PollForDecisionTask_Result option \<Rightarrow> WorkflowService_PollForDecisionTask_Result
      option \<Rightarrow> bool" where
  "WorkflowService_PollForDecisionTask_Result_Equals v rhs =
     (case v of None \<Rightarrow> rhs = None
      | Some v \<Rightarrow> (case rhs of None \<Rightarrow> False
        | Some rhs \<Rightarrow>
          if \<not> both_set_and (\<lambda>x y. PollForDecisionTaskResponse_Equals (Some x) (Some y))
              (WorkflowService_PollForDecisionTask_Result.Success v)
              (WorkflowService_PollForDecisionTask_Result.Success rhs) then False else
          if \<not> both_set_and (\<lambda>x y. BadRequestError_Equals (Some x) (Some y))
              (WorkflowService_PollForDecisionTask_Result.BadRequestError v)
              (WorkflowService_PollForDecisionTask_Result.BadRequestError rhs) then False else
          if \<not> both_set_and (\<lambda>x y. InternalServiceError_Equals (Some x) (Some y))
              (WorkflowService_PollForDecisionTask_Result.InternalServiceError v)
              (WorkflowService_PollForDecisionTask_Result.InternalServiceError rhs) then False else
          if \<not> both_set_and (\<lambda>x y. ServiceBusyError_Equals (Some x) (Some y))
              (WorkflowService_PollForDecisionTask_Result.ServiceBusyError v)
              (WorkflowService_PollForDecisionTask_Result.ServiceBusyError rhs) then False else
          if \<not> both_set_and (\<lambda>x y. LimitExceededError_Equals (Some x) (Some y))
              (WorkflowService_PollForDecisionTask_Result.LimitExceededError v)
              (WorkflowService_PollForDecisionTask_Result.LimitExceededError rhs) then False else
          if \<not> both_set_and (\<lambda>x y. EntityNotExistsError_Equals (Some x) (Some y))
              (WorkflowService_PollForDecisionTask_Result.EntityNotExistError v)
              (WorkflowService_PollForDecisionTask_Result.EntityNotExistError rhs) then False else
          if \<not> both_set_and (\<lambda>x y. DomainNotActiveError_Equals (Some x) (Some y))
              (WorkflowService_PollForDecisionTask_Result.DomainNotActiveError v)
              (WorkflowService_PollForDecisionTask_Result.DomainNotActiveError rhs) then False else
          if \<not> both_set_and (\<lambda>x y. ClientVersionNotSupportedError_Equals (Some x) (Some y))
              (WorkflowService_PollForDecisionTask_Result.ClientVersionNotSupportedError v)
              (WorkflowService_PollForDecisionTask_Result.ClientVersionNotSupportedError rhs) then
              False else
          True))"

definition WorkflowService_PollForDecisionTask_Result_comparable ::
    "WorkflowService_PollForDecisionTask_Result \<Rightarrow> bool" where
  "WorkflowService_PollForDecisionTask_Result_comparable v \<longleftrightarrow>
     if_set PollForDecisionTaskResponse_comparable
         (WorkflowService_PollForDecisionTask_Result.Success v)"

lemma WorkflowService_PollForDecisionTask_Result_Equals_iff:
  "if_set WorkflowService_PollForDecisionTask_Result_comparable x \<Longrightarrow> if_set
      WorkflowService_PollForDecisionTask_Result_comparable y \<Longrightarrow>
      WorkflowService_PollForDecisionTask_Result_Equals x y \<longleftrightarrow> x = y"
  by (cases x; cases y) (simp_all add: WorkflowService_PollForDecisionTask_Result_Equals_def
      WorkflowService_PollForDecisionTask_Result_comparable_def if_not_False,
    fastforce intro: WorkflowService_PollForDecisionTask_Result.equality)

lemma WorkflowService_PollForDecisionTask_Result_fields_equal [simp]:
  "if_set WorkflowService_PollForDecisionTask_Result_comparable x \<Longrightarrow> if_set
      WorkflowService_PollForDecisionTask_Result_comparable y \<Longrightarrow>
    both_set_and (\<lambda>x y. WorkflowService_PollForDecisionTask_Result_Equals (Some x) (Some y)) x y \<longleftrightarrow> x
        = y"
  by (rule both_set_and_iff [where P = WorkflowService_PollForDecisionTask_Result_comparable])
      (simp_all add: WorkflowService_PollForDecisionTask_Result_Equals_iff)

definition WorkflowService_PollForDecisionTask_Helper_Args :: "PollForDecisionTaskRequest option \<Rightarrow>
    WorkflowService_PollForDecisionTask_Args" where
  "WorkflowService_PollForDecisionTask_Helper_Args r =
      \<lparr>WorkflowService_PollForDecisionTask_Args.PollRequest = r\<rparr>"

definition WorkflowService_PollForDecisionTask_Helper_IsException :: "go_error \<Rightarrow> bool" where
  "WorkflowService_PollForDecisionTask_Helper_IsException err =
     (case err of
        E_BadRequestError _ \<Rightarrow> True
      | E_InternalServiceError _ \<Rightarrow> True
      | E_ServiceBusyError _ \<Rightarrow> True
      | E_LimitExceededError _ \<Rightarrow> True
      | E_EntityNotExistsError _ \<Rightarrow> True
      | E_DomainNotActiveError _ \<Rightarrow> True
      | E_ClientVersionNotSupportedError _ \<Rightarrow> True
      | _ \<Rightarrow> False)"

definition WorkflowService_PollForDecisionTask_Helper_WrapResponse ::
  "PollForDecisionTaskResponse option \<Rightarrow> go_error option \<Rightarrow> go_error +
      WorkflowService_PollForDecisionTask_Result" where
  "WorkflowService_PollForDecisionTask_Helper_WrapResponse success err =
     (case err of None \<Rightarrow> Inr
         (WorkflowService_PollForDecisionTask_Result_zero\<lparr>WorkflowService_PollForDecisionTask_Result.Success := success\<rparr>)
      | Some err \<Rightarrow> (case err of
          E_BadRequestError e \<Rightarrow> (case e of
              None \<Rightarrow> Inl (E_New
                  ''WrapResponse received non-nil error type with nil value for WorkflowService_PollForDecisionTask_Result.BadRequestError'')
            | Some e \<Rightarrow> Inr
                (WorkflowService_PollForDecisionTask_Result_zero\<lparr>WorkflowService_PollForDecisionTask_Result.BadRequestError := Some e\<rparr>))
        | E_InternalServiceError e \<Rightarrow> (case e of
              None \<Rightarrow> Inl (E_New
                  ''WrapResponse received non-nil error type with nil value for WorkflowService_PollForDecisionTask_Result.InternalServiceError'')
            | Some e \<Rightarrow> Inr
                (WorkflowService_PollForDecisionTask_Result_zero\<lparr>WorkflowService_PollForDecisionTask_Result.InternalServiceError := Some e\<rparr>))
        | E_ServiceBusyError e \<Rightarrow> (case e of
              None \<Rightarrow> Inl (E_New
                  ''WrapResponse received non-nil error type with nil value for WorkflowService_PollForDecisionTask_Result.ServiceBusyError'')
            | Some e \<Rightarrow> Inr
                (WorkflowService_PollForDecisionTask_Result_zero\<lparr>WorkflowService_PollForDecisionTask_Result.ServiceBusyError := Some e\<rparr>))
        | E_LimitExceededError e \<Rightarrow> (case e of
              None \<Rightarrow> Inl (E_New
                  ''WrapResponse received non-nil error type with nil value for WorkflowService_PollForDecisionTask_Result.LimitExceededError'')
            | Some e \<Rightarrow> Inr
                (WorkflowService_PollForDecisionTask_Result_zero\<lparr>WorkflowService_PollForDecisionTask_Result.LimitExceededError := Some e\<rparr>))
        | E_EntityNotExistsError e \<Rightarrow> (case e of
              None \<Rightarrow> Inl (E_New
                  ''WrapResponse received non-nil error type with nil value for WorkflowService_PollForDecisionTask_Result.EntityNotExistError'')
            | Some e \<Rightarrow> Inr
                (WorkflowService_PollForDecisionTask_Result_zero\<lparr>WorkflowService_PollForDecisionTask_Result.EntityNotExistError := Some e\<rparr>))
        | E_DomainNotActiveError e \<Rightarrow> (case e of
              None \<Rightarrow> Inl (E_New
                  ''WrapResponse received non-nil error type with nil value for WorkflowService_PollForDecisionTask_Result.DomainNotActiveError'')
            | Some e \<Rightarrow> Inr
                (WorkflowService_PollForDecisionTask_Result_zero\<lparr>WorkflowService_PollForDecisionTask_Result.DomainNotActiveError := Some e\<rparr>))
        | E_ClientVersionNotSupportedError e \<Rightarrow> (case e of
              None \<Rightarrow> Inl (E_New
                  ''WrapResponse received non-nil error type with nil value for WorkflowService_PollForDecisionTask_Result.ClientVersionNotSupportedError'')
            | Some e \<Rightarrow> Inr
                (WorkflowService_PollForDecisionTask_Result_zero\<lparr>WorkflowService_PollForDecisionTask_Result.ClientVersionNotSupportedError := Some e\<rparr>))
        | _ \<Rightarrow> Inl err))"

definition WorkflowService_PollForDecisionTask_Helper_UnwrapResponse ::
  "WorkflowService_PollForDecisionTask_Result \<Rightarrow> PollForDecisionTaskResponse option \<times> go_error
      option" where
  "WorkflowService_PollForDecisionTask_Helper_UnwrapResponse result =
    (if WorkflowService_PollForDecisionTask_Result.BadRequestError result \<noteq> None then (None, Some
        (E_BadRequestError (WorkflowService_PollForDecisionTask_Result.BadRequestError result)))
        else
     if WorkflowService_PollForDecisionTask_Result.InternalServiceError result \<noteq> None then (None,
         Some (E_InternalServiceError
         (WorkflowService_PollForDecisionTask_Result.InternalServiceError result))) else
     if WorkflowService_PollForDecisionTask_Result.ServiceBusyError result \<noteq> None then (None, Some
         (E_ServiceBusyError (WorkflowService_PollForDecisionTask_Result.ServiceBusyError result)))
         else
     if WorkflowService_PollForDecisionTask_Result.LimitExceededError result \<noteq> None then (None, Some
         (E_LimitExceededError (WorkflowService_PollForDecisionTask_Result.LimitExceededError
         result))) else
     if WorkflowService_PollForDecisionTask_Result.EntityNotExistError result \<noteq> None then (None,
         Some (E_EntityNotExistsError
         (WorkflowService_PollForDecisionTask_Result.EntityNotExistError result))) else
     if WorkflowService_PollForDecisionTask_Result.DomainNotActiveError result \<noteq> None then (None,
         Some (E_DomainNotActiveError
         (WorkflowService_PollForDecisionTask_Result.DomainNotActiveError result))) else
     if WorkflowService_PollForDecisionTask_Result.ClientVersionNotSupportedError result \<noteq> None then
         (None, Some (E_ClientVersionNotSupportedError
         (WorkflowService_PollForDecisionTask_Result.ClientVersionNotSupportedError result))) else
     if WorkflowService_PollForDecisionTask_Result.Success result \<noteq> None then
         (WorkflowService_PollForDecisionTask_Result.Success result, None) else
     (None, Some (E_New ''expected a non-void result'')))"

definition handler_PollForDecisionTask ::
  "'v wire_api \<Rightarrow> ('ctx \<Rightarrow> PollForDecisionTaskRequest option \<Rightarrow> PollForDecisionTaskResponse option \<times>
      go_error option) \<Rightarrow>
   ('ctx, 'v) unary_handler" where
  "handler_PollForDecisionTask W impl ctx body =
     (case WorkflowService_PollForDecisionTask_Args_FromWire W body
         WorkflowService_PollForDecisionTask_Args_zero of
      Inl err \<Rightarrow> (no_response, Some err)
    | Inr args \<Rightarrow>
      let (success, err) = impl ctx (WorkflowService_PollForDecisionTask_Args.PollRequest args);
          hadError = (err \<noteq> None)
      in case WorkflowService_PollForDecisionTask_Helper_WrapResponse success err of
           Inl err \<Rightarrow> (no_response, Some err)
         | Inr result \<Rightarrow>
             (\<lparr>Body = Some (WorkflowService_PollForDecisionTask_Result_enveloper W result),
               IsApplicationError = hadError\<rparr>, None))"

definition client_PollForDecisionTask ::
  "'v wire_api \<Rightarrow> ('ctx, 'v) thrift_client \<Rightarrow> 'ctx \<Rightarrow> PollForDecisionTaskRequest option \<Rightarrow>
   PollForDecisionTaskResponse option \<times> go_error option" where
  "client_PollForDecisionTask W call ctx r =
     (let args = WorkflowService_PollForDecisionTask_Helper_Args r in
      case call ctx (WorkflowService_PollForDecisionTask_Args_enveloper W args) of
        Inl e \<Rightarrow> (None, Some e)
      | Inr body \<Rightarrow>
          (case WorkflowService_PollForDecisionTask_Result_FromWire W body
              WorkflowService_PollForDecisionTask_Result_zero of
             Inl e \<Rightarrow> (None, Some e)
           | Inr result \<Rightarrow> WorkflowService_PollForDecisionTask_Helper_UnwrapResponse result))"

lemma WorkflowService_PollForDecisionTask_Args_merge:
  "(case x of None \<Rightarrow> Inr \<lparr>WorkflowService_PollForDecisionTask_Args.PollRequest = a0\<rparr> | Some y \<Rightarrow> Inr
      \<lparr>WorkflowService_PollForDecisionTask_Args.PollRequest = b0 y\<rparr>) =
   Inr \<lparr>WorkflowService_PollForDecisionTask_Args.PollRequest = (case x of None \<Rightarrow> a0 | Some y \<Rightarrow> b0
       y)\<rparr>"
  by (cases x) simp_all

interpretation WorkflowService_PollForDecisionTask_Args: thrift_struct W
  "WorkflowService_PollForDecisionTask_Args_ToWire W"
      "WorkflowService_PollForDecisionTask_Args_FromWire W"
  WorkflowService_PollForDecisionTask_Args_zero "\<lambda>x. True" for W
proof (rule thrift_structI)
  fix x :: WorkflowService_PollForDecisionTask_Args
  assume laws: "wire_laws W"
  obtain enc0 where e0: "PollForDecisionTaskRequest_ToWire W = (\<lambda>x. Inr (enc0 x))"
      "\<And>x. wire_api.Type W (enc0 x) = TStruct"
      "\<And>x. Writable W (enc0 x) \<longleftrightarrow> (\<lambda>_. True) x"
      "\<And>x. (\<lambda>_. True) x \<Longrightarrow> PollForDecisionTaskRequest_FromWire W (enc0 x)
          PollForDecisionTaskRequest_zero = Inr x"
    by (rule PollForDecisionTaskRequest.encoder [OF laws]) (rule that)
  show "\<exists>w. WorkflowService_PollForDecisionTask_Args_ToWire W x = Inr w \<and> wire_api.Type W w =
      TStruct \<and>
      (Writable W w \<longleftrightarrow> True) \<and> (True \<longrightarrow> WorkflowService_PollForDecisionTask_Args_FromWire W w
          WorkflowService_PollForDecisionTask_Args_zero = Inr x)"
    by (cases x) (simp cong: option.case_cong add: codec_rules
        WorkflowService_PollForDecisionTask_Args_merge
        WorkflowService_PollForDecisionTask_Args_ToWire_def
        WorkflowService_PollForDecisionTask_Args_FromWire_def
      WorkflowService_PollForDecisionTask_Args_zero_def PollForDecisionTaskRequest_Read_def
          if_set_def laws e0)
qed

lemma WorkflowService_PollForDecisionTask_Result_merge:
  "(case x of None \<Rightarrow> Inr \<lparr>WorkflowService_PollForDecisionTask_Result.Success = a0,
      WorkflowService_PollForDecisionTask_Result.BadRequestError = a1,
      WorkflowService_PollForDecisionTask_Result.InternalServiceError = a2,
      WorkflowService_PollForDecisionTask_Result.ServiceBusyError = a3,
      WorkflowService_PollForDecisionTask_Result.LimitExceededError = a4,
      WorkflowService_PollForDecisionTask_Result.EntityNotExistError = a5,
      WorkflowService_PollForDecisionTask_Result.DomainNotActiveError = a6,
      WorkflowService_PollForDecisionTask_Result.ClientVersionNotSupportedError = a7\<rparr> | Some y \<Rightarrow> Inr
      \<lparr>WorkflowService_PollForDecisionTask_Result.Success = b0 y,
      WorkflowService_PollForDecisionTask_Result.BadRequestError = b1 y,
      WorkflowService_PollForDecisionTask_Result.InternalServiceError = b2 y,
      WorkflowService_PollForDecisionTask_Result.ServiceBusyError = b3 y,
      WorkflowService_PollForDecisionTask_Result.LimitExceededError = b4 y,
      WorkflowService_PollForDecisionTask_Result.EntityNotExistError = b5 y,
      WorkflowService_PollForDecisionTask_Result.DomainNotActiveError = b6 y,
      WorkflowService_PollForDecisionTask_Result.ClientVersionNotSupportedError = b7 y\<rparr>) =
   Inr \<lparr>WorkflowService_PollForDecisionTask_Result.Success = (case x of None \<Rightarrow> a0 | Some y \<Rightarrow> b0 y),
       WorkflowService_PollForDecisionTask_Result.BadRequestError = (case x of None \<Rightarrow> a1 | Some y \<Rightarrow>
       b1 y), WorkflowService_PollForDecisionTask_Result.InternalServiceError = (case x of None \<Rightarrow> a2
       | Some y \<Rightarrow> b2 y), WorkflowService_PollForDecisionTask_Result.ServiceBusyError = (case x of
       None \<Rightarrow> a3 | Some y \<Rightarrow> b3 y), WorkflowService_PollForDecisionTask_Result.LimitExceededError =
       (case x of None \<Rightarrow> a4 | Some y \<Rightarrow> b4 y),
       WorkflowService_PollForDecisionTask_Result.EntityNotExistError = (case x of None \<Rightarrow> a5 | Some
       y \<Rightarrow> b5 y), WorkflowService_PollForDecisionTask_Result.DomainNotActiveError = (case x of None
       \<Rightarrow> a6 | Some y \<Rightarrow> b6 y),
       WorkflowService_PollForDecisionTask_Result.ClientVersionNotSupportedError = (case x of None \<Rightarrow>
       a7 | Some y \<Rightarrow> b7 y)\<rparr>"
  by (cases x) simp_all

interpretation WorkflowService_PollForDecisionTask_Result: thrift_struct W
  "WorkflowService_PollForDecisionTask_Result_ToWire W"
      "WorkflowService_PollForDecisionTask_Result_FromWire W"
  WorkflowService_PollForDecisionTask_Result_zero "\<lambda>r.
      WorkflowService_PollForDecisionTask_Result_count r = 1 \<and> if_set
      PollForDecisionTaskResponse_complete (WorkflowService_PollForDecisionTask_Result.Success r)"
      for W
proof (rule thrift_checkedI)
  fix x :: WorkflowService_PollForDecisionTask_Result
  assume laws: "wire_laws W"
  obtain enc0 where e0: "PollForDecisionTaskResponse_ToWire W = (\<lambda>x. Inr (enc0 x))"
      "\<And>x. wire_api.Type W (enc0 x) = TStruct"
      "\<And>x. Writable W (enc0 x) \<longleftrightarrow> PollForDecisionTaskResponse_complete x"
      "\<And>x. PollForDecisionTaskResponse_complete x \<Longrightarrow> PollForDecisionTaskResponse_FromWire W (enc0 x)
          PollForDecisionTaskResponse_zero = Inr x"
    by (rule PollForDecisionTaskResponse.encoder [OF laws]) (rule that)
  obtain enc1 where e1: "BadRequestError_ToWire W = (\<lambda>x. Inr (enc1 x))"
      "\<And>x. wire_api.Type W (enc1 x) = TStruct"
      "\<And>x. Writable W (enc1 x) \<longleftrightarrow> (\<lambda>_. True) x"
      "\<And>x. (\<lambda>_. True) x \<Longrightarrow> BadRequestError_FromWire W (enc1 x) BadRequestError_zero = Inr x"
    by (rule BadRequestError.encoder [OF laws]) (rule that)
  obtain enc2 where e2: "InternalServiceError_ToWire W = (\<lambda>x. Inr (enc2 x))"
      "\<And>x. wire_api.Type W (enc2 x) = TStruct"
      "\<And>x. Writable W (enc2 x) \<longleftrightarrow> (\<lambda>_. True) x"
      "\<And>x. (\<lambda>_. True) x \<Longrightarrow> InternalServiceError_FromWire W (enc2 x) InternalServiceError_zero = Inr
          x"
    by (rule InternalServiceError.encoder [OF laws]) (rule that)
  obtain enc3 where e3: "ServiceBusyError_ToWire W = (\<lambda>x. Inr (enc3 x))"
      "\<And>x. wire_api.Type W (enc3 x) = TStruct"
      "\<And>x. Writable W (enc3 x) \<longleftrightarrow> (\<lambda>_. True) x"
      "\<And>x. (\<lambda>_. True) x \<Longrightarrow> ServiceBusyError_FromWire W (enc3 x) ServiceBusyError_zero = Inr x"
    by (rule ServiceBusyError.encoder [OF laws]) (rule that)
  obtain enc4 where e4: "LimitExceededError_ToWire W = (\<lambda>x. Inr (enc4 x))"
      "\<And>x. wire_api.Type W (enc4 x) = TStruct"
      "\<And>x. Writable W (enc4 x) \<longleftrightarrow> (\<lambda>_. True) x"
      "\<And>x. (\<lambda>_. True) x \<Longrightarrow> LimitExceededError_FromWire W (enc4 x) LimitExceededError_zero = Inr x"
    by (rule LimitExceededError.encoder [OF laws]) (rule that)
  obtain enc5 where e5: "EntityNotExistsError_ToWire W = (\<lambda>x. Inr (enc5 x))"
      "\<And>x. wire_api.Type W (enc5 x) = TStruct"
      "\<And>x. Writable W (enc5 x) \<longleftrightarrow> (\<lambda>_. True) x"
      "\<And>x. (\<lambda>_. True) x \<Longrightarrow> EntityNotExistsError_FromWire W (enc5 x) EntityNotExistsError_zero = Inr
          x"
    by (rule EntityNotExistsError.encoder [OF laws]) (rule that)
  obtain enc6 where e6: "DomainNotActiveError_ToWire W = (\<lambda>x. Inr (enc6 x))"
      "\<And>x. wire_api.Type W (enc6 x) = TStruct"
      "\<And>x. Writable W (enc6 x) \<longleftrightarrow> (\<lambda>_. True) x"
      "\<And>x. (\<lambda>_. True) x \<Longrightarrow> DomainNotActiveError_FromWire W (enc6 x) DomainNotActiveError_zero = Inr
          x"
    by (rule DomainNotActiveError.encoder [OF laws]) (rule that)
  obtain enc7 where e7: "ClientVersionNotSupportedError_ToWire W = (\<lambda>x. Inr (enc7 x))"
      "\<And>x. wire_api.Type W (enc7 x) = TStruct"
      "\<And>x. Writable W (enc7 x) \<longleftrightarrow> (\<lambda>_. True) x"
      "\<And>x. (\<lambda>_. True) x \<Longrightarrow> ClientVersionNotSupportedError_FromWire W (enc7 x)
          ClientVersionNotSupportedError_zero = Inr x"
    by (rule ClientVersionNotSupportedError.encoder [OF laws]) (rule that)
  let ?fs = "((((((opt_field 0 enc0 (WorkflowService_PollForDecisionTask_Result.Success x) @
      opt_field 1 enc1 (WorkflowService_PollForDecisionTask_Result.BadRequestError x)) @
      opt_field 2 enc2 (WorkflowService_PollForDecisionTask_Result.InternalServiceError x)) @
      opt_field 3 enc3 (WorkflowService_PollForDecisionTask_Result.ServiceBusyError x)) @
      opt_field 4 enc4 (WorkflowService_PollForDecisionTask_Result.LimitExceededError x)) @
      opt_field 5 enc5 (WorkflowService_PollForDecisionTask_Result.EntityNotExistError x)) @
      opt_field 6 enc6 (WorkflowService_PollForDecisionTask_Result.DomainNotActiveError x)) @
      opt_field 7 enc7 (WorkflowService_PollForDecisionTask_Result.ClientVersionNotSupportedError
          x)"
  let ?check = "\<lambda>r. if WorkflowService_PollForDecisionTask_Result_count x \<noteq> 1 then Inl (E_Errorf
      ''WorkflowService_PollForDecisionTask_Result should have exactly one field: got %v fields''
          (WorkflowService_PollForDecisionTask_Result_count x)) else Inr r"
  have "length ?fs = WorkflowService_PollForDecisionTask_Result_count x"
    by (simp add: WorkflowService_PollForDecisionTask_Result_count_def length_opt_field split del:
        if_split)
  then have "WorkflowService_PollForDecisionTask_Result_ToWire W x = ?check (NewValueStruct W ?fs)"
    by (simp only: WorkflowService_PollForDecisionTask_Result_ToWire_def put_opt_field
        and_then.simps append_Nil e0(1) e1(1) e2(1) e3(1) e4(1) e5(1) e6(1) e7(1))
  moreover have "WorkflowService_PollForDecisionTask_Result_FromWire W (NewValueStruct W ?fs)
      WorkflowService_PollForDecisionTask_Result_zero = ?check x"
    if "if_set PollForDecisionTaskResponse_complete
        (WorkflowService_PollForDecisionTask_Result.Success x)"
    by (cases x, hypsubst) (simp cong: option.case_cong split del: if_split add: codec_rules Let_def
        WorkflowService_PollForDecisionTask_Result_merge
      WorkflowService_PollForDecisionTask_Result_FromWire_def
          WorkflowService_PollForDecisionTask_Result_zero_def laws if_set_def that [unfolded
          if_set_def]
      BadRequestError_Read_def
      ClientVersionNotSupportedError_Read_def
      DomainNotActiveError_Read_def
      EntityNotExistsError_Read_def
      InternalServiceError_Read_def
      LimitExceededError_Read_def
      PollForDecisionTaskResponse_Read_def
      ServiceBusyError_Read_def
      e0 e1 e2 e3 e4 e5 e6 e7)
  ultimately show "if WorkflowService_PollForDecisionTask_Result_count x = 1
      then \<exists>w. WorkflowService_PollForDecisionTask_Result_ToWire W x = Inr w \<and> wire_api.Type W w =
          TStruct \<and>
        (Writable W w \<longleftrightarrow> if_set PollForDecisionTaskResponse_complete
            (WorkflowService_PollForDecisionTask_Result.Success x)) \<and> (if_set
            PollForDecisionTaskResponse_complete (WorkflowService_PollForDecisionTask_Result.Success
            x) \<longrightarrow> WorkflowService_PollForDecisionTask_Result_FromWire W w
            WorkflowService_PollForDecisionTask_Result_zero = Inr x)
      else \<exists>e. WorkflowService_PollForDecisionTask_Result_ToWire W x = Inl e"
    by (simp add: laws codec_rules e0 e1 e2 e3 e4 e5 e6 e7)
qed

interpretation PollForDecisionTask: rpc_method W
  "WorkflowService_PollForDecisionTask_Args_ToWire W"
      "WorkflowService_PollForDecisionTask_Args_FromWire W"
      WorkflowService_PollForDecisionTask_Args_zero "\<lambda>x. True"
  "WorkflowService_PollForDecisionTask_Result_ToWire W"
      "WorkflowService_PollForDecisionTask_Result_FromWire W"
      WorkflowService_PollForDecisionTask_Result_zero
  "\<lambda>r. WorkflowService_PollForDecisionTask_Result_count r = 1 \<and> if_set
      PollForDecisionTaskResponse_complete (WorkflowService_PollForDecisionTask_Result.Success r)"
      "''PollForDecisionTask''"
  WorkflowService_PollForDecisionTask_Helper_Args
      "WorkflowService_PollForDecisionTask_Args.PollRequest"
  "\<lambda>(success, err). WorkflowService_PollForDecisionTask_Helper_WrapResponse success err"
      WorkflowService_PollForDecisionTask_Helper_UnwrapResponse
  "\<lambda>out. snd out \<noteq> None" "carried PollForDecisionTaskResponse_complete
      WorkflowService_PollForDecisionTask_Helper_IsException" error_first "\<lambda>e. (None, Some e)"
  "handler_PollForDecisionTask W" "client_PollForDecisionTask W" for W
proof
  fix out :: "PollForDecisionTaskResponse option \<times> go_error option"
  assume "carried PollForDecisionTaskResponse_complete
      WorkflowService_PollForDecisionTask_Helper_IsException out"
  then show "case (\<lambda>(success, err). WorkflowService_PollForDecisionTask_Helper_WrapResponse success
      err) out of Inl e \<Rightarrow> False
      | Inr res \<Rightarrow> (WorkflowService_PollForDecisionTask_Result_count res = 1 \<and> if_set
          PollForDecisionTaskResponse_complete (WorkflowService_PollForDecisionTask_Result.Success
          res)) \<and>
          WorkflowService_PollForDecisionTask_Helper_UnwrapResponse res = error_first out"
    by (cases out; cases "snd out"; cases "the (snd out)")
      (auto simp: WorkflowService_PollForDecisionTask_Helper_IsException_def
          WorkflowService_PollForDecisionTask_Helper_WrapResponse_def
          WorkflowService_PollForDecisionTask_Helper_UnwrapResponse_def
        declared_nonnil_def WorkflowService_PollForDecisionTask_Result_zero_def
            WorkflowService_PollForDecisionTask_Result_count_def elim!: present.elims)
next
  fix out :: "PollForDecisionTaskResponse option \<times> go_error option"
  assume "\<not> carried PollForDecisionTaskResponse_complete
      WorkflowService_PollForDecisionTask_Helper_IsException out"
  then show "case (\<lambda>(success, err). WorkflowService_PollForDecisionTask_Helper_WrapResponse success
      err) out of Inl e \<Rightarrow> True
      | Inr res \<Rightarrow> \<not> (WorkflowService_PollForDecisionTask_Result_count res = 1 \<and> if_set
          PollForDecisionTaskResponse_complete (WorkflowService_PollForDecisionTask_Result.Success
          res))"
    by (cases out; cases "snd out"; cases "the (snd out)")
      (auto simp: WorkflowService_PollForDecisionTask_Helper_IsException_def
          WorkflowService_PollForDecisionTask_Helper_WrapResponse_def declared_nonnil_def
        WorkflowService_PollForDecisionTask_Result_count_def
            WorkflowService_PollForDecisionTask_Result_zero_def split: option.splits)
qed (auto simp: WorkflowService_PollForDecisionTask_Helper_Args_def handler_PollForDecisionTask_def
    client_PollForDecisionTask_def
      WorkflowService_PollForDecisionTask_Args_enveloper_def
          WorkflowService_PollForDecisionTask_Result_enveloper_def
      Let_def split: sum.splits prod.splits)

section \<open>RespondDecisionTaskCompleted\<close>

record WorkflowService_RespondDecisionTaskCompleted_Args =
  CompleteRequest :: "RespondDecisionTaskCompletedRequest option"

definition WorkflowService_RespondDecisionTaskCompleted_Args_zero ::
    WorkflowService_RespondDecisionTaskCompleted_Args where
  "WorkflowService_RespondDecisionTaskCompleted_Args_zero =
      \<lparr>WorkflowService_RespondDecisionTaskCompleted_Args.CompleteRequest = None\<rparr>"

definition WorkflowService_RespondDecisionTaskCompleted_Args_ToWire ::
  "'v wire_api \<Rightarrow> WorkflowService_RespondDecisionTaskCompleted_Args \<Rightarrow> go_error + 'v" where
  "WorkflowService_RespondDecisionTaskCompleted_Args_ToWire W v =
     and_then (put_opt 1 (RespondDecisionTaskCompletedRequest_ToWire W)
         (WorkflowService_RespondDecisionTaskCompleted_Args.CompleteRequest v) [])
       (\<lambda>fields.
     Inr (NewValueStruct W fields))"

definition WorkflowService_RespondDecisionTaskCompleted_Args_FromWire ::
  "'v wire_api \<Rightarrow> 'v \<Rightarrow> WorkflowService_RespondDecisionTaskCompleted_Args \<Rightarrow> go_error +
      WorkflowService_RespondDecisionTaskCompleted_Args" where
  "WorkflowService_RespondDecisionTaskCompleted_Args_FromWire W w v =
     foldM (\<lambda>v (fid, fval).
       if fid = 1 then
         if wire_api.Type W fval = TStruct
         then and_then (RespondDecisionTaskCompletedRequest_Read W fval) (\<lambda>x. Inr
             (v\<lparr>WorkflowService_RespondDecisionTaskCompleted_Args.CompleteRequest := Some x\<rparr>))
         else Inr v
       else Inr v) (GetStruct W w) v"

definition WorkflowService_RespondDecisionTaskCompleted_Args_enveloper ::
  "'v wire_api \<Rightarrow> WorkflowService_RespondDecisionTaskCompleted_Args \<Rightarrow> 'v enveloper" where
  "WorkflowService_RespondDecisionTaskCompleted_Args_enveloper W v =
     \<lparr>MethodName = ''RespondDecisionTaskCompleted'', EnvelopeType = Call, EnvelopeToWire =
         WorkflowService_RespondDecisionTaskCompleted_Args_ToWire W v\<rparr>"

definition WorkflowService_RespondDecisionTaskCompleted_Args_Equals ::
  "WorkflowService_RespondDecisionTaskCompleted_Args option \<Rightarrow>
      WorkflowService_RespondDecisionTaskCompleted_Args option \<Rightarrow> bool" where
  "WorkflowService_RespondDecisionTaskCompleted_Args_Equals v rhs =
     (case v of None \<Rightarrow> rhs = None
      | Some v \<Rightarrow> (case rhs of None \<Rightarrow> False
        | Some rhs \<Rightarrow>
          if \<not> both_set_and (\<lambda>x y. RespondDecisionTaskCompletedRequest_Equals (Some x) (Some y))
              (WorkflowService_RespondDecisionTaskCompleted_Args.CompleteRequest v)
              (WorkflowService_RespondDecisionTaskCompleted_Args.CompleteRequest rhs) then False
              else
          True))"

definition WorkflowService_RespondDecisionTaskCompleted_Args_comparable ::
    "WorkflowService_RespondDecisionTaskCompleted_Args \<Rightarrow> bool" where
  "WorkflowService_RespondDecisionTaskCompleted_Args_comparable v \<longleftrightarrow>
     if_set RespondDecisionTaskCompletedRequest_comparable
         (WorkflowService_RespondDecisionTaskCompleted_Args.CompleteRequest v)"

lemma WorkflowService_RespondDecisionTaskCompleted_Args_Equals_iff:
  "if_set WorkflowService_RespondDecisionTaskCompleted_Args_comparable x \<Longrightarrow> if_set
      WorkflowService_RespondDecisionTaskCompleted_Args_comparable y \<Longrightarrow>
      WorkflowService_RespondDecisionTaskCompleted_Args_Equals x y \<longleftrightarrow> x = y"
  by (cases x; cases y) (simp_all add: WorkflowService_RespondDecisionTaskCompleted_Args_Equals_def
      WorkflowService_RespondDecisionTaskCompleted_Args_comparable_def if_not_False,
    fastforce intro: WorkflowService_RespondDecisionTaskCompleted_Args.equality)

lemma WorkflowService_RespondDecisionTaskCompleted_Args_fields_equal [simp]:
  "if_set WorkflowService_RespondDecisionTaskCompleted_Args_comparable x \<Longrightarrow> if_set
      WorkflowService_RespondDecisionTaskCompleted_Args_comparable y \<Longrightarrow>
    both_set_and (\<lambda>x y. WorkflowService_RespondDecisionTaskCompleted_Args_Equals (Some x) (Some y))
        x y \<longleftrightarrow> x = y"
  by (rule both_set_and_iff [where P =
      WorkflowService_RespondDecisionTaskCompleted_Args_comparable]) (simp_all add:
      WorkflowService_RespondDecisionTaskCompleted_Args_Equals_iff)

record WorkflowService_RespondDecisionTaskCompleted_Result =
  Success :: "RespondDecisionTaskCompletedResponse option"
  BadRequestError :: "BadRequestError option"
  InternalServiceError :: "InternalServiceError option"
  EntityNotExistError :: "EntityNotExistsError option"
  DomainNotActiveError :: "DomainNotActiveError option"
  LimitExceededError :: "LimitExceededError option"
  ServiceBusyError :: "ServiceBusyError option"
  ClientVersionNotSupportedError :: "ClientVersionNotSupportedError option"

definition WorkflowService_RespondDecisionTaskCompleted_Result_count ::
    "WorkflowService_RespondDecisionTaskCompleted_Result \<Rightarrow> nat" where
  "WorkflowService_RespondDecisionTaskCompleted_Result_count v =
     (if WorkflowService_RespondDecisionTaskCompleted_Result.Success v \<noteq> None then 1 else 0) +
     (if WorkflowService_RespondDecisionTaskCompleted_Result.BadRequestError v \<noteq> None then 1 else 0)
         +
     (if WorkflowService_RespondDecisionTaskCompleted_Result.InternalServiceError v \<noteq> None then 1
         else 0) +
     (if WorkflowService_RespondDecisionTaskCompleted_Result.EntityNotExistError v \<noteq> None then 1
         else 0) +
     (if WorkflowService_RespondDecisionTaskCompleted_Result.DomainNotActiveError v \<noteq> None then 1
         else 0) +
     (if WorkflowService_RespondDecisionTaskCompleted_Result.LimitExceededError v \<noteq> None then 1 else
         0) +
     (if WorkflowService_RespondDecisionTaskCompleted_Result.ServiceBusyError v \<noteq> None then 1 else
         0) +
     (if WorkflowService_RespondDecisionTaskCompleted_Result.ClientVersionNotSupportedError v \<noteq> None
         then 1 else 0)"

definition WorkflowService_RespondDecisionTaskCompleted_Result_zero ::
    WorkflowService_RespondDecisionTaskCompleted_Result where
  "WorkflowService_RespondDecisionTaskCompleted_Result_zero =
      \<lparr>WorkflowService_RespondDecisionTaskCompleted_Result.Success = None,
      WorkflowService_RespondDecisionTaskCompleted_Result.BadRequestError = None,
      WorkflowService_RespondDecisionTaskCompleted_Result.InternalServiceError = None,
      WorkflowService_RespondDecisionTaskCompleted_Result.EntityNotExistError = None,
      WorkflowService_RespondDecisionTaskCompleted_Result.DomainNotActiveError = None,
      WorkflowService_RespondDecisionTaskCompleted_Result.LimitExceededError = None,
      WorkflowService_RespondDecisionTaskCompleted_Result.ServiceBusyError = None,
      WorkflowService_RespondDecisionTaskCompleted_Result.ClientVersionNotSupportedError = None\<rparr>"

definition WorkflowService_RespondDecisionTaskCompleted_Result_ToWire ::
  "'v wire_api \<Rightarrow> WorkflowService_RespondDecisionTaskCompleted_Result \<Rightarrow> go_error + 'v" where
  "WorkflowService_RespondDecisionTaskCompleted_Result_ToWire W v =
     and_then (put_opt 0 (RespondDecisionTaskCompletedResponse_ToWire W)
         (WorkflowService_RespondDecisionTaskCompleted_Result.Success v) [])
       (\<lambda>fields.
     and_then (put_opt 1 (BadRequestError_ToWire W)
         (WorkflowService_RespondDecisionTaskCompleted_Result.BadRequestError v) fields)
       (\<lambda>fields.
     and_then (put_opt 2 (InternalServiceError_ToWire W)
         (WorkflowService_RespondDecisionTaskCompleted_Result.InternalServiceError v) fields)
       (\<lambda>fields.
     and_then (put_opt 3 (EntityNotExistsError_ToWire W)
         (WorkflowService_RespondDecisionTaskCompleted_Result.EntityNotExistError v) fields)
       (\<lambda>fields.
     and_then (put_opt 4 (DomainNotActiveError_ToWire W)
         (WorkflowService_RespondDecisionTaskCompleted_Result.DomainNotActiveError v) fields)
       (\<lambda>fields.
     and_then (put_opt 5 (LimitExceededError_ToWire W)
         (WorkflowService_RespondDecisionTaskCompleted_Result.LimitExceededError v) fields)
       (\<lambda>fields.
     and_then (put_opt 6 (ServiceBusyError_ToWire W)
         (WorkflowService_RespondDecisionTaskCompleted_Result.ServiceBusyError v) fields)
       (\<lambda>fields.
     and_then (put_opt 7 (ClientVersionNotSupportedError_ToWire W)
         (WorkflowService_RespondDecisionTaskCompleted_Result.ClientVersionNotSupportedError v)
         fields)
       (\<lambda>fields.
     if length fields \<noteq> 1
     then Inl (E_Errorf
         ''WorkflowService_RespondDecisionTaskCompleted_Result should have exactly one field: got %v fields'' (length fields))
     else Inr (NewValueStruct W fields)))))))))"

definition WorkflowService_RespondDecisionTaskCompleted_Result_FromWire ::
  "'v wire_api \<Rightarrow> 'v \<Rightarrow> WorkflowService_RespondDecisionTaskCompleted_Result \<Rightarrow> go_error +
      WorkflowService_RespondDecisionTaskCompleted_Result" where
  "WorkflowService_RespondDecisionTaskCompleted_Result_FromWire W w v =
     and_then (foldM (\<lambda>v (fid, fval).
       if fid = 0 then
         if wire_api.Type W fval = TStruct
         then and_then (RespondDecisionTaskCompletedResponse_Read W fval) (\<lambda>x. Inr
             (v\<lparr>WorkflowService_RespondDecisionTaskCompleted_Result.Success := Some x\<rparr>))
         else Inr v
       else if fid = 1 then
         if wire_api.Type W fval = TStruct
         then and_then (BadRequestError_Read W fval) (\<lambda>x. Inr
             (v\<lparr>WorkflowService_RespondDecisionTaskCompleted_Result.BadRequestError := Some x\<rparr>))
         else Inr v
       else if fid = 2 then
         if wire_api.Type W fval = TStruct
         then and_then (InternalServiceError_Read W fval) (\<lambda>x. Inr
             (v\<lparr>WorkflowService_RespondDecisionTaskCompleted_Result.InternalServiceError := Some
             x\<rparr>))
         else Inr v
       else if fid = 3 then
         if wire_api.Type W fval = TStruct
         then and_then (EntityNotExistsError_Read W fval) (\<lambda>x. Inr
             (v\<lparr>WorkflowService_RespondDecisionTaskCompleted_Result.EntityNotExistError := Some x\<rparr>))
         else Inr v
       else if fid = 4 then
         if wire_api.Type W fval = TStruct
         then and_then (DomainNotActiveError_Read W fval) (\<lambda>x. Inr
             (v\<lparr>WorkflowService_RespondDecisionTaskCompleted_Result.DomainNotActiveError := Some
             x\<rparr>))
         else Inr v
       else if fid = 5 then
         if wire_api.Type W fval = TStruct
         then and_then (LimitExceededError_Read W fval) (\<lambda>x. Inr
             (v\<lparr>WorkflowService_RespondDecisionTaskCompleted_Result.LimitExceededError := Some x\<rparr>))
         else Inr v
       else if fid = 6 then
         if wire_api.Type W fval = TStruct
         then and_then (ServiceBusyError_Read W fval) (\<lambda>x. Inr
             (v\<lparr>WorkflowService_RespondDecisionTaskCompleted_Result.ServiceBusyError := Some x\<rparr>))
         else Inr v
       else if fid = 7 then
         if wire_api.Type W fval = TStruct
         then and_then (ClientVersionNotSupportedError_Read W fval) (\<lambda>x. Inr
             (v\<lparr>WorkflowService_RespondDecisionTaskCompleted_Result.ClientVersionNotSupportedError
             := Some x\<rparr>))
         else Inr v
       else Inr v) (GetStruct W w) v) (\<lambda>v.
     let count = WorkflowService_RespondDecisionTaskCompleted_Result_count v in
     if count \<noteq> 1
     then Inl (E_Errorf
         ''WorkflowService_RespondDecisionTaskCompleted_Result should have exactly one field: got %v fields'' count)
     else Inr v)"

definition WorkflowService_RespondDecisionTaskCompleted_Result_enveloper ::
  "'v wire_api \<Rightarrow> WorkflowService_RespondDecisionTaskCompleted_Result \<Rightarrow> 'v enveloper" where
  "WorkflowService_RespondDecisionTaskCompleted_Result_enveloper W v =
     \<lparr>MethodName = ''RespondDecisionTaskCompleted'', EnvelopeType = Reply, EnvelopeToWire =
         WorkflowService_RespondDecisionTaskCompleted_Result_ToWire W v\<rparr>"

definition WorkflowService_RespondDecisionTaskCompleted_Result_Equals ::
  "WorkflowService_RespondDecisionTaskCompleted_Result option \<Rightarrow>
      WorkflowService_RespondDecisionTaskCompleted_Result option \<Rightarrow> bool" where
  "WorkflowService_RespondDecisionTaskCompleted_Result_Equals v rhs =
     (case v of None \<Rightarrow> rhs = None
      | Some v \<Rightarrow> (case rhs of None \<Rightarrow> False
        | Some rhs \<Rightarrow>
          if \<not> both_set_and (\<lambda>x y. RespondDecisionTaskCompletedResponse_Equals (Some x) (Some y))
              (WorkflowService_RespondDecisionTaskCompleted_Result.Success v)
              (WorkflowService_RespondDecisionTaskCompleted_Result.Success rhs) then False else
          if \<not> both_set_and (\<lambda>x y. BadRequestError_Equals (Some x) (Some y))
              (WorkflowService_RespondDecisionTaskCompleted_Result.BadRequestError v)
              (WorkflowService_RespondDecisionTaskCompleted_Result.BadRequestError rhs) then False
              else
          if \<not> both_set_and (\<lambda>x y. InternalServiceError_Equals (Some x) (Some y))
              (WorkflowService_RespondDecisionTaskCompleted_Result.InternalServiceError v)
              (WorkflowService_RespondDecisionTaskCompleted_Result.InternalServiceError rhs) then
              False else
          if \<not> both_set_and (\<lambda>x y. EntityNotExistsError_Equals (Some x) (Some y))
              (WorkflowService_RespondDecisionTaskCompleted_Result.EntityNotExistError v)
              (WorkflowService_RespondDecisionTaskCompleted_Result.EntityNotExistError rhs) then
              False else
          if \<not> both_set_and (\<lambda>x y. DomainNotActiveError_Equals (Some x) (Some y))
              (WorkflowService_RespondDecisionTaskCompleted_Result.DomainNotActiveError v)
              (WorkflowService_RespondDecisionTaskCompleted_Result.DomainNotActiveError rhs) then
              False else
          if \<not> both_set_and (\<lambda>x y. LimitExceededError_Equals (Some x) (Some y))
              (WorkflowService_RespondDecisionTaskCompleted_Result.LimitExceededError v)
              (WorkflowService_RespondDecisionTaskCompleted_Result.LimitExceededError rhs) then
              False else
          if \<not> both_set_and (\<lambda>x y. ServiceBusyError_Equals (Some x) (Some y))
              (WorkflowService_RespondDecisionTaskCompleted_Result.ServiceBusyError v)
              (WorkflowService_RespondDecisionTaskCompleted_Result.ServiceBusyError rhs) then False
              else
          if \<not> both_set_and (\<lambda>x y. ClientVersionNotSupportedError_Equals (Some x) (Some y))
              (WorkflowService_RespondDecisionTaskCompleted_Result.ClientVersionNotSupportedError v)
              (WorkflowService_RespondDecisionTaskCompleted_Result.ClientVersionNotSupportedError
              rhs) then False else
          True))"

definition WorkflowService_RespondDecisionTaskCompleted_Result_comparable ::
    "WorkflowService_RespondDecisionTaskCompleted_Result \<Rightarrow> bool" where
  "WorkflowService_RespondDecisionTaskCompleted_Result_comparable v \<longleftrightarrow>
     if_set RespondDecisionTaskCompletedResponse_comparable
         (WorkflowService_RespondDecisionTaskCompleted_Result.Success v)"

lemma WorkflowService_RespondDecisionTaskCompleted_Result_Equals_iff:
  "if_set WorkflowService_RespondDecisionTaskCompleted_Result_comparable x \<Longrightarrow> if_set
      WorkflowService_RespondDecisionTaskCompleted_Result_comparable y \<Longrightarrow>
      WorkflowService_RespondDecisionTaskCompleted_Result_Equals x y \<longleftrightarrow> x = y"
  by (cases x; cases y) (simp_all add:
      WorkflowService_RespondDecisionTaskCompleted_Result_Equals_def
      WorkflowService_RespondDecisionTaskCompleted_Result_comparable_def if_not_False,
    fastforce intro: WorkflowService_RespondDecisionTaskCompleted_Result.equality)

lemma WorkflowService_RespondDecisionTaskCompleted_Result_fields_equal [simp]:
  "if_set WorkflowService_RespondDecisionTaskCompleted_Result_comparable x \<Longrightarrow> if_set
      WorkflowService_RespondDecisionTaskCompleted_Result_comparable y \<Longrightarrow>
    both_set_and (\<lambda>x y. WorkflowService_RespondDecisionTaskCompleted_Result_Equals (Some x) (Some
        y)) x y \<longleftrightarrow> x = y"
  by (rule both_set_and_iff [where P =
      WorkflowService_RespondDecisionTaskCompleted_Result_comparable]) (simp_all add:
      WorkflowService_RespondDecisionTaskCompleted_Result_Equals_iff)

definition WorkflowService_RespondDecisionTaskCompleted_Helper_Args ::
    "RespondDecisionTaskCompletedRequest option \<Rightarrow> WorkflowService_RespondDecisionTaskCompleted_Args"
    where
  "WorkflowService_RespondDecisionTaskCompleted_Helper_Args r =
      \<lparr>WorkflowService_RespondDecisionTaskCompleted_Args.CompleteRequest = r\<rparr>"

definition WorkflowService_RespondDecisionTaskCompleted_Helper_IsException :: "go_error \<Rightarrow> bool"
    where
  "WorkflowService_RespondDecisionTaskCompleted_Helper_IsException err =
     (case err of
        E_BadRequestError _ \<Rightarrow> True
      | E_InternalServiceError _ \<Rightarrow> True
      | E_EntityNotExistsError _ \<Rightarrow> True
      | E_DomainNotActiveError _ \<Rightarrow> True
      | E_LimitExceededError _ \<Rightarrow> True
      | E_ServiceBusyError _ \<Rightarrow> True
      | E_ClientVersionNotSupportedError _ \<Rightarrow> True
      | _ \<Rightarrow> False)"

definition WorkflowService_RespondDecisionTaskCompleted_Helper_WrapResponse ::
  "RespondDecisionTaskCompletedResponse option \<Rightarrow> go_error option \<Rightarrow> go_error +
      WorkflowService_RespondDecisionTaskCompleted_Result" where
  "WorkflowService_RespondDecisionTaskCompleted_Helper_WrapResponse success err =
     (case err of None \<Rightarrow> Inr
         (WorkflowService_RespondDecisionTaskCompleted_Result_zero\<lparr>WorkflowService_RespondDecisionTaskCompleted_Result.Success := success\<rparr>)
      | Some err \<Rightarrow> (case err of
          E_BadRequestError e \<Rightarrow> (case e of
              None \<Rightarrow> Inl (E_New
                  ''WrapResponse received non-nil error type with nil value for WorkflowService_RespondDecisionTaskCompleted_Result.BadRequestError'')
            | Some e \<Rightarrow> Inr
                (WorkflowService_RespondDecisionTaskCompleted_Result_zero\<lparr>WorkflowService_RespondDecisionTaskCompleted_Result.BadRequestError := Some e\<rparr>))
        | E_InternalServiceError e \<Rightarrow> (case e of
              None \<Rightarrow> Inl (E_New
                  ''WrapResponse received non-nil error type with nil value for WorkflowService_RespondDecisionTaskCompleted_Result.InternalServiceError'')
            | Some e \<Rightarrow> Inr
                (WorkflowService_RespondDecisionTaskCompleted_Result_zero\<lparr>WorkflowService_RespondDecisionTaskCompleted_Result.InternalServiceError := Some e\<rparr>))
        | E_EntityNotExistsError e \<Rightarrow> (case e of
              None \<Rightarrow> Inl (E_New
                  ''WrapResponse received non-nil error type with nil value for WorkflowService_RespondDecisionTaskCompleted_Result.EntityNotExistError'')
            | Some e \<Rightarrow> Inr
                (WorkflowService_RespondDecisionTaskCompleted_Result_zero\<lparr>WorkflowService_RespondDecisionTaskCompleted_Result.EntityNotExistError := Some e\<rparr>))
        | E_DomainNotActiveError e \<Rightarrow> (case e of
              None \<Rightarrow> Inl (E_New
                  ''WrapResponse received non-nil error type with nil value for WorkflowService_RespondDecisionTaskCompleted_Result.DomainNotActiveError'')
            | Some e \<Rightarrow> Inr
                (WorkflowService_RespondDecisionTaskCompleted_Result_zero\<lparr>WorkflowService_RespondDecisionTaskCompleted_Result.DomainNotActiveError := Some e\<rparr>))
        | E_LimitExceededError e \<Rightarrow> (case e of
              None \<Rightarrow> Inl (E_New
                  ''WrapResponse received non-nil error type with nil value for WorkflowService_RespondDecisionTaskCompleted_Result.LimitExceededError'')
            | Some e \<Rightarrow> Inr
                (WorkflowService_RespondDecisionTaskCompleted_Result_zero\<lparr>WorkflowService_RespondDecisionTaskCompleted_Result.LimitExceededError := Some e\<rparr>))
        | E_ServiceBusyError e \<Rightarrow> (case e of
              None \<Rightarrow> Inl (E_New
                  ''WrapResponse received non-nil error type with nil value for WorkflowService_RespondDecisionTaskCompleted_Result.ServiceBusyError'')
            | Some e \<Rightarrow> Inr
                (WorkflowService_RespondDecisionTaskCompleted_Result_zero\<lparr>WorkflowService_RespondDecisionTaskCompleted_Result.ServiceBusyError := Some e\<rparr>))
        | E_ClientVersionNotSupportedError e \<Rightarrow> (case e of
              None \<Rightarrow> Inl (E_New
                  ''WrapResponse received non-nil error type with nil value for WorkflowService_RespondDecisionTaskCompleted_Result.ClientVersionNotSupportedError'')
            | Some e \<Rightarrow> Inr
                (WorkflowService_RespondDecisionTaskCompleted_Result_zero\<lparr>WorkflowService_RespondDecisionTaskCompleted_Result.ClientVersionNotSupportedError := Some e\<rparr>))
        | _ \<Rightarrow> Inl err))"

definition WorkflowService_RespondDecisionTaskCompleted_Helper_UnwrapResponse ::
  "WorkflowService_RespondDecisionTaskCompleted_Result \<Rightarrow> RespondDecisionTaskCompletedResponse option
      \<times> go_error option" where
  "WorkflowService_RespondDecisionTaskCompleted_Helper_UnwrapResponse result =
    (if WorkflowService_RespondDecisionTaskCompleted_Result.BadRequestError result \<noteq> None then
        (None, Some (E_BadRequestError
        (WorkflowService_RespondDecisionTaskCompleted_Result.BadRequestError result))) else
     if WorkflowService_RespondDecisionTaskCompleted_Result.InternalServiceError result \<noteq> None then
         (None, Some (E_InternalServiceError
         (WorkflowService_RespondDecisionTaskCompleted_Result.InternalServiceError result))) else
     if WorkflowService_RespondDecisionTaskCompleted_Result.EntityNotExistError result \<noteq> None then
         (None, Some (E_EntityNotExistsError
         (WorkflowService_RespondDecisionTaskCompleted_Result.EntityNotExistError result))) else
     if WorkflowService_RespondDecisionTaskCompleted_Result.DomainNotActiveError result \<noteq> None then
         (None, Some (E_DomainNotActiveError
         (WorkflowService_RespondDecisionTaskCompleted_Result.DomainNotActiveError result))) else
     if WorkflowService_RespondDecisionTaskCompleted_Result.LimitExceededError result \<noteq> None then
         (None, Some (E_LimitExceededError
         (WorkflowService_RespondDecisionTaskCompleted_Result.LimitExceededError result))) else
     if WorkflowService_RespondDecisionTaskCompleted_Result.ServiceBusyError result \<noteq> None then
         (None, Some (E_ServiceBusyError
         (WorkflowService_RespondDecisionTaskCompleted_Result.ServiceBusyError result))) else
     if WorkflowService_RespondDecisionTaskCompleted_Result.ClientVersionNotSupportedError result \<noteq>
         None then (None, Some (E_ClientVersionNotSupportedError
         (WorkflowService_RespondDecisionTaskCompleted_Result.ClientVersionNotSupportedError
         result))) else
     if WorkflowService_RespondDecisionTaskCompleted_Result.Success result \<noteq> None then
         (WorkflowService_RespondDecisionTaskCompleted_Result.Success result, None) else
     (None, Some (E_New ''expected a non-void result'')))"

definition handler_RespondDecisionTaskCompleted ::
  "'v wire_api \<Rightarrow> ('ctx \<Rightarrow> RespondDecisionTaskCompletedRequest option \<Rightarrow>
      RespondDecisionTaskCompletedResponse option \<times> go_error option) \<Rightarrow>
   ('ctx, 'v) unary_handler" where
  "handler_RespondDecisionTaskCompleted W impl ctx body =
     (case WorkflowService_RespondDecisionTaskCompleted_Args_FromWire W body
         WorkflowService_RespondDecisionTaskCompleted_Args_zero of
      Inl err \<Rightarrow> (no_response, Some err)
    | Inr args \<Rightarrow>
      let (success, err) = impl ctx
          (WorkflowService_RespondDecisionTaskCompleted_Args.CompleteRequest args);
          hadError = (err \<noteq> None)
      in case WorkflowService_RespondDecisionTaskCompleted_Helper_WrapResponse success err of
           Inl err \<Rightarrow> (no_response, Some err)
         | Inr result \<Rightarrow>
             (\<lparr>Body = Some (WorkflowService_RespondDecisionTaskCompleted_Result_enveloper W result),
               IsApplicationError = hadError\<rparr>, None))"

definition client_RespondDecisionTaskCompleted ::
  "'v wire_api \<Rightarrow> ('ctx, 'v) thrift_client \<Rightarrow> 'ctx \<Rightarrow> RespondDecisionTaskCompletedRequest option \<Rightarrow>
   RespondDecisionTaskCompletedResponse option \<times> go_error option" where
  "client_RespondDecisionTaskCompleted W call ctx r =
     (let args = WorkflowService_RespondDecisionTaskCompleted_Helper_Args r in
      case call ctx (WorkflowService_RespondDecisionTaskCompleted_Args_enveloper W args) of
        Inl e \<Rightarrow> (None, Some e)
      | Inr body \<Rightarrow>
          (case WorkflowService_RespondDecisionTaskCompleted_Result_FromWire W body
              WorkflowService_RespondDecisionTaskCompleted_Result_zero of
             Inl e \<Rightarrow> (None, Some e)
           | Inr result \<Rightarrow> WorkflowService_RespondDecisionTaskCompleted_Helper_UnwrapResponse
               result))"

lemma WorkflowService_RespondDecisionTaskCompleted_Args_merge:
  "(case x of None \<Rightarrow> Inr \<lparr>WorkflowService_RespondDecisionTaskCompleted_Args.CompleteRequest = a0\<rparr> |
      Some y \<Rightarrow> Inr \<lparr>WorkflowService_RespondDecisionTaskCompleted_Args.CompleteRequest = b0 y\<rparr>) =
   Inr \<lparr>WorkflowService_RespondDecisionTaskCompleted_Args.CompleteRequest = (case x of None \<Rightarrow> a0 |
       Some y \<Rightarrow> b0 y)\<rparr>"
  by (cases x) simp_all

interpretation WorkflowService_RespondDecisionTaskCompleted_Args: thrift_struct W
  "WorkflowService_RespondDecisionTaskCompleted_Args_ToWire W"
      "WorkflowService_RespondDecisionTaskCompleted_Args_FromWire W"
  WorkflowService_RespondDecisionTaskCompleted_Args_zero "\<lambda>x. if_set
      RespondDecisionTaskCompletedRequest_complete
      (WorkflowService_RespondDecisionTaskCompleted_Args.CompleteRequest x)" for W
proof (rule thrift_structI)
  fix x :: WorkflowService_RespondDecisionTaskCompleted_Args
  assume laws: "wire_laws W"
  obtain enc0 where e0: "RespondDecisionTaskCompletedRequest_ToWire W = (\<lambda>x. Inr (enc0 x))"
      "\<And>x. wire_api.Type W (enc0 x) = TStruct"
      "\<And>x. Writable W (enc0 x) \<longleftrightarrow> RespondDecisionTaskCompletedRequest_complete x"
      "\<And>x. RespondDecisionTaskCompletedRequest_complete x \<Longrightarrow>
          RespondDecisionTaskCompletedRequest_FromWire W (enc0 x)
          RespondDecisionTaskCompletedRequest_zero = Inr x"
    by (rule RespondDecisionTaskCompletedRequest.encoder [OF laws]) (rule that)
  show "\<exists>w. WorkflowService_RespondDecisionTaskCompleted_Args_ToWire W x = Inr w \<and> wire_api.Type W w
      = TStruct \<and>
      (Writable W w \<longleftrightarrow> if_set RespondDecisionTaskCompletedRequest_complete
          (WorkflowService_RespondDecisionTaskCompleted_Args.CompleteRequest x)) \<and> (if_set
          RespondDecisionTaskCompletedRequest_complete
          (WorkflowService_RespondDecisionTaskCompleted_Args.CompleteRequest x) \<longrightarrow>
          WorkflowService_RespondDecisionTaskCompleted_Args_FromWire W w
          WorkflowService_RespondDecisionTaskCompleted_Args_zero = Inr x)"
    by (cases x) (simp cong: option.case_cong add: codec_rules
        WorkflowService_RespondDecisionTaskCompleted_Args_merge
        WorkflowService_RespondDecisionTaskCompleted_Args_ToWire_def
        WorkflowService_RespondDecisionTaskCompleted_Args_FromWire_def
      WorkflowService_RespondDecisionTaskCompleted_Args_zero_def
          RespondDecisionTaskCompletedRequest_Read_def if_set_def laws e0)
qed

lemma WorkflowService_RespondDecisionTaskCompleted_Result_merge:
  "(case x of None \<Rightarrow> Inr \<lparr>WorkflowService_RespondDecisionTaskCompleted_Result.Success = a0,
      WorkflowService_RespondDecisionTaskCompleted_Result.BadRequestError = a1,
      WorkflowService_RespondDecisionTaskCompleted_Result.InternalServiceError = a2,
      WorkflowService_RespondDecisionTaskCompleted_Result.EntityNotExistError = a3,
      WorkflowService_RespondDecisionTaskCompleted_Result.DomainNotActiveError = a4,
      WorkflowService_RespondDecisionTaskCompleted_Result.LimitExceededError = a5,
      WorkflowService_RespondDecisionTaskCompleted_Result.ServiceBusyError = a6,
      WorkflowService_RespondDecisionTaskCompleted_Result.ClientVersionNotSupportedError = a7\<rparr> |
      Some y \<Rightarrow> Inr \<lparr>WorkflowService_RespondDecisionTaskCompleted_Result.Success = b0 y,
      WorkflowService_RespondDecisionTaskCompleted_Result.BadRequestError = b1 y,
      WorkflowService_RespondDecisionTaskCompleted_Result.InternalServiceError = b2 y,
      WorkflowService_RespondDecisionTaskCompleted_Result.EntityNotExistError = b3 y,
      WorkflowService_RespondDecisionTaskCompleted_Result.DomainNotActiveError = b4 y,
      WorkflowService_RespondDecisionTaskCompleted_Result.LimitExceededError = b5 y,
      WorkflowService_RespondDecisionTaskCompleted_Result.ServiceBusyError = b6 y,
      WorkflowService_RespondDecisionTaskCompleted_Result.ClientVersionNotSupportedError = b7 y\<rparr>) =
   Inr \<lparr>WorkflowService_RespondDecisionTaskCompleted_Result.Success = (case x of None \<Rightarrow> a0 | Some y
       \<Rightarrow> b0 y), WorkflowService_RespondDecisionTaskCompleted_Result.BadRequestError = (case x of
       None \<Rightarrow> a1 | Some y \<Rightarrow> b1 y),
       WorkflowService_RespondDecisionTaskCompleted_Result.InternalServiceError = (case x of None \<Rightarrow>
       a2 | Some y \<Rightarrow> b2 y), WorkflowService_RespondDecisionTaskCompleted_Result.EntityNotExistError
       = (case x of None \<Rightarrow> a3 | Some y \<Rightarrow> b3 y),
       WorkflowService_RespondDecisionTaskCompleted_Result.DomainNotActiveError = (case x of None \<Rightarrow>
       a4 | Some y \<Rightarrow> b4 y), WorkflowService_RespondDecisionTaskCompleted_Result.LimitExceededError =
       (case x of None \<Rightarrow> a5 | Some y \<Rightarrow> b5 y),
       WorkflowService_RespondDecisionTaskCompleted_Result.ServiceBusyError = (case x of None \<Rightarrow> a6 |
       Some y \<Rightarrow> b6 y),
       WorkflowService_RespondDecisionTaskCompleted_Result.ClientVersionNotSupportedError = (case x
       of None \<Rightarrow> a7 | Some y \<Rightarrow> b7 y)\<rparr>"
  by (cases x) simp_all

interpretation WorkflowService_RespondDecisionTaskCompleted_Result: thrift_struct W
  "WorkflowService_RespondDecisionTaskCompleted_Result_ToWire W"
      "WorkflowService_RespondDecisionTaskCompleted_Result_FromWire W"
  WorkflowService_RespondDecisionTaskCompleted_Result_zero "\<lambda>r.
      WorkflowService_RespondDecisionTaskCompleted_Result_count r = 1 \<and> if_set
      RespondDecisionTaskCompletedResponse_complete
      (WorkflowService_RespondDecisionTaskCompleted_Result.Success r)" for W
proof (rule thrift_checkedI)
  fix x :: WorkflowService_RespondDecisionTaskCompleted_Result
  assume laws: "wire_laws W"
  obtain enc0 where e0: "RespondDecisionTaskCompletedResponse_ToWire W = (\<lambda>x. Inr (enc0 x))"
      "\<And>x. wire_api.Type W (enc0 x) = TStruct"
      "\<And>x. Writable W (enc0 x) \<longleftrightarrow> RespondDecisionTaskCompletedResponse_complete x"
      "\<And>x. RespondDecisionTaskCompletedResponse_complete x \<Longrightarrow>
          RespondDecisionTaskCompletedResponse_FromWire W (enc0 x)
          RespondDecisionTaskCompletedResponse_zero = Inr x"
    by (rule RespondDecisionTaskCompletedResponse.encoder [OF laws]) (rule that)
  obtain enc1 where e1: "BadRequestError_ToWire W = (\<lambda>x. Inr (enc1 x))"
      "\<And>x. wire_api.Type W (enc1 x) = TStruct"
      "\<And>x. Writable W (enc1 x) \<longleftrightarrow> (\<lambda>_. True) x"
      "\<And>x. (\<lambda>_. True) x \<Longrightarrow> BadRequestError_FromWire W (enc1 x) BadRequestError_zero = Inr x"
    by (rule BadRequestError.encoder [OF laws]) (rule that)
  obtain enc2 where e2: "InternalServiceError_ToWire W = (\<lambda>x. Inr (enc2 x))"
      "\<And>x. wire_api.Type W (enc2 x) = TStruct"
      "\<And>x. Writable W (enc2 x) \<longleftrightarrow> (\<lambda>_. True) x"
      "\<And>x. (\<lambda>_. True) x \<Longrightarrow> InternalServiceError_FromWire W (enc2 x) InternalServiceError_zero = Inr
          x"
    by (rule InternalServiceError.encoder [OF laws]) (rule that)
  obtain enc3 where e3: "EntityNotExistsError_ToWire W = (\<lambda>x. Inr (enc3 x))"
      "\<And>x. wire_api.Type W (enc3 x) = TStruct"
      "\<And>x. Writable W (enc3 x) \<longleftrightarrow> (\<lambda>_. True) x"
      "\<And>x. (\<lambda>_. True) x \<Longrightarrow> EntityNotExistsError_FromWire W (enc3 x) EntityNotExistsError_zero = Inr
          x"
    by (rule EntityNotExistsError.encoder [OF laws]) (rule that)
  obtain enc4 where e4: "DomainNotActiveError_ToWire W = (\<lambda>x. Inr (enc4 x))"
      "\<And>x. wire_api.Type W (enc4 x) = TStruct"
      "\<And>x. Writable W (enc4 x) \<longleftrightarrow> (\<lambda>_. True) x"
      "\<And>x. (\<lambda>_. True) x \<Longrightarrow> DomainNotActiveError_FromWire W (enc4 x) DomainNotActiveError_zero = Inr
          x"
    by (rule DomainNotActiveError.encoder [OF laws]) (rule that)
  obtain enc5 where e5: "LimitExceededError_ToWire W = (\<lambda>x. Inr (enc5 x))"
      "\<And>x. wire_api.Type W (enc5 x) = TStruct"
      "\<And>x. Writable W (enc5 x) \<longleftrightarrow> (\<lambda>_. True) x"
      "\<And>x. (\<lambda>_. True) x \<Longrightarrow> LimitExceededError_FromWire W (enc5 x) LimitExceededError_zero = Inr x"
    by (rule LimitExceededError.encoder [OF laws]) (rule that)
  obtain enc6 where e6: "ServiceBusyError_ToWire W = (\<lambda>x. Inr (enc6 x))"
      "\<And>x. wire_api.Type W (enc6 x) = TStruct"
      "\<And>x. Writable W (enc6 x) \<longleftrightarrow> (\<lambda>_. True) x"
      "\<And>x. (\<lambda>_. True) x \<Longrightarrow> ServiceBusyError_FromWire W (enc6 x) ServiceBusyError_zero = Inr x"
    by (rule ServiceBusyError.encoder [OF laws]) (rule that)
  obtain enc7 where e7: "ClientVersionNotSupportedError_ToWire W = (\<lambda>x. Inr (enc7 x))"
      "\<And>x. wire_api.Type W (enc7 x) = TStruct"
      "\<And>x. Writable W (enc7 x) \<longleftrightarrow> (\<lambda>_. True) x"
      "\<And>x. (\<lambda>_. True) x \<Longrightarrow> ClientVersionNotSupportedError_FromWire W (enc7 x)
          ClientVersionNotSupportedError_zero = Inr x"
    by (rule ClientVersionNotSupportedError.encoder [OF laws]) (rule that)
  let ?fs = "((((((opt_field 0 enc0 (WorkflowService_RespondDecisionTaskCompleted_Result.Success x)
      @
      opt_field 1 enc1 (WorkflowService_RespondDecisionTaskCompleted_Result.BadRequestError x)) @
      opt_field 2 enc2 (WorkflowService_RespondDecisionTaskCompleted_Result.InternalServiceError x))
          @
      opt_field 3 enc3 (WorkflowService_RespondDecisionTaskCompleted_Result.EntityNotExistError x))
          @
      opt_field 4 enc4 (WorkflowService_RespondDecisionTaskCompleted_Result.DomainNotActiveError x))
          @
      opt_field 5 enc5 (WorkflowService_RespondDecisionTaskCompleted_Result.LimitExceededError x)) @
      opt_field 6 enc6 (WorkflowService_RespondDecisionTaskCompleted_Result.ServiceBusyError x)) @
      opt_field 7 enc7
          (WorkflowService_RespondDecisionTaskCompleted_Result.ClientVersionNotSupportedError x)"
  let ?check = "\<lambda>r. if WorkflowService_RespondDecisionTaskCompleted_Result_count x \<noteq> 1 then Inl
      (E_Errorf
      ''WorkflowService_RespondDecisionTaskCompleted_Result should have exactly one field: got %v fields'' (WorkflowService_RespondDecisionTaskCompleted_Result_count x)) else Inr r"
  have "length ?fs = WorkflowService_RespondDecisionTaskCompleted_Result_count x"
    by (simp add: WorkflowService_RespondDecisionTaskCompleted_Result_count_def length_opt_field
        split del: if_split)
  then have "WorkflowService_RespondDecisionTaskCompleted_Result_ToWire W x = ?check (NewValueStruct
      W ?fs)"
    by (simp only: WorkflowService_RespondDecisionTaskCompleted_Result_ToWire_def put_opt_field
        and_then.simps append_Nil e0(1) e1(1) e2(1) e3(1) e4(1) e5(1) e6(1) e7(1))
  moreover have "WorkflowService_RespondDecisionTaskCompleted_Result_FromWire W (NewValueStruct W
      ?fs) WorkflowService_RespondDecisionTaskCompleted_Result_zero = ?check x"
    if "if_set RespondDecisionTaskCompletedResponse_complete
        (WorkflowService_RespondDecisionTaskCompleted_Result.Success x)"
    by (cases x, hypsubst) (simp cong: option.case_cong split del: if_split add: codec_rules Let_def
        WorkflowService_RespondDecisionTaskCompleted_Result_merge
      WorkflowService_RespondDecisionTaskCompleted_Result_FromWire_def
          WorkflowService_RespondDecisionTaskCompleted_Result_zero_def laws if_set_def that
          [unfolded if_set_def]
      BadRequestError_Read_def
      ClientVersionNotSupportedError_Read_def
      DomainNotActiveError_Read_def
      EntityNotExistsError_Read_def
      InternalServiceError_Read_def
      LimitExceededError_Read_def
      RespondDecisionTaskCompletedResponse_Read_def
      ServiceBusyError_Read_def
      e0 e1 e2 e3 e4 e5 e6 e7)
  ultimately show "if WorkflowService_RespondDecisionTaskCompleted_Result_count x = 1
      then \<exists>w. WorkflowService_RespondDecisionTaskCompleted_Result_ToWire W x = Inr w \<and>
          wire_api.Type W w = TStruct \<and>
        (Writable W w \<longleftrightarrow> if_set RespondDecisionTaskCompletedResponse_complete
            (WorkflowService_RespondDecisionTaskCompleted_Result.Success x)) \<and> (if_set
            RespondDecisionTaskCompletedResponse_complete
            (WorkflowService_RespondDecisionTaskCompleted_Result.Success x) \<longrightarrow>
            WorkflowService_RespondDecisionTaskCompleted_Result_FromWire W w
            WorkflowService_RespondDecisionTaskCompleted_Result_zero = Inr x)
      else \<exists>e. WorkflowService_RespondDecisionTaskCompleted_Result_ToWire W x = Inl e"
    by (simp add: laws codec_rules e0 e1 e2 e3 e4 e5 e6 e7)
qed

interpretation RespondDecisionTaskCompleted: rpc_method W
  "WorkflowService_RespondDecisionTaskCompleted_Args_ToWire W"
      "WorkflowService_RespondDecisionTaskCompleted_Args_FromWire W"
      WorkflowService_RespondDecisionTaskCompleted_Args_zero "\<lambda>x. if_set
      RespondDecisionTaskCompletedRequest_complete
      (WorkflowService_RespondDecisionTaskCompleted_Args.CompleteRequest x)"
  "WorkflowService_RespondDecisionTaskCompleted_Result_ToWire W"
      "WorkflowService_RespondDecisionTaskCompleted_Result_FromWire W"
      WorkflowService_RespondDecisionTaskCompleted_Result_zero
  "\<lambda>r. WorkflowService_RespondDecisionTaskCompleted_Result_count r = 1 \<and> if_set
      RespondDecisionTaskCompletedResponse_complete
      (WorkflowService_RespondDecisionTaskCompleted_Result.Success r)"
      "''RespondDecisionTaskCompleted''"
  WorkflowService_RespondDecisionTaskCompleted_Helper_Args
      "WorkflowService_RespondDecisionTaskCompleted_Args.CompleteRequest"
  "\<lambda>(success, err). WorkflowService_RespondDecisionTaskCompleted_Helper_WrapResponse success err"
      WorkflowService_RespondDecisionTaskCompleted_Helper_UnwrapResponse
  "\<lambda>out. snd out \<noteq> None" "carried RespondDecisionTaskCompletedResponse_complete
      WorkflowService_RespondDecisionTaskCompleted_Helper_IsException" error_first "\<lambda>e. (None, Some
      e)"
  "handler_RespondDecisionTaskCompleted W" "client_RespondDecisionTaskCompleted W" for W
proof
  fix out :: "RespondDecisionTaskCompletedResponse option \<times> go_error option"
  assume "carried RespondDecisionTaskCompletedResponse_complete
      WorkflowService_RespondDecisionTaskCompleted_Helper_IsException out"
  then show "case (\<lambda>(success, err). WorkflowService_RespondDecisionTaskCompleted_Helper_WrapResponse
      success err) out of Inl e \<Rightarrow> False
      | Inr res \<Rightarrow> (WorkflowService_RespondDecisionTaskCompleted_Result_count res = 1 \<and> if_set
          RespondDecisionTaskCompletedResponse_complete
          (WorkflowService_RespondDecisionTaskCompleted_Result.Success res)) \<and>
          WorkflowService_RespondDecisionTaskCompleted_Helper_UnwrapResponse res = error_first out"
    by (cases out; cases "snd out"; cases "the (snd out)")
      (auto simp: WorkflowService_RespondDecisionTaskCompleted_Helper_IsException_def
          WorkflowService_RespondDecisionTaskCompleted_Helper_WrapResponse_def
          WorkflowService_RespondDecisionTaskCompleted_Helper_UnwrapResponse_def
        declared_nonnil_def WorkflowService_RespondDecisionTaskCompleted_Result_zero_def
            WorkflowService_RespondDecisionTaskCompleted_Result_count_def elim!: present.elims)
next
  fix out :: "RespondDecisionTaskCompletedResponse option \<times> go_error option"
  assume "\<not> carried RespondDecisionTaskCompletedResponse_complete
      WorkflowService_RespondDecisionTaskCompleted_Helper_IsException out"
  then show "case (\<lambda>(success, err). WorkflowService_RespondDecisionTaskCompleted_Helper_WrapResponse
      success err) out of Inl e \<Rightarrow> True
      | Inr res \<Rightarrow> \<not> (WorkflowService_RespondDecisionTaskCompleted_Result_count res = 1 \<and> if_set
          RespondDecisionTaskCompletedResponse_complete
          (WorkflowService_RespondDecisionTaskCompleted_Result.Success res))"
    by (cases out; cases "snd out"; cases "the (snd out)")
      (auto simp: WorkflowService_RespondDecisionTaskCompleted_Helper_IsException_def
          WorkflowService_RespondDecisionTaskCompleted_Helper_WrapResponse_def declared_nonnil_def
        WorkflowService_RespondDecisionTaskCompleted_Result_count_def
            WorkflowService_RespondDecisionTaskCompleted_Result_zero_def split: option.splits)
qed (auto simp: WorkflowService_RespondDecisionTaskCompleted_Helper_Args_def
    handler_RespondDecisionTaskCompleted_def client_RespondDecisionTaskCompleted_def
      WorkflowService_RespondDecisionTaskCompleted_Args_enveloper_def
          WorkflowService_RespondDecisionTaskCompleted_Result_enveloper_def
      Let_def split: sum.splits prod.splits)

section \<open>RespondDecisionTaskFailed\<close>

record WorkflowService_RespondDecisionTaskFailed_Args =
  FailedRequest :: "RespondDecisionTaskFailedRequest option"

definition WorkflowService_RespondDecisionTaskFailed_Args_zero ::
    WorkflowService_RespondDecisionTaskFailed_Args where
  "WorkflowService_RespondDecisionTaskFailed_Args_zero =
      \<lparr>WorkflowService_RespondDecisionTaskFailed_Args.FailedRequest = None\<rparr>"

definition WorkflowService_RespondDecisionTaskFailed_Args_ToWire ::
  "'v wire_api \<Rightarrow> WorkflowService_RespondDecisionTaskFailed_Args \<Rightarrow> go_error + 'v" where
  "WorkflowService_RespondDecisionTaskFailed_Args_ToWire W v =
     and_then (put_opt 1 (RespondDecisionTaskFailedRequest_ToWire W)
         (WorkflowService_RespondDecisionTaskFailed_Args.FailedRequest v) [])
       (\<lambda>fields.
     Inr (NewValueStruct W fields))"

definition WorkflowService_RespondDecisionTaskFailed_Args_FromWire ::
  "'v wire_api \<Rightarrow> 'v \<Rightarrow> WorkflowService_RespondDecisionTaskFailed_Args \<Rightarrow> go_error +
      WorkflowService_RespondDecisionTaskFailed_Args" where
  "WorkflowService_RespondDecisionTaskFailed_Args_FromWire W w v =
     foldM (\<lambda>v (fid, fval).
       if fid = 1 then
         if wire_api.Type W fval = TStruct
         then and_then (RespondDecisionTaskFailedRequest_Read W fval) (\<lambda>x. Inr
             (v\<lparr>WorkflowService_RespondDecisionTaskFailed_Args.FailedRequest := Some x\<rparr>))
         else Inr v
       else Inr v) (GetStruct W w) v"

definition WorkflowService_RespondDecisionTaskFailed_Args_enveloper ::
  "'v wire_api \<Rightarrow> WorkflowService_RespondDecisionTaskFailed_Args \<Rightarrow> 'v enveloper" where
  "WorkflowService_RespondDecisionTaskFailed_Args_enveloper W v =
     \<lparr>MethodName = ''RespondDecisionTaskFailed'', EnvelopeType = Call, EnvelopeToWire =
         WorkflowService_RespondDecisionTaskFailed_Args_ToWire W v\<rparr>"

definition WorkflowService_RespondDecisionTaskFailed_Args_Equals ::
  "WorkflowService_RespondDecisionTaskFailed_Args option \<Rightarrow>
      WorkflowService_RespondDecisionTaskFailed_Args option \<Rightarrow> bool" where
  "WorkflowService_RespondDecisionTaskFailed_Args_Equals v rhs =
     (case v of None \<Rightarrow> rhs = None
      | Some v \<Rightarrow> (case rhs of None \<Rightarrow> False
        | Some rhs \<Rightarrow>
          if \<not> both_set_and (\<lambda>x y. RespondDecisionTaskFailedRequest_Equals (Some x) (Some y))
              (WorkflowService_RespondDecisionTaskFailed_Args.FailedRequest v)
              (WorkflowService_RespondDecisionTaskFailed_Args.FailedRequest rhs) then False else
          True))"

lemma WorkflowService_RespondDecisionTaskFailed_Args_Equals_iff [simp]:
    "WorkflowService_RespondDecisionTaskFailed_Args_Equals x y \<longleftrightarrow> x = y"
  by (cases x; cases y) (auto simp: WorkflowService_RespondDecisionTaskFailed_Args_Equals_def)

record WorkflowService_RespondDecisionTaskFailed_Result =
  BadRequestError :: "BadRequestError option"
  InternalServiceError :: "InternalServiceError option"
  EntityNotExistError :: "EntityNotExistsError option"
  DomainNotActiveError :: "DomainNotActiveError option"
  LimitExceededError :: "LimitExceededError option"
  ServiceBusyError :: "ServiceBusyError option"
  ClientVersionNotSupportedError :: "ClientVersionNotSupportedError option"

definition WorkflowService_RespondDecisionTaskFailed_Result_count ::
    "WorkflowService_RespondDecisionTaskFailed_Result \<Rightarrow> nat" where
  "WorkflowService_RespondDecisionTaskFailed_Result_count v =
     (if WorkflowService_RespondDecisionTaskFailed_Result.BadRequestError v \<noteq> None then 1 else 0) +
     (if WorkflowService_RespondDecisionTaskFailed_Result.InternalServiceError v \<noteq> None then 1 else
         0) +
     (if WorkflowService_RespondDecisionTaskFailed_Result.EntityNotExistError v \<noteq> None then 1 else
         0) +
     (if WorkflowService_RespondDecisionTaskFailed_Result.DomainNotActiveError v \<noteq> None then 1 else
         0) +
     (if WorkflowService_RespondDecisionTaskFailed_Result.LimitExceededError v \<noteq> None then 1 else 0)
         +
     (if WorkflowService_RespondDecisionTaskFailed_Result.ServiceBusyError v \<noteq> None then 1 else 0) +
     (if WorkflowService_RespondDecisionTaskFailed_Result.ClientVersionNotSupportedError v \<noteq> None
         then 1 else 0)"

definition WorkflowService_RespondDecisionTaskFailed_Result_zero ::
    WorkflowService_RespondDecisionTaskFailed_Result where
  "WorkflowService_RespondDecisionTaskFailed_Result_zero =
      \<lparr>WorkflowService_RespondDecisionTaskFailed_Result.BadRequestError = None,
      WorkflowService_RespondDecisionTaskFailed_Result.InternalServiceError = None,
      WorkflowService_RespondDecisionTaskFailed_Result.EntityNotExistError = None,
      WorkflowService_RespondDecisionTaskFailed_Result.DomainNotActiveError = None,
      WorkflowService_RespondDecisionTaskFailed_Result.LimitExceededError = None,
      WorkflowService_RespondDecisionTaskFailed_Result.ServiceBusyError = None,
      WorkflowService_RespondDecisionTaskFailed_Result.ClientVersionNotSupportedError = None\<rparr>"

definition WorkflowService_RespondDecisionTaskFailed_Result_ToWire ::
  "'v wire_api \<Rightarrow> WorkflowService_RespondDecisionTaskFailed_Result \<Rightarrow> go_error + 'v" where
  "WorkflowService_RespondDecisionTaskFailed_Result_ToWire W v =
     and_then (put_opt 1 (BadRequestError_ToWire W)
         (WorkflowService_RespondDecisionTaskFailed_Result.BadRequestError v) [])
       (\<lambda>fields.
     and_then (put_opt 2 (InternalServiceError_ToWire W)
         (WorkflowService_RespondDecisionTaskFailed_Result.InternalServiceError v) fields)
       (\<lambda>fields.
     and_then (put_opt 3 (EntityNotExistsError_ToWire W)
         (WorkflowService_RespondDecisionTaskFailed_Result.EntityNotExistError v) fields)
       (\<lambda>fields.
     and_then (put_opt 4 (DomainNotActiveError_ToWire W)
         (WorkflowService_RespondDecisionTaskFailed_Result.DomainNotActiveError v) fields)
       (\<lambda>fields.
     and_then (put_opt 5 (LimitExceededError_ToWire W)
         (WorkflowService_RespondDecisionTaskFailed_Result.LimitExceededError v) fields)
       (\<lambda>fields.
     and_then (put_opt 6 (ServiceBusyError_ToWire W)
         (WorkflowService_RespondDecisionTaskFailed_Result.ServiceBusyError v) fields)
       (\<lambda>fields.
     and_then (put_opt 7 (ClientVersionNotSupportedError_ToWire W)
         (WorkflowService_RespondDecisionTaskFailed_Result.ClientVersionNotSupportedError v) fields)
       (\<lambda>fields.
     if 1 < length fields
     then Inl (E_Errorf
         ''WorkflowService_RespondDecisionTaskFailed_Result should have at most one field: got %v fields'' (length fields))
     else Inr (NewValueStruct W fields))))))))"

definition WorkflowService_RespondDecisionTaskFailed_Result_FromWire ::
  "'v wire_api \<Rightarrow> 'v \<Rightarrow> WorkflowService_RespondDecisionTaskFailed_Result \<Rightarrow> go_error +
      WorkflowService_RespondDecisionTaskFailed_Result" where
  "WorkflowService_RespondDecisionTaskFailed_Result_FromWire W w v =
     and_then (foldM (\<lambda>v (fid, fval).
       if fid = 1 then
         if wire_api.Type W fval = TStruct
         then and_then (BadRequestError_Read W fval) (\<lambda>x. Inr
             (v\<lparr>WorkflowService_RespondDecisionTaskFailed_Result.BadRequestError := Some x\<rparr>))
         else Inr v
       else if fid = 2 then
         if wire_api.Type W fval = TStruct
         then and_then (InternalServiceError_Read W fval) (\<lambda>x. Inr
             (v\<lparr>WorkflowService_RespondDecisionTaskFailed_Result.InternalServiceError := Some x\<rparr>))
         else Inr v
       else if fid = 3 then
         if wire_api.Type W fval = TStruct
         then and_then (EntityNotExistsError_Read W fval) (\<lambda>x. Inr
             (v\<lparr>WorkflowService_RespondDecisionTaskFailed_Result.EntityNotExistError := Some x\<rparr>))
         else Inr v
       else if fid = 4 then
         if wire_api.Type W fval = TStruct
         then and_then (DomainNotActiveError_Read W fval) (\<lambda>x. Inr
             (v\<lparr>WorkflowService_RespondDecisionTaskFailed_Result.DomainNotActiveError := Some x\<rparr>))
         else Inr v
       else if fid = 5 then
         if wire_api.Type W fval = TStruct
         then and_then (LimitExceededError_Read W fval) (\<lambda>x. Inr
             (v\<lparr>WorkflowService_RespondDecisionTaskFailed_Result.LimitExceededError := Some x\<rparr>))
         else Inr v
       else if fid = 6 then
         if wire_api.Type W fval = TStruct
         then and_then (ServiceBusyError_Read W fval) (\<lambda>x. Inr
             (v\<lparr>WorkflowService_RespondDecisionTaskFailed_Result.ServiceBusyError := Some x\<rparr>))
         else Inr v
       else if fid = 7 then
         if wire_api.Type W fval = TStruct
         then and_then (ClientVersionNotSupportedError_Read W fval) (\<lambda>x. Inr
             (v\<lparr>WorkflowService_RespondDecisionTaskFailed_Result.ClientVersionNotSupportedError :=
             Some x\<rparr>))
         else Inr v
       else Inr v) (GetStruct W w) v) (\<lambda>v.
     let count = WorkflowService_RespondDecisionTaskFailed_Result_count v in
     if 1 < count
     then Inl (E_Errorf
         ''WorkflowService_RespondDecisionTaskFailed_Result should have at most one field: got %v fields'' count)
     else Inr v)"

definition WorkflowService_RespondDecisionTaskFailed_Result_enveloper ::
  "'v wire_api \<Rightarrow> WorkflowService_RespondDecisionTaskFailed_Result \<Rightarrow> 'v enveloper" where
  "WorkflowService_RespondDecisionTaskFailed_Result_enveloper W v =
     \<lparr>MethodName = ''RespondDecisionTaskFailed'', EnvelopeType = Reply, EnvelopeToWire =
         WorkflowService_RespondDecisionTaskFailed_Result_ToWire W v\<rparr>"

definition WorkflowService_RespondDecisionTaskFailed_Result_Equals ::
  "WorkflowService_RespondDecisionTaskFailed_Result option \<Rightarrow>
      WorkflowService_RespondDecisionTaskFailed_Result option \<Rightarrow> bool" where
  "WorkflowService_RespondDecisionTaskFailed_Result_Equals v rhs =
     (case v of None \<Rightarrow> rhs = None
      | Some v \<Rightarrow> (case rhs of None \<Rightarrow> False
        | Some rhs \<Rightarrow>
          if \<not> both_set_and (\<lambda>x y. BadRequestError_Equals (Some x) (Some y))
              (WorkflowService_RespondDecisionTaskFailed_Result.BadRequestError v)
              (WorkflowService_RespondDecisionTaskFailed_Result.BadRequestError rhs) then False else
          if \<not> both_set_and (\<lambda>x y. InternalServiceError_Equals (Some x) (Some y))
              (WorkflowService_RespondDecisionTaskFailed_Result.InternalServiceError v)
              (WorkflowService_RespondDecisionTaskFailed_Result.InternalServiceError rhs) then False
              else
          if \<not> both_set_and (\<lambda>x y. EntityNotExistsError_Equals (Some x) (Some y))
              (WorkflowService_RespondDecisionTaskFailed_Result.EntityNotExistError v)
              (WorkflowService_RespondDecisionTaskFailed_Result.EntityNotExistError rhs) then False
              else
          if \<not> both_set_and (\<lambda>x y. DomainNotActiveError_Equals (Some x) (Some y))
              (WorkflowService_RespondDecisionTaskFailed_Result.DomainNotActiveError v)
              (WorkflowService_RespondDecisionTaskFailed_Result.DomainNotActiveError rhs) then False
              else
          if \<not> both_set_and (\<lambda>x y. LimitExceededError_Equals (Some x) (Some y))
              (WorkflowService_RespondDecisionTaskFailed_Result.LimitExceededError v)
              (WorkflowService_RespondDecisionTaskFailed_Result.LimitExceededError rhs) then False
              else
          if \<not> both_set_and (\<lambda>x y. ServiceBusyError_Equals (Some x) (Some y))
              (WorkflowService_RespondDecisionTaskFailed_Result.ServiceBusyError v)
              (WorkflowService_RespondDecisionTaskFailed_Result.ServiceBusyError rhs) then False
              else
          if \<not> both_set_and (\<lambda>x y. ClientVersionNotSupportedError_Equals (Some x) (Some y))
              (WorkflowService_RespondDecisionTaskFailed_Result.ClientVersionNotSupportedError v)
              (WorkflowService_RespondDecisionTaskFailed_Result.ClientVersionNotSupportedError rhs)
              then False else
          True))"

lemma WorkflowService_RespondDecisionTaskFailed_Result_Equals_iff [simp]:
    "WorkflowService_RespondDecisionTaskFailed_Result_Equals x y \<longleftrightarrow> x = y"
  by (cases x; cases y) (simp_all add: WorkflowService_RespondDecisionTaskFailed_Result_Equals_def
      if_not_False, fastforce intro: WorkflowService_RespondDecisionTaskFailed_Result.equality)

definition WorkflowService_RespondDecisionTaskFailed_Helper_Args ::
    "RespondDecisionTaskFailedRequest option \<Rightarrow> WorkflowService_RespondDecisionTaskFailed_Args" where
  "WorkflowService_RespondDecisionTaskFailed_Helper_Args r =
      \<lparr>WorkflowService_RespondDecisionTaskFailed_Args.FailedRequest = r\<rparr>"

definition WorkflowService_RespondDecisionTaskFailed_Helper_IsException :: "go_error \<Rightarrow> bool" where
  "WorkflowService_RespondDecisionTaskFailed_Helper_IsException err =
     (case err of
        E_BadRequestError _ \<Rightarrow> True
      | E_InternalServiceError _ \<Rightarrow> True
      | E_EntityNotExistsError _ \<Rightarrow> True
      | E_DomainNotActiveError _ \<Rightarrow> True
      | E_LimitExceededError _ \<Rightarrow> True
      | E_ServiceBusyError _ \<Rightarrow> True
      | E_ClientVersionNotSupportedError _ \<Rightarrow> True
      | _ \<Rightarrow> False)"

definition WorkflowService_RespondDecisionTaskFailed_Helper_WrapResponse ::
  "go_error option \<Rightarrow> go_error + WorkflowService_RespondDecisionTaskFailed_Result" where
  "WorkflowService_RespondDecisionTaskFailed_Helper_WrapResponse err =
     (case err of None \<Rightarrow> Inr WorkflowService_RespondDecisionTaskFailed_Result_zero
      | Some err \<Rightarrow> (case err of
          E_BadRequestError e \<Rightarrow> (case e of
              None \<Rightarrow> Inl (E_New
                  ''WrapResponse received non-nil error type with nil value for WorkflowService_RespondDecisionTaskFailed_Result.BadRequestError'')
            | Some e \<Rightarrow> Inr
                (WorkflowService_RespondDecisionTaskFailed_Result_zero\<lparr>WorkflowService_RespondDecisionTaskFailed_Result.BadRequestError := Some e\<rparr>))
        | E_InternalServiceError e \<Rightarrow> (case e of
              None \<Rightarrow> Inl (E_New
                  ''WrapResponse received non-nil error type with nil value for WorkflowService_RespondDecisionTaskFailed_Result.InternalServiceError'')
            | Some e \<Rightarrow> Inr
                (WorkflowService_RespondDecisionTaskFailed_Result_zero\<lparr>WorkflowService_RespondDecisionTaskFailed_Result.InternalServiceError := Some e\<rparr>))
        | E_EntityNotExistsError e \<Rightarrow> (case e of
              None \<Rightarrow> Inl (E_New
                  ''WrapResponse received non-nil error type with nil value for WorkflowService_RespondDecisionTaskFailed_Result.EntityNotExistError'')
            | Some e \<Rightarrow> Inr
                (WorkflowService_RespondDecisionTaskFailed_Result_zero\<lparr>WorkflowService_RespondDecisionTaskFailed_Result.EntityNotExistError := Some e\<rparr>))
        | E_DomainNotActiveError e \<Rightarrow> (case e of
              None \<Rightarrow> Inl (E_New
                  ''WrapResponse received non-nil error type with nil value for WorkflowService_RespondDecisionTaskFailed_Result.DomainNotActiveError'')
            | Some e \<Rightarrow> Inr
                (WorkflowService_RespondDecisionTaskFailed_Result_zero\<lparr>WorkflowService_RespondDecisionTaskFailed_Result.DomainNotActiveError := Some e\<rparr>))
        | E_LimitExceededError e \<Rightarrow> (case e of
              None \<Rightarrow> Inl (E_New
                  ''WrapResponse received non-nil error type with nil value for WorkflowService_RespondDecisionTaskFailed_Result.LimitExceededError'')
            | Some e \<Rightarrow> Inr
                (WorkflowService_RespondDecisionTaskFailed_Result_zero\<lparr>WorkflowService_RespondDecisionTaskFailed_Result.LimitExceededError := Some e\<rparr>))
        | E_ServiceBusyError e \<Rightarrow> (case e of
              None \<Rightarrow> Inl (E_New
                  ''WrapResponse received non-nil error type with nil value for WorkflowService_RespondDecisionTaskFailed_Result.ServiceBusyError'')
            | Some e \<Rightarrow> Inr
                (WorkflowService_RespondDecisionTaskFailed_Result_zero\<lparr>WorkflowService_RespondDecisionTaskFailed_Result.ServiceBusyError := Some e\<rparr>))
        | E_ClientVersionNotSupportedError e \<Rightarrow> (case e of
              None \<Rightarrow> Inl (E_New
                  ''WrapResponse received non-nil error type with nil value for WorkflowService_RespondDecisionTaskFailed_Result.ClientVersionNotSupportedError'')
            | Some e \<Rightarrow> Inr
                (WorkflowService_RespondDecisionTaskFailed_Result_zero\<lparr>WorkflowService_RespondDecisionTaskFailed_Result.ClientVersionNotSupportedError := Some e\<rparr>))
        | _ \<Rightarrow> Inl err))"

definition WorkflowService_RespondDecisionTaskFailed_Helper_UnwrapResponse ::
  "WorkflowService_RespondDecisionTaskFailed_Result \<Rightarrow> go_error option" where
  "WorkflowService_RespondDecisionTaskFailed_Helper_UnwrapResponse result =
    (if WorkflowService_RespondDecisionTaskFailed_Result.BadRequestError result \<noteq> None then Some
        (E_BadRequestError (WorkflowService_RespondDecisionTaskFailed_Result.BadRequestError
        result)) else
     if WorkflowService_RespondDecisionTaskFailed_Result.InternalServiceError result \<noteq> None then
         Some (E_InternalServiceError
         (WorkflowService_RespondDecisionTaskFailed_Result.InternalServiceError result)) else
     if WorkflowService_RespondDecisionTaskFailed_Result.EntityNotExistError result \<noteq> None then Some
         (E_EntityNotExistsError
         (WorkflowService_RespondDecisionTaskFailed_Result.EntityNotExistError result)) else
     if WorkflowService_RespondDecisionTaskFailed_Result.DomainNotActiveError result \<noteq> None then
         Some (E_DomainNotActiveError
         (WorkflowService_RespondDecisionTaskFailed_Result.DomainNotActiveError result)) else
     if WorkflowService_RespondDecisionTaskFailed_Result.LimitExceededError result \<noteq> None then Some
         (E_LimitExceededError (WorkflowService_RespondDecisionTaskFailed_Result.LimitExceededError
         result)) else
     if WorkflowService_RespondDecisionTaskFailed_Result.ServiceBusyError result \<noteq> None then Some
         (E_ServiceBusyError (WorkflowService_RespondDecisionTaskFailed_Result.ServiceBusyError
         result)) else
     if WorkflowService_RespondDecisionTaskFailed_Result.ClientVersionNotSupportedError result \<noteq>
         None then Some (E_ClientVersionNotSupportedError
         (WorkflowService_RespondDecisionTaskFailed_Result.ClientVersionNotSupportedError result))
         else
     None)"

definition handler_RespondDecisionTaskFailed ::
  "'v wire_api \<Rightarrow> ('ctx \<Rightarrow> RespondDecisionTaskFailedRequest option \<Rightarrow> go_error option) \<Rightarrow>
   ('ctx, 'v) unary_handler" where
  "handler_RespondDecisionTaskFailed W impl ctx body =
     (case WorkflowService_RespondDecisionTaskFailed_Args_FromWire W body
         WorkflowService_RespondDecisionTaskFailed_Args_zero of
      Inl err \<Rightarrow> (no_response, Some err)
    | Inr args \<Rightarrow>
      let err = impl ctx (WorkflowService_RespondDecisionTaskFailed_Args.FailedRequest args);
          hadError = (err \<noteq> None)
      in case WorkflowService_RespondDecisionTaskFailed_Helper_WrapResponse err of
           Inl err \<Rightarrow> (no_response, Some err)
         | Inr result \<Rightarrow>
             (\<lparr>Body = Some (WorkflowService_RespondDecisionTaskFailed_Result_enveloper W result),
               IsApplicationError = hadError\<rparr>, None))"

definition client_RespondDecisionTaskFailed ::
  "'v wire_api \<Rightarrow> ('ctx, 'v) thrift_client \<Rightarrow> 'ctx \<Rightarrow> RespondDecisionTaskFailedRequest option \<Rightarrow>
   go_error option" where
  "client_RespondDecisionTaskFailed W call ctx r =
     (let args = WorkflowService_RespondDecisionTaskFailed_Helper_Args r in
      case call ctx (WorkflowService_RespondDecisionTaskFailed_Args_enveloper W args) of
        Inl e \<Rightarrow> Some e
      | Inr body \<Rightarrow>
          (case WorkflowService_RespondDecisionTaskFailed_Result_FromWire W body
              WorkflowService_RespondDecisionTaskFailed_Result_zero of
             Inl e \<Rightarrow> Some e
           | Inr result \<Rightarrow> WorkflowService_RespondDecisionTaskFailed_Helper_UnwrapResponse result))"

lemma WorkflowService_RespondDecisionTaskFailed_Args_merge:
  "(case x of None \<Rightarrow> Inr \<lparr>WorkflowService_RespondDecisionTaskFailed_Args.FailedRequest = a0\<rparr> | Some
      y \<Rightarrow> Inr \<lparr>WorkflowService_RespondDecisionTaskFailed_Args.FailedRequest = b0 y\<rparr>) =
   Inr \<lparr>WorkflowService_RespondDecisionTaskFailed_Args.FailedRequest = (case x of None \<Rightarrow> a0 | Some y
       \<Rightarrow> b0 y)\<rparr>"
  by (cases x) simp_all

interpretation WorkflowService_RespondDecisionTaskFailed_Args: thrift_struct W
  "WorkflowService_RespondDecisionTaskFailed_Args_ToWire W"
      "WorkflowService_RespondDecisionTaskFailed_Args_FromWire W"
  WorkflowService_RespondDecisionTaskFailed_Args_zero "\<lambda>x. True" for W
proof (rule thrift_structI)
  fix x :: WorkflowService_RespondDecisionTaskFailed_Args
  assume laws: "wire_laws W"
  obtain enc0 where e0: "RespondDecisionTaskFailedRequest_ToWire W = (\<lambda>x. Inr (enc0 x))"
      "\<And>x. wire_api.Type W (enc0 x) = TStruct"
      "\<And>x. Writable W (enc0 x) \<longleftrightarrow> (\<lambda>_. True) x"
      "\<And>x. (\<lambda>_. True) x \<Longrightarrow> RespondDecisionTaskFailedRequest_FromWire W (enc0 x)
          RespondDecisionTaskFailedRequest_zero = Inr x"
    by (rule RespondDecisionTaskFailedRequest.encoder [OF laws]) (rule that)
  show "\<exists>w. WorkflowService_RespondDecisionTaskFailed_Args_ToWire W x = Inr w \<and> wire_api.Type W w =
      TStruct \<and>
      (Writable W w \<longleftrightarrow> True) \<and> (True \<longrightarrow> WorkflowService_RespondDecisionTaskFailed_Args_FromWire W w
          WorkflowService_RespondDecisionTaskFailed_Args_zero = Inr x)"
    by (cases x) (simp cong: option.case_cong add: codec_rules
        WorkflowService_RespondDecisionTaskFailed_Args_merge
        WorkflowService_RespondDecisionTaskFailed_Args_ToWire_def
        WorkflowService_RespondDecisionTaskFailed_Args_FromWire_def
      WorkflowService_RespondDecisionTaskFailed_Args_zero_def
          RespondDecisionTaskFailedRequest_Read_def if_set_def laws e0)
qed

lemma WorkflowService_RespondDecisionTaskFailed_Result_merge:
  "(case x of None \<Rightarrow> Inr \<lparr>WorkflowService_RespondDecisionTaskFailed_Result.BadRequestError = a0,
      WorkflowService_RespondDecisionTaskFailed_Result.InternalServiceError = a1,
      WorkflowService_RespondDecisionTaskFailed_Result.EntityNotExistError = a2,
      WorkflowService_RespondDecisionTaskFailed_Result.DomainNotActiveError = a3,
      WorkflowService_RespondDecisionTaskFailed_Result.LimitExceededError = a4,
      WorkflowService_RespondDecisionTaskFailed_Result.ServiceBusyError = a5,
      WorkflowService_RespondDecisionTaskFailed_Result.ClientVersionNotSupportedError = a6\<rparr> | Some y
      \<Rightarrow> Inr \<lparr>WorkflowService_RespondDecisionTaskFailed_Result.BadRequestError = b0 y,
      WorkflowService_RespondDecisionTaskFailed_Result.InternalServiceError = b1 y,
      WorkflowService_RespondDecisionTaskFailed_Result.EntityNotExistError = b2 y,
      WorkflowService_RespondDecisionTaskFailed_Result.DomainNotActiveError = b3 y,
      WorkflowService_RespondDecisionTaskFailed_Result.LimitExceededError = b4 y,
      WorkflowService_RespondDecisionTaskFailed_Result.ServiceBusyError = b5 y,
      WorkflowService_RespondDecisionTaskFailed_Result.ClientVersionNotSupportedError = b6 y\<rparr>) =
   Inr \<lparr>WorkflowService_RespondDecisionTaskFailed_Result.BadRequestError = (case x of None \<Rightarrow> a0 |
       Some y \<Rightarrow> b0 y), WorkflowService_RespondDecisionTaskFailed_Result.InternalServiceError = (case
       x of None \<Rightarrow> a1 | Some y \<Rightarrow> b1 y),
       WorkflowService_RespondDecisionTaskFailed_Result.EntityNotExistError = (case x of None \<Rightarrow> a2 |
       Some y \<Rightarrow> b2 y), WorkflowService_RespondDecisionTaskFailed_Result.DomainNotActiveError = (case
       x of None \<Rightarrow> a3 | Some y \<Rightarrow> b3 y),
       WorkflowService_RespondDecisionTaskFailed_Result.LimitExceededError = (case x of None \<Rightarrow> a4 |
       Some y \<Rightarrow> b4 y), WorkflowService_RespondDecisionTaskFailed_Result.ServiceBusyError = (case x
       of None \<Rightarrow> a5 | Some y \<Rightarrow> b5 y),
       WorkflowService_RespondDecisionTaskFailed_Result.ClientVersionNotSupportedError = (case x of
       None \<Rightarrow> a6 | Some y \<Rightarrow> b6 y)\<rparr>"
  by (cases x) simp_all

interpretation WorkflowService_RespondDecisionTaskFailed_Result: thrift_struct W
  "WorkflowService_RespondDecisionTaskFailed_Result_ToWire W"
      "WorkflowService_RespondDecisionTaskFailed_Result_FromWire W"
  WorkflowService_RespondDecisionTaskFailed_Result_zero "\<lambda>r.
      WorkflowService_RespondDecisionTaskFailed_Result_count r \<le> 1" for W
proof (rule thrift_checked_plainI)
  fix x :: WorkflowService_RespondDecisionTaskFailed_Result
  assume laws: "wire_laws W"
  obtain enc0 where e0: "BadRequestError_ToWire W = (\<lambda>x. Inr (enc0 x))"
      "\<And>x. wire_api.Type W (enc0 x) = TStruct"
      "\<And>x. Writable W (enc0 x) \<longleftrightarrow> (\<lambda>_. True) x"
      "\<And>x. (\<lambda>_. True) x \<Longrightarrow> BadRequestError_FromWire W (enc0 x) BadRequestError_zero = Inr x"
    by (rule BadRequestError.encoder [OF laws]) (rule that)
  obtain enc1 where e1: "InternalServiceError_ToWire W = (\<lambda>x. Inr (enc1 x))"
      "\<And>x. wire_api.Type W (enc1 x) = TStruct"
      "\<And>x. Writable W (enc1 x) \<longleftrightarrow> (\<lambda>_. True) x"
      "\<And>x. (\<lambda>_. True) x \<Longrightarrow> InternalServiceError_FromWire W (enc1 x) InternalServiceError_zero = Inr
          x"
    by (rule InternalServiceError.encoder [OF laws]) (rule that)
  obtain enc2 where e2: "EntityNotExistsError_ToWire W = (\<lambda>x. Inr (enc2 x))"
      "\<And>x. wire_api.Type W (enc2 x) = TStruct"
      "\<And>x. Writable W (enc2 x) \<longleftrightarrow> (\<lambda>_. True) x"
      "\<And>x. (\<lambda>_. True) x \<Longrightarrow> EntityNotExistsError_FromWire W (enc2 x) EntityNotExistsError_zero = Inr
          x"
    by (rule EntityNotExistsError.encoder [OF laws]) (rule that)
  obtain enc3 where e3: "DomainNotActiveError_ToWire W = (\<lambda>x. Inr (enc3 x))"
      "\<And>x. wire_api.Type W (enc3 x) = TStruct"
      "\<And>x. Writable W (enc3 x) \<longleftrightarrow> (\<lambda>_. True) x"
      "\<And>x. (\<lambda>_. True) x \<Longrightarrow> DomainNotActiveError_FromWire W (enc3 x) DomainNotActiveError_zero = Inr
          x"
    by (rule DomainNotActiveError.encoder [OF laws]) (rule that)
  obtain enc4 where e4: "LimitExceededError_ToWire W = (\<lambda>x. Inr (enc4 x))"
      "\<And>x. wire_api.Type W (enc4 x) = TStruct"
      "\<And>x. Writable W (enc4 x) \<longleftrightarrow> (\<lambda>_. True) x"
      "\<And>x. (\<lambda>_. True) x \<Longrightarrow> LimitExceededError_FromWire W (enc4 x) LimitExceededError_zero = Inr x"
    by (rule LimitExceededError.encoder [OF laws]) (rule that)
  obtain enc5 where e5: "ServiceBusyError_ToWire W = (\<lambda>x. Inr (enc5 x))"
      "\<And>x. wire_api.Type W (enc5 x) = TStruct"
      "\<And>x. Writable W (enc5 x) \<longleftrightarrow> (\<lambda>_. True) x"
      "\<And>x. (\<lambda>_. True) x \<Longrightarrow> ServiceBusyError_FromWire W (enc5 x) ServiceBusyError_zero = Inr x"
    by (rule ServiceBusyError.encoder [OF laws]) (rule that)
  obtain enc6 where e6: "ClientVersionNotSupportedError_ToWire W = (\<lambda>x. Inr (enc6 x))"
      "\<And>x. wire_api.Type W (enc6 x) = TStruct"
      "\<And>x. Writable W (enc6 x) \<longleftrightarrow> (\<lambda>_. True) x"
      "\<And>x. (\<lambda>_. True) x \<Longrightarrow> ClientVersionNotSupportedError_FromWire W (enc6 x)
          ClientVersionNotSupportedError_zero = Inr x"
    by (rule ClientVersionNotSupportedError.encoder [OF laws]) (rule that)
  let ?fs = "(((((opt_field 1 enc0 (WorkflowService_RespondDecisionTaskFailed_Result.BadRequestError
      x) @
      opt_field 2 enc1 (WorkflowService_RespondDecisionTaskFailed_Result.InternalServiceError x)) @
      opt_field 3 enc2 (WorkflowService_RespondDecisionTaskFailed_Result.EntityNotExistError x)) @
      opt_field 4 enc3 (WorkflowService_RespondDecisionTaskFailed_Result.DomainNotActiveError x)) @
      opt_field 5 enc4 (WorkflowService_RespondDecisionTaskFailed_Result.LimitExceededError x)) @
      opt_field 6 enc5 (WorkflowService_RespondDecisionTaskFailed_Result.ServiceBusyError x)) @
      opt_field 7 enc6
          (WorkflowService_RespondDecisionTaskFailed_Result.ClientVersionNotSupportedError x)"
  let ?check = "\<lambda>r. if 1 < WorkflowService_RespondDecisionTaskFailed_Result_count x then Inl
      (E_Errorf
      ''WorkflowService_RespondDecisionTaskFailed_Result should have at most one field: got %v fields'' (WorkflowService_RespondDecisionTaskFailed_Result_count x)) else Inr r"
  have "length ?fs = WorkflowService_RespondDecisionTaskFailed_Result_count x"
    by (simp add: WorkflowService_RespondDecisionTaskFailed_Result_count_def length_opt_field split
        del: if_split)
  then have "WorkflowService_RespondDecisionTaskFailed_Result_ToWire W x = ?check (NewValueStruct W
      ?fs)"
    by (simp only: WorkflowService_RespondDecisionTaskFailed_Result_ToWire_def put_opt_field
        and_then.simps append_Nil e0(1) e1(1) e2(1) e3(1) e4(1) e5(1) e6(1))
  moreover have "WorkflowService_RespondDecisionTaskFailed_Result_FromWire W (NewValueStruct W ?fs)
      WorkflowService_RespondDecisionTaskFailed_Result_zero = ?check x"
    by (cases x, hypsubst) (simp cong: option.case_cong split del: if_split add: codec_rules Let_def
        WorkflowService_RespondDecisionTaskFailed_Result_merge
      WorkflowService_RespondDecisionTaskFailed_Result_FromWire_def
          WorkflowService_RespondDecisionTaskFailed_Result_zero_def laws
      BadRequestError_Read_def
      ClientVersionNotSupportedError_Read_def
      DomainNotActiveError_Read_def
      EntityNotExistsError_Read_def
      InternalServiceError_Read_def
      LimitExceededError_Read_def
      ServiceBusyError_Read_def
      e0 e1 e2 e3 e4 e5 e6)
  ultimately show "if WorkflowService_RespondDecisionTaskFailed_Result_count x \<le> 1
      then \<exists>w. WorkflowService_RespondDecisionTaskFailed_Result_ToWire W x = Inr w \<and> wire_api.Type W
          w = TStruct \<and>
        Writable W w \<and> WorkflowService_RespondDecisionTaskFailed_Result_FromWire W w
            WorkflowService_RespondDecisionTaskFailed_Result_zero = Inr x
      else \<exists>e. WorkflowService_RespondDecisionTaskFailed_Result_ToWire W x = Inl e"
    by (simp add: laws codec_rules e0 e1 e2 e3 e4 e5 e6)
qed

interpretation RespondDecisionTaskFailed: rpc_method W
  "WorkflowService_RespondDecisionTaskFailed_Args_ToWire W"
      "WorkflowService_RespondDecisionTaskFailed_Args_FromWire W"
      WorkflowService_RespondDecisionTaskFailed_Args_zero "\<lambda>x. True"
  "WorkflowService_RespondDecisionTaskFailed_Result_ToWire W"
      "WorkflowService_RespondDecisionTaskFailed_Result_FromWire W"
      WorkflowService_RespondDecisionTaskFailed_Result_zero
  "\<lambda>r. WorkflowService_RespondDecisionTaskFailed_Result_count r \<le> 1" "''RespondDecisionTaskFailed''"
  WorkflowService_RespondDecisionTaskFailed_Helper_Args
      "WorkflowService_RespondDecisionTaskFailed_Args.FailedRequest"
  "WorkflowService_RespondDecisionTaskFailed_Helper_WrapResponse"
      WorkflowService_RespondDecisionTaskFailed_Helper_UnwrapResponse
  "\<lambda>out. out \<noteq> None" "carried_void WorkflowService_RespondDecisionTaskFailed_Helper_IsException" id
      "\<lambda>e. Some e"
  "handler_RespondDecisionTaskFailed W" "client_RespondDecisionTaskFailed W" for W
proof
  fix out :: "go_error option"
  assume "carried_void WorkflowService_RespondDecisionTaskFailed_Helper_IsException out"
  then show "case (WorkflowService_RespondDecisionTaskFailed_Helper_WrapResponse) out of Inl e \<Rightarrow>
      False
      | Inr res \<Rightarrow> (WorkflowService_RespondDecisionTaskFailed_Result_count res \<le> 1) \<and>
          WorkflowService_RespondDecisionTaskFailed_Helper_UnwrapResponse res = id out"
    by (cases out; cases "the out")
      (auto simp: WorkflowService_RespondDecisionTaskFailed_Helper_IsException_def
          WorkflowService_RespondDecisionTaskFailed_Helper_WrapResponse_def
          WorkflowService_RespondDecisionTaskFailed_Helper_UnwrapResponse_def
        declared_nonnil_def WorkflowService_RespondDecisionTaskFailed_Result_zero_def
            WorkflowService_RespondDecisionTaskFailed_Result_count_def elim!: present.elims)
next
  fix out :: "go_error option"
  assume "\<not> carried_void WorkflowService_RespondDecisionTaskFailed_Helper_IsException out"
  then show "case (WorkflowService_RespondDecisionTaskFailed_Helper_WrapResponse) out of Inl e \<Rightarrow>
      True
      | Inr res \<Rightarrow> \<not> (WorkflowService_RespondDecisionTaskFailed_Result_count res \<le> 1)"
    by (cases out; cases "the out")
      (auto simp: WorkflowService_RespondDecisionTaskFailed_Helper_IsException_def
          WorkflowService_RespondDecisionTaskFailed_Helper_WrapResponse_def declared_nonnil_def
        WorkflowService_RespondDecisionTaskFailed_Result_count_def
            WorkflowService_RespondDecisionTaskFailed_Result_zero_def split: option.splits)
qed (auto simp: WorkflowService_RespondDecisionTaskFailed_Helper_Args_def
    handler_RespondDecisionTaskFailed_def client_RespondDecisionTaskFailed_def
      WorkflowService_RespondDecisionTaskFailed_Args_enveloper_def
          WorkflowService_RespondDecisionTaskFailed_Result_enveloper_def
      Let_def split: sum.splits prod.splits)

section \<open>RespondQueryTaskCompleted\<close>

record WorkflowService_RespondQueryTaskCompleted_Args =
  CompleteRequest :: "RespondQueryTaskCompletedRequest option"

definition WorkflowService_RespondQueryTaskCompleted_Args_zero ::
    WorkflowService_RespondQueryTaskCompleted_Args where
  "WorkflowService_RespondQueryTaskCompleted_Args_zero =
      \<lparr>WorkflowService_RespondQueryTaskCompleted_Args.CompleteRequest = None\<rparr>"

definition WorkflowService_RespondQueryTaskCompleted_Args_ToWire ::
  "'v wire_api \<Rightarrow> WorkflowService_RespondQueryTaskCompleted_Args \<Rightarrow> go_error + 'v" where
  "WorkflowService_RespondQueryTaskCompleted_Args_ToWire W v =
     and_then (put_opt 1 (RespondQueryTaskCompletedRequest_ToWire W)
         (WorkflowService_RespondQueryTaskCompleted_Args.CompleteRequest v) [])
       (\<lambda>fields.
     Inr (NewValueStruct W fields))"

definition WorkflowService_RespondQueryTaskCompleted_Args_FromWire ::
  "'v wire_api \<Rightarrow> 'v \<Rightarrow> WorkflowService_RespondQueryTaskCompleted_Args \<Rightarrow> go_error +
      WorkflowService_RespondQueryTaskCompleted_Args" where
  "WorkflowService_RespondQueryTaskCompleted_Args_FromWire W w v =
     foldM (\<lambda>v (fid, fval).
       if fid = 1 then
         if wire_api.Type W fval = TStruct
         then and_then (RespondQueryTaskCompletedRequest_Read W fval) (\<lambda>x. Inr
             (v\<lparr>WorkflowService_RespondQueryTaskCompleted_Args.CompleteRequest := Some x\<rparr>))
         else Inr v
       else Inr v) (GetStruct W w) v"

definition WorkflowService_RespondQueryTaskCompleted_Args_enveloper ::
  "'v wire_api \<Rightarrow> WorkflowService_RespondQueryTaskCompleted_Args \<Rightarrow> 'v enveloper" where
  "WorkflowService_RespondQueryTaskCompleted_Args_enveloper W v =
     \<lparr>MethodName = ''RespondQueryTaskCompleted'', EnvelopeType = Call, EnvelopeToWire =
         WorkflowService_RespondQueryTaskCompleted_Args_ToWire W v\<rparr>"

definition WorkflowService_RespondQueryTaskCompleted_Args_Equals ::
  "WorkflowService_RespondQueryTaskCompleted_Args option \<Rightarrow>
      WorkflowService_RespondQueryTaskCompleted_Args option \<Rightarrow> bool" where
  "WorkflowService_RespondQueryTaskCompleted_Args_Equals v rhs =
     (case v of None \<Rightarrow> rhs = None
      | Some v \<Rightarrow> (case rhs of None \<Rightarrow> False
        | Some rhs \<Rightarrow>
          if \<not> both_set_and (\<lambda>x y. RespondQueryTaskCompletedRequest_Equals (Some x) (Some y))
              (WorkflowService_RespondQueryTaskCompleted_Args.CompleteRequest v)
              (WorkflowService_RespondQueryTaskCompleted_Args.CompleteRequest rhs) then False else
          True))"

lemma WorkflowService_RespondQueryTaskCompleted_Args_Equals_iff [simp]:
    "WorkflowService_RespondQueryTaskCompleted_Args_Equals x y \<longleftrightarrow> x = y"
  by (cases x; cases y) (auto simp: WorkflowService_RespondQueryTaskCompleted_Args_Equals_def)

record WorkflowService_RespondQueryTaskCompleted_Result =
  BadRequestError :: "BadRequestError option"
  InternalServiceError :: "InternalServiceError option"
  EntityNotExistError :: "EntityNotExistsError option"
  LimitExceededError :: "LimitExceededError option"
  ServiceBusyError :: "ServiceBusyError option"
  DomainNotActiveError :: "DomainNotActiveError option"
  ClientVersionNotSupportedError :: "ClientVersionNotSupportedError option"

definition WorkflowService_RespondQueryTaskCompleted_Result_count ::
    "WorkflowService_RespondQueryTaskCompleted_Result \<Rightarrow> nat" where
  "WorkflowService_RespondQueryTaskCompleted_Result_count v =
     (if WorkflowService_RespondQueryTaskCompleted_Result.BadRequestError v \<noteq> None then 1 else 0) +
     (if WorkflowService_RespondQueryTaskCompleted_Result.InternalServiceError v \<noteq> None then 1 else
         0) +
     (if WorkflowService_RespondQueryTaskCompleted_Result.EntityNotExistError v \<noteq> None then 1 else
         0) +
     (if WorkflowService_RespondQueryTaskCompleted_Result.LimitExceededError v \<noteq> None then 1 else 0)
         +
     (if WorkflowService_RespondQueryTaskCompleted_Result.ServiceBusyError v \<noteq> None then 1 else 0) +
     (if WorkflowService_RespondQueryTaskCompleted_Result.DomainNotActiveError v \<noteq> None then 1 else
         0) +
     (if WorkflowService_RespondQueryTaskCompleted_Result.ClientVersionNotSupportedError v \<noteq> None
         then 1 else 0)"

definition WorkflowService_RespondQueryTaskCompleted_Result_zero ::
    WorkflowService_RespondQueryTaskCompleted_Result where
  "WorkflowService_RespondQueryTaskCompleted_Result_zero =
      \<lparr>WorkflowService_RespondQueryTaskCompleted_Result.BadRequestError = None,
      WorkflowService_RespondQueryTaskCompleted_Result.InternalServiceError = None,
      WorkflowService_RespondQueryTaskCompleted_Result.EntityNotExistError = None,
      WorkflowService_RespondQueryTaskCompleted_Result.LimitExceededError = None,
      WorkflowService_RespondQueryTaskCompleted_Result.ServiceBusyError = None,
      WorkflowService_RespondQueryTaskCompleted_Result.DomainNotActiveError = None,
      WorkflowService_RespondQueryTaskCompleted_Result.ClientVersionNotSupportedError = None\<rparr>"

definition WorkflowService_RespondQueryTaskCompleted_Result_ToWire ::
  "'v wire_api \<Rightarrow> WorkflowService_RespondQueryTaskCompleted_Result \<Rightarrow> go_error + 'v" where
  "WorkflowService_RespondQueryTaskCompleted_Result_ToWire W v =
     and_then (put_opt 1 (BadRequestError_ToWire W)
         (WorkflowService_RespondQueryTaskCompleted_Result.BadRequestError v) [])
       (\<lambda>fields.
     and_then (put_opt 2 (InternalServiceError_ToWire W)
         (WorkflowService_RespondQueryTaskCompleted_Result.InternalServiceError v) fields)
       (\<lambda>fields.
     and_then (put_opt 3 (EntityNotExistsError_ToWire W)
         (WorkflowService_RespondQueryTaskCompleted_Result.EntityNotExistError v) fields)
       (\<lambda>fields.
     and_then (put_opt 4 (LimitExceededError_ToWire W)
         (WorkflowService_RespondQueryTaskCompleted_Result.LimitExceededError v) fields)
       (\<lambda>fields.
     and_then (put_opt 5 (ServiceBusyError_ToWire W)
         (WorkflowService_RespondQueryTaskCompleted_Result.ServiceBusyError v) fields)
       (\<lambda>fields.
     and_then (put_opt 6 (DomainNotActiveError_ToWire W)
         (WorkflowService_RespondQueryTaskCompleted_Result.DomainNotActiveError v) fields)
       (\<lambda>fields.
     and_then (put_opt 7 (ClientVersionNotSupportedError_ToWire W)
         (WorkflowService_RespondQueryTaskCompleted_Result.ClientVersionNotSupportedError v) fields)
       (\<lambda>fields.
     if 1 < length fields
     then Inl (E_Errorf
         ''WorkflowService_RespondQueryTaskCompleted_Result should have at most one field: got %v fields'' (length fields))
     else Inr (NewValueStruct W fields))))))))"

definition WorkflowService_RespondQueryTaskCompleted_Result_FromWire ::
  "'v wire_api \<Rightarrow> 'v \<Rightarrow> WorkflowService_RespondQueryTaskCompleted_Result \<Rightarrow> go_error +
      WorkflowService_RespondQueryTaskCompleted_Result" where
  "WorkflowService_RespondQueryTaskCompleted_Result_FromWire W w v =
     and_then (foldM (\<lambda>v (fid, fval).
       if fid = 1 then
         if wire_api.Type W fval = TStruct
         then and_then (BadRequestError_Read W fval) (\<lambda>x. Inr
             (v\<lparr>WorkflowService_RespondQueryTaskCompleted_Result.BadRequestError := Some x\<rparr>))
         else Inr v
       else if fid = 2 then
         if wire_api.Type W fval = TStruct
         then and_then (InternalServiceError_Read W fval) (\<lambda>x. Inr
             (v\<lparr>WorkflowService_RespondQueryTaskCompleted_Result.InternalServiceError := Some x\<rparr>))
         else Inr v
       else if fid = 3 then
         if wire_api.Type W fval = TStruct
         then and_then (EntityNotExistsError_Read W fval) (\<lambda>x. Inr
             (v\<lparr>WorkflowService_RespondQueryTaskCompleted_Result.EntityNotExistError := Some x\<rparr>))
         else Inr v
       else if fid = 4 then
         if wire_api.Type W fval = TStruct
         then and_then (LimitExceededError_Read W fval) (\<lambda>x. Inr
             (v\<lparr>WorkflowService_RespondQueryTaskCompleted_Result.LimitExceededError := Some x\<rparr>))
         else Inr v
       else if fid = 5 then
         if wire_api.Type W fval = TStruct
         then and_then (ServiceBusyError_Read W fval) (\<lambda>x. Inr
             (v\<lparr>WorkflowService_RespondQueryTaskCompleted_Result.ServiceBusyError := Some x\<rparr>))
         else Inr v
       else if fid = 6 then
         if wire_api.Type W fval = TStruct
         then and_then (DomainNotActiveError_Read W fval) (\<lambda>x. Inr
             (v\<lparr>WorkflowService_RespondQueryTaskCompleted_Result.DomainNotActiveError := Some x\<rparr>))
         else Inr v
       else if fid = 7 then
         if wire_api.Type W fval = TStruct
         then and_then (ClientVersionNotSupportedError_Read W fval) (\<lambda>x. Inr
             (v\<lparr>WorkflowService_RespondQueryTaskCompleted_Result.ClientVersionNotSupportedError :=
             Some x\<rparr>))
         else Inr v
       else Inr v) (GetStruct W w) v) (\<lambda>v.
     let count = WorkflowService_RespondQueryTaskCompleted_Result_count v in
     if 1 < count
     then Inl (E_Errorf
         ''WorkflowService_RespondQueryTaskCompleted_Result should have at most one field: got %v fields'' count)
     else Inr v)"

definition WorkflowService_RespondQueryTaskCompleted_Result_enveloper ::
  "'v wire_api \<Rightarrow> WorkflowService_RespondQueryTaskCompleted_Result \<Rightarrow> 'v enveloper" where
  "WorkflowService_RespondQueryTaskCompleted_Result_enveloper W v =
     \<lparr>MethodName = ''RespondQueryTaskCompleted'', EnvelopeType = Reply, EnvelopeToWire =
         WorkflowService_RespondQueryTaskCompleted_Result_ToWire W v\<rparr>"

definition WorkflowService_RespondQueryTaskCompleted_Result_Equals ::
  "WorkflowService_RespondQueryTaskCompleted_Result option \<Rightarrow>
      WorkflowService_RespondQueryTaskCompleted_Result option \<Rightarrow> bool" where
  "WorkflowService_RespondQueryTaskCompleted_Result_Equals v rhs =
     (case v of None \<Rightarrow> rhs = None
      | Some v \<Rightarrow> (case rhs of None \<Rightarrow> False
        | Some rhs \<Rightarrow>
          if \<not> both_set_and (\<lambda>x y. BadRequestError_Equals (Some x) (Some y))
              (WorkflowService_RespondQueryTaskCompleted_Result.BadRequestError v)
              (WorkflowService_RespondQueryTaskCompleted_Result.BadRequestError rhs) then False else
          if \<not> both_set_and (\<lambda>x y. InternalServiceError_Equals (Some x) (Some y))
              (WorkflowService_RespondQueryTaskCompleted_Result.InternalServiceError v)
              (WorkflowService_RespondQueryTaskCompleted_Result.InternalServiceError rhs) then False
              else
          if \<not> both_set_and (\<lambda>x y. EntityNotExistsError_Equals (Some x) (Some y))
              (WorkflowService_RespondQueryTaskCompleted_Result.EntityNotExistError v)
              (WorkflowService_RespondQueryTaskCompleted_Result.EntityNotExistError rhs) then False
              else
          if \<not> both_set_and (\<lambda>x y. LimitExceededError_Equals (Some x) (Some y))
              (WorkflowService_RespondQueryTaskCompleted_Result.LimitExceededError v)
              (WorkflowService_RespondQueryTaskCompleted_Result.LimitExceededError rhs) then False
              else
          if \<not> both_set_and (\<lambda>x y. ServiceBusyError_Equals (Some x) (Some y))
              (WorkflowService_RespondQueryTaskCompleted_Result.ServiceBusyError v)
              (WorkflowService_RespondQueryTaskCompleted_Result.ServiceBusyError rhs) then False
              else
          if \<not> both_set_and (\<lambda>x y. DomainNotActiveError_Equals (Some x) (Some y))
              (WorkflowService_RespondQueryTaskCompleted_Result.DomainNotActiveError v)
              (WorkflowService_RespondQueryTaskCompleted_Result.DomainNotActiveError rhs) then False
              else
          if \<not> both_set_and (\<lambda>x y. ClientVersionNotSupportedError_Equals (Some x) (Some y))
              (WorkflowService_RespondQueryTaskCompleted_Result.ClientVersionNotSupportedError v)
              (WorkflowService_RespondQueryTaskCompleted_Result.ClientVersionNotSupportedError rhs)
              then False else
          True))"

lemma WorkflowService_RespondQueryTaskCompleted_Result_Equals_iff [simp]:
    "WorkflowService_RespondQueryTaskCompleted_Result_Equals x y \<longleftrightarrow> x = y"
  by (cases x; cases y) (simp_all add: WorkflowService_RespondQueryTaskCompleted_Result_Equals_def
      if_not_False, fastforce intro: WorkflowService_RespondQueryTaskCompleted_Result.equality)

definition WorkflowService_RespondQueryTaskCompleted_Helper_Args ::
    "RespondQueryTaskCompletedRequest option \<Rightarrow> WorkflowService_RespondQueryTaskCompleted_Args" where
  "WorkflowService_RespondQueryTaskCompleted_Helper_Args r =
      \<lparr>WorkflowService_RespondQueryTaskCompleted_Args.CompleteRequest = r\<rparr>"

definition WorkflowService_RespondQueryTaskCompleted_Helper_IsException :: "go_error \<Rightarrow> bool" where
  "WorkflowService_RespondQueryTaskCompleted_Helper_IsException err =
     (case err of
        E_BadRequestError _ \<Rightarrow> True
      | E_InternalServiceError _ \<Rightarrow> True
      | E_EntityNotExistsError _ \<Rightarrow> True
      | E_LimitExceededError _ \<Rightarrow> True
      | E_ServiceBusyError _ \<Rightarrow> True
      | E_DomainNotActiveError _ \<Rightarrow> True
      | E_ClientVersionNotSupportedError _ \<Rightarrow> True
      | _ \<Rightarrow> False)"

definition WorkflowService_RespondQueryTaskCompleted_Helper_WrapResponse ::
  "go_error option \<Rightarrow> go_error + WorkflowService_RespondQueryTaskCompleted_Result" where
  "WorkflowService_RespondQueryTaskCompleted_Helper_WrapResponse err =
     (case err of None \<Rightarrow> Inr WorkflowService_RespondQueryTaskCompleted_Result_zero
      | Some err \<Rightarrow> (case err of
          E_BadRequestError e \<Rightarrow> (case e of
              None \<Rightarrow> Inl (E_New
                  ''WrapResponse received non-nil error type with nil value for WorkflowService_RespondQueryTaskCompleted_Result.BadRequestError'')
            | Some e \<Rightarrow> Inr
                (WorkflowService_RespondQueryTaskCompleted_Result_zero\<lparr>WorkflowService_RespondQueryTaskCompleted_Result.BadRequestError := Some e\<rparr>))
        | E_InternalServiceError e \<Rightarrow> (case e of
              None \<Rightarrow> Inl (E_New
                  ''WrapResponse received non-nil error type with nil value for WorkflowService_RespondQueryTaskCompleted_Result.InternalServiceError'')
            | Some e \<Rightarrow> Inr
                (WorkflowService_RespondQueryTaskCompleted_Result_zero\<lparr>WorkflowService_RespondQueryTaskCompleted_Result.InternalServiceError := Some e\<rparr>))
        | E_EntityNotExistsError e \<Rightarrow> (case e of
              None \<Rightarrow> Inl (E_New
                  ''WrapResponse received non-nil error type with nil value for WorkflowService_RespondQueryTaskCompleted_Result.EntityNotExistError'')
            | Some e \<Rightarrow> Inr
                (WorkflowService_RespondQueryTaskCompleted_Result_zero\<lparr>WorkflowService_RespondQueryTaskCompleted_Result.EntityNotExistError := Some e\<rparr>))
        | E_LimitExceededError e \<Rightarrow> (case e of
              None \<Rightarrow> Inl (E_New
                  ''WrapResponse received non-nil error type with nil value for WorkflowService_RespondQueryTaskCompleted_Result.LimitExceededError'')
            | Some e \<Rightarrow> Inr
                (WorkflowService_RespondQueryTaskCompleted_Result_zero\<lparr>WorkflowService_RespondQueryTaskCompleted_Result.LimitExceededError := Some e\<rparr>))
        | E_ServiceBusyError e \<Rightarrow> (case e of
              None \<Rightarrow> Inl (E_New
                  ''WrapResponse received non-nil error type with nil value for WorkflowService_RespondQueryTaskCompleted_Result.ServiceBusyError'')
            | Some e \<Rightarrow> Inr
                (WorkflowService_RespondQueryTaskCompleted_Result_zero\<lparr>WorkflowService_RespondQueryTaskCompleted_Result.ServiceBusyError := Some e\<rparr>))
        | E_DomainNotActiveError e \<Rightarrow> (case e of
              None \<Rightarrow> Inl (E_New
                  ''WrapResponse received non-nil error type with nil value for WorkflowService_RespondQueryTaskCompleted_Result.DomainNotActiveError'')
            | Some e \<Rightarrow> Inr
                (WorkflowService_RespondQueryTaskCompleted_Result_zero\<lparr>WorkflowService_RespondQueryTaskCompleted_Result.DomainNotActiveError := Some e\<rparr>))
        | E_ClientVersionNotSupportedError e \<Rightarrow> (case e of
              None \<Rightarrow> Inl (E_New
                  ''WrapResponse received non-nil error type with nil value for WorkflowService_RespondQueryTaskCompleted_Result.ClientVersionNotSupportedError'')
            | Some e \<Rightarrow> Inr
                (WorkflowService_RespondQueryTaskCompleted_Result_zero\<lparr>WorkflowService_RespondQueryTaskCompleted_Result.ClientVersionNotSupportedError := Some e\<rparr>))
        | _ \<Rightarrow> Inl err))"

definition WorkflowService_RespondQueryTaskCompleted_Helper_UnwrapResponse ::
  "WorkflowService_RespondQueryTaskCompleted_Result \<Rightarrow> go_error option" where
  "WorkflowService_RespondQueryTaskCompleted_Helper_UnwrapResponse result =
    (if WorkflowService_RespondQueryTaskCompleted_Result.BadRequestError result \<noteq> None then Some
        (E_BadRequestError (WorkflowService_RespondQueryTaskCompleted_Result.BadRequestError
        result)) else
     if WorkflowService_RespondQueryTaskCompleted_Result.InternalServiceError result \<noteq> None then
         Some (E_InternalServiceError
         (WorkflowService_RespondQueryTaskCompleted_Result.InternalServiceError result)) else
     if WorkflowService_RespondQueryTaskCompleted_Result.EntityNotExistError result \<noteq> None then Some
         (E_EntityNotExistsError
         (WorkflowService_RespondQueryTaskCompleted_Result.EntityNotExistError result)) else
     if WorkflowService_RespondQueryTaskCompleted_Result.LimitExceededError result \<noteq> None then Some
         (E_LimitExceededError (WorkflowService_RespondQueryTaskCompleted_Result.LimitExceededError
         result)) else
     if WorkflowService_RespondQueryTaskCompleted_Result.ServiceBusyError result \<noteq> None then Some
         (E_ServiceBusyError (WorkflowService_RespondQueryTaskCompleted_Result.ServiceBusyError
         result)) else
     if WorkflowService_RespondQueryTaskCompleted_Result.DomainNotActiveError result \<noteq> None then
         Some (E_DomainNotActiveError
         (WorkflowService_RespondQueryTaskCompleted_Result.DomainNotActiveError result)) else
     if WorkflowService_RespondQueryTaskCompleted_Result.ClientVersionNotSupportedError result \<noteq>
         None then Some (E_ClientVersionNotSupportedError
         (WorkflowService_RespondQueryTaskCompleted_Result.ClientVersionNotSupportedError result))
         else
     None)"

definition handler_RespondQueryTaskCompleted ::
  "'v wire_api \<Rightarrow> ('ctx \<Rightarrow> RespondQueryTaskCompletedRequest option \<Rightarrow> go_error option) \<Rightarrow>
   ('ctx, 'v) unary_handler" where
  "handler_RespondQueryTaskCompleted W impl ctx body =
     (case WorkflowService_RespondQueryTaskCompleted_Args_FromWire W body
         WorkflowService_RespondQueryTaskCompleted_Args_zero of
      Inl err \<Rightarrow> (no_response, Some err)
    | Inr args \<Rightarrow>
      let err = impl ctx (WorkflowService_RespondQueryTaskCompleted_Args.CompleteRequest args);
          hadError = (err \<noteq> None)
      in case WorkflowService_RespondQueryTaskCompleted_Helper_WrapResponse err of
           Inl err \<Rightarrow> (no_response, Some err)
         | Inr result \<Rightarrow>
             (\<lparr>Body = Some (WorkflowService_RespondQueryTaskCompleted_Result_enveloper W result),
               IsApplicationError = hadError\<rparr>, None))"

definition client_RespondQueryTaskCompleted ::
  "'v wire_api \<Rightarrow> ('ctx, 'v) thrift_client \<Rightarrow> 'ctx \<Rightarrow> RespondQueryTaskCompletedRequest option \<Rightarrow>
   go_error option" where
  "client_RespondQueryTaskCompleted W call ctx r =
     (let args = WorkflowService_RespondQueryTaskCompleted_Helper_Args r in
      case call ctx (WorkflowService_RespondQueryTaskCompleted_Args_enveloper W args) of
        Inl e \<Rightarrow> Some e
      | Inr body \<Rightarrow>
          (case WorkflowService_RespondQueryTaskCompleted_Result_FromWire W body
              WorkflowService_RespondQueryTaskCompleted_Result_zero of
             Inl e \<Rightarrow> Some e
           | Inr result \<Rightarrow> WorkflowService_RespondQueryTaskCompleted_Helper_UnwrapResponse result))"

lemma WorkflowService_RespondQueryTaskCompleted_Args_merge:
  "(case x of None \<Rightarrow> Inr \<lparr>WorkflowService_RespondQueryTaskCompleted_Args.CompleteRequest = a0\<rparr> |
      Some y \<Rightarrow> Inr \<lparr>WorkflowService_RespondQueryTaskCompleted_Args.CompleteRequest = b0 y\<rparr>) =
   Inr \<lparr>WorkflowService_RespondQueryTaskCompleted_Args.CompleteRequest = (case x of None \<Rightarrow> a0 | Some
       y \<Rightarrow> b0 y)\<rparr>"
  by (cases x) simp_all

interpretation WorkflowService_RespondQueryTaskCompleted_Args: thrift_struct W
  "WorkflowService_RespondQueryTaskCompleted_Args_ToWire W"
      "WorkflowService_RespondQueryTaskCompleted_Args_FromWire W"
  WorkflowService_RespondQueryTaskCompleted_Args_zero "\<lambda>x. True" for W
proof (rule thrift_structI)
  fix x :: WorkflowService_RespondQueryTaskCompleted_Args
  assume laws: "wire_laws W"
  obtain enc0 where e0: "RespondQueryTaskCompletedRequest_ToWire W = (\<lambda>x. Inr (enc0 x))"
      "\<And>x. wire_api.Type W (enc0 x) = TStruct"
      "\<And>x. Writable W (enc0 x) \<longleftrightarrow> (\<lambda>_. True) x"
      "\<And>x. (\<lambda>_. True) x \<Longrightarrow> RespondQueryTaskCompletedRequest_FromWire W (enc0 x)
          RespondQueryTaskCompletedRequest_zero = Inr x"
    by (rule RespondQueryTaskCompletedRequest.encoder [OF laws]) (rule that)
  show "\<exists>w. WorkflowService_RespondQueryTaskCompleted_Args_ToWire W x = Inr w \<and> wire_api.Type W w =
      TStruct \<and>
      (Writable W w \<longleftrightarrow> True) \<and> (True \<longrightarrow> WorkflowService_RespondQueryTaskCompleted_Args_FromWire W w
          WorkflowService_RespondQueryTaskCompleted_Args_zero = Inr x)"
    by (cases x) (simp cong: option.case_cong add: codec_rules
        WorkflowService_RespondQueryTaskCompleted_Args_merge
        WorkflowService_RespondQueryTaskCompleted_Args_ToWire_def
        WorkflowService_RespondQueryTaskCompleted_Args_FromWire_def
      WorkflowService_RespondQueryTaskCompleted_Args_zero_def
          RespondQueryTaskCompletedRequest_Read_def if_set_def laws e0)
qed

lemma WorkflowService_RespondQueryTaskCompleted_Result_merge:
  "(case x of None \<Rightarrow> Inr \<lparr>WorkflowService_RespondQueryTaskCompleted_Result.BadRequestError = a0,
      WorkflowService_RespondQueryTaskCompleted_Result.InternalServiceError = a1,
      WorkflowService_RespondQueryTaskCompleted_Result.EntityNotExistError = a2,
      WorkflowService_RespondQueryTaskCompleted_Result.LimitExceededError = a3,
      WorkflowService_RespondQueryTaskCompleted_Result.ServiceBusyError = a4,
      WorkflowService_RespondQueryTaskCompleted_Result.DomainNotActiveError = a5,
      WorkflowService_RespondQueryTaskCompleted_Result.ClientVersionNotSupportedError = a6\<rparr> | Some y
      \<Rightarrow> Inr \<lparr>WorkflowService_RespondQueryTaskCompleted_Result.BadRequestError = b0 y,
      WorkflowService_RespondQueryTaskCompleted_Result.InternalServiceError = b1 y,
      WorkflowService_RespondQueryTaskCompleted_Result.EntityNotExistError = b2 y,
      WorkflowService_RespondQueryTaskCompleted_Result.LimitExceededError = b3 y,
      WorkflowService_RespondQueryTaskCompleted_Result.ServiceBusyError = b4 y,
      WorkflowService_RespondQueryTaskCompleted_Result.DomainNotActiveError = b5 y,
      WorkflowService_RespondQueryTaskCompleted_Result.ClientVersionNotSupportedError = b6 y\<rparr>) =
   Inr \<lparr>WorkflowService_RespondQueryTaskCompleted_Result.BadRequestError = (case x of None \<Rightarrow> a0 |
       Some y \<Rightarrow> b0 y), WorkflowService_RespondQueryTaskCompleted_Result.InternalServiceError = (case
       x of None \<Rightarrow> a1 | Some y \<Rightarrow> b1 y),
       WorkflowService_RespondQueryTaskCompleted_Result.EntityNotExistError = (case x of None \<Rightarrow> a2 |
       Some y \<Rightarrow> b2 y), WorkflowService_RespondQueryTaskCompleted_Result.LimitExceededError = (case x
       of None \<Rightarrow> a3 | Some y \<Rightarrow> b3 y),
       WorkflowService_RespondQueryTaskCompleted_Result.ServiceBusyError = (case x of None \<Rightarrow> a4 |
       Some y \<Rightarrow> b4 y), WorkflowService_RespondQueryTaskCompleted_Result.DomainNotActiveError = (case
       x of None \<Rightarrow> a5 | Some y \<Rightarrow> b5 y),
       WorkflowService_RespondQueryTaskCompleted_Result.ClientVersionNotSupportedError = (case x of
       None \<Rightarrow> a6 | Some y \<Rightarrow> b6 y)\<rparr>"
  by (cases x) simp_all

interpretation WorkflowService_RespondQueryTaskCompleted_Result: thrift_struct W
  "WorkflowService_RespondQueryTaskCompleted_Result_ToWire W"
      "WorkflowService_RespondQueryTaskCompleted_Result_FromWire W"
  WorkflowService_RespondQueryTaskCompleted_Result_zero "\<lambda>r.
      WorkflowService_RespondQueryTaskCompleted_Result_count r \<le> 1" for W
proof (rule thrift_checked_plainI)
  fix x :: WorkflowService_RespondQueryTaskCompleted_Result
  assume laws: "wire_laws W"
  obtain enc0 where e0: "BadRequestError_ToWire W = (\<lambda>x. Inr (enc0 x))"
      "\<And>x. wire_api.Type W (enc0 x) = TStruct"
      "\<And>x. Writable W (enc0 x) \<longleftrightarrow> (\<lambda>_. True) x"
      "\<And>x. (\<lambda>_. True) x \<Longrightarrow> BadRequestError_FromWire W (enc0 x) BadRequestError_zero = Inr x"
    by (rule BadRequestError.encoder [OF laws]) (rule that)
  obtain enc1 where e1: "InternalServiceError_ToWire W = (\<lambda>x. Inr (enc1 x))"
      "\<And>x. wire_api.Type W (enc1 x) = TStruct"
      "\<And>x. Writable W (enc1 x) \<longleftrightarrow> (\<lambda>_. True) x"
      "\<And>x. (\<lambda>_. True) x \<Longrightarrow> InternalServiceError_FromWire W (enc1 x) InternalServiceError_zero = Inr
          x"
    by (rule InternalServiceError.encoder [OF laws]) (rule that)
  obtain enc2 where e2: "EntityNotExistsError_ToWire W = (\<lambda>x. Inr (enc2 x))"
      "\<And>x. wire_api.Type W (enc2 x) = TStruct"
      "\<And>x. Writable W (enc2 x) \<longleftrightarrow> (\<lambda>_. True) x"
      "\<And>x. (\<lambda>_. True) x \<Longrightarrow> EntityNotExistsError_FromWire W (enc2 x) EntityNotExistsError_zero = Inr
          x"
    by (rule EntityNotExistsError.encoder [OF laws]) (rule that)
  obtain enc3 where e3: "LimitExceededError_ToWire W = (\<lambda>x. Inr (enc3 x))"
      "\<And>x. wire_api.Type W (enc3 x) = TStruct"
      "\<And>x. Writable W (enc3 x) \<longleftrightarrow> (\<lambda>_. True) x"
      "\<And>x. (\<lambda>_. True) x \<Longrightarrow> LimitExceededError_FromWire W (enc3 x) LimitExceededError_zero = Inr x"
    by (rule LimitExceededError.encoder [OF laws]) (rule that)
  obtain enc4 where e4: "ServiceBusyError_ToWire W = (\<lambda>x. Inr (enc4 x))"
      "\<And>x. wire_api.Type W (enc4 x) = TStruct"
      "\<And>x. Writable W (enc4 x) \<longleftrightarrow> (\<lambda>_. True) x"
      "\<And>x. (\<lambda>_. True) x \<Longrightarrow> ServiceBusyError_FromWire W (enc4 x) ServiceBusyError_zero = Inr x"
    by (rule ServiceBusyError.encoder [OF laws]) (rule that)
  obtain enc5 where e5: "DomainNotActiveError_ToWire W = (\<lambda>x. Inr (enc5 x))"
      "\<And>x. wire_api.Type W (enc5 x) = TStruct"
      "\<And>x. Writable W (enc5 x) \<longleftrightarrow> (\<lambda>_. True) x"
      "\<And>x. (\<lambda>_. True) x \<Longrightarrow> DomainNotActiveError_FromWire W (enc5 x) DomainNotActiveError_zero = Inr
          x"
    by (rule DomainNotActiveError.encoder [OF laws]) (rule that)
  obtain enc6 where e6: "ClientVersionNotSupportedError_ToWire W = (\<lambda>x. Inr (enc6 x))"
      "\<And>x. wire_api.Type W (enc6 x) = TStruct"
      "\<And>x. Writable W (enc6 x) \<longleftrightarrow> (\<lambda>_. True) x"
      "\<And>x. (\<lambda>_. True) x \<Longrightarrow> ClientVersionNotSupportedError_FromWire W (enc6 x)
          ClientVersionNotSupportedError_zero = Inr x"
    by (rule ClientVersionNotSupportedError.encoder [OF laws]) (rule that)
  let ?fs = "(((((opt_field 1 enc0 (WorkflowService_RespondQueryTaskCompleted_Result.BadRequestError
      x) @
      opt_field 2 enc1 (WorkflowService_RespondQueryTaskCompleted_Result.InternalServiceError x)) @
      opt_field 3 enc2 (WorkflowService_RespondQueryTaskCompleted_Result.EntityNotExistError x)) @
      opt_field 4 enc3 (WorkflowService_RespondQueryTaskCompleted_Result.LimitExceededError x)) @
      opt_field 5 enc4 (WorkflowService_RespondQueryTaskCompleted_Result.ServiceBusyError x)) @
      opt_field 6 enc5 (WorkflowService_RespondQueryTaskCompleted_Result.DomainNotActiveError x)) @
      opt_field 7 enc6
          (WorkflowService_RespondQueryTaskCompleted_Result.ClientVersionNotSupportedError x)"
  let ?check = "\<lambda>r. if 1 < WorkflowService_RespondQueryTaskCompleted_Result_count x then Inl
      (E_Errorf
      ''WorkflowService_RespondQueryTaskCompleted_Result should have at most one field: got %v fields'' (WorkflowService_RespondQueryTaskCompleted_Result_count x)) else Inr r"
  have "length ?fs = WorkflowService_RespondQueryTaskCompleted_Result_count x"
    by (simp add: WorkflowService_RespondQueryTaskCompleted_Result_count_def length_opt_field split
        del: if_split)
  then have "WorkflowService_RespondQueryTaskCompleted_Result_ToWire W x = ?check (NewValueStruct W
      ?fs)"
    by (simp only: WorkflowService_RespondQueryTaskCompleted_Result_ToWire_def put_opt_field
        and_then.simps append_Nil e0(1) e1(1) e2(1) e3(1) e4(1) e5(1) e6(1))
  moreover have "WorkflowService_RespondQueryTaskCompleted_Result_FromWire W (NewValueStruct W ?fs)
      WorkflowService_RespondQueryTaskCompleted_Result_zero = ?check x"
    by (cases x, hypsubst) (simp cong: option.case_cong split del: if_split add: codec_rules Let_def
        WorkflowService_RespondQueryTaskCompleted_Result_merge
      WorkflowService_RespondQueryTaskCompleted_Result_FromWire_def
          WorkflowService_RespondQueryTaskCompleted_Result_zero_def laws
      BadRequestError_Read_def
      ClientVersionNotSupportedError_Read_def
      DomainNotActiveError_Read_def
      EntityNotExistsError_Read_def
      InternalServiceError_Read_def
      LimitExceededError_Read_def
      ServiceBusyError_Read_def
      e0 e1 e2 e3 e4 e5 e6)
  ultimately show "if WorkflowService_RespondQueryTaskCompleted_Result_count x \<le> 1
      then \<exists>w. WorkflowService_RespondQueryTaskCompleted_Result_ToWire W x = Inr w \<and> wire_api.Type W
          w = TStruct \<and>
        Writable W w \<and> WorkflowService_RespondQueryTaskCompleted_Result_FromWire W w
            WorkflowService_RespondQueryTaskCompleted_Result_zero = Inr x
      else \<exists>e. WorkflowService_RespondQueryTaskCompleted_Result_ToWire W x = Inl e"
    by (simp add: laws codec_rules e0 e1 e2 e3 e4 e5 e6)
qed

interpretation RespondQueryTaskCompleted: rpc_method W
  "WorkflowService_RespondQueryTaskCompleted_Args_ToWire W"
      "WorkflowService_RespondQueryTaskCompleted_Args_FromWire W"
      WorkflowService_RespondQueryTaskCompleted_Args_zero "\<lambda>x. True"
  "WorkflowService_RespondQueryTaskCompleted_Result_ToWire W"
      "WorkflowService_RespondQueryTaskCompleted_Result_FromWire W"
      WorkflowService_RespondQueryTaskCompleted_Result_zero
  "\<lambda>r. WorkflowService_RespondQueryTaskCompleted_Result_count r \<le> 1" "''RespondQueryTaskCompleted''"
  WorkflowService_RespondQueryTaskCompleted_Helper_Args
      "WorkflowService_RespondQueryTaskCompleted_Args.CompleteRequest"
  "WorkflowService_RespondQueryTaskCompleted_Helper_WrapResponse"
      WorkflowService_RespondQueryTaskCompleted_Helper_UnwrapResponse
  "\<lambda>out. out \<noteq> None" "carried_void WorkflowService_RespondQueryTaskCompleted_Helper_IsException" id
      "\<lambda>e. Some e"
  "handler_RespondQueryTaskCompleted W" "client_RespondQueryTaskCompleted W" for W
proof
  fix out :: "go_error option"
  assume "carried_void WorkflowService_RespondQueryTaskCompleted_Helper_IsException out"
  then show "case (WorkflowService_RespondQueryTaskCompleted_Helper_WrapResponse) out of Inl e \<Rightarrow>
      False
      | Inr res \<Rightarrow> (WorkflowService_RespondQueryTaskCompleted_Result_count res \<le> 1) \<and>
          WorkflowService_RespondQueryTaskCompleted_Helper_UnwrapResponse res = id out"
    by (cases out; cases "the out")
      (auto simp: WorkflowService_RespondQueryTaskCompleted_Helper_IsException_def
          WorkflowService_RespondQueryTaskCompleted_Helper_WrapResponse_def
          WorkflowService_RespondQueryTaskCompleted_Helper_UnwrapResponse_def
        declared_nonnil_def WorkflowService_RespondQueryTaskCompleted_Result_zero_def
            WorkflowService_RespondQueryTaskCompleted_Result_count_def elim!: present.elims)
next
  fix out :: "go_error option"
  assume "\<not> carried_void WorkflowService_RespondQueryTaskCompleted_Helper_IsException out"
  then show "case (WorkflowService_RespondQueryTaskCompleted_Helper_WrapResponse) out of Inl e \<Rightarrow>
      True
      | Inr res \<Rightarrow> \<not> (WorkflowService_RespondQueryTaskCompleted_Result_count res \<le> 1)"
    by (cases out; cases "the out")
      (auto simp: WorkflowService_RespondQueryTaskCompleted_Helper_IsException_def
          WorkflowService_RespondQueryTaskCompleted_Helper_WrapResponse_def declared_nonnil_def
        WorkflowService_RespondQueryTaskCompleted_Result_count_def
            WorkflowService_RespondQueryTaskCompleted_Result_zero_def split: option.splits)
qed (auto simp: WorkflowService_RespondQueryTaskCompleted_Helper_Args_def
    handler_RespondQueryTaskCompleted_def client_RespondQueryTaskCompleted_def
      WorkflowService_RespondQueryTaskCompleted_Args_enveloper_def
          WorkflowService_RespondQueryTaskCompleted_Result_enveloper_def
      Let_def split: sum.splits prod.splits)

section \<open>QueryWorkflow\<close>

record WorkflowService_QueryWorkflow_Args =
  QueryRequest :: "QueryWorkflowRequest option"

definition WorkflowService_QueryWorkflow_Args_zero :: WorkflowService_QueryWorkflow_Args where
  "WorkflowService_QueryWorkflow_Args_zero = \<lparr>WorkflowService_QueryWorkflow_Args.QueryRequest =
      None\<rparr>"

definition WorkflowService_QueryWorkflow_Args_ToWire ::
  "'v wire_api \<Rightarrow> WorkflowService_QueryWorkflow_Args \<Rightarrow> go_error + 'v" where
  "WorkflowService_QueryWorkflow_Args_ToWire W v =
     and_then (put_opt 1 (QueryWorkflowRequest_ToWire W)
         (WorkflowService_QueryWorkflow_Args.QueryRequest v) [])
       (\<lambda>fields.
     Inr (NewValueStruct W fields))"

definition WorkflowService_QueryWorkflow_Args_FromWire ::
  "'v wire_api \<Rightarrow> 'v \<Rightarrow> WorkflowService_QueryWorkflow_Args \<Rightarrow> go_error +
      WorkflowService_QueryWorkflow_Args" where
  "WorkflowService_QueryWorkflow_Args_FromWire W w v =
     foldM (\<lambda>v (fid, fval).
       if fid = 1 then
         if wire_api.Type W fval = TStruct
         then and_then (QueryWorkflowRequest_Read W fval) (\<lambda>x. Inr
             (v\<lparr>WorkflowService_QueryWorkflow_Args.QueryRequest := Some x\<rparr>))
         else Inr v
       else Inr v) (GetStruct W w) v"

definition WorkflowService_QueryWorkflow_Args_enveloper ::
  "'v wire_api \<Rightarrow> WorkflowService_QueryWorkflow_Args \<Rightarrow> 'v enveloper" where
  "WorkflowService_QueryWorkflow_Args_enveloper W v =
     \<lparr>MethodName = ''QueryWorkflow'', EnvelopeType = Call, EnvelopeToWire =
         WorkflowService_QueryWorkflow_Args_ToWire W v\<rparr>"

definition WorkflowService_QueryWorkflow_Args_Equals ::
  "WorkflowService_QueryWorkflow_Args option \<Rightarrow> WorkflowService_QueryWorkflow_Args option \<Rightarrow> bool"
      where
  "WorkflowService_QueryWorkflow_Args_Equals v rhs =
     (case v of None \<Rightarrow> rhs = None
      | Some v \<Rightarrow> (case rhs of None \<Rightarrow> False
        | Some rhs \<Rightarrow>
          if \<not> both_set_and (\<lambda>x y. QueryWorkflowRequest_Equals (Some x) (Some y))
              (WorkflowService_QueryWorkflow_Args.QueryRequest v)
              (WorkflowService_QueryWorkflow_Args.QueryRequest rhs) then False else
          True))"

lemma WorkflowService_QueryWorkflow_Args_Equals_iff [simp]:
    "WorkflowService_QueryWorkflow_Args_Equals x y \<longleftrightarrow> x = y"
  by (cases x; cases y) (auto simp: WorkflowService_QueryWorkflow_Args_Equals_def)

record WorkflowService_QueryWorkflow_Result =
  Success :: "QueryWorkflowResponse option"
  BadRequestError :: "BadRequestError option"
  InternalServiceError :: "InternalServiceError option"
  EntityNotExistError :: "EntityNotExistsError option"
  QueryFailedError :: "QueryFailedError option"
  LimitExceededError :: "LimitExceededError option"
  ServiceBusyError :: "ServiceBusyError option"
  ClientVersionNotSupportedError :: "ClientVersionNotSupportedError option"

definition WorkflowService_QueryWorkflow_Result_count :: "WorkflowService_QueryWorkflow_Result \<Rightarrow>
    nat" where
  "WorkflowService_QueryWorkflow_Result_count v =
     (if WorkflowService_QueryWorkflow_Result.Success v \<noteq> None then 1 else 0) +
     (if WorkflowService_QueryWorkflow_Result.BadRequestError v \<noteq> None then 1 else 0) +
     (if WorkflowService_QueryWorkflow_Result.InternalServiceError v \<noteq> None then 1 else 0) +
     (if WorkflowService_QueryWorkflow_Result.EntityNotExistError v \<noteq> None then 1 else 0) +
     (if WorkflowService_QueryWorkflow_Result.QueryFailedError v \<noteq> None then 1 else 0) +
     (if WorkflowService_QueryWorkflow_Result.LimitExceededError v \<noteq> None then 1 else 0) +
     (if WorkflowService_QueryWorkflow_Result.ServiceBusyError v \<noteq> None then 1 else 0) +
     (if WorkflowService_QueryWorkflow_Result.ClientVersionNotSupportedError v \<noteq> None then 1 else
         0)"

definition WorkflowService_QueryWorkflow_Result_zero :: WorkflowService_QueryWorkflow_Result where
  "WorkflowService_QueryWorkflow_Result_zero = \<lparr>WorkflowService_QueryWorkflow_Result.Success = None,
      WorkflowService_QueryWorkflow_Result.BadRequestError = None,
      WorkflowService_QueryWorkflow_Result.InternalServiceError = None,
      WorkflowService_QueryWorkflow_Result.EntityNotExistError = None,
      WorkflowService_QueryWorkflow_Result.QueryFailedError = None,
      WorkflowService_QueryWorkflow_Result.LimitExceededError = None,
      WorkflowService_QueryWorkflow_Result.ServiceBusyError = None,
      WorkflowService_QueryWorkflow_Result.ClientVersionNotSupportedError = None\<rparr>"

definition WorkflowService_QueryWorkflow_Result_ToWire ::
  "'v wire_api \<Rightarrow> WorkflowService_QueryWorkflow_Result \<Rightarrow> go_error + 'v" where
  "WorkflowService_QueryWorkflow_Result_ToWire W v =
     and_then (put_opt 0 (QueryWorkflowResponse_ToWire W)
         (WorkflowService_QueryWorkflow_Result.Success v) [])
       (\<lambda>fields.
     and_then (put_opt 1 (BadRequestError_ToWire W)
         (WorkflowService_QueryWorkflow_Result.BadRequestError v) fields)
       (\<lambda>fields.
     and_then (put_opt 2 (InternalServiceError_ToWire W)
         (WorkflowService_QueryWorkflow_Result.InternalServiceError v) fields)
       (\<lambda>fields.
     and_then (put_opt 3 (EntityNotExistsError_ToWire W)
         (WorkflowService_QueryWorkflow_Result.EntityNotExistError v) fields)
       (\<lambda>fields.
     and_then (put_opt 4 (QueryFailedError_ToWire W)
         (WorkflowService_QueryWorkflow_Result.QueryFailedError v) fields)
       (\<lambda>fields.
     and_then (put_opt 5 (LimitExceededError_ToWire W)
         (WorkflowService_QueryWorkflow_Result.LimitExceededError v) fields)
       (\<lambda>fields.
     and_then (put_opt 6 (ServiceBusyError_ToWire W)
         (WorkflowService_QueryWorkflow_Result.ServiceBusyError v) fields)
       (\<lambda>fields.
     and_then (put_opt 7 (ClientVersionNotSupportedError_ToWire W)
         (WorkflowService_QueryWorkflow_Result.ClientVersionNotSupportedError v) fields)
       (\<lambda>fields.
     if length fields \<noteq> 1
     then Inl (E_Errorf
         ''WorkflowService_QueryWorkflow_Result should have exactly one field: got %v fields''
         (length fields))
     else Inr (NewValueStruct W fields)))))))))"

definition WorkflowService_QueryWorkflow_Result_FromWire ::
  "'v wire_api \<Rightarrow> 'v \<Rightarrow> WorkflowService_QueryWorkflow_Result \<Rightarrow> go_error +
      WorkflowService_QueryWorkflow_Result" where
  "WorkflowService_QueryWorkflow_Result_FromWire W w v =
     and_then (foldM (\<lambda>v (fid, fval).
       if fid = 0 then
         if wire_api.Type W fval = TStruct
         then and_then (QueryWorkflowResponse_Read W fval) (\<lambda>x. Inr
             (v\<lparr>WorkflowService_QueryWorkflow_Result.Success := Some x\<rparr>))
         else Inr v
       else if fid = 1 then
         if wire_api.Type W fval = TStruct
         then and_then (BadRequestError_Read W fval) (\<lambda>x. Inr
             (v\<lparr>WorkflowService_QueryWorkflow_Result.BadRequestError := Some x\<rparr>))
         else Inr v
       else if fid = 2 then
         if wire_api.Type W fval = TStruct
         then and_then (InternalServiceError_Read W fval) (\<lambda>x. Inr
             (v\<lparr>WorkflowService_QueryWorkflow_Result.InternalServiceError := Some x\<rparr>))
         else Inr v
       else if fid = 3 then
         if wire_api.Type W fval = TStruct
         then and_then (EntityNotExistsError_Read W fval) (\<lambda>x. Inr
             (v\<lparr>WorkflowService_QueryWorkflow_Result.EntityNotExistError := Some x\<rparr>))
         else Inr v
       else if fid = 4 then
         if wire_api.Type W fval = TStruct
         then and_then (QueryFailedError_Read W fval) (\<lambda>x. Inr
             (v\<lparr>WorkflowService_QueryWorkflow_Result.QueryFailedError := Some x\<rparr>))
         else Inr v
       else if fid = 5 then
         if wire_api.Type W fval = TStruct
         then and_then (LimitExceededError_Read W fval) (\<lambda>x. Inr
             (v\<lparr>WorkflowService_QueryWorkflow_Result.LimitExceededError := Some x\<rparr>))
         else Inr v
       else if fid = 6 then
         if wire_api.Type W fval = TStruct
         then and_then (ServiceBusyError_Read W fval) (\<lambda>x. Inr
             (v\<lparr>WorkflowService_QueryWorkflow_Result.ServiceBusyError := Some x\<rparr>))
         else Inr v
       else if fid = 7 then
         if wire_api.Type W fval = TStruct
         then and_then (ClientVersionNotSupportedError_Read W fval) (\<lambda>x. Inr
             (v\<lparr>WorkflowService_QueryWorkflow_Result.ClientVersionNotSupportedError := Some x\<rparr>))
         else Inr v
       else Inr v) (GetStruct W w) v) (\<lambda>v.
     let count = WorkflowService_QueryWorkflow_Result_count v in
     if count \<noteq> 1
     then Inl (E_Errorf
         ''WorkflowService_QueryWorkflow_Result should have exactly one field: got %v fields''
         count)
     else Inr v)"

definition WorkflowService_QueryWorkflow_Result_enveloper ::
  "'v wire_api \<Rightarrow> WorkflowService_QueryWorkflow_Result \<Rightarrow> 'v enveloper" where
  "WorkflowService_QueryWorkflow_Result_enveloper W v =
     \<lparr>MethodName = ''QueryWorkflow'', EnvelopeType = Reply, EnvelopeToWire =
         WorkflowService_QueryWorkflow_Result_ToWire W v\<rparr>"

definition WorkflowService_QueryWorkflow_Result_Equals ::
  "WorkflowService_QueryWorkflow_Result option \<Rightarrow> WorkflowService_QueryWorkflow_Result option \<Rightarrow> bool"
      where
  "WorkflowService_QueryWorkflow_Result_Equals v rhs =
     (case v of None \<Rightarrow> rhs = None
      | Some v \<Rightarrow> (case rhs of None \<Rightarrow> False
        | Some rhs \<Rightarrow>
          if \<not> both_set_and (\<lambda>x y. QueryWorkflowResponse_Equals (Some x) (Some y))
              (WorkflowService_QueryWorkflow_Result.Success v)
              (WorkflowService_QueryWorkflow_Result.Success rhs) then False else
          if \<not> both_set_and (\<lambda>x y. BadRequestError_Equals (Some x) (Some y))
              (WorkflowService_QueryWorkflow_Result.BadRequestError v)
              (WorkflowService_QueryWorkflow_Result.BadRequestError rhs) then False else
          if \<not> both_set_and (\<lambda>x y. InternalServiceError_Equals (Some x) (Some y))
              (WorkflowService_QueryWorkflow_Result.InternalServiceError v)
              (WorkflowService_QueryWorkflow_Result.InternalServiceError rhs) then False else
          if \<not> both_set_and (\<lambda>x y. EntityNotExistsError_Equals (Some x) (Some y))
              (WorkflowService_QueryWorkflow_Result.EntityNotExistError v)
              (WorkflowService_QueryWorkflow_Result.EntityNotExistError rhs) then False else
          if \<not> both_set_and (\<lambda>x y. QueryFailedError_Equals (Some x) (Some y))
              (WorkflowService_QueryWorkflow_Result.QueryFailedError v)
              (WorkflowService_QueryWorkflow_Result.QueryFailedError rhs) then False else
          if \<not> both_set_and (\<lambda>x y. LimitExceededError_Equals (Some x) (Some y))
              (WorkflowService_QueryWorkflow_Result.LimitExceededError v)
              (WorkflowService_QueryWorkflow_Result.LimitExceededError rhs) then False else
          if \<not> both_set_and (\<lambda>x y. ServiceBusyError_Equals (Some x) (Some y))
              (WorkflowService_QueryWorkflow_Result.ServiceBusyError v)
              (WorkflowService_QueryWorkflow_Result.ServiceBusyError rhs) then False else
          if \<not> both_set_and (\<lambda>x y. ClientVersionNotSupportedError_Equals (Some x) (Some y))
              (WorkflowService_QueryWorkflow_Result.ClientVersionNotSupportedError v)
              (WorkflowService_QueryWorkflow_Result.ClientVersionNotSupportedError rhs) then False
              else
          True))"

lemma WorkflowService_QueryWorkflow_Result_Equals_iff [simp]:
    "WorkflowService_QueryWorkflow_Result_Equals x y \<longleftrightarrow> x = y"
  by (cases x; cases y) (simp_all add: WorkflowService_QueryWorkflow_Result_Equals_def if_not_False,
      fastforce intro: WorkflowService_QueryWorkflow_Result.equality)

definition WorkflowService_QueryWorkflow_Helper_Args :: "QueryWorkflowRequest option \<Rightarrow>
    WorkflowService_QueryWorkflow_Args" where
  "WorkflowService_QueryWorkflow_Helper_Args r = \<lparr>WorkflowService_QueryWorkflow_Args.QueryRequest =
      r\<rparr>"

definition WorkflowService_QueryWorkflow_Helper_IsException :: "go_error \<Rightarrow> bool" where
  "WorkflowService_QueryWorkflow_Helper_IsException err =
     (case err of
        E_BadRequestError _ \<Rightarrow> True
      | E_InternalServiceError _ \<Rightarrow> True
      | E_EntityNotExistsError _ \<Rightarrow> True
      | E_QueryFailedError _ \<Rightarrow> True
      | E_LimitExceededError _ \<Rightarrow> True
      | E_ServiceBusyError _ \<Rightarrow> True
      | E_ClientVersionNotSupportedError _ \<Rightarrow> True
      | _ \<Rightarrow> False)"

definition WorkflowService_QueryWorkflow_Helper_WrapResponse ::
  "QueryWorkflowResponse option \<Rightarrow> go_error option \<Rightarrow> go_error + WorkflowService_QueryWorkflow_Result"
      where
  "WorkflowService_QueryWorkflow_Helper_WrapResponse success err =
     (case err of None \<Rightarrow> Inr
         (WorkflowService_QueryWorkflow_Result_zero\<lparr>WorkflowService_QueryWorkflow_Result.Success :=
         success\<rparr>)
      | Some err \<Rightarrow> (case err of
          E_BadRequestError e \<Rightarrow> (case e of
              None \<Rightarrow> Inl (E_New
                  ''WrapResponse received non-nil error type with nil value for WorkflowService_QueryWorkflow_Result.BadRequestError'')
            | Some e \<Rightarrow> Inr
                (WorkflowService_QueryWorkflow_Result_zero\<lparr>WorkflowService_QueryWorkflow_Result.BadRequestError := Some e\<rparr>))
        | E_InternalServiceError e \<Rightarrow> (case e of
              None \<Rightarrow> Inl (E_New
                  ''WrapResponse received non-nil error type with nil value for WorkflowService_QueryWorkflow_Result.InternalServiceError'')
            | Some e \<Rightarrow> Inr
                (WorkflowService_QueryWorkflow_Result_zero\<lparr>WorkflowService_QueryWorkflow_Result.InternalServiceError := Some e\<rparr>))
        | E_EntityNotExistsError e \<Rightarrow> (case e of
              None \<Rightarrow> Inl (E_New
                  ''WrapResponse received non-nil error type with nil value for WorkflowService_QueryWorkflow_Result.EntityNotExistError'')
            | Some e \<Rightarrow> Inr
                (WorkflowService_QueryWorkflow_Result_zero\<lparr>WorkflowService_QueryWorkflow_Result.EntityNotExistError := Some e\<rparr>))
        | E_QueryFailedError e \<Rightarrow> (case e of
              None \<Rightarrow> Inl (E_New
                  ''WrapResponse received non-nil error type with nil value for WorkflowService_QueryWorkflow_Result.QueryFailedError'')
            | Some e \<Rightarrow> Inr
                (WorkflowService_QueryWorkflow_Result_zero\<lparr>WorkflowService_QueryWorkflow_Result.QueryFailedError := Some e\<rparr>))
        | E_LimitExceededError e \<Rightarrow> (case e of
              None \<Rightarrow> Inl (E_New
                  ''WrapResponse received non-nil error type with nil value for WorkflowService_QueryWorkflow_Result.LimitExceededError'')
            | Some e \<Rightarrow> Inr
                (WorkflowService_QueryWorkflow_Result_zero\<lparr>WorkflowService_QueryWorkflow_Result.LimitExceededError := Some e\<rparr>))
        | E_ServiceBusyError e \<Rightarrow> (case e of
              None \<Rightarrow> Inl (E_New
                  ''WrapResponse received non-nil error type with nil value for WorkflowService_QueryWorkflow_Result.ServiceBusyError'')
            | Some e \<Rightarrow> Inr
                (WorkflowService_QueryWorkflow_Result_zero\<lparr>WorkflowService_QueryWorkflow_Result.ServiceBusyError := Some e\<rparr>))
        | E_ClientVersionNotSupportedError e \<Rightarrow> (case e of
              None \<Rightarrow> Inl (E_New
                  ''WrapResponse received non-nil error type with nil value for WorkflowService_QueryWorkflow_Result.ClientVersionNotSupportedError'')
            | Some e \<Rightarrow> Inr
                (WorkflowService_QueryWorkflow_Result_zero\<lparr>WorkflowService_QueryWorkflow_Result.ClientVersionNotSupportedError := Some e\<rparr>))
        | _ \<Rightarrow> Inl err))"

definition WorkflowService_QueryWorkflow_Helper_UnwrapResponse ::
  "WorkflowService_QueryWorkflow_Result \<Rightarrow> QueryWorkflowResponse option \<times> go_error option" where
  "WorkflowService_QueryWorkflow_Helper_UnwrapResponse result =
    (if WorkflowService_QueryWorkflow_Result.BadRequestError result \<noteq> None then (None, Some
        (E_BadRequestError (WorkflowService_QueryWorkflow_Result.BadRequestError result))) else
     if WorkflowService_QueryWorkflow_Result.InternalServiceError result \<noteq> None then (None, Some
         (E_InternalServiceError (WorkflowService_QueryWorkflow_Result.InternalServiceError
         result))) else
     if WorkflowService_QueryWorkflow_Result.EntityNotExistError result \<noteq> None then (None, Some
         (E_EntityNotExistsError (WorkflowService_QueryWorkflow_Result.EntityNotExistError result)))
         else
     if WorkflowService_QueryWorkflow_Result.QueryFailedError result \<noteq> None then (None, Some
         (E_QueryFailedError (WorkflowService_QueryWorkflow_Result.QueryFailedError result))) else
     if WorkflowService_QueryWorkflow_Result.LimitExceededError result \<noteq> None then (None, Some
         (E_LimitExceededError (WorkflowService_QueryWorkflow_Result.LimitExceededError result)))
         else
     if WorkflowService_QueryWorkflow_Result.ServiceBusyError result \<noteq> None then (None, Some
         (E_ServiceBusyError (WorkflowService_QueryWorkflow_Result.ServiceBusyError result))) else
     if WorkflowService_QueryWorkflow_Result.ClientVersionNotSupportedError result \<noteq> None then
         (None, Some (E_ClientVersionNotSupportedError
         (WorkflowService_QueryWorkflow_Result.ClientVersionNotSupportedError result))) else
     if WorkflowService_QueryWorkflow_Result.Success result \<noteq> None then
         (WorkflowService_QueryWorkflow_Result.Success result, None) else
     (None, Some (E_New ''expected a non-void result'')))"

definition handler_QueryWorkflow ::
  "'v wire_api \<Rightarrow> ('ctx \<Rightarrow> QueryWorkflowRequest option \<Rightarrow> QueryWorkflowResponse option \<times> go_error
      option) \<Rightarrow>
   ('ctx, 'v) unary_handler" where
  "handler_QueryWorkflow W impl ctx body =
     (case WorkflowService_QueryWorkflow_Args_FromWire W body
         WorkflowService_QueryWorkflow_Args_zero of
      Inl err \<Rightarrow> (no_response, Some err)
    | Inr args \<Rightarrow>
      let (success, err) = impl ctx (WorkflowService_QueryWorkflow_Args.QueryRequest args);
          hadError = (err \<noteq> None)
      in case WorkflowService_QueryWorkflow_Helper_WrapResponse success err of
           Inl err \<Rightarrow> (no_response, Some err)
         | Inr result \<Rightarrow>
             (\<lparr>Body = Some (WorkflowService_QueryWorkflow_Result_enveloper W result),
               IsApplicationError = hadError\<rparr>, None))"

definition client_QueryWorkflow ::
  "'v wire_api \<Rightarrow> ('ctx, 'v) thrift_client \<Rightarrow> 'ctx \<Rightarrow> QueryWorkflowRequest option \<Rightarrow>
   QueryWorkflowResponse option \<times> go_error option" where
  "client_QueryWorkflow W call ctx r =
     (let args = WorkflowService_QueryWorkflow_Helper_Args r in
      case call ctx (WorkflowService_QueryWorkflow_Args_enveloper W args) of
        Inl e \<Rightarrow> (None, Some e)
      | Inr body \<Rightarrow>
          (case WorkflowService_QueryWorkflow_Result_FromWire W body
              WorkflowService_QueryWorkflow_Result_zero of
             Inl e \<Rightarrow> (None, Some e)
           | Inr result \<Rightarrow> WorkflowService_QueryWorkflow_Helper_UnwrapResponse result))"

lemma WorkflowService_QueryWorkflow_Args_merge:
  "(case x of None \<Rightarrow> Inr \<lparr>WorkflowService_QueryWorkflow_Args.QueryRequest = a0\<rparr> | Some y \<Rightarrow> Inr
      \<lparr>WorkflowService_QueryWorkflow_Args.QueryRequest = b0 y\<rparr>) =
   Inr \<lparr>WorkflowService_QueryWorkflow_Args.QueryRequest = (case x of None \<Rightarrow> a0 | Some y \<Rightarrow> b0 y)\<rparr>"
  by (cases x) simp_all

interpretation WorkflowService_QueryWorkflow_Args: thrift_struct W
  "WorkflowService_QueryWorkflow_Args_ToWire W" "WorkflowService_QueryWorkflow_Args_FromWire W"
  WorkflowService_QueryWorkflow_Args_zero "\<lambda>x. True" for W
proof (rule thrift_structI)
  fix x :: WorkflowService_QueryWorkflow_Args
  assume laws: "wire_laws W"
  obtain enc0 where e0: "QueryWorkflowRequest_ToWire W = (\<lambda>x. Inr (enc0 x))"
      "\<And>x. wire_api.Type W (enc0 x) = TStruct"
      "\<And>x. Writable W (enc0 x) \<longleftrightarrow> (\<lambda>_. True) x"
      "\<And>x. (\<lambda>_. True) x \<Longrightarrow> QueryWorkflowRequest_FromWire W (enc0 x) QueryWorkflowRequest_zero = Inr
          x"
    by (rule QueryWorkflowRequest.encoder [OF laws]) (rule that)
  show "\<exists>w. WorkflowService_QueryWorkflow_Args_ToWire W x = Inr w \<and> wire_api.Type W w = TStruct \<and>
      (Writable W w \<longleftrightarrow> True) \<and> (True \<longrightarrow> WorkflowService_QueryWorkflow_Args_FromWire W w
          WorkflowService_QueryWorkflow_Args_zero = Inr x)"
    by (cases x) (simp cong: option.case_cong add: codec_rules
        WorkflowService_QueryWorkflow_Args_merge WorkflowService_QueryWorkflow_Args_ToWire_def
        WorkflowService_QueryWorkflow_Args_FromWire_def
      WorkflowService_QueryWorkflow_Args_zero_def QueryWorkflowRequest_Read_def if_set_def laws e0)
qed

lemma WorkflowService_QueryWorkflow_Result_merge:
  "(case x of None \<Rightarrow> Inr \<lparr>WorkflowService_QueryWorkflow_Result.Success = a0,
      WorkflowService_QueryWorkflow_Result.BadRequestError = a1,
      WorkflowService_QueryWorkflow_Result.InternalServiceError = a2,
      WorkflowService_QueryWorkflow_Result.EntityNotExistError = a3,
      WorkflowService_QueryWorkflow_Result.QueryFailedError = a4,
      WorkflowService_QueryWorkflow_Result.LimitExceededError = a5,
      WorkflowService_QueryWorkflow_Result.ServiceBusyError = a6,
      WorkflowService_QueryWorkflow_Result.ClientVersionNotSupportedError = a7\<rparr> | Some y \<Rightarrow> Inr
      \<lparr>WorkflowService_QueryWorkflow_Result.Success = b0 y,
      WorkflowService_QueryWorkflow_Result.BadRequestError = b1 y,
      WorkflowService_QueryWorkflow_Result.InternalServiceError = b2 y,
      WorkflowService_QueryWorkflow_Result.EntityNotExistError = b3 y,
      WorkflowService_QueryWorkflow_Result.QueryFailedError = b4 y,
      WorkflowService_QueryWorkflow_Result.LimitExceededError = b5 y,
      WorkflowService_QueryWorkflow_Result.ServiceBusyError = b6 y,
      WorkflowService_QueryWorkflow_Result.ClientVersionNotSupportedError = b7 y\<rparr>) =
   Inr \<lparr>WorkflowService_QueryWorkflow_Result.Success = (case x of None \<Rightarrow> a0 | Some y \<Rightarrow> b0 y),
       WorkflowService_QueryWorkflow_Result.BadRequestError = (case x of None \<Rightarrow> a1 | Some y \<Rightarrow> b1 y),
       WorkflowService_QueryWorkflow_Result.InternalServiceError = (case x of None \<Rightarrow> a2 | Some y \<Rightarrow>
       b2 y), WorkflowService_QueryWorkflow_Result.EntityNotExistError = (case x of None \<Rightarrow> a3 | Some
       y \<Rightarrow> b3 y), WorkflowService_QueryWorkflow_Result.QueryFailedError = (case x of None \<Rightarrow> a4 |
       Some y \<Rightarrow> b4 y), WorkflowService_QueryWorkflow_Result.LimitExceededError = (case x of None \<Rightarrow>
       a5 | Some y \<Rightarrow> b5 y), WorkflowService_QueryWorkflow_Result.ServiceBusyError = (case x of None
       \<Rightarrow> a6 | Some y \<Rightarrow> b6 y), WorkflowService_QueryWorkflow_Result.ClientVersionNotSupportedError =
       (case x of None \<Rightarrow> a7 | Some y \<Rightarrow> b7 y)\<rparr>"
  by (cases x) simp_all

interpretation WorkflowService_QueryWorkflow_Result: thrift_struct W
  "WorkflowService_QueryWorkflow_Result_ToWire W" "WorkflowService_QueryWorkflow_Result_FromWire W"
  WorkflowService_QueryWorkflow_Result_zero "\<lambda>r. WorkflowService_QueryWorkflow_Result_count r = 1"
      for W
proof (rule thrift_checked_plainI)
  fix x :: WorkflowService_QueryWorkflow_Result
  assume laws: "wire_laws W"
  obtain enc0 where e0: "QueryWorkflowResponse_ToWire W = (\<lambda>x. Inr (enc0 x))"
      "\<And>x. wire_api.Type W (enc0 x) = TStruct"
      "\<And>x. Writable W (enc0 x) \<longleftrightarrow> (\<lambda>_. True) x"
      "\<And>x. (\<lambda>_. True) x \<Longrightarrow> QueryWorkflowResponse_FromWire W (enc0 x) QueryWorkflowResponse_zero = Inr
          x"
    by (rule QueryWorkflowResponse.encoder [OF laws]) (rule that)
  obtain enc1 where e1: "BadRequestError_ToWire W = (\<lambda>x. Inr (enc1 x))"
      "\<And>x. wire_api.Type W (enc1 x) = TStruct"
      "\<And>x. Writable W (enc1 x) \<longleftrightarrow> (\<lambda>_. True) x"
      "\<And>x. (\<lambda>_. True) x \<Longrightarrow> BadRequestError_FromWire W (enc1 x) BadRequestError_zero = Inr x"
    by (rule BadRequestError.encoder [OF laws]) (rule that)
  obtain enc2 where e2: "InternalServiceError_ToWire W = (\<lambda>x. Inr (enc2 x))"
      "\<And>x. wire_api.Type W (enc2 x) = TStruct"
      "\<And>x. Writable W (enc2 x) \<longleftrightarrow> (\<lambda>_. True) x"
      "\<And>x. (\<lambda>_. True) x \<Longrightarrow> InternalServiceError_FromWire W (enc2 x) InternalServiceError_zero = Inr
          x"
    by (rule InternalServiceError.encoder [OF laws]) (rule that)
  obtain enc3 where e3: "EntityNotExistsError_ToWire W = (\<lambda>x. Inr (enc3 x))"
      "\<And>x. wire_api.Type W (enc3 x) = TStruct"
      "\<And>x. Writable W (enc3 x) \<longleftrightarrow> (\<lambda>_. True) x"
      "\<And>x. (\<lambda>_. True) x \<Longrightarrow> EntityNotExistsError_FromWire W (enc3 x) EntityNotExistsError_zero = Inr
          x"
    by (rule EntityNotExistsError.encoder [OF laws]) (rule that)
  obtain enc4 where e4: "QueryFailedError_ToWire W = (\<lambda>x. Inr (enc4 x))"
      "\<And>x. wire_api.Type W (enc4 x) = TStruct"
      "\<And>x. Writable W (enc4 x) \<longleftrightarrow> (\<lambda>_. True) x"
      "\<And>x. (\<lambda>_. True) x \<Longrightarrow> QueryFailedError_FromWire W (enc4 x) QueryFailedError_zero = Inr x"
    by (rule QueryFailedError.encoder [OF laws]) (rule that)
  obtain enc5 where e5: "LimitExceededError_ToWire W = (\<lambda>x. Inr (enc5 x))"
      "\<And>x. wire_api.Type W (enc5 x) = TStruct"
      "\<And>x. Writable W (enc5 x) \<longleftrightarrow> (\<lambda>_. True) x"
      "\<And>x. (\<lambda>_. True) x \<Longrightarrow> LimitExceededError_FromWire W (enc5 x) LimitExceededError_zero = Inr x"
    by (rule LimitExceededError.encoder [OF laws]) (rule that)
  obtain enc6 where e6: "ServiceBusyError_ToWire W = (\<lambda>x. Inr (enc6 x))"
      "\<And>x. wire_api.Type W (enc6 x) = TStruct"
      "\<And>x. Writable W (enc6 x) \<longleftrightarrow> (\<lambda>_. True) x"
      "\<And>x. (\<lambda>_. True) x \<Longrightarrow> ServiceBusyError_FromWire W (enc6 x) ServiceBusyError_zero = Inr x"
    by (rule ServiceBusyError.encoder [OF laws]) (rule that)
  obtain enc7 where e7: "ClientVersionNotSupportedError_ToWire W = (\<lambda>x. Inr (enc7 x))"
      "\<And>x. wire_api.Type W (enc7 x) = TStruct"
      "\<And>x. Writable W (enc7 x) \<longleftrightarrow> (\<lambda>_. True) x"
      "\<And>x. (\<lambda>_. True) x \<Longrightarrow> ClientVersionNotSupportedError_FromWire W (enc7 x)
          ClientVersionNotSupportedError_zero = Inr x"
    by (rule ClientVersionNotSupportedError.encoder [OF laws]) (rule that)
  let ?fs = "((((((opt_field 0 enc0 (WorkflowService_QueryWorkflow_Result.Success x) @
      opt_field 1 enc1 (WorkflowService_QueryWorkflow_Result.BadRequestError x)) @
      opt_field 2 enc2 (WorkflowService_QueryWorkflow_Result.InternalServiceError x)) @
      opt_field 3 enc3 (WorkflowService_QueryWorkflow_Result.EntityNotExistError x)) @
      opt_field 4 enc4 (WorkflowService_QueryWorkflow_Result.QueryFailedError x)) @
      opt_field 5 enc5 (WorkflowService_QueryWorkflow_Result.LimitExceededError x)) @
      opt_field 6 enc6 (WorkflowService_QueryWorkflow_Result.ServiceBusyError x)) @
      opt_field 7 enc7 (WorkflowService_QueryWorkflow_Result.ClientVersionNotSupportedError x)"
  let ?check = "\<lambda>r. if WorkflowService_QueryWorkflow_Result_count x \<noteq> 1 then Inl (E_Errorf
      ''WorkflowService_QueryWorkflow_Result should have exactly one field: got %v fields''
          (WorkflowService_QueryWorkflow_Result_count x)) else Inr r"
  have "length ?fs = WorkflowService_QueryWorkflow_Result_count x"
    by (simp add: WorkflowService_QueryWorkflow_Result_count_def length_opt_field split del:
        if_split)
  then have "WorkflowService_QueryWorkflow_Result_ToWire W x = ?check (NewValueStruct W ?fs)"
    by (simp only: WorkflowService_QueryWorkflow_Result_ToWire_def put_opt_field and_then.simps
        append_Nil e0(1) e1(1) e2(1) e3(1) e4(1) e5(1) e6(1) e7(1))
  moreover have "WorkflowService_QueryWorkflow_Result_FromWire W (NewValueStruct W ?fs)
      WorkflowService_QueryWorkflow_Result_zero = ?check x"
    by (cases x, hypsubst) (simp cong: option.case_cong split del: if_split add: codec_rules Let_def
        WorkflowService_QueryWorkflow_Result_merge
      WorkflowService_QueryWorkflow_Result_FromWire_def
          WorkflowService_QueryWorkflow_Result_zero_def laws
      BadRequestError_Read_def
      ClientVersionNotSupportedError_Read_def
      EntityNotExistsError_Read_def
      InternalServiceError_Read_def
      LimitExceededError_Read_def
      QueryFailedError_Read_def
      QueryWorkflowResponse_Read_def
      ServiceBusyError_Read_def
      e0 e1 e2 e3 e4 e5 e6 e7)
  ultimately show "if WorkflowService_QueryWorkflow_Result_count x = 1
      then \<exists>w. WorkflowService_QueryWorkflow_Result_ToWire W x = Inr w \<and> wire_api.Type W w = TStruct
          \<and>
        Writable W w \<and> WorkflowService_QueryWorkflow_Result_FromWire W w
            WorkflowService_QueryWorkflow_Result_zero = Inr x
      else \<exists>e. WorkflowService_QueryWorkflow_Result_ToWire W x = Inl e"
    by (simp add: laws codec_rules e0 e1 e2 e3 e4 e5 e6 e7)
qed

interpretation QueryWorkflow: rpc_method W
  "WorkflowService_QueryWorkflow_Args_ToWire W" "WorkflowService_QueryWorkflow_Args_FromWire W"
      WorkflowService_QueryWorkflow_Args_zero "\<lambda>x. True"
  "WorkflowService_QueryWorkflow_Result_ToWire W" "WorkflowService_QueryWorkflow_Result_FromWire W"
      WorkflowService_QueryWorkflow_Result_zero
  "\<lambda>r. WorkflowService_QueryWorkflow_Result_count r = 1" "''QueryWorkflow''"
  WorkflowService_QueryWorkflow_Helper_Args "WorkflowService_QueryWorkflow_Args.QueryRequest"
  "\<lambda>(success, err). WorkflowService_QueryWorkflow_Helper_WrapResponse success err"
      WorkflowService_QueryWorkflow_Helper_UnwrapResponse
  "\<lambda>out. snd out \<noteq> None" "carried (\<lambda>_. True) WorkflowService_QueryWorkflow_Helper_IsException"
      error_first "\<lambda>e. (None, Some e)"
  "handler_QueryWorkflow W" "client_QueryWorkflow W" for W
proof
  fix out :: "QueryWorkflowResponse option \<times> go_error option"
  assume "carried (\<lambda>_. True) WorkflowService_QueryWorkflow_Helper_IsException out"
  then show "case (\<lambda>(success, err). WorkflowService_QueryWorkflow_Helper_WrapResponse success err)
      out of Inl e \<Rightarrow> False
      | Inr res \<Rightarrow> (WorkflowService_QueryWorkflow_Result_count res = 1) \<and>
          WorkflowService_QueryWorkflow_Helper_UnwrapResponse res = error_first out"
    by (cases out; cases "snd out"; cases "the (snd out)")
      (auto simp: WorkflowService_QueryWorkflow_Helper_IsException_def
          WorkflowService_QueryWorkflow_Helper_WrapResponse_def
          WorkflowService_QueryWorkflow_Helper_UnwrapResponse_def
        declared_nonnil_def WorkflowService_QueryWorkflow_Result_zero_def
            WorkflowService_QueryWorkflow_Result_count_def elim!: present.elims)
next
  fix out :: "QueryWorkflowResponse option \<times> go_error option"
  assume "\<not> carried (\<lambda>_. True) WorkflowService_QueryWorkflow_Helper_IsException out"
  then show "case (\<lambda>(success, err). WorkflowService_QueryWorkflow_Helper_WrapResponse success err)
      out of Inl e \<Rightarrow> True
      | Inr res \<Rightarrow> \<not> (WorkflowService_QueryWorkflow_Result_count res = 1)"
    by (cases out; cases "snd out"; cases "the (snd out)")
      (auto simp: WorkflowService_QueryWorkflow_Helper_IsException_def
          WorkflowService_QueryWorkflow_Helper_WrapResponse_def declared_nonnil_def
        WorkflowService_QueryWorkflow_Result_count_def WorkflowService_QueryWorkflow_Result_zero_def
            split: option.splits)
qed (auto simp: WorkflowService_QueryWorkflow_Helper_Args_def handler_QueryWorkflow_def
    client_QueryWorkflow_def
      WorkflowService_QueryWorkflow_Args_enveloper_def
          WorkflowService_QueryWorkflow_Result_enveloper_def
      Let_def split: sum.splits prod.splits)

section \<open>ResetStickyTaskList\<close>

record WorkflowService_ResetStickyTaskList_Args =
  ResetRequest :: "ResetStickyTaskListRequest option"

definition WorkflowService_ResetStickyTaskList_Args_zero :: WorkflowService_ResetStickyTaskList_Args
    where
  "WorkflowService_ResetStickyTaskList_Args_zero =
      \<lparr>WorkflowService_ResetStickyTaskList_Args.ResetRequest = None\<rparr>"

definition WorkflowService_ResetStickyTaskList_Args_ToWire ::
  "'v wire_api \<Rightarrow> WorkflowService_ResetStickyTaskList_Args \<Rightarrow> go_error + 'v" where
  "WorkflowService_ResetStickyTaskList_Args_ToWire W v =
     and_then (put_opt 1 (ResetStickyTaskListRequest_ToWire W)
         (WorkflowService_ResetStickyTaskList_Args.ResetRequest v) [])
       (\<lambda>fields.
     Inr (NewValueStruct W fields))"

definition WorkflowService_ResetStickyTaskList_Args_FromWire ::
  "'v wire_api \<Rightarrow> 'v \<Rightarrow> WorkflowService_ResetStickyTaskList_Args \<Rightarrow> go_error +
      WorkflowService_ResetStickyTaskList_Args" where
  "WorkflowService_ResetStickyTaskList_Args_FromWire W w v =
     foldM (\<lambda>v (fid, fval).
       if fid = 1 then
         if wire_api.Type W fval = TStruct
         then and_then (ResetStickyTaskListRequest_Read W fval) (\<lambda>x. Inr
             (v\<lparr>WorkflowService_ResetStickyTaskList_Args.ResetRequest := Some x\<rparr>))
         else Inr v
       else Inr v) (GetStruct W w) v"

definition WorkflowService_ResetStickyTaskList_Args_enveloper ::
  "'v wire_api \<Rightarrow> WorkflowService_ResetStickyTaskList_Args \<Rightarrow> 'v enveloper" where
  "WorkflowService_ResetStickyTaskList_Args_enveloper W v =
     \<lparr>MethodName = ''ResetStickyTaskList'', EnvelopeType = Call, EnvelopeToWire =
         WorkflowService_ResetStickyTaskList_Args_ToWire W v\<rparr>"

definition WorkflowService_ResetStickyTaskList_Args_Equals ::
  "WorkflowService_ResetStickyTaskList_Args option \<Rightarrow> WorkflowService_ResetStickyTaskList_Args option
      \<Rightarrow> bool" where
  "WorkflowService_ResetStickyTaskList_Args_Equals v rhs =
     (case v of None \<Rightarrow> rhs = None
      | Some v \<Rightarrow> (case rhs of None \<Rightarrow> False
        | Some rhs \<Rightarrow>
          if \<not> both_set_and (\<lambda>x y. ResetStickyTaskListRequest_Equals (Some x) (Some y))
              (WorkflowService_ResetStickyTaskList_Args.ResetRequest v)
              (WorkflowService_ResetStickyTaskList_Args.ResetRequest rhs) then False else
          True))"

lemma WorkflowService_ResetStickyTaskList_Args_Equals_iff [simp]:
    "WorkflowService_ResetStickyTaskList_Args_Equals x y \<longleftrightarrow> x = y"
  by (cases x; cases y) (auto simp: WorkflowService_ResetStickyTaskList_Args_Equals_def)

record WorkflowService_ResetStickyTaskList_Result =
  Success :: "ResetStickyTaskListResponse option"
  BadRequestError :: "BadRequestError option"
  InternalServiceError :: "InternalServiceError option"
  EntityNotExistError :: "EntityNotExistsError option"
  LimitExceededError :: "LimitExceededError option"
  ServiceBusyError :: "ServiceBusyError option"
  DomainNotActiveError :: "DomainNotActiveError option"
  ClientVersionNotSupportedError :: "ClientVersionNotSupportedError option"

definition WorkflowService_ResetStickyTaskList_Result_count ::
    "WorkflowService_ResetStickyTaskList_Result \<Rightarrow> nat" where
  "WorkflowService_ResetStickyTaskList_Result_count v =
     (if WorkflowService_ResetStickyTaskList_Result.Success v \<noteq> None then 1 else 0) +
     (if WorkflowService_ResetStickyTaskList_Result.BadRequestError v \<noteq> None then 1 else 0) +
     (if WorkflowService_ResetStickyTaskList_Result.InternalServiceError v \<noteq> None then 1 else 0) +
     (if WorkflowService_ResetStickyTaskList_Result.EntityNotExistError v \<noteq> None then 1 else 0) +
     (if WorkflowService_ResetStickyTaskList_Result.LimitExceededError v \<noteq> None then 1 else 0) +
     (if WorkflowService_ResetStickyTaskList_Result.ServiceBusyError v \<noteq> None then 1 else 0) +
     (if WorkflowService_ResetStickyTaskList_Result.DomainNotActiveError v \<noteq> None then 1 else 0) +
     (if WorkflowService_ResetStickyTaskList_Result.ClientVersionNotSupportedError v \<noteq> None then 1
         else 0)"

definition WorkflowService_ResetStickyTaskList_Result_zero ::
    WorkflowService_ResetStickyTaskList_Result where
  "WorkflowService_ResetStickyTaskList_Result_zero =
      \<lparr>WorkflowService_ResetStickyTaskList_Result.Success = None,
      WorkflowService_ResetStickyTaskList_Result.BadRequestError = None,
      WorkflowService_ResetStickyTaskList_Result.InternalServiceError = None,
      WorkflowService_ResetStickyTaskList_Result.EntityNotExistError = None,
      WorkflowService_ResetStickyTaskList_Result.LimitExceededError = None,
      WorkflowService_ResetStickyTaskList_Result.ServiceBusyError = None,
      WorkflowService_ResetStickyTaskList_Result.DomainNotActiveError = None,
      WorkflowService_ResetStickyTaskList_Result.ClientVersionNotSupportedError = None\<rparr>"

definition WorkflowService_ResetStickyTaskList_Result_ToWire ::
  "'v wire_api \<Rightarrow> WorkflowService_ResetStickyTaskList_Result \<Rightarrow> go_error + 'v" where
  "WorkflowService_ResetStickyTaskList_Result_ToWire W v =
     and_then (put_opt 0 (ResetStickyTaskListResponse_ToWire W)
         (WorkflowService_ResetStickyTaskList_Result.Success v) [])
       (\<lambda>fields.
     and_then (put_opt 1 (BadRequestError_ToWire W)
         (WorkflowService_ResetStickyTaskList_Result.BadRequestError v) fields)
       (\<lambda>fields.
     and_then (put_opt 2 (InternalServiceError_ToWire W)
         (WorkflowService_ResetStickyTaskList_Result.InternalServiceError v) fields)
       (\<lambda>fields.
     and_then (put_opt 3 (EntityNotExistsError_ToWire W)
         (WorkflowService_ResetStickyTaskList_Result.EntityNotExistError v) fields)
       (\<lambda>fields.
     and_then (put_opt 4 (LimitExceededError_ToWire W)
         (WorkflowService_ResetStickyTaskList_Result.LimitExceededError v) fields)
       (\<lambda>fields.
     and_then (put_opt 5 (ServiceBusyError_ToWire W)
         (WorkflowService_ResetStickyTaskList_Result.ServiceBusyError v) fields)
       (\<lambda>fields.
     and_then (put_opt 6 (DomainNotActiveError_ToWire W)
         (WorkflowService_ResetStickyTaskList_Result.DomainNotActiveError v) fields)
       (\<lambda>fields.
     and_then (put_opt 7 (ClientVersionNotSupportedError_ToWire W)
         (WorkflowService_ResetStickyTaskList_Result.ClientVersionNotSupportedError v) fields)
       (\<lambda>fields.
     if length fields \<noteq> 1
     then Inl (E_Errorf
         ''WorkflowService_ResetStickyTaskList_Result should have exactly one field: got %v fields''
         (length fields))
     else Inr (NewValueStruct W fields)))))))))"

definition WorkflowService_ResetStickyTaskList_Result_FromWire ::
  "'v wire_api \<Rightarrow> 'v \<Rightarrow> WorkflowService_ResetStickyTaskList_Result \<Rightarrow> go_error +
      WorkflowService_ResetStickyTaskList_Result" where
  "WorkflowService_ResetStickyTaskList_Result_FromWire W w v =
     and_then (foldM (\<lambda>v (fid, fval).
       if fid = 0 then
         if wire_api.Type W fval = TStruct
         then and_then (ResetStickyTaskListResponse_Read W fval) (\<lambda>x. Inr
             (v\<lparr>WorkflowService_ResetStickyTaskList_Result.Success := Some x\<rparr>))
         else Inr v
       else if fid = 1 then
         if wire_api.Type W fval = TStruct
         then and_then (BadRequestError_Read W fval) (\<lambda>x. Inr
             (v\<lparr>WorkflowService_ResetStickyTaskList_Result.BadRequestError := Some x\<rparr>))
         else Inr v
       else if fid = 2 then
         if wire_api.Type W fval = TStruct
         then and_then (InternalServiceError_Read W fval) (\<lambda>x. Inr
             (v\<lparr>WorkflowService_ResetStickyTaskList_Result.InternalServiceError := Some x\<rparr>))
         else Inr v
       else if fid = 3 then
         if wire_api.Type W fval = TStruct
         then and_then (EntityNotExistsError_Read W fval) (\<lambda>x. Inr
             (v\<lparr>WorkflowService_ResetStickyTaskList_Result.EntityNotExistError := Some x\<rparr>))
         else Inr v
       else if fid = 4 then
         if wire_api.Type W fval = TStruct
         then and_then (LimitExceededError_Read W fval) (\<lambda>x. Inr
             (v\<lparr>WorkflowService_ResetStickyTaskList_Result.LimitExceededError := Some x\<rparr>))
         else Inr v
       else if fid = 5 then
         if wire_api.Type W fval = TStruct
         then and_then (ServiceBusyError_Read W fval) (\<lambda>x. Inr
             (v\<lparr>WorkflowService_ResetStickyTaskList_Result.ServiceBusyError := Some x\<rparr>))
         else Inr v
       else if fid = 6 then
         if wire_api.Type W fval = TStruct
         then and_then (DomainNotActiveError_Read W fval) (\<lambda>x. Inr
             (v\<lparr>WorkflowService_ResetStickyTaskList_Result.DomainNotActiveError := Some x\<rparr>))
         else Inr v
       else if fid = 7 then
         if wire_api.Type W fval = TStruct
         then and_then (ClientVersionNotSupportedError_Read W fval) (\<lambda>x. Inr
             (v\<lparr>WorkflowService_ResetStickyTaskList_Result.ClientVersionNotSupportedError := Some
             x\<rparr>))
         else Inr v
       else Inr v) (GetStruct W w) v) (\<lambda>v.
     let count = WorkflowService_ResetStickyTaskList_Result_count v in
     if count \<noteq> 1
     then Inl (E_Errorf
         ''WorkflowService_ResetStickyTaskList_Result should have exactly one field: got %v fields''
         count)
     else Inr v)"

definition WorkflowService_ResetStickyTaskList_Result_enveloper ::
  "'v wire_api \<Rightarrow> WorkflowService_ResetStickyTaskList_Result \<Rightarrow> 'v enveloper" where
  "WorkflowService_ResetStickyTaskList_Result_enveloper W v =
     \<lparr>MethodName = ''ResetStickyTaskList'', EnvelopeType = Reply, EnvelopeToWire =
         WorkflowService_ResetStickyTaskList_Result_ToWire W v\<rparr>"

definition WorkflowService_ResetStickyTaskList_Result_Equals ::
  "WorkflowService_ResetStickyTaskList_Result option \<Rightarrow> WorkflowService_ResetStickyTaskList_Result
      option \<Rightarrow> bool" where
  "WorkflowService_ResetStickyTaskList_Result_Equals v rhs =
     (case v of None \<Rightarrow> rhs = None
      | Some v \<Rightarrow> (case rhs of None \<Rightarrow> False
        | Some rhs \<Rightarrow>
          if \<not> both_set_and (\<lambda>x y. ResetStickyTaskListResponse_Equals (Some x) (Some y))
              (WorkflowService_ResetStickyTaskList_Result.Success v)
              (WorkflowService_ResetStickyTaskList_Result.Success rhs) then False else
          if \<not> both_set_and (\<lambda>x y. BadRequestError_Equals (Some x) (Some y))
              (WorkflowService_ResetStickyTaskList_Result.BadRequestError v)
              (WorkflowService_ResetStickyTaskList_Result.BadRequestError rhs) then False else
          if \<not> both_set_and (\<lambda>x y. InternalServiceError_Equals (Some x) (Some y))
              (WorkflowService_ResetStickyTaskList_Result.InternalServiceError v)
              (WorkflowService_ResetStickyTaskList_Result.InternalServiceError rhs) then False else
          if \<not> both_set_and (\<lambda>x y. EntityNotExistsError_Equals (Some x) (Some y))
              (WorkflowService_ResetStickyTaskList_Result.EntityNotExistError v)
              (WorkflowService_ResetStickyTaskList_Result.EntityNotExistError rhs) then False else
          if \<not> both_set_and (\<lambda>x y. LimitExceededError_Equals (Some x) (Some y))
              (WorkflowService_ResetStickyTaskList_Result.LimitExceededError v)
              (WorkflowService_ResetStickyTaskList_Result.LimitExceededError rhs) then False else
          if \<not> both_set_and (\<lambda>x y. ServiceBusyError_Equals (Some x) (Some y))
              (WorkflowService_ResetStickyTaskList_Result.ServiceBusyError v)
              (WorkflowService_ResetStickyTaskList_Result.ServiceBusyError rhs) then False else
          if \<not> both_set_and (\<lambda>x y. DomainNotActiveError_Equals (Some x) (Some y))
              (WorkflowService_ResetStickyTaskList_Result.DomainNotActiveError v)
              (WorkflowService_ResetStickyTaskList_Result.DomainNotActiveError rhs) then False else
          if \<not> both_set_and (\<lambda>x y. ClientVersionNotSupportedError_Equals (Some x) (Some y))
              (WorkflowService_ResetStickyTaskList_Result.ClientVersionNotSupportedError v)
              (WorkflowService_ResetStickyTaskList_Result.ClientVersionNotSupportedError rhs) then
              False else
          True))"

lemma WorkflowService_ResetStickyTaskList_Result_Equals_iff [simp]:
    "WorkflowService_ResetStickyTaskList_Result_Equals x y \<longleftrightarrow> x = y"
  by (cases x; cases y) (simp_all add: WorkflowService_ResetStickyTaskList_Result_Equals_def
      if_not_False, fastforce intro: WorkflowService_ResetStickyTaskList_Result.equality)

definition WorkflowService_ResetStickyTaskList_Helper_Args :: "ResetStickyTaskListRequest option \<Rightarrow>
    WorkflowService_ResetStickyTaskList_Args" where
  "WorkflowService_ResetStickyTaskList_Helper_Args r =
      \<lparr>WorkflowService_ResetStickyTaskList_Args.ResetRequest = r\<rparr>"

definition WorkflowService_ResetStickyTaskList_Helper_IsException :: "go_error \<Rightarrow> bool" where
  "WorkflowService_ResetStickyTaskList_Helper_IsException err =
     (case err of
        E_BadRequestError _ \<Rightarrow> True
      | E_InternalServiceError _ \<Rightarrow> True
      | E_EntityNotExistsError _ \<Rightarrow> True
      | E_LimitExceededError _ \<Rightarrow> True
      | E_ServiceBusyError _ \<Rightarrow> True
      | E_DomainNotActiveError _ \<Rightarrow> True
      | E_ClientVersionNotSupportedError _ \<Rightarrow> True
      | _ \<Rightarrow> False)"

definition WorkflowService_ResetStickyTaskList_Helper_WrapResponse ::
  "ResetStickyTaskListResponse option \<Rightarrow> go_error option \<Rightarrow> go_error +
      WorkflowService_ResetStickyTaskList_Result" where
  "WorkflowService_ResetStickyTaskList_Helper_WrapResponse success err =
     (case err of None \<Rightarrow> Inr
         (WorkflowService_ResetStickyTaskList_Result_zero\<lparr>WorkflowService_ResetStickyTaskList_Result.Success := success\<rparr>)
      | Some err \<Rightarrow> (case err of
          E_BadRequestError e \<Rightarrow> (case e of
              None \<Rightarrow> Inl (E_New
                  ''WrapResponse received non-nil error type with nil value for WorkflowService_ResetStickyTaskList_Result.BadRequestError'')
            | Some e \<Rightarrow> Inr
                (WorkflowService_ResetStickyTaskList_Result_zero\<lparr>WorkflowService_ResetStickyTaskList_Result.BadRequestError := Some e\<rparr>))
        | E_InternalServiceError e \<Rightarrow> (case e of
              None \<Rightarrow> Inl (E_New
                  ''WrapResponse received non-nil error type with nil value for WorkflowService_ResetStickyTaskList_Result.InternalServiceError'')
            | Some e \<Rightarrow> Inr
                (WorkflowService_ResetStickyTaskList_Result_zero\<lparr>WorkflowService_ResetStickyTaskList_Result.InternalServiceError := Some e\<rparr>))
        | E_EntityNotExistsError e \<Rightarrow> (case e of
              None \<Rightarrow> Inl (E_New
                  ''WrapResponse received non-nil error type with nil value for WorkflowService_ResetStickyTaskList_Result.EntityNotExistError'')
            | Some e \<Rightarrow> Inr
                (WorkflowService_ResetStickyTaskList_Result_zero\<lparr>WorkflowService_ResetStickyTaskList_Result.EntityNotExistError := Some e\<rparr>))
        | E_LimitExceededError e \<Rightarrow> (case e of
              None \<Rightarrow> Inl (E_New
                  ''WrapResponse received non-nil error type with nil value for WorkflowService_ResetStickyTaskList_Result.LimitExceededError'')
            | Some e \<Rightarrow> Inr
                (WorkflowService_ResetStickyTaskList_Result_zero\<lparr>WorkflowService_ResetStickyTaskList_Result.LimitExceededError := Some e\<rparr>))
        | E_ServiceBusyError e \<Rightarrow> (case e of
              None \<Rightarrow> Inl (E_New
                  ''WrapResponse received non-nil error type with nil value for WorkflowService_ResetStickyTaskList_Result.ServiceBusyError'')
            | Some e \<Rightarrow> Inr
                (WorkflowService_ResetStickyTaskList_Result_zero\<lparr>WorkflowService_ResetStickyTaskList_Result.ServiceBusyError := Some e\<rparr>))
        | E_DomainNotActiveError e \<Rightarrow> (case e of
              None \<Rightarrow> Inl (E_New
                  ''WrapResponse received non-nil error type with nil value for WorkflowService_ResetStickyTaskList_Result.DomainNotActiveError'')
            | Some e \<Rightarrow> Inr
                (WorkflowService_ResetStickyTaskList_Result_zero\<lparr>WorkflowService_ResetStickyTaskList_Result.DomainNotActiveError := Some e\<rparr>))
        | E_ClientVersionNotSupportedError e \<Rightarrow> (case e of
              None \<Rightarrow> Inl (E_New
                  ''WrapResponse received non-nil error type with nil value for WorkflowService_ResetStickyTaskList_Result.ClientVersionNotSupportedError'')
            | Some e \<Rightarrow> Inr
                (WorkflowService_ResetStickyTaskList_Result_zero\<lparr>WorkflowService_ResetStickyTaskList_Result.ClientVersionNotSupportedError := Some e\<rparr>))
        | _ \<Rightarrow> Inl err))"

definition WorkflowService_ResetStickyTaskList_Helper_UnwrapResponse ::
  "WorkflowService_ResetStickyTaskList_Result \<Rightarrow> ResetStickyTaskListResponse option \<times> go_error
      option" where
  "WorkflowService_ResetStickyTaskList_Helper_UnwrapResponse result =
    (if WorkflowService_ResetStickyTaskList_Result.BadRequestError result \<noteq> None then (None, Some
        (E_BadRequestError (WorkflowService_ResetStickyTaskList_Result.BadRequestError result)))
        else
     if WorkflowService_ResetStickyTaskList_Result.InternalServiceError result \<noteq> None then (None,
         Some (E_InternalServiceError
         (WorkflowService_ResetStickyTaskList_Result.InternalServiceError result))) else
     if WorkflowService_ResetStickyTaskList_Result.EntityNotExistError result \<noteq> None then (None,
         Some (E_EntityNotExistsError
         (WorkflowService_ResetStickyTaskList_Result.EntityNotExistError result))) else
     if WorkflowService_ResetStickyTaskList_Result.LimitExceededError result \<noteq> None then (None, Some
         (E_LimitExceededError (WorkflowService_ResetStickyTaskList_Result.LimitExceededError
         result))) else
     if WorkflowService_ResetStickyTaskList_Result.ServiceBusyError result \<noteq> None then (None, Some
         (E_ServiceBusyError (WorkflowService_ResetStickyTaskList_Result.ServiceBusyError result)))
         else
     if WorkflowService_ResetStickyTaskList_Result.DomainNotActiveError result \<noteq> None then (None,
         Some (E_DomainNotActiveError
         (WorkflowService_ResetStickyTaskList_Result.DomainNotActiveError result))) else
     if WorkflowService_ResetStickyTaskList_Result.ClientVersionNotSupportedError result \<noteq> None then
         (None, Some (E_ClientVersionNotSupportedError
         (WorkflowService_ResetStickyTaskList_Result.ClientVersionNotSupportedError result))) else
     if WorkflowService_ResetStickyTaskList_Result.Success result \<noteq> None then
         (WorkflowService_ResetStickyTaskList_Result.Success result, None) else
     (None, Some (E_New ''expected a non-void result'')))"

definition handler_ResetStickyTaskList ::
  "'v wire_api \<Rightarrow> ('ctx \<Rightarrow> ResetStickyTaskListRequest option \<Rightarrow> ResetStickyTaskListResponse option \<times>
      go_error option) \<Rightarrow>
   ('ctx, 'v) unary_handler" where
  "handler_ResetStickyTaskList W impl ctx body =
     (case WorkflowService_ResetStickyTaskList_Args_FromWire W body
         WorkflowService_ResetStickyTaskList_Args_zero of
      Inl err \<Rightarrow> (no_response, Some err)
    | Inr args \<Rightarrow>
      let (success, err) = impl ctx (WorkflowService_ResetStickyTaskList_Args.ResetRequest args);
          hadError = (err \<noteq> None)
      in case WorkflowService_ResetStickyTaskList_Helper_WrapResponse success err of
           Inl err \<Rightarrow> (no_response, Some err)
         | Inr result \<Rightarrow>
             (\<lparr>Body = Some (WorkflowService_ResetStickyTaskList_Result_enveloper W result),
               IsApplicationError = hadError\<rparr>, None))"

definition client_ResetStickyTaskList ::
  "'v wire_api \<Rightarrow> ('ctx, 'v) thrift_client \<Rightarrow> 'ctx \<Rightarrow> ResetStickyTaskListRequest option \<Rightarrow>
   ResetStickyTaskListResponse option \<times> go_error option" where
  "client_ResetStickyTaskList W call ctx r =
     (let args = WorkflowService_ResetStickyTaskList_Helper_Args r in
      case call ctx (WorkflowService_ResetStickyTaskList_Args_enveloper W args) of
        Inl e \<Rightarrow> (None, Some e)
      | Inr body \<Rightarrow>
          (case WorkflowService_ResetStickyTaskList_Result_FromWire W body
              WorkflowService_ResetStickyTaskList_Result_zero of
             Inl e \<Rightarrow> (None, Some e)
           | Inr result \<Rightarrow> WorkflowService_ResetStickyTaskList_Helper_UnwrapResponse result))"

lemma WorkflowService_ResetStickyTaskList_Args_merge:
  "(case x of None \<Rightarrow> Inr \<lparr>WorkflowService_ResetStickyTaskList_Args.ResetRequest = a0\<rparr> | Some y \<Rightarrow> Inr
      \<lparr>WorkflowService_ResetStickyTaskList_Args.ResetRequest = b0 y\<rparr>) =
   Inr \<lparr>WorkflowService_ResetStickyTaskList_Args.ResetRequest = (case x of None \<Rightarrow> a0 | Some y \<Rightarrow> b0
       y)\<rparr>"
  by (cases x) simp_all

interpretation WorkflowService_ResetStickyTaskList_Args: thrift_struct W
  "WorkflowService_ResetStickyTaskList_Args_ToWire W"
      "WorkflowService_ResetStickyTaskList_Args_FromWire W"
  WorkflowService_ResetStickyTaskList_Args_zero "\<lambda>x. True" for W
proof (rule thrift_structI)
  fix x :: WorkflowService_ResetStickyTaskList_Args
  assume laws: "wire_laws W"
  obtain enc0 where e0: "ResetStickyTaskListRequest_ToWire W = (\<lambda>x. Inr (enc0 x))"
      "\<And>x. wire_api.Type W (enc0 x) = TStruct"
      "\<And>x. Writable W (enc0 x) \<longleftrightarrow> (\<lambda>_. True) x"
      "\<And>x. (\<lambda>_. True) x \<Longrightarrow> ResetStickyTaskListRequest_FromWire W (enc0 x)
          ResetStickyTaskListRequest_zero = Inr x"
    by (rule ResetStickyTaskListRequest.encoder [OF laws]) (rule that)
  show "\<exists>w. WorkflowService_ResetStickyTaskList_Args_ToWire W x = Inr w \<and> wire_api.Type W w =
      TStruct \<and>
      (Writable W w \<longleftrightarrow> True) \<and> (True \<longrightarrow> WorkflowService_ResetStickyTaskList_Args_FromWire W w
          WorkflowService_ResetStickyTaskList_Args_zero = Inr x)"
    by (cases x) (simp cong: option.case_cong add: codec_rules
        WorkflowService_ResetStickyTaskList_Args_merge
        WorkflowService_ResetStickyTaskList_Args_ToWire_def
        WorkflowService_ResetStickyTaskList_Args_FromWire_def
      WorkflowService_ResetStickyTaskList_Args_zero_def ResetStickyTaskListRequest_Read_def
          if_set_def laws e0)
qed

lemma WorkflowService_ResetStickyTaskList_Result_merge:
  "(case x of None \<Rightarrow> Inr \<lparr>WorkflowService_ResetStickyTaskList_Result.Success = a0,
      WorkflowService_ResetStickyTaskList_Result.BadRequestError = a1,
      WorkflowService_ResetStickyTaskList_Result.InternalServiceError = a2,
      WorkflowService_ResetStickyTaskList_Result.EntityNotExistError = a3,
      WorkflowService_ResetStickyTaskList_Result.LimitExceededError = a4,
      WorkflowService_ResetStickyTaskList_Result.ServiceBusyError = a5,
      WorkflowService_ResetStickyTaskList_Result.DomainNotActiveError = a6,
      WorkflowService_ResetStickyTaskList_Result.ClientVersionNotSupportedError = a7\<rparr> | Some y \<Rightarrow> Inr
      \<lparr>WorkflowService_ResetStickyTaskList_Result.Success = b0 y,
      WorkflowService_ResetStickyTaskList_Result.BadRequestError = b1 y,
      WorkflowService_ResetStickyTaskList_Result.InternalServiceError = b2 y,
      WorkflowService_ResetStickyTaskList_Result.EntityNotExistError = b3 y,
      WorkflowService_ResetStickyTaskList_Result.LimitExceededError = b4 y,
      WorkflowService_ResetStickyTaskList_Result.ServiceBusyError = b5 y,
      WorkflowService_ResetStickyTaskList_Result.DomainNotActiveError = b6 y,
      WorkflowService_ResetStickyTaskList_Result.ClientVersionNotSupportedError = b7 y\<rparr>) =
   Inr \<lparr>WorkflowService_ResetStickyTaskList_Result.Success = (case x of None \<Rightarrow> a0 | Some y \<Rightarrow> b0 y),
       WorkflowService_ResetStickyTaskList_Result.BadRequestError = (case x of None \<Rightarrow> a1 | Some y \<Rightarrow>
       b1 y), WorkflowService_ResetStickyTaskList_Result.InternalServiceError = (case x of None \<Rightarrow> a2
       | Some y \<Rightarrow> b2 y), WorkflowService_ResetStickyTaskList_Result.EntityNotExistError = (case x of
       None \<Rightarrow> a3 | Some y \<Rightarrow> b3 y), WorkflowService_ResetStickyTaskList_Result.LimitExceededError =
       (case x of None \<Rightarrow> a4 | Some y \<Rightarrow> b4 y),
       WorkflowService_ResetStickyTaskList_Result.ServiceBusyError = (case x of None \<Rightarrow> a5 | Some y \<Rightarrow>
       b5 y), WorkflowService_ResetStickyTaskList_Result.DomainNotActiveError = (case x of None \<Rightarrow> a6
       | Some y \<Rightarrow> b6 y), WorkflowService_ResetStickyTaskList_Result.ClientVersionNotSupportedError =
       (case x of None \<Rightarrow> a7 | Some y \<Rightarrow> b7 y)\<rparr>"
  by (cases x) simp_all

interpretation WorkflowService_ResetStickyTaskList_Result: thrift_struct W
  "WorkflowService_ResetStickyTaskList_Result_ToWire W"
      "WorkflowService_ResetStickyTaskList_Result_FromWire W"
  WorkflowService_ResetStickyTaskList_Result_zero "\<lambda>r.
      WorkflowService_ResetStickyTaskList_Result_count r = 1" for W
proof (rule thrift_checked_plainI)
  fix x :: WorkflowService_ResetStickyTaskList_Result
  assume laws: "wire_laws W"
  obtain enc0 where e0: "ResetStickyTaskListResponse_ToWire W = (\<lambda>x. Inr (enc0 x))"
      "\<And>x. wire_api.Type W (enc0 x) = TStruct"
      "\<And>x. Writable W (enc0 x) \<longleftrightarrow> (\<lambda>_. True) x"
      "\<And>x. (\<lambda>_. True) x \<Longrightarrow> ResetStickyTaskListResponse_FromWire W (enc0 x)
          ResetStickyTaskListResponse_zero = Inr x"
    by (rule ResetStickyTaskListResponse.encoder [OF laws]) (rule that)
  obtain enc1 where e1: "BadRequestError_ToWire W = (\<lambda>x. Inr (enc1 x))"
      "\<And>x. wire_api.Type W (enc1 x) = TStruct"
      "\<And>x. Writable W (enc1 x) \<longleftrightarrow> (\<lambda>_. True) x"
      "\<And>x. (\<lambda>_. True) x \<Longrightarrow> BadRequestError_FromWire W (enc1 x) BadRequestError_zero = Inr x"
    by (rule BadRequestError.encoder [OF laws]) (rule that)
  obtain enc2 where e2: "InternalServiceError_ToWire W = (\<lambda>x. Inr (enc2 x))"
      "\<And>x. wire_api.Type W (enc2 x) = TStruct"
      "\<And>x. Writable W (enc2 x) \<longleftrightarrow> (\<lambda>_. True) x"
      "\<And>x. (\<lambda>_. True) x \<Longrightarrow> InternalServiceError_FromWire W (enc2 x) InternalServiceError_zero = Inr
          x"
    by (rule InternalServiceError.encoder [OF laws]) (rule that)
  obtain enc3 where e3: "EntityNotExistsError_ToWire W = (\<lambda>x. Inr (enc3 x))"
      "\<And>x. wire_api.Type W (enc3 x) = TStruct"
      "\<And>x. Writable W (enc3 x) \<longleftrightarrow> (\<lambda>_. True) x"
      "\<And>x. (\<lambda>_. True) x \<Longrightarrow> EntityNotExistsError_FromWire W (enc3 x) EntityNotExistsError_zero = Inr
          x"
    by (rule EntityNotExistsError.encoder [OF laws]) (rule that)
  obtain enc4 where e4: "LimitExceededError_ToWire W = (\<lambda>x. Inr (enc4 x))"
      "\<And>x. wire_api.Type W (enc4 x) = TStruct"
      "\<And>x. Writable W (enc4 x) \<longleftrightarrow> (\<lambda>_. True) x"
      "\<And>x. (\<lambda>_. True) x \<Longrightarrow> LimitExceededError_FromWire W (enc4 x) LimitExceededError_zero = Inr x"
    by (rule LimitExceededError.encoder [OF laws]) (rule that)
  obtain enc5 where e5: "ServiceBusyError_ToWire W = (\<lambda>x. Inr (enc5 x))"
      "\<And>x. wire_api.Type W (enc5 x) = TStruct"
      "\<And>x. Writable W (enc5 x) \<longleftrightarrow> (\<lambda>_. True) x"
      "\<And>x. (\<lambda>_. True) x \<Longrightarrow> ServiceBusyError_FromWire W (enc5 x) ServiceBusyError_zero = Inr x"
    by (rule ServiceBusyError.encoder [OF laws]) (rule that)
  obtain enc6 where e6: "DomainNotActiveError_ToWire W = (\<lambda>x. Inr (enc6 x))"
      "\<And>x. wire_api.Type W (enc6 x) = TStruct"
      "\<And>x. Writable W (enc6 x) \<longleftrightarrow> (\<lambda>_. True) x"
      "\<And>x. (\<lambda>_. True) x \<Longrightarrow> DomainNotActiveError_FromWire W (enc6 x) DomainNotActiveError_zero = Inr
          x"
    by (rule DomainNotActiveError.encoder [OF laws]) (rule that)
  obtain enc7 where e7: "ClientVersionNotSupportedError_ToWire W = (\<lambda>x. Inr (enc7 x))"
      "\<And>x. wire_api.Type W (enc7 x) = TStruct"
      "\<And>x. Writable W (enc7 x) \<longleftrightarrow> (\<lambda>_. True) x"
      "\<And>x. (\<lambda>_. True) x \<Longrightarrow> ClientVersionNotSupportedError_FromWire W (enc7 x)
          ClientVersionNotSupportedError_zero = Inr x"
    by (rule ClientVersionNotSupportedError.encoder [OF laws]) (rule that)
  let ?fs = "((((((opt_field 0 enc0 (WorkflowService_ResetStickyTaskList_Result.Success x) @
      opt_field 1 enc1 (WorkflowService_ResetStickyTaskList_Result.BadRequestError x)) @
      opt_field 2 enc2 (WorkflowService_ResetStickyTaskList_Result.InternalServiceError x)) @
      opt_field 3 enc3 (WorkflowService_ResetStickyTaskList_Result.EntityNotExistError x)) @
      opt_field 4 enc4 (WorkflowService_ResetStickyTaskList_Result.LimitExceededError x)) @
      opt_field 5 enc5 (WorkflowService_ResetStickyTaskList_Result.ServiceBusyError x)) @
      opt_field 6 enc6 (WorkflowService_ResetStickyTaskList_Result.DomainNotActiveError x)) @
      opt_field 7 enc7 (WorkflowService_ResetStickyTaskList_Result.ClientVersionNotSupportedError
          x)"
  let ?check = "\<lambda>r. if WorkflowService_ResetStickyTaskList_Result_count x \<noteq> 1 then Inl (E_Errorf
      ''WorkflowService_ResetStickyTaskList_Result should have exactly one field: got %v fields''
          (WorkflowService_ResetStickyTaskList_Result_count x)) else Inr r"
  have "length ?fs = WorkflowService_ResetStickyTaskList_Result_count x"
    by (simp add: WorkflowService_ResetStickyTaskList_Result_count_def length_opt_field split del:
        if_split)
  then have "WorkflowService_ResetStickyTaskList_Result_ToWire W x = ?check (NewValueStruct W ?fs)"
    by (simp only: WorkflowService_ResetStickyTaskList_Result_ToWire_def put_opt_field
        and_then.simps append_Nil e0(1) e1(1) e2(1) e3(1) e4(1) e5(1) e6(1) e7(1))
  moreover have "WorkflowService_ResetStickyTaskList_Result_FromWire W (NewValueStruct W ?fs)
      WorkflowService_ResetStickyTaskList_Result_zero = ?check x"
    by (cases x, hypsubst) (simp cong: option.case_cong split del: if_split add: codec_rules Let_def
        WorkflowService_ResetStickyTaskList_Result_merge
      WorkflowService_ResetStickyTaskList_Result_FromWire_def
          WorkflowService_ResetStickyTaskList_Result_zero_def laws
      BadRequestError_Read_def
      ClientVersionNotSupportedError_Read_def
      DomainNotActiveError_Read_def
      EntityNotExistsError_Read_def
      InternalServiceError_Read_def
      LimitExceededError_Read_def
      ResetStickyTaskListResponse_Read_def
      ServiceBusyError_Read_def
      e0 e1 e2 e3 e4 e5 e6 e7)
  ultimately show "if WorkflowService_ResetStickyTaskList_Result_count x = 1
      then \<exists>w. WorkflowService_ResetStickyTaskList_Result_ToWire W x = Inr w \<and> wire_api.Type W w =
          TStruct \<and>
        Writable W w \<and> WorkflowService_ResetStickyTaskList_Result_FromWire W w
            WorkflowService_ResetStickyTaskList_Result_zero = Inr x
      else \<exists>e. WorkflowService_ResetStickyTaskList_Result_ToWire W x = Inl e"
    by (simp add: laws codec_rules e0 e1 e2 e3 e4 e5 e6 e7)
qed

interpretation ResetStickyTaskList: rpc_method W
  "WorkflowService_ResetStickyTaskList_Args_ToWire W"
      "WorkflowService_ResetStickyTaskList_Args_FromWire W"
      WorkflowService_ResetStickyTaskList_Args_zero "\<lambda>x. True"
  "WorkflowService_ResetStickyTaskList_Result_ToWire W"
      "WorkflowService_ResetStickyTaskList_Result_FromWire W"
      WorkflowService_ResetStickyTaskList_Result_zero
  "\<lambda>r. WorkflowService_ResetStickyTaskList_Result_count r = 1" "''ResetStickyTaskList''"
  WorkflowService_ResetStickyTaskList_Helper_Args
      "WorkflowService_ResetStickyTaskList_Args.ResetRequest"
  "\<lambda>(success, err). WorkflowService_ResetStickyTaskList_Helper_WrapResponse success err"
      WorkflowService_ResetStickyTaskList_Helper_UnwrapResponse
  "\<lambda>out. snd out \<noteq> None" "carried (\<lambda>_. True) WorkflowService_ResetStickyTaskList_Helper_IsException"
      error_first "\<lambda>e. (None, Some e)"
  "handler_ResetStickyTaskList W" "client_ResetStickyTaskList W" for W
proof
  fix out :: "ResetStickyTaskListResponse option \<times> go_error option"
  assume "carried (\<lambda>_. True) WorkflowService_ResetStickyTaskList_Helper_IsException out"
  then show "case (\<lambda>(success, err). WorkflowService_ResetStickyTaskList_Helper_WrapResponse success
      err) out of Inl e \<Rightarrow> False
      | Inr res \<Rightarrow> (WorkflowService_ResetStickyTaskList_Result_count res = 1) \<and>
          WorkflowService_ResetStickyTaskList_Helper_UnwrapResponse res = error_first out"
    by (cases out; cases "snd out"; cases "the (snd out)")
      (auto simp: WorkflowService_ResetStickyTaskList_Helper_IsException_def
          WorkflowService_ResetStickyTaskList_Helper_WrapResponse_def
          WorkflowService_ResetStickyTaskList_Helper_UnwrapResponse_def
        declared_nonnil_def WorkflowService_ResetStickyTaskList_Result_zero_def
            WorkflowService_ResetStickyTaskList_Result_count_def elim!: present.elims)
next
  fix out :: "ResetStickyTaskListResponse option \<times> go_error option"
  assume "\<not> carried (\<lambda>_. True) WorkflowService_ResetStickyTaskList_Helper_IsException out"
  then show "case (\<lambda>(success, err). WorkflowService_ResetStickyTaskList_Helper_WrapResponse success
      err) out of Inl e \<Rightarrow> True
      | Inr res \<Rightarrow> \<not> (WorkflowService_ResetStickyTaskList_Result_count res = 1)"
    by (cases out; cases "snd out"; cases "the (snd out)")
      (auto simp: WorkflowService_ResetStickyTaskList_Helper_IsException_def
          WorkflowService_ResetStickyTaskList_Helper_WrapResponse_def declared_nonnil_def
        WorkflowService_ResetStickyTaskList_Result_count_def
            WorkflowService_ResetStickyTaskList_Result_zero_def split: option.splits)
qed (auto simp: WorkflowService_ResetStickyTaskList_Helper_Args_def handler_ResetStickyTaskList_def
    client_ResetStickyTaskList_def
      WorkflowService_ResetStickyTaskList_Args_enveloper_def
          WorkflowService_ResetStickyTaskList_Result_enveloper_def
      Let_def split: sum.splits prod.splits)

end
