(* ===== verification/GoWorkflowService.thy ===== *)
theory GoWorkflowService
  imports GoRpc GoRequests
begin

text \<open>
  The generated code of the calls that start, signal and end workflows and read their history:
  StartWorkflowExecution,
  SignalWithStartWorkflowExecution,
  SignalWorkflowExecution,
  TerminateWorkflowExecution,
  RequestCancelWorkflowExecution,
  ResetWorkflowExecution,
  GetWorkflowExecutionHistory.
  For each method: its argument and result structs with their codecs and its helper
  (proxy/gen/cadence/cadence.go), its server handler (workflowserviceserver/server.go) and
  its client method (workflowserviceclient/client.go); then the interpretations that show
  the two codecs round trip and that the method keeps the contract \<open>rpc_method\<close>.
\<close>

section \<open>StartWorkflowExecution\<close>

record WorkflowService_StartWorkflowExecution_Args =
  StartRequest :: "StartWorkflowExecutionRequest option"

definition WorkflowService_StartWorkflowExecution_Args_zero ::
    WorkflowService_StartWorkflowExecution_Args where
  "WorkflowService_StartWorkflowExecution_Args_zero =
      \<lparr>WorkflowService_StartWorkflowExecution_Args.StartRequest = None\<rparr>"

definition WorkflowService_StartWorkflowExecution_Args_ToWire ::
  "'v wire_api \<Rightarrow> WorkflowService_StartWorkflowExecution_Args \<Rightarrow> go_error + 'v" where
  "WorkflowService_StartWorkflowExecution_Args_ToWire W v =
     and_then (put_opt 1 (StartWorkflowExecutionRequest_ToWire W)
         (WorkflowService_StartWorkflowExecution_Args.StartRequest v) [])
       (\<lambda>fields.
     Inr (NewValueStruct W fields))"

definition WorkflowService_StartWorkflowExecution_Args_FromWire ::
  "'v wire_api \<Rightarrow> 'v \<Rightarrow> WorkflowService_StartWorkflowExecution_Args \<Rightarrow> go_error +
      WorkflowService_StartWorkflowExecution_Args" where
  "WorkflowService_StartWorkflowExecution_Args_FromWire W w v =
     foldM (\<lambda>v (fid, fval).
       if fid = 1 then
         if wire_api.Type W fval = TStruct
         then and_then (StartWorkflowExecutionRequest_Read W fval) (\<lambda>x. Inr
             (v\<lparr>WorkflowService_StartWorkflowExecution_Args.StartRequest := Some x\<rparr>))
         else Inr v
       else Inr v) (GetStruct W w) v"

definition WorkflowService_StartWorkflowExecution_Args_enveloper ::
  "'v wire_api \<Rightarrow> WorkflowService_StartWorkflowExecution_Args \<Rightarrow> 'v enveloper" where
  "WorkflowService_StartWorkflowExecution_Args_enveloper W v =
     \<lparr>MethodName = ''StartWorkflowExecution'', EnvelopeType = Call, EnvelopeToWire =
         WorkflowService_StartWorkflowExecution_Args_ToWire W v\<rparr>"

definition WorkflowService_StartWorkflowExecution_Args_Equals ::
  "WorkflowService_StartWorkflowExecution_Args option \<Rightarrow> WorkflowService_StartWorkflowExecution_Args
      option \<Rightarrow> bool" where
  "WorkflowService_StartWorkflowExecution_Args_Equals v rhs =
     (case v of None \<Rightarrow> rhs = None
      | Some v \<Rightarrow> (case rhs of None \<Rightarrow> False
        | Some rhs \<Rightarrow>
          if \<not> both_set_and (\<lambda>x y. StartWorkflowExecutionRequest_Equals (Some x) (Some y))
              (WorkflowService_StartWorkflowExecution_Args.StartRequest v)
              (WorkflowService_StartWorkflowExecution_Args.StartRequest rhs) then False else
          True))"

definition WorkflowService_StartWorkflowExecution_Args_comparable ::
    "WorkflowService_StartWorkflowExecution_Args \<Rightarrow> bool" where
  "WorkflowService_StartWorkflowExecution_Args_comparable v \<longleftrightarrow>
     if_set StartWorkflowExecutionRequest_comparable
         (WorkflowService_StartWorkflowExecution_Args.StartRequest v)"

lemma WorkflowService_StartWorkflowExecution_Args_Equals_iff:
  "if_set WorkflowService_StartWorkflowExecution_Args_comparable x \<Longrightarrow> if_set
      WorkflowService_StartWorkflowExecution_Args_comparable y \<Longrightarrow>
      WorkflowService_StartWorkflowExecution_Args_Equals x y \<longleftrightarrow> x = y"
  by (cases x; cases y) (simp_all add: WorkflowService_StartWorkflowExecution_Args_Equals_def
      WorkflowService_StartWorkflowExecution_Args_comparable_def if_not_False,
    fastforce intro: WorkflowService_StartWorkflowExecution_Args.equality)

lemma WorkflowService_StartWorkflowExecution_Args_fields_equal [simp]:
  "if_set WorkflowService_StartWorkflowExecution_Args_comparable x \<Longrightarrow> if_set
      WorkflowService_StartWorkflowExecution_Args_comparable y \<Longrightarrow>
    both_set_and (\<lambda>x y. WorkflowService_StartWorkflowExecution_Args_Equals (Some x) (Some y)) x y \<longleftrightarrow>
        x = y"
  by (rule both_set_and_iff [where P = WorkflowService_StartWorkflowExecution_Args_comparable])
      (simp_all add: WorkflowService_StartWorkflowExecution_Args_Equals_iff)

record WorkflowService_StartWorkflowExecution_Result =
  Success :: "StartWorkflowExecutionResponse option"
  BadRequestError :: "BadRequestError option"
  InternalServiceError :: "InternalServiceError option"
  SessionAlreadyExistError :: "WorkflowExecutionAlreadyStartedError option"
  ServiceBusyError :: "ServiceBusyError option"
  DomainNotActiveError :: "DomainNotActiveError option"
  LimitExceededError :: "LimitExceededError option"
  EntityNotExistError :: "EntityNotExistsError option"
  ClientVersionNotSupportedError :: "ClientVersionNotSupportedError option"

definition WorkflowService_StartWorkflowExecution_Result_count ::
    "WorkflowService_StartWorkflowExecution_Result \<Rightarrow> nat" where
  "WorkflowService_StartWorkflowExecution_Result_count v =
     (if WorkflowService_StartWorkflowExecution_Result.Success v \<noteq> None then 1 else 0) +
     (if WorkflowService_StartWorkflowExecution_Result.BadRequestError v \<noteq> None then 1 else 0) +
     (if WorkflowService_StartWorkflowExecution_Result.InternalServiceError v \<noteq> None then 1 else 0)
         +
     (if WorkflowService_StartWorkflowExecution_Result.SessionAlreadyExistError v \<noteq> None then 1 else
         0) +
     (if WorkflowService_StartWorkflowExecution_Result.ServiceBusyError v \<noteq> None then 1 else 0) +
     (if WorkflowService_StartWorkflowExecution_Result.DomainNotActiveError v \<noteq> None then 1 else 0)
         +
     (if WorkflowService_StartWorkflowExecution_Result.LimitExceededError v \<noteq> None then 1 else 0) +
     (if WorkflowService_StartWorkflowExecution_Result.EntityNotExistError v \<noteq> None then 1 else 0) +
     (if WorkflowService_StartWorkflowExecution_Result.ClientVersionNotSupportedError v \<noteq> None then
         1 else 0)"

definition WorkflowService_StartWorkflowExecution_Result_zero ::
    WorkflowService_StartWorkflowExecution_Result where
  "WorkflowService_StartWorkflowExecution_Result_zero =
      \<lparr>WorkflowService_StartWorkflowExecution_Result.Success = None,
      WorkflowService_StartWorkflowExecution_Result.BadRequestError = None,
      WorkflowService_StartWorkflowExecution_Result.InternalServiceError = None,
      WorkflowService_StartWorkflowExecution_Result.SessionAlreadyExistError = None,
      WorkflowService_StartWorkflowExecution_Result.ServiceBusyError = None,
      WorkflowService_StartWorkflowExecution_Result.DomainNotActiveError = None,
      WorkflowService_StartWorkflowExecution_Result.LimitExceededError = None,
      WorkflowService_StartWorkflowExecution_Result.EntityNotExistError = None,
      WorkflowService_StartWorkflowExecution_Result.ClientVersionNotSupportedError = None\<rparr>"

definition WorkflowService_StartWorkflowExecution_Result_ToWire ::
  "'v wire_api \<Rightarrow> WorkflowService_StartWorkflowExecution_Result \<Rightarrow> go_error + 'v" where
  "WorkflowService_StartWorkflowExecution_Result_ToWire W v =
     and_then (put_opt 0 (StartWorkflowExecutionResponse_ToWire W)
         (WorkflowService_StartWorkflowExecution_Result.Success v) [])
       (\<lambda>fields.
     and_then (put_opt 1 (BadRequestError_ToWire W)
         (WorkflowService_StartWorkflowExecution_Result.BadRequestError v) fields)
       (\<lambda>fields.
     and_then (put_opt 2 (InternalServiceError_ToWire W)
         (WorkflowService_StartWorkflowExecution_Result.InternalServiceError v) fields)
       (\<lambda>fields.
     and_then (put_opt 3 (WorkflowExecutionAlreadyStartedError_ToWire W)
         (WorkflowService_StartWorkflowExecution_Result.SessionAlreadyExistError v) fields)
       (\<lambda>fields.
     and_then (put_opt 4 (ServiceBusyError_ToWire W)
         (WorkflowService_StartWorkflowExecution_Result.ServiceBusyError v) fields)
       (\<lambda>fields.
     and_then (put_opt 5 (DomainNotActiveError_ToWire W)
         (WorkflowService_StartWorkflowExecution_Result.DomainNotActiveError v) fields)
       (\<lambda>fields.
     and_then (put_opt 6 (LimitExceededError_ToWire W)
         (WorkflowService_StartWorkflowExecution_Result.LimitExceededError v) fields)
       (\<lambda>fields.
     and_then (put_opt 7 (EntityNotExistsError_ToWire W)
         (WorkflowService_StartWorkflowExecution_Result.EntityNotExistError v) fields)
       (\<lambda>fields.
     and_then (put_opt 8 (ClientVersionNotSupportedError_ToWire W)
         (WorkflowService_StartWorkflowExecution_Result.ClientVersionNotSupportedError v) fields)
       (\<lambda>fields.
     if length fields \<noteq> 1
     then Inl (E_Errorf
         ''WorkflowService_StartWorkflowExecution_Result should have exactly one field: got %v fields'' (length fields))
     else Inr (NewValueStruct W fields))))))))))"

definition WorkflowService_StartWorkflowExecution_Result_FromWire ::
  "'v wire_api \<Rightarrow> 'v \<Rightarrow> WorkflowService_StartWorkflowExecution_Result \<Rightarrow> go_error +
      WorkflowService_StartWorkflowExecution_Result" where
  "WorkflowService_StartWorkflowExecution_Result_FromWire W w v =
     and_then (foldM (\<lambda>v (fid, fval).
       if fid = 0 then
         if wire_api.Type W fval = TStruct
         then and_then (StartWorkflowExecutionResponse_Read W fval) (\<lambda>x. Inr
             (v\<lparr>WorkflowService_StartWorkflowExecution_Result.Success := Some x\<rparr>))
         else Inr v
       else if fid = 1 then
         if wire_api.Type W fval = TStruct
         then and_then (BadRequestError_Read W fval) (\<lambda>x. Inr
             (v\<lparr>WorkflowService_StartWorkflowExecution_Result.BadRequestError := Some x\<rparr>))
         else Inr v
       else if fid = 2 then
         if wire_api.Type W fval = TStruct
         then and_then (InternalServiceError_Read W fval) (\<lambda>x. Inr
             (v\<lparr>WorkflowService_StartWorkflowExecution_Result.InternalServiceError := Some x\<rparr>))
         else Inr v
       else if fid = 3 then
         if wire_api.Type W fval = TStruct
         then and_then (WorkflowExecutionAlreadyStartedError_Read W fval) (\<lambda>x. Inr
             (v\<lparr>WorkflowService_StartWorkflowExecution_Result.SessionAlreadyExistError := Some x\<rparr>))
         else Inr v
       else if fid = 4 then
         if wire_api.Type W fval = TStruct
         then and_then (ServiceBusyError_Read W fval) (\<lambda>x. Inr
             (v\<lparr>WorkflowService_StartWorkflowExecution_Result.ServiceBusyError := Some x\<rparr>))
         else Inr v
       else if fid = 5 then
         if wire_api.Type W fval = TStruct
         then and_then (DomainNotActiveError_Read W fval) (\<lambda>x. Inr
             (v\<lparr>WorkflowService_StartWorkflowExecution_Result.DomainNotActiveError := Some x\<rparr>))
         else Inr v
       else if fid = 6 then
         if wire_api.Type W fval = TStruct
         then and_then (LimitExceededError_Read W fval) (\<lambda>x. Inr
             (v\<lparr>WorkflowService_StartWorkflowExecution_Result.LimitExceededError := Some x\<rparr>))
         else Inr v
       else if fid = 7 then
         if wire_api.Type W fval = TStruct
         then and_then (EntityNotExistsError_Read W fval) (\<lambda>x. Inr
             (v\<lparr>WorkflowService_StartWorkflowExecution_Result.EntityNotExistError := Some x\<rparr>))
         else Inr v
       else if fid = 8 then
         if wire_api.Type W fval = TStruct
         then and_then (ClientVersionNotSupportedError_Read W fval) (\<lambda>x. Inr
             (v\<lparr>WorkflowService_StartWorkflowExecution_Result.ClientVersionNotSupportedError := Some
             x\<rparr>))
         else Inr v
       else Inr v) (GetStruct W w) v) (\<lambda>v.
     let count = WorkflowService_StartWorkflowExecution_Result_count v in
     if count \<noteq> 1
     then Inl (E_Errorf
         ''WorkflowService_StartWorkflowExecution_Result should have exactly one field: got %v fields'' count)
     else Inr v)"

definition WorkflowService_StartWorkflowExecution_Result_enveloper ::
  "'v wire_api \<Rightarrow> WorkflowService_StartWorkflowExecution_Result \<Rightarrow> 'v enveloper" where
  "WorkflowService_StartWorkflowExecution_Result_enveloper W v =
     \<lparr>MethodName = ''StartWorkflowExecution'', EnvelopeType = Reply, EnvelopeToWire =
         WorkflowService_StartWorkflowExecution_Result_ToWire W v\<rparr>"

definition WorkflowService_StartWorkflowExecution_Result_Equals ::
  "WorkflowService_StartWorkflowExecution_Result option \<Rightarrow>
      WorkflowService_StartWorkflowExecution_Result option \<Rightarrow> bool" where
  "WorkflowService_StartWorkflowExecution_Result_Equals v rhs =
     (case v of None \<Rightarrow> rhs = None
      | Some v \<Rightarrow> (case rhs of None \<Rightarrow> False
        | Some rhs \<Rightarrow>
          if \<not> both_set_and (\<lambda>x y. StartWorkflowExecutionResponse_Equals (Some x) (Some y))
              (WorkflowService_StartWorkflowExecution_Result.Success v)
              (WorkflowService_StartWorkflowExecution_Result.Success rhs) then False else
          if \<not> both_set_and (\<lambda>x y. BadRequestError_Equals (Some x) (Some y))
              (WorkflowService_StartWorkflowExecution_Result.BadRequestError v)
              (WorkflowService_StartWorkflowExecution_Result.BadRequestError rhs) then False else
          if \<not> both_set_and (\<lambda>x y. InternalServiceError_Equals (Some x) (Some y))
              (WorkflowService_StartWorkflowExecution_Result.InternalServiceError v)
              (WorkflowService_StartWorkflowExecution_Result.InternalServiceError rhs) then False
              else
          if \<not> both_set_and (\<lambda>x y. WorkflowExecutionAlreadyStartedError_Equals (Some x) (Some y))
              (WorkflowService_StartWorkflowExecution_Result.SessionAlreadyExistError v)
              (WorkflowService_StartWorkflowExecution_Result.SessionAlreadyExistError rhs) then
              False else
          if \<not> both_set_and (\<lambda>x y. ServiceBusyError_Equals (Some x) (Some y))
              (WorkflowService_StartWorkflowExecution_Result.ServiceBusyError v)
              (WorkflowService_StartWorkflowExecution_Result.ServiceBusyError rhs) then False else
          if \<not> both_set_and (\<lambda>x y. DomainNotActiveError_Equals (Some x) (Some y))
              (WorkflowService_StartWorkflowExecution_Result.DomainNotActiveError v)
              (WorkflowService_StartWorkflowExecution_Result.DomainNotActiveError rhs) then False
              else
          if \<not> both_set_and (\<lambda>x y. LimitExceededError_Equals (Some x) (Some y))
              (WorkflowService_StartWorkflowExecution_Result.LimitExceededError v)
              (WorkflowService_StartWorkflowExecution_Result.LimitExceededError rhs) then False else
          if \<not> both_set_and (\<lambda>x y. EntityNotExistsError_Equals (Some x) (Some y))
              (WorkflowService_StartWorkflowExecution_Result.EntityNotExistError v)
              (WorkflowService_StartWorkflowExecution_Result.EntityNotExistError rhs) then False
              else
          if \<not> both_set_and (\<lambda>x y. ClientVersionNotSupportedError_Equals (Some x) (Some y))
              (WorkflowService_StartWorkflowExecution_Result.ClientVersionNotSupportedError v)
              (WorkflowService_StartWorkflowExecution_Result.ClientVersionNotSupportedError rhs)
              then False else
          True))"

lemma WorkflowService_StartWorkflowExecution_Result_Equals_iff [simp]:
    "WorkflowService_StartWorkflowExecution_Result_Equals x y \<longleftrightarrow> x = y"
  by (cases x; cases y) (simp_all add: WorkflowService_StartWorkflowExecution_Result_Equals_def
      if_not_False, fastforce intro: WorkflowService_StartWorkflowExecution_Result.equality)

definition WorkflowService_StartWorkflowExecution_Helper_Args :: "StartWorkflowExecutionRequest
    option \<Rightarrow> WorkflowService_StartWorkflowExecution_Args" where
  "WorkflowService_StartWorkflowExecution_Helper_Args r =
      \<lparr>WorkflowService_StartWorkflowExecution_Args.StartRequest = r\<rparr>"

definition WorkflowService_StartWorkflowExecution_Helper_IsException :: "go_error \<Rightarrow> bool" where
  "WorkflowService_StartWorkflowExecution_Helper_IsException err =
     (case err of
        E_BadRequestError _ \<Rightarrow> True
      | E_InternalServiceError _ \<Rightarrow> True
      | E_WorkflowExecutionAlreadyStartedError _ \<Rightarrow> True
      | E_ServiceBusyError _ \<Rightarrow> True
      | E_DomainNotActiveError _ \<Rightarrow> True
      | E_LimitExceededError _ \<Rightarrow> True
      | E_EntityNotExistsError _ \<Rightarrow> True
      | E_ClientVersionNotSupportedError _ \<Rightarrow> True
      | _ \<Rightarrow> False)"

definition WorkflowService_StartWorkflowExecution_Helper_WrapResponse ::
  "StartWorkflowExecutionResponse option \<Rightarrow> go_error option \<Rightarrow> go_error +
      WorkflowService_StartWorkflowExecution_Result" where
  "WorkflowService_StartWorkflowExecution_Helper_WrapResponse success err =
     (case err of None \<Rightarrow> Inr
         (WorkflowService_StartWorkflowExecution_Result_zero\<lparr>WorkflowService_StartWorkflowExecution_Result.Success := success\<rparr>)
      | Some err \<Rightarrow> (case err of
          E_BadRequestError e \<Rightarrow> (case e of
              None \<Rightarrow> Inl (E_New
                  ''WrapResponse received non-nil error type with nil value for WorkflowService_StartWorkflowExecution_Result.BadRequestError'')
            | Some e \<Rightarrow> Inr
                (WorkflowService_StartWorkflowExecution_Result_zero\<lparr>WorkflowService_StartWorkflowExecution_Result.BadRequestError := Some e\<rparr>))
        | E_InternalServiceError e \<Rightarrow> (case e of
              None \<Rightarrow> Inl (E_New
                  ''WrapResponse received non-nil error type with nil value for WorkflowService_StartWorkflowExecution_Result.InternalServiceError'')
            | Some e \<Rightarrow> Inr
                (WorkflowService_StartWorkflowExecution_Result_zero\<lparr>WorkflowService_StartWorkflowExecution_Result.InternalServiceError := Some e\<rparr>))
        | E_WorkflowExecutionAlreadyStartedError e \<Rightarrow> (case e of
              None \<Rightarrow> Inl (E_New
                  ''WrapResponse received non-nil error type with nil value for WorkflowService_StartWorkflowExecution_Result.SessionAlreadyExistError'')
            | Some e \<Rightarrow> Inr
                (WorkflowService_StartWorkflowExecution_Result_zero\<lparr>WorkflowService_StartWorkflowExecution_Result.SessionAlreadyExistError := Some e\<rparr>))
        | E_ServiceBusyError e \<Rightarrow> (case e of
              None \<Rightarrow> Inl (E_New
                  ''WrapResponse received non-nil error type with nil value for WorkflowService_StartWorkflowExecution_Result.ServiceBusyError'')
            | Some e \<Rightarrow> Inr
                (WorkflowService_StartWorkflowExecution_Result_zero\<lparr>WorkflowService_StartWorkflowExecution_Result.ServiceBusyError := Some e\<rparr>))
        | E_DomainNotActiveError e \<Rightarrow> (case e of
              None \<Rightarrow> Inl (E_New
                  ''WrapResponse received non-nil error type with nil value for WorkflowService_StartWorkflowExecution_Result.DomainNotActiveError'')
            | Some e \<Rightarrow> Inr
                (WorkflowService_StartWorkflowExecution_Result_zero\<lparr>WorkflowService_StartWorkflowExecution_Result.DomainNotActiveError := Some e\<rparr>))
        | E_LimitExceededError e \<Rightarrow> (case e of
              None \<Rightarrow> Inl (E_New
                  ''WrapResponse received non-nil error type with nil value for WorkflowService_StartWorkflowExecution_Result.LimitExceededError'')
            | Some e \<Rightarrow> Inr
                (WorkflowService_StartWorkflowExecution_Result_zero\<lparr>WorkflowService_StartWorkflowExecution_Result.LimitExceededError := Some e\<rparr>))
        | E_EntityNotExistsError e \<Rightarrow> (case e of
              None \<Rightarrow> Inl (E_New
                  ''WrapResponse received non-nil error type with nil value for WorkflowService_StartWorkflowExecution_Result.EntityNotExistError'')
            | Some e \<Rightarrow> Inr
                (WorkflowService_StartWorkflowExecution_Result_zero\<lparr>WorkflowService_StartWorkflowExecution_Result.EntityNotExistError := Some e\<rparr>))
        | E_ClientVersionNotSupportedError e \<Rightarrow> (case e of
              None \<Rightarrow> Inl (E_New
                  ''WrapResponse received non-nil error type with nil value for WorkflowService_StartWorkflowExecution_Result.ClientVersionNotSupportedError'')
            | Some e \<Rightarrow> Inr
                (WorkflowService_StartWorkflowExecution_Result_zero\<lparr>WorkflowService_StartWorkflowExecution_Result.ClientVersionNotSupportedError := Some e\<rparr>))
        | _ \<Rightarrow> Inl err))"

definition WorkflowService_StartWorkflowExecution_Helper_UnwrapResponse ::
  "WorkflowService_StartWorkflowExecution_Result \<Rightarrow> StartWorkflowExecutionResponse option \<times> go_error
      option" where
  "WorkflowService_StartWorkflowExecution_Helper_UnwrapResponse result =
    (if WorkflowService_StartWorkflowExecution_Result.BadRequestError result \<noteq> None then (None, Some
        (E_BadRequestError (WorkflowService_StartWorkflowExecution_Result.BadRequestError result)))
        else
     if WorkflowService_StartWorkflowExecution_Result.InternalServiceError result \<noteq> None then (None,
         Some (E_InternalServiceError
         (WorkflowService_StartWorkflowExecution_Result.InternalServiceError result))) else
     if WorkflowService_StartWorkflowExecution_Result.SessionAlreadyExistError result \<noteq> None then
         (None, Some (E_WorkflowExecutionAlreadyStartedError
         (WorkflowService_StartWorkflowExecution_Result.SessionAlreadyExistError result))) else
     if WorkflowService_StartWorkflowExecution_Result.ServiceBusyError result \<noteq> None then (None,
         Some (E_ServiceBusyError (WorkflowService_StartWorkflowExecution_Result.ServiceBusyError
         result))) else
     if WorkflowService_StartWorkflowExecution_Result.DomainNotActiveError result \<noteq> None then (None,
         Some (E_DomainNotActiveError
         (WorkflowService_StartWorkflowExecution_Result.DomainNotActiveError result))) else
     if WorkflowService_StartWorkflowExecution_Result.LimitExceededError result \<noteq> None then (None,
         Some (E_LimitExceededError
         (WorkflowService_StartWorkflowExecution_Result.LimitExceededError result))) else
     if WorkflowService_StartWorkflowExecution_Result.EntityNotExistError result \<noteq> None then (None,
         Some (E_EntityNotExistsError
         (WorkflowService_StartWorkflowExecution_Result.EntityNotExistError result))) else
     if WorkflowService_StartWorkflowExecution_Result.ClientVersionNotSupportedError result \<noteq> None
         then (None, Some (E_ClientVersionNotSupportedError
         (WorkflowService_StartWorkflowExecution_Result.ClientVersionNotSupportedError result)))
         else
     if WorkflowService_StartWorkflowExecution_Result.Success result \<noteq> None then
         (WorkflowService_StartWorkflowExecution_Result.Success result, None) else
     (None, Some (E_New ''expected a non-void result'')))"

definition handler_StartWorkflowExecution ::
  "'v wire_api \<Rightarrow> ('ctx \<Rightarrow> StartWorkflowExecutionRequest option \<Rightarrow> StartWorkflowExecutionResponse
      option \<times> go_error option) \<Rightarrow>
   ('ctx, 'v) unary_handler" where
  "handler_StartWorkflowExecution W impl ctx body =
     (case WorkflowService_StartWorkflowExecution_Args_FromWire W body
         WorkflowService_StartWorkflowExecution_Args_zero of
      Inl err \<Rightarrow> (no_response, Some err)
    | Inr args \<Rightarrow>
      let (success, err) = impl ctx (WorkflowService_StartWorkflowExecution_Args.StartRequest args);
          hadError = (err \<noteq> None)
      in case WorkflowService_StartWorkflowExecution_Helper_WrapResponse success err of
           Inl err \<Rightarrow> (no_response, Some err)
         | Inr result \<Rightarrow>
             (\<lparr>Body = Some (WorkflowService_StartWorkflowExecution_Result_enveloper W result),
               IsApplicationError = hadError\<rparr>, None))"

definition client_StartWorkflowExecution ::
  "'v wire_api \<Rightarrow> ('ctx, 'v) thrift_client \<Rightarrow> 'ctx \<Rightarrow> StartWorkflowExecutionRequest option \<Rightarrow>
   StartWorkflowExecutionResponse option \<times> go_error option" where
  "client_StartWorkflowExecution W call ctx r =
     (let args = WorkflowService_StartWorkflowExecution_Helper_Args r in
      case call ctx (WorkflowService_StartWorkflowExecution_Args_enveloper W args) of
        Inl e \<Rightarrow> (None, Some e)
      | Inr body \<Rightarrow>
          (case WorkflowService_StartWorkflowExecution_Result_FromWire W body
              WorkflowService_StartWorkflowExecution_Result_zero of
             Inl e \<Rightarrow> (None, Some e)
           | Inr result \<Rightarrow> WorkflowService_StartWorkflowExecution_Helper_UnwrapResponse result))"

lemma WorkflowService_StartWorkflowExecution_Args_merge:
  "(case x of None \<Rightarrow> Inr \<lparr>WorkflowService_StartWorkflowExecution_Args.StartRequest = a0\<rparr> | Some y \<Rightarrow>
      Inr \<lparr>WorkflowService_StartWorkflowExecution_Args.StartRequest = b0 y\<rparr>) =
   Inr \<lparr>WorkflowService_StartWorkflowExecution_Args.StartRequest = (case x of None \<Rightarrow> a0 | Some y \<Rightarrow>
       b0 y)\<rparr>"
  by (cases x) simp_all

interpretation WorkflowService_StartWorkflowExecution_Args: thrift_struct W
  "WorkflowService_StartWorkflowExecution_Args_ToWire W"
      "WorkflowService_StartWorkflowExecution_Args_FromWire W"
  WorkflowService_StartWorkflowExecution_Args_zero "\<lambda>x. if_set
      StartWorkflowExecutionRequest_complete
      (WorkflowService_StartWorkflowExecution_Args.StartRequest x)" for W
proof (rule thrift_structI)
  fix x :: WorkflowService_StartWorkflowExecution_Args
  assume laws: "wire_laws W"
  obtain enc0 where e0: "StartWorkflowExecutionRequest_ToWire W = (\<lambda>x. Inr (enc0 x))"
      "\<And>x. wire_api.Type W (enc0 x) = TStruct"
      "\<And>x. Writable W (enc0 x) \<longleftrightarrow> StartWorkflowExecutionRequest_complete x"
      "\<And>x. StartWorkflowExecutionRequest_complete x \<Longrightarrow> StartWorkflowExecutionRequest_FromWire W (enc0
          x) StartWorkflowExecutionRequest_zero = Inr x"
    by (rule StartWorkflowExecutionRequest.encoder [OF laws]) (rule that)
  show "\<exists>w. WorkflowService_StartWorkflowExecution_Args_ToWire W x = Inr w \<and> wire_api.Type W w =
      TStruct \<and>
      (Writable W w \<longleftrightarrow> if_set StartWorkflowExecutionRequest_complete
          (WorkflowService_StartWorkflowExecution_Args.StartRequest x)) \<and> (if_set
          StartWorkflowExecutionRequest_complete
          (WorkflowService_StartWorkflowExecution_Args.StartRequest x) \<longrightarrow>
          WorkflowService_StartWorkflowExecution_Args_FromWire W w
          WorkflowService_StartWorkflowExecution_Args_zero = Inr x)"
    by (cases x) (simp cong: option.case_cong add: codec_rules
        WorkflowService_StartWorkflowExecution_Args_merge
        WorkflowService_StartWorkflowExecution_Args_ToWire_def
        WorkflowService_StartWorkflowExecution_Args_FromWire_def
      WorkflowService_StartWorkflowExecution_Args_zero_def StartWorkflowExecutionRequest_Read_def
          if_set_def laws e0)
qed

lemma WorkflowService_StartWorkflowExecution_Result_merge:
  "(case x of None \<Rightarrow> Inr \<lparr>WorkflowService_StartWorkflowExecution_Result.Success = a0,
      WorkflowService_StartWorkflowExecution_Result.BadRequestError = a1,
      WorkflowService_StartWorkflowExecution_Result.InternalServiceError = a2,
      WorkflowService_StartWorkflowExecution_Result.SessionAlreadyExistError = a3,
      WorkflowService_StartWorkflowExecution_Result.ServiceBusyError = a4,
      WorkflowService_StartWorkflowExecution_Result.DomainNotActiveError = a5,
      WorkflowService_StartWorkflowExecution_Result.LimitExceededError = a6,
      WorkflowService_StartWorkflowExecution_Result.EntityNotExistError = a7,
      WorkflowService_StartWorkflowExecution_Result.ClientVersionNotSupportedError = a8\<rparr> | Some y \<Rightarrow>
      Inr \<lparr>WorkflowService_StartWorkflowExecution_Result.Success = b0 y,
      WorkflowService_StartWorkflowExecution_Result.BadRequestError = b1 y,
      WorkflowService_StartWorkflowExecution_Result.InternalServiceError = b2 y,
      WorkflowService_StartWorkflowExecution_Result.SessionAlreadyExistError = b3 y,
      WorkflowService_StartWorkflowExecution_Result.ServiceBusyError = b4 y,
      WorkflowService_StartWorkflowExecution_Result.DomainNotActiveError = b5 y,
      WorkflowService_StartWorkflowExecution_Result.LimitExceededError = b6 y,
      WorkflowService_StartWorkflowExecution_Result.EntityNotExistError = b7 y,
      WorkflowService_StartWorkflowExecution_Result.ClientVersionNotSupportedError = b8 y\<rparr>) =
   Inr \<lparr>WorkflowService_StartWorkflowExecution_Result.Success = (case x of None \<Rightarrow> a0 | Some y \<Rightarrow> b0
       y), WorkflowService_StartWorkflowExecution_Result.BadRequestError = (case x of None \<Rightarrow> a1 |
       Some y \<Rightarrow> b1 y), WorkflowService_StartWorkflowExecution_Result.InternalServiceError = (case x
       of None \<Rightarrow> a2 | Some y \<Rightarrow> b2 y),
       WorkflowService_StartWorkflowExecution_Result.SessionAlreadyExistError = (case x of None \<Rightarrow> a3
       | Some y \<Rightarrow> b3 y), WorkflowService_StartWorkflowExecution_Result.ServiceBusyError = (case x of
       None \<Rightarrow> a4 | Some y \<Rightarrow> b4 y),
       WorkflowService_StartWorkflowExecution_Result.DomainNotActiveError = (case x of None \<Rightarrow> a5 |
       Some y \<Rightarrow> b5 y), WorkflowService_StartWorkflowExecution_Result.LimitExceededError = (case x of
       None \<Rightarrow> a6 | Some y \<Rightarrow> b6 y), WorkflowService_StartWorkflowExecution_Result.EntityNotExistError
       = (case x of None \<Rightarrow> a7 | Some y \<Rightarrow> b7 y),
       WorkflowService_StartWorkflowExecution_Result.ClientVersionNotSupportedError = (case x of
       None \<Rightarrow> a8 | Some y \<Rightarrow> b8 y)\<rparr>"
  by (cases x) simp_all

interpretation WorkflowService_StartWorkflowExecution_Result: thrift_struct W
  "WorkflowService_StartWorkflowExecution_Result_ToWire W"
      "WorkflowService_StartWorkflowExecution_Result_FromWire W"
  WorkflowService_StartWorkflowExecution_Result_zero "\<lambda>r.
      WorkflowService_StartWorkflowExecution_Result_count r = 1" for W
proof (rule thrift_checked_plainI)
  fix x :: WorkflowService_StartWorkflowExecution_Result
  assume laws: "wire_laws W"
  obtain enc0 where e0: "StartWorkflowExecutionResponse_ToWire W = (\<lambda>x. Inr (enc0 x))"
      "\<And>x. wire_api.Type W (enc0 x) = TStruct"
      "\<And>x. Writable W (enc0 x) \<longleftrightarrow> (\<lambda>_. True) x"
      "\<And>x. (\<lambda>_. True) x \<Longrightarrow> StartWorkflowExecutionResponse_FromWire W (enc0 x)
          StartWorkflowExecutionResponse_zero = Inr x"
    by (rule StartWorkflowExecutionResponse.encoder [OF laws]) (rule that)
  obtain enc1 where e1: "BadRequestError_ToWire W = (\<lambda>x. Inr (enc1 x))"
      "\<And>x. wire_api.Type W (enc1 x) = TStruct"
      "\<And>x. Writable W (enc1 x) \<longleftrightarrow> (\<lambda>_. True) x"
      "\<And>x. (\<lambda>_. True) x \<Longrightarrow> BadRequestError_FromWire W (enc1 x) BadRequestError_zero = Inr x"
    by (rule BadRequestError.encoder [OF laws]) (rule that)
  obtain enc2 where e2: "InternalServiceError_ToWire W = (\<lambda>x. Inr (enc2 x))"
      "\<And>x. wire_api.Type W (enc2 x) = TStruct"
      "\<And>x. Writable W (enc2 x) \<longleftrightarrow> (\<lambda>_. True) x"
      "\<And>x. (\<lambda>_. True) x \<Longrightarrow> InternalServiceError_FromWire W (enc2 x) InternalServiceError_zero = Inr
          x"
    by (rule InternalServiceError.encoder [OF laws]) (rule that)
  obtain enc3 where e3: "WorkflowExecutionAlreadyStartedError_ToWire W = (\<lambda>x. Inr (enc3 x))"
      "\<And>x. wire_api.Type W (enc3 x) = TStruct"
      "\<And>x. Writable W (enc3 x) \<longleftrightarrow> (\<lambda>_. True) x"
      "\<And>x. (\<lambda>_. True) x \<Longrightarrow> WorkflowExecutionAlreadyStartedError_FromWire W (enc3 x)
          WorkflowExecutionAlreadyStartedError_zero = Inr x"
    by (rule WorkflowExecutionAlreadyStartedError.encoder [OF laws]) (rule that)
  obtain enc4 where e4: "ServiceBusyError_ToWire W = (\<lambda>x. Inr (enc4 x))"
      "\<And>x. wire_api.Type W (enc4 x) = TStruct"
      "\<And>x. Writable W (enc4 x) \<longleftrightarrow> (\<lambda>_. True) x"
      "\<And>x. (\<lambda>_. True) x \<Longrightarrow> ServiceBusyError_FromWire W (enc4 x) ServiceBusyError_zero = Inr x"
    by (rule ServiceBusyError.encoder [OF laws]) (rule that)
  obtain enc5 where e5: "DomainNotActiveError_ToWire W = (\<lambda>x. Inr (enc5 x))"
      "\<And>x. wire_api.Type W (enc5 x) = TStruct"
      "\<And>x. Writable W (enc5 x) \<longleftrightarrow> (\<lambda>_. True) x"
      "\<And>x. (\<lambda>_. True) x \<Longrightarrow> DomainNotActiveError_FromWire W (enc5 x) DomainNotActiveError_zero = Inr
          x"
    by (rule DomainNotActiveError.encoder [OF laws]) (rule that)
  obtain enc6 where e6: "LimitExceededError_ToWire W = (\<lambda>x. Inr (enc6 x))"
      "\<And>x. wire_api.Type W (enc6 x) = TStruct"
      "\<And>x. Writable W (enc6 x) \<longleftrightarrow> (\<lambda>_. True) x"
      "\<And>x. (\<lambda>_. True) x \<Longrightarrow> LimitExceededError_FromWire W (enc6 x) LimitExceededError_zero = Inr x"
    by (rule LimitExceededError.encoder [OF laws]) (rule that)
  obtain enc7 where e7: "EntityNotExistsError_ToWire W = (\<lambda>x. Inr (enc7 x))"
      "\<And>x. wire_api.Type W (enc7 x) = TStruct"
      "\<And>x. Writable W (enc7 x) \<longleftrightarrow> (\<lambda>_. True) x"
      "\<And>x. (\<lambda>_. True) x \<Longrightarrow> EntityNotExistsError_FromWire W (enc7 x) EntityNotExistsError_zero = Inr
          x"
    by (rule EntityNotExistsError.encoder [OF laws]) (rule that)
  obtain enc8 where e8: "ClientVersionNotSupportedError_ToWire W = (\<lambda>x. Inr (enc8 x))"
      "\<And>x. wire_api.Type W (enc8 x) = TStruct"
      "\<And>x. Writable W (enc8 x) \<longleftrightarrow> (\<lambda>_. True) x"
      "\<And>x. (\<lambda>_. True) x \<Longrightarrow> ClientVersionNotSupportedError_FromWire W (enc8 x)
          ClientVersionNotSupportedError_zero = Inr x"
    by (rule ClientVersionNotSupportedError.encoder [OF laws]) (rule that)
  let ?fs = "(((((((opt_field 0 enc0 (WorkflowService_StartWorkflowExecution_Result.Success x) @
      opt_field 1 enc1 (WorkflowService_StartWorkflowExecution_Result.BadRequestError x)) @
      opt_field 2 enc2 (WorkflowService_StartWorkflowExecution_Result.InternalServiceError x)) @
      opt_field 3 enc3 (WorkflowService_StartWorkflowExecution_Result.SessionAlreadyExistError x)) @
      opt_field 4 enc4 (WorkflowService_StartWorkflowExecution_Result.ServiceBusyError x)) @
      opt_field 5 enc5 (WorkflowService_StartWorkflowExecution_Result.DomainNotActiveError x)) @
      opt_field 6 enc6 (WorkflowService_StartWorkflowExecution_Result.LimitExceededError x)) @
      opt_field 7 enc7 (WorkflowService_StartWorkflowExecution_Result.EntityNotExistError x)) @
      opt_field 8 enc8 (WorkflowService_StartWorkflowExecution_Result.ClientVersionNotSupportedError
          x)"
  let ?check = "\<lambda>r. if WorkflowService_StartWorkflowExecution_Result_count x \<noteq> 1 then Inl (E_Errorf
      ''WorkflowService_StartWorkflowExecution_Result should have exactly one field: got %v fields''
          (WorkflowService_StartWorkflowExecution_Result_count x)) else Inr r"
  have "length ?fs = WorkflowService_StartWorkflowExecution_Result_count x"
    by (simp add: WorkflowService_StartWorkflowExecution_Result_count_def length_opt_field split
        del: if_split)
  then have "WorkflowService_StartWorkflowExecution_Result_ToWire W x = ?check (NewValueStruct W
      ?fs)"
    by (simp only: WorkflowService_StartWorkflowExecution_Result_ToWire_def put_opt_field
        and_then.simps append_Nil e0(1) e1(1) e2(1) e3(1) e4(1) e5(1) e6(1) e7(1) e8(1))
  moreover have "WorkflowService_StartWorkflowExecution_Result_FromWire W (NewValueStruct W ?fs)
      WorkflowService_StartWorkflowExecution_Result_zero = ?check x"
    by (cases x, hypsubst) (simp cong: option.case_cong split del: if_split add: codec_rules Let_def
        WorkflowService_StartWorkflowExecution_Result_merge
      WorkflowService_StartWorkflowExecution_Result_FromWire_def
          WorkflowService_StartWorkflowExecution_Result_zero_def laws
      BadRequestError_Read_def
      ClientVersionNotSupportedError_Read_def
      DomainNotActiveError_Read_def
      EntityNotExistsError_Read_def
      InternalServiceError_Read_def
      LimitExceededError_Read_def
      ServiceBusyError_Read_def
      StartWorkflowExecutionResponse_Read_def
      WorkflowExecutionAlreadyStartedError_Read_def
      e0 e1 e2 e3 e4 e5 e6 e7 e8)
  ultimately show "if WorkflowService_StartWorkflowExecution_Result_count x = 1
      then \<exists>w. WorkflowService_StartWorkflowExecution_Result_ToWire W x = Inr w \<and> wire_api.Type W w
          = TStruct \<and>
        Writable W w \<and> WorkflowService_StartWorkflowExecution_Result_FromWire W w
            WorkflowService_StartWorkflowExecution_Result_zero = Inr x
      else \<exists>e. WorkflowService_StartWorkflowExecution_Result_ToWire W x = Inl e"
    by (simp add: laws codec_rules e0 e1 e2 e3 e4 e5 e6 e7 e8)
qed

interpretation StartWorkflowExecution: rpc_method W
  "WorkflowService_StartWorkflowExecution_Args_ToWire W"
      "WorkflowService_StartWorkflowExecution_Args_FromWire W"
      WorkflowService_StartWorkflowExecution_Args_zero "\<lambda>x. if_set
      StartWorkflowExecutionRequest_complete
      (WorkflowService_StartWorkflowExecution_Args.StartRequest x)"
  "WorkflowService_StartWorkflowExecution_Result_ToWire W"
      "WorkflowService_StartWorkflowExecution_Result_FromWire W"
      WorkflowService_StartWorkflowExecution_Result_zero
  "\<lambda>r. WorkflowService_StartWorkflowExecution_Result_count r = 1" "''StartWorkflowExecution''"
  WorkflowService_StartWorkflowExecution_Helper_Args
      "WorkflowService_StartWorkflowExecution_Args.StartRequest"
  "\<lambda>(success, err). WorkflowService_StartWorkflowExecution_Helper_WrapResponse success err"
      WorkflowService_StartWorkflowExecution_Helper_UnwrapResponse
  "\<lambda>out. snd out \<noteq> None" "carried (\<lambda>_. True)
      WorkflowService_StartWorkflowExecution_Helper_IsException" error_first "\<lambda>e. (None, Some e)"
  "handler_StartWorkflowExecution W" "client_StartWorkflowExecution W" for W
proof
  fix out :: "StartWorkflowExecutionResponse option \<times> go_error option"
  assume "carried (\<lambda>_. True) WorkflowService_StartWorkflowExecution_Helper_IsException out"
  then show "case (\<lambda>(success, err). WorkflowService_StartWorkflowExecution_Helper_WrapResponse
      success err) out of Inl e \<Rightarrow> False
      | Inr res \<Rightarrow> (WorkflowService_StartWorkflowExecution_Result_count res = 1) \<and>
          WorkflowService_StartWorkflowExecution_Helper_UnwrapResponse res = error_first out"
    by (cases out; cases "snd out"; cases "the (snd out)")
      (auto simp: WorkflowService_StartWorkflowExecution_Helper_IsException_def
          WorkflowService_StartWorkflowExecution_Helper_WrapResponse_def
          WorkflowService_StartWorkflowExecution_Helper_UnwrapResponse_def
        declared_nonnil_def WorkflowService_StartWorkflowExecution_Result_zero_def
            WorkflowService_StartWorkflowExecution_Result_count_def elim!: present.elims)
next
  fix out :: "StartWorkflowExecutionResponse option \<times> go_error option"
  assume "\<not> carried (\<lambda>_. True) WorkflowService_StartWorkflowExecution_Helper_IsException out"
  then show "case (\<lambda>(success, err). WorkflowService_StartWorkflowExecution_Helper_WrapResponse
      success err) out of Inl e \<Rightarrow> True
      | Inr res \<Rightarrow> \<not> (WorkflowService_StartWorkflowExecution_Result_count res = 1)"
    by (cases out; cases "snd out"; cases "the (snd out)")
      (auto simp: WorkflowService_StartWorkflowExecution_Helper_IsException_def
          WorkflowService_StartWorkflowExecution_Helper_WrapResponse_def declared_nonnil_def
        WorkflowService_StartWorkflowExecution_Result_count_def
            WorkflowService_StartWorkflowExecution_Result_zero_def split: option.splits)
qed (auto simp: WorkflowService_StartWorkflowExecution_Helper_Args_def
    handler_StartWorkflowExecution_def client_StartWorkflowExecution_def
      WorkflowService_StartWorkflowExecution_Args_enveloper_def
          WorkflowService_StartWorkflowExecution_Result_enveloper_def
      Let_def split: sum.splits prod.splits)

section \<open>SignalWithStartWorkflowExecution\<close>

record WorkflowService_SignalWithStartWorkflowExecution_Args =
  SignalWithStartRequest :: "SignalWithStartWorkflowExecutionRequest option"

definition WorkflowService_SignalWithStartWorkflowExecution_Args_zero ::
    WorkflowService_SignalWithStartWorkflowExecution_Args where
  "WorkflowService_SignalWithStartWorkflowExecution_Args_zero =
      \<lparr>WorkflowService_SignalWithStartWorkflowExecution_Args.SignalWithStartRequest = None\<rparr>"

definition WorkflowService_SignalWithStartWorkflowExecution_Args_ToWire ::
  "'v wire_api \<Rightarrow> WorkflowService_SignalWithStartWorkflowExecution_Args \<Rightarrow> go_error + 'v" where
  "WorkflowService_SignalWithStartWorkflowExecution_Args_ToWire W v =
     and_then (put_opt 1 (SignalWithStartWorkflowExecutionRequest_ToWire W)
         (WorkflowService_SignalWithStartWorkflowExecution_Args.SignalWithStartRequest v) [])
       (\<lambda>fields.
     Inr (NewValueStruct W fields))"

definition WorkflowService_SignalWithStartWorkflowExecution_Args_FromWire ::
  "'v wire_api \<Rightarrow> 'v \<Rightarrow> WorkflowService_SignalWithStartWorkflowExecution_Args \<Rightarrow> go_error +
      WorkflowService_SignalWithStartWorkflowExecution_Args" where
  "WorkflowService_SignalWithStartWorkflowExecution_Args_FromWire W w v =
     foldM (\<lambda>v (fid, fval).
       if fid = 1 then
         if wire_api.Type W fval = TStruct
         then and_then (SignalWithStartWorkflowExecutionRequest_Read W fval) (\<lambda>x. Inr
             (v\<lparr>WorkflowService_SignalWithStartWorkflowExecution_Args.SignalWithStartRequest := Some
             x\<rparr>))
         else Inr v
       else Inr v) (GetStruct W w) v"

definition WorkflowService_SignalWithStartWorkflowExecution_Args_enveloper ::
  "'v wire_api \<Rightarrow> WorkflowService_SignalWithStartWorkflowExecution_Args \<Rightarrow> 'v enveloper" where
  "WorkflowService_SignalWithStartWorkflowExecution_Args_enveloper W v =
     \<lparr>MethodName = ''SignalWithStartWorkflowExecution'', EnvelopeType = Call, EnvelopeToWire =
         WorkflowService_SignalWithStartWorkflowExecution_Args_ToWire W v\<rparr>"

definition WorkflowService_SignalWithStartWorkflowExecution_Args_Equals ::
  "WorkflowService_SignalWithStartWorkflowExecution_Args option \<Rightarrow>
      WorkflowService_SignalWithStartWorkflowExecution_Args option \<Rightarrow> bool" where
  "WorkflowService_SignalWithStartWorkflowExecution_Args_Equals v rhs =
     (case v of None \<Rightarrow> rhs = None
      | Some v \<Rightarrow> (case rhs of None \<Rightarrow> False
        | Some rhs \<Rightarrow>
          if \<not> both_set_and (\<lambda>x y. SignalWithStartWorkflowExecutionRequest_Equals (Some x) (Some y))
              (WorkflowService_SignalWithStartWorkflowExecution_Args.SignalWithStartRequest v)
              (WorkflowService_SignalWithStartWorkflowExecution_Args.SignalWithStartRequest rhs)
              then False else
          True))"

definition WorkflowService_SignalWithStartWorkflowExecution_Args_comparable ::
    "WorkflowService_SignalWithStartWorkflowExecution_Args \<Rightarrow> bool" where
  "WorkflowService_SignalWithStartWorkflowExecution_Args_comparable v \<longleftrightarrow>
     if_set SignalWithStartWorkflowExecutionRequest_comparable
         (WorkflowService_SignalWithStartWorkflowExecution_Args.SignalWithStartRequest v)"

lemma WorkflowService_SignalWithStartWorkflowExecution_Args_Equals_iff:
  "if_set WorkflowService_SignalWithStartWorkflowExecution_Args_comparable x \<Longrightarrow> if_set
      WorkflowService_SignalWithStartWorkflowExecution_Args_comparable y \<Longrightarrow>
      WorkflowService_SignalWithStartWorkflowExecution_Args_Equals x y \<longleftrightarrow> x = y"
  by (cases x; cases y) (simp_all add:
      WorkflowService_SignalWithStartWorkflowExecution_Args_Equals_def
      WorkflowService_SignalWithStartWorkflowExecution_Args_comparable_def if_not_False,
    fastforce intro: WorkflowService_SignalWithStartWorkflowExecution_Args.equality)

lemma WorkflowService_SignalWithStartWorkflowExecution_Args_fields_equal [simp]:
  "if_set WorkflowService_SignalWithStartWorkflowExecution_Args_comparable x \<Longrightarrow> if_set
      WorkflowService_SignalWithStartWorkflowExecution_Args_comparable y \<Longrightarrow>
    both_set_and (\<lambda>x y. WorkflowService_SignalWithStartWorkflowExecution_Args_Equals (Some x) (Some
        y)) x y \<longleftrightarrow> x = y"
  by (rule both_set_and_iff [where P =
      WorkflowService_SignalWithStartWorkflowExecution_Args_comparable]) (simp_all add:
      WorkflowService_SignalWithStartWorkflowExecution_Args_Equals_iff)

record WorkflowService_SignalWithStartWorkflowExecution_Result =
  Success :: "StartWorkflowExecutionResponse option"
  BadRequestError :: "BadRequestError option"
  InternalServiceError :: "InternalServiceError option"
  EntityNotExistError :: "EntityNotExistsError option"
  ServiceBusyError :: "ServiceBusyError option"
  DomainNotActiveError :: "DomainNotActiveError option"
  LimitExceededError :: "LimitExceededError option"
  WorkflowAlreadyStartedError :: "WorkflowExecutionAlreadyStartedError option"
  ClientVersionNotSupportedError :: "ClientVersionNotSupportedError option"

definition WorkflowService_SignalWithStartWorkflowExecution_Result_count ::
    "WorkflowService_SignalWithStartWorkflowExecution_Result \<Rightarrow> nat" where
  "WorkflowService_SignalWithStartWorkflowExecution_Result_count v =
     (if WorkflowService_SignalWithStartWorkflowExecution_Result.Success v \<noteq> None then 1 else 0) +
     (if WorkflowService_SignalWithStartWorkflowExecution_Result.BadRequestError v \<noteq> None then 1
         else 0) +
     (if WorkflowService_SignalWithStartWorkflowExecution_Result.InternalServiceError v \<noteq> None then
         1 else 0) +
     (if WorkflowService_SignalWithStartWorkflowExecution_Result.EntityNotExistError v \<noteq> None then 1
         else 0) +
     (if WorkflowService_SignalWithStartWorkflowExecution_Result.ServiceBusyError v \<noteq> None then 1
         else 0) +
     (if WorkflowService_SignalWithStartWorkflowExecution_Result.DomainNotActiveError v \<noteq> None then
         1 else 0) +
     (if WorkflowService_SignalWithStartWorkflowExecution_Result.LimitExceededError v \<noteq> None then 1
         else 0) +
     (if WorkflowService_SignalWithStartWorkflowExecution_Result.WorkflowAlreadyStartedError v \<noteq>
         None then 1 else 0) +
     (if WorkflowService_SignalWithStartWorkflowExecution_Result.ClientVersionNotSupportedError v \<noteq>
         None then 1 else 0)"

definition WorkflowService_SignalWithStartWorkflowExecution_Result_zero ::
    WorkflowService_SignalWithStartWorkflowExecution_Result where
  "WorkflowService_SignalWithStartWorkflowExecution_Result_zero =
      \<lparr>WorkflowService_SignalWithStartWorkflowExecution_Result.Success = None,
      WorkflowService_SignalWithStartWorkflowExecution_Result.BadRequestError = None,
      WorkflowService_SignalWithStartWorkflowExecution_Result.InternalServiceError = None,
      WorkflowService_SignalWithStartWorkflowExecution_Result.EntityNotExistError = None,
      WorkflowService_SignalWithStartWorkflowExecution_Result.ServiceBusyError = None,
      WorkflowService_SignalWithStartWorkflowExecution_Result.DomainNotActiveError = None,
      WorkflowService_SignalWithStartWorkflowExecution_Result.LimitExceededError = None,
      WorkflowService_SignalWithStartWorkflowExecution_Result.WorkflowAlreadyStartedError = None,
      WorkflowService_SignalWithStartWorkflowExecution_Result.ClientVersionNotSupportedError =
      None\<rparr>"

definition WorkflowService_SignalWithStartWorkflowExecution_Result_ToWire ::
  "'v wire_api \<Rightarrow> WorkflowService_SignalWithStartWorkflowExecution_Result \<Rightarrow> go_error + 'v" where
  "WorkflowService_SignalWithStartWorkflowExecution_Result_ToWire W v =
     and_then (put_opt 0 (StartWorkflowExecutionResponse_ToWire W)
         (WorkflowService_SignalWithStartWorkflowExecution_Result.Success v) [])
       (\<lambda>fields.
     and_then (put_opt 1 (BadRequestError_ToWire W)
         (WorkflowService_SignalWithStartWorkflowExecution_Result.BadRequestError v) fields)
       (\<lambda>fields.
     and_then (put_opt 2 (InternalServiceError_ToWire W)
         (WorkflowService_SignalWithStartWorkflowExecution_Result.InternalServiceError v) fields)
       (\<lambda>fields.
     and_then (put_opt 3 (EntityNotExistsError_ToWire W)
         (WorkflowService_SignalWithStartWorkflowExecution_Result.EntityNotExistError v) fields)
       (\<lambda>fields.
     and_then (put_opt 4 (ServiceBusyError_ToWire W)
         (WorkflowService_SignalWithStartWorkflowExecution_Result.ServiceBusyError v) fields)
       (\<lambda>fields.
     and_then (put_opt 5 (DomainNotActiveError_ToWire W)
         (WorkflowService_SignalWithStartWorkflowExecution_Result.DomainNotActiveError v) fields)
       (\<lambda>fields.
     and_then (put_opt 6 (LimitExceededError_ToWire W)
         (WorkflowService_SignalWithStartWorkflowExecution_Result.LimitExceededError v) fields)
       (\<lambda>fields.
     and_then (put_opt 7 (WorkflowExecutionAlreadyStartedError_ToWire W)
         (WorkflowService_SignalWithStartWorkflowExecution_Result.WorkflowAlreadyStartedError v)
         fields)
       (\<lambda>fields.
     and_then (put_opt 8 (ClientVersionNotSupportedError_ToWire W)
         (WorkflowService_SignalWithStartWorkflowExecution_Result.ClientVersionNotSupportedError v)
         fields)
       (\<lambda>fields.
     if length fields \<noteq> 1
     then Inl (E_Errorf
         ''WorkflowService_SignalWithStartWorkflowExecution_Result should have exactly one field: got %v fields'' (length fields))
     else Inr (NewValueStruct W fields))))))))))"

definition WorkflowService_SignalWithStartWorkflowExecution_Result_FromWire ::
  "'v wire_api \<Rightarrow> 'v \<Rightarrow> WorkflowService_SignalWithStartWorkflowExecution_Result \<Rightarrow> go_error +
      WorkflowService_SignalWithStartWorkflowExecution_Result" where
  "WorkflowService_SignalWithStartWorkflowExecution_Result_FromWire W w v =
     and_then (foldM (\<lambda>v (fid, fval).
       if fid = 0 then
         if wire_api.Type W fval = TStruct
         then and_then (StartWorkflowExecutionResponse_Read W fval) (\<lambda>x. Inr
             (v\<lparr>WorkflowService_SignalWithStartWorkflowExecution_Result.Success := Some x\<rparr>))
         else Inr v
       else if fid = 1 then
         if wire_api.Type W fval = TStruct
         then and_then (BadRequestError_Read W fval) (\<lambda>x. Inr
             (v\<lparr>WorkflowService_SignalWithStartWorkflowExecution_Result.BadRequestError := Some x\<rparr>))
         else Inr v
       else if fid = 2 then
         if wire_api.Type W fval = TStruct
         then and_then (InternalServiceError_Read W fval) (\<lambda>x. Inr
             (v\<lparr>WorkflowService_SignalWithStartWorkflowExecution_Result.InternalServiceError := Some
             x\<rparr>))
         else Inr v
       else if fid = 3 then
         if wire_api.Type W fval = TStruct
         then and_then (EntityNotExistsError_Read W fval) (\<lambda>x. Inr
             (v\<lparr>WorkflowService_SignalWithStartWorkflowExecution_Result.EntityNotExistError := Some
             x\<rparr>))
         else Inr v
       else if fid = 4 then
         if wire_api.Type W fval = TStruct
         then and_then (ServiceBusyError_Read W fval) (\<lambda>x. Inr
             (v\<lparr>WorkflowService_SignalWithStartWorkflowExecution_Result.ServiceBusyError := Some
             x\<rparr>))
         else Inr v
       else if fid = 5 then
         if wire_api.Type W fval = TStruct
         then and_then (DomainNotActiveError_Read W fval) (\<lambda>x. Inr
             (v\<lparr>WorkflowService_SignalWithStartWorkflowExecution_Result.DomainNotActiveError := Some
             x\<rparr>))
         else Inr v
       else if fid = 6 then
         if wire_api.Type W fval = TStruct
         then and_then (LimitExceededError_Read W fval) (\<lambda>x. Inr
             (v\<lparr>WorkflowService_SignalWithStartWorkflowExecution_Result.LimitExceededError := Some
             x\<rparr>))
         else Inr v
       else if fid = 7 then
         if wire_api.Type W fval = TStruct
         then and_then (WorkflowExecutionAlreadyStartedError_Read W fval) (\<lambda>x. Inr
             (v\<lparr>WorkflowService_SignalWithStartWorkflowExecution_Result.WorkflowAlreadyStartedError
             := Some x\<rparr>))
         else Inr v
       else if fid = 8 then
         if wire_api.Type W fval = TStruct
         then and_then (ClientVersionNotSupportedError_Read W fval) (\<lambda>x. Inr
             (v\<lparr>WorkflowService_SignalWithStartWorkflowExecution_Result.ClientVersionNotSupportedError := Some x\<rparr>))
         else Inr v
       else Inr v) (GetStruct W w) v) (\<lambda>v.
     let count = WorkflowService_SignalWithStartWorkflowExecution_Result_count v in
     if count \<noteq> 1
     then Inl (E_Errorf
         ''WorkflowService_SignalWithStartWorkflowExecution_Result should have exactly one field: got %v fields'' count)
     else Inr v)"

definition WorkflowService_SignalWithStartWorkflowExecution_Result_enveloper ::
  "'v wire_api \<Rightarrow> WorkflowService_SignalWithStartWorkflowExecution_Result \<Rightarrow> 'v enveloper" where
  "WorkflowService_SignalWithStartWorkflowExecution_Result_enveloper W v =
     \<lparr>MethodName = ''SignalWithStartWorkflowExecution'', EnvelopeType = Reply, EnvelopeToWire =
         WorkflowService_SignalWithStartWorkflowExecution_Result_ToWire W v\<rparr>"

definition WorkflowService_SignalWithStartWorkflowExecution_Result_Equals ::
  "WorkflowService_SignalWithStartWorkflowExecution_Result option \<Rightarrow>
      WorkflowService_SignalWithStartWorkflowExecution_Result option \<Rightarrow> bool" where
  "WorkflowService_SignalWithStartWorkflowExecution_Result_Equals v rhs =
     (case v of None \<Rightarrow> rhs = None
      | Some v \<Rightarrow> (case rhs of None \<Rightarrow> False
        | Some rhs \<Rightarrow>
          if \<not> both_set_and (\<lambda>x y. StartWorkflowExecutionResponse_Equals (Some x) (Some y))
              (WorkflowService_SignalWithStartWorkflowExecution_Result.Success v)
              (WorkflowService_SignalWithStartWorkflowExecution_Result.Success rhs) then False else
          if \<not> both_set_and (\<lambda>x y. BadRequestError_Equals (Some x) (Some y))
              (WorkflowService_SignalWithStartWorkflowExecution_Result.BadRequestError v)
              (WorkflowService_SignalWithStartWorkflowExecution_Result.BadRequestError rhs) then
              False else
          if \<not> both_set_and (\<lambda>x y. InternalServiceError_Equals (Some x) (Some y))
              (WorkflowService_SignalWithStartWorkflowExecution_Result.InternalServiceError v)
              (WorkflowService_SignalWithStartWorkflowExecution_Result.InternalServiceError rhs)
              then False else
          if \<not> both_set_and (\<lambda>x y. EntityNotExistsError_Equals (Some x) (Some y))
              (WorkflowService_SignalWithStartWorkflowExecution_Result.EntityNotExistError v)
              (WorkflowService_SignalWithStartWorkflowExecution_Result.EntityNotExistError rhs) then
              False else
          if \<not> both_set_and (\<lambda>x y. ServiceBusyError_Equals (Some x) (Some y))
              (WorkflowService_SignalWithStartWorkflowExecution_Result.ServiceBusyError v)
              (WorkflowService_SignalWithStartWorkflowExecution_Result.ServiceBusyError rhs) then
              False else
          if \<not> both_set_and (\<lambda>x y. DomainNotActiveError_Equals (Some x) (Some y))
              (WorkflowService_SignalWithStartWorkflowExecution_Result.DomainNotActiveError v)
              (WorkflowService_SignalWithStartWorkflowExecution_Result.DomainNotActiveError rhs)
              then False else
          if \<not> both_set_and (\<lambda>x y. LimitExceededError_Equals (Some x) (Some y))
              (WorkflowService_SignalWithStartWorkflowExecution_Result.LimitExceededError v)
              (WorkflowService_SignalWithStartWorkflowExecution_Result.LimitExceededError rhs) then
              False else
          if \<not> both_set_and (\<lambda>x y. WorkflowExecutionAlreadyStartedError_Equals (Some x) (Some y))
              (WorkflowService_SignalWithStartWorkflowExecution_Result.WorkflowAlreadyStartedError
              v)
              (WorkflowService_SignalWithStartWorkflowExecution_Result.WorkflowAlreadyStartedError
              rhs) then False else
          if \<not> both_set_and (\<lambda>x y. ClientVersionNotSupportedError_Equals (Some x) (Some y))
              (WorkflowService_SignalWithStartWorkflowExecution_Result.ClientVersionNotSupportedError v) (WorkflowService_SignalWithStartWorkflowExecution_Result.ClientVersionNotSupportedError rhs) then False else
          True))"

lemma WorkflowService_SignalWithStartWorkflowExecution_Result_Equals_iff [simp]:
    "WorkflowService_SignalWithStartWorkflowExecution_Result_Equals x y \<longleftrightarrow> x = y"
  by (cases x; cases y) (simp_all add:
      WorkflowService_SignalWithStartWorkflowExecution_Result_Equals_def if_not_False, fastforce
      intro: WorkflowService_SignalWithStartWorkflowExecution_Result.equality)

definition WorkflowService_SignalWithStartWorkflowExecution_Helper_Args ::
    "SignalWithStartWorkflowExecutionRequest option \<Rightarrow>
    WorkflowService_SignalWithStartWorkflowExecution_Args" where
  "WorkflowService_SignalWithStartWorkflowExecution_Helper_Args r =
      \<lparr>WorkflowService_SignalWithStartWorkflowExecution_Args.SignalWithStartRequest = r\<rparr>"

definition WorkflowService_SignalWithStartWorkflowExecution_Helper_IsException :: "go_error \<Rightarrow> bool"
    where
  "WorkflowService_SignalWithStartWorkflowExecution_Helper_IsException err =
     (case err of
        E_BadRequestError _ \<Rightarrow> True
      | E_InternalServiceError _ \<Rightarrow> True
      | E_EntityNotExistsError _ \<Rightarrow> True
      | E_ServiceBusyError _ \<Rightarrow> True
      | E_DomainNotActiveError _ \<Rightarrow> True
      | E_LimitExceededError _ \<Rightarrow> True
      | E_WorkflowExecutionAlreadyStartedError _ \<Rightarrow> True
      | E_ClientVersionNotSupportedError _ \<Rightarrow> True
      | _ \<Rightarrow> False)"

definition WorkflowService_SignalWithStartWorkflowExecution_Helper_WrapResponse ::
  "StartWorkflowExecutionResponse option \<Rightarrow> go_error option \<Rightarrow> go_error +
      WorkflowService_SignalWithStartWorkflowExecution_Result" where
  "WorkflowService_SignalWithStartWorkflowExecution_Helper_WrapResponse success err =
     (case err of None \<Rightarrow> Inr
         (WorkflowService_SignalWithStartWorkflowExecution_Result_zero\<lparr>WorkflowService_SignalWithStartWorkflowExecution_Result.Success := success\<rparr>)
      | Some err \<Rightarrow> (case err of
          E_BadRequestError e \<Rightarrow> (case e of
              None \<Rightarrow> Inl (E_New
                  ''WrapResponse received non-nil error type with nil value for WorkflowService_SignalWithStartWorkflowExecution_Result.BadRequestError'')
            | Some e \<Rightarrow> Inr
                (WorkflowService_SignalWithStartWorkflowExecution_Result_zero\<lparr>WorkflowService_SignalWithStartWorkflowExecution_Result.BadRequestError := Some e\<rparr>))
        | E_InternalServiceError e \<Rightarrow> (case e of
              None \<Rightarrow> Inl (E_New
                  ''WrapResponse received non-nil error type with nil value for WorkflowService_SignalWithStartWorkflowExecution_Result.InternalServiceError'')
            | Some e \<Rightarrow> Inr
                (WorkflowService_SignalWithStartWorkflowExecution_Result_zero\<lparr>WorkflowService_SignalWithStartWorkflowExecution_Result.InternalServiceError := Some e\<rparr>))
        | E_EntityNotExistsError e \<Rightarrow> (case e of
              None \<Rightarrow> Inl (E_New
                  ''WrapResponse received non-nil error type with nil value for WorkflowService_SignalWithStartWorkflowExecution_Result.EntityNotExistError'')
            | Some e \<Rightarrow> Inr
                (WorkflowService_SignalWithStartWorkflowExecution_Result_zero\<lparr>WorkflowService_SignalWithStartWorkflowExecution_Result.EntityNotExistError := Some e\<rparr>))
        | E_ServiceBusyError e \<Rightarrow> (case e of
              None \<Rightarrow> Inl (E_New
                  ''WrapResponse received non-nil error type with nil value for WorkflowService_SignalWithStartWorkflowExecution_Result.ServiceBusyError'')
            | Some e \<Rightarrow> Inr
                (WorkflowService_SignalWithStartWorkflowExecution_Result_zero\<lparr>WorkflowService_SignalWithStartWorkflowExecution_Result.ServiceBusyError := Some e\<rparr>))
        | E_DomainNotActiveError e \<Rightarrow> (case e of
              None \<Rightarrow> Inl (E_New
                  ''WrapResponse received non-nil error type with nil value for WorkflowService_SignalWithStartWorkflowExecution_Result.DomainNotActiveError'')
            | Some e \<Rightarrow> Inr
                (WorkflowService_SignalWithStartWorkflowExecution_Result_zero\<lparr>WorkflowService_SignalWithStartWorkflowExecution_Result.DomainNotActiveError := Some e\<rparr>))
        | E_LimitExceededError e \<Rightarrow> (case e of
              None \<Rightarrow> Inl (E_New
                  ''WrapResponse received non-nil error type with nil value for WorkflowService_SignalWithStartWorkflowExecution_Result.LimitExceededError'')
            | Some e \<Rightarrow> Inr
                (WorkflowService_SignalWithStartWorkflowExecution_Result_zero\<lparr>WorkflowService_SignalWithStartWorkflowExecution_Result.LimitExceededError := Some e\<rparr>))
        | E_WorkflowExecutionAlreadyStartedError e \<Rightarrow> (case e of
              None \<Rightarrow> Inl (E_New
                  ''WrapResponse received non-nil error type with nil value for WorkflowService_SignalWithStartWorkflowExecution_Result.WorkflowAlreadyStartedError'')
            | Some e \<Rightarrow> Inr
                (WorkflowService_SignalWithStartWorkflowExecution_Result_zero\<lparr>WorkflowService_SignalWithStartWorkflowExecution_Result.WorkflowAlreadyStartedError := Some e\<rparr>))
        | E_ClientVersionNotSupportedError e \<Rightarrow> (case e of
              None \<Rightarrow> Inl (E_New
                  ''WrapResponse received non-nil error type with nil value for WorkflowService_SignalWithStartWorkflowExecution_Result.ClientVersionNotSupportedError'')
            | Some e \<Rightarrow> Inr
                (WorkflowService_SignalWithStartWorkflowExecution_Result_zero\<lparr>WorkflowService_SignalWithStartWorkflowExecution_Result.ClientVersionNotSupportedError := Some e\<rparr>))
        | _ \<Rightarrow> Inl err))"

definition WorkflowService_SignalWithStartWorkflowExecution_Helper_UnwrapResponse ::
  "WorkflowService_SignalWithStartWorkflowExecution_Result \<Rightarrow> StartWorkflowExecutionResponse option \<times>
      go_error option" where
  "WorkflowService_SignalWithStartWorkflowExecution_Helper_UnwrapResponse result =
    (if WorkflowService_SignalWithStartWorkflowExecution_Result.BadRequestError result \<noteq> None then
        (None, Some (E_BadRequestError
        (WorkflowService_SignalWithStartWorkflowExecution_Result.BadRequestError result))) else
     if WorkflowService_SignalWithStartWorkflowExecution_Result.InternalServiceError result \<noteq> None
         then (None, Some (E_InternalServiceError
         (WorkflowService_SignalWithStartWorkflowExecution_Result.InternalServiceError result)))
         else
     if WorkflowService_SignalWithStartWorkflowExecution_Result.EntityNotExistError result \<noteq> None
         then (None, Some (E_EntityNotExistsError
         (WorkflowService_SignalWithStartWorkflowExecution_Result.EntityNotExistError result))) else
     if WorkflowService_SignalWithStartWorkflowExecution_Result.ServiceBusyError result \<noteq> None then
         (None, Some (E_ServiceBusyError
         (WorkflowService_SignalWithStartWorkflowExecution_Result.ServiceBusyError result))) else
     if WorkflowService_SignalWithStartWorkflowExecution_Result.DomainNotActiveError result \<noteq> None
         then (None, Some (E_DomainNotActiveError
         (WorkflowService_SignalWithStartWorkflowExecution_Result.DomainNotActiveError result)))
         else
     if WorkflowService_SignalWithStartWorkflowExecution_Result.LimitExceededError result \<noteq> None
         then (None, Some (E_LimitExceededError
         (WorkflowService_SignalWithStartWorkflowExecution_Result.LimitExceededError result))) else
     if WorkflowService_SignalWithStartWorkflowExecution_Result.WorkflowAlreadyStartedError result \<noteq>
         None then (None, Some (E_WorkflowExecutionAlreadyStartedError
         (WorkflowService_SignalWithStartWorkflowExecution_Result.WorkflowAlreadyStartedError
         result))) else
     if WorkflowService_SignalWithStartWorkflowExecution_Result.ClientVersionNotSupportedError
         result \<noteq> None then (None, Some (E_ClientVersionNotSupportedError
         (WorkflowService_SignalWithStartWorkflowExecution_Result.ClientVersionNotSupportedError
         result))) else
     if WorkflowService_SignalWithStartWorkflowExecution_Result.Success result \<noteq> None then
         (WorkflowService_SignalWithStartWorkflowExecution_Result.Success result, None) else
     (None, Some (E_New ''expected a non-void result'')))"

definition handler_SignalWithStartWorkflowExecution ::
  "'v wire_api \<Rightarrow> ('ctx \<Rightarrow> SignalWithStartWorkflowExecutionRequest option \<Rightarrow>
      StartWorkflowExecutionResponse option \<times> go_error option) \<Rightarrow>
   ('ctx, 'v) unary_handler" where
  "handler_SignalWithStartWorkflowExecution W impl ctx body =
     (case WorkflowService_SignalWithStartWorkflowExecution_Args_FromWire W body
         WorkflowService_SignalWithStartWorkflowExecution_Args_zero of
      Inl err \<Rightarrow> (no_response, Some err)
    | Inr args \<Rightarrow>
      let (success, err) = impl ctx
          (WorkflowService_SignalWithStartWorkflowExecution_Args.SignalWithStartRequest args);
          hadError = (err \<noteq> None)
      in case WorkflowService_SignalWithStartWorkflowExecution_Helper_WrapResponse success err of
           Inl err \<Rightarrow> (no_response, Some err)
         | Inr result \<Rightarrow>
             (\<lparr>Body = Some (WorkflowService_SignalWithStartWorkflowExecution_Result_enveloper W
                 result),
               IsApplicationError = hadError\<rparr>, None))"

definition client_SignalWithStartWorkflowExecution ::
  "'v wire_api \<Rightarrow> ('ctx, 'v) thrift_client \<Rightarrow> 'ctx \<Rightarrow> SignalWithStartWorkflowExecutionRequest option \<Rightarrow>
   StartWorkflowExecutionResponse option \<times> go_error option" where
  "client_SignalWithStartWorkflowExecution W call ctx r =
     (let args = WorkflowService_SignalWithStartWorkflowExecution_Helper_Args r in
      case call ctx (WorkflowService_SignalWithStartWorkflowExecution_Args_enveloper W args) of
        Inl e \<Rightarrow> (None, Some e)
      | Inr body \<Rightarrow>
          (case WorkflowService_SignalWithStartWorkflowExecution_Result_FromWire W body
              WorkflowService_SignalWithStartWorkflowExecution_Result_zero of
             Inl e \<Rightarrow> (None, Some e)
           | Inr result \<Rightarrow> WorkflowService_SignalWithStartWorkflowExecution_Helper_UnwrapResponse
               result))"

lemma WorkflowService_SignalWithStartWorkflowExecution_Args_merge:
  "(case x of None \<Rightarrow> Inr
      \<lparr>WorkflowService_SignalWithStartWorkflowExecution_Args.SignalWithStartRequest = a0\<rparr> | Some y \<Rightarrow>
      Inr \<lparr>WorkflowService_SignalWithStartWorkflowExecution_Args.SignalWithStartRequest = b0 y\<rparr>) =
   Inr \<lparr>WorkflowService_SignalWithStartWorkflowExecution_Args.SignalWithStartRequest = (case x of
       None \<Rightarrow> a0 | Some y \<Rightarrow> b0 y)\<rparr>"
  by (cases x) simp_all

interpretation WorkflowService_SignalWithStartWorkflowExecution_Args: thrift_struct W
  "WorkflowService_SignalWithStartWorkflowExecution_Args_ToWire W"
      "WorkflowService_SignalWithStartWorkflowExecution_Args_FromWire W"
  WorkflowService_SignalWithStartWorkflowExecution_Args_zero "\<lambda>x. if_set
      SignalWithStartWorkflowExecutionRequest_complete
      (WorkflowService_SignalWithStartWorkflowExecution_Args.SignalWithStartRequest x)" for W
proof (rule thrift_structI)
  fix x :: WorkflowService_SignalWithStartWorkflowExecution_Args
  assume laws: "wire_laws W"
  obtain enc0 where e0: "SignalWithStartWorkflowExecutionRequest_ToWire W = (\<lambda>x. Inr (enc0 x))"
      "\<And>x. wire_api.Type W (enc0 x) = TStruct"
      "\<And>x. Writable W (enc0 x) \<longleftrightarrow> SignalWithStartWorkflowExecutionRequest_complete x"
      "\<And>x. SignalWithStartWorkflowExecutionRequest_complete x \<Longrightarrow>
          SignalWithStartWorkflowExecutionRequest_FromWire W (enc0 x)
          SignalWithStartWorkflowExecutionRequest_zero = Inr x"
    by (rule SignalWithStartWorkflowExecutionRequest.encoder [OF laws]) (rule that)
  show "\<exists>w. WorkflowService_SignalWithStartWorkflowExecution_Args_ToWire W x = Inr w \<and> wire_api.Type
      W w = TStruct \<and>
      (Writable W w \<longleftrightarrow> if_set SignalWithStartWorkflowExecutionRequest_complete
          (WorkflowService_SignalWithStartWorkflowExecution_Args.SignalWithStartRequest x)) \<and>
          (if_set SignalWithStartWorkflowExecutionRequest_complete
          (WorkflowService_SignalWithStartWorkflowExecution_Args.SignalWithStartRequest x) \<longrightarrow>
          WorkflowService_SignalWithStartWorkflowExecution_Args_FromWire W w
          WorkflowService_SignalWithStartWorkflowExecution_Args_zero = Inr x)"
    by (cases x) (simp cong: option.case_cong add: codec_rules
        WorkflowService_SignalWithStartWorkflowExecution_Args_merge
        WorkflowService_SignalWithStartWorkflowExecution_Args_ToWire_def
        WorkflowService_SignalWithStartWorkflowExecution_Args_FromWire_def
      WorkflowService_SignalWithStartWorkflowExecution_Args_zero_def
          SignalWithStartWorkflowExecutionRequest_Read_def if_set_def laws e0)
qed

lemma WorkflowService_SignalWithStartWorkflowExecution_Result_merge:
  "(case x of None \<Rightarrow> Inr \<lparr>WorkflowService_SignalWithStartWorkflowExecution_Result.Success = a0,
      WorkflowService_SignalWithStartWorkflowExecution_Result.BadRequestError = a1,
      WorkflowService_SignalWithStartWorkflowExecution_Result.InternalServiceError = a2,
      WorkflowService_SignalWithStartWorkflowExecution_Result.EntityNotExistError = a3,
      WorkflowService_SignalWithStartWorkflowExecution_Result.ServiceBusyError = a4,
      WorkflowService_SignalWithStartWorkflowExecution_Result.DomainNotActiveError = a5,
      WorkflowService_SignalWithStartWorkflowExecution_Result.LimitExceededError = a6,
      WorkflowService_SignalWithStartWorkflowExecution_Result.WorkflowAlreadyStartedError = a7,
      WorkflowService_SignalWithStartWorkflowExecution_Result.ClientVersionNotSupportedError = a8\<rparr> |
      Some y \<Rightarrow> Inr \<lparr>WorkflowService_SignalWithStartWorkflowExecution_Result.Success = b0 y,
      WorkflowService_SignalWithStartWorkflowExecution_Result.BadRequestError = b1 y,
      WorkflowService_SignalWithStartWorkflowExecution_Result.InternalServiceError = b2 y,
      WorkflowService_SignalWithStartWorkflowExecution_Result.EntityNotExistError = b3 y,
      WorkflowService_SignalWithStartWorkflowExecution_Result.ServiceBusyError = b4 y,
      WorkflowService_SignalWithStartWorkflowExecution_Result.DomainNotActiveError = b5 y,
      WorkflowService_SignalWithStartWorkflowExecution_Result.LimitExceededError = b6 y,
      WorkflowService_SignalWithStartWorkflowExecution_Result.WorkflowAlreadyStartedError = b7 y,
      WorkflowService_SignalWithStartWorkflowExecution_Result.ClientVersionNotSupportedError = b8
      y\<rparr>) =
   Inr \<lparr>WorkflowService_SignalWithStartWorkflowExecution_Result.Success = (case x of None \<Rightarrow> a0 |
       Some y \<Rightarrow> b0 y), WorkflowService_SignalWithStartWorkflowExecution_Result.BadRequestError =
       (case x of None \<Rightarrow> a1 | Some y \<Rightarrow> b1 y),
       WorkflowService_SignalWithStartWorkflowExecution_Result.InternalServiceError = (case x of
       None \<Rightarrow> a2 | Some y \<Rightarrow> b2 y),
       WorkflowService_SignalWithStartWorkflowExecution_Result.EntityNotExistError = (case x of None
       \<Rightarrow> a3 | Some y \<Rightarrow> b3 y),
       WorkflowService_SignalWithStartWorkflowExecution_Result.ServiceBusyError = (case x of None \<Rightarrow>
       a4 | Some y \<Rightarrow> b4 y),
       WorkflowService_SignalWithStartWorkflowExecution_Result.DomainNotActiveError = (case x of
       None \<Rightarrow> a5 | Some y \<Rightarrow> b5 y),
       WorkflowService_SignalWithStartWorkflowExecution_Result.LimitExceededError = (case x of None
       \<Rightarrow> a6 | Some y \<Rightarrow> b6 y),
       WorkflowService_SignalWithStartWorkflowExecution_Result.WorkflowAlreadyStartedError = (case x
       of None \<Rightarrow> a7 | Some y \<Rightarrow> b7 y),
       WorkflowService_SignalWithStartWorkflowExecution_Result.ClientVersionNotSupportedError =
       (case x of None \<Rightarrow> a8 | Some y \<Rightarrow> b8 y)\<rparr>"
  by (cases x) simp_all

interpretation WorkflowService_SignalWithStartWorkflowExecution_Result: thrift_struct W
  "WorkflowService_SignalWithStartWorkflowExecution_Result_ToWire W"
      "WorkflowService_SignalWithStartWorkflowExecution_Result_FromWire W"
  WorkflowService_SignalWithStartWorkflowExecution_Result_zero "\<lambda>r.
      WorkflowService_SignalWithStartWorkflowExecution_Result_count r = 1" for W
proof (rule thrift_checked_plainI)
  fix x :: WorkflowService_SignalWithStartWorkflowExecution_Result
  assume laws: "wire_laws W"
  obtain enc0 where e0: "StartWorkflowExecutionResponse_ToWire W = (\<lambda>x. Inr (enc0 x))"
      "\<And>x. wire_api.Type W (enc0 x) = TStruct"
      "\<And>x. Writable W (enc0 x) \<longleftrightarrow> (\<lambda>_. True) x"
      "\<And>x. (\<lambda>_. True) x \<Longrightarrow> StartWorkflowExecutionResponse_FromWire W (enc0 x)
          StartWorkflowExecutionResponse_zero = Inr x"
    by (rule StartWorkflowExecutionResponse.encoder [OF laws]) (rule that)
  obtain enc1 where e1: "BadRequestError_ToWire W = (\<lambda>x. Inr (enc1 x))"
      "\<And>x. wire_api.Type W (enc1 x) = TStruct"
      "\<And>x. Writable W (enc1 x) \<longleftrightarrow> (\<lambda>_. True) x"
      "\<And>x. (\<lambda>_. True) x \<Longrightarrow> BadRequestError_FromWire W (enc1 x) BadRequestError_zero = Inr x"
    by (rule BadRequestError.encoder [OF laws]) (rule that)
  obtain enc2 where e2: "InternalServiceError_ToWire W = (\<lambda>x. Inr (enc2 x))"
      "\<And>x. wire_api.Type W (enc2 x) = TStruct"
      "\<And>x. Writable W (enc2 x) \<longleftrightarrow> (\<lambda>_. True) x"
      "\<And>x. (\<lambda>_. True) x \<Longrightarrow> InternalServiceError_FromWire W (enc2 x) InternalServiceError_zero = Inr
          x"
    by (rule InternalServiceError.encoder [OF laws]) (rule that)
  obtain enc3 where e3: "EntityNotExistsError_ToWire W = (\<lambda>x. Inr (enc3 x))"
      "\<And>x. wire_api.Type W (enc3 x) = TStruct"
      "\<And>x. Writable W (enc3 x) \<longleftrightarrow> (\<lambda>_. True) x"
      "\<And>x. (\<lambda>_. True) x \<Longrightarrow> EntityNotExistsError_FromWire W (enc3 x) EntityNotExistsError_zero = Inr
          x"
    by (rule EntityNotExistsError.encoder [OF laws]) (rule that)
  obtain enc4 where e4: "ServiceBusyError_ToWire W = (\<lambda>x. Inr (enc4 x))"
      "\<And>x. wire_api.Type W (enc4 x) = TStruct"
      "\<And>x. Writable W (enc4 x) \<longleftrightarrow> (\<lambda>_. True) x"
      "\<And>x. (\<lambda>_. True) x \<Longrightarrow> ServiceBusyError_FromWire W (enc4 x) ServiceBusyError_zero = Inr x"
    by (rule ServiceBusyError.encoder [OF laws]) (rule that)
  obtain enc5 where e5: "DomainNotActiveError_ToWire W = (\<lambda>x. Inr (enc5 x))"
      "\<And>x. wire_api.Type W (enc5 x) = TStruct"
      "\<And>x. Writable W (enc5 x) \<longleftrightarrow> (\<lambda>_. True) x"
      "\<And>x. (\<lambda>_. True) x \<Longrightarrow> DomainNotActiveError_FromWire W (enc5 x) DomainNotActiveError_zero = Inr
          x"
    by (rule DomainNotActiveError.encoder [OF laws]) (rule that)
  obtain enc6 where e6: "LimitExceededError_ToWire W = (\<lambda>x. Inr (enc6 x))"
      "\<And>x. wire_api.Type W (enc6 x) = TStruct"
      "\<And>x. Writable W (enc6 x) \<longleftrightarrow> (\<lambda>_. True) x"
      "\<And>x. (\<lambda>_. True) x \<Longrightarrow> LimitExceededError_FromWire W (enc6 x) LimitExceededError_zero = Inr x"
    by (rule LimitExceededError.encoder [OF laws]) (rule that)
  obtain enc7 where e7: "WorkflowExecutionAlreadyStartedError_ToWire W = (\<lambda>x. Inr (enc7 x))"
      "\<And>x. wire_api.Type W (enc7 x) = TStruct"
      "\<And>x. Writable W (enc7 x) \<longleftrightarrow> (\<lambda>_. True) x"
      "\<And>x. (\<lambda>_. True) x \<Longrightarrow> WorkflowExecutionAlreadyStartedError_FromWire W (enc7 x)
          WorkflowExecutionAlreadyStartedError_zero = Inr x"
    by (rule WorkflowExecutionAlreadyStartedError.encoder [OF laws]) (rule that)
  obtain enc8 where e8: "ClientVersionNotSupportedError_ToWire W = (\<lambda>x. Inr (enc8 x))"
      "\<And>x. wire_api.Type W (enc8 x) = TStruct"
      "\<And>x. Writable W (enc8 x) \<longleftrightarrow> (\<lambda>_. True) x"
      "\<And>x. (\<lambda>_. True) x \<Longrightarrow> ClientVersionNotSupportedError_FromWire W (enc8 x)
          ClientVersionNotSupportedError_zero = Inr x"
    by (rule ClientVersionNotSupportedError.encoder [OF laws]) (rule that)
  let ?fs = "(((((((opt_field 0 enc0
      (WorkflowService_SignalWithStartWorkflowExecution_Result.Success x) @
      opt_field 1 enc1 (WorkflowService_SignalWithStartWorkflowExecution_Result.BadRequestError x))
          @
      opt_field 2 enc2 (WorkflowService_SignalWithStartWorkflowExecution_Result.InternalServiceError
          x)) @
      opt_field 3 enc3 (WorkflowService_SignalWithStartWorkflowExecution_Result.EntityNotExistError
          x)) @
      opt_field 4 enc4 (WorkflowService_SignalWithStartWorkflowExecution_Result.ServiceBusyError x))
          @
      opt_field 5 enc5 (WorkflowService_SignalWithStartWorkflowExecution_Result.DomainNotActiveError
          x)) @
      opt_field 6 enc6 (WorkflowService_SignalWithStartWorkflowExecution_Result.LimitExceededError
          x)) @
      opt_field 7 enc7
          (WorkflowService_SignalWithStartWorkflowExecution_Result.WorkflowAlreadyStartedError x)) @
      opt_field 8 enc8
          (WorkflowService_SignalWithStartWorkflowExecution_Result.ClientVersionNotSupportedError
          x)"
  let ?check = "\<lambda>r. if WorkflowService_SignalWithStartWorkflowExecution_Result_count x \<noteq> 1 then Inl
      (E_Errorf
      ''WorkflowService_SignalWithStartWorkflowExecution_Result should have exactly one field: got %v fields'' (WorkflowService_SignalWithStartWorkflowExecution_Result_count x)) else Inr r"
  have "length ?fs = WorkflowService_SignalWithStartWorkflowExecution_Result_count x"
    by (simp add: WorkflowService_SignalWithStartWorkflowExecution_Result_count_def length_opt_field
        split del: if_split)
  then have "WorkflowService_SignalWithStartWorkflowExecution_Result_ToWire W x = ?check
      (NewValueStruct W ?fs)"
    by (simp only: WorkflowService_SignalWithStartWorkflowExecution_Result_ToWire_def put_opt_field
        and_then.simps append_Nil e0(1) e1(1) e2(1) e3(1) e4(1) e5(1) e6(1) e7(1) e8(1))
  moreover have "WorkflowService_SignalWithStartWorkflowExecution_Result_FromWire W (NewValueStruct
      W ?fs) WorkflowService_SignalWithStartWorkflowExecution_Result_zero = ?check x"
    by (cases x, hypsubst) (simp cong: option.case_cong split del: if_split add: codec_rules Let_def
        WorkflowService_SignalWithStartWorkflowExecution_Result_merge
      WorkflowService_SignalWithStartWorkflowExecution_Result_FromWire_def
          WorkflowService_SignalWithStartWorkflowExecution_Result_zero_def laws
      BadRequestError_Read_def
      ClientVersionNotSupportedError_Read_def
      DomainNotActiveError_Read_def
      EntityNotExistsError_Read_def
      InternalServiceError_Read_def
      LimitExceededError_Read_def
      ServiceBusyError_Read_def
      StartWorkflowExecutionResponse_Read_def
      WorkflowExecutionAlreadyStartedError_Read_def
      e0 e1 e2 e3 e4 e5 e6 e7 e8)
  ultimately show "if WorkflowService_SignalWithStartWorkflowExecution_Result_count x = 1
      then \<exists>w. WorkflowService_SignalWithStartWorkflowExecution_Result_ToWire W x = Inr w \<and>
          wire_api.Type W w = TStruct \<and>
        Writable W w \<and> WorkflowService_SignalWithStartWorkflowExecution_Result_FromWire W w
            WorkflowService_SignalWithStartWorkflowExecution_Result_zero = Inr x
      else \<exists>e. WorkflowService_SignalWithStartWorkflowExecution_Result_ToWire W x = Inl e"
    by (simp add: laws codec_rules e0 e1 e2 e3 e4 e5 e6 e7 e8)
qed

interpretation SignalWithStartWorkflowExecution: rpc_method W
  "WorkflowService_SignalWithStartWorkflowExecution_Args_ToWire W"
      "WorkflowService_SignalWithStartWorkflowExecution_Args_FromWire W"
      WorkflowService_SignalWithStartWorkflowExecution_Args_zero "\<lambda>x. if_set
      SignalWithStartWorkflowExecutionRequest_complete
      (WorkflowService_SignalWithStartWorkflowExecution_Args.SignalWithStartRequest x)"
  "WorkflowService_SignalWithStartWorkflowExecution_Result_ToWire W"
      "WorkflowService_SignalWithStartWorkflowExecution_Result_FromWire W"
      WorkflowService_SignalWithStartWorkflowExecution_Result_zero
  "\<lambda>r. WorkflowService_SignalWithStartWorkflowExecution_Result_count r = 1"
      "''SignalWithStartWorkflowExecution''"
  WorkflowService_SignalWithStartWorkflowExecution_Helper_Args
      "WorkflowService_SignalWithStartWorkflowExecution_Args.SignalWithStartRequest"
  "\<lambda>(success, err). WorkflowService_SignalWithStartWorkflowExecution_Helper_WrapResponse success
      err" WorkflowService_SignalWithStartWorkflowExecution_Helper_UnwrapResponse
  "\<lambda>out. snd out \<noteq> None" "carried (\<lambda>_. True)
      WorkflowService_SignalWithStartWorkflowExecution_Helper_IsException" error_first "\<lambda>e. (None,
      Some e)"
  "handler_SignalWithStartWorkflowExecution W" "client_SignalWithStartWorkflowExecution W" for W
proof
  fix out :: "StartWorkflowExecutionResponse option \<times> go_error option"
  assume "carried (\<lambda>_. True) WorkflowService_SignalWithStartWorkflowExecution_Helper_IsException
      out"
  then show "case (\<lambda>(success, err).
      WorkflowService_SignalWithStartWorkflowExecution_Helper_WrapResponse success err) out of Inl e
      \<Rightarrow> False
      | Inr res \<Rightarrow> (WorkflowService_SignalWithStartWorkflowExecution_Result_count res = 1) \<and>
          WorkflowService_SignalWithStartWorkflowExecution_Helper_UnwrapResponse res = error_first
              out"
    by (cases out; cases "snd out"; cases "the (snd out)")
      (auto simp: WorkflowService_SignalWithStartWorkflowExecution_Helper_IsException_def
          WorkflowService_SignalWithStartWorkflowExecution_Helper_WrapResponse_def
          WorkflowService_SignalWithStartWorkflowExecution_Helper_UnwrapResponse_def
        declared_nonnil_def WorkflowService_SignalWithStartWorkflowExecution_Result_zero_def
            WorkflowService_SignalWithStartWorkflowExecution_Result_count_def elim!: present.elims)
next
  fix out :: "StartWorkflowExecutionResponse option \<times> go_error option"
  assume "\<not> carried (\<lambda>_. True) WorkflowService_SignalWithStartWorkflowExecution_Helper_IsException
      out"
  then show "case (\<lambda>(success, err).
      WorkflowService_SignalWithStartWorkflowExecution_Helper_WrapResponse success err) out of Inl e
      \<Rightarrow> True
      | Inr res \<Rightarrow> \<not> (WorkflowService_SignalWithStartWorkflowExecution_Result_count res = 1)"
    by (cases out; cases "snd out"; cases "the (snd out)")
      (auto simp: WorkflowService_SignalWithStartWorkflowExecution_Helper_IsException_def
          WorkflowService_SignalWithStartWorkflowExecution_Helper_WrapResponse_def
          declared_nonnil_def
        WorkflowService_SignalWithStartWorkflowExecution_Result_count_def
            WorkflowService_SignalWithStartWorkflowExecution_Result_zero_def split: option.splits)
qed (auto simp: WorkflowService_SignalWithStartWorkflowExecution_Helper_Args_def
    handler_SignalWithStartWorkflowExecution_def client_SignalWithStartWorkflowExecution_def
      WorkflowService_SignalWithStartWorkflowExecution_Args_enveloper_def
          WorkflowService_SignalWithStartWorkflowExecution_Result_enveloper_def
      Let_def split: sum.splits prod.splits)

section \<open>SignalWorkflowExecution\<close>

record WorkflowService_SignalWorkflowExecution_Args =
  SignalRequest :: "SignalWorkflowExecutionRequest option"

definition WorkflowService_SignalWorkflowExecution_Args_zero ::
    WorkflowService_SignalWorkflowExecution_Args where
  "WorkflowService_SignalWorkflowExecution_Args_zero =
      \<lparr>WorkflowService_SignalWorkflowExecution_Args.SignalRequest = None\<rparr>"

definition WorkflowService_SignalWorkflowExecution_Args_ToWire ::
  "'v wire_api \<Rightarrow> WorkflowService_SignalWorkflowExecution_Args \<Rightarrow> go_error + 'v" where
  "WorkflowService_SignalWorkflowExecution_Args_ToWire W v =
     and_then (put_opt 1 (SignalWorkflowExecutionRequest_ToWire W)
         (WorkflowService_SignalWorkflowExecution_Args.SignalRequest v) [])
       (\<lambda>fields.
     Inr (NewValueStruct W fields))"

definition WorkflowService_SignalWorkflowExecution_Args_FromWire ::
  "'v wire_api \<Rightarrow> 'v \<Rightarrow> WorkflowService_SignalWorkflowExecution_Args \<Rightarrow> go_error +
      WorkflowService_SignalWorkflowExecution_Args" where
  "WorkflowService_SignalWorkflowExecution_Args_FromWire W w v =
     foldM (\<lambda>v (fid, fval).
       if fid = 1 then
         if wire_api.Type W fval = TStruct
         then and_then (SignalWorkflowExecutionRequest_Read W fval) (\<lambda>x. Inr
             (v\<lparr>WorkflowService_SignalWorkflowExecution_Args.SignalRequest := Some x\<rparr>))
         else Inr v
       else Inr v) (GetStruct W w) v"

definition WorkflowService_SignalWorkflowExecution_Args_enveloper ::
  "'v wire_api \<Rightarrow> WorkflowService_SignalWorkflowExecution_Args \<Rightarrow> 'v enveloper" where
  "WorkflowService_SignalWorkflowExecution_Args_enveloper W v =
     \<lparr>MethodName = ''SignalWorkflowExecution'', EnvelopeType = Call, EnvelopeToWire =
         WorkflowService_SignalWorkflowExecution_Args_ToWire W v\<rparr>"

definition WorkflowService_SignalWorkflowExecution_Args_Equals ::
  "WorkflowService_SignalWorkflowExecution_Args option \<Rightarrow>
      WorkflowService_SignalWorkflowExecution_Args option \<Rightarrow> bool" where
  "WorkflowService_SignalWorkflowExecution_Args_Equals v rhs =
     (case v of None \<Rightarrow> rhs = None
      | Some v \<Rightarrow> (case rhs of None \<Rightarrow> False
        | Some rhs \<Rightarrow>
          if \<not> both_set_and (\<lambda>x y. SignalWorkflowExecutionRequest_Equals (Some x) (Some y))
              (WorkflowService_SignalWorkflowExecution_Args.SignalRequest v)
              (WorkflowService_SignalWorkflowExecution_Args.SignalRequest rhs) then False else
          True))"

lemma WorkflowService_SignalWorkflowExecution_Args_Equals_iff [simp]:
    "WorkflowService_SignalWorkflowExecution_Args_Equals x y \<longleftrightarrow> x = y"
  by (cases x; cases y) (auto simp: WorkflowService_SignalWorkflowExecution_Args_Equals_def)

record WorkflowService_SignalWorkflowExecution_Result =
  BadRequestError :: "BadRequestError option"
  InternalServiceError :: "InternalServiceError option"
  EntityNotExistError :: "EntityNotExistsError option"
  ServiceBusyError :: "ServiceBusyError option"
  DomainNotActiveError :: "DomainNotActiveError option"
  LimitExceededError :: "LimitExceededError option"
  ClientVersionNotSupportedError :: "ClientVersionNotSupportedError option"

definition WorkflowService_SignalWorkflowExecution_Result_count ::
    "WorkflowService_SignalWorkflowExecution_Result \<Rightarrow> nat" where
  "WorkflowService_SignalWorkflowExecution_Result_count v =
     (if WorkflowService_SignalWorkflowExecution_Result.BadRequestError v \<noteq> None then 1 else 0) +
     (if WorkflowService_SignalWorkflowExecution_Result.InternalServiceError v \<noteq> None then 1 else 0)
         +
     (if WorkflowService_SignalWorkflowExecution_Result.EntityNotExistError v \<noteq> None then 1 else 0)
         +
     (if WorkflowService_SignalWorkflowExecution_Result.ServiceBusyError v \<noteq> None then 1 else 0) +
     (if WorkflowService_SignalWorkflowExecution_Result.DomainNotActiveError v \<noteq> None then 1 else 0)
         +
     (if WorkflowService_SignalWorkflowExecution_Result.LimitExceededError v \<noteq> None then 1 else 0) +
     (if WorkflowService_SignalWorkflowExecution_Result.ClientVersionNotSupportedError v \<noteq> None then
         1 else 0)"

definition WorkflowService_SignalWorkflowExecution_Result_zero ::
    WorkflowService_SignalWorkflowExecution_Result where
  "WorkflowService_SignalWorkflowExecution_Result_zero =
      \<lparr>WorkflowService_SignalWorkflowExecution_Result.BadRequestError = None,
      WorkflowService_SignalWorkflowExecution_Result.InternalServiceError = None,
      WorkflowService_SignalWorkflowExecution_Result.EntityNotExistError = None,
      WorkflowService_SignalWorkflowExecution_Result.ServiceBusyError = None,
      WorkflowService_SignalWorkflowExecution_Result.DomainNotActiveError = None,
      WorkflowService_SignalWorkflowExecution_Result.LimitExceededError = None,
      WorkflowService_SignalWorkflowExecution_Result.ClientVersionNotSupportedError = None\<rparr>"

definition WorkflowService_SignalWorkflowExecution_Result_ToWire ::
  "'v wire_api \<Rightarrow> WorkflowService_SignalWorkflowExecution_Result \<Rightarrow> go_error + 'v" where
  "WorkflowService_SignalWorkflowExecution_Result_ToWire W v =
     and_then (put_opt 1 (BadRequestError_ToWire W)
         (WorkflowService_SignalWorkflowExecution_Result.BadRequestError v) [])
       (\<lambda>fields.
     and_then (put_opt 2 (InternalServiceError_ToWire W)
         (WorkflowService_SignalWorkflowExecution_Result.InternalServiceError v) fields)
       (\<lambda>fields.
     and_then (put_opt 3 (EntityNotExistsError_ToWire W)
         (WorkflowService_SignalWorkflowExecution_Result.EntityNotExistError v) fields)
       (\<lambda>fields.
     and_then (put_opt 4 (ServiceBusyError_ToWire W)
         (WorkflowService_SignalWorkflowExecution_Result.ServiceBusyError v) fields)
       (\<lambda>fields.
     and_then (put_opt 5 (DomainNotActiveError_ToWire W)
         (WorkflowService_SignalWorkflowExecution_Result.DomainNotActiveError v) fields)
       (\<lambda>fields.
     and_then (put_opt 6 (LimitExceededError_ToWire W)
         (WorkflowService_SignalWorkflowExecution_Result.LimitExceededError v) fields)
       (\<lambda>fields.
     and_then (put_opt 7 (ClientVersionNotSupportedError_ToWire W)
         (WorkflowService_SignalWorkflowExecution_Result.ClientVersionNotSupportedError v) fields)
       (\<lambda>fields.
     if 1 < length fields
     then Inl (E_Errorf
         ''WorkflowService_SignalWorkflowExecution_Result should have at most one field: got %v fields'' (length fields))
     else Inr (NewValueStruct W fields))))))))"

definition WorkflowService_SignalWorkflowExecution_Result_FromWire ::
  "'v wire_api \<Rightarrow> 'v \<Rightarrow> WorkflowService_SignalWorkflowExecution_Result \<Rightarrow> go_error +
      WorkflowService_SignalWorkflowExecution_Result" where
  "WorkflowService_SignalWorkflowExecution_Result_FromWire W w v =
     and_then (foldM (\<lambda>v (fid, fval).
       if fid = 1 then
         if wire_api.Type W fval = TStruct
         then and_then (BadRequestError_Read W fval) (\<lambda>x. Inr
             (v\<lparr>WorkflowService_SignalWorkflowExecution_Result.BadRequestError := Some x\<rparr>))
         else Inr v
       else if fid = 2 then
         if wire_api.Type W fval = TStruct
         then and_then (InternalServiceError_Read W fval) (\<lambda>x. Inr
             (v\<lparr>WorkflowService_SignalWorkflowExecution_Result.InternalServiceError := Some x\<rparr>))
         else Inr v
       else if fid = 3 then
         if wire_api.Type W fval = TStruct
         then and_then (EntityNotExistsError_Read W fval) (\<lambda>x. Inr
             (v\<lparr>WorkflowService_SignalWorkflowExecution_Result.EntityNotExistError := Some x\<rparr>))
         else Inr v
       else if fid = 4 then
         if wire_api.Type W fval = TStruct
         then and_then (ServiceBusyError_Read W fval) (\<lambda>x. Inr
             (v\<lparr>WorkflowService_SignalWorkflowExecution_Result.ServiceBusyError := Some x\<rparr>))
         else Inr v
       else if fid = 5 then
         if wire_api.Type W fval = TStruct
         then and_then (DomainNotActiveError_Read W fval) (\<lambda>x. Inr
             (v\<lparr>WorkflowService_SignalWorkflowExecution_Result.DomainNotActiveError := Some x\<rparr>))
         else Inr v
       else if fid = 6 then
         if wire_api.Type W fval = TStruct
         then and_then (LimitExceededError_Read W fval) (\<lambda>x. Inr
             (v\<lparr>WorkflowService_SignalWorkflowExecution_Result.LimitExceededError := Some x\<rparr>))
         else Inr v
       else if fid = 7 then
         if wire_api.Type W fval = TStruct
         then and_then (ClientVersionNotSupportedError_Read W fval) (\<lambda>x. Inr
             (v\<lparr>WorkflowService_SignalWorkflowExecution_Result.ClientVersionNotSupportedError :=
             Some x\<rparr>))
         else Inr v
       else Inr v) (GetStruct W w) v) (\<lambda>v.
     let count = WorkflowService_SignalWorkflowExecution_Result_count v in
     if 1 < count
     then Inl (E_Errorf
         ''WorkflowService_SignalWorkflowExecution_Result should have at most one field: got %v fields'' count)
     else Inr v)"

definition WorkflowService_SignalWorkflowExecution_Result_enveloper ::
  "'v wire_api \<Rightarrow> WorkflowService_SignalWorkflowExecution_Result \<Rightarrow> 'v enveloper" where
  "WorkflowService_SignalWorkflowExecution_Result_enveloper W v =
     \<lparr>MethodName = ''SignalWorkflowExecution'', EnvelopeType = Reply, EnvelopeToWire =
         WorkflowService_SignalWorkflowExecution_Result_ToWire W v\<rparr>"

definition WorkflowService_SignalWorkflowExecution_Result_Equals ::
  "WorkflowService_SignalWorkflowExecution_Result option \<Rightarrow>
      WorkflowService_SignalWorkflowExecution_Result option \<Rightarrow> bool" where
  "WorkflowService_SignalWorkflowExecution_Result_Equals v rhs =
     (case v of None \<Rightarrow> rhs = None
      | Some v \<Rightarrow> (case rhs of None \<Rightarrow> False
        | Some rhs \<Rightarrow>
          if \<not> both_set_and (\<lambda>x y. BadRequestError_Equals (Some x) (Some y))
              (WorkflowService_SignalWorkflowExecution_Result.BadRequestError v)
              (WorkflowService_SignalWorkflowExecution_Result.BadRequestError rhs) then False else
          if \<not> both_set_and (\<lambda>x y. InternalServiceError_Equals (Some x) (Some y))
              (WorkflowService_SignalWorkflowExecution_Result.InternalServiceError v)
              (WorkflowService_SignalWorkflowExecution_Result.InternalServiceError rhs) then False
              else
          if \<not> both_set_and (\<lambda>x y. EntityNotExistsError_Equals (Some x) (Some y))
              (WorkflowService_SignalWorkflowExecution_Result.EntityNotExistError v)
              (WorkflowService_SignalWorkflowExecution_Result.EntityNotExistError rhs) then False
              else
          if \<not> both_set_and (\<lambda>x y. ServiceBusyError_Equals (Some x) (Some y))
              (WorkflowService_SignalWorkflowExecution_Result.ServiceBusyError v)
              (WorkflowService_SignalWorkflowExecution_Result.ServiceBusyError rhs) then False else
          if \<not> both_set_and (\<lambda>x y. DomainNotActiveError_Equals (Some x) (Some y))
              (WorkflowService_SignalWorkflowExecution_Result.DomainNotActiveError v)
              (WorkflowService_SignalWorkflowExecution_Result.DomainNotActiveError rhs) then False
              else
          if \<not> both_set_and (\<lambda>x y. LimitExceededError_Equals (Some x) (Some y))
              (WorkflowService_SignalWorkflowExecution_Result.LimitExceededError v)
              (WorkflowService_SignalWorkflowExecution_Result.LimitExceededError rhs) then False
              else
          if \<not> both_set_and (\<lambda>x y. ClientVersionNotSupportedError_Equals (Some x) (Some y))
              (WorkflowService_SignalWorkflowExecution_Result.ClientVersionNotSupportedError v)
              (WorkflowService_SignalWorkflowExecution_Result.ClientVersionNotSupportedError rhs)
              then False else
          True))"

lemma WorkflowService_SignalWorkflowExecution_Result_Equals_iff [simp]:
    "WorkflowService_SignalWorkflowExecution_Result_Equals x y \<longleftrightarrow> x = y"
  by (cases x; cases y) (simp_all add: WorkflowService_SignalWorkflowExecution_Result_Equals_def
      if_not_False, fastforce intro: WorkflowService_SignalWorkflowExecution_Result.equality)

definition WorkflowService_SignalWorkflowExecution_Helper_Args :: "SignalWorkflowExecutionRequest
    option \<Rightarrow> WorkflowService_SignalWorkflowExecution_Args" where
  "WorkflowService_SignalWorkflowExecution_Helper_Args r =
      \<lparr>WorkflowService_SignalWorkflowExecution_Args.SignalRequest = r\<rparr>"

definition WorkflowService_SignalWorkflowExecution_Helper_IsException :: "go_error \<Rightarrow> bool" where
  "WorkflowService_SignalWorkflowExecution_Helper_IsException err =
     (case err of
        E_BadRequestError _ \<Rightarrow> True
      | E_InternalServiceError _ \<Rightarrow> True
      | E_EntityNotExistsError _ \<Rightarrow> True
      | E_ServiceBusyError _ \<Rightarrow> True
      | E_DomainNotActiveError _ \<Rightarrow> True
      | E_LimitExceededError _ \<Rightarrow> True
      | E_ClientVersionNotSupportedError _ \<Rightarrow> True
      | _ \<Rightarrow> False)"

definition WorkflowService_SignalWorkflowExecution_Helper_WrapResponse ::
  "go_error option \<Rightarrow> go_error + WorkflowService_SignalWorkflowExecution_Result" where
  "WorkflowService_SignalWorkflowExecution_Helper_WrapResponse err =
     (case err of None \<Rightarrow> Inr WorkflowService_SignalWorkflowExecution_Result_zero
      | Some err \<Rightarrow> (case err of
          E_BadRequestError e \<Rightarrow> (case e of
              None \<Rightarrow> Inl (E_New
                  ''WrapResponse received non-nil error type with nil value for WorkflowService_SignalWorkflowExecution_Result.BadRequestError'')
            | Some e \<Rightarrow> Inr
                (WorkflowService_SignalWorkflowExecution_Result_zero\<lparr>WorkflowService_SignalWorkflowExecution_Result.BadRequestError := Some e\<rparr>))
        | E_InternalServiceError e \<Rightarrow> (case e of
              None \<Rightarrow> Inl (E_New
                  ''WrapResponse received non-nil error type with nil value for WorkflowService_SignalWorkflowExecution_Result.InternalServiceError'')
            | Some e \<Rightarrow> Inr
                (WorkflowService_SignalWorkflowExecution_Result_zero\<lparr>WorkflowService_SignalWorkflowExecution_Result.InternalServiceError := Some e\<rparr>))
        | E_EntityNotExistsError e \<Rightarrow> (case e of
              None \<Rightarrow> Inl (E_New
                  ''WrapResponse received non-nil error type with nil value for WorkflowService_SignalWorkflowExecution_Result.EntityNotExistError'')
            | Some e \<Rightarrow> Inr
                (WorkflowService_SignalWorkflowExecution_Result_zero\<lparr>WorkflowService_SignalWorkflowExecution_Result.EntityNotExistError := Some e\<rparr>))
        | E_ServiceBusyError e \<Rightarrow> (case e of
              None \<Rightarrow> Inl (E_New
                  ''WrapResponse received non-nil error type with nil value for WorkflowService_SignalWorkflowExecution_Result.ServiceBusyError'')
            | Some e \<Rightarrow> Inr
                (WorkflowService_SignalWorkflowExecution_Result_zero\<lparr>WorkflowService_SignalWorkflowExecution_Result.ServiceBusyError := Some e\<rparr>))
        | E_DomainNotActiveError e \<Rightarrow> (case e of
              None \<Rightarrow> Inl (E_New
                  ''WrapResponse received non-nil error type with nil value for WorkflowService_SignalWorkflowExecution_Result.DomainNotActiveError'')
            | Some e \<Rightarrow> Inr
                (WorkflowService_SignalWorkflowExecution_Result_zero\<lparr>WorkflowService_SignalWorkflowExecution_Result.DomainNotActiveError := Some e\<rparr>))
        | E_LimitExceededError e \<Rightarrow> (case e of
              None \<Rightarrow> Inl (E_New
                  ''WrapResponse received non-nil error type with nil value for WorkflowService_SignalWorkflowExecution_Result.LimitExceededError'')
            | Some e \<Rightarrow> Inr
                (WorkflowService_SignalWorkflowExecution_Result_zero\<lparr>WorkflowService_SignalWorkflowExecution_Result.LimitExceededError := Some e\<rparr>))
        | E_ClientVersionNotSupportedError e \<Rightarrow> (case e of
              None \<Rightarrow> Inl (E_New
                  ''WrapResponse received non-nil error type with nil value for WorkflowService_SignalWorkflowExecution_Result.ClientVersionNotSupportedError'')
            | Some e \<Rightarrow> Inr
                (WorkflowService_SignalWorkflowExecution_Result_zero\<lparr>WorkflowService_SignalWorkflowExecution_Result.ClientVersionNotSupportedError := Some e\<rparr>))
        | _ \<Rightarrow> Inl err))"

definition WorkflowService_SignalWorkflowExecution_Helper_UnwrapResponse ::
  "WorkflowService_SignalWorkflowExecution_Result \<Rightarrow> go_error option" where
  "WorkflowService_SignalWorkflowExecution_Helper_UnwrapResponse result =
    (if WorkflowService_SignalWorkflowExecution_Result.BadRequestError result \<noteq> None then Some
        (E_BadRequestError (WorkflowService_SignalWorkflowExecution_Result.BadRequestError result))
        else
     if WorkflowService_SignalWorkflowExecution_Result.InternalServiceError result \<noteq> None then Some
         (E_InternalServiceError
         (WorkflowService_SignalWorkflowExecution_Result.InternalServiceError result)) else
     if WorkflowService_SignalWorkflowExecution_Result.EntityNotExistError result \<noteq> None then Some
         (E_EntityNotExistsError (WorkflowService_SignalWorkflowExecution_Result.EntityNotExistError
         result)) else
     if WorkflowService_SignalWorkflowExecution_Result.ServiceBusyError result \<noteq> None then Some
         (E_ServiceBusyError (WorkflowService_SignalWorkflowExecution_Result.ServiceBusyError
         result)) else
     if WorkflowService_SignalWorkflowExecution_Result.DomainNotActiveError result \<noteq> None then Some
         (E_DomainNotActiveError
         (WorkflowService_SignalWorkflowExecution_Result.DomainNotActiveError result)) else
     if WorkflowService_SignalWorkflowExecution_Result.LimitExceededError result \<noteq> None then Some
         (E_LimitExceededError (WorkflowService_SignalWorkflowExecution_Result.LimitExceededError
         result)) else
     if WorkflowService_SignalWorkflowExecution_Result.ClientVersionNotSupportedError result \<noteq> None
         then Some (E_ClientVersionNotSupportedError
         (WorkflowService_SignalWorkflowExecution_Result.ClientVersionNotSupportedError result))
         else
     None)"

definition handler_SignalWorkflowExecution ::
  "'v wire_api \<Rightarrow> ('ctx \<Rightarrow> SignalWorkflowExecutionRequest option \<Rightarrow> go_error option) \<Rightarrow>
   ('ctx, 'v) unary_handler" where
  "handler_SignalWorkflowExecution W impl ctx body =
     (case WorkflowService_SignalWorkflowExecution_Args_FromWire W body
         WorkflowService_SignalWorkflowExecution_Args_zero of
      Inl err \<Rightarrow> (no_response, Some err)
    | Inr args \<Rightarrow>
      let err = impl ctx (WorkflowService_SignalWorkflowExecution_Args.SignalRequest args);
          hadError = (err \<noteq> None)
      in case WorkflowService_SignalWorkflowExecution_Helper_WrapResponse err of
           Inl err \<Rightarrow> (no_response, Some err)
         | Inr result \<Rightarrow>
             (\<lparr>Body = Some (WorkflowService_SignalWorkflowExecution_Result_enveloper W result),
               IsApplicationError = hadError\<rparr>, None))"

definition client_SignalWorkflowExecution ::
  "'v wire_api \<Rightarrow> ('ctx, 'v) thrift_client \<Rightarrow> 'ctx \<Rightarrow> SignalWorkflowExecutionRequest option \<Rightarrow>
   go_error option" where
  "client_SignalWorkflowExecution W call ctx r =
     (let args = WorkflowService_SignalWorkflowExecution_Helper_Args r in
      case call ctx (WorkflowService_SignalWorkflowExecution_Args_enveloper W args) of
        Inl e \<Rightarrow> Some e
      | Inr body \<Rightarrow>
          (case WorkflowService_SignalWorkflowExecution_Result_FromWire W body
              WorkflowService_SignalWorkflowExecution_Result_zero of
             Inl e \<Rightarrow> Some e
           | Inr result \<Rightarrow> WorkflowService_SignalWorkflowExecution_Helper_UnwrapResponse result))"

lemma WorkflowService_SignalWorkflowExecution_Args_merge:
  "(case x of None \<Rightarrow> Inr \<lparr>WorkflowService_SignalWorkflowExecution_Args.SignalRequest = a0\<rparr> | Some y
      \<Rightarrow> Inr \<lparr>WorkflowService_SignalWorkflowExecution_Args.SignalRequest = b0 y\<rparr>) =
   Inr \<lparr>WorkflowService_SignalWorkflowExecution_Args.SignalRequest = (case x of None \<Rightarrow> a0 | Some y \<Rightarrow>
       b0 y)\<rparr>"
  by (cases x) simp_all

interpretation WorkflowService_SignalWorkflowExecution_Args: thrift_struct W
  "WorkflowService_SignalWorkflowExecution_Args_ToWire W"
      "WorkflowService_SignalWorkflowExecution_Args_FromWire W"
  WorkflowService_SignalWorkflowExecution_Args_zero "\<lambda>x. True" for W
proof (rule thrift_structI)
  fix x :: WorkflowService_SignalWorkflowExecution_Args
  assume laws: "wire_laws W"
  obtain enc0 where e0: "SignalWorkflowExecutionRequest_ToWire W = (\<lambda>x. Inr (enc0 x))"
      "\<And>x. wire_api.Type W (enc0 x) = TStruct"
      "\<And>x. Writable W (enc0 x) \<longleftrightarrow> (\<lambda>_. True) x"
      "\<And>x. (\<lambda>_. True) x \<Longrightarrow> SignalWorkflowExecutionRequest_FromWire W (enc0 x)
          SignalWorkflowExecutionRequest_zero = Inr x"
    by (rule SignalWorkflowExecutionRequest.encoder [OF laws]) (rule that)
  show "\<exists>w. WorkflowService_SignalWorkflowExecution_Args_ToWire W x = Inr w \<and> wire_api.Type W w =
      TStruct \<and>
      (Writable W w \<longleftrightarrow> True) \<and> (True \<longrightarrow> WorkflowService_SignalWorkflowExecution_Args_FromWire W w
          WorkflowService_SignalWorkflowExecution_Args_zero = Inr x)"
    by (cases x) (simp cong: option.case_cong add: codec_rules
        WorkflowService_SignalWorkflowExecution_Args_merge
        WorkflowService_SignalWorkflowExecution_Args_ToWire_def
        WorkflowService_SignalWorkflowExecution_Args_FromWire_def
      WorkflowService_SignalWorkflowExecution_Args_zero_def SignalWorkflowExecutionRequest_Read_def
          if_set_def laws e0)
qed

lemma WorkflowService_SignalWorkflowExecution_Result_merge:
  "(case x of None \<Rightarrow> Inr \<lparr>WorkflowService_SignalWorkflowExecution_Result.BadRequestError = a0,
      WorkflowService_SignalWorkflowExecution_Result.InternalServiceError = a1,
      WorkflowService_SignalWorkflowExecution_Result.EntityNotExistError = a2,
      WorkflowService_SignalWorkflowExecution_Result.ServiceBusyError = a3,
      WorkflowService_SignalWorkflowExecution_Result.DomainNotActiveError = a4,
      WorkflowService_SignalWorkflowExecution_Result.LimitExceededError = a5,
      WorkflowService_SignalWorkflowExecution_Result.ClientVersionNotSupportedError = a6\<rparr> | Some y \<Rightarrow>
      Inr \<lparr>WorkflowService_SignalWorkflowExecution_Result.BadRequestError = b0 y,
      WorkflowService_SignalWorkflowExecution_Result.InternalServiceError = b1 y,
      WorkflowService_SignalWorkflowExecution_Result.EntityNotExistError = b2 y,
      WorkflowService_SignalWorkflowExecution_Result.ServiceBusyError = b3 y,
      WorkflowService_SignalWorkflowExecution_Result.DomainNotActiveError = b4 y,
      WorkflowService_SignalWorkflowExecution_Result.LimitExceededError = b5 y,
      WorkflowService_SignalWorkflowExecution_Result.ClientVersionNotSupportedError = b6 y\<rparr>) =
   Inr \<lparr>WorkflowService_SignalWorkflowExecution_Result.BadRequestError = (case x of None \<Rightarrow> a0 | Some
       y \<Rightarrow> b0 y), WorkflowService_SignalWorkflowExecution_Result.InternalServiceError = (case x of
       None \<Rightarrow> a1 | Some y \<Rightarrow> b1 y),
       WorkflowService_SignalWorkflowExecution_Result.EntityNotExistError = (case x of None \<Rightarrow> a2 |
       Some y \<Rightarrow> b2 y), WorkflowService_SignalWorkflowExecution_Result.ServiceBusyError = (case x of
       None \<Rightarrow> a3 | Some y \<Rightarrow> b3 y),
       WorkflowService_SignalWorkflowExecution_Result.DomainNotActiveError = (case x of None \<Rightarrow> a4 |
       Some y \<Rightarrow> b4 y), WorkflowService_SignalWorkflowExecution_Result.LimitExceededError = (case x
       of None \<Rightarrow> a5 | Some y \<Rightarrow> b5 y),
       WorkflowService_SignalWorkflowExecution_Result.ClientVersionNotSupportedError = (case x of
       None \<Rightarrow> a6 | Some y \<Rightarrow> b6 y)\<rparr>"
  by (cases x) simp_all

interpretation WorkflowService_SignalWorkflowExecution_Result: thrift_struct W
  "WorkflowService_SignalWorkflowExecution_Result_ToWire W"
      "WorkflowService_SignalWorkflowExecution_Result_FromWire W"
  WorkflowService_SignalWorkflowExecution_Result_zero "\<lambda>r.
      WorkflowService_SignalWorkflowExecution_Result_count r \<le> 1" for W
proof (rule thrift_checked_plainI)
  fix x :: WorkflowService_SignalWorkflowExecution_Result
  assume laws: "wire_laws W"
  obtain enc0 where e0: "BadRequestError_ToWire W = (\<lambda>x. Inr (enc0 x))"
      "\<And>x. wire_api.Type W (enc0 x) = TStruct"
      "\<And>x. Writable W (enc0 x) \<longleftrightarrow> (\<lambda>_. True) x"
      "\<And>x. (\<lambda>_. True) x \<Longrightarrow> BadRequestError_FromWire W (enc0 x) BadRequestError_zero = Inr x"
    by (rule BadRequestError.encoder [OF laws]) (rule that)
  obtain enc1 where e1: "InternalServiceError_ToWire W = (\<lambda>x. Inr (enc1 x))"
      "\<And>x. wire_api.Type W (enc1 x) = TStruct"
      "\<And>x. Writable W (enc1 x) \<longleftrightarrow> (\<lambda>_. True) x"
      "\<And>x. (\<lambda>_. True) x \<Longrightarrow> InternalServiceError_FromWire W (enc1 x) InternalServiceError_zero = Inr
          x"
    by (rule InternalServiceError.encoder [OF laws]) (rule that)
  obtain enc2 where e2: "EntityNotExistsError_ToWire W = (\<lambda>x. Inr (enc2 x))"
      "\<And>x. wire_api.Type W (enc2 x) = TStruct"
      "\<And>x. Writable W (enc2 x) \<longleftrightarrow> (\<lambda>_. True) x"
      "\<And>x. (\<lambda>_. True) x \<Longrightarrow> EntityNotExistsError_FromWire W (enc2 x) EntityNotExistsError_zero = Inr
          x"
    by (rule EntityNotExistsError.encoder [OF laws]) (rule that)
  obtain enc3 where e3: "ServiceBusyError_ToWire W = (\<lambda>x. Inr (enc3 x))"
      "\<And>x. wire_api.Type W (enc3 x) = TStruct"
      "\<And>x. Writable W (enc3 x) \<longleftrightarrow> (\<lambda>_. True) x"
      "\<And>x. (\<lambda>_. True) x \<Longrightarrow> ServiceBusyError_FromWire W (enc3 x) ServiceBusyError_zero = Inr x"
    by (rule ServiceBusyError.encoder [OF laws]) (rule that)
  obtain enc4 where e4: "DomainNotActiveError_ToWire W = (\<lambda>x. Inr (enc4 x))"
      "\<And>x. wire_api.Type W (enc4 x) = TStruct"
      "\<And>x. Writable W (enc4 x) \<longleftrightarrow> (\<lambda>_. True) x"
      "\<And>x. (\<lambda>_. True) x \<Longrightarrow> DomainNotActiveError_FromWire W (enc4 x) DomainNotActiveError_zero = Inr
          x"
    by (rule DomainNotActiveError.encoder [OF laws]) (rule that)
  obtain enc5 where e5: "LimitExceededError_ToWire W = (\<lambda>x. Inr (enc5 x))"
      "\<And>x. wire_api.Type W (enc5 x) = TStruct"
      "\<And>x. Writable W (enc5 x) \<longleftrightarrow> (\<lambda>_. True) x"
      "\<And>x. (\<lambda>_. True) x \<Longrightarrow> LimitExceededError_FromWire W (enc5 x) LimitExceededError_zero = Inr x"
    by (rule LimitExceededError.encoder [OF laws]) (rule that)
  obtain enc6 where e6: "ClientVersionNotSupportedError_ToWire W = (\<lambda>x. Inr (enc6 x))"
      "\<And>x. wire_api.Type W (enc6 x) = TStruct"
      "\<And>x. Writable W (enc6 x) \<longleftrightarrow> (\<lambda>_. True) x"
      "\<And>x. (\<lambda>_. True) x \<Longrightarrow> ClientVersionNotSupportedError_FromWire W (enc6 x)
          ClientVersionNotSupportedError_zero = Inr x"
    by (rule ClientVersionNotSupportedError.encoder [OF laws]) (rule that)
  let ?fs = "(((((opt_field 1 enc0 (WorkflowService_SignalWorkflowExecution_Result.BadRequestError
      x) @
      opt_field 2 enc1 (WorkflowService_SignalWorkflowExecution_Result.InternalServiceError x)) @
      opt_field 3 enc2 (WorkflowService_SignalWorkflowExecution_Result.EntityNotExistError x)) @
      opt_field 4 enc3 (WorkflowService_SignalWorkflowExecution_Result.ServiceBusyError x)) @
      opt_field 5 enc4 (WorkflowService_SignalWorkflowExecution_Result.DomainNotActiveError x)) @
      opt_field 6 enc5 (WorkflowService_SignalWorkflowExecution_Result.LimitExceededError x)) @
      opt_field 7 enc6
          (WorkflowService_SignalWorkflowExecution_Result.ClientVersionNotSupportedError x)"
  let ?check = "\<lambda>r. if 1 < WorkflowService_SignalWorkflowExecution_Result_count x then Inl (E_Errorf
      ''WorkflowService_SignalWorkflowExecution_Result should have at most one field: got %v fields'' (WorkflowService_SignalWorkflowExecution_Result_count x)) else Inr r"
  have "length ?fs = WorkflowService_SignalWorkflowExecution_Result_count x"
    by (simp add: WorkflowService_SignalWorkflowExecution_Result_count_def length_opt_field split
        del: if_split)
  then have "WorkflowService_SignalWorkflowExecution_Result_ToWire W x = ?check (NewValueStruct W
      ?fs)"
    by (simp only: WorkflowService_SignalWorkflowExecution_Result_ToWire_def put_opt_field
        and_then.simps append_Nil e0(1) e1(1) e2(1) e3(1) e4(1) e5(1) e6(1))
  moreover have "WorkflowService_SignalWorkflowExecution_Result_FromWire W (NewValueStruct W ?fs)
      WorkflowService_SignalWorkflowExecution_Result_zero = ?check x"
    by (cases x, hypsubst) (simp cong: option.case_cong split del: if_split add: codec_rules Let_def
        WorkflowService_SignalWorkflowExecution_Result_merge
      WorkflowService_SignalWorkflowExecution_Result_FromWire_def
          WorkflowService_SignalWorkflowExecution_Result_zero_def laws
      BadRequestError_Read_def
      ClientVersionNotSupportedError_Read_def
      DomainNotActiveError_Read_def
      EntityNotExistsError_Read_def
      InternalServiceError_Read_def
      LimitExceededError_Read_def
      ServiceBusyError_Read_def
      e0 e1 e2 e3 e4 e5 e6)
  ultimately show "if WorkflowService_SignalWorkflowExecution_Result_count x \<le> 1
      then \<exists>w. WorkflowService_SignalWorkflowExecution_Result_ToWire W x = Inr w \<and> wire_api.Type W w
          = TStruct \<and>
        Writable W w \<and> WorkflowService_SignalWorkflowExecution_Result_FromWire W w
            WorkflowService_SignalWorkflowExecution_Result_zero = Inr x
      else \<exists>e. WorkflowService_SignalWorkflowExecution_Result_ToWire W x = Inl e"
    by (simp add: laws codec_rules e0 e1 e2 e3 e4 e5 e6)
qed

interpretation SignalWorkflowExecution: rpc_method W
  "WorkflowService_SignalWorkflowExecution_Args_ToWire W"
      "WorkflowService_SignalWorkflowExecution_Args_FromWire W"
      WorkflowService_SignalWorkflowExecution_Args_zero "\<lambda>x. True"
  "WorkflowService_SignalWorkflowExecution_Result_ToWire W"
      "WorkflowService_SignalWorkflowExecution_Result_FromWire W"
      WorkflowService_SignalWorkflowExecution_Result_zero
  "\<lambda>r. WorkflowService_SignalWorkflowExecution_Result_count r \<le> 1" "''SignalWorkflowExecution''"
  WorkflowService_SignalWorkflowExecution_Helper_Args
      "WorkflowService_SignalWorkflowExecution_Args.SignalRequest"
  "WorkflowService_SignalWorkflowExecution_Helper_WrapResponse"
      WorkflowService_SignalWorkflowExecution_Helper_UnwrapResponse
  "\<lambda>out. out \<noteq> None" "carried_void WorkflowService_SignalWorkflowExecution_Helper_IsException" id
      "\<lambda>e. Some e"
  "handler_SignalWorkflowExecution W" "client_SignalWorkflowExecution W" for W
proof
  fix out :: "go_error option"
  assume "carried_void WorkflowService_SignalWorkflowExecution_Helper_IsException out"
  then show "case (WorkflowService_SignalWorkflowExecution_Helper_WrapResponse) out of Inl e \<Rightarrow> False
      | Inr res \<Rightarrow> (WorkflowService_SignalWorkflowExecution_Result_count res \<le> 1) \<and>
          WorkflowService_SignalWorkflowExecution_Helper_UnwrapResponse res = id out"
    by (cases out; cases "the out")
      (auto simp: WorkflowService_SignalWorkflowExecution_Helper_IsException_def
          WorkflowService_SignalWorkflowExecution_Helper_WrapResponse_def
          WorkflowService_SignalWorkflowExecution_Helper_UnwrapResponse_def
        declared_nonnil_def WorkflowService_SignalWorkflowExecution_Result_zero_def
            WorkflowService_SignalWorkflowExecution_Result_count_def elim!: present.elims)
next
  fix out :: "go_error option"
  assume "\<not> carried_void WorkflowService_SignalWorkflowExecution_Helper_IsException out"
  then show "case (WorkflowService_SignalWorkflowExecution_Helper_WrapResponse) out of Inl e \<Rightarrow> True
      | Inr res \<Rightarrow> \<not> (WorkflowService_SignalWorkflowExecution_Result_count res \<le> 1)"
    by (cases out; cases "the out")
      (auto simp: WorkflowService_SignalWorkflowExecution_Helper_IsException_def
          WorkflowService_SignalWorkflowExecution_Helper_WrapResponse_def declared_nonnil_def
        WorkflowService_SignalWorkflowExecution_Result_count_def
            WorkflowService_SignalWorkflowExecution_Result_zero_def split: option.splits)
qed (auto simp: WorkflowService_SignalWorkflowExecution_Helper_Args_def
    handler_SignalWorkflowExecution_def client_SignalWorkflowExecution_def
      WorkflowService_SignalWorkflowExecution_Args_enveloper_def
          WorkflowService_SignalWorkflowExecution_Result_enveloper_def
      Let_def split: sum.splits prod.splits)

section \<open>TerminateWorkflowExecution\<close>

record WorkflowService_TerminateWorkflowExecution_Args =
  TerminateRequest :: "TerminateWorkflowExecutionRequest option"

definition WorkflowService_TerminateWorkflowExecution_Args_zero ::
    WorkflowService_TerminateWorkflowExecution_Args where
  "WorkflowService_TerminateWorkflowExecution_Args_zero =
      \<lparr>WorkflowService_TerminateWorkflowExecution_Args.TerminateRequest = None\<rparr>"

definition WorkflowService_TerminateWorkflowExecution_Args_ToWire ::
  "'v wire_api \<Rightarrow> WorkflowService_TerminateWorkflowExecution_Args \<Rightarrow> go_error + 'v" where
  "WorkflowService_TerminateWorkflowExecution_Args_ToWire W v =
     and_then (put_opt 1 (TerminateWorkflowExecutionRequest_ToWire W)
         (WorkflowService_TerminateWorkflowExecution_Args.TerminateRequest v) [])
       (\<lambda>fields.
     Inr (NewValueStruct W fields))"

definition WorkflowService_TerminateWorkflowExecution_Args_FromWire ::
  "'v wire_api \<Rightarrow> 'v \<Rightarrow> WorkflowService_TerminateWorkflowExecution_Args \<Rightarrow> go_error +
      WorkflowService_TerminateWorkflowExecution_Args" where
  "WorkflowService_TerminateWorkflowExecution_Args_FromWire W w v =
     foldM (\<lambda>v (fid, fval).
       if fid = 1 then
         if wire_api.Type W fval = TStruct
         then and_then (TerminateWorkflowExecutionRequest_Read W fval) (\<lambda>x. Inr
             (v\<lparr>WorkflowService_TerminateWorkflowExecution_Args.TerminateRequest := Some x\<rparr>))
         else Inr v
       else Inr v) (GetStruct W w) v"

definition WorkflowService_TerminateWorkflowExecution_Args_enveloper ::
  "'v wire_api \<Rightarrow> WorkflowService_TerminateWorkflowExecution_Args \<Rightarrow> 'v enveloper" where
  "WorkflowService_TerminateWorkflowExecution_Args_enveloper W v =
     \<lparr>MethodName = ''TerminateWorkflowExecution'', EnvelopeType = Call, EnvelopeToWire =
         WorkflowService_TerminateWorkflowExecution_Args_ToWire W v\<rparr>"

definition WorkflowService_TerminateWorkflowExecution_Args_Equals ::
  "WorkflowService_TerminateWorkflowExecution_Args option \<Rightarrow>
      WorkflowService_TerminateWorkflowExecution_Args option \<Rightarrow> bool" where
  "WorkflowService_TerminateWorkflowExecution_Args_Equals v rhs =
     (case v of None \<Rightarrow> rhs = None
      | Some v \<Rightarrow> (case rhs of None \<Rightarrow> False
        | Some rhs \<Rightarrow>
          if \<not> both_set_and (\<lambda>x y. TerminateWorkflowExecutionRequest_Equals (Some x) (Some y))
              (WorkflowService_TerminateWorkflowExecution_Args.TerminateRequest v)
              (WorkflowService_TerminateWorkflowExecution_Args.TerminateRequest rhs) then False else
          True))"

lemma WorkflowService_TerminateWorkflowExecution_Args_Equals_iff [simp]:
    "WorkflowService_TerminateWorkflowExecution_Args_Equals x y \<longleftrightarrow> x = y"
  by (cases x; cases y) (auto simp: WorkflowService_TerminateWorkflowExecution_Args_Equals_def)

record WorkflowService_TerminateWorkflowExecution_Result =
  BadRequestError :: "BadRequestError option"
  InternalServiceError :: "InternalServiceError option"
  EntityNotExistError :: "EntityNotExistsError option"
  ServiceBusyError :: "ServiceBusyError option"
  DomainNotActiveError :: "DomainNotActiveError option"
  LimitExceededError :: "LimitExceededError option"
  ClientVersionNotSupportedError :: "ClientVersionNotSupportedError option"

definition WorkflowService_TerminateWorkflowExecution_Result_count ::
    "WorkflowService_TerminateWorkflowExecution_Result \<Rightarrow> nat" where
  "WorkflowService_TerminateWorkflowExecution_Result_count v =
     (if WorkflowService_TerminateWorkflowExecution_Result.BadRequestError v \<noteq> None then 1 else 0) +
     (if WorkflowService_TerminateWorkflowExecution_Result.InternalServiceError v \<noteq> None then 1 else
         0) +
     (if WorkflowService_TerminateWorkflowExecution_Result.EntityNotExistError v \<noteq> None then 1 else
         0) +
     (if WorkflowService_TerminateWorkflowExecution_Result.ServiceBusyError v \<noteq> None then 1 else 0)
         +
     (if WorkflowService_TerminateWorkflowExecution_Result.DomainNotActiveError v \<noteq> None then 1 else
         0) +
     (if WorkflowService_TerminateWorkflowExecution_Result.LimitExceededError v \<noteq> None then 1 else
         0) +
     (if WorkflowService_TerminateWorkflowExecution_Result.ClientVersionNotSupportedError v \<noteq> None
         then 1 else 0)"

definition WorkflowService_TerminateWorkflowExecution_Result_zero ::
    WorkflowService_TerminateWorkflowExecution_Result where
  "WorkflowService_TerminateWorkflowExecution_Result_zero =
      \<lparr>WorkflowService_TerminateWorkflowExecution_Result.BadRequestError = None,
      WorkflowService_TerminateWorkflowExecution_Result.InternalServiceError = None,
      WorkflowService_TerminateWorkflowExecution_Result.EntityNotExistError = None,
      WorkflowService_TerminateWorkflowExecution_Result.ServiceBusyError = None,
      WorkflowService_TerminateWorkflowExecution_Result.DomainNotActiveError = None,
      WorkflowService_TerminateWorkflowExecution_Result.LimitExceededError = None,
      WorkflowService_TerminateWorkflowExecution_Result.ClientVersionNotSupportedError = None\<rparr>"

definition WorkflowService_TerminateWorkflowExecution_Result_ToWire ::
  "'v wire_api \<Rightarrow> WorkflowService_TerminateWorkflowExecution_Result \<Rightarrow> go_error + 'v" where
  "WorkflowService_TerminateWorkflowExecution_Result_ToWire W v =
     and_then (put_opt 1 (BadRequestError_ToWire W)
         (WorkflowService_TerminateWorkflowExecution_Result.BadRequestError v) [])
       (\<lambda>fields.
     and_then (put_opt 2 (InternalServiceError_ToWire W)
         (WorkflowService_TerminateWorkflowExecution_Result.InternalServiceError v) fields)
       (\<lambda>fields.
     and_then (put_opt 3 (EntityNotExistsError_ToWire W)
         (WorkflowService_TerminateWorkflowExecution_Result.EntityNotExistError v) fields)
       (\<lambda>fields.
     and_then (put_opt 4 (ServiceBusyError_ToWire W)
         (WorkflowService_TerminateWorkflowExecution_Result.ServiceBusyError v) fields)
       (\<lambda>fields.
     and_then (put_opt 5 (DomainNotActiveError_ToWire W)
         (WorkflowService_TerminateWorkflowExecution_Result.DomainNotActiveError v) fields)
       (\<lambda>fields.
     and_then (put_opt 6 (LimitExceededError_ToWire W)
         (WorkflowService_TerminateWorkflowExecution_Result.LimitExceededError v) fields)
       (\<lambda>fields.
     and_then (put_opt 7 (ClientVersionNotSupportedError_ToWire W)
         (WorkflowService_TerminateWorkflowExecution_Result.ClientVersionNotSupportedError v)
         fields)
       (\<lambda>fields.
     if 1 < length fields
     then Inl (E_Errorf
         ''WorkflowService_TerminateWorkflowExecution_Result should have at most one field: got %v fields'' (length fields))
     else Inr (NewValueStruct W fields))))))))"

definition WorkflowService_TerminateWorkflowExecution_Result_FromWire ::
  "'v wire_api \<Rightarrow> 'v \<Rightarrow> WorkflowService_TerminateWorkflowExecution_Result \<Rightarrow> go_error +
      WorkflowService_TerminateWorkflowExecution_Result" where
  "WorkflowService_TerminateWorkflowExecution_Result_FromWire W w v =
     and_then (foldM (\<lambda>v (fid, fval).
       if fid = 1 then
         if wire_api.Type W fval = TStruct
         then and_then (BadRequestError_Read W fval) (\<lambda>x. Inr
             (v\<lparr>WorkflowService_TerminateWorkflowExecution_Result.BadRequestError := Some x\<rparr>))
         else Inr v
       else if fid = 2 then
         if wire_api.Type W fval = TStruct
         then and_then (InternalServiceError_Read W fval) (\<lambda>x. Inr
             (v\<lparr>WorkflowService_TerminateWorkflowExecution_Result.InternalServiceError := Some x\<rparr>))
         else Inr v
       else if fid = 3 then
         if wire_api.Type W fval = TStruct
         then and_then (EntityNotExistsError_Read W fval) (\<lambda>x. Inr
             (v\<lparr>WorkflowService_TerminateWorkflowExecution_Result.EntityNotExistError := Some x\<rparr>))
         else Inr v
       else if fid = 4 then
         if wire_api.Type W fval = TStruct
         then and_then (ServiceBusyError_Read W fval) (\<lambda>x. Inr
             (v\<lparr>WorkflowService_TerminateWorkflowExecution_Result.ServiceBusyError := Some x\<rparr>))
         else Inr v
       else if fid = 5 then
         if wire_api.Type W fval = TStruct
         then and_then (DomainNotActiveError_Read W fval) (\<lambda>x. Inr
             (v\<lparr>WorkflowService_TerminateWorkflowExecution_Result.DomainNotActiveError := Some x\<rparr>))
         else Inr v
       else if fid = 6 then
         if wire_api.Type W fval = TStruct
         then and_then (LimitExceededError_Read W fval) (\<lambda>x. Inr
             (v\<lparr>WorkflowService_TerminateWorkflowExecution_Result.LimitExceededError := Some x\<rparr>))
         else Inr v
       else if fid = 7 then
         if wire_api.Type W fval = TStruct
         then and_then (ClientVersionNotSupportedError_Read W fval) (\<lambda>x. Inr
             (v\<lparr>WorkflowService_TerminateWorkflowExecution_Result.ClientVersionNotSupportedError :=
             Some x\<rparr>))
         else Inr v
       else Inr v) (GetStruct W w) v) (\<lambda>v.
     let count = WorkflowService_TerminateWorkflowExecution_Result_count v in
     if 1 < count
     then Inl (E_Errorf
         ''WorkflowService_TerminateWorkflowExecution_Result should have at most one field: got %v fields'' count)
     else Inr v)"

definition WorkflowService_TerminateWorkflowExecution_Result_enveloper ::
  "'v wire_api \<Rightarrow> WorkflowService_TerminateWorkflowExecution_Result \<Rightarrow> 'v enveloper" where
  "WorkflowService_TerminateWorkflowExecution_Result_enveloper W v =
     \<lparr>MethodName = ''TerminateWorkflowExecution'', EnvelopeType = Reply, EnvelopeToWire =
         WorkflowService_TerminateWorkflowExecution_Result_ToWire W v\<rparr>"

definition WorkflowService_TerminateWorkflowExecution_Result_Equals ::
  "WorkflowService_TerminateWorkflowExecution_Result option \<Rightarrow>
      WorkflowService_TerminateWorkflowExecution_Result option \<Rightarrow> bool" where
  "WorkflowService_TerminateWorkflowExecution_Result_Equals v rhs =
     (case v of None \<Rightarrow> rhs = None
      | Some v \<Rightarrow> (case rhs of None \<Rightarrow> False
        | Some rhs \<Rightarrow>
          if \<not> both_set_and (\<lambda>x y. BadRequestError_Equals (Some x) (Some y))
              (WorkflowService_TerminateWorkflowExecution_Result.BadRequestError v)
              (WorkflowService_TerminateWorkflowExecution_Result.BadRequestError rhs) then False
              else
          if \<not> both_set_and (\<lambda>x y. InternalServiceError_Equals (Some x) (Some y))
              (WorkflowService_TerminateWorkflowExecution_Result.InternalServiceError v)
              (WorkflowService_TerminateWorkflowExecution_Result.InternalServiceError rhs) then
              False else
          if \<not> both_set_and (\<lambda>x y. EntityNotExistsError_Equals (Some x) (Some y))
              (WorkflowService_TerminateWorkflowExecution_Result.EntityNotExistError v)
              (WorkflowService_TerminateWorkflowExecution_Result.EntityNotExistError rhs) then False
              else
          if \<not> both_set_and (\<lambda>x y. ServiceBusyError_Equals (Some x) (Some y))
              (WorkflowService_TerminateWorkflowExecution_Result.ServiceBusyError v)
              (WorkflowService_TerminateWorkflowExecution_Result.ServiceBusyError rhs) then False
              else
          if \<not> both_set_and (\<lambda>x y. DomainNotActiveError_Equals (Some x) (Some y))
              (WorkflowService_TerminateWorkflowExecution_Result.DomainNotActiveError v)
              (WorkflowService_TerminateWorkflowExecution_Result.DomainNotActiveError rhs) then
              False else
          if \<not> both_set_and (\<lambda>x y. LimitExceededError_Equals (Some x) (Some y))
              (WorkflowService_TerminateWorkflowExecution_Result.LimitExceededError v)
              (WorkflowService_TerminateWorkflowExecution_Result.LimitExceededError rhs) then False
              else
          if \<not> both_set_and (\<lambda>x y. ClientVersionNotSupportedError_Equals (Some x) (Some y))
              (WorkflowService_TerminateWorkflowExecution_Result.ClientVersionNotSupportedError v)
              (WorkflowService_TerminateWorkflowExecution_Result.ClientVersionNotSupportedError rhs)
              then False else
          True))"

lemma WorkflowService_TerminateWorkflowExecution_Result_Equals_iff [simp]:
    "WorkflowService_TerminateWorkflowExecution_Result_Equals x y \<longleftrightarrow> x = y"
  by (cases x; cases y) (simp_all add: WorkflowService_TerminateWorkflowExecution_Result_Equals_def
      if_not_False, fastforce intro: WorkflowService_TerminateWorkflowExecution_Result.equality)

definition WorkflowService_TerminateWorkflowExecution_Helper_Args ::
    "TerminateWorkflowExecutionRequest option \<Rightarrow> WorkflowService_TerminateWorkflowExecution_Args"
    where
  "WorkflowService_TerminateWorkflowExecution_Helper_Args r =
      \<lparr>WorkflowService_TerminateWorkflowExecution_Args.TerminateRequest = r\<rparr>"

definition WorkflowService_TerminateWorkflowExecution_Helper_IsException :: "go_error \<Rightarrow> bool" where
  "WorkflowService_TerminateWorkflowExecution_Helper_IsException err =
     (case err of
        E_BadRequestError _ \<Rightarrow> True
      | E_InternalServiceError _ \<Rightarrow> True
      | E_EntityNotExistsError _ \<Rightarrow> True
      | E_ServiceBusyError _ \<Rightarrow> True
      | E_DomainNotActiveError _ \<Rightarrow> True
      | E_LimitExceededError _ \<Rightarrow> True
      | E_ClientVersionNotSupportedError _ \<Rightarrow> True
      | _ \<Rightarrow> False)"

definition WorkflowService_TerminateWorkflowExecution_Helper_WrapResponse ::
  "go_error option \<Rightarrow> go_error + WorkflowService_TerminateWorkflowExecution_Result" where
  "WorkflowService_TerminateWorkflowExecution_Helper_WrapResponse err =
     (case err of None \<Rightarrow> Inr WorkflowService_TerminateWorkflowExecution_Result_zero
      | Some err \<Rightarrow> (case err of
          E_BadRequestError e \<Rightarrow> (case e of
              None \<Rightarrow> Inl (E_New
                  ''WrapResponse received non-nil error type with nil value for WorkflowService_TerminateWorkflowExecution_Result.BadRequestError'')
            | Some e \<Rightarrow> Inr
                (WorkflowService_TerminateWorkflowExecution_Result_zero\<lparr>WorkflowService_TerminateWorkflowExecution_Result.BadRequestError := Some e\<rparr>))
        | E_InternalServiceError e \<Rightarrow> (case e of
              None \<Rightarrow> Inl (E_New
                  ''WrapResponse received non-nil error type with nil value for WorkflowService_TerminateWorkflowExecution_Result.InternalServiceError'')
            | Some e \<Rightarrow> Inr
                (WorkflowService_TerminateWorkflowExecution_Result_zero\<lparr>WorkflowService_TerminateWorkflowExecution_Result.InternalServiceError := Some e\<rparr>))
        | E_EntityNotExistsError e \<Rightarrow> (case e of
              None \<Rightarrow> Inl (E_New
                  ''WrapResponse received non-nil error type with nil value for WorkflowService_TerminateWorkflowExecution_Result.EntityNotExistError'')
            | Some e \<Rightarrow> Inr
                (WorkflowService_TerminateWorkflowExecution_Result_zero\<lparr>WorkflowService_TerminateWorkflowExecution_Result.EntityNotExistError := Some e\<rparr>))
        | E_ServiceBusyError e \<Rightarrow> (case e of
              None \<Rightarrow> Inl (E_New
                  ''WrapResponse received non-nil error type with nil value for WorkflowService_TerminateWorkflowExecution_Result.ServiceBusyError'')
            | Some e \<Rightarrow> Inr
                (WorkflowService_TerminateWorkflowExecution_Result_zero\<lparr>WorkflowService_TerminateWorkflowExecution_Result.ServiceBusyError := Some e\<rparr>))
        | E_DomainNotActiveError e \<Rightarrow> (case e of
              None \<Rightarrow> Inl (E_New
                  ''WrapResponse received non-nil error type with nil value for WorkflowService_TerminateWorkflowExecution_Result.DomainNotActiveError'')
            | Some e \<Rightarrow> Inr
                (WorkflowService_TerminateWorkflowExecution_Result_zero\<lparr>WorkflowService_TerminateWorkflowExecution_Result.DomainNotActiveError := Some e\<rparr>))
        | E_LimitExceededError e \<Rightarrow> (case e of
              None \<Rightarrow> Inl (E_New
                  ''WrapResponse received non-nil error type with nil value for WorkflowService_TerminateWorkflowExecution_Result.LimitExceededError'')
            | Some e \<Rightarrow> Inr
                (WorkflowService_TerminateWorkflowExecution_Result_zero\<lparr>WorkflowService_TerminateWorkflowExecution_Result.LimitExceededError := Some e\<rparr>))
        | E_ClientVersionNotSupportedError e \<Rightarrow> (case e of
              None \<Rightarrow> Inl (E_New
                  ''WrapResponse received non-nil error type with nil value for WorkflowService_TerminateWorkflowExecution_Result.ClientVersionNotSupportedError'')
            | Some e \<Rightarrow> Inr
                (WorkflowService_TerminateWorkflowExecution_Result_zero\<lparr>WorkflowService_TerminateWorkflowExecution_Result.ClientVersionNotSupportedError := Some e\<rparr>))
        | _ \<Rightarrow> Inl err))"

definition WorkflowService_TerminateWorkflowExecution_Helper_UnwrapResponse ::
  "WorkflowService_TerminateWorkflowExecution_Result \<Rightarrow> go_error option" where
  "WorkflowService_TerminateWorkflowExecution_Helper_UnwrapResponse result =
    (if WorkflowService_TerminateWorkflowExecution_Result.BadRequestError result \<noteq> None then Some
        (E_BadRequestError (WorkflowService_TerminateWorkflowExecution_Result.BadRequestError
        result)) else
     if WorkflowService_TerminateWorkflowExecution_Result.InternalServiceError result \<noteq> None then
         Some (E_InternalServiceError
         (WorkflowService_TerminateWorkflowExecution_Result.InternalServiceError result)) else
     if WorkflowService_TerminateWorkflowExecution_Result.EntityNotExistError result \<noteq> None then
         Some (E_EntityNotExistsError
         (WorkflowService_TerminateWorkflowExecution_Result.EntityNotExistError result)) else
     if WorkflowService_TerminateWorkflowExecution_Result.ServiceBusyError result \<noteq> None then Some
         (E_ServiceBusyError (WorkflowService_TerminateWorkflowExecution_Result.ServiceBusyError
         result)) else
     if WorkflowService_TerminateWorkflowExecution_Result.DomainNotActiveError result \<noteq> None then
         Some (E_DomainNotActiveError
         (WorkflowService_TerminateWorkflowExecution_Result.DomainNotActiveError result)) else
     if WorkflowService_TerminateWorkflowExecution_Result.LimitExceededError result \<noteq> None then Some
         (E_LimitExceededError (WorkflowService_TerminateWorkflowExecution_Result.LimitExceededError
         result)) else
     if WorkflowService_TerminateWorkflowExecution_Result.ClientVersionNotSupportedError result \<noteq>
         None then Some (E_ClientVersionNotSupportedError
         (WorkflowService_TerminateWorkflowExecution_Result.ClientVersionNotSupportedError result))
         else
     None)"

definition handler_TerminateWorkflowExecution ::
  "'v wire_api \<Rightarrow> ('ctx \<Rightarrow> TerminateWorkflowExecutionRequest option \<Rightarrow> go_error option) \<Rightarrow>
   ('ctx, 'v) unary_handler" where
  "handler_TerminateWorkflowExecution W impl ctx body =
     (case WorkflowService_TerminateWorkflowExecution_Args_FromWire W body
         WorkflowService_TerminateWorkflowExecution_Args_zero of
      Inl err \<Rightarrow> (no_response, Some err)
    | Inr args \<Rightarrow>
      let err = impl ctx (WorkflowService_TerminateWorkflowExecution_Args.TerminateRequest args);
          hadError = (err \<noteq> None)
      in case WorkflowService_TerminateWorkflowExecution_Helper_WrapResponse err of
           Inl err \<Rightarrow> (no_response, Some err)
         | Inr result \<Rightarrow>
             (\<lparr>Body = Some (WorkflowService_TerminateWorkflowExecution_Result_enveloper W result),
               IsApplicationError = hadError\<rparr>, None))"

definition client_TerminateWorkflowExecution ::
  "'v wire_api \<Rightarrow> ('ctx, 'v) thrift_client \<Rightarrow> 'ctx \<Rightarrow> TerminateWorkflowExecutionRequest option \<Rightarrow>
   go_error option" where
  "client_TerminateWorkflowExecution W call ctx r =
     (let args = WorkflowService_TerminateWorkflowExecution_Helper_Args r in
      case call ctx (WorkflowService_TerminateWorkflowExecution_Args_enveloper W args) of
        Inl e \<Rightarrow> Some e
      | Inr body \<Rightarrow>
          (case WorkflowService_TerminateWorkflowExecution_Result_FromWire W body
              WorkflowService_TerminateWorkflowExecution_Result_zero of
             Inl e \<Rightarrow> Some e
           | Inr result \<Rightarrow> WorkflowService_TerminateWorkflowExecution_Helper_UnwrapResponse result))"

lemma WorkflowService_TerminateWorkflowExecution_Args_merge:
  "(case x of None \<Rightarrow> Inr \<lparr>WorkflowService_TerminateWorkflowExecution_Args.TerminateRequest = a0\<rparr> |
      Some y \<Rightarrow> Inr \<lparr>WorkflowService_TerminateWorkflowExecution_Args.TerminateRequest = b0 y\<rparr>) =
   Inr \<lparr>WorkflowService_TerminateWorkflowExecution_Args.TerminateRequest = (case x of None \<Rightarrow> a0 |
       Some y \<Rightarrow> b0 y)\<rparr>"
  by (cases x) simp_all

interpretation WorkflowService_TerminateWorkflowExecution_Args: thrift_struct W
  "WorkflowService_TerminateWorkflowExecution_Args_ToWire W"
      "WorkflowService_TerminateWorkflowExecution_Args_FromWire W"
  WorkflowService_TerminateWorkflowExecution_Args_zero "\<lambda>x. True" for W
proof (rule thrift_structI)
  fix x :: WorkflowService_TerminateWorkflowExecution_Args
  assume laws: "wire_laws W"
  obtain enc0 where e0: "TerminateWorkflowExecutionRequest_ToWire W = (\<lambda>x. Inr (enc0 x))"
      "\<And>x. wire_api.Type W (enc0 x) = TStruct"
      "\<And>x. Writable W (enc0 x) \<longleftrightarrow> (\<lambda>_. True) x"
      "\<And>x. (\<lambda>_. True) x \<Longrightarrow> TerminateWorkflowExecutionRequest_FromWire W (enc0 x)
          TerminateWorkflowExecutionRequest_zero = Inr x"
    by (rule TerminateWorkflowExecutionRequest.encoder [OF laws]) (rule that)
  show "\<exists>w. WorkflowService_TerminateWorkflowExecution_Args_ToWire W x = Inr w \<and> wire_api.Type W w =
      TStruct \<and>
      (Writable W w \<longleftrightarrow> True) \<and> (True \<longrightarrow> WorkflowService_TerminateWorkflowExecution_Args_FromWire W w
          WorkflowService_TerminateWorkflowExecution_Args_zero = Inr x)"
    by (cases x) (simp cong: option.case_cong add: codec_rules
        WorkflowService_TerminateWorkflowExecution_Args_merge
        WorkflowService_TerminateWorkflowExecution_Args_ToWire_def
        WorkflowService_TerminateWorkflowExecution_Args_FromWire_def
      WorkflowService_TerminateWorkflowExecution_Args_zero_def
          TerminateWorkflowExecutionRequest_Read_def if_set_def laws e0)
qed

lemma WorkflowService_TerminateWorkflowExecution_Result_merge:
  "(case x of None \<Rightarrow> Inr \<lparr>WorkflowService_TerminateWorkflowExecution_Result.BadRequestError = a0,
      WorkflowService_TerminateWorkflowExecution_Result.InternalServiceError = a1,
      WorkflowService_TerminateWorkflowExecution_Result.EntityNotExistError = a2,
      WorkflowService_TerminateWorkflowExecution_Result.ServiceBusyError = a3,
      WorkflowService_TerminateWorkflowExecution_Result.DomainNotActiveError = a4,
      WorkflowService_TerminateWorkflowExecution_Result.LimitExceededError = a5,
      WorkflowService_TerminateWorkflowExecution_Result.ClientVersionNotSupportedError = a6\<rparr> | Some
      y \<Rightarrow> Inr \<lparr>WorkflowService_TerminateWorkflowExecution_Result.BadRequestError = b0 y,
      WorkflowService_TerminateWorkflowExecution_Result.InternalServiceError = b1 y,
      WorkflowService_TerminateWorkflowExecution_Result.EntityNotExistError = b2 y,
      WorkflowService_TerminateWorkflowExecution_Result.ServiceBusyError = b3 y,
      WorkflowService_TerminateWorkflowExecution_Result.DomainNotActiveError = b4 y,
      WorkflowService_TerminateWorkflowExecution_Result.LimitExceededError = b5 y,
      WorkflowService_TerminateWorkflowExecution_Result.ClientVersionNotSupportedError = b6 y\<rparr>) =
   Inr \<lparr>WorkflowService_TerminateWorkflowExecution_Result.BadRequestError = (case x of None \<Rightarrow> a0 |
       Some y \<Rightarrow> b0 y), WorkflowService_TerminateWorkflowExecution_Result.InternalServiceError =
       (case x of None \<Rightarrow> a1 | Some y \<Rightarrow> b1 y),
       WorkflowService_TerminateWorkflowExecution_Result.EntityNotExistError = (case x of None \<Rightarrow> a2
       | Some y \<Rightarrow> b2 y), WorkflowService_TerminateWorkflowExecution_Result.ServiceBusyError = (case
       x of None \<Rightarrow> a3 | Some y \<Rightarrow> b3 y),
       WorkflowService_TerminateWorkflowExecution_Result.DomainNotActiveError = (case x of None \<Rightarrow> a4
       | Some y \<Rightarrow> b4 y), WorkflowService_TerminateWorkflowExecution_Result.LimitExceededError =
       (case x of None \<Rightarrow> a5 | Some y \<Rightarrow> b5 y),
       WorkflowService_TerminateWorkflowExecution_Result.ClientVersionNotSupportedError = (case x of
       None \<Rightarrow> a6 | Some y \<Rightarrow> b6 y)\<rparr>"
  by (cases x) simp_all

interpretation WorkflowService_TerminateWorkflowExecution_Result: thrift_struct W
  "WorkflowService_TerminateWorkflowExecution_Result_ToWire W"
      "WorkflowService_TerminateWorkflowExecution_Result_FromWire W"
  WorkflowService_TerminateWorkflowExecution_Result_zero "\<lambda>r.
      WorkflowService_TerminateWorkflowExecution_Result_count r \<le> 1" for W
proof (rule thrift_checked_plainI)
  fix x :: WorkflowService_TerminateWorkflowExecution_Result
  assume laws: "wire_laws W"
  obtain enc0 where e0: "BadRequestError_ToWire W = (\<lambda>x. Inr (enc0 x))"
      "\<And>x. wire_api.Type W (enc0 x) = TStruct"
      "\<And>x. Writable W (enc0 x) \<longleftrightarrow> (\<lambda>_. True) x"
      "\<And>x. (\<lambda>_. True) x \<Longrightarrow> BadRequestError_FromWire W (enc0 x) BadRequestError_zero = Inr x"
    by (rule BadRequestError.encoder [OF laws]) (rule that)
  obtain enc1 where e1: "InternalServiceError_ToWire W = (\<lambda>x. Inr (enc1 x))"
      "\<And>x. wire_api.Type W (enc1 x) = TStruct"
      "\<And>x. Writable W (enc1 x) \<longleftrightarrow> (\<lambda>_. True) x"
      "\<And>x. (\<lambda>_. True) x \<Longrightarrow> InternalServiceError_FromWire W (enc1 x) InternalServiceError_zero = Inr
          x"
    by (rule InternalServiceError.encoder [OF laws]) (rule that)
  obtain enc2 where e2: "EntityNotExistsError_ToWire W = (\<lambda>x. Inr (enc2 x))"
      "\<And>x. wire_api.Type W (enc2 x) = TStruct"
      "\<And>x. Writable W (enc2 x) \<longleftrightarrow> (\<lambda>_. True) x"
      "\<And>x. (\<lambda>_. True) x \<Longrightarrow> EntityNotExistsError_FromWire W (enc2 x) EntityNotExistsError_zero = Inr
          x"
    by (rule EntityNotExistsError.encoder [OF laws]) (rule that)
  obtain enc3 where e3: "ServiceBusyError_ToWire W = (\<lambda>x. Inr (enc3 x))"
      "\<And>x. wire_api.Type W (enc3 x) = TStruct"
      "\<And>x. Writable W (enc3 x) \<longleftrightarrow> (\<lambda>_. True) x"
      "\<And>x. (\<lambda>_. True) x \<Longrightarrow> ServiceBusyError_FromWire W (enc3 x) ServiceBusyError_zero = Inr x"
    by (rule ServiceBusyError.encoder [OF laws]) (rule that)
  obtain enc4 where e4: "DomainNotActiveError_ToWire W = (\<lambda>x. Inr (enc4 x))"
      "\<And>x. wire_api.Type W (enc4 x) = TStruct"
      "\<And>x. Writable W (enc4 x) \<longleftrightarrow> (\<lambda>_. True) x"
      "\<And>x. (\<lambda>_. True) x \<Longrightarrow> DomainNotActiveError_FromWire W (enc4 x) DomainNotActiveError_zero = Inr
          x"
    by (rule DomainNotActiveError.encoder [OF laws]) (rule that)
  obtain enc5 where e5: "LimitExceededError_ToWire W = (\<lambda>x. Inr (enc5 x))"
      "\<And>x. wire_api.Type W (enc5 x) = TStruct"
      "\<And>x. Writable W (enc5 x) \<longleftrightarrow> (\<lambda>_. True) x"
      "\<And>x. (\<lambda>_. True) x \<Longrightarrow> LimitExceededError_FromWire W (enc5 x) LimitExceededError_zero = Inr x"
    by (rule LimitExceededError.encoder [OF laws]) (rule that)
  obtain enc6 where e6: "ClientVersionNotSupportedError_ToWire W = (\<lambda>x. Inr (enc6 x))"
      "\<And>x. wire_api.Type W (enc6 x) = TStruct"
      "\<And>x. Writable W (enc6 x) \<longleftrightarrow> (\<lambda>_. True) x"
      "\<And>x. (\<lambda>_. True) x \<Longrightarrow> ClientVersionNotSupportedError_FromWire W (enc6 x)
          ClientVersionNotSupportedError_zero = Inr x"
    by (rule ClientVersionNotSupportedError.encoder [OF laws]) (rule that)
  let ?fs = "(((((opt_field 1 enc0
      (WorkflowService_TerminateWorkflowExecution_Result.BadRequestError x) @
      opt_field 2 enc1 (WorkflowService_TerminateWorkflowExecution_Result.InternalServiceError x)) @
      opt_field 3 enc2 (WorkflowService_TerminateWorkflowExecution_Result.EntityNotExistError x)) @
      opt_field 4 enc3 (WorkflowService_TerminateWorkflowExecution_Result.ServiceBusyError x)) @
      opt_field 5 enc4 (WorkflowService_TerminateWorkflowExecution_Result.DomainNotActiveError x)) @
      opt_field 6 enc5 (WorkflowService_TerminateWorkflowExecution_Result.LimitExceededError x)) @
      opt_field 7 enc6
          (WorkflowService_TerminateWorkflowExecution_Result.ClientVersionNotSupportedError x)"
  let ?check = "\<lambda>r. if 1 < WorkflowService_TerminateWorkflowExecution_Result_count x then Inl
      (E_Errorf
      ''WorkflowService_TerminateWorkflowExecution_Result should have at most one field: got %v fields'' (WorkflowService_TerminateWorkflowExecution_Result_count x)) else Inr r"
  have "length ?fs = WorkflowService_TerminateWorkflowExecution_Result_count x"
    by (simp add: WorkflowService_TerminateWorkflowExecution_Result_count_def length_opt_field split
        del: if_split)
  then have "WorkflowService_TerminateWorkflowExecution_Result_ToWire W x = ?check (NewValueStruct W
      ?fs)"
    by (simp only: WorkflowService_TerminateWorkflowExecution_Result_ToWire_def put_opt_field
        and_then.simps append_Nil e0(1) e1(1) e2(1) e3(1) e4(1) e5(1) e6(1))
  moreover have "WorkflowService_TerminateWorkflowExecution_Result_FromWire W (NewValueStruct W ?fs)
      WorkflowService_TerminateWorkflowExecution_Result_zero = ?check x"
    by (cases x, hypsubst) (simp cong: option.case_cong split del: if_split add: codec_rules Let_def
        WorkflowService_TerminateWorkflowExecution_Result_merge
      WorkflowService_TerminateWorkflowExecution_Result_FromWire_def
          WorkflowService_TerminateWorkflowExecution_Result_zero_def laws
      BadRequestError_Read_def
      ClientVersionNotSupportedError_Read_def
      DomainNotActiveError_Read_def
      EntityNotExistsError_Read_def
      InternalServiceError_Read_def
      LimitExceededError_Read_def
      ServiceBusyError_Read_def
      e0 e1 e2 e3 e4 e5 e6)
  ultimately show "if WorkflowService_TerminateWorkflowExecution_Result_count x \<le> 1
      then \<exists>w. WorkflowService_TerminateWorkflowExecution_Result_ToWire W x = Inr w \<and> wire_api.Type
          W w = TStruct \<and>
        Writable W w \<and> WorkflowService_TerminateWorkflowExecution_Result_FromWire W w
            WorkflowService_TerminateWorkflowExecution_Result_zero = Inr x
      else \<exists>e. WorkflowService_TerminateWorkflowExecution_Result_ToWire W x = Inl e"
    by (simp add: laws codec_rules e0 e1 e2 e3 e4 e5 e6)
qed

interpretation TerminateWorkflowExecution: rpc_method W
  "WorkflowService_TerminateWorkflowExecution_Args_ToWire W"
      "WorkflowService_TerminateWorkflowExecution_Args_FromWire W"
      WorkflowService_TerminateWorkflowExecution_Args_zero "\<lambda>x. True"
  "WorkflowService_TerminateWorkflowExecution_Result_ToWire W"
      "WorkflowService_TerminateWorkflowExecution_Result_FromWire W"
      WorkflowService_TerminateWorkflowExecution_Result_zero
  "\<lambda>r. WorkflowService_TerminateWorkflowExecution_Result_count r \<le> 1"
      "''TerminateWorkflowExecution''"
  WorkflowService_TerminateWorkflowExecution_Helper_Args
      "WorkflowService_TerminateWorkflowExecution_Args.TerminateRequest"
  "WorkflowService_TerminateWorkflowExecution_Helper_WrapResponse"
      WorkflowService_TerminateWorkflowExecution_Helper_UnwrapResponse
  "\<lambda>out. out \<noteq> None" "carried_void WorkflowService_TerminateWorkflowExecution_Helper_IsException" id
      "\<lambda>e. Some e"
  "handler_TerminateWorkflowExecution W" "client_TerminateWorkflowExecution W" for W
proof
  fix out :: "go_error option"
  assume "carried_void WorkflowService_TerminateWorkflowExecution_Helper_IsException out"
  then show "case (WorkflowService_TerminateWorkflowExecution_Helper_WrapResponse) out of Inl e \<Rightarrow>
      False
      | Inr res \<Rightarrow> (WorkflowService_TerminateWorkflowExecution_Result_count res \<le> 1) \<and>
          WorkflowService_TerminateWorkflowExecution_Helper_UnwrapResponse res = id out"
    by (cases out; cases "the out")
      (auto simp: WorkflowService_TerminateWorkflowExecution_Helper_IsException_def
          WorkflowService_TerminateWorkflowExecution_Helper_WrapResponse_def
          WorkflowService_TerminateWorkflowExecution_Helper_UnwrapResponse_def
        declared_nonnil_def WorkflowService_TerminateWorkflowExecution_Result_zero_def
            WorkflowService_TerminateWorkflowExecution_Result_count_def elim!: present.elims)
next
  fix out :: "go_error option"
  assume "\<not> carried_void WorkflowService_TerminateWorkflowExecution_Helper_IsException out"
  then show "case (WorkflowService_TerminateWorkflowExecution_Helper_WrapResponse) out of Inl e \<Rightarrow>
      True
      | Inr res \<Rightarrow> \<not> (WorkflowService_TerminateWorkflowExecution_Result_count res \<le> 1)"
    by (cases out; cases "the out")
      (auto simp: WorkflowService_TerminateWorkflowExecution_Helper_IsException_def
          WorkflowService_TerminateWorkflowExecution_Helper_WrapResponse_def declared_nonnil_def
        WorkflowService_TerminateWorkflowExecution_Result_count_def
            WorkflowService_TerminateWorkflowExecution_Result_zero_def split: option.splits)
qed (auto simp: WorkflowService_TerminateWorkflowExecution_Helper_Args_def
    handler_TerminateWorkflowExecution_def client_TerminateWorkflowExecution_def
      WorkflowService_TerminateWorkflowExecution_Args_enveloper_def
          WorkflowService_TerminateWorkflowExecution_Result_enveloper_def
      Let_def split: sum.splits prod.splits)

section \<open>RequestCancelWorkflowExecution\<close>

record WorkflowService_RequestCancelWorkflowExecution_Args =
  CancelRequest :: "RequestCancelWorkflowExecutionRequest option"

definition WorkflowService_RequestCancelWorkflowExecution_Args_zero ::
    WorkflowService_RequestCancelWorkflowExecution_Args where
  "WorkflowService_RequestCancelWorkflowExecution_Args_zero =
      \<lparr>WorkflowService_RequestCancelWorkflowExecution_Args.CancelRequest = None\<rparr>"

definition WorkflowService_RequestCancelWorkflowExecution_Args_ToWire ::
  "'v wire_api \<Rightarrow> WorkflowService_RequestCancelWorkflowExecution_Args \<Rightarrow> go_error + 'v" where
  "WorkflowService_RequestCancelWorkflowExecution_Args_ToWire W v =
     and_then (put_opt 1 (RequestCancelWorkflowExecutionRequest_ToWire W)
         (WorkflowService_RequestCancelWorkflowExecution_Args.CancelRequest v) [])
       (\<lambda>fields.
     Inr (NewValueStruct W fields))"

definition WorkflowService_RequestCancelWorkflowExecution_Args_FromWire ::
  "'v wire_api \<Rightarrow> 'v \<Rightarrow> WorkflowService_RequestCancelWorkflowExecution_Args \<Rightarrow> go_error +
      WorkflowService_RequestCancelWorkflowExecution_Args" where
  "WorkflowService_RequestCancelWorkflowExecution_Args_FromWire W w v =
     foldM (\<lambda>v (fid, fval).
       if fid = 1 then
         if wire_api.Type W fval = TStruct
         then and_then (RequestCancelWorkflowExecutionRequest_Read W fval) (\<lambda>x. Inr
             (v\<lparr>WorkflowService_RequestCancelWorkflowExecution_Args.CancelRequest := Some x\<rparr>))
         else Inr v
       else Inr v) (GetStruct W w) v"

definition WorkflowService_RequestCancelWorkflowExecution_Args_enveloper ::
  "'v wire_api \<Rightarrow> WorkflowService_RequestCancelWorkflowExecution_Args \<Rightarrow> 'v enveloper" where
  "WorkflowService_RequestCancelWorkflowExecution_Args_enveloper W v =
     \<lparr>MethodName = ''RequestCancelWorkflowExecution'', EnvelopeType = Call, EnvelopeToWire =
         WorkflowService_RequestCancelWorkflowExecution_Args_ToWire W v\<rparr>"

definition WorkflowService_RequestCancelWorkflowExecution_Args_Equals ::
  "WorkflowService_RequestCancelWorkflowExecution_Args option \<Rightarrow>
      WorkflowService_RequestCancelWorkflowExecution_Args option \<Rightarrow> bool" where
  "WorkflowService_RequestCancelWorkflowExecution_Args_Equals v rhs =
     (case v of None \<Rightarrow> rhs = None
      | Some v \<Rightarrow> (case rhs of None \<Rightarrow> False
        | Some rhs \<Rightarrow>
          if \<not> both_set_and (\<lambda>x y. RequestCancelWorkflowExecutionRequest_Equals (Some x) (Some y))
              (WorkflowService_RequestCancelWorkflowExecution_Args.CancelRequest v)
              (WorkflowService_RequestCancelWorkflowExecution_Args.CancelRequest rhs) then False
              else
          True))"

lemma WorkflowService_RequestCancelWorkflowExecution_Args_Equals_iff [simp]:
    "WorkflowService_RequestCancelWorkflowExecution_Args_Equals x y \<longleftrightarrow> x = y"
  by (cases x; cases y) (auto simp: WorkflowService_RequestCancelWorkflowExecution_Args_Equals_def)

record WorkflowService_RequestCancelWorkflowExecution_Result =
  BadRequestError :: "BadRequestError option"
  InternalServiceError :: "InternalServiceError option"
  EntityNotExistError :: "EntityNotExistsError option"
  CancellationAlreadyRequestedError :: "CancellationAlreadyRequestedError option"
  ServiceBusyError :: "ServiceBusyError option"
  DomainNotActiveError :: "DomainNotActiveError option"
  LimitExceededError :: "LimitExceededError option"
  ClientVersionNotSupportedError :: "ClientVersionNotSupportedError option"

definition WorkflowService_RequestCancelWorkflowExecution_Result_count ::
    "WorkflowService_RequestCancelWorkflowExecution_Result \<Rightarrow> nat" where
  "WorkflowService_RequestCancelWorkflowExecution_Result_count v =
     (if WorkflowService_RequestCancelWorkflowExecution_Result.BadRequestError v \<noteq> None then 1 else
         0) +
     (if WorkflowService_RequestCancelWorkflowExecution_Result.InternalServiceError v \<noteq> None then 1
         else 0) +
     (if WorkflowService_RequestCancelWorkflowExecution_Result.EntityNotExistError v \<noteq> None then 1
         else 0) +
     (if WorkflowService_RequestCancelWorkflowExecution_Result.CancellationAlreadyRequestedError v \<noteq>
         None then 1 else 0) +
     (if WorkflowService_RequestCancelWorkflowExecution_Result.ServiceBusyError v \<noteq> None then 1 else
         0) +
     (if WorkflowService_RequestCancelWorkflowExecution_Result.DomainNotActiveError v \<noteq> None then 1
         else 0) +
     (if WorkflowService_RequestCancelWorkflowExecution_Result.LimitExceededError v \<noteq> None then 1
         else 0) +
     (if WorkflowService_RequestCancelWorkflowExecution_Result.ClientVersionNotSupportedError v \<noteq>
         None then 1 else 0)"

definition WorkflowService_RequestCancelWorkflowExecution_Result_zero ::
    WorkflowService_RequestCancelWorkflowExecution_Result where
  "WorkflowService_RequestCancelWorkflowExecution_Result_zero =
      \<lparr>WorkflowService_RequestCancelWorkflowExecution_Result.BadRequestError = None,
      WorkflowService_RequestCancelWorkflowExecution_Result.InternalServiceError = None,
      WorkflowService_RequestCancelWorkflowExecution_Result.EntityNotExistError = None,
      WorkflowService_RequestCancelWorkflowExecution_Result.CancellationAlreadyRequestedError =
      None, WorkflowService_RequestCancelWorkflowExecution_Result.ServiceBusyError = None,
      WorkflowService_RequestCancelWorkflowExecution_Result.DomainNotActiveError = None,
      WorkflowService_RequestCancelWorkflowExecution_Result.LimitExceededError = None,
      WorkflowService_RequestCancelWorkflowExecution_Result.ClientVersionNotSupportedError = None\<rparr>"

definition WorkflowService_RequestCancelWorkflowExecution_Result_ToWire ::
  "'v wire_api \<Rightarrow> WorkflowService_RequestCancelWorkflowExecution_Result \<Rightarrow> go_error + 'v" where
  "WorkflowService_RequestCancelWorkflowExecution_Result_ToWire W v =
     and_then (put_opt 1 (BadRequestError_ToWire W)
         (WorkflowService_RequestCancelWorkflowExecution_Result.BadRequestError v) [])
       (\<lambda>fields.
     and_then (put_opt 2 (InternalServiceError_ToWire W)
         (WorkflowService_RequestCancelWorkflowExecution_Result.InternalServiceError v) fields)
       (\<lambda>fields.
     and_then (put_opt 3 (EntityNotExistsError_ToWire W)
         (WorkflowService_RequestCancelWorkflowExecution_Result.EntityNotExistError v) fields)
       (\<lambda>fields.
     and_then (put_opt 4 (CancellationAlreadyRequestedError_ToWire W)
         (WorkflowService_RequestCancelWorkflowExecution_Result.CancellationAlreadyRequestedError v)
         fields)
       (\<lambda>fields.
     and_then (put_opt 5 (ServiceBusyError_ToWire W)
         (WorkflowService_RequestCancelWorkflowExecution_Result.ServiceBusyError v) fields)
       (\<lambda>fields.
     and_then (put_opt 6 (DomainNotActiveError_ToWire W)
         (WorkflowService_RequestCancelWorkflowExecution_Result.DomainNotActiveError v) fields)
       (\<lambda>fields.
     and_then (put_opt 7 (LimitExceededError_ToWire W)
         (WorkflowService_RequestCancelWorkflowExecution_Result.LimitExceededError v) fields)
       (\<lambda>fields.
     and_then (put_opt 8 (ClientVersionNotSupportedError_ToWire W)
         (WorkflowService_RequestCancelWorkflowExecution_Result.ClientVersionNotSupportedError v)
         fields)
       (\<lambda>fields.
     if 1 < length fields
     then Inl (E_Errorf
         ''WorkflowService_RequestCancelWorkflowExecution_Result should have at most one field: got %v fields'' (length fields))
     else Inr (NewValueStruct W fields)))))))))"

definition WorkflowService_RequestCancelWorkflowExecution_Result_FromWire ::
  "'v wire_api \<Rightarrow> 'v \<Rightarrow> WorkflowService_RequestCancelWorkflowExecution_Result \<Rightarrow> go_error +
      WorkflowService_RequestCancelWorkflowExecution_Result" where
  "WorkflowService_RequestCancelWorkflowExecution_Result_FromWire W w v =
     and_then (foldM (\<lambda>v (fid, fval).
       if fid = 1 then
         if wire_api.Type W fval = TStruct
         then and_then (BadRequestError_Read W fval) (\<lambda>x. Inr
             (v\<lparr>WorkflowService_RequestCancelWorkflowExecution_Result.BadRequestError := Some x\<rparr>))
         else Inr v
       else if fid = 2 then
         if wire_api.Type W fval = TStruct
         then and_then (InternalServiceError_Read W fval) (\<lambda>x. Inr
             (v\<lparr>WorkflowService_RequestCancelWorkflowExecution_Result.InternalServiceError := Some
             x\<rparr>))
         else Inr v
       else if fid = 3 then
         if wire_api.Type W fval = TStruct
         then and_then (EntityNotExistsError_Read W fval) (\<lambda>x. Inr
             (v\<lparr>WorkflowService_RequestCancelWorkflowExecution_Result.EntityNotExistError := Some
             x\<rparr>))
         else Inr v
       else if fid = 4 then
         if wire_api.Type W fval = TStruct
         then and_then (CancellationAlreadyRequestedError_Read W fval) (\<lambda>x. Inr
             (v\<lparr>WorkflowService_RequestCancelWorkflowExecution_Result.CancellationAlreadyRequestedError := Some x\<rparr>))
         else Inr v
       else if fid = 5 then
         if wire_api.Type W fval = TStruct
         then and_then (ServiceBusyError_Read W fval) (\<lambda>x. Inr
             (v\<lparr>WorkflowService_RequestCancelWorkflowExecution_Result.ServiceBusyError := Some x\<rparr>))
         else Inr v
       else if fid = 6 then
         if wire_api.Type W fval = TStruct
         then and_then (DomainNotActiveError_Read W fval) (\<lambda>x. Inr
             (v\<lparr>WorkflowService_RequestCancelWorkflowExecution_Result.DomainNotActiveError := Some
             x\<rparr>))
         else Inr v
       else if fid = 7 then
         if wire_api.Type W fval = TStruct
         then and_then (LimitExceededError_Read W fval) (\<lambda>x. Inr
             (v\<lparr>WorkflowService_RequestCancelWorkflowExecution_Result.LimitExceededError := Some
             x\<rparr>))
         else Inr v
       else if fid = 8 then
         if wire_api.Type W fval = TStruct
         then and_then (ClientVersionNotSupportedError_Read W fval) (\<lambda>x. Inr
             (v\<lparr>WorkflowService_RequestCancelWorkflowExecution_Result.ClientVersionNotSupportedError
             := Some x\<rparr>))
         else Inr v
       else Inr v) (GetStruct W w) v) (\<lambda>v.
     let count = WorkflowService_RequestCancelWorkflowExecution_Result_count v in
     if 1 < count
     then Inl (E_Errorf
         ''WorkflowService_RequestCancelWorkflowExecution_Result should have at most one field: got %v fields'' count)
     else Inr v)"

definition WorkflowService_RequestCancelWorkflowExecution_Result_enveloper ::
  "'v wire_api \<Rightarrow> WorkflowService_RequestCancelWorkflowExecution_Result \<Rightarrow> 'v enveloper" where
  "WorkflowService_RequestCancelWorkflowExecution_Result_enveloper W v =
     \<lparr>MethodName = ''RequestCancelWorkflowExecution'', EnvelopeType = Reply, EnvelopeToWire =
         WorkflowService_RequestCancelWorkflowExecution_Result_ToWire W v\<rparr>"

definition WorkflowService_RequestCancelWorkflowExecution_Result_Equals ::
  "WorkflowService_RequestCancelWorkflowExecution_Result option \<Rightarrow>
      WorkflowService_RequestCancelWorkflowExecution_Result option \<Rightarrow> bool" where
  "WorkflowService_RequestCancelWorkflowExecution_Result_Equals v rhs =
     (case v of None \<Rightarrow> rhs = None
      | Some v \<Rightarrow> (case rhs of None \<Rightarrow> False
        | Some rhs \<Rightarrow>
          if \<not> both_set_and (\<lambda>x y. BadRequestError_Equals (Some x) (Some y))
              (WorkflowService_RequestCancelWorkflowExecution_Result.BadRequestError v)
              (WorkflowService_RequestCancelWorkflowExecution_Result.BadRequestError rhs) then False
              else
          if \<not> both_set_and (\<lambda>x y. InternalServiceError_Equals (Some x) (Some y))
              (WorkflowService_RequestCancelWorkflowExecution_Result.InternalServiceError v)
              (WorkflowService_RequestCancelWorkflowExecution_Result.InternalServiceError rhs) then
              False else
          if \<not> both_set_and (\<lambda>x y. EntityNotExistsError_Equals (Some x) (Some y))
              (WorkflowService_RequestCancelWorkflowExecution_Result.EntityNotExistError v)
              (WorkflowService_RequestCancelWorkflowExecution_Result.EntityNotExistError rhs) then
              False else
          if \<not> both_set_and (\<lambda>x y. CancellationAlreadyRequestedError_Equals (Some x) (Some y))
              (WorkflowService_RequestCancelWorkflowExecution_Result.CancellationAlreadyRequestedError v) (WorkflowService_RequestCancelWorkflowExecution_Result.CancellationAlreadyRequestedError rhs) then False else
          if \<not> both_set_and (\<lambda>x y. ServiceBusyError_Equals (Some x) (Some y))
              (WorkflowService_RequestCancelWorkflowExecution_Result.ServiceBusyError v)
              (WorkflowService_RequestCancelWorkflowExecution_Result.ServiceBusyError rhs) then
              False else
          if \<not> both_set_and (\<lambda>x y. DomainNotActiveError_Equals (Some x) (Some y))
              (WorkflowService_RequestCancelWorkflowExecution_Result.DomainNotActiveError v)
              (WorkflowService_RequestCancelWorkflowExecution_Result.DomainNotActiveError rhs) then
              False else
          if \<not> both_set_and (\<lambda>x y. LimitExceededError_Equals (Some x) (Some y))
              (WorkflowService_RequestCancelWorkflowExecution_Result.LimitExceededError v)
              (WorkflowService_RequestCancelWorkflowExecution_Result.LimitExceededError rhs) then
              False else
          if \<not> both_set_and (\<lambda>x y. ClientVersionNotSupportedError_Equals (Some x) (Some y))
              (WorkflowService_RequestCancelWorkflowExecution_Result.ClientVersionNotSupportedError
              v)
              (WorkflowService_RequestCancelWorkflowExecution_Result.ClientVersionNotSupportedError
              rhs) then False else
          True))"

lemma WorkflowService_RequestCancelWorkflowExecution_Result_Equals_iff [simp]:
    "WorkflowService_RequestCancelWorkflowExecution_Result_Equals x y \<longleftrightarrow> x = y"
  by (cases x; cases y) (simp_all add:
      WorkflowService_RequestCancelWorkflowExecution_Result_Equals_def if_not_False, fastforce
      intro: WorkflowService_RequestCancelWorkflowExecution_Result.equality)

definition WorkflowService_RequestCancelWorkflowExecution_Helper_Args ::
    "RequestCancelWorkflowExecutionRequest option \<Rightarrow>
    WorkflowService_RequestCancelWorkflowExecution_Args" where
  "WorkflowService_RequestCancelWorkflowExecution_Helper_Args r =
      \<lparr>WorkflowService_RequestCancelWorkflowExecution_Args.CancelRequest = r\<rparr>"

definition WorkflowService_RequestCancelWorkflowExecution_Helper_IsException :: "go_error \<Rightarrow> bool"
    where
  "WorkflowService_RequestCancelWorkflowExecution_Helper_IsException err =
     (case err of
        E_BadRequestError _ \<Rightarrow> True
      | E_InternalServiceError _ \<Rightarrow> True
      | E_EntityNotExistsError _ \<Rightarrow> True
      | E_CancellationAlreadyRequestedError _ \<Rightarrow> True
      | E_ServiceBusyError _ \<Rightarrow> True
      | E_DomainNotActiveError _ \<Rightarrow> True
      | E_LimitExceededError _ \<Rightarrow> True
      | E_ClientVersionNotSupportedError _ \<Rightarrow> True
      | _ \<Rightarrow> False)"

definition WorkflowService_RequestCancelWorkflowExecution_Helper_WrapResponse ::
  "go_error option \<Rightarrow> go_error + WorkflowService_RequestCancelWorkflowExecution_Result" where
  "WorkflowService_RequestCancelWorkflowExecution_Helper_WrapResponse err =
     (case err of None \<Rightarrow> Inr WorkflowService_RequestCancelWorkflowExecution_Result_zero
      | Some err \<Rightarrow> (case err of
          E_BadRequestError e \<Rightarrow> (case e of
              None \<Rightarrow> Inl (E_New
                  ''WrapResponse received non-nil error type with nil value for WorkflowService_RequestCancelWorkflowExecution_Result.BadRequestError'')
            | Some e \<Rightarrow> Inr
                (WorkflowService_RequestCancelWorkflowExecution_Result_zero\<lparr>WorkflowService_RequestCancelWorkflowExecution_Result.BadRequestError := Some e\<rparr>))
        | E_InternalServiceError e \<Rightarrow> (case e of
              None \<Rightarrow> Inl (E_New
                  ''WrapResponse received non-nil error type with nil value for WorkflowService_RequestCancelWorkflowExecution_Result.InternalServiceError'')
            | Some e \<Rightarrow> Inr
                (WorkflowService_RequestCancelWorkflowExecution_Result_zero\<lparr>WorkflowService_RequestCancelWorkflowExecution_Result.InternalServiceError := Some e\<rparr>))
        | E_EntityNotExistsError e \<Rightarrow> (case e of
              None \<Rightarrow> Inl (E_New
                  ''WrapResponse received non-nil error type with nil value for WorkflowService_RequestCancelWorkflowExecution_Result.EntityNotExistError'')
            | Some e \<Rightarrow> Inr
                (WorkflowService_RequestCancelWorkflowExecution_Result_zero\<lparr>WorkflowService_RequestCancelWorkflowExecution_Result.EntityNotExistError := Some e\<rparr>))
        | E_CancellationAlreadyRequestedError e \<Rightarrow> (case e of
              None \<Rightarrow> Inl (E_New
                  ''WrapResponse received non-nil error type with nil value for WorkflowService_RequestCancelWorkflowExecution_Result.CancellationAlreadyRequestedError'')
            | Some e \<Rightarrow> Inr
                (WorkflowService_RequestCancelWorkflowExecution_Result_zero\<lparr>WorkflowService_RequestCancelWorkflowExecution_Result.CancellationAlreadyRequestedError := Some e\<rparr>))
        | E_ServiceBusyError e \<Rightarrow> (case e of
              None \<Rightarrow> Inl (E_New
                  ''WrapResponse received non-nil error type with nil value for WorkflowService_RequestCancelWorkflowExecution_Result.ServiceBusyError'')
            | Some e \<Rightarrow> Inr
                (WorkflowService_RequestCancelWorkflowExecution_Result_zero\<lparr>WorkflowService_RequestCancelWorkflowExecution_Result.ServiceBusyError := Some e\<rparr>))
        | E_DomainNotActiveError e \<Rightarrow> (case e of
              None \<Rightarrow> Inl (E_New
                  ''WrapResponse received non-nil error type with nil value for WorkflowService_RequestCancelWorkflowExecution_Result.DomainNotActiveError'')
            | Some e \<Rightarrow> Inr
                (WorkflowService_RequestCancelWorkflowExecution_Result_zero\<lparr>WorkflowService_RequestCancelWorkflowExecution_Result.DomainNotActiveError := Some e\<rparr>))
        | E_LimitExceededError e \<Rightarrow> (case e of
              None \<Rightarrow> Inl (E_New
                  ''WrapResponse received non-nil error type with nil value for WorkflowService_RequestCancelWorkflowExecution_Result.LimitExceededError'')
            | Some e \<Rightarrow> Inr
                (WorkflowService_RequestCancelWorkflowExecution_Result_zero\<lparr>WorkflowService_RequestCancelWorkflowExecution_Result.LimitExceededError := Some e\<rparr>))
        | E_ClientVersionNotSupportedError e \<Rightarrow> (case e of
              None \<Rightarrow> Inl (E_New
                  ''WrapResponse received non-nil error type with nil value for WorkflowService_RequestCancelWorkflowExecution_Result.ClientVersionNotSupportedError'')
            | Some e \<Rightarrow> Inr
                (WorkflowService_RequestCancelWorkflowExecution_Result_zero\<lparr>WorkflowService_RequestCancelWorkflowExecution_Result.ClientVersionNotSupportedError := Some e\<rparr>))
        | _ \<Rightarrow> Inl err))"

definition WorkflowService_RequestCancelWorkflowExecution_Helper_UnwrapResponse ::
  "WorkflowService_RequestCancelWorkflowExecution_Result \<Rightarrow> go_error option" where
  "WorkflowService_RequestCancelWorkflowExecution_Helper_UnwrapResponse result =
    (if WorkflowService_RequestCancelWorkflowExecution_Result.BadRequestError result \<noteq> None then
        Some (E_BadRequestError
        (WorkflowService_RequestCancelWorkflowExecution_Result.BadRequestError result)) else
     if WorkflowService_RequestCancelWorkflowExecution_Result.InternalServiceError result \<noteq> None
         then Some (E_InternalServiceError
         (WorkflowService_RequestCancelWorkflowExecution_Result.InternalServiceError result)) else
     if WorkflowService_RequestCancelWorkflowExecution_Result.EntityNotExistError result \<noteq> None then
         Some (E_EntityNotExistsError
         (WorkflowService_RequestCancelWorkflowExecution_Result.EntityNotExistError result)) else
     if WorkflowService_RequestCancelWorkflowExecution_Result.CancellationAlreadyRequestedError
         result \<noteq> None then Some (E_CancellationAlreadyRequestedError
         (WorkflowService_RequestCancelWorkflowExecution_Result.CancellationAlreadyRequestedError
         result)) else
     if WorkflowService_RequestCancelWorkflowExecution_Result.ServiceBusyError result \<noteq> None then
         Some (E_ServiceBusyError
         (WorkflowService_RequestCancelWorkflowExecution_Result.ServiceBusyError result)) else
     if WorkflowService_RequestCancelWorkflowExecution_Result.DomainNotActiveError result \<noteq> None
         then Some (E_DomainNotActiveError
         (WorkflowService_RequestCancelWorkflowExecution_Result.DomainNotActiveError result)) else
     if WorkflowService_RequestCancelWorkflowExecution_Result.LimitExceededError result \<noteq> None then
         Some (E_LimitExceededError
         (WorkflowService_RequestCancelWorkflowExecution_Result.LimitExceededError result)) else
     if WorkflowService_RequestCancelWorkflowExecution_Result.ClientVersionNotSupportedError result
         \<noteq> None then Some (E_ClientVersionNotSupportedError
         (WorkflowService_RequestCancelWorkflowExecution_Result.ClientVersionNotSupportedError
         result)) else
     None)"

definition handler_RequestCancelWorkflowExecution ::
  "'v wire_api \<Rightarrow> ('ctx \<Rightarrow> RequestCancelWorkflowExecutionRequest option \<Rightarrow> go_error option) \<Rightarrow>
   ('ctx, 'v) unary_handler" where
  "handler_RequestCancelWorkflowExecution W impl ctx body =
     (case WorkflowService_RequestCancelWorkflowExecution_Args_FromWire W body
         WorkflowService_RequestCancelWorkflowExecution_Args_zero of
      Inl err \<Rightarrow> (no_response, Some err)
    | Inr args \<Rightarrow>
      let err = impl ctx (WorkflowService_RequestCancelWorkflowExecution_Args.CancelRequest args);
          hadError = (err \<noteq> None)
      in case WorkflowService_RequestCancelWorkflowExecution_Helper_WrapResponse err of
           Inl err \<Rightarrow> (no_response, Some err)
         | Inr result \<Rightarrow>
             (\<lparr>Body = Some (WorkflowService_RequestCancelWorkflowExecution_Result_enveloper W
                 result),
               IsApplicationError = hadError\<rparr>, None))"

definition client_RequestCancelWorkflowExecution ::
  "'v wire_api \<Rightarrow> ('ctx, 'v) thrift_client \<Rightarrow> 'ctx \<Rightarrow> RequestCancelWorkflowExecutionRequest option \<Rightarrow>
   go_error option" where
  "client_RequestCancelWorkflowExecution W call ctx r =
     (let args = WorkflowService_RequestCancelWorkflowExecution_Helper_Args r in
      case call ctx (WorkflowService_RequestCancelWorkflowExecution_Args_enveloper W args) of
        Inl e \<Rightarrow> Some e
      | Inr body \<Rightarrow>
          (case WorkflowService_RequestCancelWorkflowExecution_Result_FromWire W body
              WorkflowService_RequestCancelWorkflowExecution_Result_zero of
             Inl e \<Rightarrow> Some e
           | Inr result \<Rightarrow> WorkflowService_RequestCancelWorkflowExecution_Helper_UnwrapResponse
               result))"

lemma WorkflowService_RequestCancelWorkflowExecution_Args_merge:
  "(case x of None \<Rightarrow> Inr \<lparr>WorkflowService_RequestCancelWorkflowExecution_Args.CancelRequest = a0\<rparr> |
      Some y \<Rightarrow> Inr \<lparr>WorkflowService_RequestCancelWorkflowExecution_Args.CancelRequest = b0 y\<rparr>) =
   Inr \<lparr>WorkflowService_RequestCancelWorkflowExecution_Args.CancelRequest = (case x of None \<Rightarrow> a0 |
       Some y \<Rightarrow> b0 y)\<rparr>"
  by (cases x) simp_all

interpretation WorkflowService_RequestCancelWorkflowExecution_Args: thrift_struct W
  "WorkflowService_RequestCancelWorkflowExecution_Args_ToWire W"
      "WorkflowService_RequestCancelWorkflowExecution_Args_FromWire W"
  WorkflowService_RequestCancelWorkflowExecution_Args_zero "\<lambda>x. True" for W
proof (rule thrift_structI)
  fix x :: WorkflowService_RequestCancelWorkflowExecution_Args
  assume laws: "wire_laws W"
  obtain enc0 where e0: "RequestCancelWorkflowExecutionRequest_ToWire W = (\<lambda>x. Inr (enc0 x))"
      "\<And>x. wire_api.Type W (enc0 x) = TStruct"
      "\<And>x. Writable W (enc0 x) \<longleftrightarrow> (\<lambda>_. True) x"
      "\<And>x. (\<lambda>_. True) x \<Longrightarrow> RequestCancelWorkflowExecutionRequest_FromWire W (enc0 x)
          RequestCancelWorkflowExecutionRequest_zero = Inr x"
    by (rule RequestCancelWorkflowExecutionRequest.encoder [OF laws]) (rule that)
  show "\<exists>w. WorkflowService_RequestCancelWorkflowExecution_Args_ToWire W x = Inr w \<and> wire_api.Type W
      w = TStruct \<and>
      (Writable W w \<longleftrightarrow> True) \<and> (True \<longrightarrow> WorkflowService_RequestCancelWorkflowExecution_Args_FromWire W
          w WorkflowService_RequestCancelWorkflowExecution_Args_zero = Inr x)"
    by (cases x) (simp cong: option.case_cong add: codec_rules
        WorkflowService_RequestCancelWorkflowExecution_Args_merge
        WorkflowService_RequestCancelWorkflowExecution_Args_ToWire_def
        WorkflowService_RequestCancelWorkflowExecution_Args_FromWire_def
      WorkflowService_RequestCancelWorkflowExecution_Args_zero_def
          RequestCancelWorkflowExecutionRequest_Read_def if_set_def laws e0)
qed

lemma WorkflowService_RequestCancelWorkflowExecution_Result_merge:
  "(case x of None \<Rightarrow> Inr \<lparr>WorkflowService_RequestCancelWorkflowExecution_Result.BadRequestError =
      a0, WorkflowService_RequestCancelWorkflowExecution_Result.InternalServiceError = a1,
      WorkflowService_RequestCancelWorkflowExecution_Result.EntityNotExistError = a2,
      WorkflowService_RequestCancelWorkflowExecution_Result.CancellationAlreadyRequestedError = a3,
      WorkflowService_RequestCancelWorkflowExecution_Result.ServiceBusyError = a4,
      WorkflowService_RequestCancelWorkflowExecution_Result.DomainNotActiveError = a5,
      WorkflowService_RequestCancelWorkflowExecution_Result.LimitExceededError = a6,
      WorkflowService_RequestCancelWorkflowExecution_Result.ClientVersionNotSupportedError = a7\<rparr> |
      Some y \<Rightarrow> Inr \<lparr>WorkflowService_RequestCancelWorkflowExecution_Result.BadRequestError = b0 y,
      WorkflowService_RequestCancelWorkflowExecution_Result.InternalServiceError = b1 y,
      WorkflowService_RequestCancelWorkflowExecution_Result.EntityNotExistError = b2 y,
      WorkflowService_RequestCancelWorkflowExecution_Result.CancellationAlreadyRequestedError = b3
      y, WorkflowService_RequestCancelWorkflowExecution_Result.ServiceBusyError = b4 y,
      WorkflowService_RequestCancelWorkflowExecution_Result.DomainNotActiveError = b5 y,
      WorkflowService_RequestCancelWorkflowExecution_Result.LimitExceededError = b6 y,
      WorkflowService_RequestCancelWorkflowExecution_Result.ClientVersionNotSupportedError = b7 y\<rparr>)
      =
   Inr \<lparr>WorkflowService_RequestCancelWorkflowExecution_Result.BadRequestError = (case x of None \<Rightarrow> a0
       | Some y \<Rightarrow> b0 y), WorkflowService_RequestCancelWorkflowExecution_Result.InternalServiceError
       = (case x of None \<Rightarrow> a1 | Some y \<Rightarrow> b1 y),
       WorkflowService_RequestCancelWorkflowExecution_Result.EntityNotExistError = (case x of None \<Rightarrow>
       a2 | Some y \<Rightarrow> b2 y),
       WorkflowService_RequestCancelWorkflowExecution_Result.CancellationAlreadyRequestedError =
       (case x of None \<Rightarrow> a3 | Some y \<Rightarrow> b3 y),
       WorkflowService_RequestCancelWorkflowExecution_Result.ServiceBusyError = (case x of None \<Rightarrow> a4
       | Some y \<Rightarrow> b4 y), WorkflowService_RequestCancelWorkflowExecution_Result.DomainNotActiveError
       = (case x of None \<Rightarrow> a5 | Some y \<Rightarrow> b5 y),
       WorkflowService_RequestCancelWorkflowExecution_Result.LimitExceededError = (case x of None \<Rightarrow>
       a6 | Some y \<Rightarrow> b6 y),
       WorkflowService_RequestCancelWorkflowExecution_Result.ClientVersionNotSupportedError = (case
       x of None \<Rightarrow> a7 | Some y \<Rightarrow> b7 y)\<rparr>"
  by (cases x) simp_all

interpretation WorkflowService_RequestCancelWorkflowExecution_Result: thrift_struct W
  "WorkflowService_RequestCancelWorkflowExecution_Result_ToWire W"
      "WorkflowService_RequestCancelWorkflowExecution_Result_FromWire W"
  WorkflowService_RequestCancelWorkflowExecution_Result_zero "\<lambda>r.
      WorkflowService_RequestCancelWorkflowExecution_Result_count r \<le> 1" for W
proof (rule thrift_checked_plainI)
  fix x :: WorkflowService_RequestCancelWorkflowExecution_Result
  assume laws: "wire_laws W"
  obtain enc0 where e0: "BadRequestError_ToWire W = (\<lambda>x. Inr (enc0 x))"
      "\<And>x. wire_api.Type W (enc0 x) = TStruct"
      "\<And>x. Writable W (enc0 x) \<longleftrightarrow> (\<lambda>_. True) x"
      "\<And>x. (\<lambda>_. True) x \<Longrightarrow> BadRequestError_FromWire W (enc0 x) BadRequestError_zero = Inr x"
    by (rule BadRequestError.encoder [OF laws]) (rule that)
  obtain enc1 where e1: "InternalServiceError_ToWire W = (\<lambda>x. Inr (enc1 x))"
      "\<And>x. wire_api.Type W (enc1 x) = TStruct"
      "\<And>x. Writable W (enc1 x) \<longleftrightarrow> (\<lambda>_. True) x"
      "\<And>x. (\<lambda>_. True) x \<Longrightarrow> InternalServiceError_FromWire W (enc1 x) InternalServiceError_zero = Inr
          x"
    by (rule InternalServiceError.encoder [OF laws]) (rule that)
  obtain enc2 where e2: "EntityNotExistsError_ToWire W = (\<lambda>x. Inr (enc2 x))"
      "\<And>x. wire_api.Type W (enc2 x) = TStruct"
      "\<And>x. Writable W (enc2 x) \<longleftrightarrow> (\<lambda>_. True) x"
      "\<And>x. (\<lambda>_. True) x \<Longrightarrow> EntityNotExistsError_FromWire W (enc2 x) EntityNotExistsError_zero = Inr
          x"
    by (rule EntityNotExistsError.encoder [OF laws]) (rule that)
  obtain enc3 where e3: "CancellationAlreadyRequestedError_ToWire W = (\<lambda>x. Inr (enc3 x))"
      "\<And>x. wire_api.Type W (enc3 x) = TStruct"
      "\<And>x. Writable W (enc3 x) \<longleftrightarrow> (\<lambda>_. True) x"
      "\<And>x. (\<lambda>_. True) x \<Longrightarrow> CancellationAlreadyRequestedError_FromWire W (enc3 x)
          CancellationAlreadyRequestedError_zero = Inr x"
    by (rule CancellationAlreadyRequestedError.encoder [OF laws]) (rule that)
  obtain enc4 where e4: "ServiceBusyError_ToWire W = (\<lambda>x. Inr (enc4 x))"
      "\<And>x. wire_api.Type W (enc4 x) = TStruct"
      "\<And>x. Writable W (enc4 x) \<longleftrightarrow> (\<lambda>_. True) x"
      "\<And>x. (\<lambda>_. True) x \<Longrightarrow> ServiceBusyError_FromWire W (enc4 x) ServiceBusyError_zero = Inr x"
    by (rule ServiceBusyError.encoder [OF laws]) (rule that)
  obtain enc5 where e5: "DomainNotActiveError_ToWire W = (\<lambda>x. Inr (enc5 x))"
      "\<And>x. wire_api.Type W (enc5 x) = TStruct"
      "\<And>x. Writable W (enc5 x) \<longleftrightarrow> (\<lambda>_. True) x"
      "\<And>x. (\<lambda>_. True) x \<Longrightarrow> DomainNotActiveError_FromWire W (enc5 x) DomainNotActiveError_zero = Inr
          x"
    by (rule DomainNotActiveError.encoder [OF laws]) (rule that)
  obtain enc6 where e6: "LimitExceededError_ToWire W = (\<lambda>x. Inr (enc6 x))"
      "\<And>x. wire_api.Type W (enc6 x) = TStruct"
      "\<And>x. Writable W (enc6 x) \<longleftrightarrow> (\<lambda>_. True) x"
      "\<And>x. (\<lambda>_. True) x \<Longrightarrow> LimitExceededError_FromWire W (enc6 x) LimitExceededError_zero = Inr x"
    by (rule LimitExceededError.encoder [OF laws]) (rule that)
  obtain enc7 where e7: "ClientVersionNotSupportedError_ToWire W = (\<lambda>x. Inr (enc7 x))"
      "\<And>x. wire_api.Type W (enc7 x) = TStruct"
      "\<And>x. Writable W (enc7 x) \<longleftrightarrow> (\<lambda>_. True) x"
      "\<And>x. (\<lambda>_. True) x \<Longrightarrow> ClientVersionNotSupportedError_FromWire W (enc7 x)
          ClientVersionNotSupportedError_zero = Inr x"
    by (rule ClientVersionNotSupportedError.encoder [OF laws]) (rule that)
  let ?fs = "((((((opt_field 1 enc0
      (WorkflowService_RequestCancelWorkflowExecution_Result.BadRequestError x) @
      opt_field 2 enc1 (WorkflowService_RequestCancelWorkflowExecution_Result.InternalServiceError
          x)) @
      opt_field 3 enc2 (WorkflowService_RequestCancelWorkflowExecution_Result.EntityNotExistError
          x)) @
      opt_field 4 enc3
          (WorkflowService_RequestCancelWorkflowExecution_Result.CancellationAlreadyRequestedError
          x)) @
      opt_field 5 enc4 (WorkflowService_RequestCancelWorkflowExecution_Result.ServiceBusyError x)) @
      opt_field 6 enc5 (WorkflowService_RequestCancelWorkflowExecution_Result.DomainNotActiveError
          x)) @
      opt_field 7 enc6 (WorkflowService_RequestCancelWorkflowExecution_Result.LimitExceededError x))
          @
      opt_field 8 enc7
          (WorkflowService_RequestCancelWorkflowExecution_Result.ClientVersionNotSupportedError x)"
  let ?check = "\<lambda>r. if 1 < WorkflowService_RequestCancelWorkflowExecution_Result_count x then Inl
      (E_Errorf
      ''WorkflowService_RequestCancelWorkflowExecution_Result should have at most one field: got %v fields'' (WorkflowService_RequestCancelWorkflowExecution_Result_count x)) else Inr r"
  have "length ?fs = WorkflowService_RequestCancelWorkflowExecution_Result_count x"
    by (simp add: WorkflowService_RequestCancelWorkflowExecution_Result_count_def length_opt_field
        split del: if_split)
  then have "WorkflowService_RequestCancelWorkflowExecution_Result_ToWire W x = ?check
      (NewValueStruct W ?fs)"
    by (simp only: WorkflowService_RequestCancelWorkflowExecution_Result_ToWire_def put_opt_field
        and_then.simps append_Nil e0(1) e1(1) e2(1) e3(1) e4(1) e5(1) e6(1) e7(1))
  moreover have "WorkflowService_RequestCancelWorkflowExecution_Result_FromWire W (NewValueStruct W
      ?fs) WorkflowService_RequestCancelWorkflowExecution_Result_zero = ?check x"
    by (cases x, hypsubst) (simp cong: option.case_cong split del: if_split add: codec_rules Let_def
        WorkflowService_RequestCancelWorkflowExecution_Result_merge
      WorkflowService_RequestCancelWorkflowExecution_Result_FromWire_def
          WorkflowService_RequestCancelWorkflowExecution_Result_zero_def laws
      BadRequestError_Read_def
      CancellationAlreadyRequestedError_Read_def
      ClientVersionNotSupportedError_Read_def
      DomainNotActiveError_Read_def
      EntityNotExistsError_Read_def
      InternalServiceError_Read_def
      LimitExceededError_Read_def
      ServiceBusyError_Read_def
      e0 e1 e2 e3 e4 e5 e6 e7)
  ultimately show "if WorkflowService_RequestCancelWorkflowExecution_Result_count x \<le> 1
      then \<exists>w. WorkflowService_RequestCancelWorkflowExecution_Result_ToWire W x = Inr w \<and>
          wire_api.Type W w = TStruct \<and>
        Writable W w \<and> WorkflowService_RequestCancelWorkflowExecution_Result_FromWire W w
            WorkflowService_RequestCancelWorkflowExecution_Result_zero = Inr x
      else \<exists>e. WorkflowService_RequestCancelWorkflowExecution_Result_ToWire W x = Inl e"
    by (simp add: laws codec_rules e0 e1 e2 e3 e4 e5 e6 e7)
qed

interpretation RequestCancelWorkflowExecution: rpc_method W
  "WorkflowService_RequestCancelWorkflowExecution_Args_ToWire W"
      "WorkflowService_RequestCancelWorkflowExecution_Args_FromWire W"
      WorkflowService_RequestCancelWorkflowExecution_Args_zero "\<lambda>x. True"
  "WorkflowService_RequestCancelWorkflowExecution_Result_ToWire W"
      "WorkflowService_RequestCancelWorkflowExecution_Result_FromWire W"
      WorkflowService_RequestCancelWorkflowExecution_Result_zero
  "\<lambda>r. WorkflowService_RequestCancelWorkflowExecution_Result_count r \<le> 1"
      "''RequestCancelWorkflowExecution''"
  WorkflowService_RequestCancelWorkflowExecution_Helper_Args
      "WorkflowService_RequestCancelWorkflowExecution_Args.CancelRequest"
  "WorkflowService_RequestCancelWorkflowExecution_Helper_WrapResponse"
      WorkflowService_RequestCancelWorkflowExecution_Helper_UnwrapResponse
  "\<lambda>out. out \<noteq> None" "carried_void
      WorkflowService_RequestCancelWorkflowExecution_Helper_IsException" id "\<lambda>e. Some e"
  "handler_RequestCancelWorkflowExecution W" "client_RequestCancelWorkflowExecution W" for W
proof
  fix out :: "go_error option"
  assume "carried_void WorkflowService_RequestCancelWorkflowExecution_Helper_IsException out"
  then show "case (WorkflowService_RequestCancelWorkflowExecution_Helper_WrapResponse) out of Inl e
      \<Rightarrow> False
      | Inr res \<Rightarrow> (WorkflowService_RequestCancelWorkflowExecution_Result_count res \<le> 1) \<and>
          WorkflowService_RequestCancelWorkflowExecution_Helper_UnwrapResponse res = id out"
    by (cases out; cases "the out")
      (auto simp: WorkflowService_RequestCancelWorkflowExecution_Helper_IsException_def
          WorkflowService_RequestCancelWorkflowExecution_Helper_WrapResponse_def
          WorkflowService_RequestCancelWorkflowExecution_Helper_UnwrapResponse_def
        declared_nonnil_def WorkflowService_RequestCancelWorkflowExecution_Result_zero_def
            WorkflowService_RequestCancelWorkflowExecution_Result_count_def elim!: present.elims)
next
  fix out :: "go_error option"
  assume "\<not> carried_void WorkflowService_RequestCancelWorkflowExecution_Helper_IsException out"
  then show "case (WorkflowService_RequestCancelWorkflowExecution_Helper_WrapResponse) out of Inl e
      \<Rightarrow> True
      | Inr res \<Rightarrow> \<not> (WorkflowService_RequestCancelWorkflowExecution_Result_count res \<le> 1)"
    by (cases out; cases "the out")
      (auto simp: WorkflowService_RequestCancelWorkflowExecution_Helper_IsException_def
          WorkflowService_RequestCancelWorkflowExecution_Helper_WrapResponse_def declared_nonnil_def
        WorkflowService_RequestCancelWorkflowExecution_Result_count_def
            WorkflowService_RequestCancelWorkflowExecution_Result_zero_def split: option.splits)
qed (auto simp: WorkflowService_RequestCancelWorkflowExecution_Helper_Args_def
    handler_RequestCancelWorkflowExecution_def client_RequestCancelWorkflowExecution_def
      WorkflowService_RequestCancelWorkflowExecution_Args_enveloper_def
          WorkflowService_RequestCancelWorkflowExecution_Result_enveloper_def
      Let_def split: sum.splits prod.splits)

section \<open>ResetWorkflowExecution\<close>

record WorkflowService_ResetWorkflowExecution_Args =
  ResetRequest :: "ResetWorkflowExecutionRequest option"

definition WorkflowService_ResetWorkflowExecution_Args_zero ::
    WorkflowService_ResetWorkflowExecution_Args where
  "WorkflowService_ResetWorkflowExecution_Args_zero =
      \<lparr>WorkflowService_ResetWorkflowExecution_Args.ResetRequest = None\<rparr>"

definition WorkflowService_ResetWorkflowExecution_Args_ToWire ::
  "'v wire_api \<Rightarrow> WorkflowService_ResetWorkflowExecution_Args \<Rightarrow> go_error + 'v" where
  "WorkflowService_ResetWorkflowExecution_Args_ToWire W v =
     and_then (put_opt 1 (ResetWorkflowExecutionRequest_ToWire W)
         (WorkflowService_ResetWorkflowExecution_Args.ResetRequest v) [])
       (\<lambda>fields.
     Inr (NewValueStruct W fields))"

definition WorkflowService_ResetWorkflowExecution_Args_FromWire ::
  "'v wire_api \<Rightarrow> 'v \<Rightarrow> WorkflowService_ResetWorkflowExecution_Args \<Rightarrow> go_error +
      WorkflowService_ResetWorkflowExecution_Args" where
  "WorkflowService_ResetWorkflowExecution_Args_FromWire W w v =
     foldM (\<lambda>v (fid, fval).
       if fid = 1 then
         if wire_api.Type W fval = TStruct
         then and_then (ResetWorkflowExecutionRequest_Read W fval) (\<lambda>x. Inr
             (v\<lparr>WorkflowService_ResetWorkflowExecution_Args.ResetRequest := Some x\<rparr>))
         else Inr v
       else Inr v) (GetStruct W w) v"

definition WorkflowService_ResetWorkflowExecution_Args_enveloper ::
  "'v wire_api \<Rightarrow> WorkflowService_ResetWorkflowExecution_Args \<Rightarrow> 'v enveloper" where
  "WorkflowService_ResetWorkflowExecution_Args_enveloper W v =
     \<lparr>MethodName = ''ResetWorkflowExecution'', EnvelopeType = Call, EnvelopeToWire =
         WorkflowService_ResetWorkflowExecution_Args_ToWire W v\<rparr>"

definition WorkflowService_ResetWorkflowExecution_Args_Equals ::
  "WorkflowService_ResetWorkflowExecution_Args option \<Rightarrow> WorkflowService_ResetWorkflowExecution_Args
      option \<Rightarrow> bool" where
  "WorkflowService_ResetWorkflowExecution_Args_Equals v rhs =
     (case v of None \<Rightarrow> rhs = None
      | Some v \<Rightarrow> (case rhs of None \<Rightarrow> False
        | Some rhs \<Rightarrow>
          if \<not> both_set_and (\<lambda>x y. ResetWorkflowExecutionRequest_Equals (Some x) (Some y))
              (WorkflowService_ResetWorkflowExecution_Args.ResetRequest v)
              (WorkflowService_ResetWorkflowExecution_Args.ResetRequest rhs) then False else
          True))"

lemma WorkflowService_ResetWorkflowExecution_Args_Equals_iff [simp]:
    "WorkflowService_ResetWorkflowExecution_Args_Equals x y \<longleftrightarrow> x = y"
  by (cases x; cases y) (auto simp: WorkflowService_ResetWorkflowExecution_Args_Equals_def)

record WorkflowService_ResetWorkflowExecution_Result =
  Success :: "ResetWorkflowExecutionResponse option"
  BadRequestError :: "BadRequestError option"
  InternalServiceError :: "InternalServiceError option"
  EntityNotExistError :: "EntityNotExistsError option"
  ServiceBusyError :: "ServiceBusyError option"
  DomainNotActiveError :: "DomainNotActiveError option"
  LimitExceededError :: "LimitExceededError option"
  ClientVersionNotSupportedError :: "ClientVersionNotSupportedError option"

definition WorkflowService_ResetWorkflowExecution_Result_count ::
    "WorkflowService_ResetWorkflowExecution_Result \<Rightarrow> nat" where
  "WorkflowService_ResetWorkflowExecution_Result_count v =
     (if WorkflowService_ResetWorkflowExecution_Result.Success v \<noteq> None then 1 else 0) +
     (if WorkflowService_ResetWorkflowExecution_Result.BadRequestError v \<noteq> None then 1 else 0) +
     (if WorkflowService_ResetWorkflowExecution_Result.InternalServiceError v \<noteq> None then 1 else 0)
         +
     (if WorkflowService_ResetWorkflowExecution_Result.EntityNotExistError v \<noteq> None then 1 else 0) +
     (if WorkflowService_ResetWorkflowExecution_Result.ServiceBusyError v \<noteq> None then 1 else 0) +
     (if WorkflowService_ResetWorkflowExecution_Result.DomainNotActiveError v \<noteq> None then 1 else 0)
         +
     (if WorkflowService_ResetWorkflowExecution_Result.LimitExceededError v \<noteq> None then 1 else 0) +
     (if WorkflowService_ResetWorkflowExecution_Result.ClientVersionNotSupportedError v \<noteq> None then
         1 else 0)"

definition WorkflowService_ResetWorkflowExecution_Result_zero ::
    WorkflowService_ResetWorkflowExecution_Result where
  "WorkflowService_ResetWorkflowExecution_Result_zero =
      \<lparr>WorkflowService_ResetWorkflowExecution_Result.Success = None,
      WorkflowService_ResetWorkflowExecution_Result.BadRequestError = None,
      WorkflowService_ResetWorkflowExecution_Result.InternalServiceError = None,
      WorkflowService_ResetWorkflowExecution_Result.EntityNotExistError = None,
      WorkflowService_ResetWorkflowExecution_Result.ServiceBusyError = None,
      WorkflowService_ResetWorkflowExecution_Result.DomainNotActiveError = None,
      WorkflowService_ResetWorkflowExecution_Result.LimitExceededError = None,
      WorkflowService_ResetWorkflowExecution_Result.ClientVersionNotSupportedError = None\<rparr>"

definition WorkflowService_ResetWorkflowExecution_Result_ToWire ::
  "'v wire_api \<Rightarrow> WorkflowService_ResetWorkflowExecution_Result \<Rightarrow> go_error + 'v" where
  "WorkflowService_ResetWorkflowExecution_Result_ToWire W v =
     and_then (put_opt 0 (ResetWorkflowExecutionResponse_ToWire W)
         (WorkflowService_ResetWorkflowExecution_Result.Success v) [])
       (\<lambda>fields.
     and_then (put_opt 1 (BadRequestError_ToWire W)
         (WorkflowService_ResetWorkflowExecution_Result.BadRequestError v) fields)
       (\<lambda>fields.
     and_then (put_opt 2 (InternalServiceError_ToWire W)
         (WorkflowService_ResetWorkflowExecution_Result.InternalServiceError v) fields)
       (\<lambda>fields.
     and_then (put_opt 3 (EntityNotExistsError_ToWire W)
         (WorkflowService_ResetWorkflowExecution_Result.EntityNotExistError v) fields)
       (\<lambda>fields.
     and_then (put_opt 4 (ServiceBusyError_ToWire W)
         (WorkflowService_ResetWorkflowExecution_Result.ServiceBusyError v) fields)
       (\<lambda>fields.
     and_then (put_opt 5 (DomainNotActiveError_ToWire W)
         (WorkflowService_ResetWorkflowExecution_Result.DomainNotActiveError v) fields)
       (\<lambda>fields.
     and_then (put_opt 6 (LimitExceededError_ToWire W)
         (WorkflowService_ResetWorkflowExecution_Result.LimitExceededError v) fields)
       (\<lambda>fields.
     and_then (put_opt 7 (ClientVersionNotSupportedError_ToWire W)
         (WorkflowService_ResetWorkflowExecution_Result.ClientVersionNotSupportedError v) fields)
       (\<lambda>fields.
     if length fields \<noteq> 1
     then Inl (E_Errorf
         ''WorkflowService_ResetWorkflowExecution_Result should have exactly one field: got %v fields'' (length fields))
     else Inr (NewValueStruct W fields)))))))))"

definition WorkflowService_ResetWorkflowExecution_Result_FromWire ::
  "'v wire_api \<Rightarrow> 'v \<Rightarrow> WorkflowService_ResetWorkflowExecution_Result \<Rightarrow> go_error +
      WorkflowService_ResetWorkflowExecution_Result" where
  "WorkflowService_ResetWorkflowExecution_Result_FromWire W w v =
     and_then (foldM (\<lambda>v (fid, fval).
       if fid = 0 then
         if wire_api.Type W fval = TStruct
         then and_then (ResetWorkflowExecutionResponse_Read W fval) (\<lambda>x. Inr
             (v\<lparr>WorkflowService_ResetWorkflowExecution_Result.Success := Some x\<rparr>))
         else Inr v
       else if fid = 1 then
         if wire_api.Type W fval = TStruct
         then and_then (BadRequestError_Read W fval) (\<lambda>x. Inr
             (v\<lparr>WorkflowService_ResetWorkflowExecution_Result.BadRequestError := Some x\<rparr>))
         else Inr v
       else if fid = 2 then
         if wire_api.Type W fval = TStruct
         then and_then (InternalServiceError_Read W fval) (\<lambda>x. Inr
             (v\<lparr>WorkflowService_ResetWorkflowExecution_Result.InternalServiceError := Some x\<rparr>))
         else Inr v
       else if fid = 3 then
         if wire_api.Type W fval = TStruct
         then and_then (EntityNotExistsError_Read W fval) (\<lambda>x. Inr
             (v\<lparr>WorkflowService_ResetWorkflowExecution_Result.EntityNotExistError := Some x\<rparr>))
         else Inr v
       else if fid = 4 then
         if wire_api.Type W fval = TStruct
         then and_then (ServiceBusyError_Read W fval) (\<lambda>x. Inr
             (v\<lparr>WorkflowService_ResetWorkflowExecution_Result.ServiceBusyError := Some x\<rparr>))
         else Inr v
       else if fid = 5 then
         if wire_api.Type W fval = TStruct
         then and_then (DomainNotActiveError_Read W fval) (\<lambda>x. Inr
             (v\<lparr>WorkflowService_ResetWorkflowExecution_Result.DomainNotActiveError := Some x\<rparr>))
         else Inr v
       else if fid = 6 then
         if wire_api.Type W fval = TStruct
         then and_then (LimitExceededError_Read W fval) (\<lambda>x. Inr
             (v\<lparr>WorkflowService_ResetWorkflowExecution_Result.LimitExceededError := Some x\<rparr>))
         else Inr v
       else if fid = 7 then
         if wire_api.Type W fval = TStruct
         then and_then (ClientVersionNotSupportedError_Read W fval) (\<lambda>x. Inr
             (v\<lparr>WorkflowService_ResetWorkflowExecution_Result.ClientVersionNotSupportedError := Some
             x\<rparr>))
         else Inr v
       else Inr v) (GetStruct W w) v) (\<lambda>v.
     let count = WorkflowService_ResetWorkflowExecution_Result_count v in
     if count \<noteq> 1
     then Inl (E_Errorf
         ''WorkflowService_ResetWorkflowExecution_Result should have exactly one field: got %v fields'' count)
     else Inr v)"

definition WorkflowService_ResetWorkflowExecution_Result_enveloper ::
  "'v wire_api \<Rightarrow> WorkflowService_ResetWorkflowExecution_Result \<Rightarrow> 'v enveloper" where
  "WorkflowService_ResetWorkflowExecution_Result_enveloper W v =
     \<lparr>MethodName = ''ResetWorkflowExecution'', EnvelopeType = Reply, EnvelopeToWire =
         WorkflowService_ResetWorkflowExecution_Result_ToWire W v\<rparr>"

definition WorkflowService_ResetWorkflowExecution_Result_Equals ::
  "WorkflowService_ResetWorkflowExecution_Result option \<Rightarrow>
      WorkflowService_ResetWorkflowExecution_Result option \<Rightarrow> bool" where
  "WorkflowService_ResetWorkflowExecution_Result_Equals v rhs =
     (case v of None \<Rightarrow> rhs = None
      | Some v \<Rightarrow> (case rhs of None \<Rightarrow> False
        | Some rhs \<Rightarrow>
          if \<not> both_set_and (\<lambda>x y. ResetWorkflowExecutionResponse_Equals (Some x) (Some y))
              (WorkflowService_ResetWorkflowExecution_Result.Success v)
              (WorkflowService_ResetWorkflowExecution_Result.Success rhs) then False else
          if \<not> both_set_and (\<lambda>x y. BadRequestError_Equals (Some x) (Some y))
              (WorkflowService_ResetWorkflowExecution_Result.BadRequestError v)
              (WorkflowService_ResetWorkflowExecution_Result.BadRequestError rhs) then False else
          if \<not> both_set_and (\<lambda>x y. InternalServiceError_Equals (Some x) (Some y))
              (WorkflowService_ResetWorkflowExecution_Result.InternalServiceError v)
              (WorkflowService_ResetWorkflowExecution_Result.InternalServiceError rhs) then False
              else
          if \<not> both_set_and (\<lambda>x y. EntityNotExistsError_Equals (Some x) (Some y))
              (WorkflowService_ResetWorkflowExecution_Result.EntityNotExistError v)
              (WorkflowService_ResetWorkflowExecution_Result.EntityNotExistError rhs) then False
              else
          if \<not> both_set_and (\<lambda>x y. ServiceBusyError_Equals (Some x) (Some y))
              (WorkflowService_ResetWorkflowExecution_Result.ServiceBusyError v)
              (WorkflowService_ResetWorkflowExecution_Result.ServiceBusyError rhs) then False else
          if \<not> both_set_and (\<lambda>x y. DomainNotActiveError_Equals (Some x) (Some y))
              (WorkflowService_ResetWorkflowExecution_Result.DomainNotActiveError v)
              (WorkflowService_ResetWorkflowExecution_Result.DomainNotActiveError rhs) then False
              else
          if \<not> both_set_and (\<lambda>x y. LimitExceededError_Equals (Some x) (Some y))
              (WorkflowService_ResetWorkflowExecution_Result.LimitExceededError v)
              (WorkflowService_ResetWorkflowExecution_Result.LimitExceededError rhs) then False else
          if \<not> both_set_and (\<lambda>x y. ClientVersionNotSupportedError_Equals (Some x) (Some y))
              (WorkflowService_ResetWorkflowExecution_Result.ClientVersionNotSupportedError v)
              (WorkflowService_ResetWorkflowExecution_Result.ClientVersionNotSupportedError rhs)
              then False else
          True))"

lemma WorkflowService_ResetWorkflowExecution_Result_Equals_iff [simp]:
    "WorkflowService_ResetWorkflowExecution_Result_Equals x y \<longleftrightarrow> x = y"
  by (cases x; cases y) (simp_all add: WorkflowService_ResetWorkflowExecution_Result_Equals_def
      if_not_False, fastforce intro: WorkflowService_ResetWorkflowExecution_Result.equality)

definition WorkflowService_ResetWorkflowExecution_Helper_Args :: "ResetWorkflowExecutionRequest
    option \<Rightarrow> WorkflowService_ResetWorkflowExecution_Args" where
  "WorkflowService_ResetWorkflowExecution_Helper_Args r =
      \<lparr>WorkflowService_ResetWorkflowExecution_Args.ResetRequest = r\<rparr>"

definition WorkflowService_ResetWorkflowExecution_Helper_IsException :: "go_error \<Rightarrow> bool" where
  "WorkflowService_ResetWorkflowExecution_Helper_IsException err =
     (case err of
        E_BadRequestError _ \<Rightarrow> True
      | E_InternalServiceError _ \<Rightarrow> True
      | E_EntityNotExistsError _ \<Rightarrow> True
      | E_ServiceBusyError _ \<Rightarrow> True
      | E_DomainNotActiveError _ \<Rightarrow> True
      | E_LimitExceededError _ \<Rightarrow> True
      | E_ClientVersionNotSupportedError _ \<Rightarrow> True
      | _ \<Rightarrow> False)"

definition WorkflowService_ResetWorkflowExecution_Helper_WrapResponse ::
  "ResetWorkflowExecutionResponse option \<Rightarrow> go_error option \<Rightarrow> go_error +
      WorkflowService_ResetWorkflowExecution_Result" where
  "WorkflowService_ResetWorkflowExecution_Helper_WrapResponse success err =
     (case err of None \<Rightarrow> Inr
         (WorkflowService_ResetWorkflowExecution_Result_zero\<lparr>WorkflowService_ResetWorkflowExecution_Result.Success := success\<rparr>)
      | Some err \<Rightarrow> (case err of
          E_BadRequestError e \<Rightarrow> (case e of
              None \<Rightarrow> Inl (E_New
                  ''WrapResponse received non-nil error type with nil value for WorkflowService_ResetWorkflowExecution_Result.BadRequestError'')
            | Some e \<Rightarrow> Inr
                (WorkflowService_ResetWorkflowExecution_Result_zero\<lparr>WorkflowService_ResetWorkflowExecution_Result.BadRequestError := Some e\<rparr>))
        | E_InternalServiceError e \<Rightarrow> (case e of
              None \<Rightarrow> Inl (E_New
                  ''WrapResponse received non-nil error type with nil value for WorkflowService_ResetWorkflowExecution_Result.InternalServiceError'')
            | Some e \<Rightarrow> Inr
                (WorkflowService_ResetWorkflowExecution_Result_zero\<lparr>WorkflowService_ResetWorkflowExecution_Result.InternalServiceError := Some e\<rparr>))
        | E_EntityNotExistsError e \<Rightarrow> (case e of
              None \<Rightarrow> Inl (E_New
                  ''WrapResponse received non-nil error type with nil value for WorkflowService_ResetWorkflowExecution_Result.EntityNotExistError'')
            | Some e \<Rightarrow> Inr
                (WorkflowService_ResetWorkflowExecution_Result_zero\<lparr>WorkflowService_ResetWorkflowExecution_Result.EntityNotExistError := Some e\<rparr>))
        | E_ServiceBusyError e \<Rightarrow> (case e of
              None \<Rightarrow> Inl (E_New
                  ''WrapResponse received non-nil error type with nil value for WorkflowService_ResetWorkflowExecution_Result.ServiceBusyError'')
            | Some e \<Rightarrow> Inr
                (WorkflowService_ResetWorkflowExecution_Result_zero\<lparr>WorkflowService_ResetWorkflowExecution_Result.ServiceBusyError := Some e\<rparr>))
        | E_DomainNotActiveError e \<Rightarrow> (case e of
              None \<Rightarrow> Inl (E_New
                  ''WrapResponse received non-nil error type with nil value for WorkflowService_ResetWorkflowExecution_Result.DomainNotActiveError'')
            | Some e \<Rightarrow> Inr
                (WorkflowService_ResetWorkflowExecution_Result_zero\<lparr>WorkflowService_ResetWorkflowExecution_Result.DomainNotActiveError := Some e\<rparr>))
        | E_LimitExceededError e \<Rightarrow> (case e of
              None \<Rightarrow> Inl (E_New
                  ''WrapResponse received non-nil error type with nil value for WorkflowService_ResetWorkflowExecution_Result.LimitExceededError'')
            | Some e \<Rightarrow> Inr
                (WorkflowService_ResetWorkflowExecution_Result_zero\<lparr>WorkflowService_ResetWorkflowExecution_Result.LimitExceededError := Some e\<rparr>))
        | E_ClientVersionNotSupportedError e \<Rightarrow> (case e of
              None \<Rightarrow> Inl (E_New
                  ''WrapResponse received non-nil error type with nil value for WorkflowService_ResetWorkflowExecution_Result.ClientVersionNotSupportedError'')
            | Some e \<Rightarrow> Inr
                (WorkflowService_ResetWorkflowExecution_Result_zero\<lparr>WorkflowService_ResetWorkflowExecution_Result.ClientVersionNotSupportedError := Some e\<rparr>))
        | _ \<Rightarrow> Inl err))"

definition WorkflowService_ResetWorkflowExecution_Helper_UnwrapResponse ::
  "WorkflowService_ResetWorkflowExecution_Result \<Rightarrow> ResetWorkflowExecutionResponse option \<times> go_error
      option" where
  "WorkflowService_ResetWorkflowExecution_Helper_UnwrapResponse result =
    (if WorkflowService_ResetWorkflowExecution_Result.BadRequestError result \<noteq> None then (None, Some
        (E_BadRequestError (WorkflowService_ResetWorkflowExecution_Result.BadRequestError result)))
        else
     if WorkflowService_ResetWorkflowExecution_Result.InternalServiceError result \<noteq> None then (None,
         Some (E_InternalServiceError
         (WorkflowService_ResetWorkflowExecution_Result.InternalServiceError result))) else
     if WorkflowService_ResetWorkflowExecution_Result.EntityNotExistError result \<noteq> None then (None,
         Some (E_EntityNotExistsError
         (WorkflowService_ResetWorkflowExecution_Result.EntityNotExistError result))) else
     if WorkflowService_ResetWorkflowExecution_Result.ServiceBusyError result \<noteq> None then (None,
         Some (E_ServiceBusyError (WorkflowService_ResetWorkflowExecution_Result.ServiceBusyError
         result))) else
     if WorkflowService_ResetWorkflowExecution_Result.DomainNotActiveError result \<noteq> None then (None,
         Some (E_DomainNotActiveError
         (WorkflowService_ResetWorkflowExecution_Result.DomainNotActiveError result))) else
     if WorkflowService_ResetWorkflowExecution_Result.LimitExceededError result \<noteq> None then (None,
         Some (E_LimitExceededError
         (WorkflowService_ResetWorkflowExecution_Result.LimitExceededError result))) else
     if WorkflowService_ResetWorkflowExecution_Result.ClientVersionNotSupportedError result \<noteq> None
         then (None, Some (E_ClientVersionNotSupportedError
         (WorkflowService_ResetWorkflowExecution_Result.ClientVersionNotSupportedError result)))
         else
     if WorkflowService_ResetWorkflowExecution_Result.Success result \<noteq> None then
         (WorkflowService_ResetWorkflowExecution_Result.Success result, None) else
     (None, Some (E_New ''expected a non-void result'')))"

definition handler_ResetWorkflowExecution ::
  "'v wire_api \<Rightarrow> ('ctx \<Rightarrow> ResetWorkflowExecutionRequest option \<Rightarrow> ResetWorkflowExecutionResponse
      option \<times> go_error option) \<Rightarrow>
   ('ctx, 'v) unary_handler" where
  "handler_ResetWorkflowExecution W impl ctx body =
     (case WorkflowService_ResetWorkflowExecution_Args_FromWire W body
         WorkflowService_ResetWorkflowExecution_Args_zero of
      Inl err \<Rightarrow> (no_response, Some err)
    | Inr args \<Rightarrow>
      let (success, err) = impl ctx (WorkflowService_ResetWorkflowExecution_Args.ResetRequest args);
          hadError = (err \<noteq> None)
      in case WorkflowService_ResetWorkflowExecution_Helper_WrapResponse success err of
           Inl err \<Rightarrow> (no_response, Some err)
         | Inr result \<Rightarrow>
             (\<lparr>Body = Some (WorkflowService_ResetWorkflowExecution_Result_enveloper W result),
               IsApplicationError = hadError\<rparr>, None))"

definition client_ResetWorkflowExecution ::
  "'v wire_api \<Rightarrow> ('ctx, 'v) thrift_client \<Rightarrow> 'ctx \<Rightarrow> ResetWorkflowExecutionRequest option \<Rightarrow>
   ResetWorkflowExecutionResponse option \<times> go_error option" where
  "client_ResetWorkflowExecution W call ctx r =
     (let args = WorkflowService_ResetWorkflowExecution_Helper_Args r in
      case call ctx (WorkflowService_ResetWorkflowExecution_Args_enveloper W args) of
        Inl e \<Rightarrow> (None, Some e)
      | Inr body \<Rightarrow>
          (case WorkflowService_ResetWorkflowExecution_Result_FromWire W body
              WorkflowService_ResetWorkflowExecution_Result_zero of
             Inl e \<Rightarrow> (None, Some e)
           | Inr result \<Rightarrow> WorkflowService_ResetWorkflowExecution_Helper_UnwrapResponse result))"

lemma WorkflowService_ResetWorkflowExecution_Args_merge:
  "(case x of None \<Rightarrow> Inr \<lparr>WorkflowService_ResetWorkflowExecution_Args.ResetRequest = a0\<rparr> | Some y \<Rightarrow>
      Inr \<lparr>WorkflowService_ResetWorkflowExecution_Args.ResetRequest = b0 y\<rparr>) =
   Inr \<lparr>WorkflowService_ResetWorkflowExecution_Args.ResetRequest = (case x of None \<Rightarrow> a0 | Some y \<Rightarrow>
       b0 y)\<rparr>"
  by (cases x) simp_all

interpretation WorkflowService_ResetWorkflowExecution_Args: thrift_struct W
  "WorkflowService_ResetWorkflowExecution_Args_ToWire W"
      "WorkflowService_ResetWorkflowExecution_Args_FromWire W"
  WorkflowService_ResetWorkflowExecution_Args_zero "\<lambda>x. True" for W
proof (rule thrift_structI)
  fix x :: WorkflowService_ResetWorkflowExecution_Args
  assume laws: "wire_laws W"
  obtain enc0 where e0: "ResetWorkflowExecutionRequest_ToWire W = (\<lambda>x. Inr (enc0 x))"
      "\<And>x. wire_api.Type W (enc0 x) = TStruct"
      "\<And>x. Writable W (enc0 x) \<longleftrightarrow> (\<lambda>_. True) x"
      "\<And>x. (\<lambda>_. True) x \<Longrightarrow> ResetWorkflowExecutionRequest_FromWire W (enc0 x)
          ResetWorkflowExecutionRequest_zero = Inr x"
    by (rule ResetWorkflowExecutionRequest.encoder [OF laws]) (rule that)
  show "\<exists>w. WorkflowService_ResetWorkflowExecution_Args_ToWire W x = Inr w \<and> wire_api.Type W w =
      TStruct \<and>
      (Writable W w \<longleftrightarrow> True) \<and> (True \<longrightarrow> WorkflowService_ResetWorkflowExecution_Args_FromWire W w
          WorkflowService_ResetWorkflowExecution_Args_zero = Inr x)"
    by (cases x) (simp cong: option.case_cong add: codec_rules
        WorkflowService_ResetWorkflowExecution_Args_merge
        WorkflowService_ResetWorkflowExecution_Args_ToWire_def
        WorkflowService_ResetWorkflowExecution_Args_FromWire_def
      WorkflowService_ResetWorkflowExecution_Args_zero_def ResetWorkflowExecutionRequest_Read_def
          if_set_def laws e0)
qed

lemma WorkflowService_ResetWorkflowExecution_Result_merge:
  "(case x of None \<Rightarrow> Inr \<lparr>WorkflowService_ResetWorkflowExecution_Result.Success = a0,
      WorkflowService_ResetWorkflowExecution_Result.BadRequestError = a1,
      WorkflowService_ResetWorkflowExecution_Result.InternalServiceError = a2,
      WorkflowService_ResetWorkflowExecution_Result.EntityNotExistError = a3,
      WorkflowService_ResetWorkflowExecution_Result.ServiceBusyError = a4,
      WorkflowService_ResetWorkflowExecution_Result.DomainNotActiveError = a5,
      WorkflowService_ResetWorkflowExecution_Result.LimitExceededError = a6,
      WorkflowService_ResetWorkflowExecution_Result.ClientVersionNotSupportedError = a7\<rparr> | Some y \<Rightarrow>
      Inr \<lparr>WorkflowService_ResetWorkflowExecution_Result.Success = b0 y,
      WorkflowService_ResetWorkflowExecution_Result.BadRequestError = b1 y,
      WorkflowService_ResetWorkflowExecution_Result.InternalServiceError = b2 y,
      WorkflowService_ResetWorkflowExecution_Result.EntityNotExistError = b3 y,
      WorkflowService_ResetWorkflowExecution_Result.ServiceBusyError = b4 y,
      WorkflowService_ResetWorkflowExecution_Result.DomainNotActiveError = b5 y,
      WorkflowService_ResetWorkflowExecution_Result.LimitExceededError = b6 y,
      WorkflowService_ResetWorkflowExecution_Result.ClientVersionNotSupportedError = b7 y\<rparr>) =
   Inr \<lparr>WorkflowService_ResetWorkflowExecution_Result.Success = (case x of None \<Rightarrow> a0 | Some y \<Rightarrow> b0
       y), WorkflowService_ResetWorkflowExecution_Result.BadRequestError = (case x of None \<Rightarrow> a1 |
       Some y \<Rightarrow> b1 y), WorkflowService_ResetWorkflowExecution_Result.InternalServiceError = (case x
       of None \<Rightarrow> a2 | Some y \<Rightarrow> b2 y),
       WorkflowService_ResetWorkflowExecution_Result.EntityNotExistError = (case x of None \<Rightarrow> a3 |
       Some y \<Rightarrow> b3 y), WorkflowService_ResetWorkflowExecution_Result.ServiceBusyError = (case x of
       None \<Rightarrow> a4 | Some y \<Rightarrow> b4 y),
       WorkflowService_ResetWorkflowExecution_Result.DomainNotActiveError = (case x of None \<Rightarrow> a5 |
       Some y \<Rightarrow> b5 y), WorkflowService_ResetWorkflowExecution_Result.LimitExceededError = (case x of
       None \<Rightarrow> a6 | Some y \<Rightarrow> b6 y),
       WorkflowService_ResetWorkflowExecution_Result.ClientVersionNotSupportedError = (case x of
       None \<Rightarrow> a7 | Some y \<Rightarrow> b7 y)\<rparr>"
  by (cases x) simp_all

interpretation WorkflowService_ResetWorkflowExecution_Result: thrift_struct W
  "WorkflowService_ResetWorkflowExecution_Result_ToWire W"
      "WorkflowService_ResetWorkflowExecution_Result_FromWire W"
  WorkflowService_ResetWorkflowExecution_Result_zero "\<lambda>r.
      WorkflowService_ResetWorkflowExecution_Result_count r = 1" for W
proof (rule thrift_checked_plainI)
  fix x :: WorkflowService_ResetWorkflowExecution_Result
  assume laws: "wire_laws W"
  obtain enc0 where e0: "ResetWorkflowExecutionResponse_ToWire W = (\<lambda>x. Inr (enc0 x))"
      "\<And>x. wire_api.Type W (enc0 x) = TStruct"
      "\<And>x. Writable W (enc0 x) \<longleftrightarrow> (\<lambda>_. True) x"
      "\<And>x. (\<lambda>_. True) x \<Longrightarrow> ResetWorkflowExecutionResponse_FromWire W (enc0 x)
          ResetWorkflowExecutionResponse_zero = Inr x"
    by (rule ResetWorkflowExecutionResponse.encoder [OF laws]) (rule that)
  obtain enc1 where e1: "BadRequestError_ToWire W = (\<lambda>x. Inr (enc1 x))"
      "\<And>x. wire_api.Type W (enc1 x) = TStruct"
      "\<And>x. Writable W (enc1 x) \<longleftrightarrow> (\<lambda>_. True) x"
      "\<And>x. (\<lambda>_. True) x \<Longrightarrow> BadRequestError_FromWire W (enc1 x) BadRequestError_zero = Inr x"
    by (rule BadRequestError.encoder [OF laws]) (rule that)
  obtain enc2 where e2: "InternalServiceError_ToWire W = (\<lambda>x. Inr (enc2 x))"
      "\<And>x. wire_api.Type W (enc2 x) = TStruct"
      "\<And>x. Writable W (enc2 x) \<longleftrightarrow> (\<lambda>_. True) x"
      "\<And>x. (\<lambda>_. True) x \<Longrightarrow> InternalServiceError_FromWire W (enc2 x) InternalServiceError_zero = Inr
          x"
    by (rule InternalServiceError.encoder [OF laws]) (rule that)
  obtain enc3 where e3: "EntityNotExistsError_ToWire W = (\<lambda>x. Inr (enc3 x))"
      "\<And>x. wire_api.Type W (enc3 x) = TStruct"
      "\<And>x. Writable W (enc3 x) \<longleftrightarrow> (\<lambda>_. True) x"
      "\<And>x. (\<lambda>_. True) x \<Longrightarrow> EntityNotExistsError_FromWire W (enc3 x) EntityNotExistsError_zero = Inr
          x"
    by (rule EntityNotExistsError.encoder [OF laws]) (rule that)
  obtain enc4 where e4: "ServiceBusyError_ToWire W = (\<lambda>x. Inr (enc4 x))"
      "\<And>x. wire_api.Type W (enc4 x) = TStruct"
      "\<And>x. Writable W (enc4 x) \<longleftrightarrow> (\<lambda>_. True) x"
      "\<And>x. (\<lambda>_. True) x \<Longrightarrow> ServiceBusyError_FromWire W (enc4 x) ServiceBusyError_zero = Inr x"
    by (rule ServiceBusyError.encoder [OF laws]) (rule that)
  obtain enc5 where e5: "DomainNotActiveError_ToWire W = (\<lambda>x. Inr (enc5 x))"
      "\<And>x. wire_api.Type W (enc5 x) = TStruct"
      "\<And>x. Writable W (enc5 x) \<longleftrightarrow> (\<lambda>_. True) x"
      "\<And>x. (\<lambda>_. True) x \<Longrightarrow> DomainNotActiveError_FromWire W (enc5 x) DomainNotActiveError_zero = Inr
          x"
    by (rule DomainNotActiveError.encoder [OF laws]) (rule that)
  obtain enc6 where e6: "LimitExceededError_ToWire W = (\<lambda>x. Inr (enc6 x))"
      "\<And>x. wire_api.Type W (enc6 x) = TStruct"
      "\<And>x. Writable W (enc6 x) \<longleftrightarrow> (\<lambda>_. True) x"
      "\<And>x. (\<lambda>_. True) x \<Longrightarrow> LimitExceededError_FromWire W (enc6 x) LimitExceededError_zero = Inr x"
    by (rule LimitExceededError.encoder [OF laws]) (rule that)
  obtain enc7 where e7: "ClientVersionNotSupportedError_ToWire W = (\<lambda>x. Inr (enc7 x))"
      "\<And>x. wire_api.Type W (enc7 x) = TStruct"
      "\<And>x. Writable W (enc7 x) \<longleftrightarrow> (\<lambda>_. True) x"
      "\<And>x. (\<lambda>_. True) x \<Longrightarrow> ClientVersionNotSupportedError_FromWire W (enc7 x)
          ClientVersionNotSupportedError_zero = Inr x"
    by (rule ClientVersionNotSupportedError.encoder [OF laws]) (rule that)
  let ?fs = "((((((opt_field 0 enc0 (WorkflowService_ResetWorkflowExecution_Result.Success x) @
      opt_field 1 enc1 (WorkflowService_ResetWorkflowExecution_Result.BadRequestError x)) @
      opt_field 2 enc2 (WorkflowService_ResetWorkflowExecution_Result.InternalServiceError x)) @
      opt_field 3 enc3 (WorkflowService_ResetWorkflowExecution_Result.EntityNotExistError x)) @
      opt_field 4 enc4 (WorkflowService_ResetWorkflowExecution_Result.ServiceBusyError x)) @
      opt_field 5 enc5 (WorkflowService_ResetWorkflowExecution_Result.DomainNotActiveError x)) @
      opt_field 6 enc6 (WorkflowService_ResetWorkflowExecution_Result.LimitExceededError x)) @
      opt_field 7 enc7 (WorkflowService_ResetWorkflowExecution_Result.ClientVersionNotSupportedError
          x)"
  let ?check = "\<lambda>r. if WorkflowService_ResetWorkflowExecution_Result_count x \<noteq> 1 then Inl (E_Errorf
      ''WorkflowService_ResetWorkflowExecution_Result should have exactly one field: got %v fields''
          (WorkflowService_ResetWorkflowExecution_Result_count x)) else Inr r"
  have "length ?fs = WorkflowService_ResetWorkflowExecution_Result_count x"
    by (simp add: WorkflowService_ResetWorkflowExecution_Result_count_def length_opt_field split
        del: if_split)
  then have "WorkflowService_ResetWorkflowExecution_Result_ToWire W x = ?check (NewValueStruct W
      ?fs)"
    by (simp only: WorkflowService_ResetWorkflowExecution_Result_ToWire_def put_opt_field
        and_then.simps append_Nil e0(1) e1(1) e2(1) e3(1) e4(1) e5(1) e6(1) e7(1))
  moreover have "WorkflowService_ResetWorkflowExecution_Result_FromWire W (NewValueStruct W ?fs)
      WorkflowService_ResetWorkflowExecution_Result_zero = ?check x"
    by (cases x, hypsubst) (simp cong: option.case_cong split del: if_split add: codec_rules Let_def
        WorkflowService_ResetWorkflowExecution_Result_merge
      WorkflowService_ResetWorkflowExecution_Result_FromWire_def
          WorkflowService_ResetWorkflowExecution_Result_zero_def laws
      BadRequestError_Read_def
      ClientVersionNotSupportedError_Read_def
      DomainNotActiveError_Read_def
      EntityNotExistsError_Read_def
      InternalServiceError_Read_def
      LimitExceededError_Read_def
      ResetWorkflowExecutionResponse_Read_def
      ServiceBusyError_Read_def
      e0 e1 e2 e3 e4 e5 e6 e7)
  ultimately show "if WorkflowService_ResetWorkflowExecution_Result_count x = 1
      then \<exists>w. WorkflowService_ResetWorkflowExecution_Result_ToWire W x = Inr w \<and> wire_api.Type W w
          = TStruct \<and>
        Writable W w \<and> WorkflowService_ResetWorkflowExecution_Result_FromWire W w
            WorkflowService_ResetWorkflowExecution_Result_zero = Inr x
      else \<exists>e. WorkflowService_ResetWorkflowExecution_Result_ToWire W x = Inl e"
    by (simp add: laws codec_rules e0 e1 e2 e3 e4 e5 e6 e7)
qed

interpretation ResetWorkflowExecution: rpc_method W
  "WorkflowService_ResetWorkflowExecution_Args_ToWire W"
      "WorkflowService_ResetWorkflowExecution_Args_FromWire W"
      WorkflowService_ResetWorkflowExecution_Args_zero "\<lambda>x. True"
  "WorkflowService_ResetWorkflowExecution_Result_ToWire W"
      "WorkflowService_ResetWorkflowExecution_Result_FromWire W"
      WorkflowService_ResetWorkflowExecution_Result_zero
  "\<lambda>r. WorkflowService_ResetWorkflowExecution_Result_count r = 1" "''ResetWorkflowExecution''"
  WorkflowService_ResetWorkflowExecution_Helper_Args
      "WorkflowService_ResetWorkflowExecution_Args.ResetRequest"
  "\<lambda>(success, err). WorkflowService_ResetWorkflowExecution_Helper_WrapResponse success err"
      WorkflowService_ResetWorkflowExecution_Helper_UnwrapResponse
  "\<lambda>out. snd out \<noteq> None" "carried (\<lambda>_. True)
      WorkflowService_ResetWorkflowExecution_Helper_IsException" error_first "\<lambda>e. (None, Some e)"
  "handler_ResetWorkflowExecution W" "client_ResetWorkflowExecution W" for W
proof
  fix out :: "ResetWorkflowExecutionResponse option \<times> go_error option"
  assume "carried (\<lambda>_. True) WorkflowService_ResetWorkflowExecution_Helper_IsException out"
  then show "case (\<lambda>(success, err). WorkflowService_ResetWorkflowExecution_Helper_WrapResponse
      success err) out of Inl e \<Rightarrow> False
      | Inr res \<Rightarrow> (WorkflowService_ResetWorkflowExecution_Result_count res = 1) \<and>
          WorkflowService_ResetWorkflowExecution_Helper_UnwrapResponse res = error_first out"
    by (cases out; cases "snd out"; cases "the (snd out)")
      (auto simp: WorkflowService_ResetWorkflowExecution_Helper_IsException_def
          WorkflowService_ResetWorkflowExecution_Helper_WrapResponse_def
          WorkflowService_ResetWorkflowExecution_Helper_UnwrapResponse_def
        declared_nonnil_def WorkflowService_ResetWorkflowExecution_Result_zero_def
            WorkflowService_ResetWorkflowExecution_Result_count_def elim!: present.elims)
next
  fix out :: "ResetWorkflowExecutionResponse option \<times> go_error option"
  assume "\<not> carried (\<lambda>_. True) WorkflowService_ResetWorkflowExecution_Helper_IsException out"
  then show "case (\<lambda>(success, err). WorkflowService_ResetWorkflowExecution_Helper_WrapResponse
      success err) out of Inl e \<Rightarrow> True
      | Inr res \<Rightarrow> \<not> (WorkflowService_ResetWorkflowExecution_Result_count res = 1)"
    by (cases out; cases "snd out"; cases "the (snd out)")
      (auto simp: WorkflowService_ResetWorkflowExecution_Helper_IsException_def
          WorkflowService_ResetWorkflowExecution_Helper_WrapResponse_def declared_nonnil_def
        WorkflowService_ResetWorkflowExecution_Result_count_def
            WorkflowService_ResetWorkflowExecution_Result_zero_def split: option.splits)
qed (auto simp: WorkflowService_ResetWorkflowExecution_Helper_Args_def
    handler_ResetWorkflowExecution_def client_ResetWorkflowExecution_def
      WorkflowService_ResetWorkflowExecution_Args_enveloper_def
          WorkflowService_ResetWorkflowExecution_Result_enveloper_def
      Let_def split: sum.splits prod.splits)

section \<open>GetWorkflowExecutionHistory\<close>

record WorkflowService_GetWorkflowExecutionHistory_Args =
  GetRequest :: "GetWorkflowExecutionHistoryRequest option"

definition WorkflowService_GetWorkflowExecutionHistory_Args_zero ::
    WorkflowService_GetWorkflowExecutionHistory_Args where
  "WorkflowService_GetWorkflowExecutionHistory_Args_zero =
      \<lparr>WorkflowService_GetWorkflowExecutionHistory_Args.GetRequest = None\<rparr>"

definition WorkflowService_GetWorkflowExecutionHistory_Args_ToWire ::
  "'v wire_api \<Rightarrow> WorkflowService_GetWorkflowExecutionHistory_Args \<Rightarrow> go_error + 'v" where
  "WorkflowService_GetWorkflowExecutionHistory_Args_ToWire W v =
     and_then (put_opt 1 (GetWorkflowExecutionHistoryRequest_ToWire W)
         (WorkflowService_GetWorkflowExecutionHistory_Args.GetRequest v) [])
       (\<lambda>fields.
     Inr (NewValueStruct W fields))"

definition WorkflowService_GetWorkflowExecutionHistory_Args_FromWire ::
  "'v wire_api \<Rightarrow> 'v \<Rightarrow> WorkflowService_GetWorkflowExecutionHistory_Args \<Rightarrow> go_error +
      WorkflowService_GetWorkflowExecutionHistory_Args" where
  "WorkflowService_GetWorkflowExecutionHistory_Args_FromWire W w v =
     foldM (\<lambda>v (fid, fval).
       if fid = 1 then
         if wire_api.Type W fval = TStruct
         then and_then (GetWorkflowExecutionHistoryRequest_Read W fval) (\<lambda>x. Inr
             (v\<lparr>WorkflowService_GetWorkflowExecutionHistory_Args.GetRequest := Some x\<rparr>))
         else Inr v
       else Inr v) (GetStruct W w) v"

definition WorkflowService_GetWorkflowExecutionHistory_Args_enveloper ::
  "'v wire_api \<Rightarrow> WorkflowService_GetWorkflowExecutionHistory_Args \<Rightarrow> 'v enveloper" where
  "WorkflowService_GetWorkflowExecutionHistory_Args_enveloper W v =
     \<lparr>MethodName = ''GetWorkflowExecutionHistory'', EnvelopeType = Call, EnvelopeToWire =
         WorkflowService_GetWorkflowExecutionHistory_Args_ToWire W v\<rparr>"

definition WorkflowService_GetWorkflowExecutionHistory_Args_Equals ::
  "WorkflowService_GetWorkflowExecutionHistory_Args option \<Rightarrow>
      WorkflowService_GetWorkflowExecutionHistory_Args option \<Rightarrow> bool" where
  "WorkflowService_GetWorkflowExecutionHistory_Args_Equals v rhs =
     (case v of None \<Rightarrow> rhs = None
      | Some v \<Rightarrow> (case rhs of None \<Rightarrow> False
        | Some rhs \<Rightarrow>
          if \<not> both_set_and (\<lambda>x y. GetWorkflowExecutionHistoryRequest_Equals (Some x) (Some y))
              (WorkflowService_GetWorkflowExecutionHistory_Args.GetRequest v)
              (WorkflowService_GetWorkflowExecutionHistory_Args.GetRequest rhs) then False else
          True))"

lemma WorkflowService_GetWorkflowExecutionHistory_Args_Equals_iff [simp]:
    "WorkflowService_GetWorkflowExecutionHistory_Args_Equals x y \<longleftrightarrow> x = y"
  by (cases x; cases y) (auto simp: WorkflowService_GetWorkflowExecutionHistory_Args_Equals_def)

record WorkflowService_GetWorkflowExecutionHistory_Result =
  Success :: "GetWorkflowExecutionHistoryResponse option"
  BadRequestError :: "BadRequestError option"
  InternalServiceError :: "InternalServiceError option"
  EntityNotExistError :: "EntityNotExistsError option"
  ServiceBusyError :: "ServiceBusyError option"
  ClientVersionNotSupportedError :: "ClientVersionNotSupportedError option"

definition WorkflowService_GetWorkflowExecutionHistory_Result_count ::
    "WorkflowService_GetWorkflowExecutionHistory_Result \<Rightarrow> nat" where
  "WorkflowService_GetWorkflowExecutionHistory_Result_count v =
     (if WorkflowService_GetWorkflowExecutionHistory_Result.Success v \<noteq> None then 1 else 0) +
     (if WorkflowService_GetWorkflowExecutionHistory_Result.BadRequestError v \<noteq> None then 1 else 0)
         +
     (if WorkflowService_GetWorkflowExecutionHistory_Result.InternalServiceError v \<noteq> None then 1
         else 0) +
     (if WorkflowService_GetWorkflowExecutionHistory_Result.EntityNotExistError v \<noteq> None then 1 else
         0) +
     (if WorkflowService_GetWorkflowExecutionHistory_Result.ServiceBusyError v \<noteq> None then 1 else 0)
         +
     (if WorkflowService_GetWorkflowExecutionHistory_Result.ClientVersionNotSupportedError v \<noteq> None
         then 1 else 0)"

definition WorkflowService_GetWorkflowExecutionHistory_Result_zero ::
    WorkflowService_GetWorkflowExecutionHistory_Result where
  "WorkflowService_GetWorkflowExecutionHistory_Result_zero =
      \<lparr>WorkflowService_GetWorkflowExecutionHistory_Result.Success = None,
      WorkflowService_GetWorkflowExecutionHistory_Result.BadRequestError = None,
      WorkflowService_GetWorkflowExecutionHistory_Result.InternalServiceError = None,
      WorkflowService_GetWorkflowExecutionHistory_Result.EntityNotExistError = None,
      WorkflowService_GetWorkflowExecutionHistory_Result.ServiceBusyError = None,
      WorkflowService_GetWorkflowExecutionHistory_Result.ClientVersionNotSupportedError = None\<rparr>"

definition WorkflowService_GetWorkflowExecutionHistory_Result_ToWire ::
  "'v wire_api \<Rightarrow> WorkflowService_GetWorkflowExecutionHistory_Result \<Rightarrow> go_error + 'v" where
  "WorkflowService_GetWorkflowExecutionHistory_Result_ToWire W v =
     and_then (put_opt 0 (GetWorkflowExecutionHistoryResponse_ToWire W)
         (WorkflowService_GetWorkflowExecutionHistory_Result.Success v) [])
       (\<lambda>fields.
     and_then (put_opt 1 (BadRequestError_ToWire W)
         (WorkflowService_GetWorkflowExecutionHistory_Result.BadRequestError v) fields)
       (\<lambda>fields.
     and_then (put_opt 2 (InternalServiceError_ToWire W)
         (WorkflowService_GetWorkflowExecutionHistory_Result.InternalServiceError v) fields)
       (\<lambda>fields.
     and_then (put_opt 3 (EntityNotExistsError_ToWire W)
         (WorkflowService_GetWorkflowExecutionHistory_Result.EntityNotExistError v) fields)
       (\<lambda>fields.
     and_then (put_opt 4 (ServiceBusyError_ToWire W)
         (WorkflowService_GetWorkflowExecutionHistory_Result.ServiceBusyError v) fields)
       (\<lambda>fields.
     and_then (put_opt 5 (ClientVersionNotSupportedError_ToWire W)
         (WorkflowService_GetWorkflowExecutionHistory_Result.ClientVersionNotSupportedError v)
         fields)
       (\<lambda>fields.
     if length fields \<noteq> 1
     then Inl (E_Errorf
         ''WorkflowService_GetWorkflowExecutionHistory_Result should have exactly one field: got %v fields'' (length fields))
     else Inr (NewValueStruct W fields)))))))"

definition WorkflowService_GetWorkflowExecutionHistory_Result_FromWire ::
  "'v wire_api \<Rightarrow> 'v \<Rightarrow> WorkflowService_GetWorkflowExecutionHistory_Result \<Rightarrow> go_error +
      WorkflowService_GetWorkflowExecutionHistory_Result" where
  "WorkflowService_GetWorkflowExecutionHistory_Result_FromWire W w v =
     and_then (foldM (\<lambda>v (fid, fval).
       if fid = 0 then
         if wire_api.Type W fval = TStruct
         then and_then (GetWorkflowExecutionHistoryResponse_Read W fval) (\<lambda>x. Inr
             (v\<lparr>WorkflowService_GetWorkflowExecutionHistory_Result.Success := Some x\<rparr>))
         else Inr v
       else if fid = 1 then
         if wire_api.Type W fval = TStruct
         then and_then (BadRequestError_Read W fval) (\<lambda>x. Inr
             (v\<lparr>WorkflowService_GetWorkflowExecutionHistory_Result.BadRequestError := Some x\<rparr>))
         else Inr v
       else if fid = 2 then
         if wire_api.Type W fval = TStruct
         then and_then (InternalServiceError_Read W fval) (\<lambda>x. Inr
             (v\<lparr>WorkflowService_GetWorkflowExecutionHistory_Result.InternalServiceError := Some x\<rparr>))
         else Inr v
       else if fid = 3 then
         if wire_api.Type W fval = TStruct
         then and_then (EntityNotExistsError_Read W fval) (\<lambda>x. Inr
             (v\<lparr>WorkflowService_GetWorkflowExecutionHistory_Result.EntityNotExistError := Some x\<rparr>))
         else Inr v
       else if fid = 4 then
         if wire_api.Type W fval = TStruct
         then and_then (ServiceBusyError_Read W fval) (\<lambda>x. Inr
             (v\<lparr>WorkflowService_GetWorkflowExecutionHistory_Result.ServiceBusyError := Some x\<rparr>))
         else Inr v
       else if fid = 5 then
         if wire_api.Type W fval = TStruct
         then and_then (ClientVersionNotSupportedError_Read W fval) (\<lambda>x. Inr
             (v\<lparr>WorkflowService_GetWorkflowExecutionHistory_Result.ClientVersionNotSupportedError :=
             Some x\<rparr>))
         else Inr v
       else Inr v) (GetStruct W w) v) (\<lambda>v.
     let count = WorkflowService_GetWorkflowExecutionHistory_Result_count v in
     if count \<noteq> 1
     then Inl (E_Errorf
         ''WorkflowService_GetWorkflowExecutionHistory_Result should have exactly one field: got %v fields'' count)
     else Inr v)"

definition WorkflowService_GetWorkflowExecutionHistory_Result_enveloper ::
  "'v wire_api \<Rightarrow> WorkflowService_GetWorkflowExecutionHistory_Result \<Rightarrow> 'v enveloper" where
  "WorkflowService_GetWorkflowExecutionHistory_Result_enveloper W v =
     \<lparr>MethodName = ''GetWorkflowExecutionHistory'', EnvelopeType = Reply, EnvelopeToWire =
         WorkflowService_GetWorkflowExecutionHistory_Result_ToWire W v\<rparr>"

definition WorkflowService_GetWorkflowExecutionHistory_Result_Equals ::
  "WorkflowService_GetWorkflowExecutionHistory_Result option \<Rightarrow>
      WorkflowService_GetWorkflowExecutionHistory_Result option \<Rightarrow> bool" where
  "WorkflowService_GetWorkflowExecutionHistory_Result_Equals v rhs =
     (case v of None \<Rightarrow> rhs = None
      | Some v \<Rightarrow> (case rhs of None \<Rightarrow> False
        | Some rhs \<Rightarrow>
          if \<not> both_set_and (\<lambda>x y. GetWorkflowExecutionHistoryResponse_Equals (Some x) (Some y))
              (WorkflowService_GetWorkflowExecutionHistory_Result.Success v)
              (WorkflowService_GetWorkflowExecutionHistory_Result.Success rhs) then False else
          if \<not> both_set_and (\<lambda>x y. BadRequestError_Equals (Some x) (Some y))
              (WorkflowService_GetWorkflowExecutionHistory_Result.BadRequestError v)
              (WorkflowService_GetWorkflowExecutionHistory_Result.BadRequestError rhs) then False
              else
          if \<not> both_set_and (\<lambda>x y. InternalServiceError_Equals (Some x) (Some y))
              (WorkflowService_GetWorkflowExecutionHistory_Result.InternalServiceError v)
              (WorkflowService_GetWorkflowExecutionHistory_Result.InternalServiceError rhs) then
              False else
          if \<not> both_set_and (\<lambda>x y. EntityNotExistsError_Equals (Some x) (Some y))
              (WorkflowService_GetWorkflowExecutionHistory_Result.EntityNotExistError v)
              (WorkflowService_GetWorkflowExecutionHistory_Result.EntityNotExistError rhs) then
              False else
          if \<not> both_set_and (\<lambda>x y. ServiceBusyError_Equals (Some x) (Some y))
              (WorkflowService_GetWorkflowExecutionHistory_Result.ServiceBusyError v)
              (WorkflowService_GetWorkflowExecutionHistory_Result.ServiceBusyError rhs) then False
              else
          if \<not> both_set_and (\<lambda>x y. ClientVersionNotSupportedError_Equals (Some x) (Some y))
              (WorkflowService_GetWorkflowExecutionHistory_Result.ClientVersionNotSupportedError v)
              (WorkflowService_GetWorkflowExecutionHistory_Result.ClientVersionNotSupportedError
              rhs) then False else
          True))"

definition WorkflowService_GetWorkflowExecutionHistory_Result_comparable ::
    "WorkflowService_GetWorkflowExecutionHistory_Result \<Rightarrow> bool" where
  "WorkflowService_GetWorkflowExecutionHistory_Result_comparable v \<longleftrightarrow>
     if_set GetWorkflowExecutionHistoryResponse_comparable
         (WorkflowService_GetWorkflowExecutionHistory_Result.Success v)"

lemma WorkflowService_GetWorkflowExecutionHistory_Result_Equals_iff:
  "if_set WorkflowService_GetWorkflowExecutionHistory_Result_comparable x \<Longrightarrow> if_set
      WorkflowService_GetWorkflowExecutionHistory_Result_comparable y \<Longrightarrow>
      WorkflowService_GetWorkflowExecutionHistory_Result_Equals x y \<longleftrightarrow> x = y"
  by (cases x; cases y) (simp_all add: WorkflowService_GetWorkflowExecutionHistory_Result_Equals_def
      WorkflowService_GetWorkflowExecutionHistory_Result_comparable_def if_not_False,
    fastforce intro: WorkflowService_GetWorkflowExecutionHistory_Result.equality)

lemma WorkflowService_GetWorkflowExecutionHistory_Result_fields_equal [simp]:
  "if_set WorkflowService_GetWorkflowExecutionHistory_Result_comparable x \<Longrightarrow> if_set
      WorkflowService_GetWorkflowExecutionHistory_Result_comparable y \<Longrightarrow>
    both_set_and (\<lambda>x y. WorkflowService_GetWorkflowExecutionHistory_Result_Equals (Some x) (Some y))
        x y \<longleftrightarrow> x = y"
  by (rule both_set_and_iff [where P =
      WorkflowService_GetWorkflowExecutionHistory_Result_comparable]) (simp_all add:
      WorkflowService_GetWorkflowExecutionHistory_Result_Equals_iff)

definition WorkflowService_GetWorkflowExecutionHistory_Helper_Args ::
    "GetWorkflowExecutionHistoryRequest option \<Rightarrow> WorkflowService_GetWorkflowExecutionHistory_Args"
    where
  "WorkflowService_GetWorkflowExecutionHistory_Helper_Args r =
      \<lparr>WorkflowService_GetWorkflowExecutionHistory_Args.GetRequest = r\<rparr>"

definition WorkflowService_GetWorkflowExecutionHistory_Helper_IsException :: "go_error \<Rightarrow> bool" where
  "WorkflowService_GetWorkflowExecutionHistory_Helper_IsException err =
     (case err of
        E_BadRequestError _ \<Rightarrow> True
      | E_InternalServiceError _ \<Rightarrow> True
      | E_EntityNotExistsError _ \<Rightarrow> True
      | E_ServiceBusyError _ \<Rightarrow> True
      | E_ClientVersionNotSupportedError _ \<Rightarrow> True
      | _ \<Rightarrow> False)"

definition WorkflowService_GetWorkflowExecutionHistory_Helper_WrapResponse ::
  "GetWorkflowExecutionHistoryResponse option \<Rightarrow> go_error option \<Rightarrow> go_error +
      WorkflowService_GetWorkflowExecutionHistory_Result" where
  "WorkflowService_GetWorkflowExecutionHistory_Helper_WrapResponse success err =
     (case err of None \<Rightarrow> Inr
         (WorkflowService_GetWorkflowExecutionHistory_Result_zero\<lparr>WorkflowService_GetWorkflowExecutionHistory_Result.Success := success\<rparr>)
      | Some err \<Rightarrow> (case err of
          E_BadRequestError e \<Rightarrow> (case e of
              None \<Rightarrow> Inl (E_New
                  ''WrapResponse received non-nil error type with nil value for WorkflowService_GetWorkflowExecutionHistory_Result.BadRequestError'')
            | Some e \<Rightarrow> Inr
                (WorkflowService_GetWorkflowExecutionHistory_Result_zero\<lparr>WorkflowService_GetWorkflowExecutionHistory_Result.BadRequestError := Some e\<rparr>))
        | E_InternalServiceError e \<Rightarrow> (case e of
              None \<Rightarrow> Inl (E_New
                  ''WrapResponse received non-nil error type with nil value for WorkflowService_GetWorkflowExecutionHistory_Result.InternalServiceError'')
            | Some e \<Rightarrow> Inr
                (WorkflowService_GetWorkflowExecutionHistory_Result_zero\<lparr>WorkflowService_GetWorkflowExecutionHistory_Result.InternalServiceError := Some e\<rparr>))
        | E_EntityNotExistsError e \<Rightarrow> (case e of
              None \<Rightarrow> Inl (E_New
                  ''WrapResponse received non-nil error type with nil value for WorkflowService_GetWorkflowExecutionHistory_Result.EntityNotExistError'')
            | Some e \<Rightarrow> Inr
                (WorkflowService_GetWorkflowExecutionHistory_Result_zero\<lparr>WorkflowService_GetWorkflowExecutionHistory_Result.EntityNotExistError := Some e\<rparr>))
        | E_ServiceBusyError e \<Rightarrow> (case e of
              None \<Rightarrow> Inl (E_New
                  ''WrapResponse received non-nil error type with nil value for WorkflowService_GetWorkflowExecutionHistory_Result.ServiceBusyError'')
            | Some e \<Rightarrow> Inr
                (WorkflowService_GetWorkflowExecutionHistory_Result_zero\<lparr>WorkflowService_GetWorkflowExecutionHistory_Result.ServiceBusyError := Some e\<rparr>))
        | E_ClientVersionNotSupportedError e \<Rightarrow> (case e of
              None \<Rightarrow> Inl (E_New
                  ''WrapResponse received non-nil error type with nil value for WorkflowService_GetWorkflowExecutionHistory_Result.ClientVersionNotSupportedError'')
            | Some e \<Rightarrow> Inr
                (WorkflowService_GetWorkflowExecutionHistory_Result_zero\<lparr>WorkflowService_GetWorkflowExecutionHistory_Result.ClientVersionNotSupportedError := Some e\<rparr>))
        | _ \<Rightarrow> Inl err))"

definition WorkflowService_GetWorkflowExecutionHistory_Helper_UnwrapResponse ::
  "WorkflowService_GetWorkflowExecutionHistory_Result \<Rightarrow> GetWorkflowExecutionHistoryResponse option \<times>
      go_error option" where
  "WorkflowService_GetWorkflowExecutionHistory_Helper_UnwrapResponse result =
    (if WorkflowService_GetWorkflowExecutionHistory_Result.BadRequestError result \<noteq> None then (None,
        Some (E_BadRequestError (WorkflowService_GetWorkflowExecutionHistory_Result.BadRequestError
        result))) else
     if WorkflowService_GetWorkflowExecutionHistory_Result.InternalServiceError result \<noteq> None then
         (None, Some (E_InternalServiceError
         (WorkflowService_GetWorkflowExecutionHistory_Result.InternalServiceError result))) else
     if WorkflowService_GetWorkflowExecutionHistory_Result.EntityNotExistError result \<noteq> None then
         (None, Some (E_EntityNotExistsError
         (WorkflowService_GetWorkflowExecutionHistory_Result.EntityNotExistError result))) else
     if WorkflowService_GetWorkflowExecutionHistory_Result.ServiceBusyError result \<noteq> None then
         (None, Some (E_ServiceBusyError
         (WorkflowService_GetWorkflowExecutionHistory_Result.ServiceBusyError result))) else
     if WorkflowService_GetWorkflowExecutionHistory_Result.ClientVersionNotSupportedError result \<noteq>
         None then (None, Some (E_ClientVersionNotSupportedError
         (WorkflowService_GetWorkflowExecutionHistory_Result.ClientVersionNotSupportedError
         result))) else
     if WorkflowService_GetWorkflowExecutionHistory_Result.Success result \<noteq> None then
         (WorkflowService_GetWorkflowExecutionHistory_Result.Success result, None) else
     (None, Some (E_New ''expected a non-void result'')))"

definition handler_GetWorkflowExecutionHistory ::
  "'v wire_api \<Rightarrow> ('ctx \<Rightarrow> GetWorkflowExecutionHistoryRequest option \<Rightarrow>
      GetWorkflowExecutionHistoryResponse option \<times> go_error option) \<Rightarrow>
   ('ctx, 'v) unary_handler" where
  "handler_GetWorkflowExecutionHistory W impl ctx body =
     (case WorkflowService_GetWorkflowExecutionHistory_Args_FromWire W body
         WorkflowService_GetWorkflowExecutionHistory_Args_zero of
      Inl err \<Rightarrow> (no_response, Some err)
    | Inr args \<Rightarrow>
      let (success, err) = impl ctx (WorkflowService_GetWorkflowExecutionHistory_Args.GetRequest
          args);
          hadError = (err \<noteq> None)
      in case WorkflowService_GetWorkflowExecutionHistory_Helper_WrapResponse success err of
           Inl err \<Rightarrow> (no_response, Some err)
         | Inr result \<Rightarrow>
             (\<lparr>Body = Some (WorkflowService_GetWorkflowExecutionHistory_Result_enveloper W result),
               IsApplicationError = hadError\<rparr>, None))"

definition client_GetWorkflowExecutionHistory ::
  "'v wire_api \<Rightarrow> ('ctx, 'v) thrift_client \<Rightarrow> 'ctx \<Rightarrow> GetWorkflowExecutionHistoryRequest option \<Rightarrow>
   GetWorkflowExecutionHistoryResponse option \<times> go_error option" where
  "client_GetWorkflowExecutionHistory W call ctx r =
     (let args = WorkflowService_GetWorkflowExecutionHistory_Helper_Args r in
      case call ctx (WorkflowService_GetWorkflowExecutionHistory_Args_enveloper W args) of
        Inl e \<Rightarrow> (None, Some e)
      | Inr body \<Rightarrow>
          (case WorkflowService_GetWorkflowExecutionHistory_Result_FromWire W body
              WorkflowService_GetWorkflowExecutionHistory_Result_zero of
             Inl e \<Rightarrow> (None, Some e)
           | Inr result \<Rightarrow> WorkflowService_GetWorkflowExecutionHistory_Helper_UnwrapResponse
               result))"

lemma WorkflowService_GetWorkflowExecutionHistory_Args_merge:
  "(case x of None \<Rightarrow> Inr \<lparr>WorkflowService_GetWorkflowExecutionHistory_Args.GetRequest = a0\<rparr> | Some y
      \<Rightarrow> Inr \<lparr>WorkflowService_GetWorkflowExecutionHistory_Args.GetRequest = b0 y\<rparr>) =
   Inr \<lparr>WorkflowService_GetWorkflowExecutionHistory_Args.GetRequest = (case x of None \<Rightarrow> a0 | Some y
       \<Rightarrow> b0 y)\<rparr>"
  by (cases x) simp_all

interpretation WorkflowService_GetWorkflowExecutionHistory_Args: thrift_struct W
  "WorkflowService_GetWorkflowExecutionHistory_Args_ToWire W"
      "WorkflowService_GetWorkflowExecutionHistory_Args_FromWire W"
  WorkflowService_GetWorkflowExecutionHistory_Args_zero "\<lambda>x. True" for W
proof (rule thrift_structI)
  fix x :: WorkflowService_GetWorkflowExecutionHistory_Args
  assume laws: "wire_laws W"
  obtain enc0 where e0: "GetWorkflowExecutionHistoryRequest_ToWire W = (\<lambda>x. Inr (enc0 x))"
      "\<And>x. wire_api.Type W (enc0 x) = TStruct"
      "\<And>x. Writable W (enc0 x) \<longleftrightarrow> (\<lambda>_. True) x"
      "\<And>x. (\<lambda>_. True) x \<Longrightarrow> GetWorkflowExecutionHistoryRequest_FromWire W (enc0 x)
          GetWorkflowExecutionHistoryRequest_zero = Inr x"
    by (rule GetWorkflowExecutionHistoryRequest.encoder [OF laws]) (rule that)
  show "\<exists>w. WorkflowService_GetWorkflowExecutionHistory_Args_ToWire W x = Inr w \<and> wire_api.Type W w
      = TStruct \<and>
      (Writable W w \<longleftrightarrow> True) \<and> (True \<longrightarrow> WorkflowService_GetWorkflowExecutionHistory_Args_FromWire W w
          WorkflowService_GetWorkflowExecutionHistory_Args_zero = Inr x)"
    by (cases x) (simp cong: option.case_cong add: codec_rules
        WorkflowService_GetWorkflowExecutionHistory_Args_merge
        WorkflowService_GetWorkflowExecutionHistory_Args_ToWire_def
        WorkflowService_GetWorkflowExecutionHistory_Args_FromWire_def
      WorkflowService_GetWorkflowExecutionHistory_Args_zero_def
          GetWorkflowExecutionHistoryRequest_Read_def if_set_def laws e0)
qed

lemma WorkflowService_GetWorkflowExecutionHistory_Result_merge:
  "(case x of None \<Rightarrow> Inr \<lparr>WorkflowService_GetWorkflowExecutionHistory_Result.Success = a0,
      WorkflowService_GetWorkflowExecutionHistory_Result.BadRequestError = a1,
      WorkflowService_GetWorkflowExecutionHistory_Result.InternalServiceError = a2,
      WorkflowService_GetWorkflowExecutionHistory_Result.EntityNotExistError = a3,
      WorkflowService_GetWorkflowExecutionHistory_Result.ServiceBusyError = a4,
      WorkflowService_GetWorkflowExecutionHistory_Result.ClientVersionNotSupportedError = a5\<rparr> | Some
      y \<Rightarrow> Inr \<lparr>WorkflowService_GetWorkflowExecutionHistory_Result.Success = b0 y,
      WorkflowService_GetWorkflowExecutionHistory_Result.BadRequestError = b1 y,
      WorkflowService_GetWorkflowExecutionHistory_Result.InternalServiceError = b2 y,
      WorkflowService_GetWorkflowExecutionHistory_Result.EntityNotExistError = b3 y,
      WorkflowService_GetWorkflowExecutionHistory_Result.ServiceBusyError = b4 y,
      WorkflowService_GetWorkflowExecutionHistory_Result.ClientVersionNotSupportedError = b5 y\<rparr>) =
   Inr \<lparr>WorkflowService_GetWorkflowExecutionHistory_Result.Success = (case x of None \<Rightarrow> a0 | Some y \<Rightarrow>
       b0 y), WorkflowService_GetWorkflowExecutionHistory_Result.BadRequestError = (case x of None \<Rightarrow>
       a1 | Some y \<Rightarrow> b1 y), WorkflowService_GetWorkflowExecutionHistory_Result.InternalServiceError
       = (case x of None \<Rightarrow> a2 | Some y \<Rightarrow> b2 y),
       WorkflowService_GetWorkflowExecutionHistory_Result.EntityNotExistError = (case x of None \<Rightarrow> a3
       | Some y \<Rightarrow> b3 y), WorkflowService_GetWorkflowExecutionHistory_Result.ServiceBusyError = (case
       x of None \<Rightarrow> a4 | Some y \<Rightarrow> b4 y),
       WorkflowService_GetWorkflowExecutionHistory_Result.ClientVersionNotSupportedError = (case x
       of None \<Rightarrow> a5 | Some y \<Rightarrow> b5 y)\<rparr>"
  by (cases x) simp_all

interpretation WorkflowService_GetWorkflowExecutionHistory_Result: thrift_struct W
  "WorkflowService_GetWorkflowExecutionHistory_Result_ToWire W"
      "WorkflowService_GetWorkflowExecutionHistory_Result_FromWire W"
  WorkflowService_GetWorkflowExecutionHistory_Result_zero "\<lambda>r.
      WorkflowService_GetWorkflowExecutionHistory_Result_count r = 1 \<and> if_set
      GetWorkflowExecutionHistoryResponse_complete
      (WorkflowService_GetWorkflowExecutionHistory_Result.Success r)" for W
proof (rule thrift_checkedI)
  fix x :: WorkflowService_GetWorkflowExecutionHistory_Result
  assume laws: "wire_laws W"
  obtain enc0 where e0: "GetWorkflowExecutionHistoryResponse_ToWire W = (\<lambda>x. Inr (enc0 x))"
      "\<And>x. wire_api.Type W (enc0 x) = TStruct"
      "\<And>x. Writable W (enc0 x) \<longleftrightarrow> GetWorkflowExecutionHistoryResponse_complete x"
      "\<And>x. GetWorkflowExecutionHistoryResponse_complete x \<Longrightarrow>
          GetWorkflowExecutionHistoryResponse_FromWire W (enc0 x)
          GetWorkflowExecutionHistoryResponse_zero = Inr x"
    by (rule GetWorkflowExecutionHistoryResponse.encoder [OF laws]) (rule that)
  obtain enc1 where e1: "BadRequestError_ToWire W = (\<lambda>x. Inr (enc1 x))"
      "\<And>x. wire_api.Type W (enc1 x) = TStruct"
      "\<And>x. Writable W (enc1 x) \<longleftrightarrow> (\<lambda>_. True) x"
      "\<And>x. (\<lambda>_. True) x \<Longrightarrow> BadRequestError_FromWire W (enc1 x) BadRequestError_zero = Inr x"
    by (rule BadRequestError.encoder [OF laws]) (rule that)
  obtain enc2 where e2: "InternalServiceError_ToWire W = (\<lambda>x. Inr (enc2 x))"
      "\<And>x. wire_api.Type W (enc2 x) = TStruct"
      "\<And>x. Writable W (enc2 x) \<longleftrightarrow> (\<lambda>_. True) x"
      "\<And>x. (\<lambda>_. True) x \<Longrightarrow> InternalServiceError_FromWire W (enc2 x) InternalServiceError_zero = Inr
          x"
    by (rule InternalServiceError.encoder [OF laws]) (rule that)
  obtain enc3 where e3: "EntityNotExistsError_ToWire W = (\<lambda>x. Inr (enc3 x))"
      "\<And>x. wire_api.Type W (enc3 x) = TStruct"
      "\<And>x. Writable W (enc3 x) \<longleftrightarrow> (\<lambda>_. True) x"
      "\<And>x. (\<lambda>_. True) x \<Longrightarrow> EntityNotExistsError_FromWire W (enc3 x) EntityNotExistsError_zero = Inr
          x"
    by (rule EntityNotExistsError.encoder [OF laws]) (rule that)
  obtain enc4 where e4: "ServiceBusyError_ToWire W = (\<lambda>x. Inr (enc4 x))"
      "\<And>x. wire_api.Type W (enc4 x) = TStruct"
      "\<And>x. Writable W (enc4 x) \<longleftrightarrow> (\<lambda>_. True) x"
      "\<And>x. (\<lambda>_. True) x \<Longrightarrow> ServiceBusyError_FromWire W (enc4 x) ServiceBusyError_zero = Inr x"
    by (rule ServiceBusyError.encoder [OF laws]) (rule that)
  obtain enc5 where e5: "ClientVersionNotSupportedError_ToWire W = (\<lambda>x. Inr (enc5 x))"
      "\<And>x. wire_api.Type W (enc5 x) = TStruct"
      "\<And>x. Writable W (enc5 x) \<longleftrightarrow> (\<lambda>_. True) x"
      "\<And>x. (\<lambda>_. True) x \<Longrightarrow> ClientVersionNotSupportedError_FromWire W (enc5 x)
          ClientVersionNotSupportedError_zero = Inr x"
    by (rule ClientVersionNotSupportedError.encoder [OF laws]) (rule that)
  let ?fs = "((((opt_field 0 enc0 (WorkflowService_GetWorkflowExecutionHistory_Result.Success x) @
      opt_field 1 enc1 (WorkflowService_GetWorkflowExecutionHistory_Result.BadRequestError x)) @
      opt_field 2 enc2 (WorkflowService_GetWorkflowExecutionHistory_Result.InternalServiceError x))
          @
      opt_field 3 enc3 (WorkflowService_GetWorkflowExecutionHistory_Result.EntityNotExistError x)) @
      opt_field 4 enc4 (WorkflowService_GetWorkflowExecutionHistory_Result.ServiceBusyError x)) @
      opt_field 5 enc5
          (WorkflowService_GetWorkflowExecutionHistory_Result.ClientVersionNotSupportedError x)"
  let ?check = "\<lambda>r. if WorkflowService_GetWorkflowExecutionHistory_Result_count x \<noteq> 1 then Inl
      (E_Errorf
      ''WorkflowService_GetWorkflowExecutionHistory_Result should have exactly one field: got %v fields'' (WorkflowService_GetWorkflowExecutionHistory_Result_count x)) else Inr r"
  have "length ?fs = WorkflowService_GetWorkflowExecutionHistory_Result_count x"
    by (simp add: WorkflowService_GetWorkflowExecutionHistory_Result_count_def length_opt_field
        split del: if_split)
  then have "WorkflowService_GetWorkflowExecutionHistory_Result_ToWire W x = ?check (NewValueStruct
      W ?fs)"
    by (simp only: WorkflowService_GetWorkflowExecutionHistory_Result_ToWire_def put_opt_field
        and_then.simps append_Nil e0(1) e1(1) e2(1) e3(1) e4(1) e5(1))
  moreover have "WorkflowService_GetWorkflowExecutionHistory_Result_FromWire W (NewValueStruct W
      ?fs) WorkflowService_GetWorkflowExecutionHistory_Result_zero = ?check x"
    if "if_set GetWorkflowExecutionHistoryResponse_complete
        (WorkflowService_GetWorkflowExecutionHistory_Result.Success x)"
    by (cases x, hypsubst) (simp cong: option.case_cong split del: if_split add: codec_rules Let_def
        WorkflowService_GetWorkflowExecutionHistory_Result_merge
      WorkflowService_GetWorkflowExecutionHistory_Result_FromWire_def
          WorkflowService_GetWorkflowExecutionHistory_Result_zero_def laws if_set_def that [unfolded
          if_set_def]
      BadRequestError_Read_def
      ClientVersionNotSupportedError_Read_def
      EntityNotExistsError_Read_def
      GetWorkflowExecutionHistoryResponse_Read_def
      InternalServiceError_Read_def
      ServiceBusyError_Read_def
      e0 e1 e2 e3 e4 e5)
  ultimately show "if WorkflowService_GetWorkflowExecutionHistory_Result_count x = 1
      then \<exists>w. WorkflowService_GetWorkflowExecutionHistory_Result_ToWire W x = Inr w \<and> wire_api.Type
          W w = TStruct \<and>
        (Writable W w \<longleftrightarrow> if_set GetWorkflowExecutionHistoryResponse_complete
            (WorkflowService_GetWorkflowExecutionHistory_Result.Success x)) \<and> (if_set
            GetWorkflowExecutionHistoryResponse_complete
            (WorkflowService_GetWorkflowExecutionHistory_Result.Success x) \<longrightarrow>
            WorkflowService_GetWorkflowExecutionHistory_Result_FromWire W w
            WorkflowService_GetWorkflowExecutionHistory_Result_zero = Inr x)
      else \<exists>e. WorkflowService_GetWorkflowExecutionHistory_Result_ToWire W x = Inl e"
    by (simp add: laws codec_rules e0 e1 e2 e3 e4 e5)
qed

interpretation GetWorkflowExecutionHistory: rpc_method W
  "WorkflowService_GetWorkflowExecutionHistory_Args_ToWire W"
      "WorkflowService_GetWorkflowExecutionHistory_Args_FromWire W"
      WorkflowService_GetWorkflowExecutionHistory_Args_zero "\<lambda>x. True"
  "WorkflowService_GetWorkflowExecutionHistory_Result_ToWire W"
      "WorkflowService_GetWorkflowExecutionHistory_Result_FromWire W"
      WorkflowService_GetWorkflowExecutionHistory_Result_zero
  "\<lambda>r. WorkflowService_GetWorkflowExecutionHistory_Result_count r = 1 \<and> if_set
      GetWorkflowExecutionHistoryResponse_complete
      (WorkflowService_GetWorkflowExecutionHistory_Result.Success r)"
      "''GetWorkflowExecutionHistory''"
  WorkflowService_GetWorkflowExecutionHistory_Helper_Args
      "WorkflowService_GetWorkflowExecutionHistory_Args.GetRequest"
  "\<lambda>(success, err). WorkflowService_GetWorkflowExecutionHistory_Helper_WrapResponse success err"
      WorkflowService_GetWorkflowExecutionHistory_Helper_UnwrapResponse
  "\<lambda>out. snd out \<noteq> None" "carried GetWorkflowExecutionHistoryResponse_complete
      WorkflowService_GetWorkflowExecutionHistory_Helper_IsException" error_first "\<lambda>e. (None, Some
      e)"
  "handler_GetWorkflowExecutionHistory W" "client_GetWorkflowExecutionHistory W" for W
proof
  fix out :: "GetWorkflowExecutionHistoryResponse option \<times> go_error option"
  assume "carried GetWorkflowExecutionHistoryResponse_complete
      WorkflowService_GetWorkflowExecutionHistory_Helper_IsException out"
  then show "case (\<lambda>(success, err). WorkflowService_GetWorkflowExecutionHistory_Helper_WrapResponse
      success err) out of Inl e \<Rightarrow> False
      | Inr res \<Rightarrow> (WorkflowService_GetWorkflowExecutionHistory_Result_count res = 1 \<and> if_set
          GetWorkflowExecutionHistoryResponse_complete
          (WorkflowService_GetWorkflowExecutionHistory_Result.Success res)) \<and>
          WorkflowService_GetWorkflowExecutionHistory_Helper_UnwrapResponse res = error_first out"
    by (cases out; cases "snd out"; cases "the (snd out)")
      (auto simp: WorkflowService_GetWorkflowExecutionHistory_Helper_IsException_def
          WorkflowService_GetWorkflowExecutionHistory_Helper_WrapResponse_def
          WorkflowService_GetWorkflowExecutionHistory_Helper_UnwrapResponse_def
        declared_nonnil_def WorkflowService_GetWorkflowExecutionHistory_Result_zero_def
            WorkflowService_GetWorkflowExecutionHistory_Result_count_def elim!: present.elims)
next
  fix out :: "GetWorkflowExecutionHistoryResponse option \<times> go_error option"
  assume "\<not> carried GetWorkflowExecutionHistoryResponse_complete
      WorkflowService_GetWorkflowExecutionHistory_Helper_IsException out"
  then show "case (\<lambda>(success, err). WorkflowService_GetWorkflowExecutionHistory_Helper_WrapResponse
      success err) out of Inl e \<Rightarrow> True
      | Inr res \<Rightarrow> \<not> (WorkflowService_GetWorkflowExecutionHistory_Result_count res = 1 \<and> if_set
          GetWorkflowExecutionHistoryResponse_complete
          (WorkflowService_GetWorkflowExecutionHistory_Result.Success res))"
    by (cases out; cases "snd out"; cases "the (snd out)")
      (auto simp: WorkflowService_GetWorkflowExecutionHistory_Helper_IsException_def
          WorkflowService_GetWorkflowExecutionHistory_Helper_WrapResponse_def declared_nonnil_def
        WorkflowService_GetWorkflowExecutionHistory_Result_count_def
            WorkflowService_GetWorkflowExecutionHistory_Result_zero_def split: option.splits)
qed (auto simp: WorkflowService_GetWorkflowExecutionHistory_Helper_Args_def
    handler_GetWorkflowExecutionHistory_def client_GetWorkflowExecutionHistory_def
      WorkflowService_GetWorkflowExecutionHistory_Args_enveloper_def
          WorkflowService_GetWorkflowExecutionHistory_Result_enveloper_def
      Let_def split: sum.splits prod.splits)

end
