(* ===== verification/GoDomainService.thy ===== *)
theory GoDomainService
  imports GoRpc GoRequests
begin

text \<open>
  The generated code of the calls about domains and task lists:
  RegisterDomain,
  DescribeDomain,
  ListDomains,
  UpdateDomain,
  DeprecateDomain,
  DescribeTaskList.
  For each method: its argument and result structs with their codecs and its helper
  (proxy/gen/cadence/cadence.go), its server handler (workflowserviceserver/server.go) and
  its client method (workflowserviceclient/client.go); then the interpretations that show
  the two codecs round trip and that the method keeps the contract \<open>rpc_method\<close>.
\<close>

section \<open>RegisterDomain\<close>

record WorkflowService_RegisterDomain_Args =
  RegisterRequest :: "RegisterDomainRequest option"

definition WorkflowService_RegisterDomain_Args_zero :: WorkflowService_RegisterDomain_Args where
  "WorkflowService_RegisterDomain_Args_zero = \<lparr>WorkflowService_RegisterDomain_Args.RegisterRequest =
      None\<rparr>"

definition WorkflowService_RegisterDomain_Args_ToWire ::
  "'v wire_api \<Rightarrow> WorkflowService_RegisterDomain_Args \<Rightarrow> go_error + 'v" where
  "WorkflowService_RegisterDomain_Args_ToWire W v =
     and_then (put_opt 1 (RegisterDomainRequest_ToWire W)
         (WorkflowService_RegisterDomain_Args.RegisterRequest v) [])
       (\<lambda>fields.
     Inr (NewValueStruct W fields))"

definition WorkflowService_RegisterDomain_Args_FromWire ::
  "'v wire_api \<Rightarrow> 'v \<Rightarrow> WorkflowService_RegisterDomain_Args \<Rightarrow> go_error +
      WorkflowService_RegisterDomain_Args" where
  "WorkflowService_RegisterDomain_Args_FromWire W w v =
     foldM (\<lambda>v (fid, fval).
       if fid = 1 then
         if wire_api.Type W fval = TStruct
         then and_then (RegisterDomainRequest_Read W fval) (\<lambda>x. Inr
             (v\<lparr>WorkflowService_RegisterDomain_Args.RegisterRequest := Some x\<rparr>))
         else Inr v
       else Inr v) (GetStruct W w) v"

definition WorkflowService_RegisterDomain_Args_enveloper ::
  "'v wire_api \<Rightarrow> WorkflowService_RegisterDomain_Args \<Rightarrow> 'v enveloper" where
  "WorkflowService_RegisterDomain_Args_enveloper W v =
     \<lparr>MethodName = ''RegisterDomain'', EnvelopeType = Call, EnvelopeToWire =
         WorkflowService_RegisterDomain_Args_ToWire W v\<rparr>"

definition WorkflowService_RegisterDomain_Args_Equals ::
  "WorkflowService_RegisterDomain_Args option \<Rightarrow> WorkflowService_RegisterDomain_Args option \<Rightarrow> bool"
      where
  "WorkflowService_RegisterDomain_Args_Equals v rhs =
     (case v of None \<Rightarrow> rhs = None
      | Some v \<Rightarrow> (case rhs of None \<Rightarrow> False
        | Some rhs \<Rightarrow>
          if \<not> both_set_and (\<lambda>x y. RegisterDomainRequest_Equals (Some x) (Some y))
              (WorkflowService_RegisterDomain_Args.RegisterRequest v)
              (WorkflowService_RegisterDomain_Args.RegisterRequest rhs) then False else
          True))"

lemma WorkflowService_RegisterDomain_Args_Equals_iff [simp]:
    "WorkflowService_RegisterDomain_Args_Equals x y \<longleftrightarrow> x = y"
  by (cases x; cases y) (auto simp: WorkflowService_RegisterDomain_Args_Equals_def)

record WorkflowService_RegisterDomain_Result =
  BadRequestError :: "BadRequestError option"
  InternalServiceError :: "InternalServiceError option"
  DomainExistsError :: "DomainAlreadyExistsError option"
  ServiceBusyError :: "ServiceBusyError option"
  ClientVersionNotSupportedError :: "ClientVersionNotSupportedError option"

definition WorkflowService_RegisterDomain_Result_count :: "WorkflowService_RegisterDomain_Result \<Rightarrow>
    nat" where
  "WorkflowService_RegisterDomain_Result_count v =
     (if WorkflowService_RegisterDomain_Result.BadRequestError v \<noteq> None then 1 else 0) +
     (if WorkflowService_RegisterDomain_Result.InternalServiceError v \<noteq> None then 1 else 0) +
     (if WorkflowService_RegisterDomain_Result.DomainExistsError v \<noteq> None then 1 else 0) +
     (if WorkflowService_RegisterDomain_Result.ServiceBusyError v \<noteq> None then 1 else 0) +
     (if WorkflowService_RegisterDomain_Result.ClientVersionNotSupportedError v \<noteq> None then 1 else
         0)"

definition WorkflowService_RegisterDomain_Result_zero :: WorkflowService_RegisterDomain_Result where
  "WorkflowService_RegisterDomain_Result_zero =
      \<lparr>WorkflowService_RegisterDomain_Result.BadRequestError = None,
      WorkflowService_RegisterDomain_Result.InternalServiceError = None,
      WorkflowService_RegisterDomain_Result.DomainExistsError = None,
      WorkflowService_RegisterDomain_Result.ServiceBusyError = None,
      WorkflowService_RegisterDomain_Result.ClientVersionNotSupportedError = None\<rparr>"

definition WorkflowService_RegisterDomain_Result_ToWire ::
  "'v wire_api \<Rightarrow> WorkflowService_RegisterDomain_Result \<Rightarrow> go_error + 'v" where
  "WorkflowService_RegisterDomain_Result_ToWire W v =
     and_then (put_opt 1 (BadRequestError_ToWire W)
         (WorkflowService_RegisterDomain_Result.BadRequestError v) [])
       (\<lambda>fields.
     and_then (put_opt 2 (InternalServiceError_ToWire W)
         (WorkflowService_RegisterDomain_Result.InternalServiceError v) fields)
       (\<lambda>fields.
     and_then (put_opt 3 (DomainAlreadyExistsError_ToWire W)
         (WorkflowService_RegisterDomain_Result.DomainExistsError v) fields)
       (\<lambda>fields.
     and_then (put_opt 4 (ServiceBusyError_ToWire W)
         (WorkflowService_RegisterDomain_Result.ServiceBusyError v) fields)
       (\<lambda>fields.
     and_then (put_opt 5 (ClientVersionNotSupportedError_ToWire W)
         (WorkflowService_RegisterDomain_Result.ClientVersionNotSupportedError v) fields)
       (\<lambda>fields.
     if 1 < length fields
     then Inl (E_Errorf
         ''WorkflowService_RegisterDomain_Result should have at most one field: got %v fields''
         (length fields))
     else Inr (NewValueStruct W fields))))))"

definition WorkflowService_RegisterDomain_Result_FromWire ::
  "'v wire_api \<Rightarrow> 'v \<Rightarrow> WorkflowService_RegisterDomain_Result \<Rightarrow> go_error +
      WorkflowService_RegisterDomain_Result" where
  "WorkflowService_RegisterDomain_Result_FromWire W w v =
     and_then (foldM (\<lambda>v (fid, fval).
       if fid = 1 then
         if wire_api.Type W fval = TStruct
         then and_then (BadRequestError_Read W fval) (\<lambda>x. Inr
             (v\<lparr>WorkflowService_RegisterDomain_Result.BadRequestError := Some x\<rparr>))
         else Inr v
       else if fid = 2 then
         if wire_api.Type W fval = TStruct
         then and_then (InternalServiceError_Read W fval) (\<lambda>x. Inr
             (v\<lparr>WorkflowService_RegisterDomain_Result.InternalServiceError := Some x\<rparr>))
         else Inr v
       else if fid = 3 then
         if wire_api.Type W fval = TStruct
         then and_then (DomainAlreadyExistsError_Read W fval) (\<lambda>x. Inr
             (v\<lparr>WorkflowService_RegisterDomain_Result.DomainExistsError := Some x\<rparr>))
         else Inr v
       else if fid = 4 then
         if wire_api.Type W fval = TStruct
         then and_then (ServiceBusyError_Read W fval) (\<lambda>x. Inr
             (v\<lparr>WorkflowService_RegisterDomain_Result.ServiceBusyError := Some x\<rparr>))
         else Inr v
       else if fid = 5 then
         if wire_api.Type W fval = TStruct
         then and_then (ClientVersionNotSupportedError_Read W fval) (\<lambda>x. Inr
             (v\<lparr>WorkflowService_RegisterDomain_Result.ClientVersionNotSupportedError := Some x\<rparr>))
         else Inr v
       else Inr v) (GetStruct W w) v) (\<lambda>v.
     let count = WorkflowService_RegisterDomain_Result_count v in
     if 1 < count
     then Inl (E_Errorf
         ''WorkflowService_RegisterDomain_Result should have at most one field: got %v fields''
         count)
     else Inr v)"

definition WorkflowService_RegisterDomain_Result_enveloper ::
  "'v wire_api \<Rightarrow> WorkflowService_RegisterDomain_Result \<Rightarrow> 'v enveloper" where
  "WorkflowService_RegisterDomain_Result_enveloper W v =
     \<lparr>MethodName = ''RegisterDomain'', EnvelopeType = Reply, EnvelopeToWire =
         WorkflowService_RegisterDomain_Result_ToWire W v\<rparr>"

definition WorkflowService_RegisterDomain_Result_Equals ::
  "WorkflowService_RegisterDomain_Result option \<Rightarrow> WorkflowService_RegisterDomain_Result option \<Rightarrow>
      bool" where
  "WorkflowService_RegisterDomain_Result_Equals v rhs =
     (case v of None \<Rightarrow> rhs = None
      | Some v \<Rightarrow> (case rhs of None \<Rightarrow> False
        | Some rhs \<Rightarrow>
          if \<not> both_set_and (\<lambda>x y. BadRequestError_Equals (Some x) (Some y))
              (WorkflowService_RegisterDomain_Result.BadRequestError v)
              (WorkflowService_RegisterDomain_Result.BadRequestError rhs) then False else
          if \<not> both_set_and (\<lambda>x y. InternalServiceError_Equals (Some x) (Some y))
              (WorkflowService_RegisterDomain_Result.InternalServiceError v)
              (WorkflowService_RegisterDomain_Result.InternalServiceError rhs) then False else
          if \<not> both_set_and (\<lambda>x y. DomainAlreadyExistsError_Equals (Some x) (Some y))
              (WorkflowService_RegisterDomain_Result.DomainExistsError v)
              (WorkflowService_RegisterDomain_Result.DomainExistsError rhs) then False else
          if \<not> both_set_and (\<lambda>x y. ServiceBusyError_Equals (Some x) (Some y))
              (WorkflowService_RegisterDomain_Result.ServiceBusyError v)
              (WorkflowService_RegisterDomain_Result.ServiceBusyError rhs) then False else
          if \<not> both_set_and (\<lambda>x y. ClientVersionNotSupportedError_Equals (Some x) (Some y))
              (WorkflowService_RegisterDomain_Result.ClientVersionNotSupportedError v)
              (WorkflowService_RegisterDomain_Result.ClientVersionNotSupportedError rhs) then False
              else
          True))"

lemma WorkflowService_RegisterDomain_Result_Equals_iff [simp]:
    "WorkflowService_RegisterDomain_Result_Equals x y \<longleftrightarrow> x = y"
  by (cases x; cases y) (simp_all add: WorkflowService_RegisterDomain_Result_Equals_def
      if_not_False, fastforce intro: WorkflowService_RegisterDomain_Result.equality)

definition WorkflowService_RegisterDomain_Helper_Args :: "RegisterDomainRequest option \<Rightarrow>
    WorkflowService_RegisterDomain_Args" where
  "WorkflowService_RegisterDomain_Helper_Args r =
      \<lparr>WorkflowService_RegisterDomain_Args.RegisterRequest = r\<rparr>"

definition WorkflowService_RegisterDomain_Helper_IsException :: "go_error \<Rightarrow> bool" where
  "WorkflowService_RegisterDomain_Helper_IsException err =
     (case err of
        E_BadRequestError _ \<Rightarrow> True
      | E_InternalServiceError _ \<Rightarrow> True
      | E_DomainAlreadyExistsError _ \<Rightarrow> True
      | E_ServiceBusyError _ \<Rightarrow> True
      | E_ClientVersionNotSupportedError _ \<Rightarrow> True
      | _ \<Rightarrow> False)"

definition WorkflowService_RegisterDomain_Helper_WrapResponse ::
  "go_error option \<Rightarrow> go_error + WorkflowService_RegisterDomain_Result" where
  "WorkflowService_RegisterDomain_Helper_WrapResponse err =
     (case err of None \<Rightarrow> Inr WorkflowService_RegisterDomain_Result_zero
      | Some err \<Rightarrow> (case err of
          E_BadRequestError e \<Rightarrow> (case e of
              None \<Rightarrow> Inl (E_New
                  ''WrapResponse received non-nil error type with nil value for WorkflowService_RegisterDomain_Result.BadRequestError'')
            | Some e \<Rightarrow> Inr
                (WorkflowService_RegisterDomain_Result_zero\<lparr>WorkflowService_RegisterDomain_Result.BadRequestError := Some e\<rparr>))
        | E_InternalServiceError e \<Rightarrow> (case e of
              None \<Rightarrow> Inl (E_New
                  ''WrapResponse received non-nil error type with nil value for WorkflowService_RegisterDomain_Result.InternalServiceError'')
            | Some e \<Rightarrow> Inr
                (WorkflowService_RegisterDomain_Result_zero\<lparr>WorkflowService_RegisterDomain_Result.InternalServiceError := Some e\<rparr>))
        | E_DomainAlreadyExistsError e \<Rightarrow> (case e of
              None \<Rightarrow> Inl (E_New
                  ''WrapResponse received non-nil error type with nil value for WorkflowService_RegisterDomain_Result.DomainExistsError'')
            | Some e \<Rightarrow> Inr
                (WorkflowService_RegisterDomain_Result_zero\<lparr>WorkflowService_RegisterDomain_Result.DomainExistsError := Some e\<rparr>))
        | E_ServiceBusyError e \<Rightarrow> (case e of
              None \<Rightarrow> Inl (E_New
                  ''WrapResponse received non-nil error type with nil value for WorkflowService_RegisterDomain_Result.ServiceBusyError'')
            | Some e \<Rightarrow> Inr
                (WorkflowService_RegisterDomain_Result_zero\<lparr>WorkflowService_RegisterDomain_Result.ServiceBusyError := Some e\<rparr>))
        | E_ClientVersionNotSupportedError e \<Rightarrow> (case e of
              None \<Rightarrow> Inl (E_New
                  ''WrapResponse received non-nil error type with nil value for WorkflowService_RegisterDomain_Result.ClientVersionNotSupportedError'')
            | Some e \<Rightarrow> Inr
                (WorkflowService_RegisterDomain_Result_zero\<lparr>WorkflowService_RegisterDomain_Result.ClientVersionNotSupportedError := Some e\<rparr>))
        | _ \<Rightarrow> Inl err))"

definition WorkflowService_RegisterDomain_Helper_UnwrapResponse ::
  "WorkflowService_RegisterDomain_Result \<Rightarrow> go_error option" where
  "WorkflowService_RegisterDomain_Helper_UnwrapResponse result =
    (if WorkflowService_RegisterDomain_Result.BadRequestError result \<noteq> None then Some
        (E_BadRequestError (WorkflowService_RegisterDomain_Result.BadRequestError result)) else
     if WorkflowService_RegisterDomain_Result.InternalServiceError result \<noteq> None then Some
         (E_InternalServiceError (WorkflowService_RegisterDomain_Result.InternalServiceError
         result)) else
     if WorkflowService_RegisterDomain_Result.DomainExistsError result \<noteq> None then Some
         (E_DomainAlreadyExistsError (WorkflowService_RegisterDomain_Result.DomainExistsError
         result)) else
     if WorkflowService_RegisterDomain_Result.ServiceBusyError result \<noteq> None then Some
         (E_ServiceBusyError (WorkflowService_RegisterDomain_Result.ServiceBusyError result)) else
     if WorkflowService_RegisterDomain_Result.ClientVersionNotSupportedError result \<noteq> None then Some
         (E_ClientVersionNotSupportedError
         (WorkflowService_RegisterDomain_Result.ClientVersionNotSupportedError result)) else
     None)"

definition handler_RegisterDomain ::
  "'v wire_api \<Rightarrow> ('ctx \<Rightarrow> RegisterDomainRequest option \<Rightarrow> go_error option) \<Rightarrow>
   ('ctx, 'v) unary_handler" where
  "handler_RegisterDomain W impl ctx body =
     (case WorkflowService_RegisterDomain_Args_FromWire W body
         WorkflowService_RegisterDomain_Args_zero of
      Inl err \<Rightarrow> (no_response, Some err)
    | Inr args \<Rightarrow>
      let err = impl ctx (WorkflowService_RegisterDomain_Args.RegisterRequest args);
          hadError = (err \<noteq> None)
      in case WorkflowService_RegisterDomain_Helper_WrapResponse err of
           Inl err \<Rightarrow> (no_response, Some err)
         | Inr result \<Rightarrow>
             (\<lparr>Body = Some (WorkflowService_RegisterDomain_Result_enveloper W result),
               IsApplicationError = hadError\<rparr>, None))"

definition client_RegisterDomain ::
  "'v wire_api \<Rightarrow> ('ctx, 'v) thrift_client \<Rightarrow> 'ctx \<Rightarrow> RegisterDomainRequest option \<Rightarrow>
   go_error option" where
  "client_RegisterDomain W call ctx r =
     (let args = WorkflowService_RegisterDomain_Helper_Args r in
      case call ctx (WorkflowService_RegisterDomain_Args_enveloper W args) of
        Inl e \<Rightarrow> Some e
      | Inr body \<Rightarrow>
          (case WorkflowService_RegisterDomain_Result_FromWire W body
              WorkflowService_RegisterDomain_Result_zero of
             Inl e \<Rightarrow> Some e
           | Inr result \<Rightarrow> WorkflowService_RegisterDomain_Helper_UnwrapResponse result))"

lemma WorkflowService_RegisterDomain_Args_merge:
  "(case x of None \<Rightarrow> Inr \<lparr>WorkflowService_RegisterDomain_Args.RegisterRequest = a0\<rparr> | Some y \<Rightarrow> Inr
      \<lparr>WorkflowService_RegisterDomain_Args.RegisterRequest = b0 y\<rparr>) =
   Inr \<lparr>WorkflowService_RegisterDomain_Args.RegisterRequest = (case x of None \<Rightarrow> a0 | Some y \<Rightarrow> b0
       y)\<rparr>"
  by (cases x) simp_all

interpretation WorkflowService_RegisterDomain_Args: thrift_struct W
  "WorkflowService_RegisterDomain_Args_ToWire W" "WorkflowService_RegisterDomain_Args_FromWire W"
  WorkflowService_RegisterDomain_Args_zero "\<lambda>x. if_set RegisterDomainRequest_complete
      (WorkflowService_RegisterDomain_Args.RegisterRequest x)" for W
proof (rule thrift_structI)
  fix x :: WorkflowService_RegisterDomain_Args
  assume laws: "wire_laws W"
  obtain enc0 where e0: "RegisterDomainRequest_ToWire W = (\<lambda>x. Inr (enc0 x))"
      "\<And>x. wire_api.Type W (enc0 x) = TStruct"
      "\<And>x. Writable W (enc0 x) \<longleftrightarrow> RegisterDomainRequest_complete x"
      "\<And>x. RegisterDomainRequest_complete x \<Longrightarrow> RegisterDomainRequest_FromWire W (enc0 x)
          RegisterDomainRequest_zero = Inr x"
    by (rule RegisterDomainRequest.encoder [OF laws]) (rule that)
  show "\<exists>w. WorkflowService_RegisterDomain_Args_ToWire W x = Inr w \<and> wire_api.Type W w = TStruct \<and>
      (Writable W w \<longleftrightarrow> if_set RegisterDomainRequest_complete
          (WorkflowService_RegisterDomain_Args.RegisterRequest x)) \<and> (if_set
          RegisterDomainRequest_complete (WorkflowService_RegisterDomain_Args.RegisterRequest x) \<longrightarrow>
          WorkflowService_RegisterDomain_Args_FromWire W w WorkflowService_RegisterDomain_Args_zero
          = Inr x)"
    by (cases x) (simp cong: option.case_cong add: codec_rules
        WorkflowService_RegisterDomain_Args_merge WorkflowService_RegisterDomain_Args_ToWire_def
        WorkflowService_RegisterDomain_Args_FromWire_def
      WorkflowService_RegisterDomain_Args_zero_def RegisterDomainRequest_Read_def if_set_def laws
          e0)
qed

lemma WorkflowService_RegisterDomain_Result_merge:
  "(case x of None \<Rightarrow> Inr \<lparr>WorkflowService_RegisterDomain_Result.BadRequestError = a0,
      WorkflowService_RegisterDomain_Result.InternalServiceError = a1,
      WorkflowService_RegisterDomain_Result.DomainExistsError = a2,
      WorkflowService_RegisterDomain_Result.ServiceBusyError = a3,
      WorkflowService_RegisterDomain_Result.ClientVersionNotSupportedError = a4\<rparr> | Some y \<Rightarrow> Inr
      \<lparr>WorkflowService_RegisterDomain_Result.BadRequestError = b0 y,
      WorkflowService_RegisterDomain_Result.InternalServiceError = b1 y,
      WorkflowService_RegisterDomain_Result.DomainExistsError = b2 y,
      WorkflowService_RegisterDomain_Result.ServiceBusyError = b3 y,
      WorkflowService_RegisterDomain_Result.ClientVersionNotSupportedError = b4 y\<rparr>) =
   Inr \<lparr>WorkflowService_RegisterDomain_Result.BadRequestError = (case x of None \<Rightarrow> a0 | Some y \<Rightarrow> b0
       y), WorkflowService_RegisterDomain_Result.InternalServiceError = (case x of None \<Rightarrow> a1 | Some
       y \<Rightarrow> b1 y), WorkflowService_RegisterDomain_Result.DomainExistsError = (case x of None \<Rightarrow> a2 |
       Some y \<Rightarrow> b2 y), WorkflowService_RegisterDomain_Result.ServiceBusyError = (case x of None \<Rightarrow> a3
       | Some y \<Rightarrow> b3 y), WorkflowService_RegisterDomain_Result.ClientVersionNotSupportedError =
       (case x of None \<Rightarrow> a4 | Some y \<Rightarrow> b4 y)\<rparr>"
  by (cases x) simp_all

interpretation WorkflowService_RegisterDomain_Result: thrift_struct W
  "WorkflowService_RegisterDomain_Result_ToWire W" "WorkflowService_RegisterDomain_Result_FromWire
      W"
  WorkflowService_RegisterDomain_Result_zero "\<lambda>r. WorkflowService_RegisterDomain_Result_count r \<le> 1"
      for W
proof (rule thrift_checked_plainI)
  fix x :: WorkflowService_RegisterDomain_Result
  assume laws: "wire_laws W"
  obtain enc0 where e0: "BadRequestError_ToWire W = (\<lambda>x. Inr (enc0 x))"
      "\<And>x. wire_api.Type W (enc0 x) = TStruct"
      "\<And>x. Writable W (enc0 x) \<longleftrightarrow> (\<lambda>_. True) x"
      "\<And>x. (\<lambda>_. True) x \<Longrightarrow> BadRequestError_FromWire W (enc0 x) BadRequestError_zero = Inr x"
    by (rule BadRequestError.encoder [OF laws]) (rule that)
  obtain enc1 where e1: "InternalServiceError_ToWire W = (\<lambda>x. Inr (enc1 x))"
      "\<And>x. wire_api.Type W (enc1 x) = TStruct"
      "\<And>x. Writable W (enc1 x) \<longleftrightarrow> (\<lambda>_. True) x"
      "\<And>x. (\<lambda>_. True) x \<Longrightarrow> InternalServiceError_FromWire W (enc1 x) InternalServiceError_zero = Inr
          x"
    by (rule InternalServiceError.encoder [OF laws]) (rule that)
  obtain enc2 where e2: "DomainAlreadyExistsError_ToWire W = (\<lambda>x. Inr (enc2 x))"
      "\<And>x. wire_api.Type W (enc2 x) = TStruct"
      "\<And>x. Writable W (enc2 x) \<longleftrightarrow> (\<lambda>_. True) x"
      "\<And>x. (\<lambda>_. True) x \<Longrightarrow> DomainAlreadyExistsError_FromWire W (enc2 x) DomainAlreadyExistsError_zero
          = Inr x"
    by (rule DomainAlreadyExistsError.encoder [OF laws]) (rule that)
  obtain enc3 where e3: "ServiceBusyError_ToWire W = (\<lambda>x. Inr (enc3 x))"
      "\<And>x. wire_api.Type W (enc3 x) = TStruct"
      "\<And>x. Writable W (enc3 x) \<longleftrightarrow> (\<lambda>_. True) x"
      "\<And>x. (\<lambda>_. True) x \<Longrightarrow> ServiceBusyError_FromWire W (enc3 x) ServiceBusyError_zero = Inr x"
    by (rule ServiceBusyError.encoder [OF laws]) (rule that)
  obtain enc4 where e4: "ClientVersionNotSupportedError_ToWire W = (\<lambda>x. Inr (enc4 x))"
      "\<And>x. wire_api.Type W (enc4 x) = TStruct"
      "\<And>x. Writable W (enc4 x) \<longleftrightarrow> (\<lambda>_. True) x"
      "\<And>x. (\<lambda>_. True) x \<Longrightarrow> ClientVersionNotSupportedError_FromWire W (enc4 x)
          ClientVersionNotSupportedError_zero = Inr x"
    by (rule ClientVersionNotSupportedError.encoder [OF laws]) (rule that)
  let ?fs = "(((opt_field 1 enc0 (WorkflowService_RegisterDomain_Result.BadRequestError x) @
      opt_field 2 enc1 (WorkflowService_RegisterDomain_Result.InternalServiceError x)) @
      opt_field 3 enc2 (WorkflowService_RegisterDomain_Result.DomainExistsError x)) @
      opt_field 4 enc3 (WorkflowService_RegisterDomain_Result.ServiceBusyError x)) @
      opt_field 5 enc4 (WorkflowService_RegisterDomain_Result.ClientVersionNotSupportedError x)"
  let ?check = "\<lambda>r. if 1 < WorkflowService_RegisterDomain_Result_count x then Inl (E_Errorf
      ''WorkflowService_RegisterDomain_Result should have at most one field: got %v fields''
          (WorkflowService_RegisterDomain_Result_count x)) else Inr r"
  have "length ?fs = WorkflowService_RegisterDomain_Result_count x"
    by (simp add: WorkflowService_RegisterDomain_Result_count_def length_opt_field split del:
        if_split)
  then have "WorkflowService_RegisterDomain_Result_ToWire W x = ?check (NewValueStruct W ?fs)"
    by (simp only: WorkflowService_RegisterDomain_Result_ToWire_def put_opt_field and_then.simps
        append_Nil e0(1) e1(1) e2(1) e3(1) e4(1))
  moreover have "WorkflowService_RegisterDomain_Result_FromWire W (NewValueStruct W ?fs)
      WorkflowService_RegisterDomain_Result_zero = ?check x"
    by (cases x, hypsubst) (simp cong: option.case_cong split del: if_split add: codec_rules Let_def
        WorkflowService_RegisterDomain_Result_merge
      WorkflowService_RegisterDomain_Result_FromWire_def
          WorkflowService_RegisterDomain_Result_zero_def laws
      BadRequestError_Read_def
      ClientVersionNotSupportedError_Read_def
      DomainAlreadyExistsError_Read_def
      InternalServiceError_Read_def
      ServiceBusyError_Read_def
      e0 e1 e2 e3 e4)
  ultimately show "if WorkflowService_RegisterDomain_Result_count x \<le> 1
      then \<exists>w. WorkflowService_RegisterDomain_Result_ToWire W x = Inr w \<and> wire_api.Type W w =
          TStruct \<and>
        Writable W w \<and> WorkflowService_RegisterDomain_Result_FromWire W w
            WorkflowService_RegisterDomain_Result_zero = Inr x
      else \<exists>e. WorkflowService_RegisterDomain_Result_ToWire W x = Inl e"
    by (simp add: laws codec_rules e0 e1 e2 e3 e4)
qed

interpretation RegisterDomain: rpc_method W
  "WorkflowService_RegisterDomain_Args_ToWire W" "WorkflowService_RegisterDomain_Args_FromWire W"
      WorkflowService_RegisterDomain_Args_zero "\<lambda>x. if_set RegisterDomainRequest_complete
      (WorkflowService_RegisterDomain_Args.RegisterRequest x)"
  "WorkflowService_RegisterDomain_Result_ToWire W" "WorkflowService_RegisterDomain_Result_FromWire
      W" WorkflowService_RegisterDomain_Result_zero
  "\<lambda>r. WorkflowService_RegisterDomain_Result_count r \<le> 1" "''RegisterDomain''"
  WorkflowService_RegisterDomain_Helper_Args "WorkflowService_RegisterDomain_Args.RegisterRequest"
  "WorkflowService_RegisterDomain_Helper_WrapResponse"
      WorkflowService_RegisterDomain_Helper_UnwrapResponse
  "\<lambda>out. out \<noteq> None" "carried_void WorkflowService_RegisterDomain_Helper_IsException" id "\<lambda>e. Some
      e"
  "handler_RegisterDomain W" "client_RegisterDomain W" for W
proof
  fix out :: "go_error option"
  assume "carried_void WorkflowService_RegisterDomain_Helper_IsException out"
  then show "case (WorkflowService_RegisterDomain_Helper_WrapResponse) out of Inl e \<Rightarrow> False
      | Inr res \<Rightarrow> (WorkflowService_RegisterDomain_Result_count res \<le> 1) \<and>
          WorkflowService_RegisterDomain_Helper_UnwrapResponse res = id out"
    by (cases out; cases "the out")
      (auto simp: WorkflowService_RegisterDomain_Helper_IsException_def
          WorkflowService_RegisterDomain_Helper_WrapResponse_def
          WorkflowService_RegisterDomain_Helper_UnwrapResponse_def
        declared_nonnil_def WorkflowService_RegisterDomain_Result_zero_def
            WorkflowService_RegisterDomain_Result_count_def elim!: present.elims)
next
  fix out :: "go_error option"
  assume "\<not> carried_void WorkflowService_RegisterDomain_Helper_IsException out"
  then show "case (WorkflowService_RegisterDomain_Helper_WrapResponse) out of Inl e \<Rightarrow> True
      | Inr res \<Rightarrow> \<not> (WorkflowService_RegisterDomain_Result_count res \<le> 1)"
    by (cases out; cases "the out")
      (auto simp: WorkflowService_RegisterDomain_Helper_IsException_def
          WorkflowService_RegisterDomain_Helper_WrapResponse_def declared_nonnil_def
        WorkflowService_RegisterDomain_Result_count_def
            WorkflowService_RegisterDomain_Result_zero_def split: option.splits)
qed (auto simp: WorkflowService_RegisterDomain_Helper_Args_def handler_RegisterDomain_def
    client_RegisterDomain_def
      WorkflowService_RegisterDomain_Args_enveloper_def
          WorkflowService_RegisterDomain_Result_enveloper_def
      Let_def split: sum.splits prod.splits)

section \<open>DescribeDomain\<close>

record WorkflowService_DescribeDomain_Args =
  DescribeRequest :: "DescribeDomainRequest option"

definition WorkflowService_DescribeDomain_Args_zero :: WorkflowService_DescribeDomain_Args where
  "WorkflowService_DescribeDomain_Args_zero = \<lparr>WorkflowService_DescribeDomain_Args.DescribeRequest =
      None\<rparr>"

definition WorkflowService_DescribeDomain_Args_ToWire ::
  "'v wire_api \<Rightarrow> WorkflowService_DescribeDomain_Args \<Rightarrow> go_error + 'v" where
  "WorkflowService_DescribeDomain_Args_ToWire W v =
     and_then (put_opt 1 (DescribeDomainRequest_ToWire W)
         (WorkflowService_DescribeDomain_Args.DescribeRequest v) [])
       (\<lambda>fields.
     Inr (NewValueStruct W fields))"

definition WorkflowService_DescribeDomain_Args_FromWire ::
  "'v wire_api \<Rightarrow> 'v \<Rightarrow> WorkflowService_DescribeDomain_Args \<Rightarrow> go_error +
      WorkflowService_DescribeDomain_Args" where
  "WorkflowService_DescribeDomain_Args_FromWire W w v =
     foldM (\<lambda>v (fid, fval).
       if fid = 1 then
         if wire_api.Type W fval = TStruct
         then and_then (DescribeDomainRequest_Read W fval) (\<lambda>x. Inr
             (v\<lparr>WorkflowService_DescribeDomain_Args.DescribeRequest := Some x\<rparr>))
         else Inr v
       else Inr v) (GetStruct W w) v"

definition WorkflowService_DescribeDomain_Args_enveloper ::
  "'v wire_api \<Rightarrow> WorkflowService_DescribeDomain_Args \<Rightarrow> 'v enveloper" where
  "WorkflowService_DescribeDomain_Args_enveloper W v =
     \<lparr>MethodName = ''DescribeDomain'', EnvelopeType = Call, EnvelopeToWire =
         WorkflowService_DescribeDomain_Args_ToWire W v\<rparr>"

definition WorkflowService_DescribeDomain_Args_Equals ::
  "WorkflowService_DescribeDomain_Args option \<Rightarrow> WorkflowService_DescribeDomain_Args option \<Rightarrow> bool"
      where
  "WorkflowService_DescribeDomain_Args_Equals v rhs =
     (case v of None \<Rightarrow> rhs = None
      | Some v \<Rightarrow> (case rhs of None \<Rightarrow> False
        | Some rhs \<Rightarrow>
          if \<not> both_set_and (\<lambda>x y. DescribeDomainRequest_Equals (Some x) (Some y))
              (WorkflowService_DescribeDomain_Args.DescribeRequest v)
              (WorkflowService_DescribeDomain_Args.DescribeRequest rhs) then False else
          True))"

lemma WorkflowService_DescribeDomain_Args_Equals_iff [simp]:
    "WorkflowService_DescribeDomain_Args_Equals x y \<longleftrightarrow> x = y"
  by (cases x; cases y) (auto simp: WorkflowService_DescribeDomain_Args_Equals_def)

record WorkflowService_DescribeDomain_Result =
  Success :: "DescribeDomainResponse option"
  BadRequestError :: "BadRequestError option"
  InternalServiceError :: "InternalServiceError option"
  EntityNotExistError :: "EntityNotExistsError option"
  ServiceBusyError :: "ServiceBusyError option"
  ClientVersionNotSupportedError :: "ClientVersionNotSupportedError option"

definition WorkflowService_DescribeDomain_Result_count :: "WorkflowService_DescribeDomain_Result \<Rightarrow>
    nat" where
  "WorkflowService_DescribeDomain_Result_count v =
     (if WorkflowService_DescribeDomain_Result.Success v \<noteq> None then 1 else 0) +
     (if WorkflowService_DescribeDomain_Result.BadRequestError v \<noteq> None then 1 else 0) +
     (if WorkflowService_DescribeDomain_Result.InternalServiceError v \<noteq> None then 1 else 0) +
     (if WorkflowService_DescribeDomain_Result.EntityNotExistError v \<noteq> None then 1 else 0) +
     (if WorkflowService_DescribeDomain_Result.ServiceBusyError v \<noteq> None then 1 else 0) +
     (if WorkflowService_DescribeDomain_Result.ClientVersionNotSupportedError v \<noteq> None then 1 else
         0)"

definition WorkflowService_DescribeDomain_Result_zero :: WorkflowService_DescribeDomain_Result where
  "WorkflowService_DescribeDomain_Result_zero = \<lparr>WorkflowService_DescribeDomain_Result.Success =
      None, WorkflowService_DescribeDomain_Result.BadRequestError = None,
      WorkflowService_DescribeDomain_Result.InternalServiceError = None,
      WorkflowService_DescribeDomain_Result.EntityNotExistError = None,
      WorkflowService_DescribeDomain_Result.ServiceBusyError = None,
      WorkflowService_DescribeDomain_Result.ClientVersionNotSupportedError = None\<rparr>"

definition WorkflowService_DescribeDomain_Result_ToWire ::
  "'v wire_api \<Rightarrow> WorkflowService_DescribeDomain_Result \<Rightarrow> go_error + 'v" where
  "WorkflowService_DescribeDomain_Result_ToWire W v =
     and_then (put_opt 0 (DescribeDomainResponse_ToWire W)
         (WorkflowService_DescribeDomain_Result.Success v) [])
       (\<lambda>fields.
     and_then (put_opt 1 (BadRequestError_ToWire W)
         (WorkflowService_DescribeDomain_Result.BadRequestError v) fields)
       (\<lambda>fields.
     and_then (put_opt 2 (InternalServiceError_ToWire W)
         (WorkflowService_DescribeDomain_Result.InternalServiceError v) fields)
       (\<lambda>fields.
     and_then (put_opt 3 (EntityNotExistsError_ToWire W)
         (WorkflowService_DescribeDomain_Result.EntityNotExistError v) fields)
       (\<lambda>fields.
     and_then (put_opt 4 (ServiceBusyError_ToWire W)
         (WorkflowService_DescribeDomain_Result.ServiceBusyError v) fields)
       (\<lambda>fields.
     and_then (put_opt 5 (ClientVersionNotSupportedError_ToWire W)
         (WorkflowService_DescribeDomain_Result.ClientVersionNotSupportedError v) fields)
       (\<lambda>fields.
     if length fields \<noteq> 1
     then Inl (E_Errorf
         ''WorkflowService_DescribeDomain_Result should have exactly one field: got %v fields''
         (length fields))
     else Inr (NewValueStruct W fields)))))))"

definition WorkflowService_DescribeDomain_Result_FromWire ::
  "'v wire_api \<Rightarrow> 'v \<Rightarrow> WorkflowService_DescribeDomain_Result \<Rightarrow> go_error +
      WorkflowService_DescribeDomain_Result" where
  "WorkflowService_DescribeDomain_Result_FromWire W w v =
     and_then (foldM (\<lambda>v (fid, fval).
       if fid = 0 then
         if wire_api.Type W fval = TStruct
         then and_then (DescribeDomainResponse_Read W fval) (\<lambda>x. Inr
             (v\<lparr>WorkflowService_DescribeDomain_Result.Success := Some x\<rparr>))
         else Inr v
       else if fid = 1 then
         if wire_api.Type W fval = TStruct
         then and_then (BadRequestError_Read W fval) (\<lambda>x. Inr
             (v\<lparr>WorkflowService_DescribeDomain_Result.BadRequestError := Some x\<rparr>))
         else Inr v
       else if fid = 2 then
         if wire_api.Type W fval = TStruct
         then and_then (InternalServiceError_Read W fval) (\<lambda>x. Inr
             (v\<lparr>WorkflowService_DescribeDomain_Result.InternalServiceError := Some x\<rparr>))
         else Inr v
       else if fid = 3 then
         if wire_api.Type W fval = TStruct
         then and_then (EntityNotExistsError_Read W fval) (\<lambda>x. Inr
             (v\<lparr>WorkflowService_DescribeDomain_Result.EntityNotExistError := Some x\<rparr>))
         else Inr v
       else if fid = 4 then
         if wire_api.Type W fval = TStruct
         then and_then (ServiceBusyError_Read W fval) (\<lambda>x. Inr
             (v\<lparr>WorkflowService_DescribeDomain_Result.ServiceBusyError := Some x\<rparr>))
         else Inr v
       else if fid = 5 then
         if wire_api.Type W fval = TStruct
         then and_then (ClientVersionNotSupportedError_Read W fval) (\<lambda>x. Inr
             (v\<lparr>WorkflowService_DescribeDomain_Result.ClientVersionNotSupportedError := Some x\<rparr>))
         else Inr v
       else Inr v) (GetStruct W w) v) (\<lambda>v.
     let count = WorkflowService_DescribeDomain_Result_count v in
     if count \<noteq> 1
     then Inl (E_Errorf
         ''WorkflowService_DescribeDomain_Result should have exactly one field: got %v fields''
         count)
     else Inr v)"

definition WorkflowService_DescribeDomain_Result_enveloper ::
  "'v wire_api \<Rightarrow> WorkflowService_DescribeDomain_Result \<Rightarrow> 'v enveloper" where
  "WorkflowService_DescribeDomain_Result_enveloper W v =
     \<lparr>MethodName = ''DescribeDomain'', EnvelopeType = Reply, EnvelopeToWire =
         WorkflowService_DescribeDomain_Result_ToWire W v\<rparr>"

definition WorkflowService_DescribeDomain_Result_Equals ::
  "WorkflowService_DescribeDomain_Result option \<Rightarrow> WorkflowService_DescribeDomain_Result option \<Rightarrow>
      bool" where
  "WorkflowService_DescribeDomain_Result_Equals v rhs =
     (case v of None \<Rightarrow> rhs = None
      | Some v \<Rightarrow> (case rhs of None \<Rightarrow> False
        | Some rhs \<Rightarrow>
          if \<not> both_set_and (\<lambda>x y. DescribeDomainResponse_Equals (Some x) (Some y))
              (WorkflowService_DescribeDomain_Result.Success v)
              (WorkflowService_DescribeDomain_Result.Success rhs) then False else
          if \<not> both_set_and (\<lambda>x y. BadRequestError_Equals (Some x) (Some y))
              (WorkflowService_DescribeDomain_Result.BadRequestError v)
              (WorkflowService_DescribeDomain_Result.BadRequestError rhs) then False else
          if \<not> both_set_and (\<lambda>x y. InternalServiceError_Equals (Some x) (Some y))
              (WorkflowService_DescribeDomain_Result.InternalServiceError v)
              (WorkflowService_DescribeDomain_Result.InternalServiceError rhs) then False else
          if \<not> both_set_and (\<lambda>x y. EntityNotExistsError_Equals (Some x) (Some y))
              (WorkflowService_DescribeDomain_Result.EntityNotExistError v)
              (WorkflowService_DescribeDomain_Result.EntityNotExistError rhs) then False else
          if \<not> both_set_and (\<lambda>x y. ServiceBusyError_Equals (Some x) (Some y))
              (WorkflowService_DescribeDomain_Result.ServiceBusyError v)
              (WorkflowService_DescribeDomain_Result.ServiceBusyError rhs) then False else
          if \<not> both_set_and (\<lambda>x y. ClientVersionNotSupportedError_Equals (Some x) (Some y))
              (WorkflowService_DescribeDomain_Result.ClientVersionNotSupportedError v)
              (WorkflowService_DescribeDomain_Result.ClientVersionNotSupportedError rhs) then False
              else
          True))"

lemma WorkflowService_DescribeDomain_Result_Equals_iff [simp]:
    "WorkflowService_DescribeDomain_Result_Equals x y \<longleftrightarrow> x = y"
  by (cases x; cases y) (simp_all add: WorkflowService_DescribeDomain_Result_Equals_def
      if_not_False, fastforce intro: WorkflowService_DescribeDomain_Result.equality)

definition WorkflowService_DescribeDomain_Helper_Args :: "DescribeDomainRequest option \<Rightarrow>
    WorkflowService_DescribeDomain_Args" where
  "WorkflowService_DescribeDomain_Helper_Args r =
      \<lparr>WorkflowService_DescribeDomain_Args.DescribeRequest = r\<rparr>"

definition WorkflowService_DescribeDomain_Helper_IsException :: "go_error \<Rightarrow> bool" where
  "WorkflowService_DescribeDomain_Helper_IsException err =
     (case err of
        E_BadRequestError _ \<Rightarrow> True
      | E_InternalServiceError _ \<Rightarrow> True
      | E_EntityNotExistsError _ \<Rightarrow> True
      | E_ServiceBusyError _ \<Rightarrow> True
      | E_ClientVersionNotSupportedError _ \<Rightarrow> True
      | _ \<Rightarrow> False)"

definition WorkflowService_DescribeDomain_Helper_WrapResponse ::
  "DescribeDomainResponse option \<Rightarrow> go_error option \<Rightarrow> go_error +
      WorkflowService_DescribeDomain_Result" where
  "WorkflowService_DescribeDomain_Helper_WrapResponse success err =
     (case err of None \<Rightarrow> Inr
         (WorkflowService_DescribeDomain_Result_zero\<lparr>WorkflowService_DescribeDomain_Result.Success
         := success\<rparr>)
      | Some err \<Rightarrow> (case err of
          E_BadRequestError e \<Rightarrow> (case e of
              None \<Rightarrow> Inl (E_New
                  ''WrapResponse received non-nil error type with nil value for WorkflowService_DescribeDomain_Result.BadRequestError'')
            | Some e \<Rightarrow> Inr
                (WorkflowService_DescribeDomain_Result_zero\<lparr>WorkflowService_DescribeDomain_Result.BadRequestError := Some e\<rparr>))
        | E_InternalServiceError e \<Rightarrow> (case e of
              None \<Rightarrow> Inl (E_New
                  ''WrapResponse received non-nil error type with nil value for WorkflowService_DescribeDomain_Result.InternalServiceError'')
            | Some e \<Rightarrow> Inr
                (WorkflowService_DescribeDomain_Result_zero\<lparr>WorkflowService_DescribeDomain_Result.InternalServiceError := Some e\<rparr>))
        | E_EntityNotExistsError e \<Rightarrow> (case e of
              None \<Rightarrow> Inl (E_New
                  ''WrapResponse received non-nil error type with nil value for WorkflowService_DescribeDomain_Result.EntityNotExistError'')
            | Some e \<Rightarrow> Inr
                (WorkflowService_DescribeDomain_Result_zero\<lparr>WorkflowService_DescribeDomain_Result.EntityNotExistError := Some e\<rparr>))
        | E_ServiceBusyError e \<Rightarrow> (case e of
              None \<Rightarrow> Inl (E_New
                  ''WrapResponse received non-nil error type with nil value for WorkflowService_DescribeDomain_Result.ServiceBusyError'')
            | Some e \<Rightarrow> Inr
                (WorkflowService_DescribeDomain_Result_zero\<lparr>WorkflowService_DescribeDomain_Result.ServiceBusyError := Some e\<rparr>))
        | E_ClientVersionNotSupportedError e \<Rightarrow> (case e of
              None \<Rightarrow> Inl (E_New
                  ''WrapResponse received non-nil error type with nil value for WorkflowService_DescribeDomain_Result.ClientVersionNotSupportedError'')
            | Some e \<Rightarrow> Inr
                (WorkflowService_DescribeDomain_Result_zero\<lparr>WorkflowService_DescribeDomain_Result.ClientVersionNotSupportedError := Some e\<rparr>))
        | _ \<Rightarrow> Inl err))"

definition WorkflowService_DescribeDomain_Helper_UnwrapResponse ::
  "WorkflowService_DescribeDomain_Result \<Rightarrow> DescribeDomainResponse option \<times> go_error option" where
  "WorkflowService_DescribeDomain_Helper_UnwrapResponse result =
    (if WorkflowService_DescribeDomain_Result.BadRequestError result \<noteq> None then (None, Some
        (E_BadRequestError (WorkflowService_DescribeDomain_Result.BadRequestError result))) else
     if WorkflowService_DescribeDomain_Result.InternalServiceError result \<noteq> None then (None, Some
         (E_InternalServiceError (WorkflowService_DescribeDomain_Result.InternalServiceError
         result))) else
     if WorkflowService_DescribeDomain_Result.EntityNotExistError result \<noteq> None then (None, Some
         (E_EntityNotExistsError (WorkflowService_DescribeDomain_Result.EntityNotExistError
         result))) else
     if WorkflowService_DescribeDomain_Result.ServiceBusyError result \<noteq> None then (None, Some
         (E_ServiceBusyError (WorkflowService_DescribeDomain_Result.ServiceBusyError result))) else
     if WorkflowService_DescribeDomain_Result.ClientVersionNotSupportedError result \<noteq> None then
         (None, Some (E_ClientVersionNotSupportedError
         (WorkflowService_DescribeDomain_Result.ClientVersionNotSupportedError result))) else
     if WorkflowService_DescribeDomain_Result.Success result \<noteq> None then
         (WorkflowService_DescribeDomain_Result.Success result, None) else
     (None, Some (E_New ''expected a non-void result'')))"

definition handler_DescribeDomain ::
  "'v wire_api \<Rightarrow> ('ctx \<Rightarrow> DescribeDomainRequest option \<Rightarrow> DescribeDomainResponse option \<times> go_error
      option) \<Rightarrow>
   ('ctx, 'v) unary_handler" where
  "handler_DescribeDomain W impl ctx body =
     (case WorkflowService_DescribeDomain_Args_FromWire W body
         WorkflowService_DescribeDomain_Args_zero of
      Inl err \<Rightarrow> (no_response, Some err)
    | Inr args \<Rightarrow>
      let (success, err) = impl ctx (WorkflowService_DescribeDomain_Args.DescribeRequest args);
          hadError = (err \<noteq> None)
      in case WorkflowService_DescribeDomain_Helper_WrapResponse success err of
           Inl err \<Rightarrow> (no_response, Some err)
         | Inr result \<Rightarrow>
             (\<lparr>Body = Some (WorkflowService_DescribeDomain_Result_enveloper W result),
               IsApplicationError = hadError\<rparr>, None))"

definition client_DescribeDomain ::
  "'v wire_api \<Rightarrow> ('ctx, 'v) thrift_client \<Rightarrow> 'ctx \<Rightarrow> DescribeDomainRequest option \<Rightarrow>
   DescribeDomainResponse option \<times> go_error option" where
  "client_DescribeDomain W call ctx r =
     (let args = WorkflowService_DescribeDomain_Helper_Args r in
      case call ctx (WorkflowService_DescribeDomain_Args_enveloper W args) of
        Inl e \<Rightarrow> (None, Some e)
      | Inr body \<Rightarrow>
          (case WorkflowService_DescribeDomain_Result_FromWire W body
              WorkflowService_DescribeDomain_Result_zero of
             Inl e \<Rightarrow> (None, Some e)
           | Inr result \<Rightarrow> WorkflowService_DescribeDomain_Helper_UnwrapResponse result))"

lemma WorkflowService_DescribeDomain_Args_merge:
  "(case x of None \<Rightarrow> Inr \<lparr>WorkflowService_DescribeDomain_Args.DescribeRequest = a0\<rparr> | Some y \<Rightarrow> Inr
      \<lparr>WorkflowService_DescribeDomain_Args.DescribeRequest = b0 y\<rparr>) =
   Inr \<lparr>WorkflowService_DescribeDomain_Args.DescribeRequest = (case x of None \<Rightarrow> a0 | Some y \<Rightarrow> b0
       y)\<rparr>"
  by (cases x) simp_all

interpretation WorkflowService_DescribeDomain_Args: thrift_struct W
  "WorkflowService_DescribeDomain_Args_ToWire W" "WorkflowService_DescribeDomain_Args_FromWire W"
  WorkflowService_DescribeDomain_Args_zero "\<lambda>x. True" for W
proof (rule thrift_structI)
  fix x :: WorkflowService_DescribeDomain_Args
  assume laws: "wire_laws W"
  obtain enc0 where e0: "DescribeDomainRequest_ToWire W = (\<lambda>x. Inr (enc0 x))"
      "\<And>x. wire_api.Type W (enc0 x) = TStruct"
      "\<And>x. Writable W (enc0 x) \<longleftrightarrow> (\<lambda>_. True) x"
      "\<And>x. (\<lambda>_. True) x \<Longrightarrow> DescribeDomainRequest_FromWire W (enc0 x) DescribeDomainRequest_zero = Inr
          x"
    by (rule DescribeDomainRequest.encoder [OF laws]) (rule that)
  show "\<exists>w. WorkflowService_DescribeDomain_Args_ToWire W x = Inr w \<and> wire_api.Type W w = TStruct \<and>
      (Writable W w \<longleftrightarrow> True) \<and> (True \<longrightarrow> WorkflowService_DescribeDomain_Args_FromWire W w
          WorkflowService_DescribeDomain_Args_zero = Inr x)"
    by (cases x) (simp cong: option.case_cong add: codec_rules
        WorkflowService_DescribeDomain_Args_merge WorkflowService_DescribeDomain_Args_ToWire_def
        WorkflowService_DescribeDomain_Args_FromWire_def
      WorkflowService_DescribeDomain_Args_zero_def DescribeDomainRequest_Read_def if_set_def laws
          e0)
qed

lemma WorkflowService_DescribeDomain_Result_merge:
  "(case x of None \<Rightarrow> Inr \<lparr>WorkflowService_DescribeDomain_Result.Success = a0,
      WorkflowService_DescribeDomain_Result.BadRequestError = a1,
      WorkflowService_DescribeDomain_Result.InternalServiceError = a2,
      WorkflowService_DescribeDomain_Result.EntityNotExistError = a3,
      WorkflowService_DescribeDomain_Result.ServiceBusyError = a4,
      WorkflowService_DescribeDomain_Result.ClientVersionNotSupportedError = a5\<rparr> | Some y \<Rightarrow> Inr
      \<lparr>WorkflowService_DescribeDomain_Result.Success = b0 y,
      WorkflowService_DescribeDomain_Result.BadRequestError = b1 y,
      WorkflowService_DescribeDomain_Result.InternalServiceError = b2 y,
      WorkflowService_DescribeDomain_Result.EntityNotExistError = b3 y,
      WorkflowService_DescribeDomain_Result.ServiceBusyError = b4 y,
      WorkflowService_DescribeDomain_Result.ClientVersionNotSupportedError = b5 y\<rparr>) =
   Inr \<lparr>WorkflowService_DescribeDomain_Result.Success = (case x of None \<Rightarrow> a0 | Some y \<Rightarrow> b0 y),
       WorkflowService_DescribeDomain_Result.BadRequestError = (case x of None \<Rightarrow> a1 | Some y \<Rightarrow> b1
       y), WorkflowService_DescribeDomain_Result.InternalServiceError = (case x of None \<Rightarrow> a2 | Some
       y \<Rightarrow> b2 y), WorkflowService_DescribeDomain_Result.EntityNotExistError = (case x of None \<Rightarrow> a3 |
       Some y \<Rightarrow> b3 y), WorkflowService_DescribeDomain_Result.ServiceBusyError = (case x of None \<Rightarrow> a4
       | Some y \<Rightarrow> b4 y), WorkflowService_DescribeDomain_Result.ClientVersionNotSupportedError =
       (case x of None \<Rightarrow> a5 | Some y \<Rightarrow> b5 y)\<rparr>"
  by (cases x) simp_all

interpretation WorkflowService_DescribeDomain_Result: thrift_struct W
  "WorkflowService_DescribeDomain_Result_ToWire W" "WorkflowService_DescribeDomain_Result_FromWire
      W"
  WorkflowService_DescribeDomain_Result_zero "\<lambda>r. WorkflowService_DescribeDomain_Result_count r = 1
      \<and> if_set DescribeDomainResponse_complete (WorkflowService_DescribeDomain_Result.Success r)"
      for W
proof (rule thrift_checkedI)
  fix x :: WorkflowService_DescribeDomain_Result
  assume laws: "wire_laws W"
  obtain enc0 where e0: "DescribeDomainResponse_ToWire W = (\<lambda>x. Inr (enc0 x))"
      "\<And>x. wire_api.Type W (enc0 x) = TStruct"
      "\<And>x. Writable W (enc0 x) \<longleftrightarrow> DescribeDomainResponse_complete x"
      "\<And>x. DescribeDomainResponse_complete x \<Longrightarrow> DescribeDomainResponse_FromWire W (enc0 x)
          DescribeDomainResponse_zero = Inr x"
    by (rule DescribeDomainResponse.encoder [OF laws]) (rule that)
  obtain enc1 where e1: "BadRequestError_ToWire W = (\<lambda>x. Inr (enc1 x))"
      "\<And>x. wire_api.Type W (enc1 x) = TStruct"
      "\<And>x. Writable W (enc1 x) \<longleftrightarrow> (\<lambda>_. True) x"
      "\<And>x. (\<lambda>_. True) x \<Longrightarrow> BadRequestError_FromWire W (enc1 x) BadRequestError_zero = Inr x"
    by (rule BadRequestError.encoder [OF laws]) (rule that)
  obtain enc2 where e2: "InternalServiceError_ToWire W = (\<lambda>x. Inr (enc2 x))"
      "\<And>x. wire_api.Type W (enc2 x) = TStruct"
      "\<And>x. Writable W (enc2 x) \<longleftrightarrow> (\<lambda>_. True) x"
      "\<And>x. (\<lambda>_. True) x \<Longrightarrow> InternalServiceError_FromWire W (enc2 x) InternalServiceError_zero = Inr
          x"
    by (rule InternalServiceError.encoder [OF laws]) (rule that)
  obtain enc3 where e3: "EntityNotExistsError_ToWire W = (\<lambda>x. Inr (enc3 x))"
      "\<And>x. wire_api.Type W (enc3 x) = TStruct"
      "\<And>x. Writable W (enc3 x) \<longleftrightarrow> (\<lambda>_. True) x"
      "\<And>x. (\<lambda>_. True) x \<Longrightarrow> EntityNotExistsError_FromWire W (enc3 x) EntityNotExistsError_zero = Inr
          x"
    by (rule EntityNotExistsError.encoder [OF laws]) (rule that)
  obtain enc4 where e4: "ServiceBusyError_ToWire W = (\<lambda>x. Inr (enc4 x))"
      "\<And>x. wire_api.Type W (enc4 x) = TStruct"
      "\<And>x. Writable W (enc4 x) \<longleftrightarrow> (\<lambda>_. True) x"
      "\<And>x. (\<lambda>_. True) x \<Longrightarrow> ServiceBusyError_FromWire W (enc4 x) ServiceBusyError_zero = Inr x"
    by (rule ServiceBusyError.encoder [OF laws]) (rule that)
  obtain enc5 where e5: "ClientVersionNotSupportedError_ToWire W = (\<lambda>x. Inr (enc5 x))"
      "\<And>x. wire_api.Type W (enc5 x) = TStruct"
      "\<And>x. Writable W (enc5 x) \<longleftrightarrow> (\<lambda>_. True) x"
      "\<And>x. (\<lambda>_. True) x \<Longrightarrow> ClientVersionNotSupportedError_FromWire W (enc5 x)
          ClientVersionNotSupportedError_zero = Inr x"
    by (rule ClientVersionNotSupportedError.encoder [OF laws]) (rule that)
  let ?fs = "((((opt_field 0 enc0 (WorkflowService_DescribeDomain_Result.Success x) @
      opt_field 1 enc1 (WorkflowService_DescribeDomain_Result.BadRequestError x)) @
      opt_field 2 enc2 (WorkflowService_DescribeDomain_Result.InternalServiceError x)) @
      opt_field 3 enc3 (WorkflowService_DescribeDomain_Result.EntityNotExistError x)) @
      opt_field 4 enc4 (WorkflowService_DescribeDomain_Result.ServiceBusyError x)) @
      opt_field 5 enc5 (WorkflowService_DescribeDomain_Result.ClientVersionNotSupportedError x)"
  let ?check = "\<lambda>r. if WorkflowService_DescribeDomain_Result_count x \<noteq> 1 then Inl (E_Errorf
      ''WorkflowService_DescribeDomain_Result should have exactly one field: got %v fields''
          (WorkflowService_DescribeDomain_Result_count x)) else Inr r"
  have "length ?fs = WorkflowService_DescribeDomain_Result_count x"
    by (simp add: WorkflowService_DescribeDomain_Result_count_def length_opt_field split del:
        if_split)
  then have "WorkflowService_DescribeDomain_Result_ToWire W x = ?check (NewValueStruct W ?fs)"
    by (simp only: WorkflowService_DescribeDomain_Result_ToWire_def put_opt_field and_then.simps
        append_Nil e0(1) e1(1) e2(1) e3(1) e4(1) e5(1))
  moreover have "WorkflowService_DescribeDomain_Result_FromWire W (NewValueStruct W ?fs)
      WorkflowService_DescribeDomain_Result_zero = ?check x"
    if "if_set DescribeDomainResponse_complete (WorkflowService_DescribeDomain_Result.Success x)"
    by (cases x, hypsubst) (simp cong: option.case_cong split del: if_split add: codec_rules Let_def
        WorkflowService_DescribeDomain_Result_merge
      WorkflowService_DescribeDomain_Result_FromWire_def
          WorkflowService_DescribeDomain_Result_zero_def laws if_set_def that [unfolded if_set_def]
      BadRequestError_Read_def
      ClientVersionNotSupportedError_Read_def
      DescribeDomainResponse_Read_def
      EntityNotExistsError_Read_def
      InternalServiceError_Read_def
      ServiceBusyError_Read_def
      e0 e1 e2 e3 e4 e5)
  ultimately show "if WorkflowService_DescribeDomain_Result_count x = 1
      then \<exists>w. WorkflowService_DescribeDomain_Result_ToWire W x = Inr w \<and> wire_api.Type W w =
          TStruct \<and>
        (Writable W w \<longleftrightarrow> if_set DescribeDomainResponse_complete
            (WorkflowService_DescribeDomain_Result.Success x)) \<and> (if_set
            DescribeDomainResponse_complete (WorkflowService_DescribeDomain_Result.Success x) \<longrightarrow>
            WorkflowService_DescribeDomain_Result_FromWire W w
            WorkflowService_DescribeDomain_Result_zero = Inr x)
      else \<exists>e. WorkflowService_DescribeDomain_Result_ToWire W x = Inl e"
    by (simp add: laws codec_rules e0 e1 e2 e3 e4 e5)
qed

interpretation DescribeDomain: rpc_method W
  "WorkflowService_DescribeDomain_Args_ToWire W" "WorkflowService_DescribeDomain_Args_FromWire W"
      WorkflowService_DescribeDomain_Args_zero "\<lambda>x. True"
  "WorkflowService_DescribeDomain_Result_ToWire W" "WorkflowService_DescribeDomain_Result_FromWire
      W" WorkflowService_DescribeDomain_Result_zero
  "\<lambda>r. WorkflowService_DescribeDomain_Result_count r = 1 \<and> if_set DescribeDomainResponse_complete
      (WorkflowService_DescribeDomain_Result.Success r)" "''DescribeDomain''"
  WorkflowService_DescribeDomain_Helper_Args "WorkflowService_DescribeDomain_Args.DescribeRequest"
  "\<lambda>(success, err). WorkflowService_DescribeDomain_Helper_WrapResponse success err"
      WorkflowService_DescribeDomain_Helper_UnwrapResponse
  "\<lambda>out. snd out \<noteq> None" "carried DescribeDomainResponse_complete
      WorkflowService_DescribeDomain_Helper_IsException" error_first "\<lambda>e. (None, Some e)"
  "handler_DescribeDomain W" "client_DescribeDomain W" for W
proof
  fix out :: "DescribeDomainResponse option \<times> go_error option"
  assume "carried DescribeDomainResponse_complete WorkflowService_DescribeDomain_Helper_IsException
      out"
  then show "case (\<lambda>(success, err). WorkflowService_DescribeDomain_Helper_WrapResponse success err)
      out of Inl e \<Rightarrow> False
      | Inr res \<Rightarrow> (WorkflowService_DescribeDomain_Result_count res = 1 \<and> if_set
          DescribeDomainResponse_complete (WorkflowService_DescribeDomain_Result.Success res)) \<and>
          WorkflowService_DescribeDomain_Helper_UnwrapResponse res = error_first out"
    by (cases out; cases "snd out"; cases "the (snd out)")
      (auto simp: WorkflowService_DescribeDomain_Helper_IsException_def
          WorkflowService_DescribeDomain_Helper_WrapResponse_def
          WorkflowService_DescribeDomain_Helper_UnwrapResponse_def
        declared_nonnil_def WorkflowService_DescribeDomain_Result_zero_def
            WorkflowService_DescribeDomain_Result_count_def elim!: present.elims)
next
  fix out :: "DescribeDomainResponse option \<times> go_error option"
  assume "\<not> carried DescribeDomainResponse_complete
      WorkflowService_DescribeDomain_Helper_IsException out"
  then show "case (\<lambda>(success, err). WorkflowService_DescribeDomain_Helper_WrapResponse success err)
      out of Inl e \<Rightarrow> True
      | Inr res \<Rightarrow> \<not> (WorkflowService_DescribeDomain_Result_count res = 1 \<and> if_set
          DescribeDomainResponse_complete (WorkflowService_DescribeDomain_Result.Success res))"
    by (cases out; cases "snd out"; cases "the (snd out)")
      (auto simp: WorkflowService_DescribeDomain_Helper_IsException_def
          WorkflowService_DescribeDomain_Helper_WrapResponse_def declared_nonnil_def
        WorkflowService_DescribeDomain_Result_count_def
            WorkflowService_DescribeDomain_Result_zero_def split: option.splits)
qed (auto simp: WorkflowService_DescribeDomain_Helper_Args_def handler_DescribeDomain_def
    client_DescribeDomain_def
      WorkflowService_DescribeDomain_Args_enveloper_def
          WorkflowService_DescribeDomain_Result_enveloper_def
      Let_def split: sum.splits prod.splits)

section \<open>ListDomains\<close>

record WorkflowService_ListDomains_Args =
  ListRequest :: "ListDomainsRequest option"

definition WorkflowService_ListDomains_Args_zero :: WorkflowService_ListDomains_Args where
  "WorkflowService_ListDomains_Args_zero = \<lparr>WorkflowService_ListDomains_Args.ListRequest = None\<rparr>"

definition WorkflowService_ListDomains_Args_ToWire ::
  "'v wire_api \<Rightarrow> WorkflowService_ListDomains_Args \<Rightarrow> go_error + 'v" where
  "WorkflowService_ListDomains_Args_ToWire W v =
     and_then (put_opt 1 (ListDomainsRequest_ToWire W) (WorkflowService_ListDomains_Args.ListRequest
         v) [])
       (\<lambda>fields.
     Inr (NewValueStruct W fields))"

definition WorkflowService_ListDomains_Args_FromWire ::
  "'v wire_api \<Rightarrow> 'v \<Rightarrow> WorkflowService_ListDomains_Args \<Rightarrow> go_error +
      WorkflowService_ListDomains_Args" where
  "WorkflowService_ListDomains_Args_FromWire W w v =
     foldM (\<lambda>v (fid, fval).
       if fid = 1 then
         if wire_api.Type W fval = TStruct
         then and_then (ListDomainsRequest_Read W fval) (\<lambda>x. Inr
             (v\<lparr>WorkflowService_ListDomains_Args.ListRequest := Some x\<rparr>))
         else Inr v
       else Inr v) (GetStruct W w) v"

definition WorkflowService_ListDomains_Args_enveloper ::
  "'v wire_api \<Rightarrow> WorkflowService_ListDomains_Args \<Rightarrow> 'v enveloper" where
  "WorkflowService_ListDomains_Args_enveloper W v =
     \<lparr>MethodName = ''ListDomains'', EnvelopeType = Call, EnvelopeToWire =
         WorkflowService_ListDomains_Args_ToWire W v\<rparr>"

definition WorkflowService_ListDomains_Args_Equals ::
  "WorkflowService_ListDomains_Args option \<Rightarrow> WorkflowService_ListDomains_Args option \<Rightarrow> bool" where
  "WorkflowService_ListDomains_Args_Equals v rhs =
     (case v of None \<Rightarrow> rhs = None
      | Some v \<Rightarrow> (case rhs of None \<Rightarrow> False
        | Some rhs \<Rightarrow>
          if \<not> both_set_and (\<lambda>x y. ListDomainsRequest_Equals (Some x) (Some y))
              (WorkflowService_ListDomains_Args.ListRequest v)
              (WorkflowService_ListDomains_Args.ListRequest rhs) then False else
          True))"

lemma WorkflowService_ListDomains_Args_Equals_iff [simp]: "WorkflowService_ListDomains_Args_Equals x
    y \<longleftrightarrow> x = y"
  by (cases x; cases y) (auto simp: WorkflowService_ListDomains_Args_Equals_def)

record WorkflowService_ListDomains_Result =
  Success :: "ListDomainsResponse option"
  BadRequestError :: "BadRequestError option"
  InternalServiceError :: "InternalServiceError option"
  EntityNotExistError :: "EntityNotExistsError option"
  ServiceBusyError :: "ServiceBusyError option"
  ClientVersionNotSupportedError :: "ClientVersionNotSupportedError option"

definition WorkflowService_ListDomains_Result_count :: "WorkflowService_ListDomains_Result \<Rightarrow> nat"
    where
  "WorkflowService_ListDomains_Result_count v =
     (if WorkflowService_ListDomains_Result.Success v \<noteq> None then 1 else 0) +
     (if WorkflowService_ListDomains_Result.BadRequestError v \<noteq> None then 1 else 0) +
     (if WorkflowService_ListDomains_Result.InternalServiceError v \<noteq> None then 1 else 0) +
     (if WorkflowService_ListDomains_Result.EntityNotExistError v \<noteq> None then 1 else 0) +
     (if WorkflowService_ListDomains_Result.ServiceBusyError v \<noteq> None then 1 else 0) +
     (if WorkflowService_ListDomains_Result.ClientVersionNotSupportedError v \<noteq> None then 1 else 0)"

definition WorkflowService_ListDomains_Result_zero :: WorkflowService_ListDomains_Result where
  "WorkflowService_ListDomains_Result_zero = \<lparr>WorkflowService_ListDomains_Result.Success = None,
      WorkflowService_ListDomains_Result.BadRequestError = None,
      WorkflowService_ListDomains_Result.InternalServiceError = None,
      WorkflowService_ListDomains_Result.EntityNotExistError = None,
      WorkflowService_ListDomains_Result.ServiceBusyError = None,
      WorkflowService_ListDomains_Result.ClientVersionNotSupportedError = None\<rparr>"

definition WorkflowService_ListDomains_Result_ToWire ::
  "'v wire_api \<Rightarrow> WorkflowService_ListDomains_Result \<Rightarrow> go_error + 'v" where
  "WorkflowService_ListDomains_Result_ToWire W v =
     and_then (put_opt 0 (ListDomainsResponse_ToWire W) (WorkflowService_ListDomains_Result.Success
         v) [])
       (\<lambda>fields.
     and_then (put_opt 1 (BadRequestError_ToWire W)
         (WorkflowService_ListDomains_Result.BadRequestError v) fields)
       (\<lambda>fields.
     and_then (put_opt 2 (InternalServiceError_ToWire W)
         (WorkflowService_ListDomains_Result.InternalServiceError v) fields)
       (\<lambda>fields.
     and_then (put_opt 3 (EntityNotExistsError_ToWire W)
         (WorkflowService_ListDomains_Result.EntityNotExistError v) fields)
       (\<lambda>fields.
     and_then (put_opt 4 (ServiceBusyError_ToWire W)
         (WorkflowService_ListDomains_Result.ServiceBusyError v) fields)
       (\<lambda>fields.
     and_then (put_opt 5 (ClientVersionNotSupportedError_ToWire W)
         (WorkflowService_ListDomains_Result.ClientVersionNotSupportedError v) fields)
       (\<lambda>fields.
     if length fields \<noteq> 1
     then Inl (E_Errorf
         ''WorkflowService_ListDomains_Result should have exactly one field: got %v fields'' (length
         fields))
     else Inr (NewValueStruct W fields)))))))"

definition WorkflowService_ListDomains_Result_FromWire ::
  "'v wire_api \<Rightarrow> 'v \<Rightarrow> WorkflowService_ListDomains_Result \<Rightarrow> go_error +
      WorkflowService_ListDomains_Result" where
  "WorkflowService_ListDomains_Result_FromWire W w v =
     and_then (foldM (\<lambda>v (fid, fval).
       if fid = 0 then
         if wire_api.Type W fval = TStruct
         then and_then (ListDomainsResponse_Read W fval) (\<lambda>x. Inr
             (v\<lparr>WorkflowService_ListDomains_Result.Success := Some x\<rparr>))
         else Inr v
       else if fid = 1 then
         if wire_api.Type W fval = TStruct
         then and_then (BadRequestError_Read W fval) (\<lambda>x. Inr
             (v\<lparr>WorkflowService_ListDomains_Result.BadRequestError := Some x\<rparr>))
         else Inr v
       else if fid = 2 then
         if wire_api.Type W fval = TStruct
         then and_then (InternalServiceError_Read W fval) (\<lambda>x. Inr
             (v\<lparr>WorkflowService_ListDomains_Result.InternalServiceError := Some x\<rparr>))
         else Inr v
       else if fid = 3 then
         if wire_api.Type W fval = TStruct
         then and_then (EntityNotExistsError_Read W fval) (\<lambda>x. Inr
             (v\<lparr>WorkflowService_ListDomains_Result.EntityNotExistError := Some x\<rparr>))
         else Inr v
       else if fid = 4 then
         if wire_api.Type W fval = TStruct
         then and_then (ServiceBusyError_Read W fval) (\<lambda>x. Inr
             (v\<lparr>WorkflowService_ListDomains_Result.ServiceBusyError := Some x\<rparr>))
         else Inr v
       else if fid = 5 then
         if wire_api.Type W fval = TStruct
         then and_then (ClientVersionNotSupportedError_Read W fval) (\<lambda>x. Inr
             (v\<lparr>WorkflowService_ListDomains_Result.ClientVersionNotSupportedError := Some x\<rparr>))
         else Inr v
       else Inr v) (GetStruct W w) v) (\<lambda>v.
     let count = WorkflowService_ListDomains_Result_count v in
     if count \<noteq> 1
     then Inl (E_Errorf
         ''WorkflowService_ListDomains_Result should have exactly one field: got %v fields'' count)
     else Inr v)"

definition WorkflowService_ListDomains_Result_enveloper ::
  "'v wire_api \<Rightarrow> WorkflowService_ListDomains_Result \<Rightarrow> 'v enveloper" where
  "WorkflowService_ListDomains_Result_enveloper W v =
     \<lparr>MethodName = ''ListDomains'', EnvelopeType = Reply, EnvelopeToWire =
         WorkflowService_ListDomains_Result_ToWire W v\<rparr>"

definition WorkflowService_ListDomains_Result_Equals ::
  "WorkflowService_ListDomains_Result option \<Rightarrow> WorkflowService_ListDomains_Result option \<Rightarrow> bool"
      where
  "WorkflowService_ListDomains_Result_Equals v rhs =
     (case v of None \<Rightarrow> rhs = None
      | Some v \<Rightarrow> (case rhs of None \<Rightarrow> False
        | Some rhs \<Rightarrow>
          if \<not> both_set_and (\<lambda>x y. ListDomainsResponse_Equals (Some x) (Some y))
              (WorkflowService_ListDomains_Result.Success v)
              (WorkflowService_ListDomains_Result.Success rhs) then False else
          if \<not> both_set_and (\<lambda>x y. BadRequestError_Equals (Some x) (Some y))
              (WorkflowService_ListDomains_Result.BadRequestError v)
              (WorkflowService_ListDomains_Result.BadRequestError rhs) then False else
          if \<not> both_set_and (\<lambda>x y. InternalServiceError_Equals (Some x) (Some y))
              (WorkflowService_ListDomains_Result.InternalServiceError v)
              (WorkflowService_ListDomains_Result.InternalServiceError rhs) then False else
          if \<not> both_set_and (\<lambda>x y. EntityNotExistsError_Equals (Some x) (Some y))
              (WorkflowService_ListDomains_Result.EntityNotExistError v)
              (WorkflowService_ListDomains_Result.EntityNotExistError rhs) then False else
          if \<not> both_set_and (\<lambda>x y. ServiceBusyError_Equals (Some x) (Some y))
              (WorkflowService_ListDomains_Result.ServiceBusyError v)
              (WorkflowService_ListDomains_Result.ServiceBusyError rhs) then False else
          if \<not> both_set_and (\<lambda>x y. ClientVersionNotSupportedError_Equals (Some x) (Some y))
              (WorkflowService_ListDomains_Result.ClientVersionNotSupportedError v)
              (WorkflowService_ListDomains_Result.ClientVersionNotSupportedError rhs) then False
              else
          True))"

lemma WorkflowService_ListDomains_Result_Equals_iff [simp]:
    "WorkflowService_ListDomains_Result_Equals x y \<longleftrightarrow> x = y"
  by (cases x; cases y) (simp_all add: WorkflowService_ListDomains_Result_Equals_def if_not_False,
      fastforce intro: WorkflowService_ListDomains_Result.equality)

definition WorkflowService_ListDomains_Helper_Args :: "ListDomainsRequest option \<Rightarrow>
    WorkflowService_ListDomains_Args" where
  "WorkflowService_ListDomains_Helper_Args r = \<lparr>WorkflowService_ListDomains_Args.ListRequest = r\<rparr>"

definition WorkflowService_ListDomains_Helper_IsException :: "go_error \<Rightarrow> bool" where
  "WorkflowService_ListDomains_Helper_IsException err =
     (case err of
        E_BadRequestError _ \<Rightarrow> True
      | E_InternalServiceError _ \<Rightarrow> True
      | E_EntityNotExistsError _ \<Rightarrow> True
      | E_ServiceBusyError _ \<Rightarrow> True
      | E_ClientVersionNotSupportedError _ \<Rightarrow> True
      | _ \<Rightarrow> False)"

definition WorkflowService_ListDomains_Helper_WrapResponse ::
  "ListDomainsResponse option \<Rightarrow> go_error option \<Rightarrow> go_error + WorkflowService_ListDomains_Result"
      where
  "WorkflowService_ListDomains_Helper_WrapResponse success err =
     (case err of None \<Rightarrow> Inr
         (WorkflowService_ListDomains_Result_zero\<lparr>WorkflowService_ListDomains_Result.Success :=
         success\<rparr>)
      | Some err \<Rightarrow> (case err of
          E_BadRequestError e \<Rightarrow> (case e of
              None \<Rightarrow> Inl (E_New
                  ''WrapResponse received non-nil error type with nil value for WorkflowService_ListDomains_Result.BadRequestError'')
            | Some e \<Rightarrow> Inr
                (WorkflowService_ListDomains_Result_zero\<lparr>WorkflowService_ListDomains_Result.BadRequestError := Some e\<rparr>))
        | E_InternalServiceError e \<Rightarrow> (case e of
              None \<Rightarrow> Inl (E_New
                  ''WrapResponse received non-nil error type with nil value for WorkflowService_ListDomains_Result.InternalServiceError'')
            | Some e \<Rightarrow> Inr
                (WorkflowService_ListDomains_Result_zero\<lparr>WorkflowService_ListDomains_Result.InternalServiceError := Some e\<rparr>))
        | E_EntityNotExistsError e \<Rightarrow> (case e of
              None \<Rightarrow> Inl (E_New
                  ''WrapResponse received non-nil error type with nil value for WorkflowService_ListDomains_Result.EntityNotExistError'')
            | Some e \<Rightarrow> Inr
                (WorkflowService_ListDomains_Result_zero\<lparr>WorkflowService_ListDomains_Result.EntityNotExistError := Some e\<rparr>))
        | E_ServiceBusyError e \<Rightarrow> (case e of
              None \<Rightarrow> Inl (E_New
                  ''WrapResponse received non-nil error type with nil value for WorkflowService_ListDomains_Result.ServiceBusyError'')
            | Some e \<Rightarrow> Inr
                (WorkflowService_ListDomains_Result_zero\<lparr>WorkflowService_ListDomains_Result.ServiceBusyError := Some e\<rparr>))
        | E_ClientVersionNotSupportedError e \<Rightarrow> (case e of
              None \<Rightarrow> Inl (E_New
                  ''WrapResponse received non-nil error type with nil value for WorkflowService_ListDomains_Result.ClientVersionNotSupportedError'')
            | Some e \<Rightarrow> Inr
                (WorkflowService_ListDomains_Result_zero\<lparr>WorkflowService_ListDomains_Result.ClientVersionNotSupportedError := Some e\<rparr>))
        | _ \<Rightarrow> Inl err))"

definition WorkflowService_ListDomains_Helper_UnwrapResponse ::
  "WorkflowService_ListDomains_Result \<Rightarrow> ListDomainsResponse option \<times> go_error option" where
  "WorkflowService_ListDomains_Helper_UnwrapResponse result =
    (if WorkflowService_ListDomains_Result.BadRequestError result \<noteq> None then (None, Some
        (E_BadRequestError (WorkflowService_ListDomains_Result.BadRequestError result))) else
     if WorkflowService_ListDomains_Result.InternalServiceError result \<noteq> None then (None, Some
         (E_InternalServiceError (WorkflowService_ListDomains_Result.InternalServiceError result)))
         else
     if WorkflowService_ListDomains_Result.EntityNotExistError result \<noteq> None then (None, Some
         (E_EntityNotExistsError (WorkflowService_ListDomains_Result.EntityNotExistError result)))
         else
     if WorkflowService_ListDomains_Result.ServiceBusyError result \<noteq> None then (None, Some
         (E_ServiceBusyError (WorkflowService_ListDomains_Result.ServiceBusyError result))) else
     if WorkflowService_ListDomains_Result.ClientVersionNotSupportedError result \<noteq> None then (None,
         Some (E_ClientVersionNotSupportedError
         (WorkflowService_ListDomains_Result.ClientVersionNotSupportedError result))) else
     if WorkflowService_ListDomains_Result.Success result \<noteq> None then
         (WorkflowService_ListDomains_Result.Success result, None) else
     (None, Some (E_New ''expected a non-void result'')))"

definition handler_ListDomains ::
  "'v wire_api \<Rightarrow> ('ctx \<Rightarrow> ListDomainsRequest option \<Rightarrow> ListDomainsResponse option \<times> go_error option) \<Rightarrow>
   ('ctx, 'v) unary_handler" where
  "handler_ListDomains W impl ctx body =
     (case WorkflowService_ListDomains_Args_FromWire W body WorkflowService_ListDomains_Args_zero of
      Inl err \<Rightarrow> (no_response, Some err)
    | Inr args \<Rightarrow>
      let (success, err) = impl ctx (WorkflowService_ListDomains_Args.ListRequest args);
          hadError = (err \<noteq> None)
      in case WorkflowService_ListDomains_Helper_WrapResponse success err of
           Inl err \<Rightarrow> (no_response, Some err)
         | Inr result \<Rightarrow>
             (\<lparr>Body = Some (WorkflowService_ListDomains_Result_enveloper W result),
               IsApplicationError = hadError\<rparr>, None))"

definition client_ListDomains ::
  "'v wire_api \<Rightarrow> ('ctx, 'v) thrift_client \<Rightarrow> 'ctx \<Rightarrow> ListDomainsRequest option \<Rightarrow>
   ListDomainsResponse option \<times> go_error option" where
  "client_ListDomains W call ctx r =
     (let args = WorkflowService_ListDomains_Helper_Args r in
      case call ctx (WorkflowService_ListDomains_Args_enveloper W args) of
        Inl e \<Rightarrow> (None, Some e)
      | Inr body \<Rightarrow>
          (case WorkflowService_ListDomains_Result_FromWire W body
              WorkflowService_ListDomains_Result_zero of
             Inl e \<Rightarrow> (None, Some e)
           | Inr result \<Rightarrow> WorkflowService_ListDomains_Helper_UnwrapResponse result))"

lemma WorkflowService_ListDomains_Args_merge:
  "(case x of None \<Rightarrow> Inr \<lparr>WorkflowService_ListDomains_Args.ListRequest = a0\<rparr> | Some y \<Rightarrow> Inr
      \<lparr>WorkflowService_ListDomains_Args.ListRequest = b0 y\<rparr>) =
   Inr \<lparr>WorkflowService_ListDomains_Args.ListRequest = (case x of None \<Rightarrow> a0 | Some y \<Rightarrow> b0 y)\<rparr>"
  by (cases x) simp_all

interpretation WorkflowService_ListDomains_Args: thrift_struct W
  "WorkflowService_ListDomains_Args_ToWire W" "WorkflowService_ListDomains_Args_FromWire W"
  WorkflowService_ListDomains_Args_zero "\<lambda>x. True" for W
proof (rule thrift_structI)
  fix x :: WorkflowService_ListDomains_Args
  assume laws: "wire_laws W"
  obtain enc0 where e0: "ListDomainsRequest_ToWire W = (\<lambda>x. Inr (enc0 x))"
      "\<And>x. wire_api.Type W (enc0 x) = TStruct"
      "\<And>x. Writable W (enc0 x) \<longleftrightarrow> (\<lambda>_. True) x"
      "\<And>x. (\<lambda>_. True) x \<Longrightarrow> ListDomainsRequest_FromWire W (enc0 x) ListDomainsRequest_zero = Inr x"
    by (rule ListDomainsRequest.encoder [OF laws]) (rule that)
  show "\<exists>w. WorkflowService_ListDomains_Args_ToWire W x = Inr w \<and> wire_api.Type W w = TStruct \<and>
      (Writable W w \<longleftrightarrow> True) \<and> (True \<longrightarrow> WorkflowService_ListDomains_Args_FromWire W w
          WorkflowService_ListDomains_Args_zero = Inr x)"
    by (cases x) (simp cong: option.case_cong add: codec_rules
        WorkflowService_ListDomains_Args_merge WorkflowService_ListDomains_Args_ToWire_def
        WorkflowService_ListDomains_Args_FromWire_def
      WorkflowService_ListDomains_Args_zero_def ListDomainsRequest_Read_def if_set_def laws e0)
qed

lemma WorkflowService_ListDomains_Result_merge:
  "(case x of None \<Rightarrow> Inr \<lparr>WorkflowService_ListDomains_Result.Success = a0,
      WorkflowService_ListDomains_Result.BadRequestError = a1,
      WorkflowService_ListDomains_Result.InternalServiceError = a2,
      WorkflowService_ListDomains_Result.EntityNotExistError = a3,
      WorkflowService_ListDomains_Result.ServiceBusyError = a4,
      WorkflowService_ListDomains_Result.ClientVersionNotSupportedError = a5\<rparr> | Some y \<Rightarrow> Inr
      \<lparr>WorkflowService_ListDomains_Result.Success = b0 y,
      WorkflowService_ListDomains_Result.BadRequestError = b1 y,
      WorkflowService_ListDomains_Result.InternalServiceError = b2 y,
      WorkflowService_ListDomains_Result.EntityNotExistError = b3 y,
      WorkflowService_ListDomains_Result.ServiceBusyError = b4 y,
      WorkflowService_ListDomains_Result.ClientVersionNotSupportedError = b5 y\<rparr>) =
   Inr \<lparr>WorkflowService_ListDomains_Result.Success = (case x of None \<Rightarrow> a0 | Some y \<Rightarrow> b0 y),
       WorkflowService_ListDomains_Result.BadRequestError = (case x of None \<Rightarrow> a1 | Some y \<Rightarrow> b1 y),
       WorkflowService_ListDomains_Result.InternalServiceError = (case x of None \<Rightarrow> a2 | Some y \<Rightarrow> b2
       y), WorkflowService_ListDomains_Result.EntityNotExistError = (case x of None \<Rightarrow> a3 | Some y \<Rightarrow>
       b3 y), WorkflowService_ListDomains_Result.ServiceBusyError = (case x of None \<Rightarrow> a4 | Some y \<Rightarrow>
       b4 y), WorkflowService_ListDomains_Result.ClientVersionNotSupportedError = (case x of None \<Rightarrow>
       a5 | Some y \<Rightarrow> b5 y)\<rparr>"
  by (cases x) simp_all

interpretation WorkflowService_ListDomains_Result: thrift_struct W
  "WorkflowService_ListDomains_Result_ToWire W" "WorkflowService_ListDomains_Result_FromWire W"
  WorkflowService_ListDomains_Result_zero "\<lambda>r. WorkflowService_ListDomains_Result_count r = 1 \<and>
      if_set ListDomainsResponse_complete (WorkflowService_ListDomains_Result.Success r)" for W
proof (rule thrift_checkedI)
  fix x :: WorkflowService_ListDomains_Result
  assume laws: "wire_laws W"
  obtain enc0 where e0: "ListDomainsResponse_ToWire W = (\<lambda>x. Inr (enc0 x))"
      "\<And>x. wire_api.Type W (enc0 x) = TStruct"
      "\<And>x. Writable W (enc0 x) \<longleftrightarrow> ListDomainsResponse_complete x"
      "\<And>x. ListDomainsResponse_complete x \<Longrightarrow> ListDomainsResponse_FromWire W (enc0 x)
          ListDomainsResponse_zero = Inr x"
    by (rule ListDomainsResponse.encoder [OF laws]) (rule that)
  obtain enc1 where e1: "BadRequestError_ToWire W = (\<lambda>x. Inr (enc1 x))"
      "\<And>x. wire_api.Type W (enc1 x) = TStruct"
      "\<And>x. Writable W (enc1 x) \<longleftrightarrow> (\<lambda>_. True) x"
      "\<And>x. (\<lambda>_. True) x \<Longrightarrow> BadRequestError_FromWire W (enc1 x) BadRequestError_zero = Inr x"
    by (rule BadRequestError.encoder [OF laws]) (rule that)
  obtain enc2 where e2: "InternalServiceError_ToWire W = (\<lambda>x. Inr (enc2 x))"
      "\<And>x. wire_api.Type W (enc2 x) = TStruct"
      "\<And>x. Writable W (enc2 x) \<longleftrightarrow> (\<lambda>_. True) x"
      "\<And>x. (\<lambda>_. True) x \<Longrightarrow> InternalServiceError_FromWire W (enc2 x) InternalServiceError_zero = Inr
          x"
    by (rule InternalServiceError.encoder [OF laws]) (rule that)
  obtain enc3 where e3: "EntityNotExistsError_ToWire W = (\<lambda>x. Inr (enc3 x))"
      "\<And>x. wire_api.Type W (enc3 x) = TStruct"
      "\<And>x. Writable W (enc3 x) \<longleftrightarrow> (\<lambda>_. True) x"
      "\<And>x. (\<lambda>_. True) x \<Longrightarrow> EntityNotExistsError_FromWire W (enc3 x) EntityNotExistsError_zero = Inr
          x"
    by (rule EntityNotExistsError.encoder [OF laws]) (rule that)
  obtain enc4 where e4: "ServiceBusyError_ToWire W = (\<lambda>x. Inr (enc4 x))"
      "\<And>x. wire_api.Type W (enc4 x) = TStruct"
      "\<And>x. Writable W (enc4 x) \<longleftrightarrow> (\<lambda>_. True) x"
      "\<And>x. (\<lambda>_. True) x \<Longrightarrow> ServiceBusyError_FromWire W (enc4 x) ServiceBusyError_zero = Inr x"
    by (rule ServiceBusyError.encoder [OF laws]) (rule that)
  obtain enc5 where e5: "ClientVersionNotSupportedError_ToWire W = (\<lambda>x. Inr (enc5 x))"
      "\<And>x. wire_api.Type W (enc5 x) = TStruct"
      "\<And>x. Writable W (enc5 x) \<longleftrightarrow> (\<lambda>_. True) x"
      "\<And>x. (\<lambda>_. True) x \<Longrightarrow> ClientVersionNotSupportedError_FromWire W (enc5 x)
          ClientVersionNotSupportedError_zero = Inr x"
    by (rule ClientVersionNotSupportedError.encoder [OF laws]) (rule that)
  let ?fs = "((((opt_field 0 enc0 (WorkflowService_ListDomains_Result.Success x) @
      opt_field 1 enc1 (WorkflowService_ListDomains_Result.BadRequestError x)) @
      opt_field 2 enc2 (WorkflowService_ListDomains_Result.InternalServiceError x)) @
      opt_field 3 enc3 (WorkflowService_ListDomains_Result.EntityNotExistError x)) @
      opt_field 4 enc4 (WorkflowService_ListDomains_Result.ServiceBusyError x)) @
      opt_field 5 enc5 (WorkflowService_ListDomains_Result.ClientVersionNotSupportedError x)"
  let ?check = "\<lambda>r. if WorkflowService_ListDomains_Result_count x \<noteq> 1 then Inl (E_Errorf
      ''WorkflowService_ListDomains_Result should have exactly one field: got %v fields''
          (WorkflowService_ListDomains_Result_count x)) else Inr r"
  have "length ?fs = WorkflowService_ListDomains_Result_count x"
    by (simp add: WorkflowService_ListDomains_Result_count_def length_opt_field split del: if_split)
  then have "WorkflowService_ListDomains_Result_ToWire W x = ?check (NewValueStruct W ?fs)"
    by (simp only: WorkflowService_ListDomains_Result_ToWire_def put_opt_field and_then.simps
        append_Nil e0(1) e1(1) e2(1) e3(1) e4(1) e5(1))
  moreover have "WorkflowService_ListDomains_Result_FromWire W (NewValueStruct W ?fs)
      WorkflowService_ListDomains_Result_zero = ?check x"
    if "if_set ListDomainsResponse_complete (WorkflowService_ListDomains_Result.Success x)"
    by (cases x, hypsubst) (simp cong: option.case_cong split del: if_split add: codec_rules Let_def
        WorkflowService_ListDomains_Result_merge
      WorkflowService_ListDomains_Result_FromWire_def WorkflowService_ListDomains_Result_zero_def
          laws if_set_def that [unfolded if_set_def]
      BadRequestError_Read_def
      ClientVersionNotSupportedError_Read_def
      EntityNotExistsError_Read_def
      InternalServiceError_Read_def
      ListDomainsResponse_Read_def
      ServiceBusyError_Read_def
      e0 e1 e2 e3 e4 e5)
  ultimately show "if WorkflowService_ListDomains_Result_count x = 1
      then \<exists>w. WorkflowService_ListDomains_Result_ToWire W x = Inr w \<and> wire_api.Type W w = TStruct \<and>
        (Writable W w \<longleftrightarrow> if_set ListDomainsResponse_complete
            (WorkflowService_ListDomains_Result.Success x)) \<and> (if_set ListDomainsResponse_complete
            (WorkflowService_ListDomains_Result.Success x) \<longrightarrow>
            WorkflowService_ListDomains_Result_FromWire W w WorkflowService_ListDomains_Result_zero
            = Inr x)
      else \<exists>e. WorkflowService_ListDomains_Result_ToWire W x = Inl e"
    by (simp add: laws codec_rules e0 e1 e2 e3 e4 e5)
qed

interpretation ListDomains: rpc_method W
  "WorkflowService_ListDomains_Args_ToWire W" "WorkflowService_ListDomains_Args_FromWire W"
      WorkflowService_ListDomains_Args_zero "\<lambda>x. True"
  "WorkflowService_ListDomains_Result_ToWire W" "WorkflowService_ListDomains_Result_FromWire W"
      WorkflowService_ListDomains_Result_zero
  "\<lambda>r. WorkflowService_ListDomains_Result_count r = 1 \<and> if_set ListDomainsResponse_complete
      (WorkflowService_ListDomains_Result.Success r)" "''ListDomains''"
  WorkflowService_ListDomains_Helper_Args "WorkflowService_ListDomains_Args.ListRequest"
  "\<lambda>(success, err). WorkflowService_ListDomains_Helper_WrapResponse success err"
      WorkflowService_ListDomains_Helper_UnwrapResponse
  "\<lambda>out. snd out \<noteq> None" "carried ListDomainsResponse_complete
      WorkflowService_ListDomains_Helper_IsException" error_first "\<lambda>e. (None, Some e)"
  "handler_ListDomains W" "client_ListDomains W" for W
proof
  fix out :: "ListDomainsResponse option \<times> go_error option"
  assume "carried ListDomainsResponse_complete WorkflowService_ListDomains_Helper_IsException out"
  then show "case (\<lambda>(success, err). WorkflowService_ListDomains_Helper_WrapResponse success err) out
      of Inl e \<Rightarrow> False
      | Inr res \<Rightarrow> (WorkflowService_ListDomains_Result_count res = 1 \<and> if_set
          ListDomainsResponse_complete (WorkflowService_ListDomains_Result.Success res)) \<and>
          WorkflowService_ListDomains_Helper_UnwrapResponse res = error_first out"
    by (cases out; cases "snd out"; cases "the (snd out)")
      (auto simp: WorkflowService_ListDomains_Helper_IsException_def
          WorkflowService_ListDomains_Helper_WrapResponse_def
          WorkflowService_ListDomains_Helper_UnwrapResponse_def
        declared_nonnil_def WorkflowService_ListDomains_Result_zero_def
            WorkflowService_ListDomains_Result_count_def elim!: present.elims)
next
  fix out :: "ListDomainsResponse option \<times> go_error option"
  assume "\<not> carried ListDomainsResponse_complete WorkflowService_ListDomains_Helper_IsException out"
  then show "case (\<lambda>(success, err). WorkflowService_ListDomains_Helper_WrapResponse success err) out
      of Inl e \<Rightarrow> True
      | Inr res \<Rightarrow> \<not> (WorkflowService_ListDomains_Result_count res = 1 \<and> if_set
          ListDomainsResponse_complete (WorkflowService_ListDomains_Result.Success res))"
    by (cases out; cases "snd out"; cases "the (snd out)")
      (auto simp: WorkflowService_ListDomains_Helper_IsException_def
          WorkflowService_ListDomains_Helper_WrapResponse_def declared_nonnil_def
        WorkflowService_ListDomains_Result_count_def WorkflowService_ListDomains_Result_zero_def
            split: option.splits)
qed (auto simp: WorkflowService_ListDomains_Helper_Args_def handler_ListDomains_def
    client_ListDomains_def
      WorkflowService_ListDomains_Args_enveloper_def
          WorkflowService_ListDomains_Result_enveloper_def
      Let_def split: sum.splits prod.splits)

section \<open>UpdateDomain\<close>

record WorkflowService_UpdateDomain_Args =
  UpdateRequest :: "UpdateDomainRequest option"

definition WorkflowService_UpdateDomain_Args_zero :: WorkflowService_UpdateDomain_Args where
  "WorkflowService_UpdateDomain_Args_zero = \<lparr>WorkflowService_UpdateDomain_Args.UpdateRequest =
      None\<rparr>"

definition WorkflowService_UpdateDomain_Args_ToWire ::
  "'v wire_api \<Rightarrow> WorkflowService_UpdateDomain_Args \<Rightarrow> go_error + 'v" where
  "WorkflowService_UpdateDomain_Args_ToWire W v =
     and_then (put_opt 1 (UpdateDomainRequest_ToWire W)
         (WorkflowService_UpdateDomain_Args.UpdateRequest v) [])
       (\<lambda>fields.
     Inr (NewValueStruct W fields))"

definition WorkflowService_UpdateDomain_Args_FromWire ::
  "'v wire_api \<Rightarrow> 'v \<Rightarrow> WorkflowService_UpdateDomain_Args \<Rightarrow> go_error +
      WorkflowService_UpdateDomain_Args" where
  "WorkflowService_UpdateDomain_Args_FromWire W w v =
     foldM (\<lambda>v (fid, fval).
       if fid = 1 then
         if wire_api.Type W fval = TStruct
         then and_then (UpdateDomainRequest_Read W fval) (\<lambda>x. Inr
             (v\<lparr>WorkflowService_UpdateDomain_Args.UpdateRequest := Some x\<rparr>))
         else Inr v
       else Inr v) (GetStruct W w) v"

definition WorkflowService_UpdateDomain_Args_enveloper ::
  "'v wire_api \<Rightarrow> WorkflowService_UpdateDomain_Args \<Rightarrow> 'v enveloper" where
  "WorkflowService_UpdateDomain_Args_enveloper W v =
     \<lparr>MethodName = ''UpdateDomain'', EnvelopeType = Call, EnvelopeToWire =
         WorkflowService_UpdateDomain_Args_ToWire W v\<rparr>"

definition WorkflowService_UpdateDomain_Args_Equals ::
  "WorkflowService_UpdateDomain_Args option \<Rightarrow> WorkflowService_UpdateDomain_Args option \<Rightarrow> bool" where
  "WorkflowService_UpdateDomain_Args_Equals v rhs =
     (case v of None \<Rightarrow> rhs = None
      | Some v \<Rightarrow> (case rhs of None \<Rightarrow> False
        | Some rhs \<Rightarrow>
          if \<not> both_set_and (\<lambda>x y. UpdateDomainRequest_Equals (Some x) (Some y))
              (WorkflowService_UpdateDomain_Args.UpdateRequest v)
              (WorkflowService_UpdateDomain_Args.UpdateRequest rhs) then False else
          True))"

lemma WorkflowService_UpdateDomain_Args_Equals_iff [simp]: "WorkflowService_UpdateDomain_Args_Equals
    x y \<longleftrightarrow> x = y"
  by (cases x; cases y) (auto simp: WorkflowService_UpdateDomain_Args_Equals_def)

record WorkflowService_UpdateDomain_Result =
  Success :: "UpdateDomainResponse option"
  BadRequestError :: "BadRequestError option"
  InternalServiceError :: "InternalServiceError option"
  EntityNotExistError :: "EntityNotExistsError option"
  ServiceBusyError :: "ServiceBusyError option"
  DomainNotActiveError :: "DomainNotActiveError option"
  ClientVersionNotSupportedError :: "ClientVersionNotSupportedError option"

definition WorkflowService_UpdateDomain_Result_count :: "WorkflowService_UpdateDomain_Result \<Rightarrow> nat"
    where
  "WorkflowService_UpdateDomain_Result_count v =
     (if WorkflowService_UpdateDomain_Result.Success v \<noteq> None then 1 else 0) +
     (if WorkflowService_UpdateDomain_Result.BadRequestError v \<noteq> None then 1 else 0) +
     (if WorkflowService_UpdateDomain_Result.InternalServiceError v \<noteq> None then 1 else 0) +
     (if WorkflowService_UpdateDomain_Result.EntityNotExistError v \<noteq> None then 1 else 0) +
     (if WorkflowService_UpdateDomain_Result.ServiceBusyError v \<noteq> None then 1 else 0) +
     (if WorkflowService_UpdateDomain_Result.DomainNotActiveError v \<noteq> None then 1 else 0) +
     (if WorkflowService_UpdateDomain_Result.ClientVersionNotSupportedError v \<noteq> None then 1 else 0)"

definition WorkflowService_UpdateDomain_Result_zero :: WorkflowService_UpdateDomain_Result where
  "WorkflowService_UpdateDomain_Result_zero = \<lparr>WorkflowService_UpdateDomain_Result.Success = None,
      WorkflowService_UpdateDomain_Result.BadRequestError = None,
      WorkflowService_UpdateDomain_Result.InternalServiceError = None,
      WorkflowService_UpdateDomain_Result.EntityNotExistError = None,
      WorkflowService_UpdateDomain_Result.ServiceBusyError = None,
      WorkflowService_UpdateDomain_Result.DomainNotActiveError = None,
      WorkflowService_UpdateDomain_Result.ClientVersionNotSupportedError = None\<rparr>"

definition WorkflowService_UpdateDomain_Result_ToWire ::
  "'v wire_api \<Rightarrow> WorkflowService_UpdateDomain_Result \<Rightarrow> go_error + 'v" where
  "WorkflowService_UpdateDomain_Result_ToWire W v =
     and_then (put_opt 0 (UpdateDomainResponse_ToWire W)
         (WorkflowService_UpdateDomain_Result.Success v) [])
       (\<lambda>fields.
     and_then (put_opt 1 (BadRequestError_ToWire W)
         (WorkflowService_UpdateDomain_Result.BadRequestError v) fields)
       (\<lambda>fields.
     and_then (put_opt 2 (InternalServiceError_ToWire W)
         (WorkflowService_UpdateDomain_Result.InternalServiceError v) fields)
       (\<lambda>fields.
     and_then (put_opt 3 (EntityNotExistsError_ToWire W)
         (WorkflowService_UpdateDomain_Result.EntityNotExistError v) fields)
       (\<lambda>fields.
     and_then (put_opt 4 (ServiceBusyError_ToWire W)
         (WorkflowService_UpdateDomain_Result.ServiceBusyError v) fields)
       (\<lambda>fields.
     and_then (put_opt 5 (DomainNotActiveError_ToWire W)
         (WorkflowService_UpdateDomain_Result.DomainNotActiveError v) fields)
       (\<lambda>fields.
     and_then (put_opt 6 (ClientVersionNotSupportedError_ToWire W)
         (WorkflowService_UpdateDomain_Result.ClientVersionNotSupportedError v) fields)
       (\<lambda>fields.
     if length fields \<noteq> 1
     then Inl (E_Errorf
         ''WorkflowService_UpdateDomain_Result should have exactly one field: got %v fields''
         (length fields))
     else Inr (NewValueStruct W fields))))))))"

definition WorkflowService_UpdateDomain_Result_FromWire ::
  "'v wire_api \<Rightarrow> 'v \<Rightarrow> WorkflowService_UpdateDomain_Result \<Rightarrow> go_error +
      WorkflowService_UpdateDomain_Result" where
  "WorkflowService_UpdateDomain_Result_FromWire W w v =
     and_then (foldM (\<lambda>v (fid, fval).
       if fid = 0 then
         if wire_api.Type W fval = TStruct
         then and_then (UpdateDomainResponse_Read W fval) (\<lambda>x. Inr
             (v\<lparr>WorkflowService_UpdateDomain_Result.Success := Some x\<rparr>))
         else Inr v
       else if fid = 1 then
         if wire_api.Type W fval = TStruct
         then and_then (BadRequestError_Read W fval) (\<lambda>x. Inr
             (v\<lparr>WorkflowService_UpdateDomain_Result.BadRequestError := Some x\<rparr>))
         else Inr v
       else if fid = 2 then
         if wire_api.Type W fval = TStruct
         then and_then (InternalServiceError_Read W fval) (\<lambda>x. Inr
             (v\<lparr>WorkflowService_UpdateDomain_Result.InternalServiceError := Some x\<rparr>))
         else Inr v
       else if fid = 3 then
         if wire_api.Type W fval = TStruct
         then and_then (EntityNotExistsError_Read W fval) (\<lambda>x. Inr
             (v\<lparr>WorkflowService_UpdateDomain_Result.EntityNotExistError := Some x\<rparr>))
         else Inr v
       else if fid = 4 then
         if wire_api.Type W fval = TStruct
         then and_then (ServiceBusyError_Read W fval) (\<lambda>x. Inr
             (v\<lparr>WorkflowService_UpdateDomain_Result.ServiceBusyError := Some x\<rparr>))
         else Inr v
       else if fid = 5 then
         if wire_api.Type W fval = TStruct
         then and_then (DomainNotActiveError_Read W fval) (\<lambda>x. Inr
             (v\<lparr>WorkflowService_UpdateDomain_Result.DomainNotActiveError := Some x\<rparr>))
         else Inr v
       else if fid = 6 then
         if wire_api.Type W fval = TStruct
         then and_then (ClientVersionNotSupportedError_Read W fval) (\<lambda>x. Inr
             (v\<lparr>WorkflowService_UpdateDomain_Result.ClientVersionNotSupportedError := Some x\<rparr>))
         else Inr v
       else Inr v) (GetStruct W w) v) (\<lambda>v.
     let count = WorkflowService_UpdateDomain_Result_count v in
     if count \<noteq> 1
     then Inl (E_Errorf
         ''WorkflowService_UpdateDomain_Result should have exactly one field: got %v fields'' count)
     else Inr v)"

definition WorkflowService_UpdateDomain_Result_enveloper ::
  "'v wire_api \<Rightarrow> WorkflowService_UpdateDomain_Result \<Rightarrow> 'v enveloper" where
  "WorkflowService_UpdateDomain_Result_enveloper W v =
     \<lparr>MethodName = ''UpdateDomain'', EnvelopeType = Reply, EnvelopeToWire =
         WorkflowService_UpdateDomain_Result_ToWire W v\<rparr>"

definition WorkflowService_UpdateDomain_Result_Equals ::
  "WorkflowService_UpdateDomain_Result option \<Rightarrow> WorkflowService_UpdateDomain_Result option \<Rightarrow> bool"
      where
  "WorkflowService_UpdateDomain_Result_Equals v rhs =
     (case v of None \<Rightarrow> rhs = None
      | Some v \<Rightarrow> (case rhs of None \<Rightarrow> False
        | Some rhs \<Rightarrow>
          if \<not> both_set_and (\<lambda>x y. UpdateDomainResponse_Equals (Some x) (Some y))
              (WorkflowService_UpdateDomain_Result.Success v)
              (WorkflowService_UpdateDomain_Result.Success rhs) then False else
          if \<not> both_set_and (\<lambda>x y. BadRequestError_Equals (Some x) (Some y))
              (WorkflowService_UpdateDomain_Result.BadRequestError v)
              (WorkflowService_UpdateDomain_Result.BadRequestError rhs) then False else
          if \<not> both_set_and (\<lambda>x y. InternalServiceError_Equals (Some x) (Some y))
              (WorkflowService_UpdateDomain_Result.InternalServiceError v)
              (WorkflowService_UpdateDomain_Result.InternalServiceError rhs) then False else
          if \<not> both_set_and (\<lambda>x y. EntityNotExistsError_Equals (Some x) (Some y))
              (WorkflowService_UpdateDomain_Result.EntityNotExistError v)
              (WorkflowService_UpdateDomain_Result.EntityNotExistError rhs) then False else
          if \<not> both_set_and (\<lambda>x y. ServiceBusyError_Equals (Some x) (Some y))
              (WorkflowService_UpdateDomain_Result.ServiceBusyError v)
              (WorkflowService_UpdateDomain_Result.ServiceBusyError rhs) then False else
          if \<not> both_set_and (\<lambda>x y. DomainNotActiveError_Equals (Some x) (Some y))
              (WorkflowService_UpdateDomain_Result.DomainNotActiveError v)
              (WorkflowService_UpdateDomain_Result.DomainNotActiveError rhs) then False else
          if \<not> both_set_and (\<lambda>x y. ClientVersionNotSupportedError_Equals (Some x) (Some y))
              (WorkflowService_UpdateDomain_Result.ClientVersionNotSupportedError v)
              (WorkflowService_UpdateDomain_Result.ClientVersionNotSupportedError rhs) then False
              else
          True))"

lemma WorkflowService_UpdateDomain_Result_Equals_iff [simp]:
    "WorkflowService_UpdateDomain_Result_Equals x y \<longleftrightarrow> x = y"
  by (cases x; cases y) (simp_all add: WorkflowService_UpdateDomain_Result_Equals_def if_not_False,
      fastforce intro: WorkflowService_UpdateDomain_Result.equality)

definition WorkflowService_UpdateDomain_Helper_Args :: "UpdateDomainRequest option \<Rightarrow>
    WorkflowService_UpdateDomain_Args" where
  "WorkflowService_UpdateDomain_Helper_Args r = \<lparr>WorkflowService_UpdateDomain_Args.UpdateRequest =
      r\<rparr>"

definition WorkflowService_UpdateDomain_Helper_IsException :: "go_error \<Rightarrow> bool" where
  "WorkflowService_UpdateDomain_Helper_IsException err =
     (case err of
        E_BadRequestError _ \<Rightarrow> True
      | E_InternalServiceError _ \<Rightarrow> True
      | E_EntityNotExistsError _ \<Rightarrow> True
      | E_ServiceBusyError _ \<Rightarrow> True
      | E_DomainNotActiveError _ \<Rightarrow> True
      | E_ClientVersionNotSupportedError _ \<Rightarrow> True
      | _ \<Rightarrow> False)"

definition WorkflowService_UpdateDomain_Helper_WrapResponse ::
  "UpdateDomainResponse option \<Rightarrow> go_error option \<Rightarrow> go_error + WorkflowService_UpdateDomain_Result"
      where
  "WorkflowService_UpdateDomain_Helper_WrapResponse success err =
     (case err of None \<Rightarrow> Inr
         (WorkflowService_UpdateDomain_Result_zero\<lparr>WorkflowService_UpdateDomain_Result.Success :=
         success\<rparr>)
      | Some err \<Rightarrow> (case err of
          E_BadRequestError e \<Rightarrow> (case e of
              None \<Rightarrow> Inl (E_New
                  ''WrapResponse received non-nil error type with nil value for WorkflowService_UpdateDomain_Result.BadRequestError'')
            | Some e \<Rightarrow> Inr
                (WorkflowService_UpdateDomain_Result_zero\<lparr>WorkflowService_UpdateDomain_Result.BadRequestError := Some e\<rparr>))
        | E_InternalServiceError e \<Rightarrow> (case e of
              None \<Rightarrow> Inl (E_New
                  ''WrapResponse received non-nil error type with nil value for WorkflowService_UpdateDomain_Result.InternalServiceError'')
            | Some e \<Rightarrow> Inr
                (WorkflowService_UpdateDomain_Result_zero\<lparr>WorkflowService_UpdateDomain_Result.InternalServiceError := Some e\<rparr>))
        | E_EntityNotExistsError e \<Rightarrow> (case e of
              None \<Rightarrow> Inl (E_New
                  ''WrapResponse received non-nil error type with nil value for WorkflowService_UpdateDomain_Result.EntityNotExistError'')
            | Some e \<Rightarrow> Inr
                (WorkflowService_UpdateDomain_Result_zero\<lparr>WorkflowService_UpdateDomain_Result.EntityNotExistError := Some e\<rparr>))
        | E_ServiceBusyError e \<Rightarrow> (case e of
              None \<Rightarrow> Inl (E_New
                  ''WrapResponse received non-nil error type with nil value for WorkflowService_UpdateDomain_Result.ServiceBusyError'')
            | Some e \<Rightarrow> Inr
                (WorkflowService_UpdateDomain_Result_zero\<lparr>WorkflowService_UpdateDomain_Result.ServiceBusyError := Some e\<rparr>))
        | E_DomainNotActiveError e \<Rightarrow> (case e of
              None \<Rightarrow> Inl (E_New
                  ''WrapResponse received non-nil error type with nil value for WorkflowService_UpdateDomain_Result.DomainNotActiveError'')
            | Some e \<Rightarrow> Inr
                (WorkflowService_UpdateDomain_Result_zero\<lparr>WorkflowService_UpdateDomain_Result.DomainNotActiveError := Some e\<rparr>))
        | E_ClientVersionNotSupportedError e \<Rightarrow> (case e of
              None \<Rightarrow> Inl (E_New
                  ''WrapResponse received non-nil error type with nil value for WorkflowService_UpdateDomain_Result.ClientVersionNotSupportedError'')
            | Some e \<Rightarrow> Inr
                (WorkflowService_UpdateDomain_Result_zero\<lparr>WorkflowService_UpdateDomain_Result.ClientVersionNotSupportedError := Some e\<rparr>))
        | _ \<Rightarrow> Inl err))"

definition WorkflowService_UpdateDomain_Helper_UnwrapResponse ::
  "WorkflowService_UpdateDomain_Result \<Rightarrow> UpdateDomainResponse option \<times> go_error option" where
  "WorkflowService_UpdateDomain_Helper_UnwrapResponse result =
    (if WorkflowService_UpdateDomain_Result.BadRequestError result \<noteq> None then (None, Some
        (E_BadRequestError (WorkflowService_UpdateDomain_Result.BadRequestError result))) else
     if WorkflowService_UpdateDomain_Result.InternalServiceError result \<noteq> None then (None, Some
         (E_InternalServiceError (WorkflowService_UpdateDomain_Result.InternalServiceError result)))
         else
     if WorkflowService_UpdateDomain_Result.EntityNotExistError result \<noteq> None then (None, Some
         (E_EntityNotExistsError (WorkflowService_UpdateDomain_Result.EntityNotExistError result)))
         else
     if WorkflowService_UpdateDomain_Result.ServiceBusyError result \<noteq> None then (None, Some
         (E_ServiceBusyError (WorkflowService_UpdateDomain_Result.ServiceBusyError result))) else
     if WorkflowService_UpdateDomain_Result.DomainNotActiveError result \<noteq> None then (None, Some
         (E_DomainNotActiveError (WorkflowService_UpdateDomain_Result.DomainNotActiveError result)))
         else
     if WorkflowService_UpdateDomain_Result.ClientVersionNotSupportedError result \<noteq> None then (None,
         Some (E_ClientVersionNotSupportedError
         (WorkflowService_UpdateDomain_Result.ClientVersionNotSupportedError result))) else
     if WorkflowService_UpdateDomain_Result.Success result \<noteq> None then
         (WorkflowService_UpdateDomain_Result.Success result, None) else
     (None, Some (E_New ''expected a non-void result'')))"

definition handler_UpdateDomain ::
  "'v wire_api \<Rightarrow> ('ctx \<Rightarrow> UpdateDomainRequest option \<Rightarrow> UpdateDomainResponse option \<times> go_error option)
      \<Rightarrow>
   ('ctx, 'v) unary_handler" where
  "handler_UpdateDomain W impl ctx body =
     (case WorkflowService_UpdateDomain_Args_FromWire W body WorkflowService_UpdateDomain_Args_zero
         of
      Inl err \<Rightarrow> (no_response, Some err)
    | Inr args \<Rightarrow>
      let (success, err) = impl ctx (WorkflowService_UpdateDomain_Args.UpdateRequest args);
          hadError = (err \<noteq> None)
      in case WorkflowService_UpdateDomain_Helper_WrapResponse success err of
           Inl err \<Rightarrow> (no_response, Some err)
         | Inr result \<Rightarrow>
             (\<lparr>Body = Some (WorkflowService_UpdateDomain_Result_enveloper W result),
               IsApplicationError = hadError\<rparr>, None))"

definition client_UpdateDomain ::
  "'v wire_api \<Rightarrow> ('ctx, 'v) thrift_client \<Rightarrow> 'ctx \<Rightarrow> UpdateDomainRequest option \<Rightarrow>
   UpdateDomainResponse option \<times> go_error option" where
  "client_UpdateDomain W call ctx r =
     (let args = WorkflowService_UpdateDomain_Helper_Args r in
      case call ctx (WorkflowService_UpdateDomain_Args_enveloper W args) of
        Inl e \<Rightarrow> (None, Some e)
      | Inr body \<Rightarrow>
          (case WorkflowService_UpdateDomain_Result_FromWire W body
              WorkflowService_UpdateDomain_Result_zero of
             Inl e \<Rightarrow> (None, Some e)
           | Inr result \<Rightarrow> WorkflowService_UpdateDomain_Helper_UnwrapResponse result))"

lemma WorkflowService_UpdateDomain_Args_merge:
  "(case x of None \<Rightarrow> Inr \<lparr>WorkflowService_UpdateDomain_Args.UpdateRequest = a0\<rparr> | Some y \<Rightarrow> Inr
      \<lparr>WorkflowService_UpdateDomain_Args.UpdateRequest = b0 y\<rparr>) =
   Inr \<lparr>WorkflowService_UpdateDomain_Args.UpdateRequest = (case x of None \<Rightarrow> a0 | Some y \<Rightarrow> b0 y)\<rparr>"
  by (cases x) simp_all

interpretation WorkflowService_UpdateDomain_Args: thrift_struct W
  "WorkflowService_UpdateDomain_Args_ToWire W" "WorkflowService_UpdateDomain_Args_FromWire W"
  WorkflowService_UpdateDomain_Args_zero "\<lambda>x. if_set UpdateDomainRequest_complete
      (WorkflowService_UpdateDomain_Args.UpdateRequest x)" for W
proof (rule thrift_structI)
  fix x :: WorkflowService_UpdateDomain_Args
  assume laws: "wire_laws W"
  obtain enc0 where e0: "UpdateDomainRequest_ToWire W = (\<lambda>x. Inr (enc0 x))"
      "\<And>x. wire_api.Type W (enc0 x) = TStruct"
      "\<And>x. Writable W (enc0 x) \<longleftrightarrow> UpdateDomainRequest_complete x"
      "\<And>x. UpdateDomainRequest_complete x \<Longrightarrow> UpdateDomainRequest_FromWire W (enc0 x)
          UpdateDomainRequest_zero = Inr x"
    by (rule UpdateDomainRequest.encoder [OF laws]) (rule that)
  show "\<exists>w. WorkflowService_UpdateDomain_Args_ToWire W x = Inr w \<and> wire_api.Type W w = TStruct \<and>
      (Writable W w \<longleftrightarrow> if_set UpdateDomainRequest_complete
          (WorkflowService_UpdateDomain_Args.UpdateRequest x)) \<and> (if_set
          UpdateDomainRequest_complete (WorkflowService_UpdateDomain_Args.UpdateRequest x) \<longrightarrow>
          WorkflowService_UpdateDomain_Args_FromWire W w WorkflowService_UpdateDomain_Args_zero =
          Inr x)"
    by (cases x) (simp cong: option.case_cong add: codec_rules
        WorkflowService_UpdateDomain_Args_merge WorkflowService_UpdateDomain_Args_ToWire_def
        WorkflowService_UpdateDomain_Args_FromWire_def
      WorkflowService_UpdateDomain_Args_zero_def UpdateDomainRequest_Read_def if_set_def laws e0)
qed

lemma WorkflowService_UpdateDomain_Result_merge:
  "(case x of None \<Rightarrow> Inr \<lparr>WorkflowService_UpdateDomain_Result.Success = a0,
      WorkflowService_UpdateDomain_Result.BadRequestError = a1,
      WorkflowService_UpdateDomain_Result.InternalServiceError = a2,
      WorkflowService_UpdateDomain_Result.EntityNotExistError = a3,
      WorkflowService_UpdateDomain_Result.ServiceBusyError = a4,
      WorkflowService_UpdateDomain_Result.DomainNotActiveError = a5,
      WorkflowService_UpdateDomain_Result.ClientVersionNotSupportedError = a6\<rparr> | Some y \<Rightarrow> Inr
      \<lparr>WorkflowService_UpdateDomain_Result.Success = b0 y,
      WorkflowService_UpdateDomain_Result.BadRequestError = b1 y,
      WorkflowService_UpdateDomain_Result.InternalServiceError = b2 y,
      WorkflowService_UpdateDomain_Result.EntityNotExistError = b3 y,
      WorkflowService_UpdateDomain_Result.ServiceBusyError = b4 y,
      WorkflowService_UpdateDomain_Result.DomainNotActiveError = b5 y,
      WorkflowService_UpdateDomain_Result.ClientVersionNotSupportedError = b6 y\<rparr>) =
   Inr \<lparr>WorkflowService_UpdateDomain_Result.Success = (case x of None \<Rightarrow> a0 | Some y \<Rightarrow> b0 y),
       WorkflowService_UpdateDomain_Result.BadRequestError = (case x of None \<Rightarrow> a1 | Some y \<Rightarrow> b1 y),
       WorkflowService_UpdateDomain_Result.InternalServiceError = (case x of None \<Rightarrow> a2 | Some y \<Rightarrow> b2
       y), WorkflowService_UpdateDomain_Result.EntityNotExistError = (case x of None \<Rightarrow> a3 | Some y \<Rightarrow>
       b3 y), WorkflowService_UpdateDomain_Result.ServiceBusyError = (case x of None \<Rightarrow> a4 | Some y \<Rightarrow>
       b4 y), WorkflowService_UpdateDomain_Result.DomainNotActiveError = (case x of None \<Rightarrow> a5 | Some
       y \<Rightarrow> b5 y), WorkflowService_UpdateDomain_Result.ClientVersionNotSupportedError = (case x of
       None \<Rightarrow> a6 | Some y \<Rightarrow> b6 y)\<rparr>"
  by (cases x) simp_all

interpretation WorkflowService_UpdateDomain_Result: thrift_struct W
  "WorkflowService_UpdateDomain_Result_ToWire W" "WorkflowService_UpdateDomain_Result_FromWire W"
  WorkflowService_UpdateDomain_Result_zero "\<lambda>r. WorkflowService_UpdateDomain_Result_count r = 1 \<and>
      if_set UpdateDomainResponse_complete (WorkflowService_UpdateDomain_Result.Success r)" for W
proof (rule thrift_checkedI)
  fix x :: WorkflowService_UpdateDomain_Result
  assume laws: "wire_laws W"
  obtain enc0 where e0: "UpdateDomainResponse_ToWire W = (\<lambda>x. Inr (enc0 x))"
      "\<And>x. wire_api.Type W (enc0 x) = TStruct"
      "\<And>x. Writable W (enc0 x) \<longleftrightarrow> UpdateDomainResponse_complete x"
      "\<And>x. UpdateDomainResponse_complete x \<Longrightarrow> UpdateDomainResponse_FromWire W (enc0 x)
          UpdateDomainResponse_zero = Inr x"
    by (rule UpdateDomainResponse.encoder [OF laws]) (rule that)
  obtain enc1 where e1: "BadRequestError_ToWire W = (\<lambda>x. Inr (enc1 x))"
      "\<And>x. wire_api.Type W (enc1 x) = TStruct"
      "\<And>x. Writable W (enc1 x) \<longleftrightarrow> (\<lambda>_. True) x"
      "\<And>x. (\<lambda>_. True) x \<Longrightarrow> BadRequestError_FromWire W (enc1 x) BadRequestError_zero = Inr x"
    by (rule BadRequestError.encoder [OF laws]) (rule that)
  obtain enc2 where e2: "InternalServiceError_ToWire W = (\<lambda>x. Inr (enc2 x))"
      "\<And>x. wire_api.Type W (enc2 x) = TStruct"
      "\<And>x. Writable W (enc2 x) \<longleftrightarrow> (\<lambda>_. True) x"
      "\<And>x. (\<lambda>_. True) x \<Longrightarrow> InternalServiceError_FromWire W (enc2 x) InternalServiceError_zero = Inr
          x"
    by (rule InternalServiceError.encoder [OF laws]) (rule that)
  obtain enc3 where e3: "EntityNotExistsError_ToWire W = (\<lambda>x. Inr (enc3 x))"
      "\<And>x. wire_api.Type W (enc3 x) = TStruct"
      "\<And>x. Writable W (enc3 x) \<longleftrightarrow> (\<lambda>_. True) x"
      "\<And>x. (\<lambda>_. True) x \<Longrightarrow> EntityNotExistsError_FromWire W (enc3 x) EntityNotExistsError_zero = Inr
          x"
    by (rule EntityNotExistsError.encoder [OF laws]) (rule that)
  obtain enc4 where e4: "ServiceBusyError_ToWire W = (\<lambda>x. Inr (enc4 x))"
      "\<And>x. wire_api.Type W (enc4 x) = TStruct"
      "\<And>x. Writable W (enc4 x) \<longleftrightarrow> (\<lambda>_. True) x"
      "\<And>x. (\<lambda>_. True) x \<Longrightarrow> ServiceBusyError_FromWire W (enc4 x) ServiceBusyError_zero = Inr x"
    by (rule ServiceBusyError.encoder [OF laws]) (rule that)
  obtain enc5 where e5: "DomainNotActiveError_ToWire W = (\<lambda>x. Inr (enc5 x))"
      "\<And>x. wire_api.Type W (enc5 x) = TStruct"
      "\<And>x. Writable W (enc5 x) \<longleftrightarrow> (\<lambda>_. True) x"
      "\<And>x. (\<lambda>_. True) x \<Longrightarrow> DomainNotActiveError_FromWire W (enc5 x) DomainNotActiveError_zero = Inr
          x"
    by (rule DomainNotActiveError.encoder [OF laws]) (rule that)
  obtain enc6 where e6: "ClientVersionNotSupportedError_ToWire W = (\<lambda>x. Inr (enc6 x))"
      "\<And>x. wire_api.Type W (enc6 x) = TStruct"
      "\<And>x. Writable W (enc6 x) \<longleftrightarrow> (\<lambda>_. True) x"
      "\<And>x. (\<lambda>_. True) x \<Longrightarrow> ClientVersionNotSupportedError_FromWire W (enc6 x)
          ClientVersionNotSupportedError_zero = Inr x"
    by (rule ClientVersionNotSupportedError.encoder [OF laws]) (rule that)
  let ?fs = "(((((opt_field 0 enc0 (WorkflowService_UpdateDomain_Result.Success x) @
      opt_field 1 enc1 (WorkflowService_UpdateDomain_Result.BadRequestError x)) @
      opt_field 2 enc2 (WorkflowService_UpdateDomain_Result.InternalServiceError x)) @
      opt_field 3 enc3 (WorkflowService_UpdateDomain_Result.EntityNotExistError x)) @
      opt_field 4 enc4 (WorkflowService_UpdateDomain_Result.ServiceBusyError x)) @
      opt_field 5 enc5 (WorkflowService_UpdateDomain_Result.DomainNotActiveError x)) @
      opt_field 6 enc6 (WorkflowService_UpdateDomain_Result.ClientVersionNotSupportedError x)"
  let ?check = "\<lambda>r. if WorkflowService_UpdateDomain_Result_count x \<noteq> 1 then Inl (E_Errorf
      ''WorkflowService_UpdateDomain_Result should have exactly one field: got %v fields''
          (WorkflowService_UpdateDomain_Result_count x)) else Inr r"
  have "length ?fs = WorkflowService_UpdateDomain_Result_count x"
    by (simp add: WorkflowService_UpdateDomain_Result_count_def length_opt_field split del:
        if_split)
  then have "WorkflowService_UpdateDomain_Result_ToWire W x = ?check (NewValueStruct W ?fs)"
    by (simp only: WorkflowService_UpdateDomain_Result_ToWire_def put_opt_field and_then.simps
        append_Nil e0(1) e1(1) e2(1) e3(1) e4(1) e5(1) e6(1))
  moreover have "WorkflowService_UpdateDomain_Result_FromWire W (NewValueStruct W ?fs)
      WorkflowService_UpdateDomain_Result_zero = ?check x"
    if "if_set UpdateDomainResponse_complete (WorkflowService_UpdateDomain_Result.Success x)"
    by (cases x, hypsubst) (simp cong: option.case_cong split del: if_split add: codec_rules Let_def
        WorkflowService_UpdateDomain_Result_merge
      WorkflowService_UpdateDomain_Result_FromWire_def WorkflowService_UpdateDomain_Result_zero_def
          laws if_set_def that [unfolded if_set_def]
      BadRequestError_Read_def
      ClientVersionNotSupportedError_Read_def
      DomainNotActiveError_Read_def
      EntityNotExistsError_Read_def
      InternalServiceError_Read_def
      ServiceBusyError_Read_def
      UpdateDomainResponse_Read_def
      e0 e1 e2 e3 e4 e5 e6)
  ultimately show "if WorkflowService_UpdateDomain_Result_count x = 1
      then \<exists>w. WorkflowService_UpdateDomain_Result_ToWire W x = Inr w \<and> wire_api.Type W w = TStruct
          \<and>
        (Writable W w \<longleftrightarrow> if_set UpdateDomainResponse_complete
            (WorkflowService_UpdateDomain_Result.Success x)) \<and> (if_set UpdateDomainResponse_complete
            (WorkflowService_UpdateDomain_Result.Success x) \<longrightarrow>
            WorkflowService_UpdateDomain_Result_FromWire W w
            WorkflowService_UpdateDomain_Result_zero = Inr x)
      else \<exists>e. WorkflowService_UpdateDomain_Result_ToWire W x = Inl e"
    by (simp add: laws codec_rules e0 e1 e2 e3 e4 e5 e6)
qed

interpretation UpdateDomain: rpc_method W
  "WorkflowService_UpdateDomain_Args_ToWire W" "WorkflowService_UpdateDomain_Args_FromWire W"
      WorkflowService_UpdateDomain_Args_zero "\<lambda>x. if_set UpdateDomainRequest_complete
      (WorkflowService_UpdateDomain_Args.UpdateRequest x)"
  "WorkflowService_UpdateDomain_Result_ToWire W" "WorkflowService_UpdateDomain_Result_FromWire W"
      WorkflowService_UpdateDomain_Result_zero
  "\<lambda>r. WorkflowService_UpdateDomain_Result_count r = 1 \<and> if_set UpdateDomainResponse_complete
      (WorkflowService_UpdateDomain_Result.Success r)" "''UpdateDomain''"
  WorkflowService_UpdateDomain_Helper_Args "WorkflowService_UpdateDomain_Args.UpdateRequest"
  "\<lambda>(success, err). WorkflowService_UpdateDomain_Helper_WrapResponse success err"
      WorkflowService_UpdateDomain_Helper_UnwrapResponse
  "\<lambda>out. snd out \<noteq> None" "carried UpdateDomainResponse_complete
      WorkflowService_UpdateDomain_Helper_IsException" error_first "\<lambda>e. (None, Some e)"
  "handler_UpdateDomain W" "client_UpdateDomain W" for W
proof
  fix out :: "UpdateDomainResponse option \<times> go_error option"
  assume "carried UpdateDomainResponse_complete WorkflowService_UpdateDomain_Helper_IsException out"
  then show "case (\<lambda>(success, err). WorkflowService_UpdateDomain_Helper_WrapResponse success err)
      out of Inl e \<Rightarrow> False
      | Inr res \<Rightarrow> (WorkflowService_UpdateDomain_Result_count res = 1 \<and> if_set
          UpdateDomainResponse_complete (WorkflowService_UpdateDomain_Result.Success res)) \<and>
          WorkflowService_UpdateDomain_Helper_UnwrapResponse res = error_first out"
    by (cases out; cases "snd out"; cases "the (snd out)")
      (auto simp: WorkflowService_UpdateDomain_Helper_IsException_def
          WorkflowService_UpdateDomain_Helper_WrapResponse_def
          WorkflowService_UpdateDomain_Helper_UnwrapResponse_def
        declared_nonnil_def WorkflowService_UpdateDomain_Result_zero_def
            WorkflowService_UpdateDomain_Result_count_def elim!: present.elims)
next
  fix out :: "UpdateDomainResponse option \<times> go_error option"
  assume "\<not> carried UpdateDomainResponse_complete WorkflowService_UpdateDomain_Helper_IsException
      out"
  then show "case (\<lambda>(success, err). WorkflowService_UpdateDomain_Helper_WrapResponse success err)
      out of Inl e \<Rightarrow> True
      | Inr res \<Rightarrow> \<not> (WorkflowService_UpdateDomain_Result_count res = 1 \<and> if_set
          UpdateDomainResponse_complete (WorkflowService_UpdateDomain_Result.Success res))"
    by (cases out; cases "snd out"; cases "the (snd out)")
      (auto simp: WorkflowService_UpdateDomain_Helper_IsException_def
          WorkflowService_UpdateDomain_Helper_WrapResponse_def declared_nonnil_def
        WorkflowService_UpdateDomain_Result_count_def WorkflowService_UpdateDomain_Result_zero_def
            split: option.splits)
qed (auto simp: WorkflowService_UpdateDomain_Helper_Args_def handler_UpdateDomain_def
    client_UpdateDomain_def
      WorkflowService_UpdateDomain_Args_enveloper_def
          WorkflowService_UpdateDomain_Result_enveloper_def
      Let_def split: sum.splits prod.splits)

section \<open>DeprecateDomain\<close>

record WorkflowService_DeprecateDomain_Args =
  DeprecateRequest :: "DeprecateDomainRequest option"

definition WorkflowService_DeprecateDomain_Args_zero :: WorkflowService_DeprecateDomain_Args where
  "WorkflowService_DeprecateDomain_Args_zero =
      \<lparr>WorkflowService_DeprecateDomain_Args.DeprecateRequest = None\<rparr>"

definition WorkflowService_DeprecateDomain_Args_ToWire ::
  "'v wire_api \<Rightarrow> WorkflowService_DeprecateDomain_Args \<Rightarrow> go_error + 'v" where
  "WorkflowService_DeprecateDomain_Args_ToWire W v =
     and_then (put_opt 1 (DeprecateDomainRequest_ToWire W)
         (WorkflowService_DeprecateDomain_Args.DeprecateRequest v) [])
       (\<lambda>fields.
     Inr (NewValueStruct W fields))"

definition WorkflowService_DeprecateDomain_Args_FromWire ::
  "'v wire_api \<Rightarrow> 'v \<Rightarrow> WorkflowService_DeprecateDomain_Args \<Rightarrow> go_error +
      WorkflowService_DeprecateDomain_Args" where
  "WorkflowService_DeprecateDomain_Args_FromWire W w v =
     foldM (\<lambda>v (fid, fval).
       if fid = 1 then
         if wire_api.Type W fval = TStruct
         then and_then (DeprecateDomainRequest_Read W fval) (\<lambda>x. Inr
             (v\<lparr>WorkflowService_DeprecateDomain_Args.DeprecateRequest := Some x\<rparr>))
         else Inr v
       else Inr v) (GetStruct W w) v"

definition WorkflowService_DeprecateDomain_Args_enveloper ::
  "'v wire_api \<Rightarrow> WorkflowService_DeprecateDomain_Args \<Rightarrow> 'v enveloper" where
  "WorkflowService_DeprecateDomain_Args_enveloper W v =
     \<lparr>MethodName = ''DeprecateDomain'', EnvelopeType = Call, EnvelopeToWire =
         WorkflowService_DeprecateDomain_Args_ToWire W v\<rparr>"

definition WorkflowService_DeprecateDomain_Args_Equals ::
  "WorkflowService_DeprecateDomain_Args option \<Rightarrow> WorkflowService_DeprecateDomain_Args option \<Rightarrow> bool"
      where
  "WorkflowService_DeprecateDomain_Args_Equals v rhs =
     (case v of None \<Rightarrow> rhs = None
      | Some v \<Rightarrow> (case rhs of None \<Rightarrow> False
        | Some rhs \<Rightarrow>
          if \<not> both_set_and (\<lambda>x y. DeprecateDomainRequest_Equals (Some x) (Some y))
              (WorkflowService_DeprecateDomain_Args.DeprecateRequest v)
              (WorkflowService_DeprecateDomain_Args.DeprecateRequest rhs) then False else
          True))"

lemma WorkflowService_DeprecateDomain_Args_Equals_iff [simp]:
    "WorkflowService_DeprecateDomain_Args_Equals x y \<longleftrightarrow> x = y"
  by (cases x; cases y) (auto simp: WorkflowService_DeprecateDomain_Args_Equals_def)

record WorkflowService_DeprecateDomain_Result =
  BadRequestError :: "BadRequestError option"
  InternalServiceError :: "InternalServiceError option"
  EntityNotExistError :: "EntityNotExistsError option"
  ServiceBusyError :: "ServiceBusyError option"
  DomainNotActiveError :: "DomainNotActiveError option"
  ClientVersionNotSupportedError :: "ClientVersionNotSupportedError option"

definition WorkflowService_DeprecateDomain_Result_count :: "WorkflowService_DeprecateDomain_Result \<Rightarrow>
    nat" where
  "WorkflowService_DeprecateDomain_Result_count v =
     (if WorkflowService_DeprecateDomain_Result.BadRequestError v \<noteq> None then 1 else 0) +
     (if WorkflowService_DeprecateDomain_Result.InternalServiceError v \<noteq> None then 1 else 0) +
     (if WorkflowService_DeprecateDomain_Result.EntityNotExistError v \<noteq> None then 1 else 0) +
     (if WorkflowService_DeprecateDomain_Result.ServiceBusyError v \<noteq> None then 1 else 0) +
     (if WorkflowService_DeprecateDomain_Result.DomainNotActiveError v \<noteq> None then 1 else 0) +
     (if WorkflowService_DeprecateDomain_Result.ClientVersionNotSupportedError v \<noteq> None then 1 else
         0)"

definition WorkflowService_DeprecateDomain_Result_zero :: WorkflowService_DeprecateDomain_Result
    where
  "WorkflowService_DeprecateDomain_Result_zero =
      \<lparr>WorkflowService_DeprecateDomain_Result.BadRequestError = None,
      WorkflowService_DeprecateDomain_Result.InternalServiceError = None,
      WorkflowService_DeprecateDomain_Result.EntityNotExistError = None,
      WorkflowService_DeprecateDomain_Result.ServiceBusyError = None,
      WorkflowService_DeprecateDomain_Result.DomainNotActiveError = None,
      WorkflowService_DeprecateDomain_Result.ClientVersionNotSupportedError = None\<rparr>"

definition WorkflowService_DeprecateDomain_Result_ToWire ::
  "'v wire_api \<Rightarrow> WorkflowService_DeprecateDomain_Result \<Rightarrow> go_error + 'v" where
  "WorkflowService_DeprecateDomain_Result_ToWire W v =
     and_then (put_opt 1 (BadRequestError_ToWire W)
         (WorkflowService_DeprecateDomain_Result.BadRequestError v) [])
       (\<lambda>fields.
     and_then (put_opt 2 (InternalServiceError_ToWire W)
         (WorkflowService_DeprecateDomain_Result.InternalServiceError v) fields)
       (\<lambda>fields.
     and_then (put_opt 3 (EntityNotExistsError_ToWire W)
         (WorkflowService_DeprecateDomain_Result.EntityNotExistError v) fields)
       (\<lambda>fields.
     and_then (put_opt 4 (ServiceBusyError_ToWire W)
         (WorkflowService_DeprecateDomain_Result.ServiceBusyError v) fields)
       (\<lambda>fields.
     and_then (put_opt 5 (DomainNotActiveError_ToWire W)
         (WorkflowService_DeprecateDomain_Result.DomainNotActiveError v) fields)
       (\<lambda>fields.
     and_then (put_opt 6 (ClientVersionNotSupportedError_ToWire W)
         (WorkflowService_DeprecateDomain_Result.ClientVersionNotSupportedError v) fields)
       (\<lambda>fields.
     if 1 < length fields
     then Inl (E_Errorf
         ''WorkflowService_DeprecateDomain_Result should have at most one field: got %v fields''
         (length fields))
     else Inr (NewValueStruct W fields)))))))"

definition WorkflowService_DeprecateDomain_Result_FromWire ::
  "'v wire_api \<Rightarrow> 'v \<Rightarrow> WorkflowService_DeprecateDomain_Result \<Rightarrow> go_error +
      WorkflowService_DeprecateDomain_Result" where
  "WorkflowService_DeprecateDomain_Result_FromWire W w v =
     and_then (foldM (\<lambda>v (fid, fval).
       if fid = 1 then
         if wire_api.Type W fval = TStruct
         then and_then (BadRequestError_Read W fval) (\<lambda>x. Inr
             (v\<lparr>WorkflowService_DeprecateDomain_Result.BadRequestError := Some x\<rparr>))
         else Inr v
       else if fid = 2 then
         if wire_api.Type W fval = TStruct
         then and_then (InternalServiceError_Read W fval) (\<lambda>x. Inr
             (v\<lparr>WorkflowService_DeprecateDomain_Result.InternalServiceError := Some x\<rparr>))
         else Inr v
       else if fid = 3 then
         if wire_api.Type W fval = TStruct
         then and_then (EntityNotExistsError_Read W fval) (\<lambda>x. Inr
             (v\<lparr>WorkflowService_DeprecateDomain_Result.EntityNotExistError := Some x\<rparr>))
         else Inr v
       else if fid = 4 then
         if wire_api.Type W fval = TStruct
         then and_then (ServiceBusyError_Read W fval) (\<lambda>x. Inr
             (v\<lparr>WorkflowService_DeprecateDomain_Result.ServiceBusyError := Some x\<rparr>))
         else Inr v
       else if fid = 5 then
         if wire_api.Type W fval = TStruct
         then and_then (DomainNotActiveError_Read W fval) (\<lambda>x. Inr
             (v\<lparr>WorkflowService_DeprecateDomain_Result.DomainNotActiveError := Some x\<rparr>))
         else Inr v
       else if fid = 6 then
         if wire_api.Type W fval = TStruct
         then and_then (ClientVersionNotSupportedError_Read W fval) (\<lambda>x. Inr
             (v\<lparr>WorkflowService_DeprecateDomain_Result.ClientVersionNotSupportedError := Some x\<rparr>))
         else Inr v
       else Inr v) (GetStruct W w) v) (\<lambda>v.
     let count = WorkflowService_DeprecateDomain_Result_count v in
     if 1 < count
     then Inl (E_Errorf
         ''WorkflowService_DeprecateDomain_Result should have at most one field: got %v fields''
         count)
     else Inr v)"

definition WorkflowService_DeprecateDomain_Result_enveloper ::
  "'v wire_api \<Rightarrow> WorkflowService_DeprecateDomain_Result \<Rightarrow> 'v enveloper" where
  "WorkflowService_DeprecateDomain_Result_enveloper W v =
     \<lparr>MethodName = ''DeprecateDomain'', EnvelopeType = Reply, EnvelopeToWire =
         WorkflowService_DeprecateDomain_Result_ToWire W v\<rparr>"

definition WorkflowService_DeprecateDomain_Result_Equals ::
  "WorkflowService_DeprecateDomain_Result option \<Rightarrow> WorkflowService_DeprecateDomain_Result option \<Rightarrow>
      bool" where
  "WorkflowService_DeprecateDomain_Result_Equals v rhs =
     (case v of None \<Rightarrow> rhs = None
      | Some v \<Rightarrow> (case rhs of None \<Rightarrow> False
        | Some rhs \<Rightarrow>
          if \<not> both_set_and (\<lambda>x y. BadRequestError_Equals (Some x) (Some y))
              (WorkflowService_DeprecateDomain_Result.BadRequestError v)
              (WorkflowService_DeprecateDomain_Result.BadRequestError rhs) then False else
          if \<not> both_set_and (\<lambda>x y. InternalServiceError_Equals (Some x) (Some y))
              (WorkflowService_DeprecateDomain_Result.InternalServiceError v)
              (WorkflowService_DeprecateDomain_Result.InternalServiceError rhs) then False else
          if \<not> both_set_and (\<lambda>x y. EntityNotExistsError_Equals (Some x) (Some y))
              (WorkflowService_DeprecateDomain_Result.EntityNotExistError v)
              (WorkflowService_DeprecateDomain_Result.EntityNotExistError rhs) then False else
          if \<not> both_set_and (\<lambda>x y. ServiceBusyError_Equals (Some x) (Some y))
              (WorkflowService_DeprecateDomain_Result.ServiceBusyError v)
              (WorkflowService_DeprecateDomain_Result.ServiceBusyError rhs) then False else
          if \<not> both_set_and (\<lambda>x y. DomainNotActiveError_Equals (Some x) (Some y))
              (WorkflowService_DeprecateDomain_Result.DomainNotActiveError v)
              (WorkflowService_DeprecateDomain_Result.DomainNotActiveError rhs) then False else
          if \<not> both_set_and (\<lambda>x y. ClientVersionNotSupportedError_Equals (Some x) (Some y))
              (WorkflowService_DeprecateDomain_Result.ClientVersionNotSupportedError v)
              (WorkflowService_DeprecateDomain_Result.ClientVersionNotSupportedError rhs) then False
              else
          True))"

lemma WorkflowService_DeprecateDomain_Result_Equals_iff [simp]:
    "WorkflowService_DeprecateDomain_Result_Equals x y \<longleftrightarrow> x = y"
  by (cases x; cases y) (simp_all add: WorkflowService_DeprecateDomain_Result_Equals_def
      if_not_False, fastforce intro: WorkflowService_DeprecateDomain_Result.equality)

definition WorkflowService_DeprecateDomain_Helper_Args :: "DeprecateDomainRequest option \<Rightarrow>
    WorkflowService_DeprecateDomain_Args" where
  "WorkflowService_DeprecateDomain_Helper_Args r =
      \<lparr>WorkflowService_DeprecateDomain_Args.DeprecateRequest = r\<rparr>"

definition WorkflowService_DeprecateDomain_Helper_IsException :: "go_error \<Rightarrow> bool" where
  "WorkflowService_DeprecateDomain_Helper_IsException err =
     (case err of
        E_BadRequestError _ \<Rightarrow> True
      | E_InternalServiceError _ \<Rightarrow> True
      | E_EntityNotExistsError _ \<Rightarrow> True
      | E_ServiceBusyError _ \<Rightarrow> True
      | E_DomainNotActiveError _ \<Rightarrow> True
      | E_ClientVersionNotSupportedError _ \<Rightarrow> True
      | _ \<Rightarrow> False)"

definition WorkflowService_DeprecateDomain_Helper_WrapResponse ::
  "go_error option \<Rightarrow> go_error + WorkflowService_DeprecateDomain_Result" where
  "WorkflowService_DeprecateDomain_Helper_WrapResponse err =
     (case err of None \<Rightarrow> Inr WorkflowService_DeprecateDomain_Result_zero
      | Some err \<Rightarrow> (case err of
          E_BadRequestError e \<Rightarrow> (case e of
              None \<Rightarrow> Inl (E_New
                  ''WrapResponse received non-nil error type with nil value for WorkflowService_DeprecateDomain_Result.BadRequestError'')
            | Some e \<Rightarrow> Inr
                (WorkflowService_DeprecateDomain_Result_zero\<lparr>WorkflowService_DeprecateDomain_Result.BadRequestError := Some e\<rparr>))
        | E_InternalServiceError e \<Rightarrow> (case e of
              None \<Rightarrow> Inl (E_New
                  ''WrapResponse received non-nil error type with nil value for WorkflowService_DeprecateDomain_Result.InternalServiceError'')
            | Some e \<Rightarrow> Inr
                (WorkflowService_DeprecateDomain_Result_zero\<lparr>WorkflowService_DeprecateDomain_Result.InternalServiceError := Some e\<rparr>))
        | E_EntityNotExistsError e \<Rightarrow> (case e of
              None \<Rightarrow> Inl (E_New
                  ''WrapResponse received non-nil error type with nil value for WorkflowService_DeprecateDomain_Result.EntityNotExistError'')
            | Some e \<Rightarrow> Inr
                (WorkflowService_DeprecateDomain_Result_zero\<lparr>WorkflowService_DeprecateDomain_Result.EntityNotExistError := Some e\<rparr>))
        | E_ServiceBusyError e \<Rightarrow> (case e of
              None \<Rightarrow> Inl (E_New
                  ''WrapResponse received non-nil error type with nil value for WorkflowService_DeprecateDomain_Result.ServiceBusyError'')
            | Some e \<Rightarrow> Inr
                (WorkflowService_DeprecateDomain_Result_zero\<lparr>WorkflowService_DeprecateDomain_Result.ServiceBusyError := Some e\<rparr>))
        | E_DomainNotActiveError e \<Rightarrow> (case e of
              None \<Rightarrow> Inl (E_New
                  ''WrapResponse received non-nil error type with nil value for WorkflowService_DeprecateDomain_Result.DomainNotActiveError'')
            | Some e \<Rightarrow> Inr
                (WorkflowService_DeprecateDomain_Result_zero\<lparr>WorkflowService_DeprecateDomain_Result.DomainNotActiveError := Some e\<rparr>))
        | E_ClientVersionNotSupportedError e \<Rightarrow> (case e of
              None \<Rightarrow> Inl (E_New
                  ''WrapResponse received non-nil error type with nil value for WorkflowService_DeprecateDomain_Result.ClientVersionNotSupportedError'')
            | Some e \<Rightarrow> Inr
                (WorkflowService_DeprecateDomain_Result_zero\<lparr>WorkflowService_DeprecateDomain_Result.ClientVersionNotSupportedError := Some e\<rparr>))
        | _ \<Rightarrow> Inl err))"

definition WorkflowService_DeprecateDomain_Helper_UnwrapResponse ::
  "WorkflowService_DeprecateDomain_Result \<Rightarrow> go_error option" where
  "WorkflowService_DeprecateDomain_Helper_UnwrapResponse result =
    (if WorkflowService_DeprecateDomain_Result.BadRequestError result \<noteq> None then Some
        (E_BadRequestError (WorkflowService_DeprecateDomain_Result.BadRequestError result)) else
     if WorkflowService_DeprecateDomain_Result.InternalServiceError result \<noteq> None then Some
         (E_InternalServiceError (WorkflowService_DeprecateDomain_Result.InternalServiceError
         result)) else
     if WorkflowService_DeprecateDomain_Result.EntityNotExistError result \<noteq> None then Some
         (E_EntityNotExistsError (WorkflowService_DeprecateDomain_Result.EntityNotExistError
         result)) else
     if WorkflowService_DeprecateDomain_Result.ServiceBusyError result \<noteq> None then Some
         (E_ServiceBusyError (WorkflowService_DeprecateDomain_Result.ServiceBusyError result)) else
     if WorkflowService_DeprecateDomain_Result.DomainNotActiveError result \<noteq> None then Some
         (E_DomainNotActiveError (WorkflowService_DeprecateDomain_Result.DomainNotActiveError
         result)) else
     if WorkflowService_DeprecateDomain_Result.ClientVersionNotSupportedError result \<noteq> None then
         Some (E_ClientVersionNotSupportedError
         (WorkflowService_DeprecateDomain_Result.ClientVersionNotSupportedError result)) else
     None)"

definition handler_DeprecateDomain ::
  "'v wire_api \<Rightarrow> ('ctx \<Rightarrow> DeprecateDomainRequest option \<Rightarrow> go_error option) \<Rightarrow>
   ('ctx, 'v) unary_handler" where
  "handler_DeprecateDomain W impl ctx body =
     (case WorkflowService_DeprecateDomain_Args_FromWire W body
         WorkflowService_DeprecateDomain_Args_zero of
      Inl err \<Rightarrow> (no_response, Some err)
    | Inr args \<Rightarrow>
      let err = impl ctx (WorkflowService_DeprecateDomain_Args.DeprecateRequest args);
          hadError = (err \<noteq> None)
      in case WorkflowService_DeprecateDomain_Helper_WrapResponse err of
           Inl err \<Rightarrow> (no_response, Some err)
         | Inr result \<Rightarrow>
             (\<lparr>Body = Some (WorkflowService_DeprecateDomain_Result_enveloper W result),
               IsApplicationError = hadError\<rparr>, None))"

definition client_DeprecateDomain ::
  "'v wire_api \<Rightarrow> ('ctx, 'v) thrift_client \<Rightarrow> 'ctx \<Rightarrow> DeprecateDomainRequest option \<Rightarrow>
   go_error option" where
  "client_DeprecateDomain W call ctx r =
     (let args = WorkflowService_DeprecateDomain_Helper_Args r in
      case call ctx (WorkflowService_DeprecateDomain_Args_enveloper W args) of
        Inl e \<Rightarrow> Some e
      | Inr body \<Rightarrow>
          (case WorkflowService_DeprecateDomain_Result_FromWire W body
              WorkflowService_DeprecateDomain_Result_zero of
             Inl e \<Rightarrow> Some e
           | Inr result \<Rightarrow> WorkflowService_DeprecateDomain_Helper_UnwrapResponse result))"

lemma WorkflowService_DeprecateDomain_Args_merge:
  "(case x of None \<Rightarrow> Inr \<lparr>WorkflowService_DeprecateDomain_Args.DeprecateRequest = a0\<rparr> | Some y \<Rightarrow> Inr
      \<lparr>WorkflowService_DeprecateDomain_Args.DeprecateRequest = b0 y\<rparr>) =
   Inr \<lparr>WorkflowService_DeprecateDomain_Args.DeprecateRequest = (case x of None \<Rightarrow> a0 | Some y \<Rightarrow> b0
       y)\<rparr>"
  by (cases x) simp_all

interpretation WorkflowService_DeprecateDomain_Args: thrift_struct W
  "WorkflowService_DeprecateDomain_Args_ToWire W" "WorkflowService_DeprecateDomain_Args_FromWire W"
  WorkflowService_DeprecateDomain_Args_zero "\<lambda>x. True" for W
proof (rule thrift_structI)
  fix x :: WorkflowService_DeprecateDomain_Args
  assume laws: "wire_laws W"
  obtain enc0 where e0: "DeprecateDomainRequest_ToWire W = (\<lambda>x. Inr (enc0 x))"
      "\<And>x. wire_api.Type W (enc0 x) = TStruct"
      "\<And>x. Writable W (enc0 x) \<longleftrightarrow> (\<lambda>_. True) x"
      "\<And>x. (\<lambda>_. True) x \<Longrightarrow> DeprecateDomainRequest_FromWire W (enc0 x) DeprecateDomainRequest_zero =
          Inr x"
    by (rule DeprecateDomainRequest.encoder [OF laws]) (rule that)
  show "\<exists>w. WorkflowService_DeprecateDomain_Args_ToWire W x = Inr w \<and> wire_api.Type W w = TStruct \<and>
      (Writable W w \<longleftrightarrow> True) \<and> (True \<longrightarrow> WorkflowService_DeprecateDomain_Args_FromWire W w
          WorkflowService_DeprecateDomain_Args_zero = Inr x)"
    by (cases x) (simp cong: option.case_cong add: codec_rules
        WorkflowService_DeprecateDomain_Args_merge WorkflowService_DeprecateDomain_Args_ToWire_def
        WorkflowService_DeprecateDomain_Args_FromWire_def
      WorkflowService_DeprecateDomain_Args_zero_def DeprecateDomainRequest_Read_def if_set_def laws
          e0)
qed

lemma WorkflowService_DeprecateDomain_Result_merge:
  "(case x of None \<Rightarrow> Inr \<lparr>WorkflowService_DeprecateDomain_Result.BadRequestError = a0,
      WorkflowService_DeprecateDomain_Result.InternalServiceError = a1,
      WorkflowService_DeprecateDomain_Result.EntityNotExistError = a2,
      WorkflowService_DeprecateDomain_Result.ServiceBusyError = a3,
      WorkflowService_DeprecateDomain_Result.DomainNotActiveError = a4,
      WorkflowService_DeprecateDomain_Result.ClientVersionNotSupportedError = a5\<rparr> | Some y \<Rightarrow> Inr
      \<lparr>WorkflowService_DeprecateDomain_Result.BadRequestError = b0 y,
      WorkflowService_DeprecateDomain_Result.InternalServiceError = b1 y,
      WorkflowService_DeprecateDomain_Result.EntityNotExistError = b2 y,
      WorkflowService_DeprecateDomain_Result.ServiceBusyError = b3 y,
      WorkflowService_DeprecateDomain_Result.DomainNotActiveError = b4 y,
      WorkflowService_DeprecateDomain_Result.ClientVersionNotSupportedError = b5 y\<rparr>) =
   Inr \<lparr>WorkflowService_DeprecateDomain_Result.BadRequestError = (case x of None \<Rightarrow> a0 | Some y \<Rightarrow> b0
       y), WorkflowService_DeprecateDomain_Result.InternalServiceError = (case x of None \<Rightarrow> a1 | Some
       y \<Rightarrow> b1 y), WorkflowService_DeprecateDomain_Result.EntityNotExistError = (case x of None \<Rightarrow> a2
       | Some y \<Rightarrow> b2 y), WorkflowService_DeprecateDomain_Result.ServiceBusyError = (case x of None \<Rightarrow>
       a3 | Some y \<Rightarrow> b3 y), WorkflowService_DeprecateDomain_Result.DomainNotActiveError = (case x of
       None \<Rightarrow> a4 | Some y \<Rightarrow> b4 y),
       WorkflowService_DeprecateDomain_Result.ClientVersionNotSupportedError = (case x of None \<Rightarrow> a5
       | Some y \<Rightarrow> b5 y)\<rparr>"
  by (cases x) simp_all

interpretation WorkflowService_DeprecateDomain_Result: thrift_struct W
  "WorkflowService_DeprecateDomain_Result_ToWire W" "WorkflowService_DeprecateDomain_Result_FromWire
      W"
  WorkflowService_DeprecateDomain_Result_zero "\<lambda>r. WorkflowService_DeprecateDomain_Result_count r \<le>
      1" for W
proof (rule thrift_checked_plainI)
  fix x :: WorkflowService_DeprecateDomain_Result
  assume laws: "wire_laws W"
  obtain enc0 where e0: "BadRequestError_ToWire W = (\<lambda>x. Inr (enc0 x))"
      "\<And>x. wire_api.Type W (enc0 x) = TStruct"
      "\<And>x. Writable W (enc0 x) \<longleftrightarrow> (\<lambda>_. True) x"
      "\<And>x. (\<lambda>_. True) x \<Longrightarrow> BadRequestError_FromWire W (enc0 x) BadRequestError_zero = Inr x"
    by (rule BadRequestError.encoder [OF laws]) (rule that)
  obtain enc1 where e1: "InternalServiceError_ToWire W = (\<lambda>x. Inr (enc1 x))"
      "\<And>x. wire_api.Type W (enc1 x) = TStruct"
      "\<And>x. Writable W (enc1 x) \<longleftrightarrow> (\<lambda>_. True) x"
      "\<And>x. (\<lambda>_. True) x \<Longrightarrow> InternalServiceError_FromWire W (enc1 x) InternalServiceError_zero = Inr
          x"
    by (rule InternalServiceError.encoder [OF laws]) (rule that)
  obtain enc2 where e2: "EntityNotExistsError_ToWire W = (\<lambda>x. Inr (enc2 x))"
      "\<And>x. wire_api.Type W (enc2 x) = TStruct"
      "\<And>x. Writable W (enc2 x) \<longleftrightarrow> (\<lambda>_. True) x"
      "\<And>x. (\<lambda>_. True) x \<Longrightarrow> EntityNotExistsError_FromWire W (enc2 x) EntityNotExistsError_zero = Inr
          x"
    by (rule EntityNotExistsError.encoder [OF laws]) (rule that)
  obtain enc3 where e3: "ServiceBusyError_ToWire W = (\<lambda>x. Inr (enc3 x))"
      "\<And>x. wire_api.Type W (enc3 x) = TStruct"
      "\<And>x. Writable W (enc3 x) \<longleftrightarrow> (\<lambda>_. True) x"
      "\<And>x. (\<lambda>_. True) x \<Longrightarrow> ServiceBusyError_FromWire W (enc3 x) ServiceBusyError_zero = Inr x"
    by (rule ServiceBusyError.encoder [OF laws]) (rule that)
  obtain enc4 where e4: "DomainNotActiveError_ToWire W = (\<lambda>x. Inr (enc4 x))"
      "\<And>x. wire_api.Type W (enc4 x) = TStruct"
      "\<And>x. Writable W (enc4 x) \<longleftrightarrow> (\<lambda>_. True) x"
      "\<And>x. (\<lambda>_. True) x \<Longrightarrow> DomainNotActiveError_FromWire W (enc4 x) DomainNotActiveError_zero = Inr
          x"
    by (rule DomainNotActiveError.encoder [OF laws]) (rule that)
  obtain enc5 where e5: "ClientVersionNotSupportedError_ToWire W = (\<lambda>x. Inr (enc5 x))"
      "\<And>x. wire_api.Type W (enc5 x) = TStruct"
      "\<And>x. Writable W (enc5 x) \<longleftrightarrow> (\<lambda>_. True) x"
      "\<And>x. (\<lambda>_. True) x \<Longrightarrow> ClientVersionNotSupportedError_FromWire W (enc5 x)
          ClientVersionNotSupportedError_zero = Inr x"
    by (rule ClientVersionNotSupportedError.encoder [OF laws]) (rule that)
  let ?fs = "((((opt_field 1 enc0 (WorkflowService_DeprecateDomain_Result.BadRequestError x) @
      opt_field 2 enc1 (WorkflowService_DeprecateDomain_Result.InternalServiceError x)) @
      opt_field 3 enc2 (WorkflowService_DeprecateDomain_Result.EntityNotExistError x)) @
      opt_field 4 enc3 (WorkflowService_DeprecateDomain_Result.ServiceBusyError x)) @
      opt_field 5 enc4 (WorkflowService_DeprecateDomain_Result.DomainNotActiveError x)) @
      opt_field 6 enc5 (WorkflowService_DeprecateDomain_Result.ClientVersionNotSupportedError x)"
  let ?check = "\<lambda>r. if 1 < WorkflowService_DeprecateDomain_Result_count x then Inl (E_Errorf
      ''WorkflowService_DeprecateDomain_Result should have at most one field: got %v fields''
          (WorkflowService_DeprecateDomain_Result_count x)) else Inr r"
  have "length ?fs = WorkflowService_DeprecateDomain_Result_count x"
    by (simp add: WorkflowService_DeprecateDomain_Result_count_def length_opt_field split del:
        if_split)
  then have "WorkflowService_DeprecateDomain_Result_ToWire W x = ?check (NewValueStruct W ?fs)"
    by (simp only: WorkflowService_DeprecateDomain_Result_ToWire_def put_opt_field and_then.simps
        append_Nil e0(1) e1(1) e2(1) e3(1) e4(1) e5(1))
  moreover have "WorkflowService_DeprecateDomain_Result_FromWire W (NewValueStruct W ?fs)
      WorkflowService_DeprecateDomain_Result_zero = ?check x"
    by (cases x, hypsubst) (simp cong: option.case_cong split del: if_split add: codec_rules Let_def
        WorkflowService_DeprecateDomain_Result_merge
      WorkflowService_DeprecateDomain_Result_FromWire_def
          WorkflowService_DeprecateDomain_Result_zero_def laws
      BadRequestError_Read_def
      ClientVersionNotSupportedError_Read_def
      DomainNotActiveError_Read_def
      EntityNotExistsError_Read_def
      InternalServiceError_Read_def
      ServiceBusyError_Read_def
      e0 e1 e2 e3 e4 e5)
  ultimately show "if WorkflowService_DeprecateDomain_Result_count x \<le> 1
      then \<exists>w. WorkflowService_DeprecateDomain_Result_ToWire W x = Inr w \<and> wire_api.Type W w =
          TStruct \<and>
        Writable W w \<and> WorkflowService_DeprecateDomain_Result_FromWire W w
            WorkflowService_DeprecateDomain_Result_zero = Inr x
      else \<exists>e. WorkflowService_DeprecateDomain_Result_ToWire W x = Inl e"
    by (simp add: laws codec_rules e0 e1 e2 e3 e4 e5)
qed

interpretation DeprecateDomain: rpc_method W
  "WorkflowService_DeprecateDomain_Args_ToWire W" "WorkflowService_DeprecateDomain_Args_FromWire W"
      WorkflowService_DeprecateDomain_Args_zero "\<lambda>x. True"
  "WorkflowService_DeprecateDomain_Result_ToWire W" "WorkflowService_DeprecateDomain_Result_FromWire
      W" WorkflowService_DeprecateDomain_Result_zero
  "\<lambda>r. WorkflowService_DeprecateDomain_Result_count r \<le> 1" "''DeprecateDomain''"
  WorkflowService_DeprecateDomain_Helper_Args
      "WorkflowService_DeprecateDomain_Args.DeprecateRequest"
  "WorkflowService_DeprecateDomain_Helper_WrapResponse"
      WorkflowService_DeprecateDomain_Helper_UnwrapResponse
  "\<lambda>out. out \<noteq> None" "carried_void WorkflowService_DeprecateDomain_Helper_IsException" id "\<lambda>e. Some
      e"
  "handler_DeprecateDomain W" "client_DeprecateDomain W" for W
proof
  fix out :: "go_error option"
  assume "carried_void WorkflowService_DeprecateDomain_Helper_IsException out"
  then show "case (WorkflowService_DeprecateDomain_Helper_WrapResponse) out of Inl e \<Rightarrow> False
      | Inr res \<Rightarrow> (WorkflowService_DeprecateDomain_Result_count res \<le> 1) \<and>
          WorkflowService_DeprecateDomain_Helper_UnwrapResponse res = id out"
    by (cases out; cases "the out")
      (auto simp: WorkflowService_DeprecateDomain_Helper_IsException_def
          WorkflowService_DeprecateDomain_Helper_WrapResponse_def
          WorkflowService_DeprecateDomain_Helper_UnwrapResponse_def
        declared_nonnil_def WorkflowService_DeprecateDomain_Result_zero_def
            WorkflowService_DeprecateDomain_Result_count_def elim!: present.elims)
next
  fix out :: "go_error option"
  assume "\<not> carried_void WorkflowService_DeprecateDomain_Helper_IsException out"
  then show "case (WorkflowService_DeprecateDomain_Helper_WrapResponse) out of Inl e \<Rightarrow> True
      | Inr res \<Rightarrow> \<not> (WorkflowService_DeprecateDomain_Result_count res \<le> 1)"
    by (cases out; cases "the out")
      (auto simp: WorkflowService_DeprecateDomain_Helper_IsException_def
          WorkflowService_DeprecateDomain_Helper_WrapResponse_def declared_nonnil_def
        WorkflowService_DeprecateDomain_Result_count_def
            WorkflowService_DeprecateDomain_Result_zero_def split: option.splits)
qed (auto simp: WorkflowService_DeprecateDomain_Helper_Args_def handler_DeprecateDomain_def
    client_DeprecateDomain_def
      WorkflowService_DeprecateDomain_Args_enveloper_def
          WorkflowService_DeprecateDomain_Result_enveloper_def
      Let_def split: sum.splits prod.splits)

section \<open>DescribeTaskList\<close>

record WorkflowService_DescribeTaskList_Args =
  Request :: "DescribeTaskListRequest option"

definition WorkflowService_DescribeTaskList_Args_zero :: WorkflowService_DescribeTaskList_Args where
  "WorkflowService_DescribeTaskList_Args_zero = \<lparr>WorkflowService_DescribeTaskList_Args.Request =
      None\<rparr>"

definition WorkflowService_DescribeTaskList_Args_ToWire ::
  "'v wire_api \<Rightarrow> WorkflowService_DescribeTaskList_Args \<Rightarrow> go_error + 'v" where
  "WorkflowService_DescribeTaskList_Args_ToWire W v =
     and_then (put_opt 1 (DescribeTaskListRequest_ToWire W)
         (WorkflowService_DescribeTaskList_Args.Request v) [])
       (\<lambda>fields.
     Inr (NewValueStruct W fields))"

definition WorkflowService_DescribeTaskList_Args_FromWire ::
  "'v wire_api \<Rightarrow> 'v \<Rightarrow> WorkflowService_DescribeTaskList_Args \<Rightarrow> go_error +
      WorkflowService_DescribeTaskList_Args" where
  "WorkflowService_DescribeTaskList_Args_FromWire W w v =
     foldM (\<lambda>v (fid, fval).
       if fid = 1 then
         if wire_api.Type W fval = TStruct
         then and_then (DescribeTaskListRequest_Read W fval) (\<lambda>x. Inr
             (v\<lparr>WorkflowService_DescribeTaskList_Args.Request := Some x\<rparr>))
         else Inr v
       else Inr v) (GetStruct W w) v"

definition WorkflowService_DescribeTaskList_Args_enveloper ::
  "'v wire_api \<Rightarrow> WorkflowService_DescribeTaskList_Args \<Rightarrow> 'v enveloper" where
  "WorkflowService_DescribeTaskList_Args_enveloper W v =
     \<lparr>MethodName = ''DescribeTaskList'', EnvelopeType = Call, EnvelopeToWire =
         WorkflowService_DescribeTaskList_Args_ToWire W v\<rparr>"

definition WorkflowService_DescribeTaskList_Args_Equals ::
  "WorkflowService_DescribeTaskList_Args option \<Rightarrow> WorkflowService_DescribeTaskList_Args option \<Rightarrow>
      bool" where
  "WorkflowService_DescribeTaskList_Args_Equals v rhs =
     (case v of None \<Rightarrow> rhs = None
      | Some v \<Rightarrow> (case rhs of None \<Rightarrow> False
        | Some rhs \<Rightarrow>
          if \<not> both_set_and (\<lambda>x y. DescribeTaskListRequest_Equals (Some x) (Some y))
              (WorkflowService_DescribeTaskList_Args.Request v)
              (WorkflowService_DescribeTaskList_Args.Request rhs) then False else
          True))"

lemma WorkflowService_DescribeTaskList_Args_Equals_iff [simp]:
    "WorkflowService_DescribeTaskList_Args_Equals x y \<longleftrightarrow> x = y"
  by (cases x; cases y) (auto simp: WorkflowService_DescribeTaskList_Args_Equals_def)

record WorkflowService_DescribeTaskList_Result =
  Success :: "DescribeTaskListResponse option"
  BadRequestError :: "BadRequestError option"
  InternalServiceError :: "InternalServiceError option"
  EntityNotExistError :: "EntityNotExistsError option"
  LimitExceededError :: "LimitExceededError option"
  ServiceBusyError :: "ServiceBusyError option"
  ClientVersionNotSupportedError :: "ClientVersionNotSupportedError option"

definition WorkflowService_DescribeTaskList_Result_count :: "WorkflowService_DescribeTaskList_Result
    \<Rightarrow> nat" where
  "WorkflowService_DescribeTaskList_Result_count v =
     (if WorkflowService_DescribeTaskList_Result.Success v \<noteq> None then 1 else 0) +
     (if WorkflowService_DescribeTaskList_Result.BadRequestError v \<noteq> None then 1 else 0) +
     (if WorkflowService_DescribeTaskList_Result.InternalServiceError v \<noteq> None then 1 else 0) +
     (if WorkflowService_DescribeTaskList_Result.EntityNotExistError v \<noteq> None then 1 else 0) +
     (if WorkflowService_DescribeTaskList_Result.LimitExceededError v \<noteq> None then 1 else 0) +
     (if WorkflowService_DescribeTaskList_Result.ServiceBusyError v \<noteq> None then 1 else 0) +
     (if WorkflowService_DescribeTaskList_Result.ClientVersionNotSupportedError v \<noteq> None then 1 else
         0)"

definition WorkflowService_DescribeTaskList_Result_zero :: WorkflowService_DescribeTaskList_Result
    where
  "WorkflowService_DescribeTaskList_Result_zero = \<lparr>WorkflowService_DescribeTaskList_Result.Success =
      None, WorkflowService_DescribeTaskList_Result.BadRequestError = None,
      WorkflowService_DescribeTaskList_Result.InternalServiceError = None,
      WorkflowService_DescribeTaskList_Result.EntityNotExistError = None,
      WorkflowService_DescribeTaskList_Result.LimitExceededError = None,
      WorkflowService_DescribeTaskList_Result.ServiceBusyError = None,
      WorkflowService_DescribeTaskList_Result.ClientVersionNotSupportedError = None\<rparr>"

definition WorkflowService_DescribeTaskList_Result_ToWire ::
  "'v wire_api \<Rightarrow> WorkflowService_DescribeTaskList_Result \<Rightarrow> go_error + 'v" where
  "WorkflowService_DescribeTaskList_Result_ToWire W v =
     and_then (put_opt 0 (DescribeTaskListResponse_ToWire W)
         (WorkflowService_DescribeTaskList_Result.Success v) [])
       (\<lambda>fields.
     and_then (put_opt 1 (BadRequestError_ToWire W)
         (WorkflowService_DescribeTaskList_Result.BadRequestError v) fields)
       (\<lambda>fields.
     and_then (put_opt 2 (InternalServiceError_ToWire W)
         (WorkflowService_DescribeTaskList_Result.InternalServiceError v) fields)
       (\<lambda>fields.
     and_then (put_opt 3 (EntityNotExistsError_ToWire W)
         (WorkflowService_DescribeTaskList_Result.EntityNotExistError v) fields)
       (\<lambda>fields.
     and_then (put_opt 4 (LimitExceededError_ToWire W)
         (WorkflowService_DescribeTaskList_Result.LimitExceededError v) fields)
       (\<lambda>fields.
     and_then (put_opt 5 (ServiceBusyError_ToWire W)
         (WorkflowService_DescribeTaskList_Result.ServiceBusyError v) fields)
       (\<lambda>fields.
     and_then (put_opt 6 (ClientVersionNotSupportedError_ToWire W)
         (WorkflowService_DescribeTaskList_Result.ClientVersionNotSupportedError v) fields)
       (\<lambda>fields.
     if length fields \<noteq> 1
     then Inl (E_Errorf
         ''WorkflowService_DescribeTaskList_Result should have exactly one field: got %v fields''
         (length fields))
     else Inr (NewValueStruct W fields))))))))"

definition WorkflowService_DescribeTaskList_Result_FromWire ::
  "'v wire_api \<Rightarrow> 'v \<Rightarrow> WorkflowService_DescribeTaskList_Result \<Rightarrow> go_error +
      WorkflowService_DescribeTaskList_Result" where
  "WorkflowService_DescribeTaskList_Result_FromWire W w v =
     and_then (foldM (\<lambda>v (fid, fval).
       if fid = 0 then
         if wire_api.Type W fval = TStruct
         then and_then (DescribeTaskListResponse_Read W fval) (\<lambda>x. Inr
             (v\<lparr>WorkflowService_DescribeTaskList_Result.Success := Some x\<rparr>))
         else Inr v
       else if fid = 1 then
         if wire_api.Type W fval = TStruct
         then and_then (BadRequestError_Read W fval) (\<lambda>x. Inr
             (v\<lparr>WorkflowService_DescribeTaskList_Result.BadRequestError := Some x\<rparr>))
         else Inr v
       else if fid = 2 then
         if wire_api.Type W fval = TStruct
         then and_then (InternalServiceError_Read W fval) (\<lambda>x. Inr
             (v\<lparr>WorkflowService_DescribeTaskList_Result.InternalServiceError := Some x\<rparr>))
         else Inr v
       else if fid = 3 then
         if wire_api.Type W fval = TStruct
         then and_then (EntityNotExistsError_Read W fval) (\<lambda>x. Inr
             (v\<lparr>WorkflowService_DescribeTaskList_Result.EntityNotExistError := Some x\<rparr>))
         else Inr v
       else if fid = 4 then
         if wire_api.Type W fval = TStruct
         then and_then (LimitExceededError_Read W fval) (\<lambda>x. Inr
             (v\<lparr>WorkflowService_DescribeTaskList_Result.LimitExceededError := Some x\<rparr>))
         else Inr v
       else if fid = 5 then
         if wire_api.Type W fval = TStruct
         then and_then (ServiceBusyError_Read W fval) (\<lambda>x. Inr
             (v\<lparr>WorkflowService_DescribeTaskList_Result.ServiceBusyError := Some x\<rparr>))
         else Inr v
       else if fid = 6 then
         if wire_api.Type W fval = TStruct
         then and_then (ClientVersionNotSupportedError_Read W fval) (\<lambda>x. Inr
             (v\<lparr>WorkflowService_DescribeTaskList_Result.ClientVersionNotSupportedError := Some x\<rparr>))
         else Inr v
       else Inr v) (GetStruct W w) v) (\<lambda>v.
     let count = WorkflowService_DescribeTaskList_Result_count v in
     if count \<noteq> 1
     then Inl (E_Errorf
         ''WorkflowService_DescribeTaskList_Result should have exactly one field: got %v fields''
         count)
     else Inr v)"

definition WorkflowService_DescribeTaskList_Result_enveloper ::
  "'v wire_api \<Rightarrow> WorkflowService_DescribeTaskList_Result \<Rightarrow> 'v enveloper" where
  "WorkflowService_DescribeTaskList_Result_enveloper W v =
     \<lparr>MethodName = ''DescribeTaskList'', EnvelopeType = Reply, EnvelopeToWire =
         WorkflowService_DescribeTaskList_Result_ToWire W v\<rparr>"

definition WorkflowService_DescribeTaskList_Result_Equals ::
  "WorkflowService_DescribeTaskList_Result option \<Rightarrow> WorkflowService_DescribeTaskList_Result option \<Rightarrow>
      bool" where
  "WorkflowService_DescribeTaskList_Result_Equals v rhs =
     (case v of None \<Rightarrow> rhs = None
      | Some v \<Rightarrow> (case rhs of None \<Rightarrow> False
        | Some rhs \<Rightarrow>
          if \<not> both_set_and (\<lambda>x y. DescribeTaskListResponse_Equals (Some x) (Some y))
              (WorkflowService_DescribeTaskList_Result.Success v)
              (WorkflowService_DescribeTaskList_Result.Success rhs) then False else
          if \<not> both_set_and (\<lambda>x y. BadRequestError_Equals (Some x) (Some y))
              (WorkflowService_DescribeTaskList_Result.BadRequestError v)
              (WorkflowService_DescribeTaskList_Result.BadRequestError rhs) then False else
          if \<not> both_set_and (\<lambda>x y. InternalServiceError_Equals (Some x) (Some y))
              (WorkflowService_DescribeTaskList_Result.InternalServiceError v)
              (WorkflowService_DescribeTaskList_Result.InternalServiceError rhs) then False else
          if \<not> both_set_and (\<lambda>x y. EntityNotExistsError_Equals (Some x) (Some y))
              (WorkflowService_DescribeTaskList_Result.EntityNotExistError v)
              (WorkflowService_DescribeTaskList_Result.EntityNotExistError rhs) then False else
          if \<not> both_set_and (\<lambda>x y. LimitExceededError_Equals (Some x) (Some y))
              (WorkflowService_DescribeTaskList_Result.LimitExceededError v)
              (WorkflowService_DescribeTaskList_Result.LimitExceededError rhs) then False else
          if \<not> both_set_and (\<lambda>x y. ServiceBusyError_Equals (Some x) (Some y))
              (WorkflowService_DescribeTaskList_Result.ServiceBusyError v)
              (WorkflowService_DescribeTaskList_Result.ServiceBusyError rhs) then False else
          if \<not> both_set_and (\<lambda>x y. ClientVersionNotSupportedError_Equals (Some x) (Some y))
              (WorkflowService_DescribeTaskList_Result.ClientVersionNotSupportedError v)
              (WorkflowService_DescribeTaskList_Result.ClientVersionNotSupportedError rhs) then
              False else
          True))"

definition WorkflowService_DescribeTaskList_Result_comparable ::
    "WorkflowService_DescribeTaskList_Result \<Rightarrow> bool" where
  "WorkflowService_DescribeTaskList_Result_comparable v \<longleftrightarrow>
     if_set DescribeTaskListResponse_comparable (WorkflowService_DescribeTaskList_Result.Success v)"

lemma WorkflowService_DescribeTaskList_Result_Equals_iff:
  "if_set WorkflowService_DescribeTaskList_Result_comparable x \<Longrightarrow> if_set
      WorkflowService_DescribeTaskList_Result_comparable y \<Longrightarrow>
      WorkflowService_DescribeTaskList_Result_Equals x y \<longleftrightarrow> x = y"
  by (cases x; cases y) (simp_all add: WorkflowService_DescribeTaskList_Result_Equals_def
      WorkflowService_DescribeTaskList_Result_comparable_def if_not_False,
    fastforce intro: WorkflowService_DescribeTaskList_Result.equality)

lemma WorkflowService_DescribeTaskList_Result_fields_equal [simp]:
  "if_set WorkflowService_DescribeTaskList_Result_comparable x \<Longrightarrow> if_set
      WorkflowService_DescribeTaskList_Result_comparable y \<Longrightarrow>
    both_set_and (\<lambda>x y. WorkflowService_DescribeTaskList_Result_Equals (Some x) (Some y)) x y \<longleftrightarrow> x =
        y"
  by (rule both_set_and_iff [where P = WorkflowService_DescribeTaskList_Result_comparable])
      (simp_all add: WorkflowService_DescribeTaskList_Result_Equals_iff)

definition WorkflowService_DescribeTaskList_Helper_Args :: "DescribeTaskListRequest option \<Rightarrow>
    WorkflowService_DescribeTaskList_Args" where
  "WorkflowService_DescribeTaskList_Helper_Args r = \<lparr>WorkflowService_DescribeTaskList_Args.Request =
      r\<rparr>"

definition WorkflowService_DescribeTaskList_Helper_IsException :: "go_error \<Rightarrow> bool" where
  "WorkflowService_DescribeTaskList_Helper_IsException err =
     (case err of
        E_BadRequestError _ \<Rightarrow> True
      | E_InternalServiceError _ \<Rightarrow> True
      | E_EntityNotExistsError _ \<Rightarrow> True
      | E_LimitExceededError _ \<Rightarrow> True
      | E_ServiceBusyError _ \<Rightarrow> True
      | E_ClientVersionNotSupportedError _ \<Rightarrow> True
      | _ \<Rightarrow> False)"

definition WorkflowService_DescribeTaskList_Helper_WrapResponse ::
  "DescribeTaskListResponse option \<Rightarrow> go_error option \<Rightarrow> go_error +
      WorkflowService_DescribeTaskList_Result" where
  "WorkflowService_DescribeTaskList_Helper_WrapResponse success err =
     (case err of None \<Rightarrow> Inr
         (WorkflowService_DescribeTaskList_Result_zero\<lparr>WorkflowService_DescribeTaskList_Result.Success := success\<rparr>)
      | Some err \<Rightarrow> (case err of
          E_BadRequestError e \<Rightarrow> (case e of
              None \<Rightarrow> Inl (E_New
                  ''WrapResponse received non-nil error type with nil value for WorkflowService_DescribeTaskList_Result.BadRequestError'')
            | Some e \<Rightarrow> Inr
                (WorkflowService_DescribeTaskList_Result_zero\<lparr>WorkflowService_DescribeTaskList_Result.BadRequestError := Some e\<rparr>))
        | E_InternalServiceError e \<Rightarrow> (case e of
              None \<Rightarrow> Inl (E_New
                  ''WrapResponse received non-nil error type with nil value for WorkflowService_DescribeTaskList_Result.InternalServiceError'')
            | Some e \<Rightarrow> Inr
                (WorkflowService_DescribeTaskList_Result_zero\<lparr>WorkflowService_DescribeTaskList_Result.InternalServiceError := Some e\<rparr>))
        | E_EntityNotExistsError e \<Rightarrow> (case e of
              None \<Rightarrow> Inl (E_New
                  ''WrapResponse received non-nil error type with nil value for WorkflowService_DescribeTaskList_Result.EntityNotExistError'')
            | Some e \<Rightarrow> Inr
                (WorkflowService_DescribeTaskList_Result_zero\<lparr>WorkflowService_DescribeTaskList_Result.EntityNotExistError := Some e\<rparr>))
        | E_LimitExceededError e \<Rightarrow> (case e of
              None \<Rightarrow> Inl (E_New
                  ''WrapResponse received non-nil error type with nil value for WorkflowService_DescribeTaskList_Result.LimitExceededError'')
            | Some e \<Rightarrow> Inr
                (WorkflowService_DescribeTaskList_Result_zero\<lparr>WorkflowService_DescribeTaskList_Result.LimitExceededError := Some e\<rparr>))
        | E_ServiceBusyError e \<Rightarrow> (case e of
              None \<Rightarrow> Inl (E_New
                  ''WrapResponse received non-nil error type with nil value for WorkflowService_DescribeTaskList_Result.ServiceBusyError'')
            | Some e \<Rightarrow> Inr
                (WorkflowService_DescribeTaskList_Result_zero\<lparr>WorkflowService_DescribeTaskList_Result.ServiceBusyError := Some e\<rparr>))
        | E_ClientVersionNotSupportedError e \<Rightarrow> (case e of
              None \<Rightarrow> Inl (E_New
                  ''WrapResponse received non-nil error type with nil value for WorkflowService_DescribeTaskList_Result.ClientVersionNotSupportedError'')
            | Some e \<Rightarrow> Inr
                (WorkflowService_DescribeTaskList_Result_zero\<lparr>WorkflowService_DescribeTaskList_Result.ClientVersionNotSupportedError := Some e\<rparr>))
        | _ \<Rightarrow> Inl err))"

definition WorkflowService_DescribeTaskList_Helper_UnwrapResponse ::
  "WorkflowService_DescribeTaskList_Result \<Rightarrow> DescribeTaskListResponse option \<times> go_error option"
      where
  "WorkflowService_DescribeTaskList_Helper_UnwrapResponse result =
    (if WorkflowService_DescribeTaskList_Result.BadRequestError result \<noteq> None then (None, Some
        (E_BadRequestError (WorkflowService_DescribeTaskList_Result.BadRequestError result))) else
     if WorkflowService_DescribeTaskList_Result.InternalServiceError result \<noteq> None then (None, Some
         (E_InternalServiceError (WorkflowService_DescribeTaskList_Result.InternalServiceError
         result))) else
     if WorkflowService_DescribeTaskList_Result.EntityNotExistError result \<noteq> None then (None, Some
         (E_EntityNotExistsError (WorkflowService_DescribeTaskList_Result.EntityNotExistError
         result))) else
     if WorkflowService_DescribeTaskList_Result.LimitExceededError result \<noteq> None then (None, Some
         (E_LimitExceededError (WorkflowService_DescribeTaskList_Result.LimitExceededError result)))
         else
     if WorkflowService_DescribeTaskList_Result.ServiceBusyError result \<noteq> None then (None, Some
         (E_ServiceBusyError (WorkflowService_DescribeTaskList_Result.ServiceBusyError result)))
         else
     if WorkflowService_DescribeTaskList_Result.ClientVersionNotSupportedError result \<noteq> None then
         (None, Some (E_ClientVersionNotSupportedError
         (WorkflowService_DescribeTaskList_Result.ClientVersionNotSupportedError result))) else
     if WorkflowService_DescribeTaskList_Result.Success result \<noteq> None then
         (WorkflowService_DescribeTaskList_Result.Success result, None) else
     (None, Some (E_New ''expected a non-void result'')))"

definition handler_DescribeTaskList ::
  "'v wire_api \<Rightarrow> ('ctx \<Rightarrow> DescribeTaskListRequest option \<Rightarrow> DescribeTaskListResponse option \<times> go_error
      option) \<Rightarrow>
   ('ctx, 'v) unary_handler" where
  "handler_DescribeTaskList W impl ctx body =
     (case WorkflowService_DescribeTaskList_Args_FromWire W body
         WorkflowService_DescribeTaskList_Args_zero of
      Inl err \<Rightarrow> (no_response, Some err)
    | Inr args \<Rightarrow>
      let (success, err) = impl ctx (WorkflowService_DescribeTaskList_Args.Request args);
          hadError = (err \<noteq> None)
      in case WorkflowService_DescribeTaskList_Helper_WrapResponse success err of
           Inl err \<Rightarrow> (no_response, Some err)
         | Inr result \<Rightarrow>
             (\<lparr>Body = Some (WorkflowService_DescribeTaskList_Result_enveloper W result),
               IsApplicationError = hadError\<rparr>, None))"

definition client_DescribeTaskList ::
  "'v wire_api \<Rightarrow> ('ctx, 'v) thrift_client \<Rightarrow> 'ctx \<Rightarrow> DescribeTaskListRequest option \<Rightarrow>
   DescribeTaskListResponse option \<times> go_error option" where
  "client_DescribeTaskList W call ctx r =
     (let args = WorkflowService_DescribeTaskList_Helper_Args r in
      case call ctx (WorkflowService_DescribeTaskList_Args_enveloper W args) of
        Inl e \<Rightarrow> (None, Some e)
      | Inr body \<Rightarrow>
          (case WorkflowService_DescribeTaskList_Result_FromWire W body
              WorkflowService_DescribeTaskList_Result_zero of
             Inl e \<Rightarrow> (None, Some e)
           | Inr result \<Rightarrow> WorkflowService_DescribeTaskList_Helper_UnwrapResponse result))"

lemma WorkflowService_DescribeTaskList_Args_merge:
  "(case x of None \<Rightarrow> Inr \<lparr>WorkflowService_DescribeTaskList_Args.Request = a0\<rparr> | Some y \<Rightarrow> Inr
      \<lparr>WorkflowService_DescribeTaskList_Args.Request = b0 y\<rparr>) =
   Inr \<lparr>WorkflowService_DescribeTaskList_Args.Request = (case x of None \<Rightarrow> a0 | Some y \<Rightarrow> b0 y)\<rparr>"
  by (cases x) simp_all

interpretation WorkflowService_DescribeTaskList_Args: thrift_struct W
  "WorkflowService_DescribeTaskList_Args_ToWire W" "WorkflowService_DescribeTaskList_Args_FromWire
      W"
  WorkflowService_DescribeTaskList_Args_zero "\<lambda>x. True" for W
proof (rule thrift_structI)
  fix x :: WorkflowService_DescribeTaskList_Args
  assume laws: "wire_laws W"
  obtain enc0 where e0: "DescribeTaskListRequest_ToWire W = (\<lambda>x. Inr (enc0 x))"
      "\<And>x. wire_api.Type W (enc0 x) = TStruct"
      "\<And>x. Writable W (enc0 x) \<longleftrightarrow> (\<lambda>_. True) x"
      "\<And>x. (\<lambda>_. True) x \<Longrightarrow> DescribeTaskListRequest_FromWire W (enc0 x) DescribeTaskListRequest_zero =
          Inr x"
    by (rule DescribeTaskListRequest.encoder [OF laws]) (rule that)
  show "\<exists>w. WorkflowService_DescribeTaskList_Args_ToWire W x = Inr w \<and> wire_api.Type W w = TStruct \<and>
      (Writable W w \<longleftrightarrow> True) \<and> (True \<longrightarrow> WorkflowService_DescribeTaskList_Args_FromWire W w
          WorkflowService_DescribeTaskList_Args_zero = Inr x)"
    by (cases x) (simp cong: option.case_cong add: codec_rules
        WorkflowService_DescribeTaskList_Args_merge WorkflowService_DescribeTaskList_Args_ToWire_def
        WorkflowService_DescribeTaskList_Args_FromWire_def
      WorkflowService_DescribeTaskList_Args_zero_def DescribeTaskListRequest_Read_def if_set_def
          laws e0)
qed

lemma WorkflowService_DescribeTaskList_Result_merge:
  "(case x of None \<Rightarrow> Inr \<lparr>WorkflowService_DescribeTaskList_Result.Success = a0,
      WorkflowService_DescribeTaskList_Result.BadRequestError = a1,
      WorkflowService_DescribeTaskList_Result.InternalServiceError = a2,
      WorkflowService_DescribeTaskList_Result.EntityNotExistError = a3,
      WorkflowService_DescribeTaskList_Result.LimitExceededError = a4,
      WorkflowService_DescribeTaskList_Result.ServiceBusyError = a5,
      WorkflowService_DescribeTaskList_Result.ClientVersionNotSupportedError = a6\<rparr> | Some y \<Rightarrow> Inr
      \<lparr>WorkflowService_DescribeTaskList_Result.Success = b0 y,
      WorkflowService_DescribeTaskList_Result.BadRequestError = b1 y,
      WorkflowService_DescribeTaskList_Result.InternalServiceError = b2 y,
      WorkflowService_DescribeTaskList_Result.EntityNotExistError = b3 y,
      WorkflowService_DescribeTaskList_Result.LimitExceededError = b4 y,
      WorkflowService_DescribeTaskList_Result.ServiceBusyError = b5 y,
      WorkflowService_DescribeTaskList_Result.ClientVersionNotSupportedError = b6 y\<rparr>) =
   Inr \<lparr>WorkflowService_DescribeTaskList_Result.Success = (case x of None \<Rightarrow> a0 | Some y \<Rightarrow> b0 y),
       WorkflowService_DescribeTaskList_Result.BadRequestError = (case x of None \<Rightarrow> a1 | Some y \<Rightarrow> b1
       y), WorkflowService_DescribeTaskList_Result.InternalServiceError = (case x of None \<Rightarrow> a2 |
       Some y \<Rightarrow> b2 y), WorkflowService_DescribeTaskList_Result.EntityNotExistError = (case x of None
       \<Rightarrow> a3 | Some y \<Rightarrow> b3 y), WorkflowService_DescribeTaskList_Result.LimitExceededError = (case x
       of None \<Rightarrow> a4 | Some y \<Rightarrow> b4 y), WorkflowService_DescribeTaskList_Result.ServiceBusyError =
       (case x of None \<Rightarrow> a5 | Some y \<Rightarrow> b5 y),
       WorkflowService_DescribeTaskList_Result.ClientVersionNotSupportedError = (case x of None \<Rightarrow> a6
       | Some y \<Rightarrow> b6 y)\<rparr>"
  by (cases x) simp_all

interpretation WorkflowService_DescribeTaskList_Result: thrift_struct W
  "WorkflowService_DescribeTaskList_Result_ToWire W"
      "WorkflowService_DescribeTaskList_Result_FromWire W"
  WorkflowService_DescribeTaskList_Result_zero "\<lambda>r. WorkflowService_DescribeTaskList_Result_count r
      = 1 \<and> if_set DescribeTaskListResponse_complete
      (WorkflowService_DescribeTaskList_Result.Success r)" for W
proof (rule thrift_checkedI)
  fix x :: WorkflowService_DescribeTaskList_Result
  assume laws: "wire_laws W"
  obtain enc0 where e0: "DescribeTaskListResponse_ToWire W = (\<lambda>x. Inr (enc0 x))"
      "\<And>x. wire_api.Type W (enc0 x) = TStruct"
      "\<And>x. Writable W (enc0 x) \<longleftrightarrow> DescribeTaskListResponse_complete x"
      "\<And>x. DescribeTaskListResponse_complete x \<Longrightarrow> DescribeTaskListResponse_FromWire W (enc0 x)
          DescribeTaskListResponse_zero = Inr x"
    by (rule DescribeTaskListResponse.encoder [OF laws]) (rule that)
  obtain enc1 where e1: "BadRequestError_ToWire W = (\<lambda>x. Inr (enc1 x))"
      "\<And>x. wire_api.Type W (enc1 x) = TStruct"
      "\<And>x. Writable W (enc1 x) \<longleftrightarrow> (\<lambda>_. True) x"
      "\<And>x. (\<lambda>_. True) x \<Longrightarrow> BadRequestError_FromWire W (enc1 x) BadRequestError_zero = Inr x"
    by (rule BadRequestError.encoder [OF laws]) (rule that)
  obtain enc2 where e2: "InternalServiceError_ToWire W = (\<lambda>x. Inr (enc2 x))"
      "\<And>x. wire_api.Type W (enc2 x) = TStruct"
      "\<And>x. Writable W (enc2 x) \<longleftrightarrow> (\<lambda>_. True) x"
      "\<And>x. (\<lambda>_. True) x \<Longrightarrow> InternalServiceError_FromWire W (enc2 x) InternalServiceError_zero = Inr
          x"
    by (rule InternalServiceError.encoder [OF laws]) (rule that)
  obtain enc3 where e3: "EntityNotExistsError_ToWire W = (\<lambda>x. Inr (enc3 x))"
      "\<And>x. wire_api.Type W (enc3 x) = TStruct"
      "\<And>x. Writable W (enc3 x) \<longleftrightarrow> (\<lambda>_. True) x"
      "\<And>x. (\<lambda>_. True) x \<Longrightarrow> EntityNotExistsError_FromWire W (enc3 x) EntityNotExistsError_zero = Inr
          x"
    by (rule EntityNotExistsError.encoder [OF laws]) (rule that)
  obtain enc4 where e4: "LimitExceededError_ToWire W = (\<lambda>x. Inr (enc4 x))"
      "\<And>x. wire_api.Type W (enc4 x) = TStruct"
      "\<And>x. Writable W (enc4 x) \<longleftrightarrow> (\<lambda>_. True) x"
      "\<And>x. (\<lambda>_. True) x \<Longrightarrow> LimitExceededError_FromWire W (enc4 x) LimitExceededError_zero = Inr x"
    by (rule LimitExceededError.encoder [OF laws]) (rule that)
  obtain enc5 where e5: "ServiceBusyError_ToWire W = (\<lambda>x. Inr (enc5 x))"
      "\<And>x. wire_api.Type W (enc5 x) = TStruct"
      "\<And>x. Writable W (enc5 x) \<longleftrightarrow> (\<lambda>_. True) x"
      "\<And>x. (\<lambda>_. True) x \<Longrightarrow> ServiceBusyError_FromWire W (enc5 x) ServiceBusyError_zero = Inr x"
    by (rule ServiceBusyError.encoder [OF laws]) (rule that)
  obtain enc6 where e6: "ClientVersionNotSupportedError_ToWire W = (\<lambda>x. Inr (enc6 x))"
      "\<And>x. wire_api.Type W (enc6 x) = TStruct"
      "\<And>x. Writable W (enc6 x) \<longleftrightarrow> (\<lambda>_. True) x"
      "\<And>x. (\<lambda>_. True) x \<Longrightarrow> ClientVersionNotSupportedError_FromWire W (enc6 x)
          ClientVersionNotSupportedError_zero = Inr x"
    by (rule ClientVersionNotSupportedError.encoder [OF laws]) (rule that)
  let ?fs = "(((((opt_field 0 enc0 (WorkflowService_DescribeTaskList_Result.Success x) @
      opt_field 1 enc1 (WorkflowService_DescribeTaskList_Result.BadRequestError x)) @
      opt_field 2 enc2 (WorkflowService_DescribeTaskList_Result.InternalServiceError x)) @
      opt_field 3 enc3 (WorkflowService_DescribeTaskList_Result.EntityNotExistError x)) @
      opt_field 4 enc4 (WorkflowService_DescribeTaskList_Result.LimitExceededError x)) @
      opt_field 5 enc5 (WorkflowService_DescribeTaskList_Result.ServiceBusyError x)) @
      opt_field 6 enc6 (WorkflowService_DescribeTaskList_Result.ClientVersionNotSupportedError x)"
  let ?check = "\<lambda>r. if WorkflowService_DescribeTaskList_Result_count x \<noteq> 1 then Inl (E_Errorf
      ''WorkflowService_DescribeTaskList_Result should have exactly one field: got %v fields''
          (WorkflowService_DescribeTaskList_Result_count x)) else Inr r"
  have "length ?fs = WorkflowService_DescribeTaskList_Result_count x"
    by (simp add: WorkflowService_DescribeTaskList_Result_count_def length_opt_field split del:
        if_split)
  then have "WorkflowService_DescribeTaskList_Result_ToWire W x = ?check (NewValueStruct W ?fs)"
    by (simp only: WorkflowService_DescribeTaskList_Result_ToWire_def put_opt_field and_then.simps
        append_Nil e0(1) e1(1) e2(1) e3(1) e4(1) e5(1) e6(1))
  moreover have "WorkflowService_DescribeTaskList_Result_FromWire W (NewValueStruct W ?fs)
      WorkflowService_DescribeTaskList_Result_zero = ?check x"
    if "if_set DescribeTaskListResponse_complete (WorkflowService_DescribeTaskList_Result.Success
        x)"
    by (cases x, hypsubst) (simp cong: option.case_cong split del: if_split add: codec_rules Let_def
        WorkflowService_DescribeTaskList_Result_merge
      WorkflowService_DescribeTaskList_Result_FromWire_def
          WorkflowService_DescribeTaskList_Result_zero_def laws if_set_def that [unfolded
          if_set_def]
      BadRequestError_Read_def
      ClientVersionNotSupportedError_Read_def
      DescribeTaskListResponse_Read_def
      EntityNotExistsError_Read_def
      InternalServiceError_Read_def
      LimitExceededError_Read_def
      ServiceBusyError_Read_def
      e0 e1 e2 e3 e4 e5 e6)
  ultimately show "if WorkflowService_DescribeTaskList_Result_count x = 1
      then \<exists>w. WorkflowService_DescribeTaskList_Result_ToWire W x = Inr w \<and> wire_api.Type W w =
          TStruct \<and>
        (Writable W w \<longleftrightarrow> if_set DescribeTaskListResponse_complete
            (WorkflowService_DescribeTaskList_Result.Success x)) \<and> (if_set
            DescribeTaskListResponse_complete (WorkflowService_DescribeTaskList_Result.Success x) \<longrightarrow>
            WorkflowService_DescribeTaskList_Result_FromWire W w
            WorkflowService_DescribeTaskList_Result_zero = Inr x)
      else \<exists>e. WorkflowService_DescribeTaskList_Result_ToWire W x = Inl e"
    by (simp add: laws codec_rules e0 e1 e2 e3 e4 e5 e6)
qed

interpretation DescribeTaskList: rpc_method W
  "WorkflowService_DescribeTaskList_Args_ToWire W" "WorkflowService_DescribeTaskList_Args_FromWire
      W" WorkflowService_DescribeTaskList_Args_zero "\<lambda>x. True"
  "WorkflowService_DescribeTaskList_Result_ToWire W"
      "WorkflowService_DescribeTaskList_Result_FromWire W"
      WorkflowService_DescribeTaskList_Result_zero
  "\<lambda>r. WorkflowService_DescribeTaskList_Result_count r = 1 \<and> if_set
      DescribeTaskListResponse_complete (WorkflowService_DescribeTaskList_Result.Success r)"
      "''DescribeTaskList''"
  WorkflowService_DescribeTaskList_Helper_Args "WorkflowService_DescribeTaskList_Args.Request"
  "\<lambda>(success, err). WorkflowService_DescribeTaskList_Helper_WrapResponse success err"
      WorkflowService_DescribeTaskList_Helper_UnwrapResponse
  "\<lambda>out. snd out \<noteq> None" "carried DescribeTaskListResponse_complete
      WorkflowService_DescribeTaskList_Helper_IsException" error_first "\<lambda>e. (None, Some e)"
  "handler_DescribeTaskList W" "client_DescribeTaskList W" for W
proof
  fix out :: "DescribeTaskListResponse option \<times> go_error option"
  assume "carried DescribeTaskListResponse_complete
      WorkflowService_DescribeTaskList_Helper_IsException out"
  then show "case (\<lambda>(success, err). WorkflowService_DescribeTaskList_Helper_WrapResponse success
      err) out of Inl e \<Rightarrow> False
      | Inr res \<Rightarrow> (WorkflowService_DescribeTaskList_Result_count res = 1 \<and> if_set
          DescribeTaskListResponse_complete (WorkflowService_DescribeTaskList_Result.Success res)) \<and>
          WorkflowService_DescribeTaskList_Helper_UnwrapResponse res = error_first out"
    by (cases out; cases "snd out"; cases "the (snd out)")
      (auto simp: WorkflowService_DescribeTaskList_Helper_IsException_def
          WorkflowService_DescribeTaskList_Helper_WrapResponse_def
          WorkflowService_DescribeTaskList_Helper_UnwrapResponse_def
        declared_nonnil_def WorkflowService_DescribeTaskList_Result_zero_def
            WorkflowService_DescribeTaskList_Result_count_def elim!: present.elims)
next
  fix out :: "DescribeTaskListResponse option \<times> go_error option"
  assume "\<not> carried DescribeTaskListResponse_complete
      WorkflowService_DescribeTaskList_Helper_IsException out"
  then show "case (\<lambda>(success, err). WorkflowService_DescribeTaskList_Helper_WrapResponse success
      err) out of Inl e \<Rightarrow> True
      | Inr res \<Rightarrow> \<not> (WorkflowService_DescribeTaskList_Result_count res = 1 \<and> if_set
          DescribeTaskListResponse_complete (WorkflowService_DescribeTaskList_Result.Success res))"
    by (cases out; cases "snd out"; cases "the (snd out)")
      (auto simp: WorkflowService_DescribeTaskList_Helper_IsException_def
          WorkflowService_DescribeTaskList_Helper_WrapResponse_def declared_nonnil_def
        WorkflowService_DescribeTaskList_Result_count_def
            WorkflowService_DescribeTaskList_Result_zero_def split: option.splits)
qed (auto simp: WorkflowService_DescribeTaskList_Helper_Args_def handler_DescribeTaskList_def
    client_DescribeTaskList_def
      WorkflowService_DescribeTaskList_Args_enveloper_def
          WorkflowService_DescribeTaskList_Result_enveloper_def
      Let_def split: sum.splits prod.splits)

end
