(* ===== verification/GoVisibilityService.thy ===== *)
theory GoVisibilityService
  imports GoRpc GoRequests
begin

text \<open>
  The generated code of the calls that list, count and describe executions:
  ListOpenWorkflowExecutions,
  ListClosedWorkflowExecutions,
  ListWorkflowExecutions,
  ListArchivedWorkflowExecutions,
  ScanWorkflowExecutions,
  CountWorkflowExecutions,
  GetSearchAttributes,
  DescribeWorkflowExecution.
  For each method: its argument and result structs with their codecs and its helper
  (proxy/gen/cadence/cadence.go), its server handler (workflowserviceserver/server.go) and
  its client method (workflowserviceclient/client.go); then the interpretations that show
  the two codecs round trip and that the method keeps the contract \<open>rpc_method\<close>.
\<close>

section \<open>ListOpenWorkflowExecutions\<close>

record WorkflowService_ListOpenWorkflowExecutions_Args =
  ListRequest :: "ListOpenWorkflowExecutionsRequest option"

definition WorkflowService_ListOpenWorkflowExecutions_Args_zero ::
    WorkflowService_ListOpenWorkflowExecutions_Args where
  "WorkflowService_ListOpenWorkflowExecutions_Args_zero =
      \<lparr>WorkflowService_ListOpenWorkflowExecutions_Args.ListRequest = None\<rparr>"

definition WorkflowService_ListOpenWorkflowExecutions_Args_ToWire ::
  "'v wire_api \<Rightarrow> WorkflowService_ListOpenWorkflowExecutions_Args \<Rightarrow> go_error + 'v" where
  "WorkflowService_ListOpenWorkflowExecutions_Args_ToWire W v =
     and_then (put_opt 1 (ListOpenWorkflowExecutionsRequest_ToWire W)
         (WorkflowService_ListOpenWorkflowExecutions_Args.ListRequest v) [])
       (\<lambda>fields.
     Inr (NewValueStruct W fields))"

definition WorkflowService_ListOpenWorkflowExecutions_Args_FromWire ::
  "'v wire_api \<Rightarrow> 'v \<Rightarrow> WorkflowService_ListOpenWorkflowExecutions_Args \<Rightarrow> go_error +
      WorkflowService_ListOpenWorkflowExecutions_Args" where
  "WorkflowService_ListOpenWorkflowExecutions_Args_FromWire W w v =
     foldM (\<lambda>v (fid, fval).
       if fid = 1 then
         if wire_api.Type W fval = TStruct
         then and_then (ListOpenWorkflowExecutionsRequest_Read W fval) (\<lambda>x. Inr
             (v\<lparr>WorkflowService_ListOpenWorkflowExecutions_Args.ListRequest := Some x\<rparr>))
         else Inr v
       else Inr v) (GetStruct W w) v"

definition WorkflowService_ListOpenWorkflowExecutions_Args_enveloper ::
  "'v wire_api \<Rightarrow> WorkflowService_ListOpenWorkflowExecutions_Args \<Rightarrow> 'v enveloper" where
  "WorkflowService_ListOpenWorkflowExecutions_Args_enveloper W v =
     \<lparr>MethodName = ''ListOpenWorkflowExecutions'', EnvelopeType = Call, EnvelopeToWire =
         WorkflowService_ListOpenWorkflowExecutions_Args_ToWire W v\<rparr>"

definition WorkflowService_ListOpenWorkflowExecutions_Args_Equals ::
  "WorkflowService_ListOpenWorkflowExecutions_Args option \<Rightarrow>
      WorkflowService_ListOpenWorkflowExecutions_Args option \<Rightarrow> bool" where
  "WorkflowService_ListOpenWorkflowExecutions_Args_Equals v rhs =
     (case v of None \<Rightarrow> rhs = None
      | Some v \<Rightarrow> (case rhs of None \<Rightarrow> False
        | Some rhs \<Rightarrow>
          if \<not> both_set_and (\<lambda>x y. ListOpenWorkflowExecutionsRequest_Equals (Some x) (Some y))
              (WorkflowService_ListOpenWorkflowExecutions_Args.ListRequest v)
              (WorkflowService_ListOpenWorkflowExecutions_Args.ListRequest rhs) then False else
          True))"

lemma WorkflowService_ListOpenWorkflowExecutions_Args_Equals_iff [simp]:
    "WorkflowService_ListOpenWorkflowExecutions_Args_Equals x y \<longleftrightarrow> x = y"
  by (cases x; cases y) (auto simp: WorkflowService_ListOpenWorkflowExecutions_Args_Equals_def)

record WorkflowService_ListOpenWorkflowExecutions_Result =
  Success :: "ListOpenWorkflowExecutionsResponse option"
  BadRequestError :: "BadRequestError option"
  InternalServiceError :: "InternalServiceError option"
  EntityNotExistError :: "EntityNotExistsError option"
  ServiceBusyError :: "ServiceBusyError option"
  LimitExceededError :: "LimitExceededError option"
  ClientVersionNotSupportedError :: "ClientVersionNotSupportedError option"

definition WorkflowService_ListOpenWorkflowExecutions_Result_count ::
    "WorkflowService_ListOpenWorkflowExecutions_Result \<Rightarrow> nat" where
  "WorkflowService_ListOpenWorkflowExecutions_Result_count v =
     (if WorkflowService_ListOpenWorkflowExecutions_Result.Success v \<noteq> None then 1 else 0) +
     (if WorkflowService_ListOpenWorkflowExecutions_Result.BadRequestError v \<noteq> None then 1 else 0) +
     (if WorkflowService_ListOpenWorkflowExecutions_Result.InternalServiceError v \<noteq> None then 1 else
         0) +
     (if WorkflowService_ListOpenWorkflowExecutions_Result.EntityNotExistError v \<noteq> None then 1 else
         0) +
     (if WorkflowService_ListOpenWorkflowExecutions_Result.ServiceBusyError v \<noteq> None then 1 else 0)
         +
     (if WorkflowService_ListOpenWorkflowExecutions_Result.LimitExceededError v \<noteq> None then 1 else
         0) +
     (if WorkflowService_ListOpenWorkflowExecutions_Result.ClientVersionNotSupportedError v \<noteq> None
         then 1 else 0)"

definition WorkflowService_ListOpenWorkflowExecutions_Result_zero ::
    WorkflowService_ListOpenWorkflowExecutions_Result where
  "WorkflowService_ListOpenWorkflowExecutions_Result_zero =
      \<lparr>WorkflowService_ListOpenWorkflowExecutions_Result.Success = None,
      WorkflowService_ListOpenWorkflowExecutions_Result.BadRequestError = None,
      WorkflowService_ListOpenWorkflowExecutions_Result.InternalServiceError = None,
      WorkflowService_ListOpenWorkflowExecutions_Result.EntityNotExistError = None,
      WorkflowService_ListOpenWorkflowExecutions_Result.ServiceBusyError = None,
      WorkflowService_ListOpenWorkflowExecutions_Result.LimitExceededError = None,
      WorkflowService_ListOpenWorkflowExecutions_Result.ClientVersionNotSupportedError = None\<rparr>"

definition WorkflowService_ListOpenWorkflowExecutions_Result_ToWire ::
  "'v wire_api \<Rightarrow> WorkflowService_ListOpenWorkflowExecutions_Result \<Rightarrow> go_error + 'v" where
  "WorkflowService_ListOpenWorkflowExecutions_Result_ToWire W v =
     and_then (put_opt 0 (ListOpenWorkflowExecutionsResponse_ToWire W)
         (WorkflowService_ListOpenWorkflowExecutions_Result.Success v) [])
       (\<lambda>fields.
     and_then (put_opt 1 (BadRequestError_ToWire W)
         (WorkflowService_ListOpenWorkflowExecutions_Result.BadRequestError v) fields)
       (\<lambda>fields.
     and_then (put_opt 2 (InternalServiceError_ToWire W)
         (WorkflowService_ListOpenWorkflowExecutions_Result.InternalServiceError v) fields)
       (\<lambda>fields.
     and_then (put_opt 3 (EntityNotExistsError_ToWire W)
         (WorkflowService_ListOpenWorkflowExecutions_Result.EntityNotExistError v) fields)
       (\<lambda>fields.
     and_then (put_opt 4 (ServiceBusyError_ToWire W)
         (WorkflowService_ListOpenWorkflowExecutions_Result.ServiceBusyError v) fields)
       (\<lambda>fields.
     and_then (put_opt 5 (LimitExceededError_ToWire W)
         (WorkflowService_ListOpenWorkflowExecutions_Result.LimitExceededError v) fields)
       (\<lambda>fields.
     and_then (put_opt 6 (ClientVersionNotSupportedError_ToWire W)
         (WorkflowService_ListOpenWorkflowExecutions_Result.ClientVersionNotSupportedError v)
         fields)
       (\<lambda>fields.
     if length fields \<noteq> 1
     then Inl (E_Errorf
         ''WorkflowService_ListOpenWorkflowExecutions_Result should have exactly one field: got %v fields'' (length fields))
     else Inr (NewValueStruct W fields))))))))"

definition WorkflowService_ListOpenWorkflowExecutions_Result_FromWire ::
  "'v wire_api \<Rightarrow> 'v \<Rightarrow> WorkflowService_ListOpenWorkflowExecutions_Result \<Rightarrow> go_error +
      WorkflowService_ListOpenWorkflowExecutions_Result" where
  "WorkflowService_ListOpenWorkflowExecutions_Result_FromWire W w v =
     and_then (foldM (\<lambda>v (fid, fval).
       if fid = 0 then
         if wire_api.Type W fval = TStruct
         then and_then (ListOpenWorkflowExecutionsResponse_Read W fval) (\<lambda>x. Inr
             (v\<lparr>WorkflowService_ListOpenWorkflowExecutions_Result.Success := Some x\<rparr>))
         else Inr v
       else if fid = 1 then
         if wire_api.Type W fval = TStruct
         then and_then (BadRequestError_Read W fval) (\<lambda>x. Inr
             (v\<lparr>WorkflowService_ListOpenWorkflowExecutions_Result.BadRequestError := Some x\<rparr>))
         else Inr v
       else if fid = 2 then
         if wire_api.Type W fval = TStruct
         then and_then (InternalServiceError_Read W fval) (\<lambda>x. Inr
             (v\<lparr>WorkflowService_ListOpenWorkflowExecutions_Result.InternalServiceError := Some x\<rparr>))
         else Inr v
       else if fid = 3 then
         if wire_api.Type W fval = TStruct
         then and_then (EntityNotExistsError_Read W fval) (\<lambda>x. Inr
             (v\<lparr>WorkflowService_ListOpenWorkflowExecutions_Result.EntityNotExistError := Some x\<rparr>))
         else Inr v
       else if fid = 4 then
         if wire_api.Type W fval = TStruct
         then and_then (ServiceBusyError_Read W fval) (\<lambda>x. Inr
             (v\<lparr>WorkflowService_ListOpenWorkflowExecutions_Result.ServiceBusyError := Some x\<rparr>))
         else Inr v
       else if fid = 5 then
         if wire_api.Type W fval = TStruct
         then and_then (LimitExceededError_Read W fval) (\<lambda>x. Inr
             (v\<lparr>WorkflowService_ListOpenWorkflowExecutions_Result.LimitExceededError := Some x\<rparr>))
         else Inr v
       else if fid = 6 then
         if wire_api.Type W fval = TStruct
         then and_then (ClientVersionNotSupportedError_Read W fval) (\<lambda>x. Inr
             (v\<lparr>WorkflowService_ListOpenWorkflowExecutions_Result.ClientVersionNotSupportedError :=
             Some x\<rparr>))
         else Inr v
       else Inr v) (GetStruct W w) v) (\<lambda>v.
     let count = WorkflowService_ListOpenWorkflowExecutions_Result_count v in
     if count \<noteq> 1
     then Inl (E_Errorf
         ''WorkflowService_ListOpenWorkflowExecutions_Result should have exactly one field: got %v fields'' count)
     else Inr v)"

definition WorkflowService_ListOpenWorkflowExecutions_Result_enveloper ::
  "'v wire_api \<Rightarrow> WorkflowService_ListOpenWorkflowExecutions_Result \<Rightarrow> 'v enveloper" where
  "WorkflowService_ListOpenWorkflowExecutions_Result_enveloper W v =
     \<lparr>MethodName = ''ListOpenWorkflowExecutions'', EnvelopeType = Reply, EnvelopeToWire =
         WorkflowService_ListOpenWorkflowExecutions_Result_ToWire W v\<rparr>"

definition WorkflowService_ListOpenWorkflowExecutions_Result_Equals ::
  "WorkflowService_ListOpenWorkflowExecutions_Result option \<Rightarrow>
      WorkflowService_ListOpenWorkflowExecutions_Result option \<Rightarrow> bool" where
  "WorkflowService_ListOpenWorkflowExecutions_Result_Equals v rhs =
     (case v of None \<Rightarrow> rhs = None
      | Some v \<Rightarrow> (case rhs of None \<Rightarrow> False
        | Some rhs \<Rightarrow>
          if \<not> both_set_and (\<lambda>x y. ListOpenWorkflowExecutionsResponse_Equals (Some x) (Some y))
              (WorkflowService_ListOpenWorkflowExecutions_Result.Success v)
              (WorkflowService_ListOpenWorkflowExecutions_Result.Success rhs) then False else
          if \<not> both_set_and (\<lambda>x y. BadRequestError_Equals (Some x) (Some y))
              (WorkflowService_ListOpenWorkflowExecutions_Result.BadRequestError v)
              (WorkflowService_ListOpenWorkflowExecutions_Result.BadRequestError rhs) then False
              else
          if \<not> both_set_and (\<lambda>x y. InternalServiceError_Equals (Some x) (Some y))
              (WorkflowService_ListOpenWorkflowExecutions_Result.InternalServiceError v)
              (WorkflowService_ListOpenWorkflowExecutions_Result.InternalServiceError rhs) then
              False else
          if \<not> both_set_and (\<lambda>x y. EntityNotExistsError_Equals (Some x) (Some y))
              (WorkflowService_ListOpenWorkflowExecutions_Result.EntityNotExistError v)
              (WorkflowService_ListOpenWorkflowExecutions_Result.EntityNotExistError rhs) then False
              else
          if \<not> both_set_and (\<lambda>x y. ServiceBusyError_Equals (Some x) (Some y))
              (WorkflowService_ListOpenWorkflowExecutions_Result.ServiceBusyError v)
              (WorkflowService_ListOpenWorkflowExecutions_Result.ServiceBusyError rhs) then False
              else
          if \<not> both_set_and (\<lambda>x y. LimitExceededError_Equals (Some x) (Some y))
              (WorkflowService_ListOpenWorkflowExecutions_Result.LimitExceededError v)
              (WorkflowService_ListOpenWorkflowExecutions_Result.LimitExceededError rhs) then False
              else
          if \<not> both_set_and (\<lambda>x y. ClientVersionNotSupportedError_Equals (Some x) (Some y))
              (WorkflowService_ListOpenWorkflowExecutions_Result.ClientVersionNotSupportedError v)
              (WorkflowService_ListOpenWorkflowExecutions_Result.ClientVersionNotSupportedError rhs)
              then False else
          True))"

definition WorkflowService_ListOpenWorkflowExecutions_Result_comparable ::
    "WorkflowService_ListOpenWorkflowExecutions_Result \<Rightarrow> bool" where
  "WorkflowService_ListOpenWorkflowExecutions_Result_comparable v \<longleftrightarrow>
     if_set ListOpenWorkflowExecutionsResponse_comparable
         (WorkflowService_ListOpenWorkflowExecutions_Result.Success v)"

lemma WorkflowService_ListOpenWorkflowExecutions_Result_Equals_iff:
  "if_set WorkflowService_ListOpenWorkflowExecutions_Result_comparable x \<Longrightarrow> if_set
      WorkflowService_ListOpenWorkflowExecutions_Result_comparable y \<Longrightarrow>
      WorkflowService_ListOpenWorkflowExecutions_Result_Equals x y \<longleftrightarrow> x = y"
  by (cases x; cases y) (simp_all add: WorkflowService_ListOpenWorkflowExecutions_Result_Equals_def
      WorkflowService_ListOpenWorkflowExecutions_Result_comparable_def if_not_False,
    fastforce intro: WorkflowService_ListOpenWorkflowExecutions_Result.equality)

lemma WorkflowService_ListOpenWorkflowExecutions_Result_fields_equal [simp]:
  "if_set WorkflowService_ListOpenWorkflowExecutions_Result_comparable x \<Longrightarrow> if_set
      WorkflowService_ListOpenWorkflowExecutions_Result_comparable y \<Longrightarrow>
    both_set_and (\<lambda>x y. WorkflowService_ListOpenWorkflowExecutions_Result_Equals (Some x) (Some y))
        x y \<longleftrightarrow> x = y"
  by (rule both_set_and_iff [where P =
      WorkflowService_ListOpenWorkflowExecutions_Result_comparable]) (simp_all add:
      WorkflowService_ListOpenWorkflowExecutions_Result_Equals_iff)

definition WorkflowService_ListOpenWorkflowExecutions_Helper_Args ::
    "ListOpenWorkflowExecutionsRequest option \<Rightarrow> WorkflowService_ListOpenWorkflowExecutions_Args"
    where
  "WorkflowService_ListOpenWorkflowExecutions_Helper_Args r =
      \<lparr>WorkflowService_ListOpenWorkflowExecutions_Args.ListRequest = r\<rparr>"

definition WorkflowService_ListOpenWorkflowExecutions_Helper_IsException :: "go_error \<Rightarrow> bool" where
  "WorkflowService_ListOpenWorkflowExecutions_Helper_IsException err =
     (case err of
        E_BadRequestError _ \<Rightarrow> True
      | E_InternalServiceError _ \<Rightarrow> True
      | E_EntityNotExistsError _ \<Rightarrow> True
      | E_ServiceBusyError _ \<Rightarrow> True
      | E_LimitExceededError _ \<Rightarrow> True
      | E_ClientVersionNotSupportedError _ \<Rightarrow> True
      | _ \<Rightarrow> False)"

definition WorkflowService_ListOpenWorkflowExecutions_Helper_WrapResponse ::
  "ListOpenWorkflowExecutionsResponse option \<Rightarrow> go_error option \<Rightarrow> go_error +
      WorkflowService_ListOpenWorkflowExecutions_Result" where
  "WorkflowService_ListOpenWorkflowExecutions_Helper_WrapResponse success err =
     (case err of None \<Rightarrow> Inr
         (WorkflowService_ListOpenWorkflowExecutions_Result_zero\<lparr>WorkflowService_ListOpenWorkflowExecutions_Result.Success := success\<rparr>)
      | Some err \<Rightarrow> (case err of
          E_BadRequestError e \<Rightarrow> (case e of
              None \<Rightarrow> Inl (E_New
                  ''WrapResponse received non-nil error type with nil value for WorkflowService_ListOpenWorkflowExecutions_Result.BadRequestError'')
            | Some e \<Rightarrow> Inr
                (WorkflowService_ListOpenWorkflowExecutions_Result_zero\<lparr>WorkflowService_ListOpenWorkflowExecutions_Result.BadRequestError := Some e\<rparr>))
        | E_InternalServiceError e \<Rightarrow> (case e of
              None \<Rightarrow> Inl (E_New
                  ''WrapResponse received non-nil error type with nil value for WorkflowService_ListOpenWorkflowExecutions_Result.InternalServiceError'')
            | Some e \<Rightarrow> Inr
                (WorkflowService_ListOpenWorkflowExecutions_Result_zero\<lparr>WorkflowService_ListOpenWorkflowExecutions_Result.InternalServiceError := Some e\<rparr>))
        | E_EntityNotExistsError e \<Rightarrow> (case e of
              None \<Rightarrow> Inl (E_New
                  ''WrapResponse received non-nil error type with nil value for WorkflowService_ListOpenWorkflowExecutions_Result.EntityNotExistError'')
            | Some e \<Rightarrow> Inr
                (WorkflowService_ListOpenWorkflowExecutions_Result_zero\<lparr>WorkflowService_ListOpenWorkflowExecutions_Result.EntityNotExistError := Some e\<rparr>))
        | E_ServiceBusyError e \<Rightarrow> (case e of
              None \<Rightarrow> Inl (E_New
                  ''WrapResponse received non-nil error type with nil value for WorkflowService_ListOpenWorkflowExecutions_Result.ServiceBusyError'')
            | Some e \<Rightarrow> Inr
                (WorkflowService_ListOpenWorkflowExecutions_Result_zero\<lparr>WorkflowService_ListOpenWorkflowExecutions_Result.ServiceBusyError := Some e\<rparr>))
        | E_LimitExceededError e \<Rightarrow> (case e of
              None \<Rightarrow> Inl (E_New
                  ''WrapResponse received non-nil error type with nil value for WorkflowService_ListOpenWorkflowExecutions_Result.LimitExceededError'')
            | Some e \<Rightarrow> Inr
                (WorkflowService_ListOpenWorkflowExecutions_Result_zero\<lparr>WorkflowService_ListOpenWorkflowExecutions_Result.LimitExceededError := Some e\<rparr>))
        | E_ClientVersionNotSupportedError e \<Rightarrow> (case e of
              None \<Rightarrow> Inl (E_New
                  ''WrapResponse received non-nil error type with nil value for WorkflowService_ListOpenWorkflowExecutions_Result.ClientVersionNotSupportedError'')
            | Some e \<Rightarrow> Inr
                (WorkflowService_ListOpenWorkflowExecutions_Result_zero\<lparr>WorkflowService_ListOpenWorkflowExecutions_Result.ClientVersionNotSupportedError := Some e\<rparr>))
        | _ \<Rightarrow> Inl err))"

definition WorkflowService_ListOpenWorkflowExecutions_Helper_UnwrapResponse ::
  "WorkflowService_ListOpenWorkflowExecutions_Result \<Rightarrow> ListOpenWorkflowExecutionsResponse option \<times>
      go_error option" where
  "WorkflowService_ListOpenWorkflowExecutions_Helper_UnwrapResponse result =
    (if WorkflowService_ListOpenWorkflowExecutions_Result.BadRequestError result \<noteq> None then (None,
        Some (E_BadRequestError (WorkflowService_ListOpenWorkflowExecutions_Result.BadRequestError
        result))) else
     if WorkflowService_ListOpenWorkflowExecutions_Result.InternalServiceError result \<noteq> None then
         (None, Some (E_InternalServiceError
         (WorkflowService_ListOpenWorkflowExecutions_Result.InternalServiceError result))) else
     if WorkflowService_ListOpenWorkflowExecutions_Result.EntityNotExistError result \<noteq> None then
         (None, Some (E_EntityNotExistsError
         (WorkflowService_ListOpenWorkflowExecutions_Result.EntityNotExistError result))) else
     if WorkflowService_ListOpenWorkflowExecutions_Result.ServiceBusyError result \<noteq> None then (None,
         Some (E_ServiceBusyError
         (WorkflowService_ListOpenWorkflowExecutions_Result.ServiceBusyError result))) else
     if WorkflowService_ListOpenWorkflowExecutions_Result.LimitExceededError result \<noteq> None then
         (None, Some (E_LimitExceededError
         (WorkflowService_ListOpenWorkflowExecutions_Result.LimitExceededError result))) else
     if WorkflowService_ListOpenWorkflowExecutions_Result.ClientVersionNotSupportedError result \<noteq>
         None then (None, Some (E_ClientVersionNotSupportedError
         (WorkflowService_ListOpenWorkflowExecutions_Result.ClientVersionNotSupportedError result)))
         else
     if WorkflowService_ListOpenWorkflowExecutions_Result.Success result \<noteq> None then
         (WorkflowService_ListOpenWorkflowExecutions_Result.Success result, None) else
     (None, Some (E_New ''expected a non-void result'')))"

definition handler_ListOpenWorkflowExecutions ::
  "'v wire_api \<Rightarrow> ('ctx \<Rightarrow> ListOpenWorkflowExecutionsRequest option \<Rightarrow>
      ListOpenWorkflowExecutionsResponse option \<times> go_error option) \<Rightarrow>
   ('ctx, 'v) unary_handler" where
  "handler_ListOpenWorkflowExecutions W impl ctx body =
     (case WorkflowService_ListOpenWorkflowExecutions_Args_FromWire W body
         WorkflowService_ListOpenWorkflowExecutions_Args_zero of
      Inl err \<Rightarrow> (no_response, Some err)
    | Inr args \<Rightarrow>
      let (success, err) = impl ctx (WorkflowService_ListOpenWorkflowExecutions_Args.ListRequest
          args);
          hadError = (err \<noteq> None)
      in case WorkflowService_ListOpenWorkflowExecutions_Helper_WrapResponse success err of
           Inl err \<Rightarrow> (no_response, Some err)
         | Inr result \<Rightarrow>
             (\<lparr>Body = Some (WorkflowService_ListOpenWorkflowExecutions_Result_enveloper W result),
               IsApplicationError = hadError\<rparr>, None))"

definition client_ListOpenWorkflowExecutions ::
  "'v wire_api \<Rightarrow> ('ctx, 'v) thrift_client \<Rightarrow> 'ctx \<Rightarrow> ListOpenWorkflowExecutionsRequest option \<Rightarrow>
   ListOpenWorkflowExecutionsResponse option \<times> go_error option" where
  "client_ListOpenWorkflowExecutions W call ctx r =
     (let args = WorkflowService_ListOpenWorkflowExecutions_Helper_Args r in
      case call ctx (WorkflowService_ListOpenWorkflowExecutions_Args_enveloper W args) of
        Inl e \<Rightarrow> (None, Some e)
      | Inr body \<Rightarrow>
          (case WorkflowService_ListOpenWorkflowExecutions_Result_FromWire W body
              WorkflowService_ListOpenWorkflowExecutions_Result_zero of
             Inl e \<Rightarrow> (None, Some e)
           | Inr result \<Rightarrow> WorkflowService_ListOpenWorkflowExecutions_Helper_UnwrapResponse result))"

lemma WorkflowService_ListOpenWorkflowExecutions_Args_merge:
  "(case x of None \<Rightarrow> Inr \<lparr>WorkflowService_ListOpenWorkflowExecutions_Args.ListRequest = a0\<rparr> | Some y
      \<Rightarrow> Inr \<lparr>WorkflowService_ListOpenWorkflowExecutions_Args.ListRequest = b0 y\<rparr>) =
   Inr \<lparr>WorkflowService_ListOpenWorkflowExecutions_Args.ListRequest = (case x of None \<Rightarrow> a0 | Some y
       \<Rightarrow> b0 y)\<rparr>"
  by (cases x) simp_all

interpretation WorkflowService_ListOpenWorkflowExecutions_Args: thrift_struct W
  "WorkflowService_ListOpenWorkflowExecutions_Args_ToWire W"
      "WorkflowService_ListOpenWorkflowExecutions_Args_FromWire W"
  WorkflowService_ListOpenWorkflowExecutions_Args_zero "\<lambda>x. True" for W
proof (rule thrift_structI)
  fix x :: WorkflowService_ListOpenWorkflowExecutions_Args
  assume laws: "wire_laws W"
  obtain enc0 where e0: "ListOpenWorkflowExecutionsRequest_ToWire W = (\<lambda>x. Inr (enc0 x))"
      "\<And>x. wire_api.Type W (enc0 x) = TStruct"
      "\<And>x. Writable W (enc0 x) \<longleftrightarrow> (\<lambda>_. True) x"
      "\<And>x. (\<lambda>_. True) x \<Longrightarrow> ListOpenWorkflowExecutionsRequest_FromWire W (enc0 x)
          ListOpenWorkflowExecutionsRequest_zero = Inr x"
    by (rule ListOpenWorkflowExecutionsRequest.encoder [OF laws]) (rule that)
  show "\<exists>w. WorkflowService_ListOpenWorkflowExecutions_Args_ToWire W x = Inr w \<and> wire_api.Type W w =
      TStruct \<and>
      (Writable W w \<longleftrightarrow> True) \<and> (True \<longrightarrow> WorkflowService_ListOpenWorkflowExecutions_Args_FromWire W w
          WorkflowService_ListOpenWorkflowExecutions_Args_zero = Inr x)"
    by (cases x) (simp cong: option.case_cong add: codec_rules
        WorkflowService_ListOpenWorkflowExecutions_Args_merge
        WorkflowService_ListOpenWorkflowExecutions_Args_ToWire_def
        WorkflowService_ListOpenWorkflowExecutions_Args_FromWire_def
      WorkflowService_ListOpenWorkflowExecutions_Args_zero_def
          ListOpenWorkflowExecutionsRequest_Read_def if_set_def laws e0)
qed

lemma WorkflowService_ListOpenWorkflowExecutions_Result_merge:
  "(case x of None \<Rightarrow> Inr \<lparr>WorkflowService_ListOpenWorkflowExecutions_Result.Success = a0,
      WorkflowService_ListOpenWorkflowExecutions_Result.BadRequestError = a1,
      WorkflowService_ListOpenWorkflowExecutions_Result.InternalServiceError = a2,
      WorkflowService_ListOpenWorkflowExecutions_Result.EntityNotExistError = a3,
      WorkflowService_ListOpenWorkflowExecutions_Result.ServiceBusyError = a4,
      WorkflowService_ListOpenWorkflowExecutions_Result.LimitExceededError = a5,
      WorkflowService_ListOpenWorkflowExecutions_Result.ClientVersionNotSupportedError = a6\<rparr> | Some
      y \<Rightarrow> Inr \<lparr>WorkflowService_ListOpenWorkflowExecutions_Result.Success = b0 y,
      WorkflowService_ListOpenWorkflowExecutions_Result.BadRequestError = b1 y,
      WorkflowService_ListOpenWorkflowExecutions_Result.InternalServiceError = b2 y,
      WorkflowService_ListOpenWorkflowExecutions_Result.EntityNotExistError = b3 y,
      WorkflowService_ListOpenWorkflowExecutions_Result.ServiceBusyError = b4 y,
      WorkflowService_ListOpenWorkflowExecutions_Result.LimitExceededError = b5 y,
      WorkflowService_ListOpenWorkflowExecutions_Result.ClientVersionNotSupportedError = b6 y\<rparr>) =
   Inr \<lparr>WorkflowService_ListOpenWorkflowExecutions_Result.Success = (case x of None \<Rightarrow> a0 | Some y \<Rightarrow>
       b0 y), WorkflowService_ListOpenWorkflowExecutions_Result.BadRequestError = (case x of None \<Rightarrow>
       a1 | Some y \<Rightarrow> b1 y), WorkflowService_ListOpenWorkflowExecutions_Result.InternalServiceError =
       (case x of None \<Rightarrow> a2 | Some y \<Rightarrow> b2 y),
       WorkflowService_ListOpenWorkflowExecutions_Result.EntityNotExistError = (case x of None \<Rightarrow> a3
       | Some y \<Rightarrow> b3 y), WorkflowService_ListOpenWorkflowExecutions_Result.ServiceBusyError = (case
       x of None \<Rightarrow> a4 | Some y \<Rightarrow> b4 y),
       WorkflowService_ListOpenWorkflowExecutions_Result.LimitExceededError = (case x of None \<Rightarrow> a5 |
       Some y \<Rightarrow> b5 y),
       WorkflowService_ListOpenWorkflowExecutions_Result.ClientVersionNotSupportedError = (case x of
       None \<Rightarrow> a6 | Some y \<Rightarrow> b6 y)\<rparr>"
  by (cases x) simp_all

interpretation WorkflowService_ListOpenWorkflowExecutions_Result: thrift_struct W
  "WorkflowService_ListOpenWorkflowExecutions_Result_ToWire W"
      "WorkflowService_ListOpenWorkflowExecutions_Result_FromWire W"
  WorkflowService_ListOpenWorkflowExecutions_Result_zero "\<lambda>r.
      WorkflowService_ListOpenWorkflowExecutions_Result_count r = 1 \<and> if_set
      ListOpenWorkflowExecutionsResponse_complete
      (WorkflowService_ListOpenWorkflowExecutions_Result.Success r)" for W
proof (rule thrift_checkedI)
  fix x :: WorkflowService_ListOpenWorkflowExecutions_Result
  assume laws: "wire_laws W"
  obtain enc0 where e0: "ListOpenWorkflowExecutionsResponse_ToWire W = (\<lambda>x. Inr (enc0 x))"
      "\<And>x. wire_api.Type W (enc0 x) = TStruct"
      "\<And>x. Writable W (enc0 x) \<longleftrightarrow> ListOpenWorkflowExecutionsResponse_complete x"
      "\<And>x. ListOpenWorkflowExecutionsResponse_complete x \<Longrightarrow>
          ListOpenWorkflowExecutionsResponse_FromWire W (enc0 x)
          ListOpenWorkflowExecutionsResponse_zero = Inr x"
    by (rule ListOpenWorkflowExecutionsResponse.encoder [OF laws]) (rule that)
  obtain enc1 where e1: "BadRequestError_ToWire W = (\<lambda>x. Inr (enc1 x))"
      "\<And>x. wire_api.Type W (enc1 x) = TStruct"
      "\<And>x. Writable W (enc1 x) \<longleftrightarrow> (\<lambda>_. True) x"
      "\<And>x. (\<lambda>_. True) x \<Longrightarrow> BadRequestError_FromWire W (enc1 x) BadRequestError_zero = Inr x"
    by (rule BadRequestError.encoder [OF laws]) (rule that)
  obtain enc2 where e2: "InternalServiceError_ToWire W = (\<lambda>x. Inr (enc2 x))"
      "\<And>x. wire_api.Type W (enc2 x) = TStruct"
      "\<And>x. Writable W (enc2 x) \<longleftrightarrow> (\<lambda>_. True) x"
      "\<And>x. (\<lambda>_. True) x \<Longrightarrow> InternalServiceError_FromWire W (enc2 x) InternalServiceError_zero = Inr
          x"
    by (rule InternalServiceError.encoder [OF laws]) (rule that)
  obtain enc3 where e3: "EntityNotExistsError_ToWire W = (\<lambda>x. Inr (enc3 x))"
      "\<And>x. wire_api.Type W (enc3 x) = TStruct"
      "\<And>x. Writable W (enc3 x) \<longleftrightarrow> (\<lambda>_. True) x"
      "\<And>x. (\<lambda>_. True) x \<Longrightarrow> EntityNotExistsError_FromWire W (enc3 x) EntityNotExistsError_zero = Inr
          x"
    by (rule EntityNotExistsError.encoder [OF laws]) (rule that)
  obtain enc4 where e4: "ServiceBusyError_ToWire W = (\<lambda>x. Inr (enc4 x))"
      "\<And>x. wire_api.Type W (enc4 x) = TStruct"
      "\<And>x. Writable W (enc4 x) \<longleftrightarrow> (\<lambda>_. True) x"
      "\<And>x. (\<lambda>_. True) x \<Longrightarrow> ServiceBusyError_FromWire W (enc4 x) ServiceBusyError_zero = Inr x"
    by (rule ServiceBusyError.encoder [OF laws]) (rule that)
  obtain enc5 where e5: "LimitExceededError_ToWire W = (\<lambda>x. Inr (enc5 x))"
      "\<And>x. wire_api.Type W (enc5 x) = TStruct"
      "\<And>x. Writable W (enc5 x) \<longleftrightarrow> (\<lambda>_. True) x"
      "\<And>x. (\<lambda>_. True) x \<Longrightarrow> LimitExceededError_FromWire W (enc5 x) LimitExceededError_zero = Inr x"
    by (rule LimitExceededError.encoder [OF laws]) (rule that)
  obtain enc6 where e6: "ClientVersionNotSupportedError_ToWire W = (\<lambda>x. Inr (enc6 x))"
      "\<And>x. wire_api.Type W (enc6 x) = TStruct"
      "\<And>x. Writable W (enc6 x) \<longleftrightarrow> (\<lambda>_. True) x"
      "\<And>x. (\<lambda>_. True) x \<Longrightarrow> ClientVersionNotSupportedError_FromWire W (enc6 x)
          ClientVersionNotSupportedError_zero = Inr x"
    by (rule ClientVersionNotSupportedError.encoder [OF laws]) (rule that)
  let ?fs = "(((((opt_field 0 enc0 (WorkflowService_ListOpenWorkflowExecutions_Result.Success x) @
      opt_field 1 enc1 (WorkflowService_ListOpenWorkflowExecutions_Result.BadRequestError x)) @
      opt_field 2 enc2 (WorkflowService_ListOpenWorkflowExecutions_Result.InternalServiceError x)) @
      opt_field 3 enc3 (WorkflowService_ListOpenWorkflowExecutions_Result.EntityNotExistError x)) @
      opt_field 4 enc4 (WorkflowService_ListOpenWorkflowExecutions_Result.ServiceBusyError x)) @
      opt_field 5 enc5 (WorkflowService_ListOpenWorkflowExecutions_Result.LimitExceededError x)) @
      opt_field 6 enc6
          (WorkflowService_ListOpenWorkflowExecutions_Result.ClientVersionNotSupportedError x)"
  let ?check = "\<lambda>r. if WorkflowService_ListOpenWorkflowExecutions_Result_count x \<noteq> 1 then Inl
      (E_Errorf
      ''WorkflowService_ListOpenWorkflowExecutions_Result should have exactly one field: got %v fields'' (WorkflowService_ListOpenWorkflowExecutions_Result_count x)) else Inr r"
  have "length ?fs = WorkflowService_ListOpenWorkflowExecutions_Result_count x"
    by (simp add: WorkflowService_ListOpenWorkflowExecutions_Result_count_def length_opt_field split
        del: if_split)
  then have "WorkflowService_ListOpenWorkflowExecutions_Result_ToWire W x = ?check (NewValueStruct W
      ?fs)"
    by (simp only: WorkflowService_ListOpenWorkflowExecutions_Result_ToWire_def put_opt_field
        and_then.simps append_Nil e0(1) e1(1) e2(1) e3(1) e4(1) e5(1) e6(1))
  moreover have "WorkflowService_ListOpenWorkflowExecutions_Result_FromWire W (NewValueStruct W ?fs)
      WorkflowService_ListOpenWorkflowExecutions_Result_zero = ?check x"
    if "if_set ListOpenWorkflowExecutionsResponse_complete
        (WorkflowService_ListOpenWorkflowExecutions_Result.Success x)"
    by (cases x, hypsubst) (simp cong: option.case_cong split del: if_split add: codec_rules Let_def
        WorkflowService_ListOpenWorkflowExecutions_Result_merge
      WorkflowService_ListOpenWorkflowExecutions_Result_FromWire_def
          WorkflowService_ListOpenWorkflowExecutions_Result_zero_def laws if_set_def that [unfolded
          if_set_def]
      BadRequestError_Read_def
      ClientVersionNotSupportedError_Read_def
      EntityNotExistsError_Read_def
      InternalServiceError_Read_def
      LimitExceededError_Read_def
      ListOpenWorkflowExecutionsResponse_Read_def
      ServiceBusyError_Read_def
      e0 e1 e2 e3 e4 e5 e6)
  ultimately show "if WorkflowService_ListOpenWorkflowExecutions_Result_count x = 1
      then \<exists>w. WorkflowService_ListOpenWorkflowExecutions_Result_ToWire W x = Inr w \<and> wire_api.Type
          W w = TStruct \<and>
        (Writable W w \<longleftrightarrow> if_set ListOpenWorkflowExecutionsResponse_complete
            (WorkflowService_ListOpenWorkflowExecutions_Result.Success x)) \<and> (if_set
            ListOpenWorkflowExecutionsResponse_complete
            (WorkflowService_ListOpenWorkflowExecutions_Result.Success x) \<longrightarrow>
            WorkflowService_ListOpenWorkflowExecutions_Result_FromWire W w
            WorkflowService_ListOpenWorkflowExecutions_Result_zero = Inr x)
      else \<exists>e. WorkflowService_ListOpenWorkflowExecutions_Result_ToWire W x = Inl e"
    by (simp add: laws codec_rules e0 e1 e2 e3 e4 e5 e6)
qed

interpretation ListOpenWorkflowExecutions: rpc_method W
  "WorkflowService_ListOpenWorkflowExecutions_Args_ToWire W"
      "WorkflowService_ListOpenWorkflowExecutions_Args_FromWire W"
      WorkflowService_ListOpenWorkflowExecutions_Args_zero "\<lambda>x. True"
  "WorkflowService_ListOpenWorkflowExecutions_Result_ToWire W"
      "WorkflowService_ListOpenWorkflowExecutions_Result_FromWire W"
      WorkflowService_ListOpenWorkflowExecutions_Result_zero
  "\<lambda>r. WorkflowService_ListOpenWorkflowExecutions_Result_count r = 1 \<and> if_set
      ListOpenWorkflowExecutionsResponse_complete
      (WorkflowService_ListOpenWorkflowExecutions_Result.Success r)"
      "''ListOpenWorkflowExecutions''"
  WorkflowService_ListOpenWorkflowExecutions_Helper_Args
      "WorkflowService_ListOpenWorkflowExecutions_Args.ListRequest"
  "\<lambda>(success, err). WorkflowService_ListOpenWorkflowExecutions_Helper_WrapResponse success err"
      WorkflowService_ListOpenWorkflowExecutions_Helper_UnwrapResponse
  "\<lambda>out. snd out \<noteq> None" "carried ListOpenWorkflowExecutionsResponse_complete
      WorkflowService_ListOpenWorkflowExecutions_Helper_IsException" error_first "\<lambda>e. (None, Some
      e)"
  "handler_ListOpenWorkflowExecutions W" "client_ListOpenWorkflowExecutions W" for W
proof
  fix out :: "ListOpenWorkflowExecutionsResponse option \<times> go_error option"
  assume "carried ListOpenWorkflowExecutionsResponse_complete
      WorkflowService_ListOpenWorkflowExecutions_Helper_IsException out"
  then show "case (\<lambda>(success, err). WorkflowService_ListOpenWorkflowExecutions_Helper_WrapResponse
      success err) out of Inl e \<Rightarrow> False
      | Inr res \<Rightarrow> (WorkflowService_ListOpenWorkflowExecutions_Result_count res = 1 \<and> if_set
          ListOpenWorkflowExecutionsResponse_complete
          (WorkflowService_ListOpenWorkflowExecutions_Result.Success res)) \<and>
          WorkflowService_ListOpenWorkflowExecutions_Helper_UnwrapResponse res = error_first out"
    by (cases out; cases "snd out"; cases "the (snd out)")
      (auto simp: WorkflowService_ListOpenWorkflowExecutions_Helper_IsException_def
          WorkflowService_ListOpenWorkflowExecutions_Helper_WrapResponse_def
          WorkflowService_ListOpenWorkflowExecutions_Helper_UnwrapResponse_def
        declared_nonnil_def WorkflowService_ListOpenWorkflowExecutions_Result_zero_def
            WorkflowService_ListOpenWorkflowExecutions_Result_count_def elim!: present.elims)
next
  fix out :: "ListOpenWorkflowExecutionsResponse option \<times> go_error option"
  assume "\<not> carried ListOpenWorkflowExecutionsResponse_complete
      WorkflowService_ListOpenWorkflowExecutions_Helper_IsException out"
  then show "case (\<lambda>(success, err). WorkflowService_ListOpenWorkflowExecutions_Helper_WrapResponse
      success err) out of Inl e \<Rightarrow> True
      | Inr res \<Rightarrow> \<not> (WorkflowService_ListOpenWorkflowExecutions_Result_count res = 1 \<and> if_set
          ListOpenWorkflowExecutionsResponse_complete
          (WorkflowService_ListOpenWorkflowExecutions_Result.Success res))"
    by (cases out; cases "snd out"; cases "the (snd out)")
      (auto simp: WorkflowService_ListOpenWorkflowExecutions_Helper_IsException_def
          WorkflowService_ListOpenWorkflowExecutions_Helper_WrapResponse_def declared_nonnil_def
        WorkflowService_ListOpenWorkflowExecutions_Result_count_def
            WorkflowService_ListOpenWorkflowExecutions_Result_zero_def split: option.splits)
qed (auto simp: WorkflowService_ListOpenWorkflowExecutions_Helper_Args_def
    handler_ListOpenWorkflowExecutions_def client_ListOpenWorkflowExecutions_def
      WorkflowService_ListOpenWorkflowExecutions_Args_enveloper_def
          WorkflowService_ListOpenWorkflowExecutions_Result_enveloper_def
      Let_def split: sum.splits prod.splits)

section \<open>ListClosedWorkflowExecutions\<close>

record WorkflowService_ListClosedWorkflowExecutions_Args =
  ListRequest :: "ListClosedWorkflowExecutionsRequest option"

definition WorkflowService_ListClosedWorkflowExecutions_Args_zero ::
    WorkflowService_ListClosedWorkflowExecutions_Args where
  "WorkflowService_ListClosedWorkflowExecutions_Args_zero =
      \<lparr>WorkflowService_ListClosedWorkflowExecutions_Args.ListRequest = None\<rparr>"

definition WorkflowService_ListClosedWorkflowExecutions_Args_ToWire ::
  "'v wire_api \<Rightarrow> WorkflowService_ListClosedWorkflowExecutions_Args \<Rightarrow> go_error + 'v" where
  "WorkflowService_ListClosedWorkflowExecutions_Args_ToWire W v =
     and_then (put_opt 1 (ListClosedWorkflowExecutionsRequest_ToWire W)
         (WorkflowService_ListClosedWorkflowExecutions_Args.ListRequest v) [])
       (\<lambda>fields.
     Inr (NewValueStruct W fields))"

definition WorkflowService_ListClosedWorkflowExecutions_Args_FromWire ::
  "'v wire_api \<Rightarrow> 'v \<Rightarrow> WorkflowService_ListClosedWorkflowExecutions_Args \<Rightarrow> go_error +
      WorkflowService_ListClosedWorkflowExecutions_Args" where
  "WorkflowService_ListClosedWorkflowExecutions_Args_FromWire W w v =
     foldM (\<lambda>v (fid, fval).
       if fid = 1 then
         if wire_api.Type W fval = TStruct
         then and_then (ListClosedWorkflowExecutionsRequest_Read W fval) (\<lambda>x. Inr
             (v\<lparr>WorkflowService_ListClosedWorkflowExecutions_Args.ListRequest := Some x\<rparr>))
         else Inr v
       else Inr v) (GetStruct W w) v"

definition WorkflowService_ListClosedWorkflowExecutions_Args_enveloper ::
  "'v wire_api \<Rightarrow> WorkflowService_ListClosedWorkflowExecutions_Args \<Rightarrow> 'v enveloper" where
  "WorkflowService_ListClosedWorkflowExecutions_Args_enveloper W v =
     \<lparr>MethodName = ''ListClosedWorkflowExecutions'', EnvelopeType = Call, EnvelopeToWire =
         WorkflowService_ListClosedWorkflowExecutions_Args_ToWire W v\<rparr>"

definition WorkflowService_ListClosedWorkflowExecutions_Args_Equals ::
  "WorkflowService_ListClosedWorkflowExecutions_Args option \<Rightarrow>
      WorkflowService_ListClosedWorkflowExecutions_Args option \<Rightarrow> bool" where
  "WorkflowService_ListClosedWorkflowExecutions_Args_Equals v rhs =
     (case v of None \<Rightarrow> rhs = None
      | Some v \<Rightarrow> (case rhs of None \<Rightarrow> False
        | Some rhs \<Rightarrow>
          if \<not> both_set_and (\<lambda>x y. ListClosedWorkflowExecutionsRequest_Equals (Some x) (Some y))
              (WorkflowService_ListClosedWorkflowExecutions_Args.ListRequest v)
              (WorkflowService_ListClosedWorkflowExecutions_Args.ListRequest rhs) then False else
          True))"

lemma WorkflowService_ListClosedWorkflowExecutions_Args_Equals_iff [simp]:
    "WorkflowService_ListClosedWorkflowExecutions_Args_Equals x y \<longleftrightarrow> x = y"
  by (cases x; cases y) (auto simp: WorkflowService_ListClosedWorkflowExecutions_Args_Equals_def)

record WorkflowService_ListClosedWorkflowExecutions_Result =
  Success :: "ListClosedWorkflowExecutionsResponse option"
  BadRequestError :: "BadRequestError option"
  InternalServiceError :: "InternalServiceError option"
  EntityNotExistError :: "EntityNotExistsError option"
  ServiceBusyError :: "ServiceBusyError option"
  ClientVersionNotSupportedError :: "ClientVersionNotSupportedError option"

definition WorkflowService_ListClosedWorkflowExecutions_Result_count ::
    "WorkflowService_ListClosedWorkflowExecutions_Result \<Rightarrow> nat" where
  "WorkflowService_ListClosedWorkflowExecutions_Result_count v =
     (if WorkflowService_ListClosedWorkflowExecutions_Result.Success v \<noteq> None then 1 else 0) +
     (if WorkflowService_ListClosedWorkflowExecutions_Result.BadRequestError v \<noteq> None then 1 else 0)
         +
     (if WorkflowService_ListClosedWorkflowExecutions_Result.InternalServiceError v \<noteq> None then 1
         else 0) +
     (if WorkflowService_ListClosedWorkflowExecutions_Result.EntityNotExistError v \<noteq> None then 1
         else 0) +
     (if WorkflowService_ListClosedWorkflowExecutions_Result.ServiceBusyError v \<noteq> None then 1 else
         0) +
     (if WorkflowService_ListClosedWorkflowExecutions_Result.ClientVersionNotSupportedError v \<noteq> None
         then 1 else 0)"

definition WorkflowService_ListClosedWorkflowExecutions_Result_zero ::
    WorkflowService_ListClosedWorkflowExecutions_Result where
  "WorkflowService_ListClosedWorkflowExecutions_Result_zero =
      \<lparr>WorkflowService_ListClosedWorkflowExecutions_Result.Success = None,
      WorkflowService_ListClosedWorkflowExecutions_Result.BadRequestError = None,
      WorkflowService_ListClosedWorkflowExecutions_Result.InternalServiceError = None,
      WorkflowService_ListClosedWorkflowExecutions_Result.EntityNotExistError = None,
      WorkflowService_ListClosedWorkflowExecutions_Result.ServiceBusyError = None,
      WorkflowService_ListClosedWorkflowExecutions_Result.ClientVersionNotSupportedError = None\<rparr>"

definition WorkflowService_ListClosedWorkflowExecutions_Result_ToWire ::
  "'v wire_api \<Rightarrow> WorkflowService_ListClosedWorkflowExecutions_Result \<Rightarrow> go_error + 'v" where
  "WorkflowService_ListClosedWorkflowExecutions_Result_ToWire W v =
     and_then (put_opt 0 (ListClosedWorkflowExecutionsResponse_ToWire W)
         (WorkflowService_ListClosedWorkflowExecutions_Result.Success v) [])
       (\<lambda>fields.
     and_then (put_opt 1 (BadRequestError_ToWire W)
         (WorkflowService_ListClosedWorkflowExecutions_Result.BadRequestError v) fields)
       (\<lambda>fields.
     and_then (put_opt 2 (InternalServiceError_ToWire W)
         (WorkflowService_ListClosedWorkflowExecutions_Result.InternalServiceError v) fields)
       (\<lambda>fields.
     and_then (put_opt 3 (EntityNotExistsError_ToWire W)
         (WorkflowService_ListClosedWorkflowExecutions_Result.EntityNotExistError v) fields)
       (\<lambda>fields.
     and_then (put_opt 4 (ServiceBusyError_ToWire W)
         (WorkflowService_ListClosedWorkflowExecutions_Result.ServiceBusyError v) fields)
       (\<lambda>fields.
     and_then (put_opt 5 (ClientVersionNotSupportedError_ToWire W)
         (WorkflowService_ListClosedWorkflowExecutions_Result.ClientVersionNotSupportedError v)
         fields)
       (\<lambda>fields.
     if length fields \<noteq> 1
     then Inl (E_Errorf
         ''WorkflowService_ListClosedWorkflowExecutions_Result should have exactly one field: got %v fields'' (length fields))
     else Inr (NewValueStruct W fields)))))))"

definition WorkflowService_ListClosedWorkflowExecutions_Result_FromWire ::
  "'v wire_api \<Rightarrow> 'v \<Rightarrow> WorkflowService_ListClosedWorkflowExecutions_Result \<Rightarrow> go_error +
      WorkflowService_ListClosedWorkflowExecutions_Result" where
  "WorkflowService_ListClosedWorkflowExecutions_Result_FromWire W w v =
     and_then (foldM (\<lambda>v (fid, fval).
       if fid = 0 then
         if wire_api.Type W fval = TStruct
         then and_then (ListClosedWorkflowExecutionsResponse_Read W fval) (\<lambda>x. Inr
             (v\<lparr>WorkflowService_ListClosedWorkflowExecutions_Result.Success := Some x\<rparr>))
         else Inr v
       else if fid = 1 then
         if wire_api.Type W fval = TStruct
         then and_then (BadRequestError_Read W fval) (\<lambda>x. Inr
             (v\<lparr>WorkflowService_ListClosedWorkflowExecutions_Result.BadRequestError := Some x\<rparr>))
         else Inr v
       else if fid = 2 then
         if wire_api.Type W fval = TStruct
         then and_then (InternalServiceError_Read W fval) (\<lambda>x. Inr
             (v\<lparr>WorkflowService_ListClosedWorkflowExecutions_Result.InternalServiceError := Some
             x\<rparr>))
         else Inr v
       else if fid = 3 then
         if wire_api.Type W fval = TStruct
         then and_then (EntityNotExistsError_Read W fval) (\<lambda>x. Inr
             (v\<lparr>WorkflowService_ListClosedWorkflowExecutions_Result.EntityNotExistError := Some x\<rparr>))
         else Inr v
       else if fid = 4 then
         if wire_api.Type W fval = TStruct
         then and_then (ServiceBusyError_Read W fval) (\<lambda>x. Inr
             (v\<lparr>WorkflowService_ListClosedWorkflowExecutions_Result.ServiceBusyError := Some x\<rparr>))
         else Inr v
       else if fid = 5 then
         if wire_api.Type W fval = TStruct
         then and_then (ClientVersionNotSupportedError_Read W fval) (\<lambda>x. Inr
             (v\<lparr>WorkflowService_ListClosedWorkflowExecutions_Result.ClientVersionNotSupportedError
             := Some x\<rparr>))
         else Inr v
       else Inr v) (GetStruct W w) v) (\<lambda>v.
     let count = WorkflowService_ListClosedWorkflowExecutions_Result_count v in
     if count \<noteq> 1
     then Inl (E_Errorf
         ''WorkflowService_ListClosedWorkflowExecutions_Result should have exactly one field: got %v fields'' count)
     else Inr v)"

definition WorkflowService_ListClosedWorkflowExecutions_Result_enveloper ::
  "'v wire_api \<Rightarrow> WorkflowService_ListClosedWorkflowExecutions_Result \<Rightarrow> 'v enveloper" where
  "WorkflowService_ListClosedWorkflowExecutions_Result_enveloper W v =
     \<lparr>MethodName = ''ListClosedWorkflowExecutions'', EnvelopeType = Reply, EnvelopeToWire =
         WorkflowService_ListClosedWorkflowExecutions_Result_ToWire W v\<rparr>"

definition WorkflowService_ListClosedWorkflowExecutions_Result_Equals ::
  "WorkflowService_ListClosedWorkflowExecutions_Result option \<Rightarrow>
      WorkflowService_ListClosedWorkflowExecutions_Result option \<Rightarrow> bool" where
  "WorkflowService_ListClosedWorkflowExecutions_Result_Equals v rhs =
     (case v of None \<Rightarrow> rhs = None
      | Some v \<Rightarrow> (case rhs of None \<Rightarrow> False
        | Some rhs \<Rightarrow>
          if \<not> both_set_and (\<lambda>x y. ListClosedWorkflowExecutionsResponse_Equals (Some x) (Some y))
              (WorkflowService_ListClosedWorkflowExecutions_Result.Success v)
              (WorkflowService_ListClosedWorkflowExecutions_Result.Success rhs) then False else
          if \<not> both_set_and (\<lambda>x y. BadRequestError_Equals (Some x) (Some y))
              (WorkflowService_ListClosedWorkflowExecutions_Result.BadRequestError v)
              (WorkflowService_ListClosedWorkflowExecutions_Result.BadRequestError rhs) then False
              else
          if \<not> both_set_and (\<lambda>x y. InternalServiceError_Equals (Some x) (Some y))
              (WorkflowService_ListClosedWorkflowExecutions_Result.InternalServiceError v)
              (WorkflowService_ListClosedWorkflowExecutions_Result.InternalServiceError rhs) then
              False else
          if \<not> both_set_and (\<lambda>x y. EntityNotExistsError_Equals (Some x) (Some y))
              (WorkflowService_ListClosedWorkflowExecutions_Result.EntityNotExistError v)
              (WorkflowService_ListClosedWorkflowExecutions_Result.EntityNotExistError rhs) then
              False else
          if \<not> both_set_and (\<lambda>x y. ServiceBusyError_Equals (Some x) (Some y))
              (WorkflowService_ListClosedWorkflowExecutions_Result.ServiceBusyError v)
              (WorkflowService_ListClosedWorkflowExecutions_Result.ServiceBusyError rhs) then False
              else
          if \<not> both_set_and (\<lambda>x y. ClientVersionNotSupportedError_Equals (Some x) (Some y))
              (WorkflowService_ListClosedWorkflowExecutions_Result.ClientVersionNotSupportedError v)
              (WorkflowService_ListClosedWorkflowExecutions_Result.ClientVersionNotSupportedError
              rhs) then False else
          True))"

definition WorkflowService_ListClosedWorkflowExecutions_Result_comparable ::
    "WorkflowService_ListClosedWorkflowExecutions_Result \<Rightarrow> bool" where
  "WorkflowService_ListClosedWorkflowExecutions_Result_comparable v \<longleftrightarrow>
     if_set ListClosedWorkflowExecutionsResponse_comparable
         (WorkflowService_ListClosedWorkflowExecutions_Result.Success v)"

lemma WorkflowService_ListClosedWorkflowExecutions_Result_Equals_iff:
  "if_set WorkflowService_ListClosedWorkflowExecutions_Result_comparable x \<Longrightarrow> if_set
      WorkflowService_ListClosedWorkflowExecutions_Result_comparable y \<Longrightarrow>
      WorkflowService_ListClosedWorkflowExecutions_Result_Equals x y \<longleftrightarrow> x = y"
  by (cases x; cases y) (simp_all add:
      WorkflowService_ListClosedWorkflowExecutions_Result_Equals_def
      WorkflowService_ListClosedWorkflowExecutions_Result_comparable_def if_not_False,
    fastforce intro: WorkflowService_ListClosedWorkflowExecutions_Result.equality)

lemma WorkflowService_ListClosedWorkflowExecutions_Result_fields_equal [simp]:
  "if_set WorkflowService_ListClosedWorkflowExecutions_Result_comparable x \<Longrightarrow> if_set
      WorkflowService_ListClosedWorkflowExecutions_Result_comparable y \<Longrightarrow>
    both_set_and (\<lambda>x y. WorkflowService_ListClosedWorkflowExecutions_Result_Equals (Some x) (Some
        y)) x y \<longleftrightarrow> x = y"
  by (rule both_set_and_iff [where P =
      WorkflowService_ListClosedWorkflowExecutions_Result_comparable]) (simp_all add:
      WorkflowService_ListClosedWorkflowExecutions_Result_Equals_iff)

definition WorkflowService_ListClosedWorkflowExecutions_Helper_Args ::
    "ListClosedWorkflowExecutionsRequest option \<Rightarrow> WorkflowService_ListClosedWorkflowExecutions_Args"
    where
  "WorkflowService_ListClosedWorkflowExecutions_Helper_Args r =
      \<lparr>WorkflowService_ListClosedWorkflowExecutions_Args.ListRequest = r\<rparr>"

definition WorkflowService_ListClosedWorkflowExecutions_Helper_IsException :: "go_error \<Rightarrow> bool"
    where
  "WorkflowService_ListClosedWorkflowExecutions_Helper_IsException err =
     (case err of
        E_BadRequestError _ \<Rightarrow> True
      | E_InternalServiceError _ \<Rightarrow> True
      | E_EntityNotExistsError _ \<Rightarrow> True
      | E_ServiceBusyError _ \<Rightarrow> True
      | E_ClientVersionNotSupportedError _ \<Rightarrow> True
      | _ \<Rightarrow> False)"

definition WorkflowService_ListClosedWorkflowExecutions_Helper_WrapResponse ::
  "ListClosedWorkflowExecutionsResponse option \<Rightarrow> go_error option \<Rightarrow> go_error +
      WorkflowService_ListClosedWorkflowExecutions_Result" where
  "WorkflowService_ListClosedWorkflowExecutions_Helper_WrapResponse success err =
     (case err of None \<Rightarrow> Inr
         (WorkflowService_ListClosedWorkflowExecutions_Result_zero\<lparr>WorkflowService_ListClosedWorkflowExecutions_Result.Success := success\<rparr>)
      | Some err \<Rightarrow> (case err of
          E_BadRequestError e \<Rightarrow> (case e of
              None \<Rightarrow> Inl (E_New
                  ''WrapResponse received non-nil error type with nil value for WorkflowService_ListClosedWorkflowExecutions_Result.BadRequestError'')
            | Some e \<Rightarrow> Inr
                (WorkflowService_ListClosedWorkflowExecutions_Result_zero\<lparr>WorkflowService_ListClosedWorkflowExecutions_Result.BadRequestError := Some e\<rparr>))
        | E_InternalServiceError e \<Rightarrow> (case e of
              None \<Rightarrow> Inl (E_New
                  ''WrapResponse received non-nil error type with nil value for WorkflowService_ListClosedWorkflowExecutions_Result.InternalServiceError'')
            | Some e \<Rightarrow> Inr
                (WorkflowService_ListClosedWorkflowExecutions_Result_zero\<lparr>WorkflowService_ListClosedWorkflowExecutions_Result.InternalServiceError := Some e\<rparr>))
        | E_EntityNotExistsError e \<Rightarrow> (case e of
              None \<Rightarrow> Inl (E_New
                  ''WrapResponse received non-nil error type with nil value for WorkflowService_ListClosedWorkflowExecutions_Result.EntityNotExistError'')
            | Some e \<Rightarrow> Inr
                (WorkflowService_ListClosedWorkflowExecutions_Result_zero\<lparr>WorkflowService_ListClosedWorkflowExecutions_Result.EntityNotExistError := Some e\<rparr>))
        | E_ServiceBusyError e \<Rightarrow> (case e of
              None \<Rightarrow> Inl (E_New
                  ''WrapResponse received non-nil error type with nil value for WorkflowService_ListClosedWorkflowExecutions_Result.ServiceBusyError'')
            | Some e \<Rightarrow> Inr
                (WorkflowService_ListClosedWorkflowExecutions_Result_zero\<lparr>WorkflowService_ListClosedWorkflowExecutions_Result.ServiceBusyError := Some e\<rparr>))
        | E_ClientVersionNotSupportedError e \<Rightarrow> (case e of
              None \<Rightarrow> Inl (E_New
                  ''WrapResponse received non-nil error type with nil value for WorkflowService_ListClosedWorkflowExecutions_Result.ClientVersionNotSupportedError'')
            | Some e \<Rightarrow> Inr
                (WorkflowService_ListClosedWorkflowExecutions_Result_zero\<lparr>WorkflowService_ListClosedWorkflowExecutions_Result.ClientVersionNotSupportedError := Some e\<rparr>))
        | _ \<Rightarrow> Inl err))"

definition WorkflowService_ListClosedWorkflowExecutions_Helper_UnwrapResponse ::
  "WorkflowService_ListClosedWorkflowExecutions_Result \<Rightarrow> ListClosedWorkflowExecutionsResponse option
      \<times> go_error option" where
  "WorkflowService_ListClosedWorkflowExecutions_Helper_UnwrapResponse result =
    (if WorkflowService_ListClosedWorkflowExecutions_Result.BadRequestError result \<noteq> None then
        (None, Some (E_BadRequestError
        (WorkflowService_ListClosedWorkflowExecutions_Result.BadRequestError result))) else
     if WorkflowService_ListClosedWorkflowExecutions_Result.InternalServiceError result \<noteq> None then
         (None, Some (E_InternalServiceError
         (WorkflowService_ListClosedWorkflowExecutions_Result.InternalServiceError result))) else
     if WorkflowService_ListClosedWorkflowExecutions_Result.EntityNotExistError result \<noteq> None then
         (None, Some (E_EntityNotExistsError
         (WorkflowService_ListClosedWorkflowExecutions_Result.EntityNotExistError result))) else
     if WorkflowService_ListClosedWorkflowExecutions_Result.ServiceBusyError result \<noteq> None then
         (None, Some (E_ServiceBusyError
         (WorkflowService_ListClosedWorkflowExecutions_Result.ServiceBusyError result))) else
     if WorkflowService_ListClosedWorkflowExecutions_Result.ClientVersionNotSupportedError result \<noteq>
         None then (None, Some (E_ClientVersionNotSupportedError
         (WorkflowService_ListClosedWorkflowExecutions_Result.ClientVersionNotSupportedError
         result))) else
     if WorkflowService_ListClosedWorkflowExecutions_Result.Success result \<noteq> None then
         (WorkflowService_ListClosedWorkflowExecutions_Result.Success result, None) else
     (None, Some (E_New ''expected a non-void result'')))"

definition handler_ListClosedWorkflowExecutions ::
  "'v wire_api \<Rightarrow> ('ctx \<Rightarrow> ListClosedWorkflowExecutionsRequest option \<Rightarrow>
      ListClosedWorkflowExecutionsResponse option \<times> go_error option) \<Rightarrow>
   ('ctx, 'v) unary_handler" where
  "handler_ListClosedWorkflowExecutions W impl ctx body =
     (case WorkflowService_ListClosedWorkflowExecutions_Args_FromWire W body
         WorkflowService_ListClosedWorkflowExecutions_Args_zero of
      Inl err \<Rightarrow> (no_response, Some err)
    | Inr args \<Rightarrow>
      let (success, err) = impl ctx (WorkflowService_ListClosedWorkflowExecutions_Args.ListRequest
          args);
          hadError = (err \<noteq> None)
      in case WorkflowService_ListClosedWorkflowExecutions_Helper_WrapResponse success err of
           Inl err \<Rightarrow> (no_response, Some err)
         | Inr result \<Rightarrow>
             (\<lparr>Body = Some (WorkflowService_ListClosedWorkflowExecutions_Result_enveloper W result),
               IsApplicationError = hadError\<rparr>, None))"

definition client_ListClosedWorkflowExecutions ::
  "'v wire_api \<Rightarrow> ('ctx, 'v) thrift_client \<Rightarrow> 'ctx \<Rightarrow> ListClosedWorkflowExecutionsRequest option \<Rightarrow>
   ListClosedWorkflowExecutionsResponse option \<times> go_error option" where
  "client_ListClosedWorkflowExecutions W call ctx r =
     (let args = WorkflowService_ListClosedWorkflowExecutions_Helper_Args r in
      case call ctx (WorkflowService_ListClosedWorkflowExecutions_Args_enveloper W args) of
        Inl e \<Rightarrow> (None, Some e)
      | Inr body \<Rightarrow>
          (case WorkflowService_ListClosedWorkflowExecutions_Result_FromWire W body
              WorkflowService_ListClosedWorkflowExecutions_Result_zero of
             Inl e \<Rightarrow> (None, Some e)
           | Inr result \<Rightarrow> WorkflowService_ListClosedWorkflowExecutions_Helper_UnwrapResponse
               result))"

lemma WorkflowService_ListClosedWorkflowExecutions_Args_merge:
  "(case x of None \<Rightarrow> Inr \<lparr>WorkflowService_ListClosedWorkflowExecutions_Args.ListRequest = a0\<rparr> | Some
      y \<Rightarrow> Inr \<lparr>WorkflowService_ListClosedWorkflowExecutions_Args.ListRequest = b0 y\<rparr>) =
   Inr \<lparr>WorkflowService_ListClosedWorkflowExecutions_Args.ListRequest = (case x of None \<Rightarrow> a0 | Some
       y \<Rightarrow> b0 y)\<rparr>"
  by (cases x) simp_all

interpretation WorkflowService_ListClosedWorkflowExecutions_Args: thrift_struct W
  "WorkflowService_ListClosedWorkflowExecutions_Args_ToWire W"
      "WorkflowService_ListClosedWorkflowExecutions_Args_FromWire W"
  WorkflowService_ListClosedWorkflowExecutions_Args_zero "\<lambda>x. True" for W
proof (rule thrift_structI)
  fix x :: WorkflowService_ListClosedWorkflowExecutions_Args
  assume laws: "wire_laws W"
  obtain enc0 where e0: "ListClosedWorkflowExecutionsRequest_ToWire W = (\<lambda>x. Inr (enc0 x))"
      "\<And>x. wire_api.Type W (enc0 x) = TStruct"
      "\<And>x. Writable W (enc0 x) \<longleftrightarrow> (\<lambda>_. True) x"
      "\<And>x. (\<lambda>_. True) x \<Longrightarrow> ListClosedWorkflowExecutionsRequest_FromWire W (enc0 x)
          ListClosedWorkflowExecutionsRequest_zero = Inr x"
    by (rule ListClosedWorkflowExecutionsRequest.encoder [OF laws]) (rule that)
  show "\<exists>w. WorkflowService_ListClosedWorkflowExecutions_Args_ToWire W x = Inr w \<and> wire_api.Type W w
      = TStruct \<and>
      (Writable W w \<longleftrightarrow> True) \<and> (True \<longrightarrow> WorkflowService_ListClosedWorkflowExecutions_Args_FromWire W w
          WorkflowService_ListClosedWorkflowExecutions_Args_zero = Inr x)"
    by (cases x) (simp cong: option.case_cong add: codec_rules
        WorkflowService_ListClosedWorkflowExecutions_Args_merge
        WorkflowService_ListClosedWorkflowExecutions_Args_ToWire_def
        WorkflowService_ListClosedWorkflowExecutions_Args_FromWire_def
      WorkflowService_ListClosedWorkflowExecutions_Args_zero_def
          ListClosedWorkflowExecutionsRequest_Read_def if_set_def laws e0)
qed

lemma WorkflowService_ListClosedWorkflowExecutions_Result_merge:
  "(case x of None \<Rightarrow> Inr \<lparr>WorkflowService_ListClosedWorkflowExecutions_Result.Success = a0,
      WorkflowService_ListClosedWorkflowExecutions_Result.BadRequestError = a1,
      WorkflowService_ListClosedWorkflowExecutions_Result.InternalServiceError = a2,
      WorkflowService_ListClosedWorkflowExecutions_Result.EntityNotExistError = a3,
      WorkflowService_ListClosedWorkflowExecutions_Result.ServiceBusyError = a4,
      WorkflowService_ListClosedWorkflowExecutions_Result.ClientVersionNotSupportedError = a5\<rparr> |
      Some y \<Rightarrow> Inr \<lparr>WorkflowService_ListClosedWorkflowExecutions_Result.Success = b0 y,
      WorkflowService_ListClosedWorkflowExecutions_Result.BadRequestError = b1 y,
      WorkflowService_ListClosedWorkflowExecutions_Result.InternalServiceError = b2 y,
      WorkflowService_ListClosedWorkflowExecutions_Result.EntityNotExistError = b3 y,
      WorkflowService_ListClosedWorkflowExecutions_Result.ServiceBusyError = b4 y,
      WorkflowService_ListClosedWorkflowExecutions_Result.ClientVersionNotSupportedError = b5 y\<rparr>) =
   Inr \<lparr>WorkflowService_ListClosedWorkflowExecutions_Result.Success = (case x of None \<Rightarrow> a0 | Some y
       \<Rightarrow> b0 y), WorkflowService_ListClosedWorkflowExecutions_Result.BadRequestError = (case x of
       None \<Rightarrow> a1 | Some y \<Rightarrow> b1 y),
       WorkflowService_ListClosedWorkflowExecutions_Result.InternalServiceError = (case x of None \<Rightarrow>
       a2 | Some y \<Rightarrow> b2 y), WorkflowService_ListClosedWorkflowExecutions_Result.EntityNotExistError
       = (case x of None \<Rightarrow> a3 | Some y \<Rightarrow> b3 y),
       WorkflowService_ListClosedWorkflowExecutions_Result.ServiceBusyError = (case x of None \<Rightarrow> a4 |
       Some y \<Rightarrow> b4 y),
       WorkflowService_ListClosedWorkflowExecutions_Result.ClientVersionNotSupportedError = (case x
       of None \<Rightarrow> a5 | Some y \<Rightarrow> b5 y)\<rparr>"
  by (cases x) simp_all

interpretation WorkflowService_ListClosedWorkflowExecutions_Result: thrift_struct W
  "WorkflowService_ListClosedWorkflowExecutions_Result_ToWire W"
      "WorkflowService_ListClosedWorkflowExecutions_Result_FromWire W"
  WorkflowService_ListClosedWorkflowExecutions_Result_zero "\<lambda>r.
      WorkflowService_ListClosedWorkflowExecutions_Result_count r = 1 \<and> if_set
      ListClosedWorkflowExecutionsResponse_complete
      (WorkflowService_ListClosedWorkflowExecutions_Result.Success r)" for W
proof (rule thrift_checkedI)
  fix x :: WorkflowService_ListClosedWorkflowExecutions_Result
  assume laws: "wire_laws W"
  obtain enc0 where e0: "ListClosedWorkflowExecutionsResponse_ToWire W = (\<lambda>x. Inr (enc0 x))"
      "\<And>x. wire_api.Type W (enc0 x) = TStruct"
      "\<And>x. Writable W (enc0 x) \<longleftrightarrow> ListClosedWorkflowExecutionsResponse_complete x"
      "\<And>x. ListClosedWorkflowExecutionsResponse_complete x \<Longrightarrow>
          ListClosedWorkflowExecutionsResponse_FromWire W (enc0 x)
          ListClosedWorkflowExecutionsResponse_zero = Inr x"
    by (rule ListClosedWorkflowExecutionsResponse.encoder [OF laws]) (rule that)
  obtain enc1 where e1: "BadRequestError_ToWire W = (\<lambda>x. Inr (enc1 x))"
      "\<And>x. wire_api.Type W (enc1 x) = TStruct"
      "\<And>x. Writable W (enc1 x) \<longleftrightarrow> (\<lambda>_. True) x"
      "\<And>x. (\<lambda>_. True) x \<Longrightarrow> BadRequestError_FromWire W (enc1 x) BadRequestError_zero = Inr x"
    by (rule BadRequestError.encoder [OF laws]) (rule that)
  obtain enc2 where e2: "InternalServiceError_ToWire W = (\<lambda>x. Inr (enc2 x))"
      "\<And>x. wire_api.Type W (enc2 x) = TStruct"
      "\<And>x. Writable W (enc2 x) \<longleftrightarrow> (\<lambda>_. True) x"
      "\<And>x. (\<lambda>_. True) x \<Longrightarrow> InternalServiceError_FromWire W (enc2 x) InternalServiceError_zero = Inr
          x"
    by (rule InternalServiceError.encoder [OF laws]) (rule that)
  obtain enc3 where e3: "EntityNotExistsError_ToWire W = (\<lambda>x. Inr (enc3 x))"
      "\<And>x. wire_api.Type W (enc3 x) = TStruct"
      "\<And>x. Writable W (enc3 x) \<longleftrightarrow> (\<lambda>_. True) x"
      "\<And>x. (\<lambda>_. True) x \<Longrightarrow> EntityNotExistsError_FromWire W (enc3 x) EntityNotExistsError_zero = Inr
          x"
    by (rule EntityNotExistsError.encoder [OF laws]) (rule that)
  obtain enc4 where e4: "ServiceBusyError_ToWire W = (\<lambda>x. Inr (enc4 x))"
      "\<And>x. wire_api.Type W (enc4 x) = TStruct"
      "\<And>x. Writable W (enc4 x) \<longleftrightarrow> (\<lambda>_. True) x"
      "\<And>x. (\<lambda>_. True) x \<Longrightarrow> ServiceBusyError_FromWire W (enc4 x) ServiceBusyError_zero = Inr x"
    by (rule ServiceBusyError.encoder [OF laws]) (rule that)
  obtain enc5 where e5: "ClientVersionNotSupportedError_ToWire W = (\<lambda>x. Inr (enc5 x))"
      "\<And>x. wire_api.Type W (enc5 x) = TStruct"
      "\<And>x. Writable W (enc5 x) \<longleftrightarrow> (\<lambda>_. True) x"
      "\<And>x. (\<lambda>_. True) x \<Longrightarrow> ClientVersionNotSupportedError_FromWire W (enc5 x)
          ClientVersionNotSupportedError_zero = Inr x"
    by (rule ClientVersionNotSupportedError.encoder [OF laws]) (rule that)
  let ?fs = "((((opt_field 0 enc0 (WorkflowService_ListClosedWorkflowExecutions_Result.Success x) @
      opt_field 1 enc1 (WorkflowService_ListClosedWorkflowExecutions_Result.BadRequestError x)) @
      opt_field 2 enc2 (WorkflowService_ListClosedWorkflowExecutions_Result.InternalServiceError x))
          @
      opt_field 3 enc3 (WorkflowService_ListClosedWorkflowExecutions_Result.EntityNotExistError x))
          @
      opt_field 4 enc4 (WorkflowService_ListClosedWorkflowExecutions_Result.ServiceBusyError x)) @
      opt_field 5 enc5
          (WorkflowService_ListClosedWorkflowExecutions_Result.ClientVersionNotSupportedError x)"
  let ?check = "\<lambda>r. if WorkflowService_ListClosedWorkflowExecutions_Result_count x \<noteq> 1 then Inl
      (E_Errorf
      ''WorkflowService_ListClosedWorkflowExecutions_Result should have exactly one field: got %v fields'' (WorkflowService_ListClosedWorkflowExecutions_Result_count x)) else Inr r"
  have "length ?fs = WorkflowService_ListClosedWorkflowExecutions_Result_count x"
    by (simp add: WorkflowService_ListClosedWorkflowExecutions_Result_count_def length_opt_field
        split del: if_split)
  then have "WorkflowService_ListClosedWorkflowExecutions_Result_ToWire W x = ?check (NewValueStruct
      W ?fs)"
    by (simp only: WorkflowService_ListClosedWorkflowExecutions_Result_ToWire_def put_opt_field
        and_then.simps append_Nil e0(1) e1(1) e2(1) e3(1) e4(1) e5(1))
  moreover have "WorkflowService_ListClosedWorkflowExecutions_Result_FromWire W (NewValueStruct W
      ?fs) WorkflowService_ListClosedWorkflowExecutions_Result_zero = ?check x"
    if "if_set ListClosedWorkflowExecutionsResponse_complete
        (WorkflowService_ListClosedWorkflowExecutions_Result.Success x)"
    by (cases x, hypsubst) (simp cong: option.case_cong split del: if_split add: codec_rules Let_def
        WorkflowService_ListClosedWorkflowExecutions_Result_merge
      WorkflowService_ListClosedWorkflowExecutions_Result_FromWire_def
          WorkflowService_ListClosedWorkflowExecutions_Result_zero_def laws if_set_def that
          [unfolded if_set_def]
      BadRequestError_Read_def
      ClientVersionNotSupportedError_Read_def
      EntityNotExistsError_Read_def
      InternalServiceError_Read_def
      ListClosedWorkflowExecutionsResponse_Read_def
      ServiceBusyError_Read_def
      e0 e1 e2 e3 e4 e5)
  ultimately show "if WorkflowService_ListClosedWorkflowExecutions_Result_count x = 1
      then \<exists>w. WorkflowService_ListClosedWorkflowExecutions_Result_ToWire W x = Inr w \<and>
          wire_api.Type W w = TStruct \<and>
        (Writable W w \<longleftrightarrow> if_set ListClosedWorkflowExecutionsResponse_complete
            (WorkflowService_ListClosedWorkflowExecutions_Result.Success x)) \<and> (if_set
            ListClosedWorkflowExecutionsResponse_complete
            (WorkflowService_ListClosedWorkflowExecutions_Result.Success x) \<longrightarrow>
            WorkflowService_ListClosedWorkflowExecutions_Result_FromWire W w
            WorkflowService_ListClosedWorkflowExecutions_Result_zero = Inr x)
      else \<exists>e. WorkflowService_ListClosedWorkflowExecutions_Result_ToWire W x = Inl e"
    by (simp add: laws codec_rules e0 e1 e2 e3 e4 e5)
qed

interpretation ListClosedWorkflowExecutions: rpc_method W
  "WorkflowService_ListClosedWorkflowExecutions_Args_ToWire W"
      "WorkflowService_ListClosedWorkflowExecutions_Args_FromWire W"
      WorkflowService_ListClosedWorkflowExecutions_Args_zero "\<lambda>x. True"
  "WorkflowService_ListClosedWorkflowExecutions_Result_ToWire W"
      "WorkflowService_ListClosedWorkflowExecutions_Result_FromWire W"
      WorkflowService_ListClosedWorkflowExecutions_Result_zero
  "\<lambda>r. WorkflowService_ListClosedWorkflowExecutions_Result_count r = 1 \<and> if_set
      ListClosedWorkflowExecutionsResponse_complete
      (WorkflowService_ListClosedWorkflowExecutions_Result.Success r)"
      "''ListClosedWorkflowExecutions''"
  WorkflowService_ListClosedWorkflowExecutions_Helper_Args
      "WorkflowService_ListClosedWorkflowExecutions_Args.ListRequest"
  "\<lambda>(success, err). WorkflowService_ListClosedWorkflowExecutions_Helper_WrapResponse success err"
      WorkflowService_ListClosedWorkflowExecutions_Helper_UnwrapResponse
  "\<lambda>out. snd out \<noteq> None" "carried ListClosedWorkflowExecutionsResponse_complete
      WorkflowService_ListClosedWorkflowExecutions_Helper_IsException" error_first "\<lambda>e. (None, Some
      e)"
  "handler_ListClosedWorkflowExecutions W" "client_ListClosedWorkflowExecutions W" for W
proof
  fix out :: "ListClosedWorkflowExecutionsResponse option \<times> go_error option"
  assume "carried ListClosedWorkflowExecutionsResponse_complete
      WorkflowService_ListClosedWorkflowExecutions_Helper_IsException out"
  then show "case (\<lambda>(success, err). WorkflowService_ListClosedWorkflowExecutions_Helper_WrapResponse
      success err) out of Inl e \<Rightarrow> False
      | Inr res \<Rightarrow> (WorkflowService_ListClosedWorkflowExecutions_Result_count res = 1 \<and> if_set
          ListClosedWorkflowExecutionsResponse_complete
          (WorkflowService_ListClosedWorkflowExecutions_Result.Success res)) \<and>
          WorkflowService_ListClosedWorkflowExecutions_Helper_UnwrapResponse res = error_first out"
    by (cases out; cases "snd out"; cases "the (snd out)")
      (auto simp: WorkflowService_ListClosedWorkflowExecutions_Helper_IsException_def
          WorkflowService_ListClosedWorkflowExecutions_Helper_WrapResponse_def
          WorkflowService_ListClosedWorkflowExecutions_Helper_UnwrapResponse_def
        declared_nonnil_def WorkflowService_ListClosedWorkflowExecutions_Result_zero_def
            WorkflowService_ListClosedWorkflowExecutions_Result_count_def elim!: present.elims)
next
  fix out :: "ListClosedWorkflowExecutionsResponse option \<times> go_error option"
  assume "\<not> carried ListClosedWorkflowExecutionsResponse_complete
      WorkflowService_ListClosedWorkflowExecutions_Helper_IsException out"
  then show "case (\<lambda>(success, err). WorkflowService_ListClosedWorkflowExecutions_Helper_WrapResponse
      success err) out of Inl e \<Rightarrow> True
      | Inr res \<Rightarrow> \<not> (WorkflowService_ListClosedWorkflowExecutions_Result_count res = 1 \<and> if_set
          ListClosedWorkflowExecutionsResponse_complete
          (WorkflowService_ListClosedWorkflowExecutions_Result.Success res))"
    by (cases out; cases "snd out"; cases "the (snd out)")
      (auto simp: WorkflowService_ListClosedWorkflowExecutions_Helper_IsException_def
          WorkflowService_ListClosedWorkflowExecutions_Helper_WrapResponse_def declared_nonnil_def
        WorkflowService_ListClosedWorkflowExecutions_Result_count_def
            WorkflowService_ListClosedWorkflowExecutions_Result_zero_def split: option.splits)
qed (auto simp: WorkflowService_ListClosedWorkflowExecutions_Helper_Args_def
    handler_ListClosedWorkflowExecutions_def client_ListClosedWorkflowExecutions_def
      WorkflowService_ListClosedWorkflowExecutions_Args_enveloper_def
          WorkflowService_ListClosedWorkflowExecutions_Result_enveloper_def
      Let_def split: sum.splits prod.splits)

section \<open>ListWorkflowExecutions\<close>

record WorkflowService_ListWorkflowExecutions_Args =
  ListRequest :: "ListWorkflowExecutionsRequest option"

definition WorkflowService_ListWorkflowExecutions_Args_zero ::
    WorkflowService_ListWorkflowExecutions_Args where
  "WorkflowService_ListWorkflowExecutions_Args_zero =
      \<lparr>WorkflowService_ListWorkflowExecutions_Args.ListRequest = None\<rparr>"

definition WorkflowService_ListWorkflowExecutions_Args_ToWire ::
  "'v wire_api \<Rightarrow> WorkflowService_ListWorkflowExecutions_Args \<Rightarrow> go_error + 'v" where
  "WorkflowService_ListWorkflowExecutions_Args_ToWire W v =
     and_then (put_opt 1 (ListWorkflowExecutionsRequest_ToWire W)
         (WorkflowService_ListWorkflowExecutions_Args.ListRequest v) [])
       (\<lambda>fields.
     Inr (NewValueStruct W fields))"

definition WorkflowService_ListWorkflowExecutions_Args_FromWire ::
  "'v wire_api \<Rightarrow> 'v \<Rightarrow> WorkflowService_ListWorkflowExecutions_Args \<Rightarrow> go_error +
      WorkflowService_ListWorkflowExecutions_Args" where
  "WorkflowService_ListWorkflowExecutions_Args_FromWire W w v =
     foldM (\<lambda>v (fid, fval).
       if fid = 1 then
         if wire_api.Type W fval = TStruct
         then and_then (ListWorkflowExecutionsRequest_Read W fval) (\<lambda>x. Inr
             (v\<lparr>WorkflowService_ListWorkflowExecutions_Args.ListRequest := Some x\<rparr>))
         else Inr v
       else Inr v) (GetStruct W w) v"

definition WorkflowService_ListWorkflowExecutions_Args_enveloper ::
  "'v wire_api \<Rightarrow> WorkflowService_ListWorkflowExecutions_Args \<Rightarrow> 'v enveloper" where
  "WorkflowService_ListWorkflowExecutions_Args_enveloper W v =
     \<lparr>MethodName = ''ListWorkflowExecutions'', EnvelopeType = Call, EnvelopeToWire =
         WorkflowService_ListWorkflowExecutions_Args_ToWire W v\<rparr>"

definition WorkflowService_ListWorkflowExecutions_Args_Equals ::
  "WorkflowService_ListWorkflowExecutions_Args option \<Rightarrow> WorkflowService_ListWorkflowExecutions_Args
      option \<Rightarrow> bool" where
  "WorkflowService_ListWorkflowExecutions_Args_Equals v rhs =
     (case v of None \<Rightarrow> rhs = None
      | Some v \<Rightarrow> (case rhs of None \<Rightarrow> False
        | Some rhs \<Rightarrow>
          if \<not> both_set_and (\<lambda>x y. ListWorkflowExecutionsRequest_Equals (Some x) (Some y))
              (WorkflowService_ListWorkflowExecutions_Args.ListRequest v)
              (WorkflowService_ListWorkflowExecutions_Args.ListRequest rhs) then False else
          True))"

lemma WorkflowService_ListWorkflowExecutions_Args_Equals_iff [simp]:
    "WorkflowService_ListWorkflowExecutions_Args_Equals x y \<longleftrightarrow> x = y"
  by (cases x; cases y) (auto simp: WorkflowService_ListWorkflowExecutions_Args_Equals_def)

record WorkflowService_ListWorkflowExecutions_Result =
  Success :: "ListWorkflowExecutionsResponse option"
  BadRequestError :: "BadRequestError option"
  InternalServiceError :: "InternalServiceError option"
  EntityNotExistError :: "EntityNotExistsError option"
  ServiceBusyError :: "ServiceBusyError option"
  ClientVersionNotSupportedError :: "ClientVersionNotSupportedError option"

definition WorkflowService_ListWorkflowExecutions_Result_count ::
    "WorkflowService_ListWorkflowExecutions_Result \<Rightarrow> nat" where
  "WorkflowService_ListWorkflowExecutions_Result_count v =
     (if WorkflowService_ListWorkflowExecutions_Result.Success v \<noteq> None then 1 else 0) +
     (if WorkflowService_ListWorkflowExecutions_Result.BadRequestError v \<noteq> None then 1 else 0) +
     (if WorkflowService_ListWorkflowExecutions_Result.InternalServiceError v \<noteq> None then 1 else 0)
         +
     (if WorkflowService_ListWorkflowExecutions_Result.EntityNotExistError v \<noteq> None then 1 else 0) +
     (if WorkflowService_ListWorkflowExecutions_Result.ServiceBusyError v \<noteq> None then 1 else 0) +
     (if WorkflowService_ListWorkflowExecutions_Result.ClientVersionNotSupportedError v \<noteq> None then
         1 else 0)"

definition WorkflowService_ListWorkflowExecutions_Result_zero ::
    WorkflowService_ListWorkflowExecutions_Result where
  "WorkflowService_ListWorkflowExecutions_Result_zero =
      \<lparr>WorkflowService_ListWorkflowExecutions_Result.Success = None,
      WorkflowService_ListWorkflowExecutions_Result.BadRequestError = None,
      WorkflowService_ListWorkflowExecutions_Result.InternalServiceError = None,
      WorkflowService_ListWorkflowExecutions_Result.EntityNotExistError = None,
      WorkflowService_ListWorkflowExecutions_Result.ServiceBusyError = None,
      WorkflowService_ListWorkflowExecutions_Result.ClientVersionNotSupportedError = None\<rparr>"

definition WorkflowService_ListWorkflowExecutions_Result_ToWire ::
  "'v wire_api \<Rightarrow> WorkflowService_ListWorkflowExecutions_Result \<Rightarrow> go_error + 'v" where
  "WorkflowService_ListWorkflowExecutions_Result_ToWire W v =
     and_then (put_opt 0 (ListWorkflowExecutionsResponse_ToWire W)
         (WorkflowService_ListWorkflowExecutions_Result.Success v) [])
       (\<lambda>fields.
     and_then (put_opt 1 (BadRequestError_ToWire W)
         (WorkflowService_ListWorkflowExecutions_Result.BadRequestError v) fields)
       (\<lambda>fields.
     and_then (put_opt 2 (InternalServiceError_ToWire W)
         (WorkflowService_ListWorkflowExecutions_Result.InternalServiceError v) fields)
       (\<lambda>fields.
     and_then (put_opt 3 (EntityNotExistsError_ToWire W)
         (WorkflowService_ListWorkflowExecutions_Result.EntityNotExistError v) fields)
       (\<lambda>fields.
     and_then (put_opt 4 (ServiceBusyError_ToWire W)
         (WorkflowService_ListWorkflowExecutions_Result.ServiceBusyError v) fields)
       (\<lambda>fields.
     and_then (put_opt 5 (ClientVersionNotSupportedError_ToWire W)
         (WorkflowService_ListWorkflowExecutions_Result.ClientVersionNotSupportedError v) fields)
       (\<lambda>fields.
     if length fields \<noteq> 1
     then Inl (E_Errorf
         ''WorkflowService_ListWorkflowExecutions_Result should have exactly one field: got %v fields'' (length fields))
     else Inr (NewValueStruct W fields)))))))"

definition WorkflowService_ListWorkflowExecutions_Result_FromWire ::
  "'v wire_api \<Rightarrow> 'v \<Rightarrow> WorkflowService_ListWorkflowExecutions_Result \<Rightarrow> go_error +
      WorkflowService_ListWorkflowExecutions_Result" where
  "WorkflowService_ListWorkflowExecutions_Result_FromWire W w v =
     and_then (foldM (\<lambda>v (fid, fval).
       if fid = 0 then
         if wire_api.Type W fval = TStruct
         then and_then (ListWorkflowExecutionsResponse_Read W fval) (\<lambda>x. Inr
             (v\<lparr>WorkflowService_ListWorkflowExecutions_Result.Success := Some x\<rparr>))
         else Inr v
       else if fid = 1 then
         if wire_api.Type W fval = TStruct
         then and_then (BadRequestError_Read W fval) (\<lambda>x. Inr
             (v\<lparr>WorkflowService_ListWorkflowExecutions_Result.BadRequestError := Some x\<rparr>))
         else Inr v
       else if fid = 2 then
         if wire_api.Type W fval = TStruct
         then and_then (InternalServiceError_Read W fval) (\<lambda>x. Inr
             (v\<lparr>WorkflowService_ListWorkflowExecutions_Result.InternalServiceError := Some x\<rparr>))
         else Inr v
       else if fid = 3 then
         if wire_api.Type W fval = TStruct
         then and_then (EntityNotExistsError_Read W fval) (\<lambda>x. Inr
             (v\<lparr>WorkflowService_ListWorkflowExecutions_Result.EntityNotExistError := Some x\<rparr>))
         else Inr v
       else if fid = 4 then
         if wire_api.Type W fval = TStruct
         then and_then (ServiceBusyError_Read W fval) (\<lambda>x. Inr
             (v\<lparr>WorkflowService_ListWorkflowExecutions_Result.ServiceBusyError := Some x\<rparr>))
         else Inr v
       else if fid = 5 then
         if wire_api.Type W fval = TStruct
         then and_then (ClientVersionNotSupportedError_Read W fval) (\<lambda>x. Inr
             (v\<lparr>WorkflowService_ListWorkflowExecutions_Result.ClientVersionNotSupportedError := Some
             x\<rparr>))
         else Inr v
       else Inr v) (GetStruct W w) v) (\<lambda>v.
     let count = WorkflowService_ListWorkflowExecutions_Result_count v in
     if count \<noteq> 1
     then Inl (E_Errorf
         ''WorkflowService_ListWorkflowExecutions_Result should have exactly one field: got %v fields'' count)
     else Inr v)"

definition WorkflowService_ListWorkflowExecutions_Result_enveloper ::
  "'v wire_api \<Rightarrow> WorkflowService_ListWorkflowExecutions_Result \<Rightarrow> 'v enveloper" where
  "WorkflowService_ListWorkflowExecutions_Result_enveloper W v =
     \<lparr>MethodName = ''ListWorkflowExecutions'', EnvelopeType = Reply, EnvelopeToWire =
         WorkflowService_ListWorkflowExecutions_Result_ToWire W v\<rparr>"

definition WorkflowService_ListWorkflowExecutions_Result_Equals ::
  "WorkflowService_ListWorkflowExecutions_Result option \<Rightarrow>
      WorkflowService_ListWorkflowExecutions_Result option \<Rightarrow> bool" where
  "WorkflowService_ListWorkflowExecutions_Result_Equals v rhs =
     (case v of None \<Rightarrow> rhs = None
      | Some v \<Rightarrow> (case rhs of None \<Rightarrow> False
        | Some rhs \<Rightarrow>
          if \<not> both_set_and (\<lambda>x y. ListWorkflowExecutionsResponse_Equals (Some x) (Some y))
              (WorkflowService_ListWorkflowExecutions_Result.Success v)
              (WorkflowService_ListWorkflowExecutions_Result.Success rhs) then False else
          if \<not> both_set_and (\<lambda>x y. BadRequestError_Equals (Some x) (Some y))
              (WorkflowService_ListWorkflowExecutions_Result.BadRequestError v)
              (WorkflowService_ListWorkflowExecutions_Result.BadRequestError rhs) then False else
          if \<not> both_set_and (\<lambda>x y. InternalServiceError_Equals (Some x) (Some y))
              (WorkflowService_ListWorkflowExecutions_Result.InternalServiceError v)
              (WorkflowService_ListWorkflowExecutions_Result.InternalServiceError rhs) then False
              else
          if \<not> both_set_and (\<lambda>x y. EntityNotExistsError_Equals (Some x) (Some y))
              (WorkflowService_ListWorkflowExecutions_Result.EntityNotExistError v)
              (WorkflowService_ListWorkflowExecutions_Result.EntityNotExistError rhs) then False
              else
          if \<not> both_set_and (\<lambda>x y. ServiceBusyError_Equals (Some x) (Some y))
              (WorkflowService_ListWorkflowExecutions_Result.ServiceBusyError v)
              (WorkflowService_ListWorkflowExecutions_Result.ServiceBusyError rhs) then False else
          if \<not> both_set_and (\<lambda>x y. ClientVersionNotSupportedError_Equals (Some x) (Some y))
              (WorkflowService_ListWorkflowExecutions_Result.ClientVersionNotSupportedError v)
              (WorkflowService_ListWorkflowExecutions_Result.ClientVersionNotSupportedError rhs)
              then False else
          True))"

definition WorkflowService_ListWorkflowExecutions_Result_comparable ::
    "WorkflowService_ListWorkflowExecutions_Result \<Rightarrow> bool" where
  "WorkflowService_ListWorkflowExecutions_Result_comparable v \<longleftrightarrow>
     if_set ListWorkflowExecutionsResponse_comparable
         (WorkflowService_ListWorkflowExecutions_Result.Success v)"

lemma WorkflowService_ListWorkflowExecutions_Result_Equals_iff:
  "if_set WorkflowService_ListWorkflowExecutions_Result_comparable x \<Longrightarrow> if_set
      WorkflowService_ListWorkflowExecutions_Result_comparable y \<Longrightarrow>
      WorkflowService_ListWorkflowExecutions_Result_Equals x y \<longleftrightarrow> x = y"
  by (cases x; cases y) (simp_all add: WorkflowService_ListWorkflowExecutions_Result_Equals_def
      WorkflowService_ListWorkflowExecutions_Result_comparable_def if_not_False,
    fastforce intro: WorkflowService_ListWorkflowExecutions_Result.equality)

lemma WorkflowService_ListWorkflowExecutions_Result_fields_equal [simp]:
  "if_set WorkflowService_ListWorkflowExecutions_Result_comparable x \<Longrightarrow> if_set
      WorkflowService_ListWorkflowExecutions_Result_comparable y \<Longrightarrow>
    both_set_and (\<lambda>x y. WorkflowService_ListWorkflowExecutions_Result_Equals (Some x) (Some y)) x y
        \<longleftrightarrow> x = y"
  by (rule both_set_and_iff [where P = WorkflowService_ListWorkflowExecutions_Result_comparable])
      (simp_all add: WorkflowService_ListWorkflowExecutions_Result_Equals_iff)

definition WorkflowService_ListWorkflowExecutions_Helper_Args :: "ListWorkflowExecutionsRequest
    option \<Rightarrow> WorkflowService_ListWorkflowExecutions_Args" where
  "WorkflowService_ListWorkflowExecutions_Helper_Args r =
      \<lparr>WorkflowService_ListWorkflowExecutions_Args.ListRequest = r\<rparr>"

definition WorkflowService_ListWorkflowExecutions_Helper_IsException :: "go_error \<Rightarrow> bool" where
  "WorkflowService_ListWorkflowExecutions_Helper_IsException err =
     (case err of
        E_BadRequestError _ \<Rightarrow> True
      | E_InternalServiceError _ \<Rightarrow> True
      | E_EntityNotExistsError _ \<Rightarrow> True
      | E_ServiceBusyError _ \<Rightarrow> True
      | E_ClientVersionNotSupportedError _ \<Rightarrow> True
      | _ \<Rightarrow> False)"

definition WorkflowService_ListWorkflowExecutions_Helper_WrapResponse ::
  "ListWorkflowExecutionsResponse option \<Rightarrow> go_error option \<Rightarrow> go_error +
      WorkflowService_ListWorkflowExecutions_Result" where
  "WorkflowService_ListWorkflowExecutions_Helper_WrapResponse success err =
     (case err of None \<Rightarrow> Inr
         (WorkflowService_ListWorkflowExecutions_Result_zero\<lparr>WorkflowService_ListWorkflowExecutions_Result.Success := success\<rparr>)
      | Some err \<Rightarrow> (case err of
          E_BadRequestError e \<Rightarrow> (case e of
              None \<Rightarrow> Inl (E_New
                  ''WrapResponse received non-nil error type with nil value for WorkflowService_ListWorkflowExecutions_Result.BadRequestError'')
            | Some e \<Rightarrow> Inr
                (WorkflowService_ListWorkflowExecutions_Result_zero\<lparr>WorkflowService_ListWorkflowExecutions_Result.BadRequestError := Some e\<rparr>))
        | E_InternalServiceError e \<Rightarrow> (case e of
              None \<Rightarrow> Inl (E_New
                  ''WrapResponse received non-nil error type with nil value for WorkflowService_ListWorkflowExecutions_Result.InternalServiceError'')
            | Some e \<Rightarrow> Inr
                (WorkflowService_ListWorkflowExecutions_Result_zero\<lparr>WorkflowService_ListWorkflowExecutions_Result.InternalServiceError := Some e\<rparr>))
        | E_EntityNotExistsError e \<Rightarrow> (case e of
              None \<Rightarrow> Inl (E_New
                  ''WrapResponse received non-nil error type with nil value for WorkflowService_ListWorkflowExecutions_Result.EntityNotExistError'')
            | Some e \<Rightarrow> Inr
                (WorkflowService_ListWorkflowExecutions_Result_zero\<lparr>WorkflowService_ListWorkflowExecutions_Result.EntityNotExistError := Some e\<rparr>))
        | E_ServiceBusyError e \<Rightarrow> (case e of
              None \<Rightarrow> Inl (E_New
                  ''WrapResponse received non-nil error type with nil value for WorkflowService_ListWorkflowExecutions_Result.ServiceBusyError'')
            | Some e \<Rightarrow> Inr
                (WorkflowService_ListWorkflowExecutions_Result_zero\<lparr>WorkflowService_ListWorkflowExecutions_Result.ServiceBusyError := Some e\<rparr>))
        | E_ClientVersionNotSupportedError e \<Rightarrow> (case e of
              None \<Rightarrow> Inl (E_New
                  ''WrapResponse received non-nil error type with nil value for WorkflowService_ListWorkflowExecutions_Result.ClientVersionNotSupportedError'')
            | Some e \<Rightarrow> Inr
                (WorkflowService_ListWorkflowExecutions_Result_zero\<lparr>WorkflowService_ListWorkflowExecutions_Result.ClientVersionNotSupportedError := Some e\<rparr>))
        | _ \<Rightarrow> Inl err))"

definition WorkflowService_ListWorkflowExecutions_Helper_UnwrapResponse ::
  "WorkflowService_ListWorkflowExecutions_Result \<Rightarrow> ListWorkflowExecutionsResponse option \<times> go_error
      option" where
  "WorkflowService_ListWorkflowExecutions_Helper_UnwrapResponse result =
    (if WorkflowService_ListWorkflowExecutions_Result.BadRequestError result \<noteq> None then (None, Some
        (E_BadRequestError (WorkflowService_ListWorkflowExecutions_Result.BadRequestError result)))
        else
     if WorkflowService_ListWorkflowExecutions_Result.InternalServiceError result \<noteq> None then (None,
         Some (E_InternalServiceError
         (WorkflowService_ListWorkflowExecutions_Result.InternalServiceError result))) else
     if WorkflowService_ListWorkflowExecutions_Result.EntityNotExistError result \<noteq> None then (None,
         Some (E_EntityNotExistsError
         (WorkflowService_ListWorkflowExecutions_Result.EntityNotExistError result))) else
     if WorkflowService_ListWorkflowExecutions_Result.ServiceBusyError result \<noteq> None then (None,
         Some (E_ServiceBusyError (WorkflowService_ListWorkflowExecutions_Result.ServiceBusyError
         result))) else
     if WorkflowService_ListWorkflowExecutions_Result.ClientVersionNotSupportedError result \<noteq> None
         then (None, Some (E_ClientVersionNotSupportedError
         (WorkflowService_ListWorkflowExecutions_Result.ClientVersionNotSupportedError result)))
         else
     if WorkflowService_ListWorkflowExecutions_Result.Success result \<noteq> None then
         (WorkflowService_ListWorkflowExecutions_Result.Success result, None) else
     (None, Some (E_New ''expected a non-void result'')))"

definition handler_ListWorkflowExecutions ::
  "'v wire_api \<Rightarrow> ('ctx \<Rightarrow> ListWorkflowExecutionsRequest option \<Rightarrow> ListWorkflowExecutionsResponse
      option \<times> go_error option) \<Rightarrow>
   ('ctx, 'v) unary_handler" where
  "handler_ListWorkflowExecutions W impl ctx body =
     (case WorkflowService_ListWorkflowExecutions_Args_FromWire W body
         WorkflowService_ListWorkflowExecutions_Args_zero of
      Inl err \<Rightarrow> (no_response, Some err)
    | Inr args \<Rightarrow>
      let (success, err) = impl ctx (WorkflowService_ListWorkflowExecutions_Args.ListRequest args);
          hadError = (err \<noteq> None)
      in case WorkflowService_ListWorkflowExecutions_Helper_WrapResponse success err of
           Inl err \<Rightarrow> (no_response, Some err)
         | Inr result \<Rightarrow>
             (\<lparr>Body = Some (WorkflowService_ListWorkflowExecutions_Result_enveloper W result),
               IsApplicationError = hadError\<rparr>, None))"

definition client_ListWorkflowExecutions ::
  "'v wire_api \<Rightarrow> ('ctx, 'v) thrift_client \<Rightarrow> 'ctx \<Rightarrow> ListWorkflowExecutionsRequest option \<Rightarrow>
   ListWorkflowExecutionsResponse option \<times> go_error option" where
  "client_ListWorkflowExecutions W call ctx r =
     (let args = WorkflowService_ListWorkflowExecutions_Helper_Args r in
      case call ctx (WorkflowService_ListWorkflowExecutions_Args_enveloper W args) of
        Inl e \<Rightarrow> (None, Some e)
      | Inr body \<Rightarrow>
          (case WorkflowService_ListWorkflowExecutions_Result_FromWire W body
              WorkflowService_ListWorkflowExecutions_Result_zero of
             Inl e \<Rightarrow> (None, Some e)
           | Inr result \<Rightarrow> WorkflowService_ListWorkflowExecutions_Helper_UnwrapResponse result))"

lemma WorkflowService_ListWorkflowExecutions_Args_merge:
  "(case x of None \<Rightarrow> Inr \<lparr>WorkflowService_ListWorkflowExecutions_Args.ListRequest = a0\<rparr> | Some y \<Rightarrow>
      Inr \<lparr>WorkflowService_ListWorkflowExecutions_Args.ListRequest = b0 y\<rparr>) =
   Inr \<lparr>WorkflowService_ListWorkflowExecutions_Args.ListRequest = (case x of None \<Rightarrow> a0 | Some y \<Rightarrow> b0
       y)\<rparr>"
  by (cases x) simp_all

interpretation WorkflowService_ListWorkflowExecutions_Args: thrift_struct W
  "WorkflowService_ListWorkflowExecutions_Args_ToWire W"
      "WorkflowService_ListWorkflowExecutions_Args_FromWire W"
  WorkflowService_ListWorkflowExecutions_Args_zero "\<lambda>x. True" for W
proof (rule thrift_structI)
  fix x :: WorkflowService_ListWorkflowExecutions_Args
  assume laws: "wire_laws W"
  obtain enc0 where e0: "ListWorkflowExecutionsRequest_ToWire W = (\<lambda>x. Inr (enc0 x))"
      "\<And>x. wire_api.Type W (enc0 x) = TStruct"
      "\<And>x. Writable W (enc0 x) \<longleftrightarrow> (\<lambda>_. True) x"
      "\<And>x. (\<lambda>_. True) x \<Longrightarrow> ListWorkflowExecutionsRequest_FromWire W (enc0 x)
          ListWorkflowExecutionsRequest_zero = Inr x"
    by (rule ListWorkflowExecutionsRequest.encoder [OF laws]) (rule that)
  show "\<exists>w. WorkflowService_ListWorkflowExecutions_Args_ToWire W x = Inr w \<and> wire_api.Type W w =
      TStruct \<and>
      (Writable W w \<longleftrightarrow> True) \<and> (True \<longrightarrow> WorkflowService_ListWorkflowExecutions_Args_FromWire W w
          WorkflowService_ListWorkflowExecutions_Args_zero = Inr x)"
    by (cases x) (simp cong: option.case_cong add: codec_rules
        WorkflowService_ListWorkflowExecutions_Args_merge
        WorkflowService_ListWorkflowExecutions_Args_ToWire_def
        WorkflowService_ListWorkflowExecutions_Args_FromWire_def
      WorkflowService_ListWorkflowExecutions_Args_zero_def ListWorkflowExecutionsRequest_Read_def
          if_set_def laws e0)
qed

lemma WorkflowService_ListWorkflowExecutions_Result_merge:
  "(case x of None \<Rightarrow> Inr \<lparr>WorkflowService_ListWorkflowExecutions_Result.Success = a0,
      WorkflowService_ListWorkflowExecutions_Result.BadRequestError = a1,
      WorkflowService_ListWorkflowExecutions_Result.InternalServiceError = a2,
      WorkflowService_ListWorkflowExecutions_Result.EntityNotExistError = a3,
      WorkflowService_ListWorkflowExecutions_Result.ServiceBusyError = a4,
      WorkflowService_ListWorkflowExecutions_Result.ClientVersionNotSupportedError = a5\<rparr> | Some y \<Rightarrow>
      Inr \<lparr>WorkflowService_ListWorkflowExecutions_Result.Success = b0 y,
      WorkflowService_ListWorkflowExecutions_Result.BadRequestError = b1 y,
      WorkflowService_ListWorkflowExecutions_Result.InternalServiceError = b2 y,
      WorkflowService_ListWorkflowExecutions_Result.EntityNotExistError = b3 y,
      WorkflowService_ListWorkflowExecutions_Result.ServiceBusyError = b4 y,
      WorkflowService_ListWorkflowExecutions_Result.ClientVersionNotSupportedError = b5 y\<rparr>) =
   Inr \<lparr>WorkflowService_ListWorkflowExecutions_Result.Success = (case x of None \<Rightarrow> a0 | Some y \<Rightarrow> b0
       y), WorkflowService_ListWorkflowExecutions_Result.BadRequestError = (case x of None \<Rightarrow> a1 |
       Some y \<Rightarrow> b1 y), WorkflowService_ListWorkflowExecutions_Result.InternalServiceError = (case x
       of None \<Rightarrow> a2 | Some y \<Rightarrow> b2 y),
       WorkflowService_ListWorkflowExecutions_Result.EntityNotExistError = (case x of None \<Rightarrow> a3 |
       Some y \<Rightarrow> b3 y), WorkflowService_ListWorkflowExecutions_Result.ServiceBusyError = (case x of
       None \<Rightarrow> a4 | Some y \<Rightarrow> b4 y),
       WorkflowService_ListWorkflowExecutions_Result.ClientVersionNotSupportedError = (case x of
       None \<Rightarrow> a5 | Some y \<Rightarrow> b5 y)\<rparr>"
  by (cases x) simp_all

interpretation WorkflowService_ListWorkflowExecutions_Result: thrift_struct W
  "WorkflowService_ListWorkflowExecutions_Result_ToWire W"
      "WorkflowService_ListWorkflowExecutions_Result_FromWire W"
  WorkflowService_ListWorkflowExecutions_Result_zero "\<lambda>r.
      WorkflowService_ListWorkflowExecutions_Result_count r = 1 \<and> if_set
      ListWorkflowExecutionsResponse_complete (WorkflowService_ListWorkflowExecutions_Result.Success
      r)" for W
proof (rule thrift_checkedI)
  fix x :: WorkflowService_ListWorkflowExecutions_Result
  assume laws: "wire_laws W"
  obtain enc0 where e0: "ListWorkflowExecutionsResponse_ToWire W = (\<lambda>x. Inr (enc0 x))"
      "\<And>x. wire_api.Type W (enc0 x) = TStruct"
      "\<And>x. Writable W (enc0 x) \<longleftrightarrow> ListWorkflowExecutionsResponse_complete x"
      "\<And>x. ListWorkflowExecutionsResponse_complete x \<Longrightarrow> ListWorkflowExecutionsResponse_FromWire W
          (enc0 x) ListWorkflowExecutionsResponse_zero = Inr x"
    by (rule ListWorkflowExecutionsResponse.encoder [OF laws]) (rule that)
  obtain enc1 where e1: "BadRequestError_ToWire W = (\<lambda>x. Inr (enc1 x))"
      "\<And>x. wire_api.Type W (enc1 x) = TStruct"
      "\<And>x. Writable W (enc1 x) \<longleftrightarrow> (\<lambda>_. True) x"
      "\<And>x. (\<lambda>_. True) x \<Longrightarrow> BadRequestError_FromWire W (enc1 x) BadRequestError_zero = Inr x"
    by (rule BadRequestError.encoder [OF laws]) (rule that)
  obtain enc2 where e2: "InternalServiceError_ToWire W = (\<lambda>x. Inr (enc2 x))"
      "\<And>x. wire_api.Type W (enc2 x) = TStruct"
      "\<And>x. Writable W (enc2 x) \<longleftrightarrow> (\<lambda>_. True) x"
      "\<And>x. (\<lambda>_. True) x \<Longrightarrow> InternalServiceError_FromWire W (enc2 x) InternalServiceError_zero = Inr
          x"
    by (rule InternalServiceError.encoder [OF laws]) (rule that)
  obtain enc3 where e3: "EntityNotExistsError_ToWire W = (\<lambda>x. Inr (enc3 x))"
      "\<And>x. wire_api.Type W (enc3 x) = TStruct"
      "\<And>x. Writable W (enc3 x) \<longleftrightarrow> (\<lambda>_. True) x"
      "\<And>x. (\<lambda>_. True) x \<Longrightarrow> EntityNotExistsError_FromWire W (enc3 x) EntityNotExistsError_zero = Inr
          x"
    by (rule EntityNotExistsError.encoder [OF laws]) (rule that)
  obtain enc4 where e4: "ServiceBusyError_ToWire W = (\<lambda>x. Inr (enc4 x))"
      "\<And>x. wire_api.Type W (enc4 x) = TStruct"
      "\<And>x. Writable W (enc4 x) \<longleftrightarrow> (\<lambda>_. True) x"
      "\<And>x. (\<lambda>_. True) x \<Longrightarrow> ServiceBusyError_FromWire W (enc4 x) ServiceBusyError_zero = Inr x"
    by (rule ServiceBusyError.encoder [OF laws]) (rule that)
  obtain enc5 where e5: "ClientVersionNotSupportedError_ToWire W = (\<lambda>x. Inr (enc5 x))"
      "\<And>x. wire_api.Type W (enc5 x) = TStruct"
      "\<And>x. Writable W (enc5 x) \<longleftrightarrow> (\<lambda>_. True) x"
      "\<And>x. (\<lambda>_. True) x \<Longrightarrow> ClientVersionNotSupportedError_FromWire W (enc5 x)
          ClientVersionNotSupportedError_zero = Inr x"
    by (rule ClientVersionNotSupportedError.encoder [OF laws]) (rule that)
  let ?fs = "((((opt_field 0 enc0 (WorkflowService_ListWorkflowExecutions_Result.Success x) @
      opt_field 1 enc1 (WorkflowService_ListWorkflowExecutions_Result.BadRequestError x)) @
      opt_field 2 enc2 (WorkflowService_ListWorkflowExecutions_Result.InternalServiceError x)) @
      opt_field 3 enc3 (WorkflowService_ListWorkflowExecutions_Result.EntityNotExistError x)) @
      opt_field 4 enc4 (WorkflowService_ListWorkflowExecutions_Result.ServiceBusyError x)) @
      opt_field 5 enc5 (WorkflowService_ListWorkflowExecutions_Result.ClientVersionNotSupportedError
          x)"
  let ?check = "\<lambda>r. if WorkflowService_ListWorkflowExecutions_Result_count x \<noteq> 1 then Inl (E_Errorf
      ''WorkflowService_ListWorkflowExecutions_Result should have exactly one field: got %v fields''
          (WorkflowService_ListWorkflowExecutions_Result_count x)) else Inr r"
  have "length ?fs = WorkflowService_ListWorkflowExecutions_Result_count x"
    by (simp add: WorkflowService_ListWorkflowExecutions_Result_count_def length_opt_field split
        del: if_split)
  then have "WorkflowService_ListWorkflowExecutions_Result_ToWire W x = ?check (NewValueStruct W
      ?fs)"
    by (simp only: WorkflowService_ListWorkflowExecutions_Result_ToWire_def put_opt_field
        and_then.simps append_Nil e0(1) e1(1) e2(1) e3(1) e4(1) e5(1))
  moreover have "WorkflowService_ListWorkflowExecutions_Result_FromWire W (NewValueStruct W ?fs)
      WorkflowService_ListWorkflowExecutions_Result_zero = ?check x"
    if "if_set ListWorkflowExecutionsResponse_complete
        (WorkflowService_ListWorkflowExecutions_Result.Success x)"
    by (cases x, hypsubst) (simp cong: option.case_cong split del: if_split add: codec_rules Let_def
        WorkflowService_ListWorkflowExecutions_Result_merge
      WorkflowService_ListWorkflowExecutions_Result_FromWire_def
          WorkflowService_ListWorkflowExecutions_Result_zero_def laws if_set_def that [unfolded
          if_set_def]
      BadRequestError_Read_def
      ClientVersionNotSupportedError_Read_def
      EntityNotExistsError_Read_def
      InternalServiceError_Read_def
      ListWorkflowExecutionsResponse_Read_def
      ServiceBusyError_Read_def
      e0 e1 e2 e3 e4 e5)
  ultimately show "if WorkflowService_ListWorkflowExecutions_Result_count x = 1
      then \<exists>w. WorkflowService_ListWorkflowExecutions_Result_ToWire W x = Inr w \<and> wire_api.Type W w
          = TStruct \<and>
        (Writable W w \<longleftrightarrow> if_set ListWorkflowExecutionsResponse_complete
            (WorkflowService_ListWorkflowExecutions_Result.Success x)) \<and> (if_set
            ListWorkflowExecutionsResponse_complete
            (WorkflowService_ListWorkflowExecutions_Result.Success x) \<longrightarrow>
            WorkflowService_ListWorkflowExecutions_Result_FromWire W w
            WorkflowService_ListWorkflowExecutions_Result_zero = Inr x)
      else \<exists>e. WorkflowService_ListWorkflowExecutions_Result_ToWire W x = Inl e"
    by (simp add: laws codec_rules e0 e1 e2 e3 e4 e5)
qed

interpretation ListWorkflowExecutions: rpc_method W
  "WorkflowService_ListWorkflowExecutions_Args_ToWire W"
      "WorkflowService_ListWorkflowExecutions_Args_FromWire W"
      WorkflowService_ListWorkflowExecutions_Args_zero "\<lambda>x. True"
  "WorkflowService_ListWorkflowExecutions_Result_ToWire W"
      "WorkflowService_ListWorkflowExecutions_Result_FromWire W"
      WorkflowService_ListWorkflowExecutions_Result_zero
  "\<lambda>r. WorkflowService_ListWorkflowExecutions_Result_count r = 1 \<and> if_set
      ListWorkflowExecutionsResponse_complete (WorkflowService_ListWorkflowExecutions_Result.Success
      r)" "''ListWorkflowExecutions''"
  WorkflowService_ListWorkflowExecutions_Helper_Args
      "WorkflowService_ListWorkflowExecutions_Args.ListRequest"
  "\<lambda>(success, err). WorkflowService_ListWorkflowExecutions_Helper_WrapResponse success err"
      WorkflowService_ListWorkflowExecutions_Helper_UnwrapResponse
  "\<lambda>out. snd out \<noteq> None" "carried ListWorkflowExecutionsResponse_complete
      WorkflowService_ListWorkflowExecutions_Helper_IsException" error_first "\<lambda>e. (None, Some e)"
  "handler_ListWorkflowExecutions W" "client_ListWorkflowExecutions W" for W
proof
  fix out :: "ListWorkflowExecutionsResponse option \<times> go_error option"
  assume "carried ListWorkflowExecutionsResponse_complete
      WorkflowService_ListWorkflowExecutions_Helper_IsException out"
  then show "case (\<lambda>(success, err). WorkflowService_ListWorkflowExecutions_Helper_WrapResponse
      success err) out of Inl e \<Rightarrow> False
      | Inr res \<Rightarrow> (WorkflowService_ListWorkflowExecutions_Result_count res = 1 \<and> if_set
          ListWorkflowExecutionsResponse_complete
          (WorkflowService_ListWorkflowExecutions_Result.Success res)) \<and>
          WorkflowService_ListWorkflowExecutions_Helper_UnwrapResponse res = error_first out"
    by (cases out; cases "snd out"; cases "the (snd out)")
      (auto simp: WorkflowService_ListWorkflowExecutions_Helper_IsException_def
          WorkflowService_ListWorkflowExecutions_Helper_WrapResponse_def
          WorkflowService_ListWorkflowExecutions_Helper_UnwrapResponse_def
        declared_nonnil_def WorkflowService_ListWorkflowExecutions_Result_zero_def
            WorkflowService_ListWorkflowExecutions_Result_count_def elim!: present.elims)
next
  fix out :: "ListWorkflowExecutionsResponse option \<times> go_error option"
  assume "\<not> carried ListWorkflowExecutionsResponse_complete
      WorkflowService_ListWorkflowExecutions_Helper_IsException out"
  then show "case (\<lambda>(success, err). WorkflowService_ListWorkflowExecutions_Helper_WrapResponse
      success err) out of Inl e \<Rightarrow> True
      | Inr res \<Rightarrow> \<not> (WorkflowService_ListWorkflowExecutions_Result_count res = 1 \<and> if_set
          ListWorkflowExecutionsResponse_complete
          (WorkflowService_ListWorkflowExecutions_Result.Success res))"
    by (cases out; cases "snd out"; cases "the (snd out)")
      (auto simp: WorkflowService_ListWorkflowExecutions_Helper_IsException_def
          WorkflowService_ListWorkflowExecutions_Helper_WrapResponse_def declared_nonnil_def
        WorkflowService_ListWorkflowExecutions_Result_count_def
            WorkflowService_ListWorkflowExecutions_Result_zero_def split: option.splits)
qed (auto simp: WorkflowService_ListWorkflowExecutions_Helper_Args_def
    handler_ListWorkflowExecutions_def client_ListWorkflowExecutions_def
      WorkflowService_ListWorkflowExecutions_Args_enveloper_def
          WorkflowService_ListWorkflowExecutions_Result_enveloper_def
      Let_def split: sum.splits prod.splits)

section \<open>ListArchivedWorkflowExecutions\<close>

record WorkflowService_ListArchivedWorkflowExecutions_Args =
  ListRequest :: "ListArchivedWorkflowExecutionsRequest option"

definition WorkflowService_ListArchivedWorkflowExecutions_Args_zero ::
    WorkflowService_ListArchivedWorkflowExecutions_Args where
  "WorkflowService_ListArchivedWorkflowExecutions_Args_zero =
      \<lparr>WorkflowService_ListArchivedWorkflowExecutions_Args.ListRequest = None\<rparr>"

definition WorkflowService_ListArchivedWorkflowExecutions_Args_ToWire ::
  "'v wire_api \<Rightarrow> WorkflowService_ListArchivedWorkflowExecutions_Args \<Rightarrow> go_error + 'v" where
  "WorkflowService_ListArchivedWorkflowExecutions_Args_ToWire W v =
     and_then (put_opt 1 (ListArchivedWorkflowExecutionsRequest_ToWire W)
         (WorkflowService_ListArchivedWorkflowExecutions_Args.ListRequest v) [])
       (\<lambda>fields.
     Inr (NewValueStruct W fields))"

definition WorkflowService_ListArchivedWorkflowExecutions_Args_FromWire ::
  "'v wire_api \<Rightarrow> 'v \<Rightarrow> WorkflowService_ListArchivedWorkflowExecutions_Args \<Rightarrow> go_error +
      WorkflowService_ListArchivedWorkflowExecutions_Args" where
  "WorkflowService_ListArchivedWorkflowExecutions_Args_FromWire W w v =
     foldM (\<lambda>v (fid, fval).
       if fid = 1 then
         if wire_api.Type W fval = TStruct
         then and_then (ListArchivedWorkflowExecutionsRequest_Read W fval) (\<lambda>x. Inr
             (v\<lparr>WorkflowService_ListArchivedWorkflowExecutions_Args.ListRequest := Some x\<rparr>))
         else Inr v
       else Inr v) (GetStruct W w) v"

definition WorkflowService_ListArchivedWorkflowExecutions_Args_enveloper ::
  "'v wire_api \<Rightarrow> WorkflowService_ListArchivedWorkflowExecutions_Args \<Rightarrow> 'v enveloper" where
  "WorkflowService_ListArchivedWorkflowExecutions_Args_enveloper W v =
     \<lparr>MethodName = ''ListArchivedWorkflowExecutions'', EnvelopeType = Call, EnvelopeToWire =
         WorkflowService_ListArchivedWorkflowExecutions_Args_ToWire W v\<rparr>"

definition WorkflowService_ListArchivedWorkflowExecutions_Args_Equals ::
  "WorkflowService_ListArchivedWorkflowExecutions_Args option \<Rightarrow>
      WorkflowService_ListArchivedWorkflowExecutions_Args option \<Rightarrow> bool" where
  "WorkflowService_ListArchivedWorkflowExecutions_Args_Equals v rhs =
     (case v of None \<Rightarrow> rhs = None
      | Some v \<Rightarrow> (case rhs of None \<Rightarrow> False
        | Some rhs \<Rightarrow>
          if \<not> both_set_and (\<lambda>x y. ListArchivedWorkflowExecutionsRequest_Equals (Some x) (Some y))
              (WorkflowService_ListArchivedWorkflowExecutions_Args.ListRequest v)
              (WorkflowService_ListArchivedWorkflowExecutions_Args.ListRequest rhs) then False else
          True))"

lemma WorkflowService_ListArchivedWorkflowExecutions_Args_Equals_iff [simp]:
    "WorkflowService_ListArchivedWorkflowExecutions_Args_Equals x y \<longleftrightarrow> x = y"
  by (cases x; cases y) (auto simp: WorkflowService_ListArchivedWorkflowExecutions_Args_Equals_def)

record WorkflowService_ListArchivedWorkflowExecutions_Result =
  Success :: "ListArchivedWorkflowExecutionsResponse option"
  BadRequestError :: "BadRequestError option"
  InternalServiceError :: "InternalServiceError option"
  EntityNotExistError :: "EntityNotExistsError option"
  ServiceBusyError :: "ServiceBusyError option"
  ClientVersionNotSupportedError :: "ClientVersionNotSupportedError option"

definition WorkflowService_ListArchivedWorkflowExecutions_Result_count ::
    "WorkflowService_ListArchivedWorkflowExecutions_Result \<Rightarrow> nat" where
  "WorkflowService_ListArchivedWorkflowExecutions_Result_count v =
     (if WorkflowService_ListArchivedWorkflowExecutions_Result.Success v \<noteq> None then 1 else 0) +
     (if WorkflowService_ListArchivedWorkflowExecutions_Result.BadRequestError v \<noteq> None then 1 else
         0) +
     (if WorkflowService_ListArchivedWorkflowExecutions_Result.InternalServiceError v \<noteq> None then 1
         else 0) +
     (if WorkflowService_ListArchivedWorkflowExecutions_Result.EntityNotExistError v \<noteq> None then 1
         else 0) +
     (if WorkflowService_ListArchivedWorkflowExecutions_Result.ServiceBusyError v \<noteq> None then 1 else
         0) +
     (if WorkflowService_ListArchivedWorkflowExecutions_Result.ClientVersionNotSupportedError v \<noteq>
         None then 1 else 0)"

definition WorkflowService_ListArchivedWorkflowExecutions_Result_zero ::
    WorkflowService_ListArchivedWorkflowExecutions_Result where
  "WorkflowService_ListArchivedWorkflowExecutions_Result_zero =
      \<lparr>WorkflowService_ListArchivedWorkflowExecutions_Result.Success = None,
      WorkflowService_ListArchivedWorkflowExecutions_Result.BadRequestError = None,
      WorkflowService_ListArchivedWorkflowExecutions_Result.InternalServiceError = None,
      WorkflowService_ListArchivedWorkflowExecutions_Result.EntityNotExistError = None,
      WorkflowService_ListArchivedWorkflowExecutions_Result.ServiceBusyError = None,
      WorkflowService_ListArchivedWorkflowExecutions_Result.ClientVersionNotSupportedError = None\<rparr>"

definition WorkflowService_ListArchivedWorkflowExecutions_Result_ToWire ::
  "'v wire_api \<Rightarrow> WorkflowService_ListArchivedWorkflowExecutions_Result \<Rightarrow> go_error + 'v" where
  "WorkflowService_ListArchivedWorkflowExecutions_Result_ToWire W v =
     and_then (put_opt 0 (ListArchivedWorkflowExecutionsResponse_ToWire W)
         (WorkflowService_ListArchivedWorkflowExecutions_Result.Success v) [])
       (\<lambda>fields.
     and_then (put_opt 1 (BadRequestError_ToWire W)
         (WorkflowService_ListArchivedWorkflowExecutions_Result.BadRequestError v) fields)
       (\<lambda>fields.
     and_then (put_opt 2 (InternalServiceError_ToWire W)
         (WorkflowService_ListArchivedWorkflowExecutions_Result.InternalServiceError v) fields)
       (\<lambda>fields.
     and_then (put_opt 3 (EntityNotExistsError_ToWire W)
         (WorkflowService_ListArchivedWorkflowExecutions_Result.EntityNotExistError v) fields)
       (\<lambda>fields.
     and_then (put_opt 4 (ServiceBusyError_ToWire W)
         (WorkflowService_ListArchivedWorkflowExecutions_Result.ServiceBusyError v) fields)
       (\<lambda>fields.
     and_then (put_opt 5 (ClientVersionNotSupportedError_ToWire W)
         (WorkflowService_ListArchivedWorkflowExecutions_Result.ClientVersionNotSupportedError v)
         fields)
       (\<lambda>fields.
     if length fields \<noteq> 1
     then Inl (E_Errorf
         ''WorkflowService_ListArchivedWorkflowExecutions_Result should have exactly one field: got %v fields'' (length fields))
     else Inr (NewValueStruct W fields)))))))"

definition WorkflowService_ListArchivedWorkflowExecutions_Result_FromWire ::
  "'v wire_api \<Rightarrow> 'v \<Rightarrow> WorkflowService_ListArchivedWorkflowExecutions_Result \<Rightarrow> go_error +
      WorkflowService_ListArchivedWorkflowExecutions_Result" where
  "WorkflowService_ListArchivedWorkflowExecutions_Result_FromWire W w v =
     and_then (foldM (\<lambda>v (fid, fval).
       if fid = 0 then
         if wire_api.Type W fval = TStruct
         then and_then (ListArchivedWorkflowExecutionsResponse_Read W fval) (\<lambda>x. Inr
             (v\<lparr>WorkflowService_ListArchivedWorkflowExecutions_Result.Success := Some x\<rparr>))
         else Inr v
       else if fid = 1 then
         if wire_api.Type W fval = TStruct
         then and_then (BadRequestError_Read W fval) (\<lambda>x. Inr
             (v\<lparr>WorkflowService_ListArchivedWorkflowExecutions_Result.BadRequestError := Some x\<rparr>))
         else Inr v
       else if fid = 2 then
         if wire_api.Type W fval = TStruct
         then and_then (InternalServiceError_Read W fval) (\<lambda>x. Inr
             (v\<lparr>WorkflowService_ListArchivedWorkflowExecutions_Result.InternalServiceError := Some
             x\<rparr>))
         else Inr v
       else if fid = 3 then
         if wire_api.Type W fval = TStruct
         then and_then (EntityNotExistsError_Read W fval) (\<lambda>x. Inr
             (v\<lparr>WorkflowService_ListArchivedWorkflowExecutions_Result.EntityNotExistError := Some
             x\<rparr>))
         else Inr v
       else if fid = 4 then
         if wire_api.Type W fval = TStruct
         then and_then (ServiceBusyError_Read W fval) (\<lambda>x. Inr
             (v\<lparr>WorkflowService_ListArchivedWorkflowExecutions_Result.ServiceBusyError := Some x\<rparr>))
         else Inr v
       else if fid = 5 then
         if wire_api.Type W fval = TStruct
         then and_then (ClientVersionNotSupportedError_Read W fval) (\<lambda>x. Inr
             (v\<lparr>WorkflowService_ListArchivedWorkflowExecutions_Result.ClientVersionNotSupportedError
             := Some x\<rparr>))
         else Inr v
       else Inr v) (GetStruct W w) v) (\<lambda>v.
     let count = WorkflowService_ListArchivedWorkflowExecutions_Result_count v in
     if count \<noteq> 1
     then Inl (E_Errorf
         ''WorkflowService_ListArchivedWorkflowExecutions_Result should have exactly one field: got %v fields'' count)
     else Inr v)"

definition WorkflowService_ListArchivedWorkflowExecutions_Result_enveloper ::
  "'v wire_api \<Rightarrow> WorkflowService_ListArchivedWorkflowExecutions_Result \<Rightarrow> 'v enveloper" where
  "WorkflowService_ListArchivedWorkflowExecutions_Result_enveloper W v =
     \<lparr>MethodName = ''ListArchivedWorkflowExecutions'', EnvelopeType = Reply, EnvelopeToWire =
         WorkflowService_ListArchivedWorkflowExecutions_Result_ToWire W v\<rparr>"

definition WorkflowService_ListArchivedWorkflowExecutions_Result_Equals ::
  "WorkflowService_ListArchivedWorkflowExecutions_Result option \<Rightarrow>
      WorkflowService_ListArchivedWorkflowExecutions_Result option \<Rightarrow> bool" where
  "WorkflowService_ListArchivedWorkflowExecutions_Result_Equals v rhs =
     (case v of None \<Rightarrow> rhs = None
      | Some v \<Rightarrow> (case rhs of None \<Rightarrow> False
        | Some rhs \<Rightarrow>
          if \<not> both_set_and (\<lambda>x y. ListArchivedWorkflowExecutionsResponse_Equals (Some x) (Some y))
              (WorkflowService_ListArchivedWorkflowExecutions_Result.Success v)
              (WorkflowService_ListArchivedWorkflowExecutions_Result.Success rhs) then False else
          if \<not> both_set_and (\<lambda>x y. BadRequestError_Equals (Some x) (Some y))
              (WorkflowService_ListArchivedWorkflowExecutions_Result.BadRequestError v)
              (WorkflowService_ListArchivedWorkflowExecutions_Result.BadRequestError rhs) then False
              else
          if \<not> both_set_and (\<lambda>x y. InternalServiceError_Equals (Some x) (Some y))
              (WorkflowService_ListArchivedWorkflowExecutions_Result.InternalServiceError v)
              (WorkflowService_ListArchivedWorkflowExecutions_Result.InternalServiceError rhs) then
              False else
          if \<not> both_set_and (\<lambda>x y. EntityNotExistsError_Equals (Some x) (Some y))
              (WorkflowService_ListArchivedWorkflowExecutions_Result.EntityNotExistError v)
              (WorkflowService_ListArchivedWorkflowExecutions_Result.EntityNotExistError rhs) then
              False else
          if \<not> both_set_and (\<lambda>x y. ServiceBusyError_Equals (Some x) (Some y))
              (WorkflowService_ListArchivedWorkflowExecutions_Result.ServiceBusyError v)
              (WorkflowService_ListArchivedWorkflowExecutions_Result.ServiceBusyError rhs) then
              False else
          if \<not> both_set_and (\<lambda>x y. ClientVersionNotSupportedError_Equals (Some x) (Some y))
              (WorkflowService_ListArchivedWorkflowExecutions_Result.ClientVersionNotSupportedError
              v)
              (WorkflowService_ListArchivedWorkflowExecutions_Result.ClientVersionNotSupportedError
              rhs) then False else
          True))"

definition WorkflowService_ListArchivedWorkflowExecutions_Result_comparable ::
    "WorkflowService_ListArchivedWorkflowExecutions_Result \<Rightarrow> bool" where
  "WorkflowService_ListArchivedWorkflowExecutions_Result_comparable v \<longleftrightarrow>
     if_set ListArchivedWorkflowExecutionsResponse_comparable
         (WorkflowService_ListArchivedWorkflowExecutions_Result.Success v)"

lemma WorkflowService_ListArchivedWorkflowExecutions_Result_Equals_iff:
  "if_set WorkflowService_ListArchivedWorkflowExecutions_Result_comparable x \<Longrightarrow> if_set
      WorkflowService_ListArchivedWorkflowExecutions_Result_comparable y \<Longrightarrow>
      WorkflowService_ListArchivedWorkflowExecutions_Result_Equals x y \<longleftrightarrow> x = y"
  by (cases x; cases y) (simp_all add:
      WorkflowService_ListArchivedWorkflowExecutions_Result_Equals_def
      WorkflowService_ListArchivedWorkflowExecutions_Result_comparable_def if_not_False,
    fastforce intro: WorkflowService_ListArchivedWorkflowExecutions_Result.equality)

lemma WorkflowService_ListArchivedWorkflowExecutions_Result_fields_equal [simp]:
  "if_set WorkflowService_ListArchivedWorkflowExecutions_Result_comparable x \<Longrightarrow> if_set
      WorkflowService_ListArchivedWorkflowExecutions_Result_comparable y \<Longrightarrow>
    both_set_and (\<lambda>x y. WorkflowService_ListArchivedWorkflowExecutions_Result_Equals (Some x) (Some
        y)) x y \<longleftrightarrow> x = y"
  by (rule both_set_and_iff [where P =
      WorkflowService_ListArchivedWorkflowExecutions_Result_comparable]) (simp_all add:
      WorkflowService_ListArchivedWorkflowExecutions_Result_Equals_iff)

definition WorkflowService_ListArchivedWorkflowExecutions_Helper_Args ::
    "ListArchivedWorkflowExecutionsRequest option \<Rightarrow>
    WorkflowService_ListArchivedWorkflowExecutions_Args" where
  "WorkflowService_ListArchivedWorkflowExecutions_Helper_Args r =
      \<lparr>WorkflowService_ListArchivedWorkflowExecutions_Args.ListRequest = r\<rparr>"

definition WorkflowService_ListArchivedWorkflowExecutions_Helper_IsException :: "go_error \<Rightarrow> bool"
    where
  "WorkflowService_ListArchivedWorkflowExecutions_Helper_IsException err =
     (case err of
        E_BadRequestError _ \<Rightarrow> True
      | E_InternalServiceError _ \<Rightarrow> True
      | E_EntityNotExistsError _ \<Rightarrow> True
      | E_ServiceBusyError _ \<Rightarrow> True
      | E_ClientVersionNotSupportedError _ \<Rightarrow> True
      | _ \<Rightarrow> False)"

definition WorkflowService_ListArchivedWorkflowExecutions_Helper_WrapResponse ::
  "ListArchivedWorkflowExecutionsResponse option \<Rightarrow> go_error option \<Rightarrow> go_error +
      WorkflowService_ListArchivedWorkflowExecutions_Result" where
  "WorkflowService_ListArchivedWorkflowExecutions_Helper_WrapResponse success err =
     (case err of None \<Rightarrow> Inr
         (WorkflowService_ListArchivedWorkflowExecutions_Result_zero\<lparr>WorkflowService_ListArchivedWorkflowExecutions_Result.Success := success\<rparr>)
      | Some err \<Rightarrow> (case err of
          E_BadRequestError e \<Rightarrow> (case e of
              None \<Rightarrow> Inl (E_New
                  ''WrapResponse received non-nil error type with nil value for WorkflowService_ListArchivedWorkflowExecutions_Result.BadRequestError'')
            | Some e \<Rightarrow> Inr
                (WorkflowService_ListArchivedWorkflowExecutions_Result_zero\<lparr>WorkflowService_ListArchivedWorkflowExecutions_Result.BadRequestError := Some e\<rparr>))
        | E_InternalServiceError e \<Rightarrow> (case e of
              None \<Rightarrow> Inl (E_New
                  ''WrapResponse received non-nil error type with nil value for WorkflowService_ListArchivedWorkflowExecutions_Result.InternalServiceError'')
            | Some e \<Rightarrow> Inr
                (WorkflowService_ListArchivedWorkflowExecutions_Result_zero\<lparr>WorkflowService_ListArchivedWorkflowExecutions_Result.InternalServiceError := Some e\<rparr>))
        | E_EntityNotExistsError e \<Rightarrow> (case e of
              None \<Rightarrow> Inl (E_New
                  ''WrapResponse received non-nil error type with nil value for WorkflowService_ListArchivedWorkflowExecutions_Result.EntityNotExistError'')
            | Some e \<Rightarrow> Inr
                (WorkflowService_ListArchivedWorkflowExecutions_Result_zero\<lparr>WorkflowService_ListArchivedWorkflowExecutions_Result.EntityNotExistError := Some e\<rparr>))
        | E_ServiceBusyError e \<Rightarrow> (case e of
              None \<Rightarrow> Inl (E_New
                  ''WrapResponse received non-nil error type with nil value for WorkflowService_ListArchivedWorkflowExecutions_Result.ServiceBusyError'')
            | Some e \<Rightarrow> Inr
                (WorkflowService_ListArchivedWorkflowExecutions_Result_zero\<lparr>WorkflowService_ListArchivedWorkflowExecutions_Result.ServiceBusyError := Some e\<rparr>))
        | E_ClientVersionNotSupportedError e \<Rightarrow> (case e of
              None \<Rightarrow> Inl (E_New
                  ''WrapResponse received non-nil error type with nil value for WorkflowService_ListArchivedWorkflowExecutions_Result.ClientVersionNotSupportedError'')
            | Some e \<Rightarrow> Inr
                (WorkflowService_ListArchivedWorkflowExecutions_Result_zero\<lparr>WorkflowService_ListArchivedWorkflowExecutions_Result.ClientVersionNotSupportedError := Some e\<rparr>))
        | _ \<Rightarrow> Inl err))"

definition WorkflowService_ListArchivedWorkflowExecutions_Helper_UnwrapResponse ::
  "WorkflowService_ListArchivedWorkflowExecutions_Result \<Rightarrow> ListArchivedWorkflowExecutionsResponse
      option \<times> go_error option" where
  "WorkflowService_ListArchivedWorkflowExecutions_Helper_UnwrapResponse result =
    (if WorkflowService_ListArchivedWorkflowExecutions_Result.BadRequestError result \<noteq> None then
        (None, Some (E_BadRequestError
        (WorkflowService_ListArchivedWorkflowExecutions_Result.BadRequestError result))) else
     if WorkflowService_ListArchivedWorkflowExecutions_Result.InternalServiceError result \<noteq> None
         then (None, Some (E_InternalServiceError
         (WorkflowService_ListArchivedWorkflowExecutions_Result.InternalServiceError result))) else
     if WorkflowService_ListArchivedWorkflowExecutions_Result.EntityNotExistError result \<noteq> None then
         (None, Some (E_EntityNotExistsError
         (WorkflowService_ListArchivedWorkflowExecutions_Result.EntityNotExistError result))) else
     if WorkflowService_ListArchivedWorkflowExecutions_Result.ServiceBusyError result \<noteq> None then
         (None, Some (E_ServiceBusyError
         (WorkflowService_ListArchivedWorkflowExecutions_Result.ServiceBusyError result))) else
     if WorkflowService_ListArchivedWorkflowExecutions_Result.ClientVersionNotSupportedError result
         \<noteq> None then (None, Some (E_ClientVersionNotSupportedError
         (WorkflowService_ListArchivedWorkflowExecutions_Result.ClientVersionNotSupportedError
         result))) else
     if WorkflowService_ListArchivedWorkflowExecutions_Result.Success result \<noteq> None then
         (WorkflowService_ListArchivedWorkflowExecutions_Result.Success result, None) else
     (None, Some (E_New ''expected a non-void result'')))"

definition handler_ListArchivedWorkflowExecutions ::
  "'v wire_api \<Rightarrow> ('ctx \<Rightarrow> ListArchivedWorkflowExecutionsRequest option \<Rightarrow>
      ListArchivedWorkflowExecutionsResponse option \<times> go_error option) \<Rightarrow>
   ('ctx, 'v) unary_handler" where
  "handler_ListArchivedWorkflowExecutions W impl ctx body =
     (case WorkflowService_ListArchivedWorkflowExecutions_Args_FromWire W body
         WorkflowService_ListArchivedWorkflowExecutions_Args_zero of
      Inl err \<Rightarrow> (no_response, Some err)
    | Inr args \<Rightarrow>
      let (success, err) = impl ctx (WorkflowService_ListArchivedWorkflowExecutions_Args.ListRequest
          args);
          hadError = (err \<noteq> None)
      in case WorkflowService_ListArchivedWorkflowExecutions_Helper_WrapResponse success err of
           Inl err \<Rightarrow> (no_response, Some err)
         | Inr result \<Rightarrow>
             (\<lparr>Body = Some (WorkflowService_ListArchivedWorkflowExecutions_Result_enveloper W
                 result),
               IsApplicationError = hadError\<rparr>, None))"

definition client_ListArchivedWorkflowExecutions ::
  "'v wire_api \<Rightarrow> ('ctx, 'v) thrift_client \<Rightarrow> 'ctx \<Rightarrow> ListArchivedWorkflowExecutionsRequest option \<Rightarrow>
   ListArchivedWorkflowExecutionsResponse option \<times> go_error option" where
  "client_ListArchivedWorkflowExecutions W call ctx r =
     (let args = WorkflowService_ListArchivedWorkflowExecutions_Helper_Args r in
      case call ctx (WorkflowService_ListArchivedWorkflowExecutions_Args_enveloper W args) of
        Inl e \<Rightarrow> (None, Some e)
      | Inr body \<Rightarrow>
          (case WorkflowService_ListArchivedWorkflowExecutions_Result_FromWire W body
              WorkflowService_ListArchivedWorkflowExecutions_Result_zero of
             Inl e \<Rightarrow> (None, Some e)
           | Inr result \<Rightarrow> WorkflowService_ListArchivedWorkflowExecutions_Helper_UnwrapResponse
               result))"

lemma WorkflowService_ListArchivedWorkflowExecutions_Args_merge:
  "(case x of None \<Rightarrow> Inr \<lparr>WorkflowService_ListArchivedWorkflowExecutions_Args.ListRequest = a0\<rparr> |
      Some y \<Rightarrow> Inr \<lparr>WorkflowService_ListArchivedWorkflowExecutions_Args.ListRequest = b0 y\<rparr>) =
   Inr \<lparr>WorkflowService_ListArchivedWorkflowExecutions_Args.ListRequest = (case x of None \<Rightarrow> a0 |
       Some y \<Rightarrow> b0 y)\<rparr>"
  by (cases x) simp_all

interpretation WorkflowService_ListArchivedWorkflowExecutions_Args: thrift_struct W
  "WorkflowService_ListArchivedWorkflowExecutions_Args_ToWire W"
      "WorkflowService_ListArchivedWorkflowExecutions_Args_FromWire W"
  WorkflowService_ListArchivedWorkflowExecutions_Args_zero "\<lambda>x. True" for W
proof (rule thrift_structI)
  fix x :: WorkflowService_ListArchivedWorkflowExecutions_Args
  assume laws: "wire_laws W"
  obtain enc0 where e0: "ListArchivedWorkflowExecutionsRequest_ToWire W = (\<lambda>x. Inr (enc0 x))"
      "\<And>x. wire_api.Type W (enc0 x) = TStruct"
      "\<And>x. Writable W (enc0 x) \<longleftrightarrow> (\<lambda>_. True) x"
      "\<And>x. (\<lambda>_. True) x \<Longrightarrow> ListArchivedWorkflowExecutionsRequest_FromWire W (enc0 x)
          ListArchivedWorkflowExecutionsRequest_zero = Inr x"
    by (rule ListArchivedWorkflowExecutionsRequest.encoder [OF laws]) (rule that)
  show "\<exists>w. WorkflowService_ListArchivedWorkflowExecutions_Args_ToWire W x = Inr w \<and> wire_api.Type W
      w = TStruct \<and>
      (Writable W w \<longleftrightarrow> True) \<and> (True \<longrightarrow> WorkflowService_ListArchivedWorkflowExecutions_Args_FromWire W
          w WorkflowService_ListArchivedWorkflowExecutions_Args_zero = Inr x)"
    by (cases x) (simp cong: option.case_cong add: codec_rules
        WorkflowService_ListArchivedWorkflowExecutions_Args_merge
        WorkflowService_ListArchivedWorkflowExecutions_Args_ToWire_def
        WorkflowService_ListArchivedWorkflowExecutions_Args_FromWire_def
      WorkflowService_ListArchivedWorkflowExecutions_Args_zero_def
          ListArchivedWorkflowExecutionsRequest_Read_def if_set_def laws e0)
qed

lemma WorkflowService_ListArchivedWorkflowExecutions_Result_merge:
  "(case x of None \<Rightarrow> Inr \<lparr>WorkflowService_ListArchivedWorkflowExecutions_Result.Success = a0,
      WorkflowService_ListArchivedWorkflowExecutions_Result.BadRequestError = a1,
      WorkflowService_ListArchivedWorkflowExecutions_Result.InternalServiceError = a2,
      WorkflowService_ListArchivedWorkflowExecutions_Result.EntityNotExistError = a3,
      WorkflowService_ListArchivedWorkflowExecutions_Result.ServiceBusyError = a4,
      WorkflowService_ListArchivedWorkflowExecutions_Result.ClientVersionNotSupportedError = a5\<rparr> |
      Some y \<Rightarrow> Inr \<lparr>WorkflowService_ListArchivedWorkflowExecutions_Result.Success = b0 y,
      WorkflowService_ListArchivedWorkflowExecutions_Result.BadRequestError = b1 y,
      WorkflowService_ListArchivedWorkflowExecutions_Result.InternalServiceError = b2 y,
      WorkflowService_ListArchivedWorkflowExecutions_Result.EntityNotExistError = b3 y,
      WorkflowService_ListArchivedWorkflowExecutions_Result.ServiceBusyError = b4 y,
      WorkflowService_ListArchivedWorkflowExecutions_Result.ClientVersionNotSupportedError = b5 y\<rparr>)
      =
   Inr \<lparr>WorkflowService_ListArchivedWorkflowExecutions_Result.Success = (case x of None \<Rightarrow> a0 | Some
       y \<Rightarrow> b0 y), WorkflowService_ListArchivedWorkflowExecutions_Result.BadRequestError = (case x of
       None \<Rightarrow> a1 | Some y \<Rightarrow> b1 y),
       WorkflowService_ListArchivedWorkflowExecutions_Result.InternalServiceError = (case x of None
       \<Rightarrow> a2 | Some y \<Rightarrow> b2 y),
       WorkflowService_ListArchivedWorkflowExecutions_Result.EntityNotExistError = (case x of None \<Rightarrow>
       a3 | Some y \<Rightarrow> b3 y), WorkflowService_ListArchivedWorkflowExecutions_Result.ServiceBusyError =
       (case x of None \<Rightarrow> a4 | Some y \<Rightarrow> b4 y),
       WorkflowService_ListArchivedWorkflowExecutions_Result.ClientVersionNotSupportedError = (case
       x of None \<Rightarrow> a5 | Some y \<Rightarrow> b5 y)\<rparr>"
  by (cases x) simp_all

interpretation WorkflowService_ListArchivedWorkflowExecutions_Result: thrift_struct W
  "WorkflowService_ListArchivedWorkflowExecutions_Result_ToWire W"
      "WorkflowService_ListArchivedWorkflowExecutions_Result_FromWire W"
  WorkflowService_ListArchivedWorkflowExecutions_Result_zero "\<lambda>r.
      WorkflowService_ListArchivedWorkflowExecutions_Result_count r = 1 \<and> if_set
      ListArchivedWorkflowExecutionsResponse_complete
      (WorkflowService_ListArchivedWorkflowExecutions_Result.Success r)" for W
proof (rule thrift_checkedI)
  fix x :: WorkflowService_ListArchivedWorkflowExecutions_Result
  assume laws: "wire_laws W"
  obtain enc0 where e0: "ListArchivedWorkflowExecutionsResponse_ToWire W = (\<lambda>x. Inr (enc0 x))"
      "\<And>x. wire_api.Type W (enc0 x) = TStruct"
      "\<And>x. Writable W (enc0 x) \<longleftrightarrow> ListArchivedWorkflowExecutionsResponse_complete x"
      "\<And>x. ListArchivedWorkflowExecutionsResponse_complete x \<Longrightarrow>
          ListArchivedWorkflowExecutionsResponse_FromWire W (enc0 x)
          ListArchivedWorkflowExecutionsResponse_zero = Inr x"
    by (rule ListArchivedWorkflowExecutionsResponse.encoder [OF laws]) (rule that)
  obtain enc1 where e1: "BadRequestError_ToWire W = (\<lambda>x. Inr (enc1 x))"
      "\<And>x. wire_api.Type W (enc1 x) = TStruct"
      "\<And>x. Writable W (enc1 x) \<longleftrightarrow> (\<lambda>_. True) x"
      "\<And>x. (\<lambda>_. True) x \<Longrightarrow> BadRequestError_FromWire W (enc1 x) BadRequestError_zero = Inr x"
    by (rule BadRequestError.encoder [OF laws]) (rule that)
  obtain enc2 where e2: "InternalServiceError_ToWire W = (\<lambda>x. Inr (enc2 x))"
      "\<And>x. wire_api.Type W (enc2 x) = TStruct"
      "\<And>x. Writable W (enc2 x) \<longleftrightarrow> (\<lambda>_. True) x"
      "\<And>x. (\<lambda>_. True) x \<Longrightarrow> InternalServiceError_FromWire W (enc2 x) InternalServiceError_zero = Inr
          x"
    by (rule InternalServiceError.encoder [OF laws]) (rule that)
  obtain enc3 where e3: "EntityNotExistsError_ToWire W = (\<lambda>x. Inr (enc3 x))"
      "\<And>x. wire_api.Type W (enc3 x) = TStruct"
      "\<And>x. Writable W (enc3 x) \<longleftrightarrow> (\<lambda>_. True) x"
      "\<And>x. (\<lambda>_. True) x \<Longrightarrow> EntityNotExistsError_FromWire W (enc3 x) EntityNotExistsError_zero = Inr
          x"
    by (rule EntityNotExistsError.encoder [OF laws]) (rule that)
  obtain enc4 where e4: "ServiceBusyError_ToWire W = (\<lambda>x. Inr (enc4 x))"
      "\<And>x. wire_api.Type W (enc4 x) = TStruct"
      "\<And>x. Writable W (enc4 x) \<longleftrightarrow> (\<lambda>_. True) x"
      "\<And>x. (\<lambda>_. True) x \<Longrightarrow> ServiceBusyError_FromWire W (enc4 x) ServiceBusyError_zero = Inr x"
    by (rule ServiceBusyError.encoder [OF laws]) (rule that)
  obtain enc5 where e5: "ClientVersionNotSupportedError_ToWire W = (\<lambda>x. Inr (enc5 x))"
      "\<And>x. wire_api.Type W (enc5 x) = TStruct"
      "\<And>x. Writable W (enc5 x) \<longleftrightarrow> (\<lambda>_. True) x"
      "\<And>x. (\<lambda>_. True) x \<Longrightarrow> ClientVersionNotSupportedError_FromWire W (enc5 x)
          ClientVersionNotSupportedError_zero = Inr x"
    by (rule ClientVersionNotSupportedError.encoder [OF laws]) (rule that)
  let ?fs = "((((opt_field 0 enc0 (WorkflowService_ListArchivedWorkflowExecutions_Result.Success x)
      @
      opt_field 1 enc1 (WorkflowService_ListArchivedWorkflowExecutions_Result.BadRequestError x)) @
      opt_field 2 enc2 (WorkflowService_ListArchivedWorkflowExecutions_Result.InternalServiceError
          x)) @
      opt_field 3 enc3 (WorkflowService_ListArchivedWorkflowExecutions_Result.EntityNotExistError
          x)) @
      opt_field 4 enc4 (WorkflowService_ListArchivedWorkflowExecutions_Result.ServiceBusyError x)) @
      opt_field 5 enc5
          (WorkflowService_ListArchivedWorkflowExecutions_Result.ClientVersionNotSupportedError x)"
  let ?check = "\<lambda>r. if WorkflowService_ListArchivedWorkflowExecutions_Result_count x \<noteq> 1 then Inl
      (E_Errorf
      ''WorkflowService_ListArchivedWorkflowExecutions_Result should have exactly one field: got %v fields'' (WorkflowService_ListArchivedWorkflowExecutions_Result_count x)) else Inr r"
  have "length ?fs = WorkflowService_ListArchivedWorkflowExecutions_Result_count x"
    by (simp add: WorkflowService_ListArchivedWorkflowExecutions_Result_count_def length_opt_field
        split del: if_split)
  then have "WorkflowService_ListArchivedWorkflowExecutions_Result_ToWire W x = ?check
      (NewValueStruct W ?fs)"
    by (simp only: WorkflowService_ListArchivedWorkflowExecutions_Result_ToWire_def put_opt_field
        and_then.simps append_Nil e0(1) e1(1) e2(1) e3(1) e4(1) e5(1))
  moreover have "WorkflowService_ListArchivedWorkflowExecutions_Result_FromWire W (NewValueStruct W
      ?fs) WorkflowService_ListArchivedWorkflowExecutions_Result_zero = ?check x"
    if "if_set ListArchivedWorkflowExecutionsResponse_complete
        (WorkflowService_ListArchivedWorkflowExecutions_Result.Success x)"
    by (cases x, hypsubst) (simp cong: option.case_cong split del: if_split add: codec_rules Let_def
        WorkflowService_ListArchivedWorkflowExecutions_Result_merge
      WorkflowService_ListArchivedWorkflowExecutions_Result_FromWire_def
          WorkflowService_ListArchivedWorkflowExecutions_Result_zero_def laws if_set_def that
          [unfolded if_set_def]
      BadRequestError_Read_def
      ClientVersionNotSupportedError_Read_def
      EntityNotExistsError_Read_def
      InternalServiceError_Read_def
      ListArchivedWorkflowExecutionsResponse_Read_def
      ServiceBusyError_Read_def
      e0 e1 e2 e3 e4 e5)
  ultimately show "if WorkflowService_ListArchivedWorkflowExecutions_Result_count x = 1
      then \<exists>w. WorkflowService_ListArchivedWorkflowExecutions_Result_ToWire W x = Inr w \<and>
          wire_api.Type W w = TStruct \<and>
        (Writable W w \<longleftrightarrow> if_set ListArchivedWorkflowExecutionsResponse_complete
            (WorkflowService_ListArchivedWorkflowExecutions_Result.Success x)) \<and> (if_set
            ListArchivedWorkflowExecutionsResponse_complete
            (WorkflowService_ListArchivedWorkflowExecutions_Result.Success x) \<longrightarrow>
            WorkflowService_ListArchivedWorkflowExecutions_Result_FromWire W w
            WorkflowService_ListArchivedWorkflowExecutions_Result_zero = Inr x)
      else \<exists>e. WorkflowService_ListArchivedWorkflowExecutions_Result_ToWire W x = Inl e"
    by (simp add: laws codec_rules e0 e1 e2 e3 e4 e5)
qed

interpretation ListArchivedWorkflowExecutions: rpc_method W
  "WorkflowService_ListArchivedWorkflowExecutions_Args_ToWire W"
      "WorkflowService_ListArchivedWorkflowExecutions_Args_FromWire W"
      WorkflowService_ListArchivedWorkflowExecutions_Args_zero "\<lambda>x. True"
  "WorkflowService_ListArchivedWorkflowExecutions_Result_ToWire W"
      "WorkflowService_ListArchivedWorkflowExecutions_Result_FromWire W"
      WorkflowService_ListArchivedWorkflowExecutions_Result_zero
  "\<lambda>r. WorkflowService_ListArchivedWorkflowExecutions_Result_count r = 1 \<and> if_set
      ListArchivedWorkflowExecutionsResponse_complete
      (WorkflowService_ListArchivedWorkflowExecutions_Result.Success r)"
      "''ListArchivedWorkflowExecutions''"
  WorkflowService_ListArchivedWorkflowExecutions_Helper_Args
      "WorkflowService_ListArchivedWorkflowExecutions_Args.ListRequest"
  "\<lambda>(success, err). WorkflowService_ListArchivedWorkflowExecutions_Helper_WrapResponse success err"
      WorkflowService_ListArchivedWorkflowExecutions_Helper_UnwrapResponse
  "\<lambda>out. snd out \<noteq> None" "carried ListArchivedWorkflowExecutionsResponse_complete
      WorkflowService_ListArchivedWorkflowExecutions_Helper_IsException" error_first "\<lambda>e. (None,
      Some e)"
  "handler_ListArchivedWorkflowExecutions W" "client_ListArchivedWorkflowExecutions W" for W
proof
  fix out :: "ListArchivedWorkflowExecutionsResponse option \<times> go_error option"
  assume "carried ListArchivedWorkflowExecutionsResponse_complete
      WorkflowService_ListArchivedWorkflowExecutions_Helper_IsException out"
  then show "case (\<lambda>(success, err).
      WorkflowService_ListArchivedWorkflowExecutions_Helper_WrapResponse success err) out of Inl e \<Rightarrow>
      False
      | Inr res \<Rightarrow> (WorkflowService_ListArchivedWorkflowExecutions_Result_count res = 1 \<and> if_set
          ListArchivedWorkflowExecutionsResponse_complete
          (WorkflowService_ListArchivedWorkflowExecutions_Result.Success res)) \<and>
          WorkflowService_ListArchivedWorkflowExecutions_Helper_UnwrapResponse res = error_first
              out"
    by (cases out; cases "snd out"; cases "the (snd out)")
      (auto simp: WorkflowService_ListArchivedWorkflowExecutions_Helper_IsException_def
          WorkflowService_ListArchivedWorkflowExecutions_Helper_WrapResponse_def
          WorkflowService_ListArchivedWorkflowExecutions_Helper_UnwrapResponse_def
        declared_nonnil_def WorkflowService_ListArchivedWorkflowExecutions_Result_zero_def
            WorkflowService_ListArchivedWorkflowExecutions_Result_count_def elim!: present.elims)
next
  fix out :: "ListArchivedWorkflowExecutionsResponse option \<times> go_error option"
  assume "\<not> carried ListArchivedWorkflowExecutionsResponse_complete
      WorkflowService_ListArchivedWorkflowExecutions_Helper_IsException out"
  then show "case (\<lambda>(success, err).
      WorkflowService_ListArchivedWorkflowExecutions_Helper_WrapResponse success err) out of Inl e \<Rightarrow>
      True
      | Inr res \<Rightarrow> \<not> (WorkflowService_ListArchivedWorkflowExecutions_Result_count res = 1 \<and> if_set
          ListArchivedWorkflowExecutionsResponse_complete
          (WorkflowService_ListArchivedWorkflowExecutions_Result.Success res))"
    by (cases out; cases "snd out"; cases "the (snd out)")
      (auto simp: WorkflowService_ListArchivedWorkflowExecutions_Helper_IsException_def
          WorkflowService_ListArchivedWorkflowExecutions_Helper_WrapResponse_def declared_nonnil_def
        WorkflowService_ListArchivedWorkflowExecutions_Result_count_def
            WorkflowService_ListArchivedWorkflowExecutions_Result_zero_def split: option.splits)
qed (auto simp: WorkflowService_ListArchivedWorkflowExecutions_Helper_Args_def
    handler_ListArchivedWorkflowExecutions_def client_ListArchivedWorkflowExecutions_def
      WorkflowService_ListArchivedWorkflowExecutions_Args_enveloper_def
          WorkflowService_ListArchivedWorkflowExecutions_Result_enveloper_def
      Let_def split: sum.splits prod.splits)

section \<open>ScanWorkflowExecutions\<close>

record WorkflowService_ScanWorkflowExecutions_Args =
  ListRequest :: "ListWorkflowExecutionsRequest option"

definition WorkflowService_ScanWorkflowExecutions_Args_zero ::
    WorkflowService_ScanWorkflowExecutions_Args where
  "WorkflowService_ScanWorkflowExecutions_Args_zero =
      \<lparr>WorkflowService_ScanWorkflowExecutions_Args.ListRequest = None\<rparr>"

definition WorkflowService_ScanWorkflowExecutions_Args_ToWire ::
  "'v wire_api \<Rightarrow> WorkflowService_ScanWorkflowExecutions_Args \<Rightarrow> go_error + 'v" where
  "WorkflowService_ScanWorkflowExecutions_Args_ToWire W v =
     and_then (put_opt 1 (ListWorkflowExecutionsRequest_ToWire W)
         (WorkflowService_ScanWorkflowExecutions_Args.ListRequest v) [])
       (\<lambda>fields.
     Inr (NewValueStruct W fields))"

definition WorkflowService_ScanWorkflowExecutions_Args_FromWire ::
  "'v wire_api \<Rightarrow> 'v \<Rightarrow> WorkflowService_ScanWorkflowExecutions_Args \<Rightarrow> go_error +
      WorkflowService_ScanWorkflowExecutions_Args" where
  "WorkflowService_ScanWorkflowExecutions_Args_FromWire W w v =
     foldM (\<lambda>v (fid, fval).
       if fid = 1 then
         if wire_api.Type W fval = TStruct
         then and_then (ListWorkflowExecutionsRequest_Read W fval) (\<lambda>x. Inr
             (v\<lparr>WorkflowService_ScanWorkflowExecutions_Args.ListRequest := Some x\<rparr>))
         else Inr v
       else Inr v) (GetStruct W w) v"

definition WorkflowService_ScanWorkflowExecutions_Args_enveloper ::
  "'v wire_api \<Rightarrow> WorkflowService_ScanWorkflowExecutions_Args \<Rightarrow> 'v enveloper" where
  "WorkflowService_ScanWorkflowExecutions_Args_enveloper W v =
     \<lparr>MethodName = ''ScanWorkflowExecutions'', EnvelopeType = Call, EnvelopeToWire =
         WorkflowService_ScanWorkflowExecutions_Args_ToWire W v\<rparr>"

definition WorkflowService_ScanWorkflowExecutions_Args_Equals ::
  "WorkflowService_ScanWorkflowExecutions_Args option \<Rightarrow> WorkflowService_ScanWorkflowExecutions_Args
      option \<Rightarrow> bool" where
  "WorkflowService_ScanWorkflowExecutions_Args_Equals v rhs =
     (case v of None \<Rightarrow> rhs = None
      | Some v \<Rightarrow> (case rhs of None \<Rightarrow> False
        | Some rhs \<Rightarrow>
          if \<not> both_set_and (\<lambda>x y. ListWorkflowExecutionsRequest_Equals (Some x) (Some y))
              (WorkflowService_ScanWorkflowExecutions_Args.ListRequest v)
              (WorkflowService_ScanWorkflowExecutions_Args.ListRequest rhs) then False else
          True))"

lemma WorkflowService_ScanWorkflowExecutions_Args_Equals_iff [simp]:
    "WorkflowService_ScanWorkflowExecutions_Args_Equals x y \<longleftrightarrow> x = y"
  by (cases x; cases y) (auto simp: WorkflowService_ScanWorkflowExecutions_Args_Equals_def)

record WorkflowService_ScanWorkflowExecutions_Result =
  Success :: "ListWorkflowExecutionsResponse option"
  BadRequestError :: "BadRequestError option"
  InternalServiceError :: "InternalServiceError option"
  EntityNotExistError :: "EntityNotExistsError option"
  ServiceBusyError :: "ServiceBusyError option"
  ClientVersionNotSupportedError :: "ClientVersionNotSupportedError option"

definition WorkflowService_ScanWorkflowExecutions_Result_count ::
    "WorkflowService_ScanWorkflowExecutions_Result \<Rightarrow> nat" where
  "WorkflowService_ScanWorkflowExecutions_Result_count v =
     (if WorkflowService_ScanWorkflowExecutions_Result.Success v \<noteq> None then 1 else 0) +
     (if WorkflowService_ScanWorkflowExecutions_Result.BadRequestError v \<noteq> None then 1 else 0) +
     (if WorkflowService_ScanWorkflowExecutions_Result.InternalServiceError v \<noteq> None then 1 else 0)
         +
     (if WorkflowService_ScanWorkflowExecutions_Result.EntityNotExistError v \<noteq> None then 1 else 0) +
     (if WorkflowService_ScanWorkflowExecutions_Result.ServiceBusyError v \<noteq> None then 1 else 0) +
     (if WorkflowService_ScanWorkflowExecutions_Result.ClientVersionNotSupportedError v \<noteq> None then
         1 else 0)"

definition WorkflowService_ScanWorkflowExecutions_Result_zero ::
    WorkflowService_ScanWorkflowExecutions_Result where
  "WorkflowService_ScanWorkflowExecutions_Result_zero =
      \<lparr>WorkflowService_ScanWorkflowExecutions_Result.Success = None,
      WorkflowService_ScanWorkflowExecutions_Result.BadRequestError = None,
      WorkflowService_ScanWorkflowExecutions_Result.InternalServiceError = None,
      WorkflowService_ScanWorkflowExecutions_Result.EntityNotExistError = None,
      WorkflowService_ScanWorkflowExecutions_Result.ServiceBusyError = None,
      WorkflowService_ScanWorkflowExecutions_Result.ClientVersionNotSupportedError = None\<rparr>"

definition WorkflowService_ScanWorkflowExecutions_Result_ToWire ::
  "'v wire_api \<Rightarrow> WorkflowService_ScanWorkflowExecutions_Result \<Rightarrow> go_error + 'v" where
  "WorkflowService_ScanWorkflowExecutions_Result_ToWire W v =
     and_then (put_opt 0 (ListWorkflowExecutionsResponse_ToWire W)
         (WorkflowService_ScanWorkflowExecutions_Result.Success v) [])
       (\<lambda>fields.
     and_then (put_opt 1 (BadRequestError_ToWire W)
         (WorkflowService_ScanWorkflowExecutions_Result.BadRequestError v) fields)
       (\<lambda>fields.
     and_then (put_opt 2 (InternalServiceError_ToWire W)
         (WorkflowService_ScanWorkflowExecutions_Result.InternalServiceError v) fields)
       (\<lambda>fields.
     and_then (put_opt 3 (EntityNotExistsError_ToWire W)
         (WorkflowService_ScanWorkflowExecutions_Result.EntityNotExistError v) fields)
       (\<lambda>fields.
     and_then (put_opt 4 (ServiceBusyError_ToWire W)
         (WorkflowService_ScanWorkflowExecutions_Result.ServiceBusyError v) fields)
       (\<lambda>fields.
     and_then (put_opt 5 (ClientVersionNotSupportedError_ToWire W)
         (WorkflowService_ScanWorkflowExecutions_Result.ClientVersionNotSupportedError v) fields)
       (\<lambda>fields.
     if length fields \<noteq> 1
     then Inl (E_Errorf
         ''WorkflowService_ScanWorkflowExecutions_Result should have exactly one field: got %v fields'' (length fields))
     else Inr (NewValueStruct W fields)))))))"

definition WorkflowService_ScanWorkflowExecutions_Result_FromWire ::
  "'v wire_api \<Rightarrow> 'v \<Rightarrow> WorkflowService_ScanWorkflowExecutions_Result \<Rightarrow> go_error +
      WorkflowService_ScanWorkflowExecutions_Result" where
  "WorkflowService_ScanWorkflowExecutions_Result_FromWire W w v =
     and_then (foldM (\<lambda>v (fid, fval).
       if fid = 0 then
         if wire_api.Type W fval = TStruct
         then and_then (ListWorkflowExecutionsResponse_Read W fval) (\<lambda>x. Inr
             (v\<lparr>WorkflowService_ScanWorkflowExecutions_Result.Success := Some x\<rparr>))
         else Inr v
       else if fid = 1 then
         if wire_api.Type W fval = TStruct
         then and_then (BadRequestError_Read W fval) (\<lambda>x. Inr
             (v\<lparr>WorkflowService_ScanWorkflowExecutions_Result.BadRequestError := Some x\<rparr>))
         else Inr v
       else if fid = 2 then
         if wire_api.Type W fval = TStruct
         then and_then (InternalServiceError_Read W fval) (\<lambda>x. Inr
             (v\<lparr>WorkflowService_ScanWorkflowExecutions_Result.InternalServiceError := Some x\<rparr>))
         else Inr v
       else if fid = 3 then
         if wire_api.Type W fval = TStruct
         then and_then (EntityNotExistsError_Read W fval) (\<lambda>x. Inr
             (v\<lparr>WorkflowService_ScanWorkflowExecutions_Result.EntityNotExistError := Some x\<rparr>))
         else Inr v
       else if fid = 4 then
         if wire_api.Type W fval = TStruct
         then and_then (ServiceBusyError_Read W fval) (\<lambda>x. Inr
             (v\<lparr>WorkflowService_ScanWorkflowExecutions_Result.ServiceBusyError := Some x\<rparr>))
         else Inr v
       else if fid = 5 then
         if wire_api.Type W fval = TStruct
         then and_then (ClientVersionNotSupportedError_Read W fval) (\<lambda>x. Inr
             (v\<lparr>WorkflowService_ScanWorkflowExecutions_Result.ClientVersionNotSupportedError := Some
             x\<rparr>))
         else Inr v
       else Inr v) (GetStruct W w) v) (\<lambda>v.
     let count = WorkflowService_ScanWorkflowExecutions_Result_count v in
     if count \<noteq> 1
     then Inl (E_Errorf
         ''WorkflowService_ScanWorkflowExecutions_Result should have exactly one field: got %v fields'' count)
     else Inr v)"

definition WorkflowService_ScanWorkflowExecutions_Result_enveloper ::
  "'v wire_api \<Rightarrow> WorkflowService_ScanWorkflowExecutions_Result \<Rightarrow> 'v enveloper" where
  "WorkflowService_ScanWorkflowExecutions_Result_enveloper W v =
     \<lparr>MethodName = ''ScanWorkflowExecutions'', EnvelopeType = Reply, EnvelopeToWire =
         WorkflowService_ScanWorkflowExecutions_Result_ToWire W v\<rparr>"

definition WorkflowService_ScanWorkflowExecutions_Result_Equals ::
  "WorkflowService_ScanWorkflowExecutions_Result option \<Rightarrow>
      WorkflowService_ScanWorkflowExecutions_Result option \<Rightarrow> bool" where
  "WorkflowService_ScanWorkflowExecutions_Result_Equals v rhs =
     (case v of None \<Rightarrow> rhs = None
      | Some v \<Rightarrow> (case rhs of None \<Rightarrow> False
        | Some rhs \<Rightarrow>
          if \<not> both_set_and (\<lambda>x y. ListWorkflowExecutionsResponse_Equals (Some x) (Some y))
              (WorkflowService_ScanWorkflowExecutions_Result.Success v)
              (WorkflowService_ScanWorkflowExecutions_Result.Success rhs) then False else
          if \<not> both_set_and (\<lambda>x y. BadRequestError_Equals (Some x) (Some y))
              (WorkflowService_ScanWorkflowExecutions_Result.BadRequestError v)
              (WorkflowService_ScanWorkflowExecutions_Result.BadRequestError rhs) then False else
          if \<not> both_set_and (\<lambda>x y. InternalServiceError_Equals (Some x) (Some y))
              (WorkflowService_ScanWorkflowExecutions_Result.InternalServiceError v)
              (WorkflowService_ScanWorkflowExecutions_Result.InternalServiceError rhs) then False
              else
          if \<not> both_set_and (\<lambda>x y. EntityNotExistsError_Equals (Some x) (Some y))
              (WorkflowService_ScanWorkflowExecutions_Result.EntityNotExistError v)
              (WorkflowService_ScanWorkflowExecutions_Result.EntityNotExistError rhs) then False
              else
          if \<not> both_set_and (\<lambda>x y. ServiceBusyError_Equals (Some x) (Some y))
              (WorkflowService_ScanWorkflowExecutions_Result.ServiceBusyError v)
              (WorkflowService_ScanWorkflowExecutions_Result.ServiceBusyError rhs) then False else
          if \<not> both_set_and (\<lambda>x y. ClientVersionNotSupportedError_Equals (Some x) (Some y))
              (WorkflowService_ScanWorkflowExecutions_Result.ClientVersionNotSupportedError v)
              (WorkflowService_ScanWorkflowExecutions_Result.ClientVersionNotSupportedError rhs)
              then False else
          True))"

definition WorkflowService_ScanWorkflowExecutions_Result_comparable ::
    "WorkflowService_ScanWorkflowExecutions_Result \<Rightarrow> bool" where
  "WorkflowService_ScanWorkflowExecutions_Result_comparable v \<longleftrightarrow>
     if_set ListWorkflowExecutionsResponse_comparable
         (WorkflowService_ScanWorkflowExecutions_Result.Success v)"

lemma WorkflowService_ScanWorkflowExecutions_Result_Equals_iff:
  "if_set WorkflowService_ScanWorkflowExecutions_Result_comparable x \<Longrightarrow> if_set
      WorkflowService_ScanWorkflowExecutions_Result_comparable y \<Longrightarrow>
      WorkflowService_ScanWorkflowExecutions_Result_Equals x y \<longleftrightarrow> x = y"
  by (cases x; cases y) (simp_all add: WorkflowService_ScanWorkflowExecutions_Result_Equals_def
      WorkflowService_ScanWorkflowExecutions_Result_comparable_def if_not_False,
    fastforce intro: WorkflowService_ScanWorkflowExecutions_Result.equality)

lemma WorkflowService_ScanWorkflowExecutions_Result_fields_equal [simp]:
  "if_set WorkflowService_ScanWorkflowExecutions_Result_comparable x \<Longrightarrow> if_set
      WorkflowService_ScanWorkflowExecutions_Result_comparable y \<Longrightarrow>
    both_set_and (\<lambda>x y. WorkflowService_ScanWorkflowExecutions_Result_Equals (Some x) (Some y)) x y
        \<longleftrightarrow> x = y"
  by (rule both_set_and_iff [where P = WorkflowService_ScanWorkflowExecutions_Result_comparable])
      (simp_all add: WorkflowService_ScanWorkflowExecutions_Result_Equals_iff)

definition WorkflowService_ScanWorkflowExecutions_Helper_Args :: "ListWorkflowExecutionsRequest
    option \<Rightarrow> WorkflowService_ScanWorkflowExecutions_Args" where
  "WorkflowService_ScanWorkflowExecutions_Helper_Args r =
      \<lparr>WorkflowService_ScanWorkflowExecutions_Args.ListRequest = r\<rparr>"

definition WorkflowService_ScanWorkflowExecutions_Helper_IsException :: "go_error \<Rightarrow> bool" where
  "WorkflowService_ScanWorkflowExecutions_Helper_IsException err =
     (case err of
        E_BadRequestError _ \<Rightarrow> True
      | E_InternalServiceError _ \<Rightarrow> True
      | E_EntityNotExistsError _ \<Rightarrow> True
      | E_ServiceBusyError _ \<Rightarrow> True
      | E_ClientVersionNotSupportedError _ \<Rightarrow> True
      | _ \<Rightarrow> False)"

definition WorkflowService_ScanWorkflowExecutions_Helper_WrapResponse ::
  "ListWorkflowExecutionsResponse option \<Rightarrow> go_error option \<Rightarrow> go_error +
      WorkflowService_ScanWorkflowExecutions_Result" where
  "WorkflowService_ScanWorkflowExecutions_Helper_WrapResponse success err =
     (case err of None \<Rightarrow> Inr
         (WorkflowService_ScanWorkflowExecutions_Result_zero\<lparr>WorkflowService_ScanWorkflowExecutions_Result.Success := success\<rparr>)
      | Some err \<Rightarrow> (case err of
          E_BadRequestError e \<Rightarrow> (case e of
              None \<Rightarrow> Inl (E_New
                  ''WrapResponse received non-nil error type with nil value for WorkflowService_ScanWorkflowExecutions_Result.BadRequestError'')
            | Some e \<Rightarrow> Inr
                (WorkflowService_ScanWorkflowExecutions_Result_zero\<lparr>WorkflowService_ScanWorkflowExecutions_Result.BadRequestError := Some e\<rparr>))
        | E_InternalServiceError e \<Rightarrow> (case e of
              None \<Rightarrow> Inl (E_New
                  ''WrapResponse received non-nil error type with nil value for WorkflowService_ScanWorkflowExecutions_Result.InternalServiceError'')
            | Some e \<Rightarrow> Inr
                (WorkflowService_ScanWorkflowExecutions_Result_zero\<lparr>WorkflowService_ScanWorkflowExecutions_Result.InternalServiceError := Some e\<rparr>))
        | E_EntityNotExistsError e \<Rightarrow> (case e of
              None \<Rightarrow> Inl (E_New
                  ''WrapResponse received non-nil error type with nil value for WorkflowService_ScanWorkflowExecutions_Result.EntityNotExistError'')
            | Some e \<Rightarrow> Inr
                (WorkflowService_ScanWorkflowExecutions_Result_zero\<lparr>WorkflowService_ScanWorkflowExecutions_Result.EntityNotExistError := Some e\<rparr>))
        | E_ServiceBusyError e \<Rightarrow> (case e of
              None \<Rightarrow> Inl (E_New
                  ''WrapResponse received non-nil error type with nil value for WorkflowService_ScanWorkflowExecutions_Result.ServiceBusyError'')
            | Some e \<Rightarrow> Inr
                (WorkflowService_ScanWorkflowExecutions_Result_zero\<lparr>WorkflowService_ScanWorkflowExecutions_Result.ServiceBusyError := Some e\<rparr>))
        | E_ClientVersionNotSupportedError e \<Rightarrow> (case e of
              None \<Rightarrow> Inl (E_New
                  ''WrapResponse received non-nil error type with nil value for WorkflowService_ScanWorkflowExecutions_Result.ClientVersionNotSupportedError'')
            | Some e \<Rightarrow> Inr
                (WorkflowService_ScanWorkflowExecutions_Result_zero\<lparr>WorkflowService_ScanWorkflowExecutions_Result.ClientVersionNotSupportedError := Some e\<rparr>))
        | _ \<Rightarrow> Inl err))"

definition WorkflowService_ScanWorkflowExecutions_Helper_UnwrapResponse ::
  "WorkflowService_ScanWorkflowExecutions_Result \<Rightarrow> ListWorkflowExecutionsResponse option \<times> go_error
      option" where
  "WorkflowService_ScanWorkflowExecutions_Helper_UnwrapResponse result =
    (if WorkflowService_ScanWorkflowExecutions_Result.BadRequestError result \<noteq> None then (None, Some
        (E_BadRequestError (WorkflowService_ScanWorkflowExecutions_Result.BadRequestError result)))
        else
     if WorkflowService_ScanWorkflowExecutions_Result.InternalServiceError result \<noteq> None then (None,
         Some (E_InternalServiceError
         (WorkflowService_ScanWorkflowExecutions_Result.InternalServiceError result))) else
     if WorkflowService_ScanWorkflowExecutions_Result.EntityNotExistError result \<noteq> None then (None,
         Some (E_EntityNotExistsError
         (WorkflowService_ScanWorkflowExecutions_Result.EntityNotExistError result))) else
     if WorkflowService_ScanWorkflowExecutions_Result.ServiceBusyError result \<noteq> None then (None,
         Some (E_ServiceBusyError (WorkflowService_ScanWorkflowExecutions_Result.ServiceBusyError
         result))) else
     if WorkflowService_ScanWorkflowExecutions_Result.ClientVersionNotSupportedError result \<noteq> None
         then (None, Some (E_ClientVersionNotSupportedError
         (WorkflowService_ScanWorkflowExecutions_Result.ClientVersionNotSupportedError result)))
         else
     if WorkflowService_ScanWorkflowExecutions_Result.Success result \<noteq> None then
         (WorkflowService_ScanWorkflowExecutions_Result.Success result, None) else
     (None, Some (E_New ''expected a non-void result'')))"

definition handler_ScanWorkflowExecutions ::
  "'v wire_api \<Rightarrow> ('ctx \<Rightarrow> ListWorkflowExecutionsRequest option \<Rightarrow> ListWorkflowExecutionsResponse
      option \<times> go_error option) \<Rightarrow>
   ('ctx, 'v) unary_handler" where
  "handler_ScanWorkflowExecutions W impl ctx body =
     (case WorkflowService_ScanWorkflowExecutions_Args_FromWire W body
         WorkflowService_ScanWorkflowExecutions_Args_zero of
      Inl err \<Rightarrow> (no_response, Some err)
    | Inr args \<Rightarrow>
      let (success, err) = impl ctx (WorkflowService_ScanWorkflowExecutions_Args.ListRequest args);
          hadError = (err \<noteq> None)
      in case WorkflowService_ScanWorkflowExecutions_Helper_WrapResponse success err of
           Inl err \<Rightarrow> (no_response, Some err)
         | Inr result \<Rightarrow>
             (\<lparr>Body = Some (WorkflowService_ScanWorkflowExecutions_Result_enveloper W result),
               IsApplicationError = hadError\<rparr>, None))"

definition client_ScanWorkflowExecutions ::
  "'v wire_api \<Rightarrow> ('ctx, 'v) thrift_client \<Rightarrow> 'ctx \<Rightarrow> ListWorkflowExecutionsRequest option \<Rightarrow>
   ListWorkflowExecutionsResponse option \<times> go_error option" where
  "client_ScanWorkflowExecutions W call ctx r =
     (let args = WorkflowService_ScanWorkflowExecutions_Helper_Args r in
      case call ctx (WorkflowService_ScanWorkflowExecutions_Args_enveloper W args) of
        Inl e \<Rightarrow> (None, Some e)
      | Inr body \<Rightarrow>
          (case WorkflowService_ScanWorkflowExecutions_Result_FromWire W body
              WorkflowService_ScanWorkflowExecutions_Result_zero of
             Inl e \<Rightarrow> (None, Some e)
           | Inr result \<Rightarrow> WorkflowService_ScanWorkflowExecutions_Helper_UnwrapResponse result))"

lemma WorkflowService_ScanWorkflowExecutions_Args_merge:
  "(case x of None \<Rightarrow> Inr \<lparr>WorkflowService_ScanWorkflowExecutions_Args.ListRequest = a0\<rparr> | Some y \<Rightarrow>
      Inr \<lparr>WorkflowService_ScanWorkflowExecutions_Args.ListRequest = b0 y\<rparr>) =
   Inr \<lparr>WorkflowService_ScanWorkflowExecutions_Args.ListRequest = (case x of None \<Rightarrow> a0 | Some y \<Rightarrow> b0
       y)\<rparr>"
  by (cases x) simp_all

interpretation WorkflowService_ScanWorkflowExecutions_Args: thrift_struct W
  "WorkflowService_ScanWorkflowExecutions_Args_ToWire W"
      "WorkflowService_ScanWorkflowExecutions_Args_FromWire W"
  WorkflowService_ScanWorkflowExecutions_Args_zero "\<lambda>x. True" for W
proof (rule thrift_structI)
  fix x :: WorkflowService_ScanWorkflowExecutions_Args
  assume laws: "wire_laws W"
  obtain enc0 where e0: "ListWorkflowExecutionsRequest_ToWire W = (\<lambda>x. Inr (enc0 x))"
      "\<And>x. wire_api.Type W (enc0 x) = TStruct"
      "\<And>x. Writable W (enc0 x) \<longleftrightarrow> (\<lambda>_. True) x"
      "\<And>x. (\<lambda>_. True) x \<Longrightarrow> ListWorkflowExecutionsRequest_FromWire W (enc0 x)
          ListWorkflowExecutionsRequest_zero = Inr x"
    by (rule ListWorkflowExecutionsRequest.encoder [OF laws]) (rule that)
  show "\<exists>w. WorkflowService_ScanWorkflowExecutions_Args_ToWire W x = Inr w \<and> wire_api.Type W w =
      TStruct \<and>
      (Writable W w \<longleftrightarrow> True) \<and> (True \<longrightarrow> WorkflowService_ScanWorkflowExecutions_Args_FromWire W w
          WorkflowService_ScanWorkflowExecutions_Args_zero = Inr x)"
    by (cases x) (simp cong: option.case_cong add: codec_rules
        WorkflowService_ScanWorkflowExecutions_Args_merge
        WorkflowService_ScanWorkflowExecutions_Args_ToWire_def
        WorkflowService_ScanWorkflowExecutions_Args_FromWire_def
      WorkflowService_ScanWorkflowExecutions_Args_zero_def ListWorkflowExecutionsRequest_Read_def
          if_set_def laws e0)
qed

lemma WorkflowService_ScanWorkflowExecutions_Result_merge:
  "(case x of None \<Rightarrow> Inr \<lparr>WorkflowService_ScanWorkflowExecutions_Result.Success = a0,
      WorkflowService_ScanWorkflowExecutions_Result.BadRequestError = a1,
      WorkflowService_ScanWorkflowExecutions_Result.InternalServiceError = a2,
      WorkflowService_ScanWorkflowExecutions_Result.EntityNotExistError = a3,
      WorkflowService_ScanWorkflowExecutions_Result.ServiceBusyError = a4,
      WorkflowService_ScanWorkflowExecutions_Result.ClientVersionNotSupportedError = a5\<rparr> | Some y \<Rightarrow>
      Inr \<lparr>WorkflowService_ScanWorkflowExecutions_Result.Success = b0 y,
      WorkflowService_ScanWorkflowExecutions_Result.BadRequestError = b1 y,
      WorkflowService_ScanWorkflowExecutions_Result.InternalServiceError = b2 y,
      WorkflowService_ScanWorkflowExecutions_Result.EntityNotExistError = b3 y,
      WorkflowService_ScanWorkflowExecutions_Result.ServiceBusyError = b4 y,
      WorkflowService_ScanWorkflowExecutions_Result.ClientVersionNotSupportedError = b5 y\<rparr>) =
   Inr \<lparr>WorkflowService_ScanWorkflowExecutions_Result.Success = (case x of None \<Rightarrow> a0 | Some y \<Rightarrow> b0
       y), WorkflowService_ScanWorkflowExecutions_Result.BadRequestError = (case x of None \<Rightarrow> a1 |
       Some y \<Rightarrow> b1 y), WorkflowService_ScanWorkflowExecutions_Result.InternalServiceError = (case x
       of None \<Rightarrow> a2 | Some y \<Rightarrow> b2 y),
       WorkflowService_ScanWorkflowExecutions_Result.EntityNotExistError = (case x of None \<Rightarrow> a3 |
       Some y \<Rightarrow> b3 y), WorkflowService_ScanWorkflowExecutions_Result.ServiceBusyError = (case x of
       None \<Rightarrow> a4 | Some y \<Rightarrow> b4 y),
       WorkflowService_ScanWorkflowExecutions_Result.ClientVersionNotSupportedError = (case x of
       None \<Rightarrow> a5 | Some y \<Rightarrow> b5 y)\<rparr>"
  by (cases x) simp_all

interpretation WorkflowService_ScanWorkflowExecutions_Result: thrift_struct W
  "WorkflowService_ScanWorkflowExecutions_Result_ToWire W"
      "WorkflowService_ScanWorkflowExecutions_Result_FromWire W"
  WorkflowService_ScanWorkflowExecutions_Result_zero "\<lambda>r.
      WorkflowService_ScanWorkflowExecutions_Result_count r = 1 \<and> if_set
      ListWorkflowExecutionsResponse_complete (WorkflowService_ScanWorkflowExecutions_Result.Success
      r)" for W
proof (rule thrift_checkedI)
  fix x :: WorkflowService_ScanWorkflowExecutions_Result
  assume laws: "wire_laws W"
  obtain enc0 where e0: "ListWorkflowExecutionsResponse_ToWire W = (\<lambda>x. Inr (enc0 x))"
      "\<And>x. wire_api.Type W (enc0 x) = TStruct"
      "\<And>x. Writable W (enc0 x) \<longleftrightarrow> ListWorkflowExecutionsResponse_complete x"
      "\<And>x. ListWorkflowExecutionsResponse_complete x \<Longrightarrow> ListWorkflowExecutionsResponse_FromWire W
          (enc0 x) ListWorkflowExecutionsResponse_zero = Inr x"
    by (rule ListWorkflowExecutionsResponse.encoder [OF laws]) (rule that)
  obtain enc1 where e1: "BadRequestError_ToWire W = (\<lambda>x. Inr (enc1 x))"
      "\<And>x. wire_api.Type W (enc1 x) = TStruct"
      "\<And>x. Writable W (enc1 x) \<longleftrightarrow> (\<lambda>_. True) x"
      "\<And>x. (\<lambda>_. True) x \<Longrightarrow> BadRequestError_FromWire W (enc1 x) BadRequestError_zero = Inr x"
    by (rule BadRequestError.encoder [OF laws]) (rule that)
  obtain enc2 where e2: "InternalServiceError_ToWire W = (\<lambda>x. Inr (enc2 x))"
      "\<And>x. wire_api.Type W (enc2 x) = TStruct"
      "\<And>x. Writable W (enc2 x) \<longleftrightarrow> (\<lambda>_. True) x"
      "\<And>x. (\<lambda>_. True) x \<Longrightarrow> InternalServiceError_FromWire W (enc2 x) InternalServiceError_zero = Inr
          x"
    by (rule InternalServiceError.encoder [OF laws]) (rule that)
  obtain enc3 where e3: "EntityNotExistsError_ToWire W = (\<lambda>x. Inr (enc3 x))"
      "\<And>x. wire_api.Type W (enc3 x) = TStruct"
      "\<And>x. Writable W (enc3 x) \<longleftrightarrow> (\<lambda>_. True) x"
      "\<And>x. (\<lambda>_. True) x \<Longrightarrow> EntityNotExistsError_FromWire W (enc3 x) EntityNotExistsError_zero = Inr
          x"
    by (rule EntityNotExistsError.encoder [OF laws]) (rule that)
  obtain enc4 where e4: "ServiceBusyError_ToWire W = (\<lambda>x. Inr (enc4 x))"
      "\<And>x. wire_api.Type W (enc4 x) = TStruct"
      "\<And>x. Writable W (enc4 x) \<longleftrightarrow> (\<lambda>_. True) x"
      "\<And>x. (\<lambda>_. True) x \<Longrightarrow> ServiceBusyError_FromWire W (enc4 x) ServiceBusyError_zero = Inr x"
    by (rule ServiceBusyError.encoder [OF laws]) (rule that)
  obtain enc5 where e5: "ClientVersionNotSupportedError_ToWire W = (\<lambda>x. Inr (enc5 x))"
      "\<And>x. wire_api.Type W (enc5 x) = TStruct"
      "\<And>x. Writable W (enc5 x) \<longleftrightarrow> (\<lambda>_. True) x"
      "\<And>x. (\<lambda>_. True) x \<Longrightarrow> ClientVersionNotSupportedError_FromWire W (enc5 x)
          ClientVersionNotSupportedError_zero = Inr x"
    by (rule ClientVersionNotSupportedError.encoder [OF laws]) (rule that)
  let ?fs = "((((opt_field 0 enc0 (WorkflowService_ScanWorkflowExecutions_Result.Success x) @
      opt_field 1 enc1 (WorkflowService_ScanWorkflowExecutions_Result.BadRequestError x)) @
      opt_field 2 enc2 (WorkflowService_ScanWorkflowExecutions_Result.InternalServiceError x)) @
      opt_field 3 enc3 (WorkflowService_ScanWorkflowExecutions_Result.EntityNotExistError x)) @
      opt_field 4 enc4 (WorkflowService_ScanWorkflowExecutions_Result.ServiceBusyError x)) @
      opt_field 5 enc5 (WorkflowService_ScanWorkflowExecutions_Result.ClientVersionNotSupportedError
          x)"
  let ?check = "\<lambda>r. if WorkflowService_ScanWorkflowExecutions_Result_count x \<noteq> 1 then Inl (E_Errorf
      ''WorkflowService_ScanWorkflowExecutions_Result should have exactly one field: got %v fields''
          (WorkflowService_ScanWorkflowExecutions_Result_count x)) else Inr r"
  have "length ?fs = WorkflowService_ScanWorkflowExecutions_Result_count x"
    by (simp add: WorkflowService_ScanWorkflowExecutions_Result_count_def length_opt_field split
        del: if_split)
  then have "WorkflowService_ScanWorkflowExecutions_Result_ToWire W x = ?check (NewValueStruct W
      ?fs)"
    by (simp only: WorkflowService_ScanWorkflowExecutions_Result_ToWire_def put_opt_field
        and_then.simps append_Nil e0(1) e1(1) e2(1) e3(1) e4(1) e5(1))
  moreover have "WorkflowService_ScanWorkflowExecutions_Result_FromWire W (NewValueStruct W ?fs)
      WorkflowService_ScanWorkflowExecutions_Result_zero = ?check x"
    if "if_set ListWorkflowExecutionsResponse_complete
        (WorkflowService_ScanWorkflowExecutions_Result.Success x)"
    by (cases x, hypsubst) (simp cong: option.case_cong split del: if_split add: codec_rules Let_def
        WorkflowService_ScanWorkflowExecutions_Result_merge
      WorkflowService_ScanWorkflowExecutions_Result_FromWire_def
          WorkflowService_ScanWorkflowExecutions_Result_zero_def laws if_set_def that [unfolded
          if_set_def]
      BadRequestError_Read_def
      ClientVersionNotSupportedError_Read_def
      EntityNotExistsError_Read_def
      InternalServiceError_Read_def
      ListWorkflowExecutionsResponse_Read_def
      ServiceBusyError_Read_def
      e0 e1 e2 e3 e4 e5)
  ultimately show "if WorkflowService_ScanWorkflowExecutions_Result_count x = 1
      then \<exists>w. WorkflowService_ScanWorkflowExecutions_Result_ToWire W x = Inr w \<and> wire_api.Type W w
          = TStruct \<and>
        (Writable W w \<longleftrightarrow> if_set ListWorkflowExecutionsResponse_complete
            (WorkflowService_ScanWorkflowExecutions_Result.Success x)) \<and> (if_set
            ListWorkflowExecutionsResponse_complete
            (WorkflowService_ScanWorkflowExecutions_Result.Success x) \<longrightarrow>
            WorkflowService_ScanWorkflowExecutions_Result_FromWire W w
            WorkflowService_ScanWorkflowExecutions_Result_zero = Inr x)
      else \<exists>e. WorkflowService_ScanWorkflowExecutions_Result_ToWire W x = Inl e"
    by (simp add: laws codec_rules e0 e1 e2 e3 e4 e5)
qed

interpretation ScanWorkflowExecutions: rpc_method W
  "WorkflowService_ScanWorkflowExecutions_Args_ToWire W"
      "WorkflowService_ScanWorkflowExecutions_Args_FromWire W"
      WorkflowService_ScanWorkflowExecutions_Args_zero "\<lambda>x. True"
  "WorkflowService_ScanWorkflowExecutions_Result_ToWire W"
      "WorkflowService_ScanWorkflowExecutions_Result_FromWire W"
      WorkflowService_ScanWorkflowExecutions_Result_zero
  "\<lambda>r. WorkflowService_ScanWorkflowExecutions_Result_count r = 1 \<and> if_set
      ListWorkflowExecutionsResponse_complete (WorkflowService_ScanWorkflowExecutions_Result.Success
      r)" "''ScanWorkflowExecutions''"
  WorkflowService_ScanWorkflowExecutions_Helper_Args
      "WorkflowService_ScanWorkflowExecutions_Args.ListRequest"
  "\<lambda>(success, err). WorkflowService_ScanWorkflowExecutions_Helper_WrapResponse success err"
      WorkflowService_ScanWorkflowExecutions_Helper_UnwrapResponse
  "\<lambda>out. snd out \<noteq> None" "carried ListWorkflowExecutionsResponse_complete
      WorkflowService_ScanWorkflowExecutions_Helper_IsException" error_first "\<lambda>e. (None, Some e)"
  "handler_ScanWorkflowExecutions W" "client_ScanWorkflowExecutions W" for W
proof
  fix out :: "ListWorkflowExecutionsResponse option \<times> go_error option"
  assume "carried ListWorkflowExecutionsResponse_complete
      WorkflowService_ScanWorkflowExecutions_Helper_IsException out"
  then show "case (\<lambda>(success, err). WorkflowService_ScanWorkflowExecutions_Helper_WrapResponse
      success err) out of Inl e \<Rightarrow> False
      | Inr res \<Rightarrow> (WorkflowService_ScanWorkflowExecutions_Result_count res = 1 \<and> if_set
          ListWorkflowExecutionsResponse_complete
          (WorkflowService_ScanWorkflowExecutions_Result.Success res)) \<and>
          WorkflowService_ScanWorkflowExecutions_Helper_UnwrapResponse res = error_first out"
    by (cases out; cases "snd out"; cases "the (snd out)")
      (auto simp: WorkflowService_ScanWorkflowExecutions_Helper_IsException_def
          WorkflowService_ScanWorkflowExecutions_Helper_WrapResponse_def
          WorkflowService_ScanWorkflowExecutions_Helper_UnwrapResponse_def
        declared_nonnil_def WorkflowService_ScanWorkflowExecutions_Result_zero_def
            WorkflowService_ScanWorkflowExecutions_Result_count_def elim!: present.elims)
next
  fix out :: "ListWorkflowExecutionsResponse option \<times> go_error option"
  assume "\<not> carried ListWorkflowExecutionsResponse_complete
      WorkflowService_ScanWorkflowExecutions_Helper_IsException out"
  then show "case (\<lambda>(success, err). WorkflowService_ScanWorkflowExecutions_Helper_WrapResponse
      success err) out of Inl e \<Rightarrow> True
      | Inr res \<Rightarrow> \<not> (WorkflowService_ScanWorkflowExecutions_Result_count res = 1 \<and> if_set
          ListWorkflowExecutionsResponse_complete
          (WorkflowService_ScanWorkflowExecutions_Result.Success res))"
    by (cases out; cases "snd out"; cases "the (snd out)")
      (auto simp: WorkflowService_ScanWorkflowExecutions_Helper_IsException_def
          WorkflowService_ScanWorkflowExecutions_Helper_WrapResponse_def declared_nonnil_def
        WorkflowService_ScanWorkflowExecutions_Result_count_def
            WorkflowService_ScanWorkflowExecutions_Result_zero_def split: option.splits)
qed (auto simp: WorkflowService_ScanWorkflowExecutions_Helper_Args_def
    handler_ScanWorkflowExecutions_def client_ScanWorkflowExecutions_def
      WorkflowService_ScanWorkflowExecutions_Args_enveloper_def
          WorkflowService_ScanWorkflowExecutions_Result_enveloper_def
      Let_def split: sum.splits prod.splits)

section \<open>CountWorkflowExecutions\<close>

record WorkflowService_CountWorkflowExecutions_Args =
  CountRequest :: "CountWorkflowExecutionsRequest option"

definition WorkflowService_CountWorkflowExecutions_Args_zero ::
    WorkflowService_CountWorkflowExecutions_Args where
  "WorkflowService_CountWorkflowExecutions_Args_zero =
      \<lparr>WorkflowService_CountWorkflowExecutions_Args.CountRequest = None\<rparr>"

definition WorkflowService_CountWorkflowExecutions_Args_ToWire ::
  "'v wire_api \<Rightarrow> WorkflowService_CountWorkflowExecutions_Args \<Rightarrow> go_error + 'v" where
  "WorkflowService_CountWorkflowExecutions_Args_ToWire W v =
     and_then (put_opt 1 (CountWorkflowExecutionsRequest_ToWire W)
         (WorkflowService_CountWorkflowExecutions_Args.CountRequest v) [])
       (\<lambda>fields.
     Inr (NewValueStruct W fields))"

definition WorkflowService_CountWorkflowExecutions_Args_FromWire ::
  "'v wire_api \<Rightarrow> 'v \<Rightarrow> WorkflowService_CountWorkflowExecutions_Args \<Rightarrow> go_error +
      WorkflowService_CountWorkflowExecutions_Args" where
  "WorkflowService_CountWorkflowExecutions_Args_FromWire W w v =
     foldM (\<lambda>v (fid, fval).
       if fid = 1 then
         if wire_api.Type W fval = TStruct
         then and_then (CountWorkflowExecutionsRequest_Read W fval) (\<lambda>x. Inr
             (v\<lparr>WorkflowService_CountWorkflowExecutions_Args.CountRequest := Some x\<rparr>))
         else Inr v
       else Inr v) (GetStruct W w) v"

definition WorkflowService_CountWorkflowExecutions_Args_enveloper ::
  "'v wire_api \<Rightarrow> WorkflowService_CountWorkflowExecutions_Args \<Rightarrow> 'v enveloper" where
  "WorkflowService_CountWorkflowExecutions_Args_enveloper W v =
     \<lparr>MethodName = ''CountWorkflowExecutions'', EnvelopeType = Call, EnvelopeToWire =
         WorkflowService_CountWorkflowExecutions_Args_ToWire W v\<rparr>"

definition WorkflowService_CountWorkflowExecutions_Args_Equals ::
  "WorkflowService_CountWorkflowExecutions_Args option \<Rightarrow>
      WorkflowService_CountWorkflowExecutions_Args option \<Rightarrow> bool" where
  "WorkflowService_CountWorkflowExecutions_Args_Equals v rhs =
     (case v of None \<Rightarrow> rhs = None
      | Some v \<Rightarrow> (case rhs of None \<Rightarrow> False
        | Some rhs \<Rightarrow>
          if \<not> both_set_and (\<lambda>x y. CountWorkflowExecutionsRequest_Equals (Some x) (Some y))
              (WorkflowService_CountWorkflowExecutions_Args.CountRequest v)
              (WorkflowService_CountWorkflowExecutions_Args.CountRequest rhs) then False else
          True))"

lemma WorkflowService_CountWorkflowExecutions_Args_Equals_iff [simp]:
    "WorkflowService_CountWorkflowExecutions_Args_Equals x y \<longleftrightarrow> x = y"
  by (cases x; cases y) (auto simp: WorkflowService_CountWorkflowExecutions_Args_Equals_def)

record WorkflowService_CountWorkflowExecutions_Result =
  Success :: "CountWorkflowExecutionsResponse option"
  BadRequestError :: "BadRequestError option"
  InternalServiceError :: "InternalServiceError option"
  EntityNotExistError :: "EntityNotExistsError option"
  ServiceBusyError :: "ServiceBusyError option"
  ClientVersionNotSupportedError :: "ClientVersionNotSupportedError option"

definition WorkflowService_CountWorkflowExecutions_Result_count ::
    "WorkflowService_CountWorkflowExecutions_Result \<Rightarrow> nat" where
  "WorkflowService_CountWorkflowExecutions_Result_count v =
     (if WorkflowService_CountWorkflowExecutions_Result.Success v \<noteq> None then 1 else 0) +
     (if WorkflowService_CountWorkflowExecutions_Result.BadRequestError v \<noteq> None then 1 else 0) +
     (if WorkflowService_CountWorkflowExecutions_Result.InternalServiceError v \<noteq> None then 1 else 0)
         +
     (if WorkflowService_CountWorkflowExecutions_Result.EntityNotExistError v \<noteq> None then 1 else 0)
         +
     (if WorkflowService_CountWorkflowExecutions_Result.ServiceBusyError v \<noteq> None then 1 else 0) +
     (if WorkflowService_CountWorkflowExecutions_Result.ClientVersionNotSupportedError v \<noteq> None then
         1 else 0)"

definition WorkflowService_CountWorkflowExecutions_Result_zero ::
    WorkflowService_CountWorkflowExecutions_Result where
  "WorkflowService_CountWorkflowExecutions_Result_zero =
      \<lparr>WorkflowService_CountWorkflowExecutions_Result.Success = None,
      WorkflowService_CountWorkflowExecutions_Result.BadRequestError = None,
      WorkflowService_CountWorkflowExecutions_Result.InternalServiceError = None,
      WorkflowService_CountWorkflowExecutions_Result.EntityNotExistError = None,
      WorkflowService_CountWorkflowExecutions_Result.ServiceBusyError = None,
      WorkflowService_CountWorkflowExecutions_Result.ClientVersionNotSupportedError = None\<rparr>"

definition WorkflowService_CountWorkflowExecutions_Result_ToWire ::
  "'v wire_api \<Rightarrow> WorkflowService_CountWorkflowExecutions_Result \<Rightarrow> go_error + 'v" where
  "WorkflowService_CountWorkflowExecutions_Result_ToWire W v =
     and_then (put_opt 0 (CountWorkflowExecutionsResponse_ToWire W)
         (WorkflowService_CountWorkflowExecutions_Result.Success v) [])
       (\<lambda>fields.
     and_then (put_opt 1 (BadRequestError_ToWire W)
         (WorkflowService_CountWorkflowExecutions_Result.BadRequestError v) fields)
       (\<lambda>fields.
     and_then (put_opt 2 (InternalServiceError_ToWire W)
         (WorkflowService_CountWorkflowExecutions_Result.InternalServiceError v) fields)
       (\<lambda>fields.
     and_then (put_opt 3 (EntityNotExistsError_ToWire W)
         (WorkflowService_CountWorkflowExecutions_Result.EntityNotExistError v) fields)
       (\<lambda>fields.
     and_then (put_opt 4 (ServiceBusyError_ToWire W)
         (WorkflowService_CountWorkflowExecutions_Result.ServiceBusyError v) fields)
       (\<lambda>fields.
     and_then (put_opt 5 (ClientVersionNotSupportedError_ToWire W)
         (WorkflowService_CountWorkflowExecutions_Result.ClientVersionNotSupportedError v) fields)
       (\<lambda>fields.
     if length fields \<noteq> 1
     then Inl (E_Errorf
         ''WorkflowService_CountWorkflowExecutions_Result should have exactly one field: got %v fields'' (length fields))
     else Inr (NewValueStruct W fields)))))))"

definition WorkflowService_CountWorkflowExecutions_Result_FromWire ::
  "'v wire_api \<Rightarrow> 'v \<Rightarrow> WorkflowService_CountWorkflowExecutions_Result \<Rightarrow> go_error +
      WorkflowService_CountWorkflowExecutions_Result" where
  "WorkflowService_CountWorkflowExecutions_Result_FromWire W w v =
     and_then (foldM (\<lambda>v (fid, fval).
       if fid = 0 then
         if wire_api.Type W fval = TStruct
         then and_then (CountWorkflowExecutionsResponse_Read W fval) (\<lambda>x. Inr
             (v\<lparr>WorkflowService_CountWorkflowExecutions_Result.Success := Some x\<rparr>))
         else Inr v
       else if fid = 1 then
         if wire_api.Type W fval = TStruct
         then and_then (BadRequestError_Read W fval) (\<lambda>x. Inr
             (v\<lparr>WorkflowService_CountWorkflowExecutions_Result.BadRequestError := Some x\<rparr>))
         else Inr v
       else if fid = 2 then
         if wire_api.Type W fval = TStruct
         then and_then (InternalServiceError_Read W fval) (\<lambda>x. Inr
             (v\<lparr>WorkflowService_CountWorkflowExecutions_Result.InternalServiceError := Some x\<rparr>))
         else Inr v
       else if fid = 3 then
         if wire_api.Type W fval = TStruct
         then and_then (EntityNotExistsError_Read W fval) (\<lambda>x. Inr
             (v\<lparr>WorkflowService_CountWorkflowExecutions_Result.EntityNotExistError := Some x\<rparr>))
         else Inr v
       else if fid = 4 then
         if wire_api.Type W fval = TStruct
         then and_then (ServiceBusyError_Read W fval) (\<lambda>x. Inr
             (v\<lparr>WorkflowService_CountWorkflowExecutions_Result.ServiceBusyError := Some x\<rparr>))
         else Inr v
       else if fid = 5 then
         if wire_api.Type W fval = TStruct
         then and_then (ClientVersionNotSupportedError_Read W fval) (\<lambda>x. Inr
             (v\<lparr>WorkflowService_CountWorkflowExecutions_Result.ClientVersionNotSupportedError :=
             Some x\<rparr>))
         else Inr v
       else Inr v) (GetStruct W w) v) (\<lambda>v.
     let count = WorkflowService_CountWorkflowExecutions_Result_count v in
     if count \<noteq> 1
     then Inl (E_Errorf
         ''WorkflowService_CountWorkflowExecutions_Result should have exactly one field: got %v fields'' count)
     else Inr v)"

definition WorkflowService_CountWorkflowExecutions_Result_enveloper ::
  "'v wire_api \<Rightarrow> WorkflowService_CountWorkflowExecutions_Result \<Rightarrow> 'v enveloper" where
  "WorkflowService_CountWorkflowExecutions_Result_enveloper W v =
     \<lparr>MethodName = ''CountWorkflowExecutions'', EnvelopeType = Reply, EnvelopeToWire =
         WorkflowService_CountWorkflowExecutions_Result_ToWire W v\<rparr>"

definition WorkflowService_CountWorkflowExecutions_Result_Equals ::
  "WorkflowService_CountWorkflowExecutions_Result option \<Rightarrow>
      WorkflowService_CountWorkflowExecutions_Result option \<Rightarrow> bool" where
  "WorkflowService_CountWorkflowExecutions_Result_Equals v rhs =
     (case v of None \<Rightarrow> rhs = None
      | Some v \<Rightarrow> (case rhs of None \<Rightarrow> False
        | Some rhs \<Rightarrow>
          if \<not> both_set_and (\<lambda>x y. CountWorkflowExecutionsResponse_Equals (Some x) (Some y))
              (WorkflowService_CountWorkflowExecutions_Result.Success v)
              (WorkflowService_CountWorkflowExecutions_Result.Success rhs) then False else
          if \<not> both_set_and (\<lambda>x y. BadRequestError_Equals (Some x) (Some y))
              (WorkflowService_CountWorkflowExecutions_Result.BadRequestError v)
              (WorkflowService_CountWorkflowExecutions_Result.BadRequestError rhs) then False else
          if \<not> both_set_and (\<lambda>x y. InternalServiceError_Equals (Some x) (Some y))
              (WorkflowService_CountWorkflowExecutions_Result.InternalServiceError v)
              (WorkflowService_CountWorkflowExecutions_Result.InternalServiceError rhs) then False
              else
          if \<not> both_set_and (\<lambda>x y. EntityNotExistsError_Equals (Some x) (Some y))
              (WorkflowService_CountWorkflowExecutions_Result.EntityNotExistError v)
              (WorkflowService_CountWorkflowExecutions_Result.EntityNotExistError rhs) then False
              else
          if \<not> both_set_and (\<lambda>x y. ServiceBusyError_Equals (Some x) (Some y))
              (WorkflowService_CountWorkflowExecutions_Result.ServiceBusyError v)
              (WorkflowService_CountWorkflowExecutions_Result.ServiceBusyError rhs) then False else
          if \<not> both_set_and (\<lambda>x y. ClientVersionNotSupportedError_Equals (Some x) (Some y))
              (WorkflowService_CountWorkflowExecutions_Result.ClientVersionNotSupportedError v)
              (WorkflowService_CountWorkflowExecutions_Result.ClientVersionNotSupportedError rhs)
              then False else
          True))"

lemma WorkflowService_CountWorkflowExecutions_Result_Equals_iff [simp]:
    "WorkflowService_CountWorkflowExecutions_Result_Equals x y \<longleftrightarrow> x = y"
  by (cases x; cases y) (simp_all add: WorkflowService_CountWorkflowExecutions_Result_Equals_def
      if_not_False, fastforce intro: WorkflowService_CountWorkflowExecutions_Result.equality)

definition WorkflowService_CountWorkflowExecutions_Helper_Args :: "CountWorkflowExecutionsRequest
    option \<Rightarrow> WorkflowService_CountWorkflowExecutions_Args" where
  "WorkflowService_CountWorkflowExecutions_Helper_Args r =
      \<lparr>WorkflowService_CountWorkflowExecutions_Args.CountRequest = r\<rparr>"

definition WorkflowService_CountWorkflowExecutions_Helper_IsException :: "go_error \<Rightarrow> bool" where
  "WorkflowService_CountWorkflowExecutions_Helper_IsException err =
     (case err of
        E_BadRequestError _ \<Rightarrow> True
      | E_InternalServiceError _ \<Rightarrow> True
      | E_EntityNotExistsError _ \<Rightarrow> True
      | E_ServiceBusyError _ \<Rightarrow> True
      | E_ClientVersionNotSupportedError _ \<Rightarrow> True
      | _ \<Rightarrow> False)"

definition WorkflowService_CountWorkflowExecutions_Helper_WrapResponse ::
  "CountWorkflowExecutionsResponse option \<Rightarrow> go_error option \<Rightarrow> go_error +
      WorkflowService_CountWorkflowExecutions_Result" where
  "WorkflowService_CountWorkflowExecutions_Helper_WrapResponse success err =
     (case err of None \<Rightarrow> Inr
         (WorkflowService_CountWorkflowExecutions_Result_zero\<lparr>WorkflowService_CountWorkflowExecutions_Result.Success := success\<rparr>)
      | Some err \<Rightarrow> (case err of
          E_BadRequestError e \<Rightarrow> (case e of
              None \<Rightarrow> Inl (E_New
                  ''WrapResponse received non-nil error type with nil value for WorkflowService_CountWorkflowExecutions_Result.BadRequestError'')
            | Some e \<Rightarrow> Inr
                (WorkflowService_CountWorkflowExecutions_Result_zero\<lparr>WorkflowService_CountWorkflowExecutions_Result.BadRequestError := Some e\<rparr>))
        | E_InternalServiceError e \<Rightarrow> (case e of
              None \<Rightarrow> Inl (E_New
                  ''WrapResponse received non-nil error type with nil value for WorkflowService_CountWorkflowExecutions_Result.InternalServiceError'')
            | Some e \<Rightarrow> Inr
                (WorkflowService_CountWorkflowExecutions_Result_zero\<lparr>WorkflowService_CountWorkflowExecutions_Result.InternalServiceError := Some e\<rparr>))
        | E_EntityNotExistsError e \<Rightarrow> (case e of
              None \<Rightarrow> Inl (E_New
                  ''WrapResponse received non-nil error type with nil value for WorkflowService_CountWorkflowExecutions_Result.EntityNotExistError'')
            | Some e \<Rightarrow> Inr
                (WorkflowService_CountWorkflowExecutions_Result_zero\<lparr>WorkflowService_CountWorkflowExecutions_Result.EntityNotExistError := Some e\<rparr>))
        | E_ServiceBusyError e \<Rightarrow> (case e of
              None \<Rightarrow> Inl (E_New
                  ''WrapResponse received non-nil error type with nil value for WorkflowService_CountWorkflowExecutions_Result.ServiceBusyError'')
            | Some e \<Rightarrow> Inr
                (WorkflowService_CountWorkflowExecutions_Result_zero\<lparr>WorkflowService_CountWorkflowExecutions_Result.ServiceBusyError := Some e\<rparr>))
        | E_ClientVersionNotSupportedError e \<Rightarrow> (case e of
              None \<Rightarrow> Inl (E_New
                  ''WrapResponse received non-nil error type with nil value for WorkflowService_CountWorkflowExecutions_Result.ClientVersionNotSupportedError'')
            | Some e \<Rightarrow> Inr
                (WorkflowService_CountWorkflowExecutions_Result_zero\<lparr>WorkflowService_CountWorkflowExecutions_Result.ClientVersionNotSupportedError := Some e\<rparr>))
        | _ \<Rightarrow> Inl err))"

definition WorkflowService_CountWorkflowExecutions_Helper_UnwrapResponse ::
  "WorkflowService_CountWorkflowExecutions_Result \<Rightarrow> CountWorkflowExecutionsResponse option \<times>
      go_error option" where
  "WorkflowService_CountWorkflowExecutions_Helper_UnwrapResponse result =
    (if WorkflowService_CountWorkflowExecutions_Result.BadRequestError result \<noteq> None then (None,
        Some (E_BadRequestError (WorkflowService_CountWorkflowExecutions_Result.BadRequestError
        result))) else
     if WorkflowService_CountWorkflowExecutions_Result.InternalServiceError result \<noteq> None then
         (None, Some (E_InternalServiceError
         (WorkflowService_CountWorkflowExecutions_Result.InternalServiceError result))) else
     if WorkflowService_CountWorkflowExecutions_Result.EntityNotExistError result \<noteq> None then (None,
         Some (E_EntityNotExistsError
         (WorkflowService_CountWorkflowExecutions_Result.EntityNotExistError result))) else
     if WorkflowService_CountWorkflowExecutions_Result.ServiceBusyError result \<noteq> None then (None,
         Some (E_ServiceBusyError (WorkflowService_CountWorkflowExecutions_Result.ServiceBusyError
         result))) else
     if WorkflowService_CountWorkflowExecutions_Result.ClientVersionNotSupportedError result \<noteq> None
         then (None, Some (E_ClientVersionNotSupportedError
         (WorkflowService_CountWorkflowExecutions_Result.ClientVersionNotSupportedError result)))
         else
     if WorkflowService_CountWorkflowExecutions_Result.Success result \<noteq> None then
         (WorkflowService_CountWorkflowExecutions_Result.Success result, None) else
     (None, Some (E_New ''expected a non-void result'')))"

definition handler_CountWorkflowExecutions ::
  "'v wire_api \<Rightarrow> ('ctx \<Rightarrow> CountWorkflowExecutionsRequest option \<Rightarrow> CountWorkflowExecutionsResponse
      option \<times> go_error option) \<Rightarrow>
   ('ctx, 'v) unary_handler" where
  "handler_CountWorkflowExecutions W impl ctx body =
     (case WorkflowService_CountWorkflowExecutions_Args_FromWire W body
         WorkflowService_CountWorkflowExecutions_Args_zero of
      Inl err \<Rightarrow> (no_response, Some err)
    | Inr args \<Rightarrow>
      let (success, err) = impl ctx (WorkflowService_CountWorkflowExecutions_Args.CountRequest
          args);
          hadError = (err \<noteq> None)
      in case WorkflowService_CountWorkflowExecutions_Helper_WrapResponse success err of
           Inl err \<Rightarrow> (no_response, Some err)
         | Inr result \<Rightarrow>
             (\<lparr>Body = Some (WorkflowService_CountWorkflowExecutions_Result_enveloper W result),
               IsApplicationError = hadError\<rparr>, None))"

definition client_CountWorkflowExecutions ::
  "'v wire_api \<Rightarrow> ('ctx, 'v) thrift_client \<Rightarrow> 'ctx \<Rightarrow> CountWorkflowExecutionsRequest option \<Rightarrow>
   CountWorkflowExecutionsResponse option \<times> go_error option" where
  "client_CountWorkflowExecutions W call ctx r =
     (let args = WorkflowService_CountWorkflowExecutions_Helper_Args r in
      case call ctx (WorkflowService_CountWorkflowExecutions_Args_enveloper W args) of
        Inl e \<Rightarrow> (None, Some e)
      | Inr body \<Rightarrow>
          (case WorkflowService_CountWorkflowExecutions_Result_FromWire W body
              WorkflowService_CountWorkflowExecutions_Result_zero of
             Inl e \<Rightarrow> (None, Some e)
           | Inr result \<Rightarrow> WorkflowService_CountWorkflowExecutions_Helper_UnwrapResponse result))"

lemma WorkflowService_CountWorkflowExecutions_Args_merge:
  "(case x of None \<Rightarrow> Inr \<lparr>WorkflowService_CountWorkflowExecutions_Args.CountRequest = a0\<rparr> | Some y \<Rightarrow>
      Inr \<lparr>WorkflowService_CountWorkflowExecutions_Args.CountRequest = b0 y\<rparr>) =
   Inr \<lparr>WorkflowService_CountWorkflowExecutions_Args.CountRequest = (case x of None \<Rightarrow> a0 | Some y \<Rightarrow>
       b0 y)\<rparr>"
  by (cases x) simp_all

interpretation WorkflowService_CountWorkflowExecutions_Args: thrift_struct W
  "WorkflowService_CountWorkflowExecutions_Args_ToWire W"
      "WorkflowService_CountWorkflowExecutions_Args_FromWire W"
  WorkflowService_CountWorkflowExecutions_Args_zero "\<lambda>x. True" for W
proof (rule thrift_structI)
  fix x :: WorkflowService_CountWorkflowExecutions_Args
  assume laws: "wire_laws W"
  obtain enc0 where e0: "CountWorkflowExecutionsRequest_ToWire W = (\<lambda>x. Inr (enc0 x))"
      "\<And>x. wire_api.Type W (enc0 x) = TStruct"
      "\<And>x. Writable W (enc0 x) \<longleftrightarrow> (\<lambda>_. True) x"
      "\<And>x. (\<lambda>_. True) x \<Longrightarrow> CountWorkflowExecutionsRequest_FromWire W (enc0 x)
          CountWorkflowExecutionsRequest_zero = Inr x"
    by (rule CountWorkflowExecutionsRequest.encoder [OF laws]) (rule that)
  show "\<exists>w. WorkflowService_CountWorkflowExecutions_Args_ToWire W x = Inr w \<and> wire_api.Type W w =
      TStruct \<and>
      (Writable W w \<longleftrightarrow> True) \<and> (True \<longrightarrow> WorkflowService_CountWorkflowExecutions_Args_FromWire W w
          WorkflowService_CountWorkflowExecutions_Args_zero = Inr x)"
    by (cases x) (simp cong: option.case_cong add: codec_rules
        WorkflowService_CountWorkflowExecutions_Args_merge
        WorkflowService_CountWorkflowExecutions_Args_ToWire_def
        WorkflowService_CountWorkflowExecutions_Args_FromWire_def
      WorkflowService_CountWorkflowExecutions_Args_zero_def CountWorkflowExecutionsRequest_Read_def
          if_set_def laws e0)
qed

lemma WorkflowService_CountWorkflowExecutions_Result_merge:
  "(case x of None \<Rightarrow> Inr \<lparr>WorkflowService_CountWorkflowExecutions_Result.Success = a0,
      WorkflowService_CountWorkflowExecutions_Result.BadRequestError = a1,
      WorkflowService_CountWorkflowExecutions_Result.InternalServiceError = a2,
      WorkflowService_CountWorkflowExecutions_Result.EntityNotExistError = a3,
      WorkflowService_CountWorkflowExecutions_Result.ServiceBusyError = a4,
      WorkflowService_CountWorkflowExecutions_Result.ClientVersionNotSupportedError = a5\<rparr> | Some y \<Rightarrow>
      Inr \<lparr>WorkflowService_CountWorkflowExecutions_Result.Success = b0 y,
      WorkflowService_CountWorkflowExecutions_Result.BadRequestError = b1 y,
      WorkflowService_CountWorkflowExecutions_Result.InternalServiceError = b2 y,
      WorkflowService_CountWorkflowExecutions_Result.EntityNotExistError = b3 y,
      WorkflowService_CountWorkflowExecutions_Result.ServiceBusyError = b4 y,
      WorkflowService_CountWorkflowExecutions_Result.ClientVersionNotSupportedError = b5 y\<rparr>) =
   Inr \<lparr>WorkflowService_CountWorkflowExecutions_Result.Success = (case x of None \<Rightarrow> a0 | Some y \<Rightarrow> b0
       y), WorkflowService_CountWorkflowExecutions_Result.BadRequestError = (case x of None \<Rightarrow> a1 |
       Some y \<Rightarrow> b1 y), WorkflowService_CountWorkflowExecutions_Result.InternalServiceError = (case x
       of None \<Rightarrow> a2 | Some y \<Rightarrow> b2 y),
       WorkflowService_CountWorkflowExecutions_Result.EntityNotExistError = (case x of None \<Rightarrow> a3 |
       Some y \<Rightarrow> b3 y), WorkflowService_CountWorkflowExecutions_Result.ServiceBusyError = (case x of
       None \<Rightarrow> a4 | Some y \<Rightarrow> b4 y),
       WorkflowService_CountWorkflowExecutions_Result.ClientVersionNotSupportedError = (case x of
       None \<Rightarrow> a5 | Some y \<Rightarrow> b5 y)\<rparr>"
  by (cases x) simp_all

interpretation WorkflowService_CountWorkflowExecutions_Result: thrift_struct W
  "WorkflowService_CountWorkflowExecutions_Result_ToWire W"
      "WorkflowService_CountWorkflowExecutions_Result_FromWire W"
  WorkflowService_CountWorkflowExecutions_Result_zero "\<lambda>r.
      WorkflowService_CountWorkflowExecutions_Result_count r = 1" for W
proof (rule thrift_checked_plainI)
  fix x :: WorkflowService_CountWorkflowExecutions_Result
  assume laws: "wire_laws W"
  obtain enc0 where e0: "CountWorkflowExecutionsResponse_ToWire W = (\<lambda>x. Inr (enc0 x))"
      "\<And>x. wire_api.Type W (enc0 x) = TStruct"
      "\<And>x. Writable W (enc0 x) \<longleftrightarrow> (\<lambda>_. True) x"
      "\<And>x. (\<lambda>_. True) x \<Longrightarrow> CountWorkflowExecutionsResponse_FromWire W (enc0 x)
          CountWorkflowExecutionsResponse_zero = Inr x"
    by (rule CountWorkflowExecutionsResponse.encoder [OF laws]) (rule that)
  obtain enc1 where e1: "BadRequestError_ToWire W = (\<lambda>x. Inr (enc1 x))"
      "\<And>x. wire_api.Type W (enc1 x) = TStruct"
      "\<And>x. Writable W (enc1 x) \<longleftrightarrow> (\<lambda>_. True) x"
      "\<And>x. (\<lambda>_. True) x \<Longrightarrow> BadRequestError_FromWire W (enc1 x) BadRequestError_zero = Inr x"
    by (rule BadRequestError.encoder [OF laws]) (rule that)
  obtain enc2 where e2: "InternalServiceError_ToWire W = (\<lambda>x. Inr (enc2 x))"
      "\<And>x. wire_api.Type W (enc2 x) = TStruct"
      "\<And>x. Writable W (enc2 x) \<longleftrightarrow> (\<lambda>_. True) x"
      "\<And>x. (\<lambda>_. True) x \<Longrightarrow> InternalServiceError_FromWire W (enc2 x) InternalServiceError_zero = Inr
          x"
    by (rule InternalServiceError.encoder [OF laws]) (rule that)
  obtain enc3 where e3: "EntityNotExistsError_ToWire W = (\<lambda>x. Inr (enc3 x))"
      "\<And>x. wire_api.Type W (enc3 x) = TStruct"
      "\<And>x. Writable W (enc3 x) \<longleftrightarrow> (\<lambda>_. True) x"
      "\<And>x. (\<lambda>_. True) x \<Longrightarrow> EntityNotExistsError_FromWire W (enc3 x) EntityNotExistsError_zero = Inr
          x"
    by (rule EntityNotExistsError.encoder [OF laws]) (rule that)
  obtain enc4 where e4: "ServiceBusyError_ToWire W = (\<lambda>x. Inr (enc4 x))"
      "\<And>x. wire_api.Type W (enc4 x) = TStruct"
      "\<And>x. Writable W (enc4 x) \<longleftrightarrow> (\<lambda>_. True) x"
      "\<And>x. (\<lambda>_. True) x \<Longrightarrow> ServiceBusyError_FromWire W (enc4 x) ServiceBusyError_zero = Inr x"
    by (rule ServiceBusyError.encoder [OF laws]) (rule that)
  obtain enc5 where e5: "ClientVersionNotSupportedError_ToWire W = (\<lambda>x. Inr (enc5 x))"
      "\<And>x. wire_api.Type W (enc5 x) = TStruct"
      "\<And>x. Writable W (enc5 x) \<longleftrightarrow> (\<lambda>_. True) x"
      "\<And>x. (\<lambda>_. True) x \<Longrightarrow> ClientVersionNotSupportedError_FromWire W (enc5 x)
          ClientVersionNotSupportedError_zero = Inr x"
    by (rule ClientVersionNotSupportedError.encoder [OF laws]) (rule that)
  let ?fs = "((((opt_field 0 enc0 (WorkflowService_CountWorkflowExecutions_Result.Success x) @
      opt_field 1 enc1 (WorkflowService_CountWorkflowExecutions_Result.BadRequestError x)) @
      opt_field 2 enc2 (WorkflowService_CountWorkflowExecutions_Result.InternalServiceError x)) @
      opt_field 3 enc3 (WorkflowService_CountWorkflowExecutions_Result.EntityNotExistError x)) @
      opt_field 4 enc4 (WorkflowService_CountWorkflowExecutions_Result.ServiceBusyError x)) @
      opt_field 5 enc5
          (WorkflowService_CountWorkflowExecutions_Result.ClientVersionNotSupportedError x)"
  let ?check = "\<lambda>r. if WorkflowService_CountWorkflowExecutions_Result_count x \<noteq> 1 then Inl (E_Errorf
      ''WorkflowService_CountWorkflowExecutions_Result should have exactly one field: got %v fields'' (WorkflowService_CountWorkflowExecutions_Result_count x)) else Inr r"
  have "length ?fs = WorkflowService_CountWorkflowExecutions_Result_count x"
    by (simp add: WorkflowService_CountWorkflowExecutions_Result_count_def length_opt_field split
        del: if_split)
  then have "WorkflowService_CountWorkflowExecutions_Result_ToWire W x = ?check (NewValueStruct W
      ?fs)"
    by (simp only: WorkflowService_CountWorkflowExecutions_Result_ToWire_def put_opt_field
        and_then.simps append_Nil e0(1) e1(1) e2(1) e3(1) e4(1) e5(1))
  moreover have "WorkflowService_CountWorkflowExecutions_Result_FromWire W (NewValueStruct W ?fs)
      WorkflowService_CountWorkflowExecutions_Result_zero = ?check x"
    by (cases x, hypsubst) (simp cong: option.case_cong split del: if_split add: codec_rules Let_def
        WorkflowService_CountWorkflowExecutions_Result_merge
      WorkflowService_CountWorkflowExecutions_Result_FromWire_def
          WorkflowService_CountWorkflowExecutions_Result_zero_def laws
      BadRequestError_Read_def
      ClientVersionNotSupportedError_Read_def
      CountWorkflowExecutionsResponse_Read_def
      EntityNotExistsError_Read_def
      InternalServiceError_Read_def
      ServiceBusyError_Read_def
      e0 e1 e2 e3 e4 e5)
  ultimately show "if WorkflowService_CountWorkflowExecutions_Result_count x = 1
      then \<exists>w. WorkflowService_CountWorkflowExecutions_Result_ToWire W x = Inr w \<and> wire_api.Type W w
          = TStruct \<and>
        Writable W w \<and> WorkflowService_CountWorkflowExecutions_Result_FromWire W w
            WorkflowService_CountWorkflowExecutions_Result_zero = Inr x
      else \<exists>e. WorkflowService_CountWorkflowExecutions_Result_ToWire W x = Inl e"
    by (simp add: laws codec_rules e0 e1 e2 e3 e4 e5)
qed

interpretation CountWorkflowExecutions: rpc_method W
  "WorkflowService_CountWorkflowExecutions_Args_ToWire W"
      "WorkflowService_CountWorkflowExecutions_Args_FromWire W"
      WorkflowService_CountWorkflowExecutions_Args_zero "\<lambda>x. True"
  "WorkflowService_CountWorkflowExecutions_Result_ToWire W"
      "WorkflowService_CountWorkflowExecutions_Result_FromWire W"
      WorkflowService_CountWorkflowExecutions_Result_zero
  "\<lambda>r. WorkflowService_CountWorkflowExecutions_Result_count r = 1" "''CountWorkflowExecutions''"
  WorkflowService_CountWorkflowExecutions_Helper_Args
      "WorkflowService_CountWorkflowExecutions_Args.CountRequest"
  "\<lambda>(success, err). WorkflowService_CountWorkflowExecutions_Helper_WrapResponse success err"
      WorkflowService_CountWorkflowExecutions_Helper_UnwrapResponse
  "\<lambda>out. snd out \<noteq> None" "carried (\<lambda>_. True)
      WorkflowService_CountWorkflowExecutions_Helper_IsException" error_first "\<lambda>e. (None, Some e)"
  "handler_CountWorkflowExecutions W" "client_CountWorkflowExecutions W" for W
proof
  fix out :: "CountWorkflowExecutionsResponse option \<times> go_error option"
  assume "carried (\<lambda>_. True) WorkflowService_CountWorkflowExecutions_Helper_IsException out"
  then show "case (\<lambda>(success, err). WorkflowService_CountWorkflowExecutions_Helper_WrapResponse
      success err) out of Inl e \<Rightarrow> False
      | Inr res \<Rightarrow> (WorkflowService_CountWorkflowExecutions_Result_count res = 1) \<and>
          WorkflowService_CountWorkflowExecutions_Helper_UnwrapResponse res = error_first out"
    by (cases out; cases "snd out"; cases "the (snd out)")
      (auto simp: WorkflowService_CountWorkflowExecutions_Helper_IsException_def
          WorkflowService_CountWorkflowExecutions_Helper_WrapResponse_def
          WorkflowService_CountWorkflowExecutions_Helper_UnwrapResponse_def
        declared_nonnil_def WorkflowService_CountWorkflowExecutions_Result_zero_def
            WorkflowService_CountWorkflowExecutions_Result_count_def elim!: present.elims)
next
  fix out :: "CountWorkflowExecutionsResponse option \<times> go_error option"
  assume "\<not> carried (\<lambda>_. True) WorkflowService_CountWorkflowExecutions_Helper_IsException out"
  then show "case (\<lambda>(success, err). WorkflowService_CountWorkflowExecutions_Helper_WrapResponse
      success err) out of Inl e \<Rightarrow> True
      | Inr res \<Rightarrow> \<not> (WorkflowService_CountWorkflowExecutions_Result_count res = 1)"
    by (cases out; cases "snd out"; cases "the (snd out)")
      (auto simp: WorkflowService_CountWorkflowExecutions_Helper_IsException_def
          WorkflowService_CountWorkflowExecutions_Helper_WrapResponse_def declared_nonnil_def
        WorkflowService_CountWorkflowExecutions_Result_count_def
            WorkflowService_CountWorkflowExecutions_Result_zero_def split: option.splits)
qed (auto simp: WorkflowService_CountWorkflowExecutions_Helper_Args_def
    handler_CountWorkflowExecutions_def client_CountWorkflowExecutions_def
      WorkflowService_CountWorkflowExecutions_Args_enveloper_def
          WorkflowService_CountWorkflowExecutions_Result_enveloper_def
      Let_def split: sum.splits prod.splits)

section \<open>GetSearchAttributes\<close>

datatype WorkflowService_GetSearchAttributes_Args = WorkflowService_GetSearchAttributes_Args

definition WorkflowService_GetSearchAttributes_Args_zero :: WorkflowService_GetSearchAttributes_Args
    where
  "WorkflowService_GetSearchAttributes_Args_zero = WorkflowService_GetSearchAttributes_Args"

definition WorkflowService_GetSearchAttributes_Args_ToWire ::
  "'v wire_api \<Rightarrow> WorkflowService_GetSearchAttributes_Args \<Rightarrow> go_error + 'v" where
  "WorkflowService_GetSearchAttributes_Args_ToWire W v = Inr (NewValueStruct W [])"

definition WorkflowService_GetSearchAttributes_Args_FromWire ::
  "'v wire_api \<Rightarrow> 'v \<Rightarrow> WorkflowService_GetSearchAttributes_Args \<Rightarrow> go_error +
      WorkflowService_GetSearchAttributes_Args" where
  "WorkflowService_GetSearchAttributes_Args_FromWire W w v = foldM (\<lambda>v (fid, fval). Inr v)
      (GetStruct W w) v"

definition WorkflowService_GetSearchAttributes_Args_enveloper ::
  "'v wire_api \<Rightarrow> WorkflowService_GetSearchAttributes_Args \<Rightarrow> 'v enveloper" where
  "WorkflowService_GetSearchAttributes_Args_enveloper W v =
     \<lparr>MethodName = ''GetSearchAttributes'', EnvelopeType = Call, EnvelopeToWire =
         WorkflowService_GetSearchAttributes_Args_ToWire W v\<rparr>"

definition WorkflowService_GetSearchAttributes_Args_Equals ::
  "WorkflowService_GetSearchAttributes_Args option \<Rightarrow> WorkflowService_GetSearchAttributes_Args option
      \<Rightarrow> bool" where
  "WorkflowService_GetSearchAttributes_Args_Equals v rhs =
     (case v of None \<Rightarrow> rhs = None
      | Some v \<Rightarrow> (case rhs of None \<Rightarrow> False
        | Some rhs \<Rightarrow>
          True))"

lemma WorkflowService_GetSearchAttributes_Args_Equals_iff [simp]:
    "WorkflowService_GetSearchAttributes_Args_Equals x y \<longleftrightarrow> x = y"
  by (cases x; cases y) (simp_all add: WorkflowService_GetSearchAttributes_Args_Equals_def, metis
      WorkflowService_GetSearchAttributes_Args.exhaust)

record WorkflowService_GetSearchAttributes_Result =
  Success :: "GetSearchAttributesResponse option"
  InternalServiceError :: "InternalServiceError option"
  ServiceBusyError :: "ServiceBusyError option"
  ClientVersionNotSupportedError :: "ClientVersionNotSupportedError option"

definition WorkflowService_GetSearchAttributes_Result_count ::
    "WorkflowService_GetSearchAttributes_Result \<Rightarrow> nat" where
  "WorkflowService_GetSearchAttributes_Result_count v =
     (if WorkflowService_GetSearchAttributes_Result.Success v \<noteq> None then 1 else 0) +
     (if WorkflowService_GetSearchAttributes_Result.InternalServiceError v \<noteq> None then 1 else 0) +
     (if WorkflowService_GetSearchAttributes_Result.ServiceBusyError v \<noteq> None then 1 else 0) +
     (if WorkflowService_GetSearchAttributes_Result.ClientVersionNotSupportedError v \<noteq> None then 1
         else 0)"

definition WorkflowService_GetSearchAttributes_Result_zero ::
    WorkflowService_GetSearchAttributes_Result where
  "WorkflowService_GetSearchAttributes_Result_zero =
      \<lparr>WorkflowService_GetSearchAttributes_Result.Success = None,
      WorkflowService_GetSearchAttributes_Result.InternalServiceError = None,
      WorkflowService_GetSearchAttributes_Result.ServiceBusyError = None,
      WorkflowService_GetSearchAttributes_Result.ClientVersionNotSupportedError = None\<rparr>"

definition WorkflowService_GetSearchAttributes_Result_ToWire ::
  "'v wire_api \<Rightarrow> WorkflowService_GetSearchAttributes_Result \<Rightarrow> go_error + 'v" where
  "WorkflowService_GetSearchAttributes_Result_ToWire W v =
     and_then (put_opt 0 (GetSearchAttributesResponse_ToWire W)
         (WorkflowService_GetSearchAttributes_Result.Success v) [])
       (\<lambda>fields.
     and_then (put_opt 1 (InternalServiceError_ToWire W)
         (WorkflowService_GetSearchAttributes_Result.InternalServiceError v) fields)
       (\<lambda>fields.
     and_then (put_opt 2 (ServiceBusyError_ToWire W)
         (WorkflowService_GetSearchAttributes_Result.ServiceBusyError v) fields)
       (\<lambda>fields.
     and_then (put_opt 3 (ClientVersionNotSupportedError_ToWire W)
         (WorkflowService_GetSearchAttributes_Result.ClientVersionNotSupportedError v) fields)
       (\<lambda>fields.
     if length fields \<noteq> 1
     then Inl (E_Errorf
         ''WorkflowService_GetSearchAttributes_Result should have exactly one field: got %v fields''
         (length fields))
     else Inr (NewValueStruct W fields)))))"

definition WorkflowService_GetSearchAttributes_Result_FromWire ::
  "'v wire_api \<Rightarrow> 'v \<Rightarrow> WorkflowService_GetSearchAttributes_Result \<Rightarrow> go_error +
      WorkflowService_GetSearchAttributes_Result" where
  "WorkflowService_GetSearchAttributes_Result_FromWire W w v =
     and_then (foldM (\<lambda>v (fid, fval).
       if fid = 0 then
         if wire_api.Type W fval = TStruct
         then and_then (GetSearchAttributesResponse_Read W fval) (\<lambda>x. Inr
             (v\<lparr>WorkflowService_GetSearchAttributes_Result.Success := Some x\<rparr>))
         else Inr v
       else if fid = 1 then
         if wire_api.Type W fval = TStruct
         then and_then (InternalServiceError_Read W fval) (\<lambda>x. Inr
             (v\<lparr>WorkflowService_GetSearchAttributes_Result.InternalServiceError := Some x\<rparr>))
         else Inr v
       else if fid = 2 then
         if wire_api.Type W fval = TStruct
         then and_then (ServiceBusyError_Read W fval) (\<lambda>x. Inr
             (v\<lparr>WorkflowService_GetSearchAttributes_Result.ServiceBusyError := Some x\<rparr>))
         else Inr v
       else if fid = 3 then
         if wire_api.Type W fval = TStruct
         then and_then (ClientVersionNotSupportedError_Read W fval) (\<lambda>x. Inr
             (v\<lparr>WorkflowService_GetSearchAttributes_Result.ClientVersionNotSupportedError := Some
             x\<rparr>))
         else Inr v
       else Inr v) (GetStruct W w) v) (\<lambda>v.
     let count = WorkflowService_GetSearchAttributes_Result_count v in
     if count \<noteq> 1
     then Inl (E_Errorf
         ''WorkflowService_GetSearchAttributes_Result should have exactly one field: got %v fields''
         count)
     else Inr v)"

definition WorkflowService_GetSearchAttributes_Result_enveloper ::
  "'v wire_api \<Rightarrow> WorkflowService_GetSearchAttributes_Result \<Rightarrow> 'v enveloper" where
  "WorkflowService_GetSearchAttributes_Result_enveloper W v =
     \<lparr>MethodName = ''GetSearchAttributes'', EnvelopeType = Reply, EnvelopeToWire =
         WorkflowService_GetSearchAttributes_Result_ToWire W v\<rparr>"

definition WorkflowService_GetSearchAttributes_Result_Equals ::
  "WorkflowService_GetSearchAttributes_Result option \<Rightarrow> WorkflowService_GetSearchAttributes_Result
      option \<Rightarrow> bool" where
  "WorkflowService_GetSearchAttributes_Result_Equals v rhs =
     (case v of None \<Rightarrow> rhs = None
      | Some v \<Rightarrow> (case rhs of None \<Rightarrow> False
        | Some rhs \<Rightarrow>
          if \<not> both_set_and (\<lambda>x y. GetSearchAttributesResponse_Equals (Some x) (Some y))
              (WorkflowService_GetSearchAttributes_Result.Success v)
              (WorkflowService_GetSearchAttributes_Result.Success rhs) then False else
          if \<not> both_set_and (\<lambda>x y. InternalServiceError_Equals (Some x) (Some y))
              (WorkflowService_GetSearchAttributes_Result.InternalServiceError v)
              (WorkflowService_GetSearchAttributes_Result.InternalServiceError rhs) then False else
          if \<not> both_set_and (\<lambda>x y. ServiceBusyError_Equals (Some x) (Some y))
              (WorkflowService_GetSearchAttributes_Result.ServiceBusyError v)
              (WorkflowService_GetSearchAttributes_Result.ServiceBusyError rhs) then False else
          if \<not> both_set_and (\<lambda>x y. ClientVersionNotSupportedError_Equals (Some x) (Some y))
              (WorkflowService_GetSearchAttributes_Result.ClientVersionNotSupportedError v)
              (WorkflowService_GetSearchAttributes_Result.ClientVersionNotSupportedError rhs) then
              False else
          True))"

lemma WorkflowService_GetSearchAttributes_Result_Equals_iff [simp]:
    "WorkflowService_GetSearchAttributes_Result_Equals x y \<longleftrightarrow> x = y"
  by (cases x; cases y) (auto simp: WorkflowService_GetSearchAttributes_Result_Equals_def)

definition WorkflowService_GetSearchAttributes_Helper_Args :: "unit \<Rightarrow>
    WorkflowService_GetSearchAttributes_Args" where
  "WorkflowService_GetSearchAttributes_Helper_Args r = WorkflowService_GetSearchAttributes_Args"

definition WorkflowService_GetSearchAttributes_Helper_IsException :: "go_error \<Rightarrow> bool" where
  "WorkflowService_GetSearchAttributes_Helper_IsException err =
     (case err of
        E_InternalServiceError _ \<Rightarrow> True
      | E_ServiceBusyError _ \<Rightarrow> True
      | E_ClientVersionNotSupportedError _ \<Rightarrow> True
      | _ \<Rightarrow> False)"

definition WorkflowService_GetSearchAttributes_Helper_WrapResponse ::
  "GetSearchAttributesResponse option \<Rightarrow> go_error option \<Rightarrow> go_error +
      WorkflowService_GetSearchAttributes_Result" where
  "WorkflowService_GetSearchAttributes_Helper_WrapResponse success err =
     (case err of None \<Rightarrow> Inr
         (WorkflowService_GetSearchAttributes_Result_zero\<lparr>WorkflowService_GetSearchAttributes_Result.Success := success\<rparr>)
      | Some err \<Rightarrow> (case err of
          E_InternalServiceError e \<Rightarrow> (case e of
              None \<Rightarrow> Inl (E_New
                  ''WrapResponse received non-nil error type with nil value for WorkflowService_GetSearchAttributes_Result.InternalServiceError'')
            | Some e \<Rightarrow> Inr
                (WorkflowService_GetSearchAttributes_Result_zero\<lparr>WorkflowService_GetSearchAttributes_Result.InternalServiceError := Some e\<rparr>))
        | E_ServiceBusyError e \<Rightarrow> (case e of
              None \<Rightarrow> Inl (E_New
                  ''WrapResponse received non-nil error type with nil value for WorkflowService_GetSearchAttributes_Result.ServiceBusyError'')
            | Some e \<Rightarrow> Inr
                (WorkflowService_GetSearchAttributes_Result_zero\<lparr>WorkflowService_GetSearchAttributes_Result.ServiceBusyError := Some e\<rparr>))
        | E_ClientVersionNotSupportedError e \<Rightarrow> (case e of
              None \<Rightarrow> Inl (E_New
                  ''WrapResponse received non-nil error type with nil value for WorkflowService_GetSearchAttributes_Result.ClientVersionNotSupportedError'')
            | Some e \<Rightarrow> Inr
                (WorkflowService_GetSearchAttributes_Result_zero\<lparr>WorkflowService_GetSearchAttributes_Result.ClientVersionNotSupportedError := Some e\<rparr>))
        | _ \<Rightarrow> Inl err))"

definition WorkflowService_GetSearchAttributes_Helper_UnwrapResponse ::
  "WorkflowService_GetSearchAttributes_Result \<Rightarrow> GetSearchAttributesResponse option \<times> go_error
      option" where
  "WorkflowService_GetSearchAttributes_Helper_UnwrapResponse result =
    (if WorkflowService_GetSearchAttributes_Result.InternalServiceError result \<noteq> None then (None,
        Some (E_InternalServiceError
        (WorkflowService_GetSearchAttributes_Result.InternalServiceError result))) else
     if WorkflowService_GetSearchAttributes_Result.ServiceBusyError result \<noteq> None then (None, Some
         (E_ServiceBusyError (WorkflowService_GetSearchAttributes_Result.ServiceBusyError result)))
         else
     if WorkflowService_GetSearchAttributes_Result.ClientVersionNotSupportedError result \<noteq> None then
         (None, Some (E_ClientVersionNotSupportedError
         (WorkflowService_GetSearchAttributes_Result.ClientVersionNotSupportedError result))) else
     if WorkflowService_GetSearchAttributes_Result.Success result \<noteq> None then
         (WorkflowService_GetSearchAttributes_Result.Success result, None) else
     (None, Some (E_New ''expected a non-void result'')))"

definition handler_GetSearchAttributes ::
  "'v wire_api \<Rightarrow> ('ctx \<Rightarrow> unit \<Rightarrow> GetSearchAttributesResponse option \<times> go_error option) \<Rightarrow>
   ('ctx, 'v) unary_handler" where
  "handler_GetSearchAttributes W impl ctx body =
     (case WorkflowService_GetSearchAttributes_Args_FromWire W body
         WorkflowService_GetSearchAttributes_Args_zero of
      Inl err \<Rightarrow> (no_response, Some err)
    | Inr args \<Rightarrow>
      let (success, err) = impl ctx ((\<lambda>_. ()) args);
          hadError = (err \<noteq> None)
      in case WorkflowService_GetSearchAttributes_Helper_WrapResponse success err of
           Inl err \<Rightarrow> (no_response, Some err)
         | Inr result \<Rightarrow>
             (\<lparr>Body = Some (WorkflowService_GetSearchAttributes_Result_enveloper W result),
               IsApplicationError = hadError\<rparr>, None))"

definition client_GetSearchAttributes ::
  "'v wire_api \<Rightarrow> ('ctx, 'v) thrift_client \<Rightarrow> 'ctx \<Rightarrow> unit \<Rightarrow>
   GetSearchAttributesResponse option \<times> go_error option" where
  "client_GetSearchAttributes W call ctx r =
     (let args = WorkflowService_GetSearchAttributes_Helper_Args r in
      case call ctx (WorkflowService_GetSearchAttributes_Args_enveloper W args) of
        Inl e \<Rightarrow> (None, Some e)
      | Inr body \<Rightarrow>
          (case WorkflowService_GetSearchAttributes_Result_FromWire W body
              WorkflowService_GetSearchAttributes_Result_zero of
             Inl e \<Rightarrow> (None, Some e)
           | Inr result \<Rightarrow> WorkflowService_GetSearchAttributes_Helper_UnwrapResponse result))"

interpretation WorkflowService_GetSearchAttributes_Args: thrift_struct W
  "WorkflowService_GetSearchAttributes_Args_ToWire W"
      "WorkflowService_GetSearchAttributes_Args_FromWire W"
  WorkflowService_GetSearchAttributes_Args_zero "\<lambda>x. True" for W
proof (rule thrift_structI)
  fix x :: WorkflowService_GetSearchAttributes_Args
  assume laws: "wire_laws W"
  show "\<exists>w. WorkflowService_GetSearchAttributes_Args_ToWire W x = Inr w \<and> wire_api.Type W w =
      TStruct \<and>
      (Writable W w \<longleftrightarrow> True) \<and> (True \<longrightarrow> WorkflowService_GetSearchAttributes_Args_FromWire W w
          WorkflowService_GetSearchAttributes_Args_zero = Inr x)"
    by (cases x) (simp cong: option.case_cong add: codec_rules
        WorkflowService_GetSearchAttributes_Args_ToWire_def
        WorkflowService_GetSearchAttributes_Args_FromWire_def
      WorkflowService_GetSearchAttributes_Args_zero_def laws)
qed

lemma WorkflowService_GetSearchAttributes_Result_merge:
  "(case x of None \<Rightarrow> Inr \<lparr>WorkflowService_GetSearchAttributes_Result.Success = a0,
      WorkflowService_GetSearchAttributes_Result.InternalServiceError = a1,
      WorkflowService_GetSearchAttributes_Result.ServiceBusyError = a2,
      WorkflowService_GetSearchAttributes_Result.ClientVersionNotSupportedError = a3\<rparr> | Some y \<Rightarrow> Inr
      \<lparr>WorkflowService_GetSearchAttributes_Result.Success = b0 y,
      WorkflowService_GetSearchAttributes_Result.InternalServiceError = b1 y,
      WorkflowService_GetSearchAttributes_Result.ServiceBusyError = b2 y,
      WorkflowService_GetSearchAttributes_Result.ClientVersionNotSupportedError = b3 y\<rparr>) =
   Inr \<lparr>WorkflowService_GetSearchAttributes_Result.Success = (case x of None \<Rightarrow> a0 | Some y \<Rightarrow> b0 y),
       WorkflowService_GetSearchAttributes_Result.InternalServiceError = (case x of None \<Rightarrow> a1 | Some
       y \<Rightarrow> b1 y), WorkflowService_GetSearchAttributes_Result.ServiceBusyError = (case x of None \<Rightarrow> a2
       | Some y \<Rightarrow> b2 y), WorkflowService_GetSearchAttributes_Result.ClientVersionNotSupportedError =
       (case x of None \<Rightarrow> a3 | Some y \<Rightarrow> b3 y)\<rparr>"
  by (cases x) simp_all

interpretation WorkflowService_GetSearchAttributes_Result: thrift_struct W
  "WorkflowService_GetSearchAttributes_Result_ToWire W"
      "WorkflowService_GetSearchAttributes_Result_FromWire W"
  WorkflowService_GetSearchAttributes_Result_zero "\<lambda>r.
      WorkflowService_GetSearchAttributes_Result_count r = 1" for W
proof (rule thrift_checked_plainI)
  fix x :: WorkflowService_GetSearchAttributes_Result
  assume laws: "wire_laws W"
  obtain enc0 where e0: "GetSearchAttributesResponse_ToWire W = (\<lambda>x. Inr (enc0 x))"
      "\<And>x. wire_api.Type W (enc0 x) = TStruct"
      "\<And>x. Writable W (enc0 x) \<longleftrightarrow> (\<lambda>_. True) x"
      "\<And>x. (\<lambda>_. True) x \<Longrightarrow> GetSearchAttributesResponse_FromWire W (enc0 x)
          GetSearchAttributesResponse_zero = Inr x"
    by (rule GetSearchAttributesResponse.encoder [OF laws]) (rule that)
  obtain enc1 where e1: "InternalServiceError_ToWire W = (\<lambda>x. Inr (enc1 x))"
      "\<And>x. wire_api.Type W (enc1 x) = TStruct"
      "\<And>x. Writable W (enc1 x) \<longleftrightarrow> (\<lambda>_. True) x"
      "\<And>x. (\<lambda>_. True) x \<Longrightarrow> InternalServiceError_FromWire W (enc1 x) InternalServiceError_zero = Inr
          x"
    by (rule InternalServiceError.encoder [OF laws]) (rule that)
  obtain enc2 where e2: "ServiceBusyError_ToWire W = (\<lambda>x. Inr (enc2 x))"
      "\<And>x. wire_api.Type W (enc2 x) = TStruct"
      "\<And>x. Writable W (enc2 x) \<longleftrightarrow> (\<lambda>_. True) x"
      "\<And>x. (\<lambda>_. True) x \<Longrightarrow> ServiceBusyError_FromWire W (enc2 x) ServiceBusyError_zero = Inr x"
    by (rule ServiceBusyError.encoder [OF laws]) (rule that)
  obtain enc3 where e3: "ClientVersionNotSupportedError_ToWire W = (\<lambda>x. Inr (enc3 x))"
      "\<And>x. wire_api.Type W (enc3 x) = TStruct"
      "\<And>x. Writable W (enc3 x) \<longleftrightarrow> (\<lambda>_. True) x"
      "\<And>x. (\<lambda>_. True) x \<Longrightarrow> ClientVersionNotSupportedError_FromWire W (enc3 x)
          ClientVersionNotSupportedError_zero = Inr x"
    by (rule ClientVersionNotSupportedError.encoder [OF laws]) (rule that)
  let ?fs = "((opt_field 0 enc0 (WorkflowService_GetSearchAttributes_Result.Success x) @
      opt_field 1 enc1 (WorkflowService_GetSearchAttributes_Result.InternalServiceError x)) @
      opt_field 2 enc2 (WorkflowService_GetSearchAttributes_Result.ServiceBusyError x)) @
      opt_field 3 enc3 (WorkflowService_GetSearchAttributes_Result.ClientVersionNotSupportedError
          x)"
  let ?check = "\<lambda>r. if WorkflowService_GetSearchAttributes_Result_count x \<noteq> 1 then Inl (E_Errorf
      ''WorkflowService_GetSearchAttributes_Result should have exactly one field: got %v fields''
          (WorkflowService_GetSearchAttributes_Result_count x)) else Inr r"
  have "length ?fs = WorkflowService_GetSearchAttributes_Result_count x"
    by (simp add: WorkflowService_GetSearchAttributes_Result_count_def length_opt_field split del:
        if_split)
  then have "WorkflowService_GetSearchAttributes_Result_ToWire W x = ?check (NewValueStruct W ?fs)"
    by (simp only: WorkflowService_GetSearchAttributes_Result_ToWire_def put_opt_field
        and_then.simps append_Nil e0(1) e1(1) e2(1) e3(1))
  moreover have "WorkflowService_GetSearchAttributes_Result_FromWire W (NewValueStruct W ?fs)
      WorkflowService_GetSearchAttributes_Result_zero = ?check x"
    by (cases x, hypsubst) (simp cong: option.case_cong split del: if_split add: codec_rules Let_def
        WorkflowService_GetSearchAttributes_Result_merge
      WorkflowService_GetSearchAttributes_Result_FromWire_def
          WorkflowService_GetSearchAttributes_Result_zero_def laws
      ClientVersionNotSupportedError_Read_def
      GetSearchAttributesResponse_Read_def
      InternalServiceError_Read_def
      ServiceBusyError_Read_def
      e0 e1 e2 e3)
  ultimately show "if WorkflowService_GetSearchAttributes_Result_count x = 1
      then \<exists>w. WorkflowService_GetSearchAttributes_Result_ToWire W x = Inr w \<and> wire_api.Type W w =
          TStruct \<and>
        Writable W w \<and> WorkflowService_GetSearchAttributes_Result_FromWire W w
            WorkflowService_GetSearchAttributes_Result_zero = Inr x
      else \<exists>e. WorkflowService_GetSearchAttributes_Result_ToWire W x = Inl e"
    by (simp add: laws codec_rules e0 e1 e2 e3)
qed

interpretation GetSearchAttributes: rpc_method W
  "WorkflowService_GetSearchAttributes_Args_ToWire W"
      "WorkflowService_GetSearchAttributes_Args_FromWire W"
      WorkflowService_GetSearchAttributes_Args_zero "\<lambda>x. True"
  "WorkflowService_GetSearchAttributes_Result_ToWire W"
      "WorkflowService_GetSearchAttributes_Result_FromWire W"
      WorkflowService_GetSearchAttributes_Result_zero
  "\<lambda>r. WorkflowService_GetSearchAttributes_Result_count r = 1" "''GetSearchAttributes''"
  WorkflowService_GetSearchAttributes_Helper_Args "(\<lambda>_. ())"
  "\<lambda>(success, err). WorkflowService_GetSearchAttributes_Helper_WrapResponse success err"
      WorkflowService_GetSearchAttributes_Helper_UnwrapResponse
  "\<lambda>out. snd out \<noteq> None" "carried (\<lambda>_. True) WorkflowService_GetSearchAttributes_Helper_IsException"
      error_first "\<lambda>e. (None, Some e)"
  "handler_GetSearchAttributes W" "client_GetSearchAttributes W" for W
proof
  fix out :: "GetSearchAttributesResponse option \<times> go_error option"
  assume "carried (\<lambda>_. True) WorkflowService_GetSearchAttributes_Helper_IsException out"
  then show "case (\<lambda>(success, err). WorkflowService_GetSearchAttributes_Helper_WrapResponse success
      err) out of Inl e \<Rightarrow> False
      | Inr res \<Rightarrow> (WorkflowService_GetSearchAttributes_Result_count res = 1) \<and>
          WorkflowService_GetSearchAttributes_Helper_UnwrapResponse res = error_first out"
    by (cases out; cases "snd out"; cases "the (snd out)")
      (auto simp: WorkflowService_GetSearchAttributes_Helper_IsException_def
          WorkflowService_GetSearchAttributes_Helper_WrapResponse_def
          WorkflowService_GetSearchAttributes_Helper_UnwrapResponse_def
        declared_nonnil_def WorkflowService_GetSearchAttributes_Result_zero_def
            WorkflowService_GetSearchAttributes_Result_count_def elim!: present.elims)
next
  fix out :: "GetSearchAttributesResponse option \<times> go_error option"
  assume "\<not> carried (\<lambda>_. True) WorkflowService_GetSearchAttributes_Helper_IsException out"
  then show "case (\<lambda>(success, err). WorkflowService_GetSearchAttributes_Helper_WrapResponse success
      err) out of Inl e \<Rightarrow> True
      | Inr res \<Rightarrow> \<not> (WorkflowService_GetSearchAttributes_Result_count res = 1)"
    by (cases out; cases "snd out"; cases "the (snd out)")
      (auto simp: WorkflowService_GetSearchAttributes_Helper_IsException_def
          WorkflowService_GetSearchAttributes_Helper_WrapResponse_def declared_nonnil_def
        WorkflowService_GetSearchAttributes_Result_count_def
            WorkflowService_GetSearchAttributes_Result_zero_def split: option.splits)
qed (auto simp: WorkflowService_GetSearchAttributes_Helper_Args_def handler_GetSearchAttributes_def
    client_GetSearchAttributes_def
      WorkflowService_GetSearchAttributes_Args_enveloper_def
          WorkflowService_GetSearchAttributes_Result_enveloper_def
      Let_def split: sum.splits prod.splits)

section \<open>DescribeWorkflowExecution\<close>

record WorkflowService_DescribeWorkflowExecution_Args =
  DescribeRequest :: "DescribeWorkflowExecutionRequest option"

definition WorkflowService_DescribeWorkflowExecution_Args_zero ::
    WorkflowService_DescribeWorkflowExecution_Args where
  "WorkflowService_DescribeWorkflowExecution_Args_zero =
      \<lparr>WorkflowService_DescribeWorkflowExecution_Args.DescribeRequest = None\<rparr>"

definition WorkflowService_DescribeWorkflowExecution_Args_ToWire ::
  "'v wire_api \<Rightarrow> WorkflowService_DescribeWorkflowExecution_Args \<Rightarrow> go_error + 'v" where
  "WorkflowService_DescribeWorkflowExecution_Args_ToWire W v =
     and_then (put_opt 1 (DescribeWorkflowExecutionRequest_ToWire W)
         (WorkflowService_DescribeWorkflowExecution_Args.DescribeRequest v) [])
       (\<lambda>fields.
     Inr (NewValueStruct W fields))"

definition WorkflowService_DescribeWorkflowExecution_Args_FromWire ::
  "'v wire_api \<Rightarrow> 'v \<Rightarrow> WorkflowService_DescribeWorkflowExecution_Args \<Rightarrow> go_error +
      WorkflowService_DescribeWorkflowExecution_Args" where
  "WorkflowService_DescribeWorkflowExecution_Args_FromWire W w v =
     foldM (\<lambda>v (fid, fval).
       if fid = 1 then
         if wire_api.Type W fval = TStruct
         then and_then (DescribeWorkflowExecutionRequest_Read W fval) (\<lambda>x. Inr
             (v\<lparr>WorkflowService_DescribeWorkflowExecution_Args.DescribeRequest := Some x\<rparr>))
         else Inr v
       else Inr v) (GetStruct W w) v"

definition WorkflowService_DescribeWorkflowExecution_Args_enveloper ::
  "'v wire_api \<Rightarrow> WorkflowService_DescribeWorkflowExecution_Args \<Rightarrow> 'v enveloper" where
  "WorkflowService_DescribeWorkflowExecution_Args_enveloper W v =
     \<lparr>MethodName = ''DescribeWorkflowExecution'', EnvelopeType = Call, EnvelopeToWire =
         WorkflowService_DescribeWorkflowExecution_Args_ToWire W v\<rparr>"

definition WorkflowService_DescribeWorkflowExecution_Args_Equals ::
  "WorkflowService_DescribeWorkflowExecution_Args option \<Rightarrow>
      WorkflowService_DescribeWorkflowExecution_Args option \<Rightarrow> bool" where
  "WorkflowService_DescribeWorkflowExecution_Args_Equals v rhs =
     (case v of None \<Rightarrow> rhs = None
      | Some v \<Rightarrow> (case rhs of None \<Rightarrow> False
        | Some rhs \<Rightarrow>
          if \<not> both_set_and (\<lambda>x y. DescribeWorkflowExecutionRequest_Equals (Some x) (Some y))
              (WorkflowService_DescribeWorkflowExecution_Args.DescribeRequest v)
              (WorkflowService_DescribeWorkflowExecution_Args.DescribeRequest rhs) then False else
          True))"

lemma WorkflowService_DescribeWorkflowExecution_Args_Equals_iff [simp]:
    "WorkflowService_DescribeWorkflowExecution_Args_Equals x y \<longleftrightarrow> x = y"
  by (cases x; cases y) (auto simp: WorkflowService_DescribeWorkflowExecution_Args_Equals_def)

record WorkflowService_DescribeWorkflowExecution_Result =
  Success :: "DescribeWorkflowExecutionResponse option"
  BadRequestError :: "BadRequestError option"
  InternalServiceError :: "InternalServiceError option"
  EntityNotExistError :: "EntityNotExistsError option"
  LimitExceededError :: "LimitExceededError option"
  ServiceBusyError :: "ServiceBusyError option"
  ClientVersionNotSupportedError :: "ClientVersionNotSupportedError option"

definition WorkflowService_DescribeWorkflowExecution_Result_count ::
    "WorkflowService_DescribeWorkflowExecution_Result \<Rightarrow> nat" where
  "WorkflowService_DescribeWorkflowExecution_Result_count v =
     (if WorkflowService_DescribeWorkflowExecution_Result.Success v \<noteq> None then 1 else 0) +
     (if WorkflowService_DescribeWorkflowExecution_Result.BadRequestError v \<noteq> None then 1 else 0) +
     (if WorkflowService_DescribeWorkflowExecution_Result.InternalServiceError v \<noteq> None then 1 else
         0) +
     (if WorkflowService_DescribeWorkflowExecution_Result.EntityNotExistError v \<noteq> None then 1 else
         0) +
     (if WorkflowService_DescribeWorkflowExecution_Result.LimitExceededError v \<noteq> None then 1 else 0)
         +
     (if WorkflowService_DescribeWorkflowExecution_Result.ServiceBusyError v \<noteq> None then 1 else 0) +
     (if WorkflowService_DescribeWorkflowExecution_Result.ClientVersionNotSupportedError v \<noteq> None
         then 1 else 0)"

definition WorkflowService_DescribeWorkflowExecution_Result_zero ::
    WorkflowService_DescribeWorkflowExecution_Result where
  "WorkflowService_DescribeWorkflowExecution_Result_zero =
      \<lparr>WorkflowService_DescribeWorkflowExecution_Result.Success = None,
      WorkflowService_DescribeWorkflowExecution_Result.BadRequestError = None,
      WorkflowService_DescribeWorkflowExecution_Result.InternalServiceError = None,
      WorkflowService_DescribeWorkflowExecution_Result.EntityNotExistError = None,
      WorkflowService_DescribeWorkflowExecution_Result.LimitExceededError = None,
      WorkflowService_DescribeWorkflowExecution_Result.ServiceBusyError = None,
      WorkflowService_DescribeWorkflowExecution_Result.ClientVersionNotSupportedError = None\<rparr>"

definition WorkflowService_DescribeWorkflowExecution_Result_ToWire ::
  "'v wire_api \<Rightarrow> WorkflowService_DescribeWorkflowExecution_Result \<Rightarrow> go_error + 'v" where
  "WorkflowService_DescribeWorkflowExecution_Result_ToWire W v =
     and_then (put_opt 0 (DescribeWorkflowExecutionResponse_ToWire W)
         (WorkflowService_DescribeWorkflowExecution_Result.Success v) [])
       (\<lambda>fields.
     and_then (put_opt 1 (BadRequestError_ToWire W)
         (WorkflowService_DescribeWorkflowExecution_Result.BadRequestError v) fields)
       (\<lambda>fields.
     and_then (put_opt 2 (InternalServiceError_ToWire W)
         (WorkflowService_DescribeWorkflowExecution_Result.InternalServiceError v) fields)
       (\<lambda>fields.
     and_then (put_opt 3 (EntityNotExistsError_ToWire W)
         (WorkflowService_DescribeWorkflowExecution_Result.EntityNotExistError v) fields)
       (\<lambda>fields.
     and_then (put_opt 4 (LimitExceededError_ToWire W)
         (WorkflowService_DescribeWorkflowExecution_Result.LimitExceededError v) fields)
       (\<lambda>fields.
     and_then (put_opt 5 (ServiceBusyError_ToWire W)
         (WorkflowService_DescribeWorkflowExecution_Result.ServiceBusyError v) fields)
       (\<lambda>fields.
     and_then (put_opt 6 (ClientVersionNotSupportedError_ToWire W)
         (WorkflowService_DescribeWorkflowExecution_Result.ClientVersionNotSupportedError v) fields)
       (\<lambda>fields.
     if length fields \<noteq> 1
     then Inl (E_Errorf
         ''WorkflowService_DescribeWorkflowExecution_Result should have exactly one field: got %v fields'' (length fields))
     else Inr (NewValueStruct W fields))))))))"

definition WorkflowService_DescribeWorkflowExecution_Result_FromWire ::
  "'v wire_api \<Rightarrow> 'v \<Rightarrow> WorkflowService_DescribeWorkflowExecution_Result \<Rightarrow> go_error +
      WorkflowService_DescribeWorkflowExecution_Result" where
  "WorkflowService_DescribeWorkflowExecution_Result_FromWire W w v =
     and_then (foldM (\<lambda>v (fid, fval).
       if fid = 0 then
         if wire_api.Type W fval = TStruct
         then and_then (DescribeWorkflowExecutionResponse_Read W fval) (\<lambda>x. Inr
             (v\<lparr>WorkflowService_DescribeWorkflowExecution_Result.Success := Some x\<rparr>))
         else Inr v
       else if fid = 1 then
         if wire_api.Type W fval = TStruct
         then and_then (BadRequestError_Read W fval) (\<lambda>x. Inr
             (v\<lparr>WorkflowService_DescribeWorkflowExecution_Result.BadRequestError := Some x\<rparr>))
         else Inr v
       else if fid = 2 then
         if wire_api.Type W fval = TStruct
         then and_then (InternalServiceError_Read W fval) (\<lambda>x. Inr
             (v\<lparr>WorkflowService_DescribeWorkflowExecution_Result.InternalServiceError := Some x\<rparr>))
         else Inr v
       else if fid = 3 then
         if wire_api.Type W fval = TStruct
         then and_then (EntityNotExistsError_Read W fval) (\<lambda>x. Inr
             (v\<lparr>WorkflowService_DescribeWorkflowExecution_Result.EntityNotExistError := Some x\<rparr>))
         else Inr v
       else if fid = 4 then
         if wire_api.Type W fval = TStruct
         then and_then (LimitExceededError_Read W fval) (\<lambda>x. Inr
             (v\<lparr>WorkflowService_DescribeWorkflowExecution_Result.LimitExceededError := Some x\<rparr>))
         else Inr v
       else if fid = 5 then
         if wire_api.Type W fval = TStruct
         then and_then (ServiceBusyError_Read W fval) (\<lambda>x. Inr
             (v\<lparr>WorkflowService_DescribeWorkflowExecution_Result.ServiceBusyError := Some x\<rparr>))
         else Inr v
       else if fid = 6 then
         if wire_api.Type W fval = TStruct
         then and_then (ClientVersionNotSupportedError_Read W fval) (\<lambda>x. Inr
             (v\<lparr>WorkflowService_DescribeWorkflowExecution_Result.ClientVersionNotSupportedError :=
             Some x\<rparr>))
         else Inr v
       else Inr v) (GetStruct W w) v) (\<lambda>v.
     let count = WorkflowService_DescribeWorkflowExecution_Result_count v in
     if count \<noteq> 1
     then Inl (E_Errorf
         ''WorkflowService_DescribeWorkflowExecution_Result should have exactly one field: got %v fields'' count)
     else Inr v)"

definition WorkflowService_DescribeWorkflowExecution_Result_enveloper ::
  "'v wire_api \<Rightarrow> WorkflowService_DescribeWorkflowExecution_Result \<Rightarrow> 'v enveloper" where
  "WorkflowService_DescribeWorkflowExecution_Result_enveloper W v =
     \<lparr>MethodName = ''DescribeWorkflowExecution'', EnvelopeType = Reply, EnvelopeToWire =
         WorkflowService_DescribeWorkflowExecution_Result_ToWire W v\<rparr>"

definition WorkflowService_DescribeWorkflowExecution_Result_Equals ::
  "WorkflowService_DescribeWorkflowExecution_Result option \<Rightarrow>
      WorkflowService_DescribeWorkflowExecution_Result option \<Rightarrow> bool" where
  "WorkflowService_DescribeWorkflowExecution_Result_Equals v rhs =
     (case v of None \<Rightarrow> rhs = None
      | Some v \<Rightarrow> (case rhs of None \<Rightarrow> False
        | Some rhs \<Rightarrow>
          if \<not> both_set_and (\<lambda>x y. DescribeWorkflowExecutionResponse_Equals (Some x) (Some y))
              (WorkflowService_DescribeWorkflowExecution_Result.Success v)
              (WorkflowService_DescribeWorkflowExecution_Result.Success rhs) then False else
          if \<not> both_set_and (\<lambda>x y. BadRequestError_Equals (Some x) (Some y))
              (WorkflowService_DescribeWorkflowExecution_Result.BadRequestError v)
              (WorkflowService_DescribeWorkflowExecution_Result.BadRequestError rhs) then False else
          if \<not> both_set_and (\<lambda>x y. InternalServiceError_Equals (Some x) (Some y))
              (WorkflowService_DescribeWorkflowExecution_Result.InternalServiceError v)
              (WorkflowService_DescribeWorkflowExecution_Result.InternalServiceError rhs) then False
              else
          if \<not> both_set_and (\<lambda>x y. EntityNotExistsError_Equals (Some x) (Some y))
              (WorkflowService_DescribeWorkflowExecution_Result.EntityNotExistError v)
              (WorkflowService_DescribeWorkflowExecution_Result.EntityNotExistError rhs) then False
              else
          if \<not> both_set_and (\<lambda>x y. LimitExceededError_Equals (Some x) (Some y))
              (WorkflowService_DescribeWorkflowExecution_Result.LimitExceededError v)
              (WorkflowService_DescribeWorkflowExecution_Result.LimitExceededError rhs) then False
              else
          if \<not> both_set_and (\<lambda>x y. ServiceBusyError_Equals (Some x) (Some y))
              (WorkflowService_DescribeWorkflowExecution_Result.ServiceBusyError v)
              (WorkflowService_DescribeWorkflowExecution_Result.ServiceBusyError rhs) then False
              else
          if \<not> both_set_and (\<lambda>x y. ClientVersionNotSupportedError_Equals (Some x) (Some y))
              (WorkflowService_DescribeWorkflowExecution_Result.ClientVersionNotSupportedError v)
              (WorkflowService_DescribeWorkflowExecution_Result.ClientVersionNotSupportedError rhs)
              then False else
          True))"

definition WorkflowService_DescribeWorkflowExecution_Result_comparable ::
    "WorkflowService_DescribeWorkflowExecution_Result \<Rightarrow> bool" where
  "WorkflowService_DescribeWorkflowExecution_Result_comparable v \<longleftrightarrow>
     if_set DescribeWorkflowExecutionResponse_comparable
         (WorkflowService_DescribeWorkflowExecution_Result.Success v)"

lemma WorkflowService_DescribeWorkflowExecution_Result_Equals_iff:
  "if_set WorkflowService_DescribeWorkflowExecution_Result_comparable x \<Longrightarrow> if_set
      WorkflowService_DescribeWorkflowExecution_Result_comparable y \<Longrightarrow>
      WorkflowService_DescribeWorkflowExecution_Result_Equals x y \<longleftrightarrow> x = y"
  by (cases x; cases y) (simp_all add: WorkflowService_DescribeWorkflowExecution_Result_Equals_def
      WorkflowService_DescribeWorkflowExecution_Result_comparable_def if_not_False,
    fastforce intro: WorkflowService_DescribeWorkflowExecution_Result.equality)

lemma WorkflowService_DescribeWorkflowExecution_Result_fields_equal [simp]:
  "if_set WorkflowService_DescribeWorkflowExecution_Result_comparable x \<Longrightarrow> if_set
      WorkflowService_DescribeWorkflowExecution_Result_comparable y \<Longrightarrow>
    both_set_and (\<lambda>x y. WorkflowService_DescribeWorkflowExecution_Result_Equals (Some x) (Some y)) x
        y \<longleftrightarrow> x = y"
  by (rule both_set_and_iff [where P = WorkflowService_DescribeWorkflowExecution_Result_comparable])
      (simp_all add: WorkflowService_DescribeWorkflowExecution_Result_Equals_iff)

definition WorkflowService_DescribeWorkflowExecution_Helper_Args ::
    "DescribeWorkflowExecutionRequest option \<Rightarrow> WorkflowService_DescribeWorkflowExecution_Args" where
  "WorkflowService_DescribeWorkflowExecution_Helper_Args r =
      \<lparr>WorkflowService_DescribeWorkflowExecution_Args.DescribeRequest = r\<rparr>"

definition WorkflowService_DescribeWorkflowExecution_Helper_IsException :: "go_error \<Rightarrow> bool" where
  "WorkflowService_DescribeWorkflowExecution_Helper_IsException err =
     (case err of
        E_BadRequestError _ \<Rightarrow> True
      | E_InternalServiceError _ \<Rightarrow> True
      | E_EntityNotExistsError _ \<Rightarrow> True
      | E_LimitExceededError _ \<Rightarrow> True
      | E_ServiceBusyError _ \<Rightarrow> True
      | E_ClientVersionNotSupportedError _ \<Rightarrow> True
      | _ \<Rightarrow> False)"

definition WorkflowService_DescribeWorkflowExecution_Helper_WrapResponse ::
  "DescribeWorkflowExecutionResponse option \<Rightarrow> go_error option \<Rightarrow> go_error +
      WorkflowService_DescribeWorkflowExecution_Result" where
  "WorkflowService_DescribeWorkflowExecution_Helper_WrapResponse success err =
     (case err of None \<Rightarrow> Inr
         (WorkflowService_DescribeWorkflowExecution_Result_zero\<lparr>WorkflowService_DescribeWorkflowExecution_Result.Success := success\<rparr>)
      | Some err \<Rightarrow> (case err of
          E_BadRequestError e \<Rightarrow> (case e of
              None \<Rightarrow> Inl (E_New
                  ''WrapResponse received non-nil error type with nil value for WorkflowService_DescribeWorkflowExecution_Result.BadRequestError'')
            | Some e \<Rightarrow> Inr
                (WorkflowService_DescribeWorkflowExecution_Result_zero\<lparr>WorkflowService_DescribeWorkflowExecution_Result.BadRequestError := Some e\<rparr>))
        | E_InternalServiceError e \<Rightarrow> (case e of
              None \<Rightarrow> Inl (E_New
                  ''WrapResponse received non-nil error type with nil value for WorkflowService_DescribeWorkflowExecution_Result.InternalServiceError'')
            | Some e \<Rightarrow> Inr
                (WorkflowService_DescribeWorkflowExecution_Result_zero\<lparr>WorkflowService_DescribeWorkflowExecution_Result.InternalServiceError := Some e\<rparr>))
        | E_EntityNotExistsError e \<Rightarrow> (case e of
              None \<Rightarrow> Inl (E_New
                  ''WrapResponse received non-nil error type with nil value for WorkflowService_DescribeWorkflowExecution_Result.EntityNotExistError'')
            | Some e \<Rightarrow> Inr
                (WorkflowService_DescribeWorkflowExecution_Result_zero\<lparr>WorkflowService_DescribeWorkflowExecution_Result.EntityNotExistError := Some e\<rparr>))
        | E_LimitExceededError e \<Rightarrow> (case e of
              None \<Rightarrow> Inl (E_New
                  ''WrapResponse received non-nil error type with nil value for WorkflowService_DescribeWorkflowExecution_Result.LimitExceededError'')
            | Some e \<Rightarrow> Inr
                (WorkflowService_DescribeWorkflowExecution_Result_zero\<lparr>WorkflowService_DescribeWorkflowExecution_Result.LimitExceededError := Some e\<rparr>))
        | E_ServiceBusyError e \<Rightarrow> (case e of
              None \<Rightarrow> Inl (E_New
                  ''WrapResponse received non-nil error type with nil value for WorkflowService_DescribeWorkflowExecution_Result.ServiceBusyError'')
            | Some e \<Rightarrow> Inr
                (WorkflowService_DescribeWorkflowExecution_Result_zero\<lparr>WorkflowService_DescribeWorkflowExecution_Result.ServiceBusyError := Some e\<rparr>))
        | E_ClientVersionNotSupportedError e \<Rightarrow> (case e of
              None \<Rightarrow> Inl (E_New
                  ''WrapResponse received non-nil error type with nil value for WorkflowService_DescribeWorkflowExecution_Result.ClientVersionNotSupportedError'')
            | Some e \<Rightarrow> Inr
                (WorkflowService_DescribeWorkflowExecution_Result_zero\<lparr>WorkflowService_DescribeWorkflowExecution_Result.ClientVersionNotSupportedError := Some e\<rparr>))
        | _ \<Rightarrow> Inl err))"

definition WorkflowService_DescribeWorkflowExecution_Helper_UnwrapResponse ::
  "WorkflowService_DescribeWorkflowExecution_Result \<Rightarrow> DescribeWorkflowExecutionResponse option \<times>
      go_error option" where
  "WorkflowService_DescribeWorkflowExecution_Helper_UnwrapResponse result =
    (if WorkflowService_DescribeWorkflowExecution_Result.BadRequestError result \<noteq> None then (None,
        Some (E_BadRequestError (WorkflowService_DescribeWorkflowExecution_Result.BadRequestError
        result))) else
     if WorkflowService_DescribeWorkflowExecution_Result.InternalServiceError result \<noteq> None then
         (None, Some (E_InternalServiceError
         (WorkflowService_DescribeWorkflowExecution_Result.InternalServiceError result))) else
     if WorkflowService_DescribeWorkflowExecution_Result.EntityNotExistError result \<noteq> None then
         (None, Some (E_EntityNotExistsError
         (WorkflowService_DescribeWorkflowExecution_Result.EntityNotExistError result))) else
     if WorkflowService_DescribeWorkflowExecution_Result.LimitExceededError result \<noteq> None then
         (None, Some (E_LimitExceededError
         (WorkflowService_DescribeWorkflowExecution_Result.LimitExceededError result))) else
     if WorkflowService_DescribeWorkflowExecution_Result.ServiceBusyError result \<noteq> None then (None,
         Some (E_ServiceBusyError (WorkflowService_DescribeWorkflowExecution_Result.ServiceBusyError
         result))) else
     if WorkflowService_DescribeWorkflowExecution_Result.ClientVersionNotSupportedError result \<noteq>
         None then (None, Some (E_ClientVersionNotSupportedError
         (WorkflowService_DescribeWorkflowExecution_Result.ClientVersionNotSupportedError result)))
         else
     if WorkflowService_DescribeWorkflowExecution_Result.Success result \<noteq> None then
         (WorkflowService_DescribeWorkflowExecution_Result.Success result, None) else
     (None, Some (E_New ''expected a non-void result'')))"

definition handler_DescribeWorkflowExecution ::
  "'v wire_api \<Rightarrow> ('ctx \<Rightarrow> DescribeWorkflowExecutionRequest option \<Rightarrow> DescribeWorkflowExecutionResponse
      option \<times> go_error option) \<Rightarrow>
   ('ctx, 'v) unary_handler" where
  "handler_DescribeWorkflowExecution W impl ctx body =
     (case WorkflowService_DescribeWorkflowExecution_Args_FromWire W body
         WorkflowService_DescribeWorkflowExecution_Args_zero of
      Inl err \<Rightarrow> (no_response, Some err)
    | Inr args \<Rightarrow>
      let (success, err) = impl ctx (WorkflowService_DescribeWorkflowExecution_Args.DescribeRequest
          args);
          hadError = (err \<noteq> None)
      in case WorkflowService_DescribeWorkflowExecution_Helper_WrapResponse success err of
           Inl err \<Rightarrow> (no_response, Some err)
         | Inr result \<Rightarrow>
             (\<lparr>Body = Some (WorkflowService_DescribeWorkflowExecution_Result_enveloper W result),
               IsApplicationError = hadError\<rparr>, None))"

definition client_DescribeWorkflowExecution ::
  "'v wire_api \<Rightarrow> ('ctx, 'v) thrift_client \<Rightarrow> 'ctx \<Rightarrow> DescribeWorkflowExecutionRequest option \<Rightarrow>
   DescribeWorkflowExecutionResponse option \<times> go_error option" where
  "client_DescribeWorkflowExecution W call ctx r =
     (let args = WorkflowService_DescribeWorkflowExecution_Helper_Args r in
      case call ctx (WorkflowService_DescribeWorkflowExecution_Args_enveloper W args) of
        Inl e \<Rightarrow> (None, Some e)
      | Inr body \<Rightarrow>
          (case WorkflowService_DescribeWorkflowExecution_Result_FromWire W body
              WorkflowService_DescribeWorkflowExecution_Result_zero of
             Inl e \<Rightarrow> (None, Some e)
           | Inr result \<Rightarrow> WorkflowService_DescribeWorkflowExecution_Helper_UnwrapResponse result))"

lemma WorkflowService_DescribeWorkflowExecution_Args_merge:
  "(case x of None \<Rightarrow> Inr \<lparr>WorkflowService_DescribeWorkflowExecution_Args.DescribeRequest = a0\<rparr> |
      Some y \<Rightarrow> Inr \<lparr>WorkflowService_DescribeWorkflowExecution_Args.DescribeRequest = b0 y\<rparr>) =
   Inr \<lparr>WorkflowService_DescribeWorkflowExecution_Args.DescribeRequest = (case x of None \<Rightarrow> a0 | Some
       y \<Rightarrow> b0 y)\<rparr>"
  by (cases x) simp_all

interpretation WorkflowService_DescribeWorkflowExecution_Args: thrift_struct W
  "WorkflowService_DescribeWorkflowExecution_Args_ToWire W"
      "WorkflowService_DescribeWorkflowExecution_Args_FromWire W"
  WorkflowService_DescribeWorkflowExecution_Args_zero "\<lambda>x. True" for W
proof (rule thrift_structI)
  fix x :: WorkflowService_DescribeWorkflowExecution_Args
  assume laws: "wire_laws W"
  obtain enc0 where e0: "DescribeWorkflowExecutionRequest_ToWire W = (\<lambda>x. Inr (enc0 x))"
      "\<And>x. wire_api.Type W (enc0 x) = TStruct"
      "\<And>x. Writable W (enc0 x) \<longleftrightarrow> (\<lambda>_. True) x"
      "\<And>x. (\<lambda>_. True) x \<Longrightarrow> DescribeWorkflowExecutionRequest_FromWire W (enc0 x)
          DescribeWorkflowExecutionRequest_zero = Inr x"
    by (rule DescribeWorkflowExecutionRequest.encoder [OF laws]) (rule that)
  show "\<exists>w. WorkflowService_DescribeWorkflowExecution_Args_ToWire W x = Inr w \<and> wire_api.Type W w =
      TStruct \<and>
      (Writable W w \<longleftrightarrow> True) \<and> (True \<longrightarrow> WorkflowService_DescribeWorkflowExecution_Args_FromWire W w
          WorkflowService_DescribeWorkflowExecution_Args_zero = Inr x)"
    by (cases x) (simp cong: option.case_cong add: codec_rules
        WorkflowService_DescribeWorkflowExecution_Args_merge
        WorkflowService_DescribeWorkflowExecution_Args_ToWire_def
        WorkflowService_DescribeWorkflowExecution_Args_FromWire_def
      WorkflowService_DescribeWorkflowExecution_Args_zero_def
          DescribeWorkflowExecutionRequest_Read_def if_set_def laws e0)
qed

lemma WorkflowService_DescribeWorkflowExecution_Result_merge:
  "(case x of None \<Rightarrow> Inr \<lparr>WorkflowService_DescribeWorkflowExecution_Result.Success = a0,
      WorkflowService_DescribeWorkflowExecution_Result.BadRequestError = a1,
      WorkflowService_DescribeWorkflowExecution_Result.InternalServiceError = a2,
      WorkflowService_DescribeWorkflowExecution_Result.EntityNotExistError = a3,
      WorkflowService_DescribeWorkflowExecution_Result.LimitExceededError = a4,
      WorkflowService_DescribeWorkflowExecution_Result.ServiceBusyError = a5,
      WorkflowService_DescribeWorkflowExecution_Result.ClientVersionNotSupportedError = a6\<rparr> | Some y
      \<Rightarrow> Inr \<lparr>WorkflowService_DescribeWorkflowExecution_Result.Success = b0 y,
      WorkflowService_DescribeWorkflowExecution_Result.BadRequestError = b1 y,
      WorkflowService_DescribeWorkflowExecution_Result.InternalServiceError = b2 y,
      WorkflowService_DescribeWorkflowExecution_Result.EntityNotExistError = b3 y,
      WorkflowService_DescribeWorkflowExecution_Result.LimitExceededError = b4 y,
      WorkflowService_DescribeWorkflowExecution_Result.ServiceBusyError = b5 y,
      WorkflowService_DescribeWorkflowExecution_Result.ClientVersionNotSupportedError = b6 y\<rparr>) =
   Inr \<lparr>WorkflowService_DescribeWorkflowExecution_Result.Success = (case x of None \<Rightarrow> a0 | Some y \<Rightarrow>
       b0 y), WorkflowService_DescribeWorkflowExecution_Result.BadRequestError = (case x of None \<Rightarrow>
       a1 | Some y \<Rightarrow> b1 y), WorkflowService_DescribeWorkflowExecution_Result.InternalServiceError =
       (case x of None \<Rightarrow> a2 | Some y \<Rightarrow> b2 y),
       WorkflowService_DescribeWorkflowExecution_Result.EntityNotExistError = (case x of None \<Rightarrow> a3 |
       Some y \<Rightarrow> b3 y), WorkflowService_DescribeWorkflowExecution_Result.LimitExceededError = (case x
       of None \<Rightarrow> a4 | Some y \<Rightarrow> b4 y),
       WorkflowService_DescribeWorkflowExecution_Result.ServiceBusyError = (case x of None \<Rightarrow> a5 |
       Some y \<Rightarrow> b5 y),
       WorkflowService_DescribeWorkflowExecution_Result.ClientVersionNotSupportedError = (case x of
       None \<Rightarrow> a6 | Some y \<Rightarrow> b6 y)\<rparr>"
  by (cases x) simp_all

interpretation WorkflowService_DescribeWorkflowExecution_Result: thrift_struct W
  "WorkflowService_DescribeWorkflowExecution_Result_ToWire W"
      "WorkflowService_DescribeWorkflowExecution_Result_FromWire W"
  WorkflowService_DescribeWorkflowExecution_Result_zero "\<lambda>r.
      WorkflowService_DescribeWorkflowExecution_Result_count r = 1 \<and> if_set
      DescribeWorkflowExecutionResponse_complete
      (WorkflowService_DescribeWorkflowExecution_Result.Success r)" for W
proof (rule thrift_checkedI)
  fix x :: WorkflowService_DescribeWorkflowExecution_Result
  assume laws: "wire_laws W"
  obtain enc0 where e0: "DescribeWorkflowExecutionResponse_ToWire W = (\<lambda>x. Inr (enc0 x))"
      "\<And>x. wire_api.Type W (enc0 x) = TStruct"
      "\<And>x. Writable W (enc0 x) \<longleftrightarrow> DescribeWorkflowExecutionResponse_complete x"
      "\<And>x. DescribeWorkflowExecutionResponse_complete x \<Longrightarrow> DescribeWorkflowExecutionResponse_FromWire
          W (enc0 x) DescribeWorkflowExecutionResponse_zero = Inr x"
    by (rule DescribeWorkflowExecutionResponse.encoder [OF laws]) (rule that)
  obtain enc1 where e1: "BadRequestError_ToWire W = (\<lambda>x. Inr (enc1 x))"
      "\<And>x. wire_api.Type W (enc1 x) = TStruct"
      "\<And>x. Writable W (enc1 x) \<longleftrightarrow> (\<lambda>_. True) x"
      "\<And>x. (\<lambda>_. True) x \<Longrightarrow> BadRequestError_FromWire W (enc1 x) BadRequestError_zero = Inr x"
    by (rule BadRequestError.encoder [OF laws]) (rule that)
  obtain enc2 where e2: "InternalServiceError_ToWire W = (\<lambda>x. Inr (enc2 x))"
      "\<And>x. wire_api.Type W (enc2 x) = TStruct"
      "\<And>x. Writable W (enc2 x) \<longleftrightarrow> (\<lambda>_. True) x"
      "\<And>x. (\<lambda>_. True) x \<Longrightarrow> InternalServiceError_FromWire W (enc2 x) InternalServiceError_zero = Inr
          x"
    by (rule InternalServiceError.encoder [OF laws]) (rule that)
  obtain enc3 where e3: "EntityNotExistsError_ToWire W = (\<lambda>x. Inr (enc3 x))"
      "\<And>x. wire_api.Type W (enc3 x) = TStruct"
      "\<And>x. Writable W (enc3 x) \<longleftrightarrow> (\<lambda>_. True) x"
      "\<And>x. (\<lambda>_. True) x \<Longrightarrow> EntityNotExistsError_FromWire W (enc3 x) EntityNotExistsError_zero = Inr
          x"
    by (rule EntityNotExistsError.encoder [OF laws]) (rule that)
  obtain enc4 where e4: "LimitExceededError_ToWire W = (\<lambda>x. Inr (enc4 x))"
      "\<And>x. wire_api.Type W (enc4 x) = TStruct"
      "\<And>x. Writable W (enc4 x) \<longleftrightarrow> (\<lambda>_. True) x"
      "\<And>x. (\<lambda>_. True) x \<Longrightarrow> LimitExceededError_FromWire W (enc4 x) LimitExceededError_zero = Inr x"
    by (rule LimitExceededError.encoder [OF laws]) (rule that)
  obtain enc5 where e5: "ServiceBusyError_ToWire W = (\<lambda>x. Inr (enc5 x))"
      "\<And>x. wire_api.Type W (enc5 x) = TStruct"
      "\<And>x. Writable W (enc5 x) \<longleftrightarrow> (\<lambda>_. True) x"
      "\<And>x. (\<lambda>_. True) x \<Longrightarrow> ServiceBusyError_FromWire W (enc5 x) ServiceBusyError_zero = Inr x"
    by (rule ServiceBusyError.encoder [OF laws]) (rule that)
  obtain enc6 where e6: "ClientVersionNotSupportedError_ToWire W = (\<lambda>x. Inr (enc6 x))"
      "\<And>x. wire_api.Type W (enc6 x) = TStruct"
      "\<And>x. Writable W (enc6 x) \<longleftrightarrow> (\<lambda>_. True) x"
      "\<And>x. (\<lambda>_. True) x \<Longrightarrow> ClientVersionNotSupportedError_FromWire W (enc6 x)
          ClientVersionNotSupportedError_zero = Inr x"
    by (rule ClientVersionNotSupportedError.encoder [OF laws]) (rule that)
  let ?fs = "(((((opt_field 0 enc0 (WorkflowService_DescribeWorkflowExecution_Result.Success x) @
      opt_field 1 enc1 (WorkflowService_DescribeWorkflowExecution_Result.BadRequestError x)) @
      opt_field 2 enc2 (WorkflowService_DescribeWorkflowExecution_Result.InternalServiceError x)) @
      opt_field 3 enc3 (WorkflowService_DescribeWorkflowExecution_Result.EntityNotExistError x)) @
      opt_field 4 enc4 (WorkflowService_DescribeWorkflowExecution_Result.LimitExceededError x)) @
      opt_field 5 enc5 (WorkflowService_DescribeWorkflowExecution_Result.ServiceBusyError x)) @
      opt_field 6 enc6
          (WorkflowService_DescribeWorkflowExecution_Result.ClientVersionNotSupportedError x)"
  let ?check = "\<lambda>r. if WorkflowService_DescribeWorkflowExecution_Result_count x \<noteq> 1 then Inl
      (E_Errorf
      ''WorkflowService_DescribeWorkflowExecution_Result should have exactly one field: got %v fields'' (WorkflowService_DescribeWorkflowExecution_Result_count x)) else Inr r"
  have "length ?fs = WorkflowService_DescribeWorkflowExecution_Result_count x"
    by (simp add: WorkflowService_DescribeWorkflowExecution_Result_count_def length_opt_field split
        del: if_split)
  then have "WorkflowService_DescribeWorkflowExecution_Result_ToWire W x = ?check (NewValueStruct W
      ?fs)"
    by (simp only: WorkflowService_DescribeWorkflowExecution_Result_ToWire_def put_opt_field
        and_then.simps append_Nil e0(1) e1(1) e2(1) e3(1) e4(1) e5(1) e6(1))
  moreover have "WorkflowService_DescribeWorkflowExecution_Result_FromWire W (NewValueStruct W ?fs)
      WorkflowService_DescribeWorkflowExecution_Result_zero = ?check x"
    if "if_set DescribeWorkflowExecutionResponse_complete
        (WorkflowService_DescribeWorkflowExecution_Result.Success x)"
    by (cases x, hypsubst) (simp cong: option.case_cong split del: if_split add: codec_rules Let_def
        WorkflowService_DescribeWorkflowExecution_Result_merge
      WorkflowService_DescribeWorkflowExecution_Result_FromWire_def
          WorkflowService_DescribeWorkflowExecution_Result_zero_def laws if_set_def that [unfolded
          if_set_def]
      BadRequestError_Read_def
      ClientVersionNotSupportedError_Read_def
      DescribeWorkflowExecutionResponse_Read_def
      EntityNotExistsError_Read_def
      InternalServiceError_Read_def
      LimitExceededError_Read_def
      ServiceBusyError_Read_def
      e0 e1 e2 e3 e4 e5 e6)
  ultimately show "if WorkflowService_DescribeWorkflowExecution_Result_count x = 1
      then \<exists>w. WorkflowService_DescribeWorkflowExecution_Result_ToWire W x = Inr w \<and> wire_api.Type W
          w = TStruct \<and>
        (Writable W w \<longleftrightarrow> if_set DescribeWorkflowExecutionResponse_complete
            (WorkflowService_DescribeWorkflowExecution_Result.Success x)) \<and> (if_set
            DescribeWorkflowExecutionResponse_complete
            (WorkflowService_DescribeWorkflowExecution_Result.Success x) \<longrightarrow>
            WorkflowService_DescribeWorkflowExecution_Result_FromWire W w
            WorkflowService_DescribeWorkflowExecution_Result_zero = Inr x)
      else \<exists>e. WorkflowService_DescribeWorkflowExecution_Result_ToWire W x = Inl e"
    by (simp add: laws codec_rules e0 e1 e2 e3 e4 e5 e6)
qed

interpretation DescribeWorkflowExecution: rpc_method W
  "WorkflowService_DescribeWorkflowExecution_Args_ToWire W"
      "WorkflowService_DescribeWorkflowExecution_Args_FromWire W"
      WorkflowService_DescribeWorkflowExecution_Args_zero "\<lambda>x. True"
  "WorkflowService_DescribeWorkflowExecution_Result_ToWire W"
      "WorkflowService_DescribeWorkflowExecution_Result_FromWire W"
      WorkflowService_DescribeWorkflowExecution_Result_zero
  "\<lambda>r. WorkflowService_DescribeWorkflowExecution_Result_count r = 1 \<and> if_set
      DescribeWorkflowExecutionResponse_complete
      (WorkflowService_DescribeWorkflowExecution_Result.Success r)" "''DescribeWorkflowExecution''"
  WorkflowService_DescribeWorkflowExecution_Helper_Args
      "WorkflowService_DescribeWorkflowExecution_Args.DescribeRequest"
  "\<lambda>(success, err). WorkflowService_DescribeWorkflowExecution_Helper_WrapResponse success err"
      WorkflowService_DescribeWorkflowExecution_Helper_UnwrapResponse
  "\<lambda>out. snd out \<noteq> None" "carried DescribeWorkflowExecutionResponse_complete
      WorkflowService_DescribeWorkflowExecution_Helper_IsException" error_first "\<lambda>e. (None, Some e)"
  "handler_DescribeWorkflowExecution W" "client_DescribeWorkflowExecution W" for W
proof
  fix out :: "DescribeWorkflowExecutionResponse option \<times> go_error option"
  assume "carried DescribeWorkflowExecutionResponse_complete
      WorkflowService_DescribeWorkflowExecution_Helper_IsException out"
  then show "case (\<lambda>(success, err). WorkflowService_DescribeWorkflowExecution_Helper_WrapResponse
      success err) out of Inl e \<Rightarrow> False
      | Inr res \<Rightarrow> (WorkflowService_DescribeWorkflowExecution_Result_count res = 1 \<and> if_set
          DescribeWorkflowExecutionResponse_complete
          (WorkflowService_DescribeWorkflowExecution_Result.Success res)) \<and>
          WorkflowService_DescribeWorkflowExecution_Helper_UnwrapResponse res = error_first out"
    by (cases out; cases "snd out"; cases "the (snd out)")
      (auto simp: WorkflowService_DescribeWorkflowExecution_Helper_IsException_def
          WorkflowService_DescribeWorkflowExecution_Helper_WrapResponse_def
          WorkflowService_DescribeWorkflowExecution_Helper_UnwrapResponse_def
        declared_nonnil_def WorkflowService_DescribeWorkflowExecution_Result_zero_def
            WorkflowService_DescribeWorkflowExecution_Result_count_def elim!: present.elims)
next
  fix out :: "DescribeWorkflowExecutionResponse option \<times> go_error option"
  assume "\<not> carried DescribeWorkflowExecutionResponse_complete
      WorkflowService_DescribeWorkflowExecution_Helper_IsException out"
  then show "case (\<lambda>(success, err). WorkflowService_DescribeWorkflowExecution_Helper_WrapResponse
      success err) out of Inl e \<Rightarrow> True
      | Inr res \<Rightarrow> \<not> (WorkflowService_DescribeWorkflowExecution_Result_count res = 1 \<and> if_set
          DescribeWorkflowExecutionResponse_complete
          (WorkflowService_DescribeWorkflowExecution_Result.Success res))"
    by (cases out; cases "snd out"; cases "the (snd out)")
      (auto simp: WorkflowService_DescribeWorkflowExecution_Helper_IsException_def
          WorkflowService_DescribeWorkflowExecution_Helper_WrapResponse_def declared_nonnil_def
        WorkflowService_DescribeWorkflowExecution_Result_count_def
            WorkflowService_DescribeWorkflowExecution_Result_zero_def split: option.splits)
qed (auto simp: WorkflowService_DescribeWorkflowExecution_Helper_Args_def
    handler_DescribeWorkflowExecution_def client_DescribeWorkflowExecution_def
      WorkflowService_DescribeWorkflowExecution_Args_enveloper_def
          WorkflowService_DescribeWorkflowExecution_Result_enveloper_def
      Let_def split: sum.splits prod.splits)

end
