(* ===== verification/GoProxy.thy ===== *)
theory GoProxy
  imports GoActivityService GoDecisionService GoWorkflowService GoDomainService GoVisibilityService
begin

text \<open>
  The proxy process (proxy/main.go, proxy/internal): an HTTP server whose handler forwards
  every call to a client of the Cadence frontend. The generated interface has 36 methods; the
  server's table of procedures, the client and the forwarding handler are modelled for all of
  them, and the lemmas show that a call through the proxy ends as a call to the backend does.
\<close>

section \<open>The interface, the server, the client and the handler between them\<close>

text \<open>
  An implementation of \<open>workflowserviceserver.Interface\<close> (and, with the call options left
  out, of \<open>workflowserviceclient.Interface\<close>): its 36 methods.
\<close>

record 'ctx WorkflowService_Interface =
  CountWorkflowExecutions ::
    "'ctx \<Rightarrow> CountWorkflowExecutionsRequest option \<Rightarrow> CountWorkflowExecutionsResponse option \<times>
        go_error option"
  DeprecateDomain ::
    "'ctx \<Rightarrow> DeprecateDomainRequest option \<Rightarrow> go_error option"
  DescribeDomain ::
    "'ctx \<Rightarrow> DescribeDomainRequest option \<Rightarrow> DescribeDomainResponse option \<times> go_error option"
  DescribeTaskList ::
    "'ctx \<Rightarrow> DescribeTaskListRequest option \<Rightarrow> DescribeTaskListResponse option \<times> go_error option"
  DescribeWorkflowExecution ::
    "'ctx \<Rightarrow> DescribeWorkflowExecutionRequest option \<Rightarrow> DescribeWorkflowExecutionResponse option \<times>
        go_error option"
  GetSearchAttributes ::
    "'ctx \<Rightarrow> unit \<Rightarrow> GetSearchAttributesResponse option \<times> go_error option"
  GetWorkflowExecutionHistory ::
    "'ctx \<Rightarrow> GetWorkflowExecutionHistoryRequest option \<Rightarrow> GetWorkflowExecutionHistoryResponse option \<times>
        go_error option"
  ListArchivedWorkflowExecutions ::
    "'ctx \<Rightarrow> ListArchivedWorkflowExecutionsRequest option \<Rightarrow> ListArchivedWorkflowExecutionsResponse
        option \<times> go_error option"
  ListClosedWorkflowExecutions ::
    "'ctx \<Rightarrow> ListClosedWorkflowExecutionsRequest option \<Rightarrow> ListClosedWorkflowExecutionsResponse option
        \<times> go_error option"
  ListDomains ::
    "'ctx \<Rightarrow> ListDomainsRequest option \<Rightarrow> ListDomainsResponse option \<times> go_error option"
  ListOpenWorkflowExecutions ::
    "'ctx \<Rightarrow> ListOpenWorkflowExecutionsRequest option \<Rightarrow> ListOpenWorkflowExecutionsResponse option \<times>
        go_error option"
  ListWorkflowExecutions ::
    "'ctx \<Rightarrow> ListWorkflowExecutionsRequest option \<Rightarrow> ListWorkflowExecutionsResponse option \<times> go_error
        option"
  PollForActivityTask ::
    "'ctx \<Rightarrow> PollForActivityTaskRequest option \<Rightarrow> PollForActivityTaskResponse option \<times> go_error
        option"
  PollForDecisionTask ::
    "'ctx \<Rightarrow> PollForDecisionTaskRequest option \<Rightarrow> PollForDecisionTaskResponse option \<times> go_error
        option"
  QueryWorkflow ::
    "'ctx \<Rightarrow> QueryWorkflowRequest option \<Rightarrow> QueryWorkflowResponse option \<times> go_error option"
  RecordActivityTaskHeartbeat ::
    "'ctx \<Rightarrow> RecordActivityTaskHeartbeatRequest option \<Rightarrow> RecordActivityTaskHeartbeatResponse option \<times>
        go_error option"
  RecordActivityTaskHeartbeatByID ::
    "'ctx \<Rightarrow> RecordActivityTaskHeartbeatByIDRequest option \<Rightarrow> RecordActivityTaskHeartbeatResponse
        option \<times> go_error option"
  RegisterDomain ::
    "'ctx \<Rightarrow> RegisterDomainRequest option \<Rightarrow> go_error option"
  RequestCancelWorkflowExecution ::
    "'ctx \<Rightarrow> RequestCancelWorkflowExecutionRequest option \<Rightarrow> go_error option"
  ResetStickyTaskList ::
    "'ctx \<Rightarrow> ResetStickyTaskListRequest option \<Rightarrow> ResetStickyTaskListResponse option \<times> go_error
        option"
  ResetWorkflowExecution ::
    "'ctx \<Rightarrow> ResetWorkflowExecutionRequest option \<Rightarrow> ResetWorkflowExecutionResponse option \<times> go_error
        option"
  RespondActivityTaskCanceled ::
    "'ctx \<Rightarrow> RespondActivityTaskCanceledRequest option \<Rightarrow> go_error option"
  RespondActivityTaskCanceledByID ::
    "'ctx \<Rightarrow> RespondActivityTaskCanceledByIDRequest option \<Rightarrow> go_error option"
  RespondActivityTaskCompleted ::
    "'ctx \<Rightarrow> RespondActivityTaskCompletedRequest option \<Rightarrow> go_error option"
  RespondActivityTaskCompletedByID ::
    "'ctx \<Rightarrow> RespondActivityTaskCompletedByIDRequest option \<Rightarrow> go_error option"
  RespondActivityTaskFailed ::
    "'ctx \<Rightarrow> RespondActivityTaskFailedRequest option \<Rightarrow> go_error option"
  RespondActivityTaskFailedByID ::
    "'ctx \<Rightarrow> RespondActivityTaskFailedByIDRequest option \<Rightarrow> go_error option"
  RespondDecisionTaskCompleted ::
    "'ctx \<Rightarrow> RespondDecisionTaskCompletedRequest option \<Rightarrow> RespondDecisionTaskCompletedResponse option
        \<times> go_error option"
  RespondDecisionTaskFailed ::
    "'ctx \<Rightarrow> RespondDecisionTaskFailedRequest option \<Rightarrow> go_error option"
  RespondQueryTaskCompleted ::
    "'ctx \<Rightarrow> RespondQueryTaskCompletedRequest option \<Rightarrow> go_error option"
  ScanWorkflowExecutions ::
    "'ctx \<Rightarrow> ListWorkflowExecutionsRequest option \<Rightarrow> ListWorkflowExecutionsResponse option \<times> go_error
        option"
  SignalWithStartWorkflowExecution ::
    "'ctx \<Rightarrow> SignalWithStartWorkflowExecutionRequest option \<Rightarrow> StartWorkflowExecutionResponse option \<times>
        go_error option"
  SignalWorkflowExecution ::
    "'ctx \<Rightarrow> SignalWorkflowExecutionRequest option \<Rightarrow> go_error option"
  StartWorkflowExecution ::
    "'ctx \<Rightarrow> StartWorkflowExecutionRequest option \<Rightarrow> StartWorkflowExecutionResponse option \<times> go_error
        option"
  TerminateWorkflowExecution ::
    "'ctx \<Rightarrow> TerminateWorkflowExecutionRequest option \<Rightarrow> go_error option"
  UpdateDomain ::
    "'ctx \<Rightarrow> UpdateDomainRequest option \<Rightarrow> UpdateDomainResponse option \<times> go_error option"

text \<open>An entry of the table that \<open>workflowserviceserver.New\<close> gives to the RPC library.\<close>

record ('ctx, 'v) thrift_Method =
  Name :: string
  Unary :: "('ctx, 'v) unary_handler"
  Signature :: string

definition procedure_CountWorkflowExecutions ::
  "'v wire_api \<Rightarrow> 'ctx WorkflowService_Interface \<Rightarrow> ('ctx, 'v) thrift_Method" where
  "procedure_CountWorkflowExecutions W impl =
     \<lparr>Name = ''CountWorkflowExecutions'', Unary = handler_CountWorkflowExecutions W
         (CountWorkflowExecutions impl),
      Signature =
          ''CountWorkflowExecutions(CountRequest *shared.CountWorkflowExecutionsRequest) (*shared.CountWorkflowExecutionsResponse)''\<rparr>"

definition procedure_DeprecateDomain ::
  "'v wire_api \<Rightarrow> 'ctx WorkflowService_Interface \<Rightarrow> ('ctx, 'v) thrift_Method" where
  "procedure_DeprecateDomain W impl =
     \<lparr>Name = ''DeprecateDomain'', Unary = handler_DeprecateDomain W (DeprecateDomain impl),
      Signature = ''DeprecateDomain(DeprecateRequest *shared.DeprecateDomainRequest)''\<rparr>"

definition procedure_DescribeDomain ::
  "'v wire_api \<Rightarrow> 'ctx WorkflowService_Interface \<Rightarrow> ('ctx, 'v) thrift_Method" where
  "procedure_DescribeDomain W impl =
     \<lparr>Name = ''DescribeDomain'', Unary = handler_DescribeDomain W (DescribeDomain impl),
      Signature =
          ''DescribeDomain(DescribeRequest *shared.DescribeDomainRequest) (*shared.DescribeDomainResponse)''\<rparr>"

definition procedure_DescribeTaskList ::
  "'v wire_api \<Rightarrow> 'ctx WorkflowService_Interface \<Rightarrow> ('ctx, 'v) thrift_Method" where
  "procedure_DescribeTaskList W impl =
     \<lparr>Name = ''DescribeTaskList'', Unary = handler_DescribeTaskList W (DescribeTaskList impl),
      Signature =
          ''DescribeTaskList(Request *shared.DescribeTaskListRequest) (*shared.DescribeTaskListResponse)''\<rparr>"

definition procedure_DescribeWorkflowExecution ::
  "'v wire_api \<Rightarrow> 'ctx WorkflowService_Interface \<Rightarrow> ('ctx, 'v) thrift_Method" where
  "procedure_DescribeWorkflowExecution W impl =
     \<lparr>Name = ''DescribeWorkflowExecution'', Unary = handler_DescribeWorkflowExecution W
         (DescribeWorkflowExecution impl),
      Signature =
          ''DescribeWorkflowExecution(DescribeRequest *shared.DescribeWorkflowExecutionRequest) (*shared.DescribeWorkflowExecutionResponse)''\<rparr>"

definition procedure_GetSearchAttributes ::
  "'v wire_api \<Rightarrow> 'ctx WorkflowService_Interface \<Rightarrow> ('ctx, 'v) thrift_Method" where
  "procedure_GetSearchAttributes W impl =
     \<lparr>Name = ''GetSearchAttributes'', Unary = handler_GetSearchAttributes W (GetSearchAttributes
         impl),
      Signature = ''GetSearchAttributes() (*shared.GetSearchAttributesResponse)''\<rparr>"

definition procedure_GetWorkflowExecutionHistory ::
  "'v wire_api \<Rightarrow> 'ctx WorkflowService_Interface \<Rightarrow> ('ctx, 'v) thrift_Method" where
  "procedure_GetWorkflowExecutionHistory W impl =
     \<lparr>Name = ''GetWorkflowExecutionHistory'', Unary = handler_GetWorkflowExecutionHistory W
         (GetWorkflowExecutionHistory impl),
      Signature =
          ''GetWorkflowExecutionHistory(GetRequest *shared.GetWorkflowExecutionHistoryRequest) (*shared.GetWorkflowExecutionHistoryResponse)''\<rparr>"

definition procedure_ListArchivedWorkflowExecutions ::
  "'v wire_api \<Rightarrow> 'ctx WorkflowService_Interface \<Rightarrow> ('ctx, 'v) thrift_Method" where
  "procedure_ListArchivedWorkflowExecutions W impl =
     \<lparr>Name = ''ListArchivedWorkflowExecutions'', Unary = handler_ListArchivedWorkflowExecutions W
         (ListArchivedWorkflowExecutions impl),
      Signature =
          ''ListArchivedWorkflowExecutions(ListRequest *shared.ListArchivedWorkflowExecutionsRequest) (*shared.ListArchivedWorkflowExecutionsResponse)''\<rparr>"

definition procedure_ListClosedWorkflowExecutions ::
  "'v wire_api \<Rightarrow> 'ctx WorkflowService_Interface \<Rightarrow> ('ctx, 'v) thrift_Method" where
  "procedure_ListClosedWorkflowExecutions W impl =
     \<lparr>Name = ''ListClosedWorkflowExecutions'', Unary = handler_ListClosedWorkflowExecutions W
         (ListClosedWorkflowExecutions impl),
      Signature =
          ''ListClosedWorkflowExecutions(ListRequest *shared.ListClosedWorkflowExecutionsRequest) (*shared.ListClosedWorkflowExecutionsResponse)''\<rparr>"

definition procedure_ListDomains ::
  "'v wire_api \<Rightarrow> 'ctx WorkflowService_Interface \<Rightarrow> ('ctx, 'v) thrift_Method" where
  "procedure_ListDomains W impl =
     \<lparr>Name = ''ListDomains'', Unary = handler_ListDomains W (ListDomains impl),
      Signature =
          ''ListDomains(ListRequest *shared.ListDomainsRequest) (*shared.ListDomainsResponse)''\<rparr>"

definition procedure_ListOpenWorkflowExecutions ::
  "'v wire_api \<Rightarrow> 'ctx WorkflowService_Interface \<Rightarrow> ('ctx, 'v) thrift_Method" where
  "procedure_ListOpenWorkflowExecutions W impl =
     \<lparr>Name = ''ListOpenWorkflowExecutions'', Unary = handler_ListOpenWorkflowExecutions W
         (ListOpenWorkflowExecutions impl),
      Signature =
          ''ListOpenWorkflowExecutions(ListRequest *shared.ListOpenWorkflowExecutionsRequest) (*shared.ListOpenWorkflowExecutionsResponse)''\<rparr>"

definition procedure_ListWorkflowExecutions ::
  "'v wire_api \<Rightarrow> 'ctx WorkflowService_Interface \<Rightarrow> ('ctx, 'v) thrift_Method" where
  "procedure_ListWorkflowExecutions W impl =
     \<lparr>Name = ''ListWorkflowExecutions'', Unary = handler_ListWorkflowExecutions W
         (ListWorkflowExecutions impl),
      Signature =
          ''ListWorkflowExecutions(ListRequest *shared.ListWorkflowExecutionsRequest) (*shared.ListWorkflowExecutionsResponse)''\<rparr>"

definition procedure_PollForActivityTask ::
  "'v wire_api \<Rightarrow> 'ctx WorkflowService_Interface \<Rightarrow> ('ctx, 'v) thrift_Method" where
  "procedure_PollForActivityTask W impl =
     \<lparr>Name = ''PollForActivityTask'', Unary = handler_PollForActivityTask W (PollForActivityTask
         impl),
      Signature =
          ''PollForActivityTask(PollRequest *shared.PollForActivityTaskRequest) (*shared.PollForActivityTaskResponse)''\<rparr>"

definition procedure_PollForDecisionTask ::
  "'v wire_api \<Rightarrow> 'ctx WorkflowService_Interface \<Rightarrow> ('ctx, 'v) thrift_Method" where
  "procedure_PollForDecisionTask W impl =
     \<lparr>Name = ''PollForDecisionTask'', Unary = handler_PollForDecisionTask W (PollForDecisionTask
         impl),
      Signature =
          ''PollForDecisionTask(PollRequest *shared.PollForDecisionTaskRequest) (*shared.PollForDecisionTaskResponse)''\<rparr>"

definition procedure_QueryWorkflow ::
  "'v wire_api \<Rightarrow> 'ctx WorkflowService_Interface \<Rightarrow> ('ctx, 'v) thrift_Method" where
  "procedure_QueryWorkflow W impl =
     \<lparr>Name = ''QueryWorkflow'', Unary = handler_QueryWorkflow W (QueryWorkflow impl),
      Signature =
          ''QueryWorkflow(QueryRequest *shared.QueryWorkflowRequest) (*shared.QueryWorkflowResponse)''\<rparr>"

definition procedure_RecordActivityTaskHeartbeat ::
  "'v wire_api \<Rightarrow> 'ctx WorkflowService_Interface \<Rightarrow> ('ctx, 'v) thrift_Method" where
  "procedure_RecordActivityTaskHeartbeat W impl =
     \<lparr>Name = ''RecordActivityTaskHeartbeat'', Unary = handler_RecordActivityTaskHeartbeat W
         (RecordActivityTaskHeartbeat impl),
      Signature =
          ''RecordActivityTaskHeartbeat(HeartbeatRequest *shared.RecordActivityTaskHeartbeatRequest) (*shared.RecordActivityTaskHeartbeatResponse)''\<rparr>"

definition procedure_RecordActivityTaskHeartbeatByID ::
  "'v wire_api \<Rightarrow> 'ctx WorkflowService_Interface \<Rightarrow> ('ctx, 'v) thrift_Method" where
  "procedure_RecordActivityTaskHeartbeatByID W impl =
     \<lparr>Name = ''RecordActivityTaskHeartbeatByID'', Unary = handler_RecordActivityTaskHeartbeatByID W
         (RecordActivityTaskHeartbeatByID impl),
      Signature =
          ''RecordActivityTaskHeartbeatByID(HeartbeatRequest *shared.RecordActivityTaskHeartbeatByIDRequest) (*shared.RecordActivityTaskHeartbeatResponse)''\<rparr>"

definition procedure_RegisterDomain ::
  "'v wire_api \<Rightarrow> 'ctx WorkflowService_Interface \<Rightarrow> ('ctx, 'v) thrift_Method" where
  "procedure_RegisterDomain W impl =
     \<lparr>Name = ''RegisterDomain'', Unary = handler_RegisterDomain W (RegisterDomain impl),
      Signature = ''RegisterDomain(RegisterRequest *shared.RegisterDomainRequest)''\<rparr>"

definition procedure_RequestCancelWorkflowExecution ::
  "'v wire_api \<Rightarrow> 'ctx WorkflowService_Interface \<Rightarrow> ('ctx, 'v) thrift_Method" where
  "procedure_RequestCancelWorkflowExecution W impl =
     \<lparr>Name = ''RequestCancelWorkflowExecution'', Unary = handler_RequestCancelWorkflowExecution W
         (RequestCancelWorkflowExecution impl),
      Signature =
          ''RequestCancelWorkflowExecution(CancelRequest *shared.RequestCancelWorkflowExecutionRequest)''\<rparr>"

definition procedure_ResetStickyTaskList ::
  "'v wire_api \<Rightarrow> 'ctx WorkflowService_Interface \<Rightarrow> ('ctx, 'v) thrift_Method" where
  "procedure_ResetStickyTaskList W impl =
     \<lparr>Name = ''ResetStickyTaskList'', Unary = handler_ResetStickyTaskList W (ResetStickyTaskList
         impl),
      Signature =
          ''ResetStickyTaskList(ResetRequest *shared.ResetStickyTaskListRequest) (*shared.ResetStickyTaskListResponse)''\<rparr>"

definition procedure_ResetWorkflowExecution ::
  "'v wire_api \<Rightarrow> 'ctx WorkflowService_Interface \<Rightarrow> ('ctx, 'v) thrift_Method" where
  "procedure_ResetWorkflowExecution W impl =
     \<lparr>Name = ''ResetWorkflowExecution'', Unary = handler_ResetWorkflowExecution W
         (ResetWorkflowExecution impl),
      Signature =
          ''ResetWorkflowExecution(ResetRequest *shared.ResetWorkflowExecutionRequest) (*shared.ResetWorkflowExecutionResponse)''\<rparr>"

definition procedure_RespondActivityTaskCanceled ::
  "'v wire_api \<Rightarrow> 'ctx WorkflowService_Interface \<Rightarrow> ('ctx, 'v) thrift_Method" where
  "procedure_RespondActivityTaskCanceled W impl =
     \<lparr>Name = ''RespondActivityTaskCanceled'', Unary = handler_RespondActivityTaskCanceled W
         (RespondActivityTaskCanceled impl),
      Signature =
          ''RespondActivityTaskCanceled(CanceledRequest *shared.RespondActivityTaskCanceledRequest)''\<rparr>"

definition procedure_RespondActivityTaskCanceledByID ::
  "'v wire_api \<Rightarrow> 'ctx WorkflowService_Interface \<Rightarrow> ('ctx, 'v) thrift_Method" where
  "procedure_RespondActivityTaskCanceledByID W impl =
     \<lparr>Name = ''RespondActivityTaskCanceledByID'', Unary = handler_RespondActivityTaskCanceledByID W
         (RespondActivityTaskCanceledByID impl),
      Signature =
          ''RespondActivityTaskCanceledByID(CanceledRequest *shared.RespondActivityTaskCanceledByIDRequest)''\<rparr>"

definition procedure_RespondActivityTaskCompleted ::
  "'v wire_api \<Rightarrow> 'ctx WorkflowService_Interface \<Rightarrow> ('ctx, 'v) thrift_Method" where
  "procedure_RespondActivityTaskCompleted W impl =
     \<lparr>Name = ''RespondActivityTaskCompleted'', Unary = handler_RespondActivityTaskCompleted W
         (RespondActivityTaskCompleted impl),
      Signature =
          ''RespondActivityTaskCompleted(CompleteRequest *shared.RespondActivityTaskCompletedRequest)''\<rparr>"

definition procedure_RespondActivityTaskCompletedByID ::
  "'v wire_api \<Rightarrow> 'ctx WorkflowService_Interface \<Rightarrow> ('ctx, 'v) thrift_Method" where
  "procedure_RespondActivityTaskCompletedByID W impl =
     \<lparr>Name = ''RespondActivityTaskCompletedByID'', Unary = handler_RespondActivityTaskCompletedByID
         W (RespondActivityTaskCompletedByID impl),
      Signature =
          ''RespondActivityTaskCompletedByID(CompleteRequest *shared.RespondActivityTaskCompletedByIDRequest)''\<rparr>"

definition procedure_RespondActivityTaskFailed ::
  "'v wire_api \<Rightarrow> 'ctx WorkflowService_Interface \<Rightarrow> ('ctx, 'v) thrift_Method" where
  "procedure_RespondActivityTaskFailed W impl =
     \<lparr>Name = ''RespondActivityTaskFailed'', Unary = handler_RespondActivityTaskFailed W
         (RespondActivityTaskFailed impl),
      Signature =
          ''RespondActivityTaskFailed(FailRequest *shared.RespondActivityTaskFailedRequest)''\<rparr>"

definition procedure_RespondActivityTaskFailedByID ::
  "'v wire_api \<Rightarrow> 'ctx WorkflowService_Interface \<Rightarrow> ('ctx, 'v) thrift_Method" where
  "procedure_RespondActivityTaskFailedByID W impl =
     \<lparr>Name = ''RespondActivityTaskFailedByID'', Unary = handler_RespondActivityTaskFailedByID W
         (RespondActivityTaskFailedByID impl),
      Signature =
          ''RespondActivityTaskFailedByID(FailRequest *shared.RespondActivityTaskFailedByIDRequest)''\<rparr>"

definition procedure_RespondDecisionTaskCompleted ::
  "'v wire_api \<Rightarrow> 'ctx WorkflowService_Interface \<Rightarrow> ('ctx, 'v) thrift_Method" where
  "procedure_RespondDecisionTaskCompleted W impl =
     \<lparr>Name = ''RespondDecisionTaskCompleted'', Unary = handler_RespondDecisionTaskCompleted W
         (RespondDecisionTaskCompleted impl),
      Signature =
          ''RespondDecisionTaskCompleted(CompleteRequest *shared.RespondDecisionTaskCompletedRequest) (*shared.RespondDecisionTaskCompletedResponse)''\<rparr>"

definition procedure_RespondDecisionTaskFailed ::
  "'v wire_api \<Rightarrow> 'ctx WorkflowService_Interface \<Rightarrow> ('ctx, 'v) thrift_Method" where
  "procedure_RespondDecisionTaskFailed W impl =
     \<lparr>Name = ''RespondDecisionTaskFailed'', Unary = handler_RespondDecisionTaskFailed W
         (RespondDecisionTaskFailed impl),
      Signature =
          ''RespondDecisionTaskFailed(FailedRequest *shared.RespondDecisionTaskFailedRequest)''\<rparr>"

definition procedure_RespondQueryTaskCompleted ::
  "'v wire_api \<Rightarrow> 'ctx WorkflowService_Interface \<Rightarrow> ('ctx, 'v) thrift_Method" where
  "procedure_RespondQueryTaskCompleted W impl =
     \<lparr>Name = ''RespondQueryTaskCompleted'', Unary = handler_RespondQueryTaskCompleted W
         (RespondQueryTaskCompleted impl),
      Signature =
          ''RespondQueryTaskCompleted(CompleteRequest *shared.RespondQueryTaskCompletedRequest)''\<rparr>"

definition procedure_ScanWorkflowExecutions ::
  "'v wire_api \<Rightarrow> 'ctx WorkflowService_Interface \<Rightarrow> ('ctx, 'v) thrift_Method" where
  "procedure_ScanWorkflowExecutions W impl =
     \<lparr>Name = ''ScanWorkflowExecutions'', Unary = handler_ScanWorkflowExecutions W
         (ScanWorkflowExecutions impl),
      Signature =
          ''ScanWorkflowExecutions(ListRequest *shared.ListWorkflowExecutionsRequest) (*shared.ListWorkflowExecutionsResponse)''\<rparr>"

definition procedure_SignalWithStartWorkflowExecution ::
  "'v wire_api \<Rightarrow> 'ctx WorkflowService_Interface \<Rightarrow> ('ctx, 'v) thrift_Method" where
  "procedure_SignalWithStartWorkflowExecution W impl =
     \<lparr>Name = ''SignalWithStartWorkflowExecution'', Unary = handler_SignalWithStartWorkflowExecution
         W (SignalWithStartWorkflowExecution impl),
      Signature =
          ''SignalWithStartWorkflowExecution(SignalWithStartRequest *shared.SignalWithStartWorkflowExecutionRequest) (*shared.StartWorkflowExecutionResponse)''\<rparr>"

definition procedure_SignalWorkflowExecution ::
  "'v wire_api \<Rightarrow> 'ctx WorkflowService_Interface \<Rightarrow> ('ctx, 'v) thrift_Method" where
  "procedure_SignalWorkflowExecution W impl =
     \<lparr>Name = ''SignalWorkflowExecution'', Unary = handler_SignalWorkflowExecution W
         (SignalWorkflowExecution impl),
      Signature =
          ''SignalWorkflowExecution(SignalRequest *shared.SignalWorkflowExecutionRequest)''\<rparr>"

definition procedure_StartWorkflowExecution ::
  "'v wire_api \<Rightarrow> 'ctx WorkflowService_Interface \<Rightarrow> ('ctx, 'v) thrift_Method" where
  "procedure_StartWorkflowExecution W impl =
     \<lparr>Name = ''StartWorkflowExecution'', Unary = handler_StartWorkflowExecution W
         (StartWorkflowExecution impl),
      Signature =
          ''StartWorkflowExecution(StartRequest *shared.StartWorkflowExecutionRequest) (*shared.StartWorkflowExecutionResponse)''\<rparr>"

definition procedure_TerminateWorkflowExecution ::
  "'v wire_api \<Rightarrow> 'ctx WorkflowService_Interface \<Rightarrow> ('ctx, 'v) thrift_Method" where
  "procedure_TerminateWorkflowExecution W impl =
     \<lparr>Name = ''TerminateWorkflowExecution'', Unary = handler_TerminateWorkflowExecution W
         (TerminateWorkflowExecution impl),
      Signature =
          ''TerminateWorkflowExecution(TerminateRequest *shared.TerminateWorkflowExecutionRequest)''\<rparr>"

definition procedure_UpdateDomain ::
  "'v wire_api \<Rightarrow> 'ctx WorkflowService_Interface \<Rightarrow> ('ctx, 'v) thrift_Method" where
  "procedure_UpdateDomain W impl =
     \<lparr>Name = ''UpdateDomain'', Unary = handler_UpdateDomain W (UpdateDomain impl),
      Signature =
          ''UpdateDomain(UpdateRequest *shared.UpdateDomainRequest) (*shared.UpdateDomainResponse)''\<rparr>"

text \<open>
  \<open>workflowserviceserver.New\<close>: the methods of the service, in the order they are listed. The RPC
  library finds a procedure by its name.
\<close>

definition workflowserviceserver_methods ::
  "'v wire_api \<Rightarrow> 'ctx WorkflowService_Interface \<Rightarrow> ('ctx, 'v) thrift_Method list" where
  "workflowserviceserver_methods W impl =
    [procedure_CountWorkflowExecutions W impl,
     procedure_DeprecateDomain W impl,
     procedure_DescribeDomain W impl,
     procedure_DescribeTaskList W impl,
     procedure_DescribeWorkflowExecution W impl,
     procedure_GetSearchAttributes W impl,
     procedure_GetWorkflowExecutionHistory W impl,
     procedure_ListArchivedWorkflowExecutions W impl,
     procedure_ListClosedWorkflowExecutions W impl,
     procedure_ListDomains W impl,
     procedure_ListOpenWorkflowExecutions W impl,
     procedure_ListWorkflowExecutions W impl,
     procedure_PollForActivityTask W impl,
     procedure_PollForDecisionTask W impl,
     procedure_QueryWorkflow W impl,
     procedure_RecordActivityTaskHeartbeat W impl,
     procedure_RecordActivityTaskHeartbeatByID W impl,
     procedure_RegisterDomain W impl,
     procedure_RequestCancelWorkflowExecution W impl,
     procedure_ResetStickyTaskList W impl,
     procedure_ResetWorkflowExecution W impl,
     procedure_RespondActivityTaskCanceled W impl,
     procedure_RespondActivityTaskCanceledByID W impl,
     procedure_RespondActivityTaskCompleted W impl,
     procedure_RespondActivityTaskCompletedByID W impl,
     procedure_RespondActivityTaskFailed W impl,
     procedure_RespondActivityTaskFailedByID W impl,
     procedure_RespondDecisionTaskCompleted W impl,
     procedure_RespondDecisionTaskFailed W impl,
     procedure_RespondQueryTaskCompleted W impl,
     procedure_ScanWorkflowExecutions W impl,
     procedure_SignalWithStartWorkflowExecution W impl,
     procedure_SignalWorkflowExecution W impl,
     procedure_StartWorkflowExecution W impl,
     procedure_TerminateWorkflowExecution W impl,
     procedure_UpdateDomain W impl]"

definition workflowserviceserver_New ::
  "'v wire_api \<Rightarrow> 'ctx WorkflowService_Interface \<Rightarrow> (string \<rightharpoonup> ('ctx, 'v) unary_handler)" where
  "workflowserviceserver_New W impl =
     map_of (map (\<lambda>m. (thrift_Method.Name m, Unary m)) (workflowserviceserver_methods W impl))"

text \<open>\<open>workflowserviceclient.New\<close>: the client over a call of the RPC library.\<close>

definition workflowserviceclient_New ::
  "'v wire_api \<Rightarrow> ('ctx, 'v) thrift_client \<Rightarrow> 'ctx WorkflowService_Interface" where
  "workflowserviceclient_New W call = \<lparr>
     CountWorkflowExecutions = client_CountWorkflowExecutions W call,
     DeprecateDomain = client_DeprecateDomain W call,
     DescribeDomain = client_DescribeDomain W call,
     DescribeTaskList = client_DescribeTaskList W call,
     DescribeWorkflowExecution = client_DescribeWorkflowExecution W call,
     GetSearchAttributes = client_GetSearchAttributes W call,
     GetWorkflowExecutionHistory = client_GetWorkflowExecutionHistory W call,
     ListArchivedWorkflowExecutions = client_ListArchivedWorkflowExecutions W call,
     ListClosedWorkflowExecutions = client_ListClosedWorkflowExecutions W call,
     ListDomains = client_ListDomains W call,
     ListOpenWorkflowExecutions = client_ListOpenWorkflowExecutions W call,
     ListWorkflowExecutions = client_ListWorkflowExecutions W call,
     PollForActivityTask = client_PollForActivityTask W call,
     PollForDecisionTask = client_PollForDecisionTask W call,
     QueryWorkflow = client_QueryWorkflow W call,
     RecordActivityTaskHeartbeat = client_RecordActivityTaskHeartbeat W call,
     RecordActivityTaskHeartbeatByID = client_RecordActivityTaskHeartbeatByID W call,
     RegisterDomain = client_RegisterDomain W call,
     RequestCancelWorkflowExecution = client_RequestCancelWorkflowExecution W call,
     ResetStickyTaskList = client_ResetStickyTaskList W call,
     ResetWorkflowExecution = client_ResetWorkflowExecution W call,
     RespondActivityTaskCanceled = client_RespondActivityTaskCanceled W call,
     RespondActivityTaskCanceledByID = client_RespondActivityTaskCanceledByID W call,
     RespondActivityTaskCompleted = client_RespondActivityTaskCompleted W call,
     RespondActivityTaskCompletedByID = client_RespondActivityTaskCompletedByID W call,
     RespondActivityTaskFailed = client_RespondActivityTaskFailed W call,
     RespondActivityTaskFailedByID = client_RespondActivityTaskFailedByID W call,
     RespondDecisionTaskCompleted = client_RespondDecisionTaskCompleted W call,
     RespondDecisionTaskFailed = client_RespondDecisionTaskFailed W call,
     RespondQueryTaskCompleted = client_RespondQueryTaskCompleted W call,
     ScanWorkflowExecutions = client_ScanWorkflowExecutions W call,
     SignalWithStartWorkflowExecution = client_SignalWithStartWorkflowExecution W call,
     SignalWorkflowExecution = client_SignalWorkflowExecution W call,
     StartWorkflowExecution = client_StartWorkflowExecution W call,
     TerminateWorkflowExecution = client_TerminateWorkflowExecution W call,
     UpdateDomain = client_UpdateDomain W call\<rparr>"

text \<open>\<open>NewProxyHandler\<close>: a handler that keeps a client, and its methods.\<close>

record ('ctx) proxyHandler = client :: "'ctx WorkflowService_Interface"

definition NewProxyHandler :: "'v wire_api \<Rightarrow> ('ctx, 'v) thrift_client \<Rightarrow> 'ctx proxyHandler" where
  "NewProxyHandler W call = \<lparr>client = workflowserviceclient_New W call\<rparr>"

definition proxyHandler_CountWorkflowExecutions ::
  "'ctx proxyHandler \<Rightarrow> 'ctx \<Rightarrow> CountWorkflowExecutionsRequest option \<Rightarrow>
      CountWorkflowExecutionsResponse option \<times> go_error option" where
  "proxyHandler_CountWorkflowExecutions h ctx r = CountWorkflowExecutions (client h) ctx r"

definition proxyHandler_DeprecateDomain ::
  "'ctx proxyHandler \<Rightarrow> 'ctx \<Rightarrow> DeprecateDomainRequest option \<Rightarrow> go_error option" where
  "proxyHandler_DeprecateDomain h ctx r = DeprecateDomain (client h) ctx r"

definition proxyHandler_DescribeDomain ::
  "'ctx proxyHandler \<Rightarrow> 'ctx \<Rightarrow> DescribeDomainRequest option \<Rightarrow> DescribeDomainResponse option \<times>
      go_error option" where
  "proxyHandler_DescribeDomain h ctx r = DescribeDomain (client h) ctx r"

definition proxyHandler_DescribeTaskList ::
  "'ctx proxyHandler \<Rightarrow> 'ctx \<Rightarrow> DescribeTaskListRequest option \<Rightarrow> DescribeTaskListResponse option \<times>
      go_error option" where
  "proxyHandler_DescribeTaskList h ctx r = DescribeTaskList (client h) ctx r"

definition proxyHandler_DescribeWorkflowExecution ::
  "'ctx proxyHandler \<Rightarrow> 'ctx \<Rightarrow> DescribeWorkflowExecutionRequest option \<Rightarrow>
      DescribeWorkflowExecutionResponse option \<times> go_error option" where
  "proxyHandler_DescribeWorkflowExecution h ctx r = DescribeWorkflowExecution (client h) ctx r"

definition proxyHandler_GetSearchAttributes ::
  "'ctx proxyHandler \<Rightarrow> 'ctx \<Rightarrow> unit \<Rightarrow> GetSearchAttributesResponse option \<times> go_error option" where
  "proxyHandler_GetSearchAttributes h ctx r = GetSearchAttributes (client h) ctx r"

definition proxyHandler_GetWorkflowExecutionHistory ::
  "'ctx proxyHandler \<Rightarrow> 'ctx \<Rightarrow> GetWorkflowExecutionHistoryRequest option \<Rightarrow>
      GetWorkflowExecutionHistoryResponse option \<times> go_error option" where
  "proxyHandler_GetWorkflowExecutionHistory h ctx r = GetWorkflowExecutionHistory (client h) ctx r"

definition proxyHandler_ListArchivedWorkflowExecutions ::
  "'ctx proxyHandler \<Rightarrow> 'ctx \<Rightarrow> ListArchivedWorkflowExecutionsRequest option \<Rightarrow>
      ListArchivedWorkflowExecutionsResponse option \<times> go_error option" where
  "proxyHandler_ListArchivedWorkflowExecutions h ctx r = ListArchivedWorkflowExecutions (client h)
      ctx r"

definition proxyHandler_ListClosedWorkflowExecutions ::
  "'ctx proxyHandler \<Rightarrow> 'ctx \<Rightarrow> ListClosedWorkflowExecutionsRequest option \<Rightarrow>
      ListClosedWorkflowExecutionsResponse option \<times> go_error option" where
  "proxyHandler_ListClosedWorkflowExecutions h ctx r = ListClosedWorkflowExecutions (client h) ctx
      r"

definition proxyHandler_ListDomains ::
  "'ctx proxyHandler \<Rightarrow> 'ctx \<Rightarrow> ListDomainsRequest option \<Rightarrow> ListDomainsResponse option \<times> go_error
      option" where
  "proxyHandler_ListDomains h ctx r = ListDomains (client h) ctx r"

definition proxyHandler_ListOpenWorkflowExecutions ::
  "'ctx proxyHandler \<Rightarrow> 'ctx \<Rightarrow> ListOpenWorkflowExecutionsRequest option \<Rightarrow>
      ListOpenWorkflowExecutionsResponse option \<times> go_error option" where
  "proxyHandler_ListOpenWorkflowExecutions h ctx r = ListOpenWorkflowExecutions (client h) ctx r"

definition proxyHandler_ListWorkflowExecutions ::
  "'ctx proxyHandler \<Rightarrow> 'ctx \<Rightarrow> ListWorkflowExecutionsRequest option \<Rightarrow> ListWorkflowExecutionsResponse
      option \<times> go_error option" where
  "proxyHandler_ListWorkflowExecutions h ctx r = ListWorkflowExecutions (client h) ctx r"

definition proxyHandler_PollForActivityTask ::
  "'ctx proxyHandler \<Rightarrow> 'ctx \<Rightarrow> PollForActivityTaskRequest option \<Rightarrow> PollForActivityTaskResponse option
      \<times> go_error option" where
  "proxyHandler_PollForActivityTask h ctx r = PollForActivityTask (client h) ctx r"

definition proxyHandler_PollForDecisionTask ::
  "'ctx proxyHandler \<Rightarrow> 'ctx \<Rightarrow> PollForDecisionTaskRequest option \<Rightarrow> PollForDecisionTaskResponse option
      \<times> go_error option" where
  "proxyHandler_PollForDecisionTask h ctx r = PollForDecisionTask (client h) ctx r"

definition proxyHandler_QueryWorkflow ::
  "'ctx proxyHandler \<Rightarrow> 'ctx \<Rightarrow> QueryWorkflowRequest option \<Rightarrow> QueryWorkflowResponse option \<times> go_error
      option" where
  "proxyHandler_QueryWorkflow h ctx r = QueryWorkflow (client h) ctx r"

definition proxyHandler_RecordActivityTaskHeartbeat ::
  "'ctx proxyHandler \<Rightarrow> 'ctx \<Rightarrow> RecordActivityTaskHeartbeatRequest option \<Rightarrow>
      RecordActivityTaskHeartbeatResponse option \<times> go_error option" where
  "proxyHandler_RecordActivityTaskHeartbeat h ctx r = RecordActivityTaskHeartbeat (client h) ctx r"

definition proxyHandler_RecordActivityTaskHeartbeatByID ::
  "'ctx proxyHandler \<Rightarrow> 'ctx \<Rightarrow> RecordActivityTaskHeartbeatByIDRequest option \<Rightarrow>
      RecordActivityTaskHeartbeatResponse option \<times> go_error option" where
  "proxyHandler_RecordActivityTaskHeartbeatByID h ctx r = RecordActivityTaskHeartbeatByID (client h)
      ctx r"

definition proxyHandler_RegisterDomain ::
  "'ctx proxyHandler \<Rightarrow> 'ctx \<Rightarrow> RegisterDomainRequest option \<Rightarrow> go_error option" where
  "proxyHandler_RegisterDomain h ctx r = RegisterDomain (client h) ctx r"

definition proxyHandler_RequestCancelWorkflowExecution ::
  "'ctx proxyHandler \<Rightarrow> 'ctx \<Rightarrow> RequestCancelWorkflowExecutionRequest option \<Rightarrow> go_error option" where
  "proxyHandler_RequestCancelWorkflowExecution h ctx r = RequestCancelWorkflowExecution (client h)
      ctx r"

definition proxyHandler_ResetStickyTaskList ::
  "'ctx proxyHandler \<Rightarrow> 'ctx \<Rightarrow> ResetStickyTaskListRequest option \<Rightarrow> ResetStickyTaskListResponse option
      \<times> go_error option" where
  "proxyHandler_ResetStickyTaskList h ctx r = ResetStickyTaskList (client h) ctx r"

definition proxyHandler_ResetWorkflowExecution ::
  "'ctx proxyHandler \<Rightarrow> 'ctx \<Rightarrow> ResetWorkflowExecutionRequest option \<Rightarrow> ResetWorkflowExecutionResponse
      option \<times> go_error option" where
  "proxyHandler_ResetWorkflowExecution h ctx r = ResetWorkflowExecution (client h) ctx r"

definition proxyHandler_RespondActivityTaskCanceled ::
  "'ctx proxyHandler \<Rightarrow> 'ctx \<Rightarrow> RespondActivityTaskCanceledRequest option \<Rightarrow> go_error option" where
  "proxyHandler_RespondActivityTaskCanceled h ctx r = RespondActivityTaskCanceled (client h) ctx r"

definition proxyHandler_RespondActivityTaskCanceledByID ::
  "'ctx proxyHandler \<Rightarrow> 'ctx \<Rightarrow> RespondActivityTaskCanceledByIDRequest option \<Rightarrow> go_error option" where
  "proxyHandler_RespondActivityTaskCanceledByID h ctx r = RespondActivityTaskCanceledByID (client h)
      ctx r"

definition proxyHandler_RespondActivityTaskCompleted ::
  "'ctx proxyHandler \<Rightarrow> 'ctx \<Rightarrow> RespondActivityTaskCompletedRequest option \<Rightarrow> go_error option" where
  "proxyHandler_RespondActivityTaskCompleted h ctx r = RespondActivityTaskCompleted (client h) ctx
      r"

definition proxyHandler_RespondActivityTaskCompletedByID ::
  "'ctx proxyHandler \<Rightarrow> 'ctx \<Rightarrow> RespondActivityTaskCompletedByIDRequest option \<Rightarrow> go_error option"
      where
  "proxyHandler_RespondActivityTaskCompletedByID h ctx r = RespondActivityTaskCompletedByID (client
      h) ctx r"

definition proxyHandler_RespondActivityTaskFailed ::
  "'ctx proxyHandler \<Rightarrow> 'ctx \<Rightarrow> RespondActivityTaskFailedRequest option \<Rightarrow> go_error option" where
  "proxyHandler_RespondActivityTaskFailed h ctx r = RespondActivityTaskFailed (client h) ctx r"

definition proxyHandler_RespondActivityTaskFailedByID ::
  "'ctx proxyHandler \<Rightarrow> 'ctx \<Rightarrow> RespondActivityTaskFailedByIDRequest option \<Rightarrow> go_error option" where
  "proxyHandler_RespondActivityTaskFailedByID h ctx r = RespondActivityTaskFailedByID (client h) ctx
      r"

definition proxyHandler_RespondDecisionTaskCompleted ::
  "'ctx proxyHandler \<Rightarrow> 'ctx \<Rightarrow> RespondDecisionTaskCompletedRequest option \<Rightarrow>
      RespondDecisionTaskCompletedResponse option \<times> go_error option" where
  "proxyHandler_RespondDecisionTaskCompleted h ctx r = RespondDecisionTaskCompleted (client h) ctx
      r"

definition proxyHandler_RespondDecisionTaskFailed ::
  "'ctx proxyHandler \<Rightarrow> 'ctx \<Rightarrow> RespondDecisionTaskFailedRequest option \<Rightarrow> go_error option" where
  "proxyHandler_RespondDecisionTaskFailed h ctx r = RespondDecisionTaskFailed (client h) ctx r"

definition proxyHandler_RespondQueryTaskCompleted ::
  "'ctx proxyHandler \<Rightarrow> 'ctx \<Rightarrow> RespondQueryTaskCompletedRequest option \<Rightarrow> go_error option" where
  "proxyHandler_RespondQueryTaskCompleted h ctx r = RespondQueryTaskCompleted (client h) ctx r"

definition proxyHandler_ScanWorkflowExecutions ::
  "'ctx proxyHandler \<Rightarrow> 'ctx \<Rightarrow> ListWorkflowExecutionsRequest option \<Rightarrow> ListWorkflowExecutionsResponse
      option \<times> go_error option" where
  "proxyHandler_ScanWorkflowExecutions h ctx r = ScanWorkflowExecutions (client h) ctx r"

definition proxyHandler_SignalWithStartWorkflowExecution ::
  "'ctx proxyHandler \<Rightarrow> 'ctx \<Rightarrow> SignalWithStartWorkflowExecutionRequest option \<Rightarrow>
      StartWorkflowExecutionResponse option \<times> go_error option" where
  "proxyHandler_SignalWithStartWorkflowExecution h ctx r = SignalWithStartWorkflowExecution (client
      h) ctx r"

definition proxyHandler_SignalWorkflowExecution ::
  "'ctx proxyHandler \<Rightarrow> 'ctx \<Rightarrow> SignalWorkflowExecutionRequest option \<Rightarrow> go_error option" where
  "proxyHandler_SignalWorkflowExecution h ctx r = SignalWorkflowExecution (client h) ctx r"

definition proxyHandler_StartWorkflowExecution ::
  "'ctx proxyHandler \<Rightarrow> 'ctx \<Rightarrow> StartWorkflowExecutionRequest option \<Rightarrow> StartWorkflowExecutionResponse
      option \<times> go_error option" where
  "proxyHandler_StartWorkflowExecution h ctx r = StartWorkflowExecution (client h) ctx r"

definition proxyHandler_TerminateWorkflowExecution ::
  "'ctx proxyHandler \<Rightarrow> 'ctx \<Rightarrow> TerminateWorkflowExecutionRequest option \<Rightarrow> go_error option" where
  "proxyHandler_TerminateWorkflowExecution h ctx r = TerminateWorkflowExecution (client h) ctx r"

definition proxyHandler_UpdateDomain ::
  "'ctx proxyHandler \<Rightarrow> 'ctx \<Rightarrow> UpdateDomainRequest option \<Rightarrow> UpdateDomainResponse option \<times> go_error
      option" where
  "proxyHandler_UpdateDomain h ctx r = UpdateDomain (client h) ctx r"

text \<open>The handler as an implementation of the interface.\<close>

definition proxyHandler_impl :: "'ctx proxyHandler \<Rightarrow> 'ctx WorkflowService_Interface" where
  "proxyHandler_impl h = \<lparr>
     CountWorkflowExecutions = proxyHandler_CountWorkflowExecutions h,
     DeprecateDomain = proxyHandler_DeprecateDomain h,
     DescribeDomain = proxyHandler_DescribeDomain h,
     DescribeTaskList = proxyHandler_DescribeTaskList h,
     DescribeWorkflowExecution = proxyHandler_DescribeWorkflowExecution h,
     GetSearchAttributes = proxyHandler_GetSearchAttributes h,
     GetWorkflowExecutionHistory = proxyHandler_GetWorkflowExecutionHistory h,
     ListArchivedWorkflowExecutions = proxyHandler_ListArchivedWorkflowExecutions h,
     ListClosedWorkflowExecutions = proxyHandler_ListClosedWorkflowExecutions h,
     ListDomains = proxyHandler_ListDomains h,
     ListOpenWorkflowExecutions = proxyHandler_ListOpenWorkflowExecutions h,
     ListWorkflowExecutions = proxyHandler_ListWorkflowExecutions h,
     PollForActivityTask = proxyHandler_PollForActivityTask h,
     PollForDecisionTask = proxyHandler_PollForDecisionTask h,
     QueryWorkflow = proxyHandler_QueryWorkflow h,
     RecordActivityTaskHeartbeat = proxyHandler_RecordActivityTaskHeartbeat h,
     RecordActivityTaskHeartbeatByID = proxyHandler_RecordActivityTaskHeartbeatByID h,
     RegisterDomain = proxyHandler_RegisterDomain h,
     RequestCancelWorkflowExecution = proxyHandler_RequestCancelWorkflowExecution h,
     ResetStickyTaskList = proxyHandler_ResetStickyTaskList h,
     ResetWorkflowExecution = proxyHandler_ResetWorkflowExecution h,
     RespondActivityTaskCanceled = proxyHandler_RespondActivityTaskCanceled h,
     RespondActivityTaskCanceledByID = proxyHandler_RespondActivityTaskCanceledByID h,
     RespondActivityTaskCompleted = proxyHandler_RespondActivityTaskCompleted h,
     RespondActivityTaskCompletedByID = proxyHandler_RespondActivityTaskCompletedByID h,
     RespondActivityTaskFailed = proxyHandler_RespondActivityTaskFailed h,
     RespondActivityTaskFailedByID = proxyHandler_RespondActivityTaskFailedByID h,
     RespondDecisionTaskCompleted = proxyHandler_RespondDecisionTaskCompleted h,
     RespondDecisionTaskFailed = proxyHandler_RespondDecisionTaskFailed h,
     RespondQueryTaskCompleted = proxyHandler_RespondQueryTaskCompleted h,
     ScanWorkflowExecutions = proxyHandler_ScanWorkflowExecutions h,
     SignalWithStartWorkflowExecution = proxyHandler_SignalWithStartWorkflowExecution h,
     SignalWorkflowExecution = proxyHandler_SignalWorkflowExecution h,
     StartWorkflowExecution = proxyHandler_StartWorkflowExecution h,
     TerminateWorkflowExecution = proxyHandler_TerminateWorkflowExecution h,
     UpdateDomain = proxyHandler_UpdateDomain h\<rparr>"

text \<open>What \<open>main\<close> registers with the dispatcher: the server over the proxy's handler.\<close>

definition proxy_procedures ::
  "'v wire_api \<Rightarrow> ('ctx, 'v) thrift_client \<Rightarrow> (string \<rightharpoonup> ('ctx, 'v) unary_handler)" where
  "proxy_procedures W call =
     workflowserviceserver_New W (proxyHandler_impl (NewProxyHandler W call))"

section \<open>The configuration of the process\<close>

text \<open>\<open>os.Getenv\<close> gives the empty string for a variable that is not set.\<close>

record proxy_config =
  Name :: string
  Inbound :: string
  OutboundName :: string
  Outbound :: string
  ServiceName :: string
  TimingMiddleware :: bool

definition main_addresses :: "(string \<Rightarrow> string) \<Rightarrow> string \<times> string" where
  "main_addresses Getenv =
     (let bindAddress = ''127.0.0.1:6666'';
          cadenceAddress = ''127.0.0.1:7933'';
          inn = Getenv ''BIND_ADDRESS'';
          bindAddress = (if inn \<noteq> [] then inn else bindAddress);
          out = Getenv ''CADENCE_ADDRESS'';
          cadenceAddress = (if out \<noteq> [] then out else cadenceAddress)
      in (bindAddress, cadenceAddress))"

text \<open>
  The steps of the process that can be observed. An error of the outbound transport is
  printed, and the dispatcher is configured all the same. An error of the start is printed
  and \<open>main\<close> returns, running the deferred \<open>Sync\<close>; otherwise it waits forever, and the
  deferred \<open>Stop\<close> is never reached.
\<close>

datatype main_step =
    PrintTransportError | ClientConfig string | Register | StartDispatcher | PrintStartError
  | SyncLogger | SelectForever

definition initDispatcher ::
  "(string \<Rightarrow> string) \<Rightarrow> bool \<Rightarrow> string \<Rightarrow> string \<Rightarrow> proxy_config \<times> main_step list" where
  "initDispatcher Getenv transport_fails bindAddress cadenceAddress =
     (let printed = (if transport_fails then [PrintTransportError] else []);
          config = \<lparr>Name = ''cadence-proxy'', Inbound = bindAddress,
            OutboundName = ''cadence-frontend'', Outbound = cadenceAddress,
            ServiceName = ''cadence-proxy-client'', TimingMiddleware = False\<rparr>
      in (if Getenv ''TIMING'' = ''1'' then config\<lparr>TimingMiddleware := True\<rparr> else config, printed))"

definition main :: "(string \<Rightarrow> string) \<Rightarrow> bool \<Rightarrow> bool \<Rightarrow> proxy_config \<times> main_step list" where
  "main Getenv transport_fails start_fails =
     (let (bindAddress, cadenceAddress) = main_addresses Getenv;
          (dispatcher, printed) = initDispatcher Getenv transport_fails bindAddress cadenceAddress;
          steps = printed @ [ClientConfig ''cadence-frontend'', Register, StartDispatcher]
      in (dispatcher, if start_fails then steps @ [PrintStartError, SyncLogger]
                      else steps @ [SelectForever]))"

section \<open>The timing middleware\<close>

text \<open>
  \<open>TimingLogMiddleware.Call\<close>: a call acts on the state \<open>'w\<close> of the process; the clock
  reads in nanoseconds, and \<open>Milliseconds\<close> truncates. The line printed is the request's
  procedure and the milliseconds.
\<close>

definition TimingLogMiddleware_Call ::
  "('w \<Rightarrow> int) \<Rightarrow> ('req \<Rightarrow> string) \<Rightarrow> ('ctx \<Rightarrow> 'req \<Rightarrow> 'w \<Rightarrow> ('res \<times> 'err) \<times> 'w) \<Rightarrow>
   'ctx \<Rightarrow> 'req \<Rightarrow> 'w \<times> (string \<times> int) list \<Rightarrow> ('res \<times> 'err) \<times> 'w \<times> (string \<times> int) list" where
  "TimingLogMiddleware_Call Now Procedure out_Call ctx request st =
     (let (w, printed) = st;
          start = Now w;
          ((result, err), w) = out_Call ctx request w;
          elapsed = (Now w - start) div 1000000;
          printed = printed @ [(Procedure request, elapsed)]
      in ((result, err), w, printed))"

section \<open>The procedures that are registered\<close>

lemmas procedure_defs =
  procedure_CountWorkflowExecutions_def
  procedure_DeprecateDomain_def
  procedure_DescribeDomain_def
  procedure_DescribeTaskList_def
  procedure_DescribeWorkflowExecution_def
  procedure_GetSearchAttributes_def
  procedure_GetWorkflowExecutionHistory_def
  procedure_ListArchivedWorkflowExecutions_def
  procedure_ListClosedWorkflowExecutions_def
  procedure_ListDomains_def
  procedure_ListOpenWorkflowExecutions_def
  procedure_ListWorkflowExecutions_def
  procedure_PollForActivityTask_def
  procedure_PollForDecisionTask_def
  procedure_QueryWorkflow_def
  procedure_RecordActivityTaskHeartbeat_def
  procedure_RecordActivityTaskHeartbeatByID_def
  procedure_RegisterDomain_def
  procedure_RequestCancelWorkflowExecution_def
  procedure_ResetStickyTaskList_def
  procedure_ResetWorkflowExecution_def
  procedure_RespondActivityTaskCanceled_def
  procedure_RespondActivityTaskCanceledByID_def
  procedure_RespondActivityTaskCompleted_def
  procedure_RespondActivityTaskCompletedByID_def
  procedure_RespondActivityTaskFailed_def
  procedure_RespondActivityTaskFailedByID_def
  procedure_RespondDecisionTaskCompleted_def
  procedure_RespondDecisionTaskFailed_def
  procedure_RespondQueryTaskCompleted_def
  procedure_ScanWorkflowExecutions_def
  procedure_SignalWithStartWorkflowExecution_def
  procedure_SignalWorkflowExecution_def
  procedure_StartWorkflowExecution_def
  procedure_TerminateWorkflowExecution_def
  procedure_UpdateDomain_def

text \<open>
  The table has 36 names, and they are distinct: two of them differ in length or in a letter
  of a position that tells them apart.
\<close>

definition service_names :: "string list" where
  "service_names =
    [''CountWorkflowExecutions'',
     ''DeprecateDomain'',
     ''DescribeDomain'',
     ''DescribeTaskList'',
     ''DescribeWorkflowExecution'',
     ''GetSearchAttributes'',
     ''GetWorkflowExecutionHistory'',
     ''ListArchivedWorkflowExecutions'',
     ''ListClosedWorkflowExecutions'',
     ''ListDomains'',
     ''ListOpenWorkflowExecutions'',
     ''ListWorkflowExecutions'',
     ''PollForActivityTask'',
     ''PollForDecisionTask'',
     ''QueryWorkflow'',
     ''RecordActivityTaskHeartbeat'',
     ''RecordActivityTaskHeartbeatByID'',
     ''RegisterDomain'',
     ''RequestCancelWorkflowExecution'',
     ''ResetStickyTaskList'',
     ''ResetWorkflowExecution'',
     ''RespondActivityTaskCanceled'',
     ''RespondActivityTaskCanceledByID'',
     ''RespondActivityTaskCompleted'',
     ''RespondActivityTaskCompletedByID'',
     ''RespondActivityTaskFailed'',
     ''RespondActivityTaskFailedByID'',
     ''RespondDecisionTaskCompleted'',
     ''RespondDecisionTaskFailed'',
     ''RespondQueryTaskCompleted'',
     ''ScanWorkflowExecutions'',
     ''SignalWithStartWorkflowExecution'',
     ''SignalWorkflowExecution'',
     ''StartWorkflowExecution'',
     ''TerminateWorkflowExecution'',
     ''UpdateDomain'']"

lemma names_of_methods: "map thrift_Method.Name (workflowserviceserver_methods W impl) =
    service_names"
  by (simp add: workflowserviceserver_methods_def procedure_defs service_names_def)

lemma distinct_service_names: "distinct service_names"
  by (rule distinct_names) (simp add: service_names_def name_code_def)

lemma registered:
  "m \<in> set (workflowserviceserver_methods W impl) \<Longrightarrow>
    workflowserviceserver_New W impl (thrift_Method.Name m) = Some (Unary m)"
  using distinct_service_names
  by (auto simp: workflowserviceserver_New_def names_of_methods [of W impl, symmetric] comp_def
      intro!: map_of_is_SomeI)

lemma registered_names: "dom (workflowserviceserver_New W impl) = set service_names"
  by (simp add: workflowserviceserver_New_def dom_map_of_conv_image_fst image_image
      flip: names_of_methods [of W impl])

section \<open>Calls through the proxy\<close>

lemma CountWorkflowExecutions_procedure:
  "workflowserviceserver_New W impl ''CountWorkflowExecutions'' = Some
      (handler_CountWorkflowExecutions W (CountWorkflowExecutions impl))"
  using registered [of "procedure_CountWorkflowExecutions W impl" W impl]
  by (simp add: workflowserviceserver_methods_def procedure_CountWorkflowExecutions_def)

lemma CountWorkflowExecutions_proxied:
  "proxy_procedures W call ''CountWorkflowExecutions'' = Some (handler_CountWorkflowExecutions W
      (client_CountWorkflowExecutions W call))"
  by (simp add: proxy_procedures_def CountWorkflowExecutions_procedure proxyHandler_impl_def
      proxyHandler_CountWorkflowExecutions_def [abs_def] NewProxyHandler_def
          workflowserviceclient_New_def)

lemma CountWorkflowExecutions_through_proxy:
  assumes "wire_laws W"
    and "thrift_delivers W call (workflowserviceserver_New W backend)"
    and "thrift_delivers W call' (proxy_procedures W call)"
  shows "carried (\<lambda>_. True) WorkflowService_CountWorkflowExecutions_Helper_IsException
      (CountWorkflowExecutions backend ctx r) \<Longrightarrow>
      CountWorkflowExecutions (workflowserviceclient_New W call') ctx r = error_first
          (CountWorkflowExecutions backend ctx r)"
    and "\<not> carried (\<lambda>_. True) WorkflowService_CountWorkflowExecutions_Helper_IsException
        (CountWorkflowExecutions backend ctx r) \<Longrightarrow>
      \<exists>e. CountWorkflowExecutions (workflowserviceclient_New W call') ctx r = (None, Some e)"
  using CountWorkflowExecutions.through_proxy [OF assms(1,2) CountWorkflowExecutions_procedure
      assms(3) CountWorkflowExecutions_proxied, where r = r and ctx = ctx]
  by (simp_all add: workflowserviceclient_New_def
      WorkflowService_CountWorkflowExecutions_Helper_Args_def)

lemma DeprecateDomain_procedure:
  "workflowserviceserver_New W impl ''DeprecateDomain'' = Some (handler_DeprecateDomain W
      (DeprecateDomain impl))"
  using registered [of "procedure_DeprecateDomain W impl" W impl]
  by (simp add: workflowserviceserver_methods_def procedure_DeprecateDomain_def)

lemma DeprecateDomain_proxied:
  "proxy_procedures W call ''DeprecateDomain'' = Some (handler_DeprecateDomain W
      (client_DeprecateDomain W call))"
  by (simp add: proxy_procedures_def DeprecateDomain_procedure proxyHandler_impl_def
      proxyHandler_DeprecateDomain_def [abs_def] NewProxyHandler_def workflowserviceclient_New_def)

lemma DeprecateDomain_through_proxy:
  assumes "wire_laws W"
    and "thrift_delivers W call (workflowserviceserver_New W backend)"
    and "thrift_delivers W call' (proxy_procedures W call)"
  shows "carried_void WorkflowService_DeprecateDomain_Helper_IsException (DeprecateDomain backend
      ctx r) \<Longrightarrow>
      DeprecateDomain (workflowserviceclient_New W call') ctx r = (DeprecateDomain backend ctx r)"
    and "\<not> carried_void WorkflowService_DeprecateDomain_Helper_IsException (DeprecateDomain backend
        ctx r) \<Longrightarrow>
      \<exists>e. DeprecateDomain (workflowserviceclient_New W call') ctx r = Some e"
  using DeprecateDomain.through_proxy [OF assms(1,2) DeprecateDomain_procedure assms(3)
      DeprecateDomain_proxied, where r = r and ctx = ctx]
  by (simp_all add: workflowserviceclient_New_def WorkflowService_DeprecateDomain_Helper_Args_def)

lemma DescribeDomain_procedure:
  "workflowserviceserver_New W impl ''DescribeDomain'' = Some (handler_DescribeDomain W
      (DescribeDomain impl))"
  using registered [of "procedure_DescribeDomain W impl" W impl]
  by (simp add: workflowserviceserver_methods_def procedure_DescribeDomain_def)

lemma DescribeDomain_proxied:
  "proxy_procedures W call ''DescribeDomain'' = Some (handler_DescribeDomain W
      (client_DescribeDomain W call))"
  by (simp add: proxy_procedures_def DescribeDomain_procedure proxyHandler_impl_def
      proxyHandler_DescribeDomain_def [abs_def] NewProxyHandler_def workflowserviceclient_New_def)

lemma DescribeDomain_through_proxy:
  assumes "wire_laws W"
    and "thrift_delivers W call (workflowserviceserver_New W backend)"
    and "thrift_delivers W call' (proxy_procedures W call)"
  shows "carried DescribeDomainResponse_complete WorkflowService_DescribeDomain_Helper_IsException
      (DescribeDomain backend ctx r) \<Longrightarrow>
      DescribeDomain (workflowserviceclient_New W call') ctx r = error_first (DescribeDomain backend
          ctx r)"
    and "\<not> carried DescribeDomainResponse_complete WorkflowService_DescribeDomain_Helper_IsException
        (DescribeDomain backend ctx r) \<Longrightarrow>
      \<exists>e. DescribeDomain (workflowserviceclient_New W call') ctx r = (None, Some e)"
  using DescribeDomain.through_proxy [OF assms(1,2) DescribeDomain_procedure assms(3)
      DescribeDomain_proxied, where r = r and ctx = ctx]
  by (simp_all add: workflowserviceclient_New_def WorkflowService_DescribeDomain_Helper_Args_def)

lemma DescribeTaskList_procedure:
  "workflowserviceserver_New W impl ''DescribeTaskList'' = Some (handler_DescribeTaskList W
      (DescribeTaskList impl))"
  using registered [of "procedure_DescribeTaskList W impl" W impl]
  by (simp add: workflowserviceserver_methods_def procedure_DescribeTaskList_def)

lemma DescribeTaskList_proxied:
  "proxy_procedures W call ''DescribeTaskList'' = Some (handler_DescribeTaskList W
      (client_DescribeTaskList W call))"
  by (simp add: proxy_procedures_def DescribeTaskList_procedure proxyHandler_impl_def
      proxyHandler_DescribeTaskList_def [abs_def] NewProxyHandler_def workflowserviceclient_New_def)

lemma DescribeTaskList_through_proxy:
  assumes "wire_laws W"
    and "thrift_delivers W call (workflowserviceserver_New W backend)"
    and "thrift_delivers W call' (proxy_procedures W call)"
  shows "carried DescribeTaskListResponse_complete
      WorkflowService_DescribeTaskList_Helper_IsException (DescribeTaskList backend ctx r) \<Longrightarrow>
      DescribeTaskList (workflowserviceclient_New W call') ctx r = error_first (DescribeTaskList
          backend ctx r)"
    and "\<not> carried DescribeTaskListResponse_complete
        WorkflowService_DescribeTaskList_Helper_IsException (DescribeTaskList backend ctx r) \<Longrightarrow>
      \<exists>e. DescribeTaskList (workflowserviceclient_New W call') ctx r = (None, Some e)"
  using DescribeTaskList.through_proxy [OF assms(1,2) DescribeTaskList_procedure assms(3)
      DescribeTaskList_proxied, where r = r and ctx = ctx]
  by (simp_all add: workflowserviceclient_New_def WorkflowService_DescribeTaskList_Helper_Args_def)

lemma DescribeWorkflowExecution_procedure:
  "workflowserviceserver_New W impl ''DescribeWorkflowExecution'' = Some
      (handler_DescribeWorkflowExecution W (DescribeWorkflowExecution impl))"
  using registered [of "procedure_DescribeWorkflowExecution W impl" W impl]
  by (simp add: workflowserviceserver_methods_def procedure_DescribeWorkflowExecution_def)

lemma DescribeWorkflowExecution_proxied:
  "proxy_procedures W call ''DescribeWorkflowExecution'' = Some (handler_DescribeWorkflowExecution W
      (client_DescribeWorkflowExecution W call))"
  by (simp add: proxy_procedures_def DescribeWorkflowExecution_procedure proxyHandler_impl_def
      proxyHandler_DescribeWorkflowExecution_def [abs_def] NewProxyHandler_def
          workflowserviceclient_New_def)

lemma DescribeWorkflowExecution_through_proxy:
  assumes "wire_laws W"
    and "thrift_delivers W call (workflowserviceserver_New W backend)"
    and "thrift_delivers W call' (proxy_procedures W call)"
  shows "carried DescribeWorkflowExecutionResponse_complete
      WorkflowService_DescribeWorkflowExecution_Helper_IsException (DescribeWorkflowExecution
      backend ctx r) \<Longrightarrow>
      DescribeWorkflowExecution (workflowserviceclient_New W call') ctx r = error_first
          (DescribeWorkflowExecution backend ctx r)"
    and "\<not> carried DescribeWorkflowExecutionResponse_complete
        WorkflowService_DescribeWorkflowExecution_Helper_IsException (DescribeWorkflowExecution
        backend ctx r) \<Longrightarrow>
      \<exists>e. DescribeWorkflowExecution (workflowserviceclient_New W call') ctx r = (None, Some e)"
  using DescribeWorkflowExecution.through_proxy [OF assms(1,2) DescribeWorkflowExecution_procedure
      assms(3) DescribeWorkflowExecution_proxied, where r = r and ctx = ctx]
  by (simp_all add: workflowserviceclient_New_def
      WorkflowService_DescribeWorkflowExecution_Helper_Args_def)

lemma GetSearchAttributes_procedure:
  "workflowserviceserver_New W impl ''GetSearchAttributes'' = Some (handler_GetSearchAttributes W
      (GetSearchAttributes impl))"
  using registered [of "procedure_GetSearchAttributes W impl" W impl]
  by (simp add: workflowserviceserver_methods_def procedure_GetSearchAttributes_def)

lemma GetSearchAttributes_proxied:
  "proxy_procedures W call ''GetSearchAttributes'' = Some (handler_GetSearchAttributes W
      (client_GetSearchAttributes W call))"
  by (simp add: proxy_procedures_def GetSearchAttributes_procedure proxyHandler_impl_def
      proxyHandler_GetSearchAttributes_def [abs_def] NewProxyHandler_def
          workflowserviceclient_New_def)

lemma GetSearchAttributes_through_proxy:
  assumes "wire_laws W"
    and "thrift_delivers W call (workflowserviceserver_New W backend)"
    and "thrift_delivers W call' (proxy_procedures W call)"
  shows "carried (\<lambda>_. True) WorkflowService_GetSearchAttributes_Helper_IsException
      (GetSearchAttributes backend ctx r) \<Longrightarrow>
      GetSearchAttributes (workflowserviceclient_New W call') ctx r = error_first
          (GetSearchAttributes backend ctx r)"
    and "\<not> carried (\<lambda>_. True) WorkflowService_GetSearchAttributes_Helper_IsException
        (GetSearchAttributes backend ctx r) \<Longrightarrow>
      \<exists>e. GetSearchAttributes (workflowserviceclient_New W call') ctx r = (None, Some e)"
  using GetSearchAttributes.through_proxy [OF assms(1,2) GetSearchAttributes_procedure assms(3)
      GetSearchAttributes_proxied, where r = r and ctx = ctx]
  by (simp_all add: workflowserviceclient_New_def
      WorkflowService_GetSearchAttributes_Helper_Args_def)

lemma GetWorkflowExecutionHistory_procedure:
  "workflowserviceserver_New W impl ''GetWorkflowExecutionHistory'' = Some
      (handler_GetWorkflowExecutionHistory W (GetWorkflowExecutionHistory impl))"
  using registered [of "procedure_GetWorkflowExecutionHistory W impl" W impl]
  by (simp add: workflowserviceserver_methods_def procedure_GetWorkflowExecutionHistory_def)

lemma GetWorkflowExecutionHistory_proxied:
  "proxy_procedures W call ''GetWorkflowExecutionHistory'' = Some
      (handler_GetWorkflowExecutionHistory W (client_GetWorkflowExecutionHistory W call))"
  by (simp add: proxy_procedures_def GetWorkflowExecutionHistory_procedure proxyHandler_impl_def
      proxyHandler_GetWorkflowExecutionHistory_def [abs_def] NewProxyHandler_def
          workflowserviceclient_New_def)

lemma GetWorkflowExecutionHistory_through_proxy:
  assumes "wire_laws W"
    and "thrift_delivers W call (workflowserviceserver_New W backend)"
    and "thrift_delivers W call' (proxy_procedures W call)"
  shows "carried GetWorkflowExecutionHistoryResponse_complete
      WorkflowService_GetWorkflowExecutionHistory_Helper_IsException (GetWorkflowExecutionHistory
      backend ctx r) \<Longrightarrow>
      GetWorkflowExecutionHistory (workflowserviceclient_New W call') ctx r = error_first
          (GetWorkflowExecutionHistory backend ctx r)"
    and "\<not> carried GetWorkflowExecutionHistoryResponse_complete
        WorkflowService_GetWorkflowExecutionHistory_Helper_IsException (GetWorkflowExecutionHistory
        backend ctx r) \<Longrightarrow>
      \<exists>e. GetWorkflowExecutionHistory (workflowserviceclient_New W call') ctx r = (None, Some e)"
  using GetWorkflowExecutionHistory.through_proxy [OF assms(1,2)
      GetWorkflowExecutionHistory_procedure assms(3) GetWorkflowExecutionHistory_proxied, where r =
      r and ctx = ctx]
  by (simp_all add: workflowserviceclient_New_def
      WorkflowService_GetWorkflowExecutionHistory_Helper_Args_def)

lemma ListArchivedWorkflowExecutions_procedure:
  "workflowserviceserver_New W impl ''ListArchivedWorkflowExecutions'' = Some
      (handler_ListArchivedWorkflowExecutions W (ListArchivedWorkflowExecutions impl))"
  using registered [of "procedure_ListArchivedWorkflowExecutions W impl" W impl]
  by (simp add: workflowserviceserver_methods_def procedure_ListArchivedWorkflowExecutions_def)

lemma ListArchivedWorkflowExecutions_proxied:
  "proxy_procedures W call ''ListArchivedWorkflowExecutions'' = Some
      (handler_ListArchivedWorkflowExecutions W (client_ListArchivedWorkflowExecutions W call))"
  by (simp add: proxy_procedures_def ListArchivedWorkflowExecutions_procedure proxyHandler_impl_def
      proxyHandler_ListArchivedWorkflowExecutions_def [abs_def] NewProxyHandler_def
          workflowserviceclient_New_def)

lemma ListArchivedWorkflowExecutions_through_proxy:
  assumes "wire_laws W"
    and "thrift_delivers W call (workflowserviceserver_New W backend)"
    and "thrift_delivers W call' (proxy_procedures W call)"
  shows "carried ListArchivedWorkflowExecutionsResponse_complete
      WorkflowService_ListArchivedWorkflowExecutions_Helper_IsException
      (ListArchivedWorkflowExecutions backend ctx r) \<Longrightarrow>
      ListArchivedWorkflowExecutions (workflowserviceclient_New W call') ctx r = error_first
          (ListArchivedWorkflowExecutions backend ctx r)"
    and "\<not> carried ListArchivedWorkflowExecutionsResponse_complete
        WorkflowService_ListArchivedWorkflowExecutions_Helper_IsException
        (ListArchivedWorkflowExecutions backend ctx r) \<Longrightarrow>
      \<exists>e. ListArchivedWorkflowExecutions (workflowserviceclient_New W call') ctx r = (None, Some e)"
  using ListArchivedWorkflowExecutions.through_proxy [OF assms(1,2)
      ListArchivedWorkflowExecutions_procedure assms(3) ListArchivedWorkflowExecutions_proxied,
      where r = r and ctx = ctx]
  by (simp_all add: workflowserviceclient_New_def
      WorkflowService_ListArchivedWorkflowExecutions_Helper_Args_def)

lemma ListClosedWorkflowExecutions_procedure:
  "workflowserviceserver_New W impl ''ListClosedWorkflowExecutions'' = Some
      (handler_ListClosedWorkflowExecutions W (ListClosedWorkflowExecutions impl))"
  using registered [of "procedure_ListClosedWorkflowExecutions W impl" W impl]
  by (simp add: workflowserviceserver_methods_def procedure_ListClosedWorkflowExecutions_def)

lemma ListClosedWorkflowExecutions_proxied:
  "proxy_procedures W call ''ListClosedWorkflowExecutions'' = Some
      (handler_ListClosedWorkflowExecutions W (client_ListClosedWorkflowExecutions W call))"
  by (simp add: proxy_procedures_def ListClosedWorkflowExecutions_procedure proxyHandler_impl_def
      proxyHandler_ListClosedWorkflowExecutions_def [abs_def] NewProxyHandler_def
          workflowserviceclient_New_def)

lemma ListClosedWorkflowExecutions_through_proxy:
  assumes "wire_laws W"
    and "thrift_delivers W call (workflowserviceserver_New W backend)"
    and "thrift_delivers W call' (proxy_procedures W call)"
  shows "carried ListClosedWorkflowExecutionsResponse_complete
      WorkflowService_ListClosedWorkflowExecutions_Helper_IsException (ListClosedWorkflowExecutions
      backend ctx r) \<Longrightarrow>
      ListClosedWorkflowExecutions (workflowserviceclient_New W call') ctx r = error_first
          (ListClosedWorkflowExecutions backend ctx r)"
    and "\<not> carried ListClosedWorkflowExecutionsResponse_complete
        WorkflowService_ListClosedWorkflowExecutions_Helper_IsException
        (ListClosedWorkflowExecutions backend ctx r) \<Longrightarrow>
      \<exists>e. ListClosedWorkflowExecutions (workflowserviceclient_New W call') ctx r = (None, Some e)"
  using ListClosedWorkflowExecutions.through_proxy [OF assms(1,2)
      ListClosedWorkflowExecutions_procedure assms(3) ListClosedWorkflowExecutions_proxied, where r
      = r and ctx = ctx]
  by (simp_all add: workflowserviceclient_New_def
      WorkflowService_ListClosedWorkflowExecutions_Helper_Args_def)

lemma ListDomains_procedure:
  "workflowserviceserver_New W impl ''ListDomains'' = Some (handler_ListDomains W (ListDomains
      impl))"
  using registered [of "procedure_ListDomains W impl" W impl]
  by (simp add: workflowserviceserver_methods_def procedure_ListDomains_def)

lemma ListDomains_proxied:
  "proxy_procedures W call ''ListDomains'' = Some (handler_ListDomains W (client_ListDomains W
      call))"
  by (simp add: proxy_procedures_def ListDomains_procedure proxyHandler_impl_def
      proxyHandler_ListDomains_def [abs_def] NewProxyHandler_def workflowserviceclient_New_def)

lemma ListDomains_through_proxy:
  assumes "wire_laws W"
    and "thrift_delivers W call (workflowserviceserver_New W backend)"
    and "thrift_delivers W call' (proxy_procedures W call)"
  shows "carried ListDomainsResponse_complete WorkflowService_ListDomains_Helper_IsException
      (ListDomains backend ctx r) \<Longrightarrow>
      ListDomains (workflowserviceclient_New W call') ctx r = error_first (ListDomains backend ctx
          r)"
    and "\<not> carried ListDomainsResponse_complete WorkflowService_ListDomains_Helper_IsException
        (ListDomains backend ctx r) \<Longrightarrow>
      \<exists>e. ListDomains (workflowserviceclient_New W call') ctx r = (None, Some e)"
  using ListDomains.through_proxy [OF assms(1,2) ListDomains_procedure assms(3) ListDomains_proxied,
      where r = r and ctx = ctx]
  by (simp_all add: workflowserviceclient_New_def WorkflowService_ListDomains_Helper_Args_def)

lemma ListOpenWorkflowExecutions_procedure:
  "workflowserviceserver_New W impl ''ListOpenWorkflowExecutions'' = Some
      (handler_ListOpenWorkflowExecutions W (ListOpenWorkflowExecutions impl))"
  using registered [of "procedure_ListOpenWorkflowExecutions W impl" W impl]
  by (simp add: workflowserviceserver_methods_def procedure_ListOpenWorkflowExecutions_def)

lemma ListOpenWorkflowExecutions_proxied:
  "proxy_procedures W call ''ListOpenWorkflowExecutions'' = Some (handler_ListOpenWorkflowExecutions
      W (client_ListOpenWorkflowExecutions W call))"
  by (simp add: proxy_procedures_def ListOpenWorkflowExecutions_procedure proxyHandler_impl_def
      proxyHandler_ListOpenWorkflowExecutions_def [abs_def] NewProxyHandler_def
          workflowserviceclient_New_def)

lemma ListOpenWorkflowExecutions_through_proxy:
  assumes "wire_laws W"
    and "thrift_delivers W call (workflowserviceserver_New W backend)"
    and "thrift_delivers W call' (proxy_procedures W call)"
  shows "carried ListOpenWorkflowExecutionsResponse_complete
      WorkflowService_ListOpenWorkflowExecutions_Helper_IsException (ListOpenWorkflowExecutions
      backend ctx r) \<Longrightarrow>
      ListOpenWorkflowExecutions (workflowserviceclient_New W call') ctx r = error_first
          (ListOpenWorkflowExecutions backend ctx r)"
    and "\<not> carried ListOpenWorkflowExecutionsResponse_complete
        WorkflowService_ListOpenWorkflowExecutions_Helper_IsException (ListOpenWorkflowExecutions
        backend ctx r) \<Longrightarrow>
      \<exists>e. ListOpenWorkflowExecutions (workflowserviceclient_New W call') ctx r = (None, Some e)"
  using ListOpenWorkflowExecutions.through_proxy [OF assms(1,2) ListOpenWorkflowExecutions_procedure
      assms(3) ListOpenWorkflowExecutions_proxied, where r = r and ctx = ctx]
  by (simp_all add: workflowserviceclient_New_def
      WorkflowService_ListOpenWorkflowExecutions_Helper_Args_def)

lemma ListWorkflowExecutions_procedure:
  "workflowserviceserver_New W impl ''ListWorkflowExecutions'' = Some
      (handler_ListWorkflowExecutions W (ListWorkflowExecutions impl))"
  using registered [of "procedure_ListWorkflowExecutions W impl" W impl]
  by (simp add: workflowserviceserver_methods_def procedure_ListWorkflowExecutions_def)

lemma ListWorkflowExecutions_proxied:
  "proxy_procedures W call ''ListWorkflowExecutions'' = Some (handler_ListWorkflowExecutions W
      (client_ListWorkflowExecutions W call))"
  by (simp add: proxy_procedures_def ListWorkflowExecutions_procedure proxyHandler_impl_def
      proxyHandler_ListWorkflowExecutions_def [abs_def] NewProxyHandler_def
          workflowserviceclient_New_def)

lemma ListWorkflowExecutions_through_proxy:
  assumes "wire_laws W"
    and "thrift_delivers W call (workflowserviceserver_New W backend)"
    and "thrift_delivers W call' (proxy_procedures W call)"
  shows "carried ListWorkflowExecutionsResponse_complete
      WorkflowService_ListWorkflowExecutions_Helper_IsException (ListWorkflowExecutions backend ctx
      r) \<Longrightarrow>
      ListWorkflowExecutions (workflowserviceclient_New W call') ctx r = error_first
          (ListWorkflowExecutions backend ctx r)"
    and "\<not> carried ListWorkflowExecutionsResponse_complete
        WorkflowService_ListWorkflowExecutions_Helper_IsException (ListWorkflowExecutions backend
        ctx r) \<Longrightarrow>
      \<exists>e. ListWorkflowExecutions (workflowserviceclient_New W call') ctx r = (None, Some e)"
  using ListWorkflowExecutions.through_proxy [OF assms(1,2) ListWorkflowExecutions_procedure
      assms(3) ListWorkflowExecutions_proxied, where r = r and ctx = ctx]
  by (simp_all add: workflowserviceclient_New_def
      WorkflowService_ListWorkflowExecutions_Helper_Args_def)

lemma PollForActivityTask_procedure:
  "workflowserviceserver_New W impl ''PollForActivityTask'' = Some (handler_PollForActivityTask W
      (PollForActivityTask impl))"
  using registered [of "procedure_PollForActivityTask W impl" W impl]
  by (simp add: workflowserviceserver_methods_def procedure_PollForActivityTask_def)

lemma PollForActivityTask_proxied:
  "proxy_procedures W call ''PollForActivityTask'' = Some (handler_PollForActivityTask W
      (client_PollForActivityTask W call))"
  by (simp add: proxy_procedures_def PollForActivityTask_procedure proxyHandler_impl_def
      proxyHandler_PollForActivityTask_def [abs_def] NewProxyHandler_def
          workflowserviceclient_New_def)

lemma PollForActivityTask_through_proxy:
  assumes "wire_laws W"
    and "thrift_delivers W call (workflowserviceserver_New W backend)"
    and "thrift_delivers W call' (proxy_procedures W call)"
  shows "carried PollForActivityTaskResponse_complete
      WorkflowService_PollForActivityTask_Helper_IsException (PollForActivityTask backend ctx r) \<Longrightarrow>
      PollForActivityTask (workflowserviceclient_New W call') ctx r = error_first
          (PollForActivityTask backend ctx r)"
    and "\<not> carried PollForActivityTaskResponse_complete
        WorkflowService_PollForActivityTask_Helper_IsException (PollForActivityTask backend ctx r) \<Longrightarrow>
      \<exists>e. PollForActivityTask (workflowserviceclient_New W call') ctx r = (None, Some e)"
  using PollForActivityTask.through_proxy [OF assms(1,2) PollForActivityTask_procedure assms(3)
      PollForActivityTask_proxied, where r = r and ctx = ctx]
  by (simp_all add: workflowserviceclient_New_def
      WorkflowService_PollForActivityTask_Helper_Args_def)

lemma PollForDecisionTask_procedure:
  "workflowserviceserver_New W impl ''PollForDecisionTask'' = Some (handler_PollForDecisionTask W
      (PollForDecisionTask impl))"
  using registered [of "procedure_PollForDecisionTask W impl" W impl]
  by (simp add: workflowserviceserver_methods_def procedure_PollForDecisionTask_def)

lemma PollForDecisionTask_proxied:
  "proxy_procedures W call ''PollForDecisionTask'' = Some (handler_PollForDecisionTask W
      (client_PollForDecisionTask W call))"
  by (simp add: proxy_procedures_def PollForDecisionTask_procedure proxyHandler_impl_def
      proxyHandler_PollForDecisionTask_def [abs_def] NewProxyHandler_def
          workflowserviceclient_New_def)

lemma PollForDecisionTask_through_proxy:
  assumes "wire_laws W"
    and "thrift_delivers W call (workflowserviceserver_New W backend)"
    and "thrift_delivers W call' (proxy_procedures W call)"
  shows "carried PollForDecisionTaskResponse_complete
      WorkflowService_PollForDecisionTask_Helper_IsException (PollForDecisionTask backend ctx r) \<Longrightarrow>
      PollForDecisionTask (workflowserviceclient_New W call') ctx r = error_first
          (PollForDecisionTask backend ctx r)"
    and "\<not> carried PollForDecisionTaskResponse_complete
        WorkflowService_PollForDecisionTask_Helper_IsException (PollForDecisionTask backend ctx r) \<Longrightarrow>
      \<exists>e. PollForDecisionTask (workflowserviceclient_New W call') ctx r = (None, Some e)"
  using PollForDecisionTask.through_proxy [OF assms(1,2) PollForDecisionTask_procedure assms(3)
      PollForDecisionTask_proxied, where r = r and ctx = ctx]
  by (simp_all add: workflowserviceclient_New_def
      WorkflowService_PollForDecisionTask_Helper_Args_def)

lemma QueryWorkflow_procedure:
  "workflowserviceserver_New W impl ''QueryWorkflow'' = Some (handler_QueryWorkflow W (QueryWorkflow
      impl))"
  using registered [of "procedure_QueryWorkflow W impl" W impl]
  by (simp add: workflowserviceserver_methods_def procedure_QueryWorkflow_def)

lemma QueryWorkflow_proxied:
  "proxy_procedures W call ''QueryWorkflow'' = Some (handler_QueryWorkflow W (client_QueryWorkflow W
      call))"
  by (simp add: proxy_procedures_def QueryWorkflow_procedure proxyHandler_impl_def
      proxyHandler_QueryWorkflow_def [abs_def] NewProxyHandler_def workflowserviceclient_New_def)

lemma QueryWorkflow_through_proxy:
  assumes "wire_laws W"
    and "thrift_delivers W call (workflowserviceserver_New W backend)"
    and "thrift_delivers W call' (proxy_procedures W call)"
  shows "carried (\<lambda>_. True) WorkflowService_QueryWorkflow_Helper_IsException (QueryWorkflow backend
      ctx r) \<Longrightarrow>
      QueryWorkflow (workflowserviceclient_New W call') ctx r = error_first (QueryWorkflow backend
          ctx r)"
    and "\<not> carried (\<lambda>_. True) WorkflowService_QueryWorkflow_Helper_IsException (QueryWorkflow
        backend ctx r) \<Longrightarrow>
      \<exists>e. QueryWorkflow (workflowserviceclient_New W call') ctx r = (None, Some e)"
  using QueryWorkflow.through_proxy [OF assms(1,2) QueryWorkflow_procedure assms(3)
      QueryWorkflow_proxied, where r = r and ctx = ctx]
  by (simp_all add: workflowserviceclient_New_def WorkflowService_QueryWorkflow_Helper_Args_def)

lemma RecordActivityTaskHeartbeat_procedure:
  "workflowserviceserver_New W impl ''RecordActivityTaskHeartbeat'' = Some
      (handler_RecordActivityTaskHeartbeat W (RecordActivityTaskHeartbeat impl))"
  using registered [of "procedure_RecordActivityTaskHeartbeat W impl" W impl]
  by (simp add: workflowserviceserver_methods_def procedure_RecordActivityTaskHeartbeat_def)

lemma RecordActivityTaskHeartbeat_proxied:
  "proxy_procedures W call ''RecordActivityTaskHeartbeat'' = Some
      (handler_RecordActivityTaskHeartbeat W (client_RecordActivityTaskHeartbeat W call))"
  by (simp add: proxy_procedures_def RecordActivityTaskHeartbeat_procedure proxyHandler_impl_def
      proxyHandler_RecordActivityTaskHeartbeat_def [abs_def] NewProxyHandler_def
          workflowserviceclient_New_def)

lemma RecordActivityTaskHeartbeat_through_proxy:
  assumes "wire_laws W"
    and "thrift_delivers W call (workflowserviceserver_New W backend)"
    and "thrift_delivers W call' (proxy_procedures W call)"
  shows "carried (\<lambda>_. True) WorkflowService_RecordActivityTaskHeartbeat_Helper_IsException
      (RecordActivityTaskHeartbeat backend ctx r) \<Longrightarrow>
      RecordActivityTaskHeartbeat (workflowserviceclient_New W call') ctx r = error_first
          (RecordActivityTaskHeartbeat backend ctx r)"
    and "\<not> carried (\<lambda>_. True) WorkflowService_RecordActivityTaskHeartbeat_Helper_IsException
        (RecordActivityTaskHeartbeat backend ctx r) \<Longrightarrow>
      \<exists>e. RecordActivityTaskHeartbeat (workflowserviceclient_New W call') ctx r = (None, Some e)"
  using RecordActivityTaskHeartbeat.through_proxy [OF assms(1,2)
      RecordActivityTaskHeartbeat_procedure assms(3) RecordActivityTaskHeartbeat_proxied, where r =
      r and ctx = ctx]
  by (simp_all add: workflowserviceclient_New_def
      WorkflowService_RecordActivityTaskHeartbeat_Helper_Args_def)

lemma RecordActivityTaskHeartbeatByID_procedure:
  "workflowserviceserver_New W impl ''RecordActivityTaskHeartbeatByID'' = Some
      (handler_RecordActivityTaskHeartbeatByID W (RecordActivityTaskHeartbeatByID impl))"
  using registered [of "procedure_RecordActivityTaskHeartbeatByID W impl" W impl]
  by (simp add: workflowserviceserver_methods_def procedure_RecordActivityTaskHeartbeatByID_def)

lemma RecordActivityTaskHeartbeatByID_proxied:
  "proxy_procedures W call ''RecordActivityTaskHeartbeatByID'' = Some
      (handler_RecordActivityTaskHeartbeatByID W (client_RecordActivityTaskHeartbeatByID W call))"
  by (simp add: proxy_procedures_def RecordActivityTaskHeartbeatByID_procedure proxyHandler_impl_def
      proxyHandler_RecordActivityTaskHeartbeatByID_def [abs_def] NewProxyHandler_def
          workflowserviceclient_New_def)

lemma RecordActivityTaskHeartbeatByID_through_proxy:
  assumes "wire_laws W"
    and "thrift_delivers W call (workflowserviceserver_New W backend)"
    and "thrift_delivers W call' (proxy_procedures W call)"
  shows "carried (\<lambda>_. True) WorkflowService_RecordActivityTaskHeartbeatByID_Helper_IsException
      (RecordActivityTaskHeartbeatByID backend ctx r) \<Longrightarrow>
      RecordActivityTaskHeartbeatByID (workflowserviceclient_New W call') ctx r = error_first
          (RecordActivityTaskHeartbeatByID backend ctx r)"
    and "\<not> carried (\<lambda>_. True) WorkflowService_RecordActivityTaskHeartbeatByID_Helper_IsException
        (RecordActivityTaskHeartbeatByID backend ctx r) \<Longrightarrow>
      \<exists>e. RecordActivityTaskHeartbeatByID (workflowserviceclient_New W call') ctx r = (None, Some
          e)"
  using RecordActivityTaskHeartbeatByID.through_proxy [OF assms(1,2)
      RecordActivityTaskHeartbeatByID_procedure assms(3) RecordActivityTaskHeartbeatByID_proxied,
      where r = r and ctx = ctx]
  by (simp_all add: workflowserviceclient_New_def
      WorkflowService_RecordActivityTaskHeartbeatByID_Helper_Args_def)

lemma RegisterDomain_procedure:
  "workflowserviceserver_New W impl ''RegisterDomain'' = Some (handler_RegisterDomain W
      (RegisterDomain impl))"
  using registered [of "procedure_RegisterDomain W impl" W impl]
  by (simp add: workflowserviceserver_methods_def procedure_RegisterDomain_def)

lemma RegisterDomain_proxied:
  "proxy_procedures W call ''RegisterDomain'' = Some (handler_RegisterDomain W
      (client_RegisterDomain W call))"
  by (simp add: proxy_procedures_def RegisterDomain_procedure proxyHandler_impl_def
      proxyHandler_RegisterDomain_def [abs_def] NewProxyHandler_def workflowserviceclient_New_def)

lemma RegisterDomain_through_proxy:
  assumes "wire_laws W"
    and "thrift_delivers W call (workflowserviceserver_New W backend)"
    and "thrift_delivers W call' (proxy_procedures W call)"
  shows "if_set RegisterDomainRequest_complete r \<Longrightarrow> carried_void
      WorkflowService_RegisterDomain_Helper_IsException (RegisterDomain backend ctx r) \<Longrightarrow>
      RegisterDomain (workflowserviceclient_New W call') ctx r = (RegisterDomain backend ctx r)"
    and "\<not> (if_set RegisterDomainRequest_complete r \<and> carried_void
        WorkflowService_RegisterDomain_Helper_IsException (RegisterDomain backend ctx r)) \<Longrightarrow>
      \<exists>e. RegisterDomain (workflowserviceclient_New W call') ctx r = Some e"
  using RegisterDomain.through_proxy [OF assms(1,2) RegisterDomain_procedure assms(3)
      RegisterDomain_proxied, where r = r and ctx = ctx]
  by (simp_all add: workflowserviceclient_New_def WorkflowService_RegisterDomain_Helper_Args_def)

lemma RequestCancelWorkflowExecution_procedure:
  "workflowserviceserver_New W impl ''RequestCancelWorkflowExecution'' = Some
      (handler_RequestCancelWorkflowExecution W (RequestCancelWorkflowExecution impl))"
  using registered [of "procedure_RequestCancelWorkflowExecution W impl" W impl]
  by (simp add: workflowserviceserver_methods_def procedure_RequestCancelWorkflowExecution_def)

lemma RequestCancelWorkflowExecution_proxied:
  "proxy_procedures W call ''RequestCancelWorkflowExecution'' = Some
      (handler_RequestCancelWorkflowExecution W (client_RequestCancelWorkflowExecution W call))"
  by (simp add: proxy_procedures_def RequestCancelWorkflowExecution_procedure proxyHandler_impl_def
      proxyHandler_RequestCancelWorkflowExecution_def [abs_def] NewProxyHandler_def
          workflowserviceclient_New_def)

lemma RequestCancelWorkflowExecution_through_proxy:
  assumes "wire_laws W"
    and "thrift_delivers W call (workflowserviceserver_New W backend)"
    and "thrift_delivers W call' (proxy_procedures W call)"
  shows "carried_void WorkflowService_RequestCancelWorkflowExecution_Helper_IsException
      (RequestCancelWorkflowExecution backend ctx r) \<Longrightarrow>
      RequestCancelWorkflowExecution (workflowserviceclient_New W call') ctx r =
          (RequestCancelWorkflowExecution backend ctx r)"
    and "\<not> carried_void WorkflowService_RequestCancelWorkflowExecution_Helper_IsException
        (RequestCancelWorkflowExecution backend ctx r) \<Longrightarrow>
      \<exists>e. RequestCancelWorkflowExecution (workflowserviceclient_New W call') ctx r = Some e"
  using RequestCancelWorkflowExecution.through_proxy [OF assms(1,2)
      RequestCancelWorkflowExecution_procedure assms(3) RequestCancelWorkflowExecution_proxied,
      where r = r and ctx = ctx]
  by (simp_all add: workflowserviceclient_New_def
      WorkflowService_RequestCancelWorkflowExecution_Helper_Args_def)

lemma ResetStickyTaskList_procedure:
  "workflowserviceserver_New W impl ''ResetStickyTaskList'' = Some (handler_ResetStickyTaskList W
      (ResetStickyTaskList impl))"
  using registered [of "procedure_ResetStickyTaskList W impl" W impl]
  by (simp add: workflowserviceserver_methods_def procedure_ResetStickyTaskList_def)

lemma ResetStickyTaskList_proxied:
  "proxy_procedures W call ''ResetStickyTaskList'' = Some (handler_ResetStickyTaskList W
      (client_ResetStickyTaskList W call))"
  by (simp add: proxy_procedures_def ResetStickyTaskList_procedure proxyHandler_impl_def
      proxyHandler_ResetStickyTaskList_def [abs_def] NewProxyHandler_def
          workflowserviceclient_New_def)

lemma ResetStickyTaskList_through_proxy:
  assumes "wire_laws W"
    and "thrift_delivers W call (workflowserviceserver_New W backend)"
    and "thrift_delivers W call' (proxy_procedures W call)"
  shows "carried (\<lambda>_. True) WorkflowService_ResetStickyTaskList_Helper_IsException
      (ResetStickyTaskList backend ctx r) \<Longrightarrow>
      ResetStickyTaskList (workflowserviceclient_New W call') ctx r = error_first
          (ResetStickyTaskList backend ctx r)"
    and "\<not> carried (\<lambda>_. True) WorkflowService_ResetStickyTaskList_Helper_IsException
        (ResetStickyTaskList backend ctx r) \<Longrightarrow>
      \<exists>e. ResetStickyTaskList (workflowserviceclient_New W call') ctx r = (None, Some e)"
  using ResetStickyTaskList.through_proxy [OF assms(1,2) ResetStickyTaskList_procedure assms(3)
      ResetStickyTaskList_proxied, where r = r and ctx = ctx]
  by (simp_all add: workflowserviceclient_New_def
      WorkflowService_ResetStickyTaskList_Helper_Args_def)

lemma ResetWorkflowExecution_procedure:
  "workflowserviceserver_New W impl ''ResetWorkflowExecution'' = Some
      (handler_ResetWorkflowExecution W (ResetWorkflowExecution impl))"
  using registered [of "procedure_ResetWorkflowExecution W impl" W impl]
  by (simp add: workflowserviceserver_methods_def procedure_ResetWorkflowExecution_def)

lemma ResetWorkflowExecution_proxied:
  "proxy_procedures W call ''ResetWorkflowExecution'' = Some (handler_ResetWorkflowExecution W
      (client_ResetWorkflowExecution W call))"
  by (simp add: proxy_procedures_def ResetWorkflowExecution_procedure proxyHandler_impl_def
      proxyHandler_ResetWorkflowExecution_def [abs_def] NewProxyHandler_def
          workflowserviceclient_New_def)

lemma ResetWorkflowExecution_through_proxy:
  assumes "wire_laws W"
    and "thrift_delivers W call (workflowserviceserver_New W backend)"
    and "thrift_delivers W call' (proxy_procedures W call)"
  shows "carried (\<lambda>_. True) WorkflowService_ResetWorkflowExecution_Helper_IsException
      (ResetWorkflowExecution backend ctx r) \<Longrightarrow>
      ResetWorkflowExecution (workflowserviceclient_New W call') ctx r = error_first
          (ResetWorkflowExecution backend ctx r)"
    and "\<not> carried (\<lambda>_. True) WorkflowService_ResetWorkflowExecution_Helper_IsException
        (ResetWorkflowExecution backend ctx r) \<Longrightarrow>
      \<exists>e. ResetWorkflowExecution (workflowserviceclient_New W call') ctx r = (None, Some e)"
  using ResetWorkflowExecution.through_proxy [OF assms(1,2) ResetWorkflowExecution_procedure
      assms(3) ResetWorkflowExecution_proxied, where r = r and ctx = ctx]
  by (simp_all add: workflowserviceclient_New_def
      WorkflowService_ResetWorkflowExecution_Helper_Args_def)

lemma RespondActivityTaskCanceled_procedure:
  "workflowserviceserver_New W impl ''RespondActivityTaskCanceled'' = Some
      (handler_RespondActivityTaskCanceled W (RespondActivityTaskCanceled impl))"
  using registered [of "procedure_RespondActivityTaskCanceled W impl" W impl]
  by (simp add: workflowserviceserver_methods_def procedure_RespondActivityTaskCanceled_def)

lemma RespondActivityTaskCanceled_proxied:
  "proxy_procedures W call ''RespondActivityTaskCanceled'' = Some
      (handler_RespondActivityTaskCanceled W (client_RespondActivityTaskCanceled W call))"
  by (simp add: proxy_procedures_def RespondActivityTaskCanceled_procedure proxyHandler_impl_def
      proxyHandler_RespondActivityTaskCanceled_def [abs_def] NewProxyHandler_def
          workflowserviceclient_New_def)

lemma RespondActivityTaskCanceled_through_proxy:
  assumes "wire_laws W"
    and "thrift_delivers W call (workflowserviceserver_New W backend)"
    and "thrift_delivers W call' (proxy_procedures W call)"
  shows "carried_void WorkflowService_RespondActivityTaskCanceled_Helper_IsException
      (RespondActivityTaskCanceled backend ctx r) \<Longrightarrow>
      RespondActivityTaskCanceled (workflowserviceclient_New W call') ctx r =
          (RespondActivityTaskCanceled backend ctx r)"
    and "\<not> carried_void WorkflowService_RespondActivityTaskCanceled_Helper_IsException
        (RespondActivityTaskCanceled backend ctx r) \<Longrightarrow>
      \<exists>e. RespondActivityTaskCanceled (workflowserviceclient_New W call') ctx r = Some e"
  using RespondActivityTaskCanceled.through_proxy [OF assms(1,2)
      RespondActivityTaskCanceled_procedure assms(3) RespondActivityTaskCanceled_proxied, where r =
      r and ctx = ctx]
  by (simp_all add: workflowserviceclient_New_def
      WorkflowService_RespondActivityTaskCanceled_Helper_Args_def)

lemma RespondActivityTaskCanceledByID_procedure:
  "workflowserviceserver_New W impl ''RespondActivityTaskCanceledByID'' = Some
      (handler_RespondActivityTaskCanceledByID W (RespondActivityTaskCanceledByID impl))"
  using registered [of "procedure_RespondActivityTaskCanceledByID W impl" W impl]
  by (simp add: workflowserviceserver_methods_def procedure_RespondActivityTaskCanceledByID_def)

lemma RespondActivityTaskCanceledByID_proxied:
  "proxy_procedures W call ''RespondActivityTaskCanceledByID'' = Some
      (handler_RespondActivityTaskCanceledByID W (client_RespondActivityTaskCanceledByID W call))"
  by (simp add: proxy_procedures_def RespondActivityTaskCanceledByID_procedure proxyHandler_impl_def
      proxyHandler_RespondActivityTaskCanceledByID_def [abs_def] NewProxyHandler_def
          workflowserviceclient_New_def)

lemma RespondActivityTaskCanceledByID_through_proxy:
  assumes "wire_laws W"
    and "thrift_delivers W call (workflowserviceserver_New W backend)"
    and "thrift_delivers W call' (proxy_procedures W call)"
  shows "carried_void WorkflowService_RespondActivityTaskCanceledByID_Helper_IsException
      (RespondActivityTaskCanceledByID backend ctx r) \<Longrightarrow>
      RespondActivityTaskCanceledByID (workflowserviceclient_New W call') ctx r =
          (RespondActivityTaskCanceledByID backend ctx r)"
    and "\<not> carried_void WorkflowService_RespondActivityTaskCanceledByID_Helper_IsException
        (RespondActivityTaskCanceledByID backend ctx r) \<Longrightarrow>
      \<exists>e. RespondActivityTaskCanceledByID (workflowserviceclient_New W call') ctx r = Some e"
  using RespondActivityTaskCanceledByID.through_proxy [OF assms(1,2)
      RespondActivityTaskCanceledByID_procedure assms(3) RespondActivityTaskCanceledByID_proxied,
      where r = r and ctx = ctx]
  by (simp_all add: workflowserviceclient_New_def
      WorkflowService_RespondActivityTaskCanceledByID_Helper_Args_def)

lemma RespondActivityTaskCompleted_procedure:
  "workflowserviceserver_New W impl ''RespondActivityTaskCompleted'' = Some
      (handler_RespondActivityTaskCompleted W (RespondActivityTaskCompleted impl))"
  using registered [of "procedure_RespondActivityTaskCompleted W impl" W impl]
  by (simp add: workflowserviceserver_methods_def procedure_RespondActivityTaskCompleted_def)

lemma RespondActivityTaskCompleted_proxied:
  "proxy_procedures W call ''RespondActivityTaskCompleted'' = Some
      (handler_RespondActivityTaskCompleted W (client_RespondActivityTaskCompleted W call))"
  by (simp add: proxy_procedures_def RespondActivityTaskCompleted_procedure proxyHandler_impl_def
      proxyHandler_RespondActivityTaskCompleted_def [abs_def] NewProxyHandler_def
          workflowserviceclient_New_def)

lemma RespondActivityTaskCompleted_through_proxy:
  assumes "wire_laws W"
    and "thrift_delivers W call (workflowserviceserver_New W backend)"
    and "thrift_delivers W call' (proxy_procedures W call)"
  shows "carried_void WorkflowService_RespondActivityTaskCompleted_Helper_IsException
      (RespondActivityTaskCompleted backend ctx r) \<Longrightarrow>
      RespondActivityTaskCompleted (workflowserviceclient_New W call') ctx r =
          (RespondActivityTaskCompleted backend ctx r)"
    and "\<not> carried_void WorkflowService_RespondActivityTaskCompleted_Helper_IsException
        (RespondActivityTaskCompleted backend ctx r) \<Longrightarrow>
      \<exists>e. RespondActivityTaskCompleted (workflowserviceclient_New W call') ctx r = Some e"
  using RespondActivityTaskCompleted.through_proxy [OF assms(1,2)
      RespondActivityTaskCompleted_procedure assms(3) RespondActivityTaskCompleted_proxied, where r
      = r and ctx = ctx]
  by (simp_all add: workflowserviceclient_New_def
      WorkflowService_RespondActivityTaskCompleted_Helper_Args_def)

lemma RespondActivityTaskCompletedByID_procedure:
  "workflowserviceserver_New W impl ''RespondActivityTaskCompletedByID'' = Some
      (handler_RespondActivityTaskCompletedByID W (RespondActivityTaskCompletedByID impl))"
  using registered [of "procedure_RespondActivityTaskCompletedByID W impl" W impl]
  by (simp add: workflowserviceserver_methods_def procedure_RespondActivityTaskCompletedByID_def)

lemma RespondActivityTaskCompletedByID_proxied:
  "proxy_procedures W call ''RespondActivityTaskCompletedByID'' = Some
      (handler_RespondActivityTaskCompletedByID W (client_RespondActivityTaskCompletedByID W call))"
  by (simp add: proxy_procedures_def RespondActivityTaskCompletedByID_procedure
      proxyHandler_impl_def
      proxyHandler_RespondActivityTaskCompletedByID_def [abs_def] NewProxyHandler_def
          workflowserviceclient_New_def)

lemma RespondActivityTaskCompletedByID_through_proxy:
  assumes "wire_laws W"
    and "thrift_delivers W call (workflowserviceserver_New W backend)"
    and "thrift_delivers W call' (proxy_procedures W call)"
  shows "carried_void WorkflowService_RespondActivityTaskCompletedByID_Helper_IsException
      (RespondActivityTaskCompletedByID backend ctx r) \<Longrightarrow>
      RespondActivityTaskCompletedByID (workflowserviceclient_New W call') ctx r =
          (RespondActivityTaskCompletedByID backend ctx r)"
    and "\<not> carried_void WorkflowService_RespondActivityTaskCompletedByID_Helper_IsException
        (RespondActivityTaskCompletedByID backend ctx r) \<Longrightarrow>
      \<exists>e. RespondActivityTaskCompletedByID (workflowserviceclient_New W call') ctx r = Some e"
  using RespondActivityTaskCompletedByID.through_proxy [OF assms(1,2)
      RespondActivityTaskCompletedByID_procedure assms(3) RespondActivityTaskCompletedByID_proxied,
      where r = r and ctx = ctx]
  by (simp_all add: workflowserviceclient_New_def
      WorkflowService_RespondActivityTaskCompletedByID_Helper_Args_def)

lemma RespondActivityTaskFailed_procedure:
  "workflowserviceserver_New W impl ''RespondActivityTaskFailed'' = Some
      (handler_RespondActivityTaskFailed W (RespondActivityTaskFailed impl))"
  using registered [of "procedure_RespondActivityTaskFailed W impl" W impl]
  by (simp add: workflowserviceserver_methods_def procedure_RespondActivityTaskFailed_def)

lemma RespondActivityTaskFailed_proxied:
  "proxy_procedures W call ''RespondActivityTaskFailed'' = Some (handler_RespondActivityTaskFailed W
      (client_RespondActivityTaskFailed W call))"
  by (simp add: proxy_procedures_def RespondActivityTaskFailed_procedure proxyHandler_impl_def
      proxyHandler_RespondActivityTaskFailed_def [abs_def] NewProxyHandler_def
          workflowserviceclient_New_def)

lemma RespondActivityTaskFailed_through_proxy:
  assumes "wire_laws W"
    and "thrift_delivers W call (workflowserviceserver_New W backend)"
    and "thrift_delivers W call' (proxy_procedures W call)"
  shows "carried_void WorkflowService_RespondActivityTaskFailed_Helper_IsException
      (RespondActivityTaskFailed backend ctx r) \<Longrightarrow>
      RespondActivityTaskFailed (workflowserviceclient_New W call') ctx r =
          (RespondActivityTaskFailed backend ctx r)"
    and "\<not> carried_void WorkflowService_RespondActivityTaskFailed_Helper_IsException
        (RespondActivityTaskFailed backend ctx r) \<Longrightarrow>
      \<exists>e. RespondActivityTaskFailed (workflowserviceclient_New W call') ctx r = Some e"
  using RespondActivityTaskFailed.through_proxy [OF assms(1,2) RespondActivityTaskFailed_procedure
      assms(3) RespondActivityTaskFailed_proxied, where r = r and ctx = ctx]
  by (simp_all add: workflowserviceclient_New_def
      WorkflowService_RespondActivityTaskFailed_Helper_Args_def)

lemma RespondActivityTaskFailedByID_procedure:
  "workflowserviceserver_New W impl ''RespondActivityTaskFailedByID'' = Some
      (handler_RespondActivityTaskFailedByID W (RespondActivityTaskFailedByID impl))"
  using registered [of "procedure_RespondActivityTaskFailedByID W impl" W impl]
  by (simp add: workflowserviceserver_methods_def procedure_RespondActivityTaskFailedByID_def)

lemma RespondActivityTaskFailedByID_proxied:
  "proxy_procedures W call ''RespondActivityTaskFailedByID'' = Some
      (handler_RespondActivityTaskFailedByID W (client_RespondActivityTaskFailedByID W call))"
  by (simp add: proxy_procedures_def RespondActivityTaskFailedByID_procedure proxyHandler_impl_def
      proxyHandler_RespondActivityTaskFailedByID_def [abs_def] NewProxyHandler_def
          workflowserviceclient_New_def)

lemma RespondActivityTaskFailedByID_through_proxy:
  assumes "wire_laws W"
    and "thrift_delivers W call (workflowserviceserver_New W backend)"
    and "thrift_delivers W call' (proxy_procedures W call)"
  shows "carried_void WorkflowService_RespondActivityTaskFailedByID_Helper_IsException
      (RespondActivityTaskFailedByID backend ctx r) \<Longrightarrow>
      RespondActivityTaskFailedByID (workflowserviceclient_New W call') ctx r =
          (RespondActivityTaskFailedByID backend ctx r)"
    and "\<not> carried_void WorkflowService_RespondActivityTaskFailedByID_Helper_IsException
        (RespondActivityTaskFailedByID backend ctx r) \<Longrightarrow>
      \<exists>e. RespondActivityTaskFailedByID (workflowserviceclient_New W call') ctx r = Some e"
  using RespondActivityTaskFailedByID.through_proxy [OF assms(1,2)
      RespondActivityTaskFailedByID_procedure assms(3) RespondActivityTaskFailedByID_proxied, where
      r = r and ctx = ctx]
  by (simp_all add: workflowserviceclient_New_def
      WorkflowService_RespondActivityTaskFailedByID_Helper_Args_def)

lemma RespondDecisionTaskCompleted_procedure:
  "workflowserviceserver_New W impl ''RespondDecisionTaskCompleted'' = Some
      (handler_RespondDecisionTaskCompleted W (RespondDecisionTaskCompleted impl))"
  using registered [of "procedure_RespondDecisionTaskCompleted W impl" W impl]
  by (simp add: workflowserviceserver_methods_def procedure_RespondDecisionTaskCompleted_def)

lemma RespondDecisionTaskCompleted_proxied:
  "proxy_procedures W call ''RespondDecisionTaskCompleted'' = Some
      (handler_RespondDecisionTaskCompleted W (client_RespondDecisionTaskCompleted W call))"
  by (simp add: proxy_procedures_def RespondDecisionTaskCompleted_procedure proxyHandler_impl_def
      proxyHandler_RespondDecisionTaskCompleted_def [abs_def] NewProxyHandler_def
          workflowserviceclient_New_def)

lemma RespondDecisionTaskCompleted_through_proxy:
  assumes "wire_laws W"
    and "thrift_delivers W call (workflowserviceserver_New W backend)"
    and "thrift_delivers W call' (proxy_procedures W call)"
  shows "if_set RespondDecisionTaskCompletedRequest_complete r \<Longrightarrow> carried
      RespondDecisionTaskCompletedResponse_complete
      WorkflowService_RespondDecisionTaskCompleted_Helper_IsException (RespondDecisionTaskCompleted
      backend ctx r) \<Longrightarrow>
      RespondDecisionTaskCompleted (workflowserviceclient_New W call') ctx r = error_first
          (RespondDecisionTaskCompleted backend ctx r)"
    and "\<not> (if_set RespondDecisionTaskCompletedRequest_complete r \<and> carried
        RespondDecisionTaskCompletedResponse_complete
        WorkflowService_RespondDecisionTaskCompleted_Helper_IsException
        (RespondDecisionTaskCompleted backend ctx r)) \<Longrightarrow>
      \<exists>e. RespondDecisionTaskCompleted (workflowserviceclient_New W call') ctx r = (None, Some e)"
  using RespondDecisionTaskCompleted.through_proxy [OF assms(1,2)
      RespondDecisionTaskCompleted_procedure assms(3) RespondDecisionTaskCompleted_proxied, where r
      = r and ctx = ctx]
  by (simp_all add: workflowserviceclient_New_def
      WorkflowService_RespondDecisionTaskCompleted_Helper_Args_def)

lemma RespondDecisionTaskFailed_procedure:
  "workflowserviceserver_New W impl ''RespondDecisionTaskFailed'' = Some
      (handler_RespondDecisionTaskFailed W (RespondDecisionTaskFailed impl))"
  using registered [of "procedure_RespondDecisionTaskFailed W impl" W impl]
  by (simp add: workflowserviceserver_methods_def procedure_RespondDecisionTaskFailed_def)

lemma RespondDecisionTaskFailed_proxied:
  "proxy_procedures W call ''RespondDecisionTaskFailed'' = Some (handler_RespondDecisionTaskFailed W
      (client_RespondDecisionTaskFailed W call))"
  by (simp add: proxy_procedures_def RespondDecisionTaskFailed_procedure proxyHandler_impl_def
      proxyHandler_RespondDecisionTaskFailed_def [abs_def] NewProxyHandler_def
          workflowserviceclient_New_def)

lemma RespondDecisionTaskFailed_through_proxy:
  assumes "wire_laws W"
    and "thrift_delivers W call (workflowserviceserver_New W backend)"
    and "thrift_delivers W call' (proxy_procedures W call)"
  shows "carried_void WorkflowService_RespondDecisionTaskFailed_Helper_IsException
      (RespondDecisionTaskFailed backend ctx r) \<Longrightarrow>
      RespondDecisionTaskFailed (workflowserviceclient_New W call') ctx r =
          (RespondDecisionTaskFailed backend ctx r)"
    and "\<not> carried_void WorkflowService_RespondDecisionTaskFailed_Helper_IsException
        (RespondDecisionTaskFailed backend ctx r) \<Longrightarrow>
      \<exists>e. RespondDecisionTaskFailed (workflowserviceclient_New W call') ctx r = Some e"
  using RespondDecisionTaskFailed.through_proxy [OF assms(1,2) RespondDecisionTaskFailed_procedure
      assms(3) RespondDecisionTaskFailed_proxied, where r = r and ctx = ctx]
  by (simp_all add: workflowserviceclient_New_def
      WorkflowService_RespondDecisionTaskFailed_Helper_Args_def)

lemma RespondQueryTaskCompleted_procedure:
  "workflowserviceserver_New W impl ''RespondQueryTaskCompleted'' = Some
      (handler_RespondQueryTaskCompleted W (RespondQueryTaskCompleted impl))"
  using registered [of "procedure_RespondQueryTaskCompleted W impl" W impl]
  by (simp add: workflowserviceserver_methods_def procedure_RespondQueryTaskCompleted_def)

lemma RespondQueryTaskCompleted_proxied:
  "proxy_procedures W call ''RespondQueryTaskCompleted'' = Some (handler_RespondQueryTaskCompleted W
      (client_RespondQueryTaskCompleted W call))"
  by (simp add: proxy_procedures_def RespondQueryTaskCompleted_procedure proxyHandler_impl_def
      proxyHandler_RespondQueryTaskCompleted_def [abs_def] NewProxyHandler_def
          workflowserviceclient_New_def)

lemma RespondQueryTaskCompleted_through_proxy:
  assumes "wire_laws W"
    and "thrift_delivers W call (workflowserviceserver_New W backend)"
    and "thrift_delivers W call' (proxy_procedures W call)"
  shows "carried_void WorkflowService_RespondQueryTaskCompleted_Helper_IsException
      (RespondQueryTaskCompleted backend ctx r) \<Longrightarrow>
      RespondQueryTaskCompleted (workflowserviceclient_New W call') ctx r =
          (RespondQueryTaskCompleted backend ctx r)"
    and "\<not> carried_void WorkflowService_RespondQueryTaskCompleted_Helper_IsException
        (RespondQueryTaskCompleted backend ctx r) \<Longrightarrow>
      \<exists>e. RespondQueryTaskCompleted (workflowserviceclient_New W call') ctx r = Some e"
  using RespondQueryTaskCompleted.through_proxy [OF assms(1,2) RespondQueryTaskCompleted_procedure
      assms(3) RespondQueryTaskCompleted_proxied, where r = r and ctx = ctx]
  by (simp_all add: workflowserviceclient_New_def
      WorkflowService_RespondQueryTaskCompleted_Helper_Args_def)

lemma ScanWorkflowExecutions_procedure:
  "workflowserviceserver_New W impl ''ScanWorkflowExecutions'' = Some
      (handler_ScanWorkflowExecutions W (ScanWorkflowExecutions impl))"
  using registered [of "procedure_ScanWorkflowExecutions W impl" W impl]
  by (simp add: workflowserviceserver_methods_def procedure_ScanWorkflowExecutions_def)

lemma ScanWorkflowExecutions_proxied:
  "proxy_procedures W call ''ScanWorkflowExecutions'' = Some (handler_ScanWorkflowExecutions W
      (client_ScanWorkflowExecutions W call))"
  by (simp add: proxy_procedures_def ScanWorkflowExecutions_procedure proxyHandler_impl_def
      proxyHandler_ScanWorkflowExecutions_def [abs_def] NewProxyHandler_def
          workflowserviceclient_New_def)

lemma ScanWorkflowExecutions_through_proxy:
  assumes "wire_laws W"
    and "thrift_delivers W call (workflowserviceserver_New W backend)"
    and "thrift_delivers W call' (proxy_procedures W call)"
  shows "carried ListWorkflowExecutionsResponse_complete
      WorkflowService_ScanWorkflowExecutions_Helper_IsException (ScanWorkflowExecutions backend ctx
      r) \<Longrightarrow>
      ScanWorkflowExecutions (workflowserviceclient_New W call') ctx r = error_first
          (ScanWorkflowExecutions backend ctx r)"
    and "\<not> carried ListWorkflowExecutionsResponse_complete
        WorkflowService_ScanWorkflowExecutions_Helper_IsException (ScanWorkflowExecutions backend
        ctx r) \<Longrightarrow>
      \<exists>e. ScanWorkflowExecutions (workflowserviceclient_New W call') ctx r = (None, Some e)"
  using ScanWorkflowExecutions.through_proxy [OF assms(1,2) ScanWorkflowExecutions_procedure
      assms(3) ScanWorkflowExecutions_proxied, where r = r and ctx = ctx]
  by (simp_all add: workflowserviceclient_New_def
      WorkflowService_ScanWorkflowExecutions_Helper_Args_def)

lemma SignalWithStartWorkflowExecution_procedure:
  "workflowserviceserver_New W impl ''SignalWithStartWorkflowExecution'' = Some
      (handler_SignalWithStartWorkflowExecution W (SignalWithStartWorkflowExecution impl))"
  using registered [of "procedure_SignalWithStartWorkflowExecution W impl" W impl]
  by (simp add: workflowserviceserver_methods_def procedure_SignalWithStartWorkflowExecution_def)

lemma SignalWithStartWorkflowExecution_proxied:
  "proxy_procedures W call ''SignalWithStartWorkflowExecution'' = Some
      (handler_SignalWithStartWorkflowExecution W (client_SignalWithStartWorkflowExecution W call))"
  by (simp add: proxy_procedures_def SignalWithStartWorkflowExecution_procedure
      proxyHandler_impl_def
      proxyHandler_SignalWithStartWorkflowExecution_def [abs_def] NewProxyHandler_def
          workflowserviceclient_New_def)

lemma SignalWithStartWorkflowExecution_through_proxy:
  assumes "wire_laws W"
    and "thrift_delivers W call (workflowserviceserver_New W backend)"
    and "thrift_delivers W call' (proxy_procedures W call)"
  shows "if_set SignalWithStartWorkflowExecutionRequest_complete r \<Longrightarrow> carried (\<lambda>_. True)
      WorkflowService_SignalWithStartWorkflowExecution_Helper_IsException
      (SignalWithStartWorkflowExecution backend ctx r) \<Longrightarrow>
      SignalWithStartWorkflowExecution (workflowserviceclient_New W call') ctx r = error_first
          (SignalWithStartWorkflowExecution backend ctx r)"
    and "\<not> (if_set SignalWithStartWorkflowExecutionRequest_complete r \<and> carried (\<lambda>_. True)
        WorkflowService_SignalWithStartWorkflowExecution_Helper_IsException
        (SignalWithStartWorkflowExecution backend ctx r)) \<Longrightarrow>
      \<exists>e. SignalWithStartWorkflowExecution (workflowserviceclient_New W call') ctx r = (None, Some
          e)"
  using SignalWithStartWorkflowExecution.through_proxy [OF assms(1,2)
      SignalWithStartWorkflowExecution_procedure assms(3) SignalWithStartWorkflowExecution_proxied,
      where r = r and ctx = ctx]
  by (simp_all add: workflowserviceclient_New_def
      WorkflowService_SignalWithStartWorkflowExecution_Helper_Args_def)

lemma SignalWorkflowExecution_procedure:
  "workflowserviceserver_New W impl ''SignalWorkflowExecution'' = Some
      (handler_SignalWorkflowExecution W (SignalWorkflowExecution impl))"
  using registered [of "procedure_SignalWorkflowExecution W impl" W impl]
  by (simp add: workflowserviceserver_methods_def procedure_SignalWorkflowExecution_def)

lemma SignalWorkflowExecution_proxied:
  "proxy_procedures W call ''SignalWorkflowExecution'' = Some (handler_SignalWorkflowExecution W
      (client_SignalWorkflowExecution W call))"
  by (simp add: proxy_procedures_def SignalWorkflowExecution_procedure proxyHandler_impl_def
      proxyHandler_SignalWorkflowExecution_def [abs_def] NewProxyHandler_def
          workflowserviceclient_New_def)

lemma SignalWorkflowExecution_through_proxy:
  assumes "wire_laws W"
    and "thrift_delivers W call (workflowserviceserver_New W backend)"
    and "thrift_delivers W call' (proxy_procedures W call)"
  shows "carried_void WorkflowService_SignalWorkflowExecution_Helper_IsException
      (SignalWorkflowExecution backend ctx r) \<Longrightarrow>
      SignalWorkflowExecution (workflowserviceclient_New W call') ctx r = (SignalWorkflowExecution
          backend ctx r)"
    and "\<not> carried_void WorkflowService_SignalWorkflowExecution_Helper_IsException
        (SignalWorkflowExecution backend ctx r) \<Longrightarrow>
      \<exists>e. SignalWorkflowExecution (workflowserviceclient_New W call') ctx r = Some e"
  using SignalWorkflowExecution.through_proxy [OF assms(1,2) SignalWorkflowExecution_procedure
      assms(3) SignalWorkflowExecution_proxied, where r = r and ctx = ctx]
  by (simp_all add: workflowserviceclient_New_def
      WorkflowService_SignalWorkflowExecution_Helper_Args_def)

lemma StartWorkflowExecution_procedure:
  "workflowserviceserver_New W impl ''StartWorkflowExecution'' = Some
      (handler_StartWorkflowExecution W (StartWorkflowExecution impl))"
  using registered [of "procedure_StartWorkflowExecution W impl" W impl]
  by (simp add: workflowserviceserver_methods_def procedure_StartWorkflowExecution_def)

lemma StartWorkflowExecution_proxied:
  "proxy_procedures W call ''StartWorkflowExecution'' = Some (handler_StartWorkflowExecution W
      (client_StartWorkflowExecution W call))"
  by (simp add: proxy_procedures_def StartWorkflowExecution_procedure proxyHandler_impl_def
      proxyHandler_StartWorkflowExecution_def [abs_def] NewProxyHandler_def
          workflowserviceclient_New_def)

lemma StartWorkflowExecution_through_proxy:
  assumes "wire_laws W"
    and "thrift_delivers W call (workflowserviceserver_New W backend)"
    and "thrift_delivers W call' (proxy_procedures W call)"
  shows "if_set StartWorkflowExecutionRequest_complete r \<Longrightarrow> carried (\<lambda>_. True)
      WorkflowService_StartWorkflowExecution_Helper_IsException (StartWorkflowExecution backend ctx
      r) \<Longrightarrow>
      StartWorkflowExecution (workflowserviceclient_New W call') ctx r = error_first
          (StartWorkflowExecution backend ctx r)"
    and "\<not> (if_set StartWorkflowExecutionRequest_complete r \<and> carried (\<lambda>_. True)
        WorkflowService_StartWorkflowExecution_Helper_IsException (StartWorkflowExecution backend
        ctx r)) \<Longrightarrow>
      \<exists>e. StartWorkflowExecution (workflowserviceclient_New W call') ctx r = (None, Some e)"
  using StartWorkflowExecution.through_proxy [OF assms(1,2) StartWorkflowExecution_procedure
      assms(3) StartWorkflowExecution_proxied, where r = r and ctx = ctx]
  by (simp_all add: workflowserviceclient_New_def
      WorkflowService_StartWorkflowExecution_Helper_Args_def)

lemma TerminateWorkflowExecution_procedure:
  "workflowserviceserver_New W impl ''TerminateWorkflowExecution'' = Some
      (handler_TerminateWorkflowExecution W (TerminateWorkflowExecution impl))"
  using registered [of "procedure_TerminateWorkflowExecution W impl" W impl]
  by (simp add: workflowserviceserver_methods_def procedure_TerminateWorkflowExecution_def)

lemma TerminateWorkflowExecution_proxied:
  "proxy_procedures W call ''TerminateWorkflowExecution'' = Some (handler_TerminateWorkflowExecution
      W (client_TerminateWorkflowExecution W call))"
  by (simp add: proxy_procedures_def TerminateWorkflowExecution_procedure proxyHandler_impl_def
      proxyHandler_TerminateWorkflowExecution_def [abs_def] NewProxyHandler_def
          workflowserviceclient_New_def)

lemma TerminateWorkflowExecution_through_proxy:
  assumes "wire_laws W"
    and "thrift_delivers W call (workflowserviceserver_New W backend)"
    and "thrift_delivers W call' (proxy_procedures W call)"
  shows "carried_void WorkflowService_TerminateWorkflowExecution_Helper_IsException
      (TerminateWorkflowExecution backend ctx r) \<Longrightarrow>
      TerminateWorkflowExecution (workflowserviceclient_New W call') ctx r =
          (TerminateWorkflowExecution backend ctx r)"
    and "\<not> carried_void WorkflowService_TerminateWorkflowExecution_Helper_IsException
        (TerminateWorkflowExecution backend ctx r) \<Longrightarrow>
      \<exists>e. TerminateWorkflowExecution (workflowserviceclient_New W call') ctx r = Some e"
  using TerminateWorkflowExecution.through_proxy [OF assms(1,2) TerminateWorkflowExecution_procedure
      assms(3) TerminateWorkflowExecution_proxied, where r = r and ctx = ctx]
  by (simp_all add: workflowserviceclient_New_def
      WorkflowService_TerminateWorkflowExecution_Helper_Args_def)

lemma UpdateDomain_procedure:
  "workflowserviceserver_New W impl ''UpdateDomain'' = Some (handler_UpdateDomain W (UpdateDomain
      impl))"
  using registered [of "procedure_UpdateDomain W impl" W impl]
  by (simp add: workflowserviceserver_methods_def procedure_UpdateDomain_def)

lemma UpdateDomain_proxied:
  "proxy_procedures W call ''UpdateDomain'' = Some (handler_UpdateDomain W (client_UpdateDomain W
      call))"
  by (simp add: proxy_procedures_def UpdateDomain_procedure proxyHandler_impl_def
      proxyHandler_UpdateDomain_def [abs_def] NewProxyHandler_def workflowserviceclient_New_def)

lemma UpdateDomain_through_proxy:
  assumes "wire_laws W"
    and "thrift_delivers W call (workflowserviceserver_New W backend)"
    and "thrift_delivers W call' (proxy_procedures W call)"
  shows "if_set UpdateDomainRequest_complete r \<Longrightarrow> carried UpdateDomainResponse_complete
      WorkflowService_UpdateDomain_Helper_IsException (UpdateDomain backend ctx r) \<Longrightarrow>
      UpdateDomain (workflowserviceclient_New W call') ctx r = error_first (UpdateDomain backend ctx
          r)"
    and "\<not> (if_set UpdateDomainRequest_complete r \<and> carried UpdateDomainResponse_complete
        WorkflowService_UpdateDomain_Helper_IsException (UpdateDomain backend ctx r)) \<Longrightarrow>
      \<exists>e. UpdateDomain (workflowserviceclient_New W call') ctx r = (None, Some e)"
  using UpdateDomain.through_proxy [OF assms(1,2) UpdateDomain_procedure assms(3)
      UpdateDomain_proxied, where r = r and ctx = ctx]
  by (simp_all add: workflowserviceclient_New_def WorkflowService_UpdateDomain_Helper_Args_def)

lemmas proxied_methods =
  CountWorkflowExecutions_proxied
  DeprecateDomain_proxied
  DescribeDomain_proxied
  DescribeTaskList_proxied
  DescribeWorkflowExecution_proxied
  GetSearchAttributes_proxied
  GetWorkflowExecutionHistory_proxied
  ListArchivedWorkflowExecutions_proxied
  ListClosedWorkflowExecutions_proxied
  ListDomains_proxied
  ListOpenWorkflowExecutions_proxied
  ListWorkflowExecutions_proxied
  PollForActivityTask_proxied
  PollForDecisionTask_proxied
  QueryWorkflow_proxied
  RecordActivityTaskHeartbeat_proxied
  RecordActivityTaskHeartbeatByID_proxied
  RegisterDomain_proxied
  RequestCancelWorkflowExecution_proxied
  ResetStickyTaskList_proxied
  ResetWorkflowExecution_proxied
  RespondActivityTaskCanceled_proxied
  RespondActivityTaskCanceledByID_proxied
  RespondActivityTaskCompleted_proxied
  RespondActivityTaskCompletedByID_proxied
  RespondActivityTaskFailed_proxied
  RespondActivityTaskFailedByID_proxied
  RespondDecisionTaskCompleted_proxied
  RespondDecisionTaskFailed_proxied
  RespondQueryTaskCompleted_proxied
  ScanWorkflowExecutions_proxied
  SignalWithStartWorkflowExecution_proxied
  SignalWorkflowExecution_proxied
  StartWorkflowExecution_proxied
  TerminateWorkflowExecution_proxied
  UpdateDomain_proxied

lemma envelope_names:
  "MethodName (WorkflowService_CountWorkflowExecutions_Args_enveloper W a0) =
      ''CountWorkflowExecutions''"
  "MethodName (WorkflowService_DeprecateDomain_Args_enveloper W a1) = ''DeprecateDomain''"
  "MethodName (WorkflowService_DescribeDomain_Args_enveloper W a2) = ''DescribeDomain''"
  "MethodName (WorkflowService_DescribeTaskList_Args_enveloper W a3) = ''DescribeTaskList''"
  "MethodName (WorkflowService_DescribeWorkflowExecution_Args_enveloper W a4) =
      ''DescribeWorkflowExecution''"
  "MethodName (WorkflowService_GetSearchAttributes_Args_enveloper W a5) = ''GetSearchAttributes''"
  "MethodName (WorkflowService_GetWorkflowExecutionHistory_Args_enveloper W a6) =
      ''GetWorkflowExecutionHistory''"
  "MethodName (WorkflowService_ListArchivedWorkflowExecutions_Args_enveloper W a7) =
      ''ListArchivedWorkflowExecutions''"
  "MethodName (WorkflowService_ListClosedWorkflowExecutions_Args_enveloper W a8) =
      ''ListClosedWorkflowExecutions''"
  "MethodName (WorkflowService_ListDomains_Args_enveloper W a9) = ''ListDomains''"
  "MethodName (WorkflowService_ListOpenWorkflowExecutions_Args_enveloper W a10) =
      ''ListOpenWorkflowExecutions''"
  "MethodName (WorkflowService_ListWorkflowExecutions_Args_enveloper W a11) =
      ''ListWorkflowExecutions''"
  "MethodName (WorkflowService_PollForActivityTask_Args_enveloper W a12) = ''PollForActivityTask''"
  "MethodName (WorkflowService_PollForDecisionTask_Args_enveloper W a13) = ''PollForDecisionTask''"
  "MethodName (WorkflowService_QueryWorkflow_Args_enveloper W a14) = ''QueryWorkflow''"
  "MethodName (WorkflowService_RecordActivityTaskHeartbeat_Args_enveloper W a15) =
      ''RecordActivityTaskHeartbeat''"
  "MethodName (WorkflowService_RecordActivityTaskHeartbeatByID_Args_enveloper W a16) =
      ''RecordActivityTaskHeartbeatByID''"
  "MethodName (WorkflowService_RegisterDomain_Args_enveloper W a17) = ''RegisterDomain''"
  "MethodName (WorkflowService_RequestCancelWorkflowExecution_Args_enveloper W a18) =
      ''RequestCancelWorkflowExecution''"
  "MethodName (WorkflowService_ResetStickyTaskList_Args_enveloper W a19) = ''ResetStickyTaskList''"
  "MethodName (WorkflowService_ResetWorkflowExecution_Args_enveloper W a20) =
      ''ResetWorkflowExecution''"
  "MethodName (WorkflowService_RespondActivityTaskCanceled_Args_enveloper W a21) =
      ''RespondActivityTaskCanceled''"
  "MethodName (WorkflowService_RespondActivityTaskCanceledByID_Args_enveloper W a22) =
      ''RespondActivityTaskCanceledByID''"
  "MethodName (WorkflowService_RespondActivityTaskCompleted_Args_enveloper W a23) =
      ''RespondActivityTaskCompleted''"
  "MethodName (WorkflowService_RespondActivityTaskCompletedByID_Args_enveloper W a24) =
      ''RespondActivityTaskCompletedByID''"
  "MethodName (WorkflowService_RespondActivityTaskFailed_Args_enveloper W a25) =
      ''RespondActivityTaskFailed''"
  "MethodName (WorkflowService_RespondActivityTaskFailedByID_Args_enveloper W a26) =
      ''RespondActivityTaskFailedByID''"
  "MethodName (WorkflowService_RespondDecisionTaskCompleted_Args_enveloper W a27) =
      ''RespondDecisionTaskCompleted''"
  "MethodName (WorkflowService_RespondDecisionTaskFailed_Args_enveloper W a28) =
      ''RespondDecisionTaskFailed''"
  "MethodName (WorkflowService_RespondQueryTaskCompleted_Args_enveloper W a29) =
      ''RespondQueryTaskCompleted''"
  "MethodName (WorkflowService_ScanWorkflowExecutions_Args_enveloper W a30) =
      ''ScanWorkflowExecutions''"
  "MethodName (WorkflowService_SignalWithStartWorkflowExecution_Args_enveloper W a31) =
      ''SignalWithStartWorkflowExecution''"
  "MethodName (WorkflowService_SignalWorkflowExecution_Args_enveloper W a32) =
      ''SignalWorkflowExecution''"
  "MethodName (WorkflowService_StartWorkflowExecution_Args_enveloper W a33) =
      ''StartWorkflowExecution''"
  "MethodName (WorkflowService_TerminateWorkflowExecution_Args_enveloper W a34) =
      ''TerminateWorkflowExecution''"
  "MethodName (WorkflowService_UpdateDomain_Args_enveloper W a35) = ''UpdateDomain''"
  by (simp_all add: WorkflowService_CountWorkflowExecutions_Args_enveloper_def
     WorkflowService_DeprecateDomain_Args_enveloper_def
     WorkflowService_DescribeDomain_Args_enveloper_def
     WorkflowService_DescribeTaskList_Args_enveloper_def
     WorkflowService_DescribeWorkflowExecution_Args_enveloper_def
     WorkflowService_GetSearchAttributes_Args_enveloper_def
     WorkflowService_GetWorkflowExecutionHistory_Args_enveloper_def
     WorkflowService_ListArchivedWorkflowExecutions_Args_enveloper_def
     WorkflowService_ListClosedWorkflowExecutions_Args_enveloper_def
     WorkflowService_ListDomains_Args_enveloper_def
     WorkflowService_ListOpenWorkflowExecutions_Args_enveloper_def
     WorkflowService_ListWorkflowExecutions_Args_enveloper_def
     WorkflowService_PollForActivityTask_Args_enveloper_def
     WorkflowService_PollForDecisionTask_Args_enveloper_def
     WorkflowService_QueryWorkflow_Args_enveloper_def
     WorkflowService_RecordActivityTaskHeartbeat_Args_enveloper_def
     WorkflowService_RecordActivityTaskHeartbeatByID_Args_enveloper_def
     WorkflowService_RegisterDomain_Args_enveloper_def
     WorkflowService_RequestCancelWorkflowExecution_Args_enveloper_def
     WorkflowService_ResetStickyTaskList_Args_enveloper_def
     WorkflowService_ResetWorkflowExecution_Args_enveloper_def
     WorkflowService_RespondActivityTaskCanceled_Args_enveloper_def
     WorkflowService_RespondActivityTaskCanceledByID_Args_enveloper_def
     WorkflowService_RespondActivityTaskCompleted_Args_enveloper_def
     WorkflowService_RespondActivityTaskCompletedByID_Args_enveloper_def
     WorkflowService_RespondActivityTaskFailed_Args_enveloper_def
     WorkflowService_RespondActivityTaskFailedByID_Args_enveloper_def
     WorkflowService_RespondDecisionTaskCompleted_Args_enveloper_def
     WorkflowService_RespondDecisionTaskFailed_Args_enveloper_def
     WorkflowService_RespondQueryTaskCompleted_Args_enveloper_def
     WorkflowService_ScanWorkflowExecutions_Args_enveloper_def
     WorkflowService_SignalWithStartWorkflowExecution_Args_enveloper_def
     WorkflowService_SignalWorkflowExecution_Args_enveloper_def
     WorkflowService_StartWorkflowExecution_Args_enveloper_def
     WorkflowService_TerminateWorkflowExecution_Args_enveloper_def
     WorkflowService_UpdateDomain_Args_enveloper_def)

lemma proxy_names: "dom (proxy_procedures W call) = set service_names"
  by (simp add: proxy_procedures_def registered_names)

lemma length_service_names: "length service_names = 36"
  by (simp add: service_names_def)

end
