(* ===== verification/GoMisc.thy ===== *)
theory GoMisc
  imports GoInfos
begin

text \<open>
  The remaining structs of proxy/gen/shared/shared.go, with their codecs and comparisons.
\<close>

record AccessDeniedError =
  Message :: "string"

definition AccessDeniedError_zero :: AccessDeniedError where
  "AccessDeniedError_zero = \<lparr>AccessDeniedError.Message = []\<rparr>"

definition AccessDeniedError_ToWire ::
  "'v wire_api \<Rightarrow> AccessDeniedError \<Rightarrow> go_error + 'v" where
  "AccessDeniedError_ToWire W v =
     and_then (put_req 1 (\<lambda>x. Inr (NewValueString W x)) (AccessDeniedError.Message v) [])
       (\<lambda>fields.
     Inr (NewValueStruct W fields))"

definition AccessDeniedError_FromWire ::
  "'v wire_api \<Rightarrow> 'v \<Rightarrow> AccessDeniedError \<Rightarrow> go_error + AccessDeniedError" where
  "AccessDeniedError_FromWire W w v =
     and_then (foldM (\<lambda>(v, message_isSet) (fid, fval).
       if fid = 1 then
         if wire_api.Type W fval = TBinary
         then Inr (v\<lparr>AccessDeniedError.Message := GetString W fval\<rparr>, True)
         else Inr (v, message_isSet)
       else Inr (v, message_isSet)) (GetStruct W w) (v, False)) (\<lambda>(v, message_isSet).
     if \<not> message_isSet then Inl (E_New ''field Message of AccessDeniedError is required'')
     else Inr v)"

interpretation AccessDeniedError: thrift_message W
  "AccessDeniedError_ToWire W" "AccessDeniedError_FromWire W" AccessDeniedError_zero "\<lambda>_. True" for
      W
proof (rule thrift_messageI)
  fix x :: AccessDeniedError
  assume laws: "wire_laws W"
  show "\<exists>w. AccessDeniedError_ToWire W x = Inr w \<and> wire_api.Type W w = TStruct \<and>
      (Writable W w \<longleftrightarrow> (\<lambda>_. True) x) \<and> ((\<lambda>_. True) x \<longrightarrow> AccessDeniedError_FromWire W w
          AccessDeniedError_zero = Inr x)"
    by (cases x) (auto simp: codec_rules AccessDeniedError_ToWire_def AccessDeniedError_FromWire_def
        AccessDeniedError_zero_def laws split: option.splits)
qed

definition AccessDeniedError_Equals ::
  "AccessDeniedError option \<Rightarrow> AccessDeniedError option \<Rightarrow> bool" where
  "AccessDeniedError_Equals v rhs =
     (case v of None \<Rightarrow> rhs = None
      | Some v \<Rightarrow> (case rhs of None \<Rightarrow> False
        | Some rhs \<Rightarrow>
          if \<not> (AccessDeniedError.Message v = AccessDeniedError.Message rhs) then False else
          True))"

lemma AccessDeniedError_Equals_iff [simp]: "AccessDeniedError_Equals x y \<longleftrightarrow> x = y"
  by (cases x; cases y) (auto simp: AccessDeniedError_Equals_def)

record DataBlob =
  EncodingType :: "EncodingType option"
  Data :: "bytes option"

definition DataBlob_zero :: DataBlob where
  "DataBlob_zero = \<lparr>DataBlob.EncodingType = None, DataBlob.Data = None\<rparr>"

definition DataBlob_ToWire ::
  "'v wire_api \<Rightarrow> DataBlob \<Rightarrow> go_error + 'v" where
  "DataBlob_ToWire W v =
     and_then (put_opt 10 (EncodingType_ToWire W) (DataBlob.EncodingType v) [])
       (\<lambda>fields.
     and_then (put_opt 20 (\<lambda>x. Inr (NewValueBinary W x)) (DataBlob.Data v) fields)
       (\<lambda>fields.
     Inr (NewValueStruct W fields)))"

definition DataBlob_FromWire ::
  "'v wire_api \<Rightarrow> 'v \<Rightarrow> DataBlob \<Rightarrow> go_error + DataBlob" where
  "DataBlob_FromWire W w v =
     foldM (\<lambda>v (fid, fval).
       if fid = 10 then
         if wire_api.Type W fval = TI32
         then and_then (EncodingType_Read W fval) (\<lambda>x. Inr (v\<lparr>DataBlob.EncodingType := Some x\<rparr>))
         else Inr v
       else if fid = 20 then
         if wire_api.Type W fval = TBinary
         then Inr (v\<lparr>DataBlob.Data := Some (GetBinary W fval)\<rparr>)
         else Inr v
       else Inr v) (GetStruct W w) v"

lemma DataBlob_merge:
  "(case x of None \<Rightarrow> Inr \<lparr>DataBlob.EncodingType = a0, DataBlob.Data = a1\<rparr> | Some y \<Rightarrow> Inr
      \<lparr>DataBlob.EncodingType = b0 y, DataBlob.Data = b1 y\<rparr>) =
   Inr \<lparr>DataBlob.EncodingType = (case x of None \<Rightarrow> a0 | Some y \<Rightarrow> b0 y), DataBlob.Data = (case x of
       None \<Rightarrow> a1 | Some y \<Rightarrow> b1 y)\<rparr>"
  by (cases x) simp_all

interpretation DataBlob: thrift_message W
  "DataBlob_ToWire W" "DataBlob_FromWire W" DataBlob_zero "\<lambda>_. True" for W
proof (rule thrift_messageI)
  fix x :: DataBlob
  assume laws: "wire_laws W"
  show "\<exists>w. DataBlob_ToWire W x = Inr w \<and> wire_api.Type W w = TStruct \<and>
      (Writable W w \<longleftrightarrow> (\<lambda>_. True) x) \<and> ((\<lambda>_. True) x \<longrightarrow> DataBlob_FromWire W w DataBlob_zero = Inr x)"
    by (cases x) (simp cong: option.case_cong add: codec_rules DataBlob_merge DataBlob_ToWire_def
        DataBlob_FromWire_def DataBlob_zero_def EncodingType_enc EncodingType_Read_def
        EncodingType_FromWire_def laws)
qed

definition DataBlob_Equals ::
  "DataBlob option \<Rightarrow> DataBlob option \<Rightarrow> bool" where
  "DataBlob_Equals v rhs =
     (case v of None \<Rightarrow> rhs = None
      | Some v \<Rightarrow> (case rhs of None \<Rightarrow> False
        | Some rhs \<Rightarrow>
          if \<not> EncodingType_EqualsPtr (DataBlob.EncodingType v) (DataBlob.EncodingType rhs) then
              False else
          if \<not> both_set_and (=) (DataBlob.Data v) (DataBlob.Data rhs) then False else
          True))"

lemma DataBlob_Equals_iff [simp]: "DataBlob_Equals x y \<longleftrightarrow> x = y"
  by (cases x; cases y) (auto simp: DataBlob_Equals_def)

record HistoryBranch =
  TreeID :: "string option"
  BranchID :: "string option"
  Ancestors :: "HistoryBranchRange option list option"

definition HistoryBranch_zero :: HistoryBranch where
  "HistoryBranch_zero = \<lparr>HistoryBranch.TreeID = None, HistoryBranch.BranchID = None,
      HistoryBranch.Ancestors = None\<rparr>"

definition HistoryBranch_ToWire ::
  "'v wire_api \<Rightarrow> HistoryBranch \<Rightarrow> go_error + 'v" where
  "HistoryBranch_ToWire W v =
     and_then (put_opt 10 (\<lambda>x. Inr (NewValueString W x)) (HistoryBranch.TreeID v) [])
       (\<lambda>fields.
     and_then (put_opt 20 (\<lambda>x. Inr (NewValueString W x)) (HistoryBranch.BranchID v) fields)
       (\<lambda>fields.
     and_then (put_opt 30 (\<lambda>x. Inr (NewValueList W (List_HistoryBranchRange_ValueList W x)))
         (HistoryBranch.Ancestors v) fields)
       (\<lambda>fields.
     Inr (NewValueStruct W fields))))"

definition HistoryBranch_FromWire ::
  "'v wire_api \<Rightarrow> 'v \<Rightarrow> HistoryBranch \<Rightarrow> go_error + HistoryBranch" where
  "HistoryBranch_FromWire W w v =
     foldM (\<lambda>v (fid, fval).
       if fid = 10 then
         if wire_api.Type W fval = TBinary
         then Inr (v\<lparr>HistoryBranch.TreeID := Some (GetString W fval)\<rparr>)
         else Inr v
       else if fid = 20 then
         if wire_api.Type W fval = TBinary
         then Inr (v\<lparr>HistoryBranch.BranchID := Some (GetString W fval)\<rparr>)
         else Inr v
       else if fid = 30 then
         if wire_api.Type W fval = TList
         then and_then (List_HistoryBranchRange_Read W (GetList W fval)) (\<lambda>x. Inr
             (v\<lparr>HistoryBranch.Ancestors := x\<rparr>))
         else Inr v
       else Inr v) (GetStruct W w) v"

definition HistoryBranch_complete :: "HistoryBranch \<Rightarrow> bool" where
  "HistoryBranch_complete v \<longleftrightarrow>
     if_set (list_all (present (\<lambda>_. True))) (HistoryBranch.Ancestors v)"

lemma HistoryBranch_merge:
  "(case x of None \<Rightarrow> Inr \<lparr>HistoryBranch.TreeID = a0, HistoryBranch.BranchID = a1,
      HistoryBranch.Ancestors = a2\<rparr> | Some y \<Rightarrow> Inr \<lparr>HistoryBranch.TreeID = b0 y,
      HistoryBranch.BranchID = b1 y, HistoryBranch.Ancestors = b2 y\<rparr>) =
   Inr \<lparr>HistoryBranch.TreeID = (case x of None \<Rightarrow> a0 | Some y \<Rightarrow> b0 y), HistoryBranch.BranchID = (case
       x of None \<Rightarrow> a1 | Some y \<Rightarrow> b1 y), HistoryBranch.Ancestors = (case x of None \<Rightarrow> a2 | Some y \<Rightarrow> b2
       y)\<rparr>"
  by (cases x) simp_all

interpretation HistoryBranch: thrift_message W
  "HistoryBranch_ToWire W" "HistoryBranch_FromWire W" HistoryBranch_zero "HistoryBranch_complete"
      for W
proof (rule thrift_messageI)
  fix x :: HistoryBranch
  assume laws: "wire_laws W"
  show "\<exists>w. HistoryBranch_ToWire W x = Inr w \<and> wire_api.Type W w = TStruct \<and>
      (Writable W w \<longleftrightarrow> HistoryBranch_complete x) \<and> (HistoryBranch_complete x \<longrightarrow> HistoryBranch_FromWire
          W w HistoryBranch_zero = Inr x)"
    by (cases x) (simp cong: option.case_cong add: codec_rules HistoryBranch_merge
        HistoryBranch_ToWire_def HistoryBranch_FromWire_def HistoryBranch_zero_def
        HistoryBranch_complete_def if_set_def List_HistoryBranchRange_codec [OF laws] laws)
qed

definition HistoryBranch_Equals ::
  "HistoryBranch option \<Rightarrow> HistoryBranch option \<Rightarrow> bool" where
  "HistoryBranch_Equals v rhs =
     (case v of None \<Rightarrow> rhs = None
      | Some v \<Rightarrow> (case rhs of None \<Rightarrow> False
        | Some rhs \<Rightarrow>
          if \<not> String_EqualsPtr (HistoryBranch.TreeID v) (HistoryBranch.TreeID rhs) then False else
          if \<not> String_EqualsPtr (HistoryBranch.BranchID v) (HistoryBranch.BranchID rhs) then False
              else
          if \<not> both_set_and List_HistoryBranchRange_Equals (HistoryBranch.Ancestors v)
              (HistoryBranch.Ancestors rhs) then False else
          True))"

lemma HistoryBranch_Equals_iff [simp]: "HistoryBranch_Equals x y \<longleftrightarrow> x = y"
  by (cases x; cases y) (auto simp: HistoryBranch_Equals_def)

record ReplicationInfo =
  Version :: "64 word option"
  LastEventId :: "64 word option"

definition ReplicationInfo_zero :: ReplicationInfo where
  "ReplicationInfo_zero = \<lparr>ReplicationInfo.Version = None, ReplicationInfo.LastEventId = None\<rparr>"

definition ReplicationInfo_ToWire ::
  "'v wire_api \<Rightarrow> ReplicationInfo \<Rightarrow> go_error + 'v" where
  "ReplicationInfo_ToWire W v =
     and_then (put_opt 10 (\<lambda>x. Inr (NewValueI64 W x)) (ReplicationInfo.Version v) [])
       (\<lambda>fields.
     and_then (put_opt 20 (\<lambda>x. Inr (NewValueI64 W x)) (ReplicationInfo.LastEventId v) fields)
       (\<lambda>fields.
     Inr (NewValueStruct W fields)))"

definition ReplicationInfo_FromWire ::
  "'v wire_api \<Rightarrow> 'v \<Rightarrow> ReplicationInfo \<Rightarrow> go_error + ReplicationInfo" where
  "ReplicationInfo_FromWire W w v =
     foldM (\<lambda>v (fid, fval).
       if fid = 10 then
         if wire_api.Type W fval = TI64
         then Inr (v\<lparr>ReplicationInfo.Version := Some (GetI64 W fval)\<rparr>)
         else Inr v
       else if fid = 20 then
         if wire_api.Type W fval = TI64
         then Inr (v\<lparr>ReplicationInfo.LastEventId := Some (GetI64 W fval)\<rparr>)
         else Inr v
       else Inr v) (GetStruct W w) v"

lemma ReplicationInfo_merge:
  "(case x of None \<Rightarrow> Inr \<lparr>ReplicationInfo.Version = a0, ReplicationInfo.LastEventId = a1\<rparr> | Some y \<Rightarrow>
      Inr \<lparr>ReplicationInfo.Version = b0 y, ReplicationInfo.LastEventId = b1 y\<rparr>) =
   Inr \<lparr>ReplicationInfo.Version = (case x of None \<Rightarrow> a0 | Some y \<Rightarrow> b0 y), ReplicationInfo.LastEventId
       = (case x of None \<Rightarrow> a1 | Some y \<Rightarrow> b1 y)\<rparr>"
  by (cases x) simp_all

interpretation ReplicationInfo: thrift_message W
  "ReplicationInfo_ToWire W" "ReplicationInfo_FromWire W" ReplicationInfo_zero "\<lambda>_. True" for W
proof (rule thrift_messageI)
  fix x :: ReplicationInfo
  assume laws: "wire_laws W"
  show "\<exists>w. ReplicationInfo_ToWire W x = Inr w \<and> wire_api.Type W w = TStruct \<and>
      (Writable W w \<longleftrightarrow> (\<lambda>_. True) x) \<and> ((\<lambda>_. True) x \<longrightarrow> ReplicationInfo_FromWire W w
          ReplicationInfo_zero = Inr x)"
    by (cases x) (simp cong: option.case_cong add: codec_rules ReplicationInfo_merge
        ReplicationInfo_ToWire_def ReplicationInfo_FromWire_def ReplicationInfo_zero_def laws)
qed

definition ReplicationInfo_Equals ::
  "ReplicationInfo option \<Rightarrow> ReplicationInfo option \<Rightarrow> bool" where
  "ReplicationInfo_Equals v rhs =
     (case v of None \<Rightarrow> rhs = None
      | Some v \<Rightarrow> (case rhs of None \<Rightarrow> False
        | Some rhs \<Rightarrow>
          if \<not> I64_EqualsPtr (ReplicationInfo.Version v) (ReplicationInfo.Version rhs) then False
              else
          if \<not> I64_EqualsPtr (ReplicationInfo.LastEventId v) (ReplicationInfo.LastEventId rhs) then
              False else
          True))"

lemma ReplicationInfo_Equals_iff [simp]: "ReplicationInfo_Equals x y \<longleftrightarrow> x = y"
  by (cases x; cases y) (auto simp: ReplicationInfo_Equals_def)

record RetryTaskError =
  Message :: "string"
  DomainId :: "string option"
  WorkflowId :: "string option"
  RunId :: "string option"
  NextEventId :: "64 word option"

definition RetryTaskError_zero :: RetryTaskError where
  "RetryTaskError_zero = \<lparr>RetryTaskError.Message = [], RetryTaskError.DomainId = None,
      RetryTaskError.WorkflowId = None, RetryTaskError.RunId = None, RetryTaskError.NextEventId =
      None\<rparr>"

definition RetryTaskError_ToWire ::
  "'v wire_api \<Rightarrow> RetryTaskError \<Rightarrow> go_error + 'v" where
  "RetryTaskError_ToWire W v =
     and_then (put_req 1 (\<lambda>x. Inr (NewValueString W x)) (RetryTaskError.Message v) [])
       (\<lambda>fields.
     and_then (put_opt 2 (\<lambda>x. Inr (NewValueString W x)) (RetryTaskError.DomainId v) fields)
       (\<lambda>fields.
     and_then (put_opt 3 (\<lambda>x. Inr (NewValueString W x)) (RetryTaskError.WorkflowId v) fields)
       (\<lambda>fields.
     and_then (put_opt 4 (\<lambda>x. Inr (NewValueString W x)) (RetryTaskError.RunId v) fields)
       (\<lambda>fields.
     and_then (put_opt 5 (\<lambda>x. Inr (NewValueI64 W x)) (RetryTaskError.NextEventId v) fields)
       (\<lambda>fields.
     Inr (NewValueStruct W fields))))))"

definition RetryTaskError_FromWire ::
  "'v wire_api \<Rightarrow> 'v \<Rightarrow> RetryTaskError \<Rightarrow> go_error + RetryTaskError" where
  "RetryTaskError_FromWire W w v =
     and_then (foldM (\<lambda>(v, message_isSet) (fid, fval).
       if fid = 1 then
         if wire_api.Type W fval = TBinary
         then Inr (v\<lparr>RetryTaskError.Message := GetString W fval\<rparr>, True)
         else Inr (v, message_isSet)
       else if fid = 2 then
         if wire_api.Type W fval = TBinary
         then Inr (v\<lparr>RetryTaskError.DomainId := Some (GetString W fval)\<rparr>, message_isSet)
         else Inr (v, message_isSet)
       else if fid = 3 then
         if wire_api.Type W fval = TBinary
         then Inr (v\<lparr>RetryTaskError.WorkflowId := Some (GetString W fval)\<rparr>, message_isSet)
         else Inr (v, message_isSet)
       else if fid = 4 then
         if wire_api.Type W fval = TBinary
         then Inr (v\<lparr>RetryTaskError.RunId := Some (GetString W fval)\<rparr>, message_isSet)
         else Inr (v, message_isSet)
       else if fid = 5 then
         if wire_api.Type W fval = TI64
         then Inr (v\<lparr>RetryTaskError.NextEventId := Some (GetI64 W fval)\<rparr>, message_isSet)
         else Inr (v, message_isSet)
       else Inr (v, message_isSet)) (GetStruct W w) (v, False)) (\<lambda>(v, message_isSet).
     if \<not> message_isSet then Inl (E_New ''field Message of RetryTaskError is required'')
     else Inr v)"

interpretation RetryTaskError: thrift_message W
  "RetryTaskError_ToWire W" "RetryTaskError_FromWire W" RetryTaskError_zero "\<lambda>_. True" for W
proof (rule thrift_messageI)
  fix x :: RetryTaskError
  assume laws: "wire_laws W"
  show "\<exists>w. RetryTaskError_ToWire W x = Inr w \<and> wire_api.Type W w = TStruct \<and>
      (Writable W w \<longleftrightarrow> (\<lambda>_. True) x) \<and> ((\<lambda>_. True) x \<longrightarrow> RetryTaskError_FromWire W w
          RetryTaskError_zero = Inr x)"
    by (cases x) (auto simp: codec_rules RetryTaskError_ToWire_def RetryTaskError_FromWire_def
        RetryTaskError_zero_def laws split: option.splits)
qed

definition RetryTaskError_Equals ::
  "RetryTaskError option \<Rightarrow> RetryTaskError option \<Rightarrow> bool" where
  "RetryTaskError_Equals v rhs =
     (case v of None \<Rightarrow> rhs = None
      | Some v \<Rightarrow> (case rhs of None \<Rightarrow> False
        | Some rhs \<Rightarrow>
          if \<not> (RetryTaskError.Message v = RetryTaskError.Message rhs) then False else
          if \<not> String_EqualsPtr (RetryTaskError.DomainId v) (RetryTaskError.DomainId rhs) then False
              else
          if \<not> String_EqualsPtr (RetryTaskError.WorkflowId v) (RetryTaskError.WorkflowId rhs) then
              False else
          if \<not> String_EqualsPtr (RetryTaskError.RunId v) (RetryTaskError.RunId rhs) then False else
          if \<not> I64_EqualsPtr (RetryTaskError.NextEventId v) (RetryTaskError.NextEventId rhs) then
              False else
          True))"

lemma RetryTaskError_Equals_iff [simp]: "RetryTaskError_Equals x y \<longleftrightarrow> x = y"
  by (cases x; cases y) (simp_all add: RetryTaskError_Equals_def if_not_False, fastforce intro:
      RetryTaskError.equality)

record TransientDecisionInfo =
  ScheduledEvent :: "HistoryEvent option"
  StartedEvent :: "HistoryEvent option"

definition TransientDecisionInfo_zero :: TransientDecisionInfo where
  "TransientDecisionInfo_zero = \<lparr>TransientDecisionInfo.ScheduledEvent = None,
      TransientDecisionInfo.StartedEvent = None\<rparr>"

definition TransientDecisionInfo_ToWire ::
  "'v wire_api \<Rightarrow> TransientDecisionInfo \<Rightarrow> go_error + 'v" where
  "TransientDecisionInfo_ToWire W v =
     and_then (put_opt 10 (HistoryEvent_ToWire W) (TransientDecisionInfo.ScheduledEvent v) [])
       (\<lambda>fields.
     and_then (put_opt 20 (HistoryEvent_ToWire W) (TransientDecisionInfo.StartedEvent v) fields)
       (\<lambda>fields.
     Inr (NewValueStruct W fields)))"

definition TransientDecisionInfo_FromWire ::
  "'v wire_api \<Rightarrow> 'v \<Rightarrow> TransientDecisionInfo \<Rightarrow> go_error + TransientDecisionInfo" where
  "TransientDecisionInfo_FromWire W w v =
     foldM (\<lambda>v (fid, fval).
       if fid = 10 then
         if wire_api.Type W fval = TStruct
         then and_then (HistoryEvent_Read W fval) (\<lambda>x. Inr (v\<lparr>TransientDecisionInfo.ScheduledEvent
             := Some x\<rparr>))
         else Inr v
       else if fid = 20 then
         if wire_api.Type W fval = TStruct
         then and_then (HistoryEvent_Read W fval) (\<lambda>x. Inr (v\<lparr>TransientDecisionInfo.StartedEvent :=
             Some x\<rparr>))
         else Inr v
       else Inr v) (GetStruct W w) v"

definition TransientDecisionInfo_complete :: "TransientDecisionInfo \<Rightarrow> bool" where
  "TransientDecisionInfo_complete v \<longleftrightarrow>
     if_set HistoryEvent_complete (TransientDecisionInfo.ScheduledEvent v) \<and>
     if_set HistoryEvent_complete (TransientDecisionInfo.StartedEvent v)"

lemma TransientDecisionInfo_merge:
  "(case x of None \<Rightarrow> Inr \<lparr>TransientDecisionInfo.ScheduledEvent = a0,
      TransientDecisionInfo.StartedEvent = a1\<rparr> | Some y \<Rightarrow> Inr \<lparr>TransientDecisionInfo.ScheduledEvent
      = b0 y, TransientDecisionInfo.StartedEvent = b1 y\<rparr>) =
   Inr \<lparr>TransientDecisionInfo.ScheduledEvent = (case x of None \<Rightarrow> a0 | Some y \<Rightarrow> b0 y),
       TransientDecisionInfo.StartedEvent = (case x of None \<Rightarrow> a1 | Some y \<Rightarrow> b1 y)\<rparr>"
  by (cases x) simp_all

interpretation TransientDecisionInfo: thrift_message W
  "TransientDecisionInfo_ToWire W" "TransientDecisionInfo_FromWire W" TransientDecisionInfo_zero
      "TransientDecisionInfo_complete" for W
proof (rule thrift_messageI)
  fix x :: TransientDecisionInfo
  assume laws: "wire_laws W"
  obtain enc0 where e0: "HistoryEvent_ToWire W = (\<lambda>x. Inr (enc0 x))"
      "\<And>x. wire_api.Type W (enc0 x) = TStruct"
      "\<And>x. Writable W (enc0 x) \<longleftrightarrow> HistoryEvent_complete x"
      "\<And>x. HistoryEvent_complete x \<Longrightarrow> HistoryEvent_FromWire W (enc0 x) HistoryEvent_zero = Inr x"
    by (rule HistoryEvent.encoder [OF laws]) (rule that)
  show "\<exists>w. TransientDecisionInfo_ToWire W x = Inr w \<and> wire_api.Type W w = TStruct \<and>
      (Writable W w \<longleftrightarrow> TransientDecisionInfo_complete x) \<and> (TransientDecisionInfo_complete x \<longrightarrow>
          TransientDecisionInfo_FromWire W w TransientDecisionInfo_zero = Inr x)"
    by (cases x) (simp cong: option.case_cong add: codec_rules TransientDecisionInfo_merge
        TransientDecisionInfo_ToWire_def TransientDecisionInfo_FromWire_def
        TransientDecisionInfo_zero_def TransientDecisionInfo_complete_def if_set_def
        HistoryEvent_Read_def laws e0)
qed

definition TransientDecisionInfo_Equals ::
  "TransientDecisionInfo option \<Rightarrow> TransientDecisionInfo option \<Rightarrow> bool" where
  "TransientDecisionInfo_Equals v rhs =
     (case v of None \<Rightarrow> rhs = None
      | Some v \<Rightarrow> (case rhs of None \<Rightarrow> False
        | Some rhs \<Rightarrow>
          if \<not> both_set_and (\<lambda>x y. HistoryEvent_Equals (Some x) (Some y))
              (TransientDecisionInfo.ScheduledEvent v) (TransientDecisionInfo.ScheduledEvent rhs)
              then False else
          if \<not> both_set_and (\<lambda>x y. HistoryEvent_Equals (Some x) (Some y))
              (TransientDecisionInfo.StartedEvent v) (TransientDecisionInfo.StartedEvent rhs) then
              False else
          True))"

definition TransientDecisionInfo_comparable :: "TransientDecisionInfo \<Rightarrow> bool" where
  "TransientDecisionInfo_comparable v \<longleftrightarrow>
     if_set HistoryEvent_comparable (TransientDecisionInfo.ScheduledEvent v) \<and>
     if_set HistoryEvent_comparable (TransientDecisionInfo.StartedEvent v)"

lemma TransientDecisionInfo_Equals_iff:
  "if_set TransientDecisionInfo_comparable x \<Longrightarrow> if_set TransientDecisionInfo_comparable y \<Longrightarrow>
      TransientDecisionInfo_Equals x y \<longleftrightarrow> x = y"
  by (cases x; cases y) (simp_all add: TransientDecisionInfo_Equals_def
      TransientDecisionInfo_comparable_def if_not_False,
    fastforce intro: TransientDecisionInfo.equality)

lemma TransientDecisionInfo_fields_equal [simp]:
  "if_set TransientDecisionInfo_comparable x \<Longrightarrow> if_set TransientDecisionInfo_comparable y \<Longrightarrow>
    both_set_and (\<lambda>x y. TransientDecisionInfo_Equals (Some x) (Some y)) x y \<longleftrightarrow> x = y"
  by (rule both_set_and_iff [where P = TransientDecisionInfo_comparable]) (simp_all add:
      TransientDecisionInfo_Equals_iff)

end
