(* ===== verification/GoMessageProperties.thy ===== *)
theory GoMessageProperties
  imports GoMessages GoRequests GoMisc
begin

text \<open>
  What holds of all the messages: histories, decisions, requests, responses and exceptions
  survive the wire, and their comparison is equality.
\<close>

text \<open>\<open>Equals\<close> agrees with equality, \<open>nil\<close> included.\<close>

definition equals_faithful :: "('a option \<Rightarrow> 'a option \<Rightarrow> bool) \<Rightarrow> ('a \<Rightarrow> bool) \<Rightarrow> bool" where
  "equals_faithful eq comparable \<longleftrightarrow>
     (\<forall>x y. if_set comparable x \<longrightarrow> if_set comparable y \<longrightarrow> eq x y = (x = y))"

text \<open>
  C12: every request and response of the service is encoded, whichever of
  its fields are set; it can be written unless a list or a map in it holds nil, and then it
  is read back unchanged, whatever the order in which the maps are traversed.
\<close>

theorem messages_roundtrip:
  assumes "wire_laws W"
  shows "wire_faithful W (RecordActivityTaskHeartbeatRequest_ToWire W)
      (RecordActivityTaskHeartbeatRequest_FromWire W) RecordActivityTaskHeartbeatRequest_zero (\<lambda>_.
      True) \<and>
    wire_faithful W (RespondActivityTaskCompletedRequest_ToWire W)
        (RespondActivityTaskCompletedRequest_FromWire W) RespondActivityTaskCompletedRequest_zero
        (\<lambda>_. True) \<and>
    wire_faithful W (RespondActivityTaskFailedRequest_ToWire W)
        (RespondActivityTaskFailedRequest_FromWire W) RespondActivityTaskFailedRequest_zero (\<lambda>_.
        True) \<and>
    wire_faithful W (RespondActivityTaskCanceledRequest_ToWire W)
        (RespondActivityTaskCanceledRequest_FromWire W) RespondActivityTaskCanceledRequest_zero (\<lambda>_.
        True) \<and>
    wire_faithful W (RecordActivityTaskHeartbeatResponse_ToWire W)
        (RecordActivityTaskHeartbeatResponse_FromWire W) RecordActivityTaskHeartbeatResponse_zero
        (\<lambda>_. True) \<and>
    wire_faithful W (PollForActivityTaskRequest_ToWire W) (PollForActivityTaskRequest_FromWire W)
        PollForActivityTaskRequest_zero (\<lambda>_. True) \<and>
    wire_faithful W (PollForActivityTaskResponse_ToWire W) (PollForActivityTaskResponse_FromWire W)
        PollForActivityTaskResponse_zero PollForActivityTaskResponse_complete \<and>
    wire_faithful W (RecordActivityTaskHeartbeatByIDRequest_ToWire W)
        (RecordActivityTaskHeartbeatByIDRequest_FromWire W)
        RecordActivityTaskHeartbeatByIDRequest_zero (\<lambda>_. True) \<and>
    wire_faithful W (RespondActivityTaskCanceledByIDRequest_ToWire W)
        (RespondActivityTaskCanceledByIDRequest_FromWire W)
        RespondActivityTaskCanceledByIDRequest_zero (\<lambda>_. True) \<and>
    wire_faithful W (RespondActivityTaskCompletedByIDRequest_ToWire W)
        (RespondActivityTaskCompletedByIDRequest_FromWire W)
        RespondActivityTaskCompletedByIDRequest_zero (\<lambda>_. True) \<and>
    wire_faithful W (RespondActivityTaskFailedByIDRequest_ToWire W)
        (RespondActivityTaskFailedByIDRequest_FromWire W) RespondActivityTaskFailedByIDRequest_zero
        (\<lambda>_. True) \<and>
    wire_faithful W (DeprecateDomainRequest_ToWire W) (DeprecateDomainRequest_FromWire W)
        DeprecateDomainRequest_zero (\<lambda>_. True) \<and>
    wire_faithful W (DescribeDomainRequest_ToWire W) (DescribeDomainRequest_FromWire W)
        DescribeDomainRequest_zero (\<lambda>_. True) \<and>
    wire_faithful W (DescribeDomainResponse_ToWire W) (DescribeDomainResponse_FromWire W)
        DescribeDomainResponse_zero DescribeDomainResponse_complete \<and>
    wire_faithful W (ListDomainsRequest_ToWire W) (ListDomainsRequest_FromWire W)
        ListDomainsRequest_zero (\<lambda>_. True) \<and>
    wire_faithful W (ListDomainsResponse_ToWire W) (ListDomainsResponse_FromWire W)
        ListDomainsResponse_zero ListDomainsResponse_complete \<and>
    wire_faithful W (RegisterDomainRequest_ToWire W) (RegisterDomainRequest_FromWire W)
        RegisterDomainRequest_zero RegisterDomainRequest_complete \<and>
    wire_faithful W (UpdateDomainRequest_ToWire W) (UpdateDomainRequest_FromWire W)
        UpdateDomainRequest_zero UpdateDomainRequest_complete \<and>
    wire_faithful W (UpdateDomainResponse_ToWire W) (UpdateDomainResponse_FromWire W)
        UpdateDomainResponse_zero UpdateDomainResponse_complete \<and>
    wire_faithful W (CloseShardRequest_ToWire W) (CloseShardRequest_FromWire W)
        CloseShardRequest_zero (\<lambda>_. True) \<and>
    wire_faithful W (CountWorkflowExecutionsRequest_ToWire W)
        (CountWorkflowExecutionsRequest_FromWire W) CountWorkflowExecutionsRequest_zero (\<lambda>_. True) \<and>
    wire_faithful W (CountWorkflowExecutionsResponse_ToWire W)
        (CountWorkflowExecutionsResponse_FromWire W) CountWorkflowExecutionsResponse_zero (\<lambda>_. True)
        \<and>
    wire_faithful W (DescribeHistoryHostRequest_ToWire W) (DescribeHistoryHostRequest_FromWire W)
        DescribeHistoryHostRequest_zero (\<lambda>_. True) \<and>
    wire_faithful W (DescribeHistoryHostResponse_ToWire W) (DescribeHistoryHostResponse_FromWire W)
        DescribeHistoryHostResponse_zero (\<lambda>_. True) \<and>
    wire_faithful W (DescribeTaskListRequest_ToWire W) (DescribeTaskListRequest_FromWire W)
        DescribeTaskListRequest_zero (\<lambda>_. True) \<and>
    wire_faithful W (DescribeTaskListResponse_ToWire W) (DescribeTaskListResponse_FromWire W)
        DescribeTaskListResponse_zero DescribeTaskListResponse_complete \<and>
    wire_faithful W (DescribeWorkflowExecutionRequest_ToWire W)
        (DescribeWorkflowExecutionRequest_FromWire W) DescribeWorkflowExecutionRequest_zero (\<lambda>_.
        True) \<and>
    wire_faithful W (DescribeWorkflowExecutionResponse_ToWire W)
        (DescribeWorkflowExecutionResponse_FromWire W) DescribeWorkflowExecutionResponse_zero
        DescribeWorkflowExecutionResponse_complete \<and>
    wire_faithful W (GetSearchAttributesResponse_ToWire W) (GetSearchAttributesResponse_FromWire W)
        GetSearchAttributesResponse_zero (\<lambda>_. True) \<and>
    wire_faithful W (GetWorkflowExecutionHistoryRequest_ToWire W)
        (GetWorkflowExecutionHistoryRequest_FromWire W) GetWorkflowExecutionHistoryRequest_zero (\<lambda>_.
        True) \<and>
    wire_faithful W (GetWorkflowExecutionHistoryResponse_ToWire W)
        (GetWorkflowExecutionHistoryResponse_FromWire W) GetWorkflowExecutionHistoryResponse_zero
        GetWorkflowExecutionHistoryResponse_complete \<and>
    wire_faithful W (ListArchivedWorkflowExecutionsRequest_ToWire W)
        (ListArchivedWorkflowExecutionsRequest_FromWire W)
        ListArchivedWorkflowExecutionsRequest_zero (\<lambda>_. True) \<and>
    wire_faithful W (ListArchivedWorkflowExecutionsResponse_ToWire W)
        (ListArchivedWorkflowExecutionsResponse_FromWire W)
        ListArchivedWorkflowExecutionsResponse_zero ListArchivedWorkflowExecutionsResponse_complete
        \<and>
    wire_faithful W (ListClosedWorkflowExecutionsRequest_ToWire W)
        (ListClosedWorkflowExecutionsRequest_FromWire W) ListClosedWorkflowExecutionsRequest_zero
        (\<lambda>_. True) \<and>
    wire_faithful W (ListClosedWorkflowExecutionsResponse_ToWire W)
        (ListClosedWorkflowExecutionsResponse_FromWire W) ListClosedWorkflowExecutionsResponse_zero
        ListClosedWorkflowExecutionsResponse_complete \<and>
    wire_faithful W (ListOpenWorkflowExecutionsRequest_ToWire W)
        (ListOpenWorkflowExecutionsRequest_FromWire W) ListOpenWorkflowExecutionsRequest_zero (\<lambda>_.
        True) \<and>
    wire_faithful W (ListOpenWorkflowExecutionsResponse_ToWire W)
        (ListOpenWorkflowExecutionsResponse_FromWire W) ListOpenWorkflowExecutionsResponse_zero
        ListOpenWorkflowExecutionsResponse_complete \<and>
    wire_faithful W (ListWorkflowExecutionsRequest_ToWire W) (ListWorkflowExecutionsRequest_FromWire
        W) ListWorkflowExecutionsRequest_zero (\<lambda>_. True) \<and>
    wire_faithful W (ListWorkflowExecutionsResponse_ToWire W)
        (ListWorkflowExecutionsResponse_FromWire W) ListWorkflowExecutionsResponse_zero
        ListWorkflowExecutionsResponse_complete \<and>
    wire_faithful W (PollForDecisionTaskRequest_ToWire W) (PollForDecisionTaskRequest_FromWire W)
        PollForDecisionTaskRequest_zero (\<lambda>_. True) \<and>
    wire_faithful W (PollForDecisionTaskResponse_ToWire W) (PollForDecisionTaskResponse_FromWire W)
        PollForDecisionTaskResponse_zero PollForDecisionTaskResponse_complete \<and>
    wire_faithful W (QueryWorkflowRequest_ToWire W) (QueryWorkflowRequest_FromWire W)
        QueryWorkflowRequest_zero (\<lambda>_. True) \<and>
    wire_faithful W (QueryWorkflowResponse_ToWire W) (QueryWorkflowResponse_FromWire W)
        QueryWorkflowResponse_zero (\<lambda>_. True) \<and>
    wire_faithful W (RemoveTaskRequest_ToWire W) (RemoveTaskRequest_FromWire W)
        RemoveTaskRequest_zero (\<lambda>_. True) \<and>
    wire_faithful W (RequestCancelWorkflowExecutionRequest_ToWire W)
        (RequestCancelWorkflowExecutionRequest_FromWire W)
        RequestCancelWorkflowExecutionRequest_zero (\<lambda>_. True) \<and>
    wire_faithful W (ResetStickyTaskListRequest_ToWire W) (ResetStickyTaskListRequest_FromWire W)
        ResetStickyTaskListRequest_zero (\<lambda>_. True) \<and>
    wire_faithful W (ResetStickyTaskListResponse_ToWire W) (ResetStickyTaskListResponse_FromWire W)
        ResetStickyTaskListResponse_zero (\<lambda>_. True) \<and>
    wire_faithful W (ResetWorkflowExecutionRequest_ToWire W) (ResetWorkflowExecutionRequest_FromWire
        W) ResetWorkflowExecutionRequest_zero (\<lambda>_. True) \<and>
    wire_faithful W (ResetWorkflowExecutionResponse_ToWire W)
        (ResetWorkflowExecutionResponse_FromWire W) ResetWorkflowExecutionResponse_zero (\<lambda>_. True) \<and>
    wire_faithful W (RespondDecisionTaskCompletedRequest_ToWire W)
        (RespondDecisionTaskCompletedRequest_FromWire W) RespondDecisionTaskCompletedRequest_zero
        RespondDecisionTaskCompletedRequest_complete \<and>
    wire_faithful W (RespondDecisionTaskCompletedResponse_ToWire W)
        (RespondDecisionTaskCompletedResponse_FromWire W) RespondDecisionTaskCompletedResponse_zero
        RespondDecisionTaskCompletedResponse_complete \<and>
    wire_faithful W (RespondDecisionTaskFailedRequest_ToWire W)
        (RespondDecisionTaskFailedRequest_FromWire W) RespondDecisionTaskFailedRequest_zero (\<lambda>_.
        True) \<and>
    wire_faithful W (RespondQueryTaskCompletedRequest_ToWire W)
        (RespondQueryTaskCompletedRequest_FromWire W) RespondQueryTaskCompletedRequest_zero (\<lambda>_.
        True) \<and>
    wire_faithful W (SignalWithStartWorkflowExecutionRequest_ToWire W)
        (SignalWithStartWorkflowExecutionRequest_FromWire W)
        SignalWithStartWorkflowExecutionRequest_zero
        SignalWithStartWorkflowExecutionRequest_complete \<and>
    wire_faithful W (SignalWorkflowExecutionRequest_ToWire W)
        (SignalWorkflowExecutionRequest_FromWire W) SignalWorkflowExecutionRequest_zero (\<lambda>_. True) \<and>
    wire_faithful W (StartWorkflowExecutionRequest_ToWire W) (StartWorkflowExecutionRequest_FromWire
        W) StartWorkflowExecutionRequest_zero StartWorkflowExecutionRequest_complete \<and>
    wire_faithful W (StartWorkflowExecutionResponse_ToWire W)
        (StartWorkflowExecutionResponse_FromWire W) StartWorkflowExecutionResponse_zero (\<lambda>_. True) \<and>
    wire_faithful W (TerminateWorkflowExecutionRequest_ToWire W)
        (TerminateWorkflowExecutionRequest_FromWire W) TerminateWorkflowExecutionRequest_zero (\<lambda>_.
        True)"
  by (intro conjI
    RecordActivityTaskHeartbeatRequest.faithful [OF assms]
    RespondActivityTaskCompletedRequest.faithful [OF assms]
    RespondActivityTaskFailedRequest.faithful [OF assms]
    RespondActivityTaskCanceledRequest.faithful [OF assms]
    RecordActivityTaskHeartbeatResponse.faithful [OF assms]
    PollForActivityTaskRequest.faithful [OF assms]
    PollForActivityTaskResponse.faithful [OF assms]
    RecordActivityTaskHeartbeatByIDRequest.faithful [OF assms]
    RespondActivityTaskCanceledByIDRequest.faithful [OF assms]
    RespondActivityTaskCompletedByIDRequest.faithful [OF assms]
    RespondActivityTaskFailedByIDRequest.faithful [OF assms]
    DeprecateDomainRequest.faithful [OF assms]
    DescribeDomainRequest.faithful [OF assms]
    DescribeDomainResponse.faithful [OF assms]
    ListDomainsRequest.faithful [OF assms]
    ListDomainsResponse.faithful [OF assms]
    RegisterDomainRequest.faithful [OF assms]
    UpdateDomainRequest.faithful [OF assms]
    UpdateDomainResponse.faithful [OF assms]
    CloseShardRequest.faithful [OF assms]
    CountWorkflowExecutionsRequest.faithful [OF assms]
    CountWorkflowExecutionsResponse.faithful [OF assms]
    DescribeHistoryHostRequest.faithful [OF assms]
    DescribeHistoryHostResponse.faithful [OF assms]
    DescribeTaskListRequest.faithful [OF assms]
    DescribeTaskListResponse.faithful [OF assms]
    DescribeWorkflowExecutionRequest.faithful [OF assms]
    DescribeWorkflowExecutionResponse.faithful [OF assms]
    GetSearchAttributesResponse.faithful [OF assms]
    GetWorkflowExecutionHistoryRequest.faithful [OF assms]
    GetWorkflowExecutionHistoryResponse.faithful [OF assms]
    ListArchivedWorkflowExecutionsRequest.faithful [OF assms]
    ListArchivedWorkflowExecutionsResponse.faithful [OF assms]
    ListClosedWorkflowExecutionsRequest.faithful [OF assms]
    ListClosedWorkflowExecutionsResponse.faithful [OF assms]
    ListOpenWorkflowExecutionsRequest.faithful [OF assms]
    ListOpenWorkflowExecutionsResponse.faithful [OF assms]
    ListWorkflowExecutionsRequest.faithful [OF assms]
    ListWorkflowExecutionsResponse.faithful [OF assms]
    PollForDecisionTaskRequest.faithful [OF assms]
    PollForDecisionTaskResponse.faithful [OF assms]
    QueryWorkflowRequest.faithful [OF assms]
    QueryWorkflowResponse.faithful [OF assms]
    RemoveTaskRequest.faithful [OF assms]
    RequestCancelWorkflowExecutionRequest.faithful [OF assms]
    ResetStickyTaskListRequest.faithful [OF assms]
    ResetStickyTaskListResponse.faithful [OF assms]
    ResetWorkflowExecutionRequest.faithful [OF assms]
    ResetWorkflowExecutionResponse.faithful [OF assms]
    RespondDecisionTaskCompletedRequest.faithful [OF assms]
    RespondDecisionTaskCompletedResponse.faithful [OF assms]
    RespondDecisionTaskFailedRequest.faithful [OF assms]
    RespondQueryTaskCompletedRequest.faithful [OF assms]
    SignalWithStartWorkflowExecutionRequest.faithful [OF assms]
    SignalWorkflowExecutionRequest.faithful [OF assms]
    StartWorkflowExecutionRequest.faithful [OF assms]
    StartWorkflowExecutionResponse.faithful [OF assms]
    TerminateWorkflowExecutionRequest.faithful [OF assms])

text \<open>
  C11: a history, its events and a list of decisions survive the wire: each
  type of event and decision attributes, each event that holds them and each list of events
  is read back unchanged, and is refused exactly when a list or map in it holds nil.
\<close>

theorem history_roundtrip:
  assumes "wire_laws W"
  shows "wire_faithful W (ActivityTaskCancelRequestedEventAttributes_ToWire W)
      (ActivityTaskCancelRequestedEventAttributes_FromWire W)
      ActivityTaskCancelRequestedEventAttributes_zero (\<lambda>_. True) \<and>
    wire_faithful W (ActivityTaskCanceledEventAttributes_ToWire W)
        (ActivityTaskCanceledEventAttributes_FromWire W) ActivityTaskCanceledEventAttributes_zero
        (\<lambda>_. True) \<and>
    wire_faithful W (ActivityTaskCompletedEventAttributes_ToWire W)
        (ActivityTaskCompletedEventAttributes_FromWire W) ActivityTaskCompletedEventAttributes_zero
        (\<lambda>_. True) \<and>
    wire_faithful W (ActivityTaskFailedEventAttributes_ToWire W)
        (ActivityTaskFailedEventAttributes_FromWire W) ActivityTaskFailedEventAttributes_zero (\<lambda>_.
        True) \<and>
    wire_faithful W (ActivityTaskScheduledEventAttributes_ToWire W)
        (ActivityTaskScheduledEventAttributes_FromWire W) ActivityTaskScheduledEventAttributes_zero
        ActivityTaskScheduledEventAttributes_complete \<and>
    wire_faithful W (ActivityTaskStartedEventAttributes_ToWire W)
        (ActivityTaskStartedEventAttributes_FromWire W) ActivityTaskStartedEventAttributes_zero (\<lambda>_.
        True) \<and>
    wire_faithful W (ActivityTaskTimedOutEventAttributes_ToWire W)
        (ActivityTaskTimedOutEventAttributes_FromWire W) ActivityTaskTimedOutEventAttributes_zero
        (\<lambda>_. True) \<and>
    wire_faithful W (CancelTimerFailedEventAttributes_ToWire W)
        (CancelTimerFailedEventAttributes_FromWire W) CancelTimerFailedEventAttributes_zero (\<lambda>_.
        True) \<and>
    wire_faithful W (DecisionTaskCompletedEventAttributes_ToWire W)
        (DecisionTaskCompletedEventAttributes_FromWire W) DecisionTaskCompletedEventAttributes_zero
        (\<lambda>_. True) \<and>
    wire_faithful W (DecisionTaskFailedEventAttributes_ToWire W)
        (DecisionTaskFailedEventAttributes_FromWire W) DecisionTaskFailedEventAttributes_zero (\<lambda>_.
        True) \<and>
    wire_faithful W (DecisionTaskScheduledEventAttributes_ToWire W)
        (DecisionTaskScheduledEventAttributes_FromWire W) DecisionTaskScheduledEventAttributes_zero
        (\<lambda>_. True) \<and>
    wire_faithful W (DecisionTaskStartedEventAttributes_ToWire W)
        (DecisionTaskStartedEventAttributes_FromWire W) DecisionTaskStartedEventAttributes_zero (\<lambda>_.
        True) \<and>
    wire_faithful W (DecisionTaskTimedOutEventAttributes_ToWire W)
        (DecisionTaskTimedOutEventAttributes_FromWire W) DecisionTaskTimedOutEventAttributes_zero
        (\<lambda>_. True) \<and>
    wire_faithful W (RequestCancelActivityTaskFailedEventAttributes_ToWire W)
        (RequestCancelActivityTaskFailedEventAttributes_FromWire W)
        RequestCancelActivityTaskFailedEventAttributes_zero (\<lambda>_. True) \<and>
    wire_faithful W (TimerCanceledEventAttributes_ToWire W) (TimerCanceledEventAttributes_FromWire
        W) TimerCanceledEventAttributes_zero (\<lambda>_. True) \<and>
    wire_faithful W (TimerFiredEventAttributes_ToWire W) (TimerFiredEventAttributes_FromWire W)
        TimerFiredEventAttributes_zero (\<lambda>_. True) \<and>
    wire_faithful W (TimerStartedEventAttributes_ToWire W) (TimerStartedEventAttributes_FromWire W)
        TimerStartedEventAttributes_zero (\<lambda>_. True) \<and>
    wire_faithful W (ChildWorkflowExecutionCanceledEventAttributes_ToWire W)
        (ChildWorkflowExecutionCanceledEventAttributes_FromWire W)
        ChildWorkflowExecutionCanceledEventAttributes_zero (\<lambda>_. True) \<and>
    wire_faithful W (ChildWorkflowExecutionCompletedEventAttributes_ToWire W)
        (ChildWorkflowExecutionCompletedEventAttributes_FromWire W)
        ChildWorkflowExecutionCompletedEventAttributes_zero (\<lambda>_. True) \<and>
    wire_faithful W (ChildWorkflowExecutionFailedEventAttributes_ToWire W)
        (ChildWorkflowExecutionFailedEventAttributes_FromWire W)
        ChildWorkflowExecutionFailedEventAttributes_zero (\<lambda>_. True) \<and>
    wire_faithful W (ChildWorkflowExecutionStartedEventAttributes_ToWire W)
        (ChildWorkflowExecutionStartedEventAttributes_FromWire W)
        ChildWorkflowExecutionStartedEventAttributes_zero
        ChildWorkflowExecutionStartedEventAttributes_complete \<and>
    wire_faithful W (ChildWorkflowExecutionTerminatedEventAttributes_ToWire W)
        (ChildWorkflowExecutionTerminatedEventAttributes_FromWire W)
        ChildWorkflowExecutionTerminatedEventAttributes_zero (\<lambda>_. True) \<and>
    wire_faithful W (ChildWorkflowExecutionTimedOutEventAttributes_ToWire W)
        (ChildWorkflowExecutionTimedOutEventAttributes_FromWire W)
        ChildWorkflowExecutionTimedOutEventAttributes_zero (\<lambda>_. True) \<and>
    wire_faithful W (ExternalWorkflowExecutionCancelRequestedEventAttributes_ToWire W)
        (ExternalWorkflowExecutionCancelRequestedEventAttributes_FromWire W)
        ExternalWorkflowExecutionCancelRequestedEventAttributes_zero (\<lambda>_. True) \<and>
    wire_faithful W (ExternalWorkflowExecutionSignaledEventAttributes_ToWire W)
        (ExternalWorkflowExecutionSignaledEventAttributes_FromWire W)
        ExternalWorkflowExecutionSignaledEventAttributes_zero (\<lambda>_. True) \<and>
    wire_faithful W (MarkerRecordedEventAttributes_ToWire W) (MarkerRecordedEventAttributes_FromWire
        W) MarkerRecordedEventAttributes_zero MarkerRecordedEventAttributes_complete \<and>
    wire_faithful W (RequestCancelExternalWorkflowExecutionFailedEventAttributes_ToWire W)
        (RequestCancelExternalWorkflowExecutionFailedEventAttributes_FromWire W)
        RequestCancelExternalWorkflowExecutionFailedEventAttributes_zero (\<lambda>_. True) \<and>
    wire_faithful W (RequestCancelExternalWorkflowExecutionInitiatedEventAttributes_ToWire W)
        (RequestCancelExternalWorkflowExecutionInitiatedEventAttributes_FromWire W)
        RequestCancelExternalWorkflowExecutionInitiatedEventAttributes_zero (\<lambda>_. True) \<and>
    wire_faithful W (SignalExternalWorkflowExecutionFailedEventAttributes_ToWire W)
        (SignalExternalWorkflowExecutionFailedEventAttributes_FromWire W)
        SignalExternalWorkflowExecutionFailedEventAttributes_zero (\<lambda>_. True) \<and>
    wire_faithful W (SignalExternalWorkflowExecutionInitiatedEventAttributes_ToWire W)
        (SignalExternalWorkflowExecutionInitiatedEventAttributes_FromWire W)
        SignalExternalWorkflowExecutionInitiatedEventAttributes_zero (\<lambda>_. True) \<and>
    wire_faithful W (StartChildWorkflowExecutionFailedEventAttributes_ToWire W)
        (StartChildWorkflowExecutionFailedEventAttributes_FromWire W)
        StartChildWorkflowExecutionFailedEventAttributes_zero (\<lambda>_. True) \<and>
    wire_faithful W (StartChildWorkflowExecutionInitiatedEventAttributes_ToWire W)
        (StartChildWorkflowExecutionInitiatedEventAttributes_FromWire W)
        StartChildWorkflowExecutionInitiatedEventAttributes_zero
        StartChildWorkflowExecutionInitiatedEventAttributes_complete \<and>
    wire_faithful W (UpsertWorkflowSearchAttributesEventAttributes_ToWire W)
        (UpsertWorkflowSearchAttributesEventAttributes_FromWire W)
        UpsertWorkflowSearchAttributesEventAttributes_zero
        UpsertWorkflowSearchAttributesEventAttributes_complete \<and>
    wire_faithful W (WorkflowExecutionCancelRequestedEventAttributes_ToWire W)
        (WorkflowExecutionCancelRequestedEventAttributes_FromWire W)
        WorkflowExecutionCancelRequestedEventAttributes_zero (\<lambda>_. True) \<and>
    wire_faithful W (WorkflowExecutionCanceledEventAttributes_ToWire W)
        (WorkflowExecutionCanceledEventAttributes_FromWire W)
        WorkflowExecutionCanceledEventAttributes_zero (\<lambda>_. True) \<and>
    wire_faithful W (WorkflowExecutionCompletedEventAttributes_ToWire W)
        (WorkflowExecutionCompletedEventAttributes_FromWire W)
        WorkflowExecutionCompletedEventAttributes_zero (\<lambda>_. True) \<and>
    wire_faithful W (WorkflowExecutionContinuedAsNewEventAttributes_ToWire W)
        (WorkflowExecutionContinuedAsNewEventAttributes_FromWire W)
        WorkflowExecutionContinuedAsNewEventAttributes_zero
        WorkflowExecutionContinuedAsNewEventAttributes_complete \<and>
    wire_faithful W (WorkflowExecutionFailedEventAttributes_ToWire W)
        (WorkflowExecutionFailedEventAttributes_FromWire W)
        WorkflowExecutionFailedEventAttributes_zero (\<lambda>_. True) \<and>
    wire_faithful W (WorkflowExecutionSignaledEventAttributes_ToWire W)
        (WorkflowExecutionSignaledEventAttributes_FromWire W)
        WorkflowExecutionSignaledEventAttributes_zero (\<lambda>_. True) \<and>
    wire_faithful W (WorkflowExecutionStartedEventAttributes_ToWire W)
        (WorkflowExecutionStartedEventAttributes_FromWire W)
        WorkflowExecutionStartedEventAttributes_zero
        WorkflowExecutionStartedEventAttributes_complete \<and>
    wire_faithful W (WorkflowExecutionTerminatedEventAttributes_ToWire W)
        (WorkflowExecutionTerminatedEventAttributes_FromWire W)
        WorkflowExecutionTerminatedEventAttributes_zero (\<lambda>_. True) \<and>
    wire_faithful W (WorkflowExecutionTimedOutEventAttributes_ToWire W)
        (WorkflowExecutionTimedOutEventAttributes_FromWire W)
        WorkflowExecutionTimedOutEventAttributes_zero (\<lambda>_. True) \<and>
    wire_faithful W (CancelTimerDecisionAttributes_ToWire W) (CancelTimerDecisionAttributes_FromWire
        W) CancelTimerDecisionAttributes_zero (\<lambda>_. True) \<and>
    wire_faithful W (CancelWorkflowExecutionDecisionAttributes_ToWire W)
        (CancelWorkflowExecutionDecisionAttributes_FromWire W)
        CancelWorkflowExecutionDecisionAttributes_zero (\<lambda>_. True) \<and>
    wire_faithful W (CompleteWorkflowExecutionDecisionAttributes_ToWire W)
        (CompleteWorkflowExecutionDecisionAttributes_FromWire W)
        CompleteWorkflowExecutionDecisionAttributes_zero (\<lambda>_. True) \<and>
    wire_faithful W (ContinueAsNewWorkflowExecutionDecisionAttributes_ToWire W)
        (ContinueAsNewWorkflowExecutionDecisionAttributes_FromWire W)
        ContinueAsNewWorkflowExecutionDecisionAttributes_zero
        ContinueAsNewWorkflowExecutionDecisionAttributes_complete \<and>
    wire_faithful W (FailWorkflowExecutionDecisionAttributes_ToWire W)
        (FailWorkflowExecutionDecisionAttributes_FromWire W)
        FailWorkflowExecutionDecisionAttributes_zero (\<lambda>_. True) \<and>
    wire_faithful W (RecordMarkerDecisionAttributes_ToWire W)
        (RecordMarkerDecisionAttributes_FromWire W) RecordMarkerDecisionAttributes_zero
        RecordMarkerDecisionAttributes_complete \<and>
    wire_faithful W (RequestCancelActivityTaskDecisionAttributes_ToWire W)
        (RequestCancelActivityTaskDecisionAttributes_FromWire W)
        RequestCancelActivityTaskDecisionAttributes_zero (\<lambda>_. True) \<and>
    wire_faithful W (RequestCancelExternalWorkflowExecutionDecisionAttributes_ToWire W)
        (RequestCancelExternalWorkflowExecutionDecisionAttributes_FromWire W)
        RequestCancelExternalWorkflowExecutionDecisionAttributes_zero (\<lambda>_. True) \<and>
    wire_faithful W (ScheduleActivityTaskDecisionAttributes_ToWire W)
        (ScheduleActivityTaskDecisionAttributes_FromWire W)
        ScheduleActivityTaskDecisionAttributes_zero ScheduleActivityTaskDecisionAttributes_complete
        \<and>
    wire_faithful W (SignalExternalWorkflowExecutionDecisionAttributes_ToWire W)
        (SignalExternalWorkflowExecutionDecisionAttributes_FromWire W)
        SignalExternalWorkflowExecutionDecisionAttributes_zero (\<lambda>_. True) \<and>
    wire_faithful W (StartChildWorkflowExecutionDecisionAttributes_ToWire W)
        (StartChildWorkflowExecutionDecisionAttributes_FromWire W)
        StartChildWorkflowExecutionDecisionAttributes_zero
        StartChildWorkflowExecutionDecisionAttributes_complete \<and>
    wire_faithful W (StartTimerDecisionAttributes_ToWire W) (StartTimerDecisionAttributes_FromWire
        W) StartTimerDecisionAttributes_zero (\<lambda>_. True) \<and>
    wire_faithful W (UpsertWorkflowSearchAttributesDecisionAttributes_ToWire W)
        (UpsertWorkflowSearchAttributesDecisionAttributes_FromWire W)
        UpsertWorkflowSearchAttributesDecisionAttributes_zero
        UpsertWorkflowSearchAttributesDecisionAttributes_complete \<and>
    wire_faithful W (HistoryEvent_ToWire W) (HistoryEvent_FromWire W) HistoryEvent_zero
        HistoryEvent_complete \<and>
    wire_faithful W (History_ToWire W) (History_FromWire W) History_zero History_complete \<and>
    wire_faithful W (Decision_ToWire W) (Decision_FromWire W) Decision_zero Decision_complete"
  by (intro conjI
    ActivityTaskCancelRequestedEventAttributes.faithful [OF assms]
    ActivityTaskCanceledEventAttributes.faithful [OF assms]
    ActivityTaskCompletedEventAttributes.faithful [OF assms]
    ActivityTaskFailedEventAttributes.faithful [OF assms]
    ActivityTaskScheduledEventAttributes.faithful [OF assms]
    ActivityTaskStartedEventAttributes.faithful [OF assms]
    ActivityTaskTimedOutEventAttributes.faithful [OF assms]
    CancelTimerFailedEventAttributes.faithful [OF assms]
    DecisionTaskCompletedEventAttributes.faithful [OF assms]
    DecisionTaskFailedEventAttributes.faithful [OF assms]
    DecisionTaskScheduledEventAttributes.faithful [OF assms]
    DecisionTaskStartedEventAttributes.faithful [OF assms]
    DecisionTaskTimedOutEventAttributes.faithful [OF assms]
    RequestCancelActivityTaskFailedEventAttributes.faithful [OF assms]
    TimerCanceledEventAttributes.faithful [OF assms]
    TimerFiredEventAttributes.faithful [OF assms]
    TimerStartedEventAttributes.faithful [OF assms]
    ChildWorkflowExecutionCanceledEventAttributes.faithful [OF assms]
    ChildWorkflowExecutionCompletedEventAttributes.faithful [OF assms]
    ChildWorkflowExecutionFailedEventAttributes.faithful [OF assms]
    ChildWorkflowExecutionStartedEventAttributes.faithful [OF assms]
    ChildWorkflowExecutionTerminatedEventAttributes.faithful [OF assms]
    ChildWorkflowExecutionTimedOutEventAttributes.faithful [OF assms]
    ExternalWorkflowExecutionCancelRequestedEventAttributes.faithful [OF assms]
    ExternalWorkflowExecutionSignaledEventAttributes.faithful [OF assms]
    MarkerRecordedEventAttributes.faithful [OF assms]
    RequestCancelExternalWorkflowExecutionFailedEventAttributes.faithful [OF assms]
    RequestCancelExternalWorkflowExecutionInitiatedEventAttributes.faithful [OF assms]
    SignalExternalWorkflowExecutionFailedEventAttributes.faithful [OF assms]
    SignalExternalWorkflowExecutionInitiatedEventAttributes.faithful [OF assms]
    StartChildWorkflowExecutionFailedEventAttributes.faithful [OF assms]
    StartChildWorkflowExecutionInitiatedEventAttributes.faithful [OF assms]
    UpsertWorkflowSearchAttributesEventAttributes.faithful [OF assms]
    WorkflowExecutionCancelRequestedEventAttributes.faithful [OF assms]
    WorkflowExecutionCanceledEventAttributes.faithful [OF assms]
    WorkflowExecutionCompletedEventAttributes.faithful [OF assms]
    WorkflowExecutionContinuedAsNewEventAttributes.faithful [OF assms]
    WorkflowExecutionFailedEventAttributes.faithful [OF assms]
    WorkflowExecutionSignaledEventAttributes.faithful [OF assms]
    WorkflowExecutionStartedEventAttributes.faithful [OF assms]
    WorkflowExecutionTerminatedEventAttributes.faithful [OF assms]
    WorkflowExecutionTimedOutEventAttributes.faithful [OF assms]
    CancelTimerDecisionAttributes.faithful [OF assms]
    CancelWorkflowExecutionDecisionAttributes.faithful [OF assms]
    CompleteWorkflowExecutionDecisionAttributes.faithful [OF assms]
    ContinueAsNewWorkflowExecutionDecisionAttributes.faithful [OF assms]
    FailWorkflowExecutionDecisionAttributes.faithful [OF assms]
    RecordMarkerDecisionAttributes.faithful [OF assms]
    RequestCancelActivityTaskDecisionAttributes.faithful [OF assms]
    RequestCancelExternalWorkflowExecutionDecisionAttributes.faithful [OF assms]
    ScheduleActivityTaskDecisionAttributes.faithful [OF assms]
    SignalExternalWorkflowExecutionDecisionAttributes.faithful [OF assms]
    StartChildWorkflowExecutionDecisionAttributes.faithful [OF assms]
    StartTimerDecisionAttributes.faithful [OF assms]
    UpsertWorkflowSearchAttributesDecisionAttributes.faithful [OF assms]
    HistoryEvent.faithful [OF assms]
    HistoryStruct.faithful [OF assms]
    Decision.faithful [OF assms])

text \<open>
  C20: every Thrift exception of the service, its required and optional
  fields included, is encoded, can be written and is read back unchanged.
\<close>

theorem exceptions_roundtrip:
  assumes "wire_laws W"
  shows "wire_faithful W (BadRequestError_ToWire W) (BadRequestError_FromWire W)
      BadRequestError_zero (\<lambda>_. True) \<and>
    wire_faithful W (InternalServiceError_ToWire W) (InternalServiceError_FromWire W)
        InternalServiceError_zero (\<lambda>_. True) \<and>
    wire_faithful W (EntityNotExistsError_ToWire W) (EntityNotExistsError_FromWire W)
        EntityNotExistsError_zero (\<lambda>_. True) \<and>
    wire_faithful W (ServiceBusyError_ToWire W) (ServiceBusyError_FromWire W) ServiceBusyError_zero
        (\<lambda>_. True) \<and>
    wire_faithful W (ClientVersionNotSupportedError_ToWire W)
        (ClientVersionNotSupportedError_FromWire W) ClientVersionNotSupportedError_zero (\<lambda>_. True) \<and>
    wire_faithful W (DomainNotActiveError_ToWire W) (DomainNotActiveError_FromWire W)
        DomainNotActiveError_zero (\<lambda>_. True) \<and>
    wire_faithful W (LimitExceededError_ToWire W) (LimitExceededError_FromWire W)
        LimitExceededError_zero (\<lambda>_. True) \<and>
    wire_faithful W (WorkflowExecutionAlreadyStartedError_ToWire W)
        (WorkflowExecutionAlreadyStartedError_FromWire W) WorkflowExecutionAlreadyStartedError_zero
        (\<lambda>_. True) \<and>
    wire_faithful W (CancellationAlreadyRequestedError_ToWire W)
        (CancellationAlreadyRequestedError_FromWire W) CancellationAlreadyRequestedError_zero (\<lambda>_.
        True) \<and>
    wire_faithful W (DomainAlreadyExistsError_ToWire W) (DomainAlreadyExistsError_FromWire W)
        DomainAlreadyExistsError_zero (\<lambda>_. True) \<and>
    wire_faithful W (QueryFailedError_ToWire W) (QueryFailedError_FromWire W) QueryFailedError_zero
        (\<lambda>_. True)"
  by (intro conjI
    BadRequestError.faithful [OF assms]
    InternalServiceError.faithful [OF assms]
    EntityNotExistsError.faithful [OF assms]
    ServiceBusyError.faithful [OF assms]
    ClientVersionNotSupportedError.faithful [OF assms]
    DomainNotActiveError.faithful [OF assms]
    LimitExceededError.faithful [OF assms]
    WorkflowExecutionAlreadyStartedError.faithful [OF assms]
    CancellationAlreadyRequestedError.faithful [OF assms]
    DomainAlreadyExistsError.faithful [OF assms]
    QueryFailedError.faithful [OF assms])

text \<open>A history of two events with attributes, and one with a \<open>nil\<close> event.\<close>

definition sample_event :: HistoryEvent where
  "sample_event = HistoryEvent_zero\<lparr>HistoryEvent.EventId := Some 7, HistoryEvent.EventType := Some
      18,
     HistoryEvent.TimerFiredEventAttributes :=
       Some \<lparr>TimerFiredEventAttributes.TimerId = Some ''t1'', StartedEventId = Some 3\<rparr>\<rparr>"

theorem messages_roundtrip_witness:
  "\<exists>w. RespondActivityTaskFailedRequest_ToWire wire_tree_api
        \<lparr>RespondActivityTaskFailedRequest.TaskToken = Some [7, 255], Reason = Some ''boom'',
         Details = None, Identity = Some ''worker''\<rparr> = Inr w \<and>
      RespondActivityTaskFailedRequest_FromWire wire_tree_api w
          RespondActivityTaskFailedRequest_zero =
        Inr \<lparr>RespondActivityTaskFailedRequest.TaskToken = Some [7, 255], Reason = Some ''boom'',
         Details = None, Identity = Some ''worker''\<rparr>"
proof -
  have "wire_faithful wire_tree_api (RespondActivityTaskFailedRequest_ToWire wire_tree_api)
      (RespondActivityTaskFailedRequest_FromWire wire_tree_api)
          RespondActivityTaskFailedRequest_zero (\<lambda>_. True)"
    by (simp only: messages_roundtrip [OF wire_tree_laws])
  then show ?thesis by (auto simp: wire_faithful_def)
qed

theorem history_roundtrip_witness:
  "(\<exists>w. History_ToWire wire_tree_api \<lparr>Events = Some [Some sample_event, Some HistoryEvent_zero]\<rparr> =
      Inr w \<and>
      History_FromWire wire_tree_api w History_zero =
        Inr \<lparr>Events = Some [Some sample_event, Some HistoryEvent_zero]\<rparr>) \<and>
   (\<exists>w. History_ToWire wire_tree_api \<lparr>Events = Some [Some sample_event, None]\<rparr> = Inr w \<and>
      \<not> Writable wire_tree_api w)"
proof -
  have ok: "wire_faithful wire_tree_api (History_ToWire wire_tree_api) (History_FromWire
      wire_tree_api)
      History_zero History_complete"
    by (simp only: history_roundtrip [OF wire_tree_laws])
  have "History_complete \<lparr>Events = Some [Some sample_event, Some HistoryEvent_zero]\<rparr>"
    "\<not> History_complete \<lparr>Events = Some [Some sample_event, None]\<rparr>"
    by (simp_all add: History_complete_def HistoryEvent_complete_def sample_event_def
        HistoryEvent_zero_def)
  with ok show ?thesis unfolding wire_faithful_def by blast
qed

theorem exceptions_roundtrip_witness:
  "\<exists>w. BadRequestError_ToWire wire_tree_api \<lparr>BadRequestError.Message = ''bad''\<rparr> = Inr w \<and>
      BadRequestError_FromWire wire_tree_api w BadRequestError_zero =
        Inr \<lparr>BadRequestError.Message = ''bad''\<rparr>"
proof -
  have "wire_faithful wire_tree_api (BadRequestError_ToWire wire_tree_api)
      (BadRequestError_FromWire wire_tree_api) BadRequestError_zero (\<lambda>_. True)"
    by (simp only: exceptions_roundtrip [OF wire_tree_laws])
  then show ?thesis by (auto simp: wire_faithful_def)
qed

text \<open>
  C21: every 32-bit value of each of the 22 enumerations, named or not,
  is read back from its text and from its JSON, in which exactly the known values are
  strings; a JSON string that holds a number is taken for that number.
\<close>

theorem enum_text_roundtrip:
  "ArchivalStatus_UnmarshalText (ArchivalStatus_MarshalText v) = Inr v \<and>
    (\<exists>t. ArchivalStatus_MarshalJSON v = token_text t \<and> ArchivalStatus_UnmarshalJSON text (Inr t) =
        Inr v \<and>
      ((\<exists>s. t = JSON_String s) \<longleftrightarrow> v \<in> set ArchivalStatus_Values)) \<and>
    ArchivalStatus_UnmarshalJSON text (Inr (JSON_String (FormatInt (sint v)))) = Inr v \<and>
    CancelExternalWorkflowExecutionFailedCause_UnmarshalText
        (CancelExternalWorkflowExecutionFailedCause_MarshalText v) = Inr v \<and>
    (\<exists>t. CancelExternalWorkflowExecutionFailedCause_MarshalJSON v = token_text t \<and>
        CancelExternalWorkflowExecutionFailedCause_UnmarshalJSON text (Inr t) = Inr v \<and>
      ((\<exists>s. t = JSON_String s) \<longleftrightarrow> v \<in> set CancelExternalWorkflowExecutionFailedCause_Values)) \<and>
    CancelExternalWorkflowExecutionFailedCause_UnmarshalJSON text (Inr (JSON_String (FormatInt (sint
        v)))) = Inr v \<and>
    ChildWorkflowExecutionFailedCause_UnmarshalText (ChildWorkflowExecutionFailedCause_MarshalText
        v) = Inr v \<and>
    (\<exists>t. ChildWorkflowExecutionFailedCause_MarshalJSON v = token_text t \<and>
        ChildWorkflowExecutionFailedCause_UnmarshalJSON text (Inr t) = Inr v \<and>
      ((\<exists>s. t = JSON_String s) \<longleftrightarrow> v \<in> set ChildWorkflowExecutionFailedCause_Values)) \<and>
    ChildWorkflowExecutionFailedCause_UnmarshalJSON text (Inr (JSON_String (FormatInt (sint v)))) =
        Inr v \<and>
    ContinueAsNewInitiator_UnmarshalText (ContinueAsNewInitiator_MarshalText v) = Inr v \<and>
    (\<exists>t. ContinueAsNewInitiator_MarshalJSON v = token_text t \<and> ContinueAsNewInitiator_UnmarshalJSON
        text (Inr t) = Inr v \<and>
      ((\<exists>s. t = JSON_String s) \<longleftrightarrow> v \<in> set ContinueAsNewInitiator_Values)) \<and>
    ContinueAsNewInitiator_UnmarshalJSON text (Inr (JSON_String (FormatInt (sint v)))) = Inr v \<and>
    DecisionTaskFailedCause_UnmarshalText (DecisionTaskFailedCause_MarshalText v) = Inr v \<and>
    (\<exists>t. DecisionTaskFailedCause_MarshalJSON v = token_text t \<and>
        DecisionTaskFailedCause_UnmarshalJSON text (Inr t) = Inr v \<and>
      ((\<exists>s. t = JSON_String s) \<longleftrightarrow> v \<in> set DecisionTaskFailedCause_Values)) \<and>
    DecisionTaskFailedCause_UnmarshalJSON text (Inr (JSON_String (FormatInt (sint v)))) = Inr v \<and>
    DecisionType_UnmarshalText (DecisionType_MarshalText v) = Inr v \<and>
    (\<exists>t. DecisionType_MarshalJSON v = token_text t \<and> DecisionType_UnmarshalJSON text (Inr t) = Inr v
        \<and>
      ((\<exists>s. t = JSON_String s) \<longleftrightarrow> v \<in> set DecisionType_Values)) \<and>
    DecisionType_UnmarshalJSON text (Inr (JSON_String (FormatInt (sint v)))) = Inr v \<and>
    DomainStatus_UnmarshalText (DomainStatus_MarshalText v) = Inr v \<and>
    (\<exists>t. DomainStatus_MarshalJSON v = token_text t \<and> DomainStatus_UnmarshalJSON text (Inr t) = Inr v
        \<and>
      ((\<exists>s. t = JSON_String s) \<longleftrightarrow> v \<in> set DomainStatus_Values)) \<and>
    DomainStatus_UnmarshalJSON text (Inr (JSON_String (FormatInt (sint v)))) = Inr v \<and>
    EncodingType_UnmarshalText (EncodingType_MarshalText v) = Inr v \<and>
    (\<exists>t. EncodingType_MarshalJSON v = token_text t \<and> EncodingType_UnmarshalJSON text (Inr t) = Inr v
        \<and>
      ((\<exists>s. t = JSON_String s) \<longleftrightarrow> v \<in> set EncodingType_Values)) \<and>
    EncodingType_UnmarshalJSON text (Inr (JSON_String (FormatInt (sint v)))) = Inr v \<and>
    EventType_UnmarshalText (EventType_MarshalText v) = Inr v \<and>
    (\<exists>t. EventType_MarshalJSON v = token_text t \<and> EventType_UnmarshalJSON text (Inr t) = Inr v \<and>
      ((\<exists>s. t = JSON_String s) \<longleftrightarrow> v \<in> set EventType_Values)) \<and>
    EventType_UnmarshalJSON text (Inr (JSON_String (FormatInt (sint v)))) = Inr v \<and>
    HistoryEventFilterType_UnmarshalText (HistoryEventFilterType_MarshalText v) = Inr v \<and>
    (\<exists>t. HistoryEventFilterType_MarshalJSON v = token_text t \<and> HistoryEventFilterType_UnmarshalJSON
        text (Inr t) = Inr v \<and>
      ((\<exists>s. t = JSON_String s) \<longleftrightarrow> v \<in> set HistoryEventFilterType_Values)) \<and>
    HistoryEventFilterType_UnmarshalJSON text (Inr (JSON_String (FormatInt (sint v)))) = Inr v \<and>
    IndexedValueType_UnmarshalText (IndexedValueType_MarshalText v) = Inr v \<and>
    (\<exists>t. IndexedValueType_MarshalJSON v = token_text t \<and> IndexedValueType_UnmarshalJSON text (Inr t)
        = Inr v \<and>
      ((\<exists>s. t = JSON_String s) \<longleftrightarrow> v \<in> set IndexedValueType_Values)) \<and>
    IndexedValueType_UnmarshalJSON text (Inr (JSON_String (FormatInt (sint v)))) = Inr v \<and>
    ParentClosePolicy_UnmarshalText (ParentClosePolicy_MarshalText v) = Inr v \<and>
    (\<exists>t. ParentClosePolicy_MarshalJSON v = token_text t \<and> ParentClosePolicy_UnmarshalJSON text (Inr
        t) = Inr v \<and>
      ((\<exists>s. t = JSON_String s) \<longleftrightarrow> v \<in> set ParentClosePolicy_Values)) \<and>
    ParentClosePolicy_UnmarshalJSON text (Inr (JSON_String (FormatInt (sint v)))) = Inr v \<and>
    PendingActivityState_UnmarshalText (PendingActivityState_MarshalText v) = Inr v \<and>
    (\<exists>t. PendingActivityState_MarshalJSON v = token_text t \<and> PendingActivityState_UnmarshalJSON text
        (Inr t) = Inr v \<and>
      ((\<exists>s. t = JSON_String s) \<longleftrightarrow> v \<in> set PendingActivityState_Values)) \<and>
    PendingActivityState_UnmarshalJSON text (Inr (JSON_String (FormatInt (sint v)))) = Inr v \<and>
    QueryRejectCondition_UnmarshalText (QueryRejectCondition_MarshalText v) = Inr v \<and>
    (\<exists>t. QueryRejectCondition_MarshalJSON v = token_text t \<and> QueryRejectCondition_UnmarshalJSON text
        (Inr t) = Inr v \<and>
      ((\<exists>s. t = JSON_String s) \<longleftrightarrow> v \<in> set QueryRejectCondition_Values)) \<and>
    QueryRejectCondition_UnmarshalJSON text (Inr (JSON_String (FormatInt (sint v)))) = Inr v \<and>
    QueryResultType_UnmarshalText (QueryResultType_MarshalText v) = Inr v \<and>
    (\<exists>t. QueryResultType_MarshalJSON v = token_text t \<and> QueryResultType_UnmarshalJSON text (Inr t) =
        Inr v \<and>
      ((\<exists>s. t = JSON_String s) \<longleftrightarrow> v \<in> set QueryResultType_Values)) \<and>
    QueryResultType_UnmarshalJSON text (Inr (JSON_String (FormatInt (sint v)))) = Inr v \<and>
    QueryTaskCompletedType_UnmarshalText (QueryTaskCompletedType_MarshalText v) = Inr v \<and>
    (\<exists>t. QueryTaskCompletedType_MarshalJSON v = token_text t \<and> QueryTaskCompletedType_UnmarshalJSON
        text (Inr t) = Inr v \<and>
      ((\<exists>s. t = JSON_String s) \<longleftrightarrow> v \<in> set QueryTaskCompletedType_Values)) \<and>
    QueryTaskCompletedType_UnmarshalJSON text (Inr (JSON_String (FormatInt (sint v)))) = Inr v \<and>
    SignalExternalWorkflowExecutionFailedCause_UnmarshalText
        (SignalExternalWorkflowExecutionFailedCause_MarshalText v) = Inr v \<and>
    (\<exists>t. SignalExternalWorkflowExecutionFailedCause_MarshalJSON v = token_text t \<and>
        SignalExternalWorkflowExecutionFailedCause_UnmarshalJSON text (Inr t) = Inr v \<and>
      ((\<exists>s. t = JSON_String s) \<longleftrightarrow> v \<in> set SignalExternalWorkflowExecutionFailedCause_Values)) \<and>
    SignalExternalWorkflowExecutionFailedCause_UnmarshalJSON text (Inr (JSON_String (FormatInt (sint
        v)))) = Inr v \<and>
    TaskListKind_UnmarshalText (TaskListKind_MarshalText v) = Inr v \<and>
    (\<exists>t. TaskListKind_MarshalJSON v = token_text t \<and> TaskListKind_UnmarshalJSON text (Inr t) = Inr v
        \<and>
      ((\<exists>s. t = JSON_String s) \<longleftrightarrow> v \<in> set TaskListKind_Values)) \<and>
    TaskListKind_UnmarshalJSON text (Inr (JSON_String (FormatInt (sint v)))) = Inr v \<and>
    TaskListType_UnmarshalText (TaskListType_MarshalText v) = Inr v \<and>
    (\<exists>t. TaskListType_MarshalJSON v = token_text t \<and> TaskListType_UnmarshalJSON text (Inr t) = Inr v
        \<and>
      ((\<exists>s. t = JSON_String s) \<longleftrightarrow> v \<in> set TaskListType_Values)) \<and>
    TaskListType_UnmarshalJSON text (Inr (JSON_String (FormatInt (sint v)))) = Inr v \<and>
    TimeoutType_UnmarshalText (TimeoutType_MarshalText v) = Inr v \<and>
    (\<exists>t. TimeoutType_MarshalJSON v = token_text t \<and> TimeoutType_UnmarshalJSON text (Inr t) = Inr v \<and>
      ((\<exists>s. t = JSON_String s) \<longleftrightarrow> v \<in> set TimeoutType_Values)) \<and>
    TimeoutType_UnmarshalJSON text (Inr (JSON_String (FormatInt (sint v)))) = Inr v \<and>
    WorkflowExecutionCloseStatus_UnmarshalText (WorkflowExecutionCloseStatus_MarshalText v) = Inr v
        \<and>
    (\<exists>t. WorkflowExecutionCloseStatus_MarshalJSON v = token_text t \<and>
        WorkflowExecutionCloseStatus_UnmarshalJSON text (Inr t) = Inr v \<and>
      ((\<exists>s. t = JSON_String s) \<longleftrightarrow> v \<in> set WorkflowExecutionCloseStatus_Values)) \<and>
    WorkflowExecutionCloseStatus_UnmarshalJSON text (Inr (JSON_String (FormatInt (sint v)))) = Inr v
        \<and>
    WorkflowIdReusePolicy_UnmarshalText (WorkflowIdReusePolicy_MarshalText v) = Inr v \<and>
    (\<exists>t. WorkflowIdReusePolicy_MarshalJSON v = token_text t \<and> WorkflowIdReusePolicy_UnmarshalJSON
        text (Inr t) = Inr v \<and>
      ((\<exists>s. t = JSON_String s) \<longleftrightarrow> v \<in> set WorkflowIdReusePolicy_Values)) \<and>
    WorkflowIdReusePolicy_UnmarshalJSON text (Inr (JSON_String (FormatInt (sint v)))) = Inr v"
  by (intro conjI ArchivalStatus.text_roundtrip ArchivalStatus.json_roundtrip
      ArchivalStatus.numeric_string
    CancelExternalWorkflowExecutionFailedCause.text_roundtrip
        CancelExternalWorkflowExecutionFailedCause.json_roundtrip
        CancelExternalWorkflowExecutionFailedCause.numeric_string
    ChildWorkflowExecutionFailedCause.text_roundtrip
        ChildWorkflowExecutionFailedCause.json_roundtrip
        ChildWorkflowExecutionFailedCause.numeric_string
    ContinueAsNewInitiator.text_roundtrip ContinueAsNewInitiator.json_roundtrip
        ContinueAsNewInitiator.numeric_string
    DecisionTaskFailedCause.text_roundtrip DecisionTaskFailedCause.json_roundtrip
        DecisionTaskFailedCause.numeric_string
    DecisionType.text_roundtrip DecisionType.json_roundtrip DecisionType.numeric_string
    DomainStatus.text_roundtrip DomainStatus.json_roundtrip DomainStatus.numeric_string
    EncodingType.text_roundtrip EncodingType.json_roundtrip EncodingType.numeric_string
    EventType.text_roundtrip EventType.json_roundtrip EventType.numeric_string
    HistoryEventFilterType.text_roundtrip HistoryEventFilterType.json_roundtrip
        HistoryEventFilterType.numeric_string
    IndexedValueType.text_roundtrip IndexedValueType.json_roundtrip IndexedValueType.numeric_string
    ParentClosePolicy.text_roundtrip ParentClosePolicy.json_roundtrip
        ParentClosePolicy.numeric_string
    PendingActivityState.text_roundtrip PendingActivityState.json_roundtrip
        PendingActivityState.numeric_string
    QueryRejectCondition.text_roundtrip QueryRejectCondition.json_roundtrip
        QueryRejectCondition.numeric_string
    QueryResultType.text_roundtrip QueryResultType.json_roundtrip QueryResultType.numeric_string
    QueryTaskCompletedType.text_roundtrip QueryTaskCompletedType.json_roundtrip
        QueryTaskCompletedType.numeric_string
    SignalExternalWorkflowExecutionFailedCause.text_roundtrip
        SignalExternalWorkflowExecutionFailedCause.json_roundtrip
        SignalExternalWorkflowExecutionFailedCause.numeric_string
    TaskListKind.text_roundtrip TaskListKind.json_roundtrip TaskListKind.numeric_string
    TaskListType.text_roundtrip TaskListType.json_roundtrip TaskListType.numeric_string
    TimeoutType.text_roundtrip TimeoutType.json_roundtrip TimeoutType.numeric_string
    WorkflowExecutionCloseStatus.text_roundtrip WorkflowExecutionCloseStatus.json_roundtrip
        WorkflowExecutionCloseStatus.numeric_string
    WorkflowIdReusePolicy.text_roundtrip WorkflowIdReusePolicy.json_roundtrip
        WorkflowIdReusePolicy.numeric_string)

text \<open>
  C23: the Equals methods of histories, events, decisions, requests, responses
  and exceptions, which compare pointers, lists and maps field by field, agree with equality
  on values without NaN, negative zero or nil in a map.
\<close>

theorem messages_equal:
  "equals_faithful ActivityTaskCancelRequestedEventAttributes_Equals (\<lambda>_. True) \<and>
    equals_faithful ActivityTaskCanceledEventAttributes_Equals (\<lambda>_. True) \<and>
    equals_faithful ActivityTaskCompletedEventAttributes_Equals (\<lambda>_. True) \<and>
    equals_faithful ActivityTaskFailedEventAttributes_Equals (\<lambda>_. True) \<and>
    equals_faithful ActivityTaskScheduledEventAttributes_Equals
        ActivityTaskScheduledEventAttributes_comparable \<and>
    equals_faithful ActivityTaskStartedEventAttributes_Equals (\<lambda>_. True) \<and>
    equals_faithful ActivityTaskTimedOutEventAttributes_Equals (\<lambda>_. True) \<and>
    equals_faithful CancelTimerFailedEventAttributes_Equals (\<lambda>_. True) \<and>
    equals_faithful DecisionTaskCompletedEventAttributes_Equals (\<lambda>_. True) \<and>
    equals_faithful DecisionTaskFailedEventAttributes_Equals (\<lambda>_. True) \<and>
    equals_faithful DecisionTaskScheduledEventAttributes_Equals (\<lambda>_. True) \<and>
    equals_faithful DecisionTaskStartedEventAttributes_Equals (\<lambda>_. True) \<and>
    equals_faithful DecisionTaskTimedOutEventAttributes_Equals (\<lambda>_. True) \<and>
    equals_faithful RequestCancelActivityTaskFailedEventAttributes_Equals (\<lambda>_. True) \<and>
    equals_faithful TimerCanceledEventAttributes_Equals (\<lambda>_. True) \<and>
    equals_faithful TimerFiredEventAttributes_Equals (\<lambda>_. True) \<and>
    equals_faithful TimerStartedEventAttributes_Equals (\<lambda>_. True) \<and>
    equals_faithful ChildWorkflowExecutionCanceledEventAttributes_Equals (\<lambda>_. True) \<and>
    equals_faithful ChildWorkflowExecutionCompletedEventAttributes_Equals (\<lambda>_. True) \<and>
    equals_faithful ChildWorkflowExecutionFailedEventAttributes_Equals (\<lambda>_. True) \<and>
    equals_faithful ChildWorkflowExecutionStartedEventAttributes_Equals
        ChildWorkflowExecutionStartedEventAttributes_comparable \<and>
    equals_faithful ChildWorkflowExecutionTerminatedEventAttributes_Equals (\<lambda>_. True) \<and>
    equals_faithful ChildWorkflowExecutionTimedOutEventAttributes_Equals (\<lambda>_. True) \<and>
    equals_faithful ExternalWorkflowExecutionCancelRequestedEventAttributes_Equals (\<lambda>_. True) \<and>
    equals_faithful ExternalWorkflowExecutionSignaledEventAttributes_Equals (\<lambda>_. True) \<and>
    equals_faithful MarkerRecordedEventAttributes_Equals MarkerRecordedEventAttributes_comparable \<and>
    equals_faithful RequestCancelExternalWorkflowExecutionFailedEventAttributes_Equals (\<lambda>_. True) \<and>
    equals_faithful RequestCancelExternalWorkflowExecutionInitiatedEventAttributes_Equals (\<lambda>_. True)
        \<and>
    equals_faithful SignalExternalWorkflowExecutionFailedEventAttributes_Equals (\<lambda>_. True) \<and>
    equals_faithful SignalExternalWorkflowExecutionInitiatedEventAttributes_Equals (\<lambda>_. True) \<and>
    equals_faithful StartChildWorkflowExecutionFailedEventAttributes_Equals (\<lambda>_. True) \<and>
    equals_faithful StartChildWorkflowExecutionInitiatedEventAttributes_Equals
        StartChildWorkflowExecutionInitiatedEventAttributes_comparable \<and>
    equals_faithful UpsertWorkflowSearchAttributesEventAttributes_Equals
        UpsertWorkflowSearchAttributesEventAttributes_comparable \<and>
    equals_faithful WorkflowExecutionCancelRequestedEventAttributes_Equals (\<lambda>_. True) \<and>
    equals_faithful WorkflowExecutionCanceledEventAttributes_Equals (\<lambda>_. True) \<and>
    equals_faithful WorkflowExecutionCompletedEventAttributes_Equals (\<lambda>_. True) \<and>
    equals_faithful WorkflowExecutionContinuedAsNewEventAttributes_Equals
        WorkflowExecutionContinuedAsNewEventAttributes_comparable \<and>
    equals_faithful WorkflowExecutionFailedEventAttributes_Equals (\<lambda>_. True) \<and>
    equals_faithful WorkflowExecutionSignaledEventAttributes_Equals (\<lambda>_. True) \<and>
    equals_faithful WorkflowExecutionStartedEventAttributes_Equals
        WorkflowExecutionStartedEventAttributes_comparable \<and>
    equals_faithful WorkflowExecutionTerminatedEventAttributes_Equals (\<lambda>_. True) \<and>
    equals_faithful WorkflowExecutionTimedOutEventAttributes_Equals (\<lambda>_. True) \<and>
    equals_faithful CancelTimerDecisionAttributes_Equals (\<lambda>_. True) \<and>
    equals_faithful CancelWorkflowExecutionDecisionAttributes_Equals (\<lambda>_. True) \<and>
    equals_faithful CompleteWorkflowExecutionDecisionAttributes_Equals (\<lambda>_. True) \<and>
    equals_faithful ContinueAsNewWorkflowExecutionDecisionAttributes_Equals
        ContinueAsNewWorkflowExecutionDecisionAttributes_comparable \<and>
    equals_faithful FailWorkflowExecutionDecisionAttributes_Equals (\<lambda>_. True) \<and>
    equals_faithful RecordMarkerDecisionAttributes_Equals RecordMarkerDecisionAttributes_comparable
        \<and>
    equals_faithful RequestCancelActivityTaskDecisionAttributes_Equals (\<lambda>_. True) \<and>
    equals_faithful RequestCancelExternalWorkflowExecutionDecisionAttributes_Equals (\<lambda>_. True) \<and>
    equals_faithful ScheduleActivityTaskDecisionAttributes_Equals
        ScheduleActivityTaskDecisionAttributes_comparable \<and>
    equals_faithful SignalExternalWorkflowExecutionDecisionAttributes_Equals (\<lambda>_. True) \<and>
    equals_faithful StartChildWorkflowExecutionDecisionAttributes_Equals
        StartChildWorkflowExecutionDecisionAttributes_comparable \<and>
    equals_faithful StartTimerDecisionAttributes_Equals (\<lambda>_. True) \<and>
    equals_faithful UpsertWorkflowSearchAttributesDecisionAttributes_Equals
        UpsertWorkflowSearchAttributesDecisionAttributes_comparable \<and>
    equals_faithful HistoryEvent_Equals HistoryEvent_comparable \<and>
    equals_faithful History_Equals History_comparable \<and>
    equals_faithful Decision_Equals Decision_comparable \<and>
    equals_faithful RecordActivityTaskHeartbeatRequest_Equals (\<lambda>_. True) \<and>
    equals_faithful RespondActivityTaskCompletedRequest_Equals (\<lambda>_. True) \<and>
    equals_faithful RespondActivityTaskFailedRequest_Equals (\<lambda>_. True) \<and>
    equals_faithful RespondActivityTaskCanceledRequest_Equals (\<lambda>_. True) \<and>
    equals_faithful RecordActivityTaskHeartbeatResponse_Equals (\<lambda>_. True) \<and>
    equals_faithful PollForActivityTaskRequest_Equals PollForActivityTaskRequest_comparable \<and>
    equals_faithful PollForActivityTaskResponse_Equals PollForActivityTaskResponse_comparable \<and>
    equals_faithful RecordActivityTaskHeartbeatByIDRequest_Equals (\<lambda>_. True) \<and>
    equals_faithful RespondActivityTaskCanceledByIDRequest_Equals (\<lambda>_. True) \<and>
    equals_faithful RespondActivityTaskCompletedByIDRequest_Equals (\<lambda>_. True) \<and>
    equals_faithful RespondActivityTaskFailedByIDRequest_Equals (\<lambda>_. True) \<and>
    equals_faithful DeprecateDomainRequest_Equals (\<lambda>_. True) \<and>
    equals_faithful DescribeDomainRequest_Equals (\<lambda>_. True) \<and>
    equals_faithful DescribeDomainResponse_Equals (\<lambda>_. True) \<and>
    equals_faithful ListDomainsRequest_Equals (\<lambda>_. True) \<and>
    equals_faithful ListDomainsResponse_Equals (\<lambda>_. True) \<and>
    equals_faithful RegisterDomainRequest_Equals (\<lambda>_. True) \<and>
    equals_faithful UpdateDomainRequest_Equals (\<lambda>_. True) \<and>
    equals_faithful UpdateDomainResponse_Equals (\<lambda>_. True) \<and>
    equals_faithful CloseShardRequest_Equals (\<lambda>_. True) \<and>
    equals_faithful CountWorkflowExecutionsRequest_Equals (\<lambda>_. True) \<and>
    equals_faithful CountWorkflowExecutionsResponse_Equals (\<lambda>_. True) \<and>
    equals_faithful DescribeHistoryHostRequest_Equals (\<lambda>_. True) \<and>
    equals_faithful DescribeHistoryHostResponse_Equals (\<lambda>_. True) \<and>
    equals_faithful DescribeTaskListRequest_Equals (\<lambda>_. True) \<and>
    equals_faithful DescribeTaskListResponse_Equals DescribeTaskListResponse_comparable \<and>
    equals_faithful DescribeWorkflowExecutionRequest_Equals (\<lambda>_. True) \<and>
    equals_faithful DescribeWorkflowExecutionResponse_Equals
        DescribeWorkflowExecutionResponse_comparable \<and>
    equals_faithful GetSearchAttributesResponse_Equals (\<lambda>_. True) \<and>
    equals_faithful GetWorkflowExecutionHistoryRequest_Equals (\<lambda>_. True) \<and>
    equals_faithful GetWorkflowExecutionHistoryResponse_Equals
        GetWorkflowExecutionHistoryResponse_comparable \<and>
    equals_faithful ListArchivedWorkflowExecutionsRequest_Equals (\<lambda>_. True) \<and>
    equals_faithful ListArchivedWorkflowExecutionsResponse_Equals
        ListArchivedWorkflowExecutionsResponse_comparable \<and>
    equals_faithful ListClosedWorkflowExecutionsRequest_Equals (\<lambda>_. True) \<and>
    equals_faithful ListClosedWorkflowExecutionsResponse_Equals
        ListClosedWorkflowExecutionsResponse_comparable \<and>
    equals_faithful ListOpenWorkflowExecutionsRequest_Equals (\<lambda>_. True) \<and>
    equals_faithful ListOpenWorkflowExecutionsResponse_Equals
        ListOpenWorkflowExecutionsResponse_comparable \<and>
    equals_faithful ListWorkflowExecutionsRequest_Equals (\<lambda>_. True) \<and>
    equals_faithful ListWorkflowExecutionsResponse_Equals ListWorkflowExecutionsResponse_comparable
        \<and>
    equals_faithful PollForDecisionTaskRequest_Equals (\<lambda>_. True) \<and>
    equals_faithful PollForDecisionTaskResponse_Equals PollForDecisionTaskResponse_comparable \<and>
    equals_faithful QueryWorkflowRequest_Equals (\<lambda>_. True) \<and>
    equals_faithful QueryWorkflowResponse_Equals (\<lambda>_. True) \<and>
    equals_faithful RemoveTaskRequest_Equals (\<lambda>_. True) \<and>
    equals_faithful RequestCancelWorkflowExecutionRequest_Equals (\<lambda>_. True) \<and>
    equals_faithful ResetStickyTaskListRequest_Equals (\<lambda>_. True) \<and>
    equals_faithful ResetStickyTaskListResponse_Equals (\<lambda>_. True) \<and>
    equals_faithful ResetWorkflowExecutionRequest_Equals (\<lambda>_. True) \<and>
    equals_faithful ResetWorkflowExecutionResponse_Equals (\<lambda>_. True) \<and>
    equals_faithful RespondDecisionTaskCompletedRequest_Equals
        RespondDecisionTaskCompletedRequest_comparable \<and>
    equals_faithful RespondDecisionTaskCompletedResponse_Equals
        RespondDecisionTaskCompletedResponse_comparable \<and>
    equals_faithful RespondDecisionTaskFailedRequest_Equals (\<lambda>_. True) \<and>
    equals_faithful RespondQueryTaskCompletedRequest_Equals (\<lambda>_. True) \<and>
    equals_faithful SignalWithStartWorkflowExecutionRequest_Equals
        SignalWithStartWorkflowExecutionRequest_comparable \<and>
    equals_faithful SignalWorkflowExecutionRequest_Equals (\<lambda>_. True) \<and>
    equals_faithful StartWorkflowExecutionRequest_Equals StartWorkflowExecutionRequest_comparable \<and>
    equals_faithful StartWorkflowExecutionResponse_Equals (\<lambda>_. True) \<and>
    equals_faithful TerminateWorkflowExecutionRequest_Equals (\<lambda>_. True) \<and>
    equals_faithful BadRequestError_Equals (\<lambda>_. True) \<and>
    equals_faithful InternalServiceError_Equals (\<lambda>_. True) \<and>
    equals_faithful EntityNotExistsError_Equals (\<lambda>_. True) \<and>
    equals_faithful ServiceBusyError_Equals (\<lambda>_. True) \<and>
    equals_faithful ClientVersionNotSupportedError_Equals (\<lambda>_. True) \<and>
    equals_faithful DomainNotActiveError_Equals (\<lambda>_. True) \<and>
    equals_faithful LimitExceededError_Equals (\<lambda>_. True) \<and>
    equals_faithful WorkflowExecutionAlreadyStartedError_Equals (\<lambda>_. True) \<and>
    equals_faithful CancellationAlreadyRequestedError_Equals (\<lambda>_. True) \<and>
    equals_faithful DomainAlreadyExistsError_Equals (\<lambda>_. True) \<and>
    equals_faithful QueryFailedError_Equals (\<lambda>_. True)"
  by (simp_all add: equals_faithful_def
    ActivityTaskCancelRequestedEventAttributes_Equals_iff
    ActivityTaskCanceledEventAttributes_Equals_iff
    ActivityTaskCompletedEventAttributes_Equals_iff
    ActivityTaskFailedEventAttributes_Equals_iff
    ActivityTaskScheduledEventAttributes_Equals_iff
    ActivityTaskStartedEventAttributes_Equals_iff
    ActivityTaskTimedOutEventAttributes_Equals_iff
    CancelTimerFailedEventAttributes_Equals_iff
    DecisionTaskCompletedEventAttributes_Equals_iff
    DecisionTaskFailedEventAttributes_Equals_iff
    DecisionTaskScheduledEventAttributes_Equals_iff
    DecisionTaskStartedEventAttributes_Equals_iff
    DecisionTaskTimedOutEventAttributes_Equals_iff
    RequestCancelActivityTaskFailedEventAttributes_Equals_iff
    TimerCanceledEventAttributes_Equals_iff
    TimerFiredEventAttributes_Equals_iff
    TimerStartedEventAttributes_Equals_iff
    ChildWorkflowExecutionCanceledEventAttributes_Equals_iff
    ChildWorkflowExecutionCompletedEventAttributes_Equals_iff
    ChildWorkflowExecutionFailedEventAttributes_Equals_iff
    ChildWorkflowExecutionStartedEventAttributes_Equals_iff
    ChildWorkflowExecutionTerminatedEventAttributes_Equals_iff
    ChildWorkflowExecutionTimedOutEventAttributes_Equals_iff
    ExternalWorkflowExecutionCancelRequestedEventAttributes_Equals_iff
    ExternalWorkflowExecutionSignaledEventAttributes_Equals_iff
    MarkerRecordedEventAttributes_Equals_iff
    RequestCancelExternalWorkflowExecutionFailedEventAttributes_Equals_iff
    RequestCancelExternalWorkflowExecutionInitiatedEventAttributes_Equals_iff
    SignalExternalWorkflowExecutionFailedEventAttributes_Equals_iff
    SignalExternalWorkflowExecutionInitiatedEventAttributes_Equals_iff
    StartChildWorkflowExecutionFailedEventAttributes_Equals_iff
    StartChildWorkflowExecutionInitiatedEventAttributes_Equals_iff
    UpsertWorkflowSearchAttributesEventAttributes_Equals_iff
    WorkflowExecutionCancelRequestedEventAttributes_Equals_iff
    WorkflowExecutionCanceledEventAttributes_Equals_iff
    WorkflowExecutionCompletedEventAttributes_Equals_iff
    WorkflowExecutionContinuedAsNewEventAttributes_Equals_iff
    WorkflowExecutionFailedEventAttributes_Equals_iff
    WorkflowExecutionSignaledEventAttributes_Equals_iff
    WorkflowExecutionStartedEventAttributes_Equals_iff
    WorkflowExecutionTerminatedEventAttributes_Equals_iff
    WorkflowExecutionTimedOutEventAttributes_Equals_iff
    CancelTimerDecisionAttributes_Equals_iff
    CancelWorkflowExecutionDecisionAttributes_Equals_iff
    CompleteWorkflowExecutionDecisionAttributes_Equals_iff
    ContinueAsNewWorkflowExecutionDecisionAttributes_Equals_iff
    FailWorkflowExecutionDecisionAttributes_Equals_iff
    RecordMarkerDecisionAttributes_Equals_iff
    RequestCancelActivityTaskDecisionAttributes_Equals_iff
    RequestCancelExternalWorkflowExecutionDecisionAttributes_Equals_iff
    ScheduleActivityTaskDecisionAttributes_Equals_iff
    SignalExternalWorkflowExecutionDecisionAttributes_Equals_iff
    StartChildWorkflowExecutionDecisionAttributes_Equals_iff
    StartTimerDecisionAttributes_Equals_iff
    UpsertWorkflowSearchAttributesDecisionAttributes_Equals_iff
    HistoryEvent_Equals_iff
    History_Equals_iff
    Decision_Equals_iff
    RecordActivityTaskHeartbeatRequest_Equals_iff
    RespondActivityTaskCompletedRequest_Equals_iff
    RespondActivityTaskFailedRequest_Equals_iff
    RespondActivityTaskCanceledRequest_Equals_iff
    RecordActivityTaskHeartbeatResponse_Equals_iff
    PollForActivityTaskRequest_Equals_iff
    PollForActivityTaskResponse_Equals_iff
    RecordActivityTaskHeartbeatByIDRequest_Equals_iff
    RespondActivityTaskCanceledByIDRequest_Equals_iff
    RespondActivityTaskCompletedByIDRequest_Equals_iff
    RespondActivityTaskFailedByIDRequest_Equals_iff
    DeprecateDomainRequest_Equals_iff
    DescribeDomainRequest_Equals_iff
    DescribeDomainResponse_Equals_iff
    ListDomainsRequest_Equals_iff
    ListDomainsResponse_Equals_iff
    RegisterDomainRequest_Equals_iff
    UpdateDomainRequest_Equals_iff
    UpdateDomainResponse_Equals_iff
    CloseShardRequest_Equals_iff
    CountWorkflowExecutionsRequest_Equals_iff
    CountWorkflowExecutionsResponse_Equals_iff
    DescribeHistoryHostRequest_Equals_iff
    DescribeHistoryHostResponse_Equals_iff
    DescribeTaskListRequest_Equals_iff
    DescribeTaskListResponse_Equals_iff
    DescribeWorkflowExecutionRequest_Equals_iff
    DescribeWorkflowExecutionResponse_Equals_iff
    GetSearchAttributesResponse_Equals_iff
    GetWorkflowExecutionHistoryRequest_Equals_iff
    GetWorkflowExecutionHistoryResponse_Equals_iff
    ListArchivedWorkflowExecutionsRequest_Equals_iff
    ListArchivedWorkflowExecutionsResponse_Equals_iff
    ListClosedWorkflowExecutionsRequest_Equals_iff
    ListClosedWorkflowExecutionsResponse_Equals_iff
    ListOpenWorkflowExecutionsRequest_Equals_iff
    ListOpenWorkflowExecutionsResponse_Equals_iff
    ListWorkflowExecutionsRequest_Equals_iff
    ListWorkflowExecutionsResponse_Equals_iff
    PollForDecisionTaskRequest_Equals_iff
    PollForDecisionTaskResponse_Equals_iff
    QueryWorkflowRequest_Equals_iff
    QueryWorkflowResponse_Equals_iff
    RemoveTaskRequest_Equals_iff
    RequestCancelWorkflowExecutionRequest_Equals_iff
    ResetStickyTaskListRequest_Equals_iff
    ResetStickyTaskListResponse_Equals_iff
    ResetWorkflowExecutionRequest_Equals_iff
    ResetWorkflowExecutionResponse_Equals_iff
    RespondDecisionTaskCompletedRequest_Equals_iff
    RespondDecisionTaskCompletedResponse_Equals_iff
    RespondDecisionTaskFailedRequest_Equals_iff
    RespondQueryTaskCompletedRequest_Equals_iff
    SignalWithStartWorkflowExecutionRequest_Equals_iff
    SignalWorkflowExecutionRequest_Equals_iff
    StartWorkflowExecutionRequest_Equals_iff
    StartWorkflowExecutionResponse_Equals_iff
    TerminateWorkflowExecutionRequest_Equals_iff
    BadRequestError_Equals_iff
    InternalServiceError_Equals_iff
    EntityNotExistsError_Equals_iff
    ServiceBusyError_Equals_iff
    ClientVersionNotSupportedError_Equals_iff
    DomainNotActiveError_Equals_iff
    LimitExceededError_Equals_iff
    WorkflowExecutionAlreadyStartedError_Equals_iff
    CancellationAlreadyRequestedError_Equals_iff
    DomainAlreadyExistsError_Equals_iff
    QueryFailedError_Equals_iff)

end
