(* ===== verification/GoProperties.thy ===== *)
theory GoProperties
  imports GoProxy GoMessageProperties
begin

text \<open>
  The properties of the proxy: a result struct holds one outcome, a call through the proxy
  ends as the call to the backend would, and the routing and configuration of the process.
  Each witness evaluates the property at the reference library \<open>wire_tree_api\<close> and, where
  calls are made, at \<open>direct_call\<close>.
\<close>

text \<open>
  C22: the result struct of a method with a result is encoded to
  what can be written exactly when one of its fields is set (and the result inside holds no
  nil in a list or map), that of a void method when at most one is; it reads back unchanged.
\<close>

theorem result_holds_one_outcome:
  assumes "wire_laws W"
  shows "((\<exists>w. WorkflowService_CountWorkflowExecutions_Result_ToWire W r0 = Inr w \<and> Writable W w) \<longleftrightarrow>
      WorkflowService_CountWorkflowExecutions_Result_count r0 = 1) \<and>
    (WorkflowService_CountWorkflowExecutions_Result_ToWire W r0 = Inr v \<and> Writable W v \<longrightarrow>
        WorkflowService_CountWorkflowExecutions_Result_FromWire W v
        WorkflowService_CountWorkflowExecutions_Result_zero = Inr r0) \<and>
    ((\<exists>w. WorkflowService_DeprecateDomain_Result_ToWire W r1 = Inr w \<and> Writable W w) \<longleftrightarrow>
        WorkflowService_DeprecateDomain_Result_count r1 \<le> 1) \<and>
    (WorkflowService_DeprecateDomain_Result_ToWire W r1 = Inr v \<and> Writable W v \<longrightarrow>
        WorkflowService_DeprecateDomain_Result_FromWire W v
        WorkflowService_DeprecateDomain_Result_zero = Inr r1) \<and>
    ((\<exists>w. WorkflowService_DescribeDomain_Result_ToWire W r2 = Inr w \<and> Writable W w) \<longleftrightarrow>
        WorkflowService_DescribeDomain_Result_count r2 = 1 \<and> if_set DescribeDomainResponse_complete
        (WorkflowService_DescribeDomain_Result.Success r2)) \<and>
    (WorkflowService_DescribeDomain_Result_ToWire W r2 = Inr v \<and> Writable W v \<longrightarrow>
        WorkflowService_DescribeDomain_Result_FromWire W v
        WorkflowService_DescribeDomain_Result_zero = Inr r2) \<and>
    ((\<exists>w. WorkflowService_DescribeTaskList_Result_ToWire W r3 = Inr w \<and> Writable W w) \<longleftrightarrow>
        WorkflowService_DescribeTaskList_Result_count r3 = 1 \<and> if_set
        DescribeTaskListResponse_complete (WorkflowService_DescribeTaskList_Result.Success r3)) \<and>
    (WorkflowService_DescribeTaskList_Result_ToWire W r3 = Inr v \<and> Writable W v \<longrightarrow>
        WorkflowService_DescribeTaskList_Result_FromWire W v
        WorkflowService_DescribeTaskList_Result_zero = Inr r3) \<and>
    ((\<exists>w. WorkflowService_DescribeWorkflowExecution_Result_ToWire W r4 = Inr w \<and> Writable W w) \<longleftrightarrow>
        WorkflowService_DescribeWorkflowExecution_Result_count r4 = 1 \<and> if_set
        DescribeWorkflowExecutionResponse_complete
        (WorkflowService_DescribeWorkflowExecution_Result.Success r4)) \<and>
    (WorkflowService_DescribeWorkflowExecution_Result_ToWire W r4 = Inr v \<and> Writable W v \<longrightarrow>
        WorkflowService_DescribeWorkflowExecution_Result_FromWire W v
        WorkflowService_DescribeWorkflowExecution_Result_zero = Inr r4) \<and>
    ((\<exists>w. WorkflowService_GetSearchAttributes_Result_ToWire W r5 = Inr w \<and> Writable W w) \<longleftrightarrow>
        WorkflowService_GetSearchAttributes_Result_count r5 = 1) \<and>
    (WorkflowService_GetSearchAttributes_Result_ToWire W r5 = Inr v \<and> Writable W v \<longrightarrow>
        WorkflowService_GetSearchAttributes_Result_FromWire W v
        WorkflowService_GetSearchAttributes_Result_zero = Inr r5) \<and>
    ((\<exists>w. WorkflowService_GetWorkflowExecutionHistory_Result_ToWire W r6 = Inr w \<and> Writable W w) \<longleftrightarrow>
        WorkflowService_GetWorkflowExecutionHistory_Result_count r6 = 1 \<and> if_set
        GetWorkflowExecutionHistoryResponse_complete
        (WorkflowService_GetWorkflowExecutionHistory_Result.Success r6)) \<and>
    (WorkflowService_GetWorkflowExecutionHistory_Result_ToWire W r6 = Inr v \<and> Writable W v \<longrightarrow>
        WorkflowService_GetWorkflowExecutionHistory_Result_FromWire W v
        WorkflowService_GetWorkflowExecutionHistory_Result_zero = Inr r6) \<and>
    ((\<exists>w. WorkflowService_ListArchivedWorkflowExecutions_Result_ToWire W r7 = Inr w \<and> Writable W w)
        \<longleftrightarrow> WorkflowService_ListArchivedWorkflowExecutions_Result_count r7 = 1 \<and> if_set
        ListArchivedWorkflowExecutionsResponse_complete
        (WorkflowService_ListArchivedWorkflowExecutions_Result.Success r7)) \<and>
    (WorkflowService_ListArchivedWorkflowExecutions_Result_ToWire W r7 = Inr v \<and> Writable W v \<longrightarrow>
        WorkflowService_ListArchivedWorkflowExecutions_Result_FromWire W v
        WorkflowService_ListArchivedWorkflowExecutions_Result_zero = Inr r7) \<and>
    ((\<exists>w. WorkflowService_ListClosedWorkflowExecutions_Result_ToWire W r8 = Inr w \<and> Writable W w) \<longleftrightarrow>
        WorkflowService_ListClosedWorkflowExecutions_Result_count r8 = 1 \<and> if_set
        ListClosedWorkflowExecutionsResponse_complete
        (WorkflowService_ListClosedWorkflowExecutions_Result.Success r8)) \<and>
    (WorkflowService_ListClosedWorkflowExecutions_Result_ToWire W r8 = Inr v \<and> Writable W v \<longrightarrow>
        WorkflowService_ListClosedWorkflowExecutions_Result_FromWire W v
        WorkflowService_ListClosedWorkflowExecutions_Result_zero = Inr r8) \<and>
    ((\<exists>w. WorkflowService_ListDomains_Result_ToWire W r9 = Inr w \<and> Writable W w) \<longleftrightarrow>
        WorkflowService_ListDomains_Result_count r9 = 1 \<and> if_set ListDomainsResponse_complete
        (WorkflowService_ListDomains_Result.Success r9)) \<and>
    (WorkflowService_ListDomains_Result_ToWire W r9 = Inr v \<and> Writable W v \<longrightarrow>
        WorkflowService_ListDomains_Result_FromWire W v WorkflowService_ListDomains_Result_zero =
        Inr r9) \<and>
    ((\<exists>w. WorkflowService_ListOpenWorkflowExecutions_Result_ToWire W r10 = Inr w \<and> Writable W w) \<longleftrightarrow>
        WorkflowService_ListOpenWorkflowExecutions_Result_count r10 = 1 \<and> if_set
        ListOpenWorkflowExecutionsResponse_complete
        (WorkflowService_ListOpenWorkflowExecutions_Result.Success r10)) \<and>
    (WorkflowService_ListOpenWorkflowExecutions_Result_ToWire W r10 = Inr v \<and> Writable W v \<longrightarrow>
        WorkflowService_ListOpenWorkflowExecutions_Result_FromWire W v
        WorkflowService_ListOpenWorkflowExecutions_Result_zero = Inr r10) \<and>
    ((\<exists>w. WorkflowService_ListWorkflowExecutions_Result_ToWire W r11 = Inr w \<and> Writable W w) \<longleftrightarrow>
        WorkflowService_ListWorkflowExecutions_Result_count r11 = 1 \<and> if_set
        ListWorkflowExecutionsResponse_complete
        (WorkflowService_ListWorkflowExecutions_Result.Success r11)) \<and>
    (WorkflowService_ListWorkflowExecutions_Result_ToWire W r11 = Inr v \<and> Writable W v \<longrightarrow>
        WorkflowService_ListWorkflowExecutions_Result_FromWire W v
        WorkflowService_ListWorkflowExecutions_Result_zero = Inr r11) \<and>
    ((\<exists>w. WorkflowService_PollForActivityTask_Result_ToWire W r12 = Inr w \<and> Writable W w) \<longleftrightarrow>
        WorkflowService_PollForActivityTask_Result_count r12 = 1 \<and> if_set
        PollForActivityTaskResponse_complete (WorkflowService_PollForActivityTask_Result.Success
        r12)) \<and>
    (WorkflowService_PollForActivityTask_Result_ToWire W r12 = Inr v \<and> Writable W v \<longrightarrow>
        WorkflowService_PollForActivityTask_Result_FromWire W v
        WorkflowService_PollForActivityTask_Result_zero = Inr r12) \<and>
    ((\<exists>w. WorkflowService_PollForDecisionTask_Result_ToWire W r13 = Inr w \<and> Writable W w) \<longleftrightarrow>
        WorkflowService_PollForDecisionTask_Result_count r13 = 1 \<and> if_set
        PollForDecisionTaskResponse_complete (WorkflowService_PollForDecisionTask_Result.Success
        r13)) \<and>
    (WorkflowService_PollForDecisionTask_Result_ToWire W r13 = Inr v \<and> Writable W v \<longrightarrow>
        WorkflowService_PollForDecisionTask_Result_FromWire W v
        WorkflowService_PollForDecisionTask_Result_zero = Inr r13) \<and>
    ((\<exists>w. WorkflowService_QueryWorkflow_Result_ToWire W r14 = Inr w \<and> Writable W w) \<longleftrightarrow>
        WorkflowService_QueryWorkflow_Result_count r14 = 1) \<and>
    (WorkflowService_QueryWorkflow_Result_ToWire W r14 = Inr v \<and> Writable W v \<longrightarrow>
        WorkflowService_QueryWorkflow_Result_FromWire W v WorkflowService_QueryWorkflow_Result_zero
        = Inr r14) \<and>
    ((\<exists>w. WorkflowService_RecordActivityTaskHeartbeat_Result_ToWire W r15 = Inr w \<and> Writable W w) \<longleftrightarrow>
        WorkflowService_RecordActivityTaskHeartbeat_Result_count r15 = 1) \<and>
    (WorkflowService_RecordActivityTaskHeartbeat_Result_ToWire W r15 = Inr v \<and> Writable W v \<longrightarrow>
        WorkflowService_RecordActivityTaskHeartbeat_Result_FromWire W v
        WorkflowService_RecordActivityTaskHeartbeat_Result_zero = Inr r15) \<and>
    ((\<exists>w. WorkflowService_RecordActivityTaskHeartbeatByID_Result_ToWire W r16 = Inr w \<and> Writable W
        w) \<longleftrightarrow> WorkflowService_RecordActivityTaskHeartbeatByID_Result_count r16 = 1) \<and>
    (WorkflowService_RecordActivityTaskHeartbeatByID_Result_ToWire W r16 = Inr v \<and> Writable W v \<longrightarrow>
        WorkflowService_RecordActivityTaskHeartbeatByID_Result_FromWire W v
        WorkflowService_RecordActivityTaskHeartbeatByID_Result_zero = Inr r16) \<and>
    ((\<exists>w. WorkflowService_RegisterDomain_Result_ToWire W r17 = Inr w \<and> Writable W w) \<longleftrightarrow>
        WorkflowService_RegisterDomain_Result_count r17 \<le> 1) \<and>
    (WorkflowService_RegisterDomain_Result_ToWire W r17 = Inr v \<and> Writable W v \<longrightarrow>
        WorkflowService_RegisterDomain_Result_FromWire W v
        WorkflowService_RegisterDomain_Result_zero = Inr r17) \<and>
    ((\<exists>w. WorkflowService_RequestCancelWorkflowExecution_Result_ToWire W r18 = Inr w \<and> Writable W w)
        \<longleftrightarrow> WorkflowService_RequestCancelWorkflowExecution_Result_count r18 \<le> 1) \<and>
    (WorkflowService_RequestCancelWorkflowExecution_Result_ToWire W r18 = Inr v \<and> Writable W v \<longrightarrow>
        WorkflowService_RequestCancelWorkflowExecution_Result_FromWire W v
        WorkflowService_RequestCancelWorkflowExecution_Result_zero = Inr r18) \<and>
    ((\<exists>w. WorkflowService_ResetStickyTaskList_Result_ToWire W r19 = Inr w \<and> Writable W w) \<longleftrightarrow>
        WorkflowService_ResetStickyTaskList_Result_count r19 = 1) \<and>
    (WorkflowService_ResetStickyTaskList_Result_ToWire W r19 = Inr v \<and> Writable W v \<longrightarrow>
        WorkflowService_ResetStickyTaskList_Result_FromWire W v
        WorkflowService_ResetStickyTaskList_Result_zero = Inr r19) \<and>
    ((\<exists>w. WorkflowService_ResetWorkflowExecution_Result_ToWire W r20 = Inr w \<and> Writable W w) \<longleftrightarrow>
        WorkflowService_ResetWorkflowExecution_Result_count r20 = 1) \<and>
    (WorkflowService_ResetWorkflowExecution_Result_ToWire W r20 = Inr v \<and> Writable W v \<longrightarrow>
        WorkflowService_ResetWorkflowExecution_Result_FromWire W v
        WorkflowService_ResetWorkflowExecution_Result_zero = Inr r20) \<and>
    ((\<exists>w. WorkflowService_RespondActivityTaskCanceled_Result_ToWire W r21 = Inr w \<and> Writable W w) \<longleftrightarrow>
        WorkflowService_RespondActivityTaskCanceled_Result_count r21 \<le> 1) \<and>
    (WorkflowService_RespondActivityTaskCanceled_Result_ToWire W r21 = Inr v \<and> Writable W v \<longrightarrow>
        WorkflowService_RespondActivityTaskCanceled_Result_FromWire W v
        WorkflowService_RespondActivityTaskCanceled_Result_zero = Inr r21) \<and>
    ((\<exists>w. WorkflowService_RespondActivityTaskCanceledByID_Result_ToWire W r22 = Inr w \<and> Writable W
        w) \<longleftrightarrow> WorkflowService_RespondActivityTaskCanceledByID_Result_count r22 \<le> 1) \<and>
    (WorkflowService_RespondActivityTaskCanceledByID_Result_ToWire W r22 = Inr v \<and> Writable W v \<longrightarrow>
        WorkflowService_RespondActivityTaskCanceledByID_Result_FromWire W v
        WorkflowService_RespondActivityTaskCanceledByID_Result_zero = Inr r22) \<and>
    ((\<exists>w. WorkflowService_RespondActivityTaskCompleted_Result_ToWire W r23 = Inr w \<and> Writable W w) \<longleftrightarrow>
        WorkflowService_RespondActivityTaskCompleted_Result_count r23 \<le> 1) \<and>
    (WorkflowService_RespondActivityTaskCompleted_Result_ToWire W r23 = Inr v \<and> Writable W v \<longrightarrow>
        WorkflowService_RespondActivityTaskCompleted_Result_FromWire W v
        WorkflowService_RespondActivityTaskCompleted_Result_zero = Inr r23) \<and>
    ((\<exists>w. WorkflowService_RespondActivityTaskCompletedByID_Result_ToWire W r24 = Inr w \<and> Writable W
        w) \<longleftrightarrow> WorkflowService_RespondActivityTaskCompletedByID_Result_count r24 \<le> 1) \<and>
    (WorkflowService_RespondActivityTaskCompletedByID_Result_ToWire W r24 = Inr v \<and> Writable W v \<longrightarrow>
        WorkflowService_RespondActivityTaskCompletedByID_Result_FromWire W v
        WorkflowService_RespondActivityTaskCompletedByID_Result_zero = Inr r24) \<and>
    ((\<exists>w. WorkflowService_RespondActivityTaskFailed_Result_ToWire W r25 = Inr w \<and> Writable W w) \<longleftrightarrow>
        WorkflowService_RespondActivityTaskFailed_Result_count r25 \<le> 1) \<and>
    (WorkflowService_RespondActivityTaskFailed_Result_ToWire W r25 = Inr v \<and> Writable W v \<longrightarrow>
        WorkflowService_RespondActivityTaskFailed_Result_FromWire W v
        WorkflowService_RespondActivityTaskFailed_Result_zero = Inr r25) \<and>
    ((\<exists>w. WorkflowService_RespondActivityTaskFailedByID_Result_ToWire W r26 = Inr w \<and> Writable W w)
        \<longleftrightarrow> WorkflowService_RespondActivityTaskFailedByID_Result_count r26 \<le> 1) \<and>
    (WorkflowService_RespondActivityTaskFailedByID_Result_ToWire W r26 = Inr v \<and> Writable W v \<longrightarrow>
        WorkflowService_RespondActivityTaskFailedByID_Result_FromWire W v
        WorkflowService_RespondActivityTaskFailedByID_Result_zero = Inr r26) \<and>
    ((\<exists>w. WorkflowService_RespondDecisionTaskCompleted_Result_ToWire W r27 = Inr w \<and> Writable W w) \<longleftrightarrow>
        WorkflowService_RespondDecisionTaskCompleted_Result_count r27 = 1 \<and> if_set
        RespondDecisionTaskCompletedResponse_complete
        (WorkflowService_RespondDecisionTaskCompleted_Result.Success r27)) \<and>
    (WorkflowService_RespondDecisionTaskCompleted_Result_ToWire W r27 = Inr v \<and> Writable W v \<longrightarrow>
        WorkflowService_RespondDecisionTaskCompleted_Result_FromWire W v
        WorkflowService_RespondDecisionTaskCompleted_Result_zero = Inr r27) \<and>
    ((\<exists>w. WorkflowService_RespondDecisionTaskFailed_Result_ToWire W r28 = Inr w \<and> Writable W w) \<longleftrightarrow>
        WorkflowService_RespondDecisionTaskFailed_Result_count r28 \<le> 1) \<and>
    (WorkflowService_RespondDecisionTaskFailed_Result_ToWire W r28 = Inr v \<and> Writable W v \<longrightarrow>
        WorkflowService_RespondDecisionTaskFailed_Result_FromWire W v
        WorkflowService_RespondDecisionTaskFailed_Result_zero = Inr r28) \<and>
    ((\<exists>w. WorkflowService_RespondQueryTaskCompleted_Result_ToWire W r29 = Inr w \<and> Writable W w) \<longleftrightarrow>
        WorkflowService_RespondQueryTaskCompleted_Result_count r29 \<le> 1) \<and>
    (WorkflowService_RespondQueryTaskCompleted_Result_ToWire W r29 = Inr v \<and> Writable W v \<longrightarrow>
        WorkflowService_RespondQueryTaskCompleted_Result_FromWire W v
        WorkflowService_RespondQueryTaskCompleted_Result_zero = Inr r29) \<and>
    ((\<exists>w. WorkflowService_ScanWorkflowExecutions_Result_ToWire W r30 = Inr w \<and> Writable W w) \<longleftrightarrow>
        WorkflowService_ScanWorkflowExecutions_Result_count r30 = 1 \<and> if_set
        ListWorkflowExecutionsResponse_complete
        (WorkflowService_ScanWorkflowExecutions_Result.Success r30)) \<and>
    (WorkflowService_ScanWorkflowExecutions_Result_ToWire W r30 = Inr v \<and> Writable W v \<longrightarrow>
        WorkflowService_ScanWorkflowExecutions_Result_FromWire W v
        WorkflowService_ScanWorkflowExecutions_Result_zero = Inr r30) \<and>
    ((\<exists>w. WorkflowService_SignalWithStartWorkflowExecution_Result_ToWire W r31 = Inr w \<and> Writable W
        w) \<longleftrightarrow> WorkflowService_SignalWithStartWorkflowExecution_Result_count r31 = 1) \<and>
    (WorkflowService_SignalWithStartWorkflowExecution_Result_ToWire W r31 = Inr v \<and> Writable W v \<longrightarrow>
        WorkflowService_SignalWithStartWorkflowExecution_Result_FromWire W v
        WorkflowService_SignalWithStartWorkflowExecution_Result_zero = Inr r31) \<and>
    ((\<exists>w. WorkflowService_SignalWorkflowExecution_Result_ToWire W r32 = Inr w \<and> Writable W w) \<longleftrightarrow>
        WorkflowService_SignalWorkflowExecution_Result_count r32 \<le> 1) \<and>
    (WorkflowService_SignalWorkflowExecution_Result_ToWire W r32 = Inr v \<and> Writable W v \<longrightarrow>
        WorkflowService_SignalWorkflowExecution_Result_FromWire W v
        WorkflowService_SignalWorkflowExecution_Result_zero = Inr r32) \<and>
    ((\<exists>w. WorkflowService_StartWorkflowExecution_Result_ToWire W r33 = Inr w \<and> Writable W w) \<longleftrightarrow>
        WorkflowService_StartWorkflowExecution_Result_count r33 = 1) \<and>
    (WorkflowService_StartWorkflowExecution_Result_ToWire W r33 = Inr v \<and> Writable W v \<longrightarrow>
        WorkflowService_StartWorkflowExecution_Result_FromWire W v
        WorkflowService_StartWorkflowExecution_Result_zero = Inr r33) \<and>
    ((\<exists>w. WorkflowService_TerminateWorkflowExecution_Result_ToWire W r34 = Inr w \<and> Writable W w) \<longleftrightarrow>
        WorkflowService_TerminateWorkflowExecution_Result_count r34 \<le> 1) \<and>
    (WorkflowService_TerminateWorkflowExecution_Result_ToWire W r34 = Inr v \<and> Writable W v \<longrightarrow>
        WorkflowService_TerminateWorkflowExecution_Result_FromWire W v
        WorkflowService_TerminateWorkflowExecution_Result_zero = Inr r34) \<and>
    ((\<exists>w. WorkflowService_UpdateDomain_Result_ToWire W r35 = Inr w \<and> Writable W w) \<longleftrightarrow>
        WorkflowService_UpdateDomain_Result_count r35 = 1 \<and> if_set UpdateDomainResponse_complete
        (WorkflowService_UpdateDomain_Result.Success r35)) \<and>
    (WorkflowService_UpdateDomain_Result_ToWire W r35 = Inr v \<and> Writable W v \<longrightarrow>
        WorkflowService_UpdateDomain_Result_FromWire W v WorkflowService_UpdateDomain_Result_zero =
        Inr r35)"
  by (intro conjI impI; (elim conjE)?;
    (rule WorkflowService_CountWorkflowExecutions_Result.encodes_iff_valid [OF assms]
    | erule (1) WorkflowService_CountWorkflowExecutions_Result.roundtrip(1) [OF assms]
    | rule WorkflowService_DeprecateDomain_Result.encodes_iff_valid [OF assms]
    | erule (1) WorkflowService_DeprecateDomain_Result.roundtrip(1) [OF assms]
    | rule WorkflowService_DescribeDomain_Result.encodes_iff_valid [OF assms]
    | erule (1) WorkflowService_DescribeDomain_Result.roundtrip(1) [OF assms]
    | rule WorkflowService_DescribeTaskList_Result.encodes_iff_valid [OF assms]
    | erule (1) WorkflowService_DescribeTaskList_Result.roundtrip(1) [OF assms]
    | rule WorkflowService_DescribeWorkflowExecution_Result.encodes_iff_valid [OF assms]
    | erule (1) WorkflowService_DescribeWorkflowExecution_Result.roundtrip(1) [OF assms]
    | rule WorkflowService_GetSearchAttributes_Result.encodes_iff_valid [OF assms]
    | erule (1) WorkflowService_GetSearchAttributes_Result.roundtrip(1) [OF assms]
    | rule WorkflowService_GetWorkflowExecutionHistory_Result.encodes_iff_valid [OF assms]
    | erule (1) WorkflowService_GetWorkflowExecutionHistory_Result.roundtrip(1) [OF assms]
    | rule WorkflowService_ListArchivedWorkflowExecutions_Result.encodes_iff_valid [OF assms]
    | erule (1) WorkflowService_ListArchivedWorkflowExecutions_Result.roundtrip(1) [OF assms]
    | rule WorkflowService_ListClosedWorkflowExecutions_Result.encodes_iff_valid [OF assms]
    | erule (1) WorkflowService_ListClosedWorkflowExecutions_Result.roundtrip(1) [OF assms]
    | rule WorkflowService_ListDomains_Result.encodes_iff_valid [OF assms]
    | erule (1) WorkflowService_ListDomains_Result.roundtrip(1) [OF assms]
    | rule WorkflowService_ListOpenWorkflowExecutions_Result.encodes_iff_valid [OF assms]
    | erule (1) WorkflowService_ListOpenWorkflowExecutions_Result.roundtrip(1) [OF assms]
    | rule WorkflowService_ListWorkflowExecutions_Result.encodes_iff_valid [OF assms]
    | erule (1) WorkflowService_ListWorkflowExecutions_Result.roundtrip(1) [OF assms]
    | rule WorkflowService_PollForActivityTask_Result.encodes_iff_valid [OF assms]
    | erule (1) WorkflowService_PollForActivityTask_Result.roundtrip(1) [OF assms]
    | rule WorkflowService_PollForDecisionTask_Result.encodes_iff_valid [OF assms]
    | erule (1) WorkflowService_PollForDecisionTask_Result.roundtrip(1) [OF assms]
    | rule WorkflowService_QueryWorkflow_Result.encodes_iff_valid [OF assms]
    | erule (1) WorkflowService_QueryWorkflow_Result.roundtrip(1) [OF assms]
    | rule WorkflowService_RecordActivityTaskHeartbeat_Result.encodes_iff_valid [OF assms]
    | erule (1) WorkflowService_RecordActivityTaskHeartbeat_Result.roundtrip(1) [OF assms]
    | rule WorkflowService_RecordActivityTaskHeartbeatByID_Result.encodes_iff_valid [OF assms]
    | erule (1) WorkflowService_RecordActivityTaskHeartbeatByID_Result.roundtrip(1) [OF assms]
    | rule WorkflowService_RegisterDomain_Result.encodes_iff_valid [OF assms]
    | erule (1) WorkflowService_RegisterDomain_Result.roundtrip(1) [OF assms]
    | rule WorkflowService_RequestCancelWorkflowExecution_Result.encodes_iff_valid [OF assms]
    | erule (1) WorkflowService_RequestCancelWorkflowExecution_Result.roundtrip(1) [OF assms]
    | rule WorkflowService_ResetStickyTaskList_Result.encodes_iff_valid [OF assms]
    | erule (1) WorkflowService_ResetStickyTaskList_Result.roundtrip(1) [OF assms]
    | rule WorkflowService_ResetWorkflowExecution_Result.encodes_iff_valid [OF assms]
    | erule (1) WorkflowService_ResetWorkflowExecution_Result.roundtrip(1) [OF assms]
    | rule WorkflowService_RespondActivityTaskCanceled_Result.encodes_iff_valid [OF assms]
    | erule (1) WorkflowService_RespondActivityTaskCanceled_Result.roundtrip(1) [OF assms]
    | rule WorkflowService_RespondActivityTaskCanceledByID_Result.encodes_iff_valid [OF assms]
    | erule (1) WorkflowService_RespondActivityTaskCanceledByID_Result.roundtrip(1) [OF assms]
    | rule WorkflowService_RespondActivityTaskCompleted_Result.encodes_iff_valid [OF assms]
    | erule (1) WorkflowService_RespondActivityTaskCompleted_Result.roundtrip(1) [OF assms]
    | rule WorkflowService_RespondActivityTaskCompletedByID_Result.encodes_iff_valid [OF assms]
    | erule (1) WorkflowService_RespondActivityTaskCompletedByID_Result.roundtrip(1) [OF assms]
    | rule WorkflowService_RespondActivityTaskFailed_Result.encodes_iff_valid [OF assms]
    | erule (1) WorkflowService_RespondActivityTaskFailed_Result.roundtrip(1) [OF assms]
    | rule WorkflowService_RespondActivityTaskFailedByID_Result.encodes_iff_valid [OF assms]
    | erule (1) WorkflowService_RespondActivityTaskFailedByID_Result.roundtrip(1) [OF assms]
    | rule WorkflowService_RespondDecisionTaskCompleted_Result.encodes_iff_valid [OF assms]
    | erule (1) WorkflowService_RespondDecisionTaskCompleted_Result.roundtrip(1) [OF assms]
    | rule WorkflowService_RespondDecisionTaskFailed_Result.encodes_iff_valid [OF assms]
    | erule (1) WorkflowService_RespondDecisionTaskFailed_Result.roundtrip(1) [OF assms]
    | rule WorkflowService_RespondQueryTaskCompleted_Result.encodes_iff_valid [OF assms]
    | erule (1) WorkflowService_RespondQueryTaskCompleted_Result.roundtrip(1) [OF assms]
    | rule WorkflowService_ScanWorkflowExecutions_Result.encodes_iff_valid [OF assms]
    | erule (1) WorkflowService_ScanWorkflowExecutions_Result.roundtrip(1) [OF assms]
    | rule WorkflowService_SignalWithStartWorkflowExecution_Result.encodes_iff_valid [OF assms]
    | erule (1) WorkflowService_SignalWithStartWorkflowExecution_Result.roundtrip(1) [OF assms]
    | rule WorkflowService_SignalWorkflowExecution_Result.encodes_iff_valid [OF assms]
    | erule (1) WorkflowService_SignalWorkflowExecution_Result.roundtrip(1) [OF assms]
    | rule WorkflowService_StartWorkflowExecution_Result.encodes_iff_valid [OF assms]
    | erule (1) WorkflowService_StartWorkflowExecution_Result.roundtrip(1) [OF assms]
    | rule WorkflowService_TerminateWorkflowExecution_Result.encodes_iff_valid [OF assms]
    | erule (1) WorkflowService_TerminateWorkflowExecution_Result.roundtrip(1) [OF assms]
    | rule WorkflowService_UpdateDomain_Result.encodes_iff_valid [OF assms]
    | erule (1) WorkflowService_UpdateDomain_Result.roundtrip(1) [OF assms]))

theorem result_holds_one_outcome_witness:
  "\<not> (\<exists>w. WorkflowService_ResetWorkflowExecution_Result_ToWire wire_tree_api
        WorkflowService_ResetWorkflowExecution_Result_zero = Inr w \<and> Writable wire_tree_api w)"
proof -
  have "(\<exists>w. WorkflowService_ResetWorkflowExecution_Result_ToWire wire_tree_api r = Inr w \<and> Writable
      wire_tree_api w) \<longleftrightarrow>
      WorkflowService_ResetWorkflowExecution_Result_count r = 1" for r
    by (simp only: result_holds_one_outcome [OF wire_tree_laws])
  then show ?thesis
    by (simp add: WorkflowService_ResetWorkflowExecution_Result_count_def
        WorkflowService_ResetWorkflowExecution_Result_zero_def)
qed

text \<open>
  C1: a client whose calls the proxy forwards to the backend sees, for
  each of the 36 methods, what the backend returned: its result, or the declared exception
  it failed with, provided the request and the result hold no nil in a list or map.
\<close>

theorem calls_transparent:
  assumes "wire_laws W"
    and "thrift_delivers W call (workflowserviceserver_New W backend)"
    and "thrift_delivers W call' (proxy_procedures W call)"
  shows "(carried (\<lambda>_. True) WorkflowService_CountWorkflowExecutions_Helper_IsException
      (CountWorkflowExecutions backend ctx r0) \<longrightarrow>
      CountWorkflowExecutions (workflowserviceclient_New W call') ctx r0 = error_first
          (CountWorkflowExecutions backend ctx r0)) \<and>
    (carried_void WorkflowService_DeprecateDomain_Helper_IsException (DeprecateDomain backend ctx
        r1) \<longrightarrow>
      DeprecateDomain (workflowserviceclient_New W call') ctx r1 = (DeprecateDomain backend ctx r1))
          \<and>
    (carried DescribeDomainResponse_complete WorkflowService_DescribeDomain_Helper_IsException
        (DescribeDomain backend ctx r2) \<longrightarrow>
      DescribeDomain (workflowserviceclient_New W call') ctx r2 = error_first (DescribeDomain
          backend ctx r2)) \<and>
    (carried DescribeTaskListResponse_complete WorkflowService_DescribeTaskList_Helper_IsException
        (DescribeTaskList backend ctx r3) \<longrightarrow>
      DescribeTaskList (workflowserviceclient_New W call') ctx r3 = error_first (DescribeTaskList
          backend ctx r3)) \<and>
    (carried DescribeWorkflowExecutionResponse_complete
        WorkflowService_DescribeWorkflowExecution_Helper_IsException (DescribeWorkflowExecution
        backend ctx r4) \<longrightarrow>
      DescribeWorkflowExecution (workflowserviceclient_New W call') ctx r4 = error_first
          (DescribeWorkflowExecution backend ctx r4)) \<and>
    (carried (\<lambda>_. True) WorkflowService_GetSearchAttributes_Helper_IsException (GetSearchAttributes
        backend ctx r5) \<longrightarrow>
      GetSearchAttributes (workflowserviceclient_New W call') ctx r5 = error_first
          (GetSearchAttributes backend ctx r5)) \<and>
    (carried GetWorkflowExecutionHistoryResponse_complete
        WorkflowService_GetWorkflowExecutionHistory_Helper_IsException (GetWorkflowExecutionHistory
        backend ctx r6) \<longrightarrow>
      GetWorkflowExecutionHistory (workflowserviceclient_New W call') ctx r6 = error_first
          (GetWorkflowExecutionHistory backend ctx r6)) \<and>
    (carried ListArchivedWorkflowExecutionsResponse_complete
        WorkflowService_ListArchivedWorkflowExecutions_Helper_IsException
        (ListArchivedWorkflowExecutions backend ctx r7) \<longrightarrow>
      ListArchivedWorkflowExecutions (workflowserviceclient_New W call') ctx r7 = error_first
          (ListArchivedWorkflowExecutions backend ctx r7)) \<and>
    (carried ListClosedWorkflowExecutionsResponse_complete
        WorkflowService_ListClosedWorkflowExecutions_Helper_IsException
        (ListClosedWorkflowExecutions backend ctx r8) \<longrightarrow>
      ListClosedWorkflowExecutions (workflowserviceclient_New W call') ctx r8 = error_first
          (ListClosedWorkflowExecutions backend ctx r8)) \<and>
    (carried ListDomainsResponse_complete WorkflowService_ListDomains_Helper_IsException
        (ListDomains backend ctx r9) \<longrightarrow>
      ListDomains (workflowserviceclient_New W call') ctx r9 = error_first (ListDomains backend ctx
          r9)) \<and>
    (carried ListOpenWorkflowExecutionsResponse_complete
        WorkflowService_ListOpenWorkflowExecutions_Helper_IsException (ListOpenWorkflowExecutions
        backend ctx r10) \<longrightarrow>
      ListOpenWorkflowExecutions (workflowserviceclient_New W call') ctx r10 = error_first
          (ListOpenWorkflowExecutions backend ctx r10)) \<and>
    (carried ListWorkflowExecutionsResponse_complete
        WorkflowService_ListWorkflowExecutions_Helper_IsException (ListWorkflowExecutions backend
        ctx r11) \<longrightarrow>
      ListWorkflowExecutions (workflowserviceclient_New W call') ctx r11 = error_first
          (ListWorkflowExecutions backend ctx r11)) \<and>
    (carried PollForActivityTaskResponse_complete
        WorkflowService_PollForActivityTask_Helper_IsException (PollForActivityTask backend ctx r12)
        \<longrightarrow>
      PollForActivityTask (workflowserviceclient_New W call') ctx r12 = error_first
          (PollForActivityTask backend ctx r12)) \<and>
    (carried PollForDecisionTaskResponse_complete
        WorkflowService_PollForDecisionTask_Helper_IsException (PollForDecisionTask backend ctx r13)
        \<longrightarrow>
      PollForDecisionTask (workflowserviceclient_New W call') ctx r13 = error_first
          (PollForDecisionTask backend ctx r13)) \<and>
    (carried (\<lambda>_. True) WorkflowService_QueryWorkflow_Helper_IsException (QueryWorkflow backend ctx
        r14) \<longrightarrow>
      QueryWorkflow (workflowserviceclient_New W call') ctx r14 = error_first (QueryWorkflow backend
          ctx r14)) \<and>
    (carried (\<lambda>_. True) WorkflowService_RecordActivityTaskHeartbeat_Helper_IsException
        (RecordActivityTaskHeartbeat backend ctx r15) \<longrightarrow>
      RecordActivityTaskHeartbeat (workflowserviceclient_New W call') ctx r15 = error_first
          (RecordActivityTaskHeartbeat backend ctx r15)) \<and>
    (carried (\<lambda>_. True) WorkflowService_RecordActivityTaskHeartbeatByID_Helper_IsException
        (RecordActivityTaskHeartbeatByID backend ctx r16) \<longrightarrow>
      RecordActivityTaskHeartbeatByID (workflowserviceclient_New W call') ctx r16 = error_first
          (RecordActivityTaskHeartbeatByID backend ctx r16)) \<and>
    (if_set RegisterDomainRequest_complete r17 \<and> carried_void
        WorkflowService_RegisterDomain_Helper_IsException (RegisterDomain backend ctx r17) \<longrightarrow>
      RegisterDomain (workflowserviceclient_New W call') ctx r17 = (RegisterDomain backend ctx r17))
          \<and>
    (carried_void WorkflowService_RequestCancelWorkflowExecution_Helper_IsException
        (RequestCancelWorkflowExecution backend ctx r18) \<longrightarrow>
      RequestCancelWorkflowExecution (workflowserviceclient_New W call') ctx r18 =
          (RequestCancelWorkflowExecution backend ctx r18)) \<and>
    (carried (\<lambda>_. True) WorkflowService_ResetStickyTaskList_Helper_IsException (ResetStickyTaskList
        backend ctx r19) \<longrightarrow>
      ResetStickyTaskList (workflowserviceclient_New W call') ctx r19 = error_first
          (ResetStickyTaskList backend ctx r19)) \<and>
    (carried (\<lambda>_. True) WorkflowService_ResetWorkflowExecution_Helper_IsException
        (ResetWorkflowExecution backend ctx r20) \<longrightarrow>
      ResetWorkflowExecution (workflowserviceclient_New W call') ctx r20 = error_first
          (ResetWorkflowExecution backend ctx r20)) \<and>
    (carried_void WorkflowService_RespondActivityTaskCanceled_Helper_IsException
        (RespondActivityTaskCanceled backend ctx r21) \<longrightarrow>
      RespondActivityTaskCanceled (workflowserviceclient_New W call') ctx r21 =
          (RespondActivityTaskCanceled backend ctx r21)) \<and>
    (carried_void WorkflowService_RespondActivityTaskCanceledByID_Helper_IsException
        (RespondActivityTaskCanceledByID backend ctx r22) \<longrightarrow>
      RespondActivityTaskCanceledByID (workflowserviceclient_New W call') ctx r22 =
          (RespondActivityTaskCanceledByID backend ctx r22)) \<and>
    (carried_void WorkflowService_RespondActivityTaskCompleted_Helper_IsException
        (RespondActivityTaskCompleted backend ctx r23) \<longrightarrow>
      RespondActivityTaskCompleted (workflowserviceclient_New W call') ctx r23 =
          (RespondActivityTaskCompleted backend ctx r23)) \<and>
    (carried_void WorkflowService_RespondActivityTaskCompletedByID_Helper_IsException
        (RespondActivityTaskCompletedByID backend ctx r24) \<longrightarrow>
      RespondActivityTaskCompletedByID (workflowserviceclient_New W call') ctx r24 =
          (RespondActivityTaskCompletedByID backend ctx r24)) \<and>
    (carried_void WorkflowService_RespondActivityTaskFailed_Helper_IsException
        (RespondActivityTaskFailed backend ctx r25) \<longrightarrow>
      RespondActivityTaskFailed (workflowserviceclient_New W call') ctx r25 =
          (RespondActivityTaskFailed backend ctx r25)) \<and>
    (carried_void WorkflowService_RespondActivityTaskFailedByID_Helper_IsException
        (RespondActivityTaskFailedByID backend ctx r26) \<longrightarrow>
      RespondActivityTaskFailedByID (workflowserviceclient_New W call') ctx r26 =
          (RespondActivityTaskFailedByID backend ctx r26)) \<and>
    (if_set RespondDecisionTaskCompletedRequest_complete r27 \<and> carried
        RespondDecisionTaskCompletedResponse_complete
        WorkflowService_RespondDecisionTaskCompleted_Helper_IsException
        (RespondDecisionTaskCompleted backend ctx r27) \<longrightarrow>
      RespondDecisionTaskCompleted (workflowserviceclient_New W call') ctx r27 = error_first
          (RespondDecisionTaskCompleted backend ctx r27)) \<and>
    (carried_void WorkflowService_RespondDecisionTaskFailed_Helper_IsException
        (RespondDecisionTaskFailed backend ctx r28) \<longrightarrow>
      RespondDecisionTaskFailed (workflowserviceclient_New W call') ctx r28 =
          (RespondDecisionTaskFailed backend ctx r28)) \<and>
    (carried_void WorkflowService_RespondQueryTaskCompleted_Helper_IsException
        (RespondQueryTaskCompleted backend ctx r29) \<longrightarrow>
      RespondQueryTaskCompleted (workflowserviceclient_New W call') ctx r29 =
          (RespondQueryTaskCompleted backend ctx r29)) \<and>
    (carried ListWorkflowExecutionsResponse_complete
        WorkflowService_ScanWorkflowExecutions_Helper_IsException (ScanWorkflowExecutions backend
        ctx r30) \<longrightarrow>
      ScanWorkflowExecutions (workflowserviceclient_New W call') ctx r30 = error_first
          (ScanWorkflowExecutions backend ctx r30)) \<and>
    (if_set SignalWithStartWorkflowExecutionRequest_complete r31 \<and> carried (\<lambda>_. True)
        WorkflowService_SignalWithStartWorkflowExecution_Helper_IsException
        (SignalWithStartWorkflowExecution backend ctx r31) \<longrightarrow>
      SignalWithStartWorkflowExecution (workflowserviceclient_New W call') ctx r31 = error_first
          (SignalWithStartWorkflowExecution backend ctx r31)) \<and>
    (carried_void WorkflowService_SignalWorkflowExecution_Helper_IsException
        (SignalWorkflowExecution backend ctx r32) \<longrightarrow>
      SignalWorkflowExecution (workflowserviceclient_New W call') ctx r32 = (SignalWorkflowExecution
          backend ctx r32)) \<and>
    (if_set StartWorkflowExecutionRequest_complete r33 \<and> carried (\<lambda>_. True)
        WorkflowService_StartWorkflowExecution_Helper_IsException (StartWorkflowExecution backend
        ctx r33) \<longrightarrow>
      StartWorkflowExecution (workflowserviceclient_New W call') ctx r33 = error_first
          (StartWorkflowExecution backend ctx r33)) \<and>
    (carried_void WorkflowService_TerminateWorkflowExecution_Helper_IsException
        (TerminateWorkflowExecution backend ctx r34) \<longrightarrow>
      TerminateWorkflowExecution (workflowserviceclient_New W call') ctx r34 =
          (TerminateWorkflowExecution backend ctx r34)) \<and>
    (if_set UpdateDomainRequest_complete r35 \<and> carried UpdateDomainResponse_complete
        WorkflowService_UpdateDomain_Helper_IsException (UpdateDomain backend ctx r35) \<longrightarrow>
      UpdateDomain (workflowserviceclient_New W call') ctx r35 = error_first (UpdateDomain backend
          ctx r35))"
  by (intro conjI impI; (elim conjE)?;
    (erule CountWorkflowExecutions_through_proxy(1) [OF assms]
    | erule DeprecateDomain_through_proxy(1) [OF assms]
    | erule DescribeDomain_through_proxy(1) [OF assms]
    | erule DescribeTaskList_through_proxy(1) [OF assms]
    | erule DescribeWorkflowExecution_through_proxy(1) [OF assms]
    | erule GetSearchAttributes_through_proxy(1) [OF assms]
    | erule GetWorkflowExecutionHistory_through_proxy(1) [OF assms]
    | erule ListArchivedWorkflowExecutions_through_proxy(1) [OF assms]
    | erule ListClosedWorkflowExecutions_through_proxy(1) [OF assms]
    | erule ListDomains_through_proxy(1) [OF assms]
    | erule ListOpenWorkflowExecutions_through_proxy(1) [OF assms]
    | erule ListWorkflowExecutions_through_proxy(1) [OF assms]
    | erule PollForActivityTask_through_proxy(1) [OF assms]
    | erule PollForDecisionTask_through_proxy(1) [OF assms]
    | erule QueryWorkflow_through_proxy(1) [OF assms]
    | erule RecordActivityTaskHeartbeat_through_proxy(1) [OF assms]
    | erule RecordActivityTaskHeartbeatByID_through_proxy(1) [OF assms]
    | erule (1) RegisterDomain_through_proxy(1) [OF assms]
    | erule RequestCancelWorkflowExecution_through_proxy(1) [OF assms]
    | erule ResetStickyTaskList_through_proxy(1) [OF assms]
    | erule ResetWorkflowExecution_through_proxy(1) [OF assms]
    | erule RespondActivityTaskCanceled_through_proxy(1) [OF assms]
    | erule RespondActivityTaskCanceledByID_through_proxy(1) [OF assms]
    | erule RespondActivityTaskCompleted_through_proxy(1) [OF assms]
    | erule RespondActivityTaskCompletedByID_through_proxy(1) [OF assms]
    | erule RespondActivityTaskFailed_through_proxy(1) [OF assms]
    | erule RespondActivityTaskFailedByID_through_proxy(1) [OF assms]
    | erule (1) RespondDecisionTaskCompleted_through_proxy(1) [OF assms]
    | erule RespondDecisionTaskFailed_through_proxy(1) [OF assms]
    | erule RespondQueryTaskCompleted_through_proxy(1) [OF assms]
    | erule ScanWorkflowExecutions_through_proxy(1) [OF assms]
    | erule (1) SignalWithStartWorkflowExecution_through_proxy(1) [OF assms]
    | erule SignalWorkflowExecution_through_proxy(1) [OF assms]
    | erule (1) StartWorkflowExecution_through_proxy(1) [OF assms]
    | erule TerminateWorkflowExecution_through_proxy(1) [OF assms]
    | erule (1) UpdateDomain_through_proxy(1) [OF assms]))

text \<open>
  C19: a request that cannot be written, and a backend outcome that the result
  struct cannot carry (an undeclared error, a typed nil exception, no result and no error,
  or a result with nil in a list), reach the client of the proxy as an error without a
  result, for each of the 36 methods.
\<close>

theorem calls_failure:
  assumes "wire_laws W"
    and "thrift_delivers W call (workflowserviceserver_New W backend)"
    and "thrift_delivers W call' (proxy_procedures W call)"
  shows "(\<not> carried (\<lambda>_. True) WorkflowService_CountWorkflowExecutions_Helper_IsException
      (CountWorkflowExecutions backend ctx r0) \<longrightarrow>
      (\<exists>e. CountWorkflowExecutions (workflowserviceclient_New W call') ctx r0 = (None, Some e))) \<and>
    (\<not> carried_void WorkflowService_DeprecateDomain_Helper_IsException (DeprecateDomain backend ctx
        r1) \<longrightarrow>
      (\<exists>e. DeprecateDomain (workflowserviceclient_New W call') ctx r1 = Some e)) \<and>
    (\<not> carried DescribeDomainResponse_complete WorkflowService_DescribeDomain_Helper_IsException
        (DescribeDomain backend ctx r2) \<longrightarrow>
      (\<exists>e. DescribeDomain (workflowserviceclient_New W call') ctx r2 = (None, Some e))) \<and>
    (\<not> carried DescribeTaskListResponse_complete WorkflowService_DescribeTaskList_Helper_IsException
        (DescribeTaskList backend ctx r3) \<longrightarrow>
      (\<exists>e. DescribeTaskList (workflowserviceclient_New W call') ctx r3 = (None, Some e))) \<and>
    (\<not> carried DescribeWorkflowExecutionResponse_complete
        WorkflowService_DescribeWorkflowExecution_Helper_IsException (DescribeWorkflowExecution
        backend ctx r4) \<longrightarrow>
      (\<exists>e. DescribeWorkflowExecution (workflowserviceclient_New W call') ctx r4 = (None, Some e))) \<and>
    (\<not> carried (\<lambda>_. True) WorkflowService_GetSearchAttributes_Helper_IsException
        (GetSearchAttributes backend ctx r5) \<longrightarrow>
      (\<exists>e. GetSearchAttributes (workflowserviceclient_New W call') ctx r5 = (None, Some e))) \<and>
    (\<not> carried GetWorkflowExecutionHistoryResponse_complete
        WorkflowService_GetWorkflowExecutionHistory_Helper_IsException (GetWorkflowExecutionHistory
        backend ctx r6) \<longrightarrow>
      (\<exists>e. GetWorkflowExecutionHistory (workflowserviceclient_New W call') ctx r6 = (None, Some e)))
          \<and>
    (\<not> carried ListArchivedWorkflowExecutionsResponse_complete
        WorkflowService_ListArchivedWorkflowExecutions_Helper_IsException
        (ListArchivedWorkflowExecutions backend ctx r7) \<longrightarrow>
      (\<exists>e. ListArchivedWorkflowExecutions (workflowserviceclient_New W call') ctx r7 = (None, Some
          e))) \<and>
    (\<not> carried ListClosedWorkflowExecutionsResponse_complete
        WorkflowService_ListClosedWorkflowExecutions_Helper_IsException
        (ListClosedWorkflowExecutions backend ctx r8) \<longrightarrow>
      (\<exists>e. ListClosedWorkflowExecutions (workflowserviceclient_New W call') ctx r8 = (None, Some
          e))) \<and>
    (\<not> carried ListDomainsResponse_complete WorkflowService_ListDomains_Helper_IsException
        (ListDomains backend ctx r9) \<longrightarrow>
      (\<exists>e. ListDomains (workflowserviceclient_New W call') ctx r9 = (None, Some e))) \<and>
    (\<not> carried ListOpenWorkflowExecutionsResponse_complete
        WorkflowService_ListOpenWorkflowExecutions_Helper_IsException (ListOpenWorkflowExecutions
        backend ctx r10) \<longrightarrow>
      (\<exists>e. ListOpenWorkflowExecutions (workflowserviceclient_New W call') ctx r10 = (None, Some e)))
          \<and>
    (\<not> carried ListWorkflowExecutionsResponse_complete
        WorkflowService_ListWorkflowExecutions_Helper_IsException (ListWorkflowExecutions backend
        ctx r11) \<longrightarrow>
      (\<exists>e. ListWorkflowExecutions (workflowserviceclient_New W call') ctx r11 = (None, Some e))) \<and>
    (\<not> carried PollForActivityTaskResponse_complete
        WorkflowService_PollForActivityTask_Helper_IsException (PollForActivityTask backend ctx r12)
        \<longrightarrow>
      (\<exists>e. PollForActivityTask (workflowserviceclient_New W call') ctx r12 = (None, Some e))) \<and>
    (\<not> carried PollForDecisionTaskResponse_complete
        WorkflowService_PollForDecisionTask_Helper_IsException (PollForDecisionTask backend ctx r13)
        \<longrightarrow>
      (\<exists>e. PollForDecisionTask (workflowserviceclient_New W call') ctx r13 = (None, Some e))) \<and>
    (\<not> carried (\<lambda>_. True) WorkflowService_QueryWorkflow_Helper_IsException (QueryWorkflow backend
        ctx r14) \<longrightarrow>
      (\<exists>e. QueryWorkflow (workflowserviceclient_New W call') ctx r14 = (None, Some e))) \<and>
    (\<not> carried (\<lambda>_. True) WorkflowService_RecordActivityTaskHeartbeat_Helper_IsException
        (RecordActivityTaskHeartbeat backend ctx r15) \<longrightarrow>
      (\<exists>e. RecordActivityTaskHeartbeat (workflowserviceclient_New W call') ctx r15 = (None, Some
          e))) \<and>
    (\<not> carried (\<lambda>_. True) WorkflowService_RecordActivityTaskHeartbeatByID_Helper_IsException
        (RecordActivityTaskHeartbeatByID backend ctx r16) \<longrightarrow>
      (\<exists>e. RecordActivityTaskHeartbeatByID (workflowserviceclient_New W call') ctx r16 = (None, Some
          e))) \<and>
    (\<not> (if_set RegisterDomainRequest_complete r17 \<and> carried_void
        WorkflowService_RegisterDomain_Helper_IsException (RegisterDomain backend ctx r17)) \<longrightarrow>
      (\<exists>e. RegisterDomain (workflowserviceclient_New W call') ctx r17 = Some e)) \<and>
    (\<not> carried_void WorkflowService_RequestCancelWorkflowExecution_Helper_IsException
        (RequestCancelWorkflowExecution backend ctx r18) \<longrightarrow>
      (\<exists>e. RequestCancelWorkflowExecution (workflowserviceclient_New W call') ctx r18 = Some e)) \<and>
    (\<not> carried (\<lambda>_. True) WorkflowService_ResetStickyTaskList_Helper_IsException
        (ResetStickyTaskList backend ctx r19) \<longrightarrow>
      (\<exists>e. ResetStickyTaskList (workflowserviceclient_New W call') ctx r19 = (None, Some e))) \<and>
    (\<not> carried (\<lambda>_. True) WorkflowService_ResetWorkflowExecution_Helper_IsException
        (ResetWorkflowExecution backend ctx r20) \<longrightarrow>
      (\<exists>e. ResetWorkflowExecution (workflowserviceclient_New W call') ctx r20 = (None, Some e))) \<and>
    (\<not> carried_void WorkflowService_RespondActivityTaskCanceled_Helper_IsException
        (RespondActivityTaskCanceled backend ctx r21) \<longrightarrow>
      (\<exists>e. RespondActivityTaskCanceled (workflowserviceclient_New W call') ctx r21 = Some e)) \<and>
    (\<not> carried_void WorkflowService_RespondActivityTaskCanceledByID_Helper_IsException
        (RespondActivityTaskCanceledByID backend ctx r22) \<longrightarrow>
      (\<exists>e. RespondActivityTaskCanceledByID (workflowserviceclient_New W call') ctx r22 = Some e)) \<and>
    (\<not> carried_void WorkflowService_RespondActivityTaskCompleted_Helper_IsException
        (RespondActivityTaskCompleted backend ctx r23) \<longrightarrow>
      (\<exists>e. RespondActivityTaskCompleted (workflowserviceclient_New W call') ctx r23 = Some e)) \<and>
    (\<not> carried_void WorkflowService_RespondActivityTaskCompletedByID_Helper_IsException
        (RespondActivityTaskCompletedByID backend ctx r24) \<longrightarrow>
      (\<exists>e. RespondActivityTaskCompletedByID (workflowserviceclient_New W call') ctx r24 = Some e)) \<and>
    (\<not> carried_void WorkflowService_RespondActivityTaskFailed_Helper_IsException
        (RespondActivityTaskFailed backend ctx r25) \<longrightarrow>
      (\<exists>e. RespondActivityTaskFailed (workflowserviceclient_New W call') ctx r25 = Some e)) \<and>
    (\<not> carried_void WorkflowService_RespondActivityTaskFailedByID_Helper_IsException
        (RespondActivityTaskFailedByID backend ctx r26) \<longrightarrow>
      (\<exists>e. RespondActivityTaskFailedByID (workflowserviceclient_New W call') ctx r26 = Some e)) \<and>
    (\<not> (if_set RespondDecisionTaskCompletedRequest_complete r27 \<and> carried
        RespondDecisionTaskCompletedResponse_complete
        WorkflowService_RespondDecisionTaskCompleted_Helper_IsException
        (RespondDecisionTaskCompleted backend ctx r27)) \<longrightarrow>
      (\<exists>e. RespondDecisionTaskCompleted (workflowserviceclient_New W call') ctx r27 = (None, Some
          e))) \<and>
    (\<not> carried_void WorkflowService_RespondDecisionTaskFailed_Helper_IsException
        (RespondDecisionTaskFailed backend ctx r28) \<longrightarrow>
      (\<exists>e. RespondDecisionTaskFailed (workflowserviceclient_New W call') ctx r28 = Some e)) \<and>
    (\<not> carried_void WorkflowService_RespondQueryTaskCompleted_Helper_IsException
        (RespondQueryTaskCompleted backend ctx r29) \<longrightarrow>
      (\<exists>e. RespondQueryTaskCompleted (workflowserviceclient_New W call') ctx r29 = Some e)) \<and>
    (\<not> carried ListWorkflowExecutionsResponse_complete
        WorkflowService_ScanWorkflowExecutions_Helper_IsException (ScanWorkflowExecutions backend
        ctx r30) \<longrightarrow>
      (\<exists>e. ScanWorkflowExecutions (workflowserviceclient_New W call') ctx r30 = (None, Some e))) \<and>
    (\<not> (if_set SignalWithStartWorkflowExecutionRequest_complete r31 \<and> carried (\<lambda>_. True)
        WorkflowService_SignalWithStartWorkflowExecution_Helper_IsException
        (SignalWithStartWorkflowExecution backend ctx r31)) \<longrightarrow>
      (\<exists>e. SignalWithStartWorkflowExecution (workflowserviceclient_New W call') ctx r31 = (None,
          Some e))) \<and>
    (\<not> carried_void WorkflowService_SignalWorkflowExecution_Helper_IsException
        (SignalWorkflowExecution backend ctx r32) \<longrightarrow>
      (\<exists>e. SignalWorkflowExecution (workflowserviceclient_New W call') ctx r32 = Some e)) \<and>
    (\<not> (if_set StartWorkflowExecutionRequest_complete r33 \<and> carried (\<lambda>_. True)
        WorkflowService_StartWorkflowExecution_Helper_IsException (StartWorkflowExecution backend
        ctx r33)) \<longrightarrow>
      (\<exists>e. StartWorkflowExecution (workflowserviceclient_New W call') ctx r33 = (None, Some e))) \<and>
    (\<not> carried_void WorkflowService_TerminateWorkflowExecution_Helper_IsException
        (TerminateWorkflowExecution backend ctx r34) \<longrightarrow>
      (\<exists>e. TerminateWorkflowExecution (workflowserviceclient_New W call') ctx r34 = Some e)) \<and>
    (\<not> (if_set UpdateDomainRequest_complete r35 \<and> carried UpdateDomainResponse_complete
        WorkflowService_UpdateDomain_Helper_IsException (UpdateDomain backend ctx r35)) \<longrightarrow>
      (\<exists>e. UpdateDomain (workflowserviceclient_New W call') ctx r35 = (None, Some e)))"
  by (intro conjI impI; (elim conjE)?;
    (erule CountWorkflowExecutions_through_proxy(2) [OF assms]
    | erule DeprecateDomain_through_proxy(2) [OF assms]
    | erule DescribeDomain_through_proxy(2) [OF assms]
    | erule DescribeTaskList_through_proxy(2) [OF assms]
    | erule DescribeWorkflowExecution_through_proxy(2) [OF assms]
    | erule GetSearchAttributes_through_proxy(2) [OF assms]
    | erule GetWorkflowExecutionHistory_through_proxy(2) [OF assms]
    | erule ListArchivedWorkflowExecutions_through_proxy(2) [OF assms]
    | erule ListClosedWorkflowExecutions_through_proxy(2) [OF assms]
    | erule ListDomains_through_proxy(2) [OF assms]
    | erule ListOpenWorkflowExecutions_through_proxy(2) [OF assms]
    | erule ListWorkflowExecutions_through_proxy(2) [OF assms]
    | erule PollForActivityTask_through_proxy(2) [OF assms]
    | erule PollForDecisionTask_through_proxy(2) [OF assms]
    | erule QueryWorkflow_through_proxy(2) [OF assms]
    | erule RecordActivityTaskHeartbeat_through_proxy(2) [OF assms]
    | erule RecordActivityTaskHeartbeatByID_through_proxy(2) [OF assms]
    | erule RegisterDomain_through_proxy(2) [OF assms]
    | erule RequestCancelWorkflowExecution_through_proxy(2) [OF assms]
    | erule ResetStickyTaskList_through_proxy(2) [OF assms]
    | erule ResetWorkflowExecution_through_proxy(2) [OF assms]
    | erule RespondActivityTaskCanceled_through_proxy(2) [OF assms]
    | erule RespondActivityTaskCanceledByID_through_proxy(2) [OF assms]
    | erule RespondActivityTaskCompleted_through_proxy(2) [OF assms]
    | erule RespondActivityTaskCompletedByID_through_proxy(2) [OF assms]
    | erule RespondActivityTaskFailed_through_proxy(2) [OF assms]
    | erule RespondActivityTaskFailedByID_through_proxy(2) [OF assms]
    | erule RespondDecisionTaskCompleted_through_proxy(2) [OF assms]
    | erule RespondDecisionTaskFailed_through_proxy(2) [OF assms]
    | erule RespondQueryTaskCompleted_through_proxy(2) [OF assms]
    | erule ScanWorkflowExecutions_through_proxy(2) [OF assms]
    | erule SignalWithStartWorkflowExecution_through_proxy(2) [OF assms]
    | erule SignalWorkflowExecution_through_proxy(2) [OF assms]
    | erule StartWorkflowExecution_through_proxy(2) [OF assms]
    | erule TerminateWorkflowExecution_through_proxy(2) [OF assms]
    | erule UpdateDomain_through_proxy(2) [OF assms]))

text \<open>
  A backend for the witnesses: it completes every void call but one, fails a heartbeat with a
  declared exception, answers a decision task, and is unavailable otherwise.
\<close>

definition sample_backend :: "nat WorkflowService_Interface" where
  "sample_backend = \<lparr>
     CountWorkflowExecutions = (\<lambda>ctx r. (None, Some (E_Other ''unavailable''))),
     DeprecateDomain = (\<lambda>ctx r. None),
     DescribeDomain = (\<lambda>ctx r. (None, Some (E_Other ''unavailable''))),
     DescribeTaskList = (\<lambda>ctx r. (None, Some (E_Other ''unavailable''))),
     DescribeWorkflowExecution = (\<lambda>ctx r. (None, Some (E_Other ''unavailable''))),
     GetSearchAttributes = (\<lambda>ctx r. (None, Some (E_Other ''unavailable''))),
     GetWorkflowExecutionHistory = (\<lambda>ctx r. (None, Some (E_Other ''unavailable''))),
     ListArchivedWorkflowExecutions = (\<lambda>ctx r. (None, Some (E_Other ''unavailable''))),
     ListClosedWorkflowExecutions = (\<lambda>ctx r. (None, Some (E_Other ''unavailable''))),
     ListDomains = (\<lambda>ctx r. (None, Some (E_Other ''unavailable''))),
     ListOpenWorkflowExecutions = (\<lambda>ctx r. (None, Some (E_Other ''unavailable''))),
     ListWorkflowExecutions = (\<lambda>ctx r. (None, Some (E_Other ''unavailable''))),
     PollForActivityTask = (\<lambda>ctx r. (None, Some (E_Other ''unavailable''))),
     PollForDecisionTask = (\<lambda>ctx r. (None, Some (E_Other ''unavailable''))),
     QueryWorkflow = (\<lambda>ctx r. (None, Some (E_Other ''unavailable''))),
     RecordActivityTaskHeartbeat = (\<lambda>ctx r. (None, Some (E_BadRequestError (Some
         \<lparr>BadRequestError.Message = ''bad''\<rparr>)))),
     RecordActivityTaskHeartbeatByID = (\<lambda>ctx r. (None, Some (E_Other ''unavailable''))),
     RegisterDomain = (\<lambda>ctx r. None),
     RequestCancelWorkflowExecution = (\<lambda>ctx r. None),
     ResetStickyTaskList = (\<lambda>ctx r. (None, Some (E_Other ''unavailable''))),
     ResetWorkflowExecution = (\<lambda>ctx r. (if ctx = 0 then Some \<lparr>ResetWorkflowExecutionResponse.RunId =
         Some ''run''\<rparr> else None, None)),
     RespondActivityTaskCanceled = (\<lambda>ctx r. None),
     RespondActivityTaskCanceledByID = (\<lambda>ctx r. None),
     RespondActivityTaskCompleted = (\<lambda>ctx r. if ctx = 0 then None else Some (E_Other ''lost'')),
     RespondActivityTaskCompletedByID = (\<lambda>ctx r. None),
     RespondActivityTaskFailed = (\<lambda>ctx r. None),
     RespondActivityTaskFailedByID = (\<lambda>ctx r. None),
     RespondDecisionTaskCompleted = (\<lambda>ctx r. (Some RespondDecisionTaskCompletedResponse_zero,
         None)),
     RespondDecisionTaskFailed = (\<lambda>ctx r. None),
     RespondQueryTaskCompleted = (\<lambda>ctx r. None),
     ScanWorkflowExecutions = (\<lambda>ctx r. (None, Some (E_Other ''unavailable''))),
     SignalWithStartWorkflowExecution = (\<lambda>ctx r. (None, Some (E_Other ''unavailable''))),
     SignalWorkflowExecution = (\<lambda>ctx r. None),
     StartWorkflowExecution = (\<lambda>ctx r. (None, Some (E_Other ''unavailable''))),
     TerminateWorkflowExecution = (\<lambda>ctx r. None),
     UpdateDomain = (\<lambda>ctx r. (None, Some (E_Other ''unavailable'')))\<rparr>"

definition sample_inner :: "(nat, wire_tree) thrift_client" where
  "sample_inner = direct_call wire_tree_api (workflowserviceserver_New wire_tree_api
      sample_backend)"

definition sample_outer :: "(nat, wire_tree) thrift_client" where
  "sample_outer = direct_call wire_tree_api (proxy_procedures wire_tree_api sample_inner)"

lemma sample_links:
  "thrift_delivers wire_tree_api sample_inner (workflowserviceserver_New wire_tree_api
      sample_backend)"
  "thrift_delivers wire_tree_api sample_outer (proxy_procedures wire_tree_api sample_inner)"
  by (simp_all add: sample_inner_def sample_outer_def direct_call_delivers)

theorem calls_transparent_witness:
  "RecordActivityTaskHeartbeat (workflowserviceclient_New wire_tree_api sample_outer) 0 None =
     (None, Some (E_BadRequestError (Some \<lparr>BadRequestError.Message = ''bad''\<rparr>)))"
proof -
  have "carried (\<lambda>_. True) WorkflowService_RecordActivityTaskHeartbeat_Helper_IsException
      (RecordActivityTaskHeartbeat sample_backend 0 r) \<longrightarrow>
    RecordActivityTaskHeartbeat (workflowserviceclient_New wire_tree_api sample_outer) 0 r =
      error_first (RecordActivityTaskHeartbeat sample_backend 0 r)" for r
    by (rule impI) (simp only: calls_transparent [OF wire_tree_laws sample_links])
  then show ?thesis
    by (simp add: sample_backend_def declared_nonnil_def
        WorkflowService_RecordActivityTaskHeartbeat_Helper_IsException_def)
qed

text \<open>An undeclared error, and a list of decisions with a \<open>nil\<close> in it.\<close>

theorem calls_failure_witness:
  "(\<exists>e. RespondActivityTaskCompleted (workflowserviceclient_New wire_tree_api sample_outer) 1 None =
      Some e) \<and>
   (\<exists>e. RespondDecisionTaskCompleted (workflowserviceclient_New wire_tree_api sample_outer) 0
      (Some (RespondDecisionTaskCompletedRequest_zero\<lparr>
        RespondDecisionTaskCompletedRequest.Decisions := Some [None]\<rparr>)) = (None, Some e))"
proof
  have "\<not> carried_void WorkflowService_RespondActivityTaskCompleted_Helper_IsException
      (RespondActivityTaskCompleted sample_backend 1 r) \<longrightarrow>
    (\<exists>e. RespondActivityTaskCompleted (workflowserviceclient_New wire_tree_api sample_outer) 1 r =
        Some e)" for r
    by (rule impI) (simp only: calls_failure [OF wire_tree_laws sample_links] not_True_eq_False
        not_False_eq_True simp_thms)
  then show "\<exists>e. RespondActivityTaskCompleted (workflowserviceclient_New wire_tree_api sample_outer)
      1 None = Some e"
    by (simp add: sample_backend_def declared_nonnil_def
        WorkflowService_RespondActivityTaskCompleted_Helper_IsException_def)
  have "\<not> (if_set RespondDecisionTaskCompletedRequest_complete r \<and>
      carried RespondDecisionTaskCompletedResponse_complete
        WorkflowService_RespondDecisionTaskCompleted_Helper_IsException
        (RespondDecisionTaskCompleted sample_backend 0 r)) \<longrightarrow>
    (\<exists>e. RespondDecisionTaskCompleted (workflowserviceclient_New wire_tree_api sample_outer) 0 r =
        (None, Some e))" for r
    by (rule impI) (simp only: calls_failure [OF wire_tree_laws sample_links] not_True_eq_False
        not_False_eq_True simp_thms)
  then show "\<exists>e. RespondDecisionTaskCompleted (workflowserviceclient_New wire_tree_api sample_outer)
      0
      (Some (RespondDecisionTaskCompletedRequest_zero\<lparr>
        RespondDecisionTaskCompletedRequest.Decisions := Some [None]\<rparr>)) = (None, Some e)"
    by (simp add: RespondDecisionTaskCompletedRequest_complete_def)
qed

text \<open>
  C24: under each of the 36 names the proxy registers the server handler of
  that method over the client method whose envelope carries the same name; the names are
  distinct, and no other name is registered.
\<close>

theorem methods_routed:
  "(proxy_procedures W call ''CountWorkflowExecutions'' = Some (handler_CountWorkflowExecutions W
      (client_CountWorkflowExecutions W call)) \<and>
      MethodName (WorkflowService_CountWorkflowExecutions_Args_enveloper W a0) =
          ''CountWorkflowExecutions'') \<and>
    (proxy_procedures W call ''DeprecateDomain'' = Some (handler_DeprecateDomain W
        (client_DeprecateDomain W call)) \<and>
      MethodName (WorkflowService_DeprecateDomain_Args_enveloper W a1) = ''DeprecateDomain'') \<and>
    (proxy_procedures W call ''DescribeDomain'' = Some (handler_DescribeDomain W
        (client_DescribeDomain W call)) \<and>
      MethodName (WorkflowService_DescribeDomain_Args_enveloper W a2) = ''DescribeDomain'') \<and>
    (proxy_procedures W call ''DescribeTaskList'' = Some (handler_DescribeTaskList W
        (client_DescribeTaskList W call)) \<and>
      MethodName (WorkflowService_DescribeTaskList_Args_enveloper W a3) = ''DescribeTaskList'') \<and>
    (proxy_procedures W call ''DescribeWorkflowExecution'' = Some (handler_DescribeWorkflowExecution
        W (client_DescribeWorkflowExecution W call)) \<and>
      MethodName (WorkflowService_DescribeWorkflowExecution_Args_enveloper W a4) =
          ''DescribeWorkflowExecution'') \<and>
    (proxy_procedures W call ''GetSearchAttributes'' = Some (handler_GetSearchAttributes W
        (client_GetSearchAttributes W call)) \<and>
      MethodName (WorkflowService_GetSearchAttributes_Args_enveloper W a5) =
          ''GetSearchAttributes'') \<and>
    (proxy_procedures W call ''GetWorkflowExecutionHistory'' = Some
        (handler_GetWorkflowExecutionHistory W (client_GetWorkflowExecutionHistory W call)) \<and>
      MethodName (WorkflowService_GetWorkflowExecutionHistory_Args_enveloper W a6) =
          ''GetWorkflowExecutionHistory'') \<and>
    (proxy_procedures W call ''ListArchivedWorkflowExecutions'' = Some
        (handler_ListArchivedWorkflowExecutions W (client_ListArchivedWorkflowExecutions W call)) \<and>
      MethodName (WorkflowService_ListArchivedWorkflowExecutions_Args_enveloper W a7) =
          ''ListArchivedWorkflowExecutions'') \<and>
    (proxy_procedures W call ''ListClosedWorkflowExecutions'' = Some
        (handler_ListClosedWorkflowExecutions W (client_ListClosedWorkflowExecutions W call)) \<and>
      MethodName (WorkflowService_ListClosedWorkflowExecutions_Args_enveloper W a8) =
          ''ListClosedWorkflowExecutions'') \<and>
    (proxy_procedures W call ''ListDomains'' = Some (handler_ListDomains W (client_ListDomains W
        call)) \<and>
      MethodName (WorkflowService_ListDomains_Args_enveloper W a9) = ''ListDomains'') \<and>
    (proxy_procedures W call ''ListOpenWorkflowExecutions'' = Some
        (handler_ListOpenWorkflowExecutions W (client_ListOpenWorkflowExecutions W call)) \<and>
      MethodName (WorkflowService_ListOpenWorkflowExecutions_Args_enveloper W a10) =
          ''ListOpenWorkflowExecutions'') \<and>
    (proxy_procedures W call ''ListWorkflowExecutions'' = Some (handler_ListWorkflowExecutions W
        (client_ListWorkflowExecutions W call)) \<and>
      MethodName (WorkflowService_ListWorkflowExecutions_Args_enveloper W a11) =
          ''ListWorkflowExecutions'') \<and>
    (proxy_procedures W call ''PollForActivityTask'' = Some (handler_PollForActivityTask W
        (client_PollForActivityTask W call)) \<and>
      MethodName (WorkflowService_PollForActivityTask_Args_enveloper W a12) =
          ''PollForActivityTask'') \<and>
    (proxy_procedures W call ''PollForDecisionTask'' = Some (handler_PollForDecisionTask W
        (client_PollForDecisionTask W call)) \<and>
      MethodName (WorkflowService_PollForDecisionTask_Args_enveloper W a13) =
          ''PollForDecisionTask'') \<and>
    (proxy_procedures W call ''QueryWorkflow'' = Some (handler_QueryWorkflow W (client_QueryWorkflow
        W call)) \<and>
      MethodName (WorkflowService_QueryWorkflow_Args_enveloper W a14) = ''QueryWorkflow'') \<and>
    (proxy_procedures W call ''RecordActivityTaskHeartbeat'' = Some
        (handler_RecordActivityTaskHeartbeat W (client_RecordActivityTaskHeartbeat W call)) \<and>
      MethodName (WorkflowService_RecordActivityTaskHeartbeat_Args_enveloper W a15) =
          ''RecordActivityTaskHeartbeat'') \<and>
    (proxy_procedures W call ''RecordActivityTaskHeartbeatByID'' = Some
        (handler_RecordActivityTaskHeartbeatByID W (client_RecordActivityTaskHeartbeatByID W call))
        \<and>
      MethodName (WorkflowService_RecordActivityTaskHeartbeatByID_Args_enveloper W a16) =
          ''RecordActivityTaskHeartbeatByID'') \<and>
    (proxy_procedures W call ''RegisterDomain'' = Some (handler_RegisterDomain W
        (client_RegisterDomain W call)) \<and>
      MethodName (WorkflowService_RegisterDomain_Args_enveloper W a17) = ''RegisterDomain'') \<and>
    (proxy_procedures W call ''RequestCancelWorkflowExecution'' = Some
        (handler_RequestCancelWorkflowExecution W (client_RequestCancelWorkflowExecution W call)) \<and>
      MethodName (WorkflowService_RequestCancelWorkflowExecution_Args_enveloper W a18) =
          ''RequestCancelWorkflowExecution'') \<and>
    (proxy_procedures W call ''ResetStickyTaskList'' = Some (handler_ResetStickyTaskList W
        (client_ResetStickyTaskList W call)) \<and>
      MethodName (WorkflowService_ResetStickyTaskList_Args_enveloper W a19) =
          ''ResetStickyTaskList'') \<and>
    (proxy_procedures W call ''ResetWorkflowExecution'' = Some (handler_ResetWorkflowExecution W
        (client_ResetWorkflowExecution W call)) \<and>
      MethodName (WorkflowService_ResetWorkflowExecution_Args_enveloper W a20) =
          ''ResetWorkflowExecution'') \<and>
    (proxy_procedures W call ''RespondActivityTaskCanceled'' = Some
        (handler_RespondActivityTaskCanceled W (client_RespondActivityTaskCanceled W call)) \<and>
      MethodName (WorkflowService_RespondActivityTaskCanceled_Args_enveloper W a21) =
          ''RespondActivityTaskCanceled'') \<and>
    (proxy_procedures W call ''RespondActivityTaskCanceledByID'' = Some
        (handler_RespondActivityTaskCanceledByID W (client_RespondActivityTaskCanceledByID W call))
        \<and>
      MethodName (WorkflowService_RespondActivityTaskCanceledByID_Args_enveloper W a22) =
          ''RespondActivityTaskCanceledByID'') \<and>
    (proxy_procedures W call ''RespondActivityTaskCompleted'' = Some
        (handler_RespondActivityTaskCompleted W (client_RespondActivityTaskCompleted W call)) \<and>
      MethodName (WorkflowService_RespondActivityTaskCompleted_Args_enveloper W a23) =
          ''RespondActivityTaskCompleted'') \<and>
    (proxy_procedures W call ''RespondActivityTaskCompletedByID'' = Some
        (handler_RespondActivityTaskCompletedByID W (client_RespondActivityTaskCompletedByID W
        call)) \<and>
      MethodName (WorkflowService_RespondActivityTaskCompletedByID_Args_enveloper W a24) =
          ''RespondActivityTaskCompletedByID'') \<and>
    (proxy_procedures W call ''RespondActivityTaskFailed'' = Some (handler_RespondActivityTaskFailed
        W (client_RespondActivityTaskFailed W call)) \<and>
      MethodName (WorkflowService_RespondActivityTaskFailed_Args_enveloper W a25) =
          ''RespondActivityTaskFailed'') \<and>
    (proxy_procedures W call ''RespondActivityTaskFailedByID'' = Some
        (handler_RespondActivityTaskFailedByID W (client_RespondActivityTaskFailedByID W call)) \<and>
      MethodName (WorkflowService_RespondActivityTaskFailedByID_Args_enveloper W a26) =
          ''RespondActivityTaskFailedByID'') \<and>
    (proxy_procedures W call ''RespondDecisionTaskCompleted'' = Some
        (handler_RespondDecisionTaskCompleted W (client_RespondDecisionTaskCompleted W call)) \<and>
      MethodName (WorkflowService_RespondDecisionTaskCompleted_Args_enveloper W a27) =
          ''RespondDecisionTaskCompleted'') \<and>
    (proxy_procedures W call ''RespondDecisionTaskFailed'' = Some (handler_RespondDecisionTaskFailed
        W (client_RespondDecisionTaskFailed W call)) \<and>
      MethodName (WorkflowService_RespondDecisionTaskFailed_Args_enveloper W a28) =
          ''RespondDecisionTaskFailed'') \<and>
    (proxy_procedures W call ''RespondQueryTaskCompleted'' = Some (handler_RespondQueryTaskCompleted
        W (client_RespondQueryTaskCompleted W call)) \<and>
      MethodName (WorkflowService_RespondQueryTaskCompleted_Args_enveloper W a29) =
          ''RespondQueryTaskCompleted'') \<and>
    (proxy_procedures W call ''ScanWorkflowExecutions'' = Some (handler_ScanWorkflowExecutions W
        (client_ScanWorkflowExecutions W call)) \<and>
      MethodName (WorkflowService_ScanWorkflowExecutions_Args_enveloper W a30) =
          ''ScanWorkflowExecutions'') \<and>
    (proxy_procedures W call ''SignalWithStartWorkflowExecution'' = Some
        (handler_SignalWithStartWorkflowExecution W (client_SignalWithStartWorkflowExecution W
        call)) \<and>
      MethodName (WorkflowService_SignalWithStartWorkflowExecution_Args_enveloper W a31) =
          ''SignalWithStartWorkflowExecution'') \<and>
    (proxy_procedures W call ''SignalWorkflowExecution'' = Some (handler_SignalWorkflowExecution W
        (client_SignalWorkflowExecution W call)) \<and>
      MethodName (WorkflowService_SignalWorkflowExecution_Args_enveloper W a32) =
          ''SignalWorkflowExecution'') \<and>
    (proxy_procedures W call ''StartWorkflowExecution'' = Some (handler_StartWorkflowExecution W
        (client_StartWorkflowExecution W call)) \<and>
      MethodName (WorkflowService_StartWorkflowExecution_Args_enveloper W a33) =
          ''StartWorkflowExecution'') \<and>
    (proxy_procedures W call ''TerminateWorkflowExecution'' = Some
        (handler_TerminateWorkflowExecution W (client_TerminateWorkflowExecution W call)) \<and>
      MethodName (WorkflowService_TerminateWorkflowExecution_Args_enveloper W a34) =
          ''TerminateWorkflowExecution'') \<and>
    (proxy_procedures W call ''UpdateDomain'' = Some (handler_UpdateDomain W (client_UpdateDomain W
        call)) \<and>
      MethodName (WorkflowService_UpdateDomain_Args_enveloper W a35) = ''UpdateDomain'') \<and>
    dom (proxy_procedures W call) = set service_names \<and> distinct service_names \<and>
    length service_names = 36"
  by (simp only: proxied_methods envelope_names proxy_names distinct_service_names
      length_service_names simp_thms)


text \<open>
  The timing middleware makes the call exactly once,
  returns its result and error and the state it left unchanged, and prints one line with the
  procedure and the whole milliseconds elapsed.
\<close>

theorem timing_middleware_transparent:
  "TimingLogMiddleware_Call Now Procedure out_Call ctx request (w, printed) =
     (fst (out_Call ctx request w), snd (out_Call ctx request w),
      printed @ [(Procedure request, (Now (snd (out_Call ctx request w)) - Now w) div 1000000)])"
  by (simp add: TimingLogMiddleware_Call_def Let_def split: prod.splits)

end
