(* ===== verification/GoPointers.thy ===== *)
theory GoPointers
  imports GoErrorValues
begin

text \<open>
  Reading a field through a pointer to a struct, as every generated accessor does: of a \<open>nil\<close>
  pointer, and of an optional field that is not set, it is the zero value of the type.
\<close>

definition get_value :: "'b \<Rightarrow> ('a \<Rightarrow> 'b option) \<Rightarrow> 'a option \<Rightarrow> 'b" where
  "get_value zero field v =
     (case v of None \<Rightarrow> zero | Some v \<Rightarrow> (case field v of None \<Rightarrow> zero | Some x \<Rightarrow> x))"

definition get_pointer :: "('a \<Rightarrow> 'b option) \<Rightarrow> 'a option \<Rightarrow> 'b option" where
  "get_pointer field v = (case v of None \<Rightarrow> None | Some v \<Rightarrow> field v)"

definition get_required :: "'b \<Rightarrow> ('a \<Rightarrow> 'b) \<Rightarrow> 'a option \<Rightarrow> 'b" where
  "get_required zero field v = (case v of None \<Rightarrow> zero | Some v \<Rightarrow> field v)"

definition is_set :: "('a \<Rightarrow> 'b option) \<Rightarrow> 'a option \<Rightarrow> bool" where
  "is_set field v \<longleftrightarrow> (case v of None \<Rightarrow> False | Some v \<Rightarrow> field v \<noteq> None)"

text \<open>The two accessors of an optional field, \<open>Get\<close> and \<open>IsSet\<close>.\<close>

definition value_accessors :: "'b \<Rightarrow> ('a \<Rightarrow> 'b option) \<Rightarrow> 'a option \<Rightarrow> 'b \<times> bool" where
  "value_accessors zero field v = (get_value zero field v, is_set field v)"

definition pointer_accessors :: "('a \<Rightarrow> 'b option) \<Rightarrow> 'a option \<Rightarrow> 'b option \<times> bool" where
  "pointer_accessors field v = (get_pointer field v, is_set field v)"

text \<open>A set field has the value it points to; what is not set reads as zero.\<close>

lemma is_set_iff: "is_set field v \<longleftrightarrow> (\<exists>s x. v = Some s \<and> field s = Some x)"
  by (simp add: is_set_def split: option.split)

lemma get_value_set: "is_set field v \<Longrightarrow> field (the v) = Some (get_value zero field v)"
  by (auto simp: is_set_def get_value_def split: option.splits)

lemma get_value_unset: "\<not> is_set field v \<Longrightarrow> get_value zero field v = zero"
  by (auto simp: is_set_def get_value_def split: option.splits)

lemma value_accessors_cases:
  "value_accessors zero field v = (case v of None \<Rightarrow> (zero, False)
     | Some s \<Rightarrow> (case field s of None \<Rightarrow> (zero, False) | Some x \<Rightarrow> (x, True)))"
  by (simp add: value_accessors_def get_value_def is_set_def split: option.split)

lemma get_pointer_unset: "get_pointer field v = None \<longleftrightarrow> \<not> is_set field v"
  by (auto simp: is_set_def get_pointer_def split: option.splits)

end
