(* ===== verification/GoServiceAccessors.thy ===== *)
theory GoServiceAccessors
  imports GoPointers GoActivityService GoDecisionService GoWorkflowService GoDomainService
      GoVisibilityService
begin

text \<open>
  The accessors of the argument and result structs of the methods
  (proxy/gen/cadence/cadence.go).
\<close>

definition WorkflowService_PollForActivityTask_Args_accessors ::
    "WorkflowService_PollForActivityTask_Args option \<Rightarrow> PollForActivityTaskRequest option \<times> bool"
    where
  "WorkflowService_PollForActivityTask_Args_accessors v =
     pointer_accessors WorkflowService_PollForActivityTask_Args.PollRequest v"

definition WorkflowService_PollForActivityTask_Result_accessors ::
    "WorkflowService_PollForActivityTask_Result option \<Rightarrow> (PollForActivityTaskResponse option \<times> bool)
    \<times> (BadRequestError option \<times> bool) \<times> (InternalServiceError option \<times> bool) \<times> (ServiceBusyError
    option \<times> bool) \<times> (LimitExceededError option \<times> bool) \<times> (EntityNotExistsError option \<times> bool) \<times>
    (DomainNotActiveError option \<times> bool) \<times> (ClientVersionNotSupportedError option \<times> bool)" where
  "WorkflowService_PollForActivityTask_Result_accessors v =
     (pointer_accessors WorkflowService_PollForActivityTask_Result.Success v,
      pointer_accessors WorkflowService_PollForActivityTask_Result.BadRequestError v,
      pointer_accessors WorkflowService_PollForActivityTask_Result.InternalServiceError v,
      pointer_accessors WorkflowService_PollForActivityTask_Result.ServiceBusyError v,
      pointer_accessors WorkflowService_PollForActivityTask_Result.LimitExceededError v,
      pointer_accessors WorkflowService_PollForActivityTask_Result.EntityNotExistError v,
      pointer_accessors WorkflowService_PollForActivityTask_Result.DomainNotActiveError v,
      pointer_accessors WorkflowService_PollForActivityTask_Result.ClientVersionNotSupportedError
          v)"

definition WorkflowService_RecordActivityTaskHeartbeat_Args_accessors ::
    "WorkflowService_RecordActivityTaskHeartbeat_Args option \<Rightarrow> RecordActivityTaskHeartbeatRequest
    option \<times> bool" where
  "WorkflowService_RecordActivityTaskHeartbeat_Args_accessors v =
     pointer_accessors WorkflowService_RecordActivityTaskHeartbeat_Args.HeartbeatRequest v"

definition WorkflowService_RecordActivityTaskHeartbeat_Result_accessors ::
    "WorkflowService_RecordActivityTaskHeartbeat_Result option \<Rightarrow>
    (RecordActivityTaskHeartbeatResponse option \<times> bool) \<times> (BadRequestError option \<times> bool) \<times>
    (InternalServiceError option \<times> bool) \<times> (EntityNotExistsError option \<times> bool) \<times>
    (DomainNotActiveError option \<times> bool) \<times> (LimitExceededError option \<times> bool) \<times> (ServiceBusyError
    option \<times> bool) \<times> (ClientVersionNotSupportedError option \<times> bool)" where
  "WorkflowService_RecordActivityTaskHeartbeat_Result_accessors v =
     (pointer_accessors WorkflowService_RecordActivityTaskHeartbeat_Result.Success v,
      pointer_accessors WorkflowService_RecordActivityTaskHeartbeat_Result.BadRequestError v,
      pointer_accessors WorkflowService_RecordActivityTaskHeartbeat_Result.InternalServiceError v,
      pointer_accessors WorkflowService_RecordActivityTaskHeartbeat_Result.EntityNotExistError v,
      pointer_accessors WorkflowService_RecordActivityTaskHeartbeat_Result.DomainNotActiveError v,
      pointer_accessors WorkflowService_RecordActivityTaskHeartbeat_Result.LimitExceededError v,
      pointer_accessors WorkflowService_RecordActivityTaskHeartbeat_Result.ServiceBusyError v,
      pointer_accessors
          WorkflowService_RecordActivityTaskHeartbeat_Result.ClientVersionNotSupportedError v)"

definition WorkflowService_RecordActivityTaskHeartbeatByID_Args_accessors ::
    "WorkflowService_RecordActivityTaskHeartbeatByID_Args option \<Rightarrow>
    RecordActivityTaskHeartbeatByIDRequest option \<times> bool" where
  "WorkflowService_RecordActivityTaskHeartbeatByID_Args_accessors v =
     pointer_accessors WorkflowService_RecordActivityTaskHeartbeatByID_Args.HeartbeatRequest v"

definition WorkflowService_RecordActivityTaskHeartbeatByID_Result_accessors ::
    "WorkflowService_RecordActivityTaskHeartbeatByID_Result option \<Rightarrow>
    (RecordActivityTaskHeartbeatResponse option \<times> bool) \<times> (BadRequestError option \<times> bool) \<times>
    (InternalServiceError option \<times> bool) \<times> (EntityNotExistsError option \<times> bool) \<times>
    (DomainNotActiveError option \<times> bool) \<times> (LimitExceededError option \<times> bool) \<times> (ServiceBusyError
    option \<times> bool) \<times> (ClientVersionNotSupportedError option \<times> bool)" where
  "WorkflowService_RecordActivityTaskHeartbeatByID_Result_accessors v =
     (pointer_accessors WorkflowService_RecordActivityTaskHeartbeatByID_Result.Success v,
      pointer_accessors WorkflowService_RecordActivityTaskHeartbeatByID_Result.BadRequestError v,
      pointer_accessors WorkflowService_RecordActivityTaskHeartbeatByID_Result.InternalServiceError
          v,
      pointer_accessors WorkflowService_RecordActivityTaskHeartbeatByID_Result.EntityNotExistError
          v,
      pointer_accessors WorkflowService_RecordActivityTaskHeartbeatByID_Result.DomainNotActiveError
          v,
      pointer_accessors WorkflowService_RecordActivityTaskHeartbeatByID_Result.LimitExceededError v,
      pointer_accessors WorkflowService_RecordActivityTaskHeartbeatByID_Result.ServiceBusyError v,
      pointer_accessors
          WorkflowService_RecordActivityTaskHeartbeatByID_Result.ClientVersionNotSupportedError v)"

definition WorkflowService_RespondActivityTaskCompleted_Args_accessors ::
    "WorkflowService_RespondActivityTaskCompleted_Args option \<Rightarrow> RespondActivityTaskCompletedRequest
    option \<times> bool" where
  "WorkflowService_RespondActivityTaskCompleted_Args_accessors v =
     pointer_accessors WorkflowService_RespondActivityTaskCompleted_Args.CompleteRequest v"

definition WorkflowService_RespondActivityTaskCompleted_Result_accessors ::
    "WorkflowService_RespondActivityTaskCompleted_Result option \<Rightarrow> (BadRequestError option \<times> bool) \<times>
    (InternalServiceError option \<times> bool) \<times> (EntityNotExistsError option \<times> bool) \<times>
    (DomainNotActiveError option \<times> bool) \<times> (LimitExceededError option \<times> bool) \<times> (ServiceBusyError
    option \<times> bool) \<times> (ClientVersionNotSupportedError option \<times> bool)" where
  "WorkflowService_RespondActivityTaskCompleted_Result_accessors v =
     (pointer_accessors WorkflowService_RespondActivityTaskCompleted_Result.BadRequestError v,
      pointer_accessors WorkflowService_RespondActivityTaskCompleted_Result.InternalServiceError v,
      pointer_accessors WorkflowService_RespondActivityTaskCompleted_Result.EntityNotExistError v,
      pointer_accessors WorkflowService_RespondActivityTaskCompleted_Result.DomainNotActiveError v,
      pointer_accessors WorkflowService_RespondActivityTaskCompleted_Result.LimitExceededError v,
      pointer_accessors WorkflowService_RespondActivityTaskCompleted_Result.ServiceBusyError v,
      pointer_accessors
          WorkflowService_RespondActivityTaskCompleted_Result.ClientVersionNotSupportedError v)"

definition WorkflowService_RespondActivityTaskCompletedByID_Args_accessors ::
    "WorkflowService_RespondActivityTaskCompletedByID_Args option \<Rightarrow>
    RespondActivityTaskCompletedByIDRequest option \<times> bool" where
  "WorkflowService_RespondActivityTaskCompletedByID_Args_accessors v =
     pointer_accessors WorkflowService_RespondActivityTaskCompletedByID_Args.CompleteRequest v"

definition WorkflowService_RespondActivityTaskCompletedByID_Result_accessors ::
    "WorkflowService_RespondActivityTaskCompletedByID_Result option \<Rightarrow> (BadRequestError option \<times>
    bool) \<times> (InternalServiceError option \<times> bool) \<times> (EntityNotExistsError option \<times> bool) \<times>
    (DomainNotActiveError option \<times> bool) \<times> (LimitExceededError option \<times> bool) \<times> (ServiceBusyError
    option \<times> bool) \<times> (ClientVersionNotSupportedError option \<times> bool)" where
  "WorkflowService_RespondActivityTaskCompletedByID_Result_accessors v =
     (pointer_accessors WorkflowService_RespondActivityTaskCompletedByID_Result.BadRequestError v,
      pointer_accessors WorkflowService_RespondActivityTaskCompletedByID_Result.InternalServiceError
          v,
      pointer_accessors WorkflowService_RespondActivityTaskCompletedByID_Result.EntityNotExistError
          v,
      pointer_accessors WorkflowService_RespondActivityTaskCompletedByID_Result.DomainNotActiveError
          v,
      pointer_accessors WorkflowService_RespondActivityTaskCompletedByID_Result.LimitExceededError
          v,
      pointer_accessors WorkflowService_RespondActivityTaskCompletedByID_Result.ServiceBusyError v,
      pointer_accessors
          WorkflowService_RespondActivityTaskCompletedByID_Result.ClientVersionNotSupportedError v)"

definition WorkflowService_RespondActivityTaskFailed_Args_accessors ::
    "WorkflowService_RespondActivityTaskFailed_Args option \<Rightarrow> RespondActivityTaskFailedRequest option
    \<times> bool" where
  "WorkflowService_RespondActivityTaskFailed_Args_accessors v =
     pointer_accessors WorkflowService_RespondActivityTaskFailed_Args.FailRequest v"

definition WorkflowService_RespondActivityTaskFailed_Result_accessors ::
    "WorkflowService_RespondActivityTaskFailed_Result option \<Rightarrow> (BadRequestError option \<times> bool) \<times>
    (InternalServiceError option \<times> bool) \<times> (EntityNotExistsError option \<times> bool) \<times>
    (DomainNotActiveError option \<times> bool) \<times> (LimitExceededError option \<times> bool) \<times> (ServiceBusyError
    option \<times> bool) \<times> (ClientVersionNotSupportedError option \<times> bool)" where
  "WorkflowService_RespondActivityTaskFailed_Result_accessors v =
     (pointer_accessors WorkflowService_RespondActivityTaskFailed_Result.BadRequestError v,
      pointer_accessors WorkflowService_RespondActivityTaskFailed_Result.InternalServiceError v,
      pointer_accessors WorkflowService_RespondActivityTaskFailed_Result.EntityNotExistError v,
      pointer_accessors WorkflowService_RespondActivityTaskFailed_Result.DomainNotActiveError v,
      pointer_accessors WorkflowService_RespondActivityTaskFailed_Result.LimitExceededError v,
      pointer_accessors WorkflowService_RespondActivityTaskFailed_Result.ServiceBusyError v,
      pointer_accessors
          WorkflowService_RespondActivityTaskFailed_Result.ClientVersionNotSupportedError v)"

definition WorkflowService_RespondActivityTaskFailedByID_Args_accessors ::
    "WorkflowService_RespondActivityTaskFailedByID_Args option \<Rightarrow>
    RespondActivityTaskFailedByIDRequest option \<times> bool" where
  "WorkflowService_RespondActivityTaskFailedByID_Args_accessors v =
     pointer_accessors WorkflowService_RespondActivityTaskFailedByID_Args.FailRequest v"

definition WorkflowService_RespondActivityTaskFailedByID_Result_accessors ::
    "WorkflowService_RespondActivityTaskFailedByID_Result option \<Rightarrow> (BadRequestError option \<times> bool) \<times>
    (InternalServiceError option \<times> bool) \<times> (EntityNotExistsError option \<times> bool) \<times>
    (DomainNotActiveError option \<times> bool) \<times> (LimitExceededError option \<times> bool) \<times> (ServiceBusyError
    option \<times> bool) \<times> (ClientVersionNotSupportedError option \<times> bool)" where
  "WorkflowService_RespondActivityTaskFailedByID_Result_accessors v =
     (pointer_accessors WorkflowService_RespondActivityTaskFailedByID_Result.BadRequestError v,
      pointer_accessors WorkflowService_RespondActivityTaskFailedByID_Result.InternalServiceError v,
      pointer_accessors WorkflowService_RespondActivityTaskFailedByID_Result.EntityNotExistError v,
      pointer_accessors WorkflowService_RespondActivityTaskFailedByID_Result.DomainNotActiveError v,
      pointer_accessors WorkflowService_RespondActivityTaskFailedByID_Result.LimitExceededError v,
      pointer_accessors WorkflowService_RespondActivityTaskFailedByID_Result.ServiceBusyError v,
      pointer_accessors
          WorkflowService_RespondActivityTaskFailedByID_Result.ClientVersionNotSupportedError v)"

definition WorkflowService_RespondActivityTaskCanceled_Args_accessors ::
    "WorkflowService_RespondActivityTaskCanceled_Args option \<Rightarrow> RespondActivityTaskCanceledRequest
    option \<times> bool" where
  "WorkflowService_RespondActivityTaskCanceled_Args_accessors v =
     pointer_accessors WorkflowService_RespondActivityTaskCanceled_Args.CanceledRequest v"

definition WorkflowService_RespondActivityTaskCanceled_Result_accessors ::
    "WorkflowService_RespondActivityTaskCanceled_Result option \<Rightarrow> (BadRequestError option \<times> bool) \<times>
    (InternalServiceError option \<times> bool) \<times> (EntityNotExistsError option \<times> bool) \<times>
    (DomainNotActiveError option \<times> bool) \<times> (LimitExceededError option \<times> bool) \<times> (ServiceBusyError
    option \<times> bool) \<times> (ClientVersionNotSupportedError option \<times> bool)" where
  "WorkflowService_RespondActivityTaskCanceled_Result_accessors v =
     (pointer_accessors WorkflowService_RespondActivityTaskCanceled_Result.BadRequestError v,
      pointer_accessors WorkflowService_RespondActivityTaskCanceled_Result.InternalServiceError v,
      pointer_accessors WorkflowService_RespondActivityTaskCanceled_Result.EntityNotExistError v,
      pointer_accessors WorkflowService_RespondActivityTaskCanceled_Result.DomainNotActiveError v,
      pointer_accessors WorkflowService_RespondActivityTaskCanceled_Result.LimitExceededError v,
      pointer_accessors WorkflowService_RespondActivityTaskCanceled_Result.ServiceBusyError v,
      pointer_accessors
          WorkflowService_RespondActivityTaskCanceled_Result.ClientVersionNotSupportedError v)"

definition WorkflowService_RespondActivityTaskCanceledByID_Args_accessors ::
    "WorkflowService_RespondActivityTaskCanceledByID_Args option \<Rightarrow>
    RespondActivityTaskCanceledByIDRequest option \<times> bool" where
  "WorkflowService_RespondActivityTaskCanceledByID_Args_accessors v =
     pointer_accessors WorkflowService_RespondActivityTaskCanceledByID_Args.CanceledRequest v"

definition WorkflowService_RespondActivityTaskCanceledByID_Result_accessors ::
    "WorkflowService_RespondActivityTaskCanceledByID_Result option \<Rightarrow> (BadRequestError option \<times> bool)
    \<times> (InternalServiceError option \<times> bool) \<times> (EntityNotExistsError option \<times> bool) \<times>
    (DomainNotActiveError option \<times> bool) \<times> (LimitExceededError option \<times> bool) \<times> (ServiceBusyError
    option \<times> bool) \<times> (ClientVersionNotSupportedError option \<times> bool)" where
  "WorkflowService_RespondActivityTaskCanceledByID_Result_accessors v =
     (pointer_accessors WorkflowService_RespondActivityTaskCanceledByID_Result.BadRequestError v,
      pointer_accessors WorkflowService_RespondActivityTaskCanceledByID_Result.InternalServiceError
          v,
      pointer_accessors WorkflowService_RespondActivityTaskCanceledByID_Result.EntityNotExistError
          v,
      pointer_accessors WorkflowService_RespondActivityTaskCanceledByID_Result.DomainNotActiveError
          v,
      pointer_accessors WorkflowService_RespondActivityTaskCanceledByID_Result.LimitExceededError v,
      pointer_accessors WorkflowService_RespondActivityTaskCanceledByID_Result.ServiceBusyError v,
      pointer_accessors
          WorkflowService_RespondActivityTaskCanceledByID_Result.ClientVersionNotSupportedError v)"

definition WorkflowService_PollForDecisionTask_Args_accessors ::
    "WorkflowService_PollForDecisionTask_Args option \<Rightarrow> PollForDecisionTaskRequest option \<times> bool"
    where
  "WorkflowService_PollForDecisionTask_Args_accessors v =
     pointer_accessors WorkflowService_PollForDecisionTask_Args.PollRequest v"

definition WorkflowService_PollForDecisionTask_Result_accessors ::
    "WorkflowService_PollForDecisionTask_Result option \<Rightarrow> (PollForDecisionTaskResponse option \<times> bool)
    \<times> (BadRequestError option \<times> bool) \<times> (InternalServiceError option \<times> bool) \<times> (ServiceBusyError
    option \<times> bool) \<times> (LimitExceededError option \<times> bool) \<times> (EntityNotExistsError option \<times> bool) \<times>
    (DomainNotActiveError option \<times> bool) \<times> (ClientVersionNotSupportedError option \<times> bool)" where
  "WorkflowService_PollForDecisionTask_Result_accessors v =
     (pointer_accessors WorkflowService_PollForDecisionTask_Result.Success v,
      pointer_accessors WorkflowService_PollForDecisionTask_Result.BadRequestError v,
      pointer_accessors WorkflowService_PollForDecisionTask_Result.InternalServiceError v,
      pointer_accessors WorkflowService_PollForDecisionTask_Result.ServiceBusyError v,
      pointer_accessors WorkflowService_PollForDecisionTask_Result.LimitExceededError v,
      pointer_accessors WorkflowService_PollForDecisionTask_Result.EntityNotExistError v,
      pointer_accessors WorkflowService_PollForDecisionTask_Result.DomainNotActiveError v,
      pointer_accessors WorkflowService_PollForDecisionTask_Result.ClientVersionNotSupportedError
          v)"

definition WorkflowService_RespondDecisionTaskCompleted_Args_accessors ::
    "WorkflowService_RespondDecisionTaskCompleted_Args option \<Rightarrow> RespondDecisionTaskCompletedRequest
    option \<times> bool" where
  "WorkflowService_RespondDecisionTaskCompleted_Args_accessors v =
     pointer_accessors WorkflowService_RespondDecisionTaskCompleted_Args.CompleteRequest v"

definition WorkflowService_RespondDecisionTaskCompleted_Result_accessors ::
    "WorkflowService_RespondDecisionTaskCompleted_Result option \<Rightarrow>
    (RespondDecisionTaskCompletedResponse option \<times> bool) \<times> (BadRequestError option \<times> bool) \<times>
    (InternalServiceError option \<times> bool) \<times> (EntityNotExistsError option \<times> bool) \<times>
    (DomainNotActiveError option \<times> bool) \<times> (LimitExceededError option \<times> bool) \<times> (ServiceBusyError
    option \<times> bool) \<times> (ClientVersionNotSupportedError option \<times> bool)" where
  "WorkflowService_RespondDecisionTaskCompleted_Result_accessors v =
     (pointer_accessors WorkflowService_RespondDecisionTaskCompleted_Result.Success v,
      pointer_accessors WorkflowService_RespondDecisionTaskCompleted_Result.BadRequestError v,
      pointer_accessors WorkflowService_RespondDecisionTaskCompleted_Result.InternalServiceError v,
      pointer_accessors WorkflowService_RespondDecisionTaskCompleted_Result.EntityNotExistError v,
      pointer_accessors WorkflowService_RespondDecisionTaskCompleted_Result.DomainNotActiveError v,
      pointer_accessors WorkflowService_RespondDecisionTaskCompleted_Result.LimitExceededError v,
      pointer_accessors WorkflowService_RespondDecisionTaskCompleted_Result.ServiceBusyError v,
      pointer_accessors
          WorkflowService_RespondDecisionTaskCompleted_Result.ClientVersionNotSupportedError v)"

definition WorkflowService_RespondDecisionTaskFailed_Args_accessors ::
    "WorkflowService_RespondDecisionTaskFailed_Args option \<Rightarrow> RespondDecisionTaskFailedRequest option
    \<times> bool" where
  "WorkflowService_RespondDecisionTaskFailed_Args_accessors v =
     pointer_accessors WorkflowService_RespondDecisionTaskFailed_Args.FailedRequest v"

definition WorkflowService_RespondDecisionTaskFailed_Result_accessors ::
    "WorkflowService_RespondDecisionTaskFailed_Result option \<Rightarrow> (BadRequestError option \<times> bool) \<times>
    (InternalServiceError option \<times> bool) \<times> (EntityNotExistsError option \<times> bool) \<times>
    (DomainNotActiveError option \<times> bool) \<times> (LimitExceededError option \<times> bool) \<times> (ServiceBusyError
    option \<times> bool) \<times> (ClientVersionNotSupportedError option \<times> bool)" where
  "WorkflowService_RespondDecisionTaskFailed_Result_accessors v =
     (pointer_accessors WorkflowService_RespondDecisionTaskFailed_Result.BadRequestError v,
      pointer_accessors WorkflowService_RespondDecisionTaskFailed_Result.InternalServiceError v,
      pointer_accessors WorkflowService_RespondDecisionTaskFailed_Result.EntityNotExistError v,
      pointer_accessors WorkflowService_RespondDecisionTaskFailed_Result.DomainNotActiveError v,
      pointer_accessors WorkflowService_RespondDecisionTaskFailed_Result.LimitExceededError v,
      pointer_accessors WorkflowService_RespondDecisionTaskFailed_Result.ServiceBusyError v,
      pointer_accessors
          WorkflowService_RespondDecisionTaskFailed_Result.ClientVersionNotSupportedError v)"

definition WorkflowService_RespondQueryTaskCompleted_Args_accessors ::
    "WorkflowService_RespondQueryTaskCompleted_Args option \<Rightarrow> RespondQueryTaskCompletedRequest option
    \<times> bool" where
  "WorkflowService_RespondQueryTaskCompleted_Args_accessors v =
     pointer_accessors WorkflowService_RespondQueryTaskCompleted_Args.CompleteRequest v"

definition WorkflowService_RespondQueryTaskCompleted_Result_accessors ::
    "WorkflowService_RespondQueryTaskCompleted_Result option \<Rightarrow> (BadRequestError option \<times> bool) \<times>
    (InternalServiceError option \<times> bool) \<times> (EntityNotExistsError option \<times> bool) \<times>
    (LimitExceededError option \<times> bool) \<times> (ServiceBusyError option \<times> bool) \<times> (DomainNotActiveError
    option \<times> bool) \<times> (ClientVersionNotSupportedError option \<times> bool)" where
  "WorkflowService_RespondQueryTaskCompleted_Result_accessors v =
     (pointer_accessors WorkflowService_RespondQueryTaskCompleted_Result.BadRequestError v,
      pointer_accessors WorkflowService_RespondQueryTaskCompleted_Result.InternalServiceError v,
      pointer_accessors WorkflowService_RespondQueryTaskCompleted_Result.EntityNotExistError v,
      pointer_accessors WorkflowService_RespondQueryTaskCompleted_Result.LimitExceededError v,
      pointer_accessors WorkflowService_RespondQueryTaskCompleted_Result.ServiceBusyError v,
      pointer_accessors WorkflowService_RespondQueryTaskCompleted_Result.DomainNotActiveError v,
      pointer_accessors
          WorkflowService_RespondQueryTaskCompleted_Result.ClientVersionNotSupportedError v)"

definition WorkflowService_QueryWorkflow_Args_accessors :: "WorkflowService_QueryWorkflow_Args
    option \<Rightarrow> QueryWorkflowRequest option \<times> bool" where
  "WorkflowService_QueryWorkflow_Args_accessors v =
     pointer_accessors WorkflowService_QueryWorkflow_Args.QueryRequest v"

definition WorkflowService_QueryWorkflow_Result_accessors :: "WorkflowService_QueryWorkflow_Result
    option \<Rightarrow> (QueryWorkflowResponse option \<times> bool) \<times> (BadRequestError option \<times> bool) \<times>
    (InternalServiceError option \<times> bool) \<times> (EntityNotExistsError option \<times> bool) \<times> (QueryFailedError
    option \<times> bool) \<times> (LimitExceededError option \<times> bool) \<times> (ServiceBusyError option \<times> bool) \<times>
    (ClientVersionNotSupportedError option \<times> bool)" where
  "WorkflowService_QueryWorkflow_Result_accessors v =
     (pointer_accessors WorkflowService_QueryWorkflow_Result.Success v,
      pointer_accessors WorkflowService_QueryWorkflow_Result.BadRequestError v,
      pointer_accessors WorkflowService_QueryWorkflow_Result.InternalServiceError v,
      pointer_accessors WorkflowService_QueryWorkflow_Result.EntityNotExistError v,
      pointer_accessors WorkflowService_QueryWorkflow_Result.QueryFailedError v,
      pointer_accessors WorkflowService_QueryWorkflow_Result.LimitExceededError v,
      pointer_accessors WorkflowService_QueryWorkflow_Result.ServiceBusyError v,
      pointer_accessors WorkflowService_QueryWorkflow_Result.ClientVersionNotSupportedError v)"

definition WorkflowService_ResetStickyTaskList_Args_accessors ::
    "WorkflowService_ResetStickyTaskList_Args option \<Rightarrow> ResetStickyTaskListRequest option \<times> bool"
    where
  "WorkflowService_ResetStickyTaskList_Args_accessors v =
     pointer_accessors WorkflowService_ResetStickyTaskList_Args.ResetRequest v"

definition WorkflowService_ResetStickyTaskList_Result_accessors ::
    "WorkflowService_ResetStickyTaskList_Result option \<Rightarrow> (ResetStickyTaskListResponse option \<times> bool)
    \<times> (BadRequestError option \<times> bool) \<times> (InternalServiceError option \<times> bool) \<times> (EntityNotExistsError
    option \<times> bool) \<times> (LimitExceededError option \<times> bool) \<times> (ServiceBusyError option \<times> bool) \<times>
    (DomainNotActiveError option \<times> bool) \<times> (ClientVersionNotSupportedError option \<times> bool)" where
  "WorkflowService_ResetStickyTaskList_Result_accessors v =
     (pointer_accessors WorkflowService_ResetStickyTaskList_Result.Success v,
      pointer_accessors WorkflowService_ResetStickyTaskList_Result.BadRequestError v,
      pointer_accessors WorkflowService_ResetStickyTaskList_Result.InternalServiceError v,
      pointer_accessors WorkflowService_ResetStickyTaskList_Result.EntityNotExistError v,
      pointer_accessors WorkflowService_ResetStickyTaskList_Result.LimitExceededError v,
      pointer_accessors WorkflowService_ResetStickyTaskList_Result.ServiceBusyError v,
      pointer_accessors WorkflowService_ResetStickyTaskList_Result.DomainNotActiveError v,
      pointer_accessors WorkflowService_ResetStickyTaskList_Result.ClientVersionNotSupportedError
          v)"

definition WorkflowService_StartWorkflowExecution_Args_accessors ::
    "WorkflowService_StartWorkflowExecution_Args option \<Rightarrow> StartWorkflowExecutionRequest option \<times>
    bool" where
  "WorkflowService_StartWorkflowExecution_Args_accessors v =
     pointer_accessors WorkflowService_StartWorkflowExecution_Args.StartRequest v"

definition WorkflowService_StartWorkflowExecution_Result_accessors1 ::
    "WorkflowService_StartWorkflowExecution_Result option \<Rightarrow> (StartWorkflowExecutionResponse option \<times>
    bool) \<times> (BadRequestError option \<times> bool) \<times> (InternalServiceError option \<times> bool) \<times>
    (WorkflowExecutionAlreadyStartedError option \<times> bool) \<times> (ServiceBusyError option \<times> bool) \<times>
    (DomainNotActiveError option \<times> bool) \<times> (LimitExceededError option \<times> bool) \<times>
    (EntityNotExistsError option \<times> bool)" where
  "WorkflowService_StartWorkflowExecution_Result_accessors1 v =
     (pointer_accessors WorkflowService_StartWorkflowExecution_Result.Success v,
      pointer_accessors WorkflowService_StartWorkflowExecution_Result.BadRequestError v,
      pointer_accessors WorkflowService_StartWorkflowExecution_Result.InternalServiceError v,
      pointer_accessors WorkflowService_StartWorkflowExecution_Result.SessionAlreadyExistError v,
      pointer_accessors WorkflowService_StartWorkflowExecution_Result.ServiceBusyError v,
      pointer_accessors WorkflowService_StartWorkflowExecution_Result.DomainNotActiveError v,
      pointer_accessors WorkflowService_StartWorkflowExecution_Result.LimitExceededError v,
      pointer_accessors WorkflowService_StartWorkflowExecution_Result.EntityNotExistError v)"

definition WorkflowService_StartWorkflowExecution_Result_accessors2 ::
    "WorkflowService_StartWorkflowExecution_Result option \<Rightarrow> ClientVersionNotSupportedError option \<times>
    bool" where
  "WorkflowService_StartWorkflowExecution_Result_accessors2 v =
     pointer_accessors WorkflowService_StartWorkflowExecution_Result.ClientVersionNotSupportedError
         v"

definition WorkflowService_SignalWithStartWorkflowExecution_Args_accessors ::
    "WorkflowService_SignalWithStartWorkflowExecution_Args option \<Rightarrow>
    SignalWithStartWorkflowExecutionRequest option \<times> bool" where
  "WorkflowService_SignalWithStartWorkflowExecution_Args_accessors v =
     pointer_accessors WorkflowService_SignalWithStartWorkflowExecution_Args.SignalWithStartRequest
         v"

definition WorkflowService_SignalWithStartWorkflowExecution_Result_accessors1 ::
    "WorkflowService_SignalWithStartWorkflowExecution_Result option \<Rightarrow>
    (StartWorkflowExecutionResponse option \<times> bool) \<times> (BadRequestError option \<times> bool) \<times>
    (InternalServiceError option \<times> bool) \<times> (EntityNotExistsError option \<times> bool) \<times> (ServiceBusyError
    option \<times> bool) \<times> (DomainNotActiveError option \<times> bool) \<times> (LimitExceededError option \<times> bool) \<times>
    (WorkflowExecutionAlreadyStartedError option \<times> bool)" where
  "WorkflowService_SignalWithStartWorkflowExecution_Result_accessors1 v =
     (pointer_accessors WorkflowService_SignalWithStartWorkflowExecution_Result.Success v,
      pointer_accessors WorkflowService_SignalWithStartWorkflowExecution_Result.BadRequestError v,
      pointer_accessors WorkflowService_SignalWithStartWorkflowExecution_Result.InternalServiceError
          v,
      pointer_accessors WorkflowService_SignalWithStartWorkflowExecution_Result.EntityNotExistError
          v,
      pointer_accessors WorkflowService_SignalWithStartWorkflowExecution_Result.ServiceBusyError v,
      pointer_accessors WorkflowService_SignalWithStartWorkflowExecution_Result.DomainNotActiveError
          v,
      pointer_accessors WorkflowService_SignalWithStartWorkflowExecution_Result.LimitExceededError
          v,
      pointer_accessors
          WorkflowService_SignalWithStartWorkflowExecution_Result.WorkflowAlreadyStartedError v)"

definition WorkflowService_SignalWithStartWorkflowExecution_Result_accessors2 ::
    "WorkflowService_SignalWithStartWorkflowExecution_Result option \<Rightarrow> ClientVersionNotSupportedError
    option \<times> bool" where
  "WorkflowService_SignalWithStartWorkflowExecution_Result_accessors2 v =
     pointer_accessors
         WorkflowService_SignalWithStartWorkflowExecution_Result.ClientVersionNotSupportedError v"

definition WorkflowService_SignalWorkflowExecution_Args_accessors ::
    "WorkflowService_SignalWorkflowExecution_Args option \<Rightarrow> SignalWorkflowExecutionRequest option \<times>
    bool" where
  "WorkflowService_SignalWorkflowExecution_Args_accessors v =
     pointer_accessors WorkflowService_SignalWorkflowExecution_Args.SignalRequest v"

definition WorkflowService_SignalWorkflowExecution_Result_accessors ::
    "WorkflowService_SignalWorkflowExecution_Result option \<Rightarrow> (BadRequestError option \<times> bool) \<times>
    (InternalServiceError option \<times> bool) \<times> (EntityNotExistsError option \<times> bool) \<times> (ServiceBusyError
    option \<times> bool) \<times> (DomainNotActiveError option \<times> bool) \<times> (LimitExceededError option \<times> bool) \<times>
    (ClientVersionNotSupportedError option \<times> bool)" where
  "WorkflowService_SignalWorkflowExecution_Result_accessors v =
     (pointer_accessors WorkflowService_SignalWorkflowExecution_Result.BadRequestError v,
      pointer_accessors WorkflowService_SignalWorkflowExecution_Result.InternalServiceError v,
      pointer_accessors WorkflowService_SignalWorkflowExecution_Result.EntityNotExistError v,
      pointer_accessors WorkflowService_SignalWorkflowExecution_Result.ServiceBusyError v,
      pointer_accessors WorkflowService_SignalWorkflowExecution_Result.DomainNotActiveError v,
      pointer_accessors WorkflowService_SignalWorkflowExecution_Result.LimitExceededError v,
      pointer_accessors
          WorkflowService_SignalWorkflowExecution_Result.ClientVersionNotSupportedError v)"

definition WorkflowService_TerminateWorkflowExecution_Args_accessors ::
    "WorkflowService_TerminateWorkflowExecution_Args option \<Rightarrow> TerminateWorkflowExecutionRequest
    option \<times> bool" where
  "WorkflowService_TerminateWorkflowExecution_Args_accessors v =
     pointer_accessors WorkflowService_TerminateWorkflowExecution_Args.TerminateRequest v"

definition WorkflowService_TerminateWorkflowExecution_Result_accessors ::
    "WorkflowService_TerminateWorkflowExecution_Result option \<Rightarrow> (BadRequestError option \<times> bool) \<times>
    (InternalServiceError option \<times> bool) \<times> (EntityNotExistsError option \<times> bool) \<times> (ServiceBusyError
    option \<times> bool) \<times> (DomainNotActiveError option \<times> bool) \<times> (LimitExceededError option \<times> bool) \<times>
    (ClientVersionNotSupportedError option \<times> bool)" where
  "WorkflowService_TerminateWorkflowExecution_Result_accessors v =
     (pointer_accessors WorkflowService_TerminateWorkflowExecution_Result.BadRequestError v,
      pointer_accessors WorkflowService_TerminateWorkflowExecution_Result.InternalServiceError v,
      pointer_accessors WorkflowService_TerminateWorkflowExecution_Result.EntityNotExistError v,
      pointer_accessors WorkflowService_TerminateWorkflowExecution_Result.ServiceBusyError v,
      pointer_accessors WorkflowService_TerminateWorkflowExecution_Result.DomainNotActiveError v,
      pointer_accessors WorkflowService_TerminateWorkflowExecution_Result.LimitExceededError v,
      pointer_accessors
          WorkflowService_TerminateWorkflowExecution_Result.ClientVersionNotSupportedError v)"

definition WorkflowService_RequestCancelWorkflowExecution_Args_accessors ::
    "WorkflowService_RequestCancelWorkflowExecution_Args option \<Rightarrow>
    RequestCancelWorkflowExecutionRequest option \<times> bool" where
  "WorkflowService_RequestCancelWorkflowExecution_Args_accessors v =
     pointer_accessors WorkflowService_RequestCancelWorkflowExecution_Args.CancelRequest v"

definition WorkflowService_RequestCancelWorkflowExecution_Result_accessors ::
    "WorkflowService_RequestCancelWorkflowExecution_Result option \<Rightarrow> (BadRequestError option \<times> bool)
    \<times> (InternalServiceError option \<times> bool) \<times> (EntityNotExistsError option \<times> bool) \<times>
    (CancellationAlreadyRequestedError option \<times> bool) \<times> (ServiceBusyError option \<times> bool) \<times>
    (DomainNotActiveError option \<times> bool) \<times> (LimitExceededError option \<times> bool) \<times>
    (ClientVersionNotSupportedError option \<times> bool)" where
  "WorkflowService_RequestCancelWorkflowExecution_Result_accessors v =
     (pointer_accessors WorkflowService_RequestCancelWorkflowExecution_Result.BadRequestError v,
      pointer_accessors WorkflowService_RequestCancelWorkflowExecution_Result.InternalServiceError
          v,
      pointer_accessors WorkflowService_RequestCancelWorkflowExecution_Result.EntityNotExistError v,
      pointer_accessors
          WorkflowService_RequestCancelWorkflowExecution_Result.CancellationAlreadyRequestedError v,
      pointer_accessors WorkflowService_RequestCancelWorkflowExecution_Result.ServiceBusyError v,
      pointer_accessors WorkflowService_RequestCancelWorkflowExecution_Result.DomainNotActiveError
          v,
      pointer_accessors WorkflowService_RequestCancelWorkflowExecution_Result.LimitExceededError v,
      pointer_accessors
          WorkflowService_RequestCancelWorkflowExecution_Result.ClientVersionNotSupportedError v)"

definition WorkflowService_ResetWorkflowExecution_Args_accessors ::
    "WorkflowService_ResetWorkflowExecution_Args option \<Rightarrow> ResetWorkflowExecutionRequest option \<times>
    bool" where
  "WorkflowService_ResetWorkflowExecution_Args_accessors v =
     pointer_accessors WorkflowService_ResetWorkflowExecution_Args.ResetRequest v"

definition WorkflowService_ResetWorkflowExecution_Result_accessors ::
    "WorkflowService_ResetWorkflowExecution_Result option \<Rightarrow> (ResetWorkflowExecutionResponse option \<times>
    bool) \<times> (BadRequestError option \<times> bool) \<times> (InternalServiceError option \<times> bool) \<times>
    (EntityNotExistsError option \<times> bool) \<times> (ServiceBusyError option \<times> bool) \<times> (DomainNotActiveError
    option \<times> bool) \<times> (LimitExceededError option \<times> bool) \<times> (ClientVersionNotSupportedError option \<times>
    bool)" where
  "WorkflowService_ResetWorkflowExecution_Result_accessors v =
     (pointer_accessors WorkflowService_ResetWorkflowExecution_Result.Success v,
      pointer_accessors WorkflowService_ResetWorkflowExecution_Result.BadRequestError v,
      pointer_accessors WorkflowService_ResetWorkflowExecution_Result.InternalServiceError v,
      pointer_accessors WorkflowService_ResetWorkflowExecution_Result.EntityNotExistError v,
      pointer_accessors WorkflowService_ResetWorkflowExecution_Result.ServiceBusyError v,
      pointer_accessors WorkflowService_ResetWorkflowExecution_Result.DomainNotActiveError v,
      pointer_accessors WorkflowService_ResetWorkflowExecution_Result.LimitExceededError v,
      pointer_accessors WorkflowService_ResetWorkflowExecution_Result.ClientVersionNotSupportedError
          v)"

definition WorkflowService_GetWorkflowExecutionHistory_Args_accessors ::
    "WorkflowService_GetWorkflowExecutionHistory_Args option \<Rightarrow> GetWorkflowExecutionHistoryRequest
    option \<times> bool" where
  "WorkflowService_GetWorkflowExecutionHistory_Args_accessors v =
     pointer_accessors WorkflowService_GetWorkflowExecutionHistory_Args.GetRequest v"

definition WorkflowService_GetWorkflowExecutionHistory_Result_accessors ::
    "WorkflowService_GetWorkflowExecutionHistory_Result option \<Rightarrow>
    (GetWorkflowExecutionHistoryResponse option \<times> bool) \<times> (BadRequestError option \<times> bool) \<times>
    (InternalServiceError option \<times> bool) \<times> (EntityNotExistsError option \<times> bool) \<times> (ServiceBusyError
    option \<times> bool) \<times> (ClientVersionNotSupportedError option \<times> bool)" where
  "WorkflowService_GetWorkflowExecutionHistory_Result_accessors v =
     (pointer_accessors WorkflowService_GetWorkflowExecutionHistory_Result.Success v,
      pointer_accessors WorkflowService_GetWorkflowExecutionHistory_Result.BadRequestError v,
      pointer_accessors WorkflowService_GetWorkflowExecutionHistory_Result.InternalServiceError v,
      pointer_accessors WorkflowService_GetWorkflowExecutionHistory_Result.EntityNotExistError v,
      pointer_accessors WorkflowService_GetWorkflowExecutionHistory_Result.ServiceBusyError v,
      pointer_accessors
          WorkflowService_GetWorkflowExecutionHistory_Result.ClientVersionNotSupportedError v)"

definition WorkflowService_RegisterDomain_Args_accessors :: "WorkflowService_RegisterDomain_Args
    option \<Rightarrow> RegisterDomainRequest option \<times> bool" where
  "WorkflowService_RegisterDomain_Args_accessors v =
     pointer_accessors WorkflowService_RegisterDomain_Args.RegisterRequest v"

definition WorkflowService_RegisterDomain_Result_accessors :: "WorkflowService_RegisterDomain_Result
    option \<Rightarrow> (BadRequestError option \<times> bool) \<times> (InternalServiceError option \<times> bool) \<times>
    (DomainAlreadyExistsError option \<times> bool) \<times> (ServiceBusyError option \<times> bool) \<times>
    (ClientVersionNotSupportedError option \<times> bool)" where
  "WorkflowService_RegisterDomain_Result_accessors v =
     (pointer_accessors WorkflowService_RegisterDomain_Result.BadRequestError v,
      pointer_accessors WorkflowService_RegisterDomain_Result.InternalServiceError v,
      pointer_accessors WorkflowService_RegisterDomain_Result.DomainExistsError v,
      pointer_accessors WorkflowService_RegisterDomain_Result.ServiceBusyError v,
      pointer_accessors WorkflowService_RegisterDomain_Result.ClientVersionNotSupportedError v)"

definition WorkflowService_DescribeDomain_Args_accessors :: "WorkflowService_DescribeDomain_Args
    option \<Rightarrow> DescribeDomainRequest option \<times> bool" where
  "WorkflowService_DescribeDomain_Args_accessors v =
     pointer_accessors WorkflowService_DescribeDomain_Args.DescribeRequest v"

definition WorkflowService_DescribeDomain_Result_accessors :: "WorkflowService_DescribeDomain_Result
    option \<Rightarrow> (DescribeDomainResponse option \<times> bool) \<times> (BadRequestError option \<times> bool) \<times>
    (InternalServiceError option \<times> bool) \<times> (EntityNotExistsError option \<times> bool) \<times> (ServiceBusyError
    option \<times> bool) \<times> (ClientVersionNotSupportedError option \<times> bool)" where
  "WorkflowService_DescribeDomain_Result_accessors v =
     (pointer_accessors WorkflowService_DescribeDomain_Result.Success v,
      pointer_accessors WorkflowService_DescribeDomain_Result.BadRequestError v,
      pointer_accessors WorkflowService_DescribeDomain_Result.InternalServiceError v,
      pointer_accessors WorkflowService_DescribeDomain_Result.EntityNotExistError v,
      pointer_accessors WorkflowService_DescribeDomain_Result.ServiceBusyError v,
      pointer_accessors WorkflowService_DescribeDomain_Result.ClientVersionNotSupportedError v)"

definition WorkflowService_ListDomains_Args_accessors :: "WorkflowService_ListDomains_Args option \<Rightarrow>
    ListDomainsRequest option \<times> bool" where
  "WorkflowService_ListDomains_Args_accessors v =
     pointer_accessors WorkflowService_ListDomains_Args.ListRequest v"

definition WorkflowService_ListDomains_Result_accessors :: "WorkflowService_ListDomains_Result
    option \<Rightarrow> (ListDomainsResponse option \<times> bool) \<times> (BadRequestError option \<times> bool) \<times>
    (InternalServiceError option \<times> bool) \<times> (EntityNotExistsError option \<times> bool) \<times> (ServiceBusyError
    option \<times> bool) \<times> (ClientVersionNotSupportedError option \<times> bool)" where
  "WorkflowService_ListDomains_Result_accessors v =
     (pointer_accessors WorkflowService_ListDomains_Result.Success v,
      pointer_accessors WorkflowService_ListDomains_Result.BadRequestError v,
      pointer_accessors WorkflowService_ListDomains_Result.InternalServiceError v,
      pointer_accessors WorkflowService_ListDomains_Result.EntityNotExistError v,
      pointer_accessors WorkflowService_ListDomains_Result.ServiceBusyError v,
      pointer_accessors WorkflowService_ListDomains_Result.ClientVersionNotSupportedError v)"

definition WorkflowService_UpdateDomain_Args_accessors :: "WorkflowService_UpdateDomain_Args option
    \<Rightarrow> UpdateDomainRequest option \<times> bool" where
  "WorkflowService_UpdateDomain_Args_accessors v =
     pointer_accessors WorkflowService_UpdateDomain_Args.UpdateRequest v"

definition WorkflowService_UpdateDomain_Result_accessors :: "WorkflowService_UpdateDomain_Result
    option \<Rightarrow> (UpdateDomainResponse option \<times> bool) \<times> (BadRequestError option \<times> bool) \<times>
    (InternalServiceError option \<times> bool) \<times> (EntityNotExistsError option \<times> bool) \<times> (ServiceBusyError
    option \<times> bool) \<times> (DomainNotActiveError option \<times> bool) \<times> (ClientVersionNotSupportedError option \<times>
    bool)" where
  "WorkflowService_UpdateDomain_Result_accessors v =
     (pointer_accessors WorkflowService_UpdateDomain_Result.Success v,
      pointer_accessors WorkflowService_UpdateDomain_Result.BadRequestError v,
      pointer_accessors WorkflowService_UpdateDomain_Result.InternalServiceError v,
      pointer_accessors WorkflowService_UpdateDomain_Result.EntityNotExistError v,
      pointer_accessors WorkflowService_UpdateDomain_Result.ServiceBusyError v,
      pointer_accessors WorkflowService_UpdateDomain_Result.DomainNotActiveError v,
      pointer_accessors WorkflowService_UpdateDomain_Result.ClientVersionNotSupportedError v)"

definition WorkflowService_DeprecateDomain_Args_accessors :: "WorkflowService_DeprecateDomain_Args
    option \<Rightarrow> DeprecateDomainRequest option \<times> bool" where
  "WorkflowService_DeprecateDomain_Args_accessors v =
     pointer_accessors WorkflowService_DeprecateDomain_Args.DeprecateRequest v"

definition WorkflowService_DeprecateDomain_Result_accessors ::
    "WorkflowService_DeprecateDomain_Result option \<Rightarrow> (BadRequestError option \<times> bool) \<times>
    (InternalServiceError option \<times> bool) \<times> (EntityNotExistsError option \<times> bool) \<times> (ServiceBusyError
    option \<times> bool) \<times> (DomainNotActiveError option \<times> bool) \<times> (ClientVersionNotSupportedError option \<times>
    bool)" where
  "WorkflowService_DeprecateDomain_Result_accessors v =
     (pointer_accessors WorkflowService_DeprecateDomain_Result.BadRequestError v,
      pointer_accessors WorkflowService_DeprecateDomain_Result.InternalServiceError v,
      pointer_accessors WorkflowService_DeprecateDomain_Result.EntityNotExistError v,
      pointer_accessors WorkflowService_DeprecateDomain_Result.ServiceBusyError v,
      pointer_accessors WorkflowService_DeprecateDomain_Result.DomainNotActiveError v,
      pointer_accessors WorkflowService_DeprecateDomain_Result.ClientVersionNotSupportedError v)"

definition WorkflowService_DescribeTaskList_Args_accessors :: "WorkflowService_DescribeTaskList_Args
    option \<Rightarrow> DescribeTaskListRequest option \<times> bool" where
  "WorkflowService_DescribeTaskList_Args_accessors v =
     pointer_accessors WorkflowService_DescribeTaskList_Args.Request v"

definition WorkflowService_DescribeTaskList_Result_accessors ::
    "WorkflowService_DescribeTaskList_Result option \<Rightarrow> (DescribeTaskListResponse option \<times> bool) \<times>
    (BadRequestError option \<times> bool) \<times> (InternalServiceError option \<times> bool) \<times> (EntityNotExistsError
    option \<times> bool) \<times> (LimitExceededError option \<times> bool) \<times> (ServiceBusyError option \<times> bool) \<times>
    (ClientVersionNotSupportedError option \<times> bool)" where
  "WorkflowService_DescribeTaskList_Result_accessors v =
     (pointer_accessors WorkflowService_DescribeTaskList_Result.Success v,
      pointer_accessors WorkflowService_DescribeTaskList_Result.BadRequestError v,
      pointer_accessors WorkflowService_DescribeTaskList_Result.InternalServiceError v,
      pointer_accessors WorkflowService_DescribeTaskList_Result.EntityNotExistError v,
      pointer_accessors WorkflowService_DescribeTaskList_Result.LimitExceededError v,
      pointer_accessors WorkflowService_DescribeTaskList_Result.ServiceBusyError v,
      pointer_accessors WorkflowService_DescribeTaskList_Result.ClientVersionNotSupportedError v)"

definition WorkflowService_ListOpenWorkflowExecutions_Args_accessors ::
    "WorkflowService_ListOpenWorkflowExecutions_Args option \<Rightarrow> ListOpenWorkflowExecutionsRequest
    option \<times> bool" where
  "WorkflowService_ListOpenWorkflowExecutions_Args_accessors v =
     pointer_accessors WorkflowService_ListOpenWorkflowExecutions_Args.ListRequest v"

definition WorkflowService_ListOpenWorkflowExecutions_Result_accessors ::
    "WorkflowService_ListOpenWorkflowExecutions_Result option \<Rightarrow> (ListOpenWorkflowExecutionsResponse
    option \<times> bool) \<times> (BadRequestError option \<times> bool) \<times> (InternalServiceError option \<times> bool) \<times>
    (EntityNotExistsError option \<times> bool) \<times> (ServiceBusyError option \<times> bool) \<times> (LimitExceededError
    option \<times> bool) \<times> (ClientVersionNotSupportedError option \<times> bool)" where
  "WorkflowService_ListOpenWorkflowExecutions_Result_accessors v =
     (pointer_accessors WorkflowService_ListOpenWorkflowExecutions_Result.Success v,
      pointer_accessors WorkflowService_ListOpenWorkflowExecutions_Result.BadRequestError v,
      pointer_accessors WorkflowService_ListOpenWorkflowExecutions_Result.InternalServiceError v,
      pointer_accessors WorkflowService_ListOpenWorkflowExecutions_Result.EntityNotExistError v,
      pointer_accessors WorkflowService_ListOpenWorkflowExecutions_Result.ServiceBusyError v,
      pointer_accessors WorkflowService_ListOpenWorkflowExecutions_Result.LimitExceededError v,
      pointer_accessors
          WorkflowService_ListOpenWorkflowExecutions_Result.ClientVersionNotSupportedError v)"

definition WorkflowService_ListClosedWorkflowExecutions_Args_accessors ::
    "WorkflowService_ListClosedWorkflowExecutions_Args option \<Rightarrow> ListClosedWorkflowExecutionsRequest
    option \<times> bool" where
  "WorkflowService_ListClosedWorkflowExecutions_Args_accessors v =
     pointer_accessors WorkflowService_ListClosedWorkflowExecutions_Args.ListRequest v"

definition WorkflowService_ListClosedWorkflowExecutions_Result_accessors ::
    "WorkflowService_ListClosedWorkflowExecutions_Result option \<Rightarrow>
    (ListClosedWorkflowExecutionsResponse option \<times> bool) \<times> (BadRequestError option \<times> bool) \<times>
    (InternalServiceError option \<times> bool) \<times> (EntityNotExistsError option \<times> bool) \<times> (ServiceBusyError
    option \<times> bool) \<times> (ClientVersionNotSupportedError option \<times> bool)" where
  "WorkflowService_ListClosedWorkflowExecutions_Result_accessors v =
     (pointer_accessors WorkflowService_ListClosedWorkflowExecutions_Result.Success v,
      pointer_accessors WorkflowService_ListClosedWorkflowExecutions_Result.BadRequestError v,
      pointer_accessors WorkflowService_ListClosedWorkflowExecutions_Result.InternalServiceError v,
      pointer_accessors WorkflowService_ListClosedWorkflowExecutions_Result.EntityNotExistError v,
      pointer_accessors WorkflowService_ListClosedWorkflowExecutions_Result.ServiceBusyError v,
      pointer_accessors
          WorkflowService_ListClosedWorkflowExecutions_Result.ClientVersionNotSupportedError v)"

definition WorkflowService_ListWorkflowExecutions_Args_accessors ::
    "WorkflowService_ListWorkflowExecutions_Args option \<Rightarrow> ListWorkflowExecutionsRequest option \<times>
    bool" where
  "WorkflowService_ListWorkflowExecutions_Args_accessors v =
     pointer_accessors WorkflowService_ListWorkflowExecutions_Args.ListRequest v"

definition WorkflowService_ListWorkflowExecutions_Result_accessors ::
    "WorkflowService_ListWorkflowExecutions_Result option \<Rightarrow> (ListWorkflowExecutionsResponse option \<times>
    bool) \<times> (BadRequestError option \<times> bool) \<times> (InternalServiceError option \<times> bool) \<times>
    (EntityNotExistsError option \<times> bool) \<times> (ServiceBusyError option \<times> bool) \<times>
    (ClientVersionNotSupportedError option \<times> bool)" where
  "WorkflowService_ListWorkflowExecutions_Result_accessors v =
     (pointer_accessors WorkflowService_ListWorkflowExecutions_Result.Success v,
      pointer_accessors WorkflowService_ListWorkflowExecutions_Result.BadRequestError v,
      pointer_accessors WorkflowService_ListWorkflowExecutions_Result.InternalServiceError v,
      pointer_accessors WorkflowService_ListWorkflowExecutions_Result.EntityNotExistError v,
      pointer_accessors WorkflowService_ListWorkflowExecutions_Result.ServiceBusyError v,
      pointer_accessors WorkflowService_ListWorkflowExecutions_Result.ClientVersionNotSupportedError
          v)"

definition WorkflowService_ListArchivedWorkflowExecutions_Args_accessors ::
    "WorkflowService_ListArchivedWorkflowExecutions_Args option \<Rightarrow>
    ListArchivedWorkflowExecutionsRequest option \<times> bool" where
  "WorkflowService_ListArchivedWorkflowExecutions_Args_accessors v =
     pointer_accessors WorkflowService_ListArchivedWorkflowExecutions_Args.ListRequest v"

definition WorkflowService_ListArchivedWorkflowExecutions_Result_accessors ::
    "WorkflowService_ListArchivedWorkflowExecutions_Result option \<Rightarrow>
    (ListArchivedWorkflowExecutionsResponse option \<times> bool) \<times> (BadRequestError option \<times> bool) \<times>
    (InternalServiceError option \<times> bool) \<times> (EntityNotExistsError option \<times> bool) \<times> (ServiceBusyError
    option \<times> bool) \<times> (ClientVersionNotSupportedError option \<times> bool)" where
  "WorkflowService_ListArchivedWorkflowExecutions_Result_accessors v =
     (pointer_accessors WorkflowService_ListArchivedWorkflowExecutions_Result.Success v,
      pointer_accessors WorkflowService_ListArchivedWorkflowExecutions_Result.BadRequestError v,
      pointer_accessors WorkflowService_ListArchivedWorkflowExecutions_Result.InternalServiceError
          v,
      pointer_accessors WorkflowService_ListArchivedWorkflowExecutions_Result.EntityNotExistError v,
      pointer_accessors WorkflowService_ListArchivedWorkflowExecutions_Result.ServiceBusyError v,
      pointer_accessors
          WorkflowService_ListArchivedWorkflowExecutions_Result.ClientVersionNotSupportedError v)"

definition WorkflowService_ScanWorkflowExecutions_Args_accessors ::
    "WorkflowService_ScanWorkflowExecutions_Args option \<Rightarrow> ListWorkflowExecutionsRequest option \<times>
    bool" where
  "WorkflowService_ScanWorkflowExecutions_Args_accessors v =
     pointer_accessors WorkflowService_ScanWorkflowExecutions_Args.ListRequest v"

definition WorkflowService_ScanWorkflowExecutions_Result_accessors ::
    "WorkflowService_ScanWorkflowExecutions_Result option \<Rightarrow> (ListWorkflowExecutionsResponse option \<times>
    bool) \<times> (BadRequestError option \<times> bool) \<times> (InternalServiceError option \<times> bool) \<times>
    (EntityNotExistsError option \<times> bool) \<times> (ServiceBusyError option \<times> bool) \<times>
    (ClientVersionNotSupportedError option \<times> bool)" where
  "WorkflowService_ScanWorkflowExecutions_Result_accessors v =
     (pointer_accessors WorkflowService_ScanWorkflowExecutions_Result.Success v,
      pointer_accessors WorkflowService_ScanWorkflowExecutions_Result.BadRequestError v,
      pointer_accessors WorkflowService_ScanWorkflowExecutions_Result.InternalServiceError v,
      pointer_accessors WorkflowService_ScanWorkflowExecutions_Result.EntityNotExistError v,
      pointer_accessors WorkflowService_ScanWorkflowExecutions_Result.ServiceBusyError v,
      pointer_accessors WorkflowService_ScanWorkflowExecutions_Result.ClientVersionNotSupportedError
          v)"

definition WorkflowService_CountWorkflowExecutions_Args_accessors ::
    "WorkflowService_CountWorkflowExecutions_Args option \<Rightarrow> CountWorkflowExecutionsRequest option \<times>
    bool" where
  "WorkflowService_CountWorkflowExecutions_Args_accessors v =
     pointer_accessors WorkflowService_CountWorkflowExecutions_Args.CountRequest v"

definition WorkflowService_CountWorkflowExecutions_Result_accessors ::
    "WorkflowService_CountWorkflowExecutions_Result option \<Rightarrow> (CountWorkflowExecutionsResponse option
    \<times> bool) \<times> (BadRequestError option \<times> bool) \<times> (InternalServiceError option \<times> bool) \<times>
    (EntityNotExistsError option \<times> bool) \<times> (ServiceBusyError option \<times> bool) \<times>
    (ClientVersionNotSupportedError option \<times> bool)" where
  "WorkflowService_CountWorkflowExecutions_Result_accessors v =
     (pointer_accessors WorkflowService_CountWorkflowExecutions_Result.Success v,
      pointer_accessors WorkflowService_CountWorkflowExecutions_Result.BadRequestError v,
      pointer_accessors WorkflowService_CountWorkflowExecutions_Result.InternalServiceError v,
      pointer_accessors WorkflowService_CountWorkflowExecutions_Result.EntityNotExistError v,
      pointer_accessors WorkflowService_CountWorkflowExecutions_Result.ServiceBusyError v,
      pointer_accessors
          WorkflowService_CountWorkflowExecutions_Result.ClientVersionNotSupportedError v)"

definition WorkflowService_GetSearchAttributes_Result_accessors ::
    "WorkflowService_GetSearchAttributes_Result option \<Rightarrow> (GetSearchAttributesResponse option \<times> bool)
    \<times> (InternalServiceError option \<times> bool) \<times> (ServiceBusyError option \<times> bool) \<times>
    (ClientVersionNotSupportedError option \<times> bool)" where
  "WorkflowService_GetSearchAttributes_Result_accessors v =
     (pointer_accessors WorkflowService_GetSearchAttributes_Result.Success v,
      pointer_accessors WorkflowService_GetSearchAttributes_Result.InternalServiceError v,
      pointer_accessors WorkflowService_GetSearchAttributes_Result.ServiceBusyError v,
      pointer_accessors WorkflowService_GetSearchAttributes_Result.ClientVersionNotSupportedError
          v)"

definition WorkflowService_DescribeWorkflowExecution_Args_accessors ::
    "WorkflowService_DescribeWorkflowExecution_Args option \<Rightarrow> DescribeWorkflowExecutionRequest option
    \<times> bool" where
  "WorkflowService_DescribeWorkflowExecution_Args_accessors v =
     pointer_accessors WorkflowService_DescribeWorkflowExecution_Args.DescribeRequest v"

definition WorkflowService_DescribeWorkflowExecution_Result_accessors ::
    "WorkflowService_DescribeWorkflowExecution_Result option \<Rightarrow> (DescribeWorkflowExecutionResponse
    option \<times> bool) \<times> (BadRequestError option \<times> bool) \<times> (InternalServiceError option \<times> bool) \<times>
    (EntityNotExistsError option \<times> bool) \<times> (LimitExceededError option \<times> bool) \<times> (ServiceBusyError
    option \<times> bool) \<times> (ClientVersionNotSupportedError option \<times> bool)" where
  "WorkflowService_DescribeWorkflowExecution_Result_accessors v =
     (pointer_accessors WorkflowService_DescribeWorkflowExecution_Result.Success v,
      pointer_accessors WorkflowService_DescribeWorkflowExecution_Result.BadRequestError v,
      pointer_accessors WorkflowService_DescribeWorkflowExecution_Result.InternalServiceError v,
      pointer_accessors WorkflowService_DescribeWorkflowExecution_Result.EntityNotExistError v,
      pointer_accessors WorkflowService_DescribeWorkflowExecution_Result.LimitExceededError v,
      pointer_accessors WorkflowService_DescribeWorkflowExecution_Result.ServiceBusyError v,
      pointer_accessors
          WorkflowService_DescribeWorkflowExecution_Result.ClientVersionNotSupportedError v)"

end
