(* ===== verification/GoEventAccessors.thy ===== *)
theory GoEventAccessors
  imports GoPointers GoHistory
begin

text \<open>
  The accessors of events, histories and decisions (proxy/gen/shared/shared.go): the value of
  each field and whether it is set, in their order, through a pointer to the struct that may be
  \<open>nil\<close>.
\<close>

definition ActivityTaskCancelRequestedEventAttributes_accessors ::
    "ActivityTaskCancelRequestedEventAttributes option \<Rightarrow> (string \<times> bool) \<times> (64 word \<times> bool)" where
  "ActivityTaskCancelRequestedEventAttributes_accessors v =
     (value_accessors [] ActivityTaskCancelRequestedEventAttributes.ActivityId v,
      value_accessors 0 ActivityTaskCancelRequestedEventAttributes.DecisionTaskCompletedEventId v)"

definition ActivityTaskCanceledEventAttributes_accessors :: "ActivityTaskCanceledEventAttributes
    option \<Rightarrow> (bytes option \<times> bool) \<times> (64 word \<times> bool) \<times> (64 word \<times> bool) \<times> (64 word \<times> bool) \<times>
    (string \<times> bool)" where
  "ActivityTaskCanceledEventAttributes_accessors v =
     (pointer_accessors ActivityTaskCanceledEventAttributes.Details v,
      value_accessors 0 ActivityTaskCanceledEventAttributes.LatestCancelRequestedEventId v,
      value_accessors 0 ActivityTaskCanceledEventAttributes.ScheduledEventId v,
      value_accessors 0 ActivityTaskCanceledEventAttributes.StartedEventId v,
      value_accessors [] ActivityTaskCanceledEventAttributes.Identity v)"

definition ActivityTaskCompletedEventAttributes_accessors :: "ActivityTaskCompletedEventAttributes
    option \<Rightarrow> (bytes option \<times> bool) \<times> (64 word \<times> bool) \<times> (64 word \<times> bool) \<times> (string \<times> bool)" where
  "ActivityTaskCompletedEventAttributes_accessors v =
     (pointer_accessors ActivityTaskCompletedEventAttributes.Result v,
      value_accessors 0 ActivityTaskCompletedEventAttributes.ScheduledEventId v,
      value_accessors 0 ActivityTaskCompletedEventAttributes.StartedEventId v,
      value_accessors [] ActivityTaskCompletedEventAttributes.Identity v)"

definition ActivityTaskFailedEventAttributes_accessors :: "ActivityTaskFailedEventAttributes option
    \<Rightarrow> (string \<times> bool) \<times> (bytes option \<times> bool) \<times> (64 word \<times> bool) \<times> (64 word \<times> bool) \<times> (string \<times>
    bool)" where
  "ActivityTaskFailedEventAttributes_accessors v =
     (value_accessors [] ActivityTaskFailedEventAttributes.Reason v,
      pointer_accessors ActivityTaskFailedEventAttributes.Details v,
      value_accessors 0 ActivityTaskFailedEventAttributes.ScheduledEventId v,
      value_accessors 0 ActivityTaskFailedEventAttributes.StartedEventId v,
      value_accessors [] ActivityTaskFailedEventAttributes.Identity v)"

definition ActivityTaskScheduledEventAttributes_accessors1 :: "ActivityTaskScheduledEventAttributes
    option \<Rightarrow> (string \<times> bool) \<times> (ActivityType option \<times> bool) \<times> (string \<times> bool) \<times> (TaskList option \<times>
    bool) \<times> (bytes option \<times> bool) \<times> (32 word \<times> bool) \<times> (32 word \<times> bool) \<times> (32 word \<times> bool)" where
  "ActivityTaskScheduledEventAttributes_accessors1 v =
     (value_accessors [] ActivityTaskScheduledEventAttributes.ActivityId v,
      pointer_accessors ActivityTaskScheduledEventAttributes.ActivityType v,
      value_accessors [] ActivityTaskScheduledEventAttributes.Domain v,
      pointer_accessors ActivityTaskScheduledEventAttributes.TaskList v,
      pointer_accessors ActivityTaskScheduledEventAttributes.Input v,
      value_accessors 0 ActivityTaskScheduledEventAttributes.ScheduleToCloseTimeoutSeconds v,
      value_accessors 0 ActivityTaskScheduledEventAttributes.ScheduleToStartTimeoutSeconds v,
      value_accessors 0 ActivityTaskScheduledEventAttributes.StartToCloseTimeoutSeconds v)"

definition ActivityTaskScheduledEventAttributes_accessors2 :: "ActivityTaskScheduledEventAttributes
    option \<Rightarrow> (32 word \<times> bool) \<times> (64 word \<times> bool) \<times> (RetryPolicy option \<times> bool) \<times> (Header option \<times>
    bool)" where
  "ActivityTaskScheduledEventAttributes_accessors2 v =
     (value_accessors 0 ActivityTaskScheduledEventAttributes.HeartbeatTimeoutSeconds v,
      value_accessors 0 ActivityTaskScheduledEventAttributes.DecisionTaskCompletedEventId v,
      pointer_accessors ActivityTaskScheduledEventAttributes.RetryPolicy v,
      pointer_accessors ActivityTaskScheduledEventAttributes.Header v)"

definition ActivityTaskStartedEventAttributes_accessors :: "ActivityTaskStartedEventAttributes
    option \<Rightarrow> (64 word \<times> bool) \<times> (string \<times> bool) \<times> (string \<times> bool) \<times> (32 word \<times> bool)" where
  "ActivityTaskStartedEventAttributes_accessors v =
     (value_accessors 0 ActivityTaskStartedEventAttributes.ScheduledEventId v,
      value_accessors [] ActivityTaskStartedEventAttributes.Identity v,
      value_accessors [] ActivityTaskStartedEventAttributes.RequestId v,
      value_accessors 0 ActivityTaskStartedEventAttributes.Attempt v)"

definition ActivityTaskTimedOutEventAttributes_accessors :: "ActivityTaskTimedOutEventAttributes
    option \<Rightarrow> (bytes option \<times> bool) \<times> (64 word \<times> bool) \<times> (64 word \<times> bool) \<times> (TimeoutType \<times> bool)"
    where
  "ActivityTaskTimedOutEventAttributes_accessors v =
     (pointer_accessors ActivityTaskTimedOutEventAttributes.Details v,
      value_accessors 0 ActivityTaskTimedOutEventAttributes.ScheduledEventId v,
      value_accessors 0 ActivityTaskTimedOutEventAttributes.StartedEventId v,
      value_accessors 0 ActivityTaskTimedOutEventAttributes.TimeoutType v)"

definition CancelTimerFailedEventAttributes_accessors :: "CancelTimerFailedEventAttributes option \<Rightarrow>
    (string \<times> bool) \<times> (string \<times> bool) \<times> (64 word \<times> bool) \<times> (string \<times> bool)" where
  "CancelTimerFailedEventAttributes_accessors v =
     (value_accessors [] CancelTimerFailedEventAttributes.TimerId v,
      value_accessors [] CancelTimerFailedEventAttributes.Cause v,
      value_accessors 0 CancelTimerFailedEventAttributes.DecisionTaskCompletedEventId v,
      value_accessors [] CancelTimerFailedEventAttributes.Identity v)"

definition DecisionTaskCompletedEventAttributes_accessors :: "DecisionTaskCompletedEventAttributes
    option \<Rightarrow> (bytes option \<times> bool) \<times> (64 word \<times> bool) \<times> (64 word \<times> bool) \<times> (string \<times> bool) \<times> (string
    \<times> bool)" where
  "DecisionTaskCompletedEventAttributes_accessors v =
     (pointer_accessors DecisionTaskCompletedEventAttributes.ExecutionContext v,
      value_accessors 0 DecisionTaskCompletedEventAttributes.ScheduledEventId v,
      value_accessors 0 DecisionTaskCompletedEventAttributes.StartedEventId v,
      value_accessors [] DecisionTaskCompletedEventAttributes.Identity v,
      value_accessors [] DecisionTaskCompletedEventAttributes.BinaryChecksum v)"

definition DecisionTaskFailedEventAttributes_accessors1 :: "DecisionTaskFailedEventAttributes option
    \<Rightarrow> (64 word \<times> bool) \<times> (64 word \<times> bool) \<times> (DecisionTaskFailedCause \<times> bool) \<times> (bytes option \<times> bool)
    \<times> (string \<times> bool) \<times> (string \<times> bool) \<times> (string \<times> bool) \<times> (string \<times> bool)" where
  "DecisionTaskFailedEventAttributes_accessors1 v =
     (value_accessors 0 DecisionTaskFailedEventAttributes.ScheduledEventId v,
      value_accessors 0 DecisionTaskFailedEventAttributes.StartedEventId v,
      value_accessors 0 DecisionTaskFailedEventAttributes.Cause v,
      pointer_accessors DecisionTaskFailedEventAttributes.Details v,
      value_accessors [] DecisionTaskFailedEventAttributes.Identity v,
      value_accessors [] DecisionTaskFailedEventAttributes.Reason v,
      value_accessors [] DecisionTaskFailedEventAttributes.BaseRunId v,
      value_accessors [] DecisionTaskFailedEventAttributes.NewRunId v)"

definition DecisionTaskFailedEventAttributes_accessors2 :: "DecisionTaskFailedEventAttributes option
    \<Rightarrow> 64 word \<times> bool" where
  "DecisionTaskFailedEventAttributes_accessors2 v =
     value_accessors 0 DecisionTaskFailedEventAttributes.ForkEventVersion v"

definition DecisionTaskScheduledEventAttributes_accessors :: "DecisionTaskScheduledEventAttributes
    option \<Rightarrow> (TaskList option \<times> bool) \<times> (32 word \<times> bool) \<times> (64 word \<times> bool)" where
  "DecisionTaskScheduledEventAttributes_accessors v =
     (pointer_accessors DecisionTaskScheduledEventAttributes.TaskList v,
      value_accessors 0 DecisionTaskScheduledEventAttributes.StartToCloseTimeoutSeconds v,
      value_accessors 0 DecisionTaskScheduledEventAttributes.Attempt v)"

definition DecisionTaskStartedEventAttributes_accessors :: "DecisionTaskStartedEventAttributes
    option \<Rightarrow> (64 word \<times> bool) \<times> (string \<times> bool) \<times> (string \<times> bool)" where
  "DecisionTaskStartedEventAttributes_accessors v =
     (value_accessors 0 DecisionTaskStartedEventAttributes.ScheduledEventId v,
      value_accessors [] DecisionTaskStartedEventAttributes.Identity v,
      value_accessors [] DecisionTaskStartedEventAttributes.RequestId v)"

definition DecisionTaskTimedOutEventAttributes_accessors :: "DecisionTaskTimedOutEventAttributes
    option \<Rightarrow> (64 word \<times> bool) \<times> (64 word \<times> bool) \<times> (TimeoutType \<times> bool)" where
  "DecisionTaskTimedOutEventAttributes_accessors v =
     (value_accessors 0 DecisionTaskTimedOutEventAttributes.ScheduledEventId v,
      value_accessors 0 DecisionTaskTimedOutEventAttributes.StartedEventId v,
      value_accessors 0 DecisionTaskTimedOutEventAttributes.TimeoutType v)"

definition RequestCancelActivityTaskFailedEventAttributes_accessors ::
    "RequestCancelActivityTaskFailedEventAttributes option \<Rightarrow> (string \<times> bool) \<times> (string \<times> bool) \<times> (64
    word \<times> bool)" where
  "RequestCancelActivityTaskFailedEventAttributes_accessors v =
     (value_accessors [] RequestCancelActivityTaskFailedEventAttributes.ActivityId v,
      value_accessors [] RequestCancelActivityTaskFailedEventAttributes.Cause v,
      value_accessors 0 RequestCancelActivityTaskFailedEventAttributes.DecisionTaskCompletedEventId
          v)"

definition TimerCanceledEventAttributes_accessors :: "TimerCanceledEventAttributes option \<Rightarrow> (string
    \<times> bool) \<times> (64 word \<times> bool) \<times> (64 word \<times> bool) \<times> (string \<times> bool)" where
  "TimerCanceledEventAttributes_accessors v =
     (value_accessors [] TimerCanceledEventAttributes.TimerId v,
      value_accessors 0 TimerCanceledEventAttributes.StartedEventId v,
      value_accessors 0 TimerCanceledEventAttributes.DecisionTaskCompletedEventId v,
      value_accessors [] TimerCanceledEventAttributes.Identity v)"

definition TimerFiredEventAttributes_accessors :: "TimerFiredEventAttributes option \<Rightarrow> (string \<times>
    bool) \<times> (64 word \<times> bool)" where
  "TimerFiredEventAttributes_accessors v =
     (value_accessors [] TimerFiredEventAttributes.TimerId v,
      value_accessors 0 TimerFiredEventAttributes.StartedEventId v)"

definition TimerStartedEventAttributes_accessors :: "TimerStartedEventAttributes option \<Rightarrow> (string \<times>
    bool) \<times> (64 word \<times> bool) \<times> (64 word \<times> bool)" where
  "TimerStartedEventAttributes_accessors v =
     (value_accessors [] TimerStartedEventAttributes.TimerId v,
      value_accessors 0 TimerStartedEventAttributes.StartToFireTimeoutSeconds v,
      value_accessors 0 TimerStartedEventAttributes.DecisionTaskCompletedEventId v)"

definition ChildWorkflowExecutionCanceledEventAttributes_accessors ::
    "ChildWorkflowExecutionCanceledEventAttributes option \<Rightarrow> (bytes option \<times> bool) \<times> (string \<times> bool)
    \<times> (WorkflowExecution option \<times> bool) \<times> (WorkflowType option \<times> bool) \<times> (64 word \<times> bool) \<times> (64 word
    \<times> bool)" where
  "ChildWorkflowExecutionCanceledEventAttributes_accessors v =
     (pointer_accessors ChildWorkflowExecutionCanceledEventAttributes.Details v,
      value_accessors [] ChildWorkflowExecutionCanceledEventAttributes.Domain v,
      pointer_accessors ChildWorkflowExecutionCanceledEventAttributes.WorkflowExecution v,
      pointer_accessors ChildWorkflowExecutionCanceledEventAttributes.WorkflowType v,
      value_accessors 0 ChildWorkflowExecutionCanceledEventAttributes.InitiatedEventId v,
      value_accessors 0 ChildWorkflowExecutionCanceledEventAttributes.StartedEventId v)"

definition ChildWorkflowExecutionCompletedEventAttributes_accessors ::
    "ChildWorkflowExecutionCompletedEventAttributes option \<Rightarrow> (bytes option \<times> bool) \<times> (string \<times> bool)
    \<times> (WorkflowExecution option \<times> bool) \<times> (WorkflowType option \<times> bool) \<times> (64 word \<times> bool) \<times> (64 word
    \<times> bool)" where
  "ChildWorkflowExecutionCompletedEventAttributes_accessors v =
     (pointer_accessors ChildWorkflowExecutionCompletedEventAttributes.Result v,
      value_accessors [] ChildWorkflowExecutionCompletedEventAttributes.Domain v,
      pointer_accessors ChildWorkflowExecutionCompletedEventAttributes.WorkflowExecution v,
      pointer_accessors ChildWorkflowExecutionCompletedEventAttributes.WorkflowType v,
      value_accessors 0 ChildWorkflowExecutionCompletedEventAttributes.InitiatedEventId v,
      value_accessors 0 ChildWorkflowExecutionCompletedEventAttributes.StartedEventId v)"

definition ChildWorkflowExecutionFailedEventAttributes_accessors ::
    "ChildWorkflowExecutionFailedEventAttributes option \<Rightarrow> (string \<times> bool) \<times> (bytes option \<times> bool) \<times>
    (string \<times> bool) \<times> (WorkflowExecution option \<times> bool) \<times> (WorkflowType option \<times> bool) \<times> (64 word \<times>
    bool) \<times> (64 word \<times> bool)" where
  "ChildWorkflowExecutionFailedEventAttributes_accessors v =
     (value_accessors [] ChildWorkflowExecutionFailedEventAttributes.Reason v,
      pointer_accessors ChildWorkflowExecutionFailedEventAttributes.Details v,
      value_accessors [] ChildWorkflowExecutionFailedEventAttributes.Domain v,
      pointer_accessors ChildWorkflowExecutionFailedEventAttributes.WorkflowExecution v,
      pointer_accessors ChildWorkflowExecutionFailedEventAttributes.WorkflowType v,
      value_accessors 0 ChildWorkflowExecutionFailedEventAttributes.InitiatedEventId v,
      value_accessors 0 ChildWorkflowExecutionFailedEventAttributes.StartedEventId v)"

definition ChildWorkflowExecutionStartedEventAttributes_accessors ::
    "ChildWorkflowExecutionStartedEventAttributes option \<Rightarrow> (string \<times> bool) \<times> (64 word \<times> bool) \<times>
    (WorkflowExecution option \<times> bool) \<times> (WorkflowType option \<times> bool) \<times> (Header option \<times> bool)" where
  "ChildWorkflowExecutionStartedEventAttributes_accessors v =
     (value_accessors [] ChildWorkflowExecutionStartedEventAttributes.Domain v,
      value_accessors 0 ChildWorkflowExecutionStartedEventAttributes.InitiatedEventId v,
      pointer_accessors ChildWorkflowExecutionStartedEventAttributes.WorkflowExecution v,
      pointer_accessors ChildWorkflowExecutionStartedEventAttributes.WorkflowType v,
      pointer_accessors ChildWorkflowExecutionStartedEventAttributes.Header v)"

definition ChildWorkflowExecutionTerminatedEventAttributes_accessors ::
    "ChildWorkflowExecutionTerminatedEventAttributes option \<Rightarrow> (string \<times> bool) \<times> (WorkflowExecution
    option \<times> bool) \<times> (WorkflowType option \<times> bool) \<times> (64 word \<times> bool) \<times> (64 word \<times> bool)" where
  "ChildWorkflowExecutionTerminatedEventAttributes_accessors v =
     (value_accessors [] ChildWorkflowExecutionTerminatedEventAttributes.Domain v,
      pointer_accessors ChildWorkflowExecutionTerminatedEventAttributes.WorkflowExecution v,
      pointer_accessors ChildWorkflowExecutionTerminatedEventAttributes.WorkflowType v,
      value_accessors 0 ChildWorkflowExecutionTerminatedEventAttributes.InitiatedEventId v,
      value_accessors 0 ChildWorkflowExecutionTerminatedEventAttributes.StartedEventId v)"

definition ChildWorkflowExecutionTimedOutEventAttributes_accessors ::
    "ChildWorkflowExecutionTimedOutEventAttributes option \<Rightarrow> (TimeoutType \<times> bool) \<times> (string \<times> bool) \<times>
    (WorkflowExecution option \<times> bool) \<times> (WorkflowType option \<times> bool) \<times> (64 word \<times> bool) \<times> (64 word \<times>
    bool)" where
  "ChildWorkflowExecutionTimedOutEventAttributes_accessors v =
     (value_accessors 0 ChildWorkflowExecutionTimedOutEventAttributes.TimeoutType v,
      value_accessors [] ChildWorkflowExecutionTimedOutEventAttributes.Domain v,
      pointer_accessors ChildWorkflowExecutionTimedOutEventAttributes.WorkflowExecution v,
      pointer_accessors ChildWorkflowExecutionTimedOutEventAttributes.WorkflowType v,
      value_accessors 0 ChildWorkflowExecutionTimedOutEventAttributes.InitiatedEventId v,
      value_accessors 0 ChildWorkflowExecutionTimedOutEventAttributes.StartedEventId v)"

definition ExternalWorkflowExecutionCancelRequestedEventAttributes_accessors ::
    "ExternalWorkflowExecutionCancelRequestedEventAttributes option \<Rightarrow> (64 word \<times> bool) \<times> (string \<times>
    bool) \<times> (WorkflowExecution option \<times> bool)" where
  "ExternalWorkflowExecutionCancelRequestedEventAttributes_accessors v =
     (value_accessors 0 ExternalWorkflowExecutionCancelRequestedEventAttributes.InitiatedEventId v,
      value_accessors [] ExternalWorkflowExecutionCancelRequestedEventAttributes.Domain v,
      pointer_accessors ExternalWorkflowExecutionCancelRequestedEventAttributes.WorkflowExecution
          v)"

definition ExternalWorkflowExecutionSignaledEventAttributes_accessors ::
    "ExternalWorkflowExecutionSignaledEventAttributes option \<Rightarrow> (64 word \<times> bool) \<times> (string \<times> bool) \<times>
    (WorkflowExecution option \<times> bool) \<times> (bytes option \<times> bool)" where
  "ExternalWorkflowExecutionSignaledEventAttributes_accessors v =
     (value_accessors 0 ExternalWorkflowExecutionSignaledEventAttributes.InitiatedEventId v,
      value_accessors [] ExternalWorkflowExecutionSignaledEventAttributes.Domain v,
      pointer_accessors ExternalWorkflowExecutionSignaledEventAttributes.WorkflowExecution v,
      pointer_accessors ExternalWorkflowExecutionSignaledEventAttributes.Control v)"

definition MarkerRecordedEventAttributes_accessors :: "MarkerRecordedEventAttributes option \<Rightarrow>
    (string \<times> bool) \<times> (bytes option \<times> bool) \<times> (64 word \<times> bool) \<times> (Header option \<times> bool)" where
  "MarkerRecordedEventAttributes_accessors v =
     (value_accessors [] MarkerRecordedEventAttributes.MarkerName v,
      pointer_accessors MarkerRecordedEventAttributes.Details v,
      value_accessors 0 MarkerRecordedEventAttributes.DecisionTaskCompletedEventId v,
      pointer_accessors MarkerRecordedEventAttributes.Header v)"

definition RequestCancelExternalWorkflowExecutionFailedEventAttributes_accessors ::
    "RequestCancelExternalWorkflowExecutionFailedEventAttributes option \<Rightarrow>
    (CancelExternalWorkflowExecutionFailedCause \<times> bool) \<times> (64 word \<times> bool) \<times> (string \<times> bool) \<times>
    (WorkflowExecution option \<times> bool) \<times> (64 word \<times> bool) \<times> (bytes option \<times> bool)" where
  "RequestCancelExternalWorkflowExecutionFailedEventAttributes_accessors v =
     (value_accessors 0 RequestCancelExternalWorkflowExecutionFailedEventAttributes.Cause v,
      value_accessors 0
          RequestCancelExternalWorkflowExecutionFailedEventAttributes.DecisionTaskCompletedEventId
          v,
      value_accessors [] RequestCancelExternalWorkflowExecutionFailedEventAttributes.Domain v,
      pointer_accessors
          RequestCancelExternalWorkflowExecutionFailedEventAttributes.WorkflowExecution v,
      value_accessors 0 RequestCancelExternalWorkflowExecutionFailedEventAttributes.InitiatedEventId
          v,
      pointer_accessors RequestCancelExternalWorkflowExecutionFailedEventAttributes.Control v)"

definition RequestCancelExternalWorkflowExecutionInitiatedEventAttributes_accessors ::
    "RequestCancelExternalWorkflowExecutionInitiatedEventAttributes option \<Rightarrow> (64 word \<times> bool) \<times>
    (string \<times> bool) \<times> (WorkflowExecution option \<times> bool) \<times> (bytes option \<times> bool) \<times> (bool \<times> bool)"
    where
  "RequestCancelExternalWorkflowExecutionInitiatedEventAttributes_accessors v =
     (value_accessors 0
         RequestCancelExternalWorkflowExecutionInitiatedEventAttributes.DecisionTaskCompletedEventId
         v,
      value_accessors [] RequestCancelExternalWorkflowExecutionInitiatedEventAttributes.Domain v,
      pointer_accessors
          RequestCancelExternalWorkflowExecutionInitiatedEventAttributes.WorkflowExecution v,
      pointer_accessors RequestCancelExternalWorkflowExecutionInitiatedEventAttributes.Control v,
      value_accessors False
          RequestCancelExternalWorkflowExecutionInitiatedEventAttributes.ChildWorkflowOnly v)"

definition SignalExternalWorkflowExecutionFailedEventAttributes_accessors ::
    "SignalExternalWorkflowExecutionFailedEventAttributes option \<Rightarrow>
    (SignalExternalWorkflowExecutionFailedCause \<times> bool) \<times> (64 word \<times> bool) \<times> (string \<times> bool) \<times>
    (WorkflowExecution option \<times> bool) \<times> (64 word \<times> bool) \<times> (bytes option \<times> bool)" where
  "SignalExternalWorkflowExecutionFailedEventAttributes_accessors v =
     (value_accessors 0 SignalExternalWorkflowExecutionFailedEventAttributes.Cause v,
      value_accessors 0
          SignalExternalWorkflowExecutionFailedEventAttributes.DecisionTaskCompletedEventId v,
      value_accessors [] SignalExternalWorkflowExecutionFailedEventAttributes.Domain v,
      pointer_accessors SignalExternalWorkflowExecutionFailedEventAttributes.WorkflowExecution v,
      value_accessors 0 SignalExternalWorkflowExecutionFailedEventAttributes.InitiatedEventId v,
      pointer_accessors SignalExternalWorkflowExecutionFailedEventAttributes.Control v)"

definition SignalExternalWorkflowExecutionInitiatedEventAttributes_accessors ::
    "SignalExternalWorkflowExecutionInitiatedEventAttributes option \<Rightarrow> (64 word \<times> bool) \<times> (string \<times>
    bool) \<times> (WorkflowExecution option \<times> bool) \<times> (string \<times> bool) \<times> (bytes option \<times> bool) \<times> (bytes
    option \<times> bool) \<times> (bool \<times> bool)" where
  "SignalExternalWorkflowExecutionInitiatedEventAttributes_accessors v =
     (value_accessors 0
         SignalExternalWorkflowExecutionInitiatedEventAttributes.DecisionTaskCompletedEventId v,
      value_accessors [] SignalExternalWorkflowExecutionInitiatedEventAttributes.Domain v,
      pointer_accessors SignalExternalWorkflowExecutionInitiatedEventAttributes.WorkflowExecution v,
      value_accessors [] SignalExternalWorkflowExecutionInitiatedEventAttributes.SignalName v,
      pointer_accessors SignalExternalWorkflowExecutionInitiatedEventAttributes.Input v,
      pointer_accessors SignalExternalWorkflowExecutionInitiatedEventAttributes.Control v,
      value_accessors False
          SignalExternalWorkflowExecutionInitiatedEventAttributes.ChildWorkflowOnly v)"

definition StartChildWorkflowExecutionFailedEventAttributes_accessors ::
    "StartChildWorkflowExecutionFailedEventAttributes option \<Rightarrow> (string \<times> bool) \<times> (string \<times> bool) \<times>
    (WorkflowType option \<times> bool) \<times> (ChildWorkflowExecutionFailedCause \<times> bool) \<times> (bytes option \<times>
    bool) \<times> (64 word \<times> bool) \<times> (64 word \<times> bool)" where
  "StartChildWorkflowExecutionFailedEventAttributes_accessors v =
     (value_accessors [] StartChildWorkflowExecutionFailedEventAttributes.Domain v,
      value_accessors [] StartChildWorkflowExecutionFailedEventAttributes.WorkflowId v,
      pointer_accessors StartChildWorkflowExecutionFailedEventAttributes.WorkflowType v,
      value_accessors 0 StartChildWorkflowExecutionFailedEventAttributes.Cause v,
      pointer_accessors StartChildWorkflowExecutionFailedEventAttributes.Control v,
      value_accessors 0 StartChildWorkflowExecutionFailedEventAttributes.InitiatedEventId v,
      value_accessors 0
          StartChildWorkflowExecutionFailedEventAttributes.DecisionTaskCompletedEventId v)"

definition StartChildWorkflowExecutionInitiatedEventAttributes_accessors1 ::
    "StartChildWorkflowExecutionInitiatedEventAttributes option \<Rightarrow> (string \<times> bool) \<times> (string \<times> bool)
    \<times> (WorkflowType option \<times> bool) \<times> (TaskList option \<times> bool) \<times> (bytes option \<times> bool) \<times> (32 word \<times>
    bool) \<times> (32 word \<times> bool) \<times> (ParentClosePolicy \<times> bool)" where
  "StartChildWorkflowExecutionInitiatedEventAttributes_accessors1 v =
     (value_accessors [] StartChildWorkflowExecutionInitiatedEventAttributes.Domain v,
      value_accessors [] StartChildWorkflowExecutionInitiatedEventAttributes.WorkflowId v,
      pointer_accessors StartChildWorkflowExecutionInitiatedEventAttributes.WorkflowType v,
      pointer_accessors StartChildWorkflowExecutionInitiatedEventAttributes.TaskList v,
      pointer_accessors StartChildWorkflowExecutionInitiatedEventAttributes.Input v,
      value_accessors 0
          StartChildWorkflowExecutionInitiatedEventAttributes.ExecutionStartToCloseTimeoutSeconds v,
      value_accessors 0
          StartChildWorkflowExecutionInitiatedEventAttributes.TaskStartToCloseTimeoutSeconds v,
      value_accessors 0 StartChildWorkflowExecutionInitiatedEventAttributes.ParentClosePolicy v)"

definition StartChildWorkflowExecutionInitiatedEventAttributes_accessors2 ::
    "StartChildWorkflowExecutionInitiatedEventAttributes option \<Rightarrow> (bytes option \<times> bool) \<times> (64 word \<times>
    bool) \<times> (WorkflowIdReusePolicy \<times> bool) \<times> (RetryPolicy option \<times> bool) \<times> (string \<times> bool) \<times> (Header
    option \<times> bool) \<times> (Memo option \<times> bool) \<times> (SearchAttributes option \<times> bool)" where
  "StartChildWorkflowExecutionInitiatedEventAttributes_accessors2 v =
     (pointer_accessors StartChildWorkflowExecutionInitiatedEventAttributes.Control v,
      value_accessors 0
          StartChildWorkflowExecutionInitiatedEventAttributes.DecisionTaskCompletedEventId v,
      value_accessors 0 StartChildWorkflowExecutionInitiatedEventAttributes.WorkflowIdReusePolicy v,
      pointer_accessors StartChildWorkflowExecutionInitiatedEventAttributes.RetryPolicy v,
      value_accessors [] StartChildWorkflowExecutionInitiatedEventAttributes.CronSchedule v,
      pointer_accessors StartChildWorkflowExecutionInitiatedEventAttributes.Header v,
      pointer_accessors StartChildWorkflowExecutionInitiatedEventAttributes.Memo v,
      pointer_accessors StartChildWorkflowExecutionInitiatedEventAttributes.SearchAttributes v)"

definition UpsertWorkflowSearchAttributesEventAttributes_accessors ::
    "UpsertWorkflowSearchAttributesEventAttributes option \<Rightarrow> (64 word \<times> bool) \<times> (SearchAttributes
    option \<times> bool)" where
  "UpsertWorkflowSearchAttributesEventAttributes_accessors v =
     (value_accessors 0 UpsertWorkflowSearchAttributesEventAttributes.DecisionTaskCompletedEventId
         v,
      pointer_accessors UpsertWorkflowSearchAttributesEventAttributes.SearchAttributes v)"

definition WorkflowExecutionCancelRequestedEventAttributes_accessors ::
    "WorkflowExecutionCancelRequestedEventAttributes option \<Rightarrow> (string \<times> bool) \<times> (64 word \<times> bool) \<times>
    (WorkflowExecution option \<times> bool) \<times> (string \<times> bool)" where
  "WorkflowExecutionCancelRequestedEventAttributes_accessors v =
     (value_accessors [] WorkflowExecutionCancelRequestedEventAttributes.Cause v,
      value_accessors 0 WorkflowExecutionCancelRequestedEventAttributes.ExternalInitiatedEventId v,
      pointer_accessors WorkflowExecutionCancelRequestedEventAttributes.ExternalWorkflowExecution v,
      value_accessors [] WorkflowExecutionCancelRequestedEventAttributes.Identity v)"

definition WorkflowExecutionCanceledEventAttributes_accessors ::
    "WorkflowExecutionCanceledEventAttributes option \<Rightarrow> (64 word \<times> bool) \<times> (bytes option \<times> bool)"
    where
  "WorkflowExecutionCanceledEventAttributes_accessors v =
     (value_accessors 0 WorkflowExecutionCanceledEventAttributes.DecisionTaskCompletedEventId v,
      pointer_accessors WorkflowExecutionCanceledEventAttributes.Details v)"

definition WorkflowExecutionCompletedEventAttributes_accessors ::
    "WorkflowExecutionCompletedEventAttributes option \<Rightarrow> (bytes option \<times> bool) \<times> (64 word \<times> bool)"
    where
  "WorkflowExecutionCompletedEventAttributes_accessors v =
     (pointer_accessors WorkflowExecutionCompletedEventAttributes.Result v,
      value_accessors 0 WorkflowExecutionCompletedEventAttributes.DecisionTaskCompletedEventId v)"

definition WorkflowExecutionContinuedAsNewEventAttributes_accessors1 ::
    "WorkflowExecutionContinuedAsNewEventAttributes option \<Rightarrow> (string \<times> bool) \<times> (WorkflowType option
    \<times> bool) \<times> (TaskList option \<times> bool) \<times> (bytes option \<times> bool) \<times> (32 word \<times> bool) \<times> (32 word \<times> bool)
    \<times> (64 word \<times> bool) \<times> (32 word \<times> bool)" where
  "WorkflowExecutionContinuedAsNewEventAttributes_accessors1 v =
     (value_accessors [] WorkflowExecutionContinuedAsNewEventAttributes.NewExecutionRunId v,
      pointer_accessors WorkflowExecutionContinuedAsNewEventAttributes.WorkflowType v,
      pointer_accessors WorkflowExecutionContinuedAsNewEventAttributes.TaskList v,
      pointer_accessors WorkflowExecutionContinuedAsNewEventAttributes.Input v,
      value_accessors 0
          WorkflowExecutionContinuedAsNewEventAttributes.ExecutionStartToCloseTimeoutSeconds v,
      value_accessors 0
          WorkflowExecutionContinuedAsNewEventAttributes.TaskStartToCloseTimeoutSeconds v,
      value_accessors 0 WorkflowExecutionContinuedAsNewEventAttributes.DecisionTaskCompletedEventId
          v,
      value_accessors 0 WorkflowExecutionContinuedAsNewEventAttributes.BackoffStartIntervalInSeconds
          v)"

definition WorkflowExecutionContinuedAsNewEventAttributes_accessors2 ::
    "WorkflowExecutionContinuedAsNewEventAttributes option \<Rightarrow> (ContinueAsNewInitiator \<times> bool) \<times>
    (string \<times> bool) \<times> (bytes option \<times> bool) \<times> (bytes option \<times> bool) \<times> (Header option \<times> bool) \<times> (Memo
    option \<times> bool) \<times> (SearchAttributes option \<times> bool)" where
  "WorkflowExecutionContinuedAsNewEventAttributes_accessors2 v =
     (value_accessors 0 WorkflowExecutionContinuedAsNewEventAttributes.Initiator v,
      value_accessors [] WorkflowExecutionContinuedAsNewEventAttributes.FailureReason v,
      pointer_accessors WorkflowExecutionContinuedAsNewEventAttributes.FailureDetails v,
      pointer_accessors WorkflowExecutionContinuedAsNewEventAttributes.LastCompletionResult v,
      pointer_accessors WorkflowExecutionContinuedAsNewEventAttributes.Header v,
      pointer_accessors WorkflowExecutionContinuedAsNewEventAttributes.Memo v,
      pointer_accessors WorkflowExecutionContinuedAsNewEventAttributes.SearchAttributes v)"

definition WorkflowExecutionFailedEventAttributes_accessors ::
    "WorkflowExecutionFailedEventAttributes option \<Rightarrow> (string \<times> bool) \<times> (bytes option \<times> bool) \<times> (64
    word \<times> bool)" where
  "WorkflowExecutionFailedEventAttributes_accessors v =
     (value_accessors [] WorkflowExecutionFailedEventAttributes.Reason v,
      pointer_accessors WorkflowExecutionFailedEventAttributes.Details v,
      value_accessors 0 WorkflowExecutionFailedEventAttributes.DecisionTaskCompletedEventId v)"

definition WorkflowExecutionSignaledEventAttributes_accessors ::
    "WorkflowExecutionSignaledEventAttributes option \<Rightarrow> (string \<times> bool) \<times> (bytes option \<times> bool) \<times>
    (string \<times> bool)" where
  "WorkflowExecutionSignaledEventAttributes_accessors v =
     (value_accessors [] WorkflowExecutionSignaledEventAttributes.SignalName v,
      pointer_accessors WorkflowExecutionSignaledEventAttributes.Input v,
      value_accessors [] WorkflowExecutionSignaledEventAttributes.Identity v)"

definition WorkflowExecutionStartedEventAttributes_accessors1 ::
    "WorkflowExecutionStartedEventAttributes option \<Rightarrow> (WorkflowType option \<times> bool) \<times> (string \<times> bool)
    \<times> (WorkflowExecution option \<times> bool) \<times> (64 word \<times> bool) \<times> (TaskList option \<times> bool) \<times> (bytes
    option \<times> bool) \<times> (32 word \<times> bool) \<times> (32 word \<times> bool)" where
  "WorkflowExecutionStartedEventAttributes_accessors1 v =
     (pointer_accessors WorkflowExecutionStartedEventAttributes.WorkflowType v,
      value_accessors [] WorkflowExecutionStartedEventAttributes.ParentWorkflowDomain v,
      pointer_accessors WorkflowExecutionStartedEventAttributes.ParentWorkflowExecution v,
      value_accessors 0 WorkflowExecutionStartedEventAttributes.ParentInitiatedEventId v,
      pointer_accessors WorkflowExecutionStartedEventAttributes.TaskList v,
      pointer_accessors WorkflowExecutionStartedEventAttributes.Input v,
      value_accessors 0 WorkflowExecutionStartedEventAttributes.ExecutionStartToCloseTimeoutSeconds
          v,
      value_accessors 0 WorkflowExecutionStartedEventAttributes.TaskStartToCloseTimeoutSeconds v)"

definition WorkflowExecutionStartedEventAttributes_accessors2 ::
    "WorkflowExecutionStartedEventAttributes option \<Rightarrow> (string \<times> bool) \<times> (ContinueAsNewInitiator \<times>
    bool) \<times> (string \<times> bool) \<times> (bytes option \<times> bool) \<times> (bytes option \<times> bool) \<times> (string \<times> bool) \<times>
    (string \<times> bool) \<times> (string \<times> bool)" where
  "WorkflowExecutionStartedEventAttributes_accessors2 v =
     (value_accessors [] WorkflowExecutionStartedEventAttributes.ContinuedExecutionRunId v,
      value_accessors 0 WorkflowExecutionStartedEventAttributes.Initiator v,
      value_accessors [] WorkflowExecutionStartedEventAttributes.ContinuedFailureReason v,
      pointer_accessors WorkflowExecutionStartedEventAttributes.ContinuedFailureDetails v,
      pointer_accessors WorkflowExecutionStartedEventAttributes.LastCompletionResult v,
      value_accessors [] WorkflowExecutionStartedEventAttributes.OriginalExecutionRunId v,
      value_accessors [] WorkflowExecutionStartedEventAttributes.Identity v,
      value_accessors [] WorkflowExecutionStartedEventAttributes.FirstExecutionRunId v)"

definition WorkflowExecutionStartedEventAttributes_accessors3 ::
    "WorkflowExecutionStartedEventAttributes option \<Rightarrow> (RetryPolicy option \<times> bool) \<times> (32 word \<times> bool)
    \<times> (64 word \<times> bool) \<times> (string \<times> bool) \<times> (32 word \<times> bool) \<times> (Memo option \<times> bool) \<times>
    (SearchAttributes option \<times> bool) \<times> (ResetPoints option \<times> bool)" where
  "WorkflowExecutionStartedEventAttributes_accessors3 v =
     (pointer_accessors WorkflowExecutionStartedEventAttributes.RetryPolicy v,
      value_accessors 0 WorkflowExecutionStartedEventAttributes.Attempt v,
      value_accessors 0 WorkflowExecutionStartedEventAttributes.ExpirationTimestamp v,
      value_accessors [] WorkflowExecutionStartedEventAttributes.CronSchedule v,
      value_accessors 0 WorkflowExecutionStartedEventAttributes.FirstDecisionTaskBackoffSeconds v,
      pointer_accessors WorkflowExecutionStartedEventAttributes.Memo v,
      pointer_accessors WorkflowExecutionStartedEventAttributes.SearchAttributes v,
      pointer_accessors WorkflowExecutionStartedEventAttributes.PrevAutoResetPoints v)"

definition WorkflowExecutionStartedEventAttributes_accessors4 ::
    "WorkflowExecutionStartedEventAttributes option \<Rightarrow> Header option \<times> bool" where
  "WorkflowExecutionStartedEventAttributes_accessors4 v =
     pointer_accessors WorkflowExecutionStartedEventAttributes.Header v"

definition WorkflowExecutionTerminatedEventAttributes_accessors ::
    "WorkflowExecutionTerminatedEventAttributes option \<Rightarrow> (string \<times> bool) \<times> (bytes option \<times> bool) \<times>
    (string \<times> bool)" where
  "WorkflowExecutionTerminatedEventAttributes_accessors v =
     (value_accessors [] WorkflowExecutionTerminatedEventAttributes.Reason v,
      pointer_accessors WorkflowExecutionTerminatedEventAttributes.Details v,
      value_accessors [] WorkflowExecutionTerminatedEventAttributes.Identity v)"

definition WorkflowExecutionTimedOutEventAttributes_accessors ::
    "WorkflowExecutionTimedOutEventAttributes option \<Rightarrow> TimeoutType \<times> bool" where
  "WorkflowExecutionTimedOutEventAttributes_accessors v =
     value_accessors 0 WorkflowExecutionTimedOutEventAttributes.TimeoutType v"

definition CancelTimerDecisionAttributes_accessors :: "CancelTimerDecisionAttributes option \<Rightarrow> string
    \<times> bool" where
  "CancelTimerDecisionAttributes_accessors v =
     value_accessors [] CancelTimerDecisionAttributes.TimerId v"

definition CancelWorkflowExecutionDecisionAttributes_accessors ::
    "CancelWorkflowExecutionDecisionAttributes option \<Rightarrow> bytes option \<times> bool" where
  "CancelWorkflowExecutionDecisionAttributes_accessors v =
     pointer_accessors CancelWorkflowExecutionDecisionAttributes.Details v"

definition CompleteWorkflowExecutionDecisionAttributes_accessors ::
    "CompleteWorkflowExecutionDecisionAttributes option \<Rightarrow> bytes option \<times> bool" where
  "CompleteWorkflowExecutionDecisionAttributes_accessors v =
     pointer_accessors CompleteWorkflowExecutionDecisionAttributes.Result v"

definition ContinueAsNewWorkflowExecutionDecisionAttributes_accessors1 ::
    "ContinueAsNewWorkflowExecutionDecisionAttributes option \<Rightarrow> (WorkflowType option \<times> bool) \<times>
    (TaskList option \<times> bool) \<times> (bytes option \<times> bool) \<times> (32 word \<times> bool) \<times> (32 word \<times> bool) \<times> (32
    word \<times> bool) \<times> (RetryPolicy option \<times> bool) \<times> (ContinueAsNewInitiator \<times> bool)" where
  "ContinueAsNewWorkflowExecutionDecisionAttributes_accessors1 v =
     (pointer_accessors ContinueAsNewWorkflowExecutionDecisionAttributes.WorkflowType v,
      pointer_accessors ContinueAsNewWorkflowExecutionDecisionAttributes.TaskList v,
      pointer_accessors ContinueAsNewWorkflowExecutionDecisionAttributes.Input v,
      value_accessors 0
          ContinueAsNewWorkflowExecutionDecisionAttributes.ExecutionStartToCloseTimeoutSeconds v,
      value_accessors 0
          ContinueAsNewWorkflowExecutionDecisionAttributes.TaskStartToCloseTimeoutSeconds v,
      value_accessors 0
          ContinueAsNewWorkflowExecutionDecisionAttributes.BackoffStartIntervalInSeconds v,
      pointer_accessors ContinueAsNewWorkflowExecutionDecisionAttributes.RetryPolicy v,
      value_accessors 0 ContinueAsNewWorkflowExecutionDecisionAttributes.Initiator v)"

definition ContinueAsNewWorkflowExecutionDecisionAttributes_accessors2 ::
    "ContinueAsNewWorkflowExecutionDecisionAttributes option \<Rightarrow> (string \<times> bool) \<times> (bytes option \<times>
    bool) \<times> (bytes option \<times> bool) \<times> (string \<times> bool) \<times> (Header option \<times> bool) \<times> (Memo option \<times> bool)
    \<times> (SearchAttributes option \<times> bool)" where
  "ContinueAsNewWorkflowExecutionDecisionAttributes_accessors2 v =
     (value_accessors [] ContinueAsNewWorkflowExecutionDecisionAttributes.FailureReason v,
      pointer_accessors ContinueAsNewWorkflowExecutionDecisionAttributes.FailureDetails v,
      pointer_accessors ContinueAsNewWorkflowExecutionDecisionAttributes.LastCompletionResult v,
      value_accessors [] ContinueAsNewWorkflowExecutionDecisionAttributes.CronSchedule v,
      pointer_accessors ContinueAsNewWorkflowExecutionDecisionAttributes.Header v,
      pointer_accessors ContinueAsNewWorkflowExecutionDecisionAttributes.Memo v,
      pointer_accessors ContinueAsNewWorkflowExecutionDecisionAttributes.SearchAttributes v)"

definition FailWorkflowExecutionDecisionAttributes_accessors ::
    "FailWorkflowExecutionDecisionAttributes option \<Rightarrow> (string \<times> bool) \<times> (bytes option \<times> bool)" where
  "FailWorkflowExecutionDecisionAttributes_accessors v =
     (value_accessors [] FailWorkflowExecutionDecisionAttributes.Reason v,
      pointer_accessors FailWorkflowExecutionDecisionAttributes.Details v)"

definition RecordMarkerDecisionAttributes_accessors :: "RecordMarkerDecisionAttributes option \<Rightarrow>
    (string \<times> bool) \<times> (bytes option \<times> bool) \<times> (Header option \<times> bool)" where
  "RecordMarkerDecisionAttributes_accessors v =
     (value_accessors [] RecordMarkerDecisionAttributes.MarkerName v,
      pointer_accessors RecordMarkerDecisionAttributes.Details v,
      pointer_accessors RecordMarkerDecisionAttributes.Header v)"

definition RequestCancelActivityTaskDecisionAttributes_accessors ::
    "RequestCancelActivityTaskDecisionAttributes option \<Rightarrow> string \<times> bool" where
  "RequestCancelActivityTaskDecisionAttributes_accessors v =
     value_accessors [] RequestCancelActivityTaskDecisionAttributes.ActivityId v"

definition RequestCancelExternalWorkflowExecutionDecisionAttributes_accessors ::
    "RequestCancelExternalWorkflowExecutionDecisionAttributes option \<Rightarrow> (string \<times> bool) \<times> (string \<times>
    bool) \<times> (string \<times> bool) \<times> (bytes option \<times> bool) \<times> (bool \<times> bool)" where
  "RequestCancelExternalWorkflowExecutionDecisionAttributes_accessors v =
     (value_accessors [] RequestCancelExternalWorkflowExecutionDecisionAttributes.Domain v,
      value_accessors [] RequestCancelExternalWorkflowExecutionDecisionAttributes.WorkflowId v,
      value_accessors [] RequestCancelExternalWorkflowExecutionDecisionAttributes.RunId v,
      pointer_accessors RequestCancelExternalWorkflowExecutionDecisionAttributes.Control v,
      value_accessors False
          RequestCancelExternalWorkflowExecutionDecisionAttributes.ChildWorkflowOnly v)"

definition ScheduleActivityTaskDecisionAttributes_accessors1 ::
    "ScheduleActivityTaskDecisionAttributes option \<Rightarrow> (string \<times> bool) \<times> (ActivityType option \<times> bool)
    \<times> (string \<times> bool) \<times> (TaskList option \<times> bool) \<times> (bytes option \<times> bool) \<times> (32 word \<times> bool) \<times> (32
    word \<times> bool) \<times> (32 word \<times> bool)" where
  "ScheduleActivityTaskDecisionAttributes_accessors1 v =
     (value_accessors [] ScheduleActivityTaskDecisionAttributes.ActivityId v,
      pointer_accessors ScheduleActivityTaskDecisionAttributes.ActivityType v,
      value_accessors [] ScheduleActivityTaskDecisionAttributes.Domain v,
      pointer_accessors ScheduleActivityTaskDecisionAttributes.TaskList v,
      pointer_accessors ScheduleActivityTaskDecisionAttributes.Input v,
      value_accessors 0 ScheduleActivityTaskDecisionAttributes.ScheduleToCloseTimeoutSeconds v,
      value_accessors 0 ScheduleActivityTaskDecisionAttributes.ScheduleToStartTimeoutSeconds v,
      value_accessors 0 ScheduleActivityTaskDecisionAttributes.StartToCloseTimeoutSeconds v)"

definition ScheduleActivityTaskDecisionAttributes_accessors2 ::
    "ScheduleActivityTaskDecisionAttributes option \<Rightarrow> (32 word \<times> bool) \<times> (RetryPolicy option \<times> bool)
    \<times> (Header option \<times> bool)" where
  "ScheduleActivityTaskDecisionAttributes_accessors2 v =
     (value_accessors 0 ScheduleActivityTaskDecisionAttributes.HeartbeatTimeoutSeconds v,
      pointer_accessors ScheduleActivityTaskDecisionAttributes.RetryPolicy v,
      pointer_accessors ScheduleActivityTaskDecisionAttributes.Header v)"

definition SignalExternalWorkflowExecutionDecisionAttributes_accessors ::
    "SignalExternalWorkflowExecutionDecisionAttributes option \<Rightarrow> (string \<times> bool) \<times> (WorkflowExecution
    option \<times> bool) \<times> (string \<times> bool) \<times> (bytes option \<times> bool) \<times> (bytes option \<times> bool) \<times> (bool \<times>
    bool)" where
  "SignalExternalWorkflowExecutionDecisionAttributes_accessors v =
     (value_accessors [] SignalExternalWorkflowExecutionDecisionAttributes.Domain v,
      pointer_accessors SignalExternalWorkflowExecutionDecisionAttributes.Execution v,
      value_accessors [] SignalExternalWorkflowExecutionDecisionAttributes.SignalName v,
      pointer_accessors SignalExternalWorkflowExecutionDecisionAttributes.Input v,
      pointer_accessors SignalExternalWorkflowExecutionDecisionAttributes.Control v,
      value_accessors False SignalExternalWorkflowExecutionDecisionAttributes.ChildWorkflowOnly v)"

definition StartChildWorkflowExecutionDecisionAttributes_accessors1 ::
    "StartChildWorkflowExecutionDecisionAttributes option \<Rightarrow> (string \<times> bool) \<times> (string \<times> bool) \<times>
    (WorkflowType option \<times> bool) \<times> (TaskList option \<times> bool) \<times> (bytes option \<times> bool) \<times> (32 word \<times>
    bool) \<times> (32 word \<times> bool) \<times> (ParentClosePolicy \<times> bool)" where
  "StartChildWorkflowExecutionDecisionAttributes_accessors1 v =
     (value_accessors [] StartChildWorkflowExecutionDecisionAttributes.Domain v,
      value_accessors [] StartChildWorkflowExecutionDecisionAttributes.WorkflowId v,
      pointer_accessors StartChildWorkflowExecutionDecisionAttributes.WorkflowType v,
      pointer_accessors StartChildWorkflowExecutionDecisionAttributes.TaskList v,
      pointer_accessors StartChildWorkflowExecutionDecisionAttributes.Input v,
      value_accessors 0
          StartChildWorkflowExecutionDecisionAttributes.ExecutionStartToCloseTimeoutSeconds v,
      value_accessors 0 StartChildWorkflowExecutionDecisionAttributes.TaskStartToCloseTimeoutSeconds
          v,
      value_accessors 0 StartChildWorkflowExecutionDecisionAttributes.ParentClosePolicy v)"

definition StartChildWorkflowExecutionDecisionAttributes_accessors2 ::
    "StartChildWorkflowExecutionDecisionAttributes option \<Rightarrow> (bytes option \<times> bool) \<times>
    (WorkflowIdReusePolicy \<times> bool) \<times> (RetryPolicy option \<times> bool) \<times> (string \<times> bool) \<times> (Header option
    \<times> bool) \<times> (Memo option \<times> bool) \<times> (SearchAttributes option \<times> bool)" where
  "StartChildWorkflowExecutionDecisionAttributes_accessors2 v =
     (pointer_accessors StartChildWorkflowExecutionDecisionAttributes.Control v,
      value_accessors 0 StartChildWorkflowExecutionDecisionAttributes.WorkflowIdReusePolicy v,
      pointer_accessors StartChildWorkflowExecutionDecisionAttributes.RetryPolicy v,
      value_accessors [] StartChildWorkflowExecutionDecisionAttributes.CronSchedule v,
      pointer_accessors StartChildWorkflowExecutionDecisionAttributes.Header v,
      pointer_accessors StartChildWorkflowExecutionDecisionAttributes.Memo v,
      pointer_accessors StartChildWorkflowExecutionDecisionAttributes.SearchAttributes v)"

definition StartTimerDecisionAttributes_accessors :: "StartTimerDecisionAttributes option \<Rightarrow> (string
    \<times> bool) \<times> (64 word \<times> bool)" where
  "StartTimerDecisionAttributes_accessors v =
     (value_accessors [] StartTimerDecisionAttributes.TimerId v,
      value_accessors 0 StartTimerDecisionAttributes.StartToFireTimeoutSeconds v)"

definition UpsertWorkflowSearchAttributesDecisionAttributes_accessors ::
    "UpsertWorkflowSearchAttributesDecisionAttributes option \<Rightarrow> SearchAttributes option \<times> bool" where
  "UpsertWorkflowSearchAttributesDecisionAttributes_accessors v =
     pointer_accessors UpsertWorkflowSearchAttributesDecisionAttributes.SearchAttributes v"

definition HistoryEvent_accessors1 :: "HistoryEvent option \<Rightarrow> (64 word \<times> bool) \<times> (64 word \<times> bool) \<times>
    (EventType \<times> bool) \<times> (64 word \<times> bool) \<times> (64 word \<times> bool) \<times>
    (WorkflowExecutionStartedEventAttributes option \<times> bool) \<times>
    (WorkflowExecutionCompletedEventAttributes option \<times> bool) \<times>
    (WorkflowExecutionFailedEventAttributes option \<times> bool)" where
  "HistoryEvent_accessors1 v =
     (value_accessors 0 HistoryEvent.EventId v,
      value_accessors 0 HistoryEvent.Timestamp v,
      value_accessors 0 HistoryEvent.EventType v,
      value_accessors 0 HistoryEvent.Version v,
      value_accessors 0 HistoryEvent.TaskId v,
      pointer_accessors HistoryEvent.WorkflowExecutionStartedEventAttributes v,
      pointer_accessors HistoryEvent.WorkflowExecutionCompletedEventAttributes v,
      pointer_accessors HistoryEvent.WorkflowExecutionFailedEventAttributes v)"

definition HistoryEvent_accessors2 :: "HistoryEvent option \<Rightarrow>
    (WorkflowExecutionTimedOutEventAttributes option \<times> bool) \<times> (DecisionTaskScheduledEventAttributes
    option \<times> bool) \<times> (DecisionTaskStartedEventAttributes option \<times> bool) \<times>
    (DecisionTaskCompletedEventAttributes option \<times> bool) \<times> (DecisionTaskTimedOutEventAttributes
    option \<times> bool) \<times> (DecisionTaskFailedEventAttributes option \<times> bool) \<times>
    (ActivityTaskScheduledEventAttributes option \<times> bool) \<times> (ActivityTaskStartedEventAttributes
    option \<times> bool)" where
  "HistoryEvent_accessors2 v =
     (pointer_accessors HistoryEvent.WorkflowExecutionTimedOutEventAttributes v,
      pointer_accessors HistoryEvent.DecisionTaskScheduledEventAttributes v,
      pointer_accessors HistoryEvent.DecisionTaskStartedEventAttributes v,
      pointer_accessors HistoryEvent.DecisionTaskCompletedEventAttributes v,
      pointer_accessors HistoryEvent.DecisionTaskTimedOutEventAttributes v,
      pointer_accessors HistoryEvent.DecisionTaskFailedEventAttributes v,
      pointer_accessors HistoryEvent.ActivityTaskScheduledEventAttributes v,
      pointer_accessors HistoryEvent.ActivityTaskStartedEventAttributes v)"

definition HistoryEvent_accessors3 :: "HistoryEvent option \<Rightarrow> (ActivityTaskCompletedEventAttributes
    option \<times> bool) \<times> (ActivityTaskFailedEventAttributes option \<times> bool) \<times>
    (ActivityTaskTimedOutEventAttributes option \<times> bool) \<times> (TimerStartedEventAttributes option \<times>
    bool) \<times> (TimerFiredEventAttributes option \<times> bool) \<times> (ActivityTaskCancelRequestedEventAttributes
    option \<times> bool) \<times> (RequestCancelActivityTaskFailedEventAttributes option \<times> bool) \<times>
    (ActivityTaskCanceledEventAttributes option \<times> bool)" where
  "HistoryEvent_accessors3 v =
     (pointer_accessors HistoryEvent.ActivityTaskCompletedEventAttributes v,
      pointer_accessors HistoryEvent.ActivityTaskFailedEventAttributes v,
      pointer_accessors HistoryEvent.ActivityTaskTimedOutEventAttributes v,
      pointer_accessors HistoryEvent.TimerStartedEventAttributes v,
      pointer_accessors HistoryEvent.TimerFiredEventAttributes v,
      pointer_accessors HistoryEvent.ActivityTaskCancelRequestedEventAttributes v,
      pointer_accessors HistoryEvent.RequestCancelActivityTaskFailedEventAttributes v,
      pointer_accessors HistoryEvent.ActivityTaskCanceledEventAttributes v)"

definition HistoryEvent_accessors4 :: "HistoryEvent option \<Rightarrow> (TimerCanceledEventAttributes option \<times>
    bool) \<times> (CancelTimerFailedEventAttributes option \<times> bool) \<times> (MarkerRecordedEventAttributes option
    \<times> bool) \<times> (WorkflowExecutionSignaledEventAttributes option \<times> bool) \<times>
    (WorkflowExecutionTerminatedEventAttributes option \<times> bool) \<times>
    (WorkflowExecutionCancelRequestedEventAttributes option \<times> bool) \<times>
    (WorkflowExecutionCanceledEventAttributes option \<times> bool) \<times>
    (RequestCancelExternalWorkflowExecutionInitiatedEventAttributes option \<times> bool)" where
  "HistoryEvent_accessors4 v =
     (pointer_accessors HistoryEvent.TimerCanceledEventAttributes v,
      pointer_accessors HistoryEvent.CancelTimerFailedEventAttributes v,
      pointer_accessors HistoryEvent.MarkerRecordedEventAttributes v,
      pointer_accessors HistoryEvent.WorkflowExecutionSignaledEventAttributes v,
      pointer_accessors HistoryEvent.WorkflowExecutionTerminatedEventAttributes v,
      pointer_accessors HistoryEvent.WorkflowExecutionCancelRequestedEventAttributes v,
      pointer_accessors HistoryEvent.WorkflowExecutionCanceledEventAttributes v,
      pointer_accessors HistoryEvent.RequestCancelExternalWorkflowExecutionInitiatedEventAttributes
          v)"

definition HistoryEvent_accessors5 :: "HistoryEvent option \<Rightarrow>
    (RequestCancelExternalWorkflowExecutionFailedEventAttributes option \<times> bool) \<times>
    (ExternalWorkflowExecutionCancelRequestedEventAttributes option \<times> bool) \<times>
    (WorkflowExecutionContinuedAsNewEventAttributes option \<times> bool) \<times>
    (StartChildWorkflowExecutionInitiatedEventAttributes option \<times> bool) \<times>
    (StartChildWorkflowExecutionFailedEventAttributes option \<times> bool) \<times>
    (ChildWorkflowExecutionStartedEventAttributes option \<times> bool) \<times>
    (ChildWorkflowExecutionCompletedEventAttributes option \<times> bool) \<times>
    (ChildWorkflowExecutionFailedEventAttributes option \<times> bool)" where
  "HistoryEvent_accessors5 v =
     (pointer_accessors HistoryEvent.RequestCancelExternalWorkflowExecutionFailedEventAttributes v,
      pointer_accessors HistoryEvent.ExternalWorkflowExecutionCancelRequestedEventAttributes v,
      pointer_accessors HistoryEvent.WorkflowExecutionContinuedAsNewEventAttributes v,
      pointer_accessors HistoryEvent.StartChildWorkflowExecutionInitiatedEventAttributes v,
      pointer_accessors HistoryEvent.StartChildWorkflowExecutionFailedEventAttributes v,
      pointer_accessors HistoryEvent.ChildWorkflowExecutionStartedEventAttributes v,
      pointer_accessors HistoryEvent.ChildWorkflowExecutionCompletedEventAttributes v,
      pointer_accessors HistoryEvent.ChildWorkflowExecutionFailedEventAttributes v)"

definition HistoryEvent_accessors6 :: "HistoryEvent option \<Rightarrow>
    (ChildWorkflowExecutionCanceledEventAttributes option \<times> bool) \<times>
    (ChildWorkflowExecutionTimedOutEventAttributes option \<times> bool) \<times>
    (ChildWorkflowExecutionTerminatedEventAttributes option \<times> bool) \<times>
    (SignalExternalWorkflowExecutionInitiatedEventAttributes option \<times> bool) \<times>
    (SignalExternalWorkflowExecutionFailedEventAttributes option \<times> bool) \<times>
    (ExternalWorkflowExecutionSignaledEventAttributes option \<times> bool) \<times>
    (UpsertWorkflowSearchAttributesEventAttributes option \<times> bool)" where
  "HistoryEvent_accessors6 v =
     (pointer_accessors HistoryEvent.ChildWorkflowExecutionCanceledEventAttributes v,
      pointer_accessors HistoryEvent.ChildWorkflowExecutionTimedOutEventAttributes v,
      pointer_accessors HistoryEvent.ChildWorkflowExecutionTerminatedEventAttributes v,
      pointer_accessors HistoryEvent.SignalExternalWorkflowExecutionInitiatedEventAttributes v,
      pointer_accessors HistoryEvent.SignalExternalWorkflowExecutionFailedEventAttributes v,
      pointer_accessors HistoryEvent.ExternalWorkflowExecutionSignaledEventAttributes v,
      pointer_accessors HistoryEvent.UpsertWorkflowSearchAttributesEventAttributes v)"

definition History_accessors :: "History option \<Rightarrow> HistoryEvent option list option \<times> bool" where
  "History_accessors v =
     pointer_accessors History.Events v"

definition Decision_accessors1 :: "Decision option \<Rightarrow> (DecisionType \<times> bool) \<times>
    (ScheduleActivityTaskDecisionAttributes option \<times> bool) \<times> (StartTimerDecisionAttributes option \<times>
    bool) \<times> (CompleteWorkflowExecutionDecisionAttributes option \<times> bool) \<times>
    (FailWorkflowExecutionDecisionAttributes option \<times> bool) \<times>
    (RequestCancelActivityTaskDecisionAttributes option \<times> bool) \<times> (CancelTimerDecisionAttributes
    option \<times> bool) \<times> (CancelWorkflowExecutionDecisionAttributes option \<times> bool)" where
  "Decision_accessors1 v =
     (value_accessors 0 Decision.DecisionType v,
      pointer_accessors Decision.ScheduleActivityTaskDecisionAttributes v,
      pointer_accessors Decision.StartTimerDecisionAttributes v,
      pointer_accessors Decision.CompleteWorkflowExecutionDecisionAttributes v,
      pointer_accessors Decision.FailWorkflowExecutionDecisionAttributes v,
      pointer_accessors Decision.RequestCancelActivityTaskDecisionAttributes v,
      pointer_accessors Decision.CancelTimerDecisionAttributes v,
      pointer_accessors Decision.CancelWorkflowExecutionDecisionAttributes v)"

definition Decision_accessors2 :: "Decision option \<Rightarrow>
    (RequestCancelExternalWorkflowExecutionDecisionAttributes option \<times> bool) \<times>
    (RecordMarkerDecisionAttributes option \<times> bool) \<times>
    (ContinueAsNewWorkflowExecutionDecisionAttributes option \<times> bool) \<times>
    (StartChildWorkflowExecutionDecisionAttributes option \<times> bool) \<times>
    (SignalExternalWorkflowExecutionDecisionAttributes option \<times> bool) \<times>
    (UpsertWorkflowSearchAttributesDecisionAttributes option \<times> bool)" where
  "Decision_accessors2 v =
     (pointer_accessors Decision.RequestCancelExternalWorkflowExecutionDecisionAttributes v,
      pointer_accessors Decision.RecordMarkerDecisionAttributes v,
      pointer_accessors Decision.ContinueAsNewWorkflowExecutionDecisionAttributes v,
      pointer_accessors Decision.StartChildWorkflowExecutionDecisionAttributes v,
      pointer_accessors Decision.SignalExternalWorkflowExecutionDecisionAttributes v,
      pointer_accessors Decision.UpsertWorkflowSearchAttributesDecisionAttributes v)"

end
