(* ===== verification/GoMessageAccessors.thy ===== *)
theory GoMessageAccessors
  imports GoPointers GoRequests GoMisc GoMessages
begin

text \<open>
  The accessors of exceptions, requests, responses and the structs inside them
  (proxy/gen/shared/shared.go): the value of each field and whether it is set, in their order,
  through a pointer to the struct that may be \<open>nil\<close>.
\<close>

definition AccessDeniedError_accessors :: "AccessDeniedError option \<Rightarrow> string" where
  "AccessDeniedError_accessors v =
     get_required [] AccessDeniedError.Message v"

definition ActivityType_accessors :: "ActivityType option \<Rightarrow> string \<times> bool" where
  "ActivityType_accessors v =
     value_accessors [] ActivityType.Name v"

definition BadBinaries_accessors :: "BadBinaries option \<Rightarrow> (string, BadBinaryInfo option) fmap option
    \<times> bool" where
  "BadBinaries_accessors v =
     pointer_accessors BadBinaries.Binaries v"

definition BadBinaryInfo_accessors :: "BadBinaryInfo option \<Rightarrow> (string \<times> bool) \<times> (string \<times> bool) \<times>
    (64 word \<times> bool)" where
  "BadBinaryInfo_accessors v =
     (value_accessors [] BadBinaryInfo.Reason v,
      value_accessors [] BadBinaryInfo.Operator v,
      value_accessors 0 BadBinaryInfo.CreatedTimeNano v)"

definition BadRequestError_accessors :: "BadRequestError option \<Rightarrow> string" where
  "BadRequestError_accessors v =
     get_required [] BadRequestError.Message v"

definition CancellationAlreadyRequestedError_accessors :: "CancellationAlreadyRequestedError option
    \<Rightarrow> string" where
  "CancellationAlreadyRequestedError_accessors v =
     get_required [] CancellationAlreadyRequestedError.Message v"

definition ClientVersionNotSupportedError_accessors :: "ClientVersionNotSupportedError option \<Rightarrow>
    string \<times> string \<times> string" where
  "ClientVersionNotSupportedError_accessors v =
     (get_required [] ClientVersionNotSupportedError.FeatureVersion v,
      get_required [] ClientVersionNotSupportedError.ClientImpl v,
      get_required [] ClientVersionNotSupportedError.SupportedVersions v)"

definition CloseShardRequest_accessors :: "CloseShardRequest option \<Rightarrow> 32 word \<times> bool" where
  "CloseShardRequest_accessors v =
     value_accessors 0 CloseShardRequest.ShardID v"

definition ClusterReplicationConfiguration_accessors :: "ClusterReplicationConfiguration option \<Rightarrow>
    string \<times> bool" where
  "ClusterReplicationConfiguration_accessors v =
     value_accessors [] ClusterReplicationConfiguration.ClusterName v"

definition CountWorkflowExecutionsRequest_accessors :: "CountWorkflowExecutionsRequest option \<Rightarrow>
    (string \<times> bool) \<times> (string \<times> bool)" where
  "CountWorkflowExecutionsRequest_accessors v =
     (value_accessors [] CountWorkflowExecutionsRequest.Domain v,
      value_accessors [] CountWorkflowExecutionsRequest.Query v)"

definition CountWorkflowExecutionsResponse_accessors :: "CountWorkflowExecutionsResponse option \<Rightarrow> 64
    word \<times> bool" where
  "CountWorkflowExecutionsResponse_accessors v =
     value_accessors 0 CountWorkflowExecutionsResponse.Count v"

definition DataBlob_accessors :: "DataBlob option \<Rightarrow> (EncodingType \<times> bool) \<times> (bytes option \<times> bool)"
    where
  "DataBlob_accessors v =
     (value_accessors 0 DataBlob.EncodingType v,
      pointer_accessors DataBlob.Data v)"

definition DeprecateDomainRequest_accessors :: "DeprecateDomainRequest option \<Rightarrow> (string \<times> bool) \<times>
    (string \<times> bool)" where
  "DeprecateDomainRequest_accessors v =
     (value_accessors [] DeprecateDomainRequest.Name v,
      value_accessors [] DeprecateDomainRequest.SecurityToken v)"

definition DescribeDomainRequest_accessors :: "DescribeDomainRequest option \<Rightarrow> (string \<times> bool) \<times>
    (string \<times> bool)" where
  "DescribeDomainRequest_accessors v =
     (value_accessors [] DescribeDomainRequest.Name v,
      value_accessors [] DescribeDomainRequest.UUID v)"

definition DescribeDomainResponse_accessors :: "DescribeDomainResponse option \<Rightarrow> (DomainInfo option \<times>
    bool) \<times> (DomainConfiguration option \<times> bool) \<times> (DomainReplicationConfiguration option \<times> bool) \<times>
    (64 word \<times> bool) \<times> (bool \<times> bool)" where
  "DescribeDomainResponse_accessors v =
     (pointer_accessors DescribeDomainResponse.DomainInfo v,
      pointer_accessors DescribeDomainResponse.Configuration v,
      pointer_accessors DescribeDomainResponse.ReplicationConfiguration v,
      value_accessors 0 DescribeDomainResponse.FailoverVersion v,
      value_accessors False DescribeDomainResponse.IsGlobalDomain v)"

definition DescribeHistoryHostRequest_accessors :: "DescribeHistoryHostRequest option \<Rightarrow> (string \<times>
    bool) \<times> (32 word \<times> bool) \<times> (WorkflowExecution option \<times> bool)" where
  "DescribeHistoryHostRequest_accessors v =
     (value_accessors [] DescribeHistoryHostRequest.HostAddress v,
      value_accessors 0 DescribeHistoryHostRequest.ShardIdForHost v,
      pointer_accessors DescribeHistoryHostRequest.ExecutionForHost v)"

definition DescribeHistoryHostResponse_accessors :: "DescribeHistoryHostResponse option \<Rightarrow> (32 word \<times>
    bool) \<times> (32 word list option \<times> bool) \<times> (DomainCacheInfo option \<times> bool) \<times> (string \<times> bool) \<times>
    (string \<times> bool)" where
  "DescribeHistoryHostResponse_accessors v =
     (value_accessors 0 DescribeHistoryHostResponse.NumberOfShards v,
      pointer_accessors DescribeHistoryHostResponse.ShardIDs v,
      pointer_accessors DescribeHistoryHostResponse.DomainCache v,
      value_accessors [] DescribeHistoryHostResponse.ShardControllerStatus v,
      value_accessors [] DescribeHistoryHostResponse.Address v)"

definition DescribeTaskListRequest_accessors :: "DescribeTaskListRequest option \<Rightarrow> (string \<times> bool) \<times>
    (TaskList option \<times> bool) \<times> (TaskListType \<times> bool) \<times> (bool \<times> bool)" where
  "DescribeTaskListRequest_accessors v =
     (value_accessors [] DescribeTaskListRequest.Domain v,
      pointer_accessors DescribeTaskListRequest.TaskList v,
      value_accessors 0 DescribeTaskListRequest.TaskListType v,
      value_accessors False DescribeTaskListRequest.IncludeTaskListStatus v)"

definition DescribeTaskListResponse_accessors :: "DescribeTaskListResponse option \<Rightarrow> (PollerInfo
    option list option \<times> bool) \<times> (TaskListStatus option \<times> bool)" where
  "DescribeTaskListResponse_accessors v =
     (pointer_accessors DescribeTaskListResponse.Pollers v,
      pointer_accessors DescribeTaskListResponse.TaskListStatus v)"

definition DescribeWorkflowExecutionRequest_accessors :: "DescribeWorkflowExecutionRequest option \<Rightarrow>
    (string \<times> bool) \<times> (WorkflowExecution option \<times> bool)" where
  "DescribeWorkflowExecutionRequest_accessors v =
     (value_accessors [] DescribeWorkflowExecutionRequest.Domain v,
      pointer_accessors DescribeWorkflowExecutionRequest.Execution v)"

definition DescribeWorkflowExecutionResponse_accessors :: "DescribeWorkflowExecutionResponse option
    \<Rightarrow> (WorkflowExecutionConfiguration option \<times> bool) \<times> (WorkflowExecutionInfo option \<times> bool) \<times>
    (PendingActivityInfo option list option \<times> bool) \<times> (PendingChildExecutionInfo option list option
    \<times> bool)" where
  "DescribeWorkflowExecutionResponse_accessors v =
     (pointer_accessors DescribeWorkflowExecutionResponse.ExecutionConfiguration v,
      pointer_accessors DescribeWorkflowExecutionResponse.WorkflowExecutionInfo v,
      pointer_accessors DescribeWorkflowExecutionResponse.PendingActivities v,
      pointer_accessors DescribeWorkflowExecutionResponse.PendingChildren v)"

definition DomainAlreadyExistsError_accessors :: "DomainAlreadyExistsError option \<Rightarrow> string" where
  "DomainAlreadyExistsError_accessors v =
     get_required [] DomainAlreadyExistsError.Message v"

definition DomainCacheInfo_accessors :: "DomainCacheInfo option \<Rightarrow> (64 word \<times> bool) \<times> (64 word \<times>
    bool)" where
  "DomainCacheInfo_accessors v =
     (value_accessors 0 DomainCacheInfo.NumOfItemsInCacheByID v,
      value_accessors 0 DomainCacheInfo.NumOfItemsInCacheByName v)"

definition DomainConfiguration_accessors :: "DomainConfiguration option \<Rightarrow> (32 word \<times> bool) \<times> (bool \<times>
    bool) \<times> (BadBinaries option \<times> bool) \<times> (ArchivalStatus \<times> bool) \<times> (string \<times> bool) \<times>
    (ArchivalStatus \<times> bool) \<times> (string \<times> bool)" where
  "DomainConfiguration_accessors v =
     (value_accessors 0 DomainConfiguration.WorkflowExecutionRetentionPeriodInDays v,
      value_accessors False DomainConfiguration.EmitMetric v,
      pointer_accessors DomainConfiguration.BadBinaries v,
      value_accessors 0 DomainConfiguration.HistoryArchivalStatus v,
      value_accessors [] DomainConfiguration.HistoryArchivalURI v,
      value_accessors 0 DomainConfiguration.VisibilityArchivalStatus v,
      value_accessors [] DomainConfiguration.VisibilityArchivalURI v)"

definition DomainInfo_accessors :: "DomainInfo option \<Rightarrow> (string \<times> bool) \<times> (DomainStatus \<times> bool) \<times>
    (string \<times> bool) \<times> (string \<times> bool) \<times> ((string, string) fmap option \<times> bool) \<times> (string \<times> bool)"
    where
  "DomainInfo_accessors v =
     (value_accessors [] DomainInfo.Name v,
      value_accessors 0 DomainInfo.Status v,
      value_accessors [] DomainInfo.Description v,
      value_accessors [] DomainInfo.OwnerEmail v,
      pointer_accessors DomainInfo.Data v,
      value_accessors [] DomainInfo.UUID v)"

definition DomainNotActiveError_accessors :: "DomainNotActiveError option \<Rightarrow> string \<times> string \<times> string
    \<times> string" where
  "DomainNotActiveError_accessors v =
     (get_required [] DomainNotActiveError.Message v,
      get_required [] DomainNotActiveError.DomainName v,
      get_required [] DomainNotActiveError.CurrentCluster v,
      get_required [] DomainNotActiveError.ActiveCluster v)"

definition DomainReplicationConfiguration_accessors :: "DomainReplicationConfiguration option \<Rightarrow>
    (string \<times> bool) \<times> (ClusterReplicationConfiguration option list option \<times> bool)" where
  "DomainReplicationConfiguration_accessors v =
     (value_accessors [] DomainReplicationConfiguration.ActiveClusterName v,
      pointer_accessors DomainReplicationConfiguration.Clusters v)"

definition EntityNotExistsError_accessors :: "EntityNotExistsError option \<Rightarrow> string" where
  "EntityNotExistsError_accessors v =
     get_required [] EntityNotExistsError.Message v"

definition GetSearchAttributesResponse_accessors :: "GetSearchAttributesResponse option \<Rightarrow> (string,
    IndexedValueType) fmap option \<times> bool" where
  "GetSearchAttributesResponse_accessors v =
     pointer_accessors GetSearchAttributesResponse.Keys v"

definition GetWorkflowExecutionHistoryRequest_accessors :: "GetWorkflowExecutionHistoryRequest
    option \<Rightarrow> (string \<times> bool) \<times> (WorkflowExecution option \<times> bool) \<times> (32 word \<times> bool) \<times> (bytes option
    \<times> bool) \<times> (bool \<times> bool) \<times> (HistoryEventFilterType \<times> bool)" where
  "GetWorkflowExecutionHistoryRequest_accessors v =
     (value_accessors [] GetWorkflowExecutionHistoryRequest.Domain v,
      pointer_accessors GetWorkflowExecutionHistoryRequest.Execution v,
      value_accessors 0 GetWorkflowExecutionHistoryRequest.MaximumPageSize v,
      pointer_accessors GetWorkflowExecutionHistoryRequest.NextPageToken v,
      value_accessors False GetWorkflowExecutionHistoryRequest.WaitForNewEvent v,
      value_accessors 0 GetWorkflowExecutionHistoryRequest.HistoryEventFilterType v)"

definition GetWorkflowExecutionHistoryResponse_accessors :: "GetWorkflowExecutionHistoryResponse
    option \<Rightarrow> (History option \<times> bool) \<times> (bytes option \<times> bool) \<times> (bool \<times> bool)" where
  "GetWorkflowExecutionHistoryResponse_accessors v =
     (pointer_accessors GetWorkflowExecutionHistoryResponse.History v,
      pointer_accessors GetWorkflowExecutionHistoryResponse.NextPageToken v,
      value_accessors False GetWorkflowExecutionHistoryResponse.Archived v)"

definition Header_accessors :: "Header option \<Rightarrow> (string, bytes option) fmap option \<times> bool" where
  "Header_accessors v =
     pointer_accessors Header.Fields v"

definition HistoryBranch_accessors :: "HistoryBranch option \<Rightarrow> (string \<times> bool) \<times> (string \<times> bool) \<times>
    (HistoryBranchRange option list option \<times> bool)" where
  "HistoryBranch_accessors v =
     (value_accessors [] HistoryBranch.TreeID v,
      value_accessors [] HistoryBranch.BranchID v,
      pointer_accessors HistoryBranch.Ancestors v)"

definition HistoryBranchRange_accessors :: "HistoryBranchRange option \<Rightarrow> (string \<times> bool) \<times> (64 word \<times>
    bool) \<times> (64 word \<times> bool)" where
  "HistoryBranchRange_accessors v =
     (value_accessors [] HistoryBranchRange.BranchID v,
      value_accessors 0 HistoryBranchRange.BeginNodeID v,
      value_accessors 0 HistoryBranchRange.EndNodeID v)"

definition InternalServiceError_accessors :: "InternalServiceError option \<Rightarrow> string" where
  "InternalServiceError_accessors v =
     get_required [] InternalServiceError.Message v"

definition LimitExceededError_accessors :: "LimitExceededError option \<Rightarrow> string" where
  "LimitExceededError_accessors v =
     get_required [] LimitExceededError.Message v"

definition ListArchivedWorkflowExecutionsRequest_accessors :: "ListArchivedWorkflowExecutionsRequest
    option \<Rightarrow> (string \<times> bool) \<times> (32 word \<times> bool) \<times> (bytes option \<times> bool) \<times> (string \<times> bool)" where
  "ListArchivedWorkflowExecutionsRequest_accessors v =
     (value_accessors [] ListArchivedWorkflowExecutionsRequest.Domain v,
      value_accessors 0 ListArchivedWorkflowExecutionsRequest.PageSize v,
      pointer_accessors ListArchivedWorkflowExecutionsRequest.NextPageToken v,
      value_accessors [] ListArchivedWorkflowExecutionsRequest.Query v)"

definition ListArchivedWorkflowExecutionsResponse_accessors ::
    "ListArchivedWorkflowExecutionsResponse option \<Rightarrow> (WorkflowExecutionInfo option list option \<times>
    bool) \<times> (bytes option \<times> bool)" where
  "ListArchivedWorkflowExecutionsResponse_accessors v =
     (pointer_accessors ListArchivedWorkflowExecutionsResponse.Executions v,
      pointer_accessors ListArchivedWorkflowExecutionsResponse.NextPageToken v)"

definition ListClosedWorkflowExecutionsRequest_accessors :: "ListClosedWorkflowExecutionsRequest
    option \<Rightarrow> (string \<times> bool) \<times> (32 word \<times> bool) \<times> (bytes option \<times> bool) \<times> (StartTimeFilter option \<times>
    bool) \<times> (WorkflowExecutionFilter option \<times> bool) \<times> (WorkflowTypeFilter option \<times> bool) \<times>
    (WorkflowExecutionCloseStatus \<times> bool)" where
  "ListClosedWorkflowExecutionsRequest_accessors v =
     (value_accessors [] ListClosedWorkflowExecutionsRequest.Domain v,
      value_accessors 0 ListClosedWorkflowExecutionsRequest.MaximumPageSize v,
      pointer_accessors ListClosedWorkflowExecutionsRequest.NextPageToken v,
      pointer_accessors ListClosedWorkflowExecutionsRequest.StartTimeFilter v,
      pointer_accessors ListClosedWorkflowExecutionsRequest.ExecutionFilter v,
      pointer_accessors ListClosedWorkflowExecutionsRequest.TypeFilter v,
      value_accessors 0 ListClosedWorkflowExecutionsRequest.StatusFilter v)"

definition ListClosedWorkflowExecutionsResponse_accessors :: "ListClosedWorkflowExecutionsResponse
    option \<Rightarrow> (WorkflowExecutionInfo option list option \<times> bool) \<times> (bytes option \<times> bool)" where
  "ListClosedWorkflowExecutionsResponse_accessors v =
     (pointer_accessors ListClosedWorkflowExecutionsResponse.Executions v,
      pointer_accessors ListClosedWorkflowExecutionsResponse.NextPageToken v)"

definition ListDomainsRequest_accessors :: "ListDomainsRequest option \<Rightarrow> (32 word \<times> bool) \<times> (bytes
    option \<times> bool)" where
  "ListDomainsRequest_accessors v =
     (value_accessors 0 ListDomainsRequest.PageSize v,
      pointer_accessors ListDomainsRequest.NextPageToken v)"

definition ListDomainsResponse_accessors :: "ListDomainsResponse option \<Rightarrow> (DescribeDomainResponse
    option list option \<times> bool) \<times> (bytes option \<times> bool)" where
  "ListDomainsResponse_accessors v =
     (pointer_accessors ListDomainsResponse.Domains v,
      pointer_accessors ListDomainsResponse.NextPageToken v)"

definition ListOpenWorkflowExecutionsRequest_accessors :: "ListOpenWorkflowExecutionsRequest option
    \<Rightarrow> (string \<times> bool) \<times> (32 word \<times> bool) \<times> (bytes option \<times> bool) \<times> (StartTimeFilter option \<times> bool) \<times>
    (WorkflowExecutionFilter option \<times> bool) \<times> (WorkflowTypeFilter option \<times> bool)" where
  "ListOpenWorkflowExecutionsRequest_accessors v =
     (value_accessors [] ListOpenWorkflowExecutionsRequest.Domain v,
      value_accessors 0 ListOpenWorkflowExecutionsRequest.MaximumPageSize v,
      pointer_accessors ListOpenWorkflowExecutionsRequest.NextPageToken v,
      pointer_accessors ListOpenWorkflowExecutionsRequest.StartTimeFilter v,
      pointer_accessors ListOpenWorkflowExecutionsRequest.ExecutionFilter v,
      pointer_accessors ListOpenWorkflowExecutionsRequest.TypeFilter v)"

definition ListOpenWorkflowExecutionsResponse_accessors :: "ListOpenWorkflowExecutionsResponse
    option \<Rightarrow> (WorkflowExecutionInfo option list option \<times> bool) \<times> (bytes option \<times> bool)" where
  "ListOpenWorkflowExecutionsResponse_accessors v =
     (pointer_accessors ListOpenWorkflowExecutionsResponse.Executions v,
      pointer_accessors ListOpenWorkflowExecutionsResponse.NextPageToken v)"

definition ListWorkflowExecutionsRequest_accessors :: "ListWorkflowExecutionsRequest option \<Rightarrow>
    (string \<times> bool) \<times> (32 word \<times> bool) \<times> (bytes option \<times> bool) \<times> (string \<times> bool)" where
  "ListWorkflowExecutionsRequest_accessors v =
     (value_accessors [] ListWorkflowExecutionsRequest.Domain v,
      value_accessors 0 ListWorkflowExecutionsRequest.PageSize v,
      pointer_accessors ListWorkflowExecutionsRequest.NextPageToken v,
      value_accessors [] ListWorkflowExecutionsRequest.Query v)"

definition ListWorkflowExecutionsResponse_accessors :: "ListWorkflowExecutionsResponse option \<Rightarrow>
    (WorkflowExecutionInfo option list option \<times> bool) \<times> (bytes option \<times> bool)" where
  "ListWorkflowExecutionsResponse_accessors v =
     (pointer_accessors ListWorkflowExecutionsResponse.Executions v,
      pointer_accessors ListWorkflowExecutionsResponse.NextPageToken v)"

definition Memo_accessors :: "Memo option \<Rightarrow> (string, bytes option) fmap option \<times> bool" where
  "Memo_accessors v =
     pointer_accessors Memo.Fields v"

definition PendingActivityInfo_accessors1 :: "PendingActivityInfo option \<Rightarrow> (string \<times> bool) \<times>
    (ActivityType option \<times> bool) \<times> (PendingActivityState \<times> bool) \<times> (bytes option \<times> bool) \<times> (64 word
    \<times> bool) \<times> (64 word \<times> bool) \<times> (32 word \<times> bool) \<times> (32 word \<times> bool)" where
  "PendingActivityInfo_accessors1 v =
     (value_accessors [] PendingActivityInfo.ActivityID v,
      pointer_accessors PendingActivityInfo.ActivityType v,
      value_accessors 0 PendingActivityInfo.State v,
      pointer_accessors PendingActivityInfo.HeartbeatDetails v,
      value_accessors 0 PendingActivityInfo.LastHeartbeatTimestamp v,
      value_accessors 0 PendingActivityInfo.LastStartedTimestamp v,
      value_accessors 0 PendingActivityInfo.Attempt v,
      value_accessors 0 PendingActivityInfo.MaximumAttempts v)"

definition PendingActivityInfo_accessors2 :: "PendingActivityInfo option \<Rightarrow> (64 word \<times> bool) \<times> (64
    word \<times> bool) \<times> (string \<times> bool) \<times> (string \<times> bool) \<times> (bytes option \<times> bool)" where
  "PendingActivityInfo_accessors2 v =
     (value_accessors 0 PendingActivityInfo.ScheduledTimestamp v,
      value_accessors 0 PendingActivityInfo.ExpirationTimestamp v,
      value_accessors [] PendingActivityInfo.LastFailureReason v,
      value_accessors [] PendingActivityInfo.LastWorkerIdentity v,
      pointer_accessors PendingActivityInfo.LastFailureDetails v)"

definition PendingChildExecutionInfo_accessors :: "PendingChildExecutionInfo option \<Rightarrow> (string \<times>
    bool) \<times> (string \<times> bool) \<times> (string \<times> bool) \<times> (64 word \<times> bool) \<times> (ParentClosePolicy \<times> bool)" where
  "PendingChildExecutionInfo_accessors v =
     (value_accessors [] PendingChildExecutionInfo.WorkflowID v,
      value_accessors [] PendingChildExecutionInfo.RunID v,
      value_accessors [] PendingChildExecutionInfo.WorkflowTypName v,
      value_accessors 0 PendingChildExecutionInfo.InitiatedID v,
      value_accessors 0 PendingChildExecutionInfo.ParentClosePolicy v)"

definition PollForActivityTaskRequest_accessors :: "PollForActivityTaskRequest option \<Rightarrow> (string \<times>
    bool) \<times> (TaskList option \<times> bool) \<times> (string \<times> bool) \<times> (TaskListMetadata option \<times> bool)" where
  "PollForActivityTaskRequest_accessors v =
     (value_accessors [] PollForActivityTaskRequest.Domain v,
      pointer_accessors PollForActivityTaskRequest.TaskList v,
      value_accessors [] PollForActivityTaskRequest.Identity v,
      pointer_accessors PollForActivityTaskRequest.TaskListMetadata v)"

definition PollForActivityTaskResponse_accessors1 :: "PollForActivityTaskResponse option \<Rightarrow> (bytes
    option \<times> bool) \<times> (WorkflowExecution option \<times> bool) \<times> (string \<times> bool) \<times> (ActivityType option \<times>
    bool) \<times> (bytes option \<times> bool) \<times> (64 word \<times> bool) \<times> (32 word \<times> bool) \<times> (64 word \<times> bool)" where
  "PollForActivityTaskResponse_accessors1 v =
     (pointer_accessors PollForActivityTaskResponse.TaskToken v,
      pointer_accessors PollForActivityTaskResponse.WorkflowExecution v,
      value_accessors [] PollForActivityTaskResponse.ActivityId v,
      pointer_accessors PollForActivityTaskResponse.ActivityType v,
      pointer_accessors PollForActivityTaskResponse.Input v,
      value_accessors 0 PollForActivityTaskResponse.ScheduledTimestamp v,
      value_accessors 0 PollForActivityTaskResponse.ScheduleToCloseTimeoutSeconds v,
      value_accessors 0 PollForActivityTaskResponse.StartedTimestamp v)"

definition PollForActivityTaskResponse_accessors2 :: "PollForActivityTaskResponse option \<Rightarrow> (32 word
    \<times> bool) \<times> (32 word \<times> bool) \<times> (32 word \<times> bool) \<times> (64 word \<times> bool) \<times> (bytes option \<times> bool) \<times>
    (WorkflowType option \<times> bool) \<times> (string \<times> bool) \<times> (Header option \<times> bool)" where
  "PollForActivityTaskResponse_accessors2 v =
     (value_accessors 0 PollForActivityTaskResponse.StartToCloseTimeoutSeconds v,
      value_accessors 0 PollForActivityTaskResponse.HeartbeatTimeoutSeconds v,
      value_accessors 0 PollForActivityTaskResponse.Attempt v,
      value_accessors 0 PollForActivityTaskResponse.ScheduledTimestampOfThisAttempt v,
      pointer_accessors PollForActivityTaskResponse.HeartbeatDetails v,
      pointer_accessors PollForActivityTaskResponse.WorkflowType v,
      value_accessors [] PollForActivityTaskResponse.WorkflowDomain v,
      pointer_accessors PollForActivityTaskResponse.Header v)"

definition PollForDecisionTaskRequest_accessors :: "PollForDecisionTaskRequest option \<Rightarrow> (string \<times>
    bool) \<times> (TaskList option \<times> bool) \<times> (string \<times> bool) \<times> (string \<times> bool)" where
  "PollForDecisionTaskRequest_accessors v =
     (value_accessors [] PollForDecisionTaskRequest.Domain v,
      pointer_accessors PollForDecisionTaskRequest.TaskList v,
      value_accessors [] PollForDecisionTaskRequest.Identity v,
      value_accessors [] PollForDecisionTaskRequest.BinaryChecksum v)"

definition PollForDecisionTaskResponse_accessors1 :: "PollForDecisionTaskResponse option \<Rightarrow> (bytes
    option \<times> bool) \<times> (WorkflowExecution option \<times> bool) \<times> (WorkflowType option \<times> bool) \<times> (64 word \<times>
    bool) \<times> (64 word \<times> bool) \<times> (64 word \<times> bool) \<times> (64 word \<times> bool) \<times> (History option \<times> bool)" where
  "PollForDecisionTaskResponse_accessors1 v =
     (pointer_accessors PollForDecisionTaskResponse.TaskToken v,
      pointer_accessors PollForDecisionTaskResponse.WorkflowExecution v,
      pointer_accessors PollForDecisionTaskResponse.WorkflowType v,
      value_accessors 0 PollForDecisionTaskResponse.PreviousStartedEventId v,
      value_accessors 0 PollForDecisionTaskResponse.StartedEventId v,
      value_accessors 0 PollForDecisionTaskResponse.Attempt v,
      value_accessors 0 PollForDecisionTaskResponse.BacklogCountHint v,
      pointer_accessors PollForDecisionTaskResponse.History v)"

definition PollForDecisionTaskResponse_accessors2 :: "PollForDecisionTaskResponse option \<Rightarrow> (bytes
    option \<times> bool) \<times> (WorkflowQuery option \<times> bool) \<times> (TaskList option \<times> bool) \<times> (64 word \<times> bool) \<times>
    (64 word \<times> bool) \<times> (WorkflowQuery option list option \<times> bool)" where
  "PollForDecisionTaskResponse_accessors2 v =
     (pointer_accessors PollForDecisionTaskResponse.NextPageToken v,
      pointer_accessors PollForDecisionTaskResponse.Query v,
      pointer_accessors PollForDecisionTaskResponse.WorkflowExecutionTaskList v,
      value_accessors 0 PollForDecisionTaskResponse.ScheduledTimestamp v,
      value_accessors 0 PollForDecisionTaskResponse.StartedTimestamp v,
      pointer_accessors PollForDecisionTaskResponse.Queries v)"

definition PollerInfo_accessors :: "PollerInfo option \<Rightarrow> (64 word \<times> bool) \<times> (string \<times> bool) \<times>
    (float64 \<times> bool)" where
  "PollerInfo_accessors v =
     (value_accessors 0 PollerInfo.LastAccessTime v,
      value_accessors [] PollerInfo.Identity v,
      value_accessors 0 PollerInfo.RatePerSecond v)"

definition QueryFailedError_accessors :: "QueryFailedError option \<Rightarrow> string" where
  "QueryFailedError_accessors v =
     get_required [] QueryFailedError.Message v"

definition QueryRejected_accessors :: "QueryRejected option \<Rightarrow> WorkflowExecutionCloseStatus \<times> bool"
    where
  "QueryRejected_accessors v =
     value_accessors 0 QueryRejected.CloseStatus v"

definition QueryWorkflowRequest_accessors :: "QueryWorkflowRequest option \<Rightarrow> (string \<times> bool) \<times>
    (WorkflowExecution option \<times> bool) \<times> (WorkflowQuery option \<times> bool) \<times> (QueryRejectCondition \<times>
    bool)" where
  "QueryWorkflowRequest_accessors v =
     (value_accessors [] QueryWorkflowRequest.Domain v,
      pointer_accessors QueryWorkflowRequest.Execution v,
      pointer_accessors QueryWorkflowRequest.Query v,
      value_accessors 0 QueryWorkflowRequest.QueryRejectCondition v)"

definition QueryWorkflowResponse_accessors :: "QueryWorkflowResponse option \<Rightarrow> (bytes option \<times> bool)
    \<times> (QueryRejected option \<times> bool)" where
  "QueryWorkflowResponse_accessors v =
     (pointer_accessors QueryWorkflowResponse.QueryResult v,
      pointer_accessors QueryWorkflowResponse.QueryRejected v)"

definition RecordActivityTaskHeartbeatByIDRequest_accessors ::
    "RecordActivityTaskHeartbeatByIDRequest option \<Rightarrow> (string \<times> bool) \<times> (string \<times> bool) \<times> (string \<times>
    bool) \<times> (string \<times> bool) \<times> (bytes option \<times> bool) \<times> (string \<times> bool)" where
  "RecordActivityTaskHeartbeatByIDRequest_accessors v =
     (value_accessors [] RecordActivityTaskHeartbeatByIDRequest.Domain v,
      value_accessors [] RecordActivityTaskHeartbeatByIDRequest.WorkflowID v,
      value_accessors [] RecordActivityTaskHeartbeatByIDRequest.RunID v,
      value_accessors [] RecordActivityTaskHeartbeatByIDRequest.ActivityID v,
      pointer_accessors RecordActivityTaskHeartbeatByIDRequest.Details v,
      value_accessors [] RecordActivityTaskHeartbeatByIDRequest.Identity v)"

definition RecordActivityTaskHeartbeatRequest_accessors :: "RecordActivityTaskHeartbeatRequest
    option \<Rightarrow> (bytes option \<times> bool) \<times> (bytes option \<times> bool) \<times> (string \<times> bool)" where
  "RecordActivityTaskHeartbeatRequest_accessors v =
     (pointer_accessors RecordActivityTaskHeartbeatRequest.TaskToken v,
      pointer_accessors RecordActivityTaskHeartbeatRequest.Details v,
      value_accessors [] RecordActivityTaskHeartbeatRequest.Identity v)"

definition RecordActivityTaskHeartbeatResponse_accessors :: "RecordActivityTaskHeartbeatResponse
    option \<Rightarrow> bool \<times> bool" where
  "RecordActivityTaskHeartbeatResponse_accessors v =
     value_accessors False RecordActivityTaskHeartbeatResponse.CancelRequested v"

definition RegisterDomainRequest_accessors1 :: "RegisterDomainRequest option \<Rightarrow> (string \<times> bool) \<times>
    (string \<times> bool) \<times> (string \<times> bool) \<times> (32 word \<times> bool) \<times> (bool \<times> bool) \<times>
    (ClusterReplicationConfiguration option list option \<times> bool) \<times> (string \<times> bool) \<times> ((string,
    string) fmap option \<times> bool)" where
  "RegisterDomainRequest_accessors1 v =
     (value_accessors [] RegisterDomainRequest.Name v,
      value_accessors [] RegisterDomainRequest.Description v,
      value_accessors [] RegisterDomainRequest.OwnerEmail v,
      value_accessors 0 RegisterDomainRequest.WorkflowExecutionRetentionPeriodInDays v,
      value_accessors False RegisterDomainRequest.EmitMetric v,
      pointer_accessors RegisterDomainRequest.Clusters v,
      value_accessors [] RegisterDomainRequest.ActiveClusterName v,
      pointer_accessors RegisterDomainRequest.Data v)"

definition RegisterDomainRequest_accessors2 :: "RegisterDomainRequest option \<Rightarrow> (string \<times> bool) \<times>
    (bool \<times> bool) \<times> (ArchivalStatus \<times> bool) \<times> (string \<times> bool) \<times> (ArchivalStatus \<times> bool) \<times> (string \<times>
    bool)" where
  "RegisterDomainRequest_accessors2 v =
     (value_accessors [] RegisterDomainRequest.SecurityToken v,
      value_accessors False RegisterDomainRequest.IsGlobalDomain v,
      value_accessors 0 RegisterDomainRequest.HistoryArchivalStatus v,
      value_accessors [] RegisterDomainRequest.HistoryArchivalURI v,
      value_accessors 0 RegisterDomainRequest.VisibilityArchivalStatus v,
      value_accessors [] RegisterDomainRequest.VisibilityArchivalURI v)"

definition RemoveTaskRequest_accessors :: "RemoveTaskRequest option \<Rightarrow> (32 word \<times> bool) \<times> (32 word \<times>
    bool) \<times> (64 word \<times> bool)" where
  "RemoveTaskRequest_accessors v =
     (value_accessors 0 RemoveTaskRequest.ShardID v,
      value_accessors 0 RemoveTaskRequest.Type v,
      value_accessors 0 RemoveTaskRequest.TaskID v)"

definition ReplicationInfo_accessors :: "ReplicationInfo option \<Rightarrow> (64 word \<times> bool) \<times> (64 word \<times>
    bool)" where
  "ReplicationInfo_accessors v =
     (value_accessors 0 ReplicationInfo.Version v,
      value_accessors 0 ReplicationInfo.LastEventId v)"

definition RequestCancelWorkflowExecutionRequest_accessors :: "RequestCancelWorkflowExecutionRequest
    option \<Rightarrow> (string \<times> bool) \<times> (WorkflowExecution option \<times> bool) \<times> (string \<times> bool) \<times> (string \<times>
    bool)" where
  "RequestCancelWorkflowExecutionRequest_accessors v =
     (value_accessors [] RequestCancelWorkflowExecutionRequest.Domain v,
      pointer_accessors RequestCancelWorkflowExecutionRequest.WorkflowExecution v,
      value_accessors [] RequestCancelWorkflowExecutionRequest.Identity v,
      value_accessors [] RequestCancelWorkflowExecutionRequest.RequestId v)"

definition ResetPointInfo_accessors :: "ResetPointInfo option \<Rightarrow> (string \<times> bool) \<times> (string \<times> bool) \<times>
    (64 word \<times> bool) \<times> (64 word \<times> bool) \<times> (64 word \<times> bool) \<times> (bool \<times> bool)" where
  "ResetPointInfo_accessors v =
     (value_accessors [] ResetPointInfo.BinaryChecksum v,
      value_accessors [] ResetPointInfo.RunId v,
      value_accessors 0 ResetPointInfo.FirstDecisionCompletedId v,
      value_accessors 0 ResetPointInfo.CreatedTimeNano v,
      value_accessors 0 ResetPointInfo.ExpiringTimeNano v,
      value_accessors False ResetPointInfo.Resettable v)"

definition ResetPoints_accessors :: "ResetPoints option \<Rightarrow> ResetPointInfo option list option \<times> bool"
    where
  "ResetPoints_accessors v =
     pointer_accessors ResetPoints.Points v"

definition ResetStickyTaskListRequest_accessors :: "ResetStickyTaskListRequest option \<Rightarrow> (string \<times>
    bool) \<times> (WorkflowExecution option \<times> bool)" where
  "ResetStickyTaskListRequest_accessors v =
     (value_accessors [] ResetStickyTaskListRequest.Domain v,
      pointer_accessors ResetStickyTaskListRequest.Execution v)"

definition ResetWorkflowExecutionRequest_accessors :: "ResetWorkflowExecutionRequest option \<Rightarrow>
    (string \<times> bool) \<times> (WorkflowExecution option \<times> bool) \<times> (string \<times> bool) \<times> (64 word \<times> bool) \<times>
    (string \<times> bool)" where
  "ResetWorkflowExecutionRequest_accessors v =
     (value_accessors [] ResetWorkflowExecutionRequest.Domain v,
      pointer_accessors ResetWorkflowExecutionRequest.WorkflowExecution v,
      value_accessors [] ResetWorkflowExecutionRequest.Reason v,
      value_accessors 0 ResetWorkflowExecutionRequest.DecisionFinishEventId v,
      value_accessors [] ResetWorkflowExecutionRequest.RequestId v)"

definition ResetWorkflowExecutionResponse_accessors :: "ResetWorkflowExecutionResponse option \<Rightarrow>
    string \<times> bool" where
  "ResetWorkflowExecutionResponse_accessors v =
     value_accessors [] ResetWorkflowExecutionResponse.RunId v"

definition RespondActivityTaskCanceledByIDRequest_accessors ::
    "RespondActivityTaskCanceledByIDRequest option \<Rightarrow> (string \<times> bool) \<times> (string \<times> bool) \<times> (string \<times>
    bool) \<times> (string \<times> bool) \<times> (bytes option \<times> bool) \<times> (string \<times> bool)" where
  "RespondActivityTaskCanceledByIDRequest_accessors v =
     (value_accessors [] RespondActivityTaskCanceledByIDRequest.Domain v,
      value_accessors [] RespondActivityTaskCanceledByIDRequest.WorkflowID v,
      value_accessors [] RespondActivityTaskCanceledByIDRequest.RunID v,
      value_accessors [] RespondActivityTaskCanceledByIDRequest.ActivityID v,
      pointer_accessors RespondActivityTaskCanceledByIDRequest.Details v,
      value_accessors [] RespondActivityTaskCanceledByIDRequest.Identity v)"

definition RespondActivityTaskCanceledRequest_accessors :: "RespondActivityTaskCanceledRequest
    option \<Rightarrow> (bytes option \<times> bool) \<times> (bytes option \<times> bool) \<times> (string \<times> bool)" where
  "RespondActivityTaskCanceledRequest_accessors v =
     (pointer_accessors RespondActivityTaskCanceledRequest.TaskToken v,
      pointer_accessors RespondActivityTaskCanceledRequest.Details v,
      value_accessors [] RespondActivityTaskCanceledRequest.Identity v)"

definition RespondActivityTaskCompletedByIDRequest_accessors ::
    "RespondActivityTaskCompletedByIDRequest option \<Rightarrow> (string \<times> bool) \<times> (string \<times> bool) \<times> (string \<times>
    bool) \<times> (string \<times> bool) \<times> (bytes option \<times> bool) \<times> (string \<times> bool)" where
  "RespondActivityTaskCompletedByIDRequest_accessors v =
     (value_accessors [] RespondActivityTaskCompletedByIDRequest.Domain v,
      value_accessors [] RespondActivityTaskCompletedByIDRequest.WorkflowID v,
      value_accessors [] RespondActivityTaskCompletedByIDRequest.RunID v,
      value_accessors [] RespondActivityTaskCompletedByIDRequest.ActivityID v,
      pointer_accessors RespondActivityTaskCompletedByIDRequest.Result v,
      value_accessors [] RespondActivityTaskCompletedByIDRequest.Identity v)"

definition RespondActivityTaskCompletedRequest_accessors :: "RespondActivityTaskCompletedRequest
    option \<Rightarrow> (bytes option \<times> bool) \<times> (bytes option \<times> bool) \<times> (string \<times> bool)" where
  "RespondActivityTaskCompletedRequest_accessors v =
     (pointer_accessors RespondActivityTaskCompletedRequest.TaskToken v,
      pointer_accessors RespondActivityTaskCompletedRequest.Result v,
      value_accessors [] RespondActivityTaskCompletedRequest.Identity v)"

definition RespondActivityTaskFailedByIDRequest_accessors :: "RespondActivityTaskFailedByIDRequest
    option \<Rightarrow> (string \<times> bool) \<times> (string \<times> bool) \<times> (string \<times> bool) \<times> (string \<times> bool) \<times> (string \<times> bool)
    \<times> (bytes option \<times> bool) \<times> (string \<times> bool)" where
  "RespondActivityTaskFailedByIDRequest_accessors v =
     (value_accessors [] RespondActivityTaskFailedByIDRequest.Domain v,
      value_accessors [] RespondActivityTaskFailedByIDRequest.WorkflowID v,
      value_accessors [] RespondActivityTaskFailedByIDRequest.RunID v,
      value_accessors [] RespondActivityTaskFailedByIDRequest.ActivityID v,
      value_accessors [] RespondActivityTaskFailedByIDRequest.Reason v,
      pointer_accessors RespondActivityTaskFailedByIDRequest.Details v,
      value_accessors [] RespondActivityTaskFailedByIDRequest.Identity v)"

definition RespondActivityTaskFailedRequest_accessors :: "RespondActivityTaskFailedRequest option \<Rightarrow>
    (bytes option \<times> bool) \<times> (string \<times> bool) \<times> (bytes option \<times> bool) \<times> (string \<times> bool)" where
  "RespondActivityTaskFailedRequest_accessors v =
     (pointer_accessors RespondActivityTaskFailedRequest.TaskToken v,
      value_accessors [] RespondActivityTaskFailedRequest.Reason v,
      pointer_accessors RespondActivityTaskFailedRequest.Details v,
      value_accessors [] RespondActivityTaskFailedRequest.Identity v)"

definition RespondDecisionTaskCompletedRequest_accessors1 :: "RespondDecisionTaskCompletedRequest
    option \<Rightarrow> (bytes option \<times> bool) \<times> (Decision option list option \<times> bool) \<times> (bytes option \<times> bool) \<times>
    (string \<times> bool) \<times> (StickyExecutionAttributes option \<times> bool) \<times> (bool \<times> bool) \<times> (bool \<times> bool) \<times>
    (string \<times> bool)" where
  "RespondDecisionTaskCompletedRequest_accessors1 v =
     (pointer_accessors RespondDecisionTaskCompletedRequest.TaskToken v,
      pointer_accessors RespondDecisionTaskCompletedRequest.Decisions v,
      pointer_accessors RespondDecisionTaskCompletedRequest.ExecutionContext v,
      value_accessors [] RespondDecisionTaskCompletedRequest.Identity v,
      pointer_accessors RespondDecisionTaskCompletedRequest.StickyAttributes v,
      value_accessors False RespondDecisionTaskCompletedRequest.ReturnNewDecisionTask v,
      value_accessors False RespondDecisionTaskCompletedRequest.ForceCreateNewDecisionTask v,
      value_accessors [] RespondDecisionTaskCompletedRequest.BinaryChecksum v)"

definition RespondDecisionTaskCompletedRequest_accessors2 :: "RespondDecisionTaskCompletedRequest
    option \<Rightarrow> WorkflowQueryResult option list option \<times> bool" where
  "RespondDecisionTaskCompletedRequest_accessors2 v =
     pointer_accessors RespondDecisionTaskCompletedRequest.QueryResults v"

definition RespondDecisionTaskCompletedResponse_accessors :: "RespondDecisionTaskCompletedResponse
    option \<Rightarrow> PollForDecisionTaskResponse option \<times> bool" where
  "RespondDecisionTaskCompletedResponse_accessors v =
     pointer_accessors RespondDecisionTaskCompletedResponse.DecisionTask v"

definition RespondDecisionTaskFailedRequest_accessors :: "RespondDecisionTaskFailedRequest option \<Rightarrow>
    (bytes option \<times> bool) \<times> (DecisionTaskFailedCause \<times> bool) \<times> (bytes option \<times> bool) \<times> (string \<times>
    bool)" where
  "RespondDecisionTaskFailedRequest_accessors v =
     (pointer_accessors RespondDecisionTaskFailedRequest.TaskToken v,
      value_accessors 0 RespondDecisionTaskFailedRequest.Cause v,
      pointer_accessors RespondDecisionTaskFailedRequest.Details v,
      value_accessors [] RespondDecisionTaskFailedRequest.Identity v)"

definition RespondQueryTaskCompletedRequest_accessors :: "RespondQueryTaskCompletedRequest option \<Rightarrow>
    (bytes option \<times> bool) \<times> (QueryTaskCompletedType \<times> bool) \<times> (bytes option \<times> bool) \<times> (string \<times>
    bool)" where
  "RespondQueryTaskCompletedRequest_accessors v =
     (pointer_accessors RespondQueryTaskCompletedRequest.TaskToken v,
      value_accessors 0 RespondQueryTaskCompletedRequest.CompletedType v,
      pointer_accessors RespondQueryTaskCompletedRequest.QueryResult v,
      value_accessors [] RespondQueryTaskCompletedRequest.ErrorMessage v)"

definition RetryPolicy_accessors :: "RetryPolicy option \<Rightarrow> (32 word \<times> bool) \<times> (float64 \<times> bool) \<times> (32
    word \<times> bool) \<times> (32 word \<times> bool) \<times> (string list option \<times> bool) \<times> (32 word \<times> bool)" where
  "RetryPolicy_accessors v =
     (value_accessors 0 RetryPolicy.InitialIntervalInSeconds v,
      value_accessors 0 RetryPolicy.BackoffCoefficient v,
      value_accessors 0 RetryPolicy.MaximumIntervalInSeconds v,
      value_accessors 0 RetryPolicy.MaximumAttempts v,
      pointer_accessors RetryPolicy.NonRetriableErrorReasons v,
      value_accessors 0 RetryPolicy.ExpirationIntervalInSeconds v)"

definition RetryTaskError_accessors :: "RetryTaskError option \<Rightarrow> string \<times> (string \<times> bool) \<times> (string \<times>
    bool) \<times> (string \<times> bool) \<times> (64 word \<times> bool)" where
  "RetryTaskError_accessors v =
     (get_required [] RetryTaskError.Message v,
      value_accessors [] RetryTaskError.DomainId v,
      value_accessors [] RetryTaskError.WorkflowId v,
      value_accessors [] RetryTaskError.RunId v,
      value_accessors 0 RetryTaskError.NextEventId v)"

definition SearchAttributes_accessors :: "SearchAttributes option \<Rightarrow> (string, bytes option) fmap
    option \<times> bool" where
  "SearchAttributes_accessors v =
     pointer_accessors SearchAttributes.IndexedFields v"

definition ServiceBusyError_accessors :: "ServiceBusyError option \<Rightarrow> string" where
  "ServiceBusyError_accessors v =
     get_required [] ServiceBusyError.Message v"

definition SignalWithStartWorkflowExecutionRequest_accessors1 ::
    "SignalWithStartWorkflowExecutionRequest option \<Rightarrow> (string \<times> bool) \<times> (string \<times> bool) \<times>
    (WorkflowType option \<times> bool) \<times> (TaskList option \<times> bool) \<times> (bytes option \<times> bool) \<times> (32 word \<times>
    bool) \<times> (32 word \<times> bool) \<times> (string \<times> bool)" where
  "SignalWithStartWorkflowExecutionRequest_accessors1 v =
     (value_accessors [] SignalWithStartWorkflowExecutionRequest.Domain v,
      value_accessors [] SignalWithStartWorkflowExecutionRequest.WorkflowId v,
      pointer_accessors SignalWithStartWorkflowExecutionRequest.WorkflowType v,
      pointer_accessors SignalWithStartWorkflowExecutionRequest.TaskList v,
      pointer_accessors SignalWithStartWorkflowExecutionRequest.Input v,
      value_accessors 0 SignalWithStartWorkflowExecutionRequest.ExecutionStartToCloseTimeoutSeconds
          v,
      value_accessors 0 SignalWithStartWorkflowExecutionRequest.TaskStartToCloseTimeoutSeconds v,
      value_accessors [] SignalWithStartWorkflowExecutionRequest.Identity v)"

definition SignalWithStartWorkflowExecutionRequest_accessors2 ::
    "SignalWithStartWorkflowExecutionRequest option \<Rightarrow> (string \<times> bool) \<times> (WorkflowIdReusePolicy \<times>
    bool) \<times> (string \<times> bool) \<times> (bytes option \<times> bool) \<times> (bytes option \<times> bool) \<times> (RetryPolicy option \<times>
    bool) \<times> (string \<times> bool) \<times> (Memo option \<times> bool)" where
  "SignalWithStartWorkflowExecutionRequest_accessors2 v =
     (value_accessors [] SignalWithStartWorkflowExecutionRequest.RequestId v,
      value_accessors 0 SignalWithStartWorkflowExecutionRequest.WorkflowIdReusePolicy v,
      value_accessors [] SignalWithStartWorkflowExecutionRequest.SignalName v,
      pointer_accessors SignalWithStartWorkflowExecutionRequest.SignalInput v,
      pointer_accessors SignalWithStartWorkflowExecutionRequest.Control v,
      pointer_accessors SignalWithStartWorkflowExecutionRequest.RetryPolicy v,
      value_accessors [] SignalWithStartWorkflowExecutionRequest.CronSchedule v,
      pointer_accessors SignalWithStartWorkflowExecutionRequest.Memo v)"

definition SignalWithStartWorkflowExecutionRequest_accessors3 ::
    "SignalWithStartWorkflowExecutionRequest option \<Rightarrow> (SearchAttributes option \<times> bool) \<times> (Header
    option \<times> bool)" where
  "SignalWithStartWorkflowExecutionRequest_accessors3 v =
     (pointer_accessors SignalWithStartWorkflowExecutionRequest.SearchAttributes v,
      pointer_accessors SignalWithStartWorkflowExecutionRequest.Header v)"

definition SignalWorkflowExecutionRequest_accessors :: "SignalWorkflowExecutionRequest option \<Rightarrow>
    (string \<times> bool) \<times> (WorkflowExecution option \<times> bool) \<times> (string \<times> bool) \<times> (bytes option \<times> bool) \<times>
    (string \<times> bool) \<times> (string \<times> bool) \<times> (bytes option \<times> bool)" where
  "SignalWorkflowExecutionRequest_accessors v =
     (value_accessors [] SignalWorkflowExecutionRequest.Domain v,
      pointer_accessors SignalWorkflowExecutionRequest.WorkflowExecution v,
      value_accessors [] SignalWorkflowExecutionRequest.SignalName v,
      pointer_accessors SignalWorkflowExecutionRequest.Input v,
      value_accessors [] SignalWorkflowExecutionRequest.Identity v,
      value_accessors [] SignalWorkflowExecutionRequest.RequestId v,
      pointer_accessors SignalWorkflowExecutionRequest.Control v)"

definition StartTimeFilter_accessors :: "StartTimeFilter option \<Rightarrow> (64 word \<times> bool) \<times> (64 word \<times>
    bool)" where
  "StartTimeFilter_accessors v =
     (value_accessors 0 StartTimeFilter.EarliestTime v,
      value_accessors 0 StartTimeFilter.LatestTime v)"

definition StartWorkflowExecutionRequest_accessors1 :: "StartWorkflowExecutionRequest option \<Rightarrow>
    (string \<times> bool) \<times> (string \<times> bool) \<times> (WorkflowType option \<times> bool) \<times> (TaskList option \<times> bool) \<times>
    (bytes option \<times> bool) \<times> (32 word \<times> bool) \<times> (32 word \<times> bool) \<times> (string \<times> bool)" where
  "StartWorkflowExecutionRequest_accessors1 v =
     (value_accessors [] StartWorkflowExecutionRequest.Domain v,
      value_accessors [] StartWorkflowExecutionRequest.WorkflowId v,
      pointer_accessors StartWorkflowExecutionRequest.WorkflowType v,
      pointer_accessors StartWorkflowExecutionRequest.TaskList v,
      pointer_accessors StartWorkflowExecutionRequest.Input v,
      value_accessors 0 StartWorkflowExecutionRequest.ExecutionStartToCloseTimeoutSeconds v,
      value_accessors 0 StartWorkflowExecutionRequest.TaskStartToCloseTimeoutSeconds v,
      value_accessors [] StartWorkflowExecutionRequest.Identity v)"

definition StartWorkflowExecutionRequest_accessors2 :: "StartWorkflowExecutionRequest option \<Rightarrow>
    (string \<times> bool) \<times> (WorkflowIdReusePolicy \<times> bool) \<times> (RetryPolicy option \<times> bool) \<times> (string \<times> bool)
    \<times> (Memo option \<times> bool) \<times> (SearchAttributes option \<times> bool) \<times> (Header option \<times> bool)" where
  "StartWorkflowExecutionRequest_accessors2 v =
     (value_accessors [] StartWorkflowExecutionRequest.RequestId v,
      value_accessors 0 StartWorkflowExecutionRequest.WorkflowIdReusePolicy v,
      pointer_accessors StartWorkflowExecutionRequest.RetryPolicy v,
      value_accessors [] StartWorkflowExecutionRequest.CronSchedule v,
      pointer_accessors StartWorkflowExecutionRequest.Memo v,
      pointer_accessors StartWorkflowExecutionRequest.SearchAttributes v,
      pointer_accessors StartWorkflowExecutionRequest.Header v)"

definition StartWorkflowExecutionResponse_accessors :: "StartWorkflowExecutionResponse option \<Rightarrow>
    string \<times> bool" where
  "StartWorkflowExecutionResponse_accessors v =
     value_accessors [] StartWorkflowExecutionResponse.RunId v"

definition StickyExecutionAttributes_accessors :: "StickyExecutionAttributes option \<Rightarrow> (TaskList
    option \<times> bool) \<times> (32 word \<times> bool)" where
  "StickyExecutionAttributes_accessors v =
     (pointer_accessors StickyExecutionAttributes.WorkerTaskList v,
      value_accessors 0 StickyExecutionAttributes.ScheduleToStartTimeoutSeconds v)"

definition TaskIDBlock_accessors :: "TaskIDBlock option \<Rightarrow> (64 word \<times> bool) \<times> (64 word \<times> bool)" where
  "TaskIDBlock_accessors v =
     (value_accessors 0 TaskIDBlock.StartID v,
      value_accessors 0 TaskIDBlock.EndID v)"

definition TaskList_accessors :: "TaskList option \<Rightarrow> (string \<times> bool) \<times> (TaskListKind \<times> bool)" where
  "TaskList_accessors v =
     (value_accessors [] TaskList.Name v,
      value_accessors 0 TaskList.Kind v)"

definition TaskListMetadata_accessors :: "TaskListMetadata option \<Rightarrow> float64 \<times> bool" where
  "TaskListMetadata_accessors v =
     value_accessors 0 TaskListMetadata.MaxTasksPerSecond v"

definition TaskListStatus_accessors :: "TaskListStatus option \<Rightarrow> (64 word \<times> bool) \<times> (64 word \<times> bool)
    \<times> (64 word \<times> bool) \<times> (float64 \<times> bool) \<times> (TaskIDBlock option \<times> bool)" where
  "TaskListStatus_accessors v =
     (value_accessors 0 TaskListStatus.BacklogCountHint v,
      value_accessors 0 TaskListStatus.ReadLevel v,
      value_accessors 0 TaskListStatus.AckLevel v,
      value_accessors 0 TaskListStatus.RatePerSecond v,
      pointer_accessors TaskListStatus.TaskIDBlock v)"

definition TerminateWorkflowExecutionRequest_accessors :: "TerminateWorkflowExecutionRequest option
    \<Rightarrow> (string \<times> bool) \<times> (WorkflowExecution option \<times> bool) \<times> (string \<times> bool) \<times> (bytes option \<times> bool)
    \<times> (string \<times> bool)" where
  "TerminateWorkflowExecutionRequest_accessors v =
     (value_accessors [] TerminateWorkflowExecutionRequest.Domain v,
      pointer_accessors TerminateWorkflowExecutionRequest.WorkflowExecution v,
      value_accessors [] TerminateWorkflowExecutionRequest.Reason v,
      pointer_accessors TerminateWorkflowExecutionRequest.Details v,
      value_accessors [] TerminateWorkflowExecutionRequest.Identity v)"

definition TransientDecisionInfo_accessors :: "TransientDecisionInfo option \<Rightarrow> (HistoryEvent option \<times>
    bool) \<times> (HistoryEvent option \<times> bool)" where
  "TransientDecisionInfo_accessors v =
     (pointer_accessors TransientDecisionInfo.ScheduledEvent v,
      pointer_accessors TransientDecisionInfo.StartedEvent v)"

definition UpdateDomainInfo_accessors :: "UpdateDomainInfo option \<Rightarrow> (string \<times> bool) \<times> (string \<times>
    bool) \<times> ((string, string) fmap option \<times> bool)" where
  "UpdateDomainInfo_accessors v =
     (value_accessors [] UpdateDomainInfo.Description v,
      value_accessors [] UpdateDomainInfo.OwnerEmail v,
      pointer_accessors UpdateDomainInfo.Data v)"

definition UpdateDomainRequest_accessors :: "UpdateDomainRequest option \<Rightarrow> (string \<times> bool) \<times>
    (UpdateDomainInfo option \<times> bool) \<times> (DomainConfiguration option \<times> bool) \<times>
    (DomainReplicationConfiguration option \<times> bool) \<times> (string \<times> bool) \<times> (string \<times> bool)" where
  "UpdateDomainRequest_accessors v =
     (value_accessors [] UpdateDomainRequest.Name v,
      pointer_accessors UpdateDomainRequest.UpdatedInfo v,
      pointer_accessors UpdateDomainRequest.Configuration v,
      pointer_accessors UpdateDomainRequest.ReplicationConfiguration v,
      value_accessors [] UpdateDomainRequest.SecurityToken v,
      value_accessors [] UpdateDomainRequest.DeleteBadBinary v)"

definition UpdateDomainResponse_accessors :: "UpdateDomainResponse option \<Rightarrow> (DomainInfo option \<times>
    bool) \<times> (DomainConfiguration option \<times> bool) \<times> (DomainReplicationConfiguration option \<times> bool) \<times>
    (64 word \<times> bool) \<times> (bool \<times> bool)" where
  "UpdateDomainResponse_accessors v =
     (pointer_accessors UpdateDomainResponse.DomainInfo v,
      pointer_accessors UpdateDomainResponse.Configuration v,
      pointer_accessors UpdateDomainResponse.ReplicationConfiguration v,
      value_accessors 0 UpdateDomainResponse.FailoverVersion v,
      value_accessors False UpdateDomainResponse.IsGlobalDomain v)"

definition WorkflowExecution_accessors :: "WorkflowExecution option \<Rightarrow> (string \<times> bool) \<times> (string \<times>
    bool)" where
  "WorkflowExecution_accessors v =
     (value_accessors [] WorkflowExecution.WorkflowId v,
      value_accessors [] WorkflowExecution.RunId v)"

definition WorkflowExecutionAlreadyStartedError_accessors :: "WorkflowExecutionAlreadyStartedError
    option \<Rightarrow> (string \<times> bool) \<times> (string \<times> bool) \<times> (string \<times> bool)" where
  "WorkflowExecutionAlreadyStartedError_accessors v =
     (value_accessors [] WorkflowExecutionAlreadyStartedError.Message v,
      value_accessors [] WorkflowExecutionAlreadyStartedError.StartRequestId v,
      value_accessors [] WorkflowExecutionAlreadyStartedError.RunId v)"

definition WorkflowExecutionConfiguration_accessors :: "WorkflowExecutionConfiguration option \<Rightarrow>
    (TaskList option \<times> bool) \<times> (32 word \<times> bool) \<times> (32 word \<times> bool)" where
  "WorkflowExecutionConfiguration_accessors v =
     (pointer_accessors WorkflowExecutionConfiguration.TaskList v,
      value_accessors 0 WorkflowExecutionConfiguration.ExecutionStartToCloseTimeoutSeconds v,
      value_accessors 0 WorkflowExecutionConfiguration.TaskStartToCloseTimeoutSeconds v)"

definition WorkflowExecutionFilter_accessors :: "WorkflowExecutionFilter option \<Rightarrow> (string \<times> bool) \<times>
    (string \<times> bool)" where
  "WorkflowExecutionFilter_accessors v =
     (value_accessors [] WorkflowExecutionFilter.WorkflowId v,
      value_accessors [] WorkflowExecutionFilter.RunId v)"

definition WorkflowExecutionInfo_accessors1 :: "WorkflowExecutionInfo option \<Rightarrow> (WorkflowExecution
    option \<times> bool) \<times> (WorkflowType option \<times> bool) \<times> (64 word \<times> bool) \<times> (64 word \<times> bool) \<times>
    (WorkflowExecutionCloseStatus \<times> bool) \<times> (64 word \<times> bool) \<times> (string \<times> bool) \<times> (WorkflowExecution
    option \<times> bool)" where
  "WorkflowExecutionInfo_accessors1 v =
     (pointer_accessors WorkflowExecutionInfo.Execution v,
      pointer_accessors WorkflowExecutionInfo.Type v,
      value_accessors 0 WorkflowExecutionInfo.StartTime v,
      value_accessors 0 WorkflowExecutionInfo.CloseTime v,
      value_accessors 0 WorkflowExecutionInfo.CloseStatus v,
      value_accessors 0 WorkflowExecutionInfo.HistoryLength v,
      value_accessors [] WorkflowExecutionInfo.ParentDomainId v,
      pointer_accessors WorkflowExecutionInfo.ParentExecution v)"

definition WorkflowExecutionInfo_accessors2 :: "WorkflowExecutionInfo option \<Rightarrow> (64 word \<times> bool) \<times>
    (Memo option \<times> bool) \<times> (SearchAttributes option \<times> bool) \<times> (ResetPoints option \<times> bool)" where
  "WorkflowExecutionInfo_accessors2 v =
     (value_accessors 0 WorkflowExecutionInfo.ExecutionTime v,
      pointer_accessors WorkflowExecutionInfo.Memo v,
      pointer_accessors WorkflowExecutionInfo.SearchAttributes v,
      pointer_accessors WorkflowExecutionInfo.AutoResetPoints v)"

definition WorkflowQuery_accessors :: "WorkflowQuery option \<Rightarrow> (string \<times> bool) \<times> (bytes option \<times>
    bool)" where
  "WorkflowQuery_accessors v =
     (value_accessors [] WorkflowQuery.QueryType v,
      pointer_accessors WorkflowQuery.QueryArgs v)"

definition WorkflowQueryResult_accessors :: "WorkflowQueryResult option \<Rightarrow> (QueryResultType \<times> bool) \<times>
    (bytes option \<times> bool) \<times> (string \<times> bool) \<times> (bytes option \<times> bool)" where
  "WorkflowQueryResult_accessors v =
     (value_accessors 0 WorkflowQueryResult.ResultType v,
      pointer_accessors WorkflowQueryResult.Answer v,
      value_accessors [] WorkflowQueryResult.ErrorReason v,
      pointer_accessors WorkflowQueryResult.ErrorDetails v)"

definition WorkflowType_accessors :: "WorkflowType option \<Rightarrow> string \<times> bool" where
  "WorkflowType_accessors v =
     value_accessors [] WorkflowType.Name v"

definition WorkflowTypeFilter_accessors :: "WorkflowTypeFilter option \<Rightarrow> string \<times> bool" where
  "WorkflowTypeFilter_accessors v =
     value_accessors [] WorkflowTypeFilter.Name v"

end
