(* ===== verification/GoFormat.thy ===== *)
theory GoFormat
  imports GoText GoWire
begin

text \<open>
  The text of values as Go's \<open>fmt\<close> prints them with \<open>%v\<close>, for the types that the fields of the
  generated structs have, and the frame of a generated \<open>String\<close> method. The shortest decimal
  form of a floating point number is a parameter of the methods that need it.
\<close>

definition Join :: "string \<Rightarrow> string list \<Rightarrow> string" where
  "Join sep xs = (case xs of [] \<Rightarrow> [] | x # xs \<Rightarrow> x @ concat (List.map (\<lambda>y. sep @ y) xs))"

definition show_bool :: "bool \<Rightarrow> string" where
  "show_bool b = (if b then ''true'' else ''false'')"

definition show_i32 :: "32 word \<Rightarrow> string" where
  "show_i32 i = FormatInt (sint i)"

definition show_i64 :: "64 word \<Rightarrow> string" where
  "show_i64 i = FormatInt (sint i)"

definition show_list :: "('a \<Rightarrow> string) \<Rightarrow> 'a list \<Rightarrow> string" where
  "show_list f xs = ''['' @ Join '' '' (List.map f xs) @ '']''"

text \<open>A byte is printed as a number; a \<open>nil\<close> slice has no elements.\<close>

definition show_bytes :: "bytes \<Rightarrow> string" where
  "show_bytes b = show_list (\<lambda>x. FormatInt (uint x)) b"

definition the_slice :: "bytes option \<Rightarrow> bytes" where
  "the_slice b = (case b of None \<Rightarrow> [] | Some b \<Rightarrow> b)"

text \<open>The entries of a map are printed in the order of their keys.\<close>

definition show_map :: "('a \<Rightarrow> string) \<Rightarrow> (string, 'a) fmap \<Rightarrow> string" where
  "show_map f m =
     ''map['' @ Join '' '' (List.map (\<lambda>k. k @ '':'' @ f (the (fmlookup m k))) (sorted_list_of_fset (fmdom m))) @ '']''"

text \<open>A field that is always printed, one that is printed when it is set, and the struct.\<close>

definition shown_field :: "string \<Rightarrow> ('a \<Rightarrow> string) \<Rightarrow> 'a \<Rightarrow> string list" where
  "shown_field name f x = [name @ '': '' @ f x]"

definition shown_opt :: "string \<Rightarrow> ('a \<Rightarrow> string) \<Rightarrow> 'a option \<Rightarrow> string list" where
  "shown_opt name f x = (case x of None \<Rightarrow> [] | Some y \<Rightarrow> shown_field name f y)"

definition show_struct :: "string \<Rightarrow> string list list \<Rightarrow> string" where
  "show_struct name parts = name @ ''{'' @ Join '', '' (concat parts) @ ''}''"

lemma show_struct_none: "\<forall>f\<in>set parts. f = [] \<Longrightarrow> show_struct name parts = name @ ''{}''"
  by (simp add: show_struct_def Join_def concat_eq_Nil_conv [THEN iffD2])

end
