(* ===== verification/GoEventStrings.thy ===== *)
theory GoEventStrings
  imports GoFormat GoHistory
begin

text \<open>
  The text of events, histories and decisions, and of the structs inside them
  (\<open>String\<close>, proxy/gen/shared/shared.go): the fields that are set, by name.
  \<open>F\<close> formats floating point numbers.
\<close>

definition ActivityTaskCancelRequestedEventAttributes_String ::
    "ActivityTaskCancelRequestedEventAttributes option \<Rightarrow> string" where
  "ActivityTaskCancelRequestedEventAttributes_String v =
     (case v of None \<Rightarrow> ''<nil>''
      | Some v \<Rightarrow> show_struct ''ActivityTaskCancelRequestedEventAttributes''
          [shown_opt ''ActivityId'' id (ActivityTaskCancelRequestedEventAttributes.ActivityId v),
           shown_opt ''DecisionTaskCompletedEventId'' show_i64
               (ActivityTaskCancelRequestedEventAttributes.DecisionTaskCompletedEventId v)])"

definition ActivityTaskCanceledEventAttributes_String :: "ActivityTaskCanceledEventAttributes option
    \<Rightarrow> string" where
  "ActivityTaskCanceledEventAttributes_String v =
     (case v of None \<Rightarrow> ''<nil>''
      | Some v \<Rightarrow> show_struct ''ActivityTaskCanceledEventAttributes''
          [shown_opt ''Details'' show_bytes (ActivityTaskCanceledEventAttributes.Details v),
           shown_opt ''LatestCancelRequestedEventId'' show_i64
               (ActivityTaskCanceledEventAttributes.LatestCancelRequestedEventId v),
           shown_opt ''ScheduledEventId'' show_i64
               (ActivityTaskCanceledEventAttributes.ScheduledEventId v),
           shown_opt ''StartedEventId'' show_i64 (ActivityTaskCanceledEventAttributes.StartedEventId
               v),
           shown_opt ''Identity'' id (ActivityTaskCanceledEventAttributes.Identity v)])"

definition ActivityTaskCompletedEventAttributes_String :: "ActivityTaskCompletedEventAttributes
    option \<Rightarrow> string" where
  "ActivityTaskCompletedEventAttributes_String v =
     (case v of None \<Rightarrow> ''<nil>''
      | Some v \<Rightarrow> show_struct ''ActivityTaskCompletedEventAttributes''
          [shown_opt ''Result'' show_bytes (ActivityTaskCompletedEventAttributes.Result v),
           shown_opt ''ScheduledEventId'' show_i64
               (ActivityTaskCompletedEventAttributes.ScheduledEventId v),
           shown_opt ''StartedEventId'' show_i64
               (ActivityTaskCompletedEventAttributes.StartedEventId v),
           shown_opt ''Identity'' id (ActivityTaskCompletedEventAttributes.Identity v)])"

definition ActivityTaskFailedEventAttributes_String :: "ActivityTaskFailedEventAttributes option \<Rightarrow>
    string" where
  "ActivityTaskFailedEventAttributes_String v =
     (case v of None \<Rightarrow> ''<nil>''
      | Some v \<Rightarrow> show_struct ''ActivityTaskFailedEventAttributes''
          [shown_opt ''Reason'' id (ActivityTaskFailedEventAttributes.Reason v),
           shown_opt ''Details'' show_bytes (ActivityTaskFailedEventAttributes.Details v),
           shown_opt ''ScheduledEventId'' show_i64
               (ActivityTaskFailedEventAttributes.ScheduledEventId v),
           shown_opt ''StartedEventId'' show_i64 (ActivityTaskFailedEventAttributes.StartedEventId
               v),
           shown_opt ''Identity'' id (ActivityTaskFailedEventAttributes.Identity v)])"

definition ActivityType_String :: "ActivityType option \<Rightarrow> string" where
  "ActivityType_String v =
     (case v of None \<Rightarrow> ''<nil>''
      | Some v \<Rightarrow> show_struct ''ActivityType''
          [shown_opt ''Name'' id (ActivityType.Name v)])"

definition TaskList_String :: "TaskList option \<Rightarrow> string" where
  "TaskList_String v =
     (case v of None \<Rightarrow> ''<nil>''
      | Some v \<Rightarrow> show_struct ''TaskList''
          [shown_opt ''Name'' id (TaskList.Name v),
           shown_opt ''Kind'' TaskListKind_String (TaskList.Kind v)])"

definition RetryPolicy_String :: "(float64 \<Rightarrow> string) \<Rightarrow> RetryPolicy option \<Rightarrow> string" where
  "RetryPolicy_String F v =
     (case v of None \<Rightarrow> ''<nil>''
      | Some v \<Rightarrow> show_struct ''RetryPolicy''
          [shown_opt ''InitialIntervalInSeconds'' show_i32 (RetryPolicy.InitialIntervalInSeconds v),
           shown_opt ''BackoffCoefficient'' F (RetryPolicy.BackoffCoefficient v),
           shown_opt ''MaximumIntervalInSeconds'' show_i32 (RetryPolicy.MaximumIntervalInSeconds v),
           shown_opt ''MaximumAttempts'' show_i32 (RetryPolicy.MaximumAttempts v),
           shown_opt ''NonRetriableErrorReasons'' (show_list id)
               (RetryPolicy.NonRetriableErrorReasons v),
           shown_opt ''ExpirationIntervalInSeconds'' show_i32
               (RetryPolicy.ExpirationIntervalInSeconds v)])"

definition Header_String :: "Header option \<Rightarrow> string" where
  "Header_String v =
     (case v of None \<Rightarrow> ''<nil>''
      | Some v \<Rightarrow> show_struct ''Header''
          [shown_opt ''Fields'' (show_map (\<lambda>b. show_bytes (the_slice b))) (Header.Fields v)])"

definition ActivityTaskScheduledEventAttributes_String :: "(float64 \<Rightarrow> string) \<Rightarrow>
    ActivityTaskScheduledEventAttributes option \<Rightarrow> string" where
  "ActivityTaskScheduledEventAttributes_String F v =
     (case v of None \<Rightarrow> ''<nil>''
      | Some v \<Rightarrow> show_struct ''ActivityTaskScheduledEventAttributes''
          [shown_opt ''ActivityId'' id (ActivityTaskScheduledEventAttributes.ActivityId v),
           shown_opt ''ActivityType'' (\<lambda>x. ActivityType_String (Some x))
               (ActivityTaskScheduledEventAttributes.ActivityType v),
           shown_opt ''Domain'' id (ActivityTaskScheduledEventAttributes.Domain v),
           shown_opt ''TaskList'' (\<lambda>x. TaskList_String (Some x))
               (ActivityTaskScheduledEventAttributes.TaskList v),
           shown_opt ''Input'' show_bytes (ActivityTaskScheduledEventAttributes.Input v),
           shown_opt ''ScheduleToCloseTimeoutSeconds'' show_i32
               (ActivityTaskScheduledEventAttributes.ScheduleToCloseTimeoutSeconds v),
           shown_opt ''ScheduleToStartTimeoutSeconds'' show_i32
               (ActivityTaskScheduledEventAttributes.ScheduleToStartTimeoutSeconds v),
           shown_opt ''StartToCloseTimeoutSeconds'' show_i32
               (ActivityTaskScheduledEventAttributes.StartToCloseTimeoutSeconds v),
           shown_opt ''HeartbeatTimeoutSeconds'' show_i32
               (ActivityTaskScheduledEventAttributes.HeartbeatTimeoutSeconds v),
           shown_opt ''DecisionTaskCompletedEventId'' show_i64
               (ActivityTaskScheduledEventAttributes.DecisionTaskCompletedEventId v),
           shown_opt ''RetryPolicy'' (\<lambda>x. RetryPolicy_String F (Some x))
               (ActivityTaskScheduledEventAttributes.RetryPolicy v),
           shown_opt ''Header'' (\<lambda>x. Header_String (Some x))
               (ActivityTaskScheduledEventAttributes.Header v)])"

definition ActivityTaskStartedEventAttributes_String :: "ActivityTaskStartedEventAttributes option \<Rightarrow>
    string" where
  "ActivityTaskStartedEventAttributes_String v =
     (case v of None \<Rightarrow> ''<nil>''
      | Some v \<Rightarrow> show_struct ''ActivityTaskStartedEventAttributes''
          [shown_opt ''ScheduledEventId'' show_i64
              (ActivityTaskStartedEventAttributes.ScheduledEventId v),
           shown_opt ''Identity'' id (ActivityTaskStartedEventAttributes.Identity v),
           shown_opt ''RequestId'' id (ActivityTaskStartedEventAttributes.RequestId v),
           shown_opt ''Attempt'' show_i32 (ActivityTaskStartedEventAttributes.Attempt v)])"

definition ActivityTaskTimedOutEventAttributes_String :: "ActivityTaskTimedOutEventAttributes option
    \<Rightarrow> string" where
  "ActivityTaskTimedOutEventAttributes_String v =
     (case v of None \<Rightarrow> ''<nil>''
      | Some v \<Rightarrow> show_struct ''ActivityTaskTimedOutEventAttributes''
          [shown_opt ''Details'' show_bytes (ActivityTaskTimedOutEventAttributes.Details v),
           shown_opt ''ScheduledEventId'' show_i64
               (ActivityTaskTimedOutEventAttributes.ScheduledEventId v),
           shown_opt ''StartedEventId'' show_i64 (ActivityTaskTimedOutEventAttributes.StartedEventId
               v),
           shown_opt ''TimeoutType'' TimeoutType_String
               (ActivityTaskTimedOutEventAttributes.TimeoutType v)])"

definition CancelTimerDecisionAttributes_String :: "CancelTimerDecisionAttributes option \<Rightarrow> string"
    where
  "CancelTimerDecisionAttributes_String v =
     (case v of None \<Rightarrow> ''<nil>''
      | Some v \<Rightarrow> show_struct ''CancelTimerDecisionAttributes''
          [shown_opt ''TimerId'' id (CancelTimerDecisionAttributes.TimerId v)])"

definition CancelTimerFailedEventAttributes_String :: "CancelTimerFailedEventAttributes option \<Rightarrow>
    string" where
  "CancelTimerFailedEventAttributes_String v =
     (case v of None \<Rightarrow> ''<nil>''
      | Some v \<Rightarrow> show_struct ''CancelTimerFailedEventAttributes''
          [shown_opt ''TimerId'' id (CancelTimerFailedEventAttributes.TimerId v),
           shown_opt ''Cause'' id (CancelTimerFailedEventAttributes.Cause v),
           shown_opt ''DecisionTaskCompletedEventId'' show_i64
               (CancelTimerFailedEventAttributes.DecisionTaskCompletedEventId v),
           shown_opt ''Identity'' id (CancelTimerFailedEventAttributes.Identity v)])"

definition CancelWorkflowExecutionDecisionAttributes_String ::
    "CancelWorkflowExecutionDecisionAttributes option \<Rightarrow> string" where
  "CancelWorkflowExecutionDecisionAttributes_String v =
     (case v of None \<Rightarrow> ''<nil>''
      | Some v \<Rightarrow> show_struct ''CancelWorkflowExecutionDecisionAttributes''
          [shown_opt ''Details'' show_bytes (CancelWorkflowExecutionDecisionAttributes.Details v)])"

definition WorkflowExecution_String :: "WorkflowExecution option \<Rightarrow> string" where
  "WorkflowExecution_String v =
     (case v of None \<Rightarrow> ''<nil>''
      | Some v \<Rightarrow> show_struct ''WorkflowExecution''
          [shown_opt ''WorkflowId'' id (WorkflowExecution.WorkflowId v),
           shown_opt ''RunId'' id (WorkflowExecution.RunId v)])"

definition WorkflowType_String :: "WorkflowType option \<Rightarrow> string" where
  "WorkflowType_String v =
     (case v of None \<Rightarrow> ''<nil>''
      | Some v \<Rightarrow> show_struct ''WorkflowType''
          [shown_opt ''Name'' id (WorkflowType.Name v)])"

definition ChildWorkflowExecutionCanceledEventAttributes_String ::
    "ChildWorkflowExecutionCanceledEventAttributes option \<Rightarrow> string" where
  "ChildWorkflowExecutionCanceledEventAttributes_String v =
     (case v of None \<Rightarrow> ''<nil>''
      | Some v \<Rightarrow> show_struct ''ChildWorkflowExecutionCanceledEventAttributes''
          [shown_opt ''Details'' show_bytes (ChildWorkflowExecutionCanceledEventAttributes.Details
              v),
           shown_opt ''Domain'' id (ChildWorkflowExecutionCanceledEventAttributes.Domain v),
           shown_opt ''WorkflowExecution'' (\<lambda>x. WorkflowExecution_String (Some x))
               (ChildWorkflowExecutionCanceledEventAttributes.WorkflowExecution v),
           shown_opt ''WorkflowType'' (\<lambda>x. WorkflowType_String (Some x))
               (ChildWorkflowExecutionCanceledEventAttributes.WorkflowType v),
           shown_opt ''InitiatedEventId'' show_i64
               (ChildWorkflowExecutionCanceledEventAttributes.InitiatedEventId v),
           shown_opt ''StartedEventId'' show_i64
               (ChildWorkflowExecutionCanceledEventAttributes.StartedEventId v)])"

definition ChildWorkflowExecutionCompletedEventAttributes_String ::
    "ChildWorkflowExecutionCompletedEventAttributes option \<Rightarrow> string" where
  "ChildWorkflowExecutionCompletedEventAttributes_String v =
     (case v of None \<Rightarrow> ''<nil>''
      | Some v \<Rightarrow> show_struct ''ChildWorkflowExecutionCompletedEventAttributes''
          [shown_opt ''Result'' show_bytes (ChildWorkflowExecutionCompletedEventAttributes.Result
              v),
           shown_opt ''Domain'' id (ChildWorkflowExecutionCompletedEventAttributes.Domain v),
           shown_opt ''WorkflowExecution'' (\<lambda>x. WorkflowExecution_String (Some x))
               (ChildWorkflowExecutionCompletedEventAttributes.WorkflowExecution v),
           shown_opt ''WorkflowType'' (\<lambda>x. WorkflowType_String (Some x))
               (ChildWorkflowExecutionCompletedEventAttributes.WorkflowType v),
           shown_opt ''InitiatedEventId'' show_i64
               (ChildWorkflowExecutionCompletedEventAttributes.InitiatedEventId v),
           shown_opt ''StartedEventId'' show_i64
               (ChildWorkflowExecutionCompletedEventAttributes.StartedEventId v)])"

definition ChildWorkflowExecutionFailedEventAttributes_String ::
    "ChildWorkflowExecutionFailedEventAttributes option \<Rightarrow> string" where
  "ChildWorkflowExecutionFailedEventAttributes_String v =
     (case v of None \<Rightarrow> ''<nil>''
      | Some v \<Rightarrow> show_struct ''ChildWorkflowExecutionFailedEventAttributes''
          [shown_opt ''Reason'' id (ChildWorkflowExecutionFailedEventAttributes.Reason v),
           shown_opt ''Details'' show_bytes (ChildWorkflowExecutionFailedEventAttributes.Details v),
           shown_opt ''Domain'' id (ChildWorkflowExecutionFailedEventAttributes.Domain v),
           shown_opt ''WorkflowExecution'' (\<lambda>x. WorkflowExecution_String (Some x))
               (ChildWorkflowExecutionFailedEventAttributes.WorkflowExecution v),
           shown_opt ''WorkflowType'' (\<lambda>x. WorkflowType_String (Some x))
               (ChildWorkflowExecutionFailedEventAttributes.WorkflowType v),
           shown_opt ''InitiatedEventId'' show_i64
               (ChildWorkflowExecutionFailedEventAttributes.InitiatedEventId v),
           shown_opt ''StartedEventId'' show_i64
               (ChildWorkflowExecutionFailedEventAttributes.StartedEventId v)])"

definition ChildWorkflowExecutionStartedEventAttributes_String ::
    "ChildWorkflowExecutionStartedEventAttributes option \<Rightarrow> string" where
  "ChildWorkflowExecutionStartedEventAttributes_String v =
     (case v of None \<Rightarrow> ''<nil>''
      | Some v \<Rightarrow> show_struct ''ChildWorkflowExecutionStartedEventAttributes''
          [shown_opt ''Domain'' id (ChildWorkflowExecutionStartedEventAttributes.Domain v),
           shown_opt ''InitiatedEventId'' show_i64
               (ChildWorkflowExecutionStartedEventAttributes.InitiatedEventId v),
           shown_opt ''WorkflowExecution'' (\<lambda>x. WorkflowExecution_String (Some x))
               (ChildWorkflowExecutionStartedEventAttributes.WorkflowExecution v),
           shown_opt ''WorkflowType'' (\<lambda>x. WorkflowType_String (Some x))
               (ChildWorkflowExecutionStartedEventAttributes.WorkflowType v),
           shown_opt ''Header'' (\<lambda>x. Header_String (Some x))
               (ChildWorkflowExecutionStartedEventAttributes.Header v)])"

definition ChildWorkflowExecutionTerminatedEventAttributes_String ::
    "ChildWorkflowExecutionTerminatedEventAttributes option \<Rightarrow> string" where
  "ChildWorkflowExecutionTerminatedEventAttributes_String v =
     (case v of None \<Rightarrow> ''<nil>''
      | Some v \<Rightarrow> show_struct ''ChildWorkflowExecutionTerminatedEventAttributes''
          [shown_opt ''Domain'' id (ChildWorkflowExecutionTerminatedEventAttributes.Domain v),
           shown_opt ''WorkflowExecution'' (\<lambda>x. WorkflowExecution_String (Some x))
               (ChildWorkflowExecutionTerminatedEventAttributes.WorkflowExecution v),
           shown_opt ''WorkflowType'' (\<lambda>x. WorkflowType_String (Some x))
               (ChildWorkflowExecutionTerminatedEventAttributes.WorkflowType v),
           shown_opt ''InitiatedEventId'' show_i64
               (ChildWorkflowExecutionTerminatedEventAttributes.InitiatedEventId v),
           shown_opt ''StartedEventId'' show_i64
               (ChildWorkflowExecutionTerminatedEventAttributes.StartedEventId v)])"

definition ChildWorkflowExecutionTimedOutEventAttributes_String ::
    "ChildWorkflowExecutionTimedOutEventAttributes option \<Rightarrow> string" where
  "ChildWorkflowExecutionTimedOutEventAttributes_String v =
     (case v of None \<Rightarrow> ''<nil>''
      | Some v \<Rightarrow> show_struct ''ChildWorkflowExecutionTimedOutEventAttributes''
          [shown_opt ''TimeoutType'' TimeoutType_String
              (ChildWorkflowExecutionTimedOutEventAttributes.TimeoutType v),
           shown_opt ''Domain'' id (ChildWorkflowExecutionTimedOutEventAttributes.Domain v),
           shown_opt ''WorkflowExecution'' (\<lambda>x. WorkflowExecution_String (Some x))
               (ChildWorkflowExecutionTimedOutEventAttributes.WorkflowExecution v),
           shown_opt ''WorkflowType'' (\<lambda>x. WorkflowType_String (Some x))
               (ChildWorkflowExecutionTimedOutEventAttributes.WorkflowType v),
           shown_opt ''InitiatedEventId'' show_i64
               (ChildWorkflowExecutionTimedOutEventAttributes.InitiatedEventId v),
           shown_opt ''StartedEventId'' show_i64
               (ChildWorkflowExecutionTimedOutEventAttributes.StartedEventId v)])"

definition CompleteWorkflowExecutionDecisionAttributes_String ::
    "CompleteWorkflowExecutionDecisionAttributes option \<Rightarrow> string" where
  "CompleteWorkflowExecutionDecisionAttributes_String v =
     (case v of None \<Rightarrow> ''<nil>''
      | Some v \<Rightarrow> show_struct ''CompleteWorkflowExecutionDecisionAttributes''
          [shown_opt ''Result'' show_bytes (CompleteWorkflowExecutionDecisionAttributes.Result v)])"

definition Memo_String :: "Memo option \<Rightarrow> string" where
  "Memo_String v =
     (case v of None \<Rightarrow> ''<nil>''
      | Some v \<Rightarrow> show_struct ''Memo''
          [shown_opt ''Fields'' (show_map (\<lambda>b. show_bytes (the_slice b))) (Memo.Fields v)])"

definition SearchAttributes_String :: "SearchAttributes option \<Rightarrow> string" where
  "SearchAttributes_String v =
     (case v of None \<Rightarrow> ''<nil>''
      | Some v \<Rightarrow> show_struct ''SearchAttributes''
          [shown_opt ''IndexedFields'' (show_map (\<lambda>b. show_bytes (the_slice b)))
              (SearchAttributes.IndexedFields v)])"

definition ContinueAsNewWorkflowExecutionDecisionAttributes_String :: "(float64 \<Rightarrow> string) \<Rightarrow>
    ContinueAsNewWorkflowExecutionDecisionAttributes option \<Rightarrow> string" where
  "ContinueAsNewWorkflowExecutionDecisionAttributes_String F v =
     (case v of None \<Rightarrow> ''<nil>''
      | Some v \<Rightarrow> show_struct ''ContinueAsNewWorkflowExecutionDecisionAttributes''
          [shown_opt ''WorkflowType'' (\<lambda>x. WorkflowType_String (Some x))
              (ContinueAsNewWorkflowExecutionDecisionAttributes.WorkflowType v),
           shown_opt ''TaskList'' (\<lambda>x. TaskList_String (Some x))
               (ContinueAsNewWorkflowExecutionDecisionAttributes.TaskList v),
           shown_opt ''Input'' show_bytes (ContinueAsNewWorkflowExecutionDecisionAttributes.Input
               v),
           shown_opt ''ExecutionStartToCloseTimeoutSeconds'' show_i32
               (ContinueAsNewWorkflowExecutionDecisionAttributes.ExecutionStartToCloseTimeoutSeconds
               v),
           shown_opt ''TaskStartToCloseTimeoutSeconds'' show_i32
               (ContinueAsNewWorkflowExecutionDecisionAttributes.TaskStartToCloseTimeoutSeconds v),
           shown_opt ''BackoffStartIntervalInSeconds'' show_i32
               (ContinueAsNewWorkflowExecutionDecisionAttributes.BackoffStartIntervalInSeconds v),
           shown_opt ''RetryPolicy'' (\<lambda>x. RetryPolicy_String F (Some x))
               (ContinueAsNewWorkflowExecutionDecisionAttributes.RetryPolicy v),
           shown_opt ''Initiator'' ContinueAsNewInitiator_String
               (ContinueAsNewWorkflowExecutionDecisionAttributes.Initiator v),
           shown_opt ''FailureReason'' id
               (ContinueAsNewWorkflowExecutionDecisionAttributes.FailureReason v),
           shown_opt ''FailureDetails'' show_bytes
               (ContinueAsNewWorkflowExecutionDecisionAttributes.FailureDetails v),
           shown_opt ''LastCompletionResult'' show_bytes
               (ContinueAsNewWorkflowExecutionDecisionAttributes.LastCompletionResult v),
           shown_opt ''CronSchedule'' id
               (ContinueAsNewWorkflowExecutionDecisionAttributes.CronSchedule v),
           shown_opt ''Header'' (\<lambda>x. Header_String (Some x))
               (ContinueAsNewWorkflowExecutionDecisionAttributes.Header v),
           shown_opt ''Memo'' (\<lambda>x. Memo_String (Some x))
               (ContinueAsNewWorkflowExecutionDecisionAttributes.Memo v),
           shown_opt ''SearchAttributes'' (\<lambda>x. SearchAttributes_String (Some x))
               (ContinueAsNewWorkflowExecutionDecisionAttributes.SearchAttributes v)])"

definition ScheduleActivityTaskDecisionAttributes_String :: "(float64 \<Rightarrow> string) \<Rightarrow>
    ScheduleActivityTaskDecisionAttributes option \<Rightarrow> string" where
  "ScheduleActivityTaskDecisionAttributes_String F v =
     (case v of None \<Rightarrow> ''<nil>''
      | Some v \<Rightarrow> show_struct ''ScheduleActivityTaskDecisionAttributes''
          [shown_opt ''ActivityId'' id (ScheduleActivityTaskDecisionAttributes.ActivityId v),
           shown_opt ''ActivityType'' (\<lambda>x. ActivityType_String (Some x))
               (ScheduleActivityTaskDecisionAttributes.ActivityType v),
           shown_opt ''Domain'' id (ScheduleActivityTaskDecisionAttributes.Domain v),
           shown_opt ''TaskList'' (\<lambda>x. TaskList_String (Some x))
               (ScheduleActivityTaskDecisionAttributes.TaskList v),
           shown_opt ''Input'' show_bytes (ScheduleActivityTaskDecisionAttributes.Input v),
           shown_opt ''ScheduleToCloseTimeoutSeconds'' show_i32
               (ScheduleActivityTaskDecisionAttributes.ScheduleToCloseTimeoutSeconds v),
           shown_opt ''ScheduleToStartTimeoutSeconds'' show_i32
               (ScheduleActivityTaskDecisionAttributes.ScheduleToStartTimeoutSeconds v),
           shown_opt ''StartToCloseTimeoutSeconds'' show_i32
               (ScheduleActivityTaskDecisionAttributes.StartToCloseTimeoutSeconds v),
           shown_opt ''HeartbeatTimeoutSeconds'' show_i32
               (ScheduleActivityTaskDecisionAttributes.HeartbeatTimeoutSeconds v),
           shown_opt ''RetryPolicy'' (\<lambda>x. RetryPolicy_String F (Some x))
               (ScheduleActivityTaskDecisionAttributes.RetryPolicy v),
           shown_opt ''Header'' (\<lambda>x. Header_String (Some x))
               (ScheduleActivityTaskDecisionAttributes.Header v)])"

definition StartTimerDecisionAttributes_String :: "StartTimerDecisionAttributes option \<Rightarrow> string"
    where
  "StartTimerDecisionAttributes_String v =
     (case v of None \<Rightarrow> ''<nil>''
      | Some v \<Rightarrow> show_struct ''StartTimerDecisionAttributes''
          [shown_opt ''TimerId'' id (StartTimerDecisionAttributes.TimerId v),
           shown_opt ''StartToFireTimeoutSeconds'' show_i64
               (StartTimerDecisionAttributes.StartToFireTimeoutSeconds v)])"

definition FailWorkflowExecutionDecisionAttributes_String ::
    "FailWorkflowExecutionDecisionAttributes option \<Rightarrow> string" where
  "FailWorkflowExecutionDecisionAttributes_String v =
     (case v of None \<Rightarrow> ''<nil>''
      | Some v \<Rightarrow> show_struct ''FailWorkflowExecutionDecisionAttributes''
          [shown_opt ''Reason'' id (FailWorkflowExecutionDecisionAttributes.Reason v),
           shown_opt ''Details'' show_bytes (FailWorkflowExecutionDecisionAttributes.Details v)])"

definition RequestCancelActivityTaskDecisionAttributes_String ::
    "RequestCancelActivityTaskDecisionAttributes option \<Rightarrow> string" where
  "RequestCancelActivityTaskDecisionAttributes_String v =
     (case v of None \<Rightarrow> ''<nil>''
      | Some v \<Rightarrow> show_struct ''RequestCancelActivityTaskDecisionAttributes''
          [shown_opt ''ActivityId'' id (RequestCancelActivityTaskDecisionAttributes.ActivityId v)])"

definition RequestCancelExternalWorkflowExecutionDecisionAttributes_String ::
    "RequestCancelExternalWorkflowExecutionDecisionAttributes option \<Rightarrow> string" where
  "RequestCancelExternalWorkflowExecutionDecisionAttributes_String v =
     (case v of None \<Rightarrow> ''<nil>''
      | Some v \<Rightarrow> show_struct ''RequestCancelExternalWorkflowExecutionDecisionAttributes''
          [shown_opt ''Domain'' id (RequestCancelExternalWorkflowExecutionDecisionAttributes.Domain
              v),
           shown_opt ''WorkflowId'' id
               (RequestCancelExternalWorkflowExecutionDecisionAttributes.WorkflowId v),
           shown_opt ''RunId'' id (RequestCancelExternalWorkflowExecutionDecisionAttributes.RunId
               v),
           shown_opt ''Control'' show_bytes
               (RequestCancelExternalWorkflowExecutionDecisionAttributes.Control v),
           shown_opt ''ChildWorkflowOnly'' show_bool
               (RequestCancelExternalWorkflowExecutionDecisionAttributes.ChildWorkflowOnly v)])"

definition RecordMarkerDecisionAttributes_String :: "RecordMarkerDecisionAttributes option \<Rightarrow> string"
    where
  "RecordMarkerDecisionAttributes_String v =
     (case v of None \<Rightarrow> ''<nil>''
      | Some v \<Rightarrow> show_struct ''RecordMarkerDecisionAttributes''
          [shown_opt ''MarkerName'' id (RecordMarkerDecisionAttributes.MarkerName v),
           shown_opt ''Details'' show_bytes (RecordMarkerDecisionAttributes.Details v),
           shown_opt ''Header'' (\<lambda>x. Header_String (Some x)) (RecordMarkerDecisionAttributes.Header
               v)])"

definition StartChildWorkflowExecutionDecisionAttributes_String :: "(float64 \<Rightarrow> string) \<Rightarrow>
    StartChildWorkflowExecutionDecisionAttributes option \<Rightarrow> string" where
  "StartChildWorkflowExecutionDecisionAttributes_String F v =
     (case v of None \<Rightarrow> ''<nil>''
      | Some v \<Rightarrow> show_struct ''StartChildWorkflowExecutionDecisionAttributes''
          [shown_opt ''Domain'' id (StartChildWorkflowExecutionDecisionAttributes.Domain v),
           shown_opt ''WorkflowId'' id (StartChildWorkflowExecutionDecisionAttributes.WorkflowId v),
           shown_opt ''WorkflowType'' (\<lambda>x. WorkflowType_String (Some x))
               (StartChildWorkflowExecutionDecisionAttributes.WorkflowType v),
           shown_opt ''TaskList'' (\<lambda>x. TaskList_String (Some x))
               (StartChildWorkflowExecutionDecisionAttributes.TaskList v),
           shown_opt ''Input'' show_bytes (StartChildWorkflowExecutionDecisionAttributes.Input v),
           shown_opt ''ExecutionStartToCloseTimeoutSeconds'' show_i32
               (StartChildWorkflowExecutionDecisionAttributes.ExecutionStartToCloseTimeoutSeconds
               v),
           shown_opt ''TaskStartToCloseTimeoutSeconds'' show_i32
               (StartChildWorkflowExecutionDecisionAttributes.TaskStartToCloseTimeoutSeconds v),
           shown_opt ''ParentClosePolicy'' ParentClosePolicy_String
               (StartChildWorkflowExecutionDecisionAttributes.ParentClosePolicy v),
           shown_opt ''Control'' show_bytes (StartChildWorkflowExecutionDecisionAttributes.Control
               v),
           shown_opt ''WorkflowIdReusePolicy'' WorkflowIdReusePolicy_String
               (StartChildWorkflowExecutionDecisionAttributes.WorkflowIdReusePolicy v),
           shown_opt ''RetryPolicy'' (\<lambda>x. RetryPolicy_String F (Some x))
               (StartChildWorkflowExecutionDecisionAttributes.RetryPolicy v),
           shown_opt ''CronSchedule'' id (StartChildWorkflowExecutionDecisionAttributes.CronSchedule
               v),
           shown_opt ''Header'' (\<lambda>x. Header_String (Some x))
               (StartChildWorkflowExecutionDecisionAttributes.Header v),
           shown_opt ''Memo'' (\<lambda>x. Memo_String (Some x))
               (StartChildWorkflowExecutionDecisionAttributes.Memo v),
           shown_opt ''SearchAttributes'' (\<lambda>x. SearchAttributes_String (Some x))
               (StartChildWorkflowExecutionDecisionAttributes.SearchAttributes v)])"

definition SignalExternalWorkflowExecutionDecisionAttributes_String ::
    "SignalExternalWorkflowExecutionDecisionAttributes option \<Rightarrow> string" where
  "SignalExternalWorkflowExecutionDecisionAttributes_String v =
     (case v of None \<Rightarrow> ''<nil>''
      | Some v \<Rightarrow> show_struct ''SignalExternalWorkflowExecutionDecisionAttributes''
          [shown_opt ''Domain'' id (SignalExternalWorkflowExecutionDecisionAttributes.Domain v),
           shown_opt ''Execution'' (\<lambda>x. WorkflowExecution_String (Some x))
               (SignalExternalWorkflowExecutionDecisionAttributes.Execution v),
           shown_opt ''SignalName'' id (SignalExternalWorkflowExecutionDecisionAttributes.SignalName
               v),
           shown_opt ''Input'' show_bytes (SignalExternalWorkflowExecutionDecisionAttributes.Input
               v),
           shown_opt ''Control'' show_bytes
               (SignalExternalWorkflowExecutionDecisionAttributes.Control v),
           shown_opt ''ChildWorkflowOnly'' show_bool
               (SignalExternalWorkflowExecutionDecisionAttributes.ChildWorkflowOnly v)])"

definition UpsertWorkflowSearchAttributesDecisionAttributes_String ::
    "UpsertWorkflowSearchAttributesDecisionAttributes option \<Rightarrow> string" where
  "UpsertWorkflowSearchAttributesDecisionAttributes_String v =
     (case v of None \<Rightarrow> ''<nil>''
      | Some v \<Rightarrow> show_struct ''UpsertWorkflowSearchAttributesDecisionAttributes''
          [shown_opt ''SearchAttributes'' (\<lambda>x. SearchAttributes_String (Some x))
              (UpsertWorkflowSearchAttributesDecisionAttributes.SearchAttributes v)])"

definition Decision_String :: "(float64 \<Rightarrow> string) \<Rightarrow> Decision option \<Rightarrow> string" where
  "Decision_String F v =
     (case v of None \<Rightarrow> ''<nil>''
      | Some v \<Rightarrow> show_struct ''Decision''
          [shown_opt ''DecisionType'' DecisionType_String (Decision.DecisionType v),
           shown_opt ''ScheduleActivityTaskDecisionAttributes'' (\<lambda>x.
               ScheduleActivityTaskDecisionAttributes_String F (Some x))
               (Decision.ScheduleActivityTaskDecisionAttributes v),
           shown_opt ''StartTimerDecisionAttributes'' (\<lambda>x. StartTimerDecisionAttributes_String (Some
               x)) (Decision.StartTimerDecisionAttributes v),
           shown_opt ''CompleteWorkflowExecutionDecisionAttributes'' (\<lambda>x.
               CompleteWorkflowExecutionDecisionAttributes_String (Some x))
               (Decision.CompleteWorkflowExecutionDecisionAttributes v),
           shown_opt ''FailWorkflowExecutionDecisionAttributes'' (\<lambda>x.
               FailWorkflowExecutionDecisionAttributes_String (Some x))
               (Decision.FailWorkflowExecutionDecisionAttributes v),
           shown_opt ''RequestCancelActivityTaskDecisionAttributes'' (\<lambda>x.
               RequestCancelActivityTaskDecisionAttributes_String (Some x))
               (Decision.RequestCancelActivityTaskDecisionAttributes v),
           shown_opt ''CancelTimerDecisionAttributes'' (\<lambda>x. CancelTimerDecisionAttributes_String
               (Some x)) (Decision.CancelTimerDecisionAttributes v),
           shown_opt ''CancelWorkflowExecutionDecisionAttributes'' (\<lambda>x.
               CancelWorkflowExecutionDecisionAttributes_String (Some x))
               (Decision.CancelWorkflowExecutionDecisionAttributes v),
           shown_opt ''RequestCancelExternalWorkflowExecutionDecisionAttributes'' (\<lambda>x.
               RequestCancelExternalWorkflowExecutionDecisionAttributes_String (Some x))
               (Decision.RequestCancelExternalWorkflowExecutionDecisionAttributes v),
           shown_opt ''RecordMarkerDecisionAttributes'' (\<lambda>x. RecordMarkerDecisionAttributes_String
               (Some x)) (Decision.RecordMarkerDecisionAttributes v),
           shown_opt ''ContinueAsNewWorkflowExecutionDecisionAttributes'' (\<lambda>x.
               ContinueAsNewWorkflowExecutionDecisionAttributes_String F (Some x))
               (Decision.ContinueAsNewWorkflowExecutionDecisionAttributes v),
           shown_opt ''StartChildWorkflowExecutionDecisionAttributes'' (\<lambda>x.
               StartChildWorkflowExecutionDecisionAttributes_String F (Some x))
               (Decision.StartChildWorkflowExecutionDecisionAttributes v),
           shown_opt ''SignalExternalWorkflowExecutionDecisionAttributes'' (\<lambda>x.
               SignalExternalWorkflowExecutionDecisionAttributes_String (Some x))
               (Decision.SignalExternalWorkflowExecutionDecisionAttributes v),
           shown_opt ''UpsertWorkflowSearchAttributesDecisionAttributes'' (\<lambda>x.
               UpsertWorkflowSearchAttributesDecisionAttributes_String (Some x))
               (Decision.UpsertWorkflowSearchAttributesDecisionAttributes v)])"

definition DecisionTaskCompletedEventAttributes_String :: "DecisionTaskCompletedEventAttributes
    option \<Rightarrow> string" where
  "DecisionTaskCompletedEventAttributes_String v =
     (case v of None \<Rightarrow> ''<nil>''
      | Some v \<Rightarrow> show_struct ''DecisionTaskCompletedEventAttributes''
          [shown_opt ''ExecutionContext'' show_bytes
              (DecisionTaskCompletedEventAttributes.ExecutionContext v),
           shown_opt ''ScheduledEventId'' show_i64
               (DecisionTaskCompletedEventAttributes.ScheduledEventId v),
           shown_opt ''StartedEventId'' show_i64
               (DecisionTaskCompletedEventAttributes.StartedEventId v),
           shown_opt ''Identity'' id (DecisionTaskCompletedEventAttributes.Identity v),
           shown_opt ''BinaryChecksum'' id (DecisionTaskCompletedEventAttributes.BinaryChecksum
               v)])"

definition DecisionTaskFailedEventAttributes_String :: "DecisionTaskFailedEventAttributes option \<Rightarrow>
    string" where
  "DecisionTaskFailedEventAttributes_String v =
     (case v of None \<Rightarrow> ''<nil>''
      | Some v \<Rightarrow> show_struct ''DecisionTaskFailedEventAttributes''
          [shown_opt ''ScheduledEventId'' show_i64
              (DecisionTaskFailedEventAttributes.ScheduledEventId v),
           shown_opt ''StartedEventId'' show_i64 (DecisionTaskFailedEventAttributes.StartedEventId
               v),
           shown_opt ''Cause'' DecisionTaskFailedCause_String
               (DecisionTaskFailedEventAttributes.Cause v),
           shown_opt ''Details'' show_bytes (DecisionTaskFailedEventAttributes.Details v),
           shown_opt ''Identity'' id (DecisionTaskFailedEventAttributes.Identity v),
           shown_opt ''Reason'' id (DecisionTaskFailedEventAttributes.Reason v),
           shown_opt ''BaseRunId'' id (DecisionTaskFailedEventAttributes.BaseRunId v),
           shown_opt ''NewRunId'' id (DecisionTaskFailedEventAttributes.NewRunId v),
           shown_opt ''ForkEventVersion'' show_i64
               (DecisionTaskFailedEventAttributes.ForkEventVersion v)])"

definition DecisionTaskScheduledEventAttributes_String :: "DecisionTaskScheduledEventAttributes
    option \<Rightarrow> string" where
  "DecisionTaskScheduledEventAttributes_String v =
     (case v of None \<Rightarrow> ''<nil>''
      | Some v \<Rightarrow> show_struct ''DecisionTaskScheduledEventAttributes''
          [shown_opt ''TaskList'' (\<lambda>x. TaskList_String (Some x))
              (DecisionTaskScheduledEventAttributes.TaskList v),
           shown_opt ''StartToCloseTimeoutSeconds'' show_i32
               (DecisionTaskScheduledEventAttributes.StartToCloseTimeoutSeconds v),
           shown_opt ''Attempt'' show_i64 (DecisionTaskScheduledEventAttributes.Attempt v)])"

definition DecisionTaskStartedEventAttributes_String :: "DecisionTaskStartedEventAttributes option \<Rightarrow>
    string" where
  "DecisionTaskStartedEventAttributes_String v =
     (case v of None \<Rightarrow> ''<nil>''
      | Some v \<Rightarrow> show_struct ''DecisionTaskStartedEventAttributes''
          [shown_opt ''ScheduledEventId'' show_i64
              (DecisionTaskStartedEventAttributes.ScheduledEventId v),
           shown_opt ''Identity'' id (DecisionTaskStartedEventAttributes.Identity v),
           shown_opt ''RequestId'' id (DecisionTaskStartedEventAttributes.RequestId v)])"

definition DecisionTaskTimedOutEventAttributes_String :: "DecisionTaskTimedOutEventAttributes option
    \<Rightarrow> string" where
  "DecisionTaskTimedOutEventAttributes_String v =
     (case v of None \<Rightarrow> ''<nil>''
      | Some v \<Rightarrow> show_struct ''DecisionTaskTimedOutEventAttributes''
          [shown_opt ''ScheduledEventId'' show_i64
              (DecisionTaskTimedOutEventAttributes.ScheduledEventId v),
           shown_opt ''StartedEventId'' show_i64 (DecisionTaskTimedOutEventAttributes.StartedEventId
               v),
           shown_opt ''TimeoutType'' TimeoutType_String
               (DecisionTaskTimedOutEventAttributes.TimeoutType v)])"

definition ResetPointInfo_String :: "ResetPointInfo option \<Rightarrow> string" where
  "ResetPointInfo_String v =
     (case v of None \<Rightarrow> ''<nil>''
      | Some v \<Rightarrow> show_struct ''ResetPointInfo''
          [shown_opt ''BinaryChecksum'' id (ResetPointInfo.BinaryChecksum v),
           shown_opt ''RunId'' id (ResetPointInfo.RunId v),
           shown_opt ''FirstDecisionCompletedId'' show_i64 (ResetPointInfo.FirstDecisionCompletedId
               v),
           shown_opt ''CreatedTimeNano'' show_i64 (ResetPointInfo.CreatedTimeNano v),
           shown_opt ''ExpiringTimeNano'' show_i64 (ResetPointInfo.ExpiringTimeNano v),
           shown_opt ''Resettable'' show_bool (ResetPointInfo.Resettable v)])"

definition ResetPoints_String :: "ResetPoints option \<Rightarrow> string" where
  "ResetPoints_String v =
     (case v of None \<Rightarrow> ''<nil>''
      | Some v \<Rightarrow> show_struct ''ResetPoints''
          [shown_opt ''Points'' (show_list ResetPointInfo_String) (ResetPoints.Points v)])"

definition ExternalWorkflowExecutionCancelRequestedEventAttributes_String ::
    "ExternalWorkflowExecutionCancelRequestedEventAttributes option \<Rightarrow> string" where
  "ExternalWorkflowExecutionCancelRequestedEventAttributes_String v =
     (case v of None \<Rightarrow> ''<nil>''
      | Some v \<Rightarrow> show_struct ''ExternalWorkflowExecutionCancelRequestedEventAttributes''
          [shown_opt ''InitiatedEventId'' show_i64
              (ExternalWorkflowExecutionCancelRequestedEventAttributes.InitiatedEventId v),
           shown_opt ''Domain'' id (ExternalWorkflowExecutionCancelRequestedEventAttributes.Domain
               v),
           shown_opt ''WorkflowExecution'' (\<lambda>x. WorkflowExecution_String (Some x))
               (ExternalWorkflowExecutionCancelRequestedEventAttributes.WorkflowExecution v)])"

definition ExternalWorkflowExecutionSignaledEventAttributes_String ::
    "ExternalWorkflowExecutionSignaledEventAttributes option \<Rightarrow> string" where
  "ExternalWorkflowExecutionSignaledEventAttributes_String v =
     (case v of None \<Rightarrow> ''<nil>''
      | Some v \<Rightarrow> show_struct ''ExternalWorkflowExecutionSignaledEventAttributes''
          [shown_opt ''InitiatedEventId'' show_i64
              (ExternalWorkflowExecutionSignaledEventAttributes.InitiatedEventId v),
           shown_opt ''Domain'' id (ExternalWorkflowExecutionSignaledEventAttributes.Domain v),
           shown_opt ''WorkflowExecution'' (\<lambda>x. WorkflowExecution_String (Some x))
               (ExternalWorkflowExecutionSignaledEventAttributes.WorkflowExecution v),
           shown_opt ''Control'' show_bytes
               (ExternalWorkflowExecutionSignaledEventAttributes.Control v)])"

definition WorkflowExecutionStartedEventAttributes_String :: "(float64 \<Rightarrow> string) \<Rightarrow>
    WorkflowExecutionStartedEventAttributes option \<Rightarrow> string" where
  "WorkflowExecutionStartedEventAttributes_String F v =
     (case v of None \<Rightarrow> ''<nil>''
      | Some v \<Rightarrow> show_struct ''WorkflowExecutionStartedEventAttributes''
          [shown_opt ''WorkflowType'' (\<lambda>x. WorkflowType_String (Some x))
              (WorkflowExecutionStartedEventAttributes.WorkflowType v),
           shown_opt ''ParentWorkflowDomain'' id
               (WorkflowExecutionStartedEventAttributes.ParentWorkflowDomain v),
           shown_opt ''ParentWorkflowExecution'' (\<lambda>x. WorkflowExecution_String (Some x))
               (WorkflowExecutionStartedEventAttributes.ParentWorkflowExecution v),
           shown_opt ''ParentInitiatedEventId'' show_i64
               (WorkflowExecutionStartedEventAttributes.ParentInitiatedEventId v),
           shown_opt ''TaskList'' (\<lambda>x. TaskList_String (Some x))
               (WorkflowExecutionStartedEventAttributes.TaskList v),
           shown_opt ''Input'' show_bytes (WorkflowExecutionStartedEventAttributes.Input v),
           shown_opt ''ExecutionStartToCloseTimeoutSeconds'' show_i32
               (WorkflowExecutionStartedEventAttributes.ExecutionStartToCloseTimeoutSeconds v),
           shown_opt ''TaskStartToCloseTimeoutSeconds'' show_i32
               (WorkflowExecutionStartedEventAttributes.TaskStartToCloseTimeoutSeconds v),
           shown_opt ''ContinuedExecutionRunId'' id
               (WorkflowExecutionStartedEventAttributes.ContinuedExecutionRunId v),
           shown_opt ''Initiator'' ContinueAsNewInitiator_String
               (WorkflowExecutionStartedEventAttributes.Initiator v),
           shown_opt ''ContinuedFailureReason'' id
               (WorkflowExecutionStartedEventAttributes.ContinuedFailureReason v),
           shown_opt ''ContinuedFailureDetails'' show_bytes
               (WorkflowExecutionStartedEventAttributes.ContinuedFailureDetails v),
           shown_opt ''LastCompletionResult'' show_bytes
               (WorkflowExecutionStartedEventAttributes.LastCompletionResult v),
           shown_opt ''OriginalExecutionRunId'' id
               (WorkflowExecutionStartedEventAttributes.OriginalExecutionRunId v),
           shown_opt ''Identity'' id (WorkflowExecutionStartedEventAttributes.Identity v),
           shown_opt ''FirstExecutionRunId'' id
               (WorkflowExecutionStartedEventAttributes.FirstExecutionRunId v),
           shown_opt ''RetryPolicy'' (\<lambda>x. RetryPolicy_String F (Some x))
               (WorkflowExecutionStartedEventAttributes.RetryPolicy v),
           shown_opt ''Attempt'' show_i32 (WorkflowExecutionStartedEventAttributes.Attempt v),
           shown_opt ''ExpirationTimestamp'' show_i64
               (WorkflowExecutionStartedEventAttributes.ExpirationTimestamp v),
           shown_opt ''CronSchedule'' id (WorkflowExecutionStartedEventAttributes.CronSchedule v),
           shown_opt ''FirstDecisionTaskBackoffSeconds'' show_i32
               (WorkflowExecutionStartedEventAttributes.FirstDecisionTaskBackoffSeconds v),
           shown_opt ''Memo'' (\<lambda>x. Memo_String (Some x))
               (WorkflowExecutionStartedEventAttributes.Memo v),
           shown_opt ''SearchAttributes'' (\<lambda>x. SearchAttributes_String (Some x))
               (WorkflowExecutionStartedEventAttributes.SearchAttributes v),
           shown_opt ''PrevAutoResetPoints'' (\<lambda>x. ResetPoints_String (Some x))
               (WorkflowExecutionStartedEventAttributes.PrevAutoResetPoints v),
           shown_opt ''Header'' (\<lambda>x. Header_String (Some x))
               (WorkflowExecutionStartedEventAttributes.Header v)])"

definition WorkflowExecutionCompletedEventAttributes_String ::
    "WorkflowExecutionCompletedEventAttributes option \<Rightarrow> string" where
  "WorkflowExecutionCompletedEventAttributes_String v =
     (case v of None \<Rightarrow> ''<nil>''
      | Some v \<Rightarrow> show_struct ''WorkflowExecutionCompletedEventAttributes''
          [shown_opt ''Result'' show_bytes (WorkflowExecutionCompletedEventAttributes.Result v),
           shown_opt ''DecisionTaskCompletedEventId'' show_i64
               (WorkflowExecutionCompletedEventAttributes.DecisionTaskCompletedEventId v)])"

definition WorkflowExecutionFailedEventAttributes_String :: "WorkflowExecutionFailedEventAttributes
    option \<Rightarrow> string" where
  "WorkflowExecutionFailedEventAttributes_String v =
     (case v of None \<Rightarrow> ''<nil>''
      | Some v \<Rightarrow> show_struct ''WorkflowExecutionFailedEventAttributes''
          [shown_opt ''Reason'' id (WorkflowExecutionFailedEventAttributes.Reason v),
           shown_opt ''Details'' show_bytes (WorkflowExecutionFailedEventAttributes.Details v),
           shown_opt ''DecisionTaskCompletedEventId'' show_i64
               (WorkflowExecutionFailedEventAttributes.DecisionTaskCompletedEventId v)])"

definition WorkflowExecutionTimedOutEventAttributes_String ::
    "WorkflowExecutionTimedOutEventAttributes option \<Rightarrow> string" where
  "WorkflowExecutionTimedOutEventAttributes_String v =
     (case v of None \<Rightarrow> ''<nil>''
      | Some v \<Rightarrow> show_struct ''WorkflowExecutionTimedOutEventAttributes''
          [shown_opt ''TimeoutType'' TimeoutType_String
              (WorkflowExecutionTimedOutEventAttributes.TimeoutType v)])"

definition TimerStartedEventAttributes_String :: "TimerStartedEventAttributes option \<Rightarrow> string" where
  "TimerStartedEventAttributes_String v =
     (case v of None \<Rightarrow> ''<nil>''
      | Some v \<Rightarrow> show_struct ''TimerStartedEventAttributes''
          [shown_opt ''TimerId'' id (TimerStartedEventAttributes.TimerId v),
           shown_opt ''StartToFireTimeoutSeconds'' show_i64
               (TimerStartedEventAttributes.StartToFireTimeoutSeconds v),
           shown_opt ''DecisionTaskCompletedEventId'' show_i64
               (TimerStartedEventAttributes.DecisionTaskCompletedEventId v)])"

definition TimerFiredEventAttributes_String :: "TimerFiredEventAttributes option \<Rightarrow> string" where
  "TimerFiredEventAttributes_String v =
     (case v of None \<Rightarrow> ''<nil>''
      | Some v \<Rightarrow> show_struct ''TimerFiredEventAttributes''
          [shown_opt ''TimerId'' id (TimerFiredEventAttributes.TimerId v),
           shown_opt ''StartedEventId'' show_i64 (TimerFiredEventAttributes.StartedEventId v)])"

definition RequestCancelActivityTaskFailedEventAttributes_String ::
    "RequestCancelActivityTaskFailedEventAttributes option \<Rightarrow> string" where
  "RequestCancelActivityTaskFailedEventAttributes_String v =
     (case v of None \<Rightarrow> ''<nil>''
      | Some v \<Rightarrow> show_struct ''RequestCancelActivityTaskFailedEventAttributes''
          [shown_opt ''ActivityId'' id (RequestCancelActivityTaskFailedEventAttributes.ActivityId
              v),
           shown_opt ''Cause'' id (RequestCancelActivityTaskFailedEventAttributes.Cause v),
           shown_opt ''DecisionTaskCompletedEventId'' show_i64
               (RequestCancelActivityTaskFailedEventAttributes.DecisionTaskCompletedEventId v)])"

definition TimerCanceledEventAttributes_String :: "TimerCanceledEventAttributes option \<Rightarrow> string"
    where
  "TimerCanceledEventAttributes_String v =
     (case v of None \<Rightarrow> ''<nil>''
      | Some v \<Rightarrow> show_struct ''TimerCanceledEventAttributes''
          [shown_opt ''TimerId'' id (TimerCanceledEventAttributes.TimerId v),
           shown_opt ''StartedEventId'' show_i64 (TimerCanceledEventAttributes.StartedEventId v),
           shown_opt ''DecisionTaskCompletedEventId'' show_i64
               (TimerCanceledEventAttributes.DecisionTaskCompletedEventId v),
           shown_opt ''Identity'' id (TimerCanceledEventAttributes.Identity v)])"

definition MarkerRecordedEventAttributes_String :: "MarkerRecordedEventAttributes option \<Rightarrow> string"
    where
  "MarkerRecordedEventAttributes_String v =
     (case v of None \<Rightarrow> ''<nil>''
      | Some v \<Rightarrow> show_struct ''MarkerRecordedEventAttributes''
          [shown_opt ''MarkerName'' id (MarkerRecordedEventAttributes.MarkerName v),
           shown_opt ''Details'' show_bytes (MarkerRecordedEventAttributes.Details v),
           shown_opt ''DecisionTaskCompletedEventId'' show_i64
               (MarkerRecordedEventAttributes.DecisionTaskCompletedEventId v),
           shown_opt ''Header'' (\<lambda>x. Header_String (Some x)) (MarkerRecordedEventAttributes.Header
               v)])"

definition WorkflowExecutionSignaledEventAttributes_String ::
    "WorkflowExecutionSignaledEventAttributes option \<Rightarrow> string" where
  "WorkflowExecutionSignaledEventAttributes_String v =
     (case v of None \<Rightarrow> ''<nil>''
      | Some v \<Rightarrow> show_struct ''WorkflowExecutionSignaledEventAttributes''
          [shown_opt ''SignalName'' id (WorkflowExecutionSignaledEventAttributes.SignalName v),
           shown_opt ''Input'' show_bytes (WorkflowExecutionSignaledEventAttributes.Input v),
           shown_opt ''Identity'' id (WorkflowExecutionSignaledEventAttributes.Identity v)])"

definition WorkflowExecutionTerminatedEventAttributes_String ::
    "WorkflowExecutionTerminatedEventAttributes option \<Rightarrow> string" where
  "WorkflowExecutionTerminatedEventAttributes_String v =
     (case v of None \<Rightarrow> ''<nil>''
      | Some v \<Rightarrow> show_struct ''WorkflowExecutionTerminatedEventAttributes''
          [shown_opt ''Reason'' id (WorkflowExecutionTerminatedEventAttributes.Reason v),
           shown_opt ''Details'' show_bytes (WorkflowExecutionTerminatedEventAttributes.Details v),
           shown_opt ''Identity'' id (WorkflowExecutionTerminatedEventAttributes.Identity v)])"

definition WorkflowExecutionCancelRequestedEventAttributes_String ::
    "WorkflowExecutionCancelRequestedEventAttributes option \<Rightarrow> string" where
  "WorkflowExecutionCancelRequestedEventAttributes_String v =
     (case v of None \<Rightarrow> ''<nil>''
      | Some v \<Rightarrow> show_struct ''WorkflowExecutionCancelRequestedEventAttributes''
          [shown_opt ''Cause'' id (WorkflowExecutionCancelRequestedEventAttributes.Cause v),
           shown_opt ''ExternalInitiatedEventId'' show_i64
               (WorkflowExecutionCancelRequestedEventAttributes.ExternalInitiatedEventId v),
           shown_opt ''ExternalWorkflowExecution'' (\<lambda>x. WorkflowExecution_String (Some x))
               (WorkflowExecutionCancelRequestedEventAttributes.ExternalWorkflowExecution v),
           shown_opt ''Identity'' id (WorkflowExecutionCancelRequestedEventAttributes.Identity v)])"

definition WorkflowExecutionCanceledEventAttributes_String ::
    "WorkflowExecutionCanceledEventAttributes option \<Rightarrow> string" where
  "WorkflowExecutionCanceledEventAttributes_String v =
     (case v of None \<Rightarrow> ''<nil>''
      | Some v \<Rightarrow> show_struct ''WorkflowExecutionCanceledEventAttributes''
          [shown_opt ''DecisionTaskCompletedEventId'' show_i64
              (WorkflowExecutionCanceledEventAttributes.DecisionTaskCompletedEventId v),
           shown_opt ''Details'' show_bytes (WorkflowExecutionCanceledEventAttributes.Details v)])"

definition RequestCancelExternalWorkflowExecutionInitiatedEventAttributes_String ::
    "RequestCancelExternalWorkflowExecutionInitiatedEventAttributes option \<Rightarrow> string" where
  "RequestCancelExternalWorkflowExecutionInitiatedEventAttributes_String v =
     (case v of None \<Rightarrow> ''<nil>''
      | Some v \<Rightarrow> show_struct ''RequestCancelExternalWorkflowExecutionInitiatedEventAttributes''
          [shown_opt ''DecisionTaskCompletedEventId'' show_i64
              (RequestCancelExternalWorkflowExecutionInitiatedEventAttributes.DecisionTaskCompletedEventId v),
           shown_opt ''Domain'' id
               (RequestCancelExternalWorkflowExecutionInitiatedEventAttributes.Domain v),
           shown_opt ''WorkflowExecution'' (\<lambda>x. WorkflowExecution_String (Some x))
               (RequestCancelExternalWorkflowExecutionInitiatedEventAttributes.WorkflowExecution v),
           shown_opt ''Control'' show_bytes
               (RequestCancelExternalWorkflowExecutionInitiatedEventAttributes.Control v),
           shown_opt ''ChildWorkflowOnly'' show_bool
               (RequestCancelExternalWorkflowExecutionInitiatedEventAttributes.ChildWorkflowOnly
               v)])"

definition RequestCancelExternalWorkflowExecutionFailedEventAttributes_String ::
    "RequestCancelExternalWorkflowExecutionFailedEventAttributes option \<Rightarrow> string" where
  "RequestCancelExternalWorkflowExecutionFailedEventAttributes_String v =
     (case v of None \<Rightarrow> ''<nil>''
      | Some v \<Rightarrow> show_struct ''RequestCancelExternalWorkflowExecutionFailedEventAttributes''
          [shown_opt ''Cause'' CancelExternalWorkflowExecutionFailedCause_String
              (RequestCancelExternalWorkflowExecutionFailedEventAttributes.Cause v),
           shown_opt ''DecisionTaskCompletedEventId'' show_i64
               (RequestCancelExternalWorkflowExecutionFailedEventAttributes.DecisionTaskCompletedEventId v),
           shown_opt ''Domain'' id
               (RequestCancelExternalWorkflowExecutionFailedEventAttributes.Domain v),
           shown_opt ''WorkflowExecution'' (\<lambda>x. WorkflowExecution_String (Some x))
               (RequestCancelExternalWorkflowExecutionFailedEventAttributes.WorkflowExecution v),
           shown_opt ''InitiatedEventId'' show_i64
               (RequestCancelExternalWorkflowExecutionFailedEventAttributes.InitiatedEventId v),
           shown_opt ''Control'' show_bytes
               (RequestCancelExternalWorkflowExecutionFailedEventAttributes.Control v)])"

definition WorkflowExecutionContinuedAsNewEventAttributes_String ::
    "WorkflowExecutionContinuedAsNewEventAttributes option \<Rightarrow> string" where
  "WorkflowExecutionContinuedAsNewEventAttributes_String v =
     (case v of None \<Rightarrow> ''<nil>''
      | Some v \<Rightarrow> show_struct ''WorkflowExecutionContinuedAsNewEventAttributes''
          [shown_opt ''NewExecutionRunId'' id
              (WorkflowExecutionContinuedAsNewEventAttributes.NewExecutionRunId v),
           shown_opt ''WorkflowType'' (\<lambda>x. WorkflowType_String (Some x))
               (WorkflowExecutionContinuedAsNewEventAttributes.WorkflowType v),
           shown_opt ''TaskList'' (\<lambda>x. TaskList_String (Some x))
               (WorkflowExecutionContinuedAsNewEventAttributes.TaskList v),
           shown_opt ''Input'' show_bytes (WorkflowExecutionContinuedAsNewEventAttributes.Input v),
           shown_opt ''ExecutionStartToCloseTimeoutSeconds'' show_i32
               (WorkflowExecutionContinuedAsNewEventAttributes.ExecutionStartToCloseTimeoutSeconds
               v),
           shown_opt ''TaskStartToCloseTimeoutSeconds'' show_i32
               (WorkflowExecutionContinuedAsNewEventAttributes.TaskStartToCloseTimeoutSeconds v),
           shown_opt ''DecisionTaskCompletedEventId'' show_i64
               (WorkflowExecutionContinuedAsNewEventAttributes.DecisionTaskCompletedEventId v),
           shown_opt ''BackoffStartIntervalInSeconds'' show_i32
               (WorkflowExecutionContinuedAsNewEventAttributes.BackoffStartIntervalInSeconds v),
           shown_opt ''Initiator'' ContinueAsNewInitiator_String
               (WorkflowExecutionContinuedAsNewEventAttributes.Initiator v),
           shown_opt ''FailureReason'' id
               (WorkflowExecutionContinuedAsNewEventAttributes.FailureReason v),
           shown_opt ''FailureDetails'' show_bytes
               (WorkflowExecutionContinuedAsNewEventAttributes.FailureDetails v),
           shown_opt ''LastCompletionResult'' show_bytes
               (WorkflowExecutionContinuedAsNewEventAttributes.LastCompletionResult v),
           shown_opt ''Header'' (\<lambda>x. Header_String (Some x))
               (WorkflowExecutionContinuedAsNewEventAttributes.Header v),
           shown_opt ''Memo'' (\<lambda>x. Memo_String (Some x))
               (WorkflowExecutionContinuedAsNewEventAttributes.Memo v),
           shown_opt ''SearchAttributes'' (\<lambda>x. SearchAttributes_String (Some x))
               (WorkflowExecutionContinuedAsNewEventAttributes.SearchAttributes v)])"

definition StartChildWorkflowExecutionInitiatedEventAttributes_String :: "(float64 \<Rightarrow> string) \<Rightarrow>
    StartChildWorkflowExecutionInitiatedEventAttributes option \<Rightarrow> string" where
  "StartChildWorkflowExecutionInitiatedEventAttributes_String F v =
     (case v of None \<Rightarrow> ''<nil>''
      | Some v \<Rightarrow> show_struct ''StartChildWorkflowExecutionInitiatedEventAttributes''
          [shown_opt ''Domain'' id (StartChildWorkflowExecutionInitiatedEventAttributes.Domain v),
           shown_opt ''WorkflowId'' id
               (StartChildWorkflowExecutionInitiatedEventAttributes.WorkflowId v),
           shown_opt ''WorkflowType'' (\<lambda>x. WorkflowType_String (Some x))
               (StartChildWorkflowExecutionInitiatedEventAttributes.WorkflowType v),
           shown_opt ''TaskList'' (\<lambda>x. TaskList_String (Some x))
               (StartChildWorkflowExecutionInitiatedEventAttributes.TaskList v),
           shown_opt ''Input'' show_bytes (StartChildWorkflowExecutionInitiatedEventAttributes.Input
               v),
           shown_opt ''ExecutionStartToCloseTimeoutSeconds'' show_i32
               (StartChildWorkflowExecutionInitiatedEventAttributes.ExecutionStartToCloseTimeoutSeconds v),
           shown_opt ''TaskStartToCloseTimeoutSeconds'' show_i32
               (StartChildWorkflowExecutionInitiatedEventAttributes.TaskStartToCloseTimeoutSeconds
               v),
           shown_opt ''ParentClosePolicy'' ParentClosePolicy_String
               (StartChildWorkflowExecutionInitiatedEventAttributes.ParentClosePolicy v),
           shown_opt ''Control'' show_bytes
               (StartChildWorkflowExecutionInitiatedEventAttributes.Control v),
           shown_opt ''DecisionTaskCompletedEventId'' show_i64
               (StartChildWorkflowExecutionInitiatedEventAttributes.DecisionTaskCompletedEventId v),
           shown_opt ''WorkflowIdReusePolicy'' WorkflowIdReusePolicy_String
               (StartChildWorkflowExecutionInitiatedEventAttributes.WorkflowIdReusePolicy v),
           shown_opt ''RetryPolicy'' (\<lambda>x. RetryPolicy_String F (Some x))
               (StartChildWorkflowExecutionInitiatedEventAttributes.RetryPolicy v),
           shown_opt ''CronSchedule'' id
               (StartChildWorkflowExecutionInitiatedEventAttributes.CronSchedule v),
           shown_opt ''Header'' (\<lambda>x. Header_String (Some x))
               (StartChildWorkflowExecutionInitiatedEventAttributes.Header v),
           shown_opt ''Memo'' (\<lambda>x. Memo_String (Some x))
               (StartChildWorkflowExecutionInitiatedEventAttributes.Memo v),
           shown_opt ''SearchAttributes'' (\<lambda>x. SearchAttributes_String (Some x))
               (StartChildWorkflowExecutionInitiatedEventAttributes.SearchAttributes v)])"

definition StartChildWorkflowExecutionFailedEventAttributes_String ::
    "StartChildWorkflowExecutionFailedEventAttributes option \<Rightarrow> string" where
  "StartChildWorkflowExecutionFailedEventAttributes_String v =
     (case v of None \<Rightarrow> ''<nil>''
      | Some v \<Rightarrow> show_struct ''StartChildWorkflowExecutionFailedEventAttributes''
          [shown_opt ''Domain'' id (StartChildWorkflowExecutionFailedEventAttributes.Domain v),
           shown_opt ''WorkflowId'' id (StartChildWorkflowExecutionFailedEventAttributes.WorkflowId
               v),
           shown_opt ''WorkflowType'' (\<lambda>x. WorkflowType_String (Some x))
               (StartChildWorkflowExecutionFailedEventAttributes.WorkflowType v),
           shown_opt ''Cause'' ChildWorkflowExecutionFailedCause_String
               (StartChildWorkflowExecutionFailedEventAttributes.Cause v),
           shown_opt ''Control'' show_bytes
               (StartChildWorkflowExecutionFailedEventAttributes.Control v),
           shown_opt ''InitiatedEventId'' show_i64
               (StartChildWorkflowExecutionFailedEventAttributes.InitiatedEventId v),
           shown_opt ''DecisionTaskCompletedEventId'' show_i64
               (StartChildWorkflowExecutionFailedEventAttributes.DecisionTaskCompletedEventId v)])"

definition SignalExternalWorkflowExecutionInitiatedEventAttributes_String ::
    "SignalExternalWorkflowExecutionInitiatedEventAttributes option \<Rightarrow> string" where
  "SignalExternalWorkflowExecutionInitiatedEventAttributes_String v =
     (case v of None \<Rightarrow> ''<nil>''
      | Some v \<Rightarrow> show_struct ''SignalExternalWorkflowExecutionInitiatedEventAttributes''
          [shown_opt ''DecisionTaskCompletedEventId'' show_i64
              (SignalExternalWorkflowExecutionInitiatedEventAttributes.DecisionTaskCompletedEventId
              v),
           shown_opt ''Domain'' id (SignalExternalWorkflowExecutionInitiatedEventAttributes.Domain
               v),
           shown_opt ''WorkflowExecution'' (\<lambda>x. WorkflowExecution_String (Some x))
               (SignalExternalWorkflowExecutionInitiatedEventAttributes.WorkflowExecution v),
           shown_opt ''SignalName'' id
               (SignalExternalWorkflowExecutionInitiatedEventAttributes.SignalName v),
           shown_opt ''Input'' show_bytes
               (SignalExternalWorkflowExecutionInitiatedEventAttributes.Input v),
           shown_opt ''Control'' show_bytes
               (SignalExternalWorkflowExecutionInitiatedEventAttributes.Control v),
           shown_opt ''ChildWorkflowOnly'' show_bool
               (SignalExternalWorkflowExecutionInitiatedEventAttributes.ChildWorkflowOnly v)])"

definition SignalExternalWorkflowExecutionFailedEventAttributes_String ::
    "SignalExternalWorkflowExecutionFailedEventAttributes option \<Rightarrow> string" where
  "SignalExternalWorkflowExecutionFailedEventAttributes_String v =
     (case v of None \<Rightarrow> ''<nil>''
      | Some v \<Rightarrow> show_struct ''SignalExternalWorkflowExecutionFailedEventAttributes''
          [shown_opt ''Cause'' SignalExternalWorkflowExecutionFailedCause_String
              (SignalExternalWorkflowExecutionFailedEventAttributes.Cause v),
           shown_opt ''DecisionTaskCompletedEventId'' show_i64
               (SignalExternalWorkflowExecutionFailedEventAttributes.DecisionTaskCompletedEventId
               v),
           shown_opt ''Domain'' id (SignalExternalWorkflowExecutionFailedEventAttributes.Domain v),
           shown_opt ''WorkflowExecution'' (\<lambda>x. WorkflowExecution_String (Some x))
               (SignalExternalWorkflowExecutionFailedEventAttributes.WorkflowExecution v),
           shown_opt ''InitiatedEventId'' show_i64
               (SignalExternalWorkflowExecutionFailedEventAttributes.InitiatedEventId v),
           shown_opt ''Control'' show_bytes
               (SignalExternalWorkflowExecutionFailedEventAttributes.Control v)])"

definition UpsertWorkflowSearchAttributesEventAttributes_String ::
    "UpsertWorkflowSearchAttributesEventAttributes option \<Rightarrow> string" where
  "UpsertWorkflowSearchAttributesEventAttributes_String v =
     (case v of None \<Rightarrow> ''<nil>''
      | Some v \<Rightarrow> show_struct ''UpsertWorkflowSearchAttributesEventAttributes''
          [shown_opt ''DecisionTaskCompletedEventId'' show_i64
              (UpsertWorkflowSearchAttributesEventAttributes.DecisionTaskCompletedEventId v),
           shown_opt ''SearchAttributes'' (\<lambda>x. SearchAttributes_String (Some x))
               (UpsertWorkflowSearchAttributesEventAttributes.SearchAttributes v)])"

definition HistoryEvent_String :: "(float64 \<Rightarrow> string) \<Rightarrow> HistoryEvent option \<Rightarrow> string" where
  "HistoryEvent_String F v =
     (case v of None \<Rightarrow> ''<nil>''
      | Some v \<Rightarrow> show_struct ''HistoryEvent''
          [shown_opt ''EventId'' show_i64 (HistoryEvent.EventId v),
           shown_opt ''Timestamp'' show_i64 (HistoryEvent.Timestamp v),
           shown_opt ''EventType'' EventType_String (HistoryEvent.EventType v),
           shown_opt ''Version'' show_i64 (HistoryEvent.Version v),
           shown_opt ''TaskId'' show_i64 (HistoryEvent.TaskId v),
           shown_opt ''WorkflowExecutionStartedEventAttributes'' (\<lambda>x.
               WorkflowExecutionStartedEventAttributes_String F (Some x))
               (HistoryEvent.WorkflowExecutionStartedEventAttributes v),
           shown_opt ''WorkflowExecutionCompletedEventAttributes'' (\<lambda>x.
               WorkflowExecutionCompletedEventAttributes_String (Some x))
               (HistoryEvent.WorkflowExecutionCompletedEventAttributes v),
           shown_opt ''WorkflowExecutionFailedEventAttributes'' (\<lambda>x.
               WorkflowExecutionFailedEventAttributes_String (Some x))
               (HistoryEvent.WorkflowExecutionFailedEventAttributes v),
           shown_opt ''WorkflowExecutionTimedOutEventAttributes'' (\<lambda>x.
               WorkflowExecutionTimedOutEventAttributes_String (Some x))
               (HistoryEvent.WorkflowExecutionTimedOutEventAttributes v),
           shown_opt ''DecisionTaskScheduledEventAttributes'' (\<lambda>x.
               DecisionTaskScheduledEventAttributes_String (Some x))
               (HistoryEvent.DecisionTaskScheduledEventAttributes v),
           shown_opt ''DecisionTaskStartedEventAttributes'' (\<lambda>x.
               DecisionTaskStartedEventAttributes_String (Some x))
               (HistoryEvent.DecisionTaskStartedEventAttributes v),
           shown_opt ''DecisionTaskCompletedEventAttributes'' (\<lambda>x.
               DecisionTaskCompletedEventAttributes_String (Some x))
               (HistoryEvent.DecisionTaskCompletedEventAttributes v),
           shown_opt ''DecisionTaskTimedOutEventAttributes'' (\<lambda>x.
               DecisionTaskTimedOutEventAttributes_String (Some x))
               (HistoryEvent.DecisionTaskTimedOutEventAttributes v),
           shown_opt ''DecisionTaskFailedEventAttributes'' (\<lambda>x.
               DecisionTaskFailedEventAttributes_String (Some x))
               (HistoryEvent.DecisionTaskFailedEventAttributes v),
           shown_opt ''ActivityTaskScheduledEventAttributes'' (\<lambda>x.
               ActivityTaskScheduledEventAttributes_String F (Some x))
               (HistoryEvent.ActivityTaskScheduledEventAttributes v),
           shown_opt ''ActivityTaskStartedEventAttributes'' (\<lambda>x.
               ActivityTaskStartedEventAttributes_String (Some x))
               (HistoryEvent.ActivityTaskStartedEventAttributes v),
           shown_opt ''ActivityTaskCompletedEventAttributes'' (\<lambda>x.
               ActivityTaskCompletedEventAttributes_String (Some x))
               (HistoryEvent.ActivityTaskCompletedEventAttributes v),
           shown_opt ''ActivityTaskFailedEventAttributes'' (\<lambda>x.
               ActivityTaskFailedEventAttributes_String (Some x))
               (HistoryEvent.ActivityTaskFailedEventAttributes v),
           shown_opt ''ActivityTaskTimedOutEventAttributes'' (\<lambda>x.
               ActivityTaskTimedOutEventAttributes_String (Some x))
               (HistoryEvent.ActivityTaskTimedOutEventAttributes v),
           shown_opt ''TimerStartedEventAttributes'' (\<lambda>x. TimerStartedEventAttributes_String (Some
               x)) (HistoryEvent.TimerStartedEventAttributes v),
           shown_opt ''TimerFiredEventAttributes'' (\<lambda>x. TimerFiredEventAttributes_String (Some x))
               (HistoryEvent.TimerFiredEventAttributes v),
           shown_opt ''ActivityTaskCancelRequestedEventAttributes'' (\<lambda>x.
               ActivityTaskCancelRequestedEventAttributes_String (Some x))
               (HistoryEvent.ActivityTaskCancelRequestedEventAttributes v),
           shown_opt ''RequestCancelActivityTaskFailedEventAttributes'' (\<lambda>x.
               RequestCancelActivityTaskFailedEventAttributes_String (Some x))
               (HistoryEvent.RequestCancelActivityTaskFailedEventAttributes v),
           shown_opt ''ActivityTaskCanceledEventAttributes'' (\<lambda>x.
               ActivityTaskCanceledEventAttributes_String (Some x))
               (HistoryEvent.ActivityTaskCanceledEventAttributes v),
           shown_opt ''TimerCanceledEventAttributes'' (\<lambda>x. TimerCanceledEventAttributes_String (Some
               x)) (HistoryEvent.TimerCanceledEventAttributes v),
           shown_opt ''CancelTimerFailedEventAttributes'' (\<lambda>x.
               CancelTimerFailedEventAttributes_String (Some x))
               (HistoryEvent.CancelTimerFailedEventAttributes v),
           shown_opt ''MarkerRecordedEventAttributes'' (\<lambda>x. MarkerRecordedEventAttributes_String
               (Some x)) (HistoryEvent.MarkerRecordedEventAttributes v),
           shown_opt ''WorkflowExecutionSignaledEventAttributes'' (\<lambda>x.
               WorkflowExecutionSignaledEventAttributes_String (Some x))
               (HistoryEvent.WorkflowExecutionSignaledEventAttributes v),
           shown_opt ''WorkflowExecutionTerminatedEventAttributes'' (\<lambda>x.
               WorkflowExecutionTerminatedEventAttributes_String (Some x))
               (HistoryEvent.WorkflowExecutionTerminatedEventAttributes v),
           shown_opt ''WorkflowExecutionCancelRequestedEventAttributes'' (\<lambda>x.
               WorkflowExecutionCancelRequestedEventAttributes_String (Some x))
               (HistoryEvent.WorkflowExecutionCancelRequestedEventAttributes v),
           shown_opt ''WorkflowExecutionCanceledEventAttributes'' (\<lambda>x.
               WorkflowExecutionCanceledEventAttributes_String (Some x))
               (HistoryEvent.WorkflowExecutionCanceledEventAttributes v),
           shown_opt ''RequestCancelExternalWorkflowExecutionInitiatedEventAttributes'' (\<lambda>x.
               RequestCancelExternalWorkflowExecutionInitiatedEventAttributes_String (Some x))
               (HistoryEvent.RequestCancelExternalWorkflowExecutionInitiatedEventAttributes v),
           shown_opt ''RequestCancelExternalWorkflowExecutionFailedEventAttributes'' (\<lambda>x.
               RequestCancelExternalWorkflowExecutionFailedEventAttributes_String (Some x))
               (HistoryEvent.RequestCancelExternalWorkflowExecutionFailedEventAttributes v),
           shown_opt ''ExternalWorkflowExecutionCancelRequestedEventAttributes'' (\<lambda>x.
               ExternalWorkflowExecutionCancelRequestedEventAttributes_String (Some x))
               (HistoryEvent.ExternalWorkflowExecutionCancelRequestedEventAttributes v),
           shown_opt ''WorkflowExecutionContinuedAsNewEventAttributes'' (\<lambda>x.
               WorkflowExecutionContinuedAsNewEventAttributes_String (Some x))
               (HistoryEvent.WorkflowExecutionContinuedAsNewEventAttributes v),
           shown_opt ''StartChildWorkflowExecutionInitiatedEventAttributes'' (\<lambda>x.
               StartChildWorkflowExecutionInitiatedEventAttributes_String F (Some x))
               (HistoryEvent.StartChildWorkflowExecutionInitiatedEventAttributes v),
           shown_opt ''StartChildWorkflowExecutionFailedEventAttributes'' (\<lambda>x.
               StartChildWorkflowExecutionFailedEventAttributes_String (Some x))
               (HistoryEvent.StartChildWorkflowExecutionFailedEventAttributes v),
           shown_opt ''ChildWorkflowExecutionStartedEventAttributes'' (\<lambda>x.
               ChildWorkflowExecutionStartedEventAttributes_String (Some x))
               (HistoryEvent.ChildWorkflowExecutionStartedEventAttributes v),
           shown_opt ''ChildWorkflowExecutionCompletedEventAttributes'' (\<lambda>x.
               ChildWorkflowExecutionCompletedEventAttributes_String (Some x))
               (HistoryEvent.ChildWorkflowExecutionCompletedEventAttributes v),
           shown_opt ''ChildWorkflowExecutionFailedEventAttributes'' (\<lambda>x.
               ChildWorkflowExecutionFailedEventAttributes_String (Some x))
               (HistoryEvent.ChildWorkflowExecutionFailedEventAttributes v),
           shown_opt ''ChildWorkflowExecutionCanceledEventAttributes'' (\<lambda>x.
               ChildWorkflowExecutionCanceledEventAttributes_String (Some x))
               (HistoryEvent.ChildWorkflowExecutionCanceledEventAttributes v),
           shown_opt ''ChildWorkflowExecutionTimedOutEventAttributes'' (\<lambda>x.
               ChildWorkflowExecutionTimedOutEventAttributes_String (Some x))
               (HistoryEvent.ChildWorkflowExecutionTimedOutEventAttributes v),
           shown_opt ''ChildWorkflowExecutionTerminatedEventAttributes'' (\<lambda>x.
               ChildWorkflowExecutionTerminatedEventAttributes_String (Some x))
               (HistoryEvent.ChildWorkflowExecutionTerminatedEventAttributes v),
           shown_opt ''SignalExternalWorkflowExecutionInitiatedEventAttributes'' (\<lambda>x.
               SignalExternalWorkflowExecutionInitiatedEventAttributes_String (Some x))
               (HistoryEvent.SignalExternalWorkflowExecutionInitiatedEventAttributes v),
           shown_opt ''SignalExternalWorkflowExecutionFailedEventAttributes'' (\<lambda>x.
               SignalExternalWorkflowExecutionFailedEventAttributes_String (Some x))
               (HistoryEvent.SignalExternalWorkflowExecutionFailedEventAttributes v),
           shown_opt ''ExternalWorkflowExecutionSignaledEventAttributes'' (\<lambda>x.
               ExternalWorkflowExecutionSignaledEventAttributes_String (Some x))
               (HistoryEvent.ExternalWorkflowExecutionSignaledEventAttributes v),
           shown_opt ''UpsertWorkflowSearchAttributesEventAttributes'' (\<lambda>x.
               UpsertWorkflowSearchAttributesEventAttributes_String (Some x))
               (HistoryEvent.UpsertWorkflowSearchAttributesEventAttributes v)])"

definition History_String :: "(float64 \<Rightarrow> string) \<Rightarrow> History option \<Rightarrow> string" where
  "History_String F v =
     (case v of None \<Rightarrow> ''<nil>''
      | Some v \<Rightarrow> show_struct ''History''
          [shown_opt ''Events'' (show_list (HistoryEvent_String F)) (History.Events v)])"

end
