(* ===== verification/GoMessageStrings.thy ===== *)
theory GoMessageStrings
  imports GoEventStrings GoRequests GoMisc GoMessages
begin

text \<open>
  The text of exceptions, requests and responses (\<open>String\<close>,
  proxy/gen/shared/shared.go), and the name and the message of an exception
  (\<open>ErrorName\<close>, \<open>Error\<close>).
\<close>

definition AccessDeniedError_String :: "AccessDeniedError option \<Rightarrow> string" where
  "AccessDeniedError_String v =
     (case v of None \<Rightarrow> ''<nil>''
      | Some v \<Rightarrow> show_struct ''AccessDeniedError''
          [shown_field ''Message'' id (AccessDeniedError.Message v)])"

definition AccessDeniedError_Error :: "AccessDeniedError option \<Rightarrow> string" where
  "AccessDeniedError_Error v = AccessDeniedError_String v"

definition AccessDeniedError_ErrorName :: string where
  "AccessDeniedError_ErrorName = ''AccessDeniedError''"

definition BadBinaryInfo_String :: "BadBinaryInfo option \<Rightarrow> string" where
  "BadBinaryInfo_String v =
     (case v of None \<Rightarrow> ''<nil>''
      | Some v \<Rightarrow> show_struct ''BadBinaryInfo''
          [shown_opt ''Reason'' id (BadBinaryInfo.Reason v),
           shown_opt ''Operator'' id (BadBinaryInfo.Operator v),
           shown_opt ''CreatedTimeNano'' show_i64 (BadBinaryInfo.CreatedTimeNano v)])"

definition BadBinaries_String :: "BadBinaries option \<Rightarrow> string" where
  "BadBinaries_String v =
     (case v of None \<Rightarrow> ''<nil>''
      | Some v \<Rightarrow> show_struct ''BadBinaries''
          [shown_opt ''Binaries'' (show_map BadBinaryInfo_String) (BadBinaries.Binaries v)])"

definition BadRequestError_String :: "BadRequestError option \<Rightarrow> string" where
  "BadRequestError_String v =
     (case v of None \<Rightarrow> ''<nil>''
      | Some v \<Rightarrow> show_struct ''BadRequestError''
          [shown_field ''Message'' id (BadRequestError.Message v)])"

definition BadRequestError_Error :: "BadRequestError option \<Rightarrow> string" where
  "BadRequestError_Error v = BadRequestError_String v"

definition BadRequestError_ErrorName :: string where
  "BadRequestError_ErrorName = ''BadRequestError''"

definition CancellationAlreadyRequestedError_String :: "CancellationAlreadyRequestedError option \<Rightarrow>
    string" where
  "CancellationAlreadyRequestedError_String v =
     (case v of None \<Rightarrow> ''<nil>''
      | Some v \<Rightarrow> show_struct ''CancellationAlreadyRequestedError''
          [shown_field ''Message'' id (CancellationAlreadyRequestedError.Message v)])"

definition CancellationAlreadyRequestedError_Error :: "CancellationAlreadyRequestedError option \<Rightarrow>
    string" where
  "CancellationAlreadyRequestedError_Error v = CancellationAlreadyRequestedError_String v"

definition CancellationAlreadyRequestedError_ErrorName :: string where
  "CancellationAlreadyRequestedError_ErrorName = ''CancellationAlreadyRequestedError''"

definition ClientVersionNotSupportedError_String :: "ClientVersionNotSupportedError option \<Rightarrow> string"
    where
  "ClientVersionNotSupportedError_String v =
     (case v of None \<Rightarrow> ''<nil>''
      | Some v \<Rightarrow> show_struct ''ClientVersionNotSupportedError''
          [shown_field ''FeatureVersion'' id (ClientVersionNotSupportedError.FeatureVersion v),
           shown_field ''ClientImpl'' id (ClientVersionNotSupportedError.ClientImpl v),
           shown_field ''SupportedVersions'' id (ClientVersionNotSupportedError.SupportedVersions
               v)])"

definition ClientVersionNotSupportedError_Error :: "ClientVersionNotSupportedError option \<Rightarrow> string"
    where
  "ClientVersionNotSupportedError_Error v = ClientVersionNotSupportedError_String v"

definition ClientVersionNotSupportedError_ErrorName :: string where
  "ClientVersionNotSupportedError_ErrorName = ''ClientVersionNotSupportedError''"

definition CloseShardRequest_String :: "CloseShardRequest option \<Rightarrow> string" where
  "CloseShardRequest_String v =
     (case v of None \<Rightarrow> ''<nil>''
      | Some v \<Rightarrow> show_struct ''CloseShardRequest''
          [shown_opt ''ShardID'' show_i32 (CloseShardRequest.ShardID v)])"

definition ClusterReplicationConfiguration_String :: "ClusterReplicationConfiguration option \<Rightarrow>
    string" where
  "ClusterReplicationConfiguration_String v =
     (case v of None \<Rightarrow> ''<nil>''
      | Some v \<Rightarrow> show_struct ''ClusterReplicationConfiguration''
          [shown_opt ''ClusterName'' id (ClusterReplicationConfiguration.ClusterName v)])"

definition CountWorkflowExecutionsRequest_String :: "CountWorkflowExecutionsRequest option \<Rightarrow> string"
    where
  "CountWorkflowExecutionsRequest_String v =
     (case v of None \<Rightarrow> ''<nil>''
      | Some v \<Rightarrow> show_struct ''CountWorkflowExecutionsRequest''
          [shown_opt ''Domain'' id (CountWorkflowExecutionsRequest.Domain v),
           shown_opt ''Query'' id (CountWorkflowExecutionsRequest.Query v)])"

definition CountWorkflowExecutionsResponse_String :: "CountWorkflowExecutionsResponse option \<Rightarrow>
    string" where
  "CountWorkflowExecutionsResponse_String v =
     (case v of None \<Rightarrow> ''<nil>''
      | Some v \<Rightarrow> show_struct ''CountWorkflowExecutionsResponse''
          [shown_opt ''Count'' show_i64 (CountWorkflowExecutionsResponse.Count v)])"

definition DataBlob_String :: "DataBlob option \<Rightarrow> string" where
  "DataBlob_String v =
     (case v of None \<Rightarrow> ''<nil>''
      | Some v \<Rightarrow> show_struct ''DataBlob''
          [shown_opt ''EncodingType'' EncodingType_String (DataBlob.EncodingType v),
           shown_opt ''Data'' show_bytes (DataBlob.Data v)])"

definition DeprecateDomainRequest_String :: "DeprecateDomainRequest option \<Rightarrow> string" where
  "DeprecateDomainRequest_String v =
     (case v of None \<Rightarrow> ''<nil>''
      | Some v \<Rightarrow> show_struct ''DeprecateDomainRequest''
          [shown_opt ''Name'' id (DeprecateDomainRequest.Name v),
           shown_opt ''SecurityToken'' id (DeprecateDomainRequest.SecurityToken v)])"

definition DescribeDomainRequest_String :: "DescribeDomainRequest option \<Rightarrow> string" where
  "DescribeDomainRequest_String v =
     (case v of None \<Rightarrow> ''<nil>''
      | Some v \<Rightarrow> show_struct ''DescribeDomainRequest''
          [shown_opt ''Name'' id (DescribeDomainRequest.Name v),
           shown_opt ''UUID'' id (DescribeDomainRequest.UUID v)])"

definition DomainInfo_String :: "DomainInfo option \<Rightarrow> string" where
  "DomainInfo_String v =
     (case v of None \<Rightarrow> ''<nil>''
      | Some v \<Rightarrow> show_struct ''DomainInfo''
          [shown_opt ''Name'' id (DomainInfo.Name v),
           shown_opt ''Status'' DomainStatus_String (DomainInfo.Status v),
           shown_opt ''Description'' id (DomainInfo.Description v),
           shown_opt ''OwnerEmail'' id (DomainInfo.OwnerEmail v),
           shown_opt ''Data'' (show_map id) (DomainInfo.Data v),
           shown_opt ''UUID'' id (DomainInfo.UUID v)])"

definition DomainConfiguration_String :: "DomainConfiguration option \<Rightarrow> string" where
  "DomainConfiguration_String v =
     (case v of None \<Rightarrow> ''<nil>''
      | Some v \<Rightarrow> show_struct ''DomainConfiguration''
          [shown_opt ''WorkflowExecutionRetentionPeriodInDays'' show_i32
              (DomainConfiguration.WorkflowExecutionRetentionPeriodInDays v),
           shown_opt ''EmitMetric'' show_bool (DomainConfiguration.EmitMetric v),
           shown_opt ''BadBinaries'' (\<lambda>x. BadBinaries_String (Some x))
               (DomainConfiguration.BadBinaries v),
           shown_opt ''HistoryArchivalStatus'' ArchivalStatus_String
               (DomainConfiguration.HistoryArchivalStatus v),
           shown_opt ''HistoryArchivalURI'' id (DomainConfiguration.HistoryArchivalURI v),
           shown_opt ''VisibilityArchivalStatus'' ArchivalStatus_String
               (DomainConfiguration.VisibilityArchivalStatus v),
           shown_opt ''VisibilityArchivalURI'' id (DomainConfiguration.VisibilityArchivalURI v)])"

definition DomainReplicationConfiguration_String :: "DomainReplicationConfiguration option \<Rightarrow> string"
    where
  "DomainReplicationConfiguration_String v =
     (case v of None \<Rightarrow> ''<nil>''
      | Some v \<Rightarrow> show_struct ''DomainReplicationConfiguration''
          [shown_opt ''ActiveClusterName'' id (DomainReplicationConfiguration.ActiveClusterName v),
           shown_opt ''Clusters'' (show_list ClusterReplicationConfiguration_String)
               (DomainReplicationConfiguration.Clusters v)])"

definition DescribeDomainResponse_String :: "DescribeDomainResponse option \<Rightarrow> string" where
  "DescribeDomainResponse_String v =
     (case v of None \<Rightarrow> ''<nil>''
      | Some v \<Rightarrow> show_struct ''DescribeDomainResponse''
          [shown_opt ''DomainInfo'' (\<lambda>x. DomainInfo_String (Some x))
              (DescribeDomainResponse.DomainInfo v),
           shown_opt ''Configuration'' (\<lambda>x. DomainConfiguration_String (Some x))
               (DescribeDomainResponse.Configuration v),
           shown_opt ''ReplicationConfiguration'' (\<lambda>x. DomainReplicationConfiguration_String (Some
               x)) (DescribeDomainResponse.ReplicationConfiguration v),
           shown_opt ''FailoverVersion'' show_i64 (DescribeDomainResponse.FailoverVersion v),
           shown_opt ''IsGlobalDomain'' show_bool (DescribeDomainResponse.IsGlobalDomain v)])"

definition DescribeHistoryHostRequest_String :: "DescribeHistoryHostRequest option \<Rightarrow> string" where
  "DescribeHistoryHostRequest_String v =
     (case v of None \<Rightarrow> ''<nil>''
      | Some v \<Rightarrow> show_struct ''DescribeHistoryHostRequest''
          [shown_opt ''HostAddress'' id (DescribeHistoryHostRequest.HostAddress v),
           shown_opt ''ShardIdForHost'' show_i32 (DescribeHistoryHostRequest.ShardIdForHost v),
           shown_opt ''ExecutionForHost'' (\<lambda>x. WorkflowExecution_String (Some x))
               (DescribeHistoryHostRequest.ExecutionForHost v)])"

definition DomainCacheInfo_String :: "DomainCacheInfo option \<Rightarrow> string" where
  "DomainCacheInfo_String v =
     (case v of None \<Rightarrow> ''<nil>''
      | Some v \<Rightarrow> show_struct ''DomainCacheInfo''
          [shown_opt ''NumOfItemsInCacheByID'' show_i64 (DomainCacheInfo.NumOfItemsInCacheByID v),
           shown_opt ''NumOfItemsInCacheByName'' show_i64 (DomainCacheInfo.NumOfItemsInCacheByName
               v)])"

definition DescribeHistoryHostResponse_String :: "DescribeHistoryHostResponse option \<Rightarrow> string" where
  "DescribeHistoryHostResponse_String v =
     (case v of None \<Rightarrow> ''<nil>''
      | Some v \<Rightarrow> show_struct ''DescribeHistoryHostResponse''
          [shown_opt ''NumberOfShards'' show_i32 (DescribeHistoryHostResponse.NumberOfShards v),
           shown_opt ''ShardIDs'' (show_list show_i32) (DescribeHistoryHostResponse.ShardIDs v),
           shown_opt ''DomainCache'' (\<lambda>x. DomainCacheInfo_String (Some x))
               (DescribeHistoryHostResponse.DomainCache v),
           shown_opt ''ShardControllerStatus'' id (DescribeHistoryHostResponse.ShardControllerStatus
               v),
           shown_opt ''Address'' id (DescribeHistoryHostResponse.Address v)])"

definition DescribeTaskListRequest_String :: "DescribeTaskListRequest option \<Rightarrow> string" where
  "DescribeTaskListRequest_String v =
     (case v of None \<Rightarrow> ''<nil>''
      | Some v \<Rightarrow> show_struct ''DescribeTaskListRequest''
          [shown_opt ''Domain'' id (DescribeTaskListRequest.Domain v),
           shown_opt ''TaskList'' (\<lambda>x. TaskList_String (Some x)) (DescribeTaskListRequest.TaskList
               v),
           shown_opt ''TaskListType'' TaskListType_String (DescribeTaskListRequest.TaskListType v),
           shown_opt ''IncludeTaskListStatus'' show_bool
               (DescribeTaskListRequest.IncludeTaskListStatus v)])"

definition PollerInfo_String :: "(float64 \<Rightarrow> string) \<Rightarrow> PollerInfo option \<Rightarrow> string" where
  "PollerInfo_String F v =
     (case v of None \<Rightarrow> ''<nil>''
      | Some v \<Rightarrow> show_struct ''PollerInfo''
          [shown_opt ''LastAccessTime'' show_i64 (PollerInfo.LastAccessTime v),
           shown_opt ''Identity'' id (PollerInfo.Identity v),
           shown_opt ''RatePerSecond'' F (PollerInfo.RatePerSecond v)])"

definition TaskIDBlock_String :: "TaskIDBlock option \<Rightarrow> string" where
  "TaskIDBlock_String v =
     (case v of None \<Rightarrow> ''<nil>''
      | Some v \<Rightarrow> show_struct ''TaskIDBlock''
          [shown_opt ''StartID'' show_i64 (TaskIDBlock.StartID v),
           shown_opt ''EndID'' show_i64 (TaskIDBlock.EndID v)])"

definition TaskListStatus_String :: "(float64 \<Rightarrow> string) \<Rightarrow> TaskListStatus option \<Rightarrow> string" where
  "TaskListStatus_String F v =
     (case v of None \<Rightarrow> ''<nil>''
      | Some v \<Rightarrow> show_struct ''TaskListStatus''
          [shown_opt ''BacklogCountHint'' show_i64 (TaskListStatus.BacklogCountHint v),
           shown_opt ''ReadLevel'' show_i64 (TaskListStatus.ReadLevel v),
           shown_opt ''AckLevel'' show_i64 (TaskListStatus.AckLevel v),
           shown_opt ''RatePerSecond'' F (TaskListStatus.RatePerSecond v),
           shown_opt ''TaskIDBlock'' (\<lambda>x. TaskIDBlock_String (Some x)) (TaskListStatus.TaskIDBlock
               v)])"

definition DescribeTaskListResponse_String :: "(float64 \<Rightarrow> string) \<Rightarrow> DescribeTaskListResponse option
    \<Rightarrow> string" where
  "DescribeTaskListResponse_String F v =
     (case v of None \<Rightarrow> ''<nil>''
      | Some v \<Rightarrow> show_struct ''DescribeTaskListResponse''
          [shown_opt ''Pollers'' (show_list (PollerInfo_String F)) (DescribeTaskListResponse.Pollers
              v),
           shown_opt ''TaskListStatus'' (\<lambda>x. TaskListStatus_String F (Some x))
               (DescribeTaskListResponse.TaskListStatus v)])"

definition DescribeWorkflowExecutionRequest_String :: "DescribeWorkflowExecutionRequest option \<Rightarrow>
    string" where
  "DescribeWorkflowExecutionRequest_String v =
     (case v of None \<Rightarrow> ''<nil>''
      | Some v \<Rightarrow> show_struct ''DescribeWorkflowExecutionRequest''
          [shown_opt ''Domain'' id (DescribeWorkflowExecutionRequest.Domain v),
           shown_opt ''Execution'' (\<lambda>x. WorkflowExecution_String (Some x))
               (DescribeWorkflowExecutionRequest.Execution v)])"

definition WorkflowExecutionConfiguration_String :: "WorkflowExecutionConfiguration option \<Rightarrow> string"
    where
  "WorkflowExecutionConfiguration_String v =
     (case v of None \<Rightarrow> ''<nil>''
      | Some v \<Rightarrow> show_struct ''WorkflowExecutionConfiguration''
          [shown_opt ''TaskList'' (\<lambda>x. TaskList_String (Some x))
              (WorkflowExecutionConfiguration.TaskList v),
           shown_opt ''ExecutionStartToCloseTimeoutSeconds'' show_i32
               (WorkflowExecutionConfiguration.ExecutionStartToCloseTimeoutSeconds v),
           shown_opt ''TaskStartToCloseTimeoutSeconds'' show_i32
               (WorkflowExecutionConfiguration.TaskStartToCloseTimeoutSeconds v)])"

definition WorkflowExecutionInfo_String :: "WorkflowExecutionInfo option \<Rightarrow> string" where
  "WorkflowExecutionInfo_String v =
     (case v of None \<Rightarrow> ''<nil>''
      | Some v \<Rightarrow> show_struct ''WorkflowExecutionInfo''
          [shown_opt ''Execution'' (\<lambda>x. WorkflowExecution_String (Some x))
              (WorkflowExecutionInfo.Execution v),
           shown_opt ''Type'' (\<lambda>x. WorkflowType_String (Some x)) (WorkflowExecutionInfo.Type v),
           shown_opt ''StartTime'' show_i64 (WorkflowExecutionInfo.StartTime v),
           shown_opt ''CloseTime'' show_i64 (WorkflowExecutionInfo.CloseTime v),
           shown_opt ''CloseStatus'' WorkflowExecutionCloseStatus_String
               (WorkflowExecutionInfo.CloseStatus v),
           shown_opt ''HistoryLength'' show_i64 (WorkflowExecutionInfo.HistoryLength v),
           shown_opt ''ParentDomainId'' id (WorkflowExecutionInfo.ParentDomainId v),
           shown_opt ''ParentExecution'' (\<lambda>x. WorkflowExecution_String (Some x))
               (WorkflowExecutionInfo.ParentExecution v),
           shown_opt ''ExecutionTime'' show_i64 (WorkflowExecutionInfo.ExecutionTime v),
           shown_opt ''Memo'' (\<lambda>x. Memo_String (Some x)) (WorkflowExecutionInfo.Memo v),
           shown_opt ''SearchAttributes'' (\<lambda>x. SearchAttributes_String (Some x))
               (WorkflowExecutionInfo.SearchAttributes v),
           shown_opt ''AutoResetPoints'' (\<lambda>x. ResetPoints_String (Some x))
               (WorkflowExecutionInfo.AutoResetPoints v)])"

definition PendingActivityInfo_String :: "PendingActivityInfo option \<Rightarrow> string" where
  "PendingActivityInfo_String v =
     (case v of None \<Rightarrow> ''<nil>''
      | Some v \<Rightarrow> show_struct ''PendingActivityInfo''
          [shown_opt ''ActivityID'' id (PendingActivityInfo.ActivityID v),
           shown_opt ''ActivityType'' (\<lambda>x. ActivityType_String (Some x))
               (PendingActivityInfo.ActivityType v),
           shown_opt ''State'' PendingActivityState_String (PendingActivityInfo.State v),
           shown_opt ''HeartbeatDetails'' show_bytes (PendingActivityInfo.HeartbeatDetails v),
           shown_opt ''LastHeartbeatTimestamp'' show_i64 (PendingActivityInfo.LastHeartbeatTimestamp
               v),
           shown_opt ''LastStartedTimestamp'' show_i64 (PendingActivityInfo.LastStartedTimestamp v),
           shown_opt ''Attempt'' show_i32 (PendingActivityInfo.Attempt v),
           shown_opt ''MaximumAttempts'' show_i32 (PendingActivityInfo.MaximumAttempts v),
           shown_opt ''ScheduledTimestamp'' show_i64 (PendingActivityInfo.ScheduledTimestamp v),
           shown_opt ''ExpirationTimestamp'' show_i64 (PendingActivityInfo.ExpirationTimestamp v),
           shown_opt ''LastFailureReason'' id (PendingActivityInfo.LastFailureReason v),
           shown_opt ''LastWorkerIdentity'' id (PendingActivityInfo.LastWorkerIdentity v),
           shown_opt ''LastFailureDetails'' show_bytes (PendingActivityInfo.LastFailureDetails v)])"

definition PendingChildExecutionInfo_String :: "PendingChildExecutionInfo option \<Rightarrow> string" where
  "PendingChildExecutionInfo_String v =
     (case v of None \<Rightarrow> ''<nil>''
      | Some v \<Rightarrow> show_struct ''PendingChildExecutionInfo''
          [shown_opt ''WorkflowID'' id (PendingChildExecutionInfo.WorkflowID v),
           shown_opt ''RunID'' id (PendingChildExecutionInfo.RunID v),
           shown_opt ''WorkflowTypName'' id (PendingChildExecutionInfo.WorkflowTypName v),
           shown_opt ''InitiatedID'' show_i64 (PendingChildExecutionInfo.InitiatedID v),
           shown_opt ''ParentClosePolicy'' ParentClosePolicy_String
               (PendingChildExecutionInfo.ParentClosePolicy v)])"

definition DescribeWorkflowExecutionResponse_String :: "DescribeWorkflowExecutionResponse option \<Rightarrow>
    string" where
  "DescribeWorkflowExecutionResponse_String v =
     (case v of None \<Rightarrow> ''<nil>''
      | Some v \<Rightarrow> show_struct ''DescribeWorkflowExecutionResponse''
          [shown_opt ''ExecutionConfiguration'' (\<lambda>x. WorkflowExecutionConfiguration_String (Some x))
              (DescribeWorkflowExecutionResponse.ExecutionConfiguration v),
           shown_opt ''WorkflowExecutionInfo'' (\<lambda>x. WorkflowExecutionInfo_String (Some x))
               (DescribeWorkflowExecutionResponse.WorkflowExecutionInfo v),
           shown_opt ''PendingActivities'' (show_list PendingActivityInfo_String)
               (DescribeWorkflowExecutionResponse.PendingActivities v),
           shown_opt ''PendingChildren'' (show_list PendingChildExecutionInfo_String)
               (DescribeWorkflowExecutionResponse.PendingChildren v)])"

definition DomainAlreadyExistsError_String :: "DomainAlreadyExistsError option \<Rightarrow> string" where
  "DomainAlreadyExistsError_String v =
     (case v of None \<Rightarrow> ''<nil>''
      | Some v \<Rightarrow> show_struct ''DomainAlreadyExistsError''
          [shown_field ''Message'' id (DomainAlreadyExistsError.Message v)])"

definition DomainAlreadyExistsError_Error :: "DomainAlreadyExistsError option \<Rightarrow> string" where
  "DomainAlreadyExistsError_Error v = DomainAlreadyExistsError_String v"

definition DomainAlreadyExistsError_ErrorName :: string where
  "DomainAlreadyExistsError_ErrorName = ''DomainAlreadyExistsError''"

definition DomainNotActiveError_String :: "DomainNotActiveError option \<Rightarrow> string" where
  "DomainNotActiveError_String v =
     (case v of None \<Rightarrow> ''<nil>''
      | Some v \<Rightarrow> show_struct ''DomainNotActiveError''
          [shown_field ''Message'' id (DomainNotActiveError.Message v),
           shown_field ''DomainName'' id (DomainNotActiveError.DomainName v),
           shown_field ''CurrentCluster'' id (DomainNotActiveError.CurrentCluster v),
           shown_field ''ActiveCluster'' id (DomainNotActiveError.ActiveCluster v)])"

definition DomainNotActiveError_Error :: "DomainNotActiveError option \<Rightarrow> string" where
  "DomainNotActiveError_Error v = DomainNotActiveError_String v"

definition DomainNotActiveError_ErrorName :: string where
  "DomainNotActiveError_ErrorName = ''DomainNotActiveError''"

definition EntityNotExistsError_String :: "EntityNotExistsError option \<Rightarrow> string" where
  "EntityNotExistsError_String v =
     (case v of None \<Rightarrow> ''<nil>''
      | Some v \<Rightarrow> show_struct ''EntityNotExistsError''
          [shown_field ''Message'' id (EntityNotExistsError.Message v)])"

definition EntityNotExistsError_Error :: "EntityNotExistsError option \<Rightarrow> string" where
  "EntityNotExistsError_Error v = EntityNotExistsError_String v"

definition EntityNotExistsError_ErrorName :: string where
  "EntityNotExistsError_ErrorName = ''EntityNotExistsError''"

definition GetSearchAttributesResponse_String :: "GetSearchAttributesResponse option \<Rightarrow> string" where
  "GetSearchAttributesResponse_String v =
     (case v of None \<Rightarrow> ''<nil>''
      | Some v \<Rightarrow> show_struct ''GetSearchAttributesResponse''
          [shown_opt ''Keys'' (show_map IndexedValueType_String) (GetSearchAttributesResponse.Keys
              v)])"

definition GetWorkflowExecutionHistoryRequest_String :: "GetWorkflowExecutionHistoryRequest option \<Rightarrow>
    string" where
  "GetWorkflowExecutionHistoryRequest_String v =
     (case v of None \<Rightarrow> ''<nil>''
      | Some v \<Rightarrow> show_struct ''GetWorkflowExecutionHistoryRequest''
          [shown_opt ''Domain'' id (GetWorkflowExecutionHistoryRequest.Domain v),
           shown_opt ''Execution'' (\<lambda>x. WorkflowExecution_String (Some x))
               (GetWorkflowExecutionHistoryRequest.Execution v),
           shown_opt ''MaximumPageSize'' show_i32
               (GetWorkflowExecutionHistoryRequest.MaximumPageSize v),
           shown_opt ''NextPageToken'' show_bytes (GetWorkflowExecutionHistoryRequest.NextPageToken
               v),
           shown_opt ''WaitForNewEvent'' show_bool
               (GetWorkflowExecutionHistoryRequest.WaitForNewEvent v),
           shown_opt ''HistoryEventFilterType'' HistoryEventFilterType_String
               (GetWorkflowExecutionHistoryRequest.HistoryEventFilterType v)])"

definition GetWorkflowExecutionHistoryResponse_String :: "(float64 \<Rightarrow> string) \<Rightarrow>
    GetWorkflowExecutionHistoryResponse option \<Rightarrow> string" where
  "GetWorkflowExecutionHistoryResponse_String F v =
     (case v of None \<Rightarrow> ''<nil>''
      | Some v \<Rightarrow> show_struct ''GetWorkflowExecutionHistoryResponse''
          [shown_opt ''History'' (\<lambda>x. History_String F (Some x))
              (GetWorkflowExecutionHistoryResponse.History v),
           shown_opt ''NextPageToken'' show_bytes (GetWorkflowExecutionHistoryResponse.NextPageToken
               v),
           shown_opt ''Archived'' show_bool (GetWorkflowExecutionHistoryResponse.Archived v)])"

definition HistoryBranchRange_String :: "HistoryBranchRange option \<Rightarrow> string" where
  "HistoryBranchRange_String v =
     (case v of None \<Rightarrow> ''<nil>''
      | Some v \<Rightarrow> show_struct ''HistoryBranchRange''
          [shown_opt ''BranchID'' id (HistoryBranchRange.BranchID v),
           shown_opt ''BeginNodeID'' show_i64 (HistoryBranchRange.BeginNodeID v),
           shown_opt ''EndNodeID'' show_i64 (HistoryBranchRange.EndNodeID v)])"

definition HistoryBranch_String :: "HistoryBranch option \<Rightarrow> string" where
  "HistoryBranch_String v =
     (case v of None \<Rightarrow> ''<nil>''
      | Some v \<Rightarrow> show_struct ''HistoryBranch''
          [shown_opt ''TreeID'' id (HistoryBranch.TreeID v),
           shown_opt ''BranchID'' id (HistoryBranch.BranchID v),
           shown_opt ''Ancestors'' (show_list HistoryBranchRange_String) (HistoryBranch.Ancestors
               v)])"

definition InternalServiceError_String :: "InternalServiceError option \<Rightarrow> string" where
  "InternalServiceError_String v =
     (case v of None \<Rightarrow> ''<nil>''
      | Some v \<Rightarrow> show_struct ''InternalServiceError''
          [shown_field ''Message'' id (InternalServiceError.Message v)])"

definition InternalServiceError_Error :: "InternalServiceError option \<Rightarrow> string" where
  "InternalServiceError_Error v = InternalServiceError_String v"

definition InternalServiceError_ErrorName :: string where
  "InternalServiceError_ErrorName = ''InternalServiceError''"

definition LimitExceededError_String :: "LimitExceededError option \<Rightarrow> string" where
  "LimitExceededError_String v =
     (case v of None \<Rightarrow> ''<nil>''
      | Some v \<Rightarrow> show_struct ''LimitExceededError''
          [shown_field ''Message'' id (LimitExceededError.Message v)])"

definition LimitExceededError_Error :: "LimitExceededError option \<Rightarrow> string" where
  "LimitExceededError_Error v = LimitExceededError_String v"

definition LimitExceededError_ErrorName :: string where
  "LimitExceededError_ErrorName = ''LimitExceededError''"

definition ListArchivedWorkflowExecutionsRequest_String :: "ListArchivedWorkflowExecutionsRequest
    option \<Rightarrow> string" where
  "ListArchivedWorkflowExecutionsRequest_String v =
     (case v of None \<Rightarrow> ''<nil>''
      | Some v \<Rightarrow> show_struct ''ListArchivedWorkflowExecutionsRequest''
          [shown_opt ''Domain'' id (ListArchivedWorkflowExecutionsRequest.Domain v),
           shown_opt ''PageSize'' show_i32 (ListArchivedWorkflowExecutionsRequest.PageSize v),
           shown_opt ''NextPageToken'' show_bytes
               (ListArchivedWorkflowExecutionsRequest.NextPageToken v),
           shown_opt ''Query'' id (ListArchivedWorkflowExecutionsRequest.Query v)])"

definition ListArchivedWorkflowExecutionsResponse_String :: "ListArchivedWorkflowExecutionsResponse
    option \<Rightarrow> string" where
  "ListArchivedWorkflowExecutionsResponse_String v =
     (case v of None \<Rightarrow> ''<nil>''
      | Some v \<Rightarrow> show_struct ''ListArchivedWorkflowExecutionsResponse''
          [shown_opt ''Executions'' (show_list WorkflowExecutionInfo_String)
              (ListArchivedWorkflowExecutionsResponse.Executions v),
           shown_opt ''NextPageToken'' show_bytes
               (ListArchivedWorkflowExecutionsResponse.NextPageToken v)])"

definition StartTimeFilter_String :: "StartTimeFilter option \<Rightarrow> string" where
  "StartTimeFilter_String v =
     (case v of None \<Rightarrow> ''<nil>''
      | Some v \<Rightarrow> show_struct ''StartTimeFilter''
          [shown_opt ''EarliestTime'' show_i64 (StartTimeFilter.EarliestTime v),
           shown_opt ''LatestTime'' show_i64 (StartTimeFilter.LatestTime v)])"

definition WorkflowExecutionFilter_String :: "WorkflowExecutionFilter option \<Rightarrow> string" where
  "WorkflowExecutionFilter_String v =
     (case v of None \<Rightarrow> ''<nil>''
      | Some v \<Rightarrow> show_struct ''WorkflowExecutionFilter''
          [shown_opt ''WorkflowId'' id (WorkflowExecutionFilter.WorkflowId v),
           shown_opt ''RunId'' id (WorkflowExecutionFilter.RunId v)])"

definition WorkflowTypeFilter_String :: "WorkflowTypeFilter option \<Rightarrow> string" where
  "WorkflowTypeFilter_String v =
     (case v of None \<Rightarrow> ''<nil>''
      | Some v \<Rightarrow> show_struct ''WorkflowTypeFilter''
          [shown_opt ''Name'' id (WorkflowTypeFilter.Name v)])"

definition ListClosedWorkflowExecutionsRequest_String :: "ListClosedWorkflowExecutionsRequest option
    \<Rightarrow> string" where
  "ListClosedWorkflowExecutionsRequest_String v =
     (case v of None \<Rightarrow> ''<nil>''
      | Some v \<Rightarrow> show_struct ''ListClosedWorkflowExecutionsRequest''
          [shown_opt ''Domain'' id (ListClosedWorkflowExecutionsRequest.Domain v),
           shown_opt ''MaximumPageSize'' show_i32
               (ListClosedWorkflowExecutionsRequest.MaximumPageSize v),
           shown_opt ''NextPageToken'' show_bytes (ListClosedWorkflowExecutionsRequest.NextPageToken
               v),
           shown_opt ''StartTimeFilter'' (\<lambda>x. StartTimeFilter_String (Some x))
               (ListClosedWorkflowExecutionsRequest.StartTimeFilter v),
           shown_opt ''ExecutionFilter'' (\<lambda>x. WorkflowExecutionFilter_String (Some x))
               (ListClosedWorkflowExecutionsRequest.ExecutionFilter v),
           shown_opt ''TypeFilter'' (\<lambda>x. WorkflowTypeFilter_String (Some x))
               (ListClosedWorkflowExecutionsRequest.TypeFilter v),
           shown_opt ''StatusFilter'' WorkflowExecutionCloseStatus_String
               (ListClosedWorkflowExecutionsRequest.StatusFilter v)])"

definition ListClosedWorkflowExecutionsResponse_String :: "ListClosedWorkflowExecutionsResponse
    option \<Rightarrow> string" where
  "ListClosedWorkflowExecutionsResponse_String v =
     (case v of None \<Rightarrow> ''<nil>''
      | Some v \<Rightarrow> show_struct ''ListClosedWorkflowExecutionsResponse''
          [shown_opt ''Executions'' (show_list WorkflowExecutionInfo_String)
              (ListClosedWorkflowExecutionsResponse.Executions v),
           shown_opt ''NextPageToken'' show_bytes
               (ListClosedWorkflowExecutionsResponse.NextPageToken v)])"

definition ListDomainsRequest_String :: "ListDomainsRequest option \<Rightarrow> string" where
  "ListDomainsRequest_String v =
     (case v of None \<Rightarrow> ''<nil>''
      | Some v \<Rightarrow> show_struct ''ListDomainsRequest''
          [shown_opt ''PageSize'' show_i32 (ListDomainsRequest.PageSize v),
           shown_opt ''NextPageToken'' show_bytes (ListDomainsRequest.NextPageToken v)])"

definition ListDomainsResponse_String :: "ListDomainsResponse option \<Rightarrow> string" where
  "ListDomainsResponse_String v =
     (case v of None \<Rightarrow> ''<nil>''
      | Some v \<Rightarrow> show_struct ''ListDomainsResponse''
          [shown_opt ''Domains'' (show_list DescribeDomainResponse_String)
              (ListDomainsResponse.Domains v),
           shown_opt ''NextPageToken'' show_bytes (ListDomainsResponse.NextPageToken v)])"

definition ListOpenWorkflowExecutionsRequest_String :: "ListOpenWorkflowExecutionsRequest option \<Rightarrow>
    string" where
  "ListOpenWorkflowExecutionsRequest_String v =
     (case v of None \<Rightarrow> ''<nil>''
      | Some v \<Rightarrow> show_struct ''ListOpenWorkflowExecutionsRequest''
          [shown_opt ''Domain'' id (ListOpenWorkflowExecutionsRequest.Domain v),
           shown_opt ''MaximumPageSize'' show_i32 (ListOpenWorkflowExecutionsRequest.MaximumPageSize
               v),
           shown_opt ''NextPageToken'' show_bytes (ListOpenWorkflowExecutionsRequest.NextPageToken
               v),
           shown_opt ''StartTimeFilter'' (\<lambda>x. StartTimeFilter_String (Some x))
               (ListOpenWorkflowExecutionsRequest.StartTimeFilter v),
           shown_opt ''ExecutionFilter'' (\<lambda>x. WorkflowExecutionFilter_String (Some x))
               (ListOpenWorkflowExecutionsRequest.ExecutionFilter v),
           shown_opt ''TypeFilter'' (\<lambda>x. WorkflowTypeFilter_String (Some x))
               (ListOpenWorkflowExecutionsRequest.TypeFilter v)])"

definition ListOpenWorkflowExecutionsResponse_String :: "ListOpenWorkflowExecutionsResponse option \<Rightarrow>
    string" where
  "ListOpenWorkflowExecutionsResponse_String v =
     (case v of None \<Rightarrow> ''<nil>''
      | Some v \<Rightarrow> show_struct ''ListOpenWorkflowExecutionsResponse''
          [shown_opt ''Executions'' (show_list WorkflowExecutionInfo_String)
              (ListOpenWorkflowExecutionsResponse.Executions v),
           shown_opt ''NextPageToken'' show_bytes (ListOpenWorkflowExecutionsResponse.NextPageToken
               v)])"

definition ListWorkflowExecutionsRequest_String :: "ListWorkflowExecutionsRequest option \<Rightarrow> string"
    where
  "ListWorkflowExecutionsRequest_String v =
     (case v of None \<Rightarrow> ''<nil>''
      | Some v \<Rightarrow> show_struct ''ListWorkflowExecutionsRequest''
          [shown_opt ''Domain'' id (ListWorkflowExecutionsRequest.Domain v),
           shown_opt ''PageSize'' show_i32 (ListWorkflowExecutionsRequest.PageSize v),
           shown_opt ''NextPageToken'' show_bytes (ListWorkflowExecutionsRequest.NextPageToken v),
           shown_opt ''Query'' id (ListWorkflowExecutionsRequest.Query v)])"

definition ListWorkflowExecutionsResponse_String :: "ListWorkflowExecutionsResponse option \<Rightarrow> string"
    where
  "ListWorkflowExecutionsResponse_String v =
     (case v of None \<Rightarrow> ''<nil>''
      | Some v \<Rightarrow> show_struct ''ListWorkflowExecutionsResponse''
          [shown_opt ''Executions'' (show_list WorkflowExecutionInfo_String)
              (ListWorkflowExecutionsResponse.Executions v),
           shown_opt ''NextPageToken'' show_bytes (ListWorkflowExecutionsResponse.NextPageToken
               v)])"

definition TaskListMetadata_String :: "(float64 \<Rightarrow> string) \<Rightarrow> TaskListMetadata option \<Rightarrow> string" where
  "TaskListMetadata_String F v =
     (case v of None \<Rightarrow> ''<nil>''
      | Some v \<Rightarrow> show_struct ''TaskListMetadata''
          [shown_opt ''MaxTasksPerSecond'' F (TaskListMetadata.MaxTasksPerSecond v)])"

definition PollForActivityTaskRequest_String :: "(float64 \<Rightarrow> string) \<Rightarrow> PollForActivityTaskRequest
    option \<Rightarrow> string" where
  "PollForActivityTaskRequest_String F v =
     (case v of None \<Rightarrow> ''<nil>''
      | Some v \<Rightarrow> show_struct ''PollForActivityTaskRequest''
          [shown_opt ''Domain'' id (PollForActivityTaskRequest.Domain v),
           shown_opt ''TaskList'' (\<lambda>x. TaskList_String (Some x))
               (PollForActivityTaskRequest.TaskList v),
           shown_opt ''Identity'' id (PollForActivityTaskRequest.Identity v),
           shown_opt ''TaskListMetadata'' (\<lambda>x. TaskListMetadata_String F (Some x))
               (PollForActivityTaskRequest.TaskListMetadata v)])"

definition PollForActivityTaskResponse_String :: "PollForActivityTaskResponse option \<Rightarrow> string" where
  "PollForActivityTaskResponse_String v =
     (case v of None \<Rightarrow> ''<nil>''
      | Some v \<Rightarrow> show_struct ''PollForActivityTaskResponse''
          [shown_opt ''TaskToken'' show_bytes (PollForActivityTaskResponse.TaskToken v),
           shown_opt ''WorkflowExecution'' (\<lambda>x. WorkflowExecution_String (Some x))
               (PollForActivityTaskResponse.WorkflowExecution v),
           shown_opt ''ActivityId'' id (PollForActivityTaskResponse.ActivityId v),
           shown_opt ''ActivityType'' (\<lambda>x. ActivityType_String (Some x))
               (PollForActivityTaskResponse.ActivityType v),
           shown_opt ''Input'' show_bytes (PollForActivityTaskResponse.Input v),
           shown_opt ''ScheduledTimestamp'' show_i64 (PollForActivityTaskResponse.ScheduledTimestamp
               v),
           shown_opt ''ScheduleToCloseTimeoutSeconds'' show_i32
               (PollForActivityTaskResponse.ScheduleToCloseTimeoutSeconds v),
           shown_opt ''StartedTimestamp'' show_i64 (PollForActivityTaskResponse.StartedTimestamp v),
           shown_opt ''StartToCloseTimeoutSeconds'' show_i32
               (PollForActivityTaskResponse.StartToCloseTimeoutSeconds v),
           shown_opt ''HeartbeatTimeoutSeconds'' show_i32
               (PollForActivityTaskResponse.HeartbeatTimeoutSeconds v),
           shown_opt ''Attempt'' show_i32 (PollForActivityTaskResponse.Attempt v),
           shown_opt ''ScheduledTimestampOfThisAttempt'' show_i64
               (PollForActivityTaskResponse.ScheduledTimestampOfThisAttempt v),
           shown_opt ''HeartbeatDetails'' show_bytes (PollForActivityTaskResponse.HeartbeatDetails
               v),
           shown_opt ''WorkflowType'' (\<lambda>x. WorkflowType_String (Some x))
               (PollForActivityTaskResponse.WorkflowType v),
           shown_opt ''WorkflowDomain'' id (PollForActivityTaskResponse.WorkflowDomain v),
           shown_opt ''Header'' (\<lambda>x. Header_String (Some x)) (PollForActivityTaskResponse.Header
               v)])"

definition PollForDecisionTaskRequest_String :: "PollForDecisionTaskRequest option \<Rightarrow> string" where
  "PollForDecisionTaskRequest_String v =
     (case v of None \<Rightarrow> ''<nil>''
      | Some v \<Rightarrow> show_struct ''PollForDecisionTaskRequest''
          [shown_opt ''Domain'' id (PollForDecisionTaskRequest.Domain v),
           shown_opt ''TaskList'' (\<lambda>x. TaskList_String (Some x))
               (PollForDecisionTaskRequest.TaskList v),
           shown_opt ''Identity'' id (PollForDecisionTaskRequest.Identity v),
           shown_opt ''BinaryChecksum'' id (PollForDecisionTaskRequest.BinaryChecksum v)])"

definition WorkflowQuery_String :: "WorkflowQuery option \<Rightarrow> string" where
  "WorkflowQuery_String v =
     (case v of None \<Rightarrow> ''<nil>''
      | Some v \<Rightarrow> show_struct ''WorkflowQuery''
          [shown_opt ''QueryType'' id (WorkflowQuery.QueryType v),
           shown_opt ''QueryArgs'' show_bytes (WorkflowQuery.QueryArgs v)])"

definition PollForDecisionTaskResponse_String :: "(float64 \<Rightarrow> string) \<Rightarrow> PollForDecisionTaskResponse
    option \<Rightarrow> string" where
  "PollForDecisionTaskResponse_String F v =
     (case v of None \<Rightarrow> ''<nil>''
      | Some v \<Rightarrow> show_struct ''PollForDecisionTaskResponse''
          [shown_opt ''TaskToken'' show_bytes (PollForDecisionTaskResponse.TaskToken v),
           shown_opt ''WorkflowExecution'' (\<lambda>x. WorkflowExecution_String (Some x))
               (PollForDecisionTaskResponse.WorkflowExecution v),
           shown_opt ''WorkflowType'' (\<lambda>x. WorkflowType_String (Some x))
               (PollForDecisionTaskResponse.WorkflowType v),
           shown_opt ''PreviousStartedEventId'' show_i64
               (PollForDecisionTaskResponse.PreviousStartedEventId v),
           shown_opt ''StartedEventId'' show_i64 (PollForDecisionTaskResponse.StartedEventId v),
           shown_opt ''Attempt'' show_i64 (PollForDecisionTaskResponse.Attempt v),
           shown_opt ''BacklogCountHint'' show_i64 (PollForDecisionTaskResponse.BacklogCountHint v),
           shown_opt ''History'' (\<lambda>x. History_String F (Some x))
               (PollForDecisionTaskResponse.History v),
           shown_opt ''NextPageToken'' show_bytes (PollForDecisionTaskResponse.NextPageToken v),
           shown_opt ''Query'' (\<lambda>x. WorkflowQuery_String (Some x))
               (PollForDecisionTaskResponse.Query v),
           shown_opt ''WorkflowExecutionTaskList'' (\<lambda>x. TaskList_String (Some x))
               (PollForDecisionTaskResponse.WorkflowExecutionTaskList v),
           shown_opt ''ScheduledTimestamp'' show_i64 (PollForDecisionTaskResponse.ScheduledTimestamp
               v),
           shown_opt ''StartedTimestamp'' show_i64 (PollForDecisionTaskResponse.StartedTimestamp v),
           shown_opt ''Queries'' (show_list WorkflowQuery_String)
               (PollForDecisionTaskResponse.Queries v)])"

definition QueryFailedError_String :: "QueryFailedError option \<Rightarrow> string" where
  "QueryFailedError_String v =
     (case v of None \<Rightarrow> ''<nil>''
      | Some v \<Rightarrow> show_struct ''QueryFailedError''
          [shown_field ''Message'' id (QueryFailedError.Message v)])"

definition QueryFailedError_Error :: "QueryFailedError option \<Rightarrow> string" where
  "QueryFailedError_Error v = QueryFailedError_String v"

definition QueryFailedError_ErrorName :: string where
  "QueryFailedError_ErrorName = ''QueryFailedError''"

definition QueryRejected_String :: "QueryRejected option \<Rightarrow> string" where
  "QueryRejected_String v =
     (case v of None \<Rightarrow> ''<nil>''
      | Some v \<Rightarrow> show_struct ''QueryRejected''
          [shown_opt ''CloseStatus'' WorkflowExecutionCloseStatus_String (QueryRejected.CloseStatus
              v)])"

definition QueryWorkflowRequest_String :: "QueryWorkflowRequest option \<Rightarrow> string" where
  "QueryWorkflowRequest_String v =
     (case v of None \<Rightarrow> ''<nil>''
      | Some v \<Rightarrow> show_struct ''QueryWorkflowRequest''
          [shown_opt ''Domain'' id (QueryWorkflowRequest.Domain v),
           shown_opt ''Execution'' (\<lambda>x. WorkflowExecution_String (Some x))
               (QueryWorkflowRequest.Execution v),
           shown_opt ''Query'' (\<lambda>x. WorkflowQuery_String (Some x)) (QueryWorkflowRequest.Query v),
           shown_opt ''QueryRejectCondition'' QueryRejectCondition_String
               (QueryWorkflowRequest.QueryRejectCondition v)])"

definition QueryWorkflowResponse_String :: "QueryWorkflowResponse option \<Rightarrow> string" where
  "QueryWorkflowResponse_String v =
     (case v of None \<Rightarrow> ''<nil>''
      | Some v \<Rightarrow> show_struct ''QueryWorkflowResponse''
          [shown_opt ''QueryResult'' show_bytes (QueryWorkflowResponse.QueryResult v),
           shown_opt ''QueryRejected'' (\<lambda>x. QueryRejected_String (Some x))
               (QueryWorkflowResponse.QueryRejected v)])"

definition RecordActivityTaskHeartbeatByIDRequest_String :: "RecordActivityTaskHeartbeatByIDRequest
    option \<Rightarrow> string" where
  "RecordActivityTaskHeartbeatByIDRequest_String v =
     (case v of None \<Rightarrow> ''<nil>''
      | Some v \<Rightarrow> show_struct ''RecordActivityTaskHeartbeatByIDRequest''
          [shown_opt ''Domain'' id (RecordActivityTaskHeartbeatByIDRequest.Domain v),
           shown_opt ''WorkflowID'' id (RecordActivityTaskHeartbeatByIDRequest.WorkflowID v),
           shown_opt ''RunID'' id (RecordActivityTaskHeartbeatByIDRequest.RunID v),
           shown_opt ''ActivityID'' id (RecordActivityTaskHeartbeatByIDRequest.ActivityID v),
           shown_opt ''Details'' show_bytes (RecordActivityTaskHeartbeatByIDRequest.Details v),
           shown_opt ''Identity'' id (RecordActivityTaskHeartbeatByIDRequest.Identity v)])"

definition RecordActivityTaskHeartbeatRequest_String :: "RecordActivityTaskHeartbeatRequest option \<Rightarrow>
    string" where
  "RecordActivityTaskHeartbeatRequest_String v =
     (case v of None \<Rightarrow> ''<nil>''
      | Some v \<Rightarrow> show_struct ''RecordActivityTaskHeartbeatRequest''
          [shown_opt ''TaskToken'' show_bytes (RecordActivityTaskHeartbeatRequest.TaskToken v),
           shown_opt ''Details'' show_bytes (RecordActivityTaskHeartbeatRequest.Details v),
           shown_opt ''Identity'' id (RecordActivityTaskHeartbeatRequest.Identity v)])"

definition RecordActivityTaskHeartbeatResponse_String :: "RecordActivityTaskHeartbeatResponse option
    \<Rightarrow> string" where
  "RecordActivityTaskHeartbeatResponse_String v =
     (case v of None \<Rightarrow> ''<nil>''
      | Some v \<Rightarrow> show_struct ''RecordActivityTaskHeartbeatResponse''
          [shown_opt ''CancelRequested'' show_bool
              (RecordActivityTaskHeartbeatResponse.CancelRequested v)])"

definition RegisterDomainRequest_String :: "RegisterDomainRequest option \<Rightarrow> string" where
  "RegisterDomainRequest_String v =
     (case v of None \<Rightarrow> ''<nil>''
      | Some v \<Rightarrow> show_struct ''RegisterDomainRequest''
          [shown_opt ''Name'' id (RegisterDomainRequest.Name v),
           shown_opt ''Description'' id (RegisterDomainRequest.Description v),
           shown_opt ''OwnerEmail'' id (RegisterDomainRequest.OwnerEmail v),
           shown_opt ''WorkflowExecutionRetentionPeriodInDays'' show_i32
               (RegisterDomainRequest.WorkflowExecutionRetentionPeriodInDays v),
           shown_opt ''EmitMetric'' show_bool (RegisterDomainRequest.EmitMetric v),
           shown_opt ''Clusters'' (show_list ClusterReplicationConfiguration_String)
               (RegisterDomainRequest.Clusters v),
           shown_opt ''ActiveClusterName'' id (RegisterDomainRequest.ActiveClusterName v),
           shown_opt ''Data'' (show_map id) (RegisterDomainRequest.Data v),
           shown_opt ''SecurityToken'' id (RegisterDomainRequest.SecurityToken v),
           shown_opt ''IsGlobalDomain'' show_bool (RegisterDomainRequest.IsGlobalDomain v),
           shown_opt ''HistoryArchivalStatus'' ArchivalStatus_String
               (RegisterDomainRequest.HistoryArchivalStatus v),
           shown_opt ''HistoryArchivalURI'' id (RegisterDomainRequest.HistoryArchivalURI v),
           shown_opt ''VisibilityArchivalStatus'' ArchivalStatus_String
               (RegisterDomainRequest.VisibilityArchivalStatus v),
           shown_opt ''VisibilityArchivalURI'' id (RegisterDomainRequest.VisibilityArchivalURI v)])"

definition RemoveTaskRequest_String :: "RemoveTaskRequest option \<Rightarrow> string" where
  "RemoveTaskRequest_String v =
     (case v of None \<Rightarrow> ''<nil>''
      | Some v \<Rightarrow> show_struct ''RemoveTaskRequest''
          [shown_opt ''ShardID'' show_i32 (RemoveTaskRequest.ShardID v),
           shown_opt ''Type'' show_i32 (RemoveTaskRequest.Type v),
           shown_opt ''TaskID'' show_i64 (RemoveTaskRequest.TaskID v)])"

definition ReplicationInfo_String :: "ReplicationInfo option \<Rightarrow> string" where
  "ReplicationInfo_String v =
     (case v of None \<Rightarrow> ''<nil>''
      | Some v \<Rightarrow> show_struct ''ReplicationInfo''
          [shown_opt ''Version'' show_i64 (ReplicationInfo.Version v),
           shown_opt ''LastEventId'' show_i64 (ReplicationInfo.LastEventId v)])"

definition RequestCancelWorkflowExecutionRequest_String :: "RequestCancelWorkflowExecutionRequest
    option \<Rightarrow> string" where
  "RequestCancelWorkflowExecutionRequest_String v =
     (case v of None \<Rightarrow> ''<nil>''
      | Some v \<Rightarrow> show_struct ''RequestCancelWorkflowExecutionRequest''
          [shown_opt ''Domain'' id (RequestCancelWorkflowExecutionRequest.Domain v),
           shown_opt ''WorkflowExecution'' (\<lambda>x. WorkflowExecution_String (Some x))
               (RequestCancelWorkflowExecutionRequest.WorkflowExecution v),
           shown_opt ''Identity'' id (RequestCancelWorkflowExecutionRequest.Identity v),
           shown_opt ''RequestId'' id (RequestCancelWorkflowExecutionRequest.RequestId v)])"

definition ResetStickyTaskListRequest_String :: "ResetStickyTaskListRequest option \<Rightarrow> string" where
  "ResetStickyTaskListRequest_String v =
     (case v of None \<Rightarrow> ''<nil>''
      | Some v \<Rightarrow> show_struct ''ResetStickyTaskListRequest''
          [shown_opt ''Domain'' id (ResetStickyTaskListRequest.Domain v),
           shown_opt ''Execution'' (\<lambda>x. WorkflowExecution_String (Some x))
               (ResetStickyTaskListRequest.Execution v)])"

definition ResetStickyTaskListResponse_String :: "ResetStickyTaskListResponse option \<Rightarrow> string" where
  "ResetStickyTaskListResponse_String v =
     (case v of None \<Rightarrow> ''<nil>''
      | Some v \<Rightarrow> show_struct ''ResetStickyTaskListResponse''
          [])"

definition ResetWorkflowExecutionRequest_String :: "ResetWorkflowExecutionRequest option \<Rightarrow> string"
    where
  "ResetWorkflowExecutionRequest_String v =
     (case v of None \<Rightarrow> ''<nil>''
      | Some v \<Rightarrow> show_struct ''ResetWorkflowExecutionRequest''
          [shown_opt ''Domain'' id (ResetWorkflowExecutionRequest.Domain v),
           shown_opt ''WorkflowExecution'' (\<lambda>x. WorkflowExecution_String (Some x))
               (ResetWorkflowExecutionRequest.WorkflowExecution v),
           shown_opt ''Reason'' id (ResetWorkflowExecutionRequest.Reason v),
           shown_opt ''DecisionFinishEventId'' show_i64
               (ResetWorkflowExecutionRequest.DecisionFinishEventId v),
           shown_opt ''RequestId'' id (ResetWorkflowExecutionRequest.RequestId v)])"

definition ResetWorkflowExecutionResponse_String :: "ResetWorkflowExecutionResponse option \<Rightarrow> string"
    where
  "ResetWorkflowExecutionResponse_String v =
     (case v of None \<Rightarrow> ''<nil>''
      | Some v \<Rightarrow> show_struct ''ResetWorkflowExecutionResponse''
          [shown_opt ''RunId'' id (ResetWorkflowExecutionResponse.RunId v)])"

definition RespondActivityTaskCanceledByIDRequest_String :: "RespondActivityTaskCanceledByIDRequest
    option \<Rightarrow> string" where
  "RespondActivityTaskCanceledByIDRequest_String v =
     (case v of None \<Rightarrow> ''<nil>''
      | Some v \<Rightarrow> show_struct ''RespondActivityTaskCanceledByIDRequest''
          [shown_opt ''Domain'' id (RespondActivityTaskCanceledByIDRequest.Domain v),
           shown_opt ''WorkflowID'' id (RespondActivityTaskCanceledByIDRequest.WorkflowID v),
           shown_opt ''RunID'' id (RespondActivityTaskCanceledByIDRequest.RunID v),
           shown_opt ''ActivityID'' id (RespondActivityTaskCanceledByIDRequest.ActivityID v),
           shown_opt ''Details'' show_bytes (RespondActivityTaskCanceledByIDRequest.Details v),
           shown_opt ''Identity'' id (RespondActivityTaskCanceledByIDRequest.Identity v)])"

definition RespondActivityTaskCanceledRequest_String :: "RespondActivityTaskCanceledRequest option \<Rightarrow>
    string" where
  "RespondActivityTaskCanceledRequest_String v =
     (case v of None \<Rightarrow> ''<nil>''
      | Some v \<Rightarrow> show_struct ''RespondActivityTaskCanceledRequest''
          [shown_opt ''TaskToken'' show_bytes (RespondActivityTaskCanceledRequest.TaskToken v),
           shown_opt ''Details'' show_bytes (RespondActivityTaskCanceledRequest.Details v),
           shown_opt ''Identity'' id (RespondActivityTaskCanceledRequest.Identity v)])"

definition RespondActivityTaskCompletedByIDRequest_String ::
    "RespondActivityTaskCompletedByIDRequest option \<Rightarrow> string" where
  "RespondActivityTaskCompletedByIDRequest_String v =
     (case v of None \<Rightarrow> ''<nil>''
      | Some v \<Rightarrow> show_struct ''RespondActivityTaskCompletedByIDRequest''
          [shown_opt ''Domain'' id (RespondActivityTaskCompletedByIDRequest.Domain v),
           shown_opt ''WorkflowID'' id (RespondActivityTaskCompletedByIDRequest.WorkflowID v),
           shown_opt ''RunID'' id (RespondActivityTaskCompletedByIDRequest.RunID v),
           shown_opt ''ActivityID'' id (RespondActivityTaskCompletedByIDRequest.ActivityID v),
           shown_opt ''Result'' show_bytes (RespondActivityTaskCompletedByIDRequest.Result v),
           shown_opt ''Identity'' id (RespondActivityTaskCompletedByIDRequest.Identity v)])"

definition RespondActivityTaskCompletedRequest_String :: "RespondActivityTaskCompletedRequest option
    \<Rightarrow> string" where
  "RespondActivityTaskCompletedRequest_String v =
     (case v of None \<Rightarrow> ''<nil>''
      | Some v \<Rightarrow> show_struct ''RespondActivityTaskCompletedRequest''
          [shown_opt ''TaskToken'' show_bytes (RespondActivityTaskCompletedRequest.TaskToken v),
           shown_opt ''Result'' show_bytes (RespondActivityTaskCompletedRequest.Result v),
           shown_opt ''Identity'' id (RespondActivityTaskCompletedRequest.Identity v)])"

definition RespondActivityTaskFailedByIDRequest_String :: "RespondActivityTaskFailedByIDRequest
    option \<Rightarrow> string" where
  "RespondActivityTaskFailedByIDRequest_String v =
     (case v of None \<Rightarrow> ''<nil>''
      | Some v \<Rightarrow> show_struct ''RespondActivityTaskFailedByIDRequest''
          [shown_opt ''Domain'' id (RespondActivityTaskFailedByIDRequest.Domain v),
           shown_opt ''WorkflowID'' id (RespondActivityTaskFailedByIDRequest.WorkflowID v),
           shown_opt ''RunID'' id (RespondActivityTaskFailedByIDRequest.RunID v),
           shown_opt ''ActivityID'' id (RespondActivityTaskFailedByIDRequest.ActivityID v),
           shown_opt ''Reason'' id (RespondActivityTaskFailedByIDRequest.Reason v),
           shown_opt ''Details'' show_bytes (RespondActivityTaskFailedByIDRequest.Details v),
           shown_opt ''Identity'' id (RespondActivityTaskFailedByIDRequest.Identity v)])"

definition RespondActivityTaskFailedRequest_String :: "RespondActivityTaskFailedRequest option \<Rightarrow>
    string" where
  "RespondActivityTaskFailedRequest_String v =
     (case v of None \<Rightarrow> ''<nil>''
      | Some v \<Rightarrow> show_struct ''RespondActivityTaskFailedRequest''
          [shown_opt ''TaskToken'' show_bytes (RespondActivityTaskFailedRequest.TaskToken v),
           shown_opt ''Reason'' id (RespondActivityTaskFailedRequest.Reason v),
           shown_opt ''Details'' show_bytes (RespondActivityTaskFailedRequest.Details v),
           shown_opt ''Identity'' id (RespondActivityTaskFailedRequest.Identity v)])"

definition StickyExecutionAttributes_String :: "StickyExecutionAttributes option \<Rightarrow> string" where
  "StickyExecutionAttributes_String v =
     (case v of None \<Rightarrow> ''<nil>''
      | Some v \<Rightarrow> show_struct ''StickyExecutionAttributes''
          [shown_opt ''WorkerTaskList'' (\<lambda>x. TaskList_String (Some x))
              (StickyExecutionAttributes.WorkerTaskList v),
           shown_opt ''ScheduleToStartTimeoutSeconds'' show_i32
               (StickyExecutionAttributes.ScheduleToStartTimeoutSeconds v)])"

definition WorkflowQueryResult_String :: "WorkflowQueryResult option \<Rightarrow> string" where
  "WorkflowQueryResult_String v =
     (case v of None \<Rightarrow> ''<nil>''
      | Some v \<Rightarrow> show_struct ''WorkflowQueryResult''
          [shown_opt ''ResultType'' QueryResultType_String (WorkflowQueryResult.ResultType v),
           shown_opt ''Answer'' show_bytes (WorkflowQueryResult.Answer v),
           shown_opt ''ErrorReason'' id (WorkflowQueryResult.ErrorReason v),
           shown_opt ''ErrorDetails'' show_bytes (WorkflowQueryResult.ErrorDetails v)])"

definition RespondDecisionTaskCompletedRequest_String :: "(float64 \<Rightarrow> string) \<Rightarrow>
    RespondDecisionTaskCompletedRequest option \<Rightarrow> string" where
  "RespondDecisionTaskCompletedRequest_String F v =
     (case v of None \<Rightarrow> ''<nil>''
      | Some v \<Rightarrow> show_struct ''RespondDecisionTaskCompletedRequest''
          [shown_opt ''TaskToken'' show_bytes (RespondDecisionTaskCompletedRequest.TaskToken v),
           shown_opt ''Decisions'' (show_list (Decision_String F))
               (RespondDecisionTaskCompletedRequest.Decisions v),
           shown_opt ''ExecutionContext'' show_bytes
               (RespondDecisionTaskCompletedRequest.ExecutionContext v),
           shown_opt ''Identity'' id (RespondDecisionTaskCompletedRequest.Identity v),
           shown_opt ''StickyAttributes'' (\<lambda>x. StickyExecutionAttributes_String (Some x))
               (RespondDecisionTaskCompletedRequest.StickyAttributes v),
           shown_opt ''ReturnNewDecisionTask'' show_bool
               (RespondDecisionTaskCompletedRequest.ReturnNewDecisionTask v),
           shown_opt ''ForceCreateNewDecisionTask'' show_bool
               (RespondDecisionTaskCompletedRequest.ForceCreateNewDecisionTask v),
           shown_opt ''BinaryChecksum'' id (RespondDecisionTaskCompletedRequest.BinaryChecksum v),
           shown_opt ''QueryResults'' (show_list WorkflowQueryResult_String)
               (RespondDecisionTaskCompletedRequest.QueryResults v)])"

definition RespondDecisionTaskCompletedResponse_String :: "(float64 \<Rightarrow> string) \<Rightarrow>
    RespondDecisionTaskCompletedResponse option \<Rightarrow> string" where
  "RespondDecisionTaskCompletedResponse_String F v =
     (case v of None \<Rightarrow> ''<nil>''
      | Some v \<Rightarrow> show_struct ''RespondDecisionTaskCompletedResponse''
          [shown_opt ''DecisionTask'' (\<lambda>x. PollForDecisionTaskResponse_String F (Some x))
              (RespondDecisionTaskCompletedResponse.DecisionTask v)])"

definition RespondDecisionTaskFailedRequest_String :: "RespondDecisionTaskFailedRequest option \<Rightarrow>
    string" where
  "RespondDecisionTaskFailedRequest_String v =
     (case v of None \<Rightarrow> ''<nil>''
      | Some v \<Rightarrow> show_struct ''RespondDecisionTaskFailedRequest''
          [shown_opt ''TaskToken'' show_bytes (RespondDecisionTaskFailedRequest.TaskToken v),
           shown_opt ''Cause'' DecisionTaskFailedCause_String
               (RespondDecisionTaskFailedRequest.Cause v),
           shown_opt ''Details'' show_bytes (RespondDecisionTaskFailedRequest.Details v),
           shown_opt ''Identity'' id (RespondDecisionTaskFailedRequest.Identity v)])"

definition RespondQueryTaskCompletedRequest_String :: "RespondQueryTaskCompletedRequest option \<Rightarrow>
    string" where
  "RespondQueryTaskCompletedRequest_String v =
     (case v of None \<Rightarrow> ''<nil>''
      | Some v \<Rightarrow> show_struct ''RespondQueryTaskCompletedRequest''
          [shown_opt ''TaskToken'' show_bytes (RespondQueryTaskCompletedRequest.TaskToken v),
           shown_opt ''CompletedType'' QueryTaskCompletedType_String
               (RespondQueryTaskCompletedRequest.CompletedType v),
           shown_opt ''QueryResult'' show_bytes (RespondQueryTaskCompletedRequest.QueryResult v),
           shown_opt ''ErrorMessage'' id (RespondQueryTaskCompletedRequest.ErrorMessage v)])"

definition RetryTaskError_String :: "RetryTaskError option \<Rightarrow> string" where
  "RetryTaskError_String v =
     (case v of None \<Rightarrow> ''<nil>''
      | Some v \<Rightarrow> show_struct ''RetryTaskError''
          [shown_field ''Message'' id (RetryTaskError.Message v),
           shown_opt ''DomainId'' id (RetryTaskError.DomainId v),
           shown_opt ''WorkflowId'' id (RetryTaskError.WorkflowId v),
           shown_opt ''RunId'' id (RetryTaskError.RunId v),
           shown_opt ''NextEventId'' show_i64 (RetryTaskError.NextEventId v)])"

definition RetryTaskError_Error :: "RetryTaskError option \<Rightarrow> string" where
  "RetryTaskError_Error v = RetryTaskError_String v"

definition RetryTaskError_ErrorName :: string where
  "RetryTaskError_ErrorName = ''RetryTaskError''"

definition ServiceBusyError_String :: "ServiceBusyError option \<Rightarrow> string" where
  "ServiceBusyError_String v =
     (case v of None \<Rightarrow> ''<nil>''
      | Some v \<Rightarrow> show_struct ''ServiceBusyError''
          [shown_field ''Message'' id (ServiceBusyError.Message v)])"

definition ServiceBusyError_Error :: "ServiceBusyError option \<Rightarrow> string" where
  "ServiceBusyError_Error v = ServiceBusyError_String v"

definition ServiceBusyError_ErrorName :: string where
  "ServiceBusyError_ErrorName = ''ServiceBusyError''"

definition SignalWithStartWorkflowExecutionRequest_String :: "(float64 \<Rightarrow> string) \<Rightarrow>
    SignalWithStartWorkflowExecutionRequest option \<Rightarrow> string" where
  "SignalWithStartWorkflowExecutionRequest_String F v =
     (case v of None \<Rightarrow> ''<nil>''
      | Some v \<Rightarrow> show_struct ''SignalWithStartWorkflowExecutionRequest''
          [shown_opt ''Domain'' id (SignalWithStartWorkflowExecutionRequest.Domain v),
           shown_opt ''WorkflowId'' id (SignalWithStartWorkflowExecutionRequest.WorkflowId v),
           shown_opt ''WorkflowType'' (\<lambda>x. WorkflowType_String (Some x))
               (SignalWithStartWorkflowExecutionRequest.WorkflowType v),
           shown_opt ''TaskList'' (\<lambda>x. TaskList_String (Some x))
               (SignalWithStartWorkflowExecutionRequest.TaskList v),
           shown_opt ''Input'' show_bytes (SignalWithStartWorkflowExecutionRequest.Input v),
           shown_opt ''ExecutionStartToCloseTimeoutSeconds'' show_i32
               (SignalWithStartWorkflowExecutionRequest.ExecutionStartToCloseTimeoutSeconds v),
           shown_opt ''TaskStartToCloseTimeoutSeconds'' show_i32
               (SignalWithStartWorkflowExecutionRequest.TaskStartToCloseTimeoutSeconds v),
           shown_opt ''Identity'' id (SignalWithStartWorkflowExecutionRequest.Identity v),
           shown_opt ''RequestId'' id (SignalWithStartWorkflowExecutionRequest.RequestId v),
           shown_opt ''WorkflowIdReusePolicy'' WorkflowIdReusePolicy_String
               (SignalWithStartWorkflowExecutionRequest.WorkflowIdReusePolicy v),
           shown_opt ''SignalName'' id (SignalWithStartWorkflowExecutionRequest.SignalName v),
           shown_opt ''SignalInput'' show_bytes (SignalWithStartWorkflowExecutionRequest.SignalInput
               v),
           shown_opt ''Control'' show_bytes (SignalWithStartWorkflowExecutionRequest.Control v),
           shown_opt ''RetryPolicy'' (\<lambda>x. RetryPolicy_String F (Some x))
               (SignalWithStartWorkflowExecutionRequest.RetryPolicy v),
           shown_opt ''CronSchedule'' id (SignalWithStartWorkflowExecutionRequest.CronSchedule v),
           shown_opt ''Memo'' (\<lambda>x. Memo_String (Some x))
               (SignalWithStartWorkflowExecutionRequest.Memo v),
           shown_opt ''SearchAttributes'' (\<lambda>x. SearchAttributes_String (Some x))
               (SignalWithStartWorkflowExecutionRequest.SearchAttributes v),
           shown_opt ''Header'' (\<lambda>x. Header_String (Some x))
               (SignalWithStartWorkflowExecutionRequest.Header v)])"

definition SignalWorkflowExecutionRequest_String :: "SignalWorkflowExecutionRequest option \<Rightarrow> string"
    where
  "SignalWorkflowExecutionRequest_String v =
     (case v of None \<Rightarrow> ''<nil>''
      | Some v \<Rightarrow> show_struct ''SignalWorkflowExecutionRequest''
          [shown_opt ''Domain'' id (SignalWorkflowExecutionRequest.Domain v),
           shown_opt ''WorkflowExecution'' (\<lambda>x. WorkflowExecution_String (Some x))
               (SignalWorkflowExecutionRequest.WorkflowExecution v),
           shown_opt ''SignalName'' id (SignalWorkflowExecutionRequest.SignalName v),
           shown_opt ''Input'' show_bytes (SignalWorkflowExecutionRequest.Input v),
           shown_opt ''Identity'' id (SignalWorkflowExecutionRequest.Identity v),
           shown_opt ''RequestId'' id (SignalWorkflowExecutionRequest.RequestId v),
           shown_opt ''Control'' show_bytes (SignalWorkflowExecutionRequest.Control v)])"

definition StartWorkflowExecutionRequest_String :: "(float64 \<Rightarrow> string) \<Rightarrow>
    StartWorkflowExecutionRequest option \<Rightarrow> string" where
  "StartWorkflowExecutionRequest_String F v =
     (case v of None \<Rightarrow> ''<nil>''
      | Some v \<Rightarrow> show_struct ''StartWorkflowExecutionRequest''
          [shown_opt ''Domain'' id (StartWorkflowExecutionRequest.Domain v),
           shown_opt ''WorkflowId'' id (StartWorkflowExecutionRequest.WorkflowId v),
           shown_opt ''WorkflowType'' (\<lambda>x. WorkflowType_String (Some x))
               (StartWorkflowExecutionRequest.WorkflowType v),
           shown_opt ''TaskList'' (\<lambda>x. TaskList_String (Some x))
               (StartWorkflowExecutionRequest.TaskList v),
           shown_opt ''Input'' show_bytes (StartWorkflowExecutionRequest.Input v),
           shown_opt ''ExecutionStartToCloseTimeoutSeconds'' show_i32
               (StartWorkflowExecutionRequest.ExecutionStartToCloseTimeoutSeconds v),
           shown_opt ''TaskStartToCloseTimeoutSeconds'' show_i32
               (StartWorkflowExecutionRequest.TaskStartToCloseTimeoutSeconds v),
           shown_opt ''Identity'' id (StartWorkflowExecutionRequest.Identity v),
           shown_opt ''RequestId'' id (StartWorkflowExecutionRequest.RequestId v),
           shown_opt ''WorkflowIdReusePolicy'' WorkflowIdReusePolicy_String
               (StartWorkflowExecutionRequest.WorkflowIdReusePolicy v),
           shown_opt ''RetryPolicy'' (\<lambda>x. RetryPolicy_String F (Some x))
               (StartWorkflowExecutionRequest.RetryPolicy v),
           shown_opt ''CronSchedule'' id (StartWorkflowExecutionRequest.CronSchedule v),
           shown_opt ''Memo'' (\<lambda>x. Memo_String (Some x)) (StartWorkflowExecutionRequest.Memo v),
           shown_opt ''SearchAttributes'' (\<lambda>x. SearchAttributes_String (Some x))
               (StartWorkflowExecutionRequest.SearchAttributes v),
           shown_opt ''Header'' (\<lambda>x. Header_String (Some x)) (StartWorkflowExecutionRequest.Header
               v)])"

definition StartWorkflowExecutionResponse_String :: "StartWorkflowExecutionResponse option \<Rightarrow> string"
    where
  "StartWorkflowExecutionResponse_String v =
     (case v of None \<Rightarrow> ''<nil>''
      | Some v \<Rightarrow> show_struct ''StartWorkflowExecutionResponse''
          [shown_opt ''RunId'' id (StartWorkflowExecutionResponse.RunId v)])"

definition TerminateWorkflowExecutionRequest_String :: "TerminateWorkflowExecutionRequest option \<Rightarrow>
    string" where
  "TerminateWorkflowExecutionRequest_String v =
     (case v of None \<Rightarrow> ''<nil>''
      | Some v \<Rightarrow> show_struct ''TerminateWorkflowExecutionRequest''
          [shown_opt ''Domain'' id (TerminateWorkflowExecutionRequest.Domain v),
           shown_opt ''WorkflowExecution'' (\<lambda>x. WorkflowExecution_String (Some x))
               (TerminateWorkflowExecutionRequest.WorkflowExecution v),
           shown_opt ''Reason'' id (TerminateWorkflowExecutionRequest.Reason v),
           shown_opt ''Details'' show_bytes (TerminateWorkflowExecutionRequest.Details v),
           shown_opt ''Identity'' id (TerminateWorkflowExecutionRequest.Identity v)])"

definition TransientDecisionInfo_String :: "(float64 \<Rightarrow> string) \<Rightarrow> TransientDecisionInfo option \<Rightarrow>
    string" where
  "TransientDecisionInfo_String F v =
     (case v of None \<Rightarrow> ''<nil>''
      | Some v \<Rightarrow> show_struct ''TransientDecisionInfo''
          [shown_opt ''ScheduledEvent'' (\<lambda>x. HistoryEvent_String F (Some x))
              (TransientDecisionInfo.ScheduledEvent v),
           shown_opt ''StartedEvent'' (\<lambda>x. HistoryEvent_String F (Some x))
               (TransientDecisionInfo.StartedEvent v)])"

definition UpdateDomainInfo_String :: "UpdateDomainInfo option \<Rightarrow> string" where
  "UpdateDomainInfo_String v =
     (case v of None \<Rightarrow> ''<nil>''
      | Some v \<Rightarrow> show_struct ''UpdateDomainInfo''
          [shown_opt ''Description'' id (UpdateDomainInfo.Description v),
           shown_opt ''OwnerEmail'' id (UpdateDomainInfo.OwnerEmail v),
           shown_opt ''Data'' (show_map id) (UpdateDomainInfo.Data v)])"

definition UpdateDomainRequest_String :: "UpdateDomainRequest option \<Rightarrow> string" where
  "UpdateDomainRequest_String v =
     (case v of None \<Rightarrow> ''<nil>''
      | Some v \<Rightarrow> show_struct ''UpdateDomainRequest''
          [shown_opt ''Name'' id (UpdateDomainRequest.Name v),
           shown_opt ''UpdatedInfo'' (\<lambda>x. UpdateDomainInfo_String (Some x))
               (UpdateDomainRequest.UpdatedInfo v),
           shown_opt ''Configuration'' (\<lambda>x. DomainConfiguration_String (Some x))
               (UpdateDomainRequest.Configuration v),
           shown_opt ''ReplicationConfiguration'' (\<lambda>x. DomainReplicationConfiguration_String (Some
               x)) (UpdateDomainRequest.ReplicationConfiguration v),
           shown_opt ''SecurityToken'' id (UpdateDomainRequest.SecurityToken v),
           shown_opt ''DeleteBadBinary'' id (UpdateDomainRequest.DeleteBadBinary v)])"

definition UpdateDomainResponse_String :: "UpdateDomainResponse option \<Rightarrow> string" where
  "UpdateDomainResponse_String v =
     (case v of None \<Rightarrow> ''<nil>''
      | Some v \<Rightarrow> show_struct ''UpdateDomainResponse''
          [shown_opt ''DomainInfo'' (\<lambda>x. DomainInfo_String (Some x))
              (UpdateDomainResponse.DomainInfo v),
           shown_opt ''Configuration'' (\<lambda>x. DomainConfiguration_String (Some x))
               (UpdateDomainResponse.Configuration v),
           shown_opt ''ReplicationConfiguration'' (\<lambda>x. DomainReplicationConfiguration_String (Some
               x)) (UpdateDomainResponse.ReplicationConfiguration v),
           shown_opt ''FailoverVersion'' show_i64 (UpdateDomainResponse.FailoverVersion v),
           shown_opt ''IsGlobalDomain'' show_bool (UpdateDomainResponse.IsGlobalDomain v)])"

definition WorkflowExecutionAlreadyStartedError_String :: "WorkflowExecutionAlreadyStartedError
    option \<Rightarrow> string" where
  "WorkflowExecutionAlreadyStartedError_String v =
     (case v of None \<Rightarrow> ''<nil>''
      | Some v \<Rightarrow> show_struct ''WorkflowExecutionAlreadyStartedError''
          [shown_opt ''Message'' id (WorkflowExecutionAlreadyStartedError.Message v),
           shown_opt ''StartRequestId'' id (WorkflowExecutionAlreadyStartedError.StartRequestId v),
           shown_opt ''RunId'' id (WorkflowExecutionAlreadyStartedError.RunId v)])"

definition WorkflowExecutionAlreadyStartedError_Error :: "WorkflowExecutionAlreadyStartedError
    option \<Rightarrow> string" where
  "WorkflowExecutionAlreadyStartedError_Error v = WorkflowExecutionAlreadyStartedError_String v"

definition WorkflowExecutionAlreadyStartedError_ErrorName :: string where
  "WorkflowExecutionAlreadyStartedError_ErrorName = ''WorkflowExecutionAlreadyStartedError''"

end
