(* ===== verification/GoServiceStrings.thy ===== *)
theory GoServiceStrings
  imports GoMessageStrings GoActivityService GoDecisionService GoWorkflowService GoDomainService
      GoVisibilityService
begin

text \<open>
  The text of the arguments and results of the methods (\<open>String\<close>,
  proxy/gen/cadence/cadence.go).
\<close>

definition WorkflowService_PollForActivityTask_Args_String :: "(float64 \<Rightarrow> string) \<Rightarrow>
    WorkflowService_PollForActivityTask_Args option \<Rightarrow> string" where
  "WorkflowService_PollForActivityTask_Args_String F v =
     (case v of None \<Rightarrow> ''<nil>''
      | Some v \<Rightarrow> show_struct ''WorkflowService_PollForActivityTask_Args''
          [shown_opt ''PollRequest'' (\<lambda>x. PollForActivityTaskRequest_String F (Some x))
              (WorkflowService_PollForActivityTask_Args.PollRequest v)])"

definition WorkflowService_PollForActivityTask_Result_String ::
    "WorkflowService_PollForActivityTask_Result option \<Rightarrow> string" where
  "WorkflowService_PollForActivityTask_Result_String v =
     (case v of None \<Rightarrow> ''<nil>''
      | Some v \<Rightarrow> show_struct ''WorkflowService_PollForActivityTask_Result''
          [shown_opt ''Success'' (\<lambda>x. PollForActivityTaskResponse_String (Some x))
              (WorkflowService_PollForActivityTask_Result.Success v),
           shown_opt ''BadRequestError'' (\<lambda>x. BadRequestError_String (Some x))
               (WorkflowService_PollForActivityTask_Result.BadRequestError v),
           shown_opt ''InternalServiceError'' (\<lambda>x. InternalServiceError_String (Some x))
               (WorkflowService_PollForActivityTask_Result.InternalServiceError v),
           shown_opt ''ServiceBusyError'' (\<lambda>x. ServiceBusyError_String (Some x))
               (WorkflowService_PollForActivityTask_Result.ServiceBusyError v),
           shown_opt ''LimitExceededError'' (\<lambda>x. LimitExceededError_String (Some x))
               (WorkflowService_PollForActivityTask_Result.LimitExceededError v),
           shown_opt ''EntityNotExistError'' (\<lambda>x. EntityNotExistsError_String (Some x))
               (WorkflowService_PollForActivityTask_Result.EntityNotExistError v),
           shown_opt ''DomainNotActiveError'' (\<lambda>x. DomainNotActiveError_String (Some x))
               (WorkflowService_PollForActivityTask_Result.DomainNotActiveError v),
           shown_opt ''ClientVersionNotSupportedError'' (\<lambda>x. ClientVersionNotSupportedError_String
               (Some x)) (WorkflowService_PollForActivityTask_Result.ClientVersionNotSupportedError
               v)])"

definition WorkflowService_RecordActivityTaskHeartbeat_Args_String ::
    "WorkflowService_RecordActivityTaskHeartbeat_Args option \<Rightarrow> string" where
  "WorkflowService_RecordActivityTaskHeartbeat_Args_String v =
     (case v of None \<Rightarrow> ''<nil>''
      | Some v \<Rightarrow> show_struct ''WorkflowService_RecordActivityTaskHeartbeat_Args''
          [shown_opt ''HeartbeatRequest'' (\<lambda>x. RecordActivityTaskHeartbeatRequest_String (Some x))
              (WorkflowService_RecordActivityTaskHeartbeat_Args.HeartbeatRequest v)])"

definition WorkflowService_RecordActivityTaskHeartbeat_Result_String ::
    "WorkflowService_RecordActivityTaskHeartbeat_Result option \<Rightarrow> string" where
  "WorkflowService_RecordActivityTaskHeartbeat_Result_String v =
     (case v of None \<Rightarrow> ''<nil>''
      | Some v \<Rightarrow> show_struct ''WorkflowService_RecordActivityTaskHeartbeat_Result''
          [shown_opt ''Success'' (\<lambda>x. RecordActivityTaskHeartbeatResponse_String (Some x))
              (WorkflowService_RecordActivityTaskHeartbeat_Result.Success v),
           shown_opt ''BadRequestError'' (\<lambda>x. BadRequestError_String (Some x))
               (WorkflowService_RecordActivityTaskHeartbeat_Result.BadRequestError v),
           shown_opt ''InternalServiceError'' (\<lambda>x. InternalServiceError_String (Some x))
               (WorkflowService_RecordActivityTaskHeartbeat_Result.InternalServiceError v),
           shown_opt ''EntityNotExistError'' (\<lambda>x. EntityNotExistsError_String (Some x))
               (WorkflowService_RecordActivityTaskHeartbeat_Result.EntityNotExistError v),
           shown_opt ''DomainNotActiveError'' (\<lambda>x. DomainNotActiveError_String (Some x))
               (WorkflowService_RecordActivityTaskHeartbeat_Result.DomainNotActiveError v),
           shown_opt ''LimitExceededError'' (\<lambda>x. LimitExceededError_String (Some x))
               (WorkflowService_RecordActivityTaskHeartbeat_Result.LimitExceededError v),
           shown_opt ''ServiceBusyError'' (\<lambda>x. ServiceBusyError_String (Some x))
               (WorkflowService_RecordActivityTaskHeartbeat_Result.ServiceBusyError v),
           shown_opt ''ClientVersionNotSupportedError'' (\<lambda>x. ClientVersionNotSupportedError_String
               (Some x))
               (WorkflowService_RecordActivityTaskHeartbeat_Result.ClientVersionNotSupportedError
               v)])"

definition WorkflowService_RecordActivityTaskHeartbeatByID_Args_String ::
    "WorkflowService_RecordActivityTaskHeartbeatByID_Args option \<Rightarrow> string" where
  "WorkflowService_RecordActivityTaskHeartbeatByID_Args_String v =
     (case v of None \<Rightarrow> ''<nil>''
      | Some v \<Rightarrow> show_struct ''WorkflowService_RecordActivityTaskHeartbeatByID_Args''
          [shown_opt ''HeartbeatRequest'' (\<lambda>x. RecordActivityTaskHeartbeatByIDRequest_String (Some
              x)) (WorkflowService_RecordActivityTaskHeartbeatByID_Args.HeartbeatRequest v)])"

definition WorkflowService_RecordActivityTaskHeartbeatByID_Result_String ::
    "WorkflowService_RecordActivityTaskHeartbeatByID_Result option \<Rightarrow> string" where
  "WorkflowService_RecordActivityTaskHeartbeatByID_Result_String v =
     (case v of None \<Rightarrow> ''<nil>''
      | Some v \<Rightarrow> show_struct ''WorkflowService_RecordActivityTaskHeartbeatByID_Result''
          [shown_opt ''Success'' (\<lambda>x. RecordActivityTaskHeartbeatResponse_String (Some x))
              (WorkflowService_RecordActivityTaskHeartbeatByID_Result.Success v),
           shown_opt ''BadRequestError'' (\<lambda>x. BadRequestError_String (Some x))
               (WorkflowService_RecordActivityTaskHeartbeatByID_Result.BadRequestError v),
           shown_opt ''InternalServiceError'' (\<lambda>x. InternalServiceError_String (Some x))
               (WorkflowService_RecordActivityTaskHeartbeatByID_Result.InternalServiceError v),
           shown_opt ''EntityNotExistError'' (\<lambda>x. EntityNotExistsError_String (Some x))
               (WorkflowService_RecordActivityTaskHeartbeatByID_Result.EntityNotExistError v),
           shown_opt ''DomainNotActiveError'' (\<lambda>x. DomainNotActiveError_String (Some x))
               (WorkflowService_RecordActivityTaskHeartbeatByID_Result.DomainNotActiveError v),
           shown_opt ''LimitExceededError'' (\<lambda>x. LimitExceededError_String (Some x))
               (WorkflowService_RecordActivityTaskHeartbeatByID_Result.LimitExceededError v),
           shown_opt ''ServiceBusyError'' (\<lambda>x. ServiceBusyError_String (Some x))
               (WorkflowService_RecordActivityTaskHeartbeatByID_Result.ServiceBusyError v),
           shown_opt ''ClientVersionNotSupportedError'' (\<lambda>x. ClientVersionNotSupportedError_String
               (Some x))
               (WorkflowService_RecordActivityTaskHeartbeatByID_Result.ClientVersionNotSupportedError v)])"

definition WorkflowService_RespondActivityTaskCompleted_Args_String ::
    "WorkflowService_RespondActivityTaskCompleted_Args option \<Rightarrow> string" where
  "WorkflowService_RespondActivityTaskCompleted_Args_String v =
     (case v of None \<Rightarrow> ''<nil>''
      | Some v \<Rightarrow> show_struct ''WorkflowService_RespondActivityTaskCompleted_Args''
          [shown_opt ''CompleteRequest'' (\<lambda>x. RespondActivityTaskCompletedRequest_String (Some x))
              (WorkflowService_RespondActivityTaskCompleted_Args.CompleteRequest v)])"

definition WorkflowService_RespondActivityTaskCompleted_Result_String ::
    "WorkflowService_RespondActivityTaskCompleted_Result option \<Rightarrow> string" where
  "WorkflowService_RespondActivityTaskCompleted_Result_String v =
     (case v of None \<Rightarrow> ''<nil>''
      | Some v \<Rightarrow> show_struct ''WorkflowService_RespondActivityTaskCompleted_Result''
          [shown_opt ''BadRequestError'' (\<lambda>x. BadRequestError_String (Some x))
              (WorkflowService_RespondActivityTaskCompleted_Result.BadRequestError v),
           shown_opt ''InternalServiceError'' (\<lambda>x. InternalServiceError_String (Some x))
               (WorkflowService_RespondActivityTaskCompleted_Result.InternalServiceError v),
           shown_opt ''EntityNotExistError'' (\<lambda>x. EntityNotExistsError_String (Some x))
               (WorkflowService_RespondActivityTaskCompleted_Result.EntityNotExistError v),
           shown_opt ''DomainNotActiveError'' (\<lambda>x. DomainNotActiveError_String (Some x))
               (WorkflowService_RespondActivityTaskCompleted_Result.DomainNotActiveError v),
           shown_opt ''LimitExceededError'' (\<lambda>x. LimitExceededError_String (Some x))
               (WorkflowService_RespondActivityTaskCompleted_Result.LimitExceededError v),
           shown_opt ''ServiceBusyError'' (\<lambda>x. ServiceBusyError_String (Some x))
               (WorkflowService_RespondActivityTaskCompleted_Result.ServiceBusyError v),
           shown_opt ''ClientVersionNotSupportedError'' (\<lambda>x. ClientVersionNotSupportedError_String
               (Some x))
               (WorkflowService_RespondActivityTaskCompleted_Result.ClientVersionNotSupportedError
               v)])"

definition WorkflowService_RespondActivityTaskCompletedByID_Args_String ::
    "WorkflowService_RespondActivityTaskCompletedByID_Args option \<Rightarrow> string" where
  "WorkflowService_RespondActivityTaskCompletedByID_Args_String v =
     (case v of None \<Rightarrow> ''<nil>''
      | Some v \<Rightarrow> show_struct ''WorkflowService_RespondActivityTaskCompletedByID_Args''
          [shown_opt ''CompleteRequest'' (\<lambda>x. RespondActivityTaskCompletedByIDRequest_String (Some
              x)) (WorkflowService_RespondActivityTaskCompletedByID_Args.CompleteRequest v)])"

definition WorkflowService_RespondActivityTaskCompletedByID_Result_String ::
    "WorkflowService_RespondActivityTaskCompletedByID_Result option \<Rightarrow> string" where
  "WorkflowService_RespondActivityTaskCompletedByID_Result_String v =
     (case v of None \<Rightarrow> ''<nil>''
      | Some v \<Rightarrow> show_struct ''WorkflowService_RespondActivityTaskCompletedByID_Result''
          [shown_opt ''BadRequestError'' (\<lambda>x. BadRequestError_String (Some x))
              (WorkflowService_RespondActivityTaskCompletedByID_Result.BadRequestError v),
           shown_opt ''InternalServiceError'' (\<lambda>x. InternalServiceError_String (Some x))
               (WorkflowService_RespondActivityTaskCompletedByID_Result.InternalServiceError v),
           shown_opt ''EntityNotExistError'' (\<lambda>x. EntityNotExistsError_String (Some x))
               (WorkflowService_RespondActivityTaskCompletedByID_Result.EntityNotExistError v),
           shown_opt ''DomainNotActiveError'' (\<lambda>x. DomainNotActiveError_String (Some x))
               (WorkflowService_RespondActivityTaskCompletedByID_Result.DomainNotActiveError v),
           shown_opt ''LimitExceededError'' (\<lambda>x. LimitExceededError_String (Some x))
               (WorkflowService_RespondActivityTaskCompletedByID_Result.LimitExceededError v),
           shown_opt ''ServiceBusyError'' (\<lambda>x. ServiceBusyError_String (Some x))
               (WorkflowService_RespondActivityTaskCompletedByID_Result.ServiceBusyError v),
           shown_opt ''ClientVersionNotSupportedError'' (\<lambda>x. ClientVersionNotSupportedError_String
               (Some x))
               (WorkflowService_RespondActivityTaskCompletedByID_Result.ClientVersionNotSupportedError v)])"

definition WorkflowService_RespondActivityTaskFailed_Args_String ::
    "WorkflowService_RespondActivityTaskFailed_Args option \<Rightarrow> string" where
  "WorkflowService_RespondActivityTaskFailed_Args_String v =
     (case v of None \<Rightarrow> ''<nil>''
      | Some v \<Rightarrow> show_struct ''WorkflowService_RespondActivityTaskFailed_Args''
          [shown_opt ''FailRequest'' (\<lambda>x. RespondActivityTaskFailedRequest_String (Some x))
              (WorkflowService_RespondActivityTaskFailed_Args.FailRequest v)])"

definition WorkflowService_RespondActivityTaskFailed_Result_String ::
    "WorkflowService_RespondActivityTaskFailed_Result option \<Rightarrow> string" where
  "WorkflowService_RespondActivityTaskFailed_Result_String v =
     (case v of None \<Rightarrow> ''<nil>''
      | Some v \<Rightarrow> show_struct ''WorkflowService_RespondActivityTaskFailed_Result''
          [shown_opt ''BadRequestError'' (\<lambda>x. BadRequestError_String (Some x))
              (WorkflowService_RespondActivityTaskFailed_Result.BadRequestError v),
           shown_opt ''InternalServiceError'' (\<lambda>x. InternalServiceError_String (Some x))
               (WorkflowService_RespondActivityTaskFailed_Result.InternalServiceError v),
           shown_opt ''EntityNotExistError'' (\<lambda>x. EntityNotExistsError_String (Some x))
               (WorkflowService_RespondActivityTaskFailed_Result.EntityNotExistError v),
           shown_opt ''DomainNotActiveError'' (\<lambda>x. DomainNotActiveError_String (Some x))
               (WorkflowService_RespondActivityTaskFailed_Result.DomainNotActiveError v),
           shown_opt ''LimitExceededError'' (\<lambda>x. LimitExceededError_String (Some x))
               (WorkflowService_RespondActivityTaskFailed_Result.LimitExceededError v),
           shown_opt ''ServiceBusyError'' (\<lambda>x. ServiceBusyError_String (Some x))
               (WorkflowService_RespondActivityTaskFailed_Result.ServiceBusyError v),
           shown_opt ''ClientVersionNotSupportedError'' (\<lambda>x. ClientVersionNotSupportedError_String
               (Some x))
               (WorkflowService_RespondActivityTaskFailed_Result.ClientVersionNotSupportedError
               v)])"

definition WorkflowService_RespondActivityTaskFailedByID_Args_String ::
    "WorkflowService_RespondActivityTaskFailedByID_Args option \<Rightarrow> string" where
  "WorkflowService_RespondActivityTaskFailedByID_Args_String v =
     (case v of None \<Rightarrow> ''<nil>''
      | Some v \<Rightarrow> show_struct ''WorkflowService_RespondActivityTaskFailedByID_Args''
          [shown_opt ''FailRequest'' (\<lambda>x. RespondActivityTaskFailedByIDRequest_String (Some x))
              (WorkflowService_RespondActivityTaskFailedByID_Args.FailRequest v)])"

definition WorkflowService_RespondActivityTaskFailedByID_Result_String ::
    "WorkflowService_RespondActivityTaskFailedByID_Result option \<Rightarrow> string" where
  "WorkflowService_RespondActivityTaskFailedByID_Result_String v =
     (case v of None \<Rightarrow> ''<nil>''
      | Some v \<Rightarrow> show_struct ''WorkflowService_RespondActivityTaskFailedByID_Result''
          [shown_opt ''BadRequestError'' (\<lambda>x. BadRequestError_String (Some x))
              (WorkflowService_RespondActivityTaskFailedByID_Result.BadRequestError v),
           shown_opt ''InternalServiceError'' (\<lambda>x. InternalServiceError_String (Some x))
               (WorkflowService_RespondActivityTaskFailedByID_Result.InternalServiceError v),
           shown_opt ''EntityNotExistError'' (\<lambda>x. EntityNotExistsError_String (Some x))
               (WorkflowService_RespondActivityTaskFailedByID_Result.EntityNotExistError v),
           shown_opt ''DomainNotActiveError'' (\<lambda>x. DomainNotActiveError_String (Some x))
               (WorkflowService_RespondActivityTaskFailedByID_Result.DomainNotActiveError v),
           shown_opt ''LimitExceededError'' (\<lambda>x. LimitExceededError_String (Some x))
               (WorkflowService_RespondActivityTaskFailedByID_Result.LimitExceededError v),
           shown_opt ''ServiceBusyError'' (\<lambda>x. ServiceBusyError_String (Some x))
               (WorkflowService_RespondActivityTaskFailedByID_Result.ServiceBusyError v),
           shown_opt ''ClientVersionNotSupportedError'' (\<lambda>x. ClientVersionNotSupportedError_String
               (Some x))
               (WorkflowService_RespondActivityTaskFailedByID_Result.ClientVersionNotSupportedError
               v)])"

definition WorkflowService_RespondActivityTaskCanceled_Args_String ::
    "WorkflowService_RespondActivityTaskCanceled_Args option \<Rightarrow> string" where
  "WorkflowService_RespondActivityTaskCanceled_Args_String v =
     (case v of None \<Rightarrow> ''<nil>''
      | Some v \<Rightarrow> show_struct ''WorkflowService_RespondActivityTaskCanceled_Args''
          [shown_opt ''CanceledRequest'' (\<lambda>x. RespondActivityTaskCanceledRequest_String (Some x))
              (WorkflowService_RespondActivityTaskCanceled_Args.CanceledRequest v)])"

definition WorkflowService_RespondActivityTaskCanceled_Result_String ::
    "WorkflowService_RespondActivityTaskCanceled_Result option \<Rightarrow> string" where
  "WorkflowService_RespondActivityTaskCanceled_Result_String v =
     (case v of None \<Rightarrow> ''<nil>''
      | Some v \<Rightarrow> show_struct ''WorkflowService_RespondActivityTaskCanceled_Result''
          [shown_opt ''BadRequestError'' (\<lambda>x. BadRequestError_String (Some x))
              (WorkflowService_RespondActivityTaskCanceled_Result.BadRequestError v),
           shown_opt ''InternalServiceError'' (\<lambda>x. InternalServiceError_String (Some x))
               (WorkflowService_RespondActivityTaskCanceled_Result.InternalServiceError v),
           shown_opt ''EntityNotExistError'' (\<lambda>x. EntityNotExistsError_String (Some x))
               (WorkflowService_RespondActivityTaskCanceled_Result.EntityNotExistError v),
           shown_opt ''DomainNotActiveError'' (\<lambda>x. DomainNotActiveError_String (Some x))
               (WorkflowService_RespondActivityTaskCanceled_Result.DomainNotActiveError v),
           shown_opt ''LimitExceededError'' (\<lambda>x. LimitExceededError_String (Some x))
               (WorkflowService_RespondActivityTaskCanceled_Result.LimitExceededError v),
           shown_opt ''ServiceBusyError'' (\<lambda>x. ServiceBusyError_String (Some x))
               (WorkflowService_RespondActivityTaskCanceled_Result.ServiceBusyError v),
           shown_opt ''ClientVersionNotSupportedError'' (\<lambda>x. ClientVersionNotSupportedError_String
               (Some x))
               (WorkflowService_RespondActivityTaskCanceled_Result.ClientVersionNotSupportedError
               v)])"

definition WorkflowService_RespondActivityTaskCanceledByID_Args_String ::
    "WorkflowService_RespondActivityTaskCanceledByID_Args option \<Rightarrow> string" where
  "WorkflowService_RespondActivityTaskCanceledByID_Args_String v =
     (case v of None \<Rightarrow> ''<nil>''
      | Some v \<Rightarrow> show_struct ''WorkflowService_RespondActivityTaskCanceledByID_Args''
          [shown_opt ''CanceledRequest'' (\<lambda>x. RespondActivityTaskCanceledByIDRequest_String (Some
              x)) (WorkflowService_RespondActivityTaskCanceledByID_Args.CanceledRequest v)])"

definition WorkflowService_RespondActivityTaskCanceledByID_Result_String ::
    "WorkflowService_RespondActivityTaskCanceledByID_Result option \<Rightarrow> string" where
  "WorkflowService_RespondActivityTaskCanceledByID_Result_String v =
     (case v of None \<Rightarrow> ''<nil>''
      | Some v \<Rightarrow> show_struct ''WorkflowService_RespondActivityTaskCanceledByID_Result''
          [shown_opt ''BadRequestError'' (\<lambda>x. BadRequestError_String (Some x))
              (WorkflowService_RespondActivityTaskCanceledByID_Result.BadRequestError v),
           shown_opt ''InternalServiceError'' (\<lambda>x. InternalServiceError_String (Some x))
               (WorkflowService_RespondActivityTaskCanceledByID_Result.InternalServiceError v),
           shown_opt ''EntityNotExistError'' (\<lambda>x. EntityNotExistsError_String (Some x))
               (WorkflowService_RespondActivityTaskCanceledByID_Result.EntityNotExistError v),
           shown_opt ''DomainNotActiveError'' (\<lambda>x. DomainNotActiveError_String (Some x))
               (WorkflowService_RespondActivityTaskCanceledByID_Result.DomainNotActiveError v),
           shown_opt ''LimitExceededError'' (\<lambda>x. LimitExceededError_String (Some x))
               (WorkflowService_RespondActivityTaskCanceledByID_Result.LimitExceededError v),
           shown_opt ''ServiceBusyError'' (\<lambda>x. ServiceBusyError_String (Some x))
               (WorkflowService_RespondActivityTaskCanceledByID_Result.ServiceBusyError v),
           shown_opt ''ClientVersionNotSupportedError'' (\<lambda>x. ClientVersionNotSupportedError_String
               (Some x))
               (WorkflowService_RespondActivityTaskCanceledByID_Result.ClientVersionNotSupportedError v)])"

definition WorkflowService_PollForDecisionTask_Args_String ::
    "WorkflowService_PollForDecisionTask_Args option \<Rightarrow> string" where
  "WorkflowService_PollForDecisionTask_Args_String v =
     (case v of None \<Rightarrow> ''<nil>''
      | Some v \<Rightarrow> show_struct ''WorkflowService_PollForDecisionTask_Args''
          [shown_opt ''PollRequest'' (\<lambda>x. PollForDecisionTaskRequest_String (Some x))
              (WorkflowService_PollForDecisionTask_Args.PollRequest v)])"

definition WorkflowService_PollForDecisionTask_Result_String :: "(float64 \<Rightarrow> string) \<Rightarrow>
    WorkflowService_PollForDecisionTask_Result option \<Rightarrow> string" where
  "WorkflowService_PollForDecisionTask_Result_String F v =
     (case v of None \<Rightarrow> ''<nil>''
      | Some v \<Rightarrow> show_struct ''WorkflowService_PollForDecisionTask_Result''
          [shown_opt ''Success'' (\<lambda>x. PollForDecisionTaskResponse_String F (Some x))
              (WorkflowService_PollForDecisionTask_Result.Success v),
           shown_opt ''BadRequestError'' (\<lambda>x. BadRequestError_String (Some x))
               (WorkflowService_PollForDecisionTask_Result.BadRequestError v),
           shown_opt ''InternalServiceError'' (\<lambda>x. InternalServiceError_String (Some x))
               (WorkflowService_PollForDecisionTask_Result.InternalServiceError v),
           shown_opt ''ServiceBusyError'' (\<lambda>x. ServiceBusyError_String (Some x))
               (WorkflowService_PollForDecisionTask_Result.ServiceBusyError v),
           shown_opt ''LimitExceededError'' (\<lambda>x. LimitExceededError_String (Some x))
               (WorkflowService_PollForDecisionTask_Result.LimitExceededError v),
           shown_opt ''EntityNotExistError'' (\<lambda>x. EntityNotExistsError_String (Some x))
               (WorkflowService_PollForDecisionTask_Result.EntityNotExistError v),
           shown_opt ''DomainNotActiveError'' (\<lambda>x. DomainNotActiveError_String (Some x))
               (WorkflowService_PollForDecisionTask_Result.DomainNotActiveError v),
           shown_opt ''ClientVersionNotSupportedError'' (\<lambda>x. ClientVersionNotSupportedError_String
               (Some x)) (WorkflowService_PollForDecisionTask_Result.ClientVersionNotSupportedError
               v)])"

definition WorkflowService_RespondDecisionTaskCompleted_Args_String :: "(float64 \<Rightarrow> string) \<Rightarrow>
    WorkflowService_RespondDecisionTaskCompleted_Args option \<Rightarrow> string" where
  "WorkflowService_RespondDecisionTaskCompleted_Args_String F v =
     (case v of None \<Rightarrow> ''<nil>''
      | Some v \<Rightarrow> show_struct ''WorkflowService_RespondDecisionTaskCompleted_Args''
          [shown_opt ''CompleteRequest'' (\<lambda>x. RespondDecisionTaskCompletedRequest_String F (Some x))
              (WorkflowService_RespondDecisionTaskCompleted_Args.CompleteRequest v)])"

definition WorkflowService_RespondDecisionTaskCompleted_Result_String :: "(float64 \<Rightarrow> string) \<Rightarrow>
    WorkflowService_RespondDecisionTaskCompleted_Result option \<Rightarrow> string" where
  "WorkflowService_RespondDecisionTaskCompleted_Result_String F v =
     (case v of None \<Rightarrow> ''<nil>''
      | Some v \<Rightarrow> show_struct ''WorkflowService_RespondDecisionTaskCompleted_Result''
          [shown_opt ''Success'' (\<lambda>x. RespondDecisionTaskCompletedResponse_String F (Some x))
              (WorkflowService_RespondDecisionTaskCompleted_Result.Success v),
           shown_opt ''BadRequestError'' (\<lambda>x. BadRequestError_String (Some x))
               (WorkflowService_RespondDecisionTaskCompleted_Result.BadRequestError v),
           shown_opt ''InternalServiceError'' (\<lambda>x. InternalServiceError_String (Some x))
               (WorkflowService_RespondDecisionTaskCompleted_Result.InternalServiceError v),
           shown_opt ''EntityNotExistError'' (\<lambda>x. EntityNotExistsError_String (Some x))
               (WorkflowService_RespondDecisionTaskCompleted_Result.EntityNotExistError v),
           shown_opt ''DomainNotActiveError'' (\<lambda>x. DomainNotActiveError_String (Some x))
               (WorkflowService_RespondDecisionTaskCompleted_Result.DomainNotActiveError v),
           shown_opt ''LimitExceededError'' (\<lambda>x. LimitExceededError_String (Some x))
               (WorkflowService_RespondDecisionTaskCompleted_Result.LimitExceededError v),
           shown_opt ''ServiceBusyError'' (\<lambda>x. ServiceBusyError_String (Some x))
               (WorkflowService_RespondDecisionTaskCompleted_Result.ServiceBusyError v),
           shown_opt ''ClientVersionNotSupportedError'' (\<lambda>x. ClientVersionNotSupportedError_String
               (Some x))
               (WorkflowService_RespondDecisionTaskCompleted_Result.ClientVersionNotSupportedError
               v)])"

definition WorkflowService_RespondDecisionTaskFailed_Args_String ::
    "WorkflowService_RespondDecisionTaskFailed_Args option \<Rightarrow> string" where
  "WorkflowService_RespondDecisionTaskFailed_Args_String v =
     (case v of None \<Rightarrow> ''<nil>''
      | Some v \<Rightarrow> show_struct ''WorkflowService_RespondDecisionTaskFailed_Args''
          [shown_opt ''FailedRequest'' (\<lambda>x. RespondDecisionTaskFailedRequest_String (Some x))
              (WorkflowService_RespondDecisionTaskFailed_Args.FailedRequest v)])"

definition WorkflowService_RespondDecisionTaskFailed_Result_String ::
    "WorkflowService_RespondDecisionTaskFailed_Result option \<Rightarrow> string" where
  "WorkflowService_RespondDecisionTaskFailed_Result_String v =
     (case v of None \<Rightarrow> ''<nil>''
      | Some v \<Rightarrow> show_struct ''WorkflowService_RespondDecisionTaskFailed_Result''
          [shown_opt ''BadRequestError'' (\<lambda>x. BadRequestError_String (Some x))
              (WorkflowService_RespondDecisionTaskFailed_Result.BadRequestError v),
           shown_opt ''InternalServiceError'' (\<lambda>x. InternalServiceError_String (Some x))
               (WorkflowService_RespondDecisionTaskFailed_Result.InternalServiceError v),
           shown_opt ''EntityNotExistError'' (\<lambda>x. EntityNotExistsError_String (Some x))
               (WorkflowService_RespondDecisionTaskFailed_Result.EntityNotExistError v),
           shown_opt ''DomainNotActiveError'' (\<lambda>x. DomainNotActiveError_String (Some x))
               (WorkflowService_RespondDecisionTaskFailed_Result.DomainNotActiveError v),
           shown_opt ''LimitExceededError'' (\<lambda>x. LimitExceededError_String (Some x))
               (WorkflowService_RespondDecisionTaskFailed_Result.LimitExceededError v),
           shown_opt ''ServiceBusyError'' (\<lambda>x. ServiceBusyError_String (Some x))
               (WorkflowService_RespondDecisionTaskFailed_Result.ServiceBusyError v),
           shown_opt ''ClientVersionNotSupportedError'' (\<lambda>x. ClientVersionNotSupportedError_String
               (Some x))
               (WorkflowService_RespondDecisionTaskFailed_Result.ClientVersionNotSupportedError
               v)])"

definition WorkflowService_RespondQueryTaskCompleted_Args_String ::
    "WorkflowService_RespondQueryTaskCompleted_Args option \<Rightarrow> string" where
  "WorkflowService_RespondQueryTaskCompleted_Args_String v =
     (case v of None \<Rightarrow> ''<nil>''
      | Some v \<Rightarrow> show_struct ''WorkflowService_RespondQueryTaskCompleted_Args''
          [shown_opt ''CompleteRequest'' (\<lambda>x. RespondQueryTaskCompletedRequest_String (Some x))
              (WorkflowService_RespondQueryTaskCompleted_Args.CompleteRequest v)])"

definition WorkflowService_RespondQueryTaskCompleted_Result_String ::
    "WorkflowService_RespondQueryTaskCompleted_Result option \<Rightarrow> string" where
  "WorkflowService_RespondQueryTaskCompleted_Result_String v =
     (case v of None \<Rightarrow> ''<nil>''
      | Some v \<Rightarrow> show_struct ''WorkflowService_RespondQueryTaskCompleted_Result''
          [shown_opt ''BadRequestError'' (\<lambda>x. BadRequestError_String (Some x))
              (WorkflowService_RespondQueryTaskCompleted_Result.BadRequestError v),
           shown_opt ''InternalServiceError'' (\<lambda>x. InternalServiceError_String (Some x))
               (WorkflowService_RespondQueryTaskCompleted_Result.InternalServiceError v),
           shown_opt ''EntityNotExistError'' (\<lambda>x. EntityNotExistsError_String (Some x))
               (WorkflowService_RespondQueryTaskCompleted_Result.EntityNotExistError v),
           shown_opt ''LimitExceededError'' (\<lambda>x. LimitExceededError_String (Some x))
               (WorkflowService_RespondQueryTaskCompleted_Result.LimitExceededError v),
           shown_opt ''ServiceBusyError'' (\<lambda>x. ServiceBusyError_String (Some x))
               (WorkflowService_RespondQueryTaskCompleted_Result.ServiceBusyError v),
           shown_opt ''DomainNotActiveError'' (\<lambda>x. DomainNotActiveError_String (Some x))
               (WorkflowService_RespondQueryTaskCompleted_Result.DomainNotActiveError v),
           shown_opt ''ClientVersionNotSupportedError'' (\<lambda>x. ClientVersionNotSupportedError_String
               (Some x))
               (WorkflowService_RespondQueryTaskCompleted_Result.ClientVersionNotSupportedError
               v)])"

definition WorkflowService_QueryWorkflow_Args_String :: "WorkflowService_QueryWorkflow_Args option \<Rightarrow>
    string" where
  "WorkflowService_QueryWorkflow_Args_String v =
     (case v of None \<Rightarrow> ''<nil>''
      | Some v \<Rightarrow> show_struct ''WorkflowService_QueryWorkflow_Args''
          [shown_opt ''QueryRequest'' (\<lambda>x. QueryWorkflowRequest_String (Some x))
              (WorkflowService_QueryWorkflow_Args.QueryRequest v)])"

definition WorkflowService_QueryWorkflow_Result_String :: "WorkflowService_QueryWorkflow_Result
    option \<Rightarrow> string" where
  "WorkflowService_QueryWorkflow_Result_String v =
     (case v of None \<Rightarrow> ''<nil>''
      | Some v \<Rightarrow> show_struct ''WorkflowService_QueryWorkflow_Result''
          [shown_opt ''Success'' (\<lambda>x. QueryWorkflowResponse_String (Some x))
              (WorkflowService_QueryWorkflow_Result.Success v),
           shown_opt ''BadRequestError'' (\<lambda>x. BadRequestError_String (Some x))
               (WorkflowService_QueryWorkflow_Result.BadRequestError v),
           shown_opt ''InternalServiceError'' (\<lambda>x. InternalServiceError_String (Some x))
               (WorkflowService_QueryWorkflow_Result.InternalServiceError v),
           shown_opt ''EntityNotExistError'' (\<lambda>x. EntityNotExistsError_String (Some x))
               (WorkflowService_QueryWorkflow_Result.EntityNotExistError v),
           shown_opt ''QueryFailedError'' (\<lambda>x. QueryFailedError_String (Some x))
               (WorkflowService_QueryWorkflow_Result.QueryFailedError v),
           shown_opt ''LimitExceededError'' (\<lambda>x. LimitExceededError_String (Some x))
               (WorkflowService_QueryWorkflow_Result.LimitExceededError v),
           shown_opt ''ServiceBusyError'' (\<lambda>x. ServiceBusyError_String (Some x))
               (WorkflowService_QueryWorkflow_Result.ServiceBusyError v),
           shown_opt ''ClientVersionNotSupportedError'' (\<lambda>x. ClientVersionNotSupportedError_String
               (Some x)) (WorkflowService_QueryWorkflow_Result.ClientVersionNotSupportedError v)])"

definition WorkflowService_ResetStickyTaskList_Args_String ::
    "WorkflowService_ResetStickyTaskList_Args option \<Rightarrow> string" where
  "WorkflowService_ResetStickyTaskList_Args_String v =
     (case v of None \<Rightarrow> ''<nil>''
      | Some v \<Rightarrow> show_struct ''WorkflowService_ResetStickyTaskList_Args''
          [shown_opt ''ResetRequest'' (\<lambda>x. ResetStickyTaskListRequest_String (Some x))
              (WorkflowService_ResetStickyTaskList_Args.ResetRequest v)])"

definition WorkflowService_ResetStickyTaskList_Result_String ::
    "WorkflowService_ResetStickyTaskList_Result option \<Rightarrow> string" where
  "WorkflowService_ResetStickyTaskList_Result_String v =
     (case v of None \<Rightarrow> ''<nil>''
      | Some v \<Rightarrow> show_struct ''WorkflowService_ResetStickyTaskList_Result''
          [shown_opt ''Success'' (\<lambda>x. ResetStickyTaskListResponse_String (Some x))
              (WorkflowService_ResetStickyTaskList_Result.Success v),
           shown_opt ''BadRequestError'' (\<lambda>x. BadRequestError_String (Some x))
               (WorkflowService_ResetStickyTaskList_Result.BadRequestError v),
           shown_opt ''InternalServiceError'' (\<lambda>x. InternalServiceError_String (Some x))
               (WorkflowService_ResetStickyTaskList_Result.InternalServiceError v),
           shown_opt ''EntityNotExistError'' (\<lambda>x. EntityNotExistsError_String (Some x))
               (WorkflowService_ResetStickyTaskList_Result.EntityNotExistError v),
           shown_opt ''LimitExceededError'' (\<lambda>x. LimitExceededError_String (Some x))
               (WorkflowService_ResetStickyTaskList_Result.LimitExceededError v),
           shown_opt ''ServiceBusyError'' (\<lambda>x. ServiceBusyError_String (Some x))
               (WorkflowService_ResetStickyTaskList_Result.ServiceBusyError v),
           shown_opt ''DomainNotActiveError'' (\<lambda>x. DomainNotActiveError_String (Some x))
               (WorkflowService_ResetStickyTaskList_Result.DomainNotActiveError v),
           shown_opt ''ClientVersionNotSupportedError'' (\<lambda>x. ClientVersionNotSupportedError_String
               (Some x)) (WorkflowService_ResetStickyTaskList_Result.ClientVersionNotSupportedError
               v)])"

definition WorkflowService_StartWorkflowExecution_Args_String :: "(float64 \<Rightarrow> string) \<Rightarrow>
    WorkflowService_StartWorkflowExecution_Args option \<Rightarrow> string" where
  "WorkflowService_StartWorkflowExecution_Args_String F v =
     (case v of None \<Rightarrow> ''<nil>''
      | Some v \<Rightarrow> show_struct ''WorkflowService_StartWorkflowExecution_Args''
          [shown_opt ''StartRequest'' (\<lambda>x. StartWorkflowExecutionRequest_String F (Some x))
              (WorkflowService_StartWorkflowExecution_Args.StartRequest v)])"

definition WorkflowService_StartWorkflowExecution_Result_String ::
    "WorkflowService_StartWorkflowExecution_Result option \<Rightarrow> string" where
  "WorkflowService_StartWorkflowExecution_Result_String v =
     (case v of None \<Rightarrow> ''<nil>''
      | Some v \<Rightarrow> show_struct ''WorkflowService_StartWorkflowExecution_Result''
          [shown_opt ''Success'' (\<lambda>x. StartWorkflowExecutionResponse_String (Some x))
              (WorkflowService_StartWorkflowExecution_Result.Success v),
           shown_opt ''BadRequestError'' (\<lambda>x. BadRequestError_String (Some x))
               (WorkflowService_StartWorkflowExecution_Result.BadRequestError v),
           shown_opt ''InternalServiceError'' (\<lambda>x. InternalServiceError_String (Some x))
               (WorkflowService_StartWorkflowExecution_Result.InternalServiceError v),
           shown_opt ''SessionAlreadyExistError'' (\<lambda>x. WorkflowExecutionAlreadyStartedError_String
               (Some x)) (WorkflowService_StartWorkflowExecution_Result.SessionAlreadyExistError v),
           shown_opt ''ServiceBusyError'' (\<lambda>x. ServiceBusyError_String (Some x))
               (WorkflowService_StartWorkflowExecution_Result.ServiceBusyError v),
           shown_opt ''DomainNotActiveError'' (\<lambda>x. DomainNotActiveError_String (Some x))
               (WorkflowService_StartWorkflowExecution_Result.DomainNotActiveError v),
           shown_opt ''LimitExceededError'' (\<lambda>x. LimitExceededError_String (Some x))
               (WorkflowService_StartWorkflowExecution_Result.LimitExceededError v),
           shown_opt ''EntityNotExistError'' (\<lambda>x. EntityNotExistsError_String (Some x))
               (WorkflowService_StartWorkflowExecution_Result.EntityNotExistError v),
           shown_opt ''ClientVersionNotSupportedError'' (\<lambda>x. ClientVersionNotSupportedError_String
               (Some x))
               (WorkflowService_StartWorkflowExecution_Result.ClientVersionNotSupportedError v)])"

definition WorkflowService_SignalWithStartWorkflowExecution_Args_String :: "(float64 \<Rightarrow> string) \<Rightarrow>
    WorkflowService_SignalWithStartWorkflowExecution_Args option \<Rightarrow> string" where
  "WorkflowService_SignalWithStartWorkflowExecution_Args_String F v =
     (case v of None \<Rightarrow> ''<nil>''
      | Some v \<Rightarrow> show_struct ''WorkflowService_SignalWithStartWorkflowExecution_Args''
          [shown_opt ''SignalWithStartRequest'' (\<lambda>x. SignalWithStartWorkflowExecutionRequest_String
              F (Some x))
              (WorkflowService_SignalWithStartWorkflowExecution_Args.SignalWithStartRequest v)])"

definition WorkflowService_SignalWithStartWorkflowExecution_Result_String ::
    "WorkflowService_SignalWithStartWorkflowExecution_Result option \<Rightarrow> string" where
  "WorkflowService_SignalWithStartWorkflowExecution_Result_String v =
     (case v of None \<Rightarrow> ''<nil>''
      | Some v \<Rightarrow> show_struct ''WorkflowService_SignalWithStartWorkflowExecution_Result''
          [shown_opt ''Success'' (\<lambda>x. StartWorkflowExecutionResponse_String (Some x))
              (WorkflowService_SignalWithStartWorkflowExecution_Result.Success v),
           shown_opt ''BadRequestError'' (\<lambda>x. BadRequestError_String (Some x))
               (WorkflowService_SignalWithStartWorkflowExecution_Result.BadRequestError v),
           shown_opt ''InternalServiceError'' (\<lambda>x. InternalServiceError_String (Some x))
               (WorkflowService_SignalWithStartWorkflowExecution_Result.InternalServiceError v),
           shown_opt ''EntityNotExistError'' (\<lambda>x. EntityNotExistsError_String (Some x))
               (WorkflowService_SignalWithStartWorkflowExecution_Result.EntityNotExistError v),
           shown_opt ''ServiceBusyError'' (\<lambda>x. ServiceBusyError_String (Some x))
               (WorkflowService_SignalWithStartWorkflowExecution_Result.ServiceBusyError v),
           shown_opt ''DomainNotActiveError'' (\<lambda>x. DomainNotActiveError_String (Some x))
               (WorkflowService_SignalWithStartWorkflowExecution_Result.DomainNotActiveError v),
           shown_opt ''LimitExceededError'' (\<lambda>x. LimitExceededError_String (Some x))
               (WorkflowService_SignalWithStartWorkflowExecution_Result.LimitExceededError v),
           shown_opt ''WorkflowAlreadyStartedError'' (\<lambda>x.
               WorkflowExecutionAlreadyStartedError_String (Some x))
               (WorkflowService_SignalWithStartWorkflowExecution_Result.WorkflowAlreadyStartedError
               v),
           shown_opt ''ClientVersionNotSupportedError'' (\<lambda>x. ClientVersionNotSupportedError_String
               (Some x))
               (WorkflowService_SignalWithStartWorkflowExecution_Result.ClientVersionNotSupportedError v)])"

definition WorkflowService_SignalWorkflowExecution_Args_String ::
    "WorkflowService_SignalWorkflowExecution_Args option \<Rightarrow> string" where
  "WorkflowService_SignalWorkflowExecution_Args_String v =
     (case v of None \<Rightarrow> ''<nil>''
      | Some v \<Rightarrow> show_struct ''WorkflowService_SignalWorkflowExecution_Args''
          [shown_opt ''SignalRequest'' (\<lambda>x. SignalWorkflowExecutionRequest_String (Some x))
              (WorkflowService_SignalWorkflowExecution_Args.SignalRequest v)])"

definition WorkflowService_SignalWorkflowExecution_Result_String ::
    "WorkflowService_SignalWorkflowExecution_Result option \<Rightarrow> string" where
  "WorkflowService_SignalWorkflowExecution_Result_String v =
     (case v of None \<Rightarrow> ''<nil>''
      | Some v \<Rightarrow> show_struct ''WorkflowService_SignalWorkflowExecution_Result''
          [shown_opt ''BadRequestError'' (\<lambda>x. BadRequestError_String (Some x))
              (WorkflowService_SignalWorkflowExecution_Result.BadRequestError v),
           shown_opt ''InternalServiceError'' (\<lambda>x. InternalServiceError_String (Some x))
               (WorkflowService_SignalWorkflowExecution_Result.InternalServiceError v),
           shown_opt ''EntityNotExistError'' (\<lambda>x. EntityNotExistsError_String (Some x))
               (WorkflowService_SignalWorkflowExecution_Result.EntityNotExistError v),
           shown_opt ''ServiceBusyError'' (\<lambda>x. ServiceBusyError_String (Some x))
               (WorkflowService_SignalWorkflowExecution_Result.ServiceBusyError v),
           shown_opt ''DomainNotActiveError'' (\<lambda>x. DomainNotActiveError_String (Some x))
               (WorkflowService_SignalWorkflowExecution_Result.DomainNotActiveError v),
           shown_opt ''LimitExceededError'' (\<lambda>x. LimitExceededError_String (Some x))
               (WorkflowService_SignalWorkflowExecution_Result.LimitExceededError v),
           shown_opt ''ClientVersionNotSupportedError'' (\<lambda>x. ClientVersionNotSupportedError_String
               (Some x))
               (WorkflowService_SignalWorkflowExecution_Result.ClientVersionNotSupportedError v)])"

definition WorkflowService_TerminateWorkflowExecution_Args_String ::
    "WorkflowService_TerminateWorkflowExecution_Args option \<Rightarrow> string" where
  "WorkflowService_TerminateWorkflowExecution_Args_String v =
     (case v of None \<Rightarrow> ''<nil>''
      | Some v \<Rightarrow> show_struct ''WorkflowService_TerminateWorkflowExecution_Args''
          [shown_opt ''TerminateRequest'' (\<lambda>x. TerminateWorkflowExecutionRequest_String (Some x))
              (WorkflowService_TerminateWorkflowExecution_Args.TerminateRequest v)])"

definition WorkflowService_TerminateWorkflowExecution_Result_String ::
    "WorkflowService_TerminateWorkflowExecution_Result option \<Rightarrow> string" where
  "WorkflowService_TerminateWorkflowExecution_Result_String v =
     (case v of None \<Rightarrow> ''<nil>''
      | Some v \<Rightarrow> show_struct ''WorkflowService_TerminateWorkflowExecution_Result''
          [shown_opt ''BadRequestError'' (\<lambda>x. BadRequestError_String (Some x))
              (WorkflowService_TerminateWorkflowExecution_Result.BadRequestError v),
           shown_opt ''InternalServiceError'' (\<lambda>x. InternalServiceError_String (Some x))
               (WorkflowService_TerminateWorkflowExecution_Result.InternalServiceError v),
           shown_opt ''EntityNotExistError'' (\<lambda>x. EntityNotExistsError_String (Some x))
               (WorkflowService_TerminateWorkflowExecution_Result.EntityNotExistError v),
           shown_opt ''ServiceBusyError'' (\<lambda>x. ServiceBusyError_String (Some x))
               (WorkflowService_TerminateWorkflowExecution_Result.ServiceBusyError v),
           shown_opt ''DomainNotActiveError'' (\<lambda>x. DomainNotActiveError_String (Some x))
               (WorkflowService_TerminateWorkflowExecution_Result.DomainNotActiveError v),
           shown_opt ''LimitExceededError'' (\<lambda>x. LimitExceededError_String (Some x))
               (WorkflowService_TerminateWorkflowExecution_Result.LimitExceededError v),
           shown_opt ''ClientVersionNotSupportedError'' (\<lambda>x. ClientVersionNotSupportedError_String
               (Some x))
               (WorkflowService_TerminateWorkflowExecution_Result.ClientVersionNotSupportedError
               v)])"

definition WorkflowService_RequestCancelWorkflowExecution_Args_String ::
    "WorkflowService_RequestCancelWorkflowExecution_Args option \<Rightarrow> string" where
  "WorkflowService_RequestCancelWorkflowExecution_Args_String v =
     (case v of None \<Rightarrow> ''<nil>''
      | Some v \<Rightarrow> show_struct ''WorkflowService_RequestCancelWorkflowExecution_Args''
          [shown_opt ''CancelRequest'' (\<lambda>x. RequestCancelWorkflowExecutionRequest_String (Some x))
              (WorkflowService_RequestCancelWorkflowExecution_Args.CancelRequest v)])"

definition WorkflowService_RequestCancelWorkflowExecution_Result_String ::
    "WorkflowService_RequestCancelWorkflowExecution_Result option \<Rightarrow> string" where
  "WorkflowService_RequestCancelWorkflowExecution_Result_String v =
     (case v of None \<Rightarrow> ''<nil>''
      | Some v \<Rightarrow> show_struct ''WorkflowService_RequestCancelWorkflowExecution_Result''
          [shown_opt ''BadRequestError'' (\<lambda>x. BadRequestError_String (Some x))
              (WorkflowService_RequestCancelWorkflowExecution_Result.BadRequestError v),
           shown_opt ''InternalServiceError'' (\<lambda>x. InternalServiceError_String (Some x))
               (WorkflowService_RequestCancelWorkflowExecution_Result.InternalServiceError v),
           shown_opt ''EntityNotExistError'' (\<lambda>x. EntityNotExistsError_String (Some x))
               (WorkflowService_RequestCancelWorkflowExecution_Result.EntityNotExistError v),
           shown_opt ''CancellationAlreadyRequestedError'' (\<lambda>x.
               CancellationAlreadyRequestedError_String (Some x))
               (WorkflowService_RequestCancelWorkflowExecution_Result.CancellationAlreadyRequestedError v),
           shown_opt ''ServiceBusyError'' (\<lambda>x. ServiceBusyError_String (Some x))
               (WorkflowService_RequestCancelWorkflowExecution_Result.ServiceBusyError v),
           shown_opt ''DomainNotActiveError'' (\<lambda>x. DomainNotActiveError_String (Some x))
               (WorkflowService_RequestCancelWorkflowExecution_Result.DomainNotActiveError v),
           shown_opt ''LimitExceededError'' (\<lambda>x. LimitExceededError_String (Some x))
               (WorkflowService_RequestCancelWorkflowExecution_Result.LimitExceededError v),
           shown_opt ''ClientVersionNotSupportedError'' (\<lambda>x. ClientVersionNotSupportedError_String
               (Some x))
               (WorkflowService_RequestCancelWorkflowExecution_Result.ClientVersionNotSupportedError
               v)])"

definition WorkflowService_ResetWorkflowExecution_Args_String ::
    "WorkflowService_ResetWorkflowExecution_Args option \<Rightarrow> string" where
  "WorkflowService_ResetWorkflowExecution_Args_String v =
     (case v of None \<Rightarrow> ''<nil>''
      | Some v \<Rightarrow> show_struct ''WorkflowService_ResetWorkflowExecution_Args''
          [shown_opt ''ResetRequest'' (\<lambda>x. ResetWorkflowExecutionRequest_String (Some x))
              (WorkflowService_ResetWorkflowExecution_Args.ResetRequest v)])"

definition WorkflowService_ResetWorkflowExecution_Result_String ::
    "WorkflowService_ResetWorkflowExecution_Result option \<Rightarrow> string" where
  "WorkflowService_ResetWorkflowExecution_Result_String v =
     (case v of None \<Rightarrow> ''<nil>''
      | Some v \<Rightarrow> show_struct ''WorkflowService_ResetWorkflowExecution_Result''
          [shown_opt ''Success'' (\<lambda>x. ResetWorkflowExecutionResponse_String (Some x))
              (WorkflowService_ResetWorkflowExecution_Result.Success v),
           shown_opt ''BadRequestError'' (\<lambda>x. BadRequestError_String (Some x))
               (WorkflowService_ResetWorkflowExecution_Result.BadRequestError v),
           shown_opt ''InternalServiceError'' (\<lambda>x. InternalServiceError_String (Some x))
               (WorkflowService_ResetWorkflowExecution_Result.InternalServiceError v),
           shown_opt ''EntityNotExistError'' (\<lambda>x. EntityNotExistsError_String (Some x))
               (WorkflowService_ResetWorkflowExecution_Result.EntityNotExistError v),
           shown_opt ''ServiceBusyError'' (\<lambda>x. ServiceBusyError_String (Some x))
               (WorkflowService_ResetWorkflowExecution_Result.ServiceBusyError v),
           shown_opt ''DomainNotActiveError'' (\<lambda>x. DomainNotActiveError_String (Some x))
               (WorkflowService_ResetWorkflowExecution_Result.DomainNotActiveError v),
           shown_opt ''LimitExceededError'' (\<lambda>x. LimitExceededError_String (Some x))
               (WorkflowService_ResetWorkflowExecution_Result.LimitExceededError v),
           shown_opt ''ClientVersionNotSupportedError'' (\<lambda>x. ClientVersionNotSupportedError_String
               (Some x))
               (WorkflowService_ResetWorkflowExecution_Result.ClientVersionNotSupportedError v)])"

definition WorkflowService_GetWorkflowExecutionHistory_Args_String ::
    "WorkflowService_GetWorkflowExecutionHistory_Args option \<Rightarrow> string" where
  "WorkflowService_GetWorkflowExecutionHistory_Args_String v =
     (case v of None \<Rightarrow> ''<nil>''
      | Some v \<Rightarrow> show_struct ''WorkflowService_GetWorkflowExecutionHistory_Args''
          [shown_opt ''GetRequest'' (\<lambda>x. GetWorkflowExecutionHistoryRequest_String (Some x))
              (WorkflowService_GetWorkflowExecutionHistory_Args.GetRequest v)])"

definition WorkflowService_GetWorkflowExecutionHistory_Result_String :: "(float64 \<Rightarrow> string) \<Rightarrow>
    WorkflowService_GetWorkflowExecutionHistory_Result option \<Rightarrow> string" where
  "WorkflowService_GetWorkflowExecutionHistory_Result_String F v =
     (case v of None \<Rightarrow> ''<nil>''
      | Some v \<Rightarrow> show_struct ''WorkflowService_GetWorkflowExecutionHistory_Result''
          [shown_opt ''Success'' (\<lambda>x. GetWorkflowExecutionHistoryResponse_String F (Some x))
              (WorkflowService_GetWorkflowExecutionHistory_Result.Success v),
           shown_opt ''BadRequestError'' (\<lambda>x. BadRequestError_String (Some x))
               (WorkflowService_GetWorkflowExecutionHistory_Result.BadRequestError v),
           shown_opt ''InternalServiceError'' (\<lambda>x. InternalServiceError_String (Some x))
               (WorkflowService_GetWorkflowExecutionHistory_Result.InternalServiceError v),
           shown_opt ''EntityNotExistError'' (\<lambda>x. EntityNotExistsError_String (Some x))
               (WorkflowService_GetWorkflowExecutionHistory_Result.EntityNotExistError v),
           shown_opt ''ServiceBusyError'' (\<lambda>x. ServiceBusyError_String (Some x))
               (WorkflowService_GetWorkflowExecutionHistory_Result.ServiceBusyError v),
           shown_opt ''ClientVersionNotSupportedError'' (\<lambda>x. ClientVersionNotSupportedError_String
               (Some x))
               (WorkflowService_GetWorkflowExecutionHistory_Result.ClientVersionNotSupportedError
               v)])"

definition WorkflowService_RegisterDomain_Args_String :: "WorkflowService_RegisterDomain_Args option
    \<Rightarrow> string" where
  "WorkflowService_RegisterDomain_Args_String v =
     (case v of None \<Rightarrow> ''<nil>''
      | Some v \<Rightarrow> show_struct ''WorkflowService_RegisterDomain_Args''
          [shown_opt ''RegisterRequest'' (\<lambda>x. RegisterDomainRequest_String (Some x))
              (WorkflowService_RegisterDomain_Args.RegisterRequest v)])"

definition WorkflowService_RegisterDomain_Result_String :: "WorkflowService_RegisterDomain_Result
    option \<Rightarrow> string" where
  "WorkflowService_RegisterDomain_Result_String v =
     (case v of None \<Rightarrow> ''<nil>''
      | Some v \<Rightarrow> show_struct ''WorkflowService_RegisterDomain_Result''
          [shown_opt ''BadRequestError'' (\<lambda>x. BadRequestError_String (Some x))
              (WorkflowService_RegisterDomain_Result.BadRequestError v),
           shown_opt ''InternalServiceError'' (\<lambda>x. InternalServiceError_String (Some x))
               (WorkflowService_RegisterDomain_Result.InternalServiceError v),
           shown_opt ''DomainExistsError'' (\<lambda>x. DomainAlreadyExistsError_String (Some x))
               (WorkflowService_RegisterDomain_Result.DomainExistsError v),
           shown_opt ''ServiceBusyError'' (\<lambda>x. ServiceBusyError_String (Some x))
               (WorkflowService_RegisterDomain_Result.ServiceBusyError v),
           shown_opt ''ClientVersionNotSupportedError'' (\<lambda>x. ClientVersionNotSupportedError_String
               (Some x)) (WorkflowService_RegisterDomain_Result.ClientVersionNotSupportedError v)])"

definition WorkflowService_DescribeDomain_Args_String :: "WorkflowService_DescribeDomain_Args option
    \<Rightarrow> string" where
  "WorkflowService_DescribeDomain_Args_String v =
     (case v of None \<Rightarrow> ''<nil>''
      | Some v \<Rightarrow> show_struct ''WorkflowService_DescribeDomain_Args''
          [shown_opt ''DescribeRequest'' (\<lambda>x. DescribeDomainRequest_String (Some x))
              (WorkflowService_DescribeDomain_Args.DescribeRequest v)])"

definition WorkflowService_DescribeDomain_Result_String :: "WorkflowService_DescribeDomain_Result
    option \<Rightarrow> string" where
  "WorkflowService_DescribeDomain_Result_String v =
     (case v of None \<Rightarrow> ''<nil>''
      | Some v \<Rightarrow> show_struct ''WorkflowService_DescribeDomain_Result''
          [shown_opt ''Success'' (\<lambda>x. DescribeDomainResponse_String (Some x))
              (WorkflowService_DescribeDomain_Result.Success v),
           shown_opt ''BadRequestError'' (\<lambda>x. BadRequestError_String (Some x))
               (WorkflowService_DescribeDomain_Result.BadRequestError v),
           shown_opt ''InternalServiceError'' (\<lambda>x. InternalServiceError_String (Some x))
               (WorkflowService_DescribeDomain_Result.InternalServiceError v),
           shown_opt ''EntityNotExistError'' (\<lambda>x. EntityNotExistsError_String (Some x))
               (WorkflowService_DescribeDomain_Result.EntityNotExistError v),
           shown_opt ''ServiceBusyError'' (\<lambda>x. ServiceBusyError_String (Some x))
               (WorkflowService_DescribeDomain_Result.ServiceBusyError v),
           shown_opt ''ClientVersionNotSupportedError'' (\<lambda>x. ClientVersionNotSupportedError_String
               (Some x)) (WorkflowService_DescribeDomain_Result.ClientVersionNotSupportedError v)])"

definition WorkflowService_ListDomains_Args_String :: "WorkflowService_ListDomains_Args option \<Rightarrow>
    string" where
  "WorkflowService_ListDomains_Args_String v =
     (case v of None \<Rightarrow> ''<nil>''
      | Some v \<Rightarrow> show_struct ''WorkflowService_ListDomains_Args''
          [shown_opt ''ListRequest'' (\<lambda>x. ListDomainsRequest_String (Some x))
              (WorkflowService_ListDomains_Args.ListRequest v)])"

definition WorkflowService_ListDomains_Result_String :: "WorkflowService_ListDomains_Result option \<Rightarrow>
    string" where
  "WorkflowService_ListDomains_Result_String v =
     (case v of None \<Rightarrow> ''<nil>''
      | Some v \<Rightarrow> show_struct ''WorkflowService_ListDomains_Result''
          [shown_opt ''Success'' (\<lambda>x. ListDomainsResponse_String (Some x))
              (WorkflowService_ListDomains_Result.Success v),
           shown_opt ''BadRequestError'' (\<lambda>x. BadRequestError_String (Some x))
               (WorkflowService_ListDomains_Result.BadRequestError v),
           shown_opt ''InternalServiceError'' (\<lambda>x. InternalServiceError_String (Some x))
               (WorkflowService_ListDomains_Result.InternalServiceError v),
           shown_opt ''EntityNotExistError'' (\<lambda>x. EntityNotExistsError_String (Some x))
               (WorkflowService_ListDomains_Result.EntityNotExistError v),
           shown_opt ''ServiceBusyError'' (\<lambda>x. ServiceBusyError_String (Some x))
               (WorkflowService_ListDomains_Result.ServiceBusyError v),
           shown_opt ''ClientVersionNotSupportedError'' (\<lambda>x. ClientVersionNotSupportedError_String
               (Some x)) (WorkflowService_ListDomains_Result.ClientVersionNotSupportedError v)])"

definition WorkflowService_UpdateDomain_Args_String :: "WorkflowService_UpdateDomain_Args option \<Rightarrow>
    string" where
  "WorkflowService_UpdateDomain_Args_String v =
     (case v of None \<Rightarrow> ''<nil>''
      | Some v \<Rightarrow> show_struct ''WorkflowService_UpdateDomain_Args''
          [shown_opt ''UpdateRequest'' (\<lambda>x. UpdateDomainRequest_String (Some x))
              (WorkflowService_UpdateDomain_Args.UpdateRequest v)])"

definition WorkflowService_UpdateDomain_Result_String :: "WorkflowService_UpdateDomain_Result option
    \<Rightarrow> string" where
  "WorkflowService_UpdateDomain_Result_String v =
     (case v of None \<Rightarrow> ''<nil>''
      | Some v \<Rightarrow> show_struct ''WorkflowService_UpdateDomain_Result''
          [shown_opt ''Success'' (\<lambda>x. UpdateDomainResponse_String (Some x))
              (WorkflowService_UpdateDomain_Result.Success v),
           shown_opt ''BadRequestError'' (\<lambda>x. BadRequestError_String (Some x))
               (WorkflowService_UpdateDomain_Result.BadRequestError v),
           shown_opt ''InternalServiceError'' (\<lambda>x. InternalServiceError_String (Some x))
               (WorkflowService_UpdateDomain_Result.InternalServiceError v),
           shown_opt ''EntityNotExistError'' (\<lambda>x. EntityNotExistsError_String (Some x))
               (WorkflowService_UpdateDomain_Result.EntityNotExistError v),
           shown_opt ''ServiceBusyError'' (\<lambda>x. ServiceBusyError_String (Some x))
               (WorkflowService_UpdateDomain_Result.ServiceBusyError v),
           shown_opt ''DomainNotActiveError'' (\<lambda>x. DomainNotActiveError_String (Some x))
               (WorkflowService_UpdateDomain_Result.DomainNotActiveError v),
           shown_opt ''ClientVersionNotSupportedError'' (\<lambda>x. ClientVersionNotSupportedError_String
               (Some x)) (WorkflowService_UpdateDomain_Result.ClientVersionNotSupportedError v)])"

definition WorkflowService_DeprecateDomain_Args_String :: "WorkflowService_DeprecateDomain_Args
    option \<Rightarrow> string" where
  "WorkflowService_DeprecateDomain_Args_String v =
     (case v of None \<Rightarrow> ''<nil>''
      | Some v \<Rightarrow> show_struct ''WorkflowService_DeprecateDomain_Args''
          [shown_opt ''DeprecateRequest'' (\<lambda>x. DeprecateDomainRequest_String (Some x))
              (WorkflowService_DeprecateDomain_Args.DeprecateRequest v)])"

definition WorkflowService_DeprecateDomain_Result_String :: "WorkflowService_DeprecateDomain_Result
    option \<Rightarrow> string" where
  "WorkflowService_DeprecateDomain_Result_String v =
     (case v of None \<Rightarrow> ''<nil>''
      | Some v \<Rightarrow> show_struct ''WorkflowService_DeprecateDomain_Result''
          [shown_opt ''BadRequestError'' (\<lambda>x. BadRequestError_String (Some x))
              (WorkflowService_DeprecateDomain_Result.BadRequestError v),
           shown_opt ''InternalServiceError'' (\<lambda>x. InternalServiceError_String (Some x))
               (WorkflowService_DeprecateDomain_Result.InternalServiceError v),
           shown_opt ''EntityNotExistError'' (\<lambda>x. EntityNotExistsError_String (Some x))
               (WorkflowService_DeprecateDomain_Result.EntityNotExistError v),
           shown_opt ''ServiceBusyError'' (\<lambda>x. ServiceBusyError_String (Some x))
               (WorkflowService_DeprecateDomain_Result.ServiceBusyError v),
           shown_opt ''DomainNotActiveError'' (\<lambda>x. DomainNotActiveError_String (Some x))
               (WorkflowService_DeprecateDomain_Result.DomainNotActiveError v),
           shown_opt ''ClientVersionNotSupportedError'' (\<lambda>x. ClientVersionNotSupportedError_String
               (Some x)) (WorkflowService_DeprecateDomain_Result.ClientVersionNotSupportedError
               v)])"

definition WorkflowService_DescribeTaskList_Args_String :: "WorkflowService_DescribeTaskList_Args
    option \<Rightarrow> string" where
  "WorkflowService_DescribeTaskList_Args_String v =
     (case v of None \<Rightarrow> ''<nil>''
      | Some v \<Rightarrow> show_struct ''WorkflowService_DescribeTaskList_Args''
          [shown_opt ''Request'' (\<lambda>x. DescribeTaskListRequest_String (Some x))
              (WorkflowService_DescribeTaskList_Args.Request v)])"

definition WorkflowService_DescribeTaskList_Result_String :: "(float64 \<Rightarrow> string) \<Rightarrow>
    WorkflowService_DescribeTaskList_Result option \<Rightarrow> string" where
  "WorkflowService_DescribeTaskList_Result_String F v =
     (case v of None \<Rightarrow> ''<nil>''
      | Some v \<Rightarrow> show_struct ''WorkflowService_DescribeTaskList_Result''
          [shown_opt ''Success'' (\<lambda>x. DescribeTaskListResponse_String F (Some x))
              (WorkflowService_DescribeTaskList_Result.Success v),
           shown_opt ''BadRequestError'' (\<lambda>x. BadRequestError_String (Some x))
               (WorkflowService_DescribeTaskList_Result.BadRequestError v),
           shown_opt ''InternalServiceError'' (\<lambda>x. InternalServiceError_String (Some x))
               (WorkflowService_DescribeTaskList_Result.InternalServiceError v),
           shown_opt ''EntityNotExistError'' (\<lambda>x. EntityNotExistsError_String (Some x))
               (WorkflowService_DescribeTaskList_Result.EntityNotExistError v),
           shown_opt ''LimitExceededError'' (\<lambda>x. LimitExceededError_String (Some x))
               (WorkflowService_DescribeTaskList_Result.LimitExceededError v),
           shown_opt ''ServiceBusyError'' (\<lambda>x. ServiceBusyError_String (Some x))
               (WorkflowService_DescribeTaskList_Result.ServiceBusyError v),
           shown_opt ''ClientVersionNotSupportedError'' (\<lambda>x. ClientVersionNotSupportedError_String
               (Some x)) (WorkflowService_DescribeTaskList_Result.ClientVersionNotSupportedError
               v)])"

definition WorkflowService_ListOpenWorkflowExecutions_Args_String ::
    "WorkflowService_ListOpenWorkflowExecutions_Args option \<Rightarrow> string" where
  "WorkflowService_ListOpenWorkflowExecutions_Args_String v =
     (case v of None \<Rightarrow> ''<nil>''
      | Some v \<Rightarrow> show_struct ''WorkflowService_ListOpenWorkflowExecutions_Args''
          [shown_opt ''ListRequest'' (\<lambda>x. ListOpenWorkflowExecutionsRequest_String (Some x))
              (WorkflowService_ListOpenWorkflowExecutions_Args.ListRequest v)])"

definition WorkflowService_ListOpenWorkflowExecutions_Result_String ::
    "WorkflowService_ListOpenWorkflowExecutions_Result option \<Rightarrow> string" where
  "WorkflowService_ListOpenWorkflowExecutions_Result_String v =
     (case v of None \<Rightarrow> ''<nil>''
      | Some v \<Rightarrow> show_struct ''WorkflowService_ListOpenWorkflowExecutions_Result''
          [shown_opt ''Success'' (\<lambda>x. ListOpenWorkflowExecutionsResponse_String (Some x))
              (WorkflowService_ListOpenWorkflowExecutions_Result.Success v),
           shown_opt ''BadRequestError'' (\<lambda>x. BadRequestError_String (Some x))
               (WorkflowService_ListOpenWorkflowExecutions_Result.BadRequestError v),
           shown_opt ''InternalServiceError'' (\<lambda>x. InternalServiceError_String (Some x))
               (WorkflowService_ListOpenWorkflowExecutions_Result.InternalServiceError v),
           shown_opt ''EntityNotExistError'' (\<lambda>x. EntityNotExistsError_String (Some x))
               (WorkflowService_ListOpenWorkflowExecutions_Result.EntityNotExistError v),
           shown_opt ''ServiceBusyError'' (\<lambda>x. ServiceBusyError_String (Some x))
               (WorkflowService_ListOpenWorkflowExecutions_Result.ServiceBusyError v),
           shown_opt ''LimitExceededError'' (\<lambda>x. LimitExceededError_String (Some x))
               (WorkflowService_ListOpenWorkflowExecutions_Result.LimitExceededError v),
           shown_opt ''ClientVersionNotSupportedError'' (\<lambda>x. ClientVersionNotSupportedError_String
               (Some x))
               (WorkflowService_ListOpenWorkflowExecutions_Result.ClientVersionNotSupportedError
               v)])"

definition WorkflowService_ListClosedWorkflowExecutions_Args_String ::
    "WorkflowService_ListClosedWorkflowExecutions_Args option \<Rightarrow> string" where
  "WorkflowService_ListClosedWorkflowExecutions_Args_String v =
     (case v of None \<Rightarrow> ''<nil>''
      | Some v \<Rightarrow> show_struct ''WorkflowService_ListClosedWorkflowExecutions_Args''
          [shown_opt ''ListRequest'' (\<lambda>x. ListClosedWorkflowExecutionsRequest_String (Some x))
              (WorkflowService_ListClosedWorkflowExecutions_Args.ListRequest v)])"

definition WorkflowService_ListClosedWorkflowExecutions_Result_String ::
    "WorkflowService_ListClosedWorkflowExecutions_Result option \<Rightarrow> string" where
  "WorkflowService_ListClosedWorkflowExecutions_Result_String v =
     (case v of None \<Rightarrow> ''<nil>''
      | Some v \<Rightarrow> show_struct ''WorkflowService_ListClosedWorkflowExecutions_Result''
          [shown_opt ''Success'' (\<lambda>x. ListClosedWorkflowExecutionsResponse_String (Some x))
              (WorkflowService_ListClosedWorkflowExecutions_Result.Success v),
           shown_opt ''BadRequestError'' (\<lambda>x. BadRequestError_String (Some x))
               (WorkflowService_ListClosedWorkflowExecutions_Result.BadRequestError v),
           shown_opt ''InternalServiceError'' (\<lambda>x. InternalServiceError_String (Some x))
               (WorkflowService_ListClosedWorkflowExecutions_Result.InternalServiceError v),
           shown_opt ''EntityNotExistError'' (\<lambda>x. EntityNotExistsError_String (Some x))
               (WorkflowService_ListClosedWorkflowExecutions_Result.EntityNotExistError v),
           shown_opt ''ServiceBusyError'' (\<lambda>x. ServiceBusyError_String (Some x))
               (WorkflowService_ListClosedWorkflowExecutions_Result.ServiceBusyError v),
           shown_opt ''ClientVersionNotSupportedError'' (\<lambda>x. ClientVersionNotSupportedError_String
               (Some x))
               (WorkflowService_ListClosedWorkflowExecutions_Result.ClientVersionNotSupportedError
               v)])"

definition WorkflowService_ListWorkflowExecutions_Args_String ::
    "WorkflowService_ListWorkflowExecutions_Args option \<Rightarrow> string" where
  "WorkflowService_ListWorkflowExecutions_Args_String v =
     (case v of None \<Rightarrow> ''<nil>''
      | Some v \<Rightarrow> show_struct ''WorkflowService_ListWorkflowExecutions_Args''
          [shown_opt ''ListRequest'' (\<lambda>x. ListWorkflowExecutionsRequest_String (Some x))
              (WorkflowService_ListWorkflowExecutions_Args.ListRequest v)])"

definition WorkflowService_ListWorkflowExecutions_Result_String ::
    "WorkflowService_ListWorkflowExecutions_Result option \<Rightarrow> string" where
  "WorkflowService_ListWorkflowExecutions_Result_String v =
     (case v of None \<Rightarrow> ''<nil>''
      | Some v \<Rightarrow> show_struct ''WorkflowService_ListWorkflowExecutions_Result''
          [shown_opt ''Success'' (\<lambda>x. ListWorkflowExecutionsResponse_String (Some x))
              (WorkflowService_ListWorkflowExecutions_Result.Success v),
           shown_opt ''BadRequestError'' (\<lambda>x. BadRequestError_String (Some x))
               (WorkflowService_ListWorkflowExecutions_Result.BadRequestError v),
           shown_opt ''InternalServiceError'' (\<lambda>x. InternalServiceError_String (Some x))
               (WorkflowService_ListWorkflowExecutions_Result.InternalServiceError v),
           shown_opt ''EntityNotExistError'' (\<lambda>x. EntityNotExistsError_String (Some x))
               (WorkflowService_ListWorkflowExecutions_Result.EntityNotExistError v),
           shown_opt ''ServiceBusyError'' (\<lambda>x. ServiceBusyError_String (Some x))
               (WorkflowService_ListWorkflowExecutions_Result.ServiceBusyError v),
           shown_opt ''ClientVersionNotSupportedError'' (\<lambda>x. ClientVersionNotSupportedError_String
               (Some x))
               (WorkflowService_ListWorkflowExecutions_Result.ClientVersionNotSupportedError v)])"

definition WorkflowService_ListArchivedWorkflowExecutions_Args_String ::
    "WorkflowService_ListArchivedWorkflowExecutions_Args option \<Rightarrow> string" where
  "WorkflowService_ListArchivedWorkflowExecutions_Args_String v =
     (case v of None \<Rightarrow> ''<nil>''
      | Some v \<Rightarrow> show_struct ''WorkflowService_ListArchivedWorkflowExecutions_Args''
          [shown_opt ''ListRequest'' (\<lambda>x. ListArchivedWorkflowExecutionsRequest_String (Some x))
              (WorkflowService_ListArchivedWorkflowExecutions_Args.ListRequest v)])"

definition WorkflowService_ListArchivedWorkflowExecutions_Result_String ::
    "WorkflowService_ListArchivedWorkflowExecutions_Result option \<Rightarrow> string" where
  "WorkflowService_ListArchivedWorkflowExecutions_Result_String v =
     (case v of None \<Rightarrow> ''<nil>''
      | Some v \<Rightarrow> show_struct ''WorkflowService_ListArchivedWorkflowExecutions_Result''
          [shown_opt ''Success'' (\<lambda>x. ListArchivedWorkflowExecutionsResponse_String (Some x))
              (WorkflowService_ListArchivedWorkflowExecutions_Result.Success v),
           shown_opt ''BadRequestError'' (\<lambda>x. BadRequestError_String (Some x))
               (WorkflowService_ListArchivedWorkflowExecutions_Result.BadRequestError v),
           shown_opt ''InternalServiceError'' (\<lambda>x. InternalServiceError_String (Some x))
               (WorkflowService_ListArchivedWorkflowExecutions_Result.InternalServiceError v),
           shown_opt ''EntityNotExistError'' (\<lambda>x. EntityNotExistsError_String (Some x))
               (WorkflowService_ListArchivedWorkflowExecutions_Result.EntityNotExistError v),
           shown_opt ''ServiceBusyError'' (\<lambda>x. ServiceBusyError_String (Some x))
               (WorkflowService_ListArchivedWorkflowExecutions_Result.ServiceBusyError v),
           shown_opt ''ClientVersionNotSupportedError'' (\<lambda>x. ClientVersionNotSupportedError_String
               (Some x))
               (WorkflowService_ListArchivedWorkflowExecutions_Result.ClientVersionNotSupportedError
               v)])"

definition WorkflowService_ScanWorkflowExecutions_Args_String ::
    "WorkflowService_ScanWorkflowExecutions_Args option \<Rightarrow> string" where
  "WorkflowService_ScanWorkflowExecutions_Args_String v =
     (case v of None \<Rightarrow> ''<nil>''
      | Some v \<Rightarrow> show_struct ''WorkflowService_ScanWorkflowExecutions_Args''
          [shown_opt ''ListRequest'' (\<lambda>x. ListWorkflowExecutionsRequest_String (Some x))
              (WorkflowService_ScanWorkflowExecutions_Args.ListRequest v)])"

definition WorkflowService_ScanWorkflowExecutions_Result_String ::
    "WorkflowService_ScanWorkflowExecutions_Result option \<Rightarrow> string" where
  "WorkflowService_ScanWorkflowExecutions_Result_String v =
     (case v of None \<Rightarrow> ''<nil>''
      | Some v \<Rightarrow> show_struct ''WorkflowService_ScanWorkflowExecutions_Result''
          [shown_opt ''Success'' (\<lambda>x. ListWorkflowExecutionsResponse_String (Some x))
              (WorkflowService_ScanWorkflowExecutions_Result.Success v),
           shown_opt ''BadRequestError'' (\<lambda>x. BadRequestError_String (Some x))
               (WorkflowService_ScanWorkflowExecutions_Result.BadRequestError v),
           shown_opt ''InternalServiceError'' (\<lambda>x. InternalServiceError_String (Some x))
               (WorkflowService_ScanWorkflowExecutions_Result.InternalServiceError v),
           shown_opt ''EntityNotExistError'' (\<lambda>x. EntityNotExistsError_String (Some x))
               (WorkflowService_ScanWorkflowExecutions_Result.EntityNotExistError v),
           shown_opt ''ServiceBusyError'' (\<lambda>x. ServiceBusyError_String (Some x))
               (WorkflowService_ScanWorkflowExecutions_Result.ServiceBusyError v),
           shown_opt ''ClientVersionNotSupportedError'' (\<lambda>x. ClientVersionNotSupportedError_String
               (Some x))
               (WorkflowService_ScanWorkflowExecutions_Result.ClientVersionNotSupportedError v)])"

definition WorkflowService_CountWorkflowExecutions_Args_String ::
    "WorkflowService_CountWorkflowExecutions_Args option \<Rightarrow> string" where
  "WorkflowService_CountWorkflowExecutions_Args_String v =
     (case v of None \<Rightarrow> ''<nil>''
      | Some v \<Rightarrow> show_struct ''WorkflowService_CountWorkflowExecutions_Args''
          [shown_opt ''CountRequest'' (\<lambda>x. CountWorkflowExecutionsRequest_String (Some x))
              (WorkflowService_CountWorkflowExecutions_Args.CountRequest v)])"

definition WorkflowService_CountWorkflowExecutions_Result_String ::
    "WorkflowService_CountWorkflowExecutions_Result option \<Rightarrow> string" where
  "WorkflowService_CountWorkflowExecutions_Result_String v =
     (case v of None \<Rightarrow> ''<nil>''
      | Some v \<Rightarrow> show_struct ''WorkflowService_CountWorkflowExecutions_Result''
          [shown_opt ''Success'' (\<lambda>x. CountWorkflowExecutionsResponse_String (Some x))
              (WorkflowService_CountWorkflowExecutions_Result.Success v),
           shown_opt ''BadRequestError'' (\<lambda>x. BadRequestError_String (Some x))
               (WorkflowService_CountWorkflowExecutions_Result.BadRequestError v),
           shown_opt ''InternalServiceError'' (\<lambda>x. InternalServiceError_String (Some x))
               (WorkflowService_CountWorkflowExecutions_Result.InternalServiceError v),
           shown_opt ''EntityNotExistError'' (\<lambda>x. EntityNotExistsError_String (Some x))
               (WorkflowService_CountWorkflowExecutions_Result.EntityNotExistError v),
           shown_opt ''ServiceBusyError'' (\<lambda>x. ServiceBusyError_String (Some x))
               (WorkflowService_CountWorkflowExecutions_Result.ServiceBusyError v),
           shown_opt ''ClientVersionNotSupportedError'' (\<lambda>x. ClientVersionNotSupportedError_String
               (Some x))
               (WorkflowService_CountWorkflowExecutions_Result.ClientVersionNotSupportedError v)])"

definition WorkflowService_GetSearchAttributes_Args_String ::
    "WorkflowService_GetSearchAttributes_Args option \<Rightarrow> string" where
  "WorkflowService_GetSearchAttributes_Args_String v =
     (case v of None \<Rightarrow> ''<nil>''
      | Some v \<Rightarrow> show_struct ''WorkflowService_GetSearchAttributes_Args''
          [])"

definition WorkflowService_GetSearchAttributes_Result_String ::
    "WorkflowService_GetSearchAttributes_Result option \<Rightarrow> string" where
  "WorkflowService_GetSearchAttributes_Result_String v =
     (case v of None \<Rightarrow> ''<nil>''
      | Some v \<Rightarrow> show_struct ''WorkflowService_GetSearchAttributes_Result''
          [shown_opt ''Success'' (\<lambda>x. GetSearchAttributesResponse_String (Some x))
              (WorkflowService_GetSearchAttributes_Result.Success v),
           shown_opt ''InternalServiceError'' (\<lambda>x. InternalServiceError_String (Some x))
               (WorkflowService_GetSearchAttributes_Result.InternalServiceError v),
           shown_opt ''ServiceBusyError'' (\<lambda>x. ServiceBusyError_String (Some x))
               (WorkflowService_GetSearchAttributes_Result.ServiceBusyError v),
           shown_opt ''ClientVersionNotSupportedError'' (\<lambda>x. ClientVersionNotSupportedError_String
               (Some x)) (WorkflowService_GetSearchAttributes_Result.ClientVersionNotSupportedError
               v)])"

definition WorkflowService_DescribeWorkflowExecution_Args_String ::
    "WorkflowService_DescribeWorkflowExecution_Args option \<Rightarrow> string" where
  "WorkflowService_DescribeWorkflowExecution_Args_String v =
     (case v of None \<Rightarrow> ''<nil>''
      | Some v \<Rightarrow> show_struct ''WorkflowService_DescribeWorkflowExecution_Args''
          [shown_opt ''DescribeRequest'' (\<lambda>x. DescribeWorkflowExecutionRequest_String (Some x))
              (WorkflowService_DescribeWorkflowExecution_Args.DescribeRequest v)])"

definition WorkflowService_DescribeWorkflowExecution_Result_String ::
    "WorkflowService_DescribeWorkflowExecution_Result option \<Rightarrow> string" where
  "WorkflowService_DescribeWorkflowExecution_Result_String v =
     (case v of None \<Rightarrow> ''<nil>''
      | Some v \<Rightarrow> show_struct ''WorkflowService_DescribeWorkflowExecution_Result''
          [shown_opt ''Success'' (\<lambda>x. DescribeWorkflowExecutionResponse_String (Some x))
              (WorkflowService_DescribeWorkflowExecution_Result.Success v),
           shown_opt ''BadRequestError'' (\<lambda>x. BadRequestError_String (Some x))
               (WorkflowService_DescribeWorkflowExecution_Result.BadRequestError v),
           shown_opt ''InternalServiceError'' (\<lambda>x. InternalServiceError_String (Some x))
               (WorkflowService_DescribeWorkflowExecution_Result.InternalServiceError v),
           shown_opt ''EntityNotExistError'' (\<lambda>x. EntityNotExistsError_String (Some x))
               (WorkflowService_DescribeWorkflowExecution_Result.EntityNotExistError v),
           shown_opt ''LimitExceededError'' (\<lambda>x. LimitExceededError_String (Some x))
               (WorkflowService_DescribeWorkflowExecution_Result.LimitExceededError v),
           shown_opt ''ServiceBusyError'' (\<lambda>x. ServiceBusyError_String (Some x))
               (WorkflowService_DescribeWorkflowExecution_Result.ServiceBusyError v),
           shown_opt ''ClientVersionNotSupportedError'' (\<lambda>x. ClientVersionNotSupportedError_String
               (Some x))
               (WorkflowService_DescribeWorkflowExecution_Result.ClientVersionNotSupportedError
               v)])"

end
