(* ===== verification/Base64.thy ===== *)
theory Base64
  imports Prelude
begin

text \<open>
  Base64 with padding (RFC 4648), of Ruby's standard library and of Go's: the tokens of
  asynchronous activities (lib/cadence/activity/async_token.rb) are written in the alphabet that is
  safe in URLs, the binary fields of the proxy's log entries (proxy/gen/shared/shared.go) in the
  standard one. What either writes is decoded again.
\<close>

definition std_alphabet :: string where
  "std_alphabet = ''ABCDEFGHIJKLMNOPQRSTUVWXYZabcdefghijklmnopqrstuvwxyz0123456789+/''"

definition url_alphabet :: string where
  "url_alphabet = ''ABCDEFGHIJKLMNOPQRSTUVWXYZabcdefghijklmnopqrstuvwxyz0123456789-_''"

definition char_sextet :: "char \<Rightarrow> nat option" where
  "char_sextet c = map_of (zip (url_alphabet @ ''+/'') ([0..<64] @ [62, 63])) c"

fun encode64 :: "string \<Rightarrow> nat list \<Rightarrow> string" where
  "encode64 A [] = []"
| "encode64 A [a] = [A ! (a div 4), A ! (a mod 4 * 16), CHR ''='', CHR ''='']"
| "encode64 A [a, b] = [A ! (a div 4), A ! (a mod 4 * 16 + b div 16), A ! (b mod 16 * 4), CHR ''='']"
| "encode64 A (a # b # c # rest) =
     A ! (a div 4) # A ! (a mod 4 * 16 + b div 16) # A ! (b mod 16 * 4 + c div 64) # A ! (c mod 64) #
     encode64 A rest"

text \<open>Strict decoding: no other characters, and the bits that padding leaves over are zero.\<close>

fun decode64 :: "string \<Rightarrow> nat list option" where
  "decode64 [] = Some []"
| "decode64 (p # q # r # s # rest) =
     (case (char_sextet p, char_sextet q) of
        (Some a, Some b) \<Rightarrow>
          if r = CHR ''='' then
            (if s = CHR ''='' \<and> rest = [] \<and> b mod 16 = 0 then Some [a * 4 + b div 16] else None)
          else
            (case char_sextet r of
               None \<Rightarrow> None
             | Some c \<Rightarrow>
                 if s = CHR ''='' then
                   (if rest = [] \<and> c mod 4 = 0 then Some [a * 4 + b div 16, b mod 16 * 16 + c div 4] else None)
                 else
                   (case char_sextet s of
                      None \<Rightarrow> None
                    | Some d \<Rightarrow>
                        map_option (\<lambda>bs. (a * 4 + b div 16) # (b mod 16 * 16 + c div 4) # (c mod 4 * 64 + d) # bs)
                          (decode64 rest)))
      | _ \<Rightarrow> None)"
| "decode64 _ = None"

lemma char_sextet_alphabet:
  assumes "A \<in> {std_alphabet, url_alphabet}" and "n < 64"
  shows "char_sextet (A ! n) = Some n \<and> A ! n \<noteq> CHR ''=''"
proof -
  have "\<forall>A\<in>set [std_alphabet, url_alphabet]. \<forall>n\<in>set [0..<64]. char_sextet (A ! n) = Some n \<and> A ! n \<noteq> CHR ''=''"
    by code_simp
  with assms show ?thesis by auto
qed

lemma length_encode64: "length (encode64 A bs) mod 4 = 0"
  by (induction A bs rule: encode64.induct) simp_all

lemma decode_encode64:
  "A \<in> {std_alphabet, url_alphabet} \<Longrightarrow> \<forall>b\<in>set bs. b < 256 \<Longrightarrow> decode64 (encode64 A bs) = Some bs"
proof (induction A bs rule: encode64.induct)
  case (2 A a)
  note A2 = char_sextet_alphabet [OF "2.prems"(1)]
  have "a div 4 < 64" "a mod 4 * 16 < 64" using 2 by auto
  note sextets = this [THEN A2]
  then show ?case by (auto split: option.splits)
next
  case (3 A a b)
  note A3 = char_sextet_alphabet [OF "3.prems"(1)]
  have "a div 4 < 64" "a mod 4 * 16 + b div 16 < 64" "b mod 16 * 4 < 64" using 3 by auto
  note sextets = this [THEN A3]
  moreover have "(a mod 4 * 16 + b div 16) div 16 = a mod 4" "(a mod 4 * 16 + b div 16) mod 16 = b div 16"
    using 3 by auto
  ultimately show ?case by (auto split: option.splits)
next
  case (4 A a b c rest)
  note A4 = char_sextet_alphabet [OF "4.prems"(1)]
  have "a div 4 < 64" "a mod 4 * 16 + b div 16 < 64" "b mod 16 * 4 + c div 64 < 64" "c mod 64 < 64"
    using 4 by auto
  note sextets = this [THEN A4]
  moreover have "(a mod 4 * 16 + b div 16) div 16 = a mod 4" "(a mod 4 * 16 + b div 16) mod 16 = b div 16"
    "(b mod 16 * 4 + c div 64) div 4 = b mod 16" "(b mod 16 * 4 + c div 64) mod 4 = c div 64"
    using 4 by auto
  moreover have "decode64 (encode64 A rest) = Some rest" by (rule "4.IH") (use "4.prems" in simp_all)
  ultimately show ?case by (auto split: option.splits)
qed simp

end
