(* ===== verification/GoLogging.thy ===== *)
theory GoLogging
  imports GoFormat Base64
begin

text \<open>
  The interface of the logging library (go.uber.org/zap/zapcore, go.uber.org/multierr) that the
  generated \<open>MarshalLogObject\<close> and \<open>MarshalLogArray\<close> methods are written against: it is not part
  of the repository, and a parameter. An object encoder has a state of type \<open>'o\<close>, an array encoder
  one of type \<open>'a\<close>; a method that is given an encoder returns its new state and an error, if any.
\<close>

type_synonym 's log_action = "'s \<Rightarrow> 's \<times> go_error option"

text \<open>\<open>LogMapRange\<close> is the order in which Go's \<open>range\<close> visits the keys of a map.\<close>

record ('o, 'a) zap =
  AddString :: "string \<Rightarrow> string \<Rightarrow> 'o \<Rightarrow> 'o"
  AddBool :: "string \<Rightarrow> bool \<Rightarrow> 'o \<Rightarrow> 'o"
  AddInt32 :: "string \<Rightarrow> 32 word \<Rightarrow> 'o \<Rightarrow> 'o"
  AddInt64 :: "string \<Rightarrow> 64 word \<Rightarrow> 'o \<Rightarrow> 'o"
  AddFloat64 :: "string \<Rightarrow> float64 \<Rightarrow> 'o \<Rightarrow> 'o"
  AddObject :: "string \<Rightarrow> 'o log_action \<Rightarrow> 'o log_action"
  AddArray :: "string \<Rightarrow> 'a log_action \<Rightarrow> 'o log_action"
  AppendString :: "string \<Rightarrow> 'a \<Rightarrow> 'a"
  AppendInt32 :: "32 word \<Rightarrow> 'a \<Rightarrow> 'a"
  AppendObject :: "'o log_action \<Rightarrow> 'a log_action"
  Append :: "go_error option \<Rightarrow> go_error option \<Rightarrow> go_error option"
  LogMapRange :: "string fset \<Rightarrow> string list"

text \<open>One statement of a method: it changes the encoder and the error that will be returned.\<close>

type_synonym 's log_step = "'s \<times> go_error option \<Rightarrow> 's \<times> go_error option"

definition add_string :: "('o, 'a) zap \<Rightarrow> string \<Rightarrow> string \<Rightarrow> 'o log_step" where
  "add_string Z key x = (\<lambda>(enc, err). (AddString Z key x enc, err))"

definition add_bool :: "('o, 'a) zap \<Rightarrow> string \<Rightarrow> bool \<Rightarrow> 'o log_step" where
  "add_bool Z key x = (\<lambda>(enc, err). (AddBool Z key x enc, err))"

definition add_i32 :: "('o, 'a) zap \<Rightarrow> string \<Rightarrow> 32 word \<Rightarrow> 'o log_step" where
  "add_i32 Z key x = (\<lambda>(enc, err). (AddInt32 Z key x enc, err))"

definition add_i64 :: "('o, 'a) zap \<Rightarrow> string \<Rightarrow> 64 word \<Rightarrow> 'o log_step" where
  "add_i64 Z key x = (\<lambda>(enc, err). (AddInt64 Z key x enc, err))"

definition add_double :: "('o, 'a) zap \<Rightarrow> string \<Rightarrow> float64 \<Rightarrow> 'o log_step" where
  "add_double Z key x = (\<lambda>(enc, err). (AddFloat64 Z key x enc, err))"

definition append_string :: "('o, 'a) zap \<Rightarrow> string \<Rightarrow> 'a log_step" where
  "append_string Z x = (\<lambda>(enc, err). (AppendString Z x enc, err))"

definition append_i32 :: "('o, 'a) zap \<Rightarrow> 32 word \<Rightarrow> 'a log_step" where
  "append_i32 Z x = (\<lambda>(enc, err). (AppendInt32 Z x enc, err))"

text \<open>\<open>err = multierr.Append(err, enc.AddObject(key, m))\<close> and its variants.\<close>

definition add_object :: "('o, 'a) zap \<Rightarrow> string \<Rightarrow> 'o log_action \<Rightarrow> 'o log_step" where
  "add_object Z key m = (\<lambda>(enc, err). case AddObject Z key m enc of (enc, e) \<Rightarrow> (enc, Append Z err e))"

definition add_array :: "('o, 'a) zap \<Rightarrow> string \<Rightarrow> 'a log_action \<Rightarrow> 'o log_step" where
  "add_array Z key m = (\<lambda>(enc, err). case AddArray Z key m enc of (enc, e) \<Rightarrow> (enc, Append Z err e))"

definition append_object :: "('o, 'a) zap \<Rightarrow> 'o log_action \<Rightarrow> 'a log_step" where
  "append_object Z m = (\<lambda>(enc, err). case AppendObject Z m enc of (enc, e) \<Rightarrow> (enc, Append Z err e))"

definition log_opt :: "('x \<Rightarrow> 's log_step) \<Rightarrow> 'x option \<Rightarrow> 's log_step" where
  "log_opt step x = (case x of None \<Rightarrow> id | Some y \<Rightarrow> step y)"

definition log_all :: "'s log_step list \<Rightarrow> 's log_action" where
  "log_all steps enc = fold id steps (enc, None)"

definition log_items :: "('o, 'a) zap \<Rightarrow> (string, 'x) fmap \<Rightarrow> (string \<times> 'x) list" where
  "log_items Z m = List.map (\<lambda>k. (k, the (fmlookup m k))) (LogMapRange Z (fmdom m))"

text \<open>\<open>base64.StdEncoding.EncodeToString\<close>.\<close>

definition EncodeToString :: "bytes \<Rightarrow> string" where
  "EncodeToString b = encode64 std_alphabet (List.map unat b)"

lemma EncodeToString_decodes: "decode64 (EncodeToString b) = Some (List.map unat b)"
proof -
  have "unat x < 256" for x :: "8 word" using unsigned_less [of x] by simp
  then show ?thesis unfolding EncodeToString_def by (intro decode_encode64) auto
qed

lemma EncodeToString_inject: "EncodeToString b = EncodeToString c \<longleftrightarrow> b = c"
proof
  assume "EncodeToString b = EncodeToString c"
  then have "List.map unat b = List.map unat c" by (metis EncodeToString_decodes option.inject)
  then show "b = c" by (rule map_injective) (simp add: inj_def word_unat_eq_iff)
qed simp

end
