(* ===== verification/GoEventLogs.thy ===== *)
theory GoEventLogs
  imports GoLogging GoHistory GoInfos
begin

text \<open>
  How events, histories and decisions, and the structs inside them, are logged
  (\<open>MarshalLogObject\<close>, \<open>MarshalLogArray\<close>, proxy/gen/shared/shared.go).
\<close>

definition ArchivalStatus_MarshalLogObject :: "('o, 'a) zap \<Rightarrow> ArchivalStatus \<Rightarrow> 'o log_action" where
  "ArchivalStatus_MarshalLogObject Z v =
     log_all [add_i32 Z ''value'' v, log_opt (add_string Z ''name'')
       (map_of [(0, ''DISABLED''), (1, ''ENABLED'')] v)]"

definition CancelExternalWorkflowExecutionFailedCause_MarshalLogObject :: "('o, 'a) zap \<Rightarrow>
    CancelExternalWorkflowExecutionFailedCause \<Rightarrow> 'o log_action" where
  "CancelExternalWorkflowExecutionFailedCause_MarshalLogObject Z v =
     log_all [add_i32 Z ''value'' v, log_opt (add_string Z ''name'')
       (map_of [(0, ''UNKNOWN_EXTERNAL_WORKFLOW_EXECUTION'')] v)]"

definition ChildWorkflowExecutionFailedCause_MarshalLogObject :: "('o, 'a) zap \<Rightarrow>
    ChildWorkflowExecutionFailedCause \<Rightarrow> 'o log_action" where
  "ChildWorkflowExecutionFailedCause_MarshalLogObject Z v =
     log_all [add_i32 Z ''value'' v, log_opt (add_string Z ''name'')
       (map_of [(0, ''WORKFLOW_ALREADY_RUNNING'')] v)]"

definition ContinueAsNewInitiator_MarshalLogObject :: "('o, 'a) zap \<Rightarrow> ContinueAsNewInitiator \<Rightarrow> 'o
    log_action" where
  "ContinueAsNewInitiator_MarshalLogObject Z v =
     log_all [add_i32 Z ''value'' v, log_opt (add_string Z ''name'')
       (map_of [(0, ''Decider''), (1, ''RetryPolicy''), (2, ''CronSchedule'')] v)]"

definition DecisionTaskFailedCause_MarshalLogObject :: "('o, 'a) zap \<Rightarrow> DecisionTaskFailedCause \<Rightarrow> 'o
    log_action" where
  "DecisionTaskFailedCause_MarshalLogObject Z v =
     log_all [add_i32 Z ''value'' v, log_opt (add_string Z ''name'')
       (map_of [(0, ''UNHANDLED_DECISION''), (1, ''BAD_SCHEDULE_ACTIVITY_ATTRIBUTES''), (2,
           ''BAD_REQUEST_CANCEL_ACTIVITY_ATTRIBUTES''), (3, ''BAD_START_TIMER_ATTRIBUTES''), (4,
           ''BAD_CANCEL_TIMER_ATTRIBUTES''), (5, ''BAD_RECORD_MARKER_ATTRIBUTES''), (6,
           ''BAD_COMPLETE_WORKFLOW_EXECUTION_ATTRIBUTES''), (7,
           ''BAD_FAIL_WORKFLOW_EXECUTION_ATTRIBUTES''), (8,
           ''BAD_CANCEL_WORKFLOW_EXECUTION_ATTRIBUTES''), (9,
           ''BAD_REQUEST_CANCEL_EXTERNAL_WORKFLOW_EXECUTION_ATTRIBUTES''), (10,
           ''BAD_CONTINUE_AS_NEW_ATTRIBUTES''), (11, ''START_TIMER_DUPLICATE_ID''), (12,
           ''RESET_STICKY_TASKLIST''), (13, ''WORKFLOW_WORKER_UNHANDLED_FAILURE''), (14,
           ''BAD_SIGNAL_WORKFLOW_EXECUTION_ATTRIBUTES''), (15,
           ''BAD_START_CHILD_EXECUTION_ATTRIBUTES''), (16, ''FORCE_CLOSE_DECISION''), (17,
           ''FAILOVER_CLOSE_DECISION''), (18, ''BAD_SIGNAL_INPUT_SIZE''), (19, ''RESET_WORKFLOW''),
           (20, ''BAD_BINARY''), (21, ''SCHEDULE_ACTIVITY_DUPLICATE_ID''), (22,
           ''BAD_SEARCH_ATTRIBUTES'')] v)]"

definition DecisionType_MarshalLogObject :: "('o, 'a) zap \<Rightarrow> DecisionType \<Rightarrow> 'o log_action" where
  "DecisionType_MarshalLogObject Z v =
     log_all [add_i32 Z ''value'' v, log_opt (add_string Z ''name'')
       (map_of [(0, ''ScheduleActivityTask''), (1, ''RequestCancelActivityTask''), (2,
           ''StartTimer''), (3, ''CompleteWorkflowExecution''), (4, ''FailWorkflowExecution''), (5,
           ''CancelTimer''), (6, ''CancelWorkflowExecution''), (7,
           ''RequestCancelExternalWorkflowExecution''), (8, ''RecordMarker''), (9,
           ''ContinueAsNewWorkflowExecution''), (10, ''StartChildWorkflowExecution''), (11,
           ''SignalExternalWorkflowExecution''), (12, ''UpsertWorkflowSearchAttributes'')] v)]"

definition DomainStatus_MarshalLogObject :: "('o, 'a) zap \<Rightarrow> DomainStatus \<Rightarrow> 'o log_action" where
  "DomainStatus_MarshalLogObject Z v =
     log_all [add_i32 Z ''value'' v, log_opt (add_string Z ''name'')
       (map_of [(0, ''REGISTERED''), (1, ''DEPRECATED''), (2, ''DELETED'')] v)]"

definition EncodingType_MarshalLogObject :: "('o, 'a) zap \<Rightarrow> EncodingType \<Rightarrow> 'o log_action" where
  "EncodingType_MarshalLogObject Z v =
     log_all [add_i32 Z ''value'' v, log_opt (add_string Z ''name'')
       (map_of [(0, ''ThriftRW'')] v)]"

definition EventType_MarshalLogObject :: "('o, 'a) zap \<Rightarrow> EventType \<Rightarrow> 'o log_action" where
  "EventType_MarshalLogObject Z v =
     log_all [add_i32 Z ''value'' v, log_opt (add_string Z ''name'')
       (map_of [(0, ''WorkflowExecutionStarted''), (1, ''WorkflowExecutionCompleted''), (2,
           ''WorkflowExecutionFailed''), (3, ''WorkflowExecutionTimedOut''), (4,
           ''DecisionTaskScheduled''), (5, ''DecisionTaskStarted''), (6, ''DecisionTaskCompleted''),
           (7, ''DecisionTaskTimedOut''), (8, ''DecisionTaskFailed''), (9,
           ''ActivityTaskScheduled''), (10, ''ActivityTaskStarted''), (11,
           ''ActivityTaskCompleted''), (12, ''ActivityTaskFailed''), (13, ''ActivityTaskTimedOut''),
           (14, ''ActivityTaskCancelRequested''), (15, ''RequestCancelActivityTaskFailed''), (16,
           ''ActivityTaskCanceled''), (17, ''TimerStarted''), (18, ''TimerFired''), (19,
           ''CancelTimerFailed''), (20, ''TimerCanceled''), (21,
           ''WorkflowExecutionCancelRequested''), (22, ''WorkflowExecutionCanceled''), (23,
           ''RequestCancelExternalWorkflowExecutionInitiated''), (24,
           ''RequestCancelExternalWorkflowExecutionFailed''), (25,
           ''ExternalWorkflowExecutionCancelRequested''), (26, ''MarkerRecorded''), (27,
           ''WorkflowExecutionSignaled''), (28, ''WorkflowExecutionTerminated''), (29,
           ''WorkflowExecutionContinuedAsNew''), (30, ''StartChildWorkflowExecutionInitiated''),
           (31, ''StartChildWorkflowExecutionFailed''), (32, ''ChildWorkflowExecutionStarted''),
           (33, ''ChildWorkflowExecutionCompleted''), (34, ''ChildWorkflowExecutionFailed''), (35,
           ''ChildWorkflowExecutionCanceled''), (36, ''ChildWorkflowExecutionTimedOut''), (37,
           ''ChildWorkflowExecutionTerminated''), (38,
           ''SignalExternalWorkflowExecutionInitiated''), (39,
           ''SignalExternalWorkflowExecutionFailed''), (40, ''ExternalWorkflowExecutionSignaled''),
           (41, ''UpsertWorkflowSearchAttributes'')] v)]"

definition HistoryEventFilterType_MarshalLogObject :: "('o, 'a) zap \<Rightarrow> HistoryEventFilterType \<Rightarrow> 'o
    log_action" where
  "HistoryEventFilterType_MarshalLogObject Z v =
     log_all [add_i32 Z ''value'' v, log_opt (add_string Z ''name'')
       (map_of [(0, ''ALL_EVENT''), (1, ''CLOSE_EVENT'')] v)]"

definition IndexedValueType_MarshalLogObject :: "('o, 'a) zap \<Rightarrow> IndexedValueType \<Rightarrow> 'o log_action"
    where
  "IndexedValueType_MarshalLogObject Z v =
     log_all [add_i32 Z ''value'' v, log_opt (add_string Z ''name'')
       (map_of [(0, ''STRING''), (1, ''KEYWORD''), (2, ''INT''), (3, ''DOUBLE''), (4, ''BOOL''), (5,
           ''DATETIME'')] v)]"

definition ParentClosePolicy_MarshalLogObject :: "('o, 'a) zap \<Rightarrow> ParentClosePolicy \<Rightarrow> 'o log_action"
    where
  "ParentClosePolicy_MarshalLogObject Z v =
     log_all [add_i32 Z ''value'' v, log_opt (add_string Z ''name'')
       (map_of [(0, ''ABANDON''), (1, ''REQUEST_CANCEL''), (2, ''TERMINATE'')] v)]"

definition PendingActivityState_MarshalLogObject :: "('o, 'a) zap \<Rightarrow> PendingActivityState \<Rightarrow> 'o
    log_action" where
  "PendingActivityState_MarshalLogObject Z v =
     log_all [add_i32 Z ''value'' v, log_opt (add_string Z ''name'')
       (map_of [(0, ''SCHEDULED''), (1, ''STARTED''), (2, ''CANCEL_REQUESTED'')] v)]"

definition QueryRejectCondition_MarshalLogObject :: "('o, 'a) zap \<Rightarrow> QueryRejectCondition \<Rightarrow> 'o
    log_action" where
  "QueryRejectCondition_MarshalLogObject Z v =
     log_all [add_i32 Z ''value'' v, log_opt (add_string Z ''name'')
       (map_of [(0, ''NOT_OPEN''), (1, ''NOT_COMPLETED_CLEANLY'')] v)]"

definition QueryResultType_MarshalLogObject :: "('o, 'a) zap \<Rightarrow> QueryResultType \<Rightarrow> 'o log_action"
    where
  "QueryResultType_MarshalLogObject Z v =
     log_all [add_i32 Z ''value'' v, log_opt (add_string Z ''name'')
       (map_of [(0, ''ANSWERED''), (1, ''FAILED'')] v)]"

definition QueryTaskCompletedType_MarshalLogObject :: "('o, 'a) zap \<Rightarrow> QueryTaskCompletedType \<Rightarrow> 'o
    log_action" where
  "QueryTaskCompletedType_MarshalLogObject Z v =
     log_all [add_i32 Z ''value'' v, log_opt (add_string Z ''name'')
       (map_of [(0, ''COMPLETED''), (1, ''FAILED'')] v)]"

definition SignalExternalWorkflowExecutionFailedCause_MarshalLogObject :: "('o, 'a) zap \<Rightarrow>
    SignalExternalWorkflowExecutionFailedCause \<Rightarrow> 'o log_action" where
  "SignalExternalWorkflowExecutionFailedCause_MarshalLogObject Z v =
     log_all [add_i32 Z ''value'' v, log_opt (add_string Z ''name'')
       (map_of [(0, ''UNKNOWN_EXTERNAL_WORKFLOW_EXECUTION'')] v)]"

definition TaskListKind_MarshalLogObject :: "('o, 'a) zap \<Rightarrow> TaskListKind \<Rightarrow> 'o log_action" where
  "TaskListKind_MarshalLogObject Z v =
     log_all [add_i32 Z ''value'' v, log_opt (add_string Z ''name'')
       (map_of [(0, ''NORMAL''), (1, ''STICKY'')] v)]"

definition TaskListType_MarshalLogObject :: "('o, 'a) zap \<Rightarrow> TaskListType \<Rightarrow> 'o log_action" where
  "TaskListType_MarshalLogObject Z v =
     log_all [add_i32 Z ''value'' v, log_opt (add_string Z ''name'')
       (map_of [(0, ''Decision''), (1, ''Activity'')] v)]"

definition TimeoutType_MarshalLogObject :: "('o, 'a) zap \<Rightarrow> TimeoutType \<Rightarrow> 'o log_action" where
  "TimeoutType_MarshalLogObject Z v =
     log_all [add_i32 Z ''value'' v, log_opt (add_string Z ''name'')
       (map_of [(0, ''START_TO_CLOSE''), (1, ''SCHEDULE_TO_START''), (2, ''SCHEDULE_TO_CLOSE''), (3,
           ''HEARTBEAT'')] v)]"

definition WorkflowExecutionCloseStatus_MarshalLogObject :: "('o, 'a) zap \<Rightarrow>
    WorkflowExecutionCloseStatus \<Rightarrow> 'o log_action" where
  "WorkflowExecutionCloseStatus_MarshalLogObject Z v =
     log_all [add_i32 Z ''value'' v, log_opt (add_string Z ''name'')
       (map_of [(0, ''COMPLETED''), (1, ''FAILED''), (2, ''CANCELED''), (3, ''TERMINATED''), (4,
           ''CONTINUED_AS_NEW''), (5, ''TIMED_OUT'')] v)]"

definition WorkflowIdReusePolicy_MarshalLogObject :: "('o, 'a) zap \<Rightarrow> WorkflowIdReusePolicy \<Rightarrow> 'o
    log_action" where
  "WorkflowIdReusePolicy_MarshalLogObject Z v =
     log_all [add_i32 Z ''value'' v, log_opt (add_string Z ''name'')
       (map_of [(0, ''AllowDuplicateFailedOnly''), (1, ''AllowDuplicate''), (2,
           ''RejectDuplicate'')] v)]"

definition List_I32_Zapper :: "('o, 'a) zap \<Rightarrow> 32 word list \<Rightarrow> 'a log_action" where
  "List_I32_Zapper Z l = log_all (List.map (\<lambda>v. append_i32 Z v) l)"

definition Map_String_String_Zapper :: "('o, 'a) zap \<Rightarrow> (string, string) fmap \<Rightarrow> 'o log_action" where
  "Map_String_String_Zapper Z m = log_all (List.map (\<lambda>(k, v). add_string Z k v) (log_items Z m))"

definition Map_String_IndexedValueType_Zapper :: "('o, 'a) zap \<Rightarrow> (string, IndexedValueType) fmap \<Rightarrow>
    'o log_action" where
  "Map_String_IndexedValueType_Zapper Z m = log_all (List.map (\<lambda>(k, v). add_object Z k
      (IndexedValueType_MarshalLogObject Z v)) (log_items Z m))"

definition Map_String_Binary_Zapper :: "('o, 'a) zap \<Rightarrow> (string, bytes option) fmap \<Rightarrow> 'o log_action"
    where
  "Map_String_Binary_Zapper Z m = log_all (List.map (\<lambda>(k, v). add_string Z k (EncodeToString
      (the_slice v))) (log_items Z m))"

definition List_String_Zapper :: "('o, 'a) zap \<Rightarrow> string list \<Rightarrow> 'a log_action" where
  "List_String_Zapper Z l = log_all (List.map (\<lambda>v. append_string Z v) l)"

definition ActivityTaskCancelRequestedEventAttributes_MarshalLogObject :: "('o, 'a) zap \<Rightarrow>
    ActivityTaskCancelRequestedEventAttributes option \<Rightarrow> 'o log_action" where
  "ActivityTaskCancelRequestedEventAttributes_MarshalLogObject Z v =
     (case v of None \<Rightarrow> log_all []
      | Some v \<Rightarrow> log_all
          [log_opt (\<lambda>x. add_string Z ''activityId'' x)
              (ActivityTaskCancelRequestedEventAttributes.ActivityId v),
           log_opt (\<lambda>x. add_i64 Z ''decisionTaskCompletedEventId'' x)
               (ActivityTaskCancelRequestedEventAttributes.DecisionTaskCompletedEventId v)])"

definition ActivityTaskCanceledEventAttributes_MarshalLogObject :: "('o, 'a) zap \<Rightarrow>
    ActivityTaskCanceledEventAttributes option \<Rightarrow> 'o log_action" where
  "ActivityTaskCanceledEventAttributes_MarshalLogObject Z v =
     (case v of None \<Rightarrow> log_all []
      | Some v \<Rightarrow> log_all
          [log_opt (\<lambda>x. add_string Z ''details'' (EncodeToString x))
              (ActivityTaskCanceledEventAttributes.Details v),
           log_opt (\<lambda>x. add_i64 Z ''latestCancelRequestedEventId'' x)
               (ActivityTaskCanceledEventAttributes.LatestCancelRequestedEventId v),
           log_opt (\<lambda>x. add_i64 Z ''scheduledEventId'' x)
               (ActivityTaskCanceledEventAttributes.ScheduledEventId v),
           log_opt (\<lambda>x. add_i64 Z ''startedEventId'' x)
               (ActivityTaskCanceledEventAttributes.StartedEventId v),
           log_opt (\<lambda>x. add_string Z ''identity'' x) (ActivityTaskCanceledEventAttributes.Identity
               v)])"

definition ActivityTaskCompletedEventAttributes_MarshalLogObject :: "('o, 'a) zap \<Rightarrow>
    ActivityTaskCompletedEventAttributes option \<Rightarrow> 'o log_action" where
  "ActivityTaskCompletedEventAttributes_MarshalLogObject Z v =
     (case v of None \<Rightarrow> log_all []
      | Some v \<Rightarrow> log_all
          [log_opt (\<lambda>x. add_string Z ''result'' (EncodeToString x))
              (ActivityTaskCompletedEventAttributes.Result v),
           log_opt (\<lambda>x. add_i64 Z ''scheduledEventId'' x)
               (ActivityTaskCompletedEventAttributes.ScheduledEventId v),
           log_opt (\<lambda>x. add_i64 Z ''startedEventId'' x)
               (ActivityTaskCompletedEventAttributes.StartedEventId v),
           log_opt (\<lambda>x. add_string Z ''identity'' x) (ActivityTaskCompletedEventAttributes.Identity
               v)])"

definition ActivityTaskFailedEventAttributes_MarshalLogObject :: "('o, 'a) zap \<Rightarrow>
    ActivityTaskFailedEventAttributes option \<Rightarrow> 'o log_action" where
  "ActivityTaskFailedEventAttributes_MarshalLogObject Z v =
     (case v of None \<Rightarrow> log_all []
      | Some v \<Rightarrow> log_all
          [log_opt (\<lambda>x. add_string Z ''reason'' x) (ActivityTaskFailedEventAttributes.Reason v),
           log_opt (\<lambda>x. add_string Z ''details'' (EncodeToString x))
               (ActivityTaskFailedEventAttributes.Details v),
           log_opt (\<lambda>x. add_i64 Z ''scheduledEventId'' x)
               (ActivityTaskFailedEventAttributes.ScheduledEventId v),
           log_opt (\<lambda>x. add_i64 Z ''startedEventId'' x)
               (ActivityTaskFailedEventAttributes.StartedEventId v),
           log_opt (\<lambda>x. add_string Z ''identity'' x) (ActivityTaskFailedEventAttributes.Identity
               v)])"

definition ActivityType_MarshalLogObject :: "('o, 'a) zap \<Rightarrow> ActivityType option \<Rightarrow> 'o log_action"
    where
  "ActivityType_MarshalLogObject Z v =
     (case v of None \<Rightarrow> log_all []
      | Some v \<Rightarrow> log_all
          [log_opt (\<lambda>x. add_string Z ''name'' x) (ActivityType.Name v)])"

definition TaskList_MarshalLogObject :: "('o, 'a) zap \<Rightarrow> TaskList option \<Rightarrow> 'o log_action" where
  "TaskList_MarshalLogObject Z v =
     (case v of None \<Rightarrow> log_all []
      | Some v \<Rightarrow> log_all
          [log_opt (\<lambda>x. add_string Z ''name'' x) (TaskList.Name v),
           log_opt (\<lambda>x. add_object Z ''kind'' (TaskListKind_MarshalLogObject Z x)) (TaskList.Kind
               v)])"

definition RetryPolicy_MarshalLogObject :: "('o, 'a) zap \<Rightarrow> RetryPolicy option \<Rightarrow> 'o log_action" where
  "RetryPolicy_MarshalLogObject Z v =
     (case v of None \<Rightarrow> log_all []
      | Some v \<Rightarrow> log_all
          [log_opt (\<lambda>x. add_i32 Z ''initialIntervalInSeconds'' x)
              (RetryPolicy.InitialIntervalInSeconds v),
           log_opt (\<lambda>x. add_double Z ''backoffCoefficient'' x) (RetryPolicy.BackoffCoefficient v),
           log_opt (\<lambda>x. add_i32 Z ''maximumIntervalInSeconds'' x)
               (RetryPolicy.MaximumIntervalInSeconds v),
           log_opt (\<lambda>x. add_i32 Z ''maximumAttempts'' x) (RetryPolicy.MaximumAttempts v),
           log_opt (\<lambda>x. add_array Z ''nonRetriableErrorReasons'' (List_String_Zapper Z x))
               (RetryPolicy.NonRetriableErrorReasons v),
           log_opt (\<lambda>x. add_i32 Z ''expirationIntervalInSeconds'' x)
               (RetryPolicy.ExpirationIntervalInSeconds v)])"

definition Header_MarshalLogObject :: "('o, 'a) zap \<Rightarrow> Header option \<Rightarrow> 'o log_action" where
  "Header_MarshalLogObject Z v =
     (case v of None \<Rightarrow> log_all []
      | Some v \<Rightarrow> log_all
          [log_opt (\<lambda>x. add_object Z ''fields'' (Map_String_Binary_Zapper Z x)) (Header.Fields v)])"

definition ActivityTaskScheduledEventAttributes_MarshalLogObject :: "('o, 'a) zap \<Rightarrow>
    ActivityTaskScheduledEventAttributes option \<Rightarrow> 'o log_action" where
  "ActivityTaskScheduledEventAttributes_MarshalLogObject Z v =
     (case v of None \<Rightarrow> log_all []
      | Some v \<Rightarrow> log_all
          [log_opt (\<lambda>x. add_string Z ''activityId'' x)
              (ActivityTaskScheduledEventAttributes.ActivityId v),
           log_opt (\<lambda>x. add_object Z ''activityType'' (ActivityType_MarshalLogObject Z (Some x)))
               (ActivityTaskScheduledEventAttributes.ActivityType v),
           log_opt (\<lambda>x. add_string Z ''domain'' x) (ActivityTaskScheduledEventAttributes.Domain v),
           log_opt (\<lambda>x. add_object Z ''taskList'' (TaskList_MarshalLogObject Z (Some x)))
               (ActivityTaskScheduledEventAttributes.TaskList v),
           log_opt (\<lambda>x. add_string Z ''input'' (EncodeToString x))
               (ActivityTaskScheduledEventAttributes.Input v),
           log_opt (\<lambda>x. add_i32 Z ''scheduleToCloseTimeoutSeconds'' x)
               (ActivityTaskScheduledEventAttributes.ScheduleToCloseTimeoutSeconds v),
           log_opt (\<lambda>x. add_i32 Z ''scheduleToStartTimeoutSeconds'' x)
               (ActivityTaskScheduledEventAttributes.ScheduleToStartTimeoutSeconds v),
           log_opt (\<lambda>x. add_i32 Z ''startToCloseTimeoutSeconds'' x)
               (ActivityTaskScheduledEventAttributes.StartToCloseTimeoutSeconds v),
           log_opt (\<lambda>x. add_i32 Z ''heartbeatTimeoutSeconds'' x)
               (ActivityTaskScheduledEventAttributes.HeartbeatTimeoutSeconds v),
           log_opt (\<lambda>x. add_i64 Z ''decisionTaskCompletedEventId'' x)
               (ActivityTaskScheduledEventAttributes.DecisionTaskCompletedEventId v),
           log_opt (\<lambda>x. add_object Z ''retryPolicy'' (RetryPolicy_MarshalLogObject Z (Some x)))
               (ActivityTaskScheduledEventAttributes.RetryPolicy v),
           log_opt (\<lambda>x. add_object Z ''header'' (Header_MarshalLogObject Z (Some x)))
               (ActivityTaskScheduledEventAttributes.Header v)])"

definition ActivityTaskStartedEventAttributes_MarshalLogObject :: "('o, 'a) zap \<Rightarrow>
    ActivityTaskStartedEventAttributes option \<Rightarrow> 'o log_action" where
  "ActivityTaskStartedEventAttributes_MarshalLogObject Z v =
     (case v of None \<Rightarrow> log_all []
      | Some v \<Rightarrow> log_all
          [log_opt (\<lambda>x. add_i64 Z ''scheduledEventId'' x)
              (ActivityTaskStartedEventAttributes.ScheduledEventId v),
           log_opt (\<lambda>x. add_string Z ''identity'' x) (ActivityTaskStartedEventAttributes.Identity
               v),
           log_opt (\<lambda>x. add_string Z ''requestId'' x) (ActivityTaskStartedEventAttributes.RequestId
               v),
           log_opt (\<lambda>x. add_i32 Z ''attempt'' x) (ActivityTaskStartedEventAttributes.Attempt v)])"

definition ActivityTaskTimedOutEventAttributes_MarshalLogObject :: "('o, 'a) zap \<Rightarrow>
    ActivityTaskTimedOutEventAttributes option \<Rightarrow> 'o log_action" where
  "ActivityTaskTimedOutEventAttributes_MarshalLogObject Z v =
     (case v of None \<Rightarrow> log_all []
      | Some v \<Rightarrow> log_all
          [log_opt (\<lambda>x. add_string Z ''details'' (EncodeToString x))
              (ActivityTaskTimedOutEventAttributes.Details v),
           log_opt (\<lambda>x. add_i64 Z ''scheduledEventId'' x)
               (ActivityTaskTimedOutEventAttributes.ScheduledEventId v),
           log_opt (\<lambda>x. add_i64 Z ''startedEventId'' x)
               (ActivityTaskTimedOutEventAttributes.StartedEventId v),
           log_opt (\<lambda>x. add_object Z ''timeoutType'' (TimeoutType_MarshalLogObject Z x))
               (ActivityTaskTimedOutEventAttributes.TimeoutType v)])"

definition CancelTimerDecisionAttributes_MarshalLogObject :: "('o, 'a) zap \<Rightarrow>
    CancelTimerDecisionAttributes option \<Rightarrow> 'o log_action" where
  "CancelTimerDecisionAttributes_MarshalLogObject Z v =
     (case v of None \<Rightarrow> log_all []
      | Some v \<Rightarrow> log_all
          [log_opt (\<lambda>x. add_string Z ''timerId'' x) (CancelTimerDecisionAttributes.TimerId v)])"

definition CancelTimerFailedEventAttributes_MarshalLogObject :: "('o, 'a) zap \<Rightarrow>
    CancelTimerFailedEventAttributes option \<Rightarrow> 'o log_action" where
  "CancelTimerFailedEventAttributes_MarshalLogObject Z v =
     (case v of None \<Rightarrow> log_all []
      | Some v \<Rightarrow> log_all
          [log_opt (\<lambda>x. add_string Z ''timerId'' x) (CancelTimerFailedEventAttributes.TimerId v),
           log_opt (\<lambda>x. add_string Z ''cause'' x) (CancelTimerFailedEventAttributes.Cause v),
           log_opt (\<lambda>x. add_i64 Z ''decisionTaskCompletedEventId'' x)
               (CancelTimerFailedEventAttributes.DecisionTaskCompletedEventId v),
           log_opt (\<lambda>x. add_string Z ''identity'' x) (CancelTimerFailedEventAttributes.Identity
               v)])"

definition CancelWorkflowExecutionDecisionAttributes_MarshalLogObject :: "('o, 'a) zap \<Rightarrow>
    CancelWorkflowExecutionDecisionAttributes option \<Rightarrow> 'o log_action" where
  "CancelWorkflowExecutionDecisionAttributes_MarshalLogObject Z v =
     (case v of None \<Rightarrow> log_all []
      | Some v \<Rightarrow> log_all
          [log_opt (\<lambda>x. add_string Z ''details'' (EncodeToString x))
              (CancelWorkflowExecutionDecisionAttributes.Details v)])"

definition WorkflowExecution_MarshalLogObject :: "('o, 'a) zap \<Rightarrow> WorkflowExecution option \<Rightarrow> 'o
    log_action" where
  "WorkflowExecution_MarshalLogObject Z v =
     (case v of None \<Rightarrow> log_all []
      | Some v \<Rightarrow> log_all
          [log_opt (\<lambda>x. add_string Z ''workflowId'' x) (WorkflowExecution.WorkflowId v),
           log_opt (\<lambda>x. add_string Z ''runId'' x) (WorkflowExecution.RunId v)])"

definition WorkflowType_MarshalLogObject :: "('o, 'a) zap \<Rightarrow> WorkflowType option \<Rightarrow> 'o log_action"
    where
  "WorkflowType_MarshalLogObject Z v =
     (case v of None \<Rightarrow> log_all []
      | Some v \<Rightarrow> log_all
          [log_opt (\<lambda>x. add_string Z ''name'' x) (WorkflowType.Name v)])"

definition ChildWorkflowExecutionCanceledEventAttributes_MarshalLogObject :: "('o, 'a) zap \<Rightarrow>
    ChildWorkflowExecutionCanceledEventAttributes option \<Rightarrow> 'o log_action" where
  "ChildWorkflowExecutionCanceledEventAttributes_MarshalLogObject Z v =
     (case v of None \<Rightarrow> log_all []
      | Some v \<Rightarrow> log_all
          [log_opt (\<lambda>x. add_string Z ''details'' (EncodeToString x))
              (ChildWorkflowExecutionCanceledEventAttributes.Details v),
           log_opt (\<lambda>x. add_string Z ''domain'' x)
               (ChildWorkflowExecutionCanceledEventAttributes.Domain v),
           log_opt (\<lambda>x. add_object Z ''workflowExecution'' (WorkflowExecution_MarshalLogObject Z
               (Some x))) (ChildWorkflowExecutionCanceledEventAttributes.WorkflowExecution v),
           log_opt (\<lambda>x. add_object Z ''workflowType'' (WorkflowType_MarshalLogObject Z (Some x)))
               (ChildWorkflowExecutionCanceledEventAttributes.WorkflowType v),
           log_opt (\<lambda>x. add_i64 Z ''initiatedEventId'' x)
               (ChildWorkflowExecutionCanceledEventAttributes.InitiatedEventId v),
           log_opt (\<lambda>x. add_i64 Z ''startedEventId'' x)
               (ChildWorkflowExecutionCanceledEventAttributes.StartedEventId v)])"

definition ChildWorkflowExecutionCompletedEventAttributes_MarshalLogObject :: "('o, 'a) zap \<Rightarrow>
    ChildWorkflowExecutionCompletedEventAttributes option \<Rightarrow> 'o log_action" where
  "ChildWorkflowExecutionCompletedEventAttributes_MarshalLogObject Z v =
     (case v of None \<Rightarrow> log_all []
      | Some v \<Rightarrow> log_all
          [log_opt (\<lambda>x. add_string Z ''result'' (EncodeToString x))
              (ChildWorkflowExecutionCompletedEventAttributes.Result v),
           log_opt (\<lambda>x. add_string Z ''domain'' x)
               (ChildWorkflowExecutionCompletedEventAttributes.Domain v),
           log_opt (\<lambda>x. add_object Z ''workflowExecution'' (WorkflowExecution_MarshalLogObject Z
               (Some x))) (ChildWorkflowExecutionCompletedEventAttributes.WorkflowExecution v),
           log_opt (\<lambda>x. add_object Z ''workflowType'' (WorkflowType_MarshalLogObject Z (Some x)))
               (ChildWorkflowExecutionCompletedEventAttributes.WorkflowType v),
           log_opt (\<lambda>x. add_i64 Z ''initiatedEventId'' x)
               (ChildWorkflowExecutionCompletedEventAttributes.InitiatedEventId v),
           log_opt (\<lambda>x. add_i64 Z ''startedEventId'' x)
               (ChildWorkflowExecutionCompletedEventAttributes.StartedEventId v)])"

definition ChildWorkflowExecutionFailedEventAttributes_MarshalLogObject :: "('o, 'a) zap \<Rightarrow>
    ChildWorkflowExecutionFailedEventAttributes option \<Rightarrow> 'o log_action" where
  "ChildWorkflowExecutionFailedEventAttributes_MarshalLogObject Z v =
     (case v of None \<Rightarrow> log_all []
      | Some v \<Rightarrow> log_all
          [log_opt (\<lambda>x. add_string Z ''reason'' x)
              (ChildWorkflowExecutionFailedEventAttributes.Reason v),
           log_opt (\<lambda>x. add_string Z ''details'' (EncodeToString x))
               (ChildWorkflowExecutionFailedEventAttributes.Details v),
           log_opt (\<lambda>x. add_string Z ''domain'' x)
               (ChildWorkflowExecutionFailedEventAttributes.Domain v),
           log_opt (\<lambda>x. add_object Z ''workflowExecution'' (WorkflowExecution_MarshalLogObject Z
               (Some x))) (ChildWorkflowExecutionFailedEventAttributes.WorkflowExecution v),
           log_opt (\<lambda>x. add_object Z ''workflowType'' (WorkflowType_MarshalLogObject Z (Some x)))
               (ChildWorkflowExecutionFailedEventAttributes.WorkflowType v),
           log_opt (\<lambda>x. add_i64 Z ''initiatedEventId'' x)
               (ChildWorkflowExecutionFailedEventAttributes.InitiatedEventId v),
           log_opt (\<lambda>x. add_i64 Z ''startedEventId'' x)
               (ChildWorkflowExecutionFailedEventAttributes.StartedEventId v)])"

definition ChildWorkflowExecutionStartedEventAttributes_MarshalLogObject :: "('o, 'a) zap \<Rightarrow>
    ChildWorkflowExecutionStartedEventAttributes option \<Rightarrow> 'o log_action" where
  "ChildWorkflowExecutionStartedEventAttributes_MarshalLogObject Z v =
     (case v of None \<Rightarrow> log_all []
      | Some v \<Rightarrow> log_all
          [log_opt (\<lambda>x. add_string Z ''domain'' x)
              (ChildWorkflowExecutionStartedEventAttributes.Domain v),
           log_opt (\<lambda>x. add_i64 Z ''initiatedEventId'' x)
               (ChildWorkflowExecutionStartedEventAttributes.InitiatedEventId v),
           log_opt (\<lambda>x. add_object Z ''workflowExecution'' (WorkflowExecution_MarshalLogObject Z
               (Some x))) (ChildWorkflowExecutionStartedEventAttributes.WorkflowExecution v),
           log_opt (\<lambda>x. add_object Z ''workflowType'' (WorkflowType_MarshalLogObject Z (Some x)))
               (ChildWorkflowExecutionStartedEventAttributes.WorkflowType v),
           log_opt (\<lambda>x. add_object Z ''header'' (Header_MarshalLogObject Z (Some x)))
               (ChildWorkflowExecutionStartedEventAttributes.Header v)])"

definition ChildWorkflowExecutionTerminatedEventAttributes_MarshalLogObject :: "('o, 'a) zap \<Rightarrow>
    ChildWorkflowExecutionTerminatedEventAttributes option \<Rightarrow> 'o log_action" where
  "ChildWorkflowExecutionTerminatedEventAttributes_MarshalLogObject Z v =
     (case v of None \<Rightarrow> log_all []
      | Some v \<Rightarrow> log_all
          [log_opt (\<lambda>x. add_string Z ''domain'' x)
              (ChildWorkflowExecutionTerminatedEventAttributes.Domain v),
           log_opt (\<lambda>x. add_object Z ''workflowExecution'' (WorkflowExecution_MarshalLogObject Z
               (Some x))) (ChildWorkflowExecutionTerminatedEventAttributes.WorkflowExecution v),
           log_opt (\<lambda>x. add_object Z ''workflowType'' (WorkflowType_MarshalLogObject Z (Some x)))
               (ChildWorkflowExecutionTerminatedEventAttributes.WorkflowType v),
           log_opt (\<lambda>x. add_i64 Z ''initiatedEventId'' x)
               (ChildWorkflowExecutionTerminatedEventAttributes.InitiatedEventId v),
           log_opt (\<lambda>x. add_i64 Z ''startedEventId'' x)
               (ChildWorkflowExecutionTerminatedEventAttributes.StartedEventId v)])"

definition ChildWorkflowExecutionTimedOutEventAttributes_MarshalLogObject :: "('o, 'a) zap \<Rightarrow>
    ChildWorkflowExecutionTimedOutEventAttributes option \<Rightarrow> 'o log_action" where
  "ChildWorkflowExecutionTimedOutEventAttributes_MarshalLogObject Z v =
     (case v of None \<Rightarrow> log_all []
      | Some v \<Rightarrow> log_all
          [log_opt (\<lambda>x. add_object Z ''timeoutType'' (TimeoutType_MarshalLogObject Z x))
              (ChildWorkflowExecutionTimedOutEventAttributes.TimeoutType v),
           log_opt (\<lambda>x. add_string Z ''domain'' x)
               (ChildWorkflowExecutionTimedOutEventAttributes.Domain v),
           log_opt (\<lambda>x. add_object Z ''workflowExecution'' (WorkflowExecution_MarshalLogObject Z
               (Some x))) (ChildWorkflowExecutionTimedOutEventAttributes.WorkflowExecution v),
           log_opt (\<lambda>x. add_object Z ''workflowType'' (WorkflowType_MarshalLogObject Z (Some x)))
               (ChildWorkflowExecutionTimedOutEventAttributes.WorkflowType v),
           log_opt (\<lambda>x. add_i64 Z ''initiatedEventId'' x)
               (ChildWorkflowExecutionTimedOutEventAttributes.InitiatedEventId v),
           log_opt (\<lambda>x. add_i64 Z ''startedEventId'' x)
               (ChildWorkflowExecutionTimedOutEventAttributes.StartedEventId v)])"

definition CompleteWorkflowExecutionDecisionAttributes_MarshalLogObject :: "('o, 'a) zap \<Rightarrow>
    CompleteWorkflowExecutionDecisionAttributes option \<Rightarrow> 'o log_action" where
  "CompleteWorkflowExecutionDecisionAttributes_MarshalLogObject Z v =
     (case v of None \<Rightarrow> log_all []
      | Some v \<Rightarrow> log_all
          [log_opt (\<lambda>x. add_string Z ''result'' (EncodeToString x))
              (CompleteWorkflowExecutionDecisionAttributes.Result v)])"

definition Memo_MarshalLogObject :: "('o, 'a) zap \<Rightarrow> Memo option \<Rightarrow> 'o log_action" where
  "Memo_MarshalLogObject Z v =
     (case v of None \<Rightarrow> log_all []
      | Some v \<Rightarrow> log_all
          [log_opt (\<lambda>x. add_object Z ''fields'' (Map_String_Binary_Zapper Z x)) (Memo.Fields v)])"

definition SearchAttributes_MarshalLogObject :: "('o, 'a) zap \<Rightarrow> SearchAttributes option \<Rightarrow> 'o
    log_action" where
  "SearchAttributes_MarshalLogObject Z v =
     (case v of None \<Rightarrow> log_all []
      | Some v \<Rightarrow> log_all
          [log_opt (\<lambda>x. add_object Z ''indexedFields'' (Map_String_Binary_Zapper Z x))
              (SearchAttributes.IndexedFields v)])"

definition ContinueAsNewWorkflowExecutionDecisionAttributes_MarshalLogObject :: "('o, 'a) zap \<Rightarrow>
    ContinueAsNewWorkflowExecutionDecisionAttributes option \<Rightarrow> 'o log_action" where
  "ContinueAsNewWorkflowExecutionDecisionAttributes_MarshalLogObject Z v =
     (case v of None \<Rightarrow> log_all []
      | Some v \<Rightarrow> log_all
          [log_opt (\<lambda>x. add_object Z ''workflowType'' (WorkflowType_MarshalLogObject Z (Some x)))
              (ContinueAsNewWorkflowExecutionDecisionAttributes.WorkflowType v),
           log_opt (\<lambda>x. add_object Z ''taskList'' (TaskList_MarshalLogObject Z (Some x)))
               (ContinueAsNewWorkflowExecutionDecisionAttributes.TaskList v),
           log_opt (\<lambda>x. add_string Z ''input'' (EncodeToString x))
               (ContinueAsNewWorkflowExecutionDecisionAttributes.Input v),
           log_opt (\<lambda>x. add_i32 Z ''executionStartToCloseTimeoutSeconds'' x)
               (ContinueAsNewWorkflowExecutionDecisionAttributes.ExecutionStartToCloseTimeoutSeconds
               v),
           log_opt (\<lambda>x. add_i32 Z ''taskStartToCloseTimeoutSeconds'' x)
               (ContinueAsNewWorkflowExecutionDecisionAttributes.TaskStartToCloseTimeoutSeconds v),
           log_opt (\<lambda>x. add_i32 Z ''backoffStartIntervalInSeconds'' x)
               (ContinueAsNewWorkflowExecutionDecisionAttributes.BackoffStartIntervalInSeconds v),
           log_opt (\<lambda>x. add_object Z ''retryPolicy'' (RetryPolicy_MarshalLogObject Z (Some x)))
               (ContinueAsNewWorkflowExecutionDecisionAttributes.RetryPolicy v),
           log_opt (\<lambda>x. add_object Z ''initiator'' (ContinueAsNewInitiator_MarshalLogObject Z x))
               (ContinueAsNewWorkflowExecutionDecisionAttributes.Initiator v),
           log_opt (\<lambda>x. add_string Z ''failureReason'' x)
               (ContinueAsNewWorkflowExecutionDecisionAttributes.FailureReason v),
           log_opt (\<lambda>x. add_string Z ''failureDetails'' (EncodeToString x))
               (ContinueAsNewWorkflowExecutionDecisionAttributes.FailureDetails v),
           log_opt (\<lambda>x. add_string Z ''lastCompletionResult'' (EncodeToString x))
               (ContinueAsNewWorkflowExecutionDecisionAttributes.LastCompletionResult v),
           log_opt (\<lambda>x. add_string Z ''cronSchedule'' x)
               (ContinueAsNewWorkflowExecutionDecisionAttributes.CronSchedule v),
           log_opt (\<lambda>x. add_object Z ''header'' (Header_MarshalLogObject Z (Some x)))
               (ContinueAsNewWorkflowExecutionDecisionAttributes.Header v),
           log_opt (\<lambda>x. add_object Z ''memo'' (Memo_MarshalLogObject Z (Some x)))
               (ContinueAsNewWorkflowExecutionDecisionAttributes.Memo v),
           log_opt (\<lambda>x. add_object Z ''searchAttributes'' (SearchAttributes_MarshalLogObject Z (Some
               x))) (ContinueAsNewWorkflowExecutionDecisionAttributes.SearchAttributes v)])"

definition ScheduleActivityTaskDecisionAttributes_MarshalLogObject :: "('o, 'a) zap \<Rightarrow>
    ScheduleActivityTaskDecisionAttributes option \<Rightarrow> 'o log_action" where
  "ScheduleActivityTaskDecisionAttributes_MarshalLogObject Z v =
     (case v of None \<Rightarrow> log_all []
      | Some v \<Rightarrow> log_all
          [log_opt (\<lambda>x. add_string Z ''activityId'' x)
              (ScheduleActivityTaskDecisionAttributes.ActivityId v),
           log_opt (\<lambda>x. add_object Z ''activityType'' (ActivityType_MarshalLogObject Z (Some x)))
               (ScheduleActivityTaskDecisionAttributes.ActivityType v),
           log_opt (\<lambda>x. add_string Z ''domain'' x) (ScheduleActivityTaskDecisionAttributes.Domain
               v),
           log_opt (\<lambda>x. add_object Z ''taskList'' (TaskList_MarshalLogObject Z (Some x)))
               (ScheduleActivityTaskDecisionAttributes.TaskList v),
           log_opt (\<lambda>x. add_string Z ''input'' (EncodeToString x))
               (ScheduleActivityTaskDecisionAttributes.Input v),
           log_opt (\<lambda>x. add_i32 Z ''scheduleToCloseTimeoutSeconds'' x)
               (ScheduleActivityTaskDecisionAttributes.ScheduleToCloseTimeoutSeconds v),
           log_opt (\<lambda>x. add_i32 Z ''scheduleToStartTimeoutSeconds'' x)
               (ScheduleActivityTaskDecisionAttributes.ScheduleToStartTimeoutSeconds v),
           log_opt (\<lambda>x. add_i32 Z ''startToCloseTimeoutSeconds'' x)
               (ScheduleActivityTaskDecisionAttributes.StartToCloseTimeoutSeconds v),
           log_opt (\<lambda>x. add_i32 Z ''heartbeatTimeoutSeconds'' x)
               (ScheduleActivityTaskDecisionAttributes.HeartbeatTimeoutSeconds v),
           log_opt (\<lambda>x. add_object Z ''retryPolicy'' (RetryPolicy_MarshalLogObject Z (Some x)))
               (ScheduleActivityTaskDecisionAttributes.RetryPolicy v),
           log_opt (\<lambda>x. add_object Z ''header'' (Header_MarshalLogObject Z (Some x)))
               (ScheduleActivityTaskDecisionAttributes.Header v)])"

definition StartTimerDecisionAttributes_MarshalLogObject :: "('o, 'a) zap \<Rightarrow>
    StartTimerDecisionAttributes option \<Rightarrow> 'o log_action" where
  "StartTimerDecisionAttributes_MarshalLogObject Z v =
     (case v of None \<Rightarrow> log_all []
      | Some v \<Rightarrow> log_all
          [log_opt (\<lambda>x. add_string Z ''timerId'' x) (StartTimerDecisionAttributes.TimerId v),
           log_opt (\<lambda>x. add_i64 Z ''startToFireTimeoutSeconds'' x)
               (StartTimerDecisionAttributes.StartToFireTimeoutSeconds v)])"

definition FailWorkflowExecutionDecisionAttributes_MarshalLogObject :: "('o, 'a) zap \<Rightarrow>
    FailWorkflowExecutionDecisionAttributes option \<Rightarrow> 'o log_action" where
  "FailWorkflowExecutionDecisionAttributes_MarshalLogObject Z v =
     (case v of None \<Rightarrow> log_all []
      | Some v \<Rightarrow> log_all
          [log_opt (\<lambda>x. add_string Z ''reason'' x) (FailWorkflowExecutionDecisionAttributes.Reason
              v),
           log_opt (\<lambda>x. add_string Z ''details'' (EncodeToString x))
               (FailWorkflowExecutionDecisionAttributes.Details v)])"

definition RequestCancelActivityTaskDecisionAttributes_MarshalLogObject :: "('o, 'a) zap \<Rightarrow>
    RequestCancelActivityTaskDecisionAttributes option \<Rightarrow> 'o log_action" where
  "RequestCancelActivityTaskDecisionAttributes_MarshalLogObject Z v =
     (case v of None \<Rightarrow> log_all []
      | Some v \<Rightarrow> log_all
          [log_opt (\<lambda>x. add_string Z ''activityId'' x)
              (RequestCancelActivityTaskDecisionAttributes.ActivityId v)])"

definition RequestCancelExternalWorkflowExecutionDecisionAttributes_MarshalLogObject :: "('o, 'a)
    zap \<Rightarrow> RequestCancelExternalWorkflowExecutionDecisionAttributes option \<Rightarrow> 'o log_action" where
  "RequestCancelExternalWorkflowExecutionDecisionAttributes_MarshalLogObject Z v =
     (case v of None \<Rightarrow> log_all []
      | Some v \<Rightarrow> log_all
          [log_opt (\<lambda>x. add_string Z ''domain'' x)
              (RequestCancelExternalWorkflowExecutionDecisionAttributes.Domain v),
           log_opt (\<lambda>x. add_string Z ''workflowId'' x)
               (RequestCancelExternalWorkflowExecutionDecisionAttributes.WorkflowId v),
           log_opt (\<lambda>x. add_string Z ''runId'' x)
               (RequestCancelExternalWorkflowExecutionDecisionAttributes.RunId v),
           log_opt (\<lambda>x. add_string Z ''control'' (EncodeToString x))
               (RequestCancelExternalWorkflowExecutionDecisionAttributes.Control v),
           log_opt (\<lambda>x. add_bool Z ''childWorkflowOnly'' x)
               (RequestCancelExternalWorkflowExecutionDecisionAttributes.ChildWorkflowOnly v)])"

definition RecordMarkerDecisionAttributes_MarshalLogObject :: "('o, 'a) zap \<Rightarrow>
    RecordMarkerDecisionAttributes option \<Rightarrow> 'o log_action" where
  "RecordMarkerDecisionAttributes_MarshalLogObject Z v =
     (case v of None \<Rightarrow> log_all []
      | Some v \<Rightarrow> log_all
          [log_opt (\<lambda>x. add_string Z ''markerName'' x) (RecordMarkerDecisionAttributes.MarkerName
              v),
           log_opt (\<lambda>x. add_string Z ''details'' (EncodeToString x))
               (RecordMarkerDecisionAttributes.Details v),
           log_opt (\<lambda>x. add_object Z ''header'' (Header_MarshalLogObject Z (Some x)))
               (RecordMarkerDecisionAttributes.Header v)])"

definition StartChildWorkflowExecutionDecisionAttributes_MarshalLogObject :: "('o, 'a) zap \<Rightarrow>
    StartChildWorkflowExecutionDecisionAttributes option \<Rightarrow> 'o log_action" where
  "StartChildWorkflowExecutionDecisionAttributes_MarshalLogObject Z v =
     (case v of None \<Rightarrow> log_all []
      | Some v \<Rightarrow> log_all
          [log_opt (\<lambda>x. add_string Z ''domain'' x)
              (StartChildWorkflowExecutionDecisionAttributes.Domain v),
           log_opt (\<lambda>x. add_string Z ''workflowId'' x)
               (StartChildWorkflowExecutionDecisionAttributes.WorkflowId v),
           log_opt (\<lambda>x. add_object Z ''workflowType'' (WorkflowType_MarshalLogObject Z (Some x)))
               (StartChildWorkflowExecutionDecisionAttributes.WorkflowType v),
           log_opt (\<lambda>x. add_object Z ''taskList'' (TaskList_MarshalLogObject Z (Some x)))
               (StartChildWorkflowExecutionDecisionAttributes.TaskList v),
           log_opt (\<lambda>x. add_string Z ''input'' (EncodeToString x))
               (StartChildWorkflowExecutionDecisionAttributes.Input v),
           log_opt (\<lambda>x. add_i32 Z ''executionStartToCloseTimeoutSeconds'' x)
               (StartChildWorkflowExecutionDecisionAttributes.ExecutionStartToCloseTimeoutSeconds
               v),
           log_opt (\<lambda>x. add_i32 Z ''taskStartToCloseTimeoutSeconds'' x)
               (StartChildWorkflowExecutionDecisionAttributes.TaskStartToCloseTimeoutSeconds v),
           log_opt (\<lambda>x. add_object Z ''parentClosePolicy'' (ParentClosePolicy_MarshalLogObject Z x))
               (StartChildWorkflowExecutionDecisionAttributes.ParentClosePolicy v),
           log_opt (\<lambda>x. add_string Z ''control'' (EncodeToString x))
               (StartChildWorkflowExecutionDecisionAttributes.Control v),
           log_opt (\<lambda>x. add_object Z ''workflowIdReusePolicy''
               (WorkflowIdReusePolicy_MarshalLogObject Z x))
               (StartChildWorkflowExecutionDecisionAttributes.WorkflowIdReusePolicy v),
           log_opt (\<lambda>x. add_object Z ''retryPolicy'' (RetryPolicy_MarshalLogObject Z (Some x)))
               (StartChildWorkflowExecutionDecisionAttributes.RetryPolicy v),
           log_opt (\<lambda>x. add_string Z ''cronSchedule'' x)
               (StartChildWorkflowExecutionDecisionAttributes.CronSchedule v),
           log_opt (\<lambda>x. add_object Z ''header'' (Header_MarshalLogObject Z (Some x)))
               (StartChildWorkflowExecutionDecisionAttributes.Header v),
           log_opt (\<lambda>x. add_object Z ''memo'' (Memo_MarshalLogObject Z (Some x)))
               (StartChildWorkflowExecutionDecisionAttributes.Memo v),
           log_opt (\<lambda>x. add_object Z ''searchAttributes'' (SearchAttributes_MarshalLogObject Z (Some
               x))) (StartChildWorkflowExecutionDecisionAttributes.SearchAttributes v)])"

definition SignalExternalWorkflowExecutionDecisionAttributes_MarshalLogObject :: "('o, 'a) zap \<Rightarrow>
    SignalExternalWorkflowExecutionDecisionAttributes option \<Rightarrow> 'o log_action" where
  "SignalExternalWorkflowExecutionDecisionAttributes_MarshalLogObject Z v =
     (case v of None \<Rightarrow> log_all []
      | Some v \<Rightarrow> log_all
          [log_opt (\<lambda>x. add_string Z ''domain'' x)
              (SignalExternalWorkflowExecutionDecisionAttributes.Domain v),
           log_opt (\<lambda>x. add_object Z ''execution'' (WorkflowExecution_MarshalLogObject Z (Some x)))
               (SignalExternalWorkflowExecutionDecisionAttributes.Execution v),
           log_opt (\<lambda>x. add_string Z ''signalName'' x)
               (SignalExternalWorkflowExecutionDecisionAttributes.SignalName v),
           log_opt (\<lambda>x. add_string Z ''input'' (EncodeToString x))
               (SignalExternalWorkflowExecutionDecisionAttributes.Input v),
           log_opt (\<lambda>x. add_string Z ''control'' (EncodeToString x))
               (SignalExternalWorkflowExecutionDecisionAttributes.Control v),
           log_opt (\<lambda>x. add_bool Z ''childWorkflowOnly'' x)
               (SignalExternalWorkflowExecutionDecisionAttributes.ChildWorkflowOnly v)])"

definition UpsertWorkflowSearchAttributesDecisionAttributes_MarshalLogObject :: "('o, 'a) zap \<Rightarrow>
    UpsertWorkflowSearchAttributesDecisionAttributes option \<Rightarrow> 'o log_action" where
  "UpsertWorkflowSearchAttributesDecisionAttributes_MarshalLogObject Z v =
     (case v of None \<Rightarrow> log_all []
      | Some v \<Rightarrow> log_all
          [log_opt (\<lambda>x. add_object Z ''searchAttributes'' (SearchAttributes_MarshalLogObject Z (Some
              x))) (UpsertWorkflowSearchAttributesDecisionAttributes.SearchAttributes v)])"

definition Decision_MarshalLogObject :: "('o, 'a) zap \<Rightarrow> Decision option \<Rightarrow> 'o log_action" where
  "Decision_MarshalLogObject Z v =
     (case v of None \<Rightarrow> log_all []
      | Some v \<Rightarrow> log_all
          [log_opt (\<lambda>x. add_object Z ''decisionType'' (DecisionType_MarshalLogObject Z x))
              (Decision.DecisionType v),
           log_opt (\<lambda>x. add_object Z ''scheduleActivityTaskDecisionAttributes''
               (ScheduleActivityTaskDecisionAttributes_MarshalLogObject Z (Some x)))
               (Decision.ScheduleActivityTaskDecisionAttributes v),
           log_opt (\<lambda>x. add_object Z ''startTimerDecisionAttributes''
               (StartTimerDecisionAttributes_MarshalLogObject Z (Some x)))
               (Decision.StartTimerDecisionAttributes v),
           log_opt (\<lambda>x. add_object Z ''completeWorkflowExecutionDecisionAttributes''
               (CompleteWorkflowExecutionDecisionAttributes_MarshalLogObject Z (Some x)))
               (Decision.CompleteWorkflowExecutionDecisionAttributes v),
           log_opt (\<lambda>x. add_object Z ''failWorkflowExecutionDecisionAttributes''
               (FailWorkflowExecutionDecisionAttributes_MarshalLogObject Z (Some x)))
               (Decision.FailWorkflowExecutionDecisionAttributes v),
           log_opt (\<lambda>x. add_object Z ''requestCancelActivityTaskDecisionAttributes''
               (RequestCancelActivityTaskDecisionAttributes_MarshalLogObject Z (Some x)))
               (Decision.RequestCancelActivityTaskDecisionAttributes v),
           log_opt (\<lambda>x. add_object Z ''cancelTimerDecisionAttributes''
               (CancelTimerDecisionAttributes_MarshalLogObject Z (Some x)))
               (Decision.CancelTimerDecisionAttributes v),
           log_opt (\<lambda>x. add_object Z ''cancelWorkflowExecutionDecisionAttributes''
               (CancelWorkflowExecutionDecisionAttributes_MarshalLogObject Z (Some x)))
               (Decision.CancelWorkflowExecutionDecisionAttributes v),
           log_opt (\<lambda>x. add_object Z ''requestCancelExternalWorkflowExecutionDecisionAttributes''
               (RequestCancelExternalWorkflowExecutionDecisionAttributes_MarshalLogObject Z (Some
               x))) (Decision.RequestCancelExternalWorkflowExecutionDecisionAttributes v),
           log_opt (\<lambda>x. add_object Z ''recordMarkerDecisionAttributes''
               (RecordMarkerDecisionAttributes_MarshalLogObject Z (Some x)))
               (Decision.RecordMarkerDecisionAttributes v),
           log_opt (\<lambda>x. add_object Z ''continueAsNewWorkflowExecutionDecisionAttributes''
               (ContinueAsNewWorkflowExecutionDecisionAttributes_MarshalLogObject Z (Some x)))
               (Decision.ContinueAsNewWorkflowExecutionDecisionAttributes v),
           log_opt (\<lambda>x. add_object Z ''startChildWorkflowExecutionDecisionAttributes''
               (StartChildWorkflowExecutionDecisionAttributes_MarshalLogObject Z (Some x)))
               (Decision.StartChildWorkflowExecutionDecisionAttributes v),
           log_opt (\<lambda>x. add_object Z ''signalExternalWorkflowExecutionDecisionAttributes''
               (SignalExternalWorkflowExecutionDecisionAttributes_MarshalLogObject Z (Some x)))
               (Decision.SignalExternalWorkflowExecutionDecisionAttributes v),
           log_opt (\<lambda>x. add_object Z ''upsertWorkflowSearchAttributesDecisionAttributes''
               (UpsertWorkflowSearchAttributesDecisionAttributes_MarshalLogObject Z (Some x)))
               (Decision.UpsertWorkflowSearchAttributesDecisionAttributes v)])"

definition List_Decision_Zapper :: "('o, 'a) zap \<Rightarrow> Decision option list \<Rightarrow> 'a log_action" where
  "List_Decision_Zapper Z l = log_all (List.map (\<lambda>v. append_object Z (Decision_MarshalLogObject Z
      v)) l)"

definition DecisionTaskCompletedEventAttributes_MarshalLogObject :: "('o, 'a) zap \<Rightarrow>
    DecisionTaskCompletedEventAttributes option \<Rightarrow> 'o log_action" where
  "DecisionTaskCompletedEventAttributes_MarshalLogObject Z v =
     (case v of None \<Rightarrow> log_all []
      | Some v \<Rightarrow> log_all
          [log_opt (\<lambda>x. add_string Z ''executionContext'' (EncodeToString x))
              (DecisionTaskCompletedEventAttributes.ExecutionContext v),
           log_opt (\<lambda>x. add_i64 Z ''scheduledEventId'' x)
               (DecisionTaskCompletedEventAttributes.ScheduledEventId v),
           log_opt (\<lambda>x. add_i64 Z ''startedEventId'' x)
               (DecisionTaskCompletedEventAttributes.StartedEventId v),
           log_opt (\<lambda>x. add_string Z ''identity'' x) (DecisionTaskCompletedEventAttributes.Identity
               v),
           log_opt (\<lambda>x. add_string Z ''binaryChecksum'' x)
               (DecisionTaskCompletedEventAttributes.BinaryChecksum v)])"

definition DecisionTaskFailedEventAttributes_MarshalLogObject :: "('o, 'a) zap \<Rightarrow>
    DecisionTaskFailedEventAttributes option \<Rightarrow> 'o log_action" where
  "DecisionTaskFailedEventAttributes_MarshalLogObject Z v =
     (case v of None \<Rightarrow> log_all []
      | Some v \<Rightarrow> log_all
          [log_opt (\<lambda>x. add_i64 Z ''scheduledEventId'' x)
              (DecisionTaskFailedEventAttributes.ScheduledEventId v),
           log_opt (\<lambda>x. add_i64 Z ''startedEventId'' x)
               (DecisionTaskFailedEventAttributes.StartedEventId v),
           log_opt (\<lambda>x. add_object Z ''cause'' (DecisionTaskFailedCause_MarshalLogObject Z x))
               (DecisionTaskFailedEventAttributes.Cause v),
           log_opt (\<lambda>x. add_string Z ''details'' (EncodeToString x))
               (DecisionTaskFailedEventAttributes.Details v),
           log_opt (\<lambda>x. add_string Z ''identity'' x) (DecisionTaskFailedEventAttributes.Identity v),
           log_opt (\<lambda>x. add_string Z ''reason'' x) (DecisionTaskFailedEventAttributes.Reason v),
           log_opt (\<lambda>x. add_string Z ''baseRunId'' x) (DecisionTaskFailedEventAttributes.BaseRunId
               v),
           log_opt (\<lambda>x. add_string Z ''newRunId'' x) (DecisionTaskFailedEventAttributes.NewRunId v),
           log_opt (\<lambda>x. add_i64 Z ''forkEventVersion'' x)
               (DecisionTaskFailedEventAttributes.ForkEventVersion v)])"

definition DecisionTaskScheduledEventAttributes_MarshalLogObject :: "('o, 'a) zap \<Rightarrow>
    DecisionTaskScheduledEventAttributes option \<Rightarrow> 'o log_action" where
  "DecisionTaskScheduledEventAttributes_MarshalLogObject Z v =
     (case v of None \<Rightarrow> log_all []
      | Some v \<Rightarrow> log_all
          [log_opt (\<lambda>x. add_object Z ''taskList'' (TaskList_MarshalLogObject Z (Some x)))
              (DecisionTaskScheduledEventAttributes.TaskList v),
           log_opt (\<lambda>x. add_i32 Z ''startToCloseTimeoutSeconds'' x)
               (DecisionTaskScheduledEventAttributes.StartToCloseTimeoutSeconds v),
           log_opt (\<lambda>x. add_i64 Z ''attempt'' x) (DecisionTaskScheduledEventAttributes.Attempt v)])"

definition DecisionTaskStartedEventAttributes_MarshalLogObject :: "('o, 'a) zap \<Rightarrow>
    DecisionTaskStartedEventAttributes option \<Rightarrow> 'o log_action" where
  "DecisionTaskStartedEventAttributes_MarshalLogObject Z v =
     (case v of None \<Rightarrow> log_all []
      | Some v \<Rightarrow> log_all
          [log_opt (\<lambda>x. add_i64 Z ''scheduledEventId'' x)
              (DecisionTaskStartedEventAttributes.ScheduledEventId v),
           log_opt (\<lambda>x. add_string Z ''identity'' x) (DecisionTaskStartedEventAttributes.Identity
               v),
           log_opt (\<lambda>x. add_string Z ''requestId'' x) (DecisionTaskStartedEventAttributes.RequestId
               v)])"

definition DecisionTaskTimedOutEventAttributes_MarshalLogObject :: "('o, 'a) zap \<Rightarrow>
    DecisionTaskTimedOutEventAttributes option \<Rightarrow> 'o log_action" where
  "DecisionTaskTimedOutEventAttributes_MarshalLogObject Z v =
     (case v of None \<Rightarrow> log_all []
      | Some v \<Rightarrow> log_all
          [log_opt (\<lambda>x. add_i64 Z ''scheduledEventId'' x)
              (DecisionTaskTimedOutEventAttributes.ScheduledEventId v),
           log_opt (\<lambda>x. add_i64 Z ''startedEventId'' x)
               (DecisionTaskTimedOutEventAttributes.StartedEventId v),
           log_opt (\<lambda>x. add_object Z ''timeoutType'' (TimeoutType_MarshalLogObject Z x))
               (DecisionTaskTimedOutEventAttributes.TimeoutType v)])"

definition ResetPointInfo_MarshalLogObject :: "('o, 'a) zap \<Rightarrow> ResetPointInfo option \<Rightarrow> 'o log_action"
    where
  "ResetPointInfo_MarshalLogObject Z v =
     (case v of None \<Rightarrow> log_all []
      | Some v \<Rightarrow> log_all
          [log_opt (\<lambda>x. add_string Z ''binaryChecksum'' x) (ResetPointInfo.BinaryChecksum v),
           log_opt (\<lambda>x. add_string Z ''runId'' x) (ResetPointInfo.RunId v),
           log_opt (\<lambda>x. add_i64 Z ''firstDecisionCompletedId'' x)
               (ResetPointInfo.FirstDecisionCompletedId v),
           log_opt (\<lambda>x. add_i64 Z ''createdTimeNano'' x) (ResetPointInfo.CreatedTimeNano v),
           log_opt (\<lambda>x. add_i64 Z ''expiringTimeNano'' x) (ResetPointInfo.ExpiringTimeNano v),
           log_opt (\<lambda>x. add_bool Z ''resettable'' x) (ResetPointInfo.Resettable v)])"

definition List_ResetPointInfo_Zapper :: "('o, 'a) zap \<Rightarrow> ResetPointInfo option list \<Rightarrow> 'a log_action"
    where
  "List_ResetPointInfo_Zapper Z l = log_all (List.map (\<lambda>v. append_object Z
      (ResetPointInfo_MarshalLogObject Z v)) l)"

definition ResetPoints_MarshalLogObject :: "('o, 'a) zap \<Rightarrow> ResetPoints option \<Rightarrow> 'o log_action" where
  "ResetPoints_MarshalLogObject Z v =
     (case v of None \<Rightarrow> log_all []
      | Some v \<Rightarrow> log_all
          [log_opt (\<lambda>x. add_array Z ''points'' (List_ResetPointInfo_Zapper Z x)) (ResetPoints.Points
              v)])"

definition ExternalWorkflowExecutionCancelRequestedEventAttributes_MarshalLogObject :: "('o, 'a) zap
    \<Rightarrow> ExternalWorkflowExecutionCancelRequestedEventAttributes option \<Rightarrow> 'o log_action" where
  "ExternalWorkflowExecutionCancelRequestedEventAttributes_MarshalLogObject Z v =
     (case v of None \<Rightarrow> log_all []
      | Some v \<Rightarrow> log_all
          [log_opt (\<lambda>x. add_i64 Z ''initiatedEventId'' x)
              (ExternalWorkflowExecutionCancelRequestedEventAttributes.InitiatedEventId v),
           log_opt (\<lambda>x. add_string Z ''domain'' x)
               (ExternalWorkflowExecutionCancelRequestedEventAttributes.Domain v),
           log_opt (\<lambda>x. add_object Z ''workflowExecution'' (WorkflowExecution_MarshalLogObject Z
               (Some x))) (ExternalWorkflowExecutionCancelRequestedEventAttributes.WorkflowExecution
               v)])"

definition ExternalWorkflowExecutionSignaledEventAttributes_MarshalLogObject :: "('o, 'a) zap \<Rightarrow>
    ExternalWorkflowExecutionSignaledEventAttributes option \<Rightarrow> 'o log_action" where
  "ExternalWorkflowExecutionSignaledEventAttributes_MarshalLogObject Z v =
     (case v of None \<Rightarrow> log_all []
      | Some v \<Rightarrow> log_all
          [log_opt (\<lambda>x. add_i64 Z ''initiatedEventId'' x)
              (ExternalWorkflowExecutionSignaledEventAttributes.InitiatedEventId v),
           log_opt (\<lambda>x. add_string Z ''domain'' x)
               (ExternalWorkflowExecutionSignaledEventAttributes.Domain v),
           log_opt (\<lambda>x. add_object Z ''workflowExecution'' (WorkflowExecution_MarshalLogObject Z
               (Some x))) (ExternalWorkflowExecutionSignaledEventAttributes.WorkflowExecution v),
           log_opt (\<lambda>x. add_string Z ''control'' (EncodeToString x))
               (ExternalWorkflowExecutionSignaledEventAttributes.Control v)])"

definition WorkflowExecutionStartedEventAttributes_MarshalLogObject :: "('o, 'a) zap \<Rightarrow>
    WorkflowExecutionStartedEventAttributes option \<Rightarrow> 'o log_action" where
  "WorkflowExecutionStartedEventAttributes_MarshalLogObject Z v =
     (case v of None \<Rightarrow> log_all []
      | Some v \<Rightarrow> log_all
          [log_opt (\<lambda>x. add_object Z ''workflowType'' (WorkflowType_MarshalLogObject Z (Some x)))
              (WorkflowExecutionStartedEventAttributes.WorkflowType v),
           log_opt (\<lambda>x. add_string Z ''parentWorkflowDomain'' x)
               (WorkflowExecutionStartedEventAttributes.ParentWorkflowDomain v),
           log_opt (\<lambda>x. add_object Z ''parentWorkflowExecution'' (WorkflowExecution_MarshalLogObject
               Z (Some x))) (WorkflowExecutionStartedEventAttributes.ParentWorkflowExecution v),
           log_opt (\<lambda>x. add_i64 Z ''parentInitiatedEventId'' x)
               (WorkflowExecutionStartedEventAttributes.ParentInitiatedEventId v),
           log_opt (\<lambda>x. add_object Z ''taskList'' (TaskList_MarshalLogObject Z (Some x)))
               (WorkflowExecutionStartedEventAttributes.TaskList v),
           log_opt (\<lambda>x. add_string Z ''input'' (EncodeToString x))
               (WorkflowExecutionStartedEventAttributes.Input v),
           log_opt (\<lambda>x. add_i32 Z ''executionStartToCloseTimeoutSeconds'' x)
               (WorkflowExecutionStartedEventAttributes.ExecutionStartToCloseTimeoutSeconds v),
           log_opt (\<lambda>x. add_i32 Z ''taskStartToCloseTimeoutSeconds'' x)
               (WorkflowExecutionStartedEventAttributes.TaskStartToCloseTimeoutSeconds v),
           log_opt (\<lambda>x. add_string Z ''continuedExecutionRunId'' x)
               (WorkflowExecutionStartedEventAttributes.ContinuedExecutionRunId v),
           log_opt (\<lambda>x. add_object Z ''initiator'' (ContinueAsNewInitiator_MarshalLogObject Z x))
               (WorkflowExecutionStartedEventAttributes.Initiator v),
           log_opt (\<lambda>x. add_string Z ''continuedFailureReason'' x)
               (WorkflowExecutionStartedEventAttributes.ContinuedFailureReason v),
           log_opt (\<lambda>x. add_string Z ''continuedFailureDetails'' (EncodeToString x))
               (WorkflowExecutionStartedEventAttributes.ContinuedFailureDetails v),
           log_opt (\<lambda>x. add_string Z ''lastCompletionResult'' (EncodeToString x))
               (WorkflowExecutionStartedEventAttributes.LastCompletionResult v),
           log_opt (\<lambda>x. add_string Z ''originalExecutionRunId'' x)
               (WorkflowExecutionStartedEventAttributes.OriginalExecutionRunId v),
           log_opt (\<lambda>x. add_string Z ''identity'' x)
               (WorkflowExecutionStartedEventAttributes.Identity v),
           log_opt (\<lambda>x. add_string Z ''firstExecutionRunId'' x)
               (WorkflowExecutionStartedEventAttributes.FirstExecutionRunId v),
           log_opt (\<lambda>x. add_object Z ''retryPolicy'' (RetryPolicy_MarshalLogObject Z (Some x)))
               (WorkflowExecutionStartedEventAttributes.RetryPolicy v),
           log_opt (\<lambda>x. add_i32 Z ''attempt'' x) (WorkflowExecutionStartedEventAttributes.Attempt
               v),
           log_opt (\<lambda>x. add_i64 Z ''expirationTimestamp'' x)
               (WorkflowExecutionStartedEventAttributes.ExpirationTimestamp v),
           log_opt (\<lambda>x. add_string Z ''cronSchedule'' x)
               (WorkflowExecutionStartedEventAttributes.CronSchedule v),
           log_opt (\<lambda>x. add_i32 Z ''firstDecisionTaskBackoffSeconds'' x)
               (WorkflowExecutionStartedEventAttributes.FirstDecisionTaskBackoffSeconds v),
           log_opt (\<lambda>x. add_object Z ''memo'' (Memo_MarshalLogObject Z (Some x)))
               (WorkflowExecutionStartedEventAttributes.Memo v),
           log_opt (\<lambda>x. add_object Z ''searchAttributes'' (SearchAttributes_MarshalLogObject Z (Some
               x))) (WorkflowExecutionStartedEventAttributes.SearchAttributes v),
           log_opt (\<lambda>x. add_object Z ''prevAutoResetPoints'' (ResetPoints_MarshalLogObject Z (Some
               x))) (WorkflowExecutionStartedEventAttributes.PrevAutoResetPoints v),
           log_opt (\<lambda>x. add_object Z ''header'' (Header_MarshalLogObject Z (Some x)))
               (WorkflowExecutionStartedEventAttributes.Header v)])"

definition WorkflowExecutionCompletedEventAttributes_MarshalLogObject :: "('o, 'a) zap \<Rightarrow>
    WorkflowExecutionCompletedEventAttributes option \<Rightarrow> 'o log_action" where
  "WorkflowExecutionCompletedEventAttributes_MarshalLogObject Z v =
     (case v of None \<Rightarrow> log_all []
      | Some v \<Rightarrow> log_all
          [log_opt (\<lambda>x. add_string Z ''result'' (EncodeToString x))
              (WorkflowExecutionCompletedEventAttributes.Result v),
           log_opt (\<lambda>x. add_i64 Z ''decisionTaskCompletedEventId'' x)
               (WorkflowExecutionCompletedEventAttributes.DecisionTaskCompletedEventId v)])"

definition WorkflowExecutionFailedEventAttributes_MarshalLogObject :: "('o, 'a) zap \<Rightarrow>
    WorkflowExecutionFailedEventAttributes option \<Rightarrow> 'o log_action" where
  "WorkflowExecutionFailedEventAttributes_MarshalLogObject Z v =
     (case v of None \<Rightarrow> log_all []
      | Some v \<Rightarrow> log_all
          [log_opt (\<lambda>x. add_string Z ''reason'' x) (WorkflowExecutionFailedEventAttributes.Reason
              v),
           log_opt (\<lambda>x. add_string Z ''details'' (EncodeToString x))
               (WorkflowExecutionFailedEventAttributes.Details v),
           log_opt (\<lambda>x. add_i64 Z ''decisionTaskCompletedEventId'' x)
               (WorkflowExecutionFailedEventAttributes.DecisionTaskCompletedEventId v)])"

definition WorkflowExecutionTimedOutEventAttributes_MarshalLogObject :: "('o, 'a) zap \<Rightarrow>
    WorkflowExecutionTimedOutEventAttributes option \<Rightarrow> 'o log_action" where
  "WorkflowExecutionTimedOutEventAttributes_MarshalLogObject Z v =
     (case v of None \<Rightarrow> log_all []
      | Some v \<Rightarrow> log_all
          [log_opt (\<lambda>x. add_object Z ''timeoutType'' (TimeoutType_MarshalLogObject Z x))
              (WorkflowExecutionTimedOutEventAttributes.TimeoutType v)])"

definition TimerStartedEventAttributes_MarshalLogObject :: "('o, 'a) zap \<Rightarrow>
    TimerStartedEventAttributes option \<Rightarrow> 'o log_action" where
  "TimerStartedEventAttributes_MarshalLogObject Z v =
     (case v of None \<Rightarrow> log_all []
      | Some v \<Rightarrow> log_all
          [log_opt (\<lambda>x. add_string Z ''timerId'' x) (TimerStartedEventAttributes.TimerId v),
           log_opt (\<lambda>x. add_i64 Z ''startToFireTimeoutSeconds'' x)
               (TimerStartedEventAttributes.StartToFireTimeoutSeconds v),
           log_opt (\<lambda>x. add_i64 Z ''decisionTaskCompletedEventId'' x)
               (TimerStartedEventAttributes.DecisionTaskCompletedEventId v)])"

definition TimerFiredEventAttributes_MarshalLogObject :: "('o, 'a) zap \<Rightarrow> TimerFiredEventAttributes
    option \<Rightarrow> 'o log_action" where
  "TimerFiredEventAttributes_MarshalLogObject Z v =
     (case v of None \<Rightarrow> log_all []
      | Some v \<Rightarrow> log_all
          [log_opt (\<lambda>x. add_string Z ''timerId'' x) (TimerFiredEventAttributes.TimerId v),
           log_opt (\<lambda>x. add_i64 Z ''startedEventId'' x) (TimerFiredEventAttributes.StartedEventId
               v)])"

definition RequestCancelActivityTaskFailedEventAttributes_MarshalLogObject :: "('o, 'a) zap \<Rightarrow>
    RequestCancelActivityTaskFailedEventAttributes option \<Rightarrow> 'o log_action" where
  "RequestCancelActivityTaskFailedEventAttributes_MarshalLogObject Z v =
     (case v of None \<Rightarrow> log_all []
      | Some v \<Rightarrow> log_all
          [log_opt (\<lambda>x. add_string Z ''activityId'' x)
              (RequestCancelActivityTaskFailedEventAttributes.ActivityId v),
           log_opt (\<lambda>x. add_string Z ''cause'' x)
               (RequestCancelActivityTaskFailedEventAttributes.Cause v),
           log_opt (\<lambda>x. add_i64 Z ''decisionTaskCompletedEventId'' x)
               (RequestCancelActivityTaskFailedEventAttributes.DecisionTaskCompletedEventId v)])"

definition TimerCanceledEventAttributes_MarshalLogObject :: "('o, 'a) zap \<Rightarrow>
    TimerCanceledEventAttributes option \<Rightarrow> 'o log_action" where
  "TimerCanceledEventAttributes_MarshalLogObject Z v =
     (case v of None \<Rightarrow> log_all []
      | Some v \<Rightarrow> log_all
          [log_opt (\<lambda>x. add_string Z ''timerId'' x) (TimerCanceledEventAttributes.TimerId v),
           log_opt (\<lambda>x. add_i64 Z ''startedEventId'' x) (TimerCanceledEventAttributes.StartedEventId
               v),
           log_opt (\<lambda>x. add_i64 Z ''decisionTaskCompletedEventId'' x)
               (TimerCanceledEventAttributes.DecisionTaskCompletedEventId v),
           log_opt (\<lambda>x. add_string Z ''identity'' x) (TimerCanceledEventAttributes.Identity v)])"

definition MarkerRecordedEventAttributes_MarshalLogObject :: "('o, 'a) zap \<Rightarrow>
    MarkerRecordedEventAttributes option \<Rightarrow> 'o log_action" where
  "MarkerRecordedEventAttributes_MarshalLogObject Z v =
     (case v of None \<Rightarrow> log_all []
      | Some v \<Rightarrow> log_all
          [log_opt (\<lambda>x. add_string Z ''markerName'' x) (MarkerRecordedEventAttributes.MarkerName v),
           log_opt (\<lambda>x. add_string Z ''details'' (EncodeToString x))
               (MarkerRecordedEventAttributes.Details v),
           log_opt (\<lambda>x. add_i64 Z ''decisionTaskCompletedEventId'' x)
               (MarkerRecordedEventAttributes.DecisionTaskCompletedEventId v),
           log_opt (\<lambda>x. add_object Z ''header'' (Header_MarshalLogObject Z (Some x)))
               (MarkerRecordedEventAttributes.Header v)])"

definition WorkflowExecutionSignaledEventAttributes_MarshalLogObject :: "('o, 'a) zap \<Rightarrow>
    WorkflowExecutionSignaledEventAttributes option \<Rightarrow> 'o log_action" where
  "WorkflowExecutionSignaledEventAttributes_MarshalLogObject Z v =
     (case v of None \<Rightarrow> log_all []
      | Some v \<Rightarrow> log_all
          [log_opt (\<lambda>x. add_string Z ''signalName'' x)
              (WorkflowExecutionSignaledEventAttributes.SignalName v),
           log_opt (\<lambda>x. add_string Z ''input'' (EncodeToString x))
               (WorkflowExecutionSignaledEventAttributes.Input v),
           log_opt (\<lambda>x. add_string Z ''identity'' x)
               (WorkflowExecutionSignaledEventAttributes.Identity v)])"

definition WorkflowExecutionTerminatedEventAttributes_MarshalLogObject :: "('o, 'a) zap \<Rightarrow>
    WorkflowExecutionTerminatedEventAttributes option \<Rightarrow> 'o log_action" where
  "WorkflowExecutionTerminatedEventAttributes_MarshalLogObject Z v =
     (case v of None \<Rightarrow> log_all []
      | Some v \<Rightarrow> log_all
          [log_opt (\<lambda>x. add_string Z ''reason'' x)
              (WorkflowExecutionTerminatedEventAttributes.Reason v),
           log_opt (\<lambda>x. add_string Z ''details'' (EncodeToString x))
               (WorkflowExecutionTerminatedEventAttributes.Details v),
           log_opt (\<lambda>x. add_string Z ''identity'' x)
               (WorkflowExecutionTerminatedEventAttributes.Identity v)])"

definition WorkflowExecutionCancelRequestedEventAttributes_MarshalLogObject :: "('o, 'a) zap \<Rightarrow>
    WorkflowExecutionCancelRequestedEventAttributes option \<Rightarrow> 'o log_action" where
  "WorkflowExecutionCancelRequestedEventAttributes_MarshalLogObject Z v =
     (case v of None \<Rightarrow> log_all []
      | Some v \<Rightarrow> log_all
          [log_opt (\<lambda>x. add_string Z ''cause'' x)
              (WorkflowExecutionCancelRequestedEventAttributes.Cause v),
           log_opt (\<lambda>x. add_i64 Z ''externalInitiatedEventId'' x)
               (WorkflowExecutionCancelRequestedEventAttributes.ExternalInitiatedEventId v),
           log_opt (\<lambda>x. add_object Z ''externalWorkflowExecution''
               (WorkflowExecution_MarshalLogObject Z (Some x)))
               (WorkflowExecutionCancelRequestedEventAttributes.ExternalWorkflowExecution v),
           log_opt (\<lambda>x. add_string Z ''identity'' x)
               (WorkflowExecutionCancelRequestedEventAttributes.Identity v)])"

definition WorkflowExecutionCanceledEventAttributes_MarshalLogObject :: "('o, 'a) zap \<Rightarrow>
    WorkflowExecutionCanceledEventAttributes option \<Rightarrow> 'o log_action" where
  "WorkflowExecutionCanceledEventAttributes_MarshalLogObject Z v =
     (case v of None \<Rightarrow> log_all []
      | Some v \<Rightarrow> log_all
          [log_opt (\<lambda>x. add_i64 Z ''decisionTaskCompletedEventId'' x)
              (WorkflowExecutionCanceledEventAttributes.DecisionTaskCompletedEventId v),
           log_opt (\<lambda>x. add_string Z ''details'' (EncodeToString x))
               (WorkflowExecutionCanceledEventAttributes.Details v)])"

definition RequestCancelExternalWorkflowExecutionInitiatedEventAttributes_MarshalLogObject :: "('o,
    'a) zap \<Rightarrow> RequestCancelExternalWorkflowExecutionInitiatedEventAttributes option \<Rightarrow> 'o log_action"
    where
  "RequestCancelExternalWorkflowExecutionInitiatedEventAttributes_MarshalLogObject Z v =
     (case v of None \<Rightarrow> log_all []
      | Some v \<Rightarrow> log_all
          [log_opt (\<lambda>x. add_i64 Z ''decisionTaskCompletedEventId'' x)
              (RequestCancelExternalWorkflowExecutionInitiatedEventAttributes.DecisionTaskCompletedEventId v),
           log_opt (\<lambda>x. add_string Z ''domain'' x)
               (RequestCancelExternalWorkflowExecutionInitiatedEventAttributes.Domain v),
           log_opt (\<lambda>x. add_object Z ''workflowExecution'' (WorkflowExecution_MarshalLogObject Z
               (Some x)))
               (RequestCancelExternalWorkflowExecutionInitiatedEventAttributes.WorkflowExecution v),
           log_opt (\<lambda>x. add_string Z ''control'' (EncodeToString x))
               (RequestCancelExternalWorkflowExecutionInitiatedEventAttributes.Control v),
           log_opt (\<lambda>x. add_bool Z ''childWorkflowOnly'' x)
               (RequestCancelExternalWorkflowExecutionInitiatedEventAttributes.ChildWorkflowOnly
               v)])"

definition RequestCancelExternalWorkflowExecutionFailedEventAttributes_MarshalLogObject :: "('o, 'a)
    zap \<Rightarrow> RequestCancelExternalWorkflowExecutionFailedEventAttributes option \<Rightarrow> 'o log_action" where
  "RequestCancelExternalWorkflowExecutionFailedEventAttributes_MarshalLogObject Z v =
     (case v of None \<Rightarrow> log_all []
      | Some v \<Rightarrow> log_all
          [log_opt (\<lambda>x. add_object Z ''cause''
              (CancelExternalWorkflowExecutionFailedCause_MarshalLogObject Z x))
              (RequestCancelExternalWorkflowExecutionFailedEventAttributes.Cause v),
           log_opt (\<lambda>x. add_i64 Z ''decisionTaskCompletedEventId'' x)
               (RequestCancelExternalWorkflowExecutionFailedEventAttributes.DecisionTaskCompletedEventId v),
           log_opt (\<lambda>x. add_string Z ''domain'' x)
               (RequestCancelExternalWorkflowExecutionFailedEventAttributes.Domain v),
           log_opt (\<lambda>x. add_object Z ''workflowExecution'' (WorkflowExecution_MarshalLogObject Z
               (Some x)))
               (RequestCancelExternalWorkflowExecutionFailedEventAttributes.WorkflowExecution v),
           log_opt (\<lambda>x. add_i64 Z ''initiatedEventId'' x)
               (RequestCancelExternalWorkflowExecutionFailedEventAttributes.InitiatedEventId v),
           log_opt (\<lambda>x. add_string Z ''control'' (EncodeToString x))
               (RequestCancelExternalWorkflowExecutionFailedEventAttributes.Control v)])"

definition WorkflowExecutionContinuedAsNewEventAttributes_MarshalLogObject :: "('o, 'a) zap \<Rightarrow>
    WorkflowExecutionContinuedAsNewEventAttributes option \<Rightarrow> 'o log_action" where
  "WorkflowExecutionContinuedAsNewEventAttributes_MarshalLogObject Z v =
     (case v of None \<Rightarrow> log_all []
      | Some v \<Rightarrow> log_all
          [log_opt (\<lambda>x. add_string Z ''newExecutionRunId'' x)
              (WorkflowExecutionContinuedAsNewEventAttributes.NewExecutionRunId v),
           log_opt (\<lambda>x. add_object Z ''workflowType'' (WorkflowType_MarshalLogObject Z (Some x)))
               (WorkflowExecutionContinuedAsNewEventAttributes.WorkflowType v),
           log_opt (\<lambda>x. add_object Z ''taskList'' (TaskList_MarshalLogObject Z (Some x)))
               (WorkflowExecutionContinuedAsNewEventAttributes.TaskList v),
           log_opt (\<lambda>x. add_string Z ''input'' (EncodeToString x))
               (WorkflowExecutionContinuedAsNewEventAttributes.Input v),
           log_opt (\<lambda>x. add_i32 Z ''executionStartToCloseTimeoutSeconds'' x)
               (WorkflowExecutionContinuedAsNewEventAttributes.ExecutionStartToCloseTimeoutSeconds
               v),
           log_opt (\<lambda>x. add_i32 Z ''taskStartToCloseTimeoutSeconds'' x)
               (WorkflowExecutionContinuedAsNewEventAttributes.TaskStartToCloseTimeoutSeconds v),
           log_opt (\<lambda>x. add_i64 Z ''decisionTaskCompletedEventId'' x)
               (WorkflowExecutionContinuedAsNewEventAttributes.DecisionTaskCompletedEventId v),
           log_opt (\<lambda>x. add_i32 Z ''backoffStartIntervalInSeconds'' x)
               (WorkflowExecutionContinuedAsNewEventAttributes.BackoffStartIntervalInSeconds v),
           log_opt (\<lambda>x. add_object Z ''initiator'' (ContinueAsNewInitiator_MarshalLogObject Z x))
               (WorkflowExecutionContinuedAsNewEventAttributes.Initiator v),
           log_opt (\<lambda>x. add_string Z ''failureReason'' x)
               (WorkflowExecutionContinuedAsNewEventAttributes.FailureReason v),
           log_opt (\<lambda>x. add_string Z ''failureDetails'' (EncodeToString x))
               (WorkflowExecutionContinuedAsNewEventAttributes.FailureDetails v),
           log_opt (\<lambda>x. add_string Z ''lastCompletionResult'' (EncodeToString x))
               (WorkflowExecutionContinuedAsNewEventAttributes.LastCompletionResult v),
           log_opt (\<lambda>x. add_object Z ''header'' (Header_MarshalLogObject Z (Some x)))
               (WorkflowExecutionContinuedAsNewEventAttributes.Header v),
           log_opt (\<lambda>x. add_object Z ''memo'' (Memo_MarshalLogObject Z (Some x)))
               (WorkflowExecutionContinuedAsNewEventAttributes.Memo v),
           log_opt (\<lambda>x. add_object Z ''searchAttributes'' (SearchAttributes_MarshalLogObject Z (Some
               x))) (WorkflowExecutionContinuedAsNewEventAttributes.SearchAttributes v)])"

definition StartChildWorkflowExecutionInitiatedEventAttributes_MarshalLogObject :: "('o, 'a) zap \<Rightarrow>
    StartChildWorkflowExecutionInitiatedEventAttributes option \<Rightarrow> 'o log_action" where
  "StartChildWorkflowExecutionInitiatedEventAttributes_MarshalLogObject Z v =
     (case v of None \<Rightarrow> log_all []
      | Some v \<Rightarrow> log_all
          [log_opt (\<lambda>x. add_string Z ''domain'' x)
              (StartChildWorkflowExecutionInitiatedEventAttributes.Domain v),
           log_opt (\<lambda>x. add_string Z ''workflowId'' x)
               (StartChildWorkflowExecutionInitiatedEventAttributes.WorkflowId v),
           log_opt (\<lambda>x. add_object Z ''workflowType'' (WorkflowType_MarshalLogObject Z (Some x)))
               (StartChildWorkflowExecutionInitiatedEventAttributes.WorkflowType v),
           log_opt (\<lambda>x. add_object Z ''taskList'' (TaskList_MarshalLogObject Z (Some x)))
               (StartChildWorkflowExecutionInitiatedEventAttributes.TaskList v),
           log_opt (\<lambda>x. add_string Z ''input'' (EncodeToString x))
               (StartChildWorkflowExecutionInitiatedEventAttributes.Input v),
           log_opt (\<lambda>x. add_i32 Z ''executionStartToCloseTimeoutSeconds'' x)
               (StartChildWorkflowExecutionInitiatedEventAttributes.ExecutionStartToCloseTimeoutSeconds v),
           log_opt (\<lambda>x. add_i32 Z ''taskStartToCloseTimeoutSeconds'' x)
               (StartChildWorkflowExecutionInitiatedEventAttributes.TaskStartToCloseTimeoutSeconds
               v),
           log_opt (\<lambda>x. add_object Z ''parentClosePolicy'' (ParentClosePolicy_MarshalLogObject Z x))
               (StartChildWorkflowExecutionInitiatedEventAttributes.ParentClosePolicy v),
           log_opt (\<lambda>x. add_string Z ''control'' (EncodeToString x))
               (StartChildWorkflowExecutionInitiatedEventAttributes.Control v),
           log_opt (\<lambda>x. add_i64 Z ''decisionTaskCompletedEventId'' x)
               (StartChildWorkflowExecutionInitiatedEventAttributes.DecisionTaskCompletedEventId v),
           log_opt (\<lambda>x. add_object Z ''workflowIdReusePolicy''
               (WorkflowIdReusePolicy_MarshalLogObject Z x))
               (StartChildWorkflowExecutionInitiatedEventAttributes.WorkflowIdReusePolicy v),
           log_opt (\<lambda>x. add_object Z ''retryPolicy'' (RetryPolicy_MarshalLogObject Z (Some x)))
               (StartChildWorkflowExecutionInitiatedEventAttributes.RetryPolicy v),
           log_opt (\<lambda>x. add_string Z ''cronSchedule'' x)
               (StartChildWorkflowExecutionInitiatedEventAttributes.CronSchedule v),
           log_opt (\<lambda>x. add_object Z ''header'' (Header_MarshalLogObject Z (Some x)))
               (StartChildWorkflowExecutionInitiatedEventAttributes.Header v),
           log_opt (\<lambda>x. add_object Z ''memo'' (Memo_MarshalLogObject Z (Some x)))
               (StartChildWorkflowExecutionInitiatedEventAttributes.Memo v),
           log_opt (\<lambda>x. add_object Z ''searchAttributes'' (SearchAttributes_MarshalLogObject Z (Some
               x))) (StartChildWorkflowExecutionInitiatedEventAttributes.SearchAttributes v)])"

definition StartChildWorkflowExecutionFailedEventAttributes_MarshalLogObject :: "('o, 'a) zap \<Rightarrow>
    StartChildWorkflowExecutionFailedEventAttributes option \<Rightarrow> 'o log_action" where
  "StartChildWorkflowExecutionFailedEventAttributes_MarshalLogObject Z v =
     (case v of None \<Rightarrow> log_all []
      | Some v \<Rightarrow> log_all
          [log_opt (\<lambda>x. add_string Z ''domain'' x)
              (StartChildWorkflowExecutionFailedEventAttributes.Domain v),
           log_opt (\<lambda>x. add_string Z ''workflowId'' x)
               (StartChildWorkflowExecutionFailedEventAttributes.WorkflowId v),
           log_opt (\<lambda>x. add_object Z ''workflowType'' (WorkflowType_MarshalLogObject Z (Some x)))
               (StartChildWorkflowExecutionFailedEventAttributes.WorkflowType v),
           log_opt (\<lambda>x. add_object Z ''cause'' (ChildWorkflowExecutionFailedCause_MarshalLogObject Z
               x)) (StartChildWorkflowExecutionFailedEventAttributes.Cause v),
           log_opt (\<lambda>x. add_string Z ''control'' (EncodeToString x))
               (StartChildWorkflowExecutionFailedEventAttributes.Control v),
           log_opt (\<lambda>x. add_i64 Z ''initiatedEventId'' x)
               (StartChildWorkflowExecutionFailedEventAttributes.InitiatedEventId v),
           log_opt (\<lambda>x. add_i64 Z ''decisionTaskCompletedEventId'' x)
               (StartChildWorkflowExecutionFailedEventAttributes.DecisionTaskCompletedEventId v)])"

definition SignalExternalWorkflowExecutionInitiatedEventAttributes_MarshalLogObject :: "('o, 'a) zap
    \<Rightarrow> SignalExternalWorkflowExecutionInitiatedEventAttributes option \<Rightarrow> 'o log_action" where
  "SignalExternalWorkflowExecutionInitiatedEventAttributes_MarshalLogObject Z v =
     (case v of None \<Rightarrow> log_all []
      | Some v \<Rightarrow> log_all
          [log_opt (\<lambda>x. add_i64 Z ''decisionTaskCompletedEventId'' x)
              (SignalExternalWorkflowExecutionInitiatedEventAttributes.DecisionTaskCompletedEventId
              v),
           log_opt (\<lambda>x. add_string Z ''domain'' x)
               (SignalExternalWorkflowExecutionInitiatedEventAttributes.Domain v),
           log_opt (\<lambda>x. add_object Z ''workflowExecution'' (WorkflowExecution_MarshalLogObject Z
               (Some x))) (SignalExternalWorkflowExecutionInitiatedEventAttributes.WorkflowExecution
               v),
           log_opt (\<lambda>x. add_string Z ''signalName'' x)
               (SignalExternalWorkflowExecutionInitiatedEventAttributes.SignalName v),
           log_opt (\<lambda>x. add_string Z ''input'' (EncodeToString x))
               (SignalExternalWorkflowExecutionInitiatedEventAttributes.Input v),
           log_opt (\<lambda>x. add_string Z ''control'' (EncodeToString x))
               (SignalExternalWorkflowExecutionInitiatedEventAttributes.Control v),
           log_opt (\<lambda>x. add_bool Z ''childWorkflowOnly'' x)
               (SignalExternalWorkflowExecutionInitiatedEventAttributes.ChildWorkflowOnly v)])"

definition SignalExternalWorkflowExecutionFailedEventAttributes_MarshalLogObject :: "('o, 'a) zap \<Rightarrow>
    SignalExternalWorkflowExecutionFailedEventAttributes option \<Rightarrow> 'o log_action" where
  "SignalExternalWorkflowExecutionFailedEventAttributes_MarshalLogObject Z v =
     (case v of None \<Rightarrow> log_all []
      | Some v \<Rightarrow> log_all
          [log_opt (\<lambda>x. add_object Z ''cause''
              (SignalExternalWorkflowExecutionFailedCause_MarshalLogObject Z x))
              (SignalExternalWorkflowExecutionFailedEventAttributes.Cause v),
           log_opt (\<lambda>x. add_i64 Z ''decisionTaskCompletedEventId'' x)
               (SignalExternalWorkflowExecutionFailedEventAttributes.DecisionTaskCompletedEventId
               v),
           log_opt (\<lambda>x. add_string Z ''domain'' x)
               (SignalExternalWorkflowExecutionFailedEventAttributes.Domain v),
           log_opt (\<lambda>x. add_object Z ''workflowExecution'' (WorkflowExecution_MarshalLogObject Z
               (Some x))) (SignalExternalWorkflowExecutionFailedEventAttributes.WorkflowExecution
               v),
           log_opt (\<lambda>x. add_i64 Z ''initiatedEventId'' x)
               (SignalExternalWorkflowExecutionFailedEventAttributes.InitiatedEventId v),
           log_opt (\<lambda>x. add_string Z ''control'' (EncodeToString x))
               (SignalExternalWorkflowExecutionFailedEventAttributes.Control v)])"

definition UpsertWorkflowSearchAttributesEventAttributes_MarshalLogObject :: "('o, 'a) zap \<Rightarrow>
    UpsertWorkflowSearchAttributesEventAttributes option \<Rightarrow> 'o log_action" where
  "UpsertWorkflowSearchAttributesEventAttributes_MarshalLogObject Z v =
     (case v of None \<Rightarrow> log_all []
      | Some v \<Rightarrow> log_all
          [log_opt (\<lambda>x. add_i64 Z ''decisionTaskCompletedEventId'' x)
              (UpsertWorkflowSearchAttributesEventAttributes.DecisionTaskCompletedEventId v),
           log_opt (\<lambda>x. add_object Z ''searchAttributes'' (SearchAttributes_MarshalLogObject Z (Some
               x))) (UpsertWorkflowSearchAttributesEventAttributes.SearchAttributes v)])"

definition HistoryEvent_MarshalLogObject :: "('o, 'a) zap \<Rightarrow> HistoryEvent option \<Rightarrow> 'o log_action"
    where
  "HistoryEvent_MarshalLogObject Z v =
     (case v of None \<Rightarrow> log_all []
      | Some v \<Rightarrow> log_all
          [log_opt (\<lambda>x. add_i64 Z ''eventId'' x) (HistoryEvent.EventId v),
           log_opt (\<lambda>x. add_i64 Z ''timestamp'' x) (HistoryEvent.Timestamp v),
           log_opt (\<lambda>x. add_object Z ''eventType'' (EventType_MarshalLogObject Z x))
               (HistoryEvent.EventType v),
           log_opt (\<lambda>x. add_i64 Z ''version'' x) (HistoryEvent.Version v),
           log_opt (\<lambda>x. add_i64 Z ''taskId'' x) (HistoryEvent.TaskId v),
           log_opt (\<lambda>x. add_object Z ''workflowExecutionStartedEventAttributes''
               (WorkflowExecutionStartedEventAttributes_MarshalLogObject Z (Some x)))
               (HistoryEvent.WorkflowExecutionStartedEventAttributes v),
           log_opt (\<lambda>x. add_object Z ''workflowExecutionCompletedEventAttributes''
               (WorkflowExecutionCompletedEventAttributes_MarshalLogObject Z (Some x)))
               (HistoryEvent.WorkflowExecutionCompletedEventAttributes v),
           log_opt (\<lambda>x. add_object Z ''workflowExecutionFailedEventAttributes''
               (WorkflowExecutionFailedEventAttributes_MarshalLogObject Z (Some x)))
               (HistoryEvent.WorkflowExecutionFailedEventAttributes v),
           log_opt (\<lambda>x. add_object Z ''workflowExecutionTimedOutEventAttributes''
               (WorkflowExecutionTimedOutEventAttributes_MarshalLogObject Z (Some x)))
               (HistoryEvent.WorkflowExecutionTimedOutEventAttributes v),
           log_opt (\<lambda>x. add_object Z ''decisionTaskScheduledEventAttributes''
               (DecisionTaskScheduledEventAttributes_MarshalLogObject Z (Some x)))
               (HistoryEvent.DecisionTaskScheduledEventAttributes v),
           log_opt (\<lambda>x. add_object Z ''decisionTaskStartedEventAttributes''
               (DecisionTaskStartedEventAttributes_MarshalLogObject Z (Some x)))
               (HistoryEvent.DecisionTaskStartedEventAttributes v),
           log_opt (\<lambda>x. add_object Z ''decisionTaskCompletedEventAttributes''
               (DecisionTaskCompletedEventAttributes_MarshalLogObject Z (Some x)))
               (HistoryEvent.DecisionTaskCompletedEventAttributes v),
           log_opt (\<lambda>x. add_object Z ''decisionTaskTimedOutEventAttributes''
               (DecisionTaskTimedOutEventAttributes_MarshalLogObject Z (Some x)))
               (HistoryEvent.DecisionTaskTimedOutEventAttributes v),
           log_opt (\<lambda>x. add_object Z ''decisionTaskFailedEventAttributes''
               (DecisionTaskFailedEventAttributes_MarshalLogObject Z (Some x)))
               (HistoryEvent.DecisionTaskFailedEventAttributes v),
           log_opt (\<lambda>x. add_object Z ''activityTaskScheduledEventAttributes''
               (ActivityTaskScheduledEventAttributes_MarshalLogObject Z (Some x)))
               (HistoryEvent.ActivityTaskScheduledEventAttributes v),
           log_opt (\<lambda>x. add_object Z ''activityTaskStartedEventAttributes''
               (ActivityTaskStartedEventAttributes_MarshalLogObject Z (Some x)))
               (HistoryEvent.ActivityTaskStartedEventAttributes v),
           log_opt (\<lambda>x. add_object Z ''activityTaskCompletedEventAttributes''
               (ActivityTaskCompletedEventAttributes_MarshalLogObject Z (Some x)))
               (HistoryEvent.ActivityTaskCompletedEventAttributes v),
           log_opt (\<lambda>x. add_object Z ''activityTaskFailedEventAttributes''
               (ActivityTaskFailedEventAttributes_MarshalLogObject Z (Some x)))
               (HistoryEvent.ActivityTaskFailedEventAttributes v),
           log_opt (\<lambda>x. add_object Z ''activityTaskTimedOutEventAttributes''
               (ActivityTaskTimedOutEventAttributes_MarshalLogObject Z (Some x)))
               (HistoryEvent.ActivityTaskTimedOutEventAttributes v),
           log_opt (\<lambda>x. add_object Z ''timerStartedEventAttributes''
               (TimerStartedEventAttributes_MarshalLogObject Z (Some x)))
               (HistoryEvent.TimerStartedEventAttributes v),
           log_opt (\<lambda>x. add_object Z ''timerFiredEventAttributes''
               (TimerFiredEventAttributes_MarshalLogObject Z (Some x)))
               (HistoryEvent.TimerFiredEventAttributes v),
           log_opt (\<lambda>x. add_object Z ''activityTaskCancelRequestedEventAttributes''
               (ActivityTaskCancelRequestedEventAttributes_MarshalLogObject Z (Some x)))
               (HistoryEvent.ActivityTaskCancelRequestedEventAttributes v),
           log_opt (\<lambda>x. add_object Z ''requestCancelActivityTaskFailedEventAttributes''
               (RequestCancelActivityTaskFailedEventAttributes_MarshalLogObject Z (Some x)))
               (HistoryEvent.RequestCancelActivityTaskFailedEventAttributes v),
           log_opt (\<lambda>x. add_object Z ''activityTaskCanceledEventAttributes''
               (ActivityTaskCanceledEventAttributes_MarshalLogObject Z (Some x)))
               (HistoryEvent.ActivityTaskCanceledEventAttributes v),
           log_opt (\<lambda>x. add_object Z ''timerCanceledEventAttributes''
               (TimerCanceledEventAttributes_MarshalLogObject Z (Some x)))
               (HistoryEvent.TimerCanceledEventAttributes v),
           log_opt (\<lambda>x. add_object Z ''cancelTimerFailedEventAttributes''
               (CancelTimerFailedEventAttributes_MarshalLogObject Z (Some x)))
               (HistoryEvent.CancelTimerFailedEventAttributes v),
           log_opt (\<lambda>x. add_object Z ''markerRecordedEventAttributes''
               (MarkerRecordedEventAttributes_MarshalLogObject Z (Some x)))
               (HistoryEvent.MarkerRecordedEventAttributes v),
           log_opt (\<lambda>x. add_object Z ''workflowExecutionSignaledEventAttributes''
               (WorkflowExecutionSignaledEventAttributes_MarshalLogObject Z (Some x)))
               (HistoryEvent.WorkflowExecutionSignaledEventAttributes v),
           log_opt (\<lambda>x. add_object Z ''workflowExecutionTerminatedEventAttributes''
               (WorkflowExecutionTerminatedEventAttributes_MarshalLogObject Z (Some x)))
               (HistoryEvent.WorkflowExecutionTerminatedEventAttributes v),
           log_opt (\<lambda>x. add_object Z ''workflowExecutionCancelRequestedEventAttributes''
               (WorkflowExecutionCancelRequestedEventAttributes_MarshalLogObject Z (Some x)))
               (HistoryEvent.WorkflowExecutionCancelRequestedEventAttributes v),
           log_opt (\<lambda>x. add_object Z ''workflowExecutionCanceledEventAttributes''
               (WorkflowExecutionCanceledEventAttributes_MarshalLogObject Z (Some x)))
               (HistoryEvent.WorkflowExecutionCanceledEventAttributes v),
           log_opt (\<lambda>x. add_object Z
               ''requestCancelExternalWorkflowExecutionInitiatedEventAttributes''
               (RequestCancelExternalWorkflowExecutionInitiatedEventAttributes_MarshalLogObject Z
               (Some x)))
               (HistoryEvent.RequestCancelExternalWorkflowExecutionInitiatedEventAttributes v),
           log_opt (\<lambda>x. add_object Z ''requestCancelExternalWorkflowExecutionFailedEventAttributes''
               (RequestCancelExternalWorkflowExecutionFailedEventAttributes_MarshalLogObject Z (Some
               x))) (HistoryEvent.RequestCancelExternalWorkflowExecutionFailedEventAttributes v),
           log_opt (\<lambda>x. add_object Z ''externalWorkflowExecutionCancelRequestedEventAttributes''
               (ExternalWorkflowExecutionCancelRequestedEventAttributes_MarshalLogObject Z (Some
               x))) (HistoryEvent.ExternalWorkflowExecutionCancelRequestedEventAttributes v),
           log_opt (\<lambda>x. add_object Z ''workflowExecutionContinuedAsNewEventAttributes''
               (WorkflowExecutionContinuedAsNewEventAttributes_MarshalLogObject Z (Some x)))
               (HistoryEvent.WorkflowExecutionContinuedAsNewEventAttributes v),
           log_opt (\<lambda>x. add_object Z ''startChildWorkflowExecutionInitiatedEventAttributes''
               (StartChildWorkflowExecutionInitiatedEventAttributes_MarshalLogObject Z (Some x)))
               (HistoryEvent.StartChildWorkflowExecutionInitiatedEventAttributes v),
           log_opt (\<lambda>x. add_object Z ''startChildWorkflowExecutionFailedEventAttributes''
               (StartChildWorkflowExecutionFailedEventAttributes_MarshalLogObject Z (Some x)))
               (HistoryEvent.StartChildWorkflowExecutionFailedEventAttributes v),
           log_opt (\<lambda>x. add_object Z ''childWorkflowExecutionStartedEventAttributes''
               (ChildWorkflowExecutionStartedEventAttributes_MarshalLogObject Z (Some x)))
               (HistoryEvent.ChildWorkflowExecutionStartedEventAttributes v),
           log_opt (\<lambda>x. add_object Z ''childWorkflowExecutionCompletedEventAttributes''
               (ChildWorkflowExecutionCompletedEventAttributes_MarshalLogObject Z (Some x)))
               (HistoryEvent.ChildWorkflowExecutionCompletedEventAttributes v),
           log_opt (\<lambda>x. add_object Z ''childWorkflowExecutionFailedEventAttributes''
               (ChildWorkflowExecutionFailedEventAttributes_MarshalLogObject Z (Some x)))
               (HistoryEvent.ChildWorkflowExecutionFailedEventAttributes v),
           log_opt (\<lambda>x. add_object Z ''childWorkflowExecutionCanceledEventAttributes''
               (ChildWorkflowExecutionCanceledEventAttributes_MarshalLogObject Z (Some x)))
               (HistoryEvent.ChildWorkflowExecutionCanceledEventAttributes v),
           log_opt (\<lambda>x. add_object Z ''childWorkflowExecutionTimedOutEventAttributes''
               (ChildWorkflowExecutionTimedOutEventAttributes_MarshalLogObject Z (Some x)))
               (HistoryEvent.ChildWorkflowExecutionTimedOutEventAttributes v),
           log_opt (\<lambda>x. add_object Z ''childWorkflowExecutionTerminatedEventAttributes''
               (ChildWorkflowExecutionTerminatedEventAttributes_MarshalLogObject Z (Some x)))
               (HistoryEvent.ChildWorkflowExecutionTerminatedEventAttributes v),
           log_opt (\<lambda>x. add_object Z ''signalExternalWorkflowExecutionInitiatedEventAttributes''
               (SignalExternalWorkflowExecutionInitiatedEventAttributes_MarshalLogObject Z (Some
               x))) (HistoryEvent.SignalExternalWorkflowExecutionInitiatedEventAttributes v),
           log_opt (\<lambda>x. add_object Z ''signalExternalWorkflowExecutionFailedEventAttributes''
               (SignalExternalWorkflowExecutionFailedEventAttributes_MarshalLogObject Z (Some x)))
               (HistoryEvent.SignalExternalWorkflowExecutionFailedEventAttributes v),
           log_opt (\<lambda>x. add_object Z ''externalWorkflowExecutionSignaledEventAttributes''
               (ExternalWorkflowExecutionSignaledEventAttributes_MarshalLogObject Z (Some x)))
               (HistoryEvent.ExternalWorkflowExecutionSignaledEventAttributes v),
           log_opt (\<lambda>x. add_object Z ''upsertWorkflowSearchAttributesEventAttributes''
               (UpsertWorkflowSearchAttributesEventAttributes_MarshalLogObject Z (Some x)))
               (HistoryEvent.UpsertWorkflowSearchAttributesEventAttributes v)])"

definition List_HistoryEvent_Zapper :: "('o, 'a) zap \<Rightarrow> HistoryEvent option list \<Rightarrow> 'a log_action"
    where
  "List_HistoryEvent_Zapper Z l = log_all (List.map (\<lambda>v. append_object Z
      (HistoryEvent_MarshalLogObject Z v)) l)"

definition History_MarshalLogObject :: "('o, 'a) zap \<Rightarrow> History option \<Rightarrow> 'o log_action" where
  "History_MarshalLogObject Z v =
     (case v of None \<Rightarrow> log_all []
      | Some v \<Rightarrow> log_all
          [log_opt (\<lambda>x. add_array Z ''events'' (List_HistoryEvent_Zapper Z x)) (History.Events v)])"

end
