(* ===== verification/GoMessageLogs.thy ===== *)
theory GoMessageLogs
  imports GoEventLogs GoRequests GoMisc GoMessages
begin

text \<open>
  How exceptions, requests and responses are logged (\<open>MarshalLogObject\<close>,
  proxy/gen/shared/shared.go).
\<close>

definition AccessDeniedError_MarshalLogObject :: "('o, 'a) zap \<Rightarrow> AccessDeniedError option \<Rightarrow> 'o
    log_action" where
  "AccessDeniedError_MarshalLogObject Z v =
     (case v of None \<Rightarrow> log_all []
      | Some v \<Rightarrow> log_all
          [add_string Z ''message'' (AccessDeniedError.Message v)])"

definition BadBinaryInfo_MarshalLogObject :: "('o, 'a) zap \<Rightarrow> BadBinaryInfo option \<Rightarrow> 'o log_action"
    where
  "BadBinaryInfo_MarshalLogObject Z v =
     (case v of None \<Rightarrow> log_all []
      | Some v \<Rightarrow> log_all
          [log_opt (\<lambda>x. add_string Z ''reason'' x) (BadBinaryInfo.Reason v),
           log_opt (\<lambda>x. add_string Z ''operator'' x) (BadBinaryInfo.Operator v),
           log_opt (\<lambda>x. add_i64 Z ''createdTimeNano'' x) (BadBinaryInfo.CreatedTimeNano v)])"

definition Map_String_BadBinaryInfo_Zapper :: "('o, 'a) zap \<Rightarrow> (string, BadBinaryInfo option) fmap \<Rightarrow>
    'o log_action" where
  "Map_String_BadBinaryInfo_Zapper Z m = log_all (List.map (\<lambda>(k, v). add_object Z k
      (BadBinaryInfo_MarshalLogObject Z v)) (log_items Z m))"

definition BadBinaries_MarshalLogObject :: "('o, 'a) zap \<Rightarrow> BadBinaries option \<Rightarrow> 'o log_action" where
  "BadBinaries_MarshalLogObject Z v =
     (case v of None \<Rightarrow> log_all []
      | Some v \<Rightarrow> log_all
          [log_opt (\<lambda>x. add_object Z ''binaries'' (Map_String_BadBinaryInfo_Zapper Z x))
              (BadBinaries.Binaries v)])"

definition BadRequestError_MarshalLogObject :: "('o, 'a) zap \<Rightarrow> BadRequestError option \<Rightarrow> 'o
    log_action" where
  "BadRequestError_MarshalLogObject Z v =
     (case v of None \<Rightarrow> log_all []
      | Some v \<Rightarrow> log_all
          [add_string Z ''message'' (BadRequestError.Message v)])"

definition CancellationAlreadyRequestedError_MarshalLogObject :: "('o, 'a) zap \<Rightarrow>
    CancellationAlreadyRequestedError option \<Rightarrow> 'o log_action" where
  "CancellationAlreadyRequestedError_MarshalLogObject Z v =
     (case v of None \<Rightarrow> log_all []
      | Some v \<Rightarrow> log_all
          [add_string Z ''message'' (CancellationAlreadyRequestedError.Message v)])"

definition ClientVersionNotSupportedError_MarshalLogObject :: "('o, 'a) zap \<Rightarrow>
    ClientVersionNotSupportedError option \<Rightarrow> 'o log_action" where
  "ClientVersionNotSupportedError_MarshalLogObject Z v =
     (case v of None \<Rightarrow> log_all []
      | Some v \<Rightarrow> log_all
          [add_string Z ''featureVersion'' (ClientVersionNotSupportedError.FeatureVersion v),
           add_string Z ''clientImpl'' (ClientVersionNotSupportedError.ClientImpl v),
           add_string Z ''supportedVersions'' (ClientVersionNotSupportedError.SupportedVersions
               v)])"

definition CloseShardRequest_MarshalLogObject :: "('o, 'a) zap \<Rightarrow> CloseShardRequest option \<Rightarrow> 'o
    log_action" where
  "CloseShardRequest_MarshalLogObject Z v =
     (case v of None \<Rightarrow> log_all []
      | Some v \<Rightarrow> log_all
          [log_opt (\<lambda>x. add_i32 Z ''shardID'' x) (CloseShardRequest.ShardID v)])"

definition ClusterReplicationConfiguration_MarshalLogObject :: "('o, 'a) zap \<Rightarrow>
    ClusterReplicationConfiguration option \<Rightarrow> 'o log_action" where
  "ClusterReplicationConfiguration_MarshalLogObject Z v =
     (case v of None \<Rightarrow> log_all []
      | Some v \<Rightarrow> log_all
          [log_opt (\<lambda>x. add_string Z ''clusterName'' x) (ClusterReplicationConfiguration.ClusterName
              v)])"

definition List_ClusterReplicationConfiguration_Zapper :: "('o, 'a) zap \<Rightarrow>
    ClusterReplicationConfiguration option list \<Rightarrow> 'a log_action" where
  "List_ClusterReplicationConfiguration_Zapper Z l = log_all (List.map (\<lambda>v. append_object Z
      (ClusterReplicationConfiguration_MarshalLogObject Z v)) l)"

definition CountWorkflowExecutionsRequest_MarshalLogObject :: "('o, 'a) zap \<Rightarrow>
    CountWorkflowExecutionsRequest option \<Rightarrow> 'o log_action" where
  "CountWorkflowExecutionsRequest_MarshalLogObject Z v =
     (case v of None \<Rightarrow> log_all []
      | Some v \<Rightarrow> log_all
          [log_opt (\<lambda>x. add_string Z ''domain'' x) (CountWorkflowExecutionsRequest.Domain v),
           log_opt (\<lambda>x. add_string Z ''query'' x) (CountWorkflowExecutionsRequest.Query v)])"

definition CountWorkflowExecutionsResponse_MarshalLogObject :: "('o, 'a) zap \<Rightarrow>
    CountWorkflowExecutionsResponse option \<Rightarrow> 'o log_action" where
  "CountWorkflowExecutionsResponse_MarshalLogObject Z v =
     (case v of None \<Rightarrow> log_all []
      | Some v \<Rightarrow> log_all
          [log_opt (\<lambda>x. add_i64 Z ''count'' x) (CountWorkflowExecutionsResponse.Count v)])"

definition DataBlob_MarshalLogObject :: "('o, 'a) zap \<Rightarrow> DataBlob option \<Rightarrow> 'o log_action" where
  "DataBlob_MarshalLogObject Z v =
     (case v of None \<Rightarrow> log_all []
      | Some v \<Rightarrow> log_all
          [log_opt (\<lambda>x. add_object Z ''EncodingType'' (EncodingType_MarshalLogObject Z x))
              (DataBlob.EncodingType v),
           log_opt (\<lambda>x. add_string Z ''Data'' (EncodeToString x)) (DataBlob.Data v)])"

definition DeprecateDomainRequest_MarshalLogObject :: "('o, 'a) zap \<Rightarrow> DeprecateDomainRequest option
    \<Rightarrow> 'o log_action" where
  "DeprecateDomainRequest_MarshalLogObject Z v =
     (case v of None \<Rightarrow> log_all []
      | Some v \<Rightarrow> log_all
          [log_opt (\<lambda>x. add_string Z ''name'' x) (DeprecateDomainRequest.Name v),
           log_opt (\<lambda>x. add_string Z ''securityToken'' x) (DeprecateDomainRequest.SecurityToken
               v)])"

definition DescribeDomainRequest_MarshalLogObject :: "('o, 'a) zap \<Rightarrow> DescribeDomainRequest option \<Rightarrow>
    'o log_action" where
  "DescribeDomainRequest_MarshalLogObject Z v =
     (case v of None \<Rightarrow> log_all []
      | Some v \<Rightarrow> log_all
          [log_opt (\<lambda>x. add_string Z ''name'' x) (DescribeDomainRequest.Name v),
           log_opt (\<lambda>x. add_string Z ''uuid'' x) (DescribeDomainRequest.UUID v)])"

definition DomainInfo_MarshalLogObject :: "('o, 'a) zap \<Rightarrow> DomainInfo option \<Rightarrow> 'o log_action" where
  "DomainInfo_MarshalLogObject Z v =
     (case v of None \<Rightarrow> log_all []
      | Some v \<Rightarrow> log_all
          [log_opt (\<lambda>x. add_string Z ''name'' x) (DomainInfo.Name v),
           log_opt (\<lambda>x. add_object Z ''status'' (DomainStatus_MarshalLogObject Z x))
               (DomainInfo.Status v),
           log_opt (\<lambda>x. add_string Z ''description'' x) (DomainInfo.Description v),
           log_opt (\<lambda>x. add_string Z ''ownerEmail'' x) (DomainInfo.OwnerEmail v),
           log_opt (\<lambda>x. add_object Z ''data'' (Map_String_String_Zapper Z x)) (DomainInfo.Data v),
           log_opt (\<lambda>x. add_string Z ''uuid'' x) (DomainInfo.UUID v)])"

definition DomainConfiguration_MarshalLogObject :: "('o, 'a) zap \<Rightarrow> DomainConfiguration option \<Rightarrow> 'o
    log_action" where
  "DomainConfiguration_MarshalLogObject Z v =
     (case v of None \<Rightarrow> log_all []
      | Some v \<Rightarrow> log_all
          [log_opt (\<lambda>x. add_i32 Z ''workflowExecutionRetentionPeriodInDays'' x)
              (DomainConfiguration.WorkflowExecutionRetentionPeriodInDays v),
           log_opt (\<lambda>x. add_bool Z ''emitMetric'' x) (DomainConfiguration.EmitMetric v),
           log_opt (\<lambda>x. add_object Z ''badBinaries'' (BadBinaries_MarshalLogObject Z (Some x)))
               (DomainConfiguration.BadBinaries v),
           log_opt (\<lambda>x. add_object Z ''historyArchivalStatus'' (ArchivalStatus_MarshalLogObject Z
               x)) (DomainConfiguration.HistoryArchivalStatus v),
           log_opt (\<lambda>x. add_string Z ''historyArchivalURI'' x)
               (DomainConfiguration.HistoryArchivalURI v),
           log_opt (\<lambda>x. add_object Z ''visibilityArchivalStatus'' (ArchivalStatus_MarshalLogObject Z
               x)) (DomainConfiguration.VisibilityArchivalStatus v),
           log_opt (\<lambda>x. add_string Z ''visibilityArchivalURI'' x)
               (DomainConfiguration.VisibilityArchivalURI v)])"

definition DomainReplicationConfiguration_MarshalLogObject :: "('o, 'a) zap \<Rightarrow>
    DomainReplicationConfiguration option \<Rightarrow> 'o log_action" where
  "DomainReplicationConfiguration_MarshalLogObject Z v =
     (case v of None \<Rightarrow> log_all []
      | Some v \<Rightarrow> log_all
          [log_opt (\<lambda>x. add_string Z ''activeClusterName'' x)
              (DomainReplicationConfiguration.ActiveClusterName v),
           log_opt (\<lambda>x. add_array Z ''clusters'' (List_ClusterReplicationConfiguration_Zapper Z x))
               (DomainReplicationConfiguration.Clusters v)])"

definition DescribeDomainResponse_MarshalLogObject :: "('o, 'a) zap \<Rightarrow> DescribeDomainResponse option
    \<Rightarrow> 'o log_action" where
  "DescribeDomainResponse_MarshalLogObject Z v =
     (case v of None \<Rightarrow> log_all []
      | Some v \<Rightarrow> log_all
          [log_opt (\<lambda>x. add_object Z ''domainInfo'' (DomainInfo_MarshalLogObject Z (Some x)))
              (DescribeDomainResponse.DomainInfo v),
           log_opt (\<lambda>x. add_object Z ''configuration'' (DomainConfiguration_MarshalLogObject Z (Some
               x))) (DescribeDomainResponse.Configuration v),
           log_opt (\<lambda>x. add_object Z ''replicationConfiguration''
               (DomainReplicationConfiguration_MarshalLogObject Z (Some x)))
               (DescribeDomainResponse.ReplicationConfiguration v),
           log_opt (\<lambda>x. add_i64 Z ''failoverVersion'' x) (DescribeDomainResponse.FailoverVersion v),
           log_opt (\<lambda>x. add_bool Z ''isGlobalDomain'' x) (DescribeDomainResponse.IsGlobalDomain
               v)])"

definition List_DescribeDomainResponse_Zapper :: "('o, 'a) zap \<Rightarrow> DescribeDomainResponse option list
    \<Rightarrow> 'a log_action" where
  "List_DescribeDomainResponse_Zapper Z l = log_all (List.map (\<lambda>v. append_object Z
      (DescribeDomainResponse_MarshalLogObject Z v)) l)"

definition DescribeHistoryHostRequest_MarshalLogObject :: "('o, 'a) zap \<Rightarrow> DescribeHistoryHostRequest
    option \<Rightarrow> 'o log_action" where
  "DescribeHistoryHostRequest_MarshalLogObject Z v =
     (case v of None \<Rightarrow> log_all []
      | Some v \<Rightarrow> log_all
          [log_opt (\<lambda>x. add_string Z ''hostAddress'' x) (DescribeHistoryHostRequest.HostAddress v),
           log_opt (\<lambda>x. add_i32 Z ''shardIdForHost'' x) (DescribeHistoryHostRequest.ShardIdForHost
               v),
           log_opt (\<lambda>x. add_object Z ''executionForHost'' (WorkflowExecution_MarshalLogObject Z
               (Some x))) (DescribeHistoryHostRequest.ExecutionForHost v)])"

definition DomainCacheInfo_MarshalLogObject :: "('o, 'a) zap \<Rightarrow> DomainCacheInfo option \<Rightarrow> 'o
    log_action" where
  "DomainCacheInfo_MarshalLogObject Z v =
     (case v of None \<Rightarrow> log_all []
      | Some v \<Rightarrow> log_all
          [log_opt (\<lambda>x. add_i64 Z ''numOfItemsInCacheByID'' x)
              (DomainCacheInfo.NumOfItemsInCacheByID v),
           log_opt (\<lambda>x. add_i64 Z ''numOfItemsInCacheByName'' x)
               (DomainCacheInfo.NumOfItemsInCacheByName v)])"

definition DescribeHistoryHostResponse_MarshalLogObject :: "('o, 'a) zap \<Rightarrow>
    DescribeHistoryHostResponse option \<Rightarrow> 'o log_action" where
  "DescribeHistoryHostResponse_MarshalLogObject Z v =
     (case v of None \<Rightarrow> log_all []
      | Some v \<Rightarrow> log_all
          [log_opt (\<lambda>x. add_i32 Z ''numberOfShards'' x) (DescribeHistoryHostResponse.NumberOfShards
              v),
           log_opt (\<lambda>x. add_array Z ''shardIDs'' (List_I32_Zapper Z x))
               (DescribeHistoryHostResponse.ShardIDs v),
           log_opt (\<lambda>x. add_object Z ''domainCache'' (DomainCacheInfo_MarshalLogObject Z (Some x)))
               (DescribeHistoryHostResponse.DomainCache v),
           log_opt (\<lambda>x. add_string Z ''shardControllerStatus'' x)
               (DescribeHistoryHostResponse.ShardControllerStatus v),
           log_opt (\<lambda>x. add_string Z ''address'' x) (DescribeHistoryHostResponse.Address v)])"

definition DescribeTaskListRequest_MarshalLogObject :: "('o, 'a) zap \<Rightarrow> DescribeTaskListRequest
    option \<Rightarrow> 'o log_action" where
  "DescribeTaskListRequest_MarshalLogObject Z v =
     (case v of None \<Rightarrow> log_all []
      | Some v \<Rightarrow> log_all
          [log_opt (\<lambda>x. add_string Z ''domain'' x) (DescribeTaskListRequest.Domain v),
           log_opt (\<lambda>x. add_object Z ''taskList'' (TaskList_MarshalLogObject Z (Some x)))
               (DescribeTaskListRequest.TaskList v),
           log_opt (\<lambda>x. add_object Z ''taskListType'' (TaskListType_MarshalLogObject Z x))
               (DescribeTaskListRequest.TaskListType v),
           log_opt (\<lambda>x. add_bool Z ''includeTaskListStatus'' x)
               (DescribeTaskListRequest.IncludeTaskListStatus v)])"

definition PollerInfo_MarshalLogObject :: "('o, 'a) zap \<Rightarrow> PollerInfo option \<Rightarrow> 'o log_action" where
  "PollerInfo_MarshalLogObject Z v =
     (case v of None \<Rightarrow> log_all []
      | Some v \<Rightarrow> log_all
          [log_opt (\<lambda>x. add_i64 Z ''lastAccessTime'' x) (PollerInfo.LastAccessTime v),
           log_opt (\<lambda>x. add_string Z ''identity'' x) (PollerInfo.Identity v),
           log_opt (\<lambda>x. add_double Z ''ratePerSecond'' x) (PollerInfo.RatePerSecond v)])"

definition List_PollerInfo_Zapper :: "('o, 'a) zap \<Rightarrow> PollerInfo option list \<Rightarrow> 'a log_action" where
  "List_PollerInfo_Zapper Z l = log_all (List.map (\<lambda>v. append_object Z (PollerInfo_MarshalLogObject
      Z v)) l)"

definition TaskIDBlock_MarshalLogObject :: "('o, 'a) zap \<Rightarrow> TaskIDBlock option \<Rightarrow> 'o log_action" where
  "TaskIDBlock_MarshalLogObject Z v =
     (case v of None \<Rightarrow> log_all []
      | Some v \<Rightarrow> log_all
          [log_opt (\<lambda>x. add_i64 Z ''startID'' x) (TaskIDBlock.StartID v),
           log_opt (\<lambda>x. add_i64 Z ''endID'' x) (TaskIDBlock.EndID v)])"

definition TaskListStatus_MarshalLogObject :: "('o, 'a) zap \<Rightarrow> TaskListStatus option \<Rightarrow> 'o log_action"
    where
  "TaskListStatus_MarshalLogObject Z v =
     (case v of None \<Rightarrow> log_all []
      | Some v \<Rightarrow> log_all
          [log_opt (\<lambda>x. add_i64 Z ''backlogCountHint'' x) (TaskListStatus.BacklogCountHint v),
           log_opt (\<lambda>x. add_i64 Z ''readLevel'' x) (TaskListStatus.ReadLevel v),
           log_opt (\<lambda>x. add_i64 Z ''ackLevel'' x) (TaskListStatus.AckLevel v),
           log_opt (\<lambda>x. add_double Z ''ratePerSecond'' x) (TaskListStatus.RatePerSecond v),
           log_opt (\<lambda>x. add_object Z ''taskIDBlock'' (TaskIDBlock_MarshalLogObject Z (Some x)))
               (TaskListStatus.TaskIDBlock v)])"

definition DescribeTaskListResponse_MarshalLogObject :: "('o, 'a) zap \<Rightarrow> DescribeTaskListResponse
    option \<Rightarrow> 'o log_action" where
  "DescribeTaskListResponse_MarshalLogObject Z v =
     (case v of None \<Rightarrow> log_all []
      | Some v \<Rightarrow> log_all
          [log_opt (\<lambda>x. add_array Z ''pollers'' (List_PollerInfo_Zapper Z x))
              (DescribeTaskListResponse.Pollers v),
           log_opt (\<lambda>x. add_object Z ''taskListStatus'' (TaskListStatus_MarshalLogObject Z (Some
               x))) (DescribeTaskListResponse.TaskListStatus v)])"

definition DescribeWorkflowExecutionRequest_MarshalLogObject :: "('o, 'a) zap \<Rightarrow>
    DescribeWorkflowExecutionRequest option \<Rightarrow> 'o log_action" where
  "DescribeWorkflowExecutionRequest_MarshalLogObject Z v =
     (case v of None \<Rightarrow> log_all []
      | Some v \<Rightarrow> log_all
          [log_opt (\<lambda>x. add_string Z ''domain'' x) (DescribeWorkflowExecutionRequest.Domain v),
           log_opt (\<lambda>x. add_object Z ''execution'' (WorkflowExecution_MarshalLogObject Z (Some x)))
               (DescribeWorkflowExecutionRequest.Execution v)])"

definition WorkflowExecutionConfiguration_MarshalLogObject :: "('o, 'a) zap \<Rightarrow>
    WorkflowExecutionConfiguration option \<Rightarrow> 'o log_action" where
  "WorkflowExecutionConfiguration_MarshalLogObject Z v =
     (case v of None \<Rightarrow> log_all []
      | Some v \<Rightarrow> log_all
          [log_opt (\<lambda>x. add_object Z ''taskList'' (TaskList_MarshalLogObject Z (Some x)))
              (WorkflowExecutionConfiguration.TaskList v),
           log_opt (\<lambda>x. add_i32 Z ''executionStartToCloseTimeoutSeconds'' x)
               (WorkflowExecutionConfiguration.ExecutionStartToCloseTimeoutSeconds v),
           log_opt (\<lambda>x. add_i32 Z ''taskStartToCloseTimeoutSeconds'' x)
               (WorkflowExecutionConfiguration.TaskStartToCloseTimeoutSeconds v)])"

definition WorkflowExecutionInfo_MarshalLogObject :: "('o, 'a) zap \<Rightarrow> WorkflowExecutionInfo option \<Rightarrow>
    'o log_action" where
  "WorkflowExecutionInfo_MarshalLogObject Z v =
     (case v of None \<Rightarrow> log_all []
      | Some v \<Rightarrow> log_all
          [log_opt (\<lambda>x. add_object Z ''execution'' (WorkflowExecution_MarshalLogObject Z (Some x)))
              (WorkflowExecutionInfo.Execution v),
           log_opt (\<lambda>x. add_object Z ''type'' (WorkflowType_MarshalLogObject Z (Some x)))
               (WorkflowExecutionInfo.Type v),
           log_opt (\<lambda>x. add_i64 Z ''startTime'' x) (WorkflowExecutionInfo.StartTime v),
           log_opt (\<lambda>x. add_i64 Z ''closeTime'' x) (WorkflowExecutionInfo.CloseTime v),
           log_opt (\<lambda>x. add_object Z ''closeStatus'' (WorkflowExecutionCloseStatus_MarshalLogObject
               Z x)) (WorkflowExecutionInfo.CloseStatus v),
           log_opt (\<lambda>x. add_i64 Z ''historyLength'' x) (WorkflowExecutionInfo.HistoryLength v),
           log_opt (\<lambda>x. add_string Z ''parentDomainId'' x) (WorkflowExecutionInfo.ParentDomainId v),
           log_opt (\<lambda>x. add_object Z ''parentExecution'' (WorkflowExecution_MarshalLogObject Z (Some
               x))) (WorkflowExecutionInfo.ParentExecution v),
           log_opt (\<lambda>x. add_i64 Z ''executionTime'' x) (WorkflowExecutionInfo.ExecutionTime v),
           log_opt (\<lambda>x. add_object Z ''memo'' (Memo_MarshalLogObject Z (Some x)))
               (WorkflowExecutionInfo.Memo v),
           log_opt (\<lambda>x. add_object Z ''searchAttributes'' (SearchAttributes_MarshalLogObject Z (Some
               x))) (WorkflowExecutionInfo.SearchAttributes v),
           log_opt (\<lambda>x. add_object Z ''autoResetPoints'' (ResetPoints_MarshalLogObject Z (Some x)))
               (WorkflowExecutionInfo.AutoResetPoints v)])"

definition List_WorkflowExecutionInfo_Zapper :: "('o, 'a) zap \<Rightarrow> WorkflowExecutionInfo option list \<Rightarrow>
    'a log_action" where
  "List_WorkflowExecutionInfo_Zapper Z l = log_all (List.map (\<lambda>v. append_object Z
      (WorkflowExecutionInfo_MarshalLogObject Z v)) l)"

definition PendingActivityInfo_MarshalLogObject :: "('o, 'a) zap \<Rightarrow> PendingActivityInfo option \<Rightarrow> 'o
    log_action" where
  "PendingActivityInfo_MarshalLogObject Z v =
     (case v of None \<Rightarrow> log_all []
      | Some v \<Rightarrow> log_all
          [log_opt (\<lambda>x. add_string Z ''activityID'' x) (PendingActivityInfo.ActivityID v),
           log_opt (\<lambda>x. add_object Z ''activityType'' (ActivityType_MarshalLogObject Z (Some x)))
               (PendingActivityInfo.ActivityType v),
           log_opt (\<lambda>x. add_object Z ''state'' (PendingActivityState_MarshalLogObject Z x))
               (PendingActivityInfo.State v),
           log_opt (\<lambda>x. add_string Z ''heartbeatDetails'' (EncodeToString x))
               (PendingActivityInfo.HeartbeatDetails v),
           log_opt (\<lambda>x. add_i64 Z ''lastHeartbeatTimestamp'' x)
               (PendingActivityInfo.LastHeartbeatTimestamp v),
           log_opt (\<lambda>x. add_i64 Z ''lastStartedTimestamp'' x)
               (PendingActivityInfo.LastStartedTimestamp v),
           log_opt (\<lambda>x. add_i32 Z ''attempt'' x) (PendingActivityInfo.Attempt v),
           log_opt (\<lambda>x. add_i32 Z ''maximumAttempts'' x) (PendingActivityInfo.MaximumAttempts v),
           log_opt (\<lambda>x. add_i64 Z ''scheduledTimestamp'' x) (PendingActivityInfo.ScheduledTimestamp
               v),
           log_opt (\<lambda>x. add_i64 Z ''expirationTimestamp'' x)
               (PendingActivityInfo.ExpirationTimestamp v),
           log_opt (\<lambda>x. add_string Z ''lastFailureReason'' x) (PendingActivityInfo.LastFailureReason
               v),
           log_opt (\<lambda>x. add_string Z ''lastWorkerIdentity'' x)
               (PendingActivityInfo.LastWorkerIdentity v),
           log_opt (\<lambda>x. add_string Z ''lastFailureDetails'' (EncodeToString x))
               (PendingActivityInfo.LastFailureDetails v)])"

definition List_PendingActivityInfo_Zapper :: "('o, 'a) zap \<Rightarrow> PendingActivityInfo option list \<Rightarrow> 'a
    log_action" where
  "List_PendingActivityInfo_Zapper Z l = log_all (List.map (\<lambda>v. append_object Z
      (PendingActivityInfo_MarshalLogObject Z v)) l)"

definition PendingChildExecutionInfo_MarshalLogObject :: "('o, 'a) zap \<Rightarrow> PendingChildExecutionInfo
    option \<Rightarrow> 'o log_action" where
  "PendingChildExecutionInfo_MarshalLogObject Z v =
     (case v of None \<Rightarrow> log_all []
      | Some v \<Rightarrow> log_all
          [log_opt (\<lambda>x. add_string Z ''workflowID'' x) (PendingChildExecutionInfo.WorkflowID v),
           log_opt (\<lambda>x. add_string Z ''runID'' x) (PendingChildExecutionInfo.RunID v),
           log_opt (\<lambda>x. add_string Z ''workflowTypName'' x)
               (PendingChildExecutionInfo.WorkflowTypName v),
           log_opt (\<lambda>x. add_i64 Z ''initiatedID'' x) (PendingChildExecutionInfo.InitiatedID v),
           log_opt (\<lambda>x. add_object Z ''parentClosePolicy'' (ParentClosePolicy_MarshalLogObject Z x))
               (PendingChildExecutionInfo.ParentClosePolicy v)])"

definition List_PendingChildExecutionInfo_Zapper :: "('o, 'a) zap \<Rightarrow> PendingChildExecutionInfo option
    list \<Rightarrow> 'a log_action" where
  "List_PendingChildExecutionInfo_Zapper Z l = log_all (List.map (\<lambda>v. append_object Z
      (PendingChildExecutionInfo_MarshalLogObject Z v)) l)"

definition DescribeWorkflowExecutionResponse_MarshalLogObject :: "('o, 'a) zap \<Rightarrow>
    DescribeWorkflowExecutionResponse option \<Rightarrow> 'o log_action" where
  "DescribeWorkflowExecutionResponse_MarshalLogObject Z v =
     (case v of None \<Rightarrow> log_all []
      | Some v \<Rightarrow> log_all
          [log_opt (\<lambda>x. add_object Z ''executionConfiguration''
              (WorkflowExecutionConfiguration_MarshalLogObject Z (Some x)))
              (DescribeWorkflowExecutionResponse.ExecutionConfiguration v),
           log_opt (\<lambda>x. add_object Z ''workflowExecutionInfo''
               (WorkflowExecutionInfo_MarshalLogObject Z (Some x)))
               (DescribeWorkflowExecutionResponse.WorkflowExecutionInfo v),
           log_opt (\<lambda>x. add_array Z ''pendingActivities'' (List_PendingActivityInfo_Zapper Z x))
               (DescribeWorkflowExecutionResponse.PendingActivities v),
           log_opt (\<lambda>x. add_array Z ''pendingChildren'' (List_PendingChildExecutionInfo_Zapper Z x))
               (DescribeWorkflowExecutionResponse.PendingChildren v)])"

definition DomainAlreadyExistsError_MarshalLogObject :: "('o, 'a) zap \<Rightarrow> DomainAlreadyExistsError
    option \<Rightarrow> 'o log_action" where
  "DomainAlreadyExistsError_MarshalLogObject Z v =
     (case v of None \<Rightarrow> log_all []
      | Some v \<Rightarrow> log_all
          [add_string Z ''message'' (DomainAlreadyExistsError.Message v)])"

definition DomainNotActiveError_MarshalLogObject :: "('o, 'a) zap \<Rightarrow> DomainNotActiveError option \<Rightarrow> 'o
    log_action" where
  "DomainNotActiveError_MarshalLogObject Z v =
     (case v of None \<Rightarrow> log_all []
      | Some v \<Rightarrow> log_all
          [add_string Z ''message'' (DomainNotActiveError.Message v),
           add_string Z ''domainName'' (DomainNotActiveError.DomainName v),
           add_string Z ''currentCluster'' (DomainNotActiveError.CurrentCluster v),
           add_string Z ''activeCluster'' (DomainNotActiveError.ActiveCluster v)])"

definition EntityNotExistsError_MarshalLogObject :: "('o, 'a) zap \<Rightarrow> EntityNotExistsError option \<Rightarrow> 'o
    log_action" where
  "EntityNotExistsError_MarshalLogObject Z v =
     (case v of None \<Rightarrow> log_all []
      | Some v \<Rightarrow> log_all
          [add_string Z ''message'' (EntityNotExistsError.Message v)])"

definition GetSearchAttributesResponse_MarshalLogObject :: "('o, 'a) zap \<Rightarrow>
    GetSearchAttributesResponse option \<Rightarrow> 'o log_action" where
  "GetSearchAttributesResponse_MarshalLogObject Z v =
     (case v of None \<Rightarrow> log_all []
      | Some v \<Rightarrow> log_all
          [log_opt (\<lambda>x. add_object Z ''keys'' (Map_String_IndexedValueType_Zapper Z x))
              (GetSearchAttributesResponse.Keys v)])"

definition GetWorkflowExecutionHistoryRequest_MarshalLogObject :: "('o, 'a) zap \<Rightarrow>
    GetWorkflowExecutionHistoryRequest option \<Rightarrow> 'o log_action" where
  "GetWorkflowExecutionHistoryRequest_MarshalLogObject Z v =
     (case v of None \<Rightarrow> log_all []
      | Some v \<Rightarrow> log_all
          [log_opt (\<lambda>x. add_string Z ''domain'' x) (GetWorkflowExecutionHistoryRequest.Domain v),
           log_opt (\<lambda>x. add_object Z ''execution'' (WorkflowExecution_MarshalLogObject Z (Some x)))
               (GetWorkflowExecutionHistoryRequest.Execution v),
           log_opt (\<lambda>x. add_i32 Z ''maximumPageSize'' x)
               (GetWorkflowExecutionHistoryRequest.MaximumPageSize v),
           log_opt (\<lambda>x. add_string Z ''nextPageToken'' (EncodeToString x))
               (GetWorkflowExecutionHistoryRequest.NextPageToken v),
           log_opt (\<lambda>x. add_bool Z ''waitForNewEvent'' x)
               (GetWorkflowExecutionHistoryRequest.WaitForNewEvent v),
           log_opt (\<lambda>x. add_object Z ''HistoryEventFilterType''
               (HistoryEventFilterType_MarshalLogObject Z x))
               (GetWorkflowExecutionHistoryRequest.HistoryEventFilterType v)])"

definition GetWorkflowExecutionHistoryResponse_MarshalLogObject :: "('o, 'a) zap \<Rightarrow>
    GetWorkflowExecutionHistoryResponse option \<Rightarrow> 'o log_action" where
  "GetWorkflowExecutionHistoryResponse_MarshalLogObject Z v =
     (case v of None \<Rightarrow> log_all []
      | Some v \<Rightarrow> log_all
          [log_opt (\<lambda>x. add_object Z ''history'' (History_MarshalLogObject Z (Some x)))
              (GetWorkflowExecutionHistoryResponse.History v),
           log_opt (\<lambda>x. add_string Z ''nextPageToken'' (EncodeToString x))
               (GetWorkflowExecutionHistoryResponse.NextPageToken v),
           log_opt (\<lambda>x. add_bool Z ''archived'' x) (GetWorkflowExecutionHistoryResponse.Archived
               v)])"

definition HistoryBranchRange_MarshalLogObject :: "('o, 'a) zap \<Rightarrow> HistoryBranchRange option \<Rightarrow> 'o
    log_action" where
  "HistoryBranchRange_MarshalLogObject Z v =
     (case v of None \<Rightarrow> log_all []
      | Some v \<Rightarrow> log_all
          [log_opt (\<lambda>x. add_string Z ''branchID'' x) (HistoryBranchRange.BranchID v),
           log_opt (\<lambda>x. add_i64 Z ''beginNodeID'' x) (HistoryBranchRange.BeginNodeID v),
           log_opt (\<lambda>x. add_i64 Z ''endNodeID'' x) (HistoryBranchRange.EndNodeID v)])"

definition List_HistoryBranchRange_Zapper :: "('o, 'a) zap \<Rightarrow> HistoryBranchRange option list \<Rightarrow> 'a
    log_action" where
  "List_HistoryBranchRange_Zapper Z l = log_all (List.map (\<lambda>v. append_object Z
      (HistoryBranchRange_MarshalLogObject Z v)) l)"

definition HistoryBranch_MarshalLogObject :: "('o, 'a) zap \<Rightarrow> HistoryBranch option \<Rightarrow> 'o log_action"
    where
  "HistoryBranch_MarshalLogObject Z v =
     (case v of None \<Rightarrow> log_all []
      | Some v \<Rightarrow> log_all
          [log_opt (\<lambda>x. add_string Z ''treeID'' x) (HistoryBranch.TreeID v),
           log_opt (\<lambda>x. add_string Z ''branchID'' x) (HistoryBranch.BranchID v),
           log_opt (\<lambda>x. add_array Z ''ancestors'' (List_HistoryBranchRange_Zapper Z x))
               (HistoryBranch.Ancestors v)])"

definition InternalServiceError_MarshalLogObject :: "('o, 'a) zap \<Rightarrow> InternalServiceError option \<Rightarrow> 'o
    log_action" where
  "InternalServiceError_MarshalLogObject Z v =
     (case v of None \<Rightarrow> log_all []
      | Some v \<Rightarrow> log_all
          [add_string Z ''message'' (InternalServiceError.Message v)])"

definition LimitExceededError_MarshalLogObject :: "('o, 'a) zap \<Rightarrow> LimitExceededError option \<Rightarrow> 'o
    log_action" where
  "LimitExceededError_MarshalLogObject Z v =
     (case v of None \<Rightarrow> log_all []
      | Some v \<Rightarrow> log_all
          [add_string Z ''message'' (LimitExceededError.Message v)])"

definition ListArchivedWorkflowExecutionsRequest_MarshalLogObject :: "('o, 'a) zap \<Rightarrow>
    ListArchivedWorkflowExecutionsRequest option \<Rightarrow> 'o log_action" where
  "ListArchivedWorkflowExecutionsRequest_MarshalLogObject Z v =
     (case v of None \<Rightarrow> log_all []
      | Some v \<Rightarrow> log_all
          [log_opt (\<lambda>x. add_string Z ''domain'' x) (ListArchivedWorkflowExecutionsRequest.Domain v),
           log_opt (\<lambda>x. add_i32 Z ''pageSize'' x) (ListArchivedWorkflowExecutionsRequest.PageSize
               v),
           log_opt (\<lambda>x. add_string Z ''nextPageToken'' (EncodeToString x))
               (ListArchivedWorkflowExecutionsRequest.NextPageToken v),
           log_opt (\<lambda>x. add_string Z ''query'' x) (ListArchivedWorkflowExecutionsRequest.Query v)])"

definition ListArchivedWorkflowExecutionsResponse_MarshalLogObject :: "('o, 'a) zap \<Rightarrow>
    ListArchivedWorkflowExecutionsResponse option \<Rightarrow> 'o log_action" where
  "ListArchivedWorkflowExecutionsResponse_MarshalLogObject Z v =
     (case v of None \<Rightarrow> log_all []
      | Some v \<Rightarrow> log_all
          [log_opt (\<lambda>x. add_array Z ''executions'' (List_WorkflowExecutionInfo_Zapper Z x))
              (ListArchivedWorkflowExecutionsResponse.Executions v),
           log_opt (\<lambda>x. add_string Z ''nextPageToken'' (EncodeToString x))
               (ListArchivedWorkflowExecutionsResponse.NextPageToken v)])"

definition StartTimeFilter_MarshalLogObject :: "('o, 'a) zap \<Rightarrow> StartTimeFilter option \<Rightarrow> 'o
    log_action" where
  "StartTimeFilter_MarshalLogObject Z v =
     (case v of None \<Rightarrow> log_all []
      | Some v \<Rightarrow> log_all
          [log_opt (\<lambda>x. add_i64 Z ''earliestTime'' x) (StartTimeFilter.EarliestTime v),
           log_opt (\<lambda>x. add_i64 Z ''latestTime'' x) (StartTimeFilter.LatestTime v)])"

definition WorkflowExecutionFilter_MarshalLogObject :: "('o, 'a) zap \<Rightarrow> WorkflowExecutionFilter
    option \<Rightarrow> 'o log_action" where
  "WorkflowExecutionFilter_MarshalLogObject Z v =
     (case v of None \<Rightarrow> log_all []
      | Some v \<Rightarrow> log_all
          [log_opt (\<lambda>x. add_string Z ''workflowId'' x) (WorkflowExecutionFilter.WorkflowId v),
           log_opt (\<lambda>x. add_string Z ''runId'' x) (WorkflowExecutionFilter.RunId v)])"

definition WorkflowTypeFilter_MarshalLogObject :: "('o, 'a) zap \<Rightarrow> WorkflowTypeFilter option \<Rightarrow> 'o
    log_action" where
  "WorkflowTypeFilter_MarshalLogObject Z v =
     (case v of None \<Rightarrow> log_all []
      | Some v \<Rightarrow> log_all
          [log_opt (\<lambda>x. add_string Z ''name'' x) (WorkflowTypeFilter.Name v)])"

definition ListClosedWorkflowExecutionsRequest_MarshalLogObject :: "('o, 'a) zap \<Rightarrow>
    ListClosedWorkflowExecutionsRequest option \<Rightarrow> 'o log_action" where
  "ListClosedWorkflowExecutionsRequest_MarshalLogObject Z v =
     (case v of None \<Rightarrow> log_all []
      | Some v \<Rightarrow> log_all
          [log_opt (\<lambda>x. add_string Z ''domain'' x) (ListClosedWorkflowExecutionsRequest.Domain v),
           log_opt (\<lambda>x. add_i32 Z ''maximumPageSize'' x)
               (ListClosedWorkflowExecutionsRequest.MaximumPageSize v),
           log_opt (\<lambda>x. add_string Z ''nextPageToken'' (EncodeToString x))
               (ListClosedWorkflowExecutionsRequest.NextPageToken v),
           log_opt (\<lambda>x. add_object Z ''StartTimeFilter'' (StartTimeFilter_MarshalLogObject Z (Some
               x))) (ListClosedWorkflowExecutionsRequest.StartTimeFilter v),
           log_opt (\<lambda>x. add_object Z ''executionFilter'' (WorkflowExecutionFilter_MarshalLogObject Z
               (Some x))) (ListClosedWorkflowExecutionsRequest.ExecutionFilter v),
           log_opt (\<lambda>x. add_object Z ''typeFilter'' (WorkflowTypeFilter_MarshalLogObject Z (Some
               x))) (ListClosedWorkflowExecutionsRequest.TypeFilter v),
           log_opt (\<lambda>x. add_object Z ''statusFilter'' (WorkflowExecutionCloseStatus_MarshalLogObject
               Z x)) (ListClosedWorkflowExecutionsRequest.StatusFilter v)])"

definition ListClosedWorkflowExecutionsResponse_MarshalLogObject :: "('o, 'a) zap \<Rightarrow>
    ListClosedWorkflowExecutionsResponse option \<Rightarrow> 'o log_action" where
  "ListClosedWorkflowExecutionsResponse_MarshalLogObject Z v =
     (case v of None \<Rightarrow> log_all []
      | Some v \<Rightarrow> log_all
          [log_opt (\<lambda>x. add_array Z ''executions'' (List_WorkflowExecutionInfo_Zapper Z x))
              (ListClosedWorkflowExecutionsResponse.Executions v),
           log_opt (\<lambda>x. add_string Z ''nextPageToken'' (EncodeToString x))
               (ListClosedWorkflowExecutionsResponse.NextPageToken v)])"

definition ListDomainsRequest_MarshalLogObject :: "('o, 'a) zap \<Rightarrow> ListDomainsRequest option \<Rightarrow> 'o
    log_action" where
  "ListDomainsRequest_MarshalLogObject Z v =
     (case v of None \<Rightarrow> log_all []
      | Some v \<Rightarrow> log_all
          [log_opt (\<lambda>x. add_i32 Z ''pageSize'' x) (ListDomainsRequest.PageSize v),
           log_opt (\<lambda>x. add_string Z ''nextPageToken'' (EncodeToString x))
               (ListDomainsRequest.NextPageToken v)])"

definition ListDomainsResponse_MarshalLogObject :: "('o, 'a) zap \<Rightarrow> ListDomainsResponse option \<Rightarrow> 'o
    log_action" where
  "ListDomainsResponse_MarshalLogObject Z v =
     (case v of None \<Rightarrow> log_all []
      | Some v \<Rightarrow> log_all
          [log_opt (\<lambda>x. add_array Z ''domains'' (List_DescribeDomainResponse_Zapper Z x))
              (ListDomainsResponse.Domains v),
           log_opt (\<lambda>x. add_string Z ''nextPageToken'' (EncodeToString x))
               (ListDomainsResponse.NextPageToken v)])"

definition ListOpenWorkflowExecutionsRequest_MarshalLogObject :: "('o, 'a) zap \<Rightarrow>
    ListOpenWorkflowExecutionsRequest option \<Rightarrow> 'o log_action" where
  "ListOpenWorkflowExecutionsRequest_MarshalLogObject Z v =
     (case v of None \<Rightarrow> log_all []
      | Some v \<Rightarrow> log_all
          [log_opt (\<lambda>x. add_string Z ''domain'' x) (ListOpenWorkflowExecutionsRequest.Domain v),
           log_opt (\<lambda>x. add_i32 Z ''maximumPageSize'' x)
               (ListOpenWorkflowExecutionsRequest.MaximumPageSize v),
           log_opt (\<lambda>x. add_string Z ''nextPageToken'' (EncodeToString x))
               (ListOpenWorkflowExecutionsRequest.NextPageToken v),
           log_opt (\<lambda>x. add_object Z ''StartTimeFilter'' (StartTimeFilter_MarshalLogObject Z (Some
               x))) (ListOpenWorkflowExecutionsRequest.StartTimeFilter v),
           log_opt (\<lambda>x. add_object Z ''executionFilter'' (WorkflowExecutionFilter_MarshalLogObject Z
               (Some x))) (ListOpenWorkflowExecutionsRequest.ExecutionFilter v),
           log_opt (\<lambda>x. add_object Z ''typeFilter'' (WorkflowTypeFilter_MarshalLogObject Z (Some
               x))) (ListOpenWorkflowExecutionsRequest.TypeFilter v)])"

definition ListOpenWorkflowExecutionsResponse_MarshalLogObject :: "('o, 'a) zap \<Rightarrow>
    ListOpenWorkflowExecutionsResponse option \<Rightarrow> 'o log_action" where
  "ListOpenWorkflowExecutionsResponse_MarshalLogObject Z v =
     (case v of None \<Rightarrow> log_all []
      | Some v \<Rightarrow> log_all
          [log_opt (\<lambda>x. add_array Z ''executions'' (List_WorkflowExecutionInfo_Zapper Z x))
              (ListOpenWorkflowExecutionsResponse.Executions v),
           log_opt (\<lambda>x. add_string Z ''nextPageToken'' (EncodeToString x))
               (ListOpenWorkflowExecutionsResponse.NextPageToken v)])"

definition ListWorkflowExecutionsRequest_MarshalLogObject :: "('o, 'a) zap \<Rightarrow>
    ListWorkflowExecutionsRequest option \<Rightarrow> 'o log_action" where
  "ListWorkflowExecutionsRequest_MarshalLogObject Z v =
     (case v of None \<Rightarrow> log_all []
      | Some v \<Rightarrow> log_all
          [log_opt (\<lambda>x. add_string Z ''domain'' x) (ListWorkflowExecutionsRequest.Domain v),
           log_opt (\<lambda>x. add_i32 Z ''pageSize'' x) (ListWorkflowExecutionsRequest.PageSize v),
           log_opt (\<lambda>x. add_string Z ''nextPageToken'' (EncodeToString x))
               (ListWorkflowExecutionsRequest.NextPageToken v),
           log_opt (\<lambda>x. add_string Z ''query'' x) (ListWorkflowExecutionsRequest.Query v)])"

definition ListWorkflowExecutionsResponse_MarshalLogObject :: "('o, 'a) zap \<Rightarrow>
    ListWorkflowExecutionsResponse option \<Rightarrow> 'o log_action" where
  "ListWorkflowExecutionsResponse_MarshalLogObject Z v =
     (case v of None \<Rightarrow> log_all []
      | Some v \<Rightarrow> log_all
          [log_opt (\<lambda>x. add_array Z ''executions'' (List_WorkflowExecutionInfo_Zapper Z x))
              (ListWorkflowExecutionsResponse.Executions v),
           log_opt (\<lambda>x. add_string Z ''nextPageToken'' (EncodeToString x))
               (ListWorkflowExecutionsResponse.NextPageToken v)])"

definition TaskListMetadata_MarshalLogObject :: "('o, 'a) zap \<Rightarrow> TaskListMetadata option \<Rightarrow> 'o
    log_action" where
  "TaskListMetadata_MarshalLogObject Z v =
     (case v of None \<Rightarrow> log_all []
      | Some v \<Rightarrow> log_all
          [log_opt (\<lambda>x. add_double Z ''maxTasksPerSecond'' x) (TaskListMetadata.MaxTasksPerSecond
              v)])"

definition PollForActivityTaskRequest_MarshalLogObject :: "('o, 'a) zap \<Rightarrow> PollForActivityTaskRequest
    option \<Rightarrow> 'o log_action" where
  "PollForActivityTaskRequest_MarshalLogObject Z v =
     (case v of None \<Rightarrow> log_all []
      | Some v \<Rightarrow> log_all
          [log_opt (\<lambda>x. add_string Z ''domain'' x) (PollForActivityTaskRequest.Domain v),
           log_opt (\<lambda>x. add_object Z ''taskList'' (TaskList_MarshalLogObject Z (Some x)))
               (PollForActivityTaskRequest.TaskList v),
           log_opt (\<lambda>x. add_string Z ''identity'' x) (PollForActivityTaskRequest.Identity v),
           log_opt (\<lambda>x. add_object Z ''taskListMetadata'' (TaskListMetadata_MarshalLogObject Z (Some
               x))) (PollForActivityTaskRequest.TaskListMetadata v)])"

definition PollForActivityTaskResponse_MarshalLogObject :: "('o, 'a) zap \<Rightarrow>
    PollForActivityTaskResponse option \<Rightarrow> 'o log_action" where
  "PollForActivityTaskResponse_MarshalLogObject Z v =
     (case v of None \<Rightarrow> log_all []
      | Some v \<Rightarrow> log_all
          [log_opt (\<lambda>x. add_string Z ''taskToken'' (EncodeToString x))
              (PollForActivityTaskResponse.TaskToken v),
           log_opt (\<lambda>x. add_object Z ''workflowExecution'' (WorkflowExecution_MarshalLogObject Z
               (Some x))) (PollForActivityTaskResponse.WorkflowExecution v),
           log_opt (\<lambda>x. add_string Z ''activityId'' x) (PollForActivityTaskResponse.ActivityId v),
           log_opt (\<lambda>x. add_object Z ''activityType'' (ActivityType_MarshalLogObject Z (Some x)))
               (PollForActivityTaskResponse.ActivityType v),
           log_opt (\<lambda>x. add_string Z ''input'' (EncodeToString x))
               (PollForActivityTaskResponse.Input v),
           log_opt (\<lambda>x. add_i64 Z ''scheduledTimestamp'' x)
               (PollForActivityTaskResponse.ScheduledTimestamp v),
           log_opt (\<lambda>x. add_i32 Z ''scheduleToCloseTimeoutSeconds'' x)
               (PollForActivityTaskResponse.ScheduleToCloseTimeoutSeconds v),
           log_opt (\<lambda>x. add_i64 Z ''startedTimestamp'' x)
               (PollForActivityTaskResponse.StartedTimestamp v),
           log_opt (\<lambda>x. add_i32 Z ''startToCloseTimeoutSeconds'' x)
               (PollForActivityTaskResponse.StartToCloseTimeoutSeconds v),
           log_opt (\<lambda>x. add_i32 Z ''heartbeatTimeoutSeconds'' x)
               (PollForActivityTaskResponse.HeartbeatTimeoutSeconds v),
           log_opt (\<lambda>x. add_i32 Z ''attempt'' x) (PollForActivityTaskResponse.Attempt v),
           log_opt (\<lambda>x. add_i64 Z ''scheduledTimestampOfThisAttempt'' x)
               (PollForActivityTaskResponse.ScheduledTimestampOfThisAttempt v),
           log_opt (\<lambda>x. add_string Z ''heartbeatDetails'' (EncodeToString x))
               (PollForActivityTaskResponse.HeartbeatDetails v),
           log_opt (\<lambda>x. add_object Z ''workflowType'' (WorkflowType_MarshalLogObject Z (Some x)))
               (PollForActivityTaskResponse.WorkflowType v),
           log_opt (\<lambda>x. add_string Z ''workflowDomain'' x)
               (PollForActivityTaskResponse.WorkflowDomain v),
           log_opt (\<lambda>x. add_object Z ''header'' (Header_MarshalLogObject Z (Some x)))
               (PollForActivityTaskResponse.Header v)])"

definition PollForDecisionTaskRequest_MarshalLogObject :: "('o, 'a) zap \<Rightarrow> PollForDecisionTaskRequest
    option \<Rightarrow> 'o log_action" where
  "PollForDecisionTaskRequest_MarshalLogObject Z v =
     (case v of None \<Rightarrow> log_all []
      | Some v \<Rightarrow> log_all
          [log_opt (\<lambda>x. add_string Z ''domain'' x) (PollForDecisionTaskRequest.Domain v),
           log_opt (\<lambda>x. add_object Z ''taskList'' (TaskList_MarshalLogObject Z (Some x)))
               (PollForDecisionTaskRequest.TaskList v),
           log_opt (\<lambda>x. add_string Z ''identity'' x) (PollForDecisionTaskRequest.Identity v),
           log_opt (\<lambda>x. add_string Z ''binaryChecksum'' x)
               (PollForDecisionTaskRequest.BinaryChecksum v)])"

definition WorkflowQuery_MarshalLogObject :: "('o, 'a) zap \<Rightarrow> WorkflowQuery option \<Rightarrow> 'o log_action"
    where
  "WorkflowQuery_MarshalLogObject Z v =
     (case v of None \<Rightarrow> log_all []
      | Some v \<Rightarrow> log_all
          [log_opt (\<lambda>x. add_string Z ''queryType'' x) (WorkflowQuery.QueryType v),
           log_opt (\<lambda>x. add_string Z ''queryArgs'' (EncodeToString x)) (WorkflowQuery.QueryArgs
               v)])"

definition List_WorkflowQuery_Zapper :: "('o, 'a) zap \<Rightarrow> WorkflowQuery option list \<Rightarrow> 'a log_action"
    where
  "List_WorkflowQuery_Zapper Z l = log_all (List.map (\<lambda>v. append_object Z
      (WorkflowQuery_MarshalLogObject Z v)) l)"

definition PollForDecisionTaskResponse_MarshalLogObject :: "('o, 'a) zap \<Rightarrow>
    PollForDecisionTaskResponse option \<Rightarrow> 'o log_action" where
  "PollForDecisionTaskResponse_MarshalLogObject Z v =
     (case v of None \<Rightarrow> log_all []
      | Some v \<Rightarrow> log_all
          [log_opt (\<lambda>x. add_string Z ''taskToken'' (EncodeToString x))
              (PollForDecisionTaskResponse.TaskToken v),
           log_opt (\<lambda>x. add_object Z ''workflowExecution'' (WorkflowExecution_MarshalLogObject Z
               (Some x))) (PollForDecisionTaskResponse.WorkflowExecution v),
           log_opt (\<lambda>x. add_object Z ''workflowType'' (WorkflowType_MarshalLogObject Z (Some x)))
               (PollForDecisionTaskResponse.WorkflowType v),
           log_opt (\<lambda>x. add_i64 Z ''previousStartedEventId'' x)
               (PollForDecisionTaskResponse.PreviousStartedEventId v),
           log_opt (\<lambda>x. add_i64 Z ''startedEventId'' x) (PollForDecisionTaskResponse.StartedEventId
               v),
           log_opt (\<lambda>x. add_i64 Z ''attempt'' x) (PollForDecisionTaskResponse.Attempt v),
           log_opt (\<lambda>x. add_i64 Z ''backlogCountHint'' x)
               (PollForDecisionTaskResponse.BacklogCountHint v),
           log_opt (\<lambda>x. add_object Z ''history'' (History_MarshalLogObject Z (Some x)))
               (PollForDecisionTaskResponse.History v),
           log_opt (\<lambda>x. add_string Z ''nextPageToken'' (EncodeToString x))
               (PollForDecisionTaskResponse.NextPageToken v),
           log_opt (\<lambda>x. add_object Z ''query'' (WorkflowQuery_MarshalLogObject Z (Some x)))
               (PollForDecisionTaskResponse.Query v),
           log_opt (\<lambda>x. add_object Z ''WorkflowExecutionTaskList'' (TaskList_MarshalLogObject Z
               (Some x))) (PollForDecisionTaskResponse.WorkflowExecutionTaskList v),
           log_opt (\<lambda>x. add_i64 Z ''scheduledTimestamp'' x)
               (PollForDecisionTaskResponse.ScheduledTimestamp v),
           log_opt (\<lambda>x. add_i64 Z ''startedTimestamp'' x)
               (PollForDecisionTaskResponse.StartedTimestamp v),
           log_opt (\<lambda>x. add_array Z ''queries'' (List_WorkflowQuery_Zapper Z x))
               (PollForDecisionTaskResponse.Queries v)])"

definition QueryFailedError_MarshalLogObject :: "('o, 'a) zap \<Rightarrow> QueryFailedError option \<Rightarrow> 'o
    log_action" where
  "QueryFailedError_MarshalLogObject Z v =
     (case v of None \<Rightarrow> log_all []
      | Some v \<Rightarrow> log_all
          [add_string Z ''message'' (QueryFailedError.Message v)])"

definition QueryRejected_MarshalLogObject :: "('o, 'a) zap \<Rightarrow> QueryRejected option \<Rightarrow> 'o log_action"
    where
  "QueryRejected_MarshalLogObject Z v =
     (case v of None \<Rightarrow> log_all []
      | Some v \<Rightarrow> log_all
          [log_opt (\<lambda>x. add_object Z ''closeStatus'' (WorkflowExecutionCloseStatus_MarshalLogObject
              Z x)) (QueryRejected.CloseStatus v)])"

definition QueryWorkflowRequest_MarshalLogObject :: "('o, 'a) zap \<Rightarrow> QueryWorkflowRequest option \<Rightarrow> 'o
    log_action" where
  "QueryWorkflowRequest_MarshalLogObject Z v =
     (case v of None \<Rightarrow> log_all []
      | Some v \<Rightarrow> log_all
          [log_opt (\<lambda>x. add_string Z ''domain'' x) (QueryWorkflowRequest.Domain v),
           log_opt (\<lambda>x. add_object Z ''execution'' (WorkflowExecution_MarshalLogObject Z (Some x)))
               (QueryWorkflowRequest.Execution v),
           log_opt (\<lambda>x. add_object Z ''query'' (WorkflowQuery_MarshalLogObject Z (Some x)))
               (QueryWorkflowRequest.Query v),
           log_opt (\<lambda>x. add_object Z ''queryRejectCondition'' (QueryRejectCondition_MarshalLogObject
               Z x)) (QueryWorkflowRequest.QueryRejectCondition v)])"

definition QueryWorkflowResponse_MarshalLogObject :: "('o, 'a) zap \<Rightarrow> QueryWorkflowResponse option \<Rightarrow>
    'o log_action" where
  "QueryWorkflowResponse_MarshalLogObject Z v =
     (case v of None \<Rightarrow> log_all []
      | Some v \<Rightarrow> log_all
          [log_opt (\<lambda>x. add_string Z ''queryResult'' (EncodeToString x))
              (QueryWorkflowResponse.QueryResult v),
           log_opt (\<lambda>x. add_object Z ''queryRejected'' (QueryRejected_MarshalLogObject Z (Some x)))
               (QueryWorkflowResponse.QueryRejected v)])"

definition RecordActivityTaskHeartbeatByIDRequest_MarshalLogObject :: "('o, 'a) zap \<Rightarrow>
    RecordActivityTaskHeartbeatByIDRequest option \<Rightarrow> 'o log_action" where
  "RecordActivityTaskHeartbeatByIDRequest_MarshalLogObject Z v =
     (case v of None \<Rightarrow> log_all []
      | Some v \<Rightarrow> log_all
          [log_opt (\<lambda>x. add_string Z ''domain'' x) (RecordActivityTaskHeartbeatByIDRequest.Domain
              v),
           log_opt (\<lambda>x. add_string Z ''workflowID'' x)
               (RecordActivityTaskHeartbeatByIDRequest.WorkflowID v),
           log_opt (\<lambda>x. add_string Z ''runID'' x) (RecordActivityTaskHeartbeatByIDRequest.RunID v),
           log_opt (\<lambda>x. add_string Z ''activityID'' x)
               (RecordActivityTaskHeartbeatByIDRequest.ActivityID v),
           log_opt (\<lambda>x. add_string Z ''details'' (EncodeToString x))
               (RecordActivityTaskHeartbeatByIDRequest.Details v),
           log_opt (\<lambda>x. add_string Z ''identity'' x)
               (RecordActivityTaskHeartbeatByIDRequest.Identity v)])"

definition RecordActivityTaskHeartbeatRequest_MarshalLogObject :: "('o, 'a) zap \<Rightarrow>
    RecordActivityTaskHeartbeatRequest option \<Rightarrow> 'o log_action" where
  "RecordActivityTaskHeartbeatRequest_MarshalLogObject Z v =
     (case v of None \<Rightarrow> log_all []
      | Some v \<Rightarrow> log_all
          [log_opt (\<lambda>x. add_string Z ''taskToken'' (EncodeToString x))
              (RecordActivityTaskHeartbeatRequest.TaskToken v),
           log_opt (\<lambda>x. add_string Z ''details'' (EncodeToString x))
               (RecordActivityTaskHeartbeatRequest.Details v),
           log_opt (\<lambda>x. add_string Z ''identity'' x) (RecordActivityTaskHeartbeatRequest.Identity
               v)])"

definition RecordActivityTaskHeartbeatResponse_MarshalLogObject :: "('o, 'a) zap \<Rightarrow>
    RecordActivityTaskHeartbeatResponse option \<Rightarrow> 'o log_action" where
  "RecordActivityTaskHeartbeatResponse_MarshalLogObject Z v =
     (case v of None \<Rightarrow> log_all []
      | Some v \<Rightarrow> log_all
          [log_opt (\<lambda>x. add_bool Z ''cancelRequested'' x)
              (RecordActivityTaskHeartbeatResponse.CancelRequested v)])"

definition RegisterDomainRequest_MarshalLogObject :: "('o, 'a) zap \<Rightarrow> RegisterDomainRequest option \<Rightarrow>
    'o log_action" where
  "RegisterDomainRequest_MarshalLogObject Z v =
     (case v of None \<Rightarrow> log_all []
      | Some v \<Rightarrow> log_all
          [log_opt (\<lambda>x. add_string Z ''name'' x) (RegisterDomainRequest.Name v),
           log_opt (\<lambda>x. add_string Z ''description'' x) (RegisterDomainRequest.Description v),
           log_opt (\<lambda>x. add_string Z ''ownerEmail'' x) (RegisterDomainRequest.OwnerEmail v),
           log_opt (\<lambda>x. add_i32 Z ''workflowExecutionRetentionPeriodInDays'' x)
               (RegisterDomainRequest.WorkflowExecutionRetentionPeriodInDays v),
           log_opt (\<lambda>x. add_bool Z ''emitMetric'' x) (RegisterDomainRequest.EmitMetric v),
           log_opt (\<lambda>x. add_array Z ''clusters'' (List_ClusterReplicationConfiguration_Zapper Z x))
               (RegisterDomainRequest.Clusters v),
           log_opt (\<lambda>x. add_string Z ''activeClusterName'' x)
               (RegisterDomainRequest.ActiveClusterName v),
           log_opt (\<lambda>x. add_object Z ''data'' (Map_String_String_Zapper Z x))
               (RegisterDomainRequest.Data v),
           log_opt (\<lambda>x. add_string Z ''securityToken'' x) (RegisterDomainRequest.SecurityToken v),
           log_opt (\<lambda>x. add_bool Z ''isGlobalDomain'' x) (RegisterDomainRequest.IsGlobalDomain v),
           log_opt (\<lambda>x. add_object Z ''historyArchivalStatus'' (ArchivalStatus_MarshalLogObject Z
               x)) (RegisterDomainRequest.HistoryArchivalStatus v),
           log_opt (\<lambda>x. add_string Z ''historyArchivalURI'' x)
               (RegisterDomainRequest.HistoryArchivalURI v),
           log_opt (\<lambda>x. add_object Z ''visibilityArchivalStatus'' (ArchivalStatus_MarshalLogObject Z
               x)) (RegisterDomainRequest.VisibilityArchivalStatus v),
           log_opt (\<lambda>x. add_string Z ''visibilityArchivalURI'' x)
               (RegisterDomainRequest.VisibilityArchivalURI v)])"

definition RemoveTaskRequest_MarshalLogObject :: "('o, 'a) zap \<Rightarrow> RemoveTaskRequest option \<Rightarrow> 'o
    log_action" where
  "RemoveTaskRequest_MarshalLogObject Z v =
     (case v of None \<Rightarrow> log_all []
      | Some v \<Rightarrow> log_all
          [log_opt (\<lambda>x. add_i32 Z ''shardID'' x) (RemoveTaskRequest.ShardID v),
           log_opt (\<lambda>x. add_i32 Z ''type'' x) (RemoveTaskRequest.Type v),
           log_opt (\<lambda>x. add_i64 Z ''taskID'' x) (RemoveTaskRequest.TaskID v)])"

definition ReplicationInfo_MarshalLogObject :: "('o, 'a) zap \<Rightarrow> ReplicationInfo option \<Rightarrow> 'o
    log_action" where
  "ReplicationInfo_MarshalLogObject Z v =
     (case v of None \<Rightarrow> log_all []
      | Some v \<Rightarrow> log_all
          [log_opt (\<lambda>x. add_i64 Z ''version'' x) (ReplicationInfo.Version v),
           log_opt (\<lambda>x. add_i64 Z ''lastEventId'' x) (ReplicationInfo.LastEventId v)])"

definition RequestCancelWorkflowExecutionRequest_MarshalLogObject :: "('o, 'a) zap \<Rightarrow>
    RequestCancelWorkflowExecutionRequest option \<Rightarrow> 'o log_action" where
  "RequestCancelWorkflowExecutionRequest_MarshalLogObject Z v =
     (case v of None \<Rightarrow> log_all []
      | Some v \<Rightarrow> log_all
          [log_opt (\<lambda>x. add_string Z ''domain'' x) (RequestCancelWorkflowExecutionRequest.Domain v),
           log_opt (\<lambda>x. add_object Z ''workflowExecution'' (WorkflowExecution_MarshalLogObject Z
               (Some x))) (RequestCancelWorkflowExecutionRequest.WorkflowExecution v),
           log_opt (\<lambda>x. add_string Z ''identity'' x) (RequestCancelWorkflowExecutionRequest.Identity
               v),
           log_opt (\<lambda>x. add_string Z ''requestId'' x)
               (RequestCancelWorkflowExecutionRequest.RequestId v)])"

definition ResetStickyTaskListRequest_MarshalLogObject :: "('o, 'a) zap \<Rightarrow> ResetStickyTaskListRequest
    option \<Rightarrow> 'o log_action" where
  "ResetStickyTaskListRequest_MarshalLogObject Z v =
     (case v of None \<Rightarrow> log_all []
      | Some v \<Rightarrow> log_all
          [log_opt (\<lambda>x. add_string Z ''domain'' x) (ResetStickyTaskListRequest.Domain v),
           log_opt (\<lambda>x. add_object Z ''execution'' (WorkflowExecution_MarshalLogObject Z (Some x)))
               (ResetStickyTaskListRequest.Execution v)])"

definition ResetStickyTaskListResponse_MarshalLogObject :: "('o, 'a) zap \<Rightarrow>
    ResetStickyTaskListResponse option \<Rightarrow> 'o log_action" where
  "ResetStickyTaskListResponse_MarshalLogObject Z v =
     (case v of None \<Rightarrow> log_all []
      | Some v \<Rightarrow> log_all
          [])"

definition ResetWorkflowExecutionRequest_MarshalLogObject :: "('o, 'a) zap \<Rightarrow>
    ResetWorkflowExecutionRequest option \<Rightarrow> 'o log_action" where
  "ResetWorkflowExecutionRequest_MarshalLogObject Z v =
     (case v of None \<Rightarrow> log_all []
      | Some v \<Rightarrow> log_all
          [log_opt (\<lambda>x. add_string Z ''domain'' x) (ResetWorkflowExecutionRequest.Domain v),
           log_opt (\<lambda>x. add_object Z ''workflowExecution'' (WorkflowExecution_MarshalLogObject Z
               (Some x))) (ResetWorkflowExecutionRequest.WorkflowExecution v),
           log_opt (\<lambda>x. add_string Z ''reason'' x) (ResetWorkflowExecutionRequest.Reason v),
           log_opt (\<lambda>x. add_i64 Z ''decisionFinishEventId'' x)
               (ResetWorkflowExecutionRequest.DecisionFinishEventId v),
           log_opt (\<lambda>x. add_string Z ''requestId'' x) (ResetWorkflowExecutionRequest.RequestId v)])"

definition ResetWorkflowExecutionResponse_MarshalLogObject :: "('o, 'a) zap \<Rightarrow>
    ResetWorkflowExecutionResponse option \<Rightarrow> 'o log_action" where
  "ResetWorkflowExecutionResponse_MarshalLogObject Z v =
     (case v of None \<Rightarrow> log_all []
      | Some v \<Rightarrow> log_all
          [log_opt (\<lambda>x. add_string Z ''runId'' x) (ResetWorkflowExecutionResponse.RunId v)])"

definition RespondActivityTaskCanceledByIDRequest_MarshalLogObject :: "('o, 'a) zap \<Rightarrow>
    RespondActivityTaskCanceledByIDRequest option \<Rightarrow> 'o log_action" where
  "RespondActivityTaskCanceledByIDRequest_MarshalLogObject Z v =
     (case v of None \<Rightarrow> log_all []
      | Some v \<Rightarrow> log_all
          [log_opt (\<lambda>x. add_string Z ''domain'' x) (RespondActivityTaskCanceledByIDRequest.Domain
              v),
           log_opt (\<lambda>x. add_string Z ''workflowID'' x)
               (RespondActivityTaskCanceledByIDRequest.WorkflowID v),
           log_opt (\<lambda>x. add_string Z ''runID'' x) (RespondActivityTaskCanceledByIDRequest.RunID v),
           log_opt (\<lambda>x. add_string Z ''activityID'' x)
               (RespondActivityTaskCanceledByIDRequest.ActivityID v),
           log_opt (\<lambda>x. add_string Z ''details'' (EncodeToString x))
               (RespondActivityTaskCanceledByIDRequest.Details v),
           log_opt (\<lambda>x. add_string Z ''identity'' x)
               (RespondActivityTaskCanceledByIDRequest.Identity v)])"

definition RespondActivityTaskCanceledRequest_MarshalLogObject :: "('o, 'a) zap \<Rightarrow>
    RespondActivityTaskCanceledRequest option \<Rightarrow> 'o log_action" where
  "RespondActivityTaskCanceledRequest_MarshalLogObject Z v =
     (case v of None \<Rightarrow> log_all []
      | Some v \<Rightarrow> log_all
          [log_opt (\<lambda>x. add_string Z ''taskToken'' (EncodeToString x))
              (RespondActivityTaskCanceledRequest.TaskToken v),
           log_opt (\<lambda>x. add_string Z ''details'' (EncodeToString x))
               (RespondActivityTaskCanceledRequest.Details v),
           log_opt (\<lambda>x. add_string Z ''identity'' x) (RespondActivityTaskCanceledRequest.Identity
               v)])"

definition RespondActivityTaskCompletedByIDRequest_MarshalLogObject :: "('o, 'a) zap \<Rightarrow>
    RespondActivityTaskCompletedByIDRequest option \<Rightarrow> 'o log_action" where
  "RespondActivityTaskCompletedByIDRequest_MarshalLogObject Z v =
     (case v of None \<Rightarrow> log_all []
      | Some v \<Rightarrow> log_all
          [log_opt (\<lambda>x. add_string Z ''domain'' x) (RespondActivityTaskCompletedByIDRequest.Domain
              v),
           log_opt (\<lambda>x. add_string Z ''workflowID'' x)
               (RespondActivityTaskCompletedByIDRequest.WorkflowID v),
           log_opt (\<lambda>x. add_string Z ''runID'' x) (RespondActivityTaskCompletedByIDRequest.RunID v),
           log_opt (\<lambda>x. add_string Z ''activityID'' x)
               (RespondActivityTaskCompletedByIDRequest.ActivityID v),
           log_opt (\<lambda>x. add_string Z ''result'' (EncodeToString x))
               (RespondActivityTaskCompletedByIDRequest.Result v),
           log_opt (\<lambda>x. add_string Z ''identity'' x)
               (RespondActivityTaskCompletedByIDRequest.Identity v)])"

definition RespondActivityTaskCompletedRequest_MarshalLogObject :: "('o, 'a) zap \<Rightarrow>
    RespondActivityTaskCompletedRequest option \<Rightarrow> 'o log_action" where
  "RespondActivityTaskCompletedRequest_MarshalLogObject Z v =
     (case v of None \<Rightarrow> log_all []
      | Some v \<Rightarrow> log_all
          [log_opt (\<lambda>x. add_string Z ''taskToken'' (EncodeToString x))
              (RespondActivityTaskCompletedRequest.TaskToken v),
           log_opt (\<lambda>x. add_string Z ''result'' (EncodeToString x))
               (RespondActivityTaskCompletedRequest.Result v),
           log_opt (\<lambda>x. add_string Z ''identity'' x) (RespondActivityTaskCompletedRequest.Identity
               v)])"

definition RespondActivityTaskFailedByIDRequest_MarshalLogObject :: "('o, 'a) zap \<Rightarrow>
    RespondActivityTaskFailedByIDRequest option \<Rightarrow> 'o log_action" where
  "RespondActivityTaskFailedByIDRequest_MarshalLogObject Z v =
     (case v of None \<Rightarrow> log_all []
      | Some v \<Rightarrow> log_all
          [log_opt (\<lambda>x. add_string Z ''domain'' x) (RespondActivityTaskFailedByIDRequest.Domain v),
           log_opt (\<lambda>x. add_string Z ''workflowID'' x)
               (RespondActivityTaskFailedByIDRequest.WorkflowID v),
           log_opt (\<lambda>x. add_string Z ''runID'' x) (RespondActivityTaskFailedByIDRequest.RunID v),
           log_opt (\<lambda>x. add_string Z ''activityID'' x)
               (RespondActivityTaskFailedByIDRequest.ActivityID v),
           log_opt (\<lambda>x. add_string Z ''reason'' x) (RespondActivityTaskFailedByIDRequest.Reason v),
           log_opt (\<lambda>x. add_string Z ''details'' (EncodeToString x))
               (RespondActivityTaskFailedByIDRequest.Details v),
           log_opt (\<lambda>x. add_string Z ''identity'' x) (RespondActivityTaskFailedByIDRequest.Identity
               v)])"

definition RespondActivityTaskFailedRequest_MarshalLogObject :: "('o, 'a) zap \<Rightarrow>
    RespondActivityTaskFailedRequest option \<Rightarrow> 'o log_action" where
  "RespondActivityTaskFailedRequest_MarshalLogObject Z v =
     (case v of None \<Rightarrow> log_all []
      | Some v \<Rightarrow> log_all
          [log_opt (\<lambda>x. add_string Z ''taskToken'' (EncodeToString x))
              (RespondActivityTaskFailedRequest.TaskToken v),
           log_opt (\<lambda>x. add_string Z ''reason'' x) (RespondActivityTaskFailedRequest.Reason v),
           log_opt (\<lambda>x. add_string Z ''details'' (EncodeToString x))
               (RespondActivityTaskFailedRequest.Details v),
           log_opt (\<lambda>x. add_string Z ''identity'' x) (RespondActivityTaskFailedRequest.Identity
               v)])"

definition StickyExecutionAttributes_MarshalLogObject :: "('o, 'a) zap \<Rightarrow> StickyExecutionAttributes
    option \<Rightarrow> 'o log_action" where
  "StickyExecutionAttributes_MarshalLogObject Z v =
     (case v of None \<Rightarrow> log_all []
      | Some v \<Rightarrow> log_all
          [log_opt (\<lambda>x. add_object Z ''workerTaskList'' (TaskList_MarshalLogObject Z (Some x)))
              (StickyExecutionAttributes.WorkerTaskList v),
           log_opt (\<lambda>x. add_i32 Z ''scheduleToStartTimeoutSeconds'' x)
               (StickyExecutionAttributes.ScheduleToStartTimeoutSeconds v)])"

definition WorkflowQueryResult_MarshalLogObject :: "('o, 'a) zap \<Rightarrow> WorkflowQueryResult option \<Rightarrow> 'o
    log_action" where
  "WorkflowQueryResult_MarshalLogObject Z v =
     (case v of None \<Rightarrow> log_all []
      | Some v \<Rightarrow> log_all
          [log_opt (\<lambda>x. add_object Z ''resultType'' (QueryResultType_MarshalLogObject Z x))
              (WorkflowQueryResult.ResultType v),
           log_opt (\<lambda>x. add_string Z ''answer'' (EncodeToString x)) (WorkflowQueryResult.Answer v),
           log_opt (\<lambda>x. add_string Z ''errorReason'' x) (WorkflowQueryResult.ErrorReason v),
           log_opt (\<lambda>x. add_string Z ''errorDetails'' (EncodeToString x))
               (WorkflowQueryResult.ErrorDetails v)])"

definition List_WorkflowQueryResult_Zapper :: "('o, 'a) zap \<Rightarrow> WorkflowQueryResult option list \<Rightarrow> 'a
    log_action" where
  "List_WorkflowQueryResult_Zapper Z l = log_all (List.map (\<lambda>v. append_object Z
      (WorkflowQueryResult_MarshalLogObject Z v)) l)"

definition RespondDecisionTaskCompletedRequest_MarshalLogObject :: "('o, 'a) zap \<Rightarrow>
    RespondDecisionTaskCompletedRequest option \<Rightarrow> 'o log_action" where
  "RespondDecisionTaskCompletedRequest_MarshalLogObject Z v =
     (case v of None \<Rightarrow> log_all []
      | Some v \<Rightarrow> log_all
          [log_opt (\<lambda>x. add_string Z ''taskToken'' (EncodeToString x))
              (RespondDecisionTaskCompletedRequest.TaskToken v),
           log_opt (\<lambda>x. add_array Z ''decisions'' (List_Decision_Zapper Z x))
               (RespondDecisionTaskCompletedRequest.Decisions v),
           log_opt (\<lambda>x. add_string Z ''executionContext'' (EncodeToString x))
               (RespondDecisionTaskCompletedRequest.ExecutionContext v),
           log_opt (\<lambda>x. add_string Z ''identity'' x) (RespondDecisionTaskCompletedRequest.Identity
               v),
           log_opt (\<lambda>x. add_object Z ''stickyAttributes''
               (StickyExecutionAttributes_MarshalLogObject Z (Some x)))
               (RespondDecisionTaskCompletedRequest.StickyAttributes v),
           log_opt (\<lambda>x. add_bool Z ''returnNewDecisionTask'' x)
               (RespondDecisionTaskCompletedRequest.ReturnNewDecisionTask v),
           log_opt (\<lambda>x. add_bool Z ''forceCreateNewDecisionTask'' x)
               (RespondDecisionTaskCompletedRequest.ForceCreateNewDecisionTask v),
           log_opt (\<lambda>x. add_string Z ''binaryChecksum'' x)
               (RespondDecisionTaskCompletedRequest.BinaryChecksum v),
           log_opt (\<lambda>x. add_array Z ''queryResults'' (List_WorkflowQueryResult_Zapper Z x))
               (RespondDecisionTaskCompletedRequest.QueryResults v)])"

definition RespondDecisionTaskCompletedResponse_MarshalLogObject :: "('o, 'a) zap \<Rightarrow>
    RespondDecisionTaskCompletedResponse option \<Rightarrow> 'o log_action" where
  "RespondDecisionTaskCompletedResponse_MarshalLogObject Z v =
     (case v of None \<Rightarrow> log_all []
      | Some v \<Rightarrow> log_all
          [log_opt (\<lambda>x. add_object Z ''decisionTask'' (PollForDecisionTaskResponse_MarshalLogObject
              Z (Some x))) (RespondDecisionTaskCompletedResponse.DecisionTask v)])"

definition RespondDecisionTaskFailedRequest_MarshalLogObject :: "('o, 'a) zap \<Rightarrow>
    RespondDecisionTaskFailedRequest option \<Rightarrow> 'o log_action" where
  "RespondDecisionTaskFailedRequest_MarshalLogObject Z v =
     (case v of None \<Rightarrow> log_all []
      | Some v \<Rightarrow> log_all
          [log_opt (\<lambda>x. add_string Z ''taskToken'' (EncodeToString x))
              (RespondDecisionTaskFailedRequest.TaskToken v),
           log_opt (\<lambda>x. add_object Z ''cause'' (DecisionTaskFailedCause_MarshalLogObject Z x))
               (RespondDecisionTaskFailedRequest.Cause v),
           log_opt (\<lambda>x. add_string Z ''details'' (EncodeToString x))
               (RespondDecisionTaskFailedRequest.Details v),
           log_opt (\<lambda>x. add_string Z ''identity'' x) (RespondDecisionTaskFailedRequest.Identity
               v)])"

definition RespondQueryTaskCompletedRequest_MarshalLogObject :: "('o, 'a) zap \<Rightarrow>
    RespondQueryTaskCompletedRequest option \<Rightarrow> 'o log_action" where
  "RespondQueryTaskCompletedRequest_MarshalLogObject Z v =
     (case v of None \<Rightarrow> log_all []
      | Some v \<Rightarrow> log_all
          [log_opt (\<lambda>x. add_string Z ''taskToken'' (EncodeToString x))
              (RespondQueryTaskCompletedRequest.TaskToken v),
           log_opt (\<lambda>x. add_object Z ''completedType'' (QueryTaskCompletedType_MarshalLogObject Z
               x)) (RespondQueryTaskCompletedRequest.CompletedType v),
           log_opt (\<lambda>x. add_string Z ''queryResult'' (EncodeToString x))
               (RespondQueryTaskCompletedRequest.QueryResult v),
           log_opt (\<lambda>x. add_string Z ''errorMessage'' x)
               (RespondQueryTaskCompletedRequest.ErrorMessage v)])"

definition RetryTaskError_MarshalLogObject :: "('o, 'a) zap \<Rightarrow> RetryTaskError option \<Rightarrow> 'o log_action"
    where
  "RetryTaskError_MarshalLogObject Z v =
     (case v of None \<Rightarrow> log_all []
      | Some v \<Rightarrow> log_all
          [add_string Z ''message'' (RetryTaskError.Message v),
           log_opt (\<lambda>x. add_string Z ''domainId'' x) (RetryTaskError.DomainId v),
           log_opt (\<lambda>x. add_string Z ''workflowId'' x) (RetryTaskError.WorkflowId v),
           log_opt (\<lambda>x. add_string Z ''runId'' x) (RetryTaskError.RunId v),
           log_opt (\<lambda>x. add_i64 Z ''nextEventId'' x) (RetryTaskError.NextEventId v)])"

definition ServiceBusyError_MarshalLogObject :: "('o, 'a) zap \<Rightarrow> ServiceBusyError option \<Rightarrow> 'o
    log_action" where
  "ServiceBusyError_MarshalLogObject Z v =
     (case v of None \<Rightarrow> log_all []
      | Some v \<Rightarrow> log_all
          [add_string Z ''message'' (ServiceBusyError.Message v)])"

definition SignalWithStartWorkflowExecutionRequest_MarshalLogObject :: "('o, 'a) zap \<Rightarrow>
    SignalWithStartWorkflowExecutionRequest option \<Rightarrow> 'o log_action" where
  "SignalWithStartWorkflowExecutionRequest_MarshalLogObject Z v =
     (case v of None \<Rightarrow> log_all []
      | Some v \<Rightarrow> log_all
          [log_opt (\<lambda>x. add_string Z ''domain'' x) (SignalWithStartWorkflowExecutionRequest.Domain
              v),
           log_opt (\<lambda>x. add_string Z ''workflowId'' x)
               (SignalWithStartWorkflowExecutionRequest.WorkflowId v),
           log_opt (\<lambda>x. add_object Z ''workflowType'' (WorkflowType_MarshalLogObject Z (Some x)))
               (SignalWithStartWorkflowExecutionRequest.WorkflowType v),
           log_opt (\<lambda>x. add_object Z ''taskList'' (TaskList_MarshalLogObject Z (Some x)))
               (SignalWithStartWorkflowExecutionRequest.TaskList v),
           log_opt (\<lambda>x. add_string Z ''input'' (EncodeToString x))
               (SignalWithStartWorkflowExecutionRequest.Input v),
           log_opt (\<lambda>x. add_i32 Z ''executionStartToCloseTimeoutSeconds'' x)
               (SignalWithStartWorkflowExecutionRequest.ExecutionStartToCloseTimeoutSeconds v),
           log_opt (\<lambda>x. add_i32 Z ''taskStartToCloseTimeoutSeconds'' x)
               (SignalWithStartWorkflowExecutionRequest.TaskStartToCloseTimeoutSeconds v),
           log_opt (\<lambda>x. add_string Z ''identity'' x)
               (SignalWithStartWorkflowExecutionRequest.Identity v),
           log_opt (\<lambda>x. add_string Z ''requestId'' x)
               (SignalWithStartWorkflowExecutionRequest.RequestId v),
           log_opt (\<lambda>x. add_object Z ''workflowIdReusePolicy''
               (WorkflowIdReusePolicy_MarshalLogObject Z x))
               (SignalWithStartWorkflowExecutionRequest.WorkflowIdReusePolicy v),
           log_opt (\<lambda>x. add_string Z ''signalName'' x)
               (SignalWithStartWorkflowExecutionRequest.SignalName v),
           log_opt (\<lambda>x. add_string Z ''signalInput'' (EncodeToString x))
               (SignalWithStartWorkflowExecutionRequest.SignalInput v),
           log_opt (\<lambda>x. add_string Z ''control'' (EncodeToString x))
               (SignalWithStartWorkflowExecutionRequest.Control v),
           log_opt (\<lambda>x. add_object Z ''retryPolicy'' (RetryPolicy_MarshalLogObject Z (Some x)))
               (SignalWithStartWorkflowExecutionRequest.RetryPolicy v),
           log_opt (\<lambda>x. add_string Z ''cronSchedule'' x)
               (SignalWithStartWorkflowExecutionRequest.CronSchedule v),
           log_opt (\<lambda>x. add_object Z ''memo'' (Memo_MarshalLogObject Z (Some x)))
               (SignalWithStartWorkflowExecutionRequest.Memo v),
           log_opt (\<lambda>x. add_object Z ''searchAttributes'' (SearchAttributes_MarshalLogObject Z (Some
               x))) (SignalWithStartWorkflowExecutionRequest.SearchAttributes v),
           log_opt (\<lambda>x. add_object Z ''header'' (Header_MarshalLogObject Z (Some x)))
               (SignalWithStartWorkflowExecutionRequest.Header v)])"

definition SignalWorkflowExecutionRequest_MarshalLogObject :: "('o, 'a) zap \<Rightarrow>
    SignalWorkflowExecutionRequest option \<Rightarrow> 'o log_action" where
  "SignalWorkflowExecutionRequest_MarshalLogObject Z v =
     (case v of None \<Rightarrow> log_all []
      | Some v \<Rightarrow> log_all
          [log_opt (\<lambda>x. add_string Z ''domain'' x) (SignalWorkflowExecutionRequest.Domain v),
           log_opt (\<lambda>x. add_object Z ''workflowExecution'' (WorkflowExecution_MarshalLogObject Z
               (Some x))) (SignalWorkflowExecutionRequest.WorkflowExecution v),
           log_opt (\<lambda>x. add_string Z ''signalName'' x) (SignalWorkflowExecutionRequest.SignalName
               v),
           log_opt (\<lambda>x. add_string Z ''input'' (EncodeToString x))
               (SignalWorkflowExecutionRequest.Input v),
           log_opt (\<lambda>x. add_string Z ''identity'' x) (SignalWorkflowExecutionRequest.Identity v),
           log_opt (\<lambda>x. add_string Z ''requestId'' x) (SignalWorkflowExecutionRequest.RequestId v),
           log_opt (\<lambda>x. add_string Z ''control'' (EncodeToString x))
               (SignalWorkflowExecutionRequest.Control v)])"

definition StartWorkflowExecutionRequest_MarshalLogObject :: "('o, 'a) zap \<Rightarrow>
    StartWorkflowExecutionRequest option \<Rightarrow> 'o log_action" where
  "StartWorkflowExecutionRequest_MarshalLogObject Z v =
     (case v of None \<Rightarrow> log_all []
      | Some v \<Rightarrow> log_all
          [log_opt (\<lambda>x. add_string Z ''domain'' x) (StartWorkflowExecutionRequest.Domain v),
           log_opt (\<lambda>x. add_string Z ''workflowId'' x) (StartWorkflowExecutionRequest.WorkflowId v),
           log_opt (\<lambda>x. add_object Z ''workflowType'' (WorkflowType_MarshalLogObject Z (Some x)))
               (StartWorkflowExecutionRequest.WorkflowType v),
           log_opt (\<lambda>x. add_object Z ''taskList'' (TaskList_MarshalLogObject Z (Some x)))
               (StartWorkflowExecutionRequest.TaskList v),
           log_opt (\<lambda>x. add_string Z ''input'' (EncodeToString x))
               (StartWorkflowExecutionRequest.Input v),
           log_opt (\<lambda>x. add_i32 Z ''executionStartToCloseTimeoutSeconds'' x)
               (StartWorkflowExecutionRequest.ExecutionStartToCloseTimeoutSeconds v),
           log_opt (\<lambda>x. add_i32 Z ''taskStartToCloseTimeoutSeconds'' x)
               (StartWorkflowExecutionRequest.TaskStartToCloseTimeoutSeconds v),
           log_opt (\<lambda>x. add_string Z ''identity'' x) (StartWorkflowExecutionRequest.Identity v),
           log_opt (\<lambda>x. add_string Z ''requestId'' x) (StartWorkflowExecutionRequest.RequestId v),
           log_opt (\<lambda>x. add_object Z ''workflowIdReusePolicy''
               (WorkflowIdReusePolicy_MarshalLogObject Z x))
               (StartWorkflowExecutionRequest.WorkflowIdReusePolicy v),
           log_opt (\<lambda>x. add_object Z ''retryPolicy'' (RetryPolicy_MarshalLogObject Z (Some x)))
               (StartWorkflowExecutionRequest.RetryPolicy v),
           log_opt (\<lambda>x. add_string Z ''cronSchedule'' x) (StartWorkflowExecutionRequest.CronSchedule
               v),
           log_opt (\<lambda>x. add_object Z ''memo'' (Memo_MarshalLogObject Z (Some x)))
               (StartWorkflowExecutionRequest.Memo v),
           log_opt (\<lambda>x. add_object Z ''searchAttributes'' (SearchAttributes_MarshalLogObject Z (Some
               x))) (StartWorkflowExecutionRequest.SearchAttributes v),
           log_opt (\<lambda>x. add_object Z ''header'' (Header_MarshalLogObject Z (Some x)))
               (StartWorkflowExecutionRequest.Header v)])"

definition StartWorkflowExecutionResponse_MarshalLogObject :: "('o, 'a) zap \<Rightarrow>
    StartWorkflowExecutionResponse option \<Rightarrow> 'o log_action" where
  "StartWorkflowExecutionResponse_MarshalLogObject Z v =
     (case v of None \<Rightarrow> log_all []
      | Some v \<Rightarrow> log_all
          [log_opt (\<lambda>x. add_string Z ''runId'' x) (StartWorkflowExecutionResponse.RunId v)])"

definition TerminateWorkflowExecutionRequest_MarshalLogObject :: "('o, 'a) zap \<Rightarrow>
    TerminateWorkflowExecutionRequest option \<Rightarrow> 'o log_action" where
  "TerminateWorkflowExecutionRequest_MarshalLogObject Z v =
     (case v of None \<Rightarrow> log_all []
      | Some v \<Rightarrow> log_all
          [log_opt (\<lambda>x. add_string Z ''domain'' x) (TerminateWorkflowExecutionRequest.Domain v),
           log_opt (\<lambda>x. add_object Z ''workflowExecution'' (WorkflowExecution_MarshalLogObject Z
               (Some x))) (TerminateWorkflowExecutionRequest.WorkflowExecution v),
           log_opt (\<lambda>x. add_string Z ''reason'' x) (TerminateWorkflowExecutionRequest.Reason v),
           log_opt (\<lambda>x. add_string Z ''details'' (EncodeToString x))
               (TerminateWorkflowExecutionRequest.Details v),
           log_opt (\<lambda>x. add_string Z ''identity'' x) (TerminateWorkflowExecutionRequest.Identity
               v)])"

definition TransientDecisionInfo_MarshalLogObject :: "('o, 'a) zap \<Rightarrow> TransientDecisionInfo option \<Rightarrow>
    'o log_action" where
  "TransientDecisionInfo_MarshalLogObject Z v =
     (case v of None \<Rightarrow> log_all []
      | Some v \<Rightarrow> log_all
          [log_opt (\<lambda>x. add_object Z ''scheduledEvent'' (HistoryEvent_MarshalLogObject Z (Some x)))
              (TransientDecisionInfo.ScheduledEvent v),
           log_opt (\<lambda>x. add_object Z ''startedEvent'' (HistoryEvent_MarshalLogObject Z (Some x)))
               (TransientDecisionInfo.StartedEvent v)])"

definition UpdateDomainInfo_MarshalLogObject :: "('o, 'a) zap \<Rightarrow> UpdateDomainInfo option \<Rightarrow> 'o
    log_action" where
  "UpdateDomainInfo_MarshalLogObject Z v =
     (case v of None \<Rightarrow> log_all []
      | Some v \<Rightarrow> log_all
          [log_opt (\<lambda>x. add_string Z ''description'' x) (UpdateDomainInfo.Description v),
           log_opt (\<lambda>x. add_string Z ''ownerEmail'' x) (UpdateDomainInfo.OwnerEmail v),
           log_opt (\<lambda>x. add_object Z ''data'' (Map_String_String_Zapper Z x)) (UpdateDomainInfo.Data
               v)])"

definition UpdateDomainRequest_MarshalLogObject :: "('o, 'a) zap \<Rightarrow> UpdateDomainRequest option \<Rightarrow> 'o
    log_action" where
  "UpdateDomainRequest_MarshalLogObject Z v =
     (case v of None \<Rightarrow> log_all []
      | Some v \<Rightarrow> log_all
          [log_opt (\<lambda>x. add_string Z ''name'' x) (UpdateDomainRequest.Name v),
           log_opt (\<lambda>x. add_object Z ''updatedInfo'' (UpdateDomainInfo_MarshalLogObject Z (Some x)))
               (UpdateDomainRequest.UpdatedInfo v),
           log_opt (\<lambda>x. add_object Z ''configuration'' (DomainConfiguration_MarshalLogObject Z (Some
               x))) (UpdateDomainRequest.Configuration v),
           log_opt (\<lambda>x. add_object Z ''replicationConfiguration''
               (DomainReplicationConfiguration_MarshalLogObject Z (Some x)))
               (UpdateDomainRequest.ReplicationConfiguration v),
           log_opt (\<lambda>x. add_string Z ''securityToken'' x) (UpdateDomainRequest.SecurityToken v),
           log_opt (\<lambda>x. add_string Z ''deleteBadBinary'' x) (UpdateDomainRequest.DeleteBadBinary
               v)])"

definition UpdateDomainResponse_MarshalLogObject :: "('o, 'a) zap \<Rightarrow> UpdateDomainResponse option \<Rightarrow> 'o
    log_action" where
  "UpdateDomainResponse_MarshalLogObject Z v =
     (case v of None \<Rightarrow> log_all []
      | Some v \<Rightarrow> log_all
          [log_opt (\<lambda>x. add_object Z ''domainInfo'' (DomainInfo_MarshalLogObject Z (Some x)))
              (UpdateDomainResponse.DomainInfo v),
           log_opt (\<lambda>x. add_object Z ''configuration'' (DomainConfiguration_MarshalLogObject Z (Some
               x))) (UpdateDomainResponse.Configuration v),
           log_opt (\<lambda>x. add_object Z ''replicationConfiguration''
               (DomainReplicationConfiguration_MarshalLogObject Z (Some x)))
               (UpdateDomainResponse.ReplicationConfiguration v),
           log_opt (\<lambda>x. add_i64 Z ''failoverVersion'' x) (UpdateDomainResponse.FailoverVersion v),
           log_opt (\<lambda>x. add_bool Z ''isGlobalDomain'' x) (UpdateDomainResponse.IsGlobalDomain v)])"

definition WorkflowExecutionAlreadyStartedError_MarshalLogObject :: "('o, 'a) zap \<Rightarrow>
    WorkflowExecutionAlreadyStartedError option \<Rightarrow> 'o log_action" where
  "WorkflowExecutionAlreadyStartedError_MarshalLogObject Z v =
     (case v of None \<Rightarrow> log_all []
      | Some v \<Rightarrow> log_all
          [log_opt (\<lambda>x. add_string Z ''message'' x) (WorkflowExecutionAlreadyStartedError.Message
              v),
           log_opt (\<lambda>x. add_string Z ''startRequestId'' x)
               (WorkflowExecutionAlreadyStartedError.StartRequestId v),
           log_opt (\<lambda>x. add_string Z ''runId'' x) (WorkflowExecutionAlreadyStartedError.RunId v)])"

end
