(* ===== verification/GoServiceLogs.thy ===== *)
theory GoServiceLogs
  imports GoMessageLogs GoActivityService GoDecisionService GoWorkflowService GoDomainService
      GoVisibilityService
begin

text \<open>
  How the arguments and results of the methods are logged (\<open>MarshalLogObject\<close>,
  proxy/gen/cadence/cadence.go).
\<close>

definition WorkflowService_PollForActivityTask_Args_MarshalLogObject :: "('o, 'a) zap \<Rightarrow>
    WorkflowService_PollForActivityTask_Args option \<Rightarrow> 'o log_action" where
  "WorkflowService_PollForActivityTask_Args_MarshalLogObject Z v =
     (case v of None \<Rightarrow> log_all []
      | Some v \<Rightarrow> log_all
          [log_opt (\<lambda>x. add_object Z ''pollRequest'' (PollForActivityTaskRequest_MarshalLogObject Z
              (Some x))) (WorkflowService_PollForActivityTask_Args.PollRequest v)])"

definition WorkflowService_PollForActivityTask_Result_MarshalLogObject :: "('o, 'a) zap \<Rightarrow>
    WorkflowService_PollForActivityTask_Result option \<Rightarrow> 'o log_action" where
  "WorkflowService_PollForActivityTask_Result_MarshalLogObject Z v =
     (case v of None \<Rightarrow> log_all []
      | Some v \<Rightarrow> log_all
          [log_opt (\<lambda>x. add_object Z ''success'' (PollForActivityTaskResponse_MarshalLogObject Z
              (Some x))) (WorkflowService_PollForActivityTask_Result.Success v),
           log_opt (\<lambda>x. add_object Z ''badRequestError'' (BadRequestError_MarshalLogObject Z (Some
               x))) (WorkflowService_PollForActivityTask_Result.BadRequestError v),
           log_opt (\<lambda>x. add_object Z ''internalServiceError'' (InternalServiceError_MarshalLogObject
               Z (Some x))) (WorkflowService_PollForActivityTask_Result.InternalServiceError v),
           log_opt (\<lambda>x. add_object Z ''serviceBusyError'' (ServiceBusyError_MarshalLogObject Z (Some
               x))) (WorkflowService_PollForActivityTask_Result.ServiceBusyError v),
           log_opt (\<lambda>x. add_object Z ''limitExceededError'' (LimitExceededError_MarshalLogObject Z
               (Some x))) (WorkflowService_PollForActivityTask_Result.LimitExceededError v),
           log_opt (\<lambda>x. add_object Z ''entityNotExistError'' (EntityNotExistsError_MarshalLogObject
               Z (Some x))) (WorkflowService_PollForActivityTask_Result.EntityNotExistError v),
           log_opt (\<lambda>x. add_object Z ''domainNotActiveError'' (DomainNotActiveError_MarshalLogObject
               Z (Some x))) (WorkflowService_PollForActivityTask_Result.DomainNotActiveError v),
           log_opt (\<lambda>x. add_object Z ''clientVersionNotSupportedError''
               (ClientVersionNotSupportedError_MarshalLogObject Z (Some x)))
               (WorkflowService_PollForActivityTask_Result.ClientVersionNotSupportedError v)])"

definition WorkflowService_RecordActivityTaskHeartbeat_Args_MarshalLogObject :: "('o, 'a) zap \<Rightarrow>
    WorkflowService_RecordActivityTaskHeartbeat_Args option \<Rightarrow> 'o log_action" where
  "WorkflowService_RecordActivityTaskHeartbeat_Args_MarshalLogObject Z v =
     (case v of None \<Rightarrow> log_all []
      | Some v \<Rightarrow> log_all
          [log_opt (\<lambda>x. add_object Z ''heartbeatRequest''
              (RecordActivityTaskHeartbeatRequest_MarshalLogObject Z (Some x)))
              (WorkflowService_RecordActivityTaskHeartbeat_Args.HeartbeatRequest v)])"

definition WorkflowService_RecordActivityTaskHeartbeat_Result_MarshalLogObject :: "('o, 'a) zap \<Rightarrow>
    WorkflowService_RecordActivityTaskHeartbeat_Result option \<Rightarrow> 'o log_action" where
  "WorkflowService_RecordActivityTaskHeartbeat_Result_MarshalLogObject Z v =
     (case v of None \<Rightarrow> log_all []
      | Some v \<Rightarrow> log_all
          [log_opt (\<lambda>x. add_object Z ''success''
              (RecordActivityTaskHeartbeatResponse_MarshalLogObject Z (Some x)))
              (WorkflowService_RecordActivityTaskHeartbeat_Result.Success v),
           log_opt (\<lambda>x. add_object Z ''badRequestError'' (BadRequestError_MarshalLogObject Z (Some
               x))) (WorkflowService_RecordActivityTaskHeartbeat_Result.BadRequestError v),
           log_opt (\<lambda>x. add_object Z ''internalServiceError'' (InternalServiceError_MarshalLogObject
               Z (Some x))) (WorkflowService_RecordActivityTaskHeartbeat_Result.InternalServiceError
               v),
           log_opt (\<lambda>x. add_object Z ''entityNotExistError'' (EntityNotExistsError_MarshalLogObject
               Z (Some x))) (WorkflowService_RecordActivityTaskHeartbeat_Result.EntityNotExistError
               v),
           log_opt (\<lambda>x. add_object Z ''domainNotActiveError'' (DomainNotActiveError_MarshalLogObject
               Z (Some x))) (WorkflowService_RecordActivityTaskHeartbeat_Result.DomainNotActiveError
               v),
           log_opt (\<lambda>x. add_object Z ''limitExceededError'' (LimitExceededError_MarshalLogObject Z
               (Some x))) (WorkflowService_RecordActivityTaskHeartbeat_Result.LimitExceededError v),
           log_opt (\<lambda>x. add_object Z ''serviceBusyError'' (ServiceBusyError_MarshalLogObject Z (Some
               x))) (WorkflowService_RecordActivityTaskHeartbeat_Result.ServiceBusyError v),
           log_opt (\<lambda>x. add_object Z ''clientVersionNotSupportedError''
               (ClientVersionNotSupportedError_MarshalLogObject Z (Some x)))
               (WorkflowService_RecordActivityTaskHeartbeat_Result.ClientVersionNotSupportedError
               v)])"

definition WorkflowService_RecordActivityTaskHeartbeatByID_Args_MarshalLogObject :: "('o, 'a) zap \<Rightarrow>
    WorkflowService_RecordActivityTaskHeartbeatByID_Args option \<Rightarrow> 'o log_action" where
  "WorkflowService_RecordActivityTaskHeartbeatByID_Args_MarshalLogObject Z v =
     (case v of None \<Rightarrow> log_all []
      | Some v \<Rightarrow> log_all
          [log_opt (\<lambda>x. add_object Z ''heartbeatRequest''
              (RecordActivityTaskHeartbeatByIDRequest_MarshalLogObject Z (Some x)))
              (WorkflowService_RecordActivityTaskHeartbeatByID_Args.HeartbeatRequest v)])"

definition WorkflowService_RecordActivityTaskHeartbeatByID_Result_MarshalLogObject :: "('o, 'a) zap
    \<Rightarrow> WorkflowService_RecordActivityTaskHeartbeatByID_Result option \<Rightarrow> 'o log_action" where
  "WorkflowService_RecordActivityTaskHeartbeatByID_Result_MarshalLogObject Z v =
     (case v of None \<Rightarrow> log_all []
      | Some v \<Rightarrow> log_all
          [log_opt (\<lambda>x. add_object Z ''success''
              (RecordActivityTaskHeartbeatResponse_MarshalLogObject Z (Some x)))
              (WorkflowService_RecordActivityTaskHeartbeatByID_Result.Success v),
           log_opt (\<lambda>x. add_object Z ''badRequestError'' (BadRequestError_MarshalLogObject Z (Some
               x))) (WorkflowService_RecordActivityTaskHeartbeatByID_Result.BadRequestError v),
           log_opt (\<lambda>x. add_object Z ''internalServiceError'' (InternalServiceError_MarshalLogObject
               Z (Some x)))
               (WorkflowService_RecordActivityTaskHeartbeatByID_Result.InternalServiceError v),
           log_opt (\<lambda>x. add_object Z ''entityNotExistError'' (EntityNotExistsError_MarshalLogObject
               Z (Some x)))
               (WorkflowService_RecordActivityTaskHeartbeatByID_Result.EntityNotExistError v),
           log_opt (\<lambda>x. add_object Z ''domainNotActiveError'' (DomainNotActiveError_MarshalLogObject
               Z (Some x)))
               (WorkflowService_RecordActivityTaskHeartbeatByID_Result.DomainNotActiveError v),
           log_opt (\<lambda>x. add_object Z ''limitExceededError'' (LimitExceededError_MarshalLogObject Z
               (Some x))) (WorkflowService_RecordActivityTaskHeartbeatByID_Result.LimitExceededError
               v),
           log_opt (\<lambda>x. add_object Z ''serviceBusyError'' (ServiceBusyError_MarshalLogObject Z (Some
               x))) (WorkflowService_RecordActivityTaskHeartbeatByID_Result.ServiceBusyError v),
           log_opt (\<lambda>x. add_object Z ''clientVersionNotSupportedError''
               (ClientVersionNotSupportedError_MarshalLogObject Z (Some x)))
               (WorkflowService_RecordActivityTaskHeartbeatByID_Result.ClientVersionNotSupportedError v)])"

definition WorkflowService_RespondActivityTaskCompleted_Args_MarshalLogObject :: "('o, 'a) zap \<Rightarrow>
    WorkflowService_RespondActivityTaskCompleted_Args option \<Rightarrow> 'o log_action" where
  "WorkflowService_RespondActivityTaskCompleted_Args_MarshalLogObject Z v =
     (case v of None \<Rightarrow> log_all []
      | Some v \<Rightarrow> log_all
          [log_opt (\<lambda>x. add_object Z ''completeRequest''
              (RespondActivityTaskCompletedRequest_MarshalLogObject Z (Some x)))
              (WorkflowService_RespondActivityTaskCompleted_Args.CompleteRequest v)])"

definition WorkflowService_RespondActivityTaskCompleted_Result_MarshalLogObject :: "('o, 'a) zap \<Rightarrow>
    WorkflowService_RespondActivityTaskCompleted_Result option \<Rightarrow> 'o log_action" where
  "WorkflowService_RespondActivityTaskCompleted_Result_MarshalLogObject Z v =
     (case v of None \<Rightarrow> log_all []
      | Some v \<Rightarrow> log_all
          [log_opt (\<lambda>x. add_object Z ''badRequestError'' (BadRequestError_MarshalLogObject Z (Some
              x))) (WorkflowService_RespondActivityTaskCompleted_Result.BadRequestError v),
           log_opt (\<lambda>x. add_object Z ''internalServiceError'' (InternalServiceError_MarshalLogObject
               Z (Some x)))
               (WorkflowService_RespondActivityTaskCompleted_Result.InternalServiceError v),
           log_opt (\<lambda>x. add_object Z ''entityNotExistError'' (EntityNotExistsError_MarshalLogObject
               Z (Some x))) (WorkflowService_RespondActivityTaskCompleted_Result.EntityNotExistError
               v),
           log_opt (\<lambda>x. add_object Z ''domainNotActiveError'' (DomainNotActiveError_MarshalLogObject
               Z (Some x)))
               (WorkflowService_RespondActivityTaskCompleted_Result.DomainNotActiveError v),
           log_opt (\<lambda>x. add_object Z ''limitExceededError'' (LimitExceededError_MarshalLogObject Z
               (Some x))) (WorkflowService_RespondActivityTaskCompleted_Result.LimitExceededError
               v),
           log_opt (\<lambda>x. add_object Z ''serviceBusyError'' (ServiceBusyError_MarshalLogObject Z (Some
               x))) (WorkflowService_RespondActivityTaskCompleted_Result.ServiceBusyError v),
           log_opt (\<lambda>x. add_object Z ''clientVersionNotSupportedError''
               (ClientVersionNotSupportedError_MarshalLogObject Z (Some x)))
               (WorkflowService_RespondActivityTaskCompleted_Result.ClientVersionNotSupportedError
               v)])"

definition WorkflowService_RespondActivityTaskCompletedByID_Args_MarshalLogObject :: "('o, 'a) zap \<Rightarrow>
    WorkflowService_RespondActivityTaskCompletedByID_Args option \<Rightarrow> 'o log_action" where
  "WorkflowService_RespondActivityTaskCompletedByID_Args_MarshalLogObject Z v =
     (case v of None \<Rightarrow> log_all []
      | Some v \<Rightarrow> log_all
          [log_opt (\<lambda>x. add_object Z ''completeRequest''
              (RespondActivityTaskCompletedByIDRequest_MarshalLogObject Z (Some x)))
              (WorkflowService_RespondActivityTaskCompletedByID_Args.CompleteRequest v)])"

definition WorkflowService_RespondActivityTaskCompletedByID_Result_MarshalLogObject :: "('o, 'a) zap
    \<Rightarrow> WorkflowService_RespondActivityTaskCompletedByID_Result option \<Rightarrow> 'o log_action" where
  "WorkflowService_RespondActivityTaskCompletedByID_Result_MarshalLogObject Z v =
     (case v of None \<Rightarrow> log_all []
      | Some v \<Rightarrow> log_all
          [log_opt (\<lambda>x. add_object Z ''badRequestError'' (BadRequestError_MarshalLogObject Z (Some
              x))) (WorkflowService_RespondActivityTaskCompletedByID_Result.BadRequestError v),
           log_opt (\<lambda>x. add_object Z ''internalServiceError'' (InternalServiceError_MarshalLogObject
               Z (Some x)))
               (WorkflowService_RespondActivityTaskCompletedByID_Result.InternalServiceError v),
           log_opt (\<lambda>x. add_object Z ''entityNotExistError'' (EntityNotExistsError_MarshalLogObject
               Z (Some x)))
               (WorkflowService_RespondActivityTaskCompletedByID_Result.EntityNotExistError v),
           log_opt (\<lambda>x. add_object Z ''domainNotActiveError'' (DomainNotActiveError_MarshalLogObject
               Z (Some x)))
               (WorkflowService_RespondActivityTaskCompletedByID_Result.DomainNotActiveError v),
           log_opt (\<lambda>x. add_object Z ''limitExceededError'' (LimitExceededError_MarshalLogObject Z
               (Some x)))
               (WorkflowService_RespondActivityTaskCompletedByID_Result.LimitExceededError v),
           log_opt (\<lambda>x. add_object Z ''serviceBusyError'' (ServiceBusyError_MarshalLogObject Z (Some
               x))) (WorkflowService_RespondActivityTaskCompletedByID_Result.ServiceBusyError v),
           log_opt (\<lambda>x. add_object Z ''clientVersionNotSupportedError''
               (ClientVersionNotSupportedError_MarshalLogObject Z (Some x)))
               (WorkflowService_RespondActivityTaskCompletedByID_Result.ClientVersionNotSupportedError v)])"

definition WorkflowService_RespondActivityTaskFailed_Args_MarshalLogObject :: "('o, 'a) zap \<Rightarrow>
    WorkflowService_RespondActivityTaskFailed_Args option \<Rightarrow> 'o log_action" where
  "WorkflowService_RespondActivityTaskFailed_Args_MarshalLogObject Z v =
     (case v of None \<Rightarrow> log_all []
      | Some v \<Rightarrow> log_all
          [log_opt (\<lambda>x. add_object Z ''failRequest''
              (RespondActivityTaskFailedRequest_MarshalLogObject Z (Some x)))
              (WorkflowService_RespondActivityTaskFailed_Args.FailRequest v)])"

definition WorkflowService_RespondActivityTaskFailed_Result_MarshalLogObject :: "('o, 'a) zap \<Rightarrow>
    WorkflowService_RespondActivityTaskFailed_Result option \<Rightarrow> 'o log_action" where
  "WorkflowService_RespondActivityTaskFailed_Result_MarshalLogObject Z v =
     (case v of None \<Rightarrow> log_all []
      | Some v \<Rightarrow> log_all
          [log_opt (\<lambda>x. add_object Z ''badRequestError'' (BadRequestError_MarshalLogObject Z (Some
              x))) (WorkflowService_RespondActivityTaskFailed_Result.BadRequestError v),
           log_opt (\<lambda>x. add_object Z ''internalServiceError'' (InternalServiceError_MarshalLogObject
               Z (Some x))) (WorkflowService_RespondActivityTaskFailed_Result.InternalServiceError
               v),
           log_opt (\<lambda>x. add_object Z ''entityNotExistError'' (EntityNotExistsError_MarshalLogObject
               Z (Some x))) (WorkflowService_RespondActivityTaskFailed_Result.EntityNotExistError
               v),
           log_opt (\<lambda>x. add_object Z ''domainNotActiveError'' (DomainNotActiveError_MarshalLogObject
               Z (Some x))) (WorkflowService_RespondActivityTaskFailed_Result.DomainNotActiveError
               v),
           log_opt (\<lambda>x. add_object Z ''limitExceededError'' (LimitExceededError_MarshalLogObject Z
               (Some x))) (WorkflowService_RespondActivityTaskFailed_Result.LimitExceededError v),
           log_opt (\<lambda>x. add_object Z ''serviceBusyError'' (ServiceBusyError_MarshalLogObject Z (Some
               x))) (WorkflowService_RespondActivityTaskFailed_Result.ServiceBusyError v),
           log_opt (\<lambda>x. add_object Z ''clientVersionNotSupportedError''
               (ClientVersionNotSupportedError_MarshalLogObject Z (Some x)))
               (WorkflowService_RespondActivityTaskFailed_Result.ClientVersionNotSupportedError
               v)])"

definition WorkflowService_RespondActivityTaskFailedByID_Args_MarshalLogObject :: "('o, 'a) zap \<Rightarrow>
    WorkflowService_RespondActivityTaskFailedByID_Args option \<Rightarrow> 'o log_action" where
  "WorkflowService_RespondActivityTaskFailedByID_Args_MarshalLogObject Z v =
     (case v of None \<Rightarrow> log_all []
      | Some v \<Rightarrow> log_all
          [log_opt (\<lambda>x. add_object Z ''failRequest''
              (RespondActivityTaskFailedByIDRequest_MarshalLogObject Z (Some x)))
              (WorkflowService_RespondActivityTaskFailedByID_Args.FailRequest v)])"

definition WorkflowService_RespondActivityTaskFailedByID_Result_MarshalLogObject :: "('o, 'a) zap \<Rightarrow>
    WorkflowService_RespondActivityTaskFailedByID_Result option \<Rightarrow> 'o log_action" where
  "WorkflowService_RespondActivityTaskFailedByID_Result_MarshalLogObject Z v =
     (case v of None \<Rightarrow> log_all []
      | Some v \<Rightarrow> log_all
          [log_opt (\<lambda>x. add_object Z ''badRequestError'' (BadRequestError_MarshalLogObject Z (Some
              x))) (WorkflowService_RespondActivityTaskFailedByID_Result.BadRequestError v),
           log_opt (\<lambda>x. add_object Z ''internalServiceError'' (InternalServiceError_MarshalLogObject
               Z (Some x)))
               (WorkflowService_RespondActivityTaskFailedByID_Result.InternalServiceError v),
           log_opt (\<lambda>x. add_object Z ''entityNotExistError'' (EntityNotExistsError_MarshalLogObject
               Z (Some x)))
               (WorkflowService_RespondActivityTaskFailedByID_Result.EntityNotExistError v),
           log_opt (\<lambda>x. add_object Z ''domainNotActiveError'' (DomainNotActiveError_MarshalLogObject
               Z (Some x)))
               (WorkflowService_RespondActivityTaskFailedByID_Result.DomainNotActiveError v),
           log_opt (\<lambda>x. add_object Z ''limitExceededError'' (LimitExceededError_MarshalLogObject Z
               (Some x))) (WorkflowService_RespondActivityTaskFailedByID_Result.LimitExceededError
               v),
           log_opt (\<lambda>x. add_object Z ''serviceBusyError'' (ServiceBusyError_MarshalLogObject Z (Some
               x))) (WorkflowService_RespondActivityTaskFailedByID_Result.ServiceBusyError v),
           log_opt (\<lambda>x. add_object Z ''clientVersionNotSupportedError''
               (ClientVersionNotSupportedError_MarshalLogObject Z (Some x)))
               (WorkflowService_RespondActivityTaskFailedByID_Result.ClientVersionNotSupportedError
               v)])"

definition WorkflowService_RespondActivityTaskCanceled_Args_MarshalLogObject :: "('o, 'a) zap \<Rightarrow>
    WorkflowService_RespondActivityTaskCanceled_Args option \<Rightarrow> 'o log_action" where
  "WorkflowService_RespondActivityTaskCanceled_Args_MarshalLogObject Z v =
     (case v of None \<Rightarrow> log_all []
      | Some v \<Rightarrow> log_all
          [log_opt (\<lambda>x. add_object Z ''canceledRequest''
              (RespondActivityTaskCanceledRequest_MarshalLogObject Z (Some x)))
              (WorkflowService_RespondActivityTaskCanceled_Args.CanceledRequest v)])"

definition WorkflowService_RespondActivityTaskCanceled_Result_MarshalLogObject :: "('o, 'a) zap \<Rightarrow>
    WorkflowService_RespondActivityTaskCanceled_Result option \<Rightarrow> 'o log_action" where
  "WorkflowService_RespondActivityTaskCanceled_Result_MarshalLogObject Z v =
     (case v of None \<Rightarrow> log_all []
      | Some v \<Rightarrow> log_all
          [log_opt (\<lambda>x. add_object Z ''badRequestError'' (BadRequestError_MarshalLogObject Z (Some
              x))) (WorkflowService_RespondActivityTaskCanceled_Result.BadRequestError v),
           log_opt (\<lambda>x. add_object Z ''internalServiceError'' (InternalServiceError_MarshalLogObject
               Z (Some x))) (WorkflowService_RespondActivityTaskCanceled_Result.InternalServiceError
               v),
           log_opt (\<lambda>x. add_object Z ''entityNotExistError'' (EntityNotExistsError_MarshalLogObject
               Z (Some x))) (WorkflowService_RespondActivityTaskCanceled_Result.EntityNotExistError
               v),
           log_opt (\<lambda>x. add_object Z ''domainNotActiveError'' (DomainNotActiveError_MarshalLogObject
               Z (Some x))) (WorkflowService_RespondActivityTaskCanceled_Result.DomainNotActiveError
               v),
           log_opt (\<lambda>x. add_object Z ''limitExceededError'' (LimitExceededError_MarshalLogObject Z
               (Some x))) (WorkflowService_RespondActivityTaskCanceled_Result.LimitExceededError v),
           log_opt (\<lambda>x. add_object Z ''serviceBusyError'' (ServiceBusyError_MarshalLogObject Z (Some
               x))) (WorkflowService_RespondActivityTaskCanceled_Result.ServiceBusyError v),
           log_opt (\<lambda>x. add_object Z ''clientVersionNotSupportedError''
               (ClientVersionNotSupportedError_MarshalLogObject Z (Some x)))
               (WorkflowService_RespondActivityTaskCanceled_Result.ClientVersionNotSupportedError
               v)])"

definition WorkflowService_RespondActivityTaskCanceledByID_Args_MarshalLogObject :: "('o, 'a) zap \<Rightarrow>
    WorkflowService_RespondActivityTaskCanceledByID_Args option \<Rightarrow> 'o log_action" where
  "WorkflowService_RespondActivityTaskCanceledByID_Args_MarshalLogObject Z v =
     (case v of None \<Rightarrow> log_all []
      | Some v \<Rightarrow> log_all
          [log_opt (\<lambda>x. add_object Z ''canceledRequest''
              (RespondActivityTaskCanceledByIDRequest_MarshalLogObject Z (Some x)))
              (WorkflowService_RespondActivityTaskCanceledByID_Args.CanceledRequest v)])"

definition WorkflowService_RespondActivityTaskCanceledByID_Result_MarshalLogObject :: "('o, 'a) zap
    \<Rightarrow> WorkflowService_RespondActivityTaskCanceledByID_Result option \<Rightarrow> 'o log_action" where
  "WorkflowService_RespondActivityTaskCanceledByID_Result_MarshalLogObject Z v =
     (case v of None \<Rightarrow> log_all []
      | Some v \<Rightarrow> log_all
          [log_opt (\<lambda>x. add_object Z ''badRequestError'' (BadRequestError_MarshalLogObject Z (Some
              x))) (WorkflowService_RespondActivityTaskCanceledByID_Result.BadRequestError v),
           log_opt (\<lambda>x. add_object Z ''internalServiceError'' (InternalServiceError_MarshalLogObject
               Z (Some x)))
               (WorkflowService_RespondActivityTaskCanceledByID_Result.InternalServiceError v),
           log_opt (\<lambda>x. add_object Z ''entityNotExistError'' (EntityNotExistsError_MarshalLogObject
               Z (Some x)))
               (WorkflowService_RespondActivityTaskCanceledByID_Result.EntityNotExistError v),
           log_opt (\<lambda>x. add_object Z ''domainNotActiveError'' (DomainNotActiveError_MarshalLogObject
               Z (Some x)))
               (WorkflowService_RespondActivityTaskCanceledByID_Result.DomainNotActiveError v),
           log_opt (\<lambda>x. add_object Z ''limitExceededError'' (LimitExceededError_MarshalLogObject Z
               (Some x))) (WorkflowService_RespondActivityTaskCanceledByID_Result.LimitExceededError
               v),
           log_opt (\<lambda>x. add_object Z ''serviceBusyError'' (ServiceBusyError_MarshalLogObject Z (Some
               x))) (WorkflowService_RespondActivityTaskCanceledByID_Result.ServiceBusyError v),
           log_opt (\<lambda>x. add_object Z ''clientVersionNotSupportedError''
               (ClientVersionNotSupportedError_MarshalLogObject Z (Some x)))
               (WorkflowService_RespondActivityTaskCanceledByID_Result.ClientVersionNotSupportedError v)])"

definition WorkflowService_PollForDecisionTask_Args_MarshalLogObject :: "('o, 'a) zap \<Rightarrow>
    WorkflowService_PollForDecisionTask_Args option \<Rightarrow> 'o log_action" where
  "WorkflowService_PollForDecisionTask_Args_MarshalLogObject Z v =
     (case v of None \<Rightarrow> log_all []
      | Some v \<Rightarrow> log_all
          [log_opt (\<lambda>x. add_object Z ''pollRequest'' (PollForDecisionTaskRequest_MarshalLogObject Z
              (Some x))) (WorkflowService_PollForDecisionTask_Args.PollRequest v)])"

definition WorkflowService_PollForDecisionTask_Result_MarshalLogObject :: "('o, 'a) zap \<Rightarrow>
    WorkflowService_PollForDecisionTask_Result option \<Rightarrow> 'o log_action" where
  "WorkflowService_PollForDecisionTask_Result_MarshalLogObject Z v =
     (case v of None \<Rightarrow> log_all []
      | Some v \<Rightarrow> log_all
          [log_opt (\<lambda>x. add_object Z ''success'' (PollForDecisionTaskResponse_MarshalLogObject Z
              (Some x))) (WorkflowService_PollForDecisionTask_Result.Success v),
           log_opt (\<lambda>x. add_object Z ''badRequestError'' (BadRequestError_MarshalLogObject Z (Some
               x))) (WorkflowService_PollForDecisionTask_Result.BadRequestError v),
           log_opt (\<lambda>x. add_object Z ''internalServiceError'' (InternalServiceError_MarshalLogObject
               Z (Some x))) (WorkflowService_PollForDecisionTask_Result.InternalServiceError v),
           log_opt (\<lambda>x. add_object Z ''serviceBusyError'' (ServiceBusyError_MarshalLogObject Z (Some
               x))) (WorkflowService_PollForDecisionTask_Result.ServiceBusyError v),
           log_opt (\<lambda>x. add_object Z ''limitExceededError'' (LimitExceededError_MarshalLogObject Z
               (Some x))) (WorkflowService_PollForDecisionTask_Result.LimitExceededError v),
           log_opt (\<lambda>x. add_object Z ''entityNotExistError'' (EntityNotExistsError_MarshalLogObject
               Z (Some x))) (WorkflowService_PollForDecisionTask_Result.EntityNotExistError v),
           log_opt (\<lambda>x. add_object Z ''domainNotActiveError'' (DomainNotActiveError_MarshalLogObject
               Z (Some x))) (WorkflowService_PollForDecisionTask_Result.DomainNotActiveError v),
           log_opt (\<lambda>x. add_object Z ''clientVersionNotSupportedError''
               (ClientVersionNotSupportedError_MarshalLogObject Z (Some x)))
               (WorkflowService_PollForDecisionTask_Result.ClientVersionNotSupportedError v)])"

definition WorkflowService_RespondDecisionTaskCompleted_Args_MarshalLogObject :: "('o, 'a) zap \<Rightarrow>
    WorkflowService_RespondDecisionTaskCompleted_Args option \<Rightarrow> 'o log_action" where
  "WorkflowService_RespondDecisionTaskCompleted_Args_MarshalLogObject Z v =
     (case v of None \<Rightarrow> log_all []
      | Some v \<Rightarrow> log_all
          [log_opt (\<lambda>x. add_object Z ''completeRequest''
              (RespondDecisionTaskCompletedRequest_MarshalLogObject Z (Some x)))
              (WorkflowService_RespondDecisionTaskCompleted_Args.CompleteRequest v)])"

definition WorkflowService_RespondDecisionTaskCompleted_Result_MarshalLogObject :: "('o, 'a) zap \<Rightarrow>
    WorkflowService_RespondDecisionTaskCompleted_Result option \<Rightarrow> 'o log_action" where
  "WorkflowService_RespondDecisionTaskCompleted_Result_MarshalLogObject Z v =
     (case v of None \<Rightarrow> log_all []
      | Some v \<Rightarrow> log_all
          [log_opt (\<lambda>x. add_object Z ''success''
              (RespondDecisionTaskCompletedResponse_MarshalLogObject Z (Some x)))
              (WorkflowService_RespondDecisionTaskCompleted_Result.Success v),
           log_opt (\<lambda>x. add_object Z ''badRequestError'' (BadRequestError_MarshalLogObject Z (Some
               x))) (WorkflowService_RespondDecisionTaskCompleted_Result.BadRequestError v),
           log_opt (\<lambda>x. add_object Z ''internalServiceError'' (InternalServiceError_MarshalLogObject
               Z (Some x)))
               (WorkflowService_RespondDecisionTaskCompleted_Result.InternalServiceError v),
           log_opt (\<lambda>x. add_object Z ''entityNotExistError'' (EntityNotExistsError_MarshalLogObject
               Z (Some x))) (WorkflowService_RespondDecisionTaskCompleted_Result.EntityNotExistError
               v),
           log_opt (\<lambda>x. add_object Z ''domainNotActiveError'' (DomainNotActiveError_MarshalLogObject
               Z (Some x)))
               (WorkflowService_RespondDecisionTaskCompleted_Result.DomainNotActiveError v),
           log_opt (\<lambda>x. add_object Z ''limitExceededError'' (LimitExceededError_MarshalLogObject Z
               (Some x))) (WorkflowService_RespondDecisionTaskCompleted_Result.LimitExceededError
               v),
           log_opt (\<lambda>x. add_object Z ''serviceBusyError'' (ServiceBusyError_MarshalLogObject Z (Some
               x))) (WorkflowService_RespondDecisionTaskCompleted_Result.ServiceBusyError v),
           log_opt (\<lambda>x. add_object Z ''clientVersionNotSupportedError''
               (ClientVersionNotSupportedError_MarshalLogObject Z (Some x)))
               (WorkflowService_RespondDecisionTaskCompleted_Result.ClientVersionNotSupportedError
               v)])"

definition WorkflowService_RespondDecisionTaskFailed_Args_MarshalLogObject :: "('o, 'a) zap \<Rightarrow>
    WorkflowService_RespondDecisionTaskFailed_Args option \<Rightarrow> 'o log_action" where
  "WorkflowService_RespondDecisionTaskFailed_Args_MarshalLogObject Z v =
     (case v of None \<Rightarrow> log_all []
      | Some v \<Rightarrow> log_all
          [log_opt (\<lambda>x. add_object Z ''failedRequest''
              (RespondDecisionTaskFailedRequest_MarshalLogObject Z (Some x)))
              (WorkflowService_RespondDecisionTaskFailed_Args.FailedRequest v)])"

definition WorkflowService_RespondDecisionTaskFailed_Result_MarshalLogObject :: "('o, 'a) zap \<Rightarrow>
    WorkflowService_RespondDecisionTaskFailed_Result option \<Rightarrow> 'o log_action" where
  "WorkflowService_RespondDecisionTaskFailed_Result_MarshalLogObject Z v =
     (case v of None \<Rightarrow> log_all []
      | Some v \<Rightarrow> log_all
          [log_opt (\<lambda>x. add_object Z ''badRequestError'' (BadRequestError_MarshalLogObject Z (Some
              x))) (WorkflowService_RespondDecisionTaskFailed_Result.BadRequestError v),
           log_opt (\<lambda>x. add_object Z ''internalServiceError'' (InternalServiceError_MarshalLogObject
               Z (Some x))) (WorkflowService_RespondDecisionTaskFailed_Result.InternalServiceError
               v),
           log_opt (\<lambda>x. add_object Z ''entityNotExistError'' (EntityNotExistsError_MarshalLogObject
               Z (Some x))) (WorkflowService_RespondDecisionTaskFailed_Result.EntityNotExistError
               v),
           log_opt (\<lambda>x. add_object Z ''domainNotActiveError'' (DomainNotActiveError_MarshalLogObject
               Z (Some x))) (WorkflowService_RespondDecisionTaskFailed_Result.DomainNotActiveError
               v),
           log_opt (\<lambda>x. add_object Z ''limitExceededError'' (LimitExceededError_MarshalLogObject Z
               (Some x))) (WorkflowService_RespondDecisionTaskFailed_Result.LimitExceededError v),
           log_opt (\<lambda>x. add_object Z ''serviceBusyError'' (ServiceBusyError_MarshalLogObject Z (Some
               x))) (WorkflowService_RespondDecisionTaskFailed_Result.ServiceBusyError v),
           log_opt (\<lambda>x. add_object Z ''clientVersionNotSupportedError''
               (ClientVersionNotSupportedError_MarshalLogObject Z (Some x)))
               (WorkflowService_RespondDecisionTaskFailed_Result.ClientVersionNotSupportedError
               v)])"

definition WorkflowService_RespondQueryTaskCompleted_Args_MarshalLogObject :: "('o, 'a) zap \<Rightarrow>
    WorkflowService_RespondQueryTaskCompleted_Args option \<Rightarrow> 'o log_action" where
  "WorkflowService_RespondQueryTaskCompleted_Args_MarshalLogObject Z v =
     (case v of None \<Rightarrow> log_all []
      | Some v \<Rightarrow> log_all
          [log_opt (\<lambda>x. add_object Z ''completeRequest''
              (RespondQueryTaskCompletedRequest_MarshalLogObject Z (Some x)))
              (WorkflowService_RespondQueryTaskCompleted_Args.CompleteRequest v)])"

definition WorkflowService_RespondQueryTaskCompleted_Result_MarshalLogObject :: "('o, 'a) zap \<Rightarrow>
    WorkflowService_RespondQueryTaskCompleted_Result option \<Rightarrow> 'o log_action" where
  "WorkflowService_RespondQueryTaskCompleted_Result_MarshalLogObject Z v =
     (case v of None \<Rightarrow> log_all []
      | Some v \<Rightarrow> log_all
          [log_opt (\<lambda>x. add_object Z ''badRequestError'' (BadRequestError_MarshalLogObject Z (Some
              x))) (WorkflowService_RespondQueryTaskCompleted_Result.BadRequestError v),
           log_opt (\<lambda>x. add_object Z ''internalServiceError'' (InternalServiceError_MarshalLogObject
               Z (Some x))) (WorkflowService_RespondQueryTaskCompleted_Result.InternalServiceError
               v),
           log_opt (\<lambda>x. add_object Z ''entityNotExistError'' (EntityNotExistsError_MarshalLogObject
               Z (Some x))) (WorkflowService_RespondQueryTaskCompleted_Result.EntityNotExistError
               v),
           log_opt (\<lambda>x. add_object Z ''limitExceededError'' (LimitExceededError_MarshalLogObject Z
               (Some x))) (WorkflowService_RespondQueryTaskCompleted_Result.LimitExceededError v),
           log_opt (\<lambda>x. add_object Z ''serviceBusyError'' (ServiceBusyError_MarshalLogObject Z (Some
               x))) (WorkflowService_RespondQueryTaskCompleted_Result.ServiceBusyError v),
           log_opt (\<lambda>x. add_object Z ''domainNotActiveError'' (DomainNotActiveError_MarshalLogObject
               Z (Some x))) (WorkflowService_RespondQueryTaskCompleted_Result.DomainNotActiveError
               v),
           log_opt (\<lambda>x. add_object Z ''clientVersionNotSupportedError''
               (ClientVersionNotSupportedError_MarshalLogObject Z (Some x)))
               (WorkflowService_RespondQueryTaskCompleted_Result.ClientVersionNotSupportedError
               v)])"

definition WorkflowService_QueryWorkflow_Args_MarshalLogObject :: "('o, 'a) zap \<Rightarrow>
    WorkflowService_QueryWorkflow_Args option \<Rightarrow> 'o log_action" where
  "WorkflowService_QueryWorkflow_Args_MarshalLogObject Z v =
     (case v of None \<Rightarrow> log_all []
      | Some v \<Rightarrow> log_all
          [log_opt (\<lambda>x. add_object Z ''queryRequest'' (QueryWorkflowRequest_MarshalLogObject Z (Some
              x))) (WorkflowService_QueryWorkflow_Args.QueryRequest v)])"

definition WorkflowService_QueryWorkflow_Result_MarshalLogObject :: "('o, 'a) zap \<Rightarrow>
    WorkflowService_QueryWorkflow_Result option \<Rightarrow> 'o log_action" where
  "WorkflowService_QueryWorkflow_Result_MarshalLogObject Z v =
     (case v of None \<Rightarrow> log_all []
      | Some v \<Rightarrow> log_all
          [log_opt (\<lambda>x. add_object Z ''success'' (QueryWorkflowResponse_MarshalLogObject Z (Some
              x))) (WorkflowService_QueryWorkflow_Result.Success v),
           log_opt (\<lambda>x. add_object Z ''badRequestError'' (BadRequestError_MarshalLogObject Z (Some
               x))) (WorkflowService_QueryWorkflow_Result.BadRequestError v),
           log_opt (\<lambda>x. add_object Z ''internalServiceError'' (InternalServiceError_MarshalLogObject
               Z (Some x))) (WorkflowService_QueryWorkflow_Result.InternalServiceError v),
           log_opt (\<lambda>x. add_object Z ''entityNotExistError'' (EntityNotExistsError_MarshalLogObject
               Z (Some x))) (WorkflowService_QueryWorkflow_Result.EntityNotExistError v),
           log_opt (\<lambda>x. add_object Z ''queryFailedError'' (QueryFailedError_MarshalLogObject Z (Some
               x))) (WorkflowService_QueryWorkflow_Result.QueryFailedError v),
           log_opt (\<lambda>x. add_object Z ''limitExceededError'' (LimitExceededError_MarshalLogObject Z
               (Some x))) (WorkflowService_QueryWorkflow_Result.LimitExceededError v),
           log_opt (\<lambda>x. add_object Z ''serviceBusyError'' (ServiceBusyError_MarshalLogObject Z (Some
               x))) (WorkflowService_QueryWorkflow_Result.ServiceBusyError v),
           log_opt (\<lambda>x. add_object Z ''clientVersionNotSupportedError''
               (ClientVersionNotSupportedError_MarshalLogObject Z (Some x)))
               (WorkflowService_QueryWorkflow_Result.ClientVersionNotSupportedError v)])"

definition WorkflowService_ResetStickyTaskList_Args_MarshalLogObject :: "('o, 'a) zap \<Rightarrow>
    WorkflowService_ResetStickyTaskList_Args option \<Rightarrow> 'o log_action" where
  "WorkflowService_ResetStickyTaskList_Args_MarshalLogObject Z v =
     (case v of None \<Rightarrow> log_all []
      | Some v \<Rightarrow> log_all
          [log_opt (\<lambda>x. add_object Z ''resetRequest'' (ResetStickyTaskListRequest_MarshalLogObject Z
              (Some x))) (WorkflowService_ResetStickyTaskList_Args.ResetRequest v)])"

definition WorkflowService_ResetStickyTaskList_Result_MarshalLogObject :: "('o, 'a) zap \<Rightarrow>
    WorkflowService_ResetStickyTaskList_Result option \<Rightarrow> 'o log_action" where
  "WorkflowService_ResetStickyTaskList_Result_MarshalLogObject Z v =
     (case v of None \<Rightarrow> log_all []
      | Some v \<Rightarrow> log_all
          [log_opt (\<lambda>x. add_object Z ''success'' (ResetStickyTaskListResponse_MarshalLogObject Z
              (Some x))) (WorkflowService_ResetStickyTaskList_Result.Success v),
           log_opt (\<lambda>x. add_object Z ''badRequestError'' (BadRequestError_MarshalLogObject Z (Some
               x))) (WorkflowService_ResetStickyTaskList_Result.BadRequestError v),
           log_opt (\<lambda>x. add_object Z ''internalServiceError'' (InternalServiceError_MarshalLogObject
               Z (Some x))) (WorkflowService_ResetStickyTaskList_Result.InternalServiceError v),
           log_opt (\<lambda>x. add_object Z ''entityNotExistError'' (EntityNotExistsError_MarshalLogObject
               Z (Some x))) (WorkflowService_ResetStickyTaskList_Result.EntityNotExistError v),
           log_opt (\<lambda>x. add_object Z ''limitExceededError'' (LimitExceededError_MarshalLogObject Z
               (Some x))) (WorkflowService_ResetStickyTaskList_Result.LimitExceededError v),
           log_opt (\<lambda>x. add_object Z ''serviceBusyError'' (ServiceBusyError_MarshalLogObject Z (Some
               x))) (WorkflowService_ResetStickyTaskList_Result.ServiceBusyError v),
           log_opt (\<lambda>x. add_object Z ''domainNotActiveError'' (DomainNotActiveError_MarshalLogObject
               Z (Some x))) (WorkflowService_ResetStickyTaskList_Result.DomainNotActiveError v),
           log_opt (\<lambda>x. add_object Z ''clientVersionNotSupportedError''
               (ClientVersionNotSupportedError_MarshalLogObject Z (Some x)))
               (WorkflowService_ResetStickyTaskList_Result.ClientVersionNotSupportedError v)])"

definition WorkflowService_StartWorkflowExecution_Args_MarshalLogObject :: "('o, 'a) zap \<Rightarrow>
    WorkflowService_StartWorkflowExecution_Args option \<Rightarrow> 'o log_action" where
  "WorkflowService_StartWorkflowExecution_Args_MarshalLogObject Z v =
     (case v of None \<Rightarrow> log_all []
      | Some v \<Rightarrow> log_all
          [log_opt (\<lambda>x. add_object Z ''startRequest''
              (StartWorkflowExecutionRequest_MarshalLogObject Z (Some x)))
              (WorkflowService_StartWorkflowExecution_Args.StartRequest v)])"

definition WorkflowService_StartWorkflowExecution_Result_MarshalLogObject :: "('o, 'a) zap \<Rightarrow>
    WorkflowService_StartWorkflowExecution_Result option \<Rightarrow> 'o log_action" where
  "WorkflowService_StartWorkflowExecution_Result_MarshalLogObject Z v =
     (case v of None \<Rightarrow> log_all []
      | Some v \<Rightarrow> log_all
          [log_opt (\<lambda>x. add_object Z ''success'' (StartWorkflowExecutionResponse_MarshalLogObject Z
              (Some x))) (WorkflowService_StartWorkflowExecution_Result.Success v),
           log_opt (\<lambda>x. add_object Z ''badRequestError'' (BadRequestError_MarshalLogObject Z (Some
               x))) (WorkflowService_StartWorkflowExecution_Result.BadRequestError v),
           log_opt (\<lambda>x. add_object Z ''internalServiceError'' (InternalServiceError_MarshalLogObject
               Z (Some x))) (WorkflowService_StartWorkflowExecution_Result.InternalServiceError v),
           log_opt (\<lambda>x. add_object Z ''sessionAlreadyExistError''
               (WorkflowExecutionAlreadyStartedError_MarshalLogObject Z (Some x)))
               (WorkflowService_StartWorkflowExecution_Result.SessionAlreadyExistError v),
           log_opt (\<lambda>x. add_object Z ''serviceBusyError'' (ServiceBusyError_MarshalLogObject Z (Some
               x))) (WorkflowService_StartWorkflowExecution_Result.ServiceBusyError v),
           log_opt (\<lambda>x. add_object Z ''domainNotActiveError'' (DomainNotActiveError_MarshalLogObject
               Z (Some x))) (WorkflowService_StartWorkflowExecution_Result.DomainNotActiveError v),
           log_opt (\<lambda>x. add_object Z ''limitExceededError'' (LimitExceededError_MarshalLogObject Z
               (Some x))) (WorkflowService_StartWorkflowExecution_Result.LimitExceededError v),
           log_opt (\<lambda>x. add_object Z ''entityNotExistError'' (EntityNotExistsError_MarshalLogObject
               Z (Some x))) (WorkflowService_StartWorkflowExecution_Result.EntityNotExistError v),
           log_opt (\<lambda>x. add_object Z ''clientVersionNotSupportedError''
               (ClientVersionNotSupportedError_MarshalLogObject Z (Some x)))
               (WorkflowService_StartWorkflowExecution_Result.ClientVersionNotSupportedError v)])"

definition WorkflowService_SignalWithStartWorkflowExecution_Args_MarshalLogObject :: "('o, 'a) zap \<Rightarrow>
    WorkflowService_SignalWithStartWorkflowExecution_Args option \<Rightarrow> 'o log_action" where
  "WorkflowService_SignalWithStartWorkflowExecution_Args_MarshalLogObject Z v =
     (case v of None \<Rightarrow> log_all []
      | Some v \<Rightarrow> log_all
          [log_opt (\<lambda>x. add_object Z ''signalWithStartRequest''
              (SignalWithStartWorkflowExecutionRequest_MarshalLogObject Z (Some x)))
              (WorkflowService_SignalWithStartWorkflowExecution_Args.SignalWithStartRequest v)])"

definition WorkflowService_SignalWithStartWorkflowExecution_Result_MarshalLogObject :: "('o, 'a) zap
    \<Rightarrow> WorkflowService_SignalWithStartWorkflowExecution_Result option \<Rightarrow> 'o log_action" where
  "WorkflowService_SignalWithStartWorkflowExecution_Result_MarshalLogObject Z v =
     (case v of None \<Rightarrow> log_all []
      | Some v \<Rightarrow> log_all
          [log_opt (\<lambda>x. add_object Z ''success'' (StartWorkflowExecutionResponse_MarshalLogObject Z
              (Some x))) (WorkflowService_SignalWithStartWorkflowExecution_Result.Success v),
           log_opt (\<lambda>x. add_object Z ''badRequestError'' (BadRequestError_MarshalLogObject Z (Some
               x))) (WorkflowService_SignalWithStartWorkflowExecution_Result.BadRequestError v),
           log_opt (\<lambda>x. add_object Z ''internalServiceError'' (InternalServiceError_MarshalLogObject
               Z (Some x)))
               (WorkflowService_SignalWithStartWorkflowExecution_Result.InternalServiceError v),
           log_opt (\<lambda>x. add_object Z ''entityNotExistError'' (EntityNotExistsError_MarshalLogObject
               Z (Some x)))
               (WorkflowService_SignalWithStartWorkflowExecution_Result.EntityNotExistError v),
           log_opt (\<lambda>x. add_object Z ''serviceBusyError'' (ServiceBusyError_MarshalLogObject Z (Some
               x))) (WorkflowService_SignalWithStartWorkflowExecution_Result.ServiceBusyError v),
           log_opt (\<lambda>x. add_object Z ''domainNotActiveError'' (DomainNotActiveError_MarshalLogObject
               Z (Some x)))
               (WorkflowService_SignalWithStartWorkflowExecution_Result.DomainNotActiveError v),
           log_opt (\<lambda>x. add_object Z ''limitExceededError'' (LimitExceededError_MarshalLogObject Z
               (Some x)))
               (WorkflowService_SignalWithStartWorkflowExecution_Result.LimitExceededError v),
           log_opt (\<lambda>x. add_object Z ''workflowAlreadyStartedError''
               (WorkflowExecutionAlreadyStartedError_MarshalLogObject Z (Some x)))
               (WorkflowService_SignalWithStartWorkflowExecution_Result.WorkflowAlreadyStartedError
               v),
           log_opt (\<lambda>x. add_object Z ''clientVersionNotSupportedError''
               (ClientVersionNotSupportedError_MarshalLogObject Z (Some x)))
               (WorkflowService_SignalWithStartWorkflowExecution_Result.ClientVersionNotSupportedError v)])"

definition WorkflowService_SignalWorkflowExecution_Args_MarshalLogObject :: "('o, 'a) zap \<Rightarrow>
    WorkflowService_SignalWorkflowExecution_Args option \<Rightarrow> 'o log_action" where
  "WorkflowService_SignalWorkflowExecution_Args_MarshalLogObject Z v =
     (case v of None \<Rightarrow> log_all []
      | Some v \<Rightarrow> log_all
          [log_opt (\<lambda>x. add_object Z ''signalRequest''
              (SignalWorkflowExecutionRequest_MarshalLogObject Z (Some x)))
              (WorkflowService_SignalWorkflowExecution_Args.SignalRequest v)])"

definition WorkflowService_SignalWorkflowExecution_Result_MarshalLogObject :: "('o, 'a) zap \<Rightarrow>
    WorkflowService_SignalWorkflowExecution_Result option \<Rightarrow> 'o log_action" where
  "WorkflowService_SignalWorkflowExecution_Result_MarshalLogObject Z v =
     (case v of None \<Rightarrow> log_all []
      | Some v \<Rightarrow> log_all
          [log_opt (\<lambda>x. add_object Z ''badRequestError'' (BadRequestError_MarshalLogObject Z (Some
              x))) (WorkflowService_SignalWorkflowExecution_Result.BadRequestError v),
           log_opt (\<lambda>x. add_object Z ''internalServiceError'' (InternalServiceError_MarshalLogObject
               Z (Some x))) (WorkflowService_SignalWorkflowExecution_Result.InternalServiceError v),
           log_opt (\<lambda>x. add_object Z ''entityNotExistError'' (EntityNotExistsError_MarshalLogObject
               Z (Some x))) (WorkflowService_SignalWorkflowExecution_Result.EntityNotExistError v),
           log_opt (\<lambda>x. add_object Z ''serviceBusyError'' (ServiceBusyError_MarshalLogObject Z (Some
               x))) (WorkflowService_SignalWorkflowExecution_Result.ServiceBusyError v),
           log_opt (\<lambda>x. add_object Z ''domainNotActiveError'' (DomainNotActiveError_MarshalLogObject
               Z (Some x))) (WorkflowService_SignalWorkflowExecution_Result.DomainNotActiveError v),
           log_opt (\<lambda>x. add_object Z ''limitExceededError'' (LimitExceededError_MarshalLogObject Z
               (Some x))) (WorkflowService_SignalWorkflowExecution_Result.LimitExceededError v),
           log_opt (\<lambda>x. add_object Z ''clientVersionNotSupportedError''
               (ClientVersionNotSupportedError_MarshalLogObject Z (Some x)))
               (WorkflowService_SignalWorkflowExecution_Result.ClientVersionNotSupportedError v)])"

definition WorkflowService_TerminateWorkflowExecution_Args_MarshalLogObject :: "('o, 'a) zap \<Rightarrow>
    WorkflowService_TerminateWorkflowExecution_Args option \<Rightarrow> 'o log_action" where
  "WorkflowService_TerminateWorkflowExecution_Args_MarshalLogObject Z v =
     (case v of None \<Rightarrow> log_all []
      | Some v \<Rightarrow> log_all
          [log_opt (\<lambda>x. add_object Z ''terminateRequest''
              (TerminateWorkflowExecutionRequest_MarshalLogObject Z (Some x)))
              (WorkflowService_TerminateWorkflowExecution_Args.TerminateRequest v)])"

definition WorkflowService_TerminateWorkflowExecution_Result_MarshalLogObject :: "('o, 'a) zap \<Rightarrow>
    WorkflowService_TerminateWorkflowExecution_Result option \<Rightarrow> 'o log_action" where
  "WorkflowService_TerminateWorkflowExecution_Result_MarshalLogObject Z v =
     (case v of None \<Rightarrow> log_all []
      | Some v \<Rightarrow> log_all
          [log_opt (\<lambda>x. add_object Z ''badRequestError'' (BadRequestError_MarshalLogObject Z (Some
              x))) (WorkflowService_TerminateWorkflowExecution_Result.BadRequestError v),
           log_opt (\<lambda>x. add_object Z ''internalServiceError'' (InternalServiceError_MarshalLogObject
               Z (Some x))) (WorkflowService_TerminateWorkflowExecution_Result.InternalServiceError
               v),
           log_opt (\<lambda>x. add_object Z ''entityNotExistError'' (EntityNotExistsError_MarshalLogObject
               Z (Some x))) (WorkflowService_TerminateWorkflowExecution_Result.EntityNotExistError
               v),
           log_opt (\<lambda>x. add_object Z ''serviceBusyError'' (ServiceBusyError_MarshalLogObject Z (Some
               x))) (WorkflowService_TerminateWorkflowExecution_Result.ServiceBusyError v),
           log_opt (\<lambda>x. add_object Z ''domainNotActiveError'' (DomainNotActiveError_MarshalLogObject
               Z (Some x))) (WorkflowService_TerminateWorkflowExecution_Result.DomainNotActiveError
               v),
           log_opt (\<lambda>x. add_object Z ''limitExceededError'' (LimitExceededError_MarshalLogObject Z
               (Some x))) (WorkflowService_TerminateWorkflowExecution_Result.LimitExceededError v),
           log_opt (\<lambda>x. add_object Z ''clientVersionNotSupportedError''
               (ClientVersionNotSupportedError_MarshalLogObject Z (Some x)))
               (WorkflowService_TerminateWorkflowExecution_Result.ClientVersionNotSupportedError
               v)])"

definition WorkflowService_RequestCancelWorkflowExecution_Args_MarshalLogObject :: "('o, 'a) zap \<Rightarrow>
    WorkflowService_RequestCancelWorkflowExecution_Args option \<Rightarrow> 'o log_action" where
  "WorkflowService_RequestCancelWorkflowExecution_Args_MarshalLogObject Z v =
     (case v of None \<Rightarrow> log_all []
      | Some v \<Rightarrow> log_all
          [log_opt (\<lambda>x. add_object Z ''cancelRequest''
              (RequestCancelWorkflowExecutionRequest_MarshalLogObject Z (Some x)))
              (WorkflowService_RequestCancelWorkflowExecution_Args.CancelRequest v)])"

definition WorkflowService_RequestCancelWorkflowExecution_Result_MarshalLogObject :: "('o, 'a) zap \<Rightarrow>
    WorkflowService_RequestCancelWorkflowExecution_Result option \<Rightarrow> 'o log_action" where
  "WorkflowService_RequestCancelWorkflowExecution_Result_MarshalLogObject Z v =
     (case v of None \<Rightarrow> log_all []
      | Some v \<Rightarrow> log_all
          [log_opt (\<lambda>x. add_object Z ''badRequestError'' (BadRequestError_MarshalLogObject Z (Some
              x))) (WorkflowService_RequestCancelWorkflowExecution_Result.BadRequestError v),
           log_opt (\<lambda>x. add_object Z ''internalServiceError'' (InternalServiceError_MarshalLogObject
               Z (Some x)))
               (WorkflowService_RequestCancelWorkflowExecution_Result.InternalServiceError v),
           log_opt (\<lambda>x. add_object Z ''entityNotExistError'' (EntityNotExistsError_MarshalLogObject
               Z (Some x)))
               (WorkflowService_RequestCancelWorkflowExecution_Result.EntityNotExistError v),
           log_opt (\<lambda>x. add_object Z ''cancellationAlreadyRequestedError''
               (CancellationAlreadyRequestedError_MarshalLogObject Z (Some x)))
               (WorkflowService_RequestCancelWorkflowExecution_Result.CancellationAlreadyRequestedError v),
           log_opt (\<lambda>x. add_object Z ''serviceBusyError'' (ServiceBusyError_MarshalLogObject Z (Some
               x))) (WorkflowService_RequestCancelWorkflowExecution_Result.ServiceBusyError v),
           log_opt (\<lambda>x. add_object Z ''domainNotActiveError'' (DomainNotActiveError_MarshalLogObject
               Z (Some x)))
               (WorkflowService_RequestCancelWorkflowExecution_Result.DomainNotActiveError v),
           log_opt (\<lambda>x. add_object Z ''limitExceededError'' (LimitExceededError_MarshalLogObject Z
               (Some x))) (WorkflowService_RequestCancelWorkflowExecution_Result.LimitExceededError
               v),
           log_opt (\<lambda>x. add_object Z ''clientVersionNotSupportedError''
               (ClientVersionNotSupportedError_MarshalLogObject Z (Some x)))
               (WorkflowService_RequestCancelWorkflowExecution_Result.ClientVersionNotSupportedError
               v)])"

definition WorkflowService_ResetWorkflowExecution_Args_MarshalLogObject :: "('o, 'a) zap \<Rightarrow>
    WorkflowService_ResetWorkflowExecution_Args option \<Rightarrow> 'o log_action" where
  "WorkflowService_ResetWorkflowExecution_Args_MarshalLogObject Z v =
     (case v of None \<Rightarrow> log_all []
      | Some v \<Rightarrow> log_all
          [log_opt (\<lambda>x. add_object Z ''resetRequest''
              (ResetWorkflowExecutionRequest_MarshalLogObject Z (Some x)))
              (WorkflowService_ResetWorkflowExecution_Args.ResetRequest v)])"

definition WorkflowService_ResetWorkflowExecution_Result_MarshalLogObject :: "('o, 'a) zap \<Rightarrow>
    WorkflowService_ResetWorkflowExecution_Result option \<Rightarrow> 'o log_action" where
  "WorkflowService_ResetWorkflowExecution_Result_MarshalLogObject Z v =
     (case v of None \<Rightarrow> log_all []
      | Some v \<Rightarrow> log_all
          [log_opt (\<lambda>x. add_object Z ''success'' (ResetWorkflowExecutionResponse_MarshalLogObject Z
              (Some x))) (WorkflowService_ResetWorkflowExecution_Result.Success v),
           log_opt (\<lambda>x. add_object Z ''badRequestError'' (BadRequestError_MarshalLogObject Z (Some
               x))) (WorkflowService_ResetWorkflowExecution_Result.BadRequestError v),
           log_opt (\<lambda>x. add_object Z ''internalServiceError'' (InternalServiceError_MarshalLogObject
               Z (Some x))) (WorkflowService_ResetWorkflowExecution_Result.InternalServiceError v),
           log_opt (\<lambda>x. add_object Z ''entityNotExistError'' (EntityNotExistsError_MarshalLogObject
               Z (Some x))) (WorkflowService_ResetWorkflowExecution_Result.EntityNotExistError v),
           log_opt (\<lambda>x. add_object Z ''serviceBusyError'' (ServiceBusyError_MarshalLogObject Z (Some
               x))) (WorkflowService_ResetWorkflowExecution_Result.ServiceBusyError v),
           log_opt (\<lambda>x. add_object Z ''domainNotActiveError'' (DomainNotActiveError_MarshalLogObject
               Z (Some x))) (WorkflowService_ResetWorkflowExecution_Result.DomainNotActiveError v),
           log_opt (\<lambda>x. add_object Z ''limitExceededError'' (LimitExceededError_MarshalLogObject Z
               (Some x))) (WorkflowService_ResetWorkflowExecution_Result.LimitExceededError v),
           log_opt (\<lambda>x. add_object Z ''clientVersionNotSupportedError''
               (ClientVersionNotSupportedError_MarshalLogObject Z (Some x)))
               (WorkflowService_ResetWorkflowExecution_Result.ClientVersionNotSupportedError v)])"

definition WorkflowService_GetWorkflowExecutionHistory_Args_MarshalLogObject :: "('o, 'a) zap \<Rightarrow>
    WorkflowService_GetWorkflowExecutionHistory_Args option \<Rightarrow> 'o log_action" where
  "WorkflowService_GetWorkflowExecutionHistory_Args_MarshalLogObject Z v =
     (case v of None \<Rightarrow> log_all []
      | Some v \<Rightarrow> log_all
          [log_opt (\<lambda>x. add_object Z ''getRequest''
              (GetWorkflowExecutionHistoryRequest_MarshalLogObject Z (Some x)))
              (WorkflowService_GetWorkflowExecutionHistory_Args.GetRequest v)])"

definition WorkflowService_GetWorkflowExecutionHistory_Result_MarshalLogObject :: "('o, 'a) zap \<Rightarrow>
    WorkflowService_GetWorkflowExecutionHistory_Result option \<Rightarrow> 'o log_action" where
  "WorkflowService_GetWorkflowExecutionHistory_Result_MarshalLogObject Z v =
     (case v of None \<Rightarrow> log_all []
      | Some v \<Rightarrow> log_all
          [log_opt (\<lambda>x. add_object Z ''success''
              (GetWorkflowExecutionHistoryResponse_MarshalLogObject Z (Some x)))
              (WorkflowService_GetWorkflowExecutionHistory_Result.Success v),
           log_opt (\<lambda>x. add_object Z ''badRequestError'' (BadRequestError_MarshalLogObject Z (Some
               x))) (WorkflowService_GetWorkflowExecutionHistory_Result.BadRequestError v),
           log_opt (\<lambda>x. add_object Z ''internalServiceError'' (InternalServiceError_MarshalLogObject
               Z (Some x))) (WorkflowService_GetWorkflowExecutionHistory_Result.InternalServiceError
               v),
           log_opt (\<lambda>x. add_object Z ''entityNotExistError'' (EntityNotExistsError_MarshalLogObject
               Z (Some x))) (WorkflowService_GetWorkflowExecutionHistory_Result.EntityNotExistError
               v),
           log_opt (\<lambda>x. add_object Z ''serviceBusyError'' (ServiceBusyError_MarshalLogObject Z (Some
               x))) (WorkflowService_GetWorkflowExecutionHistory_Result.ServiceBusyError v),
           log_opt (\<lambda>x. add_object Z ''clientVersionNotSupportedError''
               (ClientVersionNotSupportedError_MarshalLogObject Z (Some x)))
               (WorkflowService_GetWorkflowExecutionHistory_Result.ClientVersionNotSupportedError
               v)])"

definition WorkflowService_RegisterDomain_Args_MarshalLogObject :: "('o, 'a) zap \<Rightarrow>
    WorkflowService_RegisterDomain_Args option \<Rightarrow> 'o log_action" where
  "WorkflowService_RegisterDomain_Args_MarshalLogObject Z v =
     (case v of None \<Rightarrow> log_all []
      | Some v \<Rightarrow> log_all
          [log_opt (\<lambda>x. add_object Z ''registerRequest'' (RegisterDomainRequest_MarshalLogObject Z
              (Some x))) (WorkflowService_RegisterDomain_Args.RegisterRequest v)])"

definition WorkflowService_RegisterDomain_Result_MarshalLogObject :: "('o, 'a) zap \<Rightarrow>
    WorkflowService_RegisterDomain_Result option \<Rightarrow> 'o log_action" where
  "WorkflowService_RegisterDomain_Result_MarshalLogObject Z v =
     (case v of None \<Rightarrow> log_all []
      | Some v \<Rightarrow> log_all
          [log_opt (\<lambda>x. add_object Z ''badRequestError'' (BadRequestError_MarshalLogObject Z (Some
              x))) (WorkflowService_RegisterDomain_Result.BadRequestError v),
           log_opt (\<lambda>x. add_object Z ''internalServiceError'' (InternalServiceError_MarshalLogObject
               Z (Some x))) (WorkflowService_RegisterDomain_Result.InternalServiceError v),
           log_opt (\<lambda>x. add_object Z ''domainExistsError''
               (DomainAlreadyExistsError_MarshalLogObject Z (Some x)))
               (WorkflowService_RegisterDomain_Result.DomainExistsError v),
           log_opt (\<lambda>x. add_object Z ''serviceBusyError'' (ServiceBusyError_MarshalLogObject Z (Some
               x))) (WorkflowService_RegisterDomain_Result.ServiceBusyError v),
           log_opt (\<lambda>x. add_object Z ''clientVersionNotSupportedError''
               (ClientVersionNotSupportedError_MarshalLogObject Z (Some x)))
               (WorkflowService_RegisterDomain_Result.ClientVersionNotSupportedError v)])"

definition WorkflowService_DescribeDomain_Args_MarshalLogObject :: "('o, 'a) zap \<Rightarrow>
    WorkflowService_DescribeDomain_Args option \<Rightarrow> 'o log_action" where
  "WorkflowService_DescribeDomain_Args_MarshalLogObject Z v =
     (case v of None \<Rightarrow> log_all []
      | Some v \<Rightarrow> log_all
          [log_opt (\<lambda>x. add_object Z ''describeRequest'' (DescribeDomainRequest_MarshalLogObject Z
              (Some x))) (WorkflowService_DescribeDomain_Args.DescribeRequest v)])"

definition WorkflowService_DescribeDomain_Result_MarshalLogObject :: "('o, 'a) zap \<Rightarrow>
    WorkflowService_DescribeDomain_Result option \<Rightarrow> 'o log_action" where
  "WorkflowService_DescribeDomain_Result_MarshalLogObject Z v =
     (case v of None \<Rightarrow> log_all []
      | Some v \<Rightarrow> log_all
          [log_opt (\<lambda>x. add_object Z ''success'' (DescribeDomainResponse_MarshalLogObject Z (Some
              x))) (WorkflowService_DescribeDomain_Result.Success v),
           log_opt (\<lambda>x. add_object Z ''badRequestError'' (BadRequestError_MarshalLogObject Z (Some
               x))) (WorkflowService_DescribeDomain_Result.BadRequestError v),
           log_opt (\<lambda>x. add_object Z ''internalServiceError'' (InternalServiceError_MarshalLogObject
               Z (Some x))) (WorkflowService_DescribeDomain_Result.InternalServiceError v),
           log_opt (\<lambda>x. add_object Z ''entityNotExistError'' (EntityNotExistsError_MarshalLogObject
               Z (Some x))) (WorkflowService_DescribeDomain_Result.EntityNotExistError v),
           log_opt (\<lambda>x. add_object Z ''serviceBusyError'' (ServiceBusyError_MarshalLogObject Z (Some
               x))) (WorkflowService_DescribeDomain_Result.ServiceBusyError v),
           log_opt (\<lambda>x. add_object Z ''clientVersionNotSupportedError''
               (ClientVersionNotSupportedError_MarshalLogObject Z (Some x)))
               (WorkflowService_DescribeDomain_Result.ClientVersionNotSupportedError v)])"

definition WorkflowService_ListDomains_Args_MarshalLogObject :: "('o, 'a) zap \<Rightarrow>
    WorkflowService_ListDomains_Args option \<Rightarrow> 'o log_action" where
  "WorkflowService_ListDomains_Args_MarshalLogObject Z v =
     (case v of None \<Rightarrow> log_all []
      | Some v \<Rightarrow> log_all
          [log_opt (\<lambda>x. add_object Z ''listRequest'' (ListDomainsRequest_MarshalLogObject Z (Some
              x))) (WorkflowService_ListDomains_Args.ListRequest v)])"

definition WorkflowService_ListDomains_Result_MarshalLogObject :: "('o, 'a) zap \<Rightarrow>
    WorkflowService_ListDomains_Result option \<Rightarrow> 'o log_action" where
  "WorkflowService_ListDomains_Result_MarshalLogObject Z v =
     (case v of None \<Rightarrow> log_all []
      | Some v \<Rightarrow> log_all
          [log_opt (\<lambda>x. add_object Z ''success'' (ListDomainsResponse_MarshalLogObject Z (Some x)))
              (WorkflowService_ListDomains_Result.Success v),
           log_opt (\<lambda>x. add_object Z ''badRequestError'' (BadRequestError_MarshalLogObject Z (Some
               x))) (WorkflowService_ListDomains_Result.BadRequestError v),
           log_opt (\<lambda>x. add_object Z ''internalServiceError'' (InternalServiceError_MarshalLogObject
               Z (Some x))) (WorkflowService_ListDomains_Result.InternalServiceError v),
           log_opt (\<lambda>x. add_object Z ''entityNotExistError'' (EntityNotExistsError_MarshalLogObject
               Z (Some x))) (WorkflowService_ListDomains_Result.EntityNotExistError v),
           log_opt (\<lambda>x. add_object Z ''serviceBusyError'' (ServiceBusyError_MarshalLogObject Z (Some
               x))) (WorkflowService_ListDomains_Result.ServiceBusyError v),
           log_opt (\<lambda>x. add_object Z ''clientVersionNotSupportedError''
               (ClientVersionNotSupportedError_MarshalLogObject Z (Some x)))
               (WorkflowService_ListDomains_Result.ClientVersionNotSupportedError v)])"

definition WorkflowService_UpdateDomain_Args_MarshalLogObject :: "('o, 'a) zap \<Rightarrow>
    WorkflowService_UpdateDomain_Args option \<Rightarrow> 'o log_action" where
  "WorkflowService_UpdateDomain_Args_MarshalLogObject Z v =
     (case v of None \<Rightarrow> log_all []
      | Some v \<Rightarrow> log_all
          [log_opt (\<lambda>x. add_object Z ''updateRequest'' (UpdateDomainRequest_MarshalLogObject Z (Some
              x))) (WorkflowService_UpdateDomain_Args.UpdateRequest v)])"

definition WorkflowService_UpdateDomain_Result_MarshalLogObject :: "('o, 'a) zap \<Rightarrow>
    WorkflowService_UpdateDomain_Result option \<Rightarrow> 'o log_action" where
  "WorkflowService_UpdateDomain_Result_MarshalLogObject Z v =
     (case v of None \<Rightarrow> log_all []
      | Some v \<Rightarrow> log_all
          [log_opt (\<lambda>x. add_object Z ''success'' (UpdateDomainResponse_MarshalLogObject Z (Some x)))
              (WorkflowService_UpdateDomain_Result.Success v),
           log_opt (\<lambda>x. add_object Z ''badRequestError'' (BadRequestError_MarshalLogObject Z (Some
               x))) (WorkflowService_UpdateDomain_Result.BadRequestError v),
           log_opt (\<lambda>x. add_object Z ''internalServiceError'' (InternalServiceError_MarshalLogObject
               Z (Some x))) (WorkflowService_UpdateDomain_Result.InternalServiceError v),
           log_opt (\<lambda>x. add_object Z ''entityNotExistError'' (EntityNotExistsError_MarshalLogObject
               Z (Some x))) (WorkflowService_UpdateDomain_Result.EntityNotExistError v),
           log_opt (\<lambda>x. add_object Z ''serviceBusyError'' (ServiceBusyError_MarshalLogObject Z (Some
               x))) (WorkflowService_UpdateDomain_Result.ServiceBusyError v),
           log_opt (\<lambda>x. add_object Z ''domainNotActiveError'' (DomainNotActiveError_MarshalLogObject
               Z (Some x))) (WorkflowService_UpdateDomain_Result.DomainNotActiveError v),
           log_opt (\<lambda>x. add_object Z ''clientVersionNotSupportedError''
               (ClientVersionNotSupportedError_MarshalLogObject Z (Some x)))
               (WorkflowService_UpdateDomain_Result.ClientVersionNotSupportedError v)])"

definition WorkflowService_DeprecateDomain_Args_MarshalLogObject :: "('o, 'a) zap \<Rightarrow>
    WorkflowService_DeprecateDomain_Args option \<Rightarrow> 'o log_action" where
  "WorkflowService_DeprecateDomain_Args_MarshalLogObject Z v =
     (case v of None \<Rightarrow> log_all []
      | Some v \<Rightarrow> log_all
          [log_opt (\<lambda>x. add_object Z ''deprecateRequest'' (DeprecateDomainRequest_MarshalLogObject Z
              (Some x))) (WorkflowService_DeprecateDomain_Args.DeprecateRequest v)])"

definition WorkflowService_DeprecateDomain_Result_MarshalLogObject :: "('o, 'a) zap \<Rightarrow>
    WorkflowService_DeprecateDomain_Result option \<Rightarrow> 'o log_action" where
  "WorkflowService_DeprecateDomain_Result_MarshalLogObject Z v =
     (case v of None \<Rightarrow> log_all []
      | Some v \<Rightarrow> log_all
          [log_opt (\<lambda>x. add_object Z ''badRequestError'' (BadRequestError_MarshalLogObject Z (Some
              x))) (WorkflowService_DeprecateDomain_Result.BadRequestError v),
           log_opt (\<lambda>x. add_object Z ''internalServiceError'' (InternalServiceError_MarshalLogObject
               Z (Some x))) (WorkflowService_DeprecateDomain_Result.InternalServiceError v),
           log_opt (\<lambda>x. add_object Z ''entityNotExistError'' (EntityNotExistsError_MarshalLogObject
               Z (Some x))) (WorkflowService_DeprecateDomain_Result.EntityNotExistError v),
           log_opt (\<lambda>x. add_object Z ''serviceBusyError'' (ServiceBusyError_MarshalLogObject Z (Some
               x))) (WorkflowService_DeprecateDomain_Result.ServiceBusyError v),
           log_opt (\<lambda>x. add_object Z ''domainNotActiveError'' (DomainNotActiveError_MarshalLogObject
               Z (Some x))) (WorkflowService_DeprecateDomain_Result.DomainNotActiveError v),
           log_opt (\<lambda>x. add_object Z ''clientVersionNotSupportedError''
               (ClientVersionNotSupportedError_MarshalLogObject Z (Some x)))
               (WorkflowService_DeprecateDomain_Result.ClientVersionNotSupportedError v)])"

definition WorkflowService_DescribeTaskList_Args_MarshalLogObject :: "('o, 'a) zap \<Rightarrow>
    WorkflowService_DescribeTaskList_Args option \<Rightarrow> 'o log_action" where
  "WorkflowService_DescribeTaskList_Args_MarshalLogObject Z v =
     (case v of None \<Rightarrow> log_all []
      | Some v \<Rightarrow> log_all
          [log_opt (\<lambda>x. add_object Z ''request'' (DescribeTaskListRequest_MarshalLogObject Z (Some
              x))) (WorkflowService_DescribeTaskList_Args.Request v)])"

definition WorkflowService_DescribeTaskList_Result_MarshalLogObject :: "('o, 'a) zap \<Rightarrow>
    WorkflowService_DescribeTaskList_Result option \<Rightarrow> 'o log_action" where
  "WorkflowService_DescribeTaskList_Result_MarshalLogObject Z v =
     (case v of None \<Rightarrow> log_all []
      | Some v \<Rightarrow> log_all
          [log_opt (\<lambda>x. add_object Z ''success'' (DescribeTaskListResponse_MarshalLogObject Z (Some
              x))) (WorkflowService_DescribeTaskList_Result.Success v),
           log_opt (\<lambda>x. add_object Z ''badRequestError'' (BadRequestError_MarshalLogObject Z (Some
               x))) (WorkflowService_DescribeTaskList_Result.BadRequestError v),
           log_opt (\<lambda>x. add_object Z ''internalServiceError'' (InternalServiceError_MarshalLogObject
               Z (Some x))) (WorkflowService_DescribeTaskList_Result.InternalServiceError v),
           log_opt (\<lambda>x. add_object Z ''entityNotExistError'' (EntityNotExistsError_MarshalLogObject
               Z (Some x))) (WorkflowService_DescribeTaskList_Result.EntityNotExistError v),
           log_opt (\<lambda>x. add_object Z ''limitExceededError'' (LimitExceededError_MarshalLogObject Z
               (Some x))) (WorkflowService_DescribeTaskList_Result.LimitExceededError v),
           log_opt (\<lambda>x. add_object Z ''serviceBusyError'' (ServiceBusyError_MarshalLogObject Z (Some
               x))) (WorkflowService_DescribeTaskList_Result.ServiceBusyError v),
           log_opt (\<lambda>x. add_object Z ''clientVersionNotSupportedError''
               (ClientVersionNotSupportedError_MarshalLogObject Z (Some x)))
               (WorkflowService_DescribeTaskList_Result.ClientVersionNotSupportedError v)])"

definition WorkflowService_ListOpenWorkflowExecutions_Args_MarshalLogObject :: "('o, 'a) zap \<Rightarrow>
    WorkflowService_ListOpenWorkflowExecutions_Args option \<Rightarrow> 'o log_action" where
  "WorkflowService_ListOpenWorkflowExecutions_Args_MarshalLogObject Z v =
     (case v of None \<Rightarrow> log_all []
      | Some v \<Rightarrow> log_all
          [log_opt (\<lambda>x. add_object Z ''listRequest''
              (ListOpenWorkflowExecutionsRequest_MarshalLogObject Z (Some x)))
              (WorkflowService_ListOpenWorkflowExecutions_Args.ListRequest v)])"

definition WorkflowService_ListOpenWorkflowExecutions_Result_MarshalLogObject :: "('o, 'a) zap \<Rightarrow>
    WorkflowService_ListOpenWorkflowExecutions_Result option \<Rightarrow> 'o log_action" where
  "WorkflowService_ListOpenWorkflowExecutions_Result_MarshalLogObject Z v =
     (case v of None \<Rightarrow> log_all []
      | Some v \<Rightarrow> log_all
          [log_opt (\<lambda>x. add_object Z ''success''
              (ListOpenWorkflowExecutionsResponse_MarshalLogObject Z (Some x)))
              (WorkflowService_ListOpenWorkflowExecutions_Result.Success v),
           log_opt (\<lambda>x. add_object Z ''badRequestError'' (BadRequestError_MarshalLogObject Z (Some
               x))) (WorkflowService_ListOpenWorkflowExecutions_Result.BadRequestError v),
           log_opt (\<lambda>x. add_object Z ''internalServiceError'' (InternalServiceError_MarshalLogObject
               Z (Some x))) (WorkflowService_ListOpenWorkflowExecutions_Result.InternalServiceError
               v),
           log_opt (\<lambda>x. add_object Z ''entityNotExistError'' (EntityNotExistsError_MarshalLogObject
               Z (Some x))) (WorkflowService_ListOpenWorkflowExecutions_Result.EntityNotExistError
               v),
           log_opt (\<lambda>x. add_object Z ''serviceBusyError'' (ServiceBusyError_MarshalLogObject Z (Some
               x))) (WorkflowService_ListOpenWorkflowExecutions_Result.ServiceBusyError v),
           log_opt (\<lambda>x. add_object Z ''limitExceededError'' (LimitExceededError_MarshalLogObject Z
               (Some x))) (WorkflowService_ListOpenWorkflowExecutions_Result.LimitExceededError v),
           log_opt (\<lambda>x. add_object Z ''clientVersionNotSupportedError''
               (ClientVersionNotSupportedError_MarshalLogObject Z (Some x)))
               (WorkflowService_ListOpenWorkflowExecutions_Result.ClientVersionNotSupportedError
               v)])"

definition WorkflowService_ListClosedWorkflowExecutions_Args_MarshalLogObject :: "('o, 'a) zap \<Rightarrow>
    WorkflowService_ListClosedWorkflowExecutions_Args option \<Rightarrow> 'o log_action" where
  "WorkflowService_ListClosedWorkflowExecutions_Args_MarshalLogObject Z v =
     (case v of None \<Rightarrow> log_all []
      | Some v \<Rightarrow> log_all
          [log_opt (\<lambda>x. add_object Z ''listRequest''
              (ListClosedWorkflowExecutionsRequest_MarshalLogObject Z (Some x)))
              (WorkflowService_ListClosedWorkflowExecutions_Args.ListRequest v)])"

definition WorkflowService_ListClosedWorkflowExecutions_Result_MarshalLogObject :: "('o, 'a) zap \<Rightarrow>
    WorkflowService_ListClosedWorkflowExecutions_Result option \<Rightarrow> 'o log_action" where
  "WorkflowService_ListClosedWorkflowExecutions_Result_MarshalLogObject Z v =
     (case v of None \<Rightarrow> log_all []
      | Some v \<Rightarrow> log_all
          [log_opt (\<lambda>x. add_object Z ''success''
              (ListClosedWorkflowExecutionsResponse_MarshalLogObject Z (Some x)))
              (WorkflowService_ListClosedWorkflowExecutions_Result.Success v),
           log_opt (\<lambda>x. add_object Z ''badRequestError'' (BadRequestError_MarshalLogObject Z (Some
               x))) (WorkflowService_ListClosedWorkflowExecutions_Result.BadRequestError v),
           log_opt (\<lambda>x. add_object Z ''internalServiceError'' (InternalServiceError_MarshalLogObject
               Z (Some x)))
               (WorkflowService_ListClosedWorkflowExecutions_Result.InternalServiceError v),
           log_opt (\<lambda>x. add_object Z ''entityNotExistError'' (EntityNotExistsError_MarshalLogObject
               Z (Some x))) (WorkflowService_ListClosedWorkflowExecutions_Result.EntityNotExistError
               v),
           log_opt (\<lambda>x. add_object Z ''serviceBusyError'' (ServiceBusyError_MarshalLogObject Z (Some
               x))) (WorkflowService_ListClosedWorkflowExecutions_Result.ServiceBusyError v),
           log_opt (\<lambda>x. add_object Z ''clientVersionNotSupportedError''
               (ClientVersionNotSupportedError_MarshalLogObject Z (Some x)))
               (WorkflowService_ListClosedWorkflowExecutions_Result.ClientVersionNotSupportedError
               v)])"

definition WorkflowService_ListWorkflowExecutions_Args_MarshalLogObject :: "('o, 'a) zap \<Rightarrow>
    WorkflowService_ListWorkflowExecutions_Args option \<Rightarrow> 'o log_action" where
  "WorkflowService_ListWorkflowExecutions_Args_MarshalLogObject Z v =
     (case v of None \<Rightarrow> log_all []
      | Some v \<Rightarrow> log_all
          [log_opt (\<lambda>x. add_object Z ''listRequest'' (ListWorkflowExecutionsRequest_MarshalLogObject
              Z (Some x))) (WorkflowService_ListWorkflowExecutions_Args.ListRequest v)])"

definition WorkflowService_ListWorkflowExecutions_Result_MarshalLogObject :: "('o, 'a) zap \<Rightarrow>
    WorkflowService_ListWorkflowExecutions_Result option \<Rightarrow> 'o log_action" where
  "WorkflowService_ListWorkflowExecutions_Result_MarshalLogObject Z v =
     (case v of None \<Rightarrow> log_all []
      | Some v \<Rightarrow> log_all
          [log_opt (\<lambda>x. add_object Z ''success'' (ListWorkflowExecutionsResponse_MarshalLogObject Z
              (Some x))) (WorkflowService_ListWorkflowExecutions_Result.Success v),
           log_opt (\<lambda>x. add_object Z ''badRequestError'' (BadRequestError_MarshalLogObject Z (Some
               x))) (WorkflowService_ListWorkflowExecutions_Result.BadRequestError v),
           log_opt (\<lambda>x. add_object Z ''internalServiceError'' (InternalServiceError_MarshalLogObject
               Z (Some x))) (WorkflowService_ListWorkflowExecutions_Result.InternalServiceError v),
           log_opt (\<lambda>x. add_object Z ''entityNotExistError'' (EntityNotExistsError_MarshalLogObject
               Z (Some x))) (WorkflowService_ListWorkflowExecutions_Result.EntityNotExistError v),
           log_opt (\<lambda>x. add_object Z ''serviceBusyError'' (ServiceBusyError_MarshalLogObject Z (Some
               x))) (WorkflowService_ListWorkflowExecutions_Result.ServiceBusyError v),
           log_opt (\<lambda>x. add_object Z ''clientVersionNotSupportedError''
               (ClientVersionNotSupportedError_MarshalLogObject Z (Some x)))
               (WorkflowService_ListWorkflowExecutions_Result.ClientVersionNotSupportedError v)])"

definition WorkflowService_ListArchivedWorkflowExecutions_Args_MarshalLogObject :: "('o, 'a) zap \<Rightarrow>
    WorkflowService_ListArchivedWorkflowExecutions_Args option \<Rightarrow> 'o log_action" where
  "WorkflowService_ListArchivedWorkflowExecutions_Args_MarshalLogObject Z v =
     (case v of None \<Rightarrow> log_all []
      | Some v \<Rightarrow> log_all
          [log_opt (\<lambda>x. add_object Z ''listRequest''
              (ListArchivedWorkflowExecutionsRequest_MarshalLogObject Z (Some x)))
              (WorkflowService_ListArchivedWorkflowExecutions_Args.ListRequest v)])"

definition WorkflowService_ListArchivedWorkflowExecutions_Result_MarshalLogObject :: "('o, 'a) zap \<Rightarrow>
    WorkflowService_ListArchivedWorkflowExecutions_Result option \<Rightarrow> 'o log_action" where
  "WorkflowService_ListArchivedWorkflowExecutions_Result_MarshalLogObject Z v =
     (case v of None \<Rightarrow> log_all []
      | Some v \<Rightarrow> log_all
          [log_opt (\<lambda>x. add_object Z ''success''
              (ListArchivedWorkflowExecutionsResponse_MarshalLogObject Z (Some x)))
              (WorkflowService_ListArchivedWorkflowExecutions_Result.Success v),
           log_opt (\<lambda>x. add_object Z ''badRequestError'' (BadRequestError_MarshalLogObject Z (Some
               x))) (WorkflowService_ListArchivedWorkflowExecutions_Result.BadRequestError v),
           log_opt (\<lambda>x. add_object Z ''internalServiceError'' (InternalServiceError_MarshalLogObject
               Z (Some x)))
               (WorkflowService_ListArchivedWorkflowExecutions_Result.InternalServiceError v),
           log_opt (\<lambda>x. add_object Z ''entityNotExistError'' (EntityNotExistsError_MarshalLogObject
               Z (Some x)))
               (WorkflowService_ListArchivedWorkflowExecutions_Result.EntityNotExistError v),
           log_opt (\<lambda>x. add_object Z ''serviceBusyError'' (ServiceBusyError_MarshalLogObject Z (Some
               x))) (WorkflowService_ListArchivedWorkflowExecutions_Result.ServiceBusyError v),
           log_opt (\<lambda>x. add_object Z ''clientVersionNotSupportedError''
               (ClientVersionNotSupportedError_MarshalLogObject Z (Some x)))
               (WorkflowService_ListArchivedWorkflowExecutions_Result.ClientVersionNotSupportedError
               v)])"

definition WorkflowService_ScanWorkflowExecutions_Args_MarshalLogObject :: "('o, 'a) zap \<Rightarrow>
    WorkflowService_ScanWorkflowExecutions_Args option \<Rightarrow> 'o log_action" where
  "WorkflowService_ScanWorkflowExecutions_Args_MarshalLogObject Z v =
     (case v of None \<Rightarrow> log_all []
      | Some v \<Rightarrow> log_all
          [log_opt (\<lambda>x. add_object Z ''listRequest'' (ListWorkflowExecutionsRequest_MarshalLogObject
              Z (Some x))) (WorkflowService_ScanWorkflowExecutions_Args.ListRequest v)])"

definition WorkflowService_ScanWorkflowExecutions_Result_MarshalLogObject :: "('o, 'a) zap \<Rightarrow>
    WorkflowService_ScanWorkflowExecutions_Result option \<Rightarrow> 'o log_action" where
  "WorkflowService_ScanWorkflowExecutions_Result_MarshalLogObject Z v =
     (case v of None \<Rightarrow> log_all []
      | Some v \<Rightarrow> log_all
          [log_opt (\<lambda>x. add_object Z ''success'' (ListWorkflowExecutionsResponse_MarshalLogObject Z
              (Some x))) (WorkflowService_ScanWorkflowExecutions_Result.Success v),
           log_opt (\<lambda>x. add_object Z ''badRequestError'' (BadRequestError_MarshalLogObject Z (Some
               x))) (WorkflowService_ScanWorkflowExecutions_Result.BadRequestError v),
           log_opt (\<lambda>x. add_object Z ''internalServiceError'' (InternalServiceError_MarshalLogObject
               Z (Some x))) (WorkflowService_ScanWorkflowExecutions_Result.InternalServiceError v),
           log_opt (\<lambda>x. add_object Z ''entityNotExistError'' (EntityNotExistsError_MarshalLogObject
               Z (Some x))) (WorkflowService_ScanWorkflowExecutions_Result.EntityNotExistError v),
           log_opt (\<lambda>x. add_object Z ''serviceBusyError'' (ServiceBusyError_MarshalLogObject Z (Some
               x))) (WorkflowService_ScanWorkflowExecutions_Result.ServiceBusyError v),
           log_opt (\<lambda>x. add_object Z ''clientVersionNotSupportedError''
               (ClientVersionNotSupportedError_MarshalLogObject Z (Some x)))
               (WorkflowService_ScanWorkflowExecutions_Result.ClientVersionNotSupportedError v)])"

definition WorkflowService_CountWorkflowExecutions_Args_MarshalLogObject :: "('o, 'a) zap \<Rightarrow>
    WorkflowService_CountWorkflowExecutions_Args option \<Rightarrow> 'o log_action" where
  "WorkflowService_CountWorkflowExecutions_Args_MarshalLogObject Z v =
     (case v of None \<Rightarrow> log_all []
      | Some v \<Rightarrow> log_all
          [log_opt (\<lambda>x. add_object Z ''countRequest''
              (CountWorkflowExecutionsRequest_MarshalLogObject Z (Some x)))
              (WorkflowService_CountWorkflowExecutions_Args.CountRequest v)])"

definition WorkflowService_CountWorkflowExecutions_Result_MarshalLogObject :: "('o, 'a) zap \<Rightarrow>
    WorkflowService_CountWorkflowExecutions_Result option \<Rightarrow> 'o log_action" where
  "WorkflowService_CountWorkflowExecutions_Result_MarshalLogObject Z v =
     (case v of None \<Rightarrow> log_all []
      | Some v \<Rightarrow> log_all
          [log_opt (\<lambda>x. add_object Z ''success'' (CountWorkflowExecutionsResponse_MarshalLogObject Z
              (Some x))) (WorkflowService_CountWorkflowExecutions_Result.Success v),
           log_opt (\<lambda>x. add_object Z ''badRequestError'' (BadRequestError_MarshalLogObject Z (Some
               x))) (WorkflowService_CountWorkflowExecutions_Result.BadRequestError v),
           log_opt (\<lambda>x. add_object Z ''internalServiceError'' (InternalServiceError_MarshalLogObject
               Z (Some x))) (WorkflowService_CountWorkflowExecutions_Result.InternalServiceError v),
           log_opt (\<lambda>x. add_object Z ''entityNotExistError'' (EntityNotExistsError_MarshalLogObject
               Z (Some x))) (WorkflowService_CountWorkflowExecutions_Result.EntityNotExistError v),
           log_opt (\<lambda>x. add_object Z ''serviceBusyError'' (ServiceBusyError_MarshalLogObject Z (Some
               x))) (WorkflowService_CountWorkflowExecutions_Result.ServiceBusyError v),
           log_opt (\<lambda>x. add_object Z ''clientVersionNotSupportedError''
               (ClientVersionNotSupportedError_MarshalLogObject Z (Some x)))
               (WorkflowService_CountWorkflowExecutions_Result.ClientVersionNotSupportedError v)])"

definition WorkflowService_GetSearchAttributes_Args_MarshalLogObject :: "('o, 'a) zap \<Rightarrow>
    WorkflowService_GetSearchAttributes_Args option \<Rightarrow> 'o log_action" where
  "WorkflowService_GetSearchAttributes_Args_MarshalLogObject Z v =
     (case v of None \<Rightarrow> log_all []
      | Some v \<Rightarrow> log_all
          [])"

definition WorkflowService_GetSearchAttributes_Result_MarshalLogObject :: "('o, 'a) zap \<Rightarrow>
    WorkflowService_GetSearchAttributes_Result option \<Rightarrow> 'o log_action" where
  "WorkflowService_GetSearchAttributes_Result_MarshalLogObject Z v =
     (case v of None \<Rightarrow> log_all []
      | Some v \<Rightarrow> log_all
          [log_opt (\<lambda>x. add_object Z ''success'' (GetSearchAttributesResponse_MarshalLogObject Z
              (Some x))) (WorkflowService_GetSearchAttributes_Result.Success v),
           log_opt (\<lambda>x. add_object Z ''internalServiceError'' (InternalServiceError_MarshalLogObject
               Z (Some x))) (WorkflowService_GetSearchAttributes_Result.InternalServiceError v),
           log_opt (\<lambda>x. add_object Z ''serviceBusyError'' (ServiceBusyError_MarshalLogObject Z (Some
               x))) (WorkflowService_GetSearchAttributes_Result.ServiceBusyError v),
           log_opt (\<lambda>x. add_object Z ''clientVersionNotSupportedError''
               (ClientVersionNotSupportedError_MarshalLogObject Z (Some x)))
               (WorkflowService_GetSearchAttributes_Result.ClientVersionNotSupportedError v)])"

definition WorkflowService_DescribeWorkflowExecution_Args_MarshalLogObject :: "('o, 'a) zap \<Rightarrow>
    WorkflowService_DescribeWorkflowExecution_Args option \<Rightarrow> 'o log_action" where
  "WorkflowService_DescribeWorkflowExecution_Args_MarshalLogObject Z v =
     (case v of None \<Rightarrow> log_all []
      | Some v \<Rightarrow> log_all
          [log_opt (\<lambda>x. add_object Z ''describeRequest''
              (DescribeWorkflowExecutionRequest_MarshalLogObject Z (Some x)))
              (WorkflowService_DescribeWorkflowExecution_Args.DescribeRequest v)])"

definition WorkflowService_DescribeWorkflowExecution_Result_MarshalLogObject :: "('o, 'a) zap \<Rightarrow>
    WorkflowService_DescribeWorkflowExecution_Result option \<Rightarrow> 'o log_action" where
  "WorkflowService_DescribeWorkflowExecution_Result_MarshalLogObject Z v =
     (case v of None \<Rightarrow> log_all []
      | Some v \<Rightarrow> log_all
          [log_opt (\<lambda>x. add_object Z ''success'' (DescribeWorkflowExecutionResponse_MarshalLogObject
              Z (Some x))) (WorkflowService_DescribeWorkflowExecution_Result.Success v),
           log_opt (\<lambda>x. add_object Z ''badRequestError'' (BadRequestError_MarshalLogObject Z (Some
               x))) (WorkflowService_DescribeWorkflowExecution_Result.BadRequestError v),
           log_opt (\<lambda>x. add_object Z ''internalServiceError'' (InternalServiceError_MarshalLogObject
               Z (Some x))) (WorkflowService_DescribeWorkflowExecution_Result.InternalServiceError
               v),
           log_opt (\<lambda>x. add_object Z ''entityNotExistError'' (EntityNotExistsError_MarshalLogObject
               Z (Some x))) (WorkflowService_DescribeWorkflowExecution_Result.EntityNotExistError
               v),
           log_opt (\<lambda>x. add_object Z ''limitExceededError'' (LimitExceededError_MarshalLogObject Z
               (Some x))) (WorkflowService_DescribeWorkflowExecution_Result.LimitExceededError v),
           log_opt (\<lambda>x. add_object Z ''serviceBusyError'' (ServiceBusyError_MarshalLogObject Z (Some
               x))) (WorkflowService_DescribeWorkflowExecution_Result.ServiceBusyError v),
           log_opt (\<lambda>x. add_object Z ''clientVersionNotSupportedError''
               (ClientVersionNotSupportedError_MarshalLogObject Z (Some x)))
               (WorkflowService_DescribeWorkflowExecution_Result.ClientVersionNotSupportedError
               v)])"

end
