(* ===== verification/RubyValues.thy ===== *)
theory RubyValues
  imports Decimal
begin

text \<open>
  The values and errors of the Ruby code (lib/cadence) and the conversions it uses:
  \<open>Integer#to_s\<close>, \<open>String#to_i\<close>, \<open>String#split\<close>, the JSON helpers of json.rb and the
  fallback of concerns/input_deserializer.rb. Oj, which json.rb calls, is a third-party
  library and a parameter (\<open>json_api\<close>).
\<close>

section \<open>Values\<close>

text \<open>
  A Thrift struct is its class name with its fields; any other object, one the code only
  passes on, is \<open>RObj\<close> with its identity.
\<close>

datatype rval =
    RNil | RBool bool | RInt int | RStr string | RSym string
  | RArr "rval list" | RHash "(rval \<times> rval) list"
  | RStruct string "(string \<times> rval) list" | RObj nat

text \<open>Ruby's \<open>==\<close>: hashes are compared by their entries, whatever their order.\<close>

fun rb_eq :: "rval \<Rightarrow> rval \<Rightarrow> bool" where
  "rb_eq (RArr xs) (RArr ys) \<longleftrightarrow> list_all2 rb_eq xs ys"
| "rb_eq (RHash xs) (RHash ys) \<longleftrightarrow>
     length xs = length ys \<and> (\<forall>(k, v)\<in>set xs. \<exists>(k', v')\<in>set ys. rb_eq k k' \<and> rb_eq v v')"
| "rb_eq (RStruct c xs) (RStruct d ys) \<longleftrightarrow>
     c = d \<and> list_all2 (\<lambda>(f, v) (g, w). f = g \<and> rb_eq v w) xs ys"
| "rb_eq x y \<longleftrightarrow> x = y"

lemma rb_eq_refl [simp]: "rb_eq x x"
proof (induction x)
  case (RArr xs)
  then show ?case by (simp add: list.rel_refl_strong)
next
  case (RHash kvs)
  then show ?case by (auto simp: case_prod_beta intro!: bexI)
next
  case (RStruct c fs)
  then show ?case by (simp, intro list.rel_refl_strong) fastforce
qed simp_all

text \<open>Only \<open>nil\<close> and \<open>false\<close> are falsy; \<open>a ||= b\<close> and \<open>a || b\<close>.\<close>

fun truthy :: "rval \<Rightarrow> bool" where
  "truthy RNil = False"
| "truthy (RBool b) = b"
| "truthy _ = True"

definition or_value :: "rval \<Rightarrow> rval \<Rightarrow> rval" where
  "or_value a b = (if truthy a then a else b)"

section \<open>Errors\<close>

text \<open>
  The exceptions the engine raises or lets through. The errors of the gem carry the data
  their messages are built from; \<open>UserError\<close> is an exception of workflow code,
  with its class and its message.
\<close>

datatype rb_error =
    NoMethodError string
  | NameError string
  | TypeError string
  | RuntimeError string
  | ParseError
  | ArgumentError string
  | CadenceError string
  | UnexpectedEventType string
  | UnexpectedDecisionType string
  | UnsupportedEvent string
  | NotScheduledUponReplay
  | UnexpectedDecision
  | WorkflowAlreadyCompletingError string
  | InvalidRetryPolicy string
  | FiberError string
  | UserError string rval

text \<open>\<open>NonDeterministicWorkflowError\<close> is raised at two places, with different messages.\<close>

fun non_deterministic :: "rb_error \<Rightarrow> bool" where
  "non_deterministic NotScheduledUponReplay = True"
| "non_deterministic UnexpectedDecision = True"
| "non_deterministic _ = False"

text \<open>Reading an attribute of a Thrift struct: \<open>nil\<close> and a struct without it raise.\<close>

fun get_field :: "rval \<Rightarrow> string \<Rightarrow> rb_error + rval" where
  "get_field (RStruct c fs) f =
     (case map_of fs f of None \<Rightarrow> Inl (NoMethodError f) | Some v \<Rightarrow> Inr v)"
| "get_field _ f = Inl (NoMethodError f)"

section \<open>Integers and strings\<close>

text \<open>\<open>Integer#to_s\<close>.\<close>

definition int_to_s :: "int \<Rightarrow> string" where
  "int_to_s i = (if i < 0 then CHR ''-'' # nat_digits (nat (- i)) else nat_digits (nat i))"

text \<open>
  \<open>String#to_i\<close>: blanks, an optional sign, then the longest run of digits, in which a
  single underscore may stand between two digits; 0 where there is none.
\<close>

definition is_space :: "char \<Rightarrow> bool" where
  "is_space c \<longleftrightarrow> c = CHR '' '' \<or> (9 \<le> (of_char c :: nat) \<and> (of_char c :: nat) \<le> 13)"

fun read_digits :: "nat \<Rightarrow> string \<Rightarrow> nat" where
  "read_digits acc [] = acc"
| "read_digits acc (c # cs) =
     (if is_digit c then
        (case cs of
           d # e # ds \<Rightarrow>
             if d = CHR ''_'' \<and> is_digit e then read_digits (10 * acc + digit_val c) (e # ds)
             else read_digits (10 * acc + digit_val c) cs
         | _ \<Rightarrow> read_digits (10 * acc + digit_val c) cs)
      else acc)"

definition str_to_i :: "string \<Rightarrow> int" where
  "str_to_i s =
     (case dropWhile is_space s of
        [] \<Rightarrow> 0
      | c # cs \<Rightarrow>
          if c = CHR ''-'' then - int (read_digits 0 cs)
          else if c = CHR ''+'' then int (read_digits 0 cs)
          else int (read_digits 0 (c # cs)))"

lemma is_digit_not_special:
  "is_digit c \<Longrightarrow> c \<noteq> CHR ''_'' \<and> c \<noteq> CHR ''-'' \<and> c \<noteq> CHR ''+'' \<and> \<not> is_space c"
  by (auto simp: is_digit_def is_space_def)

lemma read_digits_step:
  "is_digit c \<Longrightarrow> CHR ''_'' \<notin> set cs \<Longrightarrow>
   read_digits acc (c # cs) = read_digits (10 * acc + digit_val c) cs"
  by (subst read_digits.simps) (auto split: list.split simp del: read_digits.simps)

lemma read_digits_plain:
  "(\<And>c. c \<in> set cs \<Longrightarrow> is_digit c) \<Longrightarrow>
   read_digits acc cs = foldl (\<lambda>a c. 10 * a + digit_val c) acc cs"
proof (induction cs arbitrary: acc)
  case (Cons c cs)
  then have "CHR ''_'' \<notin> set cs" using is_digit_not_special by force
  with Cons show ?case by (simp add: read_digits_step del: read_digits.simps)
qed simp

lemma read_digits_nat_digits [simp]: "read_digits 0 (nat_digits n) = n"
  by (simp only: read_digits_plain [OF nat_digits_all_digits] foldl_nat_digits)

text \<open>The identifiers the engine hands to the service as strings come back unchanged.\<close>

lemma str_to_i_int_to_s [simp]: "str_to_i (int_to_s i) = i"
proof (cases "i < 0")
  case True
  then show ?thesis by (simp add: int_to_s_def str_to_i_def is_space_def)
next
  case False
  obtain c cs where c: "nat_digits (nat i) = c # cs" by (cases "nat_digits (nat i)") auto
  then have "is_digit c" using nat_digits_all_digits [of c "nat i"] by simp
  moreover have "read_digits 0 (c # cs) = nat i"
    using read_digits_nat_digits [of "nat i"] by (simp only: c)
  ultimately show ?thesis
    using False is_digit_not_special [of c]
    by (simp add: int_to_s_def str_to_i_def c del: read_digits.simps)
qed

text \<open>\<open>to_i\<close> of the values an attribute may hold.\<close>

fun rb_to_i :: "rval \<Rightarrow> rb_error + int" where
  "rb_to_i (RStr s) = Inr (str_to_i s)"
| "rb_to_i (RInt i) = Inr i"
| "rb_to_i RNil = Inr 0"
| "rb_to_i _ = Inl (NoMethodError ''to_i'')"

section \<open>JSON\<close>

text \<open>
  Oj, in object mode: \<open>load\<close> is \<open>None\<close> for a parse error. \<open>other_to_s\<close> is the \<open>to_s\<close> of
  objects that are not one of the plain values.
\<close>

record json_api =
  load :: "string \<Rightarrow> rval option"
  dump :: "rval \<Rightarrow> string"
  other_to_s :: "rval \<Rightarrow> string"

definition rb_to_s :: "json_api \<Rightarrow> rval \<Rightarrow> string" where
  "rb_to_s J v =
     (case v of
        RNil \<Rightarrow> [] | RBool b \<Rightarrow> (if b then ''true'' else ''false'') | RInt i \<Rightarrow> int_to_s i
      | RStr s \<Rightarrow> s | RSym s \<Rightarrow> s | _ \<Rightarrow> other_to_s J v)"

definition JSON_serialize :: "json_api \<Rightarrow> rval \<Rightarrow> string" where
  "JSON_serialize J value = dump J value"

definition JSON_deserialize :: "json_api \<Rightarrow> rval \<Rightarrow> rb_error + rval" where
  "JSON_deserialize J value =
     (case load J (rb_to_s J value) of None \<Rightarrow> Inl ParseError | Some v \<Rightarrow> Inr v)"

text \<open>\<open>split(/\n/)\<close>: the lines, without the empty ones at the end.\<close>

fun split_on :: "char \<Rightarrow> string \<Rightarrow> string list" where
  "split_on sep [] = [[]]"
| "split_on sep (c # cs) =
     (if c = sep then [] # split_on sep cs
      else (case split_on sep cs of [] \<Rightarrow> [[c]] | w # ws \<Rightarrow> (c # w) # ws))"

definition rb_split :: "char \<Rightarrow> string \<Rightarrow> string list" where
  "rb_split sep s = rev (dropWhile (\<lambda>w. w = []) (rev (split_on sep s)))"

text \<open>
  \<open>InputDeserializer#deserialize\<close>: a payload of the Go client, one value to a line, is
  read line by line after the parse error of the whole.
\<close>

fun mapM :: "('a \<Rightarrow> 'e + 'b) \<Rightarrow> 'a list \<Rightarrow> 'e + 'b list" where
  "mapM f [] = Inr []"
| "mapM f (x # xs) = and_then (f x) (\<lambda>y. and_then (mapM f xs) (\<lambda>ys. Inr (y # ys)))"

definition deserialize :: "json_api \<Rightarrow> rval \<Rightarrow> rb_error + rval" where
  "deserialize J input =
     (case JSON_deserialize J input of
        Inr v \<Rightarrow> Inr v
      | Inl _ \<Rightarrow>
          (case input of
             RStr s \<Rightarrow>
               and_then (mapM (\<lambda>arg. JSON_deserialize J (RStr arg)) (rb_split (CHR 0x0A) s))
                 (\<lambda>vs. Inr (RArr vs))
           | _ \<Rightarrow> Inl (NoMethodError ''split'')))"

text \<open>What the documentation of Oj promises of the values the code serializes.\<close>

definition json_roundtrips :: "json_api \<Rightarrow> rval \<Rightarrow> bool" where
  "json_roundtrips J v \<longleftrightarrow> load J (dump J v) = Some v"

lemma deserialize_serialize:
  "json_roundtrips J v \<Longrightarrow> deserialize J (RStr (JSON_serialize J v)) = Inr v"
  by (simp add: deserialize_def JSON_deserialize_def JSON_serialize_def rb_to_s_def json_roundtrips_def)

lemma split_on_nonempty [simp]: "split_on sep s \<noteq> []"
  by (cases s) (auto split: list.splits)

lemma split_on_plain: "sep \<notin> set w \<Longrightarrow> split_on sep w = [w]"
  by (induction w) auto

lemma split_on_line: "sep \<notin> set w \<Longrightarrow> split_on sep (w @ sep # s) = w # split_on sep s"
  by (induction w) auto

text \<open>Lines joined with a line break each, as the Go client writes them, are split again.\<close>

lemma rb_split_lines:
  assumes "\<And>w. w \<in> set ws \<Longrightarrow> w \<noteq> [] \<and> sep \<notin> set w"
  shows "rb_split sep (concat (List.map (\<lambda>w. w @ [sep]) ws)) = ws"
proof -
  have "split_on sep (concat (List.map (\<lambda>w. w @ [sep]) ws)) = ws @ [[]]"
    using assms by (induction ws) (auto simp: split_on_line)
  moreover have "dropWhile (\<lambda>w. w = []) (rev ws) = rev ws"
    using assms by (cases "rev ws") (auto simp: rev_eq_Cons_iff dest: arg_cong [of _ _ set])
  ultimately show ?thesis by (simp add: rb_split_def)
qed

lemma mapM_Inr: "mapM f xs = Inr ys \<longleftrightarrow> list_all2 (\<lambda>x y. f x = Inr y) xs ys"
  by (induction xs arbitrary: ys) (auto simp: and_then_Inr_iff list_all2_Cons1)

end
