(* ===== verification/Events.thy ===== *)
theory Events
  imports RubyValues
begin

text \<open>
  The events of a workflow's history: the types and attributes of the Thrift structs
  (lib/gen/thrift/shared_types.rb) and \<open>History::Event\<close>
  (lib/cadence/workflow/history/event.rb). An event's attributes are a Ruby value, so that
  an attribute its struct does not have is a \<open>NoMethodError\<close>, as in the code;
  \<open>event_ok\<close> says that the struct is the one of the event's type.
\<close>

section \<open>The types of events\<close>

datatype (plugins only: code size) event_type =
    WorkflowExecutionStarted
  | WorkflowExecutionCompleted
  | WorkflowExecutionFailed
  | WorkflowExecutionTimedOut
  | DecisionTaskScheduled
  | DecisionTaskStarted
  | DecisionTaskCompleted
  | DecisionTaskTimedOut
  | DecisionTaskFailed
  | ActivityTaskScheduled
  | ActivityTaskStarted
  | ActivityTaskCompleted
  | ActivityTaskFailed
  | ActivityTaskTimedOut
  | ActivityTaskCancelRequested
  | RequestCancelActivityTaskFailed
  | ActivityTaskCanceled
  | TimerStarted
  | TimerFired
  | CancelTimerFailed
  | TimerCanceled
  | WorkflowExecutionCancelRequested
  | WorkflowExecutionCanceled
  | RequestCancelExternalWorkflowExecutionInitiated
  | RequestCancelExternalWorkflowExecutionFailed
  | ExternalWorkflowExecutionCancelRequested
  | MarkerRecorded
  | WorkflowExecutionSignaled
  | WorkflowExecutionTerminated
  | WorkflowExecutionContinuedAsNew
  | StartChildWorkflowExecutionInitiated
  | StartChildWorkflowExecutionFailed
  | ChildWorkflowExecutionStarted
  | ChildWorkflowExecutionCompleted
  | ChildWorkflowExecutionFailed
  | ChildWorkflowExecutionCanceled
  | ChildWorkflowExecutionTimedOut
  | ChildWorkflowExecutionTerminated
  | SignalExternalWorkflowExecutionInitiated
  | SignalExternalWorkflowExecutionFailed
  | ExternalWorkflowExecutionSignaled
  | UpsertWorkflowSearchAttributes

primrec event_type_name :: "event_type \<Rightarrow> string" where
  "event_type_name WorkflowExecutionStarted = ''WorkflowExecutionStarted''"
| "event_type_name WorkflowExecutionCompleted = ''WorkflowExecutionCompleted''"
| "event_type_name WorkflowExecutionFailed = ''WorkflowExecutionFailed''"
| "event_type_name WorkflowExecutionTimedOut = ''WorkflowExecutionTimedOut''"
| "event_type_name DecisionTaskScheduled = ''DecisionTaskScheduled''"
| "event_type_name DecisionTaskStarted = ''DecisionTaskStarted''"
| "event_type_name DecisionTaskCompleted = ''DecisionTaskCompleted''"
| "event_type_name DecisionTaskTimedOut = ''DecisionTaskTimedOut''"
| "event_type_name DecisionTaskFailed = ''DecisionTaskFailed''"
| "event_type_name ActivityTaskScheduled = ''ActivityTaskScheduled''"
| "event_type_name ActivityTaskStarted = ''ActivityTaskStarted''"
| "event_type_name ActivityTaskCompleted = ''ActivityTaskCompleted''"
| "event_type_name ActivityTaskFailed = ''ActivityTaskFailed''"
| "event_type_name ActivityTaskTimedOut = ''ActivityTaskTimedOut''"
| "event_type_name ActivityTaskCancelRequested = ''ActivityTaskCancelRequested''"
| "event_type_name RequestCancelActivityTaskFailed = ''RequestCancelActivityTaskFailed''"
| "event_type_name ActivityTaskCanceled = ''ActivityTaskCanceled''"
| "event_type_name TimerStarted = ''TimerStarted''"
| "event_type_name TimerFired = ''TimerFired''"
| "event_type_name CancelTimerFailed = ''CancelTimerFailed''"
| "event_type_name TimerCanceled = ''TimerCanceled''"
| "event_type_name WorkflowExecutionCancelRequested = ''WorkflowExecutionCancelRequested''"
| "event_type_name WorkflowExecutionCanceled = ''WorkflowExecutionCanceled''"
| "event_type_name RequestCancelExternalWorkflowExecutionInitiated = ''RequestCancelExternalWorkflowExecutionInitiated''"
| "event_type_name RequestCancelExternalWorkflowExecutionFailed = ''RequestCancelExternalWorkflowExecutionFailed''"
| "event_type_name ExternalWorkflowExecutionCancelRequested = ''ExternalWorkflowExecutionCancelRequested''"
| "event_type_name MarkerRecorded = ''MarkerRecorded''"
| "event_type_name WorkflowExecutionSignaled = ''WorkflowExecutionSignaled''"
| "event_type_name WorkflowExecutionTerminated = ''WorkflowExecutionTerminated''"
| "event_type_name WorkflowExecutionContinuedAsNew = ''WorkflowExecutionContinuedAsNew''"
| "event_type_name StartChildWorkflowExecutionInitiated = ''StartChildWorkflowExecutionInitiated''"
| "event_type_name StartChildWorkflowExecutionFailed = ''StartChildWorkflowExecutionFailed''"
| "event_type_name ChildWorkflowExecutionStarted = ''ChildWorkflowExecutionStarted''"
| "event_type_name ChildWorkflowExecutionCompleted = ''ChildWorkflowExecutionCompleted''"
| "event_type_name ChildWorkflowExecutionFailed = ''ChildWorkflowExecutionFailed''"
| "event_type_name ChildWorkflowExecutionCanceled = ''ChildWorkflowExecutionCanceled''"
| "event_type_name ChildWorkflowExecutionTimedOut = ''ChildWorkflowExecutionTimedOut''"
| "event_type_name ChildWorkflowExecutionTerminated = ''ChildWorkflowExecutionTerminated''"
| "event_type_name SignalExternalWorkflowExecutionInitiated = ''SignalExternalWorkflowExecutionInitiated''"
| "event_type_name SignalExternalWorkflowExecutionFailed = ''SignalExternalWorkflowExecutionFailed''"
| "event_type_name ExternalWorkflowExecutionSignaled = ''ExternalWorkflowExecutionSignaled''"
| "event_type_name UpsertWorkflowSearchAttributes = ''UpsertWorkflowSearchAttributes''"

text \<open>\<open>EventType::VALUE_MAP\<close>.\<close>

definition EventType_VALUE_MAP :: "(int \<times> event_type) list" where
  "EventType_VALUE_MAP =
    [(0, WorkflowExecutionStarted),
     (1, WorkflowExecutionCompleted),
     (2, WorkflowExecutionFailed),
     (3, WorkflowExecutionTimedOut),
     (4, DecisionTaskScheduled),
     (5, DecisionTaskStarted),
     (6, DecisionTaskCompleted),
     (7, DecisionTaskTimedOut),
     (8, DecisionTaskFailed),
     (9, ActivityTaskScheduled),
     (10, ActivityTaskStarted),
     (11, ActivityTaskCompleted),
     (12, ActivityTaskFailed),
     (13, ActivityTaskTimedOut),
     (14, ActivityTaskCancelRequested),
     (15, RequestCancelActivityTaskFailed),
     (16, ActivityTaskCanceled),
     (17, TimerStarted),
     (18, TimerFired),
     (19, CancelTimerFailed),
     (20, TimerCanceled),
     (21, WorkflowExecutionCancelRequested),
     (22, WorkflowExecutionCanceled),
     (23, RequestCancelExternalWorkflowExecutionInitiated),
     (24, RequestCancelExternalWorkflowExecutionFailed),
     (25, ExternalWorkflowExecutionCancelRequested),
     (26, MarkerRecorded),
     (27, WorkflowExecutionSignaled),
     (28, WorkflowExecutionTerminated),
     (29, WorkflowExecutionContinuedAsNew),
     (30, StartChildWorkflowExecutionInitiated),
     (31, StartChildWorkflowExecutionFailed),
     (32, ChildWorkflowExecutionStarted),
     (33, ChildWorkflowExecutionCompleted),
     (34, ChildWorkflowExecutionFailed),
     (35, ChildWorkflowExecutionCanceled),
     (36, ChildWorkflowExecutionTimedOut),
     (37, ChildWorkflowExecutionTerminated),
     (38, SignalExternalWorkflowExecutionInitiated),
     (39, SignalExternalWorkflowExecutionFailed),
     (40, ExternalWorkflowExecutionSignaled),
     (41, UpsertWorkflowSearchAttributes)]"

text \<open>The attributes of the Thrift struct of each type of event.\<close>

primrec attribute_fields :: "event_type \<Rightarrow> string list" where
  "attribute_fields WorkflowExecutionStarted =
      [''workflowType'', ''parentWorkflowDomain'', ''parentWorkflowExecution'', ''parentInitiatedEventId'',
       ''taskList'', ''input'', ''executionStartToCloseTimeoutSeconds'', ''taskStartToCloseTimeoutSeconds'',
       ''continuedExecutionRunId'', ''initiator'', ''continuedFailureReason'', ''continuedFailureDetails'',
       ''lastCompletionResult'', ''originalExecutionRunId'', ''identity'', ''firstExecutionRunId'',
       ''retryPolicy'', ''attempt'', ''expirationTimestamp'', ''cronSchedule'',
       ''firstDecisionTaskBackoffSeconds'', ''memo'', ''searchAttributes'', ''prevAutoResetPoints'',
       ''header'']"
| "attribute_fields WorkflowExecutionCompleted =
      [''result'', ''decisionTaskCompletedEventId'']"
| "attribute_fields WorkflowExecutionFailed =
      [''reason'', ''details'', ''decisionTaskCompletedEventId'']"
| "attribute_fields WorkflowExecutionTimedOut =
      [''timeoutType'']"
| "attribute_fields DecisionTaskScheduled =
      [''taskList'', ''startToCloseTimeoutSeconds'', ''attempt'']"
| "attribute_fields DecisionTaskStarted =
      [''scheduledEventId'', ''identity'', ''requestId'']"
| "attribute_fields DecisionTaskCompleted =
      [''executionContext'', ''scheduledEventId'', ''startedEventId'', ''identity'',
       ''binaryChecksum'']"
| "attribute_fields DecisionTaskTimedOut =
      [''scheduledEventId'', ''startedEventId'', ''timeoutType'']"
| "attribute_fields DecisionTaskFailed =
      [''scheduledEventId'', ''startedEventId'', ''cause'', ''details'',
       ''identity'', ''reason'', ''baseRunId'', ''newRunId'',
       ''forkEventVersion'']"
| "attribute_fields ActivityTaskScheduled =
      [''activityId'', ''activityType'', ''domain'', ''taskList'',
       ''input'', ''scheduleToCloseTimeoutSeconds'', ''scheduleToStartTimeoutSeconds'', ''startToCloseTimeoutSeconds'',
       ''heartbeatTimeoutSeconds'', ''decisionTaskCompletedEventId'', ''retryPolicy'', ''header'']"
| "attribute_fields ActivityTaskStarted =
      [''scheduledEventId'', ''identity'', ''requestId'', ''attempt'']"
| "attribute_fields ActivityTaskCompleted =
      [''result'', ''scheduledEventId'', ''startedEventId'', ''identity'']"
| "attribute_fields ActivityTaskFailed =
      [''reason'', ''details'', ''scheduledEventId'', ''startedEventId'',
       ''identity'']"
| "attribute_fields ActivityTaskTimedOut =
      [''details'', ''scheduledEventId'', ''startedEventId'', ''timeoutType'']"
| "attribute_fields ActivityTaskCancelRequested =
      [''activityId'', ''decisionTaskCompletedEventId'']"
| "attribute_fields RequestCancelActivityTaskFailed =
      [''activityId'', ''cause'', ''decisionTaskCompletedEventId'']"
| "attribute_fields ActivityTaskCanceled =
      [''details'', ''latestCancelRequestedEventId'', ''scheduledEventId'', ''startedEventId'',
       ''identity'']"
| "attribute_fields TimerStarted =
      [''timerId'', ''startToFireTimeoutSeconds'', ''decisionTaskCompletedEventId'']"
| "attribute_fields TimerFired =
      [''timerId'', ''startedEventId'']"
| "attribute_fields CancelTimerFailed =
      [''timerId'', ''cause'', ''decisionTaskCompletedEventId'', ''identity'']"
| "attribute_fields TimerCanceled =
      [''timerId'', ''startedEventId'', ''decisionTaskCompletedEventId'', ''identity'']"
| "attribute_fields WorkflowExecutionCancelRequested =
      [''cause'', ''externalInitiatedEventId'', ''externalWorkflowExecution'', ''identity'']"
| "attribute_fields WorkflowExecutionCanceled =
      [''decisionTaskCompletedEventId'', ''details'']"
| "attribute_fields RequestCancelExternalWorkflowExecutionInitiated =
      [''decisionTaskCompletedEventId'', ''domain'', ''workflowExecution'', ''control'',
       ''childWorkflowOnly'']"
| "attribute_fields RequestCancelExternalWorkflowExecutionFailed =
      [''cause'', ''decisionTaskCompletedEventId'', ''domain'', ''workflowExecution'',
       ''initiatedEventId'', ''control'']"
| "attribute_fields ExternalWorkflowExecutionCancelRequested =
      [''initiatedEventId'', ''domain'', ''workflowExecution'']"
| "attribute_fields MarkerRecorded =
      [''markerName'', ''details'', ''decisionTaskCompletedEventId'', ''header'']"
| "attribute_fields WorkflowExecutionSignaled =
      [''signalName'', ''input'', ''identity'']"
| "attribute_fields WorkflowExecutionTerminated =
      [''reason'', ''details'', ''identity'']"
| "attribute_fields WorkflowExecutionContinuedAsNew =
      [''newExecutionRunId'', ''workflowType'', ''taskList'', ''input'',
       ''executionStartToCloseTimeoutSeconds'', ''taskStartToCloseTimeoutSeconds'', ''decisionTaskCompletedEventId'', ''backoffStartIntervalInSeconds'',
       ''initiator'', ''failureReason'', ''failureDetails'', ''lastCompletionResult'',
       ''header'', ''memo'', ''searchAttributes'']"
| "attribute_fields StartChildWorkflowExecutionInitiated =
      [''domain'', ''workflowId'', ''workflowType'', ''taskList'',
       ''input'', ''executionStartToCloseTimeoutSeconds'', ''taskStartToCloseTimeoutSeconds'', ''parentClosePolicy'',
       ''control'', ''decisionTaskCompletedEventId'', ''workflowIdReusePolicy'', ''retryPolicy'',
       ''cronSchedule'', ''header'', ''memo'', ''searchAttributes'']"
| "attribute_fields StartChildWorkflowExecutionFailed =
      [''domain'', ''workflowId'', ''workflowType'', ''cause'',
       ''control'', ''initiatedEventId'', ''decisionTaskCompletedEventId'']"
| "attribute_fields ChildWorkflowExecutionStarted =
      [''domain'', ''initiatedEventId'', ''workflowExecution'', ''workflowType'',
       ''header'']"
| "attribute_fields ChildWorkflowExecutionCompleted =
      [''result'', ''domain'', ''workflowExecution'', ''workflowType'',
       ''initiatedEventId'', ''startedEventId'']"
| "attribute_fields ChildWorkflowExecutionFailed =
      [''reason'', ''details'', ''domain'', ''workflowExecution'',
       ''workflowType'', ''initiatedEventId'', ''startedEventId'']"
| "attribute_fields ChildWorkflowExecutionCanceled =
      [''details'', ''domain'', ''workflowExecution'', ''workflowType'',
       ''initiatedEventId'', ''startedEventId'']"
| "attribute_fields ChildWorkflowExecutionTimedOut =
      [''timeoutType'', ''domain'', ''workflowExecution'', ''workflowType'',
       ''initiatedEventId'', ''startedEventId'']"
| "attribute_fields ChildWorkflowExecutionTerminated =
      [''domain'', ''workflowExecution'', ''workflowType'', ''initiatedEventId'',
       ''startedEventId'']"
| "attribute_fields SignalExternalWorkflowExecutionInitiated =
      [''decisionTaskCompletedEventId'', ''domain'', ''workflowExecution'', ''signalName'',
       ''input'', ''control'', ''childWorkflowOnly'']"
| "attribute_fields SignalExternalWorkflowExecutionFailed =
      [''cause'', ''decisionTaskCompletedEventId'', ''domain'', ''workflowExecution'',
       ''initiatedEventId'', ''control'']"
| "attribute_fields ExternalWorkflowExecutionSignaled =
      [''initiatedEventId'', ''domain'', ''workflowExecution'', ''control'']"
| "attribute_fields UpsertWorkflowSearchAttributes =
      [''decisionTaskCompletedEventId'', ''searchAttributes'']"

section \<open>Utils\<close>

text \<open>\<open>divmod\<close> of a timestamp; a time is seconds and nanoseconds.\<close>

type_synonym time = "int \<times> int"

definition time_from_nanos :: "int \<Rightarrow> time" where
  "time_from_nanos timestamp =
     (let seconds = timestamp div 10 ^ 9; nanoseconds = timestamp mod 10 ^ 9 in (seconds, nanoseconds))"

section \<open>History::Event\<close>

text \<open>
  The fields of a Thrift \<open>HistoryEvent\<close> the code reads; it has an accessor for the
  attributes of every type, which is \<open>nil\<close> where they are not set.
\<close>

record raw_event =
  eventId :: int
  timestamp :: int
  eventType :: int
  attributesStructs :: "(string \<times> rval) list"

record event =
  ev_id :: int
  ev_timestamp :: time
  ev_type :: event_type
  ev_attributes :: rval

fun downcase_first :: "string \<Rightarrow> string" where
  "downcase_first [] = []"
| "downcase_first (c # cs) =
     (if 65 \<le> (of_char c :: nat) \<and> (of_char c :: nat) \<le> 90 then char_of (of_char c + 32 :: nat) else c) # cs"

definition attributes_accessor :: "event_type \<Rightarrow> string" where
  "attributes_accessor t = downcase_first (event_type_name t @ ''EventAttributes'')"

definition extract_attributes :: "raw_event \<Rightarrow> event_type option \<Rightarrow> rb_error + rval" where
  "extract_attributes raw t =
     (case t of
        None \<Rightarrow> Inl (NoMethodError ''eventAttributes'')
      | Some t \<Rightarrow> (case map_of (attributesStructs raw) (attributes_accessor t) of
            None \<Rightarrow> Inr RNil
          | Some v \<Rightarrow> Inr v))"

definition Event_new :: "raw_event \<Rightarrow> rb_error + event" where
  "Event_new raw =
     (let t = map_of EventType_VALUE_MAP (eventType raw) in
      and_then (extract_attributes raw t) (\<lambda>attrs.
        case t of None \<Rightarrow> Inl (NoMethodError ''eventAttributes'')
        | Some t \<Rightarrow> Inr \<lparr>ev_id = eventId raw, ev_timestamp = time_from_nanos (timestamp raw),
                         ev_type = t, ev_attributes = attrs\<rparr>))"

definition EVENT_TYPES :: "event_type list" where
  "EVENT_TYPES =
     [ActivityTaskStarted, ActivityTaskCompleted, ActivityTaskFailed, ActivityTaskTimedOut,
      ActivityTaskCanceled, TimerFired, RequestCancelExternalWorkflowExecutionFailed,
      WorkflowExecutionSignaled, WorkflowExecutionTerminated, SignalExternalWorkflowExecutionFailed,
      ExternalWorkflowExecutionCancelRequested, ExternalWorkflowExecutionSignaled,
      UpsertWorkflowSearchAttributes]"

definition CHILD_WORKFLOW_EVENTS :: "event_type list" where
  "CHILD_WORKFLOW_EVENTS =
     [StartChildWorkflowExecutionFailed, ChildWorkflowExecutionStarted,
      ChildWorkflowExecutionCompleted, ChildWorkflowExecutionFailed,
      ChildWorkflowExecutionCanceled, ChildWorkflowExecutionTimedOut,
      ChildWorkflowExecutionTerminated]"

text \<open>The identifier of the event a later event belongs to.\<close>

definition decision_id :: "event \<Rightarrow> rb_error + rval" where
  "decision_id e =
     (if ev_type e = TimerFired then get_field (ev_attributes e) ''startedEventId''
      else if ev_type e = WorkflowExecutionSignaled then Inr (RInt 1)
      else if ev_type e \<in> set EVENT_TYPES then get_field (ev_attributes e) ''scheduledEventId''
      else if ev_type e \<in> set CHILD_WORKFLOW_EVENTS then get_field (ev_attributes e) ''initiatedEventId''
      else Inr (RInt (ev_id e)))"

definition target_attributes :: "json_api \<Rightarrow> event \<Rightarrow> rb_error + (rval \<times> rval) list" where
  "target_attributes J e =
     (if ev_type e = ActivityTaskScheduled then
        and_then (and_then (get_field (ev_attributes e) ''activityId'') rb_to_i) (\<lambda>activity_id.
        and_then (and_then (get_field (ev_attributes e) ''activityType'') (\<lambda>t. get_field t ''name''))
          (\<lambda>activity_type.
        and_then (and_then (get_field (ev_attributes e) ''input'') (deserialize J)) (\<lambda>input.
          Inr [(RSym ''activity_id'', RInt activity_id), (RSym ''activity_type'', activity_type),
               (RSym ''input'', input)])))
      else Inr [])"

section \<open>Well-formed events\<close>

definition event_ok :: "event \<Rightarrow> bool" where
  "event_ok e \<longleftrightarrow> (case ev_attributes e of
       RStruct c fs \<Rightarrow> c = event_type_name (ev_type e) @ ''EventAttributes'' \<and>
         List.map fst fs = attribute_fields (ev_type e)
     | _ \<Rightarrow> False)"

lemma event_ok_get_field:
  assumes "event_ok e"
  shows "(\<exists>v. get_field (ev_attributes e) f = Inr v) \<longleftrightarrow> f \<in> set (attribute_fields (ev_type e))"
    and "f \<notin> set (attribute_fields (ev_type e)) \<Longrightarrow> get_field (ev_attributes e) f = Inl (NoMethodError f)"
proof -
  obtain c fs where fs: "ev_attributes e = RStruct c fs" "List.map fst fs = attribute_fields (ev_type e)"
    using assms by (auto simp: event_ok_def split: rval.splits)
  then have dom: "f \<in> set (attribute_fields (ev_type e)) \<longleftrightarrow> map_of fs f \<noteq> None"
    using map_of_eq_None_iff [of fs f] by (simp flip: fs(2))
  then show "(\<exists>v. get_field (ev_attributes e) f = Inr v) \<longleftrightarrow> f \<in> set (attribute_fields (ev_type e))"
    by (auto simp: fs(1) split: option.splits)
  from dom show "f \<notin> set (attribute_fields (ev_type e)) \<Longrightarrow>
      get_field (ev_attributes e) f = Inl (NoMethodError f)"
    by (auto simp: fs(1) split: option.splits)
qed

lemma EventType_VALUE_MAP_iff:
  "map_of EventType_VALUE_MAP n = Some t \<longleftrightarrow> (n, t) \<in> set EventType_VALUE_MAP"
  by (rule map_of_eq_Some_iff) code_simp

lemma EventType_VALUE_MAP_onto: "\<exists>n. 0 \<le> n \<and> n < 42 \<and> map_of EventType_VALUE_MAP n = Some t"
  by (simp only: EventType_VALUE_MAP_iff, cases t) (simp_all add: EventType_VALUE_MAP_def)

text \<open>The types whose \<open>decision_id\<close> reads an attribute that their struct does not have.\<close>

definition unsupported_decision_id :: "event_type list" where
  "unsupported_decision_id =
     [RequestCancelExternalWorkflowExecutionFailed, WorkflowExecutionTerminated,
      SignalExternalWorkflowExecutionFailed, ExternalWorkflowExecutionCancelRequested,
      ExternalWorkflowExecutionSignaled, UpsertWorkflowSearchAttributes]"

lemma decision_id_cases:
  assumes "event_ok e"
  shows "if ev_type e \<in> set unsupported_decision_id
         then decision_id e = Inl (NoMethodError ''scheduledEventId'')
         else \<exists>v. decision_id e = Inr v"
proof (cases "ev_type e")
qed (simp_all add: decision_id_def unsupported_decision_id_def EVENT_TYPES_def CHILD_WORKFLOW_EVENTS_def
      event_ok_get_field [OF assms])

end
