(* ===== verification/Decisions.thy ===== *)
theory Decisions
  imports Events
begin

text \<open>
  The decisions of a workflow (lib/cadence/workflow/decision.rb), the state machine each
  decision goes through (decision_state_machine.rb), and the target that identifies a
  decision or an event of the history (history/event_target.rb).
\<close>

section \<open>Decisions\<close>

text \<open>The structs, whose members are Ruby values.\<close>

record ScheduleActivity =
  activity_type :: rval
  activity_id :: rval
  input :: rval
  domain :: rval
  task_list :: rval
  retry_policy :: rval
  timeouts :: rval
  headers :: rval

record StartChildWorkflow =
  workflow_type :: rval
  workflow_id :: rval
  input :: rval
  domain :: rval
  task_list :: rval
  retry_policy :: rval
  timeouts :: rval
  headers :: rval

datatype decision =
    ScheduleActivity ScheduleActivity
  | StartChildWorkflow StartChildWorkflow
  | RequestActivityCancellation (cancel_activity_id: rval)
  | RecordMarker (marker_name: rval) (marker_details: rval)
  | StartTimer (timeout: rval) (timer_id: rval)
  | CancelTimer (cancel_timer_id: rval)
  | CompleteWorkflow (result: rval)
  | FailWorkflow (fail_reason: rval) (fail_details: rval)

definition decision_class_name :: "decision \<Rightarrow> string" where
  "decision_class_name d =
     ''Cadence::Workflow::Decision::'' @
     (case d of
        ScheduleActivity _ \<Rightarrow> ''ScheduleActivity''
      | StartChildWorkflow _ \<Rightarrow> ''StartChildWorkflow''
      | RequestActivityCancellation _ \<Rightarrow> ''RequestActivityCancellation''
      | RecordMarker _ _ \<Rightarrow> ''RecordMarker''
      | StartTimer _ _ \<Rightarrow> ''StartTimer''
      | CancelTimer _ \<Rightarrow> ''CancelTimer''
      | CompleteWorkflow _ \<Rightarrow> ''CompleteWorkflow''
      | FailWorkflow _ _ \<Rightarrow> ''FailWorkflow'')"

section \<open>DecisionStateMachine\<close>

datatype decision_state =
  NEW_STATE | REQUESTED_STATE | SCHEDULED_STATE | STARTED_STATE | COMPLETED_STATE
| CANCELED_STATE | FAILED_STATE | TIMED_OUT_STATE

text \<open>The methods the class defines; a call of any other one is a \<open>NoMethodError\<close>.\<close>

definition state_machine_methods :: "(string \<times> decision_state) list" where
  "state_machine_methods =
     [(''requested'', REQUESTED_STATE), (''schedule'', SCHEDULED_STATE), (''start'', STARTED_STATE),
      (''complete'', COMPLETED_STATE), (''cancel'', CANCELED_STATE), (''fail'', FAILED_STATE),
      (''time_out'', TIMED_OUT_STATE)]"

definition state_machine_call :: "string \<Rightarrow> decision_state \<Rightarrow> rb_error + decision_state" where
  "state_machine_call m state =
     (case map_of state_machine_methods m of None \<Rightarrow> Inl (NoMethodError m) | Some s \<Rightarrow> Inr s)"

section \<open>EventTarget\<close>

datatype target_type =
  ACTIVITY_TYPE | CANCEL_ACTIVITY_REQUEST_TYPE | TIMER_TYPE | CANCEL_TIMER_REQUEST_TYPE
| CHILD_WORKFLOW_TYPE | MARKER_TYPE | EXTERNAL_WORKFLOW_TYPE
| CANCEL_EXTERNAL_WORKFLOW_REQUEST_TYPE | WORKFLOW_TYPE | CANCEL_WORKFLOW_REQUEST_TYPE

definition EVENT_TARGET_TYPES :: "(string \<times> target_type) list" where
  "EVENT_TARGET_TYPES =
     [(''ActivityTaskCancel'', CANCEL_ACTIVITY_REQUEST_TYPE),
      (''ActivityTask'', ACTIVITY_TYPE),
      (''RequestCancelActivityTask'', CANCEL_ACTIVITY_REQUEST_TYPE),
      (''TimerCanceled'', CANCEL_TIMER_REQUEST_TYPE),
      (''Timer'', TIMER_TYPE),
      (''CancelTimer'', CANCEL_TIMER_REQUEST_TYPE),
      (''ChildWorkflowExecution'', CHILD_WORKFLOW_TYPE),
      (''StartChildWorkflowExecution'', CHILD_WORKFLOW_TYPE),
      (''Marker'', MARKER_TYPE),
      (''ExternalWorkflowExecution'', EXTERNAL_WORKFLOW_TYPE),
      (''SignalExternalWorkflowExecution'', EXTERNAL_WORKFLOW_TYPE),
      (''ExternalWorkflowExecutionCancel'', CANCEL_EXTERNAL_WORKFLOW_REQUEST_TYPE),
      (''RequestCancelExternalWorkflowExecution'', CANCEL_EXTERNAL_WORKFLOW_REQUEST_TYPE),
      (''UpsertWorkflowSearchAttributes'', WORKFLOW_TYPE),
      (''WorkflowExecutionCancel'', CANCEL_WORKFLOW_REQUEST_TYPE),
      (''WorkflowExecution'', WORKFLOW_TYPE)]"

definition DECISION_TARGET_TYPES :: "(string \<times> target_type) list" where
  "DECISION_TARGET_TYPES =
     [(''Cadence::Workflow::Decision::ScheduleActivity'', ACTIVITY_TYPE),
      (''Cadence::Workflow::Decision::RequestActivityCancellation'', CANCEL_ACTIVITY_REQUEST_TYPE),
      (''Cadence::Workflow::Decision::RecordMarker'', MARKER_TYPE),
      (''Cadence::Workflow::Decision::StartTimer'', TIMER_TYPE),
      (''Cadence::Workflow::Decision::CancelTimer'', CANCEL_TIMER_REQUEST_TYPE),
      (''Cadence::Workflow::Decision::CompleteWorkflow'', WORKFLOW_TYPE),
      (''Cadence::Workflow::Decision::FailWorkflow'', WORKFLOW_TYPE),
      (''Cadence::Workflow::Decision::StartChildWorkflow'', CHILD_WORKFLOW_TYPE)]"

text \<open>\<open>attributes\<close> is a hash; targets are the same when id and type are (\<open>==\<close>, \<open>eql?\<close>, \<open>hash\<close>).\<close>

record event_target =
  target_id :: rval
  target_type :: target_type
  target_attrs :: "(rval \<times> rval) list"

definition same_target :: "event_target \<Rightarrow> event_target \<Rightarrow> bool" where
  "same_target t u \<longleftrightarrow> target_id t = target_id u \<and> target_type t = target_type u"

definition workflow_target :: event_target where
  "workflow_target = \<lparr>target_id = RInt 1, target_type = WORKFLOW_TYPE, target_attrs = []\<rparr>"

definition target_type_of_name :: "string \<Rightarrow> target_type option" where
  "target_type_of_name name =
     map_option snd (List.find (\<lambda>(p, _). prefix p name) EVENT_TARGET_TYPES)"

definition from_event :: "json_api \<Rightarrow> event \<Rightarrow> rb_error + event_target" where
  "from_event J e =
     (case target_type_of_name (event_type_name (ev_type e)) of
        None \<Rightarrow> Inl (UnexpectedEventType (event_type_name (ev_type e)))
      | Some ty \<Rightarrow>
          and_then (decision_id e) (\<lambda>i.
          and_then (target_attributes J e) (\<lambda>attrs.
            Inr \<lparr>target_id = i, target_type = ty, target_attrs = attrs\<rparr>)))"

text \<open>\<open>decision.to_h.slice(*attribute_list)\<close>: only an activity has a list.\<close>

definition decision_attributes :: "decision \<Rightarrow> (rval \<times> rval) list" where
  "decision_attributes d =
     (case d of
        ScheduleActivity a \<Rightarrow>
          [(RSym ''activity_id'', activity_id a), (RSym ''activity_type'', activity_type a),
           (RSym ''input'', ScheduleActivity.input a)]
      | _ \<Rightarrow> [])"

definition from_decision :: "rval \<Rightarrow> decision \<Rightarrow> rb_error + event_target" where
  "from_decision i d =
     (case map_of DECISION_TARGET_TYPES (decision_class_name d) of
        None \<Rightarrow> Inl (UnexpectedDecisionType (decision_class_name d))
      | Some ty \<Rightarrow> Inr \<lparr>target_id = i, target_type = ty, target_attrs = decision_attributes d\<rparr>)"

section \<open>Lemmas\<close>

text \<open>The type of the target of each decision, and of each type of event.\<close>

fun decision_target_type :: "decision \<Rightarrow> target_type" where
  "decision_target_type (ScheduleActivity _) = ACTIVITY_TYPE"
| "decision_target_type (StartChildWorkflow _) = CHILD_WORKFLOW_TYPE"
| "decision_target_type (RequestActivityCancellation _) = CANCEL_ACTIVITY_REQUEST_TYPE"
| "decision_target_type (RecordMarker _ _) = MARKER_TYPE"
| "decision_target_type (StartTimer _ _) = TIMER_TYPE"
| "decision_target_type (CancelTimer _) = CANCEL_TIMER_REQUEST_TYPE"
| "decision_target_type (CompleteWorkflow _) = WORKFLOW_TYPE"
| "decision_target_type (FailWorkflow _ _) = WORKFLOW_TYPE"

lemma from_decision_eq [simp]:
  "from_decision i d =
     Inr \<lparr>target_id = i, target_type = decision_target_type d, target_attrs = decision_attributes d\<rparr>"
  by (cases d) (simp_all add: from_decision_def decision_class_name_def DECISION_TARGET_TYPES_def)

definition event_target_type :: "event_type \<Rightarrow> target_type option" where
  "event_target_type t = target_type_of_name (event_type_name t)"

lemma event_target_type_simps [simp]:
  "event_target_type ActivityTaskScheduled = Some ACTIVITY_TYPE"
  "event_target_type ActivityTaskStarted = Some ACTIVITY_TYPE"
  "event_target_type ActivityTaskCompleted = Some ACTIVITY_TYPE"
  "event_target_type ActivityTaskFailed = Some ACTIVITY_TYPE"
  "event_target_type ActivityTaskTimedOut = Some ACTIVITY_TYPE"
  "event_target_type ActivityTaskCancelRequested = Some CANCEL_ACTIVITY_REQUEST_TYPE"
  "event_target_type ActivityTaskCanceled = Some CANCEL_ACTIVITY_REQUEST_TYPE"
  "event_target_type RequestCancelActivityTaskFailed = Some CANCEL_ACTIVITY_REQUEST_TYPE"
  "event_target_type TimerStarted = Some TIMER_TYPE"
  "event_target_type TimerFired = Some TIMER_TYPE"
  "event_target_type TimerCanceled = Some CANCEL_TIMER_REQUEST_TYPE"
  "event_target_type CancelTimerFailed = Some CANCEL_TIMER_REQUEST_TYPE"
  "event_target_type StartChildWorkflowExecutionInitiated = Some CHILD_WORKFLOW_TYPE"
  "event_target_type StartChildWorkflowExecutionFailed = Some CHILD_WORKFLOW_TYPE"
  "event_target_type ChildWorkflowExecutionStarted = Some CHILD_WORKFLOW_TYPE"
  "event_target_type ChildWorkflowExecutionCompleted = Some CHILD_WORKFLOW_TYPE"
  "event_target_type ChildWorkflowExecutionFailed = Some CHILD_WORKFLOW_TYPE"
  "event_target_type ChildWorkflowExecutionCanceled = Some CHILD_WORKFLOW_TYPE"
  "event_target_type ChildWorkflowExecutionTimedOut = Some CHILD_WORKFLOW_TYPE"
  "event_target_type ChildWorkflowExecutionTerminated = Some CHILD_WORKFLOW_TYPE"
  "event_target_type MarkerRecorded = Some MARKER_TYPE"
  "event_target_type WorkflowExecutionStarted = Some WORKFLOW_TYPE"
  "event_target_type WorkflowExecutionSignaled = Some WORKFLOW_TYPE"
  "event_target_type WorkflowExecutionCompleted = Some WORKFLOW_TYPE"
  "event_target_type WorkflowExecutionFailed = Some WORKFLOW_TYPE"
  "event_target_type WorkflowExecutionTimedOut = Some WORKFLOW_TYPE"
  "event_target_type WorkflowExecutionTerminated = Some WORKFLOW_TYPE"
  "event_target_type WorkflowExecutionContinuedAsNew = Some WORKFLOW_TYPE"
  "event_target_type UpsertWorkflowSearchAttributes = Some WORKFLOW_TYPE"
  "event_target_type WorkflowExecutionCancelRequested = Some CANCEL_WORKFLOW_REQUEST_TYPE"
  "event_target_type WorkflowExecutionCanceled = Some CANCEL_WORKFLOW_REQUEST_TYPE"
  "event_target_type SignalExternalWorkflowExecutionInitiated = Some EXTERNAL_WORKFLOW_TYPE"
  "event_target_type SignalExternalWorkflowExecutionFailed = Some EXTERNAL_WORKFLOW_TYPE"
  "event_target_type ExternalWorkflowExecutionSignaled = Some EXTERNAL_WORKFLOW_TYPE"
  "event_target_type ExternalWorkflowExecutionCancelRequested = Some EXTERNAL_WORKFLOW_TYPE"
  "event_target_type RequestCancelExternalWorkflowExecutionInitiated =
     Some CANCEL_EXTERNAL_WORKFLOW_REQUEST_TYPE"
  "event_target_type RequestCancelExternalWorkflowExecutionFailed =
     Some CANCEL_EXTERNAL_WORKFLOW_REQUEST_TYPE"
  "event_target_type DecisionTaskScheduled = None"
  "event_target_type DecisionTaskStarted = None"
  "event_target_type DecisionTaskCompleted = None"
  "event_target_type DecisionTaskFailed = None"
  "event_target_type DecisionTaskTimedOut = None"
  by code_simp+

lemma from_event_eq:
  "from_event J e =
     (case event_target_type (ev_type e) of
        None \<Rightarrow> Inl (UnexpectedEventType (event_type_name (ev_type e)))
      | Some ty \<Rightarrow>
          and_then (decision_id e) (\<lambda>i.
          and_then (target_attributes J e) (\<lambda>attrs.
            Inr \<lparr>target_id = i, target_type = ty, target_attrs = attrs\<rparr>)))"
  by (simp add: from_event_def event_target_type_def)

text \<open>An event has a target exactly when it is not about the decision tasks.\<close>

lemma event_target_type_None:
  "event_target_type t = None \<longleftrightarrow>
     t \<in> {DecisionTaskScheduled, DecisionTaskStarted, DecisionTaskCompleted, DecisionTaskFailed,
          DecisionTaskTimedOut}"
  by (cases t) simp_all

lemma workflow_target_simps [simp]:
  "target_id workflow_target = RInt 1" "target_type workflow_target = WORKFLOW_TYPE"
  "target_attrs workflow_target = []"
  by (simp_all add: workflow_target_def)

end
