(* ===== verification/Dispatcher.thy ===== *)
theory Dispatcher
  imports Decisions
begin

text \<open>
  \<open>Dispatcher\<close> (lib/cadence/workflow/dispatcher.rb). A handler is a block of the engine or
  of the workflow; here it is a value of type \<open>'h\<close>, and running it is the parameter
  \<open>call\<close>, a function from the arguments and the state \<open>'s\<close> of the whole engine to its
  next state or the exception the block raised. A handler may register other handlers.
\<close>

section \<open>Dispatcher\<close>

text \<open>The table has an empty list for a target without handlers (the default of the hash).\<close>

type_synonym target_key = "rval \<times> target_type"

type_synonym 'h dispatcher = "target_key \<Rightarrow> (string \<times> 'h) list"

definition key_of :: "event_target \<Rightarrow> target_key" where
  "key_of t = (target_id t, target_type t)"

definition WILDCARD :: string where "WILDCARD = ''*''"

definition Dispatcher_new :: "'h dispatcher" where
  "Dispatcher_new = (\<lambda>_. [])"

definition register_handler :: "event_target \<Rightarrow> string \<Rightarrow> 'h \<Rightarrow> 'h dispatcher \<Rightarrow> 'h dispatcher" where
  "register_handler target event_name handler handlers =
     handlers(key_of target := handlers (key_of target) @ [(event_name, handler)])"

definition handlers_for :: "'h dispatcher \<Rightarrow> event_target \<Rightarrow> string \<Rightarrow> 'h list" where
  "handlers_for handlers target event_name =
     List.map snd (filter (\<lambda>(name, _). name = event_name \<or> name = WILDCARD) (handlers (key_of target)))"

text \<open>The handlers are selected before the first one runs.\<close>

definition dispatch ::
  "('h \<Rightarrow> rval list \<Rightarrow> 's \<Rightarrow> rb_error + 's) \<Rightarrow> 'h dispatcher \<Rightarrow>
   event_target \<Rightarrow> string \<Rightarrow> rval list \<Rightarrow> 's \<Rightarrow> rb_error + 's" where
  "dispatch call handlers target event_name args s =
     foldM (\<lambda>s handler. call handler args s) (handlers_for handlers target event_name) s"

section \<open>Lemmas\<close>

lemma key_of_eq_iff: "key_of t = key_of u \<longleftrightarrow> same_target t u"
  by (simp add: key_of_def same_target_def)

lemma handlers_for_new [simp]: "handlers_for Dispatcher_new t n = []"
  by (simp add: handlers_for_def Dispatcher_new_def)

text \<open>A handler is found by the name it is registered for and by the wildcard, in order.\<close>

lemma handlers_for_register:
  "handlers_for (register_handler t n h d) u m =
     handlers_for d u m @ (if same_target t u \<and> (n = m \<or> n = WILDCARD) then [h] else [])"
  by (cases "key_of t = key_of u")
    (auto simp: handlers_for_def register_handler_def simp flip: key_of_eq_iff)

lemma dispatch_none: "handlers_for d t n = [] \<Longrightarrow> dispatch call d t n args s = Inr s"
  by (simp add: dispatch_def)

lemma dispatch_register:
  "dispatch call (register_handler t n h d) u m args s =
     and_then (dispatch call d u m args s)
       (if same_target t u \<and> (n = m \<or> n = WILDCARD) then call h args else Inr)"
  by (auto simp: dispatch_def handlers_for_register foldM_append)

end
