(* ===== verification/History.thy ===== *)
theory History
  imports Events
begin

text \<open>
  \<open>History\<close> and \<open>History::Window\<close> (lib/cadence/workflow/history.rb, history/window.rb): the
  history of a workflow is replayed window by window. The iterator of the history is the
  list of the events it has not returned yet.
\<close>

section \<open>Window\<close>

text \<open>
  \<open>add\<close> also assigns \<open>@next_event_id\<close>, which nothing reads; the second arm of
  \<open>DecisionTaskFailed\<close> is never reached.
\<close>

record window =
  local_time :: "time option"
  last_event_id :: "int option"
  events :: "event list"
  markers :: "event list"
  replay :: bool

definition Window_new :: window where
  "Window_new = \<lparr>local_time = None, last_event_id = None, events = [], markers = [], replay = False\<rparr>"

definition Window_add :: "window \<Rightarrow> event \<Rightarrow> window" where
  "Window_add w e =
     (if ev_type e = MarkerRecorded then w\<lparr>markers := markers w @ [e]\<rparr>
      else if ev_type e = DecisionTaskStarted then
        w\<lparr>last_event_id := Some (ev_id e + 1), local_time := Some (ev_timestamp e)\<rparr>
      else if ev_type e = DecisionTaskFailed \<or> ev_type e = DecisionTaskTimedOut then
        w\<lparr>local_time := None\<rparr>
      else if ev_type e = DecisionTaskCompleted then w\<lparr>replay := True\<rparr>
      else if ev_type e = DecisionTaskScheduled \<or> ev_type e = DecisionTaskFailed then w
      else w\<lparr>events := events w @ [e]\<rparr>)"

section \<open>History\<close>

record history =
  all_events :: "event list"
  iterator :: "event list"

definition History_new :: "raw_event list \<Rightarrow> rb_error + history" where
  "History_new raws =
     and_then (mapM Event_new raws) (\<lambda>evs. Inr \<lparr>all_events = evs, iterator = evs\<rparr>)"

definition find_event_by_id :: "history \<Rightarrow> int \<Rightarrow> event option" where
  "find_event_by_id h i = List.find (\<lambda>e. ev_id e = i) (all_events h)"

definition COMMAND_EVENT_TYPES :: "event_type list" where
  "COMMAND_EVENT_TYPES =
     [ActivityTaskScheduled, ActivityTaskCancelRequested, TimerStarted, CancelTimerFailed,
      TimerCanceled, WorkflowExecutionCancelRequested, StartChildWorkflowExecutionInitiated,
      SignalExternalWorkflowExecutionInitiated, RequestCancelActivityTaskFailed,
      RequestCancelExternalWorkflowExecutionInitiated, MarkerRecorded]"

definition command :: "event \<Rightarrow> bool" where
  "command e \<longleftrightarrow> ev_type e \<in> set COMMAND_EVENT_TYPES"

text \<open>The two loops of \<open>next_window\<close>: to a completed decision task, and over its commands.\<close>

fun add_task_events :: "window \<Rightarrow> event list \<Rightarrow> window \<times> event list" where
  "add_task_events w [] = (w, [])"
| "add_task_events w (e # es) =
     (if ev_type e = DecisionTaskCompleted then (Window_add w e, es)
      else add_task_events (Window_add w e) es)"

fun add_commands :: "window \<Rightarrow> event list \<Rightarrow> window \<times> event list" where
  "add_commands w [] = (w, [])"
| "add_commands w (e # es) =
     (if command e then add_commands (Window_add w e) es else (w, e # es))"

definition next_window :: "history \<Rightarrow> window option \<times> history" where
  "next_window h =
     (if iterator h = [] then (None, h)
      else (let (w, rest) = add_task_events Window_new (iterator h);
                (w, rest) = add_commands w rest
            in (Some w, h\<lparr>iterator := rest\<rparr>)))"

section \<open>The windows of a history\<close>

text \<open>The events a window was made of, in front of those it left.\<close>

fun task_events :: "event list \<Rightarrow> event list" where
  "task_events [] = []"
| "task_events (e # es) = (if ev_type e = DecisionTaskCompleted then [e] else e # task_events es)"

definition window_events :: "event list \<Rightarrow> event list" where
  "window_events es =
     task_events es @ takeWhile command (drop (length (task_events es)) es)"

definition window_of :: "event list \<Rightarrow> window" where
  "window_of es = foldl Window_add Window_new es"

lemma task_events_prefix: "task_events es @ drop (length (task_events es)) es = es"
  by (induction es) auto

lemma add_task_events_eq:
  "add_task_events w es = (foldl Window_add w (task_events es), drop (length (task_events es)) es)"
  by (induction es arbitrary: w) auto

lemma add_commands_eq:
  "add_commands w es = (foldl Window_add w (takeWhile command es), dropWhile command es)"
  by (induction es arbitrary: w) auto

lemma window_events_prefix: "window_events es @ drop (length (window_events es)) es = es"
proof -
  let ?r = "drop (length (task_events es)) es"
  have "es = window_events es @ dropWhile command ?r"
    by (simp add: window_events_def task_events_prefix)
  then show ?thesis by (metis append_eq_conv_conj)
qed

lemma window_events_rest:
  "drop (length (window_events es)) es = dropWhile command (drop (length (task_events es)) es)"
proof -
  have "es = window_events es @ dropWhile command (drop (length (task_events es)) es)"
    by (simp add: window_events_def task_events_prefix)
  then show ?thesis by (metis append_eq_conv_conj)
qed

lemma window_events_nonempty [simp]: "window_events es = [] \<longleftrightarrow> es = []"
  by (cases es) (auto simp: window_events_def)

lemma next_window_eq:
  "next_window h =
     (if iterator h = [] then (None, h)
      else (Some (window_of (window_events (iterator h))),
            h\<lparr>iterator := drop (length (window_events (iterator h))) (iterator h)\<rparr>))"
proof -
  have "foldl Window_add (foldl Window_add Window_new (task_events es))
      (takeWhile command (drop (length (task_events es)) es)) = window_of (window_events es)" for es
    by (simp add: window_of_def window_events_def)
  then show ?thesis
    by (simp add: next_window_def add_task_events_eq add_commands_eq window_events_rest)
qed

text \<open>The loop \<open>while window = history.next_window\<close>: every window consumes an event.\<close>

function all_windows :: "history \<Rightarrow> window list" where
  "all_windows h =
     (case next_window h of (None, h') \<Rightarrow> [] | (Some w, h') \<Rightarrow> w # all_windows h')"
  by pat_completeness auto

lemma next_window_shorter:
  "next_window h = (Some w, h') \<Longrightarrow> length (iterator h') < length (iterator h)"
  by (auto simp: next_window_eq split: if_splits)

termination all_windows
  by (relation "measure (\<lambda>h. length (iterator h))") (auto dest: next_window_shorter [OF sym])

declare all_windows.simps [simp del]

text \<open>The same partition as a list of lists of events.\<close>

function partition_events :: "event list \<Rightarrow> event list list" where
  "partition_events [] = []"
| "partition_events (e # es) =
     window_events (e # es) # partition_events (drop (length (window_events (e # es))) (e # es))"
  by pat_completeness auto

termination partition_events
proof (relation "measure length")
  fix e :: event and es
  have "0 < length (window_events (e # es))"
    by (simp only: length_greater_0_conv window_events_nonempty) simp
  then show "(drop (length (window_events (e # es))) (e # es), e # es) \<in> measure length" by simp
qed simp

declare partition_events.simps(2) [simp del]

lemma all_windows_eq: "all_windows h = List.map window_of (partition_events (iterator h))"
proof (induction "iterator h" arbitrary: h rule: partition_events.induct)
  case 1
  then show ?case by (subst all_windows.simps) (simp add: next_window_eq)
next
  case (2 e es h)
  let ?h' = "h\<lparr>iterator := drop (length (window_events (iterator h))) (iterator h)\<rparr>"
  have "all_windows ?h' = List.map window_of (partition_events (iterator ?h'))"
    by (rule 2(1)) (simp flip: 2(2))
  then show ?case
    by (subst all_windows.simps) (simp add: next_window_eq flip: 2(2) add: partition_events.simps(2))
qed

lemma concat_partition_events: "concat (partition_events es) = es"
  by (induction es rule: partition_events.induct)
    (simp_all add: partition_events.simps(2) window_events_prefix)

section \<open>What a window holds\<close>

definition decision_task_event :: "event \<Rightarrow> bool" where
  "decision_task_event e \<longleftrightarrow> ev_type e \<in>
     {DecisionTaskScheduled, DecisionTaskStarted, DecisionTaskCompleted, DecisionTaskFailed,
      DecisionTaskTimedOut}"

lemma window_of_snoc: "window_of (es @ [e]) = Window_add (window_of es) e"
  by (simp add: window_of_def)

lemma markers_window_of: "markers (window_of es) = filter (\<lambda>e. ev_type e = MarkerRecorded) es"
proof (induction es rule: rev_induct)
  case Nil
  then show ?case by (simp add: window_of_def Window_new_def)
next
  case (snoc e es)
  then show ?case by (simp add: window_of_snoc Window_add_def)
qed

lemma events_window_of:
  "events (window_of es) =
     filter (\<lambda>e. ev_type e \<noteq> MarkerRecorded \<and> \<not> decision_task_event e) es"
proof (induction es rule: rev_induct)
  case Nil
  then show ?case by (simp add: window_of_def Window_new_def)
next
  case (snoc e es)
  then show ?case by (auto simp: window_of_snoc Window_add_def decision_task_event_def)
qed

lemma replay_window_of: "replay (window_of es) \<longleftrightarrow> (\<exists>e\<in>set es. ev_type e = DecisionTaskCompleted)"
proof (induction es rule: rev_induct)
  case Nil
  then show ?case by (simp add: window_of_def Window_new_def)
next
  case (snoc e es)
  then show ?case by (auto simp: window_of_snoc Window_add_def)
qed

lemma last_event_id_window_of:
  "last_event_id (window_of es) =
     (case filter (\<lambda>e. ev_type e = DecisionTaskStarted) es of
        [] \<Rightarrow> None | ss \<Rightarrow> Some (ev_id (last ss) + 1))"
proof (induction es rule: rev_induct)
  case Nil
  then show ?case by (simp add: window_of_def Window_new_def)
next
  case (snoc e es)
  then show ?case by (auto simp: window_of_snoc Window_add_def split: list.splits)
qed

lemma task_events_completed:
  "(\<exists>e\<in>set (task_events es). ev_type e = DecisionTaskCompleted) \<longleftrightarrow>
   (\<exists>e\<in>set es. ev_type e = DecisionTaskCompleted)"
  by (induction es) auto

lemma task_events_all:
  "(\<forall>e\<in>set es. ev_type e \<noteq> DecisionTaskCompleted) \<Longrightarrow> task_events es = es"
  by (induction es) auto

lemma command_not_completed: "command e \<Longrightarrow> ev_type e \<noteq> DecisionTaskCompleted"
  by (auto simp: command_def COMMAND_EVENT_TYPES_def)

lemma replay_window_events:
  "replay (window_of (window_events es)) \<longleftrightarrow> (\<exists>e\<in>set es. ev_type e = DecisionTaskCompleted)"
proof -
  have "\<not> (\<exists>e\<in>set (takeWhile command xs). ev_type e = DecisionTaskCompleted)" for xs
    using command_not_completed by (meson set_takeWhileD)
  then show ?thesis
    by (simp add: replay_window_of window_events_def bex_Un task_events_completed)
qed

text \<open>A window without a completed decision task takes every event there is.\<close>

lemma live_window_is_last:
  "\<not> replay (window_of (window_events es)) \<Longrightarrow> drop (length (window_events es)) es = []"
  using task_events_all [of es] by (auto simp: replay_window_events window_events_rest)

lemma partition_events_replay:
  "w \<in> set (butlast (partition_events es)) \<Longrightarrow> replay (window_of w)"
proof (induction es rule: partition_events.induct)
  case (2 e es)
  let ?r = "drop (length (window_events (e # es))) (e # es)"
  show ?case
  proof (cases "replay (window_of (window_events (e # es)))")
    case True
    with 2 show ?thesis by (auto simp: partition_events.simps(2) split: if_splits)
  next
    case False
    then have "?r = []" by (rule live_window_is_last)
    with 2(2) show ?thesis by (simp add: partition_events.simps(2))
  qed
qed simp

end
