(* ===== verification/StateManager.thy ===== *)
theory StateManager
  imports Dispatcher History
begin

text \<open>
  \<open>StateManager\<close> (lib/cadence/workflow/state_manager.rb): it numbers the decisions of a
  workflow, replays the events of its history against them, and tracks side effects and
  releases by markers. An operation that workflow code can call, and rescue from, returns
  the state beside its result or error; an error of \<open>apply\<close> ends the replay.
\<close>

section \<open>State\<close>

text \<open>\<open>marker_ids\<close> is a set, \<open>decision_tracker\<close> a hash with a new state machine as default.\<close>

record state_manager =
  decisions :: "(int \<times> decision) list"
  marker_ids :: "int list"
  releases :: "rval \<rightharpoonup> bool"
  side_effects :: "(int \<times> rval) list"
  decision_tracker :: "rval \<rightharpoonup> decision_state"
  sm_last_event_id :: "int option"
  sm_local_time :: "time option"
  sm_replay :: bool

definition StateManager_new :: state_manager where
  "StateManager_new = \<lparr>decisions = [], marker_ids = [], releases = Map.empty, side_effects = [],
     decision_tracker = Map.empty, sm_last_event_id = Some 0, sm_local_time = None,
     sm_replay = False\<rparr>"

definition SIDE_EFFECT_MARKER :: rval where "SIDE_EFFECT_MARKER = RStr ''SIDE_EFFECT''"
definition RELEASE_MARKER :: rval where "RELEASE_MARKER = RStr ''RELEASE''"

section \<open>Scheduling a decision\<close>

text \<open>The loop that draws identifiers until one is not a marker's.\<close>

function skip_markers :: "int list \<Rightarrow> int \<Rightarrow> int" where
  "skip_markers ids i = (if i \<in> set ids then skip_markers ids (i + 1) else i)"
  by pat_completeness auto

termination skip_markers
proof (relation "measure (\<lambda>(ids, i). card {m \<in> set ids. i \<le> m})")
  fix ids :: "int list" and i
  assume "i \<in> set ids"
  then have "{m \<in> set ids. i + 1 \<le> m} \<subset> {m \<in> set ids. i \<le> m}" by force
  then show "((ids, i + 1), ids, i) \<in> measure (\<lambda>(ids, i). card {m \<in> set ids. i \<le> m})"
    by (simp add: psubset_card_mono)
qed simp

declare skip_markers.simps [simp del]

text \<open>\<open>decision.activity_id ||= decision_id\<close> and its siblings: the decision and the identifier.\<close>

definition assign_id :: "int \<Rightarrow> decision \<Rightarrow> decision \<times> rval" where
  "assign_id i d =
     (case d of
        ScheduleActivity a \<Rightarrow>
          (let v = or_value (activity_id a) (RInt i) in (ScheduleActivity (a\<lparr>activity_id := v\<rparr>), v))
      | StartChildWorkflow c \<Rightarrow>
          (let v = or_value (workflow_id c) (RInt i) in (StartChildWorkflow (c\<lparr>workflow_id := v\<rparr>), v))
      | StartTimer tmo tid \<Rightarrow> (let v = or_value tid (RInt i) in (StartTimer tmo v, v))
      | _ \<Rightarrow> (d, RNil))"

definition validate_append_decision :: "state_manager \<Rightarrow> decision \<Rightarrow> rb_error option" where
  "validate_append_decision sm d =
     (if decisions sm = [] then None
      else (case snd (last (decisions sm)) of
          CompleteWorkflow _ \<Rightarrow> Some (WorkflowAlreadyCompletingError (decision_class_name d))
        | FailWorkflow _ _ \<Rightarrow> Some (WorkflowAlreadyCompletingError (decision_class_name d))
        | _ \<Rightarrow> None))"

text \<open>\<open>decision_tracker[id]\<close> creates the state machine when there is none.\<close>

definition tracked_state :: "state_manager \<Rightarrow> rval \<Rightarrow> decision_state" where
  "tracked_state sm i = (case decision_tracker sm i of None \<Rightarrow> NEW_STATE | Some s \<Rightarrow> s)"

definition schedule ::
  "decision \<Rightarrow> state_manager \<Rightarrow> state_manager \<times> (rb_error + event_target \<times> rval)" where
  "schedule d sm =
     (case sm_last_event_id sm of
        None \<Rightarrow> (sm, Inl (NoMethodError ''+''))
      | Some n \<Rightarrow>
          (let i = skip_markers (marker_ids sm) (n + 1);
               sm = sm\<lparr>sm_last_event_id := Some i\<rparr>;
               (d, cancelation_id) = assign_id i d;
               state = (if tracked_state sm (RInt i) = NEW_STATE then REQUESTED_STATE
                        else tracked_state sm (RInt i));
               sm = sm\<lparr>decision_tracker := (decision_tracker sm)(RInt i \<mapsto> state)\<rparr>
           in case validate_append_decision sm d of
                Some err \<Rightarrow> (sm, Inl err)
              | None \<Rightarrow>
                  (let sm = sm\<lparr>decisions := decisions sm @ [(i, d)]\<rparr>
                   in case from_decision (RInt i) d of
                        Inl err \<Rightarrow> (sm, Inl err)
                      | Inr target \<Rightarrow> (sm, Inr (target, cancelation_id)))))"

section \<open>Releases and side effects\<close>

definition track_release :: "rval \<Rightarrow> state_manager \<Rightarrow> state_manager \<times> rb_error option" where
  "track_release name sm =
     (if sm_replay sm then (sm\<lparr>releases := (releases sm)(name \<mapsto> False)\<rparr>, None)
      else (let sm = sm\<lparr>releases := (releases sm)(name \<mapsto> True)\<rparr>
            in case schedule (RecordMarker RELEASE_MARKER name) sm of
                 (sm, Inl err) \<Rightarrow> (sm, Some err)
               | (sm, Inr _) \<Rightarrow> (sm, None)))"

definition is_release :: "rval \<Rightarrow> state_manager \<Rightarrow> state_manager \<times> (rb_error + bool)" where
  "is_release name sm =
     (if releases sm name \<noteq> None then (sm, Inr (the (releases sm name)))
      else (case track_release name sm of
          (sm, Some err) \<Rightarrow> (sm, Inl err)
        | (sm, None) \<Rightarrow> (sm, Inr (the (releases sm name)))))"

fun next_side_effect_of :: "(int \<times> rval) list \<Rightarrow> (int \<times> rval) list \<times> (int \<times> rval) option" where
  "next_side_effect_of [] = ([], None)"
| "next_side_effect_of (s # ss) = (ss, Some s)"

definition next_side_effect :: "state_manager \<Rightarrow> state_manager \<times> (int \<times> rval) option" where
  "next_side_effect sm =
     (let (rest, s) = next_side_effect_of (side_effects sm) in (sm\<lparr>side_effects := rest\<rparr>, s))"

section \<open>Matching the history\<close>

definition discard_decision :: "event_target \<Rightarrow> state_manager \<Rightarrow> rb_error + state_manager" where
  "discard_decision target sm =
     (case decisions sm of
        [] \<Rightarrow> Inl NotScheduledUponReplay
      | (i, d) # rest \<Rightarrow>
          and_then (from_decision (RInt i) d) (\<lambda>existing.
            if \<not> same_target target existing \<or>
               \<not> rb_eq (RHash (target_attrs target)) (RHash (target_attrs existing))
            then Inl UnexpectedDecision
            else Inr (sm\<lparr>decisions := rest\<rparr>)))"

text \<open>
  A marker of another type is meant to raise \<open>UnsupportedMarkerType\<close>; the argument of the
  \<open>raise\<close> names a variable that does not exist there.
\<close>

definition handle_marker :: "int \<Rightarrow> rval \<Rightarrow> rval \<Rightarrow> state_manager \<Rightarrow> rb_error + state_manager" where
  "handle_marker i ty details sm =
     (let sm = sm\<lparr>marker_ids := i # marker_ids sm\<rparr>
      in if ty = SIDE_EFFECT_MARKER then
           Inr (sm\<lparr>side_effects := side_effects sm @ [(i, details)]\<rparr>)
         else if ty = RELEASE_MARKER then Inr (sm\<lparr>releases := (releases sm)(details \<mapsto> True)\<rparr>)
         else Inl (NameError ''event''))"

section \<open>The engine\<close>

text \<open>
  What a handler acts on: the state manager, the dispatcher and the state \<open>'w\<close> of the
  workflow code (its fibers and futures).
\<close>

record ('h, 'w) engine =
  manager :: state_manager
  dispatcher :: "'h dispatcher"
  code :: 'w

type_synonym ('h, 'w) handler_call =
  "'h \<Rightarrow> rval list \<Rightarrow> ('h, 'w) engine \<Rightarrow> rb_error + ('h, 'w) engine"

definition on_manager ::
  "(state_manager \<Rightarrow> rb_error + state_manager) \<Rightarrow> ('h, 'w) engine \<Rightarrow> rb_error + ('h, 'w) engine" where
  "on_manager f eng = and_then (f (manager eng)) (\<lambda>sm. Inr (eng\<lparr>manager := sm\<rparr>))"

definition engine_dispatch ::
  "('h, 'w) handler_call \<Rightarrow> event_target \<Rightarrow> string \<Rightarrow> rval list \<Rightarrow>
   ('h, 'w) engine \<Rightarrow> rb_error + ('h, 'w) engine" where
  "engine_dispatch call target name args eng =
     dispatch call (dispatcher eng) target name args eng"

text \<open>A method of the state machine of a decision.\<close>

definition machine :: "string \<Rightarrow> rval \<Rightarrow> state_manager \<Rightarrow> rb_error + state_manager" where
  "machine m i sm =
     and_then (state_machine_call m (tracked_state sm i)) (\<lambda>s.
       Inr (sm\<lparr>decision_tracker := (decision_tracker sm)(i \<mapsto> s)\<rparr>))"

definition touch :: "rval \<Rightarrow> state_manager \<Rightarrow> state_manager" where
  "touch i sm = sm\<lparr>decision_tracker := (decision_tracker sm)(i \<mapsto> tracked_state sm i)\<rparr>"

definition TimeoutType_VALUE_MAP :: "(int \<times> string) list" where
  "TimeoutType_VALUE_MAP =
     [(0, ''START_TO_CLOSE''), (1, ''SCHEDULE_TO_START''), (2, ''SCHEDULE_TO_CLOSE''), (3, ''HEARTBEAT'')]"

definition timeout_message :: "rval \<Rightarrow> rval" where
  "timeout_message v =
     RStr (''Timeout type: '' @
       (case v of RInt n \<Rightarrow> (case map_of TimeoutType_VALUE_MAP n of None \<Rightarrow> [] | Some t \<Rightarrow> t) | _ \<Rightarrow> []))"

section \<open>Applying events\<close>

text \<open>
  The arms of \<open>apply_event\<close> that advance the state machine \<open>m\<close>, then discard the decision
  the event matches, then dispatch with the arguments \<open>args\<close>.
\<close>

definition and_machine where
  "and_machine m i eng = on_manager (machine m i) eng"

definition and_discard where
  "and_discard target r = and_then r (on_manager (discard_decision target))"

definition and_dispatch where
  "and_dispatch call target name args r =
     and_then r (\<lambda>eng. and_then args (\<lambda>args. engine_dispatch call target name args eng))"

definition attribute :: "event \<Rightarrow> string \<Rightarrow> rb_error + rval" where
  "attribute e f = get_field (ev_attributes e) f"

definition parsed :: "json_api \<Rightarrow> event \<Rightarrow> string \<Rightarrow> rb_error + rval" where
  "parsed J e f = and_then (attribute e f) (deserialize J)"

definition both :: "rb_error + rval \<Rightarrow> rb_error + rval \<Rightarrow> rb_error + rval list" where
  "both a b = and_then a (\<lambda>x. and_then b (\<lambda>y. Inr [x, y]))"

definition one :: "rb_error + rval \<Rightarrow> rb_error + rval list" where
  "one a = and_then a (\<lambda>x. Inr [x])"

definition apply_event ::
  "json_api \<Rightarrow> ('h, 'w) handler_call \<Rightarrow> ('h, 'w) engine \<Rightarrow> event \<Rightarrow> rb_error + ('h, 'w) engine" where
  "apply_event J call eng e =
     and_then (decision_id e) (\<lambda>i.
     let eng = eng\<lparr>manager := touch i (manager eng)\<rparr> in
     and_then (from_event J e) (\<lambda>target.
     case ev_type e of
       WorkflowExecutionStarted \<Rightarrow>
         and_dispatch call workflow_target ''started''
           (and_then (parsed J e ''input'') (\<lambda>x. Inr [x, ev_attributes e]))
           (and_machine ''start'' i eng)
     | WorkflowExecutionCompleted \<Rightarrow> Inr eng
     | WorkflowExecutionFailed \<Rightarrow> Inr eng
     | WorkflowExecutionTimedOut \<Rightarrow> Inr eng
     | DecisionTaskScheduled \<Rightarrow> Inr eng
     | DecisionTaskStarted \<Rightarrow> Inr eng
     | DecisionTaskCompleted \<Rightarrow> Inr eng
     | DecisionTaskTimedOut \<Rightarrow> Inr eng
     | DecisionTaskFailed \<Rightarrow> Inr eng
     | ActivityTaskScheduled \<Rightarrow> and_discard target (and_machine ''schedule'' i eng)
     | ActivityTaskStarted \<Rightarrow> and_machine ''start'' i eng
     | ActivityTaskCompleted \<Rightarrow>
         and_dispatch call target ''completed'' (one (parsed J e ''result''))
           (and_machine ''complete'' i eng)
     | ActivityTaskFailed \<Rightarrow>
         and_dispatch call target ''failed'' (both (attribute e ''reason'') (parsed J e ''details''))
           (and_machine ''fail'' i eng)
     | ActivityTaskTimedOut \<Rightarrow>
         and_dispatch call target ''failed''
           (and_then (attribute e ''timeoutType'')
             (\<lambda>v. Inr [RStr ''Cadence::TimeoutError'', timeout_message v]))
           (and_machine ''time_out'' i eng)
     | ActivityTaskCancelRequested \<Rightarrow> and_discard target (and_machine ''requested'' i eng)
     | RequestCancelActivityTaskFailed \<Rightarrow>
         and_dispatch call target ''failed'' (both (attribute e ''cause'') (Inr RNil))
           (and_discard target (and_machine ''fail'' i eng))
     | ActivityTaskCanceled \<Rightarrow>
         and_dispatch call target ''failed'' (both (Inr (RStr ''CANCELLED'')) (parsed J e ''details''))
           (and_machine ''cancel'' i eng)
     | TimerStarted \<Rightarrow> and_discard target (and_machine ''start'' i eng)
     | TimerFired \<Rightarrow> and_dispatch call target ''fired'' (Inr []) (and_machine ''complete'' i eng)
     | CancelTimerFailed \<Rightarrow>
         and_dispatch call target ''failed'' (both (attribute e ''cause'') (Inr RNil))
           (and_discard target (and_machine ''failed'' i eng))
     | TimerCanceled \<Rightarrow>
         and_dispatch call target ''canceled'' (Inr [])
           (and_discard target (and_machine ''cancel'' i eng))
     | WorkflowExecutionCancelRequested \<Rightarrow> Inr eng
     | WorkflowExecutionCanceled \<Rightarrow> Inr eng
     | RequestCancelExternalWorkflowExecutionInitiated \<Rightarrow> Inr eng
     | RequestCancelExternalWorkflowExecutionFailed \<Rightarrow> Inr eng
     | ExternalWorkflowExecutionCancelRequested \<Rightarrow> Inr eng
     | MarkerRecorded \<Rightarrow>
         and_then (and_machine ''complete'' i eng) (\<lambda>eng.
         and_then (attribute e ''markerName'') (\<lambda>name.
         and_then (parsed J e ''details'') (\<lambda>details.
           on_manager (handle_marker (ev_id e) name details) eng)))
     | WorkflowExecutionSignaled \<Rightarrow>
         and_dispatch call target ''signaled'' (both (attribute e ''signalName'') (parsed J e ''input''))
           (Inr eng)
     | WorkflowExecutionTerminated \<Rightarrow> Inr eng
     | WorkflowExecutionContinuedAsNew \<Rightarrow> Inr eng
     | StartChildWorkflowExecutionInitiated \<Rightarrow> and_discard target (and_machine ''schedule'' i eng)
     | StartChildWorkflowExecutionFailed \<Rightarrow>
         and_dispatch call target ''failed'' (both (Inr (RStr ''StandardError'')) (parsed J e ''cause''))
           (and_machine ''fail'' i eng)
     | ChildWorkflowExecutionStarted \<Rightarrow> and_machine ''start'' i eng
     | ChildWorkflowExecutionCompleted \<Rightarrow>
         and_dispatch call target ''completed'' (one (parsed J e ''result''))
           (and_machine ''complete'' i eng)
     | ChildWorkflowExecutionFailed \<Rightarrow>
         and_dispatch call target ''failed'' (both (attribute e ''reason'') (parsed J e ''details''))
           (and_machine ''fail'' i eng)
     | ChildWorkflowExecutionCanceled \<Rightarrow>
         and_dispatch call target ''failed'' (both (Inr (RStr ''CANCELLED'')) (parsed J e ''details''))
           (and_machine ''cancel'' i eng)
     | ChildWorkflowExecutionTimedOut \<Rightarrow>
         and_dispatch call target ''failed''
           (and_then (attribute e ''timeoutType'')
             (\<lambda>v. Inr [RStr ''Cadence::TimeoutError'', timeout_message v]))
           (and_machine ''time_out'' i eng)
     | ChildWorkflowExecutionTerminated \<Rightarrow> Inr eng
     | SignalExternalWorkflowExecutionInitiated \<Rightarrow> Inr eng
     | SignalExternalWorkflowExecutionFailed \<Rightarrow> Inr eng
     | ExternalWorkflowExecutionSignaled \<Rightarrow> Inr eng
     | UpsertWorkflowSearchAttributes \<Rightarrow> Inr eng))"

definition begin_window :: "window \<Rightarrow> state_manager \<Rightarrow> state_manager" where
  "begin_window w sm = sm\<lparr>sm_replay := window.replay w, sm_local_time := window.local_time w,
     sm_last_event_id := window.last_event_id w\<rparr>"

definition apply_window ::
  "json_api \<Rightarrow> ('h, 'w) handler_call \<Rightarrow> window \<Rightarrow> ('h, 'w) engine \<Rightarrow> rb_error + ('h, 'w) engine" where
  "apply_window J call w eng =
     (let eng = eng\<lparr>manager := begin_window w (manager eng)\<rparr>
      in and_then (foldM (apply_event J call) (markers w) eng)
           (\<lambda>eng. foldM (apply_event J call) (events w) eng))"

end
