(* ===== verification/Replay.thy ===== *)
theory Replay
  imports StateManager
begin

text \<open>
  The laws of the state manager: what scheduling, releases, side effects and the matching of
  the history do, and the contracts the executor's proofs rest on. \<open>code_ops\<close> is what
  workflow code may do to the state manager through its context; \<open>workflow_code\<close> asks that
  of the handlers, \<open>manager_invariant\<close> that an invariant survives every operation, and
  together they give the invariant for the replay of events.
\<close>

section \<open>Drawing an identifier\<close>

lemma skip_markers_free: "skip_markers ids i \<notin> set ids"
  by (induction ids i rule: skip_markers.induct) (subst skip_markers.simps, simp)

lemma skip_markers_ge: "i \<le> skip_markers ids i"
  by (induction ids i rule: skip_markers.induct) (subst skip_markers.simps, force)

lemma skip_markers_least: "i \<le> k \<Longrightarrow> k < skip_markers ids i \<Longrightarrow> k \<in> set ids"
proof (induction ids i rule: skip_markers.induct)
  case (1 ids i)
  show ?case
  proof (cases "i \<in> set ids")
    case True
    then have "skip_markers ids i = skip_markers ids (i + 1)" by (subst skip_markers.simps) simp
    with 1 True show ?thesis by (cases "k = i") auto
  next
    case False
    then have "skip_markers ids i = i" by (subst skip_markers.simps) simp
    with 1(2,3) show ?thesis by simp
  qed
qed

section \<open>schedule\<close>

definition terminal :: "decision \<Rightarrow> bool" where
  "terminal d \<longleftrightarrow> (case d of CompleteWorkflow _ \<Rightarrow> True | FailWorkflow _ _ \<Rightarrow> True | _ \<Rightarrow> False)"

lemma terminal_assign_id [simp]: "terminal (fst (assign_id i d)) = terminal d"
  by (cases d) (simp_all add: terminal_def assign_id_def Let_def)

lemma decision_target_type_assign_id [simp]:
  "decision_target_type (fst (assign_id i d)) = decision_target_type d"
  by (cases d) (simp_all add: assign_id_def Let_def)

definition completing :: "state_manager \<Rightarrow> bool" where
  "completing sm \<longleftrightarrow> decisions sm \<noteq> [] \<and> terminal (snd (last (decisions sm)))"

lemma validate_append_decision_iff:
  "validate_append_decision sm d =
     (if completing sm then Some (WorkflowAlreadyCompletingError (decision_class_name d)) else None)"
  by (simp add: validate_append_decision_def completing_def terminal_def split: decision.splits)

definition drawn :: "state_manager \<Rightarrow> int \<Rightarrow> state_manager" where
  "drawn sm i = sm\<lparr>sm_last_event_id := Some i,
     decision_tracker := (decision_tracker sm)(RInt i \<mapsto>
       (if tracked_state sm (RInt i) = NEW_STATE then REQUESTED_STATE else tracked_state sm (RInt i)))\<rparr>"

lemma schedule_eq:
  "schedule d sm =
     (case sm_last_event_id sm of
        None \<Rightarrow> (sm, Inl (NoMethodError ''+''))
      | Some n \<Rightarrow>
          (let i = skip_markers (marker_ids sm) (n + 1); d' = fst (assign_id i d) in
           if completing sm
           then (drawn sm i, Inl (WorkflowAlreadyCompletingError (decision_class_name d')))
           else ((drawn sm i)\<lparr>decisions := decisions sm @ [(i, d')]\<rparr>,
                 Inr (\<lparr>target_id = RInt i, target_type = decision_target_type d,
                       target_attrs = decision_attributes d'\<rparr>, snd (assign_id i d)))))"
proof -
  have "completing (drawn sm i) = completing sm" for i by (simp add: completing_def drawn_def)
  then show ?thesis
    by (cases "sm_last_event_id sm")
      (simp_all add: schedule_def Let_def validate_append_decision_iff drawn_def tracked_state_def
        completing_def case_prod_beta split: option.splits)
qed

section \<open>What workflow code may do\<close>

inductive code_ops :: "state_manager \<Rightarrow> state_manager \<Rightarrow> bool" where
  nothing: "code_ops sm sm"
| scheduled: "code_ops sm sm' \<Longrightarrow> code_ops sm (fst (schedule d sm'))"
| released: "code_ops sm sm' \<Longrightarrow> code_ops sm (fst (is_release name sm'))"
| side_effect: "code_ops sm sm' \<Longrightarrow> code_ops sm (fst (next_side_effect sm'))"

lemma code_ops_trans: "code_ops b c \<Longrightarrow> code_ops a b \<Longrightarrow> code_ops a c"
  by (induction rule: code_ops.induct) (auto intro: code_ops.intros)

locale workflow_code =
  fixes call :: "('h, 'w) handler_call"
  assumes call_ops: "call h args eng = Inr eng' \<Longrightarrow> code_ops (manager eng) (manager eng')"
begin

lemma dispatch_ops:
  assumes "engine_dispatch call target name args eng = Inr eng'"
  shows "code_ops (manager eng) (manager eng')"
  using assms [unfolded engine_dispatch_def dispatch_def] code_ops.nothing
  by (rule foldM_invariant) (blast intro: code_ops_trans call_ops)

end

section \<open>Invariants of the state manager\<close>

locale manager_invariant =
  fixes P :: "state_manager \<Rightarrow> bool"
  assumes P_schedule: "P sm \<Longrightarrow> P (fst (schedule d sm))"
    and P_releases: "P sm \<Longrightarrow> P (sm\<lparr>releases := r\<rparr>)"
    and P_side_effects: "P sm \<Longrightarrow> P (sm\<lparr>side_effects := s\<rparr>)"
    and P_tracker: "P sm \<Longrightarrow> P (sm\<lparr>decision_tracker := t\<rparr>)"
    and P_shift: "P sm \<Longrightarrow> decisions sm = x # rest \<Longrightarrow> P (sm\<lparr>decisions := rest\<rparr>)"
begin

lemma P_track_release: "P sm \<Longrightarrow> P (fst (track_release name sm))"
  using P_schedule [OF P_releases]
  by (auto simp: track_release_def Let_def P_releases split: prod.splits sum.splits)
    (metis fst_conv)+

lemma P_is_release: "P sm \<Longrightarrow> P (fst (is_release name sm))"
  using P_track_release by (auto simp: is_release_def split: prod.splits option.splits) (metis fst_conv)+

lemma P_next_side_effect: "P sm \<Longrightarrow> P (fst (next_side_effect sm))"
  by (simp add: next_side_effect_def P_side_effects split: prod.splits)

lemma P_code_ops: "code_ops sm sm' \<Longrightarrow> P sm \<Longrightarrow> P sm'"
  by (induction rule: code_ops.induct) (simp_all add: P_schedule P_is_release P_next_side_effect)

lemma P_discard: "P sm \<Longrightarrow> discard_decision target sm = Inr sm' \<Longrightarrow> P sm'"
  by (auto simp: discard_decision_def P_shift split: list.splits if_splits)

lemma P_machine: "P sm \<Longrightarrow> machine m i sm = Inr sm' \<Longrightarrow> P sm'"
  by (auto simp: machine_def and_then_Inr_iff P_tracker)

lemma P_touch: "P sm \<Longrightarrow> P (touch i sm)"
  by (simp add: touch_def P_tracker)

end

text \<open>
  The contract of the steps an event is applied by: each keeps \<open>Q\<close>. Markers apart, no other
  step changes the engine.
\<close>

definition holds_after :: "('s \<Rightarrow> bool) \<Rightarrow> 'e + 's \<Rightarrow> bool" where
  "holds_after Q r \<longleftrightarrow> (\<forall>s. r = Inr s \<longrightarrow> Q s)"

lemma holds_after_Inr [simp]: "holds_after Q (Inr s) \<longleftrightarrow> Q s"
  by (simp add: holds_after_def)

locale event_step =
  fixes call :: "('h, 'w) handler_call" and Q :: "('h, 'w) engine \<Rightarrow> bool"
  assumes Q_machine: "Q eng \<Longrightarrow> machine m i (manager eng) = Inr sm \<Longrightarrow> Q (eng\<lparr>manager := sm\<rparr>)"
    and Q_discard: "Q eng \<Longrightarrow> discard_decision target (manager eng) = Inr sm \<Longrightarrow> Q (eng\<lparr>manager := sm\<rparr>)"
    and Q_touch: "Q eng \<Longrightarrow> Q (eng\<lparr>manager := touch i (manager eng)\<rparr>)"
    and Q_dispatch: "Q eng \<Longrightarrow> engine_dispatch call target name args eng = Inr eng' \<Longrightarrow> Q eng'"
begin

lemma after_machine: "Q eng \<Longrightarrow> holds_after Q (and_machine m i eng)"
  by (auto simp: holds_after_def and_machine_def on_manager_def and_then_Inr_iff Q_machine)

lemma after_discard: "holds_after Q r \<Longrightarrow> holds_after Q (and_discard target r)"
  by (auto simp: holds_after_def and_discard_def on_manager_def and_then_Inr_iff Q_discard)

lemma after_dispatch: "holds_after Q r \<Longrightarrow> holds_after Q (and_dispatch call target name args r)"
  by (auto simp: holds_after_def and_dispatch_def and_then_Inr_iff intro: Q_dispatch)

lemma Q_apply_event:
  assumes "apply_event J call eng e = Inr eng'" and "Q eng" and "ev_type e \<noteq> MarkerRecorded"
  shows "Q eng'"
proof -
  obtain i target where i: "decision_id e = Inr i" and t: "from_event J e = Inr target"
    using assms(1) by (auto simp: apply_event_def and_then_Inr_iff Let_def)
  define eng0 where "eng0 = eng\<lparr>manager := touch i (manager eng)\<rparr>"
  have Q: "Q eng0" using assms(2) by (simp add: eng0_def Q_touch)
  have "holds_after Q (apply_event J call eng e)"
    using assms(3) Q unfolding apply_event_def i and_then.simps Let_def t eng0_def [symmetric]
    by (cases "ev_type e") (simp_all add: after_dispatch after_discard after_machine)
  with assms(1) show ?thesis by (simp add: holds_after_def)
qed

lemma Q_apply_events:
  assumes "foldM (apply_event J call) es eng = Inr eng'" and "Q eng"
    and "\<And>e. e \<in> set es \<Longrightarrow> ev_type e \<noteq> MarkerRecorded"
  shows "Q eng'"
  using assms(1,2) by (rule foldM_invariant) (use Q_apply_event assms(3) in blast)

end

locale replay_invariant = workflow_code call + manager_invariant P
  for call :: "('h, 'w) handler_call" and P :: "state_manager \<Rightarrow> bool"

sublocale replay_invariant \<subseteq> event_step call "\<lambda>eng. P (manager eng)"
proof
  fix eng target name args eng'
  assume "P (manager eng)" and "engine_dispatch call target name args eng = Inr eng'"
  then show "P (manager eng')" using dispatch_ops P_code_ops by blast
qed ((simp, erule (1) P_machine) | (simp, erule (1) P_discard) | (simp, erule P_touch))+

section \<open>A completed or failed workflow decides nothing more\<close>

definition terminal_last :: "state_manager \<Rightarrow> bool" where
  "terminal_last sm \<longleftrightarrow> (\<forall>x\<in>set (butlast (decisions sm)). \<not> terminal (snd x))"

interpretation terminal_last: manager_invariant terminal_last
proof
  fix sm d
  assume P: "terminal_last sm"
  show "terminal_last (fst (schedule d sm))"
  proof (cases "completing sm")
    case False
    then have "\<forall>x\<in>set (decisions sm). \<not> terminal (snd x)"
      using P by (cases "decisions sm" rule: rev_cases) (auto simp: completing_def terminal_last_def)
    with False P show ?thesis
      by (auto simp: schedule_eq Let_def terminal_last_def split: option.splits)
  qed (use P in \<open>auto simp: schedule_eq Let_def drawn_def terminal_last_def split: option.splits\<close>)
qed (auto simp: terminal_last_def dest: in_set_butlastD split: if_splits)

section \<open>Identifiers are new, increasing and not taken by markers\<close>

definition ids_ok :: "int \<Rightarrow> int list \<Rightarrow> state_manager \<Rightarrow> bool" where
  "ids_ok b ids sm \<longleftrightarrow> marker_ids sm = ids \<and> sorted_wrt (<) (List.map fst (decisions sm)) \<and>
     (\<forall>x\<in>set (decisions sm). b < fst x \<and> fst x \<notin> set ids) \<and>
     (\<exists>n. sm_last_event_id sm = Some n \<and> b \<le> n \<and> (\<forall>x\<in>set (decisions sm). fst x \<le> n))"

interpretation ids_ok: manager_invariant "ids_ok b ids" for b ids
proof
  fix sm d
  assume P: "ids_ok b ids sm"
  then obtain n where n: "sm_last_event_id sm = Some n" "b \<le> n" "\<forall>x\<in>set (decisions sm). fst x \<le> n"
    by (auto simp: ids_ok_def)
  let ?i = "skip_markers ids (n + 1)"
  have i: "n < ?i" "?i \<notin> set ids" using skip_markers_ge [of "n + 1" ids] skip_markers_free by auto
  from P have m: "marker_ids sm = ids" by (simp add: ids_ok_def)
  have le: "\<forall>x\<in>set (decisions sm). fst x < ?i" using n(3) i(1) by fastforce
  show "ids_ok b ids (fst (schedule d sm))"
    using P i n(2) le
    by (auto simp: schedule_eq n(1) m Let_def ids_ok_def drawn_def sorted_wrt_append less_imp_le)
qed (auto simp: ids_ok_def)

section \<open>Windows\<close>

definition is_marker :: "event \<Rightarrow> bool" where
  "is_marker e \<longleftrightarrow> ev_type e = MarkerRecorded"

text \<open>A marker runs no handler, and changes what markers are for only.\<close>

lemma apply_marker:
  assumes "is_marker e" and "apply_event J call eng e = Inr eng'"
  shows "marker_ids (manager eng') = ev_id e # marker_ids (manager eng)"
    and "decisions (manager eng') = decisions (manager eng)"
    and "sm_last_event_id (manager eng') = sm_last_event_id (manager eng)"
    and "sm_replay (manager eng') = sm_replay (manager eng)"
    and "dispatcher eng' = dispatcher eng" and "code eng' = code eng"
  using assms
  by (auto simp: is_marker_def apply_event_def Let_def and_then_Inr_iff and_machine_def on_manager_def
      machine_def touch_def handle_marker_def split: if_splits)

lemma apply_markers:
  assumes "foldM (apply_event J call) es eng = Inr eng'" and "\<forall>e\<in>set es. is_marker e"
  shows "marker_ids (manager eng') = rev (List.map ev_id es) @ marker_ids (manager eng) \<and>
    decisions (manager eng') = decisions (manager eng) \<and>
    sm_last_event_id (manager eng') = sm_last_event_id (manager eng) \<and>
    sm_replay (manager eng') = sm_replay (manager eng) \<and>
    dispatcher eng' = dispatcher eng \<and> code eng' = code eng"
  using assms
proof (induction es arbitrary: eng)
  case (Cons e es)
  then obtain eng1 where 1: "apply_event J call eng e = Inr eng1"
    "foldM (apply_event J call) es eng1 = Inr eng'"
    by (auto simp: and_then_Inr_iff)
  from Cons.prems(2) have "is_marker e" by simp
  with Cons 1 show ?case using apply_marker [OF _ 1(1)] by simp
qed simp

definition window_ok :: "window \<Rightarrow> bool" where
  "window_ok w \<longleftrightarrow> (\<forall>e\<in>set (markers w). is_marker e) \<and>
     (\<forall>e\<in>set (events w). \<not> is_marker e \<and> \<not> decision_task_event e)"

lemma window_of_ok [simp]: "window_ok (window_of es)"
  by (auto simp: window_ok_def markers_window_of events_window_of is_marker_def)

lemma apply_window_split:
  assumes "apply_window J call w eng = Inr eng'"
  obtains mid where "foldM (apply_event J call) (markers w) (eng\<lparr>manager := begin_window w (manager eng)\<rparr>) = Inr mid"
    and "foldM (apply_event J call) (events w) mid = Inr eng'"
  using assms by (auto simp: apply_window_def Let_def and_then_Inr_iff)

context replay_invariant
begin

lemma window_events_keep:
  "foldM (apply_event J call) (events w) mid = Inr eng' \<Longrightarrow> window_ok w \<Longrightarrow> P (manager mid) \<Longrightarrow>
   P (manager eng')"
  by (rule Q_apply_events) (auto simp: window_ok_def is_marker_def)

end

context workflow_code
begin

text \<open>
  The decisions made in a window: their identifiers increase from the window's, and none
  is the identifier of a marker seen up to then.
\<close>

lemma window_ids:
  assumes run: "apply_window J call w eng = Inr eng'" and w: "window_ok w"
    and none: "decisions (manager eng) = []" and b: "window.last_event_id w = Some b"
  shows "ids_ok b (rev (List.map ev_id (markers w)) @ marker_ids (manager eng)) (manager eng')"
proof -
  obtain mid where mid: "foldM (apply_event J call) (markers w)
      (eng\<lparr>manager := begin_window w (manager eng)\<rparr>) = Inr mid"
    "foldM (apply_event J call) (events w) mid = Inr eng'"
    using run by (rule apply_window_split)
  have "ids_ok b (rev (List.map ev_id (markers w)) @ marker_ids (manager eng)) (manager mid)"
    using apply_markers [OF mid(1)] w none b
    by (simp add: window_ok_def ids_ok_def begin_window_def)
  then show ?thesis
    using replay_invariant.window_events_keep [OF replay_invariant.intro [OF workflow_code_axioms ids_ok.manager_invariant_axioms] mid(2)] w
    by auto
qed

lemma window_terminal_last:
  assumes run: "apply_window J call w eng = Inr eng'" and w: "window_ok w"
    and "terminal_last (manager eng)"
  shows "terminal_last (manager eng')"
proof -
  obtain mid where mid: "foldM (apply_event J call) (markers w)
      (eng\<lparr>manager := begin_window w (manager eng)\<rparr>) = Inr mid"
    "foldM (apply_event J call) (events w) mid = Inr eng'"
    using run by (rule apply_window_split)
  have "terminal_last (manager mid)"
    using apply_markers [OF mid(1)] w assms(3) by (simp add: window_ok_def terminal_last_def begin_window_def)
  then show ?thesis
    using replay_invariant.window_events_keep [OF replay_invariant.intro [OF workflow_code_axioms terminal_last.manager_invariant_axioms] mid(2)] w
    by auto
qed

end

text \<open>
  An invariant of the handlers and the code: what handlers keep, whatever the state
  manager holds, is kept by every window.
\<close>

locale code_invariant =
  fixes call :: "('h, 'w) handler_call" and Q :: "('h, 'w) engine \<Rightarrow> bool"
  assumes Q_call: "Q eng \<Longrightarrow> call h args eng = Inr eng' \<Longrightarrow> Q eng'"
    and Q_manager: "Q (eng\<lparr>manager := sm\<rparr>) \<longleftrightarrow> Q eng"

sublocale code_invariant \<subseteq> event_step call Q
proof
  fix eng target name args eng'
  assume "Q eng" and "engine_dispatch call target name args eng = Inr eng'"
  then show "Q eng'"
    unfolding engine_dispatch_def dispatch_def by (rule_tac foldM_invariant) (auto intro: Q_call)
qed (simp_all add: Q_manager)

text \<open>The engines a replay goes through: a window begins, an event is applied.\<close>

inductive replayed ::
  "json_api \<Rightarrow> ('h, 'w) handler_call \<Rightarrow> ('h, 'w) engine \<Rightarrow> ('h, 'w) engine \<Rightarrow> bool"
  for J call start where
  replay_start: "replayed J call start start"
| replay_window: "replayed J call start eng \<Longrightarrow>
    replayed J call start (eng\<lparr>manager := begin_window w (manager eng)\<rparr>)"
| replay_event: "replayed J call start eng \<Longrightarrow> apply_event J call eng e = Inr eng' \<Longrightarrow>
    replayed J call start eng'"

lemma replayed_events:
  assumes "foldM (apply_event J call) es eng = Inr eng'" and "replayed J call start eng"
  shows "replayed J call start eng'"
  using assms by (rule foldM_invariant) (rule replay_event)

lemma replayed_apply_window:
  "apply_window J call w eng = Inr eng' \<Longrightarrow> replayed J call start eng \<Longrightarrow> replayed J call start eng'"
  using replayed_events [OF _ replayed_events [OF _ replay_window]]
  by (auto simp: apply_window_def Let_def and_then_Inr_iff)

context code_invariant
begin

lemma Q_same_code: "code eng' = code eng \<Longrightarrow> dispatcher eng' = dispatcher eng \<Longrightarrow> Q eng \<Longrightarrow> Q eng'"
  using Q_manager [where eng = eng and sm = "manager eng'"] by (cases eng; cases eng') simp

lemma Q_event: "apply_event J call eng e = Inr eng' \<Longrightarrow> Q eng \<Longrightarrow> Q eng'"
  using apply_marker [of e J call eng eng'] Q_same_code [of eng' eng] Q_apply_event
  by (cases "is_marker e") (auto simp: is_marker_def)

lemma Q_replayed: "replayed J call start eng \<Longrightarrow> Q start \<Longrightarrow> Q eng"
  by (induction rule: replayed.induct) (auto simp: Q_manager intro: Q_event)

end

section \<open>Matching decisions with the commands of the history\<close>

definition simple_command :: "event \<Rightarrow> bool" where
  "simple_command e \<longleftrightarrow> ev_type e \<in>
     {ActivityTaskScheduled, ActivityTaskCancelRequested, TimerStarted,
      StartChildWorkflowExecutionInitiated}"

definition matches :: "json_api \<Rightarrow> int \<times> decision \<Rightarrow> event \<Rightarrow> bool" where
  "matches J x e \<longleftrightarrow> (case from_event J e of
       Inl _ \<Rightarrow> False
     | Inr t \<Rightarrow> target_id t = RInt (fst x) \<and> target_type t = decision_target_type (snd x) \<and>
         rb_eq (RHash (target_attrs t)) (RHash (decision_attributes (snd x))))"

lemma from_event_decision_id: "from_event J e = Inr t \<Longrightarrow> decision_id e = Inr (target_id t)"
  by (auto simp: from_event_eq and_then_Inr_iff split: option.splits)

definition command_method :: "event_type \<Rightarrow> string" where
  "command_method t =
     (if t = ActivityTaskCancelRequested then ''requested''
      else if t = TimerStarted then ''start'' else ''schedule'')"

lemma command_method_known: "\<exists>s. map_of state_machine_methods (command_method t) = Some s"
  by (cases "t = ActivityTaskCancelRequested"; cases "t = TimerStarted")
    (simp_all add: command_method_def state_machine_methods_def)

lemma apply_simple_command:
  assumes "simple_command e" and "from_event J e = Inr t"
  shows "case decisions (manager eng) of
       [] \<Rightarrow> apply_event J call eng e = Inl NotScheduledUponReplay
     | x # rest \<Rightarrow>
         if matches J x e
         then \<exists>tr. apply_event J call eng e =
           Inr (eng\<lparr>manager := (manager eng)\<lparr>decision_tracker := tr, decisions := rest\<rparr>\<rparr>)
         else apply_event J call eng e = Inl UnexpectedDecision"
proof -
  let ?eng = "eng\<lparr>manager := touch (target_id t) (manager eng)\<rparr>"
  let ?m = "command_method (ev_type e)"
  have m: "apply_event J call eng e = and_discard t (and_machine ?m (target_id t) ?eng)"
    using assms(1) unfolding simple_command_def apply_event_def from_event_decision_id [OF assms(2)]
      assms(2) and_then.simps Let_def
    by (elim insertE emptyE) (simp_all add: command_method_def)
  obtain s where s: "map_of state_machine_methods ?m = Some s"
    using command_method_known by blast
  show ?thesis
  proof (cases "decisions (manager eng)")
    case Nil
    then show ?thesis
      by (simp add: m s and_discard_def and_machine_def on_manager_def machine_def state_machine_call_def
          touch_def discard_decision_def)
  next
    case (Cons x rest)
    obtain i d where x: "x = (i, d)" by (cases x)
    show ?thesis
      by (auto simp: Cons x m s and_discard_def and_machine_def on_manager_def machine_def
          state_machine_call_def touch_def discard_decision_def matches_def assms(2) same_target_def
          simp del: rb_eq.simps)
  qed
qed

text \<open>
  The commands of a decision task consume the decisions made for it, each the first one
  left; anything else is a non-deterministic workflow.
\<close>

lemma apply_commands:
  assumes "\<forall>e\<in>set es. simple_command e \<and> (\<exists>t. from_event J e = Inr t)"
  shows "case foldM (apply_event J call) es eng of
       Inl err \<Rightarrow> non_deterministic err \<and>
         \<not> (\<exists>ds rest. decisions (manager eng) = ds @ rest \<and> list_all2 (matches J) ds es)
     | Inr eng' \<Rightarrow>
         (\<exists>ds. decisions (manager eng) = ds @ decisions (manager eng') \<and> list_all2 (matches J) ds es) \<and>
         code eng' = code eng \<and> dispatcher eng' = dispatcher eng"
  using assms
proof (induction es arbitrary: eng)
  case (Cons e es)
  then obtain t where e: "simple_command e" "from_event J e = Inr t" by auto
  note step = apply_simple_command [OF e, where eng = eng]
  show ?case
  proof (cases "decisions (manager eng)")
    case Nil
    with step show ?thesis by (auto simp: list_all2_Cons2)
  next
    case x: (Cons x rest)
    show ?thesis
    proof (cases "matches J x e")
      case True
      with step x obtain tr where ae: "apply_event J call eng e =
          Inr (eng\<lparr>manager := (manager eng)\<lparr>decision_tracker := tr, decisions := rest\<rparr>\<rparr>)"
        by auto
      have "\<forall>e\<in>set es. simple_command e \<and> (\<exists>t. from_event J e = Inr t)" using Cons.prems by simp
      from Cons.IH [OF this, of "eng\<lparr>manager := (manager eng)\<lparr>decision_tracker := tr, decisions := rest\<rparr>\<rparr>"]
      show ?thesis
        using True x by (cases x) (auto simp: ae list_all2_Cons2 Cons_eq_append_conv split: sum.splits)
    next
      case False
      with step x show ?thesis by (auto simp: list_all2_Cons2 Cons_eq_append_conv)
    qed
  qed
qed (simp add: exI [of _ "[]"])

end
