(* ===== verification/Context.thy ===== *)
theory Context
  imports Replay
begin

text \<open>
  \<open>Workflow::Future\<close> and \<open>Workflow::Context\<close> (lib/cadence/workflow/future.rb, context.rb):
  workflow code, the fibers it runs in, and the handlers the context registers.

  Workflow code is a value of type \<open>prog\<close>: what it does until its next call of the context,
  that call, and how it goes on with the call's result or exception. So code can wait in the
  middle of a block, and rescue what a call raises. A fiber is the program it still has to run.
  The arguments of a decision are those after \<open>ExecutionOptions\<close>; the block of a side
  effect is given by its result, and the one of a local activity is such a block.
\<close>

section \<open>Workflow code\<close>

text \<open>A future is named by its index in the order of creation.\<close>

datatype prog =
    Finish rval
  | Throw rb_error
  | ExecuteActivity ScheduleActivity "rb_error + nat \<Rightarrow> prog"
  | ExecuteWorkflow StartChildWorkflow "rb_error + nat \<Rightarrow> prog"
  | StartTimerCall rval rval "rb_error + nat \<Rightarrow> prog"
  | CancelTimerCall rval "rb_error + unit \<Rightarrow> prog"
  | CancelActivityCall rval "rb_error + unit \<Rightarrow> prog"
  | CompleteCall rval "rb_error + unit \<Rightarrow> prog"
  | FailCall rval rval "rb_error + unit \<Rightarrow> prog"
  | SideEffect "rb_error + rval" "rb_error + rval \<Rightarrow> prog"
  | HasRelease string "rb_error + bool \<Rightarrow> prog"
  | WaitFuture nat prog
  | FutureValue nat "rval \<Rightarrow> prog"
  | IsFailed nat "bool \<Rightarrow> prog"
  | DoneFuture nat "rval \<Rightarrow> prog" "rb_error + unit \<Rightarrow> prog"
  | CancelFuture nat "rb_error + bool \<Rightarrow> prog"
  | OnSignal "rval \<Rightarrow> rval \<Rightarrow> prog" prog
  | Now "time option \<Rightarrow> prog"

text \<open>Running \<open>f\<close> after the code returns, \<open>g\<close> when it raises (\<open>begin ... rescue ... end\<close>).\<close>

primrec bind_rescue :: "prog \<Rightarrow> (rval \<Rightarrow> prog) \<Rightarrow> (rb_error \<Rightarrow> prog) \<Rightarrow> prog" where
  "bind_rescue (Finish v) = (\<lambda>f g. f v)"
| "bind_rescue (Throw e) = (\<lambda>f g. g e)"
| "bind_rescue (ExecuteActivity a k) = (\<lambda>f g. ExecuteActivity a (\<lambda>r. bind_rescue (k r) f g))"
| "bind_rescue (ExecuteWorkflow c k) = (\<lambda>f g. ExecuteWorkflow c (\<lambda>r. bind_rescue (k r) f g))"
| "bind_rescue (StartTimerCall t i k) = (\<lambda>f g. StartTimerCall t i (\<lambda>r. bind_rescue (k r) f g))"
| "bind_rescue (CancelTimerCall i k) = (\<lambda>f g. CancelTimerCall i (\<lambda>r. bind_rescue (k r) f g))"
| "bind_rescue (CancelActivityCall i k) = (\<lambda>f g. CancelActivityCall i (\<lambda>r. bind_rescue (k r) f g))"
| "bind_rescue (CompleteCall v k) = (\<lambda>f g. CompleteCall v (\<lambda>r. bind_rescue (k r) f g))"
| "bind_rescue (FailCall v w k) = (\<lambda>f g. FailCall v w (\<lambda>r. bind_rescue (k r) f g))"
| "bind_rescue (SideEffect b k) = (\<lambda>f g. SideEffect b (\<lambda>r. bind_rescue (k r) f g))"
| "bind_rescue (HasRelease n k) = (\<lambda>f g. HasRelease n (\<lambda>r. bind_rescue (k r) f g))"
| "bind_rescue (WaitFuture n p) = (\<lambda>f g. WaitFuture n (bind_rescue p f g))"
| "bind_rescue (FutureValue n k) = (\<lambda>f g. FutureValue n (\<lambda>r. bind_rescue (k r) f g))"
| "bind_rescue (IsFailed n k) = (\<lambda>f g. IsFailed n (\<lambda>r. bind_rescue (k r) f g))"
| "bind_rescue (DoneFuture n b k) = (\<lambda>f g. DoneFuture n b (\<lambda>r. bind_rescue (k r) f g))"
| "bind_rescue (CancelFuture n k) = (\<lambda>f g. CancelFuture n (\<lambda>r. bind_rescue (k r) f g))"
| "bind_rescue (OnSignal b p) = (\<lambda>f g. OnSignal b (bind_rescue p f g))"
| "bind_rescue (Now k) = (\<lambda>f g. Now (\<lambda>r. bind_rescue (k r) f g))"

text \<open>\<open>Future#get\<close> waits, then reads the value.\<close>

definition GetFuture :: "nat \<Rightarrow> (rval \<Rightarrow> prog) \<Rightarrow> prog" where
  "GetFuture f k = WaitFuture f (FutureValue f k)"

section \<open>Futures\<close>

record future =
  fut_target :: event_target
  cancelation_id :: rval
  callbacks :: "(rval \<Rightarrow> prog) list"
  ready :: bool
  fut_result :: rval
  failure :: "(rval \<times> rval) option"

definition Future_new :: "event_target \<Rightarrow> rval \<Rightarrow> future" where
  "Future_new target cid = \<lparr>fut_target = target, cancelation_id = cid, callbacks = [],
     ready = False, fut_result = RNil, failure = None\<rparr>"

definition failed :: "future \<Rightarrow> bool" where "failed f \<longleftrightarrow> failure f \<noteq> None"

definition finished :: "future \<Rightarrow> bool" where "finished f \<longleftrightarrow> ready f \<or> failed f"

definition Future_set :: "rval \<Rightarrow> future \<Rightarrow> rb_error + future" where
  "Future_set v f =
     (if failed f then Inl (RuntimeError ''can not fulfil a failed future'')
      else Inr (f\<lparr>fut_result := v, ready := True\<rparr>))"

definition Future_fail :: "rval \<Rightarrow> rval \<Rightarrow> future \<Rightarrow> rb_error + future" where
  "Future_fail reason details f =
     (if ready f then Inl (RuntimeError ''can not fail a fulfilled future'')
      else Inr (f\<lparr>failure := Some (reason, details)\<rparr>))"

text \<open>\<open>failure || result\<close>: a failure is the array of its reason and details.\<close>

definition Future_value :: "future \<Rightarrow> rval" where
  "Future_value f = (case failure f of Some (reason, details) \<Rightarrow> RArr [reason, details] | None \<Rightarrow> fut_result f)"

section \<open>Handlers and fibers\<close>

text \<open>
  The blocks that are registered with the dispatcher: the executor's, those that fulfil or
  fail a future, the resumption of a fiber that waits for a future, and a signal's.
\<close>

datatype handler =
    H_Started "rval \<Rightarrow> prog"
  | H_Completed nat
  | H_Failed nat
  | H_Resume nat nat
  | H_Signal "rval \<Rightarrow> rval \<Rightarrow> prog"

datatype fiber = Suspended prog | Running | Dead

record code_state =
  futures :: "future list"
  fibers :: "fiber list"

type_synonym wf_engine = "(handler, code_state) engine"

text \<open>Code has no name for a future that was not created; one stands for a future of the workflow.\<close>

definition future_at :: "wf_engine \<Rightarrow> nat \<Rightarrow> future" where
  "future_at eng f =
     (if f < length (futures (code eng)) then futures (code eng) ! f else Future_new workflow_target RNil)"

definition update_future :: "nat \<Rightarrow> future \<Rightarrow> wf_engine \<Rightarrow> wf_engine" where
  "update_future f fut eng = eng\<lparr>code := (code eng)\<lparr>futures := (futures (code eng))[f := fut]\<rparr>\<rparr>"

definition set_fiber :: "nat \<Rightarrow> fiber \<Rightarrow> wf_engine \<Rightarrow> wf_engine" where
  "set_fiber fb s eng = eng\<lparr>code := (code eng)\<lparr>fibers := (fibers (code eng))[fb := s]\<rparr>\<rparr>"

definition add_handler :: "event_target \<Rightarrow> string \<Rightarrow> handler \<Rightarrow> wf_engine \<Rightarrow> wf_engine" where
  "add_handler target name h eng = eng\<lparr>dispatcher := register_handler target name h (dispatcher eng)\<rparr>"

lemma future_at_simps [simp]:
  "future_at (add_handler target name h eng) f = future_at eng f"
  "future_at (eng\<lparr>dispatcher := d\<rparr>) f = future_at eng f"
  "future_at (eng\<lparr>manager := sm\<rparr>) f = future_at eng f"
  "future_at (eng\<lparr>code := (code eng)\<lparr>fibers := fbs\<rparr>\<rparr>) f = future_at eng f"
  by (simp_all add: future_at_def add_handler_def)

section \<open>The context\<close>

definition schedule_decision ::
  "decision \<Rightarrow> wf_engine \<Rightarrow> wf_engine \<times> (rb_error + event_target \<times> rval)" where
  "schedule_decision d eng = (let (sm, r) = schedule d (manager eng) in (eng\<lparr>manager := sm\<rparr>, r))"

definition scheduled_only :: "decision \<Rightarrow> wf_engine \<Rightarrow> wf_engine \<times> (rb_error + unit)" where
  "scheduled_only d eng =
     (case schedule_decision d eng of (eng, Inl e) \<Rightarrow> (eng, Inl e) | (eng, Inr _) \<Rightarrow> (eng, Inr ()))"

text \<open>A decision with a future: \<open>execute_activity\<close>, \<open>execute_workflow\<close>, \<open>start_timer\<close>.\<close>

definition with_future ::
  "decision \<Rightarrow> string \<Rightarrow> string \<Rightarrow> wf_engine \<Rightarrow> wf_engine \<times> (rb_error + nat)" where
  "with_future d done_name failed_name eng =
     (case schedule_decision d eng of
        (eng, Inl e) \<Rightarrow> (eng, Inl e)
      | (eng, Inr (target, cid)) \<Rightarrow>
          (let f = length (futures (code eng));
               eng = eng\<lparr>code := (code eng)\<lparr>futures := futures (code eng) @ [Future_new target cid]\<rparr>\<rparr>;
               eng = add_handler target done_name (H_Completed f) eng;
               eng = add_handler target failed_name (H_Failed f) eng
           in (eng, Inr f)))"

definition execute_activity :: "ScheduleActivity \<Rightarrow> wf_engine \<Rightarrow> wf_engine \<times> (rb_error + nat)" where
  "execute_activity a eng = with_future (ScheduleActivity a) ''completed'' ''failed'' eng"

definition execute_workflow :: "StartChildWorkflow \<Rightarrow> wf_engine \<Rightarrow> wf_engine \<times> (rb_error + nat)" where
  "execute_workflow c eng = with_future (StartChildWorkflow c) ''completed'' ''failed'' eng"

definition start_timer :: "rval \<Rightarrow> rval \<Rightarrow> wf_engine \<Rightarrow> wf_engine \<times> (rb_error + nat)" where
  "start_timer tmo tid eng = with_future (StartTimer tmo tid) ''fired'' ''canceled'' eng"

definition cancel_timer :: "rval \<Rightarrow> wf_engine \<Rightarrow> wf_engine \<times> (rb_error + unit)" where
  "cancel_timer tid eng = scheduled_only (CancelTimer tid) eng"

definition cancel_activity :: "rval \<Rightarrow> wf_engine \<Rightarrow> wf_engine \<times> (rb_error + unit)" where
  "cancel_activity aid eng = scheduled_only (RequestActivityCancellation aid) eng"

definition complete :: "rval \<Rightarrow> wf_engine \<Rightarrow> wf_engine \<times> (rb_error + unit)" where
  "complete v eng = scheduled_only (CompleteWorkflow v) eng"

definition fail_workflow :: "rval \<Rightarrow> rval \<Rightarrow> wf_engine \<Rightarrow> wf_engine \<times> (rb_error + unit)" where
  "fail_workflow reason details eng = scheduled_only (FailWorkflow reason details) eng"

text \<open>A recorded marker gives the value; otherwise the block runs and a marker is recorded.\<close>

definition side_effect :: "rb_error + rval \<Rightarrow> wf_engine \<Rightarrow> wf_engine \<times> (rb_error + rval)" where
  "side_effect block eng =
     (case next_side_effect (manager eng) of
        (sm, Some marker) \<Rightarrow> (eng\<lparr>manager := sm\<rparr>, Inr (snd marker))
      | (sm, None) \<Rightarrow>
          (let eng = eng\<lparr>manager := sm\<rparr> in
           case block of
             Inl e \<Rightarrow> (eng, Inl e)
           | Inr v \<Rightarrow> (case scheduled_only (RecordMarker SIDE_EFFECT_MARKER v) eng of
                 (eng, Inl e) \<Rightarrow> (eng, Inl e)
               | (eng, Inr _) \<Rightarrow> (eng, Inr v))))"

definition has_release :: "string \<Rightarrow> wf_engine \<Rightarrow> wf_engine \<times> (rb_error + bool)" where
  "has_release name eng = (let (sm, r) = is_release (RStr name) (manager eng) in (eng\<lparr>manager := sm\<rparr>, r))"

text \<open>\<open>Future#cancel\<close> and \<open>Context#cancel\<close>; what is scheduled is truthy.\<close>

definition cancel :: "nat \<Rightarrow> wf_engine \<Rightarrow> wf_engine \<times> (rb_error + bool)" where
  "cancel f eng =
     (let fut = future_at eng f; scheduled = (\<lambda>(eng, r). (eng, case r of Inl e \<Rightarrow> Inl e | Inr () \<Rightarrow> Inr True)) in
      if finished fut then (eng, Inr False)
      else if target_type (fut_target fut) = ACTIVITY_TYPE then scheduled (cancel_activity (cancelation_id fut) eng)
      else if target_type (fut_target fut) = TIMER_TYPE then scheduled (cancel_timer (cancelation_id fut) eng)
      else (eng, Inl (RuntimeError ''can not be canceled'')))"

text \<open>The handler a fiber leaves behind when it waits: it is never removed.\<close>

definition wait_for :: "nat \<Rightarrow> nat \<Rightarrow> wf_engine \<Rightarrow> wf_engine" where
  "wait_for fb f eng = add_handler (fut_target (future_at eng f)) WILDCARD (H_Resume fb f) eng"

section \<open>Running a fiber\<close>

text \<open>A fiber returns, yields with what it still has to run, or raises.\<close>

datatype outcome = Returned rval wf_engine | Yielded prog wf_engine | Raised rb_error wf_engine

primrec engine_of :: "outcome \<Rightarrow> wf_engine" where
  "engine_of (Returned v eng) = eng"
| "engine_of (Yielded p eng) = eng"
| "engine_of (Raised e eng) = eng"

primrec run :: "prog \<Rightarrow> nat \<Rightarrow> wf_engine \<Rightarrow> outcome" where
  "run (Finish v) = (\<lambda>fb eng. Returned v eng)"
| "run (Throw e) = (\<lambda>fb eng. Raised e eng)"
| "run (ExecuteActivity a k) =
     (\<lambda>fb eng. case execute_activity a eng of (eng, r) \<Rightarrow> run (k r) fb eng)"
| "run (ExecuteWorkflow c k) =
     (\<lambda>fb eng. case execute_workflow c eng of (eng, r) \<Rightarrow> run (k r) fb eng)"
| "run (StartTimerCall t i k) =
     (\<lambda>fb eng. case start_timer t i eng of (eng, r) \<Rightarrow> run (k r) fb eng)"
| "run (CancelTimerCall i k) =
     (\<lambda>fb eng. case cancel_timer i eng of (eng, r) \<Rightarrow> run (k r) fb eng)"
| "run (CancelActivityCall i k) =
     (\<lambda>fb eng. case cancel_activity i eng of (eng, r) \<Rightarrow> run (k r) fb eng)"
| "run (CompleteCall v k) =
     (\<lambda>fb eng. case complete v eng of (eng, r) \<Rightarrow> run (k r) fb eng)"
| "run (FailCall v w k) =
     (\<lambda>fb eng. case fail_workflow v w eng of (eng, r) \<Rightarrow> run (k r) fb eng)"
| "run (SideEffect b k) =
     (\<lambda>fb eng. case side_effect b eng of (eng, r) \<Rightarrow> run (k r) fb eng)"
| "run (HasRelease n k) =
     (\<lambda>fb eng. case has_release n eng of (eng, r) \<Rightarrow> run (k r) fb eng)"
| "run (WaitFuture f p) =
     (\<lambda>fb eng. if finished (future_at eng f) then run p fb eng else Yielded p (wait_for fb f eng))"
| "run (FutureValue f k) = (\<lambda>fb eng. run (k (Future_value (future_at eng f))) fb eng)"
| "run (IsFailed f k) = (\<lambda>fb eng. run (k (failed (future_at eng f))) fb eng)"
| "run (DoneFuture f b k) =
     (\<lambda>fb eng.
        let fut = future_at eng f in
        if failed fut then run (k (Inr ())) fb eng
        else if ready fut then
          (case run (b (fut_result fut)) fb eng of
             Returned _ eng \<Rightarrow> run (k (Inr ())) fb eng
           | Yielded q eng \<Rightarrow> Yielded (bind_rescue q (\<lambda>_. k (Inr ())) (\<lambda>e. k (Inl e))) eng
           | Raised e eng \<Rightarrow> run (k (Inl e)) fb eng)
        else run (k (Inr ())) fb (update_future f (fut\<lparr>callbacks := callbacks fut @ [b]\<rparr>) eng))"
| "run (CancelFuture f k) =
     (\<lambda>fb eng. case cancel f eng of (eng, r) \<Rightarrow> run (k r) fb eng)"
| "run (OnSignal b p) =
     (\<lambda>fb eng. run p fb (add_handler workflow_target ''signaled'' (H_Signal b) eng))"
| "run (Now k) = (\<lambda>fb eng. run (k (sm_local_time (manager eng))) fb eng)"

text \<open>What becomes of the fiber; its exception is raised by \<open>resume\<close>.\<close>

definition settle :: "nat \<Rightarrow> outcome \<Rightarrow> rb_error + wf_engine" where
  "settle fb out =
     (case out of
        Returned _ eng \<Rightarrow> Inr (set_fiber fb Dead eng)
      | Yielded p eng \<Rightarrow> Inr (set_fiber fb (Suspended p) eng)
      | Raised e eng \<Rightarrow> Inl e)"

text \<open>\<open>Fiber.new do ... end.resume\<close>, and the resumption of a fiber that yielded.\<close>

definition in_fiber :: "prog \<Rightarrow> wf_engine \<Rightarrow> rb_error + wf_engine" where
  "in_fiber p eng =
     (let fb = length (fibers (code eng));
          eng = eng\<lparr>code := (code eng)\<lparr>fibers := fibers (code eng) @ [Running]\<rparr>\<rparr>
      in settle fb (run p fb eng))"

definition resume :: "nat \<Rightarrow> wf_engine \<Rightarrow> rb_error + wf_engine" where
  "resume fb eng =
     (case fibers (code eng) ! fb of
        Suspended p \<Rightarrow> settle fb (run p fb (set_fiber fb Running eng))
      | Running \<Rightarrow> Inl (FiberError ''attempt to resume the current fiber'')
      | Dead \<Rightarrow> Inl (FiberError ''dead fiber called''))"

section \<open>Calling a handler\<close>

text \<open>The parameters of a block that are not passed are \<open>nil\<close>.\<close>

definition block_arg :: "nat \<Rightarrow> rval list \<Rightarrow> rval" where
  "block_arg n args = (if n < length args then args ! n else RNil)"

text \<open>\<open>Executor#generate_workflow_metadata_from\<close> reads these attributes of the start event.\<close>

definition metadata_attributes :: "rval \<Rightarrow> rb_error + rval list" where
  "metadata_attributes attrs =
     and_then (and_then (get_field attrs ''workflowType'') (\<lambda>t. get_field t ''name'')) (\<lambda>name.
     and_then (mapM (get_field attrs) [''originalExecutionRunId'', ''parentWorkflowExecution'', ''attempt'',
         ''header'', ''executionStartToCloseTimeoutSeconds'', ''taskStartToCloseTimeoutSeconds''])
       (\<lambda>vs. Inr (name # vs)))"

fun call_handler :: "(handler, code_state) handler_call" where
  "call_handler (H_Started main) args eng =
     and_then (metadata_attributes (block_arg 1 args)) (\<lambda>_. in_fiber (main (block_arg 0 args)) eng)"
| "call_handler (H_Completed f) args eng =
     and_then (Future_set (block_arg 0 args) (future_at eng f)) (\<lambda>fut.
       foldM (\<lambda>eng callback. in_fiber (callback (block_arg 0 args)) eng) (callbacks fut)
         (update_future f fut eng))"
| "call_handler (H_Failed f) args eng =
     and_then (Future_fail (block_arg 0 args) (block_arg 1 args) (future_at eng f)) (\<lambda>fut.
       Inr (update_future f fut eng))"
| "call_handler (H_Resume fb f) args eng =
     (if finished (future_at eng f) then resume fb eng else Inr eng)"
| "call_handler (H_Signal b) args eng = in_fiber (b (block_arg 0 args) (block_arg 1 args)) eng"

section \<open>What a step of the code can change\<close>

text \<open>A call that has no future changes the state manager only, by its operations.\<close>

definition manager_only :: "wf_engine \<Rightarrow> wf_engine \<Rightarrow> bool" where
  "manager_only eng eng' \<longleftrightarrow> (\<exists>sm. code_ops (manager eng) sm \<and> eng' = eng\<lparr>manager := sm\<rparr>)"

lemma manager_only_refl [simp]: "manager_only eng eng"
  unfolding manager_only_def by (intro exI [of _ "manager eng"]) (simp add: code_ops.nothing)

lemma manager_only_trans: "manager_only a b \<Longrightarrow> manager_only b c \<Longrightarrow> manager_only a c"
  by (auto simp: manager_only_def) (metis code_ops_trans engine.update_convs(1) engine.surjective)

lemma schedule_ops: "schedule d sm = (sm', r) \<Longrightarrow> code_ops sm sm'"
  using code_ops.scheduled [OF code_ops.nothing, of sm d] by simp

lemma schedule_decision_only: "schedule_decision d eng = (eng', r) \<Longrightarrow> manager_only eng eng'"
  by (auto simp: schedule_decision_def manager_only_def split: prod.splits dest: schedule_ops)

lemma scheduled_only_only: "scheduled_only d eng = (eng', r) \<Longrightarrow> manager_only eng eng'"
  by (auto simp: scheduled_only_def split: prod.splits sum.splits dest: schedule_decision_only)

lemma has_release_only: "has_release n eng = (eng', r) \<Longrightarrow> manager_only eng eng'"
  using code_ops.released [OF code_ops.nothing, of "manager eng" "RStr n"]
  by (auto simp: has_release_def manager_only_def split: prod.splits)

lemma side_effect_only:
  assumes "side_effect b eng = (eng', r)"
  shows "manager_only eng eng'"
proof -
  obtain sm m where n: "next_side_effect (manager eng) = (sm, m)" by fastforce
  have "manager_only eng (eng\<lparr>manager := sm\<rparr>)"
    using code_ops.side_effect [OF code_ops.nothing, of "manager eng"] by (auto simp: n manager_only_def)
  with assms show ?thesis
    by (auto simp: side_effect_def n Let_def split: option.splits sum.splits prod.splits
        dest: scheduled_only_only intro: manager_only_trans)
qed

lemma cancel_only: "cancel f eng = (eng', r) \<Longrightarrow> manager_only eng eng'"
  by (auto simp: cancel_def Let_def cancel_activity_def cancel_timer_def split: prod.splits if_splits
      dest: scheduled_only_only)

lemmas context_defs = execute_activity_def execute_workflow_def start_timer_def cancel_timer_def
  cancel_activity_def complete_def fail_workflow_def

lemmas context_only = scheduled_only_only has_release_only side_effect_only cancel_only

lemma schedule_decision_target:
  "schedule_decision d eng = (eng', Inr (target, cid)) \<Longrightarrow> target_type target = decision_target_type d"
  by (auto simp: schedule_decision_def schedule_eq Let_def split: prod.splits option.splits if_splits)

text \<open>
  An invariant that the smallest steps of fibers and handlers keep is kept by every handler.
  \<open>T\<close> are the types of target that futures have and handlers are registered for.
\<close>

locale fiber_invariant =
  fixes Q :: "wf_engine \<Rightarrow> bool" and T :: "target_type set"
  assumes T_types: "{ACTIVITY_TYPE, CHILD_WORKFLOW_TYPE, TIMER_TYPE, WORKFLOW_TYPE} \<subseteq> T"
    and Q_target: "Q eng \<Longrightarrow> target_type (fut_target (future_at eng f)) \<in> T"
    and Q_ops: "Q eng \<Longrightarrow> code_ops (manager eng) sm \<Longrightarrow> Q (eng\<lparr>manager := sm\<rparr>)"
    and Q_handler: "Q eng \<Longrightarrow> target_type target \<in> T \<Longrightarrow> Q (add_handler target name h eng)"
    and Q_new_future: "Q eng \<Longrightarrow> target_type target \<in> T \<Longrightarrow>
      Q (eng\<lparr>code := (code eng)\<lparr>futures := futures (code eng) @ [Future_new target cid]\<rparr>\<rparr>)"
    and Q_callback: "Q eng \<Longrightarrow> Q (update_future f ((future_at eng f)\<lparr>callbacks := cs\<rparr>) eng)"
    and Q_set: "Q eng \<Longrightarrow> Future_set v (future_at eng f) = Inr fut \<Longrightarrow> Q (update_future f fut eng)"
    and Q_fail: "Q eng \<Longrightarrow> Future_fail v w (future_at eng f) = Inr fut \<Longrightarrow> Q (update_future f fut eng)"
    and Q_fibers: "Q eng \<Longrightarrow> Q (eng\<lparr>code := (code eng)\<lparr>fibers := fbs\<rparr>\<rparr>)"
begin

lemma Q_manager_only: "manager_only eng eng' \<Longrightarrow> Q eng \<Longrightarrow> Q eng'"
  by (auto simp: manager_only_def Q_ops)

lemma Q_with_future:
  assumes "with_future d m n eng = (eng', r)" and "Q eng" and "decision_target_type d \<in> T"
  shows "Q eng'"
proof -
  obtain eng1 r1 where 1: "schedule_decision d eng = (eng1, r1)" by fastforce
  from schedule_decision_only [OF this] assms(2) have "Q eng1" by (rule Q_manager_only)
  with assms 1 show ?thesis
    by (auto simp: with_future_def Let_def split: sum.splits prod.splits
        dest: schedule_decision_target intro!: Q_handler Q_new_future)
qed

lemma Q_run: "Q eng \<Longrightarrow> Q (engine_of (run p fb eng))"
proof (induction p arbitrary: fb eng)
  case (DoneFuture f b k)
  have block: "Q (engine_of (run (b v) fb e))" if "Q e" for v e
    using that by (rule DoneFuture(1) [rotated]) simp
  have cont: "Q (engine_of (run (k r) fb e))" if "Q e" for r e
    using that by (rule DoneFuture(2) [rotated]) simp
  show ?case
    using block [OF DoneFuture(3), of "fut_result (future_at eng f)"] DoneFuture(3)
    by (auto simp: Let_def split: outcome.splits intro!: cont Q_callback)
next
  case (WaitFuture f p)
  then show ?case by (simp add: wait_for_def Q_handler Q_target)
next
  case (OnSignal b p)
  show ?case using OnSignal(2) [OF Q_handler [OF OnSignal(3)]] T_types by simp
qed (use T_types in \<open>auto simp: context_defs split: prod.splits
    dest: Q_with_future context_only [THEN Q_manager_only]\<close>)

lemma Q_settle: "settle fb out = Inr eng' \<Longrightarrow> Q (engine_of out) \<Longrightarrow> Q eng'"
  by (auto simp: settle_def set_fiber_def Q_fibers split: outcome.splits)

lemma Q_in_fiber: "in_fiber p eng = Inr eng' \<Longrightarrow> Q eng \<Longrightarrow> Q eng'"
  by (auto simp: in_fiber_def Let_def Q_fibers intro: Q_run elim!: Q_settle)

lemma Q_resume: "resume fb eng = Inr eng' \<Longrightarrow> Q eng \<Longrightarrow> Q eng'"
  by (auto simp: resume_def set_fiber_def Q_fibers split: fiber.splits intro: Q_run elim!: Q_settle)

lemma Q_call_handler: "call_handler h args eng = Inr eng' \<Longrightarrow> Q eng \<Longrightarrow> Q eng'"
proof (induction h args eng rule: call_handler.induct)
  case (2 f args eng)
  then obtain fut where fut: "Future_set (block_arg 0 args) (future_at eng f) = Inr fut"
    "foldM (\<lambda>eng callback. in_fiber (callback (block_arg 0 args)) eng) (callbacks fut)
      (update_future f fut eng) = Inr eng'"
    by (auto simp: and_then_Inr_iff)
  show ?case
    by (rule foldM_invariant [where P = Q, OF fut(2) Q_set [OF 2(2) fut(1)]]) (blast intro: Q_in_fiber)
qed (auto simp: and_then_Inr_iff split: if_splits intro: Q_in_fiber Q_resume Q_fail)

end

text \<open>Handlers change the state manager by its operations only: the contract of \<open>workflow_code\<close>.\<close>

interpretation handler_ops: fiber_invariant "\<lambda>eng. code_ops sm (manager eng)" UNIV for sm
  by unfold_locales (auto simp: add_handler_def update_future_def intro: code_ops_trans)

interpretation handlers: workflow_code call_handler
  by unfold_locales (rule handler_ops.Q_call_handler [OF _ code_ops.nothing])

text \<open>No future is both fulfilled and failed.\<close>

definition futures_ok :: "wf_engine \<Rightarrow> bool" where
  "futures_ok eng \<longleftrightarrow> (\<forall>f\<in>set (futures (code eng)). \<not> (ready f \<and> failed f))"

lemma futures_ok_update:
  "futures_ok eng \<Longrightarrow> (f < length (futures (code eng)) \<Longrightarrow> \<not> (ready fut \<and> failed fut)) \<Longrightarrow>
   futures_ok (update_future f fut eng)"
  by (cases "f < length (futures (code eng))")
    (auto simp: futures_ok_def update_future_def list_update_beyond dest: set_update_subset_insert [THEN subsetD])

lemma futures_ok_at: "futures_ok eng \<Longrightarrow> \<not> (ready (future_at eng f) \<and> failed (future_at eng f))"
  by (simp add: futures_ok_def future_at_def Future_new_def)

lemma Future_set_ok: "Future_set v fut = Inr fut' \<Longrightarrow> \<not> (ready fut' \<and> failed fut')"
  by (auto simp: Future_set_def failed_def split: if_splits)

lemma Future_fail_ok: "Future_fail v w fut = Inr fut' \<Longrightarrow> \<not> (ready fut' \<and> failed fut')"
  by (auto simp: Future_fail_def failed_def split: if_splits)

interpretation futures_ok: fiber_invariant futures_ok UNIV
proof
  fix eng f cs
  assume "futures_ok eng"
  then show "futures_ok (update_future f ((future_at eng f)\<lparr>callbacks := cs\<rparr>) eng)"
    using futures_ok_at [of eng f] by (intro futures_ok_update) (auto simp: failed_def)
next
  fix eng v f fut
  assume "futures_ok eng" "Future_set v (future_at eng f) = Inr fut"
  then show "futures_ok (update_future f fut eng)"
    by (intro futures_ok_update Future_set_ok)
next
  fix eng v w f fut
  assume "futures_ok eng" "Future_fail v w (future_at eng f) = Inr fut"
  then show "futures_ok (update_future f fut eng)"
    by (intro futures_ok_update Future_fail_ok)
qed (auto simp: futures_ok_def add_handler_def Future_new_def failed_def)

interpretation futures_ok_code: code_invariant call_handler futures_ok
proof
  show "futures_ok eng'" if "call_handler h args eng = Inr eng'" "futures_ok eng" for h args eng eng'
    using that by (rule futures_ok.Q_call_handler)
qed (simp add: futures_ok_def)

text \<open>
  Futures belong to activities, timers and child workflows, and only events of their types,
  and those of the workflow, have handlers.
\<close>

definition wired_types :: "target_type set" where
  "wired_types = {ACTIVITY_TYPE, CHILD_WORKFLOW_TYPE, TIMER_TYPE, WORKFLOW_TYPE}"

definition wired :: "wf_engine \<Rightarrow> bool" where
  "wired eng \<longleftrightarrow> (\<forall>f. target_type (fut_target (future_at eng f)) \<in> wired_types) \<and>
     (\<forall>k. snd k \<notin> wired_types \<longrightarrow> dispatcher eng k = [])"

lemma future_at_update:
  "future_at (update_future f fut eng) g =
     (if f = g \<and> f < length (futures (code eng)) then fut else future_at eng g)"
  by (simp add: future_at_def update_future_def)

lemma future_at_new:
  "future_at (eng\<lparr>code := (code eng)\<lparr>futures := futures (code eng) @ [fut]\<rparr>\<rparr>) g =
     (if g = length (futures (code eng)) then fut else future_at eng g)"
  by (simp add: future_at_def nth_append)

lemma dispatcher_update_future [simp]: "dispatcher (update_future f fut eng) = dispatcher eng"
  by (simp add: update_future_def)

lemma Future_set_target: "Future_set v fut = Inr fut' \<Longrightarrow> fut_target fut' = fut_target fut"
  by (auto simp: Future_set_def split: if_splits)

lemma Future_fail_target: "Future_fail v w fut = Inr fut' \<Longrightarrow> fut_target fut' = fut_target fut"
  by (auto simp: Future_fail_def split: if_splits)

lemma wired_update: "wired eng \<Longrightarrow> fut_target fut = fut_target (future_at eng f) \<Longrightarrow> wired (update_future f fut eng)"
  by (simp add: wired_def future_at_update)

interpretation wired: fiber_invariant wired wired_types
proof
  fix eng cid and target :: event_target
  assume "wired eng" "target_type target \<in> wired_types"
  then show "wired (eng\<lparr>code := (code eng)\<lparr>futures := futures (code eng) @ [Future_new target cid]\<rparr>\<rparr>)"
    by (simp add: wired_def future_at_new Future_new_def)
next
  fix eng name h and target :: event_target
  assume "wired eng" "target_type target \<in> wired_types"
  then show "wired (add_handler target name h eng)"
    by (auto simp: wired_def add_handler_def register_handler_def key_of_def)
next
  show "{ACTIVITY_TYPE, CHILD_WORKFLOW_TYPE, TIMER_TYPE, WORKFLOW_TYPE} \<subseteq> wired_types"
    by (simp add: wired_types_def)
qed (simp_all add: wired_def future_at_update Future_set_target Future_fail_target)

interpretation wired_code: code_invariant call_handler wired
proof
  show "wired eng'" if "call_handler h args eng = Inr eng'" "wired eng" for h args eng eng'
    using that by (rule wired.Q_call_handler)
qed (simp add: wired_def)

section \<open>Code after code\<close>

lemma bind_rescue_assoc:
  "bind_rescue (bind_rescue p f g) f' g' =
     bind_rescue p (\<lambda>v. bind_rescue (f v) f' g') (\<lambda>e. bind_rescue (g e) f' g')"
  by (induction p) simp_all

text \<open>\<open>begin p rescue g end\<close> runs \<open>p\<close>, then \<open>f\<close> where it returned and \<open>g\<close> where it raised.\<close>

lemma run_bind_rescue:
  "run (bind_rescue p f g) fb eng =
     (case run p fb eng of
        Returned v eng \<Rightarrow> run (f v) fb eng
      | Yielded q eng \<Rightarrow> Yielded (bind_rescue q f g) eng
      | Raised e eng \<Rightarrow> run (g e) fb eng)"
  by (induction p arbitrary: fb eng)
    (simp_all add: Let_def bind_rescue_assoc split: prod.splits outcome.splits)

end
