(* ===== verification/Serializer.thy ===== *)
theory Serializer
  imports Decisions
begin

text \<open>
  \<open>Serializer\<close> (lib/cadence/workflow/serializer.rb, serializer/*.rb): decisions as Thrift
  structs. A \<open>RetryPolicy\<close> is a struct with its members; a Ruby class is an object with a
  \<open>name\<close>.
\<close>

section \<open>Hashes, arrays and structs\<close>

text \<open>\<open>h[key]\<close> is \<open>nil\<close> for a key that is not there; \<open>nil[key]\<close> raises.\<close>

fun hash_get :: "rval \<Rightarrow> rval \<Rightarrow> rb_error + rval" where
  "hash_get (RHash kvs) k = Inr (case map_of kvs k of None \<Rightarrow> RNil | Some v \<Rightarrow> v)"
| "hash_get _ k = Inl (NoMethodError ''[]'')"

text \<open>\<open>Array(v)\<close>.\<close>

fun to_array :: "rval \<Rightarrow> rval list" where
  "to_array RNil = []"
| "to_array (RArr xs) = xs"
| "to_array v = [v]"

definition compact :: "(string \<times> rval) list \<Rightarrow> (string \<times> rval) list" where
  "compact fs = filter (\<lambda>(_, v). v \<noteq> RNil) fs"

definition Thrift :: "string \<Rightarrow> (string \<times> rval) list \<Rightarrow> rval" where
  "Thrift c fs = RStruct (''CadenceThrift::'' @ c) fs"

definition DecisionType_VALUES :: "(string \<times> int) list" where
  "DecisionType_VALUES =
     [(''ScheduleActivityTask'', 0), (''RequestCancelActivityTask'', 1), (''StartTimer'', 2),
      (''CompleteWorkflowExecution'', 3), (''FailWorkflowExecution'', 4), (''CancelTimer'', 5),
      (''CancelWorkflowExecution'', 6), (''RequestCancelExternalWorkflowExecution'', 7),
      (''RecordMarker'', 8), (''ContinueAsNewWorkflowExecution'', 9),
      (''StartChildWorkflowExecution'', 10), (''SignalExternalWorkflowExecution'', 11),
      (''UpsertWorkflowSearchAttributes'', 12)]"

definition Thrift_Decision :: "string \<Rightarrow> string \<Rightarrow> rval \<Rightarrow> rval" where
  "Thrift_Decision ty field attrs =
     Thrift ''Decision'' [(''decisionType'', RInt (the (map_of DecisionType_VALUES ty))), (field, attrs)]"

section \<open>The serializers\<close>

definition serialize_retry_policy :: "rval \<Rightarrow> rb_error + rval" where
  "serialize_retry_policy p =
     (if \<not> truthy p then Inr RNil
      else and_then (get_field p ''non_retriable_errors'') (\<lambda>errs.
           and_then (mapM (\<lambda>c. get_field c ''name'') (to_array errs)) (\<lambda>non_retriable_errors.
           and_then (get_field p ''interval'') (\<lambda>interval.
           and_then (get_field p ''backoff'') (\<lambda>backoff.
           and_then (get_field p ''max_interval'') (\<lambda>max_interval.
           and_then (get_field p ''max_attempts'') (\<lambda>max_attempts.
           and_then (get_field p ''expiration_interval'') (\<lambda>expiration_interval.
             Inr (Thrift ''RetryPolicy'' (compact
               [(''initialIntervalInSeconds'', interval), (''backoffCoefficient'', backoff),
                (''maximumIntervalInSeconds'', max_interval), (''maximumAttempts'', max_attempts),
                (''nonRetriableErrorReasons'', RArr non_retriable_errors),
                (''expirationIntervalInSeconds'', expiration_interval)]))))))))))"

definition serialize_headers :: "rval \<Rightarrow> rval" where
  "serialize_headers h = (if \<not> truthy h then RNil else Thrift ''Header'' [(''fields'', h)])"

definition serialize_activity :: "json_api \<Rightarrow> ScheduleActivity \<Rightarrow> rb_error + rval" where
  "serialize_activity J a =
     and_then (hash_get (ScheduleActivity.timeouts a) (RSym ''schedule_to_close'')) (\<lambda>schedule_to_close.
     and_then (hash_get (ScheduleActivity.timeouts a) (RSym ''schedule_to_start'')) (\<lambda>schedule_to_start.
     and_then (hash_get (ScheduleActivity.timeouts a) (RSym ''start_to_close'')) (\<lambda>start_to_close.
     and_then (hash_get (ScheduleActivity.timeouts a) (RSym ''heartbeat'')) (\<lambda>heartbeat.
     and_then (serialize_retry_policy (ScheduleActivity.retry_policy a)) (\<lambda>retry.
       Inr (Thrift_Decision ''ScheduleActivityTask'' ''scheduleActivityTaskDecisionAttributes''
         (Thrift ''ScheduleActivityTaskDecisionAttributes''
           [(''activityId'', RStr (rb_to_s J (activity_id a))),
            (''activityType'', Thrift ''ActivityType'' [(''name'', activity_type a)]),
            (''input'', RStr (JSON_serialize J (ScheduleActivity.input a))),
            (''domain'', ScheduleActivity.domain a),
            (''taskList'', Thrift ''TaskList'' [(''name'', ScheduleActivity.task_list a)]),
            (''scheduleToCloseTimeoutSeconds'', schedule_to_close),
            (''scheduleToStartTimeoutSeconds'', schedule_to_start),
            (''startToCloseTimeoutSeconds'', start_to_close),
            (''heartbeatTimeoutSeconds'', heartbeat),
            (''retryPolicy'', retry),
            (''header'', serialize_headers (ScheduleActivity.headers a))])))))))"

definition serialize_child :: "json_api \<Rightarrow> StartChildWorkflow \<Rightarrow> rb_error + rval" where
  "serialize_child J c =
     and_then (hash_get (StartChildWorkflow.timeouts c) (RSym ''execution'')) (\<lambda>execution.
     and_then (hash_get (StartChildWorkflow.timeouts c) (RSym ''task'')) (\<lambda>task.
     and_then (serialize_retry_policy (StartChildWorkflow.retry_policy c)) (\<lambda>retry.
       Inr (Thrift_Decision ''StartChildWorkflowExecution'' ''startChildWorkflowExecutionDecisionAttributes''
         (Thrift ''StartChildWorkflowExecutionDecisionAttributes''
           [(''domain'', StartChildWorkflow.domain c),
            (''workflowId'', RStr (rb_to_s J (workflow_id c))),
            (''workflowType'', Thrift ''WorkflowType'' [(''name'', workflow_type c)]),
            (''taskList'', Thrift ''TaskList'' [(''name'', StartChildWorkflow.task_list c)]),
            (''input'', RStr (JSON_serialize J (StartChildWorkflow.input c))),
            (''executionStartToCloseTimeoutSeconds'', execution),
            (''taskStartToCloseTimeoutSeconds'', task),
            (''retryPolicy'', retry),
            (''header'', serialize_headers (StartChildWorkflow.headers c))])))))"

definition serialize :: "json_api \<Rightarrow> decision \<Rightarrow> rb_error + rval" where
  "serialize J d =
     (case d of
        ScheduleActivity a \<Rightarrow> serialize_activity J a
      | StartChildWorkflow c \<Rightarrow> serialize_child J c
      | RequestActivityCancellation i \<Rightarrow>
          Inr (Thrift_Decision ''RequestCancelActivityTask'' ''requestCancelActivityTaskDecisionAttributes''
            (Thrift ''RequestCancelActivityTaskDecisionAttributes''
              [(''activityId'', RStr (rb_to_s J i))]))
      | RecordMarker name details \<Rightarrow>
          Inr (Thrift_Decision ''RecordMarker'' ''recordMarkerDecisionAttributes''
            (Thrift ''RecordMarkerDecisionAttributes''
              [(''markerName'', name), (''details'', RStr (JSON_serialize J details))]))
      | StartTimer tmo tid \<Rightarrow>
          and_then (rb_to_i tmo) (\<lambda>seconds.
            Inr (Thrift_Decision ''StartTimer'' ''startTimerDecisionAttributes''
              (Thrift ''StartTimerDecisionAttributes''
                [(''timerId'', RStr (rb_to_s J tid)), (''startToFireTimeoutSeconds'', RInt seconds)])))
      | CancelTimer tid \<Rightarrow>
          Inr (Thrift_Decision ''CancelTimer'' ''cancelTimerDecisionAttributes''
            (Thrift ''CancelTimerDecisionAttributes'' [(''timerId'', RStr (rb_to_s J tid))]))
      | CompleteWorkflow res \<Rightarrow>
          Inr (Thrift_Decision ''CompleteWorkflowExecution'' ''completeWorkflowExecutionDecisionAttributes''
            (Thrift ''CompleteWorkflowExecutionDecisionAttributes''
              [(''result'', RStr (JSON_serialize J res))]))
      | FailWorkflow reason details \<Rightarrow>
          Inr (Thrift_Decision ''FailWorkflowExecution'' ''failWorkflowExecutionDecisionAttributes''
            (Thrift ''FailWorkflowExecutionDecisionAttributes''
              [(''reason'', reason), (''details'', RStr (JSON_serialize J details))])))"

text \<open>\<open>DecisionTaskProcessor#serialize_decisions\<close>.\<close>

definition serialize_decisions :: "json_api \<Rightarrow> (int \<times> decision) list \<Rightarrow> rb_error + rval list" where
  "serialize_decisions J ds = mapM (\<lambda>(_, d). serialize J d) ds"

section \<open>Lemmas\<close>

text \<open>The attributes of the decision a serialized one carries.\<close>

definition decision_attribute :: "rval \<Rightarrow> string \<Rightarrow> string \<Rightarrow> rb_error + rval" where
  "decision_attribute thrift field f = and_then (get_field thrift field) (\<lambda>a. get_field a f)"

lemma serialize_activity_attributes:
  assumes "serialize J (ScheduleActivity a) = Inr t"
  shows "decision_attribute t ''scheduleActivityTaskDecisionAttributes'' ''activityId'' =
      Inr (RStr (rb_to_s J (activity_id a)))"
    and "decision_attribute t ''scheduleActivityTaskDecisionAttributes'' ''activityType'' =
      Inr (Thrift ''ActivityType'' [(''name'', activity_type a)])"
    and "decision_attribute t ''scheduleActivityTaskDecisionAttributes'' ''input'' =
      Inr (RStr (JSON_serialize J (ScheduleActivity.input a)))"
  using assms
  by (auto simp: serialize_def serialize_activity_def and_then_Inr_iff decision_attribute_def
      Thrift_Decision_def Thrift_def)

lemma serialize_activity_ok_iff:
  "(\<exists>t. serialize J (ScheduleActivity a) = Inr t) \<longleftrightarrow>
     (\<exists>kvs. ScheduleActivity.timeouts a = RHash kvs) \<and>
     (\<exists>r. serialize_retry_policy (ScheduleActivity.retry_policy a) = Inr r)"
  by (cases "ScheduleActivity.timeouts a")
    (auto simp: serialize_def serialize_activity_def and_then_Inr_iff)

end
