(* ===== verification/Executor.thy ===== *)
theory Executor
  imports Context Serializer
begin

text \<open>
  \<open>Workflow::Executor\<close> (lib/cadence/workflow/executor.rb): a decision task is processed by
  replaying the whole history, window by window, and the decisions left at the end are the
  answer. \<open>Workflow.execute_in_context\<close> (lib/cadence/workflow.rb) is the code of the main
  fiber: the class' \<open>execute\<close>, then the completion of the workflow, or its failure with the
  exception's class and message.
\<close>

section \<open>The main fiber\<close>

text \<open>\<open>raise\<close> on an error of \<open>complete\<close> or \<open>fail\<close>; \<open>describe\<close> is an exception's class name and message.\<close>

definition execute_in_context ::
  "(rb_error \<Rightarrow> rval \<times> rval) \<Rightarrow> (rval \<Rightarrow> prog) \<Rightarrow> rval \<Rightarrow> prog" where
  "execute_in_context describe execute inp =
     bind_rescue
       (bind_rescue (execute inp)
         (\<lambda>result. CompleteCall result (\<lambda>r. case r of Inl e \<Rightarrow> Throw e | Inr _ \<Rightarrow> Finish RNil))
         Throw)
       Finish
       (\<lambda>error. FailCall (fst (describe error)) (snd (describe error))
         (\<lambda>r. case r of Inl e \<Rightarrow> Throw e | Inr _ \<Rightarrow> Finish RNil))"

section \<open>The executor\<close>

definition Executor_new :: wf_engine where
  "Executor_new = \<lparr>manager = StateManager_new, dispatcher = Dispatcher_new,
     code = \<lparr>futures = [], fibers = []\<rparr>\<rparr>"

text \<open>The loop of \<open>run\<close>.\<close>

function run_windows ::
  "json_api \<Rightarrow> ('h, 'w) handler_call \<Rightarrow> history \<Rightarrow> ('h, 'w) engine \<Rightarrow> rb_error + ('h, 'w) engine" where
  "run_windows J call h eng =
     (case next_window h of
        (None, h') \<Rightarrow> Inr eng
      | (Some w, h') \<Rightarrow> and_then (apply_window J call w eng) (run_windows J call h'))"
  by pat_completeness auto

termination run_windows
  by (relation "measure (\<lambda>(J, call, h, eng). length (iterator h))")
    (auto dest: next_window_shorter [OF sym])

declare run_windows.simps [simp del]

definition Executor_run ::
  "json_api \<Rightarrow> (rval \<Rightarrow> prog) \<Rightarrow> history \<Rightarrow> rb_error + (int \<times> decision) list" where
  "Executor_run J main h =
     (let eng = add_handler workflow_target ''started'' (H_Started main) Executor_new
      in and_then (run_windows J call_handler h eng) (\<lambda>eng. Inr (decisions (manager eng))))"

section \<open>The windows of the loop\<close>

lemma run_windows_eq:
  "run_windows J call h eng = foldM (\<lambda>eng w. apply_window J call w eng) (all_windows h) eng"
proof (induction J call h eng rule: run_windows.induct)
  case (1 J call h eng)
  obtain w h' where h': "next_window h = (w, h')" by (cases "next_window h")
  show ?case
  proof (cases w)
    case None
    then show ?thesis by (subst run_windows.simps, subst all_windows.simps) (simp add: h')
  next
    case (Some x)
    with 1 h' show ?thesis
      by (subst run_windows.simps, subst all_windows.simps) (simp cong: and_then_cong)
  qed
qed

lemma all_windows_ok: "w \<in> set (all_windows h) \<Longrightarrow> window_ok w"
  by (auto simp: all_windows_eq)

lemma concat_windows:
  "concat (List.map markers (all_windows h)) = filter is_marker (iterator h) \<and>
   concat (List.map events (all_windows h)) =
     filter (\<lambda>e. \<not> is_marker e \<and> \<not> decision_task_event e) (iterator h)"
proof -
  have "concat (List.map (filter P) xss) = filter P (concat xss)" for P and xss :: "event list list"
    by (induction xss) auto
  from this [of _ "partition_events (iterator h)"] show ?thesis
    by (simp add: all_windows_eq comp_def markers_window_of events_window_of is_marker_def [abs_def]
        concat_partition_events)
qed

text \<open>When the replay ends, every event that is not about a decision task was applied.\<close>

lemma run_windows_each:
  assumes run: "run_windows J call h eng = Inr eng'" and e: "e \<in> set (iterator h)" "\<not> decision_task_event e"
  shows "\<exists>eng eng'. apply_event J call eng e = Inr eng'"
proof -
  have "e \<in> set (concat (List.map markers (all_windows h))) \<union> set (concat (List.map events (all_windows h)))"
    using e by (simp add: concat_windows del: set_concat)
  then obtain w where w: "w \<in> set (all_windows h)" "e \<in> set (markers w) \<union> set (events w)" by auto
  obtain eng1 eng2 where "apply_window J call w eng1 = Inr eng2"
    using foldM_each [OF run [unfolded run_windows_eq] w(1)] by blast
  with w(2) show ?thesis by (auto simp: apply_window_def Let_def and_then_Inr_iff dest: foldM_each)
qed

lemma run_windows_terminal_last:
  assumes "workflow_code call" and "run_windows J call h eng = Inr eng'" and "terminal_last (manager eng)"
  shows "terminal_last (manager eng')"
  using assms(2,3) unfolding run_windows_eq
  by (rule foldM_invariant [where P = "\<lambda>eng. terminal_last (manager eng)"])
    (use workflow_code.window_terminal_last [OF assms(1)] all_windows_ok in blast)

lemma replayed_run_windows:
  assumes "run_windows J call h eng = Inr eng'" and "replayed J call start eng"
  shows "replayed J call start eng'"
  using assms unfolding run_windows_eq by (rule foldM_invariant) (rule replayed_apply_window)

text \<open>The engines of the executor: those its replay goes through from the engine it starts with.\<close>

definition started_engine :: "(rval \<Rightarrow> prog) \<Rightarrow> wf_engine" where
  "started_engine main = add_handler workflow_target ''started'' (H_Started main) Executor_new"

lemma Executor_run_replayed:
  "Executor_run J main h = Inr ds \<Longrightarrow>
   \<exists>eng. replayed J call_handler (started_engine main) eng \<and> ds = decisions (manager eng)"
  by (auto simp: Executor_run_def started_engine_def and_then_Inr_iff intro: replayed_run_windows replay_start)

lemma started_engine_ok: "futures_ok (started_engine main)" "wired (started_engine main)"
  by (simp_all add: started_engine_def Executor_new_def futures_ok_def wired_def wired_types_def
      add_handler_def register_handler_def Dispatcher_new_def key_of_def future_at_def Future_new_def)

end
