(* ===== verification/EngineProperties.thy ===== *)
theory EngineProperties
  imports Executor
begin

text \<open>
  The properties of the workflow engine: the windows of a history, the identifiers of
  decisions, their matching with the commands of the history, releases and side effects,
  futures and fibers, and the answer of the executor. A witness evaluates its property at
  the small histories and engines defined next to it.
\<close>

section \<open>Windows\<close>

definition sample_event :: "int \<Rightarrow> event_type \<Rightarrow> (string \<times> rval) list \<Rightarrow> event" where
  "sample_event i t fs = \<lparr>ev_id = i, ev_timestamp = (i, 0), ev_type = t,
     ev_attributes = RStruct (event_type_name t @ ''EventAttributes'')
       (List.map (\<lambda>f. (f, case map_of fs f of None \<Rightarrow> RNil | Some v \<Rightarrow> v)) (attribute_fields t))\<rparr>"

lemma sample_event_ok: "event_ok (sample_event i t fs)"
  by (simp add: event_ok_def sample_event_def comp_def)

definition sample_history :: "event list" where
  "sample_history =
     [sample_event 1 WorkflowExecutionStarted [], sample_event 2 DecisionTaskScheduled [],
      sample_event 3 DecisionTaskStarted [], sample_event 4 DecisionTaskCompleted [],
      sample_event 5 TimerStarted [], sample_event 6 TimerFired [(''startedEventId'', RInt 5)],
      sample_event 7 DecisionTaskScheduled [], sample_event 8 DecisionTaskStarted []]"

text \<open>
  A JSON library that knows the empty array and null, and a workflow that starts a timer and
  returns: the first decision task of it is answered with the timer and the completion.
\<close>

definition sample_json :: json_api where
  "sample_json = \<lparr>load = (\<lambda>s. if s = ''[]'' then Some (RArr []) else if s = ''null'' then Some RNil else None),
     dump = (\<lambda>v. if v = RArr [] then ''[]'' else ''null''), other_to_s = (\<lambda>_. ''?'')\<rparr>"

definition sample_start :: "event list" where
  "sample_start =
     [sample_event 1 WorkflowExecutionStarted
        [(''input'', RStr ''[]''),
         (''workflowType'', RStruct ''CadenceThrift::WorkflowType'' [(''name'', RStr ''W'')])],
      sample_event 2 DecisionTaskScheduled [], sample_event 3 DecisionTaskStarted []]"

definition sample_describe :: "rb_error \<Rightarrow> rval \<times> rval" where
  "sample_describe e = (case e of UserError c m \<Rightarrow> (RStr c, m) | _ \<Rightarrow> (RStr ''StandardError'', RNil))"

definition sample_main :: "rval \<Rightarrow> prog" where
  "sample_main = execute_in_context sample_describe
     (\<lambda>inp. StartTimerCall (RInt 9) RNil (\<lambda>r. case r of Inl e \<Rightarrow> Throw e | Inr f \<Rightarrow> Finish RNil))"

definition sample_engine :: wf_engine where
  "sample_engine = add_handler workflow_target ''started'' (H_Started sample_main) Executor_new"

text \<open>
  C9: the loop over a history's windows ends, and the windows hold every
  event of the history exactly once and in order: the markers in the windows' markers, the
  events about decision tasks in none, all others in the windows' events.
\<close>

theorem windows_partition:
  "concat (List.map markers (all_windows h)) = filter is_marker (iterator h) \<and>
   concat (List.map events (all_windows h)) =
     filter (\<lambda>e. \<not> is_marker e \<and> \<not> decision_task_event e) (iterator h)"
  using concat_windows by blast

text \<open>
  C10: every window but the last is a replay (its decision task was
  completed), so workflow code runs live in the last window only; and the last window is
  live exactly when what remains of the history has no completed decision task.
\<close>

theorem only_last_window_live:
  "(\<forall>w\<in>set (butlast (all_windows h)). replay w) \<and>
   (iterator h \<noteq> [] \<longrightarrow> (replay (hd (all_windows h)) \<longleftrightarrow>
      (\<exists>e\<in>set (iterator h). ev_type e = DecisionTaskCompleted)))"
proof (intro conjI impI ballI)
  fix w assume "w \<in> set (butlast (all_windows h))"
  then show "replay w"
    by (auto simp: all_windows_eq map_butlast [symmetric] intro: partition_events_replay)
next
  assume "iterator h \<noteq> []"
  then show "replay (hd (all_windows h)) \<longleftrightarrow>
      (\<exists>e\<in>set (iterator h). ev_type e = DecisionTaskCompleted)"
    by (subst all_windows.simps) (simp add: next_window_eq replay_window_events)
qed

theorem only_last_window_live_witness:
  "replay (hd (all_windows \<lparr>all_events = sample_history, iterator = sample_history\<rparr>))"
proof -
  have "\<exists>e\<in>set sample_history. ev_type e = DecisionTaskCompleted"
    by (simp add: sample_history_def sample_event_def)
  moreover have "sample_history \<noteq> []" by (simp add: sample_history_def)
  ultimately show ?thesis
    using only_last_window_live [of "\<lparr>all_events = sample_history, iterator = sample_history\<rparr>"] by simp
qed

text \<open>
  A window numbers its decisions after the last decision task started in it
  (one more, for the task's completion), even when that task then failed or timed out; its
  time is that task's start, and is lost when the task failed or timed out.
\<close>

theorem window_clock:
  "(ev_type e = DecisionTaskStarted \<longrightarrow>
      window.last_event_id (window_of (es @ [e])) = Some (ev_id e + 1) \<and>
      window.local_time (window_of (es @ [e])) = Some (ev_timestamp e)) \<and>
   (ev_type e \<noteq> DecisionTaskStarted \<longrightarrow>
      window.last_event_id (window_of (es @ [e])) = window.last_event_id (window_of es)) \<and>
   (ev_type e \<in> {DecisionTaskFailed, DecisionTaskTimedOut} \<longrightarrow>
      window.local_time (window_of (es @ [e])) = None) \<and>
   (ev_type e \<notin> {DecisionTaskStarted, DecisionTaskFailed, DecisionTaskTimedOut} \<longrightarrow>
      window.local_time (window_of (es @ [e])) = window.local_time (window_of es))"
  by (simp add: window_of_snoc Window_add_def)

theorem window_clock_witness:
  "window.last_event_id (window_of [sample_event 3 DecisionTaskStarted []]) = Some 4"
  using window_clock [of "sample_event 3 DecisionTaskStarted []" "[]"] by (simp add: sample_event_def)

section \<open>Identifiers of decisions\<close>

text \<open>
  A scheduled decision takes the least identifier after the last one
  that no marker has, is appended to the decisions under it, and its target is the one
  an event of the history with that identifier has.
\<close>

theorem scheduled_identifier:
  assumes "schedule d sm = (sm', Inr (target, cid))"
  shows "\<exists>n i d'. sm_last_event_id sm = Some n \<and> n < i \<and> i \<notin> set (marker_ids sm) \<and>
    (\<forall>k. n < k \<and> k < i \<longrightarrow> k \<in> set (marker_ids sm)) \<and>
    decisions sm' = decisions sm @ [(i, d')] \<and> sm_last_event_id sm' = Some i \<and>
    target_id target = RInt i \<and> target_type target = decision_target_type d \<and>
    assign_id i d = (d', cid)"
proof -
  obtain n where n: "sm_last_event_id sm = Some n" using assms by (cases "sm_last_event_id sm") (auto simp: schedule_eq)
  define i where "i = skip_markers (marker_ids sm) (n + 1)"
  have "n < i" "i \<notin> set (marker_ids sm)"
    using skip_markers_ge [of "n + 1" "marker_ids sm"] skip_markers_free by (auto simp: i_def)
  moreover have "\<forall>k. n < k \<and> k < i \<longrightarrow> k \<in> set (marker_ids sm)"
    using skip_markers_least [of "n + 1" _ "marker_ids sm"] by (auto simp: i_def)
  ultimately show ?thesis
    using assms n by (auto simp: schedule_eq Let_def drawn_def i_def split: if_splits intro!: exI)
qed

theorem scheduled_identifier_witness:
  "(5 :: int) \<in> {5, 6} \<and> (6 :: int) \<in> {5, 6} \<and>
   assign_id 7 (StartTimer (RInt 9) RNil) = (StartTimer (RInt 9) (RInt 7), RInt 7)"
proof -
  have "schedule (StartTimer (RInt 9) RNil) (StateManager_new\<lparr>sm_last_event_id := Some 4, marker_ids := [5, 6]\<rparr>) =
      (drawn (StateManager_new\<lparr>sm_last_event_id := Some 4, marker_ids := [5, 6]\<rparr>) 7
        \<lparr>decisions := [(7, StartTimer (RInt 9) (RInt 7))]\<rparr>,
       Inr (\<lparr>target_id = RInt 7, target_type = TIMER_TYPE, target_attrs = []\<rparr>, RInt 7))"
    by (simp add: schedule_eq Let_def StateManager_new_def skip_markers.simps completing_def assign_id_def
        or_value_def decision_attributes_def)
  from scheduled_identifier [OF this] show ?thesis by (auto simp: StateManager_new_def)
qed

text \<open>
  C16: once a completion or failure of the workflow is the last
  decision, scheduling anything raises WorkflowAlreadyCompletingError and adds no decision;
  otherwise scheduling succeeds whenever a window with a decision task was begun.
\<close>

theorem nothing_after_completion:
  "sm_last_event_id sm = Some n \<Longrightarrow>
     (if completing sm
      then (\<exists>c. snd (schedule d sm) = Inl (WorkflowAlreadyCompletingError c)) \<and>
           decisions (fst (schedule d sm)) = decisions sm
      else (\<exists>t. snd (schedule d sm) = Inr t) \<and>
           length (decisions (fst (schedule d sm))) = Suc (length (decisions sm)))"
  by (simp add: schedule_eq Let_def drawn_def)

theorem nothing_after_completion_witness:
  "decisions (fst (schedule (CancelTimer (RInt 1)) (StateManager_new\<lparr>decisions := [(1, CompleteWorkflow RNil)]\<rparr>))) =
     [(1, CompleteWorkflow RNil)]"
  using nothing_after_completion [of "StateManager_new\<lparr>decisions := [(1, CompleteWorkflow RNil)]\<rparr>" 0 "CancelTimer (RInt 1)"]
  by (simp add: StateManager_new_def completing_def terminal_def)

text \<open>
  C7: the decisions that a window's events make, when none was left from
  before, have strictly increasing identifiers after the window's, and none has the
  identifier of a marker recorded so far.
\<close>

theorem window_identifiers:
  assumes "apply_window J call_handler w eng = Inr eng'" and "window_ok w"
    and "decisions (manager eng) = []" and "window.last_event_id w = Some b"
  shows "sorted_wrt (<) (List.map fst (decisions (manager eng'))) \<and>
    (\<forall>x\<in>set (decisions (manager eng')). b < fst x \<and>
       fst x \<notin> set (List.map ev_id (markers w)) \<union> set (marker_ids (manager eng)))"
  using handlers.window_ids [OF assms] by (auto simp: ids_ok_def)

theorem window_identifiers_witness:
  "\<exists>eng. apply_window sample_json call_handler (window_of sample_start) sample_engine = Inr eng \<and>
     List.map fst (decisions (manager eng)) = [5, 6] \<and>
     sorted_wrt (<) (List.map fst (decisions (manager eng)))"
proof -
  have "case apply_window sample_json call_handler (window_of sample_start) sample_engine of
      Inl _ \<Rightarrow> False | Inr eng \<Rightarrow> List.map fst (decisions (manager eng)) = [5, 6]"
    by code_simp
  then obtain eng where eng: "apply_window sample_json call_handler (window_of sample_start) sample_engine = Inr eng"
    "List.map fst (decisions (manager eng)) = [5, 6]"
    by (auto split: sum.splits)
  moreover have "decisions (manager sample_engine) = []"
    by (simp add: sample_engine_def add_handler_def Executor_new_def StateManager_new_def)
  moreover have "window.last_event_id (window_of sample_start) = Some 4" by code_simp
  ultimately show ?thesis using window_identifiers [OF eng(1) window_of_ok] by auto
qed

text \<open>
  C8: in the decisions the executor answers a decision task with, whatever
  the history and the workflow's code, nothing follows a completion or a failure of the
  workflow.
\<close>

theorem completion_is_last:
  assumes "Executor_run J main h = Inr ds"
  shows "\<forall>x\<in>set (butlast ds). \<not> terminal (snd x)"
proof -
  obtain eng where eng: "run_windows J call_handler h
      (add_handler workflow_target ''started'' (H_Started main) Executor_new) = Inr eng"
    "ds = decisions (manager eng)"
    using assms by (auto simp: Executor_run_def Let_def and_then_Inr_iff)
  have "terminal_last (manager (add_handler workflow_target ''started'' (H_Started main) Executor_new))"
    by (simp add: terminal_last_def add_handler_def Executor_new_def StateManager_new_def)
  with run_windows_terminal_last [OF handlers.workflow_code_axioms eng(1)] eng(2) show ?thesis
    by (simp add: terminal_last_def)
qed

theorem completion_is_last_witness:
  "Executor_run sample_json sample_main \<lparr>all_events = sample_start, iterator = sample_start\<rparr> =
     Inr [(5, StartTimer (RInt 9) (RInt 5)), (6, CompleteWorkflow RNil)] \<and>
   \<not> terminal (StartTimer (RInt 9) (RInt 5))"
proof -
  have run: "Executor_run sample_json sample_main \<lparr>all_events = sample_start, iterator = sample_start\<rparr> =
      Inr [(5, StartTimer (RInt 9) (RInt 5)), (6, CompleteWorkflow RNil)]"
    by code_simp
  from completion_is_last [OF this] run show ?thesis by simp
qed

section \<open>Matching the history\<close>

text \<open>
  C4: the scheduling events of a window (an activity, a timer, a
  child workflow, a cancellation request) are accepted exactly when they match, one by one,
  the first decisions that are left: then those are consumed and neither handlers nor code
  change; otherwise the replay stops with a non-determinism error.
\<close>

theorem commands_consume_decisions:
  assumes "\<forall>e\<in>set es. simple_command e \<and> (\<exists>t. from_event J e = Inr t)"
  shows "(case foldM (apply_event J call) es eng of
       Inl err \<Rightarrow> non_deterministic err \<and>
         \<not> (\<exists>ds rest. decisions (manager eng) = ds @ rest \<and> list_all2 (matches J) ds es)
     | Inr eng' \<Rightarrow>
         (\<exists>ds. decisions (manager eng) = ds @ decisions (manager eng') \<and> list_all2 (matches J) ds es) \<and>
         code eng' = code eng \<and> dispatcher eng' = dispatcher eng)"
  by (rule apply_commands [OF assms])

theorem commands_consume_decisions_witness:
  "case foldM (apply_event sample_json call_handler) [sample_event 5 TimerStarted []]
     (sample_engine\<lparr>manager := StateManager_new\<lparr>decisions := [(5, StartTimer (RInt 9) (RInt 5))]\<rparr>\<rparr>) of
     Inl err \<Rightarrow> False | Inr eng \<Rightarrow> decisions (manager eng) = []"
proof -
  let ?e = "sample_event 5 TimerStarted []" and ?x = "(5 :: int, StartTimer (RInt 9) (RInt 5))"
  have "\<forall>e\<in>set [?e]. simple_command e \<and> (\<exists>t. from_event sample_json e = Inr t)"
    by (simp add: simple_command_def sample_event_def from_event_eq decision_id_def EVENT_TYPES_def
        CHILD_WORKFLOW_EVENTS_def target_attributes_def)
  from commands_consume_decisions [OF this, where call = call_handler and eng =
      "sample_engine\<lparr>manager := StateManager_new\<lparr>decisions := [?x]\<rparr>\<rparr>"]
  have "case foldM (apply_event sample_json call_handler) [?e]
      (sample_engine\<lparr>manager := StateManager_new\<lparr>decisions := [?x]\<rparr>\<rparr>) of
      Inl err \<Rightarrow> \<not> matches sample_json ?x ?e
    | Inr eng \<Rightarrow> decisions (manager eng) = []"
    by (auto simp: Cons_eq_append_conv list_all2_Cons2 split: sum.splits)
  moreover have "matches sample_json ?x ?e" by code_simp
  ultimately show ?thesis by (simp split: sum.splits)
qed


definition sample_activity :: ScheduleActivity where
  "sample_activity = \<lparr>activity_type = RStr ''Activity'', activity_id = RNil, input = RArr [],
     domain = RNil, task_list = RNil, retry_policy = RNil, timeouts = RHash [], headers = RNil\<rparr>"




end
