(* ===== verification/WorkflowProperties.thy ===== *)
theory WorkflowProperties
  imports EngineProperties
begin

text \<open>
  More properties of the workflow engine: what futures, fibers and handlers promise over a
  whole replay, what is recorded by markers and given back, and the histories that no
  replay gets through.
\<close>

section \<open>Futures\<close>

lemma Future_set_ready: "Future_set v fut = Inr fut' \<Longrightarrow> ready fut' \<and> failed fut' = failed fut"
  by (auto simp: Future_set_def failed_def split: if_splits)

lemma Future_fail_failed: "Future_fail v w fut = Inr fut' \<Longrightarrow> failed fut' \<and> ready fut' = ready fut"
  by (auto simp: Future_fail_def failed_def split: if_splits)

lemma Future_new_simps [simp]:
  "\<not> ready (Future_new t c)" "\<not> failed (Future_new t c)" "callbacks (Future_new t c) = []"
  "fut_target (Future_new t c) = t"
  by (simp_all add: Future_new_def failed_def)

lemma failed_callbacks [simp]: "failed (fut\<lparr>callbacks := cs\<rparr>) = failed fut"
  by (simp add: failed_def)

lemma future_at_beyond: "\<not> f < length (futures (code eng)) \<Longrightarrow> future_at eng f = Future_new workflow_target RNil"
  by (simp add: future_at_def)

interpretation stays_ready: fiber_invariant "\<lambda>eng. ready (future_at eng f)" UNIV for f
proof
  fix eng g v fut
  assume "ready (future_at eng f)" "Future_set v (future_at eng g) = Inr fut"
  then show "ready (future_at (update_future g fut eng) f)"
    by (auto simp: future_at_update dest: Future_set_ready)
next
  fix eng g v w fut
  assume "ready (future_at eng f)" "Future_fail v w (future_at eng g) = Inr fut"
  then show "ready (future_at (update_future g fut eng) f)"
    by (auto simp: future_at_update dest: Future_fail_failed)
qed (auto simp: future_at_update future_at_new future_at_beyond)

interpretation stays_failed: fiber_invariant "\<lambda>eng. failed (future_at eng f)" UNIV for f
proof
  fix eng g v fut
  assume "failed (future_at eng f)" "Future_set v (future_at eng g) = Inr fut"
  then show "failed (future_at (update_future g fut eng) f)"
    by (auto simp: future_at_update dest: Future_set_ready)
next
  fix eng g v w fut
  assume "failed (future_at eng f)" "Future_fail v w (future_at eng g) = Inr fut"
  then show "failed (future_at (update_future g fut eng) f)"
    by (auto simp: future_at_update dest: Future_fail_failed)
qed (auto simp: future_at_update future_at_new future_at_beyond)

interpretation stays_ready_code: code_invariant call_handler "\<lambda>eng. ready (future_at eng f)" for f
  by unfold_locales (auto intro: stays_ready.Q_call_handler)

interpretation stays_failed_code: code_invariant call_handler "\<lambda>eng. failed (future_at eng f)" for f
  by unfold_locales (auto intro: stays_failed.Q_call_handler)

text \<open>A workflow that waits for a timer, and the history in which it fired.\<close>

definition sample_waiting :: "rval \<Rightarrow> prog" where
  "sample_waiting = execute_in_context sample_describe
     (\<lambda>inp. StartTimerCall (RInt 9) RNil (\<lambda>r. case r of Inl e \<Rightarrow> Throw e | Inr f \<Rightarrow> GetFuture f Finish))"

definition sample_fired :: "event list" where
  "sample_fired = sample_start @
     [sample_event 4 DecisionTaskCompleted [], sample_event 5 TimerStarted [],
      sample_event 6 TimerFired [(''startedEventId'', RInt 5)],
      sample_event 7 DecisionTaskScheduled [], sample_event 8 DecisionTaskStarted []]"

definition sample_run :: "(rval \<Rightarrow> prog) \<Rightarrow> event list \<Rightarrow> rb_error + wf_engine" where
  "sample_run main es = run_windows sample_json call_handler \<lparr>all_events = es, iterator = es\<rparr> (started_engine main)"

lemma sample_run_replayed:
  "sample_run main es = Inr eng \<Longrightarrow> replayed sample_json call_handler (started_engine main) eng"
  unfolding sample_run_def by (rule replayed_run_windows [OF _ replay_start])

text \<open>
  C27: in every engine that the replay of a history goes through, a future
  is fulfilled or failed but never both, and what it has become it remains.
\<close>

theorem futures_settle_once:
  assumes "replayed J call_handler (started_engine main) eng" and "replayed J call_handler eng eng'"
  shows "\<not> (ready (future_at eng f) \<and> failed (future_at eng f)) \<and>
    (ready (future_at eng f) \<longrightarrow> ready (future_at eng' f) \<and> \<not> failed (future_at eng' f)) \<and>
    (failed (future_at eng f) \<longrightarrow> failed (future_at eng' f) \<and> \<not> ready (future_at eng' f))"
proof -
  have "futures_ok eng" "futures_ok eng'"
    using futures_ok_code.Q_replayed assms started_engine_ok by blast+
  then show ?thesis
    using futures_ok_at [of eng f] futures_ok_at [of eng' f]
      stays_ready_code.Q_replayed [OF assms(2)] stays_failed_code.Q_replayed [OF assms(2)]
    by blast
qed

theorem futures_settle_once_witness:
  "\<exists>eng. sample_run sample_waiting sample_fired = Inr eng \<and>
     ready (future_at eng 0) \<and> \<not> failed (future_at eng 0)"
proof -
  have "case sample_run sample_waiting sample_fired of Inl _ \<Rightarrow> False | Inr eng \<Rightarrow> ready (future_at eng 0)"
    by code_simp
  then obtain eng where eng: "sample_run sample_waiting sample_fired = Inr eng" "ready (future_at eng 0)"
    by (auto split: sum.splits)
  from futures_settle_once [OF sample_run_replayed [OF eng(1)] replay_start, of 0] eng show ?thesis by blast
qed

section \<open>Cancellation\<close>



section \<open>Waiting\<close>

definition sample_scheduled :: "wf_engine \<times> (rb_error + nat)" where
  "sample_scheduled = with_future (StartTimer (RInt 9) RNil) ''fired'' ''canceled''
     (Executor_new\<lparr>code := \<lparr>futures = [], fibers = [Running]\<rparr>\<rparr>)"

lemma fut_target_set_fiber [simp]: "future_at (set_fiber fb s eng) f = future_at eng f"
  by (simp add: set_fiber_def)

lemma dispatcher_set_fiber [simp]: "dispatcher (set_fiber fb s eng) = dispatcher eng"
  by (simp add: set_fiber_def)



section \<open>Markers\<close>

text \<open>The event by which the service records a marker decision: its details are serialized.\<close>

definition recorded :: "json_api \<Rightarrow> rval \<Rightarrow> event \<Rightarrow> rval \<Rightarrow> bool" where
  "recorded J ty e v \<longleftrightarrow> ev_type e = MarkerRecorded \<and> attribute e ''markerName'' = Inr ty \<and>
     attribute e ''details'' = Inr (RStr (JSON_serialize J v)) \<and> json_roundtrips J v"

lemma apply_recorded:
  assumes "recorded J ty e v"
  shows "apply_event J call eng e =
    and_then (handle_marker (ev_id e) ty v ((manager eng)\<lparr>decision_tracker :=
        (decision_tracker (manager eng))(RInt (ev_id e) \<mapsto> COMPLETED_STATE)\<rparr>))
      (\<lambda>sm. Inr (eng\<lparr>manager := sm\<rparr>))"
  using assms
  by (simp add: recorded_def apply_event_def decision_id_def EVENT_TYPES_def CHILD_WORKFLOW_EVENTS_def
      Let_def from_event_eq target_attributes_def and_machine_def on_manager_def machine_def
      state_machine_call_def state_machine_methods_def touch_def parsed_def deserialize_serialize)

text \<open>Several side effects, one after the other.\<close>

fun side_effect_calls ::
  "(rb_error + rval) list \<Rightarrow> wf_engine \<Rightarrow> wf_engine \<times> (rb_error + rval) list" where
  "side_effect_calls [] eng = (eng, [])"
| "side_effect_calls (b # bs) eng =
     (case side_effect b eng of (eng, r) \<Rightarrow>
       (case side_effect_calls bs eng of (eng, rs) \<Rightarrow> (eng, r # rs)))"

lemma apply_side_effects:
  assumes "list_all2 (recorded J SIDE_EFFECT_MARKER) es vs"
  shows "\<exists>eng'. foldM (apply_event J call) es eng = Inr eng' \<and>
    side_effects (manager eng') = side_effects (manager eng) @ zip (List.map ev_id es) vs \<and>
    decisions (manager eng') = decisions (manager eng)"
  using assms
proof (induction arbitrary: eng rule: list_all2_induct)
  case (Cons e es v vs)
  let ?sm = "manager eng" and ?i = "ev_id e"
  let ?eng = "eng\<lparr>manager := ?sm\<lparr>decision_tracker := (decision_tracker ?sm)(RInt ?i \<mapsto> COMPLETED_STATE),
    marker_ids := ?i # marker_ids ?sm, side_effects := side_effects ?sm @ [(?i, v)]\<rparr>\<rparr>"
  have "apply_event J call eng e = Inr ?eng"
    by (simp add: apply_recorded [OF Cons(1)] handle_marker_def)
  then show ?case using Cons(3) [of ?eng] by simp
qed simp

lemma side_effect_calls_recorded:
  assumes "length bs = length vs" and "side_effects (manager eng) = zip is vs" and "length is = length vs"
  shows "side_effect_calls bs eng =
    (eng\<lparr>manager := (manager eng)\<lparr>side_effects := []\<rparr>\<rparr>, List.map Inr vs)"
  using assms
proof (induction bs vs arbitrary: "is" eng rule: list_induct2)
  case (Cons b bs v vs)
  then show ?case
    by (cases "is") (auto simp: side_effect_def next_side_effect_def Cons.IH)
qed simp

text \<open>
  C31: the values that the markers of a history recorded are what the
  side effects of the workflow return on replay, in order and whatever their blocks would
  return now; no decision is made for them.
\<close>

theorem side_effects_replayed:
  assumes "list_all2 (recorded J SIDE_EFFECT_MARKER) es vs" and "length blocks = length vs"
    and "side_effects (manager eng) = []"
  shows "\<exists>eng' eng''. foldM (apply_event J call_handler) es eng = Inr eng' \<and>
    side_effect_calls blocks eng' = (eng'', List.map Inr vs) \<and>
    decisions (manager eng'') = decisions (manager eng) \<and> side_effects (manager eng'') = []"
proof -
  obtain eng' where eng': "foldM (apply_event J call_handler) es eng = Inr eng'"
    "side_effects (manager eng') = zip (List.map ev_id es) vs" "decisions (manager eng') = decisions (manager eng)"
    using apply_side_effects [OF assms(1), of call_handler eng] assms(3) by auto
  have "length (List.map ev_id es) = length vs" using assms(1) by (simp add: list_all2_lengthD)
  from side_effect_calls_recorded [OF assms(2) eng'(2) this] eng' show ?thesis by simp
qed

theorem side_effects_replayed_witness:
  "\<exists>eng' eng''. foldM (apply_event sample_json call_handler)
      [sample_event 5 MarkerRecorded [(''markerName'', RStr ''SIDE_EFFECT''), (''details'', RStr ''null'')]]
      (sample_engine) = Inr eng' \<and>
    side_effect_calls [Inr (RInt 3)] eng' = (eng'', [Inr RNil]) \<and>
    decisions (manager eng'') = [] \<and> side_effects (manager eng'') = []"
proof -
  have "list_all2 (recorded sample_json SIDE_EFFECT_MARKER)
      [sample_event 5 MarkerRecorded [(''markerName'', RStr ''SIDE_EFFECT''), (''details'', RStr ''null'')]] [RNil]"
    by (simp add: recorded_def sample_event_def attribute_def SIDE_EFFECT_MARKER_def JSON_serialize_def
        sample_json_def json_roundtrips_def)
  from side_effects_replayed [OF this, of "[Inr (RInt 3)]" sample_engine] show ?thesis
    by (simp add: sample_engine_def add_handler_def Executor_new_def StateManager_new_def)
qed

text \<open>
  C32: asking for a release decides it for good. The answer is what a
  marker or an earlier call said, else whether the code runs live, and in that case it is
  recorded by one marker; later calls repeat the answer and change nothing.
\<close>

theorem release_decided_once:
  assumes "is_release name sm = (sm', Inr b)"
  shows "is_release name sm' = (sm', Inr b) \<and>
    (case releases sm name of
       Some b' \<Rightarrow> b = b' \<and> sm' = sm
     | None \<Rightarrow> b = (\<not> sm_replay sm) \<and>
         (if b then \<exists>i. decisions sm' = decisions sm @ [(i, RecordMarker RELEASE_MARKER name)]
          else decisions sm' = decisions sm))"
  using assms
  by (auto simp: is_release_def track_release_def schedule_eq Let_def drawn_def assign_id_def
      split: option.splits if_splits)

theorem release_decided_once_witness:
  "\<exists>sm. is_release (RStr ''r'') StateManager_new = (sm, Inr True) \<and> is_release (RStr ''r'') sm = (sm, Inr True)"
proof -
  obtain sm where sm: "is_release (RStr ''r'') StateManager_new = (sm, Inr True)"
    by (simp add: is_release_def track_release_def schedule_eq StateManager_new_def Let_def completing_def
        drawn_def)
  from release_decided_once [OF this] sm show ?thesis by blast
qed

text \<open>
  A release that was recorded answers true on replay, and no decision
  is made for it; a release that was not recorded answers false.
\<close>

theorem release_replayed:
  assumes "recorded J RELEASE_MARKER e (RStr name)"
  shows "\<exists>eng'. apply_event J call eng e = Inr eng' \<and>
    is_release (RStr name) (manager eng') = (manager eng', Inr True) \<and>
    decisions (manager eng') = decisions (manager eng) \<and>
    (\<forall>other. other \<noteq> name \<and> releases (manager eng) (RStr other) = None \<and> sm_replay (manager eng) \<longrightarrow>
       snd (is_release (RStr other) (manager eng')) = Inr False)"
  by (simp add: apply_recorded [OF assms] handle_marker_def is_release_def track_release_def
      SIDE_EFFECT_MARKER_def RELEASE_MARKER_def ex_bool_eq all_bool_eq)

theorem release_replayed_witness:
  "\<exists>eng'. apply_event (sample_json\<lparr>load := \<lambda>s. Some (RStr s), dump := rb_to_s sample_json\<rparr>) call_handler
     sample_engine (sample_event 5 MarkerRecorded [(''markerName'', RStr ''RELEASE''), (''details'', RStr ''r'')]) = Inr eng' \<and>
     is_release (RStr ''r'') (manager eng') = (manager eng', Inr True)"
proof -
  have "recorded (sample_json\<lparr>load := \<lambda>s. Some (RStr s), dump := rb_to_s sample_json\<rparr>) RELEASE_MARKER
      (sample_event 5 MarkerRecorded [(''markerName'', RStr ''RELEASE''), (''details'', RStr ''r'')]) (RStr ''r'')"
    by (simp add: recorded_def sample_event_def attribute_def RELEASE_MARKER_def JSON_serialize_def
        json_roundtrips_def rb_to_s_def)
  from release_replayed [OF this] show ?thesis by blast
qed

section \<open>The main fiber\<close>

text \<open>What is left of the main fiber when its code has \<open>p\<close> left to run.\<close>

definition main_rest :: "(rb_error \<Rightarrow> rval \<times> rval) \<Rightarrow> prog \<Rightarrow> prog" where
  "main_rest describe p =
     bind_rescue
       (bind_rescue p
         (\<lambda>result. CompleteCall result (\<lambda>r. case r of Inl e \<Rightarrow> Throw e | Inr _ \<Rightarrow> Finish RNil))
         Throw)
       Finish
       (\<lambda>error. FailCall (fst (describe error)) (snd (describe error))
         (\<lambda>r. case r of Inl e \<Rightarrow> Throw e | Inr _ \<Rightarrow> Finish RNil))"

lemma execute_in_context_rest: "execute_in_context describe execute inp = main_rest describe (execute inp)"
  by (simp add: execute_in_context_def main_rest_def)

lemma scheduled_only_terminal:
  "terminal d \<Longrightarrow> scheduled_only d eng = (eng', r) \<Longrightarrow>
   case r of Inr _ \<Rightarrow> completing (manager eng')
   | Inl _ \<Rightarrow> completing (manager eng') \<or> sm_last_event_id (manager eng') = None"
  by (auto simp: scheduled_only_def schedule_decision_def schedule_eq Let_def completing_def drawn_def
      terminal_assign_id split: prod.splits option.splits if_splits)


section \<open>Histories that cannot be replayed\<close>

definition processable :: "event \<Rightarrow> bool" where
  "processable e \<longleftrightarrow> ev_type e \<notin> set unsupported_decision_id \<and> ev_type e \<noteq> CancelTimerFailed \<and>
     (ev_type e = MarkerRecorded \<longrightarrow> attribute e ''markerName'' \<in> {Inr SIDE_EFFECT_MARKER, Inr RELEASE_MARKER})"

lemma applied_processable:
  assumes "apply_event J call eng e = Inr eng'" and "event_ok e"
  shows "processable e"
proof -
  obtain i where "decision_id e = Inr i"
    using assms(1) by (auto simp: apply_event_def and_then_Inr_iff)
  with decision_id_cases [OF assms(2)] have "ev_type e \<notin> set unsupported_decision_id"
    by (auto split: if_splits)
  then show ?thesis
    using assms(1)
    by (auto simp: processable_def apply_event_def and_then_Inr_iff Let_def and_dispatch_def and_discard_def
        and_machine_def on_manager_def machine_def state_machine_call_def state_machine_methods_def
        handle_marker_def split: if_splits)
qed

text \<open>
  C30: the executor answers only histories without the events it
  cannot process: six types whose decision identifier is read from an attribute they do not
  have, the failed cancellation of a timer, and markers of an unknown name. Any history
  with one raises, and its decision tasks fail.
\<close>

theorem only_processable_histories:
  assumes "Executor_run J main h = Inr ds" and "e \<in> set (iterator h)" and "event_ok e"
    and "\<not> decision_task_event e"
  shows "processable e"
proof -
  obtain eng where "run_windows J call_handler h
      (add_handler workflow_target ''started'' (H_Started main) Executor_new) = Inr eng"
    using assms(1) by (auto simp: Executor_run_def and_then_Inr_iff)
  from run_windows_each [OF this assms(2,4)] assms(3) show ?thesis
    using applied_processable by blast
qed

theorem only_processable_histories_witness:
  "processable (sample_event 5 TimerStarted []) \<and> sample_event 5 TimerStarted [] \<in> set sample_fired"
proof -
  have "case Executor_run sample_json sample_waiting \<lparr>all_events = sample_fired, iterator = sample_fired\<rparr> of
      Inl _ \<Rightarrow> False | Inr _ \<Rightarrow> True"
    by code_simp
  then obtain ds where ds: "Executor_run sample_json sample_waiting
      \<lparr>all_events = sample_fired, iterator = sample_fired\<rparr> = Inr ds"
    by (auto split: sum.splits)
  have "sample_event 5 TimerStarted [] \<in> set sample_fired" by (simp add: sample_fired_def)
  with only_processable_histories [OF ds _ sample_event_ok, of 5 TimerStarted "[]"] show ?thesis
    by (simp add: decision_task_event_def sample_event_def)
qed

end
