(* ===== verification/Processing.thy ===== *)
theory Processing
  imports Executor
begin

text \<open>
  The processors of tasks: \<open>Workflow::DecisionTaskProcessor\<close>
  (lib/cadence/workflow/decision_task_processor.rb) and \<open>Activity::TaskProcessor\<close>
  (lib/cadence/activity/task_processor.rb). What they do to the service is the list of the
  calls they make; an error of such a call is logged and changes nothing. Logging, metrics
  and the error handlers are left out, the middleware chains are empty, and the service's
  answers to the pages of a history are a parameter.
\<close>

section \<open>Decision tasks\<close>

record decision_task =
  task_token :: rval
  task_workflow_name :: string
  task_attempt :: int
  task_events :: "raw_event list"
  task_page_token :: "string option"

datatype service_call =
    RespondDecisionTaskCompleted rval "rval list"
  | RespondDecisionTaskFailed rval int rval
  | RespondActivityTaskCompleted rval rval
  | RespondActivityTaskFailed rval rval rval

text \<open>
  The answer to a request of a page: its elements and the token of the next page. The pages of
  a history are of events.
\<close>

type_synonym ('t, 'a) page_source = "'t \<Rightarrow> rb_error + 'a list \<times> 't option"

type_synonym history_pages = "(string, raw_event) page_source"

definition MAX_FAILED_ATTEMPTS :: int where "MAX_FAILED_ATTEMPTS = 50"

definition UNHANDLED_DECISION :: int where "UNHANDLED_DECISION = 0"

text \<open>The loop of \<open>fetch_full_history\<close> ends only with a page that names no next one.\<close>

partial_function (option) fetch_pages ::
  "('t, 'a) page_source \<Rightarrow> 'a list \<Rightarrow> 't option \<Rightarrow> (rb_error + 'a list) option" where
  "fetch_pages get evs next_page_token =
     (case next_page_token of
        None \<Rightarrow> Some (Inr evs)
      | Some t \<Rightarrow>
          (case get t of
             Inl e \<Rightarrow> Some (Inl e)
           | Inr (page, next_page_token) \<Rightarrow> fetch_pages get (evs @ page) next_page_token))"

definition fetch_full_history :: "history_pages \<Rightarrow> decision_task \<Rightarrow> (rb_error + history) option" where
  "fetch_full_history get task =
     map_option (\<lambda>r. and_then r History_new) (fetch_pages get (task_events task) (task_page_token task))"

text \<open>An error of the serialization is rescued and logged.\<close>

definition complete_task :: "json_api \<Rightarrow> decision_task \<Rightarrow> (int \<times> decision) list \<Rightarrow> service_call list" where
  "complete_task J task ds =
     (case serialize_decisions J ds of
        Inl _ \<Rightarrow> []
      | Inr ts \<Rightarrow> [RespondDecisionTaskCompleted (task_token task) ts])"

definition fail_task :: "decision_task \<Rightarrow> rval \<Rightarrow> service_call list" where
  "fail_task task message =
     (if task_attempt task \<ge> MAX_FAILED_ATTEMPTS then []
      else [RespondDecisionTaskFailed (task_token task) UNHANDLED_DECISION message])"

text \<open>\<open>process\<close>: the calls it makes, if the fetching of the history ends.\<close>

definition process_decision_task ::
  "json_api \<Rightarrow> (rb_error \<Rightarrow> rval) \<Rightarrow> (string \<Rightarrow> (rval \<Rightarrow> prog) option) \<Rightarrow> history_pages \<Rightarrow>
   decision_task \<Rightarrow> service_call list option" where
  "process_decision_task J inspect lookup get task =
     (case lookup (task_workflow_name task) of
        None \<Rightarrow> Some (fail_task task (RStr ''Workflow does not exist''))
      | Some main \<Rightarrow>
          map_option (\<lambda>history.
            case and_then history (Executor_run J main) of
              Inl error \<Rightarrow> fail_task task (inspect error)
            | Inr ds \<Rightarrow> complete_task J task ds)
          (fetch_full_history get task))"

section \<open>Activity tasks\<close>

record activity_task =
  act_token :: rval
  act_name :: string
  act_input :: rval

text \<open>
  What an activity's \<open>execute\<close> does: it returns, raises an error (\<open>StandardError\<close> or
  \<open>ScriptError\<close>) with its class and message, or raises another exception; and whether it
  made itself asynchronous before that.
\<close>

datatype activity_result = ActReturned rval | ActRaised rval rval | ActFatal rval

text \<open>The calls, and the exception that leaves \<open>process\<close>, if any.\<close>

definition process_activity_task ::
  "json_api \<Rightarrow> (rb_error \<Rightarrow> rval \<times> rval) \<Rightarrow> (string \<Rightarrow> (rval \<Rightarrow> bool \<times> activity_result) option) \<Rightarrow>
   activity_task \<Rightarrow> service_call list \<times> rval option" where
  "process_activity_task J describe lookup task =
     (case lookup (act_name task) of
        None \<Rightarrow>
          ([RespondActivityTaskFailed (act_token task) (RStr ''ActivityNotRegistered'')
             (RStr ''Activity is not registered with this worker'')], None)
      | Some execute \<Rightarrow>
          (case deserialize J (act_input task) of
             Inl error \<Rightarrow>
               ([RespondActivityTaskFailed (act_token task) (fst (describe error)) (snd (describe error))], None)
           | Inr inp \<Rightarrow>
               (case execute inp of
                  (async, ActReturned v) \<Rightarrow>
                    (if async then [] else [RespondActivityTaskCompleted (act_token task) v], None)
                | (_, ActRaised class_name message) \<Rightarrow>
                    ([RespondActivityTaskFailed (act_token task) class_name message], None)
                | (_, ActFatal error) \<Rightarrow> ([], Some error))))"

section \<open>Fetching a history\<close>

text \<open>The pages that follow a token, up to one that names no next.\<close>

inductive pages :: "('t, 'a) page_source \<Rightarrow> 't option \<Rightarrow> 'a list \<Rightarrow> bool" for get where
  last_page: "pages get None []"
| next_page: "get t = Inr (evs, tok) \<Longrightarrow> pages get tok rest \<Longrightarrow> pages get (Some t) (evs @ rest)"

inductive_simps pages_simps: "pages get None rest" "pages get (Some t) rest"

lemma fetch_pages_complete: "pages get tok rest \<Longrightarrow> fetch_pages get evs tok = Some (Inr (evs @ rest))"
proof (induction arbitrary: evs rule: pages.induct)
  case last_page
  then show ?case by (simp add: fetch_pages.simps)
next
  case (next_page t page tok rest)
  then show ?case by (subst fetch_pages.simps) simp
qed

lemma fetch_pages_sound:
  "fetch_pages get evs tok = Some r \<Longrightarrow> \<forall>full. r = Inr full \<longrightarrow> (\<exists>rest. pages get tok rest \<and> full = evs @ rest)"
proof (rule fetch_pages.raw_induct [where P = "\<lambda>get evs tok r. \<forall>full. r = Inr full \<longrightarrow>
      (\<exists>rest. pages get tok rest \<and> full = evs @ rest)"], goal_cases)
  case (1 rec get evs tok r)
  then show ?case
    by (fastforce split: option.splits sum.splits prod.splits intro: pages.intros)
qed

lemma fetch_pages_loops:
  assumes "get t = Inr (page, Some t)"
  shows "fetch_pages get evs (Some t) = None"
proof -
  have "get t = Inr (page, Some t) \<longrightarrow> tok \<noteq> Some t" if "fetch_pages get evs tok = Some r" for get evs tok r
    using that
    by (rule fetch_pages.raw_induct [where P = "\<lambda>get evs tok r. get t = Inr (page, Some t) \<longrightarrow> tok \<noteq> Some t", rotated])
      (fastforce split: option.splits sum.splits prod.splits)
  with assms show ?thesis by (cases "fetch_pages get evs (Some t)") auto
qed

section \<open>Properties\<close>

text \<open>
  C34: the fetching of a history ends with success exactly when the
  pages end, and the history is then the events of the task followed by those of all the
  pages, in order; a page that names itself as the next one is fetched for ever, and one
  whose request fails ends the fetching with that error.
\<close>

theorem history_is_fetched_whole:
  "(fetch_pages get evs tok = Some (Inr full) \<longleftrightarrow> (\<exists>rest. pages get tok rest \<and> full = evs @ rest)) \<and>
   (get t = Inr (page, Some t) \<longrightarrow> fetch_pages get evs (Some t) = None) \<and>
   (get t = Inl e \<longrightarrow> fetch_pages get evs (Some t) = Some (Inl e))"
  using fetch_pages_sound [of get evs tok "Inr full"] fetch_pages_complete [of get tok] fetch_pages_loops [of get t page evs]
  by (auto simp: fetch_pages.simps [of get evs "Some t"])

theorem history_is_fetched_whole_witness:
  "fetch_pages (\<lambda>t. Inr ([], Some [])) [] (Some []) = None \<and>
   fetch_pages (\<lambda>t. Inr ([], None)) [] (Some ''next'') = Some (Inr [])"
proof -
  have "pages (\<lambda>t. Inr ([], None)) (Some ''next'') []" by (simp add: pages_simps)
  then show ?thesis
    using history_is_fetched_whole [of "\<lambda>t. Inr ([], None)" "[]" "Some ''next''" "[]"]
      history_is_fetched_whole [of "\<lambda>t. Inr ([], Some [])" "[]" None "[]" "[]" "[]"]
    by auto
qed

text \<open>The decisions of the executor for the whole history of a task.\<close>

definition decided ::
  "json_api \<Rightarrow> (string \<Rightarrow> (rval \<Rightarrow> prog) option) \<Rightarrow> history_pages \<Rightarrow> decision_task \<Rightarrow> (int \<times> decision) list \<Rightarrow> bool" where
  "decided J lookup get task ds \<longleftrightarrow> (\<exists>main h. lookup (task_workflow_name task) = Some main \<and>
     fetch_full_history get task = Some (Inr h) \<and> Executor_run J main h = Inr ds)"

lemma decided_eq: "decided J lookup get task ds \<Longrightarrow> decided J lookup get task ds' \<Longrightarrow> ds = ds'"
  by (auto simp: decided_def)

lemma serialize_decisions_cases:
  "case serialize_decisions J ds of
     Inl _ \<Rightarrow> \<exists>d\<in>set ds. \<exists>error. serialize J (snd d) = Inl error
   | Inr ts \<Rightarrow> list_all2 (\<lambda>d t. serialize J (snd d) = Inr t) ds ts"
  by (induction ds)
    (auto simp: serialize_decisions_def and_then_Inl_iff and_then_Inr_iff split: sum.splits)


definition sample_task :: decision_task where
  "sample_task = \<lparr>task_token = RStr ''t'', task_workflow_name = ''W'', task_attempt = 50,
     task_events = [], task_page_token = None\<rparr>"

definition sample_api :: json_api where
  "sample_api = \<lparr>load = (\<lambda>s. Some (RStr s)), dump = (\<lambda>_. []), other_to_s = (\<lambda>_. [])\<rparr>"


text \<open>How the run of a registered activity on a readable input ended.\<close>

definition activity_ended ::
  "json_api \<Rightarrow> (string \<Rightarrow> (rval \<Rightarrow> bool \<times> activity_result) option) \<Rightarrow> activity_task \<Rightarrow> bool \<times> activity_result \<Rightarrow> bool"
where
  "activity_ended J lookup task outcome \<longleftrightarrow> (\<exists>execute inp. lookup (act_name task) = Some execute \<and>
     deserialize J (act_input task) = Inr inp \<and> execute inp = outcome)"

text \<open>
  C36: an activity task gets one answer at most: completed exactly
  when the activity returned a value and is not asynchronous; none exactly when it is
  asynchronous and returned, or was stopped by an exception that is no error, which then
  leaves the processor; and in all other cases (unknown activity, unreadable input, an
  error) it is failed.
\<close>

theorem activity_task_answered_once:
  assumes "process_activity_task J describe lookup task = (calls, leaves)"
  shows "length calls \<le> 1 \<and>
    (RespondActivityTaskCompleted token v \<in> set calls \<longleftrightarrow>
       token = act_token task \<and> activity_ended J lookup task (False, ActReturned v)) \<and>
    (calls = [] \<longleftrightarrow> (\<exists>v. activity_ended J lookup task (True, ActReturned v)) \<or> leaves \<noteq> None) \<and>
    (leaves = Some e \<longleftrightarrow> (\<exists>async. activity_ended J lookup task (async, ActFatal e)))"
  using assms
  by (auto simp: process_activity_task_def activity_ended_def split: option.splits sum.splits prod.splits
      if_splits activity_result.splits)

theorem activity_task_answered_once_witness:
  "activity_ended sample_api (\<lambda>_. Some (\<lambda>v. (False, ActReturned v))) \<lparr>act_token = RStr ''t'', act_name = ''A'', act_input = RStr ''x''\<rparr>
     (False, ActReturned (RStr ''x''))"
proof -
  have "process_activity_task sample_api (\<lambda>e. (RNil, RNil)) (\<lambda>_. Some (\<lambda>v. (False, ActReturned v)))
     \<lparr>act_token = RStr ''t'', act_name = ''A'', act_input = RStr ''x''\<rparr> =
     ([RespondActivityTaskCompleted (RStr ''t'') (RStr ''x'')], None)"
    by (simp add: sample_api_def process_activity_task_def deserialize_def JSON_deserialize_def rb_to_s_def)
  from activity_task_answered_once [OF this, of "RStr ''t''" "RStr ''x''"] show ?thesis by simp
qed

end
