(* ===== verification/ThreadPool.thy ===== *)
theory ThreadPool
  imports Prelude "HOL-Library.Multiset"
begin

text \<open>
  \<open>ThreadPool\<close> (lib/cadence/thread_pool.rb): the threads that run the jobs of a poller. A state
  holds what the threads share and where each thread is; a step is one of the critical
  sections, a pop of the queue, or the end of a job. The mutex and the queue of Ruby are
  the atomicity of the steps. A job of type \<open>'j\<close> is a block that the poller schedules.
\<close>

section \<open>State\<close>

text \<open>What is on the queue: a scheduled block, or the block of \<open>shutdown\<close> that throws.\<close>

datatype 'j job = Job 'j | Exit

text \<open>A thread waits for the queue, runs a job, is about to say it is available, or has left its loop.\<close>

datatype 'j thread = Idle | Working 'j | Done | Exited

record 'j pool =
  pool_size :: nat
  queue :: "'j job list"
  available_threads :: int
  threads :: "'j thread list"

definition ThreadPool_new :: "nat \<Rightarrow> 'j pool" where
  "ThreadPool_new n = \<lparr>pool_size = n, queue = [], available_threads = int n, threads = replicate n Idle\<rparr>"

section \<open>Operations\<close>

definition schedule_job :: "'j job \<Rightarrow> 'j pool \<Rightarrow> 'j pool" where
  "schedule_job j p = p\<lparr>available_threads := available_threads p - 1, queue := queue p @ [j]\<rparr>"

text \<open>\<open>shutdown\<close>, up to the joins.\<close>

definition shutdown :: "'j pool \<Rightarrow> 'j pool" where
  "shutdown p = (schedule_job Exit ^^ pool_size p) p"

text \<open>The condition on which \<open>wait_for_available_threads\<close> returns.\<close>

definition may_proceed :: "'j pool \<Rightarrow> bool" where
  "may_proceed p \<longleftrightarrow> \<not> available_threads p \<le> 0"

text \<open>
  One step of thread \<open>i\<close> in \<open>poll\<close>: take a job, end it (whether or not it raised), become
  available; the throw leaves the loop.
\<close>

definition thread_step :: "nat \<Rightarrow> 'j pool \<Rightarrow> 'j pool option" where
  "thread_step i p =
     (if i < length (threads p) then
        (case threads p ! i of
           Idle \<Rightarrow>
             (case queue p of
                [] \<Rightarrow> None
              | Job j # rest \<Rightarrow> Some (p\<lparr>queue := rest, threads := (threads p)[i := Working j]\<rparr>)
              | Exit # rest \<Rightarrow> Some (p\<lparr>queue := rest, threads := (threads p)[i := Exited]\<rparr>))
         | Working j \<Rightarrow> Some (p\<lparr>threads := (threads p)[i := Done]\<rparr>)
         | Done \<Rightarrow> Some (p\<lparr>available_threads := available_threads p + 1, threads := (threads p)[i := Idle]\<rparr>)
         | Exited \<Rightarrow> None)
      else None)"

text \<open>The block that a step starts to run, if any.\<close>

definition started_job :: "nat \<Rightarrow> 'j pool \<Rightarrow> 'j list" where
  "started_job i p = (if threads p ! i = Idle then (case queue p of Job j # _ \<Rightarrow> [j] | _ \<Rightarrow> []) else [])"

text \<open>
  The life of a pool of \<open>n\<close> threads: the blocks scheduled so far, the blocks started so far,
  and whether it was shut down. The poller schedules, then shuts down; threads step at any time.
\<close>

inductive pool_run :: "nat \<Rightarrow> 'j pool \<Rightarrow> 'j list \<Rightarrow> 'j list \<Rightarrow> bool \<Rightarrow> bool" for n where
  new: "pool_run n (ThreadPool_new n) [] [] False"
| scheduled: "pool_run n p js rs False \<Longrightarrow> pool_run n (schedule_job (Job j) p) (js @ [j]) rs False"
| shut: "pool_run n p js rs False \<Longrightarrow> pool_run n (shutdown p) js rs True"
| stepped: "pool_run n p js rs b \<Longrightarrow> thread_step i p = Some p' \<Longrightarrow>
    pool_run n p' js (rs @ started_job i p) b"

section \<open>What the steps keep\<close>

text \<open>The number of threads that are at work, and of those that have left.\<close>

definition busy :: "'j pool \<Rightarrow> nat" where
  "busy p = length (filter (\<lambda>t. t \<noteq> Idle \<and> t \<noteq> Exited) (threads p))"

definition exited :: "'j pool \<Rightarrow> nat" where
  "exited p = length (filter (\<lambda>t. t = Exited) (threads p))"

definition idle :: "'j pool \<Rightarrow> nat" where
  "idle p = length (filter (\<lambda>t. t = Idle) (threads p))"

definition accounted :: "nat \<Rightarrow> 'j pool \<Rightarrow> bool" where
  "accounted n p \<longleftrightarrow> length (threads p) = n \<and> pool_size p = n \<and>
     available_threads p + int (length (queue p)) + int (busy p) + int (exited p) = int n"

lemma length_filter_update:
  "i < length xs \<Longrightarrow> length (filter P (xs[i := x])) + (if P (xs ! i) then 1 else 0) =
     length (filter P xs) + (if P x then 1 else 0)"
proof (induction xs arbitrary: i)
  case (Cons y ys)
  then show ?case by (cases i) (auto split: if_splits)
qed simp

lemma thread_counts: "idle p + busy p + exited p = length (threads p)"
proof -
  have "length (filter (\<lambda>t. t = Idle) ts) + length (filter (\<lambda>t. t \<noteq> Idle \<and> t \<noteq> Exited) ts) +
      length (filter (\<lambda>t. t = Exited) ts) = length ts" for ts :: "'a thread list"
    by (induction ts) auto
  then show ?thesis by (simp add: idle_def busy_def exited_def)
qed

lemma accounted_schedule: "accounted n p \<Longrightarrow> accounted n (schedule_job j p)"
  by (simp add: accounted_def schedule_job_def busy_def exited_def)

lemma accounted_step:
  assumes "thread_step i p = Some p'" and "accounted n p"
  shows "accounted n p'"
proof -
  let ?B = "\<lambda>t. t \<noteq> Idle \<and> t \<noteq> Exited" and ?E = "\<lambda>t. t = Exited"
  have i: "i < length (threads p)" using assms(1) by (simp add: thread_step_def split: if_splits)
  note up = length_filter_update [OF i, where P = ?B] length_filter_update [OF i, where P = ?E]
  from assms i show ?thesis
    using up [of Idle] up [of Done] up [of Exited] up [of "Working _"]
    by (auto simp: thread_step_def accounted_def busy_def exited_def
        split: thread.splits list.splits job.splits if_splits)
qed

lemma shutdown_eq:
  "shutdown p = p\<lparr>available_threads := available_threads p - int (pool_size p),
     queue := queue p @ replicate (pool_size p) Exit\<rparr>"
proof -
  have "(schedule_job Exit ^^ k) p =
      p\<lparr>available_threads := available_threads p - int k, queue := queue p @ replicate k Exit\<rparr>" for k
    by (induction k) (simp_all add: schedule_job_def replicate_append_same)
  then show ?thesis by (simp add: shutdown_def)
qed

lemma accounted_shutdown: "accounted n p \<Longrightarrow> accounted n (shutdown p)"
  by (simp add: accounted_def shutdown_eq busy_def exited_def)

lemma accounted_run: "pool_run n p js rs b \<Longrightarrow> accounted n p"
proof (induction rule: pool_run.induct)
  case new
  then show ?case by (simp add: accounted_def ThreadPool_new_def busy_def exited_def)
qed (auto intro: accounted_schedule accounted_step accounted_shutdown)

text \<open>The queue holds what was scheduled and not started, in order, and the exits after it.\<close>

definition queue_ok :: "nat \<Rightarrow> 'j pool \<Rightarrow> 'j list \<Rightarrow> 'j list \<Rightarrow> bool \<Rightarrow> bool" where
  "queue_ok n p js rs b \<longleftrightarrow> (\<exists>ws k. queue p = List.map Job ws @ replicate k Exit \<and> js = rs @ ws \<and>
     k + exited p = (if b then n else 0) \<and> (0 < exited p \<longrightarrow> ws = []))"

lemma queue_ok_step:
  assumes step: "thread_step i p = Some p'" and ok: "queue_ok n p js rs b"
  shows "queue_ok n p' js (rs @ started_job i p) b"
proof -
  obtain ws k where q: "queue p = List.map Job ws @ replicate k Exit" "js = rs @ ws"
    "k + exited p = (if b then n else 0)" "0 < exited p \<longrightarrow> ws = []"
    using ok by (auto simp: queue_ok_def)
  have i: "i < length (threads p)" using step by (simp add: thread_step_def split: if_splits)
  note up = length_filter_update [OF i, where P = "\<lambda>t. t = Exited"]
  show ?thesis
  proof (cases "threads p ! i")
    case Idle
    show ?thesis
    proof (cases ws)
      case Nil
      with step q i Idle obtain m where "k = Suc m" by (cases k) (auto simp: thread_step_def)
      with step q i Idle Nil up [of Exited] show ?thesis
        by (auto simp: thread_step_def queue_ok_def started_job_def exited_def intro!: exI [of _ "[]"] exI [of _ m])
    next
      case (Cons j ws')
      with step q i Idle up [of "Working j"] show ?thesis
        by (auto simp: thread_step_def queue_ok_def started_job_def exited_def intro!: exI [of _ ws'] exI [of _ k])
    qed
  qed (use step q i up [of Done] up [of Idle] in
      \<open>auto simp: thread_step_def queue_ok_def started_job_def exited_def intro!: exI [of _ ws] exI [of _ k]\<close>)
qed

lemma queue_ok_run: "pool_run n p js rs b \<Longrightarrow> queue_ok n p js rs b"
proof (induction rule: pool_run.induct)
  case new
  then show ?case by (simp add: queue_ok_def ThreadPool_new_def exited_def)
next
  case (scheduled p js rs j)
  then obtain ws where "queue p = List.map Job ws" "js = rs @ ws" "exited p = 0"
    by (auto simp: queue_ok_def)
  then show ?case
    by (auto simp: queue_ok_def schedule_job_def exited_def intro!: exI [of _ "ws @ [j]"] exI [of _ 0])
next
  case (shut p js rs)
  then have "pool_size p = n" using accounted_run accounted_def by blast
  with shut.IH show ?case by (auto simp: queue_ok_def shutdown_eq exited_def)
next
  case (stepped p js rs b i p')
  then show ?case using queue_ok_step by blast
qed

text \<open>The work that is left: every step of a thread does some of it.\<close>

definition work_left :: "'j pool \<Rightarrow> nat" where
  "work_left p = 3 * length (queue p) + sum_list (List.map (\<lambda>t. case t of Working _ \<Rightarrow> 2 | Done \<Rightarrow> 1 | _ \<Rightarrow> 0) (threads p))"

lemma sum_list_map_update:
  fixes f :: "'a \<Rightarrow> 'b :: comm_monoid_add"
  shows "i < length xs \<Longrightarrow> sum_list (List.map f (xs[i := x])) + f (xs ! i) = sum_list (List.map f xs) + f x"
proof (induction xs arbitrary: i)
  case (Cons y ys)
  then show ?case by (cases i) (simp_all add: ac_simps)
qed simp

lemma work_left_step:
  assumes "thread_step i p = Some p'"
  shows "work_left p' < work_left p"
proof -
  have i: "i < length (threads p)" using assms by (simp add: thread_step_def split: if_splits)
  note up = sum_list_map_update [OF i, where f = "\<lambda>t. case t of Working _ \<Rightarrow> (2 :: nat) | Done \<Rightarrow> 1 | _ \<Rightarrow> 0"]
  show ?thesis
    using assms i up [of Idle] up [of Done] up [of Exited] up [of "Working _"]
    by (auto simp: thread_step_def work_left_def split: thread.splits list.splits job.splits)
qed

lemma at_rest:
  assumes rest: "\<forall>i. thread_step i p = None" and i: "i < length (threads p)"
  shows "threads p ! i = Exited \<or> threads p ! i = Idle \<and> queue p = []"
  using spec [OF rest, of i] i by (auto simp: thread_step_def split: thread.splits list.splits job.splits)

section \<open>Properties\<close>

text \<open>
  The counter of available threads never exceeds the size, and when the
  poller gets past the wait, more threads are idle than there are jobs on the queue, so
  that the job it schedules next does not wait for another job to end.
\<close>

theorem pool_availability:
  assumes "pool_run n p js rs b"
  shows "available_threads p \<le> int n \<and> (may_proceed p \<longrightarrow> length (queue p) < idle p)"
  using accounted_run [OF assms] thread_counts [of p] by (auto simp: accounted_def may_proceed_def)

theorem pool_availability_witness:
  "length (queue (schedule_job (Job (7 :: nat)) (ThreadPool_new 2))) < idle (schedule_job (Job (7 :: nat)) (ThreadPool_new 2))"
proof -
  have "pool_run 2 (schedule_job (Job (7 :: nat)) (ThreadPool_new 2)) ([] @ [7]) [] False"
    by (intro pool_run.intros)
  from pool_availability [OF this] show ?thesis
    by (simp add: may_proceed_def schedule_job_def ThreadPool_new_def)
qed

text \<open>
  C35: after a shutdown the threads come to rest, since every step leaves
  less work; at rest all of them have left their loops, the queue is empty, and the
  scheduled jobs were started once each, in the order they were scheduled. So the joins of
  \<open>shutdown\<close> return, and no job is lost.
\<close>

theorem pool_shutdown_drains:
  assumes "pool_run n p js rs True" and "0 < n"
  shows "(\<forall>i p'. thread_step i p = Some p' \<longrightarrow> work_left p' < work_left p) \<and>
    ((\<forall>i. thread_step i p = None) \<longrightarrow> set (threads p) = {Exited} \<and> queue p = [] \<and> rs = js)"
proof (intro conjI allI impI work_left_step)
  assume rest: "\<forall>i. thread_step i p = None"
  have len: "length (threads p) = n" using accounted_run [OF assms(1)] by (simp add: accounted_def)
  obtain ws k where q: "queue p = List.map Job ws @ replicate k Exit" "js = rs @ ws"
    "k + exited p = n" "0 < exited p \<longrightarrow> ws = []"
    using queue_ok_run [OF assms(1)] by (auto simp: queue_ok_def)
  have all: "\<forall>t\<in>set (threads p). t = Exited"
  proof (rule ccontr)
    assume "\<not> ?thesis"
    then obtain i where i: "i < length (threads p)" "threads p ! i \<noteq> Exited" by (auto simp: in_set_conv_nth)
    then have "queue p = []" using at_rest [OF rest] by blast
    with q have "exited p = length (threads p)" by (simp add: len)
    moreover have "exited p < length (threads p)"
      unfolding exited_def using i by (intro length_filter_less [of "threads p ! i"]) simp_all
    ultimately show False by simp
  qed
  then have "threads p = replicate n Exited" and "exited p = n"
    using len by (auto simp: exited_def intro: replicate_eqI)
  with q assms(2) show "set (threads p) = {Exited}" "queue p = []" "rs = js" by auto
qed

theorem pool_shutdown_drains_witness:
  "\<exists>p. pool_run 1 p [7 :: nat] [7] True \<and> (\<forall>i. thread_step i p = None) \<and> set (threads p) = {Exited}"
proof -
  let ?p0 = "schedule_job (Job (7 :: nat)) (ThreadPool_new 1)"
  let ?p1 = "shutdown ?p0"
  let ?p = "\<lparr>pool_size = 1, queue = [], available_threads = 0, threads = [Exited]\<rparr> :: nat pool"
  have "pool_run 1 ?p1 ([] @ [7]) [] True" by (intro pool_run.intros)
  moreover have "\<exists>p1 p2 p3. thread_step 0 ?p1 = Some p1 \<and> started_job 0 ?p1 = [7] \<and>
      thread_step 0 p1 = Some p2 \<and> started_job 0 p1 = [] \<and> thread_step 0 p2 = Some p3 \<and> started_job 0 p2 = [] \<and>
      thread_step 0 p3 = Some ?p \<and> started_job 0 p3 = []"
    by (simp add: shutdown_def schedule_job_def ThreadPool_new_def thread_step_def started_job_def)
  ultimately have run: "pool_run 1 ?p [7] [7] True"
    by (metis append.right_neutral append_Nil pool_run.stepped)
  have rest: "\<forall>i. thread_step i ?p = None" by (simp add: thread_step_def)
  have "set (threads ?p) = {Exited}" using pool_shutdown_drains [OF run zero_less_one] rest by blast
  with run rest show ?thesis by blast
qed

end
