(* ===== verification/Pollers.thy ===== *)
theory Pollers
  imports RubyValues ThreadPool
begin

text \<open>
  The pollers (lib/cadence/workflow/poller.rb, lib/cadence/activity/poller.rb), whose loops are
  the same: the thread of the loop, the thread pool it hands tasks to, and the thread that
  stops the poller and waits for it. A task is of type \<open>'j\<close>; the block that the loop schedules
  for it runs \<open>process(task)\<close> (theory \<open>Processing\<close>). Logging and metrics are left out.
\<close>

section \<open>The loop\<close>

text \<open>
  Where the thread of the loop is: before \<open>wait_for_available_threads\<close> returns, before it
  reads the flag, in the request of a task, with a task it schedules next; it has returned;
  and how far the thread that waits for it is.
\<close>

datatype 'j position =
    Waiting | Checking | Polling | Scheduling 'j | Stopped | Draining | Finished

record 'j poller =
  thread_pool :: "'j pool"
  shutting_down :: bool
  position :: "'j position"

text \<open>\<open>new\<close> and \<open>start\<close>; the pool has the size of the options.\<close>

definition Poller_start :: "nat \<Rightarrow> 'j poller" where
  "Poller_start n = \<lparr>thread_pool = ThreadPool_new n, shutting_down = False, position = Waiting\<rparr>"

text \<open>
  \<open>poll_for_task\<close> rescues an error, and then as after an empty answer, or one for no
  workflow (or activity), the loop goes on: \<open>named\<close> is the test of \<open>workflowType\<close> or \<open>activityId\<close>.
\<close>

definition polled_task :: "('j \<Rightarrow> bool) \<Rightarrow> rb_error + 'j option \<Rightarrow> 'j option" where
  "polled_task named answer =
     (case answer of
        Inl _ \<Rightarrow> None
      | Inr None \<Rightarrow> None
      | Inr (Some task) \<Rightarrow> (if named task then Some task else None))"

text \<open>One step of the loop; \<open>answer\<close> is that of the service, if it polls.\<close>

definition loop_step :: "('j \<Rightarrow> bool) \<Rightarrow> rb_error + 'j option \<Rightarrow> 'j poller \<Rightarrow> 'j poller option" where
  "loop_step named answer p =
     (case position p of
        Waiting \<Rightarrow> if may_proceed (thread_pool p) then Some (p\<lparr>position := Checking\<rparr>) else None
      | Checking \<Rightarrow> Some (p\<lparr>position := if shutting_down p then Stopped else Polling\<rparr>)
      | Polling \<Rightarrow>
          (case polled_task named answer of
             None \<Rightarrow> Some (p\<lparr>position := Waiting\<rparr>)
           | Some task \<Rightarrow> Some (p\<lparr>position := Scheduling task\<rparr>))
      | Scheduling task \<Rightarrow>
          Some (p\<lparr>thread_pool := schedule_job (Job task) (thread_pool p), position := Waiting\<rparr>)
      | _ \<Rightarrow> None)"

definition stop :: "'j poller \<Rightarrow> 'j poller" where
  "stop p = p\<lparr>shutting_down := True\<rparr>"

text \<open>\<open>wait\<close>: join the thread of the loop, shut the pool down, join its threads.\<close>

definition wait_step :: "'j poller \<Rightarrow> 'j poller option" where
  "wait_step p =
     (case position p of
        Stopped \<Rightarrow> Some (p\<lparr>thread_pool := shutdown (thread_pool p), position := Draining\<rparr>)
      | Draining \<Rightarrow>
          if list_all (\<lambda>t. t = Exited) (threads (thread_pool p))
          then Some (p\<lparr>position := Finished\<rparr>) else None
      | _ \<Rightarrow> None)"

definition pool_step :: "nat \<Rightarrow> 'j poller \<Rightarrow> 'j poller option" where
  "pool_step i p = map_option (\<lambda>q. p\<lparr>thread_pool := q\<rparr>) (thread_step i (thread_pool p))"

text \<open>What the threads of a poller do, in any order.\<close>

datatype 'j poller_event =
    LoopStep "rb_error + 'j option" | StopCall | WaitStep | PoolStep nat

fun poller_step :: "('j \<Rightarrow> bool) \<Rightarrow> 'j poller_event \<Rightarrow> 'j poller \<Rightarrow> 'j poller option" where
  "poller_step named (LoopStep answer) p = loop_step named answer p"
| "poller_step named StopCall p = Some (stop p)"
| "poller_step named WaitStep p = wait_step p"
| "poller_step named (PoolStep i) p = pool_step i p"

inductive poller_run :: "('j \<Rightarrow> bool) \<Rightarrow> nat \<Rightarrow> 'j poller \<Rightarrow> bool" for named n where
  started: "poller_run named n (Poller_start n)"
| stepped: "poller_run named n p \<Longrightarrow> poller_step named ev p = Some p' \<Longrightarrow> poller_run named n p'"

section \<open>What a poller promises\<close>

text \<open>
  The abstract service: it takes tasks while it is open, no more of them at a time than it
  has workers, starts them in the order it took them, and closes.
\<close>

record 'j service =
  open_for_tasks :: bool
  pending :: "'j list"
  in_progress :: "'j multiset"

inductive service_step :: "nat \<Rightarrow> 'j service \<Rightarrow> 'j service \<Rightarrow> bool" for n where
  take_task: "open_for_tasks s \<Longrightarrow> length (pending s) + size (in_progress s) < n \<Longrightarrow>
    service_step n s (s\<lparr>pending := pending s @ [j]\<rparr>)"
| start_task: "pending s = j # js \<Longrightarrow>
    service_step n s (s\<lparr>pending := js, in_progress := add_mset j (in_progress s)\<rparr>)"
| end_task: "j \<in># in_progress s \<Longrightarrow> service_step n s (s\<lparr>in_progress := in_progress s - {#j#}\<rparr>)"
| close: "service_step n s (s\<lparr>open_for_tasks := False\<rparr>)"

text \<open>The abstraction: the blocks on the queue, and those the threads run.\<close>

fun job_tasks :: "'j job \<Rightarrow> 'j list" where
  "job_tasks (Job j) = [j]"
| "job_tasks Exit = []"

fun thread_task :: "'j thread \<Rightarrow> 'j multiset" where
  "thread_task (Working j) = {#j#}"
| "thread_task _ = {#}"

fun loop_ended :: "'j position \<Rightarrow> bool" where
  "loop_ended Stopped = True"
| "loop_ended Draining = True"
| "loop_ended Finished = True"
| "loop_ended _ = False"

definition service_of :: "'j poller \<Rightarrow> 'j service" where
  "service_of p = \<lparr>open_for_tasks = (\<not> loop_ended (position p)),
     pending = concat (List.map job_tasks (queue (thread_pool p))),
     in_progress = sum_list (List.map thread_task (threads (thread_pool p)))\<rparr>"

section \<open>Invariants\<close>

lemma thread_step_available: "thread_step i p = Some p' \<Longrightarrow> may_proceed p \<Longrightarrow> may_proceed p'"
  by (auto simp: thread_step_def may_proceed_def split: if_splits thread.splits list.splits job.splits)

definition pool_lives :: "nat \<Rightarrow> 'j pool \<Rightarrow> bool \<Rightarrow> bool" where
  "pool_lives n q b \<longleftrightarrow> (\<exists>js rs. pool_run n q js rs b)"

lemma pool_lives:
  "pool_lives n (ThreadPool_new n) False"
  "pool_lives n q False \<Longrightarrow> pool_lives n (schedule_job (Job j) q) False"
  "pool_lives n q False \<Longrightarrow> pool_lives n (shutdown q) True"
  "pool_lives n q b \<Longrightarrow> thread_step i q = Some q' \<Longrightarrow> pool_lives n q' b"
  by (auto simp: pool_lives_def intro: pool_run.intros)

lemma pool_lives_ok: "pool_lives n q b \<Longrightarrow> accounted n q \<and> (\<exists>js rs. queue_ok n q js rs b)"
  by (auto simp: pool_lives_def intro: accounted_run queue_ok_run)

text \<open>The pool of a poller goes through a life of a pool, shut down only after the loop.\<close>

definition poller_ok :: "nat \<Rightarrow> 'j poller \<Rightarrow> bool" where
  "poller_ok n p \<longleftrightarrow>
     pool_lives n (thread_pool p) (position p = Draining \<or> position p = Finished) \<and>
     (position p = Finished \<longrightarrow> set (threads (thread_pool p)) \<subseteq> {Exited}) \<and>
     (case position p of Checking \<Rightarrow> may_proceed (thread_pool p) | Polling \<Rightarrow> may_proceed (thread_pool p)
      | Scheduling _ \<Rightarrow> may_proceed (thread_pool p) | _ \<Rightarrow> True)"

lemma poller_ok_step:
  assumes "poller_step named ev p = Some p'" and "poller_ok n p"
  shows "poller_ok n p'"
  using assms
proof (cases ev)
  case (LoopStep answer)
  with assms show ?thesis
    by (auto simp: loop_step_def poller_ok_def split: position.splits if_splits option.splits
        intro: pool_lives)
next
  case WaitStep
  with assms show ?thesis
    by (auto simp: wait_step_def poller_ok_def list_all_iff split: position.splits if_splits thread.splits
        intro: pool_lives)
next
  case (PoolStep i)
  with assms obtain q where q: "thread_step i (thread_pool p) = Some q" "p' = p\<lparr>thread_pool := q\<rparr>"
    by (auto simp: pool_step_def)
  moreover have "position p \<noteq> Finished"
    using q(1) assms(2) by (auto simp: poller_ok_def thread_step_def split: if_splits thread.splits dest!: nth_mem)
  ultimately show ?thesis
    using assms(2) thread_step_available [OF q(1)]
    by (auto simp: poller_ok_def split: position.splits intro: pool_lives(4))
qed (auto simp: stop_def poller_ok_def split: position.splits)

lemma poller_run_ok: "poller_run named n p \<Longrightarrow> poller_ok n p"
proof (induction rule: poller_run.induct)
  case started
  then show ?case by (simp add: poller_ok_def Poller_start_def pool_lives)
next
  case (stepped p ev p')
  then show ?case using poller_ok_step by blast
qed

section \<open>Refinement\<close>

lemma in_progress_bound: "size (sum_list (List.map thread_task ts)) \<le> length (filter (\<lambda>t. t \<noteq> Idle \<and> t \<noteq> Exited) ts)"
proof (induction ts)
  case (Cons t ts)
  then show ?case by (cases t) simp_all
qed simp

lemma pending_bound: "length (concat (List.map job_tasks js)) \<le> length js"
proof (induction js)
  case (Cons j js)
  then show ?case by (cases j) simp_all
qed simp

text \<open>Past the wait there is room for a task.\<close>

lemma room_for_a_task:
  assumes "accounted n p" and "may_proceed p"
  shows "length (concat (List.map job_tasks (queue p))) + size (sum_list (List.map thread_task (threads p))) < n"
  using assms in_progress_bound [of "threads p"] pending_bound [of "queue p"]
  by (auto simp: accounted_def may_proceed_def busy_def)

lemma pool_step_refines:
  assumes step: "thread_step i (thread_pool p) = Some q"
  shows "service_of (p\<lparr>thread_pool := q\<rparr>) = service_of p \<or>
    service_step n (service_of p) (service_of (p\<lparr>thread_pool := q\<rparr>))"
proof -
  let ?ts = "threads (thread_pool p)" and ?js = "queue (thread_pool p)"
  let ?run = "\<lambda>ts. sum_list (List.map thread_task ts)"
  have i: "i < length ?ts" using step by (simp add: thread_step_def split: if_splits)
  note up = sum_list_map_update [OF i, where f = thread_task]
  show ?thesis
  proof (cases "?ts ! i")
    case Idle
    show ?thesis
    proof (cases "?js")
      case (Cons job js)
      show ?thesis
      proof (cases job)
        case (Job j)
        have "service_of (p\<lparr>thread_pool := q\<rparr>) =
            (service_of p)\<lparr>pending := concat (List.map job_tasks js), in_progress := add_mset j (in_progress (service_of p))\<rparr>"
          using step i Idle Cons Job up [of "Working j"] by (auto simp: thread_step_def service_of_def)
        moreover have "pending (service_of p) = j # concat (List.map job_tasks js)"
          using Cons Job by (simp add: service_of_def)
        ultimately show ?thesis by (simp add: service_step.start_task)
      next
        case Exit
        then show ?thesis
          using step i Idle Cons up [of Exited] by (auto simp: thread_step_def service_of_def)
      qed
    qed (use step i Idle in \<open>simp add: thread_step_def\<close>)
  next
    case (Working j)
    have eq: "add_mset j (?run (?ts[i := Done])) = ?run ?ts" using up [of Done] Working by simp
    have "service_of (p\<lparr>thread_pool := q\<rparr>) = (service_of p)\<lparr>in_progress := in_progress (service_of p) - {#j#}\<rparr>"
      using step i Working by (auto simp: thread_step_def service_of_def simp flip: eq)
    moreover have "j \<in># in_progress (service_of p)" by (simp add: service_of_def flip: eq)
    ultimately show ?thesis by (simp add: service_step.end_task)
  next
    case Done
    then show ?thesis using step i up [of Idle] by (auto simp: thread_step_def service_of_def)
  qed (use step i in \<open>simp add: thread_step_def\<close>)
qed

lemma loop_step_refines:
  assumes step: "loop_step named answer p = Some p'" and ok: "poller_ok n p"
  shows "service_of p' = service_of p \<or> service_step n (service_of p) (service_of p')"
proof (cases "position p")
  case Checking
  then have "service_of p' = service_of p \<or> service_of p' = (service_of p)\<lparr>open_for_tasks := False\<rparr>"
    using step by (auto simp: loop_step_def service_of_def)
  then show ?thesis using service_step.close [of n "service_of p"] by auto
next
  case (Scheduling task)
  have "accounted n (thread_pool p)" "may_proceed (thread_pool p)"
    using ok Scheduling by (auto simp: poller_ok_def dest: pool_lives_ok)
  from room_for_a_task [OF this] have "service_step n (service_of p) ((service_of p)\<lparr>pending := pending (service_of p) @ [task]\<rparr>)"
    using Scheduling by (intro service_step.take_task) (simp_all add: service_of_def)
  moreover have "service_of p' = (service_of p)\<lparr>pending := pending (service_of p) @ [task]\<rparr>"
    using step Scheduling by (auto simp: loop_step_def service_of_def schedule_job_def)
  ultimately show ?thesis by simp
qed (use step in \<open>auto simp: loop_step_def service_of_def split: if_splits option.splits\<close>)

text \<open>When the poller has ended, nothing is left to do.\<close>

lemma finished_poller:
  assumes "poller_ok n p" and "position p = Finished" and "0 < n"
  shows "service_of p = \<lparr>open_for_tasks = False, pending = [], in_progress = {#}\<rparr>"
proof -
  have ok: "accounted n (thread_pool p)" "\<exists>js rs. queue_ok n (thread_pool p) js rs True"
    using assms(1,2) by (auto simp: poller_ok_def dest: pool_lives_ok)
  have exits: "\<forall>t\<in>set (threads (thread_pool p)). t = Exited" using assms(1,2) by (auto simp: poller_ok_def)
  then have "exited (thread_pool p) = n" using ok(1) by (simp add: accounted_def exited_def)
  with ok(2) assms(3) have "queue (thread_pool p) = []" by (auto simp: queue_ok_def)
  moreover have "sum_list (List.map thread_task ts) = {#}" if "\<forall>t\<in>set ts. t = Exited" for ts :: "'a thread list"
    using that by (induction ts) auto
  ultimately show ?thesis using assms(2) exits by (simp add: service_of_def)
qed

section \<open>Properties\<close>

text \<open>
  C14: whatever its threads do, a poller implements the abstract service: it takes a task
  only while it is open and fewer tasks than its pool has threads are pending or in progress,
  starts them in the order it took them, and after it closed and its \<open>wait\<close> returned, none is
  left.
\<close>

theorem poller_refines_service:
  assumes "poller_run named n p" and "poller_step named ev p = Some p'" and "0 < n"
  shows "(service_of p' = service_of p \<or> service_step n (service_of p) (service_of p')) \<and>
    (position p' = Finished \<longrightarrow> service_of p' = \<lparr>open_for_tasks = False, pending = [], in_progress = {#}\<rparr>)"
proof (intro conjI impI)
  have ok: "poller_ok n p" by (rule poller_run_ok [OF assms(1)])
  show "service_of p' = service_of p \<or> service_step n (service_of p) (service_of p')"
  proof (cases ev)
    case (LoopStep answer)
    with assms(2) ok show ?thesis by (auto dest: loop_step_refines)
  next
    case StopCall
    with assms(2) show ?thesis by (auto simp: stop_def service_of_def)
  next
    case WaitStep
    with assms(2) show ?thesis
      by (auto simp: wait_step_def service_of_def shutdown_eq split: position.splits if_splits)
  next
    case (PoolStep i)
    with assms(2) show ?thesis by (auto simp: pool_step_def dest: pool_step_refines)
  qed
  show "service_of p' = \<lparr>open_for_tasks = False, pending = [], in_progress = {#}\<rparr>" if "position p' = Finished"
    by (rule finished_poller [OF poller_ok_step [OF assms(2) ok] that assms(3)])
qed

text \<open>A poller with one thread that polled a task takes it.\<close>

theorem poller_refines_service_witness:
  "service_step 1 \<lparr>open_for_tasks = True, pending = [], in_progress = {#}\<rparr>
     \<lparr>open_for_tasks = True, pending = [7 :: nat], in_progress = {#}\<rparr>"
proof -
  let ?named = "\<lambda>_ :: nat. True" and ?task = "LoopStep (Inr (Some 7))"
  let ?p = "(Poller_start 1)\<lparr>position := Scheduling (7 :: nat)\<rparr>"
  let ?p' = "?p\<lparr>thread_pool := schedule_job (Job 7) (ThreadPool_new 1), position := Waiting\<rparr>"
  have "poller_step ?named ?task (Poller_start 1) = Some ((Poller_start 1)\<lparr>position := Checking\<rparr>)"
    "poller_step ?named ?task ((Poller_start 1)\<lparr>position := Checking\<rparr>) = Some ((Poller_start 1)\<lparr>position := Polling\<rparr>)"
    "poller_step ?named ?task ((Poller_start 1)\<lparr>position := Polling\<rparr>) = Some ?p"
    by (simp_all add: loop_step_def Poller_start_def polled_task_def may_proceed_def ThreadPool_new_def)
  then have run: "poller_run ?named 1 ?p" by (meson poller_run.intros)
  have "poller_step ?named ?task ?p = Some ?p'" by (simp add: loop_step_def Poller_start_def)
  from poller_refines_service [OF run this] show ?thesis
    by (simp add: service_of_def Poller_start_def schedule_job_def ThreadPool_new_def)
qed

end
