(* ===== verification/Tokens.thy ===== *)
theory Tokens
  imports RubyValues Base64
begin

text \<open>
  The identifiers the library hands out: the token of an asynchronous activity
  (lib/cadence/activity/async_token.rb) and the UUID of version 5 of an activity's idempotency
  key (lib/cadence/uuid.rb). Base64 and \<open>String#unpack\<close> are those of Ruby's standard library;
  the SHA-1 digest is a parameter. A string is a list of bytes.
\<close>

section \<open>Base64\<close>

definition urlsafe_encode64 :: "string \<Rightarrow> string" where
  "urlsafe_encode64 s = encode64 url_alphabet (List.map of_char s)"

text \<open>Missing padding is added first. \<open>None\<close> is the \<open>ArgumentError\<close> of the library.\<close>

definition urlsafe_decode64 :: "string \<Rightarrow> string option" where
  "urlsafe_decode64 s =
     (let s = (if (s = [] \<or> last s \<noteq> CHR ''='') \<and> length s mod 4 \<noteq> 0
               then s @ replicate (4 - length s mod 4) (CHR ''='') else s)
      in map_option (List.map char_of) (decode64 s))"

lemma urlsafe_decode_encode [simp]: "urlsafe_decode64 (urlsafe_encode64 s) = Some s"
proof -
  have "\<forall>b\<in>set (List.map of_char s). b < (256 :: nat)" by (auto simp: nat_of_char_less_256)
  then show ?thesis
    by (simp add: urlsafe_decode64_def urlsafe_encode64_def length_encode64 decode_encode64 comp_def)
qed

section \<open>AsyncToken\<close>

definition SEPARATOR :: char where "SEPARATOR = CHR ''|''"

definition AsyncToken_to_s :: "string \<Rightarrow> string \<Rightarrow> string \<Rightarrow> string \<Rightarrow> string" where
  "AsyncToken_to_s domain activity_id workflow_id run_id =
     urlsafe_encode64 (domain @ SEPARATOR # activity_id @ SEPARATOR # workflow_id @ SEPARATOR # run_id)"

text \<open>The parts that are missing are \<open>nil\<close>, those beyond the fourth are dropped.\<close>

definition part :: "string list \<Rightarrow> nat \<Rightarrow> string option" where
  "part parts n = (if n < length parts then Some (parts ! n) else None)"

definition AsyncToken_decode ::
  "string \<Rightarrow> (string option \<times> string option \<times> string option \<times> string option) option" where
  "AsyncToken_decode token =
     map_option (\<lambda>s. let parts = rb_split SEPARATOR s in (part parts 0, part parts 1, part parts 2, part parts 3))
       (urlsafe_decode64 token)"

lemma split_on_parts: "w \<in> set (split_on sep s) \<Longrightarrow> sep \<notin> set w"
proof (induction s arbitrary: w)
  case (Cons c cs)
  show ?case
  proof (cases "c = sep")
    case False
    obtain v vs where "split_on sep cs = v # vs" by (cases "split_on sep cs") auto
    with Cons False show ?thesis by auto
  qed (use Cons in auto)
qed simp

lemma rb_split_parts: "w \<in> set (rb_split sep s) \<Longrightarrow> sep \<notin> set w"
  by (metis rb_split_def set_dropWhileD set_rev split_on_parts)

lemma part_in: "part ps n = Some w \<Longrightarrow> w \<in> set ps"
  by (auto simp: part_def split: if_splits)

text \<open>
  C37: a token gives back the four identifiers it was made of exactly
  when none of them has a bar in it and the run id is not empty.
\<close>

theorem async_token_roundtrip:
  "AsyncToken_decode (AsyncToken_to_s domain activity_id workflow_id run_id) =
     Some (Some domain, Some activity_id, Some workflow_id, Some run_id) \<longleftrightarrow>
   SEPARATOR \<notin> set domain \<union> set activity_id \<union> set workflow_id \<union> set run_id \<and> run_id \<noteq> []"
  (is "?decoded \<longleftrightarrow> ?plain \<and> _")
proof
  let ?s = "domain @ SEPARATOR # activity_id @ SEPARATOR # workflow_id @ SEPARATOR # run_id"
  let ?parts = "rb_split SEPARATOR ?s"
  have split: "rb_split SEPARATOR ?s = rev (dropWhile (\<lambda>w. w = []) [run_id, workflow_id, activity_id, domain])"
    if ?plain
    using that by (simp add: rb_split_def split_on_line split_on_plain)
  {
    assume ?decoded
    then have parts: "part ?parts 0 = Some domain" "part ?parts 1 = Some activity_id"
      "part ?parts 2 = Some workflow_id" "part ?parts 3 = Some run_id"
      by (simp_all add: AsyncToken_decode_def AsyncToken_to_s_def Let_def)
    then have "{domain, activity_id, workflow_id, run_id} \<subseteq> set ?parts"
      using part_in by fast
    then have plain: ?plain using rb_split_parts by blast
    moreover have "run_id \<noteq> []"
    proof
      assume "run_id = []"
      then have "length ?parts < 4" using split [OF plain] length_dropWhile_le [of "\<lambda>w. w = []" "[workflow_id, activity_id, domain]"] by simp
      with parts(4) show False by (simp add: part_def split: if_splits)
    qed
    ultimately show "?plain \<and> run_id \<noteq> []" by blast
  }
  assume "?plain \<and> run_id \<noteq> []"
  then show ?decoded
    using split by (simp add: AsyncToken_decode_def AsyncToken_to_s_def part_def)
qed

section \<open>UUID\<close>

text \<open>\<open>unpack("NnnnnN")\<close>: big-endian words, the first and the last of 32 bits.\<close>

definition be_nat :: "string \<Rightarrow> nat" where
  "be_nat cs = foldl (\<lambda>n c. 256 * n + of_char c) 0 cs"

definition unpack_N :: "string \<Rightarrow> 32 word" where "unpack_N cs = of_nat (be_nat (take 4 cs))"
definition unpack_n :: "string \<Rightarrow> 16 word" where "unpack_n cs = of_nat (be_nat (take 2 cs))"

text \<open>\<open>%0wx\<close>, for a number of at most \<open>w\<close> hexadecimal digits.\<close>

definition hex_digit :: "nat \<Rightarrow> char" where
  "hex_digit n = ''0123456789abcdef'' ! n"

fun hex :: "nat \<Rightarrow> nat \<Rightarrow> string" where
  "hex 0 n = []"
| "hex (Suc w) n = hex w (n div 16) @ [hex_digit (n mod 16)]"

unbundle bit_operations_syntax

definition version_bits :: "16 word \<Rightarrow> 16 word" where
  "version_bits w = (w AND 0x0FFF) OR push_bit 12 5"

definition variant_bits :: "16 word \<Rightarrow> 16 word" where
  "variant_bits w = (w AND 0x3FFF) OR 0x8000"

definition UUID_v5 :: "(string \<Rightarrow> string) \<Rightarrow> string \<Rightarrow> string \<Rightarrow> string" where
  "UUID_v5 sha1 uuid_namespace name =
     (let digest = sha1 (uuid_namespace @ name);
          a0 = unpack_N digest; a1 = unpack_n (drop 4 digest);
          a2 = version_bits (unpack_n (drop 6 digest)); a3 = variant_bits (unpack_n (drop 8 digest));
          a4 = unpack_n (drop 10 digest); a5 = unpack_N (drop 12 digest)
      in hex 8 (unat a0) @ ''-'' @ hex 4 (unat a1) @ ''-'' @ hex 4 (unat a2) @ ''-'' @
         hex 4 (unat a3) @ ''-'' @ hex 4 (unat a4) @ hex 8 (unat a5))"

lemma unat_version_bits: "unat (version_bits w) = unat w mod 4096 + 20480"
proof -
  have "(w AND 0x0FFF) AND push_bit 12 5 = 0"
    by (simp add: push_bit_eq_mult and.assoc)
  then have v: "version_bits w = (w AND 0x0FFF) + 20480"
    by (simp add: version_bits_def disjunctive_add_eq_or push_bit_eq_mult)
  have "w AND 0x0FFF = take_bit 12 w" by (simp add: take_bit_eq_mask mask_eq_exp_minus_1)
  then have "unat (w AND 0x0FFF) = unat w mod 4096" by (simp add: unsigned_take_bit_eq take_bit_eq_mod unat_mod)
  then show ?thesis by (simp add: v unat_word_ariths)
qed

lemma unat_variant_bits: "unat (variant_bits w) = unat w mod 16384 + 32768"
proof -
  have "(w AND 0x3FFF) AND 0x8000 = 0" by (simp add: and.assoc)
  then have v: "variant_bits w = (w AND 0x3FFF) + 32768"
    by (simp add: variant_bits_def disjunctive_add_eq_or)
  have "w AND 0x3FFF = take_bit 14 w" by (simp add: take_bit_eq_mask mask_eq_exp_minus_1)
  then have "unat (w AND 0x3FFF) = unat w mod 16384" by (simp add: unsigned_take_bit_eq take_bit_eq_mod unat_mod)
  then show ?thesis by (simp add: v unat_word_ariths)
qed

lemma length_hex [simp]: "length (hex w n) = w"
  by (induction w arbitrary: n) simp_all

lemma hex_add: "hex (v + w) n = hex v (n div 16 ^ w) @ hex w n"
  by (induction w arbitrary: n) (simp_all add: div_mult2_eq)

text \<open>The hexadecimal digits of a string, two to a byte.\<close>

definition hex_bytes :: "string \<Rightarrow> string" where
  "hex_bytes cs = concat (List.map (\<lambda>c. hex 2 (of_char c)) cs)"

lemma hex_mod: "hex w (n mod 16 ^ w) = hex w n"
proof (induction w arbitrary: n)
  case (Suc w)
  have "n mod 16 ^ Suc w div 16 = (n div 16) mod 16 ^ w" by (simp add: mod_mult2_eq)
  moreover have "n mod 16 ^ Suc w mod 16 = n mod 16" by (simp add: mod_mod_cancel)
  ultimately show ?case using Suc [of "n div 16"] by simp
qed simp

lemma be_nat_snoc: "be_nat (cs @ [c]) = 256 * be_nat cs + of_char c"
  by (simp add: be_nat_def)

lemma hex_be_nat: "hex (2 * length cs) (be_nat cs) = hex_bytes cs"
proof (induction cs rule: rev_induct)
  case (snoc c cs)
  have c: "(of_char c :: nat) < 256" by (rule nat_of_char_less_256)
  have "hex (2 * length cs + 2) (be_nat (cs @ [c])) = hex (2 * length cs) (be_nat cs) @ hex 2 (be_nat (cs @ [c]))"
    using c hex_add [of "2 * length cs" 2 "be_nat (cs @ [c])"] by (simp add: be_nat_snoc del: hex.simps)
  moreover have "hex 2 (be_nat (cs @ [c])) = hex 2 (of_char c)"
    using hex_mod [of 2 "be_nat (cs @ [c])"] c by (simp add: be_nat_snoc)
  ultimately show ?case using snoc by (simp add: hex_bytes_def del: hex.simps)
qed (simp add: hex_bytes_def be_nat_def)

lemma be_nat_less: "be_nat cs < 256 ^ length cs"
proof (induction cs rule: rev_induct)
  case (snoc c cs)
  have "256 * be_nat cs + of_char c < 256 * 256 ^ length cs"
    using snoc nat_of_char_less_256 [of c] by linarith
  then show ?case by (simp add: be_nat_snoc)
qed (simp add: be_nat_def)

lemma unat_unpack_N: "4 \<le> length cs \<Longrightarrow> unat (unpack_N cs) = be_nat (take 4 cs)"
  using be_nat_less [of "take 4 cs"] by (simp add: unpack_N_def unat_of_nat min_absorb2)

lemma unat_unpack_n: "2 \<le> length cs \<Longrightarrow> unat (unpack_n cs) = be_nat (take 2 cs)"
  using be_nat_less [of "take 2 cs"] by (simp add: unpack_n_def unat_of_nat min_absorb2)

text \<open>The hexadecimal digits of the words of a digest.\<close>

lemma hex_words:
  "4 \<le> length cs \<Longrightarrow> hex 8 (unat (unpack_N cs)) = hex_bytes (take 4 cs)"
  "2 \<le> length cs \<Longrightarrow> hex 4 (unat (unpack_n cs)) = hex_bytes (take 2 cs)"
  using hex_be_nat [of "take 4 cs"] hex_be_nat [of "take 2 cs"]
  by (simp_all add: unat_unpack_N unat_unpack_n min_absorb2 del: hex.simps)

lemma hex_4: "hex 4 (n mod 4096 + 4096 * m) = hex_digit (m mod 16) # hex 3 n"
proof -
  have "hex 4 (n mod 4096 + 4096 * m) = hex 1 m @ hex 3 (n mod 4096 + 4096 * m)"
    using hex_add [of 1 3 "n mod 4096 + 4096 * m"] by (simp del: hex.simps)
  moreover have "hex 3 (n mod 4096 + 4096 * m) = hex 3 n"
    using hex_mod [of 3 "n mod 4096 + 4096 * m"] hex_mod [of 3 n] by (simp del: hex.simps)
  ultimately show ?thesis by (simp add: One_nat_def)
qed

lemma hex_4_update: "n < 65536 \<Longrightarrow> hex 4 (n mod 4096 + 4096 * m) = (hex 4 n)[0 := hex_digit (m mod 16)]"
  using hex_4 [of n m] hex_4 [of n "n div 4096"] by (simp del: hex.simps)

lemma hex_version: "hex 4 (unat (version_bits w)) = (hex 4 (unat w))[0 := CHR ''5'']"
  using hex_4_update [of "unat w" 5] unsigned_less [of w]
  by (simp add: unat_version_bits hex_digit_def del: hex.simps)

lemma hex_variant:
  "hex 4 (unat (variant_bits w)) = (hex 4 (unat w))[0 := hex_digit (8 + unat w div 4096 mod 4)]"
proof -
  have "unat w mod 16384 = unat w mod 4096 + 4096 * (unat w div 4096 mod 4)"
    using mod_mult2_eq [of "unat w" 4096 4] by simp
  then have "unat w mod 16384 + 32768 = unat w mod 4096 + 4096 * (8 + unat w div 4096 mod 4)" by simp
  then show ?thesis
    using hex_4_update [of "unat w" "8 + unat w div 4096 mod 4"] unsigned_less [of w]
    by (simp only: unat_variant_bits) (simp del: hex.simps)
qed

lemma length_hex_bytes [simp]: "length (hex_bytes cs) = 2 * length cs"
  by (induction cs) (simp_all add: hex_bytes_def)

lemma hex_bytes_append: "hex_bytes (xs @ ys) = hex_bytes xs @ hex_bytes ys"
  by (simp add: hex_bytes_def)

text \<open>
  C40: the result is a UUID of version 5 and of the standard variant, in its usual
  form of five groups: its digits are those of the first sixteen bytes of the digest, but for
  the version digit and the two bits of the variant.
\<close>

theorem uuid_v5_layout:
  assumes "length (sha1 (uuid_namespace @ name)) = 20" and "digest = sha1 (uuid_namespace @ name)"
  shows "\<exists>g1 g2 g3 g4 g5. List.map length [g1, g2, g3, g4, g5] = [8, 4, 4, 4, 12] \<and>
    UUID_v5 sha1 uuid_namespace name = g1 @ ''-'' @ g2 @ ''-'' @ g3 @ ''-'' @ g4 @ ''-'' @ g5 \<and>
    g1 @ g2 @ g3 @ g4 @ g5 = (hex_bytes (take 16 digest))
      [12 := CHR ''5'', 16 := hex_digit (8 + of_char (digest ! 8) div 16 mod 4)]"
proof -
  let ?d = digest
  have len: "length ?d = 20" using assms by simp
  have "take 2 (drop 8 ?d) = [?d ! 8, ?d ! 9]" using len by (simp add: take_Suc_conv_app_nth numeral_2_eq_2)
  then have n: "unat (unpack_n (drop 8 ?d)) = 256 * of_char (?d ! 8) + of_char (?d ! 9)"
    using len by (simp add: unat_unpack_n be_nat_def)
  have v: "unat (unpack_n (drop 8 ?d)) div 4096 mod 4 = of_char (?d ! 8) div 16 mod 4"
    using nat_of_char_less_256 [of "?d ! 9"]
      div_mult2_eq [of "256 * of_char (?d ! 8) + of_char (?d ! 9)" 256 16] by (simp add: n)
  let ?g1 = "hex_bytes (take 4 ?d)" and ?g2 = "hex_bytes (take 2 (drop 4 ?d))"
    and ?g3 = "hex_bytes (take 2 (drop 6 ?d))" and ?g4 = "hex_bytes (take 2 (drop 8 ?d))"
    and ?g5 = "hex_bytes (take 2 (drop 10 ?d)) @ hex_bytes (take 4 (drop 12 ?d))"
  let ?h3 = "?g3[0 := CHR ''5'']" and ?h4 = "?g4[0 := hex_digit (8 + of_char (?d ! 8) div 16 mod 4)]"
  have "UUID_v5 sha1 uuid_namespace name = ?g1 @ ''-'' @ ?g2 @ ''-'' @ ?h3 @ ''-'' @ ?h4 @ ''-'' @ ?g5"
    using len v by (simp add: UUID_v5_def assms(2) [symmetric] hex_words hex_version hex_variant del: hex.simps)
  moreover have "take 16 ?d = take 4 ?d @ take 2 (drop 4 ?d) @ take 2 (drop 6 ?d) @ take 2 (drop 8 ?d) @
      take 2 (drop 10 ?d) @ take 4 (drop 12 ?d)"
    using take_add [of 4 12 ?d] take_add [of 2 10 "drop 4 ?d"] take_add [of 2 8 "drop 6 ?d"]
      take_add [of 2 6 "drop 8 ?d"] take_add [of 2 4 "drop 10 ?d"]
    by simp
  then have "hex_bytes (take 16 ?d) = ?g1 @ ?g2 @ ?g3 @ ?g4 @ ?g5"
    by (simp only: hex_bytes_append append.assoc)
  then have "?g1 @ ?g2 @ ?h3 @ ?h4 @ ?g5 = (hex_bytes (take 16 ?d))
      [12 := CHR ''5'', 16 := hex_digit (8 + of_char (?d ! 8) div 16 mod 4)]"
    using len by (simp add: list_update_append)
  moreover have "List.map length [?g1, ?g2, ?h3, ?h4, ?g5] = [8, 4, 4, 4, 12]" using len by simp
  ultimately show ?thesis
    by - (rule exI [of _ ?g1], rule exI [of _ ?g2], rule exI [of _ ?h3], rule exI [of _ ?h4],
      rule exI [of _ ?g5], intro conjI)
qed

theorem uuid_v5_layout_witness:
  "\<exists>g1 g2 g3 g4 g5. UUID_v5 (\<lambda>s. replicate 20 (CHR 0xFF)) ''run'' ''7'' =
     g1 @ ''-'' @ g2 @ ''-'' @ g3 @ ''-'' @ g4 @ ''-'' @ g5 \<and>
     g1 @ g2 @ g3 @ g4 @ g5 = ''ffffffffffff5fffbfffffffffffffff''"
proof -
  have digits: "(hex_bytes (take 16 (replicate 20 (CHR 0xFF))))
      [12 := CHR ''5'', 16 := hex_digit (8 + of_char (replicate 20 (CHR 0xFF) ! 8) div 16 mod 4)] =
      ''ffffffffffff5fffbfffffffffffffff''"
    by code_simp
  have "length ((\<lambda>s. replicate 20 (CHR 0xFF)) (''run'' @ ''7'')) = 20" by simp
  from uuid_v5_layout [OF this refl] show ?thesis unfolding digits by blast
qed

end
