(* ===== verification/Options.thy ===== *)
theory Options
  imports Executor
begin

text \<open>
  How calls are parametrised: \<open>RetryPolicy\<close> (lib/cadence/retry_policy.rb) with its checks,
  \<open>ExecutionOptions\<close> (lib/cadence/execution_options.rb) that merges the options of a call,
  those of the class it names and the defaults, and the choice of the event that
  \<open>Client#reset_workflow\<close> resets to (lib/cadence/client.rb).
\<close>

section \<open>RetryPolicy\<close>

record retry_policy_data =
  interval :: rval
  backoff :: rval
  max_interval :: rval
  max_attempts :: rval
  expiration_interval :: rval
  non_retriable_errors :: rval

definition retry_policy_members :: "string list" where
  "retry_policy_members =
     [''interval'', ''backoff'', ''max_interval'', ''max_attempts'', ''expiration_interval'', ''non_retriable_errors'']"

definition entry :: "(rval \<times> rval) list \<Rightarrow> string \<Rightarrow> rval" where
  "entry kvs k = (case map_of kvs (RSym k) of None \<Rightarrow> RNil | Some v \<Rightarrow> v)"

text \<open>\<open>new\<close> of a struct with keywords: an unknown one is an error.\<close>

definition RetryPolicy_new :: "(rval \<times> rval) list \<Rightarrow> rb_error + retry_policy_data" where
  "RetryPolicy_new kvs =
     (if \<exists>k\<in>set (List.map fst kvs). k \<notin> RSym ` set retry_policy_members then Inl (ArgumentError ''unknown keywords'')
      else Inr \<lparr>interval = entry kvs ''interval'', backoff = entry kvs ''backoff'',
        max_interval = entry kvs ''max_interval'', max_attempts = entry kvs ''max_attempts'',
        expiration_interval = entry kvs ''expiration_interval'',
        non_retriable_errors = entry kvs ''non_retriable_errors''\<rparr>)"

text \<open>The three intervals that are given: \<open>compact\<close> drops \<open>nil\<close>.\<close>

definition given_intervals :: "retry_policy_data \<Rightarrow> rval list" where
  "given_intervals p = filter (\<lambda>v. v \<noteq> RNil) [interval p, max_interval p, expiration_interval p]"

fun is_Integer :: "rval \<Rightarrow> bool" where
  "is_Integer (RInt _) = True"
| "is_Integer _ = False"

fun positive :: "rval \<Rightarrow> bool" where
  "positive (RInt i) = (0 < i)"
| "positive _ = False"

definition validate :: "retry_policy_data \<Rightarrow> rb_error option" where
  "validate p =
     (if \<not> (truthy (interval p) \<and> truthy (backoff p)) then
        Some (InvalidRetryPolicy ''interval and backoff must be set'')
      else if \<not> (truthy (max_attempts p) \<or> truthy (expiration_interval p)) then
        Some (InvalidRetryPolicy ''max_attempts or expiration_interval must be set'')
      else if \<not> list_all is_Integer (given_intervals p) then
        Some (InvalidRetryPolicy ''All intervals must be specified in whole seconds'')
      else if \<not> list_all positive (given_intervals p) then
        Some (InvalidRetryPolicy ''All intervals must be greater than 0'')
      else None)"

section \<open>ExecutionOptions\<close>

text \<open>\<open>a.merge(b)\<close>: the entries of \<open>b\<close> replace those of \<open>a\<close> in place, or follow them.\<close>

definition merge :: "(rval \<times> rval) list \<Rightarrow> (rval \<times> rval) list \<Rightarrow> (rval \<times> rval) list" where
  "merge a b = List.map (\<lambda>(k, v). (k, case map_of b k of None \<Rightarrow> v | Some w \<Rightarrow> w)) a @
     filter (\<lambda>(k, _). map_of a k = None) b"

text \<open>
  What is read of the object that is called: its name, and the five class-level settings when
  it is \<open>Executable\<close>; a setting that was not made is \<open>None\<close>.
\<close>

record settings =
  set_domain :: rval
  set_task_list :: rval
  set_retry_policy :: "(rval \<times> rval) list option"
  set_timeouts :: "(rval \<times> rval) list option"
  set_headers :: "(rval \<times> rval) list option"

text \<open>The options of a call, and the configuration's defaults.\<close>

record call_options =
  opt_name :: rval
  opt_domain :: rval
  opt_task_list :: rval
  opt_retry_policy :: "(rval \<times> rval) list option"
  opt_timeouts :: "(rval \<times> rval) list option"
  opt_headers :: "(rval \<times> rval) list option"

record default_options =
  def_domain :: rval
  def_task_list :: rval
  def_timeouts :: "(rval \<times> rval) list"
  def_headers :: "(rval \<times> rval) list"

record execution_options =
  eo_name :: rval
  eo_domain :: rval
  eo_task_list :: rval
  eo_retry_policy :: "retry_policy_data option"
  eo_timeouts :: "(rval \<times> rval) list"
  eo_headers :: "(rval \<times> rval) list"

definition given :: "(rval \<times> rval) list option \<Rightarrow> (rval \<times> rval) list" where
  "given h = (case h of None \<Rightarrow> [] | Some kvs \<Rightarrow> kvs)"

text \<open>\<open>x = y.merge(x) if y\<close>.\<close>

definition merge_under :: "(rval \<times> rval) list option \<Rightarrow> (rval \<times> rval) list \<Rightarrow> (rval \<times> rval) list" where
  "merge_under y x = (case y of None \<Rightarrow> x | Some kvs \<Rightarrow> merge kvs x)"

definition ExecutionOptions_new ::
  "rval \<Rightarrow> settings option \<Rightarrow> call_options \<Rightarrow> default_options option \<Rightarrow> rb_error + execution_options" where
  "ExecutionOptions_new object_name object options defaults =
     (let name = or_value (opt_name options) object_name;
          domain = opt_domain options; task_list = opt_task_list options;
          retry_policy = given (opt_retry_policy options);
          timeouts = given (opt_timeouts options); headers = given (opt_headers options);
          (domain, task_list, retry_policy, timeouts, headers) =
            (case object of
               None \<Rightarrow> (domain, task_list, retry_policy, timeouts, headers)
             | Some s \<Rightarrow> (or_value domain (set_domain s), or_value task_list (set_task_list s),
                 merge_under (set_retry_policy s) retry_policy, merge_under (set_timeouts s) timeouts,
                 merge_under (set_headers s) headers));
          (domain, task_list, timeouts, headers) =
            (case defaults of
               None \<Rightarrow> (domain, task_list, timeouts, headers)
             | Some d \<Rightarrow> (or_value domain (def_domain d), or_value task_list (def_task_list d),
                 merge (def_timeouts d) timeouts, merge (def_headers d) headers));
          options_with = (\<lambda>policy. \<lparr>eo_name = name, eo_domain = domain, eo_task_list = task_list,
            eo_retry_policy = policy, eo_timeouts = timeouts, eo_headers = headers\<rparr>)
      in if retry_policy = [] then Inr (options_with None)
         else and_then (RetryPolicy_new retry_policy) (\<lambda>policy.
           case validate policy of Some error \<Rightarrow> Inl error | None \<Rightarrow> Inr (options_with (Some policy))))"

section \<open>Resetting a workflow\<close>

text \<open>\<open>String#include?\<close>. The lists of types in the code are one string, not an array.\<close>

fun str_include :: "string \<Rightarrow> string \<Rightarrow> bool" where
  "str_include [] needle = (needle = [])"
| "str_include (c # s) needle = (prefix needle (c # s) \<or> str_include s needle)"

definition DECISION_TASK_ENDED :: string where
  "DECISION_TASK_ENDED = ''DecisionTaskCompleted DecisionTaskTimedOut DecisionTaskFailed''"

definition ACTIVITY_TASK_FAILED :: string where
  "ACTIVITY_TASK_FAILED = ''ActivityTaskFailed ActivityTaskTimedOut''"

definition select_events :: "string \<Rightarrow> history \<Rightarrow> event list" where
  "select_events types h = filter (\<lambda>e. str_include types (event_type_name (ev_type e))) (all_events h)"

datatype reset_strategy = LAST_DECISION_TASK | FIRST_DECISION_TASK | LAST_FAILED_ACTIVITY | OtherStrategy string

definition last_of :: "'a list \<Rightarrow> 'a option" where
  "last_of xs = (if xs = [] then None else Some (last xs))"

definition first_of :: "'a list \<Rightarrow> 'a option" where
  "first_of xs = (if xs = [] then None else Some (hd xs))"

definition event_named :: "history \<Rightarrow> rval \<Rightarrow> event option" where
  "event_named h i = (case i of RInt n \<Rightarrow> find_event_by_id h n | _ \<Rightarrow> None)"

definition find_decision_task :: "history \<Rightarrow> reset_strategy \<Rightarrow> rb_error + event option" where
  "find_decision_task h strategy =
     (case strategy of
        LAST_DECISION_TASK \<Rightarrow> Inr (last_of (select_events DECISION_TASK_ENDED h))
      | FIRST_DECISION_TASK \<Rightarrow> Inr (first_of (select_events DECISION_TASK_ENDED h))
      | LAST_FAILED_ACTIVITY \<Rightarrow>
          (case last_of (select_events ACTIVITY_TASK_FAILED h) of
             None \<Rightarrow> Inr None
           | Some failed_event \<Rightarrow>
               and_then (attribute failed_event ''scheduledEventId'') (\<lambda>i.
               case event_named h i of
                 None \<Rightarrow> Inl (NoMethodError ''attributes'')
               | Some scheduled_event \<Rightarrow>
                   and_then (attribute scheduled_event ''decisionTaskCompletedEventId'') (\<lambda>i.
                     Inr (event_named h i))))
      | OtherStrategy _ \<Rightarrow> Inl (ArgumentError ''Unsupported reset strategy''))"

text \<open>The identifier that \<open>reset_workflow\<close> sends, given the whole history.\<close>

definition reset_event ::
  "history \<Rightarrow> reset_strategy option \<Rightarrow> int option \<Rightarrow> rb_error + int" where
  "reset_event h strategy decision_task_id =
     (let strategy = (if decision_task_id = None then (case strategy of None \<Rightarrow> Some LAST_DECISION_TASK | s \<Rightarrow> s) else strategy) in
      case (strategy, decision_task_id) of
        (Some _, Some _) \<Rightarrow> Inl (ArgumentError ''Please specify either :strategy or :decision_task_id'')
      | (None, Some i) \<Rightarrow> Inr i
      | (Some s, None) \<Rightarrow>
          and_then (find_decision_task h s) (\<lambda>e.
            case e of None \<Rightarrow> Inl (CadenceError ''Could not find an event to reset to'') | Some e \<Rightarrow> Inr (ev_id e))
      | (None, None) \<Rightarrow> Inl (CadenceError ''Could not find an event to reset to''))"

section \<open>Lemmas\<close>

lemma map_of_map_value: "map_of (List.map (\<lambda>(k, v). (k, f k v)) kvs) k = map_option (f k) (map_of kvs k)"
  by (induction kvs) auto

lemma map_of_filter_key: "map_of (filter (\<lambda>(k, _). P k) kvs) k = (if P k then map_of kvs k else None)"
  by (induction kvs) auto

lemma map_of_merge: "map_of (merge a b) k = or_else (map_of b k) (map_of a k)"
  by (cases "map_of a k"; cases "map_of b k")
    (simp_all add: merge_def map_of_map_value map_of_filter_key map_add_def)

lemma map_of_merge_under: "map_of (merge_under y x) k = or_else (map_of x k) (map_of (given y) k)"
  by (simp add: merge_under_def given_def map_of_merge split: option.splits)

lemma merge_under_Nil: "merge_under y x = [] \<longleftrightarrow> given y = [] \<and> x = []"
  by (cases y; cases x) (auto simp: merge_under_def given_def merge_def)

text \<open>The strings contain no other type's name than those they list.\<close>

lemma str_include_types:
  "str_include DECISION_TASK_ENDED (event_type_name t) \<longleftrightarrow>
     t \<in> {DecisionTaskCompleted, DecisionTaskTimedOut, DecisionTaskFailed}"
  "str_include ACTIVITY_TASK_FAILED (event_type_name t) \<longleftrightarrow> t \<in> {ActivityTaskFailed, ActivityTaskTimedOut}"
  by (cases t; simp add: DECISION_TASK_ENDED_def ACTIVITY_TASK_FAILED_def)+

lemma event_named_Some: "event_named h i = Some e \<longleftrightarrow> (\<exists>n. i = RInt n \<and> find_event_by_id h n = Some e)"
  by (cases i) (simp_all add: event_named_def)

lemma last_of_filter:
  "last_of (filter P xs) = Some x \<Longrightarrow> \<exists>ys zs. xs = ys @ x # zs \<and> P x \<and> (\<forall>z\<in>set zs. \<not> P z)"
proof (induction xs rule: rev_induct)
  case (snoc y ys)
  show ?case
  proof (cases "P y")
    case True
    with snoc.prems show ?thesis by (intro exI [of _ ys] exI [of _ "[]"]) (simp add: last_of_def)
  next
    case False
    with snoc obtain as zs where "ys = as @ x # zs" "P x" "\<forall>z\<in>set zs. \<not> P z" by (auto simp: last_of_def)
    with False show ?thesis by (intro exI [of _ as] exI [of _ "zs @ [y]"]) simp
  qed
qed (simp add: last_of_def)

lemma first_of_filter:
  "first_of (filter P xs) = Some x \<Longrightarrow> \<exists>ys zs. xs = ys @ x # zs \<and> P x \<and> (\<forall>y\<in>set ys. \<not> P y)"
proof (induction xs)
  case (Cons y ys)
  show ?case
  proof (cases "P y")
    case True
    with Cons.prems show ?thesis by (intro exI [of _ "[]"] exI [of _ ys]) (simp add: first_of_def)
  next
    case False
    with Cons obtain as zs where "ys = as @ x # zs" "P x" "\<forall>y\<in>set as. \<not> P y" by (auto simp: first_of_def)
    with False show ?thesis by (intro exI [of _ "y # as"] exI [of _ zs]) simp
  qed
qed (simp add: first_of_def)

section \<open>Properties\<close>

text \<open>
  The policies that pass the checks are those with a positive whole
  interval and a backoff, bounded by a number of attempts or by a time, and whose other
  intervals are positive whole numbers where they are given.
\<close>

theorem retry_policy_accepted:
  "validate p = None \<longleftrightarrow>
     (\<exists>i. interval p = RInt i \<and> 0 < i) \<and> truthy (backoff p) \<and>
     \<not> (\<not> truthy (max_attempts p) \<and> expiration_interval p = RNil) \<and>
     (max_interval p = RNil \<or> (\<exists>i. max_interval p = RInt i \<and> 0 < i)) \<and>
     (expiration_interval p = RNil \<or> (\<exists>i. expiration_interval p = RInt i \<and> 0 < i))"
proof -
  have pos: "is_Integer v \<and> positive v \<longleftrightarrow> (\<exists>i. v = RInt i \<and> 0 < i)" for v by (cases v) auto
  have all: "list_all is_Integer (given_intervals p) \<and> list_all positive (given_intervals p) \<longleftrightarrow>
      (\<forall>v\<in>{interval p, max_interval p, expiration_interval p}. v = RNil \<or> (\<exists>i. v = RInt i \<and> 0 < i))"
    by (auto simp: given_intervals_def list_all_iff pos [symmetric])
  have "validate p = None \<longleftrightarrow> truthy (interval p) \<and> truthy (backoff p) \<and>
      (truthy (max_attempts p) \<or> truthy (expiration_interval p)) \<and>
      list_all is_Integer (given_intervals p) \<and> list_all positive (given_intervals p)"
    by (auto simp: validate_def)
  moreover have "truthy (interval p) \<and> (interval p = RNil \<or> (\<exists>i. interval p = RInt i \<and> 0 < i)) \<longleftrightarrow>
      (\<exists>i. interval p = RInt i \<and> 0 < i)"
    by (cases "interval p") auto
  moreover have "(truthy (max_attempts p) \<or> truthy (expiration_interval p)) \<and>
      (expiration_interval p = RNil \<or> (\<exists>i. expiration_interval p = RInt i \<and> 0 < i)) \<longleftrightarrow>
      \<not> (\<not> truthy (max_attempts p) \<and> expiration_interval p = RNil) \<and>
      (expiration_interval p = RNil \<or> (\<exists>i. expiration_interval p = RInt i \<and> 0 < i))"
    by (cases "expiration_interval p") auto
  ultimately show ?thesis unfolding all by (simp only: ball_simps simp_thms) blast
qed


definition sample_policy :: "(rval \<times> rval) list" where
  "sample_policy = [(RSym ''interval'', RInt 1), (RSym ''backoff'', RInt 2), (RSym ''max_attempts'', RInt 3)]"

definition sample_options :: call_options where
  "sample_options = \<lparr>opt_name = RNil, opt_domain = RNil, opt_task_list = RNil,
     opt_retry_policy = Some [(RSym ''interval'', RInt 7)], opt_timeouts = None, opt_headers = None\<rparr>"

definition sample_settings :: settings where
  "sample_settings = \<lparr>set_domain = RStr ''own'', set_task_list = RNil, set_retry_policy = Some sample_policy,
     set_timeouts = Some [(RSym ''task'', RInt 5)], set_headers = None\<rparr>"

definition sample_defaults :: default_options where
  "sample_defaults = \<lparr>def_domain = RStr ''default'', def_task_list = RStr ''default'',
     def_timeouts = [(RSym ''task'', RInt 10)], def_headers = []\<rparr>"


text \<open>
  C39: with the default strategy a workflow is reset to the last event of its
  history that ends a decision task, with the first one to the first; after a failed activity,
  to an event its scheduling names as the decision task's completion.
\<close>

theorem reset_event_found:
  assumes "reset_event h strategy None = Inr i"
  shows "case strategy of
      Some FIRST_DECISION_TASK \<Rightarrow> \<exists>before e after. all_events h = before @ e # after \<and> ev_id e = i \<and>
        ev_type e \<in> {DecisionTaskCompleted, DecisionTaskTimedOut, DecisionTaskFailed} \<and>
        (\<forall>e\<in>set before. ev_type e \<notin> {DecisionTaskCompleted, DecisionTaskTimedOut, DecisionTaskFailed})
    | Some LAST_FAILED_ACTIVITY \<Rightarrow> \<exists>before failed after scheduled n. all_events h = before @ failed # after \<and>
        ev_type failed \<in> {ActivityTaskFailed, ActivityTaskTimedOut} \<and>
        (\<forall>e\<in>set after. ev_type e \<notin> {ActivityTaskFailed, ActivityTaskTimedOut}) \<and>
        attribute failed ''scheduledEventId'' = Inr (RInt n) \<and> find_event_by_id h n = Some scheduled \<and>
        attribute scheduled ''decisionTaskCompletedEventId'' = Inr (RInt i) \<and> find_event_by_id h i \<noteq> None
    | Some (OtherStrategy _) \<Rightarrow> False
    | _ \<Rightarrow> \<exists>before e after. all_events h = before @ e # after \<and> ev_id e = i \<and>
        ev_type e \<in> {DecisionTaskCompleted, DecisionTaskTimedOut, DecisionTaskFailed} \<and>
        (\<forall>e\<in>set after. ev_type e \<notin> {DecisionTaskCompleted, DecisionTaskTimedOut, DecisionTaskFailed})"
proof -
  have found: "find_event_by_id h n = Some e \<Longrightarrow> ev_id e = n" for n e
    by (auto simp: find_event_by_id_def find_Some_iff)
  note simps = find_decision_task_def select_events_def str_include_types
  show ?thesis
  proof (cases strategy)
    case None
    with assms show ?thesis
      by (auto simp: reset_event_def simps dest!: last_of_filter split: option.splits)
  next
    case (Some x)
    show ?thesis
    proof (cases x)
      case LAST_DECISION_TASK
      with Some assms show ?thesis
        by (auto simp: reset_event_def simps dest!: last_of_filter split: option.splits)
    next
      case FIRST_DECISION_TASK
      with Some assms show ?thesis
        by (auto simp: reset_event_def simps dest!: first_of_filter split: option.splits)
    next
      case LAST_FAILED_ACTIVITY
      with Some assms obtain failed n scheduled m e where
        "last_of (filter (\<lambda>e. ev_type e \<in> {ActivityTaskFailed, ActivityTaskTimedOut}) (all_events h)) = Some failed"
        "attribute failed ''scheduledEventId'' = Inr (RInt n)" "find_event_by_id h n = Some scheduled"
        "attribute scheduled ''decisionTaskCompletedEventId'' = Inr (RInt m)" "find_event_by_id h m = Some e" "ev_id e = i"
        by (auto simp: reset_event_def simps and_then_Inr_iff event_named_Some split: option.splits)
      moreover from this(1) obtain ys zs where "all_events h = ys @ failed # zs"
        "ev_type failed \<in> {ActivityTaskFailed, ActivityTaskTimedOut}"
        "\<forall>z\<in>set zs. ev_type z \<notin> {ActivityTaskFailed, ActivityTaskTimedOut}"
        by (auto dest!: last_of_filter)
      moreover have "m = i" using found calculation(5,6) by auto
      ultimately show ?thesis
        unfolding Some LAST_FAILED_ACTIVITY option.case reset_strategy.case by blast
    qed (use Some assms in \<open>simp add: reset_event_def simps\<close>)
  qed
qed

theorem reset_event_found_witness:
  "\<exists>before e after. [\<lparr>ev_id = 4, ev_timestamp = (0, 0), ev_type = DecisionTaskCompleted, ev_attributes = RNil\<rparr>] =
     before @ e # after \<and> ev_id e = 4"
proof -
  let ?es = "[\<lparr>ev_id = 4, ev_timestamp = (0, 0), ev_type = DecisionTaskCompleted, ev_attributes = RNil\<rparr>]"
  have "reset_event \<lparr>all_events = ?es, iterator = []\<rparr> None None = Inr 4"
    by (simp add: reset_event_def find_decision_task_def select_events_def str_include_types last_of_def)
  from reset_event_found [OF this] show ?thesis by auto
qed

end
