(* ===== verification/Saga.thy ===== *)
theory Saga
  imports Executor
begin

text \<open>
  The sagas of workflow code (lib/cadence/saga) and the calls of the context that wait for
  their futures: \<open>execute_activity!\<close>, \<open>execute_workflow!\<close>, \<open>sleep\<close> and \<open>wait_for_all\<close>
  (lib/cadence/workflow/context.rb). The classes of a Ruby program are a parameter.
\<close>

section \<open>Classes of exceptions\<close>

text \<open>
  \<open>Object.const_get\<close>, \<open>None\<close> where the constant is not defined or is no constant name; an
  exception class comes with its name. The exceptions of workflow code need not be of
  class \<open>StandardError\<close>.
\<close>

datatype ruby_constant = ExceptionClass string | OtherConstant

record ruby_classes =
  constant_named :: "string \<Rightarrow> ruby_constant option"
  user_standard :: "string \<Rightarrow> bool"

fun error_class :: "rb_error \<Rightarrow> string" where
  "error_class (NoMethodError _) = ''NoMethodError''"
| "error_class (NameError _) = ''NameError''"
| "error_class (TypeError _) = ''TypeError''"
| "error_class (RuntimeError _) = ''RuntimeError''"
| "error_class ParseError = ''Oj::ParseError''"
| "error_class (ArgumentError _) = ''ArgumentError''"
| "error_class (CadenceError _) = ''Cadence::Error''"
| "error_class (UnexpectedEventType _) = ''Cadence::Workflow::History::EventTarget::UnexpectedEventType''"
| "error_class (UnexpectedDecisionType _) = ''Cadence::Workflow::History::EventTarget::UnexpectedDecisionType''"
| "error_class (UnsupportedEvent _) = ''Cadence::Workflow::StateManager::UnsupportedEvent''"
| "error_class NotScheduledUponReplay = ''Cadence::NonDeterministicWorkflowError''"
| "error_class UnexpectedDecision = ''Cadence::NonDeterministicWorkflowError''"
| "error_class (WorkflowAlreadyCompletingError _) = ''Cadence::WorkflowAlreadyCompletingError''"
| "error_class (InvalidRetryPolicy _) = ''Cadence::RetryPolicy::InvalidRetryPolicy''"
| "error_class (FiberError _) = ''FiberError''"
| "error_class (UserError c _) = c"

text \<open>All the exceptions of the gem are of class \<open>StandardError\<close>.\<close>

fun standard_error :: "ruby_classes \<Rightarrow> rb_error \<Rightarrow> bool" where
  "standard_error R (UserError c _) = user_standard R c"
| "standard_error R _ = True"

section \<open>Calls that wait\<close>

text \<open>\<open>safe_constantize\<close>: \<open>const_defined?\<close> takes a string or a symbol.\<close>

fun safe_constantize :: "ruby_classes \<Rightarrow> rval \<Rightarrow> rb_error + ruby_constant option" where
  "safe_constantize R (RStr s) = Inr (constant_named R s)"
| "safe_constantize R (RSym s) = Inr (constant_named R s)"
| "safe_constantize R _ = Inl (TypeError ''is not a symbol nor a string'')"

text \<open>\<open>reason, details = result\<close>, and the exception that is raised then.\<close>

definition destructure :: "rval \<Rightarrow> rval \<times> rval" where
  "destructure value = (case value of RArr vs \<Rightarrow> (block_arg 0 vs, block_arg 1 vs) | v \<Rightarrow> (v, RNil))"

definition raised_failure :: "ruby_classes \<Rightarrow> string \<Rightarrow> rval \<Rightarrow> rb_error" where
  "raised_failure R fallback value =
     (let (reason, details) = destructure value in
      case safe_constantize R reason of
        Inl e \<Rightarrow> e
      | Inr None \<Rightarrow> UserError fallback details
      | Inr (Some (ExceptionClass c)) \<Rightarrow> UserError c details
      | Inr (Some OtherConstant) \<Rightarrow> TypeError ''exception class/object expected'')"

definition get_or_raise :: "ruby_classes \<Rightarrow> string \<Rightarrow> nat \<Rightarrow> (rb_error + rval \<Rightarrow> prog) \<Rightarrow> prog" where
  "get_or_raise R fallback f k =
     GetFuture f (\<lambda>value. IsFailed f (\<lambda>b.
       if b then k (Inl (raised_failure R fallback value)) else k (Inr value)))"

definition execute_activity_raising ::
  "ruby_classes \<Rightarrow> ScheduleActivity \<Rightarrow> (rb_error + rval \<Rightarrow> prog) \<Rightarrow> prog" where
  "execute_activity_raising R a k =
     ExecuteActivity a (\<lambda>r. case r of
         Inl e \<Rightarrow> k (Inl e)
       | Inr f \<Rightarrow> get_or_raise R ''Cadence::ActivityException'' f k)"

definition execute_workflow_raising ::
  "ruby_classes \<Rightarrow> StartChildWorkflow \<Rightarrow> (rb_error + rval \<Rightarrow> prog) \<Rightarrow> prog" where
  "execute_workflow_raising R c k =
     ExecuteWorkflow c (\<lambda>r. case r of
         Inl e \<Rightarrow> k (Inl e)
       | Inr f \<Rightarrow> get_or_raise R ''StandardError'' f k)"

definition sleep :: "rval \<Rightarrow> (rb_error + unit \<Rightarrow> prog) \<Rightarrow> prog" where
  "sleep tmo k = StartTimerCall tmo RNil (\<lambda>r. case r of Inl e \<Rightarrow> k (Inl e) | Inr f \<Rightarrow> WaitFuture f (k (Inr ())))"

definition wait_for_all :: "nat list \<Rightarrow> prog \<Rightarrow> prog" where
  "wait_for_all fs p = foldr WaitFuture fs p"

text \<open>The code goes on at once when there is nothing left to wait for, and else waits for the first such future.\<close>

lemma run_wait_for_all:
  "(\<forall>f\<in>set fs. finished (future_at eng f)) \<Longrightarrow> run (wait_for_all (fs @ gs) p) fb eng = run (wait_for_all gs p) fb eng"
  by (induction fs) (simp_all add: wait_for_all_def)

lemma run_wait_for_all_yields:
  "(\<forall>f\<in>set fs. finished (future_at eng f)) \<Longrightarrow> \<not> finished (future_at eng f) \<Longrightarrow>
   run (wait_for_all (fs @ f # gs) p) fb eng = Yielded (wait_for_all gs p) (wait_for fb f eng)"
  by (simp add: run_wait_for_all) (simp add: wait_for_all_def)

section \<open>Sagas\<close>

text \<open>
  The code of a block that is given the saga: between the registrations of compensations it
  runs workflow code, and goes on with its result or rescues its exception.
\<close>

datatype saga_code =
    SagaReturn
  | SagaRaise rb_error
  | AddCompensation ScheduleActivity saga_code
  | SagaRun prog "rval \<Rightarrow> saga_code" "rb_error \<Rightarrow> saga_code"

text \<open>\<open>block.call(saga)\<close>: what follows gets the compensations and the end of the block.\<close>

primrec call_block ::
  "saga_code \<Rightarrow> ScheduleActivity list \<Rightarrow> (ScheduleActivity list \<Rightarrow> rb_error + unit \<Rightarrow> prog) \<Rightarrow> prog" where
  "call_block SagaReturn = (\<lambda>compensations k. k compensations (Inr ()))"
| "call_block (SagaRaise e) = (\<lambda>compensations k. k compensations (Inl e))"
| "call_block (AddCompensation c s) = (\<lambda>compensations k. call_block s (compensations @ [c]) k)"
| "call_block (SagaRun p f g) =
     (\<lambda>compensations k. bind_rescue p (\<lambda>v. call_block (f v) compensations k) (\<lambda>e. call_block (g e) compensations k))"

primrec execute_each ::
  "ruby_classes \<Rightarrow> ScheduleActivity list \<Rightarrow> (rb_error + unit \<Rightarrow> prog) \<Rightarrow> prog" where
  "execute_each R [] k = k (Inr ())"
| "execute_each R (c # cs) k =
     execute_activity_raising R c (\<lambda>r. case r of Inl e \<Rightarrow> k (Inl e) | Inr _ \<Rightarrow> execute_each R cs k)"

definition compensate :: "ruby_classes \<Rightarrow> ScheduleActivity list \<Rightarrow> (rb_error + unit \<Rightarrow> prog) \<Rightarrow> prog" where
  "compensate R compensations k = execute_each R (rev compensations) k"

record saga_configuration =
  compensate_on :: "string list"
  do_not_compensate_on :: "string list"

definition should_compensate :: "saga_configuration \<Rightarrow> rb_error \<Rightarrow> bool" where
  "should_compensate cfg error =
     (if compensate_on cfg \<noteq> [] then error_class error \<in> set (compensate_on cfg)
      else error_class error \<notin> set (do_not_compensate_on cfg))"

record saga_result =
  completed :: bool
  rollback_reason :: "rb_error option"

definition compensated :: "saga_result \<Rightarrow> bool" where
  "compensated r \<longleftrightarrow> \<not> completed r"

definition run_saga ::
  "ruby_classes \<Rightarrow> saga_configuration \<Rightarrow> saga_code \<Rightarrow> (saga_result \<Rightarrow> prog) \<Rightarrow> (rb_error \<Rightarrow> prog) \<Rightarrow> prog" where
  "run_saga R cfg block f g =
     call_block block [] (\<lambda>compensations r.
       case r of
         Inr _ \<Rightarrow> f \<lparr>completed = True, rollback_reason = None\<rparr>
       | Inl error \<Rightarrow>
           if standard_error R error \<and> should_compensate cfg error then
             compensate R compensations (\<lambda>r. case r of
                 Inr _ \<Rightarrow> f \<lparr>completed = False, rollback_reason = Some error\<rparr>
               | Inl e \<Rightarrow> g e)
           else g error)"

section \<open>Code over several resumptions\<close>

text \<open>
  A fiber runs up to its end, being resumed in the engines of the list, one after the other:
  it ends with a value, in an engine and with the engines it did not need, or it waits.
\<close>

datatype 'a played = Ended 'a wf_engine "wf_engine list" | Waits wf_engine

fun play :: "nat \<Rightarrow> prog \<Rightarrow> wf_engine \<Rightarrow> wf_engine list \<Rightarrow> (rb_error + rval) played" where
  "play fb p eng [] =
     (case run p fb eng of
        Returned v eng \<Rightarrow> Ended (Inr v) eng [] | Raised e eng \<Rightarrow> Ended (Inl e) eng [] | Yielded q eng \<Rightarrow> Waits eng)"
| "play fb p eng (resumed # es) =
     (case run p fb eng of
        Returned v eng \<Rightarrow> Ended (Inr v) eng (resumed # es)
      | Raised e eng \<Rightarrow> Ended (Inl e) eng (resumed # es)
      | Yielded q eng \<Rightarrow> play fb q resumed es)"

primrec and_play :: "'a played \<Rightarrow> ('a \<Rightarrow> wf_engine \<Rightarrow> wf_engine list \<Rightarrow> 'b played) \<Rightarrow> 'b played" where
  "and_play (Ended x eng es) k = k x eng es"
| "and_play (Waits eng) k = Waits eng"

lemma and_play_assoc: "and_play (and_play r f) g = and_play r (\<lambda>x eng es. and_play (f x eng es) g)"
  by (cases r) simp_all

lemma and_play_eqI: "(\<And>x eng es. f x eng es = g x eng es) \<Longrightarrow> and_play r f = and_play r g"
  by (cases r) simp_all

lemma play_bind_rescue:
  "play fb (bind_rescue p f g) eng es =
     and_play (play fb p eng es) (\<lambda>r eng es. case r of Inr v \<Rightarrow> play fb (f v) eng es | Inl e \<Rightarrow> play fb (g e) eng es)"
proof (induction es arbitrary: p eng)
  case Nil
  show ?case by (cases "run p fb eng") (simp_all add: run_bind_rescue)
next
  case (Cons e es)
  show ?case
  proof (cases "run p fb eng")
    case (Yielded q eng')
    with Cons show ?thesis by (simp add: run_bind_rescue)
  next
    case (Returned v eng')
    then have "play fb (bind_rescue p f g) eng (e # es) = play fb (f v) eng' (e # es)"
      by (simp add: run_bind_rescue)
    with Returned show ?thesis by simp
  next
    case (Raised v eng')
    then have "play fb (bind_rescue p f g) eng (e # es) = play fb (g v) eng' (e # es)"
      by (simp add: run_bind_rescue)
    with Raised show ?thesis by simp
  qed
qed

text \<open>A run that goes on at once is played as what it goes on with.\<close>

lemma play_run: "run p fb eng = run q fb' eng' \<Longrightarrow> fb = fb' \<Longrightarrow> play fb p eng es = play fb' q eng' es"
  by (cases es) simp_all

lemma play_reads:
  "play fb (FutureValue f k) eng es = play fb (k (Future_value (future_at eng f))) eng es"
  "play fb (IsFailed f k') eng es = play fb (k' (failed (future_at eng f))) eng es"
  by (rule play_run; simp)+

text \<open>The end of a block, and the compensations it registered.\<close>

primrec play_block ::
  "saga_code \<Rightarrow> nat \<Rightarrow> ScheduleActivity list \<Rightarrow> wf_engine \<Rightarrow> wf_engine list \<Rightarrow>
   (ScheduleActivity list \<times> (rb_error + unit)) played" where
  "play_block SagaReturn = (\<lambda>fb cs eng es. Ended (cs, Inr ()) eng es)"
| "play_block (SagaRaise e) = (\<lambda>fb cs eng es. Ended (cs, Inl e) eng es)"
| "play_block (AddCompensation c s) = (\<lambda>fb cs eng es. play_block s fb (cs @ [c]) eng es)"
| "play_block (SagaRun p f g) =
     (\<lambda>fb cs eng es. and_play (play fb p eng es)
        (\<lambda>r eng es. case r of Inr v \<Rightarrow> play_block (f v) fb cs eng es | Inl e \<Rightarrow> play_block (g e) fb cs eng es))"

lemma play_call_block:
  "play fb (call_block s cs k) eng es =
     and_play (play_block s fb cs eng es) (\<lambda>(cs, r) eng es. play fb (k cs r) eng es)"
proof (induction s arbitrary: cs eng es)
  case (SagaRun p f g)
  have f: "play fb (call_block (f v) cs k) eng es =
      and_play (play_block (f v) fb cs eng es) (\<lambda>(cs, r) eng es. play fb (k cs r) eng es)" for v cs eng es
    by (rule SagaRun) simp
  have g: "play fb (call_block (g e) cs k) eng es =
      and_play (play_block (g e) fb cs eng es) (\<lambda>(cs, r) eng es. play fb (k cs r) eng es)" for e cs eng es
    by (rule SagaRun) simp
  show ?case
    by (simp only: call_block.simps play_block.simps play_bind_rescue and_play_assoc)
      (rule and_play_eqI, simp add: f g split: sum.split)
qed simp_all

text \<open>
  The loop over activities, each awaited before the next is scheduled: the first that
  cannot be scheduled or fails ends it.
\<close>

fun executed_in_turn ::
  "ruby_classes \<Rightarrow> nat \<Rightarrow> ScheduleActivity list \<Rightarrow> wf_engine \<Rightarrow> wf_engine list \<Rightarrow> (rb_error + unit) played" where
  "executed_in_turn R fb [] eng es = Ended (Inr ()) eng es"
| "executed_in_turn R fb (a # as) eng es =
     (case execute_activity a eng of
        (eng', Inl e) \<Rightarrow> Ended (Inl e) eng' es
      | (eng', Inr f) \<Rightarrow>
          (case es of
             [] \<Rightarrow> Waits (wait_for fb f eng')
           | resumed # es' \<Rightarrow>
               let fut = future_at resumed f in
               if failed fut then
                 Ended (Inl (raised_failure R ''Cadence::ActivityException'' (Future_value fut))) resumed es'
               else executed_in_turn R fb as resumed es'))"

lemma execute_activity_unfinished:
  "execute_activity a eng = (eng', Inr f) \<Longrightarrow> \<not> finished (future_at eng' f)"
  by (auto simp: execute_activity_def with_future_def Let_def future_at_new finished_def failed_def Future_new_def
      split: prod.splits sum.splits)

lemma play_execute_each:
  "play fb (execute_each R as k) eng es =
     and_play (executed_in_turn R fb as eng es) (\<lambda>r eng es. play fb (k r) eng es)"
proof (induction as arbitrary: eng es)
  case (Cons a as)
  obtain eng' r where r: "execute_activity a eng = (eng', r)" by fastforce
  show ?case
  proof (cases r)
    case (Inl e)
    with r show ?thesis
      by (simp add: execute_activity_raising_def) (rule play_run, simp_all)
  next
    case (Inr f)
    note waits = execute_activity_unfinished [OF r [unfolded Inr]]
    show ?thesis
    proof (cases es)
      case Nil
      with r Inr waits show ?thesis
        by (simp add: execute_activity_raising_def get_or_raise_def GetFuture_def)
    next
      case (Cons resumed es')
      with r Inr waits show ?thesis
        by (simp add: execute_activity_raising_def get_or_raise_def GetFuture_def play_reads Cons.IH Let_def)
    qed
  qed
qed simp

section \<open>Properties\<close>

text \<open>
  C6: a saga whose block ends without an exception is completed; an exception that is to
  be compensated has the activities registered so far executed in the reverse order of
  their registration, each awaited before the next is scheduled, and the saga then ends as
  compensated, with the exception as its reason; a compensation that fails, and an
  exception that is not to be compensated, leave the saga.
\<close>

theorem saga_compensates_in_reverse:
  "play fb (run_saga R cfg block f g) eng es =
     and_play (play_block block fb [] eng es) (\<lambda>(compensations, r) eng es.
       case r of
         Inr _ \<Rightarrow> play fb (f \<lparr>completed = True, rollback_reason = None\<rparr>) eng es
       | Inl error \<Rightarrow>
           if standard_error R error \<and>
             (if compensate_on cfg = [] then error_class error \<notin> set (do_not_compensate_on cfg)
              else error_class error \<in> set (compensate_on cfg))
           then and_play (executed_in_turn R fb (rev compensations) eng es) (\<lambda>r eng es.
             case r of
               Inr _ \<Rightarrow> play fb (f \<lparr>completed = False, rollback_reason = Some error\<rparr>) eng es
             | Inl e \<Rightarrow> play fb (g e) eng es)
           else play fb (g error) eng es)"
proof -
  have ends: "play fb (compensate R cs (\<lambda>r. case r of Inr _ \<Rightarrow> f x | Inl e \<Rightarrow> g e)) eng es =
      and_play (executed_in_turn R fb (rev cs) eng es)
        (\<lambda>r eng es. case r of Inr _ \<Rightarrow> play fb (f x) eng es | Inl e \<Rightarrow> play fb (g e) eng es)" for cs x eng es
    unfolding compensate_def play_execute_each by (rule and_play_eqI) (simp split: sum.split)
  show ?thesis
    unfolding run_saga_def play_call_block
    by (rule and_play_eqI) (simp add: ends should_compensate_def split: prod.split sum.split)
qed

end
