(* ===== verification/Middleware.thy ===== *)
theory Middleware
  imports RubyValues
begin

text \<open>
  The middleware chains around tasks and workflow code and the propagators of headers
  (lib/cadence/middleware). A middleware is code of the user: what it does to the rest of the
  program, of type \<open>'s\<close>, and when it calls its block. The metadata of a task is of type \<open>'m\<close>.
\<close>

section \<open>Middlewares\<close>

text \<open>
  The body of \<open>call(metadata, &block)\<close>: it returns, raises, acts on the program, reads it, or
  calls its block, whose value or exception it gets.
\<close>

datatype 's body =
    Return rval
  | Raise rb_error
  | Act "'s \<Rightarrow> 's" "'s body"
  | Look "'s \<Rightarrow> 's body"
  | Call "rb_error + rval \<Rightarrow> 's body"

type_synonym ('m, 's) middleware = "'m \<Rightarrow> 's body"

text \<open>The variables of \<open>invoke\<close> that the lambda closes over, and the program around.\<close>

record ('m, 's) traversal =
  chain :: "('m, 's) middleware list"
  invoked :: rval
  world :: 's

type_synonym ('m, 's) traverser =
  "('m, 's) traversal \<Rightarrow> ('m, 's) traversal \<times> (rb_error + rval)"

primrec run_body :: "'s body \<Rightarrow> ('m, 's) traverser \<Rightarrow> ('m, 's) traverser" where
  "run_body (Return v) = (\<lambda>block t. (t, Inr v))"
| "run_body (Raise e) = (\<lambda>block t. (t, Inl e))"
| "run_body (Act f b) = (\<lambda>block t. run_body b block (t\<lparr>world := f (world t)\<rparr>))"
| "run_body (Look f) = (\<lambda>block t. run_body (f (world t)) block t)"
| "run_body (Call k) = (\<lambda>block t. case block t of (t, r) \<Rightarrow> run_body (k r) block t)"

section \<open>The chain\<close>

text \<open>The block of \<open>invoke\<close> and what its value is kept in.\<close>

type_synonym 's block = "'s \<Rightarrow> 's \<times> (rb_error + rval)"

definition call_target :: "'s block \<Rightarrow> ('m, 's) traverser" where
  "call_target block t =
     (case block (world t) of
        (w, Inl e) \<Rightarrow> (t\<lparr>world := w\<rparr>, Inl e)
      | (w, Inr v) \<Rightarrow> (t\<lparr>world := w, invoked := v\<rparr>, Inr v))"

text \<open>
  \<open>traverse_chain\<close>: every call takes a middleware off the chain while there is one, so
  calls nest no deeper than the chain is long.
\<close>

primrec traverse_chain :: "nat \<Rightarrow> 'm \<Rightarrow> 's block \<Rightarrow> ('m, 's) traverser" where
  "traverse_chain 0 metadata block t = call_target block t"
| "traverse_chain (Suc n) metadata block t =
     (case chain t of
        [] \<Rightarrow> call_target block t
      | m # rest \<Rightarrow> run_body (m metadata) (traverse_chain n metadata block) (t\<lparr>chain := rest\<rparr>))"

definition outcome_of :: "('m, 's) traversal \<times> (rb_error + rval) \<Rightarrow> 's \<times> (rb_error + rval)" where
  "outcome_of = (\<lambda>(t, r). (world t, case r of Inl e \<Rightarrow> Inl e | Inr _ \<Rightarrow> Inr (invoked t)))"

definition invoke :: "('m, 's) middleware list \<Rightarrow> 'm \<Rightarrow> 's block \<Rightarrow> 's block" where
  "invoke ms metadata block w =
     outcome_of (traverse_chain (length ms) metadata block \<lparr>chain = ms, invoked = RNil, world = w\<rparr>)"

section \<open>Headers\<close>

text \<open>A propagator changes the copy of the headers, or raises.\<close>

definition inject :: "('h \<Rightarrow> rb_error + 'h) list \<Rightarrow> 'h \<Rightarrow> rb_error + 'h" where
  "inject propagators headers =
     (if propagators = [] then Inr headers else foldM (\<lambda>h propagator. propagator h) propagators headers)"

lemma inject_eq: "inject ps h = foldM (\<lambda>h propagator. propagator h) ps h"
  by (cases ps) (simp_all add: inject_def)

lemma inject_append: "inject (ps @ qs) h = and_then (inject ps h) (inject qs)"
  by (simp add: inject_eq [abs_def] foldM_append)

section \<open>Middlewares within middlewares\<close>

text \<open>The reference: each middleware gets the rest of the chain as its block.\<close>

primrec nested :: "('m, 's) middleware list \<Rightarrow> 'm \<Rightarrow> 's block \<Rightarrow> ('m, 's) traverser" where
  "nested [] metadata block = call_target block"
| "nested (m # ms) metadata block = run_body (m metadata) (nested ms metadata block)"

text \<open>A body that calls its block once at most.\<close>

primrec never_calls :: "'s body \<Rightarrow> bool" where
  "never_calls (Return v) = True"
| "never_calls (Raise e) = True"
| "never_calls (Act f b) = never_calls b"
| "never_calls (Look f) = (\<forall>w. never_calls (f w))"
| "never_calls (Call k) = False"

primrec calls_once :: "'s body \<Rightarrow> bool" where
  "calls_once (Return v) = True"
| "calls_once (Raise e) = True"
| "calls_once (Act f b) = calls_once b"
| "calls_once (Look f) = (\<forall>w. calls_once (f w))"
| "calls_once (Call k) = (\<forall>r. never_calls (k r))"

text \<open>Without the chain, which only the traversal itself reads.\<close>

definition forget :: "('m, 's) traversal \<times> (rb_error + rval) \<Rightarrow> ('m, 's) traversal \<times> (rb_error + rval)" where
  "forget = (\<lambda>(t, r). (t\<lparr>chain := []\<rparr>, r))"

lemma forget_simps [simp]: "forget (t, r) = (t\<lparr>chain := []\<rparr>, r)"
  by (simp add: forget_def)

lemma outcome_of_forget [simp]: "outcome_of (forget x) = outcome_of x"
  by (cases x) (simp add: outcome_of_def split: sum.split)

lemma chain_last: "t\<lparr>world := w, chain := ms\<rparr> = t\<lparr>chain := ms, world := w\<rparr>"
  by simp

lemma call_target_forget: "forget (call_target block t) = call_target block (t\<lparr>chain := []\<rparr>)"
  by (simp add: call_target_def split: prod.splits sum.splits)

lemma never_calls_forget:
  "never_calls b \<Longrightarrow> forget (run_body b f t) = run_body b g (t\<lparr>chain := []\<rparr>)"
  by (induction b arbitrary: t) (simp_all add: chain_last)

text \<open>A body that calls its block once sees the block's first call only.\<close>

lemma calls_once_forget:
  assumes "\<And>t. chain t = rest \<Longrightarrow> forget (f t) = g (t\<lparr>chain := []\<rparr>)"
  shows "calls_once b \<Longrightarrow> chain t = rest \<Longrightarrow> forget (run_body b f t) = run_body b g (t\<lparr>chain := []\<rparr>)"
proof (induction b arbitrary: t)
  case (Call k)
  obtain t' r where t': "f t = (t', r)" by fastforce
  then have "g (t\<lparr>chain := []\<rparr>) = (t'\<lparr>chain := []\<rparr>, r)" using assms [of t] Call by simp
  with t' Call show ?case by (simp add: never_calls_forget [where g = g])
qed (simp_all add: chain_last)

lemma traverse_nested:
  "\<forall>m\<in>set ms. calls_once (m metadata) \<Longrightarrow> chain t = ms \<Longrightarrow>
   forget (traverse_chain (length ms) metadata block t) = nested ms metadata block (t\<lparr>chain := []\<rparr>)"
proof (induction ms arbitrary: t)
  case Nil
  then show ?case by (simp add: call_target_forget)
next
  case (Cons m ms)
  have "forget (run_body (m metadata) (traverse_chain (length ms) metadata block) (t\<lparr>chain := ms\<rparr>)) =
      run_body (m metadata) (nested ms metadata block) (t\<lparr>chain := ms\<rparr>\<lparr>chain := []\<rparr>)"
    by (rule calls_once_forget [where rest = ms]) (use Cons in auto)
  with Cons.prems show ?case by simp
qed

section \<open>Properties\<close>

text \<open>
  C15: as long as every middleware of a chain calls its block once at most, the chain runs
  them within one another, in the order they were added, around the target; the value of
  the chain is the value of the target, or \<open>nil\<close> when a middleware never lets it run.
\<close>

theorem middlewares_nest:
  assumes "\<forall>m\<in>set ms. calls_once (m metadata)"
  shows "invoke ms metadata block w = outcome_of (nested ms metadata block \<lparr>chain = [], invoked = RNil, world = w\<rparr>)"
  using traverse_nested [OF assms, of "\<lparr>chain = ms, invoked = RNil, world = w\<rparr>" block]
  by (metis invoke_def outcome_of_forget traversal.select_convs(1) traversal.update_convs(1))

text \<open>Two middlewares that log before and after their block.\<close>

definition logger :: "nat \<Rightarrow> (unit, nat list) middleware" where
  "logger n = (\<lambda>_. Act (\<lambda>w. w @ [n]) (Call (\<lambda>r. Act (\<lambda>w. w @ [10 * n]) (Return RNil))))"

theorem middlewares_nest_witness:
  "invoke [logger 1, logger 2] () (\<lambda>w. (w @ [5], Inr (RInt 7))) [] = ([1, 2, 5, 20, 10], Inr (RInt 7))"
proof -
  have "\<forall>m\<in>set [logger 1, logger 2]. calls_once (m ())" by (simp add: logger_def)
  from middlewares_nest [OF this] show ?thesis
    by (simp add: logger_def outcome_of_def call_target_def)
qed

text \<open>One that calls its block twice runs the rest of the chain once, and the target twice.\<close>

definition caller_of_two :: "(unit, nat list) middleware" where
  "caller_of_two = (\<lambda>_. Call (\<lambda>r. Call (\<lambda>r. Return RNil)))"

lemma second_call_skips_the_rest:
  "invoke [caller_of_two, logger 2] () (\<lambda>w. (w @ [5], Inr RNil)) [] = ([2, 5, 20, 5], Inr RNil)"
  by (simp add: invoke_def caller_of_two_def logger_def outcome_of_def call_target_def)

end
