(* ===== verification/ThriftTypes.thy ===== *)
theory ThriftTypes
  imports Serializer
begin

text \<open>
  The types of the Thrift structs that decisions and the requests of the client become
  (lib/gen/thrift/shared_types.rb): the
  table \<open>FIELDS\<close> of each class, by which the Thrift library accepts the keys of \<open>new\<close>, checks
  the values of enumerations and writes the fields; and the values that have a type.
\<close>

section \<open>Types\<close>

datatype thrift_type =
    T_BOOL | T_I32 | T_I64 | T_DOUBLE | T_STRING | T_ENUM "int list" | T_STRUCT string
  | T_LIST thrift_type | T_MAP thrift_type thrift_type

text \<open>A table in the order of its fields: identifier, name and type.\<close>

type_synonym field_table = "(int \<times> string \<times> thrift_type) list"

definition ArchivalStatus_VALID_VALUES :: "int list" where
  "ArchivalStatus_VALID_VALUES = [0, 1]"

definition DecisionTaskFailedCause_VALID_VALUES :: "int list" where
  "DecisionTaskFailedCause_VALID_VALUES = [0, 1, 2, 3, 4, 5, 6, 7, 8, 9, 10, 11, 12, 13, 14, 15, 16, 17, 18, 19, 20, 21, 22]"

definition DecisionType_VALID_VALUES :: "int list" where
  "DecisionType_VALID_VALUES = [0, 1, 2, 3, 4, 5, 6, 7, 8, 9, 10, 11, 12]"

definition HistoryEventFilterType_VALID_VALUES :: "int list" where
  "HistoryEventFilterType_VALID_VALUES = [0, 1]"

definition ParentClosePolicy_VALID_VALUES :: "int list" where
  "ParentClosePolicy_VALID_VALUES = [0, 1, 2]"

definition TaskListKind_VALID_VALUES :: "int list" where
  "TaskListKind_VALID_VALUES = [0, 1]"

definition TaskListType_VALID_VALUES :: "int list" where
  "TaskListType_VALID_VALUES = [0, 1]"

definition WorkflowExecutionCloseStatus_VALID_VALUES :: "int list" where
  "WorkflowExecutionCloseStatus_VALID_VALUES = [0, 1, 2, 3, 4, 5]"

definition WorkflowIdReusePolicy_VALID_VALUES :: "int list" where
  "WorkflowIdReusePolicy_VALID_VALUES = [0, 1, 2]"

definition ActivityType_FIELDS :: field_table where
  "ActivityType_FIELDS =
     [(10, ''name'', T_STRING)]"

definition WorkflowType_FIELDS :: field_table where
  "WorkflowType_FIELDS =
     [(10, ''name'', T_STRING)]"

definition TaskList_FIELDS :: field_table where
  "TaskList_FIELDS =
     [(10, ''name'', T_STRING), (20, ''kind'', T_ENUM TaskListKind_VALID_VALUES)]"

definition Header_FIELDS :: field_table where
  "Header_FIELDS =
     [(10, ''fields'', T_MAP T_STRING T_STRING)]"

definition RetryPolicy_FIELDS :: field_table where
  "RetryPolicy_FIELDS =
     [(10, ''initialIntervalInSeconds'', T_I32), (20, ''backoffCoefficient'', T_DOUBLE),
      (30, ''maximumIntervalInSeconds'', T_I32), (40, ''maximumAttempts'', T_I32),
      (50, ''nonRetriableErrorReasons'', T_LIST T_STRING), (60, ''expirationIntervalInSeconds'', T_I32)]"

definition ScheduleActivityTaskDecisionAttributes_FIELDS :: field_table where
  "ScheduleActivityTaskDecisionAttributes_FIELDS =
     [(10, ''activityId'', T_STRING), (20, ''activityType'', T_STRUCT ''ActivityType''),
      (25, ''domain'', T_STRING), (30, ''taskList'', T_STRUCT ''TaskList''), (40, ''input'', T_STRING),
      (45, ''scheduleToCloseTimeoutSeconds'', T_I32), (50, ''scheduleToStartTimeoutSeconds'', T_I32),
      (55, ''startToCloseTimeoutSeconds'', T_I32), (60, ''heartbeatTimeoutSeconds'', T_I32),
      (70, ''retryPolicy'', T_STRUCT ''RetryPolicy''), (80, ''header'', T_STRUCT ''Header'')]"

definition StartTimerDecisionAttributes_FIELDS :: field_table where
  "StartTimerDecisionAttributes_FIELDS =
     [(10, ''timerId'', T_STRING), (20, ''startToFireTimeoutSeconds'', T_I64)]"

definition CompleteWorkflowExecutionDecisionAttributes_FIELDS :: field_table where
  "CompleteWorkflowExecutionDecisionAttributes_FIELDS =
     [(10, ''result'', T_STRING)]"

definition FailWorkflowExecutionDecisionAttributes_FIELDS :: field_table where
  "FailWorkflowExecutionDecisionAttributes_FIELDS =
     [(10, ''reason'', T_STRING), (20, ''details'', T_STRING)]"

definition RequestCancelActivityTaskDecisionAttributes_FIELDS :: field_table where
  "RequestCancelActivityTaskDecisionAttributes_FIELDS =
     [(10, ''activityId'', T_STRING)]"

definition CancelTimerDecisionAttributes_FIELDS :: field_table where
  "CancelTimerDecisionAttributes_FIELDS =
     [(10, ''timerId'', T_STRING)]"

definition RecordMarkerDecisionAttributes_FIELDS :: field_table where
  "RecordMarkerDecisionAttributes_FIELDS =
     [(10, ''markerName'', T_STRING), (20, ''details'', T_STRING),
      (30, ''header'', T_STRUCT ''Header'')]"

definition StartChildWorkflowExecutionDecisionAttributes_FIELDS :: field_table where
  "StartChildWorkflowExecutionDecisionAttributes_FIELDS =
     [(10, ''domain'', T_STRING), (20, ''workflowId'', T_STRING),
      (30, ''workflowType'', T_STRUCT ''WorkflowType''), (40, ''taskList'', T_STRUCT ''TaskList''),
      (50, ''input'', T_STRING), (60, ''executionStartToCloseTimeoutSeconds'', T_I32),
      (70, ''taskStartToCloseTimeoutSeconds'', T_I32),
      (81, ''parentClosePolicy'', T_ENUM ParentClosePolicy_VALID_VALUES), (90, ''control'', T_STRING),
      (100, ''workflowIdReusePolicy'', T_ENUM WorkflowIdReusePolicy_VALID_VALUES),
      (110, ''retryPolicy'', T_STRUCT ''RetryPolicy''), (120, ''cronSchedule'', T_STRING),
      (130, ''header'', T_STRUCT ''Header''), (140, ''memo'', T_STRUCT ''Memo''),
      (150, ''searchAttributes'', T_STRUCT ''SearchAttributes'')]"

definition Decision_FIELDS :: field_table where
  "Decision_FIELDS =
     [(10, ''decisionType'', T_ENUM DecisionType_VALID_VALUES),
      (20, ''scheduleActivityTaskDecisionAttributes'', T_STRUCT ''ScheduleActivityTaskDecisionAttributes''),
      (25, ''startTimerDecisionAttributes'', T_STRUCT ''StartTimerDecisionAttributes''),
      (30, ''completeWorkflowExecutionDecisionAttributes'', T_STRUCT ''CompleteWorkflowExecutionDecisionAttributes''),
      (35, ''failWorkflowExecutionDecisionAttributes'', T_STRUCT ''FailWorkflowExecutionDecisionAttributes''),
      (40, ''requestCancelActivityTaskDecisionAttributes'', T_STRUCT ''RequestCancelActivityTaskDecisionAttributes''),
      (50, ''cancelTimerDecisionAttributes'', T_STRUCT ''CancelTimerDecisionAttributes''),
      (60, ''cancelWorkflowExecutionDecisionAttributes'', T_STRUCT ''CancelWorkflowExecutionDecisionAttributes''),
      (70, ''requestCancelExternalWorkflowExecutionDecisionAttributes'', T_STRUCT ''RequestCancelExternalWorkflowExecutionDecisionAttributes''),
      (80, ''recordMarkerDecisionAttributes'', T_STRUCT ''RecordMarkerDecisionAttributes''),
      (90, ''continueAsNewWorkflowExecutionDecisionAttributes'', T_STRUCT ''ContinueAsNewWorkflowExecutionDecisionAttributes''),
      (100, ''startChildWorkflowExecutionDecisionAttributes'', T_STRUCT ''StartChildWorkflowExecutionDecisionAttributes''),
      (110, ''signalExternalWorkflowExecutionDecisionAttributes'', T_STRUCT ''SignalExternalWorkflowExecutionDecisionAttributes''),
      (120, ''upsertWorkflowSearchAttributesDecisionAttributes'', T_STRUCT ''UpsertWorkflowSearchAttributesDecisionAttributes'')]"

definition WorkflowExecution_FIELDS :: field_table where
  "WorkflowExecution_FIELDS =
     [(10, ''workflowId'', T_STRING), (20, ''runId'', T_STRING)]"

definition StartTimeFilter_FIELDS :: field_table where
  "StartTimeFilter_FIELDS =
     [(10, ''earliestTime'', T_I64), (20, ''latestTime'', T_I64)]"

definition WorkflowExecutionFilter_FIELDS :: field_table where
  "WorkflowExecutionFilter_FIELDS =
     [(10, ''workflowId'', T_STRING), (20, ''runId'', T_STRING)]"

definition WorkflowTypeFilter_FIELDS :: field_table where
  "WorkflowTypeFilter_FIELDS =
     [(10, ''name'', T_STRING)]"

definition RegisterDomainRequest_FIELDS :: field_table where
  "RegisterDomainRequest_FIELDS =
     [(10, ''name'', T_STRING), (20, ''description'', T_STRING), (30, ''ownerEmail'', T_STRING),
      (40, ''workflowExecutionRetentionPeriodInDays'', T_I32), (50, ''emitMetric'', T_BOOL),
      (60, ''clusters'', T_LIST (T_STRUCT ''ClusterReplicationConfiguration'')),
      (70, ''activeClusterName'', T_STRING), (80, ''data'', T_MAP T_STRING T_STRING),
      (90, ''securityToken'', T_STRING), (120, ''isGlobalDomain'', T_BOOL),
      (130, ''historyArchivalStatus'', T_ENUM ArchivalStatus_VALID_VALUES),
      (140, ''historyArchivalURI'', T_STRING),
      (150, ''visibilityArchivalStatus'', T_ENUM ArchivalStatus_VALID_VALUES),
      (160, ''visibilityArchivalURI'', T_STRING)]"

definition DescribeDomainRequest_FIELDS :: field_table where
  "DescribeDomainRequest_FIELDS =
     [(10, ''name'', T_STRING), (20, ''uuid'', T_STRING)]"

definition ListDomainsRequest_FIELDS :: field_table where
  "ListDomainsRequest_FIELDS =
     [(10, ''pageSize'', T_I32), (20, ''nextPageToken'', T_STRING)]"

definition UpdateDomainRequest_FIELDS :: field_table where
  "UpdateDomainRequest_FIELDS =
     [(10, ''name'', T_STRING), (20, ''updatedInfo'', T_STRUCT ''UpdateDomainInfo''),
      (30, ''configuration'', T_STRUCT ''DomainConfiguration''),
      (40, ''replicationConfiguration'', T_STRUCT ''DomainReplicationConfiguration''),
      (50, ''securityToken'', T_STRING), (60, ''deleteBadBinary'', T_STRING)]"

definition DeprecateDomainRequest_FIELDS :: field_table where
  "DeprecateDomainRequest_FIELDS =
     [(10, ''name'', T_STRING), (20, ''securityToken'', T_STRING)]"

definition StartWorkflowExecutionRequest_FIELDS :: field_table where
  "StartWorkflowExecutionRequest_FIELDS =
     [(10, ''domain'', T_STRING), (20, ''workflowId'', T_STRING),
      (30, ''workflowType'', T_STRUCT ''WorkflowType''), (40, ''taskList'', T_STRUCT ''TaskList''),
      (50, ''input'', T_STRING), (60, ''executionStartToCloseTimeoutSeconds'', T_I32),
      (70, ''taskStartToCloseTimeoutSeconds'', T_I32), (80, ''identity'', T_STRING),
      (90, ''requestId'', T_STRING),
      (100, ''workflowIdReusePolicy'', T_ENUM WorkflowIdReusePolicy_VALID_VALUES),
      (120, ''retryPolicy'', T_STRUCT ''RetryPolicy''), (130, ''cronSchedule'', T_STRING),
      (140, ''memo'', T_STRUCT ''Memo''), (141, ''searchAttributes'', T_STRUCT ''SearchAttributes''),
      (150, ''header'', T_STRUCT ''Header'')]"

definition GetWorkflowExecutionHistoryRequest_FIELDS :: field_table where
  "GetWorkflowExecutionHistoryRequest_FIELDS =
     [(10, ''domain'', T_STRING), (20, ''execution'', T_STRUCT ''WorkflowExecution''),
      (30, ''maximumPageSize'', T_I32), (40, ''nextPageToken'', T_STRING),
      (50, ''waitForNewEvent'', T_BOOL),
      (60, ''HistoryEventFilterType'', T_ENUM HistoryEventFilterType_VALID_VALUES)]"

definition PollForDecisionTaskRequest_FIELDS :: field_table where
  "PollForDecisionTaskRequest_FIELDS =
     [(10, ''domain'', T_STRING), (20, ''taskList'', T_STRUCT ''TaskList''),
      (30, ''identity'', T_STRING), (40, ''binaryChecksum'', T_STRING)]"

definition RespondDecisionTaskCompletedRequest_FIELDS :: field_table where
  "RespondDecisionTaskCompletedRequest_FIELDS =
     [(10, ''taskToken'', T_STRING), (20, ''decisions'', T_LIST (T_STRUCT ''Decision'')),
      (30, ''executionContext'', T_STRING), (40, ''identity'', T_STRING),
      (50, ''stickyAttributes'', T_STRUCT ''StickyExecutionAttributes''),
      (60, ''returnNewDecisionTask'', T_BOOL), (70, ''forceCreateNewDecisionTask'', T_BOOL),
      (80, ''binaryChecksum'', T_STRING),
      (90, ''queryResults'', T_LIST (T_STRUCT ''WorkflowQueryResult''))]"

definition RespondDecisionTaskFailedRequest_FIELDS :: field_table where
  "RespondDecisionTaskFailedRequest_FIELDS =
     [(10, ''taskToken'', T_STRING), (20, ''cause'', T_ENUM DecisionTaskFailedCause_VALID_VALUES),
      (30, ''details'', T_STRING), (40, ''identity'', T_STRING)]"

definition PollForActivityTaskRequest_FIELDS :: field_table where
  "PollForActivityTaskRequest_FIELDS =
     [(10, ''domain'', T_STRING), (20, ''taskList'', T_STRUCT ''TaskList''),
      (30, ''identity'', T_STRING), (40, ''taskListMetadata'', T_STRUCT ''TaskListMetadata'')]"

definition RecordActivityTaskHeartbeatRequest_FIELDS :: field_table where
  "RecordActivityTaskHeartbeatRequest_FIELDS =
     [(10, ''taskToken'', T_STRING), (20, ''details'', T_STRING), (30, ''identity'', T_STRING)]"

definition RespondActivityTaskCompletedRequest_FIELDS :: field_table where
  "RespondActivityTaskCompletedRequest_FIELDS =
     [(10, ''taskToken'', T_STRING), (20, ''result'', T_STRING), (30, ''identity'', T_STRING)]"

definition RespondActivityTaskCompletedByIDRequest_FIELDS :: field_table where
  "RespondActivityTaskCompletedByIDRequest_FIELDS =
     [(10, ''domain'', T_STRING), (20, ''workflowID'', T_STRING), (30, ''runID'', T_STRING),
      (40, ''activityID'', T_STRING), (50, ''result'', T_STRING), (60, ''identity'', T_STRING)]"

definition RespondActivityTaskFailedRequest_FIELDS :: field_table where
  "RespondActivityTaskFailedRequest_FIELDS =
     [(10, ''taskToken'', T_STRING), (20, ''reason'', T_STRING), (30, ''details'', T_STRING),
      (40, ''identity'', T_STRING)]"

definition RespondActivityTaskFailedByIDRequest_FIELDS :: field_table where
  "RespondActivityTaskFailedByIDRequest_FIELDS =
     [(10, ''domain'', T_STRING), (20, ''workflowID'', T_STRING), (30, ''runID'', T_STRING),
      (40, ''activityID'', T_STRING), (50, ''reason'', T_STRING), (60, ''details'', T_STRING),
      (70, ''identity'', T_STRING)]"

definition RespondActivityTaskCanceledRequest_FIELDS :: field_table where
  "RespondActivityTaskCanceledRequest_FIELDS =
     [(10, ''taskToken'', T_STRING), (20, ''details'', T_STRING), (30, ''identity'', T_STRING)]"

definition SignalWorkflowExecutionRequest_FIELDS :: field_table where
  "SignalWorkflowExecutionRequest_FIELDS =
     [(10, ''domain'', T_STRING), (20, ''workflowExecution'', T_STRUCT ''WorkflowExecution''),
      (30, ''signalName'', T_STRING), (40, ''input'', T_STRING), (50, ''identity'', T_STRING),
      (60, ''requestId'', T_STRING), (70, ''control'', T_STRING)]"

definition ResetWorkflowExecutionRequest_FIELDS :: field_table where
  "ResetWorkflowExecutionRequest_FIELDS =
     [(10, ''domain'', T_STRING), (20, ''workflowExecution'', T_STRUCT ''WorkflowExecution''),
      (30, ''reason'', T_STRING), (40, ''decisionFinishEventId'', T_I64), (50, ''requestId'', T_STRING)]"

definition TerminateWorkflowExecutionRequest_FIELDS :: field_table where
  "TerminateWorkflowExecutionRequest_FIELDS =
     [(10, ''domain'', T_STRING), (20, ''workflowExecution'', T_STRUCT ''WorkflowExecution''),
      (30, ''reason'', T_STRING), (40, ''details'', T_STRING), (50, ''identity'', T_STRING)]"

definition ListOpenWorkflowExecutionsRequest_FIELDS :: field_table where
  "ListOpenWorkflowExecutionsRequest_FIELDS =
     [(10, ''domain'', T_STRING), (20, ''maximumPageSize'', T_I32), (30, ''nextPageToken'', T_STRING),
      (40, ''StartTimeFilter'', T_STRUCT ''StartTimeFilter''),
      (50, ''executionFilter'', T_STRUCT ''WorkflowExecutionFilter''),
      (60, ''typeFilter'', T_STRUCT ''WorkflowTypeFilter'')]"

definition ListClosedWorkflowExecutionsRequest_FIELDS :: field_table where
  "ListClosedWorkflowExecutionsRequest_FIELDS =
     [(10, ''domain'', T_STRING), (20, ''maximumPageSize'', T_I32), (30, ''nextPageToken'', T_STRING),
      (40, ''StartTimeFilter'', T_STRUCT ''StartTimeFilter''),
      (50, ''executionFilter'', T_STRUCT ''WorkflowExecutionFilter''),
      (60, ''typeFilter'', T_STRUCT ''WorkflowTypeFilter''),
      (70, ''statusFilter'', T_ENUM WorkflowExecutionCloseStatus_VALID_VALUES)]"

definition DescribeWorkflowExecutionRequest_FIELDS :: field_table where
  "DescribeWorkflowExecutionRequest_FIELDS =
     [(10, ''domain'', T_STRING), (20, ''execution'', T_STRUCT ''WorkflowExecution'')]"

definition DescribeTaskListRequest_FIELDS :: field_table where
  "DescribeTaskListRequest_FIELDS =
     [(10, ''domain'', T_STRING), (20, ''taskList'', T_STRUCT ''TaskList''),
      (30, ''taskListType'', T_ENUM TaskListType_VALID_VALUES), (40, ''includeTaskListStatus'', T_BOOL)]"

text \<open>\<open>struct_fields\<close> of a class.\<close>

definition struct_fields :: "string \<Rightarrow> field_table option" where
  "struct_fields = map_of
     [(''ActivityType'', ActivityType_FIELDS),
      (''WorkflowType'', WorkflowType_FIELDS),
      (''TaskList'', TaskList_FIELDS),
      (''Header'', Header_FIELDS),
      (''RetryPolicy'', RetryPolicy_FIELDS),
      (''ScheduleActivityTaskDecisionAttributes'', ScheduleActivityTaskDecisionAttributes_FIELDS),
      (''StartTimerDecisionAttributes'', StartTimerDecisionAttributes_FIELDS),
      (''CompleteWorkflowExecutionDecisionAttributes'', CompleteWorkflowExecutionDecisionAttributes_FIELDS),
      (''FailWorkflowExecutionDecisionAttributes'', FailWorkflowExecutionDecisionAttributes_FIELDS),
      (''RequestCancelActivityTaskDecisionAttributes'', RequestCancelActivityTaskDecisionAttributes_FIELDS),
      (''CancelTimerDecisionAttributes'', CancelTimerDecisionAttributes_FIELDS),
      (''RecordMarkerDecisionAttributes'', RecordMarkerDecisionAttributes_FIELDS),
      (''StartChildWorkflowExecutionDecisionAttributes'', StartChildWorkflowExecutionDecisionAttributes_FIELDS),
      (''Decision'', Decision_FIELDS),
      (''WorkflowExecution'', WorkflowExecution_FIELDS),
      (''StartTimeFilter'', StartTimeFilter_FIELDS),
      (''WorkflowExecutionFilter'', WorkflowExecutionFilter_FIELDS),
      (''WorkflowTypeFilter'', WorkflowTypeFilter_FIELDS),
      (''RegisterDomainRequest'', RegisterDomainRequest_FIELDS),
      (''DescribeDomainRequest'', DescribeDomainRequest_FIELDS),
      (''ListDomainsRequest'', ListDomainsRequest_FIELDS),
      (''UpdateDomainRequest'', UpdateDomainRequest_FIELDS),
      (''DeprecateDomainRequest'', DeprecateDomainRequest_FIELDS),
      (''StartWorkflowExecutionRequest'', StartWorkflowExecutionRequest_FIELDS),
      (''GetWorkflowExecutionHistoryRequest'', GetWorkflowExecutionHistoryRequest_FIELDS),
      (''PollForDecisionTaskRequest'', PollForDecisionTaskRequest_FIELDS),
      (''RespondDecisionTaskCompletedRequest'', RespondDecisionTaskCompletedRequest_FIELDS),
      (''RespondDecisionTaskFailedRequest'', RespondDecisionTaskFailedRequest_FIELDS),
      (''PollForActivityTaskRequest'', PollForActivityTaskRequest_FIELDS),
      (''RecordActivityTaskHeartbeatRequest'', RecordActivityTaskHeartbeatRequest_FIELDS),
      (''RespondActivityTaskCompletedRequest'', RespondActivityTaskCompletedRequest_FIELDS),
      (''RespondActivityTaskCompletedByIDRequest'', RespondActivityTaskCompletedByIDRequest_FIELDS),
      (''RespondActivityTaskFailedRequest'', RespondActivityTaskFailedRequest_FIELDS),
      (''RespondActivityTaskFailedByIDRequest'', RespondActivityTaskFailedByIDRequest_FIELDS),
      (''RespondActivityTaskCanceledRequest'', RespondActivityTaskCanceledRequest_FIELDS),
      (''SignalWorkflowExecutionRequest'', SignalWorkflowExecutionRequest_FIELDS),
      (''ResetWorkflowExecutionRequest'', ResetWorkflowExecutionRequest_FIELDS),
      (''TerminateWorkflowExecutionRequest'', TerminateWorkflowExecutionRequest_FIELDS),
      (''ListOpenWorkflowExecutionsRequest'', ListOpenWorkflowExecutionsRequest_FIELDS),
      (''ListClosedWorkflowExecutionsRequest'', ListClosedWorkflowExecutionsRequest_FIELDS),
      (''DescribeWorkflowExecutionRequest'', DescribeWorkflowExecutionRequest_FIELDS),
      (''DescribeTaskListRequest'', DescribeTaskListRequest_FIELDS)]"

definition field_type :: "field_table \<Rightarrow> string \<Rightarrow> thrift_type option" where
  "field_type table name = map_of (List.map snd table) name"

lemma ActivityType_types [simp]:
  "field_type ActivityType_FIELDS ''name'' = Some T_STRING"
  by code_simp+

lemma WorkflowType_types [simp]:
  "field_type WorkflowType_FIELDS ''name'' = Some T_STRING"
  by code_simp+

lemma TaskList_types [simp]:
  "field_type TaskList_FIELDS ''name'' = Some T_STRING"
  "field_type TaskList_FIELDS ''kind'' = Some (T_ENUM TaskListKind_VALID_VALUES)"
  by code_simp+

lemma Header_types [simp]:
  "field_type Header_FIELDS ''fields'' = Some (T_MAP T_STRING T_STRING)"
  by code_simp+

lemma RetryPolicy_types [simp]:
  "field_type RetryPolicy_FIELDS ''initialIntervalInSeconds'' = Some T_I32"
  "field_type RetryPolicy_FIELDS ''backoffCoefficient'' = Some T_DOUBLE"
  "field_type RetryPolicy_FIELDS ''maximumIntervalInSeconds'' = Some T_I32"
  "field_type RetryPolicy_FIELDS ''maximumAttempts'' = Some T_I32"
  "field_type RetryPolicy_FIELDS ''nonRetriableErrorReasons'' = Some (T_LIST T_STRING)"
  "field_type RetryPolicy_FIELDS ''expirationIntervalInSeconds'' = Some T_I32"
  by code_simp+

lemma ScheduleActivityTaskDecisionAttributes_types [simp]:
  "field_type ScheduleActivityTaskDecisionAttributes_FIELDS ''activityId'' = Some T_STRING"
  "field_type ScheduleActivityTaskDecisionAttributes_FIELDS ''activityType'' = Some (T_STRUCT ''ActivityType'')"
  "field_type ScheduleActivityTaskDecisionAttributes_FIELDS ''domain'' = Some T_STRING"
  "field_type ScheduleActivityTaskDecisionAttributes_FIELDS ''taskList'' = Some (T_STRUCT ''TaskList'')"
  "field_type ScheduleActivityTaskDecisionAttributes_FIELDS ''input'' = Some T_STRING"
  "field_type ScheduleActivityTaskDecisionAttributes_FIELDS ''scheduleToCloseTimeoutSeconds'' = Some T_I32"
  "field_type ScheduleActivityTaskDecisionAttributes_FIELDS ''scheduleToStartTimeoutSeconds'' = Some T_I32"
  "field_type ScheduleActivityTaskDecisionAttributes_FIELDS ''startToCloseTimeoutSeconds'' = Some T_I32"
  "field_type ScheduleActivityTaskDecisionAttributes_FIELDS ''heartbeatTimeoutSeconds'' = Some T_I32"
  "field_type ScheduleActivityTaskDecisionAttributes_FIELDS ''retryPolicy'' = Some (T_STRUCT ''RetryPolicy'')"
  "field_type ScheduleActivityTaskDecisionAttributes_FIELDS ''header'' = Some (T_STRUCT ''Header'')"
  by code_simp+

lemma StartTimerDecisionAttributes_types [simp]:
  "field_type StartTimerDecisionAttributes_FIELDS ''timerId'' = Some T_STRING"
  "field_type StartTimerDecisionAttributes_FIELDS ''startToFireTimeoutSeconds'' = Some T_I64"
  by code_simp+

lemma CompleteWorkflowExecutionDecisionAttributes_types [simp]:
  "field_type CompleteWorkflowExecutionDecisionAttributes_FIELDS ''result'' = Some T_STRING"
  by code_simp+

lemma FailWorkflowExecutionDecisionAttributes_types [simp]:
  "field_type FailWorkflowExecutionDecisionAttributes_FIELDS ''reason'' = Some T_STRING"
  "field_type FailWorkflowExecutionDecisionAttributes_FIELDS ''details'' = Some T_STRING"
  by code_simp+

lemma RequestCancelActivityTaskDecisionAttributes_types [simp]:
  "field_type RequestCancelActivityTaskDecisionAttributes_FIELDS ''activityId'' = Some T_STRING"
  by code_simp+

lemma CancelTimerDecisionAttributes_types [simp]:
  "field_type CancelTimerDecisionAttributes_FIELDS ''timerId'' = Some T_STRING"
  by code_simp+

lemma RecordMarkerDecisionAttributes_types [simp]:
  "field_type RecordMarkerDecisionAttributes_FIELDS ''markerName'' = Some T_STRING"
  "field_type RecordMarkerDecisionAttributes_FIELDS ''details'' = Some T_STRING"
  "field_type RecordMarkerDecisionAttributes_FIELDS ''header'' = Some (T_STRUCT ''Header'')"
  by code_simp+

lemma StartChildWorkflowExecutionDecisionAttributes_types [simp]:
  "field_type StartChildWorkflowExecutionDecisionAttributes_FIELDS ''domain'' = Some T_STRING"
  "field_type StartChildWorkflowExecutionDecisionAttributes_FIELDS ''workflowId'' = Some T_STRING"
  "field_type StartChildWorkflowExecutionDecisionAttributes_FIELDS ''workflowType'' = Some (T_STRUCT ''WorkflowType'')"
  "field_type StartChildWorkflowExecutionDecisionAttributes_FIELDS ''taskList'' = Some (T_STRUCT ''TaskList'')"
  "field_type StartChildWorkflowExecutionDecisionAttributes_FIELDS ''input'' = Some T_STRING"
  "field_type StartChildWorkflowExecutionDecisionAttributes_FIELDS ''executionStartToCloseTimeoutSeconds'' = Some T_I32"
  "field_type StartChildWorkflowExecutionDecisionAttributes_FIELDS ''taskStartToCloseTimeoutSeconds'' = Some T_I32"
  "field_type StartChildWorkflowExecutionDecisionAttributes_FIELDS ''parentClosePolicy'' = Some (T_ENUM ParentClosePolicy_VALID_VALUES)"
  "field_type StartChildWorkflowExecutionDecisionAttributes_FIELDS ''control'' = Some T_STRING"
  "field_type StartChildWorkflowExecutionDecisionAttributes_FIELDS ''workflowIdReusePolicy'' = Some (T_ENUM WorkflowIdReusePolicy_VALID_VALUES)"
  "field_type StartChildWorkflowExecutionDecisionAttributes_FIELDS ''retryPolicy'' = Some (T_STRUCT ''RetryPolicy'')"
  "field_type StartChildWorkflowExecutionDecisionAttributes_FIELDS ''cronSchedule'' = Some T_STRING"
  "field_type StartChildWorkflowExecutionDecisionAttributes_FIELDS ''header'' = Some (T_STRUCT ''Header'')"
  "field_type StartChildWorkflowExecutionDecisionAttributes_FIELDS ''memo'' = Some (T_STRUCT ''Memo'')"
  "field_type StartChildWorkflowExecutionDecisionAttributes_FIELDS ''searchAttributes'' = Some (T_STRUCT ''SearchAttributes'')"
  by code_simp+

lemma Decision_types [simp]:
  "field_type Decision_FIELDS ''decisionType'' = Some (T_ENUM DecisionType_VALID_VALUES)"
  "field_type Decision_FIELDS ''scheduleActivityTaskDecisionAttributes'' = Some (T_STRUCT ''ScheduleActivityTaskDecisionAttributes'')"
  "field_type Decision_FIELDS ''startTimerDecisionAttributes'' = Some (T_STRUCT ''StartTimerDecisionAttributes'')"
  "field_type Decision_FIELDS ''completeWorkflowExecutionDecisionAttributes'' = Some (T_STRUCT ''CompleteWorkflowExecutionDecisionAttributes'')"
  "field_type Decision_FIELDS ''failWorkflowExecutionDecisionAttributes'' = Some (T_STRUCT ''FailWorkflowExecutionDecisionAttributes'')"
  "field_type Decision_FIELDS ''requestCancelActivityTaskDecisionAttributes'' = Some (T_STRUCT ''RequestCancelActivityTaskDecisionAttributes'')"
  "field_type Decision_FIELDS ''cancelTimerDecisionAttributes'' = Some (T_STRUCT ''CancelTimerDecisionAttributes'')"
  "field_type Decision_FIELDS ''cancelWorkflowExecutionDecisionAttributes'' = Some (T_STRUCT ''CancelWorkflowExecutionDecisionAttributes'')"
  "field_type Decision_FIELDS ''requestCancelExternalWorkflowExecutionDecisionAttributes'' = Some (T_STRUCT ''RequestCancelExternalWorkflowExecutionDecisionAttributes'')"
  "field_type Decision_FIELDS ''recordMarkerDecisionAttributes'' = Some (T_STRUCT ''RecordMarkerDecisionAttributes'')"
  "field_type Decision_FIELDS ''continueAsNewWorkflowExecutionDecisionAttributes'' = Some (T_STRUCT ''ContinueAsNewWorkflowExecutionDecisionAttributes'')"
  "field_type Decision_FIELDS ''startChildWorkflowExecutionDecisionAttributes'' = Some (T_STRUCT ''StartChildWorkflowExecutionDecisionAttributes'')"
  "field_type Decision_FIELDS ''signalExternalWorkflowExecutionDecisionAttributes'' = Some (T_STRUCT ''SignalExternalWorkflowExecutionDecisionAttributes'')"
  "field_type Decision_FIELDS ''upsertWorkflowSearchAttributesDecisionAttributes'' = Some (T_STRUCT ''UpsertWorkflowSearchAttributesDecisionAttributes'')"
  by code_simp+

lemma WorkflowExecution_types [simp]:
  "field_type WorkflowExecution_FIELDS ''workflowId'' = Some T_STRING"
  "field_type WorkflowExecution_FIELDS ''runId'' = Some T_STRING"
  by code_simp+

lemma StartTimeFilter_types [simp]:
  "field_type StartTimeFilter_FIELDS ''earliestTime'' = Some T_I64"
  "field_type StartTimeFilter_FIELDS ''latestTime'' = Some T_I64"
  by code_simp+

lemma WorkflowExecutionFilter_types [simp]:
  "field_type WorkflowExecutionFilter_FIELDS ''workflowId'' = Some T_STRING"
  "field_type WorkflowExecutionFilter_FIELDS ''runId'' = Some T_STRING"
  by code_simp+

lemma WorkflowTypeFilter_types [simp]:
  "field_type WorkflowTypeFilter_FIELDS ''name'' = Some T_STRING"
  by code_simp+

lemma RegisterDomainRequest_types [simp]:
  "field_type RegisterDomainRequest_FIELDS ''name'' = Some T_STRING"
  "field_type RegisterDomainRequest_FIELDS ''description'' = Some T_STRING"
  "field_type RegisterDomainRequest_FIELDS ''ownerEmail'' = Some T_STRING"
  "field_type RegisterDomainRequest_FIELDS ''workflowExecutionRetentionPeriodInDays'' = Some T_I32"
  "field_type RegisterDomainRequest_FIELDS ''emitMetric'' = Some T_BOOL"
  "field_type RegisterDomainRequest_FIELDS ''clusters'' = Some (T_LIST (T_STRUCT ''ClusterReplicationConfiguration''))"
  "field_type RegisterDomainRequest_FIELDS ''activeClusterName'' = Some T_STRING"
  "field_type RegisterDomainRequest_FIELDS ''data'' = Some (T_MAP T_STRING T_STRING)"
  "field_type RegisterDomainRequest_FIELDS ''securityToken'' = Some T_STRING"
  "field_type RegisterDomainRequest_FIELDS ''isGlobalDomain'' = Some T_BOOL"
  "field_type RegisterDomainRequest_FIELDS ''historyArchivalStatus'' = Some (T_ENUM ArchivalStatus_VALID_VALUES)"
  "field_type RegisterDomainRequest_FIELDS ''historyArchivalURI'' = Some T_STRING"
  "field_type RegisterDomainRequest_FIELDS ''visibilityArchivalStatus'' = Some (T_ENUM ArchivalStatus_VALID_VALUES)"
  "field_type RegisterDomainRequest_FIELDS ''visibilityArchivalURI'' = Some T_STRING"
  by code_simp+

lemma DescribeDomainRequest_types [simp]:
  "field_type DescribeDomainRequest_FIELDS ''name'' = Some T_STRING"
  "field_type DescribeDomainRequest_FIELDS ''uuid'' = Some T_STRING"
  by code_simp+

lemma ListDomainsRequest_types [simp]:
  "field_type ListDomainsRequest_FIELDS ''pageSize'' = Some T_I32"
  "field_type ListDomainsRequest_FIELDS ''nextPageToken'' = Some T_STRING"
  by code_simp+

lemma UpdateDomainRequest_types [simp]:
  "field_type UpdateDomainRequest_FIELDS ''name'' = Some T_STRING"
  "field_type UpdateDomainRequest_FIELDS ''updatedInfo'' = Some (T_STRUCT ''UpdateDomainInfo'')"
  "field_type UpdateDomainRequest_FIELDS ''configuration'' = Some (T_STRUCT ''DomainConfiguration'')"
  "field_type UpdateDomainRequest_FIELDS ''replicationConfiguration'' = Some (T_STRUCT ''DomainReplicationConfiguration'')"
  "field_type UpdateDomainRequest_FIELDS ''securityToken'' = Some T_STRING"
  "field_type UpdateDomainRequest_FIELDS ''deleteBadBinary'' = Some T_STRING"
  by code_simp+

lemma DeprecateDomainRequest_types [simp]:
  "field_type DeprecateDomainRequest_FIELDS ''name'' = Some T_STRING"
  "field_type DeprecateDomainRequest_FIELDS ''securityToken'' = Some T_STRING"
  by code_simp+

lemma StartWorkflowExecutionRequest_types [simp]:
  "field_type StartWorkflowExecutionRequest_FIELDS ''domain'' = Some T_STRING"
  "field_type StartWorkflowExecutionRequest_FIELDS ''workflowId'' = Some T_STRING"
  "field_type StartWorkflowExecutionRequest_FIELDS ''workflowType'' = Some (T_STRUCT ''WorkflowType'')"
  "field_type StartWorkflowExecutionRequest_FIELDS ''taskList'' = Some (T_STRUCT ''TaskList'')"
  "field_type StartWorkflowExecutionRequest_FIELDS ''input'' = Some T_STRING"
  "field_type StartWorkflowExecutionRequest_FIELDS ''executionStartToCloseTimeoutSeconds'' = Some T_I32"
  "field_type StartWorkflowExecutionRequest_FIELDS ''taskStartToCloseTimeoutSeconds'' = Some T_I32"
  "field_type StartWorkflowExecutionRequest_FIELDS ''identity'' = Some T_STRING"
  "field_type StartWorkflowExecutionRequest_FIELDS ''requestId'' = Some T_STRING"
  "field_type StartWorkflowExecutionRequest_FIELDS ''workflowIdReusePolicy'' = Some (T_ENUM WorkflowIdReusePolicy_VALID_VALUES)"
  "field_type StartWorkflowExecutionRequest_FIELDS ''retryPolicy'' = Some (T_STRUCT ''RetryPolicy'')"
  "field_type StartWorkflowExecutionRequest_FIELDS ''cronSchedule'' = Some T_STRING"
  "field_type StartWorkflowExecutionRequest_FIELDS ''memo'' = Some (T_STRUCT ''Memo'')"
  "field_type StartWorkflowExecutionRequest_FIELDS ''searchAttributes'' = Some (T_STRUCT ''SearchAttributes'')"
  "field_type StartWorkflowExecutionRequest_FIELDS ''header'' = Some (T_STRUCT ''Header'')"
  by code_simp+

lemma GetWorkflowExecutionHistoryRequest_types [simp]:
  "field_type GetWorkflowExecutionHistoryRequest_FIELDS ''domain'' = Some T_STRING"
  "field_type GetWorkflowExecutionHistoryRequest_FIELDS ''execution'' = Some (T_STRUCT ''WorkflowExecution'')"
  "field_type GetWorkflowExecutionHistoryRequest_FIELDS ''maximumPageSize'' = Some T_I32"
  "field_type GetWorkflowExecutionHistoryRequest_FIELDS ''nextPageToken'' = Some T_STRING"
  "field_type GetWorkflowExecutionHistoryRequest_FIELDS ''waitForNewEvent'' = Some T_BOOL"
  "field_type GetWorkflowExecutionHistoryRequest_FIELDS ''HistoryEventFilterType'' = Some (T_ENUM HistoryEventFilterType_VALID_VALUES)"
  by code_simp+

lemma PollForDecisionTaskRequest_types [simp]:
  "field_type PollForDecisionTaskRequest_FIELDS ''domain'' = Some T_STRING"
  "field_type PollForDecisionTaskRequest_FIELDS ''taskList'' = Some (T_STRUCT ''TaskList'')"
  "field_type PollForDecisionTaskRequest_FIELDS ''identity'' = Some T_STRING"
  "field_type PollForDecisionTaskRequest_FIELDS ''binaryChecksum'' = Some T_STRING"
  by code_simp+

lemma RespondDecisionTaskCompletedRequest_types [simp]:
  "field_type RespondDecisionTaskCompletedRequest_FIELDS ''taskToken'' = Some T_STRING"
  "field_type RespondDecisionTaskCompletedRequest_FIELDS ''decisions'' = Some (T_LIST (T_STRUCT ''Decision''))"
  "field_type RespondDecisionTaskCompletedRequest_FIELDS ''executionContext'' = Some T_STRING"
  "field_type RespondDecisionTaskCompletedRequest_FIELDS ''identity'' = Some T_STRING"
  "field_type RespondDecisionTaskCompletedRequest_FIELDS ''stickyAttributes'' = Some (T_STRUCT ''StickyExecutionAttributes'')"
  "field_type RespondDecisionTaskCompletedRequest_FIELDS ''returnNewDecisionTask'' = Some T_BOOL"
  "field_type RespondDecisionTaskCompletedRequest_FIELDS ''forceCreateNewDecisionTask'' = Some T_BOOL"
  "field_type RespondDecisionTaskCompletedRequest_FIELDS ''binaryChecksum'' = Some T_STRING"
  "field_type RespondDecisionTaskCompletedRequest_FIELDS ''queryResults'' = Some (T_LIST (T_STRUCT ''WorkflowQueryResult''))"
  by code_simp+

lemma RespondDecisionTaskFailedRequest_types [simp]:
  "field_type RespondDecisionTaskFailedRequest_FIELDS ''taskToken'' = Some T_STRING"
  "field_type RespondDecisionTaskFailedRequest_FIELDS ''cause'' = Some (T_ENUM DecisionTaskFailedCause_VALID_VALUES)"
  "field_type RespondDecisionTaskFailedRequest_FIELDS ''details'' = Some T_STRING"
  "field_type RespondDecisionTaskFailedRequest_FIELDS ''identity'' = Some T_STRING"
  by code_simp+

lemma PollForActivityTaskRequest_types [simp]:
  "field_type PollForActivityTaskRequest_FIELDS ''domain'' = Some T_STRING"
  "field_type PollForActivityTaskRequest_FIELDS ''taskList'' = Some (T_STRUCT ''TaskList'')"
  "field_type PollForActivityTaskRequest_FIELDS ''identity'' = Some T_STRING"
  "field_type PollForActivityTaskRequest_FIELDS ''taskListMetadata'' = Some (T_STRUCT ''TaskListMetadata'')"
  by code_simp+

lemma RecordActivityTaskHeartbeatRequest_types [simp]:
  "field_type RecordActivityTaskHeartbeatRequest_FIELDS ''taskToken'' = Some T_STRING"
  "field_type RecordActivityTaskHeartbeatRequest_FIELDS ''details'' = Some T_STRING"
  "field_type RecordActivityTaskHeartbeatRequest_FIELDS ''identity'' = Some T_STRING"
  by code_simp+

lemma RespondActivityTaskCompletedRequest_types [simp]:
  "field_type RespondActivityTaskCompletedRequest_FIELDS ''taskToken'' = Some T_STRING"
  "field_type RespondActivityTaskCompletedRequest_FIELDS ''result'' = Some T_STRING"
  "field_type RespondActivityTaskCompletedRequest_FIELDS ''identity'' = Some T_STRING"
  by code_simp+

lemma RespondActivityTaskCompletedByIDRequest_types [simp]:
  "field_type RespondActivityTaskCompletedByIDRequest_FIELDS ''domain'' = Some T_STRING"
  "field_type RespondActivityTaskCompletedByIDRequest_FIELDS ''workflowID'' = Some T_STRING"
  "field_type RespondActivityTaskCompletedByIDRequest_FIELDS ''runID'' = Some T_STRING"
  "field_type RespondActivityTaskCompletedByIDRequest_FIELDS ''activityID'' = Some T_STRING"
  "field_type RespondActivityTaskCompletedByIDRequest_FIELDS ''result'' = Some T_STRING"
  "field_type RespondActivityTaskCompletedByIDRequest_FIELDS ''identity'' = Some T_STRING"
  by code_simp+

lemma RespondActivityTaskFailedRequest_types [simp]:
  "field_type RespondActivityTaskFailedRequest_FIELDS ''taskToken'' = Some T_STRING"
  "field_type RespondActivityTaskFailedRequest_FIELDS ''reason'' = Some T_STRING"
  "field_type RespondActivityTaskFailedRequest_FIELDS ''details'' = Some T_STRING"
  "field_type RespondActivityTaskFailedRequest_FIELDS ''identity'' = Some T_STRING"
  by code_simp+

lemma RespondActivityTaskFailedByIDRequest_types [simp]:
  "field_type RespondActivityTaskFailedByIDRequest_FIELDS ''domain'' = Some T_STRING"
  "field_type RespondActivityTaskFailedByIDRequest_FIELDS ''workflowID'' = Some T_STRING"
  "field_type RespondActivityTaskFailedByIDRequest_FIELDS ''runID'' = Some T_STRING"
  "field_type RespondActivityTaskFailedByIDRequest_FIELDS ''activityID'' = Some T_STRING"
  "field_type RespondActivityTaskFailedByIDRequest_FIELDS ''reason'' = Some T_STRING"
  "field_type RespondActivityTaskFailedByIDRequest_FIELDS ''details'' = Some T_STRING"
  "field_type RespondActivityTaskFailedByIDRequest_FIELDS ''identity'' = Some T_STRING"
  by code_simp+

lemma RespondActivityTaskCanceledRequest_types [simp]:
  "field_type RespondActivityTaskCanceledRequest_FIELDS ''taskToken'' = Some T_STRING"
  "field_type RespondActivityTaskCanceledRequest_FIELDS ''details'' = Some T_STRING"
  "field_type RespondActivityTaskCanceledRequest_FIELDS ''identity'' = Some T_STRING"
  by code_simp+

lemma SignalWorkflowExecutionRequest_types [simp]:
  "field_type SignalWorkflowExecutionRequest_FIELDS ''domain'' = Some T_STRING"
  "field_type SignalWorkflowExecutionRequest_FIELDS ''workflowExecution'' = Some (T_STRUCT ''WorkflowExecution'')"
  "field_type SignalWorkflowExecutionRequest_FIELDS ''signalName'' = Some T_STRING"
  "field_type SignalWorkflowExecutionRequest_FIELDS ''input'' = Some T_STRING"
  "field_type SignalWorkflowExecutionRequest_FIELDS ''identity'' = Some T_STRING"
  "field_type SignalWorkflowExecutionRequest_FIELDS ''requestId'' = Some T_STRING"
  "field_type SignalWorkflowExecutionRequest_FIELDS ''control'' = Some T_STRING"
  by code_simp+

lemma ResetWorkflowExecutionRequest_types [simp]:
  "field_type ResetWorkflowExecutionRequest_FIELDS ''domain'' = Some T_STRING"
  "field_type ResetWorkflowExecutionRequest_FIELDS ''workflowExecution'' = Some (T_STRUCT ''WorkflowExecution'')"
  "field_type ResetWorkflowExecutionRequest_FIELDS ''reason'' = Some T_STRING"
  "field_type ResetWorkflowExecutionRequest_FIELDS ''decisionFinishEventId'' = Some T_I64"
  "field_type ResetWorkflowExecutionRequest_FIELDS ''requestId'' = Some T_STRING"
  by code_simp+

lemma TerminateWorkflowExecutionRequest_types [simp]:
  "field_type TerminateWorkflowExecutionRequest_FIELDS ''domain'' = Some T_STRING"
  "field_type TerminateWorkflowExecutionRequest_FIELDS ''workflowExecution'' = Some (T_STRUCT ''WorkflowExecution'')"
  "field_type TerminateWorkflowExecutionRequest_FIELDS ''reason'' = Some T_STRING"
  "field_type TerminateWorkflowExecutionRequest_FIELDS ''details'' = Some T_STRING"
  "field_type TerminateWorkflowExecutionRequest_FIELDS ''identity'' = Some T_STRING"
  by code_simp+

lemma ListOpenWorkflowExecutionsRequest_types [simp]:
  "field_type ListOpenWorkflowExecutionsRequest_FIELDS ''domain'' = Some T_STRING"
  "field_type ListOpenWorkflowExecutionsRequest_FIELDS ''maximumPageSize'' = Some T_I32"
  "field_type ListOpenWorkflowExecutionsRequest_FIELDS ''nextPageToken'' = Some T_STRING"
  "field_type ListOpenWorkflowExecutionsRequest_FIELDS ''StartTimeFilter'' = Some (T_STRUCT ''StartTimeFilter'')"
  "field_type ListOpenWorkflowExecutionsRequest_FIELDS ''executionFilter'' = Some (T_STRUCT ''WorkflowExecutionFilter'')"
  "field_type ListOpenWorkflowExecutionsRequest_FIELDS ''typeFilter'' = Some (T_STRUCT ''WorkflowTypeFilter'')"
  by code_simp+

lemma ListClosedWorkflowExecutionsRequest_types [simp]:
  "field_type ListClosedWorkflowExecutionsRequest_FIELDS ''domain'' = Some T_STRING"
  "field_type ListClosedWorkflowExecutionsRequest_FIELDS ''maximumPageSize'' = Some T_I32"
  "field_type ListClosedWorkflowExecutionsRequest_FIELDS ''nextPageToken'' = Some T_STRING"
  "field_type ListClosedWorkflowExecutionsRequest_FIELDS ''StartTimeFilter'' = Some (T_STRUCT ''StartTimeFilter'')"
  "field_type ListClosedWorkflowExecutionsRequest_FIELDS ''executionFilter'' = Some (T_STRUCT ''WorkflowExecutionFilter'')"
  "field_type ListClosedWorkflowExecutionsRequest_FIELDS ''typeFilter'' = Some (T_STRUCT ''WorkflowTypeFilter'')"
  "field_type ListClosedWorkflowExecutionsRequest_FIELDS ''statusFilter'' = Some (T_ENUM WorkflowExecutionCloseStatus_VALID_VALUES)"
  by code_simp+

lemma DescribeWorkflowExecutionRequest_types [simp]:
  "field_type DescribeWorkflowExecutionRequest_FIELDS ''domain'' = Some T_STRING"
  "field_type DescribeWorkflowExecutionRequest_FIELDS ''execution'' = Some (T_STRUCT ''WorkflowExecution'')"
  by code_simp+

lemma DescribeTaskListRequest_types [simp]:
  "field_type DescribeTaskListRequest_FIELDS ''domain'' = Some T_STRING"
  "field_type DescribeTaskListRequest_FIELDS ''taskList'' = Some (T_STRUCT ''TaskList'')"
  "field_type DescribeTaskListRequest_FIELDS ''taskListType'' = Some (T_ENUM TaskListType_VALID_VALUES)"
  "field_type DescribeTaskListRequest_FIELDS ''includeTaskListStatus'' = Some T_BOOL"
  by code_simp+

lemma struct_fields_types [simp]:
  "struct_fields ''ActivityType'' = Some ActivityType_FIELDS"
  "struct_fields ''WorkflowType'' = Some WorkflowType_FIELDS"
  "struct_fields ''TaskList'' = Some TaskList_FIELDS"
  "struct_fields ''Header'' = Some Header_FIELDS"
  "struct_fields ''RetryPolicy'' = Some RetryPolicy_FIELDS"
  "struct_fields ''ScheduleActivityTaskDecisionAttributes'' = Some ScheduleActivityTaskDecisionAttributes_FIELDS"
  "struct_fields ''StartTimerDecisionAttributes'' = Some StartTimerDecisionAttributes_FIELDS"
  "struct_fields ''CompleteWorkflowExecutionDecisionAttributes'' = Some CompleteWorkflowExecutionDecisionAttributes_FIELDS"
  "struct_fields ''FailWorkflowExecutionDecisionAttributes'' = Some FailWorkflowExecutionDecisionAttributes_FIELDS"
  "struct_fields ''RequestCancelActivityTaskDecisionAttributes'' = Some RequestCancelActivityTaskDecisionAttributes_FIELDS"
  "struct_fields ''CancelTimerDecisionAttributes'' = Some CancelTimerDecisionAttributes_FIELDS"
  "struct_fields ''RecordMarkerDecisionAttributes'' = Some RecordMarkerDecisionAttributes_FIELDS"
  "struct_fields ''StartChildWorkflowExecutionDecisionAttributes'' = Some StartChildWorkflowExecutionDecisionAttributes_FIELDS"
  "struct_fields ''Decision'' = Some Decision_FIELDS"
  "struct_fields ''WorkflowExecution'' = Some WorkflowExecution_FIELDS"
  "struct_fields ''StartTimeFilter'' = Some StartTimeFilter_FIELDS"
  "struct_fields ''WorkflowExecutionFilter'' = Some WorkflowExecutionFilter_FIELDS"
  "struct_fields ''WorkflowTypeFilter'' = Some WorkflowTypeFilter_FIELDS"
  "struct_fields ''RegisterDomainRequest'' = Some RegisterDomainRequest_FIELDS"
  "struct_fields ''DescribeDomainRequest'' = Some DescribeDomainRequest_FIELDS"
  "struct_fields ''ListDomainsRequest'' = Some ListDomainsRequest_FIELDS"
  "struct_fields ''UpdateDomainRequest'' = Some UpdateDomainRequest_FIELDS"
  "struct_fields ''DeprecateDomainRequest'' = Some DeprecateDomainRequest_FIELDS"
  "struct_fields ''StartWorkflowExecutionRequest'' = Some StartWorkflowExecutionRequest_FIELDS"
  "struct_fields ''GetWorkflowExecutionHistoryRequest'' = Some GetWorkflowExecutionHistoryRequest_FIELDS"
  "struct_fields ''PollForDecisionTaskRequest'' = Some PollForDecisionTaskRequest_FIELDS"
  "struct_fields ''RespondDecisionTaskCompletedRequest'' = Some RespondDecisionTaskCompletedRequest_FIELDS"
  "struct_fields ''RespondDecisionTaskFailedRequest'' = Some RespondDecisionTaskFailedRequest_FIELDS"
  "struct_fields ''PollForActivityTaskRequest'' = Some PollForActivityTaskRequest_FIELDS"
  "struct_fields ''RecordActivityTaskHeartbeatRequest'' = Some RecordActivityTaskHeartbeatRequest_FIELDS"
  "struct_fields ''RespondActivityTaskCompletedRequest'' = Some RespondActivityTaskCompletedRequest_FIELDS"
  "struct_fields ''RespondActivityTaskCompletedByIDRequest'' = Some RespondActivityTaskCompletedByIDRequest_FIELDS"
  "struct_fields ''RespondActivityTaskFailedRequest'' = Some RespondActivityTaskFailedRequest_FIELDS"
  "struct_fields ''RespondActivityTaskFailedByIDRequest'' = Some RespondActivityTaskFailedByIDRequest_FIELDS"
  "struct_fields ''RespondActivityTaskCanceledRequest'' = Some RespondActivityTaskCanceledRequest_FIELDS"
  "struct_fields ''SignalWorkflowExecutionRequest'' = Some SignalWorkflowExecutionRequest_FIELDS"
  "struct_fields ''ResetWorkflowExecutionRequest'' = Some ResetWorkflowExecutionRequest_FIELDS"
  "struct_fields ''TerminateWorkflowExecutionRequest'' = Some TerminateWorkflowExecutionRequest_FIELDS"
  "struct_fields ''ListOpenWorkflowExecutionsRequest'' = Some ListOpenWorkflowExecutionsRequest_FIELDS"
  "struct_fields ''ListClosedWorkflowExecutionsRequest'' = Some ListClosedWorkflowExecutionsRequest_FIELDS"
  "struct_fields ''DescribeWorkflowExecutionRequest'' = Some DescribeWorkflowExecutionRequest_FIELDS"
  "struct_fields ''DescribeTaskListRequest'' = Some DescribeTaskListRequest_FIELDS"
  by code_simp+

section \<open>Values of a type\<close>

definition in_range :: "nat \<Rightarrow> int \<Rightarrow> bool" where
  "in_range n i \<longleftrightarrow> - (2 ^ (n - 1)) \<le> i \<and> i < 2 ^ (n - 1)"

text \<open>
  Integers fit their width, the keys of a struct are those of its table, and a field that is
  \<open>nil\<close> is not written. \<open>floats\<close> tells the objects that are floating point numbers.
\<close>

fun has_type :: "(nat \<Rightarrow> bool) \<Rightarrow> thrift_type \<Rightarrow> rval \<Rightarrow> bool" where
  "has_type floats (T_STRUCT c) (RStruct d fs) \<longleftrightarrow>
     d = ''CadenceThrift::'' @ c \<and>
     (case struct_fields c of
        None \<Rightarrow> False
      | Some table \<Rightarrow>
          (\<forall>(k, v)\<in>set fs. case field_type table k of None \<Rightarrow> False | Some T \<Rightarrow> v = RNil \<or> has_type floats T v))"
| "has_type floats T_BOOL (RBool b) \<longleftrightarrow> True"
| "has_type floats (T_LIST T) (RArr vs) \<longleftrightarrow> (\<forall>v\<in>set vs. has_type floats T v)"
| "has_type floats (T_MAP K T) (RHash kvs) \<longleftrightarrow> (\<forall>(k, v)\<in>set kvs. has_type floats K k \<and> has_type floats T v)"
| "has_type floats T (RInt i) \<longleftrightarrow>
     (case T of T_I32 \<Rightarrow> in_range 32 i | T_I64 \<Rightarrow> in_range 64 i | T_DOUBLE \<Rightarrow> True | T_ENUM vs \<Rightarrow> i \<in> set vs | _ \<Rightarrow> False)"
| "has_type floats T (RObj n) \<longleftrightarrow> T = T_DOUBLE \<and> floats n"
| "has_type floats T (RStr s) \<longleftrightarrow> T = T_STRING"
| "has_type floats T v \<longleftrightarrow> False"

definition nil_or :: "(rval \<Rightarrow> bool) \<Rightarrow> rval \<Rightarrow> bool" where
  "nil_or P v \<longleftrightarrow> v = RNil \<or> P v"

section \<open>Typed decisions\<close>

text \<open>The entries of the timeouts, the members of a retry policy, and the headers.\<close>

definition timeouts_typed :: "(nat \<Rightarrow> bool) \<Rightarrow> string list \<Rightarrow> rval \<Rightarrow> bool" where
  "timeouts_typed floats names ts \<longleftrightarrow>
     (\<forall>name\<in>set names. \<exists>v. hash_get ts (RSym name) = Inr v \<and> nil_or (has_type floats T_I32) v)"

definition member_typed :: "(nat \<Rightarrow> bool) \<Rightarrow> thrift_type \<Rightarrow> rval \<Rightarrow> string \<Rightarrow> bool" where
  "member_typed floats T p name \<longleftrightarrow> (\<exists>v. get_field p name = Inr v \<and> nil_or (has_type floats T) v)"

definition retry_policy_typed :: "(nat \<Rightarrow> bool) \<Rightarrow> rval \<Rightarrow> bool" where
  "retry_policy_typed floats p \<longleftrightarrow> \<not> truthy p \<or>
     member_typed floats T_I32 p ''interval'' \<and> member_typed floats T_DOUBLE p ''backoff'' \<and>
     member_typed floats T_I32 p ''max_interval'' \<and> member_typed floats T_I32 p ''max_attempts'' \<and>
     member_typed floats T_I32 p ''expiration_interval'' \<and>
     (\<exists>errs. get_field p ''non_retriable_errors'' = Inr errs \<and>
        (\<forall>c\<in>set (to_array errs). \<exists>s. get_field c ''name'' = Inr (RStr s)))"

definition headers_typed :: "(nat \<Rightarrow> bool) \<Rightarrow> rval \<Rightarrow> bool" where
  "headers_typed floats h \<longleftrightarrow> \<not> truthy h \<or> has_type floats (T_MAP T_STRING T_STRING) h"

text \<open>What a decision must hold; identifiers and payloads become strings whatever they are.\<close>

definition typed_decision :: "(nat \<Rightarrow> bool) \<Rightarrow> decision \<Rightarrow> bool" where
  "typed_decision floats d \<longleftrightarrow>
     (let string_or_nil = nil_or (has_type floats T_STRING) in
      case d of
        ScheduleActivity a \<Rightarrow>
          string_or_nil (activity_type a) \<and> string_or_nil (ScheduleActivity.domain a) \<and>
          string_or_nil (ScheduleActivity.task_list a) \<and> retry_policy_typed floats (ScheduleActivity.retry_policy a) \<and>
          timeouts_typed floats [''schedule_to_close'', ''schedule_to_start'', ''start_to_close'', ''heartbeat'']
            (ScheduleActivity.timeouts a) \<and>
          headers_typed floats (ScheduleActivity.headers a)
      | StartChildWorkflow c \<Rightarrow>
          string_or_nil (workflow_type c) \<and> string_or_nil (StartChildWorkflow.domain c) \<and>
          string_or_nil (StartChildWorkflow.task_list c) \<and> retry_policy_typed floats (StartChildWorkflow.retry_policy c) \<and>
          timeouts_typed floats [''execution'', ''task''] (StartChildWorkflow.timeouts c) \<and>
          headers_typed floats (StartChildWorkflow.headers c)
      | RecordMarker name details \<Rightarrow> string_or_nil name
      | StartTimer tmo tid \<Rightarrow> (\<exists>i. rb_to_i tmo = Inr i \<and> in_range 64 i)
      | FailWorkflow reason details \<Rightarrow> string_or_nil reason
      | _ \<Rightarrow> True)"

section \<open>Serialized decisions\<close>

text \<open>A struct of a table is typed when its fields are.\<close>

lemma has_type_Thrift:
  "has_type floats (T_STRUCT c) (Thrift c fs) \<longleftrightarrow>
     (case struct_fields c of
        None \<Rightarrow> False
      | Some table \<Rightarrow>
          (\<forall>(k, v)\<in>set fs. case field_type table k of None \<Rightarrow> False | Some T \<Rightarrow> nil_or (has_type floats T) v))"
  by (simp add: Thrift_def nil_or_def split: option.split)

lemma has_type_compact:
  "has_type floats (T_STRUCT c) (Thrift c fs) \<Longrightarrow> has_type floats (T_STRUCT c) (Thrift c (compact fs))"
  by (auto simp: has_type_Thrift compact_def split: option.splits)

lemma nil_or_nil [simp]: "nil_or P RNil"
  by (simp add: nil_or_def)

lemma typed_retry_policy:
  assumes "retry_policy_typed floats p"
  shows "\<exists>r. serialize_retry_policy p = Inr r \<and> nil_or (has_type floats (T_STRUCT ''RetryPolicy'')) r"
proof (cases "truthy p")
  case False
  then show ?thesis by (simp add: serialize_retry_policy_def nil_or_def)
next
  case True
  have names: "\<exists>vs. mapM (\<lambda>c. get_field c ''name'') cs = Inr vs \<and> (\<forall>v\<in>set vs. has_type floats T_STRING v)"
    if "\<forall>c\<in>set cs. \<exists>s. get_field c ''name'' = Inr (RStr s)" for cs
    using that by (induction cs) fastforce+
  from assms True obtain i b mi ma ex errs where p: "get_field p ''interval'' = Inr i" "nil_or (has_type floats T_I32) i"
    "get_field p ''backoff'' = Inr b" "nil_or (has_type floats T_DOUBLE) b"
    "get_field p ''max_interval'' = Inr mi" "nil_or (has_type floats T_I32) mi"
    "get_field p ''max_attempts'' = Inr ma" "nil_or (has_type floats T_I32) ma"
    "get_field p ''expiration_interval'' = Inr ex" "nil_or (has_type floats T_I32) ex"
    "get_field p ''non_retriable_errors'' = Inr errs"
    "\<forall>c\<in>set (to_array errs). \<exists>s. get_field c ''name'' = Inr (RStr s)"
    by (auto simp: retry_policy_typed_def member_typed_def)
  obtain vs where vs: "mapM (\<lambda>c. get_field c ''name'') (to_array errs) = Inr vs" "\<forall>v\<in>set vs. has_type floats T_STRING v"
    using names [OF p(12)] by blast
  have "has_type floats (T_STRUCT ''RetryPolicy'') (Thrift ''RetryPolicy'' (compact
      [(''initialIntervalInSeconds'', i), (''backoffCoefficient'', b), (''maximumIntervalInSeconds'', mi),
       (''maximumAttempts'', ma), (''nonRetriableErrorReasons'', RArr vs), (''expirationIntervalInSeconds'', ex)]))"
    by (rule has_type_compact) (use p vs(2) in \<open>simp add: has_type_Thrift nil_or_def\<close>)
  then show ?thesis using True p vs(1) by (simp add: serialize_retry_policy_def nil_or_def)
qed

lemma typed_headers:
  "headers_typed floats h \<Longrightarrow> nil_or (has_type floats (T_STRUCT ''Header'')) (serialize_headers h)"
  by (auto simp: serialize_headers_def headers_typed_def nil_or_def has_type_Thrift simp del: has_type.simps(1))

lemma nil_or_Thrift [simp]: "nil_or P (Thrift c fs) \<longleftrightarrow> P (Thrift c fs)"
  by (simp add: nil_or_def Thrift_def)

lemma has_type_Decision:
  "has_type floats (T_STRUCT ''Decision'') (Thrift_Decision ty field (Thrift c fs)) \<longleftrightarrow>
     the (map_of DecisionType_VALUES ty) \<in> set DecisionType_VALID_VALUES \<and>
     (case field_type Decision_FIELDS field of None \<Rightarrow> False | Some T \<Rightarrow> has_type floats T (Thrift c fs))"
  unfolding Thrift_Decision_def by (subst has_type_Thrift) (simp add: nil_or_def [of _ "RInt _"] split: option.split)

lemma decision_types:
  "map_of DecisionType_VALUES ''ScheduleActivityTask'' = Some 0"
  "map_of DecisionType_VALUES ''RequestCancelActivityTask'' = Some 1"
  "map_of DecisionType_VALUES ''StartTimer'' = Some 2"
  "map_of DecisionType_VALUES ''CompleteWorkflowExecution'' = Some 3"
  "map_of DecisionType_VALUES ''FailWorkflowExecution'' = Some 4"
  "map_of DecisionType_VALUES ''CancelTimer'' = Some 5"
  "map_of DecisionType_VALUES ''RecordMarker'' = Some 8"
  "map_of DecisionType_VALUES ''StartChildWorkflowExecution'' = Some 10"
  by code_simp+

lemma typed_string [simp]: "has_type floats T_STRING (RStr s)"
  by simp

lemma typed_serialize_activity:
  assumes "typed_decision floats (ScheduleActivity a)"
  shows "\<exists>t. serialize_activity J a = Inr t \<and> has_type floats (T_STRUCT ''Decision'') t"
proof -
  obtain r where r: "serialize_retry_policy (ScheduleActivity.retry_policy a) = Inr r"
    "nil_or (has_type floats (T_STRUCT ''RetryPolicy'')) r"
    using assms typed_retry_policy by (fastforce simp: typed_decision_def Let_def)
  have h: "nil_or (has_type floats (T_STRUCT ''Header'')) (serialize_headers (ScheduleActivity.headers a))"
    using assms by (intro typed_headers) (simp add: typed_decision_def Let_def)
  from assms r h show ?thesis
    by (auto simp: typed_decision_def Let_def timeouts_typed_def serialize_activity_def has_type_Decision
        decision_types DecisionType_VALID_VALUES_def has_type_Thrift nil_or_def [of _ "RStr _"] simp del: has_type.simps(1-3))
qed

lemma typed_serialize_child:
  assumes "typed_decision floats (StartChildWorkflow c)"
  shows "\<exists>t. serialize_child J c = Inr t \<and> has_type floats (T_STRUCT ''Decision'') t"
proof -
  obtain r where r: "serialize_retry_policy (StartChildWorkflow.retry_policy c) = Inr r"
    "nil_or (has_type floats (T_STRUCT ''RetryPolicy'')) r"
    using assms typed_retry_policy by (fastforce simp: typed_decision_def Let_def)
  have h: "nil_or (has_type floats (T_STRUCT ''Header'')) (serialize_headers (StartChildWorkflow.headers c))"
    using assms by (intro typed_headers) (simp add: typed_decision_def Let_def)
  from assms r h show ?thesis
    by (auto simp: typed_decision_def Let_def timeouts_typed_def serialize_child_def has_type_Decision
        decision_types DecisionType_VALID_VALUES_def has_type_Thrift nil_or_def [of _ "RStr _"] simp del: has_type.simps(1-3))
qed

lemma typed_decision_serialized:
  assumes "typed_decision floats d"
  shows "\<exists>t. serialize J d = Inr t \<and> has_type floats (T_STRUCT ''Decision'') t"
proof (cases d)
  case (ScheduleActivity a)
  with assms typed_serialize_activity show ?thesis by (simp add: serialize_def)
next
  case (StartChildWorkflow c)
  with assms typed_serialize_child show ?thesis by (simp add: serialize_def)
qed (use assms in \<open>auto simp: serialize_def typed_decision_def Let_def has_type_Decision decision_types
  DecisionType_VALID_VALUES_def has_type_Thrift nil_or_def [of _ "RStr _"] nil_or_def [of _ "RInt _"]
  simp del: has_type.simps(1-3)\<close>)

section \<open>Properties\<close>

text \<open>
  C13: a decision whose attributes are of the types the service documents is serialized, and
  the struct has the type \<open>Decision\<close> of the generated tables: no key that its class does not
  have, no value that Thrift could not write or would refuse, down to the retry policy and the
  headers.
\<close>

theorem serialized_decisions_typed:
  assumes "typed_decision floats d"
  shows "\<exists>t. serialize J d = Inr t \<and> has_type floats (T_STRUCT ''Decision'') t"
  by (rule typed_decision_serialized [OF assms])

text \<open>An activity with a timeout, a retry policy and a header.\<close>

definition typed_activity :: ScheduleActivity where
  "typed_activity = \<lparr>activity_type = RStr ''A'', activity_id = RInt 5, input = RArr [], domain = RStr ''d'',
     task_list = RStr ''l'',
     retry_policy = RStruct ''Cadence::RetryPolicy'' [(''interval'', RInt 1), (''backoff'', RObj 2),
       (''max_interval'', RNil), (''max_attempts'', RInt 5), (''expiration_interval'', RNil),
       (''non_retriable_errors'', RArr [RStruct ''Class'' [(''name'', RStr ''E'')]])],
     timeouts = RHash [(RSym ''start_to_close'', RInt 30)], headers = RHash [(RStr ''k'', RStr ''v'')]\<rparr>"

theorem serialized_decisions_typed_witness:
  "\<exists>t. serialize \<lparr>load = (\<lambda>_. None), dump = (\<lambda>_. ''[]''), other_to_s = (\<lambda>_. [])\<rparr> (ScheduleActivity typed_activity) = Inr t \<and>
     has_type (\<lambda>n. n = 2) (T_STRUCT ''Decision'') t"
  by (rule serialized_decisions_typed)
    (simp add: typed_decision_def typed_activity_def timeouts_typed_def retry_policy_typed_def member_typed_def
      headers_typed_def nil_or_def in_range_def)

end
