(* ===== verification/Crossing.thy ===== *)
theory Crossing
  imports ThriftTypes GoHistory
begin

text \<open>
  From the Ruby client to the proxy: the Thrift structs of the client
  (lib/gen/thrift/shared_types.rb) as the proxy's generated code reads them
  (proxy/gen/shared/shared.go), for the structs of decisions. The two Thrift libraries in between
  are not part of the repository: \<open>arrives\<close> states what the protocol they implement promises.
\<close>

section \<open>What arrives\<close>

text \<open>
  \<open>arrives W F T v w\<close>: the value \<open>v\<close>, written as a \<open>T\<close> by the library of the client, is met by the
  proxy as the wire value \<open>w\<close> of its library \<open>W\<close>. Integers have the two's complement of their
  width, a string is its bytes, a floating point number its 64 bits (\<open>F\<close>); a list and a map
  deliver their elements in order; a struct has the fields of its table that are not \<open>nil\<close>,
  in the order of the table, under their identifiers.
\<close>

fun element_type :: "thrift_type \<Rightarrow> wire_type" where
  "element_type T_BOOL = TBool"
| "element_type T_I32 = TI32"
| "element_type T_I64 = TI64"
| "element_type T_DOUBLE = TDouble"
| "element_type T_STRING = TBinary"
| "element_type (T_ENUM _) = TI32"
| "element_type (T_STRUCT _) = TStruct"
| "element_type (T_LIST _) = TList"
| "element_type (T_MAP _ _) = TMap"

definition field :: "(string \<times> rval) list \<Rightarrow> string \<Rightarrow> rval" where
  "field fs name = (case map_of fs name of None \<Rightarrow> RNil | Some v \<Rightarrow> v)"

definition written :: "field_table \<Rightarrow> (string \<times> rval) list \<Rightarrow> (int \<times> thrift_type \<times> rval) list" where
  "written table fs =
     List.map (\<lambda>(fid, name, T). (fid, T, field fs name)) (filter (\<lambda>(fid, name, T). field fs name \<noteq> RNil) table)"

inductive arrives :: "'v wire_api \<Rightarrow> (rval \<Rightarrow> float64) \<Rightarrow> thrift_type \<Rightarrow> rval \<Rightarrow> 'v \<Rightarrow> bool" for W F where
  bool: "wire_api.Type W w = TBool \<Longrightarrow> GetBool W w = b \<Longrightarrow> arrives W F T_BOOL (RBool b) w"
| i32: "wire_api.Type W w = TI32 \<Longrightarrow> GetI32 W w = word_of_int i \<Longrightarrow> arrives W F T_I32 (RInt i) w"
| enumeration: "wire_api.Type W w = TI32 \<Longrightarrow> GetI32 W w = word_of_int i \<Longrightarrow> arrives W F (T_ENUM vs) (RInt i) w"
| i64: "wire_api.Type W w = TI64 \<Longrightarrow> GetI64 W w = word_of_int i \<Longrightarrow> arrives W F T_I64 (RInt i) w"
| double: "wire_api.Type W w = TDouble \<Longrightarrow> GetDouble W w = F v \<Longrightarrow> v \<noteq> RNil \<Longrightarrow> arrives W F T_DOUBLE v w"
| str: "wire_api.Type W w = TBinary \<Longrightarrow> GetString W w = s \<Longrightarrow> GetBinary W w = List.map of_char s \<Longrightarrow>
    arrives W F T_STRING (RStr s) w"
| elements: "wire_api.Type W w = TList \<Longrightarrow> ValueList.ValueType (GetList W w) = element_type T \<Longrightarrow>
    ValueList.ForEach (GetList W w) = List.map Inr ws \<Longrightarrow> list_all2 (arrives W F T) vs ws \<Longrightarrow>
    arrives W F (T_LIST T) (RArr vs) w"
| items: "wire_api.Type W w = TMap \<Longrightarrow> KeyType (GetMap W w) = element_type K \<Longrightarrow>
    MapItemList.ValueType (GetMap W w) = element_type T \<Longrightarrow>
    MapItemList.ForEach (GetMap W w) = List.map Inr ws \<Longrightarrow>
    list_all2 (\<lambda>x y. arrives W F K (fst x) (fst y) \<and> arrives W F T (snd x) (snd y)) kvs ws \<Longrightarrow>
    arrives W F (T_MAP K T) (RHash kvs) w"
| struct: "struct_fields c = Some table \<Longrightarrow> wire_api.Type W w = TStruct \<Longrightarrow>
    list_all2 (\<lambda>x y. fst x = fst y \<and> arrives W F (fst (snd x)) (snd (snd x)) (snd y)) (written table fs) (GetStruct W w) \<Longrightarrow>
    arrives W F (T_STRUCT c) (Thrift c fs) w"

section \<open>Fields that arrive\<close>

definition arrived :: "'v wire_api \<Rightarrow> (rval \<Rightarrow> float64) \<Rightarrow> thrift_type \<Rightarrow> rval \<Rightarrow> 'v option \<Rightarrow> bool" where
  "arrived W F T v x \<longleftrightarrow> (case x of None \<Rightarrow> v = RNil | Some w \<Rightarrow> v \<noteq> RNil \<and> arrives W F T v w)"

definition fields_arrive ::
  "'v wire_api \<Rightarrow> (rval \<Rightarrow> float64) \<Rightarrow> field_table \<Rightarrow> (string \<times> rval) list \<Rightarrow> 'v wire_field list \<Rightarrow> bool" where
  "fields_arrive W F table fs ws \<longleftrightarrow>
     list_all2 (\<lambda>x y. fst x = fst y \<and> arrives W F (fst (snd x)) (snd (snd x)) (snd y)) (written table fs) ws"

lemma arrives_struct:
  assumes "arrives W F (T_STRUCT c) v w"
  obtains fs table where "v = Thrift c fs" "wire_api.Type W w = TStruct" "struct_fields c = Some table"
    "fields_arrive W F table fs (GetStruct W w)"
  using assms by (cases rule: arrives.cases) (auto simp: fields_arrive_def)

lemma fields_arrive_NilE: "fields_arrive W F [] fs ws \<Longrightarrow> (ws = [] \<Longrightarrow> P) \<Longrightarrow> P"
  by (simp add: fields_arrive_def written_def)

lemma fields_arrive_ConsE:
  assumes "fields_arrive W F ((fid, name, T) # table) fs ws"
  obtains x ws' where "ws = opt_field fid id x @ ws'" "arrived W F T (field fs name) x" "fields_arrive W F table fs ws'"
proof (cases "field fs name = RNil")
  case True
  with assms show ?thesis
    by (intro that [of None ws]) (simp_all add: fields_arrive_def written_def opt_field_def arrived_def)
next
  case False
  with assms obtain w ws' where "ws = (fid, w) # ws'" "arrives W F T (field fs name) w"
    "fields_arrive W F table fs ws'"
    by (auto simp: fields_arrive_def written_def list_all2_Cons1)
  with False show ?thesis
    by (intro that [of "Some w" ws']) (simp_all add: opt_field_def arrived_def)
qed

section \<open>What the proxy makes of a value\<close>

text \<open>A pointer to the Go value: \<open>None\<close> for \<open>nil\<close>.\<close>

fun go_string :: "rval \<Rightarrow> string option" where
  "go_string (RStr s) = Some s"
| "go_string _ = None"

fun go_bytes :: "rval \<Rightarrow> bytes option" where
  "go_bytes (RStr s) = Some (List.map of_char s)"
| "go_bytes _ = None"

fun go_i32 :: "rval \<Rightarrow> 32 word option" where
  "go_i32 (RInt i) = Some (word_of_int i)"
| "go_i32 _ = None"

fun go_i64 :: "rval \<Rightarrow> 64 word option" where
  "go_i64 (RInt i) = Some (word_of_int i)"
| "go_i64 _ = None"

definition go_double :: "(rval \<Rightarrow> float64) \<Rightarrow> rval \<Rightarrow> float64 option" where
  "go_double F v = (if v = RNil then None else Some (F v))"

fun go_strings :: "rval \<Rightarrow> string list option" where
  "go_strings (RArr vs) = Some (List.map (\<lambda>v. the (go_string v)) vs)"
| "go_strings _ = None"

text \<open>The last of equal keys wins; a hash has none.\<close>

fun go_map :: "rval \<Rightarrow> (string, bytes option) fmap option" where
  "go_map (RHash kvs) = Some (fold (\<lambda>(k, v). fmupd (the (go_string k)) (go_bytes v)) kvs fmempty)"
| "go_map _ = None"

lemma arrived_string:
  assumes "arrived W F T_STRING v x"
  shows "x = Some y \<Longrightarrow> wire_api.Type W y = TBinary"
    and "(case x of None \<Rightarrow> None | Some y \<Rightarrow> Some (GetString W y)) = go_string v"
    and "(case x of None \<Rightarrow> None | Some y \<Rightarrow> Some (GetBinary W y)) = go_bytes v"
  using assms by (auto simp: arrived_def split: option.splits elim: arrives.cases)

lemma arrived_i32:
  assumes "arrived W F T_I32 v x"
  shows "x = Some y \<Longrightarrow> wire_api.Type W y = TI32"
    and "(case x of None \<Rightarrow> None | Some y \<Rightarrow> Some (GetI32 W y)) = go_i32 v"
  using assms by (auto simp: arrived_def split: option.splits elim: arrives.cases)

lemma arrived_enum:
  assumes "arrived W F (T_ENUM vs) v x"
  shows "x = Some y \<Longrightarrow> wire_api.Type W y = TI32"
    and "(case x of None \<Rightarrow> None | Some y \<Rightarrow> Some (GetI32 W y)) = go_i32 v"
  using assms by (auto simp: arrived_def split: option.splits elim: arrives.cases)

lemma arrived_i64:
  assumes "arrived W F T_I64 v x"
  shows "x = Some y \<Longrightarrow> wire_api.Type W y = TI64"
    and "(case x of None \<Rightarrow> None | Some y \<Rightarrow> Some (GetI64 W y)) = go_i64 v"
  using assms by (auto simp: arrived_def split: option.splits elim: arrives.cases)

lemma arrived_double:
  assumes "arrived W F T_DOUBLE v x"
  shows "x = Some y \<Longrightarrow> wire_api.Type W y = TDouble"
    and "(case x of None \<Rightarrow> None | Some y \<Rightarrow> Some (GetDouble W y)) = go_double F v"
  using assms by (auto simp: arrived_def go_double_def split: option.splits elim: arrives.cases)

text \<open>A class without a table here has no values.\<close>

lemma struct_fields_unknown [simp]:
  "struct_fields ''Memo'' = None"
  "struct_fields ''SearchAttributes'' = None"
  "struct_fields ''CancelWorkflowExecutionDecisionAttributes'' = None"
  "struct_fields ''RequestCancelExternalWorkflowExecutionDecisionAttributes'' = None"
  "struct_fields ''ContinueAsNewWorkflowExecutionDecisionAttributes'' = None"
  "struct_fields ''SignalExternalWorkflowExecutionDecisionAttributes'' = None"
  "struct_fields ''UpsertWorkflowSearchAttributesDecisionAttributes'' = None"
  by code_simp+

lemma arrived_unknown:
  assumes "arrived W F (T_STRUCT c) v x" and "struct_fields c = None"
  shows "x = None"
  using assms by (auto simp: arrived_def split: option.splits elim: arrives_struct)

lemma arrives_stringE:
  assumes "arrives W F T_STRING v w"
  obtains s where "v = RStr s" "GetString W w = s" "GetBinary W w = List.map of_char s"
  using assms by (auto elim: arrives.cases)

lemma arrived_strings:
  assumes "arrived W F (T_LIST T_STRING) v x"
  shows "x = Some y \<Longrightarrow> wire_api.Type W y = TList" "x = Some y \<Longrightarrow> List_String_Read W (GetList W y) = Inr (go_strings v)"
    and "(case x of None \<Rightarrow> None | Some y \<Rightarrow> go_strings v) = go_strings v"
proof -
  have read: "foldM (\<lambda>out w. Inr (out @ [GetString W w])) ws acc = Inr (acc @ List.map (\<lambda>v. the (go_string v)) vs)"
    if "list_all2 (arrives W F T_STRING) vs ws" for vs ws acc
    using that by (induction arbitrary: acc rule: list_all2_induct) (auto elim: arrives_stringE)
  show "wire_api.Type W y = TList" "List_String_Read W (GetList W y) = Inr (go_strings v)" if "x = Some y"
  proof -
    from assms that have "arrives W F (T_LIST T_STRING) v y" by (simp add: arrived_def)
    then show "wire_api.Type W y = TList" "List_String_Read W (GetList W y) = Inr (go_strings v)"
      by (cases rule: arrives.cases; simp add: List_String_Read_def for_each_map [where h = id] read)+
  qed
  show "(case x of None \<Rightarrow> None | Some y \<Rightarrow> go_strings v) = go_strings v"
    using assms by (auto simp: arrived_def split: option.splits)
qed

lemma arrived_map:
  assumes "arrived W F (T_MAP T_STRING T_STRING) v x"
  shows "x = Some y \<Longrightarrow> wire_api.Type W y = TMap" "x = Some y \<Longrightarrow> Map_String_Binary_Read W (GetMap W y) = Inr (go_map v)"
    and "(case x of None \<Rightarrow> None | Some y \<Rightarrow> go_map v) = go_map v"
proof -
  let ?put = "\<lambda>(k, v). fmupd (the (go_string k)) (go_bytes v)"
  have read: "foldM (\<lambda>out (k, w). Inr (fmupd (GetString W k) (Some (GetBinary W w)) out)) ws acc = Inr (fold ?put kvs acc)"
    if "list_all2 (\<lambda>x y. arrives W F T_STRING (fst x) (fst y) \<and> arrives W F T_STRING (snd x) (snd y)) kvs ws" for kvs ws acc
    using that by (induction arbitrary: acc rule: list_all2_induct) (auto elim!: arrives_stringE)
  show "wire_api.Type W y = TMap" "Map_String_Binary_Read W (GetMap W y) = Inr (go_map v)" if "x = Some y"
  proof -
    from assms that have "arrives W F (T_MAP T_STRING T_STRING) v y" by (simp add: arrived_def)
    then show "wire_api.Type W y = TMap" "Map_String_Binary_Read W (GetMap W y) = Inr (go_map v)"
      by (cases rule: arrives.cases; simp add: Map_String_Binary_Read_def for_each_map [where h = id] read)+
  qed
  show "(case x of None \<Rightarrow> None | Some y \<Rightarrow> go_map v) = go_map v"
    using assms by (auto simp: arrived_def split: option.splits)
qed

section \<open>Structs\<close>

text \<open>Each struct as its Go type, field by field under the same names, and that it is read as that.\<close>

definition go_ActivityType :: "(rval \<Rightarrow> float64) \<Rightarrow> rval \<Rightarrow> ActivityType option" where
  "go_ActivityType F v = (case v of
     RStruct c fs \<Rightarrow> Some
      \<lparr>ActivityType.Name = go_string (field fs ''name'')\<rparr>
   | _ \<Rightarrow> None)"

lemma ActivityType_arrives:
  assumes "arrives W F (T_STRUCT ''ActivityType'') v w"
  shows "wire_api.Type W w = TStruct" "v \<noteq> RNil" "ActivityType_Read W w = Inr (the (go_ActivityType F v))" "go_ActivityType F v \<noteq> None"
proof -
  obtain fs where s: "v = Thrift ''ActivityType'' fs" "wire_api.Type W w = TStruct"
    "fields_arrive W F ActivityType_FIELDS fs (GetStruct W w)"
    using assms by (auto elim: arrives_struct)
  then obtain x0 where
    g: "GetStruct W w = opt_field 10 id x0" and
    a: "arrived W F (T_STRING) (field fs ''name'') x0"
    unfolding ActivityType_FIELDS_def by (elim fields_arrive_ConsE fields_arrive_NilE) (simp add: that)
  show "wire_api.Type W w = TStruct" "v \<noteq> RNil" "go_ActivityType F v \<noteq> None"
    using s by (simp_all add: Thrift_def go_ActivityType_def)
  show "ActivityType_Read W w = Inr (the (go_ActivityType F v))"
    unfolding ActivityType_Read_def ActivityType_FromWire_def g s(1) go_ActivityType_def
    by (simp cong: option.case_cong add: codec_rules ActivityType_merge ActivityType_zero_def Thrift_def 
          arrived_string [OF a(1)])
qed

lemma arrived_ActivityType:
  assumes "arrived W F (T_STRUCT ''ActivityType'') v x"
  shows "x = Some y \<Longrightarrow> wire_api.Type W y = TStruct" "x = Some y \<Longrightarrow> ActivityType_Read W y = Inr (the (go_ActivityType F v))"
    and "(case x of None \<Rightarrow> None | Some y \<Rightarrow> Some (the (go_ActivityType F v))) = go_ActivityType F v"
  using assms ActivityType_arrives [of W F v] by (auto simp: arrived_def go_ActivityType_def split: option.splits)

definition go_WorkflowType :: "(rval \<Rightarrow> float64) \<Rightarrow> rval \<Rightarrow> WorkflowType option" where
  "go_WorkflowType F v = (case v of
     RStruct c fs \<Rightarrow> Some
      \<lparr>WorkflowType.Name = go_string (field fs ''name'')\<rparr>
   | _ \<Rightarrow> None)"

lemma WorkflowType_arrives:
  assumes "arrives W F (T_STRUCT ''WorkflowType'') v w"
  shows "wire_api.Type W w = TStruct" "v \<noteq> RNil" "WorkflowType_Read W w = Inr (the (go_WorkflowType F v))" "go_WorkflowType F v \<noteq> None"
proof -
  obtain fs where s: "v = Thrift ''WorkflowType'' fs" "wire_api.Type W w = TStruct"
    "fields_arrive W F WorkflowType_FIELDS fs (GetStruct W w)"
    using assms by (auto elim: arrives_struct)
  then obtain x0 where
    g: "GetStruct W w = opt_field 10 id x0" and
    a: "arrived W F (T_STRING) (field fs ''name'') x0"
    unfolding WorkflowType_FIELDS_def by (elim fields_arrive_ConsE fields_arrive_NilE) (simp add: that)
  show "wire_api.Type W w = TStruct" "v \<noteq> RNil" "go_WorkflowType F v \<noteq> None"
    using s by (simp_all add: Thrift_def go_WorkflowType_def)
  show "WorkflowType_Read W w = Inr (the (go_WorkflowType F v))"
    unfolding WorkflowType_Read_def WorkflowType_FromWire_def g s(1) go_WorkflowType_def
    by (simp cong: option.case_cong add: codec_rules WorkflowType_merge WorkflowType_zero_def Thrift_def 
          arrived_string [OF a(1)])
qed

lemma arrived_WorkflowType:
  assumes "arrived W F (T_STRUCT ''WorkflowType'') v x"
  shows "x = Some y \<Longrightarrow> wire_api.Type W y = TStruct" "x = Some y \<Longrightarrow> WorkflowType_Read W y = Inr (the (go_WorkflowType F v))"
    and "(case x of None \<Rightarrow> None | Some y \<Rightarrow> Some (the (go_WorkflowType F v))) = go_WorkflowType F v"
  using assms WorkflowType_arrives [of W F v] by (auto simp: arrived_def go_WorkflowType_def split: option.splits)

definition go_TaskList :: "(rval \<Rightarrow> float64) \<Rightarrow> rval \<Rightarrow> TaskList option" where
  "go_TaskList F v = (case v of
     RStruct c fs \<Rightarrow> Some
      \<lparr>TaskList.Name = go_string (field fs ''name''),
       TaskList.Kind = go_i32 (field fs ''kind'')\<rparr>
   | _ \<Rightarrow> None)"

lemma TaskList_arrives:
  assumes "arrives W F (T_STRUCT ''TaskList'') v w"
  shows "wire_api.Type W w = TStruct" "v \<noteq> RNil" "TaskList_Read W w = Inr (the (go_TaskList F v))" "go_TaskList F v \<noteq> None"
proof -
  obtain fs where s: "v = Thrift ''TaskList'' fs" "wire_api.Type W w = TStruct"
    "fields_arrive W F TaskList_FIELDS fs (GetStruct W w)"
    using assms by (auto elim: arrives_struct)
  then obtain x0 x1 where
    g: "GetStruct W w = opt_field 10 id x0 @ opt_field 20 id x1" and
    a: "arrived W F (T_STRING) (field fs ''name'') x0"
      "arrived W F (T_ENUM TaskListKind_VALID_VALUES) (field fs ''kind'') x1"
    unfolding TaskList_FIELDS_def by (elim fields_arrive_ConsE fields_arrive_NilE) (simp add: that)
  show "wire_api.Type W w = TStruct" "v \<noteq> RNil" "go_TaskList F v \<noteq> None"
    using s by (simp_all add: Thrift_def go_TaskList_def)
  show "TaskList_Read W w = Inr (the (go_TaskList F v))"
    unfolding TaskList_Read_def TaskList_FromWire_def g s(1) go_TaskList_def
    by (simp cong: option.case_cong add: codec_rules TaskList_merge TaskList_zero_def Thrift_def TaskListKind_Read_def TaskListKind_FromWire_def
          arrived_string [OF a(1)] arrived_enum [OF a(2)])
qed

lemma arrived_TaskList:
  assumes "arrived W F (T_STRUCT ''TaskList'') v x"
  shows "x = Some y \<Longrightarrow> wire_api.Type W y = TStruct" "x = Some y \<Longrightarrow> TaskList_Read W y = Inr (the (go_TaskList F v))"
    and "(case x of None \<Rightarrow> None | Some y \<Rightarrow> Some (the (go_TaskList F v))) = go_TaskList F v"
  using assms TaskList_arrives [of W F v] by (auto simp: arrived_def go_TaskList_def split: option.splits)

definition go_Header :: "(rval \<Rightarrow> float64) \<Rightarrow> rval \<Rightarrow> Header option" where
  "go_Header F v = (case v of
     RStruct c fs \<Rightarrow> Some
      \<lparr>Header.Fields = go_map (field fs ''fields'')\<rparr>
   | _ \<Rightarrow> None)"

lemma Header_arrives:
  assumes "arrives W F (T_STRUCT ''Header'') v w"
  shows "wire_api.Type W w = TStruct" "v \<noteq> RNil" "Header_Read W w = Inr (the (go_Header F v))" "go_Header F v \<noteq> None"
proof -
  obtain fs where s: "v = Thrift ''Header'' fs" "wire_api.Type W w = TStruct"
    "fields_arrive W F Header_FIELDS fs (GetStruct W w)"
    using assms by (auto elim: arrives_struct)
  then obtain x0 where
    g: "GetStruct W w = opt_field 10 id x0" and
    a: "arrived W F (T_MAP T_STRING T_STRING) (field fs ''fields'') x0"
    unfolding Header_FIELDS_def by (elim fields_arrive_ConsE fields_arrive_NilE) (simp add: that)
  show "wire_api.Type W w = TStruct" "v \<noteq> RNil" "go_Header F v \<noteq> None"
    using s by (simp_all add: Thrift_def go_Header_def)
  show "Header_Read W w = Inr (the (go_Header F v))"
    unfolding Header_Read_def Header_FromWire_def g s(1) go_Header_def
    by (simp cong: option.case_cong add: codec_rules Header_merge Header_zero_def Thrift_def 
          arrived_map [OF a(1)])
qed

lemma arrived_Header:
  assumes "arrived W F (T_STRUCT ''Header'') v x"
  shows "x = Some y \<Longrightarrow> wire_api.Type W y = TStruct" "x = Some y \<Longrightarrow> Header_Read W y = Inr (the (go_Header F v))"
    and "(case x of None \<Rightarrow> None | Some y \<Rightarrow> Some (the (go_Header F v))) = go_Header F v"
  using assms Header_arrives [of W F v] by (auto simp: arrived_def go_Header_def split: option.splits)

definition go_RetryPolicy :: "(rval \<Rightarrow> float64) \<Rightarrow> rval \<Rightarrow> RetryPolicy option" where
  "go_RetryPolicy F v = (case v of
     RStruct c fs \<Rightarrow> Some
      \<lparr>RetryPolicy.InitialIntervalInSeconds = go_i32 (field fs ''initialIntervalInSeconds''),
       RetryPolicy.BackoffCoefficient = go_double F (field fs ''backoffCoefficient''),
       RetryPolicy.MaximumIntervalInSeconds = go_i32 (field fs ''maximumIntervalInSeconds''),
       RetryPolicy.MaximumAttempts = go_i32 (field fs ''maximumAttempts''),
       RetryPolicy.NonRetriableErrorReasons = go_strings (field fs ''nonRetriableErrorReasons''),
       RetryPolicy.ExpirationIntervalInSeconds = go_i32 (field fs ''expirationIntervalInSeconds'')\<rparr>
   | _ \<Rightarrow> None)"

lemma RetryPolicy_arrives:
  assumes "arrives W F (T_STRUCT ''RetryPolicy'') v w"
  shows "wire_api.Type W w = TStruct" "v \<noteq> RNil" "RetryPolicy_Read W w = Inr (the (go_RetryPolicy F v))" "go_RetryPolicy F v \<noteq> None"
proof -
  obtain fs where s: "v = Thrift ''RetryPolicy'' fs" "wire_api.Type W w = TStruct"
    "fields_arrive W F RetryPolicy_FIELDS fs (GetStruct W w)"
    using assms by (auto elim: arrives_struct)
  then obtain x0 x1 x2 x3 x4 x5 where
    g: "GetStruct W w = opt_field 10 id x0 @ opt_field 20 id x1 @ opt_field 30 id x2 @ opt_field 40 id x3 @ opt_field 50 id x4 @ opt_field 60 id x5" and
    a: "arrived W F (T_I32) (field fs ''initialIntervalInSeconds'') x0"
      "arrived W F (T_DOUBLE) (field fs ''backoffCoefficient'') x1"
      "arrived W F (T_I32) (field fs ''maximumIntervalInSeconds'') x2"
      "arrived W F (T_I32) (field fs ''maximumAttempts'') x3"
      "arrived W F (T_LIST T_STRING) (field fs ''nonRetriableErrorReasons'') x4"
      "arrived W F (T_I32) (field fs ''expirationIntervalInSeconds'') x5"
    unfolding RetryPolicy_FIELDS_def by (elim fields_arrive_ConsE fields_arrive_NilE) (simp add: that)
  show "wire_api.Type W w = TStruct" "v \<noteq> RNil" "go_RetryPolicy F v \<noteq> None"
    using s by (simp_all add: Thrift_def go_RetryPolicy_def)
  show "RetryPolicy_Read W w = Inr (the (go_RetryPolicy F v))"
    unfolding RetryPolicy_Read_def RetryPolicy_FromWire_def g s(1) go_RetryPolicy_def
    by (simp cong: option.case_cong add: codec_rules RetryPolicy_merge RetryPolicy_zero_def Thrift_def 
          arrived_i32 [OF a(1)] arrived_double [OF a(2)] arrived_i32 [OF a(3)] arrived_i32 [OF a(4)]
          arrived_strings [OF a(5)] arrived_i32 [OF a(6)])
qed

lemma arrived_RetryPolicy:
  assumes "arrived W F (T_STRUCT ''RetryPolicy'') v x"
  shows "x = Some y \<Longrightarrow> wire_api.Type W y = TStruct" "x = Some y \<Longrightarrow> RetryPolicy_Read W y = Inr (the (go_RetryPolicy F v))"
    and "(case x of None \<Rightarrow> None | Some y \<Rightarrow> Some (the (go_RetryPolicy F v))) = go_RetryPolicy F v"
  using assms RetryPolicy_arrives [of W F v] by (auto simp: arrived_def go_RetryPolicy_def split: option.splits)

definition go_ScheduleActivityTaskDecisionAttributes :: "(rval \<Rightarrow> float64) \<Rightarrow> rval \<Rightarrow> ScheduleActivityTaskDecisionAttributes option" where
  "go_ScheduleActivityTaskDecisionAttributes F v = (case v of
     RStruct c fs \<Rightarrow> Some
      \<lparr>ScheduleActivityTaskDecisionAttributes.ActivityId = go_string (field fs ''activityId''),
       ScheduleActivityTaskDecisionAttributes.ActivityType = go_ActivityType F (field fs ''activityType''),
       ScheduleActivityTaskDecisionAttributes.Domain = go_string (field fs ''domain''),
       ScheduleActivityTaskDecisionAttributes.TaskList = go_TaskList F (field fs ''taskList''),
       ScheduleActivityTaskDecisionAttributes.Input = go_bytes (field fs ''input''),
       ScheduleActivityTaskDecisionAttributes.ScheduleToCloseTimeoutSeconds = go_i32 (field fs ''scheduleToCloseTimeoutSeconds''),
       ScheduleActivityTaskDecisionAttributes.ScheduleToStartTimeoutSeconds = go_i32 (field fs ''scheduleToStartTimeoutSeconds''),
       ScheduleActivityTaskDecisionAttributes.StartToCloseTimeoutSeconds = go_i32 (field fs ''startToCloseTimeoutSeconds''),
       ScheduleActivityTaskDecisionAttributes.HeartbeatTimeoutSeconds = go_i32 (field fs ''heartbeatTimeoutSeconds''),
       ScheduleActivityTaskDecisionAttributes.RetryPolicy = go_RetryPolicy F (field fs ''retryPolicy''),
       ScheduleActivityTaskDecisionAttributes.Header = go_Header F (field fs ''header'')\<rparr>
   | _ \<Rightarrow> None)"

lemma ScheduleActivityTaskDecisionAttributes_arrives:
  assumes "arrives W F (T_STRUCT ''ScheduleActivityTaskDecisionAttributes'') v w"
  shows "wire_api.Type W w = TStruct" "v \<noteq> RNil" "ScheduleActivityTaskDecisionAttributes_Read W w = Inr (the (go_ScheduleActivityTaskDecisionAttributes F v))" "go_ScheduleActivityTaskDecisionAttributes F v \<noteq> None"
proof -
  obtain fs where s: "v = Thrift ''ScheduleActivityTaskDecisionAttributes'' fs" "wire_api.Type W w = TStruct"
    "fields_arrive W F ScheduleActivityTaskDecisionAttributes_FIELDS fs (GetStruct W w)"
    using assms by (auto elim: arrives_struct)
  then obtain x0 x1 x2 x3 x4 x5 x6 x7 x8 x9 x10 where
    g: "GetStruct W w = opt_field 10 id x0 @ opt_field 20 id x1 @ opt_field 25 id x2 @ opt_field 30 id x3 @ opt_field 40 id x4 @ opt_field 45 id x5 @ opt_field 50 id x6 @ opt_field 55 id x7 @ opt_field 60 id x8 @ opt_field 70 id x9 @ opt_field 80 id x10" and
    a: "arrived W F (T_STRING) (field fs ''activityId'') x0"
      "arrived W F (T_STRUCT ''ActivityType'') (field fs ''activityType'') x1"
      "arrived W F (T_STRING) (field fs ''domain'') x2"
      "arrived W F (T_STRUCT ''TaskList'') (field fs ''taskList'') x3"
      "arrived W F (T_STRING) (field fs ''input'') x4"
      "arrived W F (T_I32) (field fs ''scheduleToCloseTimeoutSeconds'') x5"
      "arrived W F (T_I32) (field fs ''scheduleToStartTimeoutSeconds'') x6"
      "arrived W F (T_I32) (field fs ''startToCloseTimeoutSeconds'') x7"
      "arrived W F (T_I32) (field fs ''heartbeatTimeoutSeconds'') x8"
      "arrived W F (T_STRUCT ''RetryPolicy'') (field fs ''retryPolicy'') x9"
      "arrived W F (T_STRUCT ''Header'') (field fs ''header'') x10"
    unfolding ScheduleActivityTaskDecisionAttributes_FIELDS_def by (elim fields_arrive_ConsE fields_arrive_NilE) (simp add: that)
  show "wire_api.Type W w = TStruct" "v \<noteq> RNil" "go_ScheduleActivityTaskDecisionAttributes F v \<noteq> None"
    using s by (simp_all add: Thrift_def go_ScheduleActivityTaskDecisionAttributes_def)
  show "ScheduleActivityTaskDecisionAttributes_Read W w = Inr (the (go_ScheduleActivityTaskDecisionAttributes F v))"
    unfolding ScheduleActivityTaskDecisionAttributes_Read_def ScheduleActivityTaskDecisionAttributes_FromWire_def g s(1) go_ScheduleActivityTaskDecisionAttributes_def
    by (simp cong: option.case_cong add: codec_rules ScheduleActivityTaskDecisionAttributes_merge ScheduleActivityTaskDecisionAttributes_zero_def Thrift_def 
          arrived_string [OF a(1)] arrived_ActivityType [OF a(2)] arrived_string [OF a(3)]
          arrived_TaskList [OF a(4)] arrived_string [OF a(5)] arrived_i32 [OF a(6)] arrived_i32 [OF
          a(7)] arrived_i32 [OF a(8)] arrived_i32 [OF a(9)] arrived_RetryPolicy [OF a(10)]
          arrived_Header [OF a(11)])
qed

lemma arrived_ScheduleActivityTaskDecisionAttributes:
  assumes "arrived W F (T_STRUCT ''ScheduleActivityTaskDecisionAttributes'') v x"
  shows "x = Some y \<Longrightarrow> wire_api.Type W y = TStruct" "x = Some y \<Longrightarrow> ScheduleActivityTaskDecisionAttributes_Read W y = Inr (the (go_ScheduleActivityTaskDecisionAttributes F v))"
    and "(case x of None \<Rightarrow> None | Some y \<Rightarrow> Some (the (go_ScheduleActivityTaskDecisionAttributes F v))) = go_ScheduleActivityTaskDecisionAttributes F v"
  using assms ScheduleActivityTaskDecisionAttributes_arrives [of W F v] by (auto simp: arrived_def go_ScheduleActivityTaskDecisionAttributes_def split: option.splits)

definition go_StartTimerDecisionAttributes :: "(rval \<Rightarrow> float64) \<Rightarrow> rval \<Rightarrow> StartTimerDecisionAttributes option" where
  "go_StartTimerDecisionAttributes F v = (case v of
     RStruct c fs \<Rightarrow> Some
      \<lparr>StartTimerDecisionAttributes.TimerId = go_string (field fs ''timerId''),
       StartTimerDecisionAttributes.StartToFireTimeoutSeconds = go_i64 (field fs ''startToFireTimeoutSeconds'')\<rparr>
   | _ \<Rightarrow> None)"

lemma StartTimerDecisionAttributes_arrives:
  assumes "arrives W F (T_STRUCT ''StartTimerDecisionAttributes'') v w"
  shows "wire_api.Type W w = TStruct" "v \<noteq> RNil" "StartTimerDecisionAttributes_Read W w = Inr (the (go_StartTimerDecisionAttributes F v))" "go_StartTimerDecisionAttributes F v \<noteq> None"
proof -
  obtain fs where s: "v = Thrift ''StartTimerDecisionAttributes'' fs" "wire_api.Type W w = TStruct"
    "fields_arrive W F StartTimerDecisionAttributes_FIELDS fs (GetStruct W w)"
    using assms by (auto elim: arrives_struct)
  then obtain x0 x1 where
    g: "GetStruct W w = opt_field 10 id x0 @ opt_field 20 id x1" and
    a: "arrived W F (T_STRING) (field fs ''timerId'') x0"
      "arrived W F (T_I64) (field fs ''startToFireTimeoutSeconds'') x1"
    unfolding StartTimerDecisionAttributes_FIELDS_def by (elim fields_arrive_ConsE fields_arrive_NilE) (simp add: that)
  show "wire_api.Type W w = TStruct" "v \<noteq> RNil" "go_StartTimerDecisionAttributes F v \<noteq> None"
    using s by (simp_all add: Thrift_def go_StartTimerDecisionAttributes_def)
  show "StartTimerDecisionAttributes_Read W w = Inr (the (go_StartTimerDecisionAttributes F v))"
    unfolding StartTimerDecisionAttributes_Read_def StartTimerDecisionAttributes_FromWire_def g s(1) go_StartTimerDecisionAttributes_def
    by (simp cong: option.case_cong add: codec_rules StartTimerDecisionAttributes_merge StartTimerDecisionAttributes_zero_def Thrift_def 
          arrived_string [OF a(1)] arrived_i64 [OF a(2)])
qed

lemma arrived_StartTimerDecisionAttributes:
  assumes "arrived W F (T_STRUCT ''StartTimerDecisionAttributes'') v x"
  shows "x = Some y \<Longrightarrow> wire_api.Type W y = TStruct" "x = Some y \<Longrightarrow> StartTimerDecisionAttributes_Read W y = Inr (the (go_StartTimerDecisionAttributes F v))"
    and "(case x of None \<Rightarrow> None | Some y \<Rightarrow> Some (the (go_StartTimerDecisionAttributes F v))) = go_StartTimerDecisionAttributes F v"
  using assms StartTimerDecisionAttributes_arrives [of W F v] by (auto simp: arrived_def go_StartTimerDecisionAttributes_def split: option.splits)

definition go_CompleteWorkflowExecutionDecisionAttributes :: "(rval \<Rightarrow> float64) \<Rightarrow> rval \<Rightarrow> CompleteWorkflowExecutionDecisionAttributes option" where
  "go_CompleteWorkflowExecutionDecisionAttributes F v = (case v of
     RStruct c fs \<Rightarrow> Some
      \<lparr>CompleteWorkflowExecutionDecisionAttributes.Result = go_bytes (field fs ''result'')\<rparr>
   | _ \<Rightarrow> None)"

lemma CompleteWorkflowExecutionDecisionAttributes_arrives:
  assumes "arrives W F (T_STRUCT ''CompleteWorkflowExecutionDecisionAttributes'') v w"
  shows "wire_api.Type W w = TStruct" "v \<noteq> RNil" "CompleteWorkflowExecutionDecisionAttributes_Read W w = Inr (the (go_CompleteWorkflowExecutionDecisionAttributes F v))" "go_CompleteWorkflowExecutionDecisionAttributes F v \<noteq> None"
proof -
  obtain fs where s: "v = Thrift ''CompleteWorkflowExecutionDecisionAttributes'' fs" "wire_api.Type W w = TStruct"
    "fields_arrive W F CompleteWorkflowExecutionDecisionAttributes_FIELDS fs (GetStruct W w)"
    using assms by (auto elim: arrives_struct)
  then obtain x0 where
    g: "GetStruct W w = opt_field 10 id x0" and
    a: "arrived W F (T_STRING) (field fs ''result'') x0"
    unfolding CompleteWorkflowExecutionDecisionAttributes_FIELDS_def by (elim fields_arrive_ConsE fields_arrive_NilE) (simp add: that)
  show "wire_api.Type W w = TStruct" "v \<noteq> RNil" "go_CompleteWorkflowExecutionDecisionAttributes F v \<noteq> None"
    using s by (simp_all add: Thrift_def go_CompleteWorkflowExecutionDecisionAttributes_def)
  show "CompleteWorkflowExecutionDecisionAttributes_Read W w = Inr (the (go_CompleteWorkflowExecutionDecisionAttributes F v))"
    unfolding CompleteWorkflowExecutionDecisionAttributes_Read_def CompleteWorkflowExecutionDecisionAttributes_FromWire_def g s(1) go_CompleteWorkflowExecutionDecisionAttributes_def
    by (simp cong: option.case_cong add: codec_rules CompleteWorkflowExecutionDecisionAttributes_merge CompleteWorkflowExecutionDecisionAttributes_zero_def Thrift_def 
          arrived_string [OF a(1)])
qed

lemma arrived_CompleteWorkflowExecutionDecisionAttributes:
  assumes "arrived W F (T_STRUCT ''CompleteWorkflowExecutionDecisionAttributes'') v x"
  shows "x = Some y \<Longrightarrow> wire_api.Type W y = TStruct" "x = Some y \<Longrightarrow> CompleteWorkflowExecutionDecisionAttributes_Read W y = Inr (the (go_CompleteWorkflowExecutionDecisionAttributes F v))"
    and "(case x of None \<Rightarrow> None | Some y \<Rightarrow> Some (the (go_CompleteWorkflowExecutionDecisionAttributes F v))) = go_CompleteWorkflowExecutionDecisionAttributes F v"
  using assms CompleteWorkflowExecutionDecisionAttributes_arrives [of W F v] by (auto simp: arrived_def go_CompleteWorkflowExecutionDecisionAttributes_def split: option.splits)

definition go_FailWorkflowExecutionDecisionAttributes :: "(rval \<Rightarrow> float64) \<Rightarrow> rval \<Rightarrow> FailWorkflowExecutionDecisionAttributes option" where
  "go_FailWorkflowExecutionDecisionAttributes F v = (case v of
     RStruct c fs \<Rightarrow> Some
      \<lparr>FailWorkflowExecutionDecisionAttributes.Reason = go_string (field fs ''reason''),
       FailWorkflowExecutionDecisionAttributes.Details = go_bytes (field fs ''details'')\<rparr>
   | _ \<Rightarrow> None)"

lemma FailWorkflowExecutionDecisionAttributes_arrives:
  assumes "arrives W F (T_STRUCT ''FailWorkflowExecutionDecisionAttributes'') v w"
  shows "wire_api.Type W w = TStruct" "v \<noteq> RNil" "FailWorkflowExecutionDecisionAttributes_Read W w = Inr (the (go_FailWorkflowExecutionDecisionAttributes F v))" "go_FailWorkflowExecutionDecisionAttributes F v \<noteq> None"
proof -
  obtain fs where s: "v = Thrift ''FailWorkflowExecutionDecisionAttributes'' fs" "wire_api.Type W w = TStruct"
    "fields_arrive W F FailWorkflowExecutionDecisionAttributes_FIELDS fs (GetStruct W w)"
    using assms by (auto elim: arrives_struct)
  then obtain x0 x1 where
    g: "GetStruct W w = opt_field 10 id x0 @ opt_field 20 id x1" and
    a: "arrived W F (T_STRING) (field fs ''reason'') x0"
      "arrived W F (T_STRING) (field fs ''details'') x1"
    unfolding FailWorkflowExecutionDecisionAttributes_FIELDS_def by (elim fields_arrive_ConsE fields_arrive_NilE) (simp add: that)
  show "wire_api.Type W w = TStruct" "v \<noteq> RNil" "go_FailWorkflowExecutionDecisionAttributes F v \<noteq> None"
    using s by (simp_all add: Thrift_def go_FailWorkflowExecutionDecisionAttributes_def)
  show "FailWorkflowExecutionDecisionAttributes_Read W w = Inr (the (go_FailWorkflowExecutionDecisionAttributes F v))"
    unfolding FailWorkflowExecutionDecisionAttributes_Read_def FailWorkflowExecutionDecisionAttributes_FromWire_def g s(1) go_FailWorkflowExecutionDecisionAttributes_def
    by (simp cong: option.case_cong add: codec_rules FailWorkflowExecutionDecisionAttributes_merge FailWorkflowExecutionDecisionAttributes_zero_def Thrift_def 
          arrived_string [OF a(1)] arrived_string [OF a(2)])
qed

lemma arrived_FailWorkflowExecutionDecisionAttributes:
  assumes "arrived W F (T_STRUCT ''FailWorkflowExecutionDecisionAttributes'') v x"
  shows "x = Some y \<Longrightarrow> wire_api.Type W y = TStruct" "x = Some y \<Longrightarrow> FailWorkflowExecutionDecisionAttributes_Read W y = Inr (the (go_FailWorkflowExecutionDecisionAttributes F v))"
    and "(case x of None \<Rightarrow> None | Some y \<Rightarrow> Some (the (go_FailWorkflowExecutionDecisionAttributes F v))) = go_FailWorkflowExecutionDecisionAttributes F v"
  using assms FailWorkflowExecutionDecisionAttributes_arrives [of W F v] by (auto simp: arrived_def go_FailWorkflowExecutionDecisionAttributes_def split: option.splits)

definition go_RequestCancelActivityTaskDecisionAttributes :: "(rval \<Rightarrow> float64) \<Rightarrow> rval \<Rightarrow> RequestCancelActivityTaskDecisionAttributes option" where
  "go_RequestCancelActivityTaskDecisionAttributes F v = (case v of
     RStruct c fs \<Rightarrow> Some
      \<lparr>RequestCancelActivityTaskDecisionAttributes.ActivityId = go_string (field fs ''activityId'')\<rparr>
   | _ \<Rightarrow> None)"

lemma RequestCancelActivityTaskDecisionAttributes_arrives:
  assumes "arrives W F (T_STRUCT ''RequestCancelActivityTaskDecisionAttributes'') v w"
  shows "wire_api.Type W w = TStruct" "v \<noteq> RNil" "RequestCancelActivityTaskDecisionAttributes_Read W w = Inr (the (go_RequestCancelActivityTaskDecisionAttributes F v))" "go_RequestCancelActivityTaskDecisionAttributes F v \<noteq> None"
proof -
  obtain fs where s: "v = Thrift ''RequestCancelActivityTaskDecisionAttributes'' fs" "wire_api.Type W w = TStruct"
    "fields_arrive W F RequestCancelActivityTaskDecisionAttributes_FIELDS fs (GetStruct W w)"
    using assms by (auto elim: arrives_struct)
  then obtain x0 where
    g: "GetStruct W w = opt_field 10 id x0" and
    a: "arrived W F (T_STRING) (field fs ''activityId'') x0"
    unfolding RequestCancelActivityTaskDecisionAttributes_FIELDS_def by (elim fields_arrive_ConsE fields_arrive_NilE) (simp add: that)
  show "wire_api.Type W w = TStruct" "v \<noteq> RNil" "go_RequestCancelActivityTaskDecisionAttributes F v \<noteq> None"
    using s by (simp_all add: Thrift_def go_RequestCancelActivityTaskDecisionAttributes_def)
  show "RequestCancelActivityTaskDecisionAttributes_Read W w = Inr (the (go_RequestCancelActivityTaskDecisionAttributes F v))"
    unfolding RequestCancelActivityTaskDecisionAttributes_Read_def RequestCancelActivityTaskDecisionAttributes_FromWire_def g s(1) go_RequestCancelActivityTaskDecisionAttributes_def
    by (simp cong: option.case_cong add: codec_rules RequestCancelActivityTaskDecisionAttributes_merge RequestCancelActivityTaskDecisionAttributes_zero_def Thrift_def 
          arrived_string [OF a(1)])
qed

lemma arrived_RequestCancelActivityTaskDecisionAttributes:
  assumes "arrived W F (T_STRUCT ''RequestCancelActivityTaskDecisionAttributes'') v x"
  shows "x = Some y \<Longrightarrow> wire_api.Type W y = TStruct" "x = Some y \<Longrightarrow> RequestCancelActivityTaskDecisionAttributes_Read W y = Inr (the (go_RequestCancelActivityTaskDecisionAttributes F v))"
    and "(case x of None \<Rightarrow> None | Some y \<Rightarrow> Some (the (go_RequestCancelActivityTaskDecisionAttributes F v))) = go_RequestCancelActivityTaskDecisionAttributes F v"
  using assms RequestCancelActivityTaskDecisionAttributes_arrives [of W F v] by (auto simp: arrived_def go_RequestCancelActivityTaskDecisionAttributes_def split: option.splits)

definition go_CancelTimerDecisionAttributes :: "(rval \<Rightarrow> float64) \<Rightarrow> rval \<Rightarrow> CancelTimerDecisionAttributes option" where
  "go_CancelTimerDecisionAttributes F v = (case v of
     RStruct c fs \<Rightarrow> Some
      \<lparr>CancelTimerDecisionAttributes.TimerId = go_string (field fs ''timerId'')\<rparr>
   | _ \<Rightarrow> None)"

lemma CancelTimerDecisionAttributes_arrives:
  assumes "arrives W F (T_STRUCT ''CancelTimerDecisionAttributes'') v w"
  shows "wire_api.Type W w = TStruct" "v \<noteq> RNil" "CancelTimerDecisionAttributes_Read W w = Inr (the (go_CancelTimerDecisionAttributes F v))" "go_CancelTimerDecisionAttributes F v \<noteq> None"
proof -
  obtain fs where s: "v = Thrift ''CancelTimerDecisionAttributes'' fs" "wire_api.Type W w = TStruct"
    "fields_arrive W F CancelTimerDecisionAttributes_FIELDS fs (GetStruct W w)"
    using assms by (auto elim: arrives_struct)
  then obtain x0 where
    g: "GetStruct W w = opt_field 10 id x0" and
    a: "arrived W F (T_STRING) (field fs ''timerId'') x0"
    unfolding CancelTimerDecisionAttributes_FIELDS_def by (elim fields_arrive_ConsE fields_arrive_NilE) (simp add: that)
  show "wire_api.Type W w = TStruct" "v \<noteq> RNil" "go_CancelTimerDecisionAttributes F v \<noteq> None"
    using s by (simp_all add: Thrift_def go_CancelTimerDecisionAttributes_def)
  show "CancelTimerDecisionAttributes_Read W w = Inr (the (go_CancelTimerDecisionAttributes F v))"
    unfolding CancelTimerDecisionAttributes_Read_def CancelTimerDecisionAttributes_FromWire_def g s(1) go_CancelTimerDecisionAttributes_def
    by (simp cong: option.case_cong add: codec_rules CancelTimerDecisionAttributes_merge CancelTimerDecisionAttributes_zero_def Thrift_def 
          arrived_string [OF a(1)])
qed

lemma arrived_CancelTimerDecisionAttributes:
  assumes "arrived W F (T_STRUCT ''CancelTimerDecisionAttributes'') v x"
  shows "x = Some y \<Longrightarrow> wire_api.Type W y = TStruct" "x = Some y \<Longrightarrow> CancelTimerDecisionAttributes_Read W y = Inr (the (go_CancelTimerDecisionAttributes F v))"
    and "(case x of None \<Rightarrow> None | Some y \<Rightarrow> Some (the (go_CancelTimerDecisionAttributes F v))) = go_CancelTimerDecisionAttributes F v"
  using assms CancelTimerDecisionAttributes_arrives [of W F v] by (auto simp: arrived_def go_CancelTimerDecisionAttributes_def split: option.splits)

definition go_RecordMarkerDecisionAttributes :: "(rval \<Rightarrow> float64) \<Rightarrow> rval \<Rightarrow> RecordMarkerDecisionAttributes option" where
  "go_RecordMarkerDecisionAttributes F v = (case v of
     RStruct c fs \<Rightarrow> Some
      \<lparr>RecordMarkerDecisionAttributes.MarkerName = go_string (field fs ''markerName''),
       RecordMarkerDecisionAttributes.Details = go_bytes (field fs ''details''),
       RecordMarkerDecisionAttributes.Header = go_Header F (field fs ''header'')\<rparr>
   | _ \<Rightarrow> None)"

lemma RecordMarkerDecisionAttributes_arrives:
  assumes "arrives W F (T_STRUCT ''RecordMarkerDecisionAttributes'') v w"
  shows "wire_api.Type W w = TStruct" "v \<noteq> RNil" "RecordMarkerDecisionAttributes_Read W w = Inr (the (go_RecordMarkerDecisionAttributes F v))" "go_RecordMarkerDecisionAttributes F v \<noteq> None"
proof -
  obtain fs where s: "v = Thrift ''RecordMarkerDecisionAttributes'' fs" "wire_api.Type W w = TStruct"
    "fields_arrive W F RecordMarkerDecisionAttributes_FIELDS fs (GetStruct W w)"
    using assms by (auto elim: arrives_struct)
  then obtain x0 x1 x2 where
    g: "GetStruct W w = opt_field 10 id x0 @ opt_field 20 id x1 @ opt_field 30 id x2" and
    a: "arrived W F (T_STRING) (field fs ''markerName'') x0"
      "arrived W F (T_STRING) (field fs ''details'') x1"
      "arrived W F (T_STRUCT ''Header'') (field fs ''header'') x2"
    unfolding RecordMarkerDecisionAttributes_FIELDS_def by (elim fields_arrive_ConsE fields_arrive_NilE) (simp add: that)
  show "wire_api.Type W w = TStruct" "v \<noteq> RNil" "go_RecordMarkerDecisionAttributes F v \<noteq> None"
    using s by (simp_all add: Thrift_def go_RecordMarkerDecisionAttributes_def)
  show "RecordMarkerDecisionAttributes_Read W w = Inr (the (go_RecordMarkerDecisionAttributes F v))"
    unfolding RecordMarkerDecisionAttributes_Read_def RecordMarkerDecisionAttributes_FromWire_def g s(1) go_RecordMarkerDecisionAttributes_def
    by (simp cong: option.case_cong add: codec_rules RecordMarkerDecisionAttributes_merge RecordMarkerDecisionAttributes_zero_def Thrift_def 
          arrived_string [OF a(1)] arrived_string [OF a(2)] arrived_Header [OF a(3)])
qed

lemma arrived_RecordMarkerDecisionAttributes:
  assumes "arrived W F (T_STRUCT ''RecordMarkerDecisionAttributes'') v x"
  shows "x = Some y \<Longrightarrow> wire_api.Type W y = TStruct" "x = Some y \<Longrightarrow> RecordMarkerDecisionAttributes_Read W y = Inr (the (go_RecordMarkerDecisionAttributes F v))"
    and "(case x of None \<Rightarrow> None | Some y \<Rightarrow> Some (the (go_RecordMarkerDecisionAttributes F v))) = go_RecordMarkerDecisionAttributes F v"
  using assms RecordMarkerDecisionAttributes_arrives [of W F v] by (auto simp: arrived_def go_RecordMarkerDecisionAttributes_def split: option.splits)

definition go_StartChildWorkflowExecutionDecisionAttributes :: "(rval \<Rightarrow> float64) \<Rightarrow> rval \<Rightarrow> StartChildWorkflowExecutionDecisionAttributes option" where
  "go_StartChildWorkflowExecutionDecisionAttributes F v = (case v of
     RStruct c fs \<Rightarrow> Some
      \<lparr>StartChildWorkflowExecutionDecisionAttributes.Domain = go_string (field fs ''domain''),
       StartChildWorkflowExecutionDecisionAttributes.WorkflowId = go_string (field fs ''workflowId''),
       StartChildWorkflowExecutionDecisionAttributes.WorkflowType = go_WorkflowType F (field fs ''workflowType''),
       StartChildWorkflowExecutionDecisionAttributes.TaskList = go_TaskList F (field fs ''taskList''),
       StartChildWorkflowExecutionDecisionAttributes.Input = go_bytes (field fs ''input''),
       StartChildWorkflowExecutionDecisionAttributes.ExecutionStartToCloseTimeoutSeconds = go_i32 (field fs ''executionStartToCloseTimeoutSeconds''),
       StartChildWorkflowExecutionDecisionAttributes.TaskStartToCloseTimeoutSeconds = go_i32 (field fs ''taskStartToCloseTimeoutSeconds''),
       StartChildWorkflowExecutionDecisionAttributes.ParentClosePolicy = go_i32 (field fs ''parentClosePolicy''),
       StartChildWorkflowExecutionDecisionAttributes.Control = go_bytes (field fs ''control''),
       StartChildWorkflowExecutionDecisionAttributes.WorkflowIdReusePolicy = go_i32 (field fs ''workflowIdReusePolicy''),
       StartChildWorkflowExecutionDecisionAttributes.RetryPolicy = go_RetryPolicy F (field fs ''retryPolicy''),
       StartChildWorkflowExecutionDecisionAttributes.CronSchedule = go_string (field fs ''cronSchedule''),
       StartChildWorkflowExecutionDecisionAttributes.Header = go_Header F (field fs ''header''),
       StartChildWorkflowExecutionDecisionAttributes.Memo = None,
       StartChildWorkflowExecutionDecisionAttributes.SearchAttributes = None\<rparr>
   | _ \<Rightarrow> None)"

lemma StartChildWorkflowExecutionDecisionAttributes_arrives:
  assumes "arrives W F (T_STRUCT ''StartChildWorkflowExecutionDecisionAttributes'') v w"
  shows "wire_api.Type W w = TStruct" "v \<noteq> RNil" "StartChildWorkflowExecutionDecisionAttributes_Read W w = Inr (the (go_StartChildWorkflowExecutionDecisionAttributes F v))" "go_StartChildWorkflowExecutionDecisionAttributes F v \<noteq> None"
proof -
  obtain fs where s: "v = Thrift ''StartChildWorkflowExecutionDecisionAttributes'' fs" "wire_api.Type W w = TStruct"
    "fields_arrive W F StartChildWorkflowExecutionDecisionAttributes_FIELDS fs (GetStruct W w)"
    using assms by (auto elim: arrives_struct)
  then obtain x0 x1 x2 x3 x4 x5 x6 x7 x8 x9 x10 x11 x12 x13 x14 where
    g: "GetStruct W w = opt_field 10 id x0 @ opt_field 20 id x1 @ opt_field 30 id x2 @ opt_field 40 id x3 @ opt_field 50 id x4 @ opt_field 60 id x5 @ opt_field 70 id x6 @ opt_field 81 id x7 @ opt_field 90 id x8 @ opt_field 100 id x9 @ opt_field 110 id x10 @ opt_field 120 id x11 @ opt_field 130 id x12 @ opt_field 140 id x13 @ opt_field 150 id x14" and
    a: "arrived W F (T_STRING) (field fs ''domain'') x0"
      "arrived W F (T_STRING) (field fs ''workflowId'') x1"
      "arrived W F (T_STRUCT ''WorkflowType'') (field fs ''workflowType'') x2"
      "arrived W F (T_STRUCT ''TaskList'') (field fs ''taskList'') x3"
      "arrived W F (T_STRING) (field fs ''input'') x4"
      "arrived W F (T_I32) (field fs ''executionStartToCloseTimeoutSeconds'') x5"
      "arrived W F (T_I32) (field fs ''taskStartToCloseTimeoutSeconds'') x6"
      "arrived W F (T_ENUM ParentClosePolicy_VALID_VALUES) (field fs ''parentClosePolicy'') x7"
      "arrived W F (T_STRING) (field fs ''control'') x8"
      "arrived W F (T_ENUM WorkflowIdReusePolicy_VALID_VALUES) (field fs ''workflowIdReusePolicy'') x9"
      "arrived W F (T_STRUCT ''RetryPolicy'') (field fs ''retryPolicy'') x10"
      "arrived W F (T_STRING) (field fs ''cronSchedule'') x11"
      "arrived W F (T_STRUCT ''Header'') (field fs ''header'') x12"
      "arrived W F (T_STRUCT ''Memo'') (field fs ''memo'') x13"
      "arrived W F (T_STRUCT ''SearchAttributes'') (field fs ''searchAttributes'') x14"
    unfolding StartChildWorkflowExecutionDecisionAttributes_FIELDS_def by (elim fields_arrive_ConsE fields_arrive_NilE) (simp add: that)
  show "wire_api.Type W w = TStruct" "v \<noteq> RNil" "go_StartChildWorkflowExecutionDecisionAttributes F v \<noteq> None"
    using s by (simp_all add: Thrift_def go_StartChildWorkflowExecutionDecisionAttributes_def)
  show "StartChildWorkflowExecutionDecisionAttributes_Read W w = Inr (the (go_StartChildWorkflowExecutionDecisionAttributes F v))"
    unfolding StartChildWorkflowExecutionDecisionAttributes_Read_def StartChildWorkflowExecutionDecisionAttributes_FromWire_def g s(1) go_StartChildWorkflowExecutionDecisionAttributes_def
    by (simp cong: option.case_cong add: codec_rules StartChildWorkflowExecutionDecisionAttributes_merge StartChildWorkflowExecutionDecisionAttributes_zero_def Thrift_def ParentClosePolicy_Read_def ParentClosePolicy_FromWire_def WorkflowIdReusePolicy_Read_def WorkflowIdReusePolicy_FromWire_def
          arrived_string [OF a(1)] arrived_string [OF a(2)] arrived_WorkflowType [OF a(3)]
          arrived_TaskList [OF a(4)] arrived_string [OF a(5)] arrived_i32 [OF a(6)] arrived_i32 [OF
          a(7)] arrived_enum [OF a(8)] arrived_string [OF a(9)] arrived_enum [OF a(10)]
          arrived_RetryPolicy [OF a(11)] arrived_string [OF a(12)] arrived_Header [OF a(13)]
          arrived_unknown [OF a(14)] arrived_unknown [OF a(15)])
qed

lemma arrived_StartChildWorkflowExecutionDecisionAttributes:
  assumes "arrived W F (T_STRUCT ''StartChildWorkflowExecutionDecisionAttributes'') v x"
  shows "x = Some y \<Longrightarrow> wire_api.Type W y = TStruct" "x = Some y \<Longrightarrow> StartChildWorkflowExecutionDecisionAttributes_Read W y = Inr (the (go_StartChildWorkflowExecutionDecisionAttributes F v))"
    and "(case x of None \<Rightarrow> None | Some y \<Rightarrow> Some (the (go_StartChildWorkflowExecutionDecisionAttributes F v))) = go_StartChildWorkflowExecutionDecisionAttributes F v"
  using assms StartChildWorkflowExecutionDecisionAttributes_arrives [of W F v] by (auto simp: arrived_def go_StartChildWorkflowExecutionDecisionAttributes_def split: option.splits)

definition go_Decision :: "(rval \<Rightarrow> float64) \<Rightarrow> rval \<Rightarrow> Decision option" where
  "go_Decision F v = (case v of
     RStruct c fs \<Rightarrow> Some
      \<lparr>Decision.DecisionType = go_i32 (field fs ''decisionType''),
       Decision.ScheduleActivityTaskDecisionAttributes = go_ScheduleActivityTaskDecisionAttributes F (field fs ''scheduleActivityTaskDecisionAttributes''),
       Decision.StartTimerDecisionAttributes = go_StartTimerDecisionAttributes F (field fs ''startTimerDecisionAttributes''),
       Decision.CompleteWorkflowExecutionDecisionAttributes = go_CompleteWorkflowExecutionDecisionAttributes F (field fs ''completeWorkflowExecutionDecisionAttributes''),
       Decision.FailWorkflowExecutionDecisionAttributes = go_FailWorkflowExecutionDecisionAttributes F (field fs ''failWorkflowExecutionDecisionAttributes''),
       Decision.RequestCancelActivityTaskDecisionAttributes = go_RequestCancelActivityTaskDecisionAttributes F (field fs ''requestCancelActivityTaskDecisionAttributes''),
       Decision.CancelTimerDecisionAttributes = go_CancelTimerDecisionAttributes F (field fs ''cancelTimerDecisionAttributes''),
       Decision.CancelWorkflowExecutionDecisionAttributes = None,
       Decision.RequestCancelExternalWorkflowExecutionDecisionAttributes = None,
       Decision.RecordMarkerDecisionAttributes = go_RecordMarkerDecisionAttributes F (field fs ''recordMarkerDecisionAttributes''),
       Decision.ContinueAsNewWorkflowExecutionDecisionAttributes = None,
       Decision.StartChildWorkflowExecutionDecisionAttributes = go_StartChildWorkflowExecutionDecisionAttributes F (field fs ''startChildWorkflowExecutionDecisionAttributes''),
       Decision.SignalExternalWorkflowExecutionDecisionAttributes = None,
       Decision.UpsertWorkflowSearchAttributesDecisionAttributes = None\<rparr>
   | _ \<Rightarrow> None)"

lemma Decision_arrives:
  assumes "arrives W F (T_STRUCT ''Decision'') v w"
  shows "wire_api.Type W w = TStruct" "v \<noteq> RNil" "Decision_Read W w = Inr (the (go_Decision F v))" "go_Decision F v \<noteq> None"
proof -
  obtain fs where s: "v = Thrift ''Decision'' fs" "wire_api.Type W w = TStruct"
    "fields_arrive W F Decision_FIELDS fs (GetStruct W w)"
    using assms by (auto elim: arrives_struct)
  then obtain x0 x1 x2 x3 x4 x5 x6 x7 x8 x9 x10 x11 x12 x13 where
    g: "GetStruct W w = opt_field 10 id x0 @ opt_field 20 id x1 @ opt_field 25 id x2 @ opt_field 30 id x3 @ opt_field 35 id x4 @ opt_field 40 id x5 @ opt_field 50 id x6 @ opt_field 60 id x7 @ opt_field 70 id x8 @ opt_field 80 id x9 @ opt_field 90 id x10 @ opt_field 100 id x11 @ opt_field 110 id x12 @ opt_field 120 id x13" and
    a: "arrived W F (T_ENUM DecisionType_VALID_VALUES) (field fs ''decisionType'') x0"
      "arrived W F (T_STRUCT ''ScheduleActivityTaskDecisionAttributes'') (field fs ''scheduleActivityTaskDecisionAttributes'') x1"
      "arrived W F (T_STRUCT ''StartTimerDecisionAttributes'') (field fs ''startTimerDecisionAttributes'') x2"
      "arrived W F (T_STRUCT ''CompleteWorkflowExecutionDecisionAttributes'') (field fs ''completeWorkflowExecutionDecisionAttributes'') x3"
      "arrived W F (T_STRUCT ''FailWorkflowExecutionDecisionAttributes'') (field fs ''failWorkflowExecutionDecisionAttributes'') x4"
      "arrived W F (T_STRUCT ''RequestCancelActivityTaskDecisionAttributes'') (field fs ''requestCancelActivityTaskDecisionAttributes'') x5"
      "arrived W F (T_STRUCT ''CancelTimerDecisionAttributes'') (field fs ''cancelTimerDecisionAttributes'') x6"
      "arrived W F (T_STRUCT ''CancelWorkflowExecutionDecisionAttributes'') (field fs ''cancelWorkflowExecutionDecisionAttributes'') x7"
      "arrived W F (T_STRUCT ''RequestCancelExternalWorkflowExecutionDecisionAttributes'') (field fs ''requestCancelExternalWorkflowExecutionDecisionAttributes'') x8"
      "arrived W F (T_STRUCT ''RecordMarkerDecisionAttributes'') (field fs ''recordMarkerDecisionAttributes'') x9"
      "arrived W F (T_STRUCT ''ContinueAsNewWorkflowExecutionDecisionAttributes'') (field fs ''continueAsNewWorkflowExecutionDecisionAttributes'') x10"
      "arrived W F (T_STRUCT ''StartChildWorkflowExecutionDecisionAttributes'') (field fs ''startChildWorkflowExecutionDecisionAttributes'') x11"
      "arrived W F (T_STRUCT ''SignalExternalWorkflowExecutionDecisionAttributes'') (field fs ''signalExternalWorkflowExecutionDecisionAttributes'') x12"
      "arrived W F (T_STRUCT ''UpsertWorkflowSearchAttributesDecisionAttributes'') (field fs ''upsertWorkflowSearchAttributesDecisionAttributes'') x13"
    unfolding Decision_FIELDS_def by (elim fields_arrive_ConsE fields_arrive_NilE) (simp add: that)
  show "wire_api.Type W w = TStruct" "v \<noteq> RNil" "go_Decision F v \<noteq> None"
    using s by (simp_all add: Thrift_def go_Decision_def)
  show "Decision_Read W w = Inr (the (go_Decision F v))"
    unfolding Decision_Read_def Decision_FromWire_def g s(1) go_Decision_def
    by (simp cong: option.case_cong add: codec_rules Decision_merge Decision_zero_def Thrift_def DecisionType_Read_def DecisionType_FromWire_def
          arrived_enum [OF a(1)] arrived_ScheduleActivityTaskDecisionAttributes [OF a(2)]
          arrived_StartTimerDecisionAttributes [OF a(3)]
          arrived_CompleteWorkflowExecutionDecisionAttributes [OF a(4)]
          arrived_FailWorkflowExecutionDecisionAttributes [OF a(5)]
          arrived_RequestCancelActivityTaskDecisionAttributes [OF a(6)]
          arrived_CancelTimerDecisionAttributes [OF a(7)] arrived_unknown [OF a(8)] arrived_unknown [OF
          a(9)] arrived_RecordMarkerDecisionAttributes [OF a(10)] arrived_unknown [OF a(11)]
          arrived_StartChildWorkflowExecutionDecisionAttributes [OF a(12)] arrived_unknown [OF a(13)]
          arrived_unknown [OF a(14)])
qed

lemma arrived_Decision:
  assumes "arrived W F (T_STRUCT ''Decision'') v x"
  shows "x = Some y \<Longrightarrow> wire_api.Type W y = TStruct" "x = Some y \<Longrightarrow> Decision_Read W y = Inr (the (go_Decision F v))"
    and "(case x of None \<Rightarrow> None | Some y \<Rightarrow> Some (the (go_Decision F v))) = go_Decision F v"
  using assms Decision_arrives [of W F v] by (auto simp: arrived_def go_Decision_def split: option.splits)


section \<open>Properties\<close>

text \<open>The decision the proxy should see: only the attributes of its type are set.\<close>

definition member :: "rval \<Rightarrow> string \<Rightarrow> rval" where
  "member p name = (case get_field p name of Inl _ \<Rightarrow> RNil | Inr v \<Rightarrow> v)"

definition received_retry_policy :: "(rval \<Rightarrow> float64) \<Rightarrow> rval \<Rightarrow> RetryPolicy option" where
  "received_retry_policy F p =
     (if truthy p then Some
       \<lparr>RetryPolicy.InitialIntervalInSeconds = go_i32 (member p ''interval''),
        RetryPolicy.BackoffCoefficient = go_double F (member p ''backoff''),
        RetryPolicy.MaximumIntervalInSeconds = go_i32 (member p ''max_interval''),
        RetryPolicy.MaximumAttempts = go_i32 (member p ''max_attempts''),
        RetryPolicy.NonRetriableErrorReasons =
          Some (List.map (\<lambda>c. the (go_string (member c ''name''))) (to_array (member p ''non_retriable_errors''))),
        RetryPolicy.ExpirationIntervalInSeconds = go_i32 (member p ''expiration_interval'')\<rparr>
      else None)"

definition received_headers :: "rval \<Rightarrow> Header option" where
  "received_headers h = (if truthy h then Some \<lparr>Header.Fields = go_map h\<rparr> else None)"

definition received_seconds :: "rval \<Rightarrow> string \<Rightarrow> 32 word option" where
  "received_seconds ts name = (case hash_get ts (RSym name) of Inl _ \<Rightarrow> None | Inr v \<Rightarrow> go_i32 v)"

definition received_bytes :: "string \<Rightarrow> bytes option" where
  "received_bytes s = Some (List.map of_char s)"

definition received_activity ::
  "json_api \<Rightarrow> (rval \<Rightarrow> float64) \<Rightarrow> ScheduleActivity \<Rightarrow> ScheduleActivityTaskDecisionAttributes" where
  "received_activity J F a =
     \<lparr>ScheduleActivityTaskDecisionAttributes.ActivityId = Some (rb_to_s J (activity_id a)),
      ScheduleActivityTaskDecisionAttributes.ActivityType = Some \<lparr>ActivityType.Name = go_string (activity_type a)\<rparr>,
      ScheduleActivityTaskDecisionAttributes.Domain = go_string (ScheduleActivity.domain a),
      ScheduleActivityTaskDecisionAttributes.TaskList =
        Some \<lparr>TaskList.Name = go_string (ScheduleActivity.task_list a), TaskList.Kind = None\<rparr>,
      ScheduleActivityTaskDecisionAttributes.Input =
        received_bytes (JSON_serialize J (ScheduleActivity.input a)),
      ScheduleActivityTaskDecisionAttributes.ScheduleToCloseTimeoutSeconds =
        received_seconds (ScheduleActivity.timeouts a) ''schedule_to_close'',
      ScheduleActivityTaskDecisionAttributes.ScheduleToStartTimeoutSeconds =
        received_seconds (ScheduleActivity.timeouts a) ''schedule_to_start'',
      ScheduleActivityTaskDecisionAttributes.StartToCloseTimeoutSeconds =
        received_seconds (ScheduleActivity.timeouts a) ''start_to_close'',
      ScheduleActivityTaskDecisionAttributes.HeartbeatTimeoutSeconds =
        received_seconds (ScheduleActivity.timeouts a) ''heartbeat'',
      ScheduleActivityTaskDecisionAttributes.RetryPolicy =
        received_retry_policy F (ScheduleActivity.retry_policy a),
      ScheduleActivityTaskDecisionAttributes.Header = received_headers (ScheduleActivity.headers a)\<rparr>"

definition received_child ::
  "json_api \<Rightarrow> (rval \<Rightarrow> float64) \<Rightarrow> StartChildWorkflow \<Rightarrow> StartChildWorkflowExecutionDecisionAttributes" where
  "received_child J F c =
     StartChildWorkflowExecutionDecisionAttributes_zero
       \<lparr>StartChildWorkflowExecutionDecisionAttributes.Domain := go_string (StartChildWorkflow.domain c),
        StartChildWorkflowExecutionDecisionAttributes.WorkflowId := Some (rb_to_s J (workflow_id c)),
        StartChildWorkflowExecutionDecisionAttributes.WorkflowType :=
          Some \<lparr>WorkflowType.Name = go_string (workflow_type c)\<rparr>,
        StartChildWorkflowExecutionDecisionAttributes.TaskList :=
          Some \<lparr>TaskList.Name = go_string (StartChildWorkflow.task_list c), TaskList.Kind = None\<rparr>,
        StartChildWorkflowExecutionDecisionAttributes.Input :=
          received_bytes (JSON_serialize J (StartChildWorkflow.input c)),
        StartChildWorkflowExecutionDecisionAttributes.ExecutionStartToCloseTimeoutSeconds :=
          received_seconds (StartChildWorkflow.timeouts c) ''execution'',
        StartChildWorkflowExecutionDecisionAttributes.TaskStartToCloseTimeoutSeconds :=
          received_seconds (StartChildWorkflow.timeouts c) ''task'',
        StartChildWorkflowExecutionDecisionAttributes.RetryPolicy :=
          received_retry_policy F (StartChildWorkflow.retry_policy c),
        StartChildWorkflowExecutionDecisionAttributes.Header := received_headers (StartChildWorkflow.headers c)\<rparr>"

definition received_decision :: "json_api \<Rightarrow> (rval \<Rightarrow> float64) \<Rightarrow> decision \<Rightarrow> Decision" where
  "received_decision J F d =
     (case d of
        ScheduleActivity a \<Rightarrow> Decision_zero
          \<lparr>Decision.DecisionType := Some 0,
           Decision.ScheduleActivityTaskDecisionAttributes := Some (received_activity J F a)\<rparr>
      | RequestActivityCancellation i \<Rightarrow> Decision_zero
          \<lparr>Decision.DecisionType := Some 1, Decision.RequestCancelActivityTaskDecisionAttributes :=
             Some \<lparr>RequestCancelActivityTaskDecisionAttributes.ActivityId = Some (rb_to_s J i)\<rparr>\<rparr>
      | StartTimer tmo tid \<Rightarrow> Decision_zero
          \<lparr>Decision.DecisionType := Some 2, Decision.StartTimerDecisionAttributes :=
             Some \<lparr>StartTimerDecisionAttributes.TimerId = Some (rb_to_s J tid),
               StartTimerDecisionAttributes.StartToFireTimeoutSeconds =
                 (case rb_to_i tmo of Inl _ \<Rightarrow> None | Inr i \<Rightarrow> Some (word_of_int i))\<rparr>\<rparr>
      | CompleteWorkflow v \<Rightarrow> Decision_zero
          \<lparr>Decision.DecisionType := Some 3, Decision.CompleteWorkflowExecutionDecisionAttributes :=
             Some \<lparr>CompleteWorkflowExecutionDecisionAttributes.Result = received_bytes (JSON_serialize J v)\<rparr>\<rparr>
      | FailWorkflow reason details \<Rightarrow> Decision_zero
          \<lparr>Decision.DecisionType := Some 4, Decision.FailWorkflowExecutionDecisionAttributes :=
             Some \<lparr>FailWorkflowExecutionDecisionAttributes.Reason = go_string reason,
               FailWorkflowExecutionDecisionAttributes.Details = received_bytes (JSON_serialize J details)\<rparr>\<rparr>
      | CancelTimer tid \<Rightarrow> Decision_zero
          \<lparr>Decision.DecisionType := Some 5, Decision.CancelTimerDecisionAttributes :=
             Some \<lparr>CancelTimerDecisionAttributes.TimerId = Some (rb_to_s J tid)\<rparr>\<rparr>
      | RecordMarker name details \<Rightarrow> Decision_zero
          \<lparr>Decision.DecisionType := Some 8, Decision.RecordMarkerDecisionAttributes :=
             Some \<lparr>RecordMarkerDecisionAttributes.MarkerName = go_string name,
               RecordMarkerDecisionAttributes.Details = received_bytes (JSON_serialize J details),
               RecordMarkerDecisionAttributes.Header = None\<rparr>\<rparr>
      | StartChildWorkflow c \<Rightarrow> Decision_zero
          \<lparr>Decision.DecisionType := Some 10,
           Decision.StartChildWorkflowExecutionDecisionAttributes := Some (received_child J F c)\<rparr>)"

section \<open>Decisions on the way\<close>

lemma field_Cons: "field ((name, v) # fs) n = (if n = name then v else field fs n)"
  by (simp add: field_def)

lemma field_Nil [simp]: "field [] n = RNil"
  by (simp add: field_def)

lemma field_compact: "distinct (List.map fst fs) \<Longrightarrow> field (compact fs) n = field fs n"
proof (induction fs)
  case (Cons x fs)
  obtain k v where x: "x = (k, v)" by fastforce
  have "n \<notin> fst ` set fs \<Longrightarrow> field (compact fs) n = RNil"
    by (force simp: field_def compact_def split: option.split dest!: map_of_SomeD)
  with Cons x show ?case by (auto simp: field_Cons compact_def)
qed (simp add: compact_def)

lemma go_struct_nil [simp]:
  "go_RetryPolicy F RNil = None" "go_Header F RNil = None" "go_TaskList F RNil = None"
  "go_StartTimerDecisionAttributes F RNil = None"
  by (simp_all add: go_RetryPolicy_def go_Header_def go_TaskList_def go_StartTimerDecisionAttributes_def)

lemma retry_policy_received:
  assumes "serialize_retry_policy p = Inr r"
  shows "go_RetryPolicy F r = received_retry_policy F p"
proof (cases "truthy p")
  case False
  with assms show ?thesis by (auto simp: serialize_retry_policy_def received_retry_policy_def)
next
  case True
  have names: "mapM (\<lambda>c. get_field c ''name'') cs = Inr vs \<Longrightarrow> vs = List.map (\<lambda>c. member c ''name'') cs" for cs vs
    by (induction cs arbitrary: vs) (auto simp: and_then_Inr_iff member_def)
  from assms True names show ?thesis
    by (fastforce simp: serialize_retry_policy_def and_then_Inr_iff received_retry_policy_def member_def
        go_RetryPolicy_def Thrift_def field_compact field_Cons)
qed

lemma headers_received: "go_Header F (serialize_headers h) = received_headers h"
  by (simp add: serialize_headers_def received_headers_def go_Header_def Thrift_def field_Cons)

text \<open>The Go values of the structs the serializers build, field by field.\<close>

lemmas go_struct_defs = go_Decision_def go_ActivityType_def go_WorkflowType_def go_TaskList_def
  go_ScheduleActivityTaskDecisionAttributes_def go_StartTimerDecisionAttributes_def
  go_CompleteWorkflowExecutionDecisionAttributes_def go_FailWorkflowExecutionDecisionAttributes_def
  go_RequestCancelActivityTaskDecisionAttributes_def go_CancelTimerDecisionAttributes_def
  go_RecordMarkerDecisionAttributes_def go_StartChildWorkflowExecutionDecisionAttributes_def

lemmas received_defs = received_decision_def received_activity_def received_child_def received_bytes_def
  received_seconds_def Decision_zero_def StartChildWorkflowExecutionDecisionAttributes_zero_def

lemma activity_received:
  assumes "serialize_activity J a = Inr t"
  shows "go_Decision F t = Some (received_decision J F (ScheduleActivity a))"
  using assms
  by (auto simp: serialize_activity_def and_then_Inr_iff Thrift_Decision_def decision_types Thrift_def field_Cons
      go_struct_defs received_defs headers_received retry_policy_received)

lemma child_received:
  assumes "serialize_child J c = Inr t"
  shows "go_Decision F t = Some (received_decision J F (StartChildWorkflow c))"
  using assms
  by (auto simp: serialize_child_def and_then_Inr_iff Thrift_Decision_def decision_types Thrift_def field_Cons
      go_struct_defs received_defs headers_received retry_policy_received)

lemma decision_received:
  assumes "serialize J d = Inr t"
  shows "go_Decision F t = Some (received_decision J F d)"
proof (cases d)
  case (ScheduleActivity a)
  with assms show ?thesis by (simp add: serialize_def activity_received)
next
  case (StartChildWorkflow c)
  with assms show ?thesis by (simp add: serialize_def child_received)
qed (use assms in \<open>auto simp: serialize_def and_then_Inr_iff Thrift_Decision_def decision_types Thrift_def
  field_Cons go_struct_defs received_defs\<close>)

section \<open>Properties\<close>

text \<open>
  C2: a typed decision of the workflow engine is serialized, and
  whatever wire value its struct arrives as at the proxy, the proxy's generated code reads from
  it exactly the intended decision: the type, the attributes of that type with every identifier,
  payload, timeout, header and retry policy under its own field, and nothing else.
\<close>

theorem decisions_reach_the_proxy:
  assumes "typed_decision floats d"
  shows "\<exists>t. serialize J d = Inr t \<and>
    (\<forall>w. arrives W F (T_STRUCT ''Decision'') t w \<longrightarrow> Decision_Read W w = Inr (received_decision J F d))"
proof -
  obtain t where "serialize J d = Inr t" using typed_decision_serialized [OF assms] by blast
  with Decision_arrives(3) [of W F t] decision_received [of J d t F] show ?thesis by auto
qed

text \<open>A timer of thirty seconds, as two fields of the wire.\<close>

theorem decisions_reach_the_proxy_witness:
  "Decision_Read wire_tree_api (VStruct [(10, VI32 2), (25, VStruct [(10, VString ''5''), (20, VI64 30)])]) =
     Inr (Decision_zero \<lparr>Decision.DecisionType := Some 2, Decision.StartTimerDecisionAttributes :=
       Some \<lparr>StartTimerDecisionAttributes.TimerId = Some ''5'',
         StartTimerDecisionAttributes.StartToFireTimeoutSeconds = Some 30\<rparr>\<rparr>)"
proof -
  let ?J = "\<lparr>load = (\<lambda>_. None), dump = (\<lambda>_. ''[]''), other_to_s = (\<lambda>_. [])\<rparr> :: json_api"
  let ?d = "StartTimer (RInt 30) (RStr ''5'')" and ?F = "\<lambda>_ :: rval. 0 :: float64"
  let ?t = "Thrift_Decision ''StartTimer'' ''startTimerDecisionAttributes''
    (Thrift ''StartTimerDecisionAttributes'' [(''timerId'', RStr ''5''), (''startToFireTimeoutSeconds'', RInt 30)])"
  let ?u = "VStruct [(10, VString ''5''), (20, VI64 30)]"
  have d: "typed_decision (\<lambda>_. False) ?d" by (simp add: typed_decision_def in_range_def)
  have t: "serialize ?J ?d = Inr ?t" by (simp add: serialize_def rb_to_s_def)
  have "arrives wire_tree_api ?F (T_STRUCT ''StartTimerDecisionAttributes'')
      (Thrift ''StartTimerDecisionAttributes'' [(''timerId'', RStr ''5''), (''startToFireTimeoutSeconds'', RInt 30)]) ?u"
    by (rule arrives.struct [OF struct_fields_types(7)])
      (auto simp: wire_tree_api_def written_def StartTimerDecisionAttributes_FIELDS_def field_Cons
        intro!: arrives.str arrives.i64)
  then have "arrives wire_tree_api ?F (T_STRUCT ''Decision'') ?t (VStruct [(10, VI32 2), (25, ?u)])"
    unfolding Thrift_Decision_def
    by (intro arrives.struct [OF struct_fields_types(14)])
      (auto simp: wire_tree_api_def written_def Decision_FIELDS_def field_Cons decision_types Thrift_def
        intro!: arrives.enumeration)
  with decisions_reach_the_proxy [OF d, of ?J wire_tree_api ?F] t show ?thesis
    by (simp add: received_decision_def rb_to_s_def)
qed

end
