(* ===== verification/Connection.thy ===== *)
theory Connection
  imports ThriftTypes Options "HOL-Library.AList"
begin

text \<open>
  \<open>Connection::Thrift\<close> (lib/cadence/connection/thrift.rb): the requests its methods build and
  the way they are sent, with the generated client of the service
  (lib/gen/thrift/workflow_service.rb). The identifiers of \<open>SecureRandom\<close> and the floating
  point numbers of \<open>Time#to_f\<close> are arguments; the exchange of a message with the proxy (the
  Thrift and HTTP libraries) is a parameter.
\<close>

section \<open>Structs\<close>

text \<open>An exception that is not of the engine, with its class and message.\<close>

abbreviation exception :: "string \<Rightarrow> string \<Rightarrow> rb_error" where
  "exception class_name message \<equiv> UserError class_name (RStr message)"

text \<open>\<open>new\<close> of a Thrift struct raises on a key that is not one of its fields.\<close>

definition Thrift_new :: "string \<Rightarrow> (string \<times> rval) list \<Rightarrow> rb_error + rval" where
  "Thrift_new c fs =
     (case struct_fields c of
        None \<Rightarrow> Inl (NameError c)
      | Some table \<Rightarrow>
          (case find (\<lambda>(k, v). field_type table k = None) fs of
             None \<Rightarrow> Inr (Thrift c fs)
           | Some (k, v) \<Rightarrow>
               Inl (exception ''Thrift::Exception''
                 (''Unknown key given to CadenceThrift::'' @ c @ ''.new: '' @ k))))"

section \<open>The connection\<close>

definition WORKFLOW_ID_REUSE_POLICY :: "(string \<times> int) list" where
  "WORKFLOW_ID_REUSE_POLICY = [(''allow_failed'', 0), (''allow'', 1), (''reject'', 2)]"

record connection_options =
  polling_ttl :: int
  max_page_size :: int

definition DEFAULT_OPTIONS :: connection_options where
  "DEFAULT_OPTIONS = \<lparr>polling_ttl = 60, max_page_size = 100\<rparr>"

definition HISTORY_EVENT_FILTER :: "(string \<times> int) list" where
  "HISTORY_EVENT_FILTER = [(''all'', 0), (''close'', 1)]"

text \<open>The headers of the transport, once it has been used.\<close>

record thrift_connection =
  url :: string
  identity :: string
  options :: connection_options
  transport_headers :: "(string \<times> string) list option"

text \<open>The options that are given replace the defaults.\<close>

definition Connection_new ::
  "string \<Rightarrow> string \<Rightarrow> string \<Rightarrow> int option \<Rightarrow> int option \<Rightarrow> thrift_connection" where
  "Connection_new host port ident ttl page_size =
     \<lparr>url = ''http://'' @ host @ '':'' @ port, identity = ident,
      options = \<lparr>polling_ttl = case_option (polling_ttl DEFAULT_OPTIONS) id ttl,
        max_page_size = case_option (max_page_size DEFAULT_OPTIONS) id page_size\<rparr>,
      transport_headers = None\<rparr>"

section \<open>Requests\<close>

text \<open>What a method sends: the name of the call and the request, or the exception it raises.\<close>

type_synonym sent = "rb_error + string \<times> rval"

definition request :: "string \<Rightarrow> string \<Rightarrow> (string \<times> rval) list \<Rightarrow> sent" where
  "request name c fs = and_then (Thrift_new c fs) (\<lambda>r. Inr (name, r))"

definition register_domain :: "rval \<Rightarrow> rval \<Rightarrow> rval \<Rightarrow> rval \<Rightarrow> rval \<Rightarrow> sent" where
  "register_domain name description global metrics retention_period =
     request ''RegisterDomain'' ''RegisterDomainRequest''
       [(''name'', name), (''description'', description), (''emitMetric'', metrics),
        (''isGlobalDomain'', global), (''workflowExecutionRetentionPeriodInDays'', retention_period)]"

definition describe_domain :: "rval \<Rightarrow> sent" where
  "describe_domain name = request ''DescribeDomain'' ''DescribeDomainRequest'' [(''name'', name)]"

definition list_domains :: "rval \<Rightarrow> sent" where
  "list_domains page_size = request ''ListDomains'' ''ListDomainsRequest'' [(''pageSize'', page_size)]"

text \<open>The inner struct is built first.\<close>

definition update_domain :: "rval \<Rightarrow> rval \<Rightarrow> sent" where
  "update_domain name description =
     and_then (Thrift_new ''UpdateDomainRequest'' [(''description'', description)]) (\<lambda>update_info.
     request ''UpdateDomain'' ''UpdateDomainRequest'' [(''name'', name), (''updateInfo'', update_info)])"

definition deprecate_domain :: "rval \<Rightarrow> sent" where
  "deprecate_domain name = request ''DeprecateDomain'' ''DeprecateDomainRequest'' [(''name'', name)]"

text \<open>
  The policy is set after the struct is built. The class that an unknown policy is to raise,
  \<open>Client::ArgumentError\<close>, does not exist.
\<close>

definition start_workflow_execution ::
  "json_api \<Rightarrow> thrift_connection \<Rightarrow> string \<Rightarrow> rval \<Rightarrow> rval \<Rightarrow> rval \<Rightarrow> rval \<Rightarrow> rval \<Rightarrow> rval \<Rightarrow> rval \<Rightarrow>
   rval \<Rightarrow> rval \<Rightarrow> rval \<Rightarrow> sent" where
  "start_workflow_execution J C uuid domain_name workflow_id' workflow_name task_list' inp execution_timeout
     task_timeout workflow_id_reuse_policy headers' cron_schedule =
     and_then (Thrift_new ''WorkflowType'' [(''name'', workflow_name)]) (\<lambda>workflow_type'.
     and_then (Thrift_new ''TaskList'' [(''name'', task_list')]) (\<lambda>task_list'.
     and_then (Thrift_new ''Header'' [(''fields'', headers')]) (\<lambda>header.
     let fs = [(''identity'', RStr (identity C)), (''domain'', domain_name), (''workflowType'', workflow_type'),
           (''workflowId'', workflow_id'), (''taskList'', task_list'),
           (''input'', RStr (JSON_serialize J inp)),
           (''executionStartToCloseTimeoutSeconds'', execution_timeout),
           (''taskStartToCloseTimeoutSeconds'', task_timeout), (''requestId'', RStr uuid),
           (''header'', header), (''cronSchedule'', cron_schedule)]
     in if truthy workflow_id_reuse_policy then
          (case workflow_id_reuse_policy of
             RSym s \<Rightarrow>
               (case map_of WORKFLOW_ID_REUSE_POLICY s of
                  None \<Rightarrow> Inl (NameError ''Cadence::Client::ArgumentError'')
                | Some policy \<Rightarrow>
                    request ''StartWorkflowExecution'' ''StartWorkflowExecutionRequest''
                      (fs @ [(''workflowIdReusePolicy'', RInt policy)]))
           | _ \<Rightarrow> Inl (NameError ''Cadence::Client::ArgumentError''))
        else request ''StartWorkflowExecution'' ''StartWorkflowExecutionRequest'' fs)))"

definition history_event_filter :: "rval \<Rightarrow> rval" where
  "history_event_filter event_type =
     (case event_type of
        RSym s \<Rightarrow> (case map_of HISTORY_EVENT_FILTER s of None \<Rightarrow> RNil | Some i \<Rightarrow> RInt i)
      | _ \<Rightarrow> RNil)"

definition execution_struct :: "rval \<Rightarrow> rval \<Rightarrow> rb_error + rval" where
  "execution_struct workflow_id' run_id' =
     Thrift_new ''WorkflowExecution'' [(''workflowId'', workflow_id'), (''runId'', run_id')]"

definition get_workflow_execution_history :: "rval \<Rightarrow> rval \<Rightarrow> rval \<Rightarrow> rval \<Rightarrow> rval \<Rightarrow> rval \<Rightarrow> sent" where
  "get_workflow_execution_history domain_name workflow_id' run_id' next_page_token wait_for_new_event event_type =
     and_then (execution_struct workflow_id' run_id') (\<lambda>execution.
     request ''GetWorkflowExecutionHistory'' ''GetWorkflowExecutionHistoryRequest''
       [(''domain'', domain_name), (''execution'', execution), (''nextPageToken'', next_page_token),
        (''waitForNewEvent'', wait_for_new_event),
        (''HistoryEventFilterType'', history_event_filter event_type)])"

definition poll_for_decision_task :: "thrift_connection \<Rightarrow> rval \<Rightarrow> rval \<Rightarrow> sent" where
  "poll_for_decision_task C domain_name task_list' =
     and_then (Thrift_new ''TaskList'' [(''name'', task_list')]) (\<lambda>task_list'.
     request ''PollForDecisionTask'' ''PollForDecisionTaskRequest''
       [(''identity'', RStr (identity C)), (''domain'', domain_name), (''taskList'', task_list')])"

definition respond_decision_task_completed :: "thrift_connection \<Rightarrow> rval \<Rightarrow> rval \<Rightarrow> sent" where
  "respond_decision_task_completed C task_token decisions' =
     request ''RespondDecisionTaskCompleted'' ''RespondDecisionTaskCompletedRequest''
       [(''identity'', RStr (identity C)), (''taskToken'', task_token),
        (''decisions'', RArr (to_array decisions'))]"

definition respond_decision_task_failed :: "json_api \<Rightarrow> thrift_connection \<Rightarrow> rval \<Rightarrow> rval \<Rightarrow> rval \<Rightarrow> sent" where
  "respond_decision_task_failed J C task_token cause details' =
     request ''RespondDecisionTaskFailed'' ''RespondDecisionTaskFailedRequest''
       [(''identity'', RStr (identity C)), (''taskToken'', task_token), (''cause'', cause),
        (''details'', RStr (JSON_serialize J details'))]"

definition poll_for_activity_task :: "thrift_connection \<Rightarrow> rval \<Rightarrow> rval \<Rightarrow> sent" where
  "poll_for_activity_task C domain_name task_list' =
     and_then (Thrift_new ''TaskList'' [(''name'', task_list')]) (\<lambda>task_list'.
     request ''PollForActivityTask'' ''PollForActivityTaskRequest''
       [(''identity'', RStr (identity C)), (''domain'', domain_name), (''taskList'', task_list')])"

definition record_activity_task_heartbeat :: "json_api \<Rightarrow> thrift_connection \<Rightarrow> rval \<Rightarrow> rval \<Rightarrow> sent" where
  "record_activity_task_heartbeat J C task_token details' =
     request ''RecordActivityTaskHeartbeat'' ''RecordActivityTaskHeartbeatRequest''
       [(''taskToken'', task_token), (''details'', RStr (JSON_serialize J details')),
        (''identity'', RStr (identity C))]"

definition respond_activity_task_completed :: "json_api \<Rightarrow> thrift_connection \<Rightarrow> rval \<Rightarrow> rval \<Rightarrow> sent" where
  "respond_activity_task_completed J C task_token result' =
     request ''RespondActivityTaskCompleted'' ''RespondActivityTaskCompletedRequest''
       [(''identity'', RStr (identity C)), (''taskToken'', task_token),
        (''result'', RStr (JSON_serialize J result'))]"

definition respond_activity_task_completed_by_id ::
  "json_api \<Rightarrow> thrift_connection \<Rightarrow> rval \<Rightarrow> rval \<Rightarrow> rval \<Rightarrow> rval \<Rightarrow> rval \<Rightarrow> sent" where
  "respond_activity_task_completed_by_id J C domain_name activity_id' workflow_id' run_id' result' =
     request ''RespondActivityTaskCompletedByID'' ''RespondActivityTaskCompletedByIDRequest''
       [(''identity'', RStr (identity C)), (''domain'', domain_name), (''workflowID'', workflow_id'),
        (''runID'', run_id'), (''activityID'', activity_id'), (''result'', RStr (JSON_serialize J result'))]"

definition respond_activity_task_failed ::
  "json_api \<Rightarrow> thrift_connection \<Rightarrow> rval \<Rightarrow> rval \<Rightarrow> rval \<Rightarrow> sent" where
  "respond_activity_task_failed J C task_token reason' details' =
     request ''RespondActivityTaskFailed'' ''RespondActivityTaskFailedRequest''
       [(''identity'', RStr (identity C)), (''taskToken'', task_token), (''reason'', reason'),
        (''details'', RStr (JSON_serialize J details'))]"

definition respond_activity_task_failed_by_id ::
  "json_api \<Rightarrow> thrift_connection \<Rightarrow> rval \<Rightarrow> rval \<Rightarrow> rval \<Rightarrow> rval \<Rightarrow> rval \<Rightarrow> rval \<Rightarrow> sent" where
  "respond_activity_task_failed_by_id J C domain_name activity_id' workflow_id' run_id' reason' details' =
     request ''RespondActivityTaskFailedByID'' ''RespondActivityTaskFailedByIDRequest''
       [(''identity'', RStr (identity C)), (''domain'', domain_name), (''workflowID'', workflow_id'),
        (''runID'', run_id'), (''activityID'', activity_id'), (''reason'', reason'),
        (''details'', RStr (JSON_serialize J details'))]"

definition respond_activity_task_canceled :: "json_api \<Rightarrow> thrift_connection \<Rightarrow> rval \<Rightarrow> rval \<Rightarrow> sent" where
  "respond_activity_task_canceled J C task_token details' =
     request ''RespondActivityTaskCanceled'' ''RespondActivityTaskCanceledRequest''
       [(''taskToken'', task_token), (''details'', RStr (JSON_serialize J details')),
        (''identity'', RStr (identity C))]"

definition signal_workflow_execution ::
  "json_api \<Rightarrow> thrift_connection \<Rightarrow> rval \<Rightarrow> rval \<Rightarrow> rval \<Rightarrow> rval \<Rightarrow> rval \<Rightarrow> sent" where
  "signal_workflow_execution J C domain_name workflow_id' run_id' signal inp =
     and_then (execution_struct workflow_id' run_id') (\<lambda>execution.
     request ''SignalWorkflowExecution'' ''SignalWorkflowExecutionRequest''
       [(''domain'', domain_name), (''workflowExecution'', execution), (''signalName'', signal),
        (''input'', RStr (JSON_serialize J inp)), (''identity'', RStr (identity C))])"

definition reset_workflow_execution :: "string \<Rightarrow> rval \<Rightarrow> rval \<Rightarrow> rval \<Rightarrow> rval \<Rightarrow> rval \<Rightarrow> sent" where
  "reset_workflow_execution uuid domain_name workflow_id' run_id' reason' decision_task_event_id =
     and_then (execution_struct workflow_id' run_id') (\<lambda>execution.
     request ''ResetWorkflowExecution'' ''ResetWorkflowExecutionRequest''
       [(''domain'', domain_name), (''workflowExecution'', execution), (''reason'', reason'),
        (''decisionFinishEventId'', decision_task_event_id), (''requestId'', RStr uuid)])"

definition terminate_workflow_execution ::
  "json_api \<Rightarrow> thrift_connection \<Rightarrow> rval \<Rightarrow> rval \<Rightarrow> rval \<Rightarrow> rval \<Rightarrow> rval \<Rightarrow> sent" where
  "terminate_workflow_execution J C domain_name workflow_id' run_id' reason' details' =
     and_then (execution_struct workflow_id' run_id') (\<lambda>execution.
     request ''TerminateWorkflowExecution'' ''TerminateWorkflowExecutionRequest''
       [(''domain'', domain_name), (''workflowExecution'', execution), (''reason'', reason'),
        (''details'', RStr (JSON_serialize J details')), (''identity'', RStr (identity C))])"

text \<open>\<open>nanos\<close> is \<open>(time.to_f * NANO).to_i\<close>.\<close>

definition serialize_time_filter :: "(rval \<Rightarrow> rb_error + int) \<Rightarrow> rval \<Rightarrow> rval \<Rightarrow> rb_error + rval" where
  "serialize_time_filter nanos from_time to_time =
     and_then (nanos from_time) (\<lambda>earliest. and_then (nanos to_time) (\<lambda>latest.
     Thrift_new ''StartTimeFilter'' [(''earliestTime'', RInt earliest), (''latestTime'', RInt latest)]))"

definition serialize_execution_filter :: "rval \<Rightarrow> rb_error + rval" where
  "serialize_execution_filter v =
     (if \<not> truthy v then Inr RNil else Thrift_new ''WorkflowExecutionFilter'' [(''workflowId'', v)])"

definition serialize_type_filter :: "rval \<Rightarrow> rb_error + rval" where
  "serialize_type_filter v =
     (if \<not> truthy v then Inr RNil else Thrift_new ''WorkflowTypeFilter'' [(''name'', v)])"

definition CloseStatus_VALUE_MAP :: "(int \<times> string) list" where
  "CloseStatus_VALUE_MAP =
     [(0, ''COMPLETED''), (1, ''FAILED''), (2, ''CANCELED''), (3, ''TERMINATED''),
      (4, ''CONTINUED_AS_NEW''), (5, ''TIMED_OUT'')]"

definition serialize_status_filter :: "json_api \<Rightarrow> rval \<Rightarrow> rval" where
  "serialize_status_filter J v =
     (if \<not> truthy v then RNil
      else (case map_of (List.map (\<lambda>(i, s). (s, i)) CloseStatus_VALUE_MAP) (rb_to_s J v) of
              None \<Rightarrow> RNil | Some i \<Rightarrow> RInt i))"

definition list_open_workflow_executions ::
  "(rval \<Rightarrow> rb_error + int) \<Rightarrow> thrift_connection \<Rightarrow> rval \<Rightarrow> rval \<Rightarrow> rval \<Rightarrow> rval \<Rightarrow> rval \<Rightarrow> rval \<Rightarrow> sent" where
  "list_open_workflow_executions nanos C domain_name from_time to_time next_page_token workflow_id' workflow =
     and_then (serialize_time_filter nanos from_time to_time) (\<lambda>time_filter.
     and_then (serialize_execution_filter workflow_id') (\<lambda>execution_filter.
     and_then (serialize_type_filter workflow) (\<lambda>type_filter.
     request ''ListOpenWorkflowExecutions'' ''ListOpenWorkflowExecutionsRequest''
       [(''domain'', domain_name), (''maximumPageSize'', RInt (max_page_size (options C))),
        (''nextPageToken'', next_page_token), (''StartTimeFilter'', time_filter),
        (''executionFilter'', execution_filter), (''typeFilter'', type_filter)])))"

definition list_closed_workflow_executions ::
  "json_api \<Rightarrow> (rval \<Rightarrow> rb_error + int) \<Rightarrow> thrift_connection \<Rightarrow> rval \<Rightarrow> rval \<Rightarrow> rval \<Rightarrow> rval \<Rightarrow> rval \<Rightarrow>
   rval \<Rightarrow> rval \<Rightarrow> sent" where
  "list_closed_workflow_executions J nanos C domain_name from_time to_time next_page_token workflow_id' workflow status =
     and_then (serialize_time_filter nanos from_time to_time) (\<lambda>time_filter.
     and_then (serialize_execution_filter workflow_id') (\<lambda>execution_filter.
     and_then (serialize_type_filter workflow) (\<lambda>type_filter.
     request ''ListClosedWorkflowExecutions'' ''ListClosedWorkflowExecutionsRequest''
       [(''domain'', domain_name), (''maximumPageSize'', RInt (max_page_size (options C))),
        (''nextPageToken'', next_page_token), (''StartTimeFilter'', time_filter),
        (''executionFilter'', execution_filter), (''typeFilter'', type_filter),
        (''statusFilter'', serialize_status_filter J status)])))"

definition describe_workflow_execution :: "rval \<Rightarrow> rval \<Rightarrow> rval \<Rightarrow> sent" where
  "describe_workflow_execution domain_name workflow_id' run_id' =
     and_then (execution_struct workflow_id' run_id') (\<lambda>execution.
     request ''DescribeWorkflowExecution'' ''DescribeWorkflowExecutionRequest''
       [(''domain'', domain_name), (''execution'', execution)])"

definition describe_task_list :: "rval \<Rightarrow> rval \<Rightarrow> sent" where
  "describe_task_list domain_name task_list' =
     and_then (Thrift_new ''TaskList'' [(''name'', task_list')]) (\<lambda>task_list'.
     request ''DescribeTaskList'' ''DescribeTaskListRequest''
       [(''domain'', domain_name), (''taskList'', task_list'), (''taskListType'', RInt 0),
        (''includeTaskListStatus'', RBool True)])"

section \<open>Sending\<close>

text \<open>
  The methods of the generated client: the field of the argument struct that holds the
  request, the request's class, whether the call returns nothing, and the exceptions of the
  result struct in the order in which they are looked at.
\<close>

definition client_methods :: "(string \<times> string \<times> string \<times> bool \<times> string list) list" where
  "client_methods =
     [(''RegisterDomain'', ''registerRequest'', ''RegisterDomainRequest'', True,
        [''badRequestError'', ''internalServiceError'', ''domainExistsError'', ''serviceBusyError'',
        ''clientVersionNotSupportedError'']),
      (''DescribeDomain'', ''describeRequest'', ''DescribeDomainRequest'', False,
        [''badRequestError'', ''internalServiceError'', ''entityNotExistError'',
        ''serviceBusyError'', ''clientVersionNotSupportedError'']),
      (''ListDomains'', ''listRequest'', ''ListDomainsRequest'', False,
        [''badRequestError'', ''internalServiceError'', ''entityNotExistError'',
        ''serviceBusyError'', ''clientVersionNotSupportedError'']),
      (''UpdateDomain'', ''updateRequest'', ''UpdateDomainRequest'', False,
        [''badRequestError'', ''internalServiceError'', ''entityNotExistError'',
        ''serviceBusyError'', ''domainNotActiveError'', ''clientVersionNotSupportedError'']),
      (''DeprecateDomain'', ''deprecateRequest'', ''DeprecateDomainRequest'', True,
        [''badRequestError'', ''internalServiceError'', ''entityNotExistError'',
        ''serviceBusyError'', ''domainNotActiveError'', ''clientVersionNotSupportedError'']),
      (''StartWorkflowExecution'', ''startRequest'', ''StartWorkflowExecutionRequest'', False,
        [''badRequestError'', ''internalServiceError'', ''sessionAlreadyExistError'',
        ''serviceBusyError'', ''domainNotActiveError'', ''limitExceededError'',
        ''entityNotExistError'', ''clientVersionNotSupportedError'']),
      (''GetWorkflowExecutionHistory'', ''getRequest'', ''GetWorkflowExecutionHistoryRequest'', False,
        [''badRequestError'', ''internalServiceError'', ''entityNotExistError'',
        ''serviceBusyError'', ''clientVersionNotSupportedError'']),
      (''PollForDecisionTask'', ''pollRequest'', ''PollForDecisionTaskRequest'', False,
        [''badRequestError'', ''internalServiceError'', ''serviceBusyError'',
        ''limitExceededError'', ''entityNotExistError'', ''domainNotActiveError'',
        ''clientVersionNotSupportedError'']),
      (''RespondDecisionTaskCompleted'', ''completeRequest'', ''RespondDecisionTaskCompletedRequest'', False,
        [''badRequestError'', ''internalServiceError'', ''entityNotExistError'',
        ''domainNotActiveError'', ''limitExceededError'', ''serviceBusyError'',
        ''clientVersionNotSupportedError'']),
      (''RespondDecisionTaskFailed'', ''failedRequest'', ''RespondDecisionTaskFailedRequest'', True,
        [''badRequestError'', ''internalServiceError'', ''entityNotExistError'',
        ''domainNotActiveError'', ''limitExceededError'', ''serviceBusyError'',
        ''clientVersionNotSupportedError'']),
      (''PollForActivityTask'', ''pollRequest'', ''PollForActivityTaskRequest'', False,
        [''badRequestError'', ''internalServiceError'', ''serviceBusyError'',
        ''limitExceededError'', ''entityNotExistError'', ''domainNotActiveError'',
        ''clientVersionNotSupportedError'']),
      (''RecordActivityTaskHeartbeat'', ''heartbeatRequest'', ''RecordActivityTaskHeartbeatRequest'', False,
        [''badRequestError'', ''internalServiceError'', ''entityNotExistError'',
        ''domainNotActiveError'', ''limitExceededError'', ''serviceBusyError'',
        ''clientVersionNotSupportedError'']),
      (''RecordActivityTaskHeartbeatByID'', ''heartbeatRequest'', ''RecordActivityTaskHeartbeatByIDRequest'', False,
        [''badRequestError'', ''internalServiceError'', ''entityNotExistError'',
        ''domainNotActiveError'', ''limitExceededError'', ''serviceBusyError'',
        ''clientVersionNotSupportedError'']),
      (''RespondActivityTaskCompleted'', ''completeRequest'', ''RespondActivityTaskCompletedRequest'', True,
        [''badRequestError'', ''internalServiceError'', ''entityNotExistError'',
        ''domainNotActiveError'', ''limitExceededError'', ''serviceBusyError'',
        ''clientVersionNotSupportedError'']),
      (''RespondActivityTaskCompletedByID'', ''completeRequest'', ''RespondActivityTaskCompletedByIDRequest'', True,
        [''badRequestError'', ''internalServiceError'', ''entityNotExistError'',
        ''domainNotActiveError'', ''limitExceededError'', ''serviceBusyError'',
        ''clientVersionNotSupportedError'']),
      (''RespondActivityTaskFailed'', ''failRequest'', ''RespondActivityTaskFailedRequest'', True,
        [''badRequestError'', ''internalServiceError'', ''entityNotExistError'',
        ''domainNotActiveError'', ''limitExceededError'', ''serviceBusyError'',
        ''clientVersionNotSupportedError'']),
      (''RespondActivityTaskFailedByID'', ''failRequest'', ''RespondActivityTaskFailedByIDRequest'', True,
        [''badRequestError'', ''internalServiceError'', ''entityNotExistError'',
        ''domainNotActiveError'', ''limitExceededError'', ''serviceBusyError'',
        ''clientVersionNotSupportedError'']),
      (''RespondActivityTaskCanceled'', ''canceledRequest'', ''RespondActivityTaskCanceledRequest'', True,
        [''badRequestError'', ''internalServiceError'', ''entityNotExistError'',
        ''domainNotActiveError'', ''limitExceededError'', ''serviceBusyError'',
        ''clientVersionNotSupportedError'']),
      (''RespondActivityTaskCanceledByID'', ''canceledRequest'', ''RespondActivityTaskCanceledByIDRequest'', True,
        [''badRequestError'', ''internalServiceError'', ''entityNotExistError'',
        ''domainNotActiveError'', ''limitExceededError'', ''serviceBusyError'',
        ''clientVersionNotSupportedError'']),
      (''RequestCancelWorkflowExecution'', ''cancelRequest'', ''RequestCancelWorkflowExecutionRequest'', True,
        [''badRequestError'', ''internalServiceError'', ''entityNotExistError'',
        ''cancellationAlreadyRequestedError'', ''serviceBusyError'', ''domainNotActiveError'',
        ''limitExceededError'', ''clientVersionNotSupportedError'']),
      (''SignalWorkflowExecution'', ''signalRequest'', ''SignalWorkflowExecutionRequest'', True,
        [''badRequestError'', ''internalServiceError'', ''entityNotExistError'',
        ''serviceBusyError'', ''domainNotActiveError'', ''limitExceededError'',
        ''clientVersionNotSupportedError'']),
      (''SignalWithStartWorkflowExecution'', ''signalWithStartRequest'', ''SignalWithStartWorkflowExecutionRequest'', False,
        [''badRequestError'', ''internalServiceError'', ''entityNotExistError'',
        ''serviceBusyError'', ''domainNotActiveError'', ''limitExceededError'',
        ''workflowAlreadyStartedError'', ''clientVersionNotSupportedError'']),
      (''ResetWorkflowExecution'', ''resetRequest'', ''ResetWorkflowExecutionRequest'', False,
        [''badRequestError'', ''internalServiceError'', ''entityNotExistError'',
        ''serviceBusyError'', ''domainNotActiveError'', ''limitExceededError'',
        ''clientVersionNotSupportedError'']),
      (''TerminateWorkflowExecution'', ''terminateRequest'', ''TerminateWorkflowExecutionRequest'', True,
        [''badRequestError'', ''internalServiceError'', ''entityNotExistError'',
        ''serviceBusyError'', ''domainNotActiveError'', ''limitExceededError'',
        ''clientVersionNotSupportedError'']),
      (''ListOpenWorkflowExecutions'', ''listRequest'', ''ListOpenWorkflowExecutionsRequest'', False,
        [''badRequestError'', ''internalServiceError'', ''entityNotExistError'',
        ''serviceBusyError'', ''limitExceededError'', ''clientVersionNotSupportedError'']),
      (''ListClosedWorkflowExecutions'', ''listRequest'', ''ListClosedWorkflowExecutionsRequest'', False,
        [''badRequestError'', ''internalServiceError'', ''entityNotExistError'',
        ''serviceBusyError'', ''clientVersionNotSupportedError'']),
      (''ListWorkflowExecutions'', ''listRequest'', ''ListWorkflowExecutionsRequest'', False,
        [''badRequestError'', ''internalServiceError'', ''entityNotExistError'',
        ''serviceBusyError'', ''clientVersionNotSupportedError'']),
      (''ListArchivedWorkflowExecutions'', ''listRequest'', ''ListArchivedWorkflowExecutionsRequest'', False,
        [''badRequestError'', ''internalServiceError'', ''entityNotExistError'',
        ''serviceBusyError'', ''clientVersionNotSupportedError'']),
      (''ScanWorkflowExecutions'', ''listRequest'', ''ListWorkflowExecutionsRequest'', False,
        [''badRequestError'', ''internalServiceError'', ''entityNotExistError'',
        ''serviceBusyError'', ''clientVersionNotSupportedError'']),
      (''CountWorkflowExecutions'', ''countRequest'', ''CountWorkflowExecutionsRequest'', False,
        [''badRequestError'', ''internalServiceError'', ''entityNotExistError'',
        ''serviceBusyError'', ''clientVersionNotSupportedError'']),
      (''GetSearchAttributes'', '''', '''', False,
        [''internalServiceError'', ''serviceBusyError'', ''clientVersionNotSupportedError'']),
      (''RespondQueryTaskCompleted'', ''completeRequest'', ''RespondQueryTaskCompletedRequest'', True,
        [''badRequestError'', ''internalServiceError'', ''entityNotExistError'',
        ''limitExceededError'', ''serviceBusyError'', ''domainNotActiveError'',
        ''clientVersionNotSupportedError'']),
      (''ResetStickyTaskList'', ''resetRequest'', ''ResetStickyTaskListRequest'', False,
        [''badRequestError'', ''internalServiceError'', ''entityNotExistError'',
        ''limitExceededError'', ''serviceBusyError'', ''domainNotActiveError'',
        ''clientVersionNotSupportedError'']),
      (''QueryWorkflow'', ''queryRequest'', ''QueryWorkflowRequest'', False,
        [''badRequestError'', ''internalServiceError'', ''entityNotExistError'',
        ''queryFailedError'', ''limitExceededError'', ''serviceBusyError'',
        ''clientVersionNotSupportedError'']),
      (''DescribeWorkflowExecution'', ''describeRequest'', ''DescribeWorkflowExecutionRequest'', False,
        [''badRequestError'', ''internalServiceError'', ''entityNotExistError'',
        ''limitExceededError'', ''serviceBusyError'', ''clientVersionNotSupportedError'']),
      (''DescribeTaskList'', ''request'', ''DescribeTaskListRequest'', False,
        [''badRequestError'', ''internalServiceError'', ''entityNotExistError'',
        ''limitExceededError'', ''serviceBusyError'', ''clientVersionNotSupportedError''])]"

definition attr :: "rval \<Rightarrow> string \<Rightarrow> rval" where
  "attr v name = (case v of RStruct c fs \<Rightarrow> (case map_of fs name of None \<Rightarrow> RNil | Some x \<Rightarrow> x) | _ \<Rightarrow> RNil)"

definition raised :: "rval \<Rightarrow> rb_error" where
  "raised v = (case v of RStruct c fs \<Rightarrow> UserError c v | _ \<Rightarrow> TypeError ''exception class/object expected'')"

text \<open>\<open>recv_*\<close>: the outcome that the result' struct holds.\<close>

definition recv :: "string \<Rightarrow> bool \<Rightarrow> string list \<Rightarrow> rval \<Rightarrow> rb_error + rval" where
  "recv name void exceptions result' =
     (if \<not> void \<and> attr result' ''success'' \<noteq> RNil then Inr (attr result' ''success'')
      else (case find (\<lambda>e. attr result' e \<noteq> RNil) exceptions of
              Some e \<Rightarrow> Inl (raised (attr result' e))
            | None \<Rightarrow>
                if void then Inr RNil
                else Inl (exception ''Thrift::ApplicationException'' (name @ '' failed: unknown result''))))"

text \<open>
  \<open>public_send\<close> of a method of the client: the message has the method's name and the fields of
  its argument struct; \<open>exchange\<close> gets the headers' of the transport, the message, and gives
  the result' struct or an exception.
\<close>

type_synonym exchange = "(string \<times> string) list \<Rightarrow> string \<Rightarrow> (string \<times> rval) list \<Rightarrow> rb_error + rval"

definition client_call :: "exchange \<Rightarrow> (string \<times> string) list \<Rightarrow> string \<Rightarrow> rval \<Rightarrow> rb_error + rval" where
  "client_call exchange headers' name req =
     (case map_of client_methods name of
        None \<Rightarrow> Inl (NoMethodError name)
      | Some (arg, c, void, exceptions) \<Rightarrow>
          if arg = [] then Inl (ArgumentError ''wrong number of arguments (given 1, expected 0)'')
          else and_then (exchange headers' name [(arg, req)]) (recv name void exceptions))"

definition transport :: "thrift_connection \<Rightarrow> (string \<times> string) list" where
  "transport C =
     (case transport_headers C of
        Some hs \<Rightarrow> hs
      | None \<Rightarrow>
          [(''Rpc-Caller'', ''ruby-client''), (''Rpc-Encoding'', ''thrift''),
           (''Rpc-Service'', ''cadence-proxy''),
           (''Context-TTL-MS'', int_to_s (polling_ttl (options C) * 1000))])"

text \<open>Under the mutex: the header that names the procedure replaces that of the call before.\<close>

definition send_request ::
  "exchange \<Rightarrow> thrift_connection \<Rightarrow> string \<Rightarrow> rval \<Rightarrow> thrift_connection \<times> (rb_error + rval)" where
  "send_request exchange C name req =
     (let hs = AList.update ''Rpc-Procedure'' (''WorkflowService::'' @ name) (transport C)
      in (C\<lparr>transport_headers := Some hs\<rparr>, client_call exchange hs name req))"

section \<open>Lemmas\<close>

lemma request_Inr:
  "request name c fs = Inr x \<longleftrightarrow> (\<exists>r. Thrift_new c fs = Inr r \<and> x = (name, r))"
  by (auto simp: request_def and_then_Inr_iff)

lemma Thrift_new_known:
  assumes "struct_fields c = Some table" and "\<forall>k\<in>set (List.map fst fs). field_type table k \<noteq> None"
  shows "Thrift_new c fs = Inr (Thrift c fs)"
proof -
  have "find (\<lambda>(k, v). field_type table k = None) fs = None" using assms(2) by (fastforce simp: find_None_iff)
  with assms(1) show ?thesis by (simp add: Thrift_new_def)
qed

text \<open>Whatever was sent before, a request goes out under its own name.\<close>

definition transport_ok :: "thrift_connection \<Rightarrow> bool" where
  "transport_ok C \<longleftrightarrow> map_of (transport C) ''Rpc-Service'' = Some ''cadence-proxy'' \<and>
     map_of (transport C) ''Rpc-Encoding'' = Some ''thrift''"

lemma transport_new: "transport_ok (Connection_new host port ident ttl page_size)"
  by (simp add: transport_ok_def transport_def Connection_new_def)

lemma transport_sent:
  assumes "send_request exchange C name req = (C', r)"
  shows "map_of (transport C') ''Rpc-Procedure'' = Some (''WorkflowService::'' @ name)"
    and "transport_ok C \<Longrightarrow> transport_ok C'"
    and "r = client_call exchange (transport C') name req"
  using assms by (auto simp: send_request_def Let_def transport_def transport_ok_def update_conv split: option.splits)

end
