(* ===== verification/Client.thy ===== *)
theory Client
  imports Connection Tokens Middleware Processing
begin

text \<open>
  \<open>Cadence::Client\<close> (lib/cadence/client.rb) and \<open>Workflow::ExecutionInfo\<close>
  (lib/cadence/workflow/execution_info.rb). The outcome of a call of the connection is a
  parameter: what the service answers to a request.
\<close>

type_synonym rpc = "string \<Rightarrow> rval \<Rightarrow> rb_error + rval"

definition call_service :: "rpc \<Rightarrow> sent \<Rightarrow> rb_error + rval" where
  "call_service rpc s = and_then s (\<lambda>(name, req). rpc name req)"

section \<open>Starting workflows\<close>

record client_config =
  default_execution_options :: default_options
  header_propagators :: "((rval \<times> rval) list \<Rightarrow> rb_error + (rval \<times> rval) list) list"

text \<open>The options of a start: those of every call, and two of its own.\<close>

record start_options =
  execution :: call_options
  opt_workflow_id :: rval
  opt_reuse_policy :: rval

text \<open>Keyword arguments that are not options are the last argument of the workflow.\<close>

definition start_input :: "rval list \<Rightarrow> (rval \<times> rval) list \<Rightarrow> rval" where
  "start_input inp args = RArr (if args = [] then inp else inp @ [RHash args])"

definition start ::
  "json_api \<Rightarrow> rpc \<Rightarrow> thrift_connection \<Rightarrow> client_config \<Rightarrow> string \<times> string \<Rightarrow> rval \<Rightarrow> settings option \<Rightarrow>
   start_options \<Rightarrow> rval list \<Rightarrow> (rval \<times> rval) list \<Rightarrow> rval \<Rightarrow> rb_error + rval" where
  "start J rpc C config uuids workflow_name workflow opts inp args cron_schedule =
     and_then (ExecutionOptions_new workflow_name workflow (execution opts) (Some (default_execution_options config)))
       (\<lambda>execution_options.
     let workflow_id' = or_value (opt_workflow_id opts) (RStr (fst uuids))
     in and_then (inject (header_propagators config) (eo_headers execution_options)) (\<lambda>headers'.
        and_then (call_service rpc (start_workflow_execution J C (snd uuids)
            (eo_domain execution_options) workflow_id' (eo_name execution_options) (eo_task_list execution_options)
            (start_input inp args) (entry (eo_timeouts execution_options) ''execution'')
            (entry (eo_timeouts execution_options) ''task'') (opt_reuse_policy opts) (RHash headers') cron_schedule))
          (\<lambda>response. get_field response ''runId'')))"

definition start_workflow ::
  "json_api \<Rightarrow> rpc \<Rightarrow> thrift_connection \<Rightarrow> client_config \<Rightarrow> string \<times> string \<Rightarrow> rval \<Rightarrow> settings option \<Rightarrow>
   start_options \<Rightarrow> rval list \<Rightarrow> (rval \<times> rval) list \<Rightarrow> rb_error + rval" where
  "start_workflow J rpc C config uuids workflow_name workflow opts inp args =
     start J rpc C config uuids workflow_name workflow opts inp args RNil"

definition schedule_workflow ::
  "json_api \<Rightarrow> rpc \<Rightarrow> thrift_connection \<Rightarrow> client_config \<Rightarrow> string \<times> string \<Rightarrow> rval \<Rightarrow> settings option \<Rightarrow>
   start_options \<Rightarrow> rval \<Rightarrow> rval list \<Rightarrow> (rval \<times> rval) list \<Rightarrow> rb_error + rval" where
  "schedule_workflow J rpc C config uuids workflow_name workflow opts cron_schedule inp args =
     start J rpc C config uuids workflow_name workflow opts inp args cron_schedule"

section \<open>Domains, signals, resets and terminations\<close>

definition Client_register_domain :: "rpc \<Rightarrow> rval \<Rightarrow> rval \<Rightarrow> rb_error + rval" where
  "Client_register_domain rpc name description =
     (case call_service rpc (register_domain name description (RBool False) (RBool False) (RInt 10)) of
        Inl (UserError c v) \<Rightarrow>
          if c = ''CadenceThrift::DomainAlreadyExistsError'' then Inr RNil else Inl (UserError c v)
      | r \<Rightarrow> r)"

definition Client_signal_workflow_execution ::
  "json_api \<Rightarrow> rpc \<Rightarrow> thrift_connection \<Rightarrow> rval \<Rightarrow> rval \<Rightarrow> rval \<Rightarrow> rval \<Rightarrow> rval \<Rightarrow> rb_error + rval" where
  "Client_signal_workflow_execution J rpc C domain_name signal workflow_id' run_id' inp =
     call_service rpc (signal_workflow_execution J C domain_name workflow_id' run_id' signal inp)"

definition Client_signal_workflow ::
  "json_api \<Rightarrow> rpc \<Rightarrow> thrift_connection \<Rightarrow> settings \<Rightarrow> rval \<Rightarrow> rval \<Rightarrow> rval \<Rightarrow> rval \<Rightarrow> rb_error + rval" where
  "Client_signal_workflow J rpc C workflow signal workflow_id' run_id' inp =
     call_service rpc (signal_workflow_execution J C (set_domain workflow) workflow_id' run_id' signal inp)"

text \<open>\<open>raw_events\<close> reads the events of a history struct.\<close>

definition get_workflow_history ::
  "rpc \<Rightarrow> (rval \<Rightarrow> rb_error + raw_event list) \<Rightarrow> rval \<Rightarrow> rval \<Rightarrow> rval \<Rightarrow> rb_error + history" where
  "get_workflow_history rpc raw_events domain_name workflow_id' run_id' =
     and_then (call_service rpc
       (get_workflow_execution_history domain_name workflow_id' run_id' RNil (RBool False) (RSym ''all''))) (\<lambda>response.
     and_then (get_field response ''history'') (\<lambda>h.
     and_then (get_field h ''events'') (\<lambda>evs.
     and_then (raw_events evs) History_new)))"

text \<open>The history is fetched only when no event is named.\<close>

definition reset_workflow ::
  "rpc \<Rightarrow> (rval \<Rightarrow> rb_error + raw_event list) \<Rightarrow> string \<Rightarrow> rval \<Rightarrow> rval \<Rightarrow> rval \<Rightarrow> reset_strategy option \<Rightarrow> int option \<Rightarrow>
   rval \<Rightarrow> rb_error + rval" where
  "reset_workflow rpc raw_events uuid domain_name workflow_id' run_id' strategy decision_task_id reason' =
     and_then (if decision_task_id = None then get_workflow_history rpc raw_events domain_name workflow_id' run_id'
         else Inr \<lparr>all_events = [], iterator = []\<rparr>) (\<lambda>h.
     and_then (reset_event h strategy decision_task_id) (\<lambda>decision_task_id.
     and_then (call_service rpc (reset_workflow_execution uuid domain_name workflow_id' run_id' reason' (RInt decision_task_id)))
       (\<lambda>response. get_field response ''runId'')))"

definition terminate_workflow ::
  "json_api \<Rightarrow> rpc \<Rightarrow> thrift_connection \<Rightarrow> rval \<Rightarrow> rval \<Rightarrow> rval \<Rightarrow> rval \<Rightarrow> rval \<Rightarrow> rb_error + rval" where
  "terminate_workflow J rpc C domain_name workflow_id' run_id' reason' details' =
     call_service rpc (terminate_workflow_execution J C domain_name workflow_id' run_id' reason' details')"

section \<open>Asynchronous activities\<close>

definition string_or_nil :: "string option \<Rightarrow> rval" where
  "string_or_nil s = (case s of None \<Rightarrow> RNil | Some s \<Rightarrow> RStr s)"

definition complete_activity ::
  "json_api \<Rightarrow> rpc \<Rightarrow> thrift_connection \<Rightarrow> string \<Rightarrow> rval \<Rightarrow> rb_error + rval" where
  "complete_activity J rpc C async_token result' =
     (case AsyncToken_decode async_token of
        None \<Rightarrow> Inl (ArgumentError ''invalid base64'')
      | Some (domain_name, activity_id', workflow_id', run_id') \<Rightarrow>
          call_service rpc (respond_activity_task_completed_by_id J C (string_or_nil domain_name)
            (string_or_nil activity_id') (string_or_nil workflow_id') (string_or_nil run_id') result'))"

text \<open>The error is given by the name of its class and its message.\<close>

definition fail_activity ::
  "json_api \<Rightarrow> rpc \<Rightarrow> thrift_connection \<Rightarrow> string \<Rightarrow> rval \<times> rval \<Rightarrow> rb_error + rval" where
  "fail_activity J rpc C async_token error =
     (case AsyncToken_decode async_token of
        None \<Rightarrow> Inl (ArgumentError ''invalid base64'')
      | Some (domain_name, activity_id', workflow_id', run_id') \<Rightarrow>
          call_service rpc (respond_activity_task_failed_by_id J C (string_or_nil domain_name)
            (string_or_nil activity_id') (string_or_nil workflow_id') (string_or_nil run_id') (fst error) (snd error)))"

section \<open>Executions\<close>

record execution_info =
  info_workflow :: rval
  info_workflow_id :: rval
  info_run_id :: rval
  start_time :: time
  close_time :: time
  info_status :: string
  history_length :: rval

text \<open>\<open>nil\<close> has no \<open>divmod\<close>.\<close>

definition time_field :: "rval \<Rightarrow> string \<Rightarrow> rb_error + time" where
  "time_field response name =
     and_then (get_field response name) (\<lambda>v.
       case v of RInt i \<Rightarrow> Inr (time_from_nanos i) | _ \<Rightarrow> Inl (NoMethodError ''divmod''))"

definition generate_from :: "rval \<Rightarrow> rb_error + execution_info" where
  "generate_from response =
     and_then (get_field response ''closeStatus'') (\<lambda>close_status.
     and_then (get_field response ''type'') (\<lambda>ty. and_then (get_field ty ''name'') (\<lambda>workflow.
     and_then (get_field response ''execution'') (\<lambda>ex.
     and_then (get_field ex ''workflowId'') (\<lambda>workflow_id'. and_then (get_field ex ''runId'') (\<lambda>run_id'.
     and_then (time_field response ''startTime'') (\<lambda>start_time.
     and_then (time_field response ''closeTime'') (\<lambda>close_time.
     and_then (get_field response ''historyLength'') (\<lambda>history_length.
     let status = (case close_status of RInt i \<Rightarrow> map_of CloseStatus_VALUE_MAP i | _ \<Rightarrow> None)
     in Inr \<lparr>info_workflow = workflow, info_workflow_id = workflow_id', info_run_id = run_id',
          start_time = start_time, close_time = close_time,
          info_status = (case status of None \<Rightarrow> ''OPEN'' | Some s \<Rightarrow> s),
          history_length = history_length\<rparr>)))))))))"

definition running :: "execution_info \<Rightarrow> bool" where
  "running info \<longleftrightarrow> info_status info = ''OPEN''"

definition closed :: "execution_info \<Rightarrow> bool" where
  "closed info \<longleftrightarrow> \<not> running info"

definition fetch_workflow_execution_info :: "rpc \<Rightarrow> rval \<Rightarrow> rval \<Rightarrow> rval \<Rightarrow> rb_error + execution_info" where
  "fetch_workflow_execution_info rpc domain_name workflow_id' run_id' =
     and_then (call_service rpc (describe_workflow_execution domain_name workflow_id' run_id')) (\<lambda>response.
     and_then (get_field response ''workflowExecutionInfo'') generate_from)"

definition validate_filter :: "(string \<times> rval) list \<Rightarrow> string list \<Rightarrow> rb_error option" where
  "validate_filter flt allowed =
     (if \<exists>k\<in>set (List.map fst flt). k \<notin> set allowed then Some (ArgumentError ''Allowed filters are'')
      else if length flt > 1 then Some (ArgumentError ''Only one filter is allowed'')
      else None)"

text \<open>
  \<open>fetch_executions\<close>: a page is asked for with the token of the last one, the first with none,
  until the token is empty; an error ends the loop.
\<close>

definition executions_page :: "json_api \<Rightarrow> rpc \<Rightarrow> (rval \<Rightarrow> sent) \<Rightarrow> rval \<Rightarrow> rb_error + rval list \<times> rval option" where
  "executions_page J rpc list next_page_token =
     and_then (call_service rpc (list next_page_token)) (\<lambda>response.
     and_then (get_field response ''executions'') (\<lambda>executions.
     and_then (get_field response ''nextPageToken'') (\<lambda>token.
       Inr (to_array executions, if rb_to_s J token = [] then None else Some token))))"

definition fetch_executions ::
  "json_api \<Rightarrow> rpc \<Rightarrow> (rval \<Rightarrow> sent) \<Rightarrow> (rb_error + execution_info list) option" where
  "fetch_executions J rpc list =
     map_option (\<lambda>r. and_then r (mapM generate_from)) (fetch_pages (executions_page J rpc list) [] (Some RNil))"

definition Client_list_open_workflow_executions ::
  "json_api \<Rightarrow> (rval \<Rightarrow> rb_error + int) \<Rightarrow> rpc \<Rightarrow> thrift_connection \<Rightarrow> rval \<Rightarrow> rval \<Rightarrow> rval \<Rightarrow> (string \<times> rval) list \<Rightarrow>
   (rb_error + execution_info list) option" where
  "Client_list_open_workflow_executions J nanos rpc C domain_name from_time to_time flt =
     (case validate_filter flt [''workflow'', ''workflow_id''] of
        Some e \<Rightarrow> Some (Inl e)
      | None \<Rightarrow>
          let given = (\<lambda>k. case map_of flt k of None \<Rightarrow> RNil | Some v \<Rightarrow> v)
          in fetch_executions J rpc (\<lambda>token. list_open_workflow_executions nanos C domain_name from_time to_time token
               (given ''workflow_id'') (given ''workflow'')))"

definition Client_list_closed_workflow_executions ::
  "json_api \<Rightarrow> (rval \<Rightarrow> rb_error + int) \<Rightarrow> rpc \<Rightarrow> thrift_connection \<Rightarrow> rval \<Rightarrow> rval \<Rightarrow> rval \<Rightarrow> (string \<times> rval) list \<Rightarrow>
   (rb_error + execution_info list) option" where
  "Client_list_closed_workflow_executions J nanos rpc C domain_name from_time to_time flt =
     (case validate_filter flt [''status'', ''workflow'', ''workflow_id''] of
        Some e \<Rightarrow> Some (Inl e)
      | None \<Rightarrow>
          let given = (\<lambda>k. case map_of flt k of None \<Rightarrow> RNil | Some v \<Rightarrow> v)
          in fetch_executions J rpc (\<lambda>token. list_closed_workflow_executions J nanos C domain_name from_time to_time token
               (given ''workflow_id'') (given ''workflow'') (given ''status'')))"

text \<open>Where the pages end, all of their executions are given, in order.\<close>

lemma fetch_executions_whole:
  "pages (executions_page J rpc list) (Some RNil) es \<Longrightarrow> fetch_executions J rpc list = Some (mapM generate_from es)"
  by (simp add: fetch_executions_def fetch_pages_complete)

lemma filter_accepted:
  "validate_filter flt allowed = None \<longleftrightarrow> flt = [] \<or> (\<exists>k v. flt = [(k, v)] \<and> k \<in> set allowed)"
  by (cases flt; cases "tl flt") (auto simp: validate_filter_def)

end
