(* ===== verification/Calls.thy ===== *)
theory Calls
  imports Client Crossing GoProxy
begin

text \<open>
  The calls of the Ruby client on their way to the service: every method of the connection names
  a procedure of the proxy, with the request that it takes; and the start of a workflow, from
  the options of the caller (lib/cadence/client.rb) to the request that the proxy's generated
  code reads (proxy/gen/shared/shared.go).
\<close>

section \<open>The methods of the connection\<close>

text \<open>What a call of one of the methods sends, for any arguments.\<close>

inductive connection_method ::
  "json_api \<Rightarrow> (rval \<Rightarrow> rb_error + int) \<Rightarrow> thrift_connection \<Rightarrow> sent \<Rightarrow> bool" for J nanos C where
  "connection_method J nanos C (register_domain a b c d e)"
| "connection_method J nanos C (describe_domain a)"
| "connection_method J nanos C (list_domains a)"
| "connection_method J nanos C (update_domain a b)"
| "connection_method J nanos C (deprecate_domain a)"
| "connection_method J nanos C (start_workflow_execution J C uuid a b c d e f g h i j)"
| "connection_method J nanos C (get_workflow_execution_history a b c d e f)"
| "connection_method J nanos C (poll_for_decision_task C a b)"
| "connection_method J nanos C (respond_decision_task_completed C a b)"
| "connection_method J nanos C (respond_decision_task_failed J C a b c)"
| "connection_method J nanos C (poll_for_activity_task C a b)"
| "connection_method J nanos C (record_activity_task_heartbeat J C a b)"
| "connection_method J nanos C (respond_activity_task_completed J C a b)"
| "connection_method J nanos C (respond_activity_task_completed_by_id J C a b c d e)"
| "connection_method J nanos C (respond_activity_task_failed J C a b c)"
| "connection_method J nanos C (respond_activity_task_failed_by_id J C a b c d e f)"
| "connection_method J nanos C (respond_activity_task_canceled J C a b)"
| "connection_method J nanos C (signal_workflow_execution J C a b c d e)"
| "connection_method J nanos C (reset_workflow_execution uuid a b c d e)"
| "connection_method J nanos C (terminate_workflow_execution J C a b c d e)"
| "connection_method J nanos C (list_open_workflow_executions nanos C a b c d e f)"
| "connection_method J nanos C (list_closed_workflow_executions J nanos C a b c d e f g)"
| "connection_method J nanos C (describe_workflow_execution a b c)"
| "connection_method J nanos C (describe_task_list a b)"

text \<open>The method exists in the generated client and takes a struct of the request's class.\<close>

definition well_addressed :: "string \<Rightarrow> rval \<Rightarrow> bool" where
  "well_addressed name req =
     (case map_of client_methods name of
        None \<Rightarrow> False
      | Some (arg, c, _) \<Rightarrow> arg \<noteq> [] \<and> (\<exists>fs. req = Thrift c fs))"

definition proxy_names :: "string list" where
  "proxy_names =
     [''CountWorkflowExecutions'', ''DeprecateDomain'', ''DescribeDomain'', ''DescribeTaskList'',
      ''DescribeWorkflowExecution'', ''GetSearchAttributes'', ''GetWorkflowExecutionHistory'',
      ''ListArchivedWorkflowExecutions'', ''ListClosedWorkflowExecutions'', ''ListDomains'',
      ''ListOpenWorkflowExecutions'', ''ListWorkflowExecutions'', ''PollForActivityTask'',
      ''PollForDecisionTask'', ''QueryWorkflow'', ''RecordActivityTaskHeartbeat'',
      ''RecordActivityTaskHeartbeatByID'', ''RegisterDomain'', ''RequestCancelWorkflowExecution'',
      ''ResetStickyTaskList'', ''ResetWorkflowExecution'', ''RespondActivityTaskCanceled'',
      ''RespondActivityTaskCanceledByID'', ''RespondActivityTaskCompleted'',
      ''RespondActivityTaskCompletedByID'', ''RespondActivityTaskFailed'',
      ''RespondActivityTaskFailedByID'', ''RespondDecisionTaskCompleted'',
      ''RespondDecisionTaskFailed'', ''RespondQueryTaskCompleted'', ''ScanWorkflowExecutions'',
      ''SignalWithStartWorkflowExecution'', ''SignalWorkflowExecution'',
      ''StartWorkflowExecution'', ''TerminateWorkflowExecution'', ''UpdateDomain'']"

lemma procedure_names:
  "List.map thrift_Method.Name (workflowserviceserver_methods W impl) = proxy_names"
  by (simp add: proxy_names_def workflowserviceserver_methods_def
      procedure_CountWorkflowExecutions_def procedure_DeprecateDomain_def
      procedure_DescribeDomain_def procedure_DescribeTaskList_def
      procedure_DescribeWorkflowExecution_def procedure_GetSearchAttributes_def
      procedure_GetWorkflowExecutionHistory_def procedure_ListArchivedWorkflowExecutions_def
      procedure_ListClosedWorkflowExecutions_def procedure_ListDomains_def
      procedure_ListOpenWorkflowExecutions_def procedure_ListWorkflowExecutions_def
      procedure_PollForActivityTask_def procedure_PollForDecisionTask_def
      procedure_QueryWorkflow_def procedure_RecordActivityTaskHeartbeat_def
      procedure_RecordActivityTaskHeartbeatByID_def procedure_RegisterDomain_def
      procedure_RequestCancelWorkflowExecution_def procedure_ResetStickyTaskList_def
      procedure_ResetWorkflowExecution_def procedure_RespondActivityTaskCanceled_def
      procedure_RespondActivityTaskCanceledByID_def procedure_RespondActivityTaskCompleted_def
      procedure_RespondActivityTaskCompletedByID_def procedure_RespondActivityTaskFailed_def
      procedure_RespondActivityTaskFailedByID_def procedure_RespondDecisionTaskCompleted_def
      procedure_RespondDecisionTaskFailed_def procedure_RespondQueryTaskCompleted_def
      procedure_ScanWorkflowExecutions_def procedure_SignalWithStartWorkflowExecution_def
      procedure_SignalWorkflowExecution_def procedure_StartWorkflowExecution_def
      procedure_TerminateWorkflowExecution_def procedure_UpdateDomain_def)

lemma proxy_knows: "proxy_procedures W call name \<noteq> None \<longleftrightarrow> name \<in> set proxy_names"
  unfolding proxy_procedures_def workflowserviceserver_New_def procedure_names [symmetric, of W "proxyHandler_impl (NewProxyHandler W call)"]
  by (force simp: map_of_eq_None_iff)

text \<open>A call that is well addressed and whose name the proxy knows.\<close>

definition deliverable :: "'v wire_api \<Rightarrow> ('ctx, 'v) thrift_client \<Rightarrow> string \<times> rval \<Rightarrow> bool" where
  "deliverable W call = (\<lambda>(name, req). well_addressed name req \<and> proxy_procedures W call name \<noteq> None)"

definition is_request :: "string \<Rightarrow> string \<Rightarrow> bool" where
  "is_request name c \<longleftrightarrow> name \<in> set proxy_names \<and>
     (case map_of client_methods name of None \<Rightarrow> False | Some (arg, d, _) \<Rightarrow> arg \<noteq> [] \<and> d = c)"

lemma deliverable_request: "is_request name c \<Longrightarrow> deliverable W call (name, Thrift c fs)"
  unfolding deliverable_def prod.case proxy_knows
  by (auto simp: is_request_def well_addressed_def split: option.splits)

lemma deliverable_rules:
  "deliverable W call (''RegisterDomain'', Thrift ''RegisterDomainRequest'' fs)"
  "deliverable W call (''DescribeDomain'', Thrift ''DescribeDomainRequest'' fs)"
  "deliverable W call (''ListDomains'', Thrift ''ListDomainsRequest'' fs)"
  "deliverable W call (''DeprecateDomain'', Thrift ''DeprecateDomainRequest'' fs)"
  "deliverable W call (''StartWorkflowExecution'', Thrift ''StartWorkflowExecutionRequest'' fs)"
  "deliverable W call (''GetWorkflowExecutionHistory'', Thrift ''GetWorkflowExecutionHistoryRequest'' fs)"
  "deliverable W call (''PollForDecisionTask'', Thrift ''PollForDecisionTaskRequest'' fs)"
  "deliverable W call (''RespondDecisionTaskCompleted'', Thrift ''RespondDecisionTaskCompletedRequest'' fs)"
  "deliverable W call (''RespondDecisionTaskFailed'', Thrift ''RespondDecisionTaskFailedRequest'' fs)"
  "deliverable W call (''PollForActivityTask'', Thrift ''PollForActivityTaskRequest'' fs)"
  "deliverable W call (''RecordActivityTaskHeartbeat'', Thrift ''RecordActivityTaskHeartbeatRequest'' fs)"
  "deliverable W call (''RespondActivityTaskCompleted'', Thrift ''RespondActivityTaskCompletedRequest'' fs)"
  "deliverable W call (''RespondActivityTaskCompletedByID'', Thrift ''RespondActivityTaskCompletedByIDRequest'' fs)"
  "deliverable W call (''RespondActivityTaskFailed'', Thrift ''RespondActivityTaskFailedRequest'' fs)"
  "deliverable W call (''RespondActivityTaskFailedByID'', Thrift ''RespondActivityTaskFailedByIDRequest'' fs)"
  "deliverable W call (''RespondActivityTaskCanceled'', Thrift ''RespondActivityTaskCanceledRequest'' fs)"
  "deliverable W call (''SignalWorkflowExecution'', Thrift ''SignalWorkflowExecutionRequest'' fs)"
  "deliverable W call (''ResetWorkflowExecution'', Thrift ''ResetWorkflowExecutionRequest'' fs)"
  "deliverable W call (''TerminateWorkflowExecution'', Thrift ''TerminateWorkflowExecutionRequest'' fs)"
  "deliverable W call (''ListOpenWorkflowExecutions'', Thrift ''ListOpenWorkflowExecutionsRequest'' fs)"
  "deliverable W call (''ListClosedWorkflowExecutions'', Thrift ''ListClosedWorkflowExecutionsRequest'' fs)"
  "deliverable W call (''DescribeWorkflowExecution'', Thrift ''DescribeWorkflowExecutionRequest'' fs)"
  "deliverable W call (''DescribeTaskList'', Thrift ''DescribeTaskListRequest'' fs)"
  by (rule deliverable_request, code_simp)+

lemmas method_defs =
  register_domain_def describe_domain_def list_domains_def deprecate_domain_def
  get_workflow_execution_history_def poll_for_decision_task_def
  respond_decision_task_completed_def respond_decision_task_failed_def poll_for_activity_task_def
  record_activity_task_heartbeat_def respond_activity_task_completed_def
  respond_activity_task_completed_by_id_def respond_activity_task_failed_def
  respond_activity_task_failed_by_id_def respond_activity_task_canceled_def
  signal_workflow_execution_def reset_workflow_execution_def terminate_workflow_execution_def
  describe_workflow_execution_def describe_task_list_def execution_struct_def

text \<open>\<open>update_domain\<close> builds its inner struct from the wrong class.\<close>

lemma update_domain_raises:
  "update_domain a b = Inl (exception ''Thrift::Exception''
     ''Unknown key given to CadenceThrift::UpdateDomainRequest.new: description'')"
proof -
  have "field_type UpdateDomainRequest_FIELDS ''description'' = None" by code_simp
  then show ?thesis by (simp add: update_domain_def Thrift_new_def)
qed

text \<open>Structs with known fields, and what is built around them.\<close>

lemma request_known:
  assumes "struct_fields c = Some table" and "\<forall>k\<in>set (List.map fst fs). field_type table k \<noteq> None"
  shows "request name c fs = Inr (name, Thrift c fs)"
  by (simp add: request_def Thrift_new_known [OF assms])

lemma start_outcome:
  "(\<exists>x. start_workflow_execution J C uuid a b c d e f g h i j = Inr x \<and> deliverable W call x) \<or>
    start_workflow_execution J C uuid a b c d e f g h i j = Inl (NameError ''Cadence::Client::ArgumentError'')"
proof (cases "truthy h")
  case False
  then show ?thesis
    by (simp add: start_workflow_execution_def request_known Thrift_new_known deliverable_rules)
next
  case True
  then show ?thesis
    by (cases h; cases "map_of WORKFLOW_ID_REUSE_POLICY (case h of RSym s \<Rightarrow> s | _ \<Rightarrow> [])")
      (simp_all add: start_workflow_execution_def request_known Thrift_new_known deliverable_rules)
qed

lemma filters_known:
  "\<exists>r. serialize_execution_filter v = Inr r" "\<exists>r. serialize_type_filter v = Inr r"
  by (cases "truthy v"; simp add: serialize_execution_filter_def serialize_type_filter_def Thrift_new_known)+

lemma time_filter_outcome:
  "(\<exists>r. serialize_time_filter nanos u v = Inr r) \<or> (\<exists>t e. nanos t = Inl e \<and> serialize_time_filter nanos u v = Inl e)"
  by (cases "nanos u"; cases "nanos v") (auto simp: serialize_time_filter_def Thrift_new_known)

lemma lists_outcome:
  "(\<exists>x. list_open_workflow_executions nanos C a b c d e f = Inr x \<and> deliverable W call x) \<or>
    (\<exists>t err. nanos t = Inl err \<and> list_open_workflow_executions nanos C a b c d e f = Inl err)"
  "(\<exists>x. list_closed_workflow_executions J nanos C a b c d e f g = Inr x \<and> deliverable W call x) \<or>
    (\<exists>t err. nanos t = Inl err \<and> list_closed_workflow_executions J nanos C a b c d e f g = Inl err)"
proof -
  obtain r1 r2 where "serialize_execution_filter e = Inr r1" "serialize_type_filter f = Inr r2"
    using filters_known by blast
  with time_filter_outcome [of nanos b c]
  show "(\<exists>x. list_open_workflow_executions nanos C a b c d e f = Inr x \<and> deliverable W call x) \<or>
    (\<exists>t err. nanos t = Inl err \<and> list_open_workflow_executions nanos C a b c d e f = Inl err)"
    and "(\<exists>x. list_closed_workflow_executions J nanos C a b c d e f g = Inr x \<and> deliverable W call x) \<or>
    (\<exists>t err. nanos t = Inl err \<and> list_closed_workflow_executions J nanos C a b c d e f g = Inl err)"
    by (auto simp: list_open_workflow_executions_def list_closed_workflow_executions_def
        request_known deliverable_rules)
qed

lemma method_outcome:
  assumes "connection_method J nanos C s"
  shows "(\<exists>x. s = Inr x \<and> deliverable W call x) \<or> (\<exists>a b. update_domain a b = s) \<or>
    s = Inl (NameError ''Cadence::Client::ArgumentError'') \<or> (\<exists>t e. nanos t = Inl e \<and> s = Inl e)"
  using assms
proof (cases rule: connection_method.cases)
  case (4 a b)
  then show ?thesis by blast
next
  case (6 uuid a b c d e f g h i j)
  then show ?thesis using start_outcome by blast
next
  case (21 a b c d e f)
  then show ?thesis using lists_outcome(1) by blast
next
  case (22 a b c d e f g)
  then show ?thesis using lists_outcome(2) by blast
qed (simp_all add: method_defs request_known Thrift_new_known deliverable_rules)

section \<open>The start of a workflow, on both sides\<close>

definition go_StartWorkflowExecutionRequest :: "(rval \<Rightarrow> float64) \<Rightarrow> rval \<Rightarrow> StartWorkflowExecutionRequest option" where
  "go_StartWorkflowExecutionRequest F v = (case v of
     RStruct c fs \<Rightarrow> Some
      \<lparr>StartWorkflowExecutionRequest.Domain = go_string (field fs ''domain''),
       StartWorkflowExecutionRequest.WorkflowId = go_string (field fs ''workflowId''),
       StartWorkflowExecutionRequest.WorkflowType = go_WorkflowType F (field fs ''workflowType''),
       StartWorkflowExecutionRequest.TaskList = go_TaskList F (field fs ''taskList''),
       StartWorkflowExecutionRequest.Input = go_bytes (field fs ''input''),
       StartWorkflowExecutionRequest.ExecutionStartToCloseTimeoutSeconds = go_i32 (field fs ''executionStartToCloseTimeoutSeconds''),
       StartWorkflowExecutionRequest.TaskStartToCloseTimeoutSeconds = go_i32 (field fs ''taskStartToCloseTimeoutSeconds''),
       StartWorkflowExecutionRequest.Identity = go_string (field fs ''identity''),
       StartWorkflowExecutionRequest.RequestId = go_string (field fs ''requestId''),
       StartWorkflowExecutionRequest.WorkflowIdReusePolicy = go_i32 (field fs ''workflowIdReusePolicy''),
       StartWorkflowExecutionRequest.RetryPolicy = go_RetryPolicy F (field fs ''retryPolicy''),
       StartWorkflowExecutionRequest.CronSchedule = go_string (field fs ''cronSchedule''),
       StartWorkflowExecutionRequest.Memo = None,
       StartWorkflowExecutionRequest.SearchAttributes = None,
       StartWorkflowExecutionRequest.Header = go_Header F (field fs ''header'')\<rparr>
   | _ \<Rightarrow> None)"

lemma StartWorkflowExecutionRequest_arrives:
  assumes "arrives W F (T_STRUCT ''StartWorkflowExecutionRequest'') v w"
  shows "wire_api.Type W w = TStruct" "v \<noteq> RNil" "StartWorkflowExecutionRequest_Read W w = Inr (the (go_StartWorkflowExecutionRequest F v))" "go_StartWorkflowExecutionRequest F v \<noteq> None"
proof -
  obtain fs where s: "v = Thrift ''StartWorkflowExecutionRequest'' fs" "wire_api.Type W w = TStruct"
    "fields_arrive W F StartWorkflowExecutionRequest_FIELDS fs (GetStruct W w)"
    using assms by (auto elim: arrives_struct)
  then obtain x0 x1 x2 x3 x4 x5 x6 x7 x8 x9 x10 x11 x12 x13 x14 where
    g: "GetStruct W w = opt_field 10 id x0 @ opt_field 20 id x1 @ opt_field 30 id x2 @ opt_field 40 id x3 @ opt_field 50 id x4 @ opt_field 60 id x5 @ opt_field 70 id x6 @ opt_field 80 id x7 @ opt_field 90 id x8 @ opt_field 100 id x9 @ opt_field 120 id x10 @ opt_field 130 id x11 @ opt_field 140 id x12 @ opt_field 141 id x13 @ opt_field 150 id x14" and
    a: "arrived W F (T_STRING) (field fs ''domain'') x0"
      "arrived W F (T_STRING) (field fs ''workflowId'') x1"
      "arrived W F (T_STRUCT ''WorkflowType'') (field fs ''workflowType'') x2"
      "arrived W F (T_STRUCT ''TaskList'') (field fs ''taskList'') x3"
      "arrived W F (T_STRING) (field fs ''input'') x4"
      "arrived W F (T_I32) (field fs ''executionStartToCloseTimeoutSeconds'') x5"
      "arrived W F (T_I32) (field fs ''taskStartToCloseTimeoutSeconds'') x6"
      "arrived W F (T_STRING) (field fs ''identity'') x7"
      "arrived W F (T_STRING) (field fs ''requestId'') x8"
      "arrived W F (T_ENUM WorkflowIdReusePolicy_VALID_VALUES) (field fs ''workflowIdReusePolicy'') x9"
      "arrived W F (T_STRUCT ''RetryPolicy'') (field fs ''retryPolicy'') x10"
      "arrived W F (T_STRING) (field fs ''cronSchedule'') x11"
      "arrived W F (T_STRUCT ''Memo'') (field fs ''memo'') x12"
      "arrived W F (T_STRUCT ''SearchAttributes'') (field fs ''searchAttributes'') x13"
      "arrived W F (T_STRUCT ''Header'') (field fs ''header'') x14"
    unfolding StartWorkflowExecutionRequest_FIELDS_def by (elim fields_arrive_ConsE fields_arrive_NilE) (simp add: that)
  show "wire_api.Type W w = TStruct" "v \<noteq> RNil" "go_StartWorkflowExecutionRequest F v \<noteq> None"
    using s by (simp_all add: Thrift_def go_StartWorkflowExecutionRequest_def)
  show "StartWorkflowExecutionRequest_Read W w = Inr (the (go_StartWorkflowExecutionRequest F v))"
    unfolding StartWorkflowExecutionRequest_Read_def StartWorkflowExecutionRequest_FromWire_def g s(1) go_StartWorkflowExecutionRequest_def
    by (simp cong: option.case_cong add: codec_rules StartWorkflowExecutionRequest_merge StartWorkflowExecutionRequest_zero_def Thrift_def WorkflowIdReusePolicy_Read_def WorkflowIdReusePolicy_FromWire_def
          arrived_string [OF a(1)] arrived_string [OF a(2)] arrived_WorkflowType [OF a(3)]
          arrived_TaskList [OF a(4)] arrived_string [OF a(5)] arrived_i32 [OF a(6)] arrived_i32 [OF
          a(7)] arrived_string [OF a(8)] arrived_string [OF a(9)] arrived_enum [OF a(10)]
          arrived_RetryPolicy [OF a(11)] arrived_string [OF a(12)] arrived_unknown [OF a(13)]
          arrived_unknown [OF a(14)] arrived_Header [OF a(15)])
qed

lemma arrived_StartWorkflowExecutionRequest:
  assumes "arrived W F (T_STRUCT ''StartWorkflowExecutionRequest'') v x"
  shows "x = Some y \<Longrightarrow> wire_api.Type W y = TStruct" "x = Some y \<Longrightarrow> StartWorkflowExecutionRequest_Read W y = Inr (the (go_StartWorkflowExecutionRequest F v))"
    and "(case x of None \<Rightarrow> None | Some y \<Rightarrow> Some (the (go_StartWorkflowExecutionRequest F v))) = go_StartWorkflowExecutionRequest F v"
  using assms StartWorkflowExecutionRequest_arrives [of W F v] by (auto simp: arrived_def go_StartWorkflowExecutionRequest_def split: option.splits)

text \<open>The request of a start with settled options.\<close>

definition start_sent ::
  "json_api \<Rightarrow> thrift_connection \<Rightarrow> string \<times> string \<Rightarrow> execution_options \<Rightarrow> (rval \<times> rval) list \<Rightarrow> start_options \<Rightarrow>
   rval \<Rightarrow> rval \<Rightarrow> sent" where
  "start_sent J C uuids eo hs opts inp cron =
     start_workflow_execution J C (snd uuids) (eo_domain eo)
       (or_value (opt_workflow_id opts) (RStr (fst uuids))) (eo_name eo) (eo_task_list eo) inp
       (entry (eo_timeouts eo) ''execution'') (entry (eo_timeouts eo) ''task'') (opt_reuse_policy opts) (RHash hs) cron"

text \<open>What the proxy is to read: the settled options, the input, and no retry policy.\<close>

definition received_start ::
  "json_api \<Rightarrow> thrift_connection \<Rightarrow> string \<times> string \<Rightarrow> execution_options \<Rightarrow> (rval \<times> rval) list \<Rightarrow> start_options \<Rightarrow>
   rval \<Rightarrow> rval \<Rightarrow> StartWorkflowExecutionRequest" where
  "received_start J C uuids eo hs opts inp cron = StartWorkflowExecutionRequest_zero
     \<lparr>StartWorkflowExecutionRequest.Domain := go_string (eo_domain eo),
      StartWorkflowExecutionRequest.WorkflowId := go_string (or_value (opt_workflow_id opts) (RStr (fst uuids))),
      StartWorkflowExecutionRequest.WorkflowType := Some \<lparr>WorkflowType.Name = go_string (eo_name eo)\<rparr>,
      StartWorkflowExecutionRequest.TaskList :=
        Some \<lparr>TaskList.Name = go_string (eo_task_list eo), TaskList.Kind = None\<rparr>,
      StartWorkflowExecutionRequest.Input := received_bytes (JSON_serialize J inp),
      StartWorkflowExecutionRequest.ExecutionStartToCloseTimeoutSeconds := go_i32 (entry (eo_timeouts eo) ''execution''),
      StartWorkflowExecutionRequest.TaskStartToCloseTimeoutSeconds := go_i32 (entry (eo_timeouts eo) ''task''),
      StartWorkflowExecutionRequest.Identity := Some (identity C),
      StartWorkflowExecutionRequest.RequestId := Some (snd uuids),
      StartWorkflowExecutionRequest.WorkflowIdReusePolicy :=
        (case opt_reuse_policy opts of
           RSym s \<Rightarrow> map_option word_of_int (map_of WORKFLOW_ID_REUSE_POLICY s)
         | _ \<Rightarrow> None),
      StartWorkflowExecutionRequest.CronSchedule := go_string cron,
      StartWorkflowExecutionRequest.Header := Some \<lparr>Header.Fields = go_map (RHash hs)\<rparr>\<rparr>"

definition policy_known :: "rval \<Rightarrow> bool" where
  "policy_known v \<longleftrightarrow>
     \<not> truthy v \<or> (case v of RSym s \<Rightarrow> map_of WORKFLOW_ID_REUSE_POLICY s \<noteq> None | _ \<Rightarrow> False)"

lemma start_request_received:
  assumes "policy_known (opt_reuse_policy opts)"
  shows "\<exists>req. start_sent J C uuids eo hs opts inp cron = Inr (''StartWorkflowExecution'', req) \<and>
      go_StartWorkflowExecutionRequest F req = Some (received_start J C uuids eo hs opts inp cron)"
proof -
  let ?p = "opt_reuse_policy opts"
  consider "\<not> truthy ?p" | s i where "?p = RSym s" "map_of WORKFLOW_ID_REUSE_POLICY s = Some i"
    using assms by (auto simp: policy_known_def split: rval.splits option.splits)
  then show ?thesis
  proof cases
    case 1
    then have "\<nexists>s. ?p = RSym s" by auto
    then have none: "(case ?p of RSym s \<Rightarrow> map_option word_of_int (map_of WORKFLOW_ID_REUSE_POLICY s) | _ \<Rightarrow> None) =
        (None :: 32 word option)"
      by (auto split: rval.splits)
    from 1 show ?thesis
      by (simp add: start_sent_def start_workflow_execution_def request_def Thrift_new_def received_start_def none
          go_StartWorkflowExecutionRequest_def go_struct_defs go_Header_def Thrift_def field_Cons
          StartWorkflowExecutionRequest_zero_def received_bytes_def)
  next
    case 2
    then show ?thesis
      by (simp add: start_sent_def start_workflow_execution_def request_def Thrift_new_def received_start_def
          go_StartWorkflowExecutionRequest_def go_struct_defs go_Header_def Thrift_def field_Cons
          StartWorkflowExecutionRequest_zero_def received_bytes_def)
  qed
qed

section \<open>Properties\<close>



text \<open>
  C3: the start of a workflow whose options, headers and policy are
  accepted is one call to the service, and gives the identifier of the run in its answer; from
  whatever wire value the request arrives as, the generated code of the proxy reads the settled
  domain, task list, name, timeouts and headers, the input, and the identifier that was given or
  drawn. The retry policy of the options is not in it.
\<close>

theorem start_workflow_reaches_proxy:
  assumes "ExecutionOptions_new workflow_name workflow (execution opts) (Some (default_execution_options config)) = Inr eo"
    and "inject (header_propagators config) (eo_headers eo) = Inr hs"
    and "policy_known (opt_reuse_policy opts)"
  shows "\<exists>req. start_sent J C uuids eo hs opts (start_input inp args) cron = Inr (''StartWorkflowExecution'', req) \<and>
    start J rpc C config uuids workflow_name workflow opts inp args cron =
      and_then (rpc ''StartWorkflowExecution'' req) (\<lambda>response. get_field response ''runId'') \<and>
    (\<forall>w. arrives W F (T_STRUCT ''StartWorkflowExecutionRequest'') req w \<longrightarrow>
       StartWorkflowExecutionRequest_Read W w =
         Inr (received_start J C uuids eo hs opts (start_input inp args) cron))"
proof -
  obtain req where req: "start_sent J C uuids eo hs opts (start_input inp args) cron = Inr (''StartWorkflowExecution'', req)"
    and go: "go_StartWorkflowExecutionRequest F req =
      Some (received_start J C uuids eo hs opts (start_input inp args) cron)"
    using start_request_received [OF assms(3)] by blast
  have "start J rpc C config uuids workflow_name workflow opts inp args cron =
      and_then (rpc ''StartWorkflowExecution'' req) (\<lambda>response. get_field response ''runId'')"
    using req by (simp add: start_def assms(1,2) Let_def call_service_def start_sent_def)
  with StartWorkflowExecutionRequest_arrives(3) [of W F req] req go show ?thesis by auto
qed

text \<open>A start with the defaults and without input, and its request on the wire.\<close>

definition sample_config :: client_config where
  "sample_config = \<lparr>default_execution_options =
     \<lparr>def_domain = RStr ''d'', def_task_list = RStr ''t'',
      def_timeouts = [(RSym ''execution'', RInt 60), (RSym ''task'', RInt 10)], def_headers = []\<rparr>,
     header_propagators = []\<rparr>"

definition sample_options :: start_options where
  "sample_options = \<lparr>execution = \<lparr>opt_name = RNil, opt_domain = RNil, opt_task_list = RNil,
       opt_retry_policy = None, opt_timeouts = None, opt_headers = None\<rparr>,
     opt_workflow_id = RStr ''order-1'', opt_reuse_policy = RSym ''reject''\<rparr>"

definition sample_wire :: wire_tree where
  "sample_wire = VStruct
     [(10, VString ''d''), (20, VString ''order-1''), (30, VStruct [(10, VString ''W'')]),
      (40, VStruct [(10, VString ''t'')]), (50, VString ''[]''), (60, VI32 60), (70, VI32 10),
      (80, VString ''me''), (90, VString ''q''), (100, VI32 2), (150, VStruct [(10, VMap [] 0 TBinary TBinary)])]"

theorem start_workflow_reaches_proxy_witness:
  "start \<lparr>load = (\<lambda>_. None), dump = (\<lambda>_. ''[]''), other_to_s = (\<lambda>_. [])\<rparr>
     (\<lambda>_ _. Inr (Thrift ''StartWorkflowExecutionResponse'' [(''runId'', RStr ''r'')]))
     (Connection_new ''proxy'' ''6666'' ''me'' None None) sample_config (''w'', ''q'') (RStr ''W'') None
     sample_options [] [] RNil = Inr (RStr ''r'') \<and>
   StartWorkflowExecutionRequest_Read wire_tree_api sample_wire = Inr (StartWorkflowExecutionRequest_zero
     \<lparr>StartWorkflowExecutionRequest.Domain := Some ''d'',
      StartWorkflowExecutionRequest.WorkflowId := Some ''order-1'',
      StartWorkflowExecutionRequest.WorkflowType := Some \<lparr>WorkflowType.Name = Some ''W''\<rparr>,
      StartWorkflowExecutionRequest.TaskList := Some \<lparr>TaskList.Name = Some ''t'', TaskList.Kind = None\<rparr>,
      StartWorkflowExecutionRequest.Input := Some (List.map of_char ''[]''),
      StartWorkflowExecutionRequest.ExecutionStartToCloseTimeoutSeconds := Some 60,
      StartWorkflowExecutionRequest.TaskStartToCloseTimeoutSeconds := Some 10,
      StartWorkflowExecutionRequest.Identity := Some ''me'', StartWorkflowExecutionRequest.RequestId := Some ''q'',
      StartWorkflowExecutionRequest.WorkflowIdReusePolicy := Some 2,
      StartWorkflowExecutionRequest.Header := Some \<lparr>Header.Fields = Some fmempty\<rparr>\<rparr>)"
proof -
  let ?J = "\<lparr>load = (\<lambda>_. None), dump = (\<lambda>_. ''[]''), other_to_s = (\<lambda>_. [])\<rparr> :: json_api"
  let ?C = "Connection_new ''proxy'' ''6666'' ''me'' None None" and ?F = "\<lambda>_ :: rval. 0 :: float64"
  let ?answer = "\<lambda>_ _. Inr (Thrift ''StartWorkflowExecutionResponse'' [(''runId'', RStr ''r'')]) :: rb_error + rval"
  let ?eo = "\<lparr>eo_name = RStr ''W'', eo_domain = RStr ''d'', eo_task_list = RStr ''t'', eo_retry_policy = None,
    eo_timeouts = [(RSym ''execution'', RInt 60), (RSym ''task'', RInt 10)], eo_headers = []\<rparr>"
  have eo: "ExecutionOptions_new (RStr ''W'') None (execution sample_options) (Some (default_execution_options sample_config)) =
      Inr ?eo"
    by (simp add: ExecutionOptions_new_def sample_options_def sample_config_def or_value_def given_def merge_def)
  have hs: "inject (header_propagators sample_config) (eo_headers ?eo) = Inr []"
    by (simp add: sample_config_def inject_def)
  have p: "policy_known (opt_reuse_policy sample_options)"
    by (simp add: policy_known_def sample_options_def WORKFLOW_ID_REUSE_POLICY_def)
  let ?req = "Thrift ''StartWorkflowExecutionRequest''
       [(''identity'', RStr ''me''), (''domain'', RStr ''d''), (''workflowType'', Thrift ''WorkflowType'' [(''name'', RStr ''W'')]),
        (''workflowId'', RStr ''order-1''), (''taskList'', Thrift ''TaskList'' [(''name'', RStr ''t'')]),
        (''input'', RStr ''[]''), (''executionStartToCloseTimeoutSeconds'', RInt 60),
        (''taskStartToCloseTimeoutSeconds'', RInt 10), (''requestId'', RStr ''q''),
        (''header'', Thrift ''Header'' [(''fields'', RHash [])]), (''cronSchedule'', RNil), (''workflowIdReusePolicy'', RInt 2)]"
  have req: "start_sent ?J ?C (''w'', ''q'') ?eo [] sample_options (start_input [] []) RNil = Inr (''StartWorkflowExecution'', ?req)"
    by (simp add: start_sent_def start_workflow_execution_def request_def Thrift_new_def JSON_serialize_def Connection_new_def
        WORKFLOW_ID_REUSE_POLICY_def sample_options_def start_input_def or_value_def entry_def)
  have "arrives wire_tree_api ?F (T_STRUCT ''WorkflowType'') (Thrift ''WorkflowType'' [(''name'', RStr ''W'')])
      (VStruct [(10, VString ''W'')])"
    by (rule arrives.struct) (auto simp: wire_tree_api_def written_def WorkflowType_FIELDS_def field_Cons intro!: arrives.str)
  moreover have "arrives wire_tree_api ?F (T_STRUCT ''TaskList'') (Thrift ''TaskList'' [(''name'', RStr ''t'')])
      (VStruct [(10, VString ''t'')])"
    by (rule arrives.struct) (auto simp: wire_tree_api_def written_def TaskList_FIELDS_def field_Cons intro!: arrives.str)
  moreover have "arrives wire_tree_api ?F (T_STRUCT ''Header'') (Thrift ''Header'' [(''fields'', RHash [])])
      (VStruct [(10, VMap [] 0 TBinary TBinary)])"
    by (rule arrives.struct)
      (auto simp: wire_tree_api_def written_def Header_FIELDS_def field_Cons intro!: arrives.items)
  ultimately have w: "arrives wire_tree_api ?F (T_STRUCT ''StartWorkflowExecutionRequest'') ?req sample_wire"
    unfolding sample_wire_def
    by (intro arrives.struct)
      (auto simp: wire_tree_api_def written_def StartWorkflowExecutionRequest_FIELDS_def field_Cons Thrift_def
        intro!: arrives.str arrives.i32 arrives.enumeration)
  have r: "received_start ?J ?C (''w'', ''q'') ?eo [] sample_options (start_input [] []) RNil =
      StartWorkflowExecutionRequest_zero
     \<lparr>StartWorkflowExecutionRequest.Domain := Some ''d'',
      StartWorkflowExecutionRequest.WorkflowId := Some ''order-1'',
      StartWorkflowExecutionRequest.WorkflowType := Some \<lparr>WorkflowType.Name = Some ''W''\<rparr>,
      StartWorkflowExecutionRequest.TaskList := Some \<lparr>TaskList.Name = Some ''t'', TaskList.Kind = None\<rparr>,
      StartWorkflowExecutionRequest.Input := Some (List.map of_char ''[]''),
      StartWorkflowExecutionRequest.ExecutionStartToCloseTimeoutSeconds := Some 60,
      StartWorkflowExecutionRequest.TaskStartToCloseTimeoutSeconds := Some 10,
      StartWorkflowExecutionRequest.Identity := Some ''me'', StartWorkflowExecutionRequest.RequestId := Some ''q'',
      StartWorkflowExecutionRequest.WorkflowIdReusePolicy := Some 2,
      StartWorkflowExecutionRequest.Header := Some \<lparr>Header.Fields = Some fmempty\<rparr>\<rparr>"
    by (simp add: received_start_def received_bytes_def JSON_serialize_def Connection_new_def
        WORKFLOW_ID_REUSE_POLICY_def sample_options_def start_input_def or_value_def entry_def
        StartWorkflowExecutionRequest_zero_def)
  from start_workflow_reaches_proxy [OF eo hs p, of ?J ?C "(''w'', ''q'')" "[]" "[]" RNil ?answer wire_tree_api ?F]
  show ?thesis using w by (simp add: req r Thrift_def)
qed

end
