(* ===== verification/Worker.thy ===== *)
theory Worker
  imports Options "HOL-Library.AList"
begin

text \<open>
  \<open>Worker\<close> (lib/cadence/worker.rb) and \<open>ExecutableLookup\<close> (lib/cadence/executable_lookup.rb):
  the workflows and activities a worker serves, by domain and task list, and the pollers that
  it starts and stops for them. A class is of type \<open>'c\<close>, a middleware entry of type \<open>'m\<close>.
\<close>

section \<open>ExecutableLookup\<close>

type_synonym 'c executable_lookup = "(rval \<times> 'c) list"

definition lookup_add :: "rval \<Rightarrow> 'c \<Rightarrow> 'c executable_lookup \<Rightarrow> 'c executable_lookup" where
  "lookup_add name executable executables = AList.update name executable executables"

definition lookup_find :: "rval \<Rightarrow> 'c executable_lookup \<Rightarrow> 'c option" where
  "lookup_find name executables = map_of executables name"

section \<open>The worker\<close>

datatype kind = WorkflowPoller | ActivityPoller

record ('c, 'm) poller_spec =
  poller_kind :: kind
  poller_key :: "rval \<times> rval"
  poller_lookup :: "'c executable_lookup"
  poller_middleware :: "'m list"
  poller_workflow_middleware :: "'m list"

text \<open>What is done to the pollers, by their positions.\<close>

datatype poller_call = Start nat | Stop nat | Wait nat

record ('c, 'm) worker =
  defaults :: default_options
  workflows :: "((rval \<times> rval) \<times> 'c executable_lookup) list"
  activities :: "((rval \<times> rval) \<times> 'c executable_lookup) list"
  decision_middleware :: "'m list"
  activity_middleware :: "'m list"
  workflow_middleware :: "'m list"
  pollers :: "('c, 'm) poller_spec list"
  calls :: "poller_call list"
  shutting_down :: bool

definition Worker_new :: "default_options \<Rightarrow> ('c, 'm) worker" where
  "Worker_new d = \<lparr>defaults = d, workflows = [], activities = [], decision_middleware = [],
     activity_middleware = [], workflow_middleware = [], pollers = [], calls = [], shutting_down = False\<rparr>"

text \<open>A key that is new gets an empty lookup.\<close>

definition add_under ::
  "rval \<times> rval \<Rightarrow> rval \<Rightarrow> 'c \<Rightarrow> ((rval \<times> rval) \<times> 'c executable_lookup) list \<Rightarrow>
   ((rval \<times> rval) \<times> 'c executable_lookup) list" where
  "add_under key name c lookups =
     AList.update key (lookup_add name c (case map_of lookups key of None \<Rightarrow> [] | Some l \<Rightarrow> l)) lookups"

definition register_workflow ::
  "'c \<Rightarrow> rval \<Rightarrow> settings option \<Rightarrow> call_options \<Rightarrow> ('c, 'm) worker \<Rightarrow> rb_error + ('c, 'm) worker" where
  "register_workflow c class_name class_settings options w =
     and_then (ExecutionOptions_new class_name class_settings options (Some (defaults w))) (\<lambda>eo.
       Inr (w\<lparr>workflows := add_under (eo_domain eo, eo_task_list eo) (eo_name eo) c (workflows w)\<rparr>))"

definition register_activity ::
  "'c \<Rightarrow> rval \<Rightarrow> settings option \<Rightarrow> call_options \<Rightarrow> ('c, 'm) worker \<Rightarrow> rb_error + ('c, 'm) worker" where
  "register_activity c class_name class_settings options w =
     and_then (ExecutionOptions_new class_name class_settings options (Some (defaults w))) (\<lambda>eo.
       Inr (w\<lparr>activities := add_under (eo_domain eo, eo_task_list eo) (eo_name eo) c (activities w)\<rparr>))"

definition add_decision_middleware :: "'m \<Rightarrow> ('c, 'm) worker \<Rightarrow> ('c, 'm) worker" where
  "add_decision_middleware m w = w\<lparr>decision_middleware := decision_middleware w @ [m]\<rparr>"

definition add_activity_middleware :: "'m \<Rightarrow> ('c, 'm) worker \<Rightarrow> ('c, 'm) worker" where
  "add_activity_middleware m w = w\<lparr>activity_middleware := activity_middleware w @ [m]\<rparr>"

definition add_workflow_middleware :: "'m \<Rightarrow> ('c, 'm) worker \<Rightarrow> ('c, 'm) worker" where
  "add_workflow_middleware m w = w\<lparr>workflow_middleware := workflow_middleware w @ [m]\<rparr>"

definition workflow_poller_for ::
  "('c, 'm) worker \<Rightarrow> (rval \<times> rval) \<times> 'c executable_lookup \<Rightarrow> ('c, 'm) poller_spec" where
  "workflow_poller_for w = (\<lambda>(key, lookup). \<lparr>poller_kind = WorkflowPoller, poller_key = key,
     poller_lookup = lookup, poller_middleware = decision_middleware w,
     poller_workflow_middleware = workflow_middleware w\<rparr>)"

definition activity_poller_for ::
  "('c, 'm) worker \<Rightarrow> (rval \<times> rval) \<times> 'c executable_lookup \<Rightarrow> ('c, 'm) poller_spec" where
  "activity_poller_for w = (\<lambda>(key, lookup). \<lparr>poller_kind = ActivityPoller, poller_key = key,
     poller_lookup = lookup, poller_middleware = activity_middleware w, poller_workflow_middleware = []\<rparr>)"

text \<open>Up to the wait for the end; the traps of the signals call \<open>stop\<close>.\<close>

definition Worker_start :: "('c, 'm) worker \<Rightarrow> ('c, 'm) worker" where
  "Worker_start w =
     (let ps = pollers w @ List.map (workflow_poller_for w) (workflows w) @ List.map (activity_poller_for w) (activities w)
      in w\<lparr>pollers := ps, calls := calls w @ List.map Start [0..<length ps]\<rparr>)"

definition Worker_stop :: "('c, 'm) worker \<Rightarrow> ('c, 'm) worker" where
  "Worker_stop w = w\<lparr>shutting_down := True,
     calls := calls w @ List.map Stop [0..<length (pollers w)] @ List.map Wait [0..<length (pollers w)]\<rparr>"

section \<open>Registrations\<close>

text \<open>The registration of one more class, of either kind.\<close>

lemma find_registered:
  "lookup_find name (case map_of (add_under key n c lookups) key' of None \<Rightarrow> [] | Some l \<Rightarrow> l) =
     (if key' = key \<and> name = n then Some c
      else lookup_find name (case map_of lookups key' of None \<Rightarrow> [] | Some l \<Rightarrow> l))"
  by (simp add: add_under_def lookup_add_def lookup_find_def update_conv split: option.split)

lemma add_under_keys: "set (List.map fst (add_under key n c lookups)) = insert key (set (List.map fst lookups))"
  by (simp add: add_under_def dom_update)

lemma add_under_distinct: "distinct (List.map fst lookups) \<Longrightarrow> distinct (List.map fst (add_under key n c lookups))"
  by (simp add: add_under_def distinct_update)

definition worker_ok :: "('c, 'm) worker \<Rightarrow> bool" where
  "worker_ok w \<longleftrightarrow> distinct (List.map fst (workflows w)) \<and> distinct (List.map fst (activities w))"

lemma worker_ok_register:
  "worker_ok w \<Longrightarrow> register_workflow c n s options w = Inr w' \<Longrightarrow> worker_ok w'"
  "worker_ok w \<Longrightarrow> register_activity c n s options w = Inr w' \<Longrightarrow> worker_ok w'"
  by (auto simp: register_workflow_def register_activity_def worker_ok_def and_then_Inr_iff add_under_distinct)

text \<open>A worker starts one poller per domain and task list, with what was registered under them.\<close>

lemma one_poller_each:
  assumes "worker_ok w" and "pollers w = []"
  shows "distinct (List.map (\<lambda>p. (poller_kind p, poller_key p)) (pollers (Worker_start w)))"
    and "(\<exists>p\<in>set (pollers (Worker_start w)). poller_kind p = WorkflowPoller \<and> poller_key p = key \<and>
        poller_lookup p = l) \<longleftrightarrow> map_of (workflows w) key = Some l"
proof -
  have inj: "inj_on (\<lambda>x. (k, fst x)) (set kvs)" if "distinct (List.map fst kvs)"
    for k :: kind and kvs :: "((rval \<times> rval) \<times> 'a executable_lookup) list"
    using that by (auto simp: distinct_map inj_on_def)
  show "distinct (List.map (\<lambda>p. (poller_kind p, poller_key p)) (pollers (Worker_start w)))"
    using assms by (auto simp: Worker_start_def worker_ok_def workflow_poller_for_def activity_poller_for_def Let_def
      comp_def case_prod_beta distinct_map inj inj_on_def)
  show "(\<exists>p\<in>set (pollers (Worker_start w)). poller_kind p = WorkflowPoller \<and> poller_key p = key \<and>
        poller_lookup p = l) \<longleftrightarrow> map_of (workflows w) key = Some l"
    using assms by (force simp: Worker_start_def worker_ok_def workflow_poller_for_def activity_poller_for_def Let_def
      map_of_eq_Some_iff)
qed

text \<open>After a stop every poller is stopped before any is waited for, and each once.\<close>

lemma stop_before_wait:
  assumes "i < length (pollers w)" and "j < length (pollers w)"
  shows "\<exists>before between after. calls (Worker_stop w) = before @ Stop i # between @ Wait j # after"
proof -
  have "\<exists>as bs. List.map f [0..<n] = as @ f k # bs" if "k < n" for f :: "nat \<Rightarrow> poller_call" and k n
    using that split_list [of "f k" "List.map f [0..<n]"] by auto
  with assms(1,2) obtain as bs cs ds where
    "List.map Stop [0..<length (pollers w)] = as @ Stop i # bs" "List.map Wait [0..<length (pollers w)] = cs @ Wait j # ds"
    by meson
  then show ?thesis
    by (intro exI [of _ "calls w @ as"] exI [of _ "bs @ cs"] exI [of _ ds]) (simp add: Worker_stop_def)
qed

end
