(* ===== verification/Spec2Isabelle.thy ===== *)
theory Spec2Isabelle
  imports GoProperties GoServiceAccessors GoEventAccessors GoMessageAccessors GoServiceStrings GoServiceLogs
    WorkflowProperties Processing Pollers Tokens Options Saga Middleware Crossing Calls Worker
begin

text \<open>
  \<^bold>\<open>A verification library for cadence-ruby.\<close>

  The repository is a Ruby library for Cadence workflows (lib/cadence) and a small proxy in
  Go (proxy) through which the Ruby workers reach the Cadence service.

  \<^bold>\<open>The proxy.\<close> proxy/main.go starts an RPC server whose handler
  (proxy/internal/proxyhandler.go) forwards each call to a client of the service; messages,
  codecs, server and client are generated from the Thrift definition (proxy/gen).
    \<^item> GoErrorValues: what a Go function can return as its error, and the exceptions.
    \<^item> GoWire: the interface of the Thrift library (the parameter \<open>W\<close> with the laws
      \<open>wire_laws\<close>), its lists and maps, the pieces generated codecs are made of, and the
      contracts \<open>thrift_struct\<close> and \<open>thrift_message\<close> of a generated struct.
    \<^item> GoText, GoEnums: the 22 enumerations of shared.go with their wire form, text and
      JSON; each interprets \<open>enumeration\<close>.
    \<^item> GoErrors, GoTypes, GoTaskEvents, GoEvents, GoDecisions, GoHistory, GoMessages, GoDomains,
      GoInfos, GoRequests, GoMisc: all structs of shared.go, field by field, with \<open>ToWire\<close>,
      \<open>FromWire\<close>, \<open>Read\<close> and \<open>Equals\<close>. \<open>X_complete\<close> holds of the values that can be written (no
      \<open>nil\<close> in their lists and maps), \<open>X_comparable\<close> of those whose \<open>Equals\<close> is equality.
    \<^item> GoRpc: one remote call over the RPC library (a parameter, \<open>thrift_delivers\<close>), and
      the contract \<open>rpc_method\<close> of a generated method with its consequences.
    \<^item> GoActivityService, GoDecisionService, GoWorkflowService, GoDomainService,
      GoVisibilityService: the 36 methods of the service (cadence.go): argument and result
      structs, helper, server handler, client method; each interprets \<open>rpc_method\<close>.
    \<^item> GoProxy: the interface of the service, the table of its procedures, the proxy's
      handler, the configuration of the process and the timing middleware.
    \<^item> GoPointers, GoEventAccessors, GoMessageAccessors, GoServiceAccessors: the accessors of
      the structs, through pointers that may be \<open>nil\<close>.
    \<^item> GoFormat, GoEventStrings, GoMessageStrings, GoServiceStrings: their text, as \<open>fmt\<close> prints
      their fields, and the messages of the exceptions.
    \<^item> GoLogging, GoEventLogs, GoMessageLogs, GoServiceLogs: their log entries, written
      against the encoders of the logging library (the parameter \<open>Z\<close>).
    \<^item> GoMessageProperties, GoProperties: messages round trip and compare as they should, the
      proxy is transparent, errors included, and routes by name.

  \<^bold>\<open>The workflow engine.\<close> A decision task brings the history of a workflow.
  \<open>Executor#run\<close> replays it window by window (\<open>History\<close>, \<open>Window\<close>); the \<open>StateManager\<close>
  applies the events of a window, matches commands with the decisions the workflow made, and
  calls through the \<open>Dispatcher\<close> the blocks that resume the workflow's fibers, which act on
  the state manager through the \<open>Context\<close>; the decisions left are serialized.
    \<^item> RubyValues: Ruby values, errors, conversions and JSON (the library Oj is a parameter).
    \<^item> Events: the types and attributes of events, \<open>History::Event\<close>.
    \<^item> History: windows; the loop over them, and its termination.
    \<^item> Decisions: decisions, their state machine, \<open>EventTarget\<close>.
    \<^item> Serializer: decisions as Thrift structs.
    \<^item> Dispatcher: registered handlers, \<open>dispatch\<close>.
    \<^item> StateManager: the state manager, every arm of \<open>apply_event\<close>.
    \<^item> Replay: its laws; the contracts \<open>workflow_code\<close> (what handlers may do),
      \<open>manager_invariant\<close> (what every operation of the manager keeps), \<open>event_step\<close> and
      \<open>code_invariant\<close> (what every event keeps), and the relation \<open>replayed\<close> of the engines
      a replay goes through.
    \<^item> Context: workflow code as programs, fibers, futures, the handlers of the context;
      \<open>fiber_invariant\<close> is the contract of an invariant over them, and gives \<open>workflow_code\<close>
      and the two invariants of futures and handlers.
    \<^item> Executor: the main fiber and the replay loop.
    \<^item> EngineProperties: identifiers, matching, windows, the executor's answer.
    \<^item> WorkflowProperties: futures, waiting, cancellation, markers, the main fiber, and the
      histories that cannot be replayed.

  \<^bold>\<open>Between the two.\<close>
    \<^item> ThriftTypes: the field tables of the client's generated structs for decisions and
      requests, and that what the serializers build is well typed by them.
    \<^item> Connection: the requests that the methods of \<open>Connection::Thrift\<close> build, and how they are
      sent with the generated client; the exchange over HTTP is a parameter.
    \<^item> Client: the operations of \<open>Cadence::Client\<close> over the answers of the service.
    \<^item> Crossing: what such a struct arrives as at the proxy (the relation \<open>arrives\<close>, the
      documented protocol of the two Thrift libraries), and that the proxy's code reads the
      decision the engine meant.
    \<^item> Calls: every method of the connection is answered by a procedure of the proxy, and the
      start of a workflow is read there as the caller's options settle it.

  \<^bold>\<open>Around the engine.\<close>
    \<^item> Processing: decision and activity tasks, from the fetching of a history (a loop that may
      not end, so a partial function) to the one answer the service gets.
    \<^item> ThreadPool: the pool the pollers run tasks on, as a step relation of its threads.
    \<^item> Pollers: the loops that poll for tasks, with the pool; they implement an abstract
      bounded service (\<open>service_step\<close>).
    \<^item> Worker: what a worker serves, and the pollers it starts and stops.
    \<^item> Saga: the calls of the context that wait, and sagas with their compensations, played
      over any sequence of engines in which the fiber is resumed.
    \<^item> Middleware: middleware chains, equal to nested calls for middlewares that call their
      block once, and the propagators of headers.
    \<^item> Options: retry policies, the options of calls, the event a workflow is reset to.
    \<^item> Base64: both alphabets, for the tokens and the proxy's log; what is encoded decodes.
    \<^item> Tokens: tokens of asynchronous activities and UUIDs of version 5.

  \<^bold>\<open>Conventions.\<close> A Go pointer or slice is an option, a Ruby exception a value
  of \<open>rb_error\<close>. Ruby values are of type \<open>rval\<close>; event and decision identifiers are
  unbounded integers, as in Ruby. Loops terminate by a measure, but for the fetching of a history,
  which may not end (a partial function); no fuel is used. Workflow
  code is a tree of calls whose every path is finite, of any length: code that goes on for
  ever is not a value of its type.

  \<^bold>\<open>Not modelled.\<close> Of the generated Go code, the mocks for tests and the providers for
  dependency injection, which the proxy does not use; of the Ruby code, the exchange of a
  message over HTTP, metrics, logging, the processes of a crew and the traps of signals, and
  the stand-ins of the engine that tests of workflows use.
\<close>

end
